(* ===== verification/Prelude.thy ===== *)
theory Prelude
  imports Main
begin

text \<open>
  Shared vocabulary of the development: results that are either an error or a value, the
  library of facts about them, lists searched by key, and the theorem collections the
  component theories fill.

  A fallible operation of the source returns \<open>'e + 'a\<close>: \<open>Inl\<close> carries the exception or the
  error value, \<open>Inr\<close> the result. \<open>res_bind\<close> is "run, and stop at the first error", which is
  what a Python exception and a Go early return both do; \<open>fold_res\<close> is a loop whose body may
  fail.
\<close>

named_theorems decode_simps \<open>executable definitions that a closed evaluation unfolds\<close>
named_theorems frame_simps \<open>components of a state that an operation leaves alone\<close>
named_theorems inv_intros \<open>preservation of a component's invariant by one operation\<close>

type_synonym ('e, 'a) res = "'e + 'a"

section \<open>Results\<close>

definition res_bind :: "('e, 'a) res \<Rightarrow> ('a \<Rightarrow> ('e, 'b) res) \<Rightarrow> ('e, 'b) res" where
  "res_bind r f = (case r of Inl e \<Rightarrow> Inl e | Inr a \<Rightarrow> f a)"

lemma res_bind_simps [simp]:
  "res_bind (Inl e) f = Inl e"
  "res_bind (Inr a) f = f a"
  by (simp_all add: res_bind_def)

lemma res_bind_Inr_iff: "res_bind r f = Inr b \<longleftrightarrow> (\<exists>a. r = Inr a \<and> f a = Inr b)"
  by (cases r) simp_all

lemma res_bind_Inl_iff:
  "res_bind r f = Inl e \<longleftrightarrow> r = Inl e \<or> (\<exists>a. r = Inr a \<and> f a = Inl e)"
  by (cases r) simp_all

fun fold_res :: "('x \<Rightarrow> 's \<Rightarrow> ('e, 's) res) \<Rightarrow> 'x list \<Rightarrow> 's \<Rightarrow> ('e, 's) res" where
  "fold_res f [] s = Inr s"
| "fold_res f (x # xs) s = (case f x s of Inl e \<Rightarrow> Inl e | Inr s' \<Rightarrow> fold_res f xs s')"

lemma fold_res_append:
  "fold_res f (xs @ ys) s = res_bind (fold_res f xs s) (fold_res f ys)"
  by (induction xs arbitrary: s) (auto split: sum.splits)

lemma fold_res_invariant:
  assumes "fold_res f xs s = Inr t" and "P s"
    and "\<And>x s s'. x \<in> set xs \<Longrightarrow> P s \<Longrightarrow> f x s = Inr s' \<Longrightarrow> P s'"
  shows "P t"
  using assms
proof (induction xs arbitrary: s)
  case Nil
  then show ?case by simp
next
  case (Cons x xs)
  from Cons.prems(1) obtain s' where s': "f x s = Inr s'" and rest: "fold_res f xs s' = Inr t"
    by (auto split: sum.splits)
  from Cons.prems(2,3) s' have "P s'" by (metis list.set_intros(1))
  with rest show ?case
    using Cons.IH Cons.prems(3) by (metis list.set_intros(2))
qed

fun map_res :: "('x \<Rightarrow> ('e, 'y) res) \<Rightarrow> 'x list \<Rightarrow> ('e, 'y list) res" where
  "map_res f [] = Inr []"
| "map_res f (x # xs) =
     (case f x of Inl e \<Rightarrow> Inl e
      | Inr y \<Rightarrow> (case map_res f xs of Inl e \<Rightarrow> Inl e | Inr ys \<Rightarrow> Inr (y # ys)))"

lemma map_res_Inr_length: "map_res f xs = Inr ys \<Longrightarrow> length ys = length xs"
  by (induction xs arbitrary: ys) (auto split: sum.splits)

lemma map_res_Inr_nth: "map_res f xs = Inr ys \<Longrightarrow> i < length xs \<Longrightarrow> f (xs ! i) = Inr (ys ! i)"
  by (induction xs arbitrary: ys i) (auto split: sum.splits simp: nth_Cons split: nat.splits)

lemma map_res_Inr_iff:
  "map_res f xs = Inr ys \<longleftrightarrow> length ys = length xs \<and> (\<forall>i < length xs. f (xs ! i) = Inr (ys ! i))"
proof (induction xs arbitrary: ys)
  case Nil
  then show ?case by auto
next
  case (Cons x xs)
  show ?case
  proof
    assume "map_res f (x # xs) = Inr ys"
    then show "length ys = length (x # xs) \<and> (\<forall>i < length (x # xs). f ((x # xs) ! i) = Inr (ys ! i))"
      using map_res_Inr_length map_res_Inr_nth by blast
  next
    assume a: "length ys = length (x # xs) \<and> (\<forall>i < length (x # xs). f ((x # xs) ! i) = Inr (ys ! i))"
    then obtain z zs where ys: "ys = z # zs" by (cases ys) auto
    from a ys have "f x = Inr z" by fastforce
    moreover from a ys have "map_res f xs = Inr zs"
      using Cons.IH [of zs] by fastforce
    ultimately show "map_res f (x # xs) = Inr ys" using ys by simp
  qed
qed

lemma map_res_guarded:
  assumes "\<And>x. x \<in> set xs \<Longrightarrow> f x = (if ok x then Inr (g x) else Inl (err x))"
  shows "map_res f xs = Inr ys \<longleftrightarrow> (\<forall>x \<in> set xs. ok x) \<and> ys = map g xs"
  using assms
proof (induction xs arbitrary: ys)
  case Nil
  then show ?case by auto
next
  case (Cons x xs)
  have fx: "f x = (if ok x then Inr (g x) else Inl (err x))" using Cons.prems by simp
  have IH: "map_res f xs = Inr zs \<longleftrightarrow> (\<forall>x \<in> set xs. ok x) \<and> zs = map g xs" for zs
    using Cons by simp
  show ?case
  proof (cases "map_res f xs")
    case (Inl e)
    then have "\<not> (\<forall>x \<in> set xs. ok x)" using IH [of "map g xs"] by simp
    with Inl show ?thesis by (auto simp: fx)
  next
    case (Inr zs)
    with IH [of zs] show ?thesis by (auto simp: fx)
  qed
qed

lemma map_of_keys: "map_of (map (\<lambda>k. (k, f k)) ks) k = (if k \<in> set ks then Some (f k) else None)"
  by (induction ks) auto

lemma map_of_eq_distinct:
  assumes "set xs = set ys" and "distinct (map fst xs)" and "distinct (map fst ys)"
  shows "map_of xs = map_of ys"
proof
  fix k
  show "map_of xs k = map_of ys k"
  proof (cases "map_of xs k")
    case None
    then have "k \<notin> fst ` set ys" using assms(1) by (simp add: map_of_eq_None_iff)
    then have "map_of ys k = None" by (simp add: map_of_eq_None_iff)
    with None show ?thesis by simp
  next
    case (Some v)
    then have "(k, v) \<in> set ys" using assms(1) map_of_SomeD by fastforce
    with Some assms(3) show ?thesis by simp
  qed
qed

section \<open>Lists\<close>

lemma takeWhile_append_stop:
  "(\<forall>x \<in> set xs. P x) \<Longrightarrow> \<not> P y \<Longrightarrow> takeWhile P (xs @ y # ys) = xs"
  by (induction xs) auto

lemma dropWhile_append_stop:
  "(\<forall>x \<in> set xs. P x) \<Longrightarrow> \<not> P y \<Longrightarrow> dropWhile P (xs @ y # ys) = y # ys"
  by (induction xs) auto

lemma enumerate_all: "(\<forall>x \<in> set (List.enumerate n xs). P (snd x)) \<longleftrightarrow> (\<forall>x \<in> set xs. P x)"
  by (induction xs arbitrary: n) auto

lemma length_dropWhile_less: "P x \<Longrightarrow> length (dropWhile P (x # xs)) < length (x # xs)"
  by (simp add: length_dropWhile_le le_imp_less_Suc)

section \<open>Decimal numerals\<close>

text \<open>\<open>str(n)\<close> of a non-negative integer, as character codes, most significant digit first.\<close>

fun digits10 :: "nat \<Rightarrow> nat list" where
  "digits10 n = (if n < 10 then [n] else digits10 (n div 10) @ [n mod 10])"

declare digits10.simps [simp del]

definition str_of_nat :: "nat \<Rightarrow> nat list" where
  "str_of_nat n = map (\<lambda>d. 48 + d) (digits10 n)"

definition nat_of_digits :: "nat list \<Rightarrow> nat" where
  "nat_of_digits ds = foldl (\<lambda>a d. 10 * a + d) 0 ds"

lemma digits10_range: "\<forall>d \<in> set (digits10 n). d < 10"
proof (induction n rule: digits10.induct)
  case (1 n)
  then show ?case by (subst digits10.simps) auto
qed

lemma digits10_nonempty: "digits10 n \<noteq> []"
  by (subst digits10.simps) simp

lemma nat_of_digits_digits10: "nat_of_digits (digits10 n) = n"
proof (induction n rule: digits10.induct)
  case (1 n)
  show ?case
  proof (cases "n < 10")
    case True
    then show ?thesis by (subst digits10.simps) (simp add: nat_of_digits_def)
  next
    case False
    with "1.IH" have "nat_of_digits (digits10 (n div 10)) = n div 10" by simp
    with False show ?thesis by (subst digits10.simps) (simp add: nat_of_digits_def)
  qed
qed

lemma str_of_nat_inject: "str_of_nat m = str_of_nat n \<longleftrightarrow> m = n"
proof
  assume "str_of_nat m = str_of_nat n"
  then have "digits10 m = digits10 n"
    by (simp add: str_of_nat_def inj_map_eq_map inj_def)
  then show "m = n" by (metis nat_of_digits_digits10)
qed simp

lemma str_of_nat_digits: "\<forall>c \<in> set (str_of_nat n). 48 \<le> c \<and> c \<le> 57"
  using digits10_range [of n] by (fastforce simp: str_of_nat_def)

lemma str_of_nat_nonempty: "str_of_nat n \<noteq> []"
  by (simp add: str_of_nat_def digits10_nonempty)

end
