(* ===== verification/Systems.thy ===== *)
theory Systems
  imports Prelude
begin

text \<open>
  Concurrent components of the Go labs are modelled as systems: a state, the states they start
  in, and one step per operation that runs under the component's lock. An execution is any
  interleaving of steps. The locale \<open>guarded_system\<close> is what an invariant proof hands to the
  properties of such a component.
\<close>

inductive reachable :: "('s \<Rightarrow> bool) \<Rightarrow> ('s \<Rightarrow> 's \<Rightarrow> bool) \<Rightarrow> 's \<Rightarrow> bool"
  for init :: "'s \<Rightarrow> bool" and step :: "'s \<Rightarrow> 's \<Rightarrow> bool" where
  start: "init s \<Longrightarrow> reachable init step s"
| move: "reachable init step s \<Longrightarrow> step s t \<Longrightarrow> reachable init step t"

inductive run :: "('s \<Rightarrow> 's \<Rightarrow> bool) \<Rightarrow> 's \<Rightarrow> 's \<Rightarrow> bool" for step :: "'s \<Rightarrow> 's \<Rightarrow> bool" where
  run_refl: "run step s s"
| run_step: "run step s t \<Longrightarrow> step t u \<Longrightarrow> run step s u"

lemma reachable_run: "reachable init step s \<Longrightarrow> run step s t \<Longrightarrow> reachable init step t"
  by (rotate_tac, induction rule: run.induct) (auto intro: reachable.move)

lemma run_invariant:
  assumes "run step s t" and "P s" and "\<And>a b. P a \<Longrightarrow> step a b \<Longrightarrow> P b"
  shows "P t"
  using assms by (induction rule: run.induct) auto

lemma run_monotone:
  assumes "run step s t" and "\<And>a b. step a b \<Longrightarrow> f a \<le> f b"
  shows "f s \<le> (f t :: 'a :: preorder)"
  using assms by (induction rule: run.induct) (auto intro: order_trans)

text \<open>Steps that use up a measure come to rest.\<close>

lemma run_to_rest:
  fixes m :: "'s \<Rightarrow> nat"
  assumes "\<And>a b. step a b \<Longrightarrow> m b < m a"
  shows "\<exists>t. run step s t \<and> (\<forall>u. \<not> step t u)"
proof (induction "m s" arbitrary: s rule: less_induct)
  case less
  show ?case
  proof (cases "\<exists>t. step s t")
    case True
    then obtain s1 where s1: "step s s1" by blast
    from less [OF assms [OF s1]] obtain t where "run step s1 t" "\<forall>u. \<not> step t u" by blast
    moreover from this(1) s1 have "run step s t"
      by (induction rule: run.induct) (auto intro: run.intros)
    ultimately show ?thesis by blast
  qed (blast intro: run_refl)
qed

locale guarded_system =
  fixes init :: "'s \<Rightarrow> bool" and step :: "'s \<Rightarrow> 's \<Rightarrow> bool" and inv :: "'s \<Rightarrow> bool"
  assumes init_inv: "init s \<Longrightarrow> inv s"
    and step_inv: "inv s \<Longrightarrow> step s t \<Longrightarrow> inv t"
begin

lemma reachable_inv: "reachable init step s \<Longrightarrow> inv s"
  by (induction rule: reachable.induct) (auto intro: init_inv step_inv)

lemma run_inv: "inv s \<Longrightarrow> run step s t \<Longrightarrow> inv t"
  by (rule run_invariant [of step s t inv]) (auto intro: step_inv)

text \<open>A state property that some operations preserve under the invariant holds along a run of them.\<close>

lemma run_stable:
  assumes "run step s t" and "inv s" and "P s" and "\<And>a b. inv a \<Longrightarrow> P a \<Longrightarrow> step a b \<Longrightarrow> P b"
  shows "P t"
proof -
  have "inv t \<and> P t"
    by (rule run_invariant [OF assms(1)]) (use assms(2-4) step_inv in blast)+
  then show ?thesis by blast
qed

end

text \<open>
  A system that works something off: its steps use up a measure, and where no step is left its
  work is settled. \<open>resting_system\<close> is what the results on termination use.
\<close>

locale resting_system =
  fixes step :: "'s \<Rightarrow> 's \<Rightarrow> bool" and inv :: "'s \<Rightarrow> bool" and work :: "'s \<Rightarrow> nat" and settled :: "'s \<Rightarrow> bool"
  assumes keeps: "inv s \<Longrightarrow> step s t \<Longrightarrow> inv t"
    and uses_up: "step s t \<Longrightarrow> work t < work s"
    and settles: "inv s \<Longrightarrow> (\<And>t. \<not> step s t) \<Longrightarrow> settled s"

sublocale resting_system \<subseteq> guarded_system inv step inv
  by unfold_locales (auto intro: keeps)

context resting_system
begin

lemma rest_settled: "inv s \<Longrightarrow> run step s t \<Longrightarrow> (\<And>u. \<not> step t u) \<Longrightarrow> settled t"
  by (rule settles) (auto intro: run_inv)

lemma comes_to_rest:
  assumes "inv s"
  obtains t where "run step s t" and "\<And>u. \<not> step t u" and "inv t" and "settled t"
proof -
  obtain t where t: "run step s t" "\<forall>u. \<not> step t u"
    using run_to_rest [of step work s] uses_up by blast
  with that rest_settled [OF assms t(1)] run_inv [OF assms t(1)] show thesis by blast
qed

lemma not_stuck: "inv s \<Longrightarrow> run step s t \<Longrightarrow> settled t \<or> (\<exists>u. step t u)"
  using rest_settled by blast

end

end
