(* ===== verification/CircuitBreaker.thy ===== *)
theory CircuitBreaker
  imports Systems "HOL-Library.Word"
begin

text \<open>
  The circuit breaker of lab 14,
  \<^verbatim>\<open>labs/14-circuit-breaker/internal/circuitbreaker/circuit_breaker.go\<close>. Each critical section
  under the mutex is a function: the entry of \<open>Execute\<close> (\<open>enter_call\<close>), its deferred exit
  (\<open>exit_call\<close>) and \<open>State\<close>. Calls of any number of goroutines interleave between them.
  Times are nanoseconds of the monotonic clock; \<open>generation\<close> is the source's \<open>uint64\<close>.
\<close>

section \<open>The breaker\<close>

datatype state = Closed | Open | HalfOpen

record config =
  FailureThreshold :: int
  OpenTimeout :: int
  HalfOpenMaxCalls :: int

record breaker =
  cfg :: config
  state :: state
  failures :: int
  openedAt :: int
  halfOpenIn :: int
  generation :: "64 word"

definition NewBreaker :: "config \<Rightarrow> breaker" where
  "NewBreaker c =
     \<lparr>cfg = \<lparr>FailureThreshold = if FailureThreshold c \<le> 0 then 3 else FailureThreshold c,
             OpenTimeout = if OpenTimeout c \<le> 0 then 300000000 else OpenTimeout c,
             HalfOpenMaxCalls = if HalfOpenMaxCalls c \<le> 0 then 1 else HalfOpenMaxCalls c\<rparr>,
      state = Closed, failures = 0, openedAt = 0, halfOpenIn = 0, generation = 0\<rparr>"

definition advanceLocked :: "int \<Rightarrow> breaker \<Rightarrow> breaker" where
  "advanceLocked now b =
     (if state b = Open \<and> now - openedAt b \<ge> OpenTimeout (cfg b)
      then b\<lparr>state := HalfOpen, halfOpenIn := 0, generation := generation b + 1\<rparr> else b)"

definition onSuccessLocked :: "64 word \<Rightarrow> breaker \<Rightarrow> breaker" where
  "onSuccessLocked gen b =
     (if generation b \<noteq> gen then b
      else if state b = HalfOpen
      then b\<lparr>state := Closed, failures := 0, halfOpenIn := 0, generation := generation b + 1\<rparr>
      else b\<lparr>failures := 0\<rparr>)"

definition onFailureLocked :: "64 word \<Rightarrow> int \<Rightarrow> breaker \<Rightarrow> breaker" where
  "onFailureLocked gen now b =
     (if generation b \<noteq> gen then b
      else if state b = HalfOpen
      then b\<lparr>state := Open, openedAt := now, halfOpenIn := 0, generation := generation b + 1\<rparr>
      else if failures b + 1 \<ge> FailureThreshold (cfg b)
      then b\<lparr>failures := failures b + 1, state := Open, openedAt := now,
             generation := generation b + 1\<rparr>
      else b\<lparr>failures := failures b + 1\<rparr>)"

text \<open>
  \<open>Execute\<close> up to the call of \<open>fn\<close>: \<open>None\<close> is the return of \<open>ErrCircuitOpen\<close>, \<open>Some gen\<close> an
  admitted call with the generation it keeps.
\<close>

definition enter_call :: "int \<Rightarrow> breaker \<Rightarrow> breaker \<times> 64 word option" where
  "enter_call now b =
     (let b1 = advanceLocked now b; gen = generation b1 in
      case state b1 of
        Open \<Rightarrow> (b1, None)
      | HalfOpen \<Rightarrow>
          (if halfOpenIn b1 \<ge> HalfOpenMaxCalls (cfg b1) then (b1, None)
           else (b1\<lparr>halfOpenIn := halfOpenIn b1 + 1\<rparr>, Some gen))
      | Closed \<Rightarrow> (b1, Some gen))"

text \<open>What \<open>fn\<close> did, and the deferred function.\<close>

datatype outcome = Succeeded | Failed | Panicked

definition exit_call :: "64 word \<Rightarrow> outcome \<Rightarrow> int \<Rightarrow> breaker \<Rightarrow> breaker" where
  "exit_call gen r now b =
     (case r of
        Panicked \<Rightarrow> onFailureLocked gen now b
      | Succeeded \<Rightarrow> onSuccessLocked gen b
      | Failed \<Rightarrow> onFailureLocked gen now b)"

definition State :: "int \<Rightarrow> breaker \<Rightarrow> breaker \<times> state" where
  "State now b = (let b1 = advanceLocked now b in (b1, state b1))"

text \<open>\<open>Execute\<close> by one caller alone: entered at one time, left at another.\<close>

definition Execute :: "int \<Rightarrow> int \<Rightarrow> outcome \<Rightarrow> breaker \<Rightarrow> breaker \<times> outcome option" where
  "Execute now later r b =
     (case enter_call now b of
        (b1, None) \<Rightarrow> (b1, None)
      | (b1, Some gen) \<Rightarrow> (exit_call gen r later b1, Some r))"

section \<open>Concurrent callers\<close>

text \<open>
  A world is the breaker, the clock, the calls in flight with their generations, and \<open>era\<close>, the
  number of generations so far, which no code reads: it tells a generation from the one that
  has the same \<open>uint64\<close> after $2^{64}$ changes. A call in flight remembers its era.
\<close>

record world =
  br :: breaker
  clock :: int
  era :: nat
  inflight :: "(64 word \<times> nat) list"

definition new_era :: "breaker \<Rightarrow> breaker \<Rightarrow> nat \<Rightarrow> nat" where
  "new_era b b' e = (if generation b' = generation b then e else Suc e)"

definition breaker_init :: "world \<Rightarrow> bool" where
  "breaker_init w \<longleftrightarrow> (\<exists>c. br w = NewBreaker c) \<and> era w = 0 \<and> inflight w = []"

inductive breaker_step :: "world \<Rightarrow> world \<Rightarrow> bool" where
  tick: "clock w \<le> now \<Longrightarrow> breaker_step w (w\<lparr>clock := now\<rparr>)"
| admitted: "enter_call (clock w) (br w) = (b, Some gen) \<Longrightarrow>
    e = new_era (br w) b (era w) \<Longrightarrow>
    breaker_step w (w\<lparr>br := b, era := e, inflight := (gen, e) # inflight w\<rparr>)"
| rejected: "enter_call (clock w) (br w) = (b, None) \<Longrightarrow>
    breaker_step w (w\<lparr>br := b, era := new_era (br w) b (era w)\<rparr>)"
| left: "inflight w = xs @ (gen, e) # ys \<Longrightarrow> exit_call gen r (clock w) (br w) = b \<Longrightarrow>
    breaker_step w (w\<lparr>br := b, era := new_era (br w) b (era w), inflight := xs @ ys\<rparr>)"
| queried: "State (clock w) (br w) = (b, s) \<Longrightarrow>
    breaker_step w (w\<lparr>br := b, era := new_era (br w) b (era w)\<rparr>)"

inductive_cases breaker_step_elim: "breaker_step w w'"

section \<open>The invariant\<close>

text \<open>
  In the current generation: a closed breaker has had fewer failures in a row than the
  threshold; an open one has no call in flight; a half-open one counts exactly its probes in
  flight, at most as many as configured.
\<close>

definition current_calls :: "nat \<Rightarrow> (64 word \<times> nat) list \<Rightarrow> nat" where
  "current_calls e calls = length (filter (\<lambda>x. snd x = e) calls)"

definition calls_ok :: "nat \<Rightarrow> (64 word \<times> nat) list \<Rightarrow> bool" where
  "calls_ok e calls \<longleftrightarrow> list_all (\<lambda>x. fst x = of_nat (snd x) \<and> snd x \<le> e) calls"

definition breaker_good :: "breaker \<Rightarrow> nat \<Rightarrow> (64 word \<times> nat) list \<Rightarrow> bool" where
  "breaker_good b e calls \<longleftrightarrow>
     generation b = of_nat e \<and> calls_ok e calls \<and>
     0 < FailureThreshold (cfg b) \<and> 0 < OpenTimeout (cfg b) \<and> 0 < HalfOpenMaxCalls (cfg b) \<and>
     0 \<le> failures b \<and> failures b \<le> FailureThreshold (cfg b) \<and>
     (case state b of
        Closed \<Rightarrow> failures b < FailureThreshold (cfg b)
      | Open \<Rightarrow> current_calls e calls = 0
      | HalfOpen \<Rightarrow> halfOpenIn b = int (current_calls e calls) \<and>
                    halfOpenIn b \<le> HalfOpenMaxCalls (cfg b))"

definition breaker_inv :: "world \<Rightarrow> bool" where
  "breaker_inv w \<longleftrightarrow> (era w < 2 ^ 64 \<longrightarrow> breaker_good (br w) (era w) (inflight w))"

lemma generation_step: "g + 1 \<noteq> (g :: 64 word)"
  by simp

lemma new_era_simps:
  "generation b' = generation b \<Longrightarrow> new_era b b' e = e"
  "generation b' = generation b + 1 \<Longrightarrow> new_era b b' e = Suc e"
  by (simp_all add: new_era_def)

lemma no_calls_of_next_era: "calls_ok e calls \<Longrightarrow> current_calls (Suc e) calls = 0"
  by (fastforce simp: current_calls_def calls_ok_def list_all_iff filter_empty_conv)

lemma calls_ok_simps:
  "calls_ok e []"
  "calls_ok e (x # calls) \<longleftrightarrow> fst x = of_nat (snd x) \<and> snd x \<le> e \<and> calls_ok e calls"
  "calls_ok e (xs @ ys) \<longleftrightarrow> calls_ok e xs \<and> calls_ok e ys"
  by (simp_all add: calls_ok_def)

lemma calls_ok_Suc: "calls_ok e calls \<Longrightarrow> calls_ok (Suc e) calls"
  by (auto simp: calls_ok_def list_all_iff)

lemma current_calls_Cons: "current_calls e (x # calls) = (if snd x = e then 1 else 0) + current_calls e calls"
  by (simp add: current_calls_def)

lemma current_calls_append:
  "current_calls e (xs @ x # ys) = (if snd x = e then 1 else 0) + current_calls e (xs @ ys)"
  by (simp add: current_calls_def)

lemma same_generation:
  assumes "e \<le> f" and "f < 2 ^ 64"
  shows "(of_nat e :: 64 word) = of_nat f \<longleftrightarrow> e = f"
  using assms by (simp add: word_of_nat_eq_iff take_bit_nat_eq_self)

lemma good_NewBreaker: "breaker_good (NewBreaker c) 0 []"
  by (simp add: breaker_good_def NewBreaker_def calls_ok_def)

lemma good_advance:
  assumes "breaker_good b e calls" and "b' = advanceLocked now b"
  shows "breaker_good b' (new_era b b' e) calls"
  using assms no_calls_of_next_era [of e calls]
  by (auto simp: breaker_good_def advanceLocked_def new_era_def calls_ok_Suc)

lemma enter_call_cases:
  "enter_call now b = (b', r) \<longleftrightarrow>
     (let b1 = advanceLocked now b in
      (state b1 = Open \<and> b' = b1 \<and> r = None) \<or>
      (state b1 = HalfOpen \<and> halfOpenIn b1 \<ge> HalfOpenMaxCalls (cfg b1) \<and> b' = b1 \<and> r = None) \<or>
      (state b1 = HalfOpen \<and> halfOpenIn b1 < HalfOpenMaxCalls (cfg b1) \<and>
        b' = b1\<lparr>halfOpenIn := halfOpenIn b1 + 1\<rparr> \<and> r = Some (generation b1)) \<or>
      (state b1 = Closed \<and> b' = b1 \<and> r = Some (generation b1)))"
  by (auto simp: enter_call_def Let_def split: state.splits)

lemma good_enter:
  assumes "breaker_good b e calls" and "enter_call now b = (b', r)"
  shows "breaker_good b' (new_era b b' e)
    (case r of None \<Rightarrow> calls | Some gen \<Rightarrow> (gen, new_era b b' e) # calls)"
proof -
  let ?b1 = "advanceLocked now b"
  from good_advance [OF assms(1) refl] have g: "breaker_good ?b1 (new_era b ?b1 e) calls" .
  from assms(2) have "generation b' = generation ?b1" by (auto simp: enter_call_cases Let_def)
  then have "new_era b b' e = new_era b ?b1 e" by (simp add: new_era_def)
  with g assms(2) show ?thesis
    by (auto simp: enter_call_cases Let_def breaker_good_def current_calls_Cons calls_ok_simps)
qed

lemma good_exit:
  assumes "breaker_good b e (xs @ (gen, f) # ys)" and "e < 2 ^ 64" and "b' = exit_call gen r now b"
  shows "breaker_good b' (new_era b b' e) (xs @ ys)"
proof -
  from assms(1) have gen: "gen = of_nat f" "f \<le> e" "generation b = of_nat e"
    and old: "calls_ok e (xs @ ys)" by (auto simp: breaker_good_def calls_ok_simps)
  with same_generation [OF gen(2) assms(2)] have same: "generation b = gen \<longleftrightarrow> f = e" by auto
  show ?thesis
  proof (cases "f = e")
    case False
    with same assms(3) have "b' = b"
      by (auto simp: exit_call_def onSuccessLocked_def onFailureLocked_def split: outcome.splits)
    with False assms(1) show ?thesis
      by (auto simp: breaker_good_def new_era_def current_calls_append calls_ok_simps split: state.splits)
  next
    case True
    with assms(1) have ne: "state b \<noteq> Open" by (auto simp: breaker_good_def current_calls_append)
    from True same have g: "generation b = gen" by simp
    show ?thesis
      using assms(1,3) ne g no_calls_of_next_era [OF old] calls_ok_Suc [OF old] True
      by (cases r; cases "state b")
        (auto simp: breaker_good_def exit_call_def onSuccessLocked_def onFailureLocked_def new_era_def
          current_calls_append calls_ok_simps)
  qed
qed

lemma new_era_le: "e \<le> new_era b b' e"
  by (simp add: new_era_def)

lemma step_era: "breaker_step w w' \<Longrightarrow> era w \<le> era w'"
  by (erule breaker_step_elim) (simp_all add: new_era_le)

lemma breaker_step_inv: "breaker_inv w \<Longrightarrow> breaker_step w w' \<Longrightarrow> breaker_inv w'"
proof -
  assume i: "breaker_inv w" and s: "breaker_step w w'"
  show "breaker_inv w'"
    unfolding breaker_inv_def
  proof
    assume e': "era w' < 2 ^ 64"
    with step_era [OF s] have e: "era w < 2 ^ 64" by linarith
    with i have g: "breaker_good (br w) (era w) (inflight w)" by (simp add: breaker_inv_def)
    from s show "breaker_good (br w') (era w') (inflight w')"
    proof cases
      case (left xs gen f ys r b)
      with g good_exit [of "br w" "era w" xs gen f ys b r "clock w"] e show ?thesis by simp
    next
      case (admitted b gen e)
      with good_enter [OF g admitted(2)] show ?thesis by simp
    next
      case (rejected b)
      with good_enter [OF g rejected(2)] show ?thesis by simp
    next
      case (queried b s)
      with good_advance [OF g, of b "clock w"] show ?thesis by (simp add: State_def Let_def)
    qed (use g in simp)
  qed
qed

lemma breaker_init_inv: "breaker_init w \<Longrightarrow> breaker_inv w"
  by (auto simp: breaker_init_def breaker_inv_def good_NewBreaker)

interpretation breaker: guarded_system breaker_init breaker_step breaker_inv
  by unfold_locales (rule breaker_init_inv, assumption, rule breaker_step_inv)

text \<open>The configuration never changes.\<close>

lemma exit_call_cfg: "cfg (exit_call gen r now b) = cfg b"
  by (simp add: exit_call_def onSuccessLocked_def onFailureLocked_def split: outcome.splits)

section \<open>The open period\<close>

text \<open>
  While the breaker is open and its timeout has not passed, nothing any caller does changes it.
\<close>

lemma open_frozen_enter:
  assumes "state b = Open" and "now < openedAt b + OpenTimeout (cfg b)"
  shows "advanceLocked now b = b" and "enter_call now b = (b, None)"
  using assms by (simp_all add: advanceLocked_def enter_call_def Let_def)

lemma step_clock: "breaker_step w w' \<Longrightarrow> clock w \<le> clock w'"
  by (erule breaker_step_elim) simp_all

lemma open_frozen_step:
  assumes "breaker_inv w" and "era w < 2 ^ 64" and "state (br w) = Open"
    and "clock w < openedAt (br w) + OpenTimeout (cfg (br w))" and "breaker_step w w'"
  shows "br w' = br w \<and> era w' = era w"
  using assms(5)
proof cases
  case (left xs gen f ys r b)
  from assms(1,2) have g: "breaker_good (br w) (era w) (inflight w)" by (simp add: breaker_inv_def)
  with left(2) assms(3) have "gen = of_nat f" "f \<le> era w" "f \<noteq> era w" "generation (br w) = of_nat (era w)"
    by (auto simp: breaker_good_def current_calls_append calls_ok_simps)
  with same_generation [of f "era w"] assms(2) have "generation (br w) \<noteq> gen" by auto
  then have "exit_call gen r (clock w) (br w) = br w"
    by (simp add: exit_call_def onSuccessLocked_def onFailureLocked_def split: outcome.splits)
  with left show ?thesis by (simp add: new_era_def)
qed (use open_frozen_enter [OF assms(3,4)] in \<open>auto simp: new_era_def State_def Let_def\<close>)

lemma open_frozen_run:
  assumes "run breaker_step w w'" and "breaker_inv w" and "era w < 2 ^ 64" and "state (br w) = Open"
    and "clock w' < openedAt (br w) + OpenTimeout (cfg (br w))"
  shows "br w' = br w \<and> era w' = era w"
  using assms
proof (induction rule: run.induct)
  case (run_step w t u)
  from step_clock [OF run_step.hyps(2)] run_step.prems(4)
  have ct: "clock t < openedAt (br w) + OpenTimeout (cfg (br w))" by linarith
  with run_step.IH run_step.prems have t: "br t = br w" "era t = era w" by simp_all
  from run_step.hyps(1) run_step.prems(1) have "breaker_inv t" by (rule breaker.run_inv [rotated])
  with open_frozen_step [of t u] run_step t ct show ?case by simp
qed simp

section \<open>One caller after the other\<close>

text \<open>
  A lone caller in the closed state: the breaker opens with the outcome that completes a streak
  of failures as long as the threshold.
\<close>

definition failed :: "outcome \<Rightarrow> bool" where
  "failed r \<longleftrightarrow> r \<noteq> Succeeded"

definition streak :: "outcome list \<Rightarrow> nat" where
  "streak rs = length (takeWhile failed (rev rs))"

fun call_all :: "(int \<times> int \<times> outcome) list \<Rightarrow> breaker \<Rightarrow> breaker" where
  "call_all [] b = b"
| "call_all ((now, later, r) # cs) b = call_all cs (fst (Execute now later r b))"

lemma call_all_append: "call_all (cs @ ds) b = call_all ds (call_all cs b)"
  by (induction cs b rule: call_all.induct) auto

definition results :: "(int \<times> int \<times> outcome) list \<Rightarrow> outcome list" where
  "results cs = map (\<lambda>(now, later, r). r) cs"

lemma results_simps: "results [] = []" "results (cs @ [(now, later, r)]) = results cs @ [r]"
  by (simp_all add: results_def)

lemma streak_snoc: "streak (rs @ [r]) = (if failed r then Suc (streak rs) else 0)"
  by (simp add: streak_def)

lemma Execute_closed:
  assumes "state b = Closed"
  shows "fst (Execute now later r b) =
    (if \<not> failed r then b\<lparr>failures := 0\<rparr>
     else if failures b + 1 \<ge> FailureThreshold (cfg b)
     then b\<lparr>failures := failures b + 1, state := Open, openedAt := later, generation := generation b + 1\<rparr>
     else b\<lparr>failures := failures b + 1\<rparr>)"
  using assms
  by (cases r) (simp_all add: Execute_def enter_call_def advanceLocked_def Let_def exit_call_def
      onSuccessLocked_def onFailureLocked_def failed_def)

lemma closed_run:
  assumes "\<And>cs' ds. cs = cs' @ ds \<Longrightarrow>
      int (streak (results cs')) < FailureThreshold (cfg b)"
    and "state b = Closed" and "failures b = 0"
  shows "state (call_all cs b) = Closed \<and> cfg (call_all cs b) = cfg b \<and>
    failures (call_all cs b) = int (streak (results cs))"
  using assms
proof (induction cs rule: rev_induct)
  case Nil
  then show ?case by (simp add: streak_def results_simps)
next
  case (snoc c cs)
  obtain now later r where c: "c = (now, later, r)" by (cases c)
  have "state (call_all cs b) = Closed \<and> cfg (call_all cs b) = cfg b \<and>
      failures (call_all cs b) = int (streak (results cs))"
    by (rule snoc.IH) (use snoc.prems in auto)
  moreover have "int (streak (results (cs @ [c]))) < FailureThreshold (cfg b)"
    by (rule snoc.prems(1) [where ds = "[]"]) simp
  ultimately show ?case
    by (auto simp: call_all_append c Execute_closed streak_snoc results_simps split: if_splits)
qed

lemma breaker_opens:
  assumes "state b = Closed" and "failures b = 0"
    and "\<And>cs' ds. cs = cs' @ ds \<Longrightarrow> int (streak (results cs')) < FailureThreshold (cfg b)"
    and "int (streak (results (cs @ [(now, later, r)]))) \<ge> FailureThreshold (cfg b)"
    and "0 < FailureThreshold (cfg b)"
  shows "state (call_all (cs @ [(now, later, r)]) b) = Open \<and>
    openedAt (call_all (cs @ [(now, later, r)]) b) = later"
proof -
  have c: "state (call_all cs b) = Closed \<and> cfg (call_all cs b) = cfg b \<and>
      failures (call_all cs b) = int (streak (results cs))"
    by (rule closed_run) (use assms in auto)
  from assms(4,5) have "failed r" "int (Suc (streak (results cs))) \<ge> FailureThreshold (cfg b)"
    by (auto simp: streak_snoc results_simps split: if_splits)
  with c show ?thesis by (simp add: call_all_append Execute_closed)
qed

text \<open>After the timeout one call is let through, and its outcome decides.\<close>

lemma probe_decides:
  assumes "state b = Open" and "openedAt b + OpenTimeout (cfg b) \<le> now" and "0 < HalfOpenMaxCalls (cfg b)"
  shows "Execute now later r b =
    (if failed r
     then b\<lparr>state := Open, openedAt := later, halfOpenIn := 0, generation := generation b + 2\<rparr>
     else b\<lparr>state := Closed, failures := 0, halfOpenIn := 0, generation := generation b + 2\<rparr>, Some r)"
  using assms
  by (cases r) (simp_all add: Execute_def enter_call_def advanceLocked_def Let_def exit_call_def
      onSuccessLocked_def onFailureLocked_def failed_def)

text \<open>A world after one failed call, with a threshold of one.\<close>

definition tripped :: world where
  "tripped =
     \<lparr>br = (NewBreaker \<lparr>FailureThreshold = 1, OpenTimeout = 10, HalfOpenMaxCalls = 1\<rparr>)
        \<lparr>failures := 1, state := Open, openedAt := 5, generation := 1\<rparr>,
      clock = 5, era = 1, inflight = []\<rparr>"

lemma tripped_reachable: "reachable breaker_init breaker_step tripped"
proof -
  let ?b = "NewBreaker \<lparr>FailureThreshold = 1, OpenTimeout = 10, HalfOpenMaxCalls = 1\<rparr>"
  let ?w0 = "\<lparr>br = ?b, clock = 5, era = 0, inflight = []\<rparr>"
  let ?w1 = "\<lparr>br = ?b, clock = 5, era = 0, inflight = [(0, 0)]\<rparr>"
  have "reachable breaker_init breaker_step ?w0" by (rule reachable.start) (auto simp: breaker_init_def)
  moreover have "breaker_step ?w0 ?w1"
    using breaker_step.admitted [of ?w0 ?b 0 0]
    by (simp add: enter_call_def advanceLocked_def NewBreaker_def new_era_def)
  moreover have "breaker_step ?w1 tripped"
    using breaker_step.left [of ?w1 "[]" 0 0 "[]" Failed "br tripped"]
    by (simp add: exit_call_def onFailureLocked_def NewBreaker_def new_era_def tripped_def)
  ultimately show ?thesis by (blast intro: reachable.move)
qed

section \<open>Properties\<close>

text \<open>
  C4. In every interleaving of callers, as long as the generation counter has not wrapped: a
  closed breaker has counted fewer failures than its threshold, an open one has no call of its
  generation in flight, and a half-open one has exactly \<open>halfOpenIn\<close> probes in flight, at most
  \<open>HalfOpenMaxCalls\<close> of them.
\<close>

theorem breaker_invariant:
  assumes "reachable breaker_init breaker_step w" and "era w < 2 ^ 64"
  shows "breaker_good (br w) (era w) (inflight w)"
  using breaker.reachable_inv [OF assms(1)] assms(2) by (simp add: breaker_inv_def)

theorem breaker_invariant_witness: "breaker_good (br tripped) 1 []"
  using breaker_invariant [OF tripped_reachable] by (simp add: tripped_def)

text \<open>
  Once open, the breaker stays as it is until \<open>OpenTimeout\<close> has passed: whatever calls come,
  return, fail or panic in the meantime, none is admitted and no result of an earlier call
  changes it.
\<close>

lemma open_period_is_frozen:
  assumes "reachable breaker_init breaker_step w" and "era w < 2 ^ 64" and "state (br w) = Open"
    and "run breaker_step w w'" and "clock w' < openedAt (br w) + OpenTimeout (cfg (br w))"
  shows "br w' = br w \<and> enter_call (clock w') (br w') = (br w', None)"
proof -
  have "br w' = br w"
    using open_frozen_run [OF assms(4) breaker.reachable_inv [OF assms(1)] assms(2,3,5)] by blast
  with open_frozen_enter(2) assms(3,5) show ?thesis by simp
qed

text \<open>
  Callers one after the other, on a new breaker: it stays closed exactly as long as no run of
  outcomes ends in \<open>FailureThreshold\<close> failures in a row, and the outcome that completes such a
  run opens it at the time of that outcome.
\<close>

lemma threshold_opens:
  assumes "list_all (\<lambda>n. int (streak (results (take n cs))) < FailureThreshold (cfg (NewBreaker c)))
      [0..<Suc (length cs)]"
  shows "state (call_all cs (NewBreaker c)) = Closed \<and>
    state (call_all (cs @ [(now, later, r)]) (NewBreaker c)) =
      (if int (streak (results (cs @ [(now, later, r)]))) \<ge> FailureThreshold (cfg (NewBreaker c))
       then Open else Closed)"
proof -
  have short: "int (streak (results cs')) < FailureThreshold (cfg (NewBreaker c))"
    if "cs = cs' @ ds" for cs' ds
    using assms that by (auto simp: list_all_iff dest!: bspec [of _ _ "length cs'"])
  have new: "state (NewBreaker c) = Closed" "failures (NewBreaker c) = 0" "0 < FailureThreshold (cfg (NewBreaker c))"
    by (simp_all add: NewBreaker_def)
  have run: "state (call_all cs (NewBreaker c)) = Closed \<and> cfg (call_all cs (NewBreaker c)) = cfg (NewBreaker c) \<and>
      failures (call_all cs (NewBreaker c)) = int (streak (results cs))"
    by (rule closed_run [OF short new(1,2)])
  with short [of cs "[]"] show ?thesis
    by (auto simp: call_all_append Execute_closed streak_snoc results_simps)
qed

text \<open>
  Recovery: once the timeout has passed, the next call is admitted; if it succeeds the breaker
  is closed with no failures counted, and if it fails or panics it is open again from that moment.
\<close>

lemma probe_result_decides:
  assumes "reachable breaker_init breaker_step w" and "era w < 2 ^ 64" and "state (br w) = Open"
    and "openedAt (br w) + OpenTimeout (cfg (br w)) \<le> now"
  shows "\<exists>b. Execute now later r (br w) = (b, Some r) \<and>
    (if failed r then state b = Open \<and> openedAt b = later else state b = Closed \<and> failures b = 0)"
proof -
  have "0 < HalfOpenMaxCalls (cfg (br w))"
    using breaker.reachable_inv [OF assms(1)] assms(2) by (simp add: breaker_inv_def breaker_good_def)
  from probe_decides [OF assms(3,4) this] show ?thesis by simp
qed

end
