(* ===== verification/GoInt.thy ===== *)
theory GoInt
  imports Prelude "HOL-Library.Word"
begin

text \<open>
  Go's \<open>int64\<close> (and \<open>int\<close> on the platforms of the labs): an integer between $-2^{63}$ and
  $2^{63}-1$ whose arithmetic wraps around.
\<close>

definition min64 :: int where
  "min64 = - (2 ^ 63)"

definition max64 :: int where
  "max64 = 2 ^ 63 - 1"

definition in64 :: "int \<Rightarrow> bool" where
  "in64 x \<longleftrightarrow> min64 \<le> x \<and> x \<le> max64"

definition wrap64 :: "int \<Rightarrow> int" where
  "wrap64 x = (x + 2 ^ 63) mod 2 ^ 64 - 2 ^ 63"

lemma in64_wrap64: "in64 (wrap64 x)"
proof -
  have "0 \<le> (x + 2 ^ 63) mod 2 ^ 64" and "(x + 2 ^ 63) mod 2 ^ 64 < 2 ^ 64" by simp_all
  then show ?thesis by (simp add: in64_def wrap64_def min64_def max64_def)
qed

lemma wrap64_id: "in64 x \<Longrightarrow> wrap64 x = x"
  by (simp add: in64_def wrap64_def min64_def max64_def)

lemma wrap64_signed: "wrap64 x = sint (word_of_int x :: 64 word)"
  by (simp add: wrap64_def int_word_sint)

definition add64 :: "int \<Rightarrow> int \<Rightarrow> int" where
  "add64 x y = wrap64 (x + y)"

definition sub64 :: "int \<Rightarrow> int \<Rightarrow> int" where
  "sub64 x y = wrap64 (x - y)"

definition mul64 :: "int \<Rightarrow> int \<Rightarrow> int" where
  "mul64 x y = wrap64 (x * y)"

text \<open>Go's \<open>/\<close> and \<open>%\<close> round toward zero; the one overflow is \<open>min64 / -1\<close>.\<close>

definition quo :: "int \<Rightarrow> int \<Rightarrow> int" where
  "quo a b = (if 0 \<le> a then (if 0 \<le> b then a div b else - (a div - b))
              else (if 0 \<le> b then - (- a div b) else - a div - b))"

definition rem :: "int \<Rightarrow> int \<Rightarrow> int" where
  "rem a b = a - quo a b * b"

lemma quo_rem: "quo a b * b + rem a b = a"
  by (simp add: rem_def)

lemma add64_id: "in64 (x + y) \<Longrightarrow> add64 x y = x + y"
  and sub64_id: "in64 (x - y) \<Longrightarrow> sub64 x y = x - y"
  and mul64_id: "in64 (x * y) \<Longrightarrow> mul64 x y = x * y"
  by (simp_all add: add64_def sub64_def mul64_def wrap64_id)

lemma wrap64_add: "wrap64 (wrap64 x + y) = wrap64 (x + y)"
proof -
  have "wrap64 x + y + 2 ^ 63 = (x + 2 ^ 63) mod 2 ^ 64 + y" by (simp add: wrap64_def)
  also have "\<dots> mod 2 ^ 64 = (x + 2 ^ 63 + y) mod 2 ^ 64" by (rule mod_add_left_eq)
  finally have "(wrap64 x + y + 2 ^ 63) mod 2 ^ 64 = (x + y + 2 ^ 63) mod 2 ^ 64"
    by (simp only: ac_simps)
  then show ?thesis unfolding wrap64_def [of "wrap64 x + y"] wrap64_def [of "x + y"] by (rule arg_cong)
qed

lemma sub64_add64: "in64 x \<Longrightarrow> sub64 (add64 x y) y = x"
  using wrap64_add [of "x + y" "- y"] by (simp add: sub64_def add64_def wrap64_id)

lemma add64_sub64: "in64 x \<Longrightarrow> add64 (sub64 x y) y = x"
  using wrap64_add [of "x - y" y] by (simp add: sub64_def add64_def wrap64_id)

end
