(* ===== verification/LeaderElection.thy ===== *)
theory LeaderElection
  imports Systems GoInt
begin

text \<open>
  Lab 30, \<^verbatim>\<open>labs/30-leader-election/internal\<close>: the lease coordinator, the fenced storage and
  the candidate nodes. Every operation that runs under a mutex is a function of the state that
  mutex guards; \<open>cluster_step\<close> interleaves the operations of any number of nodes, their election loops
  and their writes. Times are nanoseconds; \<open>revision\<close> is an \<open>int64\<close> that wraps.
\<close>

section \<open>The coordinator\<close>

record Lease =
  Key :: string
  HolderID :: string
  FencingToken :: int
  ExpiresAt :: int
  TTL :: int

record Coordinator =
  leases :: "string \<rightharpoonup> Lease"
  revision :: int
  clockOffset :: int

datatype lease_error = ErrLeaseHeld | ErrLeaseExpired | ErrNotLeaseOwner

definition New_coordinator :: Coordinator where
  "New_coordinator = \<lparr>leases = Map.empty, revision = 0, clockOffset = 0\<rparr>"

definition extend_lease :: "int \<Rightarrow> int \<Rightarrow> Lease \<Rightarrow> Lease" where
  "extend_lease now ttl l = l\<lparr>ExpiresAt := now + ttl, TTL := ttl\<rparr>"

definition Acquire ::
  "string \<Rightarrow> string \<Rightarrow> int \<Rightarrow> int \<Rightarrow> Coordinator \<Rightarrow> Coordinator \<times> (lease_error, Lease) res" where
  "Acquire key holder ttl wall c =
     (let now = wall + clockOffset c;
          fresh = \<lparr>Key = key, HolderID = holder, FencingToken = add64 (revision c) 1,
                   ExpiresAt = now + ttl, TTL = ttl\<rparr>;
          granted = (c\<lparr>revision := add64 (revision c) 1, leases := (leases c)(key \<mapsto> fresh)\<rparr>, Inr fresh)
      in case leases c key of
           Some l \<Rightarrow>
             (if now < ExpiresAt l
              then (if HolderID l = holder
                    then (c\<lparr>leases := (leases c)(key \<mapsto> extend_lease now ttl l)\<rparr>,
                          Inr (extend_lease now ttl l))
                    else (c, Inl ErrLeaseHeld))
              else granted)
         | None \<Rightarrow> granted)"

definition Renew ::
  "string \<Rightarrow> string \<Rightarrow> int \<Rightarrow> int \<Rightarrow> int \<Rightarrow> Coordinator \<Rightarrow>
   Coordinator \<times> (lease_error, Lease) res" where
  "Renew key holder token ttl wall c =
     (let now = wall + clockOffset c in
      case leases c key of
        None \<Rightarrow> (c, Inl ErrLeaseExpired)
      | Some l \<Rightarrow>
          (if now > ExpiresAt l \<or> now = ExpiresAt l
           then (c\<lparr>leases := (leases c)(key := None)\<rparr>, Inl ErrLeaseExpired)
           else if HolderID l \<noteq> holder \<or> FencingToken l \<noteq> token then (c, Inl ErrNotLeaseOwner)
           else (c\<lparr>leases := (leases c)(key \<mapsto> extend_lease now ttl l)\<rparr>,
                 Inr (extend_lease now ttl l))))"

definition Release :: "string \<Rightarrow> string \<Rightarrow> int \<Rightarrow> Coordinator \<Rightarrow> Coordinator" where
  "Release key holder token c =
     (case leases c key of
        None \<Rightarrow> c
      | Some l \<Rightarrow>
          (if HolderID l = holder \<and> FencingToken l = token
           then c\<lparr>leases := (leases c)(key := None)\<rparr> else c))"

definition GetLease :: "string \<Rightarrow> int \<Rightarrow> Coordinator \<Rightarrow> Coordinator \<times> Lease option" where
  "GetLease key wall c =
     (let now = wall + clockOffset c in
      case leases c key of
        None \<Rightarrow> (c, None)
      | Some l \<Rightarrow>
          (if now > ExpiresAt l \<or> now = ExpiresAt l
           then (c\<lparr>leases := (leases c)(key := None)\<rparr>, None) else (c, Some l)))"

section \<open>The fenced storage\<close>

record StoredRecord =
  Token :: int
  Author :: string
  Value :: string

record FencedStorage =
  lastSeenToken :: int
  records :: "StoredRecord list"

definition New_storage :: FencedStorage where
  "New_storage = \<lparr>lastSeenToken = 0, records = []\<rparr>"

definition Write :: "string \<Rightarrow> int \<Rightarrow> string \<Rightarrow> FencedStorage \<Rightarrow> FencedStorage \<times> bool" where
  "Write author token value s =
     (if token \<le> lastSeenToken s then (s, False)
      else (s\<lparr>lastSeenToken := token,
              records := records s @ [\<lparr>Token = token, Author = author, Value = value\<rparr>]\<rparr>, True))"

section \<open>The nodes\<close>

datatype role = Follower | Leader | Stopped

record Node =
  ident :: string
  leaseKey :: string
  ttl :: int
  role :: role
  currentLease :: "Lease option"
  looping :: bool
  pauseUntil :: int

definition NewNode :: "string \<Rightarrow> string \<Rightarrow> int \<Rightarrow> Node" where
  "NewNode i key t =
     \<lparr>ident = i, leaseKey = key, ttl = t, role = Follower, currentLease = None, looping = False,
      pauseUntil = 0\<rparr>"

text \<open>\<open>Start\<close>, and whether it launches an election loop.\<close>

definition Start :: "Node \<Rightarrow> Node \<times> bool" where
  "Start n = (if looping n then (n, False) else (n\<lparr>looping := True, role := Follower\<rparr>, True))"

definition give_up :: "Node \<Rightarrow> Coordinator \<Rightarrow> Coordinator" where
  "give_up n c =
     (case currentLease n of
        Some l \<Rightarrow> if role n = Leader then Release (leaseKey n) (ident n) (FencingToken l) c else c
      | None \<Rightarrow> c)"

definition Stop :: "Node \<Rightarrow> Coordinator \<Rightarrow> Node \<times> Coordinator" where
  "Stop n c = (n\<lparr>looping := False, role := Stopped, currentLease := None\<rparr>, give_up n c)"

definition ForceStepDown :: "Node \<Rightarrow> Coordinator \<Rightarrow> Node \<times> Coordinator" where
  "ForceStepDown n c =
     (if role n = Leader \<and> currentLease n \<noteq> None
      then (n\<lparr>role := Follower, currentLease := None\<rparr>, give_up n c) else (n, c))"

definition SimulatePause :: "int \<Rightarrow> int \<Rightarrow> Node \<Rightarrow> Node" where
  "SimulatePause now d n = n\<lparr>pauseUntil := now + d\<rparr>"

text \<open>One ticker event of \<open>runElectionLoop\<close>: it fired at one time and is handled at another.\<close>

definition handle_tick :: "int \<Rightarrow> int \<Rightarrow> Node \<Rightarrow> Coordinator \<Rightarrow> Node \<times> Coordinator" where
  "handle_tick fired now n c =
     (if fired < pauseUntil n then (n, c)
      else if role n = Leader then
        (case currentLease n of
           None \<Rightarrow> (n\<lparr>role := Follower\<rparr>, c)
         | Some l \<Rightarrow>
             (case Renew (leaseKey n) (ident n) (FencingToken l) (ttl n) now c of
                (c', Inl _) \<Rightarrow> (n\<lparr>role := Follower, currentLease := None\<rparr>, c')
              | (c', Inr renewed) \<Rightarrow> (n\<lparr>currentLease := Some renewed\<rparr>, c')))
      else
        (case Acquire (leaseKey n) (ident n) (ttl n) now c of
           (c', Inl _) \<Rightarrow> (n, c')
         | (c', Inr acquired) \<Rightarrow> (n\<lparr>role := Leader, currentLease := Some acquired\<rparr>, c')))"

text \<open>
  \<open>PerformFencedWrite\<close> reads the role and the lease under the lock and writes after releasing it.
\<close>

definition prepare_write :: "Node \<Rightarrow> (string \<times> int) option" where
  "prepare_write n =
     (case currentLease n of
        Some l \<Rightarrow> if role n = Leader then Some (ident n, FencingToken l) else None
      | None \<Rightarrow> None)"

section \<open>A cluster\<close>

text \<open>
  Besides the state of the code: \<open>loops\<close> counts the election loops of a node that have not
  returned, \<open>pending\<close> holds the writes between their two halves, and \<open>granted\<close> lists, for no
  code to read, the holders of the tokens given out so far.
\<close>

record cluster =
  coord :: Coordinator
  store :: FencedStorage
  nodes :: "string \<rightharpoonup> Node"
  clock :: int
  loops :: "string \<Rightarrow> nat"
  pending :: "(string \<times> int \<times> string) list"
  granted :: "string list"

definition note_grant :: "Coordinator \<Rightarrow> Coordinator \<Rightarrow> string \<Rightarrow> string list \<Rightarrow> string list" where
  "note_grant c c' i g = (if revision c' = revision c then g else g @ [i])"

definition cluster_init :: "cluster \<Rightarrow> bool" where
  "cluster_init w \<longleftrightarrow> coord w = New_coordinator \<and> store w = New_storage \<and> nodes w = Map.empty \<and>
     loops w = (\<lambda>_. 0) \<and> pending w = [] \<and> granted w = []"

inductive cluster_step :: "cluster \<Rightarrow> cluster \<Rightarrow> bool" where
  time_passes: "clock w \<le> t \<Longrightarrow> cluster_step w (w\<lparr>clock := t\<rparr>)"
| joins: "nodes w i = None \<Longrightarrow> cluster_step w (w\<lparr>nodes := (nodes w)(i \<mapsto> NewNode i key t)\<rparr>)"
| starts: "nodes w i = Some n \<Longrightarrow> Start n = (n', launched) \<Longrightarrow>
    cluster_step w (w\<lparr>nodes := (nodes w)(i \<mapsto> n'),
              loops := (loops w)(i := loops w i + (if launched then 1 else 0))\<rparr>)"
| ticks: "nodes w i = Some n \<Longrightarrow> 0 < loops w i \<Longrightarrow> fired \<le> clock w \<Longrightarrow>
    handle_tick fired (clock w) n (coord w) = (n', c') \<Longrightarrow>
    cluster_step w (w\<lparr>nodes := (nodes w)(i \<mapsto> n'), coord := c',
              granted := note_grant (coord w) c' i (granted w)\<rparr>)"
| loop_returns: "0 < loops w i \<Longrightarrow> cluster_step w (w\<lparr>loops := (loops w)(i := loops w i - 1)\<rparr>)"
| stops: "nodes w i = Some n \<Longrightarrow> Stop n (coord w) = (n', c') \<Longrightarrow>
    cluster_step w (w\<lparr>nodes := (nodes w)(i \<mapsto> n'), coord := c'\<rparr>)"
| steps_down: "nodes w i = Some n \<Longrightarrow> ForceStepDown n (coord w) = (n', c') \<Longrightarrow>
    cluster_step w (w\<lparr>nodes := (nodes w)(i \<mapsto> n'), coord := c'\<rparr>)"
| pauses: "nodes w i = Some n \<Longrightarrow>
    cluster_step w (w\<lparr>nodes := (nodes w)(i \<mapsto> SimulatePause (clock w) d n)\<rparr>)"
| begins_write: "nodes w i = Some n \<Longrightarrow> prepare_write n = Some (a, t) \<Longrightarrow>
    cluster_step w (w\<lparr>pending := (a, t, v) # pending w\<rparr>)"
| ends_write: "pending w = xs @ (a, t, v) # ys \<Longrightarrow> Write a t v (store w) = (s', ok) \<Longrightarrow>
    cluster_step w (w\<lparr>pending := xs @ ys, store := s'\<rparr>)"
| asks: "GetLease key (clock w) (coord w) = (c', l) \<Longrightarrow> cluster_step w (w\<lparr>coord := c'\<rparr>)"

inductive_cases cluster_step_elim: "cluster_step w w'"

section \<open>Tokens\<close>

text \<open>Token \<open>t\<close> was given to holder \<open>h\<close>: the list of grants has \<open>h\<close> at position \<open>t\<close>.\<close>

definition given_to :: "string list \<Rightarrow> int \<Rightarrow> string \<Rightarrow> bool" where
  "given_to g t h \<longleftrightarrow> 1 \<le> t \<and> t \<le> int (length g) \<and> g ! (nat t - 1) = h"

lemma given_to_extend: "given_to g t h \<Longrightarrow> given_to (g @ ys) t h"
  by (auto simp: given_to_def nth_append)

lemma given_to_unique: "given_to g t h \<Longrightarrow> given_to g t h' \<Longrightarrow> h = h'"
  by (simp add: given_to_def)

lemma given_to_new: "given_to (g @ [h]) (int (length g) + 1) h"
  by (simp add: given_to_def nat_add_distrib)

definition coord_ok :: "string list \<Rightarrow> Coordinator \<Rightarrow> bool" where
  "coord_ok g c \<longleftrightarrow> revision c = int (length g) \<and> clockOffset c = 0 \<and>
     (\<forall>k l. leases c k = Some l \<longrightarrow> Key l = k \<and> given_to g (FencingToken l) (HolderID l))"

text \<open>An operation of holder \<open>h\<close> leaves the live leases of everybody else alone.\<close>

definition spares :: "int \<Rightarrow> string \<Rightarrow> Coordinator \<Rightarrow> Coordinator \<Rightarrow> bool" where
  "spares now h c c' \<longleftrightarrow>
     (\<forall>k l. leases c k = Some l \<and> HolderID l \<noteq> h \<and> now < ExpiresAt l \<longrightarrow> leases c' k = Some l)"

lemma spares_refl: "spares now h c c"
  by (simp add: spares_def)

lemma length_in64: "n < 2 ^ 63 \<Longrightarrow> in64 (int n)"
  by (simp add: in64_def min64_def max64_def)

lemma next_revision:
  assumes "revision c = int (length g)" and "Suc (length g) < 2 ^ 63"
  shows "add64 (revision c) 1 = int (length g) + 1"
proof -
  have "in64 (revision c + 1)" using length_in64 [OF assms(2)] by (simp add: assms(1) add.commute)
  then show ?thesis by (simp add: add64_id assms(1))
qed

lemma add64_1_neq: "in64 x \<Longrightarrow> add64 x 1 \<noteq> x"
  by (cases "x = max64") (simp_all add: add64_def wrap64_def in64_def min64_def max64_def)

lemma Acquire_cases:
  assumes "Acquire k h t wall c = (c', r)" and "clockOffset c = 0"
  obtains
    (held) l where "leases c k = Some l" "wall < ExpiresAt l" "HolderID l \<noteq> h" "c' = c" "r = Inl ErrLeaseHeld"
  | (own) l where "leases c k = Some l" "wall < ExpiresAt l" "HolderID l = h"
      "c' = c\<lparr>leases := (leases c)(k \<mapsto> extend_lease wall t l)\<rparr>" "r = Inr (extend_lease wall t l)"
  | (fresh) l where "\<And>e. leases c k = Some e \<Longrightarrow> ExpiresAt e \<le> wall"
      "l = \<lparr>Key = k, HolderID = h, FencingToken = add64 (revision c) 1, ExpiresAt = wall + t, TTL = t\<rparr>"
      "c' = c\<lparr>revision := add64 (revision c) 1, leases := (leases c)(k \<mapsto> l)\<rparr>" "r = Inr l"
  using assms by (auto simp: Acquire_def Let_def split: option.splits if_splits)

lemma Acquire_ok:
  assumes ok: "coord_ok g c" and run: "Acquire k h t wall c = (c', r)"
    and g': "g' = note_grant c c' h g" "length g' < 2 ^ 63"
  shows "coord_ok g' c' \<and> spares wall h c c' \<and>
    (case r of
       Inl _ \<Rightarrow> c' = c
     | Inr l \<Rightarrow> Key l = k \<and> HolderID l = h \<and> given_to g' (FencingToken l) h \<and> leases c' k = Some l)"
proof -
  from ok have off: "clockOffset c = 0" and rev: "revision c = int (length g)" by (simp_all add: coord_ok_def)
  from run off show ?thesis
  proof (cases rule: Acquire_cases)
    case (held l)
    with ok g' show ?thesis by (simp add: note_grant_def spares_refl)
  next
    case (own l)
    with ok g' show ?thesis
      by (auto simp: note_grant_def coord_ok_def spares_def extend_lease_def)
  next
    case (fresh l)
    have "length g \<le> length g'" using g'(1) by (simp add: note_grant_def)
    with g'(2) length_in64 [of "length g"] rev have "in64 (revision c)" by simp
    with fresh(3) have "revision c' \<noteq> revision c" using add64_1_neq by simp
    with g' have g: "g' = g @ [h]" by (simp add: note_grant_def)
    with g'(2) rev have "add64 (revision c) 1 = int (length g) + 1" by (intro next_revision) simp_all
    with fresh g ok given_to_new [of g h] show ?thesis
      by (auto simp: coord_ok_def spares_def intro: given_to_extend)
  qed
qed

lemma Renew_ok:
  assumes "coord_ok g c" and "Renew k h tok t wall c = (c', r)"
  shows "coord_ok g c' \<and> spares wall h c c' \<and> revision c' = revision c \<and>
    (case r of
       Inl _ \<Rightarrow> True
     | Inr l \<Rightarrow> Key l = k \<and> HolderID l = h \<and> given_to g (FencingToken l) h \<and> leases c' k = Some l)"
  using assms
  by (auto simp: Renew_def Let_def coord_ok_def spares_def extend_lease_def
      split: option.splits if_splits)

lemma Release_ok:
  assumes "coord_ok g c"
  shows "coord_ok g (Release k h tok c) \<and> spares now h c (Release k h tok c) \<and>
    revision (Release k h tok c) = revision c"
  using assms by (auto simp: Release_def coord_ok_def spares_def split: option.splits)

lemma give_up_ok:
  assumes "coord_ok g c" and "ident n = i"
  shows "coord_ok g (give_up n c) \<and> spares now i c (give_up n c)"
  using assms Release_ok by (auto simp: give_up_def spares_refl split: option.splits)

section \<open>The invariant\<close>

definition node_ok :: "string list \<Rightarrow> Coordinator \<Rightarrow> int \<Rightarrow> string \<Rightarrow> Node \<Rightarrow> bool" where
  "node_ok g c now i n \<longleftrightarrow> ident n = i \<and>
     (\<forall>l. currentLease n = Some l \<longrightarrow>
        Key l = leaseKey n \<and> HolderID l = i \<and> given_to g (FencingToken l) i \<and>
        (now < ExpiresAt l \<longrightarrow> leases c (leaseKey n) = Some l))"

definition store_ok :: "string list \<Rightarrow> FencedStorage \<Rightarrow> bool" where
  "store_ok g s \<longleftrightarrow> sorted_wrt (<) (map Token (records s)) \<and>
     list_all (\<lambda>r. given_to g (Token r) (Author r)) (records s) \<and>
     lastSeenToken s = (if records s = [] then 0 else Token (last (records s)))"

definition cluster_good :: "cluster \<Rightarrow> bool" where
  "cluster_good w \<longleftrightarrow> coord_ok (granted w) (coord w) \<and>
     (\<forall>i n. nodes w i = Some n \<longrightarrow> node_ok (granted w) (coord w) (clock w) i n) \<and>
     list_all (\<lambda>(a, t, v). given_to (granted w) t a) (pending w) \<and> store_ok (granted w) (store w)"

definition cluster_inv :: "cluster \<Rightarrow> bool" where
  "cluster_inv w \<longleftrightarrow> (length (granted w) < 2 ^ 63 \<longrightarrow> cluster_good w)"

lemma node_ok_frame:
  assumes "node_ok g c now j m" and "spares now i c c'" and "i \<noteq> j"
  shows "node_ok (g @ ys) c' now j m"
  using assms by (auto simp: node_ok_def spares_def intro: given_to_extend)

lemma store_ok_extend: "store_ok g s \<Longrightarrow> store_ok (g @ ys) s"
  by (auto simp: store_ok_def list_all_iff intro: given_to_extend)

lemma good_update:
  assumes "cluster_good w" and "coord_ok (granted w @ ys) c'" and "node_ok (granted w @ ys) c' (clock w) i n'"
    and "spares (clock w) i (coord w) c'"
  shows "cluster_good (w\<lparr>nodes := (nodes w)(i \<mapsto> n'), coord := c', granted := granted w @ ys\<rparr>)"
  using assms node_ok_frame [OF _ assms(4)] store_ok_extend
  by (auto simp: cluster_good_def list_all_iff intro: given_to_extend)

lemma good_node_update:
  assumes "cluster_good w" and "node_ok (granted w) (coord w) (clock w) i n'"
  shows "cluster_good (w\<lparr>nodes := (nodes w)(i \<mapsto> n')\<rparr>)"
  using assms by (auto simp: cluster_good_def)

lemma good_coord_update:
  assumes "cluster_good w" and "coord_ok (granted w) c'" and "node_ok (granted w) c' (clock w) i n'"
    and "spares (clock w) i (coord w) c'"
  shows "cluster_good (w\<lparr>nodes := (nodes w)(i \<mapsto> n'), coord := c'\<rparr>)"
  using good_update [of w "[]" c' i n'] assms by simp

lemma note_grant_extends: "\<exists>ys. note_grant c c' i g = g @ ys"
  by (auto simp: note_grant_def)

lemma handle_tick_ok:
  assumes c: "coord_ok g c" and n: "node_ok g c now i n"
    and run: "handle_tick fired now n c = (n', c')"
    and g': "g' = note_grant c c' i g" "length g' < 2 ^ 63"
  shows "coord_ok g' c' \<and> node_ok g' c' now i n' \<and> spares now i c c'"
proof -
  have same: "g' = g" if "revision c' = revision c" using that g'(1) by (simp add: note_grant_def)
  have i: "ident n = i" using n by (simp add: node_ok_def)
  consider (idle) "fired < pauseUntil n \<or> (role n = Leader \<and> currentLease n = None)"
    | (renew) l r where "role n = Leader" "currentLease n = Some l"
        "Renew (leaseKey n) i (FencingToken l) (ttl n) now c = (c', r)"
        "n' = (case r of Inl _ \<Rightarrow> n\<lparr>role := Follower, currentLease := None\<rparr>
                       | Inr x \<Rightarrow> n\<lparr>currentLease := Some x\<rparr>)"
    | (acquire) r where "Acquire (leaseKey n) i (ttl n) now c = (c', r)"
        "n' = (case r of Inl _ \<Rightarrow> n | Inr x \<Rightarrow> n\<lparr>role := Leader, currentLease := Some x\<rparr>)"
    using run i by (auto simp: handle_tick_def split: option.splits prod.splits sum.splits if_splits)
  then show ?thesis
  proof cases
    case idle
    with run have "c' = c" and "n' = n \<or> n' = n\<lparr>role := Follower\<rparr>"
      by (auto simp: handle_tick_def split: if_splits)
    with same c n show ?thesis by (auto simp: node_ok_def spares_refl)
  next
    case (renew l r)
    from Renew_ok [OF c renew(3)] same
    have "g' = g" "coord_ok g c'" "spares now i c c'" by simp_all
    with Renew_ok [OF c renew(3)] renew(4) n show ?thesis
      by (auto simp: node_ok_def split: sum.splits)
  next
    case (acquire r)
    from Acquire_ok [OF c acquire(1) g'] acquire(2) n g' show ?thesis
      by (auto simp: node_ok_def note_grant_def split: sum.splits)
  qed
qed

lemma Write_ok:
  assumes "store_ok g s" and "given_to g t a" and "Write a t v s = (s', ok)"
  shows "store_ok g s'"
proof (cases "t \<le> lastSeenToken s")
  case False
  have "Token r < t" if "r \<in> set (records s)" for r
  proof -
    from assms(1) have srt: "sorted_wrt (<) (map Token (records s))"
      and last: "lastSeenToken s = Token (last (records s))"
      using that by (auto simp: store_ok_def split: if_splits)
    from that obtain xs y where xs: "records s = xs @ [y]" by (metis list.set_cases rev_exhaust empty_iff list.set(1))
    with srt that have "Token r \<le> Token y" by (auto simp: sorted_wrt_append)
    with last xs False show ?thesis by simp
  qed
  with assms False show ?thesis
    by (auto simp: store_ok_def Write_def sorted_wrt_append)
qed (use assms in \<open>simp add: Write_def\<close>)

lemma GetLease_ok:
  assumes "coord_ok g c" and "GetLease k now c = (c', l)"
  shows "coord_ok g c' \<and> (\<forall>i. spares now i c c') \<and>
    (\<forall>k e. leases c k = Some e \<and> now < ExpiresAt e \<longrightarrow> leases c' k = Some e)"
  using assms
  by (auto simp: GetLease_def Let_def coord_ok_def spares_def split: option.splits if_splits)

lemma granted_grows: "cluster_step w w' \<Longrightarrow> length (granted w) \<le> length (granted w')"
  by (erule cluster_step_elim) (simp_all add: note_grant_def)

lemma good_step:
  assumes cluster_good: "cluster_good w" and s: "cluster_step w w'" and len: "length (granted w') < 2 ^ 63"
  shows "cluster_good w'"
  using s
proof cases
  case (time_passes t)
  with cluster_good show ?thesis by (auto simp: cluster_good_def node_ok_def)
next
  case (joins i key t)
  have "node_ok (granted w) (coord w) (clock w) i (NewNode i key t)"
    by (simp add: node_ok_def NewNode_def)
  from good_node_update [OF cluster_good this] joins show ?thesis by simp
next
  case (starts i n n' launched)
  then have "node_ok (granted w) (coord w) (clock w) i n'"
    using cluster_good by (auto simp: cluster_good_def node_ok_def Start_def split: if_splits)
  from good_node_update [OF cluster_good this] show ?thesis using starts by (simp add: cluster_good_def)
next
  case (ticks i n fired n' c')
  have "coord_ok (granted w') c' \<and> node_ok (granted w') c' (clock w) i n' \<and>
      spares (clock w) i (coord w) c'"
    by (rule handle_tick_ok [of "granted w" "coord w" "clock w" i n fired])
      (use cluster_good ticks len in \<open>auto simp: cluster_good_def\<close>)
  with note_grant_extends [of "coord w" c' i "granted w"] good_update [OF cluster_good] ticks show ?thesis
    by auto
next
  case (loop_returns i)
  with cluster_good show ?thesis by (simp add: cluster_good_def)
next
  case (stops i n n' c')
  with cluster_good have n: "ident n = i" "coord_ok (granted w) (coord w)" by (auto simp: cluster_good_def node_ok_def)
  from stops n(1) have "node_ok (granted w) c' (clock w) i n'" by (auto simp: Stop_def node_ok_def)
  moreover have "c' = give_up n (coord w)" using stops by (simp add: Stop_def)
  ultimately show ?thesis
    using good_coord_update [OF cluster_good] give_up_ok [OF n(2,1)] stops(1) by blast
next
  case (steps_down i n n' c')
  with cluster_good have n: "ident n = i" "coord_ok (granted w) (coord w)"
    and ok: "node_ok (granted w) (coord w) (clock w) i n" by (auto simp: cluster_good_def node_ok_def)
  have "node_ok (granted w) c' (clock w) i n'"
    using steps_down ok by (auto simp: ForceStepDown_def node_ok_def split: if_splits)
  moreover have "c' = give_up n (coord w) \<or> c' = coord w"
    using steps_down by (auto simp: ForceStepDown_def split: if_splits)
  ultimately show ?thesis
    using good_coord_update [OF cluster_good] give_up_ok [OF n(2,1)] n(2) spares_refl steps_down(1) by blast
next
  case (pauses i n d)
  with cluster_good have "node_ok (granted w) (coord w) (clock w) i (SimulatePause (clock w) d n)"
    by (auto simp: cluster_good_def node_ok_def SimulatePause_def)
  with good_node_update [OF cluster_good] pauses show ?thesis by simp
next
  case (begins_write i n a t v)
  with cluster_good have "given_to (granted w) t a"
    by (auto simp: cluster_good_def node_ok_def prepare_write_def split: option.splits if_splits)
  with cluster_good begins_write show ?thesis by (simp add: cluster_good_def)
next
  case (ends_write xs a t v ys s' ok)
  with cluster_good Write_ok [of "granted w" "store w" t a v s' ok] show ?thesis by (simp add: cluster_good_def)
next
  case (asks key c' l)
  with cluster_good GetLease_ok [of "granted w" "coord w" key "clock w" c' l] show ?thesis
    by (auto simp: cluster_good_def node_ok_def)
qed

lemma cluster_step_inv: "cluster_inv w \<Longrightarrow> cluster_step w w' \<Longrightarrow> cluster_inv w'"
  using good_step granted_grows unfolding cluster_inv_def by (meson le_less_trans)

lemma cluster_init_inv: "cluster_init w \<Longrightarrow> cluster_inv w"
  by (simp add: cluster_init_def cluster_inv_def cluster_good_def coord_ok_def New_coordinator_def store_ok_def New_storage_def)

interpretation election: guarded_system cluster_init cluster_step cluster_inv
  by unfold_locales (rule cluster_init_inv, assumption, rule cluster_step_inv)

section \<open>Consequences\<close>

lemma reachable_good:
  "reachable cluster_init cluster_step w \<Longrightarrow> length (granted w) < 2 ^ 63 \<Longrightarrow> cluster_good w"
  using election.reachable_inv unfolding cluster_inv_def by blast

lemma lastSeen_step: "cluster_step w w' \<Longrightarrow> lastSeenToken (store w) \<le> lastSeenToken (store w')"
  by (erule cluster_step_elim) (auto simp: Write_def split: if_splits)

lemma lastSeen_run: "run cluster_step w w' \<Longrightarrow> lastSeenToken (store w) \<le> lastSeenToken (store w')"
  by (rule run_monotone [where f = "\<lambda>w. lastSeenToken (store w)" and step = cluster_step])
    (simp_all add: lastSeen_step)

lemma sorted_last:
  assumes "sorted_wrt (<) xs" and "x \<in> set xs"
  shows "x \<le> (last xs :: int)"
proof -
  from assms(2) obtain ys y where "xs = ys @ [y]" by (cases xs rule: rev_cases) auto
  with assms show ?thesis by (auto simp: sorted_wrt_append)
qed

lemma record_le_lastSeen:
  assumes "store_ok g s" and "r \<in> set (records s)"
  shows "Token r \<le> lastSeenToken s"
  using assms sorted_last [of "map Token (records s)" "Token r"]
  by (auto simp: store_ok_def last_map)

text \<open>A cluster of one node that has been stopped while its loop was handling a tick.\<close>

definition stopped_cluster :: cluster where
  "stopped_cluster =
     \<lparr>coord = New_coordinator, store = New_storage,
      nodes = [''a'' \<mapsto> (NewNode ''a'' ''key'' 10)\<lparr>role := Stopped\<rparr>], clock = 0,
      loops = (\<lambda>_. 0)(''a'' := 1), pending = [], granted = []\<rparr>"

lemma stopped_cluster_reachable: "reachable cluster_init cluster_step stopped_cluster"
proof -
  let ?n = "NewNode ''a'' ''key'' 10"
  let ?w0 = "stopped_cluster\<lparr>nodes := Map.empty, loops := \<lambda>_. 0\<rparr>"
  let ?w1 = "stopped_cluster\<lparr>nodes := [''a'' \<mapsto> ?n], loops := \<lambda>_. 0\<rparr>"
  let ?w2 = "stopped_cluster\<lparr>nodes := [''a'' \<mapsto> ?n\<lparr>looping := True\<rparr>]\<rparr>"
  have "reachable cluster_init cluster_step ?w0"
    by (rule reachable.start) (simp add: cluster_init_def stopped_cluster_def)
  moreover have "cluster_step ?w0 ?w1"
    using cluster_step.joins [of ?w0 "''a''" "''key''" 10] by (simp add: stopped_cluster_def)
  moreover have "cluster_step ?w1 ?w2"
    using cluster_step.starts [of ?w1 "''a''" ?n "?n\<lparr>looping := True\<rparr>" True]
    by (simp add: stopped_cluster_def Start_def NewNode_def)
  moreover have "cluster_step ?w2 stopped_cluster"
    using cluster_step.stops [of ?w2 "''a''" "?n\<lparr>looping := True\<rparr>" "?n\<lparr>role := Stopped\<rparr>" New_coordinator]
    by (simp add: stopped_cluster_def Stop_def give_up_def NewNode_def)
  ultimately show ?thesis by (blast intro: reachable.move)
qed

lemma stopped_cluster_leads:
  "\<exists>w' m. cluster_step stopped_cluster w' \<and> nodes w' ''a'' = Some m \<and> role m = Leader \<and> \<not> looping m"
proof -
  let ?n = "(NewNode ''a'' ''key'' 10)\<lparr>role := Stopped\<rparr>"
  obtain m c where t: "handle_tick 0 0 ?n New_coordinator = (m, c)"
    and m: "role m = Leader" "\<not> looping m"
    by (auto simp: handle_tick_def NewNode_def Acquire_def New_coordinator_def Let_def)
  have "\<exists>w'. cluster_step stopped_cluster w' \<and> nodes w' ''a'' = Some m"
    using cluster_step.ticks [of stopped_cluster "''a''" ?n 0 m c] t by (auto simp: stopped_cluster_def)
  with m show ?thesis by blast
qed

text \<open>A cluster whose one node has acquired the lease.\<close>

definition first_lease :: Lease where
  "first_lease = \<lparr>Key = ''key'', HolderID = ''a'', FencingToken = 1, ExpiresAt = 10, TTL = 10\<rparr>"

definition leading_cluster :: cluster where
  "leading_cluster = stopped_cluster
     \<lparr>nodes := [''a'' \<mapsto> (NewNode ''a'' ''key'' 10)\<lparr>role := Leader, currentLease := Some first_lease\<rparr>],
      coord := \<lparr>leases = [''key'' \<mapsto> first_lease], revision = 1, clockOffset = 0\<rparr>,
      granted := [''a'']\<rparr>"

lemma leading_cluster_reachable: "reachable cluster_init cluster_step leading_cluster"
proof -
  let ?n = "(NewNode ''a'' ''key'' 10)\<lparr>role := Stopped\<rparr>"
  let ?m = "(NewNode ''a'' ''key'' 10)\<lparr>role := Leader, currentLease := Some first_lease\<rparr>"
  have one: "add64 0 1 = 1" by (simp add: add64_id in64_def min64_def max64_def)
  have "cluster_step stopped_cluster leading_cluster"
    using cluster_step.ticks [of stopped_cluster "''a''" ?n 0 ?m "coord leading_cluster"] one
    by (simp add: stopped_cluster_def leading_cluster_def handle_tick_def NewNode_def Acquire_def
        New_coordinator_def first_lease_def note_grant_def Let_def)
  with stopped_cluster_reachable show ?thesis by (rule reachable.move)
qed

section \<open>Properties\<close>

text \<open>
  C2. Two nodes that compete for the same key never hold an unexpired lease at the same time,
  in whatever order their loops, stops, step-downs, pauses and writes interleave (for the first
  $2^{63}-1$ grants).
\<close>

theorem one_live_lease:
  assumes "reachable cluster_init cluster_step w" and "length (granted w) < 2 ^ 63"
    and "nodes w i = Some n" and "nodes w j = Some m" and "leaseKey n = leaseKey m"
    and "currentLease n = Some l" and "clock w < ExpiresAt l"
    and "currentLease m = Some k" and "clock w < ExpiresAt k"
  shows "i = j \<and> l = k"
proof -
  have "cluster_good w" by (rule reachable_good [OF assms(1,2)])
  with assms(3,4) have n: "node_ok (granted w) (coord w) (clock w) i n"
    and m: "node_ok (granted w) (coord w) (clock w) j m" by (auto simp: cluster_good_def)
  from n assms(6,7) have "leases (coord w) (leaseKey n) = Some l" "HolderID l = i"
    by (auto simp: node_ok_def)
  moreover from m assms(8,9) have "leases (coord w) (leaseKey m) = Some k" "HolderID k = j"
    by (auto simp: node_ok_def)
  ultimately show ?thesis using assms(5) by simp
qed

theorem one_live_lease_witness:
  "\<exists>n. nodes leading_cluster ''a'' = Some n \<and> currentLease n = Some first_lease \<and>
     ''a'' = ''a'' \<and> first_lease = first_lease"
  using one_live_lease [OF leading_cluster_reachable, of "''a''" _ "''a''" _ first_lease first_lease]
  by (simp add: leading_cluster_def stopped_cluster_def first_lease_def)

text \<open>
  C5. The storage's history is fenced: its tokens strictly increase, every record was written
  by the node its token was given to, and a write whose token is not above that of some record
  is refused then and at any later time, whatever happens in between.
\<close>

theorem fenced_history:
  assumes "reachable cluster_init cluster_step w" and "length (granted w) < 2 ^ 63"
    and "r \<in> set (records (store w))" and "run cluster_step w w'" and "t \<le> Token r"
  shows "sorted_wrt (<) (map Token (records (store w))) \<and>
    given_to (granted w) (Token r) (Author r) \<and> Write a t v (store w') = (store w', False)"
proof -
  have s: "store_ok (granted w) (store w)"
    using reachable_good [OF assms(1,2)] by (simp add: cluster_good_def)
  have "t \<le> lastSeenToken (store w')"
    using record_le_lastSeen [OF s assms(3)] lastSeen_run [OF assms(4)] assms(5) by linarith
  with s assms(3) show ?thesis by (auto simp: store_ok_def list_all_iff Write_def)
qed

theorem fenced_history_witness:
  "\<exists>w. reachable cluster_init cluster_step w \<and> records (store w) = [\<lparr>Token = 1, Author = ''a'', Value = ''v''\<rparr>] \<and>
     Write ''b'' 1 ''x'' (store w) = (store w, False)"
proof -
  let ?r = "\<lparr>Token = 1, Author = ''a'', Value = ''v''\<rparr>"
  let ?w1 = "leading_cluster\<lparr>pending := [(''a'', 1, ''v'')]\<rparr>"
  let ?w2 = "leading_cluster\<lparr>store := \<lparr>lastSeenToken = 1, records = [?r]\<rparr>\<rparr>"
  let ?n = "(NewNode ''a'' ''key'' 10)\<lparr>role := Leader, currentLease := Some first_lease\<rparr>"
  have "cluster_step leading_cluster ?w1"
    using cluster_step.begins_write [of leading_cluster "''a''" ?n "''a''" 1 "''v''"]
    by (simp add: leading_cluster_def stopped_cluster_def prepare_write_def first_lease_def NewNode_def)
  moreover have "cluster_step ?w1 ?w2"
    using cluster_step.ends_write [of ?w1 "[]" "''a''" 1 "''v''" "[]" "store ?w2" True]
    by (simp add: leading_cluster_def stopped_cluster_def Write_def New_storage_def)
  ultimately have reach: "reachable cluster_init cluster_step ?w2"
    using leading_cluster_reachable by (blast intro: reachable.move)
  moreover have "Write ''b'' 1 ''x'' (store ?w2) = (store ?w2, False)"
    using fenced_history [OF reach, of ?r ?w2 1 "''b''" "''x''"]
    by (simp add: leading_cluster_def run.run_refl)
  ultimately show ?thesis by (intro exI [of _ ?w2]) simp
qed

text \<open>
  A change of holder raises the token: when a node acquires a key that has no live lease, its
  token is above every token in the coordinator, in the nodes, in the writes in progress and
  in the storage.
\<close>

lemma acquired_token_is_new:
  assumes "reachable cluster_init cluster_step w" and "Suc (length (granted w)) < 2 ^ 63"
    and "Acquire k h d (clock w) (coord w) = (c', Inr l)"
    and "\<And>e. leases (coord w) k = Some e \<Longrightarrow> ExpiresAt e \<le> clock w"
  shows "(leases (coord w) k' = Some e \<longrightarrow> FencingToken e < FencingToken l) \<and>
    (nodes w i = Some n \<and> currentLease n = Some e' \<longrightarrow> FencingToken e' < FencingToken l) \<and>
    list_all (\<lambda>(a, t, v). t < FencingToken l) (pending w) \<and> lastSeenToken (store w) < FencingToken l"
proof -
  have g: "cluster_good w" using reachable_good [OF assms(1)] assms(2) by simp
  then have c: "revision (coord w) = int (length (granted w))" "clockOffset (coord w) = 0"
    by (simp_all add: cluster_good_def coord_ok_def)
  have "FencingToken l = int (length (granted w)) + 1"
    using assms(3) c(2)
  proof (cases rule: Acquire_cases)
    case (own e)
    with assms(4) show ?thesis by fastforce
  next
    case (fresh e)
    with next_revision [OF c(1) assms(2)] show ?thesis by simp
  qed simp
  moreover have "t < int (length (granted w)) + 1" if "given_to (granted w) t a" for t a
    using that by (simp add: given_to_def)
  moreover have "lastSeenToken (store w) < int (length (granted w)) + 1"
    using g by (auto simp: cluster_good_def store_ok_def list_all_iff given_to_def dest!: bspec [OF _ last_in_set])
  ultimately show ?thesis
    using g by (fastforce simp: cluster_good_def coord_ok_def node_ok_def list_all_iff)
qed

text \<open>
  A stopped node can become leader again: when \<open>Stop\<close> runs while the election loop is between
  receiving a tick and taking the node's lock, the loop acquires the lease afterwards, and the
  node that was told to stop is leader.
\<close>

lemma stopped_node_can_lead:
  "\<exists>w w' n m. reachable cluster_init cluster_step w \<and> nodes w ''a'' = Some n \<and> role n = Stopped \<and>
     cluster_step w w' \<and> nodes w' ''a'' = Some m \<and> role m = Leader \<and> \<not> looping m"
proof -
  have "\<exists>n. nodes stopped_cluster ''a'' = Some n \<and> role n = Stopped" by (simp add: stopped_cluster_def)
  then show ?thesis using stopped_cluster_reachable stopped_cluster_leads by blast
qed

end
