(* ===== verification/Saga.thy ===== *)
theory Saga
  imports GoInt
begin

text \<open>
  Lab 29, \<^verbatim>\<open>labs/29-saga-pattern/internal\<close>: the saga orchestrator (\<open>saga/orchestrator.go\<close>), the
  three services (\<open>services/services.go\<close>) and the checkout saga that \<open>cmd/demo/main.go\<close> builds
  from them. A step's functions act on the state the services share; their error is a text.
\<close>

section \<open>The orchestrator\<close>

datatype status = Pending | Executed | StepFailed | Compensated | CompensateFailed

type_synonym 's action = "'s \<Rightarrow> 's \<times> string option"

record 's Step =
  Name :: string
  Perform :: "'s action"
  Compensate :: "'s action option"

type_synonym log = "(string \<times> status) list"

text \<open>
  The error \<open>Execute\<close> returns: what stopped it, and the compensations that failed, by step.
\<close>

datatype cause = Cancelled | FailedAt string string

type_synonym saga_error = "cause \<times> (string \<times> string) list"

text \<open>\<open>compensate\<close>: the steps in the order it visits them, last executed first.\<close>

fun compensate_all :: "'s Step list \<Rightarrow> 's \<Rightarrow> 's \<times> log \<times> (string \<times> string) list" where
  "compensate_all [] s = (s, [], [])"
| "compensate_all (x # xs) s =
     (case Compensate x of
        None \<Rightarrow> compensate_all xs s
      | Some undo \<Rightarrow>
          (case undo s of
             (s1, Some e) \<Rightarrow>
               (let (s2, ls, es) = compensate_all xs s1
                in (s2, (Name x, CompensateFailed) # ls, (Name x, e) # es))
           | (s1, None) \<Rightarrow>
               (let (s2, ls, es) = compensate_all xs s1 in (s2, (Name x, Compensated) # ls, es))))"

definition compensate :: "'s Step list \<Rightarrow> 's \<Rightarrow> 's \<times> log \<times> (string \<times> string) list" where
  "compensate executed s = compensate_all (rev executed) s"

text \<open>
  The loop of \<open>Execute\<close>. \<open>done k\<close> tells whether the context is done at the check before the
  \<open>k\<close>-th remaining step.
\<close>

fun run_steps ::
  "(nat \<Rightarrow> bool) \<Rightarrow> 's Step list \<Rightarrow> 's Step list \<Rightarrow> 's \<Rightarrow> 's \<times> log \<times> saga_error option" where
  "run_steps done [] executed s = (s, [], None)"
| "run_steps done (x # xs) executed s =
     (if done 0 then
        (let (s2, ls, es) = compensate executed s
         in (s2, (Name x, StepFailed) # ls, Some (Cancelled, es)))
      else
        (case Perform x s of
           (s1, Some e) \<Rightarrow>
             (let (s2, ls, es) = compensate executed s1
              in (s2, (Name x, StepFailed) # ls, Some (FailedAt (Name x) e, es)))
         | (s1, None) \<Rightarrow>
             (let (s2, ls, err) = run_steps (\<lambda>k. done (Suc k)) xs (executed @ [x]) s1
              in (s2, (Name x, Executed) # ls, err))))"

record 's Orchestrator =
  steps :: "'s Step list"
  logs :: log

definition NewOrchestrator :: "'s Orchestrator" where
  "NewOrchestrator = \<lparr>steps = [], logs = []\<rparr>"

definition AddStep :: "'s Step \<Rightarrow> 's Orchestrator \<Rightarrow> 's Orchestrator" where
  "AddStep x o' = o'\<lparr>steps := steps o' @ [x]\<rparr>"

definition Execute_saga ::
  "(nat \<Rightarrow> bool) \<Rightarrow> 's Orchestrator \<Rightarrow> 's \<Rightarrow> 's \<times> 's Orchestrator \<times> saga_error option" where
  "Execute_saga done o' s =
     (let (s', ls, err) = run_steps done (steps o') [] s in (s', o'\<lparr>logs := logs o' @ ls\<rparr>, err))"

section \<open>The services\<close>

datatype order_state = OrderPending | OrderApproved | OrderCancelled

text \<open>Go maps read as zero where a key is missing: no stock, no reservation, no lock.\<close>

record 'm shop =
  orders :: "string \<rightharpoonup> order_state"
  locks :: "string \<Rightarrow> bool"
  payments :: "string \<rightharpoonup> 'm"
  processedID :: "string \<Rightarrow> bool"
  stock :: "string \<Rightarrow> int"
  reserved :: "string \<Rightarrow> int"

definition CreateOrder :: "string \<Rightarrow> 'm shop action" where
  "CreateOrder oid s =
     (if locks s oid then (s, Some ''order is semantically locked by another operation'')
      else (s\<lparr>orders := (orders s)(oid \<mapsto> OrderPending), locks := (locks s)(oid := True)\<rparr>, None))"

definition ApproveOrder :: "string \<Rightarrow> 'm shop action" where
  "ApproveOrder oid s =
     (if orders s oid = Some OrderCancelled then (s, Some ''cannot approve cancelled order'')
      else (s\<lparr>orders := (orders s)(oid \<mapsto> OrderApproved), locks := (locks s)(oid := False)\<rparr>, None))"

definition CancelOrder :: "string \<Rightarrow> 'm shop action" where
  "CancelOrder oid s =
     (s\<lparr>orders := (orders s)(oid \<mapsto> OrderCancelled), locks := (locks s)(oid := False)\<rparr>, None)"

definition ProcessPayment :: "string \<Rightarrow> 'm \<Rightarrow> bool \<Rightarrow> 'm shop action" where
  "ProcessPayment pid amount shouldFail s =
     (if processedID s pid then (s, None)
      else if shouldFail then (s, Some ''insufficient funds'')
      else (s\<lparr>payments := (payments s)(pid \<mapsto> amount), processedID := (processedID s)(pid := True)\<rparr>,
            None))"

definition RefundPayment :: "string \<Rightarrow> 'm shop action" where
  "RefundPayment pid s = (s\<lparr>payments := (payments s)(pid := None)\<rparr>, None)"

definition HasPayment :: "string \<Rightarrow> 'm shop \<Rightarrow> bool" where
  "HasPayment pid s \<longleftrightarrow> payments s pid \<noteq> None"

definition Reserve :: "string \<Rightarrow> int \<Rightarrow> 'm shop action" where
  "Reserve item qty s =
     (if stock s item < qty then (s, Some ''out of stock'')
      else (s\<lparr>stock := (stock s)(item := sub64 (stock s item) qty),
              reserved := (reserved s)(item := add64 (reserved s item) qty)\<rparr>, None))"

definition ReleaseStock :: "string \<Rightarrow> int \<Rightarrow> 'm shop action" where
  "ReleaseStock item qty s =
     (if reserved s item < qty then (s, Some ''cannot release more than reserved'')
      else (s\<lparr>reserved := (reserved s)(item := sub64 (reserved s item) qty),
              stock := (stock s)(item := add64 (stock s item) qty)\<rparr>, None))"

text \<open>The saga of the demo: create, pay, reserve, approve.\<close>

definition checkout :: "string \<Rightarrow> 'm \<Rightarrow> bool \<Rightarrow> string \<Rightarrow> int \<Rightarrow> 'm shop Step list" where
  "checkout oid amount shouldFail item qty =
     [\<lparr>Name = ''CreateOrder'', Perform = CreateOrder oid, Compensate = Some (CancelOrder oid)\<rparr>,
      \<lparr>Name = ''ProcessPayment'', Perform = ProcessPayment oid amount shouldFail,
       Compensate = Some (RefundPayment oid)\<rparr>,
      \<lparr>Name = ''ReserveInventory'', Perform = Reserve item qty,
       Compensate = Some (ReleaseStock item qty)\<rparr>,
      \<lparr>Name = ''ApproveOrder'', Perform = ApproveOrder oid, Compensate = None\<rparr>]"

section \<open>What a run logs\<close>

definition compensable :: "'s Step \<Rightarrow> bool" where
  "compensable x \<longleftrightarrow> Compensate x \<noteq> None"

lemma compensate_all_log:
  "compensate_all xs s = (s', ls, es) \<Longrightarrow>
     map fst ls = map Name (filter compensable xs) \<and>
     list_all (\<lambda>l. snd l = Compensated \<or> snd l = CompensateFailed) ls \<and>
     map fst es = map fst (filter (\<lambda>l. snd l = CompensateFailed) ls)"
proof (induction xs arbitrary: s ls es)
  case (Cons x xs)
  show ?case
  proof (cases "Compensate x")
    case None
    with Cons show ?thesis by (simp add: compensable_def)
  next
    case (Some undo)
    obtain s1 r where u: "undo s = (s1, r)" by (cases "undo s")
    obtain s2 ls1 es1 where c: "compensate_all xs s1 = (s2, ls1, es1)" by (cases "compensate_all xs s1") auto
    with Cons.prems Some u have "s2 = s'" by (auto split: option.splits)
    with Cons.IH [of s1 ls1 es1] Cons.prems Some u c show ?thesis
      by (auto simp: compensable_def split: option.splits)
  qed
qed simp

text \<open>
  A run that stops at step \<open>k\<close> logs the executed steps, the failure, and one entry per executed
  step that can be compensated, in reverse order, with the failed ones reported.
\<close>

definition stopped_log ::
  "'s Step list \<Rightarrow> 's Step list \<Rightarrow> nat \<Rightarrow> log \<Rightarrow> (string \<times> string) list \<Rightarrow> bool" where
  "stopped_log executed xs k ls es \<longleftrightarrow>
     (\<exists>cs. ls = map (\<lambda>x. (Name x, Executed)) (take k xs) @ [(Name (xs ! k), StepFailed)] @ cs \<and>
       map fst cs = map Name (filter compensable (rev (executed @ take k xs))) \<and>
       list_all (\<lambda>l. snd l = Compensated \<or> snd l = CompensateFailed) cs \<and>
       map fst es = map fst (filter (\<lambda>l. snd l = CompensateFailed) cs))"

lemma stopped_log_Suc:
  "stopped_log (executed @ [x]) xs k ls es \<Longrightarrow>
   stopped_log executed (x # xs) (Suc k) ((Name x, Executed) # ls) es"
  by (simp add: stopped_log_def)

lemma stopped_log_0:
  assumes "compensate executed s = (s', cs, es)"
  shows "stopped_log executed (x # xs) 0 ((Name x, StepFailed) # cs) es"
  using compensate_all_log [of "rev executed" s s' cs es] assms
  by (simp add: stopped_log_def compensate_def)

lemma run_steps_log:
  "run_steps done xs executed s = (s', ls, err) \<Longrightarrow>
     (case err of
        None \<Rightarrow> ls = map (\<lambda>x. (Name x, Executed)) xs
      | Some (c, es) \<Rightarrow>
          \<exists>k < length xs. stopped_log executed xs k ls es \<and>
            (case c of Cancelled \<Rightarrow> done k | FailedAt n e \<Rightarrow> n = Name (xs ! k)))"
proof (induction "done" xs executed s arbitrary: ls rule: run_steps.induct)
  case (2 "done" x xs executed s)
  show ?case
  proof (cases "done 0")
    case True
    obtain s2 cs es where c: "compensate executed s = (s2, cs, es)" by (cases "compensate executed s") auto
    with 2(2) True stopped_log_0 [OF c, of x xs] show ?thesis by fastforce
  next
    case False
    obtain s1 r where p: "Perform x s = (s1, r)" by (cases "Perform x s")
    show ?thesis
    proof (cases r)
      case (Some e)
      obtain s2 cs es where c: "compensate executed s1 = (s2, cs, es)"
        by (cases "compensate executed s1") auto
      with 2(2) False p Some stopped_log_0 [OF c, of x xs] show ?thesis by fastforce
    next
      case None
      obtain s2 ls1 err1 where r: "run_steps (\<lambda>k. done (Suc k)) xs (executed @ [x]) s1 = (s2, ls1, err1)"
        by (cases "run_steps (\<lambda>k. done (Suc k)) xs (executed @ [x]) s1") auto
      with 2(2) False p None have eq: "s2 = s'" "err1 = err" "ls = (Name x, Executed) # ls1" by auto
      note IH = 2(1) [OF False p [symmetric] None r [unfolded eq(1,2)]]
      show ?thesis
      proof (cases err)
        case None
        with IH show ?thesis by (simp add: eq)
      next
        case (Some ce)
        obtain c es where ce: "ce = (c, es)" by (cases ce)
        with IH Some obtain k where k: "k < length xs" "stopped_log (executed @ [x]) xs k ls1 es"
          "case c of Cancelled \<Rightarrow> done (Suc k) | FailedAt n e \<Rightarrow> n = Name (xs ! k)" by auto
        with stopped_log_Suc [OF k(2)] show ?thesis
          by (auto simp: Some ce eq intro!: exI [of _ "Suc k"] split: cause.splits)
      qed
    qed
  qed
qed simp

section \<open>Rollback\<close>

text \<open>
  A contract for steps: where it holds, a failing step leaves what is observed unchanged, and the
  compensation of a step that succeeded, run in any state that looks like the one the step left,
  restores what was observed before it and does not fail.
\<close>

locale reversible_steps =
  fixes obs :: "'s \<Rightarrow> 'o" and can :: "'s Step \<Rightarrow> 's \<Rightarrow> bool"
  assumes fails_clean: "can x s \<Longrightarrow> Perform x s = (s1, Some e) \<Longrightarrow> obs s1 = obs s"
    and undone: "can x s \<Longrightarrow> Perform x s = (s1, None) \<Longrightarrow> Compensate x = Some undo \<Longrightarrow>
      obs s2 = obs s1 \<Longrightarrow> undo s2 = (s3, r) \<Longrightarrow> obs s3 = obs s \<and> r = None"
begin

text \<open>The contract holds along the run, and only the last step may lack a compensation.\<close>

fun can_all :: "'s Step list \<Rightarrow> 's \<Rightarrow> bool" where
  "can_all [] s = True"
| "can_all (x # xs) s =
     (can x s \<and> (xs = [] \<or> compensable x) \<and>
      (case Perform x s of (s1, None) \<Rightarrow> can_all xs s1 | (s1, Some e) \<Rightarrow> True))"

definition restores :: "'s Step list \<Rightarrow> 'o \<Rightarrow> 'o \<Rightarrow> bool" where
  "restores executed v v0 \<longleftrightarrow>
     (\<forall>s. obs s = v \<longrightarrow> (\<exists>s' ls. compensate executed s = (s', ls, []) \<and> obs s' = v0))"

lemma restores_snoc:
  assumes "restores executed (obs s) v0" and "can x s" and "Perform x s = (s1, None)" and "compensable x"
  shows "restores (executed @ [x]) (obs s1) v0"
  unfolding restores_def
proof (intro allI impI)
  fix s2
  assume s2: "obs s2 = obs s1"
  from assms(4) obtain undo where u: "Compensate x = Some undo" by (auto simp: compensable_def)
  obtain s3 r where r: "undo s2 = (s3, r)" by (cases "undo s2")
  from undone [OF assms(2,3) u s2 r] have "obs s3 = obs s" "r = None" by simp_all
  with assms(1) obtain s' ls where "compensate executed s3 = (s', ls, [])" "obs s' = v0"
    unfolding restores_def by blast
  with u r \<open>r = None\<close> show "\<exists>s' ls. compensate (executed @ [x]) s2 = (s', ls, []) \<and> obs s' = v0"
    by (simp add: compensate_def)
qed

lemma rollback:
  "run_steps done xs executed s = (s', ls, Some err) \<Longrightarrow> can_all xs s \<Longrightarrow>
   restores executed (obs s) v0 \<Longrightarrow> obs s' = v0 \<and> snd err = []"
proof (induction "done" xs executed s arbitrary: ls rule: run_steps.induct)
  case (2 "done" x xs executed s)
  have comp: "obs s2 = v0 \<and> es = []"
    if "compensate executed t = (s2, cs, es)" and "obs t = obs s" for t s2 cs es
    using 2(4) that unfolding restores_def by (metis prod.inject)
  show ?case
  proof (cases "done 0")
    case True
    obtain s2 cs es where c: "compensate executed s = (s2, cs, es)" by (cases "compensate executed s") auto
    with 2(2) True comp [OF c refl] show ?thesis by auto
  next
    case False
    obtain s1 r where p: "Perform x s = (s1, r)" by (cases "Perform x s")
    show ?thesis
    proof (cases r)
      case (Some e)
      obtain s2 cs es where c: "compensate executed s1 = (s2, cs, es)"
        by (cases "compensate executed s1") auto
      from 2(3) have "can x s" by simp
      with p Some have "obs s1 = obs s" by (metis fails_clean)
      with comp [OF c this] 2(2) False p Some c show ?thesis by auto
    next
      case None
      obtain s2 ls1 err1 where r: "run_steps (\<lambda>k. done (Suc k)) xs (executed @ [x]) s1 = (s2, ls1, err1)"
        by (cases "run_steps (\<lambda>k. done (Suc k)) xs (executed @ [x]) s1") auto
      with 2(2) False p None have eq: "s2 = s'" "err1 = Some err" by auto
      have "xs \<noteq> []" using r eq by auto
      with 2(3) p None have c: "can x s" "compensable x" "can_all xs s1" by auto
      from restores_snoc [OF 2(4) c(1) _ c(2)] p None
      have "restores (executed @ [x]) (obs s1) v0" by simp
      from 2(1) [OF False p [symmetric] None r [unfolded eq] c(3) this] show ?thesis .
    qed
  qed
qed simp

lemma failed_run_restores:
  "run_steps done xs [] s = (s', ls, Some err) \<Longrightarrow> can_all xs s \<Longrightarrow> obs s' = obs s \<and> snd err = []"
  by (erule rollback) (simp_all add: restores_def compensate_def)

end

section \<open>The checkout saga\<close>

text \<open>
  What a failed checkout must leave as it was: locks, payments, stock and reservations. The order
  stays, as cancelled, and the payment identifier stays processed.
\<close>

definition shop_obs :: "'m shop \<Rightarrow> (string \<Rightarrow> bool) \<times> (string \<rightharpoonup> 'm) \<times> (string \<Rightarrow> int) \<times> (string \<Rightarrow> int)" where
  "shop_obs s = (locks s, payments s, stock s, reserved s)"

definition stock_ok :: "string \<Rightarrow> int \<Rightarrow> 'm shop \<Rightarrow> bool" where
  "stock_ok item qty s \<longleftrightarrow>
     in64 (stock s item) \<and> 0 \<le> reserved s item \<and> in64 (reserved s item) \<and>
     in64 (reserved s item + qty)"

definition shop_can :: "'m shop Step \<Rightarrow> 'm shop \<Rightarrow> bool" where
  "shop_can x s \<longleftrightarrow>
     (\<exists>oid amount shouldFail item qty.
        x \<in> set (checkout oid amount shouldFail item qty) \<and> \<not> processedID s oid \<and>
        payments s oid = None \<and> stock_ok item qty s) \<or>
     (\<exists>oid amount shouldFail item qty.
        x \<in> set (drop 2 (checkout oid amount shouldFail item qty)) \<and> stock_ok item qty s) \<or>
     (\<exists>oid. Perform x = ApproveOrder oid \<and> Compensate x = None)"

lemma reserve_undo:
  assumes "stock_ok item qty s" and "Reserve item qty s = (s1, None)"
    and "shop_obs s2 = shop_obs s1" and "ReleaseStock item qty s2 = (s3, r)"
  shows "shop_obs s3 = shop_obs s \<and> r = None"
proof -
  from assms(1) have ok: "in64 (stock s item)" "0 \<le> reserved s item" "in64 (reserved s item)"
    "add64 (reserved s item) qty = reserved s item + qty" by (simp_all add: stock_ok_def add64_id)
  with assms(2-4) show ?thesis
    by (auto simp: Reserve_def ReleaseStock_def shop_obs_def fun_eq_iff sub64_def wrap64_id
        add64_sub64 [unfolded sub64_def] split: if_splits)
qed

lemma shop_can_cases:
  assumes "shop_can x s" and "Compensate x = Some undo"
  obtains
    (create) oid where "Perform x = CreateOrder oid" "undo = CancelOrder oid"
  | (pay) oid amount shouldFail where "Perform x = ProcessPayment oid amount shouldFail"
      "undo = RefundPayment oid" "\<not> processedID s oid" "payments s oid = None"
  | (reserve) item qty where "Perform x = Reserve item qty" "undo = ReleaseStock item qty"
      "stock_ok item qty s"
  using assms by (auto simp: shop_can_def checkout_def)

interpretation shop_saga: reversible_steps shop_obs shop_can
proof
  fix x :: "'m shop Step" and s s1 e
  assume "shop_can x s" and "Perform x s = (s1, Some e)"
  then show "shop_obs s1 = shop_obs s"
    by (auto simp: shop_can_def checkout_def CreateOrder_def ProcessPayment_def Reserve_def
        ApproveOrder_def split: if_splits)
next
  fix x :: "'m shop Step" and s s1 undo s2 s3 r
  assume can: "shop_can x s" and run: "Perform x s = (s1, None)" "Compensate x = Some undo"
    "shop_obs s2 = shop_obs s1" "undo s2 = (s3, r)"
  from run show "shop_obs s3 = shop_obs s \<and> r = None"
  proof (cases rule: shop_can_cases [OF can run(2), case_names create pay reserve])
    case (reserve item qty)
    with run show ?thesis by (intro reserve_undo [of item qty s s1 s2]) simp_all
  qed (auto simp: shop_obs_def CreateOrder_def CancelOrder_def ProcessPayment_def RefundPayment_def
      fun_eq_iff split: if_splits)
qed

lemma checkout_can_all:
  fixes s :: "'m shop"
  assumes "\<not> processedID s oid" and "payments s oid = None" and "stock_ok item qty s"
  shows "shop_saga.can_all (checkout oid amount shouldFail item qty) s"
proof -
  have later: "shop_can x t" if "x \<in> set (drop 2 (checkout oid amount shouldFail item qty))"
    and "stock_ok item qty t" for x and t :: "'m shop"
    using that unfolding shop_can_def by blast
  have early: "shop_can x t" if "x \<in> set (checkout oid amount shouldFail item qty)"
    and "\<not> processedID t oid" and "payments t oid = None" and "stock_ok item qty t" for x and t :: "'m shop"
    using that unfolding shop_can_def by blast
  have approve: "shop_can x t" if "Perform x = ApproveOrder oid" "Compensate x = None"
    for x and t :: "'m shop" using that unfolding shop_can_def by blast
  show ?thesis
    using assms early later approve
    by (auto simp: checkout_def compensable_def CreateOrder_def ProcessPayment_def Reserve_def
        stock_ok_def split: option.splits)
qed

lemma checkout_success:
  assumes "run_steps done (checkout oid amount shouldFail item qty) [] s = (s', ls, None)"
    and "\<not> processedID s oid"
  shows "orders s' oid = Some OrderApproved \<and> \<not> locks s' oid \<and> payments s' oid = Some amount \<and>
    stock s' item = sub64 (stock s item) qty \<and> reserved s' item = add64 (reserved s item) qty"
  using assms
  by (auto simp: checkout_def CreateOrder_def ProcessPayment_def Reserve_def ApproveOrder_def
      split: prod.splits option.splits if_splits)

section \<open>Properties\<close>

text \<open>
  What a saga logs: a run without error has executed every step in order; a run that stops at
  a step has executed the steps before it, logs its failure, and then attempts the compensation
  of every executed step that has one, last executed first, also after a compensation has
  failed; the error names exactly the compensations that failed.
\<close>

lemma saga_log:
  assumes "run_steps done xs [] s = (s', ls, err)"
  shows "case err of
      None \<Rightarrow> ls = map (\<lambda>x. (Name x, Executed)) xs
    | Some (c, es) \<Rightarrow>
        \<exists>k < length xs. stopped_log [] xs k ls es \<and>
          (case c of Cancelled \<Rightarrow> done k | FailedAt n e \<Rightarrow> n = Name (xs ! k))"
  by (rule run_steps_log [OF assms])



text \<open>
  A payment that has been refunded can never be made again: processing it once more reports
  success, and records no payment.
\<close>

lemma refunded_payment_lost:
  "\<exists>s2. RefundPayment pid (fst (ProcessPayment pid amount False s)) = (s2, None) \<and>
     ProcessPayment pid amount' False s2 = (s2, None) \<and> \<not> HasPayment pid s2"
  by (auto simp: ProcessPayment_def RefundPayment_def HasPayment_def)

end
