(* ===== verification/Fnv.thy ===== *)
theory Fnv
  imports Prelude "HOL-Library.Word"
begin

unbundle bit_operations_syntax

text \<open>
  The hash of Go's \<open>hash/fnv\<close> that labs 32 and 39 use. A Go string is a byte sequence, which a
  HOL \<open>string\<close> is.
\<close>

type_synonym word64 = "64 word"

text \<open>FNV-1a with 64 bits, as \<open>hash/fnv\<close> specifies it.\<close>

definition fnv_offset :: word64 where
  "fnv_offset = 14695981039346656037"

definition fnv_prime :: word64 where
  "fnv_prime = 1099511628211"

definition fnv64a :: "string \<Rightarrow> word64" where
  "fnv64a key = foldl (\<lambda>h c. (h XOR of_char c) * fnv_prime) fnv_offset key"

end
