(* ===== verification/BloomFilter.thy ===== *)
theory BloomFilter
  imports Fnv
begin

unbundle bit_operations_syntax

text \<open>
  Lab 39: the Bloom filter of \<^verbatim>\<open>labs/39-bloom-filters/internal/bloom/bloom.go\<close> over 64-bit words,
  and the LSM store and the cache of \<^verbatim>\<open>internal/store\<close> that use it. A Go string is a byte
  sequence, which a HOL \<open>string\<close> is. A panic of the source (a remainder by zero, an index out of
  range) is \<open>None\<close>. The numbers of bits and probes come from floating-point formulas of the
  expected size; they are a parameter \<open>sizing\<close> here.
\<close>

section \<open>Hashing\<close>

definition baseHashes :: "string \<Rightarrow> word64 \<times> word64" where
  "baseHashes key =
     (let h1 = fnv64a key;
          h2 = h1 XOR (drop_bit 17 h1 OR push_bit 47 h1)
      in (h1, if h2 = 0 then 0xdeadbeefdeadbeef else h2))"

definition doubleHash :: "word64 \<Rightarrow> word64 \<Rightarrow> word64 \<Rightarrow> word64 \<Rightarrow> word64" where
  "doubleHash h1 h2 i m = (h1 + i * h2) mod m"

section \<open>The filter\<close>

record Filter =
  bits :: "word64 list"
  nbits :: word64
  probes :: word64

text \<open>\<open>New\<close>, for the number of bits and of probes that the size formulas gave.\<close>

definition NewFilter :: "word64 \<Rightarrow> word64 \<Rightarrow> Filter" where
  "NewFilter m k = \<lparr>bits = replicate (unat ((m + 63) div 64)) 0, nbits = m, probes = k\<rparr>"

definition set_position :: "word64 \<Rightarrow> word64 list \<Rightarrow> word64 list option" where
  "set_position pos bs =
     (let i = unat (pos div 64) in
      if i < length bs then Some (bs[i := bs ! i OR push_bit (unat (pos mod 64)) 1]) else None)"

definition test_position :: "word64 \<Rightarrow> word64 list \<Rightarrow> bool option" where
  "test_position pos bs =
     (let i = unat (pos div 64) in
      if i < length bs then Some (bs ! i AND push_bit (unat (pos mod 64)) 1 \<noteq> 0) else None)"

text \<open>The loops of \<open>Add\<close> and \<open>Check\<close> over the probe numbers; a modulus of zero panics.\<close>

fun add_probes :: "word64 \<Rightarrow> word64 \<Rightarrow> word64 \<Rightarrow> nat list \<Rightarrow> word64 list \<Rightarrow> word64 list option" where
  "add_probes h1 h2 m [] bs = Some bs"
| "add_probes h1 h2 m (i # is) bs =
     (if m = 0 then None
      else (case set_position (doubleHash h1 h2 (of_nat i) m) bs of
              None \<Rightarrow> None
            | Some bs' \<Rightarrow> add_probes h1 h2 m is bs'))"

fun check_probes :: "word64 \<Rightarrow> word64 \<Rightarrow> word64 \<Rightarrow> nat list \<Rightarrow> word64 list \<Rightarrow> bool option" where
  "check_probes h1 h2 m [] bs = Some True"
| "check_probes h1 h2 m (i # is) bs =
     (if m = 0 then None
      else (case test_position (doubleHash h1 h2 (of_nat i) m) bs of
              None \<Rightarrow> None
            | Some b \<Rightarrow> if b then check_probes h1 h2 m is bs else Some False))"

definition Add :: "string \<Rightarrow> Filter \<Rightarrow> Filter option" where
  "Add key f =
     (let (h1, h2) = baseHashes key in
      map_option (\<lambda>bs. f\<lparr>bits := bs\<rparr>) (add_probes h1 h2 (nbits f) [0..<unat (probes f)] (bits f)))"

definition Check :: "string \<Rightarrow> Filter \<Rightarrow> bool option" where
  "Check key f =
     (let (h1, h2) = baseHashes key in
      check_probes h1 h2 (nbits f) [0..<unat (probes f)] (bits f))"

text \<open>\<open>for k := range kvs { bf.Add([]byte(k)) }\<close>.\<close>

fun add_keys :: "string list \<Rightarrow> Filter \<Rightarrow> Filter option" where
  "add_keys [] f = Some f"
| "add_keys (k # ks) f = (case Add k f of None \<Rightarrow> None | Some f' \<Rightarrow> add_keys ks f')"

section \<open>The filter's contract\<close>

text \<open>
  What the stores rely on: a filter that is in order never panics, says yes to every key added,
  and goes on saying yes whatever else is added.
\<close>

locale membership_filter =
  fixes ok :: "'f \<Rightarrow> bool"
    and add :: "'k \<Rightarrow> 'f \<Rightarrow> 'f option"
    and check :: "'k \<Rightarrow> 'f \<Rightarrow> bool option"
  assumes add_ok: "ok f \<Longrightarrow> \<exists>f'. add k f = Some f' \<and> ok f'"
    and check_ok: "ok f \<Longrightarrow> \<exists>b. check k f = Some b"
    and check_added: "ok f \<Longrightarrow> add k f = Some f' \<Longrightarrow> check k f' = Some True"
    and check_kept: "ok f \<Longrightarrow> add j f = Some f' \<Longrightarrow> check k f = Some True \<Longrightarrow> check k f' = Some True"
begin

fun add_all :: "'k list \<Rightarrow> 'f \<Rightarrow> 'f option" where
  "add_all [] f = Some f"
| "add_all (k # ks) f = (case add k f of None \<Rightarrow> None | Some f' \<Rightarrow> add_all ks f')"

lemma add_all_kept:
  "ok f \<Longrightarrow> add_all ks f = Some f' \<Longrightarrow> check k f = Some True \<Longrightarrow> check k f' = Some True"
proof (induction ks arbitrary: f)
  case (Cons j js)
  from add_ok [OF Cons.prems(1), of j] obtain g where g: "add j f = Some g" "ok g" by blast
  with Cons.IH [OF g(2)] Cons.prems check_kept [OF Cons.prems(1) g(1)] show ?case by simp
qed simp

lemma add_all_correct:
  "ok f \<Longrightarrow> \<exists>f'. add_all ks f = Some f' \<and> ok f' \<and> (\<forall>k \<in> set ks. check k f' = Some True)"
proof (induction ks arbitrary: f)
  case (Cons j js)
  from add_ok [OF Cons.prems, of j] obtain g where g: "add j f = Some g" "ok g" by blast
  from Cons.IH [OF g(2)] obtain f' where f': "add_all js g = Some f'" "ok f'"
    "\<forall>k \<in> set js. check k f' = Some True" by blast
  with add_all_kept [OF g(2) f'(1) check_added [OF Cons.prems g(1)]] g show ?case by simp
qed simp

text \<open>A negative answer is therefore definite.\<close>

lemma absent:
  assumes "ok f" and "add_all ks f = Some f'" and "check k f' = Some False"
  shows "k \<notin> set ks"
  using add_all_correct [OF assms(1), of ks] assms(2,3) by auto

end

section \<open>The Bloom filter meets it\<close>

definition filter_ok :: "Filter \<Rightarrow> bool" where
  "filter_ok f \<longleftrightarrow> nbits f \<noteq> 0 \<and> unat (nbits f) + 63 < 2 ^ 64 \<and>
     length (bits f) = (unat (nbits f) + 63) div 64"

lemma filter_ok_New:
  assumes "m \<noteq> 0" and "unat m + 63 < 2 ^ 64"
  shows "filter_ok (NewFilter m k)"
proof -
  have "unat (m + 63) = unat m + 63" using assms(2) by (simp add: unat_add_lem [THEN iffD1])
  then show ?thesis using assms by (simp add: filter_ok_def NewFilter_def unat_div)
qed

lemma position_in_range:
  assumes "filter_ok f"
  shows "unat (doubleHash h1 h2 i (nbits f) div 64) < length (bits f)"
proof -
  have "0 < unat (nbits f)" using assms by (simp add: filter_ok_def unat_gt_0)
  then have "unat (doubleHash h1 h2 i (nbits f)) < unat (nbits f)"
    by (simp add: doubleHash_def unat_mod)
  then have "unat (doubleHash h1 h2 i (nbits f)) div 64 \<le> (unat (nbits f) - 1) div 64"
    by (intro div_le_mono) simp
  also have "\<dots> < (unat (nbits f) + 63) div 64" using \<open>0 < unat (nbits f)\<close> by simp
  finally show ?thesis using assms by (simp add: filter_ok_def unat_div)
qed

definition in_range :: "word64 \<Rightarrow> word64 list \<Rightarrow> bool" where
  "in_range pos bs \<longleftrightarrow> unat (pos div 64) < length bs"

lemma test_position_bit:
  "in_range pos bs \<Longrightarrow>
   test_position pos bs = Some (bit (bs ! unat (pos div 64)) (unat (pos mod 64)))"
proof -
  have "w AND push_bit n 1 \<noteq> 0 \<longleftrightarrow> bit w n" for w :: word64 and n
    by (simp add: push_bit_eq_mult and_exp_eq_0_iff_not_bit)
  then show "in_range pos bs \<Longrightarrow> ?thesis" by (simp add: test_position_def in_range_def)
qed

lemma set_position_some:
  "in_range pos bs \<Longrightarrow> \<exists>bs'. set_position pos bs = Some bs' \<and> length bs' = length bs"
  by (simp add: set_position_def in_range_def Let_def)

lemma set_position_tests:
  assumes "in_range pos bs" and "set_position pos bs = Some bs'" and "in_range q bs"
  shows "test_position q bs' = Some (q = pos \<or> test_position q bs = Some True)"
proof -
  from assms(1,2) have bs': "bs' = bs[unat (pos div 64) := bs ! unat (pos div 64) OR push_bit (unat (pos mod 64)) 1]"
    by (simp add: set_position_def in_range_def Let_def)
  have small: "unat (q mod 64) < 64" for q :: word64 by (simp add: unat_mod)
  have split: "q = pos \<longleftrightarrow> unat (q div 64) = unat (pos div 64) \<and> unat (q mod 64) = unat (pos mod 64)"
    by (metis unat_div unat_mod unat_eq_nat_uint word_unat_eq_iff div_mult_mod_eq unat_numeral)
  from assms(3) bs' have q': "in_range q bs'" by (simp add: in_range_def)
  show ?thesis
    unfolding test_position_bit [OF q'] test_position_bit [OF assms(3)] split
    using assms(1,3) small [of q] small [of pos]
    by (auto simp: bs' in_range_def nth_list_update bit_or_iff bit_exp_iff)
qed

definition covers_range :: "word64 \<Rightarrow> word64 list \<Rightarrow> bool" where
  "covers_range m bs \<longleftrightarrow> (\<forall>h1 h2 i. in_range (doubleHash h1 h2 i m) bs)"

lemma covers_range_length: "covers_range m bs \<Longrightarrow> length bs' = length bs \<Longrightarrow> covers_range m bs'"
  by (simp add: covers_range_def in_range_def)

lemma filter_ok_covers: "filter_ok f \<Longrightarrow> covers_range (nbits f) (bits f)"
  using position_in_range by (simp add: covers_range_def in_range_def)

lemma check_probes_result:
  "m \<noteq> 0 \<Longrightarrow> covers_range m bs \<Longrightarrow>
   check_probes h1 h2 m is bs =
     Some (\<forall>i \<in> set is. test_position (doubleHash h1 h2 (of_nat i) m) bs = Some True)"
proof (induction "is")
  case (Cons i "is")
  then have "in_range (doubleHash h1 h2 (of_nat i) m) bs" by (simp add: covers_range_def)
  from test_position_bit [OF this] Cons show ?case by simp
qed simp

lemma add_probes_result:
  "m \<noteq> 0 \<Longrightarrow> covers_range m bs \<Longrightarrow>
   \<exists>bs'. add_probes h1 h2 m is bs = Some bs' \<and> length bs' = length bs \<and>
     (\<forall>q. in_range q bs \<longrightarrow> (test_position q bs' = Some True \<longleftrightarrow>
        q \<in> (\<lambda>i. doubleHash h1 h2 (of_nat i) m) ` set is \<or> test_position q bs = Some True))"
proof (induction "is" arbitrary: bs)
  case (Cons i "is")
  let ?p = "doubleHash h1 h2 (of_nat i) m"
  from Cons.prems have p: "in_range ?p bs" by (simp add: covers_range_def)
  from set_position_some [OF p] obtain bs1 where
    b1: "set_position ?p bs = Some bs1" "length bs1 = length bs" by blast
  from Cons.IH [OF Cons.prems(1) covers_range_length [OF Cons.prems(2) b1(2)]] obtain bs2 where
    b2: "add_probes h1 h2 m is bs1 = Some bs2" "length bs2 = length bs1" and
    t: "\<And>q. in_range q bs1 \<Longrightarrow> test_position q bs2 = Some True \<longleftrightarrow>
      q \<in> (\<lambda>i. doubleHash h1 h2 (of_nat i) m) ` set is \<or> test_position q bs1 = Some True"
    by blast
  have "in_range q bs1" if "in_range q bs" for q using that b1(2) by (simp add: in_range_def)
  then have "test_position q bs2 = Some True \<longleftrightarrow>
      q \<in> (\<lambda>i. doubleHash h1 h2 (of_nat i) m) ` set (i # is) \<or> test_position q bs = Some True"
    if "in_range q bs" for q
    using t [of q] set_position_tests [OF p b1(1) that] that by auto
  with b1 b2 Cons.prems(1) show ?case by auto
qed simp

lemma Add_result:
  assumes "filter_ok f"
  obtains f' where "Add key f = Some f'" "filter_ok f'" "nbits f' = nbits f" "probes f' = probes f"
    "\<And>q. in_range q (bits f) \<Longrightarrow> test_position q (bits f') = Some True \<longleftrightarrow>
      q \<in> (\<lambda>i. doubleHash (fst (baseHashes key)) (snd (baseHashes key)) (of_nat i) (nbits f)) `
          set [0..<unat (probes f)] \<or> test_position q (bits f) = Some True"
    "length (bits f') = length (bits f)"
proof -
  obtain h1 h2 where h: "baseHashes key = (h1, h2)" by (cases "baseHashes key")
  have "nbits f \<noteq> 0" using assms by (simp add: filter_ok_def)
  from add_probes_result [OF this filter_ok_covers [OF assms], of h1 h2 "[0..<unat (probes f)]"]
  obtain bs' where b: "add_probes h1 h2 (nbits f) [0..<unat (probes f)] (bits f) = Some bs'"
    "length bs' = length (bits f)"
    and t: "\<And>q. in_range q (bits f) \<Longrightarrow> test_position q bs' = Some True \<longleftrightarrow>
      q \<in> (\<lambda>i. doubleHash h1 h2 (of_nat i) (nbits f)) ` set [0..<unat (probes f)] \<or>
      test_position q (bits f) = Some True" by blast
  have run: "Add key f = Some (f\<lparr>bits := bs'\<rparr>)" using b by (simp add: Add_def h)
  show thesis by (rule that [OF run]) (use assms b t h in \<open>simp_all add: filter_ok_def\<close>)
qed

lemma Check_result:
  assumes "filter_ok f"
  shows "Check key f = Some (\<forall>i \<in> set [0..<unat (probes f)].
    test_position (doubleHash (fst (baseHashes key)) (snd (baseHashes key)) (of_nat i) (nbits f))
      (bits f) = Some True)"
proof -
  have "nbits f \<noteq> 0" using assms by (simp add: filter_ok_def)
  from check_probes_result [OF this filter_ok_covers [OF assms]] show ?thesis
    by (simp add: Check_def split: prod.splits)
qed

lemma probe_in_range:
  "filter_ok f \<Longrightarrow> in_range (doubleHash h1 h2 i (nbits f)) (bits f)"
  by (drule filter_ok_covers) (simp add: covers_range_def)

interpretation bloom: membership_filter filter_ok Add Check
proof
  fix f :: Filter and k
  assume ok: "filter_ok f"
  show "\<exists>f'. Add k f = Some f' \<and> filter_ok f'" by (rule Add_result [OF ok, of k]) blast
  show "\<exists>b. Check k f = Some b" using Check_result [OF ok] by blast
next
  fix f f' :: Filter and k
  assume ok: "filter_ok f" and add: "Add k f = Some f'"
  show "Check k f' = Some True"
    by (rule Add_result [OF ok, of k])
      (use add probe_in_range [OF ok] in \<open>simp add: Check_result\<close>)
next
  fix f f' :: Filter and j k
  assume ok: "filter_ok f" and add: "Add j f = Some f'" and "Check k f = Some True"
  then show "Check k f' = Some True"
    by (rule_tac Add_result [OF ok, of j])
      (use add probe_in_range [OF ok] in \<open>simp add: Check_result ok\<close>)
qed

lemma add_keys_all: "add_keys ks f = bloom.add_all ks f"
  by (induction ks arbitrary: f) (simp_all split: option.splits)

section \<open>The LSM store\<close>

text \<open>
  A segment: its data and its filter, if it has one. \<open>NewSegment\<close> adds the keys in the order in
  which the map is traversed; \<open>sizing\<close> gives the numbers of bits and of probes for a size.
\<close>

record Segment =
  seg_data :: "string \<rightharpoonup> string"
  seg_filter :: "Filter option"

definition NewSegment ::
  "(nat \<Rightarrow> word64 \<times> word64) \<Rightarrow> (string \<times> string) list \<Rightarrow> bool \<Rightarrow> Segment option" where
  "NewSegment sizing kvs useFilter =
     (if useFilter \<and> kvs \<noteq> [] then
        (case add_keys (map fst kvs) (NewFilter (fst (sizing (length kvs))) (snd (sizing (length kvs)))) of
           None \<Rightarrow> None
         | Some bf \<Rightarrow> Some \<lparr>seg_data = map_of kvs, seg_filter = Some bf\<rparr>)
      else Some \<lparr>seg_data = map_of kvs, seg_filter = None\<rparr>)"

record LSMStore =
  segments :: "Segment list"
  diskReads :: nat

definition AddSegment :: "Segment \<Rightarrow> LSMStore \<Rightarrow> LSMStore" where
  "AddSegment seg s = s\<lparr>segments := segments s @ [seg]\<rparr>"

text \<open>\<open>Get\<close>: the loop from the last segment to the first, with the disk reads it makes.\<close>

fun lsm_loop :: "string \<Rightarrow> Segment list \<Rightarrow> (string option \<times> nat) option" where
  "lsm_loop key [] = Some (None, 0)"
| "lsm_loop key (seg # segs) =
     (case (case seg_filter seg of None \<Rightarrow> Some True | Some f \<Rightarrow> Check key f) of
        None \<Rightarrow> None
      | Some False \<Rightarrow> lsm_loop key segs
      | Some True \<Rightarrow>
          (case seg_data seg key of
             Some v \<Rightarrow> Some (Some v, 1)
           | None \<Rightarrow> map_option (\<lambda>(r, n). (r, Suc n)) (lsm_loop key segs)))"

definition lsm_get :: "string \<Rightarrow> LSMStore \<Rightarrow> (string option \<times> LSMStore) option" where
  "lsm_get key s =
     map_option (\<lambda>(r, n). (r, s\<lparr>diskReads := diskReads s + n\<rparr>)) (lsm_loop key (rev (segments s)))"

text \<open>A segment that a filter guards has all its keys in the filter.\<close>

definition segment_ok :: "Segment \<Rightarrow> bool" where
  "segment_ok seg \<longleftrightarrow>
     (case seg_filter seg of
        None \<Rightarrow> True
      | Some f \<Rightarrow> filter_ok f \<and> (\<forall>k \<in> dom (seg_data seg). Check k f = Some True))"

definition sizing_ok :: "(nat \<Rightarrow> word64 \<times> word64) \<Rightarrow> bool" where
  "sizing_ok sizing \<longleftrightarrow> (\<forall>n > 0. fst (sizing n) \<noteq> 0 \<and> unat (fst (sizing n)) + 63 < 2 ^ 64)"

lemma NewSegment_ok:
  assumes "sizing_ok sizing"
  shows "\<exists>seg. NewSegment sizing kvs useFilter = Some seg \<and> segment_ok seg \<and> seg_data seg = map_of kvs"
proof (cases "useFilter \<and> kvs \<noteq> []")
  case True
  then have "filter_ok (NewFilter (fst (sizing (length kvs))) (snd (sizing (length kvs))))"
    using assms by (intro filter_ok_New) (simp_all add: sizing_ok_def)
  from bloom.add_all_correct [OF this, of "map fst kvs"] True show ?thesis
    by (auto simp: NewSegment_def segment_ok_def dom_map_of_conv_image_fst add_keys_all)
qed (auto simp: NewSegment_def segment_ok_def)

text \<open>What the store means: the value of the newest segment that has the key.\<close>

fun newest :: "string \<Rightarrow> Segment list \<Rightarrow> string option" where
  "newest key [] = None"
| "newest key (seg # segs) =
     (case seg_data seg key of Some v \<Rightarrow> Some v | None \<Rightarrow> newest key segs)"

lemma lsm_loop_newest:
  "list_all segment_ok segs \<Longrightarrow>
   \<exists>n \<le> length segs. lsm_loop key segs = Some (newest key segs, n)"
proof (induction segs)
  case (Cons seg segs)
  then obtain n where n: "n \<le> length segs" "lsm_loop key segs = Some (newest key segs, n)" by auto
  show ?case
  proof (cases "seg_filter seg")
    case None
    with n show ?thesis by (auto split: option.splits)
  next
    case (Some f)
    with Cons.prems have f: "filter_ok f" "\<And>v. seg_data seg key = Some v \<Longrightarrow> Check key f = Some True"
      by (auto simp: segment_ok_def)
    from bloom.check_ok [OF f(1), of key] obtain b where "Check key f = Some b" by blast
    with n Some f(2) show ?thesis by (cases b) (auto split: option.splits)
  qed
qed simp

section \<open>The cache\<close>

text \<open>
  The cache in front of a backend, with its optional filter; the backend is a parameter.
\<close>

record Cache =
  data :: "string \<rightharpoonup> string"
  gate :: "Filter option"
  backendCalls :: nat

definition cache_add :: "string \<Rightarrow> string \<Rightarrow> Cache \<Rightarrow> Cache option" where
  "cache_add key v c =
     (let c1 = c\<lparr>data := (data c)(key \<mapsto> v)\<rparr> in
      case gate c of
        None \<Rightarrow> Some c1
      | Some f \<Rightarrow> map_option (\<lambda>f'. c1\<lparr>gate := Some f'\<rparr>) (Add key f))"

text \<open>\<open>Get\<close> past the gate and the cache: the backend call, whose value is added.\<close>

definition cache_fetch ::
  "(string \<rightharpoonup> string) \<Rightarrow> string \<Rightarrow> Cache \<Rightarrow> (Cache \<times> string option) option" where
  "cache_fetch backend key c =
     (let c1 = c\<lparr>backendCalls := Suc (backendCalls c)\<rparr> in
      case backend key of
        None \<Rightarrow> Some (c1, None)
      | Some v \<Rightarrow> map_option (\<lambda>c2. (c2, Some v)) (cache_add key v c1))"

definition cache_get ::
  "(string \<rightharpoonup> string) \<Rightarrow> string \<Rightarrow> Cache \<Rightarrow> (Cache \<times> string option) option" where
  "cache_get backend key c =
     (case (case gate c of None \<Rightarrow> Some True | Some f \<Rightarrow> Check key f) of
        None \<Rightarrow> None
      | Some False \<Rightarrow> Some (c, None)
      | Some True \<Rightarrow>
          (case data c key of
             Some v \<Rightarrow> Some (c, Some v)
           | None \<Rightarrow> cache_fetch backend key c))"

definition cache_ok :: "Cache \<Rightarrow> bool" where
  "cache_ok c \<longleftrightarrow>
     (case gate c of
        None \<Rightarrow> True
      | Some f \<Rightarrow> filter_ok f \<and> (\<forall>k \<in> dom (data c). Check k f = Some True))"

lemma cache_add_ok:
  assumes "cache_ok c"
  shows "\<exists>c'. cache_add key v c = Some c' \<and> cache_ok c' \<and> data c' = (data c)(key \<mapsto> v)"
proof (cases "gate c")
  case None
  then show ?thesis by (simp add: cache_add_def cache_ok_def)
next
  case (Some f)
  with assms have f: "filter_ok f" "\<And>k. k \<in> dom (data c) \<Longrightarrow> Check k f = Some True"
    by (auto simp: cache_ok_def)
  from bloom.add_ok [OF f(1), of key] obtain f' where f': "Add key f = Some f'" "filter_ok f'" by blast
  with f Some bloom.check_added [OF f(1) f'(1)] bloom.check_kept [OF f(1) f'(1)] show ?thesis
    by (auto simp: cache_add_def cache_ok_def Let_def)
qed

lemma cache_fetch_ok:
  assumes "cache_ok c"
  shows "\<exists>c' r. cache_fetch backend key c = Some (c', r) \<and> cache_ok c'"
proof -
  let ?c1 = "c\<lparr>backendCalls := Suc (backendCalls c)\<rparr>"
  have ok: "cache_ok ?c1" using assms by (simp add: cache_ok_def split: option.splits)
  show ?thesis
  proof (cases "backend key")
    case None
    with ok show ?thesis by (simp add: cache_fetch_def)
  next
    case (Some v)
    with cache_add_ok [OF ok, of key v] show ?thesis by (auto simp: cache_fetch_def)
  qed
qed

lemma cache_get_cases:
  assumes "cache_ok c"
  shows "(\<exists>v. data c key = Some v \<and> cache_get backend key c = Some (c, Some v)) \<or>
    (data c key = None \<and> cache_get backend key c = Some (c, None)) \<or>
    (data c key = None \<and> cache_get backend key c = cache_fetch backend key c)"
proof (cases "gate c")
  case None
  then show ?thesis by (cases "data c key") (simp_all add: cache_get_def)
next
  case (Some f)
  with assms have f: "filter_ok f" "\<And>k. k \<in> dom (data c) \<Longrightarrow> Check k f = Some True"
    by (auto simp: cache_ok_def)
  from bloom.check_ok [OF f(1), of key] obtain b where "Check key f = Some b" by blast
  with f(2) [of key] Some show ?thesis
    by (cases b; cases "data c key") (auto simp: cache_get_def)
qed

lemma cache_get_ok:
  assumes "cache_ok c"
  shows "\<exists>c' r. cache_get backend key c = Some (c', r) \<and> cache_ok c' \<and>
    (\<forall>v. data c key = Some v \<longrightarrow> r = Some v \<and> c' = c)"
  using cache_get_cases [OF assms, of key backend] cache_fetch_ok [OF assms, of backend key] assms
  by auto

section \<open>Properties\<close>

text \<open>
  C35. The filter has no false negatives: from a new filter with at least one bit, adding any keys
  in any order never panics, and every key added checks as present.
\<close>

theorem no_false_negatives:
  assumes "m \<noteq> 0" and "unat m + 63 < 2 ^ 64"
  shows "\<exists>f. add_keys ks (NewFilter m k) = Some f \<and> list_all (\<lambda>key. Check key f = Some True) ks"
  using bloom.add_all_correct [OF filter_ok_New [OF assms], of ks k] by (auto simp: list_all_iff add_keys_all)

theorem no_false_negatives_witness:
  "\<exists>f. add_keys [''a'', ''b''] (NewFilter 128 3) = Some f \<and> Check ''b'' f = Some True"
  using no_false_negatives [of 128 "[''a'', ''b'']" 3] by auto

text \<open>
  C15. The LSM store: with segments built by \<open>NewSegment\<close>, with or without filters, \<open>Get\<close> returns
  the value of the newest segment that has the key, exactly as a store without filters, and
  reads at most one block per segment.
\<close>

theorem lsm_get_newest:
  assumes "sizing_ok sizing"
    and "map (\<lambda>(kvs, useFilter). NewSegment sizing kvs useFilter) inputs = map Some (segments s)"
  shows "\<exists>n \<le> length (segments s).
    lsm_get key s = Some (newest key (rev (segments s)), s\<lparr>diskReads := diskReads s + n\<rparr>) \<and>
    newest key (rev (segments s)) = newest key (map (\<lambda>seg. seg\<lparr>seg_filter := None\<rparr>) (rev (segments s)))"
proof -
  have "segment_ok seg" if "seg \<in> set (segments s)" for seg
  proof -
    from that have "Some seg \<in> set (map (\<lambda>(kvs, useFilter). NewSegment sizing kvs useFilter) inputs)"
      using assms(2) by simp
    then obtain kvs useFilter where "NewSegment sizing kvs useFilter = Some seg" by auto
    with NewSegment_ok [OF assms(1), of kvs useFilter] show ?thesis by simp
  qed
  then have "list_all segment_ok (rev (segments s))" by (simp add: list_all_iff)
  from lsm_loop_newest [OF this, of key] obtain n where n: "n \<le> length (segments s)"
    "lsm_loop key (rev (segments s)) = Some (newest key (rev (segments s)), n)" by auto
  have "newest key (map (\<lambda>seg. seg\<lparr>seg_filter := None\<rparr>) segs) = newest key segs" for segs
    by (induction segs) (simp_all split: option.splits)
  with n show ?thesis by (auto simp: lsm_get_def)
qed

theorem lsm_get_newest_witness:
  "\<exists>n \<le> 1. lsm_get ''k'' \<lparr>segments = [\<lparr>seg_data = map_of [(''k'', ''v'')], seg_filter = None\<rparr>], diskReads = 0\<rparr> =
     Some (Some ''v'', \<lparr>segments = [\<lparr>seg_data = map_of [(''k'', ''v'')], seg_filter = None\<rparr>], diskReads = n\<rparr>)"
  using lsm_get_newest [of "\<lambda>_. (64, 1)" "[([(''k'', ''v'')], False)]"
      "\<lparr>segments = [\<lparr>seg_data = map_of [(''k'', ''v'')], seg_filter = None\<rparr>], diskReads = 0\<rparr>" "''k''"]
  by (simp add: sizing_ok_def NewSegment_def)

text \<open>
  The gate never hides what the cache holds: a cache stays in order under \<open>Add\<close> and \<open>Get\<close>,
  neither panics, and \<open>Get\<close> returns every value that was put in, without a backend call.
\<close>

lemma cache_gate_sound:
  assumes "cache_ok c"
  shows "\<exists>c1. cache_add key v c = Some c1 \<and> cache_ok c1 \<and>
    cache_get backend key c1 = Some (c1, Some v) \<and>
    (\<exists>c2 r. cache_get backend key' c = Some (c2, r) \<and> cache_ok c2 \<and>
       (data c key' \<noteq> None \<longrightarrow> r = data c key' \<and> c2 = c))"
proof -
  from cache_add_ok [OF assms, of key v] obtain c1 where
    c1: "cache_add key v c = Some c1" "cache_ok c1" "data c1 key = Some v" by auto
  from cache_get_ok [OF c1(2), of backend key] c1(3) have "cache_get backend key c1 = Some (c1, Some v)"
    by auto
  with c1 cache_get_ok [OF assms, of backend key'] show ?thesis by auto
qed

end
