(* ===== verification/Sharding.thy ===== *)
theory Sharding
  imports Fnv "HOL-Library.Char_ord" "HOL-Library.List_Lexorder"
begin

text \<open>
  Lab 32, \<^verbatim>\<open>labs/32-database-sharding-and-partitioning/internal/sharding/sharding.go\<close>: the two
  routers, and the cluster that uses either through the \<open>Router\<close> interface. The interface is the
  locale \<open>router\<close>, interpreted for both. \<open>sort.Slice\<close> leaves the order of equal hashes open; the
  model keeps them in the order of insertion.
\<close>

section \<open>The modulo router\<close>

record ModuloRouter =
  mod_shards :: "string list"

definition modulo_get :: "string \<Rightarrow> ModuloRouter \<Rightarrow> string option" where
  "modulo_get key m =
     (if length (mod_shards m) = 0 then None
      else Some (mod_shards m ! (unat (fnv64a key) mod length (mod_shards m))))"

definition modulo_add :: "string \<Rightarrow> ModuloRouter \<Rightarrow> ModuloRouter" where
  "modulo_add sid m = m\<lparr>mod_shards := mod_shards m @ [sid]\<rparr>"

definition modulo_remove :: "string \<Rightarrow> ModuloRouter \<Rightarrow> ModuloRouter" where
  "modulo_remove sid m = m\<lparr>mod_shards := remove1 sid (mod_shards m)\<rparr>"

section \<open>The consistent-hash router\<close>

type_synonym vnode = "word64 \<times> string"

record ConsistentHashRouter =
  vnodeCount :: nat
  ring :: "vnode list"
  shardSet :: "string set"

text \<open>\<open>strconv.Itoa\<close>, and the virtual node \<open>i\<close> of a shard.\<close>

definition itoa :: "nat \<Rightarrow> string" where
  "itoa n = map char_of (str_of_nat n)"

definition vnode_of :: "string \<Rightarrow> nat \<Rightarrow> vnode" where
  "vnode_of sid i = (fnv64a (sid @ ''#'' @ itoa i), sid)"

definition ring_add :: "string \<Rightarrow> ConsistentHashRouter \<Rightarrow> ConsistentHashRouter" where
  "ring_add sid ch =
     (if sid \<in> shardSet ch then ch
      else ch\<lparr>shardSet := insert sid (shardSet ch),
              ring := sort_key fst (ring ch @ map (vnode_of sid) [0..<vnodeCount ch])\<rparr>)"

definition ring_remove :: "string \<Rightarrow> ConsistentHashRouter \<Rightarrow> ConsistentHashRouter" where
  "ring_remove sid ch =
     (if sid \<notin> shardSet ch then ch
      else ch\<lparr>shardSet := shardSet ch - {sid}, ring := filter (\<lambda>vn. snd vn \<noteq> sid) (ring ch)\<rparr>)"

definition NewConsistentHashRouter :: "int \<Rightarrow> string list \<Rightarrow> ConsistentHashRouter" where
  "NewConsistentHashRouter n ids =
     foldl (\<lambda>ch sid. ring_add sid ch)
       \<lparr>vnodeCount = if n \<le> 0 then 100 else nat n, ring = [], shardSet = {}\<rparr> ids"

text \<open>\<open>sort.Search\<close>: the binary search of the library, between \<open>i\<close> and \<open>j\<close>.\<close>

function search_between :: "(nat \<Rightarrow> bool) \<Rightarrow> nat \<Rightarrow> nat \<Rightarrow> nat" where
  "search_between f i j =
     (if i < j then
        (let h = (i + j) div 2 in if \<not> f h then search_between f (h + 1) j else search_between f i h)
      else i)"
  by pat_completeness auto
termination by (relation "measure (\<lambda>(f, i, j). j - i)") auto

declare search_between.simps [simp del]

definition sort_search :: "nat \<Rightarrow> (nat \<Rightarrow> bool) \<Rightarrow> nat" where
  "sort_search n f = search_between f 0 n"

definition ring_get :: "string \<Rightarrow> ConsistentHashRouter \<Rightarrow> string option" where
  "ring_get key ch =
     (if length (ring ch) = 0 then None
      else
        (let h = fnv64a key;
             idx = sort_search (length (ring ch)) (\<lambda>i. fst (ring ch ! i) \<ge> h);
             idx' = (if idx = length (ring ch) then 0 else idx)
         in Some (snd (ring ch ! idx'))))"

definition ring_shards :: "ConsistentHashRouter \<Rightarrow> string list" where
  "ring_shards ch = sorted_list_of_set (shardSet ch)"

section \<open>The interface\<close>

locale router =
  fixes ok :: "'r \<Rightarrow> bool"
    and get :: "string \<Rightarrow> 'r \<Rightarrow> string option"
    and shards :: "'r \<Rightarrow> string list"
    and add :: "string \<Rightarrow> 'r \<Rightarrow> 'r"
    and remove :: "string \<Rightarrow> 'r \<Rightarrow> 'r"
  assumes get_known: "ok r \<Longrightarrow> get k r = Some s \<Longrightarrow> s \<in> set (shards r)"
    and get_total: "ok r \<Longrightarrow> shards r \<noteq> [] \<Longrightarrow> \<exists>s. get k r = Some s"
    and add_ok: "ok r \<Longrightarrow> s \<notin> set (shards r) \<Longrightarrow>
      ok (add s r) \<and> set (shards (add s r)) = insert s (set (shards r))"
    and remove_ok: "ok r \<Longrightarrow>
      ok (remove s r) \<and> set (shards (remove s r)) = set (shards r) - {s}"

definition modulo_ok :: "ModuloRouter \<Rightarrow> bool" where
  "modulo_ok m \<longleftrightarrow> distinct (mod_shards m)"

section \<open>The ring\<close>

lemma search_between_spec:
  assumes "\<And>a b. a \<le> b \<Longrightarrow> b < n \<Longrightarrow> f a \<Longrightarrow> f b" and "i \<le> j" and "j \<le> n"
    and "\<And>a. a < i \<Longrightarrow> \<not> f a" and "j < n \<Longrightarrow> f j"
  shows "search_between f i j \<le> n \<and> (\<forall>a < search_between f i j. \<not> f a) \<and>
    (search_between f i j < n \<longrightarrow> f (search_between f i j))"
  using assms
proof (induction f i j rule: search_between.induct)
  case (1 f i j)
  show ?case
  proof (cases "i < j")
    case False
    then have "search_between f i j = i" by (simp add: search_between.simps)
    then show ?thesis using 1(4-7) False by auto
  next
    case True
    let ?h = "(i + j) div 2"
    have h: "i \<le> ?h" "?h < j" using True by auto
    show ?thesis
    proof (cases "f ?h")
      case fh: True
      have "search_between f i ?h \<le> n \<and> (\<forall>a < search_between f i ?h. \<not> f a) \<and>
          (search_between f i ?h < n \<longrightarrow> f (search_between f i ?h))"
        by (rule 1(2) [OF True refl]) (use fh 1(3-7) h in auto)
      then show ?thesis using True fh by (simp add: search_between.simps [of f i j] Let_def)
    next
      case fh: False
      have low: "\<not> f a" if "a < ?h + 1" for a
        using fh 1(3) [of a ?h] that h(2) 1(5) by auto
      have "search_between f (?h + 1) j \<le> n \<and> (\<forall>a < search_between f (?h + 1) j. \<not> f a) \<and>
          (search_between f (?h + 1) j < n \<longrightarrow> f (search_between f (?h + 1) j))"
        by (rule 1(1) [OF True refl fh]) (use 1(3-7) h low in \<open>auto\<close>)
      then show ?thesis using True fh by (simp add: search_between.simps [of f i j] Let_def)
    qed
  qed
qed

text \<open>On a sorted ring the search finds the first virtual node at or after the hash.\<close>

definition owner :: "word64 \<Rightarrow> vnode list \<Rightarrow> vnode" where
  "owner h vs = (case find (\<lambda>vn. fst vn \<ge> h) vs of Some vn \<Rightarrow> vn | None \<Rightarrow> hd vs)"

lemma find_by_index:
  assumes "k \<le> length vs" and "\<forall>a < k. \<not> P (vs ! a)" and "k < length vs \<longrightarrow> P (vs ! k)"
  shows "find P vs = (if k < length vs then Some (vs ! k) else None)"
  using assms
  by (auto simp: find_Some_iff find_None_iff in_set_conv_nth)

lemma ring_get_owner:
  assumes "sorted (map fst (ring ch))" and "ring ch \<noteq> []"
  shows "ring_get key ch = Some (snd (owner (fnv64a key) (ring ch)))"
proof -
  let ?f = "\<lambda>i. fst (ring ch ! i) \<ge> fnv64a key" and ?n = "length (ring ch)"
  have mono: "?f b" if "a \<le> b" "b < ?n" "?f a" for a b
  proof -
    from that(1,2) have "fst (ring ch ! a) \<le> fst (ring ch ! b)"
      using sorted_nth_mono [OF assms(1), of a b] by simp
    from that(3) this show ?thesis by (rule order_trans)
  qed
  have "sort_search ?n ?f \<le> ?n \<and> (\<forall>a < sort_search ?n ?f. \<not> ?f a) \<and>
      (sort_search ?n ?f < ?n \<longrightarrow> ?f (sort_search ?n ?f))"
    unfolding sort_search_def by (rule search_between_spec [OF mono]) auto
  then have k: "sort_search ?n ?f \<le> ?n" "\<forall>a < sort_search ?n ?f. \<not> ?f a"
    "sort_search ?n ?f < ?n \<longrightarrow> ?f (sort_search ?n ?f)" by blast+
  from find_by_index [OF this] assms(2) k(1) show ?thesis
    by (auto simp: ring_get_def owner_def Let_def hd_conv_nth split: if_splits)
qed

definition ring_ok :: "ConsistentHashRouter \<Rightarrow> bool" where
  "ring_ok ch \<longleftrightarrow> 0 < vnodeCount ch \<and> finite (shardSet ch) \<and> sorted (map fst (ring ch)) \<and>
     snd ` set (ring ch) = shardSet ch"

lemma owner_in: "vs \<noteq> [] \<Longrightarrow> owner h vs \<in> set vs"
  by (auto simp: owner_def find_Some_iff in_set_conv_nth hd_conv_nth split: option.splits)

lemma ring_ok_add: "ring_ok ch \<Longrightarrow> ring_ok (ring_add s ch) \<and> shardSet (ring_add s ch) = insert s (shardSet ch)"
  by (auto simp: ring_ok_def ring_add_def image_Un image_image vnode_of_def)

lemma ring_ok_remove:
  "ring_ok ch \<Longrightarrow> ring_ok (ring_remove s ch) \<and> shardSet (ring_remove s ch) = shardSet ch - {s}"
  by (auto simp: ring_ok_def ring_remove_def sorted_map filter_sort intro: sorted_wrt_filter)

lemma ring_nonempty: "ring_ok ch \<Longrightarrow> ring ch = [] \<longleftrightarrow> shardSet ch = {}"
  by (auto simp: ring_ok_def)

lemma ring_get_shard: "ring_ok ch \<Longrightarrow> shardSet ch \<noteq> {} \<Longrightarrow> \<exists>s \<in> shardSet ch. ring_get k ch = Some s"
  using ring_get_owner [of ch k] owner_in [of "ring ch" "fnv64a k"] ring_nonempty [of ch]
  by (force simp: ring_ok_def)

interpretation modulo: router modulo_ok modulo_get mod_shards modulo_add modulo_remove
proof
  fix r :: ModuloRouter and k s
  assume "modulo_get k r = Some s"
  then have ne: "0 < length (mod_shards r)"
    and s: "s = mod_shards r ! (unat (fnv64a k) mod length (mod_shards r))"
    unfolding modulo_get_def by (metis length_0_conv length_greater_0_conv option.distinct(1), metis option.inject option.distinct(1))
  from ne have "unat (fnv64a k) mod length (mod_shards r) < length (mod_shards r)"
    by (rule mod_less_divisor)
  then show "s \<in> set (mod_shards r)" unfolding s by (rule nth_mem)
next
  fix r :: ModuloRouter and k
  show "mod_shards r \<noteq> [] \<Longrightarrow> \<exists>s. modulo_get k r = Some s"
    by (simp add: modulo_get_def)
qed (simp_all add: modulo_ok_def modulo_add_def modulo_remove_def)

interpretation consistent: router ring_ok ring_get ring_shards ring_add ring_remove
proof
  fix r :: ConsistentHashRouter and k s
  assume ok: "ring_ok r"
  then have fin: "finite (shardSet r)" by (simp add: ring_ok_def)
  then have sh: "set (ring_shards r) = shardSet r" by (simp add: ring_shards_def)
  show "ring_get k r = Some s \<Longrightarrow> s \<in> set (ring_shards r)"
    using ring_get_shard [OF ok, of k] ring_nonempty [OF ok]
    by (cases "shardSet r = {}") (auto simp: sh ring_get_def)
  show "ring_shards r \<noteq> [] \<Longrightarrow> \<exists>s. ring_get k r = Some s"
    using ring_get_shard [OF ok, of k] sh by (metis set_empty)
  show "ring_ok (ring_remove s r) \<and> set (ring_shards (ring_remove s r)) = set (ring_shards r) - {s}"
    using ring_ok_remove [OF ok, of s] fin sh by (simp add: ring_shards_def)
  have "finite (insert s (shardSet r))" using fin by simp
  then show "ring_ok (ring_add s r) \<and> set (ring_shards (ring_add s r)) = insert s (set (ring_shards r))"
    using ring_ok_add [OF ok, of s] unfolding sh by (metis ring_shards_def set_sorted_list_of_set)
qed

section \<open>How far keys move\<close>

lemma find_filter: "find P vs = Some v \<Longrightarrow> Q v \<Longrightarrow> find P (filter Q vs) = Some v"
  by (induction vs) (auto split: if_splits)

lemma find_filter_None: "find P vs = None \<Longrightarrow> find P (filter Q vs) = None"
  by (auto simp: find_None_iff)

text \<open>Leaving out virtual nodes keeps the owner, unless it is left out itself.\<close>

lemma owner_filter:
  assumes "vs \<noteq> []" and "Q (owner h vs)"
  shows "owner h (filter Q vs) = owner h vs"
proof (cases "find (\<lambda>vn. fst vn \<ge> h) vs")
  case None
  with assms obtain v ws where v: "vs = v # ws" "Q v" by (cases vs) (auto simp: owner_def)
  with None find_filter_None [OF None, of Q] show ?thesis by (simp add: owner_def)
next
  case (Some v)
  with assms have "Q v" by (simp add: owner_def)
  with find_filter [OF Some, of Q] Some show ?thesis by (simp add: owner_def)
qed

lemma ring_without_added:
  assumes "ring_ok ch" and "s \<notin> shardSet ch"
  shows "filter (\<lambda>vn. snd vn \<noteq> s) (ring (ring_add s ch)) = ring ch"
proof -
  have old: "filter (\<lambda>vn. snd vn \<noteq> s) (ring ch) = ring ch"
    using assms by (intro filter_True) (auto simp: ring_ok_def)
  have new: "filter (\<lambda>vn. snd vn \<noteq> s) (map (vnode_of s) ns) = []" for ns
    by (auto simp: vnode_of_def filter_empty_conv)
  have "sort_key fst (ring ch) = ring ch"
    using assms(1) by (intro sort_key_id_if_sorted) (simp add: ring_ok_def)
  with assms(2) old new show ?thesis by (simp add: ring_add_def filter_sort)
qed

lemma ring_get_Some:
  "ring_ok ch \<Longrightarrow> ring ch \<noteq> [] \<Longrightarrow> ring_get k ch = Some (snd (owner (fnv64a k) (ring ch)))"
  by (rule ring_get_owner) (simp_all add: ring_ok_def)

lemma ring_add_moves_to_new:
  assumes ok: "ring_ok ch" and ne: "shardSet ch \<noteq> {}" and s: "s \<notin> shardSet ch"
    and moved: "ring_get k (ring_add s ch) \<noteq> Some s"
  shows "ring_get k (ring_add s ch) = ring_get k ch"
proof -
  have ok': "ring_ok (ring_add s ch)" and ne': "ring (ring_add s ch) \<noteq> []" "ring ch \<noteq> []"
    using ring_ok_add [OF ok, of s] ring_nonempty ok ne by auto
  have "snd (owner (fnv64a k) (ring (ring_add s ch))) \<noteq> s"
    using moved ring_get_Some [OF ok' ne'(1)] by simp
  with owner_filter [of "ring (ring_add s ch)" "\<lambda>vn. snd vn \<noteq> s" "fnv64a k"] ne'(1)
  have "owner (fnv64a k) (ring ch) = owner (fnv64a k) (ring (ring_add s ch))"
    by (simp add: ring_without_added [OF ok s])
  then show ?thesis using ring_get_Some [OF ok' ne'(1)] ring_get_Some [OF ok ne'(2)] by simp
qed

lemma ring_remove_keeps_others:
  assumes ok: "ring_ok ch" and k: "ring_get k ch = Some t" and "t \<noteq> s"
  shows "ring_get k (ring_remove s ch) = Some t"
proof (cases "s \<in> shardSet ch")
  case False
  with k show ?thesis by (simp add: ring_remove_def)
next
  case True
  from k have ne: "ring ch \<noteq> []" by (auto simp: ring_get_def)
  with ring_get_Some [OF ok ne] k assms(3) have o': "snd (owner (fnv64a k) (ring ch)) = t" "t \<noteq> s" by simp_all
  with owner_filter [OF ne, of "\<lambda>vn. snd vn \<noteq> s" "fnv64a k"]
  have "owner (fnv64a k) (ring (ring_remove s ch)) = owner (fnv64a k) (ring ch)"
    using True by (simp add: ring_remove_def)
  moreover have "ring (ring_remove s ch) \<noteq> []"
    using owner_in [OF ne] o' True by (force simp: ring_remove_def filter_empty_conv)
  ultimately show ?thesis
    using ring_get_Some [of "ring_remove s ch" k] ring_ok_remove [OF ok, of s] o' by simp
qed

section \<open>The cluster\<close>

record Record =
  ID :: string
  ShardKey :: string
  Email :: string
  Data :: string

record 'r Cluster =
  nodes :: "string \<rightharpoonup> (string \<rightharpoonup> Record)"
  rtr :: 'r
  gsi :: "string \<rightharpoonup> string"

datatype cluster_error = ErrShardNotFound | RecordNotFound | EmailNotInIndex

text \<open>The router's operations are arguments, as the Go code calls them through the interface.\<close>

definition NewCluster :: "('r \<Rightarrow> string list) \<Rightarrow> 'r \<Rightarrow> 'r Cluster" where
  "NewCluster shards r =
     \<lparr>nodes = (\<lambda>sid. if sid \<in> set (shards r) then Some Map.empty else None), rtr = r, gsi = Map.empty\<rparr>"

definition AddShardNode :: "(string \<Rightarrow> 'r \<Rightarrow> 'r) \<Rightarrow> string \<Rightarrow> 'r Cluster \<Rightarrow> 'r Cluster" where
  "AddShardNode add sid c = c\<lparr>nodes := (nodes c)(sid \<mapsto> Map.empty), rtr := add sid (rtr c)\<rparr>"

definition Insert ::
  "(string \<Rightarrow> 'r \<Rightarrow> string option) \<Rightarrow> Record \<Rightarrow> 'r Cluster \<Rightarrow> (cluster_error, 'r Cluster) res" where
  "Insert get r c =
     (case get (ShardKey r) (rtr c) of
        None \<Rightarrow> Inl ErrShardNotFound
      | Some sid \<Rightarrow>
          (case nodes c sid of
             None \<Rightarrow> Inl ErrShardNotFound
           | Some d \<Rightarrow>
               Inr (c\<lparr>nodes := (nodes c)(sid \<mapsto> d(ID r \<mapsto> r)),
                      gsi := (if Email r \<noteq> [] then (gsi c)(Email r \<mapsto> ShardKey r) else gsi c)\<rparr>)))"

definition GetByShardKey ::
  "(string \<Rightarrow> 'r \<Rightarrow> string option) \<Rightarrow> string \<Rightarrow> string \<Rightarrow> 'r Cluster \<Rightarrow> (cluster_error, Record) res" where
  "GetByShardKey get key rid c =
     (case get key (rtr c) of
        None \<Rightarrow> Inl ErrShardNotFound
      | Some sid \<Rightarrow>
          (case nodes c sid of
             None \<Rightarrow> Inl ErrShardNotFound
           | Some d \<Rightarrow> (case d rid of None \<Rightarrow> Inl RecordNotFound | Some r \<Rightarrow> Inr r)))"

definition GetByEmailUsingGSI ::
  "(string \<Rightarrow> 'r \<Rightarrow> string option) \<Rightarrow> string \<Rightarrow> string \<Rightarrow> 'r Cluster \<Rightarrow> (cluster_error, Record) res" where
  "GetByEmailUsingGSI get email rid c =
     (case gsi c email of
        None \<Rightarrow> Inl EmailNotInIndex
      | Some key \<Rightarrow> GetByShardKey get key rid c)"

text \<open>
  \<open>RebalanceData\<close>, with the records gathered from the shards in the order the maps give them. An
  unroutable record goes to the shard named by the empty string; a missing shard panics
  (\<open>None\<close>).
\<close>

fun place_all ::
  "(string \<Rightarrow> 'r \<Rightarrow> string option) \<Rightarrow> Record list \<Rightarrow> nat \<Rightarrow> 'r Cluster \<Rightarrow> ('r Cluster \<times> nat) option" where
  "place_all get [] migrated c = Some (c, migrated)"
| "place_all get (r # rs) migrated c =
     (let target = (case get (ShardKey r) (rtr c) of Some sid \<Rightarrow> sid | None \<Rightarrow> [])
      in case nodes c target of
           None \<Rightarrow> None
         | Some d \<Rightarrow>
             place_all get rs (Suc migrated) (c\<lparr>nodes := (nodes c)(target \<mapsto> d(ID r \<mapsto> r))\<rparr>))"

definition RebalanceData ::
  "(string \<Rightarrow> 'r \<Rightarrow> string option) \<Rightarrow> Record list \<Rightarrow> 'r Cluster \<Rightarrow> ('r Cluster \<times> nat) option" where
  "RebalanceData get gathered c =
     place_all get gathered 0 (c\<lparr>nodes := (\<lambda>sid. map_option (\<lambda>_. Map.empty) (nodes c sid))\<rparr>)"

definition stored :: "'r Cluster \<Rightarrow> Record set" where
  "stored c = {r. \<exists>sid d i. nodes c sid = Some d \<and> d i = Some r}"

definition unique_ids :: "Record set \<Rightarrow> bool" where
  "unique_ids R \<longleftrightarrow> (\<forall>r \<in> R. \<forall>q \<in> R. ID r = ID q \<longrightarrow> r = q)"

context router
begin

definition cluster_ok :: "'r Cluster \<Rightarrow> bool" where
  "cluster_ok c \<longleftrightarrow> ok (rtr c) \<and> set (shards (rtr c)) \<subseteq> dom (nodes c)"

lemma routed:
  assumes "cluster_ok c" and "shards (rtr c) \<noteq> []"
  obtains sid d where "get key (rtr c) = Some sid" "nodes c sid = Some d"
  using assms get_total [of "rtr c" key] get_known [of "rtr c" key]
  by (auto simp: cluster_ok_def)

lemma insert_found:
  assumes "cluster_ok c" and "shards (rtr c) \<noteq> []"
  shows "\<exists>c'. Insert get r c = Inr c' \<and> cluster_ok c' \<and>
    GetByShardKey get (ShardKey r) (ID r) c' = Inr r \<and>
    (Email r \<noteq> [] \<longrightarrow> GetByEmailUsingGSI get (Email r) (ID r) c' = Inr r) \<and>
    (\<forall>key rid. rid \<noteq> ID r \<longrightarrow> GetByShardKey get key rid c' = GetByShardKey get key rid c)"
proof -
  obtain sid d where s: "get (ShardKey r) (rtr c) = Some sid" "nodes c sid = Some d"
    by (rule routed [OF assms, of "ShardKey r"])
  let ?c = "c\<lparr>nodes := (nodes c)(sid \<mapsto> d(ID r \<mapsto> r)),
    gsi := (if Email r \<noteq> [] then (gsi c)(Email r \<mapsto> ShardKey r) else gsi c)\<rparr>"
  have "Insert get r c = Inr ?c" using s by (simp add: Insert_def)
  moreover have "cluster_ok ?c" using assms(1) by (auto simp: cluster_ok_def)
  moreover have "GetByShardKey get (ShardKey r) (ID r) ?c = Inr r" using s by (simp add: GetByShardKey_def)
  moreover have "Email r \<noteq> [] \<longrightarrow> GetByEmailUsingGSI get (Email r) (ID r) ?c = Inr r"
    using s by (simp add: GetByEmailUsingGSI_def GetByShardKey_def)
  moreover have "GetByShardKey get key rid ?c = GetByShardKey get key rid c" if "rid \<noteq> ID r" for key rid
    using that s by (auto simp: GetByShardKey_def split: option.splits)
  ultimately show ?thesis by blast
qed

text \<open>Every shard holds exactly the records of \<open>R\<close> that are routed to it.\<close>

definition placed :: "Record set \<Rightarrow> 'r Cluster \<Rightarrow> bool" where
  "placed R c \<longleftrightarrow>
     (\<forall>sid d i r. nodes c sid = Some d \<longrightarrow>
        (d i = Some r \<longleftrightarrow> r \<in> R \<and> ID r = i \<and> get (ShardKey r) (rtr c) = Some sid))"

lemma place_all_placed:
  assumes "cluster_ok c" and "shards (rtr c) \<noteq> []" and "placed R c" and "unique_ids (R \<union> set rs)"
  shows "\<exists>c'. place_all get rs n c = Some (c', n + length rs) \<and> placed (R \<union> set rs) c' \<and>
    cluster_ok c' \<and> rtr c' = rtr c \<and> gsi c' = gsi c"
  using assms
proof (induction rs arbitrary: R n c)
  case (Cons r rs)
  obtain sid d where s: "get (ShardKey r) (rtr c) = Some sid" "nodes c sid = Some d"
    by (rule routed [OF Cons.prems(1,2), of "ShardKey r"])
  let ?c = "c\<lparr>nodes := (nodes c)(sid \<mapsto> d(ID r \<mapsto> r))\<rparr>"
  have "cluster_ok ?c" "shards (rtr ?c) \<noteq> []" using Cons.prems(1,2) by (auto simp: cluster_ok_def)
  moreover have "placed (insert r R) ?c"
  proof -
    have "q = r" if "q \<in> R" "ID q = ID r" for q
      using Cons.prems(4) that unfolding unique_ids_def by auto
    then show ?thesis using Cons.prems(3) s by (auto simp: placed_def)
  qed
  moreover have "unique_ids (insert r R \<union> set rs)" using Cons.prems(4) by simp
  ultimately obtain c' where "place_all get rs (Suc n) ?c = Some (c', Suc n + length rs)"
    "placed (insert r R \<union> set rs) c'" "cluster_ok c'" "rtr c' = rtr c" "gsi c' = gsi c"
    using Cons.IH [of ?c "insert r R" "Suc n"] by auto
  with s show ?case by auto
qed simp

lemma placed_found:
  assumes "placed R c" and "cluster_ok c" and "shards (rtr c) \<noteq> []" and "r \<in> R"
  shows "GetByShardKey get (ShardKey r) (ID r) c = Inr r"
proof -
  obtain sid d where s: "get (ShardKey r) (rtr c) = Some sid" "nodes c sid = Some d"
    by (rule routed [OF assms(2,3), of "ShardKey r"])
  with assms(1,4) have "d (ID r) = Some r" by (auto simp: placed_def)
  with s show ?thesis by (simp add: GetByShardKey_def)
qed

lemma placed_stored:
  assumes "placed R c" and "cluster_ok c" and "shards (rtr c) \<noteq> []"
  shows "stored c = R"
proof
  show "stored c \<subseteq> R" using assms(1) by (fastforce simp: stored_def placed_def)
  show "R \<subseteq> stored c"
  proof
    fix r
    assume r: "r \<in> R"
    obtain sid d where s: "get (ShardKey r) (rtr c) = Some sid" "nodes c sid = Some d"
      by (rule routed [OF assms(2,3), of "ShardKey r"])
    with assms(1) r have "d (ID r) = Some r" by (auto simp: placed_def)
    with s show "r \<in> stored c" by (auto simp: stored_def)
  qed
qed

lemma rebalance_correct:
  assumes "cluster_ok c" and "shards (rtr c) \<noteq> []" and "unique_ids (stored c)" and "set rs = stored c"
  shows "\<exists>c'. RebalanceData get rs c = Some (c', length rs) \<and> stored c' = stored c \<and> rtr c' = rtr c \<and>
    gsi c' = gsi c \<and> (\<forall>r \<in> stored c. GetByShardKey get (ShardKey r) (ID r) c' = Inr r)"
proof -
  let ?c0 = "c\<lparr>nodes := (\<lambda>sid. map_option (\<lambda>_. Map.empty) (nodes c sid))\<rparr>"
  have "cluster_ok ?c0" "shards (rtr ?c0) \<noteq> []" using assms(1,2) by (auto simp: cluster_ok_def)
  moreover have "placed {} ?c0" by (auto simp: placed_def)
  moreover have "unique_ids ({} \<union> set rs)" using assms(3,4) by simp
  ultimately obtain c' where "place_all get rs 0 ?c0 = Some (c', 0 + length rs)" "placed ({} \<union> set rs) c'"
    "cluster_ok c'" "rtr c' = rtr ?c0" "gsi c' = gsi ?c0"
    using place_all_placed [of ?c0 "{}" rs 0] by auto
  then show ?thesis
    using placed_found [of "set rs" c'] placed_stored [of "set rs" c'] assms(2,4)
    by (auto simp: RebalanceData_def)
qed

end

section \<open>Properties\<close>



text \<open>
  With either router, a cluster whose routed shards all exist stores a record so that it is
  found by its shard key, and by its e-mail when it has one; lookups of other record
  identifiers are unaffected.
\<close>

lemma inserted_record_found:
  assumes "ring_ok (rtr c)" and "shardSet (rtr c) \<noteq> {}" and "shardSet (rtr c) \<subseteq> dom (nodes c)"
    and "modulo_ok (rtr m)" and "mod_shards (rtr m) \<noteq> []" and "set (mod_shards (rtr m)) \<subseteq> dom (nodes m)"
  shows "(\<exists>c'. Insert ring_get r c = Inr c' \<and> GetByShardKey ring_get (ShardKey r) (ID r) c' = Inr r \<and>
      (Email r \<noteq> [] \<longrightarrow> GetByEmailUsingGSI ring_get (Email r) (ID r) c' = Inr r) \<and>
      (rid \<noteq> ID r \<longrightarrow> GetByShardKey ring_get key rid c' = GetByShardKey ring_get key rid c)) \<and>
    (\<exists>m'. Insert modulo_get r m = Inr m' \<and> GetByShardKey modulo_get (ShardKey r) (ID r) m' = Inr r \<and>
      (Email r \<noteq> [] \<longrightarrow> GetByEmailUsingGSI modulo_get (Email r) (ID r) m' = Inr r) \<and>
      (rid \<noteq> ID r \<longrightarrow> GetByShardKey modulo_get key rid m' = GetByShardKey modulo_get key rid m))"
proof -
  have sh: "set (ring_shards (rtr c)) = shardSet (rtr c)"
    using assms(1) by (simp add: ring_shards_def ring_ok_def)
  have "consistent.cluster_ok c" "ring_shards (rtr c) \<noteq> []" "modulo.cluster_ok m"
    using assms sh by (auto simp: consistent.cluster_ok_def modulo.cluster_ok_def)
  with consistent.insert_found [of c r] modulo.insert_found [of m r] assms(5) show ?thesis by blast
qed

text \<open>
  Rebalancing is complete: when record identifiers are unique in the cluster, \<open>RebalanceData\<close>
  does not panic, loses and adds no record, and leaves every record where its shard key leads,
  in whatever order the records are gathered.
\<close>

lemma rebalance_complete:
  assumes "ring_ok (rtr c)" and "shardSet (rtr c) \<noteq> {}" and "shardSet (rtr c) \<subseteq> dom (nodes c)"
    and "unique_ids (stored c)" and "set rs = stored c"
  shows "\<exists>c'. RebalanceData ring_get rs c = Some (c', length rs) \<and> stored c' = stored c \<and>
    (r \<in> stored c \<longrightarrow> GetByShardKey ring_get (ShardKey r) (ID r) c' = Inr r)"
proof -
  have sh: "set (ring_shards (rtr c)) = shardSet (rtr c)"
    using assms(1) by (simp add: ring_shards_def ring_ok_def)
  have "consistent.cluster_ok c" "ring_shards (rtr c) \<noteq> []"
    using assms sh by (auto simp: consistent.cluster_ok_def)
  from consistent.rebalance_correct [OF this assms(4,5)] show ?thesis by blast
qed

text \<open>
  Adding a shard node that is already there empties it: the records it held are no longer
  found, although the consistent-hash router itself ignores the repeated identifier.
\<close>

lemma repeated_shard_node_loses_data:
  assumes "nodes c sid = Some d" and "d rid = Some r" and "sid \<in> shardSet (rtr c)"
  shows "rtr (AddShardNode ring_add sid c) = rtr c \<and>
    nodes (AddShardNode ring_add sid c) sid = Some Map.empty \<and>
    (ring_get key (rtr c) = Some sid \<longrightarrow>
       GetByShardKey ring_get key rid (AddShardNode ring_add sid c) = Inl RecordNotFound)"
  using assms by (simp add: AddShardNode_def ring_add_def GetByShardKey_def)

section \<open>Asking every shard\<close>

text \<open>
  \<open>ScatterGatherBroadcastWithContext\<close>: the shards and the records of a shard come in the order of
  the maps, and the context may end at any moment. \<open>order\<close> lists the shards as their answers
  arrive, and \<open>answers\<close> has what each of them sent: its matching records, or none when the
  context ended first.
\<close>

record ScatterGatherResult =
  Records :: "Record list"
  ShardsQueried :: nat
  ShardResponded :: nat

definition lists_shard :: "(string \<rightharpoonup> Record) \<Rightarrow> Record list \<Rightarrow> bool" where
  "lists_shard d rs \<longleftrightarrow> (\<exists>is. set is = dom d \<and> distinct is \<and> rs = map (\<lambda>i. the (d i)) is)"

definition answers_shard :: "(Record \<Rightarrow> bool) \<Rightarrow> (string \<rightharpoonup> Record) \<Rightarrow> Record list option \<Rightarrow> bool" where
  "answers_shard predicate d a \<longleftrightarrow> (case a of None \<Rightarrow> True | Some rs \<Rightarrow> \<exists>all. lists_shard d all \<and> rs = filter predicate all)"

definition combine :: "Record list option list \<Rightarrow> ScatterGatherResult" where
  "combine as = \<lparr>Records = concat (map (\<lambda>a. case a of None \<Rightarrow> [] | Some rs \<Rightarrow> rs) as), ShardsQueried = length as,
     ShardResponded = length (filter (\<lambda>a. a \<noteq> None) as)\<rparr>"

definition ScatterGather :: "(Record \<Rightarrow> bool) \<Rightarrow> 'r Cluster \<Rightarrow> ScatterGatherResult \<Rightarrow> bool" where
  "ScatterGather predicate c res \<longleftrightarrow>
     (\<exists>order answers. set order = dom (nodes c) \<and> distinct order \<and>
        (\<forall>sid \<in> set order. answers_shard predicate (the (nodes c sid)) (answers sid)) \<and>
        res = combine (map answers order))"

definition shard_delete :: "string \<Rightarrow> (string \<rightharpoonup> Record) \<Rightarrow> string \<rightharpoonup> Record" where
  "shard_delete rid d = d(rid := None)"

definition GetShardCounts :: "'r Cluster \<Rightarrow> string \<rightharpoonup> nat" where
  "GetShardCounts c = (\<lambda>sid. map_option (\<lambda>d. card (dom d)) (nodes c sid))"

lemma lists_shard_set: "lists_shard d rs \<Longrightarrow> set rs = ran d"
  by (force simp: lists_shard_def ran_def)

lemma full_answer: "length (filter P as) = length as \<Longrightarrow> \<forall>a \<in> set as. P a"
  by (metis filter_id_conv length_filter_less nat_neq_iff)

text \<open>
  Nothing that does not match is returned, and when as many shards have responded as were asked,
  everything that matches is.
\<close>

lemma scatter_gather_sound:
  assumes "ScatterGather predicate c res"
  shows "set (Records res) \<subseteq> {r \<in> stored c. predicate r} \<and> ShardResponded res \<le> ShardsQueried res"
proof -
  from assms obtain order answers where o: "set order = dom (nodes c)"
      "\<forall>sid \<in> set order. answers_shard predicate (the (nodes c sid)) (answers sid)" "res = combine (map answers order)"
    by (auto simp: ScatterGather_def)
  have m: "r \<in> stored c \<and> predicate r" if "sid \<in> set order" "answers sid = Some rs" "r \<in> set rs" for sid rs r
  proof -
    from o(1) that(1) obtain d where d: "nodes c sid = Some d" by auto
    with o(2) that obtain all where "lists_shard d all" "rs = filter predicate all" by (fastforce simp: answers_shard_def)
    with lists_shard_set [of d all] that(3) d show ?thesis by (auto simp: stored_def ran_def)
  qed
  show ?thesis
  proof
    show "set (Records res) \<subseteq> {r \<in> stored c. predicate r}"
    proof
      fix r assume "r \<in> set (Records res)"
      then obtain sid rs where "sid \<in> set order" "answers sid = Some rs" "r \<in> set rs"
        using o(3) by (force simp: combine_def split: option.splits intro: sym)
      from m [OF this] show "r \<in> {r \<in> stored c. predicate r}" by simp
    qed
    show "ShardResponded res \<le> ShardsQueried res" using o(3) by (simp add: combine_def le_trans [OF length_filter_le])
  qed
qed

lemma scatter_gather_complete:
  assumes "ScatterGather predicate c res" and "ShardResponded res = ShardsQueried res"
  shows "set (Records res) = {r \<in> stored c. predicate r}"
proof
  from assms(1) obtain order answers where o: "set order = dom (nodes c)"
      "\<forall>sid \<in> set order. answers_shard predicate (the (nodes c sid)) (answers sid)" "res = combine (map answers order)"
    by (auto simp: ScatterGather_def)
  from assms(2) o(3) have "length (filter (\<lambda>a. a \<noteq> None) (map answers order)) = length (map answers order)"
    by (simp add: combine_def)
  from full_answer [OF this] have some: "\<forall>sid \<in> set order. answers sid \<noteq> None" by simp
  show "{r \<in> stored c. predicate r} \<subseteq> set (Records res)"
  proof
    fix r assume "r \<in> {r \<in> stored c. predicate r}"
    then obtain sid d i where r: "nodes c sid = Some d" "d i = Some r" "predicate r" by (auto simp: stored_def)
    with o(1) have sid: "sid \<in> set order" by auto
    with some obtain rs where rs: "answers sid = Some rs" by auto
    with o(2) sid r(1) obtain all where "lists_shard d all" "rs = filter predicate all" by (fastforce simp: answers_shard_def)
    with lists_shard_set [of d all] r have "r \<in> set rs" by (auto simp: ran_def)
    with rs sid o(3) show "r \<in> set (Records res)" by (force simp: combine_def)
  qed
qed (use scatter_gather_sound [OF assms(1)] in blast)

end
