(* ===== verification/Shrinker.thy ===== *)
theory Shrinker
  imports GoInt
begin

text \<open>
  Lab 40, \<^verbatim>\<open>labs/40-property-based-testing/internal/shrinker/shrinker.go\<close>: the search for a
  failing input and its shrinking. The predicate is a total function; the random source is a
  function from the number of the call to \<open>Intn\<close> and its bound to the value. \<open>stepCount\<close> always
  is the length of \<open>Steps\<close>, since both grow together; a strategy text is a constructor with the
  values the text shows.
\<close>

section \<open>The shrinking loop\<close>

datatype strategy = RemoveRightHalf | RemoveLeftHalf | RemoveElem nat | ReduceVal nat int

record ShrinkStep =
  StepNo :: nat
  Input :: "int list"
  StepFails :: bool
  Strategy :: strategy

record ShrinkResult =
  InitialFailing :: "int list"
  Minimal :: "int list"
  Steps :: "ShrinkStep list"

type_synonym 's logged = "'s \<times> ShrinkStep list"

definition attempt :: "(int list \<Rightarrow> bool) \<Rightarrow> strategy \<Rightarrow> int list \<Rightarrow> ShrinkStep list \<Rightarrow> bool logged" where
  "attempt p st xs log =
     (\<not> p xs, log @ [\<lparr>StepNo = length log + 1, Input = xs, StepFails = \<not> p xs, Strategy = st\<rparr>])"

text \<open>Strategy 2, over the indices that are left: the first removal that still fails.\<close>

fun remove_elems :: "(int list \<Rightarrow> bool) \<Rightarrow> int list \<Rightarrow> nat list \<Rightarrow> ShrinkStep list \<Rightarrow> int list option logged" where
  "remove_elems p current [] log = (None, log)"
| "remove_elems p current (i # is) log =
     (let reduced = take i current @ drop (i + 1) current;
          (failed, log') = attempt p (RemoveElem i) reduced log
      in if failed then (Some reduced, log') else remove_elems p current is log')"

text \<open>Strategy 3: the candidates for one element, and the loop over the elements.\<close>

fun reduce_val :: "(int list \<Rightarrow> bool) \<Rightarrow> int list \<Rightarrow> nat \<Rightarrow> int list \<Rightarrow> ShrinkStep list \<Rightarrow> int list option logged" where
  "reduce_val p current i [] log = (None, log)"
| "reduce_val p current i (cand # cands) log =
     (if cand = current ! i then reduce_val p current i cands log
      else
        (let (failed, log') = attempt p (ReduceVal i cand) (current[i := cand]) log
         in if failed then (Some (current[i := cand]), log') else reduce_val p current i cands log'))"

fun reduce_vals ::
  "(int list \<Rightarrow> bool) \<Rightarrow> int list \<Rightarrow> bool \<Rightarrow> nat list \<Rightarrow> ShrinkStep list \<Rightarrow> (int list \<times> bool) logged" where
  "reduce_vals p current changed [] log = ((current, changed), log)"
| "reduce_vals p current changed (i # is) log =
     (if current ! i = 0 then reduce_vals p current changed is log
      else
        (case reduce_val p current i [0, quo (current ! i) 2] log of
           (Some xs, log') \<Rightarrow> ((xs, True), log')
         | (None, log') \<Rightarrow>
             if changed then ((current, changed), log') else reduce_vals p current changed is log'))"

text \<open>One pass of the loop: the new \<open>current\<close>, and whether it \<open>changed\<close>.\<close>

definition elements_pass :: "(int list \<Rightarrow> bool) \<Rightarrow> int list \<Rightarrow> ShrinkStep list \<Rightarrow> (int list \<times> bool) logged" where
  "elements_pass p current log =
     (case remove_elems p current [0..<length current] log of
        (Some reduced, log') \<Rightarrow> reduce_vals p reduced True [0..<length reduced] log'
      | (None, log') \<Rightarrow> reduce_vals p current False [0..<length current] log')"

definition shrink_pass :: "(int list \<Rightarrow> bool) \<Rightarrow> int list \<Rightarrow> ShrinkStep list \<Rightarrow> (int list \<times> bool) logged" where
  "shrink_pass p current log =
     (if length current > 1 then
        (let mid = length current div 2;
             (failedLeft, log1) = attempt p RemoveRightHalf (take mid current) log
         in if failedLeft then ((take mid current, True), log1)
            else
              (let (failedRight, log2) = attempt p RemoveLeftHalf (drop mid current) log1
               in if failedRight then ((drop mid current, True), log2)
                  else elements_pass p current log2))
      else elements_pass p current log)"

text \<open>A pass that changes the input makes it shorter, or keeps its length and shrinks a value.\<close>

definition weight :: "int list \<Rightarrow> nat" where
  "weight xs = (\<Sum>x \<leftarrow> xs. nat \<bar>x\<bar>)"

definition smaller :: "(int list \<times> int list) set" where
  "smaller = measures [length, weight]"

lemma smaller_iff: "(xs, ys) \<in> smaller \<longleftrightarrow> length xs < length ys \<or> length xs = length ys \<and> weight xs < weight ys"
  by (auto simp: smaller_def)

lemma smaller_trans: "(xs, ys) \<in> smaller \<Longrightarrow> (ys, zs) \<in> smaller \<Longrightarrow> (xs, zs) \<in> smaller"
  by (auto simp: smaller_iff)

lemma weight_update: "i < length xs \<Longrightarrow> weight (xs[i := x]) + nat \<bar>xs ! i\<bar> = weight xs + nat \<bar>x\<bar>"
  by (induction xs arbitrary: i) (auto simp: weight_def nth_Cons list_update.simps split: nat.splits)

lemma quo_2: "x \<noteq> 0 \<Longrightarrow> \<bar>quo x 2\<bar> < \<bar>x\<bar>"
  by (auto simp: quo_def)

lemma indices [simp]: "{0..<n} \<subseteq> {..<n :: nat}"
  by auto

text \<open>What a stage of the pass that tried candidates from a list returns.\<close>

lemma remove_elems_Some:
  "remove_elems p xs is log = (Some ys, log') \<Longrightarrow> set is \<subseteq> {..<length xs} \<Longrightarrow> \<not> p ys \<and> length ys < length xs"
  by (induction "is" arbitrary: log) (auto simp: attempt_def Let_def split: if_splits)

lemma remove_elems_None:
  "remove_elems p xs is log = (None, log') \<Longrightarrow> i \<in> set is \<Longrightarrow> p (take i xs @ drop (i + 1) xs)"
  by (induction "is" arbitrary: log) (auto simp: attempt_def Let_def split: if_splits)

lemma reduce_val_Some:
  "reduce_val p xs i cs log = (Some ys, log') \<Longrightarrow>
    \<exists>c \<in> set cs. c \<noteq> xs ! i \<and> ys = xs[i := c] \<and> \<not> p ys"
  by (induction cs arbitrary: log) (auto simp: attempt_def Let_def split: if_splits)

lemma reduce_val_None:
  "reduce_val p xs i cs log = (None, log') \<Longrightarrow> c \<in> set cs \<Longrightarrow> c \<noteq> xs ! i \<Longrightarrow> p (xs[i := c])"
  by (induction cs arbitrary: log) (auto simp: attempt_def Let_def split: if_splits)

lemma reduce_val_smaller:
  assumes "reduce_val p xs i [0, quo (xs ! i) 2] log = (Some ys, log')" and "i < length xs" and "xs ! i \<noteq> 0"
  shows "\<not> p ys \<and> (ys, xs) \<in> smaller"
proof -
  from reduce_val_Some [OF assms(1)] obtain c where
    c: "c = 0 \<or> c = quo (xs ! i) 2" "ys = xs[i := c]" "\<not> p ys" by auto
  from c(1) have "nat \<bar>c\<bar> < nat \<bar>xs ! i\<bar>" using quo_2 [OF assms(3)] assms(3) by auto
  with weight_update [OF assms(2), of c] have "weight (xs[i := c]) < weight xs" by linarith
  with c(2,3) show ?thesis by (simp add: smaller_iff)
qed

lemma reduce_vals_result:
  assumes "reduce_vals p xs ch is log = ((ys, ch'), log')" and "set is \<subseteq> {..<length xs}"
  shows "(ys = xs \<and> ch' = ch \<or> ch' \<and> \<not> p ys \<and> (ys, xs) \<in> smaller) \<and>
    (\<not> ch' \<longrightarrow> (\<forall>i \<in> set is. \<forall>c \<in> {0, quo (xs ! i) 2}. xs ! i \<noteq> 0 \<longrightarrow> c \<noteq> xs ! i \<longrightarrow> p (xs[i := c])))"
  using assms
proof (induction "is" arbitrary: log)
  case (Cons i "is")
  show ?case
  proof (cases "xs ! i = 0")
    case True
    with Cons show ?thesis by auto
  next
    case nz: False
    obtain r log1 where r: "reduce_val p xs i [0, quo (xs ! i) 2] log = (r, log1)" by (cases "reduce_val p xs i [0, quo (xs ! i) 2] log") simp
    show ?thesis
    proof (cases r)
      case (Some zs)
      with r nz Cons.prems have "ys = zs" "ch'" by simp_all
      with reduce_val_smaller [OF r [unfolded Some] _ nz] Cons.prems(2) show ?thesis by simp
    next
      case None
      note tried = reduce_val_None [OF r [unfolded None]]
      show ?thesis
      proof (cases ch)
        case True
        with r None nz Cons.prems have "ys = xs" "ch'" by simp_all
        with True show ?thesis by simp
      next
        case False
        with r None nz Cons.prems have "reduce_vals p xs ch is log1 = ((ys, ch'), log')" by simp
        from Cons.IH [OF this] Cons.prems(2) tried show ?thesis by auto
      qed
    qed
  qed
qed simp


text \<open>A local minimum: every attempt of a whole pass passes.\<close>

definition minimal_failure :: "(int list \<Rightarrow> bool) \<Rightarrow> int list \<Rightarrow> bool" where
  "minimal_failure p xs \<longleftrightarrow> \<not> p xs \<and>
     (1 < length xs \<longrightarrow> p (take (length xs div 2) xs) \<and> p (drop (length xs div 2) xs)) \<and>
     (\<forall>i \<in> {..<length xs}. p (take i xs @ drop (i + 1) xs) \<and>
        (\<forall>c \<in> {0, quo (xs ! i) 2}. xs ! i \<noteq> 0 \<longrightarrow> c \<noteq> xs ! i \<longrightarrow> p (xs[i := c])))"

lemma elements_pass_result:
  assumes "elements_pass p xs log = ((ys, ch), log')"
  shows "(ch \<longrightarrow> \<not> p ys \<and> (ys, xs) \<in> smaller) \<and>
    (\<not> ch \<longrightarrow> ys = xs \<and> (\<forall>i \<in> {..<length xs}. p (take i xs @ drop (i + 1) xs) \<and>
        (\<forall>c \<in> {0, quo (xs ! i) 2}. xs ! i \<noteq> 0 \<longrightarrow> c \<noteq> xs ! i \<longrightarrow> p (xs[i := c]))))"
proof (cases "remove_elems p xs [0..<length xs] log")
  case (Pair r log1)
  show ?thesis
  proof (cases r)
    case (Some zs)
    with Pair remove_elems_Some [of p xs "[0..<length xs]" log zs log1]
    have z: "\<not> p zs" "(zs, xs) \<in> smaller" by (auto simp: smaller_iff)
    from Pair Some assms have "reduce_vals p zs True [0..<length zs] log1 = ((ys, ch), log')"
      by (simp add: elements_pass_def)
    from reduce_vals_result [OF this] z show ?thesis by (auto intro: smaller_trans)
  next
    case None
    with Pair assms have "reduce_vals p xs False [0..<length xs] log1 = ((ys, ch), log')"
      by (simp add: elements_pass_def)
    from reduce_vals_result [OF this] remove_elems_None [OF Pair [unfolded None]] show ?thesis by auto
  qed
qed

lemma shrink_pass_result:
  assumes "shrink_pass p xs log = ((ys, ch), log')" and "\<not> p xs"
  shows "\<not> p ys \<and> (if ch then (ys, xs) \<in> smaller else ys = xs \<and> minimal_failure p xs)"
proof -
  let ?mid = "length xs div 2"
  have short: "length (take ?mid xs) < length xs" "length (drop ?mid xs) < length xs" if "1 < length xs"
    using that by auto
  from assms(1) consider
      (left) "1 < length xs" "\<not> p (take ?mid xs)" "ys = take ?mid xs" "ch"
    | (right) "1 < length xs" "\<not> p (drop ?mid xs)" "ys = drop ?mid xs" "ch"
    | (elements) log1 where "1 < length xs \<longrightarrow> p (take ?mid xs) \<and> p (drop ?mid xs)"
        "elements_pass p xs log1 = ((ys, ch), log')"
    by (auto simp: shrink_pass_def attempt_def Let_def split: if_splits)
  then show ?thesis
  proof cases
    case left
    with short show ?thesis by (simp add: smaller_iff)
  next
    case right
    with short show ?thesis by (simp add: smaller_iff)
  next
    case elements
    from elements_pass_result [OF elements(2)] elements(1) assms(2) show ?thesis
      by (cases ch) (auto simp: minimal_failure_def)
  qed
qed

text \<open>
  The loop of \<open>FindAndShrink\<close>. That a pass makes the input smaller needs no assumption on the
  predicate, so the loop ends for every one.
\<close>

lemma shrink_pass_decreases:
  assumes "shrink_pass p xs log = ((ys, True), log')"
  shows "(ys, xs) \<in> smaller"
proof -
  let ?mid = "length xs div 2"
  from assms consider
      (half) "1 < length xs" "ys = take ?mid xs \<or> ys = drop ?mid xs"
    | (elements) log1 where "elements_pass p xs log1 = ((ys, True), log')"
    by (auto simp: shrink_pass_def attempt_def Let_def split: if_splits)
  then show ?thesis
  proof cases
    case half
    then show ?thesis by (auto simp: smaller_iff)
  next
    case elements
    from elements_pass_result [OF this] show ?thesis by simp
  qed
qed

function shrink_loop :: "(int list \<Rightarrow> bool) \<Rightarrow> int list \<Rightarrow> ShrinkStep list \<Rightarrow> int list logged" where
  "shrink_loop p current log =
     (case shrink_pass p current log of
        ((current', changed), log') \<Rightarrow>
          if changed then shrink_loop p current' log' else (current', log'))"
  by pat_completeness auto
termination
proof (relation "inv_image smaller (\<lambda>(p, current, log). current)")
  show "wf (inv_image smaller (\<lambda>(p :: int list \<Rightarrow> bool, current, log :: ShrinkStep list). current))"
    by (simp add: smaller_def)
qed (auto dest: shrink_pass_decreases [OF sym])

declare shrink_loop.simps [simp del]

lemma shrink_loop_minimal:
  "\<not> p xs \<Longrightarrow> shrink_loop p xs log = (ys, log') \<Longrightarrow>
    minimal_failure p ys \<and> (ys = xs \<or> (ys, xs) \<in> smaller)"
proof (induction p xs log rule: shrink_loop.induct)
  case (1 p xs log)
  obtain zs ch log1 where z: "shrink_pass p xs log = ((zs, ch), log1)"
    by (metis prod.collapse)
  note r = shrink_pass_result [OF z "1.prems"(1)]
  show ?case
  proof (cases ch)
    case True
    with z "1.prems"(2) have "shrink_loop p zs log1 = (ys, log')" by (simp add: shrink_loop.simps [of p xs])
    with "1.IH" [OF z [symmetric] refl True] r True show ?thesis by (auto intro: smaller_trans)
  next
    case False
    with z "1.prems"(2) r show ?thesis by (simp add: shrink_loop.simps [of p xs])
  qed
qed

section \<open>The search\<close>

text \<open>\<open>rng k n\<close> is what the \<open>k\<close>-th call \<open>Intn(n)\<close> returns; a candidate takes the calls from \<open>k\<close> on.\<close>

definition draw_candidate :: "(nat \<Rightarrow> nat \<Rightarrow> nat) \<Rightarrow> nat \<Rightarrow> int list \<times> nat" where
  "draw_candidate rng k =
     (let n = rng k 20 + 5
      in (map (\<lambda>j. int (rng (k + 1 + j) 200) - 50) [0..<n], k + 1 + n))"

fun find_failing :: "(int list \<Rightarrow> bool) \<Rightarrow> (nat \<Rightarrow> nat \<Rightarrow> nat) \<Rightarrow> nat \<Rightarrow> nat \<Rightarrow> int list option" where
  "find_failing p rng k 0 = None"
| "find_failing p rng k (Suc attempts) =
     (let (candidate, k') = draw_candidate rng k
      in if \<not> p candidate then Some candidate else find_failing p rng k' attempts)"

text \<open>\<open>Inl\<close> is the error that names the number of attempts.\<close>

definition FindAndShrink ::
  "(int list \<Rightarrow> bool) \<Rightarrow> (nat \<Rightarrow> nat \<Rightarrow> nat) \<Rightarrow> int \<Rightarrow> (int, ShrinkResult) res" where
  "FindAndShrink p rng maxAttempts =
     (case find_failing p rng 0 (nat maxAttempts) of
        None \<Rightarrow> Inl maxAttempts
      | Some initial \<Rightarrow>
          (let (current, log) = shrink_loop p initial []
           in Inr \<lparr>InitialFailing = initial, Minimal = current, Steps = log\<rparr>))"

definition BuggySortPredicate :: "int list \<Rightarrow> bool" where
  "BuggySortPredicate arr = list_all (\<lambda>v. \<not> v < 0) (sort arr)"

lemma BuggySortPredicate_iff: "BuggySortPredicate xs \<longleftrightarrow> (\<forall>x \<in> set xs. 0 \<le> x)"
  by (auto simp: BuggySortPredicate_def list_all_iff)

lemma find_failing_fails: "find_failing p rng k n = Some xs \<Longrightarrow> \<not> p xs"
  by (induction n arbitrary: k) (auto simp: Let_def split: prod.splits if_splits)

lemma find_failing_None:
  "(\<And>xs. p xs) \<Longrightarrow> find_failing p rng k n = None"
  by (induction n arbitrary: k) (auto simp: Let_def split: prod.splits)

text \<open>The minimal failures of the demo predicate.\<close>

lemma minimal_negative: "minimal_failure BuggySortPredicate xs \<longleftrightarrow> xs = [- 1]"
proof
  assume m: "minimal_failure BuggySortPredicate xs"
  then obtain i where i: "i < length xs" "xs ! i < 0"
    by (auto simp: minimal_failure_def BuggySortPredicate_iff in_set_conv_nth not_le)
  have one: "length xs = 1"
  proof (rule ccontr)
    assume "length xs \<noteq> 1"
    with i(1) have "1 < length xs" by linarith
    with m have "BuggySortPredicate (take (length xs div 2) xs @ drop (length xs div 2) xs)"
      unfolding minimal_failure_def BuggySortPredicate_iff set_append by blast
    with m show False by (simp add: minimal_failure_def)
  qed
  then obtain x where x: "xs = [x]" by (cases xs) auto
  with i have "x < 0" by simp
  moreover have "quo x 2 \<noteq> x \<longrightarrow> 0 \<le> quo x 2"
    using m x \<open>x < 0\<close> by (auto simp: minimal_failure_def BuggySortPredicate_iff)
  ultimately have "x = - 1" using quo_2 [of x] by (auto simp: quo_def)
  with x show "xs = [- 1]" by simp
next
  assume "xs = [- 1]"
  then show "minimal_failure BuggySortPredicate xs"
    by (simp add: minimal_failure_def BuggySortPredicate_iff quo_def lessThan_Suc)
qed

lemma FindAndShrink_minimal:
  "case FindAndShrink p rng attempts of
     Inl n \<Rightarrow> n = attempts \<and> find_failing p rng 0 (nat attempts) = None
   | Inr res \<Rightarrow> minimal_failure p (Minimal res) \<and>
       (Minimal res = InitialFailing res \<or> (Minimal res, InitialFailing res) \<in> smaller)"
proof (cases "find_failing p rng 0 (nat attempts)")
  case None
  then show ?thesis by (simp add: FindAndShrink_def)
next
  case (Some xs)
  obtain ys log where "shrink_loop p xs [] = (ys, log)" by (cases "shrink_loop p xs []") simp
  with Some shrink_loop_minimal [OF find_failing_fails [OF Some] this] show ?thesis
    by (simp add: FindAndShrink_def)
qed

text \<open>
  C32. Shrinking always ends, whatever the predicate and the random numbers: \<open>FindAndShrink\<close> either
  reports that no attempt failed, or returns a failing input that no removal of a half or of an
  element and no replacement of a value by zero or its half keeps failing, and that is the
  initial input or smaller. For the demo predicate that input always is \<open>[-1]\<close>.
\<close>

theorem shrinking_ends_minimal:
  "(case FindAndShrink p rng attempts of
      Inl n \<Rightarrow> n = attempts \<and> find_failing p rng 0 (nat attempts) = None
    | Inr res \<Rightarrow> minimal_failure p (Minimal res) \<and>
        (Minimal res = InitialFailing res \<or> (Minimal res, InitialFailing res) \<in> smaller)) \<and>
   (case FindAndShrink BuggySortPredicate rng attempts of
      Inl n \<Rightarrow> n = attempts | Inr res \<Rightarrow> Minimal res = [- 1])"
  using FindAndShrink_minimal [where p = p and rng = rng and attempts = attempts]
    FindAndShrink_minimal [where p = BuggySortPredicate and rng = rng and attempts = attempts]
  by (simp add: minimal_negative split: sum.splits)

end
