(* ===== verification/Intervals.thy ===== *)
theory Intervals
  imports GoInt "HOL-Library.Product_Lexorder" "HOL-Library.Multiset"
begin

text \<open>
  Lab 40, \<^verbatim>\<open>labs/40-property-based-testing/internal/interval/interval.go\<close>: the two merges of
  closed intervals of \<open>int\<close> values. \<open>sort.Slice\<close> orders by start and end, and intervals that
  agree in both are the same, so the sorted list is unique.
\<close>

record Interval =
  Start :: int
  End :: int

text \<open>The loops, with \<open>last\<close> the element of \<open>out\<close> that the code points to.\<close>

definition extend_last :: "Interval \<Rightarrow> Interval list \<Rightarrow> Interval list" where
  "extend_last iv out =
     (if End iv > End (last out) then butlast out @ [(last out)\<lparr>End := End iv\<rparr>] else out)"

fun naive_loop :: "Interval list \<Rightarrow> Interval list \<Rightarrow> Interval list" where
  "naive_loop out [] = out"
| "naive_loop out (iv # ivs) =
     (if Start iv \<le> End (last out) then naive_loop (extend_last iv out) ivs
      else naive_loop (out @ [iv]) ivs)"

definition NaiveMerge :: "Interval list \<Rightarrow> Interval list" where
  "NaiveMerge intervals = (case intervals of [] \<Rightarrow> [] | iv # ivs \<Rightarrow> naive_loop [iv] ivs)"

fun robust_loop :: "Interval list \<Rightarrow> Interval list \<Rightarrow> Interval list" where
  "robust_loop out [] = out"
| "robust_loop out (iv # ivs) =
     (if Start iv \<le> add64 (End (last out)) 1 then robust_loop (extend_last iv out) ivs
      else robust_loop (out @ [iv]) ivs)"

definition interval_key :: "Interval \<Rightarrow> int \<times> int" where
  "interval_key iv = (Start iv, End iv)"

definition RobustMerge :: "Interval list \<Rightarrow> Interval list" where
  "RobustMerge intervals =
     (case sort_key interval_key intervals of [] \<Rightarrow> [] | iv # ivs \<Rightarrow> robust_loop [iv] ivs)"

section \<open>What a list of intervals stands for\<close>

text \<open>The integers it covers, and its normal form: in order, with a gap after each interval.\<close>

definition covered :: "Interval list \<Rightarrow> int set" where
  "covered ivs = (\<Union>iv \<in> set ivs. {Start iv..End iv})"

definition proper :: "Interval \<Rightarrow> bool" where
  "proper iv \<longleftrightarrow> min64 \<le> Start iv \<and> Start iv \<le> End iv \<and> End iv < max64"

definition normal :: "Interval list \<Rightarrow> bool" where
  "normal ivs \<longleftrightarrow> list_all (\<lambda>iv. Start iv \<le> End iv) ivs \<and> sorted_wrt (\<lambda>a b. End a + 1 < Start b) ivs"

lemma covered_simps [simp]:
  "covered [] = {}"
  "covered (iv # ivs) = {Start iv..End iv} \<union> covered ivs"
  "covered (xs @ ys) = covered xs \<union> covered ys"
  by (auto simp: covered_def)

lemma covered_mset: "mset xs = mset ys \<Longrightarrow> covered xs = covered ys"
  unfolding covered_def by (metis set_mset_mset)

text \<open>The normal form of a set of integers is unique: the first interval is determined, and so on.\<close>

lemma normal_Cons:
  "normal (a # as) \<longleftrightarrow> Start a \<le> End a \<and> (\<forall>x \<in> covered as. End a + 1 < x) \<and> normal as"
proof -
  have "(\<forall>b \<in> set as. End a + 1 < Start b) \<longleftrightarrow> (\<forall>x \<in> covered as. End a + 1 < x)"
    if "list_all (\<lambda>iv. Start iv \<le> End iv) as"
    using that by (force simp: covered_def list_all_iff)
  then show ?thesis by (auto simp: normal_def)
qed

lemma covered_Nil_iff: "normal ivs \<Longrightarrow> covered ivs = {} \<longleftrightarrow> ivs = []"
  by (cases ivs) (auto simp: normal_Cons)

lemma normal_first_end:
  assumes "normal (a # as)" and "normal (b # bs)" and "Start a = Start b"
    and "covered (a # as) = covered (b # bs)"
  shows "End b \<le> End a"
proof (rule ccontr)
  assume "\<not> End b \<le> End a"
  with assms have "End a + 1 \<in> covered (b # bs)" by (auto simp: normal_Cons)
  with assms(4) have "End a + 1 \<in> covered (a # as)" by simp
  with assms(1) show False by (auto simp: normal_Cons)
qed

lemma normal_first_start:
  assumes "normal (a # as)" and "normal (b # bs)" and "covered (a # as) = covered (b # bs)"
  shows "Start b \<le> Start a"
proof -
  from assms(1,3) have "Start a \<in> covered (b # bs)" by (auto simp: normal_Cons)
  with assms(2) show ?thesis by (force simp: normal_Cons)
qed

lemma covered_tail:
  assumes "normal (a # as)"
  shows "covered as = covered (a # as) - {Start a..End a}"
proof -
  from assms have "\<forall>x \<in> covered as. End a + 1 < x" by (simp add: normal_Cons)
  then have "covered as \<inter> {Start a..End a} = {}" by force
  then show ?thesis by auto
qed

lemma normal_unique: "normal xs \<Longrightarrow> normal ys \<Longrightarrow> covered xs = covered ys \<Longrightarrow> xs = ys"
proof (induction xs arbitrary: ys)
  case Nil
  then show ?case using covered_Nil_iff [of ys] by auto
next
  case (Cons a as)
  then obtain b bs where ys: "ys = b # bs" using covered_Nil_iff [of "a # as"] by (cases ys) auto
  note n = Cons.prems [unfolded ys]
  have start: "Start a = Start b"
    using normal_first_start [OF n] normal_first_start [OF n(2,1) n(3) [symmetric]] by simp
  have ab: "a = b"
    using normal_first_end [OF n(1,2) start n(3)] normal_first_end [OF n(2,1) start [symmetric] n(3) [symmetric]] start
    by simp
  have "covered as = covered bs"
    using covered_tail [OF n(1)] covered_tail [OF n(2)] n(3) ab by metis
  with Cons.IH n(1,2) ys ab show ?case by (simp add: normal_Cons)
qed

section \<open>The loops\<close>

text \<open>What is before the last interval never changes; the loop works on the last one.\<close>

fun merge_from :: "(Interval \<Rightarrow> Interval \<Rightarrow> bool) \<Rightarrow> Interval \<Rightarrow> Interval list \<Rightarrow> Interval list" where
  "merge_from touches l [] = [l]"
| "merge_from touches l (iv # ivs) =
     (if touches l iv then merge_from touches (l\<lparr>End := max (End l) (End iv)\<rparr>) ivs
      else l # merge_from touches iv ivs)"

lemma extend_last_snoc: "extend_last iv (out @ [l]) = out @ [l\<lparr>End := max (End l) (End iv)\<rparr>]"
  by (cases l) (auto simp: extend_last_def max_def)

lemma robust_loop_from:
  "robust_loop (out @ [l]) ivs = out @ merge_from (\<lambda>l iv. Start iv \<le> add64 (End l) 1) l ivs"
proof (induction ivs arbitrary: out l)
  case (Cons iv ivs)
  show ?case using Cons [of "out @ [l]" iv] Cons by (simp add: extend_last_snoc)
qed simp

lemma naive_loop_from:
  "naive_loop (out @ [l]) ivs = out @ merge_from (\<lambda>l iv. Start iv \<le> End l) l ivs"
proof (induction ivs arbitrary: out l)
  case (Cons iv ivs)
  show ?case using Cons [of "out @ [l]" iv] Cons by (simp add: extend_last_snoc)
qed simp

lemma RobustMerge_from:
  "RobustMerge ivs = (case sort_key interval_key ivs of [] \<Rightarrow> []
     | iv # ivs \<Rightarrow> merge_from (\<lambda>l iv. Start iv \<le> add64 (End l) 1) iv ivs)"
  using robust_loop_from [of "[]"] by (simp add: RobustMerge_def split: list.split)

text \<open>Merging intervals that are sorted by start keeps what they cover, for either test.\<close>

lemma merge_from_covered:
  assumes "\<And>l iv. touches l iv \<Longrightarrow> Start iv \<le> End l + 1" and "sorted (map Start (l # ivs))"
    and "list_all (\<lambda>iv. Start iv \<le> End iv) (l # ivs)"
  shows "covered (merge_from touches l ivs) = covered (l # ivs)"
  using assms(2,3)
proof (induction ivs arbitrary: l)
  case (Cons iv ivs)
  show ?case
  proof (cases "touches l iv")
    case True
    let ?l = "l\<lparr>End := max (End l) (End iv)\<rparr>"
    have "covered (merge_from touches ?l ivs) = covered (?l # ivs)"
      using Cons.prems by (intro Cons.IH) auto
    moreover have "{Start ?l..End ?l} = {Start l..End l} \<union> {Start iv..End iv}"
      using assms(1) [OF True] Cons.prems by auto
    ultimately show ?thesis using True by auto
  next
    case False
    then show ?thesis using Cons by simp
  qed
qed simp

lemma merge_from_normal:
  assumes "\<And>l iv. End l < max64 \<Longrightarrow> min64 \<le> End l \<Longrightarrow> touches l iv \<longleftrightarrow> Start iv \<le> End l + 1"
    and "sorted (map Start (l # ivs))" and "list_all proper (l # ivs)"
  shows "normal (merge_from touches l ivs) \<and> (\<forall>x \<in> covered (merge_from touches l ivs). Start l \<le> x)"
  using assms(2,3)
proof (induction ivs arbitrary: l)
  case Nil
  then show ?case by (auto simp: normal_def proper_def)
next
  case (Cons iv ivs)
  have t: "touches l iv \<longleftrightarrow> Start iv \<le> End l + 1"
    using assms(1) [of l iv] Cons.prems by (auto simp: proper_def)
  show ?case
  proof (cases "touches l iv")
    case True
    let ?l = "l\<lparr>End := max (End l) (End iv)\<rparr>"
    have "proper ?l" using Cons.prems(2) by (auto simp: proper_def)
    then have "sorted (map Start (?l # ivs))" "list_all proper (?l # ivs)" using Cons.prems by simp_all
    from Cons.IH [OF this] True show ?thesis by simp
  next
    case False
    from Cons.IH [of iv] Cons.prems
    have n: "normal (merge_from touches iv ivs)" "\<forall>x \<in> covered (merge_from touches iv ivs). Start iv \<le> x" by auto
    have l: "Start l \<le> End l" "Start l \<le> Start iv" "End l + 1 < Start iv"
      using False t Cons.prems by (auto simp: proper_def)
    from n(2) l have "\<forall>x \<in> covered (merge_from touches iv ivs). End l + 1 < x \<and> Start l \<le> x"
      by (meson order.trans order_less_le_trans)
    with n(1) l False show ?thesis by (auto simp: normal_Cons)
  qed
qed

lemma touches_64: "End l < max64 \<Longrightarrow> min64 \<le> End l \<Longrightarrow> Start iv \<le> add64 (End l) 1 \<longleftrightarrow> Start iv \<le> End l + 1"
  by (simp add: add64_id in64_def)


text \<open>Below the largest \<open>int\<close> the test of \<open>RobustMerge\<close> does not overflow.\<close>

lemma merge_from_no_overflow:
  "list_all proper (l # ivs) \<Longrightarrow>
    merge_from (\<lambda>l iv. Start iv \<le> add64 (End l) 1) l ivs = merge_from (\<lambda>l iv. Start iv \<le> End l + 1) l ivs"
proof (induction ivs arbitrary: l)
  case (Cons iv ivs)
  have "Start iv \<le> add64 (End l) 1 \<longleftrightarrow> Start iv \<le> End l + 1"
    using touches_64 [of l iv] Cons.prems by (auto simp: proper_def)
  moreover have "proper (l\<lparr>End := max (End l) (End iv)\<rparr>)" using Cons.prems by (auto simp: proper_def)
  ultimately show ?case using Cons by simp
qed simp

lemma merge_from_proper:
  "list_all proper (l # ivs) \<Longrightarrow> sorted (map Start (l # ivs)) \<Longrightarrow> list_all proper (merge_from touches l ivs)"
proof (induction ivs arbitrary: l)
  case (Cons iv ivs)
  have "proper (l\<lparr>End := max (End l) (End iv)\<rparr>)" using Cons.prems by (auto simp: proper_def)
  with Cons show ?case by simp
qed simp

lemma wrap64_max: "wrap64 (max64 + 1) = min64"
  by (simp add: wrap64_def max64_def min64_def)

section \<open>RobustMerge\<close>

lemma sorted_starts: "sorted (map Start (sort_key interval_key ivs))"
proof -
  have "sorted_wrt (\<lambda>a b. interval_key a \<le> interval_key b) (sort_key interval_key ivs)"
    using sorted_sort_key [of interval_key ivs] by (simp add: sorted_map)
  then show ?thesis
    unfolding sorted_map by (rule sorted_wrt_mono_rel [rotated]) (auto simp: interval_key_def less_eq_prod_def)
qed

lemma RobustMerge_normal:
  assumes "list_all proper ivs"
  shows "normal (RobustMerge ivs)" and "covered (RobustMerge ivs) = covered ivs"
proof -
  let ?s = "sort_key interval_key ivs"
  have p: "list_all proper ?s" using assms by (simp add: list_all_iff)
  have c: "covered ?s = covered ivs" by (rule covered_mset) simp
  show "normal (RobustMerge ivs)"
  proof (cases ?s)
    case Nil
    then show ?thesis by (simp add: RobustMerge_from normal_def)
  next
    case (Cons l xs)
    with merge_from_normal [OF touches_64, of l xs] p sorted_starts [of ivs]
    show ?thesis by (simp add: RobustMerge_from)
  qed
  show "covered (RobustMerge ivs) = covered ivs"
  proof (cases ?s)
    case Nil
    with c show ?thesis by (simp add: RobustMerge_from)
  next
    case (Cons l xs)
    have le: "list_all (\<lambda>iv. Start iv \<le> End iv) (l # xs)" using p Cons by (simp add: list_all_iff proper_def)
    have "covered (merge_from (\<lambda>l iv. Start iv \<le> End l + 1) l xs) = covered (l # xs)"
      using merge_from_covered [of "\<lambda>l iv. Start iv \<le> End l + 1" l xs] sorted_starts [of ivs] le Cons by simp
    moreover have "merge_from (\<lambda>l iv. Start iv \<le> add64 (End l) 1) l xs = merge_from (\<lambda>l iv. Start iv \<le> End l + 1) l xs"
      using p unfolding Cons by (rule merge_from_no_overflow)
    ultimately show ?thesis using Cons c by (simp add: RobustMerge_from)
  qed
qed


lemma RobustMerge_proper:
  assumes "list_all proper ivs"
  shows "list_all proper (RobustMerge ivs)"
proof (cases "sort_key interval_key ivs")
  case (Cons l xs)
  have "list_all proper (l # xs)" using assms unfolding Cons [symmetric] by (simp add: list_all_iff)
  moreover have "sorted (map Start (l # xs))" using sorted_starts [of ivs] Cons by simp
  ultimately have "list_all proper (merge_from (\<lambda>l iv. Start iv \<le> add64 (End l) 1) l xs)"
    by (rule merge_from_proper)
  with Cons show ?thesis by (simp add: RobustMerge_from)
qed (simp add: RobustMerge_from)

lemma RobustMerge_of_normal:
  assumes "list_all proper ivs" and "normal ivs"
  shows "RobustMerge ivs = ivs"
  by (rule normal_unique) (use RobustMerge_normal [OF assms(1)] assms(2) in simp_all)

lemma NaiveMerge_sorted:
  assumes "sorted (map Start ivs)" and "list_all proper ivs"
  shows "covered (NaiveMerge ivs) = covered ivs"
proof (cases ivs)
  case (Cons l xs)
  have le: "list_all (\<lambda>iv. Start iv \<le> End iv) ivs" using assms(2) by (simp add: list_all_iff proper_def)
  have "naive_loop [l] xs = merge_from (\<lambda>l iv. Start iv \<le> End l) l xs"
    using naive_loop_from [of "[]"] by simp
  with merge_from_covered [of "\<lambda>l iv. Start iv \<le> End l" l xs] assms(1) le Cons show ?thesis
    by (simp add: NaiveMerge_def)
qed (simp add: NaiveMerge_def)

section \<open>Properties\<close>

text \<open>
  C33. \<open>RobustMerge\<close> computes the normal form: for proper intervals (start not after end, end below
  the largest \<open>int\<close>) its result covers exactly the same integers, is in order with a gap after
  each interval, does not change when merged again, and is the same for two inputs exactly when
  they cover the same integers, whatever their order. \<open>NaiveMerge\<close> covers the same integers when
  its input is sorted by start.
\<close>

theorem merge_normal_form:
  assumes "list_all proper xs" and "list_all proper ys"
  shows "covered (RobustMerge xs) = covered xs \<and> normal (RobustMerge xs) \<and>
    RobustMerge (RobustMerge xs) = RobustMerge xs \<and>
    (RobustMerge xs = RobustMerge ys \<longleftrightarrow> covered xs = covered ys) \<and>
    (sorted (map Start xs) \<longrightarrow> covered (NaiveMerge xs) = covered xs)"
proof -
  note x = RobustMerge_normal [OF assms(1)] and y = RobustMerge_normal [OF assms(2)]
  have "RobustMerge (RobustMerge xs) = RobustMerge xs"
    by (rule RobustMerge_of_normal [OF RobustMerge_proper [OF assms(1)] x(1)])
  moreover have "RobustMerge xs = RobustMerge ys \<longleftrightarrow> covered xs = covered ys"
    using normal_unique [OF x(1) y(1)] x(2) y(2) by metis
  ultimately show ?thesis using x NaiveMerge_sorted [OF _ assms(1)] by blast
qed

theorem merge_normal_form_witness:
  "RobustMerge [\<lparr>Start = 5, End = 8\<rparr>, \<lparr>Start = 1, End = 4\<rparr>] = RobustMerge [\<lparr>Start = 1, End = 8\<rparr>]"
proof -
  have "list_all proper [\<lparr>Start = 5, End = 8\<rparr>, \<lparr>Start = 1, End = 4\<rparr>]" "list_all proper [\<lparr>Start = 1, End = 8\<rparr>]"
    by (simp_all add: proper_def min64_def max64_def)
  moreover have "covered [\<lparr>Start = 5, End = 8\<rparr>, \<lparr>Start = 1, End = 4\<rparr>] = covered [\<lparr>Start = 1, End = 8\<rparr>]"
    by auto
  ultimately show ?thesis using merge_normal_form by blast
qed



end
