(* ===== verification/GoText.thy ===== *)
theory GoText
  imports GoInt
begin

text \<open>
  Go strings as lists of bytes, and what the labs use of \<open>strings\<close> and \<open>strconv\<close> on them.
\<close>

type_synonym bytes = "nat list"

text \<open>The verb \<open>%d\<close>, which is \<open>strconv.FormatInt\<close> in base ten.\<close>

definition fmt_d :: "int \<Rightarrow> bytes" where
  "fmt_d n = (if n < 0 then 45 # str_of_nat (nat (- n)) else str_of_nat (nat n))"

text \<open>\<open>strconv.ParseInt(s, 10, 64)\<close>: the digits as a \<open>uint64\<close>, then sign and range.\<close>

datatype num_error = NumSyntax | NumRange

fun parse_digits :: "nat \<Rightarrow> bytes \<Rightarrow> (num_error, nat) res" where
  "parse_digits n [] = Inr n"
| "parse_digits n (c # cs) =
     (if \<not> (48 \<le> c \<and> c \<le> 57) then Inl NumSyntax
      else if 2 ^ 64 \<le> 10 * n + (c - 48) then Inl NumRange
      else parse_digits (10 * n + (c - 48)) cs)"

definition parse_uint :: "bytes \<Rightarrow> (num_error, nat) res" where
  "parse_uint s = (if s = [] then Inl NumSyntax else parse_digits 0 s)"

definition ParseInt :: "bytes \<Rightarrow> (num_error, int) res" where
  "ParseInt s =
     (case s of
        [] \<Rightarrow> Inl NumSyntax
      | c # cs \<Rightarrow>
          (let neg = (c = 45); body = (if c = 43 \<or> c = 45 then cs else s)
           in case parse_uint body of
                Inl e \<Rightarrow> Inl e
              | Inr n \<Rightarrow>
                  if \<not> neg \<and> 2 ^ 63 \<le> n \<or> neg \<and> 2 ^ 63 < n then Inl NumRange
                  else Inr (if neg then - int n else int n)))"

text \<open>\<open>strings.Split\<close> at the occurrences of one byte.\<close>

fun split_at :: "nat \<Rightarrow> bytes \<Rightarrow> bytes list" where
  "split_at d [] = [[]]"
| "split_at d (c # cs) =
     (if c = d then [] # split_at d cs
      else (case split_at d cs of [] \<Rightarrow> [[c]] | p # ps \<Rightarrow> (c # p) # ps))"

lemma foldl_digits_le: "m \<le> foldl (\<lambda>a d. 10 * a + d) m (ds :: nat list)"
proof (induction ds arbitrary: m)
  case (Cons d ds)
  have "m \<le> 10 * m + d" by simp
  with Cons [of "10 * m + d"] show ?case by (auto intro: order.trans)
qed simp

lemma parse_digits_value:
  assumes "\<forall>d \<in> set ds. d < 10" and "foldl (\<lambda>a d. 10 * a + d) m ds < 2 ^ 64"
  shows "parse_digits m (map (\<lambda>d. 48 + d) ds) = Inr (foldl (\<lambda>a d. 10 * a + d) m ds)"
  using assms
proof (induction ds arbitrary: m)
  case (Cons d ds)
  have "10 * m + d < 2 ^ 64" using foldl_digits_le [of "10 * m + d" ds] Cons.prems(2) by simp
  with Cons show ?case by simp
qed simp

lemma parse_uint_str: "n < 2 ^ 64 \<Longrightarrow> parse_uint (str_of_nat n) = Inr n"
  using parse_digits_value [of "digits10 n" 0] digits10_range [of n] nat_of_digits_digits10 [of n]
  by (simp add: parse_uint_def str_of_nat_def digits10_nonempty nat_of_digits_def)

lemma str_of_nat_Cons: "\<exists>c cs. str_of_nat n = c # cs \<and> 48 \<le> c \<and> c \<le> 57"
  using str_of_nat_nonempty [of n] str_of_nat_digits [of n] by (cases "str_of_nat n") auto

lemma ParseInt_fmt_d: "in64 n \<Longrightarrow> ParseInt (fmt_d n) = Inr n"
  using str_of_nat_Cons [of "nat n"] parse_uint_str [of "nat n"] parse_uint_str [of "nat (- n)"]
  by (auto simp: ParseInt_def fmt_d_def in64_def min64_def max64_def Let_def nat_less_iff)

lemma split_at_none: "d \<notin> set s \<Longrightarrow> split_at d s = [s]"
  by (induction s) auto

lemma split_at_first: "d \<notin> set xs \<Longrightarrow> split_at d (xs @ d # ys) = xs # split_at d ys"
  by (induction xs) (auto simp: split_at_none)

lemma split_at_nonempty: "split_at d s \<noteq> []"
  by (induction s) (auto split: list.splits)

lemma fmt_d_chars: "c \<in> set (fmt_d n) \<Longrightarrow> c = 45 \<or> 48 \<le> c \<and> c \<le> 57"
  using str_of_nat_digits [of "nat n"] str_of_nat_digits [of "nat (- n)"] by (auto simp: fmt_d_def split: if_splits)

end
