(* ===== verification/Amounts.thy ===== *)
theory Amounts
  imports GoText
begin

text \<open>
  Lab 40, \<^verbatim>\<open>labs/40-property-based-testing/internal/currency/currency.go\<close>: amounts as integer
  cents, printed and parsed. A Go string is the list of its bytes; what the code uses of
  \<open>strings\<close> and \<open>fmt\<close> is written out on them, here or in \<open>GoText\<close>. The float version of the file is not
  modelled.
\<close>

section \<open>Printing\<close>

text \<open>The verb \<open>%02d\<close>; its width counts the sign.\<close>

definition fmt_02d :: "int \<Rightarrow> bytes" where
  "fmt_02d n = (if 0 \<le> n \<and> n < 10 then 48 # fmt_d n else fmt_d n)"

definition Format :: "int \<Rightarrow> bytes" where
  "Format Cents =
     (let absCents = (if Cents < 0 then sub64 0 Cents else Cents);
          sign = (if Cents < 0 then [45] else []);
          dollars = quo absCents 100;
          cents = rem absCents 100
      in sign @ [36] @ fmt_d dollars @ [46] @ fmt_02d cents)"

section \<open>Parsing\<close>

text \<open>The UTF-8 encodings of the white space that \<open>strings.TrimSpace\<close> removes at both ends.\<close>

definition space_runes :: "bytes list" where
  "space_runes =
     [[9], [10], [11], [12], [13], [32], [0xC2, 0x85], [0xC2, 0xA0], [0xE1, 0x9A, 0x80]] @
     map (\<lambda>b. [0xE2, 0x80, b]) ([0x80..<0x8B] @ [0xA8, 0xA9, 0xAF]) @
     [[0xE2, 0x81, 0x9F], [0xE3, 0x80, 0x80]]"

lemma find_holds: "find P xs = Some x \<Longrightarrow> P x"
  by (induction xs) (auto split: if_splits)

function trim_left :: "bytes \<Rightarrow> bytes" where
  "trim_left s =
     (case find (\<lambda>r. r \<noteq> [] \<and> length r \<le> length s \<and> take (length r) s = r) space_runes of
        None \<Rightarrow> s
      | Some r \<Rightarrow> trim_left (drop (length r) s))"
  by pat_completeness auto
termination by (relation "measure length") (auto dest!: find_holds intro: diff_less)

declare trim_left.simps [simp del]

function trim_right :: "bytes \<Rightarrow> bytes" where
  "trim_right s =
     (case find (\<lambda>r. r \<noteq> [] \<and> length r \<le> length s \<and> drop (length s - length r) s = r) space_runes of
        None \<Rightarrow> s
      | Some r \<Rightarrow> trim_right (take (length s - length r) s))"
  by pat_completeness auto
termination by (relation "measure length") (auto dest!: find_holds intro: diff_less)

declare trim_right.simps [simp del]

definition trim_space :: "bytes \<Rightarrow> bytes" where
  "trim_space s = trim_right (trim_left s)"

datatype amount_error = MissingDollar | InvalidDecimal | NumError num_error

definition ParseRobust :: "bytes \<Rightarrow> (amount_error, int) res" where
  "ParseRobust s =
     (let s1 = trim_space s;
          negative = (take 1 s1 = [45]);
          sign = (if negative then - 1 else 1);
          s2 = (if negative then drop 1 s1 else s1)
      in if take 1 s2 \<noteq> [36] then Inl MissingDollar
         else
           (case split_at 46 (drop 1 s2) of
              [whole, fraction] \<Rightarrow>
                (if length fraction \<noteq> 2 then Inl InvalidDecimal
                 else
                   (case ParseInt whole of
                      Inl e \<Rightarrow> Inl (NumError e)
                    | Inr dollars \<Rightarrow>
                        (case ParseInt fraction of
                           Inl e \<Rightarrow> Inl (NumError e)
                         | Inr cents \<Rightarrow> Inr (mul64 (add64 (mul64 dollars 100) cents) sign))))
            | _ \<Rightarrow> Inl InvalidDecimal))"

section \<open>The round trip\<close>

text \<open>The fraction: two characters, and what it reads as.\<close>

lemma fmt_02d_two: "0 \<le> n \<Longrightarrow> n < 100 \<Longrightarrow> length (fmt_02d n) = 2 \<and> ParseInt (fmt_02d n) = Inr n"
proof -
  assume n: "0 \<le> n" "n < 100"
  show ?thesis
  proof (cases "n < 10")
    case True
    then have "nat n < 10" using n by linarith
    then have "str_of_nat (nat n) = [48 + nat n]"
      by (subst str_of_nat_def, subst digits10.simps) simp
    with True n show ?thesis
      by (simp add: fmt_02d_def fmt_d_def ParseInt_def parse_uint_def)
  next
    case False
    then have "digits10 (nat n) = [nat n div 10, nat n mod 10]" using n
      by (subst digits10.simps, subst digits10.simps) auto
    then have "length (str_of_nat (nat n)) = 2" by (simp add: str_of_nat_def)
    with False n ParseInt_fmt_d [of n] show ?thesis
      by (simp add: fmt_02d_def fmt_d_def in64_def min64_def max64_def)
  qed
qed


lemma trim_left_id: "hd s \<in> {36, 45} \<Longrightarrow> trim_left s = s"
proof -
  assume h: "hd s \<in> {36, 45}"
  have "take (length r) s \<noteq> r" if "r \<in> set space_runes" for r
  proof
    assume t: "take (length r) s = r"
    from that have r: "r \<noteq> []" "hd r \<notin> {36, 45}" by (auto simp: space_runes_def)
    from t r(1) have "hd r = hd s" by (metis hd_take length_greater_0_conv)
    with h r(2) show False by simp
  qed
  then have "find (\<lambda>r. r \<noteq> [] \<and> length r \<le> length s \<and> take (length r) s = r) space_runes = None"
    unfolding find_None_iff by blast
  then show ?thesis by (simp add: trim_left.simps [of s])
qed

lemma trim_right_id: "s \<noteq> [] \<Longrightarrow> 48 \<le> last s \<Longrightarrow> last s \<le> 57 \<Longrightarrow> trim_right s = s"
proof -
  assume h: "s \<noteq> []" "48 \<le> last s" "last s \<le> 57"
  have "drop (length s - length r) s \<noteq> r" if "r \<in> set space_runes" for r
  proof
    assume t: "drop (length s - length r) s = r"
    from that have r: "r \<noteq> []" "last r < 48 \<or> 57 < last r" by (auto simp: space_runes_def)
    from t r(1) h(1) have "last r = last s" by (metis drop_eq_Nil2 last_drop linorder_not_le)
    with h r(2) show False by simp
  qed
  then have "find (\<lambda>r. r \<noteq> [] \<and> length r \<le> length s \<and> drop (length s - length r) s = r) space_runes = None"
    unfolding find_None_iff by blast
  then show ?thesis by (simp add: trim_right.simps [of s])
qed

lemma fmt_d_no_dot: "46 \<notin> set (fmt_d n)" "46 \<notin> set (fmt_02d n)"
  using str_of_nat_digits [of "nat n"] str_of_nat_digits [of "nat (- n)"]
  by (auto simp: fmt_d_def fmt_02d_def)

lemma fmt_02d_last: "fmt_02d n \<noteq> [] \<and> 48 \<le> last (fmt_02d n) \<and> last (fmt_02d n) \<le> 57"
  using str_of_nat_digits [of "nat n"] str_of_nat_digits [of "nat (- n)"]
    str_of_nat_nonempty [of "nat n"] str_of_nat_nonempty [of "nat (- n)"]
  by (auto simp: fmt_d_def fmt_02d_def)

text \<open>Reading what the format writes, for any parts whose fraction has two characters.\<close>

lemma ParseRobust_parts:
  assumes "in64 d" and "length (fmt_02d e) = 2" and "ParseInt (fmt_02d e) = Inr e"
  shows "ParseRobust (36 # fmt_d d @ 46 # fmt_02d e) = Inr (wrap64 (d * 100 + e))"
    and "ParseRobust (45 # 36 # fmt_d d @ 46 # fmt_02d e) = Inr (wrap64 (- wrap64 (d * 100 + e)))"
  using fmt_02d_last [of e] assms ParseInt_fmt_d [OF assms(1)] wrap64_add [of "d * 100" e] in64_wrap64
  by (simp_all add: ParseRobust_def trim_space_def trim_left_id trim_right_id split_at_first split_at_none fmt_d_no_dot
      mul64_def add64_def wrap64_id)

lemma in64_quo: "in64 a \<Longrightarrow> in64 (quo a 100)"
  by (auto simp: in64_def quo_def min64_def max64_def)

lemma rem_range: "0 \<le> a \<Longrightarrow> 0 \<le> rem a 100 \<and> rem a 100 < 100"
  by (simp add: rem_def quo_def minus_div_mult_eq_mod)

lemma smallest_fraction: "length (fmt_02d (- 8)) = 2" "ParseInt (fmt_02d (- 8)) = Inr (- 8)"
  by (simp_all add: fmt_02d_def fmt_d_def str_of_nat_def digits10.simps ParseInt_def parse_uint_def)

section \<open>Properties\<close>

text \<open>
  Parsing undoes printing for every \<open>int64\<close>, the smallest included, although that one is
  printed with a sign inside both numbers because its absolute value overflows.
\<close>

lemma amount_round_trip:
  assumes "in64 c"
  shows "ParseRobust (Format c) = Inr c"
proof -
  let ?a = "if c < 0 then sub64 0 c else c"
  have sum: "quo ?a 100 * 100 + rem ?a 100 = ?a" by (rule quo_rem)
  have a: "in64 ?a" using assms by (simp add: sub64_def in64_wrap64)
  have frac: "length (fmt_02d (rem ?a 100)) = 2 \<and> ParseInt (fmt_02d (rem ?a 100)) = Inr (rem ?a 100)"
  proof (cases "c = min64")
    case True
    then have "rem ?a 100 = - 8" by (simp add: sub64_def wrap64_def min64_def rem_def quo_def)
    then show ?thesis using smallest_fraction by simp
  next
    case False
    then have "0 \<le> ?a" using assms by (auto simp: sub64_id in64_def min64_def max64_def)
    then show ?thesis using fmt_02d_two rem_range by blast
  qed
  have "wrap64 (- ?a) = c" if "c < 0"
    using that assms by (cases "c = min64") (auto simp: sub64_def wrap64_def in64_def min64_def max64_def)
  with ParseRobust_parts [OF in64_quo [OF a], of "rem ?a 100"] frac assms show ?thesis
    unfolding sum by (auto simp: Format_def Let_def wrap64_id [OF a])
qed

text \<open>What else the parser accepts: a signed fraction, and a sum that has wrapped around.\<close>

lemma malformed_amounts_accepted:
  "ParseRobust [36, 53, 46, 45, 53] = Inr 495" (is ?signed)
  "ParseRobust (36 # str_of_nat 92233720368547759 @ [46, 48, 48]) = Inr (- 9223372036854775716)" (is ?wrapped)
proof -
  have five: "fmt_d 5 = [53]" "fmt_02d (- 5) = [45, 53]" "fmt_02d 0 = [48, 48]"
    by (simp_all add: fmt_02d_def fmt_d_def str_of_nat_def digits10.simps)
  have "ParseInt (fmt_02d (- 5)) = Inr (- 5)"
    using ParseInt_fmt_d [of "- 5"] by (simp add: fmt_02d_def in64_def min64_def max64_def)
  with ParseRobust_parts(1) [of 5 "- 5"] show ?signed
    by (simp add: five wrap64_def in64_def min64_def max64_def)
  from ParseRobust_parts(1) [of 92233720368547759 0] fmt_02d_two [of 0] show ?wrapped
    by (simp add: five wrap64_def in64_def min64_def max64_def fmt_d_def)
qed

end
