(* ===== verification/PyCore.thy ===== *)
theory PyCore
  imports Prelude
begin

text \<open>
  The part of Python that the publication scripts (\<open>labs/*/result/content_def.py\<close> and
  \<open>labs/37-cache-invalidation-strategies/generate_and_verify.py\<close>) are written in: text as
  sequences of code points, the values their data is made of, exceptions, truth testing,
  subscripts, and the binding of a call's arguments to a function's parameters.
\<close>

section \<open>Text\<close>

text \<open>
  A Python \<open>str\<close> is a sequence of Unicode code points; \<open>lit\<close> reads an ASCII literal, and a
  character outside ASCII is written as the one-element list of its code point.
\<close>

type_synonym pystr = "nat list"

definition lit :: "string \<Rightarrow> pystr" where
  "lit s = map of_char s"

lemma lit_simps:
  "lit [] = []"
  "lit (c # cs) = of_char c # lit cs"
  by (simp_all add: lit_def)

lemma lit_Nil [simp]: "lit [] = []"
  by (simp add: lit_def)

text \<open>The simplifier leaves the text of a literal alone unless \<open>lit_simps\<close> is given to it.\<close>

lemma lit_opaque [cong]: "lit s = lit s"
  by (rule refl)

lemma lit_append: "lit (xs @ ys) = lit xs @ lit ys"
  by (simp add: lit_def)

lemma length_lit: "length (lit s) = length s"
  by (simp add: lit_def)

lemma inj_lit: "lit s = lit t \<longleftrightarrow> s = t"
  by (auto simp: lit_def inj_map_eq_map [OF inj_of_char])

lemma lit_eq_Nil [simp]: "lit s = [] \<longleftrightarrow> s = []"
  by (simp add: lit_def)

section \<open>Values and exceptions\<close>

datatype pyval =
    PyStr pystr
  | PyList "pyval list"
  | PyDict "(string \<times> pyval) list"

datatype pyexc =
    UnexpectedKeyword string
  | MultipleValues string
  | TooManyPositional nat nat
  | MissingArgument string
  | KeyError string
  | IndexError
  | NotAString
  | ValueError string
  | FileNotFoundError
  | NotADirectoryError
  | IsADirectoryError
  | FileExistsError
  | BadZipFile

text \<open>
  \<open>a or b\<close> and \<open>a if a else b\<close> test the truth of \<open>a\<close>: an empty string, list or dictionary
  is false.
\<close>

fun py_truthy :: "pyval \<Rightarrow> bool" where
  "py_truthy (PyStr s) = (s \<noteq> [])"
| "py_truthy (PyList xs) = (xs \<noteq> [])"
| "py_truthy (PyDict kvs) = (kvs \<noteq> [])"

definition py_or :: "pyval \<Rightarrow> pyval \<Rightarrow> pyval" where
  "py_or a b = (if py_truthy a then a else b)"

lemma py_or_truthy: "py_truthy b \<Longrightarrow> py_truthy (py_or a b)"
  by (simp add: py_or_def)

text \<open>\<open>d[k]\<close>: a missing key raises, and only dictionaries have keys.\<close>

fun py_subscript :: "pyval \<Rightarrow> string \<Rightarrow> (pyexc, pyval) res" where
  "py_subscript (PyDict kvs) k =
     (case map_of kvs k of None \<Rightarrow> Inl (KeyError k) | Some v \<Rightarrow> Inr v)"
| "py_subscript _ k = Inl (KeyError k)"

text \<open>Interpolation into an f-string of a value that is a string.\<close>

fun py_format :: "pyval \<Rightarrow> (pyexc, pystr) res" where
  "py_format (PyStr s) = Inr s"
| "py_format _ = Inl NotAString"

text \<open>\<open>s[:n]\<close> for a non-negative \<open>n\<close>.\<close>

definition str_prefix :: "nat \<Rightarrow> pystr \<Rightarrow> pystr" where
  "str_prefix n s = take n s"

section \<open>Calls\<close>

text \<open>
  A \<open>def\<close> header: the parameters without a default, then those with one, in order. A call:
  its positional arguments and its keyword arguments, in the order written.
\<close>

record signature =
  required :: "string list"
  defaults :: "(string \<times> pyval) list"

record pycall =
  posargs :: "pyval list"
  kwargs :: "(string \<times> pyval) list"

type_synonym env = "(string \<times> pyval) list"

definition param_names :: "signature \<Rightarrow> string list" where
  "param_names sig = required sig @ map fst (defaults sig)"

text \<open>
  Binding, in the interpreter's order: positional arguments fill parameters from the left;
  every keyword must name a parameter that has no value yet; surplus positional arguments
  are an error; then defaults fill what is left, and a parameter with neither is missing.
\<close>

fun bind_keywords :: "string list \<Rightarrow> env \<Rightarrow> (string \<times> pyval) list \<Rightarrow> (pyexc, env) res" where
  "bind_keywords ps env [] = Inr env"
| "bind_keywords ps env ((k, v) # kws) =
     (if k \<notin> set ps then Inl (UnexpectedKeyword k)
      else if k \<in> fst ` set env then Inl (MultipleValues k)
      else bind_keywords ps (env @ [(k, v)]) kws)"

definition bind_param :: "signature \<Rightarrow> env \<Rightarrow> string \<Rightarrow> (pyexc, string \<times> pyval) res" where
  "bind_param sig env p =
     (case map_of env p of
        Some v \<Rightarrow> Inr (p, v)
      | None \<Rightarrow> (case map_of (defaults sig) p of
                  Some d \<Rightarrow> Inr (p, d)
                | None \<Rightarrow> Inl (MissingArgument p)))"

definition bind_args :: "signature \<Rightarrow> pycall \<Rightarrow> (pyexc, env) res" where
  "bind_args sig c =
     (let ps = param_names sig in
      case bind_keywords ps (zip ps (posargs c)) (kwargs c) of
        Inl e \<Rightarrow> Inl e
      | Inr env \<Rightarrow>
          if length ps < length (posargs c)
          then Inl (TooManyPositional (length ps) (length (posargs c)))
          else map_res (bind_param sig env) ps)"

text \<open>A parameter's value in the body; after a successful binding every parameter has one.\<close>

definition arg :: "env \<Rightarrow> string \<Rightarrow> pyval" where
  "arg env p = the (map_of env p)"

definition wf_signature :: "signature \<Rightarrow> bool" where
  "wf_signature sig \<longleftrightarrow> distinct (param_names sig)"

lemma bind_param_fst: "bind_param sig env p = Inr b \<Longrightarrow> fst b = p"
  by (auto simp: bind_param_def split: option.splits)

lemma bind_args_dom:
  assumes "bind_args sig c = Inr env"
  shows "map fst env = param_names sig"
proof -
  from assms obtain e where m: "map_res (bind_param sig e) (param_names sig) = Inr env"
    by (auto simp: bind_args_def Let_def split: sum.splits if_splits)
  show ?thesis
  proof (rule nth_equalityI)
    show "length (map fst env) = length (param_names sig)"
      using map_res_Inr_length [OF m] by simp
  next
    fix i
    assume "i < length (map fst env)"
    then show "map fst env ! i = param_names sig ! i"
      using map_res_Inr_nth [OF m, of i] map_res_Inr_length [OF m] bind_param_fst by fastforce
  qed
qed

lemma bind_keywords_Inr_iff:
  assumes "distinct (map fst env)"
  shows "(\<exists>e. bind_keywords ps env kws = Inr e) \<longleftrightarrow>
    fst ` set kws \<subseteq> set ps \<and> distinct (map fst env @ map fst kws)"
  using assms
proof (induction kws arbitrary: env)
  case Nil
  then show ?case by simp
next
  case (Cons kv kws)
  obtain k v where kv: "kv = (k, v)" by force
  show ?case
  proof (cases "k \<in> set ps \<and> k \<notin> fst ` set env")
    case True
    with Cons.prems have "distinct (map fst (env @ [(k, v)]))" by auto
    from Cons.IH [OF this] True kv show ?thesis by auto
  next
    case False
    with kv show ?thesis by auto
  qed
qed

lemma bind_keywords_result: "bind_keywords ps env kws = Inr e \<Longrightarrow> e = env @ kws"
  by (induction kws arbitrary: env) (fastforce split: if_splits)+

text \<open>
  The contract of a call: what its arguments supply, when the interpreter accepts it, and the
  value every parameter then has.
\<close>

definition supplied :: "signature \<Rightarrow> pycall \<Rightarrow> env" where
  "supplied sig c = zip (param_names sig) (posargs c) @ kwargs c"

definition call_ok :: "signature \<Rightarrow> pycall \<Rightarrow> bool" where
  "call_ok sig c \<longleftrightarrow>
     length (posargs c) \<le> length (param_names sig) \<and>
     fst ` set (kwargs c) \<subseteq> set (param_names sig) \<and>
     distinct (map fst (supplied sig c)) \<and>
     set (required sig) \<subseteq> fst ` set (supplied sig c)"

definition value_of :: "signature \<Rightarrow> pycall \<Rightarrow> string \<Rightarrow> pyval" where
  "value_of sig c p =
     (case map_of (supplied sig c) p of Some v \<Rightarrow> v | None \<Rightarrow> the (map_of (defaults sig) p))"

lemma map_fst_zip_take_names: "map fst (zip ps vs) = take (length vs) ps"
  by (induction ps vs rule: list_induct2') auto

lemma bind_params_Inr_iff:
  "map_res (bind_param sig e) ps = Inr env \<longleftrightarrow>
     (\<forall>p \<in> set ps. p \<in> fst ` set e \<or> p \<in> fst ` set (defaults sig)) \<and>
     env = map (\<lambda>p. (p, case map_of e p of Some v \<Rightarrow> v | None \<Rightarrow> the (map_of (defaults sig) p))) ps"
proof (rule map_res_guarded)
  fix p
  have "map_of e p = None \<longleftrightarrow> p \<notin> fst ` set e"
    and "map_of (defaults sig) p = None \<longleftrightarrow> p \<notin> fst ` set (defaults sig)"
    by (simp_all add: map_of_eq_None_iff)
  then show "bind_param sig e p =
      (if p \<in> fst ` set e \<or> p \<in> fst ` set (defaults sig)
       then Inr (p, case map_of e p of Some v \<Rightarrow> v | None \<Rightarrow> the (map_of (defaults sig) p))
       else Inl (MissingArgument p))"
    by (auto simp: bind_param_def split: option.splits)
qed

lemma bind_args_Inr_iff:
  assumes wf: "wf_signature sig"
  shows "bind_args sig c = Inr env \<longleftrightarrow>
    call_ok sig c \<and> env = map (\<lambda>p. (p, value_of sig c p)) (param_names sig)"
proof -
  let ?ps = "param_names sig" and ?z = "zip (param_names sig) (posargs c)"
  have names: "set ?ps = set (required sig) \<union> fst ` set (defaults sig)"
    by (auto simp: param_names_def)
  have dz: "distinct (map fst ?z)"
    using wf by (simp add: map_fst_zip_take_names wf_signature_def)
  have kw: "(\<exists>e. bind_keywords ?ps ?z (kwargs c) = Inr e) \<longleftrightarrow>
      fst ` set (kwargs c) \<subseteq> set ?ps \<and> distinct (map fst (supplied sig c))"
    using bind_keywords_Inr_iff [OF dz, of ?ps "kwargs c"] by (simp add: supplied_def)
  show ?thesis
  proof (cases "bind_keywords ?ps ?z (kwargs c)")
    case (Inl x)
    with kw have "\<not> call_ok sig c" by (auto simp: call_ok_def)
    with Inl show ?thesis by (simp add: bind_args_def)
  next
    case (Inr e)
    then have e: "e = supplied sig c"
      using bind_keywords_result by (fastforce simp: supplied_def)
    from Inr kw have ok: "fst ` set (kwargs c) \<subseteq> set ?ps" "distinct (map fst (supplied sig c))"
      by auto
    have "(\<forall>p \<in> set ?ps. p \<in> fst ` set e \<or> p \<in> fst ` set (defaults sig)) \<longleftrightarrow>
        set (required sig) \<subseteq> fst ` set (supplied sig c)"
      using wf unfolding e names by (force simp: wf_signature_def param_names_def)
    with Inr e ok show ?thesis
      by (auto simp: bind_args_def Let_def call_ok_def value_of_def bind_params_Inr_iff)
  qed
qed

lemma arg_value_of:
  assumes "wf_signature sig" and "bind_args sig c = Inr env" and "p \<in> set (param_names sig)"
  shows "arg env p = value_of sig c p"
  using assms by (simp add: bind_args_Inr_iff arg_def map_of_keys)

text \<open>
  Whether a call is accepted depends on how many positions it fills and on its keywords, not
  on the values; the checks of concrete calls look no further.
\<close>

definition shape_ok :: "signature \<Rightarrow> nat \<Rightarrow> string list \<Rightarrow> bool" where
  "shape_ok sig n ks \<longleftrightarrow>
     n \<le> length (param_names sig) \<and> set ks \<subseteq> set (param_names sig) \<and>
     distinct (take n (param_names sig) @ ks) \<and>
     set (required sig) \<subseteq> set (take n (param_names sig) @ ks)"

lemma call_ok_shape: "call_ok sig c \<longleftrightarrow> shape_ok sig (length (posargs c)) (map fst (kwargs c))"
proof -
  have "map fst (supplied sig c) = take (length (posargs c)) (param_names sig) @ map fst (kwargs c)"
    by (simp add: supplied_def map_fst_zip_take_names)
  moreover from this have "fst ` set (supplied sig c) =
      set (take (length (posargs c)) (param_names sig) @ map fst (kwargs c))"
    by (metis set_map)
  ultimately show ?thesis by (simp add: call_ok_def shape_ok_def)
qed

text \<open>Congruences that keep the simplifier out of the values of a concrete call.\<close>

lemma pyval_opaque:
  "PyStr s = PyStr s" "PyList xs = PyList xs" "PyDict kvs = PyDict kvs"
  by (rule refl)+

text \<open>
  Two accepted calls that supply the same names with the same values bind alike, however the
  values are divided between positions and keywords and in whatever order the keywords come.
\<close>

lemma bind_args_cong:
  assumes "wf_signature sig" and "call_ok sig c" and "call_ok sig d"
    and "set (supplied sig c) = set (supplied sig d)"
  shows "bind_args sig c = bind_args sig d"
proof -
  have "map_of (supplied sig c) = map_of (supplied sig d)"
    using assms(2-4) by (intro map_of_eq_distinct) (simp_all add: call_ok_def)
  then have "value_of sig c = value_of sig d" by (simp add: value_of_def fun_eq_iff)
  with assms(1-3) show ?thesis by (metis bind_args_Inr_iff)
qed

lemma call_ok_or_error:
  assumes "wf_signature sig"
  shows "(\<exists>env. bind_args sig c = Inr env) \<longleftrightarrow> call_ok sig c"
  using bind_args_Inr_iff [OF assms] by blast

section \<open>Properties\<close>

text \<open>
  Binding a call to a signature: it succeeds exactly when no positional argument is surplus,
  every keyword names a parameter, no parameter gets two values and every parameter without a
  default gets one; then each parameter has its argument, or its default.
\<close>

lemma call_binding:
  assumes "wf_signature sig"
  shows "bind_args sig c = Inr env \<longleftrightarrow>
    call_ok sig c \<and> env = map (\<lambda>p. (p, value_of sig c p)) (param_names sig)"
  by (rule bind_args_Inr_iff [OF assms])

end
