(* ===== verification/SlideDef.thy ===== *)
theory SlideDef
  imports PyCore
begin

text \<open>
  A publication definition (\<open>labs/*/result/content_def.py\<close>): a module-level list \<open>SLIDES\<close>, a
  function \<open>add_slide\<close> that appends one dictionary to it, and a sequence of \<open>add_slide\<close> calls.
  The scripts differ in the parameters of \<open>add_slide\<close> and in the dictionary it builds; there
  are five shapes, one group of definitions each. The locale \<open>slide_module\<close> is what a
  module's statement sequence relies on, and it is interpreted for all five.
\<close>

section \<open>The five shapes of add_slide\<close>

text \<open>\<open>SLIDES.append({...})\<close> with the call's arguments bound to the parameters.\<close>

definition append_slide ::
  "signature \<Rightarrow> (env \<Rightarrow> (string \<times> pyval) list) \<Rightarrow> pycall \<Rightarrow> pyval list \<Rightarrow>
   (pyexc, pyval list) res" where
  "append_slide sig body c SLIDES =
     (case bind_args sig c of
        Inl e \<Rightarrow> Inl e
      | Inr env \<Rightarrow> Inr (SLIDES @ [PyDict (body env)]))"

definition core_params :: "string list" where
  "core_params = [''categories'', ''title'', ''subtitle'', ''content_items'', ''mental_model'']"

text \<open>Labs 16 to 22, 25 to 28 and 30 to 34: a layout, no English title.\<close>

definition sig_layout :: signature where
  "sig_layout = \<lparr>required = core_params,
     defaults = [(''source_path'', PyStr []), (''slide_num'', PyStr []), (''narrative'', PyStr []),
                 (''narrative_en'', PyStr []), (''layout'', PyStr [])]\<rparr>"

definition body_layout :: "env \<Rightarrow> (string \<times> pyval) list" where
  "body_layout env =
     [(''categories'', arg env ''categories''),
      (''title'', arg env ''title''),
      (''subtitle'', arg env ''subtitle''),
      (''content_items'', arg env ''content_items''),
      (''mental_model'', arg env ''mental_model''),
      (''source'', arg env ''source_path''),
      (''slide_num'', arg env ''slide_num''),
      (''narrative'', arg env ''narrative''),
      (''narrative_en'', arg env ''narrative_en''),
      (''layout'', arg env ''layout'')]"

definition add_slide_layout :: "pycall \<Rightarrow> pyval list \<Rightarrow> (pyexc, pyval list) res" where
  "add_slide_layout = append_slide sig_layout body_layout"

text \<open>Labs 23 and 29: a layout and an English title that falls back to the title.\<close>

definition sig_layout_en :: signature where
  "sig_layout_en = \<lparr>required = core_params,
     defaults = [(''source_path'', PyStr []), (''slide_num'', PyStr []), (''narrative'', PyStr []),
                 (''narrative_en'', PyStr []), (''layout'', PyStr []), (''title_en'', PyStr [])]\<rparr>"

definition body_layout_en :: "env \<Rightarrow> (string \<times> pyval) list" where
  "body_layout_en env =
     [(''categories'', arg env ''categories''),
      (''title'', arg env ''title''),
      (''subtitle'', arg env ''subtitle''),
      (''content_items'', arg env ''content_items''),
      (''mental_model'', arg env ''mental_model''),
      (''source'', arg env ''source_path''),
      (''slide_num'', arg env ''slide_num''),
      (''narrative'', arg env ''narrative''),
      (''narrative_en'', arg env ''narrative_en''),
      (''layout'', arg env ''layout''),
      (''title_en'', py_or (arg env ''title_en'') (arg env ''title''))]"

definition add_slide_layout_en :: "pycall \<Rightarrow> pyval list \<Rightarrow> (pyexc, pyval list) res" where
  "add_slide_layout_en = append_slide sig_layout_en body_layout_en"

text \<open>Labs 24 and 40: an English title, no layout.\<close>

definition sig_en :: signature where
  "sig_en = \<lparr>required = core_params,
     defaults = [(''source_path'', PyStr []), (''slide_num'', PyStr []), (''narrative'', PyStr []),
                 (''narrative_en'', PyStr []), (''title_en'', PyStr [])]\<rparr>"

definition body_en :: "env \<Rightarrow> (string \<times> pyval) list" where
  "body_en env =
     [(''categories'', arg env ''categories''),
      (''title'', arg env ''title''),
      (''title_en'', py_or (arg env ''title_en'') (arg env ''title'')),
      (''subtitle'', arg env ''subtitle''),
      (''content_items'', arg env ''content_items''),
      (''mental_model'', arg env ''mental_model''),
      (''source'', arg env ''source_path''),
      (''slide_num'', arg env ''slide_num''),
      (''narrative'', arg env ''narrative''),
      (''narrative_en'', arg env ''narrative_en'')]"

definition add_slide_en :: "pycall \<Rightarrow> pyval list \<Rightarrow> (pyexc, pyval list) res" where
  "add_slide_en = append_slide sig_en body_en"

text \<open>Labs 35 and 36: English title and narrative, both with a fallback.\<close>

definition sig_fallback :: signature where
  "sig_fallback = \<lparr>required = core_params,
     defaults = [(''source_path'', PyStr []), (''slide_num'', PyStr []), (''narrative'', PyStr []),
                 (''title_en'', PyStr []), (''narrative_en'', PyStr [])]\<rparr>"

definition body_fallback :: "env \<Rightarrow> (string \<times> pyval) list" where
  "body_fallback env =
     [(''categories'', arg env ''categories''),
      (''title'', arg env ''title''),
      (''subtitle'', arg env ''subtitle''),
      (''content_items'', arg env ''content_items''),
      (''mental_model'', arg env ''mental_model''),
      (''source'', arg env ''source_path''),
      (''slide_num'', arg env ''slide_num''),
      (''narrative'', arg env ''narrative''),
      (''title_en'',
        if py_truthy (arg env ''title_en'') then arg env ''title_en'' else arg env ''title''),
      (''narrative_en'',
        if py_truthy (arg env ''narrative_en'') then arg env ''narrative_en''
        else arg env ''narrative'')]"

definition add_slide_fallback :: "pycall \<Rightarrow> pyval list \<Rightarrow> (pyexc, pyval list) res" where
  "add_slide_fallback = append_slide sig_fallback body_fallback"

text \<open>Labs 37 to 39: neither a layout nor an English title.\<close>

definition sig_plain :: signature where
  "sig_plain = \<lparr>required = core_params,
     defaults = [(''source_path'', PyStr []), (''slide_num'', PyStr []), (''narrative'', PyStr []),
                 (''narrative_en'', PyStr [])]\<rparr>"

definition body_plain :: "env \<Rightarrow> (string \<times> pyval) list" where
  "body_plain env =
     [(''categories'', arg env ''categories''),
      (''title'', arg env ''title''),
      (''subtitle'', arg env ''subtitle''),
      (''content_items'', arg env ''content_items''),
      (''mental_model'', arg env ''mental_model''),
      (''source'', arg env ''source_path''),
      (''slide_num'', arg env ''slide_num''),
      (''narrative'', arg env ''narrative''),
      (''narrative_en'', arg env ''narrative_en'')]"

definition add_slide_plain :: "pycall \<Rightarrow> pyval list \<Rightarrow> (pyexc, pyval list) res" where
  "add_slide_plain = append_slide sig_plain body_plain"

lemmas signature_defs = sig_layout_def sig_layout_en_def sig_en_def sig_fallback_def sig_plain_def
lemmas body_defs = body_layout_def body_layout_en_def body_en_def body_fallback_def body_plain_def

section \<open>What a module relies on\<close>

text \<open>
  A slide builder binds a call against its signature and appends one dictionary whose keys
  are fixed; a call it rejects leaves nothing behind. The fields in \<open>copied_keys\<close> hold the
  parameter of the same name.
\<close>

definition copied_keys :: "string list" where
  "copied_keys = [''categories'', ''title'', ''subtitle'', ''content_items'', ''mental_model'',
     ''slide_num'', ''narrative'']"

locale slide_module =
  fixes add :: "pycall \<Rightarrow> pyval list \<Rightarrow> (pyexc, pyval list) res"
    and sig :: signature
    and body :: "env \<Rightarrow> (string \<times> pyval) list"
    and keys :: "string list"
  assumes wf: "wf_signature sig"
    and add_eq: "add c SLIDES =
      (case bind_args sig c of Inl e \<Rightarrow> Inl e | Inr env \<Rightarrow> Inr (SLIDES @ [PyDict (body env)]))"
    and body_keys: "map fst (body env) = keys"
    and copies: "k \<in> set copied_keys \<Longrightarrow> map_of (body env) k = Some (arg env k)"
    and copied_params: "set copied_keys \<subseteq> set (param_names sig)"
begin

definition slide_of :: "pycall \<Rightarrow> pyval" where
  "slide_of c = PyDict (body (map (\<lambda>p. (p, value_of sig c p)) (param_names sig)))"

lemma add_Inr_iff: "add c SLIDES = Inr T \<longleftrightarrow> call_ok sig c \<and> T = SLIDES @ [slide_of c]"
proof (cases "bind_args sig c")
  case (Inl e)
  with bind_args_Inr_iff [OF wf, of c] have "\<not> call_ok sig c" by auto
  with Inl show ?thesis by (simp add: add_eq)
next
  case (Inr env)
  with bind_args_Inr_iff [OF wf, of c env] show ?thesis by (auto simp: add_eq slide_of_def)
qed

lemma module_Inr_iff:
  "fold_res add cs SLIDES = Inr T \<longleftrightarrow>
     (\<forall>c \<in> set cs. call_ok sig c) \<and> T = SLIDES @ map slide_of cs"
proof (induction cs arbitrary: SLIDES)
  case Nil
  then show ?case by auto
next
  case (Cons c cs)
  show ?case
  proof (cases "add c SLIDES")
    case (Inl e)
    with add_Inr_iff [of c SLIDES "SLIDES @ [slide_of c]"] show ?thesis by simp
  next
    case (Inr T')
    with add_Inr_iff [of c SLIDES T'] Cons.IH [of T'] show ?thesis by auto
  qed
qed

lemma module_Inl_iff:
  "(\<exists>e. fold_res add cs SLIDES = Inl e) \<longleftrightarrow> (\<exists>c \<in> set cs. \<not> call_ok sig c)"
  using module_Inr_iff [of cs SLIDES]
  by (cases "fold_res add cs SLIDES") auto

lemma slide_field:
  assumes "k \<in> set copied_keys"
  shows "py_subscript (slide_of c) k = Inr (value_of sig c k)"
proof -
  have "k \<in> set (param_names sig)" using assms copied_params by blast
  then show ?thesis using copies [OF assms] by (simp add: slide_of_def arg_def map_of_keys)
qed

lemma param_field:
  assumes "\<And>env. map_of (body env) k = Some (arg env p)" and "p \<in> set (param_names sig)"
  shows "py_subscript (slide_of c) k = Inr (value_of sig c p)"
  using assms by (simp add: slide_of_def arg_def map_of_keys)

lemma module_length: "fold_res add cs [] = Inr T \<Longrightarrow> length T = length cs"
  by (simp add: module_Inr_iff)

lemma module_nth: "fold_res add cs [] = Inr T \<Longrightarrow> i < length cs \<Longrightarrow> T ! i = slide_of (cs ! i)"
  by (simp add: module_Inr_iff)

lemma module_keys:
  "fold_res add cs [] = Inr T \<Longrightarrow> d \<in> set T \<Longrightarrow> \<exists>kvs. d = PyDict kvs \<and> map fst kvs = keys"
  by (auto simp: module_Inr_iff slide_of_def body_keys)

end

definition keys_core :: "string list" where
  "keys_core = [''categories'', ''title'', ''subtitle'', ''content_items'', ''mental_model'',
     ''source'', ''slide_num'', ''narrative'']"

lemmas shape_simps =
  wf_signature_def append_slide_def keys_core_def copied_keys_def param_names_def signature_defs
  core_params_def

interpretation layout: slide_module add_slide_layout sig_layout body_layout
  "keys_core @ [''narrative_en'', ''layout'']"
  by unfold_locales (auto simp: shape_simps add_slide_layout_def body_layout_def)

interpretation layout_en: slide_module add_slide_layout_en sig_layout_en body_layout_en
  "keys_core @ [''narrative_en'', ''layout'', ''title_en'']"
  by unfold_locales (auto simp: shape_simps add_slide_layout_en_def body_layout_en_def)

interpretation en: slide_module add_slide_en sig_en body_en
  "[''categories'', ''title'', ''title_en'', ''subtitle'', ''content_items'', ''mental_model'',
    ''source'', ''slide_num'', ''narrative'', ''narrative_en'']"
  by unfold_locales (auto simp: shape_simps add_slide_en_def body_en_def)

interpretation fallback: slide_module add_slide_fallback sig_fallback body_fallback
  "keys_core @ [''title_en'', ''narrative_en'']"
  by unfold_locales (auto simp: shape_simps add_slide_fallback_def body_fallback_def)

interpretation plain: slide_module add_slide_plain sig_plain body_plain
  "keys_core @ [''narrative_en'']"
  by unfold_locales (auto simp: shape_simps add_slide_plain_def body_plain_def)

section \<open>A module and what running it prints\<close>

record deck =
  add_slide :: "pycall \<Rightarrow> pyval list \<Rightarrow> (pyexc, pyval list) res"
  lab_no :: pystr
  title_id :: pystr
  calls :: "pycall list"

definition load :: "deck \<Rightarrow> (pyexc, pyval list) res" where
  "load d = fold_res (add_slide d) (calls d) []"

text \<open>
  The \<open>__main__\<close> block of labs 16 to 20, 23 and 25 to 27: one line with the number of slides, then one line
  per slide. Subscripting and interpolation may raise.
\<close>

definition loaded_line :: "deck \<Rightarrow> pyval list \<Rightarrow> pystr" where
  "loaded_line d SLIDES =
     lit ''Loaded '' @ str_of_nat (length SLIDES) @ lit '' slides for Lab '' @ lab_no d @
     lit '': '' @ title_id d"

definition field :: "pyval \<Rightarrow> string \<Rightarrow> (pyexc, pystr) res" where
  "field s k = res_bind (py_subscript s k) py_format"

definition slide_line :: "pyval \<Rightarrow> (pyexc, pystr) res" where
  "slide_line s =
     res_bind (field s ''slide_num'') (\<lambda>n.
     res_bind (field s ''layout'') (\<lambda>l.
     res_bind (field s ''title'') (\<lambda>t.
       Inr (lit ''['' @ n @ lit ''] '' @ l @ lit '': '' @ t))))"

definition main_listing :: "deck \<Rightarrow> (pyexc, pystr list) res" where
  "main_listing d =
     res_bind (load d) (\<lambda>SLIDES.
     res_bind (map_res slide_line SLIDES) (\<lambda>ls. Inr (loaded_line d SLIDES # ls)))"

text \<open>
  Reading a listing line back: the label is what stands between the brackets, the layout what
  precedes the first colon after them.
\<close>

definition read_line :: "pystr \<Rightarrow> pystr \<times> pystr \<times> pystr" where
  "read_line l =
     (let rest = dropWhile (\<lambda>c. c \<noteq> 93) (tl l)
      in (takeWhile (\<lambda>c. c \<noteq> 93) (tl l),
          takeWhile (\<lambda>c. c \<noteq> 58) (drop 2 rest),
          drop 2 (dropWhile (\<lambda>c. c \<noteq> 58) (drop 2 rest))))"

lemma read_line_slide_line:
  assumes "field s ''slide_num'' = Inr n" and "field s ''layout'' = Inr l"
    and "field s ''title'' = Inr t" and "93 \<notin> set n" and "58 \<notin> set l"
  shows "\<exists>line. slide_line s = Inr line \<and> read_line line = (n, l, t)"
proof -
  have n: "takeWhile (\<lambda>c. c \<noteq> 93) (n @ 93 # r) = n" "dropWhile (\<lambda>c. c \<noteq> 93) (n @ 93 # r) = 93 # r"
    for r using assms(4) by (auto intro!: takeWhile_append_stop dropWhile_append_stop)
  have l: "takeWhile (\<lambda>c. c \<noteq> 58) (l @ 58 # r) = l" "dropWhile (\<lambda>c. c \<noteq> 58) (l @ 58 # r) = 58 # r"
    for r using assms(5) by (auto intro!: takeWhile_append_stop dropWhile_append_stop)
  show ?thesis using assms(1-3) by (simp add: slide_line_def lit_simps read_line_def n l)
qed

text \<open>The \<open>__main__\<close> block of labs 21, 24, 29 to 34 and 37 to 40: the first line only.\<close>

definition main_count :: "deck \<Rightarrow> (pyexc, pystr list) res" where
  "main_count d = res_bind (load d) (\<lambda>SLIDES. Inr [loaded_line d SLIDES])"

text \<open>The \<open>__main__\<close> block of labs 35 and 36.\<close>

definition main_defined :: "deck \<Rightarrow> (pyexc, pystr list) res" where
  "main_defined d =
     res_bind (load d) (\<lambda>SLIDES.
       Inr [lit ''Loaded content_def for Lab '' @ lab_no d @ lit '': '' @
            str_of_nat (length SLIDES) @ lit '' slides defined.''])"

section \<open>Properties\<close>

text \<open>
  A module stops with an exception exactly when one of its \<open>add_slide\<close> calls does not fit the
  signature, whichever of the five forms of \<open>add_slide\<close> it defines; otherwise it ends with one
  slide per call.
\<close>

lemma module_raises_iff:
  "((\<exists>e. fold_res add_slide_layout cs [] = Inl e) = list_ex (\<lambda>c. \<not> call_ok sig_layout c) cs) \<and>
   ((\<exists>e. fold_res add_slide_layout_en cs [] = Inl e) = list_ex (\<lambda>c. \<not> call_ok sig_layout_en c) cs) \<and>
   ((\<exists>e. fold_res add_slide_en cs [] = Inl e) = list_ex (\<lambda>c. \<not> call_ok sig_en c) cs) \<and>
   ((\<exists>e. fold_res add_slide_fallback cs [] = Inl e) = list_ex (\<lambda>c. \<not> call_ok sig_fallback c) cs) \<and>
   ((\<exists>e. fold_res add_slide_plain cs [] = Inl e) = list_ex (\<lambda>c. \<not> call_ok sig_plain c) cs)"
  by (simp_all add: layout.module_Inl_iff layout_en.module_Inl_iff en.module_Inl_iff
      fallback.module_Inl_iff plain.module_Inl_iff list_ex_iff)

text \<open>
  With the \<open>add_slide\<close> of labs 24 and 40, slide number \<open>i\<close> carries the English title its call
  gave, or the Indonesian title when the call gave none or an empty one.
\<close>

lemma english_title_fallback:
  assumes "fold_res add_slide_en cs [] = Inr SLIDES" and "i < length cs"
  shows "py_subscript (SLIDES ! i) ''title_en'' =
    Inr (if py_truthy (value_of sig_en (cs ! i) ''title_en'')
         then value_of sig_en (cs ! i) ''title_en'' else value_of sig_en (cs ! i) ''title'')"
proof -
  have params: "''title_en'' \<in> set (param_names sig_en)" "''title'' \<in> set (param_names sig_en)"
    by (simp_all add: shape_simps)
  have "SLIDES ! i = en.slide_of (cs ! i)" by (rule en.module_nth [OF assms])
  with params show ?thesis
    by (simp add: en.slide_of_def body_en_def arg_def map_of_keys py_or_def)
qed

end
