(* ===== verification/DeckContract.thy ===== *)
theory DeckContract
  imports SlideDef
begin

text \<open>
  What a publication module promises to the builders that read \<open>SLIDES\<close>: it loads, it has 24
  slides labelled \<open>01 / 24\<close> to \<open>24 / 24\<close> in order, and every content item is a dictionary
  whose \<open>type\<close> says what its \<open>items\<close> hold. The predicates are executable; the deck theories
  evaluate them on each module's calls.
\<close>

section \<open>Calls of a module, checked without running it\<close>

text \<open>
  The signature and dictionary of each shape are known, so what the loaded slides contain can
  be read off the calls: \<open>value_of sig c p\<close> is the value the body sees.
\<close>

definition shape_of :: "pycall \<Rightarrow> nat \<times> string list" where
  "shape_of c = (length (posargs c), map fst (kwargs c))"

lemma shape_of_call_ok:
  "shape_of c = (n, ks) \<Longrightarrow> shape_ok sig n ks \<Longrightarrow> call_ok sig c"
  by (simp add: call_ok_shape shape_of_def)

lemma calls_ok_by_shapes:
  assumes "\<forall>c \<in> set cs. shape_of c \<in> set shapes"
    and "list_all (\<lambda>(n, ks). shape_ok sig n ks) shapes"
  shows "\<forall>c \<in> set cs. call_ok sig c"
  using assms by (force simp: list_all_iff shape_of_def call_ok_shape)

section \<open>Labels\<close>

definition two_digits :: "nat \<Rightarrow> pystr" where
  "two_digits n = (if n < 10 then 48 # str_of_nat n else str_of_nat n)"

definition slide_label :: "nat \<Rightarrow> pystr" where
  "slide_label n = two_digits n @ lit '' / 24''"

definition labels_24 :: "pyval list" where
  "labels_24 = map (\<lambda>n. PyStr (slide_label n)) [1..<25]"

lemma labels_24_eval:
  "labels_24 =
    [PyStr (lit ''01 / 24''), PyStr (lit ''02 / 24''), PyStr (lit ''03 / 24''),
     PyStr (lit ''04 / 24''), PyStr (lit ''05 / 24''), PyStr (lit ''06 / 24''),
     PyStr (lit ''07 / 24''), PyStr (lit ''08 / 24''), PyStr (lit ''09 / 24''),
     PyStr (lit ''10 / 24''), PyStr (lit ''11 / 24''), PyStr (lit ''12 / 24''),
     PyStr (lit ''13 / 24''), PyStr (lit ''14 / 24''), PyStr (lit ''15 / 24''),
     PyStr (lit ''16 / 24''), PyStr (lit ''17 / 24''), PyStr (lit ''18 / 24''),
     PyStr (lit ''19 / 24''), PyStr (lit ''20 / 24''), PyStr (lit ''21 / 24''),
     PyStr (lit ''22 / 24''), PyStr (lit ''23 / 24''), PyStr (lit ''24 / 24'')]"
  by (simp add: labels_24_def slide_label_def two_digits_def str_of_nat_def digits10.simps
      lit_simps upt_rec)

lemma two_digits_inject:
  assumes "m < 100" and "n < 100" and "two_digits m = two_digits n"
  shows "m = n"
proof -
  have dd: "hd (str_of_nat n) \<noteq> 48" if "\<not> n < 10" "n < 100" for n
  proof -
    from that have "n div 10 < 10 \<and> 0 < n div 10" by auto
    with that show ?thesis
      by (simp add: str_of_nat_def digits10.simps [of n] digits10.simps [of "n div 10"])
  qed
  show ?thesis
    using assms dd [of m] dd [of n]
    by (auto simp: two_digits_def str_of_nat_inject split: if_splits) (metis list.sel(1))
qed

lemma slide_label_inject: "m < 100 \<Longrightarrow> n < 100 \<Longrightarrow> slide_label m = slide_label n \<Longrightarrow> m = n"
  by (simp add: slide_label_def two_digits_inject)

section \<open>Content items\<close>

fun is_str :: "pyval \<Rightarrow> bool" where
  "is_str (PyStr s) = True"
| "is_str _ = False"

fun has_texts :: "string list \<Rightarrow> pyval \<Rightarrow> bool" where
  "has_texts ks (PyDict kvs) =
     list_all (\<lambda>k. case map_of kvs k of Some v \<Rightarrow> is_str v | None \<Rightarrow> False) ks"
| "has_texts ks _ = False"

definition line_type :: "pystr \<Rightarrow> bool" where
  "line_type t \<longleftrightarrow>
     t = lit ''code'' \<or> t = lit ''bullet'' \<or> t = lit ''table'' \<or> t = lit ''card'' \<or>
     t = lit ''checklist'' \<or> t = lit ''cover'' \<or> t = lit ''terminal'' \<or> t = lit ''diagram''"

definition entries_ok :: "pystr \<Rightarrow> pyval list \<Rightarrow> bool" where
  "entries_ok t xs =
     (if t = lit ''cards'' then list_all (has_texts [''title'', ''desc'']) xs
      else if t = lit ''schema'' then list_all (has_texts [''phase'', ''role'', ''desc'']) xs
      else line_type t \<and> list_all is_str xs)"

text \<open>
  A cover item may carry an \<open>image\<close> in place of \<open>items\<close>; every other item has a type the
  builders know, a title, and entries of that type.
\<close>

fun item_ok :: "pyval \<Rightarrow> bool" where
  "item_ok (PyDict kvs) =
     (case map_of kvs ''type'' of
        Some (PyStr t) \<Rightarrow>
          (case map_of kvs ''items'' of
             Some (PyList xs) \<Rightarrow> has_texts [''title''] (PyDict kvs) \<and> entries_ok t xs
           | None \<Rightarrow> t = lit ''cover'' \<and> has_texts [''image''] (PyDict kvs)
           | _ \<Rightarrow> False)
      | _ \<Rightarrow> False)"
| "item_ok _ = False"

text \<open>
  Positions of the items that break the contract, as (slide, item), counted from 1; a slide
  whose content is not a list at all is reported at position 0.
\<close>

fun bad_items :: "nat \<Rightarrow> pyval \<Rightarrow> (nat \<times> nat) list" where
  "bad_items n (PyList its) =
     map (\<lambda>(k, _). (n, k)) (filter (\<lambda>(k, it). \<not> item_ok it) (List.enumerate 1 its))"
| "bad_items n _ = [(n, 0)]"

definition item_defects :: "signature \<Rightarrow> pycall list \<Rightarrow> (nat \<times> nat) list" where
  "item_defects sig cs =
     concat (map (\<lambda>(n, v). bad_items n v)
       (List.enumerate 1 (map (\<lambda>c. value_of sig c ''content_items'') cs)))"

definition content_ok :: "pyval \<Rightarrow> bool" where
  "content_ok v \<longleftrightarrow> (\<exists>its. v = PyList its \<and> list_all item_ok its)"

lemma bad_items_Nil: "bad_items n v = [] \<longleftrightarrow> content_ok v"
proof (cases v)
  case (PyList its)
  then show ?thesis
    using enumerate_all [of 1 its item_ok]
    by (auto simp: content_ok_def filter_empty_conv list_all_iff)
qed (simp_all add: content_ok_def)

lemma item_defects_Nil:
  "item_defects sig cs = [] \<longleftrightarrow> (\<forall>c \<in> set cs. content_ok (value_of sig c ''content_items''))"
  using enumerate_all [of 1 "map (\<lambda>c. value_of sig c ''content_items'') cs" content_ok]
  by (auto simp: item_defects_def bad_items_Nil)

section \<open>The contract of a loaded module\<close>

definition labels_of :: "pyval list \<Rightarrow> (pyexc, pyval list) res" where
  "labels_of SLIDES = map_res (\<lambda>s. py_subscript s ''slide_num'') SLIDES"

definition slide_defects :: "pyval list \<Rightarrow> (nat \<times> nat) list" where
  "slide_defects SLIDES =
     concat (map (\<lambda>(n, s). case py_subscript s ''content_items'' of
                             Inl _ \<Rightarrow> [(n, 0)] | Inr v \<Rightarrow> bad_items n v)
       (List.enumerate 1 SLIDES))"

text \<open>The module loads, and its slides are labelled 01 to 24 in order.\<close>

definition loads_in_order :: "deck \<Rightarrow> bool" where
  "loads_in_order d \<longleftrightarrow>
     (case load d of Inl _ \<Rightarrow> False | Inr SLIDES \<Rightarrow> labels_of SLIDES = Inr labels_24)"

definition deck_defects :: "deck \<Rightarrow> (pyexc, (nat \<times> nat) list) res" where
  "deck_defects d = (case load d of Inl e \<Rightarrow> Inl e | Inr SLIDES \<Rightarrow> Inr (slide_defects SLIDES))"

lemma loads_in_order_24:
  assumes "loads_in_order d"
  shows "\<exists>SLIDES. load d = Inr SLIDES \<and> length SLIDES = 24"
  using assms map_res_Inr_length
  by (fastforce simp: loads_in_order_def labels_of_def labels_24_def split: sum.splits)

context slide_module
begin

lemma labels_by_calls: "labels_of (map slide_of cs) = Inr (map (\<lambda>c. value_of sig c ''slide_num'') cs)"
  by (simp add: labels_of_def map_res_Inr_iff slide_field copied_keys_def)

lemma defects_by_calls: "slide_defects (map slide_of cs) = item_defects sig cs"
proof -
  have "concat (map (\<lambda>(n, s). case py_subscript s ''content_items'' of
            Inl _ \<Rightarrow> [(n, 0)] | Inr v \<Rightarrow> bad_items n v) (List.enumerate m (map slide_of cs))) =
        concat (map (\<lambda>(n, v). bad_items n v)
          (List.enumerate m (map (\<lambda>c. value_of sig c ''content_items'') cs)))" for m
    by (induction cs arbitrary: m) (simp_all add: slide_field copied_keys_def)
  then show ?thesis by (simp add: slide_defects_def item_defects_def)
qed

lemma deck_by_calls:
  assumes "add_slide d = add" and "\<forall>c \<in> set (calls d). call_ok sig c"
  shows "load d = Inr (map slide_of (calls d))"
  using assms by (simp add: load_def module_Inr_iff)

lemma deck_loads_in_order:
  assumes "add_slide d = add" and "\<forall>c \<in> set (calls d). call_ok sig c"
    and "map (\<lambda>c. value_of sig c ''slide_num'') (calls d) = labels_24"
  shows "loads_in_order d"
  using assms by (simp add: loads_in_order_def deck_by_calls labels_by_calls)

lemma deck_defects_by_calls:
  assumes "add_slide d = add" and "\<forall>c \<in> set (calls d). call_ok sig c"
    and "item_defects sig (calls d) = ds"
  shows "deck_defects d = Inr ds"
  using assms by (simp add: deck_defects_def deck_by_calls defects_by_calls)

end

section \<open>Evaluation\<close>

text \<open>
  Comparisons of the names and types the modules use, decided once, and the rules that
  evaluate the checks on a concrete module.
\<close>

lemma param_eqs:
  "(''categories'' = ''categories'') = True" "(''categories'' = ''title'') = False"
  "(''categories'' = ''subtitle'') = False" "(''categories'' = ''content_items'') = False"
  "(''categories'' = ''mental_model'') = False" "(''categories'' = ''source_path'') = False"
  "(''categories'' = ''slide_num'') = False" "(''categories'' = ''narrative'') = False"
  "(''categories'' = ''narrative_en'') = False" "(''categories'' = ''layout'') = False"
  "(''categories'' = ''title_en'') = False" "(''title'' = ''categories'') = False"
  "(''title'' = ''title'') = True" "(''title'' = ''subtitle'') = False"
  "(''title'' = ''content_items'') = False" "(''title'' = ''mental_model'') = False"
  "(''title'' = ''source_path'') = False" "(''title'' = ''slide_num'') = False"
  "(''title'' = ''narrative'') = False" "(''title'' = ''narrative_en'') = False"
  "(''title'' = ''layout'') = False" "(''title'' = ''title_en'') = False"
  "(''subtitle'' = ''categories'') = False" "(''subtitle'' = ''title'') = False"
  "(''subtitle'' = ''subtitle'') = True" "(''subtitle'' = ''content_items'') = False"
  "(''subtitle'' = ''mental_model'') = False" "(''subtitle'' = ''source_path'') = False"
  "(''subtitle'' = ''slide_num'') = False" "(''subtitle'' = ''narrative'') = False"
  "(''subtitle'' = ''narrative_en'') = False" "(''subtitle'' = ''layout'') = False"
  "(''subtitle'' = ''title_en'') = False" "(''content_items'' = ''categories'') = False"
  "(''content_items'' = ''title'') = False" "(''content_items'' = ''subtitle'') = False"
  "(''content_items'' = ''content_items'') = True"
  "(''content_items'' = ''mental_model'') = False"
  "(''content_items'' = ''source_path'') = False" "(''content_items'' = ''slide_num'') = False"
  "(''content_items'' = ''narrative'') = False" "(''content_items'' = ''narrative_en'') = False"
  "(''content_items'' = ''layout'') = False" "(''content_items'' = ''title_en'') = False"
  "(''mental_model'' = ''categories'') = False" "(''mental_model'' = ''title'') = False"
  "(''mental_model'' = ''subtitle'') = False" "(''mental_model'' = ''content_items'') = False"
  "(''mental_model'' = ''mental_model'') = True" "(''mental_model'' = ''source_path'') = False"
  "(''mental_model'' = ''slide_num'') = False" "(''mental_model'' = ''narrative'') = False"
  "(''mental_model'' = ''narrative_en'') = False" "(''mental_model'' = ''layout'') = False"
  "(''mental_model'' = ''title_en'') = False" "(''source_path'' = ''categories'') = False"
  "(''source_path'' = ''title'') = False" "(''source_path'' = ''subtitle'') = False"
  "(''source_path'' = ''content_items'') = False" "(''source_path'' = ''mental_model'') = False"
  "(''source_path'' = ''source_path'') = True" "(''source_path'' = ''slide_num'') = False"
  "(''source_path'' = ''narrative'') = False" "(''source_path'' = ''narrative_en'') = False"
  "(''source_path'' = ''layout'') = False" "(''source_path'' = ''title_en'') = False"
  "(''slide_num'' = ''categories'') = False" "(''slide_num'' = ''title'') = False"
  "(''slide_num'' = ''subtitle'') = False" "(''slide_num'' = ''content_items'') = False"
  "(''slide_num'' = ''mental_model'') = False" "(''slide_num'' = ''source_path'') = False"
  "(''slide_num'' = ''slide_num'') = True" "(''slide_num'' = ''narrative'') = False"
  "(''slide_num'' = ''narrative_en'') = False" "(''slide_num'' = ''layout'') = False"
  "(''slide_num'' = ''title_en'') = False" "(''narrative'' = ''categories'') = False"
  "(''narrative'' = ''title'') = False" "(''narrative'' = ''subtitle'') = False"
  "(''narrative'' = ''content_items'') = False" "(''narrative'' = ''mental_model'') = False"
  "(''narrative'' = ''source_path'') = False" "(''narrative'' = ''slide_num'') = False"
  "(''narrative'' = ''narrative'') = True" "(''narrative'' = ''narrative_en'') = False"
  "(''narrative'' = ''layout'') = False" "(''narrative'' = ''title_en'') = False"
  "(''narrative_en'' = ''categories'') = False" "(''narrative_en'' = ''title'') = False"
  "(''narrative_en'' = ''subtitle'') = False" "(''narrative_en'' = ''content_items'') = False"
  "(''narrative_en'' = ''mental_model'') = False" "(''narrative_en'' = ''source_path'') = False"
  "(''narrative_en'' = ''slide_num'') = False" "(''narrative_en'' = ''narrative'') = False"
  "(''narrative_en'' = ''narrative_en'') = True" "(''narrative_en'' = ''layout'') = False"
  "(''narrative_en'' = ''title_en'') = False" "(''layout'' = ''categories'') = False"
  "(''layout'' = ''title'') = False" "(''layout'' = ''subtitle'') = False"
  "(''layout'' = ''content_items'') = False" "(''layout'' = ''mental_model'') = False"
  "(''layout'' = ''source_path'') = False" "(''layout'' = ''slide_num'') = False"
  "(''layout'' = ''narrative'') = False" "(''layout'' = ''narrative_en'') = False"
  "(''layout'' = ''layout'') = True" "(''layout'' = ''title_en'') = False"
  "(''title_en'' = ''categories'') = False" "(''title_en'' = ''title'') = False"
  "(''title_en'' = ''subtitle'') = False" "(''title_en'' = ''content_items'') = False"
  "(''title_en'' = ''mental_model'') = False" "(''title_en'' = ''source_path'') = False"
  "(''title_en'' = ''slide_num'') = False" "(''title_en'' = ''narrative'') = False"
  "(''title_en'' = ''narrative_en'') = False" "(''title_en'' = ''layout'') = False"
  "(''title_en'' = ''title_en'') = True"
  by simp_all

lemma item_key_eqs:
  "(''type'' = ''type'') = True" "(''type'' = ''title'') = False"
  "(''type'' = ''items'') = False" "(''type'' = ''desc'') = False"
  "(''type'' = ''phase'') = False" "(''type'' = ''role'') = False"
  "(''type'' = ''image'') = False" "(''title'' = ''type'') = False"
  "(''title'' = ''title'') = True" "(''title'' = ''items'') = False"
  "(''title'' = ''desc'') = False" "(''title'' = ''phase'') = False"
  "(''title'' = ''role'') = False" "(''title'' = ''image'') = False"
  "(''items'' = ''type'') = False" "(''items'' = ''title'') = False"
  "(''items'' = ''items'') = True" "(''items'' = ''desc'') = False"
  "(''items'' = ''phase'') = False" "(''items'' = ''role'') = False"
  "(''items'' = ''image'') = False" "(''desc'' = ''type'') = False"
  "(''desc'' = ''title'') = False" "(''desc'' = ''items'') = False"
  "(''desc'' = ''desc'') = True" "(''desc'' = ''phase'') = False"
  "(''desc'' = ''role'') = False" "(''desc'' = ''image'') = False"
  "(''phase'' = ''type'') = False" "(''phase'' = ''title'') = False"
  "(''phase'' = ''items'') = False" "(''phase'' = ''desc'') = False"
  "(''phase'' = ''phase'') = True" "(''phase'' = ''role'') = False"
  "(''phase'' = ''image'') = False" "(''role'' = ''type'') = False"
  "(''role'' = ''title'') = False" "(''role'' = ''items'') = False"
  "(''role'' = ''desc'') = False" "(''role'' = ''phase'') = False"
  "(''role'' = ''role'') = True" "(''role'' = ''image'') = False"
  "(''image'' = ''type'') = False" "(''image'' = ''title'') = False"
  "(''image'' = ''items'') = False" "(''image'' = ''desc'') = False"
  "(''image'' = ''phase'') = False" "(''image'' = ''role'') = False"
  "(''image'' = ''image'') = True"
  by simp_all

lemma type_eqs:
  "(lit ''code'' = lit ''code'') = True" "(lit ''code'' = lit ''bullet'') = False"
  "(lit ''code'' = lit ''table'') = False" "(lit ''code'' = lit ''card'') = False"
  "(lit ''code'' = lit ''checklist'') = False" "(lit ''code'' = lit ''cover'') = False"
  "(lit ''code'' = lit ''terminal'') = False" "(lit ''code'' = lit ''diagram'') = False"
  "(lit ''code'' = lit ''cards'') = False" "(lit ''code'' = lit ''schema'') = False"
  "(lit ''bullet'' = lit ''code'') = False" "(lit ''bullet'' = lit ''bullet'') = True"
  "(lit ''bullet'' = lit ''table'') = False" "(lit ''bullet'' = lit ''card'') = False"
  "(lit ''bullet'' = lit ''checklist'') = False" "(lit ''bullet'' = lit ''cover'') = False"
  "(lit ''bullet'' = lit ''terminal'') = False" "(lit ''bullet'' = lit ''diagram'') = False"
  "(lit ''bullet'' = lit ''cards'') = False" "(lit ''bullet'' = lit ''schema'') = False"
  "(lit ''table'' = lit ''code'') = False" "(lit ''table'' = lit ''bullet'') = False"
  "(lit ''table'' = lit ''table'') = True" "(lit ''table'' = lit ''card'') = False"
  "(lit ''table'' = lit ''checklist'') = False" "(lit ''table'' = lit ''cover'') = False"
  "(lit ''table'' = lit ''terminal'') = False" "(lit ''table'' = lit ''diagram'') = False"
  "(lit ''table'' = lit ''cards'') = False" "(lit ''table'' = lit ''schema'') = False"
  "(lit ''card'' = lit ''code'') = False" "(lit ''card'' = lit ''bullet'') = False"
  "(lit ''card'' = lit ''table'') = False" "(lit ''card'' = lit ''card'') = True"
  "(lit ''card'' = lit ''checklist'') = False" "(lit ''card'' = lit ''cover'') = False"
  "(lit ''card'' = lit ''terminal'') = False" "(lit ''card'' = lit ''diagram'') = False"
  "(lit ''card'' = lit ''cards'') = False" "(lit ''card'' = lit ''schema'') = False"
  "(lit ''checklist'' = lit ''code'') = False" "(lit ''checklist'' = lit ''bullet'') = False"
  "(lit ''checklist'' = lit ''table'') = False" "(lit ''checklist'' = lit ''card'') = False"
  "(lit ''checklist'' = lit ''checklist'') = True" "(lit ''checklist'' = lit ''cover'') = False"
  "(lit ''checklist'' = lit ''terminal'') = False"
  "(lit ''checklist'' = lit ''diagram'') = False" "(lit ''checklist'' = lit ''cards'') = False"
  "(lit ''checklist'' = lit ''schema'') = False" "(lit ''cover'' = lit ''code'') = False"
  "(lit ''cover'' = lit ''bullet'') = False" "(lit ''cover'' = lit ''table'') = False"
  "(lit ''cover'' = lit ''card'') = False" "(lit ''cover'' = lit ''checklist'') = False"
  "(lit ''cover'' = lit ''cover'') = True" "(lit ''cover'' = lit ''terminal'') = False"
  "(lit ''cover'' = lit ''diagram'') = False" "(lit ''cover'' = lit ''cards'') = False"
  "(lit ''cover'' = lit ''schema'') = False" "(lit ''terminal'' = lit ''code'') = False"
  "(lit ''terminal'' = lit ''bullet'') = False" "(lit ''terminal'' = lit ''table'') = False"
  "(lit ''terminal'' = lit ''card'') = False" "(lit ''terminal'' = lit ''checklist'') = False"
  "(lit ''terminal'' = lit ''cover'') = False" "(lit ''terminal'' = lit ''terminal'') = True"
  "(lit ''terminal'' = lit ''diagram'') = False" "(lit ''terminal'' = lit ''cards'') = False"
  "(lit ''terminal'' = lit ''schema'') = False" "(lit ''diagram'' = lit ''code'') = False"
  "(lit ''diagram'' = lit ''bullet'') = False" "(lit ''diagram'' = lit ''table'') = False"
  "(lit ''diagram'' = lit ''card'') = False" "(lit ''diagram'' = lit ''checklist'') = False"
  "(lit ''diagram'' = lit ''cover'') = False" "(lit ''diagram'' = lit ''terminal'') = False"
  "(lit ''diagram'' = lit ''diagram'') = True" "(lit ''diagram'' = lit ''cards'') = False"
  "(lit ''diagram'' = lit ''schema'') = False" "(lit ''cards'' = lit ''code'') = False"
  "(lit ''cards'' = lit ''bullet'') = False" "(lit ''cards'' = lit ''table'') = False"
  "(lit ''cards'' = lit ''card'') = False" "(lit ''cards'' = lit ''checklist'') = False"
  "(lit ''cards'' = lit ''cover'') = False" "(lit ''cards'' = lit ''terminal'') = False"
  "(lit ''cards'' = lit ''diagram'') = False" "(lit ''cards'' = lit ''cards'') = True"
  "(lit ''cards'' = lit ''schema'') = False" "(lit ''schema'' = lit ''code'') = False"
  "(lit ''schema'' = lit ''bullet'') = False" "(lit ''schema'' = lit ''table'') = False"
  "(lit ''schema'' = lit ''card'') = False" "(lit ''schema'' = lit ''checklist'') = False"
  "(lit ''schema'' = lit ''cover'') = False" "(lit ''schema'' = lit ''terminal'') = False"
  "(lit ''schema'' = lit ''diagram'') = False" "(lit ''schema'' = lit ''cards'') = False"
  "(lit ''schema'' = lit ''schema'') = True"
  by (simp_all add: inj_lit)

text \<open>Lab 26 has types of its own.\<close>

lemma other_type_eqs:
  "(lit ''flow'' = lit ''code'') = False" "(lit ''flow'' = lit ''bullet'') = False"
  "(lit ''flow'' = lit ''table'') = False" "(lit ''flow'' = lit ''card'') = False"
  "(lit ''flow'' = lit ''checklist'') = False" "(lit ''flow'' = lit ''cover'') = False"
  "(lit ''flow'' = lit ''terminal'') = False" "(lit ''flow'' = lit ''diagram'') = False"
  "(lit ''flow'' = lit ''cards'') = False" "(lit ''flow'' = lit ''schema'') = False"
  "(lit ''warning'' = lit ''code'') = False" "(lit ''warning'' = lit ''bullet'') = False"
  "(lit ''warning'' = lit ''table'') = False" "(lit ''warning'' = lit ''card'') = False"
  "(lit ''warning'' = lit ''checklist'') = False"
  "(lit ''warning'' = lit ''cover'') = False"
  "(lit ''warning'' = lit ''terminal'') = False"
  "(lit ''warning'' = lit ''diagram'') = False" "(lit ''warning'' = lit ''cards'') = False"
  "(lit ''warning'' = lit ''schema'') = False"
  "(lit ''comparison'' = lit ''code'') = False"
  "(lit ''comparison'' = lit ''bullet'') = False"
  "(lit ''comparison'' = lit ''table'') = False"
  "(lit ''comparison'' = lit ''card'') = False"
  "(lit ''comparison'' = lit ''checklist'') = False"
  "(lit ''comparison'' = lit ''cover'') = False"
  "(lit ''comparison'' = lit ''terminal'') = False"
  "(lit ''comparison'' = lit ''diagram'') = False"
  "(lit ''comparison'' = lit ''cards'') = False"
  "(lit ''comparison'' = lit ''schema'') = False" "(lit ''detail'' = lit ''code'') = False"
  "(lit ''detail'' = lit ''bullet'') = False" "(lit ''detail'' = lit ''table'') = False"
  "(lit ''detail'' = lit ''card'') = False" "(lit ''detail'' = lit ''checklist'') = False"
  "(lit ''detail'' = lit ''cover'') = False" "(lit ''detail'' = lit ''terminal'') = False"
  "(lit ''detail'' = lit ''diagram'') = False" "(lit ''detail'' = lit ''cards'') = False"
  "(lit ''detail'' = lit ''schema'') = False"
  by (simp_all add: inj_lit)

lemma loop_labels:
  "str_of_nat 15 @ lit '' / 24'' = lit ''15 / 24''"
  "str_of_nat 16 @ lit '' / 24'' = lit ''16 / 24''"
  "str_of_nat 17 @ lit '' / 24'' = lit ''17 / 24''"
  "str_of_nat 18 @ lit '' / 24'' = lit ''18 / 24''"
  "str_of_nat 19 @ lit '' / 24'' = lit ''19 / 24''"
  by (simp_all add: str_of_nat_def digits10.simps lit_simps)

lemma pystr_opaque: "PyStr s = PyStr s"
  by (rule refl)

lemma enumerate_app: "List.enumerate n (xs @ ys) = List.enumerate n xs @ List.enumerate (n + length xs) ys"
  by (induction xs arbitrary: n) auto

lemmas shape_eval =
  shape_of_def pycall.simps list.map fst_conv snd_conv list.size list.set ball_simps insert_iff
  prod.inject simp_thms add_0_left add_0_right append.simps list.set_map set_append ball_Un
  enumerate_simps(1) case_prod_conv

lemmas call_eval =
  value_of_def supplied_def param_names_def signature_defs core_params_def param_eqs

lemmas item_eval =
  entries_ok_def line_type_def item_key_eqs type_eqs other_type_eqs

text \<open>A call with keywords only is looked up in its keywords.\<close>

lemma value_of_keywords:
  "value_of sig \<lparr>posargs = [], kwargs = kvs\<rparr> p =
     (case map_of kvs p of Some v \<Rightarrow> v | None \<Rightarrow> the (map_of (defaults sig) p))"
  by (simp add: value_of_def supplied_def)

lemmas keyword_eval =
  value_of_keywords map_of_Cons_code if_True if_False option.case list.map param_eqs

end
