(* ===== verification/Deck16.thy ===== *)
theory Deck16
  imports DeckContract
begin

text \<open>
  The publication definition of lab 16, \<^verbatim>\<open>labs/16-dependency-injection/result/content_def.py\<close>:
  its module constants, every \<open>add_slide\<close> call in order (\<open>lab16_slide_01\<close> is the first),
  and the module as a whole (\<open>lab16_deck\<close>). Long strings are split into pieces that are
  concatenated; a character outside ASCII is its code point.
\<close>

named_theorems lab16_slides \<open>the add_slide calls of lab 16\<close>
named_theorems lab16_contents \<open>their content_items arguments\<close>

definition lab16_OUTPUT_DIR :: pystr where
  \<open>lab16_OUTPUT_DIR = lit ''labs/16-dependency-injection/result''\<close>

definition lab16_REPO_URL :: pystr where
  \<open>lab16_REPO_URL = lit ''https://github.com/lukman-ss/software-engine'' @
    lit ''ering-lab/tree/main/labs/16-dependency-injec'' @ lit ''tion''\<close>

definition lab16_COMMIT_SHA :: pystr where
  \<open>lab16_COMMIT_SHA = lit ''3d936ba''\<close>

definition lab16_LAB_NO :: pystr where
  \<open>lab16_LAB_NO = lit ''16''\<close>

definition lab16_SLUG :: pystr where
  \<open>lab16_SLUG = lit ''dependency-injection''\<close>

definition lab16_TITLE_ID :: pystr where
  \<open>lab16_TITLE_ID = lit ''Dependency Injection & Inversion of Control''\<close>

definition lab16_SUBTITLE_ID :: pystr where
  \<open>lab16_SUBTITLE_ID = lit ''Memisahkan Konfigurasi dari Penggunaan di Go''\<close>

definition lab16_TITLE_EN :: pystr where
  \<open>lab16_TITLE_EN = lit ''Dependency Injection & Inversion of Control''\<close>

definition lab16_SUBTITLE_EN :: pystr where
  \<open>lab16_SUBTITLE_EN = lit ''Separating Configuration from Use in Go''\<close>

definition lab16_AUTHOR :: pystr where
  \<open>lab16_AUTHOR = lit ''Lukman / lukman-ss''\<close>

definition lab16_TOPIC_TAGS :: pystr where
  \<open>lab16_TOPIC_TAGS = lit ''Dependency Injection '' @ [0x2022] @ lit '' IoC '' @ [0x2022] @
    lit '' Constructor Injection '' @ [0x2022] @ lit '' Service Locator Anti-Pattern '' @
    [0x2022] @ lit '' Go '' @ [0x2022] @ lit '' Mocking''\<close>

definition lab16_COVER_IMAGE_PATH :: pystr where
  \<open>lab16_COVER_IMAGE_PATH = lit ''labs/16-dependency-injection/result/image-co'' @ lit ''ver/cover_art.jpg''\<close>

definition lab16_add_slide :: "pycall \<Rightarrow> pyval list \<Rightarrow> (pyexc, pyval list) res" where
  "lab16_add_slide = add_slide_layout"

definition lab16_items_01 :: pyval where [lab16_contents]:
  \<open>lab16_items_01 =
   PyList
   [PyDict
     [(''type'', PyStr (lit ''cover'')),
      (''title'', PyStr []),
      (''items'', PyList
        [PyStr (lit ''Constructor Injection vs Service Locator '' @ lit ''Anti-Pattern in Go''),
         PyStr (lit ''Payment Gateway Dependency Separation with '' @ lit ''Manual Wiring''),
         PyStr (lit ''Penulis: '' @ lab16_AUTHOR)])]]\<close>

definition lab16_slide_01 :: pycall where [lab16_slides]:
  \<open>lab16_slide_01 =
   \<lparr>posargs = [],
  kwargs =
   [(''categories'', PyList
      [PyStr (lit ''COVER'')]),
    (''title'', PyStr lab16_TITLE_ID),
    (''subtitle'', PyStr lab16_SUBTITLE_ID),
    (''content_items'', lab16_items_01),
    (''mental_model'', PyStr (lit ''Externalize object creation to achieve '' @
        lit ''separation of configuration from use.'')),
    (''source_path'', PyStr []),
    (''slide_num'', PyStr (lit ''01 / 24'')),
    (''layout'', PyStr (lit ''cover''))]\<rparr>\<close>

definition lab16_items_02 :: pyval where [lab16_contents]:
  \<open>lab16_items_02 =
   PyList
   [PyDict
     [(''type'', PyStr (lit ''cards'')),
      (''title'', PyStr (lit ''DAMPAK TIGHT COUPLING'')),
      (''items'', PyList
        [PyDict
          [(''title'', PyStr (lit ''Pengujian Lambat'')),
           (''desc'', PyStr (lit ''Setiap test memerlukan setup jaringan, '' @
               lit ''database, atau payment provider riil yang '' @ lit ''flaky.''))],
         PyDict
          [(''title'', PyStr (lit ''Vendor Lock-in'')),
           (''desc'', PyStr (lit ''Pergantian payment gateway memaksa edit '' @
               lit ''banyak kelas yang bergantung pada '' @ lit ''implementasi konkret.''))],
         PyDict
          [(''title'', PyStr (lit ''Bukan Berarti Malas'')),
           (''desc'', PyStr (lit ''Tim aktif menulis kode, tetapi bukan '' @
               lit ''berarti produktif jika setiap perubahan '' @
               lit ''memicu domino refactoring.''))]])]]\<close>

definition lab16_slide_02 :: pycall where [lab16_slides]:
  \<open>lab16_slide_02 =
   \<lparr>posargs = [],
  kwargs =
   [(''categories'', PyList
      [PyStr (lit ''PROBLEM''),
       PyStr (lit ''TIGHT COUPLING'')]),
    (''title'', PyStr (lit ''Hard-Coded Dependencies Mengunci Logika '' @ lit ''Bisnis pada Infrastruktur'')),
    (''subtitle'', PyStr (lit ''Ketika kelas menginstansiasi dependensinya '' @
        lit ''sendiri, pengujian menjadi lambat dan '' @
        lit ''penggantian vendor memaksa modifikasi '' @ lit ''menyeluruh.'')),
    (''content_items'', lab16_items_02),
    (''narrative'', PyStr (lit ''Ketika sebuah kelas membangun dependensinya '' @
        lit ''sendiri, logika bisnis menjadi terkunci '' @
        lit ''pada infrastruktur eksternal. Pengujian '' @
        lit ''unit jadi sulit karena harus mengandalkan '' @
        lit ''status jaringan nyata yang tidak '' @ lit ''deterministik.'')),
    (''narrative_en'', PyStr (lit ''When a class builds its own dependencies, '' @
        lit ''business logic becomes locked to external '' @
        lit ''infrastructure. Unit testing becomes '' @
        lit ''difficult because it must rely on '' @
        lit ''non-deterministic live network states.'')),
    (''mental_model'', PyStr (lit ''Hard-coded dependencies couple business '' @
        lit ''logic to infrastructure, breaking '' @ lit ''testability and evolvability.'')),
    (''source_path'', PyStr (lit ''content/02-master-draft.md:3-9'')),
    (''slide_num'', PyStr (lit ''02 / 24'')),
    (''layout'', PyStr (lit ''cards''))]\<rparr>\<close>

definition lab16_items_03 :: pyval where [lab16_contents]:
  \<open>lab16_items_03 =
   PyList
   [PyDict
     [(''type'', PyStr (lit ''cards'')),
      (''title'', PyStr (lit ''KEGAGALAN APPROACH NAIF'')),
      (''items'', PyList
        [PyDict
          [(''title'', PyStr (lit ''Tidak Lengkap'')),
           (''desc'', PyStr (lit ''Reviewer mungkin melewatkan instantiate '' @
               lit ''baru di dalam method ketika fokus pada alur '' @ lit ''utama.''))],
         PyDict
          [(''title'', PyStr (lit ''Tidak Otomatis'')),
           (''desc'', PyStr (lit ''Manual review tidak dapat memverifikasi '' @
               lit ''bahwa semua dependensi telah dipisahkan ke '' @ lit ''constructor.''))],
         PyDict
          [(''title'', PyStr (lit ''Skala Buruk'')),
           (''desc'', PyStr (lit ''Pada codebase besar, jejak dependensi '' @
               lit ''tersebar di banyak file; bukan berarti '' @
               lit ''review manual cukup.''))]])]]\<close>

definition lab16_slide_03 :: pycall where [lab16_slides]:
  \<open>lab16_slide_03 =
   \<lparr>posargs = [],
  kwargs =
   [(''categories'', PyList
      [PyStr (lit ''WHY FAILS''),
       PyStr (lit ''MANUAL REVIEW LIMITATIONS'')]),
    (''title'', PyStr (lit ''Code Review Manual Tidak Menangkap '' @ lit ''Dependensi Tersembunyi'')),
    (''subtitle'', PyStr (lit ''Dependensi yang diinstansiasi secara '' @
        lit ''internal sulit dilacak hanya dengan membaca '' @ lit ''kode secara sekilas.'')),
    (''content_items'', lab16_items_03),
    (''narrative'', PyStr (lit ''Code review manual mengandalkan perhatian '' @
        lit ''manusia untuk menangkap pola coupling. '' @
        lit ''Pendekatan ini tidak otomatis menjamin '' @
        lit ''bahwa setiap dependensi eksternal telah '' @
        lit ''diinjeksi melalui constructor.'')),
    (''narrative_en'', PyStr (lit ''Manual code review relies on human '' @
        lit ''attention to catch coupling patterns. This '' @
        lit ''approach does not automatically guarantee '' @
        lit ''that every external dependency has been '' @
        lit ''injected through constructors.'')),
    (''mental_model'', PyStr (lit ''Manual review cannot systematically enforce '' @
        lit ''dependency separation across a large '' @ lit ''codebase.'')),
    (''source_path'', PyStr (lit ''content/02-master-draft.md:3-9'')),
    (''slide_num'', PyStr (lit ''03 / 24'')),
    (''layout'', PyStr (lit ''cards''))]\<rparr>\<close>

definition lab16_items_04 :: pyval where [lab16_contents]:
  \<open>lab16_items_04 =
   PyList
   [PyDict
     [(''type'', PyStr (lit ''schema'')),
      (''title'', PyStr (lit ''DUA FASE DALAM SISTEM'')),
      (''items'', PyList
        [PyDict
          [(''phase'', PyStr (lit ''1. Konfigurasi'')),
           (''role'', PyStr (lit ''Composition Root'')),
           (''desc'', PyStr (lit ''Instansiasi implementasi konkret dan '' @
               lit ''penyuntikan ke dalam constructor (main.go).''))],
         PyDict
          [(''phase'', PyStr (lit ''2. Penggunaan'')),
           (''role'', PyStr (lit ''Business Logic'')),
           (''desc'', PyStr (lit ''Kelas menerima dependensi melalui parameter '' @
               lit ''constructor; tidak mengetahui implementasi '' @ lit ''konkret.''))]])]]\<close>

definition lab16_slide_04 :: pycall where [lab16_slides]:
  \<open>lab16_slide_04 =
   \<lparr>posargs = [],
  kwargs =
   [(''categories'', PyList
      [PyStr (lit ''MENTAL MODEL''),
       PyStr (lit ''SEPARATION OF CONCERNS'')]),
    (''title'', PyStr (lit ''Pemisahan Konfigurasi dari Penggunaan'')),
    (''subtitle'', PyStr (lit ''Fase konfigurasi (composition root) '' @
        lit ''terpisah dari fase penggunaan (business '' @ lit ''logic).'')),
    (''content_items'', lab16_items_04),
    (''narrative'', PyStr (lit ''Prinsip inti Dependency Injection adalah '' @
        lit ''memisahkan pembentukan objek dari '' @
        lit ''penggunaannya. Composition root bertugas '' @
        lit ''merakit object graph, sementara modul '' @
        lit ''bisnis hanya menggunakan dependensi yang '' @ lit ''telah tersedia.'')),
    (''narrative_en'', PyStr (lit ''The core principle of Dependency Injection '' @
        lit ''is separating object construction from its '' @
        lit ''use. The composition root assembles the '' @
        lit ''object graph, while business modules only '' @
        lit ''consume dependencies that are provided.'')),
    (''mental_model'', PyStr (lit ''Separate configuration (composition root) '' @
        lit ''from use (business logic) to achieve loose '' @ lit ''coupling.'')),
    (''source_path'', PyStr (lit ''content/02-master-draft.md:13-17'')),
    (''slide_num'', PyStr (lit ''04 / 24'')),
    (''layout'', PyStr (lit ''schema''))]\<rparr>\<close>

definition lab16_items_05 :: pyval where [lab16_contents]:
  \<open>lab16_items_05 =
   PyList
   [PyDict
     [(''type'', PyStr (lit ''schema'')),
      (''title'', PyStr (lit ''TAHAPAN EKSEKUSI PAYMENT PROCESSOR'')),
      (''items'', PyList
        [PyDict
          [(''phase'', PyStr (lit ''1. Composition Root'')),
           (''role'', PyStr (lit ''main.go'')),
           (''desc'', PyStr (lit ''Membuat realGateway := &di.RealGateway{}.''))],
         PyDict
          [(''phase'', PyStr (lit ''2. Constructor Injection'')),
           (''role'', PyStr (lit ''NewProcessor'')),
           (''desc'', PyStr (lit ''processor := di.NewProcessor(realGateway); '' @
               lit ''gateway tersimpan sebagai field unexported.''))],
         PyDict
          [(''phase'', PyStr (lit ''3. Validasi Input'')),
           (''role'', PyStr (lit ''ProcessPayment'')),
           (''desc'', PyStr (lit ''Periksa amount <= 0; kembalikan error jika '' @ lit ''invalid.''))],
         PyDict
          [(''phase'', PyStr (lit ''4. Delegasi'')),
           (''role'', PyStr (lit ''gateway.Charge'')),
           (''desc'', PyStr (lit ''Buat Money value object dan panggil '' @ lit ''gateway.Charge(m).''))],
         PyDict
          [(''phase'', PyStr (lit ''5. Propagasi Error'')),
           (''role'', PyStr (lit ''Error Return'')),
           (''desc'', PyStr (lit ''Error dari gateway dipropagasikan ke caller '' @ lit ''tanpa ditelan.''))]])]]\<close>

definition lab16_slide_05 :: pycall where [lab16_slides]:
  \<open>lab16_slide_05 =
   \<lparr>posargs = [],
  kwargs =
   [(''categories'', PyList
      [PyStr (lit ''PIPELINE''),
       PyStr (lit ''DI FLOW'')]),
    (''title'', PyStr (lit ''Alur Kerja Dependency Injection Manual'')),
    (''subtitle'', PyStr (lit ''Dari instansiasi gateway hingga delegasi ke '' @ lit ''method Charge.'')),
    (''content_items'', lab16_items_05),
    (''narrative'', PyStr (lit ''Pipeline DI manual dimulai dari composition '' @
        lit ''root yang menginialisasi implementasi '' @
        lit ''konkret. Konstruktor menyimpan dependensi '' @
        lit ''sebagai field, method bisnis memvalidasi '' @
        lit ''input lalu mendelegasikan ke gateway.'')),
    (''narrative_en'', PyStr (lit ''Manual DI pipeline starts at the '' @
        lit ''composition root instantiating concrete '' @
        lit ''implementations. The constructor stores '' @
        lit ''dependencies as fields, business methods '' @
        lit ''validate input then delegate to the gateway.'')),
    (''mental_model'', PyStr (lit ''Manual wiring sequence: instantiate '' @ [0x2192] @ lit '' inject '' @
        [0x2192] @ lit '' validate '' @ [0x2192] @ lit '' delegate '' @ [0x2192] @
        lit '' propagate error.'')),
    (''source_path'', PyStr (lit ''cmd/demo/main.go:16-36'')),
    (''slide_num'', PyStr (lit ''05 / 24'')),
    (''layout'', PyStr (lit ''schema''))]\<rparr>\<close>

definition lab16_items_06 :: pyval where [lab16_contents]:
  \<open>lab16_items_06 =
   PyList
   [PyDict
     [(''type'', PyStr (lit ''code'')),
      (''title'', PyStr (lit ''internal/di/processor.go'')),
      (''items'', PyList
        [PyStr (lit ''type Processor struct {''),
         PyStr (lit ''    gateway PaymentGateway''),
         PyStr (lit ''}''),
         PyStr [],
         PyStr (lit ''func NewProcessor(g PaymentGateway) '' @ lit ''*Processor {''),
         PyStr (lit ''    return &Processor{gateway: g}''),
         PyStr (lit ''}''),
         PyStr [],
         PyStr (lit ''func (p *Processor) ProcessPayment(amount '' @ lit ''int) error {''),
         PyStr (lit ''    if amount <= 0 {''),
         PyStr (lit ''        return errors.New("invalid amount")''),
         PyStr (lit ''    }''),
         PyStr (lit ''    m := Money{Amount: amount, Currency: '' @ lit ''"USD"}''),
         PyStr (lit ''    return p.gateway.Charge(m)''),
         PyStr (lit ''}'')])]]\<close>

definition lab16_slide_06 :: pycall where [lab16_slides]:
  \<open>lab16_slide_06 =
   \<lparr>posargs = [],
  kwargs =
   [(''categories'', PyList
      [PyStr (lit ''IMPLEMENTATION''),
       PyStr (lit ''CONSTRUCTOR INJECTION'')]),
    (''title'', PyStr (lit ''Constructor Injection: NewProcessor '' @ lit ''Menerima Interface'')),
    (''subtitle'', PyStr (lit ''Processor menyimpan gateway PaymentGateway '' @
        lit ''tanpa mengetahui implementasinya.'')),
    (''content_items'', lab16_items_06),
    (''narrative'', PyStr (lit ''Constructor injection membuat Processor '' @
        lit ''hanya mengenal interface PaymentGateway, '' @
        lit ''bukan implementasi konkret RealGateway. '' @
        lit ''Dependensi dibuat eksplisit di signature '' @ lit ''constructor.'')),
    (''narrative_en'', PyStr (lit ''Constructor injection ensures Processor '' @
        lit ''only knows the PaymentGateway interface, '' @
        lit ''not the concrete RealGateway '' @
        lit ''implementation. Dependencies are made '' @
        lit ''explicit in the constructor signature.'')),
    (''mental_model'', PyStr (lit ''Constructor injection membuat dependensi '' @
        lit ''eksplisit saat konstruksi.'')),
    (''source_path'', PyStr (lit ''internal/di/processor.go'')),
    (''slide_num'', PyStr (lit ''06 / 24'')),
    (''layout'', PyStr (lit ''code''))]\<rparr>\<close>

definition lab16_items_07 :: pyval where [lab16_contents]:
  \<open>lab16_items_07 =
   PyList
   [PyDict
     [(''type'', PyStr (lit ''cards'')),
      (''title'', PyStr (lit ''SKENARIO KEGAGALAN LOKATOR'')),
      (''items'', PyList
        [PyDict
          [(''title'', PyStr (lit ''Dependensi Tersembunyi'')),
           (''desc'', PyStr (lit ''Constructor hanya menerima Container; '' @
               lit ''developer tidak tahu method butuh '' @ lit ''PaymentGateway.''))],
         PyDict
          [(''title'', PyStr (lit ''Pencarian Dinamis'')),
           (''desc'', PyStr (lit ''ProcessPayment memanggil '' @
               lit ''p.container.GetPaymentGateway() saat '' @
               lit ''runtime, menambah indirection.''))],
         PyDict
          [(''title'', PyStr (lit ''Beban Mocking Tambahan'')),
           (''desc'', PyStr (lit ''Pengujian unit terpaksa menyusun '' @
               lit ''MockContainer bertingkat hanya untuk '' @
               lit ''menyuplai gateway konkret.''))],
         PyDict
          [(''title'', PyStr (lit ''Kopling Container Kaku'')),
           (''desc'', PyStr (lit ''BadProcessor terikat langsung pada '' @
               lit ''interface Container, bukan abstraksi domain '' @ lit ''spesifik.''))]])]]\<close>

definition lab16_slide_07 :: pycall where [lab16_slides]:
  \<open>lab16_slide_07 =
   \<lparr>posargs = [],
  kwargs =
   [(''categories'', PyList
      [PyStr (lit ''FAILURE PATH''),
       PyStr (lit ''SERVICE LOCATOR ANTI-PATTERN'')]),
    (''title'', PyStr (lit ''Service Locator Menyembunyikan Dependensi '' @ lit ''Sesungguhnya'')),
    (''subtitle'', PyStr (lit ''BadProcessor menerima Container alih-alih '' @
        lit ''PaymentGateway, membuat dependensi '' @ lit ''tersembunyi.'')),
    (''content_items'', lab16_items_07),
    (''narrative'', PyStr (lit ''Service Locator menyembunyikan dependensi '' @
        lit ''nyata di balik lookup method container saat '' @
        lit ''runtime. Hal ini menyulitkan pelacakan '' @
        lit ''dependensi dan membebani pengujian unit '' @
        lit ''karena developer wajib menyiapkan '' @
        lit ''MockContainer bertingkat hanya untuk '' @ lit ''menyuplai gateway konkret.'')),
    (''narrative_en'', PyStr (lit ''Service Locator hides actual dependencies '' @
        lit ''behind a container interface. This reduces '' @
        lit ''readability and makes mocking harder '' @
        lit ''because tests must prepare a container '' @
        lit ''instead of the dependency directly.'')),
    (''mental_model'', PyStr (lit ''Service Locator obscures dependencies, '' @
        lit ''complicating testing and reducing code '' @ lit ''transparency.'')),
    (''source_path'', PyStr (lit ''internal/di/locator.go'')),
    (''slide_num'', PyStr (lit ''07 / 24'')),
    (''layout'', PyStr (lit ''cards''))]\<rparr>\<close>

definition lab16_items_08 :: pyval where [lab16_contents]:
  \<open>lab16_items_08 =
   PyList
   [PyDict
     [(''title'', PyStr (lit ''ASPEK VS KONSTRUKTOR INJECTION VS SERVICE '' @ lit ''LOCATOR'')),
      (''items'', PyList
        [PyStr (lit ''Aspek | Constructor Injection | Service '' @ lit ''Locator''),
         PyStr (lit ''Dependensi | Eksplisit di constructor | '' @
            lit ''Tersembunyi di container''),
         PyStr (lit ''Mocking | Langsung inject mock | Harus mock '' @ lit ''container + get()''),
         PyStr (lit ''Kontrak Dependensi | Membuat dependensi '' @
            lit ''eksplisit saat konstruksi | Tersembunyi di '' @
            lit ''balik lookup container''),
         PyStr (lit ''Kompleksitas | Mudah dipahami | Menambah '' @ lit ''indirection layer''),
         PyStr (lit ''Standar Industri | Diterima sebagai best '' @
            lit ''practice | Dipandang sebagai anti-pattern'')]),
      (''type'', PyStr (lit ''table''))]]\<close>

definition lab16_slide_08 :: pycall where [lab16_slides]:
  \<open>lab16_slide_08 =
   \<lparr>posargs = [],
  kwargs =
   [(''categories'', PyList
      [PyStr (lit ''COMPARISON''),
       PyStr (lit ''DI vs SERVICE LOCATOR'')]),
    (''title'', PyStr (lit ''Kontras Constructor Injection vs Service '' @ lit ''Locator'')),
    (''subtitle'', PyStr (lit ''Perbandingan mekanisme, pengujian, dan '' @ lit ''konsekuensi arsitektur.'')),
    (''content_items'', lab16_items_08),
    (''narrative'', PyStr (lit ''Tabel ini memetakan perbedaan mendasar '' @
        lit ''antara dua pendekatan. Constructor '' @
        lit ''injection menghasilkan dependensi yang '' @
        lit ''eksplisit dan mudah diuji; service locator '' @
        lit ''memperkenalkan lapisan tambahan yang '' @ lit ''menyulitkan isolasi.'')),
    (''narrative_en'', PyStr (lit ''This table maps the fundamental differences '' @
        lit ''between two approaches. Constructor '' @
        lit ''injection yields explicit, testable '' @
        lit ''dependencies; service locator introduces an '' @
        lit ''extra indirection layer that complicates '' @ lit ''isolation.'')),
    (''mental_model'', PyStr (lit ''Compare injection mechanisms along axes of '' @
        lit ''visibility, testability, and industry '' @ lit ''acceptance.'')),
    (''source_path'', PyStr (lit ''internal/di/processor.go '' @ lit ''internal/di/locator.go'')),
    (''slide_num'', PyStr (lit ''08 / 24'')),
    (''layout'', PyStr (lit ''table''))]\<rparr>\<close>

definition lab16_items_09 :: pyval where [lab16_contents]:
  \<open>lab16_items_09 =
   PyList
   [PyDict
     [(''type'', PyStr (lit ''cards'')),
      (''title'', PyStr (lit ''KEPUTUSAN PENTING'')),
      (''items'', PyList
        [PyDict
          [(''title'', PyStr (lit ''Pilih Constructor Injection'')),
           (''desc'', PyStr (lit ''Default modern; membantu menjaga kontrak '' @
               lit ''dependensi tetap terlihat dan eksplisit.''))],
         PyDict
          [(''title'', PyStr (lit ''Hindari Service Locator di Domain'')),
           (''desc'', PyStr (lit ''Container hanya digunakan di composition '' @
               lit ''root; tidak disuntikkan ke service.''))],
         PyDict
          [(''title'', PyStr (lit ''Gunakan Value Object Langsung'')),
           (''desc'', PyStr (lit ''Money diinstansiasi langsung karena tidak '' @
               lit ''memiliki dependensi infrastruktur.''))]])]]\<close>

definition lab16_slide_09 :: pycall where [lab16_slides]:
  \<open>lab16_slide_09 =
   \<lparr>posargs = [],
  kwargs =
   [(''categories'', PyList
      [PyStr (lit ''DECISION SEQUENCE''),
       PyStr (lit ''ARCHITECTURAL CHOICES'')]),
    (''title'', PyStr (lit ''Keputusan Desain DI pada Lab Ini'')),
    (''subtitle'', PyStr (lit ''Tiga keputusan arsitektural yang menentukan '' @ lit ''struktur kode.'')),
    (''content_items'', lab16_items_09),
    (''narrative'', PyStr (lit ''Lab ini memilih constructor injection '' @
        lit ''sebagai pola default karena membantu '' @
        lit ''menjaga kontrak dependensi tetap terlihat. '' @
        lit ''Service Locator hanya digunakan untuk '' @
        lit ''mendemonstrasikan anti-pattern, bukan '' @
        lit ''sebagai solusi arsitektur utama.'')),
    (''narrative_en'', PyStr (lit ''This lab chooses constructor injection as '' @
        lit ''the default pattern because it provides '' @
        lit ''immutability and dependency clarity. '' @
        lit ''Service Locator is used only to demonstrate '' @
        lit ''the anti-pattern, not as a solution.'')),
    (''mental_model'', PyStr (lit ''Choose constructor injection to make '' @
        lit ''dependencies explicit at construction time.'')),
    (''source_path'', PyStr (lit ''content/02-master-draft.md:91-101'')),
    (''slide_num'', PyStr (lit ''09 / 24'')),
    (''layout'', PyStr (lit ''cards''))]\<rparr>\<close>

definition lab16_items_10 :: pyval where [lab16_contents]:
  \<open>lab16_items_10 =
   PyList
   [PyDict
     [(''type'', PyStr (lit ''code'')),
      (''title'', PyStr (lit ''TERMINAL OUTPUT: go test -v -race ./...'')),
      (''items'', PyList
        [PyStr (lit ''=== RUN   TestProcessor_Success''),
         PyStr (lit ''--- PASS: TestProcessor_Success (0.00s)''),
         PyStr (lit ''=== RUN   TestProcessor_GatewayError''),
         PyStr (lit ''--- PASS: TestProcessor_GatewayError (0.00s)''),
         PyStr (lit ''=== RUN   TestProcessor_InvalidAmount''),
         PyStr (lit ''--- PASS: TestProcessor_InvalidAmount '' @ lit ''(0.00s)''),
         PyStr (lit ''=== RUN   TestBadProcessor_Success''),
         PyStr (lit ''--- PASS: TestBadProcessor_Success (0.00s)''),
         PyStr (lit ''=== RUN   TestBadProcessor_GatewayError''),
         PyStr (lit ''--- PASS: TestBadProcessor_GatewayError '' @ lit ''(0.00s)''),
         PyStr (lit ''=== RUN   TestBadProcessor_InvalidAmount''),
         PyStr (lit ''--- PASS: TestBadProcessor_InvalidAmount '' @ lit ''(0.00s)''),
         PyStr (lit ''PASS''),
         PyStr (lit ''ok      lab16/tests   (cached)'')])]]\<close>

definition lab16_slide_10 :: pycall where [lab16_slides]:
  \<open>lab16_slide_10 =
   \<lparr>posargs = [],
  kwargs =
   [(''categories'', PyList
      [PyStr (lit ''EVIDENCE''),
       PyStr (lit ''TEST RESULTS'')]),
    (''title'', PyStr (lit ''6 Test Case Lolos dengan Race Detector'')),
    (''subtitle'', PyStr (lit ''Semua test berjalan dalam 0.00s per kasus '' @
        lit ''tanpa dependency eksternal.'')),
    (''content_items'', lab16_items_10),
    (''narrative'', PyStr (lit ''Output terminal membuktikan seluruh enam '' @
        lit ''test case lulus termasuk race detector. '' @
        lit ''Test berhasil mengisolasi Processor dari '' @
        lit ''gateway nyata, memverifikasi happy path, '' @
        lit ''error propagation, dan validasi input.'')),
    (''narrative_en'', PyStr (lit ''Terminal output proves all six test cases '' @
        lit ''pass including race detector. Tests '' @
        lit ''successfully isolate Processor from real '' @
        lit ''gateway, verifying happy path, error '' @
        lit ''propagation, and input validation.'')),
    (''mental_model'', PyStr (lit ''Executable test suite proves isolation, '' @
        lit ''error handling, and input validation '' @
        lit ''without external infrastructure.'')),
    (''source_path'', PyStr (lit ''tests/processor_test.go'')),
    (''slide_num'', PyStr (lit ''10 / 24'')),
    (''layout'', PyStr (lit ''code''))]\<rparr>\<close>

definition lab16_items_11 :: pyval where [lab16_contents]:
  \<open>lab16_items_11 =
   PyList
   [PyDict
     [(''type'', PyStr (lit ''cards'')),
      (''title'', PyStr (lit ''BATAS PEMBUKTIAN SISTEM'')),
      (''items'', PyList
        [PyDict
          [(''title'', PyStr (lit ''YANG DIBUKTIKAN'')),
           (''desc'', PyStr (lit ''Isolasi mock, propagation error, validasi '' @
               lit ''input, race safety pada 6 test case.''))],
         PyDict
          [(''title'', PyStr (lit ''YANG TIDAK DIBUKTIKAN'')),
           (''desc'', PyStr (lit ''Lifecycle management '' @
               lit ''(singleton/scoped/transient), performance '' @
               lit ''overhead container, pengurangan defect rate.''))],
         PyDict
          [(''title'', PyStr (lit ''BATAS KLAIM EMPIRIS'')),
           (''desc'', PyStr (lit ''Tidak ada data kuantitatif tentang '' @
               lit ''kecepatan pengujian atau stabilitas sistem '' @
               lit ''setelah penerapan DI.''))]])]]\<close>

definition lab16_slide_11 :: pycall where [lab16_slides]:
  \<open>lab16_slide_11 =
   \<lparr>posargs = [],
  kwargs =
   [(''categories'', PyList
      [PyStr (lit ''AUDIT''),
       PyStr (lit ''EVIDENCE BOUNDARY'')]),
    (''title'', PyStr (lit ''Batasan Bukti Lab: Yang Dibuktikan vs Belum'')),
    (''subtitle'', PyStr (lit ''Menegaskan cakupan verifikasi terhadap '' @ lit ''skenario produksi.'')),
    (''content_items'', lab16_items_11),
    (''narrative'', PyStr (lit ''Lab ini membuktikan sifat isolasi dan '' @
        lit ''propagasi error pada skenario sederhana. '' @
        lit ''Namun belum membuktikan aspek lifecycle, '' @
        lit ''kinerja, atau dampak empiris terhadap '' @
        lit ''metrik rekayasa perangkat lunak.'')),
    (''narrative_en'', PyStr (lit ''This lab proves isolation and error '' @
        lit ''propagation in simple scenarios. It does '' @
        lit ''not prove lifecycle management, performance '' @
        lit ''overhead, or empirical impact on software '' @ lit ''engineering metrics.'')),
    (''mental_model'', PyStr (lit ''Strictly separate proven unit-test behavior '' @
        lit ''from unproven production-scale claims.'')),
    (''source_path'', PyStr (lit ''content/01-content-brief.md:13-17'')),
    (''slide_num'', PyStr (lit ''11 / 24'')),
    (''layout'', PyStr (lit ''cards''))]\<rparr>\<close>

definition lab16_items_12 :: pyval where [lab16_contents]:
  \<open>lab16_items_12 =
   PyList
   [PyDict
     [(''type'', PyStr (lit ''cards'')),
      (''title'', PyStr (lit ''KOMPROMI REKAYASA DI'')),
      (''items'', PyList
        [PyDict
          [(''title'', PyStr (lit ''Boilerplate vs Kemudahan'')),
           (''desc'', PyStr (lit ''Manual wiring memerlukan kode ekstra di '' @
               lit ''main.go; framework mengurangi boilerplate '' @
               lit ''tetapi menambah kompleksitas.''))],
         PyDict
          [(''title'', PyStr (lit ''Type Safety vs Fleksibilitas'')),
           (''desc'', PyStr (lit ''Compiler memeriksa tipe parameter, bukan '' @
               lit ''seluruh validitas graph; framework refleksi '' @
               lit ''lebih fleksibel tetapi menambah risiko '' @ lit ''runtime.''))],
         PyDict
          [(''title'', PyStr (lit ''Tidak Otomatis Skalabel'')),
           (''desc'', PyStr (lit ''Pada object graph sangat besar, manual '' @
               lit ''wiring memerlukan ketelitian perakitan; '' @
               lit ''bukan berarti framework refleksi selalu '' @ lit ''diperlukan.''))]])]]\<close>

definition lab16_slide_12 :: pycall where [lab16_slides]:
  \<open>lab16_slide_12 =
   \<lparr>posargs = [],
  kwargs =
   [(''categories'', PyList
      [PyStr (lit ''TRADE-OFF''),
       PyStr (lit ''COSTS & BENEFITS'')]),
    (''title'', PyStr (lit ''Trade-off Penerapan DI Manual vs Framework'')),
    (''subtitle'', PyStr (lit ''Manual wiring menambah boilerplate tetapi '' @
        lit ''memperjelas kontrak tipe tanpa dependensi '' @ lit ''eksternal.'')),
    (''content_items'', lab16_items_12),
    (''narrative'', PyStr (lit ''Penerapan DI manual menuntut penulisan '' @
        lit ''composition root yang jelas. Pada skala '' @
        lit ''besar, overhead boilerplate dapat '' @
        lit ''bertambah, namun trade-off ini sering '' @
        lit ''diterima demi kejelasan kontrak dan '' @ lit ''kemudahan pengujian.'')),
    (''narrative_en'', PyStr (lit ''Manual DI implementation requires a clear '' @
        lit ''composition root. At large scale, '' @
        lit ''boilerplate overhead can become '' @
        lit ''significant, but this trade-off is often '' @
        lit ''accepted for clarity and testability.'')),
    (''mental_model'', PyStr (lit ''DI manual wiring trades boilerplate for '' @
        lit ''type safety and zero external dependencies.'')),
    (''source_path'', PyStr (lit ''content/02-master-draft.md:76-81'')),
    (''slide_num'', PyStr (lit ''12 / 24'')),
    (''layout'', PyStr (lit ''cards''))]\<rparr>\<close>

definition lab16_items_13 :: pyval where [lab16_contents]:
  \<open>lab16_items_13 =
   PyList
   [PyDict
     [(''type'', PyStr (lit ''code'')),
      (''title'', PyStr (lit ''tests/processor_test.go'')),
      (''items'', PyList
        [PyStr (lit ''func TestProcessor_Success(t *testing.T) {''),
         PyStr (lit ''    mock := &MockGateway{}''),
         PyStr (lit ''    proc := di.NewProcessor(mock)''),
         PyStr (lit ''    err := proc.ProcessPayment(50)''),
         PyStr (lit ''    if err != nil {''),
         PyStr (lit ''        t.Fatalf("expected nil error, got '' @ lit ''%v", err)''),
         PyStr (lit ''    }''),
         PyStr (lit ''    // Race detector passes; no shared '' @ lit ''mutable state''),
         PyStr (lit ''}'')])]]\<close>

definition lab16_slide_13 :: pycall where [lab16_slides]:
  \<open>lab16_slide_13 =
   \<lparr>posargs = [],
  kwargs =
   [(''categories'', PyList
      [PyStr (lit ''CONCURRENCY''),
       PyStr (lit ''RACE SAFETY'')]),
    (''title'', PyStr (lit ''Race Safety pada Implementasi DI'')),
    (''subtitle'', PyStr (lit ''Test dengan race detector memastikan tidak '' @
        lit ''ada shared mutable state.'')),
    (''content_items'', lab16_items_13),
    (''narrative'', PyStr (lit ''Race detector Go memeriksa akses memori '' @
        lit ''konkuren. Pada pengujian ini, skenario test '' @
        lit ''ini tidak menunjukkan race pada jalur yang '' @
        lit ''dieksekusi karena komponen bersifat '' @ lit ''stateless.'')),
    (''narrative_en'', PyStr (lit ''Go'' @ [39] @ lit ''s race detector checks concurrent memory '' @
        lit ''accesses. In these tests, no race was '' @
        lit ''detected on the executed test paths because '' @
        lit ''components remain stateless.'')),
    (''mental_model'', PyStr (lit ''Skenario test ini tidak menunjukkan race '' @
        lit ''pada jalur yang dieksekusi.'')),
    (''source_path'', PyStr (lit ''tests/processor_test.go:23-35'')),
    (''slide_num'', PyStr (lit ''13 / 24'')),
    (''layout'', PyStr (lit ''code''))]\<rparr>\<close>

definition lab16_items_14 :: pyval where [lab16_contents]:
  \<open>lab16_items_14 =
   PyList
   [PyDict
     [(''type'', PyStr (lit ''cards'')),
      (''title'', PyStr (lit ''SEBELUM (TIGHT COUPLING) VS SESUDAH (DI)'')),
      (''items'', PyList
        [PyDict
          [(''title'', PyStr (lit ''Sebelum: Hard-Coded'')),
           (''desc'', PyStr (lit ''Processor membuat RealGateway di dalam '' @
               lit ''method; tidak bisa di-mock tanpa mengubah '' @ lit ''kode sumber.''))],
         PyDict
          [(''title'', PyStr (lit ''Sesudah: DI Manual'')),
           (''desc'', PyStr (lit ''NewProcessor menerima PaymentGateway; mock '' @
               lit ''disuntikkan langsung pada test.''))],
         PyDict
          [(''title'', PyStr (lit ''Bukan Berarti Sempurna'')),
           (''desc'', PyStr (lit ''DI bukan solusi ajaib; tetap perlu disiplin '' @
               lit ''composition root dan hindari over-injection.''))]])]]\<close>

definition lab16_slide_14 :: pycall where [lab16_slides]:
  \<open>lab16_slide_14 =
   \<lparr>posargs = [],
  kwargs =
   [(''categories'', PyList
      [PyStr (lit ''COMPARISON''),
       PyStr (lit ''BEFORE VS AFTER'')]),
    (''title'', PyStr (lit ''Transformasi: Dari Hard-Coded ke '' @ lit ''Constructor Injection'')),
    (''subtitle'', PyStr (lit ''Perbandingan kode sebelum dan sesudah '' @ lit ''penerapan DI.'')),
    (''content_items'', lab16_items_14),
    (''narrative'', PyStr (lit ''Sebelum DI, kelas bisnis langsung '' @
        lit ''menginstansiasi dependensi konkret, '' @
        lit ''mengunci pada satu implementasi. Setelah '' @
        lit ''DI, dependensi datang dari luar, '' @
        lit ''memungkinkan penggantian dan pengujian '' @ lit ''terisolasi.'')),
    (''narrative_en'', PyStr (lit ''Before DI, business classes directly '' @
        lit ''instantiate concrete dependencies, locking '' @
        lit ''to one implementation. After DI, '' @
        lit ''dependencies come from outside, enabling '' @
        lit ''substitution and isolated testing.'')),
    (''mental_model'', PyStr (lit ''Replace internal instantiation with '' @
        lit ''external injection to achieve loose '' @ lit ''coupling.'')),
    (''source_path'', PyStr (lit ''internal/di/processor.go '' @ lit ''internal/di/locator.go'')),
    (''slide_num'', PyStr (lit ''14 / 24'')),
    (''layout'', PyStr (lit ''cards''))]\<rparr>\<close>

definition lab16_items_15 :: pyval where [lab16_contents]:
  \<open>lab16_items_15 =
   PyList
   [PyDict
     [(''type'', PyStr (lit ''code'')),
      (''title'', PyStr (lit ''internal/di/gateway.go'')),
      (''items'', PyList
        [PyStr (lit ''type Money struct {''),
         PyStr (lit ''    Amount   int''),
         PyStr (lit ''    Currency string''),
         PyStr (lit ''}''),
         PyStr [],
         PyStr (lit ''type PaymentGateway interface {''),
         PyStr (lit ''    Charge(m Money) error''),
         PyStr (lit ''}'')])]]\<close>

definition lab16_slide_15 :: pycall where [lab16_slides]:
  \<open>lab16_slide_15 =
   \<lparr>posargs = [],
  kwargs =
   [(''categories'', PyList
      [PyStr (lit ''ANALYSIS''),
       PyStr (lit ''INTERFACE DESIGN'')]),
    (''title'', PyStr (lit ''Interface PaymentGateway: Kontrak Tunggal'')),
    (''subtitle'', PyStr (lit ''Definisi metode Charge yang menerima value '' @ lit ''object Money.'')),
    (''content_items'', lab16_items_15),
    (''narrative'', PyStr (lit ''Interface PaymentGateway mendefinisikan '' @
        lit ''kontrak tunggal untuk semua implementasi '' @
        lit ''gateway. Money adalah value object yang '' @
        lit ''mewakili uang dengan amount dan currency.'')),
    (''narrative_en'', PyStr (lit ''The PaymentGateway interface defines a '' @
        lit ''single contract for all gateway '' @
        lit ''implementations. Money is a value object '' @
        lit ''representing currency with amount and '' @ lit ''currency fields.'')),
    (''mental_model'', PyStr (lit ''Define minimal interfaces that capture the '' @
        lit ''required behavior without exposing '' @ lit ''implementation details.'')),
    (''source_path'', PyStr (lit ''internal/di/gateway.go'')),
    (''slide_num'', PyStr (lit ''15 / 24'')),
    (''layout'', PyStr (lit ''code''))]\<rparr>\<close>

definition lab16_items_16 :: pyval where [lab16_contents]:
  \<open>lab16_items_16 =
   PyList
   [PyDict
     [(''type'', PyStr (lit ''code'')),
      (''title'', PyStr (lit ''internal/di/processor.go'')),
      (''items'', PyList
        [PyStr (lit ''func (p *Processor) ProcessPayment(amount '' @ lit ''int) error {''),
         PyStr (lit ''    if amount <= 0 {''),
         PyStr (lit ''        return errors.New("invalid amount")''),
         PyStr (lit ''    }''),
         PyStr (lit ''    m := Money{Amount: amount, Currency: '' @ lit ''"USD"}''),
         PyStr (lit ''    return p.gateway.Charge(m)''),
         PyStr (lit ''}'')])]]\<close>

definition lab16_slide_16 :: pycall where [lab16_slides]:
  \<open>lab16_slide_16 =
   \<lparr>posargs = [],
  kwargs =
   [(''categories'', PyList
      [PyStr (lit ''ANALYSIS''),
       PyStr (lit ''VALUE OBJECT'')]),
    (''title'', PyStr (lit ''Money: Value Object yang Diinstansiasi '' @ lit ''Langsung'')),
    (''subtitle'', PyStr (lit ''Value object tidak memerlukan DI karena '' @
        lit ''tidak memiliki dependensi eksternal.'')),
    (''content_items'', lab16_items_16),
    (''narrative'', PyStr (lit ''Money dibuat langsung di dalam method '' @
        lit ''karena merupakan struktur data murni tanpa '' @
        lit ''dependensi infrastruktur. Menggunakan DI '' @
        lit ''untuk value object akan menambah abstraksi '' @ lit ''tanpa manfaat.'')),
    (''narrative_en'', PyStr (lit ''Money is created directly inside the method '' @
        lit ''because it is a pure data structure without '' @
        lit ''infrastructure dependencies. Using DI for '' @
        lit ''value objects would add abstraction without '' @ lit ''benefit.'')),
    (''mental_model'', PyStr (lit ''Instantiate value objects directly; reserve '' @
        lit ''DI for services that depend on external '' @ lit ''infrastructure.'')),
    (''source_path'', PyStr (lit ''internal/di/processor.go:15-21'')),
    (''slide_num'', PyStr (lit ''16 / 24'')),
    (''layout'', PyStr (lit ''code''))]\<rparr>\<close>

definition lab16_items_17 :: pyval where [lab16_contents]:
  \<open>lab16_items_17 =
   PyList
   [PyDict
     [(''type'', PyStr (lit ''code'')),
      (''title'', PyStr (lit ''tests/processor_test.go'')),
      (''items'', PyList
        [PyStr (lit ''type MockGateway struct {''),
         PyStr (lit ''    ChargedMoney di.Money''),
         PyStr (lit ''    ShouldFail   bool''),
         PyStr (lit ''}''),
         PyStr [],
         PyStr (lit ''func (m *MockGateway) Charge(money '' @ lit ''di.Money) error {''),
         PyStr (lit ''    if m.ShouldFail {''),
         PyStr (lit ''        return errors.New("gateway '' @ lit ''unavailable")''),
         PyStr (lit ''    }''),
         PyStr (lit ''    m.ChargedMoney = money''),
         PyStr (lit ''    return nil''),
         PyStr (lit ''}'')])]]\<close>

definition lab16_slide_17 :: pycall where [lab16_slides]:
  \<open>lab16_slide_17 =
   \<lparr>posargs = [],
  kwargs =
   [(''categories'', PyList
      [PyStr (lit ''ANALYSIS''),
       PyStr (lit ''TEST DOUBLE'')]),
    (''title'', PyStr (lit ''MockGateway: Test Double untuk Isolasi '' @ lit ''Pengujian'')),
    (''subtitle'', PyStr (lit ''Mock meniru PaymentGateway tanpa panggilan '' @ lit ''jaringan nyata.'')),
    (''content_items'', lab16_items_17),
    (''narrative'', PyStr (lit ''MockGateway merekam panggilan Charge dan '' @
        lit ''dapat dikonfigurasi untuk gagal. Hal ini '' @
        lit ''memungkinkan pengujian error propagation '' @
        lit ''tanpa koneksi jaringan riil.'')),
    (''narrative_en'', PyStr (lit ''MockGateway records Charge calls and can be '' @
        lit ''configured to fail. This enables testing '' @
        lit ''error propagation without real network '' @ lit ''connections.'')),
    (''mental_model'', PyStr (lit ''Use mock doubles to isolate unit tests from '' @
        lit ''external side effects.'')),
    (''source_path'', PyStr (lit ''tests/processor_test.go:10-21'')),
    (''slide_num'', PyStr (lit ''17 / 24'')),
    (''layout'', PyStr (lit ''code''))]\<rparr>\<close>

definition lab16_items_18 :: pyval where [lab16_contents]:
  \<open>lab16_items_18 =
   PyList
   [PyDict
     [(''type'', PyStr (lit ''code'')),
      (''title'', PyStr (lit ''cmd/demo/main.go'')),
      (''items'', PyList
        [PyStr (lit ''func main() {''),
         PyStr (lit ''    realGateway := &di.RealGateway{}''),
         PyStr (lit ''    processor := '' @ lit ''di.NewProcessor(realGateway)''),
         PyStr (lit ''    fmt.Println("--- Running Constructor '' @ lit ''Injection ---")''),
         PyStr (lit ''    err := processor.ProcessPayment(100)''),
         PyStr (lit ''    if err != nil {''),
         PyStr (lit ''        fmt.Printf("Error: %v'' @ [92] @ lit ''n", err)''),
         PyStr (lit ''    }''),
         PyStr (lit ''}'')])]]\<close>

definition lab16_slide_18 :: pycall where [lab16_slides]:
  \<open>lab16_slide_18 =
   \<lparr>posargs = [],
  kwargs =
   [(''categories'', PyList
      [PyStr (lit ''ANALYSIS''),
       PyStr (lit ''COMPOSITION ROOT'')]),
    (''title'', PyStr (lit ''Composition Root: main.go sebagai Titik '' @ lit ''Penyambungan'')),
    (''subtitle'', PyStr (lit ''Satu-satunya tempat yang tahu implementasi '' @
        lit ''konkret dan menyuntikkannya.'')),
    (''content_items'', lab16_items_18),
    (''narrative'', PyStr (lit ''Composition root adalah fungsi main yang '' @
        lit ''bertanggung jawab merakit object graph. Ia '' @
        lit ''satu-satunya tempat yang mengimpor '' @
        lit ''implementasi konkret RealGateway.'')),
    (''narrative_en'', PyStr (lit ''The composition root is the main function '' @
        lit ''responsible for assembling the object '' @
        lit ''graph. It is the only place that imports '' @
        lit ''the concrete RealGateway implementation.'')),
    (''mental_model'', PyStr (lit ''Centralize concrete instantiation in a '' @
        lit ''single composition root to maintain '' @ lit ''separation of concerns.'')),
    (''source_path'', PyStr (lit ''cmd/demo/main.go:16-26'')),
    (''slide_num'', PyStr (lit ''18 / 24'')),
    (''layout'', PyStr (lit ''code''))]\<rparr>\<close>

definition lab16_items_19 :: pyval where [lab16_contents]:
  \<open>lab16_items_19 =
   PyList
   [PyDict
     [(''type'', PyStr (lit ''code'')),
      (''title'', PyStr (lit ''internal/di/processor.go'')),
      (''items'', PyList
        [PyStr (lit ''func (p *Processor) ProcessPayment(amount '' @ lit ''int) error {''),
         PyStr (lit ''    if amount <= 0 {''),
         PyStr (lit ''        return errors.New("invalid amount")''),
         PyStr (lit ''    }''),
         PyStr (lit ''    // ... create Money and call gateway''),
         PyStr (lit ''}'')])]]\<close>

definition lab16_slide_19 :: pycall where [lab16_slides]:
  \<open>lab16_slide_19 =
   \<lparr>posargs = [],
  kwargs =
   [(''categories'', PyList
      [PyStr (lit ''ANALYSIS''),
       PyStr (lit ''INPUT VALIDATION'')]),
    (''title'', PyStr (lit ''Validasi Input Sebelum Delegasi ke Gateway'')),
    (''subtitle'', PyStr (lit ''Processor menolak amount <= 0 tanpa '' @ lit ''memanggil gateway.'')),
    (''content_items'', lab16_items_19),
    (''narrative'', PyStr (lit ''Validasi input dilakukan sebelum delegasi '' @
        lit ''ke dependensi eksternal. Ini mencegah '' @
        lit ''panggilan jaringan sia-sia dan memastikan '' @
        lit ''hanya amount yang valid yang diproses.'')),
    (''narrative_en'', PyStr (lit ''Input validation occurs before delegating '' @
        lit ''to external dependencies. This prevents '' @
        lit ''unnecessary network calls and ensures only '' @
        lit ''valid amounts are processed.'')),
    (''mental_model'', PyStr (lit ''Validate inputs early to fail fast and '' @
        lit ''avoid side effects in downstream '' @ lit ''dependencies.'')),
    (''source_path'', PyStr (lit ''internal/di/processor.go:15-18'')),
    (''slide_num'', PyStr (lit ''19 / 24'')),
    (''layout'', PyStr (lit ''code''))]\<rparr>\<close>

definition lab16_items_20 :: pyval where [lab16_contents]:
  \<open>lab16_items_20 =
   PyList
   [PyDict
     [(''type'', PyStr (lit ''checklist'')),
      (''title'', PyStr (lit ''KRITERIA IMPLEMENTASI DI YANG BAIK'')),
      (''items'', PyList
        [PyStr (lit ''Dependensi dideklarasikan sebagai '' @
            lit ''interface, bukan tipe konkret.''),
         PyStr (lit ''Constructor injection digunakan sebagai '' @
            lit ''default untuk semua service.''),
         PyStr (lit ''Composition root (main.go atau setara) '' @
            lit ''adalah satu-satunya tempat yang membuat '' @ lit ''implementasi konkret.''),
         PyStr (lit ''Tidak ada container.Get(...) di dalam '' @ lit ''logika domain.''),
         PyStr (lit ''Value objects (Money, DateTime, Address) '' @
            lit ''diinstansiasi langsung.''),
         PyStr (lit ''Setiap service dapat diuji dengan mock '' @
            lit ''tanpa setup infrastruktur.''),
         PyStr (lit ''Validasi input dilakukan sebelum delegasi '' @
            lit ''ke dependensi eksternal.''),
         PyStr (lit ''Test mencakup happy path, error '' @
            lit ''propagation, dan invalid input.''),
         PyStr (lit ''go test -race ./... PASS tanpa warning.''),
         PyStr (lit ''Heuristik lab (seperti 12 parameter) tidak '' @
            lit ''dikutip sebagai standar universal.'')])]]\<close>

definition lab16_slide_20 :: pycall where [lab16_slides]:
  \<open>lab16_slide_20 =
   \<lparr>posargs = [],
  kwargs =
   [(''categories'', PyList
      [PyStr (lit ''CHECKLIST''),
       PyStr (lit ''BEST PRACTICES'')]),
    (''title'', PyStr (lit ''Checklist Penerapan Dependency Injection'')),
    (''subtitle'', PyStr (lit ''Standar wajib sebelum menggabungkan modul '' @
        lit ''bisnis dengan dependensi eksternal.'')),
    (''content_items'', lab16_items_20),
    (''narrative'', PyStr (lit ''Checklist ini merangkum prinsip-prinsip DI '' @
        lit ''yang harus dipenuhi agar kode tetap teruji, '' @
        lit ''terelaborasi, dan mudah berkembang.'')),
    (''narrative_en'', PyStr (lit ''This checklist summarizes the DI principles '' @
        lit ''that must be met to keep code testable, '' @
        lit ''decoupled, and easily evolving.'')),
    (''mental_model'', PyStr (lit ''Enforce dependency injection guidelines '' @
        lit ''through a systematic checklist.'')),
    (''source_path'', PyStr (lit ''content/02-master-draft.md:155-167'')),
    (''slide_num'', PyStr (lit ''20 / 24'')),
    (''layout'', PyStr (lit ''checklist''))]\<rparr>\<close>

definition lab16_items_21 :: pyval where [lab16_contents]:
  \<open>lab16_items_21 =
   PyList
   [PyDict
     [(''type'', PyStr (lit ''cards'')),
      (''title'', PyStr (lit ''HINDARI KESALAHAN INI'')),
      (''items'', PyList
        [PyDict
          [(''title'', PyStr (lit ''Service Locator di Domain'')),
           (''desc'', PyStr (lit ''Menyuntikkan container ke kelas bisnis; '' @
               lit ''dependensi menjadi tersembunyi.''))],
         PyDict
          [(''title'', PyStr (lit ''Mengabstraksi Value Object'')),
           (''desc'', PyStr (lit ''Memasukkan Money ke dalam container DI '' @
               lit ''padahal hanya struktur data.''))],
         PyDict
          [(''title'', PyStr (lit ''Constructor Bloat'')),
           (''desc'', PyStr (lit ''Konstruktor dengan banyak parameter '' @
               lit ''menandakan kelas melakukan terlalu banyak '' @ lit ''hal.''))],
         PyDict
          [(''title'', PyStr (lit ''DI Overuse'')),
           (''desc'', PyStr (lit ''Menggunakan DI untuk segala hal, termasuk '' @
               lit ''fungsi murni tanpa state.''))]])]]\<close>

definition lab16_slide_21 :: pycall where [lab16_slides]:
  \<open>lab16_slide_21 =
   \<lparr>posargs = [],
  kwargs =
   [(''categories'', PyList
      [PyStr (lit ''ANTI-PATTERN''),
       PyStr (lit ''PITFALLS'')]),
    (''title'', PyStr (lit ''Anti-Pattern Umum dalam Dependency Injection'')),
    (''subtitle'', PyStr (lit ''Kesalahan desain yang sering merusak '' @ lit ''manfaat DI.'')),
    (''content_items'', lab16_items_21),
    (''narrative'', PyStr (lit ''Service Locator adalah anti-pattern karena '' @
        lit ''menyembunyikan dependensi. Value object '' @
        lit ''seharusnya tidak diinject. Constructor '' @
        lit ''bloat menunjukkan pelanggaran Single '' @ lit ''Responsibility Principle.'')),
    (''narrative_en'', PyStr (lit ''Service Locator is an anti-pattern because '' @
        lit ''it hides dependencies. Value objects should '' @
        lit ''not be injected. Constructor bloat '' @
        lit ''indicates a violation of the Single '' @ lit ''Responsibility Principle.'')),
    (''mental_model'', PyStr (lit ''Identify and avoid common DI anti-patterns '' @
        lit ''to preserve testability and clarity.'')),
    (''source_path'', PyStr (lit ''content/02-master-draft.md:135-146'')),
    (''slide_num'', PyStr (lit ''21 / 24'')),
    (''layout'', PyStr (lit ''cards''))]\<rparr>\<close>

definition lab16_items_22 :: pyval where [lab16_contents]:
  \<open>lab16_items_22 =
   PyList
   [PyDict
     [(''type'', PyStr (lit ''code'')),
      (''title'', PyStr (lit ''COMMAND RUNNER'')),
      (''items'', PyList
        [PyStr (lit ''cd labs/16-dependency-injection''),
         PyStr (lit ''go test -v ./...    # jalankan semua test '' @ lit ''case''),
         PyStr (lit ''go test -race ./... # skenario test ini '' @
            lit ''tidak menunjukkan race pada jalur yang '' @ lit ''dieksekusi''),
         PyStr (lit ''go run ./cmd/demo   # eksekusi demo '' @
            lit ''constructor injection & service locator'')])]]\<close>

definition lab16_slide_22 :: pycall where [lab16_slides]:
  \<open>lab16_slide_22 =
   \<lparr>posargs = [],
  kwargs =
   [(''categories'', PyList
      [PyStr (lit ''REPRODUCTION''),
       PyStr (lit ''COMMANDS'')]),
    (''title'', PyStr (lit ''Reproduksi Mandiri di Mesin Lokal '' @ lit ''Menggunakan Go'')),
    (''subtitle'', PyStr (lit ''Verifikasi mandiri DI dengan menjalankan '' @ lit ''test suite.'')),
    (''content_items'', lab16_items_22),
    (''narrative'', PyStr (lit ''Semua kode ditulis dengan Go standard '' @
        lit ''library tanpa dependensi eksternal. Test '' @
        lit ''suite mencakup isolasi, error propagation, '' @ lit ''dan validasi input.'')),
    (''narrative_en'', PyStr (lit ''All code uses the Go standard library with '' @
        lit ''zero external dependencies. The test suite '' @
        lit ''covers isolation, error propagation, and '' @ lit ''input validation.'')),
    (''mental_model'', PyStr (lit ''Use minimal reproduction commands to verify '' @
        lit ''DI implementation locally.'')),
    (''source_path'', PyStr (lit ''README.md:14-23'')),
    (''slide_num'', PyStr (lit ''22 / 24'')),
    (''layout'', PyStr (lit ''code''))]\<rparr>\<close>

definition lab16_items_23 :: pyval where [lab16_contents]:
  \<open>lab16_items_23 =
   PyList
   [PyDict
     [(''type'', PyStr (lit ''cards'')),
      (''title'', PyStr (lit ''TIGA PILAR ARSITEKTUR DI'')),
      (''items'', PyList
        [PyDict
          [(''title'', PyStr (lit ''Separation of Concerns'')),
           (''desc'', PyStr (lit ''Configuration (composition root) terpisah '' @
               lit ''dari use (business logic).''))],
         PyDict
          [(''title'', PyStr (lit ''Program to Interfaces'')),
           (''desc'', PyStr (lit ''Consumer bergantung pada kontrak interface, '' @
               lit ''bukan implementasi konkret.''))],
         PyDict
          [(''title'', PyStr (lit ''Explicit over Implicit'')),
           (''desc'', PyStr (lit ''Semua dependensi dinyatakan eksplisit di '' @
               lit ''constructor; tidak ada magic lookup.''))]])]]\<close>

definition lab16_slide_23 :: pycall where [lab16_slides]:
  \<open>lab16_slide_23 =
   \<lparr>posargs = [],
  kwargs =
   [(''categories'', PyList
      [PyStr (lit ''TAKEAWAY''),
       PyStr (lit ''ARCHITECTURAL PRINCIPLES'')]),
    (''title'', PyStr (lit ''Prinsip Inti: Dependency Harus Eksplisit'')),
    (''subtitle'', PyStr (lit ''Konfigurasi terpisah dari penggunaan; '' @ lit ''interface sebagai kontrak.'')),
    (''content_items'', lab16_items_23),
    (''narrative'', PyStr (lit ''Prinsip DI menekankan kejelasan dependensi. '' @
        lit ''Dengan memisahkan konfigurasi dan '' @
        lit ''penggunaan, sistem menjadi lebih mudah '' @
        lit ''diuji, dipahami, dan dikembangkan.'')),
    (''narrative_en'', PyStr (lit ''DI principles emphasize dependency clarity. '' @
        lit ''By separating configuration from use, '' @
        lit ''systems become easier to test, understand, '' @ lit ''and evolve.'')),
    (''mental_model'', PyStr (lit ''Architect systems with explicit '' @
        lit ''dependencies and separated concerns for '' @
        lit ''long-term maintainability.'')),
    (''source_path'', PyStr (lit ''content/05-key-takeaways.md'')),
    (''slide_num'', PyStr (lit ''23 / 24'')),
    (''layout'', PyStr (lit ''cards''))]\<rparr>\<close>

definition lab16_items_24 :: pyval where [lab16_contents]:
  \<open>lab16_items_24 =
   PyList
   [PyDict
     [(''type'', PyStr (lit ''bullet'')),
      (''title'', PyStr (lit ''MODUL IMPLEMENTASI'')),
      (''items'', PyList
        [PyStr (lit ''internal/di/gateway.go '' @ [0x2022] @
            lit '' internal/di/processor.go '' @ [0x2022] @ lit '' internal/di/locator.go''),
         PyStr (lit ''cmd/demo/main.go '' @ [0x2022] @ lit '' tests/processor_test.go''),
         PyStr (lit ''content/02-master-draft.md '' @ [0x2022] @
            lit '' content/01-content-brief.md'')])],
    PyDict
     [(''type'', PyStr (lit ''bullet'')),
      (''title'', PyStr (lit ''VERIFIKASI & STATUS'')),
      (''items'', PyList
        [PyStr (lit ''Commit: '' @ str_prefix 7 lab16_COMMIT_SHA @ lit '' '' @ [0x2022] @
            lit '' Repositori: software-engineering-lab''),
         PyStr (lit ''Test passing: 6 test scenarios (success, '' @
            lit ''error propagation, invalid amount)''),
         PyStr (lit ''Race detector: Skenario test ini tidak '' @
            lit ''menunjukkan race pada jalur yang dieksekusi '' @ lit ''(PASS)''),
         PyStr (lit ''Zero external dependencies: 100% Go '' @ lit ''standard library.'')])]]\<close>

definition lab16_slide_24 :: pycall where [lab16_slides]:
  \<open>lab16_slide_24 =
   \<lparr>posargs = [],
  kwargs =
   [(''categories'', PyList
      [PyStr (lit ''CLOSING'')]),
    (''title'', PyStr (lit ''Dependency Injection adalah tentang '' @ lit ''kejelasan, bukan kerumitan.'')),
    (''subtitle'', PyStr []),
    (''content_items'', lab16_items_24),
    (''mental_model'', PyStr (lit ''Dependency Injection separates concerns, '' @
        lit ''making systems testable and evolvable.'')),
    (''source_path'', PyStr lab16_REPO_URL),
    (''slide_num'', PyStr (lit ''24 / 24'')),
    (''layout'', PyStr (lit ''closing''))]\<rparr>\<close>

definition lab16_calls :: "pycall list" where
  "lab16_calls =
    [lab16_slide_01, lab16_slide_02, lab16_slide_03, lab16_slide_04, lab16_slide_05,
     lab16_slide_06, lab16_slide_07, lab16_slide_08, lab16_slide_09, lab16_slide_10,
     lab16_slide_11, lab16_slide_12, lab16_slide_13, lab16_slide_14, lab16_slide_15,
     lab16_slide_16, lab16_slide_17, lab16_slide_18, lab16_slide_19, lab16_slide_20,
     lab16_slide_21, lab16_slide_22, lab16_slide_23, lab16_slide_24]"

definition lab16_deck :: deck where
  "lab16_deck =
    \<lparr>add_slide = lab16_add_slide, lab_no = lab16_LAB_NO, title_id = lab16_TITLE_ID, calls = lab16_calls\<rparr>"

section \<open>Checks of the calls\<close>

lemma lab16_shapes:
  "\<forall>c \<in> set lab16_calls. shape_of c \<in> set
    [(0, [''categories'', ''title'', ''subtitle'', ''content_items'', ''mental_model'',
      ''source_path'', ''slide_num'', ''layout'']),
     (0, [''categories'', ''title'', ''subtitle'', ''content_items'', ''narrative'',
      ''narrative_en'', ''mental_model'', ''source_path'', ''slide_num'', ''layout''])]"
  by (simp only: lab16_calls_def lab16_slides shape_eval cong: pyval_opaque)

lemma lab16_calls_ok: "\<forall>c \<in> set lab16_calls. call_ok sig_layout c"
  by (rule calls_ok_by_shapes [OF lab16_shapes])
    (simp add: shape_ok_def param_names_def signature_defs core_params_def)

lemma lab16_labels: "map (\<lambda>c. value_of sig_layout c ''slide_num'') lab16_calls = labels_24"
  by (simp only: lab16_calls_def lab16_slides keyword_eval labels_24_eval cong: pyval_opaque)

lemma lab16_contents_of:
  "map (\<lambda>c. value_of sig_layout c ''content_items'') lab16_calls =
    [lab16_items_01, lab16_items_02, lab16_items_03, lab16_items_04, lab16_items_05,
     lab16_items_06, lab16_items_07, lab16_items_08, lab16_items_09, lab16_items_10,
     lab16_items_11, lab16_items_12, lab16_items_13, lab16_items_14, lab16_items_15,
     lab16_items_16, lab16_items_17, lab16_items_18, lab16_items_19, lab16_items_20,
     lab16_items_21, lab16_items_22, lab16_items_23, lab16_items_24]"
  by (simp only: lab16_calls_def lab16_slides keyword_eval cong: pyval_opaque)

lemma lab16_items: "item_defects sig_layout lab16_calls = []"
  by (simp only: item_defects_def lab16_contents_of)
    (simp add: lab16_contents item_eval cong: pystr_opaque)

end
