(* ===== verification/Deck17.thy ===== *)
theory Deck17
  imports DeckContract
begin

text \<open>
  The publication definition of lab 17, \<^verbatim>\<open>labs/17-architecture-decision-record/result/content_def.py\<close>:
  its module constants, every \<open>add_slide\<close> call in order (\<open>lab17_slide_01\<close> is the first),
  and the module as a whole (\<open>lab17_deck\<close>). Long strings are split into pieces that are
  concatenated; a character outside ASCII is its code point.
\<close>

named_theorems lab17_slides \<open>the add_slide calls of lab 17\<close>
named_theorems lab17_contents \<open>their content_items arguments\<close>

definition lab17_OUTPUT_DIR :: pystr where
  \<open>lab17_OUTPUT_DIR = lit ''labs/17-architecture-decision-record/result''\<close>

definition lab17_CHROME_BIN :: pystr where
  \<open>lab17_CHROME_BIN = lit ''/Applications/Google '' @ lit ''Chrome.app/Contents/MacOS/Google Chrome''\<close>

definition lab17_REPO_URL :: pystr where
  \<open>lab17_REPO_URL = lit ''https://github.com/lukman-ss/software-engine'' @
    lit ''ering-lab/tree/main/labs/17-architecture-dec'' @ lit ''ision-record''\<close>

definition lab17_COMMIT_SHA :: pystr where
  \<open>lab17_COMMIT_SHA = lit ''36ff6c8''\<close>

definition lab17_LAB_NO :: pystr where
  \<open>lab17_LAB_NO = lit ''17''\<close>

definition lab17_SLUG :: pystr where
  \<open>lab17_SLUG = lit ''architecture-decision-record''\<close>

definition lab17_TITLE_ID :: pystr where
  \<open>lab17_TITLE_ID = lit ''Architecture Decision Record & Validasi '' @ lit ''Struktural''\<close>

definition lab17_SUBTITLE_ID :: pystr where
  \<open>lab17_SUBTITLE_ID = lit ''Mencegah Perdebatan Berulang dan Kerusakan '' @ lit ''Silsilah Keputusan di Go''\<close>

definition lab17_TITLE_EN :: pystr where
  \<open>lab17_TITLE_EN = lit ''Architecture Decision Records & Structural '' @ lit ''Validation''\<close>

definition lab17_SUBTITLE_EN :: pystr where
  \<open>lab17_SUBTITLE_EN = lit ''Preventing Cyclical Debates and Decision '' @ lit ''Lineage Rot in Go''\<close>

definition lab17_AUTHOR :: pystr where
  \<open>lab17_AUTHOR = lit ''Lukman / lukman-ss''\<close>

definition lab17_TOPIC_TAGS :: pystr where
  \<open>lab17_TOPIC_TAGS = lit ''Architecture Decision Record '' @ [0x2022] @ lit '' ADR '' @ [0x2022] @
    lit '' Software Architecture '' @ [0x2022] @ lit '' Go '' @ [0x2022] @
    lit '' Linting '' @ [0x2022] @ lit '' Immutability''\<close>

definition lab17_COVER_IMAGE_PATH :: pystr where
  \<open>lab17_COVER_IMAGE_PATH = lit ''labs/17-architecture-decision-record/result/'' @ lit ''image-cover/cover_art.jpg''\<close>

definition lab17_add_slide :: "pycall \<Rightarrow> pyval list \<Rightarrow> (pyexc, pyval list) res" where
  "lab17_add_slide = add_slide_layout"

definition lab17_items_01 :: pyval where [lab17_contents]:
  \<open>lab17_items_01 =
   PyList
   [PyDict
     [(''type'', PyStr (lit ''cover'')),
      (''title'', PyStr []),
      (''items'', PyList
        [PyStr (lit ''Retro Terminal Displaying ADR Parser, '' @
            lit ''Monotonic Checks & Bidirectional Graph''),
         PyStr (lit ''Monolith to Microservice Evolution with '' @
            lit ''Concurrency-Safe Linter in Go''),
         PyStr (lit ''Penulis: '' @ lab17_AUTHOR)])]]\<close>

definition lab17_slide_01 :: pycall where [lab17_slides]:
  \<open>lab17_slide_01 =
   \<lparr>posargs = [],
  kwargs =
   [(''categories'', PyList
      [PyStr (lit ''COVER'')]),
    (''title'', PyStr lab17_TITLE_ID),
    (''subtitle'', PyStr lab17_SUBTITLE_ID),
    (''content_items'', lab17_items_01),
    (''mental_model'', PyStr (lit ''Architecture Decision Records capture '' @
        lit ''context, consequences, and immutable '' @
        lit ''lifecycle progression within version '' @ lit ''control.'')),
    (''source_path'', PyStr []),
    (''slide_num'', PyStr (lit ''01 / 24'')),
    (''layout'', PyStr (lit ''cover''))]\<rparr>\<close>

definition lab17_items_02 :: pyval where [lab17_contents]:
  \<open>lab17_items_02 =
   PyList
   [PyDict
     [(''type'', PyStr (lit ''cards'')),
      (''title'', PyStr (lit ''DAMPAK HILANGNYA REKAMAN ARSITEKTUR'')),
      (''items'', PyList
        [PyDict
          [(''title'', PyStr (lit ''Pembalikan Buta'')),
           (''desc'', PyStr (lit ''Keputusan masa lalu dibalik tanpa mengerti '' @
               lit ''batasan awal yang memicunya saat peluncuran.''))],
         PyDict
          [(''title'', PyStr (lit ''Dogma Usang'')),
           (''desc'', PyStr (lit ''Pola lama dipertahankan secara buta meski '' @
               lit ''beban traffic dan skala tim telah melompat '' @ lit ''5x lipat.''))],
         PyDict
          [(''title'', PyStr (lit ''Bukan Berarti Malas'')),
           (''desc'', PyStr (lit ''Tim aktif berdiskusi teknis, tetapi bukan '' @
               lit ''berarti produktif jika memperdebatkan opsi '' @
               lit ''yang sama berulang kali.''))]])]]\<close>

definition lab17_slide_02 :: pycall where [lab17_slides]:
  \<open>lab17_slide_02 =
   \<lparr>posargs = [],
  kwargs =
   [(''categories'', PyList
      [PyStr (lit ''PROBLEM''),
       PyStr (lit ''KNOWLEDGE ROT'')]),
    (''title'', PyStr (lit ''Konteks Keputusan Hilang Memicu Debat '' @ lit ''Teknis Berulang'')),
    (''subtitle'', PyStr (lit ''Ketika alasan pemilihan desain masa lalu '' @
        lit ''lenyap, tim terjebak dalam siklus '' @ lit ''refactoring kontraproduktif.'')),
    (''content_items'', lab17_items_02),
    (''narrative'', PyStr (lit ''Ketika konteks historis arsitektur hilang, '' @
        lit ''pengembang baru tidak mengetahui batasan '' @
        lit ''teknis di balik pilihan desain awal. '' @
        lit ''Diskusi intensif bukan berarti tim '' @
        lit ''produktif jika mereka hanya mengulang '' @
        lit ''perdebatan yang sama tanpa acuan rekam '' @ lit ''jejak formal.'')),
    (''narrative_en'', PyStr (lit ''When historical architectural context is '' @
        lit ''lost, incoming engineers cannot deduce the '' @
        lit ''real trade-offs behind foundational '' @
        lit ''designs. Frequent technical debates do not '' @
        lit ''imply productivity when teams repeatedly '' @
        lit ''re-evaluate resolved trade-offs without '' @ lit ''written records.'')),
    (''mental_model'', PyStr (lit ''Undocumented decisions trigger cyclical '' @
        lit ''technical debates and blind reversal of '' @
        lit ''proven architectural trade-offs.'')),
    (''source_path'', PyStr (lit ''content/02-master-draft.md:3-12'')),
    (''slide_num'', PyStr (lit ''02 / 24'')),
    (''layout'', PyStr (lit ''cards''))]\<rparr>\<close>

definition lab17_items_03 :: pyval where [lab17_contents]:
  \<open>lab17_items_03 =
   PyList
   [PyDict
     [(''type'', PyStr (lit ''cards'')),
      (''title'', PyStr (lit ''PENDEKATAN NAIF VS REALITA TEKNIS'')),
      (''items'', PyList
        [PyDict
          [(''title'', PyStr (lit ''Wiki Eksternal Terisolasi'')),
           (''desc'', PyStr (lit ''Confluence dan Google Docs terpisah dari '' @
               lit ''Git commit; segera usang saat kode '' @ lit ''di-refactor.''))],
         PyDict
          [(''title'', PyStr (lit ''Dangling References'')),
           (''desc'', PyStr (lit ''ADR lama ditandai Superseded by 99, tetapi '' @
               lit ''berkas 99 tidak pernah ditulis atau '' @ lit ''terhapus.''))],
         PyDict
          [(''title'', PyStr (lit ''Tidak Otomatis Akurat'')),
           (''desc'', PyStr (lit ''Menulis format markdown di repo tidak '' @
               lit ''otomatis valid tanpa aturan linter CI yang '' @
               lit ''memverifikasi integritas graf.''))]])]]\<close>

definition lab17_slide_03 :: pycall where [lab17_slides]:
  \<open>lab17_slide_03 =
   \<lparr>posargs = [],
  kwargs =
   [(''categories'', PyList
      [PyStr (lit ''WHY FAILS''),
       PyStr (lit ''DOCUMENTATION DRIFT'')]),
    (''title'', PyStr (lit ''Wiki dan Markdown Manual Cepat Mengalami '' @ lit ''Drift'')),
    (''subtitle'', PyStr (lit ''Mencatat keputusan di luar repositori atau '' @
        lit ''tanpa linter struktural menciptakan dokumen '' @ lit ''fiktif.'')),
    (''content_items'', lab17_items_03),
    (''narrative'', PyStr (lit ''Penyimpanan keputusan di wiki eksternal '' @
        lit ''menyebabkan keterpisahan parah antara '' @
        lit ''implementasi kode dan dokumentasi. Menaruh '' @
        lit ''file markdown di repositori tidak otomatis '' @
        lit ''menjaga kebenaran data jika tautan nomor '' @
        lit ''dan siklus hidupnya tidak diuji mesin.'')),
    (''narrative_en'', PyStr (lit ''Maintaining design docs in disconnected '' @
        lit ''wikis guarantees documentation drift as '' @
        lit ''code evolves through pull requests. Placing '' @
        lit ''markdown files directly in repositories '' @
        lit ''does not automatically ensure referential '' @
        lit ''integrity unless automated linters enforce '' @ lit ''bidirectional links.'')),
    (''mental_model'', PyStr (lit ''Unverified markdown ADRs accumulate broken '' @
        lit ''links, phantom replacements, and invalid '' @ lit ''states over time.'')),
    (''source_path'', PyStr (lit ''content/02-master-draft.md:13-22'')),
    (''slide_num'', PyStr (lit ''03 / 24'')),
    (''layout'', PyStr (lit ''cards''))]\<rparr>\<close>

definition lab17_items_04 :: pyval where [lab17_contents]:
  \<open>lab17_items_04 =
   PyList
   [PyDict
     [(''type'', PyStr (lit ''schema'')),
      (''title'', PyStr (lit ''PILAR INTEGRITAS DOKUMENTASI ARSITEKTUR'')),
      (''items'', PyList
        [PyDict
          [(''phase'', PyStr (lit ''1. Ko-lokasi Git'')),
           (''role'', PyStr (lit ''Version Controlled'')),
           (''desc'', PyStr (lit ''ADR disimpan bersama kode; berevolusi '' @
               lit ''melalui mekanisme Pull Request dan Code '' @ lit ''Review.''))],
         PyDict
          [(''phase'', PyStr (lit ''2. Kekekalan Dokumen'')),
           (''role'', PyStr (lit ''Immutable History'')),
           (''desc'', PyStr (lit ''ADR Accepted dilarang diedit retroaktif; '' @
               lit ''arah baru wajib dicatat pada ADR baru.''))],
         PyDict
          [(''phase'', PyStr (lit ''3. Silsilah Berarah'')),
           (''role'', PyStr (lit ''Directed Graph'')),
           (''desc'', PyStr (lit ''Relasi timbal-balik: status Superseded by N '' @
               lit ''wajib dibalas deklarasi Supersedes M.''))],
         PyDict
          [(''phase'', PyStr (lit ''4. Validasi CI Otomatis'')),
           (''role'', PyStr (lit ''Linter Invariant'')),
           (''desc'', PyStr (lit ''Hanya pada jalur ini validasi '' @
               lit ''terotomatisasi mencegah nomor lompat dan '' @ lit ''siklus sirkular.''))]])]]\<close>

definition lab17_slide_04 :: pycall where [lab17_slides]:
  \<open>lab17_slide_04 =
   \<lparr>posargs = [],
  kwargs =
   [(''categories'', PyList
      [PyStr (lit ''MENTAL MODEL''),
       PyStr (lit ''IMMUTABILITY'')]),
    (''title'', PyStr (lit ''Empat Pilar Siklus Hidup Architecture '' @ lit ''Decision Record'')),
    (''subtitle'', PyStr (lit ''Keputusan berevolusi melalui penomoran '' @
        lit ''monotonik dan riwayat penggantian '' @ lit ''timbal-balik.'')),
    (''content_items'', lab17_items_04),
    (''narrative'', PyStr (lit ''ADR mengabadikan keputusan penting ke dalam '' @
        lit ''repositori dengan sifat kekal setelah '' @
        lit ''disetujui. Hanya pada jalur ini, yakni '' @
        lit ''lewat validasi pipeline otomatis, silsilah '' @
        lit ''keputusan terhindar dari pembaruan sepihak '' @
        lit ''dan inkonsistensi nomor.'')),
    (''narrative_en'', PyStr (lit ''ADRs preserve architectural decisions '' @
        lit ''within version control as immutable '' @
        lit ''artifacts once accepted. Only along this '' @
        lit ''path, through automated validation checks, '' @
        lit ''can decision lineages prevent one-sided '' @
        lit ''status updates and non-monotonic gaps.'')),
    (''mental_model'', PyStr (lit ''Treat architectural decisions as immutable '' @
        lit ''nodes in an append-only directed acyclic '' @ lit ''graph.'')),
    (''source_path'', PyStr (lit ''content/02-master-draft.md:23-32'')),
    (''slide_num'', PyStr (lit ''04 / 24'')),
    (''layout'', PyStr (lit ''schema''))]\<rparr>\<close>

definition lab17_items_05 :: pyval where [lab17_contents]:
  \<open>lab17_items_05 =
   PyList
   [PyDict
     [(''type'', PyStr (lit ''schema'')),
      (''title'', PyStr (lit ''TAHAPAN PEMERIKSAAN INTEGRITAS ADR'')),
      (''items'', PyList
        [PyDict
          [(''phase'', PyStr (lit ''1. Text Ingestion'')),
           (''role'', PyStr (lit ''Reader'')),
           (''desc'', PyStr (lit ''Membaca string berkas markdown ADR dari '' @
               lit ''repositori atau buffer memori.''))],
         PyDict
          [(''phase'', PyStr (lit ''2. Regex Parsing'')),
           (''role'', PyStr (lit ''adr.Parse'')),
           (''desc'', PyStr (lit ''Mengekstrak ID, Title, Status, '' @
               lit ''SupersededBy, Supersedes, dan seksi wajib.''))],
         PyDict
          [(''phase'', PyStr (lit ''3. Monotonic Check'')),
           (''role'', PyStr (lit ''adr.Linter'')),
           (''desc'', PyStr (lit ''Memastikan kumpulan ID terurut 1..N tanpa '' @
               lit ''duplikasi ID dan tanpa nomor lompat.''))],
         PyDict
          [(''phase'', PyStr (lit ''4. Graph & Parallel'')),
           (''role'', PyStr (lit ''Goroutines'')),
           (''desc'', PyStr (lit ''Verifikasi referensi timbal-balik; belum '' @
               lit ''membuktikan integrasi git hook otomatis.''))]])]]\<close>

definition lab17_slide_05 :: pycall where [lab17_slides]:
  \<open>lab17_slide_05 =
   \<lparr>posargs = [],
  kwargs =
   [(''categories'', PyList
      [PyStr (lit ''PIPELINE''),
       PyStr (lit ''VALIDATION FLOW'')]),
    (''title'', PyStr (lit ''Pipeline Validasi: Dari Raw Markdown '' @ lit ''Menjadi Error List'')),
    (''subtitle'', PyStr (lit ''Alur pemrosesan linear dari pembacaan teks, '' @
        lit ''pemindaian regex, hingga pengujian paralel.'')),
    (''content_items'', lab17_items_05),
    (''narrative'', PyStr (lit ''Alur validasi memindai string dokumen, '' @
        lit ''memverifikasi kelengkapan seksi teks, '' @
        lit ''mengurutkan ID penomoran, lalu '' @
        lit ''memverifikasi tautan graf. Pipeline ini '' @
        lit ''membuktikan validasi in-memory, tetapi '' @
        lit ''belum membuktikan integrasi langsung dengan '' @ lit ''git pre-commit hook.'')),
    (''narrative_en'', PyStr (lit ''The validation pipeline scans raw markdown '' @
        lit ''strings, checks required sections, enforces '' @
        lit ''monotonic numbering, and verifies graph '' @
        lit ''references in parallel. While robust in '' @
        lit ''memory, it has not yet proven automated git '' @
        lit ''pre-commit hook integrations.'')),
    (''mental_model'', PyStr (lit ''Sequential structural parsing followed by '' @
        lit ''concurrent referential graph integrity '' @ lit ''verification.'')),
    (''source_path'', PyStr (lit ''content/02-master-draft.md:60-74'')),
    (''slide_num'', PyStr (lit ''05 / 24'')),
    (''layout'', PyStr (lit ''schema''))]\<rparr>\<close>

definition lab17_items_06 :: pyval where [lab17_contents]:
  \<open>lab17_items_06 =
   PyList
   [PyDict
     [(''type'', PyStr (lit ''code'')),
      (''title'', PyStr (lit ''internal/adr/parser.go'')),
      (''items'', PyList
        [PyStr (lit ''var (''),
         PyStr (lit ''    titleRegex  = regexp.MustCompile('' @ [96] @ lit ''^#'' @ [92] @
            lit ''s+('' @ [92] @ lit ''d+)'' @ [92] @ lit ''.'' @ [92] @ lit ''s+(.+)$'' @
            [96] @ lit '')''),
         PyStr (lit ''    statusRegex = regexp.MustCompile('' @ [96] @ lit ''(?i)^Status:'' @
            [92] @ lit ''s*([A-Za-z]+)(?:'' @ [92] @ lit ''s+by'' @ [92] @ lit ''s+('' @
            [92] @ lit ''d+))?'' @ [96] @ lit '')''),
         PyStr (lit ''    contextRegex = regexp.MustCompile('' @ [96] @ lit ''(?i)^##'' @ [92] @
            lit ''s+Context'' @ [96] @ lit '')''),
         PyStr (lit ''    decisionRegex = regexp.MustCompile('' @ [96] @ lit ''(?i)^##'' @
            [92] @ lit ''s+Decision'' @ [96] @ lit '')''),
         PyStr (lit '')''),
         PyStr (lit ''// Parse memverifikasi isi seksi Context, '' @
            lit ''Decision, Consequences''),
         PyStr (lit ''if !foundContext || !contextHasContent { '' @
            lit ''return nil, errors.New("context empty") }'')])]]\<close>

definition lab17_slide_06 :: pycall where [lab17_slides]:
  \<open>lab17_slide_06 =
   \<lparr>posargs = [],
  kwargs =
   [(''categories'', PyList
      [PyStr (lit ''IMPLEMENTATION''),
       PyStr (lit ''PARSER REGEX'')]),
    (''title'', PyStr (lit ''Ekstraksi Metadata dan Seksi Wajib Lewat '' @ lit ''Regex'')),
    (''subtitle'', PyStr (lit ''Parser memastikan judul bernomor, status '' @
        lit ''valid, dan tiga seksi wajib terisi.'')),
    (''content_items'', lab17_items_06),
    (''narrative'', PyStr (lit ''Parser mengekstrak nomor ID dan memeriksa '' @
        lit ''keberadaan konten pada seksi Context, '' @
        lit ''Decision, dan Consequences. Menggunakan '' @
        lit ''regex kaku bukan berarti parser fleksibel '' @
        lit ''terhadap semua dialek Markdown; parser ini '' @
        lit ''sengaja membatasi diri pada konvensi baku '' @ lit ''Nygard.'')),
    (''narrative_en'', PyStr (lit ''The parser extracts IDs and enforces '' @
        lit ''non-empty content across Context, Decision, '' @
        lit ''and Consequences headings. Relying on '' @
        lit ''strict regexes does not imply universal '' @
        lit ''markdown compatibility; it deliberately '' @
        lit ''constrains documents to Nygard'' @ [39] @ lit ''s structural standard.'')),
    (''mental_model'', PyStr (lit ''Strict regex validation enforces mandatory '' @
        lit ''architectural sections before records enter '' @ lit ''the graph.'')),
    (''source_path'', PyStr (lit ''internal/adr/parser.go:11-36'')),
    (''slide_num'', PyStr (lit ''06 / 24'')),
    (''layout'', PyStr (lit ''code''))]\<rparr>\<close>

definition lab17_items_07 :: pyval where [lab17_contents]:
  \<open>lab17_items_07 =
   PyList
   [PyDict
     [(''type'', PyStr (lit ''cards'')),
      (''title'', PyStr (lit ''SKENARIO KEGAGALAN STRUKTUR DOKUMENTASI'')),
      (''items'', PyList
        [PyDict
          [(''title'', PyStr (lit ''Supersession Sepihak'')),
           (''desc'', PyStr (lit ''ADR 2 mengklaim Supersedes: 1, tetapi ADR 1 '' @
               lit ''masih berstatus Accepted tanpa tanda '' @ lit ''penggantian.''))],
         PyDict
          [(''title'', PyStr (lit ''Referensi Hantu'')),
           (''desc'', PyStr (lit ''ADR 1 berstatus Superseded by 99, padahal '' @
               lit ''ADR 99 tidak pernah ada di dalam repositori.''))],
         PyDict
          [(''title'', PyStr (lit ''Penomoran Bolong'')),
           (''desc'', PyStr (lit ''ID melompat dari 1 langsung ke 3; '' @
               lit ''menimbulkan keraguan apakah ada dokumen '' @ lit ''yang hilang.''))],
         PyDict
          [(''title'', PyStr (lit ''Self-Supersession'')),
           (''desc'', PyStr (lit ''ADR 1 menandai dirinya digantikan oleh ADR '' @
               lit ''1; hanya pada jalur ini siklus konyol '' @ lit ''dicegah linter.''))]])]]\<close>

definition lab17_slide_07 :: pycall where [lab17_slides]:
  \<open>lab17_slide_07 =
   \<lparr>posargs = [],
  kwargs =
   [(''categories'', PyList
      [PyStr (lit ''FAILURE PATH''),
       PyStr (lit ''REFERENTIAL ROT'')]),
    (''title'', PyStr (lit ''Anatomi Kerusakan Graf: Tautan Sepihak & '' @ lit ''Referensi Hantu'')),
    (''subtitle'', PyStr (lit ''Empat mode kegagalan silsilah keputusan '' @
        lit ''yang langsung digagalkan oleh linter.'')),
    (''content_items'', lab17_items_07),
    (''narrative'', PyStr (lit ''Kerusakan dokumentasi paling berbahaya '' @
        lit ''terjadi saat penggantian dilakukan sepihak '' @
        lit ''atau menunjuk ke dokumen hantu. Hanya pada '' @
        lit ''jalur ini linter mendeteksi ketidaksesuaian '' @
        lit ''relasi dan menggagalkan merge sebelum '' @
        lit ''informasi keliru menyebar ke tim.'')),
    (''narrative_en'', PyStr (lit ''The most hazardous documentation defect '' @
        lit ''arises from one-sided supersession or '' @
        lit ''referencing non-existent records. Only '' @
        lit ''along this path does the linter intercept '' @
        lit ''structural mismatches, failing PR checks '' @
        lit ''before false architectural states mislead '' @ lit ''engineers.'')),
    (''mental_model'', PyStr (lit ''Broken supersession links create '' @
        lit ''split-brain architectural states where '' @
        lit ''obsolete designs appear active.'')),
    (''source_path'', PyStr (lit ''tests/linter_test.go:36-114'')),
    (''slide_num'', PyStr (lit ''07 / 24'')),
    (''layout'', PyStr (lit ''cards''))]\<rparr>\<close>

definition lab17_items_08 :: pyval where [lab17_contents]:
  \<open>lab17_items_08 =
   PyList
   [PyDict
     [(''title'', PyStr (lit ''GEJALA ANOMALI VS VALIDATOR LINTER'')),
      (''items'', PyList
        [PyStr (lit ''Anomali Dokumentasi | Dampak di Tim '' @
            lit ''Engineering | Aturan Verifikasi Linter''),
         PyStr (lit ''Tautan Sepihak | Status ganda: dua '' @
            lit ''arsitektur bentrok | Reciprocal Check '' @
            lit ''(rec.Supersedes == old.ID)''),
         PyStr (lit ''Dangling Pointer | Konteks pengganti hilang '' @
            lit ''tanpa jejak | Exist Check (replacement, '' @
            lit ''exists := recordMap[ID])''),
         PyStr (lit ''Siklus Sirkular | Loop penggantian tanpa '' @
            lit ''ujung (1->2->1) | DFS Cycle Detection '' @ lit ''(3-state coloring)''),
         PyStr (lit ''Nomor Tidak Urut | Ambiguitas file hilang '' @
            lit ''dalam Git history | Monotonic Numbering '' @ lit ''Check (ids[i] == i+1)''),
         PyStr (lit ''Format Informal | Status '' @ [39] @ lit ''Draft'' @ [39] @
            lit '' / seksi wajib hilang | Parser Guard '' @
            lit ''(IsValid() & Section Check)'')]),
      (''type'', PyStr (lit ''table''))]]\<close>

definition lab17_slide_08 :: pycall where [lab17_slides]:
  \<open>lab17_slide_08 =
   \<lparr>posargs = [],
  kwargs =
   [(''categories'', PyList
      [PyStr (lit ''COMPARISON''),
       PyStr (lit ''DIAGNOSTICS'')]),
    (''title'', PyStr (lit ''Matriks Komparasi: Gejala Anomali vs '' @ lit ''Pencegahan Mesin'')),
    (''subtitle'', PyStr (lit ''Membedah bagaimana aturan linter mengatasi '' @
        lit ''kegagalan dokumentasi manual secara '' @ lit ''terstruktur.'')),
    (''content_items'', lab17_items_08),
    (''narrative'', PyStr (lit ''Tabel ini memetakan dampak buruk anomali '' @
        lit ''dokumentasi terhadap tim dan mekanisme kode '' @
        lit ''yang mengatasinya. Pemeriksaan timbal-balik '' @
        lit ''dan pewarnaan graf 3 status memastikan '' @
        lit ''tidak ada rantai keputusan yang mengalami '' @
        lit ''benturan status atau siklus berputar.'')),
    (''narrative_en'', PyStr (lit ''This matrix contrasts symptoms of manual '' @
        lit ''documentation drift against programmatic '' @
        lit ''linter invariants. Bidirectional link '' @
        lit ''verification and three-state graph coloring '' @
        lit ''eliminate duplicate active states and '' @
        lit ''cyclical supersession loops.'')),
    (''mental_model'', PyStr (lit ''Map human documentation oversights to '' @
        lit ''strict algorithmic invariants enforceable '' @ lit ''in compilation and CI.'')),
    (''source_path'', PyStr (lit ''internal/adr/linter.go:27-100'')),
    (''slide_num'', PyStr (lit ''08 / 24'')),
    (''layout'', PyStr (lit ''table''))]\<rparr>\<close>

definition lab17_items_09 :: pyval where [lab17_contents]:
  \<open>lab17_items_09 =
   PyList
   [PyDict
     [(''type'', PyStr (lit ''cards'')),
      (''title'', PyStr (lit ''SEKUENS KEPUTUSAN ARSITEKTUR LAB'')),
      (''items'', PyList
        [PyDict
          [(''title'', PyStr (lit ''ADR 0001: Modular Monolith'')),
           (''desc'', PyStr (lit ''Dipilih saat tim 5 orang demi kecepatan '' @
               lit ''iterasi dan integritas transaksi relasional.''))],
         PyDict
          [(''title'', PyStr (lit ''ADR 0002: Extract Notification'')),
           (''desc'', PyStr (lit ''Menggantikan ADR 1 saat tim 25 orang dan '' @
               lit ''lonjakan burst traffic membebani core ERP.''))],
         PyDict
          [(''title'', PyStr (lit ''ADR 0003: Reject Event Sourcing'')),
           (''desc'', PyStr (lit ''Ditolak formal; bukan berarti anti Event '' @
               lit ''Sourcing, melainkan tabel audit SQL sudah '' @ lit ''memadai.''))]])]]\<close>

definition lab17_slide_09 :: pycall where [lab17_slides]:
  \<open>lab17_slide_09 =
   \<lparr>posargs = [],
  kwargs =
   [(''categories'', PyList
      [PyStr (lit ''DECISION SEQUENCE''),
       PyStr (lit ''SYSTEM EVOLUTION'')]),
    (''title'', PyStr (lit ''Evolusi Arsitektur SaaS ERP: Dari Monolith '' @ lit ''ke Service'')),
    (''subtitle'', PyStr (lit ''Tiga keputusan arsitektural berurutan yang '' @
        lit ''menggambarkan siklus hidup nyata sistem.'')),
    (''content_items'', lab17_items_09),
    (''narrative'', PyStr (lit ''Rangkaian keputusan memperlihatkan transisi '' @
        lit ''matang dari Modular Monolith menuju '' @
        lit ''ekstraksi microservice ketika beban '' @
        lit ''meningkat. Menolak Event Sourcing pada ADR '' @
        lit ''3 bukan berarti anti inovasi, melainkan '' @
        lit ''keputusan sadar menghindari kompleksitas '' @
        lit ''skema yang belum dibutuhkan.'')),
    (''narrative_en'', PyStr (lit ''The decision sequence reflects pragmatic '' @
        lit ''architectural evolution: adopting a Modular '' @
        lit ''Monolith initially, then extracting '' @
        lit ''notification services at scale. Rejecting '' @
        lit ''Event Sourcing does not indicate fear of '' @
        lit ''innovation; standard relational audit logs '' @
        lit ''satisfied requirements.'')),
    (''mental_model'', PyStr (lit ''Record both accepted architectural '' @
        lit ''migrations and rejected proposals to '' @ lit ''prevent unneeded complexity.'')),
    (''source_path'', PyStr (lit ''cmd/demo/main.go:10-64'')),
    (''slide_num'', PyStr (lit ''09 / 24'')),
    (''layout'', PyStr (lit ''cards''))]\<rparr>\<close>

definition lab17_items_10 :: pyval where [lab17_contents]:
  \<open>lab17_items_10 =
   PyList
   [PyDict
     [(''type'', PyStr (lit ''code'')),
      (''title'', PyStr (lit ''TERMINAL OUTPUT: go test -v -race ./... && '' @ lit ''go run ./cmd/demo'')),
      (''items'', PyList
        [PyStr (lit ''=== RUN   TestLinter_ValidSequence''),
         PyStr (lit ''--- PASS: TestLinter_ValidSequence (0.00s)''),
         PyStr (lit ''=== RUN   TestLinter_BrokenReferences (7 '' @ lit ''sub-tests)''),
         PyStr (lit ''--- PASS: TestLinter_BrokenReferences '' @ lit ''(0.00s)''),
         PyStr (lit ''=== RUN   TestLinter_ConcurrencyStress (100 '' @ lit ''records)''),
         PyStr (lit ''--- PASS: TestLinter_ConcurrencyStress '' @ lit ''(0.00s)''),
         PyStr (lit ''=== RUN   TestParse_Valid & '' @ lit ''TestParse_Invalid (9 sub-tests)''),
         PyStr (lit ''--- PASS: TestParse_Invalid (0.00s)''),
         PyStr (lit ''PASS: ok lab17/tests 1.469s (race detector: '' @ lit ''clean)''),
         PyStr (lit ''=== Architecture Decision Record (ADR) Lab '' @ lit ''===''),
         PyStr (lit ''Successfully parsed 3 ADRs | Linter: '' @ lit ''Integrity check passed!'')])]]\<close>

definition lab17_slide_10 :: pycall where [lab17_slides]:
  \<open>lab17_slide_10 =
   \<lparr>posargs = [],
  kwargs =
   [(''categories'', PyList
      [PyStr (lit ''EVIDENCE''),
       PyStr (lit ''EXECUTION'')]),
    (''title'', PyStr (lit ''Eksekusi Test Suite dan Demo cmd/demo Lolos '' @ lit ''Bersih'')),
    (''subtitle'', PyStr (lit ''Output terminal membuktikan seluruh 13 '' @
        lit ''sub-test dan eksekusi demo berjalan '' @ lit ''deterministik.'')),
    (''content_items'', lab17_items_10),
    (''narrative'', PyStr (lit ''Verifikasi terminal membuktikan seluruh '' @
        lit ''unit test parser dan linter lolos tanpa '' @
        lit ''kebocoran data race pada stress test 100 '' @
        lit ''record. Demo cmd/demo berhasil memvalidasi '' @
        lit ''silsilah evolusi SaaS ERP dari Monolith ke '' @ lit ''Microservice.'')),
    (''narrative_en'', PyStr (lit ''Terminal logs confirm the complete parser '' @
        lit ''and linter test suite passes cleanly with '' @
        lit ''zero data races across 100 concurrent '' @
        lit ''records. The demo run confirms the ERP '' @
        lit ''evolution scenario satisfies all '' @ lit ''referential invariants.'')),
    (''mental_model'', PyStr (lit ''Executable verification provides undeniable '' @
        lit ''proof of structural parsing and referential '' @ lit ''integrity.'')),
    (''source_path'', PyStr (lit ''cmd/demo/main.go:66-103'')),
    (''slide_num'', PyStr (lit ''10 / 24'')),
    (''layout'', PyStr (lit ''code''))]\<rparr>\<close>

definition lab17_items_11 :: pyval where [lab17_contents]:
  \<open>lab17_items_11 =
   PyList
   [PyDict
     [(''type'', PyStr (lit ''cards'')),
      (''title'', PyStr (lit ''BATAS PEMBUKTIAN SISTEM'')),
      (''items'', PyList
        [PyDict
          [(''title'', PyStr (lit ''YANG DIBUKTIKAN'')),
           (''desc'', PyStr (lit ''Parsing regex teks ADR, validasi nomor urut '' @
               lit ''monotonik, dan deteksi siklus silsilah.''))],
         PyDict
          [(''title'', PyStr (lit ''YANG TIDAK DIBUKTIKAN'')),
           (''desc'', PyStr (lit ''Integrasi file system riil, git hook commit '' @
               lit ''gating, dan pembuatan berkas CLI otomatis.''))],
         PyDict
          [(''title'', PyStr (lit ''BATAS KLAIM EMPIRIS'')),
           (''desc'', PyStr (lit ''Lab belum membuktikan klaim kuantitatif '' @
               lit ''reduksi waktu onboarding pada tim 100+ '' @ lit ''engineer.''))]])]]\<close>

definition lab17_slide_11 :: pycall where [lab17_slides]:
  \<open>lab17_slide_11 =
   \<lparr>posargs = [],
  kwargs =
   [(''categories'', PyList
      [PyStr (lit ''AUDIT''),
       PyStr (lit ''EVIDENCE BOUNDARY'')]),
    (''title'', PyStr (lit ''Batasan Bukti Lab: Yang Dibuktikan vs Belum'')),
    (''subtitle'', PyStr (lit ''Menegaskan batasan verifikasi in-memory '' @
        lit ''terhadap skenario skala enterprise.'')),
    (''content_items'', lab17_items_11),
    (''narrative'', PyStr (lit ''Lab ini memverifikasi kebenaran parsing '' @
        lit ''in-memory dan integritas graf timbal-balik '' @
        lit ''secara matematis. Pengujian ini belum '' @
        lit ''membuktikan integrasi git hook otomatis '' @
        lit ''maupun dampak kuantitatif terhadap '' @
        lit ''kecepatan onboarding tim berskala ratusan '' @ lit ''engineer.'')),
    (''narrative_en'', PyStr (lit ''This lab proves in-memory parsing '' @
        lit ''invariants and bidirectional graph '' @
        lit ''validation algorithms under race detection. '' @
        lit ''It does not prove automated git hook '' @
        lit ''integration or empirical velocity gains for '' @
        lit ''organizations exceeding 100 engineers.'')),
    (''mental_model'', PyStr (lit ''Strictly separate mathematically verified '' @
        lit ''data structure invariants from unproven '' @ lit ''organizational claims.'')),
    (''source_path'', PyStr (lit ''content/01-content-brief.md:33-41'')),
    (''slide_num'', PyStr (lit ''11 / 24'')),
    (''layout'', PyStr (lit ''cards''))]\<rparr>\<close>

definition lab17_items_12 :: pyval where [lab17_contents]:
  \<open>lab17_items_12 =
   PyList
   [PyDict
     [(''type'', PyStr (lit ''cards'')),
      (''title'', PyStr (lit ''KOMPROMI REKAYASA PENCATATAN ADR'')),
      (''items'', PyList
        [PyDict
          [(''title'', PyStr (lit ''Overhead Pull Request'')),
           (''desc'', PyStr (lit ''Setiap perubahan arsitektur mewajibkan '' @
               lit ''berkas ADR baru dan update status dokumen '' @ lit ''lama.''))],
         PyDict
          [(''title'', PyStr (lit ''Rigiditas Format Teks'')),
           (''desc'', PyStr (lit ''Seksi Context, Decision, dan Consequences '' @
               lit ''wajib diisi; menolak catatan singkat '' @ lit ''informal.''))],
         PyDict
          [(''title'', PyStr (lit ''Tidak Otomatis Akurat'')),
           (''desc'', PyStr (lit ''Linter hanya mengecek sintaks; tidak '' @
               lit ''otomatis menjamin bahwa keputusan teknis '' @
               lit ''yang diambil tepat.''))]])]]\<close>

definition lab17_slide_12 :: pycall where [lab17_slides]:
  \<open>lab17_slide_12 =
   \<lparr>posargs = [],
  kwargs =
   [(''categories'', PyList
      [PyStr (lit ''TRADE-OFF''),
       PyStr (lit ''COSTS & BENEFITS'')]),
    (''title'', PyStr (lit ''Trade-off Penerapan ADR dan Validasi '' @ lit ''Terotomasi'')),
    (''subtitle'', PyStr (lit ''Disiplin pencatatan menambah overhead di PR '' @
        lit ''demi kejelasan jangka panjang.'')),
    (''content_items'', lab17_items_12),
    (''narrative'', PyStr (lit ''Penerapan ADR menambah beban penyusunan PR '' @
        lit ''karena tim harus menyepakati kata-kata '' @
        lit ''keputusan dan konsekuensi. Memiliki linter '' @
        lit ''tidak otomatis menjamin keputusan '' @
        lit ''arsitektur benar; linter hanya menjaga '' @
        lit ''integritas struktural teks, bukan kualitas '' @ lit ''logika bisnis.'')),
    (''narrative_en'', PyStr (lit ''Mandating ADRs introduces review friction '' @
        lit ''by requiring formal documentation for major '' @
        lit ''technical shifts. Running an automated '' @
        lit ''linter does not automatically validate '' @
        lit ''technical wisdom; it enforces structural '' @
        lit ''integrity, not business correctness.'')),
    (''mental_model'', PyStr (lit ''ADRs trade short-term pull request '' @
        lit ''authoring overhead for long-term clarity '' @
        lit ''and preserved technical context.'')),
    (''source_path'', PyStr (lit ''content/02-master-draft.md:120-135'')),
    (''slide_num'', PyStr (lit ''12 / 24'')),
    (''layout'', PyStr (lit ''cards''))]\<rparr>\<close>

definition lab17_items_13 :: pyval where [lab17_contents]:
  \<open>lab17_items_13 =
   PyList
   [PyDict
     [(''type'', PyStr (lit ''code'')),
      (''title'', PyStr (lit ''internal/adr/linter.go'')),
      (''items'', PyList
        [PyStr (lit ''var wg sync.WaitGroup''),
         PyStr (lit ''for _, r := range records {''),
         PyStr (lit ''    wg.Add(1)''),
         PyStr (lit ''    go func(rec *Record) {''),
         PyStr (lit ''        defer wg.Done()''),
         PyStr (lit ''        // Evaluasi referensi timbal balik '' @
            lit ''rec.Supersedes & SupersededBy''),
         PyStr (lit ''        if len(localErrs) > 0 {''),
         PyStr (lit ''            mu.Lock()''),
         PyStr (lit ''            errs = append(errs, '' @ lit ''localErrs...)''),
         PyStr (lit ''            mu.Unlock()''),
         PyStr (lit ''        }''),
         PyStr (lit ''    }(r)''),
         PyStr (lit ''}''),
         PyStr (lit ''wg.Wait()'')])]]\<close>

definition lab17_slide_13 :: pycall where [lab17_slides]:
  \<open>lab17_slide_13 =
   \<lparr>posargs = [],
  kwargs =
   [(''categories'', PyList
      [PyStr (lit ''CONCURRENCY''),
       PyStr (lit ''RACE SAFETY'')]),
    (''title'', PyStr (lit ''Validasi Graf Konkuren Menggunakan '' @ lit ''Goroutines & Mutex'')),
    (''subtitle'', PyStr (lit ''Pemeriksaan referensi dieksekusi paralel '' @
        lit ''dengan agregasi galat terlindungi '' @ lit ''thread-safe.'')),
    (''content_items'', lab17_items_13),
    (''narrative'', PyStr (lit ''Validasi simpul graf dieksekusi secara '' @
        lit ''konkuren menggunakan goroutine per record '' @
        lit ''dan agregasi mutex. Simulasi ini tidak sama '' @
        lit ''dengan operasi disk I/O riil pada ribuan '' @
        lit ''berkas, namun membuktikan kebersihan dari '' @
        lit ''race condition di memori.'')),
    (''narrative_en'', PyStr (lit ''Graph edge validation runs concurrently via '' @
        lit ''goroutines with mutex-protected error '' @
        lit ''aggregation. While this in-memory '' @
        lit ''simulation is not identical to reading '' @
        lit ''thousands of physical markdown files from '' @
        lit ''disk, it passes thread-sanitizer checks '' @ lit ''cleanly.'')),
    (''mental_model'', PyStr (lit ''Validate independent graph vertices '' @
        lit ''concurrently while protecting error '' @
        lit ''collectors behind mutex locks.'')),
    (''source_path'', PyStr (lit ''internal/adr/linter.go:64-106'')),
    (''slide_num'', PyStr (lit ''13 / 24'')),
    (''layout'', PyStr (lit ''code''))]\<rparr>\<close>

definition lab17_items_14 :: pyval where [lab17_contents]:
  \<open>lab17_items_14 =
   PyList
   [PyDict
     [(''type'', PyStr (lit ''cards'')),
      (''title'', PyStr (lit ''SEBELUM (MANUAL WIKI) VS SESUDAH (AUTOMATED '' @ lit ''ADR)'')),
      (''items'', PyList
        [PyDict
          [(''title'', PyStr (lit ''Sebelum: Wiki Liar'')),
           (''desc'', PyStr (lit ''Keputusan tercecer di Slack atau '' @
               lit ''Confluence; tautan rusak dan status usang '' @
               lit ''tanpa peringatan.''))],
         PyDict
          [(''title'', PyStr (lit ''Sesudah: Git ADR + Linter'')),
           (''desc'', PyStr (lit ''ADR berdampingan dengan kode; CI '' @
               lit ''memvalidasi keutuhan nomor dan tautan '' @ lit ''silsilah.''))],
         PyDict
          [(''title'', PyStr (lit ''Bukan Berarti Kaku'')),
           (''desc'', PyStr (lit ''Format terstruktur bukan berarti birokrasi '' @
               lit ''berlebih; template minimal Nygard cukup 1 '' @ lit ''halaman.''))]])]]\<close>

definition lab17_slide_14 :: pycall where [lab17_slides]:
  \<open>lab17_slide_14 =
   \<lparr>posargs = [],
  kwargs =
   [(''categories'', PyList
      [PyStr (lit ''COMPARISON''),
       PyStr (lit ''BEFORE VS AFTER'')]),
    (''title'', PyStr (lit ''Transformasi: Dari Catatan Liar ke Graf '' @ lit ''Tervalidasi'')),
    (''subtitle'', PyStr (lit ''Pergeseran dari dokumentasi pasif yang '' @
        lit ''cepat usang menuju rekaman aktif di CI.'')),
    (''content_items'', lab17_items_14),
    (''narrative'', PyStr (lit ''Sebelum ada ADR, alasan pemilihan teknologi '' @
        lit ''tercecer di arsip chat dan dokumen wiki '' @
        lit ''yang tidak terawat. Menerapkan ADR dan '' @
        lit ''linter bukan berarti menciptakan birokrasi '' @
        lit ''kaku, melainkan mengunci kejelasan '' @
        lit ''keputusan penting dengan usaha minimal.'')),
    (''narrative_en'', PyStr (lit ''Prior to structured ADRs, technical '' @
        lit ''decisions were lost in chat threads and '' @
        lit ''decaying wiki repositories. Adopting '' @
        lit ''version-controlled ADRs with automated '' @
        lit ''linting does not impose rigid bureaucracy; '' @
        lit ''it locks architectural clarity with minimal '' @ lit ''syntax.'')),
    (''mental_model'', PyStr (lit ''Replace fragmented external documentation '' @
        lit ''with version-controlled, lint-validated '' @ lit ''decision records.'')),
    (''source_path'', PyStr (lit ''content/02-master-draft.md:13-32'')),
    (''slide_num'', PyStr (lit ''14 / 24'')),
    (''layout'', PyStr (lit ''cards''))]\<rparr>\<close>

definition lab17_items_15 :: pyval where [lab17_contents]:
  \<open>lab17_items_15 =
   PyList
   [PyDict
     [(''type'', PyStr (lit ''code'')),
      (''title'', PyStr (lit ''internal/adr/models.go'')),
      (''items'', PyList
        [PyStr (lit ''type Status string''),
         PyStr (lit ''const (''),
         PyStr (lit ''    StatusProposed   Status = "Proposed"''),
         PyStr (lit ''    StatusAccepted   Status = "Accepted"''),
         PyStr (lit ''    StatusSuperseded Status = "Superseded"''),
         PyStr (lit ''    StatusDeprecated Status = "Deprecated"''),
         PyStr (lit ''    StatusRejected   Status = "Rejected"''),
         PyStr (lit '')''),
         PyStr (lit ''func (s Status) IsValid() bool { /* switch '' @ lit ''validasi */ }'')])]]\<close>

definition lab17_slide_15 :: pycall where [lab17_slides]:
  \<open>lab17_slide_15 =
   \<lparr>posargs = [],
  kwargs =
   [(''categories'', PyList
      [PyStr (lit ''ANALYSIS''),
       PyStr (lit ''LIFECYCLE ENUM'')]),
    (''title'', PyStr (lit ''Enforcing State Machine Siklus Hidup ADR'')),
    (''subtitle'', PyStr (lit ''Mendefinisikan status resmi: Proposed, '' @
        lit ''Accepted, Superseded, Deprecated, Rejected.'')),
    (''content_items'', lab17_items_15),
    (''narrative'', PyStr (lit ''Tipe data Status mengikat status ADR hanya '' @
        lit ''pada lima kondisi siklus hidup formal. '' @
        lit ''Keputusan membatasi status ini cakupannya '' @
        lit ''mengikuti test spesifik lab, mencegah '' @
        lit ''masuknya istilah rancu seperti In-Review '' @
        lit ''atau Draft ke cabang utama.'')),
    (''narrative_en'', PyStr (lit ''The Status enum restricts records to five '' @
        lit ''unambiguous lifecycle states. Enforcing '' @
        lit ''these specific statuses directly reflects '' @
        lit ''test coverage in this lab, preventing '' @
        lit ''ambiguous labels like Draft from leaking '' @
        lit ''into production branches.'')),
    (''mental_model'', PyStr (lit ''Constrain document lifecycle states to a '' @
        lit ''closed enumerated set validated at parse '' @ lit ''time.'')),
    (''source_path'', PyStr (lit ''internal/adr/models.go:3-20'')),
    (''slide_num'', PyStr (lit ''15 / 24'')),
    (''layout'', PyStr (lit ''code''))]\<rparr>\<close>

definition lab17_items_16 :: pyval where [lab17_contents]:
  \<open>lab17_items_16 =
   PyList
   [PyDict
     [(''type'', PyStr (lit ''code'')),
      (''title'', PyStr (lit ''internal/adr/linter.go'')),
      (''items'', PyList
        [PyStr (lit ''ids := make([]int, 0, len(records))''),
         PyStr (lit ''for id := range recordMap { ids = '' @ lit ''append(ids, id) }''),
         PyStr (lit ''sort.Ints(ids)''),
         PyStr (lit ''for i := 0; i < len(ids); i++ {''),
         PyStr (lit ''    if ids[i] != i+1 {''),
         PyStr (lit ''        errs = append(errs, '' @
            lit ''fmt.Errorf("non-monotonic numbering"))''),
         PyStr (lit ''        break''),
         PyStr (lit ''    }''),
         PyStr (lit ''}'')])]]\<close>

definition lab17_slide_16 :: pycall where [lab17_slides]:
  \<open>lab17_slide_16 =
   \<lparr>posargs = [],
  kwargs =
   [(''categories'', PyList
      [PyStr (lit ''ANALYSIS''),
       PyStr (lit ''MONOTONIC CHECK'')]),
    (''title'', PyStr (lit ''Invarian Penomoran Monotonik Mencegah '' @ lit ''Berkas Hilang'')),
    (''subtitle'', PyStr (lit ''Memastikan rangkaian ID terurut sempurna '' @
        lit ''dari 1 sampai N tanpa jeda nomor.'')),
    (''content_items'', lab17_items_16),
    (''narrative'', PyStr (lit ''Linter mengumpulkan seluruh ID dan '' @
        lit ''mencocokkan nilainya tepat dengan indeks '' @
        lit ''i+1 setelah diurutkan. Urutan penomoran '' @
        lit ''yang rapi tidak otomatis menjamin tidak ada '' @
        lit ''commit yang salah rebase, tetapi mencegah '' @
        lit ''celah nomor yang membingungkan auditor.'')),
    (''narrative_en'', PyStr (lit ''The linter sorts collected IDs and asserts '' @
        lit ''each strictly matches its expected '' @
        lit ''sequential index i+1. Enforcing unbroken '' @
        lit ''sequences does not automatically prevent '' @
        lit ''Git rebase mistakes, but it reliably '' @
        lit ''exposes skipped numbers to reviewers.'')),
    (''mental_model'', PyStr (lit ''Sequential monotonic numbering verifies '' @
        lit ''that no historical decision records were '' @ lit ''deleted or omitted.'')),
    (''source_path'', PyStr (lit ''internal/adr/linter.go:27-39'')),
    (''slide_num'', PyStr (lit ''16 / 24'')),
    (''layout'', PyStr (lit ''code''))]\<rparr>\<close>

definition lab17_items_17 :: pyval where [lab17_contents]:
  \<open>lab17_items_17 =
   PyList
   [PyDict
     [(''type'', PyStr (lit ''code'')),
      (''title'', PyStr (lit ''internal/adr/linter.go'')),
      (''items'', PyList
        [PyStr (lit ''state := make(map[int]int) // 0: unvisited, '' @
            lit ''1: visiting, 2: visited''),
         PyStr (lit ''detectCycle = func(id int) {''),
         PyStr (lit ''    state[id] = 1''),
         PyStr (lit ''    if rec, ok := recordMap[id]; ok && '' @
            lit ''rec.SupersededBy != 0 {''),
         PyStr (lit ''        nextID := rec.SupersededBy''),
         PyStr (lit ''        if state[nextID] == 1 {''),
         PyStr (lit ''            errs = append(errs, '' @
            lit ''fmt.Errorf("cyclical supersession"))''),
         PyStr (lit ''        } else if state[nextID] == 0 { '' @ lit ''detectCycle(nextID) }''),
         PyStr (lit ''    }''),
         PyStr (lit ''    state[id] = 2''),
         PyStr (lit ''}'')])]]\<close>

definition lab17_slide_17 :: pycall where [lab17_slides]:
  \<open>lab17_slide_17 =
   \<lparr>posargs = [],
  kwargs =
   [(''categories'', PyList
      [PyStr (lit ''ANALYSIS''),
       PyStr (lit ''CYCLE DETECTION'')]),
    (''title'', PyStr (lit ''Deteksi Siklus Silsilah dengan Algoritma '' @ lit ''DFS 3-State'')),
    (''subtitle'', PyStr (lit ''Mencegah loop penggantian melingkar yang '' @
        lit ''merusak validitas historis arsitektur.'')),
    (''content_items'', lab17_items_17),
    (''narrative'', PyStr (lit ''Deteksi siklus memanfaatkan algoritma '' @
        lit ''pewarnaan simpul DFS tiga status: '' @
        lit ''unvisited, visiting, dan visited. Hanya '' @
        lit ''pada jalur ini deteksi rekursif mampu '' @
        lit ''menangkap skenario loop kompleks di mana '' @
        lit ''ADR 1 digantikan 2, 2 digantikan 3, dan 3 '' @ lit ''kembali menunjuk 1.'')),
    (''narrative_en'', PyStr (lit ''Cycle detection uses a depth-first search '' @
        lit ''graph traversal with three visitation '' @
        lit ''states. Only along this path can recursive '' @
        lit ''checks catch multi-hop loops where ADR 1 is '' @
        lit ''superseded by 2, 2 by 3, and 3 mistakenly '' @ lit ''points back to 1.'')),
    (''mental_model'', PyStr (lit ''Detect invalid directed cycles using '' @
        lit ''depth-first graph coloring before '' @
        lit ''supersession chains corrupt lineage.'')),
    (''source_path'', PyStr (lit ''internal/adr/linter.go:41-62'')),
    (''slide_num'', PyStr (lit ''17 / 24'')),
    (''layout'', PyStr (lit ''code''))]\<rparr>\<close>

definition lab17_items_18 :: pyval where [lab17_contents]:
  \<open>lab17_items_18 =
   PyList
   [PyDict
     [(''type'', PyStr (lit ''code'')),
      (''title'', PyStr (lit ''internal/adr/linter.go'')),
      (''items'', PyList
        [PyStr (lit ''if rec.Status == StatusSuperseded {''),
         PyStr (lit ''    replacement, exists := '' @ lit ''recordMap[rec.SupersededBy]''),
         PyStr (lit ''    if !exists { localErrs = '' @ lit ''append(localErrs, '' @
            lit ''fmt.Errorf("non-existent")) }''),
         PyStr (lit ''    else if replacement.Supersedes != '' @ lit ''rec.ID {''),
         PyStr (lit ''        localErrs = append(localErrs, '' @
            lit ''fmt.Errorf("mismatched supersession"))''),
         PyStr (lit ''    }''),
         PyStr (lit ''}''),
         PyStr (lit ''if rec.Supersedes != 0 && (old.Status != '' @
            lit ''StatusSuperseded || old.SupersededBy != '' @ lit ''rec.ID) {''),
         PyStr (lit ''    localErrs = append(localErrs, '' @
            lit ''fmt.Errorf("not marked as superseded"))''),
         PyStr (lit ''}'')])]]\<close>

definition lab17_slide_18 :: pycall where [lab17_slides]:
  \<open>lab17_slide_18 =
   \<lparr>posargs = [],
  kwargs =
   [(''categories'', PyList
      [PyStr (lit ''ANALYSIS''),
       PyStr (lit ''RECIPROCAL INTEGRITY'')]),
    (''title'', PyStr (lit ''Verifikasi Timbal-Balik: Konsistensi '' @ lit ''Hubungan Penggantian'')),
    (''subtitle'', PyStr (lit ''Memastikan ADR lama dan ADR baru saling '' @
        lit ''mengakui hubungan silsilah penggantian.'')),
    (''content_items'', lab17_items_18),
    (''narrative'', PyStr (lit ''Linter memeriksa keselarasan dua arah '' @
        lit ''antara SupersededBy dan Supersedes. Menjaga '' @
        lit ''kedua deklarasi tetap sinkron bukan berarti '' @
        lit ''menambah redudansi sia-sia, melainkan '' @
        lit ''memastikan pembaca dokumen lama maupun baru '' @
        lit ''mendapatkan visibilitas status yang utuh.'')),
    (''narrative_en'', PyStr (lit ''The linter guarantees bidirectional '' @
        lit ''agreement between SupersededBy and '' @
        lit ''Supersedes declarations. Enforcing '' @
        lit ''reciprocal metadata does not introduce '' @
        lit ''useless redundancy; it ensures readers at '' @
        lit ''either end of the transition observe '' @ lit ''consistent status.'')),
    (''mental_model'', PyStr (lit ''Reciprocal supersession verification '' @
        lit ''guarantees that obsolete and current '' @
        lit ''records remain mutually consistent.'')),
    (''source_path'', PyStr (lit ''internal/adr/linter.go:72-98'')),
    (''slide_num'', PyStr (lit ''18 / 24'')),
    (''layout'', PyStr (lit ''code''))]\<rparr>\<close>

definition lab17_items_19 :: pyval where [lab17_contents]:
  \<open>lab17_items_19 =
   PyList
   [PyDict
     [(''type'', PyStr (lit ''code'')),
      (''title'', PyStr (lit ''tests/parser_test.go'')),
      (''items'', PyList
        [PyStr (lit ''func TestParse_Invalid(t *testing.T) {''),
         PyStr (lit ''    tests := []struct { name, content, '' @ lit ''wantErr string }{''),
         PyStr (lit ''        {"missing title", "Status: '' @
            lit ''Accepted", "title not found"},''),
         PyStr (lit ''        {"invalid status", "# 1. T'' @ [92] @
            lit ''nStatus: Draft", "invalid status: Draft"},''),
         PyStr (lit ''        {"empty context", "# 1. T'' @ [92] @ lit ''nStatus: Accepted'' @
            [92] @ lit ''n## Context'' @ [92] @ lit ''n## Decision'' @ [92] @
            lit ''nB...",''),
         PyStr (lit ''         "context section missing or '' @ lit ''empty"},''),
         PyStr (lit ''    }''),
         PyStr (lit ''    for _, tt := range tests { /* assert '' @
            lit ''strings.Contains(err, wantErr) */ }''),
         PyStr (lit ''}'')])]]\<close>

definition lab17_slide_19 :: pycall where [lab17_slides]:
  \<open>lab17_slide_19 =
   \<lparr>posargs = [],
  kwargs =
   [(''categories'', PyList
      [PyStr (lit ''ANALYSIS''),
       PyStr (lit ''PARSER ROBUSTNESS'')]),
    (''title'', PyStr (lit ''Penolakan Berkas Cacat: Parser Guard Seksi '' @ lit ''Wajib'')),
    (''subtitle'', PyStr (lit ''Memvalidasi bahwa seksi Context, Decision, '' @
        lit ''dan Consequences bukan hanya header kosong.'')),
    (''content_items'', lab17_items_19),
    (''narrative'', PyStr (lit ''Pengujian unit memverifikasi bahwa parser '' @
        lit ''menolak dokumen dengan judul cacat, status '' @
        lit ''informal, atau seksi wajib tanpa konten. '' @
        lit ''Aturan validasi ketat ini cakupannya '' @
        lit ''mengikuti test suite yang menjamin setiap '' @
        lit ''ADR memiliki bobot substansi arsitektur '' @ lit ''nyata.'')),
    (''narrative_en'', PyStr (lit ''Unit tests prove the parser rejects records '' @
        lit ''containing malformed titles, unofficial '' @
        lit ''statuses, or empty required sections. This '' @
        lit ''strict validation scope directly matches '' @
        lit ''test coverage, guaranteeing every committed '' @
        lit ''ADR contains actionable rationale.'')),
    (''mental_model'', PyStr (lit ''Guard against hollow architectural '' @
        lit ''documentation by validating mandatory '' @
        lit ''content within each section.'')),
    (''source_path'', PyStr (lit ''tests/parser_test.go:104-219'')),
    (''slide_num'', PyStr (lit ''19 / 24'')),
    (''layout'', PyStr (lit ''code''))]\<rparr>\<close>

definition lab17_items_20 :: pyval where [lab17_contents]:
  \<open>lab17_items_20 =
   PyList
   [PyDict
     [(''type'', PyStr (lit ''checklist'')),
      (''title'', PyStr (lit ''KRITERIA IMPLEMENTASI ADR TERSTRUKTUR'')),
      (''items'', PyList
        [PyStr (lit ''ADR disimpan langsung di repositori Git '' @
            lit ''dalam folder docs/adr/ berdampingan dengan '' @ lit ''kode.''),
         PyStr (lit ''Penomoran berkas menggunakan format '' @
            lit ''monotonik 4 digit tanpa jeda (0001, 0002, '' @ lit ''...).''),
         PyStr (lit ''Status keputusan strictly terbatas pada: '' @
            lit ''Proposed, Accepted, Superseded, Deprecated, '' @ lit ''Rejected.''),
         PyStr (lit ''Dokumen yang telah Accepted bersifat '' @
            lit ''immutable; pembaruan arah wajib membuat '' @ lit ''berkas ADR baru.''),
         PyStr (lit ''Penggantian keputusan mendeklarasikan '' @
            lit ''tautan timbal-balik (Superseded by N dan '' @ lit ''Supersedes M).''),
         PyStr (lit ''Linter otomatis dijalankan pada pipeline CI '' @
            lit ''untuk memvalidasi nomor, status, dan '' @ lit ''integritas graf.'')])]]\<close>

definition lab17_slide_20 :: pycall where [lab17_slides]:
  \<open>lab17_slide_20 =
   \<lparr>posargs = [],
  kwargs =
   [(''categories'', PyList
      [PyStr (lit ''CHECKLIST''),
       PyStr (lit ''BEST PRACTICES'')]),
    (''title'', PyStr (lit ''Checklist Tata Kelola Architecture Decision '' @ lit ''Record'')),
    (''subtitle'', PyStr (lit ''Standar wajib sebelum menggabungkan '' @
        lit ''keputusan arsitektur baru ke repositori.'')),
    (''content_items'', lab17_items_20),
    (''narrative'', PyStr (lit ''Checklist ini merangkum disiplin '' @
        lit ''perancangan ADR: penyimpanan bersama kode, '' @
        lit ''penomoran urut tanpa bolong, status formal '' @
        lit ''terikat, sifat kekal tanpa revisi '' @
        lit ''diam-diam, tautan timbal-balik, serta '' @
        lit ''validasi otomatis pada continuous '' @ lit ''integration.'')),
    (''narrative_en'', PyStr (lit ''This checklist codifies essential ADR '' @
        lit ''governance: code co-location, gapless '' @
        lit ''monotonic IDs, closed lifecycle states, '' @
        lit ''immutable accepted records, reciprocal '' @
        lit ''supersession links, and continuous '' @
        lit ''integration linter enforcement.'')),
    (''mental_model'', PyStr (lit ''Enforce structured decision governance to '' @
        lit ''maintain an immutable, verifiable audit '' @ lit ''trail of system design.'')),
    (''source_path'', PyStr (lit ''content/02-master-draft.md:148-160'')),
    (''slide_num'', PyStr (lit ''20 / 24'')),
    (''layout'', PyStr (lit ''checklist''))]\<rparr>\<close>

definition lab17_items_21 :: pyval where [lab17_contents]:
  \<open>lab17_items_21 =
   PyList
   [PyDict
     [(''type'', PyStr (lit ''cards'')),
      (''title'', PyStr (lit ''HINDARI KESALAHAN UMUM INI'')),
      (''items'', PyList
        [PyDict
          [(''title'', PyStr (lit ''Penyuntingan Retroaktif'')),
           (''desc'', PyStr (lit ''Mengubah isi ADR lama saat arah berubah; '' @
               lit ''menghancurkan riwayat konteks historis '' @ lit ''arsitektur.''))],
         PyDict
          [(''title'', PyStr (lit ''ADR untuk Hal Sepele'')),
           (''desc'', PyStr (lit ''Mencatat refactor nama variabel atau '' @
               lit ''library helper kecil; menciptakan '' @ lit ''kebisingan dokumen.''))],
         PyDict
          [(''title'', PyStr (lit ''Bukan Berarti Bebas'')),
           (''desc'', PyStr (lit ''Menolak ADR formal bukan berarti bebas '' @
               lit ''bergerak; tim hanya menunda biaya debat di '' @ lit ''masa depan.''))]])]]\<close>

definition lab17_slide_21 :: pycall where [lab17_slides]:
  \<open>lab17_slide_21 =
   \<lparr>posargs = [],
  kwargs =
   [(''categories'', PyList
      [PyStr (lit ''ANTI-PATTERN''),
       PyStr (lit ''PITFALLS'')]),
    (''title'', PyStr (lit ''Anti-Pattern Umum dalam Dokumentasi '' @ lit ''Arsitektur'')),
    (''subtitle'', PyStr (lit ''Kekeliruan perancangan yang sering merusak '' @
        lit ''reliabilitas rekaman keputusan tim.'')),
    (''content_items'', lab17_items_21),
    (''narrative'', PyStr (lit ''Mengedit ADR lama yang sudah disetujui '' @
        lit ''menghapus jejak sejarah dan memicu '' @
        lit ''kebingungan mengapa keputusan itu dibuat '' @
        lit ''awalnya. Menolak menulis ADR bukan berarti '' @
        lit ''tim lebih gesit; hal itu hanya menunda '' @
        lit ''biaya debat berkepanjangan ketika arsitek '' @ lit ''berganti.'')),
    (''narrative_en'', PyStr (lit ''Retroactively editing accepted ADRs erases '' @
        lit ''historical reasoning and invites confusion '' @
        lit ''regarding past trade-offs. Bypassing formal '' @
        lit ''ADRs does not accelerate delivery; it '' @
        lit ''merely compounds cognitive debt for future '' @ lit ''engineering teams.'')),
    (''mental_model'', PyStr (lit ''Never edit historical decisions; append new '' @
        lit ''records and update status links to reflect '' @ lit ''system evolution.'')),
    (''source_path'', PyStr (lit ''content/02-master-draft.md:136-147'')),
    (''slide_num'', PyStr (lit ''21 / 24'')),
    (''layout'', PyStr (lit ''cards''))]\<rparr>\<close>

definition lab17_items_22 :: pyval where [lab17_contents]:
  \<open>lab17_items_22 =
   PyList
   [PyDict
     [(''type'', PyStr (lit ''code'')),
      (''title'', PyStr (lit ''COMMAND RUNNER (ZERO DEPENDENCIES)'')),
      (''items'', PyList
        [PyStr (lit ''cd labs/17-architecture-decision-record''),
         PyStr (lit ''go test -v ./...    # validasi parser regex '' @
            lit ''dan aturan linter struktural''),
         PyStr (lit ''go test -race ./... # verifikasi validasi '' @
            lit ''graf konkuren bebas data race''),
         PyStr (lit ''go run ./cmd/demo   # eksekusi demo parsing '' @
            lit ''3 ADR evolusi SaaS ERP'')])]]\<close>

definition lab17_slide_22 :: pycall where [lab17_slides]:
  \<open>lab17_slide_22 =
   \<lparr>posargs = [],
  kwargs =
   [(''categories'', PyList
      [PyStr (lit ''REPRODUCTION''),
       PyStr (lit ''COMMANDS'')]),
    (''title'', PyStr (lit ''Reproduksi Mandiri di Mesin Lokal '' @ lit ''Menggunakan Go'')),
    (''subtitle'', PyStr (lit ''Verifikasi mandiri parser dan linter ADR '' @
        lit ''tanpa ketergantungan library eksternal.'')),
    (''content_items'', lab17_items_22),
    (''narrative'', PyStr (lit ''Seluruh mekanisme validasi ditulis '' @
        lit ''menggunakan Go standard library tanpa modul '' @
        lit ''eksternal. Eksperimen lokal ini memvalidasi '' @
        lit ''integritas data di memori, namun production '' @
        lit ''masih perlu menambahkan skrip CLI berkas '' @
        lit ''dan integrasi hook commit.'')),
    (''narrative_en'', PyStr (lit ''The verification suite operates purely on '' @
        lit ''the Go standard library with zero external '' @
        lit ''modules. While this confirms in-memory '' @
        lit ''algorithmic correctness, production systems '' @
        lit ''still require file-crawling CLI tooling and '' @ lit ''Git pre-commit hooks.'')),
    (''mental_model'', PyStr (lit ''Zero-dependency algorithmic verification '' @
        lit ''guarantees fast, reliable validation in '' @ lit ''local and CI workflows.'')),
    (''source_path'', PyStr (lit ''README.md:14-34'')),
    (''slide_num'', PyStr (lit ''22 / 24'')),
    (''layout'', PyStr (lit ''code''))]\<rparr>\<close>

definition lab17_items_23 :: pyval where [lab17_contents]:
  \<open>lab17_items_23 =
   PyList
   [PyDict
     [(''type'', PyStr (lit ''cards'')),
      (''title'', PyStr (lit ''TIGA PILAR KELANGSUNGAN ARSITEKTUR'')),
      (''items'', PyList
        [PyDict
          [(''title'', PyStr (lit ''Ko-lokasi dengan Kode'')),
           (''desc'', PyStr (lit ''Simpan rekam jejak keputusan di cabang Git '' @
               lit ''yang sama agar selalu berevolusi bersama '' @ lit ''fitur.''))],
         PyDict
          [(''title'', PyStr (lit ''Kekekalan Silsilah'')),
           (''desc'', PyStr (lit ''Perlakukan riwayat arsitektur sebagai '' @
               lit ''append-only log; ubah arah hanya melalui '' @
               lit ''dokumen pengganti.''))],
         PyDict
          [(''title'', PyStr (lit ''Verifikasi Otomatis'')),
           (''desc'', PyStr (lit ''Dokumentasi tanpa tes tidak otomatis '' @
               lit ''dipercaya; uji keutuhan graf keputusan di '' @ lit ''pipeline CI.''))]])]]\<close>

definition lab17_slide_23 :: pycall where [lab17_slides]:
  \<open>lab17_slide_23 =
   \<lparr>posargs = [],
  kwargs =
   [(''categories'', PyList
      [PyStr (lit ''TAKEAWAY''),
       PyStr (lit ''ARCHITECTURAL PRINCIPLES'')]),
    (''title'', PyStr (lit ''Prinsip Inti: Keputusan Adalah Kode yang '' @ lit ''Harus Diuji'')),
    (''subtitle'', PyStr (lit ''Arsitektur bertahan lama ketika konteks, '' @
        lit ''batasan, dan konsekuensi dirawat layaknya '' @ lit ''software.'')),
    (''content_items'', lab17_items_23),
    (''narrative'', PyStr (lit ''Dokumentasi keputusan arsitektur harus '' @
        lit ''diperlakukan sama dengan kode sumber '' @
        lit ''aplikasi. Menyimpan dokumen tanpa mekanisme '' @
        lit ''pengujian otomatis tidak otomatis '' @
        lit ''membuatnya berguna; keandalan dokumentasi '' @
        lit ''hadir ketika strukturnya divalidasi oleh '' @ lit ''compiler dan CI.'')),
    (''narrative_en'', PyStr (lit ''Architectural decisions must be governed '' @
        lit ''with the same engineering rigor applied to '' @
        lit ''source code. Storing markdown files without '' @
        lit ''automated testing does not automatically '' @
        lit ''guarantee truth; reliability emerges when '' @
        lit ''structure is enforced via CI pipelines.'')),
    (''mental_model'', PyStr (lit ''Treat architectural records as an '' @
        lit ''append-only, machine-verified ledger of '' @ lit ''technical compromises.'')),
    (''source_path'', PyStr (lit ''content/05-key-takeaways.md'')),
    (''slide_num'', PyStr (lit ''23 / 24'')),
    (''layout'', PyStr (lit ''cards''))]\<rparr>\<close>

definition lab17_items_24 :: pyval where [lab17_contents]:
  \<open>lab17_items_24 =
   PyList
   [PyDict
     [(''type'', PyStr (lit ''bullet'')),
      (''title'', PyStr (lit ''MODUL IMPLEMENTASI'')),
      (''items'', PyList
        [PyStr (lit ''internal/adr/models.go '' @ [0x2022] @ lit '' internal/adr/parser.go '' @
            [0x2022] @ lit '' internal/adr/linter.go''),
         PyStr (lit ''cmd/demo/main.go '' @ [0x2022] @ lit '' tests/parser_test.go '' @
            [0x2022] @ lit '' tests/linter_test.go''),
         PyStr (lit ''engineering/01-design.md '' @ [0x2022] @
            lit '' content/02-master-draft.md'')])],
    PyDict
     [(''type'', PyStr (lit ''bullet'')),
      (''title'', PyStr (lit ''VERIFIKASI & STATUS'')),
      (''items'', PyList
        [PyStr (lit ''Commit: '' @ str_prefix 7 lab17_COMMIT_SHA @ lit '' '' @ [0x2022] @
            lit '' Status: APPROVED''),
         PyStr (lit ''Test passing: 13 test scenarios (monotonic '' @
            lit ''sequence, reciprocal links, DFS cycle '' @ lit ''detection)''),
         PyStr (lit ''Race detector: Clean (go test -race ./... '' @ lit ''PASS in 1.47s)''),
         PyStr (lit ''Zero external dependencies: 100% Go '' @ lit ''standard library.'')])]]\<close>

definition lab17_slide_24 :: pycall where [lab17_slides]:
  \<open>lab17_slide_24 =
   \<lparr>posargs = [],
  kwargs =
   [(''categories'', PyList
      [PyStr (lit ''CLOSING'')]),
    (''title'', PyStr (lit ''Dokumentasi arsitektur yang tidak diuji '' @
        lit ''mesin adalah dokumen yang perlahan berubah '' @ lit ''menjadi kebohongan.'')),
    (''subtitle'', PyStr []),
    (''content_items'', lab17_items_24),
    (''mental_model'', PyStr (lit ''Architectural documentation unverified by '' @
        lit ''machines gradually drifts into fiction.'')),
    (''source_path'', PyStr lab17_REPO_URL),
    (''slide_num'', PyStr (lit ''24 / 24'')),
    (''layout'', PyStr (lit ''closing''))]\<rparr>\<close>

definition lab17_calls :: "pycall list" where
  "lab17_calls =
    [lab17_slide_01, lab17_slide_02, lab17_slide_03, lab17_slide_04, lab17_slide_05,
     lab17_slide_06, lab17_slide_07, lab17_slide_08, lab17_slide_09, lab17_slide_10,
     lab17_slide_11, lab17_slide_12, lab17_slide_13, lab17_slide_14, lab17_slide_15,
     lab17_slide_16, lab17_slide_17, lab17_slide_18, lab17_slide_19, lab17_slide_20,
     lab17_slide_21, lab17_slide_22, lab17_slide_23, lab17_slide_24]"

definition lab17_deck :: deck where
  "lab17_deck =
    \<lparr>add_slide = lab17_add_slide, lab_no = lab17_LAB_NO, title_id = lab17_TITLE_ID, calls = lab17_calls\<rparr>"

section \<open>Checks of the calls\<close>

lemma lab17_shapes:
  "\<forall>c \<in> set lab17_calls. shape_of c \<in> set
    [(0, [''categories'', ''title'', ''subtitle'', ''content_items'', ''mental_model'',
      ''source_path'', ''slide_num'', ''layout'']),
     (0, [''categories'', ''title'', ''subtitle'', ''content_items'', ''narrative'',
      ''narrative_en'', ''mental_model'', ''source_path'', ''slide_num'', ''layout''])]"
  by (simp only: lab17_calls_def lab17_slides shape_eval cong: pyval_opaque)

lemma lab17_calls_ok: "\<forall>c \<in> set lab17_calls. call_ok sig_layout c"
  by (rule calls_ok_by_shapes [OF lab17_shapes])
    (simp add: shape_ok_def param_names_def signature_defs core_params_def)

lemma lab17_labels: "map (\<lambda>c. value_of sig_layout c ''slide_num'') lab17_calls = labels_24"
  by (simp only: lab17_calls_def lab17_slides keyword_eval labels_24_eval cong: pyval_opaque)

lemma lab17_contents_of:
  "map (\<lambda>c. value_of sig_layout c ''content_items'') lab17_calls =
    [lab17_items_01, lab17_items_02, lab17_items_03, lab17_items_04, lab17_items_05,
     lab17_items_06, lab17_items_07, lab17_items_08, lab17_items_09, lab17_items_10,
     lab17_items_11, lab17_items_12, lab17_items_13, lab17_items_14, lab17_items_15,
     lab17_items_16, lab17_items_17, lab17_items_18, lab17_items_19, lab17_items_20,
     lab17_items_21, lab17_items_22, lab17_items_23, lab17_items_24]"
  by (simp only: lab17_calls_def lab17_slides keyword_eval cong: pyval_opaque)

lemma lab17_items: "item_defects sig_layout lab17_calls = []"
  by (simp only: item_defects_def lab17_contents_of)
    (simp add: lab17_contents item_eval cong: pystr_opaque)

end
