(* ===== verification/Deck18.thy ===== *)
theory Deck18
  imports DeckContract
begin

text \<open>
  The publication definition of lab 18, \<^verbatim>\<open>labs/18-deadlock/result/content_def.py\<close>:
  its module constants, every \<open>add_slide\<close> call in order (\<open>lab18_slide_01\<close> is the first),
  and the module as a whole (\<open>lab18_deck\<close>). Long strings are split into pieces that are
  concatenated; a character outside ASCII is its code point.
\<close>

named_theorems lab18_slides \<open>the add_slide calls of lab 18\<close>
named_theorems lab18_contents \<open>their content_items arguments\<close>

definition lab18_OUTPUT_DIR :: pystr where
  \<open>lab18_OUTPUT_DIR = lit ''labs/18-deadlock/result''\<close>

definition lab18_CHROME_BIN :: pystr where
  \<open>lab18_CHROME_BIN = lit ''/Applications/Google '' @ lit ''Chrome.app/Contents/MacOS/Google Chrome''\<close>

definition lab18_REPO_URL :: pystr where
  \<open>lab18_REPO_URL = lit ''https://github.com/lukman-ss/software-engine'' @
    lit ''ering-lab/tree/main/labs/18-deadlock''\<close>

definition lab18_COMMIT_SHA :: pystr where
  \<open>lab18_COMMIT_SHA = lit ''e76d13f''\<close>

definition lab18_LAB_NO :: pystr where
  \<open>lab18_LAB_NO = lit ''18''\<close>

definition lab18_SLUG :: pystr where
  \<open>lab18_SLUG = lit ''deadlock''\<close>

definition lab18_TITLE_ID :: pystr where
  \<open>lab18_TITLE_ID = lit ''Deadlock di Sistem Konkuren''\<close>

definition lab18_SUBTITLE_ID :: pystr where
  \<open>lab18_SUBTITLE_ID = lit ''Mekanisme Siklus Tunggu, Penanganan '' @
    lit ''Database, dan Strategi Aplikasi di Go''\<close>

definition lab18_TITLE_EN :: pystr where
  \<open>lab18_TITLE_EN = lit ''Deadlock in Concurrent Systems''\<close>

definition lab18_SUBTITLE_EN :: pystr where
  \<open>lab18_SUBTITLE_EN = lit ''Circular Wait Mechanics, Database Engine '' @
    lit ''Aborts, and Application Strategies in Go''\<close>

definition lab18_AUTHOR :: pystr where
  \<open>lab18_AUTHOR = lit ''Lukman / lukman-ss''\<close>

definition lab18_TOPIC_TAGS :: pystr where
  \<open>lab18_TOPIC_TAGS = lit ''Deadlock '' @ [0x2022] @ lit '' Concurrency '' @ [0x2022] @
    lit '' Database Locks '' @ [0x2022] @ lit '' Lock Ordering '' @ [0x2022] @
    lit '' Retry Pattern '' @ [0x2022] @ lit '' Go''\<close>

definition lab18_COVER_IMAGE_PATH :: pystr where
  \<open>lab18_COVER_IMAGE_PATH = lit ''labs/18-deadlock/result/image-cover/cover_ar'' @ lit ''t.jpg''\<close>

definition lab18_add_slide :: "pycall \<Rightarrow> pyval list \<Rightarrow> (pyexc, pyval list) res" where
  "lab18_add_slide = add_slide_layout"

definition lab18_items_01 :: pyval where [lab18_contents]:
  \<open>lab18_items_01 =
   PyList
   [PyDict
     [(''type'', PyStr (lit ''cover'')),
      (''title'', PyStr []),
      (''items'', PyList
        [PyStr (lit ''Retro Terminal Visualizing Wait-For Graph, '' @
            lit ''Lock Ordering & Abort Mechanics''),
         PyStr (lit ''Simulasi Konkurensi Mutasi Saldo Bank '' @
            lit ''dengan Goroutines dan Context Timeout di Go''),
         PyStr (lit ''Penulis: '' @ lab18_AUTHOR)])]]\<close>

definition lab18_slide_01 :: pycall where [lab18_slides]:
  \<open>lab18_slide_01 =
   \<lparr>posargs = [],
  kwargs =
   [(''categories'', PyList
      [PyStr (lit ''COVER'')]),
    (''title'', PyStr lab18_TITLE_ID),
    (''subtitle'', PyStr lab18_SUBTITLE_ID),
    (''content_items'', lab18_items_01),
    (''mental_model'', PyStr (lit ''Deadlock is an inescapable circular wait '' @
        lit ''resolved only by external engine aborts or '' @ lit ''strict lock ordering.'')),
    (''source_path'', PyStr []),
    (''slide_num'', PyStr (lit ''01 / 24'')),
    (''layout'', PyStr (lit ''cover''))]\<rparr>\<close>

definition lab18_items_02 :: pyval where [lab18_contents]:
  \<open>lab18_items_02 =
   PyList
   [PyDict
     [(''type'', PyStr (lit ''cards'')),
      (''title'', PyStr (lit ''DAMPAK DEADLOCK PADA SISTEM TRANSAKSIONAL'')),
      (''items'', PyList
        [PyDict
          [(''title'', PyStr (lit ''Peningkatan Latensi'')),
           (''desc'', PyStr (lit ''Transaksi tertahan tanpa batas waktu hingga '' @
               lit ''mekanisme deteksi siklus basis data terpicu.''))],
         PyDict
          [(''title'', PyStr (lit ''Gugurnya Transaksi'')),
           (''desc'', PyStr (lit ''Database membatalkan satu transaksi '' @
               lit ''sepihak; klien menerima galat pembatalan '' @ lit ''mendadak.''))],
         PyDict
          [(''title'', PyStr (lit ''Bukan Berarti Rusak'')),
           (''desc'', PyStr (lit ''Deadlock bukan berarti basis data rusak, '' @
               lit ''melainkan akibat pola urutan akuisisi lock '' @
               lit ''aplikasi yang acak.''))]])]]\<close>

definition lab18_slide_02 :: pycall where [lab18_slides]:
  \<open>lab18_slide_02 =
   \<lparr>posargs = [],
  kwargs =
   [(''categories'', PyList
      [PyStr (lit ''PROBLEM''),
       PyStr (lit ''CONCURRENCY FAILURE'')]),
    (''title'', PyStr (lit ''Lonjakan Transaksi Konkuren Memicu '' @ lit ''Kemacetan Sistemik'')),
    (''subtitle'', PyStr (lit ''Ketika dua proses mengunci data yang sama '' @
        lit ''dengan urutan berlawanan, sistem terhenti '' @ lit ''total.'')),
    (''content_items'', lab18_items_02),
    (''narrative'', PyStr (lit ''Ketika volume transaksi tinggi mengakses '' @
        lit ''baris data secara bersamaan, urutan akses '' @
        lit ''yang tidak teratur memicu kebuntuan fatal. '' @
        lit ''Munculnya galat pembatalan transaksi bukan '' @
        lit ''berarti database mengalami kerusakan '' @
        lit ''internal, melainkan sinyal bahwa lapisan '' @
        lit ''aplikasi membiarkan pola penguncian saling '' @ lit ''silang.'')),
    (''narrative_en'', PyStr (lit ''When high-volume transactions access shared '' @
        lit ''data concurrently, uncoordinated access '' @
        lit ''sequences cause systemic freezes. '' @
        lit ''Encountering aborted transaction errors '' @
        lit ''does not imply database malfunction; it '' @
        lit ''indicates that the application layer '' @
        lit ''permitted conflicting lock acquisition '' @ lit ''patterns.'')),
    (''mental_model'', PyStr (lit ''Uncoordinated concurrent resource locks '' @
        lit ''inevitably produce circular dependencies '' @ lit ''under sustained traffic.'')),
    (''source_path'', PyStr (lit ''content/02-master-draft.md:3-16'')),
    (''slide_num'', PyStr (lit ''02 / 24'')),
    (''layout'', PyStr (lit ''cards''))]\<rparr>\<close>

definition lab18_items_03 :: pyval where [lab18_contents]:
  \<open>lab18_items_03 =
   PyList
   [PyDict
     [(''type'', PyStr (lit ''cards'')),
      (''title'', PyStr (lit ''KELEMAHAN PENDEKATAN NAIF PENGUJIAN'')),
      (''items'', PyList
        [PyDict
          [(''title'', PyStr (lit ''Interleaving Gaib'')),
           (''desc'', PyStr (lit ''Jadwal eksekusi thread bergantung pada '' @
               lit ''thread scheduler runtime dan OS, sulit '' @ lit ''direproduksi lokal.''))],
         PyDict
          [(''title'', PyStr (lit ''Unit Test Tunggal Lolos'')),
           (''desc'', PyStr (lit ''Pengujian fungsional sekuensial selalu '' @
               lit ''berhasil karena kompetisi sumber daya tidak '' @
               lit ''pernah terpicu.''))],
         PyDict
          [(''title'', PyStr (lit ''Tidak Otomatis Aman'')),
           (''desc'', PyStr (lit ''Membungkus transaksi dengan blok ACID tidak '' @
               lit ''otomatis aman dari kebuntuan bila urutan '' @ lit ''query berbeda.''))]])]]\<close>

definition lab18_slide_03 :: pycall where [lab18_slides]:
  \<open>lab18_slide_03 =
   \<lparr>posargs = [],
  kwargs =
   [(''categories'', PyList
      [PyStr (lit ''WHY FAILS''),
       PyStr (lit ''CONCURRENCY ANOMALY'')]),
    (''title'', PyStr (lit ''Review Kode Manual Gagal Menangkap Siklus '' @ lit ''Tunggu Konkuren'')),
    (''subtitle'', PyStr (lit ''Mengandalkan insting tanpa standarisasi '' @
        lit ''urutan lock membiarkan celah deadlock lolos '' @ lit ''ke produksi.'')),
    (''content_items'', lab18_items_03),
    (''narrative'', PyStr (lit ''Review manual dan unit test sekuensial '' @
        lit ''tidak mampu mereproduksi deadlock karena '' @
        lit ''eksekusi konkuren bergantung pada timing '' @
        lit ''scheduler CPU. Menjalankan query di dalam '' @
        lit ''transaksi ACID tidak otomatis melindungi '' @
        lit ''sistem dari deadlock jika dua alur bisnis '' @
        lit ''mengunci entitas dalam urutan berlawanan.'')),
    (''narrative_en'', PyStr (lit ''Manual inspection and single-threaded unit '' @
        lit ''tests fail to expose deadlocks because '' @
        lit ''concurrency depends on operating system '' @
        lit ''thread interleaving. Encapsulating queries '' @
        lit ''within ACID transactions does not '' @
        lit ''automatically guarantee deadlock safety if '' @
        lit ''separate endpoints query tables in opposing '' @ lit ''orders.'')),
    (''mental_model'', PyStr (lit ''Sequential testing cannot reveal '' @
        lit ''non-deterministic timing windows in '' @
        lit ''concurrent resource acquisition.'')),
    (''source_path'', PyStr (lit ''content/02-master-draft.md:17-33'')),
    (''slide_num'', PyStr (lit ''03 / 24'')),
    (''layout'', PyStr (lit ''cards''))]\<rparr>\<close>

definition lab18_items_04 :: pyval where [lab18_contents]:
  \<open>lab18_items_04 =
   PyList
   [PyDict
     [(''type'', PyStr (lit ''schema'')),
      (''title'', PyStr (lit ''EMPAT TAHAP TERBENTUKNYA CIRCULAR WAIT'')),
      (''items'', PyList
        [PyDict
          [(''phase'', PyStr (lit ''1. Mutual Exclusion'')),
           (''role'', PyStr (lit ''Row Exclusive'')),
           (''desc'', PyStr (lit ''Satu entitas data akun hanya dapat dikunci '' @
               lit ''dan dimutasi oleh satu transaksi pada satu '' @ lit ''waktu.''))],
         PyDict
          [(''phase'', PyStr (lit ''2. Hold and Wait'')),
           (''role'', PyStr (lit ''Lock Retained'')),
           (''desc'', PyStr (lit ''Transaksi 1 memegang Lock Akun A sambil '' @
               lit ''menunggu pelepasan Lock Akun B dari pihak '' @ lit ''lain.''))],
         PyDict
          [(''phase'', PyStr (lit ''3. No Preemption'')),
           (''role'', PyStr (lit ''Voluntary Release'')),
           (''desc'', PyStr (lit ''Kunci data tidak dapat direbut paksa; hanya '' @
               lit ''dilepas ketika commit atau rollback terjadi.''))],
         PyDict
          [(''phase'', PyStr (lit ''4. Circular Wait'')),
           (''role'', PyStr (lit ''Deadly Embrace'')),
           (''desc'', PyStr (lit ''Hanya pada jalur ini transaksi saling '' @
               lit ''mengunci dan terhenti permanen tanpa '' @ lit ''intervensi luar.''))]])]]\<close>

definition lab18_slide_04 :: pycall where [lab18_slides]:
  \<open>lab18_slide_04 =
   \<lparr>posargs = [],
  kwargs =
   [(''categories'', PyList
      [PyStr (lit ''MENTAL MODEL''),
       PyStr (lit ''CIRCULAR WAIT'')]),
    (''title'', PyStr (lit ''Anatomi Siklus Tunggu: Deadly Embrace Dua '' @ lit ''Transaksi'')),
    (''subtitle'', PyStr (lit ''Empat syarat Coffman terpenuhi secara '' @
        lit ''simultan hingga membentuk dependensi '' @ lit ''melingkar.'')),
    (''content_items'', lab18_items_04),
    (''narrative'', PyStr (lit ''Deadlock terjadi ketika empat syarat '' @
        lit ''Coffman hadir bersamaan: eksklusivitas, '' @
        lit ''menahan lock lama, tanpa perebutan paksa, '' @
        lit ''dan siklus tunggu melingkar. Hanya pada '' @
        lit ''jalur ini kondisi saling sandera terkunci '' @
        lit ''permanen, menuntut adanya intervensi '' @
        lit ''eksternal seperti pembatalan paksa oleh '' @ lit ''database engine.'')),
    (''narrative_en'', PyStr (lit ''Deadlocks manifest when all four Coffman '' @
        lit ''conditions align: mutual exclusion, '' @
        lit ''hold-and-wait, no preemption, and circular '' @
        lit ''wait. Only along this path does an '' @
        lit ''unbreakable mutual lock freeze execution '' @
        lit ''permanently, necessitating external abort '' @
        lit ''intervention by the engine.'')),
    (''mental_model'', PyStr (lit ''A closed circular dependency graph locks '' @
        lit ''all participants until an external entity '' @ lit ''terminates one node.'')),
    (''source_path'', PyStr (lit ''content/02-master-draft.md:17-42'')),
    (''slide_num'', PyStr (lit ''04 / 24'')),
    (''layout'', PyStr (lit ''schema''))]\<rparr>\<close>

definition lab18_items_05 :: pyval where [lab18_contents]:
  \<open>lab18_items_05 =
   PyList
   [PyDict
     [(''type'', PyStr (lit ''schema'')),
      (''title'', PyStr (lit ''TAHAPAN PENANGANAN DEADLOCK INTERNAL '' @ lit ''DATABASE'')),
      (''items'', PyList
        [PyDict
          [(''phase'', PyStr (lit ''1. Lock Contention'')),
           (''role'', PyStr (lit ''Wait Queue'')),
           (''desc'', PyStr (lit ''Transaksi meminta lock pada baris data '' @
               lit ''sibuk dan dimasukkan ke dalam antrean '' @ lit ''tunggu.''))],
         PyDict
          [(''phase'', PyStr (lit ''2. Timeout Trigger'')),
           (''role'', PyStr (lit ''deadlock_timeout'')),
           (''desc'', PyStr (lit ''Setelah ambang waktu terlewati (default PG '' @
               lit ''1s), thread monitor pengecekan siklus '' @ lit ''dijalankan.''))],
         PyDict
          [(''phase'', PyStr (lit ''3. Cycle Detection'')),
           (''role'', PyStr (lit ''Wait-For Graph'')),
           (''desc'', PyStr (lit ''Algoritma DFS memeriksa graf dependensi '' @
               lit ''transaksi untuk menemukan siklus tertutup.''))],
         PyDict
          [(''phase'', PyStr (lit ''4. Victim Selection'')),
           (''role'', PyStr (lit ''Engine Abort'')),
           (''desc'', PyStr (lit ''Mesin membatalkan transaksi korban; belum '' @
               lit ''membuktikan algoritma cost-based di luar '' @ lit ''lab.''))]])]]\<close>

definition lab18_slide_05 :: pycall where [lab18_slides]:
  \<open>lab18_slide_05 =
   \<lparr>posargs = [],
  kwargs =
   [(''categories'', PyList
      [PyStr (lit ''PIPELINE''),
       PyStr (lit ''DETECTION FLOW'')]),
    (''title'', PyStr (lit ''Alur Deteksi Mesin Basis Data: Dari '' @ lit ''Wait-For Graph ke Abort'')),
    (''subtitle'', PyStr (lit ''Bagaimana database engine mendeteksi siklus '' @
        lit ''dan memilih satu transaksi sebagai korban.'')),
    (''content_items'', lab18_items_05),
    (''narrative'', PyStr (lit ''Basis data tidak memeriksa deadlock secara '' @
        lit ''terus-menerus demi menghemat CPU, melainkan '' @
        lit ''menunggu jeda timeout tertentu sebelum '' @
        lit ''menelusuri Wait-For Graph. Simulasi lab '' @
        lit ''membatalkan transaksi via context timeout, '' @
        lit ''tetapi belum membuktikan algoritma '' @
        lit ''pemilihan korban berbasis biaya modifikasi '' @
        lit ''terkecil seperti MySQL InnoDB.'')),
    (''narrative_en'', PyStr (lit ''Database engines postpone cycle checks to '' @
        lit ''conserve CPU overhead, inspecting the '' @
        lit ''Wait-For Graph only after a timeout '' @
        lit ''elapses. While our lab models this via '' @
        lit ''context timeouts, it has not yet proven '' @
        lit ''production cost-based victim selection '' @
        lit ''heuristics like MySQL InnoDB.'')),
    (''mental_model'', PyStr (lit ''Periodic background graph analysis '' @
        lit ''identifies cyclic dependencies and evicts '' @
        lit ''minimal-cost victim transactions.'')),
    (''source_path'', PyStr (lit ''content/02-master-draft.md:53-70'')),
    (''slide_num'', PyStr (lit ''05 / 24'')),
    (''layout'', PyStr (lit ''schema''))]\<rparr>\<close>

definition lab18_items_06 :: pyval where [lab18_contents]:
  \<open>lab18_items_06 =
   PyList
   [PyDict
     [(''type'', PyStr (lit ''code'')),
      (''title'', PyStr (lit ''internal/transfer/transfer.go'')),
      (''items'', PyList
        [PyStr (lit ''func TransferNaive(ctx context.Context, '' @
            lit ''from, to *bank.Account, amount int, delay '' @
            lit ''time.Duration) error {''),
         PyStr (lit ''    if err := from.Lock(ctx); err != nil { '' @ lit ''return err }''),
         PyStr (lit ''    defer from.Unlock()''),
         PyStr (lit ''    time.Sleep(delay) // simulasi durasi '' @ lit ''transaksi internal''),
         PyStr (lit ''    if err := to.Lock(ctx); err != nil { '' @ lit ''return err }''),
         PyStr (lit ''    defer to.Unlock()''),
         PyStr (lit ''    from.Balance -= amount''),
         PyStr (lit ''    to.Balance += amount''),
         PyStr (lit ''    return nil''),
         PyStr (lit ''}'')])]]\<close>

definition lab18_slide_06 :: pycall where [lab18_slides]:
  \<open>lab18_slide_06 =
   \<lparr>posargs = [],
  kwargs =
   [(''categories'', PyList
      [PyStr (lit ''IMPLEMENTATION''),
       PyStr (lit ''DEADLOCK SIMULATION'')]),
    (''title'', PyStr (lit ''Pola Penguncian Naif yang Menimbulkan '' @ lit ''Deadlock'')),
    (''subtitle'', PyStr (lit ''Mengakuisisi lock sesuai urutan input '' @
        lit ''membiarkan arah transaksi saling '' @ lit ''bertubrukan.'')),
    (''content_items'', lab18_items_06),
    (''narrative'', PyStr (lit ''Fungsi TransferNaive mengunci akun pengirim '' @
        lit ''lalu akun penerima sesuai urutan parameter '' @
        lit ''pemanggilan. Menambahkan jeda waktu '' @
        lit ''eksekusi bukan berarti memperlambat kode '' @
        lit ''secara sengaja, melainkan memodelkan '' @
        lit ''latensi query nyata yang membuka celah '' @
        lit ''tabrakan bagi transaksi berlawanan arah.'')),
    (''narrative_en'', PyStr (lit ''TransferNaive acquires locks sequentially '' @
        lit ''based purely on function argument order. '' @
        lit ''Injecting artificial processing delay does '' @
        lit ''not mean introducing arbitrary bloat; it '' @
        lit ''accurately simulates query execution '' @
        lit ''latency that opens the concurrency '' @ lit ''collision window.'')),
    (''mental_model'', PyStr (lit ''Binding lock acquisition order directly to '' @
        lit ''call arguments creates bidirectional lock '' @ lit ''acquisition hazards.'')),
    (''source_path'', PyStr (lit ''internal/transfer/transfer.go:9-26'')),
    (''slide_num'', PyStr (lit ''06 / 24'')),
    (''layout'', PyStr (lit ''code''))]\<rparr>\<close>

definition lab18_items_07 :: pyval where [lab18_contents]:
  \<open>lab18_items_07 =
   PyList
   [PyDict
     [(''type'', PyStr (lit ''cards'')),
      (''title'', PyStr (lit ''FASE KEGAGALAN TRANSAKSI SILANG'')),
      (''items'', PyList
        [PyDict
          [(''title'', PyStr (lit ''Langkah 1: Akuisisi Parsial'')),
           (''desc'', PyStr (lit ''Goroutine 1 berhasil mengunci Akun A; '' @
               lit ''Goroutine 2 bersamaan mengunci Akun B.''))],
         PyDict
          [(''title'', PyStr (lit ''Langkah 2: Saling Menunggu'')),
           (''desc'', PyStr (lit ''Goroutine 1 mencoba mengunci Akun B '' @
               lit ''(sibuk); Goroutine 2 mencoba mengunci Akun '' @ lit ''A (sibuk).''))],
         PyDict
          [(''title'', PyStr (lit ''Langkah 3: Kebuntuan Mutlak'')),
           (''desc'', PyStr (lit ''Kedua goroutine terblokir; tidak ada yang '' @
               lit ''dapat melanjutkan atau melepas lock secara '' @ lit ''sukarela.''))],
         PyDict
          [(''title'', PyStr (lit ''Langkah 4: Terminasi Paksa'')),
           (''desc'', PyStr (lit ''Hanya pada jalur ini context timeout '' @
               lit ''memutus rantai dan mengembalikan galat '' @ lit ''ErrDeadlock.''))]])]]\<close>

definition lab18_slide_07 :: pycall where [lab18_slides]:
  \<open>lab18_slide_07 =
   \<lparr>posargs = [],
  kwargs =
   [(''categories'', PyList
      [PyStr (lit ''FAILURE PATH''),
       PyStr (lit ''DEADLY EMBRACE'')]),
    (''title'', PyStr (lit ''Kronologi Tabrakan: Goroutine A vs '' @ lit ''Goroutine B'')),
    (''subtitle'', PyStr (lit ''Langkah demi langkah runtuhnya sistem '' @
        lit ''akibat dua transaksi saling menyandera '' @ lit ''kunci.'')),
    (''content_items'', lab18_items_07),
    (''narrative'', PyStr (lit ''Ketika dua transfer berjalan simultan '' @
        lit ''dengan arah berlawanan, masing-masing '' @
        lit ''berhasil mendapatkan kunci pertama namun '' @
        lit ''gagal memperoleh kunci kedua. Hanya pada '' @
        lit ''jalur ini kebuntuan absolut terjadi, '' @
        lit ''memaksa timer pembatalan mengorbankan salah '' @
        lit ''satu transaksi agar yang lain dapat selesai.'')),
    (''narrative_en'', PyStr (lit ''When bidirectional transfers execute '' @
        lit ''concurrently, each successfully secures its '' @
        lit ''first lock but blocks on the second. Only '' @
        lit ''along this path does an absolute freeze '' @
        lit ''emerge, forcing timeout cancellation to '' @
        lit ''sacrifice one transaction so the survivor '' @ lit ''can complete.'')),
    (''mental_model'', PyStr (lit ''Simultaneous cross-resource acquisition '' @
        lit ''without preemption leads to an unresolvable '' @ lit ''terminal deadlock.'')),
    (''source_path'', PyStr (lit ''content/04-diagrams.md:8-27'')),
    (''slide_num'', PyStr (lit ''07 / 24'')),
    (''layout'', PyStr (lit ''cards''))]\<rparr>\<close>

definition lab18_items_08 :: pyval where [lab18_contents]:
  \<open>lab18_items_08 =
   PyList
   [PyDict
     [(''title'', PyStr (lit ''KARAKTERISTIK GANGGUAN PENGUNCIAN SISTEM'')),
      (''items'', PyList
        [PyStr (lit ''Dimensi Masalah | Normal Lock Contention | '' @
            lit ''Lock Timeout | Deadlock (Circular Wait)''),
         PyStr (lit ''Kondisi Dependensi | Antrean linear satu '' @
            lit ''arah | Tunggu melebihi ambang batas | '' @
            lit ''Siklus tertutup saling sandera (A->B->A)''),
         PyStr (lit ''Penyelesaian Mesin | Menunggu lock dilepas '' @
            lit ''| Transaksi pemohon dibatalkan | Satu '' @
            lit ''transaksi dikorbankan via rollback''),
         PyStr (lit ''Kode Galat Umum | Tidak ada galat (hanya '' @
            lit ''antre) | MySQL 1205 (wait timeout) | PG '' @
            lit ''40P01 / MySQL 1213 / SQLServer 1205''),
         PyStr (lit ''Akar Masalah | Beban transaksi tinggi | '' @
            lit ''Transaksi lambat / long-running | Pola '' @
            lit ''urutan akuisisi lock tidak konsisten''),
         PyStr (lit ''Solusi Arsitektural | Indexing & isolasi '' @
            lit ''lebih rendah | Perpendek durasi transaksi | '' @
            lit ''Lock Ordering konsisten & Retry Pattern'')]),
      (''type'', PyStr (lit ''table''))]]\<close>

definition lab18_slide_08 :: pycall where [lab18_slides]:
  \<open>lab18_slide_08 =
   \<lparr>posargs = [],
  kwargs =
   [(''categories'', PyList
      [PyStr (lit ''COMPARISON''),
       PyStr (lit ''DIAGNOSTICS'')]),
    (''title'', PyStr (lit ''Matriks Diagnostik: Fenomena Penguncian di '' @ lit ''Database'')),
    (''subtitle'', PyStr (lit ''Membedakan karakteristik teknis deadlock, '' @
        lit ''lock timeout, dan lock contention biasa.'')),
    (''content_items'', lab18_items_08),
    (''narrative'', PyStr (lit ''Tabel ini memetakan perbedaan fundamental '' @
        lit ''antara antrean lock normal, lock timeout, '' @
        lit ''dan kondisi deadlock murni. Deadlock '' @
        lit ''memiliki ciri khas dependensi siklik yang '' @
        lit ''tidak dapat selesai sendiri, sehingga '' @
        lit ''selalu memerlukan intervensi rollback aktif '' @
        lit ''dari engine basis data.'')),
    (''narrative_en'', PyStr (lit ''This matrix delineates the technical '' @
        lit ''boundaries separating standard lock '' @
        lit ''contention, lock timeouts, and genuine '' @
        lit ''deadlocks. Deadlocks uniquely exhibit '' @
        lit ''cyclic dependencies that cannot '' @
        lit ''self-resolve, demanding proactive engine '' @ lit ''rollback intervention.'')),
    (''mental_model'', PyStr (lit ''Distinguish linear queuing delays from '' @
        lit ''cyclic deadlock dependencies requiring '' @
        lit ''automatic abort intervention.'')),
    (''source_path'', PyStr (lit ''content/02-master-draft.md:34-42'')),
    (''slide_num'', PyStr (lit ''08 / 24'')),
    (''layout'', PyStr (lit ''table''))]\<rparr>\<close>

definition lab18_items_09 :: pyval where [lab18_contents]:
  \<open>lab18_items_09 =
   PyList
   [PyDict
     [(''type'', PyStr (lit ''cards'')),
      (''title'', PyStr (lit ''STRATEGI PENANGANAN DEADLOCK BERTAHAP'')),
      (''items'', PyList
        [PyDict
          [(''title'', PyStr (lit ''1. Lock Ordering'')),
           (''desc'', PyStr (lit ''Urutkan seluruh resource berdasarkan ID '' @
               lit ''sebelum akuisisi kunci; memutus circular '' @
               lit ''wait secara matematis.''))],
         PyDict
          [(''title'', PyStr (lit ''2. Perpendek Transaksi'')),
           (''desc'', PyStr (lit ''Keluarkan panggilan jaringan pihak ketiga '' @
               lit ''dan kalkulasi berat dari dalam blok '' @ lit ''transaksi SQL.''))],
         PyDict
          [(''title'', PyStr (lit ''3. Application Retry'')),
           (''desc'', PyStr (lit ''Tangkap kode galat deadlock; bukan berarti '' @
               lit ''pasrah, melainkan pulihkan transaksi via '' @ lit ''backoff.''))]])]]\<close>

definition lab18_slide_09 :: pycall where [lab18_slides]:
  \<open>lab18_slide_09 =
   \<lparr>posargs = [],
  kwargs =
   [(''categories'', PyList
      [PyStr (lit ''DECISION SEQUENCE''),
       PyStr (lit ''MITIGATION STRATEGY'')]),
    (''title'', PyStr (lit ''Tiga Lapisan Pertahanan Menghadapi Deadlock'')),
    (''subtitle'', PyStr (lit ''Hierarki strategi rekayasa perangkat lunak '' @
        lit ''dari pencegahan dini hingga pemulihan aktif.'')),
    (''content_items'', lab18_items_09),
    (''narrative'', PyStr (lit ''Penanganan deadlock yang kokoh memadukan '' @
        lit ''pencegahan dan ketahanan aplikasi. '' @
        lit ''Mengimplementasikan retry otomatis bukan '' @
        lit ''berarti mengabaikan pencegahan, melainkan '' @
        lit ''jaring pengaman wajib untuk skenario '' @
        lit ''konkurensi ekstrem yang tidak terduga oleh '' @ lit ''skema ordering.'')),
    (''narrative_en'', PyStr (lit ''Robust deadlock management pairs proactive '' @
        lit ''architectural avoidance with operational '' @
        lit ''resilience. Implementing automatic retry '' @
        lit ''logic does not mean surrendering to lazy '' @
        lit ''design; it serves as an indispensable '' @
        lit ''safety net for complex concurrency patterns.'')),
    (''mental_model'', PyStr (lit ''Prevent cycles deterministically via lock '' @
        lit ''ordering, minimize lock duration, and '' @
        lit ''recover residual aborts via retries.'')),
    (''source_path'', PyStr (lit ''content/02-master-draft.md:64-70'')),
    (''slide_num'', PyStr (lit ''09 / 24'')),
    (''layout'', PyStr (lit ''cards''))]\<rparr>\<close>

definition lab18_items_10 :: pyval where [lab18_contents]:
  \<open>lab18_items_10 =
   PyList
   [PyDict
     [(''type'', PyStr (lit ''code'')),
      (''title'', PyStr (lit ''TERMINAL OUTPUT: go test -v -race ./... && '' @ lit ''go run ./cmd/demo'')),
      (''items'', PyList
        [PyStr (lit ''=== RUN   TestDeadlockOccurrence''),
         PyStr (lit ''--- PASS: TestDeadlockOccurrence (0.02s) '' @ lit ''[victim identified]''),
         PyStr (lit ''=== RUN   TestLockOrderingPreventsDeadlock''),
         PyStr (lit ''--- PASS: TestLockOrderingPreventsDeadlock '' @
            lit ''(0.01s) [balances consistent]''),
         PyStr (lit ''=== RUN   TestRetryRecoversDeadlock''),
         PyStr (lit ''--- PASS: TestRetryRecoversDeadlock (0.02s) '' @
            lit ''[both transfers complete]''),
         PyStr (lit ''=== RUN   TestTransactionDurationImpact''),
         PyStr (lit ''--- PASS: TestTransactionDurationImpact '' @
            lit ''(0.05s) [long >= short]''),
         PyStr (lit ''PASS: ok  labs/18-deadlock/tests  1.715s '' @
            lit ''(race detector: clean)''),
         PyStr (lit ''1. Simulating Naive Concurrent Transfers -> '' @
            lit ''deadlock victim detected''),
         PyStr (lit ''2. Simulating Lock Ordered Transfers    -> '' @
            lit ''ACC-1=1100, ACC-2=900 (success)''),
         PyStr (lit ''3. Simulating Retry Mechanism           -> '' @
            lit ''Final Balances: ACC-1=1100, ACC-2=900'')])]]\<close>

definition lab18_slide_10 :: pycall where [lab18_slides]:
  \<open>lab18_slide_10 =
   \<lparr>posargs = [],
  kwargs =
   [(''categories'', PyList
      [PyStr (lit ''EVIDENCE''),
       PyStr (lit ''EXECUTION'')]),
    (''title'', PyStr (lit ''Eksekusi Test Suite dan Demo cmd/demo Lolos '' @ lit ''Bersih'')),
    (''subtitle'', PyStr (lit ''Output terminal membuktikan reproduksi '' @
        lit ''deadlock, prevensi ordering, dan pemulihan '' @ lit ''retry.'')),
    (''content_items'', lab18_items_10),
    (''narrative'', PyStr (lit ''Verifikasi terminal membuktikan seluruh '' @
        lit ''skenario uji lolos tanpa race condition di '' @
        lit ''bawah pengawasan Go race detector. '' @
        lit ''Demonstrasi CLI mengonfirmasi bahwa '' @
        lit ''pendekatan naif menghasilkan deadlock '' @
        lit ''victim, sedangkan pengurutan kunci dan '' @
        lit ''mekanisme retry menyelesaikan mutasi dengan '' @ lit ''konsisten.'')),
    (''narrative_en'', PyStr (lit ''Terminal verification demonstrates that all '' @
        lit ''test suites pass cleanly under the Go race '' @
        lit ''detector with zero data races. The CLI demo '' @
        lit ''confirms that naive execution yields '' @
        lit ''deadlock victims, whereas lock ordering and '' @
        lit ''application retries ensure consistent final '' @ lit ''state.'')),
    (''mental_model'', PyStr (lit ''Executable test proof confirms '' @
        lit ''deterministic reproduction, mathematical '' @
        lit ''prevention, and transparent recovery.'')),
    (''source_path'', PyStr (lit ''engineering/03-execution-result.md:14-61'')),
    (''slide_num'', PyStr (lit ''10 / 24'')),
    (''layout'', PyStr (lit ''code''))]\<rparr>\<close>

definition lab18_items_11 :: pyval where [lab18_contents]:
  \<open>lab18_items_11 =
   PyList
   [PyDict
     [(''type'', PyStr (lit ''cards'')),
      (''title'', PyStr (lit ''BATAS PEMBUKTIAN SISTEM LAB 18'')),
      (''items'', PyList
        [PyDict
          [(''title'', PyStr (lit ''YANG DIBUKTIKAN'')),
           (''desc'', PyStr (lit ''Reproduksi circular wait, keampuhan '' @
               lit ''pengurutan ID kunci, dan pemulihan saldo '' @ lit ''via retry loop.''))],
         PyDict
          [(''title'', PyStr (lit ''YANG TIDAK DIBUKTIKAN'')),
           (''desc'', PyStr (lit ''Mesin graph parser WFG riil, multi-table '' @
               lit ''foreign key cascades, dan gap locking di '' @ lit ''database.''))],
         PyDict
          [(''title'', PyStr (lit ''BATAS KLAIM EMPIRIS'')),
           (''desc'', PyStr (lit ''Lab belum membuktikan ketahanan sistem pada '' @
               lit ''skala 50.000 TPS dengan distribusi kunci '' @ lit ''acak.''))]])]]\<close>

definition lab18_slide_11 :: pycall where [lab18_slides]:
  \<open>lab18_slide_11 =
   \<lparr>posargs = [],
  kwargs =
   [(''categories'', PyList
      [PyStr (lit ''AUDIT''),
       PyStr (lit ''EVIDENCE BOUNDARY'')]),
    (''title'', PyStr (lit ''Batasan Bukti Lab: Yang Dibuktikan vs Belum'')),
    (''subtitle'', PyStr (lit ''Menegaskan batasan simulasi in-memory '' @
        lit ''terhadap kompleksitas database engine riil.'')),
    (''content_items'', lab18_items_11),
    (''narrative'', PyStr (lit ''Lab ini membuktikan mekanika dasar deadlock '' @
        lit ''dan validitas teknik pengurutan kunci '' @
        lit ''menggunakan channel in-memory. Pengujian '' @
        lit ''ini belum membuktikan fenomena kompleks '' @
        lit ''seperti gap locking pada indeks database '' @
        lit ''riil atau perilaku sistem pada beban '' @ lit ''puluhan ribu TPS.'')),
    (''narrative_en'', PyStr (lit ''This lab proves fundamental deadlock '' @
        lit ''mechanics and lock ordering efficacy using '' @
        lit ''in-memory channel primitives. It has not '' @
        lit ''yet proven production phenomena such as '' @
        lit ''database index gap locking or systemic '' @
        lit ''resilience under 50,000 transactions per '' @ lit ''second.'')),
    (''mental_model'', PyStr (lit ''Strictly separate application-level '' @
        lit ''synchronization models from relational '' @
        lit ''storage engine locking internals.'')),
    (''source_path'', PyStr (lit ''content/01-content-brief.md:12-16'')),
    (''slide_num'', PyStr (lit ''11 / 24'')),
    (''layout'', PyStr (lit ''cards''))]\<rparr>\<close>

definition lab18_items_12 :: pyval where [lab18_contents]:
  \<open>lab18_items_12 =
   PyList
   [PyDict
     [(''type'', PyStr (lit ''cards'')),
      (''title'', PyStr (lit ''ANALISIS PERBANDINGAN TRADE-OFF'')),
      (''items'', PyList
        [PyDict
          [(''title'', PyStr (lit ''Lock Ordering: Disiplin Kode'')),
           (''desc'', PyStr (lit ''Bebas deadlock sepenuhnya, namun mewajibkan '' @
               lit ''kesepakatan urutan global di seluruh tim '' @ lit ''pengembang.''))],
         PyDict
          [(''title'', PyStr (lit ''Retry: Beban Komputasi'')),
           (''desc'', PyStr (lit ''Mudah dipasang di wrapper, namun '' @
               lit ''memboroskan CPU dan I/O jika terjadi abort '' @ lit ''berulang-ulang.''))],
         PyDict
          [(''title'', PyStr (lit ''Tidak Otomatis Cepat'')),
           (''desc'', PyStr (lit ''Menambah retry tidak otomatis meningkatkan '' @
               lit ''throughput bila contention pada satu baris '' @
               lit ''data terlalu pekat.''))]])]]\<close>

definition lab18_slide_12 :: pycall where [lab18_slides]:
  \<open>lab18_slide_12 =
   \<lparr>posargs = [],
  kwargs =
   [(''categories'', PyList
      [PyStr (lit ''TRADE-OFF''),
       PyStr (lit ''COSTS & BENEFITS'')]),
    (''title'', PyStr (lit ''Kompromi Rekayasa: Lock Ordering vs '' @ lit ''Application Retry'')),
    (''subtitle'', PyStr (lit ''Mengevaluasi konsekuensi operasional antara '' @
        lit ''pengurutan ketat dan toleransi pembatalan.'')),
    (''content_items'', lab18_items_12),
    (''narrative'', PyStr (lit ''Penerapan lock ordering memberikan '' @
        lit ''kepastian absolut namun menuntut disiplin '' @
        lit ''penulisan query yang seragam di seluruh '' @
        lit ''repository. Menambahkan retry logic tidak '' @
        lit ''otomatis membuat sistem berkinerja tinggi '' @
        lit ''jika sumber daya yang diperebutkan '' @ lit ''mengalami saturasi ekstrem.'')),
    (''narrative_en'', PyStr (lit ''Enforcing global lock ordering guarantees '' @
        lit ''safety but requires rigorous query '' @
        lit ''conventions across all services. '' @
        lit ''Introducing retry wrappers does not '' @
        lit ''automatically enhance throughput if '' @
        lit ''underlying shared resources suffer from '' @ lit ''acute lock contention.'')),
    (''mental_model'', PyStr (lit ''Choose between upfront developmental '' @
        lit ''discipline via ordering or operational '' @
        lit ''compute overhead via retries.'')),
    (''source_path'', PyStr (lit ''content/02-master-draft.md:64-70'')),
    (''slide_num'', PyStr (lit ''12 / 24'')),
    (''layout'', PyStr (lit ''cards''))]\<rparr>\<close>

definition lab18_items_13 :: pyval where [lab18_contents]:
  \<open>lab18_items_13 =
   PyList
   [PyDict
     [(''type'', PyStr (lit ''code'')),
      (''title'', PyStr (lit ''internal/bank/account.go'')),
      (''items'', PyList
        [PyStr (lit ''type Account struct {''),
         PyStr (lit ''    ID      string''),
         PyStr (lit ''    Balance int''),
         PyStr (lit ''    ch      chan struct{} // channel buffer '' @
            lit ''1 sebagai token lock''),
         PyStr (lit ''}''),
         PyStr (lit ''func (a *Account) Lock(ctx context.Context) '' @ lit ''error {''),
         PyStr (lit ''    select {''),
         PyStr (lit ''    case <-a.ch: return nil''),
         PyStr (lit ''    case <-ctx.Done(): return ErrDeadlock '' @
            lit ''// representasi deadlock abort''),
         PyStr (lit ''    }''),
         PyStr (lit ''}'')])]]\<close>

definition lab18_slide_13 :: pycall where [lab18_slides]:
  \<open>lab18_slide_13 =
   \<lparr>posargs = [],
  kwargs =
   [(''categories'', PyList
      [PyStr (lit ''CONCURRENCY''),
       PyStr (lit ''PRIMITIVES'')]),
    (''title'', PyStr (lit ''Model Sinkronisasi Akun Berbasis Channel '' @ lit ''dan Timeout'')),
    (''subtitle'', PyStr (lit ''Menggunakan channel kapasitas 1 sebagai '' @
        lit ''mutex yang peka terhadap pembatalan context.'')),
    (''content_items'', lab18_items_13),
    (''narrative'', PyStr (lit ''Model Account memanfaatkan buffered channel '' @
        lit ''1 slot untuk mengendalikan hak akses mutasi '' @
        lit ''saldo. Simulasi ini tidak sama dengan '' @
        lit ''locking row-level di PostgreSQL yang '' @
        lit ''memiliki status lock modes bertingkat, '' @
        lit ''namun secara elegan merefleksikan '' @
        lit ''pembatalan transaksi akibat timeout '' @ lit ''eksternal.'')),
    (''narrative_en'', PyStr (lit ''The Account struct utilizes a 1-slot '' @
        lit ''buffered channel to govern balance mutation '' @
        lit ''access. While this in-memory simulation is '' @
        lit ''not identical to PostgreSQL row-level lock '' @
        lit ''trees with shared/exclusive modes, it '' @
        lit ''cleanly models external deadlock abortion.'')),
    (''mental_model'', PyStr (lit ''Channel token acquisition coupled with '' @
        lit ''context cancellation models interruptible '' @ lit ''resource acquisition.'')),
    (''source_path'', PyStr (lit ''internal/bank/account.go:10-33'')),
    (''slide_num'', PyStr (lit ''13 / 24'')),
    (''layout'', PyStr (lit ''code''))]\<rparr>\<close>

definition lab18_items_14 :: pyval where [lab18_contents]:
  \<open>lab18_items_14 =
   PyList
   [PyDict
     [(''type'', PyStr (lit ''cards'')),
      (''title'', PyStr (lit ''KOMPARASI KONDISI SISTEM TRANSAKSI'')),
      (''items'', PyList
        [PyDict
          [(''title'', PyStr (lit ''Sebelum: Urutan Dinamis'')),
           (''desc'', PyStr (lit ''Kunci diambil mengikuti urutan parameter '' @
               lit ''fungsi; transfer dua arah saling menjebak '' @
               lit ''dalam circular wait.''))],
         PyDict
          [(''title'', PyStr (lit ''Sesudah: Leksikografis'')),
           (''desc'', PyStr (lit ''ID akun diurutkan secara konsisten; kedua '' @
               lit ''proses antre secara teratur pada lock '' @ lit ''pertama yang sama.''))],
         PyDict
          [(''title'', PyStr (lit ''Bukan Berarti Lambat'')),
           (''desc'', PyStr (lit ''Mengantre pada satu kunci bukan berarti '' @
               lit ''menurunkan throughput; sistem terhindar '' @
               lit ''dari biaya rollback.''))]])]]\<close>

definition lab18_slide_14 :: pycall where [lab18_slides]:
  \<open>lab18_slide_14 =
   \<lparr>posargs = [],
  kwargs =
   [(''categories'', PyList
      [PyStr (lit ''COMPARISON''),
       PyStr (lit ''BEFORE VS AFTER'')]),
    (''title'', PyStr (lit ''Transformasi: Dari Tabrakan Acak ke '' @ lit ''Eksekusi Teratur'')),
    (''subtitle'', PyStr (lit ''Pergeseran dari pemanggilan naif yang '' @
        lit ''rentan menuju orkestrasi penguncian '' @ lit ''deterministik.'')),
    (''content_items'', lab18_items_14),
    (''narrative'', PyStr (lit ''Sebelum standarisasi urutan, dua transaksi '' @
        lit ''yang bersilangan akan saling menunggu dan '' @
        lit ''berujung pada pembatalan sepihak. '' @
        lit ''Mengantrekan transaksi pada kunci pertama '' @
        lit ''bukan berarti memperlambat sistem, '' @
        lit ''melainkan menyelamatkan CPU dari pemborosan '' @ lit ''rollback dan retry.'')),
    (''narrative_en'', PyStr (lit ''Prior to lock ordering, intersecting '' @
        lit ''transactions mutually block and trigger '' @
        lit ''destructive engine rollbacks. Queuing '' @
        lit ''transactions deterministically on an '' @
        lit ''initial shared lock does not degrade system '' @
        lit ''throughput; it prevents wasted rollback '' @ lit ''cycles.'')),
    (''mental_model'', PyStr (lit ''Convert circular blocking hazards into '' @
        lit ''deterministic linear queues via strict '' @ lit ''lexical key sorting.'')),
    (''source_path'', PyStr (lit ''content/02-master-draft.md:148-166'')),
    (''slide_num'', PyStr (lit ''14 / 24'')),
    (''layout'', PyStr (lit ''cards''))]\<rparr>\<close>

definition lab18_items_15 :: pyval where [lab18_contents]:
  \<open>lab18_items_15 =
   PyList
   [PyDict
     [(''type'', PyStr (lit ''code'')),
      (''title'', PyStr (lit ''internal/transfer/transfer.go'')),
      (''items'', PyList
        [PyStr (lit ''func TransferOrdered(ctx context.Context, '' @
            lit ''acc1, acc2 *bank.Account, amount int, delay '' @
            lit ''time.Duration) error {''),
         PyStr (lit ''    first, second := acc1, acc2''),
         PyStr (lit ''    if acc1.ID > acc2.ID { first, second = '' @ lit ''acc2, acc1 }''),
         PyStr (lit ''    if err := first.Lock(ctx); err != nil { '' @ lit ''return err }''),
         PyStr (lit ''    defer first.Unlock()''),
         PyStr (lit ''    time.Sleep(delay)''),
         PyStr (lit ''    if err := second.Lock(ctx); err != nil '' @ lit ''{ return err }''),
         PyStr (lit ''    defer second.Unlock()''),
         PyStr (lit ''    acc1.Balance -= amount; acc2.Balance += '' @ lit ''amount''),
         PyStr (lit ''    return nil''),
         PyStr (lit ''}'')])]]\<close>

definition lab18_slide_15 :: pycall where [lab18_slides]:
  \<open>lab18_slide_15 =
   \<lparr>posargs = [],
  kwargs =
   [(''categories'', PyList
      [PyStr (lit ''ANALYSIS''),
       PyStr (lit ''PREVENTION LOGIC'')]),
    (''title'', PyStr (lit ''Pencegahan Deterministik: Pengurutan Kunci '' @ lit ''Berdasarkan ID'')),
    (''subtitle'', PyStr (lit ''Menjamin bahwa semua proses selalu meminta '' @
        lit ''lock dengan urutan seragam tanpa siklus.'')),
    (''content_items'', lab18_items_15),
    (''narrative'', PyStr (lit ''Dengan membandingkan identifier string '' @
        lit ''secara leksikografis, entitas dengan ID '' @
        lit ''lebih kecil selalu dikunci terlebih dahulu. '' @
        lit ''Logika pencegahan ini cakupannya mengikuti '' @
        lit ''test konkurensi lab, menjamin bahwa '' @
        lit ''circular wait mustahil terbentuk karena '' @
        lit ''seluruh goroutine mengantre pada kunci '' @ lit ''pertama yang sama.'')),
    (''narrative_en'', PyStr (lit ''By sorting resource IDs lexicographically, '' @
        lit ''the entity with the lower ID is invariably '' @
        lit ''locked first. The scope of this prevention '' @
        lit ''logic strictly matches our concurrency test '' @
        lit ''suite, proving circular waits cannot form '' @
        lit ''because competing routines queue on the '' @ lit ''identical first lock.'')),
    (''mental_model'', PyStr (lit ''Global monotonic resource acquisition '' @
        lit ''eliminates cycles across all concurrent '' @ lit ''transaction paths.'')),
    (''source_path'', PyStr (lit ''internal/transfer/transfer.go:28-50'')),
    (''slide_num'', PyStr (lit ''15 / 24'')),
    (''layout'', PyStr (lit ''code''))]\<rparr>\<close>

definition lab18_items_16 :: pyval where [lab18_contents]:
  \<open>lab18_items_16 =
   PyList
   [PyDict
     [(''type'', PyStr (lit ''code'')),
      (''title'', PyStr (lit ''tests/transfer_test.go'')),
      (''items'', PyList
        [PyStr (lit ''func TestDeadlockOccurrence(t *testing.T) {''),
         PyStr (lit ''    // Goroutine 1 mentransfer A -> B '' @
            lit ''(delay 10ms, timeout 20ms)''),
         PyStr (lit ''    go func() { errs[0] = '' @
            lit ''transfer.TransferNaive(ctx1, accA, accB, '' @
            lit ''10, 10*time.Millisecond) }()''),
         PyStr (lit ''    // Goroutine 2 bersamaan mentransfer B '' @
            lit ''-> A (delay 10ms, timeout 20ms)''),
         PyStr (lit ''    go func() { errs[1] = '' @
            lit ''transfer.TransferNaive(ctx2, accB, accA, '' @
            lit ''10, 10*time.Millisecond) }()''),
         PyStr (lit ''    wg.Wait()''),
         PyStr (lit ''    hasDeadlock := (errs[0] == '' @
            lit ''bank.ErrDeadlock) || (errs[1] == '' @ lit ''bank.ErrDeadlock)''),
         PyStr (lit ''    if !hasDeadlock { t.Fatalf("expected at '' @
            lit ''least one deadlock victim") }''),
         PyStr (lit ''}'')])]]\<close>

definition lab18_slide_16 :: pycall where [lab18_slides]:
  \<open>lab18_slide_16 =
   \<lparr>posargs = [],
  kwargs =
   [(''categories'', PyList
      [PyStr (lit ''ANALYSIS''),
       PyStr (lit ''FAILURE VERIFICATION'')]),
    (''title'', PyStr (lit ''Verifikasi Test: Membuktikan Terjadinya '' @ lit ''Deadlock Victim'')),
    (''subtitle'', PyStr (lit ''Dua goroutine bersaing memicu tabrakan '' @
        lit ''deterministik pada penguncian naif.'')),
    (''content_items'', lab18_items_16),
    (''narrative'', PyStr (lit ''Unit test membuktikan secara deterministik '' @
        lit ''bahwa transfer silang tanpa pengurutan '' @
        lit ''selalu mengorbankan minimal satu transaksi. '' @
        lit ''Menjalankan dua goroutine paralel tidak '' @
        lit ''otomatis memicu deadlock tanpa delay '' @
        lit ''internal yang memadai untuk membuka jendela '' @ lit ''kontensi.'')),
    (''narrative_en'', PyStr (lit ''This unit test deterministically proves '' @
        lit ''that cross transfers without ordering '' @
        lit ''reliably produce at least one aborted '' @
        lit ''victim. Spawning two goroutines '' @
        lit ''concurrently does not automatically '' @
        lit ''reproduce deadlocks unless processing delay '' @
        lit ''sufficiently widens the contention window.'')),
    (''mental_model'', PyStr (lit ''Reproducing deadlocks requires synchronized '' @
        lit ''contention windows where resources are held '' @
        lit ''during secondary requests.'')),
    (''source_path'', PyStr (lit ''tests/transfer_test.go:13-41'')),
    (''slide_num'', PyStr (lit ''16 / 24'')),
    (''layout'', PyStr (lit ''code''))]\<rparr>\<close>

definition lab18_items_17 :: pyval where [lab18_contents]:
  \<open>lab18_items_17 =
   PyList
   [PyDict
     [(''type'', PyStr (lit ''code'')),
      (''title'', PyStr (lit ''tests/transfer_test.go'')),
      (''items'', PyList
        [PyStr (lit ''func TestLockOrderingPreventsDeadlock(t '' @ lit ''*testing.T) {''),
         PyStr (lit ''    go func() { errs[0] = '' @
            lit ''transfer.TransferOrdered(ctx1, accA, accB, '' @
            lit ''10, 5*time.Millisecond) }()''),
         PyStr (lit ''    go func() { errs[1] = '' @
            lit ''transfer.TransferOrdered(ctx2, accB, accA, '' @
            lit ''10, 5*time.Millisecond) }()''),
         PyStr (lit ''    wg.Wait()''),
         PyStr (lit ''    if errs[0] != nil || errs[1] != nil { '' @
            lit ''t.Fatalf("expected both to succeed") }''),
         PyStr (lit ''    if accA.Balance != 100 || accB.Balance '' @ lit ''!= 100 {''),
         PyStr (lit ''        t.Fatalf("unexpected balance: A=%d, '' @
            lit ''B=%d", accA.Balance, accB.Balance)''),
         PyStr (lit ''    }''),
         PyStr (lit ''}'')])]]\<close>

definition lab18_slide_17 :: pycall where [lab18_slides]:
  \<open>lab18_slide_17 =
   \<lparr>posargs = [],
  kwargs =
   [(''categories'', PyList
      [PyStr (lit ''ANALYSIS''),
       PyStr (lit ''ORDERING VERIFICATION'')]),
    (''title'', PyStr (lit ''Verifikasi Test: Lock Ordering Menuntaskan '' @ lit ''Semua Transaksi'')),
    (''subtitle'', PyStr (lit ''Kedua transfer konkuren berhasil '' @
        lit ''diselesaikan dengan saldo akhir yang '' @ lit ''konsisten sempurna.'')),
    (''content_items'', lab18_items_17),
    (''narrative'', PyStr (lit ''Pengujian membuktikan bahwa kedua transaksi '' @
        lit ''bolak-balik berhasil dieksekusi tanpa error '' @
        lit ''sama sekali saat menggunakan '' @
        lit ''TransferOrdered. Hanya pada jalur ini '' @
        lit ''konsistensi saldo terjaga utuh (100 dan '' @
        lit ''100) karena transaksi saling mengantre '' @
        lit ''secara tertib alih-alih saling mematikan.'')),
    (''narrative_en'', PyStr (lit ''Testing confirms both bidirectional '' @
        lit ''transfers complete successfully with zero '' @
        lit ''errors when routed through TransferOrdered. '' @
        lit ''Only along this path do balances remain '' @
        lit ''perfectly consistent (100 and 100) as '' @
        lit ''transactions serialize gracefully rather '' @ lit ''than aborting.'')),
    (''mental_model'', PyStr (lit ''Enforcing a single acquisition order '' @
        lit ''linearizes resource contention, preserving '' @
        lit ''full transaction integrity.'')),
    (''source_path'', PyStr (lit ''tests/transfer_test.go:43-74'')),
    (''slide_num'', PyStr (lit ''17 / 24'')),
    (''layout'', PyStr (lit ''code''))]\<rparr>\<close>

definition lab18_items_18 :: pyval where [lab18_contents]:
  \<open>lab18_items_18 =
   PyList
   [PyDict
     [(''type'', PyStr (lit ''code'')),
      (''title'', PyStr (lit ''internal/transfer/transfer.go'')),
      (''items'', PyList
        [PyStr (lit ''func TransferWithRetry(ctx context.Context, '' @
            lit ''from, to *bank.Account, amount int, delay '' @
            lit ''time.Duration, maxRetries int) error {''),
         PyStr (lit ''    for i := 0; i < maxRetries; i++ {''),
         PyStr (lit ''        attemptCtx, cancel := '' @ lit ''context.WithTimeout(ctx, '' @
            lit ''10*time.Millisecond)''),
         PyStr (lit ''        err := TransferNaive(attemptCtx, '' @
            lit ''from, to, amount, delay)''),
         PyStr (lit ''        cancel()''),
         PyStr (lit ''        if err == nil { return nil }''),
         PyStr (lit ''        if err != bank.ErrDeadlock && err '' @
            lit ''!= context.DeadlineExceeded { return err }''),
         PyStr (lit ''        time.Sleep(2 * time.Millisecond) // '' @
            lit ''backoff sebelum mencoba kembali''),
         PyStr (lit ''    }''),
         PyStr (lit ''    return bank.ErrDeadlock''),
         PyStr (lit ''}'')])]]\<close>

definition lab18_slide_18 :: pycall where [lab18_slides]:
  \<open>lab18_slide_18 =
   \<lparr>posargs = [],
  kwargs =
   [(''categories'', PyList
      [PyStr (lit ''ANALYSIS''),
       PyStr (lit ''RETRY PATTERN'')]),
    (''title'', PyStr (lit ''Pemulihan Transparan: Penanganan Abort '' @ lit ''dengan Retry'')),
    (''subtitle'', PyStr (lit ''Membungkus eksekusi dengan batas timeout '' @
        lit ''percobaan dan jeda backoff terencana.'')),
    (''content_items'', lab18_items_18),
    (''narrative'', PyStr (lit ''Fungsi TransferWithRetry menangkap galat '' @
        lit ''pembatalan deadlock dan mencoba kembali '' @
        lit ''transaksi secara transparan hingga batas '' @
        lit ''maksimal. Menggunakan fixed backoff 2ms '' @
        lit ''bukan berarti pola ini ideal untuk '' @
        lit ''produksi; implementasi ini adalah '' @
        lit ''penyederhanaan terencana yang membutuhkan '' @
        lit ''jitter pada skala besar.'')),
    (''narrative_en'', PyStr (lit ''TransferWithRetry intercepts deadlock '' @
        lit ''aborts and transparently reissues the '' @
        lit ''transaction up to maxRetries. Adopting a '' @
        lit ''fixed 2ms backoff does not represent '' @
        lit ''production best practice; it is a '' @
        lit ''documented simplification that requires '' @
        lit ''randomized jitter in production systems.'')),
    (''mental_model'', PyStr (lit ''Catch transient concurrency aborts and '' @
        lit ''replay idempotent transactions following '' @ lit ''brief backoff intervals.'')),
    (''source_path'', PyStr (lit ''internal/transfer/transfer.go:52-71'')),
    (''slide_num'', PyStr (lit ''18 / 24'')),
    (''layout'', PyStr (lit ''code''))]\<rparr>\<close>

definition lab18_items_19 :: pyval where [lab18_contents]:
  \<open>lab18_items_19 =
   PyList
   [PyDict
     [(''type'', PyStr (lit ''code'')),
      (''title'', PyStr (lit ''tests/transfer_test.go'')),
      (''items'', PyList
        [PyStr (lit ''func TestTransactionDurationImpact(t '' @ lit ''*testing.T) {''),
         PyStr (lit ''    longDeadlocks := '' @ lit ''countDeadlocks(5*time.Millisecond, 10)''),
         PyStr (lit ''    shortDeadlocks := countDeadlocks(0, 10)''),
         PyStr (lit ''    if longDeadlocks < shortDeadlocks {''),
         PyStr (lit ''        t.Fatalf("expected long duration to '' @
            lit ''have >= deadlocks: long=%d, short=%d",''),
         PyStr (lit ''                 longDeadlocks, '' @ lit ''shortDeadlocks)''),
         PyStr (lit ''    }''),
         PyStr (lit ''}'')])]]\<close>

definition lab18_slide_19 :: pycall where [lab18_slides]:
  \<open>lab18_slide_19 =
   \<lparr>posargs = [],
  kwargs =
   [(''categories'', PyList
      [PyStr (lit ''ANALYSIS''),
       PyStr (lit ''EMPIRICAL METRIC'')]),
    (''title'', PyStr (lit ''Dampak Durasi: Transaksi Panjang '' @ lit ''Memperbesar Risiko'')),
    (''subtitle'', PyStr (lit ''Membandingkan frekuensi deadlock antara '' @
        lit ''transaksi dengan delay versus instan.'')),
    (''content_items'', lab18_items_19),
    (''narrative'', PyStr (lit ''Pengujian empiris membuktikan bahwa '' @
        lit ''transaksi yang menahan lock selama 5 '' @
        lit ''milidetik menghasilkan frekuensi deadlock '' @
        lit ''yang lebih tinggi atau sama dibandingkan '' @
        lit ''transaksi tanpa delay. Pengamatan ini '' @
        lit ''cakupannya mengikuti test lab, memvalidasi '' @
        lit ''prinsip bahwa memperpanjang waktu penahanan '' @
        lit ''lock memperbesar kemungkinan tabrakan.'')),
    (''narrative_en'', PyStr (lit ''Empirical testing demonstrates that '' @
        lit ''transactions holding locks for 5ms produce '' @
        lit ''higher or equal deadlock counts compared to '' @
        lit ''zero-delay transactions. This finding '' @
        lit ''directly reflects test suite metrics, '' @
        lit ''confirming that prolonged lock durations '' @
        lit ''expand the concurrency collision surface.'')),
    (''mental_model'', PyStr (lit ''Deadlock probability scales proportionally '' @
        lit ''with the duration locks are held open by '' @ lit ''active transactions.'')),
    (''source_path'', PyStr (lit ''tests/transfer_test.go:105-145'')),
    (''slide_num'', PyStr (lit ''19 / 24'')),
    (''layout'', PyStr (lit ''code''))]\<rparr>\<close>

definition lab18_items_20 :: pyval where [lab18_contents]:
  \<open>lab18_items_20 =
   PyList
   [PyDict
     [(''type'', PyStr (lit ''checklist'')),
      (''title'', PyStr (lit ''STANDAR REKAYASA KONEKSI BASIS DATA'')),
      (''items'', PyList
        [PyStr (lit ''Terapkan Lock Ordering seragam pada seluruh '' @
            lit ''mutasi multi-tabel di seluruh repositori.''),
         PyStr (lit ''Lakukan ORDER BY primary_key ASC sebelum '' @
            lit ''query UPDATE batch atau SELECT FOR UPDATE.''),
         PyStr (lit ''Keluarkan panggilan HTTP eksternal dan '' @
            lit ''komputasi berat dari dalam transaksi '' @ lit ''database.''),
         PyStr (lit ''Tangkap kode galat deadlock vendor '' @
            lit ''(Postgres 40P01, MySQL 1213, SQL Server '' @ lit ''1205).''),
         PyStr (lit ''Terapkan exponential backoff dengan '' @
            lit ''randomized jitter pada lapisan retry '' @ lit ''aplikasi.''),
         PyStr (lit ''Pastikan seluruh operasi yang di-retry '' @
            lit ''bersifat idempotent untuk mencegah mutasi '' @ lit ''ganda.'')])]]\<close>

definition lab18_slide_20 :: pycall where [lab18_slides]:
  \<open>lab18_slide_20 =
   \<lparr>posargs = [],
  kwargs =
   [(''categories'', PyList
      [PyStr (lit ''CHECKLIST''),
       PyStr (lit ''PRODUCTION READINESS'')]),
    (''title'', PyStr (lit ''Checklist Proteksi Deadlock di Lingkungan '' @ lit ''Produksi'')),
    (''subtitle'', PyStr (lit ''Panduan komprehensif sebelum merilis kode '' @
        lit ''transaksi konkuren ke basis data.'')),
    (''content_items'', lab18_items_20),
    (''narrative'', PyStr (lit ''Checklist ini merangkum langkah mitigasi '' @
        lit ''wajib: urutan penguncian global yang '' @
        lit ''seragam, pengurutan kunci pada update '' @
        lit ''massal, pembebasan transaksi dari panggilan '' @
        lit ''eksternal, penangkapan kode galat vendor '' @
        lit ''spesifik, retry berbasis jitter, serta '' @ lit ''jaminan idempotensi.'')),
    (''narrative_en'', PyStr (lit ''This checklist codifies production '' @
        lit ''defenses: uniform global lock ordering, '' @
        lit ''primary key sorting on bulk updates, '' @
        lit ''stripping external I/O from transactions, '' @
        lit ''vendor error code interception, jittered '' @
        lit ''exponential backoff, and strict idempotency.'')),
    (''mental_model'', PyStr (lit ''Enforce strict operational criteria to '' @
        lit ''design, isolate, and recover concurrent '' @ lit ''database transactions.'')),
    (''source_path'', PyStr (lit ''content/02-master-draft.md:273-280'')),
    (''slide_num'', PyStr (lit ''20 / 24'')),
    (''layout'', PyStr (lit ''checklist''))]\<rparr>\<close>

definition lab18_items_21 :: pyval where [lab18_contents]:
  \<open>lab18_items_21 =
   PyList
   [PyDict
     [(''type'', PyStr (lit ''cards'')),
      (''title'', PyStr (lit ''POLA BERBAHAYA YANG HARUS DIHINDARI'')),
      (''items'', PyList
        [PyDict
          [(''title'', PyStr (lit ''I/O Eksternal di Transaksi'')),
           (''desc'', PyStr (lit ''Memanggil API pihak ketiga atau menunggu '' @
               lit ''I/O disk saat koneksi database masih '' @ lit ''memegang row lock.''))],
         PyDict
          [(''title'', PyStr (lit ''Batch Update Acak'')),
           (''desc'', PyStr (lit ''Mengupdate ratusan baris data dari array '' @
               lit ''memori tanpa mengurutkan ID terlebih dahulu.''))],
         PyDict
          [(''title'', PyStr (lit ''Bukan Berarti Aman'')),
           (''desc'', PyStr (lit ''Memasang retry tanpa idempotensi bukan '' @
               lit ''berarti aman, melainkan memicu mutasi saldo '' @ lit ''ganda.''))]])]]\<close>

definition lab18_slide_21 :: pycall where [lab18_slides]:
  \<open>lab18_slide_21 =
   \<lparr>posargs = [],
  kwargs =
   [(''categories'', PyList
      [PyStr (lit ''ANTI-PATTERN''),
       PyStr (lit ''PITFALLS'')]),
    (''title'', PyStr (lit ''Anti-Pattern Umum dalam Penanganan Transaksi'')),
    (''subtitle'', PyStr (lit ''Kesalahan desain yang sering memicu '' @
        lit ''deadlock persisten pada sistem produksi.'')),
    (''content_items'', lab18_items_21),
    (''narrative'', PyStr (lit ''Menahan koneksi transaksi database sambil '' @
        lit ''menunggu respons API pihak ketiga adalah '' @
        lit ''penyebab paling umum lonjakan deadlock di '' @
        lit ''produksi. Memasang wrapper retry tanpa '' @
        lit ''memastikan idempotensi mutasi bukan berarti '' @
        lit ''sistem menjadi andal, melainkan berisiko '' @
        lit ''mencatatkan perubahan saldo ganda.'')),
    (''narrative_en'', PyStr (lit ''Holding database locks while waiting on '' @
        lit ''third-party HTTP responses represents the '' @
        lit ''most frequent cause of production '' @
        lit ''deadlocks. Wrapping endpoints in retry '' @
        lit ''logic without verifying mutation '' @
        lit ''idempotency does not yield safety; it risks '' @
        lit ''double financial debits.'')),
    (''mental_model'', PyStr (lit ''Avoid external I/O within transaction '' @
        lit ''boundaries and never retry non-idempotent '' @ lit ''business operations.'')),
    (''source_path'', PyStr (lit ''content/02-master-draft.md:257-262'')),
    (''slide_num'', PyStr (lit ''21 / 24'')),
    (''layout'', PyStr (lit ''cards''))]\<rparr>\<close>

definition lab18_items_22 :: pyval where [lab18_contents]:
  \<open>lab18_items_22 =
   PyList
   [PyDict
     [(''type'', PyStr (lit ''code'')),
      (''title'', PyStr (lit ''COMMAND RUNNER (ZERO DEPENDENCIES)'')),
      (''items'', PyList
        [PyStr (lit ''cd labs/18-deadlock''),
         PyStr (lit ''go test -v ./...    # verifikasi 4 '' @
            lit ''pengujian deadlock, ordering, retry & durasi''),
         PyStr (lit ''go test -race ./... # pembuktian '' @
            lit ''sinkronisasi konkuren bebas data race''),
         PyStr (lit ''go run ./cmd/demo   # eksekusi demonstrasi '' @
            lit ''CLI interaktif skenario 1, 2, dan 3'')])]]\<close>

definition lab18_slide_22 :: pycall where [lab18_slides]:
  \<open>lab18_slide_22 =
   \<lparr>posargs = [],
  kwargs =
   [(''categories'', PyList
      [PyStr (lit ''REPRODUCTION''),
       PyStr (lit ''COMMANDS'')]),
    (''title'', PyStr (lit ''Reproduksi Mandiri di Mesin Lokal '' @ lit ''Menggunakan Go'')),
    (''subtitle'', PyStr (lit ''Verifikasi mandiri simulasi deadlock tanpa '' @
        lit ''ketergantungan modul eksternal.'')),
    (''content_items'', lab18_items_22),
    (''narrative'', PyStr (lit ''Seluruh simulasi dibangun murni menggunakan '' @
        lit ''pustaka standar Go tanpa modul pihak '' @
        lit ''ketiga. Eksperimen lokal ini memvalidasi '' @
        lit ''mekanika deadlock di memori, namun '' @
        lit ''production masih perlu mengonfigurasi '' @
        lit ''parameter database nyata seperti '' @
        lit ''deadlock_timeout dan log_lock_waits.'')),
    (''narrative_en'', PyStr (lit ''The entire simulation runs on the Go '' @
        lit ''standard library with zero external '' @
        lit ''dependencies. While local testing confirms '' @
        lit ''in-memory algorithmic principles, '' @
        lit ''production systems still require '' @
        lit ''configuring database parameters like '' @
        lit ''deadlock_timeout and log_lock_waits.'')),
    (''mental_model'', PyStr (lit ''Zero-dependency concurrency simulations '' @
        lit ''provide fast, deterministic validation of '' @
        lit ''distributed failure modes.'')),
    (''source_path'', PyStr (lit ''README.md:14-34'')),
    (''slide_num'', PyStr (lit ''22 / 24'')),
    (''layout'', PyStr (lit ''code''))]\<rparr>\<close>

definition lab18_items_23 :: pyval where [lab18_contents]:
  \<open>lab18_items_23 =
   PyList
   [PyDict
     [(''type'', PyStr (lit ''cards'')),
      (''title'', PyStr (lit ''TIGA PILAR KETAHANAN KONKURENSI SISTEM'')),
      (''items'', PyList
        [PyDict
          [(''title'', PyStr (lit ''Disiplin Urutan Global'')),
           (''desc'', PyStr (lit ''Jadikan pengurutan kunci sebagai standar '' @
               lit ''baku query di seluruh lapisan arsitektur '' @ lit ''microservices.''))],
         PyDict
          [(''title'', PyStr (lit ''Keringkasan Transaksi'')),
           (''desc'', PyStr (lit ''Pangkas waktu hidup transaksi seminimal '' @
               lit ''mungkin; lock hanya saat mutasi siap '' @ lit ''dieksekusi.''))],
         PyDict
          [(''title'', PyStr (lit ''Toleransi Transparan'')),
           (''desc'', PyStr (lit ''Rancang aplikasi agar tidak otomatis panik '' @
               lit ''saat menerima abort; pulihkan via retry '' @ lit ''transparan.''))]])]]\<close>

definition lab18_slide_23 :: pycall where [lab18_slides]:
  \<open>lab18_slide_23 =
   \<lparr>posargs = [],
  kwargs =
   [(''categories'', PyList
      [PyStr (lit ''TAKEAWAY''),
       PyStr (lit ''ARCHITECTURAL PRINCIPLES'')]),
    (''title'', PyStr (lit ''Prinsip Inti: Deadlock adalah Keniscayaan '' @ lit ''Konkurensi'')),
    (''subtitle'', PyStr (lit ''Pondasi arsitektur tangguh bertumpu pada '' @
        lit ''pencegahan terstruktur dan toleransi '' @ lit ''kegagalan.'')),
    (''content_items'', lab18_items_23),
    (''narrative'', PyStr (lit ''Deadlock tidak boleh dipandang sebagai aib '' @
        lit ''atau bug fatal, melainkan mekanisme '' @
        lit ''perlindungan integritas data dari basis '' @
        lit ''data. Merancang sistem transaksional tidak '' @
        lit ''otomatis membebaskan kita dari kontensi; '' @
        lit ''sistem yang tangguh mencegah siklus sedini '' @
        lit ''mungkin dan memulihkan korban dengan anggun.'')),
    (''narrative_en'', PyStr (lit ''Deadlocks should not be viewed as '' @
        lit ''catastrophic bugs, but as the database '' @ lit ''engine'' @ [39] @
        lit ''s ultimate defense of data consistency. '' @
        lit ''Designing transactional architectures does '' @
        lit ''not automatically eliminate lock '' @
        lit ''contention; resilient systems prevent '' @
        lit ''cycles upfront and recover victims '' @ lit ''gracefully.'')),
    (''mental_model'', PyStr (lit ''Design for deterministic lock ordering '' @
        lit ''upfront, minimize critical sections, and '' @
        lit ''treat abort recovery as standard operating '' @ lit ''procedure.'')),
    (''source_path'', PyStr (lit ''content/05-key-takeaways.md:1-8'')),
    (''slide_num'', PyStr (lit ''23 / 24'')),
    (''layout'', PyStr (lit ''cards''))]\<rparr>\<close>

definition lab18_items_24 :: pyval where [lab18_contents]:
  \<open>lab18_items_24 =
   PyList
   [PyDict
     [(''type'', PyStr (lit ''bullet'')),
      (''title'', PyStr (lit ''MODUL IMPLEMENTASI'')),
      (''items'', PyList
        [PyStr (lit ''internal/bank/account.go '' @ [0x2022] @
            lit '' internal/transfer/transfer.go''),
         PyStr (lit ''cmd/demo/main.go '' @ [0x2022] @ lit '' tests/transfer_test.go''),
         PyStr (lit ''engineering/01-design.md '' @ [0x2022] @
            lit '' content/02-master-draft.md'')])],
    PyDict
     [(''type'', PyStr (lit ''bullet'')),
      (''title'', PyStr (lit ''VERIFIKASI & STATUS'')),
      (''items'', PyList
        [PyStr (lit ''Commit: '' @ str_prefix 7 lab18_COMMIT_SHA @ lit '' '' @ [0x2022] @
            lit '' Status: APPROVED''),
         PyStr (lit ''Test passing: 4 test suites '' @
            lit ''(DeadlockOccurrence, LockOrdering, '' @
            lit ''RetryRecovery, DurationImpact)''),
         PyStr (lit ''Race detector: Clean (go test -race ./... '' @ lit ''PASS in 1.715s)''),
         PyStr (lit ''Zero external dependencies: 100% Go '' @ lit ''standard library.'')])]]\<close>

definition lab18_slide_24 :: pycall where [lab18_slides]:
  \<open>lab18_slide_24 =
   \<lparr>posargs = [],
  kwargs =
   [(''categories'', PyList
      [PyStr (lit ''CLOSING'')]),
    (''title'', PyStr (lit ''Deadlock bukan kegagalan basis data, '' @
        lit ''melainkan alarm bahwa aplikasi Anda '' @
        lit ''mengunci sumber daya secara acak.'')),
    (''subtitle'', PyStr []),
    (''content_items'', lab18_items_24),
    (''mental_model'', PyStr (lit ''Deadlocks are structural alarms indicating '' @
        lit ''uncoordinated concurrent resource access '' @ lit ''patterns.'')),
    (''source_path'', PyStr lab18_REPO_URL),
    (''slide_num'', PyStr (lit ''24 / 24'')),
    (''layout'', PyStr (lit ''closing''))]\<rparr>\<close>

definition lab18_calls :: "pycall list" where
  "lab18_calls =
    [lab18_slide_01, lab18_slide_02, lab18_slide_03, lab18_slide_04, lab18_slide_05,
     lab18_slide_06, lab18_slide_07, lab18_slide_08, lab18_slide_09, lab18_slide_10,
     lab18_slide_11, lab18_slide_12, lab18_slide_13, lab18_slide_14, lab18_slide_15,
     lab18_slide_16, lab18_slide_17, lab18_slide_18, lab18_slide_19, lab18_slide_20,
     lab18_slide_21, lab18_slide_22, lab18_slide_23, lab18_slide_24]"

definition lab18_deck :: deck where
  "lab18_deck =
    \<lparr>add_slide = lab18_add_slide, lab_no = lab18_LAB_NO, title_id = lab18_TITLE_ID, calls = lab18_calls\<rparr>"

section \<open>Checks of the calls\<close>

lemma lab18_shapes:
  "\<forall>c \<in> set lab18_calls. shape_of c \<in> set
    [(0, [''categories'', ''title'', ''subtitle'', ''content_items'', ''mental_model'',
      ''source_path'', ''slide_num'', ''layout'']),
     (0, [''categories'', ''title'', ''subtitle'', ''content_items'', ''narrative'',
      ''narrative_en'', ''mental_model'', ''source_path'', ''slide_num'', ''layout''])]"
  by (simp only: lab18_calls_def lab18_slides shape_eval cong: pyval_opaque)

lemma lab18_calls_ok: "\<forall>c \<in> set lab18_calls. call_ok sig_layout c"
  by (rule calls_ok_by_shapes [OF lab18_shapes])
    (simp add: shape_ok_def param_names_def signature_defs core_params_def)

lemma lab18_labels: "map (\<lambda>c. value_of sig_layout c ''slide_num'') lab18_calls = labels_24"
  by (simp only: lab18_calls_def lab18_slides keyword_eval labels_24_eval cong: pyval_opaque)

lemma lab18_contents_of:
  "map (\<lambda>c. value_of sig_layout c ''content_items'') lab18_calls =
    [lab18_items_01, lab18_items_02, lab18_items_03, lab18_items_04, lab18_items_05,
     lab18_items_06, lab18_items_07, lab18_items_08, lab18_items_09, lab18_items_10,
     lab18_items_11, lab18_items_12, lab18_items_13, lab18_items_14, lab18_items_15,
     lab18_items_16, lab18_items_17, lab18_items_18, lab18_items_19, lab18_items_20,
     lab18_items_21, lab18_items_22, lab18_items_23, lab18_items_24]"
  by (simp only: lab18_calls_def lab18_slides keyword_eval cong: pyval_opaque)

lemma lab18_items: "item_defects sig_layout lab18_calls = []"
  by (simp only: item_defects_def lab18_contents_of)
    (simp add: lab18_contents item_eval cong: pystr_opaque)

end
