(* ===== verification/Deck19.thy ===== *)
theory Deck19
  imports DeckContract
begin

text \<open>
  The publication definition of lab 19, \<^verbatim>\<open>labs/19-database-connection-pooling/result/content_def.py\<close>:
  its module constants, every \<open>add_slide\<close> call in order (\<open>lab19_slide_01\<close> is the first),
  and the module as a whole (\<open>lab19_deck\<close>). Long strings are split into pieces that are
  concatenated; a character outside ASCII is its code point.
\<close>

named_theorems lab19_slides \<open>the add_slide calls of lab 19\<close>
named_theorems lab19_contents \<open>their content_items arguments\<close>

definition lab19_OUTPUT_DIR :: pystr where
  \<open>lab19_OUTPUT_DIR = lit ''labs/19-database-connection-pooling/result''\<close>

definition lab19_CHROME_BIN :: pystr where
  \<open>lab19_CHROME_BIN = lit ''/Applications/Google '' @ lit ''Chrome.app/Contents/MacOS/Google Chrome''\<close>

definition lab19_REPO_URL :: pystr where
  \<open>lab19_REPO_URL = lit ''https://github.com/lukman-ss/software-engine'' @
    lit ''ering-lab/tree/main/labs/19-database-connect'' @ lit ''ion-pooling''\<close>

definition lab19_COMMIT_SHA :: pystr where
  \<open>lab19_COMMIT_SHA = lit ''b2d3274''\<close>

definition lab19_LAB_NO :: pystr where
  \<open>lab19_LAB_NO = lit ''19''\<close>

definition lab19_SLUG :: pystr where
  \<open>lab19_SLUG = lit ''database-connection-pooling''\<close>

definition lab19_TITLE_ID :: pystr where
  \<open>lab19_TITLE_ID = lit ''Database Connection Pooling''\<close>

definition lab19_SUBTITLE_ID :: pystr where
  \<open>lab19_SUBTITLE_ID = lit ''Overhead Handshake, Batas Server, dan '' @ lit ''Bahaya Kebocoran Koneksi di Go''\<close>

definition lab19_TITLE_EN :: pystr where
  \<open>lab19_TITLE_EN = lit ''Database Connection Pooling''\<close>

definition lab19_SUBTITLE_EN :: pystr where
  \<open>lab19_SUBTITLE_EN = lit ''Handshake Overhead, Server Slot Limits, and '' @
    lit ''Connection Leak Hazards in Go''\<close>

definition lab19_AUTHOR :: pystr where
  \<open>lab19_AUTHOR = lit ''Lukman / lukman-ss''\<close>

definition lab19_TOPIC_TAGS :: pystr where
  \<open>lab19_TOPIC_TAGS = lit ''Database '' @ [0x2022] @ lit '' Connection Pooling '' @ [0x2022] @
    lit '' Concurrency '' @ [0x2022] @ lit '' Resource Starvation '' @ [0x2022] @
    lit '' Go '' @ [0x2022] @ lit '' PostgreSQL''\<close>

definition lab19_COVER_IMAGE_PATH :: pystr where
  \<open>lab19_COVER_IMAGE_PATH = lit ''labs/19-database-connection-pooling/result/i'' @ lit ''mage-cover/cover_art.jpg''\<close>

definition lab19_add_slide :: "pycall \<Rightarrow> pyval list \<Rightarrow> (pyexc, pyval list) res" where
  "lab19_add_slide = add_slide_layout"

definition lab19_items_01 :: pyval where [lab19_contents]:
  \<open>lab19_items_01 =
   PyList
   [PyDict
     [(''type'', PyStr (lit ''cover'')),
      (''title'', PyStr []),
      (''items'', PyList
        [PyStr (lit ''Retro Terminal Visualizing Pool Sizing, '' @
            lit ''Server Saturation Knee & Leak Hazards''),
         PyStr (lit ''Simulasi database/sql/driver di Go: '' @
            lit ''Handshake Overhead, Server Exhaustion, dan '' @ lit ''Starvation''),
         PyStr (lit ''Penulis: '' @ lab19_AUTHOR)])]]\<close>

definition lab19_slide_01 :: pycall where [lab19_slides]:
  \<open>lab19_slide_01 =
   \<lparr>posargs = [],
  kwargs =
   [(''categories'', PyList
      [PyStr (lit ''COVER'')]),
    (''title'', PyStr lab19_TITLE_ID),
    (''subtitle'', PyStr lab19_SUBTITLE_ID),
    (''content_items'', lab19_items_01),
    (''mental_model'', PyStr (lit ''Database connections are scarce server-side '' @
        lit ''slots governed by hardware limits rather '' @
        lit ''than client goroutine counts.'')),
    (''source_path'', PyStr []),
    (''slide_num'', PyStr (lit ''01 / 24'')),
    (''layout'', PyStr (lit ''cover''))]\<rparr>\<close>

definition lab19_items_02 :: pyval where [lab19_contents]:
  \<open>lab19_items_02 =
   PyList
   [PyDict
     [(''type'', PyStr (lit ''cards'')),
      (''title'', PyStr (lit ''PARADOKS KEGAGALAN KONEKSI BASIS DATA'')),
      (''items'', PyList
        [PyDict
          [(''title'', PyStr (lit ''Penolakan Slot Keras'')),
           (''desc'', PyStr (lit ''PostgreSQL melempar galat FATAL: too many '' @
               lit ''clients saat slot max_connections terisi '' @ lit ''penuh.''))],
         PyDict
          [(''title'', PyStr (lit ''Bukan Berarti Rusak'')),
           (''desc'', PyStr (lit ''Galat koneksi bukan berarti server '' @
               lit ''kehabisan komputasi CPU, melainkan alokasi '' @
               lit ''slot backend habis.''))],
         PyDict
          [(''title'', PyStr (lit ''Refleks Salah Tim'')),
           (''desc'', PyStr (lit ''Menaikkan ukuran pool secara membabi buta '' @
               lit ''justru memperparah kontensi lock dan memicu '' @ lit ''degradasi.''))]])]]\<close>

definition lab19_slide_02 :: pycall where [lab19_slides]:
  \<open>lab19_slide_02 =
   \<lparr>posargs = [],
  kwargs =
   [(''categories'', PyList
      [PyStr (lit ''PROBLEM''),
       PyStr (lit ''RESOURCE EXHAUSTION'')]),
    (''title'', PyStr (lit ''Error Koneksi Meledak Saat Metrik CPU '' @ lit ''Database Normal'')),
    (''subtitle'', PyStr (lit ''Aplikasi menolak jutaan pengguna meski '' @
        lit ''utilitas server database masih sangat '' @ lit ''rendah.'')),
    (''content_items'', lab19_items_02),
    (''narrative'', PyStr (lit ''Banyak insiden produksi ditandai dengan '' @
        lit ''ledakan galat koneksi sementara CPU '' @
        lit ''database berada di bawah 30 persen. '' @
        lit ''Fenomena ini bukan berarti server mengalami '' @
        lit ''kerusakan komputasi internal, melainkan '' @
        lit ''slot koneksi habis dialokasikan oleh '' @
        lit ''kumpulan worker aplikasi yang tidak '' @ lit ''terkoordinasi.'')),
    (''narrative_en'', PyStr (lit ''Production outages frequently feature '' @
        lit ''spikes in connection failures while '' @
        lit ''database CPU utilization remains below 30 '' @
        lit ''percent. This phenomenon does not indicate '' @
        lit ''hardware computation failure; it proves '' @
        lit ''server process slots were exhausted by '' @
        lit ''uncoordinated application workers.'')),
    (''mental_model'', PyStr (lit ''Connection limits represent hard operating '' @
        lit ''system socket and memory slots rather than '' @ lit ''raw processing power.'')),
    (''source_path'', PyStr (lit ''content/02-master-draft.md:3-19'')),
    (''slide_num'', PyStr (lit ''02 / 24'')),
    (''layout'', PyStr (lit ''cards''))]\<rparr>\<close>

definition lab19_items_03 :: pyval where [lab19_contents]:
  \<open>lab19_items_03 =
   PyList
   [PyDict
     [(''type'', PyStr (lit ''cards'')),
      (''title'', PyStr (lit ''TITIK RUNTUH KONEKSI TANPA POOLING'')),
      (''items'', PyList
        [PyDict
          [(''title'', PyStr (lit ''Overhead Berulang'')),
           (''desc'', PyStr (lit ''Setiap koneksi menuntut negosiasi TCP 3-way '' @
               lit ''handshake, TLS exchange, serta autentikasi '' @ lit ''peran.''))],
         PyDict
          [(''title'', PyStr (lit ''Tekanan Backend'')),
           (''desc'', PyStr (lit ''Database wajib membuat proses backend baru '' @
               lit ''dan mengalokasikan work_mem untuk tiap '' @ lit ''request.''))],
         PyDict
          [(''title'', PyStr (lit ''Tidak Otomatis Cepat'')),
           (''desc'', PyStr (lit ''Membuka koneksi baru tidak otomatis '' @
               lit ''menyelesaikan beban; antrean pembuatan '' @
               lit ''soket memperlambat IO.''))]])]]\<close>

definition lab19_slide_03 :: pycall where [lab19_slides]:
  \<open>lab19_slide_03 =
   \<lparr>posargs = [],
  kwargs =
   [(''categories'', PyList
      [PyStr (lit ''WHY FAILS''),
       PyStr (lit ''NAIVE APPROACHES'')]),
    (''title'', PyStr (lit ''Pendekatan Naif Membuka Koneksi Per-Request '' @ lit ''Menghancurkan Latensi'')),
    (''subtitle'', PyStr (lit ''Membuat koneksi baru pada setiap query '' @
        lit ''menumpuk beban TCP dan TLS handshake.'')),
    (''content_items'', lab19_items_03),
    (''narrative'', PyStr (lit ''Pendekatan naif tanpa reuse mengabaikan '' @
        lit ''besarnya biaya inisialisasi jaringan dan '' @
        lit ''alokasi memori proses basis data. Membuka '' @
        lit ''koneksi baru untuk setiap request tidak '' @
        lit ''otomatis mempercepat eksekusi, melainkan '' @
        lit ''mengubur runtime aplikasi dalam tumpukan '' @
        lit ''latency handshake berulang.'')),
    (''narrative_en'', PyStr (lit ''Naive per-request connection instantiation '' @
        lit ''overlooks substantial network negotiation '' @
        lit ''and backend process allocation overheads. '' @
        lit ''Creating a fresh connection per transaction '' @
        lit ''does not automatically isolate workload; it '' @
        lit ''drowns the runtime under repetitive '' @ lit ''handshake latencies.'')),
    (''mental_model'', PyStr (lit ''Direct connection creation incurs recurring '' @
        lit ''network handshakes and expensive OS process '' @ lit ''allocation penalties.'')),
    (''source_path'', PyStr (lit ''content/02-master-draft.md:32-42'')),
    (''slide_num'', PyStr (lit ''03 / 24'')),
    (''layout'', PyStr (lit ''cards''))]\<rparr>\<close>

definition lab19_items_04 :: pyval where [lab19_contents]:
  \<open>lab19_items_04 =
   PyList
   [PyDict
     [(''type'', PyStr (lit ''schema'')),
      (''title'', PyStr (lit ''ANATOMI SIZING DAN SATURASI KONEKSI'')),
      (''items'', PyList
        [PyDict
          [(''phase'', PyStr (lit ''1. Inti Komputasi'')),
           (''role'', PyStr (lit ''Hardware CPU'')),
           (''desc'', PyStr (lit ''Koneksi konkuren efektif dibatasi core '' @
               lit ''fisik; rumus ((core * 2) + spindle) jadi '' @ lit ''acuan awal.''))],
         PyDict
          [(''phase'', PyStr (lit ''2. Client Pool'')),
           (''role'', PyStr (lit ''sql.DB Semaphore'')),
           (''desc'', PyStr (lit ''Mengatur antrean peminjam koneksi lokal; '' @
               lit ''mencegah goroutine menyerbu database '' @ lit ''serentak.''))],
         PyDict
          [(''phase'', PyStr (lit ''3. Saturation Knee'')),
           (''role'', PyStr (lit ''Degradasi Kurva'')),
           (''desc'', PyStr (lit ''Melewati titik jenuh, throughput anjlok '' @
               lit ''drastis akibat context switching dan lock '' @ lit ''contention.''))],
         PyDict
          [(''phase'', PyStr (lit ''4. Steady State'')),
           (''role'', PyStr (lit ''Ukuran Minimal'')),
           (''desc'', PyStr (lit ''Hanya pada jalur ini pool berukuran ringkas '' @
               lit ''menghasilkan throughput optimal dan stabil.''))]])]]\<close>

definition lab19_slide_04 :: pycall where [lab19_slides]:
  \<open>lab19_slide_04 =
   \<lparr>posargs = [],
  kwargs =
   [(''categories'', PyList
      [PyStr (lit ''MENTAL MODEL''),
       PyStr (lit ''POOL SIZING'')]),
    (''title'', PyStr (lit ''Model Mental Restoran: Sizing Ditentukan '' @ lit ''Hardware Backend'')),
    (''subtitle'', PyStr (lit ''Kapasitas koneksi dibatasi oleh inti CPU '' @
        lit ''dan disk, bukan nafsu request klien.'')),
    (''content_items'', lab19_items_04),
    (''narrative'', PyStr (lit ''Koneksi database bekerja layaknya meja '' @
        lit ''restoran di mana kapasitas dibatasi oleh '' @
        lit ''jumlah juru masak dapur, bukan antrean tamu '' @
        lit ''di depan pintu. Hanya pada jalur ini '' @
        lit ''penggunaan pool berukuran ringkas mampu '' @
        lit ''membatasi perebutan sumber daya internal '' @
        lit ''dan menghasilkan kestabilan throughput.'')),
    (''narrative_en'', PyStr (lit ''Database connections behave like restaurant '' @
        lit ''seating where throughput is governed by '' @
        lit ''kitchen cooks rather than waiting guests. '' @
        lit ''Only along this path does a compact pool '' @
        lit ''configuration constrain internal resource '' @
        lit ''contention and sustain optimal query '' @ lit ''throughput.'')),
    (''mental_model'', PyStr (lit ''Size connection pools to match backend '' @
        lit ''hardware concurrency constraints rather '' @
        lit ''than client request volume.'')),
    (''source_path'', PyStr (lit ''content/02-master-draft.md:20-29'')),
    (''slide_num'', PyStr (lit ''04 / 24'')),
    (''layout'', PyStr (lit ''schema''))]\<rparr>\<close>

definition lab19_items_05 :: pyval where [lab19_contents]:
  \<open>lab19_items_05 =
   PyList
   [PyDict
     [(''type'', PyStr (lit ''schema'')),
      (''title'', PyStr (lit ''ALUR PEMINJAMAN KONEKSI DALAM SQL.DB'')),
      (''items'', PyList
        [PyDict
          [(''phase'', PyStr (lit ''1. Request Conn'')),
           (''role'', PyStr (lit ''Acquire Token'')),
           (''desc'', PyStr (lit ''Worker meminta koneksi aktif via '' @
               lit ''pool.Conn(ctx); mengambil idle atau membuat '' @ lit ''baru.''))],
         PyDict
          [(''phase'', PyStr (lit ''2. Bounded Query'')),
           (''role'', PyStr (lit ''Execute Work'')),
           (''desc'', PyStr (lit ''Query dieksekusi secara singkat tanpa '' @
               lit ''operasi I/O eksternal di dalam siklus '' @ lit ''penguncian.''))],
         PyDict
          [(''phase'', PyStr (lit ''3. Immediate Return'')),
           (''role'', PyStr (lit ''defer conn.Close()'')),
           (''desc'', PyStr (lit ''Koneksi dikembalikan ke daftar idle pool; '' @
               lit ''siap dipakai ulang oleh worker berikutnya.''))],
         PyDict
          [(''phase'', PyStr (lit ''4. Proxy Layer'')),
           (''role'', PyStr (lit ''PgBouncer'')),
           (''desc'', PyStr (lit ''Proxy menerjemahkan ribuan pool aplikasi; '' @
               lit ''lab belum membuktikan multi-node proxy riil.''))]])]]\<close>

definition lab19_slide_05 :: pycall where [lab19_slides]:
  \<open>lab19_slide_05 =
   \<lparr>posargs = [],
  kwargs =
   [(''categories'', PyList
      [PyStr (lit ''PIPELINE''),
       PyStr (lit ''POOL LIFECYCLE'')]),
    (''title'', PyStr (lit ''Siklus Hidup Peminjaman: Pinjam, Eksekusi, '' @ lit ''dan Kembalikan'')),
    (''subtitle'', PyStr (lit ''Arsitektur pool mengelola antrean akuisisi '' @
        lit ''dan pemakaian ulang koneksi aktif.'')),
    (''content_items'', lab19_items_05),
    (''narrative'', PyStr (lit ''Setiap transaksi wajib meminjam koneksi '' @
        lit ''hanya untuk eksekusi query spesifik lalu '' @
        lit ''segera mengembalikannya ke pool via defer '' @
        lit ''conn.Close(). Simulasi lab memvalidasi '' @
        lit ''siklus peminjaman lokal ini, namun belum '' @
        lit ''membuktikan routing transaksi dinamis pada '' @
        lit ''kluster PgBouncer multi-node di produksi.'')),
    (''narrative_en'', PyStr (lit ''Every transaction must acquire a connection '' @
        lit ''exclusively for immediate query execution '' @
        lit ''and release it via defer conn.Close(). '' @
        lit ''While our lab validates this local '' @
        lit ''acquisition cycle, it has not yet proven '' @
        lit ''dynamic transaction routing across '' @ lit ''multi-node PgBouncer clusters.'')),
    (''mental_model'', PyStr (lit ''Connections must be borrowed for minimal '' @
        lit ''durations and returned immediately to '' @ lit ''maintain pool liquidity.'')),
    (''source_path'', PyStr (lit ''content/04-diagrams.md:1-29'')),
    (''slide_num'', PyStr (lit ''05 / 24'')),
    (''layout'', PyStr (lit ''schema''))]\<rparr>\<close>

definition lab19_items_06 :: pyval where [lab19_contents]:
  \<open>lab19_items_06 =
   PyList
   [PyDict
     [(''type'', PyStr (lit ''code'')),
      (''title'', PyStr (lit ''internal/pool/service.go'')),
      (''items'', PyList
        [PyStr (lit ''func (s *OrderService) ProcessOrderSafe(ctx '' @
            lit ''context.Context, orderID int, externalCall '' @
            lit ''func() error) error {''),
         PyStr (lit ''    if externalCall != nil {''),
         PyStr (lit ''        if err := externalCall(); err != '' @ lit ''nil { return err }''),
         PyStr (lit ''    }''),
         PyStr (lit ''    conn, err := s.db.Conn(ctx)''),
         PyStr (lit ''    if err != nil { return err }''),
         PyStr (lit ''    defer conn.Close()''),
         PyStr (lit ''    _, err = conn.ExecContext(ctx, "UPDATE '' @
            lit ''orders SET status = '' @ [39] @ lit ''completed'' @ [39] @
            lit '' WHERE id = ?", orderID)''),
         PyStr (lit ''    return err''),
         PyStr (lit ''}'')])]]\<close>

definition lab19_slide_06 :: pycall where [lab19_slides]:
  \<open>lab19_slide_06 =
   \<lparr>posargs = [],
  kwargs =
   [(''categories'', PyList
      [PyStr (lit ''IMPLEMENTATION''),
       PyStr (lit ''SAFE PATTERN'')]),
    (''title'', PyStr (lit ''Pola Eksekusi Bersih: Isolasi I/O Eksternal '' @ lit ''dari Koneksi'')),
    (''subtitle'', PyStr (lit ''Memisahkan panggilan jaringan pihak ketiga '' @
        lit ''dari siklus penahanan koneksi database.'')),
    (''content_items'', lab19_items_06),
    (''narrative'', PyStr (lit ''Fungsi ProcessOrderSafe menuntaskan '' @
        lit ''panggilan API eksternal terlebih dahulu '' @
        lit ''sebelum meminjam koneksi dari database '' @
        lit ''pool. Menunda akuisisi koneksi bukan '' @
        lit ''berarti menambah latensi alur, melainkan '' @
        lit ''menjamin koneksi database hanya ditahan '' @
        lit ''selama beberapa mikrodetik pada saat query '' @ lit ''dieksekusi.'')),
    (''narrative_en'', PyStr (lit ''The ProcessOrderSafe method executes '' @
        lit ''external network calls completely prior to '' @
        lit ''acquiring a database connection. Postponing '' @
        lit ''connection acquisition does not increase '' @
        lit ''end-to-end latency; it guarantees database '' @
        lit ''sockets are held for mere microseconds '' @ lit ''during query execution.'')),
    (''mental_model'', PyStr (lit ''Acquire database connections at the '' @
        lit ''absolute latest moment and release them at '' @
        lit ''the earliest opportunity.'')),
    (''source_path'', PyStr (lit ''internal/pool/service.go:16-34'')),
    (''slide_num'', PyStr (lit ''06 / 24'')),
    (''layout'', PyStr (lit ''code''))]\<rparr>\<close>

definition lab19_items_07 :: pyval where [lab19_contents]:
  \<open>lab19_items_07 =
   PyList
   [PyDict
     [(''type'', PyStr (lit ''cards'')),
      (''title'', PyStr (lit ''ALUR KEGAGALAN AKIBAT KONEKSI TERTOMBAK'')),
      (''items'', PyList
        [PyDict
          [(''title'', PyStr (lit ''Langkah 1: Tahan Soket'')),
           (''desc'', PyStr (lit ''Worker A meminjam koneksi, menjalankan '' @
               lit ''UPDATE, lalu memanggil API lambat tanpa '' @ lit ''melepas soket.''))],
         PyDict
          [(''title'', PyStr (lit ''Langkah 2: Pool Kritis'')),
           (''desc'', PyStr (lit ''Semua slot pool terisi oleh worker yang '' @
               lit ''menanti respons jaringan pihak ketiga '' @ lit ''(500ms).''))],
         PyDict
          [(''title'', PyStr (lit ''Langkah 3: Antrean Tercekat'')),
           (''desc'', PyStr (lit ''Worker B yang memiliki kode benar mencoba '' @
               lit ''meminjam koneksi namun masuk antrean tunggu.''))],
         PyDict
          [(''title'', PyStr (lit ''Langkah 4: Context Timeout'')),
           (''desc'', PyStr (lit ''Hanya pada jalur ini Worker B gugur dengan '' @
               lit ''galat Deadline Exceeded akibat pool '' @ lit ''starvation.''))]])]]\<close>

definition lab19_slide_07 :: pycall where [lab19_slides]:
  \<open>lab19_slide_07 =
   \<lparr>posargs = [],
  kwargs =
   [(''categories'', PyList
      [PyStr (lit ''FAILURE PATH''),
       PyStr (lit ''CONNECTION LEAK'')]),
    (''title'', PyStr (lit ''Kronologi Kebocoran Koneksi yang Memicu '' @ lit ''Starvation'')),
    (''subtitle'', PyStr (lit ''Satu fungsi tidak disiplin memblokir '' @
        lit ''seluruh request sehat hingga batas timeout.'')),
    (''content_items'', lab19_items_07),
    (''narrative'', PyStr (lit ''Menahan koneksi database selama pemrosesan '' @
        lit ''I/O pihak ketiga adalah racun arsitektur '' @
        lit ''yang melumpuhkan ketersediaan pool. Hanya '' @
        lit ''pada jalur ini request sehat yang kodenya '' @
        lit ''bersih ikut mati akibat context deadline '' @
        lit ''exceeded karena kehabisan slot koneksi yang '' @ lit ''tersandera.'')),
    (''narrative_en'', PyStr (lit ''Retaining database connections during slow '' @
        lit ''third-party network I/O is an architectural '' @
        lit ''hazard that starves connection pools. Only '' @
        lit ''along this path do completely healthy '' @
        lit ''requests abort with deadline exceeded '' @
        lit ''errors due to unreleased socket '' @ lit ''hostage-taking.'')),
    (''mental_model'', PyStr (lit ''Holding shared connection slots during slow '' @
        lit ''external I/O creates systemic pool '' @
        lit ''starvation for healthy requests.'')),
    (''source_path'', PyStr (lit ''content/04-diagrams.md:32-54'')),
    (''slide_num'', PyStr (lit ''07 / 24'')),
    (''layout'', PyStr (lit ''cards''))]\<rparr>\<close>

definition lab19_items_08 :: pyval where [lab19_contents]:
  \<open>lab19_items_08 =
   PyList
   [PyDict
     [(''title'', PyStr (lit ''PERBANDINGAN ANOMALI MANAJEMEN KONEKSI'')),
      (''items'', PyList
        [PyStr (lit ''Dimensi Masalah | Unpooled (No Reuse) | '' @
            lit ''Oversized Pool | Connection Leak '' @ lit ''(Starvation)''),
         PyStr (lit ''Mekanisme Akar | SetMaxIdleConns(0) tutup '' @
            lit ''koneksi | Client pool > server limit | '' @
            lit ''Koneksi ditahan saat I/O eksternal''),
         PyStr (lit ''Gejala di Server | CPU spike akibat '' @
            lit ''handshake TCP | Error: too many clients | '' @
            lit ''CPU database terlihat normal/idle''),
         PyStr (lit ''Dampak Latensi | Latensi baseline tinggi di '' @
            lit ''p99 | Antrean lock & context switch | '' @
            lit ''Lonjakan waktu tunggu akuisisi pool''),
         PyStr (lit ''Manifestasi Error | Koneksi gagal di '' @
            lit ''lonjakan tinggi | ErrServerOverloaded / PG '' @
            lit ''53300 | Context Deadline Exceeded pada klien''),
         PyStr (lit ''Mitigasi Utama | Aktifkan idle pool reuse | '' @
            lit ''Hitung sizing total deployment | Isolasi '' @
            lit ''I/O & leakDetectionThreshold'')]),
      (''type'', PyStr (lit ''table''))]]\<close>

definition lab19_slide_08 :: pycall where [lab19_slides]:
  \<open>lab19_slide_08 =
   \<lparr>posargs = [],
  kwargs =
   [(''categories'', PyList
      [PyStr (lit ''COMPARISON''),
       PyStr (lit ''FAILURE MODES'')]),
    (''title'', PyStr (lit ''Matriks Diagnostik: Patologi Koneksi Basis '' @ lit ''Data'')),
    (''subtitle'', PyStr (lit ''Membedakan karakteristik teknis antara '' @
        lit ''unpooled, oversized pool, dan connection '' @ lit ''leak.'')),
    (''content_items'', lab19_items_08),
    (''narrative'', PyStr (lit ''Tabel ini memetakan perbedaan akar masalah '' @
        lit ''antara tanpa pool, pool terlalu besar, dan '' @
        lit ''kebocoran penahanan koneksi. Kebocoran '' @
        lit ''koneksi memiliki karakteristik paling '' @
        lit ''berbahaya karena server database terlihat '' @
        lit ''sehat padahal antrean klien mengalami '' @ lit ''kelaparan ekstrem.'')),
    (''narrative_en'', PyStr (lit ''This diagnostic matrix contrasts the '' @
        lit ''distinct failure mechanisms of unpooled '' @
        lit ''drivers, oversized pools, and connection '' @
        lit ''leaks. Connection leaks represent the most '' @
        lit ''insidious failure mode because the database '' @
        lit ''displays low resource usage while clients '' @ lit ''starve.'')),
    (''mental_model'', PyStr (lit ''Diagnose connection anomalies by '' @
        lit ''correlating application pool wait times '' @
        lit ''against database backend slot usage.'')),
    (''source_path'', PyStr (lit ''content/02-master-draft.md:128-165'')),
    (''slide_num'', PyStr (lit ''08 / 24'')),
    (''layout'', PyStr (lit ''table''))]\<rparr>\<close>

definition lab19_items_09 :: pyval where [lab19_contents]:
  \<open>lab19_items_09 =
   PyList
   [PyDict
     [(''type'', PyStr (lit ''cards'')),
      (''title'', PyStr (lit ''PANDUAN PENETAPAN SIZING KONEKSI'')),
      (''items'', PyList
        [PyDict
          [(''title'', PyStr (lit ''1. Hitung Skala Global'')),
           (''desc'', PyStr (lit ''Total koneksi = (jumlah instance '' @ [0xD7] @
               lit '' pool size); wajib di bawah max_connections '' @ lit ''database.''))],
         PyDict
          [(''title'', PyStr (lit ''2. Sisihkan Slot Cadangan'')),
           (''desc'', PyStr (lit ''Kurangi minimal 15 koneksi untuk superuser, '' @
               lit ''replikasi fisik, dan monitoring sistem.''))],
         PyDict
          [(''title'', PyStr (lit ''3. Formula Titik Awal'')),
           (''desc'', PyStr (lit ''Gunakan ((core * 2) + disk); bukan berarti '' @
               lit ''angka mutlak, melainkan basis uji beban.''))]])]]\<close>

definition lab19_slide_09 :: pycall where [lab19_slides]:
  \<open>lab19_slide_09 =
   \<lparr>posargs = [],
  kwargs =
   [(''categories'', PyList
      [PyStr (lit ''DECISION SEQUENCE''),
       PyStr (lit ''POOL TUNING'')]),
    (''title'', PyStr (lit ''Tiga Prinsip Esensial Penentuan Ukuran Pool'')),
    (''subtitle'', PyStr (lit ''Hierarki keputusan rekayasa untuk '' @
        lit ''mengamankan stabilitas koneksi sistem.'')),
    (''content_items'', lab19_items_09),
    (''narrative'', PyStr (lit ''Penetapan ukuran pool wajib memperhitungkan '' @
        lit ''total armada aplikasi yang terpasang pada '' @
        lit ''kluster produksi. Mengadopsi rumus ((core * '' @
        lit ''2) + disk) bukan berarti mendapatkan angka '' @
        lit ''sakral tanpa cela, melainkan menetapkan '' @
        lit ''baseline terukur yang wajib divalidasi '' @ lit ''lewat pengujian beban.'')),
    (''narrative_en'', PyStr (lit ''Connection pool sizing must aggregate the '' @
        lit ''entire fleet of application instances '' @
        lit ''deployed against the cluster. Adopting the '' @
        lit ''((core * 2) + disk) formula does not yield '' @
        lit ''an infallible universal constant; it '' @
        lit ''provides a rational baseline for empirical '' @ lit ''load testing.'')),
    (''mental_model'', PyStr (lit ''Enforce deployment-wide connection limits '' @
        lit ''and validate core-based sizing formulas '' @
        lit ''through empirical stress tests.'')),
    (''source_path'', PyStr (lit ''content/02-master-draft.md:43-69'')),
    (''slide_num'', PyStr (lit ''09 / 24'')),
    (''layout'', PyStr (lit ''cards''))]\<rparr>\<close>

definition lab19_items_10 :: pyval where [lab19_contents]:
  \<open>lab19_items_10 =
   PyList
   [PyDict
     [(''type'', PyStr (lit ''code'')),
      (''title'', PyStr (lit ''TERMINAL OUTPUT: go test -v -race ./... && '' @ lit ''go run ./cmd/demo'')),
      (''items'', PyList
        [PyStr (lit ''=== RUN   TestDirectConnectionOverhead''),
         PyStr (lit ''--- PASS: TestDirectConnectionOverhead '' @
            lit ''(0.03s) [pooled faster than unpooled]''),
         PyStr (lit ''=== RUN   TestOversizedPoolExhaustsServerCon'' @ lit ''nections''),
         PyStr (lit ''--- PASS: TestOversizedPoolExhaustsServerCon'' @
            lit ''nections (0.02s) [10 rejected]''),
         PyStr (lit ''=== RUN   TestConnectionStarvationDueToLeak''),
         PyStr (lit ''--- PASS: TestConnectionStarvationDueToLeak '' @
            lit ''(0.02s) [deadline exceeded]''),
         PyStr (lit ''=== RUN   TestTotalCreatedPoolReuse''),
         PyStr (lit ''--- PASS: TestTotalCreatedPoolReuse (0.00s) '' @
            lit ''[reuse verified: 1 vs 5]''),
         PyStr (lit ''PASS: ok  labs/19-database-connection-poolin'' @
            lit ''g/tests  1.328s (race clean)''),
         PyStr (lit ''1. Unpooled: 54.59ms vs Pooled: 6.33'' @ [0xB5] @ lit ''s''),
         PyStr (lit ''2. Oversized Pool: Attempted 30, Succeeded '' @
            lit ''15, Server Rejected 15''),
         PyStr (lit ''3. Starvation: Order 3 Failed: context '' @ lit ''deadline exceeded'')])]]\<close>

definition lab19_slide_10 :: pycall where [lab19_slides]:
  \<open>lab19_slide_10 =
   \<lparr>posargs = [],
  kwargs =
   [(''categories'', PyList
      [PyStr (lit ''EVIDENCE''),
       PyStr (lit ''EXECUTION'')]),
    (''title'', PyStr (lit ''Verifikasi Eksekusi: Test Suite dan CLI '' @ lit ''Demo Lolos Bersih'')),
    (''subtitle'', PyStr (lit ''Output terminal membuktikan penalti '' @
        lit ''unpooled, penolakan server, dan deteksi '' @ lit ''starvation.'')),
    (''content_items'', lab19_items_10),
    (''narrative'', PyStr (lit ''Hasil eksekusi membuktikan sepuluh skenario '' @
        lit ''uji lolos sempurna tanpa data race di bawah '' @
        lit ''Go race detector. Demonstrasi CLI '' @
        lit ''mengonfirmasi keunggulan reuse mikrodetik '' @
        lit ''atas handshake milidetik, penolakan tepat '' @
        lit ''15 request saat server saturasi, serta '' @
        lit ''isolasi kegagalan pada kebocoran koneksi.'')),
    (''narrative_en'', PyStr (lit ''Execution output confirms all ten test '' @
        lit ''scenarios pass cleanly with zero data races '' @
        lit ''under the Go race detector. The CLI '' @
        lit ''demonstration verifies microsecond reuse '' @
        lit ''advantages over millisecond handshakes, '' @
        lit ''exact server rejection under saturation, '' @
        lit ''and leak-induced timeouts.'')),
    (''mental_model'', PyStr (lit ''Deterministic mock testing provides '' @
        lit ''empirical verification of connection '' @
        lit ''lifecycle bottlenecks and exhaustion limits.'')),
    (''source_path'', PyStr (lit ''engineering/03-execution-result.md:1-55'')),
    (''slide_num'', PyStr (lit ''10 / 24'')),
    (''layout'', PyStr (lit ''code''))]\<rparr>\<close>

definition lab19_items_11 :: pyval where [lab19_contents]:
  \<open>lab19_items_11 =
   PyList
   [PyDict
     [(''type'', PyStr (lit ''cards'')),
      (''title'', PyStr (lit ''BATAS PEMBUKTIAN SISTEM LAB 19'')),
      (''items'', PyList
        [PyDict
          [(''title'', PyStr (lit ''YANG DIBUKTIKAN'')),
           (''desc'', PyStr (lit ''Overhead koneksi baru, penolakan slot '' @
               lit ''server, pool starvation, dan penanganan '' @ lit ''double close.''))],
         PyDict
          [(''title'', PyStr (lit ''YANG TIDAK DIBUKTIKAN'')),
           (''desc'', PyStr (lit ''Alokasi work_mem per backend, lock '' @
               lit ''contention engine, OOM PostgreSQL, dan TCP '' @ lit ''keepalive.''))],
         PyDict
          [(''title'', PyStr (lit ''BATAS KLAIM EMPIRIS'')),
           (''desc'', PyStr (lit ''Lab belum membuktikan efektivitas formula '' @
               lit ''core pada NVMe SSD modern berkecepatan '' @ lit ''tinggi.''))]])]]\<close>

definition lab19_slide_11 :: pycall where [lab19_slides]:
  \<open>lab19_slide_11 =
   \<lparr>posargs = [],
  kwargs =
   [(''categories'', PyList
      [PyStr (lit ''AUDIT''),
       PyStr (lit ''EVIDENCE BOUNDARY'')]),
    (''title'', PyStr (lit ''Batasan Bukti Lab: Yang Dibuktikan vs Belum'')),
    (''subtitle'', PyStr (lit ''Menegaskan batas simulasi in-memory '' @
        lit ''terhadap kompleksitas database PostgreSQL '' @ lit ''riil.'')),
    (''content_items'', lab19_items_11),
    (''narrative'', PyStr (lit ''Lab ini membuktikan mekanika dasar '' @
        lit ''peminjaman pool dan batas penolakan slot '' @
        lit ''menggunakan mock driver in-memory. '' @
        lit ''Pengujian ini belum membuktikan perilaku '' @
        lit ''internal mesin database PostgreSQL nyata '' @
        lit ''seperti pemborosan memori work_mem atau '' @
        lit ''saturasi IOPS pada SSD NVMe.'')),
    (''narrative_en'', PyStr (lit ''This lab proves fundamental pooling '' @
        lit ''mechanics and slot rejection thresholds '' @
        lit ''using an in-memory mock driver. It has not '' @
        lit ''yet proven production PostgreSQL internals '' @
        lit ''such as work_mem memory pressure or storage '' @
        lit ''IOPS saturation on modern NVMe SSDs.'')),
    (''mental_model'', PyStr (lit ''Distinguish application connection pool '' @
        lit ''queuing from internal database engine '' @
        lit ''process and memory management.'')),
    (''source_path'', PyStr (lit ''content/02-master-draft.md:164-165'')),
    (''slide_num'', PyStr (lit ''11 / 24'')),
    (''layout'', PyStr (lit ''cards''))]\<rparr>\<close>

definition lab19_items_12 :: pyval where [lab19_contents]:
  \<open>lab19_items_12 =
   PyList
   [PyDict
     [(''type'', PyStr (lit ''cards'')),
      (''title'', PyStr (lit ''ANALISIS PERBANDINGAN TRADE-OFF'')),
      (''items'', PyList
        [PyDict
          [(''title'', PyStr (lit ''Pool Kecil: Protektif'')),
           (''desc'', PyStr (lit ''Database beroperasi prima tanpa kejenuhan; '' @
               lit ''request yang meluap wajib sabar mengantre '' @ lit ''di aplikasi.''))],
         PyDict
          [(''title'', PyStr (lit ''Pool Besar: Ilusi Konkurensi'')),
           (''desc'', PyStr (lit ''Menampung lonjakan sesaat, namun memicu '' @
               lit ''kontensi lock parah dan risiko kehabisan '' @ lit ''RAM.''))],
         PyDict
          [(''title'', PyStr (lit ''Tidak Otomatis Aman'')),
           (''desc'', PyStr (lit ''Memperbesar pool tidak otomatis menaikkan '' @
               lit ''throughput bila kapasitas eksekusi disk '' @ lit ''database jenuh.''))]])]]\<close>

definition lab19_slide_12 :: pycall where [lab19_slides]:
  \<open>lab19_slide_12 =
   \<lparr>posargs = [],
  kwargs =
   [(''categories'', PyList
      [PyStr (lit ''TRADE-OFF''),
       PyStr (lit ''COSTS & BENEFITS'')]),
    (''title'', PyStr (lit ''Kompromi Rekayasa: Pool Kecil vs Pool Besar'')),
    (''subtitle'', PyStr (lit ''Mengevaluasi konsekuensi operasional antara '' @
        lit ''antrean antarmuka dan kestabilan backend.'')),
    (''content_items'', lab19_items_12),
    (''narrative'', PyStr (lit ''Memilih ukuran pool adalah seni '' @
        lit ''menyeimbangkan antrean di sisi aplikasi '' @
        lit ''melawan stabilitas mesin basis data. '' @
        lit ''Memperbesar ukuran pool tidak otomatis '' @
        lit ''meningkatkan kecepatan pemrosesan jika '' @
        lit ''konkurensi tambahan tersebut hanya memicu '' @
        lit ''perkelahian lock internal dan thrashing '' @ lit ''memori.'')),
    (''narrative_en'', PyStr (lit ''Tuning pool sizing balances client-side '' @
        lit ''wait queues against database engine '' @
        lit ''stability. Expanding pool size does not '' @
        lit ''automatically increase transaction '' @
        lit ''throughput if additional concurrency merely '' @
        lit ''induces lock contention and memory '' @ lit ''thrashing.'')),
    (''mental_model'', PyStr (lit ''Trade client-side acquisition latency for '' @
        lit ''backend stability by maintaining compact '' @ lit ''connection pools.'')),
    (''source_path'', PyStr (lit ''content/02-master-draft.md:13-19'')),
    (''slide_num'', PyStr (lit ''12 / 24'')),
    (''layout'', PyStr (lit ''cards''))]\<rparr>\<close>

definition lab19_items_13 :: pyval where [lab19_contents]:
  \<open>lab19_items_13 =
   PyList
   [PyDict
     [(''type'', PyStr (lit ''code'')),
      (''title'', PyStr (lit ''internal/pool/mockdb.go'')),
      (''items'', PyList
        [PyStr (lit ''func (d *MockDriver) Open(name string) '' @ lit ''(driver.Conn, error) {''),
         PyStr (lit ''    if d.connectDelay > 0 { '' @ lit ''time.Sleep(d.connectDelay) }''),
         PyStr (lit ''    d.mu.Lock()''),
         PyStr (lit ''    defer d.mu.Unlock()''),
         PyStr (lit ''    if d.maxConnections > 0 && '' @
            lit ''atomic.LoadInt32(&d.activeConns) >= '' @ lit ''d.maxConnections {''),
         PyStr (lit ''        return nil, ErrServerOverloaded''),
         PyStr (lit ''    }''),
         PyStr (lit ''    atomic.AddInt32(&d.activeConns, 1)''),
         PyStr (lit ''    atomic.AddInt32(&d.totalCreated, 1)''),
         PyStr (lit ''    return &mockConn{driver: d}, nil''),
         PyStr (lit ''}'')])]]\<close>

definition lab19_slide_13 :: pycall where [lab19_slides]:
  \<open>lab19_slide_13 =
   \<lparr>posargs = [],
  kwargs =
   [(''categories'', PyList
      [PyStr (lit ''CONCURRENCY''),
       PyStr (lit ''MOCK DRIVER'')]),
    (''title'', PyStr (lit ''Mekanisme Pengendali Koneksi Menggunakan '' @ lit ''Atomic Counter'')),
    (''subtitle'', PyStr (lit ''Simulasi batas server dan pencatatan '' @
        lit ''koneksi aktif dengan perlindungan '' @ lit ''thread-safe.'')),
    (''content_items'', lab19_items_13),
    (''narrative'', PyStr (lit ''MockDriver mengendalikan pembukaan koneksi '' @
        lit ''dengan menyimulasikan delay handshake dan '' @
        lit ''menolak permintaan saat batas activeConns '' @
        lit ''tercapai. Simulasi ini tidak sama dengan '' @
        lit ''proses forking postgres di Linux, namun '' @
        lit ''secara akurat merefleksikan penolakan slot '' @
        lit ''keras pada beban tinggi.'')),
    (''narrative_en'', PyStr (lit ''MockDriver regulates connection creation by '' @
        lit ''injecting artificial handshake delay and '' @
        lit ''enforcing strict activeConns limits. While '' @
        lit ''this simulation is not identical to Linux '' @
        lit ''postgres process forks, it accurately '' @
        lit ''models hard slot rejection under saturation.'')),
    (''mental_model'', PyStr (lit ''Atomic tracking of active socket handles '' @
        lit ''enforces deterministic connection bounds '' @
        lit ''across concurrent goroutines.'')),
    (''source_path'', PyStr (lit ''internal/pool/mockdb.go:33-49'')),
    (''slide_num'', PyStr (lit ''13 / 24'')),
    (''layout'', PyStr (lit ''code''))]\<rparr>\<close>

definition lab19_items_14 :: pyval where [lab19_contents]:
  \<open>lab19_items_14 =
   PyList
   [PyDict
     [(''type'', PyStr (lit ''cards'')),
      (''title'', PyStr (lit ''KOMPARASI KONDISI EKSEKUSI LAYANAN'')),
      (''items'', PyList
        [PyDict
          [(''title'', PyStr (lit ''Sebelum: Tahan Sembrono'')),
           (''desc'', PyStr (lit ''Koneksi dipinjam sebelum API pihak ketiga '' @
               lit ''dipanggil; soket tersandera selama ratusan '' @ lit ''milidetik.''))],
         PyDict
          [(''title'', PyStr (lit ''Sesudah: Peminjaman Sempit'')),
           (''desc'', PyStr (lit ''API eksternal diselesaikan lebih dulu; '' @
               lit ''koneksi hanya dipinjam selama mikrosekon '' @ lit ''eksekusi SQL.''))],
         PyDict
          [(''title'', PyStr (lit ''Bukan Berarti Lambat'')),
           (''desc'', PyStr (lit ''Memecah alur bukan berarti memperlambat '' @
               lit ''kode; pool terbebas dari ancaman kelaparan '' @ lit ''sistemik.''))]])]]\<close>

definition lab19_slide_14 :: pycall where [lab19_slides]:
  \<open>lab19_slide_14 =
   \<lparr>posargs = [],
  kwargs =
   [(''categories'', PyList
      [PyStr (lit ''COMPARISON''),
       PyStr (lit ''BEFORE VS AFTER'')]),
    (''title'', PyStr (lit ''Transformasi: Dari Koneksi Bocor ke '' @ lit ''Eksekusi Terisolasi'')),
    (''subtitle'', PyStr (lit ''Pergeseran dari penahanan soket sembrono '' @
        lit ''menuju disiplin peminjaman minimal.'')),
    (''content_items'', lab19_items_14),
    (''narrative'', PyStr (lit ''Sebelum refaktorisasi, koneksi database '' @
        lit ''disandera selama panggilan jaringan '' @
        lit ''eksternal berlangsung lambat. Memecah alur '' @
        lit ''eksekusi bukan berarti menambah '' @
        lit ''kompleksitas, melainkan membebaskan pool '' @
        lit ''dari ancaman starvation sehingga puluhan '' @
        lit ''transaksi lain dapat berjalan mulus.'')),
    (''narrative_en'', PyStr (lit ''Prior to refactoring, database connections '' @
        lit ''remained captive during slow third-party '' @
        lit ''network transmissions. Decoupling the '' @
        lit ''execution pipeline does not introduce code '' @
        lit ''bloat; it liberates the pool from '' @
        lit ''starvation so dozens of concurrent '' @ lit ''transactions succeed.'')),
    (''mental_model'', PyStr (lit ''Isolate slow I/O boundaries outside '' @
        lit ''database connection scopes to preserve '' @ lit ''shared pool availability.'')),
    (''source_path'', PyStr (lit ''content/02-master-draft.md:135-146'')),
    (''slide_num'', PyStr (lit ''14 / 24'')),
    (''layout'', PyStr (lit ''cards''))]\<rparr>\<close>

definition lab19_items_15 :: pyval where [lab19_contents]:
  \<open>lab19_items_15 =
   PyList
   [PyDict
     [(''type'', PyStr (lit ''code'')),
      (''title'', PyStr (lit ''internal/pool/service.go'')),
      (''items'', PyList
        [PyStr (lit ''func (s *OrderService) '' @
            lit ''ProcessOrderUnsafeLeak(ctx context.Context, '' @
            lit ''orderID int, externalCall func() error) '' @ lit ''error {''),
         PyStr (lit ''    conn, err := s.db.Conn(ctx)''),
         PyStr (lit ''    if err != nil { return err }''),
         PyStr (lit ''    defer conn.Close()''),
         PyStr (lit ''    _, err = conn.ExecContext(ctx, "UPDATE '' @
            lit ''orders SET status = '' @ [39] @ lit ''processing'' @ [39] @
            lit '' WHERE id = ?", orderID)''),
         PyStr (lit ''    if err != nil { return err }''),
         PyStr (lit ''    if externalCall != nil {''),
         PyStr (lit ''        if err := externalCall(); err != '' @ lit ''nil { return err }''),
         PyStr (lit ''    }''),
         PyStr (lit ''    return nil''),
         PyStr (lit ''}'')])]]\<close>

definition lab19_slide_15 :: pycall where [lab19_slides]:
  \<open>lab19_slide_15 =
   \<lparr>posargs = [],
  kwargs =
   [(''categories'', PyList
      [PyStr (lit ''ANALYSIS''),
       PyStr (lit ''LEAK MECHANISM'')]),
    (''title'', PyStr (lit ''Anatomi Kode Berbahaya: Menyandera Koneksi '' @ lit ''Saat I/O Lambat'')),
    (''subtitle'', PyStr (lit ''Pola anti-pattern ProcessOrderUnsafeLeak '' @
        lit ''yang mengunci soket database.'')),
    (''content_items'', lab19_items_15),
    (''narrative'', PyStr (lit ''Metode ProcessOrderUnsafeLeak menahan '' @
        lit ''koneksi aktif ketika fungsi externalCall '' @
        lit ''dijalankan. Bahaya penahanan soket ini '' @
        lit ''cakupannya mengikuti test starvation lab, '' @
        lit ''membuktikan bahwa penundaan defer '' @
        lit ''conn.Close() selama I/O eksternal secara '' @
        lit ''langsung memblokir antrean peminjam lain.'')),
    (''narrative_en'', PyStr (lit ''ProcessOrderUnsafeLeak keeps the database '' @
        lit ''connection locked while the externalCall '' @
        lit ''closure executes. The hazard of this '' @
        lit ''prolonged hold strictly matches our '' @
        lit ''starvation test suite, demonstrating that '' @
        lit ''deferring conn.Close() across external I/O '' @
        lit ''directly starves borrowers.'')),
    (''mental_model'', PyStr (lit ''Holding open connections across unbounded '' @
        lit ''network boundaries creates artificial '' @ lit ''throughput bottlenecks.'')),
    (''source_path'', PyStr (lit ''internal/pool/service.go:36-57'')),
    (''slide_num'', PyStr (lit ''15 / 24'')),
    (''layout'', PyStr (lit ''code''))]\<rparr>\<close>

definition lab19_items_16 :: pyval where [lab19_contents]:
  \<open>lab19_items_16 =
   PyList
   [PyDict
     [(''type'', PyStr (lit ''code'')),
      (''title'', PyStr (lit ''tests/pool_test.go'')),
      (''items'', PyList
        [PyStr (lit ''func TestDirectConnectionOverhead(t '' @ lit ''*testing.T) {''),
         PyStr (lit ''    mockDriver := pool.NewMockDriver(100, '' @ lit ''5*time.Millisecond)''),
         PyStr (lit ''    unpooledDB := pool.OpenDB(mockDriver)''),
         PyStr (lit ''    unpooledDB.SetMaxIdleConns(0) // '' @
            lit ''Memaksa pembukaan koneksi baru setiap kali''),
         PyStr (lit ''    // Eksekusi 5 query unpooled '' @
            lit ''menghasilkan akumulasi delay 25ms+''),
         PyStr (lit ''    pooledDB := pool.OpenDB(mockDriver)''),
         PyStr (lit ''    pooledDB.SetMaxIdleConns(5)''),
         PyStr (lit ''    pooledDB.SetMaxOpenConns(5)''),
         PyStr (lit ''    // Eksekusi 5 query pooled memakai '' @
            lit ''ulang koneksi idle yang sama''),
         PyStr (lit ''    if pooledDuration >= unpooledDuration { '' @
            lit ''t.Errorf("expected pooled to be faster") }''),
         PyStr (lit ''}'')])]]\<close>

definition lab19_slide_16 :: pycall where [lab19_slides]:
  \<open>lab19_slide_16 =
   \<lparr>posargs = [],
  kwargs =
   [(''categories'', PyList
      [PyStr (lit ''ANALYSIS''),
       PyStr (lit ''OVERHEAD VERIFICATION'')]),
    (''title'', PyStr (lit ''Verifikasi Test: Membuktikan Penalti '' @ lit ''Pembuatan Koneksi Langsung'')),
    (''subtitle'', PyStr (lit ''Membandingkan latensi eksekusi antara '' @
        lit ''SetMaxIdleConns(0) dan pool aktif.'')),
    (''content_items'', lab19_items_16),
    (''narrative'', PyStr (lit ''TestDirectConnectionOverhead membuktikan '' @
        lit ''bahwa pool dengan idle connections selalu '' @
        lit ''lebih cepat daripada pembukaan koneksi baru '' @
        lit ''di tiap query. Menjalankan query pada '' @
        lit ''database tidak otomatis menghasilkan '' @
        lit ''performa optimal tanpa konfigurasi idle '' @ lit ''pool yang memadai.'')),
    (''narrative_en'', PyStr (lit ''TestDirectConnectionOverhead proves that '' @
        lit ''pooled reuse consistently outperforms fresh '' @
        lit ''connection allocation on every query. '' @
        lit ''Executing database operations does not '' @
        lit ''automatically yield acceptable throughput '' @
        lit ''without an appropriately tuned idle '' @ lit ''connection pool.'')),
    (''mental_model'', PyStr (lit ''Reusing warm connection handles bypasses '' @
        lit ''socket setup latencies, ensuring '' @ lit ''microsecond query dispatch.'')),
    (''source_path'', PyStr (lit ''tests/pool_test.go:13-49'')),
    (''slide_num'', PyStr (lit ''16 / 24'')),
    (''layout'', PyStr (lit ''code''))]\<rparr>\<close>

definition lab19_items_17 :: pyval where [lab19_contents]:
  \<open>lab19_items_17 =
   PyList
   [PyDict
     [(''type'', PyStr (lit ''code'')),
      (''title'', PyStr (lit ''tests/pool_test.go'')),
      (''items'', PyList
        [PyStr (lit ''func TestOversizedPoolExhaustsServerConnecti'' @
            lit ''ons(t *testing.T) {''),
         PyStr (lit ''    mockDriver := pool.NewMockDriver(10, 0) '' @
            lit ''// Server hanya izinkan 10 slot''),
         PyStr (lit ''    db := pool.OpenDB(mockDriver)''),
         PyStr (lit ''    db.SetMaxOpenConns(20) // Klien salah '' @
            lit ''konfigurasi dengan pool 20''),
         PyStr (lit ''    // 20 goroutine meminta koneksi secara '' @ lit ''bersamaan''),
         PyStr (lit ''    wg.Wait()''),
         PyStr (lit ''    if errCount < 10 {''),
         PyStr (lit ''        t.Errorf("expected at least 10 '' @
            lit ''connection attempts to fail, got %d", '' @ lit ''errCount)''),
         PyStr (lit ''    }''),
         PyStr (lit ''}'')])]]\<close>

definition lab19_slide_17 :: pycall where [lab19_slides]:
  \<open>lab19_slide_17 =
   \<lparr>posargs = [],
  kwargs =
   [(''categories'', PyList
      [PyStr (lit ''ANALYSIS''),
       PyStr (lit ''SATURATION VERIFICATION'')]),
    (''title'', PyStr (lit ''Verifikasi Test: Pool Terlalu Besar '' @ lit ''Menghabiskan Kapasitas Server'')),
    (''subtitle'', PyStr (lit ''Membuktikan penolakan deterministik ketika '' @
        lit ''pool klien melebihi kapasitas backend.'')),
    (''content_items'', lab19_items_17),
    (''narrative'', PyStr (lit ''Pengujian ini membuktikan bahwa pool klien '' @
        lit ''berukuran 20 pada server berkapasitas 10 '' @
        lit ''selalu menghasilkan penolakan '' @
        lit ''deterministik. Hanya pada jalur ini '' @
        lit ''kegagalan server terbukti terjadi karena '' @
        lit ''aplikasi mengabaikan batas kapasitas fisik '' @ lit ''backend database.'')),
    (''narrative_en'', PyStr (lit ''This test proves that a client pool of 20 '' @
        lit ''against a server capacity of 10 '' @
        lit ''deterministically produces connection '' @
        lit ''rejections. Only along this path do server '' @
        lit ''exhaustion errors emerge because the '' @
        lit ''application disregarded backend physical '' @ lit ''slot constraints.'')),
    (''mental_model'', PyStr (lit ''Oversized client pools inevitably trigger '' @
        lit ''server-side connection exhaustion '' @ lit ''rejections under load.'')),
    (''source_path'', PyStr (lit ''tests/pool_test.go:51-86'')),
    (''slide_num'', PyStr (lit ''17 / 24'')),
    (''layout'', PyStr (lit ''code''))]\<rparr>\<close>

definition lab19_items_18 :: pyval where [lab19_contents]:
  \<open>lab19_items_18 =
   PyList
   [PyDict
     [(''type'', PyStr (lit ''code'')),
      (''title'', PyStr (lit ''tests/pool_test.go'')),
      (''items'', PyList
        [PyStr (lit ''func TestConnectionStarvationDueToLeak(t '' @ lit ''*testing.T) {''),
         PyStr (lit ''    db.SetMaxOpenConns(1) // Pool ketat '' @ lit ''berukuran 1 koneksi''),
         PyStr (lit ''    go func() {''),
         PyStr (lit ''        _ = svc.ProcessOrderUnsafeLeak(ctx, '' @ lit ''1, func() error {''),
         PyStr (lit ''            close(acquired); time.Sleep(100 '' @
            lit ''* time.Millisecond); return nil''),
         PyStr (lit ''        })''),
         PyStr (lit ''    }()''),
         PyStr (lit ''    <-acquired''),
         PyStr (lit ''    ctx, cancel := context.WithTimeout(ctx, '' @
            lit ''20*time.Millisecond)''),
         PyStr (lit ''    defer cancel()''),
         PyStr (lit ''    err := svc.ProcessOrderSafe(ctx, 2, '' @
            lit ''nil) // Gagal timeout 20ms''),
         PyStr (lit ''}'')])]]\<close>

definition lab19_slide_18 :: pycall where [lab19_slides]:
  \<open>lab19_slide_18 =
   \<lparr>posargs = [],
  kwargs =
   [(''categories'', PyList
      [PyStr (lit ''ANALYSIS''),
       PyStr (lit ''STARVATION VERIFICATION'')]),
    (''title'', PyStr (lit ''Verifikasi Test: Kebocoran Satu Worker '' @ lit ''Melumpuhkan Worker Lain'')),
    (''subtitle'', PyStr (lit ''Permintaan kedua timeout karena koneksi '' @
        lit ''tunggal tersandera I/O eksternal.'')),
    (''content_items'', lab19_items_18),
    (''narrative'', PyStr (lit ''Unit test mereproduksi pool starvation '' @
        lit ''secara deterministik pada pool berukuran '' @
        lit ''satu koneksi. Terjadinya timeout pada '' @
        lit ''pemanggil yang aman bukan berarti kodenya '' @
        lit ''cacat, melainkan akibat soket tunggal '' @
        lit ''tersandera oleh fungsi lain yang ceroboh '' @
        lit ''menjalankan delay jaringan eksternal.'')),
    (''narrative_en'', PyStr (lit ''This unit test deterministically reproduces '' @
        lit ''pool starvation within a single-connection '' @
        lit ''pool. Encountering a timeout on the safe '' @
        lit ''caller does not signify flawed logic; it '' @
        lit ''proves the shared socket was held hostage '' @
        lit ''by a negligent routine running external '' @ lit ''delays.'')),
    (''mental_model'', PyStr (lit ''Unreleased connection handles monopolize '' @
        lit ''shared pools, causing collateral starvation '' @ lit ''for valid requests.'')),
    (''source_path'', PyStr (lit ''tests/pool_test.go:88-124'')),
    (''slide_num'', PyStr (lit ''18 / 24'')),
    (''layout'', PyStr (lit ''code''))]\<rparr>\<close>

definition lab19_items_19 :: pyval where [lab19_contents]:
  \<open>lab19_items_19 =
   PyList
   [PyDict
     [(''type'', PyStr (lit ''code'')),
      (''title'', PyStr (lit ''tests/pool_test.go'')),
      (''items'', PyList
        [PyStr (lit ''func TestPoolLockingDeadlock(t *testing.T) {''),
         PyStr (lit ''    db.SetMaxOpenConns(1) // Pool berukuran '' @ lit ''1''),
         PyStr (lit ''    ctx, cancel := '' @
            lit ''context.WithTimeout(context.Background(), '' @
            lit ''50*time.Millisecond)''),
         PyStr (lit ''    defer cancel()''),
         PyStr (lit ''    conn1, err := db.Conn(ctx)''),
         PyStr (lit ''    if err != nil { t.Fatalf("failed to '' @
            lit ''acquire first: %v", err) }''),
         PyStr (lit ''    defer conn1.Close()''),
         PyStr (lit ''    _, err = db.Conn(ctx) // Meminta '' @
            lit ''koneksi kedua pada pool yang sama!''),
         PyStr (lit ''    if err == nil { t.Fatalf("expected '' @
            lit ''context deadline exceeded, got nil") }''),
         PyStr (lit ''}'')])]]\<close>

definition lab19_slide_19 :: pycall where [lab19_slides]:
  \<open>lab19_slide_19 =
   \<lparr>posargs = [],
  kwargs =
   [(''categories'', PyList
      [PyStr (lit ''ANALYSIS''),
       PyStr (lit ''POOL DEADLOCK'')]),
    (''title'', PyStr (lit ''Verifikasi Test: Bahaya Deadlock Akuisisi '' @ lit ''Koneksi Bersarang'')),
    (''subtitle'', PyStr (lit ''Meminta koneksi kedua pada thread yang sama '' @
        lit ''saat pool berukuran 1 memicu hang.'')),
    (''content_items'', lab19_items_19),
    (''narrative'', PyStr (lit ''Pengujian ini memvalidasi skenario '' @
        lit ''pool-locking di mana sebuah thread mencoba '' @
        lit ''mengakuisisi koneksi kedua sementara '' @
        lit ''koneksi pertama belum dilepas. Verifikasi '' @
        lit ''ini cakupannya mengikuti test lab, '' @
        lit ''memvalidasi formula Tn x (Cm - 1) + 1 '' @
        lit ''sebagai syarat matematis mutlak pencegah '' @ lit ''kebuntuan pool.'')),
    (''narrative_en'', PyStr (lit ''This test validates a pool-locking scenario '' @
        lit ''where a single thread requests a secondary '' @
        lit ''connection while retaining its primary '' @
        lit ''handle. The verification scope strictly '' @
        lit ''matches our test suite, proving the '' @
        lit ''mathematical formula Tn x (Cm - 1) + 1 is '' @
        lit ''essential to avert deadlocks.'')),
    (''mental_model'', PyStr (lit ''Nested connection acquisition without '' @
        lit ''sufficient pool headroom results in '' @
        lit ''deterministic thread self-deadlock.'')),
    (''source_path'', PyStr (lit ''tests/pool_test.go:154-174'')),
    (''slide_num'', PyStr (lit ''19 / 24'')),
    (''layout'', PyStr (lit ''code''))]\<rparr>\<close>

definition lab19_items_20 :: pyval where [lab19_contents]:
  \<open>lab19_items_20 =
   PyList
   [PyDict
     [(''type'', PyStr (lit ''checklist'')),
      (''title'', PyStr (lit ''STANDAR REKAYASA KONEKSI BASIS DATA'')),
      (''items'', PyList
        [PyStr (lit ''Hitung total armada: (instance_count x '' @
            lit ''pool_size) wajib lebih kecil dari '' @ lit ''max_connections.''),
         PyStr (lit ''Sisihkan 15 slot koneksi untuk maintenance, '' @
            lit ''superuser, dan physical replication.''),
         PyStr (lit ''Pastikan tidak ada panggilan I/O jaringan '' @
            lit ''atau komputasi file di dalam blok koneksi.''),
         PyStr (lit ''Gunakan defer conn.Close() atau helper '' @
            lit ''sql.DB tingkat tinggi pada setiap '' @ lit ''percabangan.''),
         PyStr (lit ''Pasang context timeout ketat pada setiap '' @
            lit ''peminjaman soket dan eksekusi query SQL.''),
         PyStr (lit ''Aktifkan leak detection threshold (HikariCP '' @
            lit ''/ wrapper) untuk menangkap stack trace leak.'')])]]\<close>

definition lab19_slide_20 :: pycall where [lab19_slides]:
  \<open>lab19_slide_20 =
   \<lparr>posargs = [],
  kwargs =
   [(''categories'', PyList
      [PyStr (lit ''CHECKLIST''),
       PyStr (lit ''PRODUCTION READINESS'')]),
    (''title'', PyStr (lit ''Checklist Manajemen Koneksi di Lingkungan '' @ lit ''Produksi'')),
    (''subtitle'', PyStr (lit ''Protokol wajib arsitektur sebelum merilis '' @
        lit ''pool database ke lingkungan berskala tinggi.'')),
    (''content_items'', lab19_items_20),
    (''narrative'', PyStr (lit ''Checklist ini merangkum langkah audit '' @
        lit ''koneksi wajib: verifikasi total koneksi '' @
        lit ''deployment, pencadangan slot administratif, '' @
        lit ''pembebasan transaksi dari panggilan '' @
        lit ''eksternal, penutupan deterministik via '' @
        lit ''defer, pemasangan batas context timeout, '' @
        lit ''serta pemantauan durasi pinjam.'')),
    (''narrative_en'', PyStr (lit ''This checklist codifies mandatory '' @
        lit ''connection governance: aggregating '' @
        lit ''deployment-wide totals, reserving '' @
        lit ''administrative slots, barring external I/O '' @
        lit ''from transactions, enforcing deterministic '' @
        lit ''defer release, applying strict timeouts, '' @
        lit ''and tracking hold durations.'')),
    (''mental_model'', PyStr (lit ''Enforce strict operational standards across '' @
        lit ''connection sizing, lifecycle scoping, and '' @ lit ''timeout boundaries.'')),
    (''source_path'', PyStr (lit ''content/02-master-draft.md:205-215'')),
    (''slide_num'', PyStr (lit ''20 / 24'')),
    (''layout'', PyStr (lit ''checklist''))]\<rparr>\<close>

definition lab19_items_21 :: pyval where [lab19_contents]:
  \<open>lab19_items_21 =
   PyList
   [PyDict
     [(''type'', PyStr (lit ''cards'')),
      (''title'', PyStr (lit ''POLA BERBAHAYA YANG HARUS DIHINDARI'')),
      (''items'', PyList
        [PyDict
          [(''title'', PyStr (lit ''Naikkan Pool Saat Error'')),
           (''desc'', PyStr (lit ''Merespons error koneksi dengan memperbesar '' @
               lit ''pool; memperparah CPU thrashing dan lock '' @ lit ''contention.''))],
         PyDict
          [(''title'', PyStr (lit ''Sizing Per-Instance'')),
           (''desc'', PyStr (lit ''Menghitung pool secara lokal tanpa '' @
               lit ''mengalikan jumlah replica pod pada '' @ lit ''orkestrasi Kubernetes.''))],
         PyDict
          [(''title'', PyStr (lit ''Bukan Berarti Gratis'')),
           (''desc'', PyStr (lit ''Menganggap koneksi idle gratis bukan '' @
               lit ''berarti tanpa beban; RAM backend tetap '' @ lit ''terkuras permanen.''))]])]]\<close>

definition lab19_slide_21 :: pycall where [lab19_slides]:
  \<open>lab19_slide_21 =
   \<lparr>posargs = [],
  kwargs =
   [(''categories'', PyList
      [PyStr (lit ''ANTI-PATTERN''),
       PyStr (lit ''PRODUCTION PITFALLS'')]),
    (''title'', PyStr (lit ''Anti-Pattern Umum dalam Arsitektur '' @ lit ''Connection Pool'')),
    (''subtitle'', PyStr (lit ''Kekeliruan konfigurasi yang kerap '' @
        lit ''melumpuhkan stabilitas database relasional.'')),
    (''content_items'', lab19_items_21),
    (''narrative'', PyStr (lit ''Menaikkan ukuran pool saat database '' @
        lit ''mengalami galat koneksi adalah anti-pattern '' @
        lit ''paling umum yang memperparah insiden '' @
        lit ''produksi. Mengabaikan konsumsi memori '' @
        lit ''koneksi idle bukan berarti sistem bebas '' @
        lit ''beban, melainkan mengunci ratusan megabyte '' @
        lit ''RAM backend yang semestinya dipakai untuk '' @ lit ''buffer cache.'')),
    (''narrative_en'', PyStr (lit ''Increasing pool size in response to '' @
        lit ''connection exhaustion errors is an '' @
        lit ''anti-pattern that exacerbates outages. '' @
        lit ''Assuming idle connections cost nothing does '' @
        lit ''not reflect reality; it locks hundreds of '' @
        lit ''megabytes of backend RAM that should '' @
        lit ''otherwise serve buffer caches.'')),
    (''mental_model'', PyStr (lit ''Avoid reactive pool enlargement and account '' @
        lit ''for cumulative connection costs across '' @ lit ''container replicas.'')),
    (''source_path'', PyStr (lit ''content/02-master-draft.md:186-196'')),
    (''slide_num'', PyStr (lit ''21 / 24'')),
    (''layout'', PyStr (lit ''cards''))]\<rparr>\<close>

definition lab19_items_22 :: pyval where [lab19_contents]:
  \<open>lab19_items_22 =
   PyList
   [PyDict
     [(''type'', PyStr (lit ''code'')),
      (''title'', PyStr (lit ''COMMAND RUNNER (ZERO DEPENDENCIES)'')),
      (''items'', PyList
        [PyStr (lit ''cd labs/19-database-connection-pooling''),
         PyStr (lit ''go test -v ./...    # menjalankan 10 test '' @
            lit ''suite verifikasi overhead, limit, dan leak''),
         PyStr (lit ''go test -race ./... # pembuktian '' @
            lit ''sinkronisasi konkurensi bersih tanpa data '' @ lit ''race''),
         PyStr (lit ''go run ./cmd/demo   # eksekusi demonstrasi '' @
            lit ''interaktif skenario 1, 2, dan 3'')])]]\<close>

definition lab19_slide_22 :: pycall where [lab19_slides]:
  \<open>lab19_slide_22 =
   \<lparr>posargs = [],
  kwargs =
   [(''categories'', PyList
      [PyStr (lit ''REPRODUCTION''),
       PyStr (lit ''COMMANDS'')]),
    (''title'', PyStr (lit ''Reproduksi Mandiri di Mesin Lokal '' @ lit ''Menggunakan Go'')),
    (''subtitle'', PyStr (lit ''Verifikasi mandiri seluruh perilaku pool '' @
        lit ''tanpa dependensi database eksternal.'')),
    (''content_items'', lab19_items_22),
    (''narrative'', PyStr (lit ''Seluruh arsitektur dibangun murni '' @
        lit ''menggunakan pustaka standar Go tanpa perlu '' @
        lit ''menginstal server PostgreSQL lokal. '' @
        lit ''Pengujian ini memvalidasi mekanika '' @
        lit ''peminjaman soket, namun production masih '' @
        lit ''perlu mengonfigurasi parameter PgBouncer '' @
        lit ''serta pemantauan metrik pg_stat_activity.'')),
    (''narrative_en'', PyStr (lit ''The entire testing suite runs on the Go '' @
        lit ''standard library without requiring external '' @
        lit ''PostgreSQL servers. While local tests '' @
        lit ''validate socket borrowing mechanics, '' @
        lit ''production systems still require tuning '' @
        lit ''PgBouncer parameters and monitoring '' @ lit ''pg_stat_activity metrics.'')),
    (''mental_model'', PyStr (lit ''Self-contained standard library harnesses '' @
        lit ''enable rapid, zero-dependency validation of '' @
        lit ''connection architectures.'')),
    (''source_path'', PyStr (lit ''README.md:1-35'')),
    (''slide_num'', PyStr (lit ''22 / 24'')),
    (''layout'', PyStr (lit ''code''))]\<rparr>\<close>

definition lab19_items_23 :: pyval where [lab19_contents]:
  \<open>lab19_items_23 =
   PyList
   [PyDict
     [(''type'', PyStr (lit ''cards'')),
      (''title'', PyStr (lit ''TIGA PILAR KETAHANAN KONEKSI SISTEM'')),
      (''items'', PyList
        [PyDict
          [(''title'', PyStr (lit ''Batas Sizing Konservatif'')),
           (''desc'', PyStr (lit ''Jadikan kapasitas hardware sebagai batas '' @
               lit ''atas; batasi antrean di aplikasi alih-alih '' @ lit ''di database.''))],
         PyDict
          [(''title'', PyStr (lit ''Isolasi I/O Ketat'')),
           (''desc'', PyStr (lit ''Keluarkan seluruh panggilan eksternal dari '' @
               lit ''penahanan koneksi; pinjam hanya saat query '' @ lit ''siap.''))],
         PyDict
          [(''title'', PyStr (lit ''Skalabilitas Horizontal'')),
           (''desc'', PyStr (lit ''Tidak otomatis menaikkan slot; gunakan '' @
               lit ''proxy pooling transaksi untuk ribuan klien.''))]])]]\<close>

definition lab19_slide_23 :: pycall where [lab19_slides]:
  \<open>lab19_slide_23 =
   \<lparr>posargs = [],
  kwargs =
   [(''categories'', PyList
      [PyStr (lit ''TAKEAWAY''),
       PyStr (lit ''ARCHITECTURAL PRINCIPLES'')]),
    (''title'', PyStr (lit ''Prinsip Inti: Pool Lebih Kecil, Sistem '' @ lit ''Lebih Cepat'')),
    (''subtitle'', PyStr (lit ''Stabilitas sistem basis data bertumpu pada '' @
        lit ''disiplin pembatasan konkurensi.'')),
    (''content_items'', lab19_items_23),
    (''narrative'', PyStr (lit ''Pertanyaan mendasar dalam rekayasa '' @
        lit ''perangkat lunak bukanlah seberapa besar '' @
        lit ''pool yang bisa dibuat, melainkan sekecil '' @
        lit ''apa pool yang masih mampu memenuhi target '' @
        lit ''throughput. Menghadapi lonjakan traffic '' @
        lit ''tidak otomatis diselesaikan dengan '' @
        lit ''menaikkan koneksi server, melainkan dengan '' @
        lit ''memasang proxy pooling transaksi.'')),
    (''narrative_en'', PyStr (lit ''The fundamental engineering question is not '' @
        lit ''how large a pool can be configured, but how '' @
        lit ''compact it can remain while satisfying '' @
        lit ''throughput demands. Handling traffic spikes '' @
        lit ''does not automatically justify inflating '' @
        lit ''database connection limits; it requires '' @
        lit ''deploying transaction-mode proxies.'')),
    (''mental_model'', PyStr (lit ''Resilient architectures maintain compact '' @
        lit ''connection pools, isolate external I/O, and '' @ lit ''scale via proxies.'')),
    (''source_path'', PyStr (lit ''content/05-key-takeaways.md:1-20'')),
    (''slide_num'', PyStr (lit ''23 / 24'')),
    (''layout'', PyStr (lit ''cards''))]\<rparr>\<close>

definition lab19_items_24 :: pyval where [lab19_contents]:
  \<open>lab19_items_24 =
   PyList
   [PyDict
     [(''type'', PyStr (lit ''bullet'')),
      (''title'', PyStr (lit ''MODUL IMPLEMENTASI'')),
      (''items'', PyList
        [PyStr (lit ''internal/pool/mockdb.go '' @ [0x2022] @ lit '' internal/pool/service.go''),
         PyStr (lit ''cmd/demo/main.go '' @ [0x2022] @ lit '' tests/pool_test.go''),
         PyStr (lit ''engineering/01-design.md '' @ [0x2022] @
            lit '' content/02-master-draft.md'')])],
    PyDict
     [(''type'', PyStr (lit ''bullet'')),
      (''title'', PyStr (lit ''VERIFIKASI & STATUS'')),
      (''items'', PyList
        [PyStr (lit ''Commit: '' @ str_prefix 7 lab19_COMMIT_SHA @ lit '' '' @ [0x2022] @
            lit '' Status: APPROVED''),
         PyStr (lit ''Test passing: 10/10 test suites (Overhead, '' @
            lit ''Oversized, Starvation, Deadlock, Reuse)''),
         PyStr (lit ''Race detector: Clean (go test -race ./... '' @ lit ''PASS in 1.328s)''),
         PyStr (lit ''Zero external dependencies: 100% Go '' @ lit ''standard library.'')])]]\<close>

definition lab19_slide_24 :: pycall where [lab19_slides]:
  \<open>lab19_slide_24 =
   \<lparr>posargs = [],
  kwargs =
   [(''categories'', PyList
      [PyStr (lit ''CLOSING'')]),
    (''title'', PyStr (lit ''Koneksi database adalah sumber daya '' @
        lit ''terbatas backend, bukan variabel yang bisa '' @
        lit ''diperbesar tanpa batas.'')),
    (''subtitle'', PyStr []),
    (''content_items'', lab19_items_24),
    (''mental_model'', PyStr (lit ''Database connections are finite physical '' @
        lit ''resources that demand strict lifecycle '' @
        lit ''governance and proxy mediation.'')),
    (''source_path'', PyStr lab19_REPO_URL),
    (''slide_num'', PyStr (lit ''24 / 24'')),
    (''layout'', PyStr (lit ''closing''))]\<rparr>\<close>

definition lab19_calls :: "pycall list" where
  "lab19_calls =
    [lab19_slide_01, lab19_slide_02, lab19_slide_03, lab19_slide_04, lab19_slide_05,
     lab19_slide_06, lab19_slide_07, lab19_slide_08, lab19_slide_09, lab19_slide_10,
     lab19_slide_11, lab19_slide_12, lab19_slide_13, lab19_slide_14, lab19_slide_15,
     lab19_slide_16, lab19_slide_17, lab19_slide_18, lab19_slide_19, lab19_slide_20,
     lab19_slide_21, lab19_slide_22, lab19_slide_23, lab19_slide_24]"

definition lab19_deck :: deck where
  "lab19_deck =
    \<lparr>add_slide = lab19_add_slide, lab_no = lab19_LAB_NO, title_id = lab19_TITLE_ID, calls = lab19_calls\<rparr>"

section \<open>Checks of the calls\<close>

lemma lab19_shapes:
  "\<forall>c \<in> set lab19_calls. shape_of c \<in> set
    [(0, [''categories'', ''title'', ''subtitle'', ''content_items'', ''mental_model'',
      ''source_path'', ''slide_num'', ''layout'']),
     (0, [''categories'', ''title'', ''subtitle'', ''content_items'', ''narrative'',
      ''narrative_en'', ''mental_model'', ''source_path'', ''slide_num'', ''layout''])]"
  by (simp only: lab19_calls_def lab19_slides shape_eval cong: pyval_opaque)

lemma lab19_calls_ok: "\<forall>c \<in> set lab19_calls. call_ok sig_layout c"
  by (rule calls_ok_by_shapes [OF lab19_shapes])
    (simp add: shape_ok_def param_names_def signature_defs core_params_def)

lemma lab19_labels: "map (\<lambda>c. value_of sig_layout c ''slide_num'') lab19_calls = labels_24"
  by (simp only: lab19_calls_def lab19_slides keyword_eval labels_24_eval cong: pyval_opaque)

lemma lab19_contents_of:
  "map (\<lambda>c. value_of sig_layout c ''content_items'') lab19_calls =
    [lab19_items_01, lab19_items_02, lab19_items_03, lab19_items_04, lab19_items_05,
     lab19_items_06, lab19_items_07, lab19_items_08, lab19_items_09, lab19_items_10,
     lab19_items_11, lab19_items_12, lab19_items_13, lab19_items_14, lab19_items_15,
     lab19_items_16, lab19_items_17, lab19_items_18, lab19_items_19, lab19_items_20,
     lab19_items_21, lab19_items_22, lab19_items_23, lab19_items_24]"
  by (simp only: lab19_calls_def lab19_slides keyword_eval cong: pyval_opaque)

lemma lab19_items: "item_defects sig_layout lab19_calls = []"
  by (simp only: item_defects_def lab19_contents_of)
    (simp add: lab19_contents item_eval cong: pystr_opaque)

end
