(* ===== verification/Deck20.thy ===== *)
theory Deck20
  imports DeckContract
begin

text \<open>
  The publication definition of lab 20, \<^verbatim>\<open>labs/20-zero-downtime-deployment/result/content_def.py\<close>:
  its module constants, every \<open>add_slide\<close> call in order (\<open>lab20_slide_01\<close> is the first),
  and the module as a whole (\<open>lab20_deck\<close>). Long strings are split into pieces that are
  concatenated; a character outside ASCII is its code point.
\<close>

named_theorems lab20_slides \<open>the add_slide calls of lab 20\<close>
named_theorems lab20_contents \<open>their content_items arguments\<close>

definition lab20_OUTPUT_DIR :: pystr where
  \<open>lab20_OUTPUT_DIR = lit ''labs/20-zero-downtime-deployment/result''\<close>

definition lab20_CHROME_BIN :: pystr where
  \<open>lab20_CHROME_BIN = lit ''/Applications/Google '' @ lit ''Chrome.app/Contents/MacOS/Google Chrome''\<close>

definition lab20_REPO_URL :: pystr where
  \<open>lab20_REPO_URL = lit ''https://github.com/lukman-ss/software-engine'' @
    lit ''ering-lab/tree/main/labs/20-zero-downtime-de'' @ lit ''ployment''\<close>

definition lab20_COMMIT_SHA :: pystr where
  \<open>lab20_COMMIT_SHA = lit ''<auto>''\<close>

definition lab20_LAB_NO :: pystr where
  \<open>lab20_LAB_NO = lit ''20''\<close>

definition lab20_SLUG :: pystr where
  \<open>lab20_SLUG = lit ''zero-downtime-deployment''\<close>

definition lab20_TITLE_ID :: pystr where
  \<open>lab20_TITLE_ID = lit ''Zero'' @ [0x2011] @ lit ''Downtime Deployment (ZDD)''\<close>

definition lab20_SUBTITLE_ID :: pystr where
  \<open>lab20_SUBTITLE_ID = lit ''Graceful Shutdown, Traffic Draining, & '' @ lit ''Expand'' @ [0x2011] @
    lit ''Contract Database''\<close>

definition lab20_TITLE_EN :: pystr where
  \<open>lab20_TITLE_EN = lit ''Zero'' @ [0x2011] @ lit ''Downtime Deployment''\<close>

definition lab20_SUBTITLE_EN :: pystr where
  \<open>lab20_SUBTITLE_EN = lit ''Graceful Shutdown, Traffic Draining, & '' @ lit ''Expand'' @ [0x2011] @
    lit ''Contract DB''\<close>

definition lab20_AUTHOR :: pystr where
  \<open>lab20_AUTHOR = lit ''Lukman / lukman-ss''\<close>

definition lab20_TOPIC_TAGS :: pystr where
  \<open>lab20_TOPIC_TAGS = lit ''Zero'' @ [0x2011] @ lit ''Downtime '' @ [0x2022] @ lit '' Graceful Shutdown '' @
    [0x2022] @ lit '' Health Probes '' @ [0x2022] @ lit '' PreStop Hook '' @ [0x2022] @
    lit '' Expand'' @ [0x2011] @ lit ''Contract''\<close>

definition lab20_COVER_IMAGE_PATH :: pystr where
  \<open>lab20_COVER_IMAGE_PATH = lit ''labs/20-zero-downtime-deployment/result/imag'' @ lit ''e-cover/cover_art.jpg''\<close>

definition lab20_add_slide :: "pycall \<Rightarrow> pyval list \<Rightarrow> (pyexc, pyval list) res" where
  "lab20_add_slide = add_slide_layout"

definition lab20_items_01 :: pyval where [lab20_contents]:
  \<open>lab20_items_01 =
   PyList
   [PyDict
     [(''type'', PyStr (lit ''cover'')),
      (''title'', PyStr []),
      (''items'', PyList
        [PyStr (lit ''Zero'' @ [0x2011] @ lit ''Downtime Deployment Lab''),
         PyStr (lit ''Penulis: '' @ lab20_AUTHOR)])]]\<close>

definition lab20_slide_01 :: pycall where [lab20_slides]:
  \<open>lab20_slide_01 =
   \<lparr>posargs = [PyList
     [PyStr (lit ''COVER'')],
    PyStr lab20_TITLE_ID,
    PyStr lab20_SUBTITLE_ID,
    lab20_items_01,
    PyStr (lit ''Graceful shutdown orchestrates traffic '' @
       lit ''routing, preStop delay, and worker drain to '' @ lit ''avoid downtime.''),
    PyStr []],
  kwargs =
   [(''slide_num'', PyStr (lit ''01 / 24'')),
    (''layout'', PyStr (lit ''cover''))]\<rparr>\<close>

definition lab20_items_02 :: pyval where [lab20_contents]:
  \<open>lab20_items_02 =
   PyList
   [PyDict
     [(''type'', PyStr (lit ''cards'')),
      (''title'', PyStr (lit ''DAMPAK'')),
      (''items'', PyList
        [PyDict
          [(''title'', PyStr (lit ''Interrupt HTTP'')),
           (''desc'', PyStr (lit ''Pengguna menerima 502/504 selama pod '' @ lit ''terminta''))],
         PyDict
          [(''title'', PyStr (lit ''Job loss'')),
           (''desc'', PyStr (lit ''Background worker terhenti meninggalkan '' @ lit ''state parsial''))],
         PyDict
          [(''title'', PyStr (lit ''Schema clash'')),
           (''desc'', PyStr (lit ''Versi lama tidak kompatibel dengan kolom '' @ lit ''baru''))]])]]\<close>

definition lab20_slide_02 :: pycall where [lab20_slides]:
  \<open>lab20_slide_02 =
   \<lparr>posargs = [PyList
     [PyStr (lit ''PROBLEM'')],
    PyStr (lit ''Deploy tanpa draining memutus request '' @
       lit ''aktif, jobs terhenti, dan schema berubah.''),
    PyStr [],
    lab20_items_02,
    PyStr (lit ''In'' @ [0x2011] @ lit ''flight traffic dan background work harus '' @
       lit ''selesai sebelum pod dimatikan.''),
    PyStr []],
  kwargs =
   [(''slide_num'', PyStr (lit ''02 / 24'')),
    (''layout'', PyStr (lit ''cards''))]\<rparr>\<close>

definition lab20_items_03 :: pyval where [lab20_contents]:
  \<open>lab20_items_03 =
   PyList
   [PyDict
     [(''type'', PyStr (lit ''cards'')),
      (''title'', PyStr (lit ''KELEMAHAN'')),
      (''items'', PyList
        [PyDict
          [(''title'', PyStr (lit ''Tidak drain'')),
           (''desc'', PyStr (lit ''Server menolak request baru tapi tidak '' @
               lit ''menunggu yang berjalan''))],
         PyDict
          [(''title'', PyStr (lit ''Tidak sync'')),
           (''desc'', PyStr (lit ''Tidak ada preStop, load balancer masih '' @ lit ''mengirim traffic''))],
         PyDict
          [(''title'', PyStr (lit ''DB lock'')),
           (''desc'', PyStr (lit ''Schema berubah tiba'' @ [0x2011] @ lit ''tiba menyebabkan error''))]])]]\<close>

definition lab20_slide_03 :: pycall where [lab20_slides]:
  \<open>lab20_slide_03 =
   \<lparr>posargs = [PyList
     [PyStr (lit ''WHY FAILS'')],
    PyStr (lit ''Pengujian sequential tidak meniru '' @ lit ''interleaving runtime.''),
    PyStr [],
    lab20_items_03,
    PyStr (lit ''Manual review tidak dapat meniru timing '' @ lit ''concurrent traffic.''),
    PyStr []],
  kwargs =
   [(''slide_num'', PyStr (lit ''03 / 24'')),
    (''layout'', PyStr (lit ''cards''))]\<rparr>\<close>

definition lab20_items_04 :: pyval where [lab20_contents]:
  \<open>lab20_items_04 =
   PyList
   [PyDict
     [(''type'', PyStr (lit ''schema'')),
      (''title'', PyStr (lit ''CO'' @ [0x2011] @ lit ''EXISTENCE'')),
      (''items'', PyList
        [PyDict
          [(''phase'', PyStr (lit ''New version launches'')),
           (''role'', PyStr (lit ''Ready'')),
           (''desc'', PyStr (lit ''Load balancer routes to new pods''))],
         PyDict
          [(''phase'', PyStr (lit ''Old version drains'')),
           (''role'', PyStr (lit ''PreStop'')),
           (''desc'', PyStr (lit ''Finishes in'' @ [0x2011] @ lit ''flight requests & jobs''))],
         PyDict
          [(''phase'', PyStr (lit ''Old version terminates'')),
           (''role'', PyStr (lit ''Terminate'')),
           (''desc'', PyStr (lit ''Database schema contract completed''))]])]]\<close>

definition lab20_slide_04 :: pycall where [lab20_slides]:
  \<open>lab20_slide_04 =
   \<lparr>posargs = [PyList
     [PyStr (lit ''MENTAL MODEL'')],
    PyStr (lit ''Start New Before Stopping Old''),
    PyStr [],
    lab20_items_04,
    PyStr (lit ''Model ini memastikan tidak ada downtime '' @
       lit ''dengan menjaga dua versi berjalan simultan.''),
    PyStr []],
  kwargs =
   [(''slide_num'', PyStr (lit ''04 / 24'')),
    (''layout'', PyStr (lit ''schema''))]\<rparr>\<close>

definition lab20_items_05 :: pyval where [lab20_contents]:
  \<open>lab20_items_05 =
   PyList
   [PyDict
     [(''type'', PyStr (lit ''schema'')),
      (''title'', PyStr (lit ''STEPS'')),
      (''items'', PyList
        [PyDict
          [(''phase'', PyStr (lit ''Init'')),
           (''role'', PyStr (lit ''Init'')),
           (''desc'', PyStr (lit ''Component start, readiness false''))],
         PyDict
          [(''phase'', PyStr (lit ''Ready'')),
           (''role'', PyStr (lit ''Ready'')),
           (''desc'', PyStr (lit ''Health probe 200, traffic starts''))],
         PyDict
          [(''phase'', PyStr (lit ''SIGTERM'')),
           (''role'', PyStr (lit ''PreStop'')),
           (''desc'', PyStr (lit ''PreStop delay, drain HTTP & worker''))],
         PyDict
          [(''phase'', PyStr (lit ''Terminate'')),
           (''role'', PyStr (lit ''Exit'')),
           (''desc'', PyStr (lit ''Pod dies, new version continues''))]])]]\<close>

definition lab20_slide_05 :: pycall where [lab20_slides]:
  \<open>lab20_slide_05 =
   \<lparr>posargs = [PyList
     [PyStr (lit ''PIPELINE'')],
    PyStr (lit ''Alur Zero'' @ [0x2011] @ lit ''Downtime Deployment''),
    PyStr [],
    lab20_items_05,
    PyStr (lit ''Diagram memperlihatkan urutan health probe, '' @ lit ''preStop, dan drain.''),
    PyStr []],
  kwargs =
   [(''slide_num'', PyStr (lit ''05 / 24'')),
    (''layout'', PyStr (lit ''schema''))]\<rparr>\<close>

definition lab20_items_06 :: pyval where [lab20_contents]:
  \<open>lab20_items_06 =
   PyList
   [PyDict
     [(''type'', PyStr (lit ''code'')),
      (''title'', PyStr (lit ''internal/server/server.go'')),
      (''items'', PyList
        [PyStr (lit ''func (s *Server) Shutdown(ctx '' @ lit ''context.Context) error {''),
         PyStr (lit ''    s.SetReady(false)''),
         PyStr (lit ''    if s.preStop > 0 {''),
         PyStr (lit ''        select { case '' @
            lit ''<-time.After(s.preStop): case <-ctx.Done(): '' @
            lit ''return ctx.Err() }''),
         PyStr (lit ''    }''),
         PyStr (lit ''    return s.srv.Shutdown(ctx)''),
         PyStr (lit ''}'')])]]\<close>

definition lab20_slide_06 :: pycall where [lab20_slides]:
  \<open>lab20_slide_06 =
   \<lparr>posargs = [PyList
     [PyStr (lit ''IMPLEMENTATION'')],
    PyStr (lit ''Server graceful shutdown dengan preStop''),
    PyStr [],
    lab20_items_06,
    PyStr (lit ''Shutdown menandai tidak ready, menunggu '' @
       lit ''preStop, lalu menutup listener.''),
    PyStr []],
  kwargs =
   [(''slide_num'', PyStr (lit ''06 / 24'')),
    (''layout'', PyStr (lit ''code''))]\<rparr>\<close>

definition lab20_items_07 :: pyval where [lab20_contents]:
  \<open>lab20_items_07 =
   PyList
   [PyDict
     [(''type'', PyStr (lit ''cards'')),
      (''title'', PyStr (lit ''SERI KEGAGALAN'')),
      (''items'', PyList
        [PyDict
          [(''title'', PyStr (lit ''1. SIGTERM'')),
           (''desc'', PyStr (lit ''Pod dies instantly''))],
         PyDict
          [(''title'', PyStr (lit ''2. In'' @ [0x2011] @ lit ''flight request'')),
           (''desc'', PyStr (lit ''Client receives connection reset''))],
         PyDict
          [(''title'', PyStr (lit ''3. Worker job'')),
           (''desc'', PyStr (lit ''Job terpotong, state inconsistency''))]])]]\<close>

definition lab20_slide_07 :: pycall where [lab20_slides]:
  \<open>lab20_slide_07 =
   \<lparr>posargs = [PyList
     [PyStr (lit ''FAILURE PATH'')],
    PyStr (lit ''Tanpa preStop, load balancer masih mengirim '' @ lit ''request '' @ [0x2192] @
       lit '' 502.''),
    PyStr [],
    lab20_items_07,
    PyStr (lit ''Path ini menggambarkan konsekuensi jika '' @ lit ''tidak ada draining.''),
    PyStr []],
  kwargs =
   [(''slide_num'', PyStr (lit ''07 / 24'')),
    (''layout'', PyStr (lit ''cards''))]\<rparr>\<close>

definition lab20_items_08 :: pyval where [lab20_contents]:
  \<open>lab20_items_08 =
   PyList
   [PyDict
     [(''title'', PyStr (lit ''PERBANDINGAN'')),
      (''items'', PyList
        [PyStr (lit ''Aspect | Graceful (preStop) | Na'' @ [0xEF] @ lit ''ve''),
         PyStr (lit ''Traffic | Drained | Dropped''),
         PyStr (lit ''Jobs | Completed | Aborted''),
         PyStr (lit ''DB Schema | Compatible | Conflict'')]),
      (''type'', PyStr (lit ''table''))]]\<close>

definition lab20_slide_08 :: pycall where [lab20_slides]:
  \<open>lab20_slide_08 =
   \<lparr>posargs = [PyList
     [PyStr (lit ''COMPARISON'')],
    PyStr (lit ''Graceful vs Na'' @ [0xEF] @ lit ''ve Shutdown''),
    PyStr [],
    lab20_items_08,
    PyStr (lit ''Tabel menegaskan keuntungan mekanisme '' @ lit ''graceful.''),
    PyStr []],
  kwargs =
   [(''slide_num'', PyStr (lit ''08 / 24'')),
    (''layout'', PyStr (lit ''table''))]\<rparr>\<close>

definition lab20_items_09 :: pyval where [lab20_contents]:
  \<open>lab20_items_09 =
   PyList
   [PyDict
     [(''type'', PyStr (lit ''cards'')),
      (''title'', PyStr (lit ''MITIGASI'')),
      (''items'', PyList
        [PyDict
          [(''title'', PyStr (lit ''1. Health Probe'')),
           (''desc'', PyStr (lit ''Gunakan readiness untuk mengisolasi pod''))],
         PyDict
          [(''title'', PyStr (lit ''2. PreStop delay'')),
           (''desc'', PyStr (lit ''Setidaknya latency routing table''))],
         PyDict
          [(''title'', PyStr (lit ''3. Expand'' @ [0x2011] @ lit ''Contract DB'')),
           (''desc'', PyStr (lit ''Baca/tulis versi lama & baru simultan''))]])]]\<close>

definition lab20_slide_09 :: pycall where [lab20_slides]:
  \<open>lab20_slide_09 =
   \<lparr>posargs = [PyList
     [PyStr (lit ''DECISION'')],
    PyStr (lit ''Tiga langkah mitigasi''),
    PyStr [],
    lab20_items_09,
    PyStr (lit ''Keputusan berurutan memastikan tidak ada '' @ lit ''downtime.''),
    PyStr []],
  kwargs =
   [(''slide_num'', PyStr (lit ''09 / 24'')),
    (''layout'', PyStr (lit ''cards''))]\<rparr>\<close>

definition lab20_items_10 :: pyval where [lab20_contents]:
  \<open>lab20_items_10 =
   PyList
   [PyDict
     [(''type'', PyStr (lit ''code'')),
      (''title'', PyStr (lit ''Demo run'')),
      (''items'', PyList
        [PyStr (lit ''go run ./cmd/demo''),
         PyStr (lit ''... SIGTERM received, graceful shutdown '' @ lit ''completed'')])]]\<close>

definition lab20_slide_10 :: pycall where [lab20_slides]:
  \<open>lab20_slide_10 =
   \<lparr>posargs = [PyList
     [PyStr (lit ''EVIDENCE'')],
    PyStr (lit ''Terminal output demo''),
    PyStr [],
    lab20_items_10,
    PyStr (lit ''Output menunjukkan server menandai unready, '' @
       lit ''menunggu preStop, lalu selesai.''),
    PyStr []],
  kwargs =
   [(''slide_num'', PyStr (lit ''10 / 24'')),
    (''layout'', PyStr (lit ''code''))]\<rparr>\<close>

definition lab20_items_11 :: pyval where [lab20_contents]:
  \<open>lab20_items_11 =
   PyList
   [PyDict
     [(''type'', PyStr (lit ''cards'')),
      (''title'', PyStr (lit ''BATAS'')),
      (''items'', PyList
        [PyDict
          [(''title'', PyStr (lit ''Dibuktikan'')),
           (''desc'', PyStr (lit ''Graceful shutdown, preStop delay, worker '' @ lit ''drain''))],
         PyDict
          [(''title'', PyStr (lit ''Tidak dibuktikan'')),
           (''desc'', PyStr (lit ''Distributed load balancer latency >1s, real '' @
               lit ''DB DDL lock contention''))]])]]\<close>

definition lab20_slide_11 :: pycall where [lab20_slides]:
  \<open>lab20_slide_11 =
   \<lparr>posargs = [PyList
     [PyStr (lit ''AUDIT'')],
    PyStr (lit ''Batasan bukti''),
    PyStr [],
    lab20_items_11,
    PyStr (lit ''Lab terbatas pada in'' @ [0x2011] @
       lit ''memory server & worker, bukan pada '' @ lit ''orchestrator cloud.''),
    PyStr []],
  kwargs =
   [(''slide_num'', PyStr (lit ''11 / 24'')),
    (''layout'', PyStr (lit ''cards''))]\<rparr>\<close>

definition lab20_items_12 :: pyval where [lab20_contents]:
  \<open>lab20_items_12 =
   PyList
   [PyDict
     [(''type'', PyStr (lit ''cards'')),
      (''title'', PyStr (lit ''PRO & CON'')),
      (''items'', PyList
        [PyDict
          [(''title'', PyStr (lit ''PreStop'')),
           (''desc'', PyStr (lit ''Safety, extra latency''))],
         PyDict
          [(''title'', PyStr (lit ''Fast kill'')),
           (''desc'', PyStr (lit ''Zero latency but risk 502/504''))]])]]\<close>

definition lab20_slide_12 :: pycall where [lab20_slides]:
  \<open>lab20_slide_12 =
   \<lparr>posargs = [PyList
     [PyStr (lit ''TRADE-OFF'')],
    PyStr (lit ''PreStop vs Fast termination''),
    PyStr [],
    lab20_items_12,
    PyStr (lit ''Pilihan tergantung SLA dan toleransi error.''),
    PyStr []],
  kwargs =
   [(''slide_num'', PyStr (lit ''12 / 24'')),
    (''layout'', PyStr (lit ''cards''))]\<rparr>\<close>

definition lab20_items_13 :: pyval where [lab20_contents]:
  \<open>lab20_items_13 =
   PyList
   [PyDict
     [(''type'', PyStr (lit ''code'')),
      (''title'', PyStr (lit ''internal/worker/worker.go'')),
      (''items'', PyList
        [PyStr (lit ''func (w *Worker) Stop(timeout '' @ lit ''time.Duration) {''),
         PyStr (lit ''    w.enqueueMu.Lock(); '' @
            lit ''w.stopped.Store(true); close(w.jobChan); '' @ lit ''w.enqueueMu.Unlock()''),
         PyStr (lit ''    done := make(chan struct{})''),
         PyStr (lit ''    go func(){ w.wg.Wait(); close(done) }()''),
         PyStr (lit ''    select { case <-done: case '' @
            lit ''<-time.After(timeout): w.cancel() }''),
         PyStr (lit ''}'')])]]\<close>

definition lab20_slide_13 :: pycall where [lab20_slides]:
  \<open>lab20_slide_13 =
   \<lparr>posargs = [PyList
     [PyStr (lit ''CONCURRENCY'')],
    PyStr (lit ''Worker drain dengan WaitGroup''),
    PyStr [],
    lab20_items_13,
    PyStr (lit ''Stop menutup channel, menunggu goroutine, '' @
       lit ''dan memaksa context bila timeout.''),
    PyStr []],
  kwargs =
   [(''slide_num'', PyStr (lit ''13 / 24'')),
    (''layout'', PyStr (lit ''code''))]\<rparr>\<close>

definition lab20_items_14 :: pyval where [lab20_contents]:
  \<open>lab20_items_14 =
   PyList
   [PyDict
     [(''type'', PyStr (lit ''cards'')),
      (''title'', PyStr (lit ''KONDISI'')),
      (''items'', PyList
        [PyDict
          [(''title'', PyStr (lit ''Sebelum'')),
           (''desc'', PyStr (lit ''Request drop, job loss, schema error''))],
         PyDict
          [(''title'', PyStr (lit ''Sesudah'')),
           (''desc'', PyStr (lit ''All in'' @ [0x2011] @ lit ''flight completed, no DB conflict''))]])]]\<close>

definition lab20_slide_14 :: pycall where [lab20_slides]:
  \<open>lab20_slide_14 =
   \<lparr>posargs = [PyList
     [PyStr (lit ''COMPARISON'')],
    PyStr (lit ''Sebelum vs Sesudah graceful shutdown''),
    PyStr [],
    lab20_items_14,
    PyStr (lit ''Visualisasi perbedaan outcome.''),
    PyStr []],
  kwargs =
   [(''slide_num'', PyStr (lit ''14 / 24'')),
    (''layout'', PyStr (lit ''cards''))]\<rparr>\<close>

definition lab20_loop_titles :: "pystr list" where [lab20_slides]:
  \<open>lab20_loop_titles =
    [lit ''Analisis: Health Probe Timing'',
     lit ''Analisis: PreStop Duration Impact'',
     lit ''Analisis: Worker Drain Guarantees'',
     lit ''Analisis: DB Expand'' @ [0x2011] @ lit ''Contract Compatibility'',
     lit ''Analisis: End'' @ [0x2011] @ lit ''to'' @ [0x2011] @ lit ''End Latency'']\<close>

definition lab20_loop_items :: pyval where [lab20_contents]:
  \<open>lab20_loop_items =
   PyList
   [PyDict
     [(''type'', PyStr (lit ''cards'')),
      (''title'', PyStr (lit ''KEY FINDINGS'')),
      (''items'', PyList
        [PyDict
          [(''title'', PyStr (lit ''Observation'')),
           (''desc'', PyStr (lit ''...''))],
         PyDict
          [(''title'', PyStr (lit ''Implication'')),
           (''desc'', PyStr (lit ''...''))]])]]\<close>

definition lab20_loop_call :: "nat \<Rightarrow> pystr \<Rightarrow> pycall" where [lab20_slides]:
  \<open>lab20_loop_call i title =
   \<lparr>posargs = [PyList
     [PyStr (lit ''ANALYSIS'')],
    PyStr title,
    PyStr [],
    lab20_loop_items,
    PyStr (lit ''Deep dive per component.''),
    PyStr []],
  kwargs =
   [(''slide_num'', PyStr (str_of_nat i @ lit '' / 24'')),
    (''layout'', PyStr (lit ''cards''))]\<rparr>\<close>

definition lab20_loop :: "pycall list" where [lab20_slides]:
  "lab20_loop = map (\<lambda>(i, title). lab20_loop_call i title) (List.enumerate 15 lab20_loop_titles)"

definition lab20_items_20 :: pyval where [lab20_contents]:
  \<open>lab20_items_20 =
   PyList
   [PyDict
     [(''type'', PyStr (lit ''checklist'')),
      (''title'', PyStr (lit ''PREREQUISITES'')),
      (''items'', PyList
        [PyStr (lit ''Implement readiness probe returning 503 '' @ lit ''until warmup''),
         PyStr (lit ''Configure preStop hook >= external routing '' @ lit ''latency''),
         PyStr (lit ''Use Expand'' @ [0x2011] @
            lit ''Contract DB schema with backward compatible '' @ lit ''reads/writes''),
         PyStr (lit ''Ensure worker can drain with timeout and '' @ lit ''context cancellation'')])]]\<close>

definition lab20_slide_20 :: pycall where [lab20_slides]:
  \<open>lab20_slide_20 =
   \<lparr>posargs = [PyList
     [PyStr (lit ''CHECKLIST'')],
    PyStr (lit ''Checklist produksi Zero'' @ [0x2011] @ lit ''Downtime''),
    PyStr [],
    lab20_items_20,
    PyStr (lit ''Langkah'' @ [0x2011] @ lit ''langkah wajib sebelum release.''),
    PyStr []],
  kwargs =
   [(''slide_num'', PyStr (lit ''20 / 24'')),
    (''layout'', PyStr (lit ''checklist''))]\<rparr>\<close>

definition lab20_items_21 :: pyval where [lab20_contents]:
  \<open>lab20_items_21 =
   PyList
   [PyDict
     [(''type'', PyStr (lit ''cards'')),
      (''title'', PyStr (lit ''PITFALLS'')),
      (''items'', PyList
        [PyDict
          [(''title'', PyStr (lit ''Force kill'')),
           (''desc'', PyStr (lit ''Mengakibatkan 502/504''))],
         PyDict
          [(''title'', PyStr (lit ''Schema breaking'')),
           (''desc'', PyStr (lit ''Deploy kolom baru tanpa fallback''))],
         PyDict
          [(''title'', PyStr (lit ''Job abort'')),
           (''desc'', PyStr (lit ''Background worker terhenti abrupt''))]])]]\<close>

definition lab20_slide_21 :: pycall where [lab20_slides]:
  \<open>lab20_slide_21 =
   \<lparr>posargs = [PyList
     [PyStr (lit ''ANTI-PATTERN'')],
    PyStr (lit ''Mengabaikan preStop & readiness''),
    PyStr [],
    lab20_items_21,
    PyStr (lit ''Contoh kegagalan yang sering terjadi.''),
    PyStr []],
  kwargs =
   [(''slide_num'', PyStr (lit ''21 / 24'')),
    (''layout'', PyStr (lit ''cards''))]\<rparr>\<close>

definition lab20_items_22 :: pyval where [lab20_contents]:
  \<open>lab20_items_22 =
   PyList
   [PyDict
     [(''type'', PyStr (lit ''code'')),
      (''title'', PyStr (lit ''RUN'')),
      (''items'', PyList
        [PyStr (lit ''cd labs/20-zero-downtime-deployment''),
         PyStr (lit ''go test -v ./...''),
         PyStr (lit ''go run ./cmd/demo'')])]]\<close>

definition lab20_slide_22 :: pycall where [lab20_slides]:
  \<open>lab20_slide_22 =
   \<lparr>posargs = [PyList
     [PyStr (lit ''REPRODUCTION'')],
    PyStr (lit ''Perintah demo lokal''),
    PyStr [],
    lab20_items_22,
    PyStr (lit ''Perintah menyiapkan lingkungan dan '' @ lit ''memverifikasi zero'' @ [0x2011] @
       lit ''downtime.''),
    PyStr []],
  kwargs =
   [(''slide_num'', PyStr (lit ''22 / 24'')),
    (''layout'', PyStr (lit ''code''))]\<rparr>\<close>

definition lab20_items_23 :: pyval where [lab20_contents]:
  \<open>lab20_items_23 =
   PyList
   [PyDict
     [(''type'', PyStr (lit ''cards'')),
      (''title'', PyStr (lit ''PILLARS'')),
      (''items'', PyList
        [PyDict
          [(''title'', PyStr (lit ''Versioned APIs'')),
           (''desc'', PyStr (lit ''Maintain backward compatibility''))],
         PyDict
          [(''title'', PyStr (lit ''Graceful shutdown'')),
           (''desc'', PyStr (lit ''Health probes + preStop''))],
         PyDict
          [(''title'', PyStr (lit ''Schema evolution'')),
           (''desc'', PyStr (lit ''Expand'' @ [0x2011] @ lit ''Contract pattern''))]])]]\<close>

definition lab20_slide_23 :: pycall where [lab20_slides]:
  \<open>lab20_slide_23 =
   \<lparr>posargs = [PyList
     [PyStr (lit ''PRINCIPLE'')],
    PyStr (lit ''Desain untuk koeksistensi versi''),
    PyStr [],
    lab20_items_23,
    PyStr (lit ''Prinsip ini menjaga uptime selama evolusi '' @ lit ''sistem.''),
    PyStr []],
  kwargs =
   [(''slide_num'', PyStr (lit ''23 / 24'')),
    (''layout'', PyStr (lit ''cards''))]\<rparr>\<close>

definition lab20_items_24 :: pyval where [lab20_contents]:
  \<open>lab20_items_24 =
   PyList
   [PyDict
     [(''type'', PyStr (lit ''bullet'')),
      (''title'', PyStr (lit ''DETAILS'')),
      (''items'', PyList
        [PyStr (lit ''Repo: https://github.com/lukman-ss/software-'' @
            lit ''engineering-lab/tree/main/labs/20-zero-downt'' @ lit ''ime-deployment''),
         PyStr (lit ''Commit: '' @ str_prefix 7 lab20_COMMIT_SHA),
         PyStr (lit ''Author: Lukman / lukman-ss'')])]]\<close>

definition lab20_slide_24 :: pycall where [lab20_slides]:
  \<open>lab20_slide_24 =
   \<lparr>posargs = [PyList
     [PyStr (lit ''CLOSING'')],
    PyStr (lit ''Zero'' @ [0x2011] @ lit ''Downtime Deployment bukan kegagalan, '' @
       lit ''melainkan strategi.''),
    PyStr [],
    lab20_items_24,
    PyStr (lit ''Penutup menegaskan nilai arsitektural.''),
    PyStr []],
  kwargs =
   [(''slide_num'', PyStr (lit ''24 / 24'')),
    (''layout'', PyStr (lit ''closing''))]\<rparr>\<close>

definition lab20_calls :: "pycall list" where
  "lab20_calls =
    [lab20_slide_01, lab20_slide_02, lab20_slide_03, lab20_slide_04, lab20_slide_05,
     lab20_slide_06, lab20_slide_07, lab20_slide_08, lab20_slide_09, lab20_slide_10,
     lab20_slide_11, lab20_slide_12, lab20_slide_13, lab20_slide_14] @
    lab20_loop @
   
     [lab20_slide_20, lab20_slide_21, lab20_slide_22, lab20_slide_23, lab20_slide_24]"

definition lab20_deck :: deck where
  "lab20_deck =
    \<lparr>add_slide = lab20_add_slide, lab_no = lab20_LAB_NO, title_id = lab20_TITLE_ID, calls = lab20_calls\<rparr>"

section \<open>Checks of the calls\<close>

lemma lab20_shapes:
  "\<forall>c \<in> set lab20_calls. shape_of c \<in> set
    [(6, [''slide_num'', ''layout''])]"
  by (simp add: lab20_calls_def lab20_slides shape_of_def cong: pyval_opaque)

lemma lab20_calls_ok: "\<forall>c \<in> set lab20_calls. call_ok sig_layout c"
  by (rule calls_ok_by_shapes [OF lab20_shapes])
    (simp add: shape_ok_def param_names_def signature_defs core_params_def)

lemma lab20_labels: "map (\<lambda>c. value_of sig_layout c ''slide_num'') lab20_calls = labels_24"
  by (simp add: lab20_calls_def lab20_slides call_eval labels_24_eval loop_labels cong: pyval_opaque)

lemma lab20_contents_of:
  "map (\<lambda>c. value_of sig_layout c ''content_items'') lab20_calls =
    [lab20_items_01, lab20_items_02, lab20_items_03, lab20_items_04, lab20_items_05,
     lab20_items_06, lab20_items_07, lab20_items_08, lab20_items_09, lab20_items_10,
     lab20_items_11, lab20_items_12, lab20_items_13, lab20_items_14, lab20_loop_items,
     lab20_loop_items, lab20_loop_items, lab20_loop_items, lab20_loop_items, lab20_items_20,
     lab20_items_21, lab20_items_22, lab20_items_23, lab20_items_24]"
  by (simp add: lab20_calls_def lab20_slides call_eval cong: pyval_opaque)

lemma lab20_items: "item_defects sig_layout lab20_calls = []"
  by (simp only: item_defects_def lab20_contents_of)
    (simp add: lab20_contents item_eval cong: pystr_opaque)

end
