(* ===== verification/Deck21.thy ===== *)
theory Deck21
  imports DeckContract
begin

text \<open>
  The publication definition of lab 21, \<^verbatim>\<open>labs/21-outbox-pattern/result/content_def.py\<close>:
  its module constants, every \<open>add_slide\<close> call in order (\<open>lab21_slide_01\<close> is the first),
  and the module as a whole (\<open>lab21_deck\<close>). Long strings are split into pieces that are
  concatenated; a character outside ASCII is its code point.
\<close>

named_theorems lab21_slides \<open>the add_slide calls of lab 21\<close>
named_theorems lab21_contents \<open>their content_items arguments\<close>

definition lab21_OUTPUT_DIR :: pystr where
  \<open>lab21_OUTPUT_DIR = lit ''labs/21-outbox-pattern/result''\<close>

definition lab21_CHROME_BIN :: pystr where
  \<open>lab21_CHROME_BIN = lit ''/Applications/Google '' @ lit ''Chrome.app/Contents/MacOS/Google Chrome''\<close>

definition lab21_REPO_URL :: pystr where
  \<open>lab21_REPO_URL = lit ''https://github.com/lukman-ss/software-engine'' @
    lit ''ering-lab/tree/main/labs/21-outbox-pattern''\<close>

definition lab21_COMMIT_SHA :: pystr where
  \<open>lab21_COMMIT_SHA = lit ''b2d32740bf482b67be48a216c69e5f8e6b83fe8b''\<close>

definition lab21_LAB_NO :: pystr where
  \<open>lab21_LAB_NO = lit ''21''\<close>

definition lab21_SLUG :: pystr where
  \<open>lab21_SLUG = lit ''outbox-pattern''\<close>

definition lab21_TITLE_ID :: pystr where
  \<open>lab21_TITLE_ID = lit ''Transactional Outbox Pattern''\<close>

definition lab21_SUBTITLE_ID :: pystr where
  \<open>lab21_SUBTITLE_ID = lit ''Atomic Database Writes Meet Eventual '' @ lit ''Message Delivery''\<close>

definition lab21_TITLE_EN :: pystr where
  \<open>lab21_TITLE_EN = lit ''Transactional Outbox Pattern''\<close>

definition lab21_SUBTITLE_EN :: pystr where
  \<open>lab21_SUBTITLE_EN = lit ''Atomic Database Writes Meet Eventual '' @ lit ''Message Delivery''\<close>

definition lab21_AUTHOR :: pystr where
  \<open>lab21_AUTHOR = lit ''Lukman / lukman-ss''\<close>

definition lab21_COVER_IMAGE_PATH :: pystr where
  \<open>lab21_COVER_IMAGE_PATH = lit ''labs/21-outbox-pattern/result/image-cover/co'' @ lit ''ver_art.jpg''\<close>

definition lab21_DARK_NAVY :: pystr where
  \<open>lab21_DARK_NAVY = lit ''0b1b2d''\<close>

definition lab21_TEAL :: pystr where
  \<open>lab21_TEAL = lit ''087f76''\<close>

definition lab21_CREAM :: pystr where
  \<open>lab21_CREAM = lit ''f4f1e8''\<close>

definition lab21_WHITE :: pystr where
  \<open>lab21_WHITE = lit ''ffffff''\<close>

definition lab21_SLATE :: pystr where
  \<open>lab21_SLATE = lit ''52606b''\<close>

definition lab21_ORANGE :: pystr where
  \<open>lab21_ORANGE = lit ''d97706''\<close>

definition lab21_add_slide :: "pycall \<Rightarrow> pyval list \<Rightarrow> (pyexc, pyval list) res" where
  "lab21_add_slide = add_slide_layout"

definition lab21_items_01 :: pyval where [lab21_contents]:
  \<open>lab21_items_01 =
   PyList
   [PyDict
     [(''type'', PyStr (lit ''cover'')),
      (''title'', PyStr []),
      (''items'', PyList
        [PyStr (lit ''Retro CRT monitor beige dengan scanlines''),
         PyStr (lit ''Diagram transactional outbox: DB commit + '' @ lit ''relay polling''),
         PyStr (lit ''Penulis: '' @ lab21_AUTHOR)])]]\<close>

definition lab21_slide_01 :: pycall where [lab21_slides]:
  \<open>lab21_slide_01 =
   \<lparr>posargs = [],
  kwargs =
   [(''categories'', PyList
      [PyStr (lit ''COVER'')]),
    (''title'', PyStr lab21_TITLE_ID),
    (''subtitle'', PyStr lab21_SUBTITLE_ID),
    (''content_items'', lab21_items_01),
    (''mental_model'', PyStr (lit ''Atomic outbox writes + eventual relay '' @
        lit ''delivery guarantee no silent event loss.'')),
    (''source_path'', PyStr lab21_REPO_URL),
    (''slide_num'', PyStr (lit ''01 / 24'')),
    (''narrative'', PyStr (lit ''Transactional Outbox Pattern adalah solusi '' @
        lit ''klasik untuk dual-write problem dalam '' @
        lit ''arsitektur microservice. Lab ini '' @
        lit ''membuktikan bahwa menulis event ke tabel '' @
        lit ''outbox dalam transaksi database yang sama '' @
        lit ''dengan entitas bisnis menghilangkan risiko '' @
        lit ''kehilangan pesan ketika broker mengalami '' @
        lit ''kegagalan. Pola ini memisahkan penulisan '' @
        lit ''atomik dari pengiriman asinkron melalui '' @
        lit ''relay polling, memastikan konsistensi '' @
        lit ''eventual tanpa bergantung pada transaksi '' @ lit ''terdistribusi dua-fase.'')),
    (''narrative_en'', PyStr (lit ''The Transactional Outbox Pattern is a '' @
        lit ''classic solution to the dual-write problem '' @
        lit ''in microservice architectures. This lab '' @
        lit ''proves that writing events to an outbox '' @
        lit ''table within the same database transaction '' @
        lit ''as the business entity eliminates the risk '' @
        lit ''of message loss when the broker fails. The '' @
        lit ''pattern decouples atomic writes from '' @
        lit ''asynchronous delivery via a polling relay, '' @
        lit ''ensuring eventual consistency without '' @
        lit ''relying on two-phase distributed '' @ lit ''transactions.'')),
    (''layout'', PyStr (lit ''cover''))]\<rparr>\<close>

definition lab21_items_02 :: pyval where [lab21_contents]:
  \<open>lab21_items_02 =
   PyList
   [PyDict
     [(''title'', PyStr (lit ''SILENT EVENT LOSS'')),
      (''items'', PyList
        [PyStr (lit ''Database commit berhasil menyimpan order.''),
         PyStr (lit ''Broker publish gagal karena jaringan down '' @ lit ''atau timeout.''),
         PyStr (lit ''Order persisten, tetapi event OrderCreated '' @
            lit ''tidak pernah dikirim ke downstream.'')]),
      (''type'', PyStr (lit ''card''))],
    PyDict
     [(''title'', PyStr (lit ''COUPLED OPERATIONS'')),
      (''items'', PyList
        [PyStr (lit ''Business logic langsung memanggil '' @ lit ''broker.publish().''),
         PyStr (lit ''Hard to test, hard to retry, hard to '' @ lit ''recover.''),
         PyStr (lit ''Kegagalan broker menggagalkan seluruh flow '' @ lit ''pembuatan order.'')]),
      (''type'', PyStr (lit ''card''))],
    PyDict
     [(''title'', PyStr (lit ''MANUAL RECONCILIATION'')),
      (''items'', PyList
        [PyStr (lit ''Perlu audit log untuk mendeteksi order '' @ lit ''tanpa event.''),
         PyStr (lit ''Script repair manual untuk replay event '' @ lit ''yang hilang.''),
         PyStr (lit ''Biaya operasional tinggi dan rentan human '' @ lit ''error.'')]),
      (''type'', PyStr (lit ''card''))]]\<close>

definition lab21_slide_02 :: pycall where [lab21_slides]:
  \<open>lab21_slide_02 =
   \<lparr>posargs = [],
  kwargs =
   [(''categories'', PyList
      [PyStr (lit ''MOTIVASI''),
       PyStr (lit ''DUAL-WRITE PROBLEM'')]),
    (''title'', PyStr (lit ''Dual-Write Problem: Ketidakonsistenan Senyap'')),
    (''subtitle'', PyStr (lit ''Database commit sukses, tetapi broker '' @ lit ''publish gagal '' @ [0x2014] @
        lit '' order ada, event hilang.'')),
    (''content_items'', lab21_items_02),
    (''narrative'', PyStr (lit ''Dual-write problem muncul ketika aplikasi '' @
        lit ''mencoba menulis ke database dan message '' @
        lit ''broker secara terpisah dalam satu flow '' @
        lit ''bisnis. Transaksi database hanya mengontrol '' @
        lit ''operasi di dalam database itu sendiri; ia '' @
        lit ''tidak dapat melakukan ROLLBACK pada sistem '' @
        lit ''eksternal seperti Kafka atau RabbitMQ. '' @
        lit ''Akibatnya, jika commit database sukses '' @
        lit ''tetapi publish ke broker gagal, sistem '' @
        lit ''masuk ke keadaan inkonsisten: order '' @
        lit ''tersimpan tetapi event tidak pernah '' @
        lit ''dikirim. Kondisi ini sulit dideteksi secara '' @
        lit ''real-time dan memerlukan mekanisme '' @
        lit ''rekonsiliasi manual yang kompleks.'')),
    (''narrative_en'', PyStr (lit ''The dual-write problem occurs when an '' @
        lit ''application attempts to write to a database '' @
        lit ''and message broker separately within one '' @
        lit ''business flow. Database transactions only '' @
        lit ''control operations within the database '' @
        lit ''itself; they cannot ROLLBACK external '' @
        lit ''systems like Kafka or RabbitMQ. As a '' @
        lit ''result, if database commit succeeds but '' @
        lit ''broker publish fails, the system enters an '' @
        lit ''inconsistent state: the order is persisted '' @
        lit ''but the event is never sent. This condition '' @
        lit ''is hard to detect in real-time and requires '' @
        lit ''complex manual reconciliation mechanisms.'')),
    (''mental_model'', PyStr (lit ''Separate writes to independent systems '' @
        lit ''cannot be atomic; decouple them with an '' @ lit ''outbox.'')),
    (''source_path'', PyStr (lit ''labs/21-outbox-pattern/content/01-content-br'' @ lit ''ief.md'')),
    (''slide_num'', PyStr (lit ''02 / 24'')),
    (''layout'', PyStr (lit ''cards''))]\<rparr>\<close>

definition lab21_items_03 :: pyval where [lab21_contents]:
  \<open>lab21_items_03 =
   PyList
   [PyDict
     [(''title'', PyStr (lit ''NAIVE DUAL-WRITE CODE'')),
      (''items'', PyList
        [PyStr (lit ''func CreateOrderDualWriteNaive(broker, '' @
            lit ''orderID, amount) error {''),
         PyStr (lit ''    tx := db.BeginTx()''),
         PyStr (lit ''    tx.SaveOrder(order)''),
         PyStr (lit ''    tx.Commit()          // DB berhasil''),
         PyStr (lit ''    broker.Publish(msg)  // Broker gagal '' @ [0x2192] @
            lit '' inkonsisten''),
         PyStr (lit ''}'')]),
      (''type'', PyStr (lit ''code''))],
    PyDict
     [(''title'', PyStr (lit ''KEGAGALAN YG TERJADI'')),
      (''items'', PyList
        [PyStr (lit ''Order persisten di DB, tetapi event tidak '' @ lit ''sampai ke broker.''),
         PyStr (lit ''Tanpa outbox, tidak ada jejak pesan yang '' @
            lit ''tertinggal untuk di-retry.''),
         PyStr (lit ''Reliable delivery must be decoupled dari '' @
            lit ''business transaction.'')]),
      (''type'', PyStr (lit ''bullet''))]]\<close>

definition lab21_slide_03 :: pycall where [lab21_slides]:
  \<open>lab21_slide_03 =
   \<lparr>posargs = [],
  kwargs =
   [(''categories'', PyList
      [PyStr (lit ''ANALISIS''),
       PyStr (lit ''DUA-WRITE NAIEF'')]),
    (''title'', PyStr (lit ''Mengapa Pendekatan Naif Gagal?'')),
    (''subtitle'', PyStr (lit ''Kode dual-write terlihat sederhana, tetapi '' @
        lit ''tidak memiliki jaminan atomisitas lintas '' @ lit ''sistem.'')),
    (''content_items'', lab21_items_03),
    (''narrative'', PyStr (lit ''Implementasi naive dual-write tampaknya '' @
        lit ''intuitif: simpan order ke database, lalu '' @
        lit ''publish event ke broker. Namun, karena '' @
        lit ''kedua operasi berada di luar boundary '' @
        lit ''transaksi yang sama, kegagalan publish '' @
        lit ''tidak dapat di-rollback dari sisi database. '' @
        lit ''Order tetap tersimpan sementara event '' @
        lit ''hilang selamanya. Pendekatan ini juga '' @
        lit ''memperkenalkan coupling yang kuat antara '' @
        lit ''service pemesanan dan broker, sehingga '' @
        lit ''setiap kegagalan broker akan menggagalkan '' @ lit ''seluruh flow bisnis.'')),
    (''narrative_en'', PyStr (lit ''The naive dual-write implementation seems '' @
        lit ''intuitive: save the order to the database, '' @
        lit ''then publish the event to the broker. '' @
        lit ''However, because both operations are '' @
        lit ''outside the same transactional boundary, a '' @
        lit ''publish failure cannot be rolled back from '' @
        lit ''the database side. The order remains '' @
        lit ''persisted while the event is lost forever. '' @
        lit ''This approach also introduces strong '' @
        lit ''coupling between the ordering service and '' @
        lit ''the broker, so any broker failure will '' @
        lit ''abort the entire business flow.'')),
    (''mental_model'', PyStr (lit ''Naive dual-write lacks cross-system '' @
        lit ''atomicity; the outbox pattern restores it '' @ lit ''by staging events.'')),
    (''source_path'', PyStr (lit ''internal/outbox/service.go:55-90'')),
    (''slide_num'', PyStr (lit ''03 / 24'')),
    (''layout'', PyStr (lit ''code-bullet''))]\<rparr>\<close>

definition lab21_items_04 :: pyval where [lab21_contents]:
  \<open>lab21_items_04 =
   PyList
   [PyDict
     [(''title'', PyStr (lit ''OUTBOX MESSAGE SCHEMA'')),
      (''items'', PyList
        [PyStr (lit ''type OutboxMessage struct {''),
         PyStr (lit ''    ID        string''),
         PyStr (lit ''    EventType string''),
         PyStr (lit ''    Payload   string''),
         PyStr (lit ''    Status    MessageStatus  // PENDING, '' @ lit ''PROCESSED''),
         PyStr (lit ''    CreatedAt time.Time''),
         PyStr (lit ''}'')]),
      (''type'', PyStr (lit ''code''))],
    PyDict
     [(''title'', PyStr (lit ''PRINSIP INTI'')),
      (''items'', PyList
        [PyStr (lit ''Atomic write: order + outbox message dalam '' @ lit ''satu Tx.''),
         PyStr (lit ''Decoupled relay: polling worker membaca '' @ lit ''PENDING records.''),
         PyStr (lit ''At-least-once delivery: retry hingga '' @ lit ''publish sukses.''),
         PyStr (lit ''Idempotent consumer: deduplication via '' @ lit ''event ID.'')]),
      (''type'', PyStr (lit ''bullet''))]]\<close>

definition lab21_slide_04 :: pycall where [lab21_slides]:
  \<open>lab21_slide_04 =
   \<lparr>posargs = [],
  kwargs =
   [(''categories'', PyList
      [PyStr (lit ''MENTAL MODEL''),
       PyStr (lit ''SCHEMA'')]),
    (''title'', PyStr (lit ''Mental Model: Transactional Outbox'')),
    (''subtitle'', PyStr (lit ''Tulis entitas bisnis + event ke tabel '' @
        lit ''outbox dalam satu transaksi database.'')),
    (''content_items'', lab21_items_04),
    (''narrative'', PyStr (lit ''Mental model inti dari pola Transactional '' @
        lit ''Outbox adalah memindahkan penulisan event '' @
        lit ''ke dalam boundary transaksi yang sama '' @
        lit ''dengan penulisan entitas bisnis. Alih-alih '' @
        lit ''melakukan dua write terpisah, aplikasi '' @
        lit ''menulis order dan outbox message secara '' @
        lit ''bersamaan dalam satu transaksi database. '' @
        lit ''Setelah commit berhasil, kedua rekaman '' @
        lit ''tersebut persisten. Proses asynchronous '' @
        lit ''yang disebut message relay kemudian secara '' @
        lit ''periodik polling record PENDING dan '' @
        lit ''mengirimkannya ke broker. Jika relay gagal, '' @
        lit ''record tetap PENDING dan akan dicoba lagi '' @ lit ''pada siklus berikutnya.'')),
    (''narrative_en'', PyStr (lit ''The core mental model of the Transactional '' @
        lit ''Outbox pattern is to move the event write '' @
        lit ''into the same transactional boundary as the '' @
        lit ''business entity write. Instead of '' @
        lit ''performing two separate writes, the '' @
        lit ''application writes the order and outbox '' @
        lit ''message simultaneously within one database '' @
        lit ''transaction. After successful commit, both '' @
        lit ''records are persisted. An asynchronous '' @
        lit ''process called the message relay then '' @
        lit ''periodically polls PENDING records and '' @
        lit ''delivers them to the broker. If the relay '' @
        lit ''fails, the record remains PENDING and will '' @
        lit ''be retried in the next cycle.'')),
    (''mental_model'', PyStr (lit ''Commit business entity and its event '' @
        lit ''together; let a relay eventually deliver.'')),
    (''source_path'', PyStr (lit ''internal/outbox/model.go '' @ [0x2022] @
        lit '' internal/outbox/service.go:17-53'')),
    (''slide_num'', PyStr (lit ''04 / 24'')),
    (''layout'', PyStr (lit ''schema-card''))]\<rparr>\<close>

definition lab21_items_05 :: pyval where [lab21_contents]:
  \<open>lab21_items_05 =
   PyList
   [PyDict
     [(''title'', PyStr (lit ''EKSEKUSI PIPELINE'')),
      (''items'', PyList
        [PyStr (lit ''Client '' @ [0x2192] @ lit '' OrderService.CreateOrderWithOutbox''),
         PyStr (lit ''Service '' @ [0x2192] @ lit '' DB.BeginTx() '' @ [0x2192] @
            lit '' SaveOrder + SaveOutbox (staged)''),
         PyStr (lit ''Service '' @ [0x2192] @ lit '' DB.Commit() '' @ [0x2192] @
            lit '' flushed atomically''),
         PyStr (lit ''Relay (ticker) '' @ [0x2192] @ lit '' GetPendingOutbox() '' @ [0x2192] @
            lit '' [PENDING]''),
         PyStr (lit ''Relay '' @ [0x2192] @ lit '' Broker.Publish(msg) '' @ [0x2192] @
            lit '' success?''),
         PyStr (lit ''Relay '' @ [0x2192] @ lit '' MarkOutboxProcessed(msg.ID) '' @ [0x2192] @
            lit '' PROCESSED''),
         PyStr (lit ''Consumer.Handle(msg) '' @ [0x2192] @ lit '' idempotent check '' @
            [0x2192] @ lit '' accepted'')]),
      (''type'', PyStr (lit ''diagram''))]]\<close>

definition lab21_slide_05 :: pycall where [lab21_slides]:
  \<open>lab21_slide_05 =
   \<lparr>posargs = [],
  kwargs =
   [(''categories'', PyList
      [PyStr (lit ''ARSITEKTUR''),
       PyStr (lit ''PIPELINE'')]),
    (''title'', PyStr (lit ''Alur Eksekusi: Dari Transaksi Hingga '' @ lit ''Consumer'')),
    (''subtitle'', PyStr (lit ''Pipeline'' @ [0x7AEF, 0x5230, 0x7AEF] @ lit '': Service '' @ [0x2192] @
        lit '' DB Tx '' @ [0x2192] @ lit '' Relay '' @ [0x2192] @ lit '' Broker '' @
        [0x2192] @ lit '' Consumer.'')),
    (''content_items'', lab21_items_05),
    (''narrative'', PyStr (lit ''Pipeline eksekusi Transactional Outbox '' @
        lit ''terdiri dari lima tahap utama. Pertama, '' @
        lit ''service menerima request pembuatan order '' @
        lit ''dan memulai transaksi database. Kedua, '' @
        lit ''service menyimpan order dan outbox message '' @
        lit ''secara staged di dalam transaksi. Ketiga, '' @
        lit ''service melakukan commit yang secara atomik '' @
        lit ''flush kedua staged record ke database. '' @
        lit ''Keempat, relay worker yang berjalan '' @
        lit ''periodik polling record PENDING dan mencoba '' @
        lit ''publish ke broker. Kelima, consumer '' @
        lit ''menerima pesan dan melakukan idempotent '' @
        lit ''check sebelum memproses lebih lanjut.'')),
    (''narrative_en'', PyStr (lit ''The Transactional Outbox execution pipeline '' @
        lit ''consists of five main stages. First, the '' @
        lit ''service receives an order creation request '' @
        lit ''and starts a database transaction. Second, '' @
        lit ''the service stages both the order and '' @
        lit ''outbox message within the transaction. '' @
        lit ''Third, the service commits, which '' @
        lit ''atomically flushes both staged records to '' @
        lit ''the database. Fourth, a relay worker '' @
        lit ''running periodically polls PENDING records '' @
        lit ''and attempts to publish them to the broker. '' @
        lit ''Fifth, the consumer receives the message '' @
        lit ''and performs an idempotent check before '' @ lit ''further processing.'')),
    (''mental_model'', PyStr (lit ''Atomic commit ensures both entity and event '' @
        lit ''survive together; relay ensures eventual '' @ lit ''delivery.'')),
    (''source_path'', PyStr (lit ''internal/outbox/db.go:112-129 '' @ [0x2022] @
        lit '' internal/outbox/relay.go:50-67'')),
    (''slide_num'', PyStr (lit ''05 / 24'')),
    (''layout'', PyStr (lit ''pipeline-diagram''))]\<rparr>\<close>

definition lab21_items_06 :: pyval where [lab21_contents]:
  \<open>lab21_items_06 =
   PyList
   [PyDict
     [(''title'', PyStr (lit ''ATOMIC OUTBOX WRITE'')),
      (''items'', PyList
        [PyStr (lit ''func (s *OrderService) '' @
            lit ''CreateOrderWithOutbox(orderID string, '' @
            lit ''customerID string, amount float64) error {''),
         PyStr (lit ''    tx := s.db.BeginTx()''),
         PyStr (lit ''    order := Order{ID: orderID, CustomerID: '' @
            lit ''customerID, Amount: amount, Status: '' @ lit ''OrderStatusCreated}''),
         PyStr (lit ''    payload, _ := json.Marshal(order)''),
         PyStr (lit ''    msg := OutboxMessage{ID: '' @
            lit ''fmt.Sprintf("evt-%s", orderID), EventType: '' @
            lit ''"OrderCreated", Payload: string(payload), '' @
            lit ''Status: MessageStatusPending, CreatedAt: '' @ lit ''time.Now()}''),
         PyStr (lit ''    tx.SaveOrder(order)''),
         PyStr (lit ''    tx.SaveOutbox(msg)''),
         PyStr (lit ''    return tx.Commit()''),
         PyStr (lit ''}'')]),
      (''type'', PyStr (lit ''code''))]]\<close>

definition lab21_slide_06 :: pycall where [lab21_slides]:
  \<open>lab21_slide_06 =
   \<lparr>posargs = [],
  kwargs =
   [(''categories'', PyList
      [PyStr (lit ''IMPLEMENTASI''),
       PyStr (lit ''CODE'')]),
    (''title'', PyStr (lit ''Implementasi Atomic Outbox Write'')),
    (''subtitle'', PyStr (lit ''Service.go: CreateOrderWithOutbox '' @ [0x2014] @
        lit '' staged save + atomic commit.'')),
    (''content_items'', lab21_items_06),
    (''narrative'', PyStr (lit ''Implementasi atomic outbox write berada di '' @
        lit ''method CreateOrderWithOutbox pada '' @
        lit ''service.go. Method ini memulai transaksi '' @
        lit ''baru, membuat entitas order dan outbox '' @
        lit ''message, lalu menyimpan keduanya secara '' @
        lit ''staged menggunakan SaveOrder dan '' @
        lit ''SaveOutbox. Jika Marshalling JSON gagal '' @
        lit ''atau salah satu save operation error, '' @
        lit ''method akan rollback dan mengembalikan '' @
        lit ''error. Hanya setelah kedua staged record '' @
        lit ''tersimpan dengan sukses, method melakukan '' @
        lit ''commit yang akan secara atomik flush semua '' @ lit ''perubahan ke database.'')),
    (''narrative_en'', PyStr (lit ''The atomic outbox write implementation '' @
        lit ''resides in the CreateOrderWithOutbox method '' @
        lit ''in service.go. This method starts a new '' @
        lit ''transaction, creates the order entity and '' @
        lit ''outbox message, then stages both using '' @
        lit ''SaveOrder and SaveOutbox. If JSON '' @
        lit ''marshalling fails or any save operation '' @
        lit ''errors, the method rolls back and returns '' @
        lit ''an error. Only after both staged records '' @
        lit ''are successfully saved does the method '' @
        lit ''commit, which atomically flushes all '' @ lit ''changes to the database.'')),
    (''mental_model'', PyStr (lit ''Stage both writes, commit once, guarantee '' @
        lit ''both succeed or both fail.'')),
    (''source_path'', PyStr (lit ''internal/outbox/service.go:17-53'')),
    (''slide_num'', PyStr (lit ''06 / 24'')),
    (''layout'', PyStr (lit ''code-dominant''))]\<rparr>\<close>

definition lab21_items_07 :: pyval where [lab21_contents]:
  \<open>lab21_items_07 =
   PyList
   [PyDict
     [(''title'', PyStr (lit ''DEMO OUTPUT'')),
      (''items'', PyList
        [PyStr (lit ''=== Lab 21: Transactional Outbox Pattern '' @ lit ''Demo ===''),
         PyStr (lit ''[Scenario 1: The Dual-Write Problem]''),
         PyStr (lit ''Direct write failed: failed to publish to '' @
            lit ''broker after DB commit: broker unavailable''),
         PyStr (lit ''State Inconsistency: Order in DB = true, '' @
            lit ''Broker Message Count = 0'')]),
      (''type'', PyStr (lit ''terminal''))],
    PyDict
     [(''title'', PyStr (lit ''ANALISIS'')),
      (''items'', PyList
        [PyStr (lit ''TestDualWriteProblem_Failure secara '' @
            lit ''eksplisit mengassert ketidakonsistenan ini.''),
         PyStr (lit ''Order ada di DB, tetapi broker published '' @ lit ''count = 0.''),
         PyStr (lit ''Inconsistency terjadi karena broker publish '' @
            lit ''dilakukan setelah commit.'')]),
      (''type'', PyStr (lit ''bullet''))]]\<close>

definition lab21_slide_07 :: pycall where [lab21_slides]:
  \<open>lab21_slide_07 =
   \<lparr>posargs = [],
  kwargs =
   [(''categories'', PyList
      [PyStr (lit ''FAILURE PATH''),
       PyStr (lit ''BUKTI'')]),
    (''title'', PyStr (lit ''Failure Path: Dual-Write Naive Menghasilkan '' @ lit ''Dangling Order'')),
    (''subtitle'', PyStr (lit ''Order persisten, event hilang '' @ [0x2014] @
        lit '' bukti dari TestDualWriteProblem_Failure.'')),
    (''content_items'', lab21_items_07),
    (''narrative'', PyStr (lit ''Failure path ini membuktikan bagaimana '' @
        lit ''dual-write naive menciptakan dangling '' @
        lit ''reference: order yang persisten di database '' @
        lit ''tanpa event yang sesuai di broker. Dalam '' @
        lit ''demo, broker disimulasikan gagal melalui '' @
        lit ''SetFailNext(true). Setelah commit database '' @
        lit ''sukses, method CreateOrderDualWriteNaive '' @
        lit ''mencoba publish ke broker yang gagal, '' @
        lit ''menyebabkan error dikembalikan. Namun order '' @
        lit ''sudah tersimpan permanen di database. Test '' @
        lit ''Case TestDualWriteProblem_Failure '' @
        lit ''mengassert kondisi ini: order ditemukan di '' @
        lit ''DB, tetapi broker tidak menerima pesan apa '' @ lit ''pun.'')),
    (''narrative_en'', PyStr (lit ''This failure path proves how naive '' @
        lit ''dual-write creates a dangling reference: an '' @
        lit ''order persisted in the database without a '' @
        lit ''corresponding event in the broker. In the '' @
        lit ''demo, the broker is simulated to fail via '' @
        lit ''SetFailNext(true). After successful '' @ lit ''database commit, the '' @
        lit ''CreateOrderDualWriteNaive method attempts '' @
        lit ''to publish to the failing broker, causing '' @
        lit ''an error to be returned. However, the order '' @
        lit ''is already permanently stored in the '' @
        lit ''database. The TestDualWriteProblem_Failure '' @
        lit ''test case asserts this condition: the order '' @
        lit ''is found in the DB, but the broker received '' @ lit ''no messages.'')),
    (''mental_model'', PyStr (lit ''When broker publish follows DB commit, '' @
        lit ''failure leaves dangling orders without '' @ lit ''events.'')),
    (''source_path'', PyStr (lit ''tests/outbox_test.go:118-140 '' @ [0x2022] @ lit '' cmd/demo/main.go:20-28'')),
    (''slide_num'', PyStr (lit ''07 / 24'')),
    (''layout'', PyStr (lit ''failure-path''))]\<rparr>\<close>

definition lab21_items_08 :: pyval where [lab21_contents]:
  \<open>lab21_items_08 =
   PyList
   [PyDict
     [(''title'', PyStr (lit ''PERBANDINGAN'')),
      (''items'', PyList
        [PyStr (lit ''Aspek | Dual-Write Naive | Transactional '' @ lit ''Outbox''),
         PyStr (lit ''Write Boundary | Terpisah (DB commit dulu, '' @
            lit ''lalu broker) | Sama (order + outbox dalam '' @ lit ''satu Tx)''),
         PyStr (lit ''Atomicity | Tidak atomik lintas sistem | '' @
            lit ''Atomik untuk write pertama''),
         PyStr (lit ''Broker Failure Impact | Order persisten, '' @
            lit ''event hilang | Order + event persisten, '' @ lit ''relay retry''),
         PyStr (lit ''Idempotency Requirement | Tidak diperlukan '' @
            lit ''(karena konsisten) | Diperlukan '' @ lit ''(at-least-once delivery)''),
         PyStr (lit ''Operational Complexity | Rendah, tetapi '' @
            lit ''risiko tinggi | Sedang, dengan relay dan '' @ lit ''cleanup'')]),
      (''type'', PyStr (lit ''table''))]]\<close>

definition lab21_slide_08 :: pycall where [lab21_slides]:
  \<open>lab21_slide_08 =
   \<lparr>posargs = [],
  kwargs =
   [(''categories'', PyList
      [PyStr (lit ''PERBANDINGAN''),
       PyStr (lit ''MEKANISME'')]),
    (''title'', PyStr (lit ''Mekanisme vs Gejala: Dual-Write vs Outbox'')),
    (''subtitle'', PyStr (lit ''Tabel perbandingan perilaku kedua '' @ lit ''pendekatan saat broker failure.'')),
    (''content_items'', lab21_items_08),
    (''narrative'', PyStr (lit ''Tabel perbandingan ini menyoroti perbedaan '' @
        lit ''fundamental antara pendekatan dual-write '' @
        lit ''naive dan transactional outbox. Pada '' @
        lit ''dual-write naive, boundary write terpisah '' @
        lit ''antara database commit dan broker publish, '' @
        lit ''sehingga tidak ada atomisitas lintas '' @
        lit ''sistem. Ketika broker gagal setelah commit, '' @
        lit ''order tetap persisten sedangkan event '' @
        lit ''hilang. Sebaliknya, pada transactional '' @
        lit ''outbox, kedua write dilakukan dalam satu '' @
        lit ''transaksi database, menjamin atomisitas '' @
        lit ''untuk tahap pertama. Broker failure hanya '' @
        lit ''menunda delivery, bukan menghapus event, '' @
        lit ''karena relay akan retry hingga sukses.'')),
    (''narrative_en'', PyStr (lit ''This comparison table highlights the '' @
        lit ''fundamental differences between naive '' @
        lit ''dual-write and transactional outbox '' @
        lit ''approaches. In naive dual-write, the write '' @
        lit ''boundary is separated between database '' @
        lit ''commit and broker publish, so there is no '' @
        lit ''cross-system atomicity. When the broker '' @
        lit ''fails after commit, the order persists '' @
        lit ''while the event is lost. Conversely, in '' @
        lit ''transactional outbox, both writes are '' @
        lit ''performed within one database transaction, '' @
        lit ''guaranteeing atomicity for the first stage. '' @
        lit ''Broker failure only delays delivery, not '' @
        lit ''deletes the event, because the relay will '' @ lit ''retry until success.'')),
    (''mental_model'', PyStr (lit ''Outbox shifts the failure window from '' @
        lit ''permanent loss to eventual delivery with '' @ lit ''retry.'')),
    (''source_path'', PyStr (lit ''labs/21-outbox-pattern/content/02-master-dra'' @ lit ''ft.md'')),
    (''slide_num'', PyStr (lit ''08 / 24'')),
    (''layout'', PyStr (lit ''comparison-table''))]\<rparr>\<close>

definition lab21_items_09 :: pyval where [lab21_contents]:
  \<open>lab21_items_09 =
   PyList
   [PyDict
     [(''title'', PyStr (lit ''KEPUTUSAN 1: ATOMIC BOUNDARY'')),
      (''items'', PyList
        [PyStr (lit ''Tentukan boundary transaksi yang mencakup '' @
            lit ''write business entity + write outbox event.''),
         PyStr (lit ''Gunakan staging pattern: simpan sementara '' @
            lit ''di memory, baru flush saat commit.'')]),
      (''type'', PyStr (lit ''card''))],
    PyDict
     [(''title'', PyStr (lit ''KEPUTUSAN 2: RELIABLE RELAY'')),
      (''items'', PyList
        [PyStr (lit ''Pilih strategi polling (Polling Publisher) '' @
            lit ''atau log-tailing (CDC).''),
         PyStr (lit ''Relay harus retry hingga publish sukses dan '' @
            lit ''hanya tandai PROCESSED setelah sukses.'')]),
      (''type'', PyStr (lit ''card''))],
    PyDict
     [(''title'', PyStr (lit ''KEPUTUSAN 3: IDEMPOTENT CONSUMER'')),
      (''items'', PyList
        [PyStr (lit ''Consumer harus memiliki deduplication '' @
            lit ''mechanism berbasis event ID.''),
         PyStr (lit ''Handle(msg) mengembalikan true untuk '' @
            lit ''pertama, false untuk duplikat.'')]),
      (''type'', PyStr (lit ''card''))]]\<close>

definition lab21_slide_09 :: pycall where [lab21_slides]:
  \<open>lab21_slide_09 =
   \<lparr>posargs = [],
  kwargs =
   [(''categories'', PyList
      [PyStr (lit ''DESIGN DECISION''),
       PyStr (lit ''PATTERN'')]),
    (''title'', PyStr (lit ''3 Keputusan Desain Kritis'')),
    (''subtitle'', PyStr (lit ''Urutan keputusan arsitektural yang harus '' @
        lit ''diambil saat mengimplementasikan outbox.'')),
    (''content_items'', lab21_items_09),
    (''narrative'', PyStr (lit ''Tiga keputusan desain kritis ini membentuk '' @
        lit ''fondasi implementasi transactional outbox '' @
        lit ''yang robust. Keputusan pertama menetapkan '' @
        lit ''boundary transaksi yang atomik untuk write '' @
        lit ''bisnis dan outbox. Keputusan kedua memilih '' @
        lit ''mekanisme relay yang reliable dengan retry '' @
        lit ''logic. Keputusan ketiga memastikan consumer '' @
        lit ''dapat menangani duplicate delivery dengan '' @
        lit ''aman melalui idempotency check. Ketiga '' @
        lit ''keputusan ini saling bergantung dan harus '' @
        lit ''diimplementasikan bersama untuk mencapai '' @
        lit ''eventual consistency yang diinginkan.'')),
    (''narrative_en'', PyStr (lit ''These three critical design decisions form '' @
        lit ''the foundation of a robust transactional '' @
        lit ''outbox implementation. The first decision '' @
        lit ''establishes an atomic transaction boundary '' @
        lit ''for business and outbox writes. The second '' @
        lit ''decision selects a reliable relay mechanism '' @
        lit ''with retry logic. The third decision '' @
        lit ''ensures the consumer can safely handle '' @
        lit ''duplicate delivery through idempotency '' @
        lit ''checks. These three decisions are '' @
        lit ''interdependent and must be implemented '' @
        lit ''together to achieve the desired eventual '' @ lit ''consistency.'')),
    (''mental_model'', PyStr (lit ''Atomic boundary '' @ [0x2192] @ lit '' reliable relay '' @ [0x2192] @
        lit '' idempotent consumer = eventual consistency.'')),
    (''source_path'', PyStr (lit ''labs/21-outbox-pattern/content/05-key-takeaw'' @ lit ''ays.md'')),
    (''slide_num'', PyStr (lit ''09 / 24'')),
    (''layout'', PyStr (lit ''decision-cards''))]\<rparr>\<close>

definition lab21_items_10 :: pyval where [lab21_contents]:
  \<open>lab21_items_10 =
   PyList
   [PyDict
     [(''title'', PyStr (lit ''DEMO TERMINAL'')),
      (''items'', PyList
        [PyStr (lit ''=== Lab 21: Transactional Outbox Pattern '' @ lit ''Demo ===''),
         PyStr [],
         PyStr (lit ''[Scenario 1: The Dual-Write Problem]''),
         PyStr (lit ''Direct write failed: failed to publish to '' @
            lit ''broker after DB commit: broker unavailable''),
         PyStr (lit ''State Inconsistency: Order in DB = true, '' @
            lit ''Broker Message Count = 0''),
         PyStr [],
         PyStr (lit ''[Scenario 2: Transactional Outbox Solution]''),
         PyStr (lit ''Broker received messages: 1''),
         PyStr (lit '' - Event ID: evt-order-outbox-success, '' @
            lit ''Type: OrderCreated, Payload: {...}''),
         PyStr [],
         PyStr (lit ''[Scenario 3: At-Least-Once Delivery & '' @ lit ''Idempotent Consumer]''),
         PyStr (lit ''Consumer processing duplicate delivery: '' @ lit ''accepted=false'')]),
      (''type'', PyStr (lit ''terminal''))]]\<close>

definition lab21_slide_10 :: pycall where [lab21_slides]:
  \<open>lab21_slide_10 =
   \<lparr>posargs = [],
  kwargs =
   [(''categories'', PyList
      [PyStr (lit ''BUKTI''),
       PyStr (lit ''DEMO'')]),
    (''title'', PyStr (lit ''Bukti Eksekusi: Terminal Output Demo'')),
    (''subtitle'', PyStr (lit ''Output langsung dari go run ./cmd/demo yang '' @
        lit ''menunjukkan dual-write failure dan outbox '' @ lit ''success.'')),
    (''content_items'', lab21_items_10),
    (''narrative'', PyStr (lit ''Terminal output di atas adalah bukti '' @
        lit ''eksekusi langsung dari demo command yang '' @
        lit ''menjalankan tiga skenario. Skenario 1 '' @
        lit ''menunjukkan dual-write failure: order ada '' @
        lit ''di DB tetapi broker message count = 0. '' @
        lit ''Skenario 2 menunjukkan outbox success: satu '' @
        lit ''pesan berhasil dipublikasikan ke broker '' @
        lit ''setelah relay polling. Skenario 3 '' @
        lit ''menunjukkan idempotent consumer: duplicate '' @
        lit ''delivery ditolak dengan accepted=false, '' @
        lit ''memastikan received count tetap 1. Output '' @
        lit ''ini memverifikasi bahwa outbox pattern '' @
        lit ''berhasil mengatasi dual-write problem.'')),
    (''narrative_en'', PyStr (lit ''The terminal output above is direct '' @
        lit ''execution proof from the demo command '' @
        lit ''running three scenarios. Scenario 1 '' @
        lit ''demonstrates dual-write failure: the order '' @
        lit ''exists in the DB but the broker message '' @
        lit ''count equals zero. Scenario 2 demonstrates '' @
        lit ''outbox success: one message was '' @
        lit ''successfully published to the broker after '' @
        lit ''relay polling. Scenario 3 demonstrates the '' @
        lit ''idempotent consumer: duplicate delivery is '' @
        lit ''rejected with accepted=false, ensuring the '' @
        lit ''received count remains one. This output '' @
        lit ''verifies that the outbox pattern '' @
        lit ''successfully overcomes the dual-write '' @ lit ''problem.'')),
    (''mental_model'', PyStr (lit ''Observable terminal output validates both '' @
        lit ''failure and success paths.'')),
    (''source_path'', PyStr (lit ''cmd/demo/main.go '' @ [0x2022] @ lit '' tests/outbox_test.go'')),
    (''slide_num'', PyStr (lit ''10 / 24'')),
    (''layout'', PyStr (lit ''terminal-output''))]\<rparr>\<close>

definition lab21_items_11 :: pyval where [lab21_contents]:
  \<open>lab21_items_11 =
   PyList
   [PyDict
     [(''title'', PyStr (lit ''YANG TIDAK DIBUKTIKAN'')),
      (''items'', PyList
        [PyStr (lit ''Lab menggunakan in-memory DB, bukan '' @ lit ''PostgreSQL/MySQL real.''),
         PyStr (lit ''Hanya Polling Publisher yang '' @
            lit ''diimplementasikan; CDC/log-tailing tidak '' @ lit ''ada.''),
         PyStr (lit ''Tidak ada dead-letter queue untuk poison '' @
            lit ''payload non-retryable.''),
         PyStr (lit ''Skema OutboxMessage disederhanakan: tidak '' @
            lit ''ada kolom aggregateid/aggregatetype.''),
         PyStr (lit ''Nilai SLA contoh (oldest-event age ~2s '' @
            lit ''normal, 47+ menit abnormal) bersifat '' @ lit ''ilustratif.''),
         PyStr (lit ''Tidak ada benchmark throughput atau partisi '' @ lit ''skala tinggi.'')]),
      (''type'', PyStr (lit ''bullet''))]]\<close>

definition lab21_slide_11 :: pycall where [lab21_slides]:
  \<open>lab21_slide_11 =
   \<lparr>posargs = [],
  kwargs =
   [(''categories'', PyList
      [PyStr (lit ''BATASAN''),
       PyStr (lit ''ANALISIS'')]),
    (''title'', PyStr (lit ''YANG TIDAK DIBUKTIKAN'')),
    (''subtitle'', PyStr (lit ''Batasan lab ini yang penting diketahui '' @
        lit ''sebelum menerapkan ke production.'')),
    (''content_items'', lab21_items_11),
    (''narrative'', PyStr (lit ''Laboratorium ini memiliki beberapa batasan '' @
        lit ''yang perlu diingat. Pertama, database yang '' @
        lit ''digunakan adalah in-memory mock, bukan '' @
        lit ''RDBMS produksi seperti PostgreSQL atau '' @
        lit ''MySQL. Kedua, hanya strategi Polling '' @
        lit ''Publisher yang diimplementasikan; '' @
        lit ''pendekatan Transaction Log Tailing '' @
        lit ''menggunakan CDC tools seperti Debezium '' @
        lit ''tidak ditunjukkan. Ketiga, tidak ada '' @
        lit ''dead-letter queue untuk menangani payload '' @
        lit ''yang gagal berulang kali. Keempat, skema '' @
        lit ''OutboxMessage disederhanakan tanpa kolom '' @
        lit ''agregat yang biasanya ada di desain '' @
        lit ''produksi. Kelima, nilai SLA yang disebutkan '' @
        lit ''bersifat ilustratif dan harus disesuaikan '' @
        lit ''dengan SLO masing-masing sistem.'')),
    (''narrative_en'', PyStr (lit ''This laboratory has several limitations '' @
        lit ''that need to be noted. First, the database '' @
        lit ''used is an in-memory mock, not a production '' @
        lit ''RDBMS like PostgreSQL or MySQL. Second, '' @
        lit ''only the Polling Publisher strategy is '' @
        lit ''implemented; the Transaction Log Tailing '' @
        lit ''approach using CDC tools like Debezium is '' @
        lit ''not shown. Third, there is no dead-letter '' @
        lit ''queue to handle payloads that fail '' @
        lit ''repeatedly. Fourth, the OutboxMessage '' @
        lit ''schema is simplified without the aggregate '' @
        lit ''columns typically present in production '' @
        lit ''designs. Fifth, the SLA values mentioned '' @
        lit ''are illustrative and must be adjusted to '' @ lit ''each system'' @ [39] @
        lit ''s SLOs.'')),
    (''mental_model'', PyStr (lit ''Understand lab boundaries to map patterns '' @
        lit ''correctly to production constraints.'')),
    (''source_path'', PyStr (lit ''labs/21-outbox-pattern/content/01-content-br'' @ lit ''ief.md'')),
    (''slide_num'', PyStr (lit ''11 / 24'')),
    (''layout'', PyStr (lit ''constraints-list''))]\<rparr>\<close>

definition lab21_items_12 :: pyval where [lab21_contents]:
  \<open>lab21_items_12 =
   PyList
   [PyDict
     [(''title'', PyStr (lit ''KEUNTUNGAN'')),
      (''items'', PyList
        [PyStr (lit ''Menghilangkan silent event loss dari '' @ lit ''dual-write naive.''),
         PyStr (lit ''Menjamin at-least-once delivery melalui '' @ lit ''retry mechanism.''),
         PyStr (lit ''Decoupling service pemesanan dari broker '' @ lit ''implementation.''),
         PyStr (lit ''Idempotent consumer mencegah double '' @ lit ''processing.'')]),
      (''type'', PyStr (lit ''bullet''))],
    PyDict
     [(''title'', PyStr (lit ''KEMALAHAN'')),
      (''items'', PyList
        [PyStr (lit ''Latency tambahan: event tidak langsung '' @
            lit ''sampai ke broker, perlu polling interval.''),
         PyStr (lit ''Operational overhead: perlu monitor '' @
            lit ''oldest-event age dan pending count.''),
         PyStr (lit ''Complexity tambahan: relay process, cleanup '' @
            lit ''job, idempotency tracking.''),
         PyStr (lit ''Storage growth: outbox table bertambah '' @
            lit ''hingga di-purge processed records.'')]),
      (''type'', PyStr (lit ''bullet''))]]\<close>

definition lab21_slide_12 :: pycall where [lab21_slides]:
  \<open>lab21_slide_12 =
   \<lparr>posargs = [],
  kwargs =
   [(''categories'', PyList
      [PyStr (lit ''TRADE-OFF''),
       PyStr (lit ''ARSITEKTUR'')]),
    (''title'', PyStr (lit ''Trade-off Arsitektur: Outbox Pattern'')),
    (''subtitle'', PyStr (lit ''Konsistensi eventual vs kompleksitas '' @
        lit ''operasional dan latency tambahan.'')),
    (''content_items'', lab21_items_12),
    (''narrative'', PyStr (lit ''Implementasi Transactional Outbox membawa '' @
        lit ''trade-off yang perlu dipertimbangkan. Di '' @
        lit ''sisi keuntungan, pola ini menghilangkan '' @
        lit ''silent event loss yang sering terjadi pada '' @
        lit ''dual-write naive dan menjamin at-least-once '' @
        lit ''delivery melalui mekanisme retry. Pola ini '' @
        lit ''juga mendekopling service pemesanan dari '' @
        lit ''implementasi broker tertentu. Namun, ada '' @
        lit ''kerugian yang signifikan: latency tambahan '' @
        lit ''karena event tidak langsung sampai ke '' @
        lit ''broker tetapi perlu menunggu polling '' @
        lit ''interval. Selain itu, ada operational '' @
        lit ''overhead berupa monitoring oldest-event age '' @
        lit ''dan pending count, serta kompleksitas '' @
        lit ''tambahan untuk relay process, cleanup job, '' @
        lit ''dan idempotency tracking.'')),
    (''narrative_en'', PyStr (lit ''Implementing the Transactional Outbox '' @
        lit ''pattern brings trade-offs that need to be '' @
        lit ''considered. On the benefit side, the '' @
        lit ''pattern eliminates silent event loss that '' @
        lit ''often occurs in naive dual-write and '' @
        lit ''guarantees at-least-once delivery through '' @
        lit ''retry mechanisms. It also decouples the '' @
        lit ''ordering service from specific broker '' @
        lit ''implementations. However, there are '' @
        lit ''significant drawbacks: additional latency '' @
        lit ''because events do not reach the broker '' @
        lit ''immediately but must wait for polling '' @
        lit ''intervals. Additionally, there is '' @
        lit ''operational overhead in monitoring '' @
        lit ''oldest-event age and pending counts, as '' @
        lit ''well as added complexity for relay '' @
        lit ''processes, cleanup jobs, and idempotency '' @ lit ''tracking.'')),
    (''mental_model'', PyStr (lit ''Trade consistency for operability: accept '' @
        lit ''eventual delivery to prevent permanent loss.'')),
    (''source_path'', PyStr (lit ''labs/21-outbox-pattern/content/02-master-dra'' @ lit ''ft.md'')),
    (''slide_num'', PyStr (lit ''12 / 24'')),
    (''layout'', PyStr (lit ''tradeoff''))]\<rparr>\<close>

definition lab21_items_13 :: pyval where [lab21_contents]:
  \<open>lab21_items_13 =
   PyList
   [PyDict
     [(''title'', PyStr (lit ''TEST CONCURRENCY'')),
      (''items'', PyList
        [PyStr (lit ''func TestTransactionalOutbox_ConcurrentWrite'' @ lit ''s(t *testing.T) {''),
         PyStr (lit ''    workers := 10''),
         PyStr (lit ''    ordersPerWorker := 10''),
         PyStr (lit ''    totalExpected := workers * '' @ lit ''ordersPerWorker  // 100''),
         PyStr (lit ''    // Goroutines menulis order + outbox '' @ lit ''secara konkuren''),
         PyStr (lit ''    // Relay polling dan publish''),
         PyStr (lit ''    // Assert: len(broker.GetPublished()) '' @ lit ''== 100''),
         PyStr (lit ''    // Assert: len(db.GetPendingOutbox()) '' @ lit ''== 0''),
         PyStr (lit ''}'')]),
      (''type'', PyStr (lit ''code''))],
    PyDict
     [(''title'', PyStr (lit ''HASIL'')),
      (''items'', PyList
        [PyStr (lit ''Race detector: PASS''),
         PyStr (lit ''Total published: 100''),
         PyStr (lit ''Pending after processing: 0''),
         PyStr (lit ''Consumer concurrent test: 20 unique '' @
            lit ''processed, duplicates rejected.'')]),
      (''type'', PyStr (lit ''bullet''))]]\<close>

definition lab21_slide_13 :: pycall where [lab21_slides]:
  \<open>lab21_slide_13 =
   \<lparr>posargs = [],
  kwargs =
   [(''categories'', PyList
      [PyStr (lit ''CONCURRENCY''),
       PyStr (lit ''VALIDATION'')]),
    (''title'', PyStr (lit ''Concurrency Safety: 10 Workers '' @ [0xD7] @ lit '' 10 Orders = 100 Messages'')),
    (''subtitle'', PyStr (lit ''Race detector bersih, consumer idempoten '' @
        lit ''mencegah double processing.'')),
    (''content_items'', lab21_items_13),
    (''narrative'', PyStr (lit ''Uji konkurensi membuktikan bahwa '' @
        lit ''implementasi outbox pattern aman terhadap '' @
        lit ''akses multi-goroutine. Dalam '' @
        lit ''TestTransactionalOutbox_ConcurrentWrites, '' @
        lit ''10 worker goroutines masing-masing '' @
        lit ''menghasilkan 10 order secara simultan, '' @
        lit ''total 100 order. Race detector Go tidak '' @
        lit ''melaporkan data race apapun. Setelah relay '' @
        lit ''selesai memproses semua pending message, '' @
        lit ''broker menerima tepat 100 pesan dan tidak '' @
        lit ''ada yang tersisa di pending state. Test '' @
        lit ''lain, TestTransactionalOutbox_ConcurrentCons'' @
        lit ''umers, memverifikasi bahwa 10 worker yang '' @
        lit ''mengirimkan pesan dengan ID sama hanya '' @
        lit ''menghasilkan 20 unique processed message, '' @
        lit ''membuktikan idempotency kerja dengan baik '' @ lit ''di bawah konkurensi.'')),
    (''narrative_en'', PyStr (lit ''Concurrency testing proves that the outbox '' @
        lit ''pattern implementation is safe against '' @
        lit ''multi-goroutine access. In '' @
        lit ''TestTransactionalOutbox_ConcurrentWrites, '' @
        lit ''10 worker goroutines each generate 10 '' @
        lit ''orders simultaneously, totaling 100 orders. '' @ lit ''Go'' @ [39] @
        lit ''s race detector reports no data races. '' @
        lit ''After the relay finishes processing all '' @
        lit ''pending messages, the broker receives '' @
        lit ''exactly 100 messages and none remain in '' @
        lit ''pending state. Another test, '' @
        lit ''TestTransactionalOutbox_ConcurrentConsumers,'' @
        lit '' verifies that 10 workers sending messages '' @
        lit ''with identical IDs result in only 20 unique '' @
        lit ''processed messages, proving idempotency '' @
        lit ''works correctly under concurrency.'')),
    (''mental_model'', PyStr (lit ''Mutex-protected state and deterministic ID '' @
        lit ''tracking ensure safe concurrent processing.'')),
    (''source_path'', PyStr (lit ''tests/outbox_test.go:142-194 '' @ [0x2022] @
        lit '' tests/outbox_test.go:266-293'')),
    (''slide_num'', PyStr (lit ''13 / 24'')),
    (''layout'', PyStr (lit ''concurrency-flow''))]\<rparr>\<close>

definition lab21_items_14 :: pyval where [lab21_contents]:
  \<open>lab21_items_14 =
   PyList
   [PyDict
     [(''title'', PyStr (lit ''BEFORE (Dual-Write Naive)'')),
      (''items'', PyList
        [PyStr (lit ''Struktur: Service '' @ [0x2192] @ lit '' DB.Commit '' @ [0x2192] @
            lit '' Broker.Publish''),
         PyStr (lit ''Keadaan: Order persisten, event mungkin '' @ lit ''hilang''),
         PyStr (lit ''Kegagalan: Broker down = inconsistent state''),
         PyStr (lit ''Testing: Sulit mengassert consistency '' @ lit ''lintas sistem''),
         PyStr (lit ''Ops: Perlu script rekonsiliasi manual'')]),
      (''type'', PyStr (lit ''card''))],
    PyDict
     [(''title'', PyStr (lit ''AFTER (Transactional Outbox)'')),
      (''items'', PyList
        [PyStr (lit ''Struktur: Service '' @ [0x2192] @ lit '' DB.Tx(Order+Outbox) '' @
            [0x2192] @ lit '' Relay '' @ [0x2192] @ lit '' Broker''),
         PyStr (lit ''Keadaan: Order + event persisten atomik, '' @ lit ''delivery eventual''),
         PyStr (lit ''Kegagalan: Broker down = retry, tidak ada '' @ lit ''yang hilang''),
         PyStr (lit ''Testing: Unit test atomis + integration '' @ lit ''test end-to-end''),
         PyStr (lit ''Ops: Monitor relay health dan oldest-event '' @ lit ''age'')]),
      (''type'', PyStr (lit ''card''))]]\<close>

definition lab21_slide_14 :: pycall where [lab21_slides]:
  \<open>lab21_slide_14 =
   \<lparr>posargs = [],
  kwargs =
   [(''categories'', PyList
      [PyStr (lit ''BEFORE/AFTER''),
       PyStr (lit ''PERUBAHAN'')]),
    (''title'', PyStr (lit ''Before vs After: Transformasi Arsitektur'')),
    (''subtitle'', PyStr (lit ''Perbandingan visual keadaan sebelum dan '' @
        lit ''sesudah menerapkan outbox pattern.'')),
    (''content_items'', lab21_items_14),
    (''narrative'', PyStr (lit ''Transformasi dari dual-write naive ke '' @
        lit ''transactional outbox mengubah arsitektur '' @
        lit ''secara fundamental. Sebelum menerapkan pola '' @
        lit ''ini, service menulis ke database dan broker '' @
        lit ''secara berurutan tanpa jaminan atomisitas. '' @
        lit ''Jika broker gagal, order tetap tersimpan '' @
        lit ''tetapi event hilang, menciptakan '' @
        lit ''inconsistent state yang sulit dideteksi. '' @
        lit ''Setelah menerapkan pola ini, kedua write '' @
        lit ''dilakukan dalam satu transaksi database, '' @
        lit ''sehingga baik order maupun event persisten '' @
        lit ''bersama. Broker failure hanya menunda '' @
        lit ''delivery, bukan menghapus event, karena '' @
        lit ''relay akan terus retry hingga sukses.'')),
    (''narrative_en'', PyStr (lit ''The transformation from naive dual-write to '' @
        lit ''transactional outbox fundamentally changes '' @
        lit ''the architecture. Before implementing this '' @
        lit ''pattern, the service writes to the database '' @
        lit ''and broker sequentially without atomicity '' @
        lit ''guarantees. If the broker fails, the order '' @
        lit ''persists but the event is lost, creating an '' @
        lit ''inconsistent state that is hard to detect. '' @
        lit ''After implementing the pattern, both writes '' @
        lit ''are performed within one database '' @
        lit ''transaction, so both order and event '' @
        lit ''persist together. Broker failure only '' @
        lit ''delays delivery, not deletes the event, '' @
        lit ''because the relay will keep retrying until '' @ lit ''success.'')),
    (''mental_model'', PyStr (lit ''Before: coupled and fragile. After: '' @ lit ''decoupled and resilient.'')),
    (''source_path'', PyStr (lit ''internal/outbox/service.go '' @ [0x2022] @ lit '' internal/outbox/relay.go'')),
    (''slide_num'', PyStr (lit ''14 / 24'')),
    (''layout'', PyStr (lit ''before-after''))]\<rparr>\<close>

definition lab21_items_15 :: pyval where [lab21_contents]:
  \<open>lab21_items_15 =
   PyList
   [PyDict
     [(''title'', PyStr (lit ''TEST CODE'')),
      (''items'', PyList
        [PyStr (lit ''func TestTransactionalOutbox_HappyPath(t '' @ lit ''*testing.T) {''),
         PyStr (lit ''    db := outbox.NewDB()''),
         PyStr (lit ''    broker := outbox.NewMockBroker()''),
         PyStr (lit ''    relay := outbox.NewRelay(db, broker, '' @ lit ''10*time.Millisecond)''),
         PyStr (lit ''    service := outbox.NewOrderService(db)''),
         PyStr (lit ''    consumer := outbox.NewConsumer()''),
         PyStr (lit ''    relay.Start()''),
         PyStr (lit ''    err := service.CreateOrderWithOutbox("o-'' @
            lit ''1", "c-1", 100.50)''),
         PyStr (lit ''    assert.NoError(t, err)''),
         PyStr (lit ''    time.Sleep(50 * time.Millisecond)''),
         PyStr (lit ''    published := broker.GetPublished()''),
         PyStr (lit ''    assert.Len(t, published, 1)''),
         PyStr (lit ''    assert.Equal(t, "OrderCreated", '' @ lit ''published[0].EventType)''),
         PyStr (lit ''    msg, _ := db.GetOutbox("evt-o-1")''),
         PyStr (lit ''    assert.Equal(t, '' @
            lit ''outbox.MessageStatusProcessed, msg.Status)''),
         PyStr (lit ''}'')]),
      (''type'', PyStr (lit ''code''))]]\<close>

definition lab21_slide_15 :: pycall where [lab21_slides]:
  \<open>lab21_slide_15 =
   \<lparr>posargs = [],
  kwargs =
   [(''categories'', PyList
      [PyStr (lit ''BUKTI TEST''),
       PyStr (lit ''HAPPY PATH'')]),
    (''title'', PyStr (lit ''Test 1: Happy Path - Atomic Write + Relay '' @ lit ''Dispatch'')),
    (''subtitle'', PyStr (lit ''TestTransactionalOutbox_HappyPath '' @ lit ''membuktikan'' @
        [0x5168, 0x6D41, 0x7A0B] @ lit '' sukses.'')),
    (''content_items'', lab21_items_15),
    (''narrative'', PyStr (lit ''Test ini membuktikan happy path lengkap '' @
        lit ''dari transactional outbox. Pertama, service '' @
        lit ''membuat order dengan ID o-1 secara atomik '' @
        lit ''bersama outbox message. Setelah transaksi '' @
        lit ''commit, relay yang berjalan dengan interval '' @
        lit ''10ms akan polling dan menemukan message '' @
        lit ''PENDING. Relay kemudian publish ke broker '' @
        lit ''dan menandai message sebagai PROCESSED. '' @
        lit ''Consumer menerima pesan dan memprosesnya. '' @
        lit ''Test ini mengassert bahwa broker menerima '' @
        lit ''tepat satu pesan dengan EventType '' @
        lit ''OrderCreated, dan status outbox message '' @
        lit ''berubah menjadi PROCESSED. Semua assertion '' @
        lit ''lolos, membuktikan alur'' @ [0x7AEF, 0x5230, 0x7AEF] @
        lit '' berfungsi dengan benar.'')),
    (''narrative_en'', PyStr (lit ''This test proves the complete happy path of '' @
        lit ''the transactional outbox. First, the '' @
        lit ''service creates an order with ID o-1 '' @
        lit ''atomically along with the outbox message. '' @
        lit ''After transaction commit, the relay running '' @
        lit ''at 10ms intervals will poll and find the '' @
        lit ''PENDING message. The relay then publishes '' @
        lit ''to the broker and marks the message as '' @
        lit ''PROCESSED. The consumer receives the '' @
        lit ''message and processes it. This test asserts '' @
        lit ''that the broker receives exactly one '' @
        lit ''message with EventType OrderCreated, and '' @
        lit ''the outbox message status changes to '' @
        lit ''PROCESSED. All assertions pass, proving the '' @
        lit ''end-to-end flow works correctly.'')),
    (''mental_model'', PyStr (lit ''Happy path: atomic write '' @ [0x2192] @ lit '' relay poll '' @ [0x2192] @
        lit '' broker publish '' @ [0x2192] @ lit '' consumer accept.'')),
    (''source_path'', PyStr (lit ''tests/outbox_test.go:12-60'')),
    (''slide_num'', PyStr (lit ''15 / 24'')),
    (''layout'', PyStr (lit ''test-analysis''))]\<rparr>\<close>

definition lab21_items_16 :: pyval where [lab21_contents]:
  \<open>lab21_items_16 =
   PyList
   [PyDict
     [(''title'', PyStr (lit ''TEST CODE'')),
      (''items'', PyList
        [PyStr (lit ''func TestTransactionalOutbox_Rollback(t '' @ lit ''*testing.T) {''),
         PyStr (lit ''    db := outbox.NewDB()''),
         PyStr (lit ''    tx := db.BeginTx()''),
         PyStr (lit ''    tx.SaveOrder(outbox.Order{ID: "o-2", '' @ lit ''Amount: 50})''),
         PyStr (lit ''    tx.SaveOutbox(outbox.OutboxMessage{ID: '' @
            lit ''"evt-o-2", Status: '' @ lit ''outbox.MessageStatusPending})''),
         PyStr (lit ''    tx.Rollback()''),
         PyStr (lit ''    _, ok := db.GetOrder("o-2")''),
         PyStr (lit ''    assert.False(t, ok, "order should not '' @ lit ''exist")''),
         PyStr (lit ''    _, ok = db.GetOutbox("evt-o-2")''),
         PyStr (lit ''    assert.False(t, ok, "outbox should not '' @ lit ''exist")''),
         PyStr (lit ''    time.Sleep(30 * time.Millisecond)''),
         PyStr (lit ''    assert.Len(t, broker.GetPublished(), 0, '' @
            lit ''"no messages to broker")''),
         PyStr (lit ''}'')]),
      (''type'', PyStr (lit ''code''))]]\<close>

definition lab21_slide_16 :: pycall where [lab21_slides]:
  \<open>lab21_slide_16 =
   \<lparr>posargs = [],
  kwargs =
   [(''categories'', PyList
      [PyStr (lit ''BUKTI TEST''),
       PyStr (lit ''ROLLBACK'')]),
    (''title'', PyStr (lit ''Test 2: Rollback - Nothing Persists'')),
    (''subtitle'', PyStr (lit ''TestTransactionalOutbox_Rollback '' @
        lit ''membuktikan staged mutation dibuang '' @ lit ''sempurna.'')),
    (''content_items'', lab21_items_16),
    (''narrative'', PyStr (lit ''Test rollback membuktikan bahwa staged '' @
        lit ''mutation dibuang sepenuhnya ketika '' @
        lit ''transaksi di-rollback. Method SaveOrder dan '' @
        lit ''SaveOutbox hanya menaruh data di map '' @
        lit ''stagedOrders dan stagedOutbox, belum '' @
        lit ''menulis ke database utama. Ketika Rollback '' @
        lit ''dipanggil, kedua map staged tersebut '' @
        lit ''dibuang tanpa pernah menyentuh database. '' @
        lit ''Test mengassert bahwa order dan outbox '' @
        lit ''message tidak dapat diambil dari database '' @
        lit ''setelah rollback. Selain itu, setelah '' @
        lit ''menunggu relay poll, broker tidak menerima '' @
        lit ''pesan apa pun, membuktikan bahwa rollback '' @
        lit ''mencegah event dispatch sama sekali.'')),
    (''narrative_en'', PyStr (lit ''The rollback test proves that staged '' @
        lit ''mutations are completely discarded when a '' @
        lit ''transaction is rolled back. The SaveOrder '' @
        lit ''and SaveOutbox methods only place data in '' @
        lit ''the stagedOrders and stagedOutbox maps, '' @
        lit ''without writing to the main database. When '' @
        lit ''Rollback is called, both staged maps are '' @
        lit ''discarded without ever touching the '' @
        lit ''database. The test asserts that the order '' @
        lit ''and outbox message cannot be retrieved from '' @
        lit ''the database after rollback. Additionally, '' @
        lit ''after waiting for relay polling, the broker '' @
        lit ''receives no messages, proving that rollback '' @
        lit ''prevents event dispatch entirely.'')),
    (''mental_model'', PyStr (lit ''Rollback discards staged writes; no '' @ lit ''persistence, no dispatch.'')),
    (''source_path'', PyStr (lit ''tests/outbox_test.go:62-91'')),
    (''slide_num'', PyStr (lit ''16 / 24'')),
    (''layout'', PyStr (lit ''test-analysis''))]\<rparr>\<close>

definition lab21_items_17 :: pyval where [lab21_contents]:
  \<open>lab21_items_17 =
   PyList
   [PyDict
     [(''title'', PyStr (lit ''TEST CODE'')),
      (''items'', PyList
        [PyStr (lit ''func TestTransactionalOutbox_Idempotency_Dup'' @
            lit ''licateDelivery(t *testing.T) {''),
         PyStr (lit ''    consumer := outbox.NewConsumer()''),
         PyStr (lit ''    msg := outbox.OutboxMessage{ID: '' @
            lit ''"evt-duplicate", EventType: "OrderCreated", '' @ lit ''Payload: "data"}''),
         PyStr (lit ''    p1 := consumer.Handle(msg)''),
         PyStr (lit ''    assert.True(t, p1, "first delivery '' @ lit ''should be accepted")''),
         PyStr (lit ''    p2 := consumer.Handle(msg)''),
         PyStr (lit ''    assert.False(t, p2, "duplicate delivery '' @
            lit ''should be rejected")''),
         PyStr (lit ''    assert.Equal(t, 1, '' @
            lit ''consumer.GetReceivedCount(), "count stays '' @ lit ''1")''),
         PyStr (lit ''}'')]),
      (''type'', PyStr (lit ''code''))]]\<close>

definition lab21_slide_17 :: pycall where [lab21_slides]:
  \<open>lab21_slide_17 =
   \<lparr>posargs = [],
  kwargs =
   [(''categories'', PyList
      [PyStr (lit ''BUKTI TEST''),
       PyStr (lit ''IDEMPOTENSI'')]),
    (''title'', PyStr (lit ''Test 3: Idempotency - Duplicate Delivery '' @ lit ''Rejected'')),
    (''subtitle'', PyStr (lit ''TestTransactionalOutbox_Idempotency_Duplicat'' @
        lit ''eDelivery membuktikan consumer safe.'')),
    (''content_items'', lab21_items_17),
    (''narrative'', PyStr (lit ''Test idempotensi membuktikan bahwa consumer '' @
        lit ''dapat dengan aman menangani duplicate '' @
        lit ''delivery. Pertama, Handle dipanggil dengan '' @
        lit ''pesan unik dan mengembalikan true '' @
        lit ''(accepted). Kedua, Handle dipanggil lagi '' @
        lit ''dengan pesan yang sama dan mengembalikan '' @
        lit ''false (rejected). Test mengassert bahwa '' @
        lit ''received count tetap 1, membuktikan bahwa '' @
        lit ''duplicate tidak menambah state konsumen. '' @
        lit ''Skenario ini mensimulasikan kasus di mana '' @
        lit ''relay crash setelah publish tetapi sebelum '' @
        lit ''menandai message sebagai PROCESSED, '' @
        lit ''menyebabkan pesan yang sama dipublish ulang '' @
        lit ''oleh relay pada siklus berikutnya.'')),
    (''narrative_en'', PyStr (lit ''The idempotency test proves that the '' @
        lit ''consumer can safely handle duplicate '' @
        lit ''delivery. First, Handle is called with a '' @
        lit ''unique message and returns true (accepted). '' @
        lit ''Second, Handle is called again with the '' @
        lit ''same message and returns false (rejected). '' @
        lit ''The test asserts that the received count '' @
        lit ''remains 1, proving that duplicates do not '' @ lit ''add to the consumer'' @
        [39] @ lit ''s state. This scenario simulates a case '' @
        lit ''where the relay crashes after publish but '' @
        lit ''before marking the message as PROCESSED, '' @
        lit ''causing the same message to be republished '' @
        lit ''by the relay in the next cycle.'')),
    (''mental_model'', PyStr (lit ''Idempotent consumers deduplicate by event '' @
        lit ''ID; second delivery is ignored.'')),
    (''source_path'', PyStr (lit ''tests/outbox_test.go:93-116'')),
    (''slide_num'', PyStr (lit ''17 / 24'')),
    (''layout'', PyStr (lit ''test-analysis''))]\<rparr>\<close>

definition lab21_items_18 :: pyval where [lab21_contents]:
  \<open>lab21_items_18 =
   PyList
   [PyDict
     [(''title'', PyStr (lit ''TEST CODE'')),
      (''items'', PyList
        [PyStr (lit ''func TestTransactionalOutbox_RelayRetryAfter'' @
            lit ''BrokerFailure(t *testing.T) {''),
         PyStr (lit ''    db := outbox.NewDB()''),
         PyStr (lit ''    broker := outbox.NewMockBroker()''),
         PyStr (lit ''    relay := outbox.NewRelay(db, broker, '' @ lit ''10*time.Millisecond)''),
         PyStr (lit ''    service := outbox.NewOrderService(db)''),
         PyStr (lit ''    broker.SetFailNext(true)  // first '' @ lit ''publish fails''),
         PyStr (lit ''    service.CreateOrderWithOutbox("o-retry",'' @ lit '' "c-retry", 55.0)''),
         PyStr (lit ''    relay.Start()''),
         PyStr (lit ''    time.Sleep(25 * time.Millisecond)  // '' @ lit ''first poll fails''),
         PyStr (lit ''    msg, _ := db.GetOutbox("evt-o-retry")''),
         PyStr (lit ''    assert.Equal(t, '' @ lit ''outbox.MessageStatusPending, msg.Status)''),
         PyStr (lit ''    time.Sleep(50 * time.Millisecond)  // '' @
            lit ''second poll succeeds''),
         PyStr (lit ''    published := broker.GetPublished()''),
         PyStr (lit ''    assert.Len(t, published, 1)''),
         PyStr (lit ''    msg, _ = db.GetOutbox("evt-o-retry")''),
         PyStr (lit ''    assert.Equal(t, '' @
            lit ''outbox.MessageStatusProcessed, msg.Status)''),
         PyStr (lit ''}'')]),
      (''type'', PyStr (lit ''code''))]]\<close>

definition lab21_slide_18 :: pycall where [lab21_slides]:
  \<open>lab21_slide_18 =
   \<lparr>posargs = [],
  kwargs =
   [(''categories'', PyList
      [PyStr (lit ''BUKTI TEST''),
       PyStr (lit ''RELAY RETRY'')]),
    (''title'', PyStr (lit ''Test 4: Relay Retry - Broker Failure '' @ lit ''Tolerated'')),
    (''subtitle'', PyStr (lit ''TestTransactionalOutbox_RelayRetryAfterBroke'' @
        lit ''rFailure membuktikan retry logic.'')),
    (''content_items'', lab21_items_18),
    (''narrative'', PyStr (lit ''Test relay retry membuktikan mekanisme '' @
        lit ''ketahanan terhadap kegagalan broker. '' @
        lit ''Pertama, broker diatur untuk gagal pada '' @
        lit ''publish berikutnya melalui '' @
        lit ''SetFailNext(true). Service membuat order '' @
        lit ''dengan outbox, kemudian relay dimulai. Pada '' @
        lit ''poll pertama, publish gagal karena broker '' @
        lit ''dalam mode fail, sehingga message tetap '' @
        lit ''berstatus PENDING. Pada poll berikutnya '' @
        lit ''(setelah interval ticker), broker kembali '' @
        lit ''normal, publish sukses, dan message '' @
        lit ''ditandai PROCESSED. Test ini mengassert '' @
        lit ''bahwa setelah retry, broker menerima pesan '' @
        lit ''dan status outbox berubah menjadi PROCESSED.'')),
    (''narrative_en'', PyStr (lit ''The relay retry test proves the failure '' @
        lit ''tolerance mechanism against broker '' @
        lit ''failures. First, the broker is set to fail '' @
        lit ''on the next publish via SetFailNext(true). '' @
        lit ''The service creates an order with outbox, '' @
        lit ''then the relay starts. On the first poll, '' @
        lit ''the publish fails because the broker is in '' @
        lit ''fail mode, so the message remains PENDING. '' @
        lit ''On the next poll (after the ticker '' @
        lit ''interval), the broker returns to normal, '' @
        lit ''the publish succeeds, and the message is '' @
        lit ''marked PROCESSED. This test asserts that '' @
        lit ''after retry, the broker receives the '' @
        lit ''message and the outbox status changes to '' @ lit ''PROCESSED.'')),
    (''mental_model'', PyStr (lit ''Relay retry converts transient broker '' @
        lit ''failures into eventual delivery.'')),
    (''source_path'', PyStr (lit ''tests/outbox_test.go:219-264'')),
    (''slide_num'', PyStr (lit ''18 / 24'')),
    (''layout'', PyStr (lit ''test-analysis''))]\<rparr>\<close>

definition lab21_items_19 :: pyval where [lab21_contents]:
  \<open>lab21_items_19 =
   PyList
   [PyDict
     [(''title'', PyStr (lit ''TEST CODE'')),
      (''items'', PyList
        [PyStr (lit ''func TestTransactionalOutbox_PurgeProcessed('' @ lit ''t *testing.T) {''),
         PyStr (lit ''    db := outbox.NewDB()''),
         PyStr (lit ''    tx := db.BeginTx()''),
         PyStr (lit ''    tx.SaveOutbox(outbox.OutboxMessage{ID: '' @
            lit ''"m1", Status: outbox.MessageStatusPending})''),
         PyStr (lit ''    tx.SaveOutbox(outbox.OutboxMessage{ID: '' @ lit ''"m2", Status: '' @
            lit ''outbox.MessageStatusProcessed})''),
         PyStr (lit ''    tx.Commit()''),
         PyStr (lit ''    purged := db.PurgeProcessedOutbox()''),
         PyStr (lit ''    assert.Equal(t, 1, purged)''),
         PyStr (lit ''    _, ok := db.GetOutbox("m1")''),
         PyStr (lit ''    assert.True(t, ok, "pending should '' @ lit ''remain")''),
         PyStr (lit ''    _, ok = db.GetOutbox("m2")''),
         PyStr (lit ''    assert.False(t, ok, "processed should '' @ lit ''be purged")''),
         PyStr (lit ''}'')]),
      (''type'', PyStr (lit ''code''))]]\<close>

definition lab21_slide_19 :: pycall where [lab21_slides]:
  \<open>lab21_slide_19 =
   \<lparr>posargs = [],
  kwargs =
   [(''categories'', PyList
      [PyStr (lit ''BUKTI TEST''),
       PyStr (lit ''CLEANUP'')]),
    (''title'', PyStr (lit ''Test 5: Purge Processed - Memory Leak '' @ lit ''Prevention'')),
    (''subtitle'', PyStr (lit ''TestTransactionalOutbox_PurgeProcessed '' @
        lit ''membuktikan cleanup mechanism bekerja.'')),
    (''content_items'', lab21_items_19),
    (''narrative'', PyStr (lit ''Test purge processed membuktikan mekanisme '' @
        lit ''pembersihan tabel outbox untuk mencegah '' @
        lit ''memory leak. Database awalnya berisi dua '' @
        lit ''message: m1 dengan status PENDING dan m2 '' @
        lit ''dengan status PROCESSED. Method '' @
        lit ''PurgeProcessedOutbox akan menghapus semua '' @
        lit ''record dengan status PROCESSED dan '' @
        lit ''mengembalikan jumlah record yang dihapus. '' @
        lit ''Test mengassert bahwa purged count = 1, '' @
        lit ''message PENDING masih ada, dan message '' @
        lit ''PROCESSED sudah dihapus. Tanpa cleanup '' @
        lit ''mechanism seperti ini, tabel outbox akan '' @
        lit ''tumbuh tak terbatas karena record PROCESSED '' @ lit ''tidak pernah dihapus.'')),
    (''narrative_en'', PyStr (lit ''The purge processed test proves the outbox '' @
        lit ''table cleanup mechanism to prevent memory '' @
        lit ''leaks. The database initially contains two '' @
        lit ''messages: m1 with PENDING status and m2 '' @
        lit ''with PROCESSED status. The '' @
        lit ''PurgeProcessedOutbox method will delete all '' @
        lit ''records with PROCESSED status and return '' @
        lit ''the count of deleted records. The test '' @
        lit ''asserts that purged count equals 1, the '' @
        lit ''PENDING message still exists, and the '' @
        lit ''PROCESSED message has been deleted. Without '' @
        lit ''such a cleanup mechanism, the outbox table '' @
        lit ''would grow indefinitely because PROCESSED '' @
        lit ''records are never deleted.'')),
    (''mental_model'', PyStr (lit ''Purge processed records to prevent '' @ lit ''unbounded outbox table growth.'')),
    (''source_path'', PyStr (lit ''tests/outbox_test.go:196-217'')),
    (''slide_num'', PyStr (lit ''19 / 24'')),
    (''layout'', PyStr (lit ''test-analysis''))]\<rparr>\<close>

definition lab21_items_20 :: pyval where [lab21_contents]:
  \<open>lab21_items_20 =
   PyList
   [PyDict
     [(''title'', PyStr (lit ''IMPLEMENTATION CHECKLIST'')),
      (''items'', PyList
        [PyStr ([0x25A1] @ lit '' Buat tabel outbox_events dengan kolom: id, '' @
            lit ''aggregate_type, aggregate_id, type, '' @
            lit ''payload, status, created_at''),
         PyStr ([0x25A1] @ lit '' Pastikan business transaction menyertakan '' @
            lit ''INSERT ke outbox_events''),
         PyStr ([0x25A1] @ lit '' Implementasikan polling relay dengan '' @
            lit ''interval yang sesuai (misal 1-5 detik)''),
         PyStr ([0x25A1] @ lit '' Relay hanya menandai PROCESSED setelah '' @ lit ''broker ACK''),
         PyStr ([0x25A1] @ lit '' Consumer mengimplementasikan idempotency '' @
            lit ''check berdasarkan event ID''),
         PyStr ([0x25A1] @ lit '' Tambahkan scheduled job untuk purge '' @
            lit ''processed records''),
         PyStr ([0x25A1] @ lit '' Monitor oldest-event age dan pending count '' @
            lit ''untuk deteksi degradasi''),
         PyStr ([0x25A1] @ lit '' Siapkan dead-letter queue untuk poison '' @
            lit ''payload (opsional)'')]),
      (''type'', PyStr (lit ''bullet''))]]\<close>

definition lab21_slide_20 :: pycall where [lab21_slides]:
  \<open>lab21_slide_20 =
   \<lparr>posargs = [],
  kwargs =
   [(''categories'', PyList
      [PyStr (lit ''CHECKLIST''),
       PyStr (lit ''IMPLEMENTASI'')]),
    (''title'', PyStr (lit ''Checklist Implementasi Outbox Pattern'')),
    (''subtitle'', PyStr (lit ''Langkah-langkah wajib saat menerapkan pola '' @ lit ''ini ke production.'')),
    (''content_items'', lab21_items_20),
    (''narrative'', PyStr (lit ''Checklist implementasi ini mencakup '' @
        lit ''langkah-langkah esensial untuk menerapkan '' @
        lit ''transactional outbox pattern di production. '' @
        lit ''Pertama, buat tabel outbox_events dengan '' @
        lit ''skema yang memadai termasuk kolom agregat '' @
        lit ''untuk partitioning Kafka. Kedua, pastikan '' @
        lit ''setiap business transaction menyertakan '' @
        lit ''INSERT ke outbox_events. Ketiga, '' @
        lit ''implementasikan polling relay dengan '' @
        lit ''interval yang seimbang antara latensi dan '' @
        lit ''beban database. Keempat, relay hanya '' @
        lit ''menandai message sebagai PROCESSED setelah '' @
        lit ''broker memberikan ACK. Kelima, consumer '' @
        lit ''harus memiliki idempotency check berbasis '' @
        lit ''event ID. Keenam, tambahkan scheduled job '' @
        lit ''untuk purge processed records guna mencegah '' @ lit ''table bloat.'')),
    (''narrative_en'', PyStr (lit ''This implementation checklist covers '' @
        lit ''essential steps for applying the '' @
        lit ''transactional outbox pattern in production. '' @
        lit ''First, create an outbox_events table with '' @
        lit ''an adequate schema including aggregate '' @
        lit ''columns for Kafka partitioning. Second, '' @
        lit ''ensure every business transaction includes '' @
        lit ''an INSERT to outbox_events. Third, '' @
        lit ''implement a polling relay with an interval '' @
        lit ''balanced between latency and database load. '' @
        lit ''Fourth, the relay only marks messages as '' @
        lit ''PROCESSED after the broker provides ACK. '' @
        lit ''Fifth, the consumer must have an '' @
        lit ''idempotency check based on event ID. Sixth, '' @
        lit ''add a scheduled job to purge processed '' @
        lit ''records to prevent table bloat.'')),
    (''mental_model'', PyStr (lit ''Implementation requires atomic writes, '' @
        lit ''reliable relay, idempotent consumers, and '' @ lit ''cleanup.'')),
    (''source_path'', PyStr (lit ''labs/21-outbox-pattern/content/05-key-takeaw'' @ lit ''ays.md'')),
    (''slide_num'', PyStr (lit ''20 / 24'')),
    (''layout'', PyStr (lit ''checklist''))]\<rparr>\<close>

definition lab21_items_21 :: pyval where [lab21_contents]:
  \<open>lab21_items_21 =
   PyList
   [PyDict
     [(''title'', PyStr (lit ''ANTI-PATTERN 1'')),
      (''items'', PyList
        [PyStr (lit ''Menulis ke broker sebelum commit database.''),
         PyStr (lit ''Menggunakan ID event yang tidak unik (misal '' @ lit ''timestamp saja).''),
         PyStr (lit ''Tidak memiliki mekanisme retry pada relay.'')]),
      (''type'', PyStr (lit ''card''))],
    PyDict
     [(''title'', PyStr (lit ''ANTI-PATTERN 2'')),
      (''items'', PyList
        [PyStr (lit ''Consumer tanpa idempotency check.''),
         PyStr (lit ''Tidak ada purge untuk processed records.''),
         PyStr (lit ''Relay polling interval terlalu lama (>1 '' @
            lit ''menit) sehingga latency tinggi.'')]),
      (''type'', PyStr (lit ''card''))],
    PyDict
     [(''title'', PyStr (lit ''CARA REPRODUKSI GAGAL'')),
      (''items'', PyList
        [PyStr (lit ''Jalankan TestDualWriteProblem_Failure untuk '' @
            lit ''melihat inconsistency.''),
         PyStr (lit ''Matikan broker selama relay berjalan, '' @
            lit ''perhatikan pending accumulation.''),
         PyStr (lit ''Hapus idempotency check dari consumer, maka '' @
            lit ''duplicate akan diproses ganda.'')]),
      (''type'', PyStr (lit ''card''))]]\<close>

definition lab21_slide_21 :: pycall where [lab21_slides]:
  \<open>lab21_slide_21 =
   \<lparr>posargs = [],
  kwargs =
   [(''categories'', PyList
      [PyStr (lit ''ANTI-PATTERN''),
       PyStr (lit ''REPRODUKSI'')]),
    (''title'', PyStr (lit ''Anti-Pattern: Apa yang Harus Dihindari'')),
    (''subtitle'', PyStr (lit ''Kesalahan umum yang membuat outbox pattern '' @ lit ''menjadi tidak efektif.'')),
    (''content_items'', lab21_items_21),
    (''narrative'', PyStr (lit ''Anti-pattern dalam implementasi outbox '' @
        lit ''pattern dapat merusak seluruh jaminan '' @
        lit ''konsistensi yang dimaksudkan. Menulis ke '' @
        lit ''broker sebelum commit database '' @
        lit ''mengembalikan ke keadaan dual-write naive. '' @
        lit ''Menggunakan ID event yang tidak unik '' @
        lit ''menyebabkan deduplication gagal. Consumer '' @
        lit ''tanpa idempotency check akan memproses '' @
        lit ''duplicate message secara ganda. Tidak ada '' @
        lit ''purge untuk processed records akan '' @
        lit ''menyebabkan tabel outbox tumbuh tak '' @
        lit ''terbatas. Relly dengan polling interval '' @
        lit ''terlalu lama akan meningkatkan latency '' @
        lit ''delivery secara signifikan.'')),
    (''narrative_en'', PyStr (lit ''Anti-patterns in outbox pattern '' @
        lit ''implementation can undermine all the '' @
        lit ''consistency guarantees intended. Writing to '' @
        lit ''the broker before database commit reverts '' @
        lit ''to naive dual-write. Using non-unique event '' @
        lit ''IDs causes deduplication to fail. Consumers '' @
        lit ''without idempotency checks will process '' @
        lit ''duplicate messages twice. No purge for '' @
        lit ''processed records will cause the outbox '' @
        lit ''table to grow indefinitely. A relay with '' @
        lit ''too-long polling intervals will '' @
        lit ''significantly increase delivery latency.'')),
    (''mental_model'', PyStr (lit ''Avoid coupling, non-unique IDs, and missing '' @
        lit ''idempotency; they undo the pattern'' @ [39] @ lit ''s benefits.'')),
    (''source_path'', PyStr (lit ''internal/outbox/service.go:55-90 '' @ [0x2022] @
        lit '' tests/outbox_test.go:118-140'')),
    (''slide_num'', PyStr (lit ''21 / 24'')),
    (''layout'', PyStr (lit ''anti-pattern-cards''))]\<rparr>\<close>

definition lab21_items_22 :: pyval where [lab21_contents]:
  \<open>lab21_items_22 =
   PyList
   [PyDict
     [(''title'', PyStr (lit ''COMMAND BLOCK'')),
      (''items'', PyList
        [PyStr (lit ''cd labs/21-outbox-pattern''),
         PyStr (lit ''go test -v ./...''),
         PyStr (lit ''go test -race ./...''),
         PyStr (lit ''go run ./cmd/demo'')]),
      (''type'', PyStr (lit ''code''))],
    PyDict
     [(''title'', PyStr (lit ''PRAKTIK TERBAIK'')),
      (''items'', PyList
        [PyStr (lit ''Gunakan event ID yang stabil (UUID berbasis '' @ lit ''aggregate ID).''),
         PyStr (lit ''Monitor oldest-event age sebagai sinyal '' @
            lit ''degradasi relay/broker.''),
         PyStr (lit ''Pertahankan pending count di bawah '' @ lit ''threshold tertentu.''),
         PyStr (lit ''Implementasikan dead-letter queue untuk '' @
            lit ''payload yang gagal berulang.'')]),
      (''type'', PyStr (lit ''bullet''))]]\<close>

definition lab21_slide_22 :: pycall where [lab21_slides]:
  \<open>lab21_slide_22 =
   \<lparr>posargs = [],
  kwargs =
   [(''categories'', PyList
      [PyStr (lit ''PRAKTIS''),
       PyStr (lit ''COMMAND'')]),
    (''title'', PyStr (lit ''Takeaway Praktis & Command Block'')),
    (''subtitle'', PyStr (lit ''Cara mereproduksi lab dan menjalankan '' @ lit ''verifikasi.'')),
    (''content_items'', lab21_items_22),
    (''narrative'', PyStr (lit ''Takeaway praktis dari lab ini adalah '' @
        lit ''pemahaman tentang cara mereproduksi dan '' @
        lit ''memverifikasi implementasi outbox pattern. '' @
        lit ''Command go test -v ./... menjalankan '' @
        lit ''seluruh suite test dengan verbose output. '' @
        lit ''Command go test -race ./... menjalankan '' @
        lit ''race detector untuk memastikan thread '' @
        lit ''safety. Command go run ./cmd/demo '' @
        lit ''menjalankan demo interaktif yang '' @
        lit ''menampilkan tiga skenario. Praktik terbaik '' @
        lit ''meliputi penggunaan event ID yang stabil '' @
        lit ''berdasarkan aggregate ID, monitoring '' @
        lit ''oldest-event age sebagai sinyal degradasi, '' @
        lit ''mempertahankan pending count di bawah '' @
        lit ''threshold, dan mengimplementasikan '' @
        lit ''dead-letter queue untuk payload yang gagal '' @ lit ''berulang.'')),
    (''narrative_en'', PyStr (lit ''The practical takeaway from this lab is '' @
        lit ''understanding how to reproduce and verify '' @
        lit ''the outbox pattern implementation. The go '' @
        lit ''test -v ./... command runs the entire test '' @
        lit ''suite with verbose output. The go test '' @
        lit ''-race ./... command runs the race detector '' @
        lit ''to ensure thread safety. The go run '' @
        lit ''./cmd/demo command runs the interactive '' @
        lit ''demo displaying three scenarios. Best '' @
        lit ''practices include using stable event IDs '' @
        lit ''based on aggregate IDs, monitoring '' @
        lit ''oldest-event age as a degradation signal, '' @
        lit ''maintaining pending counts below '' @
        lit ''thresholds, and implementing dead-letter '' @
        lit ''queues for payloads that fail repeatedly.'')),
    (''mental_model'', PyStr (lit ''Reproduce, measure, monitor '' @ [0x2014] @
        lit '' then trust eventual consistency.'')),
    (''source_path'', PyStr (lit ''README.md '' @ [0x2022] @ lit '' cmd/demo/main.go'')),
    (''slide_num'', PyStr (lit ''22 / 24'')),
    (''layout'', PyStr (lit ''command-block''))]\<rparr>\<close>

definition lab21_items_23 :: pyval where [lab21_contents]:
  \<open>lab21_items_23 =
   PyList
   [PyDict
     [(''title'', PyStr (lit ''PRINSIP 1'')),
      (''items'', PyList
        [PyStr (lit ''Eventual consistency lebih baik daripada '' @
            lit ''strong consistency yang mahal.''),
         PyStr (lit ''Decouple write boundary dari delivery '' @ lit ''boundary.''),
         PyStr (lit ''At-least-once delivery lebih aman daripada '' @ lit ''at-most-once.'')]),
      (''type'', PyStr (lit ''bullet''))],
    PyDict
     [(''title'', PyStr (lit ''PRINSIP 2'')),
      (''items'', PyList
        [PyStr (lit ''Idempotency adalah keharusan, bukan '' @ lit ''optional.''),
         PyStr (lit ''Observable metrics (oldest-event age, '' @
            lit ''pending count) wajib diimplementasikan.''),
         PyStr (lit ''Cleanup mechanism harus berjalan scheduled, '' @ lit ''bukan manual.'')]),
      (''type'', PyStr (lit ''bullet''))]]\<close>

definition lab21_slide_23 :: pycall where [lab21_slides]:
  \<open>lab21_slide_23 =
   \<lparr>posargs = [],
  kwargs =
   [(''categories'', PyList
      [PyStr (lit ''PRINSIP''),
       PyStr (lit ''JARAK PANJANG'')]),
    (''title'', PyStr (lit ''Prinsip Arsitektural Jangka Panjang'')),
    (''subtitle'', PyStr (lit ''Filosofi desain yang melampaui pola outbox '' @ lit ''spesifik.'')),
    (''content_items'', lab21_items_23),
    (''narrative'', PyStr (lit ''Prinsip arsitektural jangka panjang ini '' @
        lit ''melampaui implementasi spesifik '' @
        lit ''transactional outbox. Pertama, eventual '' @
        lit ''consistency seringkali lebih praktis '' @
        lit ''daripada strong consistency yang memerlukan '' @
        lit ''koordinasi terdistribusi mahal. Kedua, '' @
        lit ''memisahkan boundary write dari boundary '' @
        lit ''delivery memungkinkan masing-masing bagian '' @
        lit ''dioptimalkan secara independen. Ketiga, '' @
        lit ''at-least-once delivery lebih aman daripada '' @
        lit ''at-most-once karena mencegah kehilangan '' @
        lit ''data. Keempat, idempotency bukan fitur '' @
        lit ''optional melainkan keharusan karena retry '' @
        lit ''adalah hal yang wajar. Kelima, observable '' @
        lit ''metrics seperti oldest-event age dan '' @
        lit ''pending count harus diimplementasikan untuk '' @
        lit ''deteksi dini degradasi.'')),
    (''narrative_en'', PyStr (lit ''These long-term architectural principles '' @
        lit ''extend beyond the specific transactional '' @
        lit ''outbox implementation. First, eventual '' @
        lit ''consistency is often more practical than '' @
        lit ''strong consistency that requires expensive '' @
        lit ''distributed coordination. Second, '' @
        lit ''separating the write boundary from the '' @
        lit ''delivery boundary allows each part to be '' @
        lit ''optimized independently. Third, '' @
        lit ''at-least-once delivery is safer than '' @
        lit ''at-most-once because it prevents data loss. '' @
        lit ''Fourth, idempotency is not an optional '' @
        lit ''feature but a necessity because retries are '' @
        lit ''normal. Fifth, observable metrics like '' @
        lit ''oldest-event age and pending counts must be '' @
        lit ''implemented for early degradation detection.'')),
    (''mental_model'', PyStr (lit ''Design for failure, measure relentlessly, '' @
        lit ''accept eventual consistency.'')),
    (''source_path'', PyStr (lit ''labs/21-outbox-pattern/content/05-key-takeaw'' @ lit ''ays.md'')),
    (''slide_num'', PyStr (lit ''23 / 24'')),
    (''layout'', PyStr (lit ''principles-list''))]\<rparr>\<close>

definition lab21_items_24 :: pyval where [lab21_contents]:
  \<open>lab21_items_24 =
   PyList
   [PyDict
     [(''title'', PyStr (lit ''SUMBER LAB'')),
      (''items'', PyList
        [PyStr (lit ''internal/outbox/db.go''),
         PyStr (lit ''internal/outbox/service.go''),
         PyStr (lit ''internal/outbox/relay.go''),
         PyStr (lit ''internal/outbox/consumer.go''),
         PyStr (lit ''internal/outbox/broker.go''),
         PyStr (lit ''tests/outbox_test.go''),
         PyStr (lit ''cmd/demo/main.go'')]),
      (''type'', PyStr (lit ''bullet''))],
    PyDict
     [(''title'', PyStr (lit ''VERIFIKASI'')),
      (''items'', PyList
        [PyStr (lit ''Sumber: commit '' @ str_prefix 8 lab21_COMMIT_SHA),
         PyStr (lit ''Test passing: 8/8 test cases''),
         PyStr (lit ''Race detector: clean''),
         PyStr (lit ''Demo: all 3 scenarios pass'')]),
      (''type'', PyStr (lit ''bullet''))]]\<close>

definition lab21_slide_24 :: pycall where [lab21_slides]:
  \<open>lab21_slide_24 =
   \<lparr>posargs = [],
  kwargs =
   [(''categories'', PyList
      [PyStr (lit ''CLOSING'')]),
    (''title'', PyStr (lit ''Konsistensi tercapai, event tak pernah '' @ lit ''hilang.'')),
    (''subtitle'', PyStr []),
    (''content_items'', lab21_items_24),
    (''narrative'', PyStr (lit ''Laboratorium Transactional Outbox Pattern '' @
        lit ''ini membuktikan bahwa dual-write problem '' @
        lit ''dapat diatasi dengan menulis event ke tabel '' @
        lit ''outbox dalam transaksi database yang sama '' @
        lit ''dengan entitas bisnis. Relay polling yang '' @
        lit ''asynchronous memastikan event akhirnya '' @
        lit ''sampai ke broker, sementara consumer '' @
        lit ''idempoten mencegah pemrosesan ganda. Lab '' @
        lit ''ini menggunakan Go standard library, tidak '' @
        lit ''bergantung pada framework eksternal, dan '' @
        lit ''dapat direproduksi dengan mudah melalui '' @
        lit ''perintah go test dan go run demo. Seluruh '' @
        lit ''kode sumber dan test tersedia di repository '' @
        lit ''GitHub yang tercantum.'')),
    (''narrative_en'', PyStr (lit ''This Transactional Outbox Pattern '' @
        lit ''laboratory proves that the dual-write '' @
        lit ''problem can be solved by writing events to '' @
        lit ''an outbox table within the same database '' @
        lit ''transaction as the business entity. The '' @
        lit ''asynchronous polling relay ensures events '' @
        lit ''eventually reach the broker, while the '' @
        lit ''idempotent consumer prevents double '' @
        lit ''processing. This lab uses Go standard '' @
        lit ''library, has no external framework '' @
        lit ''dependencies, and can be easily reproduced '' @
        lit ''through go test and go run demo commands. '' @
        lit ''All source code and tests are available in '' @
        lit ''the GitHub repository listed.'')),
    (''mental_model'', PyStr (lit ''Atomic outbox writes + eventual relay '' @
        lit ''delivery = no silent event loss.'')),
    (''source_path'', PyStr lab21_REPO_URL),
    (''slide_num'', PyStr (lit ''24 / 24'')),
    (''layout'', PyStr (lit ''closing-dark-navy''))]\<rparr>\<close>

definition lab21_calls :: "pycall list" where
  "lab21_calls =
    [lab21_slide_01, lab21_slide_02, lab21_slide_03, lab21_slide_04, lab21_slide_05,
     lab21_slide_06, lab21_slide_07, lab21_slide_08, lab21_slide_09, lab21_slide_10,
     lab21_slide_11, lab21_slide_12, lab21_slide_13, lab21_slide_14, lab21_slide_15,
     lab21_slide_16, lab21_slide_17, lab21_slide_18, lab21_slide_19, lab21_slide_20,
     lab21_slide_21, lab21_slide_22, lab21_slide_23, lab21_slide_24]"

definition lab21_deck :: deck where
  "lab21_deck =
    \<lparr>add_slide = lab21_add_slide, lab_no = lab21_LAB_NO, title_id = lab21_TITLE_ID, calls = lab21_calls\<rparr>"

section \<open>Checks of the calls\<close>

lemma lab21_shapes:
  "\<forall>c \<in> set lab21_calls. shape_of c \<in> set
    [(0, [''categories'', ''title'', ''subtitle'', ''content_items'', ''mental_model'',
      ''source_path'', ''slide_num'', ''narrative'', ''narrative_en'', ''layout'']),
     (0, [''categories'', ''title'', ''subtitle'', ''content_items'', ''narrative'',
      ''narrative_en'', ''mental_model'', ''source_path'', ''slide_num'', ''layout''])]"
  by (simp only: lab21_calls_def lab21_slides shape_eval cong: pyval_opaque)

lemma lab21_calls_ok: "\<forall>c \<in> set lab21_calls. call_ok sig_layout c"
  by (rule calls_ok_by_shapes [OF lab21_shapes])
    (simp add: shape_ok_def param_names_def signature_defs core_params_def)

lemma lab21_labels: "map (\<lambda>c. value_of sig_layout c ''slide_num'') lab21_calls = labels_24"
  by (simp only: lab21_calls_def lab21_slides keyword_eval labels_24_eval cong: pyval_opaque)

lemma lab21_contents_of:
  "map (\<lambda>c. value_of sig_layout c ''content_items'') lab21_calls =
    [lab21_items_01, lab21_items_02, lab21_items_03, lab21_items_04, lab21_items_05,
     lab21_items_06, lab21_items_07, lab21_items_08, lab21_items_09, lab21_items_10,
     lab21_items_11, lab21_items_12, lab21_items_13, lab21_items_14, lab21_items_15,
     lab21_items_16, lab21_items_17, lab21_items_18, lab21_items_19, lab21_items_20,
     lab21_items_21, lab21_items_22, lab21_items_23, lab21_items_24]"
  by (simp only: lab21_calls_def lab21_slides keyword_eval cong: pyval_opaque)

lemma lab21_items: "item_defects sig_layout lab21_calls = []"
  by (simp only: item_defects_def lab21_contents_of)
    (simp add: lab21_contents item_eval cong: pystr_opaque)

end
