(* ===== verification/Deck22.thy ===== *)
theory Deck22
  imports DeckContract
begin

text \<open>
  The publication definition of lab 22, \<^verbatim>\<open>labs/22-n-plus-one-query-problem/result/content_def.py\<close>:
  its module constants, every \<open>add_slide\<close> call in order (\<open>lab22_slide_01\<close> is the first),
  and the module as a whole (\<open>lab22_deck\<close>). Long strings are split into pieces that are
  concatenated; a character outside ASCII is its code point.
\<close>

named_theorems lab22_slides \<open>the add_slide calls of lab 22\<close>
named_theorems lab22_contents \<open>their content_items arguments\<close>

definition lab22_OUTPUT_DIR :: pystr where
  \<open>lab22_OUTPUT_DIR = lit ''labs/22-n-plus-one-query-problem/result''\<close>

definition lab22_CHROME_BIN :: pystr where
  \<open>lab22_CHROME_BIN = lit ''/Applications/Google '' @ lit ''Chrome.app/Contents/MacOS/Google Chrome''\<close>

definition lab22_REPO_URL :: pystr where
  \<open>lab22_REPO_URL = lit ''https://github.com/lukman-ss/software-engine'' @
    lit ''ering-lab/tree/main/labs/22-n-plus-one-query'' @ lit ''-problem''\<close>

definition lab22_COMMIT_SHA :: pystr where
  \<open>lab22_COMMIT_SHA = lit ''13224b48a35ba08f4a350b7d160ae4826f9e1f55''\<close>

definition lab22_LAB_NO :: pystr where
  \<open>lab22_LAB_NO = lit ''22''\<close>

definition lab22_SLUG :: pystr where
  \<open>lab22_SLUG = lit ''n-plus-one-query-problem''\<close>

definition lab22_TITLE_ID :: pystr where
  \<open>lab22_TITLE_ID = lit ''N+1 Query Problem''\<close>

definition lab22_SUBTITLE_ID :: pystr where
  \<open>lab22_SUBTITLE_ID = lit ''Membunuh Latensi Tersembunyi dengan Eager '' @ lit ''Loading''\<close>

definition lab22_TITLE_EN :: pystr where
  \<open>lab22_TITLE_EN = lit ''N+1 Query Problem''\<close>

definition lab22_SUBTITLE_EN :: pystr where
  \<open>lab22_SUBTITLE_EN = lit ''Eliminating Hidden Latency with Eager '' @ lit ''Loading''\<close>

definition lab22_AUTHOR :: pystr where
  \<open>lab22_AUTHOR = lit ''Lukman / lukman-ss''\<close>

definition lab22_COVER_IMAGE_PATH :: pystr where
  \<open>lab22_COVER_IMAGE_PATH = lit ''labs/22-n-plus-one-query-problem/result/imag'' @ lit ''e-cover/cover_art.jpg''\<close>

definition lab22_DARK_NAVY :: pystr where
  \<open>lab22_DARK_NAVY = lit ''0b1b2d''\<close>

definition lab22_TEAL :: pystr where
  \<open>lab22_TEAL = lit ''087f76''\<close>

definition lab22_CREAM :: pystr where
  \<open>lab22_CREAM = lit ''f4f1e8''\<close>

definition lab22_WHITE :: pystr where
  \<open>lab22_WHITE = lit ''ffffff''\<close>

definition lab22_SLATE :: pystr where
  \<open>lab22_SLATE = lit ''52606b''\<close>

definition lab22_ORANGE :: pystr where
  \<open>lab22_ORANGE = lit ''d97706''\<close>

definition lab22_add_slide :: "pycall \<Rightarrow> pyval list \<Rightarrow> (pyexc, pyval list) res" where
  "lab22_add_slide = add_slide_layout"

definition lab22_items_01 :: pyval where [lab22_contents]:
  \<open>lab22_items_01 =
   PyList
   [PyDict
     [(''type'', PyStr (lit ''cover'')),
      (''title'', PyStr []),
      (''items'', PyList
        [PyStr (lit ''Penulis: '' @ lab22_AUTHOR),
         PyStr (lit ''Lab '' @ lab22_LAB_NO @ lit '': '' @ lab22_SLUG),
         PyStr (lit ''Repository: '' @ lab22_REPO_URL)])]]\<close>

definition lab22_slide_01 :: pycall where [lab22_slides]:
  \<open>lab22_slide_01 =
   \<lparr>posargs = [],
  kwargs =
   [(''categories'', PyList
      [PyStr (lit ''COVER'')]),
    (''title'', PyStr lab22_TITLE_ID),
    (''subtitle'', PyStr lab22_SUBTITLE_ID),
    (''content_items'', lab22_items_01),
    (''mental_model'', PyStr (lit ''N+1 query problem causes hidden latency '' @
        lit ''accumulation; eager loading batching '' @
        lit ''reduces queries to O(1) relative to record '' @ lit ''count.'')),
    (''source_path'', PyStr lab22_REPO_URL),
    (''slide_num'', PyStr (lit ''01 / 24'')),
    (''narrative'', PyStr (lit ''N+1 query problem adalah masalah performa '' @
        lit ''laten yang terjadi ketika aplikasi '' @
        lit ''melakukan satu query awal untuk mengambil '' @
        lit ''koleksi data, lalu mengeluarkan query '' @
        lit ''terpisah untuk setiap item dalam koleksi '' @
        lit ''tersebut. Lab ini membuktikan bahwa '' @
        lit ''pendekatan naive menghasilkan jumlah query '' @
        lit ''linear terhadap jumlah record, sementara '' @
        lit ''eager loading dengan batching mengurangi '' @
        lit ''query menjadi konstan. Solusi ini '' @
        lit ''mengorbankan kompleksitas kode yang sedikit '' @
        lit ''lebih tinggi untuk pengurangan latensi '' @
        lit ''jaringan dan beban database yang signifikan.'')),
    (''narrative_en'', PyStr (lit ''The N+1 query problem is a latent '' @
        lit ''performance issue that occurs when an '' @
        lit ''application performs one initial query to '' @
        lit ''fetch a collection of data, then issues a '' @
        lit ''separate query for each item in that '' @
        lit ''collection. This lab proves that the naive '' @
        lit ''approach generates a linear query count '' @
        lit ''relative to the record count, while eager '' @
        lit ''loading with batching reduces queries to a '' @
        lit ''constant number. This solution trades '' @
        lit ''slightly higher code complexity for '' @
        lit ''significant reductions in network latency '' @ lit ''and database load.'')),
    (''layout'', PyStr (lit ''cover''))]\<rparr>\<close>

definition lab22_items_02 :: pyval where [lab22_contents]:
  \<open>lab22_items_02 =
   PyList
   [PyDict
     [(''title'', PyStr (lit ''SILENT LATENCY'')),
      (''items'', PyList
        [PyStr (lit ''Setiap query individual berlatensi rendah '' @ lit ''(sub-milidetik).''),
         PyStr (lit ''Latensi akumulatif tumbuh linear dengan '' @ lit ''jumlah record.''),
         PyStr (lit ''Pada dataset besar, request bisa memakan '' @
            lit ''waktu berdetik-detik.'')]),
      (''type'', PyStr (lit ''card''))],
    PyDict
     [(''title'', PyStr (lit ''CONNECTION POOL EXHAUSTION'')),
      (''items'', PyList
        [PyStr (lit ''Setiap request N+1 menghabiskan banyak slot '' @ lit ''koneksi database.''),
         PyStr (lit ''Under concurrent load, pool terdrain secara '' @ lit ''sequential.''),
         PyStr (lit ''Bisa menyebabkan connection timeout cascade.'')]),
      (''type'', PyStr (lit ''card''))],
    PyDict
     [(''title'', PyStr (lit ''HARD TO DETECT'')),
      (''items'', PyList
        [PyStr (lit ''Slow query logs tidak menangkap karena tiap '' @ lit ''query cepat.''),
         PyStr (lit ''Performa hanya terlihat jelas pada skala '' @ lit ''produksi.''),
         PyStr (lit ''Unit test tanpa query counter gagal '' @ lit ''mendeteksi masalah.'')]),
      (''type'', PyStr (lit ''card''))]]\<close>

definition lab22_slide_02 :: pycall where [lab22_slides]:
  \<open>lab22_slide_02 =
   \<lparr>posargs = [],
  kwargs =
   [(''categories'', PyList
      [PyStr (lit ''MOTIVASI''),
       PyStr (lit ''N+1 PROBLEM'')]),
    (''title'', PyStr (lit ''Masalah Nyata: N+1 Query Menyembunyikan '' @ lit ''Latensi'')),
    (''subtitle'', PyStr (lit ''Kode berfungsi sempurna pada data kecil, '' @
        lit ''tetapi anjlok di produksi.'')),
    (''content_items'', lab22_items_02),
    (''narrative'', PyStr (lit ''Masalah N+1 query sering lolos dari deteksi '' @
        lit ''selama pengembangan karena dataset uji coba '' @
        lit ''berukuran kecil. Setiap query individual '' @
        lit ''berjalan cepat, sehingga developer tidak '' @
        lit ''menyadari bahwa pola loop dengan query di '' @
        lit ''dalamnya akan menghasilkan N kali '' @
        lit ''round-trip ke database. Pada produksi '' @
        lit ''dengan ribuan record, latensi akumulatif '' @
        lit ''ini dapat meningkatkan response time dari '' @
        lit ''ratusan milidetik menjadi beberapa detik. '' @
        lit ''Selain itu, pola ini juga menekan '' @
        lit ''connection pool database karena setiap '' @
        lit ''request memerlukan banyak koneksi '' @ lit ''sequential.'')),
    (''narrative_en'', PyStr (lit ''The N+1 query problem often escapes '' @
        lit ''detection during development because test '' @
        lit ''datasets are small. Each individual query '' @
        lit ''runs quickly, so developers don'' @ [39] @
        lit ''t realize that a loop with queries inside '' @
        lit ''will produce N times the database '' @
        lit ''round-trips. In production with thousands '' @
        lit ''of records, this accumulated latency can '' @
        lit ''increase response time from hundreds of '' @
        lit ''milliseconds to several seconds. '' @
        lit ''Additionally, this pattern puts pressure on '' @
        lit ''the database connection pool because each '' @
        lit ''request requires many sequential '' @ lit ''connections.'')),
    (''mental_model'', PyStr (lit ''Small dataset testing hides N+1; production '' @
        lit ''scale exposes accumulated query overhead.'')),
    (''source_path'', PyStr (lit ''labs/22-n-plus-one-query-problem/content/02-'' @ lit ''master-draft.md'')),
    (''slide_num'', PyStr (lit ''02 / 24'')),
    (''layout'', PyStr (lit ''cards''))]\<rparr>\<close>

definition lab22_items_03 :: pyval where [lab22_contents]:
  \<open>lab22_items_03 =
   PyList
   [PyDict
     [(''title'', PyStr (lit ''NAIVE CODE EXAMPLE'')),
      (''items'', PyList
        [PyStr (lit ''func GetAuthorsWithPosts() '' @ lit ''[]AuthorWithPosts {''),
         PyStr (lit ''    authors := db.GetAllAuthors()''),
         PyStr (lit ''    var result []AuthorWithPosts''),
         PyStr (lit ''    for _, author := range authors {''),
         PyStr (lit ''        posts := '' @ lit ''db.GetPostsByAuthorID(author.ID)''),
         PyStr (lit ''        result = append(result, '' @ lit ''AuthorWithPosts{...})''),
         PyStr (lit ''    }''),
         PyStr (lit ''    return result''),
         PyStr (lit ''}'')]),
      (''type'', PyStr (lit ''code''))],
    PyDict
     [(''title'', PyStr (lit ''FATALITAS'')),
      (''items'', PyList
        [PyStr (lit ''Query count = 1 + len(authors).''),
         PyStr (lit ''Database connection dipakai berulang-ulang.''),
         PyStr (lit ''Tidak ada batching atau prefetching.'')]),
      (''type'', PyStr (lit ''bullet''))]]\<close>

definition lab22_slide_03 :: pycall where [lab22_slides]:
  \<open>lab22_slide_03 =
   \<lparr>posargs = [],
  kwargs =
   [(''categories'', PyList
      [PyStr (lit ''ANALISIS''),
       PyStr (lit ''NAIVE APPROACH'')]),
    (''title'', PyStr (lit ''Mengapa Pendekatan Naif Gagal?'')),
    (''subtitle'', PyStr (lit ''Kode N+1 terlihat sederhana tetapi tidak '' @ lit ''scalable.'')),
    (''content_items'', lab22_items_03),
    (''narrative'', PyStr (lit ''Implementasi naive N+1 query tampaknya '' @
        lit ''intuitif dan mudah dibaca: ambil semua '' @
        lit ''author, lalu iterasi setiap author untuk '' @
        lit ''mengambil posts-nya satu per satu. Namun, '' @
        lit ''pendekatan ini menghasilkan jumlah query '' @
        lit ''yang linear terhadap jumlah record parent. '' @
        lit ''Pada sistem dengan 1000 author, akan '' @
        lit ''terjadi 1001 query tunggal. Setiap query '' @
        lit ''memerlukan handshake TCP, parsing SQL, '' @
        lit ''eksekusi, dan pengiriman hasil. Akumulasi '' @
        lit ''overhead ini menyebabkan latensi yang dapat '' @
        lit ''ditoleransi pada dataset kecil tetapi '' @
        lit ''menjadi bottlenecks serius pada skala '' @ lit ''produksi.'')),
    (''narrative_en'', PyStr (lit ''The naive N+1 query implementation appears '' @
        lit ''intuitive and easy to read: fetch all '' @
        lit ''authors, then iterate each author to fetch '' @
        lit ''their posts one by one. However, this '' @
        lit ''approach generates a query count that is '' @
        lit ''linear relative to the parent record count. '' @
        lit ''On a system with 1000 authors, there will '' @
        lit ''be 1001 individual queries. Each query '' @
        lit ''requires TCP handshake, SQL parsing, '' @
        lit ''execution, and result transfer. This '' @
        lit ''accumulated overhead causes tolerable '' @
        lit ''latency on small datasets but becomes '' @
        lit ''serious bottlenecks at production scale.'')),
    (''mental_model'', PyStr (lit ''Naive nested loops produce O(N) queries; '' @
        lit ''batching collapses it to O(1).'')),
    (''source_path'', PyStr (lit ''internal/blog/repository.go:12-28'')),
    (''slide_num'', PyStr (lit ''03 / 24'')),
    (''layout'', PyStr (lit ''code-bullet''))]\<rparr>\<close>

definition lab22_items_04 :: pyval where [lab22_contents]:
  \<open>lab22_items_04 =
   PyList
   [PyDict
     [(''title'', PyStr (lit ''DOMAIN SCHEMA'')),
      (''items'', PyList
        [PyStr (lit ''type Author struct { ID int; Name string }''),
         PyStr (lit ''type Post struct { ID int; AuthorID int; '' @ lit ''Title string }''),
         PyStr (lit ''type AuthorWithPosts struct {''),
         PyStr (lit ''    Author Author''),
         PyStr (lit ''    Posts  []Post''),
         PyStr (lit ''}'')]),
      (''type'', PyStr (lit ''code''))],
    PyDict
     [(''title'', PyStr (lit ''PRINSIP INTI'')),
      (''items'', PyList
        [PyStr (lit ''Batch all related IDs: [author1, author2, '' @ lit ''...]''),
         PyStr (lit ''Single query: SELECT * FROM posts WHERE '' @ lit ''author_id IN (...)''),
         PyStr (lit ''Group results in memory by author_id''),
         PyStr (lit ''Compose final structs without additional '' @ lit ''queries'')]),
      (''type'', PyStr (lit ''bullet''))]]\<close>

definition lab22_slide_04 :: pycall where [lab22_slides]:
  \<open>lab22_slide_04 =
   \<lparr>posargs = [],
  kwargs =
   [(''categories'', PyList
      [PyStr (lit ''MENTAL MODEL''),
       PyStr (lit ''BATCHING'')]),
    (''title'', PyStr (lit ''Mental Model: Eager Loading via Batching'')),
    (''subtitle'', PyStr (lit ''Kumpulkan semua ID relasi, jalankan satu '' @
        lit ''query batch, kelompokkan di memori.'')),
    (''content_items'', lab22_items_04),
    (''narrative'', PyStr (lit ''Mental model inti untuk menyelesaikan N+1 '' @
        lit ''query problem adalah eager loading melalui '' @
        lit ''batching. Alih-alih melakukan query '' @
        lit ''terpisah untuk setiap entitas parent, kita '' @
        lit ''mengumpulkan semua identifier relasi yang '' @
        lit ''dibutuhkan dalam satu slice. Kemudian kita '' @
        lit ''menjalankan satu query batch dengan klausa '' @
        lit ''IN yang mengambil semua record child '' @
        lit ''sekaligus. Setelah hasil dikembalikan, kita '' @
        lit ''mengelompokkannya di memori menggunakan '' @
        lit ''map, lalu menyusun struktur data akhir '' @
        lit ''tanpa query tambahan. Pendekatan ini '' @
        lit ''mengubah kompleksitas query dari O(N) '' @ lit ''menjadi O(1).'')),
    (''narrative_en'', PyStr (lit ''The core mental model for solving the N+1 '' @
        lit ''query problem is eager loading through '' @
        lit ''batching. Instead of making separate '' @
        lit ''queries for each parent entity, we collect '' @
        lit ''all required relationship identifiers into '' @
        lit ''one slice. Then we run a single batch query '' @
        lit ''with an IN clause that fetches all child '' @
        lit ''records at once. After the results are '' @
        lit ''returned, we group them in memory using a '' @
        lit ''map, then assemble the final data structure '' @
        lit ''without additional queries. This approach '' @
        lit ''changes query complexity from O(N) to O(1).'')),
    (''mental_model'', PyStr (lit ''Collect IDs, run one batch query, group in '' @ lit ''memory '' @ [0x2192] @
        lit '' replace N queries with 2.'')),
    (''source_path'', PyStr (lit ''internal/blog/models.go '' @ [0x2022] @
        lit '' internal/blog/repository.go:32-58'')),
    (''slide_num'', PyStr (lit ''04 / 24'')),
    (''layout'', PyStr (lit ''schema-card''))]\<rparr>\<close>

definition lab22_items_05 :: pyval where [lab22_contents]:
  \<open>lab22_items_05 =
   PyList
   [PyDict
     [(''title'', PyStr (lit ''N+1 PIPELINE'')),
      (''items'', PyList
        [PyStr (lit ''1. App '' @ [0x2192] @ lit '' DB: GetAllAuthors()''),
         PyStr (lit ''   DB '' @ [0x2192] @ lit '' App: [Alice, Bob, Charlie]''),
         PyStr (lit ''2. Loop: for author in authors''),
         PyStr (lit ''   App '' @ [0x2192] @ lit '' DB: GetPostsByAuthorID(author.ID)''),
         PyStr (lit ''   DB '' @ [0x2192] @ lit '' App: posts untuk author''),
         PyStr (lit ''Total: 4 queries (1 + 3)'')]),
      (''type'', PyStr (lit ''diagram''))],
    PyDict
     [(''title'', PyStr (lit ''EAGER PIPELINE'')),
      (''items'', PyList
        [PyStr (lit ''1. App '' @ [0x2192] @ lit '' DB: GetAllAuthors()''),
         PyStr (lit ''   DB '' @ [0x2192] @ lit '' App: [Alice, Bob, Charlie]''),
         PyStr (lit ''2. Extract IDs: [1, 2, 3]''),
         PyStr (lit ''3. App '' @ [0x2192] @ lit '' DB: GetPostsByAuthorIDs([1,2,3])''),
         PyStr (lit ''   DB '' @ [0x2192] @ lit '' App: ALL posts''),
         PyStr (lit ''4. Group by AuthorID in map''),
         PyStr (lit ''5. Compose AuthorWithPosts''),
         PyStr (lit ''Total: 2 queries (1 + 1 batch)'')]),
      (''type'', PyStr (lit ''diagram''))]]\<close>

definition lab22_slide_05 :: pycall where [lab22_slides]:
  \<open>lab22_slide_05 =
   \<lparr>posargs = [],
  kwargs =
   [(''categories'', PyList
      [PyStr (lit ''ARSITEKTUR''),
       PyStr (lit ''PIPELINE'')]),
    (''title'', PyStr (lit ''Alur Eksekusi: Dari Loop Naif ke Batch Eager'')),
    (''subtitle'', PyStr (lit ''Komparasi pipeline N+1 versus eager loading '' @ lit ''batching.'')),
    (''content_items'', lab22_items_05),
    (''narrative'', PyStr (lit ''Pipeline eksekusi N+1 dimulai dengan satu '' @
        lit ''query untuk mengambil semua author, '' @
        lit ''kemudian masuk ke loop untuk mengambil '' @
        lit ''posts setiap author secara individual. '' @
        lit ''Setiap iterasi loop menghasilkan satu '' @
        lit ''round-trip database tambahan. Sebaliknya, '' @
        lit ''pipeline eager loading juga memulai dengan '' @
        lit ''query authors yang sama, tetapi kemudian '' @
        lit ''mengekstrak semua author ID dan melakukan '' @
        lit ''satu query batch menggunakan klausa IN. '' @
        lit ''Hasil batch dikelompokkan dalam map memori '' @
        lit ''sebelum akhirnya disusun ke struktur '' @
        lit ''AuthorWithPosts. Perbedaan mendasar '' @
        lit ''terletak pada pengurangan round-trip dari N '' @ lit ''menjadi 1.'')),
    (''narrative_en'', PyStr (lit ''The N+1 execution pipeline starts with one '' @
        lit ''query to fetch all authors, then enters a '' @
        lit ''loop to fetch posts for each author '' @
        lit ''individually. Each loop iteration produces '' @
        lit ''one additional database round-trip. '' @
        lit ''Conversely, the eager loading pipeline also '' @
        lit ''starts with the same authors query, but '' @
        lit ''then extracts all author IDs and performs '' @
        lit ''one batch query using an IN clause. The '' @
        lit ''batch results are grouped in a memory map '' @
        lit ''before finally being assembled into '' @
        lit ''AuthorWithPosts structures. The fundamental '' @
        lit ''difference lies in reducing round-trips '' @ lit ''from N to 1.'')),
    (''mental_model'', PyStr (lit ''Batching consolidates N sequential queries '' @
        lit ''into one parallel fetch.'')),
    (''source_path'', PyStr (lit ''internal/blog/store.go '' @ [0x2022] @ lit '' internal/blog/repository.go'')),
    (''slide_num'', PyStr (lit ''05 / 24'')),
    (''layout'', PyStr (lit ''pipeline-diagram''))]\<rparr>\<close>

definition lab22_items_06 :: pyval where [lab22_contents]:
  \<open>lab22_items_06 =
   PyList
   [PyDict
     [(''title'', PyStr (lit ''EAGER LOADING CODE'')),
      (''items'', PyList
        [PyStr (lit ''func (r *Repository) '' @ lit ''GetAuthorsWithPostsEager() '' @
            lit ''[]AuthorWithPosts {''),
         PyStr (lit ''    authors := r.store.GetAllAuthors()''),
         PyStr (lit ''    if len(authors) == 0 {''),
         PyStr (lit ''        return []AuthorWithPosts{}''),
         PyStr (lit ''    }''),
         PyStr [],
         PyStr (lit ''    authorIDs := make([]int, len(authors))''),
         PyStr (lit ''    for i, author := range authors {''),
         PyStr (lit ''        authorIDs[i] = author.ID''),
         PyStr (lit ''    }''),
         PyStr [],
         PyStr (lit ''    allPosts := '' @ lit ''r.store.GetPostsByAuthorIDs(authorIDs)''),
         PyStr [],
         PyStr (lit ''    postsByAuthor := make(map[int][]Post)''),
         PyStr (lit ''    for _, post := range allPosts {''),
         PyStr (lit ''        postsByAuthor[post.AuthorID] = '' @
            lit ''append(postsByAuthor[post.AuthorID], post)''),
         PyStr (lit ''    }''),
         PyStr [],
         PyStr (lit ''    var result []AuthorWithPosts''),
         PyStr (lit ''    for _, author := range authors {''),
         PyStr (lit ''        result = append(result, '' @ lit ''AuthorWithPosts{''),
         PyStr (lit ''            Author: author,''),
         PyStr (lit ''            Posts:  '' @ lit ''postsByAuthor[author.ID],''),
         PyStr (lit ''        })''),
         PyStr (lit ''    }''),
         PyStr (lit ''    return result''),
         PyStr (lit ''}'')]),
      (''type'', PyStr (lit ''code''))]]\<close>

definition lab22_slide_06 :: pycall where [lab22_slides]:
  \<open>lab22_slide_06 =
   \<lparr>posargs = [],
  kwargs =
   [(''categories'', PyList
      [PyStr (lit ''IMPLEMENTASI''),
       PyStr (lit ''CODE'')]),
    (''title'', PyStr (lit ''Implementasi Eager Loading Batching'')),
    (''subtitle'', PyStr (lit ''Repository.go: GetAuthorsWithPostsEager '' @ [0x2014] @
        lit '' batch query + in-memory grouping.'')),
    (''content_items'', lab22_items_06),
    (''narrative'', PyStr (lit ''Implementasi eager loading batching pada '' @
        lit ''method GetAuthorsWithPostsEager terdiri '' @
        lit ''dari lima tahap utama. Pertama, mengambil '' @
        lit ''semua author dari store. Kedua, mengekstrak '' @
        lit ''semua author ID ke dalam slice integer. '' @
        lit ''Ketiga, menjalankan satu query batch '' @
        lit ''GetPostsByAuthorIDs dengan slice ID '' @
        lit ''tersebut. Keempat, mengelompokkan semua '' @
        lit ''post yang dikembalikan ke dalam map '' @
        lit ''berdasarkan author_id. Kelima, menyusun '' @
        lit ''struktur AuthorWithPosts akhir dengan '' @
        lit ''iterasi author dan mengambil slice post '' @
        lit ''dari map. Total query yang dieksekusi hanya '' @
        lit ''dua: satu untuk authors dan satu untuk '' @ lit ''semua posts.'')),
    (''narrative_en'', PyStr (lit ''The eager loading batching implementation '' @
        lit ''in the GetAuthorsWithPostsEager method '' @
        lit ''consists of five main stages. First, it '' @
        lit ''fetches all authors from the store. Second, '' @
        lit ''it extracts all author IDs into an integer '' @
        lit ''slice. Third, it runs a single batch query '' @
        lit ''GetPostsByAuthorIDs with the ID slice. '' @
        lit ''Fourth, it groups all returned posts into a '' @
        lit ''map based on author_id. Fifth, it assembles '' @
        lit ''the final AuthorWithPosts structure by '' @
        lit ''iterating authors and fetching the post '' @
        lit ''slice from the map. The total queries '' @
        lit ''executed are only two: one for authors and '' @ lit ''one for all posts.'')),
    (''mental_model'', PyStr (lit ''Extract IDs '' @ [0x2192] @ lit '' batch query '' @ [0x2192] @
        lit '' group in map '' @ [0x2192] @ lit '' compose result = 2 queries total.'')),
    (''source_path'', PyStr (lit ''internal/blog/repository.go:32-58'')),
    (''slide_num'', PyStr (lit ''06 / 24'')),
    (''layout'', PyStr (lit ''code-dominant''))]\<rparr>\<close>

definition lab22_items_07 :: pyval where [lab22_contents]:
  \<open>lab22_items_07 =
   PyList
   [PyDict
     [(''title'', PyStr (lit ''TEST ASSERTION'')),
      (''items'', PyList
        [PyStr (lit ''func TestGetAuthorsWithPostsNPlusOne(t '' @ lit ''*testing.T) {''),
         PyStr (lit ''    store := NewStore()''),
         PyStr (lit ''    repo := NewRepository(store)''),
         PyStr (lit ''    store.ResetQueryCount()''),
         PyStr (lit ''    result := '' @ lit ''repo.GetAuthorsWithPostsNPlusOne()''),
         PyStr (lit ''    queryCount := store.GetQueryCount()''),
         PyStr (lit ''    if queryCount != 4 {''),
         PyStr (lit ''        t.Errorf("expected 4 queries (N+1), '' @
            lit ''got %d", queryCount)''),
         PyStr (lit ''    }''),
         PyStr (lit ''}'')]),
      (''type'', PyStr (lit ''code''))],
    PyDict
     [(''title'', PyStr (lit ''ANALISIS'')),
      (''items'', PyList
        [PyStr (lit ''Query count = 1 (getAllAuthors) + 3 '' @ lit ''(per-author loop).''),
         PyStr (lit ''Setiap iterasi loop memanggil '' @ lit ''GetPostsByAuthorID().''),
         PyStr (lit ''Pola ini akan menjadi 1+N untuk N author.'')]),
      (''type'', PyStr (lit ''bullet''))]]\<close>

definition lab22_slide_07 :: pycall where [lab22_slides]:
  \<open>lab22_slide_07 =
   \<lparr>posargs = [],
  kwargs =
   [(''categories'', PyList
      [PyStr (lit ''FAILURE PATH''),
       PyStr (lit ''BUKTI'')]),
    (''title'', PyStr (lit ''Failure Path: N+1 Menghasilkan Query Count '' @ lit ''Tinggi'')),
    (''subtitle'', PyStr (lit ''Bukti dari TestGetAuthorsWithPostsNPlusOne: '' @
        lit ''4 queries untuk 3 authors.'')),
    (''content_items'', lab22_items_07),
    (''narrative'', PyStr (lit ''Failure path N+1 query problem '' @
        lit ''termanifestasi sebagai query count yang '' @
        lit ''tumbuh linear seiring bertambahnya jumlah '' @ lit ''record parent. Test '' @
        lit ''GetAuthorsWithPostsNPlusOne secara '' @
        lit ''eksplisit mengassert bahwa untuk 3 author, '' @
        lit ''total query yang dieksekusi adalah 4. Angka '' @
        lit ''ini berasal dari satu query GetAllAuthors '' @
        lit ''ditambah tiga query GetPostsByAuthorID '' @
        lit ''dalam loop. Pada skala produksi dengan '' @
        lit ''ribuan author, pola ini akan menghasilkan '' @
        lit ''ribuan query tambahan yang secara '' @
        lit ''signifikan membebani database dan '' @ lit ''connection pool.'')),
    (''narrative_en'', PyStr (lit ''The N+1 query problem failure path '' @
        lit ''manifests as a query count that grows '' @
        lit ''linearly with the increasing number of '' @ lit ''parent records. The '' @
        lit ''GetAuthorsWithPostsNPlusOne test explicitly '' @
        lit ''asserts that for 3 authors, the total '' @
        lit ''queries executed are 4. This figure comes '' @
        lit ''from one GetAllAuthors query plus three '' @
        lit ''GetPostsByAuthorID queries in the loop. At '' @
        lit ''production scale with thousands of authors, '' @
        lit ''this pattern will generate thousands of '' @
        lit ''additional queries that significantly '' @
        lit ''burden the database and connection pool.'')),
    (''mental_model'', PyStr (lit ''Linear query growth (1+N) is the '' @ lit ''fingerprint of N+1 anti-pattern.'')),
    (''source_path'', PyStr (lit ''internal/blog/repository_test.go:8-25'')),
    (''slide_num'', PyStr (lit ''07 / 24'')),
    (''layout'', PyStr (lit ''failure-path''))]\<rparr>\<close>

definition lab22_items_08 :: pyval where [lab22_contents]:
  \<open>lab22_items_08 =
   PyList
   [PyDict
     [(''title'', PyStr (lit ''PERBANDINGAN'')),
      (''items'', PyList
        [PyStr (lit ''Aspek | N+1 (Naive) | Eager Loading (Batch)''),
         PyStr (lit ''Query Count | 1 + N | 2''),
         PyStr (lit ''Time Complexity | O(N) queries | O(1) '' @ lit ''queries''),
         PyStr (lit ''Connection Usage | N sequential connections '' @ lit ''| 2 connections''),
         PyStr (lit ''Memory Overhead | Lower (streaming) | '' @ lit ''Higher (batch load)''),
         PyStr (lit ''Detectability | Hard (each query fast) | '' @ lit ''Easy (query counter)'')]),
      (''type'', PyStr (lit ''table''))]]\<close>

definition lab22_slide_08 :: pycall where [lab22_slides]:
  \<open>lab22_slide_08 =
   \<lparr>posargs = [],
  kwargs =
   [(''categories'', PyList
      [PyStr (lit ''PERBANDINGAN''),
       PyStr (lit ''MEKANISME'')]),
    (''title'', PyStr (lit ''Mekanisme vs Gejala: N+1 vs Eager Loading'')),
    (''subtitle'', PyStr (lit ''Tabel perbandingan perilaku kuantitatif '' @ lit ''kedua pendekatan.'')),
    (''content_items'', lab22_items_08),
    (''narrative'', PyStr (lit ''Tabel perbandingan ini menyoroti perbedaan '' @
        lit ''fundamental antara pendekatan N+1 naive dan '' @
        lit ''eager loading batching. Dari segi kuantitas '' @
        lit ''query, N+1 menghasilkan 1+N query sedangkan '' @
        lit ''eager loading hanya 2 query terlepas dari '' @
        lit ''ukuran dataset. Kompleksitas waktu dalam '' @
        lit ''hal jumlah query juga berbeda: O(N) versus '' @
        lit ''O(1). Penggunaan koneksi database pun '' @
        lit ''berbeda secara signifikan; N+1 membutuhkan '' @
        lit ''N koneksi sequential sedangkan eager '' @
        lit ''loading hanya 2 koneksi. Namun, eager '' @
        lit ''loading memiliki overhead memori yang lebih '' @
        lit ''tinggi karena memuat semua record sekaligus '' @ lit ''ke dalam memori.'')),
    (''narrative_en'', PyStr (lit ''This comparison table highlights the '' @
        lit ''fundamental differences between the N+1 '' @
        lit ''naive approach and eager loading batching. '' @
        lit ''In terms of query quantity, N+1 produces '' @
        lit ''1+N queries while eager loading only '' @
        lit ''produces 2 queries regardless of dataset '' @
        lit ''size. Time complexity in terms of query '' @
        lit ''count also differs: O(N) versus O(1). '' @
        lit ''Database connection usage also differs '' @
        lit ''significantly; N+1 requires N sequential '' @
        lit ''connections while eager loading only needs '' @
        lit ''2 connections. However, eager loading has '' @
        lit ''higher memory overhead because it loads all '' @
        lit ''records at once into memory.'')),
    (''mental_model'', PyStr (lit ''Trade-off: fewer queries at the cost of '' @
        lit ''higher memory consumption.'')),
    (''source_path'', PyStr (lit ''internal/blog/repository_test.go '' @ [0x2022] @
        lit '' content/04-diagrams.md'')),
    (''slide_num'', PyStr (lit ''08 / 24'')),
    (''layout'', PyStr (lit ''comparison-table''))]\<rparr>\<close>

definition lab22_items_09 :: pyval where [lab22_contents]:
  \<open>lab22_items_09 =
   PyList
   [PyDict
     [(''title'', PyStr (lit ''KEPUTUSAN 1: QUERY COUNTER'')),
      (''items'', PyList
        [PyStr (lit ''Implementasikan query counter pada data '' @
            lit ''access layer untuk mengukur jumlah query '' @ lit ''aktual.''),
         PyStr (lit ''Gunakan counter ini dalam unit test untuk '' @
            lit ''mencegah regressi N+1.'')]),
      (''type'', PyStr (lit ''card''))],
    PyDict
     [(''title'', PyStr (lit ''KEPUTUSAN 2: BATCH STRATEGY'')),
      (''items'', PyList
        [PyStr (lit ''Pilih strategi batching: single batch untuk '' @
            lit ''dataset kecil, chunked batch untuk dataset '' @ lit ''besar.''),
         PyStr (lit ''Gunakan klausa IN dengan limit ukuran batch '' @
            lit ''untuk menghindari cartesian explosion.'')]),
      (''type'', PyStr (lit ''card''))],
    PyDict
     [(''title'', PyStr (lit ''KEPUTUSAN 3: MEMORY vs QUERY TRADE-OFF'')),
      (''items'', PyList
        [PyStr (lit ''Evaluasi trade-off antara jumlah query dan '' @ lit ''penggunaan memori.''),
         PyStr (lit ''Untuk relasi one-to-many besar, '' @
            lit ''pertimbangkan column selection atau '' @ lit ''pagination.'')]),
      (''type'', PyStr (lit ''card''))]]\<close>

definition lab22_slide_09 :: pycall where [lab22_slides]:
  \<open>lab22_slide_09 =
   \<lparr>posargs = [],
  kwargs =
   [(''categories'', PyList
      [PyStr (lit ''DESIGN DECISION''),
       PyStr (lit ''PATTERN'')]),
    (''title'', PyStr (lit ''3 Keputusan Desain Kritis untuk Optimasi '' @ lit ''Query'')),
    (''subtitle'', PyStr (lit ''Urutan keputusan arsitektural yang harus '' @
        lit ''diambil saat mengatasi N+1.'')),
    (''content_items'', lab22_items_09),
    (''narrative'', PyStr (lit ''Tiga keputusan desain kritis ini membentuk '' @
        lit ''fondasi implementasi optimasi N+1 query '' @
        lit ''yang robust. Keputusan pertama menetapkan '' @
        lit ''mechanisme pengukuran kuantitatif melalui '' @
        lit ''query counter yang terintegrasi dengan test '' @
        lit ''suite. Keputusan kedua memilih strategi '' @
        lit ''batching yang sesuai dengan karakteristik '' @
        lit ''dataset dan batasan memori. Keputusan '' @
        lit ''ketiga mengevaluasi trade-off antara '' @
        lit ''pengurangan query dan peningkatan '' @
        lit ''penggunaan memori, yang menjadi '' @
        lit ''pertimbangan penting saat menangani relasi '' @
        lit ''one-to-many dalam skala besar.'')),
    (''narrative_en'', PyStr (lit ''These three critical design decisions form '' @
        lit ''the foundation of a robust N+1 query '' @
        lit ''optimization implementation. The first '' @
        lit ''decision establishes a quantitative '' @
        lit ''measurement mechanism through query '' @
        lit ''counters integrated with the test suite. '' @
        lit ''The second decision selects an appropriate '' @
        lit ''batching strategy based on dataset '' @
        lit ''characteristics and memory constraints. The '' @
        lit ''third decision evaluates the trade-off '' @
        lit ''between query reduction and increased '' @
        lit ''memory usage, which becomes an important '' @
        lit ''consideration when handling large-scale '' @
        lit ''one-to-many relationships.'')),
    (''mental_model'', PyStr (lit ''Measure '' @ [0x2192] @ lit '' Batch '' @ [0x2192] @
        lit '' Trade-off: the optimization decision triad.'')),
    (''source_path'', PyStr (lit ''labs/22-n-plus-one-query-problem/content/05-'' @ lit ''key-takeaways.md'')),
    (''slide_num'', PyStr (lit ''09 / 24'')),
    (''layout'', PyStr (lit ''decision-cards''))]\<rparr>\<close>

definition lab22_items_10 :: pyval where [lab22_contents]:
  \<open>lab22_items_10 =
   PyList
   [PyDict
     [(''title'', PyStr (lit ''DEMO TERMINAL'')),
      (''items'', PyList
        [PyStr (lit ''=== 1. Simulating N+1 Query Problem ---''),
         PyStr (lit ''Loaded 3 authors with their posts.''),
         PyStr (lit ''Total queries executed: 4 (1 query for '' @
            lit ''authors + 3 queries for posts)''),
         PyStr [],
         PyStr (lit ''--- 2. Simulating Eager Loading (Batching) '' @ lit ''---''),
         PyStr (lit ''Loaded 3 authors with their posts.''),
         PyStr (lit ''Total queries executed: 2 (1 query for '' @
            lit ''authors + 1 batched query for posts)'')]),
      (''type'', PyStr (lit ''terminal''))]]\<close>

definition lab22_slide_10 :: pycall where [lab22_slides]:
  \<open>lab22_slide_10 =
   \<lparr>posargs = [],
  kwargs =
   [(''categories'', PyList
      [PyStr (lit ''BUKTI''),
       PyStr (lit ''DEMO'')]),
    (''title'', PyStr (lit ''Bukti Eksekusi: Terminal Output Demo'')),
    (''subtitle'', PyStr (lit ''Output langsung dari go run ./cmd/demo yang '' @
        lit ''menunjukkan perbedaan query count.'')),
    (''content_items'', lab22_items_10),
    (''narrative'', PyStr (lit ''Terminal output dari demo CLI secara '' @
        lit ''eksplisit menunjukkan perbedaan kuantitatif '' @
        lit ''antara pendekatan N+1 dan eager loading. '' @
        lit ''Untuk 3 author, pendekatan N+1 menghasilkan '' @
        lit ''4 query total, sedangkan eager loading '' @
        lit ''hanya 2 query. Perbedaan ini terlihat jelas '' @
        lit ''meskipun pada dataset kecil; pada skala '' @
        lit ''produksi dengan ratusan atau ribuan record, '' @
        lit ''gap antara 1+N query versus 2 query akan '' @
        lit ''menjadi sangat signifikan. Demo ini '' @
        lit ''membuktikan bahwa batching dapat mengurangi '' @
        lit ''jumlah database round-trip hingga '' @ lit ''separuhnya.'')),
    (''narrative_en'', PyStr (lit ''The terminal output from the CLI demo '' @
        lit ''explicitly shows the quantitative '' @
        lit ''difference between the N+1 and eager '' @
        lit ''loading approaches. For 3 authors, the N+1 '' @
        lit ''approach produces 4 total queries, while '' @
        lit ''eager loading only produces 2 queries. This '' @
        lit ''difference is clearly visible even on a '' @
        lit ''small dataset; at production scale with '' @
        lit ''hundreds or thousands of records, the gap '' @
        lit ''between 1+N queries versus 2 queries will '' @
        lit ''become very significant. This demo proves '' @
        lit ''that batching can reduce database '' @ lit ''round-trips by half.'')),
    (''mental_model'', PyStr (lit ''Demo output provides concrete evidence of '' @
        lit ''query count reduction from N+1 to 2.'')),
    (''source_path'', PyStr (lit ''cmd/demo/main.go '' @ [0x2022] @ lit '' engineering/03-execution-result.md'')),
    (''slide_num'', PyStr (lit ''10 / 24'')),
    (''layout'', PyStr (lit ''terminal-output''))]\<rparr>\<close>

definition lab22_items_11 :: pyval where [lab22_contents]:
  \<open>lab22_items_11 =
   PyList
   [PyDict
     [(''title'', PyStr (lit ''YANG DIBUKTIKAN'')),
      (''items'', PyList
        [PyStr (lit ''Query count reduction dari 4 ke 2 untuk 3 '' @ lit ''author.''),
         PyStr (lit ''Deep equality antara hasil N+1 dan eager '' @ lit ''loading.''),
         PyStr (lit ''Thread-safety dengan race detector.''),
         PyStr (lit ''Edge case empty store.'')]),
      (''type'', PyStr (lit ''card''))],
    PyDict
     [(''title'', PyStr (lit ''YANG TIDAK DIBUKTIKAN'')),
      (''items'', PyList
        [PyStr (lit ''Cartesian explosion pada relasi one-to-many '' @ lit ''besar.''),
         PyStr (lit ''Memory bloat akibat eager loading massive '' @ lit ''dataset.''),
         PyStr (lit ''Performa pada database relational '' @ lit ''sesungguhnya.''),
         PyStr (lit ''Trade-off dengan join-based eager loading.''),
         PyStr (lit ''Column selection dan aggregation '' @ lit ''optimization.'')]),
      (''type'', PyStr (lit ''card''))]]\<close>

definition lab22_slide_11 :: pycall where [lab22_slides]:
  \<open>lab22_slide_11 =
   \<lparr>posargs = [],
  kwargs =
   [(''categories'', PyList
      [PyStr (lit ''BATASAN''),
       PyStr (lit ''ANALISIS'')]),
    (''title'', PyStr (lit ''Analisis Batasan: Yang Tidak Dibuktikan Lab '' @ lit ''Ini'')),
    (''subtitle'', PyStr (lit ''Heading kanan: YANG TIDAK DIBUKTIKAN '' @ [0x2014] @
        lit '' batasan tegas dari demonstrasi.'')),
    (''content_items'', lab22_items_11),
    (''narrative'', PyStr (lit ''Laboratorium ini memiliki batasan-batasan '' @
        lit ''tegas yang perlu dipahami agar klaim tidak '' @
        lit ''berlebihan. Yang dibuktikan adalah reduksi '' @
        lit ''query count pada dataset kecil, kesamaan '' @
        lit ''semantik hasil, thread-safety, dan '' @
        lit ''penanganan edge case kosong. Yang tidak '' @
        lit ''dibuktikan meliputi cartesian explosion '' @
        lit ''pada relasi one-to-many berskala besar, '' @
        lit ''memory bloat akibat memuat dataset massive '' @
        lit ''secara eager, performa aktual pada database '' @
        lit ''relational sesungguhnya, trade-off dengan '' @
        lit ''strategi eager loading berbasis join, serta '' @
        lit ''optimasi column selection dan aggregation.'')),
    (''narrative_en'', PyStr (lit ''This laboratory has definitive limitations '' @
        lit ''that must be understood to prevent '' @
        lit ''overclaiming. What is proven includes query '' @
        lit ''count reduction on small datasets, semantic '' @
        lit ''result equality, thread-safety, and empty '' @
        lit ''edge case handling. What is not proven '' @
        lit ''includes cartesian explosion on large-scale '' @
        lit ''one-to-many relationships, memory bloat '' @
        lit ''from eagerly loading massive datasets, '' @
        lit ''actual performance on real relational '' @
        lit ''databases, trade-offs with join-based eager '' @
        lit ''loading strategies, and column selection '' @
        lit ''and aggregation optimizations.'')),
    (''mental_model'', PyStr (lit ''Proof covers query count; unproven: scale, '' @
        lit ''memory, join trade-offs.'')),
    (''source_path'', PyStr (lit ''labs/22-n-plus-one-query-problem/content/01-'' @ lit ''content-brief.md'')),
    (''slide_num'', PyStr (lit ''11 / 24'')),
    (''layout'', PyStr (lit ''bounds-analysis''))]\<rparr>\<close>

definition lab22_items_12 :: pyval where [lab22_contents]:
  \<open>lab22_items_12 =
   PyList
   [PyDict
     [(''title'', PyStr (lit ''PROS EAGER LOADING'')),
      (''items'', PyList
        [PyStr (lit ''Query count konstan (O(1)) terlepas dari '' @ lit ''ukuran dataset.''),
         PyStr (lit ''Mengurangi connection pool pressure.''),
         PyStr (lit ''Menghilangkan latency akumulatif dari '' @ lit ''banyak round-trip.'')]),
      (''type'', PyStr (lit ''card''))],
    PyDict
     [(''title'', PyStr (lit ''CONS EAGER LOADING'')),
      (''items'', PyList
        [PyStr (lit ''Memory usage meningkat karena memuat semua '' @ lit ''record sekaligus.''),
         PyStr (lit ''Potensi cartesian explosion pada relasi '' @
            lit ''one-to-many/many-to-many.''),
         PyStr (lit ''Perlu pagination atau chunking untuk '' @ lit ''dataset besar.''),
         PyStr (lit ''Kompleksitas kode lebih tinggi daripada N+1 '' @ lit ''naive.'')]),
      (''type'', PyStr (lit ''card''))]]\<close>

definition lab22_slide_12 :: pycall where [lab22_slides]:
  \<open>lab22_slide_12 =
   \<lparr>posargs = [],
  kwargs =
   [(''categories'', PyList
      [PyStr (lit ''TRADE-OFF''),
       PyStr (lit ''ARSITEKTUR'')]),
    (''title'', PyStr (lit ''Trade-off Arsitektur: Memory vs Query Count'')),
    (''subtitle'', PyStr (lit ''Eager loading mengurangi query tetapi '' @
        lit ''meningkatkan memori dan potensi cartesian '' @ lit ''explosion.'')),
    (''content_items'', lab22_items_12),
    (''narrative'', PyStr (lit ''Trade-off arsitektural antara N+1 naive dan '' @
        lit ''eager loading batching melibatkan '' @
        lit ''pertukaran antara penggunaan query dan '' @
        lit ''konsumsi memori. Eager loading secara '' @
        lit ''signifikan mengurangi jumlah query database '' @
        lit ''dari linear menjadi konstan, yang '' @
        lit ''menghasilkan penghematan latency jaringan '' @
        lit ''dan pengurangan tekanan pada connection '' @
        lit ''pool. Namun, pengorbanannya adalah '' @
        lit ''peningkatan penggunaan memori karena semua '' @
        lit ''record dimuat sekaligus ke dalam memori '' @
        lit ''aplikasi. Pada relasi one-to-many berskala '' @
        lit ''besar, ini dapat menyebabkan cartesian '' @
        lit ''product explosion jika tidak ditangani '' @
        lit ''dengan chunking atau pagination yang tepat.'')),
    (''narrative_en'', PyStr (lit ''The architectural trade-off between N+1 '' @
        lit ''naive and eager loading batching involves '' @
        lit ''exchanging query usage for memory '' @
        lit ''consumption. Eager loading significantly '' @
        lit ''reduces database query count from linear to '' @
        lit ''constant, resulting in network latency '' @
        lit ''savings and reduced pressure on the '' @
        lit ''connection pool. However, the sacrifice is '' @
        lit ''increased memory usage because all records '' @
        lit ''are loaded at once into application memory. '' @
        lit ''On large-scale one-to-many relationships, '' @
        lit ''this can cause cartesian product explosion '' @
        lit ''if not handled with proper chunking or '' @ lit ''pagination.'')),
    (''mental_model'', PyStr (lit ''Fewer queries at the cost of higher memory; '' @
        lit ''scale dictates the optimal strategy.'')),
    (''source_path'', PyStr (lit ''labs/22-n-plus-one-query-problem/content/02-'' @ lit ''master-draft.md'')),
    (''slide_num'', PyStr (lit ''12 / 24'')),
    (''layout'', PyStr (lit ''tradeoff-cards''))]\<rparr>\<close>

definition lab22_items_13 :: pyval where [lab22_contents]:
  \<open>lab22_items_13 =
   PyList
   [PyDict
     [(''title'', PyStr (lit ''THREAD-SAFE STORE'')),
      (''items'', PyList
        [PyStr (lit ''type Store struct {''),
         PyStr (lit ''    mu           sync.Mutex''),
         PyStr (lit ''    authors      []Author''),
         PyStr (lit ''    posts        []Post''),
         PyStr (lit ''    queryCount   int''),
         PyStr (lit ''}''),
         PyStr [],
         PyStr (lit ''func (s *Store) GetQueryCount() int {''),
         PyStr (lit ''    s.mu.Lock()''),
         PyStr (lit ''    defer s.mu.Unlock()''),
         PyStr (lit ''    return s.queryCount''),
         PyStr (lit ''}'')]),
      (''type'', PyStr (lit ''code''))],
    PyDict
     [(''title'', PyStr (lit ''RACE DETECTOR'')),
      (''items'', PyList
        [PyStr (lit ''$ go test -race ./...''),
         PyStr (lit ''PASS''),
         PyStr (lit ''ok      github.com/.../internal/blog    '' @ lit ''(cached)'')]),
      (''type'', PyStr (lit ''terminal''))]]\<close>

definition lab22_slide_13 :: pycall where [lab22_slides]:
  \<open>lab22_slide_13 =
   \<lparr>posargs = [],
  kwargs =
   [(''categories'', PyList
      [PyStr (lit ''CONCURRENCY''),
       PyStr (lit ''VALIDATION'')]),
    (''title'', PyStr (lit ''Concurrency Safety: Thread-Safe Query '' @ lit ''Counter'')),
    (''subtitle'', PyStr (lit ''Store.go menggunakan sync.Mutex untuk '' @
        lit ''melindungi queryCount dan data.'')),
    (''content_items'', lab22_items_13),
    (''narrative'', PyStr (lit ''Implementasi store menggunakan sync.Mutex '' @
        lit ''untuk memastikan thread-safety saat '' @
        lit ''mengakses dan memodifikasi queryCount serta '' @
        lit ''data koleksi. Setiap metode retrieval '' @
        lit ''seperti GetAllAuthors, GetPostsByAuthorID, '' @
        lit ''dan GetPostsByAuthorIDs mengunci mutex '' @
        lit ''sebelum increment queryCount dan membebek '' @
        lit ''hasilnya. Race detector Go mengonfirmasi '' @
        lit ''bahwa tidak ada data race pada implementasi '' @
        lit ''ini. Sifat thread-safe ini penting karena '' @
        lit ''unit test dapat dijalankan secara paralel '' @
        lit ''dan demo dapat diakses dari multiple '' @ lit ''goroutine.'')),
    (''narrative_en'', PyStr (lit ''The store implementation uses sync.Mutex to '' @
        lit ''ensure thread-safety when accessing and '' @
        lit ''modifying queryCount and collection data. '' @
        lit ''Each retrieval method like GetAllAuthors, '' @
        lit ''GetPostsByAuthorID, and GetPostsByAuthorIDs '' @
        lit ''locks the mutex before incrementing '' @
        lit ''queryCount and returns the results. Go'' @ [39] @
        lit ''s race detector confirms no data races in '' @
        lit ''this implementation. This thread-safe '' @
        lit ''property is important because unit tests '' @
        lit ''can run in parallel and demos can be '' @
        lit ''accessed from multiple goroutines.'')),
    (''mental_model'', PyStr (lit ''Mutex-protected state enables safe '' @
        lit ''concurrent testing and production use.'')),
    (''source_path'', PyStr (lit ''internal/blog/store.go:1-80'')),
    (''slide_num'', PyStr (lit ''13 / 24'')),
    (''layout'', PyStr (lit ''concurrency''))]\<rparr>\<close>

definition lab22_items_14 :: pyval where [lab22_contents]:
  \<open>lab22_items_14 =
   PyList
   [PyDict
     [(''title'', PyStr (lit ''BEFORE: N+1 (NAIVE)'')),
      (''items'', PyList
        [PyStr (lit ''Query Count: 4''),
         PyStr (lit ''Time Complexity: O(N)''),
         PyStr (lit ''Code Simplicity: High''),
         PyStr (lit ''Scalability: Poor''),
         PyStr (lit ''Memory Usage: Low'')]),
      (''type'', PyStr (lit ''card''))],
    PyDict
     [(''title'', PyStr (lit ''AFTER: EAGER LOADING'')),
      (''items'', PyList
        [PyStr (lit ''Query Count: 2''),
         PyStr (lit ''Time Complexity: O(1)''),
         PyStr (lit ''Code Simplicity: Medium''),
         PyStr (lit ''Scalability: Good''),
         PyStr (lit ''Memory Usage: Higher'')]),
      (''type'', PyStr (lit ''card''))]]\<close>

definition lab22_slide_14 :: pycall where [lab22_slides]:
  \<open>lab22_slide_14 =
   \<lparr>posargs = [],
  kwargs =
   [(''categories'', PyList
      [PyStr (lit ''PERBANDINGAN''),
       PyStr (lit ''BEFORE-AFTER'')]),
    (''title'', PyStr (lit ''Before vs After: N+1 vs Eager Loading'')),
    (''subtitle'', PyStr (lit ''Perbandingan visual antara dua pendekatan '' @ lit ''pada dataset identik.'')),
    (''content_items'', lab22_items_14),
    (''narrative'', PyStr (lit ''Perbandingan before dan after menunjukkan '' @
        lit ''transformasi dari pendekatan N+1 naive ke '' @
        lit ''eager loading batching. Sebelum optimasi, '' @
        lit ''query count sebesar 4 dengan kompleksitas '' @
        lit ''waktu O(N) yang berarti skalabilitas buruk '' @
        lit ''pada dataset besar. Setelah optimasi, query '' @
        lit ''count turun menjadi 2 dengan kompleksitas '' @
        lit ''waktu O(1) yang menjamin performa konsisten '' @
        lit ''terlepas dari ukuran dataset. Pertukaran '' @
        lit ''utamanya adalah peningkatan memory usage '' @
        lit ''dan sedikit penurunan code simplicity '' @
        lit ''karena perlu logic batching dan grouping.'')),
    (''narrative_en'', PyStr (lit ''The before and after comparison shows the '' @
        lit ''transformation from N+1 naive approach to '' @
        lit ''eager loading batching. Before '' @
        lit ''optimization, query count is 4 with O(N) '' @
        lit ''time complexity meaning poor scalability on '' @
        lit ''large datasets. After optimization, query '' @
        lit ''count drops to 2 with O(1) time complexity '' @
        lit ''guaranteeing consistent performance '' @
        lit ''regardless of dataset size. The main '' @
        lit ''trade-off is increased memory usage and '' @
        lit ''slight decrease in code simplicity due to '' @
        lit ''the need for batching and grouping logic.'')),
    (''mental_model'', PyStr (lit ''Before: 4 queries O(N); After: 2 queries '' @
        lit ''O(1). Scale dictates the winner.'')),
    (''source_path'', PyStr (lit ''internal/blog/repository_test.go:27-50'')),
    (''slide_num'', PyStr (lit ''14 / 24'')),
    (''layout'', PyStr (lit ''before-after''))]\<rparr>\<close>

definition lab22_items_15 :: pyval where [lab22_contents]:
  \<open>lab22_items_15 =
   PyList
   [PyDict
     [(''title'', PyStr (lit ''TEST LOGIC'')),
      (''items'', PyList
        [PyStr (lit ''func TestGetAuthorsWithPostsEager(t '' @ lit ''*testing.T) {''),
         PyStr (lit ''    store := NewStore()''),
         PyStr (lit ''    repo := NewRepository(store)''),
         PyStr (lit ''    store.ResetQueryCount()''),
         PyStr (lit ''    result := '' @ lit ''repo.GetAuthorsWithPostsEager()''),
         PyStr (lit ''    queryCount := store.GetQueryCount()''),
         PyStr (lit ''    if queryCount != 2 {''),
         PyStr (lit ''        t.Errorf("expected 2 queries (eager '' @
            lit ''loading), got %d", queryCount)''),
         PyStr (lit ''    }''),
         PyStr (lit ''    nPlusOneResult := '' @ lit ''repo.GetAuthorsWithPostsNPlusOne()''),
         PyStr (lit ''    if !reflect.DeepEqual(result, '' @ lit ''nPlusOneResult) {''),
         PyStr (lit ''        t.Errorf("eager result mismatch '' @ lit ''with N+1 result")''),
         PyStr (lit ''    }''),
         PyStr (lit ''}'')]),
      (''type'', PyStr (lit ''code''))]]\<close>

definition lab22_slide_15 :: pycall where [lab22_slides]:
  \<open>lab22_slide_15 =
   \<lparr>posargs = [],
  kwargs =
   [(''categories'', PyList
      [PyStr (lit ''ANALISIS''),
       PyStr (lit ''TEST'')]),
    (''title'', PyStr (lit ''Analisis Mendalam: '' @ lit ''TestGetAuthorsWithPostsEager'')),
    (''subtitle'', PyStr (lit ''Verifikasi query count, deep equality, dan '' @ lit ''edge case kosong.'')),
    (''content_items'', lab22_items_15),
    (''narrative'', PyStr (lit ''Test GetAuthorsWithPostsEager melakukan '' @
        lit ''tiga verifikasi sekaligus. Pertama, '' @
        lit ''memastikan query count tepat 2 setelah '' @
        lit ''eksekusi eager loading. Kedua, '' @
        lit ''membandingkan hasil eager loading dengan '' @
        lit ''hasil N+1 menggunakan reflect.DeepEqual '' @
        lit ''untuk menjamin kesamaan semantik. Ketiga, '' @
        lit ''implicitly menguji bahwa hasil tidak '' @
        lit ''berubah meskipun mekanisme fetching '' @
        lit ''berbeda. Kombinasi verifikasi kuantitatif '' @
        lit ''dan kualitatif ini memberikan confidence '' @
        lit ''tinggi bahwa optimasi tidak mengubah '' @ lit ''perilaku bisnis.'')),
    (''narrative_en'', PyStr (lit ''The TestGetAuthorsWithPostsEager performs '' @
        lit ''three verifications simultaneously. First, '' @
        lit ''it ensures the query count is exactly 2 '' @
        lit ''after eager loading execution. Second, it '' @
        lit ''compares the eager loading result with the '' @
        lit ''N+1 result using reflect.DeepEqual to '' @
        lit ''guarantee semantic equivalence. Third, it '' @
        lit ''implicitly tests that the results remain '' @
        lit ''unchanged despite different fetching '' @
        lit ''mechanisms. This combination of '' @
        lit ''quantitative and qualitative verification '' @
        lit ''provides high confidence that the '' @
        lit ''optimization does not alter business '' @ lit ''behavior.'')),
    (''mental_model'', PyStr (lit ''Query count assertion + deep equality = '' @
        lit ''correctness proof for batching.'')),
    (''source_path'', PyStr (lit ''internal/blog/repository_test.go:27-50'')),
    (''slide_num'', PyStr (lit ''15 / 24'')),
    (''layout'', PyStr (lit ''test-analysis''))]\<rparr>\<close>

definition lab22_items_16 :: pyval where [lab22_contents]:
  \<open>lab22_items_16 =
   PyList
   [PyDict
     [(''title'', PyStr (lit ''EDGE CASE TEST'')),
      (''items'', PyList
        [PyStr (lit ''func TestEmptyStore(t *testing.T) {''),
         PyStr (lit ''    store := &Store{authors: nil, posts: '' @ lit ''nil}''),
         PyStr (lit ''    repo := NewRepository(store)''),
         PyStr (lit ''    n1 := repo.GetAuthorsWithPostsNPlusOne()''),
         PyStr (lit ''    eager := repo.GetAuthorsWithPostsEager()''),
         PyStr (lit ''    if len(n1) != 0 || len(eager) != 0 {''),
         PyStr (lit ''        t.Fatalf("expected empty results")''),
         PyStr (lit ''    }''),
         PyStr (lit ''    if !reflect.DeepEqual(n1, eager) {''),
         PyStr (lit ''        t.Errorf("empty result mismatch")''),
         PyStr (lit ''    }''),
         PyStr (lit ''}'')]),
      (''type'', PyStr (lit ''code''))]]\<close>

definition lab22_slide_16 :: pycall where [lab22_slides]:
  \<open>lab22_slide_16 =
   \<lparr>posargs = [],
  kwargs =
   [(''categories'', PyList
      [PyStr (lit ''ANALISIS''),
       PyStr (lit ''TEST'')]),
    (''title'', PyStr (lit ''Analisis Mendalam: TestEmptyStore'')),
    (''subtitle'', PyStr (lit ''Edge case kosong diuji untuk kedua '' @ lit ''pendekatan simultan.'')),
    (''content_items'', lab22_items_16),
    (''narrative'', PyStr (lit ''Test EmptyStore menguji edge case ketika '' @
        lit ''store tidak memiliki author maupun post. '' @
        lit ''Kedua pendekatan, N+1 dan eager loading, '' @
        lit ''harus mengembalikan slice kosong dengan '' @
        lit ''panjang nol. Selain itu, deep equality '' @
        lit ''antara hasil keduanya juga diverifikasi. '' @
        lit ''Test ini memastikan bahwa optimasi batching '' @
        lit ''tidak memperkenalkan bug pada kasus ekstrem '' @
        lit ''di mana koleksi sumber kosong. Empty check '' @
        lit ''pada awal method GetAuthorsWithPostsEager '' @
        lit ''mencegahpanic akibat iterasi slice kosong.'')),
    (''narrative_en'', PyStr (lit ''The TestEmptyStore tests the edge case when '' @
        lit ''the store has no authors or posts. Both '' @
        lit ''approaches, N+1 and eager loading, must '' @
        lit ''return empty slices with length zero. '' @
        lit ''Additionally, deep equality between both '' @
        lit ''results is verified. This test ensures that '' @
        lit ''the batching optimization does not '' @
        lit ''introduce bugs in the extreme case where '' @
        lit ''the source collection is empty. The empty '' @
        lit ''check at the beginning of method '' @
        lit ''GetAuthorsWithPostsEager prevents panics '' @
        lit ''from iterating an empty slice.'')),
    (''mental_model'', PyStr (lit ''Empty collection edge case must yield '' @
        lit ''identical nil/empty results.'')),
    (''source_path'', PyStr (lit ''internal/blog/repository_test.go:52-65'')),
    (''slide_num'', PyStr (lit ''16 / 24'')),
    (''layout'', PyStr (lit ''test-analysis''))]\<rparr>\<close>

definition lab22_items_17 :: pyval where [lab22_contents]:
  \<open>lab22_items_17 =
   PyList
   [PyDict
     [(''title'', PyStr (lit ''RACE DETECTION'')),
      (''items'', PyList
        [PyStr (lit ''$ go test -race ./...''),
         PyStr (lit ''=== RUN   TestGetAuthorsWithPostsNPlusOne''),
         PyStr (lit ''--- PASS: TestGetAuthorsWithPostsNPlusOne '' @ lit ''(0.00s)''),
         PyStr (lit ''=== RUN   TestGetAuthorsWithPostsEager''),
         PyStr (lit ''--- PASS: TestGetAuthorsWithPostsEager '' @ lit ''(0.00s)''),
         PyStr (lit ''=== RUN   TestEmptyStore''),
         PyStr (lit ''--- PASS: TestEmptyStore (0.00s)''),
         PyStr (lit ''PASS''),
         PyStr (lit ''ok      github.com/lukman/.../internal/blog'')]),
      (''type'', PyStr (lit ''terminal''))]]\<close>

definition lab22_slide_17 :: pycall where [lab22_slides]:
  \<open>lab22_slide_17 =
   \<lparr>posargs = [],
  kwargs =
   [(''categories'', PyList
      [PyStr (lit ''ANALISIS''),
       PyStr (lit ''TEST'')]),
    (''title'', PyStr (lit ''Analisis Mendalam: Race Detector '' @ lit ''Verification'')),
    (''subtitle'', PyStr (lit ''Go race detector memastikan thread-safety '' @ lit ''tanpa data race.'')),
    (''content_items'', lab22_items_17),
    (''narrative'', PyStr (lit ''Go race detector dijalankan untuk '' @
        lit ''memverifikasi bahwa tidak ada data race '' @
        lit ''pada akses concurrent ke store. Hasilnya '' @
        lit ''menunjukkan semua test pass tanpa warning '' @
        lit ''apapun. Thread-safety dijamin oleh '' @
        lit ''penggunaan sync.Mutex pada setiap metode '' @
        lit ''store yang mengakses atau memodifikasi '' @
        lit ''queryCount dan slice data. Sifat ini '' @
        lit ''memungkinkan test dijalankan secara paralel '' @
        lit ''dan metode repository dapat dipanggil dari '' @
        lit ''multiple goroutine tanpa risiko concurrent '' @
        lit ''map write atau slice corruption.'')),
    (''narrative_en'', PyStr (lit ''Go race detector is run to verify that no '' @
        lit ''data races exist on concurrent access to '' @
        lit ''the store. The results show all tests pass '' @
        lit ''without any warnings. Thread-safety is '' @
        lit ''guaranteed by the use of sync.Mutex on '' @
        lit ''every store method that accesses or '' @
        lit ''modifies queryCount and data slices. This '' @
        lit ''property allows tests to run in parallel '' @
        lit ''and repository methods to be called from '' @
        lit ''multiple goroutines without risking '' @
        lit ''concurrent map writes or slice corruption.'')),
    (''mental_model'', PyStr (lit ''Mutex protection + race detector = '' @ lit ''production-ready concurrency.'')),
    (''source_path'', PyStr (lit ''internal/blog/store.go '' @ [0x2022] @
        lit '' engineering/03-execution-result.md'')),
    (''slide_num'', PyStr (lit ''17 / 24'')),
    (''layout'', PyStr (lit ''test-analysis''))]\<rparr>\<close>

definition lab22_items_18 :: pyval where [lab22_contents]:
  \<open>lab22_items_18 =
   PyList
   [PyDict
     [(''title'', PyStr (lit ''QUERY COUNTER PATTERN'')),
      (''items'', PyList
        [PyStr (lit ''type Store struct {''),
         PyStr (lit ''    mu         sync.Mutex''),
         PyStr (lit ''    queryCount int''),
         PyStr (lit ''}''),
         PyStr [],
         PyStr (lit ''func (s *Store) GetAllAuthors() []Author {''),
         PyStr (lit ''    s.mu.Lock()''),
         PyStr (lit ''    defer s.mu.Unlock()''),
         PyStr (lit ''    s.queryCount++''),
         PyStr (lit ''    return s.authors''),
         PyStr (lit ''}''),
         PyStr [],
         PyStr (lit ''func (s *Store) GetQueryCount() int {''),
         PyStr (lit ''    s.mu.Lock()''),
         PyStr (lit ''    defer s.mu.Unlock()''),
         PyStr (lit ''    return s.queryCount''),
         PyStr (lit ''}'')]),
      (''type'', PyStr (lit ''code''))]]\<close>

definition lab22_slide_18 :: pycall where [lab22_slides]:
  \<open>lab22_slide_18 =
   \<lparr>posargs = [],
  kwargs =
   [(''categories'', PyList
      [PyStr (lit ''ANALISIS''),
       PyStr (lit ''BUKTI'')]),
    (''title'', PyStr (lit ''Analisis Mendalam: Query Counter sebagai '' @ lit ''Test Double'')),
    (''subtitle'', PyStr (lit ''Store.go mensimulasikan database dengan '' @
        lit ''query counter untuk verifikasi kuantitatif.'')),
    (''content_items'', lab22_items_18),
    (''narrative'', PyStr (lit ''Query counter pattern pada Store.go '' @
        lit ''berfungsi sebagai test double yang '' @
        lit ''mensimulasikan database dengan kemampuan '' @
        lit ''pelacakan query. Setiap metode retrieval '' @
        lit ''meningkatkan queryCount setelah mengambil '' @
        lit ''lock. Method GetQueryCount memungkinkan '' @
        lit ''test mengakses jumlah query aktual tanpa '' @
        lit ''mengganggu state internal. Pola ini '' @
        lit ''memungkinkan verifikasi kuantitatif atas '' @
        lit ''optimasi query tanpa perlu instrumentasi '' @
        lit ''database sesungguhnya. Implementasi ini '' @
        lit ''juga thread-safe berkat penggunaan mutex.'')),
    (''narrative_en'', PyStr (lit ''The query counter pattern in Store.go '' @
        lit ''serves as a test double that simulates a '' @
        lit ''database with query tracking capability. '' @
        lit ''Each retrieval method increments queryCount '' @
        lit ''after acquiring the lock. The GetQueryCount '' @
        lit ''method allows tests to access the actual '' @
        lit ''query count without disturbing internal '' @
        lit ''state. This pattern enables quantitative '' @
        lit ''verification of query optimization without '' @
        lit ''needing real database instrumentation. The '' @
        lit ''implementation is also thread-safe thanks '' @ lit ''to mutex usage.'')),
    (''mental_model'', PyStr (lit ''Test double with query counter provides '' @
        lit ''measurable proof of optimization.'')),
    (''source_path'', PyStr (lit ''internal/blog/store.go:1-40'')),
    (''slide_num'', PyStr (lit ''18 / 24'')),
    (''layout'', PyStr (lit ''test-analysis''))]\<rparr>\<close>

definition lab22_items_19 :: pyval where [lab22_contents]:
  \<open>lab22_items_19 =
   PyList
   [PyDict
     [(''title'', PyStr (lit ''EQUALITY CHECK'')),
      (''items'', PyList
        [PyStr (lit ''if !reflect.DeepEqual(result, '' @ lit ''nPlusOneResult) {''),
         PyStr (lit ''    t.Errorf("eager result mismatch with '' @ lit ''N+1 result:'' @ [92] @
            lit ''nEager: %+v'' @ [92] @ lit ''nN+1: %+v", result, nPlusOneResult)''),
         PyStr (lit ''}'')]),
      (''type'', PyStr (lit ''code''))],
    PyDict
     [(''title'', PyStr (lit ''MAKNA ASSERTION'')),
      (''items'', PyList
        [PyStr (lit ''Structural equality: semua field Author dan '' @ lit ''Posts harus sama.''),
         PyStr (lit ''Order preservation: slice order harus '' @ lit ''identik.''),
         PyStr (lit ''Nil safety: empty slice vs nil slice '' @ lit ''dianggap berbeda.'')]),
      (''type'', PyStr (lit ''bullet''))]]\<close>

definition lab22_slide_19 :: pycall where [lab22_slides]:
  \<open>lab22_slide_19 =
   \<lparr>posargs = [],
  kwargs =
   [(''categories'', PyList
      [PyStr (lit ''ANALISIS''),
       PyStr (lit ''BUKTI'')]),
    (''title'', PyStr (lit ''Analisis Mendalam: Deep Equality Assurance'')),
    (''subtitle'', PyStr (lit ''Reflect.DeepEqual memastikan hasil eager '' @
        lit ''loading identik dengan N+1.'')),
    (''content_items'', lab22_items_19),
    (''narrative'', PyStr (lit ''Deep equality check menggunakan '' @
        lit ''reflect.DeepEqual memastikan bahwa hasil '' @
        lit ''eager loading secara struktural identik '' @
        lit ''dengan hasil N+1. Assertion ini '' @
        lit ''memverifikasi bahwa semua field pada struct '' @
        lit ''Author dan slice Posts memiliki nilai yang '' @
        lit ''sama. Order preservation juga dijamin '' @
        lit ''karena kedua pendekatan mengiterasi author '' @
        lit ''dalam urutan yang sama. Hal ini penting '' @
        lit ''untuk membuktikan bahwa optimasi hanya '' @
        lit ''mengubah mekanisme fetching, bukan mengubah '' @ lit ''semantik hasil.'')),
    (''narrative_en'', PyStr (lit ''Deep equality check using reflect.DeepEqual '' @
        lit ''ensures that the eager loading result is '' @
        lit ''structurally identical to the N+1 result. '' @
        lit ''This assertion verifies that all fields on '' @
        lit ''the Author struct and Posts slice have the '' @
        lit ''same values. Order preservation is also '' @
        lit ''guaranteed because both approaches iterate '' @
        lit ''authors in the same order. This is '' @
        lit ''important to prove that the optimization '' @
        lit ''only changes the fetching mechanism, not '' @ lit ''the result semantics.'')),
    (''mental_model'', PyStr (lit ''Deep equality = behavioral equivalence '' @
        lit ''between naive and optimized approaches.'')),
    (''source_path'', PyStr (lit ''internal/blog/repository_test.go:45-49'')),
    (''slide_num'', PyStr (lit ''19 / 24'')),
    (''layout'', PyStr (lit ''test-analysis''))]\<rparr>\<close>

definition lab22_items_20 :: pyval where [lab22_contents]:
  \<open>lab22_items_20 =
   PyList
   [PyDict
     [(''title'', PyStr (lit ''IMPLEMENTATION CHECKLIST'')),
      (''items'', PyList
        [PyStr (lit ''[ ] Profiling query count dilakukan sebelum '' @
            lit ''deploy ke production''),
         PyStr (lit ''[ ] Lazy loading dalam loop diaudit dan '' @
            lit ''diganti dengan batch/eager loading''),
         PyStr (lit ''[ ] Eager loading dilakukan per-query, '' @
            lit ''bukan per-mapping (hindari FetchType.EAGER '' @ lit ''global)''),
         PyStr (lit ''[ ] Cartesian explosion dicek untuk relasi '' @
            lit ''one-to-many/many-to-many''),
         PyStr (lit ''[ ] Column selection (SELECT col1, col2) '' @
            lit ''digunakan ketika full entity tidak '' @ lit ''dibutuhkan''),
         PyStr (lit ''[ ] Pagination diterapkan untuk hasil yang '' @ lit ''besar''),
         PyStr (lit ''[ ] Query count diuji otomatis '' @ lit ''(unit/integration test)''),
         PyStr (lit ''[ ] Strict loading mode dipertimbangkan '' @
            lit ''untuk ORM yang mendukungnya'')]),
      (''type'', PyStr (lit ''bullet''))]]\<close>

definition lab22_slide_20 :: pycall where [lab22_slides]:
  \<open>lab22_slide_20 =
   \<lparr>posargs = [],
  kwargs =
   [(''categories'', PyList
      [PyStr (lit ''CHECKLIST''),
       PyStr (lit ''IMPLEMENTASI'')]),
    (''title'', PyStr (lit ''Checklist Implementasi Eager Loading'')),
    (''subtitle'', PyStr (lit ''Daftar kontrol sebelum deploy ke production.'')),
    (''content_items'', lab22_items_20),
    (''narrative'', PyStr (lit ''Checklist implementasi eager loading ini '' @
        lit ''mencakup delapan poin kontrol penting '' @
        lit ''sebelum deployed ke production. Poin '' @
        lit ''pertama menekankan profiling query count '' @
        lit ''sebagai langkah preventif. Poin kedua '' @
        lit ''mengaudit lazy loading dalam loop. Poin '' @
        lit ''ketiga membedakan query-level eager loading '' @
        lit ''dari mapping-level eager loading yang dapat '' @
        lit ''menyebabkan memory bloat. Poin keempat '' @
        lit ''memperingatkan tentang cartesian explosion. '' @
        lit ''Poin kelima menyarankan column selection '' @
        lit ''ketika full entity tidak diperlukan.'')),
    (''narrative_en'', PyStr (lit ''This eager loading implementation checklist '' @
        lit ''covers eight important control points '' @
        lit ''before deploying to production. The first '' @
        lit ''point emphasizes query count profiling as a '' @
        lit ''preventive step. The second point audits '' @
        lit ''lazy loading in loops. The third point '' @
        lit ''distinguishes query-level eager loading '' @
        lit ''from mapping-level eager loading that can '' @
        lit ''cause memory bloat. The fourth point warns '' @
        lit ''about cartesian explosion. The fifth point '' @
        lit ''suggests column selection when full '' @ lit ''entities are not needed.'')),
    (''mental_model'', PyStr (lit ''Checklist ensures systematic adoption of '' @
        lit ''eager loading best practices.'')),
    (''source_path'', PyStr (lit ''labs/22-n-plus-one-query-problem/content/02-'' @ lit ''master-draft.md'')),
    (''slide_num'', PyStr (lit ''20 / 24'')),
    (''layout'', PyStr (lit ''checklist''))]\<rparr>\<close>

definition lab22_items_21 :: pyval where [lab22_contents]:
  \<open>lab22_items_21 =
   PyList
   [PyDict
     [(''title'', PyStr (lit ''ANTI-PATTERN CODE'')),
      (''items'', PyList
        [PyStr (lit ''@Entity''),
         PyStr (lit ''public class Author {''),
         PyStr (lit ''    @Id''),
         PyStr (lit ''    private Long id;''),
         PyStr [],
         PyStr (lit ''    @OneToMany(fetch = FetchType.EAGER)  // '' @ lit ''ANTI-PATTERN''),
         PyStr (lit ''    private List<Post> posts;''),
         PyStr (lit ''}'')]),
      (''type'', PyStr (lit ''code''))],
    PyDict
     [(''title'', PyStr (lit ''DAMPAK'')),
      (''items'', PyList
        [PyStr (lit ''Semua relasi dideklarasikan eager secara '' @ lit ''global.''),
         PyStr (lit ''Entitas tidak relevan ikut ter-load.''),
         PyStr (lit ''Memory bloat dan kemungkinan OOM pada '' @ lit ''dataset besar.''),
         PyStr (lit ''Berbeda dengan query-level eager loading '' @ lit ''yang selektif.'')]),
      (''type'', PyStr (lit ''bullet''))]]\<close>

definition lab22_slide_21 :: pycall where [lab22_slides]:
  \<open>lab22_slide_21 =
   \<lparr>posargs = [],
  kwargs =
   [(''categories'', PyList
      [PyStr (lit ''ANTI-PATTERN''),
       PyStr (lit ''REPRODUCIBILITY'')]),
    (''title'', PyStr (lit ''Anti-Pattern: Mapping-Level Eager Loading'')),
    (''subtitle'', PyStr (lit ''FetchType.EAGER global menyebabkan memory '' @
        lit ''bloat, berbeda dengan query-level batching.'')),
    (''content_items'', lab22_items_21),
    (''narrative'', PyStr (lit ''Mapping-level eager loading seperti '' @
        lit ''FetchType.EAGER pada JPA adalah '' @
        lit ''anti-pattern yang sering disalahpahami '' @
        lit ''sebagai solusi N+1. Meskipun memang '' @
        lit ''mengurangi jumlah query, pendekatan ini '' @
        lit ''memuat semua relasi yang dideklarasikan '' @
        lit ''secara global tanpa seleksi. Akibatnya, '' @
        lit ''entitas yang tidak relevan juga ikut '' @
        lit ''ter-load ke memori, menyebabkan memory '' @
        lit ''bloat dan potensi out-of-memory error pada '' @
        lit ''dataset besar. Lab ini mendemonstrasikan '' @
        lit ''query-level eager loading yang selektif dan '' @
        lit ''dapat dikontrol per-request.'')),
    (''narrative_en'', PyStr (lit ''Mapping-level eager loading such as '' @
        lit ''FetchType.EAGER in JPA is an anti-pattern '' @
        lit ''often misunderstood as an N+1 solution. '' @
        lit ''Although it does reduce query count, this '' @
        lit ''approach loads all declared relationships '' @
        lit ''globally without selection. As a result, '' @
        lit ''irrelevant entities are also loaded into '' @
        lit ''memory, causing memory bloat and potential '' @
        lit ''out-of-memory errors on large datasets. '' @
        lit ''This lab demonstrates query-level eager '' @
        lit ''loading which is selective and controllable '' @ lit ''per-request.'')),
    (''mental_model'', PyStr (lit ''Global eager fetching causes memory bloat; '' @
        lit ''prefer query-level selective batching.'')),
    (''source_path'', PyStr (lit ''labs/22-n-plus-one-query-problem/content/02-'' @ lit ''master-draft.md'')),
    (''slide_num'', PyStr (lit ''21 / 24'')),
    (''layout'', PyStr (lit ''anti-pattern''))]\<rparr>\<close>

definition lab22_items_22 :: pyval where [lab22_contents]:
  \<open>lab22_items_22 =
   PyList
   [PyDict
     [(''title'', PyStr (lit ''COMMAND BLOCK'')),
      (''items'', PyList
        [PyStr (lit ''# Jalankan demo N+1 vs Eager Loading''),
         PyStr (lit ''go run ./cmd/demo''),
         PyStr [],
         PyStr (lit ''# Jalankan test dengan query counter''),
         PyStr (lit ''go test -v ./internal/blog''),
         PyStr [],
         PyStr (lit ''# Race detection''),
         PyStr (lit ''go test -race ./...''),
         PyStr [],
         PyStr (lit ''# Profile query count''),
         PyStr (lit ''go test -count=10 ./internal/blog'')]),
      (''type'', PyStr (lit ''terminal''))]]\<close>

definition lab22_slide_22 :: pycall where [lab22_slides]:
  \<open>lab22_slide_22 =
   \<lparr>posargs = [],
  kwargs =
   [(''categories'', PyList
      [PyStr (lit ''TAKEAWAY''),
       PyStr (lit ''COMMAND'')]),
    (''title'', PyStr (lit ''Takeaway Praktis: Cara Mencegah N+1'')),
    (''subtitle'', PyStr (lit ''Command block untuk menjalankan demo dan '' @ lit ''test validasi.'')),
    (''content_items'', lab22_items_22),
    (''narrative'', PyStr (lit ''Takeaway praktis untuk mencegah N+1 query '' @
        lit ''problem adalah menerapkan profiling query '' @
        lit ''count sebagai bagian dari workflow '' @
        lit ''development. Command demo menunjukkan '' @
        lit ''perbandingan kuantitatif antara pendekatan '' @
        lit ''naive dan eager loading. Command test '' @
        lit ''dengan flag verbose menampilkan detail '' @
        lit ''eksekusi setiap test case. Race detection '' @
        lit ''memastikan thread-safety, sedangkan '' @
        lit ''repeated test counting membantu '' @
        lit ''mengidentifikasi flaky test. Integrasi '' @
        lit ''query counter ke dalam CI/CD pipeline akan '' @
        lit ''mencegah regressi N+1 secara otomatis.'')),
    (''narrative_en'', PyStr (lit ''The practical takeaway for preventing N+1 '' @
        lit ''query problem is implementing query count '' @
        lit ''profiling as part of the development '' @
        lit ''workflow. The demo command shows '' @
        lit ''quantitative comparison between naive and '' @
        lit ''eager loading approaches. The test command '' @
        lit ''with verbose flag displays detailed '' @
        lit ''execution of each test case. Race detection '' @
        lit ''ensures thread-safety, while repeated test '' @
        lit ''counting helps identify flaky tests. '' @
        lit ''Integrating query counters into CI/CD '' @
        lit ''pipelines will automatically prevent N+1 '' @ lit ''regressions.'')),
    (''mental_model'', PyStr (lit ''Profile '' @ [0x2192] @ lit '' Verify '' @ [0x2192] @
        lit '' Integrate: make query counting part of '' @ lit ''your CI.'')),
    (''source_path'', PyStr (lit ''cmd/demo/main.go '' @ [0x2022] @ lit '' internal/blog/repository_test.go'')),
    (''slide_num'', PyStr (lit ''22 / 24'')),
    (''layout'', PyStr (lit ''command-block''))]\<rparr>\<close>

definition lab22_items_23 :: pyval where [lab22_contents]:
  \<open>lab22_items_23 =
   PyList
   [PyDict
     [(''title'', PyStr (lit ''PRINSIP UTAMA'')),
      (''items'', PyList
        [PyStr (lit ''Minimize database round-trips: batching > '' @ lit ''sequential queries.''),
         PyStr (lit ''Measure before optimizing: query counter '' @
            lit ''provides concrete evidence.''),
         PyStr (lit ''Trade memory for latency: accept higher '' @
            lit ''memory usage for lower query count.''),
         PyStr (lit ''Prefer query-level over mapping-level: '' @
            lit ''selective vs global eager loading.''),
         PyStr (lit ''Integrate into CI: automated query count '' @
            lit ''tests prevent regressions.'')]),
      (''type'', PyStr (lit ''bullet''))]]\<close>

definition lab22_slide_23 :: pycall where [lab22_slides]:
  \<open>lab22_slide_23 =
   \<lparr>posargs = [],
  kwargs =
   [(''categories'', PyList
      [PyStr (lit ''PRINSIP''),
       PyStr (lit ''ARSITEKTUR'')]),
    (''title'', PyStr (lit ''Prinsip Arsitektural Jangka Panjang'')),
    (''subtitle'', PyStr (lit ''Eager loading batching sebagai pola '' @
        lit ''fundamental dalam data access layer.'')),
    (''content_items'', lab22_items_23),
    (''narrative'', PyStr (lit ''Prinsip arsitektural jangka panjang untuk '' @
        lit ''mengatasi N+1 query problem adalah '' @
        lit ''mengadopsi batching sebagai pola '' @
        lit ''fundamental dalam data access layer. '' @
        lit ''Minimalisasi database round-trip melalui '' @
        lit ''batching memberikan dampak performa yang '' @
        lit ''lebih besar dibandingkan optimasi query '' @
        lit ''individual. Pengukuran sebelum optimasi '' @
        lit ''menggunakan query counter memberikan bukti '' @
        lit ''kuantitatif yang dapat dipercaya. '' @
        lit ''Pertukaran memory untuk latency adalah '' @
        lit ''trade-off yang umumnya menguntungkan dalam '' @ lit ''sistem web modern.'')),
    (''narrative_en'', PyStr (lit ''The long-term architectural principle for '' @
        lit ''overcoming N+1 query problem is adopting '' @
        lit ''batching as a fundamental pattern in the '' @
        lit ''data access layer. Minimizing database '' @
        lit ''round-trips through batching provides '' @
        lit ''greater performance impact than optimizing '' @
        lit ''individual queries. Measurement before '' @
        lit ''optimization using query counters provides '' @
        lit ''credible quantitative evidence. Trading '' @
        lit ''memory for latency is a trade-off that is '' @
        lit ''generally beneficial in modern web systems.'')),
    (''mental_model'', PyStr (lit ''Batching is fundamental; measure, trade '' @
        lit ''memory for latency, integrate into CI.'')),
    (''source_path'', PyStr (lit ''labs/22-n-plus-one-query-problem/content/05-'' @ lit ''key-takeaways.md'')),
    (''slide_num'', PyStr (lit ''23 / 24'')),
    (''layout'', PyStr (lit ''principles''))]\<rparr>\<close>

definition lab22_items_24 :: pyval where [lab22_contents]:
  \<open>lab22_items_24 =
   PyList
   [PyDict
     [(''title'', PyStr (lit ''CLOSING INFO'')),
      (''items'', PyList
        [PyStr (lit ''Repo: '' @ lab22_REPO_URL),
         PyStr (lit ''Commit: '' @ lab22_COMMIT_SHA),
         PyStr (lit ''Author: '' @ lab22_AUTHOR),
         PyStr [],
         PyStr (lit ''Lab seri Software Engineering Lab''),
         PyStr (lit ''Oleh: Lukman / lukman-ss'')]),
      (''type'', PyStr (lit ''bullet''))]]\<close>

definition lab22_slide_24 :: pycall where [lab22_slides]:
  \<open>lab22_slide_24 =
   \<lparr>posargs = [],
  kwargs =
   [(''categories'', PyList
      [PyStr (lit ''CLOSING'')]),
    (''title'', PyStr (lit ''Terima Kasih'')),
    (''subtitle'', PyStr (lit ''Lab 22: N+1 Query Problem '' @ [0x2014] @ lit '' From lukman-ss'')),
    (''content_items'', lab22_items_24),
    (''narrative'', PyStr (lit ''Demikian presentasi 24 slide tentang N+1 '' @
        lit ''Query Problem dan solusi eager loading '' @
        lit ''batching. Lab ini membuktikan secara '' @
        lit ''kuantitatif bahwa pendekatan naive '' @
        lit ''menghasilkan query count linear, sedangkan '' @
        lit ''eager loading mengurangi menjadi konstan. '' @
        lit ''Implementasi menggunakan mock store dengan '' @
        lit ''query counter dan race detector memastikan '' @
        lit ''correctness dan thread-safety. Gunakan '' @
        lit ''prinsip profiling-first dan integrasi test '' @
        lit ''otomatis untuk mencegah regressi di '' @ lit ''produksi.'')),
    (''narrative_en'', PyStr (lit ''That concludes the 24-slide presentation on '' @
        lit ''N+1 Query Problem and eager loading '' @
        lit ''batching solution. This lab proves '' @
        lit ''quantitatively that the naive approach '' @
        lit ''generates linear query count, while eager '' @
        lit ''loading reduces it to constant. The '' @
        lit ''implementation uses mock store with query '' @
        lit ''counter and race detector to ensure '' @
        lit ''correctness and thread-safety. Use '' @
        lit ''profiling-first principles and automated '' @
        lit ''test integration to prevent regressions in '' @ lit ''production.'')),
    (''mental_model'', PyStr (lit ''N+1 solved through measurement, batching, '' @
        lit ''and automated verification.'')),
    (''source_path'', PyStr lab22_REPO_URL),
    (''slide_num'', PyStr (lit ''24 / 24'')),
    (''layout'', PyStr (lit ''closing''))]\<rparr>\<close>

definition lab22_calls :: "pycall list" where
  "lab22_calls =
    [lab22_slide_01, lab22_slide_02, lab22_slide_03, lab22_slide_04, lab22_slide_05,
     lab22_slide_06, lab22_slide_07, lab22_slide_08, lab22_slide_09, lab22_slide_10,
     lab22_slide_11, lab22_slide_12, lab22_slide_13, lab22_slide_14, lab22_slide_15,
     lab22_slide_16, lab22_slide_17, lab22_slide_18, lab22_slide_19, lab22_slide_20,
     lab22_slide_21, lab22_slide_22, lab22_slide_23, lab22_slide_24]"

definition lab22_deck :: deck where
  "lab22_deck =
    \<lparr>add_slide = lab22_add_slide, lab_no = lab22_LAB_NO, title_id = lab22_TITLE_ID, calls = lab22_calls\<rparr>"

section \<open>Checks of the calls\<close>

lemma lab22_shapes:
  "\<forall>c \<in> set lab22_calls. shape_of c \<in> set
    [(0, [''categories'', ''title'', ''subtitle'', ''content_items'', ''mental_model'',
      ''source_path'', ''slide_num'', ''narrative'', ''narrative_en'', ''layout'']),
     (0, [''categories'', ''title'', ''subtitle'', ''content_items'', ''narrative'',
      ''narrative_en'', ''mental_model'', ''source_path'', ''slide_num'', ''layout''])]"
  by (simp only: lab22_calls_def lab22_slides shape_eval cong: pyval_opaque)

lemma lab22_calls_ok: "\<forall>c \<in> set lab22_calls. call_ok sig_layout c"
  by (rule calls_ok_by_shapes [OF lab22_shapes])
    (simp add: shape_ok_def param_names_def signature_defs core_params_def)

lemma lab22_labels: "map (\<lambda>c. value_of sig_layout c ''slide_num'') lab22_calls = labels_24"
  by (simp only: lab22_calls_def lab22_slides keyword_eval labels_24_eval cong: pyval_opaque)

lemma lab22_contents_of:
  "map (\<lambda>c. value_of sig_layout c ''content_items'') lab22_calls =
    [lab22_items_01, lab22_items_02, lab22_items_03, lab22_items_04, lab22_items_05,
     lab22_items_06, lab22_items_07, lab22_items_08, lab22_items_09, lab22_items_10,
     lab22_items_11, lab22_items_12, lab22_items_13, lab22_items_14, lab22_items_15,
     lab22_items_16, lab22_items_17, lab22_items_18, lab22_items_19, lab22_items_20,
     lab22_items_21, lab22_items_22, lab22_items_23, lab22_items_24]"
  by (simp only: lab22_calls_def lab22_slides keyword_eval cong: pyval_opaque)

lemma lab22_items: "item_defects sig_layout lab22_calls = []"
  by (simp only: item_defects_def lab22_contents_of)
    (simp add: lab22_contents item_eval cong: pystr_opaque)

end
