(* ===== verification/Deck23.thy ===== *)
theory Deck23
  imports DeckContract
begin

text \<open>
  The publication definition of lab 23, \<^verbatim>\<open>labs/23-optimistic-vs-pessimistic-locking/result/content_def.py\<close>:
  its module constants, every \<open>add_slide\<close> call in order (\<open>lab23_slide_01\<close> is the first),
  and the module as a whole (\<open>lab23_deck\<close>). Long strings are split into pieces that are
  concatenated; a character outside ASCII is its code point.
\<close>

named_theorems lab23_slides \<open>the add_slide calls of lab 23\<close>
named_theorems lab23_contents \<open>their content_items arguments\<close>

definition lab23_OUTPUT_DIR :: pystr where
  \<open>lab23_OUTPUT_DIR = lit ''labs/23-optimistic-vs-pessimistic-locking/re'' @ lit ''sult''\<close>

definition lab23_CHROME_BIN :: pystr where
  \<open>lab23_CHROME_BIN = lit ''/Applications/Google '' @ lit ''Chrome.app/Contents/MacOS/Google Chrome''\<close>

definition lab23_REPO_URL :: pystr where
  \<open>lab23_REPO_URL = lit ''https://github.com/lukman-ss/software-engine'' @
    lit ''ering-lab/tree/main/labs/23-optimistic-vs-pe'' @ lit ''ssimistic-locking''\<close>

definition lab23_COMMIT_SHA :: pystr where
  \<open>lab23_COMMIT_SHA = lit ''aad5d78''\<close>

definition lab23_LAB_NO :: pystr where
  \<open>lab23_LAB_NO = lit ''23''\<close>

definition lab23_SLUG :: pystr where
  \<open>lab23_SLUG = lit ''optimistic-vs-pessimistic-locking''\<close>

definition lab23_TITLE_ID :: pystr where
  \<open>lab23_TITLE_ID = lit ''Optimistic vs Pessimistic Locking & Atomic '' @ lit ''Updates''\<close>

definition lab23_SUBTITLE_ID :: pystr where
  \<open>lab23_SUBTITLE_ID = lit ''Mekanisme Pencegahan Lost Update, Version '' @
    lit ''Guard, dan Operasi Atomik di Go''\<close>

definition lab23_TITLE_EN :: pystr where
  \<open>lab23_TITLE_EN = lit ''Optimistic vs Pessimistic Locking & Atomic '' @ lit ''Updates''\<close>

definition lab23_SUBTITLE_EN :: pystr where
  \<open>lab23_SUBTITLE_EN = lit ''Lost Update Anomaly Mitigation, Version '' @
    lit ''Guards, and Statement Atomicity in Go''\<close>

definition lab23_AUTHOR :: pystr where
  \<open>lab23_AUTHOR = lit ''Lukman / lukman-ss''\<close>

definition lab23_TOPIC_TAGS :: pystr where
  \<open>lab23_TOPIC_TAGS = lit ''Concurrency '' @ [0x2022] @ lit '' Database Locks '' @ [0x2022] @
    lit '' Lost Update '' @ [0x2022] @ lit '' Optimistic Locking '' @ [0x2022] @
    lit '' Row Locks '' @ [0x2022] @ lit '' Go''\<close>

definition lab23_COVER_IMAGE_PATH :: pystr where
  \<open>lab23_COVER_IMAGE_PATH = lit ''labs/23-optimistic-vs-pessimistic-locking/re'' @
    lit ''sult/image-cover/cover_art.jpg''\<close>

definition lab23_add_slide :: "pycall \<Rightarrow> pyval list \<Rightarrow> (pyexc, pyval list) res" where
  "lab23_add_slide = add_slide_layout_en"

definition lab23_items_01 :: pyval where [lab23_contents]:
  \<open>lab23_items_01 =
   PyList
   [PyDict
     [(''type'', PyStr (lit ''cover'')),
      (''title'', PyStr []),
      (''items'', PyList
        [PyStr (lit ''Retro Terminal Visualizing Lost Update '' @
            lit ''Anomaly, Row Locks, and Version Guards''),
         PyStr (lit ''Simulasi Konkurensi Mutasi Stok Inventaris '' @
            lit ''dengan Goroutines dan Mutex di Go''),
         PyStr (lit ''Penulis: '' @ lab23_AUTHOR)])]]\<close>

definition lab23_slide_01 :: pycall where [lab23_slides]:
  \<open>lab23_slide_01 =
   \<lparr>posargs = [],
  kwargs =
   [(''categories'', PyList
      [PyStr (lit ''COVER'')]),
    (''title'', PyStr lab23_TITLE_ID),
    (''subtitle'', PyStr lab23_SUBTITLE_ID),
    (''content_items'', lab23_items_01),
    (''mental_model'', PyStr (lit ''Lost updates are silent data corruptions '' @
        lit ''eliminated through blocking locks, '' @
        lit ''pre-commit version checks, or statement '' @ lit ''atomicity.'')),
    (''source_path'', PyStr []),
    (''slide_num'', PyStr (lit ''01 / 24'')),
    (''layout'', PyStr (lit ''cover''))]\<rparr>\<close>

definition lab23_items_02 :: pyval where [lab23_contents]:
  \<open>lab23_items_02 =
   PyList
   [PyDict
     [(''type'', PyStr (lit ''cards'')),
      (''title'', PyStr (lit ''DAMPAK LOST UPDATE PADA SISTEM PRODUKSI'')),
      (''items'', PyList
        [PyDict
          [(''title'', PyStr (lit ''Penulisan Siluman'')),
           (''desc'', PyStr (lit ''Transaksi kedua menimpa mutasi transaksi '' @
               lit ''pertama tanpa membangkitkan galat atau '' @
               lit ''exception pada aplikasi.''))],
         PyDict
          [(''title'', PyStr (lit ''Invarian Bisnis Hancur'')),
           (''desc'', PyStr (lit ''Saldo dompet atau stok barang menyimpang '' @
               lit ''dari rumus matematis: stock != initial - '' @ lit ''total_deductions.''))],
         PyDict
          [(''title'', PyStr (lit ''Bukan Berarti Aman'')),
           (''desc'', PyStr (lit ''Membungkus query dengan blok transaksi SQL '' @
               lit ''biasa bukan berarti kebal terhadap tabrakan '' @
               lit ''read-modify-write.''))]])]]\<close>

definition lab23_slide_02 :: pycall where [lab23_slides]:
  \<open>lab23_slide_02 =
   \<lparr>posargs = [],
  kwargs =
   [(''categories'', PyList
      [PyStr (lit ''PROBLEM''),
       PyStr (lit ''CONCURRENCY FAILURE'')]),
    (''title'', PyStr (lit ''Anomali Lost Update: Korupsi Data Tanpa '' @ lit ''Sinyal Error'')),
    (''subtitle'', PyStr (lit ''Dua transaksi membaca snapshot identik, '' @
        lit ''menghitung mandiri, lalu saling menimpa '' @ lit ''data.'')),
    (''content_items'', lab23_items_02),
    (''narrative'', PyStr (lit ''Ketika dua request bersamaan membaca stok '' @
        lit ''bernilai 100 lalu menguranginya sebesar 1 '' @
        lit ''unit, keduanya menuliskan angka 99. '' @
        lit ''Pembaruan pertama hilang tanpa jejak dan '' @
        lit ''tanpa menghasilkan pesan error apapun di '' @
        lit ''database. Membungkus query ke dalam '' @
        lit ''transaksi SQL bukan berarti data otomatis '' @ lit ''aman dari korupsi ini.'')),
    (''narrative_en'', PyStr (lit ''When two concurrent requests read an '' @
        lit ''inventory stock of 100 and decrement by 1, '' @
        lit ''both independently compute and persist 99. '' @
        lit ''The initial decrement is silently '' @
        lit ''overwritten without surfacing any database '' @
        lit ''error. Encapsulating operations in basic '' @
        lit ''SQL transactions does not automatically '' @
        lit ''guarantee safety against this corruption.'')),
    (''mental_model'', PyStr (lit ''Independent read-modify-write cycles over '' @
        lit ''shared state silently obliterate '' @
        lit ''intermediate committed modifications.'')),
    (''source_path'', PyStr (lit ''content/02-master-draft.md:3-21'')),
    (''slide_num'', PyStr (lit ''02 / 24'')),
    (''layout'', PyStr (lit ''cards''))]\<rparr>\<close>

definition lab23_items_03 :: pyval where [lab23_contents]:
  \<open>lab23_items_03 =
   PyList
   [PyDict
     [(''type'', PyStr (lit ''cards'')),
      (''title'', PyStr (lit ''KELEMAHAN ISOLASI STANDAR PADA '' @ lit ''READ-MODIFY-WRITE'')),
      (''items'', PyList
        [PyDict
          [(''title'', PyStr (lit ''READ COMMITTED Default'')),
           (''desc'', PyStr (lit ''PostgreSQL dan Oracle memakai READ '' @
               lit ''COMMITTED; setiap query membaca snapshot '' @
               lit ''committed terbaru.''))],
         PyDict
          [(''title'', PyStr (lit ''Celah Pemisahan Query'')),
           (''desc'', PyStr (lit ''Jeda waktu antara SELECT dan UPDATE memberi '' @
               lit ''ruang bagi transaksi lain menyisipkan '' @ lit ''commit baru.''))],
         PyDict
          [(''title'', PyStr (lit ''Tidak Otomatis Aman'')),
           (''desc'', PyStr (lit ''Isolasi database tidak otomatis memvalidasi '' @
               lit ''apakah baris yang di-update telah berubah '' @ lit ''sejak dibaca.''))]])]]\<close>

definition lab23_slide_03 :: pycall where [lab23_slides]:
  \<open>lab23_slide_03 =
   \<lparr>posargs = [],
  kwargs =
   [(''categories'', PyList
      [PyStr (lit ''WHY FAILS''),
       PyStr (lit ''CONCURRENCY ANOMALY'')]),
    (''title'', PyStr (lit ''Mengapa Isolasi Default Database Gagal '' @ lit ''Mencegah Lost Update'')),
    (''subtitle'', PyStr (lit ''Tingkat isolasi standar READ COMMITTED '' @
        lit ''membiarkan pembaruan data saling menimpa.'')),
    (''content_items'', lab23_items_03),
    (''narrative'', PyStr (lit ''Review kode manual kerap terkecoh karena '' @
        lit ''mengira blok transaksi ACID sudah cukup '' @
        lit ''melindungi integritas mutasi. Tingkat '' @
        lit ''isolasi READ COMMITTED tidak otomatis '' @
        lit ''mencegah lost update pada alur '' @
        lit ''read-modify-write terpisah, karena setiap '' @
        lit ''query membaca snapshot committed terbaru '' @
        lit ''tanpa memblokir writer lain.'')),
    (''narrative_en'', PyStr (lit ''Manual code reviews often falsely assume '' @
        lit ''ACID transactions inherently prevent write '' @
        lit ''collisions. The default READ COMMITTED '' @
        lit ''isolation level does not automatically '' @
        lit ''prevent lost updates across decoupled '' @
        lit ''read-modify-write steps, as each statement '' @
        lit ''re-evaluates snapshots without locking '' @ lit ''competing writers.'')),
    (''mental_model'', PyStr (lit ''Default isolation levels isolate individual '' @
        lit ''queries, not multi-statement application '' @ lit ''calculation lifecycles.'')),
    (''source_path'', PyStr (lit ''content/02-master-draft.md:9-21'')),
    (''slide_num'', PyStr (lit ''03 / 24'')),
    (''layout'', PyStr (lit ''cards''))]\<rparr>\<close>

definition lab23_items_04 :: pyval where [lab23_contents]:
  \<open>lab23_items_04 =
   PyList
   [PyDict
     [(''type'', PyStr (lit ''schema'')),
      (''title'', PyStr (lit ''SEKUENSI EKSEKUSI LOST UPDATE ANOMALY'')),
      (''items'', PyList
        [PyDict
          [(''phase'', PyStr (lit ''1. Baca Serentak'')),
           (''role'', PyStr (lit ''Snapshot T1 & T2'')),
           (''desc'', PyStr (lit ''T1 dan T2 membaca stok awal 100 secara '' @
               lit ''bersamaan sebelum ada komit baru.''))],
         PyDict
          [(''phase'', PyStr (lit ''2. Kalkulasi Terpisah'')),
           (''role'', PyStr (lit ''State di Memori'')),
           (''desc'', PyStr (lit ''T1 menghitung 100 - 1 = 99; T2 juga '' @
               lit ''menghitung 100 - 1 = 99 di memori terpisah.''))],
         PyDict
          [(''phase'', PyStr (lit ''3. Komit T1'')),
           (''role'', PyStr (lit ''Write Database'')),
           (''desc'', PyStr (lit ''T1 menyimpan stok = 99 ke database; state '' @
               lit ''berubah tanpa diketahui proses T2.''))],
         PyDict
          [(''phase'', PyStr (lit ''4. Komit T2'')),
           (''role'', PyStr (lit ''Silent Overwrite'')),
           (''desc'', PyStr (lit ''Hanya pada jalur ini T2 menimpa data '' @
               lit ''menjadi 99, melenyapkan hasil mutasi T1.''))]])]]\<close>

definition lab23_slide_04 :: pycall where [lab23_slides]:
  \<open>lab23_slide_04 =
   \<lparr>posargs = [],
  kwargs =
   [(''categories'', PyList
      [PyStr (lit ''MENTAL MODEL''),
       PyStr (lit ''RACE ANATOMY'')]),
    (''title'', PyStr (lit ''Anatomi Tabrakan Waktu: Dua Transaksi '' @ lit ''Berebut Stok'')),
    (''subtitle'', PyStr (lit ''Kronologi urutan eksekusi yang melenyapkan '' @
        lit ''mutasi pertama di penyimpanan.'')),
    (''content_items'', lab23_items_04),
    (''narrative'', PyStr (lit ''Kronologi ini memperlihatkan celah fatal '' @
        lit ''ketika dua proses membaca angka awal yang '' @
        lit ''sama lalu melakukan kalkulasi di memori '' @
        lit ''aplikasi. Transaksi kedua menimpa pembaruan '' @
        lit ''transaksi pertama tanpa menyadari versinya '' @
        lit ''sudah usang. Hanya pada jalur ini mutasi '' @
        lit ''ganda tereduksi menjadi pengurangan tunggal.'')),
    (''narrative_en'', PyStr (lit ''This chronological trace illustrates the '' @
        lit ''fatal window opened when dual threads read '' @
        lit ''identical base snapshots and compute '' @
        lit ''off-database. The secondary transaction '' @
        lit ''overwrites the prior commit without '' @
        lit ''detecting its stale view. Only along this '' @
        lit ''path does a double decrement degenerate '' @
        lit ''into a single lossy write.'')),
    (''mental_model'', PyStr (lit ''Unsynchronized read-then-write pipelines '' @
        lit ''collapse concurrent increments into stale, '' @ lit ''overwritten states.'')),
    (''source_path'', PyStr (lit ''content/04-diagrams.md:3-15'')),
    (''slide_num'', PyStr (lit ''04 / 24'')),
    (''layout'', PyStr (lit ''schema''))]\<rparr>\<close>

definition lab23_items_05 :: pyval where [lab23_contents]:
  \<open>lab23_items_05 =
   PyList
   [PyDict
     [(''type'', PyStr (lit ''schema'')),
      (''title'', PyStr (lit ''PERBANDINGAN ALUR KERJA PENANGANAN '' @ lit ''KONKURENSI'')),
      (''items'', PyList
        [PyDict
          [(''phase'', PyStr (lit ''1. Pessimistic Lock'')),
           (''role'', PyStr (lit ''SELECT FOR UPDATE'')),
           (''desc'', PyStr (lit ''Kunci baris saat dibaca; transaksi konkuren '' @
               lit ''antre di lock hingga commit selesai.''))],
         PyDict
          [(''phase'', PyStr (lit ''2. Optimistic Guard'')),
           (''role'', PyStr (lit ''Version Column'')),
           (''desc'', PyStr (lit ''Baca tanpa lock; saat update cek version = '' @
               lit ''V. Gagal jika affected_rows == 0.''))],
         PyDict
          [(''phase'', PyStr (lit ''3. Atomic Update'')),
           (''role'', PyStr (lit ''Single Statement'')),
           (''desc'', PyStr (lit ''Pangkas read-modify-write: UPDATE ... SET '' @
               lit ''stock=stock-qty WHERE stock>=qty.''))],
         PyDict
          [(''phase'', PyStr (lit ''4. Evaluasi Lab'')),
           (''role'', PyStr (lit ''Simulasi In-Memory'')),
           (''desc'', PyStr (lit ''Lab membuktikan logika ketiganya; belum '' @
               lit ''membuktikan engine lock manager MySQL riil.''))]])]]\<close>

definition lab23_slide_05 :: pycall where [lab23_slides]:
  \<open>lab23_slide_05 =
   \<lparr>posargs = [],
  kwargs =
   [(''categories'', PyList
      [PyStr (lit ''PIPELINE''),
       PyStr (lit ''CONCURRENCY FLOW'')]),
    (''title'', PyStr (lit ''Tiga Taksonomi Strategi Pengendalian '' @ lit ''Konkurensi'')),
    (''subtitle'', PyStr (lit ''Membandingkan alur kerja Pessimistic '' @
        lit ''Locking, Optimistic Locking, dan Atomic '' @ lit ''Statement.'')),
    (''content_items'', lab23_items_05),
    (''narrative'', PyStr (lit ''Arsitektur modern menawarkan tiga strategi '' @
        lit ''untuk menangkal lost update: memblokir '' @
        lit ''baris dengan pessimistic lock, mendeteksi '' @
        lit ''konflik pada commit dengan optimistic '' @
        lit ''guard, atau memadatkan mutasi ke satu query '' @
        lit ''atomik. Pengujian lab membuktikan validitas '' @
        lit ''ketiga logika, tetapi belum membuktikan '' @
        lit ''engine lock table PostgreSQL/MySQL '' @ lit ''berkapasitas jutaan baris.'')),
    (''narrative_en'', PyStr (lit ''Modern database architecture presents three '' @
        lit ''distinct paradigms: serialized blocking via '' @
        lit ''pessimistic locks, commit-time detection '' @
        lit ''via optimistic version guards, and '' @
        lit ''collapsed single-statement atomic '' @
        lit ''operations. Our lab validates these control '' @
        lit ''structures, but has not yet proven '' @
        lit ''multi-million row physical lock tables on '' @
        lit ''production RDBMS engines.'')),
    (''mental_model'', PyStr (lit ''Select concurrency boundaries: block access '' @
        lit ''proactively, validate versions defensively, '' @
        lit ''or execute mutations atomically.'')),
    (''source_path'', PyStr (lit ''content/02-master-draft.md:34-85'')),
    (''slide_num'', PyStr (lit ''05 / 24'')),
    (''layout'', PyStr (lit ''schema''))]\<rparr>\<close>

definition lab23_items_06 :: pyval where [lab23_contents]:
  \<open>lab23_items_06 =
   PyList
   [PyDict
     [(''type'', PyStr (lit ''code'')),
      (''title'', PyStr (lit ''internal/inventory/store.go'')),
      (''items'', PyList
        [PyStr (lit ''func (s *Store) NaiveDeduct(id int, qty '' @ lit ''int) error {''),
         PyStr (lit ''    p, err := s.Get(id) // 1. Read snapshot '' @ lit ''tanpa lock''),
         PyStr (lit ''    if err != nil { return err }''),
         PyStr (lit ''    if p.Stock < qty { return '' @ lit ''ErrInsufficientStock }''),
         PyStr (lit ''    time.Sleep(100 * time.Microsecond) // '' @
            lit ''perlebar celah balapan''),
         PyStr (lit ''    s.mu.Lock()''),
         PyStr (lit ''    curr := s.products[id]''),
         PyStr (lit ''    curr.Stock = p.Stock - qty // 2. Tulis '' @
            lit ''memakai snapshot usang''),
         PyStr (lit ''    s.mu.Unlock()''),
         PyStr (lit ''    atomic.AddInt64(&s.NaivelyDrawn, '' @ lit ''int64(qty))''),
         PyStr (lit ''    return nil''),
         PyStr (lit ''}'')])]]\<close>

definition lab23_slide_06 :: pycall where [lab23_slides]:
  \<open>lab23_slide_06 =
   \<lparr>posargs = [],
  kwargs =
   [(''categories'', PyList
      [PyStr (lit ''IMPLEMENTATION''),
       PyStr (lit ''NAIVE MUTATION'')]),
    (''title'', PyStr (lit ''Pola Naif Read-Modify-Write yang Membuka '' @ lit ''Celah Tabrakan'')),
    (''subtitle'', PyStr (lit ''Pemisahan fase baca dan tulis memicu '' @
        lit ''anomali penulisan yang hilang di Go.'')),
    (''content_items'', lab23_items_06),
    (''narrative'', PyStr (lit ''Fungsi NaiveDeduct membaca stok tanpa '' @
        lit ''mengunci baris, lalu melakukan kalkulasi '' @
        lit ''sebelum menulis kembali. Menyisipkan jeda '' @
        lit ''microsecond bukan berarti membuat sistem '' @
        lit ''sengaja cacat, melainkan merefleksikan '' @
        lit ''latensi I/O aplikasi yang nyata di '' @
        lit ''lingkungan produksi berbeban tinggi.'')),
    (''narrative_en'', PyStr (lit ''NaiveDeduct snapshots row stock outside an '' @
        lit ''exclusive lock, calculates the reduction, '' @
        lit ''and writes back later. Injecting a '' @
        lit ''microsecond sleep does not artificially '' @
        lit ''break valid code; it accurately mirrors '' @
        lit ''realistic application compute delays and '' @
        lit ''I/O latency across distributed networks.'')),
    (''mental_model'', PyStr (lit ''Separating state inspection from state '' @
        lit ''mutation without synchronization invites '' @ lit ''concurrency collision.'')),
    (''source_path'', PyStr (lit ''internal/inventory/store.go:65-89'')),
    (''slide_num'', PyStr (lit ''06 / 24'')),
    (''layout'', PyStr (lit ''code''))]\<rparr>\<close>

definition lab23_items_07 :: pyval where [lab23_contents]:
  \<open>lab23_items_07 =
   PyList
   [PyDict
     [(''type'', PyStr (lit ''cards'')),
      (''title'', PyStr (lit ''ALUR PENURUNAN INTEGRITAS INVENTARIS'')),
      (''items'', PyList
        [PyDict
          [(''title'', PyStr (lit ''Fase 1: Ledakan Akses'')),
           (''desc'', PyStr (lit ''50 goroutine membaca stok awal 100 secara '' @
               lit ''paralel saat proses sistem baru dimulai.''))],
         PyDict
          [(''title'', PyStr (lit ''Fase 2: Perhitungan Identik'')),
           (''desc'', PyStr (lit ''Seluruh goroutine menghitung nilai baru 100 '' @
               lit ''- 1 = 99 karena memegang data lokal yang '' @ lit ''sama.''))],
         PyDict
          [(''title'', PyStr (lit ''Fase 3: Timpa Bertubi-tubi'')),
           (''desc'', PyStr (lit ''Satu per satu goroutine menulis nilai 99 ke '' @
               lit ''penyimpanan memori global secara bergantian.''))],
         PyDict
          [(''title'', PyStr (lit ''Fase 4: Anomali Stok 99'')),
           (''desc'', PyStr (lit ''Hanya pada jalur ini 50 mutasi berhasil '' @
               lit ''tercatat namun stok fisik gudang hanya '' @ lit ''berkurang 1 unit.''))]])]]\<close>

definition lab23_slide_07 :: pycall where [lab23_slides]:
  \<open>lab23_slide_07 =
   \<lparr>posargs = [],
  kwargs =
   [(''categories'', PyList
      [PyStr (lit ''FAILURE PATH''),
       PyStr (lit ''LOST UPDATE MANIFESTATION'')]),
    (''title'', PyStr (lit ''Kronologi Kegagalan: 50 Goroutine dan '' @ lit ''Hilangnya 49 Mutasi'')),
    (''subtitle'', PyStr (lit ''Bagaimana 50 pengurangan stok berakhir '' @
        lit ''dengan sisa stok 99 alih-alih 50.'')),
    (''content_items'', lab23_items_07),
    (''narrative'', PyStr (lit ''Saat 50 goroutine memanggil NaiveDeduct '' @
        lit ''serempak pada stok awal 100, seluruh '' @
        lit ''pekerja membaca angka 100 dan masing-masing '' @
        lit ''menulis 99. Hanya pada jalur ini terjadi '' @
        lit ''bencana inventaris riil: log transaksi '' @
        lit ''mencatat 50 barang terjual, namun database '' @
        lit ''mencatat stok tersisa 99.'')),
    (''narrative_en'', PyStr (lit ''When 50 goroutines invoke NaiveDeduct '' @
        lit ''simultaneously against an initial stock of '' @
        lit ''100, all workers capture identical base '' @
        lit ''state and overwrite stock as 99. Only along '' @
        lit ''this path does inventory discrepancy '' @
        lit ''manifest: logs register 50 sold units while '' @
        lit ''remaining stock sits erroneously at 99.'')),
    (''mental_model'', PyStr (lit ''Concurrent stale overwrites cause severe '' @
        lit ''inventory inflation and unrecoverable '' @ lit ''ledger drift.'')),
    (''source_path'', PyStr (lit ''content/02-master-draft.md:297-302'')),
    (''slide_num'', PyStr (lit ''07 / 24'')),
    (''layout'', PyStr (lit ''cards''))]\<rparr>\<close>

definition lab23_items_08 :: pyval where [lab23_contents]:
  \<open>lab23_items_08 =
   PyList
   [PyDict
     [(''title'', PyStr (lit ''KOMPARASI PENDEKATAN PENGENDALIAN KONKURENSI'')),
      (''items'', PyList
        [PyStr (lit ''Dimensi Evaluasi | Naive Read-Modify-Write '' @
            lit ''| Pessimistic Locking | Optimistic Locking '' @ lit ''| Atomic Update''),
         PyStr (lit ''Mekanisme Kunci | Tanpa isolasi mutasi | '' @
            lit ''Row lock eksklusif | Version check saat '' @
            lit ''commit | Single-statement lockless''),
         PyStr (lit ''Performa Beban Baca | Sangat cepat (tanpa '' @
            lit ''lock) | Cepat (MVCC read aman) | Sangat '' @
            lit ''cepat (tanpa lock) | Sangat cepat''),
         PyStr (lit ''Tingkat Konflik Tinggi | Korupsi data '' @
            lit ''massal | Terblokir antrean (antre) | '' @
            lit ''Lonjakan retry / error 409 | Optimal '' @ lit ''(sekuensial cepat)''),
         PyStr (lit ''Risiko Sistem | Lost update tanpa error | '' @
            lit ''Deadlock / antrean panjang | Starvation '' @
            lit ''pada retry loop | Terbatas pada aritmatika '' @ lit ''simpel''),
         PyStr (lit ''Skenario Ideal | Hanya sistem single-thread '' @
            lit ''| Saldo bank / tiket terbatas | Edit profil '' @
            lit ''/ dokumen CMS | Counter hit / decrement stok'')]),
      (''type'', PyStr (lit ''table''))]]\<close>

definition lab23_slide_08 :: pycall where [lab23_slides]:
  \<open>lab23_slide_08 =
   \<lparr>posargs = [],
  kwargs =
   [(''categories'', PyList
      [PyStr (lit ''COMPARISON''),
       PyStr (lit ''STRATEGY MATRIX'')]),
    (''title'', PyStr (lit ''Matriks Strategi: Evaluasi Tiga Pendekatan '' @ lit ''Mutasi Konkuren'')),
    (''subtitle'', PyStr (lit ''Membedakan karakteristik teknis, tingkat '' @
        lit ''konkurensi, dan risiko operasional.'')),
    (''content_items'', lab23_items_08),
    (''narrative'', PyStr (lit ''Tabel ini memetakan trade-off komprehensif '' @
        lit ''antara pendekatan naif, pessimistic '' @
        lit ''locking, optimistic locking, dan pembaruan '' @
        lit ''atomik. Pessimistic locking cocok untuk '' @
        lit ''data bernilai tinggi dengan kontensi padat, '' @
        lit ''sedangkan optimistic locking unggul pada '' @
        lit ''beban baca dominan yang jarang mengalami '' @ lit ''tabrakan.'')),
    (''narrative_en'', PyStr (lit ''This matrix outlines technical trade-offs '' @
        lit ''across naive execution, pessimistic locks, '' @
        lit ''optimistic guards, and atomic statements. '' @
        lit ''Pessimistic locking excels for high-value '' @
        lit ''contested records, whereas optimistic '' @
        lit ''locking delivers superior scalability in '' @
        lit ''read-heavy systems with sparse write '' @ lit ''collisions.'')),
    (''mental_model'', PyStr (lit ''Match concurrency control primitives '' @
        lit ''directly to data criticality, conflict '' @
        lit ''probability, and update complexity.'')),
    (''source_path'', PyStr (lit ''content/02-master-draft.md:34-85'')),
    (''slide_num'', PyStr (lit ''08 / 24'')),
    (''layout'', PyStr (lit ''table''))]\<rparr>\<close>

definition lab23_items_09 :: pyval where [lab23_contents]:
  \<open>lab23_items_09 =
   PyList
   [PyDict
     [(''type'', PyStr (lit ''cards'')),
      (''title'', PyStr (lit ''PANDUAN PEMILIHAN STRATEGI MUTASI'')),
      (''items'', PyList
        [PyDict
          [(''title'', PyStr (lit ''1. Operasi Tunggal?'')),
           (''desc'', PyStr (lit ''Jika mutasi hanya melibatkan pengurangan '' @
               lit ''numerik sederhana tanpa aturan silang '' @
               lit ''tabel, gunakan Atomic Update.''))],
         PyDict
          [(''title'', PyStr (lit ''2. Kontensi Padat?'')),
           (''desc'', PyStr (lit ''Jika entitas sering diperebutkan (flash '' @
               lit ''sale, saldo), gunakan Pessimistic Lock '' @
               lit ''(SELECT FOR UPDATE).''))],
         PyDict
          [(''title'', PyStr (lit ''3. Baca-Dominan?'')),
           (''desc'', PyStr (lit ''Bila konflik jarang, gunakan Optimistic '' @
               lit ''Version Guard; bukan berarti tanpa retry, '' @ lit ''siapkan backoff.''))]])]]\<close>

definition lab23_slide_09 :: pycall where [lab23_slides]:
  \<open>lab23_slide_09 =
   \<lparr>posargs = [],
  kwargs =
   [(''categories'', PyList
      [PyStr (lit ''DECISION SEQUENCE''),
       PyStr (lit ''ARCHITECTURE GUIDE'')]),
    (''title'', PyStr (lit ''Alur Pengambilan Keputusan Strategi '' @ lit ''Penguncian Data'')),
    (''subtitle'', PyStr (lit ''Tiga kriteria teknis menentukan pemilihan '' @
        lit ''strategi konkurensi yang tepat sasaran.'')),
    (''content_items'', lab23_items_09),
    (''narrative'', PyStr (lit ''Keputusan arsitektur bertumpu pada '' @
        lit ''karakteristik mutasi data. Jika mutasi '' @
        lit ''adalah pengurangan sederhana satu baris, '' @
        lit ''atomic update adalah pilihan paling '' @
        lit ''efisien. Memilih optimistic locking bukan '' @
        lit ''berarti bebas dari penanganan kegagalan; '' @
        lit ''lapisan pemanggil wajib menyiapkan '' @ lit ''algoritma retry backoff.'')),
    (''narrative_en'', PyStr (lit ''Architectural selection hinges on mutation '' @
        lit ''complexity. For single-row arithmetic '' @
        lit ''decrements, atomic updates provide the '' @
        lit ''cleanest solution. Opting for optimistic '' @
        lit ''locking does not eliminate error handling '' @
        lit ''responsibilities; calling services must '' @
        lit ''implement robust backoff retry routines.'')),
    (''mental_model'', PyStr (lit ''Navigate concurrency solutions by '' @
        lit ''evaluating mutation locality, contention '' @
        lit ''intensity, and operational retry costs.'')),
    (''source_path'', PyStr (lit ''content/02-master-draft.md:330-342'')),
    (''slide_num'', PyStr (lit ''09 / 24'')),
    (''layout'', PyStr (lit ''cards''))]\<rparr>\<close>

definition lab23_items_10 :: pyval where [lab23_contents]:
  \<open>lab23_items_10 =
   PyList
   [PyDict
     [(''type'', PyStr (lit ''code'')),
      (''title'', PyStr (lit ''TERMINAL OUTPUT: go test -v -race ./... && '' @ lit ''go run ./cmd/demo'')),
      (''items'', PyList
        [PyStr (lit ''=== RUN   TestNaiveLostUpdate''),
         PyStr (lit ''    locking_test.go:37: Lost Update '' @
            lit ''Demonstrated: final stock is 99 (expected '' @ lit ''50)''),
         PyStr (lit ''--- PASS: TestNaiveLostUpdate (0.00s)''),
         PyStr (lit ''=== RUN   TestPessimisticLocking -> PASS: '' @ lit ''(stock == 50)''),
         PyStr (lit ''=== RUN   TestOptimisticLockingConflict -> '' @
            lit ''PASS: (1 succeeded, 19 conflicts rejected)''),
         PyStr (lit ''=== RUN   TestOptimisticLockingWithRetry -> '' @
            lit ''PASS: (20 total updates applied, stock == '' @ lit ''80)''),
         PyStr (lit ''=== RUN   TestAtomicConditionalUpdate -> '' @ lit ''PASS: (stock == 50)''),
         PyStr (lit ''PASS: ok  labs/23-optimistic-vs-pessimistic-'' @
            lit ''locking/tests  2.510s (race detector: clean)''),
         PyStr (lit ''[1] Naive Read-Modify-Write: Stock=99 (LOST '' @ lit ''UPDATE DETECTED!)''),
         PyStr (lit ''[2] Pessimistic Locking:    Stock=50 '' @
            lit ''(SUCCESS - Fully Synchronized)''),
         PyStr (lit ''[3] Optimistic Direct:      Stock=99 '' @
            lit ''(SUCCESS - 1 Succeeded, 19 Conflicts '' @ lit ''Rejected)''),
         PyStr (lit ''[4] Optimistic With Retry:  Stock=80 '' @
            lit ''(SUCCESS - 20 Succeeded, 61 Retries '' @ lit ''Absorbed)''),
         PyStr (lit ''[5] Atomic Update:          Stock=50 '' @
            lit ''(SUCCESS - Lockless Single Statement)'')])]]\<close>

definition lab23_slide_10 :: pycall where [lab23_slides]:
  \<open>lab23_slide_10 =
   \<lparr>posargs = [],
  kwargs =
   [(''categories'', PyList
      [PyStr (lit ''EVIDENCE''),
       PyStr (lit ''EXECUTION'')]),
    (''title'', PyStr (lit ''Bukti Eksekusi: Verifikasi Lima Skenario '' @ lit ''dan Race Detector'')),
    (''subtitle'', PyStr (lit ''Output terminal membuktikan anomali stok '' @
        lit ''naif dan keberhasilan ketiga proteksi.'')),
    (''content_items'', lab23_items_10),
    (''narrative'', PyStr (lit ''Hasil eksekusi test suite dan demo CLI '' @
        lit ''mengonfirmasi keakuratan seluruh strategi '' @
        lit ''pengujian. Race detector Go melaporkan '' @
        lit ''status bersih tanpa data race pada memori, '' @
        lit ''sementara pemeriksaan logika membuktikan '' @
        lit ''bahwa pendekatan naif melenyapkan 49 mutasi '' @ lit ''stok.'')),
    (''narrative_en'', PyStr (lit ''Test suite and demo execution conclusively '' @
        lit ''validate our theoretical concurrency '' @
        lit ''assertions. The Go race detector confirms '' @
        lit ''zero data races at the memory level, while '' @
        lit ''logic assertions prove that unsynchronized '' @
        lit ''mutations obliterate 49 inventory updates.'')),
    (''mental_model'', PyStr (lit ''Runtime test execution proves memory safety '' @
        lit ''while domain assertions verify '' @ lit ''transactional business invariants.'')),
    (''source_path'', PyStr (lit ''engineering/03-execution-result.md:14-91'')),
    (''slide_num'', PyStr (lit ''10 / 24'')),
    (''layout'', PyStr (lit ''code''))]\<rparr>\<close>

definition lab23_items_11 :: pyval where [lab23_contents]:
  \<open>lab23_items_11 =
   PyList
   [PyDict
     [(''type'', PyStr (lit ''cards'')),
      (''title'', PyStr (lit ''BATAS PEMBUKTIAN SISTEM LAB 23'')),
      (''items'', PyList
        [PyDict
          [(''title'', PyStr (lit ''YANG DIBUKTIKAN'')),
           (''desc'', PyStr (lit ''Reproduksi anomali lost update, proteksi '' @
               lit ''row-lock per item, penolakan version '' @
               lit ''mismatch, dan konvergensi retry.''))],
         PyDict
          [(''title'', PyStr (lit ''YANG TIDAK DIBUKTIKAN'')),
           (''desc'', PyStr (lit ''Engine lock table database riil, deadlock '' @
               lit ''detector lintas-tabel, gap locking, dan '' @
               lit ''isolasi MVCC fisik RDBMS.''))],
         PyDict
          [(''title'', PyStr (lit ''BATAS KLAIM EMPIRIS'')),
           (''desc'', PyStr (lit ''Lab belum membuktikan throughput performa '' @
               lit ''riil di bawah beban 100.000 transaksi '' @ lit ''terdistribusi.''))]])]]\<close>

definition lab23_slide_11 :: pycall where [lab23_slides]:
  \<open>lab23_slide_11 =
   \<lparr>posargs = [],
  kwargs =
   [(''categories'', PyList
      [PyStr (lit ''AUDIT''),
       PyStr (lit ''EVIDENCE BOUNDARY'')]),
    (''title'', PyStr (lit ''Batasan Bukti Lab: Yang Dibuktikan vs Belum'')),
    (''subtitle'', PyStr (lit ''Menegaskan batasan simulasi Go in-memory '' @
        lit ''terhadap kompleksitas RDBMS produksi.'')),
    (''content_items'', lab23_items_11),
    (''narrative'', PyStr (lit ''Lab ini menggunakan simulasi sync.Mutex '' @
        lit ''in-memory untuk memodelkan perilaku '' @
        lit ''penguncian tingkat baris dan version check. '' @
        lit ''Implementasi ini belum membuktikan '' @
        lit ''mekanisme kompleks RDBMS fisik seperti lock '' @
        lit ''manager tabel, gap locks, atau deadlock '' @
        lit ''detection otomatis pada transaksi '' @ lit ''multi-baris.'')),
    (''narrative_en'', PyStr (lit ''This laboratory employs in-memory '' @
        lit ''sync.Mutex primitives to model row-level '' @
        lit ''exclusive locks and version validation. It '' @
        lit ''has not yet proven physical RDBMS internals '' @
        lit ''such as database engine lock tables, gap '' @
        lit ''locks, or multi-statement deadlock graph '' @ lit ''resolution.'')),
    (''mental_model'', PyStr (lit ''Carefully demarcate application-level '' @
        lit ''concurrency simulations from enterprise '' @
        lit ''storage engine lock internals.'')),
    (''source_path'', PyStr (lit ''content/01-content-brief.md:46-55'')),
    (''slide_num'', PyStr (lit ''11 / 24'')),
    (''layout'', PyStr (lit ''cards''))]\<rparr>\<close>

definition lab23_items_12 :: pyval where [lab23_contents]:
  \<open>lab23_items_12 =
   PyList
   [PyDict
     [(''type'', PyStr (lit ''cards'')),
      (''title'', PyStr (lit ''ANALISIS TRADE-OFF PENGUNCIAN SISTEM'')),
      (''items'', PyList
        [PyDict
          [(''title'', PyStr (lit ''Pessimistic: Latensi Antre'')),
           (''desc'', PyStr (lit ''Jaminan konsistensi tinggi tanpa retry, '' @
               lit ''namun latensi naik drastis saat baris yang '' @
               lit ''sama diserbu transaksi.''))],
         PyDict
          [(''title'', PyStr (lit ''Optimistic: Beban CPU/Retry'')),
           (''desc'', PyStr (lit ''Throughput baca maksimal tanpa blocking, '' @
               lit ''namun memboroskan komputasi saat conflict '' @ lit ''rate meninggi.''))],
         PyDict
          [(''title'', PyStr (lit ''Tidak Otomatis Efisien'')),
           (''desc'', PyStr (lit ''Mengandalkan retry tidak otomatis efisien '' @
               lit ''bila kontensi tinggi memicu fenomena '' @ lit ''starvation.''))]])]]\<close>

definition lab23_slide_12 :: pycall where [lab23_slides]:
  \<open>lab23_slide_12 =
   \<lparr>posargs = [],
  kwargs =
   [(''categories'', PyList
      [PyStr (lit ''TRADE-OFF''),
       PyStr (lit ''COSTS & BENEFITS'')]),
    (''title'', PyStr (lit ''Kompromi Rekayasa: Beban Tunggu vs Beban '' @ lit ''Percobaan Ulang'')),
    (''subtitle'', PyStr (lit ''Mengevaluasi konsekuensi throughput, '' @
        lit ''latensi, dan kompleksitas kode aplikasi.'')),
    (''content_items'', lab23_items_12),
    (''narrative'', PyStr (lit ''Setiap strategi menuntut ongkos operasional '' @
        lit ''yang berbeda. Pessimistic locking '' @
        lit ''mengorbankan waktu tunggu antrean '' @
        lit ''transaksi, sedangkan optimistic locking '' @
        lit ''mengonsumsi siklus CPU dan bandwidth '' @
        lit ''jaringan untuk mencoba ulang transaksi yang '' @
        lit ''gagal. Menggunakan retry tidak otomatis '' @
        lit ''efisien jika konflik terjadi terus-menerus.'')),
    (''narrative_en'', PyStr (lit ''Each architectural pattern introduces '' @
        lit ''distinct operational overheads. Pessimistic '' @
        lit ''locking incurs transaction queue wait '' @
        lit ''times, whereas optimistic locking consumes '' @
        lit ''CPU cycles and network rounds executing '' @
        lit ''retries. Blindly applying retries does not '' @
        lit ''automatically preserve throughput under '' @ lit ''relentless contention.'')),
    (''mental_model'', PyStr (lit ''Balance thread queue serialization delays '' @
        lit ''against compute and network retry '' @ lit ''amplification costs.'')),
    (''source_path'', PyStr (lit ''content/02-master-draft.md:50-72'')),
    (''slide_num'', PyStr (lit ''12 / 24'')),
    (''layout'', PyStr (lit ''cards''))]\<rparr>\<close>

definition lab23_items_13 :: pyval where [lab23_contents]:
  \<open>lab23_items_13 =
   PyList
   [PyDict
     [(''type'', PyStr (lit ''code'')),
      (''title'', PyStr (lit ''internal/inventory/store.go'')),
      (''items'', PyList
        [PyStr (lit ''type Store struct {''),
         PyStr (lit ''    mu       sync.Mutex          // '' @
            lit ''melindungi struktur map internal''),
         PyStr (lit ''    rowLocks map[int]*sync.Mutex // lock '' @
            lit ''eksklusif per ID produk''),
         PyStr (lit ''    products map[int]*Product    // data '' @
            lit ''penyimpanan stok dan versi''),
         PyStr (lit ''}''),
         PyStr (lit ''func (s *Store) GetRowLock(id int) '' @ lit ''*sync.Mutex {''),
         PyStr (lit ''    s.mu.Lock()''),
         PyStr (lit ''    defer s.mu.Unlock()''),
         PyStr (lit ''    lock, exists := s.rowLocks[id]''),
         PyStr (lit ''    if !exists { lock = &sync.Mutex{}; '' @
            lit ''s.rowLocks[id] = lock }''),
         PyStr (lit ''    return lock''),
         PyStr (lit ''}'')])]]\<close>

definition lab23_slide_13 :: pycall where [lab23_slides]:
  \<open>lab23_slide_13 =
   \<lparr>posargs = [],
  kwargs =
   [(''categories'', PyList
      [PyStr (lit ''CONCURRENCY''),
       PyStr (lit ''PRIMITIVES'')]),
    (''title'', PyStr (lit ''Simulasi Row Lock Eksklusif Berbasis Mutex '' @ lit ''Per Baris'')),
    (''subtitle'', PyStr (lit ''Memodelkan semantik SELECT FOR UPDATE di '' @
        lit ''memori dengan row-level lock map.'')),
    (''content_items'', lab23_items_13),
    (''narrative'', PyStr (lit ''Store mengisolasi penguncian dengan '' @
        lit ''memisahkan mutex struktur peta dari mutex '' @
        lit ''baris individu. Simulasi ini tidak sama '' @
        lit ''dengan lock manager PostgreSQL yang '' @
        lit ''mengelola shared lock, exclusive lock, dan '' @
        lit ''lock timeout, namun secara tepat '' @
        lit ''merepresentasikan sifat serialisasi akses '' @ lit ''baris tunggal.'')),
    (''narrative_en'', PyStr (lit ''Store isolates synchronization by '' @
        lit ''segregating the global map mutex from '' @
        lit ''individual per-row mutexes. While this '' @
        lit ''simulation is not identical to PostgreSQL '' @
        lit ''lock managers governing shared modes and '' @
        lit ''lock timeouts, it accurately replicates '' @
        lit ''single-row serialization semantics.'')),
    (''mental_model'', PyStr (lit ''Decouple structural table mutexes from '' @
        lit ''granular entity locks to model row-level '' @ lit ''database serialization.'')),
    (''source_path'', PyStr (lit ''internal/inventory/store.go:9-52'')),
    (''slide_num'', PyStr (lit ''13 / 24'')),
    (''layout'', PyStr (lit ''code''))]\<rparr>\<close>

definition lab23_items_14 :: pyval where [lab23_contents]:
  \<open>lab23_items_14 =
   PyList
   [PyDict
     [(''type'', PyStr (lit ''cards'')),
      (''title'', PyStr (lit ''KOMPARASI STATUS EKSEKUSI MUTASI'')),
      (''items'', PyList
        [PyDict
          [(''title'', PyStr (lit ''Sebelum: Naive RMW'')),
           (''desc'', PyStr (lit ''50 pemanggilan fungsi mutasi; stok akhir '' @
               lit ''terkorupsi di angka 99; hilangnya 49 mutasi '' @
               lit ''tanpa jejak peringatan.''))],
         PyDict
          [(''title'', PyStr (lit ''Sesudah: Protected Invariant'')),
           (''desc'', PyStr (lit ''Seluruh mutasi terkontrol; stok akhir tepat '' @
               lit ''50 (pessimistic/atomic) atau 80 dengan '' @ lit ''retry konvergen.''))],
         PyDict
          [(''title'', PyStr (lit ''Bukan Berarti Rumit'')),
           (''desc'', PyStr (lit ''Menjaga integritas bukan berarti harus '' @
               lit ''rumit; atomic update menyelesaikan masalah '' @
               lit ''dalam satu query SQL.''))]])]]\<close>

definition lab23_slide_14 :: pycall where [lab23_slides]:
  \<open>lab23_slide_14 =
   \<lparr>posargs = [],
  kwargs =
   [(''categories'', PyList
      [PyStr (lit ''COMPARISON''),
       PyStr (lit ''BEFORE VS AFTER'')]),
    (''title'', PyStr (lit ''Transformasi: Dari Overwrite Diam-diam ke '' @ lit ''State Terproteksi'')),
    (''subtitle'', PyStr (lit ''Pergeseran arsitektur mutasi data dari '' @
        lit ''pembaruan tanpa pelindung ke kontrol ketat.'')),
    (''content_items'', lab23_items_14),
    (''narrative'', PyStr (lit ''Sebelum penerapan strategi konkurensi, data '' @
        lit ''inventaris hancur secara diam-diam akibat '' @
        lit ''mutasi yang saling menimpa. Setelah '' @
        lit ''proteksi diterapkan, invarian matematis '' @
        lit ''stok terjaga sempurna di bawah beban '' @
        lit ''serempak. Menerapkan proteksi bukan berarti '' @
        lit ''menambah beban kode rumit jika kebutuhan '' @
        lit ''mutasi dapat diselesaikan via query atomik.'')),
    (''narrative_en'', PyStr (lit ''Prior to applying concurrency strategies, '' @
        lit ''inventory levels suffered silent corruption '' @
        lit ''from blind overwrites. Following '' @
        lit ''stabilization, mathematical stock '' @
        lit ''invariants remain intact under heavy '' @
        lit ''concurrency. Enforcing data safety does not '' @
        lit ''mandate architectural sprawl when mutations '' @
        lit ''can be expressed via atomic SQL statements.'')),
    (''mental_model'', PyStr (lit ''Shift from blind data overwrites to guarded '' @
        lit ''state invariants with minimal architectural '' @ lit ''overhead.'')),
    (''source_path'', PyStr (lit ''content/02-master-draft.md:297-326'')),
    (''slide_num'', PyStr (lit ''14 / 24'')),
    (''layout'', PyStr (lit ''cards''))]\<rparr>\<close>

definition lab23_items_15 :: pyval where [lab23_contents]:
  \<open>lab23_items_15 =
   PyList
   [PyDict
     [(''type'', PyStr (lit ''code'')),
      (''title'', PyStr (lit ''internal/inventory/store.go'')),
      (''items'', PyList
        [PyStr (lit ''func (s *Store) PessimisticDeduct(id int, '' @ lit ''qty int) error {''),
         PyStr (lit ''    rowLock := s.GetRowLock(id)''),
         PyStr (lit ''    rowLock.Lock() // akuisisi lock '' @ lit ''eksklusif baris''),
         PyStr (lit ''    defer rowLock.Unlock()''),
         PyStr (lit ''    s.mu.Lock()''),
         PyStr (lit ''    p, exists := s.products[id]''),
         PyStr (lit ''    if !exists { s.mu.Unlock(); return '' @ lit ''ErrNotFound }''),
         PyStr (lit ''    if p.Stock < qty { s.mu.Unlock(); '' @
            lit ''return ErrInsufficientStock }''),
         PyStr (lit ''    p.Stock -= qty''),
         PyStr (lit ''    s.mu.Unlock()''),
         PyStr (lit ''    atomic.AddInt64(&s.Pessimistically, '' @ lit ''int64(qty))''),
         PyStr (lit ''    return nil''),
         PyStr (lit ''}'')])]]\<close>

definition lab23_slide_15 :: pycall where [lab23_slides]:
  \<open>lab23_slide_15 =
   \<lparr>posargs = [],
  kwargs =
   [(''categories'', PyList
      [PyStr (lit ''ANALYSIS''),
       PyStr (lit ''PESSIMISTIC LOGIC'')]),
    (''title'', PyStr (lit ''Pessimistic Locking: Mengunci Sebelum '' @ lit ''Membaca Data'')),
    (''subtitle'', PyStr (lit ''Mengamankan siklus read-modify-write dengan '' @
        lit ''menahan lock eksklusif hingga tuntas.'')),
    (''content_items'', lab23_items_15),
    (''narrative'', PyStr (lit ''Fungsi PessimisticDeduct mengunci rowLock '' @
        lit ''sebelum melakukan pengecekan stok dan '' @
        lit ''mutasi nilai. Logika pencegahan ini '' @
        lit ''cakupannya mengikuti test konkurensi lab, '' @
        lit ''membuktikan bahwa seluruh goroutine '' @
        lit ''mengantre secara tertib sehingga stok '' @
        lit ''berkurang tepat 50 unit tanpa ada mutasi '' @ lit ''yang hilang.'')),
    (''narrative_en'', PyStr (lit ''PessimisticDeduct acquires the rowLock '' @
        lit ''prior to inspecting stock levels and '' @
        lit ''committing updates. The scope of this '' @
        lit ''preventive logic strictly matches our '' @
        lit ''laboratory concurrency tests, proving that '' @
        lit ''all goroutines serialize predictably to '' @
        lit ''decrement stock to exactly 50.'')),
    (''mental_model'', PyStr (lit ''Enforce exclusive ownership of mutable '' @
        lit ''state throughout the entire '' @
        lit ''read-compute-write transaction lifecycle.'')),
    (''source_path'', PyStr (lit ''internal/inventory/store.go:93-116'')),
    (''slide_num'', PyStr (lit ''15 / 24'')),
    (''layout'', PyStr (lit ''code''))]\<rparr>\<close>

definition lab23_items_16 :: pyval where [lab23_contents]:
  \<open>lab23_items_16 =
   PyList
   [PyDict
     [(''type'', PyStr (lit ''code'')),
      (''title'', PyStr (lit ''internal/inventory/store.go'')),
      (''items'', PyList
        [PyStr (lit ''func (s *Store) OptimisticDeduct(id int, '' @ lit ''qty int) error {''),
         PyStr (lit ''    p, err := s.Get(id) // ambil snapshot '' @
            lit ''beserta nilai version''),
         PyStr (lit ''    if err != nil { return err }''),
         PyStr (lit ''    if p.Stock < qty { return '' @ lit ''ErrInsufficientStock }''),
         PyStr (lit ''    time.Sleep(50 * time.Microsecond)''),
         PyStr (lit ''    s.mu.Lock()''),
         PyStr (lit ''    defer s.mu.Unlock()''),
         PyStr (lit ''    curr, exists := s.products[id]''),
         PyStr (lit ''    if curr.Version != p.Version { // cek '' @ lit ''version guard''),
         PyStr (lit ''        atomic.AddInt64(&s.OptimisticFails, '' @ lit ''1)''),
         PyStr (lit ''        return ErrOptimisticLock // '' @
            lit ''equivalen affected_rows == 0''),
         PyStr (lit ''    }''),
         PyStr (lit ''    curr.Stock -= qty; curr.Version++''),
         PyStr (lit ''    atomic.AddInt64(&s.Optimistically, '' @
            lit ''int64(qty)); return nil''),
         PyStr (lit ''}'')])]]\<close>

definition lab23_slide_16 :: pycall where [lab23_slides]:
  \<open>lab23_slide_16 =
   \<lparr>posargs = [],
  kwargs =
   [(''categories'', PyList
      [PyStr (lit ''ANALYSIS''),
       PyStr (lit ''OPTIMISTIC LOGIC'')]),
    (''title'', PyStr (lit ''Optimistic Locking: Version Guard Tanpa '' @ lit ''Memblokir Pembaca'')),
    (''subtitle'', PyStr (lit ''Mendeteksi konflik pada fase tulis dengan '' @
        lit ''memvalidasi versi data snapshot.'')),
    (''content_items'', lab23_items_16),
    (''narrative'', PyStr (lit ''Optimistic locking membaca data beserta '' @
        lit ''nomor versinya tanpa menahan kunci baris. '' @
        lit ''Saat commit, versi divalidasi; jika versi '' @
        lit ''di memori telah berubah, update digagalkan '' @
        lit ''dengan mengembalikan ErrOptimisticLock. '' @
        lit ''Strategi ini tidak otomatis sukses jika '' @
        lit ''aplikasi tidak menangani error konflik '' @ lit ''tersebut.'')),
    (''narrative_en'', PyStr (lit ''Optimistic locking extracts record state '' @
        lit ''alongside its version identifier without '' @
        lit ''locking rows. At commit time, versions are '' @
        lit ''evaluated; if the target row changed, the '' @
        lit ''update aborts with ErrOptimisticLock. This '' @
        lit ''mechanism does not automatically deliver '' @
        lit ''success unless calling code manages the '' @ lit ''resulting conflict.'')),
    (''mental_model'', PyStr (lit ''Validate state immutability at commit time; '' @
        lit ''reject modifications whenever baseline '' @ lit ''versions diverge.'')),
    (''source_path'', PyStr (lit ''internal/inventory/store.go:120-153'')),
    (''slide_num'', PyStr (lit ''16 / 24'')),
    (''layout'', PyStr (lit ''code''))]\<rparr>\<close>

definition lab23_items_17 :: pyval where [lab23_contents]:
  \<open>lab23_items_17 =
   PyList
   [PyDict
     [(''type'', PyStr (lit ''code'')),
      (''title'', PyStr (lit ''internal/inventory/service.go'')),
      (''items'', PyList
        [PyStr (lit ''func (svc *Service) '' @ lit ''DeductOptimisticWithRetry(id, qty, '' @
            lit ''maxRetries int) error {''),
         PyStr (lit ''    for attempt := 0; attempt <= '' @ lit ''maxRetries; attempt++ {''),
         PyStr (lit ''        err := '' @ lit ''svc.store.OptimisticDeduct(id, qty)''),
         PyStr (lit ''        if err == nil { return nil }''),
         PyStr (lit ''        if err != ErrOptimisticLock { '' @ lit ''return err }''),
         PyStr (lit ''        if attempt == maxRetries { return '' @ lit ''ErrOptimisticLock }''),
         PyStr (lit ''        sleepDuration := '' @
            lit ''time.Duration(1<<attempt)*time.Millisecond +''),
         PyStr (lit ''            '' @ lit ''time.Duration(rand.Intn(5))*time.Millisecond''),
         PyStr (lit ''        time.Sleep(sleepDuration)''),
         PyStr (lit ''    }''),
         PyStr (lit ''    return ErrOptimisticLock''),
         PyStr (lit ''}'')])]]\<close>

definition lab23_slide_17 :: pycall where [lab23_slides]:
  \<open>lab23_slide_17 =
   \<lparr>posargs = [],
  kwargs =
   [(''categories'', PyList
      [PyStr (lit ''ANALYSIS''),
       PyStr (lit ''RETRY MECHANISM'')]),
    (''title'', PyStr (lit ''Konvergensi Optimistik: Exponential Backoff '' @ lit ''dengan Jitter'')),
    (''subtitle'', PyStr (lit ''Meredam benturan thundering-herd saat '' @
        lit ''mencoba ulang mutasi yang gagal.'')),
    (''content_items'', lab23_items_17),
    (''narrative'', PyStr (lit ''Ketika konflik versi terjadi, Service '' @
        lit ''melakukan percobaan ulang dengan jeda '' @
        lit ''bertingkat eksponensial ditambah angka acak '' @
        lit ''jitter. Jitter mencegah goroutine mencoba '' @
        lit ''kembali pada detik yang sama persis. Hanya '' @
        lit ''pada jalur ini 20 request konkuren yang '' @
        lit ''saling berebut akhirnya konvergen dan '' @ lit ''sukses seluruhnya.'')),
    (''narrative_en'', PyStr (lit ''Upon encountering a version collision, the '' @
        lit ''Service layer retries using exponential '' @
        lit ''delays augmented with randomized jitter. '' @
        lit ''Jitter staggers concurrent retries, '' @
        lit ''defusing thundering-herd stampedes. Only '' @
        lit ''along this path do 20 contending goroutines '' @
        lit ''cleanly converge to complete all mutations.'')),
    (''mental_model'', PyStr (lit ''De-synchronize competing retries via '' @
        lit ''exponential randomized pauses to guarantee '' @
        lit ''system-wide convergence.'')),
    (''source_path'', PyStr (lit ''internal/inventory/service.go:28-45'')),
    (''slide_num'', PyStr (lit ''17 / 24'')),
    (''layout'', PyStr (lit ''code''))]\<rparr>\<close>

definition lab23_items_18 :: pyval where [lab23_contents]:
  \<open>lab23_items_18 =
   PyList
   [PyDict
     [(''type'', PyStr (lit ''code'')),
      (''title'', PyStr (lit ''internal/inventory/store.go'')),
      (''items'', PyList
        [PyStr (lit ''// Ekuivalen SQL: UPDATE products SET stock '' @
            lit ''= stock - ? WHERE id = ? AND stock >= ?''),
         PyStr (lit ''func (s *Store) AtomicDeduct(id int, qty '' @ lit ''int) error {''),
         PyStr (lit ''    if qty <= 0 { return ErrInvalidQuantity '' @ lit ''}''),
         PyStr (lit ''    s.mu.Lock()''),
         PyStr (lit ''    defer s.mu.Unlock()''),
         PyStr (lit ''    curr, exists := s.products[id]''),
         PyStr (lit ''    if !exists { return ErrNotFound }''),
         PyStr (lit ''    if curr.Stock < qty { return '' @ lit ''ErrInsufficientStock }''),
         PyStr (lit ''    curr.Stock -= qty // validasi dan '' @
            lit ''kalkulasi dalam satu seksi kritis''),
         PyStr (lit ''    atomic.AddInt64(&s.Atomically, '' @ lit ''int64(qty))''),
         PyStr (lit ''    return nil''),
         PyStr (lit ''}'')])]]\<close>

definition lab23_slide_18 :: pycall where [lab23_slides]:
  \<open>lab23_slide_18 =
   \<lparr>posargs = [],
  kwargs =
   [(''categories'', PyList
      [PyStr (lit ''ANALYSIS''),
       PyStr (lit ''ATOMIC STATEMENT'')]),
    (''title'', PyStr (lit ''Atomic Update: Memangkas Celah '' @ lit ''Read-Modify-Write'')),
    (''subtitle'', PyStr (lit ''Melakukan pengecekan kondisi dan pembaruan '' @
        lit ''data dalam satu siklus atomik.'')),
    (''content_items'', lab23_items_18),
    (''narrative'', PyStr (lit ''AtomicDeduct menghilangkan jeda waktu '' @
        lit ''antara membaca dan menulis dengan '' @
        lit ''menggabungkan validasi stok dan pengurangan '' @
        lit ''nilai ke dalam satu seksi kritis. Pola ini '' @
        lit ''bukan berarti solusi untuk semua masalah, '' @
        lit ''karena operasi atomik satu statement tidak '' @
        lit ''mampu menangani validasi multi-tabel yang '' @ lit ''kompleks.'')),
    (''narrative_en'', PyStr (lit ''AtomicDeduct eliminates the temporal gap '' @
        lit ''between reading and writing by binding '' @
        lit ''condition checks and updates within a '' @
        lit ''single critical section. This pattern does '' @
        lit ''not represent a silver bullet for all '' @
        lit ''workflows, as single-statement atomicity '' @
        lit ''cannot enforce complex multi-table '' @ lit ''invariants.'')),
    (''mental_model'', PyStr (lit ''Condense condition validation and state '' @
        lit ''mutation into a unified, non-preemptible '' @ lit ''database operation.'')),
    (''source_path'', PyStr (lit ''internal/inventory/store.go:155-173'')),
    (''slide_num'', PyStr (lit ''18 / 24'')),
    (''layout'', PyStr (lit ''code''))]\<rparr>\<close>

definition lab23_items_19 :: pyval where [lab23_contents]:
  \<open>lab23_items_19 =
   PyList
   [PyDict
     [(''type'', PyStr (lit ''code'')),
      (''title'', PyStr (lit ''tests/locking_test.go'')),
      (''items'', PyList
        [PyStr (lit ''func TestOptimisticLockingConflict(t '' @ lit ''*testing.T) {''),
         PyStr (lit ''    // 20 goroutines serempak '' @
            lit ''DeductOptimisticDirect pada stok 100''),
         PyStr (lit ''    wg.Wait()''),
         PyStr (lit ''    p, _ := store.Get(3)''),
         PyStr (lit ''    // Pembuktian invarian: transaksi '' @
            lit ''sukses + sisa stok wajib tepat 100''),
         PyStr (lit ''    if successCount+int64(p.Stock) != 100 {''),
         PyStr (lit ''        t.Fatalf("invarian stok rusak: '' @
            lit ''sukses %d + stok %d != 100",''),
         PyStr (lit ''                 successCount, p.Stock)''),
         PyStr (lit ''    }''),
         PyStr (lit ''    if conflictCount == 0 { t.Fatalf("harus '' @
            lit ''ada minimal 1 konflik") }''),
         PyStr (lit ''}'')])]]\<close>

definition lab23_slide_19 :: pycall where [lab23_slides]:
  \<open>lab23_slide_19 =
   \<lparr>posargs = [],
  kwargs =
   [(''categories'', PyList
      [PyStr (lit ''ANALYSIS''),
       PyStr (lit ''TEST VERIFICATION'')]),
    (''title'', PyStr (lit ''Verifikasi Invarian: Konsistensi Matematis '' @ lit ''di Bawah Beban'')),
    (''subtitle'', PyStr (lit ''Memastikan rumus InitialStock - '' @
        lit ''TotalSuccessfulDeductions terpenuhi mutlak.'')),
    (''content_items'', lab23_items_19),
    (''narrative'', PyStr (lit ''Test suite memverifikasi bahwa penolakan '' @
        lit ''optimistik tidak merusak integritas sistem: '' @
        lit ''jumlah request yang sukses ditambah sisa '' @
        lit ''stok wajib tepat bernilai 100. Verifikasi '' @
        lit ''empiris ini cakupannya mengikuti test suite '' @
        lit ''otomatis lab, membuktikan nol korupsi data '' @
        lit ''meski terjadi penolakan massal.'')),
    (''narrative_en'', PyStr (lit ''The test suite strictly verifies that '' @
        lit ''optimistic rejections preserve state '' @
        lit ''integrity: successful transactions plus '' @
        lit ''final stock must sum exactly to 100. This '' @
        lit ''empirical verification strictly adheres to '' @ lit ''the lab'' @ [39] @
        lit ''s test scope, proving zero data corruption '' @
        lit ''despite widespread request rejection.'')),
    (''mental_model'', PyStr (lit ''Validate system correctness by proving '' @
        lit ''conservation invariants across concurrent '' @ lit ''execution boundaries.'')),
    (''source_path'', PyStr (lit ''tests/locking_test.go:85-121'')),
    (''slide_num'', PyStr (lit ''19 / 24'')),
    (''layout'', PyStr (lit ''code''))]\<rparr>\<close>

definition lab23_items_20 :: pyval where [lab23_contents]:
  \<open>lab23_items_20 =
   PyList
   [PyDict
     [(''type'', PyStr (lit ''checklist'')),
      (''title'', PyStr (lit ''STANDAR REKAYASA MUTASI DATA DATABASE'')),
      (''items'', PyList
        [PyStr (lit ''Identifikasi alur mutasi: apakah '' @
            lit ''single-statement atomik atau '' @ lit ''read-modify-write multi-langkah.''),
         PyStr (lit ''Gunakan UPDATE ... WHERE stock >= N untuk '' @
            lit ''pembaruan counter/inventaris numerik '' @ lit ''sederhana.''),
         PyStr (lit ''Terapkan SELECT ... FOR UPDATE pada '' @
            lit ''transaksi bernilai tinggi dengan tingkat '' @ lit ''tabrakan tinggi.''),
         PyStr (lit ''Jangan pernah menahan row lock database '' @
            lit ''saat melakukan panggilan jaringan eksternal '' @ lit ''(HTTP/RPC).''),
         PyStr (lit ''Tambahkan kolom version integer/timestamp '' @
            lit ''dan periksa affected_rows == 0 untuk '' @ lit ''optimistic lock.''),
         PyStr (lit ''Sediakan wrapper retry dengan randomized '' @
            lit ''jittered backoff untuk menangani konflik '' @ lit ''optimistik.''),
         PyStr (lit ''Jalankan race detector Go (go test -race '' @
            lit ''./...) secara berkala pada seluruh pipeline '' @ lit ''CI/CD.'')])]]\<close>

definition lab23_slide_20 :: pycall where [lab23_slides]:
  \<open>lab23_slide_20 =
   \<lparr>posargs = [],
  kwargs =
   [(''categories'', PyList
      [PyStr (lit ''CHECKLIST''),
       PyStr (lit ''PRODUCTION READINESS'')]),
    (''title'', PyStr (lit ''Checklist Penerapan Concurrency Control di '' @ lit ''Produksi'')),
    (''subtitle'', PyStr (lit ''Pedoman teknis memilih dan mengonfigurasi '' @
        lit ''mekanisme penguncian database.'')),
    (''content_items'', lab23_items_20),
    (''narrative'', PyStr (lit ''Checklist ini merangkum langkah wajib '' @
        lit ''sebelum merilis kode transaksional ke '' @
        lit ''lingkungan produksi. Mengidentifikasi pola '' @
        lit ''mutasi, membatasi durasi penguncian baris, '' @
        lit ''memverifikasi affected_rows, '' @
        lit ''mengimplementasikan jittered backoff, dan '' @
        lit ''menjalankan race detector adalah pagar '' @
        lit ''pengaman utama sistem backend.'')),
    (''narrative_en'', PyStr (lit ''This production checklist codifies '' @
        lit ''operational best practices for concurrent '' @
        lit ''database systems. Categorizing mutation '' @
        lit ''lifecycles, minimizing lock durations, '' @
        lit ''validating affected rows, implementing '' @
        lit ''jittered retries, and running race '' @
        lit ''detectors constitute essential backend '' @ lit ''defenses.'')),
    (''mental_model'', PyStr (lit ''Enforce systematic production checklists to '' @
        lit ''prevent concurrency bugs and runtime '' @ lit ''transaction starvation.'')),
    (''source_path'', PyStr (lit ''content/02-master-draft.md:330-342'')),
    (''slide_num'', PyStr (lit ''20 / 24'')),
    (''layout'', PyStr (lit ''checklist''))]\<rparr>\<close>

definition lab23_items_21 :: pyval where [lab23_contents]:
  \<open>lab23_items_21 =
   PyList
   [PyDict
     [(''type'', PyStr (lit ''cards'')),
      (''title'', PyStr (lit ''KESALAHAN DESAIN MUTASI YANG HARUS DIHINDARI'')),
      (''items'', PyList
        [PyDict
          [(''title'', PyStr (lit ''Mengabaikan Affected Rows'')),
           (''desc'', PyStr (lit ''Tidak memeriksa jumlah baris terpengaruh '' @
               lit ''pada query update optimistik, menganggap '' @
               lit ''eksekusi selalu berhasil.''))],
         PyDict
          [(''title'', PyStr (lit ''Lock Menyeberang I/O'')),
           (''desc'', PyStr (lit ''Memegang lock database saat menunggu '' @
               lit ''respons webhook payment gateway; memicu '' @ lit ''antrean sistemik.''))],
         PyDict
          [(''title'', PyStr (lit ''Bukan Berarti Perlu Redis'')),
           (''desc'', PyStr (lit ''Langsung memakai Redis lock bukan berarti '' @
               lit ''tepat; database relasional sudah punya '' @ lit ''locking bawaan.''))]])]]\<close>

definition lab23_slide_21 :: pycall where [lab23_slides]:
  \<open>lab23_slide_21 =
   \<lparr>posargs = [],
  kwargs =
   [(''categories'', PyList
      [PyStr (lit ''ANTI-PATTERN''),
       PyStr (lit ''PITFALLS'')]),
    (''title'', PyStr (lit ''Anti-Pattern Umum dalam Penanganan '' @ lit ''Transaksi Konkuren'')),
    (''subtitle'', PyStr (lit ''Kesalahan desain arsitektur yang sering '' @
        lit ''merusak konsistensi data di database.'')),
    (''content_items'', lab23_items_21),
    (''narrative'', PyStr (lit ''Kesalahan paling umum di industri adalah '' @
        lit ''menganggap query UPDATE selalu berhasil '' @
        lit ''tanpa mengecek affected_rows, serta menahan '' @
        lit ''lock database sambil menunggu panggilan '' @
        lit ''HTTP pihak ketiga. Memasang distributed '' @
        lit ''lock seperti Redis bukan berarti selalu '' @
        lit ''tepat, karena database lokal sudah '' @
        lit ''menyediakan mekanisme locking bawaan yang '' @ lit ''jauh lebih efisien.'')),
    (''narrative_en'', PyStr (lit ''Common production blunders include ignoring '' @
        lit ''affected-row counts after optimistic '' @
        lit ''updates and maintaining database locks '' @
        lit ''across external HTTP requests. Reaching for '' @
        lit ''distributed Redis locks does not '' @
        lit ''automatically imply superior engineering; '' @
        lit ''relational engines already provide native, '' @
        lit ''low-latency locking primitives.'')),
    (''mental_model'', PyStr (lit ''Eliminate cross-network lock retention and '' @
        lit ''utilize native database primitives before '' @
        lit ''introducing external lock managers.'')),
    (''source_path'', PyStr (lit ''content/02-master-draft.md:285-292'')),
    (''slide_num'', PyStr (lit ''21 / 24'')),
    (''layout'', PyStr (lit ''cards''))]\<rparr>\<close>

definition lab23_items_22 :: pyval where [lab23_contents]:
  \<open>lab23_items_22 =
   PyList
   [PyDict
     [(''type'', PyStr (lit ''code'')),
      (''title'', PyStr (lit ''COMMAND RUNNER (ZERO EXTERNAL DEPENDENCIES)'')),
      (''items'', PyList
        [PyStr (lit ''cd labs/23-optimistic-vs-pessimistic-locking''),
         PyStr (lit ''go test -v ./...    # verifikasi 6 test '' @
            lit ''skenario naive, pessimistic, optimistic & '' @ lit ''atomic''),
         PyStr (lit ''go test -race ./... # pembuktian '' @
            lit ''sinkronisasi konkuren bebas data race di Go '' @ lit ''memory''),
         PyStr (lit ''go run ./cmd/demo   # eksekusi demonstrasi '' @
            lit ''CLI interaktif kelima skenario berdampingan'')])]]\<close>

definition lab23_slide_22 :: pycall where [lab23_slides]:
  \<open>lab23_slide_22 =
   \<lparr>posargs = [],
  kwargs =
   [(''categories'', PyList
      [PyStr (lit ''REPRODUCTION''),
       PyStr (lit ''COMMANDS'')]),
    (''title'', PyStr (lit ''Reproduksi Mandiri di Mesin Lokal '' @ lit ''Menggunakan Go'')),
    (''subtitle'', PyStr (lit ''Verifikasi mandiri anomali lost update dan '' @
        lit ''ketiga strateginya tanpa dependensi.'')),
    (''content_items'', lab23_items_22),
    (''narrative'', PyStr (lit ''Seluruh pengujian dibangun murni '' @
        lit ''menggunakan pustaka standar Go tanpa modul '' @
        lit ''pihak ketiga. Eksperimen lokal ini '' @
        lit ''membuktikan logika locking di memori secara '' @
        lit ''cepat, namun production masih perlu '' @
        lit ''mengonfigurasi batas lock timeout dan query '' @
        lit ''analyzer pada database relasional yang '' @ lit ''sebenarnya.'')),
    (''narrative_en'', PyStr (lit ''The entire test harness runs purely on the '' @
        lit ''Go standard library without third-party '' @
        lit ''packages. While local execution validates '' @
        lit ''locking semantics in memory, production '' @
        lit ''systems still require configuring database '' @
        lit ''lock timeouts and monitoring contention '' @
        lit ''metrics on physical RDBMS clusters.'')),
    (''mental_model'', PyStr (lit ''Zero-dependency concurrency harnesses '' @
        lit ''provide rapid, deterministic validation of '' @
        lit ''distributed transactional patterns.'')),
    (''source_path'', PyStr (lit ''README.md:14-34'')),
    (''slide_num'', PyStr (lit ''22 / 24'')),
    (''layout'', PyStr (lit ''code''))]\<rparr>\<close>

definition lab23_items_23 :: pyval where [lab23_contents]:
  \<open>lab23_items_23 =
   PyList
   [PyDict
     [(''type'', PyStr (lit ''cards'')),
      (''title'', PyStr (lit ''TIGA PILAR PENGENDALIAN MUTASI DATA'')),
      (''items'', PyList
        [PyDict
          [(''title'', PyStr (lit ''Pessimistic: Data Kritis'')),
           (''desc'', PyStr (lit ''Pilihan utama bila tabrakan data berbiaya '' @
               lit ''tinggi dan pembatalan transaksi tidak dapat '' @
               lit ''ditoleransi pengguna.''))],
         PyDict
          [(''title'', PyStr (lit ''Optimistic: Skalabilitas Baca'')),
           (''desc'', PyStr (lit ''Pilihan optimal bila sistem dominan membaca '' @
               lit ''data dan volume konflik tulis berada di '' @ lit ''tingkat rendah.''))],
         PyDict
          [(''title'', PyStr (lit ''Atomic: Desain Sederhana'')),
           (''desc'', PyStr (lit ''Pilihan terbaik untuk mutasi numerik '' @
               lit ''tunggal; tidak otomatis rumit bila bisa '' @
               lit ''diselesaikan satu query.''))]])]]\<close>

definition lab23_slide_23 :: pycall where [lab23_slides]:
  \<open>lab23_slide_23 =
   \<lparr>posargs = [],
  kwargs =
   [(''categories'', PyList
      [PyStr (lit ''TAKEAWAY''),
       PyStr (lit ''ARCHITECTURAL PRINCIPLES'')]),
    (''title'', PyStr (lit ''Prinsip Inti: Tidak Ada Solusi Tunggal '' @ lit ''untuk Konkurensi'')),
    (''subtitle'', PyStr (lit ''Keseimbangan antara pencegahan proaktif, '' @
        lit ''deteksi optimistik, dan kesederhanaan.'')),
    (''content_items'', lab23_items_23),
    (''narrative'', PyStr (lit ''Kunci arsitektur transaksional yang matang '' @
        lit ''adalah menyesuaikan alat dengan '' @
        lit ''karakteristik kontensi data. Transaksi '' @
        lit ''kritis membutuhkan kepastian pemblokiran '' @
        lit ''pessimistic, aplikasi baca-banyak '' @
        lit ''memanfaatkan skalabilitas optimistic, dan '' @
        lit ''counter sederhana diselesaikan oleh query '' @
        lit ''atomik. Merancang sistem transaksional '' @
        lit ''tidak otomatis membutuhkan solusi rumit '' @
        lit ''bila kebutuhan mutasi dapat diakomodasi '' @
        lit ''oleh operasi atomik database.'')),
    (''narrative_en'', PyStr (lit ''Mature transactional engineering matches '' @
        lit ''synchronization primitives to domain '' @
        lit ''contention profiles. Mission-critical rows '' @
        lit ''require pessimistic certainty, read-heavy '' @
        lit ''workloads scale via optimistic guards, and '' @
        lit ''simple counters thrive on atomic updates. '' @
        lit ''Architecting concurrent systems does not '' @
        lit ''automatically require complex '' @
        lit ''infrastructure when native atomic '' @ lit ''statements suffice.'')),
    (''mental_model'', PyStr (lit ''Architectural excellence lies in pairing '' @
        lit ''contention patterns with the exact '' @
        lit ''concurrency primitive required.'')),
    (''source_path'', PyStr (lit ''content/05-key-takeaways.md:1-20'')),
    (''slide_num'', PyStr (lit ''23 / 24'')),
    (''layout'', PyStr (lit ''cards''))]\<rparr>\<close>

definition lab23_items_24 :: pyval where [lab23_contents]:
  \<open>lab23_items_24 =
   PyList
   [PyDict
     [(''type'', PyStr (lit ''bullet'')),
      (''title'', PyStr (lit ''MODUL IMPLEMENTASI'')),
      (''items'', PyList
        [PyStr (lit ''internal/inventory/model.go '' @ [0x2022] @
            lit '' internal/inventory/store.go''),
         PyStr (lit ''internal/inventory/service.go '' @ [0x2022] @ lit '' cmd/demo/main.go''),
         PyStr (lit ''tests/locking_test.go '' @ [0x2022] @ lit '' content/02-master-draft.md'')])],
    PyDict
     [(''type'', PyStr (lit ''bullet'')),
      (''title'', PyStr (lit ''VERIFIKASI & STATUS'')),
      (''items'', PyList
        [PyStr (lit ''Commit: '' @ str_prefix 7 lab23_COMMIT_SHA @ lit '' '' @ [0x2022] @
            lit '' Status: APPROVED''),
         PyStr (lit ''Test passing: 6 automated test scenarios '' @
            lit ''(LostUpdate, Pessimistic, '' @
            lit ''InsufficientStock, OptimisticConflict, '' @
            lit ''OptimisticRetry, AtomicUpdate)''),
         PyStr (lit ''Race detector: Clean (go test -race ./... '' @ lit ''PASS in 2.510s)''),
         PyStr (lit ''Zero external dependencies: 100% Go '' @ lit ''standard library.'')])]]\<close>

definition lab23_slide_24 :: pycall where [lab23_slides]:
  \<open>lab23_slide_24 =
   \<lparr>posargs = [],
  kwargs =
   [(''categories'', PyList
      [PyStr (lit ''CLOSING'')]),
    (''title'', PyStr (lit ''Lost Update adalah korupsi data diam-diam. '' @
        lit ''Transaksi biasa tidak mencegahnya; desain '' @
        lit ''penguncian yang tepat yang menyelesaikannya.'')),
    (''subtitle'', PyStr []),
    (''content_items'', lab23_items_24),
    (''mental_model'', PyStr (lit ''Lost updates are silent transactional '' @
        lit ''hazards eradicated only through deliberate, '' @
        lit ''explicit concurrency controls.'')),
    (''source_path'', PyStr lab23_REPO_URL),
    (''slide_num'', PyStr (lit ''24 / 24'')),
    (''layout'', PyStr (lit ''closing''))]\<rparr>\<close>

definition lab23_calls :: "pycall list" where
  "lab23_calls =
    [lab23_slide_01, lab23_slide_02, lab23_slide_03, lab23_slide_04, lab23_slide_05,
     lab23_slide_06, lab23_slide_07, lab23_slide_08, lab23_slide_09, lab23_slide_10,
     lab23_slide_11, lab23_slide_12, lab23_slide_13, lab23_slide_14, lab23_slide_15,
     lab23_slide_16, lab23_slide_17, lab23_slide_18, lab23_slide_19, lab23_slide_20,
     lab23_slide_21, lab23_slide_22, lab23_slide_23, lab23_slide_24]"

definition lab23_deck :: deck where
  "lab23_deck =
    \<lparr>add_slide = lab23_add_slide, lab_no = lab23_LAB_NO, title_id = lab23_TITLE_ID, calls = lab23_calls\<rparr>"

section \<open>Checks of the calls\<close>

lemma lab23_shapes:
  "\<forall>c \<in> set lab23_calls. shape_of c \<in> set
    [(0, [''categories'', ''title'', ''subtitle'', ''content_items'', ''mental_model'',
      ''source_path'', ''slide_num'', ''layout'']),
     (0, [''categories'', ''title'', ''subtitle'', ''content_items'', ''narrative'',
      ''narrative_en'', ''mental_model'', ''source_path'', ''slide_num'', ''layout''])]"
  by (simp only: lab23_calls_def lab23_slides shape_eval cong: pyval_opaque)

lemma lab23_calls_ok: "\<forall>c \<in> set lab23_calls. call_ok sig_layout_en c"
  by (rule calls_ok_by_shapes [OF lab23_shapes])
    (simp add: shape_ok_def param_names_def signature_defs core_params_def)

lemma lab23_labels: "map (\<lambda>c. value_of sig_layout_en c ''slide_num'') lab23_calls = labels_24"
  by (simp only: lab23_calls_def lab23_slides keyword_eval labels_24_eval cong: pyval_opaque)

lemma lab23_contents_of:
  "map (\<lambda>c. value_of sig_layout_en c ''content_items'') lab23_calls =
    [lab23_items_01, lab23_items_02, lab23_items_03, lab23_items_04, lab23_items_05,
     lab23_items_06, lab23_items_07, lab23_items_08, lab23_items_09, lab23_items_10,
     lab23_items_11, lab23_items_12, lab23_items_13, lab23_items_14, lab23_items_15,
     lab23_items_16, lab23_items_17, lab23_items_18, lab23_items_19, lab23_items_20,
     lab23_items_21, lab23_items_22, lab23_items_23, lab23_items_24]"
  by (simp only: lab23_calls_def lab23_slides keyword_eval cong: pyval_opaque)

lemma lab23_items: "item_defects sig_layout_en lab23_calls = []"
  by (simp only: item_defects_def lab23_contents_of)
    (simp add: lab23_contents item_eval cong: pystr_opaque)

end
