(* ===== verification/Deck24.thy ===== *)
theory Deck24
  imports DeckContract
begin

text \<open>
  The publication definition of lab 24, \<^verbatim>\<open>labs/24-slo-sli-error-budget/result/content_def.py\<close>:
  its module constants, every \<open>add_slide\<close> call in order (\<open>lab24_slide_01\<close> is the first),
  and the module as a whole (\<open>lab24_deck\<close>). Long strings are split into pieces that are
  concatenated; a character outside ASCII is its code point.
\<close>

named_theorems lab24_slides \<open>the add_slide calls of lab 24\<close>
named_theorems lab24_contents \<open>their content_items arguments\<close>

definition lab24_COVER_IMAGE_PATH :: pystr where
  \<open>lab24_COVER_IMAGE_PATH = lit ''labs/24-slo-sli-error-budget/result/image-co'' @ lit ''ver/cover_art.jpg''\<close>

definition lab24_REPO_URL :: pystr where
  \<open>lab24_REPO_URL = lit ''https://github.com/lukman-ss/software-engine'' @
    lit ''ering-lab/tree/main/labs/24-slo-sli-error-bu'' @ lit ''dget''\<close>

definition lab24_COMMIT_SHA :: pystr where
  \<open>lab24_COMMIT_SHA = lit ''13224b48a35ba08f4a350b7d160ae4826f9e1f55''\<close>

definition lab24_LAB_NO :: pystr where
  \<open>lab24_LAB_NO = lit ''24''\<close>

definition lab24_SLUG :: pystr where
  \<open>lab24_SLUG = lit ''slo-sli-error-budget''\<close>

definition lab24_TITLE_ID :: pystr where
  \<open>lab24_TITLE_ID = lit ''SLO, SLI & Error Budget''\<close>

definition lab24_SUBTITLE_ID :: pystr where
  \<open>lab24_SUBTITLE_ID = lit ''Mengubah '' @ [39] @ lit ''Harus Stabil'' @ [39] @
    lit '' Menjadi Angka yang Bisa Dideploy''\<close>

definition lab24_TITLE_EN :: pystr where
  \<open>lab24_TITLE_EN = lit ''SLO, SLI & Error Budget''\<close>

definition lab24_SUBTITLE_EN :: pystr where
  \<open>lab24_SUBTITLE_EN = lit ''Turning '' @ [39] @ lit ''Must Be Stable'' @ [39] @
    lit '' Into Deployable Numbers''\<close>

definition lab24_AUTHOR :: pystr where
  \<open>lab24_AUTHOR = lit ''Lukman / lukman-ss''\<close>

definition lab24_DARK_NAVY :: pystr where
  \<open>lab24_DARK_NAVY = lit ''0b1b2d''\<close>

definition lab24_TEAL :: pystr where
  \<open>lab24_TEAL = lit ''087f76''\<close>

definition lab24_CREAM :: pystr where
  \<open>lab24_CREAM = lit ''f4f1e8''\<close>

definition lab24_WHITE :: pystr where
  \<open>lab24_WHITE = lit ''ffffff''\<close>

definition lab24_SLATE :: pystr where
  \<open>lab24_SLATE = lit ''52606b''\<close>

definition lab24_ORANGE :: pystr where
  \<open>lab24_ORANGE = lit ''d97706''\<close>

definition lab24_RED :: pystr where
  \<open>lab24_RED = lit ''c0392b''\<close>

definition lab24_GREEN :: pystr where
  \<open>lab24_GREEN = lit ''27ae60''\<close>

definition lab24_add_slide :: "pycall \<Rightarrow> pyval list \<Rightarrow> (pyexc, pyval list) res" where
  "lab24_add_slide = add_slide_en"

definition lab24_items_01 :: pyval where [lab24_contents]:
  \<open>lab24_items_01 =
   PyList
   [PyDict
     [(''type'', PyStr (lit ''cover'')),
      (''title'', PyStr []),
      (''image'', PyStr lab24_COVER_IMAGE_PATH),
      (''items'', PyList
        [PyStr (lit ''Penulis: '' @ lab24_AUTHOR),
         PyStr (lit ''Go '' @ [0x2022] @ lit '' Internal Metrics '' @ [0x2022] @
            lit '' Alerting Engine''),
         PyStr (lit ''LAB '' @ lab24_LAB_NO @ lit '' | SOFTWARE ENGINEERING LAB'')])]]\<close>

definition lab24_slide_01 :: pycall where [lab24_slides]:
  \<open>lab24_slide_01 =
   \<lparr>posargs = [],
  kwargs =
   [(''categories'', PyList
      [PyStr (lit ''COVER'')]),
    (''title'', PyStr lab24_TITLE_ID),
    (''subtitle'', PyStr lab24_SUBTITLE_ID),
    (''content_items'', lab24_items_01),
    (''mental_model'', PyStr []),
    (''source_path'', PyStr []),
    (''slide_num'', PyStr (lit ''01 / 24'')),
    (''narrative'', PyStr (lit ''Lab ini mengimplementasikan kerangka kerja '' @
        lit ''SLO/SLI/Error Budget berbasis prinsip '' @
        lit ''Google SRE menggunakan Go. Sistem melacak '' @
        lit ''event request secara real-time melalui '' @
        lit ''sliding window, menghitung rasio keandalan '' @
        lit ''pengguna, dan memicu alert burn rate '' @
        lit ''multi-jendela untuk mengunci deployment '' @
        lit ''ketika error budget habis.'')),
    (''narrative_en'', PyStr (lit ''This lab implements a Google SRE'' @ [0x2013] @
        lit ''based SLO/SLI/Error Budget framework in Go. '' @
        lit ''The system tracks request events in real '' @
        lit ''time via sliding windows, calculates '' @
        lit ''user-facing reliability ratios, and '' @
        lit ''triggers multi-window burn rate alerts to '' @
        lit ''halt deployments when the error budget is '' @ lit ''exhausted.''))]\<rparr>\<close>

definition lab24_items_02 :: pyval where [lab24_contents]:
  \<open>lab24_items_02 =
   PyList
   [PyDict
     [(''title'', PyStr (lit ''FALSE SAFETY'')),
      (''items'', PyList
        [PyStr (lit ''CPU idle 30%, RAM usage normal '' @ [0x2192] @
            lit '' dashboard hijau semua''),
         PyStr (lit ''Tapi error rate 5% (5xx) pada endpoint utama''),
         PyStr (lit ''Tim infrastruktur tidak melihat masalah '' @
            lit ''karena metrik internal stabil'')]),
      (''type'', PyStr (lit ''bullet''))],
    PyDict
     [(''title'', PyStr (lit ''DEPLOYMENT CHAOS'')),
      (''items'', PyList
        [PyStr (lit ''Tanpa angka keandalan, setiap release = '' @ lit ''tebak-tebakan risiko''),
         PyStr (lit ''Tidak ada kriteria objektif untuk '' @ lit ''stop/deploy''),
         PyStr (lit ''Reliability jadi opini, bukan keputusan '' @ lit ''berbasis data'')]),
      (''type'', PyStr (lit ''bullet''))],
    PyDict
     [(''title'', PyStr (lit ''DWELL TIME INCIDENT'')),
      (''items'', PyList
        [PyStr (lit ''Tanpa error budget, tim baru sadar saat '' @
            lit ''pengguna melaporkan bug massal''),
         PyStr (lit ''Dwell time insiden berhari-hari sebelum '' @ lit ''terdeteksi''),
         PyStr (lit ''Satu incident bisa menghabiskan uptime '' @ lit ''setahun sekaligus'')]),
      (''type'', PyStr (lit ''bullet''))]]\<close>

definition lab24_slide_02 :: pycall where [lab24_slides]:
  \<open>lab24_slide_02 =
   \<lparr>posargs = [],
  kwargs =
   [(''categories'', PyList
      [PyStr (lit ''MOTIVASI''),
       PyStr (lit ''MASALAH'')]),
    (''title'', PyStr (lit ''Infrastruktur Sehat, Pengguna Error'')),
    (''title_en'', PyStr (lit ''Healthy Infrastructure, Broken User '' @ lit ''Experience'')),
    (''subtitle'', PyStr (lit ''Metrik CPU dan memory tidak membaca '' @ lit ''pengalaman pengguna '' @
        [0x2014] @ lit '' false sense of safety.'')),
    (''content_items'', lab24_items_02),
    (''narrative'', PyStr (lit ''Masalah fundamental di industri: tim '' @
        lit ''keandalan mengukur server health via metrik '' @
        lit ''infrastructure (CPU, RAM, disk) yang tidak '' @
        lit ''berkorelasi dengan pengalaman pengguna '' @
        lit ''akhir. Hasilnya, dashboard selalu hijau '' @
        lit ''sementara error rate di lapisan aplikasi '' @
        lit ''meningkat tanpa peringatan. Tanpa framework '' @
        lit ''SLO, tidak ada tolok ukur objektif untuk '' @
        lit ''menentukan kapan deployment harus '' @
        lit ''dihentikan demi fokus pada stabilitas.'')),
    (''narrative_en'', PyStr (lit ''The core industry problem: reliability '' @
        lit ''teams measure server health via '' @
        lit ''infrastructure metrics (CPU, RAM, disk) '' @
        lit ''that do not correlate with end-user '' @
        lit ''experience. The result is always-green '' @
        lit ''dashboards while application-layer error '' @
        lit ''rates climb silently. Without an SLO '' @
        lit ''framework, there is no objective benchmark '' @
        lit ''for when deployments must pause to focus on '' @ lit ''stability.'')),
    (''mental_model'', PyStr (lit ''Infrastructure metrics track machines; SLOs '' @
        lit ''track users. Always measure what the '' @ lit ''customer experiences.'')),
    (''source_path'', PyStr (lit ''labs/24-slo-sli-error-budget/content/02-mast'' @ lit ''er-draft.md'')),
    (''slide_num'', PyStr (lit ''02 / 24''))]\<rparr>\<close>

definition lab24_items_03 :: pyval where [lab24_contents]:
  \<open>lab24_items_03 =
   PyList
   [PyDict
     [(''title'', PyStr (lit ''THRESHOLD STATIS'')),
      (''items'', PyList
        [PyStr (lit ''Alert jika error rate > 1% '' @ [0x2192] @
            lit '' terlalu sensitif terhadap lalu lintas '' @ lit ''rendah''),
         PyStr (lit ''Spike 10 error dari 100 request = 10%, tapi '' @
            lit ''dari 1.000.000 = 0.001%''),
         PyStr (lit ''Satu threshold tidak bisa menangkap kedua '' @ lit ''skenario ini'')]),
      (''type'', PyStr (lit ''bullet''))],
    PyDict
     [(''title'', PyStr (lit ''METRIK INFRASTRUKTUR'')),
      (''items'', PyList
        [PyStr (lit ''CPU spike '' @ [0x2260] @
            lit '' error rate; memory leak bisa terjadi tanpa '' @ lit ''CPU pressure''),
         PyStr (lit ''Error rate bisa stabil meski latency P99 '' @ lit ''memburuk drastis''),
         PyStr (lit ''Monitor infrastructure blind terhadap '' @ lit ''user-perceived failures'')]),
      (''type'', PyStr (lit ''bullet''))],
    PyDict
     [(''title'', PyStr (lit ''NO DECISION FRAMEWORK'')),
      (''items'', PyList
        [PyStr (lit ''Tanpa error budget, pertanyaan '' @ [39] @ lit ''apakah boleh deploy?'' @
            [39] @ lit '' tidak terjawab''),
         PyStr (lit ''Decision berbasis feeling vs berdasarkan '' @
            lit ''data consumption rate''),
         PyStr (lit ''Tim engineering kehilangan signal untuk '' @ lit ''auto-halt policy'')]),
      (''type'', PyStr (lit ''bullet''))]]\<close>

definition lab24_slide_03 :: pycall where [lab24_slides]:
  \<open>lab24_slide_03 =
   \<lparr>posargs = [],
  kwargs =
   [(''categories'', PyList
      [PyStr (lit ''BATAS''),
       PyStr (lit ''PENDekatan'')]),
    (''title'', PyStr (lit ''Mengapa Pendekatan Naif Gagal di Produksi'')),
    (''title_en'', PyStr (lit ''Why a Naive Approach Fails in Production'')),
    (''subtitle'', PyStr (lit ''Threshold statis dan alert tunggal tidak '' @
        lit ''bisa membedakan spike transien dari insiden '' @ lit ''nyata.'')),
    (''content_items'', lab24_items_03),
    (''narrative'', PyStr (lit ''Pendekatan konvensional mengandalkan '' @
        lit ''threshold statis pada metrik infrastruktur. '' @
        lit ''Masalah utamanya adalah ambang batas '' @
        lit ''tunggal tidak bisa membedakan antara spike '' @
        lit ''transient dengan insiden nyata. Contoh: 10 '' @
        lit ''error dari 100 request terlihat kritis '' @
        lit ''(10%), tetapi 10 error dari 1.000.000 '' @
        lit ''request hampir tidak bermakna (0.001%). '' @
        lit ''Alert engine dengan single threshold akan '' @
        lit ''memberikan false positive tinggi atau false '' @
        lit ''negative tergantung konfigurasi.'')),
    (''narrative_en'', PyStr (lit ''Conventional approaches rely on static '' @
        lit ''thresholds on infrastructure metrics. The '' @
        lit ''flaw is a single threshold cannot '' @
        lit ''distinguish transient spikes from genuine '' @
        lit ''incidents. For example, 10 errors from 100 '' @
        lit ''requests looks critical (10%), but 10 '' @
        lit ''errors from 1,000,000 requests is '' @
        lit ''negligible (0.001%). Single-threshold '' @
        lit ''alerts produce either high false positives '' @
        lit ''or high false negatives.'')),
    (''mental_model'', PyStr (lit ''Static thresholds confuse noise with '' @
        lit ''signal; multi-window burn rate separates '' @ lit ''them.'')),
    (''source_path'', PyStr (lit ''labs/24-slo-sli-error-budget/content/02-mast'' @ lit ''er-draft.md'')),
    (''slide_num'', PyStr (lit ''03 / 24''))]\<rparr>\<close>

definition lab24_items_04 :: pyval where [lab24_contents]:
  \<open>lab24_items_04 =
   PyList
   [PyDict
     [(''title'', PyStr (lit ''FORMULA INTI'')),
      (''items'', PyList
        [PyStr (lit ''SLO: Target keandalan realistis (99.9% = '' @ lit ''tiga sembilan)''),
         PyStr (lit ''SLI: Ukuran aktual yang dihitung dari '' @ lit ''good/total events''),
         PyStr (lit ''Error Budget: 1 '' @ [0x2212] @
            lit '' SLO = toleransi kesalahan yang diizinkan'')]),
      (''type'', PyStr (lit ''code''))],
    PyDict
     [(''title'', PyStr (lit ''ANALOGI DOMPET'')),
      (''items'', PyList
        [PyStr (lit ''SLO 99.9% '' @ [0x2192] @ lit '' 0.1% budget = 1 dollar per 1000 request''),
         PyStr (lit ''Setiap bad event = pengeluaran 1 dollar '' @ lit ''dari dompet''),
         PyStr (lit ''Budget habis '' @ [0x2192] @ lit '' stop deploy, fokus perbaikan'')]),
      (''type'', PyStr (lit ''code''))],
    PyDict
     [(''title'', PyStr (lit ''BURN RATE'')),
      (''items'', PyList
        [PyStr (lit ''Burn Rate = actual_error_rate / '' @ lit ''allowed_error_rate''),
         PyStr (lit ''14.4x = budget habis dalam 2% waktu (fast '' @ lit ''burn)''),
         PyStr (lit ''6.0x = budget habis dalam 5% waktu (slow '' @ lit ''burn)'')]),
      (''type'', PyStr (lit ''code''))]]\<close>

definition lab24_slide_04 :: pycall where [lab24_slides]:
  \<open>lab24_slide_04 =
   \<lparr>posargs = [],
  kwargs =
   [(''categories'', PyList
      [PyStr (lit ''MENTAL MODEL''),
       PyStr (lit ''SKEMA'')]),
    (''title'', PyStr (lit ''Mental Model: Reliability '' @ [0x2260] @ lit '' 100%'')),
    (''title_en'', PyStr (lit ''Mental Model: Reliability Is Not 100%'')),
    (''subtitle'', PyStr (lit ''Error budget adalah '' @ [39] @ lit ''uang'' @ [39] @
        lit '' yang bisa dihabiskan untuk inovasi '' @ [0x2014] @
        lit '' kalau habis, berhenti.'')),
    (''content_items'', lab24_items_04),
    (''narrative'', PyStr (lit ''Model mental SLO/Error Budget mengubah '' @ lit ''kepercayaan subjektif '' @
        [39] @ lit ''layanan harus stabil'' @ [39] @
        lit '' menjadi kerangka numerik yang dapat '' @
        lit ''ditindaklanjuti. SLO menetapkan target yang '' @ lit ''wajar '' @ [0x2014] @
        lit '' bukan 100% yang mustahil '' @ [0x2014] @
        lit '' dan selisihnya menjadi error budget. '' @
        lit ''Setiap event buruk mengonsumi budget. Burn '' @
        lit ''rate mempercepat perhitungan: 14.4x artinya '' @
        lit ''budget akan habis 14.4 kali lebih cepat '' @
        lit ''dari yang diizinkan, memberi peringatan '' @ lit ''dini sebelum krisis.'')),
    (''narrative_en'', PyStr (lit ''The SLO/Error Budget mental model '' @ lit ''transforms subjective '' @ [39] @
        lit ''service must be stable'' @ [39] @
        lit '' into a numerically actionable framework. '' @
        lit ''SLO sets a realistic target '' @ [0x2014] @
        lit '' not 100% which is impossible '' @ [0x2014] @
        lit '' and the gap becomes the error budget. Each '' @
        lit ''bad event spends from that budget. Burn '' @
        lit ''rate accelerates the timeline: 14.4x means '' @
        lit ''the budget will be exhausted 14.4 times '' @
        lit ''faster, providing early warning before '' @ lit ''crisis.'')),
    (''mental_model'', PyStr (lit ''Error budget is spendable risk capital. '' @
        lit ''When it runs out, innovation pauses until '' @ lit ''reliability recovers.'')),
    (''source_path'', PyStr (lit ''labs/24-slo-sli-error-budget/internal/slo/ev'' @ lit ''aluator.go'')),
    (''slide_num'', PyStr (lit ''04 / 24''))]\<rparr>\<close>

definition lab24_items_05 :: pyval where [lab24_contents]:
  \<open>lab24_items_05 =
   PyList
   [PyDict
     [(''title'', PyStr (lit ''DATA FLOW'')),
      (''items'', PyList
        [PyStr (lit ''Event{Timestamp, Duration, StatusCode, '' @ lit ''Endpoint}''),
         PyStr ([0x2193] @ lit '' WindowTracker.Record() (RWMutex + bucket '' @
            lit ''eviction)''),
         PyStr ([0x2193] @ lit '' Summary(now) '' @ [0x2192] @
            lit '' (total, good, bad) for window''),
         PyStr ([0x2193] @ lit '' Evaluator.Evaluate() '' @ [0x2192] @
            lit '' SLI, Budget Remaining, CanDeploy''),
         PyStr ([0x2193] @ lit '' AlertEngine.Check() '' @ [0x2192] @
            lit '' Multi-window Burn Rate Alerts'')]),
      (''type'', PyStr (lit ''code''))],
    PyDict
     [(''title'', PyStr (lit ''KOMPONEN'')),
      (''items'', PyList
        [PyStr (lit ''metrics.WindowTracker '' @ [0x2014] @
            lit '' sliding window, O(bucket_count) query''),
         PyStr (lit ''slo.Evaluator '' @ [0x2014] @
            lit '' SLI calculation, budget math, deploy gate''),
         PyStr (lit ''alerting.AlertEngine '' @ [0x2014] @
            lit '' dual-window burn rate threshold check'')]),
      (''type'', PyStr (lit ''code''))],
    PyDict
     [(''title'', PyStr (lit ''TIME WINDOWS'')),
      (''items'', PyList
        [PyStr (lit ''SLO tracker: window 30d (compressed to '' @ lit ''30min in demo)''),
         PyStr (lit ''Alert short tracker: 5 minutes''),
         PyStr (lit ''Alert long tracker: 60 minutes'')]),
      (''type'', PyStr (lit ''code''))]]\<close>

definition lab24_slide_05 :: pycall where [lab24_slides]:
  \<open>lab24_slide_05 =
   \<lparr>posargs = [],
  kwargs =
   [(''categories'', PyList
      [PyStr (lit ''ARSITEKTUR''),
       PyStr (lit ''PIPELINE'')]),
    (''title'', PyStr (lit ''Pipeline: Event '' @ [0x2192] @ lit '' Tracker '' @ [0x2192] @
        lit '' Evaluator '' @ [0x2192] @ lit '' Alert'')),
    (''title_en'', PyStr (lit ''Pipeline: Event to Alert'')),
    (''subtitle'', PyStr (lit ''Arsitektur tiga komponen: WindowTracker '' @
        lit ''untuk aggregasi, Evaluator untuk SLO, '' @
        lit ''AlertEngine untuk burn rate.'')),
    (''content_items'', lab24_items_05),
    (''narrative'', PyStr (lit ''Arsitektur pipeline terdiri dari tiga '' @
        lit ''komponen utama yang terkomposisikan secara '' @
        lit ''modular. WindowTracker menerima event HTTP '' @
        lit ''(status code, duration, endpoint) dan '' @
        lit ''mengelompokkannya ke dalam bucket '' @
        lit ''time-series berdasarkan bucketSize. '' @
        lit ''Evaluator memanggil Summary() untuk '' @
        lit ''mendapatkan agregat good/bad/total, lalu '' @
        lit ''menghitung SLI ratio dan sisa error budget. '' @
        lit ''AlertEngine menggunakan dua tracker '' @
        lit ''terpisah (short dan long window) untuk '' @
        lit ''menghitung burn rate dan memutuskan apakah '' @
        lit ''alert harus di-trigger.'')),
    (''narrative_en'', PyStr (lit ''The pipeline architecture comprises three '' @
        lit ''modularly composed components. '' @
        lit ''WindowTracker accepts HTTP events and '' @
        lit ''buckets them by time. Evaluator calls '' @
        lit ''Summary() to get good/bad/total aggregates, '' @
        lit ''then computes the SLI ratio and remaining '' @
        lit ''error budget. AlertEngine uses two separate '' @
        lit ''trackers to calculate burn rate across '' @
        lit ''short and long windows, deciding whether to '' @ lit ''trigger an alert.'')),
    (''mental_model'', PyStr (lit ''Events flow through a read-optimized '' @
        lit ''pipeline: record lock-free, summarize '' @ lit ''locked, evaluate stateless.'')),
    (''source_path'', PyStr (lit ''labs/24-slo-sli-error-budget/cmd/demo/main.g'' @ lit ''o'')),
    (''slide_num'', PyStr (lit ''05 / 24''))]\<rparr>\<close>

definition lab24_items_06 :: pyval where [lab24_contents]:
  \<open>lab24_items_06 =
   PyList
   [PyDict
     [(''title'', PyStr (lit ''RECORD METHOD (tracker.go:46)'')),
      (''items'', PyList
        [PyStr (lit ''func (w *WindowTracker) Record(e Event) {''),
         PyStr (lit ''    w.mu.Lock()''),
         PyStr (lit ''    defer w.mu.Unlock()''),
         PyStr (lit ''    w.evictStaleLocked(e.Timestamp)''),
         PyStr (lit ''    bucketStart := '' @ lit ''e.Timestamp.Truncate(w.bucketSize)''),
         PyStr (lit ''    // insert/update bucket in-order ...''),
         PyStr (lit ''}'')]),
      (''type'', PyStr (lit ''code''))],
    PyDict
     [(''title'', PyStr (lit ''EVICT LOGIC'')),
      (''items'', PyList
        [PyStr (lit ''cutoff := now.Add(-w.windowSize)''),
         PyStr (lit ''idx := 0''),
         PyStr (lit ''for idx < len(w.buckets) && '' @
            lit ''buckets[idx].StartTime.Before(cutoff) {''),
         PyStr (lit ''    idx++''),
         PyStr (lit ''}''),
         PyStr (lit ''w.buckets = w.buckets[idx:]'')]),
      (''type'', PyStr (lit ''code''))]]\<close>

definition lab24_slide_06 :: pycall where [lab24_slides]:
  \<open>lab24_slide_06 =
   \<lparr>posargs = [],
  kwargs =
   [(''categories'', PyList
      [PyStr (lit ''KODE''),
       PyStr (lit ''METRICS'')]),
    (''title'', PyStr (lit ''WindowTracker: Sliding Window dengan '' @ lit ''Out-of-Order Support'')),
    (''title_en'', PyStr (lit ''WindowTracker: Sliding Window with '' @ lit ''Out-of-Order Support'')),
    (''subtitle'', PyStr (lit ''RWMutex menjamin thread-safety; bucket '' @
        lit ''insertion menjaga urutan kronologis.'')),
    (''content_items'', lab24_items_06),
    (''narrative'', PyStr (lit ''WindowTracker menggunakan sync.RWMutex '' @
        lit ''untuk menjamin thread-safety saat ratusan '' @
        lit ''goroutine merekam event secara konkuren. '' @
        lit ''Metode Record() membuka lock, mengevict '' @
        lit ''bucket yang sudah melewati windowSize, lalu '' @
        lit ''mencari atau membuat bucket baru untuk '' @
        lit ''timestamp yang ditruncate ke bucketSize. '' @
        lit ''Jika timestamp datang out-of-order, bucket '' @
        lit ''disisipkan di posisi yang benar menggunakan '' @ lit ''linear search '' @
        [0x2014] @ lit '' memastikan slice selalu terurut untuk '' @
        lit ''eviction yang efisien.'')),
    (''narrative_en'', PyStr (lit ''WindowTracker uses sync.RWMutex for '' @
        lit ''thread-safety when hundreds of goroutines '' @
        lit ''record events concurrently. Record() opens '' @
        lit ''a lock, evicts buckets past windowSize, '' @
        lit ''then searches for or creates a new bucket '' @
        lit ''for the truncated timestamp. If timestamps '' @
        lit ''arrive out-of-order, the bucket is inserted '' @
        lit ''at the correct position via linear search, '' @
        lit ''ensuring the slice stays sorted for '' @ lit ''efficient eviction.'')),
    (''mental_model'', PyStr (lit ''Sorted bucket insertion + stale eviction = '' @
        lit ''O(1) amortized summary on sliding windows.'')),
    (''source_path'', PyStr (lit ''labs/24-slo-sli-error-budget/internal/metric'' @ lit ''s/tracker.go'')),
    (''slide_num'', PyStr (lit ''06 / 24''))]\<rparr>\<close>

definition lab24_items_07 :: pyval where [lab24_contents]:
  \<open>lab24_items_07 =
   PyList
   [PyDict
     [(''title'', PyStr (lit ''STEP 1 '' @ [0x2014] @ lit '' DEPLOY REGRESI'')),
      (''items'', PyList
        [PyStr (lit ''Deployment baru mengubah latency P95 dari '' @ lit ''50ms '' @ [0x2192] @
            lit '' 500ms''),
         PyStr (lit ''isGood predicate: StatusCode < 500 && '' @ lit ''Duration <= 200ms''),
         PyStr (lit ''Semua request baru sekarang dihitung '' @ [39] @ lit ''bad'' @ [39] @
            lit '' karena latency threshold dilampaui'')]),
      (''type'', PyStr (lit ''bullet''))],
    PyDict
     [(''title'', PyStr (lit ''STEP 2 '' @ [0x2014] @ lit '' BUDGET DIMAKAN'')),
      (''items'', PyList
        [PyStr (lit ''SLO 99.9% '' @ [0x2192] @ lit '' allowed error rate = 0.1%''),
         PyStr (lit ''Dengan 10% error rate dari latency '' @ lit ''regression '' @ [0x2192] @
            lit '' burn rate = 100x''),
         PyStr (lit ''Total error budget untuk 1000 request = 1 '' @
            lit ''event; 10 bad = -9 remaining'')]),
      (''type'', PyStr (lit ''bullet''))],
    PyDict
     [(''title'', PyStr (lit ''STEP 3 '' @ [0x2014] @ lit '' ALERT & HALT'')),
      (''items'', PyList
        [PyStr (lit ''AlertEngine.Check() membandingkan short + '' @ lit ''long burn rate''),
         PyStr (lit ''Kedua window >= 6.0x '' @ [0x2192] @ lit '' TICKET alert triggered''),
         PyStr (lit ''Evaluator.CanDeploy = false '' @ [0x2192] @
            lit '' deployment pipeline berhenti otomatis'')]),
      (''type'', PyStr (lit ''bullet''))]]\<close>

definition lab24_slide_07 :: pycall where [lab24_slides]:
  \<open>lab24_slide_07 =
   \<lparr>posargs = [],
  kwargs =
   [(''categories'', PyList
      [PyStr (lit ''FAILURE PATH''),
       PyStr (lit ''INSIDEN'')]),
    (''title'', PyStr (lit ''Failure Path: Regresi Latency Menghabiskan '' @ lit ''Budget'')),
    (''title_en'', PyStr (lit ''Failure Path: Latency Regression Exhausts '' @ lit ''Budget'')),
    (''subtitle'', PyStr (lit ''Alur kegagalan dari deploy regresi hingga '' @
        lit ''CanDeploy=false dalam hitungan menit.'')),
    (''content_items'', lab24_items_07),
    (''narrative'', PyStr (lit ''Failure path ini menggambarkan skenario '' @
        lit ''nyata: tim deploy fitur baru yang '' @
        lit ''Introduces latency regression. Request yang '' @
        lit ''sebelumnya latency-nya 50ms kini menjadi '' @
        lit ''500ms, melewati threshold 200ms yang '' @
        lit ''didefinisikan closure isGood. Setiap '' @
        lit ''request buruk mengonsumi error budget '' @
        lit ''99.9%. Dengan 10% error rate, burn rate '' @ lit ''mencapai 100x '' @
        [0x2014] @ lit '' budget 30 hari akan habis dalam 43 menit. '' @
        lit ''Alert sistem memaksa tim menghentikan semua '' @ lit ''deployment non-P0.'')),
    (''narrative_en'', PyStr (lit ''This failure path depicts a real scenario: '' @
        lit ''a team deploys a feature introducing '' @
        lit ''latency regression. Requests previously at '' @
        lit ''50ms latency now take 500ms, exceeding the '' @
        lit ''200ms threshold defined by the isGood '' @
        lit ''closure. Each bad event consumes the 99.9% '' @
        lit ''error budget. At 10% error rate, burn rate '' @ lit ''hits 100x '' @
        [0x2014] @ lit '' the 30-day budget exhausts in 43 minutes. '' @
        lit ''The alert system forces all non-P0 '' @ lit ''deployments to halt.'')),
    (''mental_model'', PyStr (lit ''Budget exhaustion is a leading indicator: '' @
        lit ''catch it before users file tickets.'')),
    (''source_path'', PyStr (lit ''labs/24-slo-sli-error-budget/content/02-mast'' @ lit ''er-draft.md'')),
    (''slide_num'', PyStr (lit ''07 / 24''))]\<rparr>\<close>

definition lab24_items_08 :: pyval where [lab24_contents]:
  \<open>lab24_items_08 =
   PyList
   [PyDict
     [(''title'', PyStr (lit ''TIPE METRIK'')),
      (''items'', PyList
        [PyStr (lit ''Metrik | Sifat | Hubungan ke Pengguna | '' @ lit ''Alert Respons''),
         PyStr (lit ''CPU Usage | Internal system | Tidak '' @
            lit ''langsung (korosi lemah) | Sangat lamban''),
         PyStr (lit ''Memory Leak | Internal system | Tidak '' @
            lit ''langsung (korosi lambat) | Lamban ( hours)''),
         PyStr (lit ''Error Rate (SLI) | User-perceived | '' @
            lit ''Langsung dan real-time | Menit''),
         PyStr (lit ''Latency P99 (SLI) | User-perceived | '' @
            lit ''Langsung dan real-time | Menit''),
         PyStr (lit ''Burn Rate |'' @ [0x590D, 0x5408] @
            lit '' metric | Prediktif (forecasting) | Jam'')]),
      (''type'', PyStr (lit ''table''))],
    PyDict
     [(''title'', PyStr (lit ''RESPONS TIM'')),
      (''items'', PyList
        [PyStr (lit ''Infrastruktur alert: tim ops merespons, '' @ lit ''tapi tidak tahu '' @
            [39] @ lit ''berapa parah'' @ [39]),
         PyStr (lit ''SLO alert: tim engineering tahu persis '' @
            lit ''berapa persen budget tersisa''),
         PyStr (lit ''Error budget policy: data-driven decision '' @ lit ''untuk stop/deploy'')]),
      (''type'', PyStr (lit ''bullet''))]]\<close>

definition lab24_slide_08 :: pycall where [lab24_slides]:
  \<open>lab24_slide_08 =
   \<lparr>posargs = [],
  kwargs =
   [(''categories'', PyList
      [PyStr (lit ''TABEL''),
       PyStr (lit ''KOMPARASI'')]),
    (''title'', PyStr (lit ''Mekanisme vs Gejala: Apa yang Terukur'')),
    (''title_en'', PyStr (lit ''Mechanism vs Symptom: What Gets Measured'')),
    (''subtitle'', PyStr (lit ''Perbandingan metrik infrastruktur '' @
        lit ''konvensional vs SLO-based observability.'')),
    (''content_items'', lab24_items_08),
    (''narrative'', PyStr (lit ''Tabel ini membandingkan dua paradigm '' @
        lit ''observability: metrik infrastruktur '' @
        lit ''tradisional yang mengukur kesehatan mesin '' @
        lit ''versus SLO-based metrics yang mengukur '' @
        lit ''pengalaman pengguna. CPU dan memory adalah '' @ lit ''diagnostic signal '' @
        [0x2014] @ lit '' berguna untuk debugging setelah incident, '' @
        lit ''tapi tidak prediktif. SLI seperti error '' @
        lit ''rate dan latency P99 memberikan sinyal '' @
        lit ''real-time langsung dari perspektif '' @
        lit ''pengguna, memungkinkan tim merespons '' @
        lit ''sebelum masalah menjadi sistemik.'')),
    (''narrative_en'', PyStr (lit ''This table contrasts two observability '' @
        lit ''paradigms: traditional infrastructure '' @
        lit ''metrics measuring machine health versus '' @
        lit ''SLO-based metrics measuring user '' @
        lit ''experience. CPU and memory are diagnostic '' @ lit ''signals '' @ [0x2014] @
        lit '' useful for post-incident debugging but not '' @
        lit ''predictive. SLIs like error rate and P99 '' @
        lit ''latency provide real-time signals from the '' @
        lit ''user perspective, enabling response before '' @
        lit ''problems become systemic.'')),
    (''mental_model'', PyStr (lit ''Infrastructure metrics diagnose machines; '' @
        lit ''SLO metrics protect users.'')),
    (''source_path'', PyStr (lit ''labs/24-slo-sli-error-budget/content/02-mast'' @ lit ''er-draft.md'')),
    (''slide_num'', PyStr (lit ''08 / 24''))]\<rparr>\<close>

definition lab24_items_09 :: pyval where [lab24_contents]:
  \<open>lab24_items_09 =
   PyList
   [PyDict
     [(''title'', PyStr (lit ''KEPUTUSAN 1: DEFINISI SLI'')),
      (''items'', PyList
        [PyStr (lit ''Pilih metrik yang benar-benar diukur '' @
            lit ''pengguna (bukan CPU/memory)''),
         PyStr (lit ''Tentukan closure isGood: status code + '' @ lit ''latency threshold''),
         PyStr (lit ''SLI harus merefleksikan dampak bisnis, '' @ lit ''bukan kondisi internal'')]),
      (''type'', PyStr (lit ''card''))],
    PyDict
     [(''title'', PyStr (lit ''KEPUTUSAN 2: TARGET SLO'')),
      (''items'', PyList
        [PyStr (lit ''Pilih target realistis: 99.9% (3'' @ [0x4E5D] @
            lit '') untuk critical service''),
         PyStr (lit ''Jangan gunakan 100% '' @ [0x2014] @
            lit '' network/device errors tidak terkontrol''),
         PyStr (lit ''SLO berbeda per endpoint berdasarkan '' @ lit ''criticality bucketing'')]),
      (''type'', PyStr (lit ''card''))],
    PyDict
     [(''title'', PyStr (lit ''KEPUTUSAN 3: KEBIJAKAN CANDEPLOY'')),
      (''items'', PyList
        [PyStr (lit ''CanDeploy = false saat budgetRemaining <= 0 '' @ lit ''(dan total > 0)''),
         PyStr (lit ''Halt semua non-P0 deployment hingga budget '' @ lit ''recovery''),
         PyStr (lit ''Postmortem wajib jika consumed > 20% budget '' @
            lit ''dalam satu insiden'')]),
      (''type'', PyStr (lit ''card''))]]\<close>

definition lab24_slide_09 :: pycall where [lab24_slides]:
  \<open>lab24_slide_09 =
   \<lparr>posargs = [],
  kwargs =
   [(''categories'', PyList
      [PyStr (lit ''KEPUTUSAN''),
       PyStr (lit ''FLOW'')]),
    (''title'', PyStr (lit ''Tiga Keputusan Kritis dalam Error Budgeting'')),
    (''title_en'', PyStr (lit ''Three Critical Decisions in Error Budgeting'')),
    (''subtitle'', PyStr (lit ''Dari definisi SLI hingga respons alert '' @ [0x2014] @
        lit '' setiap langkah menentukan arah kebijakan.'')),
    (''content_items'', lab24_items_09),
    (''narrative'', PyStr (lit ''Tiga keputusan ini membentuk fondasi error '' @
        lit ''budgeting yang efektif. Pertama, memilih '' @ lit ''SLI yang tepat '' @
        [0x2014] @ lit '' metrik yang benar-benar mencerminkan '' @
        lit ''pengalaman pengguna, bukan kondisi internal '' @
        lit ''server. Kedua, menetapkan target SLO '' @
        lit ''realistis yang memperhitungkan failure '' @
        lit ''domains di luar kontrol tim (network, '' @
        lit ''device). Ketiga, defining kebijakan '' @
        lit ''CanDeploy yang mengunci pipeline otomatis '' @
        lit ''ketika budget habis, menghilangkan '' @
        lit ''subjeftivitas dalam pengambilan keputusan '' @ lit ''release.'')),
    (''narrative_en'', PyStr (lit ''These three decisions form the foundation '' @
        lit ''of effective error budgeting. First, '' @ lit ''choosing the right SLI '' @
        [0x2014] @ lit '' a metric that truly reflects user '' @
        lit ''experience, not internal server state. '' @
        lit ''Second, setting a realistic SLO target that '' @
        lit ''accounts for out-of-scope failure domains. '' @
        lit ''Third, defining a CanDeploy policy that '' @
        lit ''auto-locks the pipeline when budget is '' @
        lit ''exhausted, removing subjectivity from '' @ lit ''release decisions.'')),
    (''mental_model'', PyStr (lit ''SLI choice '' @ [0x2192] @ lit '' SLO target '' @ [0x2192] @
        lit '' deploy policy: each decision compounds the '' @ lit ''next.'')),
    (''source_path'', PyStr (lit ''labs/24-slo-sli-error-budget/content/02-mast'' @ lit ''er-draft.md'')),
    (''slide_num'', PyStr (lit ''09 / 24''))]\<rparr>\<close>

definition lab24_items_10 :: pyval where [lab24_contents]:
  \<open>lab24_items_10 =
   PyList
   [PyDict
     [(''title'', PyStr (lit ''PHASE 1: BASELINE'')),
      (''items'', PyList
        [PyStr (lit ''[PHASE 1] Simulating Baseline Traffic '' @
            lit ''(1,000 requests, 100% success)...''),
         PyStr (lit ''Total: 1000 | Good: 1000 | Bad: 0''),
         PyStr (lit ''Target SLO: 99.900% | Current SLI: '' @
            lit ''100.0000% | Budget Remaining: 1.00''),
         PyStr (lit ''Deployment Allowed: true'')]),
      (''type'', PyStr (lit ''code''))],
    PyDict
     [(''title'', PyStr (lit ''PHASE 2: INCIDENT'')),
      (''items'', PyList
        [PyStr (lit ''[PHASE 2] Simulating Severe Incident (100 '' @
            lit ''total, 10 errors)...''),
         PyStr (lit ''Total: 1100 | Good: 1090 | Bad: 10''),
         PyStr (lit ''Target SLO: 99.900% | Current SLI: 99.0909% '' @
            lit ''| Budget Remaining: -8.90''),
         PyStr (lit ''Deployment Allowed: false (Budget exhausted)'')]),
      (''type'', PyStr (lit ''code''))],
    PyDict
     [(''title'', PyStr (lit ''PHASE 3: ALERT'')),
      (''items'', PyList
        [PyStr (lit ''[PHASE 3] Checking Multi-Window Burn Rate '' @ lit ''Alerts...''),
         PyStr (lit ''>>> ALERT TRIGGERED: [TICKET] Slow Burn '' @
            lit ''Alert (6.0x - 5% in 6h)''),
         PyStr (lit ''    | ShortBurn: 9.09x | LongBurn: 9.09x '' @ lit ''(Threshold: 6.00x)'')]),
      (''type'', PyStr (lit ''code''))]]\<close>

definition lab24_slide_10 :: pycall where [lab24_slides]:
  \<open>lab24_slide_10 =
   \<lparr>posargs = [],
  kwargs =
   [(''categories'', PyList
      [PyStr (lit ''BUKTI''),
       PyStr (lit ''EKSEKUSI'')]),
    (''title'', PyStr (lit ''Bukti Eksekusi: Demo Phase 1'' @ [0x2013] @ lit ''4'')),
    (''title_en'', PyStr (lit ''Execution Evidence: Demo Phases 1'' @ [0x2013] @ lit ''4'')),
    (''subtitle'', PyStr (lit ''Output terminal asli dari cmd/demo/main.go '' @ [0x2014] @
        lit '' empat fase simulasi.'')),
    (''content_items'', lab24_items_10),
    (''narrative'', PyStr (lit ''Output terminal di atas adalah bukti '' @
        lit ''eksekusi langsung dari demo program. Fase 1 '' @
        lit ''menampilkan traffic baseline 1000 request '' @ lit ''tanpa error '' @
        [0x2014] @ lit '' budget remaining 1.00 (satu error masih '' @
        lit ''diizinkan untuk SLO 99.9%). Fase 2 '' @
        lit ''mensimulasikan insiden dengan 10 error dari '' @
        lit ''100 request tambahan: budget langsung '' @
        lit ''negatif -8.90 dan CanDeploy berubah false. '' @
        lit ''Fase 3 membuktikan alert engine memicu '' @
        lit ''TICKET severity karena kedua window (short '' @
        lit ''dan long) melebihi threshold 6.0x burn rate.'')),
    (''narrative_en'', PyStr (lit ''The terminal output above is direct '' @
        lit ''execution evidence from the demo program. '' @
        lit ''Phase 1 shows baseline traffic of 1,000 '' @
        lit ''requests with zero errors '' @ [0x2014] @
        lit '' budget remaining at 1.00 (one error still '' @
        lit ''allowed for 99.9% SLO). Phase 2 simulates '' @
        lit ''an incident with 10 errors from 100 '' @
        lit ''additional requests: budget immediately '' @
        lit ''goes to -8.90 and CanDeploy flips to false. '' @
        lit ''Phase 3 proves the alert engine triggers '' @
        lit ''TICKET severity because both windows exceed '' @
        lit ''the 6.0x burn rate threshold.'')),
    (''mental_model'', PyStr (lit ''Raw terminal output is the strongest '' @ lit ''evidence '' @ [0x2014] @
        lit '' numbers don'' @ [39] @ lit ''t lie.'')),
    (''source_path'', PyStr (lit ''labs/24-slo-sli-error-budget/cmd/demo/main.g'' @ lit ''o'')),
    (''slide_num'', PyStr (lit ''10 / 24''))]\<rparr>\<close>

definition lab24_items_11 :: pyval where [lab24_contents]:
  \<open>lab24_items_11 =
   PyList
   [PyDict
     [(''title'', PyStr (lit ''YANG TIDAK DIBUKTIKAN'')),
      (''items'', PyList
        [PyStr ([0x274C] @ lit '' Persistensi metrics: semua data in-memory, '' @
            lit ''hilang saat restart process''),
         PyStr ([0x274C] @ lit '' Histogram latency: hanya boolean good/bad, '' @
            lit ''tidak ada P50/P95/P99 distribusi''),
         PyStr ([0x274C] @ lit '' Window 30-day asli: demo menggunakan '' @
            lit ''kompresi waktu 30 menit (bukan 30 hari)''),
         PyStr ([0x274C] @ lit '' Threshold burn rate universal: 14.4x/6.0x '' @
            lit ''adalah rekomendasi Google, bukan standar '' @ lit ''industri mutlak''),
         PyStr ([0x274C] @ lit '' LatencyThreshold field: ada di Config tapi '' @
            lit ''tidak dibaca oleh Evaluator (dead field)''),
         PyStr ([0x274C] @ lit '' Recovery simulation: tidak ada simulasi '' @
            lit ''recovery/pengisian ulang budget setelah '' @ lit ''incident''),
         PyStr ([0x274C] @ lit '' Multi-endpoint scaling: demo hanya 2 '' @
            lit ''endpoint, tidak menguji ratusan endpoint '' @ lit ''konkuren'')]),
      (''type'', PyStr (lit ''bullet''))]]\<close>

definition lab24_slide_11 :: pycall where [lab24_slides]:
  \<open>lab24_slide_11 =
   \<lparr>posargs = [],
  kwargs =
   [(''categories'', PyList
      [PyStr (lit ''BATAS''),
       PyStr (lit ''TIDAK DIBUKTIKAN'')]),
    (''title'', PyStr (lit ''YANG TIDAK DIBUKTIKAN'')),
    (''title_en'', PyStr (lit ''WHAT IS NOT PROVEN'')),
    (''subtitle'', PyStr (lit ''Batasan tegas implementasi lab '' @ [0x2014] @
        lit '' apa yang tidak dijamin oleh kode saat ini.'')),
    (''content_items'', lab24_items_11),
    (''narrative'', PyStr (lit ''Transparansi batasan adalah bagian penting '' @
        lit ''dari engineering integrity. Lab ini secara '' @
        lit ''eksplisit tidak membuktikan persistensi '' @ lit ''metrics '' @ [0x2014] @
        lit '' semua data hilang saat process restart '' @
        lit ''karena menggunakan slice in-memory. '' @
        lit ''Histogram latency juga tidak '' @
        lit ''diimplementasikan; hanya predicate boolean '' @
        lit ''good/bad yang digunakan. Window size 30 '' @
        lit ''hari direpresentasikan sebagai kompresi '' @
        lit ''waktu 30 menit. Field LatencyThreshold di '' @
        lit ''Config Evaluator merupakan dead code yang '' @
        lit ''tidak mempengaruhi perhitungan SLI.'')),
    (''narrative_en'', PyStr (lit ''Boundary transparency is a critical '' @
        lit ''component of engineering integrity. This '' @
        lit ''lab does not prove metrics persistence '' @ [0x2014] @
        lit '' all data is lost on process restart '' @
        lit ''because it uses an in-memory slice. Latency '' @
        lit ''histogram is also not implemented; only a '' @
        lit ''boolean good/bad predicate is used. The '' @
        lit ''30-day window is represented as a 30-minute '' @
        lit ''time compression. The LatencyThreshold '' @
        lit ''field in the Evaluator Config is dead code '' @
        lit ''that does not affect SLI calculation.'')),
    (''mental_model'', PyStr (lit ''Know your proof boundaries '' @ [0x2014] @
        lit '' unproven claims are liabilities, not '' @ lit ''features.'')),
    (''source_path'', PyStr (lit ''labs/24-slo-sli-error-budget/engineering-aud'' @ lit ''it/06-verdict.md'')),
    (''slide_num'', PyStr (lit ''11 / 24''))]\<rparr>\<close>

definition lab24_items_12 :: pyval where [lab24_contents]:
  \<open>lab24_items_12 =
   PyList
   [PyDict
     [(''title'', PyStr (lit ''SIM (DEMO)'')),
      (''items'', PyList
        [PyStr (lit ''+ Zero-dependency: hanya Go standard library''),
         PyStr (lit ''+ Thread-safe: sync.RWMutex proven dengan '' @ lit ''race detector''),
         PyStr (lit ''+ Out-of-order safe: bucket insertion '' @
            lit ''maintains chronological order''),
         PyStr (lit ''- No persistence: data loss on process '' @ lit ''restart''),
         PyStr (lit ''- No horizontal scaling: single-process '' @ lit ''bottleneck'')]),
      (''type'', PyStr (lit ''bullet''))],
    PyDict
     [(''title'', PyStr (lit ''PRODUKSI (REKOMENDASI)'')),
      (''items'', PyList
        [PyStr (lit ''+ Prometheus/Grafana untuk time-series '' @ lit ''persistence''),
         PyStr (lit ''+ Horizontal scaling via distributed TSDB '' @ lit ''cluster''),
         PyStr (lit ''+ Native SLO query language (Prometheus '' @ lit ''recording rules)''),
         PyStr (lit ''- Additional infrastructure complexity and '' @ lit ''cost''),
         PyStr (lit ''- Integration testing overhead for data '' @ lit ''pipeline'')]),
      (''type'', PyStr (lit ''bullet''))],
    PyDict
     [(''title'', PyStr (lit ''DESAIN DECISION'')),
      (''items'', PyList
        [PyStr (lit ''Lab memilih in-memory untuk pedagogi dan '' @ lit ''zero-dependency''),
         PyStr (lit ''AlertEngine dual-tracker pattern bisa '' @
            lit ''di-replikasi di Prometheus''),
         PyStr (lit ''Burn rate math portable ke any time-series '' @ lit ''database'')]),
      (''type'', PyStr (lit ''bullet''))]]\<close>

definition lab24_slide_12 :: pycall where [lab24_slides]:
  \<open>lab24_slide_12 =
   \<lparr>posargs = [],
  kwargs =
   [(''categories'', PyList
      [PyStr (lit ''TRADE-OFF''),
       PyStr (lit ''DESAIN'')]),
    (''title'', PyStr (lit ''Trade-off Arsitektur: In-Memory vs TSDB'')),
    (''title_en'', PyStr (lit ''Architecture Trade-off: In-Memory vs TSDB'')),
    (''subtitle'', PyStr (lit ''Solusi demo optimised untuk correctness dan '' @
        lit ''zero-dependency; produksi membutuhkan '' @ lit ''persistensi.'')),
    (''content_items'', lab24_items_12),
    (''narrative'', PyStr (lit ''Trade-off utama antara demo in-memory dan '' @
        lit ''implementasi produksi adalah persistensi '' @
        lit ''versus kesederhanaan. Demo menggunakan '' @
        lit ''slice Go dengan mutex untuk bukti konsep '' @ lit ''correctness '' @
        [0x2014] @ lit '' semua test berlaju green tanpa dependensi '' @
        lit ''eksternal. Untuk produksi, metrics perlu '' @
        lit ''di-dump ke TSDB seperti Prometheus setiap '' @
        lit ''interval singkat agar tetap tersedia '' @
        lit ''setelah restart. Pola dual-window burn rate '' @
        lit ''yang sama dapat direplikasi menggunakan '' @
        lit ''Prometheus recording rules dan alerting '' @ lit ''expressions.'')),
    (''narrative_en'', PyStr (lit ''The primary trade-off between the in-memory '' @
        lit ''demo and production implementation is '' @
        lit ''persistence versus simplicity. The demo '' @
        lit ''uses Go slices with mutex for correctness '' @ lit ''proof '' @ [0x2014] @
        lit '' all tests pass green without external '' @
        lit ''dependencies. For production, metrics need '' @
        lit ''to be dumped to a TSDB like Prometheus at '' @
        lit ''short intervals to survive restarts. The '' @
        lit ''same dual-window burn rate pattern can be '' @
        lit ''replicated using Prometheus recording rules '' @
        lit ''and alerting expressions.'')),
    (''mental_model'', PyStr (lit ''In-memory proves correctness; TSDB provides '' @
        lit ''durability. Choose based on lifecycle stage.'')),
    (''source_path'', PyStr (lit ''labs/24-slo-sli-error-budget/content/02-mast'' @ lit ''er-draft.md'')),
    (''slide_num'', PyStr (lit ''12 / 24''))]\<rparr>\<close>

definition lab24_items_13 :: pyval where [lab24_contents]:
  \<open>lab24_items_13 =
   PyList
   [PyDict
     [(''title'', PyStr (lit ''CONCURRENCY TEST'')),
      (''items'', PyList
        [PyStr (lit ''func TestConcurrencyMetrics(t *testing.T) {''),
         PyStr (lit ''    var wg sync.WaitGroup''),
         PyStr (lit ''    numGoroutines := 20''),
         PyStr (lit ''    requestsPerGoroutine := 100''),
         PyStr (lit ''    for g := 0; g < numGoroutines; g++ {''),
         PyStr (lit ''        wg.Add(1)''),
         PyStr (lit ''        go func(id int) {''),
         PyStr (lit ''            defer wg.Done()''),
         PyStr (lit ''            for i := 0; i < '' @ lit ''requestsPerGoroutine; i++ {''),
         PyStr (lit ''                '' @ lit ''tracker.Record(metrics.Event{...}) // '' @
            lit ''RWMutex protects''),
         PyStr (lit ''            }''),
         PyStr (lit ''        }(g)''),
         PyStr (lit ''    }''),
         PyStr (lit ''    wg.Wait()''),
         PyStr (lit ''}'')]),
      (''type'', PyStr (lit ''code''))],
    PyDict
     [(''title'', PyStr (lit ''HASIL'')),
      (''items'', PyList
        [PyStr (lit ''Expected total: 20 '' @ [0xD7] @ lit '' 100 = 2000''),
         PyStr (lit ''Actual total: 2000 (matched)''),
         PyStr (lit ''good + bad == total: verified''),
         PyStr (lit ''go test -race: clean, zero data races '' @ lit ''detected'')]),
      (''type'', PyStr (lit ''bullet''))]]\<close>

definition lab24_slide_13 :: pycall where [lab24_slides]:
  \<open>lab24_slide_13 =
   \<lparr>posargs = [],
  kwargs =
   [(''categories'', PyList
      [PyStr (lit ''KONKUREN''),
       PyStr (lit ''THREAD-SAFE'')]),
    (''title'', PyStr (lit ''Concurrency: Goroutine-Safe Recording '' @ lit ''Pipeline'')),
    (''title_en'', PyStr (lit ''Concurrency: Goroutine-Safe Recording '' @ lit ''Pipeline'')),
    (''subtitle'', PyStr (lit ''20 goroutine '' @ [0xD7] @ lit '' 100 request tanpa race condition '' @
        [0x2014] @ lit '' terbukti dengan race detector.'')),
    (''content_items'', lab24_items_13),
    (''narrative'', PyStr (lit ''Uji konkurensi mengeksekusi 20 goroutine '' @
        lit ''yang masing-masing merekam 100 request '' @
        lit ''secara bersamaan ke WindowTracker yang '' @
        lit ''sama. sync.RWMutex di dalam Record() dan '' @
        lit ''Summary() menjamin bahwa tidak ada '' @
        lit ''interleaving yang merusak counter. '' @
        lit ''Hasilnya: total 2000 event tercatat dengan '' @
        lit ''benar, good + bad == total, dan race '' @
        lit ''detector tidak menemukan data race sama '' @
        lit ''sekali. Ini membuktikan bahwa desain lock '' @
        lit ''granularity cukup untuk workload tinggi.'')),
    (''narrative_en'', PyStr (lit ''The concurrency test executes 20 goroutines '' @
        lit ''each recording 100 requests simultaneously '' @
        lit ''to the same WindowTracker. The sync.RWMutex '' @
        lit ''inside Record() and Summary() guarantees no '' @
        lit ''interleaving corrupts counters. Result: '' @
        lit ''2,000 events recorded correctly, good + bad '' @
        lit ''equals total, and the race detector finds '' @
        lit ''zero data races. This proves the lock '' @
        lit ''granularity design is sufficient for '' @ lit ''high-throughput workloads.'')),
    (''mental_model'', PyStr (lit ''Mutex-protected shared state with '' @ lit ''deterministic aggregation is '' @
        lit ''concurrency-safe by construction.'')),
    (''source_path'', PyStr (lit ''labs/24-slo-sli-error-budget/tests/slo_test.'' @ lit ''go'')),
    (''slide_num'', PyStr (lit ''13 / 24''))]\<rparr>\<close>

definition lab24_items_14 :: pyval where [lab24_contents]:
  \<open>lab24_items_14 =
   PyList
   [PyDict
     [(''title'', PyStr (lit ''BEFORE (Tanpa SLO)'')),
      (''items'', PyList
        [PyStr (lit ''Dashboard: CPU 30%, Memory 60%, Disk I/O '' @ lit ''normal''),
         PyStr (lit ''Alert: '' @ [39] @ lit ''CPU high'' @ [39] @
            lit '' saat load test, tapi user experience tidak '' @ lit ''terukur''),
         PyStr (lit ''Decision: deploy berdasarkan feeling, tidak '' @ lit ''ada data budget''),
         PyStr (lit ''Incident response: reactive, dwell time '' @ lit ''berjam-jam'')]),
      (''type'', PyStr (lit ''bullet''))],
    PyDict
     [(''title'', PyStr (lit ''AFTER (Dengan SLO)'')),
      (''items'', PyList
        [PyStr (lit ''Dashboard: SLI 99.09%, Budget Remaining '' @
            lit ''-8.90, CanDeploy=false''),
         PyStr (lit ''Alert: '' @ [39] @ lit ''Slow burn 9.09x'' @ [39] @ lit '' '' @ [0x2014] @
            lit '' kedua window terdeteksi''),
         PyStr (lit ''Decision: auto-halt deployment, fokus '' @ lit ''postmortem''),
         PyStr (lit ''Incident response: proactive, budget '' @ lit ''consumption rate terukur'')]),
      (''type'', PyStr (lit ''bullet''))]]\<close>

definition lab24_slide_14 :: pycall where [lab24_slides]:
  \<open>lab24_slide_14 =
   \<lparr>posargs = [],
  kwargs =
   [(''categories'', PyList
      [PyStr (lit ''PERBANDINGAN''),
       PyStr (lit ''BEFORE/AFTER'')]),
    (''title'', PyStr (lit ''Before vs After: Observability '' @ lit ''Transformation'')),
    (''title_en'', PyStr (lit ''Before vs After: Observability '' @ lit ''Transformation'')),
    (''subtitle'', PyStr (lit ''Transformasi dari monitoring infrastructure '' @
        lit ''ke SLO-based reliability engineering.'')),
    (''content_items'', lab24_items_14),
    (''narrative'', PyStr (lit ''Transformasi observability dari pendekatan '' @
        lit ''infrastructure-centric ke SLO-based '' @
        lit ''mengubah cara tim merespons insiden. '' @
        lit ''Sebelum SLO, dashboard hanya menampilkan '' @ lit ''metrik mesin '' @
        [0x2014] @ lit '' CPU, memory, disk '' @ [0x2014] @
        lit '' yang tidak berkorelasi dengan error rate '' @
        lit ''pengguna. Setelah implementasi, dashboard '' @
        lit ''menampilkan SLI aktual, sisa error budget, '' @
        lit ''dan status CanDeploy yang menentukan '' @
        lit ''otomatis apakah deployment baru boleh '' @
        lit ''berjalan. Alert berbasis burn rate '' @
        lit ''memberikan early warning sebelum user mulai '' @ lit ''melaporkan masalah.'')),
    (''narrative_en'', PyStr (lit ''The observability transformation from '' @
        lit ''infrastructure-centric to SLO-based changes '' @
        lit ''how teams respond to incidents. Before SLO, '' @
        lit ''dashboards only show machine metrics '' @ [0x2014] @
        lit '' CPU, memory, disk '' @ [0x2014] @
        lit '' that do not correlate with user error '' @
        lit ''rates. After implementation, dashboards '' @
        lit ''display actual SLI, remaining error budget, '' @
        lit ''and a CanDeploy status that automatically '' @
        lit ''determines whether new deployments can '' @
        lit ''proceed. Burn rate-based alerts provide '' @
        lit ''early warning before users start reporting '' @ lit ''issues.'')),
    (''mental_model'', PyStr (lit ''SLO dashboards show user reality; '' @
        lit ''infrastructure dashboards show machine '' @ lit ''state.'')),
    (''source_path'', PyStr (lit ''labs/24-slo-sli-error-budget/content/02-mast'' @ lit ''er-draft.md'')),
    (''slide_num'', PyStr (lit ''14 / 24''))]\<rparr>\<close>

definition lab24_items_15 :: pyval where [lab24_contents]:
  \<open>lab24_items_15 =
   PyList
   [PyDict
     [(''title'', PyStr (lit ''EVALUATE METHOD'')),
      (''items'', PyList
        [PyStr (lit ''func (e *Evaluator) Evaluate(now time.Time) '' @ lit ''Status {''),
         PyStr (lit ''    total, good, bad := '' @ lit ''e.tracker.Summary(now)''),
         PyStr [],
         PyStr (lit ''    var sli float64 = 1.0''),
         PyStr (lit ''    if total > 0 {''),
         PyStr (lit ''        sli = float64(good) / float64(total)''),
         PyStr (lit ''    }''),
         PyStr (lit ''    // zero traffic '' @ [0x2192] @ lit '' SLI 1.0, CanDeploy true''),
         PyStr [],
         PyStr (lit ''    totalErrorBudget := (1.0 - '' @
            lit ''e.config.TargetUptime) * float64(total)''),
         PyStr (lit ''    budgetRemaining := totalErrorBudget - '' @ lit ''float64(bad)''),
         PyStr (lit ''    canDeploy := total == 0 || '' @ lit ''budgetRemaining > 0''),
         PyStr (lit ''}'')]),
      (''type'', PyStr (lit ''code''))],
    PyDict
     [(''title'', PyStr (lit ''ZERO TRAFFIC EDGE CASE'')),
      (''items'', PyList
        [PyStr (lit ''Total = 0: SLI = 1.0 (assumed perfect), '' @ lit ''CanDeploy = true''),
         PyStr (lit ''Mencegah false freeze saat service baru '' @
            lit ''start atau tidak ada trafik''),
         PyStr (lit ''Validasi: TestEvaluatorZeroTraffic di '' @ lit ''slo_test.go line 179'')]),
      (''type'', PyStr (lit ''bullet''))]]\<close>

definition lab24_slide_15 :: pycall where [lab24_slides]:
  \<open>lab24_slide_15 =
   \<lparr>posargs = [],
  kwargs =
   [(''categories'', PyList
      [PyStr (lit ''SLO''),
       PyStr (lit ''MATEMATIKA'')]),
    (''title'', PyStr (lit ''Evaluator: Matematika SLI dan Error Budget'')),
    (''title_en'', PyStr (lit ''Evaluator: SLI and Error Budget Mathematics'')),
    (''subtitle'', PyStr (lit ''Formula matematis yang sederhana namun '' @
        lit ''powerful untuk keputusan deploy.'')),
    (''content_items'', lab24_items_15),
    (''narrative'', PyStr (lit ''Evaluator adalah komponen inti yang '' @
        lit ''menghitung tiga nilai: SLI ratio, total '' @
        lit ''error budget, dan remaining budget. Rumus '' @
        lit ''SLI sederhana: good dibagi total, dengan '' @
        lit ''edge case total=0 yang mengembalikan '' @
        lit ''SLI=1.0 untuk mencegah false freeze pada '' @
        lit ''service baru yang belum memiliki trafik. '' @
        lit ''Error budget dihitung sebagai (1 - '' @ lit ''TargetUptime) '' @ [0xD7] @
        lit '' total, yang berarti untuk SLO 99.9% dan '' @
        lit ''1000 request, budget total adalah 1 error '' @
        lit ''yang diizinkan. CanDeploy=false hanya jika '' @
        lit ''budgetRemaining <= 0 DAN total > 0.'')),
    (''narrative_en'', PyStr (lit ''The Evaluator is the core component that '' @
        lit ''computes three values: the SLI ratio, total '' @
        lit ''error budget, and remaining budget. The SLI '' @
        lit ''formula is simple: good divided by total, '' @
        lit ''with a total=0 edge case returning SLI=1.0 '' @
        lit ''to prevent false freezes on new services '' @
        lit ''with no traffic. Error budget is (1 - '' @ lit ''TargetUptime) '' @ [0xD7] @
        lit '' total '' @ [0x2014] @ lit '' for 99.9% SLO and 1,000 requests, the '' @
        lit ''total budget is exactly 1 allowed error. '' @
        lit ''CanDeploy is false only when '' @ lit ''budgetRemaining is '' @ [0x2264] @
        lit '' 0 AND total > 0.'')),
    (''mental_model'', PyStr (lit ''SLI = good/total; budget = (1-SLO)'' @ [0xD7] @
        lit ''N; deploy gate = budgetRemaining > 0.'')),
    (''source_path'', PyStr (lit ''labs/24-slo-sli-error-budget/internal/slo/ev'' @ lit ''aluator.go'')),
    (''slide_num'', PyStr (lit ''15 / 24''))]\<rparr>\<close>

definition lab24_items_16 :: pyval where [lab24_contents]:
  \<open>lab24_items_16 =
   PyList
   [PyDict
     [(''title'', PyStr (lit ''BURN RATE FORMULA'')),
      (''items'', PyList
        [PyStr (lit ''func (a *AlertEngine) '' @
            lit ''CalculateBurnRate(total, bad int64) float64 '' @ lit ''{''),
         PyStr (lit ''    if total == 0 { return 0.0 }''),
         PyStr (lit ''    actualErrorRate := float64(bad) / '' @ lit ''float64(total)''),
         PyStr (lit ''    allowedErrorRate := 1.0 - a.targetSLO''),
         PyStr (lit ''    return actualErrorRate / '' @ lit ''allowedErrorRate''),
         PyStr (lit ''}'')]),
      (''type'', PyStr (lit ''code''))],
    PyDict
     [(''title'', PyStr (lit ''CHECK METHOD (dual window)'')),
      (''items'', PyList
        [PyStr (lit ''shortBurn := CalculateBurnRate(shortTotal, '' @ lit ''shortBad)''),
         PyStr (lit ''longBurn := CalculateBurnRate(longTotal, '' @ lit ''longBad)''),
         PyStr (lit ''triggered := shortBurn >= '' @
            lit ''rule.BurnRateFactor && longBurn >= '' @ lit ''rule.BurnRateFactor''),
         PyStr (lit ''# AND condition '' @ [0x2014] @ lit '' both must exceed threshold'')]),
      (''type'', PyStr (lit ''code''))],
    PyDict
     [(''title'', PyStr (lit ''TRANSIENT SPIKE PROOF'')),
      (''items'', PyList
        [PyStr (lit ''Short window: 100x burn rate (10% errors in '' @ lit ''5 min)''),
         PyStr (lit ''Long window: 0.1x burn rate (0.01% errors '' @ lit ''in 60 min)''),
         PyStr (lit ''Result: NO alert triggered '' @ [0x2014] @
            lit '' spike is transient, not systemic'')]),
      (''type'', PyStr (lit ''bullet''))]]\<close>

definition lab24_slide_16 :: pycall where [lab24_slides]:
  \<open>lab24_slide_16 =
   \<lparr>posargs = [],
  kwargs =
   [(''categories'', PyList
      [PyStr (lit ''ALERT''),
       PyStr (lit ''BURN RATE'')]),
    (''title'', PyStr (lit ''AlertEngine: Multi-Window Burn Rate '' @ lit ''Calculation'')),
    (''title_en'', PyStr (lit ''AlertEngine: Multi-Window Burn Rate '' @ lit ''Calculation'')),
    (''subtitle'', PyStr (lit ''Dua window (short + long) menghindari false '' @
        lit ''positive dari spike transient.'')),
    (''content_items'', lab24_items_16),
    (''narrative'', PyStr (lit ''AlertEngine menghitung burn rate untuk dua '' @
        lit ''window secara paralel: short window (5 '' @
        lit ''menit) yang sensitif dan long window (60 '' @
        lit ''menit) yang menormalkan noise. Alert hanya '' @
        lit ''di-trigger jika KEDUA window melewati '' @ lit ''threshold yang sama '' @
        [0x2014] @ lit '' ini mekanisme anti-false-positive. Test '' @
        lit ''kasus Transient Spike membuktikan: short '' @
        lit ''window menunjukkan 100x burn rate (spike '' @
        lit ''akut), tapi long window hanya 0.1x (latar '' @
        lit ''belakang normal bersih). Hasilnya: tidak '' @
        lit ''ada alert, karena spike bersifat sementara '' @
        lit ''dan tidak mengancam budget jangka panjang.'')),
    (''narrative_en'', PyStr (lit ''AlertEngine calculates burn rate for two '' @
        lit ''windows in parallel: a sensitive short '' @
        lit ''window (5 minutes) and a noise-normalizing '' @
        lit ''long window (60 minutes). An alert triggers '' @
        lit ''only when BOTH windows exceed the same '' @ lit ''threshold '' @ [0x2014] @
        lit '' this is the anti-false-positive mechanism. '' @
        lit ''The Transient Spike test case proves the '' @
        lit ''point: short window shows 100x burn rate '' @
        lit ''(acute spike), but long window shows only '' @
        lit ''0.1x (clean background). Result: no alert, '' @
        lit ''because the spike is transient and does not '' @
        lit ''threaten long-term budget.'')),
    (''mental_model'', PyStr (lit ''Dual-window AND logic filters transient '' @
        lit ''spikes while catching sustained budget '' @ lit ''burns.'')),
    (''source_path'', PyStr (lit ''labs/24-slo-sli-error-budget/internal/alerti'' @ lit ''ng/engine.go'')),
    (''slide_num'', PyStr (lit ''16 / 24''))]\<rparr>\<close>

definition lab24_items_17 :: pyval where [lab24_contents]:
  \<open>lab24_items_17 =
   PyList
   [PyDict
     [(''title'', PyStr (lit ''TEST: BUDGET EXHAUSTION'')),
      (''items'', PyList
        [PyStr (lit ''99 good + 1 bad '' @ [0x2192] @ lit '' SLI = 0.99 '' @ [0x2192] @
            lit '' budgetRemaining = 0 '' @ [0x2192] @ lit '' CanDeploy = true '' @ [0x2713]),
         PyStr (lit ''Add 1 more bad '' @ [0x2192] @ lit '' 99 good + 2 bad '' @ [0x2192] @
            lit '' SLI = 0.9804''),
         PyStr (lit ''budgetRemaining = -1 '' @ [0x2192] @ lit '' CanDeploy = false '' @
            [0x2713]),
         PyStr (lit ''Assertion: !status.CanDeploy saat budget < 0'')]),
      (''type'', PyStr (lit ''code''))],
    PyDict
     [(''title'', PyStr (lit ''TEST: ZERO TRAFFIC'')),
      (''items'', PyList
        [PyStr (lit ''No events recorded '' @ [0x2192] @ lit '' total = 0''),
         PyStr (lit ''SLI forced to 1.0 (no division by zero)''),
         PyStr (lit ''CanDeploy = true (avoid false freeze on '' @ lit ''fresh service)''),
         PyStr (lit ''Assertion: status.CurrentSLI == 1.0 && '' @
            lit ''status.CanDeploy == true'')]),
      (''type'', PyStr (lit ''code''))]]\<close>

definition lab24_slide_17 :: pycall where [lab24_slides]:
  \<open>lab24_slide_17 =
   \<lparr>posargs = [],
  kwargs =
   [(''categories'', PyList
      [PyStr (lit ''TEST''),
       PyStr (lit ''BUKTI'')]),
    (''title'', PyStr (lit ''Test: SLO Evaluator '' @ [0x2014] @ lit '' Budget Exhaustion & Zero Traffic'')),
    (''title_en'', PyStr (lit ''Test: SLO Evaluator '' @ [0x2014] @
        lit '' Budget Exhaustion and Zero Traffic'')),
    (''subtitle'', PyStr (lit ''Dua test case membuktikan boundary '' @
        lit ''condition CanDeploy dan zero-traffic '' @ lit ''fallback.'')),
    (''content_items'', lab24_items_17),
    (''narrative'', PyStr (lit ''Dua test case ini menutupi boundary '' @
        lit ''condition paling kritis dari Evaluator. '' @
        lit ''Test pertama memverifikasi bahwa CanDeploy '' @
        lit ''berubah false tepat saat budget.remaining '' @
        lit ''turun ke nol atau negatif '' @ [0x2014] @
        lit '' 99 good + 2 bad pada SLO 99% memicu '' @
        lit ''CanDeploy=false. Test kedua menangani edge '' @
        lit ''case zero traffic: ketika tidak ada event '' @
        lit ''sama sekali, SLI diset default ke 1.0 dan '' @
        lit ''CanDeploy tetap true untuk menghindari '' @
        lit ''false freeze pada service yang baru dimulai '' @
        lit ''atau belum menerima traffik.'')),
    (''narrative_en'', PyStr (lit ''These two test cases cover the most '' @
        lit ''critical boundary conditions of the '' @
        lit ''Evaluator. The first verifies that '' @
        lit ''CanDeploy flips to false exactly when '' @
        lit ''budgetRemaining drops to zero or negative '' @ [0x2014] @
        lit '' 99 good plus 2 bad on 99% SLO triggers '' @
        lit ''CanDeploy=false. The second handles the '' @
        lit ''zero-traffic edge case: when no events '' @
        lit ''exist at all, SLI defaults to 1.0 and '' @
        lit ''CanDeploy stays true to prevent false '' @
        lit ''freezes on newly started services.'')),
    (''mental_model'', PyStr (lit ''Boundary conditions are where reliability '' @ lit ''bugs hide '' @ [0x2014] @
        lit '' test them explicitly.'')),
    (''source_path'', PyStr (lit ''labs/24-slo-sli-error-budget/tests/slo_test.'' @ lit ''go'')),
    (''slide_num'', PyStr (lit ''17 / 24''))]\<rparr>\<close>

definition lab24_items_18 :: pyval where [lab24_contents]:
  \<open>lab24_items_18 =
   PyList
   [PyDict
     [(''title'', PyStr (lit ''TEST: SUSTAINED BURN '' @ [0x2192] @ lit '' ALERT'')),
      (''items'', PyList
        [PyStr (lit ''98 OK + 2 error dalam short (5m) dan long '' @ lit ''(60m) window''),
         PyStr (lit ''Error rate = 2% / 0.1% allowed = 20x burn '' @ lit ''rate''),
         PyStr (lit ''Both windows >= 14.4x threshold '' @ [0x2192] @
            lit '' Page alert triggered '' @ [0x2713]),
         PyStr (lit ''Severity = PAGE, RuleName = '' @ [39] @ lit ''Critical Fast Burn'' @ [39])]),
      (''type'', PyStr (lit ''code''))],
    PyDict
     [(''title'', PyStr (lit ''TEST: TRANSIENT SPIKE '' @ [0x2192] @ lit '' NO ALERT'')),
      (''items'', PyList
        [PyStr (lit ''Short window: 90 OK + 10 error = 10% '' @ [0x2192] @
            lit '' 100x burn rate''),
         PyStr (lit ''Long window: 9999 OK + 1 error = 0.01% '' @ [0x2192] @
            lit '' 0.1x burn rate''),
         PyStr (lit ''Short >= 14.4x '' @ [0x2713] @ lit '', Long >= 14.4x '' @ [0x2717]),
         PyStr (lit ''Result: 0 alerts '' @ [0x2014] @
            lit '' spike is transient, long trend is healthy '' @ [0x2713])]),
      (''type'', PyStr (lit ''code''))]]\<close>

definition lab24_slide_18 :: pycall where [lab24_slides]:
  \<open>lab24_slide_18 =
   \<lparr>posargs = [],
  kwargs =
   [(''categories'', PyList
      [PyStr (lit ''TEST''),
       PyStr (lit ''BUKTI'')]),
    (''title'', PyStr (lit ''Test: AlertEngine '' @ [0x2014] @ lit '' Sustained vs Transient Burn'')),
    (''title_en'', PyStr (lit ''Test: AlertEngine '' @ [0x2014] @ lit '' Sustained versus Transient Burn'')),
    (''subtitle'', PyStr (lit ''Bukti bahwa dual-window check membedakan '' @
        lit ''insiden nyata dari spike sementara.'')),
    (''content_items'', lab24_items_18),
    (''narrative'', PyStr (lit ''AlertEngine diuji dengan dua skenario '' @
        lit ''berlawanan untuk memverifikasi dual-window '' @
        lit ''logic. Skenario pertama: 2% error rate '' @
        lit ''persisten di kedua window menghasilkan burn '' @ lit ''rate 20x '' @
        [0x2014] @ lit '' kedua window melewati threshold 14.4x, '' @
        lit ''memicu PAGE alert. Skenario kedua: spike '' @
        lit ''transien 10% error di short window (100x '' @
        lit ''burn rate) tapi long window tetap bersih di '' @
        lit ''0.1x. Karena long window tidak melewati '' @
        lit ''threshold, alert tidak di-trigger '' @ [0x2014] @
        lit '' membuktikan bahwa mekanisme dual-window '' @
        lit ''berhasil menyaring false positive dari '' @ lit ''spike singkat.'')),
    (''narrative_en'', PyStr (lit ''AlertEngine is tested with two opposite '' @
        lit ''scenarios to verify dual-window logic. '' @
        lit ''Scenario one: a persistent 2% error rate '' @
        lit ''across both windows produces a 20x burn '' @ lit ''rate '' @ [0x2014] @
        lit '' both windows exceed the 14.4x threshold, '' @
        lit ''triggering a PAGE alert. Scenario two: a '' @
        lit ''transient 10% error spike in the short '' @
        lit ''window (100x burn rate) while the long '' @
        lit ''window remains clean at 0.1x. Since the '' @
        lit ''long window does not exceed the threshold, '' @ lit ''no alert fires '' @
        [0x2014] @ lit '' proving the dual-window mechanism '' @
        lit ''successfully filters false positives from '' @ lit ''short spikes.'')),
    (''mental_model'', PyStr (lit ''If only one window screams, it might be '' @
        lit ''noise. Both must agree for action.'')),
    (''source_path'', PyStr (lit ''labs/24-slo-sli-error-budget/tests/slo_test.'' @ lit ''go'')),
    (''slide_num'', PyStr (lit ''18 / 24''))]\<rparr>\<close>

definition lab24_items_19 :: pyval where [lab24_contents]:
  \<open>lab24_items_19 =
   PyList
   [PyDict
     [(''title'', PyStr (lit ''OUT-OF-ORDER RECORDING'')),
      (''items'', PyList
        [PyStr (lit ''Record event at t+5s FIRST, then t+2s SECOND''),
         PyStr (lit ''Bucket at t+2s created after t+5s bucket '' @ lit ''exists''),
         PyStr (lit ''Linear search inserts new bucket at correct '' @
            lit ''chronological position''),
         PyStr (lit ''Summary(t+6s): total=3, good=2, bad=1 '' @ [0x2713])]),
      (''type'', PyStr (lit ''code''))],
    PyDict
     [(''title'', PyStr (lit ''PARTIAL EVICTION'')),
      (''items'', PyList
        [PyStr (lit ''Advance time to t+13s '' @ [0x2192] @ lit '' cutoff = t+3s''),
         PyStr (lit ''Bucket at t+2s is BEFORE cutoff '' @ [0x2192] @ lit '' evicted''),
         PyStr (lit ''Bucket at t+5s is AFTER cutoff '' @ [0x2192] @ lit '' retained''),
         PyStr (lit ''Summary(t+13s): total=1, good=1, bad=0 '' @ [0x2713] @
            lit '' (only +5s bucket remains)'')]),
      (''type'', PyStr (lit ''code''))]]\<close>

definition lab24_slide_19 :: pycall where [lab24_slides]:
  \<open>lab24_slide_19 =
   \<lparr>posargs = [],
  kwargs =
   [(''categories'', PyList
      [PyStr (lit ''TEST''),
       PyStr (lit ''EDGE CASE'')]),
    (''title'', PyStr (lit ''Test: Out-of-Order Timestamps & Bucket '' @ lit ''Eviction'')),
    (''title_en'', PyStr (lit ''Test: Out-of-Order Timestamps and Bucket '' @ lit ''Eviction'')),
    (''subtitle'', PyStr (lit ''WindowTracker menangani event datang acak '' @
        lit ''dan evict bucket kadaluarsa dengan benar.'')),
    (''content_items'', lab24_items_19),
    (''narrative'', PyStr (lit ''WindowTracker dirancang untuk menangani '' @
        lit ''event yang datang dengan timestamp tidak '' @ lit ''berurutan '' @ [0x2014] @
        lit '' pola umum di distributed systems di mana '' @
        lit ''clock skew atau network delay menyebabkan '' @
        lit ''reorder. Test membuktikkan bahwa event di '' @
        lit ''t+5 detik direkam pertama, kemudian event '' @
        lit ''di t+2 detik, dan bucket insertion secara '' @
        lit ''otomatis Menyisipkan bucket baru di posisi '' @
        lit ''kronologis yang benar. Partial eviction '' @
        lit ''juga terverifikasi: saat waktu maju ke t+13 '' @
        lit ''detik, cutoff di t+3 detik menghapus bucket '' @
        lit ''t+2s tapi mempertahankan bucket t+5s.'')),
    (''narrative_en'', PyStr (lit ''WindowTracker is designed to handle events '' @
        lit ''arriving out-of-order '' @ [0x2014] @
        lit '' a common pattern in distributed systems '' @
        lit ''where clock skew or network delay causes '' @
        lit ''reordering. The test proves that a t+5s '' @
        lit ''event recorded first, followed by a t+2s '' @
        lit ''event, results in automatic chronological '' @
        lit ''bucket insertion. Partial eviction is also '' @
        lit ''verified: when time advances to t+13s, the '' @
        lit ''cutoff at t+3s evicts the t+2s bucket while '' @
        lit ''retaining the t+5s bucket.'')),
    (''mental_model'', PyStr (lit ''Sorted bucket insertion with time-based '' @
        lit ''eviction handles distributed clock skew '' @ lit ''gracefully.'')),
    (''source_path'', PyStr (lit ''labs/24-slo-sli-error-budget/tests/slo_test.'' @ lit ''go'')),
    (''slide_num'', PyStr (lit ''19 / 24''))]\<rparr>\<close>

definition lab24_items_20 :: pyval where [lab24_contents]:
  \<open>lab24_items_20 =
   PyList
   [PyDict
     [(''title'', PyStr (lit ''FUNDAMENTAL'')),
      (''items'', PyList
        [PyStr ([0x25A1] @ lit '' Tentukan SLI yang mengukur user experience '' @
            lit ''(good/total ratio)''),
         PyStr ([0x25A1] @ lit '' Pilih SLO realistis '' @ [0x2264] @ lit '' 99.99% '' @
            [0x2014] @ lit '' hindari 100% perfectionism''),
         PyStr ([0x25A1] @ lit '' Definisi closure isGood: statusCode '' @
            lit ''threshold + latency threshold''),
         PyStr ([0x25A1] @ lit '' Implementasikan WindowTracker dengan '' @
            lit ''sliding window + bucket eviction'')]),
      (''type'', PyStr (lit ''bullet''))],
    PyDict
     [(''title'', PyStr (lit ''ALERTING'')),
      (''items'', PyList
        [PyStr ([0x25A1] @ lit '' Setup dual tracker: short window (5-15m) '' @
            lit ''dan long window (1-6h)''),
         PyStr ([0x25A1] @ lit '' Pilih burn rate threshold: 14.4x (PAGE) '' @
            lit ''dan 6.0x (TICKET)''),
         PyStr ([0x25A1] @ lit '' Implementasikan AND logic: alert hanya '' @
            lit ''jika kedua window exceed threshold''),
         PyStr ([0x25A1] @ lit '' Integrasi dengan notification system '' @
            lit ''(PagerDuty, Slack, email)'')]),
      (''type'', PyStr (lit ''bullet''))],
    PyDict
     [(''title'', PyStr (lit ''POLICY'')),
      (''items'', PyList
        [PyStr ([0x25A1] @ lit '' CanDeploy gate: auto-halt deployment saat '' @
            lit ''budgetRemaining <= 0''),
         PyStr ([0x25A1] @ lit '' Policy exception: P0/security hotfix tetap '' @
            lit ''bisa deploy dengan approval''),
         PyStr ([0x25A1] @ lit '' Postmortem requirement: wajib jika single '' @
            lit ''incident'' @ [0x6D88, 0x8017] @ lit '' > 20% budget''),
         PyStr ([0x25A1] @ lit '' Dashboard SLO: real-time SLI, budget '' @
            lit ''gauge, burn rate trend'')]),
      (''type'', PyStr (lit ''bullet''))]]\<close>

definition lab24_slide_20 :: pycall where [lab24_slides]:
  \<open>lab24_slide_20 =
   \<lparr>posargs = [],
  kwargs =
   [(''categories'', PyList
      [PyStr (lit ''CHECKLIST''),
       PyStr (lit ''IMPLEMENTASI'')]),
    (''title'', PyStr (lit ''Checklist Implementasi SLO/Error Budget'')),
    (''title_en'', PyStr (lit ''SLO/Error Budget Implementation Checklist'')),
    (''subtitle'', PyStr (lit ''Daftar periksa untuk mengimplementasikan '' @
        lit ''kerangka kerja ini di sistem produksi.'')),
    (''content_items'', lab24_items_20),
    (''narrative'', PyStr (lit ''Checklist ini mencakup lima lapisan '' @
        lit ''implementasi: fundamental measurement, '' @
        lit ''alerting infrastructure, dan policy '' @
        lit ''enforcement. Lapisan fundamental memastikan '' @
        lit ''SLI terdefinisi dengan benar dari '' @
        lit ''perspektif pengguna. Lapisan alerting '' @
        lit ''menetapkan dual-window burn rate dengan '' @
        lit ''threshold yang sesuai severity. Lapisan '' @
        lit ''policy adalah yang paling krusial '' @ [0x2014] @
        lit '' tanpa kebijakan CanDeploy yang '' @
        lit ''enforcement, error budget hanya menjadi '' @
        lit ''dashboard cantik tanpa tindakan.'')),
    (''narrative_en'', PyStr (lit ''This checklist covers five implementation '' @
        lit ''layers: fundamental measurement, alerting '' @
        lit ''infrastructure, and policy enforcement. The '' @
        lit ''fundamental layer ensures SLI is correctly '' @
        lit ''defined from the user perspective. The '' @
        lit ''alerting layer establishes dual-window burn '' @
        lit ''rate with severity-appropriate thresholds. '' @
        lit ''The policy layer is the most critical '' @ [0x2014] @
        lit '' without an enforced CanDeploy policy, '' @
        lit ''error budget is merely a pretty dashboard '' @ lit ''with no action.'')),
    (''mental_model'', PyStr (lit ''Measurement without policy is vanity. '' @
        lit ''Policy without measurement is opinion.'')),
    (''source_path'', PyStr (lit ''labs/24-slo-sli-error-budget/content/02-mast'' @ lit ''er-draft.md'')),
    (''slide_num'', PyStr (lit ''20 / 24''))]\<rparr>\<close>

definition lab24_items_21 :: pyval where [lab24_contents]:
  \<open>lab24_items_21 =
   PyList
   [PyDict
     [(''title'', PyStr (lit ''ANTI-PATTERN 1: 100% SLO'')),
      (''items'', PyList
        [PyStr (lit ''Pola: Menetapkan SLO 99.9999% (six nines)''),
         PyStr (lit ''Dampak: budget hampir nihil, setiap error = '' @ lit ''freeze instan''),
         PyStr (lit ''Reproduksi: Set TargetUptime=0.999999, '' @ lit ''record 1 error '' @
            [0x2192] @ lit '' CanDeploy=false'')]),
      (''type'', PyStr (lit ''bullet''))],
    PyDict
     [(''title'', PyStr (lit ''ANTI-PATTERN 2: Single-Window Alert'')),
      (''items'', PyList
        [PyStr (lit ''Pola: Alert hanya berdasarkan short window '' @ lit ''(5 menit)''),
         PyStr (lit ''Dampak: false positive tinggi dari spike '' @
            lit ''transient (deploy, cron job)''),
         PyStr (lit ''Reproduksi: Record 10 error di short '' @
            lit ''window, 0 error di long window '' @ [0x2192] @
            lit '' alert false trigger'')]),
      (''type'', PyStr (lit ''bullet''))],
    PyDict
     [(''title'', PyStr (lit ''ANTI-PATTERN 3: Infrastructure SLI'')),
      (''items'', PyList
        [PyStr (lit ''Pola: Menggunakan CPU/memory sebagai SLI '' @ lit ''primary metric''),
         PyStr (lit ''Dampak: dashboard hijau tapi pengguna '' @
            lit ''mengalami error rate tinggi''),
         PyStr (lit ''Reproduksi: Simulasikan CPU 30% + error '' @ lit ''rate 10% '' @
            [0x2192] @ lit '' CPU alert tidak nyala, user complaint naik'')]),
      (''type'', PyStr (lit ''bullet''))],
    PyDict
     [(''title'', PyStr (lit ''ANTI-PATTERN 4: No Deploy Policy'')),
      (''items'', PyList
        [PyStr (lit ''Pola: Budget habis tapi tidak ada mekanisme '' @ lit ''auto-halt''),
         PyStr (lit ''Dampak: tim tetap deploy fitur baru sambil '' @ lit ''budget kosong''),
         PyStr (lit ''Reproduksi: Set budgetRemaining=-5 tapi '' @
            lit ''skip CanDeploy check '' @ [0x2192] @ lit '' deployment jalan terus'')]),
      (''type'', PyStr (lit ''bullet''))]]\<close>

definition lab24_slide_21 :: pycall where [lab24_slides]:
  \<open>lab24_slide_21 =
   \<lparr>posargs = [],
  kwargs =
   [(''categories'', PyList
      [PyStr (lit ''ANTI-PATTERN''),
       PyStr (lit ''REPRODUKSI'')]),
    (''title'', PyStr (lit ''Anti-Pattern & Cara Reproduksinya'')),
    (''title_en'', PyStr (lit ''Anti-Patterns and How to Reproduce Them'')),
    (''subtitle'', PyStr (lit ''Pola kesalahan umum yang menghambat '' @
        lit ''implementasi SLO yang efektif.'')),
    (''content_items'', lab24_items_21),
    (''narrative'', PyStr (lit ''Empat anti-pattern ini adalah jebakan umum '' @
        lit ''yang dihadapi tim saat mengadopsi SLO. '' @
        lit ''Anti-pattern pertama adalah perfeksionisme '' @ lit ''100% '' @ [0x2014] @
        lit '' menetapkan SLO enam sembilan membuat '' @
        lit ''budget hampir mustahil dipenuhi, memicu '' @
        lit ''freeze deployment konstan. Anti-pattern '' @
        lit ''kedua, single-window alert, menyebabkan '' @
        lit ''noise alert berlebihan dari spike '' @
        lit ''transient. Anti-pattern ketiga, menggunakan '' @
        lit ''metrik infrastruktur sebagai SLI, '' @
        lit ''menciptakan false confidence. Anti-pattern '' @
        lit ''keempat, tidak ada kebijakan deploy '' @
        lit ''otomatis, membuat error budget hanya '' @
        lit ''menjadi dashboard tanpa actionability.'')),
    (''narrative_en'', PyStr (lit ''These four anti-patterns are common traps '' @
        lit ''teams face when adopting SLOs. The first is '' @ lit ''perfectionism '' @
        [0x2014] @ lit '' setting six-nines SLO makes the budget '' @
        lit ''nearly impossible to maintain, triggering '' @
        lit ''constant deployment freezes. The second, '' @
        lit ''single-window alerting, causes alert noise '' @
        lit ''from transient spikes. The third, using '' @
        lit ''infrastructure metrics as SLI, creates '' @
        lit ''false confidence. The fourth, having no '' @
        lit ''auto-deploy policy, renders error budget a '' @
        lit ''dashboard without actionability.'')),
    (''mental_model'', PyStr (lit ''The best SLO is the highest one your users '' @ lit ''will accept '' @
        [0x2014] @ lit '' not the highest number you can write.'')),
    (''source_path'', PyStr (lit ''labs/24-slo-sli-error-budget/content/02-mast'' @ lit ''er-draft.md'')),
    (''slide_num'', PyStr (lit ''21 / 24''))]\<rparr>\<close>

definition lab24_items_22 :: pyval where [lab24_contents]:
  \<open>lab24_items_22 =
   PyList
   [PyDict
     [(''title'', PyStr (lit ''COMMAND BLOCK'')),
      (''items'', PyList
        [PyStr (lit ''# 1. Navigate to lab directory''),
         PyStr (lit ''cd labs/24-slo-sli-error-budget''),
         PyStr [],
         PyStr (lit ''# 2. Run all tests with race detector''),
         PyStr (lit ''go test -race -v ./...''),
         PyStr [],
         PyStr (lit ''# 3. Run the demo to see live SLO evaluation''),
         PyStr (lit ''go run ./cmd/demo'')]),
      (''type'', PyStr (lit ''code''))],
    PyDict
     [(''title'', PyStr (lit ''EXPECTED OUTPUT'')),
      (''items'', PyList
        [PyStr (lit ''Phase 1: BudgetRemaining=1.00, '' @ lit ''CanDeploy=true (baseline)''),
         PyStr (lit ''Phase 2: BudgetRemaining=-8.90, '' @ lit ''CanDeploy=false (incident)''),
         PyStr (lit ''Phase 3: TICKET alert triggered at 9.09x '' @ lit ''burn rate''),
         PyStr (lit ''Phase 4: Payment vs Reports comparison '' @ lit ''(99.9% vs 95% SLO)'')]),
      (''type'', PyStr (lit ''bullet''))]]\<close>

definition lab24_slide_22 :: pycall where [lab24_slides]:
  \<open>lab24_slide_22 =
   \<lparr>posargs = [],
  kwargs =
   [(''categories'', PyList
      [PyStr (lit ''TAKEAWAY''),
       PyStr (lit ''COMMAND'')]),
    (''title'', PyStr (lit ''Takeaway Praktis: Jalankan Lab Ini'')),
    (''title_en'', PyStr (lit ''Practical Takeaway: Run This Lab'')),
    (''subtitle'', PyStr (lit ''Semua kode Go standar '' @ [0x2014] @ lit '' tanpa dependensi eksternal '' @
        [0x2014] @ lit '' siap dijalankan di terminal Anda.'')),
    (''content_items'', lab24_items_22),
    (''narrative'', PyStr (lit ''Untuk memahami cara kerja SLO/Error Budget '' @
        lit ''secara mendalam, jalankan seluruh test '' @
        lit ''suite dengan race detector aktif. Perintah '' @
        lit ''go test -race -v ./... akan menjalankan '' @
        lit ''lima test case: WindowTracker aggregation, '' @
        lit ''SLO evaluator budget math, AlertEngine '' @
        lit ''dual-window logic, Out-of-order timestamp '' @
        lit ''handling, dan Concurrency stress test. '' @
        lit ''Perintah go run ./cmd/demo menampilkan '' @
        lit ''simulasi empat fase secara real-time '' @ [0x2014] @
        lit '' dari baseline traffic hingga incident '' @
        lit ''response dengan alert triggering.'')),
    (''narrative_en'', PyStr (lit ''To deeply understand how SLO and Error '' @
        lit ''Budget work, run the full test suite with '' @
        lit ''the race detector enabled. The go test '' @
        lit ''-race -v ./... command runs five test '' @
        lit ''cases: WindowTracker aggregation, SLO '' @
        lit ''evaluator budget math, AlertEngine '' @
        lit ''dual-window logic, out-of-order timestamp '' @
        lit ''handling, and concurrency stress testing. '' @
        lit ''The go run ./cmd/demo command displays a '' @
        lit ''four-phase simulation in real time '' @ [0x2014] @
        lit '' from baseline traffic through incident '' @
        lit ''response with alert triggering.'')),
    (''mental_model'', PyStr (lit ''Run the tests. See the numbers. Trust the '' @ lit ''evidence.'')),
    (''source_path'', PyStr (lit ''labs/24-slo-sli-error-budget/README.md'')),
    (''slide_num'', PyStr (lit ''22 / 24''))]\<rparr>\<close>

definition lab24_items_23 :: pyval where [lab24_contents]:
  \<open>lab24_items_23 =
   PyList
   [PyDict
     [(''title'', PyStr (lit ''PRINSIP 1: RELIABILITY IS A FEATURE'')),
      (''items'', PyList
        [PyStr (lit ''SLO bukan meta-metric '' @ [0x2014] @
            lit '' ia adalah user-facing quality contract''),
         PyStr (lit ''Setiap percentage point SLO bernilai uang '' @ lit ''dan trust pengguna''),
         PyStr (lit ''Budget allocation = risk allocation '' @ [0x2014] @
            lit '' decide consciously'')]),
      (''type'', PyStr (lit ''card''))],
    PyDict
     [(''title'', PyStr (lit ''PRINSIP 2: AUTOMATE THE HALT'')),
      (''items'', PyList
        [PyStr (lit ''CanDeploy=false harus memblokir pipeline '' @
            lit ''CI/CD secara otomatis''),
         PyStr (lit ''Manual override hanya untuk P0/security '' @ lit ''dengan audit trail''),
         PyStr (lit ''Policy enforcement > human judgment untuk '' @ lit ''mencegah drift'')]),
      (''type'', PyStr (lit ''card''))],
    PyDict
     [(''title'', PyStr (lit ''PRINSIP 3: MEASURE USER EXPERIENCE'')),
      (''items'', PyList
        [PyStr (lit ''SLI harus mengukur apa yang dirasakan '' @ lit ''pengguna, bukan mesin''),
         PyStr (lit ''CPU 30% meaningless jika error rate 5%; CPU '' @
            lit ''90% fine jika SLI 99.99%''),
         PyStr (lit ''Dashboard harus menjawab: '' @ [39] @
            lit ''Apakah pengguna kami bahagia?'' @ [39])]),
      (''type'', PyStr (lit ''card''))]]\<close>

definition lab24_slide_23 :: pycall where [lab24_slides]:
  \<open>lab24_slide_23 =
   \<lparr>posargs = [],
  kwargs =
   [(''categories'', PyList
      [PyStr (lit ''PRINSIP''),
       PyStr (lit ''JANGKA PANJANG'')]),
    (''title'', PyStr (lit ''Prinsip Arsitektural Jangka Panjang'')),
    (''title_en'', PyStr (lit ''Long-term Architectural Principles'')),
    (''subtitle'', PyStr (lit ''Tiga prinsip yang mengatur hubungan antara '' @
        lit ''reliability engineering dan product '' @ lit ''velocity.'')),
    (''content_items'', lab24_items_23),
    (''narrative'', PyStr (lit ''Tiga prinsip arsitektural ini membentuk '' @
        lit ''filosofi long-term reliability engineering. '' @
        lit ''Prinsip pertama menegaskan bahwa '' @
        lit ''reliability bukan side-feature tapi core '' @ lit ''product value '' @
        [0x2014] @ lit '' setiap percentage point SLO bernilai uang '' @
        lit ''dan trust pengguna. Prinsip kedua '' @
        lit ''menekankan automasi: kebijakan CanDeploy '' @
        lit ''harus enforcement secara teknis di pipeline '' @
        lit ''CI/CD, bukan bergantung pada disiplin '' @
        lit ''manual. Prinsip ketiga mengingatkan bahwa '' @
        lit ''metrik harus user-centric '' @ [0x2014] @
        lit '' dashboard yang indah tapi tidak menjawab '' @ [39] @
        lit ''apakah pengguna bahagia'' @ [39] @ lit '' adalah wasted instrumentation.'')),
    (''narrative_en'', PyStr (lit ''These three architectural principles form '' @
        lit ''the philosophy of long-term reliability '' @
        lit ''engineering. The first principle asserts '' @
        lit ''that reliability is not a side-feature but '' @ lit ''core product value '' @
        [0x2014] @ lit '' every SLO percentage point is real money '' @
        lit ''and user trust. The second principle '' @
        lit ''emphasizes automation: the CanDeploy policy '' @
        lit ''must be technically enforced in the CI/CD '' @
        lit ''pipeline, not reliant on manual discipline. '' @
        lit ''The third principle reminds us that metrics '' @
        lit ''must be user-centric '' @ [0x2014] @
        lit '' a beautiful dashboard that does not answer '' @ [39] @
        lit ''are our users happy'' @ [39] @ lit '' is wasted instrumentation.'')),
    (''mental_model'', PyStr (lit ''Automate the guardrails. Measure the user. '' @
        lit ''Spend the budget wisely.'')),
    (''source_path'', PyStr (lit ''labs/24-slo-sli-error-budget/content/05-key-'' @ lit ''takeaways.md'')),
    (''slide_num'', PyStr (lit ''23 / 24''))]\<rparr>\<close>

definition lab24_items_24 :: pyval where [lab24_contents]:
  \<open>lab24_items_24 =
   PyList
   [PyDict
     [(''title'', PyStr (lit ''RINGKASAN LAB'')),
      (''items'', PyList
        [PyStr (lit ''3 komponen: WindowTracker (metrics) + '' @
            lit ''Evaluator (SLO) + AlertEngine (burn rate)''),
         PyStr (lit ''5 test cases: aggregation, budget math, '' @
            lit ''dual-window alert, out-of-order, concurrency''),
         PyStr (lit ''Demo 4 phase: baseline '' @ [0x2192] @ lit '' incident '' @ [0x2192] @
            lit '' alert '' @ [0x2192] @ lit '' cross-SLO comparison''),
         PyStr (lit ''Zero third-party dependencies '' @ [0x2014] @
            lit '' pure Go 1.22 standard library'')]),
      (''type'', PyStr (lit ''bullet''))],
    PyDict
     [(''title'', PyStr (lit ''BUKTI VERIFIKASI'')),
      (''items'', PyList
        [PyStr (lit ''Source: '' @ lab24_REPO_URL),
         PyStr (lit ''Commit: '' @ str_prefix 8 lab24_COMMIT_SHA),
         PyStr (lit ''Tests: ALL PASS (go test -race ./... clean)''),
         PyStr (lit ''Demo: 4-phase execution verified'')]),
      (''type'', PyStr (lit ''bullet''))]]\<close>

definition lab24_slide_24 :: pycall where [lab24_slides]:
  \<open>lab24_slide_24 =
   \<lparr>posargs = [],
  kwargs =
   [(''categories'', PyList
      [PyStr (lit ''CLOSING'')]),
    (''title'', PyStr (lit ''Error Budget: Uang Risiko yang Harus '' @ lit ''Dihabiskan'')),
    (''title_en'', PyStr (lit ''Error Budget: Risk Capital That Must Be '' @ lit ''Spent'')),
    (''subtitle'', PyStr []),
    (''content_items'', lab24_items_24),
    (''narrative'', PyStr (lit ''Lab 24 membuktikan bahwa kerangka kerja '' @
        lit ''SLO/Error Budget dapat diimplementasikan '' @
        lit ''dalam 128 baris Go code murni tanpa '' @
        lit ''dependensi eksternal. Tiga komponen modular '' @ [0x2014] @
        lit '' WindowTracker untuk aggregasi event, '' @
        lit ''Evaluator untuk perhitungan SLI dan budget, '' @
        lit ''AlertEngine untuk multi-window burn rate '' @ [0x2014] @
        lit '' bekerja bersama membentuk sistem '' @ lit ''observability yang mesure'' @
        [0x7528, 0x6237, 0x4F53, 0x9A8C] @
        lit '' langsung. Lima test case mencakup semua '' @
        lit ''boundary condition dan konkurensi. Pesan '' @
        lit ''terakhir: error budget harus dibakar, bukan '' @
        lit ''ditabung. Budget yang tidak terpakai '' @
        lit ''artinya Anda terlalu konservatif dan '' @
        lit ''melewatkan kesempatan innovasi.'')),
    (''narrative_en'', PyStr (lit ''Lab 24 proves that an SLO/Error Budget '' @
        lit ''framework can be implemented in 128 lines '' @
        lit ''of pure Go code with zero external '' @
        lit ''dependencies. Three modular components '' @ [0x2014] @
        lit '' WindowTracker for event aggregation, '' @
        lit ''Evaluator for SLI and budget calculation, '' @
        lit ''AlertEngine for multi-window burn rate '' @ [0x2014] @
        lit '' work together to form a '' @ lit ''user-experience-direct observability '' @
        lit ''system. Five test cases cover all boundary '' @
        lit ''conditions and concurrency. The final '' @
        lit ''message: error budget must be spent, not '' @
        lit ''saved. Unused budget means you are being '' @
        lit ''too conservative and missing innovation '' @ lit ''opportunities.'')),
    (''mental_model'', PyStr (lit ''An unspent error budget is wasted '' @
        lit ''opportunity. Spend it on controlled risk, '' @ lit ''not hoarded perfection.'')),
    (''source_path'', PyStr lab24_REPO_URL),
    (''slide_num'', PyStr (lit ''24 / 24''))]\<rparr>\<close>

definition lab24_calls :: "pycall list" where
  "lab24_calls =
    [lab24_slide_01, lab24_slide_02, lab24_slide_03, lab24_slide_04, lab24_slide_05,
     lab24_slide_06, lab24_slide_07, lab24_slide_08, lab24_slide_09, lab24_slide_10,
     lab24_slide_11, lab24_slide_12, lab24_slide_13, lab24_slide_14, lab24_slide_15,
     lab24_slide_16, lab24_slide_17, lab24_slide_18, lab24_slide_19, lab24_slide_20,
     lab24_slide_21, lab24_slide_22, lab24_slide_23, lab24_slide_24]"

definition lab24_deck :: deck where
  "lab24_deck =
    \<lparr>add_slide = lab24_add_slide, lab_no = lab24_LAB_NO, title_id = lab24_TITLE_ID, calls = lab24_calls\<rparr>"

section \<open>Checks of the calls\<close>

lemma lab24_shapes:
  "\<forall>c \<in> set lab24_calls. shape_of c \<in> set
    [(0, [''categories'', ''title'', ''subtitle'', ''content_items'', ''mental_model'',
      ''source_path'', ''slide_num'', ''narrative'', ''narrative_en'']),
     (0, [''categories'', ''title'', ''title_en'', ''subtitle'', ''content_items'',
      ''narrative'', ''narrative_en'', ''mental_model'', ''source_path'', ''slide_num''])]"
  by (simp only: lab24_calls_def lab24_slides shape_eval cong: pyval_opaque)

lemma lab24_calls_ok: "\<forall>c \<in> set lab24_calls. call_ok sig_en c"
  by (rule calls_ok_by_shapes [OF lab24_shapes])
    (simp add: shape_ok_def param_names_def signature_defs core_params_def)

lemma lab24_labels: "map (\<lambda>c. value_of sig_en c ''slide_num'') lab24_calls = labels_24"
  by (simp only: lab24_calls_def lab24_slides keyword_eval labels_24_eval cong: pyval_opaque)

lemma lab24_contents_of:
  "map (\<lambda>c. value_of sig_en c ''content_items'') lab24_calls =
    [lab24_items_01, lab24_items_02, lab24_items_03, lab24_items_04, lab24_items_05,
     lab24_items_06, lab24_items_07, lab24_items_08, lab24_items_09, lab24_items_10,
     lab24_items_11, lab24_items_12, lab24_items_13, lab24_items_14, lab24_items_15,
     lab24_items_16, lab24_items_17, lab24_items_18, lab24_items_19, lab24_items_20,
     lab24_items_21, lab24_items_22, lab24_items_23, lab24_items_24]"
  by (simp only: lab24_calls_def lab24_slides keyword_eval cong: pyval_opaque)

lemma lab24_items: "item_defects sig_en lab24_calls = []"
  by (simp only: item_defects_def lab24_contents_of)
    (simp add: lab24_contents item_eval cong: pystr_opaque)

end
