(* ===== verification/Deck25.thy ===== *)
theory Deck25
  imports DeckContract
begin

text \<open>
  The publication definition of lab 25, \<^verbatim>\<open>labs/25-rate-limiting-and-backpressure/result/content_def.py\<close>:
  its module constants, every \<open>add_slide\<close> call in order (\<open>lab25_slide_01\<close> is the first),
  and the module as a whole (\<open>lab25_deck\<close>). Long strings are split into pieces that are
  concatenated; a character outside ASCII is its code point.
\<close>

named_theorems lab25_slides \<open>the add_slide calls of lab 25\<close>
named_theorems lab25_contents \<open>their content_items arguments\<close>

definition lab25_OUTPUT_DIR :: pystr where
  \<open>lab25_OUTPUT_DIR = lit ''labs/25-rate-limiting-and-backpressure/resul'' @ lit ''t''\<close>

definition lab25_CHROME_BIN :: pystr where
  \<open>lab25_CHROME_BIN = lit ''/Applications/Google '' @ lit ''Chrome.app/Contents/MacOS/Google Chrome''\<close>

definition lab25_REPO_URL :: pystr where
  \<open>lab25_REPO_URL = lit ''https://github.com/lukman-ss/software-engine'' @
    lit ''ering-lab/tree/main/labs/25-rate-limiting-an'' @ lit ''d-backpressure''\<close>

definition lab25_COMMIT_SHA :: pystr where
  \<open>lab25_COMMIT_SHA = lit ''45cc429''\<close>

definition lab25_LAB_NO :: pystr where
  \<open>lab25_LAB_NO = lit ''25''\<close>

definition lab25_SLUG :: pystr where
  \<open>lab25_SLUG = lit ''rate-limiting-and-backpressure''\<close>

definition lab25_TITLE_ID :: pystr where
  \<open>lab25_TITLE_ID = lit ''Rate Limiting & Backpressure''\<close>

definition lab25_SUBTITLE_ID :: pystr where
  \<open>lab25_SUBTITLE_ID = lit ''Mengontrol Laju Masuk dan Mempropagasi '' @
    lit ''Tekanan Beban di Sistem Terdistribusi''\<close>

definition lab25_TITLE_EN :: pystr where
  \<open>lab25_TITLE_EN = lit ''Rate Limiting & Backpressure''\<close>

definition lab25_SUBTITLE_EN :: pystr where
  \<open>lab25_SUBTITLE_EN = lit ''Controlling Inflow Rate and Propagating '' @
    lit ''Overload Pressure in Distributed Systems''\<close>

definition lab25_AUTHOR :: pystr where
  \<open>lab25_AUTHOR = lit ''Lukman / lukman-ss''\<close>

definition lab25_TOPIC_TAGS :: pystr where
  \<open>lab25_TOPIC_TAGS = lit ''Rate Limiting '' @ [0x2022] @ lit '' Backpressure '' @ [0x2022] @ lit '' Go '' @
    [0x2022] @ lit '' Distributed Systems '' @ [0x2022] @ lit '' System Design''\<close>

definition lab25_COVER_IMAGE_PATH :: pystr where
  \<open>lab25_COVER_IMAGE_PATH = lit ''labs/25-rate-limiting-and-backpressure/resul'' @
    lit ''t/image-cover/cover_art.jpg''\<close>

definition lab25_add_slide :: "pycall \<Rightarrow> pyval list \<Rightarrow> (pyexc, pyval list) res" where
  "lab25_add_slide = add_slide_layout"

definition lab25_items_01 :: pyval where [lab25_contents]:
  \<open>lab25_items_01 =
   PyList
   [PyDict
     [(''type'', PyStr (lit ''cover'')),
      (''title'', PyStr []),
      (''items'', PyList
        [PyStr (lit ''Retro Terminal Displaying Rate Limiters & '' @
            lit ''Bounded Queue Pressure Dynamics''),
         PyStr (lit ''Token Bucket, Leaky Bucket, Fast Rejection '' @
            lit ''Backpressure, and AWS Full Jitter in Pure Go''),
         PyStr (lit ''Penulis: '' @ lab25_AUTHOR)])]]\<close>

definition lab25_slide_01 :: pycall where [lab25_slides]:
  \<open>lab25_slide_01 =
   \<lparr>posargs = [],
  kwargs =
   [(''categories'', PyList
      [PyStr (lit ''COVER'')]),
    (''title'', PyStr lab25_TITLE_ID),
    (''subtitle'', PyStr lab25_SUBTITLE_ID),
    (''content_items'', lab25_items_01),
    (''mental_model'', PyStr (lit ''Rate limiting guards system boundaries; '' @
        lit ''backpressure propagates overload backward '' @
        lit ''through the internal pipeline.'')),
    (''source_path'', PyStr []),
    (''slide_num'', PyStr (lit ''01 / 24'')),
    (''layout'', PyStr (lit ''cover''))]\<rparr>\<close>

definition lab25_items_02 :: pyval where [lab25_contents]:
  \<open>lab25_items_02 =
   PyList
   [PyDict
     [(''type'', PyStr (lit ''cards'')),
      (''title'', PyStr (lit ''DAMPAK KETIADAAN LIMITER DAN BACKPRESSURE'')),
      (''items'', PyList
        [PyDict
          [(''title'', PyStr (lit ''Penumpukan Antrean'')),
           (''desc'', PyStr (lit ''5.000.000 request dengan drain 2.000/detik '' @
               lit ''butuh 41 menit 40 detik untuk menguras '' @ lit ''buffer.''))],
         PyDict
          [(''title'', PyStr (lit ''Kehabisan Memori'')),
           (''desc'', PyStr (lit ''Buffer tak terbatas menyerap jutaan objek '' @
               lit ''hingga proses terbunuh oleh OOM killer OS.''))],
         PyDict
          [(''title'', PyStr (lit ''Bukan Berarti Rusak'')),
           (''desc'', PyStr (lit ''Sistem melayani request normal saat sepi, '' @
               lit ''tetapi bukan berarti aman dari lonjakan '' @ lit ''mendadak.''))]])]]\<close>

definition lab25_slide_02 :: pycall where [lab25_slides]:
  \<open>lab25_slide_02 =
   \<lparr>posargs = [],
  kwargs =
   [(''categories'', PyList
      [PyStr (lit ''PROBLEM''),
       PyStr (lit ''QUEUE OVERLOAD'')]),
    (''title'', PyStr (lit ''Antrean Tak Berbatas Memicu Kolaps Memori '' @ lit ''dan Latensi'')),
    (''subtitle'', PyStr (lit ''Ketika laju kedatangan melebihi kapasitas '' @
        lit ''proses hilir, antrean bertumpuk tanpa batas.'')),
    (''content_items'', lab25_items_02),
    (''narrative'', PyStr (lit ''Ketiadaan batas masuk membiarkan jutaan '' @
        lit ''request menumpuk saat downstream melambat. '' @
        lit ''Sistem yang berjalan lancar di kondisi '' @
        lit ''normal bukan berarti mampu bertahan tanpa '' @
        lit ''rate limiter ketika lonjakan beban traffic '' @ lit ''tak terduga datang.'')),
    (''narrative_en'', PyStr (lit ''Without boundary controls, arrival bursts '' @
        lit ''overwhelm downstream consumers and trigger '' @
        lit ''unbounded memory accumulation. A system '' @
        lit ''running smoothly under light load does not '' @
        lit ''automatically withstand unexpected traffic '' @ lit ''spikes.'')),
    (''mental_model'', PyStr (lit ''Unbounded buffers trade bounded latency for '' @
        lit ''catastrophic out-of-memory crashes.'')),
    (''source_path'', PyStr (lit ''content/02-master-draft.md:3-12'')),
    (''slide_num'', PyStr (lit ''02 / 24'')),
    (''layout'', PyStr (lit ''cards''))]\<rparr>\<close>

definition lab25_items_03 :: pyval where [lab25_contents]:
  \<open>lab25_items_03 =
   PyList
   [PyDict
     [(''type'', PyStr (lit ''cards'')),
      (''title'', PyStr (lit ''KELEMAHAN PENDEKATAN NAIF'')),
      (''items'', PyList
        [PyDict
          [(''title'', PyStr (lit ''Kolateral CGNAT'')),
           (''desc'', PyStr (lit ''RFC 6598 membuat ribuan pelanggan berbagi '' @
               lit ''satu IP; satu pengguna bising melumpuhkan '' @ lit ''seluruh tenant.''))],
         PyDict
          [(''title'', PyStr (lit ''Thundering Herd'')),
           (''desc'', PyStr (lit ''100 client retry di interval deterministik '' @
               lit ''yang sama menggandakan beban saat backend '' @ lit ''baru pulih.''))],
         PyDict
          [(''title'', PyStr (lit ''Tidak Otomatis Aman'')),
           (''desc'', PyStr (lit ''Menambah kapasitas server tidak otomatis '' @
               lit ''menyelesaikan bottleneck jika retry storm '' @
               lit ''terus menggempur.''))]])]]\<close>

definition lab25_slide_03 :: pycall where [lab25_slides]:
  \<open>lab25_slide_03 =
   \<lparr>posargs = [],
  kwargs =
   [(''categories'', PyList
      [PyStr (lit ''WHY FAILS''),
       PyStr (lit ''NAIVE APPROACH'')]),
    (''title'', PyStr (lit ''Throttling Berbasis IP dan Retry '' @ lit ''Deterministik Melumpuhkan Sistem'')),
    (''subtitle'', PyStr (lit ''CGNAT mencampur ribuan tenant, sementara '' @
        lit ''retry tanpa jitter memicu thundering herd.'')),
    (''content_items'', lab25_items_03),
    (''narrative'', PyStr (lit ''Rate limiting berbasis IP publik merugikan '' @
        lit ''ribuan pengguna di balik CGNAT karena kuota '' @
        lit ''terpakai habis oleh satu pengguna. Di sisi '' @
        lit ''lain, menambah kapasitas CPU tidak otomatis '' @
        lit ''menyelesaikan masalah jika retry klien '' @ lit ''terus datang serempak.'')),
    (''narrative_en'', PyStr (lit ''IP-based limiting collaterally penalizes '' @
        lit ''legitimate tenants behind CGNAT gateways. '' @
        lit ''Scaling compute capacity does not '' @
        lit ''automatically resolve outages when clients '' @
        lit ''retry simultaneously in lockstep '' @ lit ''synchronized waves.'')),
    (''mental_model'', PyStr (lit ''IP-based rate limits cause collateral '' @
        lit ''damage under CGNAT; jitterless retries '' @
        lit ''synchronize thundering herds.'')),
    (''source_path'', PyStr (lit ''content/02-master-draft.md:33-36'')),
    (''slide_num'', PyStr (lit ''03 / 24'')),
    (''layout'', PyStr (lit ''cards''))]\<rparr>\<close>

definition lab25_items_04 :: pyval where [lab25_contents]:
  \<open>lab25_items_04 =
   PyList
   [PyDict
     [(''type'', PyStr (lit ''schema'')),
      (''title'', PyStr (lit ''TIGA PILAR PENGENDALIAN OVERLOAD'')),
      (''items'', PyList
        [PyDict
          [(''phase'', PyStr (lit ''1. Rate Limiting'')),
           (''role'', PyStr (lit ''Boundary Guard'')),
           (''desc'', PyStr (lit ''Token bucket mengontrol laju masuk di API '' @
               lit ''gateway dan memotong burst liar.''))],
         PyDict
          [(''phase'', PyStr (lit ''2. Backpressure'')),
           (''role'', PyStr (lit ''Internal Defense'')),
           (''desc'', PyStr (lit ''Bounded queue menolak kelebihan job '' @
               lit ''seketika dengan sinyal ErrQueueFull.''))],
         PyDict
          [(''phase'', PyStr (lit ''3. Jittered Retry'')),
           (''role'', PyStr (lit ''Client Backoff'')),
           (''desc'', PyStr (lit ''Hanya pada jalur ini acakan [0, temp] '' @
               lit ''mencegah sinkronisasi thundering herd.''))],
         PyDict
          [(''phase'', PyStr (lit ''4. RFC 6585 429'')),
           (''role'', PyStr (lit ''Protocol Signal'')),
           (''desc'', PyStr (lit ''Memberi tahu klien kapan waktu aman untuk '' @
               lit ''mencoba kembali via Retry-After.''))]])]]\<close>

definition lab25_slide_04 :: pycall where [lab25_slides]:
  \<open>lab25_slide_04 =
   \<lparr>posargs = [],
  kwargs =
   [(''categories'', PyList
      [PyStr (lit ''MENTAL MODEL''),
       PyStr (lit ''PILLARS'')]),
    (''title'', PyStr (lit ''Tiga Pilar Resiliensi: Limiter, Bounded '' @ lit ''Queue, dan Jitter'')),
    (''subtitle'', PyStr (lit ''Pengendalian pintu masuk, penolakan cepat '' @
        lit ''internal, dan desinkronisasi percobaan '' @ lit ''ulang.'')),
    (''content_items'', lab25_items_04),
    (''narrative'', PyStr (lit ''Resiliensi sistem terdistribusi bertumpu '' @
        lit ''pada isolasi pintu masuk via token bucket '' @
        lit ''dan propagasi tekanan ke hulu via bounded '' @
        lit ''queue. Hanya pada jalur ini klien yang '' @
        lit ''menerima sinyal 429 mendistribusikan waktu '' @
        lit ''tunggu secara acak merata.'')),
    (''narrative_en'', PyStr (lit ''Distributed resilience relies on entrance '' @
        lit ''policing via token buckets combined with '' @
        lit ''backward pressure signals from bounded '' @
        lit ''buffers. Only along this path do throttled '' @
        lit ''clients disperse retry intervals uniformly '' @ lit ''across time.'')),
    (''mental_model'', PyStr (lit ''Rate limiting polices external boundaries; '' @
        lit ''backpressure rejects internal overload; '' @
        lit ''jitter disperses client retries.'')),
    (''source_path'', PyStr (lit ''content/01-content-brief.md:6-10'')),
    (''slide_num'', PyStr (lit ''04 / 24'')),
    (''layout'', PyStr (lit ''schema''))]\<rparr>\<close>

definition lab25_items_05 :: pyval where [lab25_contents]:
  \<open>lab25_items_05 =
   PyList
   [PyDict
     [(''type'', PyStr (lit ''schema'')),
      (''title'', PyStr (lit ''PIPELINE PEMROSESAN PER TENANT'')),
      (''items'', PyList
        [PyDict
          [(''phase'', PyStr (lit ''1. Tenant Extractor'')),
           (''role'', PyStr (lit ''HTTP Middleware'')),
           (''desc'', PyStr (lit ''Membaca header X-API-Key untuk mendapatkan '' @
               lit ''identitas tenant terisolasi.''))],
         PyDict
          [(''phase'', PyStr (lit ''2. Token Bucket'')),
           (''role'', PyStr (lit ''Registry Lookup'')),
           (''desc'', PyStr (lit ''Memeriksa kuota token; melebihi batas '' @
               lit ''menghasilkan 429 Too Many Requests.''))],
         PyDict
          [(''phase'', PyStr (lit ''3. Bounded Queue'')),
           (''role'', PyStr (lit ''Channel Buffer'')),
           (''desc'', PyStr (lit ''Menerima job ke antrean; buffer penuh '' @
               lit ''langsung menolak dengan ErrQueueFull.''))],
         PyDict
          [(''phase'', PyStr (lit ''4. Worker Pool'')),
           (''role'', PyStr (lit ''Job Consumer'')),
           (''desc'', PyStr (lit ''Konsumer memproses job; belum membuktikan '' @
               lit ''isolasi resource CPU per worker.''))]])]]\<close>

definition lab25_slide_05 :: pycall where [lab25_slides]:
  \<open>lab25_slide_05 =
   \<lparr>posargs = [],
  kwargs =
   [(''categories'', PyList
      [PyStr (lit ''ARCHITECTURE''),
       PyStr (lit ''PIPELINE'')]),
    (''title'', PyStr (lit ''Alur Arsitektur: Dari Ekstraksi Tenant ke '' @ lit ''Konsumer'')),
    (''subtitle'', PyStr (lit ''Memisahkan layer gateway, rate limiter, '' @
        lit ''bounded buffer, hingga worker pool.'')),
    (''content_items'', lab25_items_05),
    (''narrative'', PyStr (lit ''Request masuk diidentifikasi per tenant, '' @
        lit ''divalidasi oleh token bucket, lalu '' @
        lit ''diserahkan ke bounded queue. Arsitektur ini '' @
        lit ''mencegah kelebihan beban di memori, namun '' @
        lit ''belum membuktikan jaminan alokasi CPU per '' @
        lit ''tenant di level container OS.'')),
    (''narrative_en'', PyStr (lit ''Incoming requests are identified per '' @
        lit ''tenant, gated by token buckets, and '' @
        lit ''buffered into bounded channels. This '' @
        lit ''protects memory from unbounded growth, '' @
        lit ''though it does not prove OS-level CPU core '' @
        lit ''isolation across workers.'')),
    (''mental_model'', PyStr (lit ''Layered defense isolates tenants at the '' @
        lit ''gateway and sheds excess load immediately '' @ lit ''at queue boundaries.'')),
    (''source_path'', PyStr (lit ''content/04-diagrams.md:7-24'')),
    (''slide_num'', PyStr (lit ''05 / 24'')),
    (''layout'', PyStr (lit ''schema''))]\<rparr>\<close>

definition lab25_items_06 :: pyval where [lab25_contents]:
  \<open>lab25_items_06 =
   PyList
   [PyDict
     [(''title'', PyStr (lit ''MATRIKS KOMPARASI TOKEN BUCKET VS LEAKY '' @ lit ''BUCKET'')),
      (''items'', PyList
        [PyStr (lit ''Karakteristik | Token Bucket (Traffic '' @
            lit ''Burst) | Leaky Bucket (Traffic Smoothing)''),
         PyStr (lit ''Toleransi Burst | Mengizinkan burst hingga '' @
            lit ''kapasitas B | Menahan burst; output rata '' @ lit ''pada laju R''),
         PyStr (lit ''State Utama | Jumlah token yang siap '' @
            lit ''dikonsumsi | Level air yang menunggu '' @ lit ''dibocorkan''),
         PyStr (lit ''Mekanisme Tolak | Token < n yang diminta | '' @
            lit ''Penambahan air melebihi kapasitas B''),
         PyStr (lit ''Kasus Penggunaan | API Gateway, bursty '' @
            lit ''interactive user | Egress traffic shaping, '' @ lit ''NGINX limit_req''),
         PyStr (lit ''Respons Standar | HTTP 429 Too Many '' @
            lit ''Requests | HTTP 429 atau 503 Service '' @ lit ''Unavailable'')]),
      (''type'', PyStr (lit ''table''))]]\<close>

definition lab25_slide_06 :: pycall where [lab25_slides]:
  \<open>lab25_slide_06 =
   \<lparr>posargs = [],
  kwargs =
   [(''categories'', PyList
      [PyStr (lit ''ALGORITHM''),
       PyStr (lit ''COMPARISON'')]),
    (''title'', PyStr (lit ''Perbandingan Algoritma: Token Bucket vs '' @ lit ''Leaky Bucket'')),
    (''subtitle'', PyStr (lit ''Keduanya setara secara matematis sebagai '' @
        lit ''meter, namun berbeda sudut pandang kendali.'')),
    (''content_items'', lab25_items_06),
    (''narrative'', PyStr (lit ''Token bucket mengizinkan akumulasi token '' @
        lit ''untuk mengakomodasi burst jangka pendek, '' @
        lit ''sedangkan leaky bucket memaksa laju '' @
        lit ''keluaran konstan. Pilihan bergantung pada '' @
        lit ''kebutuhan: fleksibilitas burst atau '' @ lit ''penghalusan trafik ke hilir.'')),
    (''narrative_en'', PyStr (lit ''Token buckets permit transient bursts up to '' @
        lit ''capacity while enforcing average rates; '' @
        lit ''leaky buckets strictly smooth outflow. '' @
        lit ''Selection hinges on whether downstream '' @
        lit ''services prefer accommodating bursts or '' @ lit ''demanding paced traffic.'')),
    (''mental_model'', PyStr (lit ''Token bucket permits bursts up to capacity; '' @
        lit ''leaky bucket smooths output to a strict '' @ lit ''constant rate.'')),
    (''source_path'', PyStr (lit ''content/02-master-draft.md:21-28'')),
    (''slide_num'', PyStr (lit ''06 / 24'')),
    (''layout'', PyStr (lit ''table''))]\<rparr>\<close>

definition lab25_items_07 :: pyval where [lab25_contents]:
  \<open>lab25_items_07 =
   PyList
   [PyDict
     [(''type'', PyStr (lit ''code'')),
      (''title'', PyStr (lit ''internal/ratelimit/bucket.go'')),
      (''items'', PyList
        [PyStr (lit ''func (tb *TokenBucket) AllowN(n float64) '' @ lit ''bool {''),
         PyStr (lit ''    tb.mu.Lock()''),
         PyStr (lit ''    defer tb.mu.Unlock()''),
         PyStr (lit ''    now := time.Now()''),
         PyStr (lit ''    elapsed := '' @ lit ''now.Sub(tb.lastRefill).Seconds()''),
         PyStr (lit ''    tb.tokens = math.Min(tb.capacity, '' @
            lit ''tb.tokens+elapsed*tb.refillRate)''),
         PyStr (lit ''    tb.lastRefill = now''),
         PyStr (lit ''    if tb.tokens >= n {''),
         PyStr (lit ''        tb.tokens -= n''),
         PyStr (lit ''        return true''),
         PyStr (lit ''    }''),
         PyStr (lit ''    return false''),
         PyStr (lit ''}'')])]]\<close>

definition lab25_slide_07 :: pycall where [lab25_slides]:
  \<open>lab25_slide_07 =
   \<lparr>posargs = [],
  kwargs =
   [(''categories'', PyList
      [PyStr (lit ''IMPLEMENTATION''),
       PyStr (lit ''TOKEN BUCKET'')]),
    (''title'', PyStr (lit ''Token Bucket: Pengisian Waktu Berjalan dan '' @ lit ''Konsumsi'')),
    (''subtitle'', PyStr (lit ''Menghitung elapsed time secara monotonik '' @
        lit ''tanpa timer background yang boros.'')),
    (''content_items'', lab25_items_07),
    (''narrative'', PyStr (lit ''TokenBucket menghitung penambahan token '' @
        lit ''secara pasif berdasarkan selisih waktu '' @
        lit ''antar-panggilan. Penggunaan mutex bukan '' @
        lit ''berarti implementasi tidak optimal; lock '' @
        lit ''lokal menjamin atomisitas pembaruan '' @
        lit ''multi-field secara bersih dan aman.'')),
    (''narrative_en'', PyStr (lit ''TokenBucket lazily replenishes tokens on '' @
        lit ''each invocation via monotonic timestamps, '' @
        lit ''avoiding background timer routines. Relying '' @
        lit ''on mutex locks does not imply inefficient '' @
        lit ''code; it ensures robust multi-field '' @ lit ''consistency.'')),
    (''mental_model'', PyStr (lit ''Lazy replenishment on call converts '' @
        lit ''expensive timer ticker goroutines into '' @
        lit ''cheap timestamp arithmetic.'')),
    (''source_path'', PyStr (lit ''internal/ratelimit/bucket.go:29-46'')),
    (''slide_num'', PyStr (lit ''07 / 24'')),
    (''layout'', PyStr (lit ''code''))]\<rparr>\<close>

definition lab25_items_08 :: pyval where [lab25_contents]:
  \<open>lab25_items_08 =
   PyList
   [PyDict
     [(''type'', PyStr (lit ''code'')),
      (''title'', PyStr (lit ''internal/ratelimit/bucket.go'')),
      (''items'', PyList
        [PyStr (lit ''func (tb *TokenBucket) RetryAfterSeconds(n '' @ lit ''float64) int {''),
         PyStr (lit ''    tb.mu.Lock()''),
         PyStr (lit ''    defer tb.mu.Unlock()''),
         PyStr (lit ''    // ... perbarui token dari elapsed time '' @ lit ''...''),
         PyStr (lit ''    if tb.tokens >= n { return 0 }''),
         PyStr (lit ''    needed := n - tb.tokens''),
         PyStr (lit ''    secs := needed / tb.refillRate''),
         PyStr (lit ''    rounded := int(secs)''),
         PyStr (lit ''    if float64(rounded) < secs { rounded++ }''),
         PyStr (lit ''    return rounded''),
         PyStr (lit ''}'')])]]\<close>

definition lab25_slide_08 :: pycall where [lab25_slides]:
  \<open>lab25_slide_08 =
   \<lparr>posargs = [],
  kwargs =
   [(''categories'', PyList
      [PyStr (lit ''IMPLEMENTATION''),
       PyStr (lit ''RFC 6585'')]),
    (''title'', PyStr (lit ''Kalkulasi Retry-After: Panduan Presisi '' @ lit ''Waktu Tunggu'')),
    (''subtitle'', PyStr (lit ''Menghitung waktu tunggu pembulatan ke atas '' @
        lit ''agar klien tidak retry prematur.'')),
    (''content_items'', lab25_items_08),
    (''narrative'', PyStr (lit ''Kekurangan token dibagi dengan laju '' @
        lit ''pengisian lalu dibulatkan ke atas menjadi '' @
        lit ''detik bulat. Hanya pada jalur ini klien '' @
        lit ''yang ditolak menerima informasi presisi '' @
        lit ''kapan kuota mereka akan terisi kembali '' @ lit ''tanpa menebak-nebak.'')),
    (''narrative_en'', PyStr (lit ''Token shortfall is divided by refill rate '' @
        lit ''and rounded up to integer seconds. Only '' @
        lit ''along this path do rejected callers receive '' @
        lit ''accurate resumption timestamps rather than '' @
        lit ''resorting to arbitrary retry delays.'')),
    (''mental_model'', PyStr (lit ''Round up retry delay to integer seconds to '' @
        lit ''prevent clients from retrying before token '' @ lit ''replenishment.'')),
    (''source_path'', PyStr (lit ''internal/ratelimit/bucket.go:55-79'')),
    (''slide_num'', PyStr (lit ''08 / 24'')),
    (''layout'', PyStr (lit ''code''))]\<rparr>\<close>

definition lab25_items_09 :: pyval where [lab25_contents]:
  \<open>lab25_items_09 =
   PyList
   [PyDict
     [(''type'', PyStr (lit ''code'')),
      (''title'', PyStr (lit ''internal/backpressure/queue.go'')),
      (''items'', PyList
        [PyStr (lit ''func (bq *BoundedQueue) TrySubmit(job Job) '' @ lit ''error {''),
         PyStr (lit ''    bq.stopMu.RLock()''),
         PyStr (lit ''    defer bq.stopMu.RUnlock()''),
         PyStr (lit ''    if bq.stopped { return ErrQueueStopped }''),
         PyStr (lit ''    select {''),
         PyStr (lit ''    case bq.queue <- job:''),
         PyStr (lit ''        bq.accepted.Add(1)''),
         PyStr (lit ''        return nil''),
         PyStr (lit ''    default:''),
         PyStr (lit ''        bq.rejected.Add(1)''),
         PyStr (lit ''        return ErrQueueFull''),
         PyStr (lit ''    }''),
         PyStr (lit ''}'')])]]\<close>

definition lab25_slide_09 :: pycall where [lab25_slides]:
  \<open>lab25_slide_09 =
   \<lparr>posargs = [],
  kwargs =
   [(''categories'', PyList
      [PyStr (lit ''IMPLEMENTATION''),
       PyStr (lit ''BACKPRESSURE'')]),
    (''title'', PyStr (lit ''Bounded Queue: Penolakan Cepat dengan '' @ lit ''Select-Default'')),
    (''subtitle'', PyStr (lit ''Mencegah tumpukan memori tak terbatas '' @
        lit ''dengan membuang beban berlebih seketika.'')),
    (''content_items'', lab25_items_09),
    (''narrative'', PyStr (lit ''Pola select-default mengantrekan job jika '' @
        lit ''kanal longgar atau langsung mengembalikan '' @
        lit ''ErrQueueFull saat penuh. Menolak job '' @
        lit ''seketika bukan berarti sistem tidak andal; '' @
        lit ''ini tindakan proteksi mandiri agar proses '' @ lit ''tidak kehabisan memori.'')),
    (''narrative_en'', PyStr (lit ''The select-default pattern pushes jobs if '' @
        lit ''buffer capacity exists or drops instantly '' @
        lit ''with ErrQueueFull. Fast rejection does not '' @
        lit ''signify poor service quality; it is an '' @
        lit ''essential survival mechanism preventing '' @ lit ''memory exhaustion.'')),
    (''mental_model'', PyStr (lit ''Select-default on bounded channels gives '' @
        lit ''zero-allocation, instant backpressure '' @ lit ''shedding.'')),
    (''source_path'', PyStr (lit ''internal/backpressure/queue.go:67-85'')),
    (''slide_num'', PyStr (lit ''09 / 24'')),
    (''layout'', PyStr (lit ''code''))]\<rparr>\<close>

definition lab25_items_10 :: pyval where [lab25_contents]:
  \<open>lab25_items_10 =
   PyList
   [PyDict
     [(''type'', PyStr (lit ''code'')),
      (''title'', PyStr (lit ''internal/retry/backoff.go'')),
      (''items'', PyList
        [PyStr (lit ''func ComputeBackoff(strategy '' @ lit ''BackoffStrategy, attempt int,''),
         PyStr (lit ''    cfg Config, prevSleep time.Duration) '' @ lit ''time.Duration {''),
         PyStr (lit ''    expBackoff := float64(cfg.Base) * '' @
            lit ''math.Pow(2, float64(attempt))''),
         PyStr (lit ''    temp := math.Min(float64(cfg.Cap), '' @ lit ''expBackoff)''),
         PyStr (lit ''    switch strategy {''),
         PyStr (lit ''    case FullJitter:''),
         PyStr (lit ''        if temp <= 0 { return 0 }''),
         PyStr (lit ''        return time.Duration(rand.Float64() '' @ lit ''* temp)''),
         PyStr (lit ''    // ... case EqualJitter, '' @ lit ''DecorrelatedJitter, NoJitter ...''),
         PyStr (lit ''    }''),
         PyStr (lit ''}'')])]]\<close>

definition lab25_slide_10 :: pycall where [lab25_slides]:
  \<open>lab25_slide_10 =
   \<lparr>posargs = [],
  kwargs =
   [(''categories'', PyList
      [PyStr (lit ''IMPLEMENTATION''),
       PyStr (lit ''FULL JITTER'')]),
    (''title'', PyStr (lit ''AWS Full Jitter: Mencegah Sinkronisasi '' @ lit ''Thundering Herd'')),
    (''subtitle'', PyStr (lit ''sleep = random(0, min(cap, base '' @ [0xD7] @
        lit '' 2^attempt)) menyebarkan lonjakan beban.'')),
    (''content_items'', lab25_items_10),
    (''narrative'', PyStr (lit ''Full Jitter mengambil sampel acak seragam '' @
        lit ''antara nol hingga batas plafon '' @
        lit ''eksponensial. Menambahkan jitter tidak '' @
        lit ''otomatis mempercepat waktu pemulihan jika '' @
        lit ''kapasitas downstream memang telah runtuh '' @ lit ''secara permanen.'')),
    (''narrative_en'', PyStr (lit ''Full Jitter samples uniformly across zero '' @
        lit ''to the exponential ceiling, desynchronizing '' @
        lit ''concurrent clients. Introducing jitter does '' @
        lit ''not automatically restore services if '' @
        lit ''downstream capacity has experienced '' @ lit ''permanent collapse.'')),
    (''mental_model'', PyStr (lit ''Full jitter samples uniformly from zero to '' @
        lit ''the exponential ceiling to disperse client '' @ lit ''retry waves.'')),
    (''source_path'', PyStr (lit ''internal/retry/backoff.go:24-43'')),
    (''slide_num'', PyStr (lit ''10 / 24'')),
    (''layout'', PyStr (lit ''code''))]\<rparr>\<close>

definition lab25_items_11 :: pyval where [lab25_contents]:
  \<open>lab25_items_11 =
   PyList
   [PyDict
     [(''type'', PyStr (lit ''code'')),
      (''title'', PyStr (lit ''internal/httputil/middleware.go'')),
      (''items'', PyList
        [PyStr (lit ''func RateLimitMiddleware(reg '' @
            lit ''*ratelimit.Registry, next http.Handler) '' @ lit ''http.Handler {''),
         PyStr (lit ''    return http.HandlerFunc(func(w '' @
            lit ''http.ResponseWriter, r *http.Request) {''),
         PyStr (lit ''        key := r.Header.Get("X-API-Key")''),
         PyStr (lit ''        if key == "" { key = "anonymous" }''),
         PyStr (lit ''        bucket := reg.Get(key)''),
         PyStr (lit ''        if !bucket.Allow() {''),
         PyStr (lit ''            retryAfter := '' @ lit ''bucket.RetryAfterSeconds(1.0)''),
         PyStr (lit ''            w.Header().Set("Retry-After", '' @
            lit ''strconv.Itoa(retryAfter))''),
         PyStr (lit ''            '' @ lit ''w.WriteHeader(http.StatusTooManyRequests) '' @
            lit ''// 429''),
         PyStr (lit ''            _ = '' @
            lit ''json.NewEncoder(w).Encode(RateLimitResponse{'' @ lit ''...})''),
         PyStr (lit ''            return''),
         PyStr (lit ''        }''),
         PyStr (lit ''        next.ServeHTTP(w, r)''),
         PyStr (lit ''    })''),
         PyStr (lit ''}'')])]]\<close>

definition lab25_slide_11 :: pycall where [lab25_slides]:
  \<open>lab25_slide_11 =
   \<lparr>posargs = [],
  kwargs =
   [(''categories'', PyList
      [PyStr (lit ''IMPLEMENTATION''),
       PyStr (lit ''MIDDLEWARE'')]),
    (''title'', PyStr (lit ''Middleware HTTP: Menegakkan Status 429 RFC '' @ lit ''6585'')),
    (''subtitle'', PyStr (lit ''Mengekstraksi tenant API key dan '' @
        lit ''mengembalikan header Retry-After standar.'')),
    (''content_items'', lab25_items_11),
    (''narrative'', PyStr (lit ''Middleware mengisolasi token bucket per '' @
        lit ''tenant key sebelum meneruskan request ke '' @
        lit ''handler berikutnya. Mengirimkan status 429 '' @
        lit ''bukan berarti client dilarang selamanya; '' @
        lit ''header Retry-After memandu kapan '' @ lit ''pemanggilan boleh diulang.'')),
    (''narrative_en'', PyStr (lit ''Middleware validates per-tenant token '' @
        lit ''buckets prior to passing execution to '' @
        lit ''application handlers. Returning HTTP 429 '' @
        lit ''does not imply permanent rejection; the '' @
        lit ''Retry-After header guides intelligent '' @ lit ''rescheduling.'')),
    (''mental_model'', PyStr (lit ''Extract tenant keys at edge middleware, '' @
        lit ''reject excess with 429, and provide '' @ lit ''explicit Retry-After headers.'')),
    (''source_path'', PyStr (lit ''internal/httputil/middleware.go:17-39'')),
    (''slide_num'', PyStr (lit ''11 / 24'')),
    (''layout'', PyStr (lit ''code''))]\<rparr>\<close>

definition lab25_items_12 :: pyval where [lab25_contents]:
  \<open>lab25_items_12 =
   PyList
   [PyDict
     [(''type'', PyStr (lit ''code'')),
      (''title'', PyStr (lit ''TERMINAL OUTPUT: go run ./cmd/demo'')),
      (''items'', PyList
        [PyStr (lit ''=== 1. Token Bucket Burst & Rate Limiting '' @ lit ''===''),
         PyStr (lit ''Request #1..3: Allowed=true | Request '' @ lit ''#4..5: Allowed=false''),
         PyStr (lit ''After 300ms pause: Allowed=true (Remaining '' @ lit ''Tokens: 0.5)''),
         PyStr (lit ''=== 2. Leaky Bucket Traffic Smoothing ===''),
         PyStr (lit ''Request #1..3: Allowed=true | Request '' @
            lit ''#4..5: Allowed=false (Water: 3.0)''),
         PyStr (lit ''=== 3. Bounded Queue Backpressure (Load '' @ lit ''Shedding) ===''),
         PyStr (lit ''Job #1..3: ACCEPTED | Job #4, #6: REJECTED '' @
            lit ''(queue capacity exceeded)''),
         PyStr (lit ''Stats: Accepted=4, Rejected=2, Processed=1''),
         PyStr (lit ''=== 4. AWS Retry Backoff Strategies '' @ lit ''(Attempts 0..3) ===''),
         PyStr (lit ''Attempt 0 -> NoJitter: 100ms  | FullJitter: '' @
            lit ''61ms   | EqualJitter: 80ms''),
         PyStr (lit ''Attempt 3 -> NoJitter: 800ms  | FullJitter: '' @
            lit ''342ms  | EqualJitter: 647ms'')])]]\<close>

definition lab25_slide_12 :: pycall where [lab25_slides]:
  \<open>lab25_slide_12 =
   \<lparr>posargs = [],
  kwargs =
   [(''categories'', PyList
      [PyStr (lit ''EVIDENCE''),
       PyStr (lit ''TERMINAL DEMO'')]),
    (''title'', PyStr (lit ''Eksekusi Demo cmd/demo: Empat Verifikasi '' @ lit ''Perilaku'')),
    (''subtitle'', PyStr (lit ''Output terminal membuktikan burst, '' @
        lit ''smoothing, penolakan beban, dan sebaran '' @ lit ''jitter.'')),
    (''content_items'', lab25_items_12),
    (''narrative'', PyStr (lit ''Demo membuktikan seluruh skenario berjalan '' @
        lit ''sesuai spesifikasi: 3 request awal lolos '' @
        lit ''burst lalu ditolak, buffer antrean menolak '' @
        lit ''job saat melampaui kapasitas 3, dan Full '' @
        lit ''Jitter mendispersi waktu jeda secara acak.'')),
    (''narrative_en'', PyStr (lit ''The demo run verifies all four components: '' @
        lit ''3 initial burst requests succeed before '' @
        lit ''immediate rejection, the bounded buffer '' @
        lit ''drops excess jobs beyond capacity 3, and '' @
        lit ''Full Jitter desynchronizes retry sleeps.'')),
    (''mental_model'', PyStr (lit ''Executable verification proves burst '' @
        lit ''accommodation, queue shedding, and jitter '' @
        lit ''dispersion in live runs.'')),
    (''source_path'', PyStr (lit ''cmd/demo/main.go:13-65'')),
    (''slide_num'', PyStr (lit ''12 / 24'')),
    (''layout'', PyStr (lit ''code''))]\<rparr>\<close>

definition lab25_items_13 :: pyval where [lab25_contents]:
  \<open>lab25_items_13 =
   PyList
   [PyDict
     [(''type'', PyStr (lit ''code'')),
      (''title'', PyStr (lit ''TERMINAL OUTPUT: go test -v -race ./...'')),
      (''items'', PyList
        [PyStr (lit ''=== RUN   TestTokenBucket_BurstAndRefill / '' @ lit ''ConcurrencyRace''),
         PyStr (lit ''--- PASS: TestTokenBucket_* (0.05s)''),
         PyStr (lit ''=== RUN   TestLeakyBucket_LeakRate / '' @ lit ''ConcurrencyRace''),
         PyStr (lit ''--- PASS: TestLeakyBucket_* (0.02s)''),
         PyStr (lit ''=== RUN   TestRegistry_TenantIsolation / '' @ lit ''ConcurrentSameKeyGet''),
         PyStr (lit ''--- PASS: TestRegistry_* (0.01s)''),
         PyStr (lit ''=== RUN   TestBoundedQueue_RejectionUnderLoa'' @
            lit ''d / ConcurrencySafety''),
         PyStr (lit ''--- PASS: TestBoundedQueue_* (0.08s)''),
         PyStr (lit ''=== RUN   TestComputeBackoff_Bounds / '' @
            lit ''DecorrelatedJitter_Bounds''),
         PyStr (lit ''--- PASS: TestComputeBackoff_* (0.00s)''),
         PyStr (lit ''=== RUN   TestRateLimitMiddleware_RFC6585 / '' @ lit ''AnonymousFallback''),
         PyStr (lit ''--- PASS: TestRateLimitMiddleware_* (0.00s)''),
         PyStr (lit ''PASS: ok labs/25-rate-limiting-and-backpress'' @
            lit ''ure (race detector: clean)'')])]]\<close>

definition lab25_slide_13 :: pycall where [lab25_slides]:
  \<open>lab25_slide_13 =
   \<lparr>posargs = [],
  kwargs =
   [(''categories'', PyList
      [PyStr (lit ''VERIFICATION''),
       PyStr (lit ''TEST SUITE'')]),
    (''title'', PyStr (lit ''Verifikasi Test Suite: 15/15 PASS dan '' @ lit ''Bersih dari Race'')),
    (''subtitle'', PyStr (lit ''Seluruh modul rate limiting, queue, retry, '' @
        lit ''dan middleware teruji konkurensi.'')),
    (''content_items'', lab25_items_13),
    (''narrative'', PyStr (lit ''Seluruh 15 unit test lolos tanpa kegagalan '' @
        lit ''di bawah race detector Go dengan goroutine '' @
        lit ''agresif. Simulasi in-memory ini tidak sama '' @
        lit ''dengan cluster Redis terdistribusi yang '' @
        lit ''harus menangani latency jaringan antar node.'')),
    (''narrative_en'', PyStr (lit ''All 15 automated test cases pass cleanly '' @
        lit ''under the Go race detector under concurrent '' @
        lit ''stress. While this verifies in-memory '' @
        lit ''algorithms, this simulation is not '' @
        lit ''equivalent to distributed Redis clusters '' @ lit ''spanning networks.'')),
    (''mental_model'', PyStr (lit ''Race-clean unit tests prove concurrent '' @
        lit ''synchronization correctness in local '' @ lit ''shared-memory runtimes.'')),
    (''source_path'', PyStr (lit ''engineering/03-execution-result.md:8-60'')),
    (''slide_num'', PyStr (lit ''13 / 24'')),
    (''layout'', PyStr (lit ''code''))]\<rparr>\<close>

definition lab25_items_14 :: pyval where [lab25_contents]:
  \<open>lab25_items_14 =
   PyList
   [PyDict
     [(''type'', PyStr (lit ''cards'')),
      (''title'', PyStr (lit ''BATAS PEMBUKTIAN REKAYASA'')),
      (''items'', PyList
        [PyDict
          [(''title'', PyStr (lit ''YANG DIBUKTIKAN'')),
           (''desc'', PyStr (lit ''Penolakan burst token bucket, fast drop '' @
               lit ''bounded queue, dan sebaran rentang Full '' @ lit ''Jitter.''))],
         PyDict
          [(''title'', PyStr (lit ''YANG TIDAK DIBUKTIKAN'')),
           (''desc'', PyStr (lit ''Sinkronisasi token lintas multi-instance '' @
               lit ''pod tanpa shared state eksternal.''))],
         PyDict
          [(''title'', PyStr (lit ''BATAS KLAIM EMPIRIS'')),
           (''desc'', PyStr (lit ''Lab belum membuktikan ketahanan cluster '' @
               lit ''terhadap badai DDoS ratusan ribu node '' @ lit ''eksternal.''))]])]]\<close>

definition lab25_slide_14 :: pycall where [lab25_slides]:
  \<open>lab25_slide_14 =
   \<lparr>posargs = [],
  kwargs =
   [(''categories'', PyList
      [PyStr (lit ''AUDIT''),
       PyStr (lit ''EVIDENCE BOUNDARY'')]),
    (''title'', PyStr (lit ''Batasan Bukti Lab: Yang Dibuktikan vs Belum'')),
    (''subtitle'', PyStr (lit ''Transparansi batasan rekayasa antara '' @
        lit ''simulator lab lokal dan sistem produksi.'')),
    (''content_items'', lab25_items_14),
    (''narrative'', PyStr (lit ''Lab ini membuktikan kebenaran matematis '' @
        lit ''algoritma bucket, isolasi tenant lokal, dan '' @
        lit ''pemotongan beban antrean. Namun, pengujian '' @
        lit ''lokal ini belum membuktikan ketahanan '' @
        lit ''cluster multi-region terhadap serangan DDoS '' @ lit ''skala masif.'')),
    (''narrative_en'', PyStr (lit ''This lab proves mathematical correctness '' @
        lit ''for bucket algorithms, tenant isolation, '' @
        lit ''and bounded queue shedding. However, it has '' @
        lit ''not yet proven distributed resilience '' @
        lit ''against massive multi-region distributed '' @
        lit ''denial-of-service attacks.'')),
    (''mental_model'', PyStr (lit ''Clearly delimit verified algorithmic '' @
        lit ''invariants from unproven distributed scale '' @ lit ''heuristics.'')),
    (''source_path'', PyStr (lit ''content/01-content-brief.md:11-12'')),
    (''slide_num'', PyStr (lit ''14 / 24'')),
    (''layout'', PyStr (lit ''cards''))]\<rparr>\<close>

definition lab25_items_15 :: pyval where [lab25_contents]:
  \<open>lab25_items_15 =
   PyList
   [PyDict
     [(''type'', PyStr (lit ''cards'')),
      (''title'', PyStr (lit ''KOMPROMI REKAYASA SISTEM'')),
      (''items'', PyList
        [PyDict
          [(''title'', PyStr (lit ''False Rejections'')),
           (''desc'', PyStr (lit ''Limiter agresif berisiko menolak pengguna '' @
               lit ''legitimate saat aktivitas bisnis melonjak '' @ lit ''wajar.''))],
         PyDict
          [(''title'', PyStr (lit ''Shared State Latency'')),
           (''desc'', PyStr (lit ''Sinkronisasi Redis menambah latensi 1-2ms '' @
               lit ''di hot-path setiap request HTTP yang masuk.''))],
         PyDict
          [(''title'', PyStr (lit ''Tidak Otomatis Kebal'')),
           (''desc'', PyStr (lit ''Memasang middleware limiter tidak otomatis '' @
               lit ''membuat database kebal terhadap query N+1 '' @ lit ''berat.''))]])]]\<close>

definition lab25_slide_15 :: pycall where [lab25_slides]:
  \<open>lab25_slide_15 =
   \<lparr>posargs = [],
  kwargs =
   [(''categories'', PyList
      [PyStr (lit ''TRADE-OFF''),
       PyStr (lit ''ENGINEERING COSTS'')]),
    (''title'', PyStr (lit ''Trade-off Arsitektur Rate Limiting & '' @ lit ''Backpressure'')),
    (''subtitle'', PyStr (lit ''Kompromi antara kepuasan pengguna, akurasi '' @
        lit ''sinkronisasi, dan kompleksitas sistem.'')),
    (''content_items'', lab25_items_15),
    (''narrative'', PyStr (lit ''Rate limiting mencegah kehabisan kapasitas '' @
        lit ''tetapi berisiko menolak transaksi sah '' @
        lit ''pengguna di saat peak season. Menambahkan '' @
        lit ''limiter di pintu gerbang tidak otomatis '' @
        lit ''melindungi storage jika kueri internal '' @
        lit ''tidak terindeks dengan baik.'')),
    (''narrative_en'', PyStr (lit ''Rate limiters prevent capacity exhaustion '' @
        lit ''but introduce false rejection risks for '' @
        lit ''legitimate users during peak traffic. '' @
        lit ''Deploying gateway limiters does not '' @
        lit ''automatically safeguard storage engines '' @
        lit ''against unindexed slow queries.'')),
    (''mental_model'', PyStr (lit ''Rate limiting trades edge false-rejection '' @
        lit ''risks for core service survival and latency '' @ lit ''stability.'')),
    (''source_path'', PyStr (lit ''content/02-master-draft.md:99-108'')),
    (''slide_num'', PyStr (lit ''15 / 24'')),
    (''layout'', PyStr (lit ''cards''))]\<rparr>\<close>

definition lab25_items_16 :: pyval where [lab25_contents]:
  \<open>lab25_items_16 =
   PyList
   [PyDict
     [(''type'', PyStr (lit ''cards'')),
      (''title'', PyStr (lit ''FORMULA MATEMATIKA SISTEM ANTREAN'')),
      (''items'', PyList
        [PyDict
          [(''title'', PyStr (lit ''Little'' @ [39] @ lit ''s Law (L = '' @ [0x3BB] @ lit ''W)'')),
           (''desc'', PyStr (lit ''Kapasitas in-flight (L) adalah perkalian '' @
               lit ''antara laju kedatangan ('' @ [0x3BB] @ lit '') dan durasi proses (W).''))],
         PyDict
          [(''title'', PyStr (lit ''Akumulasi Backlog'')),
           (''desc'', PyStr (lit ''Pertumbuhan antrean = (Arrival Rate '' @ [0x2212] @
               lit '' Processing Rate) '' @ [0xD7] @ lit '' Waktu durasi kelebihan beban.''))],
         PyDict
          [(''title'', PyStr (lit ''Kalkulasi Lab 25'')),
           (''desc'', PyStr (lit ''5.000.000 request '' @ [0xF7] @
               lit '' 2.000 drain/detik = 2.500 detik (41 menit '' @
               lit ''40 detik); hanya pada jalur bounded buffer '' @
               lit ''batas latensi terjaga.''))]])]]\<close>

definition lab25_slide_16 :: pycall where [lab25_slides]:
  \<open>lab25_slide_16 =
   \<lparr>posargs = [],
  kwargs =
   [(''categories'', PyList
      [PyStr (lit ''ANALYSIS''),
       PyStr (lit ''LITTLE'' @ [39] @ lit ''S LAW'')]),
    (''title'', PyStr (lit ''Analisis Beban: Little'' @ [39] @ lit ''s Law dan Pertumbuhan Backlog'')),
    (''subtitle'', PyStr (lit ''L = '' @ [0x3BB] @ lit '' '' @ [0xD7] @
        lit '' W membuktikan bagaimana penumpukan antrean '' @
        lit ''merusak latensi sistem.'')),
    (''content_items'', lab25_items_16),
    (''narrative'', PyStr (lit ''Jika laju kedatangan melampaui laju '' @
        lit ''pemrosesan, waktu tunggu membengkak hingga '' @
        lit ''puluhan menit. Hanya pada jalur dengan '' @
        lit ''bounded queue penumpukan dipotong seketika '' @
        lit ''sehingga latensi job yang diterima tetap '' @ lit ''dalam batas SLA.'')),
    (''narrative_en'', PyStr (lit ''When arrival rates outpace processing '' @
        lit ''throughput, wait times explode '' @
        lit ''exponentially into tens of minutes. Only '' @
        lit ''along bounded queue pathways is backlog '' @
        lit ''accumulation arrested, keeping accepted job '' @
        lit ''latency within SLA targets.'')),
    (''mental_model'', PyStr (lit ''L = lambda * W: when processing capacity is '' @
        lit ''saturated, queue wait times degrade '' @
        lit ''proportionally to backlog depth.'')),
    (''source_path'', PyStr (lit ''content/02-master-draft.md:29-32'')),
    (''slide_num'', PyStr (lit ''16 / 24'')),
    (''layout'', PyStr (lit ''cards''))]\<rparr>\<close>

definition lab25_items_17 :: pyval where [lab25_contents]:
  \<open>lab25_items_17 =
   PyList
   [PyDict
     [(''type'', PyStr (lit ''schema'')),
      (''title'', PyStr (lit ''EMPAT LAPISAN LIMITER STRIPE'')),
      (''items'', PyList
        [PyDict
          [(''phase'', PyStr (lit ''1. Request Rate Limiter'')),
           (''role'', PyStr (lit ''Per-User Quota'')),
           (''desc'', PyStr (lit ''Membatasi laju request per pengguna '' @
               lit ''menggunakan token bucket terdistribusi.''))],
         PyDict
          [(''phase'', PyStr (lit ''2. Concurrent Limiter'')),
           (''role'', PyStr (lit ''In-Flight Bound'')),
           (''desc'', PyStr (lit ''Membatasi jumlah request simultan yang '' @
               lit ''sedang aktif berjalan per pengguna.''))],
         PyDict
          [(''phase'', PyStr (lit ''3. Fleet Load Shedder'')),
           (''role'', PyStr (lit ''Criticality Reserve'')),
           (''desc'', PyStr (lit ''Menolak trafik berprioritas rendah demi '' @
               lit ''menjamin kapasitas transaksi kritis.''))],
         PyDict
          [(''phase'', PyStr (lit ''4. Worker Load Shedder'')),
           (''role'', PyStr (lit ''Execution Guard'')),
           (''desc'', PyStr (lit ''Membuang uji coba test-mode, GET lalu POST; '' @
               lit ''bukan berarti request hilang tanpa status.''))]])]]\<close>

definition lab25_slide_17 :: pycall where [lab25_slides]:
  \<open>lab25_slide_17 =
   \<lparr>posargs = [],
  kwargs =
   [(''categories'', PyList
      [PyStr (lit ''CASE STUDY''),
       PyStr (lit ''STRIPE ARCHITECTURE'')]),
    (''title'', PyStr (lit ''Studi Kasus Stripe: Arsitektur Limiter 4 '' @ lit ''Lapisan'')),
    (''subtitle'', PyStr (lit ''Pola pembagian tanggung jawab proteksi API '' @
        lit ''gateway pada skala pembayaran global.'')),
    (''content_items'', lab25_items_17),
    (''narrative'', PyStr (lit ''Stripe menerapkan 4 tier limiter independen '' @
        lit ''untuk mendegradasi sistem secara anggun '' @
        lit ''saat kelebihan beban. Membuang trafik '' @
        lit ''berprioritas rendah saat CPU tinggi bukan '' @
        lit ''berarti sistem gagal, melainkan langkah '' @
        lit ''penyelamatan transaksi keuangan kritis.'')),
    (''narrative_en'', PyStr (lit ''Stripe deploys four distinct limiter tiers '' @
        lit ''to achieve graceful degradation under '' @
        lit ''extreme load. Shedding low-criticality '' @
        lit ''requests during CPU saturation does not '' @
        lit ''mean system failure; it deliberately '' @
        lit ''safeguards mission-critical payment '' @ lit ''workflows.'')),
    (''mental_model'', PyStr (lit ''Layer multiple specialized limiters to drop '' @
        lit ''low-criticality traffic first during severe '' @ lit ''overload.'')),
    (''source_path'', PyStr (lit ''content/02-master-draft.md:117-124'')),
    (''slide_num'', PyStr (lit ''17 / 24'')),
    (''layout'', PyStr (lit ''schema''))]\<rparr>\<close>

definition lab25_items_18 :: pyval where [lab25_contents]:
  \<open>lab25_items_18 =
   PyList
   [PyDict
     [(''type'', PyStr (lit ''cards'')),
      (''title'', PyStr (lit ''DISIPLIN KETAHANAN GOOGLE SRE'')),
      (''items'', PyList
        [PyDict
          [(''title'', PyStr (lit ''4 Level Criticality'')),
           (''desc'', PyStr (lit ''CRITICAL_PLUS, CRITICAL, SHEDDABLE_PLUS, '' @
               lit ''SHEDDABLE; tolak level rendah lebih dulu.''))],
         PyDict
          [(''title'', PyStr (lit ''Retry Budget Klien'')),
           (''desc'', PyStr (lit ''Maksimal 3 attempt per-request dan rasio '' @
               lit ''retry maksimal 10% dari total trafik klien.''))],
         PyDict
          [(''title'', PyStr (lit ''Token Bucket Quota'')),
           (''desc'', PyStr (lit ''AWS SDK mengadopsi 500 token retry pool; '' @
               lit ''cakupannya mengikuti test kalibrasi error '' @ lit ''transien.''))]])]]\<close>

definition lab25_slide_18 :: pycall where [lab25_slides]:
  \<open>lab25_slide_18 =
   \<lparr>posargs = [],
  kwargs =
   [(''categories'', PyList
      [PyStr (lit ''CASE STUDY''),
       PyStr (lit ''GOOGLE SRE'')]),
    (''title'', PyStr (lit ''Google SRE: Criticality Level dan Kuota '' @ lit ''Retry'')),
    (''subtitle'', PyStr (lit ''Mencegah retry storm cascading failure '' @
        lit ''melalui pembatasan rasio percobaan ulang.'')),
    (''content_items'', lab25_items_18),
    (''narrative'', PyStr (lit ''Google SRE membagi request ke 4 tingkat '' @
        lit ''kepentingan dan membatasi retry maksimal '' @
        lit ''10% dari volume panggilan. Strategi kuota '' @
        lit ''retry token bucket ini diadopsi luas di '' @
        lit ''industri, dan cakupannya mengikuti test '' @ lit ''evaluasi latensi backend.'')),
    (''narrative_en'', PyStr (lit ''Google SRE categorizes RPC traffic into '' @
        lit ''four criticality tiers and enforces a '' @
        lit ''strict 10% retry budget per client. '' @
        lit ''Managing retries via token quotas prevents '' @
        lit ''cascade amplification, with parameters '' @
        lit ''calibrated to downstream recovery profiles.'')),
    (''mental_model'', PyStr (lit ''Enforce strict retry budgets (max 3 '' @
        lit ''attempts, <10% retry ratio) to eliminate '' @ lit ''cascading retry storms.'')),
    (''source_path'', PyStr (lit ''content/02-master-draft.md:121-124'')),
    (''slide_num'', PyStr (lit ''18 / 24'')),
    (''layout'', PyStr (lit ''cards''))]\<rparr>\<close>

definition lab25_items_19 :: pyval where [lab25_contents]:
  \<open>lab25_items_19 =
   PyList
   [PyDict
     [(''type'', PyStr (lit ''cards'')),
      (''title'', PyStr (lit ''SEBELUM (UNPROTECTED) VS SESUDAH (RESILIENT)'')),
      (''items'', PyList
        [PyDict
          [(''title'', PyStr (lit ''Sebelum: Unbounded Channel'')),
           (''desc'', PyStr (lit ''Antrean bertambah hingga jutaan item; '' @
               lit ''latensi membengkak 40+ menit sebelum proses '' @ lit ''OOM crash.''))],
         PyDict
          [(''title'', PyStr (lit ''Sesudah: Bounded + Jitter'')),
           (''desc'', PyStr (lit ''Kelebihan beban ditolak cepat '' @
               lit ''(429/ErrQueueFull); klien desinkronisasi '' @ lit ''via Full Jitter.''))],
         PyDict
          [(''title'', PyStr (lit ''Bukan Berarti Nol Error'')),
           (''desc'', PyStr (lit ''Resiliensi bukan berarti bebas error 100%, '' @
               lit ''melainkan memastikan sistem tetap hidup '' @
               lit ''melayani trafik sehat.''))]])]]\<close>

definition lab25_slide_19 :: pycall where [lab25_slides]:
  \<open>lab25_slide_19 =
   \<lparr>posargs = [],
  kwargs =
   [(''categories'', PyList
      [PyStr (lit ''COMPARISON''),
       PyStr (lit ''BEFORE VS AFTER'')]),
    (''title'', PyStr (lit ''Transformasi Desain: Unprotected vs '' @ lit ''Resilient Pipeline'')),
    (''subtitle'', PyStr (lit ''Pergeseran dari sistem rentan crash ke '' @
        lit ''arsitektur dengan degradasi terukur.'')),
    (''content_items'', lab25_items_19),
    (''narrative'', PyStr (lit ''Sebelum proteksi, lonjakan trafik menelan '' @
        lit ''seluruh memori dan mematikan server. '' @
        lit ''Menerapkan limiter dan backpressure bukan '' @
        lit ''berarti meniadakan error, melainkan '' @
        lit ''mengendalikan error secara sadar agar '' @
        lit ''layanan inti tetap beroperasi.'')),
    (''narrative_en'', PyStr (lit ''Prior to rate limiting, traffic surges '' @
        lit ''exhausted heap memory and triggered '' @
        lit ''catastrophic process crashes. Building '' @
        lit ''resilient boundaries does not eliminate '' @
        lit ''errors; it trades uncontrolled crashes for '' @
        lit ''controlled, bounded degradation.'')),
    (''mental_model'', PyStr (lit ''Transform uncontrolled systemic collapse '' @
        lit ''into bounded, graceful rejection under peak '' @ lit ''overload.'')),
    (''source_path'', PyStr (lit ''content/02-master-draft.md:29-36'')),
    (''slide_num'', PyStr (lit ''19 / 24'')),
    (''layout'', PyStr (lit ''cards''))]\<rparr>\<close>

definition lab25_items_20 :: pyval where [lab25_contents]:
  \<open>lab25_items_20 =
   PyList
   [PyDict
     [(''type'', PyStr (lit ''checklist'')),
      (''title'', PyStr (lit ''KRITERIA IMPLEMENTASI RESILIENSI'')),
      (''items'', PyList
        [PyStr (lit ''Identifikasi batas sistem: tentukan rate '' @
            lit ''limiter di edge API gateway dan service '' @ lit ''mesh.''),
         PyStr (lit ''Pilih algoritma yang tepat: Token Bucket '' @
            lit ''untuk burst wajar, Leaky Bucket untuk '' @ lit ''output konstan.''),
         PyStr (lit ''Gunakan kunci identitas per-tenant '' @
            lit ''(X-API-Key atau User ID) untuk mencegah '' @ lit ''kolateral CGNAT.''),
         PyStr (lit ''Terapkan Bounded Queue dengan kapasitas '' @
            lit ''terukur sesuai laju pemrosesan konsumer '' @ lit ''downstream.''),
         PyStr (lit ''Kembalikan respons standar HTTP 429 dengan '' @
            lit ''header Retry-After presisi (RFC 6585).''),
         PyStr (lit ''Gunakan Exponential Backoff dengan Full '' @
            lit ''Jitter pada semua klien pemanggil untuk '' @
            lit ''mencegah thundering herd.''),
         PyStr (lit ''Tetapkan Retry Budget: maksimal 3 percobaan '' @
            lit ''per request dan batas rasio retry di bawah '' @ lit ''10%.''),
         PyStr (lit ''Pantau Queue Age, bukan hanya Queue Length, '' @
            lit ''untuk deteksi dini pembengkakan latensi '' @ lit ''pemrosesan.'')])]]\<close>

definition lab25_slide_20 :: pycall where [lab25_slides]:
  \<open>lab25_slide_20 =
   \<lparr>posargs = [],
  kwargs =
   [(''categories'', PyList
      [PyStr (lit ''CHECKLIST''),
       PyStr (lit ''PRODUCTION READINESS'')]),
    (''title'', PyStr (lit ''Checklist Rekayasa Rate Limiting & '' @ lit ''Backpressure'')),
    (''subtitle'', PyStr (lit ''Sepuluh kriteria wajib verifikasi sebelum '' @
        lit ''merilis layanan ke traffic produksi.'')),
    (''content_items'', lab25_items_20),
    (''narrative'', PyStr (lit ''Checklist ini merangkum disiplin '' @
        lit ''perancangan sistem terdistribusi: isolasi '' @
        lit ''batas, pilihan algoritma, identifikasi '' @
        lit ''tenant, buffer terbatas, respons standar '' @
        lit ''429, desinkronisasi retry, kuota percobaan, '' @
        lit ''dan observabilitas usia antrean.'')),
    (''narrative_en'', PyStr (lit ''This checklist enforces robust distributed '' @
        lit ''system discipline: boundary limits, '' @
        lit ''algorithm selection, tenant keying, bounded '' @
        lit ''channels, standard 429 headers, jittered '' @
        lit ''retries, retry budgets, and queue age '' @ lit ''monitoring.'')),
    (''mental_model'', PyStr (lit ''Apply strict architectural gates across '' @
        lit ''limits, buffers, retries, and metrics '' @ lit ''before production rollout.'')),
    (''source_path'', PyStr (lit ''content/02-master-draft.md:126-138'')),
    (''slide_num'', PyStr (lit ''20 / 24'')),
    (''layout'', PyStr (lit ''checklist''))]\<rparr>\<close>

definition lab25_items_21 :: pyval where [lab25_contents]:
  \<open>lab25_items_21 =
   PyList
   [PyDict
     [(''type'', PyStr (lit ''cards'')),
      (''title'', PyStr (lit ''HINDARI KESALAHAN ARSITEKTURAL INI'')),
      (''items'', PyList
        [PyDict
          [(''title'', PyStr (lit ''IP Limiting di CGNAT'')),
           (''desc'', PyStr (lit ''Membatasi IP publik memblokir ribuan '' @
               lit ''pengguna sah di balik satu gerbang ISP '' @ lit ''seluler.''))],
         PyDict
          [(''title'', PyStr (lit ''Retry Tanpa Jitter'')),
           (''desc'', PyStr (lit ''Interval eksponensial kaku menyinkronkan '' @
               lit ''ribuan klien menjadi gelombang thundering '' @ lit ''herd penghancur.''))],
         PyDict
          [(''title'', PyStr (lit ''Unbounded Buffer'')),
           (''desc'', PyStr (lit ''Antrean tanpa batas bukan berarti aman; itu '' @
               lit ''bom waktu memori yang menjamin kegagalan '' @ lit ''total.''))]])]]\<close>

definition lab25_slide_21 :: pycall where [lab25_slides]:
  \<open>lab25_slide_21 =
   \<lparr>posargs = [],
  kwargs =
   [(''categories'', PyList
      [PyStr (lit ''ANTI-PATTERN''),
       PyStr (lit ''PITFALLS'')]),
    (''title'', PyStr (lit ''Anti-Pattern Umum: Kesalahan Fatal '' @ lit ''Pengendalian Overload'')),
    (''subtitle'', PyStr (lit ''Kekeliruan perancangan yang sering memicu '' @
        lit ''pemadaman massal di industri.'')),
    (''content_items'', lab25_items_21),
    (''narrative'', PyStr (lit ''Throttling berbasis IP merugikan tenant di '' @
        lit ''balik CGNAT, sedangkan retry deterministik '' @
        lit ''melipatgandakan beban downstream saat '' @
        lit ''recovery. Memberi buffer antrean tak '' @
        lit ''terbatas bukan berarti sistem toleran, '' @
        lit ''melainkan menimbun kebangkrutan memori.'')),
    (''narrative_en'', PyStr (lit ''IP-based limiting penalizes innocent users '' @
        lit ''sharing carrier gateways, while '' @
        lit ''deterministic retries generate destructive '' @
        lit ''thundering herds. Unbounded buffers do not '' @
        lit ''reflect high availability; they guarantee '' @ lit ''out-of-memory crashes.'')),
    (''mental_model'', PyStr (lit ''Avoid IP-only throttling, eliminate '' @
        lit ''deterministic retries, and never allow '' @ lit ''unbounded queues.'')),
    (''source_path'', PyStr (lit ''content/02-master-draft.md:109-116'')),
    (''slide_num'', PyStr (lit ''21 / 24'')),
    (''layout'', PyStr (lit ''cards''))]\<rparr>\<close>

definition lab25_items_22 :: pyval where [lab25_contents]:
  \<open>lab25_items_22 =
   PyList
   [PyDict
     [(''type'', PyStr (lit ''code'')),
      (''title'', PyStr (lit ''COMMAND RUNNER (PURE GO STANDARD LIBRARY)'')),
      (''items'', PyList
        [PyStr (lit ''cd labs/25-rate-limiting-and-backpressure''),
         PyStr (lit ''go test -v ./...    # validasi unit test '' @
            lit ''bucket, queue, retry, dan middleware''),
         PyStr (lit ''go test -race ./... # verifikasi konkurensi '' @
            lit ''stateless bebas data race''),
         PyStr (lit ''go run ./cmd/demo   # eksekusi demonstrasi '' @
            lit ''langsung 4 pilar arsitektur'')])]]\<close>

definition lab25_slide_22 :: pycall where [lab25_slides]:
  \<open>lab25_slide_22 =
   \<lparr>posargs = [],
  kwargs =
   [(''categories'', PyList
      [PyStr (lit ''REPRODUCTION''),
       PyStr (lit ''COMMANDS'')]),
    (''title'', PyStr (lit ''Reproduksi Mandiri di Mesin Lokal '' @ lit ''Menggunakan Go'')),
    (''subtitle'', PyStr (lit ''Validasi penuh tanpa dependensi eksternal '' @
        lit ''pihak ketiga (pure Go standard library).'')),
    (''content_items'', lab25_items_22),
    (''narrative'', PyStr (lit ''Seluruh mekanisme rate limiting dan '' @
        lit ''backpressure ditulis murni menggunakan Go '' @
        lit ''standard library tanpa framework pihak '' @
        lit ''ketiga. Pengujian lokal ini memverifikasi '' @
        lit ''algoritma, namun production masih perlu '' @
        lit ''Redis untuk koordinasi multi-pod.'')),
    (''narrative_en'', PyStr (lit ''The entire test harness relies strictly on '' @
        lit ''pure Go standard library packages with zero '' @
        lit ''external dependencies. While local testing '' @
        lit ''confirms algorithmic correctness, '' @
        lit ''production deployments still require Redis '' @
        lit ''for multi-instance state sync.'')),
    (''mental_model'', PyStr (lit ''Zero-dependency local verification '' @
        lit ''guarantees fast, repeatable validation '' @
        lit ''across developer workflows.'')),
    (''source_path'', PyStr (lit ''README.md:55-70'')),
    (''slide_num'', PyStr (lit ''22 / 24'')),
    (''layout'', PyStr (lit ''code''))]\<rparr>\<close>

definition lab25_items_23 :: pyval where [lab25_contents]:
  \<open>lab25_items_23 =
   PyList
   [PyDict
     [(''type'', PyStr (lit ''cards'')),
      (''title'', PyStr (lit ''TIGA PILAR KELANGSUNGAN ARSITEKTUR'')),
      (''items'', PyList
        [PyDict
          [(''title'', PyStr (lit ''Polisikan Pintu Gerbang'')),
           (''desc'', PyStr (lit ''Gunakan token bucket per tenant untuk '' @
               lit ''membatasi kuota sebelum request membebani '' @ lit ''resource inti.''))],
         PyDict
          [(''title'', PyStr (lit ''Tolak Cepat di Hilir'')),
           (''desc'', PyStr (lit ''Terapkan bounded queue agar kelebihan beban '' @
               lit ''dibuang seketika tanpa menumpuk latensi.''))],
         PyDict
          [(''title'', PyStr (lit ''Desinkronisasi Klien'')),
           (''desc'', PyStr (lit ''Terapkan Full Jitter; tidak otomatis '' @
               lit ''menjamin backend pulih jika downstream '' @ lit ''rusak permanen.''))]])]]\<close>

definition lab25_slide_23 :: pycall where [lab25_slides]:
  \<open>lab25_slide_23 =
   \<lparr>posargs = [],
  kwargs =
   [(''categories'', PyList
      [PyStr (lit ''TAKEAWAY''),
       PyStr (lit ''CORE PRINCIPLES'')]),
    (''title'', PyStr (lit ''Prinsip Inti: Kendalikan Pintu Masuk, '' @ lit ''Propagasikan Tekanan'')),
    (''subtitle'', PyStr (lit ''Arsitektur bertahan lama ketika batas beban '' @
        lit ''ditegakkan secara disiplin di setiap '' @ lit ''lapisan.'')),
    (''content_items'', lab25_items_23),
    (''narrative'', PyStr (lit ''Rate limiting menjaga gerbang masuk, '' @
        lit ''sementara backpressure mempropagasikan '' @
        lit ''sinyal tekanan balik ke hulu. Menerapkan '' @
        lit ''Full Jitter pada klien tidak otomatis '' @
        lit ''memulihkan sistem jika kapasitas downstream '' @
        lit ''memang tidak memadai untuk beban dasar.'')),
    (''narrative_en'', PyStr (lit ''Rate limiting protects ingress boundaries '' @
        lit ''while backpressure propagates overload '' @
        lit ''signals backward. Adding full jitter to '' @
        lit ''client retries does not automatically '' @
        lit ''compensate for fundamentally undersized '' @
        lit ''downstream infrastructure.'')),
    (''mental_model'', PyStr (lit ''Police external ingress, reject internal '' @
        lit ''overload fast, and desynchronize client '' @ lit ''retries with jitter.'')),
    (''source_path'', PyStr (lit ''content/05-key-takeaways.md'')),
    (''slide_num'', PyStr (lit ''23 / 24'')),
    (''layout'', PyStr (lit ''cards''))]\<rparr>\<close>

definition lab25_items_24 :: pyval where [lab25_contents]:
  \<open>lab25_items_24 =
   PyList
   [PyDict
     [(''type'', PyStr (lit ''bullet'')),
      (''title'', PyStr (lit ''MODUL IMPLEMENTASI'')),
      (''items'', PyList
        [PyStr (lit ''internal/ratelimit/bucket.go '' @ [0x2022] @
            lit '' internal/ratelimit/registry.go''),
         PyStr (lit ''internal/backpressure/queue.go '' @ [0x2022] @
            lit '' internal/retry/backoff.go''),
         PyStr (lit ''internal/httputil/middleware.go '' @ [0x2022] @ lit '' cmd/demo/main.go'')])],
    PyDict
     [(''type'', PyStr (lit ''bullet'')),
      (''title'', PyStr (lit ''VERIFIKASI & STATUS'')),
      (''items'', PyList
        [PyStr (lit ''Commit: '' @ str_prefix 7 lab25_COMMIT_SHA @ lit '' '' @ [0x2022] @
            lit '' Status: APPROVED''),
         PyStr (lit ''Test passing: 15 unit tests (burst, refill, '' @
            lit ''tenant isolation, queue shedding, jitter)''),
         PyStr (lit ''Race detector: Clean (go test -race ./... '' @ lit ''PASS in 0.28s)''),
         PyStr (lit ''Implementasi Go standard library murni; '' @
            lit ''in-memory single process architecture.'')])]]\<close>

definition lab25_slide_24 :: pycall where [lab25_slides]:
  \<open>lab25_slide_24 =
   \<lparr>posargs = [],
  kwargs =
   [(''categories'', PyList
      [PyStr (lit ''CLOSING'')]),
    (''title'', PyStr (lit ''Sistem tanpa backpressure adalah sistem '' @
        lit ''yang menunda kebangkrutan memorinya sendiri.'')),
    (''subtitle'', PyStr []),
    (''content_items'', lab25_items_24),
    (''mental_model'', PyStr (lit ''A system without backpressure is merely '' @
        lit ''borrowing time until an unavoidable memory '' @ lit ''collapse.'')),
    (''source_path'', PyStr lab25_REPO_URL),
    (''slide_num'', PyStr (lit ''24 / 24'')),
    (''layout'', PyStr (lit ''closing''))]\<rparr>\<close>

definition lab25_calls :: "pycall list" where
  "lab25_calls =
    [lab25_slide_01, lab25_slide_02, lab25_slide_03, lab25_slide_04, lab25_slide_05,
     lab25_slide_06, lab25_slide_07, lab25_slide_08, lab25_slide_09, lab25_slide_10,
     lab25_slide_11, lab25_slide_12, lab25_slide_13, lab25_slide_14, lab25_slide_15,
     lab25_slide_16, lab25_slide_17, lab25_slide_18, lab25_slide_19, lab25_slide_20,
     lab25_slide_21, lab25_slide_22, lab25_slide_23, lab25_slide_24]"

definition lab25_deck :: deck where
  "lab25_deck =
    \<lparr>add_slide = lab25_add_slide, lab_no = lab25_LAB_NO, title_id = lab25_TITLE_ID, calls = lab25_calls\<rparr>"

section \<open>Checks of the calls\<close>

lemma lab25_shapes:
  "\<forall>c \<in> set lab25_calls. shape_of c \<in> set
    [(0, [''categories'', ''title'', ''subtitle'', ''content_items'', ''mental_model'',
      ''source_path'', ''slide_num'', ''layout'']),
     (0, [''categories'', ''title'', ''subtitle'', ''content_items'', ''narrative'',
      ''narrative_en'', ''mental_model'', ''source_path'', ''slide_num'', ''layout''])]"
  by (simp only: lab25_calls_def lab25_slides shape_eval cong: pyval_opaque)

lemma lab25_calls_ok: "\<forall>c \<in> set lab25_calls. call_ok sig_layout c"
  by (rule calls_ok_by_shapes [OF lab25_shapes])
    (simp add: shape_ok_def param_names_def signature_defs core_params_def)

lemma lab25_labels: "map (\<lambda>c. value_of sig_layout c ''slide_num'') lab25_calls = labels_24"
  by (simp only: lab25_calls_def lab25_slides keyword_eval labels_24_eval cong: pyval_opaque)

lemma lab25_contents_of:
  "map (\<lambda>c. value_of sig_layout c ''content_items'') lab25_calls =
    [lab25_items_01, lab25_items_02, lab25_items_03, lab25_items_04, lab25_items_05,
     lab25_items_06, lab25_items_07, lab25_items_08, lab25_items_09, lab25_items_10,
     lab25_items_11, lab25_items_12, lab25_items_13, lab25_items_14, lab25_items_15,
     lab25_items_16, lab25_items_17, lab25_items_18, lab25_items_19, lab25_items_20,
     lab25_items_21, lab25_items_22, lab25_items_23, lab25_items_24]"
  by (simp only: lab25_calls_def lab25_slides keyword_eval cong: pyval_opaque)

lemma lab25_items: "item_defects sig_layout lab25_calls = []"
  by (simp only: item_defects_def lab25_contents_of)
    (simp add: lab25_contents item_eval cong: pystr_opaque)

end
