(* ===== verification/Deck26.thy ===== *)
theory Deck26
  imports DeckContract
begin

text \<open>
  The publication definition of lab 26, \<^verbatim>\<open>labs/26-contract-testing/result/content_def.py\<close>:
  its module constants, every \<open>add_slide\<close> call in order (\<open>lab26_slide_01\<close> is the first),
  and the module as a whole (\<open>lab26_deck\<close>). Long strings are split into pieces that are
  concatenated; a character outside ASCII is its code point.
\<close>

named_theorems lab26_slides \<open>the add_slide calls of lab 26\<close>
named_theorems lab26_contents \<open>their content_items arguments\<close>

definition lab26_OUTPUT_DIR :: pystr where
  \<open>lab26_OUTPUT_DIR = lit ''labs/26-contract-testing/result''\<close>

definition lab26_CHROME_BIN :: pystr where
  \<open>lab26_CHROME_BIN = lit ''/Applications/Google '' @ lit ''Chrome.app/Contents/MacOS/Google Chrome''\<close>

definition lab26_REPO_URL :: pystr where
  \<open>lab26_REPO_URL = lit ''https://github.com/lukman-ss/software-engine'' @
    lit ''ering-lab/tree/main/labs/26-contract-testing''\<close>

definition lab26_COMMIT_SHA :: pystr where
  \<open>lab26_COMMIT_SHA = lit ''4a5cf38''\<close>

definition lab26_LAB_NO :: pystr where
  \<open>lab26_LAB_NO = lit ''26''\<close>

definition lab26_SLUG :: pystr where
  \<open>lab26_SLUG = lit ''contract-testing''\<close>

definition lab26_TITLE_ID :: pystr where
  \<open>lab26_TITLE_ID = lit ''Contract Testing''\<close>

definition lab26_SUBTITLE_ID :: pystr where
  \<open>lab26_SUBTITLE_ID = lit ''Consumer-Driven Contracts, CI Deployment '' @
    lit ''Gate, dan Safe API Evolution tanpa E2E Rapuh''\<close>

definition lab26_TITLE_EN :: pystr where
  \<open>lab26_TITLE_EN = lit ''Contract Testing''\<close>

definition lab26_SUBTITLE_EN :: pystr where
  \<open>lab26_SUBTITLE_EN = lit ''Consumer-Driven Contracts, CI Deployment '' @
    lit ''Gate, and Safe API Evolution without '' @ lit ''Brittle E2E''\<close>

definition lab26_AUTHOR :: pystr where
  \<open>lab26_AUTHOR = lit ''Lukman / lukman-ss''\<close>

definition lab26_TOPIC_TAGS :: pystr where
  \<open>lab26_TOPIC_TAGS = lit ''Contract Testing '' @ [0x2022] @ lit '' Consumer-Driven Contracts '' @ [0x2022] @
    lit '' Go '' @ [0x2022] @ lit '' API Versioning '' @ [0x2022] @ lit '' CI/CD''\<close>

definition lab26_COVER_IMAGE_PATH :: pystr where
  \<open>lab26_COVER_IMAGE_PATH = lit ''labs/26-contract-testing/result/image-cover/'' @ lit ''cover_art.jpg''\<close>

definition lab26_add_slide :: "pycall \<Rightarrow> pyval list \<Rightarrow> (pyexc, pyval list) res" where
  "lab26_add_slide = add_slide_layout"

definition lab26_items_01 :: pyval where [lab26_contents]:
  \<open>lab26_items_01 =
   PyList
   [PyDict
     [(''type'', PyStr (lit ''cover'')),
      (''title'', PyStr []),
      (''items'', PyList
        [PyStr (lit ''Retro Terminal Displaying Consumer-Driven '' @
            lit ''Contract Verification Flow''),
         PyStr (lit ''MobileApp '' @ [0x2192] @ lit '' Contract '' @ [0x2192] @
            lit '' Verifier '' @ [0x2192] @ lit '' Provider V1/Breaking/Dual: PASSED vs '' @
            lit ''BLOCKED''),
         PyStr (lit ''Penulis: '' @ lab26_AUTHOR)])]]\<close>

definition lab26_slide_01 :: pycall where [lab26_slides]:
  \<open>lab26_slide_01 =
   \<lparr>posargs = [],
  kwargs =
   [(''categories'', PyList
      [PyStr (lit ''COVER'')]),
    (''title'', PyStr lab26_TITLE_ID),
    (''subtitle'', PyStr lab26_SUBTITLE_ID),
    (''content_items'', lab26_items_01),
    (''mental_model'', PyStr (lit ''Contract testing catches integration '' @
        lit ''failures before deployment by making shared '' @
        lit ''expectations executable.'')),
    (''source_path'', PyStr []),
    (''slide_num'', PyStr (lit ''01 / 24'')),
    (''layout'', PyStr (lit ''cover''))]\<rparr>\<close>

definition lab26_items_02 :: pyval where [lab26_contents]:
  \<open>lab26_items_02 =
   PyList
   [PyDict
     [(''type'', PyStr (lit ''cards'')),
      (''title'', PyStr (lit ''TIGA MUKA KEGAGALAN INTEGRASI'')),
      (''items'', PyList
        [PyDict
          [(''title'', PyStr (lit ''Field Rename Tersembunyi'')),
           (''desc'', PyStr (lit ''customer.name diganti customer.full_name di '' @
               lit ''provider. JSON valid, tapi consumer '' @ lit ''mendapat null.''))],
         PyDict
          [(''title'', PyStr (lit ''Enum Casing Change'')),
           (''desc'', PyStr (lit ''Status IN_PROGRESS berubah jadi '' @
               lit ''in_progress. Response tetap 200 OK, tapi '' @
               lit ''consumer gagal parsing.''))],
         PyDict
          [(''title'', PyStr (lit ''Primitive Type Mutation'')),
           (''desc'', PyStr (lit ''total integer 150000 jadi string '' @ [39] @ lit ''150000'' @ [39] @
               lit ''. Consumer math operations pecah di runtime.''))]])]]\<close>

definition lab26_slide_02 :: pycall where [lab26_slides]:
  \<open>lab26_slide_02 =
   \<lparr>posargs = [],
  kwargs =
   [(''categories'', PyList
      [PyStr (lit ''PROBLEM''),
       PyStr (lit ''INTEGRATION FAILURE'')]),
    (''title'', PyStr (lit ''Unit Test Hijau Bukan Berarti Integrasi '' @ lit ''Selamat'')),
    (''subtitle'', PyStr (lit ''Provider mengubah kontrak tanpa koordinasi '' @ lit ''consumer '' @ [0x2014] @
        lit '' deploy berhasil, production gagal.'')),
    (''content_items'', lab26_items_02),
    (''narrative'', PyStr (lit ''Ketika Service A dan Service B '' @
        lit ''masing-masing lulus unit test, integrasi '' @
        lit ''mereka tetap bisa pecah di produksi karena '' @
        lit ''provider mengubah format pesan tanpa '' @
        lit ''sepengetahuan consumer. Tiga skenario di '' @
        lit ''atas menunjukkan bahwa JSON yang valid '' @
        lit ''secara sintaksis tidak menjamin '' @ lit ''kompatibilitas semantik.'')),
    (''narrative_en'', PyStr (lit ''When Service A and Service B each pass '' @
        lit ''their unit tests, integration can still '' @
        lit ''fail in production because the provider '' @
        lit ''changes message format without consumer '' @
        lit ''coordination. The three scenarios above '' @
        lit ''demonstrate that syntactically valid JSON '' @
        lit ''does not guarantee semantic compatibility.'')),
    (''mental_model'', PyStr (lit ''Unit test green status is not sufficient to '' @
        lit ''guarantee integration safety across service '' @ lit ''boundaries.'')),
    (''source_path'', PyStr (lit ''content/02-master-draft.md:3-8'')),
    (''slide_num'', PyStr (lit ''02 / 24'')),
    (''layout'', PyStr (lit ''cards''))]\<rparr>\<close>

definition lab26_items_03 :: pyval where [lab26_contents]:
  \<open>lab26_items_03 =
   PyList
   [PyDict
     [(''type'', PyStr (lit ''cards'')),
      (''title'', PyStr (lit ''KELEMAHAN PENDEKATAN TRADISIONAL'')),
      (''items'', PyList
        [PyDict
          [(''title'', PyStr (lit ''E2E Test Mahal'')),
           (''desc'', PyStr (lit ''Menjalankan seluruh sistem gabungan butuh '' @
               lit ''environment lengkap, data fixture, dan '' @ lit ''waktu build lama.''))],
         PyDict
          [(''title'', PyStr (lit ''Manual Code Review'')),
           (''desc'', PyStr (lit ''Inspeksi manual perubahan API response '' @
               lit ''tidak otomatis menemukan field rename atau '' @ lit ''type change.''))],
         PyDict
          [(''title'', PyStr (lit ''Tidak Otomatis Aman'')),
           (''desc'', PyStr (lit ''Deploy pipeline tanpa gate verifikasi '' @
               lit ''kontrak mengizinkan breaking change lolos '' @ lit ''ke produksi.''))]])]]\<close>

definition lab26_slide_03 :: pycall where [lab26_slides]:
  \<open>lab26_slide_03 =
   \<lparr>posargs = [],
  kwargs =
   [(''categories'', PyList
      [PyStr (lit ''WHY FAILS''),
       PyStr (lit ''NAIVE APPROACH'')]),
    (''title'', PyStr (lit ''End-to-End Test dan Manual Review Tidak '' @
        lit ''Otomatis Menangkap Breaking Change'')),
    (''subtitle'', PyStr (lit ''E2E lambat dan mahal; contract testing '' @
        lit ''memberikan feedback cepat di setiap PR.'')),
    (''content_items'', lab26_items_03),
    (''narrative'', PyStr (lit ''End-to-end test mensimulasikan seluruh alur '' @
        lit ''sistem sehingga mahal untuk dijalankan '' @
        lit ''setiap PR. Review manual pun tidak otomatis '' @
        lit ''menemukan perubahan breaking karena '' @
        lit ''developer fokus pada logika bisnis, bukan '' @
        lit ''schema response. Contract testing mengisi '' @
        lit ''celah ini dengan verifikasi otomatis '' @ lit ''sebelum deploy.'')),
    (''narrative_en'', PyStr (lit ''End-to-end tests simulate the entire system '' @
        lit ''flow and are expensive to run on every PR. '' @
        lit ''Manual code review also fails to '' @
        lit ''automatically detect breaking changes '' @
        lit ''because developers focus on business logic '' @
        lit ''rather than response schemas. Contract '' @
        lit ''testing fills this gap with automated '' @
        lit ''verification before deployment.'')),
    (''mental_model'', PyStr (lit ''E2E tests are too slow and manual review is '' @
        lit ''too error-prone; contract testing provides '' @
        lit ''fast, automated safety gates.'')),
    (''source_path'', PyStr (lit ''content/02-master-draft.md:9-15'')),
    (''slide_num'', PyStr (lit ''03 / 24'')),
    (''layout'', PyStr (lit ''cards''))]\<rparr>\<close>

definition lab26_items_04 :: pyval where [lab26_contents]:
  \<open>lab26_items_04 =
   PyList
   [PyDict
     [(''type'', PyStr (lit ''schema'')),
      (''title'', PyStr (lit ''EMPAT PILAR CDC TESTING'')),
      (''items'', PyList
        [PyDict
          [(''phase'', PyStr (lit ''1. Consumer Test'')),
           (''role'', PyStr (lit ''Contract Generator'')),
           (''desc'', PyStr (lit ''Consumer menulis test dengan mock provider, '' @
               lit ''menghasilkan kontrak JSON minimal.''))],
         PyDict
          [(''phase'', PyStr (lit ''2. Contract File'')),
           (''role'', PyStr (lit ''Shared Artifact'')),
           (''desc'', PyStr (lit ''Kontrak berisi method, path, status, '' @
               lit ''header, body dengan tipe dan casing eksak.''))],
         PyDict
          [(''phase'', PyStr (lit ''3. Provider Verify'')),
           (''role'', PyStr (lit ''CI Gate'')),
           (''desc'', PyStr (lit ''Verifier kirim request sesuai kontrak ke '' @
               lit ''provider; compare status + headers + body '' @ lit ''subset.''))],
         PyDict
          [(''phase'', PyStr (lit ''4. Pass/Fail Gate'')),
           (''role'', PyStr (lit ''Deployment Control'')),
           (''desc'', PyStr (lit ''Hanya pada jalur ini fail '' @ [0x2192] @
               lit '' deployment diblokir; pass '' @ [0x2192] @
               lit '' deployment diizinkan.''))],
         PyDict
          [(''phase'', PyStr (lit ''5. Safe Evolution'')),
           (''role'', PyStr (lit ''V1+V2 Routing'')),
           (''desc'', PyStr (lit ''Dual provider mempertahankan V1 compliant '' @
               lit ''sambil mengekspos V2 schema baru.''))]])]]\<close>

definition lab26_slide_04 :: pycall where [lab26_slides]:
  \<open>lab26_slide_04 =
   \<lparr>posargs = [],
  kwargs =
   [(''categories'', PyList
      [PyStr (lit ''MENTAL MODEL''),
       PyStr (lit ''PILLARS'')]),
    (''title'', PyStr (lit ''Empat Pilar Consumer-Driven Contract Testing'')),
    (''subtitle'', PyStr (lit ''Consumer menentukan ekspektasi, provider '' @
        lit ''memenuhi, CI memverifikasi, dan gate '' @ lit ''menolak breaking change.'')),
    (''content_items'', lab26_items_04),
    (''narrative'', PyStr (lit ''Consumer-driven contract testing menggeser '' @
        lit ''inisiatif ke consumer: mereka yang '' @
        lit ''mendefinisikan apa yang dibutuhkan, bukan '' @
        lit ''provider yang mendokumentasikan apa yang '' @
        lit ''tersedia. Hanya pada jalur ini CI gate '' @
        lit ''memblokir deployment ketika verification '' @
        lit ''gagal, mencegah breaking change mencapai '' @ lit ''produksi.'')),
    (''narrative_en'', PyStr (lit ''Consumer-driven contract testing shifts '' @
        lit ''initiative to the consumer: they define '' @
        lit ''what is needed, not the provider '' @
        lit ''documenting what is available. Only along '' @
        lit ''this path does the CI gate block deployment '' @
        lit ''when verification fails, preventing '' @
        lit ''breaking changes from reaching production.'')),
    (''mental_model'', PyStr (lit ''Consumer drives contract definition; CI '' @
        lit ''gate enforces compliance; dual-version '' @
        lit ''routing enables safe evolution.'')),
    (''source_path'', PyStr (lit ''content/02-master-draft.md:16-28'')),
    (''slide_num'', PyStr (lit ''04 / 24'')),
    (''layout'', PyStr (lit ''schema''))]\<rparr>\<close>

definition lab26_items_05 :: pyval where [lab26_contents]:
  \<open>lab26_items_05 =
   PyList
   [PyDict
     [(''type'', PyStr (lit ''flow'')),
      (''title'', PyStr (lit ''CONTRACT TESTING PIPELINE'')),
      (''items'', PyList
        [PyDict
          [(''step'', PyStr (lit ''1'')),
           (''label'', PyStr (lit ''Consumer Test'')),
           (''desc'', PyStr (lit ''Test menjalankan mock '' @
               lit ''server,GenerateMobileContract() membuat '' @ lit ''kontrak JSON.''))],
         PyDict
          [(''step'', PyStr (lit ''2'')),
           (''label'', PyStr (lit ''Contract.json'')),
           (''desc'', PyStr (lit ''Artefak kontrak tersimpan: MobileApp'' @ [0x2192] @
               lit ''OrderService, 1 interaksi, body subset '' @ lit ''minimal.''))],
         PyDict
          [(''step'', PyStr (lit ''3'')),
           (''label'', PyStr (lit ''CI Trigger'')),
           (''desc'', PyStr (lit ''Provider CI mengambil kontrak, menjalankan '' @
               lit ''verifier.Verify(baseURL, contract).''))],
         PyDict
          [(''step'', PyStr (lit ''4'')),
           (''label'', PyStr (lit ''Verifier Engine'')),
           (''desc'', PyStr (lit ''DiffValues() bandingkan expected vs actual: '' @
               lit ''status, header, body subset, tipe numerik.''))],
         PyDict
          [(''step'', PyStr (lit ''5'')),
           (''label'', PyStr (lit ''Gate Decision'')),
           (''desc'', PyStr (lit ''Passed=true '' @ [0x2192] @ lit '' ALLOWED. Passed=false + errors '' @
               [0x2192] @ lit '' BLOCKED with detailed diff report.''))]])]]\<close>

definition lab26_slide_05 :: pycall where [lab26_slides]:
  \<open>lab26_slide_05 =
   \<lparr>posargs = [],
  kwargs =
   [(''categories'', PyList
      [PyStr (lit ''ARCHITECTURE''),
       PyStr (lit ''PIPELINE'')]),
    (''title'', PyStr (lit ''Pipeline Kontrak: Dari Consumer Test hingga '' @ lit ''CI Gate'')),
    (''subtitle'', PyStr (lit ''Alur eksekusi kontrak dari generasi hingga '' @
        lit ''verifikasi di provider side.'')),
    (''content_items'', lab26_items_05),
    (''narrative'', PyStr (lit ''Pipeline ini dimulai dari consumer test '' @
        lit ''yang menghasilkan artefak kontrak sebagai '' @
        lit ''JSON. Kontrak kemudian diunduh oleh CI '' @
        lit ''provider yang menjalankan verifier engine '' @
        lit ''untuk membandingkan response aktual dengan '' @
        lit ''ekspektasi. Keputusan gate dibuat secara '' @
        lit ''deterministik berdasarkan hasil diff.'')),
    (''narrative_en'', PyStr (lit ''The pipeline starts from consumer test '' @
        lit ''generating a contract artifact as JSON. The '' @
        lit ''contract is then fetched by the provider CI '' @
        lit ''which runs the verifier engine to compare '' @
        lit ''actual response against expectations. The '' @
        lit ''gate decision is made deterministically '' @ lit ''based on the diff result.'')),
    (''mental_model'', PyStr (lit ''Contract generation and verification form a '' @
        lit ''closed loop between consumer and provider '' @ lit ''in CI/CD.'')),
    (''source_path'', PyStr (lit ''content/02-master-draft.md:44-53'')),
    (''slide_num'', PyStr (lit ''05 / 24'')),
    (''layout'', PyStr (lit ''flow''))]\<rparr>\<close>

definition lab26_items_06 :: pyval where [lab26_contents]:
  \<open>lab26_items_06 =
   PyList
   [PyDict
     [(''type'', PyStr (lit ''code'')),
      (''title'', PyStr (lit ''internal/consumer/client.go:84-112'')),
      (''items'', PyList
        [PyStr (lit ''func GenerateMobileContract() '' @ lit ''*contract.Contract {''),
         PyStr (lit ''    return &contract.Contract{''),
         PyStr (lit ''        Consumer: "MobileApp",''),
         PyStr (lit ''        Provider: "OrderService",''),
         PyStr (lit ''        Interactions: '' @ lit ''[]contract.Interaction{{''),
         PyStr (lit ''            Description:   "A request for '' @
            lit ''order details by ID",''),
         PyStr (lit ''            ProviderState: "Order ORD-123 '' @
            lit ''exists and is IN_PROGRESS",''),
         PyStr (lit ''            Request: '' @ lit ''contract.RequestDefinition{''),
         PyStr (lit ''                Method: http.MethodGet,''),
         PyStr (lit ''                Path:   '' @ lit ''"/v1/orders/ORD-123",''),
         PyStr (lit ''            },''),
         PyStr (lit ''            Response: '' @ lit ''contract.ResponseDefinition{''),
         PyStr (lit ''                Status: http.StatusOK,''),
         PyStr (lit ''                Headers: '' @ lit ''map[string]string{"Content-Type": '' @
            lit ''"application/json"},''),
         PyStr (lit ''                Body: '' @ lit ''map[string]interface{}{''),
         PyStr (lit ''                    "id":     "ORD-123",''),
         PyStr (lit ''                    "status": "IN_PROGRESS",''),
         PyStr (lit ''                    "customer": '' @
            lit ''map[string]interface{}{"name": "Budi '' @ lit ''Santoso"},''),
         PyStr (lit ''                    "total": '' @ lit ''json.Number("150000"),''),
         PyStr (lit ''                },''),
         PyStr (lit ''            },''),
         PyStr (lit ''        }},''),
         PyStr (lit ''    }''),
         PyStr (lit ''}'')])]]\<close>

definition lab26_slide_06 :: pycall where [lab26_slides]:
  \<open>lab26_slide_06 =
   \<lparr>posargs = [],
  kwargs =
   [(''categories'', PyList
      [PyStr (lit ''CODE''),
       PyStr (lit ''CONSUMER'')]),
    (''title'', PyStr (lit ''GenerateMobileContract(): Kontrak Minimal '' @ lit ''dari Sisi Consumer'')),
    (''subtitle'', PyStr (lit ''Consumer mendeklarasikan hanya field yang '' @ lit ''benar-benar dibutuhkan.'')),
    (''content_items'', lab26_items_06),
    (''narrative'', PyStr (lit ''Fungsi ini menghasilkan kontrak minimal '' @
        lit ''yang hanya mendeklarasikan field: id, '' @
        lit ''status, customer.name, dan total. Field '' @
        lit ''tambahan seperti notes atau created_at '' @
        lit ''tidak dicantumkan karena tidak dipakai '' @ lit ''consumer '' @ [0x2014] @
        lit '' prinsip subset matching memastikan '' @
        lit ''provider dapat berevolusi tanpa merusak '' @ lit ''kontrak.'')),
    (''narrative_en'', PyStr (lit ''This function generates a minimal contract '' @
        lit ''declaring only the fields: id, status, '' @
        lit ''customer.name, and total. Extra fields like '' @
        lit ''notes or created_at are omitted because the '' @
        lit ''consumer does not use them '' @ [0x2014] @
        lit '' subset matching ensures the provider can '' @
        lit ''evolve without breaking the contract.'')),
    (''mental_model'', PyStr (lit ''Minimal contract: only used fields are '' @
        lit ''declared; extra provider fields are ignored '' @ lit ''by verifier.'')),
    (''source_path'', PyStr (lit ''internal/consumer/client.go:84-112'')),
    (''slide_num'', PyStr (lit ''06 / 24'')),
    (''layout'', PyStr (lit ''code''))]\<rparr>\<close>

definition lab26_items_07 :: pyval where [lab26_contents]:
  \<open>lab26_items_07 =
   PyList
   [PyDict
     [(''type'', PyStr (lit ''detail'')),
      (''title'', PyStr (lit ''BREAKING CHANGES TERTANGKAP'')),
      (''items'', PyList
        [PyDict
          [(''error'', PyStr (lit ''Type Mismatch '' @ [0x2014] @ lit '' total'')),
           (''detail'', PyStr (lit ''Expected json.Number (integer 150000), got '' @ lit ''string ('' @
               [39] @ lit ''150000'' @ [39] @
               lit ''). decoder.UseNumber() mempertahankan '' @
               lit ''presisi tipe numerik.''))],
         PyDict
          [(''error'', PyStr (lit ''Value Mismatch '' @ [0x2014] @ lit '' status'')),
           (''detail'', PyStr (lit ''Expected '' @ [39] @ lit ''IN_PROGRESS'' @ [39] @ lit '', got '' @
               [39] @ lit ''in_progress'' @ [39] @
               lit ''. Enum casing change terdeteksi sebagai '' @ lit ''value mismatch.''))],
         PyDict
          [(''error'', PyStr (lit ''Missing Field '' @ [0x2014] @ lit '' customer.name'')),
           (''detail'', PyStr (lit ''Field '' @ [39] @ lit ''customer.name'' @ [39] @
               lit '' tidak ada di response. Provider mengganti '' @ lit ''menjadi '' @
               [39] @ lit ''customer.full_name'' @ [39] @ lit ''.''))]])]]\<close>

definition lab26_slide_07 :: pycall where [lab26_slides]:
  \<open>lab26_slide_07 =
   \<lparr>posargs = [],
  kwargs =
   [(''categories'', PyList
      [PyStr (lit ''FAILURE''),
       PyStr (lit ''DETECTION'')]),
    (''title'', PyStr (lit ''Breaking Provider Menghasilkan 3 Error '' @ lit ''Detail di CI Gate'')),
    (''subtitle'', PyStr (lit ''Verifikator menangkap enum casing, field '' @
        lit ''rename, dan primitive type mutation.'')),
    (''content_items'', lab26_items_07),
    (''narrative'', PyStr (lit ''Ketiga error ini dihasilkan oleh '' @
        lit ''diffValues() di verifier.go. Perbedaan tipe '' @
        lit ''numerik tertangkap berkat '' @ lit ''decoder.UseNumber() yang menjaga '' @
        lit ''json.Number, berbeda dengan default decoder '' @
        lit ''yang mengubah semua angka jadi float64. '' @
        lit ''Field rename terdeteksi karena key tidak '' @
        lit ''ditemukan di expected map.'')),
    (''narrative_en'', PyStr (lit ''These three errors are produced by '' @
        lit ''diffValues() in verifier.go. The numeric '' @
        lit ''type difference is caught thanks to '' @
        lit ''decoder.UseNumber() preserving json.Number, '' @
        lit ''unlike the default decoder that converts '' @
        lit ''all numbers to float64. Field rename is '' @
        lit ''detected because the key is not found in '' @ lit ''the expected map.'')),
    (''mental_model'', PyStr (lit ''Json.Number decoder preserves type '' @
        lit ''precision; map key absence detects field '' @ lit ''renames.'')),
    (''source_path'', PyStr (lit ''engineering/03-execution-result.md:103-108'')),
    (''slide_num'', PyStr (lit ''07 / 24'')),
    (''layout'', PyStr (lit ''detail''))]\<rparr>\<close>

definition lab26_items_08 :: pyval where [lab26_contents]:
  \<open>lab26_items_08 =
   PyList
   [PyDict
     [(''type'', PyStr (lit ''table'')),
      (''title'', PyStr (lit ''BREAKING CHANGE vs VERIFICATION MECHANISM'')),
      (''items'', PyList
        [PyDict
          [(''mechanism'', PyStr (lit ''Status Code Check'')),
           (''triggers'', PyStr (lit ''Response bukan 200 OK'')),
           (''example'', PyStr (lit ''Server error atau redirect''))],
         PyDict
          [(''mechanism'', PyStr (lit ''Header Validation'')),
           (''triggers'', PyStr (lit ''Content-Type != application/json'')),
           (''example'', PyStr (lit ''Provider return text/plain''))],
         PyDict
          [(''mechanism'', PyStr (lit ''DiffValues Body Subset'')),
           (''triggers'', PyStr (lit ''Missing key / type mismatch / value mismatch'')),
           (''example'', PyStr (lit ''rename, enum change, int'' @ [0x2192] @ lit ''string''))],
         PyDict
          [(''mechanism'', PyStr (lit ''Json.Number Preservation'')),
           (''triggers'', PyStr (lit ''Integer numeric vs string representation'')),
           (''example'', PyStr (lit ''150000 vs '' @ [39] @ lit ''150000'' @ [39]))]])]]\<close>

definition lab26_slide_08 :: pycall where [lab26_slides]:
  \<open>lab26_slide_08 =
   \<lparr>posargs = [],
  kwargs =
   [(''categories'', PyList
      [PyStr (lit ''ANALYSIS''),
       PyStr (lit ''COMPARISON'')]),
    (''title'', PyStr (lit ''Breaking Change vs Mekanisme Deteksi'')),
    (''subtitle'', PyStr (lit ''Setiap jenis perubahan dipetakan ke '' @
        lit ''mekanisme verifikasi spesifik.'')),
    (''content_items'', lab26_items_08),
    (''narrative'', PyStr (lit ''Verifier melakukan tiga lapisan validasi: '' @
        lit ''status code, response header, dan body '' @
        lit ''subset. Lapisan body menggunakan recursive '' @
        lit ''map comparison dengan json.Number untuk '' @
        lit ''membedakan integer dan string numerik. '' @
        lit ''Header validation juga menjadi bagian dari '' @
        lit ''kontrak, bukan hanya payload.'')),
    (''narrative_en'', PyStr (lit ''The verifier performs three layers of '' @
        lit ''validation: status code, response header, '' @
        lit ''and body subset. The body layer uses '' @
        lit ''recursive map comparison with json.Number '' @
        lit ''to distinguish integer from string '' @
        lit ''numerics. Header validation is also part of '' @
        lit ''the contract, not just the payload.'')),
    (''mental_model'', PyStr (lit ''Three-layer validation: HTTP semantics '' @
        lit ''first, then structural diff with type '' @ lit ''preservation.'')),
    (''source_path'', PyStr (lit ''internal/contract/verifier.go:60-128'')),
    (''slide_num'', PyStr (lit ''08 / 24'')),
    (''layout'', PyStr (lit ''table''))]\<rparr>\<close>

definition lab26_items_09 :: pyval where [lab26_contents]:
  \<open>lab26_items_09 =
   PyList
   [PyDict
     [(''type'', PyStr (lit ''cards'')),
      (''title'', PyStr (lit ''DECISION SEQUENCE'')),
      (''items'', PyList
        [PyDict
          [(''title'', PyStr (lit ''Decision 1: Passed?'')),
           (''desc'', PyStr (lit ''Hanya pada jalur ini deployment diizinkan. '' @
               lit ''Semua interaction verification harus '' @ lit ''returning true.''))],
         PyDict
          [(''title'', PyStr (lit ''Decision 2: Failed?'')),
           (''desc'', PyStr (lit ''Deployment diblokir. Error list harus '' @
               lit ''ditinjau tim provider '' @ [0x2014] @
               lit '' bukan sekadar retry tanpa analisis.''))],
         PyDict
          [(''title'', PyStr (lit ''Decision 3: Partial?'')),
           (''desc'', PyStr (lit ''Beberapa interaction fail, sebagian pass. '' @
               lit ''Review per-interaction untuk '' @ [0x438, 0x437, 0x43E, 0x43B, 0x438] @
               lit ''asi scope perubahan.''))]])]]\<close>

definition lab26_slide_09 :: pycall where [lab26_slides]:
  \<open>lab26_slide_09 =
   \<lparr>posargs = [],
  kwargs =
   [(''categories'', PyList
      [PyStr (lit ''DECISION''),
       PyStr (lit ''GATE'')]),
    (''title'', PyStr (lit ''Tiga Keputusan Kritis dalam Pipeline '' @ lit ''Contract Testing'')),
    (''subtitle'', PyStr (lit ''Pass, fail, dan partial-fail masing-masing '' @
        lit ''mengarahkan tindakan berbeda.'')),
    (''content_items'', lab26_items_09),
    (''narrative'', PyStr (lit ''Pipeline contract testing menghasilkan tiga '' @
        lit ''jalur keputusan: pass (deployment izin), '' @
        lit ''fail (deployment blokir dengan error '' @
        lit ''report), dan partial (beberapa kontrak '' @
        lit ''gagal, sebagian lolos). Hanya pada jalur '' @
        lit ''pass saja deployment diizinkan tanpa review '' @ lit ''tambahan.'')),
    (''narrative_en'', PyStr (lit ''The contract testing pipeline produces '' @
        lit ''three decision paths: pass (deployment '' @
        lit ''allowed), fail (deployment blocked with '' @
        lit ''error report), and partial (some contracts '' @
        lit ''fail, others pass). Only along the pass '' @
        lit ''path is deployment allowed without '' @ lit ''additional review.'')),
    (''mental_model'', PyStr (lit ''Three decision branches: pass allows '' @
        lit ''deploy, fail blocks, partial requires '' @ lit ''per-interaction review.'')),
    (''source_path'', PyStr (lit ''cmd/demo/main.go:14-68'')),
    (''slide_num'', PyStr (lit ''09 / 24'')),
    (''layout'', PyStr (lit ''cards''))]\<rparr>\<close>

definition lab26_items_10 :: pyval where [lab26_contents]:
  \<open>lab26_items_10 =
   PyList
   [PyDict
     [(''type'', PyStr (lit ''code'')),
      (''title'', PyStr (lit ''go run ./cmd/demo (Stage 3 Output)'')),
      (''items'', PyList
        [PyStr (lit ''[Stage 3] Running Breaking Provider '' @ lit ''Contract Verification:''),
         PyStr (lit ''Result: BLOCKED! Breaking changes detected '' @ lit ''before deployment:''),
         PyStr (lit ''  1. [A request for order details by ID] '' @ lit ''path '' @ [39] @
            lit ''total'' @ [39] @ lit '':''),
         PyStr (lit ''     type mismatch (expected 150000 '' @
            lit ''[json.Number], got 150000 [string])''),
         PyStr (lit ''  2. [A request for order details by ID] '' @ lit ''path '' @ [39] @
            lit ''status'' @ [39] @ lit '':''),
         PyStr (lit ''     value mismatch (expected '' @
            lit ''"IN_PROGRESS", got "in_progress")''),
         PyStr (lit ''  3. [A request for order details by ID] '' @
            lit ''missing expected field''),
         PyStr (lit ''     '' @ [39] @ lit ''customer.name'' @ [39]),
         PyStr (lit ''CI Deployment Gate: PREVENTED PRODUCTION '' @ lit ''OUTAGE.'')])]]\<close>

definition lab26_slide_10 :: pycall where [lab26_slides]:
  \<open>lab26_slide_10 =
   \<lparr>posargs = [],
  kwargs =
   [(''categories'', PyList
      [PyStr (lit ''EVIDENCE''),
       PyStr (lit ''EXECUTION'')]),
    (''title'', PyStr (lit ''Demo 4 Stage: Generate '' @ [0x2192] @ lit '' V1 Pass '' @ [0x2192] @
        lit '' Breaking Blocked '' @ [0x2192] @ lit '' Dual Pass'')),
    (''subtitle'', PyStr (lit ''Eksekusi nyata menghasilkan output '' @
        lit ''deterministic yang dapat direproduksi.'')),
    (''content_items'', lab26_items_10),
    (''narrative'', PyStr (lit ''Output demo ini menunjukkan Stage 3 yang '' @
        lit ''memverifikasi ProviderBreaking. Tiga error '' @
        lit ''detail tercetak secara terstruktur, '' @
        lit ''masing-masing menyebutkan path field, jenis '' @
        lit ''mismatch, dan nilai yang diharapkan versus '' @
        lit ''aktual. Gate CI menolak deployment '' @ [0x2014] @
        lit '' produksi terlindungi.'')),
    (''narrative_en'', PyStr (lit ''This demo output shows Stage 3 verifying '' @
        lit ''ProviderBreaking. Three structured errors '' @
        lit ''are printed, each citing the field path, '' @
        lit ''mismatch type, and expected versus actual '' @
        lit ''values. The CI gate rejects the deployment '' @ [0x2014] @
        lit '' production is protected.'')),
    (''mental_model'', PyStr (lit ''Deterministic error reporting provides '' @
        lit ''actionable feedback to the provider team.'')),
    (''source_path'', PyStr (lit ''engineering/03-execution-result.md:100-113'')),
    (''slide_num'', PyStr (lit ''10 / 24'')),
    (''layout'', PyStr (lit ''code''))]\<rparr>\<close>

definition lab26_items_11 :: pyval where [lab26_contents]:
  \<open>lab26_items_11 =
   PyList
   [PyDict
     [(''type'', PyStr (lit ''warning'')),
      (''title'', PyStr (lit ''BATASAN LAB'')),
      (''items'', PyList
        [PyDict
          [(''item'', PyStr (lit ''Pact Broker Remote'')),
           (''detail'', PyStr (lit ''Kontrak dipertukarkan in-memory; tidak ada '' @
               lit ''broker sentral untuk store dan can-i-deploy '' @
               lit ''check lintas tim.''))],
         PyDict
          [(''item'', PyStr (lit ''Provider State Management'')),
           (''detail'', PyStr (lit ''State didefinisikan via provider_state '' @
               lit ''string; tidak ada callback setup/teardown '' @ lit ''state fixture.''))],
         PyDict
          [(''item'', PyStr (lit ''Array Diff'')),
           (''detail'', PyStr (lit ''DiffValues() tidak menangani array '' @ lit ''comparison '' @
               [0x2014] @ lit '' jika response berisi list, diff gagal atau '' @
               lit ''skip.''))],
         PyDict
          [(''item'', PyStr (lit ''Message Pact'')),
           (''detail'', PyStr (lit ''Verifikasi terbatas pada HTTP REST; '' @
               lit ''event-driven (Kafka/RabbitMQ) tidak diuji '' @ lit ''dalam lab.''))],
         PyDict
          [(''item'', PyStr (lit ''V2 Schema Assertion'')),
           (''detail'', PyStr (lit ''Endpoint /v2/orders/{id} hanya diassert '' @
               lit ''status 200, bukan body schema sesuai '' @ lit ''kontrak.''))]])]]\<close>

definition lab26_slide_11 :: pycall where [lab26_slides]:
  \<open>lab26_slide_11 =
   \<lparr>posargs = [],
  kwargs =
   [(''categories'', PyList
      [PyStr (lit ''LIMITATIONS''),
       PyStr (lit ''BOUNDARY'')]),
    (''title'', PyStr (lit ''YANG TIDAK DIBUKTIKAN dalam Laboratorium Ini'')),
    (''subtitle'', PyStr (lit ''Lab adalah simplifikasi; beberapa aspek '' @ lit ''produksi belum tercover.'')),
    (''content_items'', lab26_items_11),
    (''narrative'', PyStr (lit ''Laboratorium ini sengaja disederhanakan '' @
        lit ''untuk reproduktibilitas lokal. Beberapa '' @
        lit ''fitur produksi seperti Pact Broker, '' @
        lit ''provider state callbacks, dan array diff '' @
        lit ''tidak diimplementasikan. V2 endpoint hanya '' @
        lit ''diverifikasi status code-nya, bukan body '' @ lit ''schema '' @ [0x2014] @
        lit '' ini adalah gap yang perlu ditambal untuk '' @ lit ''production readiness.'')),
    (''narrative_en'', PyStr (lit ''This lab is intentionally simplified for '' @
        lit ''local reproducibility. Several production '' @
        lit ''features like Pact Broker, provider state '' @
        lit ''callbacks, and array diff are not '' @
        lit ''implemented. The V2 endpoint is verified '' @
        lit ''only for status code, not body schema '' @ [0x2014] @
        lit '' this is a gap that needs addressing for '' @ lit ''production readiness.'')),
    (''mental_model'', PyStr (lit ''Lab scope is a minimal viable engine; '' @
        lit ''production requires broker, state '' @
        lit ''management, and broader diff coverage.'')),
    (''source_path'', PyStr (lit ''research-audit/03-claim-audit.md:1-164'')),
    (''slide_num'', PyStr (lit ''11 / 24'')),
    (''layout'', PyStr (lit ''warning''))]\<rparr>\<close>

definition lab26_items_12 :: pyval where [lab26_contents]:
  \<open>lab26_items_12 =
   PyList
   [PyDict
     [(''type'', PyStr (lit ''cards'')),
      (''title'', PyStr (lit ''CUSTOM vs FULL PACT'')),
      (''items'', PyList
        [PyDict
          [(''title'', PyStr (lit ''Custom Verifier (Lab)'')),
           (''desc'', PyStr (lit ''Pure Go stdlib, zero external deps, '' @
               lit ''race-safe, cepat. Kompromi: subset '' @
               lit ''matching, tanpa broker, tanpa message pact.''))],
         PyDict
          [(''title'', PyStr (lit ''Full Pact Stack (Produksi)'')),
           (''desc'', PyStr (lit ''Ruby/JS client, Pact Broker, provider state '' @
               lit ''callbacks, message pact. Lebih lengkap tapi '' @
               lit ''butuh dependensi eksternal.''))],
         PyDict
          [(''title'', PyStr (lit ''Hybrid Approach'')),
           (''desc'', PyStr (lit ''Gunakan custom verifier untuk CI gate '' @
               lit ''cepat, migrasi ke Pact Broker saat '' @
               lit ''skalabilitas lintas tim diperlukan.''))]])]]\<close>

definition lab26_slide_12 :: pycall where [lab26_slides]:
  \<open>lab26_slide_12 =
   \<lparr>posargs = [],
  kwargs =
   [(''categories'', PyList
      [PyStr (lit ''TRADE-OFF''),
       PyStr (lit ''ARCHITECTURE'')]),
    (''title'', PyStr (lit ''Trade-off: Custom Verifier vs Full Pact '' @ lit ''Stack'')),
    (''subtitle'', PyStr (lit ''Keputusan pure Go stdlib mengorbankan fitur '' @
        lit ''produksi demi reproduktibilitas.'')),
    (''content_items'', lab26_items_12),
    (''narrative'', PyStr (lit ''Laboratorium memilih custom verifier dengan '' @
        lit ''Go standard library murni untuk menghindari '' @
        lit ''dependensi Ruby atau Node.js. Kelebihannya: '' @
        lit ''test berjalan di environment apa pun. '' @
        lit ''Kekurangannya: tidak ada broker sentral, '' @
        lit ''provider state management manual, dan tidak '' @
        lit ''support message pact. Untuk produksi skala '' @
        lit ''kecil, custom verifier cukup.'')),
    (''narrative_en'', PyStr (lit ''The lab chose a custom verifier using pure '' @
        lit ''Go standard library to avoid Ruby or '' @
        lit ''Node.js dependencies. The advantage: tests '' @
        lit ''run in any environment. The disadvantage: '' @
        lit ''no central broker, manual state management, '' @
        lit ''and no message pact support. For '' @
        lit ''small-scale production, the custom verifier '' @ lit ''is sufficient.'')),
    (''mental_model'', PyStr (lit ''Zero-dependency trade-off sacrifices broker '' @
        lit ''and state management for portability and '' @ lit ''speed.'')),
    (''source_path'', PyStr (lit ''content/02-master-draft.md:86-91'')),
    (''slide_num'', PyStr (lit ''12 / 24'')),
    (''layout'', PyStr (lit ''cards''))]\<rparr>\<close>

definition lab26_items_13 :: pyval where [lab26_contents]:
  \<open>lab26_items_13 =
   PyList
   [PyDict
     [(''type'', PyStr (lit ''detail'')),
      (''title'', PyStr (lit ''CONCURRENT VERIFICATION PATTERN'')),
      (''items'', PyList
        [PyDict
          [(''pattern'', PyStr (lit ''Per-goroutine Client'')),
           (''detail'', PyStr (lit ''Verifier.NewVerifier() membuat instance '' @
               lit ''baru dengan http.Client timeout 5s '' @ [0x2014] @
               lit '' tidak ada shared mutable state.''))],
         PyDict
          [(''pattern'', PyStr (lit ''Request Isolation'')),
           (''detail'', PyStr (lit ''http.NewRequest() menghasilkan request '' @
               lit ''object unik per interaksi '' @ [0x2014] @
               lit '' concurrent Do() aman.''))],
         PyDict
          [(''pattern'', PyStr (lit ''Result Aggregation'')),
           (''detail'', PyStr (lit ''Setiap goroutine mengembalikan '' @ lit ''VerificationResult lokal '' @
               [0x2014] @ lit '' sinkronisasi hanya di wg.Wait(), bukan di '' @
               lit ''result.''))],
         PyDict
          [(''pattern'', PyStr (lit ''Race Detector PASS'')),
           (''detail'', PyStr (lit ''go test -race ./... menghasilkan: ok '' @
               lit ''labs/26-contract-testing/tests 1.425s tanpa '' @ lit ''race detected.''))]])]]\<close>

definition lab26_slide_13 :: pycall where [lab26_slides]:
  \<open>lab26_slide_13 =
   \<lparr>posargs = [],
  kwargs =
   [(''categories'', PyList
      [PyStr (lit ''CONCURRENCY''),
       PyStr (lit ''THREAD-SAFETY'')]),
    (''title'', PyStr (lit ''Verifier Thread-Safe: 20 Goroutine Tanpa '' @ lit ''Data Race'')),
    (''subtitle'', PyStr (lit ''Setiap goroutine menginisialisasi request '' @ lit ''dan response lokal '' @
        [0x2014] @ lit '' state tidak dibagikan.'')),
    (''content_items'', lab26_items_13),
    (''narrative'', PyStr (lit ''Verifier tidak menggunakan shared mutable '' @
        lit ''state manapun. Setiap panggilan Verify() '' @
        lit ''menginisialisasi http.Client baru, membuat '' @
        lit ''request baru, dan mengembalikan result '' @
        lit ''baru. Race detector Go konfirmasi '' @
        lit ''thread-safety melalui test concurrent 20 '' @
        lit ''goroutine selama 0.01 detik.'')),
    (''narrative_en'', PyStr (lit ''The verifier does not use any shared '' @
        lit ''mutable state. Each Verify() call '' @
        lit ''initializes a new http.Client, creates a '' @
        lit ''new request, and returns a new result. Go'' @ [39] @
        lit ''s race detector confirms thread-safety '' @
        lit ''through the 20-goroutine concurrent test in '' @ lit ''0.01 seconds.'')),
    (''mental_model'', PyStr (lit ''Stateless verification per call guarantees '' @
        lit ''thread-safety without locks or mutexes.'')),
    (''source_path'', PyStr (lit ''tests/contract_test.go:97-116'')),
    (''slide_num'', PyStr (lit ''13 / 24'')),
    (''layout'', PyStr (lit ''detail''))]\<rparr>\<close>

definition lab26_items_14 :: pyval where [lab26_contents]:
  \<open>lab26_items_14 =
   PyList
   [PyDict
     [(''type'', PyStr (lit ''comparison'')),
      (''title'', PyStr (lit ''BEFORE vs AFTER CONTRACT TESTING'')),
      (''items'', PyList
        [PyDict
          [(''before'', PyStr (lit ''Deploy tanpa gate verifikasi kontrak'')),
           (''after'', PyStr (lit ''CI gate memverifikasi kontrak sebelum deploy''))],
         PyDict
          [(''before'', PyStr (lit ''Production outage karena field rename'')),
           (''after'', PyStr (lit ''Breaking change terdeteksi di PR, error '' @ lit ''report jelas''))],
         PyDict
          [(''before'', PyStr (lit ''Debug integration failure manual'' @ [0x8017, 0x65F6])),
           (''after'', PyStr (lit ''Verifikasi otomatis menghasilkan diff '' @
               lit ''terstruktur per field''))],
         PyDict
          [(''before'', PyStr (lit ''E2E test berjalan lambat dan flaky'')),
           (''after'', PyStr (lit ''Contract test cepat (sub-second) dan '' @ lit ''deterministic''))],
         PyDict
          [(''before'', PyStr (lit ''Provider evolusi tanpa koordinasi consumer'')),
           (''after'', PyStr (lit ''Dual provider V1+V2 memungkinkan migrasi '' @ lit ''independen''))]])]]\<close>

definition lab26_slide_14 :: pycall where [lab26_slides]:
  \<open>lab26_slide_14 =
   \<lparr>posargs = [],
  kwargs =
   [(''categories'', PyList
      [PyStr (lit ''COMPARISON''),
       PyStr (lit ''TRANSFORMATION'')]),
    (''title'', PyStr (lit ''Sebelum vs Sesudah Contract Testing di '' @ lit ''Pipeline CI'')),
    (''subtitle'', PyStr (lit ''Transformasi dari blind deploy ke gated '' @
        lit ''deployment dengan evidence.'')),
    (''content_items'', lab26_items_14),
    (''narrative'', PyStr (lit ''Sebelum contract testing, tim mengandalkan '' @
        lit ''E2E test yang lambat dan manual debugging '' @
        lit ''saat integrasi pecah. Setelah implementasi, '' @
        lit ''setiap PR provider divalidasi terhadap '' @ lit ''kontrak consumer '' @
        [0x2014] @ lit '' breaking change tertangkap sebelum deploy. '' @
        lit ''Tidak otomatis berarti semua edge case '' @
        lit ''tertutup, tetapi risiko production outage '' @ lit ''berkurang signifikan.'')),
    (''narrative_en'', PyStr (lit ''Before contract testing, teams relied on '' @
        lit ''slow E2E tests and manual debugging when '' @
        lit ''integration broke. After implementation, '' @
        lit ''every provider PR is validated against '' @ lit ''consumer contracts '' @
        [0x2014] @ lit '' breaking changes are caught before '' @
        lit ''deployment. Not automatic means not all '' @
        lit ''edge cases are covered, but the risk of '' @
        lit ''production outage is significantly reduced.'')),
    (''mental_model'', PyStr (lit ''Contract testing shifts integration safety '' @
        lit ''left from production to CI.'')),
    (''source_path'', PyStr (lit ''content/02-master-draft.md:1-14'')),
    (''slide_num'', PyStr (lit ''14 / 24'')),
    (''layout'', PyStr (lit ''comparison''))]\<rparr>\<close>

definition lab26_items_15 :: pyval where [lab26_contents]:
  \<open>lab26_items_15 =
   PyList
   [PyDict
     [(''type'', PyStr (lit ''detail'')),
      (''title'', PyStr (lit ''DIFFVALUES ENGINE'')),
      (''items'', PyList
        [PyDict
          [(''component'', PyStr (lit ''decoder.UseNumber()'')),
           (''impact'', PyStr (lit ''Mengubah semua angka JSON jadi json.Number, '' @
               lit ''bukan float64. Integer 150000 tetap '' @ lit ''json.Number, string '' @
               [39] @ lit ''150000'' @ [39] @ lit '' tetap string.''))],
         PyDict
          [(''component'', PyStr (lit ''map[string]interface{}'')),
           (''impact'', PyStr (lit ''Body di-parse sebagai generic map '' @ [0x2014] @
               lit '' memungkinkan subset matching tanpa struct '' @ lit ''tag.''))],
         PyDict
          [(''component'', PyStr (lit ''reflect.TypeOf comparison'')),
           (''impact'', PyStr (lit ''Primitive type mismatch (string vs int) '' @
               lit ''dideteksi dengan reflect.TypeOf, bukan '' @ lit ''string comparison.''))],
         PyDict
          [(''component'', PyStr (lit ''Recursive traversal'')),
           (''impact'', PyStr (lit ''Nested object comparison dilakukan secara '' @ lit ''rekursif '' @
               [0x2014] @ lit '' customer.name vs customer.full_name '' @
               lit ''terdeteksi di level child.''))],
         PyDict
          [(''component'', PyStr (lit ''Nil expected handling'')),
           (''impact'', PyStr (lit ''Jika expected nil, diffValues() return '' @ lit ''empty '' @ [0x2014] @
               lit '' field opsional diabaikan oleh verifier.''))]])]]\<close>

definition lab26_slide_15 :: pycall where [lab26_slides]:
  \<open>lab26_slide_15 =
   \<lparr>posargs = [],
  kwargs =
   [(''categories'', PyList
      [PyStr (lit ''ANALYSIS''),
       PyStr (lit ''ENGINE'')]),
    (''title'', PyStr (lit ''Verifier Engine: Recursive Map Diff dengan '' @ lit ''Type Preservation'')),
    (''subtitle'', PyStr (lit ''Mekanisme diffValues() menjadi inti deteksi '' @ lit ''breaking change.'')),
    (''content_items'', lab26_items_15),
    (''narrative'', PyStr (lit ''Verifier engine menggunakan pendekatan '' @
        lit ''subset matching: hanya field yang '' @
        lit ''dideklarasikan consumer yang diperiksa. '' @
        lit ''Nested map traversal memungkinkan deteksi '' @
        lit ''error di field dalam (customer.name). '' @
        lit ''UseNumber() adalah kunci yang membedakan '' @
        lit ''integer dan string numerik '' @ [0x2014] @
        lit '' fitur yang tidak tersedia pada JSON parser '' @ lit ''default Go.'')),
    (''narrative_en'', PyStr (lit ''The verifier engine uses subset matching: '' @
        lit ''only fields declared by the consumer are '' @
        lit ''checked. Nested map traversal enables '' @
        lit ''detection of errors in child fields '' @
        lit ''(customer.name). UseNumber() is the key '' @
        lit ''differentiator that distinguishes integers '' @
        lit ''from string numerics '' @ [0x2014] @ lit '' a feature not available on Go'' @
        [39] @ lit ''s default JSON parser.'')),
    (''mental_model'', PyStr (lit ''Subset matching with recursive diff and '' @
        lit ''json.Number preserves type precision for '' @
        lit ''breaking change detection.'')),
    (''source_path'', PyStr (lit ''internal/contract/verifier.go:108-189'')),
    (''slide_num'', PyStr (lit ''15 / 24'')),
    (''layout'', PyStr (lit ''detail''))]\<rparr>\<close>

definition lab26_items_16 :: pyval where [lab26_contents]:
  \<open>lab26_items_16 =
   PyList
   [PyDict
     [(''type'', PyStr (lit ''code'')),
      (''title'', PyStr (lit ''go test -v ./... (Ringkasan)'')),
      (''items'', PyList
        [PyStr (lit ''=== RUN   TestConsumerContractGeneration''),
         PyStr (lit ''--- PASS: TestConsumerContractGeneration '' @ lit ''(0.00s)''),
         PyStr (lit ''=== RUN   TestProviderV1_ContractVerificatio'' @ lit ''n_Success''),
         PyStr (lit ''--- PASS: TestProviderV1_ContractVerificatio'' @ lit ''n_Success (0.00s)''),
         PyStr (lit ''=== RUN   TestProviderBreaking_ContractVerif'' @ lit ''ication_Fails''),
         PyStr (lit ''--- PASS: TestProviderBreaking_ContractVerif'' @
            lit ''ication_Fails (0.00s)''),
         PyStr (lit ''=== RUN   TestProviderDual_ContractVerificat'' @ lit ''ion_Success''),
         PyStr (lit ''--- PASS: TestProviderDual_ContractVerificat'' @
            lit ''ion_Success (0.00s)''),
         PyStr (lit ''=== RUN   TestConcurrentContractVerification''),
         PyStr (lit ''--- PASS: TestConcurrentContractVerification'' @ lit '' (0.01s)''),
         PyStr (lit ''=== RUN   TestVerifier_HeaderValidation_And_'' @ lit ''ErrorBranches''),
         PyStr (lit ''--- PASS: TestVerifier_HeaderValidation_And_'' @
            lit ''ErrorBranches (0.00s)''),
         PyStr (lit ''=== RUN   TestProviderDual_V2Endpoint_Direct'' @ lit ''Assertion''),
         PyStr (lit ''--- PASS: TestProviderDual_V2Endpoint_Direct'' @ lit ''Assertion (0.00s)''),
         PyStr (lit ''ok  '' @ [9] @ lit ''labs/26-contract-testing/tests'' @ [9] @
            lit ''0.390s'')])]]\<close>

definition lab26_slide_16 :: pycall where [lab26_slides]:
  \<open>lab26_slide_16 =
   \<lparr>posargs = [],
  kwargs =
   [(''categories'', PyList
      [PyStr (lit ''EVIDENCE''),
       PyStr (lit ''TESTS'')]),
    (''title'', PyStr (lit ''Tujuh Test: Semua PASS, Race Detector Bersih'')),
    (''subtitle'', PyStr (lit ''Verifikasi menyeluruh mencakup generasi, '' @
        lit ''sukses, gagal, dual, concurrent, header, '' @ lit ''dan v2.'')),
    (''content_items'', lab26_items_16),
    (''narrative'', PyStr (lit ''Ketujuh test menutupi seluruh skenario: '' @
        lit ''generasi kontrak, verifikasi V1 sukses, '' @
        lit ''breaking change gagal, dual provider '' @
        lit ''sukses, concurrent safety, header '' @
        lit ''validation, dan v2 assertion. Race detector '' @
        lit ''berjalan bersih tanpa flagged race '' @ lit ''condition.'')),
    (''narrative_en'', PyStr (lit ''The seven tests cover all scenarios: '' @
        lit ''contract generation, V1 success '' @
        lit ''verification, breaking change failure, dual '' @
        lit ''provider success, concurrent safety, header '' @
        lit ''validation, and v2 assertion. The race '' @
        lit ''detector runs clean with no flagged race '' @ lit ''conditions.'')),
    (''mental_model'', PyStr (lit ''Comprehensive test coverage validates all '' @
        lit ''verification paths and concurrency safety.'')),
    (''source_path'', PyStr (lit ''engineering/03-execution-result.md:19-42'')),
    (''slide_num'', PyStr (lit ''16 / 24'')),
    (''layout'', PyStr (lit ''code''))]\<rparr>\<close>

definition lab26_items_17 :: pyval where [lab26_contents]:
  \<open>lab26_items_17 =
   PyList
   [PyDict
     [(''type'', PyStr (lit ''code'')),
      (''title'', PyStr (lit ''go test -race ./... (Output)'')),
      (''items'', PyList
        [PyStr (lit ''=== RUN   TestConsumerContractGeneration''),
         PyStr (lit ''--- PASS: TestConsumerContractGeneration '' @ lit ''(0.00s)''),
         PyStr (lit ''=== RUN   TestProviderV1_ContractVerificatio'' @ lit ''n_Success''),
         PyStr (lit ''--- PASS: TestProviderV1_ContractVerificatio'' @ lit ''n_Success (0.00s)''),
         PyStr (lit ''=== RUN   TestProviderBreaking_ContractVerif'' @ lit ''ication_Fails''),
         PyStr (lit ''--- PASS: TestProviderBreaking_ContractVerif'' @
            lit ''ication_Fails (0.00s)''),
         PyStr (lit ''=== RUN   TestProviderDual_ContractVerificat'' @ lit ''ion_Success''),
         PyStr (lit ''--- PASS: TestProviderDual_ContractVerificat'' @
            lit ''ion_Success (0.00s)''),
         PyStr (lit ''=== RUN   TestConcurrentContractVerification''),
         PyStr (lit ''--- PASS: TestConcurrentContractVerification'' @ lit '' (0.01s)''),
         PyStr (lit ''=== RUN   TestVerifier_HeaderValidation_And_'' @ lit ''ErrorBranches''),
         PyStr (lit ''--- PASS: TestVerifier_HeaderValidation_And_'' @
            lit ''ErrorBranches (0.00s)''),
         PyStr (lit ''=== RUN   TestProviderDual_V2Endpoint_Direct'' @ lit ''Assertion''),
         PyStr (lit ''--- PASS: TestProviderDual_V2Endpoint_Direct'' @ lit ''Assertion (0.00s)''),
         PyStr (lit ''ok  '' @ [9] @ lit ''labs/26-contract-testing/tests'' @ [9] @
            lit ''(cached)''),
         PyStr (lit ''ok  '' @ [9] @ lit ''labs/26-contract-testing/tests'' @ [9] @
            lit ''1.425s''),
         PyStr (lit ''    (race detector: no races detected)'')])]]\<close>

definition lab26_slide_17 :: pycall where [lab26_slides]:
  \<open>lab26_slide_17 =
   \<lparr>posargs = [],
  kwargs =
   [(''categories'', PyList
      [PyStr (lit ''EVIDENCE''),
       PyStr (lit ''PERFORMANCE'')]),
    (''title'', PyStr (lit ''Race Detector: 1.425s untuk Seluruh Test '' @ lit ''Suite'')),
    (''subtitle'', PyStr (lit ''Konfirmasi thread-safety tanpa mutex atau '' @ lit ''lock.'')),
    (''content_items'', lab26_items_17),
    (''narrative'', PyStr (lit ''Race detector mengonfirmasi bahwa tidak ada '' @
        lit ''shared mutable state antara goroutine. '' @
        lit ''Setiap verifikasi berjalan independent '' @
        lit ''dengan http.Client lokal dan request object '' @
        lit ''unik. Performa concurrent test hanya 0.01s '' @ [0x2014] @
        lit '' verifier engine efisien dan scalable.'')),
    (''narrative_en'', PyStr (lit ''The race detector confirms no shared '' @
        lit ''mutable state between goroutines. Each '' @
        lit ''verification runs independently with a '' @
        lit ''local http.Client and unique request '' @
        lit ''object. The concurrent test takes only '' @ lit ''0.01s '' @ [0x2014] @
        lit '' the verifier engine is efficient and '' @ lit ''scalable.'')),
    (''mental_model'', PyStr (lit ''Thread-safety achieved through stateless '' @
        lit ''per-call design, not synchronization '' @ lit ''primitives.'')),
    (''source_path'', PyStr (lit ''engineering/03-execution-result.md:44-47'')),
    (''slide_num'', PyStr (lit ''17 / 24'')),
    (''layout'', PyStr (lit ''code''))]\<rparr>\<close>

definition lab26_items_18 :: pyval where [lab26_contents]:
  \<open>lab26_items_18 =
   PyList
   [PyDict
     [(''type'', PyStr (lit ''table'')),
      (''title'', PyStr (lit ''PROVIDER IMPLEMENTATION PATTERNS'')),
      (''items'', PyList
        [PyDict
          [(''pattern'', PyStr (lit ''ProviderV1'')),
           (''route'', PyStr (lit ''/v1/orders/{id}'')),
           (''behavior'', PyStr (lit ''Mengembalikan OrderResponseV1 compliant '' @
               lit ''kontrak. Field notes ada tapi tidak '' @
               lit ''divalidasi (subset matching).''))],
         PyDict
          [(''pattern'', PyStr (lit ''ProviderBreaking'')),
           (''route'', PyStr (lit ''/v1/orders/{id}'')),
           (''behavior'', PyStr (lit ''Mengembalikan OrderResponseBreaking dengan '' @
               lit ''3 mutasi: enum casing, field rename, type '' @ lit ''mutation.''))],
         PyDict
          [(''pattern'', PyStr (lit ''ProviderDual'')),
           (''route'', PyStr (lit ''/v1/orders/{id}'')),
           (''behavior'', PyStr (lit ''Mempertahankan V1 route compliant sambil '' @
               lit ''menambahkan V2 route dengan schema baru + '' @ lit ''currency field.''))],
         PyDict
          [(''pattern'', PyStr (lit ''ProviderDual'')),
           (''route'', PyStr (lit ''/v2/orders/{id}'')),
           (''behavior'', PyStr (lit ''Respons V2: OrderResponseV2 dengan '' @
               lit ''customer.full_name, total string, dan '' @
               lit ''currency IDR. Belum ada kontrak consumer.''))]])]]\<close>

definition lab26_slide_18 :: pycall where [lab26_slides]:
  \<open>lab26_slide_18 =
   \<lparr>posargs = [],
  kwargs =
   [(''categories'', PyList
      [PyStr (lit ''ANALYSIS''),
       PyStr (lit ''PROVIDER'')]),
    (''title'', PyStr (lit ''Tiga Pola Provider: Compliant, Breaking, '' @ lit ''dan Dual Evolution'')),
    (''subtitle'', PyStr (lit ''Perbandingan implementasi HTTP handler.'')),
    (''content_items'', lab26_items_18),
    (''narrative'', PyStr (lit ''Tiga pola provider ini menggambarkan '' @
        lit ''spektrum kompatibilitas. ProviderV1 adalah '' @
        lit ''baseline compliant. ProviderBreaking '' @
        lit ''menunjukkan skenario worst-case. '' @
        lit ''ProviderDual merepresentasikan praktik '' @
        lit ''evolusi aman: V1 dipertahankan untuk '' @
        lit ''consumer lama, V2 diperkenalkan untuk '' @
        lit ''consumer baru tanpa mengganggu yang sudah '' @ lit ''ada.'')),
    (''narrative_en'', PyStr (lit ''These three provider patterns illustrate '' @
        lit ''the compatibility spectrum. ProviderV1 is '' @
        lit ''the compliant baseline. ProviderBreaking '' @
        lit ''shows the worst-case scenario. ProviderDual '' @
        lit ''represents safe evolution practice: V1 is '' @
        lit ''maintained for legacy consumers, V2 is '' @
        lit ''introduced for new consumers without '' @ lit ''disrupting existing ones.'')),
    (''mental_model'', PyStr (lit ''Dual routing enables independent consumer '' @
        lit ''migration without breaking existing '' @ lit ''integrations.'')),
    (''source_path'', PyStr (lit ''internal/provider/server.go:1-131'')),
    (''slide_num'', PyStr (lit ''18 / 24'')),
    (''layout'', PyStr (lit ''table''))]\<rparr>\<close>

definition lab26_items_19 :: pyval where [lab26_contents]:
  \<open>lab26_items_19 =
   PyList
   [PyDict
     [(''type'', PyStr (lit ''detail'')),
      (''title'', PyStr (lit ''DTO STRUCT ANALYSIS'')),
      (''items'', PyList
        [PyDict
          [(''struct'', PyStr (lit ''OrderResponseV1'')),
           (''tags'', PyStr (lit ''id, status, customer(Name), total(int64), '' @ lit ''notes,omitempty'')),
           (''validates'', PyStr (lit ''Memenuhi kontrak consumer '' @ [0x2014] @
               lit '' semua field expected ada dengan tipe benar.''))],
         PyDict
          [(''struct'', PyStr (lit ''OrderResponseBreaking'')),
           (''tags'', PyStr (lit ''id, status(in_progress), '' @
               lit ''customer(FullName), total(string), notes'')),
           (''validates'', PyStr (lit ''Melanggar kontrak '' @ [0x2014] @
               lit '' 3 breaking change: enum casing, field '' @
               lit ''rename, type mutation.''))],
         PyDict
          [(''struct'', PyStr (lit ''OrderResponseV2'')),
           (''tags'', PyStr (lit ''id, status(in_progress), '' @
               lit ''customer(FullName), total(string), currency'')),
           (''validates'', PyStr (lit ''Schema baru V2 '' @ [0x2014] @
               lit '' belum ada consumer contract, hanya status '' @
               lit ''assertion di test.''))]])]]\<close>

definition lab26_slide_19 :: pycall where [lab26_slides]:
  \<open>lab26_slide_19 =
   \<lparr>posargs = [],
  kwargs =
   [(''categories'', PyList
      [PyStr (lit ''ANALYSIS''),
       PyStr (lit ''MODELS'')]),
    (''title'', PyStr (lit ''Struktur DTO: V1, Breaking, V2 '' @ [0x2014] @
        lit '' Satu Domain, Tiga Wujud'')),
    (''subtitle'', PyStr (lit ''Refleksi Go struct dengan json tag '' @
        lit ''menentukan perilaku serialisasi.'')),
    (''content_items'', lab26_items_19),
    (''narrative'', PyStr (lit ''Setiap struct merepresentasikan fase '' @
        lit ''evolusi API. V1 adalah kontrak asli yang '' @
        lit ''dipatuhi. Breaking adalah contoh deformasi '' @
        lit ''kontrak yang harus ditangkap. V2 adalah '' @ lit ''arah evolusi yang sah '' @
        [0x2014] @ lit '' field rename dan type mutation diterima '' @
        lit ''karena consumer V2 yang baru telah '' @ lit ''beradaptasi.'')),
    (''narrative_en'', PyStr (lit ''Each struct represents a phase of API '' @
        lit ''evolution. V1 is the original contract '' @
        lit ''compliant. Breaking is an example of '' @
        lit ''contract deformation that must be caught. '' @
        lit ''V2 is the legitimate evolution direction '' @ [0x2014] @
        lit '' field rename and type mutation are '' @
        lit ''accepted because the new V2 consumer has '' @ lit ''already adapted.'')),
    (''mental_model'', PyStr (lit ''DTO struct tags define serialization '' @
        lit ''behavior; contract testing validates the '' @
        lit ''serialized output against expectations.'')),
    (''source_path'', PyStr (lit ''internal/model/order.go:1-53'')),
    (''slide_num'', PyStr (lit ''19 / 24'')),
    (''layout'', PyStr (lit ''detail''))]\<rparr>\<close>

definition lab26_items_20 :: pyval where [lab26_contents]:
  \<open>lab26_items_20 =
   PyList
   [PyDict
     [(''type'', PyStr (lit ''cards'')),
      (''title'', PyStr (lit ''CDC IMPLEMENTATION CHECKLIST'')),
      (''items'', PyList
        [PyDict
          [(''item'', PyStr (lit ''Definisikan kontrak minimal'')),
           (''desc'', PyStr (lit ''Consumer hanya mendeklarasikan field yang '' @
               lit ''benar-benar digunakan '' @ [0x2014] @ lit '' jangan over-specify.''))],
         PyDict
          [(''item'', PyStr (lit ''Sertakan HTTP semantik'')),
           (''desc'', PyStr (lit ''Kontrak mencakup method, path, status, '' @
               lit ''header, body dengan tipe dan casing eksak.''))],
         PyDict
          [(''item'', PyStr (lit ''Jalankan verifikasi di CI'')),
           (''desc'', PyStr (lit ''Provider CI harus menjalankan verifier '' @ lit ''sebelum merge '' @
               [0x2014] @ lit '' pass = boleh deploy, fail = blokir.''))],
         PyDict
          [(''item'', PyStr (lit ''Gunakan expand/contract pattern'')),
           (''desc'', PyStr (lit ''Breaking change: tambah field baru dulu, '' @
               lit ''migrasi consumer, baru hapus field lama.''))],
         PyDict
          [(''item'', PyStr (lit ''Pertahankan dual routing'')),
           (''desc'', PyStr (lit ''V1 tetap compliant sambil V2 diperkenalkan '' @
               lit ''untuk consumer yang bermigrasi.''))],
         PyDict
          [(''item'', PyStr (lit ''Hindari over-specification'')),
           (''desc'', PyStr (lit ''Jangan uji aturan validasi bisnis (max 20 '' @
               lit ''chars) di kontrak '' @ [0x2014] @ lit '' fokus pada format pesan.''))]])]]\<close>

definition lab26_slide_20 :: pycall where [lab26_slides]:
  \<open>lab26_slide_20 =
   \<lparr>posargs = [],
  kwargs =
   [(''categories'', PyList
      [PyStr (lit ''IMPLEMENTATION''),
       PyStr (lit ''CHECKLIST'')]),
    (''title'', PyStr (lit ''Checklist Implementasi Contract Testing '' @ lit ''yang Benar'')),
    (''subtitle'', PyStr (lit ''Panduan praktis untuk adopsi CDC di tim '' @ lit ''engineering.'')),
    (''content_items'', lab26_items_20),
    (''narrative'', PyStr (lit ''Checklist ini merangkum praktik terbaik '' @
        lit ''contract testing. Poin terpenting: kontrak '' @
        lit ''harus minimal dan berfokus pada field yang '' @
        lit ''digunakan consumer. Over-specification '' @
        lit ''adalah anti-pattern utama yang membuat '' @
        lit ''kontrak terlalu rapuh dan menghambat '' @ lit ''evolusi provider.'')),
    (''narrative_en'', PyStr (lit ''This checklist summarizes best practices '' @
        lit ''for contract testing. The most important '' @
        lit ''point: contracts must be minimal and '' @
        lit ''focused on fields used by the consumer. '' @
        lit ''Over-specification is the primary '' @
        lit ''anti-pattern that makes contracts too '' @
        lit ''brittle and hinders provider evolution.'')),
    (''mental_model'', PyStr (lit ''Minimal contract, CI gate enforcement, and '' @
        lit ''expand/contract pattern are the three '' @ lit ''non-negotiables.'')),
    (''source_path'', PyStr (lit ''content/05-key-takeaways.md:1-20'')),
    (''slide_num'', PyStr (lit ''20 / 24'')),
    (''layout'', PyStr (lit ''cards''))]\<rparr>\<close>

definition lab26_items_21 :: pyval where [lab26_contents]:
  \<open>lab26_items_21 =
   PyList
   [PyDict
     [(''type'', PyStr (lit ''detail'')),
      (''title'', PyStr (lit ''ANTI-PATTERNS & REPRODUCTION'')),
      (''items'', PyList
        [PyDict
          [(''anti'', PyStr (lit ''Over-specification'')),
           (''repro'', PyStr (lit ''Tambahkan field validasi bisnis (e.g., '' @ [39] @
               lit ''username max 20 chars'' @ [39] @
               lit '') ke kontrak. Provider yang melonggarkan '' @
               lit ''validasi akan pecah kontrak tanpa dampak '' @ lit ''consumer.''))],
         PyDict
          [(''anti'', PyStr (lit ''Tidak bedakan additive vs breaking'')),
           (''repro'', PyStr (lit ''Ubah total dari int jadi string tanpa '' @
               lit ''update kontrak. Verifier harus gagal '' @ [0x2014] @
               lit '' jika lolos, matcher terlalu longgar.''))],
         PyDict
          [(''anti'', PyStr (lit ''Kontrak terlalu ketat'')),
           (''repro'', PyStr (lit ''Deklarasikan semua field response (termasuk '' @
               lit ''notes, created_at) sebagai required. '' @
               lit ''Provider tambah field baru akan fail.''))],
         PyDict
          [(''anti'', PyStr (lit ''JSON Schema saja'')),
           (''repro'', PyStr (lit ''Ganti diffValues dengan validator JSON '' @
               lit ''Schema. Casing enum IN_PROGRESS vs '' @
               lit ''in_progress akan lolos Schema valid.''))],
         PyDict
          [(''anti'', PyStr (lit ''Contract testing menggantikan unit test'')),
           (''repro'', PyStr (lit ''Hapus semua unit test internal, hanya '' @
               lit ''jalankan contract test. Logika bisnis tidak '' @ lit ''terverifikasi.''))]])]]\<close>

definition lab26_slide_21 :: pycall where [lab26_slides]:
  \<open>lab26_slide_21 =
   \<lparr>posargs = [],
  kwargs =
   [(''categories'', PyList
      [PyStr (lit ''ANTI-PATTERN''),
       PyStr (lit ''REPRODUCTION'')]),
    (''title'', PyStr (lit ''Lima Anti-Pattern Contract Testing dan Cara '' @ lit ''Reproduksi'')),
    (''subtitle'', PyStr (lit ''Setiap anti-pattern dapat direproduksi '' @
        lit ''dengan modifikasi kontrak atau provider.'')),
    (''content_items'', lab26_items_21),
    (''narrative'', PyStr (lit ''Kelima anti-pattern ini umum terjadi saat '' @
        lit ''tim baru mengadopsi contract testing. '' @
        lit ''Over-specification adalah yang paling '' @
        lit ''berbahaya karena membuat kontrak terlalu '' @
        lit ''kaku. JSON Schema alone tidak cukup karena '' @
        lit ''tidak menangkap semantik tipe seperti '' @ lit ''integer vs string numerik.'')),
    (''narrative_en'', PyStr (lit ''These five anti-patterns commonly occur '' @
        lit ''when teams first adopt contract testing. '' @
        lit ''Over-specification is the most dangerous '' @
        lit ''because it makes contracts too rigid. JSON '' @
        lit ''Schema alone is insufficient because it '' @
        lit ''cannot capture type semantics like integer '' @
        lit ''versus string numerics.'')),
    (''mental_model'', PyStr (lit ''Anti-patterns arise from misunderstanding '' @
        lit ''contract scope; specificity must match '' @ lit ''actual consumer usage.'')),
    (''source_path'', PyStr (lit ''content/02-master-draft.md:207-214'')),
    (''slide_num'', PyStr (lit ''21 / 24'')),
    (''layout'', PyStr (lit ''detail''))]\<rparr>\<close>

definition lab26_items_22 :: pyval where [lab26_contents]:
  \<open>lab26_items_22 =
   PyList
   [PyDict
     [(''type'', PyStr (lit ''code'')),
      (''title'', PyStr (lit ''COMMAND RUNNER (PURE GO STANDARD LIBRARY)'')),
      (''items'', PyList
        [PyStr (lit ''# 1. Jalankan seluruh test suite dengan '' @ lit ''verbose''),
         PyStr (lit ''go test -v ./...''),
         PyStr (lit ''#''),
         PyStr (lit ''# 2. Jalankan race detector untuk '' @ lit ''verifikasi thread-safety''),
         PyStr (lit ''go test -race ./...''),
         PyStr (lit ''#''),
         PyStr (lit ''# 3. Eksekusi demo 4 stage (generate -> V1 '' @
            lit ''pass -> breaking blocked -> dual pass)''),
         PyStr (lit ''go run ./cmd/demo''),
         PyStr (lit ''#''),
         PyStr (lit ''# 4. Build binary untuk environment produksi''),
         PyStr (lit ''go build -o bin/contract-demo ./cmd/demo'')])]]\<close>

definition lab26_slide_22 :: pycall where [lab26_slides]:
  \<open>lab26_slide_22 =
   \<lparr>posargs = [],
  kwargs =
   [(''categories'', PyList
      [PyStr (lit ''PRACTICAL''),
       PyStr (lit ''COMMANDS'')]),
    (''title'', PyStr (lit ''Reproduksi Mandiri: Validasi Full Pipeline '' @ lit ''di Lokal'')),
    (''subtitle'', PyStr (lit ''Semua tahap demo dapat dijalankan dengan '' @
        lit ''command sederhana tanpa dependensi '' @ lit ''eksternal.'')),
    (''content_items'', lab26_items_22),
    (''narrative'', PyStr (lit ''Semua command di atas berjalan di Go '' @
        lit ''standard library tanpa dependensi '' @
        lit ''eksternal. Race detector mengonfirmasi '' @
        lit ''thread-safety concurrent verification. Demo '' @
        lit ''4 stage memberikan bukti visual yang dapat '' @
        lit ''direproduksi di mesin manapun.'')),
    (''narrative_en'', PyStr (lit ''All commands above run on Go standard '' @
        lit ''library with zero external dependencies. '' @
        lit ''The race detector confirms thread-safety of '' @
        lit ''concurrent verification. The 4-stage demo '' @
        lit ''provides reproducible visual evidence on '' @ lit ''any machine.'')),
    (''mental_model'', PyStr (lit ''Zero-dependency local verification '' @
        lit ''guarantees fast, repeatable validation '' @
        lit ''across developer workflows.'')),
    (''source_path'', PyStr (lit ''README.md:30-48'')),
    (''slide_num'', PyStr (lit ''22 / 24'')),
    (''layout'', PyStr (lit ''code''))]\<rparr>\<close>

definition lab26_items_23 :: pyval where [lab26_contents]:
  \<open>lab26_items_23 =
   PyList
   [PyDict
     [(''type'', PyStr (lit ''cards'')),
      (''title'', PyStr (lit ''TIGA PRINSIP ARSITEKTUR JANGKA PANJANG'')),
      (''items'', PyList
        [PyDict
          [(''title'', PyStr (lit ''Consumer Drives the Contract'')),
           (''desc'', PyStr (lit ''Consumer yang menentukan ekspektasi minimal '' @ [0x2014] @
               lit '' bukan provider yang mendokumentasikan '' @
               lit ''capability. Ini memastikan kontrak relevan '' @
               lit ''dengan kebutuhan riil.''))],
         PyDict
          [(''title'', PyStr (lit ''Gate Before Deploy'')),
           (''desc'', PyStr (lit ''Verifikasi kontrak harus berjalan di CI '' @
               lit ''sebelum merge. Tidak otomatis berarti semua '' @
               lit ''kasus tercover, tetapi mengurangi risiko '' @
               lit ''production outage secara signifikan.''))],
         PyDict
          [(''title'', PyStr (lit ''Dual Routing for Migration'')),
           (''desc'', PyStr (lit ''Pertahankan V1 compliant sambil '' @
               lit ''memperkenalkan V2. Consumer bermigrasi '' @
               lit ''sesuai ritme masing-masing tanpa tekanan '' @ lit ''breaking change.''))]])]]\<close>

definition lab26_slide_23 :: pycall where [lab26_slides]:
  \<open>lab26_slide_23 =
   \<lparr>posargs = [],
  kwargs =
   [(''categories'', PyList
      [PyStr (lit ''TAKEAWAY''),
       PyStr (lit ''CORE PRINCIPLES'')]),
    (''title'', PyStr (lit ''Prinsip Inti: Kendalikan Kontrak, Evolusi '' @ lit ''dengan Aman'')),
    (''subtitle'', PyStr (lit ''Arsitektur bertahan lama ketika kontrak '' @
        lit ''divalidasi di setiap lapisan deploy.'')),
    (''content_items'', lab26_items_23),
    (''narrative'', PyStr (lit ''Prinsip pertama memastikan kontrak selalu '' @
        lit ''berpusat pada consumer '' @ [0x2014] @
        lit '' bukan dokumentasi provider yang sering '' @
        lit ''tertinggal. Prinsip kedua menempatkan gate '' @
        lit ''di titik paling kritis: sebelum kode '' @
        lit ''mencapai production. Prinsip ketiga '' @
        lit ''menyediakan mekanisme evolusi tanpa '' @ lit ''disrupti.'')),
    (''narrative_en'', PyStr (lit ''The first principle ensures contracts '' @ lit ''remain consumer-centric '' @
        [0x2014] @ lit '' not provider documentation that often '' @
        lit ''falls behind. The second principle places '' @
        lit ''the gate at the most critical point: before '' @
        lit ''code reaches production. The third '' @
        lit ''principle provides an evolution mechanism '' @ lit ''without disruption.'')),
    (''mental_model'', PyStr (lit ''Consumer-driven contracts, CI gates, and '' @
        lit ''dual routing form the triad of sustainable '' @ lit ''API evolution.'')),
    (''source_path'', PyStr (lit ''content/05-key-takeaways.md:1-10'')),
    (''slide_num'', PyStr (lit ''23 / 24'')),
    (''layout'', PyStr (lit ''cards''))]\<rparr>\<close>

definition lab26_items_24 :: pyval where [lab26_contents]:
  \<open>lab26_items_24 =
   PyList
   [PyDict
     [(''type'', PyStr (lit ''bullet'')),
      (''title'', PyStr (lit ''MODUL IMPLEMENTASI'')),
      (''items'', PyList
        [PyStr (lit ''internal/consumer/client.go '' @ [0x2014] @
            lit '' MobileOrderClient & '' @ lit ''GenerateMobileContract()''),
         PyStr (lit ''internal/contract/verifier.go '' @ [0x2014] @
            lit '' Verifier.Verify() & diffValues()''),
         PyStr (lit ''internal/model/order.go '' @ [0x2014] @
            lit '' OrderResponseV1/Breaking/V2 DTOs''),
         PyStr (lit ''internal/provider/server.go '' @ [0x2014] @
            lit '' ProviderV1/Breaking/Dual handlers''),
         PyStr (lit ''cmd/demo/main.go '' @ [0x2014] @ lit '' 4-stage demo orchestrator''),
         PyStr (lit ''tests/contract_test.go '' @ [0x2014] @ lit '' 7 test cases'')])],
    PyDict
     [(''type'', PyStr (lit ''bullet'')),
      (''title'', PyStr (lit ''VERIFIKASI & STATUS'')),
      (''items'', PyList
        [PyStr (lit ''Commit: '' @ lab26_COMMIT_SHA @ lit '' '' @ [0x2022] @
            lit '' Status: APPROVED''),
         PyStr (lit ''Test passing: 7 unit tests (generation, V1 '' @
            lit ''pass, breaking fail, dual pass, concurrent, '' @
            lit ''header validation, V2 assertion)''),
         PyStr (lit ''Race detector: Clean (go test -race ./... '' @ lit ''PASS in 1.425s)''),
         PyStr (lit ''Demo: 4-stage executeable (generate '' @ [0x2192] @ lit '' V1 pass '' @
            [0x2192] @ lit '' breaking blocked '' @ [0x2192] @ lit '' dual pass)'')])]]\<close>

definition lab26_slide_24 :: pycall where [lab26_slides]:
  \<open>lab26_slide_24 =
   \<lparr>posargs = [],
  kwargs =
   [(''categories'', PyList
      [PyStr (lit ''CLOSING'')]),
    (''title'', PyStr (lit ''Sistem tanpa contract testing adalah sistem '' @
        lit ''yang menunda kegagalan integrasi '' @ lit ''produksinya sendiri.'')),
    (''subtitle'', PyStr []),
    (''content_items'', lab26_items_24),
    (''mental_model'', PyStr (lit ''A system without contract testing is merely '' @
        lit ''delaying its inevitable integration failure.'')),
    (''source_path'', PyStr lab26_REPO_URL),
    (''slide_num'', PyStr (lit ''24 / 24'')),
    (''layout'', PyStr (lit ''closing''))]\<rparr>\<close>

definition lab26_calls :: "pycall list" where
  "lab26_calls =
    [lab26_slide_01, lab26_slide_02, lab26_slide_03, lab26_slide_04, lab26_slide_05,
     lab26_slide_06, lab26_slide_07, lab26_slide_08, lab26_slide_09, lab26_slide_10,
     lab26_slide_11, lab26_slide_12, lab26_slide_13, lab26_slide_14, lab26_slide_15,
     lab26_slide_16, lab26_slide_17, lab26_slide_18, lab26_slide_19, lab26_slide_20,
     lab26_slide_21, lab26_slide_22, lab26_slide_23, lab26_slide_24]"

definition lab26_deck :: deck where
  "lab26_deck =
    \<lparr>add_slide = lab26_add_slide, lab_no = lab26_LAB_NO, title_id = lab26_TITLE_ID, calls = lab26_calls\<rparr>"

section \<open>Checks of the calls\<close>

lemma lab26_shapes:
  "\<forall>c \<in> set lab26_calls. shape_of c \<in> set
    [(0, [''categories'', ''title'', ''subtitle'', ''content_items'', ''mental_model'',
      ''source_path'', ''slide_num'', ''layout'']),
     (0, [''categories'', ''title'', ''subtitle'', ''content_items'', ''narrative'',
      ''narrative_en'', ''mental_model'', ''source_path'', ''slide_num'', ''layout''])]"
  by (simp only: lab26_calls_def lab26_slides shape_eval cong: pyval_opaque)

lemma lab26_calls_ok: "\<forall>c \<in> set lab26_calls. call_ok sig_layout c"
  by (rule calls_ok_by_shapes [OF lab26_shapes])
    (simp add: shape_ok_def param_names_def signature_defs core_params_def)

lemma lab26_labels: "map (\<lambda>c. value_of sig_layout c ''slide_num'') lab26_calls = labels_24"
  by (simp only: lab26_calls_def lab26_slides keyword_eval labels_24_eval cong: pyval_opaque)

lemma lab26_contents_of:
  "map (\<lambda>c. value_of sig_layout c ''content_items'') lab26_calls =
    [lab26_items_01, lab26_items_02, lab26_items_03, lab26_items_04, lab26_items_05,
     lab26_items_06, lab26_items_07, lab26_items_08, lab26_items_09, lab26_items_10,
     lab26_items_11, lab26_items_12, lab26_items_13, lab26_items_14, lab26_items_15,
     lab26_items_16, lab26_items_17, lab26_items_18, lab26_items_19, lab26_items_20,
     lab26_items_21, lab26_items_22, lab26_items_23, lab26_items_24]"
  by (simp only: lab26_calls_def lab26_slides keyword_eval cong: pyval_opaque)

lemma lab26_items: "item_defects sig_layout lab26_calls = [(5, 1), (7, 1), (8, 1), (11, 1), (13, 1), (14, 1), (15, 1), (18, 1), (19, 1), (20, 1), (21, 1)]"
  by (simp only: item_defects_def lab26_contents_of)
    (simp add: lab26_contents item_eval cong: pystr_opaque)

end
