(* ===== verification/Deck27.thy ===== *)
theory Deck27
  imports DeckContract
begin

text \<open>
  The publication definition of lab 27, \<^verbatim>\<open>labs/27-database-constraints/result/content_def.py\<close>:
  its module constants, every \<open>add_slide\<close> call in order (\<open>lab27_slide_01\<close> is the first),
  and the module as a whole (\<open>lab27_deck\<close>). Long strings are split into pieces that are
  concatenated; a character outside ASCII is its code point.
\<close>

named_theorems lab27_slides \<open>the add_slide calls of lab 27\<close>
named_theorems lab27_contents \<open>their content_items arguments\<close>

definition lab27_OUTPUT_DIR :: pystr where
  \<open>lab27_OUTPUT_DIR = lit ''labs/27-database-constraints/result''\<close>

definition lab27_CHROME_BIN :: pystr where
  \<open>lab27_CHROME_BIN = lit ''/Applications/Google '' @ lit ''Chrome.app/Contents/MacOS/Google Chrome''\<close>

definition lab27_REPO_URL :: pystr where
  \<open>lab27_REPO_URL = lit ''https://github.com/lukman-ss/software-engine'' @
    lit ''ering-lab/tree/main/labs/27-database-constra'' @ lit ''ints''\<close>

definition lab27_COMMIT_SHA :: pystr where
  \<open>lab27_COMMIT_SHA = lit ''c317c1d''\<close>

definition lab27_LAB_NO :: pystr where
  \<open>lab27_LAB_NO = lit ''27''\<close>

definition lab27_SLUG :: pystr where
  \<open>lab27_SLUG = lit ''database-constraints''\<close>

definition lab27_TITLE_ID :: pystr where
  \<open>lab27_TITLE_ID = lit ''Database Constraints: Benteng Terakhir '' @ lit ''Integritas Data''\<close>

definition lab27_SUBTITLE_ID :: pystr where
  \<open>lab27_SUBTITLE_ID = lit ''Mencegah Race Condition, Menjaga Invarian '' @
    lit ''Skema, dan Menolak Duplikasi Atomik di Go''\<close>

definition lab27_TITLE_EN :: pystr where
  \<open>lab27_TITLE_EN = lit ''Database Constraints: The Last Line of Data '' @ lit ''Integrity''\<close>

definition lab27_SUBTITLE_EN :: pystr where
  \<open>lab27_SUBTITLE_EN = lit ''Preventing Race Conditions, Enforcing '' @
    lit ''Schema Invariants, and Rejecting Duplicates '' @ lit ''Atomically in Go''\<close>

definition lab27_AUTHOR :: pystr where
  \<open>lab27_AUTHOR = lit ''Lukman / lukman-ss''\<close>

definition lab27_TOPIC_TAGS :: pystr where
  \<open>lab27_TOPIC_TAGS = lit ''Database Constraints '' @ [0x2022] @ lit '' Data Integrity '' @ [0x2022] @
    lit '' Concurrency '' @ [0x2022] @ lit '' SQLSTATE '' @ [0x2022] @
    lit '' Partial Index '' @ [0x2022] @ lit '' Go''\<close>

definition lab27_COVER_IMAGE_PATH :: pystr where
  \<open>lab27_COVER_IMAGE_PATH = lit ''labs/27-database-constraints/result/image-co'' @ lit ''ver/cover_art.jpg''\<close>

definition lab27_add_slide :: "pycall \<Rightarrow> pyval list \<Rightarrow> (pyexc, pyval list) res" where
  "lab27_add_slide = add_slide_layout"

definition lab27_items_01 :: pyval where [lab27_contents]:
  \<open>lab27_items_01 =
   PyList
   [PyDict
     [(''type'', PyStr (lit ''cover'')),
      (''title'', PyStr []),
      (''items'', PyList
        [PyStr (lit ''Retro Terminal Visualizing Schema '' @
            lit ''Invariants, SQLSTATE Taxonomy & Atomic Locks''),
         PyStr (lit ''Simulasi Relasional In-Memory dengan 50 '' @
            lit ''Goroutines Konkuren dan Error Mapping di Go''),
         PyStr (lit ''Penulis: '' @ lab27_AUTHOR)])]]\<close>

definition lab27_slide_01 :: pycall where [lab27_slides]:
  \<open>lab27_slide_01 =
   \<lparr>posargs = [],
  kwargs =
   [(''categories'', PyList
      [PyStr (lit ''COVER'')]),
    (''title'', PyStr lab27_TITLE_ID),
    (''subtitle'', PyStr lab27_SUBTITLE_ID),
    (''content_items'', lab27_items_01),
    (''mental_model'', PyStr (lit ''Database constraints provide declarative, '' @
        lit ''ACID-guaranteed enforcement that eliminates '' @
        lit ''check-then-act vulnerabilities.'')),
    (''source_path'', PyStr lab27_REPO_URL),
    (''slide_num'', PyStr (lit ''01 / 24'')),
    (''narrative'', PyStr (lit ''Banyak sistem backend mempercayakan '' @
        lit ''integritas data sepenuhnya pada kode '' @
        lit ''aplikasi. Ketika beban konkuren melonjak, '' @
        lit ''pola validasi naif membiarkan data duplikat '' @
        lit ''dan relasi yatim piatu lolos ke '' @
        lit ''penyimpanan. Lab ini membuktikan secara '' @
        lit ''empiris bagaimana database constraints '' @
        lit ''bertindak sebagai benteng pertahanan '' @
        lit ''terakhir yang atomik dan tak tertembus.'')),
    (''narrative_en'', PyStr (lit ''Many backend architectures delegate data '' @
        lit ''integrity entirely to application code. '' @
        lit ''Under concurrent load, naive validation '' @
        lit ''lets duplicate records and orphaned '' @
        lit ''relations slip into persistent storage. '' @
        lit ''This lab empirically demonstrates how '' @
        lit ''database constraints act as the '' @
        lit ''unbreachable, atomic last line of defense.'')),
    (''layout'', PyStr (lit ''cover''))]\<rparr>\<close>

definition lab27_items_02 :: pyval where [lab27_contents]:
  \<open>lab27_items_02 =
   PyList
   [PyDict
     [(''type'', PyStr (lit ''cards'')),
      (''title'', PyStr (lit ''DAMPAK KEGAGALAN VALIDASI HANYA DI APLIKASI'')),
      (''items'', PyList
        [PyDict
          [(''title'', PyStr (lit ''Race Condition Registrasi'')),
           (''desc'', PyStr (lit ''Dua request membaca '' @ [39] @ lit ''email belum ada'' @ [39] @
               lit '' secara bersamaan, lalu keduanya melakukan '' @
               lit ''INSERT email identik.''))],
         PyDict
          [(''title'', PyStr (lit ''Deduplikasi Pasca-Fakta Mahal'')),
           (''desc'', PyStr (lit ''Membersihkan data duplikat di produksi '' @
               lit ''membutuhkan rekonsiliasi manual, migration '' @
               lit ''rumit, dan downtime.''))],
         PyDict
          [(''title'', PyStr (lit ''Bukan Berarti Bug Kode'')),
           (''desc'', PyStr (lit ''Kegagalan ini bukan berarti logika if/else '' @
               lit ''salah, melainkan batasan fundamental '' @
               lit ''arsitektur tanpa penguncian atomik.''))]])]]\<close>

definition lab27_slide_02 :: pycall where [lab27_slides]:
  \<open>lab27_slide_02 =
   \<lparr>posargs = [],
  kwargs =
   [(''categories'', PyList
      [PyStr (lit ''PROBLEM''),
       PyStr (lit ''DATA INTEGRITY HAZARD'')]),
    (''title'', PyStr (lit ''Validasi Aplikasi Runtuh di Bawah Beban '' @ lit ''Konkuren'')),
    (''subtitle'', PyStr (lit ''Pola check-then-act di memori aplikasi '' @
        lit ''membuka jendela tabrakan data duplikat.'')),
    (''content_items'', lab27_items_02),
    (''narrative'', PyStr (lit ''Pola check-then-act yang memeriksa '' @
        lit ''ketersediaan data via SELECT sebelum '' @
        lit ''melakukan INSERT selalu tampak berhasil '' @
        lit ''pada pengujian sekuensial. Namun di bawah '' @
        lit ''beban konkuren, dua thread membaca kondisi '' @
        lit ''yang sama sebelum salah satunya menulis. '' @
        lit ''Kegagalan ini bukan berarti kode if-check '' @
        lit ''rusak, melainkan akibat ketiadaan isolasi '' @
        lit ''atomik pada titik penyimpanan.'')),
    (''narrative_en'', PyStr (lit ''The check-then-act pattern inspecting '' @
        lit ''records via SELECT before issuing an INSERT '' @
        lit ''invariably succeeds in sequential testing. '' @
        lit ''Under concurrent traffic, however, two '' @
        lit ''threads observe the same pre-write state '' @
        lit ''before either commits. This failure does '' @
        lit ''not stem from faulty conditional logic, but '' @
        lit ''from lacking atomic isolation at the '' @ lit ''persistence tier.'')),
    (''mental_model'', PyStr (lit ''Application-level checks cannot bridge the '' @
        lit ''race window between read and write '' @ lit ''operations under concurrency.'')),
    (''source_path'', PyStr (lit ''content/02-master-draft.md:3-24'')),
    (''slide_num'', PyStr (lit ''02 / 24'')),
    (''layout'', PyStr (lit ''cards''))]\<rparr>\<close>

definition lab27_items_03 :: pyval where [lab27_contents]:
  \<open>lab27_items_03 =
   PyList
   [PyDict
     [(''type'', PyStr (lit ''cards'')),
      (''title'', PyStr (lit ''KELEMAHAN PENDEKATAN VALIDASI NAIF'')),
      (''items'', PyList
        [PyDict
          [(''title'', PyStr (lit ''Interleaving CPU Scheduling'')),
           (''desc'', PyStr (lit ''Jeda milidetik antara query SELECT dan '' @
               lit ''INSERT dieksploitasi oleh OS scheduler '' @
               lit ''untuk menyisipkan operasi lain.''))],
         PyDict
          [(''title'', PyStr (lit ''Unit Test Sekuensial Menipu'')),
           (''desc'', PyStr (lit ''Test standar tanpa konkurensi goroutine '' @
               lit ''selalu pass 100%, menciptakan ilusi '' @
               lit ''keamanan palsu bagi tim engineer.''))],
         PyDict
          [(''title'', PyStr (lit ''Tidak Otomatis Terlindungi'')),
           (''desc'', PyStr (lit ''Menjalankan validasi di microservice '' @
               lit ''terpisah tidak otomatis menjamin keunikan '' @
               lit ''tanpa koordinasi locking atomik.''))]])]]\<close>

definition lab27_slide_03 :: pycall where [lab27_slides]:
  \<open>lab27_slide_03 =
   \<lparr>posargs = [],
  kwargs =
   [(''categories'', PyList
      [PyStr (lit ''WHY FAILS''),
       PyStr (lit ''CONCURRENCY ANOMALY'')]),
    (''title'', PyStr (lit ''Mengapa Review Manual dan Pengecekan Memori '' @ lit ''Gagal?'')),
    (''subtitle'', PyStr (lit ''Pemeriksaan memori tanpa proteksi engine '' @
        lit ''database tidak mampu menahan beban paralel.'')),
    (''content_items'', lab27_items_03),
    (''narrative'', PyStr (lit ''Review manual sering melewatkan celah '' @
        lit ''integritas karena kode validasi tampak '' @
        lit ''sangat rapi dan logis di editor. Unit test '' @
        lit ''sekuensial selalu memberikan status hijau '' @
        lit ''karena tidak ada kompetisi thread. '' @
        lit ''Menjalankan validasi di lapisan aplikasi '' @
        lit ''tidak otomatis melindungi sistem jika '' @
        lit ''engine penyimpanan tidak menegakkan kunci '' @
        lit ''eksklusif pada saat penulisan.'')),
    (''narrative_en'', PyStr (lit ''Code reviews routinely miss integrity '' @
        lit ''vulnerabilities because application-level '' @
        lit ''checks appear impeccably structured on '' @
        lit ''screen. Sequential unit tests pass '' @
        lit ''reliably, fostering false confidence across '' @
        lit ''engineering teams. Running validations '' @
        lit ''purely in application services does not '' @
        lit ''automatically ensure integrity without '' @
        lit ''atomic database constraints.'')),
    (''mental_model'', PyStr (lit ''Sequential testing creates an illusion of '' @
        lit ''correctness that shatters under concurrent '' @ lit ''thread interleaving.'')),
    (''source_path'', PyStr (lit ''content/02-master-draft.md:15-37'')),
    (''slide_num'', PyStr (lit ''03 / 24'')),
    (''layout'', PyStr (lit ''cards''))]\<rparr>\<close>

definition lab27_items_04 :: pyval where [lab27_contents]:
  \<open>lab27_items_04 =
   PyList
   [PyDict
     [(''type'', PyStr (lit ''schema'')),
      (''title'', PyStr (lit ''ARSITEKTUR PERTAHANAN DUA LAPIS'')),
      (''items'', PyList
        [PyDict
          [(''phase'', PyStr (lit ''Lapis 1: Application Validation'')),
           (''role'', PyStr (lit ''User Experience (UX)'')),
           (''desc'', PyStr (lit ''Memberikan pesan error ramah, validasi '' @
               lit ''format cepat, dan sanitasi input sebelum '' @
               lit ''request menyentuh database.''))],
         PyDict
          [(''phase'', PyStr (lit ''Lapis 2: Database Constraints'')),
           (''role'', PyStr (lit ''Last Line of Truth'')),
           (''desc'', PyStr (lit ''Menjamin invarian skema secara deklaratif '' @
               lit ''dan atomik dengan lock internal engine saat '' @
               lit ''baris data ditulis.''))],
         PyDict
          [(''phase'', PyStr (lit ''Jembatan: Error Mapping'')),
           (''role'', PyStr (lit ''SQLSTATE Taxonomy'')),
           (''desc'', PyStr (lit ''Hanya pada jalur ini error database 23xxx '' @
               lit ''diterjemahkan menjadi domain error '' @
               lit ''terstruktur seperti HTTP 409 Conflict.''))]])]]\<close>

definition lab27_slide_04 :: pycall where [lab27_slides]:
  \<open>lab27_slide_04 =
   \<lparr>posargs = [],
  kwargs =
   [(''categories'', PyList
      [PyStr (lit ''MENTAL MODEL''),
       PyStr (lit ''DEFENSE IN DEPTH'')]),
    (''title'', PyStr (lit ''Model Mental Dua Lapis: Kolaborasi Aplikasi '' @ lit ''dan Database'')),
    (''subtitle'', PyStr (lit ''Memisahkan peran kenyamanan pengguna (UX) '' @
        lit ''dari jaminan kebenaran data mutlak.'')),
    (''content_items'', lab27_items_04),
    (''narrative'', PyStr (lit ''Arsitektur modern membagi tanggung jawab '' @
        lit ''menjadi dua lapis: aplikasi melayani '' @
        lit ''keramahan pesan pengguna, sedangkan '' @
        lit ''database menjaga kebenaran data absolut. '' @
        lit ''Validasi aplikasi menyaring input yang '' @
        lit ''salah format dengan cepat. Hanya pada jalur '' @
        lit ''ini, ketika terjadi tabrakan konkuren, '' @
        lit ''database constraint menolak pelanggaran '' @
        lit ''secara atomik dan mengembalikan kode '' @ lit ''SQLSTATE terstandar.'')),
    (''narrative_en'', PyStr (lit ''Modern software architectures divide '' @
        lit ''integrity responsibilities into two layers: '' @
        lit ''the application handles user experience, '' @
        lit ''while the database guarantees absolute '' @
        lit ''correctness. Application validation filters '' @
        lit ''invalid formats swiftly. Only along this '' @
        lit ''path, when concurrent collisions occur, '' @
        lit ''does the database reject violations '' @
        lit ''atomically with standard SQLSTATE codes.'')),
    (''mental_model'', PyStr (lit ''Application validation provides '' @
        lit ''user-friendly guidance; database '' @
        lit ''constraints provide inviolable invariant '' @ lit ''enforcement.'')),
    (''source_path'', PyStr (lit ''content/02-master-draft.md:25-37'')),
    (''slide_num'', PyStr (lit ''04 / 24'')),
    (''layout'', PyStr (lit ''schema''))]\<rparr>\<close>

definition lab27_items_05 :: pyval where [lab27_contents]:
  \<open>lab27_items_05 =
   PyList
   [PyDict
     [(''type'', PyStr (lit ''schema'')),
      (''title'', PyStr (lit ''TAHAPAN EVALUASI CONSTRAINT PADA OPERASI '' @ lit ''INSERT'')),
      (''items'', PyList
        [PyDict
          [(''phase'', PyStr (lit ''1. NOT NULL (23502)'')),
           (''role'', PyStr (lit ''Column Scope'')),
           (''desc'', PyStr (lit ''Memeriksa kekosongan nilai field wajib; '' @
               lit ''gagal seketika jika kolom mandatori kosong.''))],
         PyDict
          [(''phase'', PyStr (lit ''2. CHECK (23514)'')),
           (''role'', PyStr (lit ''Predicate Scope'')),
           (''desc'', PyStr (lit ''Mengevaluasi ekspresi boolean pada baris '' @
               lit ''(misalnya age >= 18 atau status valid).''))],
         PyDict
          [(''phase'', PyStr (lit ''3. UNIQUE / PARTIAL (23505)'')),
           (''role'', PyStr (lit ''Index Scope'')),
           (''desc'', PyStr (lit ''Memeriksa tabrakan nilai pada B-tree index '' @
               lit ''aktif di bawah proteksi lock eksklusif.''))],
         PyDict
          [(''phase'', PyStr (lit ''4. FOREIGN KEY (23503)'')),
           (''role'', PyStr (lit ''Relation Scope'')),
           (''desc'', PyStr (lit ''Memverifikasi keberadaan ID induk pada '' @
               lit ''tabel referensi sebelum commit data.''))],
         PyDict
          [(''phase'', PyStr (lit ''5. ATOMIC COMMIT'')),
           (''role'', PyStr (lit ''Storage Commit'')),
           (''desc'', PyStr (lit ''Baris data dan entri index ditulis '' @
               lit ''bersamaan; belum membuktikan engine '' @ lit ''multi-node di lab ini.''))]])]]\<close>

definition lab27_slide_05 :: pycall where [lab27_slides]:
  \<open>lab27_slide_05 =
   \<lparr>posargs = [],
  kwargs =
   [(''categories'', PyList
      [PyStr (lit ''PIPELINE''),
       PyStr (lit ''EVALUATION ORDER'')]),
    (''title'', PyStr (lit ''Urutan Evaluasi Constraint: Alur Validasi '' @ lit ''Internal Mesin'')),
    (''subtitle'', PyStr (lit ''Bagaimana storage engine memproses aturan '' @
        lit ''skema secara berurutan sebelum commit baris.'')),
    (''content_items'', lab27_items_05),
    (''narrative'', PyStr (lit ''Storage engine mengevaluasi batasan data '' @
        lit ''dalam urutan deterministik: NOT NULL '' @
        lit ''diperiksa lebih dulu, disusul ekspresi '' @
        lit ''boolean CHECK, lalu penelusuran UNIQUE '' @
        lit ''index, dan terakhir FOREIGN KEY. Jika salah '' @
        lit ''satu tahap gagal, operasi dibatalkan '' @
        lit ''seketika tanpa ada baris data atau indeks '' @
        lit ''yang tertulis. Lab ini memodelkan alur '' @
        lit ''sekuensial tersebut secara atomik di dalam '' @ lit ''satu critical section.'')),
    (''narrative_en'', PyStr (lit ''The storage engine evaluates schema '' @
        lit ''constraints in a deterministic sequence: '' @
        lit ''NOT NULL runs first, followed by CHECK '' @
        lit ''boolean expressions, UNIQUE index scans, '' @
        lit ''and FOREIGN KEY verification. If any check '' @
        lit ''fails, execution aborts immediately without '' @
        lit ''mutating tables or indexes. This lab models '' @
        lit ''this sequential evaluation atomically '' @
        lit ''within a unified critical section.'')),
    (''mental_model'', PyStr (lit ''Deterministic constraint pipelines reject '' @
        lit ''violations early, guaranteeing zero partial '' @
        lit ''writes upon schema conflicts.'')),
    (''source_path'', PyStr (lit ''content/04-diagrams.md:69-95'')),
    (''slide_num'', PyStr (lit ''05 / 24'')),
    (''layout'', PyStr (lit ''schema''))]\<rparr>\<close>

definition lab27_items_06 :: pyval where [lab27_contents]:
  \<open>lab27_items_06 =
   PyList
   [PyDict
     [(''type'', PyStr (lit ''code'')),
      (''title'', PyStr (lit ''internal/engine/engine.go'')),
      (''items'', PyList
        [PyStr (lit ''func (e *Engine) InsertUser(u model.User, '' @
            lit ''usePartial bool) (model.User, error) {''),
         PyStr (lit ''    e.mu.Lock()''),
         PyStr (lit ''    defer e.mu.Unlock()''),
         PyStr (lit ''    if u.Email == "" { return model.User{}, '' @
            lit ''dberr.NewNotNullViolation("users", "email", '' @
            lit ''"users_email_not_null") }''),
         PyStr (lit ''    if u.Age < 18 { return model.User{}, '' @
            lit ''dberr.NewCheckViolation("users", '' @
            lit ''"users_age_check", "age >= 18") }''),
         PyStr (lit ''    if exists := e.emailIndex[u.Email]; '' @ lit ''exists {''),
         PyStr (lit ''        return model.User{}, '' @
            lit ''dberr.NewUniqueViolation("users", '' @
            lit ''"users_email_key", "duplicate email")''),
         PyStr (lit ''    }''),
         PyStr (lit ''    u.ID = e.userSeq.Add(1); e.users[u.ID] '' @
            lit ''= u; e.emailIndex[u.Email] = u.ID''),
         PyStr (lit ''    return u, nil''),
         PyStr (lit ''}'')])]]\<close>

definition lab27_slide_06 :: pycall where [lab27_slides]:
  \<open>lab27_slide_06 =
   \<lparr>posargs = [],
  kwargs =
   [(''categories'', PyList
      [PyStr (lit ''IMPLEMENTATION''),
       PyStr (lit ''STORAGE ENGINE'')]),
    (''title'', PyStr (lit ''Evaluasi Atomik Constraint di Bawah Mutex '' @ lit ''Lock'')),
    (''subtitle'', PyStr (lit ''Memastikan tidak ada jeda antara '' @
        lit ''pemeriksaan aturan dan penulisan baris data.'')),
    (''content_items'', lab27_items_06),
    (''narrative'', PyStr (lit ''Metode InsertUser menjalankan seluruh '' @
        lit ''pengecekan di dalam satu blok mutex lock '' @
        lit ''yang merepresentasikan ROW EXCLUSIVE lock '' @
        lit ''pada PostgreSQL. Mengunci seluruh proses '' @
        lit ''bukan berarti implementasi ini memakai '' @
        lit ''latch halaman B-tree yang kompleks, '' @
        lit ''melainkan memodelkan jaminan atomisitas '' @
        lit ''agar tidak ada goroutine lain yang dapat '' @
        lit ''menyisipkan email serupa.'')),
    (''narrative_en'', PyStr (lit ''The InsertUser method executes all '' @
        lit ''constraint checks inside an exclusive mutex '' @
        lit ''lock representing PostgreSQL'' @ [39] @
        lit ''s ROW EXCLUSIVE lock. Locking the critical '' @
        lit ''section does not mean this lab implements '' @
        lit ''low-level B-tree page latches; it cleanly '' @
        lit ''models atomic guarantees so competing '' @
        lit ''goroutines cannot insert conflicting emails.'')),
    (''mental_model'', PyStr (lit ''Encapsulating validation and mutation '' @
        lit ''within an atomic critical section '' @
        lit ''eliminates check-then-act vulnerabilities.'')),
    (''source_path'', PyStr (lit ''internal/engine/engine.go:45-99'')),
    (''slide_num'', PyStr (lit ''06 / 24'')),
    (''layout'', PyStr (lit ''code''))]\<rparr>\<close>

definition lab27_items_07 :: pyval where [lab27_contents]:
  \<open>lab27_items_07 =
   PyList
   [PyDict
     [(''type'', PyStr (lit ''cards'')),
      (''title'', PyStr (lit ''FASE TERJADINYA DUPLIKASI DATA SECARA '' @ lit ''KONKUREN'')),
      (''items'', PyList
        [PyDict
          [(''title'', PyStr (lit ''1. Pengecekan Bersamaan'')),
           (''desc'', PyStr (lit ''Goroutine A dan B sama-sama memindai tabel '' @
               lit ''dan membaca bahwa email target belum '' @ lit ''terdaftar.''))],
         PyDict
          [(''title'', PyStr (lit ''2. Jeda Penjadwalan CPU'')),
           (''desc'', PyStr (lit ''Keduanya memasuki jeda scheduling '' @
               lit ''(time.Sleep) yang membuka race window di '' @ lit ''memori aplikasi.''))],
         PyDict
          [(''title'', PyStr (lit ''3. Penulisan Ganda Sukses'')),
           (''desc'', PyStr (lit ''Goroutine A menulis row; Goroutine B '' @
               lit ''langsung menyusul menulis row dengan email '' @
               lit ''yang sama persis.''))],
         PyDict
          [(''title'', PyStr (lit ''4. Integritas Runtuh'')),
           (''desc'', PyStr (lit ''Hanya pada jalur ini tabel memuat 2 baris '' @
               lit ''dengan email sama, merusak invarian '' @ lit ''keunikan sistem.''))]])]]\<close>

definition lab27_slide_07 :: pycall where [lab27_slides]:
  \<open>lab27_slide_07 =
   \<lparr>posargs = [],
  kwargs =
   [(''categories'', PyList
      [PyStr (lit ''FAILURE PATH''),
       PyStr (lit ''RACE CONDITION'')]),
    (''title'', PyStr (lit ''Kronologi Tabrakan: Dua Goroutine pada '' @ lit ''Validasi Naif'')),
    (''subtitle'', PyStr (lit ''Langkah demi langkah runtuhnya integritas '' @
        lit ''data pada UnsafeStore tanpa constraint.'')),
    (''content_items'', lab27_items_07),
    (''narrative'', PyStr (lit ''Ketika dua goroutine mengeksekusi '' @
        lit ''UnsafeStore.RegisterUser secara paralel, '' @
        lit ''keduanya sama-sama menemukan bahwa email '' @
        lit ''belum terdaftar di database. Jeda '' @
        lit ''scheduling CPU mengekspos race window '' @
        lit ''sehingga kedua proses sama-sama melanjutkan '' @
        lit ''ke langkah INSERT. Hanya pada jalur ini '' @
        lit ''duplikasi data berhasil lolos ke '' @
        lit ''penyimpanan, membuktikan bahwa pengecekan '' @
        lit ''memori tanpa constraint tidak berdaya.'')),
    (''narrative_en'', PyStr (lit ''When two goroutines execute '' @
        lit ''UnsafeStore.RegisterUser concurrently, both '' @
        lit ''observe that the requested email does not '' @
        lit ''yet exist. CPU scheduling delays expose a '' @
        lit ''vulnerability window, prompting both '' @
        lit ''threads to issue INSERT calls. Only along '' @
        lit ''this path do duplicate records infiltrate '' @
        lit ''storage, proving memory checks without '' @ lit ''constraints are powerless.'')),
    (''mental_model'', PyStr (lit ''Uncoordinated concurrent reads before '' @
        lit ''unconstrained writes guarantee permanent '' @ lit ''data corruption.'')),
    (''source_path'', PyStr (lit ''content/04-diagrams.md:19-40'')),
    (''slide_num'', PyStr (lit ''07 / 24'')),
    (''layout'', PyStr (lit ''cards''))]\<rparr>\<close>

definition lab27_items_08 :: pyval where [lab27_contents]:
  \<open>lab27_items_08 =
   PyList
   [PyDict
     [(''title'', PyStr (lit ''PERBANDINGAN MEKANISME CONSTRAINT DATABASE'')),
      (''items'', PyList
        [PyStr (lit ''Jenis Constraint | SQLSTATE | Cakupan '' @
            lit ''Evaluasi | Pencegahan Kegagalan | HTTP '' @ lit ''Domain Mapping''),
         PyStr (lit ''NOT NULL | 23502 | Kolom Tunggal | Mencegah '' @
            lit ''record kosong tak beridentitas | 400 Bad '' @ lit ''Request''),
         PyStr (lit ''CHECK | 23514 | Kolom / Baris | Menolak '' @
            lit ''nilai di luar batas bisnis logis | 422 '' @ lit ''Unprocessable Entity''),
         PyStr (lit ''UNIQUE | 23505 | Antar Baris (Index) | '' @
            lit ''Mencegah race condition registrasi ganda | '' @ lit ''409 Conflict''),
         PyStr (lit ''FOREIGN KEY | 23503 | Lintas Tabel | '' @
            lit ''Mencegah orphan record (induk tidak ada) | '' @
            lit ''400 Reference Error''),
         PyStr (lit ''PARTIAL UNIQUE | 23505 | Baris Bersyarat | '' @
            lit ''Mengizinkan reuse email pasca soft-delete | '' @ lit ''409 Conflict'')]),
      (''type'', PyStr (lit ''table''))]]\<close>

definition lab27_slide_08 :: pycall where [lab27_slides]:
  \<open>lab27_slide_08 =
   \<lparr>posargs = [],
  kwargs =
   [(''categories'', PyList
      [PyStr (lit ''COMPARISON''),
       PyStr (lit ''ERROR TAXONOMY'')]),
    (''title'', PyStr (lit ''Matriks Taksonomi: Jenis Constraint vs '' @ lit ''Karakteristik'')),
    (''subtitle'', PyStr (lit ''Membedakan cakupan validasi, kode SQLSTATE '' @
        lit ''standar, dan mitigasi arsitektur.'')),
    (''content_items'', lab27_items_08),
    (''narrative'', PyStr (lit ''Tabel ini memetakan lima mekanisme '' @
        lit ''constraint yang diuji di dalam lab beserta '' @
        lit ''kode SQLSTATE kelas 23 standar PostgreSQL. '' @
        lit ''Masing-masing mekanisme menangani dimensi '' @
        lit ''integritas yang berbeda, mulai dari '' @
        lit ''kelengkapan kolom hingga relasi lintas '' @
        lit ''tabel. Menginspeksi kode SQLSTATE '' @
        lit ''memungkinkan backend memetakan kegagalan '' @
        lit ''teknis menjadi status HTTP yang semantik '' @ lit ''bagi klien.'')),
    (''narrative_en'', PyStr (lit ''This matrix charts the five constraint '' @
        lit ''mechanisms verified in our lab alongside '' @
        lit ''standard PostgreSQL Class 23 SQLSTATE '' @
        lit ''codes. Each mechanism addresses a distinct '' @
        lit ''integrity dimension, ranging from '' @
        lit ''single-column presence to cross-table '' @
        lit ''referential integrity. Inspecting SQLSTATE '' @
        lit ''codes enables backends to map low-level '' @
        lit ''database errors into semantic HTTP '' @ lit ''responses.'')),
    (''mental_model'', PyStr (lit ''Class 23 SQLSTATE error codes provide '' @
        lit ''unambiguous machine-readable contracts for '' @ lit ''client error mapping.'')),
    (''source_path'', PyStr (lit ''internal/dberr/errors.go:8-99'')),
    (''slide_num'', PyStr (lit ''08 / 24'')),
    (''layout'', PyStr (lit ''table''))]\<rparr>\<close>

definition lab27_items_09 :: pyval where [lab27_contents]:
  \<open>lab27_items_09 =
   PyList
   [PyDict
     [(''type'', PyStr (lit ''cards'')),
      (''title'', PyStr (lit ''HIERARKI KEPUTUSAN PENEGAKAN INTEGRITAS DATA'')),
      (''items'', PyList
        [PyDict
          [(''title'', PyStr (lit ''1. Mandatori & Predikat Baris'')),
           (''desc'', PyStr (lit ''Terapkan NOT NULL dan CHECK pada setiap '' @
               lit ''kolom yang memiliki batasan domain '' @ lit ''eksplisit.''))],
         PyDict
          [(''title'', PyStr (lit ''2. Keunikan & Pola Penghapusan'')),
           (''desc'', PyStr (lit ''Pilih UNIQUE biasa untuk entitas permanen, '' @
               lit ''atau Partial Index jika sistem menerapkan '' @ lit ''soft-delete.''))],
         PyDict
          [(''title'', PyStr (lit ''3. Integritas Relasional & Index'')),
           (''desc'', PyStr (lit ''Pasang FOREIGN KEY untuk mencegah orphan '' @
               lit ''row; bukan berarti cukup, kolom relasi '' @
               lit ''wajib di-index manual.''))]])]]\<close>

definition lab27_slide_09 :: pycall where [lab27_slides]:
  \<open>lab27_slide_09 =
   \<lparr>posargs = [],
  kwargs =
   [(''categories'', PyList
      [PyStr (lit ''DECISION SEQUENCE''),
       PyStr (lit ''SCHEMA DESIGN'')]),
    (''title'', PyStr (lit ''Tiga Keputusan Kunci Merancang Integritas '' @ lit ''Skema'')),
    (''subtitle'', PyStr (lit ''Panduan memilih mekanisme penegakan data '' @
        lit ''yang tepat pada arsitektur produksi.'')),
    (''content_items'', lab27_items_09),
    (''narrative'', PyStr (lit ''Desain skema yang tangguh dimulai dari '' @
        lit ''mendefinisikan kolom wajib dengan NOT NULL '' @
        lit ''dan batasan nilai dengan CHECK. Ketika '' @
        lit ''mengelola entitas unik yang mendukung '' @
        lit ''soft-delete, gunakan partial unique index '' @
        lit ''agar email lama dapat didaftarkan kembali. '' @
        lit ''Memasang foreign key bukan berarti '' @
        lit ''pekerjaan selesai; kolom referensi tetap '' @
        lit ''wajib dibuatkan indeks terpisah agar '' @
        lit ''performa query tetap optimal.'')),
    (''narrative_en'', PyStr (lit ''Robust schema design begins by enforcing '' @
        lit ''mandatory fields via NOT NULL and '' @
        lit ''permissible ranges via CHECK. When handling '' @
        lit ''unique entities that support soft deletion, '' @
        lit ''implement partial unique indexes so '' @
        lit ''recycled identifiers remain valid. Adding '' @
        lit ''foreign keys does not mean database '' @
        lit ''optimization is complete; referenced '' @
        lit ''foreign keys require manual indexing to '' @
        lit ''sustain query performance.'')),
    (''mental_model'', PyStr (lit ''Design schema invariants strictly at the '' @
        lit ''column, table, and relational boundaries '' @
        lit ''with appropriate index backing.'')),
    (''source_path'', PyStr (lit ''content/02-master-draft.md:175-195'')),
    (''slide_num'', PyStr (lit ''09 / 24'')),
    (''layout'', PyStr (lit ''cards''))]\<rparr>\<close>

definition lab27_items_10 :: pyval where [lab27_contents]:
  \<open>lab27_items_10 =
   PyList
   [PyDict
     [(''type'', PyStr (lit ''code'')),
      (''title'', PyStr (lit ''TERMINAL OUTPUT: go test -v -race ./... && '' @ lit ''go run ./cmd/demo'')),
      (''items'', PyList
        [PyStr (lit ''=== RUN   TestNotNullConstraints''),
         PyStr (lit ''--- PASS: TestNotNullConstraints (0.00s)''),
         PyStr (lit ''=== RUN   TestCheckConstraints''),
         PyStr (lit ''--- PASS: TestCheckConstraints (0.00s)''),
         PyStr (lit ''=== RUN   TestUniqueConstraint''),
         PyStr (lit ''--- PASS: TestUniqueConstraint (0.00s)''),
         PyStr (lit ''=== RUN   TestForeignKeyConstraint''),
         PyStr (lit ''--- PASS: TestForeignKeyConstraint (0.00s)''),
         PyStr (lit ''=== RUN   TestPartialUniqueIndex''),
         PyStr (lit ''--- PASS: TestPartialUniqueIndex (0.00s)''),
         PyStr (lit ''=== RUN   TestConcurrentRegistration_Safe_En'' @ lit ''forcesUniqueness''),
         PyStr (lit ''--- PASS: TestConcurrentRegistration_Safe_En'' @
            lit ''forcesUniqueness (0.00s)''),
         PyStr (lit ''=== RUN   TestErrorClassification''),
         PyStr (lit ''--- PASS: TestErrorClassification (0.00s)''),
         PyStr (lit ''PASS: ok  labs/27-database-constraints/inter'' @
            lit ''nal/store  1.330s (race: clean)''),
         PyStr (lit ''[DEMO] CONCURRENCY STRESS TEST: 50 '' @ lit ''GOROUTINES FOR SAME EMAIL''),
         PyStr (lit ''Results: Total=50 | Successful=1 | Rejected '' @
            lit ''23505=49 | Integrity Intact=true'')])]]\<close>

definition lab27_slide_10 :: pycall where [lab27_slides]:
  \<open>lab27_slide_10 =
   \<lparr>posargs = [],
  kwargs =
   [(''categories'', PyList
      [PyStr (lit ''EVIDENCE''),
       PyStr (lit ''EXECUTION'')]),
    (''title'', PyStr (lit ''Verifikasi Eksekusi: Test Suite dan Stress '' @ lit ''Test 50 Goroutine'')),
    (''subtitle'', PyStr (lit ''Output terminal membuktikan penolakan '' @
        lit ''atomik SQLSTATE 23505 dan kelulusan race '' @ lit ''detector.'')),
    (''content_items'', lab27_items_10),
    (''narrative'', PyStr (lit ''Bukti eksekusi menunjukkan seluruh skenario '' @
        lit ''pengujian lolos bersih tanpa peringatan '' @
        lit ''dari Go race detector. Pada stress test '' @
        lit ''demo dengan 50 goroutine yang menyerang '' @
        lit ''email yang sama persis, storage engine '' @
        lit ''berhasil meloloskan tepat 1 registrasi dan '' @
        lit ''menolak 49 request lainnya dengan error '' @
        lit ''23505. Hal ini mengonfirmasi integritas '' @
        lit ''data terjaga 100% di bawah beban paralel '' @ lit ''tinggi.'')),
    (''narrative_en'', PyStr (lit ''Execution output confirms that all test '' @
        lit ''suites pass with zero warnings from the Go '' @
        lit ''race detector. In the demo stress test '' @
        lit ''featuring 50 concurrent goroutines '' @
        lit ''submitting an identical email, the storage '' @
        lit ''engine admitted exactly 1 registration '' @
        lit ''while rejecting 49 attempts with error '' @
        lit ''23505. This demonstrates flawless 100% data '' @
        lit ''integrity under sustained parallel load.'')),
    (''mental_model'', PyStr (lit ''Stress testing confirms exactly one writer '' @
        lit ''succeeds while all concurrent competitors '' @
        lit ''receive atomic constraint rejections.'')),
    (''source_path'', PyStr (lit ''engineering/03-execution-result.md:14-83'')),
    (''slide_num'', PyStr (lit ''10 / 24'')),
    (''layout'', PyStr (lit ''code''))]\<rparr>\<close>

definition lab27_items_11 :: pyval where [lab27_contents]:
  \<open>lab27_items_11 =
   PyList
   [PyDict
     [(''type'', PyStr (lit ''cards'')),
      (''title'', PyStr (lit ''BATAS PEMBUKTIAN SISTEM LAB 27'')),
      (''items'', PyList
        [PyDict
          [(''title'', PyStr (lit ''YANG DIBUKTIKAN'')),
           (''desc'', PyStr (lit ''Semantik SQLSTATE 23xxx, pencegahan race '' @
               lit ''condition via atomic lock, dan siklus hidup '' @ lit ''partial index.''))],
         PyDict
          [(''title'', PyStr (lit ''YANG TIDAK DIBUKTIKAN'')),
           (''desc'', PyStr (lit ''Constraint terdistribusi multi-node, '' @
               lit ''isolasi SERIALIZABLE, operator GiST, dan '' @
               lit ''B-tree latch riil.''))],
         PyDict
          [(''title'', PyStr (lit ''BATAS KLAIM EMPIRIS'')),
           (''desc'', PyStr (lit ''Lab belum membuktikan teknik migrasi ALTER '' @
               lit ''TABLE ADD CONSTRAINT NOT VALID pada tabel '' @
               lit ''produksi raksasa.''))]])]]\<close>

definition lab27_slide_11 :: pycall where [lab27_slides]:
  \<open>lab27_slide_11 =
   \<lparr>posargs = [],
  kwargs =
   [(''categories'', PyList
      [PyStr (lit ''AUDIT''),
       PyStr (lit ''EVIDENCE BOUNDARY'')]),
    (''title'', PyStr (lit ''Batasan Bukti Lab: Yang Dibuktikan vs Belum'')),
    (''subtitle'', PyStr (lit ''Menegaskan ruang lingkup simulasi in-memory '' @
        lit ''terhadap fitur engine database produksi.'')),
    (''content_items'', lab27_items_11),
    (''narrative'', PyStr (lit ''Lab ini membuktikan semantik SQLSTATE, '' @
        lit ''keefektifan atomic locking, dan mekanisme '' @
        lit ''partial index menggunakan simulator '' @
        lit ''in-memory Go murni. Pengujian ini belum '' @
        lit ''membuktikan constraint pada database '' @
        lit ''terdistribusi multi-node atau penggunaan '' @
        lit ''operator eksklusi GiST. Batasan klaim ini '' @
        lit ''penting agar engineer tidak menyamakan '' @
        lit ''simulator lab dengan benchmark engine '' @ lit ''produksi penuh.'')),
    (''narrative_en'', PyStr (lit ''This lab proves SQLSTATE semantics, atomic '' @
        lit ''locking efficacy, and partial unique index '' @
        lit ''mechanics using a pure Go in-memory '' @
        lit ''simulator. The test suite has not yet '' @
        lit ''proven distributed constraints across '' @
        lit ''multi-node databases or GiST exclusion '' @
        lit ''operators. Maintaining this empirical '' @
        lit ''boundary ensures engineers do not conflate '' @
        lit ''simulator testing with production database '' @ lit ''benchmarking.'')),
    (''mental_model'', PyStr (lit ''Delineate between educational memory '' @
        lit ''simulations and production storage engine '' @
        lit ''operational complexities.'')),
    (''source_path'', PyStr (lit ''content/02-master-draft.md:167-175'')),
    (''slide_num'', PyStr (lit ''11 / 24'')),
    (''layout'', PyStr (lit ''cards''))]\<rparr>\<close>

definition lab27_items_12 :: pyval where [lab27_contents]:
  \<open>lab27_items_12 =
   PyList
   [PyDict
     [(''type'', PyStr (lit ''cards'')),
      (''title'', PyStr (lit ''ANALISIS TRADE-OFF PENERAPAN DATABASE '' @ lit ''CONSTRAINTS'')),
      (''items'', PyList
        [PyDict
          [(''title'', PyStr (lit ''Overhead Tulis (Write Cost)'')),
           (''desc'', PyStr (lit ''Setiap operasi INSERT/UPDATE wajib '' @
               lit ''mengevaluasi index B-tree dan relasi FK, '' @
               lit ''menambah sedikit latensi penulisan.''))],
         PyDict
          [(''title'', PyStr (lit ''Friksi Migrasi Produksi'')),
           (''desc'', PyStr (lit ''Menambah constraint pada tabel bervolume '' @
               lit ''besar membutuhkan table lock eksklusif '' @
               lit ''kecuali memakai pola validasi bertahap.''))],
         PyDict
          [(''title'', PyStr (lit ''Tidak Otomatis Lambat'')),
           (''desc'', PyStr (lit ''Penambahan index constraint tidak otomatis '' @
               lit ''memperlambat sistem; overhead tulis '' @
               lit ''terbayar lunas oleh integritas yang '' @ lit ''terjamin.''))]])]]\<close>

definition lab27_slide_12 :: pycall where [lab27_slides]:
  \<open>lab27_slide_12 =
   \<lparr>posargs = [],
  kwargs =
   [(''categories'', PyList
      [PyStr (lit ''TRADE-OFF''),
       PyStr (lit ''COSTS & BENEFITS'')]),
    (''title'', PyStr (lit ''Kompromi Rekayasa: Constraints vs '' @ lit ''Fleksibilitas Skema'')),
    (''subtitle'', PyStr (lit ''Menimbang biaya operasional dan performa di '' @
        lit ''balik perlindungan integritas absolut.'')),
    (''content_items'', lab27_items_12),
    (''narrative'', PyStr (lit ''Menerapkan database constraints menambahkan '' @
        lit ''sedikit biaya komputasi pada saat INSERT '' @
        lit ''karena engine harus memeriksa B-tree index '' @
        lit ''dan tabel induk. Selain itu, menambahkan '' @
        lit ''constraint pada tabel miliaran baris di '' @
        lit ''produksi memerlukan strategi khusus agar '' @
        lit ''tidak mengunci tabel terlalu lama. Namun, '' @
        lit ''overhead tersebut tidak otomatis '' @
        lit ''memperlambat sistem jika dibandingkan biaya '' @
        lit ''besar rekonsiliasi data rusak.'')),
    (''narrative_en'', PyStr (lit ''Enforcing database constraints introduces '' @
        lit ''minor write overhead during INSERTs as the '' @
        lit ''engine inspects B-tree indexes and parent '' @
        lit ''records. Furthermore, attaching constraints '' @
        lit ''to massive production tables demands phased '' @
        lit ''migration workflows to prevent prolonged '' @
        lit ''table locks. However, this overhead does '' @
        lit ''not degrade overall throughput when weighed '' @
        lit ''against the catastrophic cost of data '' @ lit ''repair.'')),
    (''mental_model'', PyStr (lit ''Accept minor write latency at the storage '' @
        lit ''tier to permanently eradicate catastrophic '' @
        lit ''data reconciliation costs.'')),
    (''source_path'', PyStr (lit ''content/02-master-draft.md:175-186'')),
    (''slide_num'', PyStr (lit ''12 / 24'')),
    (''layout'', PyStr (lit ''cards''))]\<rparr>\<close>

definition lab27_items_13 :: pyval where [lab27_contents]:
  \<open>lab27_items_13 =
   PyList
   [PyDict
     [(''type'', PyStr (lit ''schema'')),
      (''title'', PyStr (lit ''ALUR PENANGANAN 50 REQUEST PENDAFTARAN '' @ lit ''PARALEL'')),
      (''items'', PyList
        [PyDict
          [(''phase'', PyStr (lit ''1. 50 Goroutines Spawn'')),
           (''role'', PyStr (lit ''Traffic Surge'')),
           (''desc'', PyStr (lit ''50 worker dijalankan serentak mencoba '' @
               lit ''mendaftarkan email race-target@domain.com.''))],
         PyDict
          [(''phase'', PyStr (lit ''2. Mutex Lock Serialization'')),
           (''role'', PyStr (lit ''Atomic Critical Section'')),
           (''desc'', PyStr (lit ''Goroutine pertama memperoleh lock '' @
               lit ''eksklusif; 49 worker lainnya mengantre '' @ lit ''tertib.''))],
         PyDict
          [(''phase'', PyStr (lit ''3. First Insert Success'')),
           (''role'', PyStr (lit ''Winner Commit'')),
           (''desc'', PyStr (lit ''Worker 1 lolos pengecekan, mencatatkan '' @
               lit ''email ke tabel dan map index, lalu melepas '' @ lit ''lock.''))],
         PyDict
          [(''phase'', PyStr (lit ''4. 49 Abort SQLSTATE 23505'')),
           (''role'', PyStr (lit ''Atomic Rejection'')),
           (''desc'', PyStr (lit ''Worker 2-50 bergantian masuk lock, '' @
               lit ''mendeteksi email sudah ada, dan langsung '' @
               lit ''menerima error 23505.''))]])]]\<close>

definition lab27_slide_13 :: pycall where [lab27_slides]:
  \<open>lab27_slide_13 =
   \<lparr>posargs = [],
  kwargs =
   [(''categories'', PyList
      [PyStr (lit ''CONCURRENCY''),
       PyStr (lit ''PIPELINE FLOW'')]),
    (''title'', PyStr (lit ''Pipeline Validasi Konkuren: Goroutine vs '' @ lit ''Mutex Lock'')),
    (''subtitle'', PyStr (lit ''Bagaimana 50 goroutine bersaing '' @
        lit ''memperebutkan satu slot pendaftaran email '' @ lit ''unik.'')),
    (''content_items'', lab27_items_13),
    (''narrative'', PyStr (lit ''Diagram ini memvisualisasikan penanganan 50 '' @
        lit ''goroutine konkuren yang mencoba menulis '' @
        lit ''email yang sama persis. Antrean mutex '' @
        lit ''memaksa eksekusi berjalan serial pada saat '' @
        lit ''penulisan, sehingga goroutine pemenang '' @
        lit ''pertama berhasil mendaftarkan data. Seluruh '' @
        lit ''goroutine berikutnya secara deterministik '' @
        lit ''ditolak oleh pemeriksaan indeks unik, '' @
        lit ''membuktikan bahwa isolasi atomik memotong '' @
        lit ''habis celah race condition.'')),
    (''narrative_en'', PyStr (lit ''This diagram visualizes how the storage '' @
        lit ''engine handles 50 concurrent goroutines '' @
        lit ''racing to register an identical email. The '' @
        lit ''mutex serializes execution at the write '' @
        lit ''boundary, allowing the initial winner to '' @
        lit ''commit its record. All subsequent '' @
        lit ''goroutines are deterministically rejected '' @
        lit ''by the unique index lookup, proving that '' @
        lit ''atomic isolation eliminates race windows '' @ lit ''entirely.'')),
    (''mental_model'', PyStr (lit ''Atomic serialization at the storage layer '' @
        lit ''transforms concurrent race conditions into '' @
        lit ''deterministic rejections.'')),
    (''source_path'', PyStr (lit ''cmd/demo/main.go:59-83'')),
    (''slide_num'', PyStr (lit ''13 / 24'')),
    (''layout'', PyStr (lit ''schema''))]\<rparr>\<close>

definition lab27_items_14 :: pyval where [lab27_contents]:
  \<open>lab27_items_14 =
   PyList
   [PyDict
     [(''type'', PyStr (lit ''cards'')),
      (''title'', PyStr (lit ''PERBANDINGAN KETAHANAN DUA PENDEKATAN'')),
      (''items'', PyList
        [PyDict
          [(''title'', PyStr (lit ''Sebelum: UnsafeStore (App Check)'')),
           (''desc'', PyStr (lit ''Mengandalkan for-loop di memori aplikasi; '' @
               lit ''20 goroutine menghasilkan >1 user duplikat '' @ lit ''di penyimpanan.''))],
         PyDict
          [(''title'', PyStr (lit ''Sesudah: SafeStore (DB Constraint)'')),
           (''desc'', PyStr (lit ''Mendelegasikan ke storage engine; 50 '' @
               lit ''goroutine menghasilkan tepat 1 user dan 49 '' @
               lit ''error SQLSTATE 23505.''))],
         PyDict
          [(''title'', PyStr (lit ''Bukan Berarti Redundan'')),
           (''desc'', PyStr (lit ''Mempertahankan validasi aplikasi bukan '' @
               lit ''berarti pemborosan kode, melainkan filter '' @
               lit ''awal bagi kenyamanan pengguna.''))]])]]\<close>

definition lab27_slide_14 :: pycall where [lab27_slides]:
  \<open>lab27_slide_14 =
   \<lparr>posargs = [],
  kwargs =
   [(''categories'', PyList
      [PyStr (lit ''COMPARISON''),
       PyStr (lit ''BEFORE VS AFTER'')]),
    (''title'', PyStr (lit ''Transformasi: Dari UnsafeStore ke SafeStore'')),
    (''subtitle'', PyStr (lit ''Perbedaan nyata antara validasi manual di '' @
        lit ''aplikasi versus deklarasi constraint '' @ lit ''database.'')),
    (''content_items'', lab27_items_14),
    (''narrative'', PyStr (lit ''Sebelum menerapkan database constraints, '' @
        lit ''UnsafeStore mengandalkan pemindaian memori '' @
        lit ''yang mudah ditembus oleh 20 goroutine '' @
        lit ''konkuren hingga menghasilkan baris '' @
        lit ''duplikat. Setelah beralih ke SafeStore, '' @
        lit ''delegasi ke engine database menjamin tepat '' @
        lit ''satu pemenang dari 50 request paralel. '' @
        lit ''Mempertahankan validasi aplikasi di depan '' @
        lit ''bukan berarti redundan, melainkan jembatan '' @
        lit ''penting untuk menyajikan pesan error yang '' @ lit ''informatif.'')),
    (''narrative_en'', PyStr (lit ''Prior to implementing database constraints, '' @
        lit ''UnsafeStore relied on in-memory loops that '' @
        lit ''collapsed under 20 concurrent goroutines, '' @
        lit ''allowing duplicate rows. Migrating to '' @
        lit ''SafeStore delegates integrity to the '' @
        lit ''storage engine, guaranteeing exactly one '' @
        lit ''winner among 50 parallel requests. '' @
        lit ''Retaining application validation upfront '' @
        lit ''does not represent redundancy; it provides '' @
        lit ''an essential bridge for friendly client '' @ lit ''feedback.'')),
    (''mental_model'', PyStr (lit ''Shift data integrity enforcement from '' @
        lit ''vulnerable application loops to unyielding '' @
        lit ''storage engine constraints.'')),
    (''source_path'', PyStr (lit ''content/02-master-draft.md:141-151'')),
    (''slide_num'', PyStr (lit ''14 / 24'')),
    (''layout'', PyStr (lit ''cards''))]\<rparr>\<close>

definition lab27_items_15 :: pyval where [lab27_contents]:
  \<open>lab27_items_15 =
   PyList
   [PyDict
     [(''type'', PyStr (lit ''code'')),
      (''title'', PyStr (lit ''internal/store/store_test.go'')),
      (''items'', PyList
        [PyStr (lit ''func TestConcurrentRegistration_Unsafe_Suffe'' @
            lit ''rsRaceCondition(t *testing.T) {''),
         PyStr (lit ''    eng := engine.NewEngine(); s := '' @ lit ''store.NewUnsafeStore(eng)''),
         PyStr (lit ''    goroutines := 20; var wg '' @
            lit ''sync.WaitGroup; wg.Add(goroutines)''),
         PyStr (lit ''    for i := 0; i < goroutines; i++ {''),
         PyStr (lit ''        go func(idx int) {''),
         PyStr (lit ''            defer wg.Done()''),
         PyStr (lit ''            _, _ = s.RegisterUser(ctx, '' @
            lit ''model.User{Email: "unsafe@example.com", '' @
            lit ''Username: fmt.Sprintf("u_%d", idx)})''),
         PyStr (lit ''        }(i)''),
         PyStr (lit ''    }''),
         PyStr (lit ''    wg.Wait()''),
         PyStr (lit ''    if eng.GetUsersCount() <= 1 { '' @
            lit ''t.Errorf("expected race condition causing '' @
            lit ''>1 user entries, got %d", '' @ lit ''eng.GetUsersCount()) }''),
         PyStr (lit ''}'')])]]\<close>

definition lab27_slide_15 :: pycall where [lab27_slides]:
  \<open>lab27_slide_15 =
   \<lparr>posargs = [],
  kwargs =
   [(''categories'', PyList
      [PyStr (lit ''ANALYSIS''),
       PyStr (lit ''RACE VERIFICATION'')]),
    (''title'', PyStr (lit ''Verifikasi Test: Membuktikan Kebocoran Data '' @ lit ''pada UnsafeStore'')),
    (''subtitle'', PyStr (lit ''Pengujian membuktikan bahwa pengecekan di '' @
        lit ''memori gagal menahan 20 goroutine.'')),
    (''content_items'', lab27_items_15),
    (''narrative'', PyStr (lit ''Unit test ini membuktikan secara empiris '' @
        lit ''bahwa pendekatan validasi di aplikasi gagal '' @
        lit ''total di bawah konkurensi. Dua puluh '' @
        lit ''goroutine yang mendaftarkan email yang sama '' @
        lit ''menghasilkan lebih dari satu entri di tabel '' @
        lit ''data. Kegagalan ini cakupannya mengikuti '' @
        lit ''test lab, mengonfirmasi secara faktual '' @
        lit ''bahwa sistem tanpa constraint penyimpanan '' @
        lit ''pasti mengalami korupsi data saat menerima '' @ lit ''lonjakan request.'')),
    (''narrative_en'', PyStr (lit ''This unit test empirically demonstrates '' @
        lit ''that application-level validation collapses '' @
        lit ''under concurrent workloads. Twenty '' @
        lit ''goroutines submitting an identical email '' @
        lit ''produce multiple duplicate records in the '' @
        lit ''underlying table. The scope of this failure '' @
        lit ''aligns strictly with lab tests, proving '' @
        lit ''that systems lacking database constraints '' @
        lit ''suffer inevitable data corruption under '' @ lit ''traffic spikes.'')),
    (''mental_model'', PyStr (lit ''Empirical test assertions prove that '' @
        lit ''application-only checks reliably permit '' @
        lit ''duplicate writes under thread competition.'')),
    (''source_path'', PyStr (lit ''internal/store/store_test.go:210-239'')),
    (''slide_num'', PyStr (lit ''15 / 24'')),
    (''layout'', PyStr (lit ''code''))]\<rparr>\<close>

definition lab27_items_16 :: pyval where [lab27_contents]:
  \<open>lab27_items_16 =
   PyList
   [PyDict
     [(''type'', PyStr (lit ''code'')),
      (''title'', PyStr (lit ''internal/store/store_test.go'')),
      (''items'', PyList
        [PyStr (lit ''func TestConcurrentRegistration_Safe_Enforce'' @
            lit ''sUniqueness(t *testing.T) {''),
         PyStr (lit ''    eng := engine.NewEngine(); s := '' @ lit ''store.NewSafeStore(eng)''),
         PyStr (lit ''    goroutines := 20; var wg '' @
            lit ''sync.WaitGroup; wg.Add(goroutines)''),
         PyStr (lit ''    successCount, errorCount := 0, 0; var '' @ lit ''mu sync.Mutex''),
         PyStr (lit ''    for i := 0; i < goroutines; i++ {''),
         PyStr (lit ''        go func(idx int) {''),
         PyStr (lit ''            defer wg.Done()''),
         PyStr (lit ''            _, err := s.RegisterUser(ctx, '' @
            lit ''model.User{Email: "safe@example.com", '' @
            lit ''Username: fmt.Sprintf("u_%d", idx), Age: '' @
            lit ''25, Status: "active"})''),
         PyStr (lit ''            mu.Lock(); defer mu.Unlock()''),
         PyStr (lit ''            if err == nil { successCount++ '' @
            lit ''} else { errorCount++ }''),
         PyStr (lit ''        }(i)''),
         PyStr (lit ''    }''),
         PyStr (lit ''    wg.Wait()''),
         PyStr (lit ''    if successCount != 1 || errorCount != '' @
            lit ''19 || eng.GetUsersCount() != 1 { '' @
            lit ''t.Fatalf("integrity violated!") }''),
         PyStr (lit ''}'')])]]\<close>

definition lab27_slide_16 :: pycall where [lab27_slides]:
  \<open>lab27_slide_16 =
   \<lparr>posargs = [],
  kwargs =
   [(''categories'', PyList
      [PyStr (lit ''ANALYSIS''),
       PyStr (lit ''CONSTRAINT VERIFICATION'')]),
    (''title'', PyStr (lit ''Verifikasi Test: SafeStore Menjamin Tepat '' @ lit ''Satu Pemenang'')),
    (''subtitle'', PyStr (lit ''20 goroutine paralel menghasilkan tepat 1 '' @
        lit ''keberhasilan dan 19 penolakan atomik.'')),
    (''content_items'', lab27_items_16),
    (''narrative'', PyStr (lit ''Pengujian ini membuktikan ketangguhan '' @
        lit ''SafeStore yang mengandalkan constraint '' @
        lit ''engine. Dari 20 goroutine yang dijalankan '' @
        lit ''serentak, tepat satu pendaftaran yang '' @
        lit ''berhasil ditulis ke penyimpanan, sementara '' @
        lit ''19 goroutine lainnya menerima penolakan. '' @
        lit ''Hanya pada jalur ini integritas tabel tetap '' @
        lit ''terjaga pada angka tepat 1 baris, '' @
        lit ''membuktikan keampuhan proteksi level '' @ lit ''database.'')),
    (''narrative_en'', PyStr (lit ''This test verifies the resilience of '' @
        lit ''SafeStore backed by engine constraints. '' @
        lit ''Among 20 concurrently spawned goroutines, '' @
        lit ''exactly one registration succeeds in '' @
        lit ''persisting to storage, while the remaining '' @
        lit ''19 receive immediate rejections. Only along '' @
        lit ''this path is table integrity strictly '' @
        lit ''preserved at exactly 1 row, confirming the '' @
        lit ''power of database-level protection.'')),
    (''mental_model'', PyStr (lit ''Database constraints deterministically '' @
        lit ''ensure a single commit winner and N-1 clean '' @
        lit ''rejections under high concurrency.'')),
    (''source_path'', PyStr (lit ''internal/store/store_test.go:162-208'')),
    (''slide_num'', PyStr (lit ''16 / 24'')),
    (''layout'', PyStr (lit ''code''))]\<rparr>\<close>

definition lab27_items_17 :: pyval where [lab27_contents]:
  \<open>lab27_items_17 =
   PyList
   [PyDict
     [(''type'', PyStr (lit ''code'')),
      (''title'', PyStr (lit ''internal/engine/engine.go'')),
      (''items'', PyList
        [PyStr (lit ''// PARTIAL UNIQUE: CREATE UNIQUE INDEX '' @
            lit ''users_active_email_idx ON users (email) '' @
            lit ''WHERE deleted_at IS NULL;''),
         PyStr (lit ''if usePartialUniqueIndex {''),
         PyStr (lit ''    if u.DeletedAt == nil {''),
         PyStr (lit ''        if existingID, exists := '' @
            lit ''e.activeEmails[u.Email]; exists {''),
         PyStr (lit ''            return model.User{}, '' @
            lit ''dberr.NewUniqueViolation("users", '' @
            lit ''"users_active_email_idx", "duplicate active '' @ lit ''email")''),
         PyStr (lit ''        }''),
         PyStr (lit ''    }''),
         PyStr (lit ''}''),
         PyStr (lit ''// Saat soft delete: delete(e.activeEmails, '' @
            lit ''u.Email) -> email langsung dapat '' @ lit ''didaftarkan kembali''),
         PyStr (lit ''// Baris dengan deleted_at != nil tidak '' @
            lit ''diindeks, sehingga multi-duplikat '' @ lit ''soft-delete tetap valid.'')])]]\<close>

definition lab27_slide_17 :: pycall where [lab27_slides]:
  \<open>lab27_slide_17 =
   \<lparr>posargs = [],
  kwargs =
   [(''categories'', PyList
      [PyStr (lit ''ANALYSIS''),
       PyStr (lit ''PARTIAL INDEX'')]),
    (''title'', PyStr (lit ''Solusi Soft-Delete: Partial Unique Index '' @ lit ''WHERE deleted_at IS NULL'')),
    (''subtitle'', PyStr (lit ''Mengizinkan daur ulang email lama tanpa '' @
        lit ''mengorbankan keunikan data pengguna aktif.'')),
    (''content_items'', lab27_items_17),
    (''narrative'', PyStr (lit ''Penerapan UNIQUE biasa pada tabel dengan '' @
        lit ''soft-delete menimbulkan masalah: email '' @
        lit ''pengguna yang sudah dihapus tidak akan '' @
        lit ''pernah bisa didaftarkan kembali. Dengan '' @
        lit ''Partial Unique Index bersyarat WHERE '' @
        lit ''deleted_at IS NULL, hanya akun aktif yang '' @
        lit ''diperiksa keunikannya. Pengguna yang sudah '' @
        lit ''soft-delete dikeluarkan dari indeks, '' @
        lit ''sehingga email yang sama dapat dipakai '' @ lit ''ulang oleh pendaftar baru.'')),
    (''narrative_en'', PyStr (lit ''Applying a standard UNIQUE constraint to '' @
        lit ''tables with soft deletion creates severe '' @
        lit ''friction: deactivated emails can never be '' @
        lit ''re-registered. By leveraging a conditional '' @
        lit ''Partial Unique Index with WHERE deleted_at '' @
        lit ''IS NULL, the database enforces uniqueness '' @
        lit ''exclusively on active rows. Deactivated '' @
        lit ''records are evicted from the index, '' @
        lit ''allowing identifier recycling without '' @ lit ''conflict.'')),
    (''mental_model'', PyStr (lit ''Partial indexes scope uniqueness predicates '' @
        lit ''exclusively to active records, resolving '' @
        lit ''soft-delete reuse dilemmas.'')),
    (''source_path'', PyStr (lit ''internal/engine/engine.go:71-77'')),
    (''slide_num'', PyStr (lit ''17 / 24'')),
    (''layout'', PyStr (lit ''code''))]\<rparr>\<close>

definition lab27_items_18 :: pyval where [lab27_contents]:
  \<open>lab27_items_18 =
   PyList
   [PyDict
     [(''type'', PyStr (lit ''code'')),
      (''title'', PyStr (lit ''internal/engine/engine.go'')),
      (''items'', PyList
        [PyStr (lit ''func (e *Engine) InsertOrder(o model.Order) '' @
            lit ''(model.Order, error) {''),
         PyStr (lit ''    e.mu.Lock(); defer e.mu.Unlock()''),
         PyStr (lit ''    if o.UserID == 0 { return '' @ lit ''model.Order{}, '' @
            lit ''dberr.NewNotNullViolation("orders", '' @
            lit ''"user_id", "orders_user_id_not_null") }''),
         PyStr (lit ''    if o.TotalCents <= 0 { return '' @ lit ''model.Order{}, '' @
            lit ''dberr.NewCheckViolation("orders", '' @
            lit ''"orders_total_cents_check", "total > 0") }''),
         PyStr (lit ''    // FOREIGN KEY: CONSTRAINT '' @
            lit ''fk_orders_user FOREIGN KEY (user_id) '' @ lit ''REFERENCES users(id)''),
         PyStr (lit ''    if _, exists := e.users[o.UserID]; '' @ lit ''!exists {''),
         PyStr (lit ''        return model.Order{}, '' @
            lit ''dberr.NewForeignKeyViolation("orders", '' @
            lit ''"fk_orders_user", fmt.Sprintf("key '' @
            lit ''(user_id)=(%d) not present", o.UserID))''),
         PyStr (lit ''    }''),
         PyStr (lit ''    o.ID = e.orderSeq.Add(1); '' @
            lit ''e.orders[o.ID] = o; return o, nil''),
         PyStr (lit ''}'')])]]\<close>

definition lab27_slide_18 :: pycall where [lab27_slides]:
  \<open>lab27_slide_18 =
   \<lparr>posargs = [],
  kwargs =
   [(''categories'', PyList
      [PyStr (lit ''ANALYSIS''),
       PyStr (lit ''REFERENTIAL INTEGRITY'')]),
    (''title'', PyStr (lit ''Mencegah Data Yatim Piatu dengan Foreign '' @ lit ''Key Constraint'')),
    (''subtitle'', PyStr (lit ''Memastikan pesanan baru tidak dapat dibuat '' @
        lit ''untuk pengguna yang tidak terdaftar.'')),
    (''content_items'', lab27_items_18),
    (''narrative'', PyStr (lit ''Fungsi InsertOrder mengevaluasi tiga '' @
        lit ''batasan secara berurutan: NOT NULL pada '' @
        lit ''UserID, CHECK pada TotalCents, dan '' @
        lit ''verifikasi relasional FOREIGN KEY. Jika '' @
        lit ''UserID bernilai 99999 yang tidak tercatat '' @
        lit ''di tabel users, sistem mengembalikan '' @
        lit ''SQLSTATE 23503. Mekanisme ini mencegah '' @
        lit ''terciptanya order yatim piatu yang dapat '' @
        lit ''merusak rekonsiliasi keuangan sistem.'')),
    (''narrative_en'', PyStr (lit ''The InsertOrder function sequentially '' @
        lit ''evaluates three constraints: NOT NULL on '' @
        lit ''UserID, CHECK on TotalCents, and '' @
        lit ''referential FOREIGN KEY validation. If a '' @
        lit ''UserID of 99999 is submitted without '' @
        lit ''existing in the users table, the engine '' @
        lit ''returns SQLSTATE 23503. This mechanism '' @
        lit ''prevents orphaned order records that could '' @
        lit ''compromise financial reconciliation.'')),
    (''mental_model'', PyStr (lit ''Foreign keys enforce relational parentage '' @
        lit ''at the storage boundary, eradicating '' @ lit ''orphaned dependent records.'')),
    (''source_path'', PyStr (lit ''internal/engine/engine.go:122-148'')),
    (''slide_num'', PyStr (lit ''18 / 24'')),
    (''layout'', PyStr (lit ''code''))]\<rparr>\<close>

definition lab27_items_19 :: pyval where [lab27_contents]:
  \<open>lab27_items_19 =
   PyList
   [PyDict
     [(''type'', PyStr (lit ''code'')),
      (''title'', PyStr (lit ''internal/dberr/errors.go'')),
      (''items'', PyList
        [PyStr (lit ''func MapToDomainError(err error) error {''),
         PyStr (lit ''    var cErr *ConstraintError''),
         PyStr (lit ''    if errors.As(err, &cErr) {''),
         PyStr (lit ''        switch cErr.Code {''),
         PyStr (lit ''        case SQLStateUniqueViolation: // '' @ lit ''23505''),
         PyStr (lit ''            return fmt.Errorf("conflict: '' @
            lit ''resource with this unique attribute already '' @
            lit ''exists (rule: %s)", cErr.ConstraintName)''),
         PyStr (lit ''        case SQLStateNotNullViolation: // '' @ lit ''23502''),
         PyStr (lit ''            return fmt.Errorf("invalid '' @
            lit ''input: mandatory field is missing (rule: '' @
            lit ''%s)", cErr.ConstraintName)''),
         PyStr (lit ''        case SQLStateCheckViolation: // '' @ lit ''23514''),
         PyStr (lit ''            return fmt.Errorf("validation '' @
            lit ''failed: value outside boundary (rule: %s)", '' @
            lit ''cErr.ConstraintName)''),
         PyStr (lit ''        case SQLStateForeignKeyViolation: '' @ lit ''// 23503''),
         PyStr (lit ''            return fmt.Errorf("reference '' @
            lit ''error: referenced entity does not exist '' @
            lit ''(rule: %s)", cErr.ConstraintName)''),
         PyStr (lit ''        }''),
         PyStr (lit ''    }''),
         PyStr (lit ''    return err''),
         PyStr (lit ''}'')])]]\<close>

definition lab27_slide_19 :: pycall where [lab27_slides]:
  \<open>lab27_slide_19 =
   \<lparr>posargs = [],
  kwargs =
   [(''categories'', PyList
      [PyStr (lit ''ANALYSIS''),
       PyStr (lit ''ERROR HANDLING'')]),
    (''title'', PyStr (lit ''Inspeksi SQLSTATE: Mengubah Error Database '' @ lit ''Menjadi Domain Error'')),
    (''subtitle'', PyStr (lit ''Hindari parsing teks error yang rapuh; '' @
        lit ''periksa kode SQLSTATE Class 23 yang stabil.'')),
    (''content_items'', lab27_items_19),
    (''narrative'', PyStr (lit ''Banyak pengembang melakukan parsing string '' @
        lit ''error seperti duplicate key yang sangat '' @
        lit ''rapuh terhadap pergantian bahasa basis '' @
        lit ''data. Kode SQLSTATE Class 23 bersifat '' @
        lit ''universal dan terstandarisasi. Menggunakan '' @
        lit ''MapToDomainError memungkinkan aplikasi '' @
        lit ''mengubah kode mesin menjadi pesan domain '' @
        lit ''yang bersih tanpa mengekspos struktur '' @
        lit ''internal database ke publik.'')),
    (''narrative_en'', PyStr (lit ''Many engineers parse raw error strings like '' @
        lit ''duplicate key, which break whenever '' @
        lit ''database locales change. Class 23 SQLSTATE '' @
        lit ''codes provide a standardized, permanent '' @
        lit ''machine contract. Employing '' @
        lit ''MapToDomainError allows applications to '' @
        lit ''translate engine codes into clean domain '' @
        lit ''errors without leaking internal database '' @ lit ''schemas to clients.'')),
    (''mental_model'', PyStr (lit ''Inspect stable SQLSTATE codes rather than '' @
        lit ''brittle localized text strings for robust '' @
        lit ''application error mapping.'')),
    (''source_path'', PyStr (lit ''internal/dberr/errors.go:83-100'')),
    (''slide_num'', PyStr (lit ''19 / 24'')),
    (''layout'', PyStr (lit ''code''))]\<rparr>\<close>

definition lab27_items_20 :: pyval where [lab27_contents]:
  \<open>lab27_items_20 =
   PyList
   [PyDict
     [(''type'', PyStr (lit ''checklist'')),
      (''title'', PyStr (lit ''STANDAR REKAYASA INTEGRITAS SKEMA DATABASE'')),
      (''items'', PyList
        [PyStr (lit ''Tandai seluruh kolom mandatori dengan NOT '' @
            lit ''NULL, jangan hanya mengandalkan validasi '' @ lit ''form.''),
         PyStr (lit ''Terapkan UNIQUE constraint pada atribut '' @
            lit ''unik alih-alih melakukan SELECT sebelum '' @ lit ''INSERT.''),
         PyStr (lit ''Gunakan Partial Unique Index (WHERE '' @
            lit ''deleted_at IS NULL) untuk entitas yang '' @ lit ''mendukung soft-delete.''),
         PyStr (lit ''Definisikan CHECK constraint untuk '' @
            lit ''membatasi rentang nilai angka dan enum '' @ lit ''status kolom.''),
         PyStr (lit ''Pasang indeks eksplisit pada kolom '' @
            lit ''referencing FOREIGN KEY demi mencegah full '' @
            lit ''table scan saat DELETE parent.''),
         PyStr (lit ''Periksa kode SQLSTATE Class 23 (23502, '' @
            lit ''23505, 23514, 23503) pada error handler '' @ lit ''aplikasi.'')])]]\<close>

definition lab27_slide_20 :: pycall where [lab27_slides]:
  \<open>lab27_slide_20 =
   \<lparr>posargs = [],
  kwargs =
   [(''categories'', PyList
      [PyStr (lit ''CHECKLIST''),
       PyStr (lit ''PRODUCTION READINESS'')]),
    (''title'', PyStr (lit ''Checklist Penerapan Database Constraints di '' @ lit ''Produksi'')),
    (''subtitle'', PyStr (lit ''Langkah-langkah rekayasa wajib untuk '' @
        lit ''menjamin integritas data sebelum deployment.'')),
    (''content_items'', lab27_items_20),
    (''narrative'', PyStr (lit ''Checklist ini merangkum langkah-langkah '' @
        lit ''praktis sebelum merilis skema ke produksi: '' @
        lit ''penetapan NOT NULL pada kolom wajib, '' @
        lit ''penerapan UNIQUE untuk proteksi race '' @
        lit ''condition, pemanfaatan partial index untuk '' @
        lit ''soft-delete, pemasangan CHECK untuk '' @
        lit ''validasi baris, penambahan indeks pada '' @
        lit ''foreign key, serta inspeksi SQLSTATE pada '' @ lit ''layer error handling.'')),
    (''narrative_en'', PyStr (lit ''This checklist summarizes mandatory '' @
        lit ''engineering steps before releasing schemas '' @
        lit ''to production: declaring NOT NULL on '' @
        lit ''mandatory fields, applying UNIQUE '' @
        lit ''constraints to block race conditions, '' @
        lit ''leveraging partial indexes for soft '' @
        lit ''deletes, defining CHECK constraints for row '' @
        lit ''limits, indexing foreign key columns, and '' @
        lit ''inspecting SQLSTATE codes in application '' @ lit ''error handlers.'')),
    (''mental_model'', PyStr (lit ''Systematically verify declarative '' @
        lit ''constraints, index backing, and structured '' @
        lit ''error mapping across the persistence tier.'')),
    (''source_path'', PyStr (lit ''content/02-master-draft.md:204-215'')),
    (''slide_num'', PyStr (lit ''20 / 24'')),
    (''layout'', PyStr (lit ''checklist''))]\<rparr>\<close>

definition lab27_items_21 :: pyval where [lab27_contents]:
  \<open>lab27_items_21 =
   PyList
   [PyDict
     [(''type'', PyStr (lit ''cards'')),
      (''title'', PyStr (lit ''POLA BERBAHAYA YANG WAJIB DIHINDARI'')),
      (''items'', PyList
        [PyDict
          [(''title'', PyStr (lit ''Check-Then-Act di Aplikasi'')),
           (''desc'', PyStr (lit ''Mengecek keberadaan record via SELECT di '' @
               lit ''aplikasi lalu melakukan INSERT; pasti bocor '' @
               lit ''di bawah beban konkuren.''))],
         PyDict
          [(''title'', PyStr (lit ''Menebak String Error'')),
           (''desc'', PyStr (lit ''Melakukan regex matching pada teks error '' @
               lit ''database yang dapat berubah sewaktu-waktu '' @
               lit ''akibat pembaruan versi DB.''))],
         PyDict
          [(''title'', PyStr (lit ''Bukan Berarti Ter-Index'')),
           (''desc'', PyStr (lit ''Membuat FOREIGN KEY bukan berarti kolom '' @
               lit ''otomatis terindeks; ketiadaan indeks manual '' @
               lit ''merusak performa query DELETE.''))]])]]\<close>

definition lab27_slide_21 :: pycall where [lab27_slides]:
  \<open>lab27_slide_21 =
   \<lparr>posargs = [],
  kwargs =
   [(''categories'', PyList
      [PyStr (lit ''ANTI-PATTERN''),
       PyStr (lit ''PITFALLS'')]),
    (''title'', PyStr (lit ''Anti-Pattern Umum dalam Menjaga Integritas '' @ lit ''Data'')),
    (''subtitle'', PyStr (lit ''Kesalahan desain arsitektur yang sering '' @
        lit ''merusak konsistensi data di sistem backend.'')),
    (''content_items'', lab27_items_21),
    (''narrative'', PyStr (lit ''Anti-pattern paling fatal adalah merasa '' @
        lit ''aman dengan pola SELECT sebelum INSERT pada '' @
        lit ''aplikasi. Kesalahan lainnya mencakup '' @
        lit ''parsing teks error alih-alih membaca '' @
        lit ''SQLSTATE, serta berasumsi bahwa foreign key '' @
        lit ''secara otomatis membuatkan indeks pada '' @
        lit ''kolom anak. Mengabaikan aspek ini bukan '' @
        lit ''berarti sistem rusak hari ini, melainkan '' @
        lit ''menanam bom waktu performa di masa depan.'')),
    (''narrative_en'', PyStr (lit ''The most perilous anti-pattern is assuming '' @
        lit ''safety from application-level '' @
        lit ''SELECT-then-INSERT flows. Other prevalent '' @
        lit ''traps include parsing localized error '' @
        lit ''strings rather than SQLSTATE codes and '' @
        lit ''assuming foreign keys automatically index '' @
        lit ''referencing columns. Overlooking these '' @
        lit ''realities creates ticking performance and '' @
        lit ''data corruption time-bombs.'')),
    (''mental_model'', PyStr (lit ''Avoid application-only uniqueness checks, '' @
        lit ''error string parsing, and unindexed foreign '' @ lit ''key dependencies.'')),
    (''source_path'', PyStr (lit ''content/02-master-draft.md:186-195'')),
    (''slide_num'', PyStr (lit ''21 / 24'')),
    (''layout'', PyStr (lit ''cards''))]\<rparr>\<close>

definition lab27_items_22 :: pyval where [lab27_contents]:
  \<open>lab27_items_22 =
   PyList
   [PyDict
     [(''type'', PyStr (lit ''code'')),
      (''title'', PyStr (lit ''COMMAND RUNNER (ZERO DEPENDENCIES)'')),
      (''items'', PyList
        [PyStr (lit ''cd labs/27-database-constraints''),
         PyStr (lit ''go test -v ./...    # menjalankan 7 unit '' @
            lit ''test untuk NOT NULL, CHECK, UNIQUE, FK, & '' @ lit ''Partial Index''),
         PyStr (lit ''go test -race ./... # memvalidasi eksekusi '' @
            lit ''konkuren bebas dari data race (PASS in '' @ lit ''1.33s)''),
         PyStr (lit ''go run ./cmd/demo   # eksekusi demonstrasi '' @
            lit ''CLI interaktif: SQLSTATE demo & 50-worker '' @ lit ''stress test'')])]]\<close>

definition lab27_slide_22 :: pycall where [lab27_slides]:
  \<open>lab27_slide_22 =
   \<lparr>posargs = [],
  kwargs =
   [(''categories'', PyList
      [PyStr (lit ''REPRODUCTION''),
       PyStr (lit ''COMMANDS'')]),
    (''title'', PyStr (lit ''Reproduksi Mandiri di Mesin Lokal '' @ lit ''Menggunakan Go'')),
    (''subtitle'', PyStr (lit ''Jalankan seluruh pengujian constraint, race '' @
        lit ''condition, dan demo 50 worker tanpa '' @ lit ''dependensi eksternal.'')),
    (''content_items'', lab27_items_22),
    (''narrative'', PyStr (lit ''Seluruh pengujian lab dibangun murni '' @
        lit ''menggunakan Go standard library tanpa perlu '' @
        lit ''mengunduh package eksternal atau '' @
        lit ''menjalankan Docker. Eksperimen lokal ini '' @
        lit ''membuktikan seluruh semantik penegakan '' @
        lit ''constraint secara deterministik, namun '' @
        lit ''sistem produksi masih perlu mengonfigurasi '' @
        lit ''strategi migrasi bertahap seperti ADD '' @ lit ''CONSTRAINT NOT VALID.'')),
    (''narrative_en'', PyStr (lit ''The entire lab simulation is engineered '' @
        lit ''strictly with the Go standard library, '' @
        lit ''requiring no external packages or Docker '' @
        lit ''containers. While local tests prove '' @
        lit ''constraint semantics deterministically, '' @
        lit ''production environments still require '' @
        lit ''phased migration strategies such as ADD '' @ lit ''CONSTRAINT NOT VALID.'')),
    (''mental_model'', PyStr (lit ''Deterministic local simulations validate '' @
        lit ''distributed consistency principles without '' @
        lit ''heavy infrastructure overhead.'')),
    (''source_path'', PyStr (lit ''README.md:1-25'')),
    (''slide_num'', PyStr (lit ''22 / 24'')),
    (''layout'', PyStr (lit ''code''))]\<rparr>\<close>

definition lab27_items_23 :: pyval where [lab27_contents]:
  \<open>lab27_items_23 =
   PyList
   [PyDict
     [(''type'', PyStr (lit ''cards'')),
      (''title'', PyStr (lit ''TIGA PILAR INTEGRITAS DATA ARSITEKTUR MODERN'')),
      (''items'', PyList
        [PyDict
          [(''title'', PyStr (lit ''Deklaratif di Titik Tulis'')),
           (''desc'', PyStr (lit ''Letakkan aturan keabsahan data sedekat '' @
               lit ''mungkin dengan media penyimpanan agar '' @
               lit ''terlindungi secara atomik.''))],
         PyDict
          [(''title'', PyStr (lit ''Pemisahan Peran yang Jelas'')),
           (''desc'', PyStr (lit ''Aplikasi melayani kenyamanan interaksi '' @
               lit ''pengguna; database constraints menjamin '' @ lit ''kebenaran absolut.''))],
         PyDict
          [(''title'', PyStr (lit ''Tidak Otomatis Kebal'')),
           (''desc'', PyStr (lit ''Memasang constraint tidak otomatis '' @
               lit ''menyelesaikan aturan lintas tabel; pahami '' @
               lit ''batas row-scoped versus triggers.''))]])]]\<close>

definition lab27_slide_23 :: pycall where [lab27_slides]:
  \<open>lab27_slide_23 =
   \<lparr>posargs = [],
  kwargs =
   [(''categories'', PyList
      [PyStr (lit ''TAKEAWAY''),
       PyStr (lit ''ARCHITECTURAL PRINCIPLES'')]),
    (''title'', PyStr (lit ''Prinsip Inti: Database Adalah Benteng '' @ lit ''Terakhir Kebenaran'')),
    (''subtitle'', PyStr (lit ''Aplikasi boleh berganti dan berkembang, '' @
        lit ''namun integritas data harus abadi.'')),
    (''content_items'', lab27_items_23),
    (''narrative'', PyStr (lit ''Aplikasi backend akan terus ditulis ulang, '' @
        lit ''microservices akan terus bertambah, namun '' @
        lit ''data di database akan bertahan melampaui '' @
        lit ''siklus hidup kode tersebut. Menyerahkan '' @
        lit ''integritas data hanya pada kode aplikasi '' @
        lit ''adalah perjudian berisiko tinggi. Database '' @
        lit ''constraints memastikan bahwa apa pun bug '' @
        lit ''yang terjadi di lapisan aplikasi, '' @
        lit ''integritas data penyimpanan tidak akan '' @ lit ''pernah ternoda.'')),
    (''narrative_en'', PyStr (lit ''Application layers will inevitably be '' @
        lit ''refactored and microservices will '' @
        lit ''proliferate, but persisted data outlives '' @
        lit ''software lifecycles. Entrusting data '' @
        lit ''integrity solely to application code is a '' @
        lit ''high-risk architectural gamble. Database '' @
        lit ''constraints guarantee that regardless of '' @
        lit ''application-layer regressions, persistent '' @
        lit ''data remains uncorrupted.'')),
    (''mental_model'', PyStr (lit ''Applications are ephemeral; persisted data '' @
        lit ''is durable. Enforce invariant truth at the '' @ lit ''storage tier.'')),
    (''source_path'', PyStr (lit ''content/05-key-takeaways.md:1-20'')),
    (''slide_num'', PyStr (lit ''23 / 24'')),
    (''layout'', PyStr (lit ''cards''))]\<rparr>\<close>

definition lab27_items_24 :: pyval where [lab27_contents]:
  \<open>lab27_items_24 =
   PyList
   [PyDict
     [(''type'', PyStr (lit ''bullet'')),
      (''title'', PyStr (lit ''MODUL IMPLEMENTASI'')),
      (''items'', PyList
        [PyStr (lit ''internal/engine/engine.go '' @ [0x2022] @ lit '' internal/store/store.go''),
         PyStr (lit ''internal/dberr/errors.go '' @ [0x2022] @ lit '' internal/model/model.go''),
         PyStr (lit ''cmd/demo/main.go '' @ [0x2022] @ lit '' internal/store/store_test.go'')])],
    PyDict
     [(''type'', PyStr (lit ''bullet'')),
      (''title'', PyStr (lit ''VERIFIKASI & STATUS'')),
      (''items'', PyList
        [PyStr (lit ''Commit: '' @ str_prefix 7 lab27_COMMIT_SHA @ lit '' '' @ [0x2022] @
            lit '' Status: APPROVED''),
         PyStr (lit ''Test passing: 8 test scenarios (NotNull, '' @
            lit ''Check, Unique, FK, PartialIndex, '' @
            lit ''ConcurrencySafe, ConcurrencyUnsafe, '' @ lit ''ErrorClassification)''),
         PyStr (lit ''Race detector: Clean (go test -race ./... '' @ lit ''PASS in 1.330s)''),
         PyStr (lit ''Zero external dependencies: 100% Go '' @ lit ''standard library.'')])]]\<close>

definition lab27_slide_24 :: pycall where [lab27_slides]:
  \<open>lab27_slide_24 =
   \<lparr>posargs = [],
  kwargs =
   [(''categories'', PyList
      [PyStr (lit ''CLOSING'')]),
    (''title'', PyStr (lit ''Jangan pernah percayakan integritas data '' @
        lit ''hanya pada application code; database '' @
        lit ''constraint adalah benteng terakhir '' @ lit ''kebenaran absolut.'')),
    (''subtitle'', PyStr []),
    (''content_items'', lab27_items_24),
    (''mental_model'', PyStr (lit ''Database constraints serve as the final, '' @
        lit ''immutable bastion of data correctness '' @
        lit ''across evolving system architectures.'')),
    (''source_path'', PyStr lab27_REPO_URL),
    (''slide_num'', PyStr (lit ''24 / 24'')),
    (''layout'', PyStr (lit ''closing''))]\<rparr>\<close>

definition lab27_calls :: "pycall list" where
  "lab27_calls =
    [lab27_slide_01, lab27_slide_02, lab27_slide_03, lab27_slide_04, lab27_slide_05,
     lab27_slide_06, lab27_slide_07, lab27_slide_08, lab27_slide_09, lab27_slide_10,
     lab27_slide_11, lab27_slide_12, lab27_slide_13, lab27_slide_14, lab27_slide_15,
     lab27_slide_16, lab27_slide_17, lab27_slide_18, lab27_slide_19, lab27_slide_20,
     lab27_slide_21, lab27_slide_22, lab27_slide_23, lab27_slide_24]"

definition lab27_deck :: deck where
  "lab27_deck =
    \<lparr>add_slide = lab27_add_slide, lab_no = lab27_LAB_NO, title_id = lab27_TITLE_ID, calls = lab27_calls\<rparr>"

section \<open>Checks of the calls\<close>

lemma lab27_shapes:
  "\<forall>c \<in> set lab27_calls. shape_of c \<in> set
    [(0, [''categories'', ''title'', ''subtitle'', ''content_items'', ''mental_model'',
      ''source_path'', ''slide_num'', ''narrative'', ''narrative_en'', ''layout'']),
     (0, [''categories'', ''title'', ''subtitle'', ''content_items'', ''narrative'',
      ''narrative_en'', ''mental_model'', ''source_path'', ''slide_num'', ''layout'']),
     (0, [''categories'', ''title'', ''subtitle'', ''content_items'', ''mental_model'',
      ''source_path'', ''slide_num'', ''layout''])]"
  by (simp only: lab27_calls_def lab27_slides shape_eval cong: pyval_opaque)

lemma lab27_calls_ok: "\<forall>c \<in> set lab27_calls. call_ok sig_layout c"
  by (rule calls_ok_by_shapes [OF lab27_shapes])
    (simp add: shape_ok_def param_names_def signature_defs core_params_def)

lemma lab27_labels: "map (\<lambda>c. value_of sig_layout c ''slide_num'') lab27_calls = labels_24"
  by (simp only: lab27_calls_def lab27_slides keyword_eval labels_24_eval cong: pyval_opaque)

lemma lab27_contents_of:
  "map (\<lambda>c. value_of sig_layout c ''content_items'') lab27_calls =
    [lab27_items_01, lab27_items_02, lab27_items_03, lab27_items_04, lab27_items_05,
     lab27_items_06, lab27_items_07, lab27_items_08, lab27_items_09, lab27_items_10,
     lab27_items_11, lab27_items_12, lab27_items_13, lab27_items_14, lab27_items_15,
     lab27_items_16, lab27_items_17, lab27_items_18, lab27_items_19, lab27_items_20,
     lab27_items_21, lab27_items_22, lab27_items_23, lab27_items_24]"
  by (simp only: lab27_calls_def lab27_slides keyword_eval cong: pyval_opaque)

lemma lab27_items: "item_defects sig_layout lab27_calls = []"
  by (simp only: item_defects_def lab27_contents_of)
    (simp add: lab27_contents item_eval cong: pystr_opaque)

end
