(* ===== verification/Deck28.thy ===== *)
theory Deck28
  imports DeckContract
begin

text \<open>
  The publication definition of lab 28, \<^verbatim>\<open>labs/28-timeouts-and-deadlines/result/content_def.py\<close>:
  its module constants, every \<open>add_slide\<close> call in order (\<open>lab28_slide_01\<close> is the first),
  and the module as a whole (\<open>lab28_deck\<close>). Long strings are split into pieces that are
  concatenated; a character outside ASCII is its code point.
\<close>

named_theorems lab28_slides \<open>the add_slide calls of lab 28\<close>
named_theorems lab28_contents \<open>their content_items arguments\<close>

definition lab28_OUTPUT_DIR :: pystr where
  \<open>lab28_OUTPUT_DIR = lit ''labs/28-timeouts-and-deadlines/result''\<close>

definition lab28_CHROME_BIN :: pystr where
  \<open>lab28_CHROME_BIN = lit ''/Applications/Google '' @ lit ''Chrome.app/Contents/MacOS/Google Chrome''\<close>

definition lab28_REPO_URL :: pystr where
  \<open>lab28_REPO_URL = lit ''https://github.com/lukman-ss/software-engine'' @
    lit ''ering-lab/tree/main/labs/28-timeouts-and-dea'' @ lit ''dlines''\<close>

definition lab28_COMMIT_SHA :: pystr where
  \<open>lab28_COMMIT_SHA = lit ''ba4b621''\<close>

definition lab28_LAB_NO :: pystr where
  \<open>lab28_LAB_NO = lit ''28''\<close>

definition lab28_SLUG :: pystr where
  \<open>lab28_SLUG = lit ''timeouts-and-deadlines''\<close>

definition lab28_TITLE_ID :: pystr where
  \<open>lab28_TITLE_ID = lit ''Timeouts & Deadlines: Guardrails untuk '' @ lit ''Sistem Terdistribusi''\<close>

definition lab28_SUBTITLE_ID :: pystr where
  \<open>lab28_SUBTITLE_ID = lit ''Mencegah Dependency Lambat Menghancurkan '' @
    lit ''Layanan melalui Deadline Propagation, '' @
    lit ''Jitter, Circuit Breaker, dan Idempotency''\<close>

definition lab28_TITLE_EN :: pystr where
  \<open>lab28_TITLE_EN = lit ''Timeouts & Deadlines: Guardrails for '' @ lit ''Distributed Systems''\<close>

definition lab28_SUBTITLE_EN :: pystr where
  \<open>lab28_SUBTITLE_EN = lit ''Preventing Slow Dependencies from Crashing '' @
    lit ''Services via Deadline Propagation, Jitter, '' @
    lit ''Circuit Breaking, and Idempotency.''\<close>

definition lab28_AUTHOR :: pystr where
  \<open>lab28_AUTHOR = lit ''Lukman / lukman-ss''\<close>

definition lab28_TOPIC_TAGS :: pystr where
  \<open>lab28_TOPIC_TAGS = lit ''Timeouts '' @ [0x2022] @ lit '' Deadlines '' @ [0x2022] @ lit '' Retry '' @
    [0x2022] @ lit '' Circuit Breaker '' @ [0x2022] @ lit '' Idempotency '' @ [0x2022] @
    lit '' Go''\<close>

definition lab28_COVER_IMAGE_PATH :: pystr where
  \<open>lab28_COVER_IMAGE_PATH = lit ''labs/28-timeouts-and-deadlines/result/image-'' @ lit ''cover/cover_art.jpg''\<close>

definition lab28_add_slide :: "pycall \<Rightarrow> pyval list \<Rightarrow> (pyexc, pyval list) res" where
  "lab28_add_slide = add_slide_layout"

definition lab28_items_01 :: pyval where [lab28_contents]:
  \<open>lab28_items_01 =
   PyList
   [PyDict
     [(''type'', PyStr (lit ''cover'')),
      (''title'', PyStr []),
      (''items'', PyList
        [PyStr (lit ''Timeouts & Deadlines '' @ [0x2014] @
            lit '' Guardrails untuk Sistem Terdistribusi''),
         PyStr (lit ''Mengelola latency, retry, circuit & '' @ lit ''idempotency di Go''),
         PyStr (lit ''Penulis: '' @ lab28_AUTHOR)])]]\<close>

definition lab28_slide_01 :: pycall where [lab28_slides]:
  \<open>lab28_slide_01 =
   \<lparr>posargs = [],
  kwargs =
   [(''categories'', PyList
      [PyStr (lit ''COVER'')]),
    (''title'', PyStr lab28_TITLE_ID),
    (''subtitle'', PyStr lab28_SUBTITLE_ID),
    (''content_items'', lab28_items_01),
    (''mental_model'', PyStr (lit ''Timeout & deadline adalah resource '' @
        lit ''protection guardrails, bukan sinyal '' @ lit ''kegagalan.'')),
    (''source_path'', PyStr lab28_REPO_URL),
    (''slide_num'', PyStr (lit ''01 / 24'')),
    (''narrative'', PyStr (lit ''Lab ini menampilkan pola resiliency yang '' @
        lit ''melindungi layanan dari dependency lambat. '' @
        lit ''Setiap pola dibuktikan dengan tes unit, race'' @ [0x2011] @
        lit ''detector, dan demo end'' @ [0x2011] @ lit ''to'' @ [0x2011] @ lit ''end.'')),
    (''narrative_en'', PyStr (lit ''This lab showcases resiliency patterns that '' @
        lit ''shield services from slow downstream '' @
        lit ''dependencies. Each pattern is verified by '' @
        lit ''unit tests, the race detector, and an end'' @ [0x2011] @ lit ''to'' @
        [0x2011] @ lit ''end demo.'')),
    (''layout'', PyStr (lit ''cover''))]\<rparr>\<close>

definition lab28_items_02 :: pyval where [lab28_contents]:
  \<open>lab28_items_02 =
   PyList
   [PyDict
     [(''type'', PyStr (lit ''cards'')),
      (''title'', PyStr (lit ''DAMPAK'')),
      (''items'', PyList
        [PyDict
          [(''title'', PyStr (lit ''Cascading Latency'')),
           (''desc'', PyStr (lit ''Latency '' @ [0x2191] @ lit '' '' @ [0x2192] @ lit '' L = '' @
               [0x3BB] @ lit ''W '' @ [0x2191] @ lit '' '' @ [0x2192] @
               lit '' thread pool terisi '' @ [0x2192] @ lit '' request tak'' @ [0x2011] @
               lit ''terlayani.''))],
         PyDict
          [(''title'', PyStr (lit ''Resource Exhaustion'')),
           (''desc'', PyStr (lit ''Connection pool terblokir, memory pressure '' @
               lit ''naik, timeout global.''))],
         PyDict
          [(''title'', PyStr (lit ''Kegagalan Layanan Tidak Terkait'')),
           (''desc'', PyStr (lit ''Endpoint lainnya menolak karena kehabisan '' @ lit ''worker.''))]])]]\<close>

definition lab28_slide_02 :: pycall where [lab28_slides]:
  \<open>lab28_slide_02 =
   \<lparr>posargs = [],
  kwargs =
   [(''categories'', PyList
      [PyStr (lit ''PROBLEM'')]),
    (''title'', PyStr (lit ''Dependency Lambat Mengakibatkan Outage '' @ lit ''Sistem'')),
    (''subtitle'', PyStr (lit ''Satu layanan 60'' @ [0x202F] @ lit ''s menggangu seluruh cluster.'')),
    (''content_items'', lab28_items_02),
    (''mental_model'', PyStr (lit ''Little'' @ [39] @ lit ''s Law: peningkatan latency meningkatkan '' @
        lit ''jumlah request in'' @ [0x2011] @ lit ''flight secara linear.'')),
    (''source_path'', PyStr (lit ''content/01-content-brief.md:5-13'')),
    (''slide_num'', PyStr (lit ''02 / 24'')),
    (''narrative'', PyStr (lit ''Ketika satu dependency melambat dari 300'' @ [0x202F] @ lit ''ms ke 60'' @
        [0x202F] @ lit ''s, request menumpuk di pool, menurunkan '' @
        lit ''throughput seluruh layanan. Ini tercermin '' @ lit ''dalam contoh demo lab.'')),
    (''narrative_en'', PyStr (lit ''When a single downstream slows from 300'' @ [0x202F] @ lit ''ms to 60'' @
        [0x202F] @ lit ''s, requests pile up in the pool, throttling '' @
        lit ''overall service throughput. The lab demo '' @ lit ''illustrates this effect.'')),
    (''layout'', PyStr (lit ''cards''))]\<rparr>\<close>

definition lab28_items_03 :: pyval where [lab28_contents]:
  \<open>lab28_items_03 =
   PyList
   [PyDict
     [(''type'', PyStr (lit ''cards'')),
      (''title'', PyStr (lit ''KELEMAHAN'')),
      (''items'', PyList
        [PyDict
          [(''title'', PyStr (lit ''Interleaving'')),
           (''desc'', PyStr (lit ''Scheduler OS memisahkan SELECT dan INSERT, '' @
               lit ''memungkinkan duplikasi.''))],
         PyDict
          [(''title'', PyStr (lit ''Tes Sekuensial'')),
           (''desc'', PyStr (lit ''Unit test tanpa goroutine selalu lolos, '' @
               lit ''memberi ilusi aman.''))],
         PyDict
          [(''title'', PyStr (lit ''Tidak Ada Kunci Atomik'')),
           (''desc'', PyStr (lit ''Database tidak menegakkan invariant bila '' @
               lit ''aplikasi mengandalkan memori saja.''))]])]]\<close>

definition lab28_slide_03 :: pycall where [lab28_slides]:
  \<open>lab28_slide_03 =
   \<lparr>posargs = [],
  kwargs =
   [(''categories'', PyList
      [PyStr (lit ''WHY FAILS'')]),
    (''title'', PyStr (lit ''Validasi Aplikasi Tidak Cukup'')),
    (''subtitle'', PyStr (lit ''Check'' @ [0x2011] @ lit ''then'' @ [0x2011] @
        lit ''act tidak menutup race window.'')),
    (''content_items'', lab28_items_03),
    (''mental_model'', PyStr (lit ''Aplikasi tidak dapat menjamin konsistensi '' @
        lit ''tanpa mekanisme persisten yang atomik.'')),
    (''source_path'', PyStr (lit ''content/02-master-draft.md:5-12'')),
    (''slide_num'', PyStr (lit ''03 / 24'')),
    (''narrative'', PyStr (lit ''Review kode dan tes unit menunjukkan logika '' @
        lit ''if tampak benar, namun tidak melindungi '' @
        lit ''terhadap interleaving thread yang '' @ lit ''menyebabkan duplikasi data.'')),
    (''narrative_en'', PyStr (lit ''Code reviews and unit tests show correct if'' @ [0x2011] @
        lit ''logic, yet they do not protect against '' @
        lit ''thread interleaving that leads to duplicate '' @ lit ''records.'')),
    (''layout'', PyStr (lit ''cards''))]\<rparr>\<close>

definition lab28_items_04 :: pyval where [lab28_contents]:
  \<open>lab28_items_04 =
   PyList
   [PyDict
     [(''type'', PyStr (lit ''schema'')),
      (''title'', PyStr (lit ''PROPAGASI DEADLINE'')),
      (''items'', PyList
        [PyDict
          [(''phase'', PyStr (lit ''Client'')),
           (''role'', PyStr (lit ''Budget'')),
           (''desc'', PyStr (lit ''Set timeout total (misal 200'' @ [0x202F] @ lit ''ms).''))],
         PyDict
          [(''phase'', PyStr (lit ''Service A'')),
           (''role'', PyStr (lit ''Child'')),
           (''desc'', PyStr (lit ''WithTimeout(parent, localBudget) '' @ [0x2192] @
               lit '' deadline = min(parent, local).''))],
         PyDict
          [(''phase'', PyStr (lit ''Service B'')),
           (''role'', PyStr (lit ''Leaf'')),
           (''desc'', PyStr (lit ''Operasi dibatalkan segera saat parent atau '' @
               lit ''child deadline terlewati.''))]])]]\<close>

definition lab28_slide_04 :: pycall where [lab28_slides]:
  \<open>lab28_slide_04 =
   \<lparr>posargs = [],
  kwargs =
   [(''categories'', PyList
      [PyStr (lit ''MENTAL MODEL'')]),
    (''title'', PyStr (lit ''Deadline Propagation sebagai Guardrail '' @ lit ''Hierarkis'')),
    (''subtitle'', PyStr (lit ''Child deadline '' @ [0x2264] @ lit '' parent deadline, never larger.'')),
    (''content_items'', lab28_items_04),
    (''mental_model'', PyStr (lit ''Setiap lapisan turun menurunkan budget, '' @
        lit ''mencegah kerja berlebih pada downstream '' @
        lit ''yang sudah tidak dibutuhkan.'')),
    (''source_path'', PyStr (lit ''content/02-master-draft.md:30-38'')),
    (''slide_num'', PyStr (lit ''04 / 24'')),
    (''narrative'', PyStr (lit ''Deadline diturunkan secara hierarkis '' @
        lit ''sehingga goroutine downstream tidak bekerja '' @
        lit ''lebih lama daripada request yang memicunya.'')),
    (''narrative_en'', PyStr (lit ''Deadlines are reduced hierarchically so '' @
        lit ''downstream goroutines do not outlive the '' @
        lit ''request that triggered them.'')),
    (''layout'', PyStr (lit ''schema''))]\<rparr>\<close>

definition lab28_items_05 :: pyval where [lab28_contents]:
  \<open>lab28_items_05 =
   PyList
   [PyDict
     [(''type'', PyStr (lit ''schema'')),
      (''title'', PyStr (lit ''ALUR EKSEKUSI'')),
      (''items'', PyList
        [PyDict
          [(''phase'', PyStr (lit ''1'')),
           (''role'', PyStr (lit ''Context'')),
           (''desc'', PyStr (lit ''WithTimeout(parent, budget)''))],
         PyDict
          [(''phase'', PyStr (lit ''2'')),
           (''role'', PyStr (lit ''Retrier'')),
           (''desc'', PyStr (lit ''Exponential backoff + full jitter''))],
         PyDict
          [(''phase'', PyStr (lit ''3'')),
           (''role'', PyStr (lit ''Circuit'')),
           (''desc'', PyStr (lit ''Open/Close/Half'' @ [0x2011] @ lit ''Open guard''))],
         PyDict
          [(''phase'', PyStr (lit ''4'')),
           (''role'', PyStr (lit ''Idempotency'')),
           (''desc'', PyStr (lit ''Deduplication store (TTL)''))],
         PyDict
          [(''phase'', PyStr (lit ''5'')),
           (''role'', PyStr (lit ''Worker'')),
           (''desc'', PyStr (lit ''Actual business logic''))]])]]\<close>

definition lab28_slide_05 :: pycall where [lab28_slides]:
  \<open>lab28_slide_05 =
   \<lparr>posargs = [],
  kwargs =
   [(''categories'', PyList
      [PyStr (lit ''PIPELINE'')]),
    (''title'', PyStr (lit ''Pipeline Resiliensi'')),
    (''subtitle'', PyStr (lit ''Context '' @ [0x2192] @ lit '' Retrier '' @ [0x2192] @ lit '' Circuit '' @
        [0x2192] @ lit '' Idempotency '' @ [0x2192] @ lit '' Worker'')),
    (''content_items'', lab28_items_05),
    (''mental_model'', PyStr (lit ''Setiap lapisan dapat menghentikan alur '' @
        lit ''lebih awal, mengurangi beban downstream.'')),
    (''source_path'', PyStr (lit ''content/02-master-draft.md:160-172'')),
    (''slide_num'', PyStr (lit ''05 / 24'')),
    (''narrative'', PyStr (lit ''Alur eksekusi mengalir melalui context, '' @
        lit ''retry, circuit breaker, dan store sebelum '' @
        lit ''mencapai worker. Setiap komponen dapat '' @
        lit ''menghentikan eksekusi lebih awal.'')),
    (''narrative_en'', PyStr (lit ''Execution flows through context, retry, '' @
        lit ''circuit breaker, and store before reaching '' @
        lit ''the worker. Each component can abort early.'')),
    (''layout'', PyStr (lit ''schema''))]\<rparr>\<close>

definition lab28_items_06 :: pyval where [lab28_contents]:
  \<open>lab28_items_06 =
   PyList
   [PyDict
     [(''type'', PyStr (lit ''code'')),
      (''title'', PyStr (lit ''internal/deadline/deadline.go:13-28'')),
      (''items'', PyList
        [PyStr (lit ''func ExecuteWithBudget(ctx context.Context, '' @
            lit ''budget time.Duration, fn WorkerFunc) error {''),
         PyStr (lit ''    childCtx, cancel := '' @ lit ''context.WithTimeout(ctx, budget)''),
         PyStr (lit ''    defer cancel()''),
         PyStr (lit ''    done := make(chan error, 1)''),
         PyStr (lit ''    go func() { done <- fn(childCtx) }()''),
         PyStr (lit ''    select {''),
         PyStr (lit ''    case <-childCtx.Done():''),
         PyStr (lit ''        return childCtx.Err()''),
         PyStr (lit ''    case err := <-done:''),
         PyStr (lit ''        return err''),
         PyStr (lit ''    }''),
         PyStr (lit ''}'')])]]\<close>

definition lab28_slide_06 :: pycall where [lab28_slides]:
  \<open>lab28_slide_06 =
   \<lparr>posargs = [],
  kwargs =
   [(''categories'', PyList
      [PyStr (lit ''IMPLEMENTATION'')]),
    (''title'', PyStr (lit ''Deadline Propagation dengan Channel'')),
    (''subtitle'', PyStr (lit ''Memastikan goroutine berhenti tepat saat '' @ lit ''budget habis.'')),
    (''content_items'', lab28_items_06),
    (''mental_model'', PyStr (lit ''Channel berkapasitas 1 mencegah goroutine '' @
        lit ''bocor ketika context dibatalkan lebih dulu.'')),
    (''source_path'', PyStr (lit ''internal/deadline/deadline.go:13-28'')),
    (''slide_num'', PyStr (lit ''06 / 24'')),
    (''narrative'', PyStr (lit ''Fungsi ExecuteWithBudget membuat child '' @
        lit ''context dengan budget, meluncurkan '' @
        lit ''goroutine worker, dan menunggu salah satu '' @
        lit ''kondisi selesai lewat select. Jika childCtx '' @
        lit ''dibatalkan terlebih dahulu, error '' @
        lit ''context.DeadlineExceeded dikembalikan.'')),
    (''narrative_en'', PyStr (lit ''ExecuteWithBudget creates a child context '' @
        lit ''with a budget, launches a worker goroutine, '' @
        lit ''and waits via select for either completion '' @
        lit ''or cancellation. If the child context is '' @
        lit ''cancelled first, it returns '' @ lit ''context.DeadlineExceeded.'')),
    (''layout'', PyStr (lit ''code''))]\<rparr>\<close>

definition lab28_items_07 :: pyval where [lab28_contents]:
  \<open>lab28_items_07 =
   PyList
   [PyDict
     [(''type'', PyStr (lit ''cards'')),
      (''title'', PyStr (lit ''ALUR GAGAL'')),
      (''items'', PyList
        [PyDict
          [(''title'', PyStr (lit ''1. Request pertama'')),
           (''desc'', PyStr (lit ''Server proses charge, response hilang '' @ lit ''karena network loss.''))],
         PyDict
          [(''title'', PyStr (lit ''2. Client timeout'')),
           (''desc'', PyStr (lit ''Context dibatalkan, client menganggap '' @ lit ''failure.''))],
         PyDict
          [(''title'', PyStr (lit ''3. Retry'')),
           (''desc'', PyStr (lit ''Tanpa Idempotency-Key, server mengeksekusi '' @ lit ''charge lagi '' @
               [0x2192] @ lit '' double charge.''))]])]]\<close>

definition lab28_slide_07 :: pycall where [lab28_slides]:
  \<open>lab28_slide_07 =
   \<lparr>posargs = [],
  kwargs =
   [(''categories'', PyList
      [PyStr (lit ''FAILURE PATH'')]),
    (''title'', PyStr (lit ''Retry Tanpa Idempotency '' @ [0x2192] @ lit '' Double Charge'')),
    (''subtitle'', PyStr (lit ''Skenario: POST /payment, timeout, retry.'')),
    (''content_items'', lab28_items_07),
    (''mental_model'', PyStr (lit ''Timeout tidak menjamin operasi gagal; tanpa '' @
        lit ''deduplication dapat menyebabkan efek '' @ lit ''samping duplikat.'')),
    (''source_path'', PyStr (lit ''content/02-master-draft.md:124-132'')),
    (''slide_num'', PyStr (lit ''07 / 24'')),
    (''narrative'', PyStr (lit ''Demo menunjukkan request POST yang di'' @ [0x2011] @
        lit ''retry setelah timeout menghasilkan dua '' @
        lit ''entri pembayaran karena tidak ada kunci '' @ lit ''idempotent.'')),
    (''narrative_en'', PyStr (lit ''The demo shows a POST request retried after '' @
        lit ''a timeout creates two payment entries '' @
        lit ''because no idempotency key is used.'')),
    (''layout'', PyStr (lit ''cards''))]\<rparr>\<close>

definition lab28_items_08 :: pyval where [lab28_contents]:
  \<open>lab28_items_08 =
   PyList
   [PyDict
     [(''type'', PyStr (lit ''table'')),
      (''title'', PyStr (lit ''PERBANDINGAN'')),
      (''items'', PyList
        [PyStr (lit ''Mekanisme | Tujuan | Efek pada Latency | '' @
            lit ''Risiko Jika Tidak Digunakan''),
         PyStr (lit ''Timeout | Guardrail | Memotong kerja lama | '' @ lit ''Hanging workers''),
         PyStr (lit ''Retry + Jitter | Recoverability | Tambah '' @
            lit ''latency terkontrol | Retry storm''),
         PyStr (lit ''Circuit Breaker | Fail'' @ [0x2011] @
            lit ''fast | Cepat menolak request pada error '' @
            lit ''berulang | Cascading failures''),
         PyStr (lit ''Idempotency | Deduplication | Mencegah side'' @ [0x2011] @
            lit ''effect ganda | Double charge / duplicate '' @ lit ''write'')])]]\<close>

definition lab28_slide_08 :: pycall where [lab28_slides]:
  \<open>lab28_slide_08 =
   \<lparr>posargs = [],
  kwargs =
   [(''categories'', PyList
      [PyStr (lit ''COMPARISON'')]),
    (''title'', PyStr (lit ''Matriks Mekanisme Resiliensi'')),
    (''subtitle'', PyStr (lit ''Timeout, Retry, Circuit, Idempotency.'')),
    (''content_items'', lab28_items_08),
    (''mental_model'', PyStr (lit ''Setiap mekanisme menutup satu jenis '' @
        lit ''kegagalan: latency, error burst, atau side'' @ [0x2011] @ lit ''effect.'')),
    (''source_path'', PyStr (lit ''content/02-master-draft.md:190-202'')),
    (''slide_num'', PyStr (lit ''08 / 24'')),
    (''narrative'', PyStr (lit ''Tabel menegaskan bahwa kombinasi keempat '' @
        lit ''pola menutup celah utama pada sistem '' @ lit ''terdistribusi.'')),
    (''narrative_en'', PyStr (lit ''The table affirms that the combination of '' @
        lit ''these four patterns closes the primary '' @
        lit ''failure surfaces in distributed systems.'')),
    (''layout'', PyStr (lit ''table''))]\<rparr>\<close>

definition lab28_items_09 :: pyval where [lab28_contents]:
  \<open>lab28_items_09 =
   PyList
   [PyDict
     [(''type'', PyStr (lit ''cards'')),
      (''title'', PyStr (lit ''KEPUTUSAN'')),
      (''items'', PyList
        [PyDict
          [(''title'', PyStr (lit ''Timeout Budget'')),
           (''desc'', PyStr (lit ''Hitung P95/P99 latency, set budget < 0.5'' @ [0x202F, 0xD7, 0x202F] @
               lit ''target SLA.''))],
         PyDict
          [(''title'', PyStr (lit ''Retry Strategy'')),
           (''desc'', PyStr (lit ''Gunakan exponential backoff + full jitter, '' @ lit ''maxAttempts '' @
               [0x2264] @ lit '' 5.''))],
         PyDict
          [(''title'', PyStr (lit ''Circuit Breaker'')),
           (''desc'', PyStr (lit ''FailureThreshold 2, cooldown 50'' @ [0x202F] @ lit ''ms, half'' @
               [0x2011] @ lit ''open test 1.''))]])]]\<close>

definition lab28_slide_09 :: pycall where [lab28_slides]:
  \<open>lab28_slide_09 =
   \<lparr>posargs = [],
  kwargs =
   [(''categories'', PyList
      [PyStr (lit ''DECISION'')]),
    (''title'', PyStr (lit ''Tiga Keputusan Kunci Implementasi'')),
    (''subtitle'', PyStr (lit ''1'' @ [0xFE0F, 0x20E3] @ lit '' Timeout budget, 2'' @ [0xFE0F, 0x20E3] @
        lit '' Retry strategy, 3'' @ [0xFE0F, 0x20E3] @ lit '' Circuit state.'')),
    (''content_items'', lab28_items_09),
    (''mental_model'', PyStr (lit ''Keputusan ini menentukan trade'' @ [0x2011] @
        lit ''off latency vs availability.'')),
    (''source_path'', PyStr (lit ''content/02-master-draft.md:218-226'')),
    (''slide_num'', PyStr (lit ''09 / 24'')),
    (''narrative'', PyStr (lit ''Setiap keputusan dipilih berdasarkan data '' @
        lit ''observasi latency dan error rate pada '' @ lit ''sistem produksi.'')),
    (''narrative_en'', PyStr (lit ''Each decision is chosen based on observed '' @
        lit ''latency distribution and error rates in '' @ lit ''production.'')),
    (''layout'', PyStr (lit ''cards''))]\<rparr>\<close>

definition lab28_items_10 :: pyval where [lab28_contents]:
  \<open>lab28_items_10 =
   PyList
   [PyDict
     [(''type'', PyStr (lit ''code'')),
      (''title'', PyStr (lit ''Terminal'')),
      (''items'', PyList
        [PyStr (lit ''$ go run ./cmd/demo''),
         PyStr (lit ''Scenario 1: budget 50ms '' @ [0x2192] @ lit '' context deadline exceeded''),
         PyStr (lit ''Scenario 2: circuit opens after 2 failures '' @ [0x2192] @
            lit '' state=OPEN''),
         PyStr (lit ''Scenario 3: idempotent retry '' @ [0x2192] @ lit '' execution count=1'')])]]\<close>

definition lab28_slide_10 :: pycall where [lab28_slides]:
  \<open>lab28_slide_10 =
   \<lparr>posargs = [],
  kwargs =
   [(''categories'', PyList
      [PyStr (lit ''EVIDENCE'')]),
    (''title'', PyStr (lit ''Demo: Timeout & Circuit Breaker'')),
    (''subtitle'', PyStr (lit ''Output singkat menampilkan state '' @ lit ''transitions.'')),
    (''content_items'', lab28_items_10),
    (''mental_model'', PyStr (lit ''Log menunjukkan guardrail berfungsi sesuai '' @ lit ''harapan.'')),
    (''source_path'', PyStr (lit ''engineering/03-execution-result.md:1-10'')),
    (''slide_num'', PyStr (lit ''10 / 24'')),
    (''narrative'', PyStr (lit ''Demo mengeksekusi empat skenario; output '' @
        lit ''terminal memperlihatkan perubahan state '' @
        lit ''circuit dan jumlah eksekusi idempotent.'')),
    (''narrative_en'', PyStr (lit ''The demo runs four scenarios; terminal '' @
        lit ''output shows circuit state transitions and '' @
        lit ''idempotent execution count.'')),
    (''layout'', PyStr (lit ''code''))]\<rparr>\<close>

definition lab28_items_11 :: pyval where [lab28_contents]:
  \<open>lab28_items_11 =
   PyList
   [PyDict
     [(''type'', PyStr (lit ''cards'')),
      (''title'', PyStr (lit ''Batasan'')),
      (''items'', PyList
        [PyDict
          [(''title'', PyStr (lit ''Distribusi Latency Dinamis'')),
           (''desc'', PyStr (lit ''Tidak ada adaptasi timeout berbasis P99 '' @ lit ''secara real'' @
               [0x2011] @ lit ''time.''))],
         PyDict
          [(''title'', PyStr (lit ''Persisten Idempotency Store'')),
           (''desc'', PyStr (lit ''In'' @ [0x2011] @ lit ''memory store hilang saat crash; produksi '' @
               lit ''membutuhkan Redis/DB.''))],
         PyDict
          [(''title'', PyStr (lit ''Header Deadline HTTP'')),
           (''desc'', PyStr (lit ''Tidak ada standar tunggal, hanya contoh '' @ lit ''gRPC header.''))]])]]\<close>

definition lab28_slide_11 :: pycall where [lab28_slides]:
  \<open>lab28_slide_11 =
   \<lparr>posargs = [],
  kwargs =
   [(''categories'', PyList
      [PyStr (lit ''LIMITS'')]),
    (''title'', PyStr (lit ''YANG TIDAK DIBUKTIKAN'')),
    (''subtitle'', PyStr (lit ''Keterbatasan laboratorium.'')),
    (''content_items'', lab28_items_11),
    (''mental_model'', PyStr (lit ''Lab fokus pada pola di dalam satu proses Go.'')),
    (''source_path'', PyStr (lit ''content/02-master-draft.md:30-38'')),
    (''slide_num'', PyStr (lit ''11 / 24'')),
    (''narrative'', PyStr (lit ''Penelitian mengakui bahwa beberapa aspek '' @
        lit ''produksi tidak tercakup, seperti timeout '' @
        lit ''adaptif dan store persisten.'')),
    (''narrative_en'', PyStr (lit ''The research acknowledges that several '' @
        lit ''production aspects are omitted, such as '' @
        lit ''adaptive timeouts and persistent stores.'')),
    (''layout'', PyStr (lit ''cards''))]\<rparr>\<close>

definition lab28_items_12 :: pyval where [lab28_contents]:
  \<open>lab28_items_12 =
   PyList
   [PyDict
     [(''type'', PyStr (lit ''cards'')),
      (''title'', PyStr (lit ''PERTIMBANGAN'')),
      (''items'', PyList
        [PyDict
          [(''title'', PyStr (lit ''Timeout Ketat'')),
           (''desc'', PyStr (lit ''Mengurangi tail latency, tapi meningkatkan '' @ lit ''false'' @
               [0x2011] @ lit ''negative failures.''))],
         PyDict
          [(''title'', PyStr (lit ''Timeout Longgar'')),
           (''desc'', PyStr (lit ''Mencegah false failures, tapi meningkatkan '' @
               lit ''jumlah request terblokir.''))]])]]\<close>

definition lab28_slide_12 :: pycall where [lab28_slides]:
  \<open>lab28_slide_12 =
   \<lparr>posargs = [],
  kwargs =
   [(''categories'', PyList
      [PyStr (lit ''TRADEOFF'')]),
    (''title'', PyStr (lit ''Trade'' @ [0x2011] @ lit ''off Timeout vs Throughput'')),
    (''subtitle'', PyStr (lit ''Menurunkan budget mengurangi latency tetapi '' @
        lit ''meningkatkan reject rate.'')),
    (''content_items'', lab28_items_12),
    (''mental_model'', PyStr (lit ''Guardrail harus seimbang dengan SLA dan '' @ lit ''beban kerja.'')),
    (''source_path'', PyStr (lit ''content/02-master-draft.md:186-192'')),
    (''slide_num'', PyStr (lit ''12 / 24'')),
    (''narrative'', PyStr (lit ''Mengatur budget timeout memerlukan kompromi '' @
        lit ''antara latensi ekor dan tingkat penolakan '' @ lit ''yang dapat diterima.'')),
    (''narrative_en'', PyStr (lit ''Setting timeout budgets requires a '' @
        lit ''compromise between tail latency and '' @ lit ''acceptable rejection rates.'')),
    (''layout'', PyStr (lit ''cards''))]\<rparr>\<close>

definition lab28_items_13 :: pyval where [lab28_contents]:
  \<open>lab28_items_13 =
   PyList
   [PyDict
     [(''type'', PyStr (lit ''code'')),
      (''title'', PyStr (lit ''internal/circuit/circuit.go:108-126'')),
      (''items'', PyList
        [PyStr (lit ''func (b *Breaker) RecordFailure() {''),
         PyStr (lit ''    b.mu.Lock()''),
         PyStr (lit ''    defer b.mu.Unlock()''),
         PyStr (lit ''    if b.state == StateHalfOpen {''),
         PyStr (lit ''        b.state = StateOpen''),
         PyStr (lit ''        b.failures = 0''),
         PyStr (lit ''        b.successes = 0''),
         PyStr (lit ''        b.lastStateChg = time.Now()''),
         PyStr (lit ''    } else if b.state == StateClosed {''),
         PyStr (lit ''        b.failures++''),
         PyStr (lit ''        if b.failures >= '' @ lit ''b.cfg.FailureThreshold {''),
         PyStr (lit ''            b.state = StateOpen''),
         PyStr (lit ''            b.failures = 0''),
         PyStr (lit ''            b.successes = 0''),
         PyStr (lit ''            b.lastStateChg = time.Now()''),
         PyStr (lit ''        }''),
         PyStr (lit ''    }''),
         PyStr (lit ''}'')])]]\<close>

definition lab28_slide_13 :: pycall where [lab28_slides]:
  \<open>lab28_slide_13 =
   \<lparr>posargs = [],
  kwargs =
   [(''categories'', PyList
      [PyStr (lit ''CONCURRENCY'')]),
    (''title'', PyStr (lit ''Pipeline Validasi Konkuren dengan Mutex'')),
    (''subtitle'', PyStr (lit ''Retrier '' @ [0x2192] @ lit '' Circuit '' @ [0x2192] @
        lit '' Idempotency Store.'')),
    (''content_items'', lab28_items_13),
    (''mental_model'', PyStr (lit ''RWMutex melindungi state machine dari race '' @ lit ''conditions.'')),
    (''source_path'', PyStr (lit ''internal/circuit/circuit.go:108-126'')),
    (''slide_num'', PyStr (lit ''13 / 24'')),
    (''narrative'', PyStr (lit ''Circuit breaker menggunakan sync.RWMutex '' @
        lit ''untuk mengamankan transisi state di antara '' @ lit ''banyak goroutine.'')),
    (''narrative_en'', PyStr (lit ''The circuit breaker employs sync.RWMutex to '' @
        lit ''safeguard state transitions across many '' @ lit ''goroutine.'')),
    (''layout'', PyStr (lit ''code''))]\<rparr>\<close>

definition lab28_items_14 :: pyval where [lab28_contents]:
  \<open>lab28_items_14 =
   PyList
   [PyDict
     [(''type'', PyStr (lit ''cards'')),
      (''title'', PyStr (lit ''PERBANDINGAN'')),
      (''items'', PyList
        [PyDict
          [(''title'', PyStr (lit ''Tanpa Guardrails'')),
           (''desc'', PyStr (lit ''Latency 60'' @ [0x202F] @ lit ''s '' @ [0x2192] @
               lit '' pool terisi '' @ [0x2192] @
               lit '' 503 Service Unavailable pada endpoint lain.''))],
         PyDict
          [(''title'', PyStr (lit ''Dengan Guardrails'')),
           (''desc'', PyStr (lit ''Timeout 30'' @ [0x202F] @ lit ''ms '' @ [0x2192] @
               lit '' request dibatalkan, circuit opens, '' @
               lit ''downstream tidak dibebani.''))]])]]\<close>

definition lab28_slide_14 :: pycall where [lab28_slides]:
  \<open>lab28_slide_14 =
   \<lparr>posargs = [],
  kwargs =
   [(''categories'', PyList
      [PyStr (lit ''COMPARISON'')]),
    (''title'', PyStr (lit ''Sebelum vs Sesudah Guardrails'')),
    (''subtitle'', PyStr (lit ''Tanpa vs dengan timeout & circuit.'')),
    (''content_items'', lab28_items_14),
    (''mental_model'', PyStr (lit ''Guardrails memotong beban berlebih di '' @ lit ''sumbernya.'')),
    (''source_path'', PyStr (lit ''content/02-master-draft.md:140-148'')),
    (''slide_num'', PyStr (lit ''14 / 24'')),
    (''narrative'', PyStr (lit ''Perbandingan menunjukkan bahwa penambahan '' @
        lit ''timeout, circuit, dan idempotency membuat '' @
        lit ''sistem tetap responsif meski dependency '' @ lit ''melambat.'')),
    (''narrative_en'', PyStr (lit ''The comparison shows that adding timeout, '' @
        lit ''circuit, and idempotency keeps the system '' @
        lit ''responsive even when a downstream becomes '' @ lit ''slow.'')),
    (''layout'', PyStr (lit ''cards''))]\<rparr>\<close>

definition lab28_items_15 :: pyval where [lab28_contents]:
  \<open>lab28_items_15 =
   PyList
   [PyDict
     [(''type'', PyStr (lit ''code'')),
      (''title'', PyStr (lit ''internal/deadline/deadline_test.go:30-38'')),
      (''items'', PyList
        [PyStr (lit ''func TestExecuteWithBudget_ParentTimeoutInhe'' @
            lit ''rited(t *testing.T) {''),
         PyStr (lit ''    ctx, cancel := '' @
            lit ''context.WithTimeout(context.Background(), '' @
            lit ''20*time.Millisecond)''),
         PyStr (lit ''    defer cancel()''),
         PyStr (lit ''    err := ExecuteWithBudget(ctx, '' @
            lit ''500*time.Millisecond, func(ctx '' @ lit ''context.Context) error {''),
         PyStr (lit ''        time.Sleep(100*time.Millisecond)''),
         PyStr (lit ''        return nil''),
         PyStr (lit ''    })''),
         PyStr (lit ''    assert.Equal(t, '' @ lit ''context.DeadlineExceeded, err)''),
         PyStr (lit ''}'')])]]\<close>

definition lab28_slide_15 :: pycall where [lab28_slides]:
  \<open>lab28_slide_15 =
   \<lparr>posargs = [],
  kwargs =
   [(''categories'', PyList
      [PyStr (lit ''EVIDENCE'')]),
    (''title'', PyStr (lit ''Test ExecuteWithBudget '' @ [0x2013] @ lit '' Timeout Inheritance'')),
    (''subtitle'', PyStr (lit ''Bukti parent deadline membatalkan child.'')),
    (''content_items'', lab28_items_15),
    (''mental_model'', PyStr (lit ''Child deadline tidak pernah melebihi parent '' @ lit ''deadline.'')),
    (''source_path'', PyStr (lit ''internal/deadline/deadline_test.go:30-38'')),
    (''slide_num'', PyStr (lit ''15 / 24'')),
    (''narrative'', PyStr (lit ''Test ini membuktikan bahwa child context '' @
        lit ''akan dibatalkan segera ketika parent '' @
        lit ''deadline tercapai, meski budget lokal lebih '' @ lit ''besar.'')),
    (''narrative_en'', PyStr (lit ''This test proves that a child context is '' @
        lit ''cancelled as soon as the parent deadline is '' @
        lit ''reached, even if the local budget is larger.'')),
    (''layout'', PyStr (lit ''code''))]\<rparr>\<close>

definition lab28_items_16 :: pyval where [lab28_contents]:
  \<open>lab28_items_16 =
   PyList
   [PyDict
     [(''type'', PyStr (lit ''code'')),
      (''title'', PyStr (lit ''internal/retry/retry_test.go:12-24'')),
      (''items'', PyList
        [PyStr (lit ''func TestRetrier_JitterBoundsAndZeroConfig(t'' @ lit '' *testing.T) {''),
         PyStr (lit ''    r := NewRetrier(Config{})''),
         PyStr (lit ''    for i := 1; i <= 5; i++ {''),
         PyStr (lit ''        d := r.CalculateBackoff(i)''),
         PyStr (lit ''        assert.GreaterOrEqual(t, d, '' @ lit ''time.Duration(0))''),
         PyStr (lit ''        assert.LessOrEqual(t, d, '' @ lit ''r.cfg.MaxBackoff)''),
         PyStr (lit ''    }''),
         PyStr (lit ''}'')])]]\<close>

definition lab28_slide_16 :: pycall where [lab28_slides]:
  \<open>lab28_slide_16 =
   \<lparr>posargs = [],
  kwargs =
   [(''categories'', PyList
      [PyStr (lit ''EVIDENCE'')]),
    (''title'', PyStr (lit ''Test Retrier '' @ [0x2013] @ lit '' Jitter Bounds & MaxAttempts'')),
    (''subtitle'', PyStr (lit ''Bukti full jitter dan pengulangan maksimal.'')),
    (''content_items'', lab28_items_16),
    (''mental_model'', PyStr (lit ''Backoff selalu berada dalam rentang [0, '' @ lit ''maxBackoff].'')),
    (''source_path'', PyStr (lit ''internal/retry/retry_test.go:12-24'')),
    (''slide_num'', PyStr (lit ''16 / 24'')),
    (''narrative'', PyStr (lit ''Test ini memastikan bahwa setiap nilai '' @
        lit ''backoff tidak negatif dan tidak melebihi '' @
        lit ''batas maksimum, serta konfigurasi nol '' @ lit ''menggunakan nilai default.'')),
    (''narrative_en'', PyStr (lit ''This test ensures every backoff value is non'' @ [0x2011] @
        lit ''negative and does not exceed the maximum '' @
        lit ''bound, and that zero config uses defaults.'')),
    (''layout'', PyStr (lit ''code''))]\<rparr>\<close>

definition lab28_items_17 :: pyval where [lab28_contents]:
  \<open>lab28_items_17 =
   PyList
   [PyDict
     [(''type'', PyStr (lit ''code'')),
      (''title'', PyStr (lit ''internal/circuit/circuit_test.go:5-20'')),
      (''items'', PyList
        [PyStr (lit ''func TestCircuitBreaker_StateTransitions(t '' @ lit ''*testing.T) {''),
         PyStr (lit ''    cb := NewBreaker(Config{FailureThreshold'' @
            lit '': 2, SuccessThreshold: 2, Cooldown: '' @ lit ''50*time.Millisecond})''),
         PyStr (lit ''    cb.RecordFailure()''),
         PyStr (lit ''    cb.RecordFailure()''),
         PyStr (lit ''    assert.Equal(t, StateOpen, cb.State())''),
         PyStr (lit ''    time.Sleep(60*time.Millisecond)''),
         PyStr (lit ''    assert.Equal(t, StateHalfOpen, '' @ lit ''cb.State())''),
         PyStr (lit ''    cb.RecordSuccess()''),
         PyStr (lit ''    cb.RecordSuccess()''),
         PyStr (lit ''    assert.Equal(t, StateClosed, cb.State())''),
         PyStr (lit ''}'')])]]\<close>

definition lab28_slide_17 :: pycall where [lab28_slides]:
  \<open>lab28_slide_17 =
   \<lparr>posargs = [],
  kwargs =
   [(''categories'', PyList
      [PyStr (lit ''EVIDENCE'')]),
    (''title'', PyStr (lit ''Test Circuit Breaker '' @ [0x2013] @ lit '' State Transitions'')),
    (''subtitle'', PyStr (lit ''Bukti CLOSED '' @ [0x2192] @ lit '' OPEN '' @ [0x2192] @ lit '' HALF_OPEN '' @
        [0x2192] @ lit '' CLOSED.'')),
    (''content_items'', lab28_items_17),
    (''mental_model'', PyStr (lit ''State machine berubah hanya di bawah lock.'')),
    (''source_path'', PyStr (lit ''internal/circuit/circuit_test.go:5-20'')),
    (''slide_num'', PyStr (lit ''17 / 24'')),
    (''narrative'', PyStr (lit ''Test ini mengonfirmasi transisi state yang '' @
        lit ''diharapkan: dua kegagalan membuka circuit, '' @
        lit ''cooldown membawa ke half'' @ [0x2011] @
        lit ''open, lalu dua kesuksesan menutupnya.'')),
    (''narrative_en'', PyStr (lit ''This test confirms the expected state '' @
        lit ''transitions: two failures open the circuit, '' @
        lit ''cooldown brings it to half'' @ [0x2011] @
        lit ''open, then two successes close it.'')),
    (''layout'', PyStr (lit ''code''))]\<rparr>\<close>

definition lab28_items_18 :: pyval where [lab28_contents]:
  \<open>lab28_items_18 =
   PyList
   [PyDict
     [(''type'', PyStr (lit ''code'')),
      (''title'', PyStr (lit ''internal/idempotency/idempotency_test.go:8-2'' @ lit ''2'')),
      (''items'', PyList
        [PyStr (lit ''func TestStore_ConcurrentAccess(t '' @ lit ''*testing.T) {''),
         PyStr (lit ''    store := NewStore(time.Minute)''),
         PyStr (lit ''    var wg sync.WaitGroup''),
         PyStr (lit ''    for i := 0; i < 50; i++ {''),
         PyStr (lit ''        wg.Add(1)''),
         PyStr (lit ''        go func(id int) {''),
         PyStr (lit ''            defer wg.Done()''),
         PyStr (lit ''            store.Set(fmt.Sprintf("key-%d", '' @ lit ''id), "response")''),
         PyStr (lit ''            val, ok := '' @ lit ''store.Get(fmt.Sprintf("key-%d", id))''),
         PyStr (lit ''            assert.True(t, ok)''),
         PyStr (lit ''            assert.Equal(t, "response", val)''),
         PyStr (lit ''        }(i)''),
         PyStr (lit ''    }''),
         PyStr (lit ''    wg.Wait()''),
         PyStr (lit ''}'')])]]\<close>

definition lab28_slide_18 :: pycall where [lab28_slides]:
  \<open>lab28_slide_18 =
   \<lparr>posargs = [],
  kwargs =
   [(''categories'', PyList
      [PyStr (lit ''EVIDENCE'')]),
    (''title'', PyStr (lit ''Test Idempotency Store '' @ [0x2013] @ lit '' Concurrent Access'')),
    (''subtitle'', PyStr (lit ''50 goroutine konkuren, race detector PASS.'')),
    (''content_items'', lab28_items_18),
    (''mental_model'', PyStr (lit ''Mutex mengamankan operasi Get/Set/TTL '' @ lit ''secara konkuren.'')),
    (''source_path'', PyStr (lit ''internal/idempotency/idempotency_test.go:8-2'' @ lit ''2'')),
    (''slide_num'', PyStr (lit ''18 / 24'')),
    (''narrative'', PyStr (lit ''Test ini menjalankan 50 goroutine yang '' @
        lit ''melakukan Get/Set secara acak; race '' @
        lit ''detector tidak melaporkan kesalahan.'')),
    (''narrative_en'', PyStr (lit ''This test runs 50 goroutines performing '' @
        lit ''random Get/Set operations; the race '' @ lit ''detector reports no errors.'')),
    (''layout'', PyStr (lit ''code''))]\<rparr>\<close>

definition lab28_items_19 :: pyval where [lab28_contents]:
  \<open>lab28_items_19 =
   PyList
   [PyDict
     [(''type'', PyStr (lit ''code'')),
      (''title'', PyStr (lit ''tests/integration_test.go:14-42'')),
      (''items'', PyList
        [PyStr (lit ''func TestIntegration_RetryWithCircuitBreaker'' @ lit ''(t *testing.T) {''),
         PyStr (lit ''    cb := circuit.NewBreaker(circuit.Config{'' @
            lit ''FailureThreshold: 2, ...})''),
         PyStr (lit ''    r := retry.NewRetrier(retry.Config{MaxAt'' @ lit ''tempts: 4, ...})''),
         PyStr (lit ''    attempts := 0''),
         PyStr (lit ''    err := r.Do(context.Background(), '' @
            lit ''func(ctx context.Context) error {''),
         PyStr (lit ''        return cb.Execute(func() error {''),
         PyStr (lit ''            attempts++''),
         PyStr (lit ''            return errors.New("backend '' @ lit ''down")''),
         PyStr (lit ''        })''),
         PyStr (lit ''    })''),
         PyStr (lit ''    assert.NotNil(t, err)''),
         PyStr (lit ''    assert.Equal(t, circuit.StateOpen, '' @ lit ''cb.State())''),
         PyStr (lit ''}'')])]]\<close>

definition lab28_slide_19 :: pycall where [lab28_slides]:
  \<open>lab28_slide_19 =
   \<lparr>posargs = [],
  kwargs =
   [(''categories'', PyList
      [PyStr (lit ''EVIDENCE'')]),
    (''title'', PyStr (lit ''Integration '' @ [0x2013] @ lit '' Retry dengan Circuit Breaker'')),
    (''subtitle'', PyStr (lit ''Backend selalu gagal, circuit terbuka '' @ lit ''setelah 2 attempt.'')),
    (''content_items'', lab28_items_19),
    (''mental_model'', PyStr (lit ''Circuit breaker memotong rantai retry '' @ lit ''setelah threshold.'')),
    (''source_path'', PyStr (lit ''tests/integration_test.go:14-42'')),
    (''slide_num'', PyStr (lit ''19 / 24'')),
    (''narrative'', PyStr (lit ''Integrasi ini membuktikan bahwa setelah dua '' @ lit ''kegagalan berturut'' @
        [0x2011] @ lit ''turut, circuit breaker menolak semua '' @
        lit ''attempt berikutnya tanpa memanggil backend.'')),
    (''narrative_en'', PyStr (lit ''This integration proves that after two '' @
        lit ''consecutive failures, the circuit breaker '' @
        lit ''rejects all subsequent attempts without '' @ lit ''calling the backend.'')),
    (''layout'', PyStr (lit ''code''))]\<rparr>\<close>

definition lab28_items_20 :: pyval where [lab28_contents]:
  \<open>lab28_items_20 =
   PyList
   [PyDict
     [(''type'', PyStr (lit ''cards'')),
      (''title'', PyStr (lit ''CHECKLIST'')),
      (''items'', PyList
        [PyDict
          [(''title'', PyStr (lit ''1. Define timeout budgets'')),
           (''desc'', PyStr (lit ''Berbasis P95 latensi layanan.''))],
         PyDict
          [(''title'', PyStr (lit ''2. Implement Retry with jitter'')),
           (''desc'', PyStr (lit ''Gunakan konfigurasi base/backoff, '' @ lit ''maxAttempts '' @
               [0x2264] @ lit ''5.''))],
         PyDict
          [(''title'', PyStr (lit ''3. Add circuit breaker'')),
           (''desc'', PyStr (lit ''Set failureThreshold & cooldown sesuai SLA.''))],
         PyDict
          [(''title'', PyStr (lit ''4. Add idempotency store'')),
           (''desc'', PyStr (lit ''Redis atau DB dengan TTL persisten.''))],
         PyDict
          [(''title'', PyStr (lit ''5. Propagate context deadlines'')),
           (''desc'', PyStr (lit ''Pastikan semua downstream menerima context.''))]])]]\<close>

definition lab28_slide_20 :: pycall where [lab28_slides]:
  \<open>lab28_slide_20 =
   \<lparr>posargs = [],
  kwargs =
   [(''categories'', PyList
      [PyStr (lit ''CHECKLIST'')]),
    (''title'', PyStr (lit ''Checklist Deploy Guardrails'')),
    (''subtitle'', PyStr (lit ''Langkah'' @ [0x2011] @ lit ''langkah produksi.'')),
    (''content_items'', lab28_items_20),
    (''mental_model'', PyStr (lit ''Deploy langkah demi langkah memastikan '' @ lit ''semua guardrails aktif.'')),
    (''source_path'', PyStr (lit ''content/02-master-draft.md:212-221'')),
    (''slide_num'', PyStr (lit ''20 / 24'')),
    (''narrative'', PyStr (lit ''Checklist ini merangkum praktik terbaik '' @
        lit ''implementasi guardrails pada sistem '' @ lit ''terdistribusi.'')),
    (''narrative_en'', PyStr (lit ''This checklist summarizes best practices '' @
        lit ''for implementing guardrails on distributed '' @ lit ''systems.'')),
    (''layout'', PyStr (lit ''cards''))]\<rparr>\<close>

definition lab28_items_21 :: pyval where [lab28_contents]:
  \<open>lab28_items_21 =
   PyList
   [PyDict
     [(''type'', PyStr (lit ''cards'')),
      (''title'', PyStr (lit ''REPRODUKSI'')),
      (''items'', PyList
        [PyDict
          [(''title'', PyStr (lit ''1. Set timeout 30s'')),
           (''desc'', PyStr (lit ''Terlalu long, worker terblokir.''))],
         PyDict
          [(''title'', PyStr (lit ''2. Retry tanpa jitter'')),
           (''desc'', PyStr (lit ''Semua client retry bersamaan '' @ [0x2192] @ lit '' storm.''))],
         PyDict
          [(''title'', PyStr (lit ''3. Tanpa idempotency'')),
           (''desc'', PyStr (lit ''Operasi mutasi dieksekusi dua kali.''))]])]]\<close>

definition lab28_slide_21 :: pycall where [lab28_slides]:
  \<open>lab28_slide_21 =
   \<lparr>posargs = [],
  kwargs =
   [(''categories'', PyList
      [PyStr (lit ''ANTIPATTERN'')]),
    (''title'', PyStr (lit ''Anti'' @ [0x2011] @ lit ''pattern: Timeout = Failure'')),
    (''subtitle'', PyStr (lit ''Menyebabkan retry berbahaya dan double'' @ [0x2011] @ lit ''charge.'')),
    (''content_items'', lab28_items_21),
    (''mental_model'', PyStr (lit ''Kegagalan ini muncul ketika guardrails '' @ lit ''tidak diterapkan.'')),
    (''source_path'', PyStr (lit ''content/02-master-draft.md:190-196'')),
    (''slide_num'', PyStr (lit ''21 / 24'')),
    (''narrative'', PyStr (lit ''Contoh anti'' @ [0x2011] @
        lit ''pattern menegaskan pentingnya mengamankan '' @ lit ''setiap lapisan.'')),
    (''narrative_en'', PyStr (lit ''The anti'' @ [0x2011] @ lit ''pattern example underscores the need to '' @
        lit ''secure each layer.'')),
    (''layout'', PyStr (lit ''cards''))]\<rparr>\<close>

definition lab28_items_22 :: pyval where [lab28_contents]:
  \<open>lab28_items_22 =
   PyList
   [PyDict
     [(''type'', PyStr (lit ''code'')),
      (''title'', PyStr (lit ''Deploy'')),
      (''items'', PyList
        [PyStr (lit ''go get github.com/lukman-ss/timeoutguard''),
         PyStr (lit ''go run ./cmd/demo --scenario=all'')])]]\<close>

definition lab28_slide_22 :: pycall where [lab28_slides]:
  \<open>lab28_slide_22 =
   \<lparr>posargs = [],
  kwargs =
   [(''categories'', PyList
      [PyStr (lit ''TAKEAWAY'')]),
    (''title'', PyStr (lit ''Praktis: Satu Perintah Deploy Guardrails'')),
    (''subtitle'', PyStr (lit ''Gunakan go'' @ [0x2011] @ lit ''run demo atau integrate libs.'')),
    (''content_items'', lab28_items_22),
    (''mental_model'', PyStr (lit ''Integrasi satu paket membawa semua pola.'')),
    (''source_path'', PyStr (lit ''cmd/demo/main.go:1-10'')),
    (''slide_num'', PyStr (lit ''22 / 24'')),
    (''narrative'', PyStr (lit ''Dengan menambahkan modul timeoutguard, '' @
        lit ''aplikasi langsung dapat memakai context '' @
        lit ''deadline, retry, circuit, dan idempotency.'')),
    (''narrative_en'', PyStr (lit ''By adding the timeoutguard module, the '' @
        lit ''application instantly gains context '' @
        lit ''deadline, retry, circuit, and idempotency '' @ lit ''capabilities.'')),
    (''layout'', PyStr (lit ''code''))]\<rparr>\<close>

definition lab28_items_23 :: pyval where [lab28_contents]:
  \<open>lab28_items_23 =
   PyList
   [PyDict
     [(''type'', PyStr (lit ''cards'')),
      (''title'', PyStr (lit ''PRINSIP'')),
      (''items'', PyList
        [PyDict
          [(''title'', PyStr (lit ''Explicit Contracts'')),
           (''desc'', PyStr (lit ''Setiap API menyatakan timeout & idempotency '' @ lit ''semantics.''))],
         PyDict
          [(''title'', PyStr (lit ''Observability Built'' @ [0x2011] @ lit ''in'')),
           (''desc'', PyStr (lit ''Metrics untuk deadline breaches, circuit '' @
               lit ''state, retry count.''))],
         PyDict
          [(''title'', PyStr (lit ''Evolutionary Safety'')),
           (''desc'', PyStr (lit ''Tambah guardrails tanpa mengubah layanan '' @ lit ''klien.''))]])]]\<close>

definition lab28_slide_23 :: pycall where [lab28_slides]:
  \<open>lab28_slide_23 =
   \<lparr>posargs = [],
  kwargs =
   [(''categories'', PyList
      [PyStr (lit ''PRINCIPLE'')]),
    (''title'', PyStr (lit ''Prinsip: Guardrails Sebagai Kontrak Layanan'')),
    (''subtitle'', PyStr (lit ''Timeout, retry, circuit, idempotency = '' @ lit ''Service'' @ [0x2011] @
        lit ''Level Contract.'')),
    (''content_items'', lab28_items_23),
    (''mental_model'', PyStr (lit ''Guardrails menyediakan SLA yang dapat di'' @ [0x2011] @
        lit ''monitor dan di'' @ [0x2011] @ lit ''tweak.'')),
    (''source_path'', PyStr (lit ''content/02-master-draft.md:226-236'')),
    (''slide_num'', PyStr (lit ''23 / 24'')),
    (''narrative'', PyStr (lit ''Prinsip ini menjadikan guardrails bagian '' @
        lit ''resmi dari kontrak API, meningkatkan '' @
        lit ''kepercayaan dan evolusi layanan.'')),
    (''narrative_en'', PyStr (lit ''This principle makes guardrails a formal '' @
        lit ''part of the API contract, boosting trust '' @ lit ''and service evolution.'')),
    (''layout'', PyStr (lit ''cards''))]\<rparr>\<close>

definition lab28_items_24 :: pyval where [lab28_contents]:
  \<open>lab28_items_24 =
   PyList
   [PyDict
     [(''type'', PyStr (lit ''cards'')),
      (''title'', PyStr (lit ''INFO'')),
      (''items'', PyList
        [PyDict
          [(''title'', PyStr (lit ''Repo'')),
           (''desc'', PyStr lab28_REPO_URL)],
         PyDict
          [(''title'', PyStr (lit ''Commit'')),
           (''desc'', PyStr lab28_COMMIT_SHA)],
         PyDict
          [(''title'', PyStr (lit ''Author'')),
           (''desc'', PyStr lab28_AUTHOR)]])]]\<close>

definition lab28_slide_24 :: pycall where [lab28_slides]:
  \<open>lab28_slide_24 =
   \<lparr>posargs = [],
  kwargs =
   [(''categories'', PyList
      [PyStr (lit ''CLOSING'')]),
    (''title'', PyStr (lit ''Terima Kasih'')),
    (''subtitle'', PyStr (lit ''Repositori, commit, dan kredit.'')),
    (''content_items'', lab28_items_24),
    (''mental_model'', PyStr []),
    (''source_path'', PyStr []),
    (''slide_num'', PyStr (lit ''24 / 24'')),
    (''narrative'', PyStr (lit ''Semoga konsep guardrails membantu Anda '' @
        lit ''merancang layanan yang tahan terhadap '' @ lit ''ketergantungan lambat.'')),
    (''narrative_en'', PyStr (lit ''Hope these guardrail concepts help you '' @
        lit ''design services resilient to slow '' @ lit ''dependencies.'')),
    (''layout'', PyStr (lit ''cards''))]\<rparr>\<close>

definition lab28_calls :: "pycall list" where
  "lab28_calls =
    [lab28_slide_01, lab28_slide_02, lab28_slide_03, lab28_slide_04, lab28_slide_05,
     lab28_slide_06, lab28_slide_07, lab28_slide_08, lab28_slide_09, lab28_slide_10,
     lab28_slide_11, lab28_slide_12, lab28_slide_13, lab28_slide_14, lab28_slide_15,
     lab28_slide_16, lab28_slide_17, lab28_slide_18, lab28_slide_19, lab28_slide_20,
     lab28_slide_21, lab28_slide_22, lab28_slide_23, lab28_slide_24]"

definition lab28_deck :: deck where
  "lab28_deck =
    \<lparr>add_slide = lab28_add_slide, lab_no = lab28_LAB_NO, title_id = lab28_TITLE_ID, calls = lab28_calls\<rparr>"

section \<open>Checks of the calls\<close>

lemma lab28_shapes:
  "\<forall>c \<in> set lab28_calls. shape_of c \<in> set
    [(0, [''categories'', ''title'', ''subtitle'', ''content_items'', ''mental_model'',
      ''source_path'', ''slide_num'', ''narrative'', ''narrative_en'', ''layout''])]"
  by (simp only: lab28_calls_def lab28_slides shape_eval cong: pyval_opaque)

lemma lab28_calls_ok: "\<forall>c \<in> set lab28_calls. call_ok sig_layout c"
  by (rule calls_ok_by_shapes [OF lab28_shapes])
    (simp add: shape_ok_def param_names_def signature_defs core_params_def)

lemma lab28_labels: "map (\<lambda>c. value_of sig_layout c ''slide_num'') lab28_calls = labels_24"
  by (simp only: lab28_calls_def lab28_slides keyword_eval labels_24_eval cong: pyval_opaque)

lemma lab28_contents_of:
  "map (\<lambda>c. value_of sig_layout c ''content_items'') lab28_calls =
    [lab28_items_01, lab28_items_02, lab28_items_03, lab28_items_04, lab28_items_05,
     lab28_items_06, lab28_items_07, lab28_items_08, lab28_items_09, lab28_items_10,
     lab28_items_11, lab28_items_12, lab28_items_13, lab28_items_14, lab28_items_15,
     lab28_items_16, lab28_items_17, lab28_items_18, lab28_items_19, lab28_items_20,
     lab28_items_21, lab28_items_22, lab28_items_23, lab28_items_24]"
  by (simp only: lab28_calls_def lab28_slides keyword_eval cong: pyval_opaque)

lemma lab28_items: "item_defects sig_layout lab28_calls = []"
  by (simp only: item_defects_def lab28_contents_of)
    (simp add: lab28_contents item_eval cong: pystr_opaque)

end
