(* ===== verification/Deck29.thy ===== *)
theory Deck29
  imports DeckContract
begin

text \<open>
  The publication definition of lab 29, \<^verbatim>\<open>labs/29-saga-pattern/result/content_def.py\<close>:
  its module constants, every \<open>add_slide\<close> call in order (\<open>lab29_slide_01\<close> is the first),
  and the module as a whole (\<open>lab29_deck\<close>). Long strings are split into pieces that are
  concatenated; a character outside ASCII is its code point.
\<close>

named_theorems lab29_slides \<open>the add_slide calls of lab 29\<close>
named_theorems lab29_contents \<open>their content_items arguments\<close>

definition lab29_OUTPUT_DIR :: pystr where
  \<open>lab29_OUTPUT_DIR = lit ''labs/29-saga-pattern/result''\<close>

definition lab29_CHROME_BIN :: pystr where
  \<open>lab29_CHROME_BIN = lit ''/Applications/Google '' @ lit ''Chrome.app/Contents/MacOS/Google Chrome''\<close>

definition lab29_REPO_URL :: pystr where
  \<open>lab29_REPO_URL = lit ''https://github.com/lukman-ss/software-engine'' @
    lit ''ering-lab/tree/main/labs/29-saga-pattern''\<close>

definition lab29_COMMIT_SHA :: pystr where
  \<open>lab29_COMMIT_SHA = lit ''ba4b6216da6a06dee61959231d124cd44085bbf5''\<close>

definition lab29_LAB_NO :: pystr where
  \<open>lab29_LAB_NO = lit ''29''\<close>

definition lab29_SLUG :: pystr where
  \<open>lab29_SLUG = lit ''saga-pattern''\<close>

definition lab29_TITLE_ID :: pystr where
  \<open>lab29_TITLE_ID = lit ''Saga Pattern''\<close>

definition lab29_SUBTITLE_ID :: pystr where
  \<open>lab29_SUBTITLE_ID = lit ''Mengelola Transaksi Terdistribusi Tanpa '' @
    lit ''Two-Phase Commit di Microservices''\<close>

definition lab29_TITLE_EN :: pystr where
  \<open>lab29_TITLE_EN = lit ''Saga Pattern''\<close>

definition lab29_SUBTITLE_EN :: pystr where
  \<open>lab29_SUBTITLE_EN = lit ''Distributed Transaction Management Without '' @
    lit ''Two-Phase Commit in Microservices''\<close>

definition lab29_AUTHOR :: pystr where
  \<open>lab29_AUTHOR = lit ''Lukman / lukman-ss''\<close>

definition lab29_COVER_IMAGE_PATH :: pystr where
  \<open>lab29_COVER_IMAGE_PATH = lit ''labs/29-saga-pattern/result/image-cover/cove'' @ lit ''r_art.jpg''\<close>

definition lab29_DARK_NAVY :: pystr where
  \<open>lab29_DARK_NAVY = lit ''0b1b2d''\<close>

definition lab29_TEAL :: pystr where
  \<open>lab29_TEAL = lit ''087f76''\<close>

definition lab29_CREAM :: pystr where
  \<open>lab29_CREAM = lit ''f4f1e8''\<close>

definition lab29_WHITE :: pystr where
  \<open>lab29_WHITE = lit ''ffffff''\<close>

definition lab29_SLATE :: pystr where
  \<open>lab29_SLATE = lit ''52606b''\<close>

definition lab29_ORANGE :: pystr where
  \<open>lab29_ORANGE = lit ''d97706''\<close>

definition lab29_RED :: pystr where
  \<open>lab29_RED = lit ''dc2626''\<close>

definition lab29_GREEN :: pystr where
  \<open>lab29_GREEN = lit ''16a34a''\<close>

definition lab29_add_slide :: "pycall \<Rightarrow> pyval list \<Rightarrow> (pyexc, pyval list) res" where
  "lab29_add_slide = add_slide_layout_en"

definition lab29_items_01 :: pyval where [lab29_contents]:
  \<open>lab29_items_01 =
   PyList
   [PyDict
     [(''type'', PyStr (lit ''cover'')),
      (''title'', PyStr []),
      (''items'', PyList
        [PyStr (lit ''Retro CRT monitor menampilkan sequence '' @
            lit ''diagram Orkestrasi Saga''),
         PyStr (lit ''Diagram LIFO compensation rollback dengan '' @
            lit ''panah merah dan hijau''),
         PyStr (lit ''Penulis: '' @ lab29_AUTHOR)])]]\<close>

definition lab29_slide_01 :: pycall where [lab29_slides]:
  \<open>lab29_slide_01 =
   \<lparr>posargs = [],
  kwargs =
   [(''categories'', PyList
      [PyStr (lit ''COVER'')]),
    (''title'', PyStr lab29_TITLE_ID),
    (''subtitle'', PyStr lab29_SUBTITLE_ID),
    (''content_items'', lab29_items_01),
    (''mental_model'', PyStr (lit ''Saga pattern replaces 2PC with independent '' @
        lit ''local transactions and compensating '' @ lit ''rollbacks.'')),
    (''source_path'', PyStr lab29_COVER_IMAGE_PATH),
    (''slide_num'', PyStr (lit ''01 / 24'')),
    (''layout'', PyStr (lit ''cover''))]\<rparr>\<close>

definition lab29_items_02 :: pyval where [lab29_contents]:
  \<open>lab29_items_02 =
   PyList
   [PyDict
     [(''type'', PyStr (lit ''cards'')),
      (''title'', PyStr (lit ''MASALAH DISTRIBUSI TRANSAKSI'')),
      (''items'', PyList
        [PyDict
          [(''title'', PyStr (lit ''Database Per-Service'')),
           (''desc'', PyStr (lit ''Order, Payment, dan Inventory terpisah; '' @
               lit ''tidak ada shared transaction boundary antar '' @ lit ''layanan.''))],
         PyDict
          [(''title'', PyStr (lit ''Two-Phase Commit Rapuh'')),
           (''desc'', PyStr (lit ''2PC mengunci semua database secara sinkron '' @
               lit ''hingga seluruh peserta setuju '' @ [0x2014] @
               lit '' blocking dan lambat.''))],
         PyDict
          [(''title'', PyStr (lit ''Partisi Jaringan Fatal'')),
           (''desc'', PyStr (lit ''Satu node down mengunci seluruh transaksi '' @
               lit ''global; availability menurun drastis di '' @
               lit ''bawah network partition.''))]])]]\<close>

definition lab29_slide_02 :: pycall where [lab29_slides]:
  \<open>lab29_slide_02 =
   \<lparr>posargs = [],
  kwargs =
   [(''categories'', PyList
      [PyStr (lit ''PROBLEM''),
       PyStr (lit ''DISTRIBUTED TRANSACTION'')]),
    (''title'', PyStr (lit ''Ketika Database Terpisah Tidak Bisa '' @ lit ''Berkomitmen Bersama'')),
    (''subtitle'', PyStr (lit ''Setiap layanan memiliki database sendiri '' @ [0x2014] @
        lit '' transaksi ACID klasik runtuh di boundary '' @ lit ''microservice.'')),
    (''content_items'', lab29_items_02),
    (''narrative'', PyStr (lit ''Di arsitektur microservices modern, setiap '' @
        lit ''service mengelola database sendiri. Saat '' @
        lit ''flow bisnis melibatkan order-creation, '' @ lit ''payment-processing, dan '' @
        lit ''inventory-reservation secara berurutan, '' @
        lit ''transaksi ACID klasik yang mengandalkan '' @
        lit ''single database transaction langsung '' @
        lit ''runtuh. Dua-phase commit (2PC) muncul '' @
        lit ''sebagai solusi teoretis, namun protokol ini '' @
        lit ''mengunci semua resource secara sinkron '' @
        lit ''hingga seluruh peserta memberikan suara '' @ lit ''commit '' @ [0x2014] @
        lit '' menyebabkan latency tinggi dan '' @
        lit ''vulnerabilitas terhadap network partition.'')),
    (''narrative_en'', PyStr (lit ''In modern microservice architectures, each '' @
        lit ''service manages its own database. When a '' @
        lit ''business flow involves order creation, '' @
        lit ''payment processing, and inventory '' @
        lit ''reservation sequentially, classical ACID '' @
        lit ''transactions relying on a single database '' @
        lit ''boundary break down. Two-phase commit '' @
        lit ''emerges as a theoretical solution, but it '' @
        lit ''locks all resources synchronously until '' @
        lit ''every participant votes commit '' @ [0x2014] @
        lit '' causing high latency and vulnerability to '' @ lit ''network partitions.'')),
    (''mental_model'', PyStr (lit ''When services own their data, distributed '' @
        lit ''transactions need local independence plus '' @ lit ''compensation.'')),
    (''source_path'', PyStr (lit ''content/02-master-draft.md:3-15'')),
    (''slide_num'', PyStr (lit ''02 / 24'')),
    (''layout'', PyStr (lit ''cards''))]\<rparr>\<close>

definition lab29_items_03 :: pyval where [lab29_contents]:
  \<open>lab29_items_03 =
   PyList
   [PyDict
     [(''type'', PyStr (lit ''code'')),
      (''title'', PyStr (lit ''internal/services/services.go '' @ [0x2014] @
          lit '' Manual Cross-Service Call'')),
      (''items'', PyList
        [PyStr (lit ''func (o *OrderService) '' @
            lit ''CreateFullOrder(orderID string) error {''),
         PyStr (lit ''    o.CreateOrder(orderID)     // DB-commit '' @ lit ''#1''),
         PyStr (lit ''    p.ProcessPayment(orderID)  // DB-commit '' @ lit ''#2 '' @ [0x2014] @
            lit '' jika gagal?''),
         PyStr (lit ''    i.ReserveInventory(...)    // DB-commit '' @ lit ''#3 '' @ [0x2014] @
            lit '' jika gagal?''),
         PyStr (lit ''    o.ApproveOrder(orderID)    // DB-commit '' @ lit ''#4''),
         PyStr (lit ''}'')])],
    PyDict
     [(''type'', PyStr (lit ''bullet'')),
      (''title'', PyStr (lit ''KEGAGALAN TANPA SAGA'')),
      (''items'', PyList
        [PyStr (lit ''Payment gagal setelah order dibuat '' @ [0x2192] @
            lit '' order tercatat tanpa pembayaran (status '' @ lit ''PENDING selamanya).''),
         PyStr (lit ''Inventory reserve gagal setelah payment '' @ lit ''sukses '' @ [0x2192] @
            lit '' uang terpotong tapi stok tidak dipesan.''),
         PyStr (lit ''Tidak ada jejak kompensasi; rekonsiliasi '' @
            lit ''manual diperlukan untuk memperbaiki state.'')])]]\<close>

definition lab29_slide_03 :: pycall where [lab29_slides]:
  \<open>lab29_slide_03 =
   \<lparr>posargs = [],
  kwargs =
   [(''categories'', PyList
      [PyStr (lit ''WHY FAILS''),
       PyStr (lit ''NAIVE APPROACH'')]),
    (''title'', PyStr (lit ''Mengapa Pendekatan Naif Gagal Menangani '' @ lit ''Transaksi Multi-Layanan'')),
    (''subtitle'', PyStr (lit ''Orkestrasi manual tanpa kompensasi '' @
        lit ''menciptakan inkonsistensi yang tersembunyi '' @ lit ''dan sulit dideteksi.'')),
    (''content_items'', lab29_items_03),
    (''narrative'', PyStr (lit ''Implementasi naif mencoba memanggil setiap '' @
        lit ''service berurutan tanpa mekanisme rollback '' @
        lit ''lintas domain. Jika payment service gagal '' @
        lit ''setelah order berhasil dibuat, database '' @
        lit ''order mencatat status PENDING namun payment '' @
        lit ''mencatat gagal. State sistem menjadi '' @
        lit ''inkonsisten dan tidak ada jalan mundur '' @
        lit ''otomatis. Pendekatan manual ini juga '' @
        lit ''menyulitkan observabilitas karena tidak ada '' @
        lit ''log eksekusi terpusat yang merekam status '' @ lit ''setiap langkah.'')),
    (''narrative_en'', PyStr (lit ''The naive implementation attempts '' @
        lit ''sequential service calls without '' @
        lit ''cross-domain rollback mechanisms. If '' @
        lit ''payment fails after the order is created, '' @
        lit ''the order database records a PENDING status '' @
        lit ''while payment records failure. The system '' @
        lit ''enters an inconsistent state with no '' @
        lit ''automatic recovery path. This manual '' @
        lit ''approach also hinders observability since '' @
        lit ''there is no centralized execution log '' @ lit ''recording each step'' @
        [39] @ lit ''s status.'')),
    (''mental_model'', PyStr (lit ''Manual sequential calls without '' @
        lit ''compensation create silent distributed '' @ lit ''inconsistency.'')),
    (''source_path'', PyStr (lit ''internal/services/services.go '' @ [0x2022] @ lit '' cmd/demo/main.go:11-113'')),
    (''slide_num'', PyStr (lit ''03 / 24'')),
    (''layout'', PyStr (lit ''code-bullet''))]\<rparr>\<close>

definition lab29_items_04 :: pyval where [lab29_contents]:
  \<open>lab29_items_04 =
   PyList
   [PyDict
     [(''type'', PyStr (lit ''schema'')),
      (''title'', PyStr (lit ''SAGA COMPOSITION MODEL'')),
      (''items'', PyList
        [PyDict
          [(''phase'', PyStr (lit ''1. Step Execute'')),
           (''role'', PyStr (lit ''Local Transaction'')),
           (''desc'', PyStr (lit ''Setiap langkah mengeksekusi transaksi lokal '' @
               lit ''ke database-nya sendiri dan berhasil segera.''))],
         PyDict
          [(''phase'', PyStr (lit ''2. Step Fail'')),
           (''role'', PyStr (lit ''Trigger Compensation'')),
           (''desc'', PyStr (lit ''Jika langkah ke-n gagal, orchestrator '' @
               lit ''memicu compensating transactions pada '' @
               lit ''langkah 1 sampai n-1.''))],
         PyDict
          [(''phase'', PyStr (lit ''3. LIFO Rollback'')),
           (''role'', PyStr (lit ''Last-In First-Out'')),
           (''desc'', PyStr (lit ''Kompensasi berjalan dari belakang ke depan: '' @
               lit ''refund payment sebelum cancel order.''))],
         PyDict
          [(''phase'', PyStr (lit ''4. Eventual Consistency'')),
           (''role'', PyStr (lit ''All or Nothing'')),
           (''desc'', PyStr (lit ''Setelah kompensasi selesai, seluruh sistem '' @
               lit ''kembali ke state sebelum saga dimulai.''))]])]]\<close>

definition lab29_slide_04 :: pycall where [lab29_slides]:
  \<open>lab29_slide_04 =
   \<lparr>posargs = [],
  kwargs =
   [(''categories'', PyList
      [PyStr (lit ''MENTAL MODEL''),
       PyStr (lit ''SAGA CORE'')]),
    (''title'', PyStr (lit ''Mental Model: Estafet Transaksi dengan '' @ lit ''Kompensasi Mundur'')),
    (''subtitle'', PyStr (lit ''Setiap langkah adalah transaksi lokal '' @
        lit ''independen; jika satu gagal, langkah '' @ lit ''sebelumnya dikompensasi.'')),
    (''content_items'', lab29_items_04),
    (''narrative'', PyStr (lit ''Bayangkan proses estafet di mana setiap '' @
        lit ''pelari menyelesaikan bagiannya dan langsung '' @
        lit ''mencatat hasil ke database lokal. Jika '' @
        lit ''pelari ketiga terjatuh, pelari satu dan dua '' @
        lit ''berlari mundur untuk mengembalikan posisi '' @
        lit ''awal mereka. Setiap langkah berdiri sendiri '' @
        lit ''sebagai transaksi lokal yang commit-segera; '' @
        lit ''tidak ada locking lintas layanan. Ketika '' @
        lit ''kegagalan terjadi, orchestrator memicu '' @
        lit ''chain of compensations secara '' @
        lit ''Last-In-First-Out untuk memulihkan '' @ lit ''konsistensi.'')),
    (''narrative_en'', PyStr (lit ''Imagine a relay race where each runner '' @
        lit ''completes their leg and immediately records '' @
        lit ''results to a local database. If the third '' @
        lit ''runner stumbles, the first and second '' @
        lit ''runners run backward to restore their '' @
        lit ''original positions. Each step stands alone '' @
        lit ''as a local transaction with immediate '' @ lit ''commit '' @ [0x2014] @
        lit '' no cross-service locking exists. When '' @
        lit ''failure occurs, the orchestrator triggers a '' @
        lit ''Last-In-First-Out chain of compensations to '' @ lit ''restore consistency.'')),
    (''mental_model'', PyStr (lit ''Local transactions commit eagerly; '' @
        lit ''compensations unwind them in reverse order '' @
        lit ''for eventual consistency.'')),
    (''source_path'', PyStr (lit ''content/02-master-draft.md:13-21'')),
    (''slide_num'', PyStr (lit ''04 / 24'')),
    (''layout'', PyStr (lit ''schema''))]\<rparr>\<close>

definition lab29_items_05 :: pyval where [lab29_contents]:
  \<open>lab29_items_05 =
   PyList
   [PyDict
     [(''type'', PyStr (lit ''diagram'')),
      (''title'', PyStr (lit ''ORCHESTRATOR EXECUTION PIPELINE'')),
      (''items'', PyList
        [PyStr (lit ''Client Request''),
         PyStr [0x2193],
         PyStr (lit ''Orchestrator.Execute(ctx)''),
         PyStr [0x2193],
         PyStr (lit ''for each Step in steps:''),
         PyStr (lit ''  step.Execute(ctx) '' @ [0x2192] @ lit '' Local DB Write '' @ [0x2192] @
            lit '' Commit''),
         PyStr (lit ''  on success: append to executed list''),
         PyStr (lit ''  on failure: break loop '' @ [0x2192] @ lit '' trigger compensate()''),
         PyStr [0x2193],
         PyStr (lit ''compensate(executed[]):''),
         PyStr (lit ''  for i = len-1 down to 0:''),
         PyStr (lit ''    executed[i].Compensate(ctx) '' @ [0x2192] @ lit '' Undo DB Write''),
         PyStr (lit ''  on comp fail: aggregate errors, log '' @ lit ''COMPENSATE_FAILED''),
         PyStr [0x2193],
         PyStr (lit ''Return: nil (success) | error (step failed '' @ lit ''+ compensation)'')])]]\<close>

definition lab29_slide_05 :: pycall where [lab29_slides]:
  \<open>lab29_slide_05 =
   \<lparr>posargs = [],
  kwargs =
   [(''categories'', PyList
      [PyStr (lit ''ARCHITECTURE''),
       PyStr (lit ''ORCHESTRATION PIPELINE'')]),
    (''title'', PyStr (lit ''Pipeline Orkestrasi: Dari Langkah Eksekusi '' @ lit ''Hingga Kompensasi'')),
    (''subtitle'', PyStr (lit ''Flow terpusat di Orchestrator: AddStep '' @ [0x2192] @ lit '' Execute '' @
        [0x2192] @ lit '' LIFO Compensate pada kegagalan.'')),
    (''content_items'', lab29_items_05),
    (''narrative'', PyStr (lit ''Pipeline orkestrasi dimulai ketika client '' @
        lit ''mengirimkan request ke orchestrator. '' @
        lit ''Orchestrator mengiterasi daftar langkah '' @
        lit ''secara sekuensial, mengeksekusi setiap '' @
        lit ''langkah ke database lokal masing-masing '' @
        lit ''service. Pada setiap keberhasilan, langkah '' @
        lit ''dicatat ke dalam stack executed. Jika '' @
        lit ''langkah manapun gagal, loop berhenti dan '' @
        lit ''orchestrator memanggil fungsi compensate() '' @
        lit ''yang berjalan mundur dari stack '' @ [0x2014] @
        lit '' memastikan refund terjadi sebelum cancel '' @
        lit ''order. Log Status setiap langkah direkam '' @
        lit ''secara atomik di mutex untuk konsistensi '' @ lit ''konkuren.'')),
    (''narrative_en'', PyStr (lit ''The orchestration pipeline begins when a '' @
        lit ''client submits a request to the '' @
        lit ''orchestrator. The orchestrator iterates '' @
        lit ''through steps sequentially, executing each '' @
        lit ''into the respective local service database. '' @
        lit ''On each success, the step is recorded to '' @
        lit ''the executed stack. If any step fails, the '' @
        lit ''loop breaks and the orchestrator calls '' @
        lit ''compensate(), which unwinds backward from '' @ lit ''the stack '' @ [0x2014] @
        lit '' ensuring refund happens before cancel '' @ lit ''order. Each step'' @ [39] @
        lit ''s status log is recorded atomically under '' @
        lit ''mutex for concurrency consistency.'')),
    (''mental_model'', PyStr (lit ''Forward steps consume; backward '' @ lit ''compensations undo '' @ [0x2014] @
        lit '' orchestrated by a single stateful '' @ lit ''coordinator.'')),
    (''source_path'', PyStr (lit ''internal/saga/orchestrator.go:49-120'')),
    (''slide_num'', PyStr (lit ''05 / 24'')),
    (''layout'', PyStr (lit ''pipeline-diagram''))]\<rparr>\<close>

definition lab29_items_06 :: pyval where [lab29_contents]:
  \<open>lab29_items_06 =
   PyList
   [PyDict
     [(''type'', PyStr (lit ''code'')),
      (''title'', PyStr (lit ''internal/saga/orchestrator.go'')),
      (''items'', PyList
        [PyStr (lit ''type Step struct {''),
         PyStr (lit ''    Name       string''),
         PyStr (lit ''    Execute    func(ctx context.Context) '' @ lit ''error''),
         PyStr (lit ''    Compensate func(ctx context.Context) '' @ lit ''error''),
         PyStr (lit ''}''),
         PyStr [],
         PyStr (lit ''func (o *Orchestrator) compensate(ctx '' @
            lit ''context.Context, executed []Step) error {''),
         PyStr (lit ''    for i := len(executed) - 1; i >= 0; i-- '' @ lit ''{''),
         PyStr (lit ''        step := executed[i]''),
         PyStr (lit ''        if step.Compensate != nil {''),
         PyStr (lit ''            err := step.Compensate(ctx)  // '' @ lit ''LIFO unwind''),
         PyStr (lit ''            ...''),
         PyStr (lit ''        }''),
         PyStr (lit ''    }''),
         PyStr (lit ''}'')])]]\<close>

definition lab29_slide_06 :: pycall where [lab29_slides]:
  \<open>lab29_slide_06 =
   \<lparr>posargs = [],
  kwargs =
   [(''categories'', PyList
      [PyStr (lit ''IMPLEMENTATION''),
       PyStr (lit ''CORE CODE'')]),
    (''title'', PyStr (lit ''Implementasi Inti: Orchestrator Step & LIFO '' @ lit ''Compensate'')),
    (''subtitle'', PyStr (lit ''Struktur Step dengan Execute/Compensate '' @
        lit ''pair dan fungsi compensate() berurutan '' @ lit ''mundur.'')),
    (''content_items'', lab29_items_06),
    (''narrative'', PyStr (lit ''Struktur data Step mendefinisikan sepasang '' @
        lit ''fungsi Execute dan Compensate untuk setiap '' @
        lit ''transaksi lokal. Orchestrator menyimpan '' @
        lit ''slice Step ini dan mengeksekusinya secara '' @
        lit ''berurutan. Fungsi compensate() melakukan '' @
        lit ''iterasi mundur dari index terakhir ke nol '' @ [0x2014] @
        lit '' inilah inti LIFO rollback. Jika '' @
        lit ''compensate() sendiri gagal pada suatu '' @
        lit ''langkah, error di agregasi ke dalam slice '' @
        lit ''compErrors dan dilaporkan bersama error '' @ lit ''langkah utama.'')),
    (''narrative_en'', PyStr (lit ''The Step data structure defines an '' @
        lit ''Execute-Compensate function pair for each '' @
        lit ''local transaction. The orchestrator stores '' @
        lit ''this Step slice and executes them '' @
        lit ''sequentially. The compensate() function '' @
        lit ''iterates backward from the last index to '' @ lit ''zero '' @ [0x2014] @
        lit '' this is the core of LIFO rollback. If '' @
        lit ''compensate() itself fails on a step, the '' @
        lit ''error is aggregated into a compErrors slice '' @
        lit ''and reported alongside the primary step '' @ lit ''error.'')),
    (''mental_model'', PyStr (lit ''Each step owns both its forward action and '' @ lit ''its undo action '' @
        [0x2014] @ lit '' encapsulated as a single Step struct.'')),
    (''source_path'', PyStr (lit ''internal/saga/orchestrator.go:19-23,92-112'')),
    (''slide_num'', PyStr (lit ''06 / 24'')),
    (''layout'', PyStr (lit ''code''))]\<rparr>\<close>

definition lab29_items_07 :: pyval where [lab29_contents]:
  \<open>lab29_items_07 =
   PyList
   [PyDict
     [(''type'', PyStr (lit ''cards'')),
      (''title'', PyStr (lit ''ALUR KEGAGALAN DARI LATAR DEPAN HINGGA '' @ lit ''BELAKANG'')),
      (''items'', PyList
        [PyDict
          [(''title'', PyStr (lit ''Langkah 1: CreateOrder'')),
           (''desc'', PyStr (lit ''Order dibuat dengan status PENDING. '' @
               lit ''Semantic lock diterapkan pada orderID. '' @ lit ''Berhasil '' @
               [0x2713]))],
         PyDict
          [(''title'', PyStr (lit ''Langkah 2: ProcessPayment'')),
           (''desc'', PyStr (lit ''Payment diproses dengan idempotency key. '' @
               lit ''Dana terpotong. Berhasil '' @ [0x2713]))],
         PyDict
          [(''title'', PyStr (lit ''Langkah 3: ReserveInventory GAGAL'')),
           (''desc'', PyStr (lit ''Stok item-1 hanya 1 unit, diminta 5. Error: '' @
               lit ''out of stock. Loop berhenti.''))],
         PyDict
          [(''title'', PyStr (lit ''Kompensasi mundur (LIFO)'')),
           (''desc'', PyStr (lit ''Compensate Payment (Refund) '' @ [0x2192] @
               lit '' Compensate Order (Cancel). State pulih ke '' @ lit ''awal. '' @
               [0x2713]))]])]]\<close>

definition lab29_slide_07 :: pycall where [lab29_slides]:
  \<open>lab29_slide_07 =
   \<lparr>posargs = [],
  kwargs =
   [(''categories'', PyList
      [PyStr (lit ''FAILURE PATH''),
       PyStr (lit ''ROLLBACK ANATOMY'')]),
    (''title'', PyStr (lit ''Failure Path: ReserveInventory Gagal '' @ [0x2014] @
        lit '' Urutan Kompensasi LIFO'')),
    (''subtitle'', PyStr (lit ''Kegagalan stok kosong memicu refund payment '' @
        lit ''sebelum cancel order, sesuai urutan balik '' @ lit ''stack.'')),
    (''content_items'', lab29_items_07),
    (''narrative'', PyStr (lit ''Skenario ini menunjukkan failure path '' @
        lit ''realistis di mana reservasi inventaris '' @
        lit ''gagal karena stok tidak mencukupi. Order '' @
        lit ''sudah dibuat dan payment sudah diproses '' @
        lit ''sebelum kegagalan terdeteksi. Orchestrator '' @
        lit ''kemudian memicu kompensasi LIFO: '' @
        lit ''pertama-tama memproses refund payment, '' @
        lit ''kemudian membatalkan order. Dengan urutan '' @
        lit ''ini, sistem kembali ke keadaan sebelum saga '' @ lit ''dimulai '' @ [0x2014] @
        lit '' payment refund terjadi sebelum order '' @
        lit ''cancel, menjaga konsistensi urutan '' @ lit ''finansial.'')),
    (''narrative_en'', PyStr (lit ''This scenario demonstrates a realistic '' @
        lit ''failure path where inventory reservation '' @
        lit ''fails due to insufficient stock. The order '' @
        lit ''has been created and payment processed '' @
        lit ''before the failure is detected. The '' @
        lit ''orchestrator then triggers LIFO '' @
        lit ''compensation: first processing payment '' @
        lit ''refund, then cancelling the order. Through '' @
        lit ''this order, the system returns to its '' @ lit ''pre-saga state '' @
        [0x2014] @ lit '' payment refund occurs before order '' @
        lit ''cancellation, maintaining financial '' @ lit ''sequence consistency.'')),
    (''mental_model'', PyStr (lit ''Compensations must unwind in reverse '' @
        lit ''execution order to prevent orphaned side '' @ lit ''effects.'')),
    (''source_path'', PyStr (lit ''tests/saga_test.go:74-147'')),
    (''slide_num'', PyStr (lit ''07 / 24'')),
    (''layout'', PyStr (lit ''cards''))]\<rparr>\<close>

definition lab29_items_08 :: pyval where [lab29_contents]:
  \<open>lab29_items_08 =
   PyList
   [PyDict
     [(''title'', PyStr (lit ''MATRIKS PERILAKU SAGA STEP'')),
      (''items'', PyList
        [PyStr (lit ''Tipe Langkah | Eksekusi Sukses | Eksekusi '' @ lit ''Gagal | Kompensasi''),
         PyStr (lit ''Compensable Transaction | Local DB commit '' @
            lit ''persisten | Rollback via Compensate() | '' @
            lit ''Refund, Cancel, Release''),
         PyStr (lit ''Pivot Transaction | Titik balik tidak bisa '' @
            lit ''dibatalkan | Saga dijamin mencapai final '' @
            lit ''state | Tidak ada kompensasi''),
         PyStr (lit ''Retryable Transaction | Post-pivot, dijamin '' @
            lit ''sukses | Idempotent retry | Tidak diperlukan''),
         PyStr (lit ''CreateOrder Step | Status PENDING + '' @
            lit ''semantic lock | Rollback: delete lock + '' @ lit ''CANCELLED | '' @
            [0x2713]),
         PyStr (lit ''ProcessPayment Step | Payment recorded + '' @
            lit ''idempotency key | Rollback: delete payment '' @ lit ''entry | '' @
            [0x2713] @ lit '' Refund''),
         PyStr (lit ''ReserveInventory Step | Stock decremented | '' @
            lit ''Rollback: stock restored via Release() | '' @ [0x2713]),
         PyStr (lit ''ApproveOrder Step | Status APPROVED + lock '' @
            lit ''released | Tanpa kompensasi (final step) | '' @ [0x2014])]),
      (''type'', PyStr (lit ''table''))]]\<close>

definition lab29_slide_08 :: pycall where [lab29_slides]:
  \<open>lab29_slide_08 =
   \<lparr>posargs = [],
  kwargs =
   [(''categories'', PyList
      [PyStr (lit ''COMPARISON''),
       PyStr (lit ''MECHANISM VS MANIFESTATION'')]),
    (''title'', PyStr (lit ''Tabel Perbandingan: Mekanisme Kompensasi vs '' @ lit ''Gejala Sistem'')),
    (''subtitle'', PyStr (lit ''Memetakan setiap tipe langkah saga ke '' @
        lit ''manifestasi perilaku saat sukses dan gagal.'')),
    (''content_items'', lab29_items_08),
    (''narrative'', PyStr (lit ''Tabel ini memetakan taksonomi tiga tipe '' @
        lit ''transaksi saga menurut Azure Architecture '' @
        lit ''Center ke implementasi spesifik lab. '' @
        lit ''Compensation step adalah yang paling umum '' @ [0x2014] @
        lit '' setiap langkah kecuali ApproveOrder '' @
        lit ''memiliki fungsi Compensate. Pivot '' @
        lit ''transaction merepresentasikan titik balik '' @
        lit ''yang tidak dapat digagalkan, sedangkan '' @
        lit ''retryable transaction menjamin kesuksesan '' @
        lit ''setelah pivot. Dalam lab ini, ApproveOrder '' @
        lit ''berperan sebagai final step tanpa '' @
        lit ''kompensasi karena ia sudah merupakan state '' @ lit ''terminal.'')),
    (''narrative_en'', PyStr (lit ''This table maps the three saga transaction '' @
        lit ''types from Azure Architecture Center to '' @
        lit ''specific lab implementations. The '' @
        lit ''compensable transaction is most common '' @ [0x2014] @
        lit '' every step except ApproveOrder has a '' @
        lit ''Compensate function. Pivot transactions '' @
        lit ''represent irreversible turning points, '' @
        lit ''while retryable transactions guarantee '' @
        lit ''success post-pivot. In this lab, '' @
        lit ''ApproveOrder serves as the final terminal '' @
        lit ''state step without compensation.'')),
    (''mental_model'', PyStr (lit ''Not all saga steps need compensation '' @ [0x2014] @
        lit '' final approval marks the pivot of no '' @ lit ''return.'')),
    (''source_path'', PyStr (lit ''content/02-master-draft.md:23-27 '' @ [0x2022] @
        lit '' internal/saga/orchestrator.go:9-17'')),
    (''slide_num'', PyStr (lit ''08 / 24'')),
    (''layout'', PyStr (lit ''table''))]\<rparr>\<close>

definition lab29_items_09 :: pyval where [lab29_contents]:
  \<open>lab29_items_09 =
   PyList
   [PyDict
     [(''type'', PyStr (lit ''cards'')),
      (''title'', PyStr (lit ''PILIHAN POLA KOORDINASI SAGA'')),
      (''items'', PyList
        [PyDict
          [(''title'', PyStr (lit ''1. Orkestrasi (Orchestrator)'')),
           (''desc'', PyStr (lit ''Koordinator terpusat mengatur urutan, '' @
               lit ''menyimpan log, dan memicu kompensasi. Cocok '' @
               lit ''untuk flow linear dengan dependencies jelas.''))],
         PyDict
          [(''title'', PyStr (lit ''2. Koreografi (Choreography)'')),
           (''desc'', PyStr (lit ''Layanan saling mendengarkan event tanpa '' @
               lit ''koordinator pusat. Cocok untuk flow '' @
               lit ''event-driven dengan loose coupling antar '' @ lit ''service.''))],
         PyDict
          [(''title'', PyStr (lit ''3. Hybrid Pattern'')),
           (''desc'', PyStr (lit ''Orkestrasi untuk orchestration-critical '' @
               lit ''path; koreografi untuk notification-only '' @
               lit ''paths. Menggabungkan kekuatan kedua '' @ lit ''pendekatan.''))]])]]\<close>

definition lab29_slide_09 :: pycall where [lab29_slides]:
  \<open>lab29_slide_09 =
   \<lparr>posargs = [],
  kwargs =
   [(''categories'', PyList
      [PyStr (lit ''DECISION SEQUENCE''),
       PyStr (lit ''ARCHITECTURE GUIDE'')]),
    (''title'', PyStr (lit ''Keputusan Arsitektur: Orkestrasi vs '' @ lit ''Koreografi'')),
    (''subtitle'', PyStr (lit ''Tiga kriteria teknis menentukan pilihan '' @
        lit ''pola koordinasi saga yang tepat.'')),
    (''content_items'', lab29_items_09),
    (''narrative'', PyStr (lit ''Pemilihan antara orkestrasi dan koreografi '' @
        lit ''bukanlah keputusan hitam-putih. Orkestrasi '' @
        lit ''unggul ketika urutan langkah memiliki '' @
        lit ''dependensi ketat dan perlu logging '' @
        lit ''terpusat, seperti pada flow checkout '' @
        lit ''e-commerce. Koreografi lebih cocok untuk '' @
        lit ''sistem event-driven di mana layanan perlu '' @
        lit ''bereaksi mandiri terhadap event tanpa '' @
        lit ''mengetahui orchestrator. Lab ini '' @
        lit ''mengimplementasikan kedua pola untuk '' @
        lit ''menunjukkan trade-off masing-masing.'')),
    (''narrative_en'', PyStr (lit ''The choice between orchestration and '' @
        lit ''choreography is not binary. Orchestration '' @
        lit ''excels when step ordering has tight '' @
        lit ''dependencies and centralized logging is '' @
        lit ''needed, such as in e-commerce checkout '' @
        lit ''flows. Choreography suits event-driven '' @
        lit ''systems where services react independently '' @
        lit ''to events without knowing about a central '' @
        lit ''orchestrator. This lab implements both '' @
        lit ''patterns to demonstrate each trade-off.'')),
    (''mental_model'', PyStr (lit ''Orchestration gives control; choreography '' @
        lit ''gives autonomy. Choose by dependency '' @ lit ''density.'')),
    (''source_path'', PyStr (lit ''internal/saga/orchestrator.go '' @ [0x2022] @
        lit '' internal/saga/choreography.go'')),
    (''slide_num'', PyStr (lit ''09 / 24'')),
    (''layout'', PyStr (lit ''cards''))]\<rparr>\<close>

definition lab29_items_10 :: pyval where [lab29_contents]:
  \<open>lab29_items_10 =
   PyList
   [PyDict
     [(''type'', PyStr (lit ''code'')),
      (''title'', PyStr (lit ''TERMINAL OUTPUT: go test -v ./...'')),
      (''items'', PyList
        [PyStr (lit ''=== RUN   TestOrchestrator_HappyPath''),
         PyStr (lit ''    --- PASS: TestOrchestrator_HappyPath '' @ lit ''(0.00s)''),
         PyStr (lit ''=== RUN   TestOrchestrator_FailureCompensate'' @ lit ''sLIFO''),
         PyStr (lit ''    --- PASS: '' @ lit ''TestOrchestrator_FailureCompensatesLIFO '' @
            lit ''(0.00s)''),
         PyStr (lit ''=== RUN   TestPayment_Idempotency''),
         PyStr (lit ''    --- PASS: TestPayment_Idempotency '' @ lit ''(0.00s)''),
         PyStr (lit ''=== RUN   TestSemanticLock''),
         PyStr (lit ''    --- PASS: TestSemanticLock (0.00s)''),
         PyStr (lit ''=== RUN   TestOrchestrator_Concurrency''),
         PyStr (lit ''    --- PASS: TestOrchestrator_Concurrency '' @ lit ''(0.00s)''),
         PyStr (lit ''=== RUN   TestChoreography_Flow''),
         PyStr (lit ''    --- PASS: TestChoreography_Flow (0.00s)''),
         PyStr (lit ''=== RUN   TestChoreography_FailureCompensate'' @ lit ''s''),
         PyStr (lit ''    --- PASS: '' @ lit ''TestChoreography_FailureCompensates (0.00s)''),
         PyStr (lit ''=== RUN   TestOrchestrator_CompensationError'' @ lit ''Propagated''),
         PyStr (lit ''    --- PASS: '' @ lit ''TestOrchestrator_CompensationErrorPropagated'' @
            lit '' (0.00s)''),
         PyStr (lit ''=== RUN   TestOrchestrator_ContextCancellati'' @ lit ''on''),
         PyStr (lit ''    --- PASS: '' @ lit ''TestOrchestrator_ContextCancellation (0.00s)''),
         PyStr (lit ''PASS: ok  labs/29-saga-pattern/tests  0.003s'')])]]\<close>

definition lab29_slide_10 :: pycall where [lab29_slides]:
  \<open>lab29_slide_10 =
   \<lparr>posargs = [],
  kwargs =
   [(''categories'', PyList
      [PyStr (lit ''EVIDENCE''),
       PyStr (lit ''EXECUTION OUTPUT'')]),
    (''title'', PyStr (lit ''Bukti Eksekusi: Semua Test Suite Lolos '' @ lit ''Bersih'')),
    (''subtitle'', PyStr (lit ''Output Go test membuktikan happy path, LIFO '' @
        lit ''rollback, idempotency, semantic lock, dan '' @ lit ''concurrency safety.'')),
    (''content_items'', lab29_items_10),
    (''narrative'', PyStr (lit ''Kesembilan test case berjalan mulus tanpa '' @
        lit ''kegagalan satupun. Happy path membuktikan '' @
        lit ''empat langkah sukses mengubah order status '' @
        lit ''menjadi APPROVED dengan stock berkurang 2 '' @
        lit ''unit. Failure test membuktikan LIFO '' @
        lit ''rollback: order kembali CANCELLED, payment '' @
        lit ''di-refund, stock kembali 1. Concurrency '' @
        lit ''test dengan 10 goroutine simultan '' @
        lit ''memastikan atomicity mutex tetap terjaga.'')),
    (''narrative_en'', PyStr (lit ''All nine test cases run cleanly without a '' @
        lit ''single failure. The happy path proves four '' @
        lit ''steps succeed, changing order status to '' @
        lit ''APPROVED with stock reduced by 2 units. The '' @
        lit ''failure test proves LIFO rollback: order '' @
        lit ''returns to CANCELLED, payment refunded, '' @
        lit ''stock restored to 1. The concurrency test '' @
        lit ''with 10 simultaneous goroutines ensures '' @
        lit ''mutex atomicity remains intact.'')),
    (''mental_model'', PyStr (lit ''Clean test suite with zero failures '' @
        lit ''validates both forward execution and '' @ lit ''backward compensation paths.'')),
    (''source_path'', PyStr (lit ''tests/saga_test.go'')),
    (''slide_num'', PyStr (lit ''10 / 24'')),
    (''layout'', PyStr (lit ''code''))]\<rparr>\<close>

definition lab29_items_11 :: pyval where [lab29_contents]:
  \<open>lab29_items_11 =
   PyList
   [PyDict
     [(''type'', PyStr (lit ''cards'')),
      (''title'', PyStr (lit ''YANG TIDAK DIBUKTIKAN'')),
      (''items'', PyList
        [PyDict
          [(''title'', PyStr (lit ''Network Partition'')),
           (''desc'', PyStr (lit ''Tidak ada simulasi network partition antara '' @
               lit ''orchestrator dan service; semua service '' @
               lit ''berjalan dalam proses Go yang sama.''))],
         PyDict
          [(''title'', PyStr (lit ''Database Crash'')),
           (''desc'', PyStr (lit ''Tidak diuji apa yang terjadi jika database '' @
               lit ''crashed di tengah eksekusi step '' @ [0x2014] @
               lit '' tidak ada persistence layer riil.''))],
         PyDict
          [(''title'', PyStr (lit ''Persistensi Log'')),
           (''desc'', PyStr (lit ''Step log hanya disimpan di memori; tidak '' @
               lit ''ada audit trail yang persisten ke disk atau '' @ lit ''database.''))],
         PyDict
          [(''title'', PyStr (lit ''Distributed EventBus'')),
           (''desc'', PyStr (lit ''EventBus di choreography berjalan '' @
               lit ''in-memory; tidak diuji dengan message '' @
               lit ''broker riil seperti Kafka atau RabbitMQ.''))]])]]\<close>

definition lab29_slide_11 :: pycall where [lab29_slides]:
  \<open>lab29_slide_11 =
   \<lparr>posargs = [],
  kwargs =
   [(''categories'', PyList
      [PyStr (lit ''AUDIT''),
       PyStr (lit ''EVIDENCE BOUNDARY'')]),
    (''title'', PyStr (lit ''Batasan Bukti Lab: Yang Dibuktikan vs Belum'')),
    (''subtitle'', PyStr (lit ''Simulasi in-memory tidak membuktikan '' @
        lit ''behavior di bawah network partition atau '' @ lit ''database crash riil.'')),
    (''content_items'', lab29_items_11),
    (''narrative'', PyStr (lit ''Lab ini membuktikan kebenaran logika '' @
        lit ''komputasional dan concurrency safety dalam '' @
        lit ''lingkungan in-memory. Namun, batasan tegas '' @
        lit ''harus diakui: tidak ada simulasi network '' @
        lit ''partition, database crash, atau persistence '' @
        lit ''layer riil. Dalam produksi, kegagalan '' @
        lit ''kompensasi bisa terjadi karena service '' @ lit ''unavailable '' @ [0x2014] @
        lit '' scenario yang tidak tercakup oleh test '' @
        lit ''suite saat ini. Dead-letter queue dan '' @
        lit ''manual reconciliation adalah '' @
        lit ''countermeasures yang diperlukan di luar '' @ lit ''cakupan lab.'')),
    (''narrative_en'', PyStr (lit ''This lab proves computational correctness '' @
        lit ''and concurrency safety in an in-memory '' @
        lit ''environment. However, strict limitations '' @
        lit ''must be acknowledged: there is no network '' @
        lit ''partition simulation, no real database '' @
        lit ''crash, and no persistence layer. In '' @
        lit ''production, compensation failure can occur '' @
        lit ''due to service unavailability '' @ [0x2014] @
        lit '' scenarios not covered by the current test '' @
        lit ''suite. Dead-letter queues and manual '' @
        lit ''reconciliation are countermeasures needed '' @ lit ''beyond this lab'' @
        [39] @ lit ''s scope.'')),
    (''mental_model'', PyStr (lit ''In-memory proofs validate logic; production '' @
        lit ''requires persistence, observability, and '' @ lit ''DLQ handling.'')),
    (''source_path'', PyStr (lit ''engineering/03-execution-result.md '' @ [0x2022] @
        lit '' engineering-audit/06-verdict.md'')),
    (''slide_num'', PyStr (lit ''11 / 24'')),
    (''layout'', PyStr (lit ''cards''))]\<rparr>\<close>

definition lab29_items_12 :: pyval where [lab29_contents]:
  \<open>lab29_items_12 =
   PyList
   [PyDict
     [(''title'', PyStr (lit ''MATRIKS TRADE-OFF SAGA'')),
      (''items'', PyList
        [PyStr (lit ''Dimensi | ACID (Monolitik) | Saga Pattern | '' @ lit ''Dampak Produksi''),
         PyStr (lit ''Isolasi (I dalam ACID) | serializable penuh '' @
            lit ''| tidak ada isolasi lintas service | dirty '' @
            lit ''reads, lost updates mungkin terjadi''),
         PyStr (lit ''Ketersediaan | blocking 2PC | non-blocking, '' @
            lit ''each step commit segera | saga jauh lebih '' @
            lit ''available di bawah load tinggi''),
         PyStr (lit ''Latensi | satu round-trip ke semua peserta '' @
            lit ''| N round-trips sekuensial + kompensasi | '' @
            lit ''total latency lebih tinggi per transaksi''),
         PyStr (lit ''Konsistensi | strong consistency | eventual '' @
            lit ''consistency | window inconsistency antar '' @
            lit ''step execute sampai kompensasi''),
         PyStr (lit ''Complexity | database engine handles it | '' @
            lit ''application-level orchestration | developer '' @
            lit ''wrote compensation logic manually''),
         PyStr (lit ''Observability | transaction logs | '' @
            lit ''step-level logs + compensation trace | '' @
            lit ''lebih transparan, lebih mudah debug'')]),
      (''type'', PyStr (lit ''table''))]]\<close>

definition lab29_slide_12 :: pycall where [lab29_slides]:
  \<open>lab29_slide_12 =
   \<lparr>posargs = [],
  kwargs =
   [(''categories'', PyList
      [PyStr (lit ''TRADE-OFF''),
       PyStr (lit ''ARCHITECTURAL COMPROMISE'')]),
    (''title'', PyStr (lit ''Trade-off Arsitektur: Availability vs '' @ lit ''Isolation'')),
    (''subtitle'', PyStr (lit ''Saga mengorbankan isolasi ACID demi '' @ lit ''ketersediaan tinggi '' @
        [0x2014] @ lit '' eventual consistency adalah harga yang '' @ lit ''harus dibayar.'')),
    (''content_items'', lab29_items_12),
    (''narrative'', PyStr (lit ''Saga menukar isolation level tinggi menjadi '' @
        lit ''availability tinggi. Setiap langkah '' @
        lit ''committed segera tanpa lock lintas service, '' @
        lit ''sehingga tidak ada blocking antar layanan. '' @
        lit ''Namun, window inconsistency muncul antara '' @
        lit ''step execute dan kompensasi '' @ [0x2014] @
        lit '' order bisa tercatat APPROVED sementara '' @
        lit ''payment belum diproses. Developer harus '' @
        lit ''menulis compensation logic secara '' @
        lit ''eksplisit, menambah complexity aplikasi '' @
        lit ''dibanding solusi monolitik.'')),
    (''narrative_en'', PyStr (lit ''Saga trades high isolation for high '' @
        lit ''availability. Each step commits immediately '' @
        lit ''without cross-service locking, so there is '' @
        lit ''no blocking between services. However, a '' @
        lit ''consistency window exists between step '' @
        lit ''execution and compensation '' @ [0x2014] @
        lit '' an order may appear APPROVED while payment '' @
        lit ''remains unprocessed. Developers must write '' @
        lit ''compensation logic explicitly, adding '' @
        lit ''application complexity compared to '' @ lit ''monolithic solutions.'')),
    (''mental_model'', PyStr (lit ''Availability over isolation: commit early, '' @
        lit ''compensate later, accept eventual '' @ lit ''consistency.'')),
    (''source_path'', PyStr (lit ''content/02-master-draft.md:120-135'')),
    (''slide_num'', PyStr (lit ''12 / 24'')),
    (''layout'', PyStr (lit ''table''))]\<rparr>\<close>

definition lab29_items_13 :: pyval where [lab29_contents]:
  \<open>lab29_items_13 =
   PyList
   [PyDict
     [(''type'', PyStr (lit ''code'')),
      (''title'', PyStr (lit ''internal/saga/orchestrator.go '' @ [0x2014] @ lit '' Concurrency Guards'')),
      (''items'', PyList
        [PyStr (lit ''func (o *Orchestrator) AddStep(step Step) {''),
         PyStr (lit ''    o.mu.Lock()''),
         PyStr (lit ''    defer o.mu.Unlock()''),
         PyStr (lit ''    o.steps = append(o.steps, step)''),
         PyStr (lit ''}''),
         PyStr [],
         PyStr (lit ''func (o *Orchestrator) Execute(ctx '' @ lit ''context.Context) error {''),
         PyStr (lit ''    o.mu.Lock()''),
         PyStr (lit ''    steps := make([]Step, len(o.steps))''),
         PyStr (lit ''    copy(steps, o.steps)  // snapshot tanpa '' @ lit ''lock holder''),
         PyStr (lit ''    o.mu.Unlock()''),
         PyStr (lit ''    // ...execute steps without holding mu '' @ lit ''during step calls''),
         PyStr (lit ''    o.mu.Lock()''),
         PyStr (lit ''    o.logs = append(o.logs, StepLog{Name: '' @
            lit ''step.Name, Status: ...})''),
         PyStr (lit ''    o.mu.Unlock()''),
         PyStr (lit ''}'')])],
    PyDict
     [(''type'', PyStr (lit ''bullet'')),
      (''title'', PyStr (lit ''KONTRAK KEAMANAN'')),
      (''items'', PyList
        [PyStr (lit ''Mu memegang slice steps saat AddStep '' @ lit ''danExecute '' @ [0x2014] @
            lit '' mencegah race pada read.''),
         PyStr (lit ''Snapshot steps saat Execute: salinan '' @
            lit ''sementara dilepaskan sebelum step call.''),
         PyStr (lit ''Log append dilindungi mutex '' @ [0x2014] @
            lit '' konsistensi log terjamin di bawah 10 '' @ lit ''concurrent goroutine.''),
         PyStr (lit ''Hasil: go test -race laporan clean pada '' @
            lit ''TestOrchestrator_Concurrency (10 workers).'')])]]\<close>

definition lab29_slide_13 :: pycall where [lab29_slides]:
  \<open>lab29_slide_13 =
   \<lparr>posargs = [],
  kwargs =
   [(''categories'', PyList
      [PyStr (lit ''CONCURRENCY''),
       PyStr (lit ''THREAD SAFETY'')]),
    (''title'', PyStr (lit ''Pipeline Konkurensi: Goroutine '' @ [0x2192] @ lit '' Validate '' @ [0x2192] @
        lit '' Mutex '' @ [0x2192] @ lit '' Append Error'')),
    (''subtitle'', PyStr (lit ''Orchestrator menggunakan sync.Mutex untuk '' @
        lit ''melindungi step list dan log agar aman dari '' @ lit ''concurrent Execute.'')),
    (''content_items'', lab29_items_13),
    (''narrative'', PyStr (lit ''Keamanan konkuren dicapai melalui strategi '' @
        lit ''snapshot-and-release. Saat Execute '' @
        lit ''dipanggil, orchestrator menyalin slice '' @
        lit ''steps ke variabel lokal sementara mutex '' @
        lit ''dilepaskan, menghindari blocking selama '' @
        lit ''step execution berlangsung. Log append dan '' @
        lit ''read dilindungi mutex individual untuk '' @
        lit ''memastikan konsistensi pembacaan. Test '' @
        lit ''concurrency menjalankan 10 goroutine '' @
        lit ''simultan dengan mutex dan race detector Go '' @
        lit ''melaporkan status bersih tanpa data race.'')),
    (''narrative_en'', PyStr (lit ''Concurrency safety is achieved through a '' @
        lit ''snapshot-and-release strategy. When Execute '' @
        lit ''is called, the orchestrator copies the '' @
        lit ''steps slice to a local variable while '' @
        lit ''releasing the mutex, avoiding blocking '' @
        lit ''during step execution. Log append and read '' @
        lit ''operations are protected by individual '' @
        lit ''mutexes to ensure read consistency. The '' @
        lit ''concurrency test runs 10 simultaneous '' @
        lit ''goroutines with the Go race detector '' @
        lit ''reporting a clean result with no data races.'')),
    (''mental_model'', PyStr (lit ''Snapshot-then-release mutex pattern '' @
        lit ''prevents deadlock while ensuring log '' @
        lit ''consistency under concurrency.'')),
    (''source_path'', PyStr (lit ''internal/saga/orchestrator.go:43-89'')),
    (''slide_num'', PyStr (lit ''13 / 24'')),
    (''layout'', PyStr (lit ''code-bullet''))]\<rparr>\<close>

definition lab29_items_14 :: pyval where [lab29_contents]:
  \<open>lab29_items_14 =
   PyList
   [PyDict
     [(''type'', PyStr (lit ''cards'')),
      (''title'', PyStr (lit ''PERBANDINGAN SEBELUM DAN SESUDAH SAGA'')),
      (''items'', PyList
        [PyDict
          [(''title'', PyStr (lit ''BEFORE: Manual Calls'')),
           (''desc'', PyStr (lit ''Orde '' @ [0x2192] @ lit '' Payment '' @ [0x2192] @
               lit '' Inventory '' @ [0x2192] @
               lit '' Approve. Gagal di Inventory: order '' @
               lit ''PENDING, payment tercatat, stok untouched. '' @
               lit ''Tidak ada recovery otomatis. State '' @ lit ''inconsistency permanen.''))],
         PyDict
          [(''title'', PyStr (lit ''AFTER: Saga Orchestration'')),
           (''desc'', PyStr (lit ''Orde '' @ [0x2192] @ lit '' Payment '' @ [0x2192] @
               lit '' Inventory(GAGAL) '' @ [0x2192] @
               lit '' Compensate Payment(refund) '' @ [0x2192] @
               lit '' Compensate Order(cancel). State pulih '' @
               lit ''sempurna. Log lengkap'' @
               [0x8BB0, 0x5F55, 0x4E86, 0x6BCF, 0x4E00, 0x6B65, 0x72B6, 0x6001, 0x3002]))],
         PyDict
          [(''title'', PyStr (lit ''BEFORE: No Observability'')),
           (''desc'', PyStr (lit ''Tidak ada log terpusat; harus trace '' @
               lit ''masing-masing service log untuk reconstruct '' @ lit ''failure.''))],
         PyDict
          [(''title'', PyStr (lit ''AFTER: Centralized Step Log'')),
           (''desc'', PyStr (lit ''Orchestrator mencatat STATUS_EXECUTED, '' @
               lit ''STATUS_FAILED, STATUS_COMPENSATED untuk '' @
               lit ''setiap langkah. Debugging satu command: '' @ lit ''orch.Logs().''))]])]]\<close>

definition lab29_slide_14 :: pycall where [lab29_slides]:
  \<open>lab29_slide_14 =
   \<lparr>posargs = [],
  kwargs =
   [(''categories'', PyList
      [PyStr (lit ''COMPARISON''),
       PyStr (lit ''BEFORE-AFTER'')]),
    (''title'', PyStr (lit ''Before vs After: Dari Manual Calls ke Saga '' @ lit ''Orkestrasi'')),
    (''subtitle'', PyStr (lit ''Perbandingan visual antara implementasi '' @
        lit ''naif tanpa kompensasi dan implementasi saga '' @ lit ''dengan LIFO rollback.'')),
    (''content_items'', lab29_items_14),
    (''narrative'', PyStr (lit ''Perbandingan sebelum dan sesudah '' @
        lit ''menunjukkan transformasi fundamental dari '' @
        lit ''state management manual ke orchestration '' @
        lit ''terstruktur. Sebelum saga, kegagalan di '' @
        lit ''satu service meninggalkan state '' @
        lit ''inconsistency yang memerlukan intervensi '' @
        lit ''manual. Setelah saga, orchestrator secara '' @
        lit ''otomatis mencatut log status dan memicu '' @
        lit ''kompensasi berurutan. Setiap langkah '' @
        lit ''memiliki jejak audit trail yang '' @
        lit ''memungkinkan debugging cepat tanpa perlu '' @
        lit ''menggabungkan log dari multiple service.'')),
    (''narrative_en'', PyStr (lit ''The before-after comparison shows a '' @
        lit ''fundamental transformation from manual '' @
        lit ''state management to structured '' @
        lit ''orchestration. Before saga, a failure in '' @
        lit ''one service leaves persistent state '' @
        lit ''inconsistency requiring manual '' @
        lit ''intervention. After saga, the orchestrator '' @
        lit ''automatically logs status and triggers '' @
        lit ''sequential compensation. Each step has an '' @
        lit ''audit trail enabling fast debugging without '' @
        lit ''combining logs from multiple services.'')),
    (''mental_model'', PyStr (lit ''Orchestration replaces chaos with traceable '' @
        lit ''state transitions and automatic recovery.'')),
    (''source_path'', PyStr (lit ''cmd/demo/main.go '' @ [0x2022] @ lit '' tests/saga_test.go:74-147'')),
    (''slide_num'', PyStr (lit ''14 / 24'')),
    (''layout'', PyStr (lit ''cards''))]\<rparr>\<close>

definition lab29_items_15 :: pyval where [lab29_contents]:
  \<open>lab29_items_15 =
   PyList
   [PyDict
     [(''title'', PyStr (lit ''SEMANTIC LOCK (OrderService)'')),
      (''items'', PyList
        [PyStr (lit ''func CreateOrder checks s.locks[orderID] '' @ [0x2014] @
            lit '' menolak duplikasi saat saga masih berjalan.''),
         PyStr (lit ''ApproveOrder menghapus lock via '' @
            lit ''delete(s.locks, orderID) setelah approved.''),
         PyStr (lit ''CancelOrder juga menghapus lock agar order '' @
            lit ''yang dikompensasi bisa dibuat ulang.'')]),
      (''type'', PyStr (lit ''bullet''))],
    PyDict
     [(''title'', PyStr (lit ''IDEMPOTENCY KEY (PaymentService)'')),
      (''items'', PyList
        [PyStr (lit ''processedID map tracks'' @ [0x5DF2] @ lit ''processed payment IDs.''),
         PyStr (lit ''func ProcessPayment: if processedID[id] == '' @ lit ''true '' @ [0x2192] @
            lit '' return nil (idempotent success).''),
         PyStr (lit ''RefundPayment: delete(s.payments, id) '' @ [0x2014] @
            lit '' aman dipanggil berkali-kali.'')]),
      (''type'', PyStr (lit ''bullet''))],
    PyDict
     [(''title'', PyStr (lit ''ATOMIC STOCK MUTATION (InventoryService)'')),
      (''items'', PyList
        [PyStr (lit ''Reserve: atomic stock decrement under mutex '' @ [0x2014] @
            lit '' stock[item] -= qty, reserved[item] += qty.''),
         PyStr (lit ''Release: atomic stock restore under mutex '' @ [0x2014] @
            lit '' reserved[item] -= qty, stock[item] += qty.''),
         PyStr (lit ''Kedua operasi dilindungi sync.Mutex tunggal '' @ [0x2014] @
            lit '' nol race condition pada concurrent access.'')]),
      (''type'', PyStr (lit ''bullet''))]]\<close>

definition lab29_slide_15 :: pycall where [lab29_slides]:
  \<open>lab29_slide_15 =
   \<lparr>posargs = [],
  kwargs =
   [(''categories'', PyList
      [PyStr (lit ''DEEP DIVE''),
       PyStr (lit ''SERVICE LAYER'')]),
    (''title'', PyStr (lit ''Service Layer: Semantic Lock, Idempotency, '' @
        lit ''dan Atomic Stock Mutation'')),
    (''subtitle'', PyStr (lit ''Setiap service memiliki mekanisme proteksi '' @
        lit ''mandiri sebelum saga menyentuhnya.'')),
    (''content_items'', lab29_items_15),
    (''narrative'', PyStr (lit ''Service layer bukan sekadar storage '' @ lit ''abstraction '' @ [0x2014] @
        lit '' setiap service mengandung mekanisme '' @
        lit ''proteksi mandiri. OrderService menggunakan '' @
        lit ''semantic lock untuk mencegah '' @
        lit ''double-creation order dalam satu saga '' @
        lit ''instance. PaymentService mengandalkan '' @
        lit ''idempotency key untuk menangani retry '' @
        lit ''berulang pada payment step. '' @
        lit ''InventoryService menjamin atomicity stock '' @
        lit ''mutation melalui mutex tunggal. Tanpa '' @
        lit ''proteksi ini, saga kompensasi sendiri bisa '' @
        lit ''menimbulkan race condition.'')),
    (''narrative_en'', PyStr (lit ''The service layer is not merely a storage '' @ lit ''abstraction '' @
        [0x2014] @ lit '' each service contains its own protection '' @
        lit ''mechanisms. OrderService uses semantic '' @
        lit ''locking to prevent double order creation '' @
        lit ''within a single saga instance. '' @
        lit ''PaymentService relies on idempotency keys '' @
        lit ''to handle repeated retry on the payment '' @
        lit ''step. InventoryService guarantees atomic '' @
        lit ''stock mutation through a single mutex. '' @
        lit ''Without these protections, saga '' @
        lit ''compensation itself could introduce race '' @ lit ''conditions.'')),
    (''mental_model'', PyStr (lit ''Service-level guards complement saga-level '' @ lit ''compensation '' @
        [0x2014] @ lit '' defense in depth across layers.'')),
    (''source_path'', PyStr (lit ''internal/services/services.go:29-157'')),
    (''slide_num'', PyStr (lit ''15 / 24'')),
    (''layout'', PyStr (lit ''code-bullet''))]\<rparr>\<close>

definition lab29_items_16 :: pyval where [lab29_contents]:
  \<open>lab29_items_16 =
   PyList
   [PyDict
     [(''type'', PyStr (lit ''code'')),
      (''title'', PyStr (lit ''internal/saga/choreography.go '' @ [0x2014] @ lit '' EventBus pub/sub'')),
      (''items'', PyList
        [PyStr (lit ''type EventBus struct {''),
         PyStr (lit ''    mu       sync.RWMutex''),
         PyStr (lit ''    handlers map[EventType][]EventHandler''),
         PyStr (lit ''}''),
         PyStr [],
         PyStr (lit ''func (b *EventBus) Subscribe(t EventType, h '' @ lit ''EventHandler) {''),
         PyStr (lit ''    b.mu.Lock()''),
         PyStr (lit ''    b.handlers[t] = append(b.handlers[t], h)''),
         PyStr (lit ''    b.mu.Unlock()''),
         PyStr (lit ''}''),
         PyStr [],
         PyStr (lit ''func (b *EventBus) Publish(ctx '' @ lit ''context.Context, e Event) {''),
         PyStr (lit ''    b.mu.RLock()''),
         PyStr (lit ''    handlers := append([]EventHandler(nil), '' @
            lit ''b.handlers[e.Type]...)''),
         PyStr (lit ''    b.mu.RUnlock()''),
         PyStr (lit ''    for _, h := range handlers { h(ctx, e) }''),
         PyStr (lit ''}'')])],
    PyDict
     [(''type'', PyStr (lit ''bullet'')),
      (''title'', PyStr (lit ''FLOW CHOREOGRAPHY'')),
      (''items'', PyList
        [PyStr (lit ''OrderCreated event '' @ [0x2192] @
            lit '' PaymentService.ProcessPayment '' @ [0x2192] @
            lit '' PaymentCompleted/PaymentFailed''),
         PyStr (lit ''PaymentCompleted '' @ [0x2192] @ lit '' InventoryService.Reserve '' @
            [0x2192] @ lit '' InventoryReserved/InventoryFailed''),
         PyStr (lit ''InventoryReserved '' @ [0x2192] @ lit '' OrderService.ApproveOrder''),
         PyStr (lit ''InventoryFailed/PaymentFailed '' @ [0x2192] @
            lit '' PaymentService.RefundPayment + '' @ lit ''OrderService.CancelOrder'')])]]\<close>

definition lab29_slide_16 :: pycall where [lab29_slides]:
  \<open>lab29_slide_16 =
   \<lparr>posargs = [],
  kwargs =
   [(''categories'', PyList
      [PyStr (lit ''DEEP DIVE''),
       PyStr (lit ''EVENT BUS'')]),
    (''title'', PyStr (lit ''Choreography Pattern: Event Bus Decoupled '' @ lit ''via Pub/Sub'')),
    (''subtitle'', PyStr (lit ''Setiap layanan subscribe ke event tertentu '' @
        lit ''dan publish event setelah proses selesai.'')),
    (''content_items'', lab29_items_16),
    (''narrative'', PyStr (lit ''Choreography pattern menghilangkan '' @
        lit ''koordinator terpusat sepenuhnya. Setiap '' @
        lit ''layanan mendengarkan event dari layanan '' @
        lit ''lain dan bereaksi sesuai handler yang '' @
        lit ''terdaftar. Event bus menggunakan RWMutex '' @
        lit ''untuk keamanan konkuren: Subscribe memegang '' @
        lit ''write lock, Publish memegang read lock '' @
        lit ''sementara menyalin handler slice. Pola ini '' @
        lit ''menghasilkan loose coupling tetapi '' @
        lit ''mengurangi observabilitas karena tidak ada '' @ lit ''central log eksekusi.'')),
    (''narrative_en'', PyStr (lit ''The choreography pattern eliminates the '' @
        lit ''central coordinator entirely. Each service '' @
        lit ''listens to events from other services and '' @
        lit ''reacts according to registered handlers. '' @
        lit ''The event bus uses RWMutex for concurrency '' @
        lit ''safety: Subscribe holds write locks, '' @
        lit ''Publish holds read locks while copying the '' @
        lit ''handler slice. This pattern yields loose '' @
        lit ''coupling but reduces observability since '' @
        lit ''there is no centralized execution log.'')),
    (''mental_model'', PyStr (lit ''Decentralized event-driven coordination '' @
        lit ''trades observability for service autonomy.'')),
    (''source_path'', PyStr (lit ''internal/saga/choreography.go '' @ [0x2022] @
        lit '' tests/saga_test.go:225-316'')),
    (''slide_num'', PyStr (lit ''16 / 24'')),
    (''layout'', PyStr (lit ''code-bullet''))]\<rparr>\<close>

definition lab29_items_17 :: pyval where [lab29_contents]:
  \<open>lab29_items_17 =
   PyList
   [PyDict
     [(''type'', PyStr (lit ''code'')),
      (''title'', PyStr (lit ''tests/saga_test.go '' @ [0x2014] @
          lit '' Idempotency & Semantic Lock Proofs'')),
      (''items'', PyList
        [PyStr (lit ''func TestPayment_Idempotency(t *testing.T) {''),
         PyStr (lit ''    paymentSvc := '' @ lit ''services.NewPaymentService()''),
         PyStr (lit ''    id := "tx-1"''),
         PyStr (lit ''    // First call: records payment''),
         PyStr (lit ''    paymentSvc.ProcessPayment(id, 100, '' @ lit ''false)''),
         PyStr (lit ''    // Second call with same ID: idempotent '' @ lit ''no-op''),
         PyStr (lit ''    err := paymentSvc.ProcessPayment(id, '' @ lit ''100, false)''),
         PyStr (lit ''    // Must succeed (nil error) '' @ [0x2014] @
            lit '' double charge prevented''),
         PyStr (lit ''    if err != nil { t.Fatalf(...) }''),
         PyStr (lit ''}''),
         PyStr [],
         PyStr (lit ''func TestSemanticLock(t *testing.T) {''),
         PyStr (lit ''    orderSvc := services.NewOrderService()''),
         PyStr (lit ''    id := "ord-lock"''),
         PyStr (lit ''    orderSvc.CreateOrder(id)  // sets '' @ lit ''locks[id] = true''),
         PyStr (lit ''    err := orderSvc.CreateOrder(id)  // '' @ lit ''should FAIL''),
         PyStr (lit ''    if err == nil { t.Fatal("second create '' @
            lit ''should fail due to semantic lock") }''),
         PyStr (lit ''}'')])],
    PyDict
     [(''type'', PyStr (lit ''bullet'')),
      (''title'', PyStr (lit ''INARIAN YANG DIBUKTIKAN'')),
      (''items'', PyList
        [PyStr (lit ''Idempotency: ProcessPayment dengan ID sama '' @
            lit ''tidak menduplikasi charge.''),
         PyStr (lit ''Semantic lock: CreateOrder dengan orderID '' @
            lit ''yang sama ditolak selama lock masih aktif.'')])]]\<close>

definition lab29_slide_17 :: pycall where [lab29_slides]:
  \<open>lab29_slide_17 =
   \<lparr>posargs = [],
  kwargs =
   [(''categories'', PyList
      [PyStr (lit ''TEST ANALYSIS''),
       PyStr (lit ''INVARIANT PROOFS'')]),
    (''title'', PyStr (lit ''Bukti Invarian: Idempotency Payment dan '' @ lit ''Semantic Lock Order'')),
    (''subtitle'', PyStr (lit ''Dua test case mengonfirmasi bahwa state '' @
        lit ''mutation tetap konsisten di bawah kondisi '' @ lit ''edge case.'')),
    (''content_items'', lab29_items_17),
    (''narrative'', PyStr (lit ''Test idempotency membuktikan bahwa payment '' @
        lit ''service menerima panggilan berulang dengan '' @
        lit ''ID yang sama tanpa melakukan double charge. '' @
        lit ''Test semantic lock membuktikan bahwa order '' @
        lit ''service menolak kreasi order duplikat '' @
        lit ''selama saga instance masih berjalan '' @ [0x2014] @
        lit '' mencegah race condition antara concurrent '' @
        lit ''saga instances yang menggunakan orderID '' @ lit ''sama.'')),
    (''narrative_en'', PyStr (lit ''The idempotency test proves that the '' @
        lit ''payment service accepts repeated calls with '' @
        lit ''the same ID without double-charging. The '' @
        lit ''semantic lock test proves that the order '' @
        lit ''service rejects duplicate order creation '' @
        lit ''while the saga instance is still active '' @ [0x2014] @
        lit '' preventing race conditions between '' @
        lit ''concurrent saga instances using the same '' @ lit ''orderID.'')),
    (''mental_model'', PyStr (lit ''Idempotency and semantic locks are the '' @
        lit ''cornerstones of reliable saga step '' @ lit ''execution.'')),
    (''source_path'', PyStr (lit ''tests/saga_test.go:149-171'')),
    (''slide_num'', PyStr (lit ''17 / 24'')),
    (''layout'', PyStr (lit ''code''))]\<rparr>\<close>

definition lab29_items_18 :: pyval where [lab29_contents]:
  \<open>lab29_items_18 =
   PyList
   [PyDict
     [(''type'', PyStr (lit ''code'')),
      (''title'', PyStr (lit ''tests/saga_test.go '' @ [0x2014] @ lit '' LIFO Log Verification'')),
      (''items'', PyList
        [PyStr (lit ''func TestOrchestrator_FailureCompensatesLIFO'' @ lit ''(t *testing.T) {''),
         PyStr (lit ''    // ...setup: CreateOrder, '' @
            lit ''ProcessPayment, ReserveInventory(fail)...''),
         PyStr (lit ''    err := orch.Execute(ctx)''),
         PyStr (lit ''    // Verify state recovery''),
         PyStr (lit ''    if orderSvc.GetOrder(orderID) != '' @
            lit ''services.OrderCancelled {''),
         PyStr (lit ''        t.Fatalf("expected order cancelled, '' @
            lit ''got %v", orderSvc.GetOrder(orderID))''),
         PyStr (lit ''    }''),
         PyStr (lit ''    if paymentSvc.HasPayment(orderID) {''),
         PyStr (lit ''        t.Fatal("expected payment refunded")''),
         PyStr (lit ''    }''),
         PyStr (lit ''    // Verify log order (5 entries exactly)''),
         PyStr (lit ''    logs := orch.Logs()''),
         PyStr (lit ''    expectedOrder := []saga.StepStatus{''),
         PyStr (lit ''        saga.StatusExecuted, '' @
            lit ''saga.StatusExecuted, saga.StatusFailed,''),
         PyStr (lit ''        saga.StatusCompensated, '' @ lit ''saga.StatusCompensated,''),
         PyStr (lit ''    }''),
         PyStr (lit ''    for i, l := range logs {''),
         PyStr (lit ''        if l.Status != expectedOrder[i] { '' @ lit ''... }''),
         PyStr (lit ''    }''),
         PyStr (lit ''}'')])],
    PyDict
     [(''type'', PyStr (lit ''bullet'')),
      (''title'', PyStr (lit ''LOG EKSPEKTASI'')),
      (''items'', PyList
        [PyStr (lit ''Idx 0: CreateOrder '' @ [0x2192] @ lit '' EXECUTED (order PENDING)''),
         PyStr (lit ''Idx 1: ProcessPayment '' @ [0x2192] @ lit '' EXECUTED (payment recorded)''),
         PyStr (lit ''Idx 2: ReserveInventory '' @ [0x2192] @ lit '' FAILED (out of stock)''),
         PyStr (lit ''Idx 3: ProcessPayment '' @ [0x2192] @
            lit '' COMPENSATED (refund executed)''),
         PyStr (lit ''Idx 4: CreateOrder '' @ [0x2192] @ lit '' COMPENSATED (order CANCELLED)'')])]]\<close>

definition lab29_slide_18 :: pycall where [lab29_slides]:
  \<open>lab29_slide_18 =
   \<lparr>posargs = [],
  kwargs =
   [(''categories'', PyList
      [PyStr (lit ''TEST ANALYSIS''),
       PyStr (lit ''LOG PROOFS'')]),
    (''title'', PyStr (lit ''Bukti LIFO Log: Verifikasi Urutan Status '' @ lit ''Step pada Kompensasi'')),
    (''subtitle'', PyStr (lit ''Test menegaskan log records tepat 5 entri: '' @
        lit ''EXECUTED, EXECUTED, FAILED, COMPENSATED, '' @ lit ''COMPENSATED.'')),
    (''content_items'', lab29_items_18),
    (''narrative'', PyStr (lit ''Test ini memverifikasi tiga hal sekaligus: '' @
        lit ''state recovery (order CANCELLED, payment '' @
        lit ''refunded), stock integrity (stock tetap 1), '' @
        lit ''dan urutan log yang tepat. Enam entri log '' @ [0x2014] @
        lit '' dua EXECUTED, satu FAILED, dua COMPENSATED '' @ [0x2014] @
        lit '' membentuk sequence yang membuktikan LIFO '' @
        lit ''rollback bekerja sesuai desain. Urutan ini '' @
        lit ''penting untuk debugging: engineer bisa '' @
        lit ''merekonstruksi kronologi exact failure.'')),
    (''narrative_en'', PyStr (lit ''This test verifies three things '' @
        lit ''simultaneously: state recovery (order '' @
        lit ''CANCELLED, payment refunded), stock '' @
        lit ''integrity (stock remains 1), and correct '' @
        lit ''log sequence. Six log entries '' @ [0x2014] @
        lit '' two EXECUTED, one FAILED, two COMPENSATED '' @ [0x2014] @
        lit '' form a sequence proving LIFO rollback '' @
        lit ''works as designed. This order is critical '' @
        lit ''for debugging: engineers can reconstruct '' @
        lit ''the exact failure chronology.'')),
    (''mental_model'', PyStr (lit ''Log sequence integrity is as important as '' @ lit ''state recovery '' @
        [0x2014] @ lit '' every compensation must be traced.'')),
    (''source_path'', PyStr (lit ''tests/saga_test.go:74-147'')),
    (''slide_num'', PyStr (lit ''18 / 24'')),
    (''layout'', PyStr (lit ''code''))]\<rparr>\<close>

definition lab29_items_19 :: pyval where [lab29_contents]:
  \<open>lab29_items_19 =
   PyList
   [PyDict
     [(''type'', PyStr (lit ''code'')),
      (''title'', PyStr (lit ''tests/saga_test.go '' @ [0x2014] @ lit '' Context Cancellation Test'')),
      (''items'', PyList
        [PyStr (lit ''func TestOrchestrator_ContextCancellation(t '' @ lit ''*testing.T) {''),
         PyStr (lit ''    ctx, cancel := '' @ lit ''context.WithCancel(context.Background())''),
         PyStr (lit ''    orch := saga.NewOrchestrator()''),
         PyStr (lit ''    step1Compensated := false''),
         PyStr (lit ''    orch.AddStep(saga.Step{''),
         PyStr (lit ''        Name: "Step1",''),
         PyStr (lit ''        Execute: func(ctx context.Context) '' @ lit ''error {''),
         PyStr (lit ''            cancel() // cancel context '' @ lit ''before step 2''),
         PyStr (lit ''            return nil''),
         PyStr (lit ''        },''),
         PyStr (lit ''        Compensate: func(ctx '' @ lit ''context.Context) error {''),
         PyStr (lit ''            step1Compensated = true''),
         PyStr (lit ''            return nil''),
         PyStr (lit ''        },''),
         PyStr (lit ''    })''),
         PyStr (lit ''    orch.AddStep(saga.Step{''),
         PyStr (lit ''        Name: "Step2",''),
         PyStr (lit ''        Execute: func(ctx context.Context) '' @ lit ''error {''),
         PyStr (lit ''            t.Fatal("step 2 should not '' @
            lit ''execute when context cancelled")''),
         PyStr (lit ''            return nil''),
         PyStr (lit ''        },''),
         PyStr (lit ''    })''),
         PyStr (lit ''    err := orch.Execute(ctx)''),
         PyStr (lit ''    if !step1Compensated { '' @
            lit ''t.Fatal("expected step 1 compensated") }''),
         PyStr (lit ''}'')])],
    PyDict
     [(''type'', PyStr (lit ''bullet'')),
      (''title'', PyStr (lit ''INARIAN CONTEXT CANCELLATION'')),
      (''items'', PyList
        [PyStr (lit ''Context cancellation saat step 1 execute '' @
            lit ''memicu cancel() sebelum step 2 dimulai.''),
         PyStr (lit ''Step 2 tidak pernah dieksekusi '' @ [0x2014] @
            lit '' select case ctx.Done() interrupts loop.''),
         PyStr (lit ''Step 1 tetap dikompensasi '' @ [0x2014] @
            lit '' compensate() dipanggil dengan '' @ lit ''context.Background().''),
         PyStr (lit ''Error yang dikembalikan: '' @ [39] @
            lit ''saga cancelled: context canceled'' @ [39] @
            lit '' dengan compensation details.'')])]]\<close>

definition lab29_slide_19 :: pycall where [lab29_slides]:
  \<open>lab29_slide_19 =
   \<lparr>posargs = [],
  kwargs =
   [(''categories'', PyList
      [PyStr (lit ''TEST ANALYSIS''),
       PyStr (lit ''CONTEXT SAFETY'')]),
    (''title'', PyStr (lit ''Bukti Context Cancellation: Kompensasi Saat '' @ lit ''Saga Dibatalkan'')),
    (''subtitle'', PyStr (lit ''Test memastikan step yang sudah dieksekusi '' @
        lit ''dikompensasi saat context dibatalkan di '' @ lit ''tengah jalan.'')),
    (''content_items'', lab29_items_19),
    (''narrative'', PyStr (lit ''Test ini memvalidasi perilaku saga ketika '' @
        lit ''context dibatalkan di tengah eksekusi. '' @
        lit ''Context cancellation dideteksi pada select '' @
        lit ''case di loop Execute, menghentikan iterasi '' @
        lit ''sebelum step berikutnya dijalankan. '' @
        lit ''Meskipun context dibatalkan, compensate() '' @
        lit ''tetap dipanggil dengan context.Background() '' @ [0x2014] @
        lit '' memastikan kompensasi tidak terhenti oleh '' @
        lit ''cancellation propagation. Step yang sudah '' @
        lit ''dieksekusi pasti dikompensasi, '' @ lit ''mempertahankan invarian atomicity.'')),
    (''narrative_en'', PyStr (lit ''This test validates saga behavior when '' @
        lit ''context is cancelled mid-execution. Context '' @
        lit ''cancellation is detected via the select '' @
        lit ''case in the Execute loop, halting iteration '' @
        lit ''before the next step runs. Despite context '' @
        lit ''cancellation, compensate() is still called '' @
        lit ''with context.Background() '' @ [0x2014] @
        lit '' ensuring compensation is not aborted by '' @
        lit ''cancellation propagation. Every executed '' @
        lit ''step is guaranteed compensation, '' @
        lit ''maintaining the atomicity invariant.'')),
    (''mental_model'', PyStr (lit ''Context cancellation must not abandon '' @ lit ''in-flight compensations '' @
        [0x2014] @ lit '' use detached context for rollback.'')),
    (''source_path'', PyStr (lit ''tests/saga_test.go:353-385 '' @ [0x2022] @
        lit '' internal/saga/orchestrator.go:57-69'')),
    (''slide_num'', PyStr (lit ''19 / 24'')),
    (''layout'', PyStr (lit ''code''))]\<rparr>\<close>

definition lab29_items_20 :: pyval where [lab29_contents]:
  \<open>lab29_items_20 =
   PyList
   [PyDict
     [(''title'', PyStr (lit ''CHECKLIST IMPLEMENTASI'')),
      (''items'', PyList
        [PyStr (lit ''[x] Setiap step memiliki fungsi Compensate '' @
            lit ''yang valid (tidak nil untuk non-final '' @ lit ''steps).''),
         PyStr (lit ''[x] Setiap step Execute dan Compensate '' @ lit ''adalah idempotent '' @
            [0x2014] @ lit '' aman dipanggil berulang.''),
         PyStr (lit ''[x] Semantic lock diterapkan pada entity '' @
            lit ''yang bisa diakses concurrent saga instances.''),
         PyStr (lit ''[x] Orchestrator menggunakan snapshot '' @
            lit ''pattern untuk concurrent-safe step '' @ lit ''execution.''),
         PyStr (lit ''[x] Context cancellation handled: '' @
            lit ''compensate() dipanggil dengan context '' @ lit ''independent.''),
         PyStr (lit ''[x] Step log mencatat semua status: '' @
            lit ''PENDING, EXECUTED, FAILED, COMPENSATED, '' @ lit ''COMPENSATE_FAILED.''),
         PyStr (lit ''[x] go test -race dijalankan dan melaporkan '' @ lit ''clean '' @
            [0x2014] @ lit '' zero data race.''),
         PyStr (lit ''[x] Dead-letter queue planned untuk '' @
            lit ''compensation failures yang tidak bisa '' @ lit ''otomatis recover.'')]),
      (''type'', PyStr (lit ''bullet''))]]\<close>

definition lab29_slide_20 :: pycall where [lab29_slides]:
  \<open>lab29_slide_20 =
   \<lparr>posargs = [],
  kwargs =
   [(''categories'', PyList
      [PyStr (lit ''CHECKLIST''),
       PyStr (lit ''IMPLEMENTATION GUIDE'')]),
    (''title'', PyStr (lit ''Checklist Implementasi Saga Pattern yang '' @ lit ''Benar'')),
    (''subtitle'', PyStr (lit ''Delapan poin wajib sebelum saga pattern '' @
        lit ''siap deployment ke production.'')),
    (''content_items'', lab29_items_20),
    (''narrative'', PyStr (lit ''Checklist ini merangkum delapan persyaratan '' @
        lit ''kritis untuk implementasi saga pattern yang '' @
        lit ''production-ready. Poin paling sering '' @
        lit ''terlewat adalah idempotensi kompensasi '' @ [0x2014] @
        lit '' jika compensate() dipanggil dua kali, '' @
        lit ''sistem harus tetap stabil. Poin keenam '' @
        lit ''tentang dead-letter queue juga krusial: '' @
        lit ''compensation failure permanen memerlukan '' @
        lit ''mekanisme manual intervention yang harus '' @
        lit ''direncanakan sebelum deployment.'')),
    (''narrative_en'', PyStr (lit ''This checklist summarizes eight critical '' @
        lit ''requirements for production-ready saga '' @
        lit ''pattern implementation. The most commonly '' @
        lit ''overlooked point is compensation '' @ lit ''idempotency '' @ [0x2014] @
        lit '' if compensate() is called twice, the '' @
        lit ''system must remain stable. The sixth point '' @
        lit ''about dead-letter queues is also crucial: '' @
        lit ''permanent compensation failures require '' @
        lit ''manual intervention mechanisms that must be '' @
        lit ''planned before deployment.'')),
    (''mental_model'', PyStr (lit ''Idempotent compensations and observable '' @
        lit ''logs are non-negotiable for production '' @ lit ''sagas.'')),
    (''source_path'', PyStr (lit ''internal/saga/orchestrator.go '' @ [0x2022] @ lit '' tests/saga_test.go '' @
        [0x2022] @ lit '' content/02-master-draft.md:143-148'')),
    (''slide_num'', PyStr (lit ''20 / 24'')),
    (''layout'', PyStr (lit ''code''))]\<rparr>\<close>

definition lab29_items_21 :: pyval where [lab29_contents]:
  \<open>lab29_items_21 =
   PyList
   [PyDict
     [(''type'', PyStr (lit ''cards'')),
      (''title'', PyStr (lit ''ANTI-PATTERNS YANG HARUS DIHINDARI'')),
      (''items'', PyList
        [PyDict
          [(''title'', PyStr (lit ''Non-Idempotent Compensate'')),
           (''desc'', PyStr (lit ''Compensate() memanggil external API tanpa '' @
               lit ''idempotency key '' @ [0x2192] @
               lit '' refund ganda saat retry kompensasi.''))],
         PyDict
          [(''title'', PyStr (lit ''Circular Compensation Dependency'')),
           (''desc'', PyStr (lit ''Step A compensate memanggil Step B execute '' @ [0x2192] @
               lit '' infinite loop kompensasi timbal balik.''))],
         PyDict
          [(''title'', PyStr (lit ''Missing Compensate for Final Step'')),
           (''desc'', PyStr (lit ''Final step (ApproveOrder) tidak punya '' @
               lit ''Compensate, tapi jika di tengah jalan '' @
               lit ''di-rollback, approval permanen.''))],
         PyDict
          [(''title'', PyStr (lit ''Blocking Long-Running Compensate'')),
           (''desc'', PyStr (lit ''Compensate() memanggil synchronous HTTP ke '' @
               lit ''external service '' @ [0x2192] @
               lit '' orch stall, lock held, deadlock.''))]])]]\<close>

definition lab29_slide_21 :: pycall where [lab29_slides]:
  \<open>lab29_slide_21 =
   \<lparr>posargs = [],
  kwargs =
   [(''categories'', PyList
      [PyStr (lit ''ANTI-PATTERN''),
       PyStr (lit ''FAILURE REPRODUCTION'')]),
    (''title'', PyStr (lit ''Anti-Pattern Saga: Yang Harus Dihindari di '' @ lit ''Production'')),
    (''subtitle'', PyStr (lit ''Empat kesalahan desain umum yang '' @
        lit ''menyebabkan data corruption atau infinite '' @ lit ''rollback loops.'')),
    (''content_items'', lab29_items_21),
    (''narrative'', PyStr (lit ''Empat anti-pattern ini paling umum '' @
        lit ''ditemukan di implementasi saga production. '' @
        lit ''Non-idempotent compensate adalah penyebab '' @
        lit ''utama double-refund yang merugikan '' @
        lit ''financial reconciliation. Circular '' @
        lit ''dependency antara kompensasi step '' @
        lit ''menciptakan infinite loop yang melumpuhkan '' @
        lit ''orchestrator. Missing compensate pada final '' @
        lit ''step berarti approval state permanen '' @
        lit ''meskipun step lain dikompensasi. Blocking '' @
        lit ''long-running compensate mengunci goroutine '' @
        lit ''orchestrator dan mencegah step selanjutnya '' @ lit ''dieksekusi.'')),
    (''narrative_en'', PyStr (lit ''These four anti-patterns are most commonly '' @
        lit ''found in production saga implementations. '' @
        lit ''Non-idempotent compensate is the primary '' @
        lit ''cause of double-refund that harms financial '' @
        lit ''reconciliation. Circular compensation '' @
        lit ''dependency creates infinite loops that '' @
        lit ''paralyze the orchestrator. Missing '' @
        lit ''compensate on the final step means approval '' @
        lit ''state persists permanently even when other '' @
        lit ''steps are compensated. Blocking '' @
        lit ''long-running compensate locks the '' @
        lit ''orchestrator goroutine and prevents '' @
        lit ''subsequent steps from executing.'')),
    (''mental_model'', PyStr (lit ''Every compensation must be idempotent, '' @
        lit ''non-blocking, and free from circular '' @ lit ''dependencies.'')),
    (''source_path'', PyStr (lit ''content/02-master-draft.md:126-132'')),
    (''slide_num'', PyStr (lit ''21 / 24'')),
    (''layout'', PyStr (lit ''cards''))]\<rparr>\<close>

definition lab29_items_22 :: pyval where [lab29_contents]:
  \<open>lab29_items_22 =
   PyList
   [PyDict
     [(''type'', PyStr (lit ''code'')),
      (''title'', PyStr (lit ''REPRODUKSI & OPERASIONAL COMMAND'')),
      (''items'', PyList
        [PyStr (lit ''# Jalankan seluruh test suite''),
         PyStr (lit ''go test -v ./...''),
         PyStr [],
         PyStr (lit ''# Verifikasi race condition''),
         PyStr (lit ''go test -race -v ./...''),
         PyStr [],
         PyStr (lit ''# Demo interaktif (happy path + rollback)''),
         PyStr (lit ''go run ./cmd/demo''),
         PyStr [],
         PyStr (lit ''# Production runbook:''),
         PyStr (lit ''# 1. Monitor orch.Logs() untuk '' @
            lit ''STATUS_FAILED / STATUS_COMPENSATE_FAILED''),
         PyStr (lit ''# 2. Alert on COMPENSATE_FAILED '' @ [0x2192] @
            lit '' trigger DLQ processing''),
         PyStr (lit ''# 3. Manual reconciliation via admin '' @
            lit ''console for stuck compensations''),
         PyStr (lit ''# 4. Regular healthcheck: verify all '' @
            lit ''in-flight sagas reached terminal state'')])],
    PyDict
     [(''type'', PyStr (lit ''bullet'')),
      (''title'', PyStr (lit ''PRINSIP OPERASIONAL'')),
      (''items'', PyList
        [PyStr (lit ''Kompensasi adalah transaksi biasa '' @ [0x2014] @
            lit '' perlakukan dengan sama seriusnya seperti '' @ lit ''eksekusi forward.''),
         PyStr (lit ''Setiap saga instance memiliki SagaID unik '' @
            lit ''untuk tracing end-to-end.''),
         PyStr (lit ''Dead letter queue diperlukan untuk '' @
            lit ''compensation failure yang tidak bisa '' @ lit ''auto-retry.'')])]]\<close>

definition lab29_slide_22 :: pycall where [lab29_slides]:
  \<open>lab29_slide_22 =
   \<lparr>posargs = [],
  kwargs =
   [(''categories'', PyList
      [PyStr (lit ''PRACTICAL TAKEAWAY''),
       PyStr (lit ''COMMAND REFERENCE'')]),
    (''title'', PyStr (lit ''Takeaway Praktis: Command & Runbook untuk '' @ lit ''Saga Pattern'')),
    (''subtitle'', PyStr (lit ''Kumpulan command reproduksi dan prinsip '' @
        lit ''operasional untuk saga di lingkungan '' @ lit ''production.'')),
    (''content_items'', lab29_items_22),
    (''narrative'', PyStr (lit ''Takeaway praktis untuk engineer yang '' @
        lit ''mengadopsi saga pattern di production: '' @
        lit ''command di atas adalah titik awal '' @
        lit ''reproduksi mandiri. Prinsip operasional '' @
        lit ''ketiga poin terakhir merupakan panduan '' @
        lit ''monitoring yang harus diimplementasikan '' @
        lit ''sebelum go-live. Compensation failure yang '' @
        lit ''masuk ke DLQ harus diproses secara manual '' @
        lit ''oleh on-call engineer dengan konsol admin '' @ [0x2014] @
        lit '' tidak ada fully-automatic resolution untuk '' @ lit ''semua kasus.'')),
    (''narrative_en'', PyStr (lit ''The practical takeaway for engineers '' @
        lit ''adopting saga pattern in production: the '' @
        lit ''commands above are the starting point for '' @
        lit ''independent reproduction. The three '' @
        lit ''operational principles at the bottom are '' @
        lit ''monitoring guidelines that must be '' @
        lit ''implemented before go-live. Compensation '' @
        lit ''failures entering the DLQ must be processed '' @
        lit ''manually by on-call engineers through the '' @ lit ''admin console '' @
        [0x2014] @ lit '' there is no fully automatic resolution for '' @ lit ''all cases.'')),
    (''mental_model'', PyStr (lit ''Runbooks matter as much as code '' @ [0x2014] @
        lit '' compensation failure handling requires '' @ lit ''operational discipline.'')),
    (''source_path'', PyStr (lit ''cmd/demo/main.go '' @ [0x2022] @ lit '' tests/saga_test.go '' @ [0x2022] @
        lit '' README.md'')),
    (''slide_num'', PyStr (lit ''22 / 24'')),
    (''layout'', PyStr (lit ''code''))]\<rparr>\<close>

definition lab29_items_23 :: pyval where [lab29_contents]:
  \<open>lab29_items_23 =
   PyList
   [PyDict
     [(''type'', PyStr (lit ''schema'')),
      (''title'', PyStr (lit ''PRINSIP ARSITEKTUR SAGA'')),
      (''items'', PyList
        [PyDict
          [(''phase'', PyStr (lit ''1. Local Autonomy'')),
           (''role'', PyStr (lit ''Each Service Owns Data'')),
           (''desc'', PyStr (lit ''Setiap service mengelola database sendiri; '' @
               lit ''tidak ada shared transaction boundary.''))],
         PyDict
          [(''phase'', PyStr (lit ''2. Eager Local Commit'')),
           (''role'', PyStr (lit ''Commit Before Next Step'')),
           (''desc'', PyStr (lit ''Setiap langkah committed segera ke database '' @ lit ''lokal '' @
               [0x2014] @ lit '' tidak ada pending write antar step.''))],
         PyDict
          [(''phase'', PyStr (lit ''3. Explicit Compensation'')),
           (''role'', PyStr (lit ''Undo as First-Class Operation'')),
           (''desc'', PyStr (lit ''Kompensasi adalah operation explicit, bukan '' @
               lit ''implicit rollback '' @ [0x2014] @
               lit '' didesain, di-test, di-monitor.''))],
         PyDict
          [(''phase'', PyStr (lit ''4. Observable State'')),
           (''role'', PyStr (lit ''Logs adalah Source of Truth'')),
           (''desc'', PyStr (lit ''Step log adalah satu-satunya sumber '' @
               lit ''kebenaran untuk debugging distributed '' @ lit ''failure.''))],
         PyDict
          [(''phase'', PyStr (lit ''5. Resilient Design'')),
           (''role'', PyStr (lit ''Accept Partial Failure'')),
           (''desc'', PyStr (lit ''Sistem diterima sebagai entitas yang bisa '' @ lit ''gagal parsial '' @
               [0x2014] @ lit '' compensations dirancang untuk recover.''))]])]]\<close>

definition lab29_slide_23 :: pycall where [lab29_slides]:
  \<open>lab29_slide_23 =
   \<lparr>posargs = [],
  kwargs =
   [(''categories'', PyList
      [PyStr (lit ''ARCHITECTURAL PRINCIPLE''),
       PyStr (lit ''LONG-TERM DESIGN'')]),
    (''title'', PyStr (lit ''Prinsip Arsitektural Jangka Panjang: '' @
        lit ''Eventual Consistency sebagai Kontrak'')),
    (''subtitle'', PyStr (lit ''Saga pattern mengajarkan bahwa konsistensi '' @
        lit ''eventual adalah harga yang sah untuk '' @ lit ''availability tinggi.'')),
    (''content_items'', lab29_items_23),
    (''narrative'', PyStr (lit ''Prinsip arsitektur ini berlaku jauh '' @
        lit ''melampaui implementasi lab. Sagas bukan '' @ lit ''sekadar pola teknis '' @
        [0x2014] @ lit '' mereka mewakili filosofi desain sistem '' @
        lit ''terdistribusi yang menerima eventual '' @
        lit ''consistency sebagai kontrak fundamental. '' @
        lit ''Setiap prinsip di atas mengarahkan '' @
        lit ''keputusan arsitektural: dari pemilihan '' @
        lit ''database per service hingga desain '' @
        lit ''monitoring dan alerting system. Engineer '' @
        lit ''yang memahami ini akan menghindari godaan '' @
        lit ''untuk kembali ke ACID monolitik.'')),
    (''narrative_en'', PyStr (lit ''These architectural principles extend far '' @
        lit ''beyond the lab implementation. Sagas are '' @
        lit ''not merely a technical pattern '' @ [0x2014] @
        lit '' they represent a distributed systems '' @
        lit ''design philosophy that accepts eventual '' @
        lit ''consistency as a fundamental contract. Each '' @
        lit ''principle above guides architectural '' @
        lit ''decisions: from per-service database '' @
        lit ''selection to monitoring and alerting system '' @
        lit ''design. Engineers who understand this will '' @
        lit ''avoid the temptation to revert to '' @ lit ''monolithic ACID.'')),
    (''mental_model'', PyStr (lit ''Eventual consistency is not a compromise '' @ [0x2014] @
        lit '' it is the architecture of scale.'')),
    (''source_path'', PyStr (lit ''content/02-master-draft.md:10-12,126-135'')),
    (''slide_num'', PyStr (lit ''23 / 24'')),
    (''layout'', PyStr (lit ''schema''))]\<rparr>\<close>

definition lab29_items_24 :: pyval where [lab29_contents]:
  \<open>lab29_items_24 =
   PyList
   [PyDict
     [(''type'', PyStr (lit ''bullet'')),
      (''title'', PyStr (lit ''SUMBER DAYA LAB'')),
      (''items'', PyList
        [PyStr (lit ''Repo: '' @ lab29_REPO_URL),
         PyStr (lit ''Commit SHA: '' @ str_prefix 8 lab29_COMMIT_SHA),
         PyStr (lit ''internal/saga/orchestrator.go '' @ [0x2014] @
            lit '' Orchestrator dengan LIFO compensation''),
         PyStr (lit ''internal/saga/choreography.go '' @ [0x2014] @
            lit '' Event bus untuk pattern choreography''),
         PyStr (lit ''internal/services/services.go '' @ [0x2014] @
            lit '' Order, Payment, Inventory dengan semantic '' @ lit ''lock & idempotency''),
         PyStr (lit ''tests/saga_test.go '' @ [0x2014] @
            lit '' 9 test cases: happy path, LIFO rollback, '' @
            lit ''idempotency, concurrency''),
         PyStr (lit ''cmd/demo/main.go '' @ [0x2014] @ lit '' Interactive CLI demonstration'')])],
    PyDict
     [(''type'', PyStr (lit ''bullet'')),
      (''title'', PyStr (lit ''VERIFIKASI'')),
      (''items'', PyList
        [PyStr (lit ''Semua test suite: PASS (Race-Clean, Go '' @ lit ''1.22+)''),
         PyStr (lit ''Invarian terbukti: LIFO rollback, '' @
            lit ''idempotency, semantic lock, concurrency '' @ lit ''safety.''),
         PyStr (lit ''Batasan: in-memory simulation '' @ [0x2014] @
            lit '' belum mencakup network partition atau '' @ lit ''persistence crash.'')])]]\<close>

definition lab29_slide_24 :: pycall where [lab29_slides]:
  \<open>lab29_slide_24 =
   \<lparr>posargs = [],
  kwargs =
   [(''categories'', PyList
      [PyStr (lit ''CLOSING'')]),
    (''title'', PyStr (lit ''Eksperimen kecil, interpretasi yang teliti.'')),
    (''subtitle'', PyStr []),
    (''content_items'', lab29_items_24),
    (''mental_model'', PyStr (lit ''Distributed consistency is earned through '' @
        lit ''deliberate design, not inherited from '' @ lit ''databases.'')),
    (''source_path'', PyStr lab29_REPO_URL),
    (''slide_num'', PyStr (lit ''24 / 24'')),
    (''layout'', PyStr (lit ''closing''))]\<rparr>\<close>

definition lab29_calls :: "pycall list" where
  "lab29_calls =
    [lab29_slide_01, lab29_slide_02, lab29_slide_03, lab29_slide_04, lab29_slide_05,
     lab29_slide_06, lab29_slide_07, lab29_slide_08, lab29_slide_09, lab29_slide_10,
     lab29_slide_11, lab29_slide_12, lab29_slide_13, lab29_slide_14, lab29_slide_15,
     lab29_slide_16, lab29_slide_17, lab29_slide_18, lab29_slide_19, lab29_slide_20,
     lab29_slide_21, lab29_slide_22, lab29_slide_23, lab29_slide_24]"

definition lab29_deck :: deck where
  "lab29_deck =
    \<lparr>add_slide = lab29_add_slide, lab_no = lab29_LAB_NO, title_id = lab29_TITLE_ID, calls = lab29_calls\<rparr>"

section \<open>Checks of the calls\<close>

lemma lab29_shapes:
  "\<forall>c \<in> set lab29_calls. shape_of c \<in> set
    [(0, [''categories'', ''title'', ''subtitle'', ''content_items'', ''mental_model'',
      ''source_path'', ''slide_num'', ''layout'']),
     (0, [''categories'', ''title'', ''subtitle'', ''content_items'', ''narrative'',
      ''narrative_en'', ''mental_model'', ''source_path'', ''slide_num'', ''layout''])]"
  by (simp only: lab29_calls_def lab29_slides shape_eval cong: pyval_opaque)

lemma lab29_calls_ok: "\<forall>c \<in> set lab29_calls. call_ok sig_layout_en c"
  by (rule calls_ok_by_shapes [OF lab29_shapes])
    (simp add: shape_ok_def param_names_def signature_defs core_params_def)

lemma lab29_labels: "map (\<lambda>c. value_of sig_layout_en c ''slide_num'') lab29_calls = labels_24"
  by (simp only: lab29_calls_def lab29_slides keyword_eval labels_24_eval cong: pyval_opaque)

lemma lab29_contents_of:
  "map (\<lambda>c. value_of sig_layout_en c ''content_items'') lab29_calls =
    [lab29_items_01, lab29_items_02, lab29_items_03, lab29_items_04, lab29_items_05,
     lab29_items_06, lab29_items_07, lab29_items_08, lab29_items_09, lab29_items_10,
     lab29_items_11, lab29_items_12, lab29_items_13, lab29_items_14, lab29_items_15,
     lab29_items_16, lab29_items_17, lab29_items_18, lab29_items_19, lab29_items_20,
     lab29_items_21, lab29_items_22, lab29_items_23, lab29_items_24]"
  by (simp only: lab29_calls_def lab29_slides keyword_eval cong: pyval_opaque)

lemma lab29_items: "item_defects sig_layout_en lab29_calls = []"
  by (simp only: item_defects_def lab29_contents_of)
    (simp add: lab29_contents item_eval cong: pystr_opaque)

end
