(* ===== verification/Deck30.thy ===== *)
theory Deck30
  imports DeckContract
begin

text \<open>
  The publication definition of lab 30, \<^verbatim>\<open>labs/30-leader-election/result/content_def.py\<close>:
  its module constants, every \<open>add_slide\<close> call in order (\<open>lab30_slide_01\<close> is the first),
  and the module as a whole (\<open>lab30_deck\<close>). Long strings are split into pieces that are
  concatenated; a character outside ASCII is its code point.
\<close>

named_theorems lab30_slides \<open>the add_slide calls of lab 30\<close>
named_theorems lab30_contents \<open>their content_items arguments\<close>

definition lab30_OUTPUT_DIR :: pystr where
  \<open>lab30_OUTPUT_DIR = lit ''labs/30-leader-election/result''\<close>

definition lab30_CHROME_BIN :: pystr where
  \<open>lab30_CHROME_BIN = lit ''/Applications/Google '' @ lit ''Chrome.app/Contents/MacOS/Google Chrome''\<close>

definition lab30_REPO_URL :: pystr where
  \<open>lab30_REPO_URL = lit ''https://github.com/lukman-ss/software-engine'' @
    lit ''ering-lab/tree/main/labs/30-leader-election''\<close>

definition lab30_COMMIT_SHA :: pystr where
  \<open>lab30_COMMIT_SHA = lit ''ba4b6216da6a06dee61959231d124cd44085bbf5''\<close>

definition lab30_LAB_NO :: pystr where
  \<open>lab30_LAB_NO = lit ''30''\<close>

definition lab30_SLUG :: pystr where
  \<open>lab30_SLUG = lit ''leader-election''\<close>

definition lab30_TITLE_ID :: pystr where
  \<open>lab30_TITLE_ID = lit ''Leader Election dengan Fencing Tokens''\<close>

definition lab30_SUBTITLE_ID :: pystr where
  \<open>lab30_SUBTITLE_ID = lit ''Mencegah Split-Brain dan State Corruption '' @
    lit ''Menggunakan Lease TTL dan Monotonic Revision''\<close>

definition lab30_TITLE_EN :: pystr where
  \<open>lab30_TITLE_EN = lit ''Leader Election with Fencing Tokens''\<close>

definition lab30_SUBTITLE_EN :: pystr where
  \<open>lab30_SUBTITLE_EN = lit ''Preventing Split-Brain and State Corruption '' @
    lit ''via Lease TTL and Monotonic Revision''\<close>

definition lab30_AUTHOR :: pystr where
  \<open>lab30_AUTHOR = lit ''Lukman / lukman-ss''\<close>

definition lab30_COVER_IMAGE_PATH :: pystr where
  \<open>lab30_COVER_IMAGE_PATH = lit ''labs/30-leader-election/result/image-cover/c'' @ lit ''over_art.jpg''\<close>

definition lab30_DARK_NAVY :: pystr where
  \<open>lab30_DARK_NAVY = lit ''0b1b2d''\<close>

definition lab30_TEAL :: pystr where
  \<open>lab30_TEAL = lit ''087f76''\<close>

definition lab30_CREAM :: pystr where
  \<open>lab30_CREAM = lit ''f4f1e8''\<close>

definition lab30_WHITE :: pystr where
  \<open>lab30_WHITE = lit ''ffffff''\<close>

definition lab30_SLATE :: pystr where
  \<open>lab30_SLATE = lit ''52606b''\<close>

definition lab30_ORANGE :: pystr where
  \<open>lab30_ORANGE = lit ''d97706''\<close>

definition lab30_add_slide :: "pycall \<Rightarrow> pyval list \<Rightarrow> (pyexc, pyval list) res" where
  "lab30_add_slide = add_slide_layout"

definition lab30_items_01 :: pyval where [lab30_contents]:
  \<open>lab30_items_01 =
   PyList
   [PyDict
     [(''type'', PyStr (lit ''cover'')),
      (''title'', PyStr []),
      (''items'', PyList
        [PyStr (lit ''Retro CRT monitor dengan scanlines''),
         PyStr (lit ''Diagram leader election: Lease TTL, pause '' @
            lit ''window, and monotonic fencing check''),
         PyStr (lit ''Penulis: '' @ lab30_AUTHOR)])]]\<close>

definition lab30_slide_01 :: pycall where [lab30_slides]:
  \<open>lab30_slide_01 =
   \<lparr>posargs = [],
  kwargs =
   [(''categories'', PyList
      [PyStr (lit ''COVER'')]),
    (''title'', PyStr lab30_TITLE_ID),
    (''subtitle'', PyStr lab30_SUBTITLE_ID),
    (''content_items'', lab30_items_01),
    (''mental_model'', PyStr (lit ''Leases grant temporal authority; monotonic '' @
        lit ''fencing tokens enforce permanent ordering '' @ lit ''at storage.'')),
    (''source_path'', PyStr lab30_REPO_URL),
    (''slide_num'', PyStr (lit ''01 / 24'')),
    (''narrative'', PyStr (lit ''Leader election adalah mekanisme dasar '' @
        lit ''dalam sistem terdistribusi untuk memastikan '' @
        lit ''hanya satu node yang mengeksekusi operasi '' @
        lit ''kritis pada satu waktu. Namun, lease '' @
        lit ''berbasis waktu saja tidak cukup mencegah '' @
        lit ''korupsi data ketika leader mengalami jeda '' @
        lit ''eksekusi tak terduga. Lab ini membuktikan '' @
        lit ''implementasi murni Go untuk lease '' @
        lit ''coordinator berbatas TTL dipadukan dengan '' @
        lit ''fencing token monotonik naik. Dengan '' @
        lit ''memvalidasi token secara atomik di lapisan '' @
        lit ''resource bersama, sistem kebal terhadap '' @
        lit ''anomali split-brain dan penulisan usang.'')),
    (''narrative_en'', PyStr (lit ''Leader election is a fundamental mechanism '' @
        lit ''in distributed systems ensuring only one '' @
        lit ''node coordinates critical operations at any '' @
        lit ''given moment. However, time-bounded leases '' @
        lit ''alone fail to prevent data corruption when '' @
        lit ''a leader experiences unannounced execution '' @
        lit ''pauses. This lab demonstrates a pure Go '' @
        lit ''implementation of a TTL-bounded lease '' @
        lit ''coordinator paired with monotonically '' @
        lit ''increasing fencing tokens. By enforcing '' @
        lit ''strict token checks atomically at the '' @
        lit ''shared resource layer, the architecture '' @
        lit ''remains fully resilient against split-brain '' @ lit ''writes.'')),
    (''layout'', PyStr (lit ''cover''))]\<rparr>\<close>

definition lab30_items_02 :: pyval where [lab30_contents]:
  \<open>lab30_items_02 =
   PyList
   [PyDict
     [(''title'', PyStr (lit ''UNANNOUNCED PAUSE'')),
      (''items'', PyList
        [PyStr (lit ''Garbage collector pause atau network hiccup '' @
            lit ''menghentikan thread leader.''),
         PyStr (lit ''Leader tidak dapat mengirim heartbeat '' @
            lit ''renewal sebelum lease TTL habis.''),
         PyStr (lit ''Node tidak menyadari bahwa ia sedang '' @
            lit ''membeku dan kehilangan otoritas.'')]),
      (''type'', PyStr (lit ''card''))],
    PyDict
     [(''title'', PyStr (lit ''PREMATURE FAILOVER'')),
      (''items'', PyList
        [PyStr (lit ''Coordinator menganggap leader lama mati '' @
            lit ''karena TTL kedaluwarsa.''),
         PyStr (lit ''Kandidat berikutnya memenangkan election '' @
            lit ''dan dipromosikan jadi leader baru.''),
         PyStr (lit ''Dua node kini sama-sama menganggap dirinya '' @
            lit ''pemegang mandat sah.'')]),
      (''type'', PyStr (lit ''card''))],
    PyDict
     [(''title'', PyStr (lit ''STALE WRITE HAZARD'')),
      (''items'', PyList
        [PyStr (lit ''Leader lama terbangun tanpa menyadari '' @
            lit ''posisinya telah digantikan.''),
         PyStr (lit ''Ia mengirim mutasi usang ke storage bersama '' @
            lit ''menimpa data leader baru.''),
         PyStr (lit ''Korupsi data senyap terjadi tanpa mekanisme '' @
            lit ''validasi di storage.'')]),
      (''type'', PyStr (lit ''card''))]]\<close>

definition lab30_slide_02 :: pycall where [lab30_slides]:
  \<open>lab30_slide_02 =
   \<lparr>posargs = [],
  kwargs =
   [(''categories'', PyList
      [PyStr (lit ''MOTIVASI''),
       PyStr (lit ''SPLIT-BRAIN RISK'')]),
    (''title'', PyStr (lit ''Masalah Nyata: Ilusi Otoritas Tunggal'')),
    (''subtitle'', PyStr (lit ''Ketika node mengalami stop-the-world GC '' @
        lit ''pause, koordinasi terdistribusi rentan '' @ lit ''terbelah.'')),
    (''content_items'', lab30_items_02),
    (''narrative'', PyStr (lit ''Dalam arsitektur terdistribusi nyata, '' @
        lit ''proses tidak pernah mati secara instan dan '' @
        lit ''rapi. Fenomena runtime seperti '' @
        lit ''stop-the-world garbage collection pause '' @
        lit ''pada runtime modern atau network partition '' @
        lit ''parsial dapat membekukan proses selama '' @
        lit ''ratusan milidetik. Selama periode pause '' @
        lit ''tersebut, lease TTL milik leader lama akan '' @
        lit ''kedaluwarsa di coordinator, memicu failover '' @
        lit ''otomatis ke kandidat baru. Ketika leader '' @
        lit ''lama bangun dari pause, ia tidak menyadari '' @
        lit ''waktu telah berlalu dan tetap mengeksekusi '' @
        lit ''operasi tulis yang berpotensi merusak '' @ lit ''integritas data sistem.'')),
    (''narrative_en'', PyStr (lit ''In production distributed systems, '' @
        lit ''processes rarely fail cleanly or '' @
        lit ''predictably. Runtime anomalies such as '' @
        lit ''stop-the-world garbage collection pauses or '' @
        lit ''transient network partitions can freeze a '' @
        lit ''node for hundreds of milliseconds. During '' @
        lit ''this pause window, the leader'' @ [39] @
        lit ''s lease TTL expires on the coordinator, '' @
        lit ''triggering an automatic failover to promote '' @
        lit ''a successor. When the old leader resumes '' @
        lit ''execution, it remains completely unaware '' @
        lit ''that time elapsed and continues writing, '' @
        lit ''creating silent data corruption unless '' @ lit ''strictly intercepted.'')),
    (''mental_model'', PyStr (lit ''Time passes invisibly to a paused process; '' @
        lit ''local belief of leadership is never '' @ lit ''sufficient proof.'')),
    (''source_path'', PyStr (lit ''labs/30-leader-election/content/01-content-b'' @ lit ''rief.md'')),
    (''slide_num'', PyStr (lit ''02 / 24'')),
    (''layout'', PyStr (lit ''cards''))]\<rparr>\<close>

definition lab30_items_03 :: pyval where [lab30_contents]:
  \<open>lab30_items_03 =
   PyList
   [PyDict
     [(''title'', PyStr (lit ''KODE MUTASI NAIF'')),
      (''items'', PyList
        [PyStr (lit ''func (n *Node) DoWorkNaive(val string) '' @ lit ''error {''),
         PyStr (lit ''    if n.state != StateLeader { return '' @ lit ''ErrNotLeader }''),
         PyStr (lit ''    // GC pause terjadi tepat di sini '' @ lit ''selama 350ms!''),
         PyStr (lit ''    // Lease TTL 200ms kedaluwarsa di '' @ lit ''coordinator.''),
         PyStr (lit ''    // Node-B terpilih sebagai leader baru.''),
         PyStr (lit ''    return n.sharedStorage.Save(val) // '' @ lit ''Menimpa data Node-B!''),
         PyStr (lit ''}'')]),
      (''type'', PyStr (lit ''code''))],
    PyDict
     [(''title'', PyStr (lit ''KEGAGALAN FUNDAMENTAL'')),
      (''items'', PyList
        [PyStr (lit ''Gap waktu antara pengecekan status (check) '' @
            lit ''dan mutasi storage (act).''),
         PyStr (lit ''Asinkronitas jaringan dan runtime membuat '' @
            lit ''pengecekan waktu lokal tidak dapat '' @ lit ''dipercaya.''),
         PyStr (lit ''Storage pasif menerima semua write tanpa '' @
            lit ''memverifikasi urutan generasi pengirim.'')]),
      (''type'', PyStr (lit ''bullet''))]]\<close>

definition lab30_slide_03 :: pycall where [lab30_slides]:
  \<open>lab30_slide_03 =
   \<lparr>posargs = [],
  kwargs =
   [(''categories'', PyList
      [PyStr (lit ''ANALISIS''),
       PyStr (lit ''PENDEKATAN NAIF'')]),
    (''title'', PyStr (lit ''Mengapa Lease Berbasis Waktu Saja Gagal?'')),
    (''subtitle'', PyStr (lit ''Pemeriksaan status lokal di sisi klien '' @
        lit ''tidak memiliki jaminan linieritas saat '' @ lit ''eksekusi terdistribusi.'')),
    (''content_items'', lab30_items_03),
    (''narrative'', PyStr (lit ''Pendekatan naif mengasumsikan pengecekan '' @ lit ''status boolean lokal '' @
        [96] @ lit ''if n.state == StateLeader'' @ [96] @
        lit '' cukup menjamin mutual exclusion. Asumsi '' @
        lit ''ini salah fatal dalam sistem asinkron '' @
        lit ''karena adanya time-of-check to time-of-use '' @
        lit ''(TOCTOU) gap. Tepat setelah pengecekan '' @
        lit ''lokal berhasil, runtime thread dapat '' @
        lit ''diinterupsi oleh GC pause atau penjadwalan '' @
        lit ''OS selama ratusan milidetik. Saat thread '' @
        lit ''kembali aktif, status kepemimpinan telah '' @
        lit ''berpindah ke node lain, namun instruksi '' @
        lit ''tulis tetap dikirim ke storage. Tanpa '' @
        lit ''validasi di lapisan penyimpanan, write '' @
        lit ''usang akan menimpa data terkini.'')),
    (''narrative_en'', PyStr (lit ''The naive approach assumes checking a local '' @ lit ''boolean flag '' @
        [96] @ lit ''if n.state == StateLeader'' @ [96] @
        lit '' guarantees mutual exclusion. This '' @
        lit ''assumption fails catastrophically due to '' @
        lit ''the time-of-check to time-of-use (TOCTOU) '' @
        lit ''vulnerability in asynchronous distributed '' @
        lit ''environments. Immediately after the local '' @
        lit ''check evaluates to true, the thread can be '' @
        lit ''suspended by a GC pause or OS preemption '' @
        lit ''for hundreds of milliseconds. When the '' @
        lit ''thread resumes, leadership has already '' @
        lit ''transitioned to another candidate, yet the '' @
        lit ''write proceeds, corrupting storage unless '' @
        lit ''validated at the boundary.'')),
    (''mental_model'', PyStr (lit ''Local validation suffers from TOCTOU gaps; '' @
        lit ''true mutual exclusion must be verified by '' @ lit ''the shared target.'')),
    (''source_path'', PyStr (lit ''labs/30-leader-election/research/03-mechanis'' @ lit ''ms-and-leases.md'')),
    (''slide_num'', PyStr (lit ''03 / 24'')),
    (''layout'', PyStr (lit ''code-bullet''))]\<rparr>\<close>

definition lab30_items_04 :: pyval where [lab30_contents]:
  \<open>lab30_items_04 =
   PyList
   [PyDict
     [(''title'', PyStr (lit ''STRUKTUR DATA KOORDINASI'')),
      (''items'', PyList
        [PyStr (lit ''type Lease struct {''),
         PyStr (lit ''    Key          string''),
         PyStr (lit ''    HolderID     string''),
         PyStr (lit ''    FencingToken int64         // revision '' @ lit ''monotonik naik''),
         PyStr (lit ''    ExpiresAt    time.Time''),
         PyStr (lit ''    TTL          time.Duration''),
         PyStr (lit ''}'')]),
      (''type'', PyStr (lit ''code''))],
    PyDict
     [(''title'', PyStr (lit ''PRINSIP FENCING TOKEN'')),
      (''items'', PyList
        [PyStr (lit ''Strict Monotonicity: Counter revision '' @
            lit ''coordinator selalu bertambah di setiap '' @ lit ''kepemimpinan baru.''),
         PyStr (lit ''Resource Gatekeeping: Storage melacak '' @
            lit ''lastSeenToken dan menolak token <= '' @ lit ''lastSeenToken.''),
         PyStr (lit ''Temporal Decoupling: Integritas data tidak '' @
            lit ''bergantung pada sinkronisasi wall-clock '' @ lit ''mesin klien.''),
         PyStr (lit ''Self-Defending Store: Sistem kebal meskipun '' @
            lit ''terjadi transient dual-leader state di '' @ lit ''memori.'')]),
      (''type'', PyStr (lit ''bullet''))]]\<close>

definition lab30_slide_04 :: pycall where [lab30_slides]:
  \<open>lab30_slide_04 =
   \<lparr>posargs = [],
  kwargs =
   [(''categories'', PyList
      [PyStr (lit ''MENTAL MODEL''),
       PyStr (lit ''SCHEMA'')]),
    (''title'', PyStr (lit ''Mental Model: Otoritas Temporal vs Validasi '' @ lit ''Monotonik'')),
    (''subtitle'', PyStr (lit ''Lease mengatur durasi giliran kerja, '' @
        lit ''fencing token menegakkan urutan generations '' @ lit ''di storage.'')),
    (''content_items'', lab30_items_04),
    (''narrative'', PyStr (lit ''Mental model arsitektur ini memisahkan dua '' @
        lit ''konsep: hak memimpin sementara (lease) dan '' @
        lit ''hak menulis permanen (fencing token). Lease '' @
        lit ''coordinator mengelola kepemimpinan dengan '' @
        lit ''TTL berbatas waktu, menerbitkan nomor tiket '' @
        lit ''revisi yang strictly monotonically '' @
        lit ''increasing setiap kali pemimpin baru '' @
        lit ''dilantik. Penyimpanan bersama tidak lagi '' @
        lit ''mempercayai identitas klien secara buta, '' @
        lit ''melainkan bertindak sebagai gerbang '' @
        lit ''independen yang hanya menerima mutasi jika '' @
        lit ''tiket yang dibawa strictly lebih besar dari '' @
        lit ''tiket terakhir yang tercatat.'')),
    (''narrative_en'', PyStr (lit ''This architectural mental model decouples '' @
        lit ''two distinct concepts: transient leadership '' @
        lit ''authority (lease) and permanent write '' @
        lit ''eligibility (fencing token). The '' @
        lit ''coordinator administers time-bounded '' @
        lit ''leases, issuing a strictly monotonically '' @
        lit ''increasing revision ticket whenever a new '' @
        lit ''leader is recognized. The shared storage '' @
        lit ''layer no longer blindly trusts client '' @
        lit ''identity; instead, it acts as an autonomous '' @
        lit ''gatekeeper that accepts mutations if and '' @
        lit ''only if the presented token strictly '' @
        lit ''exceeds the last recorded token.'')),
    (''mental_model'', PyStr (lit ''Leases decide who should try to write; '' @
        lit ''fencing tokens decide whose write is '' @ lit ''allowed to persist.'')),
    (''source_path'', PyStr (lit ''internal/coordinator/coordinator.go:15-28 '' @ [0x2022] @
        lit '' internal/storage/storage.go:14-25'')),
    (''slide_num'', PyStr (lit ''04 / 24'')),
    (''layout'', PyStr (lit ''schema-card''))]\<rparr>\<close>

definition lab30_items_05 :: pyval where [lab30_contents]:
  \<open>lab30_items_05 =
   PyList
   [PyDict
     [(''title'', PyStr (lit ''SEKUENSI PIPELINE DISTRIBUSI'')),
      (''items'', PyList
        [PyStr (lit ''1. Node-A.Acquire() '' @ [0x2192] @
            lit '' Coordinator terbitkan Lease(Holder=A, '' @ lit ''Token=1, TTL=200ms)''),
         PyStr (lit ''2. Node-A.PerformFencedWrite(val) '' @ [0x2192] @
            lit '' Storage terima: incoming 1 > lastSeen 0 '' @ [0x2192] @
            lit '' lastSeen=1''),
         PyStr (lit ''3. Node-A mengalami Simulasi Pause 350ms '' @
            lit ''(eksekusi berhenti, heartbeat terhenti)''),
         PyStr (lit ''4. Waktu berjalan melewati 200ms '' @ [0x2192] @
            lit '' Lease Node-A kedaluwarsa di Coordinator''),
         PyStr (lit ''5. Node-B.Acquire() '' @ [0x2192] @
            lit '' Coordinator terbitkan Lease(Holder=B, '' @ lit ''Token=2, TTL=200ms)''),
         PyStr (lit ''6. Node-B.PerformFencedWrite(val) '' @ [0x2192] @
            lit '' Storage terima: incoming 2 > lastSeen 1 '' @ [0x2192] @
            lit '' lastSeen=2''),
         PyStr (lit ''7. Node-A bangun dari pause '' @ [0x2192] @
            lit '' Mencoba Write dengan Token=1 usang''),
         PyStr (lit ''8. Storage Gatekeeper menolak: token 1 <= '' @ lit ''lastSeen 2 '' @
            [0x2192] @ lit '' ErrStaleFencingToken!'')]),
      (''type'', PyStr (lit ''diagram''))]]\<close>

definition lab30_slide_05 :: pycall where [lab30_slides]:
  \<open>lab30_slide_05 =
   \<lparr>posargs = [],
  kwargs =
   [(''categories'', PyList
      [PyStr (lit ''ARSITEKTUR''),
       PyStr (lit ''PIPELINE'')]),
    (''title'', PyStr (lit ''Alur Koordinasi & Penolakan Mutasi Basi'')),
    (''subtitle'', PyStr (lit ''Pipeline'' @ [0x7AEF, 0x5230, 0x7AEF] @ lit '': Campaign '' @ [0x2192] @
        lit '' Lease Grant '' @ [0x2192] @ lit '' Normal Write '' @ [0x2192] @
        lit '' Pause/Failover '' @ [0x2192] @ lit '' Stale Write Rejection.'')),
    (''content_items'', lab30_items_05),
    (''narrative'', PyStr (lit ''Pipeline koordinasi menunjukkan bagaimana '' @
        lit ''kegagalan temporal ditangani secara '' @
        lit ''deterministik. Tahap 1 hingga 2 '' @
        lit ''memperlihatkan alur kerja normal di mana '' @
        lit ''Node-A memenangkan election dan menulis '' @
        lit ''sukses dengan token generasi 1. Pada tahap '' @
        lit ''3 hingga 5, Node-A mengalami pause melebihi '' @
        lit ''batas TTL, memungkinkan coordinator '' @
        lit ''melantik Node-B dengan token generasi 2 '' @
        lit ''yang berhasil menulis ke storage. Saat '' @
        lit ''Node-A tersadar di tahap 7 dan mencoba '' @
        lit ''menulis dengan token 1, storage '' @
        lit ''mengeksekusi fencing check dan menolak '' @
        lit ''mutasi tersebut secara mutlak.'')),
    (''narrative_en'', PyStr (lit ''The coordination pipeline demonstrates how '' @
        lit ''temporal anomalies are handled '' @
        lit ''deterministically. Stages 1 through 2 '' @
        lit ''capture normal execution where Node-A wins '' @
        lit ''election and writes successfully under '' @
        lit ''generation token 1. During stages 3 to 5, '' @
        lit ''Node-A pauses beyond its TTL window, '' @
        lit ''enabling the coordinator to expire the '' @
        lit ''lease and promote Node-B with token 2. When '' @
        lit ''Node-A wakes up in stage 7 and attempts to '' @
        lit ''commit with stale token 1, the storage '' @
        lit ''layer evaluates the fencing invariant and '' @ lit ''rejects the write.'')),
    (''mental_model'', PyStr (lit ''Coordinators manage failover transitions; '' @
        lit ''storage gatekeepers enforce immutable '' @ lit ''monotonic ordering.'')),
    (''source_path'', PyStr (lit ''cmd/demo/main.go:15-77'')),
    (''slide_num'', PyStr (lit ''05 / 24'')),
    (''layout'', PyStr (lit ''pipeline-diagram''))]\<rparr>\<close>

definition lab30_items_06 :: pyval where [lab30_contents]:
  \<open>lab30_items_06 =
   PyList
   [PyDict
     [(''title'', PyStr (lit ''FENCED STORAGE WRITE GATE'')),
      (''items'', PyList
        [PyStr (lit ''func (s *FencedStorage) Write(author '' @
            lit ''string, token int64, value string) error {''),
         PyStr (lit ''    s.mu.Lock()''),
         PyStr (lit ''    defer s.mu.Unlock()''),
         PyStr [],
         PyStr (lit ''    if token <= s.lastSeenToken {''),
         PyStr (lit ''        return fmt.Errorf("%w: token %d <= '' @
            lit ''last seen %d (author: %s)",''),
         PyStr (lit ''            ErrStaleFencingToken, token, '' @
            lit ''s.lastSeenToken, author)''),
         PyStr (lit ''    }''),
         PyStr (lit ''    s.lastSeenToken = token''),
         PyStr (lit ''    s.records = append(s.records, '' @
            lit ''Record{FencingToken: token, Author: author, '' @
            lit ''Value: value, Timestamp: time.Now()})''),
         PyStr (lit ''    return nil''),
         PyStr (lit ''}'')]),
      (''type'', PyStr (lit ''code''))]]\<close>

definition lab30_slide_06 :: pycall where [lab30_slides]:
  \<open>lab30_slide_06 =
   \<lparr>posargs = [],
  kwargs =
   [(''categories'', PyList
      [PyStr (lit ''IMPLEMENTASI''),
       PyStr (lit ''CODE'')]),
    (''title'', PyStr (lit ''Implementasi Gerbang Fencing di Shared '' @ lit ''Storage'')),
    (''subtitle'', PyStr (lit ''Pemeriksaan atomik token <= lastSeenToken '' @
        lit ''di bawah perlindungan mutex pada storage.go.'')),
    (''content_items'', lab30_items_06),
    (''narrative'', PyStr (lit ''Potongan kode ini merupakan inti pertahanan '' @
        lit ''terhadap split-brain di seluruh arsitektur '' @
        lit ''sistem. Method Write pada struct '' @
        lit ''FencedStorage mengunci mutex untuk menjamin '' @
        lit ''operasi check-and-set berlangsung secara '' @
        lit ''linier dan atomik. Aturan validasi '' @
        lit ''mengevaluasi apakah token yang disertakan '' @
        lit ''bernilai lebih kecil atau sama dengan '' @
        lit ''lastSeenToken. Jika ya, storage langsung '' @
        lit ''menolak operasi dengan mengembalikan '' @
        lit ''ErrStaleFencingToken. Hanya token yang '' @
        lit ''strictly lebih besar yang diizinkan '' @
        lit ''memperbarui lastSeenToken dan mencatat data '' @ lit ''mutasi.'')),
    (''narrative_en'', PyStr (lit ''This code block constitutes the primary '' @
        lit ''defense against split-brain corruption '' @
        lit ''across the architecture. The Write method '' @
        lit ''on FencedStorage acquires an exclusive '' @
        lit ''mutex lock to ensure linearizable '' @
        lit ''check-and-set semantics. The validation '' @
        lit ''logic verifies whether the incoming token '' @
        lit ''is less than or equal to lastSeenToken. If '' @
        lit ''so, storage immediately aborts the write '' @
        lit ''with ErrStaleFencingToken. Only strictly '' @
        lit ''greater tokens update the internal '' @
        lit ''watermark and append mutation records.'')),
    (''mental_model'', PyStr (lit ''Strict inequality incoming > lastSeenToken '' @
        lit ''turns disordered distributed writes into a '' @ lit ''monotonic stream.'')),
    (''source_path'', PyStr (lit ''internal/storage/storage.go:33-49'')),
    (''slide_num'', PyStr (lit ''06 / 24'')),
    (''layout'', PyStr (lit ''code-dominant''))]\<rparr>\<close>

definition lab30_items_07 :: pyval where [lab30_contents]:
  \<open>lab30_items_07 =
   PyList
   [PyDict
     [(''title'', PyStr (lit ''TERMINAL FAILURE LOG'')),
      (''items'', PyList
        [PyStr (lit ''[4] Simulating Stop-the-World GC Pause / '' @
            lit ''Network Partition on Node-A (350ms > TTL '' @ lit ''200ms)...''),
         PyStr (lit ''[5] Status after TTL expiration: '' @ lit ''Node-A=LEADER, Node-B=LEADER''),
         PyStr (lit ''[6] New Leader promoted: Node-B (Fencing '' @ lit ''Token: 2)''),
         PyStr (lit ''[7] New Leader Node-B performing fenced '' @ lit ''write...''),
         PyStr (lit ''Write SUCCESS by Node-B (Token 2)''),
         PyStr (lit ''[8] Old Leader Node-A wakes up from GC '' @
            lit ''pause (still holding stale token 1)...''),
         PyStr (lit ''[9] Old Leader Node-A attempts write to '' @
            lit ''shared storage using stale token 1...''),
         PyStr (lit ''Write REJECTED by FencedStorage: stale '' @
            lit ''fencing token: rejected to prevent '' @
            lit ''split-brain write: token 1 <= last seen 2 '' @ lit ''(author: Node-A)'')]),
      (''type'', PyStr (lit ''terminal''))],
    PyDict
     [(''title'', PyStr (lit ''ANALISIS KEGAGALAN'')),
      (''items'', PyList
        [PyStr (lit ''Pada baris [5], terjadi transient '' @
            lit ''dual-leader: Node-A dan Node-B sama-sama '' @ lit ''berstatus LEADER.''),
         PyStr (lit ''Meskipun Node-A merasa sah, storage '' @
            lit ''berhasil mendeteksi anomali generasi (token '' @ lit ''1 <= 2).''),
         PyStr (lit ''Shared storage history tetap bersih: hanya '' @
            lit ''mencatat record dari generasi kepemimpinan '' @ lit ''yang valid.'')]),
      (''type'', PyStr (lit ''bullet''))]]\<close>

definition lab30_slide_07 :: pycall where [lab30_slides]:
  \<open>lab30_slide_07 =
   \<lparr>posargs = [],
  kwargs =
   [(''categories'', PyList
      [PyStr (lit ''FAILURE PATH''),
       PyStr (lit ''BUKTI'')]),
    (''title'', PyStr (lit ''Failure Path: Penolakan Stale Write '' @ lit ''Pascajeda GC'')),
    (''subtitle'', PyStr (lit ''Log terminal membuktikan Node-A ditolak '' @
        lit ''setelah Node-B mengambil alih kepemimpinan.'')),
    (''content_items'', lab30_items_07),
    (''narrative'', PyStr (lit ''Failure path konkret ini diambil langsung '' @
        lit ''dari hasil eksekusi program demo lab. Pada '' @
        lit ''langkah 4 hingga 5, Node-A dipause selama '' @
        lit ''350 milidetik, melampaui batas TTL 200 '' @
        lit ''milidetik sehingga lease kedaluwarsa. '' @
        lit ''Menariknya, sistem sempat berada pada '' @
        lit ''kondisi transient dual-leader di mana kedua '' @
        lit ''node menganggap dirinya sebagai LEADER '' @
        lit ''aktif. Namun, saat Node-A terbangun dan '' @
        lit ''mencoba menulis dengan token 1, lapisan '' @
        lit ''penyimpanan menolak operasi tersebut secara '' @
        lit ''seketika karena token 1 lebih kecil dari '' @ lit ''token 2 milik Node-B.'')),
    (''narrative_en'', PyStr (lit ''This failure path is extracted directly '' @
        lit ''from the executable lab demo. In steps 4 '' @
        lit ''through 5, Node-A is paused for 350ms, '' @
        lit ''comfortably exceeding the 200ms TTL window '' @
        lit ''and triggering lease expiration. Crucially, '' @
        lit ''the cluster momentarily enters a transient '' @
        lit ''dual-leader state where both nodes view '' @
        lit ''themselves as active leaders. However, when '' @
        lit ''Node-A wakes up and attempts a write with '' @
        lit ''token 1, storage intercepts the call and '' @
        lit ''rejects it because token 1 is less than '' @ lit ''Node-B'' @ [39] @
        lit ''s token 2.'')),
    (''mental_model'', PyStr (lit ''Transient dual-leader states are inevitable '' @
        lit ''in asynchronous networks; fencing tokens '' @ lit ''make them safe.'')),
    (''source_path'', PyStr (lit ''cmd/demo/main.go:61-75 '' @ [0x2022] @
        lit '' engineering/03-execution-result.md:61-70'')),
    (''slide_num'', PyStr (lit ''07 / 24'')),
    (''layout'', PyStr (lit ''failure-path''))]\<rparr>\<close>

definition lab30_items_08 :: pyval where [lab30_contents]:
  \<open>lab30_items_08 =
   PyList
   [PyDict
     [(''title'', PyStr (lit ''TABEL PERBANDINGAN MEKANISME'')),
      (''items'', PyList
        [PyStr (lit ''Pendekatan | Mekanisme Koordinasi | Gejala '' @
            lit ''/ Failure Mode | Garansi Split-Brain''),
         PyStr (lit ''Heartbeat Naif | Ping status via interval | '' @
            lit ''Network partition memicu dual-leader | '' @
            lit ''Tidak Aman (korupsi data)''),
         PyStr (lit ''Lease TTL Murni | Kunci kedaluwarsa '' @
            lit ''otomatis | GC pause memicu stale write '' @
            lit ''pasca-wake | Tidak Aman (TOCTOU gap)''),
         PyStr (lit ''Distributed Lock | Mutex terpusat (Redis '' @
            lit ''SETNX) | Lock lepas sebelum job tuntas | '' @
            lit ''Sebagian (hanya efisiensi)''),
         PyStr (lit ''Lease + Fencing | Monotonic revision + '' @
            lit ''check-and-set | Stale write dihentikan di '' @
            lit ''resource | Aman Mutlak (linierizable)'')]),
      (''type'', PyStr (lit ''table''))]]\<close>

definition lab30_slide_08 :: pycall where [lab30_slides]:
  \<open>lab30_slide_08 =
   \<lparr>posargs = [],
  kwargs =
   [(''categories'', PyList
      [PyStr (lit ''PERBANDINGAN''),
       PyStr (lit ''MEKANISME'')]),
    (''title'', PyStr (lit ''Mekanisme vs Gejala: Evaluasi Solusi '' @ lit ''Koordinasi'')),
    (''subtitle'', PyStr (lit ''Mengapa solusi parsial tetap menyisakan '' @
        lit ''celah korupsi data pada kegagalan '' @ lit ''terdistribusi.'')),
    (''content_items'', lab30_items_08),
    (''narrative'', PyStr (lit ''Tabel ini membandingkan empat pendekatan '' @
        lit ''koordinasi terdistribusi dalam menghadapi '' @
        lit ''kegagalan jaringan dan runtime pause. '' @
        lit ''Heartbeat naif dan lease TTL murni gagal '' @
        lit ''melindungi integritas data karena keduanya '' @
        lit ''rentan terhadap jeda eksekusi dan kondisi '' @
        lit ''split-brain. Penggunaan distributed lock '' @
        lit ''tanpa token urutan hanya cocok untuk '' @
        lit ''optimalisasi efisiensi seperti deduplikasi '' @
        lit ''job. Hanya penggabungan antara lease '' @
        lit ''berbatas waktu dengan fencing token '' @
        lit ''monotonik yang memberikan garansi keamanan '' @
        lit ''mutlak pada level resource.'')),
    (''narrative_en'', PyStr (lit ''This table evaluates four distributed '' @
        lit ''coordination patterns under network '' @
        lit ''partitions and runtime pauses. Naive '' @
        lit ''heartbeats and bare TTL leases fail to '' @
        lit ''preserve data integrity because both remain '' @
        lit ''susceptible to execution pauses and '' @
        lit ''split-brain phenomena. Distributed locks '' @
        lit ''devoid of generation ordering only suffice '' @
        lit ''for efficiency optimizations like job '' @
        lit ''deduplication. Combining time-bounded '' @
        lit ''leases with monotonic fencing tokens '' @
        lit ''guarantees absolute write safety at the '' @ lit ''storage boundary.'')),
    (''mental_model'', PyStr (lit ''Locks optimize efficiency; monotonic '' @
        lit ''fencing tokens protect data correctness.'')),
    (''source_path'', PyStr (lit ''research/03-mechanisms-and-leases.md '' @ [0x2022] @
        lit '' research/05-system-comparison-and-best-prac'' @ lit ''tices.md'')),
    (''slide_num'', PyStr (lit ''08 / 24'')),
    (''layout'', PyStr (lit ''comparison-table''))]\<rparr>\<close>

definition lab30_items_09 :: pyval where [lab30_contents]:
  \<open>lab30_items_09 =
   PyList
   [PyDict
     [(''title'', PyStr (lit ''1. MONOTONIC CLOCK FOR LEASES'')),
      (''items'', PyList
        [PyStr (lit ''Wajib gunakan time.Now() (monotonic '' @
            lit ''reading) untuk evaluasi TTL dan renewal.''),
         PyStr (lit ''Mencegah anomali perpindahan waktu akibat '' @
            lit ''sinkronisasi NTP step clock drift.''),
         PyStr (lit ''Terapkan interval renewal jauh lebih cepat '' @
            lit ''dari TTL (contoh: renewRate <= TTL / 3).'')]),
      (''type'', PyStr (lit ''card''))],
    PyDict
     [(''title'', PyStr (lit ''2. STRICT MONOTONIC REVISION'')),
      (''items'', PyList
        [PyStr (lit ''Coordinator wajib mengincrement counter '' @
            lit ''revision secara atomik di setiap lease baru.''),
         PyStr (lit ''Hindari penggunaan UUID atau hash acak '' @
            lit ''karena tidak memiliki relasi urutan '' @ lit ''(ordering).''),
         PyStr (lit ''Renewal pada holder yang sama '' @
            lit ''mempertahankan nilai token yang sudah ada.'')]),
      (''type'', PyStr (lit ''card''))],
    PyDict
     [(''title'', PyStr (lit ''3. ATOMIC CHECK-AND-SET GATE'')),
      (''items'', PyList
        [PyStr (lit ''Storage wajib menegakkan aturan '' @
            lit ''incomingToken > lastSeenToken di bawah '' @ lit ''mutex/CAS.''),
         PyStr (lit ''Tolak operasi dengan status kode kesalahan '' @
            lit ''eksplisit (ErrStaleFencingToken).''),
         PyStr (lit ''Simpan histori watermark generasi tertinggi '' @
            lit ''yang pernah berhasil diterima.'')]),
      (''type'', PyStr (lit ''card''))]]\<close>

definition lab30_slide_09 :: pycall where [lab30_slides]:
  \<open>lab30_slide_09 =
   \<lparr>posargs = [],
  kwargs =
   [(''categories'', PyList
      [PyStr (lit ''DESIGN DECISION''),
       PyStr (lit ''ARSITEKTUR'')]),
    (''title'', PyStr (lit ''3 Keputusan Desain Kritis Leader Election'')),
    (''subtitle'', PyStr (lit ''Urutan keputusan arsitektur untuk membangun '' @
        lit ''koordinasi terdistribusi yang tangguh.'')),
    (''content_items'', lab30_items_09),
    (''narrative'', PyStr (lit ''Implementasi koordinasi yang aman '' @
        lit ''bergantung pada tiga keputusan desain '' @
        lit ''fundamental. Pertama, perhitungan masa '' @
        lit ''berlaku lease harus menggunakan monotonic '' @
        lit ''clock untuk menghindari disrupsi '' @
        lit ''penyesuaian jam sistem via NTP. Kedua, '' @
        lit ''setiap pergantian kepemimpinan wajib '' @
        lit ''menerbitkan revision token yang monotonik '' @
        lit ''naik; UUID acak dilarang karena tidak '' @
        lit ''memiliki relasi urutan kausal. Ketiga, '' @
        lit ''gerbang validasi di lapisan penyimpanan '' @
        lit ''bersama harus mengimplementasikan '' @
        lit ''check-and-set atomik yang menolak token '' @ lit ''yang tidak lebih besar.'')),
    (''narrative_en'', PyStr (lit ''Building secure coordination hinges upon '' @
        lit ''three foundational architectural decisions. '' @
        lit ''First, lease lifetime computations must '' @
        lit ''rely strictly on monotonic clock readings '' @
        lit ''to eliminate clock jumps from NTP '' @
        lit ''synchronization. Second, every leadership '' @
        lit ''handover must allocate a strictly monotonic '' @
        lit ''revision token; random UUIDs are '' @
        lit ''unacceptable because they lack causal '' @
        lit ''ordering. Third, the validation gate at the '' @
        lit ''shared resource layer must enforce atomic '' @
        lit ''check-and-set semantics that reject '' @ lit ''non-increasing tokens.'')),
    (''mental_model'', PyStr (lit ''Monotonic clocks measure duration; '' @
        lit ''monotonic counters establish immutable '' @ lit ''authority sequence.'')),
    (''source_path'', PyStr (lit ''labs/30-leader-election/content/05-key-takea'' @ lit ''ways.md'')),
    (''slide_num'', PyStr (lit ''09 / 24'')),
    (''layout'', PyStr (lit ''decision-cards''))]\<rparr>\<close>

definition lab30_items_10 :: pyval where [lab30_contents]:
  \<open>lab30_items_10 =
   PyList
   [PyDict
     [(''title'', PyStr (lit ''DEMO EXECUTION TRACE'')),
      (''items'', PyList
        [PyStr (lit ''=== Distributed Leader Election with '' @ lit ''Fencing Tokens Demo ===''),
         PyStr (lit ''[1] Starting Node-A and Node-B election '' @ lit ''campaigns...''),
         PyStr (lit ''Status: Node-A=LEADER, Node-B=FOLLOWER''),
         PyStr (lit ''[2] Leader elected: Node-A (Fencing Token: '' @ lit ''1)''),
         PyStr (lit ''[3] Node-A performing legitimate fenced '' @
            lit ''write... Write SUCCESS by Node-A (Token 1)''),
         PyStr (lit ''[4] Simulating Stop-the-World GC Pause / '' @
            lit ''Network Partition on Node-A (350ms > TTL '' @ lit ''200ms)...''),
         PyStr (lit ''[5] Status after TTL expiration: '' @ lit ''Node-A=LEADER, Node-B=LEADER''),
         PyStr (lit ''[6] New Leader promoted: Node-B (Fencing '' @ lit ''Token: 2)''),
         PyStr (lit ''[7] New Leader Node-B performing fenced '' @
            lit ''write... Write SUCCESS by Node-B (Token 2)''),
         PyStr (lit ''[8] Old Leader Node-A wakes up from GC '' @
            lit ''pause (still holding stale token 1)...''),
         PyStr (lit ''[9] Old Leader Node-A attempts write to '' @
            lit ''shared storage using stale token 1...''),
         PyStr (lit ''Write REJECTED by FencedStorage: stale '' @
            lit ''fencing token: rejected to prevent '' @
            lit ''split-brain write: token 1 <= last seen 2 '' @ lit ''(author: Node-A)''),
         PyStr (lit ''Result: Split-brain prevented! Old leader'' @ [39] @
            lit ''s stale write was safely rejected.''),
         PyStr (lit ''[10] Shared Storage History:''),
         PyStr (lit ''  1. Token: 1 | Author: Node-A | Value: '' @
            lit ''record-from-initial-leader''),
         PyStr (lit ''  2. Token: 2 | Author: Node-B | Value: '' @
            lit ''record-from-failover-leader''),
         PyStr (lit ''=== Demo completed successfully ==='')]),
      (''type'', PyStr (lit ''terminal''))]]\<close>

definition lab30_slide_10 :: pycall where [lab30_slides]:
  \<open>lab30_slide_10 =
   \<lparr>posargs = [],
  kwargs =
   [(''categories'', PyList
      [PyStr (lit ''BUKTI''),
       PyStr (lit ''DEMO'')]),
    (''title'', PyStr (lit ''Bukti Eksekusi: Siklus Lengkap Election & '' @ lit ''Fencing'')),
    (''subtitle'', PyStr (lit ''Output langsung dari go run ./cmd/demo '' @
        lit ''memperlihatkan transisi kepemimpinan dan '' @ lit ''integritas storage.'')),
    (''content_items'', lab30_items_10),
    (''narrative'', PyStr (lit ''Output terminal ini membuktikan bahwa '' @
        lit ''seluruh siklus kepemimpinan berjalan sesuai '' @
        lit ''spesifikasi desain. Node-A pertama kali '' @
        lit ''dilantik dengan Token 1 dan berhasil '' @
        lit ''menulis record pertama. Saat Node-A '' @
        lit ''dibekukan selama 350 milidetik, Node-B '' @
        lit ''mengambil alih kepemimpinan dengan Token 2 '' @
        lit ''dan menulis record kedua. Ketika Node-A '' @
        lit ''terbangun dan berusaha menulis dengan Token '' @
        lit ''1, sistem menolak operasi tersebut secara '' @
        lit ''eksplisit. Riwayat penyimpanan bersama '' @
        lit ''membuktikan hanya ada dua entri sah dan '' @
        lit ''tidak ada data yang tertimpa oleh mutasi '' @ lit ''usang.'')),
    (''narrative_en'', PyStr (lit ''This terminal execution trace verifies that '' @
        lit ''the full leadership lifecycle operates '' @
        lit ''precisely as designed. Node-A initially '' @
        lit ''attains leadership with Token 1 and commits '' @
        lit ''the first record. When Node-A is paused for '' @
        lit ''350ms, Node-B succeeds it with Token 2 and '' @
        lit ''writes the second record. When Node-A '' @
        lit ''resumes and attempts to write using Token '' @
        lit ''1, the storage layer rejects the request. '' @
        lit ''The final audit history confirms exactly '' @
        lit ''two legitimate records exist, completely '' @
        lit ''clean of any overwritten state.'')),
    (''mental_model'', PyStr (lit ''Terminal logs provide indisputable '' @
        lit ''evidence: stale writes fail loudly, '' @ lit ''preserving storage state.'')),
    (''source_path'', PyStr (lit ''cmd/demo/main.go:1-78 '' @ [0x2022] @
        lit '' engineering/03-execution-result.md:52-77'')),
    (''slide_num'', PyStr (lit ''10 / 24'')),
    (''layout'', PyStr (lit ''terminal-output''))]\<rparr>\<close>

definition lab30_items_11 :: pyval where [lab30_contents]:
  \<open>lab30_items_11 =
   PyList
   [PyDict
     [(''title'', PyStr (lit ''YANG TIDAK DIBUKTIKAN'')),
      (''items'', PyList
        [PyStr (lit ''Coordinator bersifat single-node in-memory; '' @
            lit ''tidak membuktikan konsensus multi-node Raft '' @ lit ''riil.''),
         PyStr (lit ''Tidak menguji fault injeksi disk fisik, '' @
            lit ''network loss paket parsial, atau Byzantine '' @ lit ''failures.''),
         PyStr (lit ''Clock offset diuji melalui manipulasi '' @
            lit ''software; tidak menguji hardware clock skew '' @ lit ''ekstrem.''),
         PyStr (lit ''Storage diimplementasikan via in-memory '' @
            lit ''sync.RWMutex; bukan PostgreSQL CAS atau '' @ lit ''etcd revision check.''),
         PyStr (lit ''Nilai waktu (TTL 200ms, renew 50ms) '' @
            lit ''bersifat ilustratif lab; bukan panduan '' @ lit ''tuning produksi.''),
         PyStr (lit ''Tidak mencakup mekanisme automated fencing '' @
            lit ''token compaction atau database sequence '' @ lit ''recycling.'')]),
      (''type'', PyStr (lit ''bullet''))]]\<close>

definition lab30_slide_11 :: pycall where [lab30_slides]:
  \<open>lab30_slide_11 =
   \<lparr>posargs = [],
  kwargs =
   [(''categories'', PyList
      [PyStr (lit ''BATASAN''),
       PyStr (lit ''ANALISIS'')]),
    (''title'', PyStr (lit ''YANG TIDAK DIBUKTIKAN'')),
    (''subtitle'', PyStr (lit ''Batasan ruang lingkup laboratorium yang '' @
        lit ''wajib dipahami sebelum implementasi '' @ lit ''produksi.'')),
    (''content_items'', lab30_items_11),
    (''narrative'', PyStr (lit ''Klaim teknis dalam laboratorium ini '' @
        lit ''dibatasi oleh parameter lingkungan '' @
        lit ''pengujian yang disederhanakan. Coordinator '' @
        lit ''yang digunakan berjalan in-memory di dalam '' @
        lit ''satu proses Go, bukan kluster terdistribusi '' @
        lit ''multi-node berbasis konsensus Raft seperti '' @
        lit ''etcd atau Paxos. Uji coba tidak '' @
        lit ''mensimulasikan kegagalan jaringan fisik '' @
        lit ''nyata seperti packet loss berkala, korupsi '' @
        lit ''hardware disk, atau perilaku Byzantine. '' @
        lit ''Nilai parameter waktu seperti TTL 200 '' @
        lit ''milidetik hanya dirancang untuk kecepatan '' @
        lit ''eksekusi demo dan tidak boleh langsung '' @
        lit ''diaplikasikan ke lingkungan produksi tanpa '' @
        lit ''benchmarking p99 latency.'')),
    (''narrative_en'', PyStr (lit ''The technical claims established in this '' @
        lit ''lab are explicitly bounded by the '' @
        lit ''in-process test harness. The coordinator '' @
        lit ''runs in-memory within a single Go runtime '' @
        lit ''rather than across a multi-node Raft '' @
        lit ''consensus cluster such as etcd or '' @
        lit ''ZooKeeper. Real-world physical network '' @
        lit ''degradation like packet loss, storage '' @
        lit ''corruption, or Byzantine behaviors were not '' @
        lit ''exercised. Furthermore, illustrative timing '' @
        lit ''constants (200ms TTL, 50ms renewal) were '' @
        lit ''chosen for rapid test turnaround and must '' @
        lit ''be re-calibrated against production p99 '' @
        lit ''network latency and GC statistics.'')),
    (''mental_model'', PyStr (lit ''Acknowledge lab constraints to avoid '' @
        lit ''confusing conceptual proofs with '' @ lit ''production-grade topology.'')),
    (''source_path'', PyStr (lit ''labs/30-leader-election/content/01-content-b'' @ lit ''rief.md '' @ [0x2022] @
        lit '' engineering-audit/06-verdict.md'')),
    (''slide_num'', PyStr (lit ''11 / 24'')),
    (''layout'', PyStr (lit ''constraints-list''))]\<rparr>\<close>

definition lab30_items_12 :: pyval where [lab30_contents]:
  \<open>lab30_items_12 =
   PyList
   [PyDict
     [(''title'', PyStr (lit ''MANFAAT & KEUNGGULAN'')),
      (''items'', PyList
        [PyStr (lit ''Jaminan Konsistensi Mutlak: Menghilangkan '' @
            lit ''risiko split-brain write pada shared '' @ lit ''storage.''),
         PyStr (lit ''Decoupled Failure Recovery: Node baru dapat '' @
            lit ''langsung menulis tanpa menunggu node lama '' @ lit ''mengonfirmasi mati.''),
         PyStr (lit ''Auditability: Setiap record memiliki '' @
            lit ''fencing token yang merefleksikan generasi '' @ lit ''pemimpin penulis.'')]),
      (''type'', PyStr (lit ''bullet''))],
    PyDict
     [(''title'', PyStr (lit ''KONSEKUENSI & BIAYA'')),
      (''items'', PyList
        [PyStr (lit ''Modifikasi Storage Layer: Resource bersama '' @
            lit ''wajib mendukung skema token dan '' @ lit ''check-and-set.''),
         PyStr (lit ''Failover Latency: Masa transisi pemimpin '' @
            lit ''baru terikat pada durasi TTL lease yang '' @ lit ''dipilih.''),
         PyStr (lit ''Client Error Handling: Aplikasi klien wajib '' @
            lit ''memiliki alur penanganan saat write ditolak '' @
            lit ''ErrStaleFencingToken.'')]),
      (''type'', PyStr (lit ''bullet''))]]\<close>

definition lab30_slide_12 :: pycall where [lab30_slides]:
  \<open>lab30_slide_12 =
   \<lparr>posargs = [],
  kwargs =
   [(''categories'', PyList
      [PyStr (lit ''TRADE-OFF''),
       PyStr (lit ''ARSITEKTUR'')]),
    (''title'', PyStr (lit ''Trade-off Arsitektur: Fencing vs '' @ lit ''Kompleksitas'')),
    (''subtitle'', PyStr (lit ''Menilai biaya operasional penambahan '' @
        lit ''gerbang fencing dibandingkan manfaat '' @ lit ''konsistensi data.'')),
    (''content_items'', lab30_items_12),
    (''narrative'', PyStr (lit ''Penerapan fencing tokens menuntut kompromi '' @
        lit ''arsitektural antara keamanan data dan '' @
        lit ''kompleksitas sistem. Keunggulan utamanya '' @
        lit ''adalah eliminasi total terhadap korupsi '' @
        lit ''data akibat split-brain serta kemampuan '' @
        lit ''failover tanpa perlu menunggu konfirmasi '' @
        lit ''kematian node lama. Namun, biaya '' @
        lit ''penerapannya tidak kecil: lapisan '' @
        lit ''penyimpanan harus dimodifikasi agar mampu '' @
        lit ''mengevaluasi token, waktu failover dibatasi '' @
        lit ''oleh durasi TTL lease, dan klien aplikasi '' @
        lit ''harus memiliki logika fallback ketika '' @
        lit ''transaksi ditolak akibat token kedaluwarsa.'')),
    (''narrative_en'', PyStr (lit ''Adopting fencing tokens introduces '' @
        lit ''trade-offs between guaranteed data safety '' @
        lit ''and overall system complexity. The primary '' @
        lit ''benefit is absolute immunity from '' @
        lit ''split-brain data corruption and the freedom '' @
        lit ''to promote new leaders without waiting for '' @
        lit ''explicit old-leader termination. '' @
        lit ''Conversely, the operational overhead '' @
        lit ''requires modifying backend storage engines '' @
        lit ''to support check-and-set semantics, '' @
        lit ''accepting failover dead-time proportional '' @
        lit ''to the lease TTL, and engineering client '' @
        lit ''resilience when writes are rejected.'')),
    (''mental_model'', PyStr (lit ''Safety requires storage collaboration; you '' @
        lit ''trade write simplicity for bulletproof '' @ lit ''consistency.'')),
    (''source_path'', PyStr (lit ''labs/30-leader-election/content/02-master-dr'' @ lit ''aft.md'')),
    (''slide_num'', PyStr (lit ''12 / 24'')),
    (''layout'', PyStr (lit ''tradeoff''))]\<rparr>\<close>

definition lab30_items_13 :: pyval where [lab30_contents]:
  \<open>lab30_items_13 =
   PyList
   [PyDict
     [(''title'', PyStr (lit ''KODE TEST KONKURENSI'')),
      (''items'', PyList
        [PyStr (lit ''func TestConcurrentElectionRace(t '' @ lit ''*testing.T) {''),
         PyStr (lit ''    coord := coordinator.New()''),
         PyStr (lit ''    store := storage.New()''),
         PyStr (lit ''    nodes := make([]*candidate.Node, 5)''),
         PyStr (lit ''    for i := 0; i < 5; i++ {''),
         PyStr (lit ''        nodes[i] = '' @ lit ''candidate.NewNode(string(rune('' @ [39] @
            lit ''A'' @ [39] @ lit ''+i)), "leader-lock", 100*time.Millisecond, '' @
            lit ''20*time.Millisecond, coord, store)''),
         PyStr (lit ''        nodes[i].Start(ctx)''),
         PyStr (lit ''    }''),
         PyStr (lit ''    time.Sleep(100 * time.Millisecond)''),
         PyStr (lit ''    // Assert: leaderCount == 1 di antara 5 '' @
            lit ''node yang berlomba''),
         PyStr (lit ''}'')]),
      (''type'', PyStr (lit ''code''))],
    PyDict
     [(''title'', PyStr (lit ''HASIL VERIFIKASI'')),
      (''items'', PyList
        [PyStr (lit ''Race Detector: PASS (bebas dari data race '' @ lit ''condition).''),
         PyStr (lit ''Linearizable Mutex: Semua permintaan '' @
            lit ''Acquire dan Renew dieksekusi secara serial.''),
         PyStr (lit ''Tepat 1 Leader: 4 kandidat lainnya tetap '' @
            lit ''berstatus FOLLOWER secara stabil.'')]),
      (''type'', PyStr (lit ''bullet''))]]\<close>

definition lab30_slide_13 :: pycall where [lab30_slides]:
  \<open>lab30_slide_13 =
   \<lparr>posargs = [],
  kwargs =
   [(''categories'', PyList
      [PyStr (lit ''CONCURRENCY''),
       PyStr (lit ''VALIDATION'')]),
    (''title'', PyStr (lit ''Validasi Konkurensi: 5 Node Berlomba Rebut '' @ lit ''Lease'')),
    (''subtitle'', PyStr (lit ''TestConcurrentElectionRace membuktikan '' @
        lit ''linearitas coordinator: tepat 1 leader '' @ lit ''terpilih.'')),
    (''content_items'', lab30_items_13),
    (''narrative'', PyStr (lit ''Uji konkurensi membuktikan ketahanan '' @
        lit ''implementasi saat lima node kandidat '' @
        lit ''mencoba mengakuisisi lease secara simultan. '' @
        lit ''Coordinator memanfaatkan sync.Mutex '' @
        lit ''internal untuk memastikan setiap pengecekan '' @
        lit ''dan penetapan lease berjalan secara '' @
        lit ''linearizable. Dalam pengujian '' @
        lit ''TestConcurrentElectionRace, setelah 100 '' @
        lit ''milidetik kompetisi intensif, tepat satu '' @
        lit ''node berhasil dipromosikan menjadi LEADER '' @
        lit ''sementara empat node lainnya tertahan '' @
        lit ''sebagai FOLLOWER. Verifikasi dengan flag '' @
        lit ''-race membuktikan tidak ada data race di '' @ lit ''seluruh memori proses.'')),
    (''narrative_en'', PyStr (lit ''Concurrency stress testing validates '' @
        lit ''implementation correctness when five '' @
        lit ''candidate nodes compete for lease ownership '' @
        lit ''simultaneously. The coordinator leverages '' @
        lit ''an internal sync.Mutex to guarantee '' @
        lit ''linearizable evaluation of lease '' @
        lit ''acquisition and renewal requests. In '' @
        lit ''TestConcurrentElectionRace, after 100ms of '' @
        lit ''concurrent campaigning, exactly one node '' @
        lit ''transitions to LEADER while the remaining '' @
        lit ''four stably remain as FOLLOWERS. Running '' @ lit ''under Go'' @ [39] @
        lit ''s race detector flags zero data races '' @ lit ''across all components.'')),
    (''mental_model'', PyStr (lit ''Serialized coordinator primitives resolve '' @
        lit ''concurrent contention into a single '' @ lit ''unambiguous leader.'')),
    (''source_path'', PyStr (lit ''tests/election_test.go:156-191'')),
    (''slide_num'', PyStr (lit ''13 / 24'')),
    (''layout'', PyStr (lit ''concurrency-flow''))]\<rparr>\<close>

definition lab30_items_14 :: pyval where [lab30_contents]:
  \<open>lab30_items_14 =
   PyList
   [PyDict
     [(''title'', PyStr (lit ''BEFORE (Lease TTL Murni)'')),
      (''items'', PyList
        [PyStr (lit ''Koordinasi: Node mengandalkan local state '' @
            lit ''check sebelum eksekusi.''),
         PyStr (lit ''Failure Mode: Stop-the-world pause memicu '' @
            lit ''penulisan ganda pasca-wake.''),
         PyStr (lit ''Penyimpanan: Storage pasif menerima semua '' @
            lit ''data tanpa validasi urutan.''),
         PyStr (lit ''Dampak: Korupsi data senyap dan state '' @
            lit ''database tidak konsisten.'')]),
      (''type'', PyStr (lit ''card''))],
    PyDict
     [(''title'', PyStr (lit ''AFTER (Lease + Fencing Tokens)'')),
      (''items'', PyList
        [PyStr (lit ''Koordinasi: Lease berbatas waktu dipadukan '' @
            lit ''dengan revision counter monotonik.''),
         PyStr (lit ''Failure Mode: Leader lama terbangun, namun '' @
            lit ''mutasinya otomatis ditolak.''),
         PyStr (lit ''Penyimpanan: Storage aktif memeriksa aturan '' @
            lit ''incomingToken > lastSeenToken.''),
         PyStr (lit ''Dampak: Integritas data terjamin 100% aman '' @
            lit ''dari ancaman split-brain.'')]),
      (''type'', PyStr (lit ''card''))]]\<close>

definition lab30_slide_14 :: pycall where [lab30_slides]:
  \<open>lab30_slide_14 =
   \<lparr>posargs = [],
  kwargs =
   [(''categories'', PyList
      [PyStr (lit ''BEFORE/AFTER''),
       PyStr (lit ''PERUBAHAN'')]),
    (''title'', PyStr (lit ''Before vs After: Evolusi Sistem Koordinasi'')),
    (''subtitle'', PyStr (lit ''Transformasi dari koordinasi rapuh berbasis '' @
        lit ''waktu lokal menuju arsitektur fenced mutlak.'')),
    (''content_items'', lab30_items_14),
    (''narrative'', PyStr (lit ''Perbandingan before-after ini menunjukkan '' @
        lit ''pergeseran paradigma dalam menangani '' @
        lit ''koordinasi terdistribusi. Sebelum '' @
        lit ''menerapkan fencing tokens, sistem sangat '' @
        lit ''rapuh terhadap jeda eksekusi karena '' @
        lit ''penyimpanan mempercayai klaim kepemimpinan '' @
        lit ''klien secara pasif. Akibatnya, jeda '' @
        lit ''eksekusi leader lama dapat merusak data '' @
        lit ''yang baru saja ditulis oleh leader '' @
        lit ''pengganti. Setelah menerapkan arsitektur '' @
        lit ''fencing, penyimpanan bersama bertindak '' @
        lit ''sebagai filter aktif yang menjamin data '' @
        lit ''tidak akan pernah tertimpa oleh mutasi yang '' @
        lit ''berasal dari generasi kepemimpinan masa '' @ lit ''lalu.'')),
    (''narrative_en'', PyStr (lit ''This before-and-after comparison highlights '' @
        lit ''the architectural paradigm shift in '' @
        lit ''distributed coordination. Prior to adopting '' @
        lit ''fencing tokens, the topology was '' @
        lit ''exceptionally fragile under execution '' @
        lit ''pauses because storage passively trusted '' @
        lit ''client assertions. As a result, paused '' @
        lit ''legacy leaders overwrote fresh state '' @
        lit ''written by active successors. With the '' @
        lit ''fencing token pattern in place, shared '' @
        lit ''storage functions as an active verification '' @
        lit ''barrier, ensuring mutations from obsolete '' @
        lit ''leadership epochs are systematically '' @ lit ''rejected.'')),
    (''mental_model'', PyStr (lit ''Before: passive storage vulnerable to '' @
        lit ''split-brain. After: active fencing '' @ lit ''guarantees immutable epochs.'')),
    (''source_path'', PyStr (lit ''labs/30-leader-election/content/02-master-dr'' @ lit ''aft.md'')),
    (''slide_num'', PyStr (lit ''14 / 24'')),
    (''layout'', PyStr (lit ''before-after''))]\<rparr>\<close>

definition lab30_items_15 :: pyval where [lab30_contents]:
  \<open>lab30_items_15 =
   PyList
   [PyDict
     [(''title'', PyStr (lit ''TEST KONTRAK LEASE'')),
      (''items'', PyList
        [PyStr (lit ''func TestCoordinatorLeaseAcquisitionAndRenew'' @
            lit ''al(t *testing.T) {''),
         PyStr (lit ''    coord := coordinator.New()''),
         PyStr (lit ''    ttl := 200 * time.Millisecond''),
         PyStr (lit ''    lease1, err := '' @
            lit ''coord.Acquire("leader-lock", "node-1", ttl)''),
         PyStr (lit ''    // Assert: lease1.FencingToken == 1''),
         PyStr (lit ''    _, err = coord.Acquire("leader-lock", '' @ lit ''"node-2", ttl)''),
         PyStr (lit ''    // Assert: errors.Is(err, '' @ lit ''coordinator.ErrLeaseHeld)''),
         PyStr (lit ''    time.Sleep(250 * time.Millisecond) // '' @ lit ''Lampaui TTL 200ms''),
         PyStr (lit ''    lease2, err := '' @
            lit ''coord.Acquire("leader-lock", "node-2", ttl)''),
         PyStr (lit ''    // Assert: lease2.FencingToken == 2''),
         PyStr (lit ''}'')]),
      (''type'', PyStr (lit ''code''))],
    PyDict
     [(''title'', PyStr (lit ''VERIFIKASI INVARIAN'')),
      (''items'', PyList
        [PyStr (lit ''Mutual Exclusion: Node-2 ditolak '' @
            lit ''ErrLeaseHeld selama lease Node-1 masih '' @ lit ''dalam masa aktif.''),
         PyStr (lit ''Token Stability: Memanggil Renew() '' @
            lit ''memperpanjang masa aktif tanpa mengubah '' @
            lit ''nilai token (tetap 1).''),
         PyStr (lit ''Monotonic Increment: Setelah TTL '' @
            lit ''kedaluwarsa, akuisisi oleh Node-2 '' @ lit ''menghasilkan token 2.'')]),
      (''type'', PyStr (lit ''bullet''))]]\<close>

definition lab30_slide_15 :: pycall where [lab30_slides]:
  \<open>lab30_slide_15 =
   \<lparr>posargs = [],
  kwargs =
   [(''categories'', PyList
      [PyStr (lit ''BUKTI TEST''),
       PyStr (lit ''LEASE & TTL'')]),
    (''title'', PyStr (lit ''Test 1: Akuisisi, Renewal, dan Kedaluwarsa '' @ lit ''Lease'')),
    (''subtitle'', PyStr (lit ''TestCoordinatorLeaseAcquisitionAndRenewal '' @
        lit ''membuktikan siklus hidup lease di '' @ lit ''coordinator.'')),
    (''content_items'', lab30_items_15),
    (''narrative'', PyStr (lit ''Unit test pertama membuktikan kebenaran '' @
        lit ''siklus hidup lease pada modul coordinator. '' @
        lit ''Node-1 berhasil memperoleh lease pertama '' @
        lit ''dengan fencing token bernilai 1. Selama '' @
        lit ''lease masih aktif, permintaan akuisisi dari '' @
        lit ''Node-2 langsung ditolak dengan error '' @
        lit ''ErrLeaseHeld. Operasi pembaruan berkala '' @
        lit ''(Renew) terbukti memperpanjang masa berlaku '' @
        lit ''lease tanpa menaikkan nilai token. Setelah '' @
        lit ''dilakukan sleep selama 250 milidetik yang '' @
        lit ''melampaui batas TTL 200 milidetik, lease '' @
        lit ''kedaluwarsa secara otomatis dan Node-2 '' @
        lit ''berhasil mengakuisisi lease dengan token 2.'')),
    (''narrative_en'', PyStr (lit ''The first unit test validates the '' @
        lit ''operational lifecycle of leases managed by '' @
        lit ''the coordinator module. Node-1 successfully '' @
        lit ''acquires the initial lease, receiving '' @
        lit ''fencing token 1. While this lease remains '' @ lit ''valid, Node-2'' @ [39] @
        lit ''s concurrent acquisition attempt is blocked '' @
        lit ''with ErrLeaseHeld. Heartbeat renewal '' @
        lit ''operations demonstrably extend the lease '' @
        lit ''expiration without perturbing the token '' @
        lit ''value. After pausing for 250ms to exceed '' @
        lit ''the 200ms TTL window, the lease expires '' @
        lit ''cleanly, enabling Node-2 to secure '' @ lit ''ownership with token 2.'')),
    (''mental_model'', PyStr (lit ''Lease renewal preserves the generation '' @
        lit ''token; lease expiration monotonically '' @ lit ''advances it.'')),
    (''source_path'', PyStr (lit ''tests/election_test.go:14-56'')),
    (''slide_num'', PyStr (lit ''15 / 24'')),
    (''layout'', PyStr (lit ''test-analysis''))]\<rparr>\<close>

definition lab30_items_16 :: pyval where [lab30_contents]:
  \<open>lab30_items_16 =
   PyList
   [PyDict
     [(''title'', PyStr (lit ''TEST PENOLAKAN STORAGE'')),
      (''items'', PyList
        [PyStr (lit ''func TestFencedStorageRejectsStaleTokens(t '' @ lit ''*testing.T) {''),
         PyStr (lit ''    store := storage.New()''),
         PyStr (lit ''    _ = store.Write("node-1", 10, '' @
            lit ''"state-1") // Sukses: 10 > 0''),
         PyStr (lit ''    _ = store.Write("node-2", 11, '' @
            lit ''"state-2") // Sukses: 11 > 10''),
         PyStr (lit ''    err1 := store.Write("node-1", 10, '' @ lit ''"stale-state")''),
         PyStr (lit ''    // Assert: errors.Is(err1, '' @ lit ''storage.ErrStaleFencingToken)''),
         PyStr (lit ''    err2 := store.Write("node-2", 11, '' @ lit ''"duplicate-token")''),
         PyStr (lit ''    // Assert: errors.Is(err2, '' @ lit ''storage.ErrStaleFencingToken)''),
         PyStr (lit ''    // Assert: len(store.History()) == 2 '' @
            lit ''(mutasi ilegal tidak dicatat)''),
         PyStr (lit ''}'')]),
      (''type'', PyStr (lit ''code''))],
    PyDict
     [(''title'', PyStr (lit ''ATURAN STRICT INEQUALITY'')),
      (''items'', PyList
        [PyStr (lit ''Token Mundur Ditolak: Token 10 ditolak '' @
            lit ''setelah storage melihat token 11 (10 < 11).''),
         PyStr (lit ''Token Sama Ditolak: Token 11 duplikat '' @
            lit ''ditolak karena tidak memenuhi syarat strict '' @
            lit ''greater (11 == 11).''),
         PyStr (lit ''Integritas Riwayat: Penyimpanan bersama '' @
            lit ''hanya berisi tepat 2 record legal.'')]),
      (''type'', PyStr (lit ''bullet''))]]\<close>

definition lab30_slide_16 :: pycall where [lab30_slides]:
  \<open>lab30_slide_16 =
   \<lparr>posargs = [],
  kwargs =
   [(''categories'', PyList
      [PyStr (lit ''BUKTI TEST''),
       PyStr (lit ''STORAGE REJECTION'')]),
    (''title'', PyStr (lit ''Test 2: Storage Menolak Token Usang & '' @ lit ''Duplikat'')),
    (''subtitle'', PyStr (lit ''TestFencedStorageRejectsStaleTokens '' @
        lit ''memverifikasi syarat strict inequality '' @ lit ''incoming > lastSeen.'')),
    (''content_items'', lab30_items_16),
    (''narrative'', PyStr (lit ''Unit test kedua menguji ketatnya aturan '' @
        lit ''validasi pada lapisan FencedStorage. '' @
        lit ''Penyimpanan pertama kali menerima token 10, '' @
        lit ''kemudian menerima token 11. Saat Node-1 '' @
        lit ''mencoba menulis kembali dengan token 10, '' @
        lit ''operasi ditolak karena 10 lebih kecil dari '' @
        lit ''11. Begitu pula saat Node-2 mencoba menulis '' @
        lit ''ulang dengan token 11 yang identik, storage '' @
        lit ''menolaknya karena aturan mensyaratkan token '' @
        lit ''harus strictly lebih besar. Hasil '' @
        lit ''pemeriksaan History() membuktikan riwayat '' @
        lit ''penyimpanan hanya berisi tepat dua data '' @
        lit ''yang sah dan menolak semua mutasi ilegal.'')),
    (''narrative_en'', PyStr (lit ''The second unit test rigorously examines '' @
        lit ''the validation invariants implemented '' @
        lit ''inside FencedStorage. The storage engine '' @
        lit ''sequentially admits tokens 10 and 11. When '' @
        lit ''Node-1 subsequently re-submits a write '' @
        lit ''under token 10, the call is rejected since '' @
        lit ''10 is strictly less than 11. Similarly, '' @
        lit ''when Node-2 attempts a duplicate write '' @
        lit ''under token 11, storage rejects it because '' @
        lit ''the contract requires strict inequality. '' @
        lit ''Inspecting History() confirms exactly two '' @
        lit ''legitimate records exist, guaranteeing '' @
        lit ''invalid writes never pollute state.'')),
    (''mental_model'', PyStr (lit ''Strict inequality incomingToken > '' @
        lit ''lastSeenToken closes both stale replay and '' @
        lit ''duplicate mutation vulnerabilities.'')),
    (''source_path'', PyStr (lit ''tests/election_test.go:58-85'')),
    (''slide_num'', PyStr (lit ''16 / 24'')),
    (''layout'', PyStr (lit ''test-analysis''))]\<rparr>\<close>

definition lab30_items_17 :: pyval where [lab30_contents]:
  \<open>lab30_items_17 =
   PyList
   [PyDict
     [(''title'', PyStr (lit ''SIMULASI GC PAUSE PADA NODE AKTIF'')),
      (''items'', PyList
        [PyStr (lit ''// 1. Leader-1 terpilih dan menulis sukses '' @ lit ''dengan token1''),
         PyStr (lit ''leader1.SimulatePause(250 * '' @
            lit ''time.Millisecond) // Lebih lama dari TTL '' @ lit ''150ms''),
         PyStr (lit ''time.Sleep(200 * time.Millisecond)''),
         PyStr (lit ''// 2. Leader-2 mengambil alih kepemimpinan '' @
            lit ''dengan token2 > token1''),
         PyStr (lit ''err = leader2.PerformFencedWrite("leader-2-w'' @ lit ''rite") // SUKSES''),
         PyStr (lit ''// 3. Leader-1 bangun dan mencoba menulis '' @ lit ''dengan token1 usang''),
         PyStr (lit ''err = store.Write(leader1.ID(), token1, '' @
            lit ''"stale-write-after-gc-pause")''),
         PyStr (lit ''// Assert: errors.Is(err, '' @ lit ''storage.ErrStaleFencingToken)'')]),
      (''type'', PyStr (lit ''code''))],
    PyDict
     [(''title'', PyStr (lit ''FAKTA PERILAKU SISTEM'')),
      (''items'', PyList
        [PyStr (lit ''Leader 1 dibekukan selama 250ms melalui '' @
            lit ''SimulatePause yang menghentikan loop '' @ lit ''renewal.''),
         PyStr (lit ''Kandidat kedua mendeteksi lease habis dan '' @
            lit ''dipromosikan dengan token lebih tinggi.''),
         PyStr (lit ''Saat Leader 1 bangun, percobaan tulisnya '' @
            lit ''digagalkan oleh pagar validasi storage.'')]),
      (''type'', PyStr (lit ''bullet''))]]\<close>

definition lab30_slide_17 :: pycall where [lab30_slides]:
  \<open>lab30_slide_17 =
   \<lparr>posargs = [],
  kwargs =
   [(''categories'', PyList
      [PyStr (lit ''BUKTI TEST''),
       PyStr (lit ''SPLIT-BRAIN DEFENSE'')]),
    (''title'', PyStr (lit ''Test 3: Failover Otomatis & Pertahanan '' @ lit ''Split-Brain'')),
    (''subtitle'', PyStr (lit ''TestLeaderElectionFailoverAndSplitBrainDefen'' @
        lit ''se membuktikan skenario GC pause end-to-end.'')),
    (''content_items'', lab30_items_17),
    (''narrative'', PyStr (lit ''Test ketiga mendemonstrasikan skenario inti '' @
        lit ''split-brain yang dipecahkan oleh lab ini. '' @
        lit ''Node leader pertama disimulasikan mengalami '' @
        lit ''stop-the-world pause selama 250 milidetik, '' @
        lit ''melampaui batas lease TTL 150 milidetik. '' @
        lit ''Kandidat kedua mendeteksi kekosongan lease, '' @
        lit ''mengambil alih kepemimpinan, dan sukses '' @
        lit ''menulis dengan token 2. Ketika leader '' @
        lit ''pertama bangun dan mencoba menulis ke '' @
        lit ''storage menggunakan token 1 yang '' @
        lit ''dipegangnya, operasi ditolak mentah-mentah '' @
        lit ''dengan ErrStaleFencingToken. Tes ini '' @
        lit ''mengonfirmasi pertahanan split-brain '' @ lit ''bekerja sempurna.'')),
    (''narrative_en'', PyStr (lit ''The third test orchestrates the pivotal '' @
        lit ''split-brain scenario solved by this lab. '' @
        lit ''The primary leader is subjected to a '' @
        lit ''simulated stop-the-world pause of 250ms, '' @
        lit ''deliberately exceeding the 150ms TTL '' @
        lit ''threshold. The standby candidate detects '' @
        lit ''the expired lease, claims leadership, and '' @
        lit ''commits state under token 2. When the '' @
        lit ''original leader resumes and attempts to '' @
        lit ''flush data using its stale token 1, the '' @
        lit ''write is stopped cold by '' @ lit ''ErrStaleFencingToken. This verifies '' @
        lit ''end-to-end split-brain defense under real '' @ lit ''execution pauses.'')),
    (''mental_model'', PyStr (lit ''Simulated pause triggers clean failover; '' @
        lit ''resumed stale leader is intercepted at '' @ lit ''storage boundary.'')),
    (''source_path'', PyStr (lit ''tests/election_test.go:87-154'')),
    (''slide_num'', PyStr (lit ''17 / 24'')),
    (''layout'', PyStr (lit ''test-analysis''))]\<rparr>\<close>

definition lab30_items_18 :: pyval where [lab30_contents]:
  \<open>lab30_items_18 =
   PyList
   [PyDict
     [(''title'', PyStr (lit ''SISTEM KOORDINASI MODERN'')),
      (''items'', PyList
        [PyStr (lit ''etcd v3: Menggunakan Lease TTL dipadukan '' @
            lit ''dengan Revision Raft 64-bit sebagai fencing '' @ lit ''token bawaan.''),
         PyStr (lit ''Apache ZooKeeper: Menghasilkan Ephemeral '' @
            lit ''Sequential Znodes; nomor urut zxid '' @ lit ''bertindak sebagai token.''),
         PyStr (lit ''Consul: Mengandalkan internal Raft sessions '' @
            lit ''dengan Session TTL dan periodic health '' @ lit ''checks.'')]),
      (''type'', PyStr (lit ''bullet''))],
    PyDict
     [(''title'', PyStr (lit ''DEBAT REDIS REDLOCK (KLEPPMANN VS ANTIREZ)'')),
      (''items'', PyList
        [PyStr (lit ''Martin Kleppmann (2016): Redlock tidak '' @
            lit ''menghasilkan fencing token monotonik; '' @
            lit ''rentan GC pause & NTP jump.''),
         PyStr (lit ''Salvatore Sanfilippo (antirez): Redlock '' @
            lit ''dirancang untuk timed lock praktis, bukan '' @
            lit ''linearizable consensus.''),
         PyStr (lit ''Konsensus Industri: Jika resource tidak '' @
            lit ''mendukung fencing check, Redlock tidak '' @
            lit ''menjamin mutual exclusion mutlak.'')]),
      (''type'', PyStr (lit ''bullet''))]]\<close>

definition lab30_slide_18 :: pycall where [lab30_slides]:
  \<open>lab30_slide_18 =
   \<lparr>posargs = [],
  kwargs =
   [(''categories'', PyList
      [PyStr (lit ''STUDI KASUS''),
       PyStr (lit ''INDUSTRI'')]),
    (''title'', PyStr (lit ''Studi Kasus Industri: Mekanisme Fencing '' @ lit ''Nyata'')),
    (''subtitle'', PyStr (lit ''Bagaimana sistem terdistribusi kelas dunia '' @
        lit ''mengimplementasikan ordering tokens.'')),
    (''content_items'', lab30_items_18),
    (''narrative'', PyStr (lit ''Riset sistem terdistribusi menunjukkan '' @
        lit ''kesepakatan luas tentang perlunya fencing '' @
        lit ''tokens. etcd memanfaatkan nomor Raft '' @
        lit ''Revision 64-bit yang selalu bertambah '' @
        lit ''sebagai fencing token alami untuk setiap '' @
        lit ''transaksi mutasi. Apache ZooKeeper '' @
        lit ''menggunakan zxid dan urutan pembuatan '' @
        lit ''ephemeral znode. Debat bersejarah antara '' @
        lit ''Martin Kleppmann dan antirez mengenai '' @
        lit ''algoritma Redis Redlock menegaskan prinsip '' @
        lit ''utama: kunci terdistribusi tanpa fencing '' @
        lit ''token monotonik hanya cukup untuk efisiensi '' @
        lit ''sistem, bukan untuk keamanan data yang '' @
        lit ''membutuhkan korektivitas mutlak.'')),
    (''narrative_en'', PyStr (lit ''Industry research reveals widespread '' @
        lit ''consensus regarding the necessity of '' @
        lit ''fencing tokens. etcd leverages its 64-bit '' @
        lit ''Raft Revision counter as a native, strictly '' @
        lit ''monotonic fencing token across '' @
        lit ''transactional mutations. Apache ZooKeeper '' @
        lit ''provides zxid timestamps and sequential '' @
        lit ''ephemeral node numbers. The famous debate '' @
        lit ''between Martin Kleppmann and Salvatore '' @
        lit ''Sanfilippo (antirez) over Redis Redlock '' @
        lit ''established a lasting maxim: distributed '' @
        lit ''locks lacking monotonic tokens serve '' @
        lit ''efficiency purposes, never safety-critical '' @ lit ''correctness.'')),
    (''mental_model'', PyStr (lit ''Without monotonic fencing tokens at the '' @
        lit ''storage boundary, distributed locks provide '' @
        lit ''efficiency, not safety.'')),
    (''source_path'', PyStr (lit ''research/04-fencing-and-redlock.md '' @ [0x2022] @
        lit '' research/05-system-comparison-and-best-prac'' @ lit ''tices.md'')),
    (''slide_num'', PyStr (lit ''18 / 24'')),
    (''layout'', PyStr (lit ''cards''))]\<rparr>\<close>

definition lab30_items_19 :: pyval where [lab30_contents]:
  \<open>lab30_items_19 =
   PyList
   [PyDict
     [(''title'', PyStr (lit ''ANOMALI WALL-CLOCK (REAL-TIME)'')),
      (''items'', PyList
        [PyStr (lit ''Sinkronisasi waktu jaringan (NTP step) '' @
            lit ''dapat memajukan atau memundurkan wall-clock '' @ lit ''sistem.''),
         PyStr (lit ''Jika jam melompat mundur: Lease dianggap '' @
            lit ''aktif selamanya, mematikan kemampuan '' @ lit ''failover otomatis.''),
         PyStr (lit ''Jika jam melompat maju: Lease dianggap '' @
            lit ''kedaluwarsa prematur saat leader masih '' @ lit ''sehat.'')]),
      (''type'', PyStr (lit ''bullet''))],
    PyDict
     [(''title'', PyStr (lit ''GARANSI MONOTONIC CLOCK DI GO'')),
      (''items'', PyList
        [PyStr (lit ''time.Now() di Go membaca monotonic clock '' @
            lit ''hardware secara otomatis untuk pengukuran '' @ lit ''durasi.''),
         PyStr (lit ''time.Since(start) dan now.Before(expiresAt) '' @
            lit ''kebal terhadap manipulasi penyesuaian jam '' @ lit ''sistem.''),
         PyStr (lit ''Coordinator dan Candidate lab ini murni '' @
            lit ''menggunakan durasi monotonik untuk semua '' @ lit ''logika TTL.'')]),
      (''type'', PyStr (lit ''bullet''))]]\<close>

definition lab30_slide_19 :: pycall where [lab30_slides]:
  \<open>lab30_slide_19 =
   \<lparr>posargs = [],
  kwargs =
   [(''categories'', PyList
      [PyStr (lit ''ANALISIS TEKNIS''),
       PyStr (lit ''RUNTIME'')]),
    (''title'', PyStr (lit ''Mengapa Lease Wajib Menggunakan Monotonic '' @ lit ''Clock?'')),
    (''subtitle'', PyStr (lit ''Bahaya lompatan wall-clock akibat '' @
        lit ''penyesuaian NTP terhadap perhitungan '' @ lit ''kedaluwarsa lease.'')),
    (''content_items'', lab30_items_19),
    (''narrative'', PyStr (lit ''Penggunaan tipe jam yang tepat merupakan '' @
        lit ''detail implementasi yang membedakan sistem '' @
        lit ''amatir dari sistem kelas produksi. '' @
        lit ''Wall-clock (jam dinding) dirancang untuk '' @
        lit ''mencatat waktu kalender manusia dan dapat '' @
        lit ''melompat mundur atau maju secara drastis '' @
        lit ''saat terjadi penyesuaian NTP. Jika '' @
        lit ''perhitungan lease bergantung pada '' @
        lit ''wall-clock, lompatan waktu dapat memicu '' @
        lit ''kegagalan fatal: failover palsu atau lease '' @
        lit ''yang terkunci abadi. Go standard library '' @
        lit ''mengatasi ini dengan menyematkan pembacaan '' @
        lit ''monotonic hardware clock pada fungsi '' @
        lit ''time.Now(), menjamin perhitungan durasi TTL '' @ lit ''selalu linier.'')),
    (''narrative_en'', PyStr (lit ''Selecting the correct clock abstraction '' @
        lit ''separates resilient distributed '' @
        lit ''architectures from fragile prototypes. '' @
        lit ''System wall-clocks track human calendar '' @
        lit ''time and can step backward or forward '' @
        lit ''abruptly during NTP synchronizations. If '' @
        lit ''lease calculations depend on wall-clocks, '' @
        lit ''time jumps cause severe anomalies: phantom '' @
        lit ''failovers or indefinite lease starvation. '' @
        lit ''The Go standard library eliminates this '' @
        lit ''vulnerability by transparently embedding '' @
        lit ''hardware monotonic clock readings inside '' @
        lit ''time.Now(), guaranteeing linear duration '' @ lit ''calculations.'')),
    (''mental_model'', PyStr (lit ''Wall-clocks tell human time and jump; '' @
        lit ''monotonic clocks measure duration and never '' @ lit ''step backwards.'')),
    (''source_path'', PyStr (lit ''labs/30-leader-election/research/03-mechanis'' @ lit ''ms-and-leases.md '' @
        [0x2022] @ lit '' internal/coordinator/coordinator.go:40'')),
    (''slide_num'', PyStr (lit ''19 / 24'')),
    (''layout'', PyStr (lit ''cards''))]\<rparr>\<close>

definition lab30_items_20 :: pyval where [lab30_contents]:
  \<open>lab30_items_20 =
   PyList
   [PyDict
     [(''title'', PyStr (lit ''CHECKLIST ARSITEKTUR KOORDINASI'')),
      (''items'', PyList
        [PyStr (lit ''[ ] Parameter TTL lease dikalibrasi '' @
            lit ''berdasarkan observasi empiris p99 GC pause '' @ lit ''dan RTT jaringan.''),
         PyStr (lit ''[ ] Loop renewal diatur dengan frekuensi '' @
            lit ''aman (renewRate <= TTL / 3) dengan backoff '' @ lit ''terukur.''),
         PyStr (lit ''[ ] Semua perhitungan durasi lease dan '' @
            lit ''renewal murni menggunakan monotonic clock.''),
         PyStr (lit ''[ ] Coordinator menghasilkan revision '' @
            lit ''counter yang strictly monotonically '' @
            lit ''increasing di setiap lease baru.''),
         PyStr (lit ''[ ] Pembaharuan lease (renew) oleh pemegang '' @
            lit ''yang sama mempertahankan fencing token yang '' @ lit ''ada.''),
         PyStr (lit ''[ ] Shared resource (database/storage) '' @
            lit ''mengimplementasikan check-and-set atomik '' @
            lit ''(incoming > lastSeen).''),
         PyStr (lit ''[ ] Permintaan tulis dengan token <= '' @
            lit ''lastSeenToken ditolak dengan error '' @
            lit ''eksplisit yang dapat dipantau.''),
         PyStr (lit ''[ ] Metric alerting dipasang untuk '' @
            lit ''mendeteksi lonjakan kejadian penolakan '' @
            lit ''token basi (stale write spike).''),
         PyStr (lit ''[ ] Sistem aplikasi memahami batas antara '' @
            lit ''timed lock untuk efisiensi vs linearizable '' @
            lit ''fencing untuk keamanan.'')]),
      (''type'', PyStr (lit ''bullet''))]]\<close>

definition lab30_slide_20 :: pycall where [lab30_slides]:
  \<open>lab30_slide_20 =
   \<lparr>posargs = [],
  kwargs =
   [(''categories'', PyList
      [PyStr (lit ''CHECKLIST''),
       PyStr (lit ''PRODUKSI'')]),
    (''title'', PyStr (lit ''Checklist Implementasi Leader Election & '' @ lit ''Fencing'')),
    (''subtitle'', PyStr (lit ''9 poin verifikasi wajib sebelum menggelar '' @
        lit ''sistem koordinasi ke lingkungan produksi.'')),
    (''content_items'', lab30_items_20),
    (''narrative'', PyStr (lit ''Daftar periksa ini merangkum sembilan '' @
        lit ''prinsip krusial yang wajib dipenuhi sebelum '' @
        lit ''menerapkan sistem leader election di '' @
        lit ''produksi. Penentuan batas waktu TTL dan '' @
        lit ''laju renewal tidak boleh ditebak, melainkan '' @
        lit ''harus diukur berdasarkan data empiris p99 '' @
        lit ''latency jaringan dan durasi GC pause '' @
        lit ''runtime. Coordinator wajib menyediakan '' @
        lit ''nomor generasi monotonik, sementara shared '' @
        lit ''storage wajib mengisolasi validasi token di '' @
        lit ''balik operasi atomik. Setiap penolakan '' @
        lit ''stale token harus dimonitor sebagai '' @
        lit ''indikasi awal degradasi performa atau '' @ lit ''partisi jaringan.'')),
    (''narrative_en'', PyStr (lit ''This checklist codifies nine critical rules '' @
        lit ''required before deploying distributed '' @
        lit ''leader election systems to production. '' @
        lit ''Lease TTLs and heartbeat renewal intervals '' @
        lit ''must never be guessed; they require '' @
        lit ''empirical calibration against observed p99 '' @
        lit ''network RTT and runtime GC pause '' @
        lit ''distributions. Coordinators must issue '' @
        lit ''monotonically increasing generation '' @
        lit ''numbers, and shared resources must isolate '' @
        lit ''token validations within atomic '' @
        lit ''check-and-set transactions. Any rejection '' @
        lit ''spike must trigger alerts indicating node '' @
        lit ''stalls or network partitions.'')),
    (''mental_model'', PyStr (lit ''Calibrate timeouts empirically, increment '' @
        lit ''tokens monotonically, and enforce '' @ lit ''boundaries atomically.'')),
    (''source_path'', PyStr (lit ''labs/30-leader-election/content/02-master-dr'' @ lit ''aft.md:225-236'')),
    (''slide_num'', PyStr (lit ''20 / 24'')),
    (''layout'', PyStr (lit ''checklist''))]\<rparr>\<close>

definition lab30_items_21 :: pyval where [lab30_contents]:
  \<open>lab30_items_21 =
   PyList
   [PyDict
     [(''title'', PyStr (lit ''ANTI-PATTERN UMUM'')),
      (''items'', PyList
        [PyStr (lit ''Fencing di Klien: Melakukan validasi token '' @
            lit ''di memori klien sebelum memanggil storage '' @ lit ''(rentan TOCTOU).''),
         PyStr (lit ''Menerima Token Sama: Menggunakan syarat '' @
            lit ''token >= lastSeen membuka celah eksekusi '' @ lit ''mutasi ganda.''),
         PyStr (lit ''Token Non-Monotonik: Memakai UUID acak atau '' @
            lit ''timestamp lokal yang tidak memiliki garansi '' @ lit ''urutan kausal.''),
         PyStr (lit ''Wall-Clock TTL: Menggunakan jam dinding '' @
            lit ''sistem rentan manipulasi penyesuaian NTP '' @ lit ''clock skew.'')]),
      (''type'', PyStr (lit ''card''))],
    PyDict
     [(''title'', PyStr (lit ''CARA REPRODUKSI GAGAL DI LAB'')),
      (''items'', PyList
        [PyStr (lit ''1. Ubah internal/storage/storage.go baris '' @
            lit ''37 menjadi token < s.lastSeenToken (izinkan '' @ lit ''token sama).''),
         PyStr (lit ''2. Jalankan go test -v ./tests: '' @
            lit ''TestFencedStorageRejectsStaleTokens '' @
            lit ''langsung gagal pada duplicate check.''),
         PyStr (lit ''3. Hapus validasi storage sama sekali: '' @
            lit ''stale write dari Node-A akan menimpa '' @
            lit ''histori sah milik Node-B!'')]),
      (''type'', PyStr (lit ''card''))]]\<close>

definition lab30_slide_21 :: pycall where [lab30_slides]:
  \<open>lab30_slide_21 =
   \<lparr>posargs = [],
  kwargs =
   [(''categories'', PyList
      [PyStr (lit ''ANTI-PATTERN''),
       PyStr (lit ''REPRODUKSI'')]),
    (''title'', PyStr (lit ''Anti-Pattern: Kesalahan Desain yang Harus '' @ lit ''Dihindari'')),
    (''subtitle'', PyStr (lit ''Kekeliruan arsitektur yang melumpuhkan '' @
        lit ''jaminan keselamatan koordinasi '' @ lit ''terdistribusi.'')),
    (''content_items'', lab30_items_21),
    (''narrative'', PyStr (lit ''Mengabaikan prinsip dasar koordinasi dapat '' @
        lit ''berakibat fatal bagi integritas data '' @
        lit ''perusahaan. Anti-pattern yang paling sering '' @
        lit ''dijumpai adalah memvalidasi status '' @
        lit ''kepemimpinan di sisi klien aplikasi '' @
        lit ''alih-alih di gerbang penyimpanan, membuka '' @
        lit ''celah TOCTOU yang lebar. Mengizinkan token '' @
        lit ''yang bernilai sama (menggunakan operator '' @
        lit ''lebih besar atau sama dengan) juga merusak '' @
        lit ''keunikan generasi pemimpin. Untuk '' @
        lit ''membuktikannya di lab, kita cukup '' @
        lit ''melonggarkan validasi di storage.go dan '' @
        lit ''melihat unit test langsung mendeteksi '' @ lit ''pelanggaran keamanan.'')),
    (''narrative_en'', PyStr (lit ''Violating distributed coordination '' @
        lit ''fundamentals compromises enterprise data '' @
        lit ''consistency. The most prevalent '' @
        lit ''anti-pattern is executing leadership '' @
        lit ''validation exclusively in client memory '' @
        lit ''instead of at the storage gate, inviting '' @
        lit ''catastrophic TOCTOU race conditions. '' @
        lit ''Accepting equal tokens by substituting '' @ lit ''strict inequality with '' @
        lit ''greater-than-or-equal operators likewise '' @
        lit ''shatters epoch exclusivity. This can be '' @
        lit ''reproduced in the lab by relaxing '' @
        lit ''storage.go line 37, causing the test suite '' @
        lit ''to immediately catch the security violation.'')),
    (''mental_model'', PyStr (lit ''Client-side checks are advisory; only '' @
        lit ''server-side resource fencing guarantees '' @ lit ''mutual exclusion.'')),
    (''source_path'', PyStr (lit ''labs/30-leader-election/content/02-master-dr'' @ lit ''aft.md:206-213'')),
    (''slide_num'', PyStr (lit ''21 / 24'')),
    (''layout'', PyStr (lit ''anti-pattern-cards''))]\<rparr>\<close>

definition lab30_items_22 :: pyval where [lab30_contents]:
  \<open>lab30_items_22 =
   PyList
   [PyDict
     [(''title'', PyStr (lit ''PERINTAH VERIFIKASI RESMI'')),
      (''items'', PyList
        [PyStr (lit ''cd labs/30-leader-election''),
         PyStr (lit ''go test -v ./...''),
         PyStr (lit ''go test -race ./...''),
         PyStr (lit ''go run ./cmd/demo'')]),
      (''type'', PyStr (lit ''code''))],
    PyDict
     [(''title'', PyStr (lit ''RINGKASAN METRIK LAB'')),
      (''items'', PyList
        [PyStr (lit ''Test Suite: 4 test cases lulus 100% tanpa '' @
            lit ''kegagalan (1.17s total runtime).''),
         PyStr (lit ''Race Detector: Bersih dari thread '' @
            lit ''contention dan data races (2.01s pass).''),
         PyStr (lit ''Dependencies: Murni Go Standard Library '' @
            lit ''(sync, time, context, errors) tanpa '' @ lit ''dependensi pihak ketiga.'')]),
      (''type'', PyStr (lit ''bullet''))]]\<close>

definition lab30_slide_22 :: pycall where [lab30_slides]:
  \<open>lab30_slide_22 =
   \<lparr>posargs = [],
  kwargs =
   [(''categories'', PyList
      [PyStr (lit ''PRAKTIS''),
       PyStr (lit ''COMMAND'')]),
    (''title'', PyStr (lit ''Verifikasi Mandiri: Uji & Jalankan Lab'')),
    (''subtitle'', PyStr (lit ''Reproduksi seluruh bukti teknis, benchmark '' @
        lit ''race detector, dan demo interaktif di '' @ lit ''terminal Anda.'')),
    (''content_items'', lab30_items_22),
    (''narrative'', PyStr (lit ''Lab ini dirancang agar dapat diverifikasi '' @
        lit ''secara mandiri dalam hitungan detik. '' @
        lit ''Seluruh implementasi dibangun murni '' @
        lit ''menggunakan standard library Go tanpa '' @
        lit ''memerlukan server eksternal seperti Redis '' @
        lit ''atau etcd. Perintah go test -v mengeksekusi '' @
        lit ''empat pengujian komprehensif mulai dari '' @
        lit ''siklus hidup lease hingga pertahanan '' @
        lit ''split-brain. Perintah go test -race '' @
        lit ''memvalidasi keamanan konkurensi di bawah '' @
        lit ''beban goroutine intensif, dan go run demo '' @
        lit ''menampilkan simulasi visual interaktif '' @ lit ''penolakan mutasi usang.'')),
    (''narrative_en'', PyStr (lit ''This laboratory is engineered for '' @
        lit ''immediate, frictionless local verification. '' @
        lit ''The entire codebase is implemented with the '' @
        lit ''Go standard library, eliminating external '' @
        lit ''dependencies like Redis clusters or '' @
        lit ''ZooKeeper daemons. Running go test -v '' @
        lit ''executes four exhaustive test scenarios '' @
        lit ''validating lease lifecycles and split-brain '' @
        lit ''defenses. Executing go test -race proves '' @
        lit ''thread safety under multi-goroutine '' @
        lit ''contention, while go run demo delivers an '' @
        lit ''interactive terminal demonstration of stale '' @ lit ''write rejection.'')),
    (''mental_model'', PyStr (lit ''Zero-dependency standard library code '' @
        lit ''enables instant, deterministic peer '' @ lit ''verification.'')),
    (''source_path'', PyStr (lit ''README.md:37-50 '' @ [0x2022] @ lit '' engineering/03-execution-result.md'')),
    (''slide_num'', PyStr (lit ''22 / 24'')),
    (''layout'', PyStr (lit ''command-block''))]\<rparr>\<close>

definition lab30_items_23 :: pyval where [lab30_contents]:
  \<open>lab30_items_23 =
   PyList
   [PyDict
     [(''title'', PyStr (lit ''1. LEASE MEMBERIKAN EFISIENSI, BUKAN SAFETY'')),
      (''items'', PyList
        [PyStr (lit ''Lease berbatas waktu sangat baik untuk '' @
            lit ''mencegah duplikasi pekerjaan komputasi.''),
         PyStr (lit ''Namun, lease tidak pernah cukup untuk '' @
            lit ''menjamin integritas penulisan pada shared '' @
            lit ''storage non-idempoten.'')]),
      (''type'', PyStr (lit ''card''))],
    PyDict
     [(''title'', PyStr (lit ''2. RESOURCE ADALAH HAKIM TERTINGGI'')),
      (''items'', PyList
        [PyStr (lit ''Klien yang mengalami pause tidak pernah '' @
            lit ''tahu bahwa dirinya sudah kedaluwarsa.''),
         PyStr (lit ''Hanya shared resource yang memiliki '' @
            lit ''perspektif global untuk menolak instruksi '' @
            lit ''usang melalui fencing.'')]),
      (''type'', PyStr (lit ''card''))],
    PyDict
     [(''title'', PyStr (lit ''3. URUTAN GENERASI MENGALAHKAN ASUMSI WAKTU'')),
      (''items'', PyList
        [PyStr (lit ''Jangan pernah bergantung pada asumsi bahwa '' @
            lit ''proses Anda akan selesai sebelum waktu T '' @ lit ''habis.''),
         PyStr (lit ''Gunakan nomor urut generasi (monotonic '' @
            lit ''epoch) yang dapat divalidasi secara '' @ lit ''deterministik.'')]),
      (''type'', PyStr (lit ''card''))]]\<close>

definition lab30_slide_23 :: pycall where [lab30_slides]:
  \<open>lab30_slide_23 =
   \<lparr>posargs = [],
  kwargs =
   [(''categories'', PyList
      [PyStr (lit ''PRINSIP''),
       PyStr (lit ''ARSITEKTUR'')]),
    (''title'', PyStr (lit ''Prinsip Arsitektur: Desain untuk '' @ lit ''Asinkronitas'')),
    (''subtitle'', PyStr (lit ''Pelajaran abadi dalam merancang sistem '' @
        lit ''terdistribusi yang tahan terhadap kegagalan '' @ lit ''parsial.'')),
    (''content_items'', lab30_items_23),
    (''narrative'', PyStr (lit ''Tiga prinsip arsitektur ini berlaku '' @
        lit ''universal di luar implementasi lab Go ini. '' @
        lit ''Pertama, pahami bahwa lease berbasis waktu '' @
        lit ''hanya memberikan timed mutual exclusion '' @
        lit ''yang cocok untuk optimalisasi efisiensi, '' @
        lit ''bukan keselamatan mutlak. Kedua, tempatkan '' @
        lit ''gerbang keamanan di lapisan resource '' @
        lit ''bersama karena proses klien yang membeku '' @
        lit ''tidak memiliki kesadaran akan berlalunya '' @
        lit ''waktu. Ketiga, gantikan asumsi waktu dengan '' @
        lit ''urutan generasi eksplisit; nomor token yang '' @
        lit ''monotonik naik memberikan jaminan '' @
        lit ''kausalitas yang kebal terhadap jeda sistem '' @ lit ''terdistribusi.'')),
    (''narrative_en'', PyStr (lit ''These three architectural principles '' @
        lit ''transcend this specific Go implementation. '' @
        lit ''First, recognize that time-bounded leases '' @
        lit ''merely provide timed mutual exclusion ideal '' @
        lit ''for efficiency optimization, never absolute '' @
        lit ''safety. Second, position the enforcement '' @
        lit ''gate at the shared resource layer because '' @
        lit ''paused clients remain fundamentally blind '' @
        lit ''to elapsed time. Third, replace fragile '' @
        lit ''temporal assumptions with explicit '' @
        lit ''generation numbers; strictly monotonic '' @
        lit ''tokens provide deterministic causal '' @
        lit ''ordering immune to distributed execution '' @ lit ''pauses.'')),
    (''mental_model'', PyStr (lit ''Time is subjective in distributed systems; '' @
        lit ''monotonic order at the resource is absolute '' @ lit ''truth.'')),
    (''source_path'', PyStr (lit ''labs/30-leader-election/content/05-key-takea'' @ lit ''ways.md'')),
    (''slide_num'', PyStr (lit ''23 / 24'')),
    (''layout'', PyStr (lit ''principles-list''))]\<rparr>\<close>

definition lab30_items_24 :: pyval where [lab30_contents]:
  \<open>lab30_items_24 =
   PyList
   [PyDict
     [(''title'', PyStr (lit ''KOMPONEN ARSITEKTUR LAB'')),
      (''items'', PyList
        [PyStr (lit ''internal/coordinator/coordinator.go '' @ [0x2014] @
            lit '' Linearizable lease & monotonic revision '' @ lit ''issuer''),
         PyStr (lit ''internal/candidate/candidate.go '' @ [0x2014] @
            lit '' Campaign runner, heartbeat renewal, & '' @ lit ''pause simulation''),
         PyStr (lit ''internal/storage/storage.go '' @ [0x2014] @
            lit '' Fenced storage gate with atomic '' @ lit ''check-and-set''),
         PyStr (lit ''tests/election_test.go '' @ [0x2014] @
            lit '' 4 comprehensive suites (concurrency, '' @ lit ''failover, rejection)''),
         PyStr (lit ''cmd/demo/main.go '' @ [0x2014] @
            lit '' Complete interactive lifecycle '' @ lit ''demonstration'')]),
      (''type'', PyStr (lit ''bullet''))],
    PyDict
     [(''title'', PyStr (lit ''VERIFIKASI & REPOSITORI'')),
      (''items'', PyList
        [PyStr (lit ''Commit SHA: '' @ str_prefix 8 lab30_COMMIT_SHA),
         PyStr (lit ''Unit Tests: 4/4 PASS (100% clean)''),
         PyStr (lit ''Race Detector: PASS (zero data race)''),
         PyStr (lit ''Repositori: '' @ lit ''github.com/lukman-ss/software-engineering-la'' @
            lit ''b/tree/main/labs/'' @ lab30_LAB_NO @ lit ''-'' @ lab30_SLUG)]),
      (''type'', PyStr (lit ''bullet''))]]\<close>

definition lab30_slide_24 :: pycall where [lab30_slides]:
  \<open>lab30_slide_24 =
   \<lparr>posargs = [],
  kwargs =
   [(''categories'', PyList
      [PyStr (lit ''CLOSING'')]),
    (''title'', PyStr (lit ''Otoritas Terdistribusi Terjaga, Split-Brain '' @ lit ''Dicegah.'')),
    (''subtitle'', PyStr []),
    (''content_items'', lab30_items_24),
    (''narrative'', PyStr (lit ''Laboratorium Leader Election dengan Fencing '' @
        lit ''Tokens ini membuktikan secara konkret bahwa '' @
        lit ''permasalahan klasik split-brain dan '' @
        lit ''penulisan data basi dapat diselesaikan '' @
        lit ''secara elegan tanpa infrastruktur yang '' @
        lit ''berbelit-belit. Melalui koordinasi lease '' @
        lit ''berbasis waktu yang dipadukan dengan '' @
        lit ''validasi token revisi monotonik naik di '' @
        lit ''lapisan resource bersama, sistem menjamin '' @
        lit ''konsistensi data mutlak bahkan saat node '' @
        lit ''mengalami stop-the-world GC pause yang '' @
        lit ''ekstrem. Seluruh kode sumber, dokumentasi '' @
        lit ''arsitektur, dan instruksi verifikasi '' @
        lit ''tersedia lengkap di repositori.'')),
    (''narrative_en'', PyStr (lit ''This Leader Election with Fencing Tokens '' @
        lit ''laboratory provides definitive proof that '' @
        lit ''classical split-brain hazards and stale '' @
        lit ''data overwrites can be eliminated cleanly '' @
        lit ''without excessive infrastructure '' @
        lit ''complexity. By harmonizing time-bounded '' @
        lit ''coordinator leases with monotonically '' @
        lit ''increasing revision tokens enforced at the '' @
        lit ''shared storage layer, the architecture '' @
        lit ''guarantees absolute data consistency even '' @
        lit ''under extreme stop-the-world pauses. '' @
        lit ''Complete source code, design '' @
        lit ''specifications, and test harnesses are '' @
        lit ''published in the repository.'')),
    (''mental_model'', PyStr (lit ''Lease TTL grants temporal leadership; '' @
        lit ''monotonic fencing tokens protect permanent '' @ lit ''storage.'')),
    (''source_path'', PyStr lab30_REPO_URL),
    (''slide_num'', PyStr (lit ''24 / 24'')),
    (''layout'', PyStr (lit ''closing-dark-navy''))]\<rparr>\<close>

definition lab30_calls :: "pycall list" where
  "lab30_calls =
    [lab30_slide_01, lab30_slide_02, lab30_slide_03, lab30_slide_04, lab30_slide_05,
     lab30_slide_06, lab30_slide_07, lab30_slide_08, lab30_slide_09, lab30_slide_10,
     lab30_slide_11, lab30_slide_12, lab30_slide_13, lab30_slide_14, lab30_slide_15,
     lab30_slide_16, lab30_slide_17, lab30_slide_18, lab30_slide_19, lab30_slide_20,
     lab30_slide_21, lab30_slide_22, lab30_slide_23, lab30_slide_24]"

definition lab30_deck :: deck where
  "lab30_deck =
    \<lparr>add_slide = lab30_add_slide, lab_no = lab30_LAB_NO, title_id = lab30_TITLE_ID, calls = lab30_calls\<rparr>"

section \<open>Checks of the calls\<close>

lemma lab30_shapes:
  "\<forall>c \<in> set lab30_calls. shape_of c \<in> set
    [(0, [''categories'', ''title'', ''subtitle'', ''content_items'', ''mental_model'',
      ''source_path'', ''slide_num'', ''narrative'', ''narrative_en'', ''layout'']),
     (0, [''categories'', ''title'', ''subtitle'', ''content_items'', ''narrative'',
      ''narrative_en'', ''mental_model'', ''source_path'', ''slide_num'', ''layout''])]"
  by (simp only: lab30_calls_def lab30_slides shape_eval cong: pyval_opaque)

lemma lab30_calls_ok: "\<forall>c \<in> set lab30_calls. call_ok sig_layout c"
  by (rule calls_ok_by_shapes [OF lab30_shapes])
    (simp add: shape_ok_def param_names_def signature_defs core_params_def)

lemma lab30_labels: "map (\<lambda>c. value_of sig_layout c ''slide_num'') lab30_calls = labels_24"
  by (simp only: lab30_calls_def lab30_slides keyword_eval labels_24_eval cong: pyval_opaque)

lemma lab30_contents_of:
  "map (\<lambda>c. value_of sig_layout c ''content_items'') lab30_calls =
    [lab30_items_01, lab30_items_02, lab30_items_03, lab30_items_04, lab30_items_05,
     lab30_items_06, lab30_items_07, lab30_items_08, lab30_items_09, lab30_items_10,
     lab30_items_11, lab30_items_12, lab30_items_13, lab30_items_14, lab30_items_15,
     lab30_items_16, lab30_items_17, lab30_items_18, lab30_items_19, lab30_items_20,
     lab30_items_21, lab30_items_22, lab30_items_23, lab30_items_24]"
  by (simp only: lab30_calls_def lab30_slides keyword_eval cong: pyval_opaque)

lemma lab30_items: "item_defects sig_layout lab30_calls = []"
  by (simp only: item_defects_def lab30_contents_of)
    (simp add: lab30_contents item_eval cong: pystr_opaque)

end
