(* ===== verification/Deck31.thy ===== *)
theory Deck31
  imports DeckContract
begin

text \<open>
  The publication definition of lab 31, \<^verbatim>\<open>labs/31-oauth2-and-oidc/result/content_def.py\<close>:
  its module constants, every \<open>add_slide\<close> call in order (\<open>lab31_slide_01\<close> is the first),
  and the module as a whole (\<open>lab31_deck\<close>). Long strings are split into pieces that are
  concatenated; a character outside ASCII is its code point.
\<close>

named_theorems lab31_slides \<open>the add_slide calls of lab 31\<close>
named_theorems lab31_contents \<open>their content_items arguments\<close>

definition lab31_OUTPUT_DIR :: pystr where
  \<open>lab31_OUTPUT_DIR = lit ''labs/31-oauth2-and-oidc/result''\<close>

definition lab31_CHROME_BIN :: pystr where
  \<open>lab31_CHROME_BIN = lit ''/Applications/Google '' @ lit ''Chrome.app/Contents/MacOS/Google Chrome''\<close>

definition lab31_REPO_URL :: pystr where
  \<open>lab31_REPO_URL = lit ''https://github.com/lukman-ss/software-engine'' @
    lit ''ering-lab/tree/main/labs/31-oauth2-and-oidc''\<close>

definition lab31_COMMIT_SHA :: pystr where
  \<open>lab31_COMMIT_SHA = lit ''dec7514f81d0f9a0c26c95cd892d8c2cc51e0f5f''\<close>

definition lab31_LAB_NO :: pystr where
  \<open>lab31_LAB_NO = lit ''31''\<close>

definition lab31_SLUG :: pystr where
  \<open>lab31_SLUG = lit ''oauth2-and-oidc''\<close>

definition lab31_TITLE_ID :: pystr where
  \<open>lab31_TITLE_ID = lit ''OAuth 2.0 & OpenID Connect (OIDC)''\<close>

definition lab31_SUBTITLE_ID :: pystr where
  \<open>lab31_SUBTITLE_ID = lit ''Autentikasi vs Otorisasi, Proteksi PKCE, '' @
    lit ''dan Deteksi Replay Rotasi Token''\<close>

definition lab31_TITLE_EN :: pystr where
  \<open>lab31_TITLE_EN = lit ''OAuth 2.0 & OpenID Connect (OIDC)''\<close>

definition lab31_SUBTITLE_EN :: pystr where
  \<open>lab31_SUBTITLE_EN = lit ''Authentication vs Authorization, PKCE '' @
    lit ''Protection, and Token Rotation Replay '' @ lit ''Detection''\<close>

definition lab31_AUTHOR :: pystr where
  \<open>lab31_AUTHOR = lit ''Lukman / lukman-ss''\<close>

definition lab31_COVER_IMAGE_PATH :: pystr where
  \<open>lab31_COVER_IMAGE_PATH = lit ''labs/31-oauth2-and-oidc/result/image-cover/c'' @ lit ''over_art.jpg''\<close>

definition lab31_DARK_NAVY :: pystr where
  \<open>lab31_DARK_NAVY = lit ''0b1b2d''\<close>

definition lab31_TEAL :: pystr where
  \<open>lab31_TEAL = lit ''087f76''\<close>

definition lab31_CREAM :: pystr where
  \<open>lab31_CREAM = lit ''f4f1e8''\<close>

definition lab31_WHITE :: pystr where
  \<open>lab31_WHITE = lit ''ffffff''\<close>

definition lab31_SLATE :: pystr where
  \<open>lab31_SLATE = lit ''52606b''\<close>

definition lab31_ORANGE :: pystr where
  \<open>lab31_ORANGE = lit ''d97706''\<close>

definition lab31_add_slide :: "pycall \<Rightarrow> pyval list \<Rightarrow> (pyexc, pyval list) res" where
  "lab31_add_slide = add_slide_layout"

definition lab31_items_01 :: pyval where [lab31_contents]:
  \<open>lab31_items_01 =
   PyList
   [PyDict
     [(''type'', PyStr (lit ''cover'')),
      (''title'', PyStr []),
      (''items'', PyList
        [PyStr (lit ''Visual Hero: Keamanan Protokol Identitas & '' @
            lit ''Otorisasi Web Terdistribusi''),
         PyStr (lit ''Mekanisme Inti: PKCE S256, ID Token '' @
            lit ''Cryptographic Verification, Refresh Token '' @ lit ''Rotation''),
         PyStr (lit ''Penulis: '' @ lab31_AUTHOR)])]]\<close>

definition lab31_slide_01 :: pycall where [lab31_slides]:
  \<open>lab31_slide_01 =
   \<lparr>posargs = [],
  kwargs =
   [(''categories'', PyList
      [PyStr (lit ''COVER'')]),
    (''title'', PyStr lab31_TITLE_ID),
    (''subtitle'', PyStr lab31_SUBTITLE_ID),
    (''content_items'', lab31_items_01),
    (''mental_model'', PyStr (lit ''OAuth grants delegated authority; OIDC '' @
        lit ''asserts verified identity; PKCE binds the '' @
        lit ''exchange; family rotation neutralizes '' @ lit ''replay.'')),
    (''source_path'', PyStr lab31_REPO_URL),
    (''slide_num'', PyStr (lit ''01 / 24'')),
    (''narrative'', PyStr (lit ''OAuth 2.0 dan OpenID Connect merupakan '' @
        lit ''fondasi keamanan identitas dan delegasi '' @
        lit ''wewenang pada arsitektur web modern. '' @
        lit ''Kesalahan paling fatal dalam sistem '' @
        lit ''terdistribusi adalah mencampuradukkan kartu '' @
        lit ''akses dengan kartu tanda pengenal, '' @
        lit ''mengekspos token via flow usang, atau '' @
        lit ''membiarkan refresh token statis dapat '' @
        lit ''direplay selamanya. Lab ini membuktikan '' @
        lit ''secara konkret implementasi murni Go untuk '' @
        lit ''Authorization Code Flow yang dilindungi '' @
        lit ''PKCE S256, verifikasi kriptografis ID Token '' @
        lit ''bertingkat, serta rotasi refresh token '' @
        lit ''otomatis dengan penarikan token family '' @
        lit ''seketika saat terdeteksi penyusupan.'')),
    (''narrative_en'', PyStr (lit ''OAuth 2.0 and OpenID Connect form the '' @
        lit ''bedrock of distributed identity and '' @
        lit ''delegated authorization in modern '' @
        lit ''architectures. The most critical failure in '' @
        lit ''production systems is confusing access '' @
        lit ''tokens with identity credentials, exposing '' @
        lit ''tokens through deprecated flows, or '' @
        lit ''permitting static refresh tokens to be '' @
        lit ''replayed indefinitely. This lab '' @
        lit ''demonstrates a pure Go implementation of '' @
        lit ''the Authorization Code Flow fortified with '' @
        lit ''PKCE S256, multi-step cryptographic ID '' @
        lit ''Token verification, and single-use refresh '' @
        lit ''token rotation backed by instantaneous '' @ lit ''family revocation.'')),
    (''layout'', PyStr (lit ''cover''))]\<rparr>\<close>

definition lab31_items_02 :: pyval where [lab31_contents]:
  \<open>lab31_items_02 =
   PyList
   [PyDict
     [(''title'', PyStr (lit ''PSEUDO-AUTHENTICATION'')),
      (''items'', PyList
        [PyStr (lit ''Access token diperlakukan keliru sebagai '' @
            lit ''bukti identitas pengguna oleh client '' @ lit ''aplikasi.''),
         PyStr (lit ''Access token tidak memuat informasi audiens '' @
            lit ''pemanggil, membuka celah confused deputy '' @ lit ''attack.''),
         PyStr (lit ''Client tidak mampu memvalidasi apakah '' @
            lit ''pengguna benar-benar hadir saat sesi '' @ lit ''diinisiasi.'')]),
      (''type'', PyStr (lit ''card''))],
    PyDict
     [(''title'', PyStr (lit ''CODE INTERCEPTION HAZARD'')),
      (''items'', PyList
        [PyStr (lit ''Pada public client (SPA/Mobile), '' @
            lit ''authorization code dikirim via browser '' @ lit ''redirect terbuka.''),
         PyStr (lit ''Aplikasi berbahaya di OS yang sama atau '' @
            lit ''malware browser dapat mencuri authorization '' @ lit ''code.''),
         PyStr (lit ''Tanpa cryptographic binding, penyerang '' @
            lit ''dapat menukar code curian menjadi token '' @ lit ''akses sah.'')]),
      (''type'', PyStr (lit ''card''))],
    PyDict
     [(''title'', PyStr (lit ''STATIC REFRESH REPLAY'')),
      (''items'', PyList
        [PyStr (lit ''Refresh token berumur panjang disimpan '' @
            lit ''statis tanpa mekanisme rotasi single-use.''),
         PyStr (lit ''Kebocoran token melalui XSS atau network '' @
            lit ''logging memberi akses persisten bagi '' @ lit ''penyerang.''),
         PyStr (lit ''Authorization server tidak memiliki cara '' @
            lit ''mendeteksi apakah token telah disusupi '' @ lit ''pihak ketiga.'')]),
      (''type'', PyStr (lit ''card''))]]\<close>

definition lab31_slide_02 :: pycall where [lab31_slides]:
  \<open>lab31_slide_02 =
   \<lparr>posargs = [],
  kwargs =
   [(''categories'', PyList
      [PyStr (lit ''MOTIVASI''),
       PyStr (lit ''SECURITY RISKS'')]),
    (''title'', PyStr (lit ''Masalah Nyata: Rapuhnya Identitas & Sesi Web'')),
    (''subtitle'', PyStr (lit ''Ketika protokol otorisasi disalahgunakan '' @
        lit ''sebagai autentikasi, celah keamanan fatal '' @ lit ''terbuka lebar.'')),
    (''content_items'', lab31_items_02),
    (''narrative'', PyStr (lit ''Dalam arsitektur terdistribusi nyata, '' @
        lit ''kebocoran sesi sering kali bukan '' @
        lit ''diakibatkan oleh kelemahan algoritma '' @
        lit ''enkripsi, melainkan kekeliruan desain alur '' @
        lit ''otorisasi. Banyak tim rekayasa perangkat '' @
        lit ''lunak menganggap access token OAuth 2.0 '' @
        lit ''dapat digunakan langsung untuk mengenali '' @
        lit ''identitas user, padahal token tersebut '' @
        lit ''dirancang khusus untuk resource server, '' @
        lit ''bukan client. Selain itu, authorization '' @
        lit ''code yang melintasi browser redirect pada '' @
        lit ''aplikasi mobile atau SPA sangat rentan '' @
        lit ''disadap jika tidak diproteksi oleh bukti '' @
        lit ''kepemilikan kriptografis seperti PKCE.'')),
    (''narrative_en'', PyStr (lit ''In production distributed architectures, '' @
        lit ''session breaches rarely stem from broken '' @
        lit ''cryptographic algorithms, but rather from '' @
        lit ''flawed authorization flows. Many '' @
        lit ''engineering teams mistakenly use OAuth 2.0 '' @
        lit ''access tokens to identify users, ignoring '' @
        lit ''that access tokens are scoped for resource '' @
        lit ''servers rather than clients. Furthermore, '' @
        lit ''authorization codes traversing browser '' @
        lit ''redirects on mobile or single-page '' @
        lit ''applications remain highly vulnerable to '' @
        lit ''interception unless anchored by '' @
        lit ''cryptographic proof-of-possession like PKCE.'')),
    (''mental_model'', PyStr (lit ''Access tokens prove resource permission; '' @
        lit ''only cryptographically signed ID tokens '' @ lit ''prove caller identity.'')),
    (''source_path'', PyStr (lit ''labs/31-oauth2-and-oidc/content/01-content-b'' @ lit ''rief.md'')),
    (''slide_num'', PyStr (lit ''02 / 24'')),
    (''layout'', PyStr (lit ''cards''))]\<rparr>\<close>

definition lab31_items_03 :: pyval where [lab31_contents]:
  \<open>lab31_items_03 =
   PyList
   [PyDict
     [(''title'', PyStr (lit ''KODE VALIDASI TOKEN NAIF'')),
      (''items'', PyList
        [PyStr (lit ''func HandleAuthNaive(rawJWT string) ('' @ lit ''*User, error) {''),
         PyStr (lit ''    // BAHAYA FATAL: Decode payload tanpa '' @
            lit ''verifikasi signature HMAC/RSA!''),
         PyStr (lit ''    parts := strings.Split(rawJWT, ".")''),
         PyStr (lit ''    claimsBytes, _ := '' @
            lit ''base64.RawURLEncoding.DecodeString(parts[1])''),
         PyStr (lit ''    var claims NaiveClaims''),
         PyStr (lit ''    json.Unmarshal(claimsBytes, &claims)''),
         PyStr (lit ''    // Tidak memeriksa iss, aud, exp, '' @
            lit ''maupun nonce anti-replay!''),
         PyStr (lit ''    return &User{ID: claims.Subject}, nil''),
         PyStr (lit ''}'')]),
      (''type'', PyStr (lit ''code''))],
    PyDict
     [(''title'', PyStr (lit ''KEGAGALAN FUNDAMENTAL PROTOKOL'')),
      (''items'', PyList
        [PyStr (lit ''Signature Bypassing: Penyerang bebas '' @
            lit ''memalsukan payload JSON dan menyamar '' @ lit ''sebagai admin siapapun.''),
         PyStr (lit ''Implicit Flow Flaw: Token terekspos di URL '' @
            lit ''fragment riwayat browser dan HTTP Referer '' @ lit ''headers.''),
         PyStr (lit ''Audience Confusion: Token sah dari Resource '' @
            lit ''Server A diterima mentah-mentah oleh '' @ lit ''Resource Server B.''),
         PyStr (lit ''Replay Attack: Token kedaluwarsa atau nonce '' @
            lit ''usang dapat digunakan berulang kali tanpa '' @ lit ''batas.'')]),
      (''type'', PyStr (lit ''bullet''))]]\<close>

definition lab31_slide_03 :: pycall where [lab31_slides]:
  \<open>lab31_slide_03 =
   \<lparr>posargs = [],
  kwargs =
   [(''categories'', PyList
      [PyStr (lit ''ANALISIS''),
       PyStr (lit ''PENDEKATAN NAIF'')]),
    (''title'', PyStr (lit ''Mengapa Pendekatan Naif & Implicit Flow '' @ lit ''Gagal?'')),
    (''subtitle'', PyStr (lit ''Melewatkan validasi claims JWT dan '' @
        lit ''mengandalkan implicit token fragment adalah '' @ lit ''bencana keamanan.'')),
    (''content_items'', lab31_items_03),
    (''narrative'', PyStr (lit ''Pendekatan naif kerap melakukan decode '' @
        lit ''base64 pada payload JWT tanpa memverifikasi '' @
        lit ''tanda tangan kriptografis dan claims '' @
        lit ''wajibnya. Kode semacam ini memungkinkan '' @
        lit ''penyerang membuat token palsu berisi '' @
        lit ''identitas sembarang dan langsung diterima '' @
        lit ''oleh sistem. Selain itu, penggunaan '' @
        lit ''Implicit Flow yang dahulu populer kini '' @
        lit ''telah resmi didepresiasi oleh RFC 9700 '' @
        lit ''karena mengekspos token secara telanjang '' @
        lit ''pada URL fragment dan history browser, '' @
        lit ''menjadikannya sasaran empuk serangan '' @ lit ''Cross-Site Scripting (XSS).'')),
    (''narrative_en'', PyStr (lit ''The naive approach frequently decodes '' @
        lit ''base64 JWT payloads directly without '' @
        lit ''validating the cryptographic signature or '' @
        lit ''mandatory claims. Such code allows an '' @
        lit ''attacker to forge arbitrary user claims and '' @
        lit ''instantly gain elevated privileges. '' @
        lit ''Moreover, the legacy Implicit Flow has been '' @
        lit ''formally deprecated by RFC 9700 because it '' @
        lit ''leaks access tokens directly in URL hash '' @
        lit ''fragments and browser histories, exposing '' @
        lit ''credentials to catastrophic cross-site '' @
        lit ''scripting (XSS) extraction.'')),
    (''mental_model'', PyStr (lit ''Unverified tokens are merely untrusted '' @
        lit ''JSON; cryptographic signature and claim '' @
        lit ''bounds establish integrity.'')),
    (''source_path'', PyStr (lit ''labs/31-oauth2-and-oidc/pkg/oidc/oidc.go:64-'' @ lit ''116'')),
    (''slide_num'', PyStr (lit ''03 / 24'')),
    (''layout'', PyStr (lit ''code-bullet''))]\<rparr>\<close>

definition lab31_items_04 :: pyval where [lab31_contents]:
  \<open>lab31_items_04 =
   PyList
   [PyDict
     [(''title'', PyStr (lit ''STRUKTUR DATA OIDC & SERVER METADATA'')),
      (''items'', PyList
        [PyStr (lit ''type IDTokenClaims struct {''),
         PyStr (lit ''    Issuer     string '' @ [96] @ lit ''json:"iss"'' @ [96] @
            lit ''  // OIDC Provider sah''),
         PyStr (lit ''    Subject    string '' @ [96] @ lit ''json:"sub"'' @ [96] @
            lit ''  // Identitas unik user''),
         PyStr (lit ''    Audience   string '' @ [96] @ lit ''json:"aud"'' @ [96] @
            lit ''  // Client ID target''),
         PyStr (lit ''    Expiration int64  '' @ [96] @ lit ''json:"exp"'' @ [96] @
            lit ''  // Waktu kedaluwarsa''),
         PyStr (lit ''    IssuedAt   int64  '' @ [96] @ lit ''json:"iat"'' @ [96] @
            lit ''  // Waktu terbit ('' @ [0xB1] @ lit ''5m)''),
         PyStr (lit ''    Nonce      string '' @ [96] @ lit ''json:"nonce"'' @ [96] @
            lit ''// Anti-replay challenge''),
         PyStr (lit ''}''),
         PyStr (lit ''type RefreshTokenMeta struct {''),
         PyStr (lit ''    FamilyID  string    // Silsilah sesi '' @ lit ''tunggal''),
         PyStr (lit ''    Revoked   bool      // Status '' @ lit ''single-use consumption''),
         PyStr (lit ''    ExpiresAt time.Time // Kedaluwarsa '' @ lit ''absolut (30 hari)''),
         PyStr (lit ''}'')]),
      (''type'', PyStr (lit ''code''))],
    PyDict
     [(''title'', PyStr (lit ''PRINSIP ARSITEKTUR KEMBAR'')),
      (''items'', PyList
        [PyStr (lit ''OAuth 2.0 Gate: Mengeluarkan access_token '' @
            lit ''opaque beraudience Resource Server untuk '' @ lit ''otorisasi scope.''),
         PyStr (lit ''OIDC Identity Gate: Mengeluarkan id_token '' @
            lit ''berformat JWT yang ditandatangani untuk '' @
            lit ''client display identitas.''),
         PyStr (lit ''Cryptographic Binding: Nonce mengikat token '' @
            lit ''ke browser session; PKCE mengikat '' @
            lit ''authorization code ke client runtime.''),
         PyStr (lit ''Lineage Invariant: Satu FamilyID '' @
            lit ''merepresentasikan satu rantai login aktif; '' @
            lit ''penggunaan token revoked mematikan seluruh '' @ lit ''keluarga.'')]),
      (''type'', PyStr (lit ''bullet''))]]\<close>

definition lab31_slide_04 :: pycall where [lab31_slides]:
  \<open>lab31_slide_04 =
   \<lparr>posargs = [],
  kwargs =
   [(''categories'', PyList
      [PyStr (lit ''MENTAL MODEL''),
       PyStr (lit ''SCHEMA'')]),
    (''title'', PyStr (lit ''Mental Model: Dual-Token Architecture & '' @ lit ''Family Lineage'')),
    (''subtitle'', PyStr (lit ''Memisahkan izin akses (Access Token) dari '' @
        lit ''kartu identitas (ID Token) dan silsilah '' @ lit ''refresh token.'')),
    (''content_items'', lab31_items_04),
    (''narrative'', PyStr (lit ''Mental model sistem ini bertumpu pada '' @
        lit ''pemisahan tanggung jawab secara tegas '' @
        lit ''antara otorisasi dan autentikasi. ID Token '' @
        lit ''claims mendefinisikan identitas '' @
        lit ''terverifikasi pengguna dengan enam '' @
        lit ''perimeter verifikasi wajib: penerbit (iss), '' @
        lit ''subjek (sub), penerima sah (aud), masa '' @
        lit ''berlaku (exp), jendela waktu terbit (iat), '' @
        lit ''dan tiket anti-replay (nonce). Di sisi '' @
        lit ''backend sesi, struktur RefreshTokenMeta '' @
        lit ''melacak lineage silsilah token melalui '' @
        lit ''FamilyID dan penanda status Revoked untuk '' @
        lit ''menjamin aturan konsumsi sekali pakai '' @ lit ''(single-use semantics).'')),
    (''narrative_en'', PyStr (lit ''The architectural mental model rests on a '' @
        lit ''rigorous separation of concerns between '' @
        lit ''authorization and authentication. ID Token '' @
        lit ''claims establish verified caller identity '' @
        lit ''bounded by six mandatory checkpoints: '' @
        lit ''issuer (iss), subject (sub), audience '' @
        lit ''(aud), expiration (exp), issuance window '' @
        lit ''(iat), and anti-replay nonce. Concurrently, '' @
        lit ''RefreshTokenMeta tracks session lineage via '' @
        lit ''a unique FamilyID alongside a Revoked state '' @
        lit ''flag to enforce strict single-use semantics '' @
        lit ''across refresh token rotations.'')),
    (''mental_model'', PyStr (lit ''Access tokens unlock APIs; ID tokens prove '' @
        lit ''identity; Family IDs trace stolen token '' @ lit ''lineage.'')),
    (''source_path'', PyStr (lit ''pkg/oidc/oidc.go:29-38 '' @ [0x2022] @ lit '' pkg/server/server.go:39-46'')),
    (''slide_num'', PyStr (lit ''04 / 24'')),
    (''layout'', PyStr (lit ''schema-card''))]\<rparr>\<close>

definition lab31_items_05 :: pyval where [lab31_contents]:
  \<open>lab31_items_05 =
   PyList
   [PyDict
     [(''title'', PyStr (lit ''SEKUENSI PIPELINE IDENTITAS & OTORISASI'')),
      (''items'', PyList
        [PyStr (lit ''1. Client.BuildAuthorizationRequest() '' @ [0x2192] @
            lit '' Hitung S256(verifier) = challenge & '' @ lit ''generate nonce acak.''),
         PyStr (lit ''2. Client '' @ [0x2192] @
            lit '' AS: GET /authorize?response_type=code&code_'' @
            lit ''challenge=...&nonce=...&scope=openid profile''),
         PyStr (lit ''3. AS.Authorize() '' @ [0x2192] @
            lit '' Verifikasi client & redirect URI, simpan '' @
            lit ''challenge & nonce, terbitkan AuthCode (TTL '' @ lit ''5m).''),
         PyStr (lit ''4. Client '' @ [0x2192] @ lit '' AS: POST /token '' @
            lit ''grant_type=authorization_code&code=...&code_'' @ lit ''verifier=...''),
         PyStr (lit ''5. AS.ExchangeCode() '' @ [0x2192] @
            lit '' Validasi SHA256(code_verifier) == '' @
            lit ''challenge. Tandai code used = true.''),
         PyStr (lit ''6. AS Menerbitkan: AccessToken (opaque), '' @
            lit ''IDToken (JWT HS256 bertanda tangan), & '' @
            lit ''RefreshToken (FamilyID).''),
         PyStr (lit ''7. Client.ParseAndVerifyIDToken() '' @ [0x2192] @
            lit '' Verifikasi signature HMAC, iss, aud, exp, '' @ lit ''dan nonce match.''),
         PyStr (lit ''8. Client.RefreshTokens() '' @ [0x2192] @
            lit '' AS rotasi: tandai RT lama Revoked=true, '' @
            lit ''terbitkan pasangan baru dalam FamilyID sama.'')]),
      (''type'', PyStr (lit ''diagram''))]]\<close>

definition lab31_slide_05 :: pycall where [lab31_slides]:
  \<open>lab31_slide_05 =
   \<lparr>posargs = [],
  kwargs =
   [(''categories'', PyList
      [PyStr (lit ''ARSITEKTUR''),
       PyStr (lit ''PIPELINE'')]),
    (''title'', PyStr (lit ''Pipeline End-to-End: PKCE, Token Minting, & '' @ lit ''Rotation'')),
    (''subtitle'', PyStr (lit ''Alur sekuensial lengkap: Auth Request '' @ [0x2192] @
        lit '' Code Issuance '' @ [0x2192] @ lit '' Exchange '' @ [0x2192] @
        lit '' ID Verify '' @ [0x2192] @ lit '' Rotated Refresh.'')),
    (''content_items'', lab31_items_05),
    (''narrative'', PyStr (lit ''Pipeline otorisasi dan identitas ini '' @
        lit ''memperlihatkan interaksi end-to-end antara '' @
        lit ''Client, Authorization Server, dan Resource '' @
        lit ''Server. Pada tahap 1 hingga 3, client '' @
        lit ''menyiapkan proteksi PKCE S256 dan nonce '' @
        lit ''sebelum meminta authorization code yang '' @
        lit ''berumur pendek (5 menit). Pada tahap 4 '' @
        lit ''hingga 6, client menukar authorization code '' @
        lit ''dengan menyertakan bukti kepemilikan '' @
        lit ''code_verifier asli, memungkinkan server '' @
        lit ''menerbitkan access token, ID token '' @
        lit ''terenkripsi, dan refresh token berkategori '' @
        lit ''family. Tahap akhir memverifikasi '' @
        lit ''integritas ID token serta merotasi refresh '' @ lit ''token secara aman.'')),
    (''narrative_en'', PyStr (lit ''This end-to-end identity and authorization '' @
        lit ''pipeline maps the sequential interactions '' @
        lit ''between Client, Authorization Server, and '' @
        lit ''Resource Server. During stages 1 through 3, '' @
        lit ''the client establishes PKCE S256 parameters '' @
        lit ''and a session nonce to obtain a short-lived '' @
        lit ''authorization code. In stages 4 through 6, '' @
        lit ''the client exchanges the code by supplying '' @
        lit ''the unhashed code_verifier proof, prompting '' @
        lit ''the server to issue access tokens, signed '' @
        lit ''ID tokens, and a family-tracked refresh '' @
        lit ''token. Subsequent stages verify claims and '' @ lit ''rotate tokens cleanly.'')),
    (''mental_model'', PyStr (lit ''Challenge in front-channel; verifier in '' @
        lit ''back-channel; token rotation in ongoing '' @ lit ''sessions.'')),
    (''source_path'', PyStr (lit ''pkg/client/client.go:36-86 '' @ [0x2022] @
        lit '' pkg/server/server.go:92-217'')),
    (''slide_num'', PyStr (lit ''05 / 24'')),
    (''layout'', PyStr (lit ''pipeline-diagram''))]\<rparr>\<close>

definition lab31_items_06 :: pyval where [lab31_contents]:
  \<open>lab31_items_06 =
   PyList
   [PyDict
     [(''title'', PyStr (lit ''REFRESH TOKEN REPLAY DEFENSE'')),
      (''items'', PyList
        [PyStr (lit ''if s.revokedFams[meta.FamilyID] {''),
         PyStr (lit ''    return nil, ErrTokenReplayDetected // '' @
            lit ''Keluarga sudah terkompromi''),
         PyStr (lit ''}''),
         PyStr (lit ''if meta.Revoked {''),
         PyStr (lit ''    // REPLAY TERDETEKSI: Penyerang '' @
            lit ''menggunakan token yang sudah dirotasi!''),
         PyStr (lit ''    s.revokedFams[meta.FamilyID] = true // '' @
            lit ''Cabut seluruh sesi aktif''),
         PyStr (lit ''    return nil, ErrTokenReplayDetected''),
         PyStr (lit ''}''),
         PyStr (lit ''meta.Revoked = true // Tandai token saat '' @ lit ''ini sebagai terpakai''),
         PyStr (lit ''// Terbitkan refresh token baru dengan '' @ lit ''FamilyID yang sama...'')]),
      (''type'', PyStr (lit ''code''))]]\<close>

definition lab31_slide_06 :: pycall where [lab31_slides]:
  \<open>lab31_slide_06 =
   \<lparr>posargs = [],
  kwargs =
   [(''categories'', PyList
      [PyStr (lit ''IMPLEMENTASI''),
       PyStr (lit ''CODE'')]),
    (''title'', PyStr (lit ''Implementasi Inti: Refresh Token Rotation & '' @ lit ''Family Revocation'')),
    (''subtitle'', PyStr (lit ''Pendeteksian replay otomatis pada '' @
        lit ''server.go: penggunaan token basi '' @ lit ''membatalkan seluruh keluarga.'')),
    (''content_items'', lab31_items_06),
    (''narrative'', PyStr (lit ''Potongan kode ini merupakan benteng '' @
        lit ''pertahanan utama terhadap serangan replay '' @
        lit ''refresh token pada pkg/server/server.go. '' @
        lit ''Setiap kali klien meminta pembaruan token, '' @
        lit ''server memeriksa apakah token tersebut '' @
        lit ''sudah pernah digunakan sebelumnya melalui '' @
        lit ''flag meta.Revoked. Jika token yang sudah '' @
        lit ''berstatus revoked dipresentasikan kembali, '' @
        lit ''sistem menyimpulkan bahwa token tersebut '' @
        lit ''telah dicuri dan sedang direplay oleh pihak '' @
        lit ''jahat. Server seketika memasukkan '' @
        lit ''meta.FamilyID ke dalam daftar hitam '' @
        lit ''revokedFams, membatalkan seluruh sesi login '' @ lit ''terkait.'')),
    (''narrative_en'', PyStr (lit ''This core snippet forms the primary defense '' @
        lit ''against refresh token replay attacks inside '' @
        lit ''pkg/server/server.go. Whenever a client '' @
        lit ''presents a refresh token, the server '' @
        lit ''verifies whether the token was previously '' @
        lit ''consumed via the meta.Revoked flag. If an '' @
        lit ''already-revoked token is submitted, the '' @
        lit ''server infers that the credential was '' @
        lit ''stolen and is currently being replayed by '' @
        lit ''an adversary. It immediately adds the '' @
        lit ''meta.FamilyID to the revokedFams blacklist, '' @
        lit ''terminating all associated active sessions.'')),
    (''mental_model'', PyStr (lit ''Replay of a consumed token is proof of '' @
        lit ''theft; revoke the entire family immediately.'')),
    (''source_path'', PyStr (lit ''labs/31-oauth2-and-oidc/pkg/server/server.go'' @ lit '':228-250'')),
    (''slide_num'', PyStr (lit ''06 / 24'')),
    (''layout'', PyStr (lit ''code-dominant''))]\<rparr>\<close>

definition lab31_items_07 :: pyval where [lab31_contents]:
  \<open>lab31_items_07 =
   PyList
   [PyDict
     [(''title'', PyStr (lit ''TERMINAL ATTACK MITIGATION LOG'')),
      (''items'', PyList
        [PyStr (lit ''[Step 6] Test Interception Attack (Attempt '' @
            lit ''code exchange with wrong verifier)...''),
         PyStr (lit ''Interception Attack Blocked! Error: pkce '' @
            lit ''verification failed: code_verifier does not '' @
            lit ''match code_challenge''),
         PyStr (lit ''[Step 7] Test Refresh Token Rotation...''),
         PyStr (lit ''Rotated New Access Token : '' @
            lit ''at_8c8facd2a7dce0b35b74243d16172970a30c4e94f'' @ lit ''05853bd''),
         PyStr (lit ''Rotated New Refresh Token: '' @
            lit ''rt_a0aafd72efbf3ffb2f3cfafeacf71cf4d4e650317'' @ lit ''0fee590''),
         PyStr (lit ''[Step 8] Test Refresh Token Replay '' @
            lit ''Detection (Attacker reuses stolen Refresh '' @ lit ''Token)...''),
         PyStr (lit ''Refresh Token Replay Detected! Error: '' @
            lit ''refresh token reuse detected: entire token '' @ lit ''family revoked''),
         PyStr (lit ''Re-testing active refresh token after '' @ lit ''family revocation...''),
         PyStr (lit ''Active session revoked due to family '' @
            lit ''revocation! Error: refresh token reuse '' @
            lit ''detected: entire token family revoked'')]),
      (''type'', PyStr (lit ''terminal''))],
    PyDict
     [(''title'', PyStr (lit ''ANALISIS KEGAGALAN SERANGAN'')),
      (''items'', PyList
        [PyStr (lit ''Langkah 6 membuktikan pencurian auth code '' @
            lit ''sia-sia tanpa code_verifier asli dari '' @ lit ''client.''),
         PyStr (lit ''Langkah 8 mendeteksi penyerang yang '' @
            lit ''mengeksekusi replay menggunakan token '' @
            lit ''rt_c62478... yang telah usang.''),
         PyStr (lit ''Mitigasi Reaktif: Klien sah yang memegang '' @
            lit ''token rt_a0aafd... juga ditolak, memaksa '' @
            lit ''user login ulang secara aman.'')]),
      (''type'', PyStr (lit ''bullet''))]]\<close>

definition lab31_slide_07 :: pycall where [lab31_slides]:
  \<open>lab31_slide_07 =
   \<lparr>posargs = [],
  kwargs =
   [(''categories'', PyList
      [PyStr (lit ''FAILURE PATH''),
       PyStr (lit ''BUKTI'')]),
    (''title'', PyStr (lit ''Failure Path: Penolakan Intersepsi & Replay '' @ lit ''Serangan'')),
    (''subtitle'', PyStr (lit ''Log terminal membuktikan mitigasi penyerang '' @
        lit ''dengan verifier salah dan replay token '' @ lit ''curian.'')),
    (''content_items'', lab31_items_07),
    (''narrative'', PyStr (lit ''Failure path konkret ini diambil langsung '' @
        lit ''dari hasil eksekusi program demo lab '' @
        lit ''cmd/demo/main.go. Pada Langkah 6, penyerang '' @
        lit ''yang berhasil menyadap authorization code '' @
        lit ''mencoba menukarnya menggunakan verifier '' @
        lit ''palsu, namun server menolak transaksi '' @
        lit ''secara mutlak dengan error ketidakcocokan '' @
        lit ''PKCE. Pada Langkah 8, penyerang mencoba '' @
        lit ''menggunakan refresh token usang yang telah '' @
        lit ''dirotasi pada Langkah 7. Server mendeteksi '' @
        lit ''upaya replay ini, menandai keluarga token '' @
        lit ''sebagai terkompromi, dan membatalkan '' @
        lit ''seluruh sesi termasuk token sah milik '' @ lit ''korban.'')),
    (''narrative_en'', PyStr (lit ''This concrete failure path is extracted '' @
        lit ''directly from the demo run in '' @
        lit ''cmd/demo/main.go. In Step 6, an attacker '' @
        lit ''who intercepted the authorization code '' @
        lit ''attempts an exchange using a bogus '' @
        lit ''code_verifier, but the server rejects the '' @
        lit ''request due to PKCE challenge mismatch. In '' @
        lit ''Step 8, the attacker replays the consumed '' @
        lit ''refresh token from Step 7. The server '' @
        lit ''instantly detects the replay, marks the '' @
        lit ''entire token family as compromised, and '' @
        lit ''invalidates all session tokens, forcing a '' @
        lit ''clean re-authentication.'')),
    (''mental_model'', PyStr (lit ''Cryptographic binding blocks intercepted '' @
        lit ''codes; family revocation neutralizes '' @ lit ''compromised refresh tokens.'')),
    (''source_path'', PyStr (lit ''cmd/demo/main.go:70-109 '' @ [0x2022] @
        lit '' engineering/03-execution-result.md:98-109'')),
    (''slide_num'', PyStr (lit ''07 / 24'')),
    (''layout'', PyStr (lit ''failure-path''))]\<rparr>\<close>

definition lab31_items_08 :: pyval where [lab31_contents]:
  \<open>lab31_items_08 =
   PyList
   [PyDict
     [(''title'', PyStr (lit ''TABEL EVALUASI MEKANISME KEAMANAN'')),
      (''items'', PyList
        [PyStr (lit ''Mekanisme | Peran Primer | Celah Kegagalan '' @
            lit ''/ Vektor Serangan | Ketahanan Produksi''),
         PyStr (lit ''OAuth 2.0 Murni | Otorisasi Akses API | '' @
            lit ''Token ditukar sebagai identitas; no '' @
            lit ''identity claims | Rentan (Confused Deputy)''),
         PyStr (lit ''Implicit Flow (Legacy) | Otorisasi SPA '' @
            lit ''Langsung | Token bocor via URL history & '' @
            lit ''referer header | Tidak Aman (RFC 9700 '' @ lit ''Deprecated)''),
         PyStr (lit ''OIDC ID Token | Autentikasi Pengguna | '' @
            lit ''Skipping aud/iss/nonce verification | Aman '' @
            lit ''jika divalidasi ketat''),
         PyStr (lit ''PKCE (RFC 7636) | Code Exchange Binding | '' @
            lit ''Menggunakan metode '' @ [39] @ lit ''plain'' @ [39] @
            lit '' alih-alih S256 | Aman Mutlak (S256 '' @ lit ''Mandatory)''),
         PyStr (lit ''Refresh Rotation | Sesi Berkelanjutan | '' @
            lit ''Static token replay tanpa pelacakan family '' @
            lit ''| Aman Mutlak (dengan Family Revocation)'')]),
      (''type'', PyStr (lit ''table''))]]\<close>

definition lab31_slide_08 :: pycall where [lab31_slides]:
  \<open>lab31_slide_08 =
   \<lparr>posargs = [],
  kwargs =
   [(''categories'', PyList
      [PyStr (lit ''PERBANDINGAN''),
       PyStr (lit ''MEKANISME'')]),
    (''title'', PyStr (lit ''Mekanisme vs Gejala: Evaluasi Solusi '' @ lit ''Autentikasi & Otorisasi'')),
    (''subtitle'', PyStr (lit ''Mengapa solusi parsial tetap menyisakan '' @
        lit ''celah keamanan kritis pada sistem web '' @ lit ''modern.'')),
    (''content_items'', lab31_items_08),
    (''narrative'', PyStr (lit ''Tabel ini mengevaluasi berbagai mekanisme '' @
        lit ''otorisasi dan autentikasi dalam menghadapi '' @
        lit ''berbagai vektor ancaman dunia nyata. '' @
        lit ''Menggunakan OAuth 2.0 murni tanpa OIDC '' @
        lit ''untuk login pengguna menimbulkan kerentanan '' @
        lit ''fatal karena access token tidak dirancang '' @
        lit ''untuk memverifikasi audiens pemanggil. '' @
        lit ''Implicit flow kini resmi dilarang oleh '' @
        lit ''standar IETF RFC 9700 karena tingginya '' @
        lit ''risiko kebocoran kredensial di URL browser. '' @
        lit ''Hanya kombinasi terpadu antara OIDC, PKCE '' @
        lit ''S256, dan Refresh Token Rotation dengan '' @
        lit ''Family Revocation yang memberikan '' @ lit ''perlindungan komprehensif.'')),
    (''narrative_en'', PyStr (lit ''This table evaluates multiple authorization '' @
        lit ''and authentication mechanisms against '' @
        lit ''modern attack vectors. Relying solely on '' @
        lit ''raw OAuth 2.0 for user sign-in creates '' @
        lit ''severe vulnerabilities because access '' @
        lit ''tokens lack caller audience constraints. '' @
        lit ''The legacy Implicit Flow is formally banned '' @
        lit ''by IETF RFC 9700 due to severe token '' @
        lit ''leakage risks via browser history. Only an '' @
        lit ''integrated combination of OIDC, PKCE S256, '' @
        lit ''and Refresh Token Rotation with Token '' @
        lit ''Family Revocation offers comprehensive '' @ lit ''defense.'')),
    (''mental_model'', PyStr (lit ''Partial protocols leave gaping security '' @
        lit ''holes; defense-in-depth requires layered '' @ lit ''standard mechanisms.'')),
    (''source_path'', PyStr (lit ''labs/31-oauth2-and-oidc/content/02-master-dr'' @ lit ''aft.md:9-36'')),
    (''slide_num'', PyStr (lit ''08 / 24'')),
    (''layout'', PyStr (lit ''comparison-table''))]\<rparr>\<close>

definition lab31_items_09 :: pyval where [lab31_contents]:
  \<open>lab31_items_09 =
   PyList
   [PyDict
     [(''title'', PyStr (lit ''1. MANDATORY PKCE S256'')),
      (''items'', PyList
        [PyStr (lit ''Wajibkan parameter code_challenge dan '' @
            lit ''code_challenge_method=S256 pada endpoint '' @ lit ''/authorize.''),
         PyStr (lit ''Tolak metode '' @ [39] @ lit ''plain'' @ [39] @
            lit '' untuk semua client publik demi integritas '' @
            lit ''cryptographic hash.''),
         PyStr (lit ''Client wajib mengenerate code_verifier '' @
            lit ''dengan entropi tinggi (32 byte acak / '' @ lit ''43-128 karakter).'')]),
      (''type'', PyStr (lit ''card''))],
    PyDict
     [(''title'', PyStr (lit ''2. MULTI-STEP ID TOKEN VERIFICATION'')),
      (''items'', PyList
        [PyStr (lit ''Client wajib memverifikasi cryptographic '' @
            lit ''signature (HMAC/RSA) sebelum memproses '' @ lit ''claims.''),
         PyStr (lit ''Periksa kecocokan exact match issuer (iss), '' @
            lit ''client ID audience (aud), dan expiration '' @ lit ''(exp).''),
         PyStr (lit ''Cocokkan parameter nonce dengan nonce acak '' @
            lit ''yang disimpan di sesi klien awal.'')]),
      (''type'', PyStr (lit ''card''))],
    PyDict
     [(''title'', PyStr (lit ''3. TOKEN ROTATION & FAMILY REVOCATION'')),
      (''items'', PyList
        [PyStr (lit ''Perlakukan setiap refresh token sebagai '' @
            lit ''single-use credential; terbitkan token baru '' @ lit ''setiap refresh.''),
         PyStr (lit ''Tautkan token dalam satu silsilah FamilyID '' @
            lit ''untuk mendeteksi penggunaan ulang token '' @ lit ''kedaluwarsa.''),
         PyStr (lit ''Jika replay terdeteksi, hapus seketika '' @
            lit ''seluruh sesi dalam family tersebut dan '' @ lit ''paksa re-login.'')]),
      (''type'', PyStr (lit ''card''))]]\<close>

definition lab31_slide_09 :: pycall where [lab31_slides]:
  \<open>lab31_slide_09 =
   \<lparr>posargs = [],
  kwargs =
   [(''categories'', PyList
      [PyStr (lit ''DESIGN DECISION''),
       PyStr (lit ''ARSITEKTUR'')]),
    (''title'', PyStr (lit ''3 Keputusan Desain Kritis Arsitektur '' @ lit ''Identitas'')),
    (''subtitle'', PyStr (lit ''Urutan keputusan arsitektur untuk membangun '' @
        lit ''otorisasi web yang kebal sadap dan replay.'')),
    (''content_items'', lab31_items_09),
    (''narrative'', PyStr (lit ''Tiga keputusan arsitektural ini memastikan '' @
        lit ''implementasi OAuth 2.0 dan OIDC memenuhi '' @
        lit ''standar ketat IETF RFC 9700. Pertama, PKCE '' @
        lit ''metode S256 diwajibkan tanpa kompromi untuk '' @
        lit ''seluruh jenis client guna memastikan '' @
        lit ''authorization code tidak dapat '' @
        lit ''dieksploitasi meski berhasil disadap di '' @
        lit ''jaringan publik. Kedua, verifikasi ID Token '' @
        lit ''tidak boleh hanya membaca JSON, melainkan '' @
        lit ''wajib mengevaluasi tanda tangan digital dan '' @
        lit ''parameter nonce anti-replay. Ketiga, rotasi '' @
        lit ''refresh token wajib didukung oleh pelacakan '' @
        lit ''FamilyID untuk mematikan sesi penyerang '' @ lit ''seketika.'')),
    (''narrative_en'', PyStr (lit ''These three architectural decisions ensure '' @
        lit ''OAuth 2.0 and OIDC implementations satisfy '' @
        lit ''rigorous IETF RFC 9700 standards. First, '' @
        lit ''PKCE S256 is enforced unconditionally '' @
        lit ''across all clients to ensure intercepted '' @
        lit ''authorization codes cannot be redeemed. '' @
        lit ''Second, ID Token validation must '' @
        lit ''cryptographically verify digital signatures '' @
        lit ''alongside strict issuer, audience, and '' @
        lit ''nonce constraints. Third, refresh token '' @
        lit ''rotation must maintain FamilyID lineage '' @
        lit ''tracking to trigger immediate session '' @
        lit ''revocation upon replay detection.'')),
    (''mental_model'', PyStr (lit ''Hash the verifier with S256; verify all '' @
        lit ''token claims strictly; treat refresh tokens '' @
        lit ''as single-use consumables.'')),
    (''source_path'', PyStr (lit ''labs/31-oauth2-and-oidc/content/05-key-takea'' @ lit ''ways.md'')),
    (''slide_num'', PyStr (lit ''09 / 24'')),
    (''layout'', PyStr (lit ''decision-cards''))]\<rparr>\<close>

definition lab31_items_10 :: pyval where [lab31_contents]:
  \<open>lab31_items_10 =
   PyList
   [PyDict
     [(''title'', PyStr (lit ''DEMO EXECUTION TRACE'')),
      (''items'', PyList
        [PyStr (lit ''=== LAB 31: OAuth 2.0 & OpenID Connect '' @ lit ''(OIDC) Demo ===''),
         PyStr (lit ''[Step 1] Initiate Authorization Request '' @
            lit ''with PKCE & OIDC scope...''),
         PyStr (lit '' Generated PKCE code_challenge (S256): '' @
            lit ''dbNVgXttw5HU018kaBwk3JusvwqMVanN4c4ghBsH88w''),
         PyStr (lit '' Generated OIDC nonce: '' @ lit ''2152fa0c9254b322d11b27dba96b99de''),
         PyStr (lit ''[Step 2] Authorization Server issues '' @ lit ''Authorization Code...''),
         PyStr (lit '' Issued Code: '' @ lit ''5fabbdcdb6bbd582c3811481395a5161 (expires: '' @
            lit ''15:31:47)''),
         PyStr (lit ''[Step 3] Client exchanges Code + '' @ lit ''code_verifier for Tokens...''),
         PyStr (lit '' Access Token : '' @
            lit ''at_4e8dd945eaf2aed814aaf9717a7ee6bab364db091'' @ lit ''4917bb2''),
         PyStr (lit '' Refresh Token: '' @
            lit ''rt_c624781adb52c6effa11d85bbe24fccf7f73eb20f'' @ lit ''eeaf928''),
         PyStr (lit '' ID Token     : '' @ lit ''eyJhbGciOiJIUzI1NiIsInR5cCI6Ik...''),
         PyStr (lit ''[Step 4] Validate OIDC ID Token claims... '' @
            lit ''Subject: user_alice_99 | Nonce Match: '' @ lit ''SUCCESS''),
         PyStr (lit ''[Step 5] Access Resource Server using '' @
            lit ''Access Token... Resource verified. Subject: '' @ lit ''user_alice_99''),
         PyStr (lit ''[Step 6] Test Interception Attack... '' @
            lit ''Interception Attack Blocked! Error: pkce '' @ lit ''verification failed''),
         PyStr (lit ''[Step 7] Test Refresh Token Rotation... '' @ lit ''Rotated New RT: '' @
            lit ''rt_a0aafd72efbf3ffb2f3cfafeacf71cf4...''),
         PyStr (lit ''[Step 8] Test Refresh Token Replay '' @
            lit ''Detection... Replay Detected! Error: entire '' @
            lit ''token family revoked''),
         PyStr (lit ''=== Demo Completed Successfully ==='')]),
      (''type'', PyStr (lit ''terminal''))]]\<close>

definition lab31_slide_10 :: pycall where [lab31_slides]:
  \<open>lab31_slide_10 =
   \<lparr>posargs = [],
  kwargs =
   [(''categories'', PyList
      [PyStr (lit ''BUKTI''),
       PyStr (lit ''DEMO'')]),
    (''title'', PyStr (lit ''Bukti Eksekusi: Siklus Lengkap OIDC, PKCE, '' @ lit ''& Replay Defense'')),
    (''subtitle'', PyStr (lit ''Output langsung dari go run ./cmd/demo '' @
        lit ''memperlihatkan keberhasilan flow normal dan '' @ lit ''mitigasi serangan.'')),
    (''content_items'', lab31_items_10),
    (''narrative'', PyStr (lit ''Bukti eksekusi terminal membuktikan bahwa '' @
        lit ''seluruh siklus autentikasi dan otorisasi '' @
        lit ''berjalan mulus tanpa celah keamanan. '' @
        lit ''Langkah 1 hingga 5 menunjukkan pembuatan '' @
        lit ''tantangan PKCE S256, penerbitan '' @
        lit ''authorization code, penukaran token yang '' @
        lit ''sah, verifikasi klaim ID Token, hingga '' @
        lit ''akses ke resource server dengan scope yang '' @
        lit ''sesuai. Langkah 6 hingga 8 memperlihatkan '' @
        lit ''simulasi serangan nyata di mana upaya '' @
        lit ''pertukaran kode oleh penyerang digagalkan '' @
        lit ''oleh PKCE, dan upaya penggunaan ulang '' @
        lit ''refresh token curian langsung memicu '' @
        lit ''pemblokiran seluruh keluarga sesi.'')),
    (''narrative_en'', PyStr (lit ''The terminal execution trace verifies that '' @
        lit ''the full authentication and authorization '' @
        lit ''lifecycle functions flawlessly. Steps 1 '' @
        lit ''through 5 demonstrate PKCE S256 challenge '' @
        lit ''generation, code issuance, legitimate token '' @
        lit ''exchange, ID Token claim verification, and '' @
        lit ''authorized resource access. Steps 6 through '' @
        lit ''8 execute active attack simulations where '' @
        lit ''code interception is neutralized by PKCE '' @
        lit ''and stolen refresh token replays '' @
        lit ''immediately trigger complete token family '' @ lit ''revocation.'')),
    (''mental_model'', PyStr (lit ''Terminal logs verify the dual guarantee: '' @
        lit ''legitimate traffic succeeds seamlessly; '' @
        lit ''unauthorized replays fail loudly.'')),
    (''source_path'', PyStr (lit ''cmd/demo/main.go:1-112 '' @ [0x2022] @
        lit '' engineering/03-execution-result.md:74-111'')),
    (''slide_num'', PyStr (lit ''10 / 24'')),
    (''layout'', PyStr (lit ''terminal-output''))]\<rparr>\<close>

definition lab31_items_11 :: pyval where [lab31_contents]:
  \<open>lab31_items_11 =
   PyList
   [PyDict
     [(''title'', PyStr (lit ''YANG TIDAK DIBUKTIKAN'')),
      (''items'', PyList
        [PyStr (lit ''Penyimpanan token dan code bersifat '' @
            lit ''in-memory; tidak menguji persistensi '' @
            lit ''distributed database (Redis/PostgreSQL).''),
         PyStr (lit ''Menggunakan penandatanganan simetris '' @
            lit ''HMAC-SHA256 (HS256); tidak menguji '' @
            lit ''asimetris RS256/ES256 via JWKS endpoint.''),
         PyStr (lit ''Validasi string equality pada PKCE tidak '' @
            lit ''menggunakan constant-time compare '' @
            lit ''(crypto/subtle.ConstantTimeCompare).''),
         PyStr (lit ''Tidak mencakup form login UI/HTML, '' @
            lit ''multi-factor authentication (MFA), atau '' @ lit ''user consent dialog.''),
         PyStr (lit ''Tidak menguji flow yang telah didepresiasi '' @
            lit ''seperti Implicit Grant atau Resource Owner '' @
            lit ''Password Credentials (ROPC).''),
         PyStr (lit ''Tidak membuktikan mekanisme token-binding '' @
            lit ''tingkat transport seperti DPoP (RFC 9449) '' @
            lit ''atau mTLS (RFC 8705).'')]),
      (''type'', PyStr (lit ''bullet''))]]\<close>

definition lab31_slide_11 :: pycall where [lab31_slides]:
  \<open>lab31_slide_11 =
   \<lparr>posargs = [],
  kwargs =
   [(''categories'', PyList
      [PyStr (lit ''BATASAN''),
       PyStr (lit ''ANALISIS'')]),
    (''title'', PyStr (lit ''YANG TIDAK DIBUKTIKAN'')),
    (''subtitle'', PyStr (lit ''Batasan ruang lingkup laboratorium yang '' @
        lit ''wajib dipahami sebelum implementasi '' @ lit ''produksi.'')),
    (''content_items'', lab31_items_11),
    (''narrative'', PyStr (lit ''Klaim teknis dalam laboratorium ini '' @
        lit ''dibatasi secara tegas oleh parameter '' @
        lit ''lingkungan pengujian yang dirancang mandiri '' @
        lit ''(self-contained). Authorization server '' @
        lit ''menyimpan state di dalam memori proses '' @
        lit ''tunggal tanpa integrasi database '' @
        lit ''terdistribusi seperti Redis kluster. '' @
        lit ''Penandatanganan ID Token menggunakan skema '' @
        lit ''simetris HMAC-SHA256 untuk kesederhanaan '' @
        lit ''komputasi lokal, bukan infrastruktur kunci '' @
        lit ''publik asimetris dengan endpoint JWKS '' @
        lit ''dinamis. Pengembang tidak boleh mengabaikan '' @
        lit ''kebutuhan constant-time comparison dan '' @
        lit ''mekanisme sender-constrained token (DPoP) '' @
        lit ''saat beralih ke skala produksi.'')),
    (''narrative_en'', PyStr (lit ''The technical claims in this laboratory are '' @
        lit ''strictly bounded by its self-contained test '' @
        lit ''design. The authorization server manages '' @
        lit ''state in-process without distributed '' @
        lit ''database backends like Redis clusters. ID '' @
        lit ''Token signing relies on symmetric '' @
        lit ''HMAC-SHA256 rather than asymmetric '' @
        lit ''public-key cryptography backed by dynamic '' @
        lit ''JWKS endpoints. Production deployments must '' @
        lit ''account for constant-time comparisons, '' @
        lit ''database persistence, and advanced '' @
        lit ''sender-constrained mechanisms like DPoP '' @ lit ''(RFC 9449).'')),
    (''mental_model'', PyStr (lit ''Acknowledge educational simplifications to '' @
        lit ''ensure production architectures address '' @
        lit ''persistent storage and public JWKS.'')),
    (''source_path'', PyStr (lit ''labs/31-oauth2-and-oidc/content/01-content-b'' @ lit ''rief.md:37-41 '' @
        [0x2022] @ lit '' engineering/02-implementation-notes.md:28-4'' @ lit ''8'')),
    (''slide_num'', PyStr (lit ''11 / 24'')),
    (''layout'', PyStr (lit ''constraints-list''))]\<rparr>\<close>

definition lab31_items_12 :: pyval where [lab31_contents]:
  \<open>lab31_items_12 =
   PyList
   [PyDict
     [(''title'', PyStr (lit ''MANFAAT & KEUNGGULAN SISTEM'')),
      (''items'', PyList
        [PyStr (lit ''Imunitas Serangan Intersepsi: PKCE S256 '' @
            lit ''menghilangkan ancaman pencurian '' @
            lit ''authorization code di redirect URL.''),
         PyStr (lit ''Deteksi Dini Pembajakan Sesi: Replay token '' @
            lit ''yang dicuri terdeteksi seketika melalui '' @
            lit ''status konsumsi token tunggal.''),
         PyStr (lit ''Decoupled Identity & Scope: ID Token '' @
            lit ''membawa konteks pengguna, access token '' @
            lit ''mengisolasi batasan wewenang API.'')]),
      (''type'', PyStr (lit ''bullet''))],
    PyDict
     [(''title'', PyStr (lit ''KONSEKUENSI & BIAYA IMPLEMENTASI'')),
      (''items'', PyList
        [PyStr (lit ''Penyimpanan State Terpusat: Authorization '' @
            lit ''Server wajib melacak histori FamilyID dan '' @
            lit ''status Revoked di storage.''),
         PyStr (lit ''Latensi Rotasi Jaringan: Setiap pembaruan '' @
            lit ''access token mewajibkan round-trip '' @
            lit ''penukaran refresh token ke server.''),
         PyStr (lit ''Potensi False Revocation: Kegagalan koneksi '' @
            lit ''saat rotasi dapat menyebabkan klien sah '' @
            lit ''tidak sengaja memicu deteksi replay.'')]),
      (''type'', PyStr (lit ''bullet''))]]\<close>

definition lab31_slide_12 :: pycall where [lab31_slides]:
  \<open>lab31_slide_12 =
   \<lparr>posargs = [],
  kwargs =
   [(''categories'', PyList
      [PyStr (lit ''TRADE-OFF''),
       PyStr (lit ''ARSITEKTUR'')]),
    (''title'', PyStr (lit ''Trade-off Arsitektur: Keamanan Sesi vs '' @ lit ''Kompleksitas Server'')),
    (''subtitle'', PyStr (lit ''Menilai biaya penyimpanan state dan rotasi '' @
        lit ''token dibandingkan manfaat eliminasi '' @ lit ''pembajakan sesi.'')),
    (''content_items'', lab31_items_12),
    (''narrative'', PyStr (lit ''Penerapan arsitektur OAuth 2.0 dan OIDC '' @
        lit ''modern menuntut kompromi yang cermat antara '' @
        lit ''tingkat keamanan dan kompleksitas '' @
        lit ''operasional. Menghapus token statis dan '' @
        lit ''memberlakukan Refresh Token Rotation '' @
        lit ''memberikan perlindungan maksimal dari '' @
        lit ''pembajakan sesi jangka panjang, namun '' @
        lit ''mewajibkan server mengelola state silsilah '' @
        lit ''FamilyID secara konsisten di penyimpanan '' @
        lit ''terdistribusi. Selain itu, ada risiko '' @
        lit ''kegagalan jaringan sementara (race '' @
        lit ''condition jaringan) di mana klien yang '' @
        lit ''mencoba refresh ulang dapat disalahartikan '' @
        lit ''sebagai penyerang yang melakukan replay.'')),
    (''narrative_en'', PyStr (lit ''Adopting modern OAuth 2.0 and OIDC '' @
        lit ''architectures requires a calculated '' @
        lit ''trade-off between security posture and '' @
        lit ''operational complexity. Eliminating static '' @
        lit ''tokens in favor of Refresh Token Rotation '' @
        lit ''guarantees defense against persistent '' @
        lit ''session hijacking, yet forces the server to '' @
        lit ''maintain stateful FamilyID lineage metadata '' @
        lit ''across distributed storage. Furthermore, '' @
        lit ''transient network partitions during '' @
        lit ''rotation exchanges can cause legitimate '' @
        lit ''retries to be mistakenly flagged as replay '' @ lit ''attacks.'')),
    (''mental_model'', PyStr (lit ''Single-use tokens eliminate persistent '' @
        lit ''exposure but require robust state tracking '' @ lit ''and retry handling.'')),
    (''source_path'', PyStr (lit ''labs/31-oauth2-and-oidc/content/02-master-dr'' @ lit ''aft.md:262-273'')),
    (''slide_num'', PyStr (lit ''12 / 24'')),
    (''layout'', PyStr (lit ''tradeoff''))]\<rparr>\<close>

definition lab31_items_13 :: pyval where [lab31_contents]:
  \<open>lab31_items_13 =
   PyList
   [PyDict
     [(''title'', PyStr (lit ''KODE STRESS TEST KONKURENSI'')),
      (''items'', PyList
        [PyStr (lit ''func TestOAuth2_ConcurrentRefreshReplay(t '' @ lit ''*testing.T) {''),
         PyStr (lit ''    stolenRT := resp.RefreshToken''),
         PyStr (lit ''    var wg sync.WaitGroup; errCount := 0; '' @ lit ''var mu sync.Mutex''),
         PyStr (lit ''    for i := 0; i < 10; i++ {''),
         PyStr (lit ''        wg.Add(1)''),
         PyStr (lit ''        go func() {''),
         PyStr (lit ''            defer wg.Done()''),
         PyStr (lit ''            _, err := as.Refresh(stolenRT, '' @ lit ''"client_conc_ref")''),
         PyStr (lit ''            if err != nil { mu.Lock(); '' @
            lit ''errCount++; mu.Unlock() }''),
         PyStr (lit ''        }()''),
         PyStr (lit ''    }''),
         PyStr (lit ''    wg.Wait()''),
         PyStr (lit ''    // Assert: errCount >= 9 akibat rotasi '' @
            lit ''dan family revocation''),
         PyStr (lit ''}'')]),
      (''type'', PyStr (lit ''code''))],
    PyDict
     [(''title'', PyStr (lit ''HASIL VERIFIKASI KONKURENSI'')),
      (''items'', PyList
        [PyStr (lit ''Mutex Protection: Server mengeksekusi '' @
            lit ''method Refresh() di bawah s.mu.Lock() '' @ lit ''secara linier.''),
         PyStr (lit ''Tepat 1 Menang / Sisanya Ditolak: Maksimal '' @
            lit ''1 goroutine berhasil merotasi; 9 goroutine '' @
            lit ''lainnya ditolak replay detection.''),
         PyStr (lit ''Race Detector: PASS tanpa deteksi data race '' @
            lit ''condition pada 20 worker simultan '' @
            lit ''(TestOAuth2_ConcurrencyAndRace).'')]),
      (''type'', PyStr (lit ''bullet''))]]\<close>

definition lab31_slide_13 :: pycall where [lab31_slides]:
  \<open>lab31_slide_13 =
   \<lparr>posargs = [],
  kwargs =
   [(''categories'', PyList
      [PyStr (lit ''CONCURRENCY''),
       PyStr (lit ''VALIDATION'')]),
    (''title'', PyStr (lit ''Validasi Konkurensi: 10 Goroutine Berebut '' @ lit ''Refresh Token'')),
    (''subtitle'', PyStr (lit ''TestOAuth2_ConcurrentRefreshReplay '' @
        lit ''membuktikan: minimal 9 dari 10 request '' @ lit ''ditolak secara aman.'')),
    (''content_items'', lab31_items_13),
    (''narrative'', PyStr (lit ''Uji konkurensi pada '' @ lit ''TestOAuth2_ConcurrentRefreshReplay '' @
        lit ''membuktikan ketangguhan sistem saat satu '' @
        lit ''refresh token yang sama ditembak secara '' @
        lit ''simultan oleh 10 goroutine. Karena method '' @
        lit ''Refresh di Authorization Server dilindungi '' @
        lit ''oleh sync.Mutex eksklusif, evaluasi status '' @
        lit ''token berlangsung secara linearizable. '' @
        lit ''Tepat satu permintaan berhasil merotasi '' @
        lit ''token, sementara sembilan permintaan '' @
        lit ''lainnya seketika memicu error '' @
        lit ''ErrTokenReplayDetected dan mencabut seluruh '' @
        lit ''family. Pengujian go test -race membuktikan '' @
        lit ''ketiadaan data race pada 20 worker konkruen.'')),
    (''narrative_en'', PyStr (lit ''Concurrency testing in '' @ lit ''TestOAuth2_ConcurrentRefreshReplay '' @
        lit ''validates system resilience when a single '' @
        lit ''stolen refresh token is replayed '' @
        lit ''simultaneously by 10 goroutines. Because '' @
        lit ''the Authorization Server protects the '' @
        lit ''Refresh method via an exclusive sync.Mutex, '' @
        lit ''state evaluations remain strictly '' @
        lit ''linearizable. At most one request succeeds '' @
        lit ''in rotating the credential, while the '' @
        lit ''remaining nine immediately trigger '' @
        lit ''ErrTokenReplayDetected, invalidating the '' @
        lit ''entire family with zero data races flagged '' @ lit ''under -race.'')),
    (''mental_model'', PyStr (lit ''Mutex serialization ensures atomicity: the '' @
        lit ''first refresh consumes the token, '' @
        lit ''subsequent concurrent callers trigger '' @ lit ''replay defense.'')),
    (''source_path'', PyStr (lit ''tests/oauth_test.go:365-455'')),
    (''slide_num'', PyStr (lit ''13 / 24'')),
    (''layout'', PyStr (lit ''concurrency-flow''))]\<rparr>\<close>

definition lab31_items_14 :: pyval where [lab31_contents]:
  \<open>lab31_items_14 =
   PyList
   [PyDict
     [(''title'', PyStr (lit ''BEFORE (Legacy Implicit & Static Tokens)'')),
      (''items'', PyList
        [PyStr (lit ''Alur: Implicit Flow mengekspos access token '' @
            lit ''langsung di URL fragment browser.''),
         PyStr (lit ''Identitas: Klien membedah access token '' @
            lit ''tanpa verifikasi tanda tangan digital.''),
         PyStr (lit ''Refresh Sesi: Refresh token statis tanpa '' @
            lit ''batas pakai disimpan di localStorage.''),
         PyStr (lit ''Dampak Kebocoran: Penyerang yang mencuri '' @
            lit ''token menguasai akun selamanya tanpa '' @ lit ''terdeteksi.'')]),
      (''type'', PyStr (lit ''card''))],
    PyDict
     [(''title'', PyStr (lit ''AFTER (Auth Code + PKCE & Token Rotation)'')),
      (''items'', PyList
        [PyStr (lit ''Alur: Authorization Code Flow wajib '' @
            lit ''dilindungi oleh cryptographic challenge '' @ lit ''PKCE S256.''),
         PyStr (lit ''Identitas: OIDC ID Token ditandatangani dan '' @
            lit ''divalidasi 7 langkah (iss, aud, exp, nonce).''),
         PyStr (lit ''Refresh Sesi: Refresh token sekali pakai '' @
            lit ''dirotasi setiap request dengan pelacakan '' @ lit ''FamilyID.''),
         PyStr (lit ''Dampak Kebocoran: Replay token curian '' @
            lit ''memicu pembatalan instan seluruh sesi '' @ lit ''keluarga token.'')]),
      (''type'', PyStr (lit ''card''))]]\<close>

definition lab31_slide_14 :: pycall where [lab31_slides]:
  \<open>lab31_slide_14 =
   \<lparr>posargs = [],
  kwargs =
   [(''categories'', PyList
      [PyStr (lit ''BEFORE/AFTER''),
       PyStr (lit ''PERUBAHAN'')]),
    (''title'', PyStr (lit ''Before vs After: Evolusi Keamanan Sesi Web'')),
    (''subtitle'', PyStr (lit ''Transformasi dari arsitektur warisan yang '' @
        lit ''rentan kebocoran menuju standar modern RFC '' @ lit ''9700.'')),
    (''content_items'', lab31_items_14),
    (''narrative'', PyStr (lit ''Perbandingan before-after ini '' @
        lit ''mengilustrasikan lompatan besar standar '' @
        lit ''keamanan web selama satu dekade terakhir. '' @
        lit ''Pada arsitektur lama, pengembang '' @
        lit ''mengandalkan Implicit Flow dan menyimpan '' @
        lit ''refresh token statis di browser '' @
        lit ''localStorage, menciptakan kerentanan masif '' @
        lit ''terhadap pencurian sesi melalui skrip '' @
        lit ''jahat. Pada arsitektur modern berbasis RFC '' @
        lit ''9700, authorization code diikat secara '' @
        lit ''kriptografis oleh PKCE, ID Token '' @
        lit ''diverifikasi secara matematis, dan refresh '' @
        lit ''token dirotasi pada setiap pemanggilan '' @
        lit ''sehingga penyusupan dapat dideteksi dan '' @
        lit ''dilumpuhkan secara otomatis.'')),
    (''narrative_en'', PyStr (lit ''This before-and-after comparison highlights '' @
        lit ''the architectural paradigm shift in web '' @
        lit ''session security over the past decade. '' @
        lit ''Legacy systems relied on the Implicit Flow '' @
        lit ''and stored static refresh tokens inside '' @
        lit ''browser localStorage, inviting devastating '' @
        lit ''session hijacking via cross-site scripting. '' @
        lit ''Under modern RFC 9700 architectures, '' @
        lit ''authorization codes are cryptographically '' @
        lit ''bound by PKCE, ID Tokens undergo multi-step '' @
        lit ''signature verification, and refresh tokens '' @
        lit ''rotate continuously with automated replay '' @ lit ''detection.'')),
    (''mental_model'', PyStr (lit ''Before: static tokens leak invisibly. '' @
        lit ''After: dynamic rotations turn stolen tokens '' @
        lit ''into automated tripwires.'')),
    (''source_path'', PyStr (lit ''labs/31-oauth2-and-oidc/content/02-master-dr'' @ lit ''aft.md:414-434'')),
    (''slide_num'', PyStr (lit ''14 / 24'')),
    (''layout'', PyStr (lit ''before-after''))]\<rparr>\<close>

definition lab31_items_15 :: pyval where [lab31_contents]:
  \<open>lab31_items_15 =
   PyList
   [PyDict
     [(''title'', PyStr (lit ''KODE PENGUJIAN BOUNDS & METHOD'')),
      (''items'', PyList
        [PyStr (lit ''func TestPKCE_S256_Valid(t *testing.T) {''),
         PyStr (lit ''    pair, err := '' @ lit ''pkce.GeneratePKCEPair("S256")''),
         PyStr (lit ''    // Assert: len(pair.CodeVerifier) >= 43 '' @
            lit ''&& len(pair.CodeVerifier) <= 128''),
         PyStr (lit ''    err = pkce.Verify(pair.CodeVerifier, '' @
            lit ''pair.CodeChallenge, "S256")''),
         PyStr (lit ''    // Assert: err == nil (SHA-256 '' @ lit ''base64url matching)''),
         PyStr (lit ''}''),
         PyStr (lit ''func TestPKCE_VerifierLength_Bounds(t '' @ lit ''*testing.T) {''),
         PyStr (lit ''    // Verifier < 43 karakter -> Tolak '' @
            lit ''ErrInvalidVerifierLength''),
         PyStr (lit ''    // Verifier > 128 karakter -> Tolak '' @
            lit ''ErrInvalidVerifierLength''),
         PyStr (lit ''}'')]),
      (''type'', PyStr (lit ''code''))],
    PyDict
     [(''title'', PyStr (lit ''VERIFIKASI INVARIAN RFC 7636'')),
      (''items'', PyList
        [PyStr (lit ''Entropi Kriptografis: 32 byte acak '' @
            lit ''menghasilkan 43 karakter base64url tanpa '' @
            lit ''padding, memenuhi batas 256-bit entropy.''),
         PyStr (lit ''Batas Panjang Ketat: Kode memvalidasi '' @
            lit ''panjang verifier berada dalam rentang '' @
            lit ''minimum 43 dan maksimum 128 karakter.''),
         PyStr (lit ''Penolakan Metode Ilegal: Penggunaan method '' @ lit ''di luar '' @ [39] @
            lit ''S256'' @ [39] @ lit '' dan '' @ [39] @ lit ''plain'' @ [39] @
            lit '' seketika ditolak dengan ErrInvalidMethod.'')]),
      (''type'', PyStr (lit ''bullet''))]]\<close>

definition lab31_slide_15 :: pycall where [lab31_slides]:
  \<open>lab31_slide_15 =
   \<lparr>posargs = [],
  kwargs =
   [(''categories'', PyList
      [PyStr (lit ''BUKTI TEST''),
       PyStr (lit ''PKCE & RFC 7636'')]),
    (''title'', PyStr (lit ''Test 1: Validasi Kriptografis Tantangan '' @ lit ''PKCE S256'')),
    (''subtitle'', PyStr (lit ''TestPKCE_S256_Valid dan '' @
        lit ''TestPKCE_VerifierLength_Bounds membuktikan '' @
        lit ''kepatuhan spesifikasi RFC 7636.'')),
    (''content_items'', lab31_items_15),
    (''narrative'', PyStr (lit ''Unit test pertama memverifikasi pemenuhan '' @
        lit ''standar RFC 7636 pada modul '' @
        lit ''pkg/pkce/pkce.go. Fungsi GeneratePKCEPair '' @
        lit ''terbukti menghasilkan code_verifier '' @
        lit ''berkekuatan 256-bit entropy dengan panjang '' @
        lit ''tepat 43 karakter base64url. Pengujian '' @
        lit ''memvalidasi bahwa perhitungan '' @
        lit ''BASE64URL(SHA256(verifier)) cocok secara '' @
        lit ''sempurna dengan challenge yang dikirimkan. '' @
        lit ''Test verifier bounds memastikan bahwa '' @
        lit ''string yang lebih pendek dari 43 karakter '' @
        lit ''atau lebih panjang dari 128 karakter '' @
        lit ''langsung ditolak demi mencegah serangan '' @ lit ''degradasi entropi.'')),
    (''narrative_en'', PyStr (lit ''The first unit test suite validates RFC '' @
        lit ''7636 compliance within pkg/pkce/pkce.go. '' @
        lit ''GeneratePKCEPair demonstrably generates '' @
        lit ''256-bit cryptographic entropy yielding a '' @
        lit ''43-character base64url code_verifier. The '' @ lit ''test verifies that '' @
        lit ''BASE64URL(SHA256(verifier)) matches the '' @
        lit ''issued code_challenge. Furthermore, bounds '' @
        lit ''testing ensures any verifier shorter than '' @
        lit ''43 characters or exceeding 128 characters '' @
        lit ''is systematically rejected, preventing '' @
        lit ''entropy degradation vulnerabilities.'')),
    (''mental_model'', PyStr (lit ''High entropy verifiers bound between 43 and '' @
        lit ''128 chars guarantee unforgeable SHA-256 '' @ lit ''challenges.'')),
    (''source_path'', PyStr (lit ''tests/oauth_test.go:17-47 '' @ [0x2022] @ lit '' tests/oauth_test.go:335-346'')),
    (''slide_num'', PyStr (lit ''15 / 24'')),
    (''layout'', PyStr (lit ''test-analysis''))]\<rparr>\<close>

definition lab31_items_16 :: pyval where [lab31_contents]:
  \<open>lab31_items_16 =
   PyList
   [PyDict
     [(''title'', PyStr (lit ''PENGUJIAN KETAHANAN JWT OIDC'')),
      (''items'', PyList
        [PyStr (lit ''// TestOIDC_IDToken_TamperedSignature: '' @ lit ''Modifikasi signature''),
         PyStr (lit ''tampered := parts[0] + "." + parts[1] + '' @ lit ''".invalidSig=="''),
         PyStr (lit ''_, err = oidc.ParseAndVerifyIDToken(tampered'' @
            lit '', secret, iss, aud, "", now)''),
         PyStr (lit ''// Assert: err == ErrSignatureInvalid''),
         PyStr (lit ''// TestOIDC_IDToken_MismatchClaims: '' @ lit ''Evaluasi claims''),
         PyStr (lit ''// 1. Wrong issuer -> Tolak '' @ lit ''ErrIssuerMismatch''),
         PyStr (lit ''// 2. Wrong audience -> Tolak '' @ lit ''ErrAudienceMismatch''),
         PyStr (lit ''// 3. Wrong nonce -> Tolak ErrNonceMismatch''),
         PyStr (lit ''// 4. Expiration lampau -> Tolak '' @ lit ''ErrTokenExpired'')]),
      (''type'', PyStr (lit ''code''))],
    PyDict
     [(''title'', PyStr (lit ''CHECKPOINT KEAMANAN MULTI-STEP'')),
      (''items'', PyList
        [PyStr (lit ''Constant-Time Signature Check: HMAC-SHA256 '' @
            lit ''diverifikasi via hmac.Equal untuk menangkal '' @ lit ''timing attack.''),
         PyStr (lit ''Issuer & Audience Pinning: Token ditolak '' @
            lit ''jika audiens bukan Client ID pemanggil atau '' @
            lit ''diterbitkan pihak asing.''),
         PyStr (lit ''Anti-Replay Nonce: Klaim nonce mengikat ID '' @
            lit ''Token secara unik ke sesi authorization '' @
            lit ''request browser pemohon.'')]),
      (''type'', PyStr (lit ''bullet''))]]\<close>

definition lab31_slide_16 :: pycall where [lab31_slides]:
  \<open>lab31_slide_16 =
   \<lparr>posargs = [],
  kwargs =
   [(''categories'', PyList
      [PyStr (lit ''BUKTI TEST''),
       PyStr (lit ''OIDC ID TOKEN'')]),
    (''title'', PyStr (lit ''Test 2: Verifikasi Kriptografis & Claims ID '' @ lit ''Token'')),
    (''subtitle'', PyStr (lit ''Memvalidasi tanda tangan HMAC, modifikasi '' @
        lit ''payload, token expired, dan pencocokan '' @ lit ''nonce anti-replay.'')),
    (''content_items'', lab31_items_16),
    (''narrative'', PyStr (lit ''Pengujian modul OIDC membuktikan bahwa ID '' @
        lit ''Token tidak dapat dimanipulasi oleh pihak '' @ lit ''ketiga. Pada '' @
        lit ''TestOIDC_IDToken_TamperedSignature, setiap '' @
        lit ''pengubahan satu karakter pun pada tanda '' @
        lit ''tangan JWT langsung digagalkan oleh '' @
        lit ''pemeriksaan hmac.Equal. Sementara itu, '' @
        lit ''rangkaian pengujian klaim memverifikasi '' @
        lit ''bahwa token yang memiliki penerbit (iss) '' @
        lit ''tidak cocok, ditujukan untuk klien lain '' @
        lit ''(aud mismatch), memiliki masa berlaku yang '' @
        lit ''telah lewat (exp), atau memiliki nonce yang '' @
        lit ''berbeda akan ditolak secara mutlak.'')),
    (''narrative_en'', PyStr (lit ''The OIDC test suite proves that ID Tokens '' @
        lit ''are tamper-proof against unauthorized '' @ lit ''manipulation. In '' @
        lit ''TestOIDC_IDToken_TamperedSignature, '' @
        lit ''altering a single character of the JWT '' @
        lit ''signature triggers instant rejection via '' @
        lit ''hmac.Equal constant-time verification. '' @
        lit ''Simultaneously, claim tests verify that any '' @
        lit ''token presenting an unrecognized issuer, '' @
        lit ''mismatched audience, expired timestamp, or '' @
        lit ''deviated nonce is intercepted and rejected '' @ lit ''without exception.'')),
    (''mental_model'', PyStr (lit ''Every claim is a cryptographic barrier; '' @
        lit ''skipping one invalidates the entire '' @ lit ''identity assertion.'')),
    (''source_path'', PyStr (lit ''tests/oauth_test.go:48-143 '' @ [0x2022] @ lit '' pkg/oidc/oidc.go:64-116'')),
    (''slide_num'', PyStr (lit ''16 / 24'')),
    (''layout'', PyStr (lit ''test-analysis''))]\<rparr>\<close>

definition lab31_items_17 :: pyval where [lab31_contents]:
  \<open>lab31_items_17 =
   PyList
   [PyDict
     [(''title'', PyStr (lit ''SIMULASI PENYADAPAN KODE PADA TEST'')),
      (''items'', PyList
        [PyStr (lit ''// 1. Client sah menginisiasi flow dan '' @
            lit ''meminta authorization code''),
         PyStr (lit ''ch, _ := cli.BuildAuthorizationRequest("open'' @ lit ''id profile")''),
         PyStr (lit ''ac, _ := as.Authorize("client_1", '' @
            lit ''"https://app.com/cb", "openid profile", '' @
            lit ''"user_sub_1", ch, "S256", cli.Nonce)''),
         PyStr (lit ''// 2. Attacker menyadap ac.Code, mencoba '' @
            lit ''exchange dengan verifier tebakan''),
         PyStr (lit ''_, err = as.ExchangeCode(ac.Code, '' @
            lit ''"client_1", "https://app.com/cb", '' @
            lit ''"attacker_wrong_verifier_1234567890123456789'' @ lit ''0123")''),
         PyStr (lit ''// Assert: err != nil (PKCE verification '' @
            lit ''failed: challenge mismatch)''),
         PyStr (lit ''// 3. Client sah menukar code dengan '' @ lit ''verifier asli -> SUKSES''),
         PyStr (lit ''resp, err := cli.Exchange(ac.Code) // '' @
            lit ''Menerima Access, Refresh, & ID Token''),
         PyStr (lit ''// 4. Percobaan penggunaan ulang ac.Code '' @
            lit ''yang sama -> DITOLAK (Used = true)'')]),
      (''type'', PyStr (lit ''code''))],
    PyDict
     [(''title'', PyStr (lit ''DUAL-LAYER CODE SECURITY'')),
      (''items'', PyList
        [PyStr (lit ''Proof-of-Possession: Penyerang yang '' @
            lit ''menyadap URL redirect tidak dapat menukar '' @
            lit ''code tanpa code_verifier lokal klien.''),
         PyStr (lit ''One-Time Use Enforcement: Flag ac.Used = '' @
            lit ''true mencegah serangan replay authorization '' @
            lit ''code oleh pihak manapun.'')]),
      (''type'', PyStr (lit ''bullet''))]]\<close>

definition lab31_slide_17 :: pycall where [lab31_slides]:
  \<open>lab31_slide_17 =
   \<lparr>posargs = [],
  kwargs =
   [(''categories'', PyList
      [PyStr (lit ''BUKTI TEST''),
       PyStr (lit ''CODE INTERCEPTION'')]),
    (''title'', PyStr (lit ''Test 3: Pencegahan Serangan Intersepsi '' @ lit ''Authorization Code'')),
    (''subtitle'', PyStr (lit ''TestOAuth2_FullFlowAndPKCEInterception '' @
        lit ''membuktikan pencurian auth code sia-sia '' @ lit ''tanpa verifier.'')),
    (''content_items'', lab31_items_17),
    (''narrative'', PyStr (lit ''Test ketiga mendemonstrasikan bagaimana '' @
        lit ''proteksi PKCE menggagalkan skenario '' @
        lit ''penyerangan nyata pada client publik. Saat '' @
        lit ''penyerang berhasil menyadap authorization '' @
        lit ''code yang melintasi sistem operasi dan '' @
        lit ''mencoba menukarnya ke server menggunakan '' @
        lit ''verifier palsu, server mendeteksi '' @
        lit ''ketidakcocokan SHA-256 dan membatalkan '' @
        lit ''pertukaran. Klien sah kemudian berhasil '' @
        lit ''menukar kode tersebut dengan verifier '' @
        lit ''aslinya. Ketika kode yang sama dicoba untuk '' @
        lit ''digunakan kembali untuk kedua kalinya, '' @
        lit ''server menolaknya karena kode otorisasi '' @
        lit ''bersifat strictly single-use.'')),
    (''narrative_en'', PyStr (lit ''The third test orchestrates an end-to-end '' @
        lit ''interception attack simulation on public '' @
        lit ''clients. When an adversary intercepts the '' @
        lit ''authorization code and attempts redemption '' @
        lit ''using a forged code_verifier, the server '' @
        lit ''detects the cryptographic hash mismatch and '' @
        lit ''aborts the exchange. The legitimate client '' @
        lit ''then redeems the code using its authentic '' @
        lit ''verifier. When anyone attempts to replay '' @
        lit ''that redeemed code a second time, the '' @
        lit ''server rejects it because authorization '' @
        lit ''codes are strictly single-use.'')),
    (''mental_model'', PyStr (lit ''Authorization codes are worthless without '' @
        lit ''local verifier secrets; one-time use '' @
        lit ''prevents post-exchange replay.'')),
    (''source_path'', PyStr (lit ''tests/oauth_test.go:145-182'')),
    (''slide_num'', PyStr (lit ''17 / 24'')),
    (''layout'', PyStr (lit ''test-analysis''))]\<rparr>\<close>

definition lab31_items_18 :: pyval where [lab31_contents]:
  \<open>lab31_items_18 =
   PyList
   [PyDict
     [(''title'', PyStr (lit ''DEPREKASI IMPLICIT FLOW (OAUTH 2.1 / RFC '' @ lit ''9700)'')),
      (''items'', PyList
        [PyStr (lit ''Sejarah Masa Lalu: Implicit Flow diciptakan '' @
            lit ''saat browser belum mendukung CORS secara '' @ lit ''luas.''),
         PyStr (lit ''Vektor Kebocoran: Access token dikembalikan '' @
            lit ''pada URL hash fragment (#access_token=...), '' @
            lit ''bocor ke Access Log, Browser History, dan '' @ lit ''referer headers.''),
         PyStr (lit ''Vonis IETF 2025: Dihapus sepenuhnya dari '' @
            lit ''spesifikasi; semua SPA wajib beralih ke '' @
            lit ''Auth Code Flow + PKCE.'')]),
      (''type'', PyStr (lit ''bullet''))],
    PyDict
     [(''title'', PyStr (lit ''BEST CURRENT PRACTICE MODERN (BCP)'')),
      (''items'', PyList
        [PyStr (lit ''Wajib PKCE untuk Semua: Tidak hanya '' @
            lit ''aplikasi mobile/SPA, server-rendered '' @
            lit ''confidential client juga dianjurkan '' @ lit ''menggunakan PKCE.''),
         PyStr (lit ''Strict Redirect URI Matching: Larangan '' @
            lit ''penggunaan wildcard URI atau redirect '' @
            lit ''berbasis skema kustom tanpa app-linking.''),
         PyStr (lit ''Sender-Constrained Tokens: Tren industri '' @
            lit ''beralih ke DPoP (RFC 9449) untuk mengikat '' @
            lit ''token akses ke kunci privat browser.'')]),
      (''type'', PyStr (lit ''bullet''))]]\<close>

definition lab31_slide_18 :: pycall where [lab31_slides]:
  \<open>lab31_slide_18 =
   \<lparr>posargs = [],
  kwargs =
   [(''categories'', PyList
      [PyStr (lit ''STUDI KASUS''),
       PyStr (lit ''INDUSTRI'')]),
    (''title'', PyStr (lit ''Studi Kasus Industri: Konsensus Keamanan '' @ lit ''RFC 9700'')),
    (''subtitle'', PyStr (lit ''Mengapa IETF secara resmi mendepresiasi '' @
        lit ''Implicit Flow dan mewajibkan PKCE untuk '' @ lit ''semua aplikasi.'')),
    (''content_items'', lab31_items_18),
    (''narrative'', PyStr (lit ''Riset standar IETF menunjukkan pergeseran '' @
        lit ''paradigma fundamental dalam keamanan web '' @
        lit ''terdistribusi. Implicit Flow yang dahulu '' @
        lit ''menjadi standar bagi Single Page '' @
        lit ''Application resmi dihapus dalam OAuth 2.1 '' @
        lit ''dan RFC 9700 karena token akses rentan '' @
        lit ''bocor melalui riwayat peramban dan skrip '' @
        lit ''analitik pihak ketiga. Standar industri '' @
        lit ''terkini mewajibkan Authorization Code Flow '' @
        lit ''yang dilindungi PKCE S256 untuk seluruh '' @
        lit ''aplikasi. Di masa depan, proteksi ini '' @
        lit ''semakin diperkuat dengan sender-constrained '' @
        lit ''tokens seperti DPoP untuk menghentikan '' @
        lit ''pencurian token di lapisan jaringan.'')),
    (''narrative_en'', PyStr (lit ''IETF standardization reflects a decisive '' @
        lit ''evolution in distributed web security. The '' @
        lit ''legacy Implicit Flow originally designed '' @
        lit ''for Single Page Applications has been '' @
        lit ''excised from OAuth 2.1 and RFC 9700 because '' @
        lit ''access tokens routinely leaked via browser '' @
        lit ''histories and third-party analytics '' @
        lit ''scripts. Modern best current practices '' @
        lit ''mandate Authorization Code Flow backed by '' @
        lit ''PKCE S256 across all client types, '' @
        lit ''reinforced by emerging sender-constrained '' @
        lit ''standards like DPoP to bind tokens to '' @ lit ''browser private keys.'')),
    (''mental_model'', PyStr (lit ''Implicit flows leak credentials in URLs; '' @
        lit ''PKCE and sender-constraining bind tokens to '' @ lit ''execution contexts.'')),
    (''source_path'', PyStr (lit ''research/02-sources.md '' @ [0x2022] @ lit '' research/05-report.md'')),
    (''slide_num'', PyStr (lit ''18 / 24'')),
    (''layout'', PyStr (lit ''cards''))]\<rparr>\<close>

definition lab31_items_19 :: pyval where [lab31_contents]:
  \<open>lab31_items_19 =
   PyList
   [PyDict
     [(''title'', PyStr (lit ''MEKANISME SILSILAH FAMILYID'')),
      (''items'', PyList
        [PyStr (lit ''Penerbitan Perdana: Saat authorization code '' @
            lit ''ditukar, server membuat FamilyID baru '' @
            lit ''(fam_...) untuk sesi tersebut.''),
         PyStr (lit ''Rotasi Berkelanjutan: Setiap kali /refresh '' @
            lit ''dipanggil, token aktif ditandai '' @
            lit ''Revoked=true, dan token baru diterbitkan di '' @ lit ''FamilyID sama.''),
         PyStr (lit ''Integritas Silsilah: Hanya tepat satu token '' @
            lit ''refresh yang berstatus Revoked=false dalam '' @
            lit ''satu FamilyID pada satu waktu.'')]),
      (''type'', PyStr (lit ''bullet''))],
    PyDict
     [(''title'', PyStr (lit ''TRIGGER REPLAY & REAKSI SISTEM'')),
      (''items'', PyList
        [PyStr (lit ''Deteksi Pelanggaran: Jika token dengan '' @
            lit ''status Revoked=true masuk kembali, server '' @
            lit ''mendeteksi replay pencurian token.''),
         PyStr (lit ''Pembersihan Total: Server menetapkan '' @
            lit ''revokedFams[FamilyID] = true, membatalkan '' @
            lit ''semua token dalam silsilah tersebut.''),
         PyStr (lit ''Proteksi Pengguna Sah: Klien sah yang '' @
            lit ''mencoba merefresh berikutnya akan ditolak, '' @
            lit ''memutus akses penyerang dan memaksa login '' @ lit ''baru.'')]),
      (''type'', PyStr (lit ''bullet''))]]\<close>

definition lab31_slide_19 :: pycall where [lab31_slides]:
  \<open>lab31_slide_19 =
   \<lparr>posargs = [],
  kwargs =
   [(''categories'', PyList
      [PyStr (lit ''ANALISIS TEKNIS''),
       PyStr (lit ''SESSION DEFENSE'')]),
    (''title'', PyStr (lit ''Analisis Teknis: Anatomi Token Family '' @ lit ''Revocation'')),
    (''subtitle'', PyStr (lit ''Bagaimana pelacakan silsilah FamilyID '' @
        lit ''mengubah refresh token basi menjadi jebakan '' @ lit ''alarm penyusup.'')),
    (''content_items'', lab31_items_19),
    (''narrative'', PyStr (lit ''Mekanisme Token Family Revocation per RFC '' @
        lit ''9700 Section 4.14 mengubah sifat pasif '' @
        lit ''refresh token menjadi jebakan aktif bagi '' @
        lit ''penyusup. Ketika token yang dicuri oleh '' @
        lit ''penyerang digunakan setelah klien sah '' @
        lit ''melakukan rotasi, server mengenali bahwa '' @
        lit ''token tersebut sudah berstatus terpakai '' @
        lit ''(Revoked=true). Alih-alih hanya menolak '' @
        lit ''satu permintaan tersebut, server secara '' @
        lit ''cerdas mengidentifikasi bahwa seluruh '' @
        lit ''keluarga sesi telah terkompromi. Server '' @
        lit ''langsung mencabut FamilyID secara '' @
        lit ''menyeluruh, memastikan penyerang tidak '' @
        lit ''dapat mempertahankan aksesnya.'')),
    (''narrative_en'', PyStr (lit ''The Token Family Revocation mechanism '' @
        lit ''specified in RFC 9700 Section 4.14 converts '' @
        lit ''passive refresh tokens into active '' @
        lit ''intrusion alarms. When an adversary '' @
        lit ''attempts to replay a stolen refresh token '' @
        lit ''after the legitimate client has rotated it, '' @
        lit ''the server recognizes the token was already '' @
        lit ''consumed. Rather than merely rejecting the '' @
        lit ''individual request, the server concludes '' @
        lit ''that the session lineage has been breached. '' @
        lit ''It revokes the entire FamilyID instantly, '' @
        lit ''terminating unauthorized access and '' @ lit ''alerting the system.'')),
    (''mental_model'', PyStr (lit ''Consumed refresh tokens become tripwires: '' @
        lit ''any subsequent replay instantly incinerates '' @
        lit ''the entire session tree.'')),
    (''source_path'', PyStr (lit ''pkg/server/server.go:219-286 '' @ [0x2022] @
        lit '' tests/oauth_test.go:184-217'')),
    (''slide_num'', PyStr (lit ''19 / 24'')),
    (''layout'', PyStr (lit ''cards''))]\<rparr>\<close>

definition lab31_items_20 :: pyval where [lab31_contents]:
  \<open>lab31_items_20 =
   PyList
   [PyDict
     [(''title'', PyStr (lit ''CHECKLIST KEAMANAN PROTOKOL PRODUKSI'')),
      (''items'', PyList
        [PyStr (lit ''[ ] Parameter code_challenge dan '' @
            lit ''code_challenge_method=S256 wajib ada pada '' @
            lit ''setiap authorization request.''),
         PyStr (lit ''[ ] Code verifier di-generate dengan 32 '' @
            lit ''byte cryptographic random entropy (43-128 '' @
            lit ''base64url characters).''),
         PyStr (lit ''[ ] Authorization code berumur pendek (maks '' @
            lit ''5 menit) dan strictly single-use (ditandai '' @
            lit ''used setelah exchange).''),
         PyStr (lit ''[ ] ID Token diverifikasi secara '' @
            lit ''kriptografis: signature, iss, aud, exp, iat '' @
            lit ''window, dan nonce match.''),
         PyStr (lit ''[ ] Refresh token dirotasi setiap kali '' @
            lit ''digunakan; token lama seketika ditandai '' @ lit ''revoked di database.''),
         PyStr (lit ''[ ] Token family tracking aktif: penggunaan '' @
            lit ''ulang token yang sudah revoked membatalkan '' @
            lit ''seluruh silsilah sesi.''),
         PyStr (lit ''[ ] Bearer access token TIDAK PERNAH '' @
            lit ''disimpan di browser localStorage; gunakan '' @
            lit ''httpOnly SameSite cookies (BFF).''),
         PyStr (lit ''[ ] Implicit Grant dan Resource Owner '' @
            lit ''Password Credentials (ROPC) dinonaktifkan '' @
            lit ''sepenuhnya di server.''),
         PyStr (lit ''[ ] Endpoint token dilindungi dari race '' @
            lit ''condition melalui transaksi atomik atau '' @ lit ''distributed lock.'')]),
      (''type'', PyStr (lit ''bullet''))]]\<close>

definition lab31_slide_20 :: pycall where [lab31_slides]:
  \<open>lab31_slide_20 =
   \<lparr>posargs = [],
  kwargs =
   [(''categories'', PyList
      [PyStr (lit ''CHECKLIST''),
       PyStr (lit ''PRODUKSI'')]),
    (''title'', PyStr (lit ''Checklist Implementasi Produksi OAuth 2.0 & '' @ lit ''OIDC'')),
    (''subtitle'', PyStr (lit ''9 poin verifikasi wajib sebelum menggelar '' @
        lit ''sistem otorisasi dan identitas ke '' @ lit ''lingkungan produksi.'')),
    (''content_items'', lab31_items_20),
    (''narrative'', PyStr (lit ''Daftar periksa ini merangkum sembilan '' @
        lit ''prinsip krusial yang wajib dipenuhi sebelum '' @
        lit ''menggelar infrastruktur OAuth 2.0 dan OIDC '' @
        lit ''ke sistem produksi perbankan atau '' @
        lit ''enterprise. Seluruh alur harus mewajibkan '' @
        lit ''PKCE S256 tanpa toleransi metode plain, dan '' @
        lit ''masa berlaku authorization code dibatasi '' @
        lit ''maksimal lima menit. Verifikasi ID Token di '' @
        lit ''sisi client wajib mencakup seluruh aspek '' @
        lit ''kriptografi dan claims. Di lapisan '' @
        lit ''penyimpanan browser, penyimpanan token di '' @
        lit ''localStorage harus dihindari sepenuhnya '' @
        lit ''demi memitigasi risiko XSS.'')),
    (''narrative_en'', PyStr (lit ''This checklist codifies nine critical '' @
        lit ''requirements before deploying OAuth 2.0 and '' @
        lit ''OIDC infrastructure to production '' @
        lit ''enterprise environments. All authorization '' @
        lit ''requests must mandate PKCE S256, and '' @
        lit ''authorization codes must expire within five '' @
        lit ''minutes under strict single-use rules. '' @
        lit ''Client-side ID Token verification must '' @
        lit ''evaluate signatures and all mandatory '' @
        lit ''claims without shortcuts. Storing bearer '' @
        lit ''tokens in localStorage must be eliminated '' @
        lit ''in favor of hardened httpOnly SameSite '' @ lit ''cookie architectures.'')),
    (''mental_model'', PyStr (lit ''Enforce S256, verify every token claim, '' @
        lit ''rotate single-use credentials, and '' @
        lit ''quarantine tokens from localStorage.'')),
    (''source_path'', PyStr (lit ''labs/31-oauth2-and-oidc/content/02-master-dr'' @ lit ''aft.md:334-345'')),
    (''slide_num'', PyStr (lit ''20 / 24'')),
    (''layout'', PyStr (lit ''checklist''))]\<rparr>\<close>

definition lab31_items_21 :: pyval where [lab31_contents]:
  \<open>lab31_items_21 =
   PyList
   [PyDict
     [(''title'', PyStr (lit ''ANTI-PATTERN UMUM DI INDUSTRI'')),
      (''items'', PyList
        [PyStr (lit ''Access Token Pseudo-Auth: Memperlakukan '' @
            lit ''access token sebagai identitas tanpa ID '' @ lit ''Token OIDC.''),
         PyStr (lit ''Skipping Token Claims: Mengabaikan validasi '' @
            lit ''aud atau nonce pada JWT ID Token.''),
         PyStr (lit ''Token di LocalStorage: Menyimpan bearer '' @
            lit ''token di browser Web Storage yang mudah '' @ lit ''diakses XSS.''),
         PyStr (lit ''Refresh Token Statis: Tidak menerapkan '' @
            lit ''rotasi, membiarkan token curian hidup '' @ lit ''berminggu-minggu.'')]),
      (''type'', PyStr (lit ''card''))],
    PyDict
     [(''title'', PyStr (lit ''CARA REPRODUKSI GAGAL DI LAB'')),
      (''items'', PyList
        [PyStr (lit ''1. Hapus pengecekan '' @ [96] @ lit ''ac.Used'' @ [96] @ lit '' di '' @
            [96] @ lit ''server.go'' @ [96] @
            lit '' baris 141: auth code dapat diexchange '' @ lit ''berulang kali!''),
         PyStr (lit ''2. Ubah '' @ [96] @ lit ''meta.Revoked'' @ [96] @ lit '' di '' @ [96] @
            lit ''server.go'' @ [96] @ lit '' menjadi no-op: penyerang bebas mereplay '' @
            lit ''refresh token tanpa terdeteksi.''),
         PyStr (lit ''3. Hapus validasi signature di '' @ [96] @ lit ''oidc.go'' @ [96] @
            lit '': test '' @ [96] @ lit ''TestOIDC_IDToken_TamperedSignature'' @ [96] @
            lit '' langsung gagal membuktikan celah pemalsuan '' @ lit ''identitas.'')]),
      (''type'', PyStr (lit ''card''))]]\<close>

definition lab31_slide_21 :: pycall where [lab31_slides]:
  \<open>lab31_slide_21 =
   \<lparr>posargs = [],
  kwargs =
   [(''categories'', PyList
      [PyStr (lit ''ANTI-PATTERN''),
       PyStr (lit ''REPRODUKSI'')]),
    (''title'', PyStr (lit ''Anti-Pattern: Kesalahan Desain yang Kerap '' @ lit ''Terjadi'')),
    (''subtitle'', PyStr (lit ''Kekeliruan arsitektur yang membuka celah '' @
        lit ''pembajakan akun dan cara membuktikannya di '' @ lit ''lab.'')),
    (''content_items'', lab31_items_21),
    (''narrative'', PyStr (lit ''Mengabaikan prinsip dasar keamanan '' @
        lit ''identitas web dapat berakibat fatal bagi '' @
        lit ''perlindungan data pengguna. Anti-pattern '' @
        lit ''yang paling sering dijumpai adalah '' @
        lit ''menggunakan access token untuk autentikasi '' @
        lit ''dan menyimpan token berumur panjang di '' @
        lit ''localStorage. Hal ini memberikan jalan '' @
        lit ''bebas bagi serangan XSS untuk membajak akun '' @
        lit ''secara permanen. Pengembang dapat '' @
        lit ''mereproduksi kerentanan ini secara langsung '' @
        lit ''di lab dengan melonggarkan validasi '' @
        lit ''single-use pada server.go dan menyaksikan '' @
        lit ''test suite mendeteksi kegagalan tersebut.'')),
    (''narrative_en'', PyStr (lit ''Ignoring fundamental identity security '' @
        lit ''principles exposes enterprise user data to '' @
        lit ''catastrophic compromises. The most '' @
        lit ''pervasive anti-patterns include '' @ lit ''substituting access tokens for '' @
        lit ''authentication and persisting long-lived '' @
        lit ''credentials in browser localStorage, '' @
        lit ''allowing XSS scripts to harvest sessions. '' @
        lit ''Developers can reproduce these failure '' @
        lit ''states locally by relaxing single-use '' @
        lit ''validations in server.go and watching the '' @
        lit ''test suite instantly flag security '' @ lit ''violations.'')),
    (''mental_model'', PyStr (lit ''Never substitute access tokens for '' @
        lit ''identity; never store bearer tokens in '' @
        lit ''localStorage; test failure paths '' @ lit ''proactively.'')),
    (''source_path'', PyStr (lit ''labs/31-oauth2-and-oidc/content/02-master-dr'' @ lit ''aft.md:274-282'')),
    (''slide_num'', PyStr (lit ''21 / 24'')),
    (''layout'', PyStr (lit ''anti-pattern-cards''))]\<rparr>\<close>

definition lab31_items_22 :: pyval where [lab31_contents]:
  \<open>lab31_items_22 =
   PyList
   [PyDict
     [(''title'', PyStr (lit ''PERINTAH VERIFIKASI RESMI'')),
      (''items'', PyList
        [PyStr (lit ''cd labs/31-oauth2-and-oidc''),
         PyStr (lit ''go test -v ./...''),
         PyStr (lit ''go test -race ./...''),
         PyStr (lit ''go run ./cmd/demo'')]),
      (''type'', PyStr (lit ''code''))],
    PyDict
     [(''title'', PyStr (lit ''RINGKASAN METRIK LAB'')),
      (''items'', PyList
        [PyStr (lit ''Test Suite: 17/17 test cases lulus 100% '' @
            lit ''tanpa kegagalan (0.317s runtime).''),
         PyStr (lit ''Race Detector: Bersih dari thread '' @
            lit ''contention dan data races pada 20 worker '' @ lit ''(1.366s pass).''),
         PyStr (lit ''Zero Dependencies: Murni Go Standard '' @
            lit ''Library (crypto/hmac, crypto/sha256, '' @
            lit ''encoding/base64, sync) tanpa vendor '' @ lit ''eksternal.'')]),
      (''type'', PyStr (lit ''bullet''))]]\<close>

definition lab31_slide_22 :: pycall where [lab31_slides]:
  \<open>lab31_slide_22 =
   \<lparr>posargs = [],
  kwargs =
   [(''categories'', PyList
      [PyStr (lit ''PRAKTIS''),
       PyStr (lit ''COMMAND'')]),
    (''title'', PyStr (lit ''Verifikasi Mandiri: Uji & Jalankan Lab'')),
    (''subtitle'', PyStr (lit ''Reproduksi seluruh 17 unit test, pengujian '' @
        lit ''race detector, dan simulasi demo interaktif '' @ lit ''di terminal Anda.'')),
    (''content_items'', lab31_items_22),
    (''narrative'', PyStr (lit ''Lab ini dirancang agar dapat diverifikasi '' @
        lit ''secara mandiri dalam hitungan detik oleh '' @
        lit ''siapapun tanpa memerlukan instalasi '' @
        lit ''database eksternal. Seluruh logika '' @
        lit ''kriptografi JWT HS256 dan PKCE dibangun '' @
        lit ''murni menggunakan pustaka standar Go. '' @
        lit ''Perintah go test -v mengeksekusi 17 '' @
        lit ''pengujian komprehensif mulai dari bounds '' @
        lit ''verifier hingga rotasi refresh token. '' @
        lit ''Perintah go test -race memvalidasi '' @
        lit ''integritas state di bawah konkurensi '' @
        lit ''goroutine tinggi, dan go run demo '' @
        lit ''menyajikan visualisasi serangan nyata.'')),
    (''narrative_en'', PyStr (lit ''This laboratory is engineered for '' @
        lit ''immediate, frictionless peer verification '' @
        lit ''without external database infrastructure. '' @
        lit ''All JWT HS256 signing and PKCE '' @
        lit ''cryptographic logic is implemented using Go '' @
        lit ''standard library primitives. Running go '' @
        lit ''test -v executes 17 comprehensive test '' @
        lit ''suites covering verifier bounds and token '' @
        lit ''rotation. Executing go test -race proves '' @
        lit ''thread safety under multi-worker '' @
        lit ''contention, while go run demo demonstrates '' @
        lit ''real attack mitigations.'')),
    (''mental_model'', PyStr (lit ''Zero-dependency standard library code '' @
        lit ''enables deterministic, transparent '' @
        lit ''verification of security guarantees.'')),
    (''source_path'', PyStr (lit ''README.md:1-50 '' @ [0x2022] @ lit '' engineering/03-execution-result.md'')),
    (''slide_num'', PyStr (lit ''22 / 24'')),
    (''layout'', PyStr (lit ''command-block''))]\<rparr>\<close>

definition lab31_items_23 :: pyval where [lab31_contents]:
  \<open>lab31_items_23 =
   PyList
   [PyDict
     [(''title'', PyStr (lit ''1. OTORISASI BUKAN AUTENTIKASI'')),
      (''items'', PyList
        [PyStr (lit ''OAuth 2.0 memberikan izin akses ke resource '' @
            lit ''server via access token dengan scope '' @ lit ''terbatas.''),
         PyStr (lit ''OIDC memberikan bukti identitas pengguna '' @
            lit ''kepada client via ID Token JWT bertanda '' @ lit ''tangan.'')]),
      (''type'', PyStr (lit ''card''))],
    PyDict
     [(''title'', PyStr (lit ''2. BIND KREDENSIAL KE RUNTIME PEMINTA'')),
      (''items'', PyList
        [PyStr (lit ''Authorization code tidak boleh dipercaya '' @
            lit ''tanpa cryptographic proof-of-possession '' @ lit ''(PKCE S256).''),
         PyStr (lit ''Sesi login browser diikat secara unik ke ID '' @
            lit ''Token melalui parameter nonce acak.'')]),
      (''type'', PyStr (lit ''card''))],
    PyDict
     [(''title'', PyStr (lit ''3. ANGGAP TOKEN AKAN BOCOR: SINGLE-USE & '' @ lit ''ROTATE'')),
      (''items'', PyList
        [PyStr (lit ''Jangan pernah mempercayai refresh token '' @
            lit ''berumur panjang yang bersifat statis.''),
         PyStr (lit ''Gunakan rotasi token dengan pelacakan '' @
            lit ''family sehingga replay token basi bertindak '' @
            lit ''sebagai alarm pembajakan.'')]),
      (''type'', PyStr (lit ''card''))]]\<close>

definition lab31_slide_23 :: pycall where [lab31_slides]:
  \<open>lab31_slide_23 =
   \<lparr>posargs = [],
  kwargs =
   [(''categories'', PyList
      [PyStr (lit ''PRINSIP''),
       PyStr (lit ''ARSITEKTUR'')]),
    (''title'', PyStr (lit ''Prinsip Arsitektur: Desain Identitas '' @ lit ''Terdistribusi'')),
    (''subtitle'', PyStr (lit ''Tiga hukum fundamental dalam merancang '' @
        lit ''sistem otorisasi dan identitas yang tahan '' @ lit ''uji zaman.'')),
    (''content_items'', lab31_items_23),
    (''narrative'', PyStr (lit ''Tiga prinsip arsitektural ini melampaui '' @
        lit ''bahasa pemrograman dan framework apapun '' @
        lit ''dalam rekayasa perangkat lunak modern. '' @
        lit ''Pertama, tegakkan batas tegas antara '' @
        lit ''otorisasi dan autentikasi agar sistem tidak '' @
        lit ''terjebak dalam confused deputy attacks. '' @
        lit ''Kedua, jangan pernah mempercayai data yang '' @
        lit ''melintasi browser tanpa pembuktian '' @
        lit ''kepemilikan kriptografis seperti PKCE dan '' @
        lit ''nonce. Ketiga, terapkan paradigma Zero '' @
        lit ''Trust pada sesi pengguna: anggap kredensial '' @
        lit ''dapat bocor sewaktu-waktu, dan gunakan '' @
        lit ''rotasi token keluarga untuk melumpuhkan '' @ lit ''penyusup seketika.'')),
    (''narrative_en'', PyStr (lit ''These three architectural principles '' @
        lit ''transcend specific frameworks and languages '' @
        lit ''in modern software engineering. First, '' @
        lit ''enforce an absolute separation between '' @
        lit ''authorization and authentication to '' @
        lit ''eliminate confused deputy vulnerabilities. '' @
        lit ''Second, never trust credentials traversing '' @
        lit ''public browsers without cryptographic '' @
        lit ''proof-of-possession like PKCE and nonces. '' @
        lit ''Third, adopt a Zero Trust mindset for user '' @
        lit ''sessions: assume credentials leak, and '' @
        lit ''leverage family-tracked token rotation as '' @
        lit ''an automated defense mechanism.'')),
    (''mental_model'', PyStr (lit ''OAuth delegates permission; OIDC proves '' @
        lit ''identity; PKCE binds exchanges; family '' @
        lit ''rotation incinerates compromised sessions.'')),
    (''source_path'', PyStr (lit ''labs/31-oauth2-and-oidc/content/05-key-takea'' @ lit ''ways.md'')),
    (''slide_num'', PyStr (lit ''23 / 24'')),
    (''layout'', PyStr (lit ''principles-list''))]\<rparr>\<close>

definition lab31_items_24 :: pyval where [lab31_contents]:
  \<open>lab31_items_24 =
   PyList
   [PyDict
     [(''title'', PyStr (lit ''KOMPONEN ARSITEKTUR LAB'')),
      (''items'', PyList
        [PyStr (lit ''pkg/pkce/pkce.go '' @ [0x2014] @
            lit '' RFC 7636 PKCE S256 verifier & challenge '' @
            lit ''generator and validator''),
         PyStr (lit ''pkg/oidc/oidc.go '' @ [0x2014] @
            lit '' OpenID Connect Core 1.0 ID Token JWT '' @
            lit ''signer & 7-step claims verifier''),
         PyStr (lit ''pkg/server/server.go '' @ [0x2014] @
            lit '' In-memory AS with PKCE validation, token '' @
            lit ''minting, & family rotation''),
         PyStr (lit ''pkg/client/client.go '' @ [0x2014] @
            lit '' Client flow orchestrator for PKCE, token '' @
            lit ''exchange, and refresh''),
         PyStr (lit ''tests/oauth_test.go '' @ [0x2014] @
            lit '' 17 comprehensive unit & concurrent race '' @ lit ''test suites''),
         PyStr (lit ''cmd/demo/main.go '' @ [0x2014] @
            lit '' Complete interactive lifecycle and attack '' @
            lit ''mitigation demonstration'')]),
      (''type'', PyStr (lit ''bullet''))],
    PyDict
     [(''title'', PyStr (lit ''VERIFIKASI & REPOSITORI'')),
      (''items'', PyList
        [PyStr (lit ''Commit SHA: '' @ str_prefix 8 lab31_COMMIT_SHA),
         PyStr (lit ''Unit Tests: 17/17 PASS (100% clean, 0.317s)''),
         PyStr (lit ''Race Detector: PASS (zero data race, 1.366s)''),
         PyStr (lit ''Repositori: '' @ lit ''github.com/lukman-ss/software-engineering-la'' @
            lit ''b/tree/main/labs/'' @ lab31_LAB_NO @ lit ''-'' @ lab31_SLUG)]),
      (''type'', PyStr (lit ''bullet''))]]\<close>

definition lab31_slide_24 :: pycall where [lab31_slides]:
  \<open>lab31_slide_24 =
   \<lparr>posargs = [],
  kwargs =
   [(''categories'', PyList
      [PyStr (lit ''CLOSING'')]),
    (''title'', PyStr (lit ''Identitas Terverifikasi, Otorisasi '' @ lit ''Terlindungi, Sesi Aman.'')),
    (''subtitle'', PyStr []),
    (''content_items'', lab31_items_24),
    (''narrative'', PyStr (lit ''Laboratorium OAuth 2.0 & OpenID Connect ini '' @
        lit ''membuktikan secara konkret bahwa keamanan '' @
        lit ''identitas dan otorisasi modern dapat '' @
        lit ''dibangun secara elegan tanpa kompromi '' @
        lit ''performa. Melalui kombinasi Authorization '' @
        lit ''Code Flow yang diproteksi PKCE S256, '' @
        lit ''verifikasi kriptografis ID Token '' @
        lit ''bertingkat, serta rotasi refresh token '' @
        lit ''dengan deteksi replay keluarga, arsitektur '' @
        lit ''ini kebal terhadap intersepsi kode dan '' @
        lit ''pembajakan sesi. Seluruh kode sumber, '' @
        lit ''dokumentasi arsitektur, dan instruksi '' @
        lit ''verifikasi tersedia lengkap di repositori.'')),
    (''narrative_en'', PyStr (lit ''This OAuth 2.0 & OpenID Connect laboratory '' @
        lit ''provides definitive proof that modern '' @
        lit ''identity and authorization security can be '' @
        lit ''achieved cleanly without sacrificing '' @
        lit ''performance. By pairing Authorization Code '' @
        lit ''Flow fortified with PKCE S256, multi-step '' @
        lit ''cryptographic ID Token verification, and '' @
        lit ''family-tracked refresh token rotation, the '' @
        lit ''architecture remains fully resilient '' @
        lit ''against code interception and session '' @
        lit ''hijacking. Complete source code and '' @
        lit ''specifications are published in the '' @ lit ''repository.'')),
    (''mental_model'', PyStr (lit ''OAuth for permissions; OIDC for identity; '' @
        lit ''PKCE for proof; Family Rotation for session '' @ lit ''safety.'')),
    (''source_path'', PyStr lab31_REPO_URL),
    (''slide_num'', PyStr (lit ''24 / 24'')),
    (''layout'', PyStr (lit ''closing-dark-navy''))]\<rparr>\<close>

definition lab31_calls :: "pycall list" where
  "lab31_calls =
    [lab31_slide_01, lab31_slide_02, lab31_slide_03, lab31_slide_04, lab31_slide_05,
     lab31_slide_06, lab31_slide_07, lab31_slide_08, lab31_slide_09, lab31_slide_10,
     lab31_slide_11, lab31_slide_12, lab31_slide_13, lab31_slide_14, lab31_slide_15,
     lab31_slide_16, lab31_slide_17, lab31_slide_18, lab31_slide_19, lab31_slide_20,
     lab31_slide_21, lab31_slide_22, lab31_slide_23, lab31_slide_24]"

definition lab31_deck :: deck where
  "lab31_deck =
    \<lparr>add_slide = lab31_add_slide, lab_no = lab31_LAB_NO, title_id = lab31_TITLE_ID, calls = lab31_calls\<rparr>"

section \<open>Checks of the calls\<close>

lemma lab31_shapes:
  "\<forall>c \<in> set lab31_calls. shape_of c \<in> set
    [(0, [''categories'', ''title'', ''subtitle'', ''content_items'', ''mental_model'',
      ''source_path'', ''slide_num'', ''narrative'', ''narrative_en'', ''layout'']),
     (0, [''categories'', ''title'', ''subtitle'', ''content_items'', ''narrative'',
      ''narrative_en'', ''mental_model'', ''source_path'', ''slide_num'', ''layout''])]"
  by (simp only: lab31_calls_def lab31_slides shape_eval cong: pyval_opaque)

lemma lab31_calls_ok: "\<forall>c \<in> set lab31_calls. call_ok sig_layout c"
  by (rule calls_ok_by_shapes [OF lab31_shapes])
    (simp add: shape_ok_def param_names_def signature_defs core_params_def)

lemma lab31_labels: "map (\<lambda>c. value_of sig_layout c ''slide_num'') lab31_calls = labels_24"
  by (simp only: lab31_calls_def lab31_slides keyword_eval labels_24_eval cong: pyval_opaque)

lemma lab31_contents_of:
  "map (\<lambda>c. value_of sig_layout c ''content_items'') lab31_calls =
    [lab31_items_01, lab31_items_02, lab31_items_03, lab31_items_04, lab31_items_05,
     lab31_items_06, lab31_items_07, lab31_items_08, lab31_items_09, lab31_items_10,
     lab31_items_11, lab31_items_12, lab31_items_13, lab31_items_14, lab31_items_15,
     lab31_items_16, lab31_items_17, lab31_items_18, lab31_items_19, lab31_items_20,
     lab31_items_21, lab31_items_22, lab31_items_23, lab31_items_24]"
  by (simp only: lab31_calls_def lab31_slides keyword_eval cong: pyval_opaque)

lemma lab31_items: "item_defects sig_layout lab31_calls = []"
  by (simp only: item_defects_def lab31_contents_of)
    (simp add: lab31_contents item_eval cong: pystr_opaque)

end
