(* ===== verification/Deck32.thy ===== *)
theory Deck32
  imports DeckContract
begin

text \<open>
  The publication definition of lab 32, \<^verbatim>\<open>labs/32-database-sharding-and-partitioning/result/content_def.py\<close>:
  its module constants, every \<open>add_slide\<close> call in order (\<open>lab32_slide_01\<close> is the first),
  and the module as a whole (\<open>lab32_deck\<close>). Long strings are split into pieces that are
  concatenated; a character outside ASCII is its code point.
\<close>

named_theorems lab32_slides \<open>the add_slide calls of lab 32\<close>
named_theorems lab32_contents \<open>their content_items arguments\<close>

definition lab32_OUTPUT_DIR :: pystr where
  \<open>lab32_OUTPUT_DIR = lit ''labs/32-database-sharding-and-partitioning/r'' @ lit ''esult''\<close>

definition lab32_CHROME_BIN :: pystr where
  \<open>lab32_CHROME_BIN = lit ''/Applications/Google '' @ lit ''Chrome.app/Contents/MacOS/Google Chrome''\<close>

definition lab32_REPO_URL :: pystr where
  \<open>lab32_REPO_URL = lit ''https://github.com/lukman-ss/software-engine'' @
    lit ''ering-lab/tree/main/labs/32-database-shardin'' @ lit ''g-and-partitioning''\<close>

definition lab32_COMMIT_SHA :: pystr where
  \<open>lab32_COMMIT_SHA = lit ''04c8c8a4a7923bcdf081f946284fca58c5a38bea''\<close>

definition lab32_LAB_NO :: pystr where
  \<open>lab32_LAB_NO = lit ''32''\<close>

definition lab32_SLUG :: pystr where
  \<open>lab32_SLUG = lit ''database-sharding-and-partitioning''\<close>

definition lab32_TITLE_ID :: pystr where
  \<open>lab32_TITLE_ID = lit ''Database Sharding & Table Partitioning''\<close>

definition lab32_SUBTITLE_ID :: pystr where
  \<open>lab32_SUBTITLE_ID = lit ''Logical Pruning vs Physical Sharding, '' @
    lit ''Consistent Hashing, dan Eliminasi '' @ lit ''Scatter-Gather''\<close>

definition lab32_TITLE_EN :: pystr where
  \<open>lab32_TITLE_EN = lit ''Database Sharding & Table Partitioning''\<close>

definition lab32_SUBTITLE_EN :: pystr where
  \<open>lab32_SUBTITLE_EN = lit ''Logical Pruning vs Physical Sharding, '' @
    lit ''Consistent Hashing, and Scatter-Gather '' @ lit ''Elimination''\<close>

definition lab32_AUTHOR :: pystr where
  \<open>lab32_AUTHOR = lit ''Lukman / lukman-ss''\<close>

definition lab32_COVER_IMAGE_PATH :: pystr where
  \<open>lab32_COVER_IMAGE_PATH = lit ''labs/32-database-sharding-and-partitioning/r'' @
    lit ''esult/image-cover/cover_art.jpg''\<close>

definition lab32_DARK_NAVY :: pystr where
  \<open>lab32_DARK_NAVY = lit ''0b1b2d''\<close>

definition lab32_TEAL :: pystr where
  \<open>lab32_TEAL = lit ''087f76''\<close>

definition lab32_CREAM :: pystr where
  \<open>lab32_CREAM = lit ''f4f1e8''\<close>

definition lab32_WHITE :: pystr where
  \<open>lab32_WHITE = lit ''ffffff''\<close>

definition lab32_SLATE :: pystr where
  \<open>lab32_SLATE = lit ''52606b''\<close>

definition lab32_ORANGE :: pystr where
  \<open>lab32_ORANGE = lit ''d97706''\<close>

definition lab32_add_slide :: "pycall \<Rightarrow> pyval list \<Rightarrow> (pyexc, pyval list) res" where
  "lab32_add_slide = add_slide_layout"

definition lab32_items_01 :: pyval where [lab32_contents]:
  \<open>lab32_items_01 =
   PyList
   [PyDict
     [(''type'', PyStr (lit ''cover'')),
      (''title'', PyStr []),
      (''items'', PyList
        [PyStr (lit ''Visual Hero: Skalabilitas Data '' @
            lit ''Terdistribusi & Partisi Database''),
         PyStr (lit ''Mekanisme Inti: Partition Pruning, '' @
            lit ''Consistent Hash Ring, Global Secondary '' @ lit ''Index, UUIDv7''),
         PyStr (lit ''Penulis: '' @ lab32_AUTHOR)])]]\<close>

definition lab32_slide_01 :: pycall where [lab32_slides]:
  \<open>lab32_slide_01 =
   \<lparr>posargs = [],
  kwargs =
   [(''categories'', PyList
      [PyStr (lit ''COVER'')]),
    (''title'', PyStr lab32_TITLE_ID),
    (''subtitle'', PyStr lab32_SUBTITLE_ID),
    (''content_items'', lab32_items_01),
    (''mental_model'', PyStr (lit ''Logical partitioning divides tables within '' @
        lit ''one instance; physical sharding distributes '' @
        lit ''data across independent network nodes.'')),
    (''source_path'', PyStr lab32_REPO_URL),
    (''slide_num'', PyStr (lit ''01 / 24'')),
    (''narrative'', PyStr (lit ''Skalabilitas database relasional merupakan '' @
        lit ''tantangan paling kritis ketika volume data '' @
        lit ''melampaui kapasitas I/O dan memori satu '' @
        lit ''server. Kesalahan arsitektural yang paling '' @
        lit ''sering terjadi adalah mencampuradukkan '' @
        lit ''partisi logis satu mesin dengan sharding '' @
        lit ''fisik terdistribusi, memilih sharding key '' @
        lit ''monotonik yang memicu write hotspot, atau '' @
        lit ''membiarkan query non-shard key membanjiri '' @
        lit ''seluruh node via scatter-gather broadcast. '' @
        lit ''Lab ini membuktikan implementasi murni Go '' @
        lit ''untuk logical table partitioning dengan '' @
        lit ''query pruning, router consistent hashing '' @
        lit ''ring dengan virtual nodes untuk migrasi '' @
        lit ''data minimal saat scale-out, eliminasi '' @
        lit ''broadcast via Global Secondary Index, serta '' @
        lit ''pembangkitan ID unik terdistribusi berbasis '' @
        lit ''RFC 9562 UUIDv7 dan sequence block '' @ lit ''allocation.'')),
    (''narrative_en'', PyStr (lit ''Relational database scalability represents '' @
        lit ''the ultimate bottleneck when data volume '' @
        lit ''exceeds the single-node ceiling for storage '' @
        lit ''I/O and RAM. The most prevalent '' @
        lit ''architectural pitfalls include confusing '' @
        lit ''single-engine table partitioning with '' @
        lit ''multi-node physical sharding, selecting '' @
        lit ''monotonic keys that induce severe write '' @
        lit ''hotspots, or allowing un-sharded queries to '' @
        lit ''exhaust cluster resources through naive '' @
        lit ''scatter-gather broadcasts. This lab '' @
        lit ''demonstrates a pure Go implementation of '' @
        lit ''range-based logical table partitioning with '' @
        lit ''query pruning, consistent hashing ring '' @
        lit ''routers with virtual nodes for minimal '' @
        lit ''resharding shuffle, point-lookup routing '' @
        lit ''via Global Secondary Indexes, and '' @
        lit ''distributed unique ID generation via RFC '' @
        lit ''9562 UUIDv7 and sequence block allocation.'')),
    (''layout'', PyStr (lit ''cover''))]\<rparr>\<close>

definition lab32_items_02 :: pyval where [lab32_contents]:
  \<open>lab32_items_02 =
   PyList
   [PyDict
     [(''title'', PyStr (lit ''SINGLE-INSTANCE I/O CEILING'')),
      (''items'', PyList
        [PyStr (lit ''Ukuran working set melampaui buffer pool '' @
            lit ''RAM, memicu lonjakan disk I/O seek.''),
         PyStr (lit ''Write throughput tercekik oleh single WAL '' @
            lit ''lock contention dan disk fsync queue.''),
         PyStr (lit ''Operasi maintenance tabel raksasa (ALTER '' @
            lit ''TABLE, VACUUM) mengunci database berjam-jam.'')]),
      (''type'', PyStr (lit ''card''))],
    PyDict
     [(''title'', PyStr (lit ''MONOTONIC WRITE HOTSPOTS'')),
      (''items'', PyList
        [PyStr (lit ''Sharding key berbasis waktu ('' @ [96] @ lit ''created_at'' @ [96] @
            lit '') memusatkan 100% traffic tulis pada 1 '' @ lit ''shard aktif.''),
         PyStr (lit ''Shard lain menganggur sementara shard '' @
            lit ''target kehabisan CPU dan disk IOPS.''),
         PyStr (lit ''Partisi fisik kehilangan fungsi load '' @
            lit ''balancing akibat skew distribusi ekstrem.'')]),
      (''type'', PyStr (lit ''card''))],
    PyDict
     [(''title'', PyStr (lit ''SCATTER-GATHER EXHAUSTION'')),
      (''items'', PyList
        [PyStr (lit ''Query tanpa sharding key ('' @ [96] @ lit ''email'' @ [96] @
            lit '') memaksa broadcast paralel ke 100% shard '' @ lit ''cluster.''),
         PyStr (lit ''Satu query lambat di satu shard menahan '' @
            lit ''total latency (straggler problem).''),
         PyStr (lit ''Throughput cluster ambruk dari $O(N)$ '' @
            lit ''menjadi $O(1)$ di bawah konkurensi tinggi.'')]),
      (''type'', PyStr (lit ''card''))]]\<close>

definition lab32_slide_02 :: pycall where [lab32_slides]:
  \<open>lab32_slide_02 =
   \<lparr>posargs = [],
  kwargs =
   [(''categories'', PyList
      [PyStr (lit ''MOTIVASI''),
       PyStr (lit ''SCALABILITY BOTTLENECK'')]),
    (''title'', PyStr (lit ''Masalah Nyata: Batasan Skala Database '' @ lit ''Monolitik'')),
    (''subtitle'', PyStr (lit ''Ketika beban write dan volume data menembus '' @
        lit ''batas komputasi satu mesin database.'')),
    (''content_items'', lab32_items_02),
    (''narrative'', PyStr (lit ''Dalam arsitektur backend skala besar, '' @
        lit ''database monolitik pada akhirnya akan '' @
        lit ''membentur batasan fisik perangkat keras. '' @
        lit ''Ketika kapasitas buffer pool RAM terlewati, '' @
        lit ''operasi baca-tulis terpaksa bergantung pada '' @
        lit ''I/O disk yang lambat, sementara proses '' @
        lit ''pemeliharaan tabel seperti VACUUM atau DDL '' @
        lit ''migrations melumpuhkan throughput produksi. '' @
        lit ''Lebih parah lagi, ketika tim mencoba '' @
        lit ''melakukan sharding horizontal namun keliru '' @
        lit ''memilih kunci partisi berbasis timestamp, '' @
        lit ''seluruh beban tulis terkonsentrasi pada '' @
        lit ''satu node aktif saja. Sementara itu, query '' @
        lit ''pencarian sekunder tanpa shard key memicu '' @
        lit ''banjir broadcast scatter-gather yang '' @
        lit ''menghabiskan CPU di seluruh penjuru cluster.'')),
    (''narrative_en'', PyStr (lit ''In hyper-scale backend architectures, '' @
        lit ''monolithic database engines inevitably '' @
        lit ''strike the physical boundaries of vertical '' @
        lit ''hardware scaling. Once working set memory '' @
        lit ''exceeds buffer pool limits, operations '' @
        lit ''degrade into disk-bound latency spirals '' @
        lit ''while administrative maintenance like '' @
        lit ''VACUUM or DDL migrations severely locks '' @
        lit ''production throughput. Worse, when '' @
        lit ''engineering teams transition to horizontal '' @
        lit ''sharding using sequential timestamp keys, '' @
        lit ''write traffic bottlenecks entirely onto a '' @
        lit ''single active shard. Meanwhile, secondary '' @
        lit ''lookups without shard keys trigger '' @
        lit ''scatter-gather broadcast storms that '' @
        lit ''saturate CPU across all nodes.'')),
    (''mental_model'', PyStr (lit ''Vertical scaling hits hardware walls; naive '' @
        lit ''horizontal sharding without key topology '' @
        lit ''introduces devastating write hotspots and '' @ lit ''broadcast storms.'')),
    (''source_path'', PyStr (lit ''labs/32-database-sharding-and-partitioning/c'' @
        lit ''ontent/01-content-brief.md:3-6'')),
    (''slide_num'', PyStr (lit ''02 / 24'')),
    (''layout'', PyStr (lit ''cards''))]\<rparr>\<close>

definition lab32_items_03 :: pyval where [lab32_contents]:
  \<open>lab32_items_03 =
   PyList
   [PyDict
     [(''title'', PyStr (lit ''KODE ROUTING HASH MODULO NAIF'')),
      (''items'', PyList
        [PyStr (lit ''func (m *ModuloRouter) GetShard(key string) '' @ lit ''(string, error) {''),
         PyStr (lit ''    // BAHAYA FATAL: Indeks berubah total '' @ lit ''saat N bertambah!''),
         PyStr (lit ''    h := fnv64a(key)''),
         PyStr (lit ''    idx := int(h % uint64(len(m.shards))) '' @ lit ''// Modulo N''),
         PyStr (lit ''    return m.shards[idx], nil''),
         PyStr (lit ''}''),
         PyStr (lit ''// Scale-out 4 -> 5 nodes: 79.84% data '' @ lit ''berpindah shard!''),
         PyStr (lit ''// Akibat: Network saturasi, cache '' @
            lit ''invalidation masif, outage produksi.'')]),
      (''type'', PyStr (lit ''code''))],
    PyDict
     [(''title'', PyStr (lit ''KEGAGALAN FUNDAMENTAL TEKNIK NAIF'')),
      (''items'', PyList
        [PyStr (lit ''Data Shuffling Masif: Menambah 1 node dari '' @
            lit ''$N$ ke $N+1$ memindahkan $'' @ [92] @ lit ''approx '' @ [92] @
            lit ''frac{N}{N+1}$ ($75'' @ [92] @ lit ''% - 80'' @ [92] @
            lit ''%$) seluruh dataset.''),
         PyStr (lit ''Write Hotspot Monotonik: Shard key urut '' @ lit ''waktu ('' @ [96] @
            lit ''2026-09-28'' @ [96] @ lit '') mengarahkan 1.000 dari 1.000 insert ke '' @
            lit ''satu node saja.''),
         PyStr (lit ''Scatter-Gather Stragglers: Mencari tanpa '' @
            lit ''shard key membroadcast $N$ node; latensi '' @
            lit ''query sama dengan node terlambat ($P_{99}$).''),
         PyStr (lit ''Distributed ID Collision: Auto-increment '' @
            lit ''native lokal menghasilkan ID duplikat '' @
            lit ''lintas shard tanpa sequence coordinator.'')]),
      (''type'', PyStr (lit ''bullet''))]]\<close>

definition lab32_slide_03 :: pycall where [lab32_slides]:
  \<open>lab32_slide_03 =
   \<lparr>posargs = [],
  kwargs =
   [(''categories'', PyList
      [PyStr (lit ''ANALISIS''),
       PyStr (lit ''PENDEKATAN NAIF'')]),
    (''title'', PyStr (lit ''Mengapa Hash Modulo Sederhana & Shard '' @ lit ''Monotonik Gagal?'')),
    (''subtitle'', PyStr (lit ''Formula hash(key) % N memicu bencana '' @
        lit ''migrasi 80% data saat menambah satu server.'')),
    (''content_items'', lab32_items_03),
    (''narrative'', PyStr (lit ''Pendekatan naif kerap mengimplementasikan '' @
        lit ''sharding menggunakan operator modulo '' @
        lit ''sederhana hash(key) % N. Ketika sistem '' @
        lit ''perlu menambah node ke-5 untuk mengatasi '' @
        lit ''lonjakan beban, rumus modulo berubah '' @
        lit ''seketika dan memaksa hampir 80 persen data '' @
        lit ''berpindah antar server di jaringan. Proses '' @
        lit ''resharding ini menyebabkan lonjakan '' @
        lit ''transfer data terabyte, hilangnya cache '' @
        lit ''memory, dan downtime sistemik. Selain itu, '' @
        lit ''penggunaan auto-increment lokal di '' @
        lit ''masing-masing shard mengakibatkan bentrokan '' @
        lit ''primary key, sedangkan query tanpa shard '' @
        lit ''key membebani seluruh server secara '' @ lit ''bersamaan.'')),
    (''narrative_en'', PyStr (lit ''Naive distributed implementations commonly '' @
        lit ''route records via elementary modulo hashing '' @
        lit ''hash(key) % N. When scaling from 4 to 5 '' @
        lit ''nodes to handle traffic surges, the modulo '' @
        lit ''denominator shifts across the entire '' @
        lit ''keyspace, forcing nearly 80 percent of all '' @
        lit ''stored records to migrate across the '' @
        lit ''network simultaneously. This resharding '' @
        lit ''storm exhausts network bandwidth, flushes '' @
        lit ''caches, and often triggers catastrophic '' @
        lit ''cascading outages. Concurrently, localized '' @
        lit ''auto-increment sequences generate colliding '' @
        lit ''IDs, and un-routed lookups stall waiting on '' @
        lit ''the slowest broadcast response.'')),
    (''mental_model'', PyStr (lit ''Hash modulo forces global data relocation '' @
        lit ''on resize; monotonic keys destroy '' @ lit ''horizontal write concurrency.'')),
    (''source_path'', PyStr (lit ''internal/sharding/sharding.go:31-53 '' @ [0x2022] @
        lit '' content/04-diagrams.md:58-75'')),
    (''slide_num'', PyStr (lit ''03 / 24'')),
    (''layout'', PyStr (lit ''code-bullet''))]\<rparr>\<close>

definition lab32_items_04 :: pyval where [lab32_contents]:
  \<open>lab32_items_04 =
   PyList
   [PyDict
     [(''title'', PyStr (lit ''STRUKTUR DATA GO: TABLE PARTITION VS SHARD '' @ lit ''CLUSTER'')),
      (''items'', PyList
        [PyStr (lit ''type PartitionRange struct {''),
         PyStr (lit ''    Name  string; Start time.Time; End '' @
            lit ''time.Time // Range [Start, End)''),
         PyStr (lit ''}''),
         PyStr (lit ''type Table struct { // Single Engine '' @ lit ''Logical Partitioning''),
         PyStr (lit ''    Name string; partitions []*Partition // '' @
            lit ''Pruning lokal via overlap check''),
         PyStr (lit ''}''),
         PyStr (lit ''type Cluster struct { // Multi-Node '' @ lit ''Physical Sharding''),
         PyStr (lit ''    shards map[string]*Shard // Server '' @ lit ''fisik independen''),
         PyStr (lit ''    router Router           // Consistent '' @
            lit ''Hash Ring dengan Virtual Nodes''),
         PyStr (lit ''    gsi    *GlobalSecondaryIndex // Lookup '' @
            lit ''Vindex mapping non-shard keys''),
         PyStr (lit ''}'')]),
      (''type'', PyStr (lit ''code''))],
    PyDict
     [(''title'', PyStr (lit ''DIKOTOMI ARSITEKTUR FUNDAMENTAL'')),
      (''items'', PyList
        [PyStr (lit ''Logical Partitioning (1 Mesin): Membagi 1 '' @
            lit ''tabel menjadi sub-tabel terpisah pada disk '' @
            lit ''yang sama. CPU & RAM tetap shared.''),
         PyStr (lit ''Keunggulan Partisi: Query pruning '' @
            lit ''mengeliminasi scan sub-tabel lain; '' @ [96] @ lit ''DROP PARTITION'' @
            [96] @ lit '' instan menghapus data tanpa VACUUM.''),
         PyStr (lit ''Physical Sharding (N Mesin): Membagi '' @
            lit ''dataset ke beberapa server mandiri '' @
            lit ''(Shared-Nothing). Melampaui limit RAM/IOPS.''),
         PyStr (lit ''Router Ring & GSI: Router konsisten '' @
            lit ''memetakan shard key ke node; GSI memetakan '' @
            lit ''atribut sekunder ('' @ [96] @ lit ''email'' @ [96] @ lit '' -> '' @ [96] @
            lit ''shardKey'' @ [96] @ lit '').'')]),
      (''type'', PyStr (lit ''bullet''))]]\<close>

definition lab32_slide_04 :: pycall where [lab32_slides]:
  \<open>lab32_slide_04 =
   \<lparr>posargs = [],
  kwargs =
   [(''categories'', PyList
      [PyStr (lit ''MENTAL MODEL''),
       PyStr (lit ''SCHEMA'')]),
    (''title'', PyStr (lit ''Mental Model: Logical Partitioning vs '' @ lit ''Physical Sharding'')),
    (''subtitle'', PyStr (lit ''Membedakan partisi internal satu mesin dari '' @
        lit ''kluster terdistribusi lintas node jaringan.'')),
    (''content_items'', lab32_items_04),
    (''narrative'', PyStr (lit ''Mental model sistem data terdistribusi '' @
        lit ''bertumpu pada pemisahan konsep yang tegas '' @
        lit ''antara partisi logis dan sharding fisik. '' @
        lit ''Logical Partitioning adalah fitur mesin '' @
        lit ''database tunggal (seperti declarative '' @
        lit ''partitioning di PostgreSQL) yang membagi '' @
        lit ''file fisik tabel berdasarkan rentang waktu '' @
        lit ''untuk mempercepat query pruning dan '' @
        lit ''pembuangan data historis tanpa beban '' @
        lit ''garbage collection. Sebaliknya, Physical '' @
        lit ''Sharding adalah arsitektur shared-nothing '' @
        lit ''di mana setiap shard merupakan instance '' @
        lit ''database mandiri dengan memori dan disk '' @
        lit ''terisolasi. Sharding router dan Global '' @
        lit ''Secondary Index (GSI) bertindak sebagai '' @
        lit ''koordinator untuk mengarahkan trafik '' @ lit ''aplikasi secara akurat.'')),
    (''narrative_en'', PyStr (lit ''The architectural mental model requires '' @
        lit ''maintaining an uncompromising conceptual '' @
        lit ''divide between logical partitioning and '' @
        lit ''physical sharding. Logical Partitioning '' @
        lit ''resides within a single database engine '' @
        lit ''(such as PostgreSQL declarative '' @
        lit ''partitioning), segmenting table storage '' @
        lit ''into discrete sub-tables bounded by time '' @
        lit ''ranges to accelerate query pruning and '' @
        lit ''enable instantaneous data drops without '' @
        lit ''table bloat. In stark contrast, Physical '' @
        lit ''Sharding is a shared-nothing distributed '' @
        lit ''architecture where each shard is an '' @
        lit ''isolated database server with dedicated '' @
        lit ''CPU, RAM, and storage, governed by a '' @
        lit ''cluster router and Global Secondary Indexes.'')),
    (''mental_model'', PyStr (lit ''Partitioning optimizes data lifecycle on '' @
        lit ''one server; sharding scales compute and '' @
        lit ''storage across independent physical nodes.'')),
    (''source_path'', PyStr (lit ''internal/partitioning/table.go:20-57 '' @ [0x2022] @
        lit '' internal/sharding/sharding.go:253-272'')),
    (''slide_num'', PyStr (lit ''04 / 24'')),
    (''layout'', PyStr (lit ''schema-card''))]\<rparr>\<close>

definition lab32_items_05 :: pyval where [lab32_contents]:
  \<open>lab32_items_05 =
   PyList
   [PyDict
     [(''title'', PyStr (lit ''SEKUENSI EKSEKUSI DATABASE TERDISTRIBUSI'')),
      (''items'', PyList
        [PyStr (lit ''1. Client Query Ingestion: Request membawa '' @
            lit ''payload record atau query kriteria '' @ lit ''pencarian.''),
         PyStr (lit ''2. Single-Node Path: Jika query temporal '' @ lit ''pada Table lokal '' @
            [0x2192] @ lit '' QueryRange() mengecek overlap [start, end) '' @ [0x2192] @
            lit '' Scan hanya 1 partisi (Pruned 3).''),
         PyStr (lit ''3. Sharded Write Path: Insert(rec) '' @ [0x2192] @
            lit '' Hash(rec.ShardKey) dievaluasi pada '' @ lit ''Consistent Hash Ring '' @
            [0x2192] @ lit '' Arahkan langsung ke Shard target.''),
         PyStr (lit ''4. Sharded Read with ShardKey: '' @ lit ''GetByShardKey(sk, id) '' @
            [0x2192] @ lit '' Router lookup $O('' @ [92] @
            lit ''log V)$ via binary search vnodes '' @ [0x2192] @
            lit '' 1 Direct Point Lookup.''),
         PyStr (lit ''5. Secondary Key Read (with GSI): '' @
            lit ''GetByEmailUsingGSI(email, id) '' @ [0x2192] @
            lit '' GSI Lookup Vindex memetakan email '' @ [0x2192] @ lit '' ShardKey '' @
            [0x2192] @ lit '' Direct Fetch (1 node).''),
         PyStr (lit ''6. Fallback Read (No ShardKey / No GSI): '' @
            lit ''ScatterGatherBroadcast() '' @ [0x2192] @
            lit '' Goroutines paralel menembak seluruh N '' @ lit ''Shard '' @ [0x2192] @
            lit '' Gabungkan hasil.'')]),
      (''type'', PyStr (lit ''diagram''))]]\<close>

definition lab32_slide_05 :: pycall where [lab32_slides]:
  \<open>lab32_slide_05 =
   \<lparr>posargs = [],
  kwargs =
   [(''categories'', PyList
      [PyStr (lit ''ARSITEKTUR''),
       PyStr (lit ''PIPELINE'')]),
    (''title'', PyStr (lit ''Pipeline End-to-End: Routing, Pruning, & '' @ lit ''GSI Resolution'')),
    (''subtitle'', PyStr (lit ''Alur keputusan query: Evaluasi Shard Key '' @ [0x2192] @
        lit '' Consistent Hash Ring '' @ [0x2192] @ lit '' Direct vs Scatter-Gather.'')),
    (''content_items'', lab32_items_05),
    (''narrative'', PyStr (lit ''Pipeline eksekusi ini menggambarkan '' @
        lit ''bagaimana database menangani berbagai pola '' @
        lit ''akses data secara efisien. Pada operasi '' @
        lit ''temporal di single node, query planner '' @
        lit ''langsung memangkas (pruning) partisi yang '' @
        lit ''tidak relevan sehingga I/O disk berkurang '' @
        lit ''drastis. Pada cluster sharded, operasi '' @
        lit ''write dan read yang menyertakan sharding '' @
        lit ''key diarahkan secara presisi ke satu node '' @
        lit ''spesifik via consistent hash ring. Ketika '' @
        lit ''client mencari data berdasarkan atribut '' @
        lit ''non-shard key seperti email, Global '' @
        lit ''Secondary Index memetakan email ke shard '' @
        lit ''key terkait sehingga kueri tetap menjadi '' @
        lit ''point-lookup 1-node dan menghindari bencana '' @ lit ''broadcast paralel.'')),
    (''narrative_en'', PyStr (lit ''This comprehensive pipeline illustrates the '' @
        lit ''decision topology for distributed data '' @
        lit ''operations. For temporal single-node '' @
        lit ''queries, the query planner executes '' @
        lit ''partition pruning, reading only overlapping '' @
        lit ''partitions and slashing disk I/O. Within '' @
        lit ''the sharded cluster, read and write '' @
        lit ''operations supplying the shard key route '' @
        lit ''directly through the consistent hashing '' @
        lit ''ring via binary search into the target '' @
        lit ''node. When querying by secondary attributes '' @
        lit ''like email, the Global Secondary Index '' @
        lit ''resolves the shard key upfront, converting '' @
        lit ''an expensive cluster-wide broadcast into a '' @
        lit ''targeted single-node fetch.'')),
    (''mental_model'', PyStr (lit ''Shard keys route directly; GSI resolves '' @
        lit ''secondary lookups; scatter-gather remains '' @
        lit ''the expensive last resort.'')),
    (''source_path'', PyStr (lit ''internal/sharding/sharding.go:280-340 '' @ [0x2022] @
        lit '' internal/partitioning/table.go:87-119'')),
    (''slide_num'', PyStr (lit ''05 / 24'')),
    (''layout'', PyStr (lit ''pipeline-diagram''))]\<rparr>\<close>

definition lab32_items_06 :: pyval where [lab32_contents]:
  \<open>lab32_items_06 =
   PyList
   [PyDict
     [(''title'', PyStr (lit ''CONSISTENT HASH ROUTER IMPLEMENTATION'')),
      (''items'', PyList
        [PyStr (lit ''func (ch *ConsistentHashRouter) '' @
            lit ''GetShard(key string) (string, error) {''),
         PyStr (lit ''    ch.mu.RLock(); defer ch.mu.RUnlock()''),
         PyStr (lit ''    if len(ch.ring) == 0 { return "", '' @ lit ''ErrShardNotFound }''),
         PyStr (lit ''    h := hashKey(key)''),
         PyStr (lit ''    // Binary search vnode pertama dengan '' @ lit ''hash >= h''),
         PyStr (lit ''    idx := sort.Search(len(ch.ring), func(i '' @ lit ''int) bool {''),
         PyStr (lit ''        return ch.ring[i].hash >= h''),
         PyStr (lit ''    })''),
         PyStr (lit ''    if idx == len(ch.ring) { idx = 0 } // '' @
            lit ''Wrap-around ke awal ring''),
         PyStr (lit ''    return ch.ring[idx].shardID, nil''),
         PyStr (lit ''}'')]),
      (''type'', PyStr (lit ''code''))]]\<close>

definition lab32_slide_06 :: pycall where [lab32_slides]:
  \<open>lab32_slide_06 =
   \<lparr>posargs = [],
  kwargs =
   [(''categories'', PyList
      [PyStr (lit ''IMPLEMENTASI''),
       PyStr (lit ''CODE'')]),
    (''title'', PyStr (lit ''Implementasi Inti: Consistent Hashing Ring '' @ lit ''dengan Virtual Nodes'')),
    (''subtitle'', PyStr (lit ''Algoritma routing ring '' @ lit ''internal/sharding/sharding.go: binary '' @
        lit ''search vnode & FNV-1a hash.'')),
    (''content_items'', lab32_items_06),
    (''narrative'', PyStr (lit ''Potongan kode ini merupakan mesin pengarah '' @ lit ''utama dalam modul '' @
        lit ''internal/sharding/sharding.go. Struktur '' @
        lit ''ConsistentHashRouter merepresentasikan '' @
        lit ''ruang cincin 64-bit yang dipetakan oleh '' @
        lit ''ribuan virtual nodes (misal 100 vnodes per '' @
        lit ''physical shard). Saat kunci data masuk, '' @
        lit ''fungsi hashKey menghitung nilai FNV-1a '' @
        lit ''64-bit, lalu fungsi sort.Search '' @
        lit ''mengeksekusi binary search dalam waktu '' @
        lit ''logaritmik O(log V) untuk menemukan virtual '' @
        lit ''node pertama yang memiliki nilai hash lebih '' @
        lit ''besar atau sama. Jika nilai hash melewati '' @
        lit ''batas maksimum ring, pencarian wrap-around '' @
        lit ''kembali ke indeks 0, menjamin distribusi '' @ lit ''seragam.'')),
    (''narrative_en'', PyStr (lit ''This snippet forms the operational core of '' @
        lit ''the routing engine inside '' @ lit ''internal/sharding/sharding.go. The '' @
        lit ''ConsistentHashRouter manages a continuous '' @
        lit ''64-bit circular keyspace populated by '' @
        lit ''virtual nodes (100 vnodes per physical '' @
        lit ''shard). When a key is evaluated, hashKey '' @
        lit ''computes its 64-bit FNV-1a hash, and '' @
        lit ''sort.Search executes a logarithmic binary '' @
        lit ''search O(log V) to identify the first '' @
        lit ''virtual node whose token meets or exceeds '' @
        lit ''the key hash. If the hash overshoots the '' @
        lit ''maximum vnode on the ring, it wraps around '' @
        lit ''to index 0, guaranteeing uniform '' @ lit ''deterministic routing.'')),
    (''mental_model'', PyStr (lit ''Binary search on a sorted virtual node ring '' @
        lit ''delivers deterministic, uniform O(log V) '' @ lit ''routing.'')),
    (''source_path'', PyStr (lit ''labs/32-database-sharding-and-partitioning/i'' @
        lit ''nternal/sharding/sharding.go:143-160'')),
    (''slide_num'', PyStr (lit ''06 / 24'')),
    (''layout'', PyStr (lit ''code-dominant''))]\<rparr>\<close>

definition lab32_items_07 :: pyval where [lab32_contents]:
  \<open>lab32_items_07 =
   PyList
   [PyDict
     [(''title'', PyStr (lit ''TERMINAL HOTSPOT & RESHARDING TRACE'')),
      (''items'', PyList
        [PyStr (lit ''[Scenario A] Monotonic Key (date-string '' @ [39] @ lit ''2026-09-28'' @
            [39] @ lit '') Sharding:''),
         PyStr (lit ''  Node shard-0: 0 records    [              '' @ lit ''                ]''),
         PyStr (lit ''  Node shard-1: 0 records    [              '' @ lit ''                ]''),
         PyStr (lit ''  Node shard-2: 1000 records '' @
            lit ''[##############################] (100% '' @ lit ''HOTSPOT!)''),
         PyStr (lit ''  Node shard-3: 0 records    [              '' @ lit ''                ]''),
         PyStr (lit ''Result: Severe Write Hotspot! 100% writes '' @ lit ''hit single shard.''),
         PyStr (lit ''--------------------------------------------'' @
            lit ''------------------------------------''),
         PyStr (lit ''[Scenario C] Resharding Scale-Out '' @
            lit ''Comparison (4 Shards -> 5 Shards, 10,000 '' @ lit ''Keys):''),
         PyStr (lit ''  Hash Modulo (N % M) Keys Remapped : 7,984 '' @
            lit ''/ 10,000 (79.84% moved! BENCANA NETWORK)''),
         PyStr (lit ''  Consistent Hashing Keys Remapped  : 1,200 '' @
            lit ''/ 10,000 (12.00% moved! MINIMAL SHUFFLE)'')]),
      (''type'', PyStr (lit ''terminal''))],
    PyDict
     [(''title'', PyStr (lit ''ANALISIS KEGAGALAN SISTEMATIS'')),
      (''items'', PyList
        [PyStr (lit ''Hotspot Monotonik: Shard key berbasis '' @
            lit ''tanggal memusatkan 1.000 transaksi ke '' @ [96] @ lit ''shard-2'' @ [96] @
            lit ''; 3 shard lainnya menganggur total.''),
         PyStr (lit ''Bencana Modulo Resharding: Penambahan 1 '' @
            lit ''node merombak 79.84% data; jaringan '' @
            lit ''tercekik sinkronisasi dan database terkunci.''),
         PyStr (lit ''Mitigasi Lab: Consistent hashing ring '' @
            lit ''membatasi relokasi data ke angka 12.00%, '' @
            lit ''mendekati batas teoritis minimal $1/(N+1) = '' @ lit ''20'' @ [92] @
            lit ''%$.'')]),
      (''type'', PyStr (lit ''bullet''))]]\<close>

definition lab32_slide_07 :: pycall where [lab32_slides]:
  \<open>lab32_slide_07 =
   \<lparr>posargs = [],
  kwargs =
   [(''categories'', PyList
      [PyStr (lit ''FAILURE PATH''),
       PyStr (lit ''BUKTI'')]),
    (''title'', PyStr (lit ''Failure Path: Bencana Shard Key Monotonik & '' @ lit ''Resharding Modulo'')),
    (''subtitle'', PyStr (lit ''Log terminal membuktikan 100% write hotspot '' @
        lit ''pada 1 shard dan lonjakan 79.84% migrasi '' @ lit ''data.'')),
    (''content_items'', lab32_items_07),
    (''narrative'', PyStr (lit ''Bukti failure path ini diambil langsung '' @
        lit ''dari hasil eksekusi program demo '' @
        lit ''cmd/demo/main.go. Pada Skenario A, '' @
        lit ''penggunaan kunci sharding monotonik '' @
        lit ''berbasis tanggal kalender menyebabkan 1.000 '' @
        lit ''dari 1.000 data masuk ke satu node shard-2, '' @
        lit ''membuktikan bagaimana shard key yang salah '' @
        lit ''memusatkan beban 100 persen dan melumpuhkan '' @
        lit ''kapasitas I/O satu server. Pada Skenario C, '' @
        lit ''saat cluster melakukan scale-out dari 4 '' @
        lit ''menjadi 5 node, algoritma hash modulo '' @
        lit ''memindahkan 7.984 dari 10.000 key (79.84 '' @
        lit ''persen). Sebaliknya, consistent hashing '' @
        lit ''hanya memindahkan 1.200 key (12.00 persen), '' @
        lit ''membuktikan keunggulan arsitekturalnya.'')),
    (''narrative_en'', PyStr (lit ''This concrete failure trace is captured '' @
        lit ''directly from the execution of '' @
        lit ''cmd/demo/main.go. In Scenario A, employing '' @
        lit ''a monotonic date-based sharding key '' @
        lit ''channels 1,000 out of 1,000 inserts into a '' @
        lit ''single physical instance (shard-2), '' @
        lit ''visually proving how improper key selection '' @
        lit ''creates a 100% write bottleneck that '' @
        lit ''nullifies horizontal capacity. In Scenario '' @
        lit ''C, expanding the cluster from 4 to 5 shards '' @
        lit ''under modulo routing relocates 7,984 of '' @
        lit ''10,000 keys (79.84%). In contrast, '' @
        lit ''consistent hashing moves merely 1,200 keys '' @
        lit ''(12.00%), preserving stability.'')),
    (''mental_model'', PyStr (lit ''Monotonic keys crush single instances with '' @
        lit ''100% write skew; modulo resizing triggers '' @
        lit ''network-saturating data avalanches.'')),
    (''source_path'', PyStr (lit ''cmd/demo/main.go:52-139 '' @ [0x2022] @
        lit '' engineering/03-execution-result.md:74-95'')),
    (''slide_num'', PyStr (lit ''07 / 24'')),
    (''layout'', PyStr (lit ''failure-path''))]\<rparr>\<close>

definition lab32_items_08 :: pyval where [lab32_contents]:
  \<open>lab32_items_08 =
   PyList
   [PyDict
     [(''title'', PyStr (lit ''TABEL EVALUASI MEKANISME SKALABILITAS '' @ lit ''DATABASE'')),
      (''items'', PyList
        [PyStr (lit ''Mekanisme | Arsitektur Target | Keunggulan '' @
            lit ''Utama | Limitasi / Kerentanan Kritis | '' @ lit ''Ketahanan Produksi''),
         PyStr (lit ''Logical Partitioning | Single Engine (1 '' @
            lit ''Node) | Query pruning, fast '' @ [96] @ lit ''DROP PARTITION'' @ [96] @
            lit '' | Shared CPU/RAM; tidak menyelesaikan '' @
            lit ''limit I/O fisik | Sangat Baik (Lifecycle '' @ lit ''Data)''),
         PyStr (lit ''Hash Modulo ($K '' @ [92] @
            lit ''% N$) | Multi-Node Cluster | Algoritma '' @
            lit ''$O(1)$ sangat sederhana | Relokasi data '' @ lit ''masif $'' @ [92] @
            lit ''approx '' @ [92] @ lit ''frac{N}{N+1}$ saat resharding | Buruk '' @
            lit ''(Dilarang saat Resizing Dinamis)''),
         PyStr (lit ''Consistent Hashing | Multi-Node Cluster | '' @
            lit ''Relokasi minimal $'' @ [92] @ lit ''approx '' @ [92] @
            lit ''frac{1}{N+1}$ saat scale-out | Membutuhkan '' @
            lit ''virtual nodes untuk mencegah data skew | '' @
            lit ''Unggul (Standar Industri)''),
         PyStr (lit ''Scatter-Gather Broadcast | Multi-Node '' @
            lit ''Cluster | Mendukung query atribut non-shard '' @
            lit ''key | Latensi P99 dibatasi node terlambat '' @
            lit ''(straggler) | Rawan (Bottleneck pada Skala '' @ lit ''Besar)''),
         PyStr (lit ''Global Secondary Index | Multi-Node Cluster '' @
            lit ''| Point-lookup terarah 1-node via lookup '' @
            lit ''key | Double-write overhead saat '' @
            lit ''Insert/Update | Unggul (Untuk Query '' @ lit ''Frekuensi Tinggi)'')]),
      (''type'', PyStr (lit ''table''))]]\<close>

definition lab32_slide_08 :: pycall where [lab32_slides]:
  \<open>lab32_slide_08 =
   \<lparr>posargs = [],
  kwargs =
   [(''categories'', PyList
      [PyStr (lit ''PERBANDINGAN''),
       PyStr (lit ''MEKANISME'')]),
    (''title'', PyStr (lit ''Mekanisme vs Gejala: Evaluasi Strategi '' @ lit ''Partisi & Sharding'')),
    (''subtitle'', PyStr (lit ''Perbandingan mendalam: Karakteristik, skala '' @
        lit ''beban, trade-off, dan ketahanan produksi.'')),
    (''content_items'', lab32_items_08),
    (''narrative'', PyStr (lit ''Tabel perbandingan ini mengevaluasi '' @
        lit ''spektrum lengkap solusi skalabilitas '' @
        lit ''database. Logical partitioning sangat ampuh '' @
        lit ''untuk mengelola siklus hidup data besar '' @
        lit ''pada satu mesin (seperti membuang data lama '' @
        lit ''secara instan tanpa operasi DELETE/VACUUM '' @
        lit ''yang lambat), namun tidak mampu mengatasi '' @
        lit ''keterbatasan memori dan CPU server tunggal. '' @
        lit ''Untuk arsitektur multi-node, modulo hashing '' @
        lit ''terbukti berbahaya saat cluster bertumbuh '' @
        lit ''karena merombak mayoritas lokasi data. '' @
        lit ''Consistent hashing dengan virtual nodes '' @
        lit ''menjadi standar emas karena meminimalkan '' @
        lit ''migrasi, sementara Global Secondary Index '' @
        lit ''menghilangkan ketergantungan pada '' @
        lit ''scatter-gather broadcast yang boros sumber '' @ lit ''daya.'')),
    (''narrative_en'', PyStr (lit ''This comparative matrix evaluates the '' @
        lit ''entire spectrum of database partitioning '' @
        lit ''and sharding architectures. Logical '' @
        lit ''partitioning excels at managing single-node '' @ lit ''data lifecycles'' @
        [0x2014] @ lit ''enabling instant partition drops without '' @
        lit ''locking tables'' @ [0x2014] @
        lit ''yet cannot bypass single-server CPU and '' @
        lit ''memory ceilings. Across distributed '' @
        lit ''multi-node clusters, simple modulo hashing '' @
        lit ''is brittle due to catastrophic resharding '' @
        lit ''churn. Consistent hashing with virtual '' @
        lit ''nodes provides the industry-standard '' @
        lit ''scale-out foundation, paired with Global '' @
        lit ''Secondary Indexes to eliminate '' @
        lit ''latency-destroying scatter-gather '' @ lit ''broadcasts.'')),
    (''mental_model'', PyStr (lit ''Logical partitioning manages local table '' @
        lit ''lifecycles; consistent hashing and GSI '' @
        lit ''power scalable distributed clusters.'')),
    (''source_path'', PyStr (lit ''labs/32-database-sharding-and-partitioning/c'' @
        lit ''ontent/02-master-draft.md:9-40'')),
    (''slide_num'', PyStr (lit ''08 / 24'')),
    (''layout'', PyStr (lit ''comparison-table''))]\<rparr>\<close>

definition lab32_items_09 :: pyval where [lab32_contents]:
  \<open>lab32_items_09 =
   PyList
   [PyDict
     [(''title'', PyStr (lit ''1. SHARD KEY: HIGH CARDINALITY & UNIFORMITY'')),
      (''items'', PyList
        [PyStr (lit ''Pilih atribut dengan kardinalitas tinggi '' @
            lit ''dan frekuensi rendah (contoh: '' @ [96] @ lit ''account_id'' @ [96] @
            lit '', '' @ [96] @ lit ''tenant_id'' @ [96] @ lit '', '' @ [96] @
            lit ''uuid'' @ [96] @ lit '').''),
         PyStr (lit ''Haramkan nilai monotonik ('' @ [96] @ lit ''created_at'' @ [96] @
            lit '', auto-increment) sebagai range shard key '' @
            lit ''untuk mencegah 100% write hotspot.''),
         PyStr (lit ''Terapkan Hashed Sharding jika beban kerja '' @
            lit ''didominasi oleh operasi tulis sekuensial '' @ lit ''intensif.'')]),
      (''type'', PyStr (lit ''card''))],
    PyDict
     [(''title'', PyStr (lit ''2. ROUTER: CONSISTENT HASH RING & VNODES'')),
      (''items'', PyList
        [PyStr (lit ''Gunakan cincin hash konsisten (FNV-1a / '' @ lit ''Murmur3) dengan 50'' @
            [0x2013] @ lit ''150 virtual nodes per server fisik.''),
         PyStr (lit ''Virtual nodes mendistribusikan token secara '' @
            lit ''acak-merata untuk mencegah ketimpangan '' @ lit ''beban (hot shard).''),
         PyStr (lit ''Saat scale-out dari $N$ ke $N+1$, batasi '' @
            lit ''perpindahan data hanya pada porsi $'' @ [92] @
            lit ''approx 1/(N+1)$ dari total dataset.'')]),
      (''type'', PyStr (lit ''card''))],
    PyDict
     [(''title'', PyStr (lit ''3. SECONDARY ACCESS: GSI INDEXING POLICY'')),
      (''items'', PyList
        [PyStr (lit ''Identifikasi query non-shard key yang '' @
            lit ''berfrekuensi tinggi (misal login via '' @ [96] @ lit ''email'' @ [96] @
            lit '' pada cluster bertarget '' @ [96] @ lit ''user_id'' @ [96] @ lit '').''),
         PyStr (lit ''Bangun Global Secondary Index (Lookup '' @
            lit ''Vindex) untuk memetakan atribut sekunder ke '' @ lit ''ShardKey target.''),
         PyStr (lit ''Terima trade-off double-write saat insert '' @
            lit ''demi menjamin latensi baca tetap 1-node '' @ lit ''point-lookup.'')]),
      (''type'', PyStr (lit ''card''))]]\<close>

definition lab32_slide_09 :: pycall where [lab32_slides]:
  \<open>lab32_slide_09 =
   \<lparr>posargs = [],
  kwargs =
   [(''categories'', PyList
      [PyStr (lit ''DESIGN DECISION''),
       PyStr (lit ''ARSITEKTUR'')]),
    (''title'', PyStr (lit ''3 Keputusan Desain Kritis Arsitektur '' @ lit ''Sharding'')),
    (''subtitle'', PyStr (lit ''Urutan keputusan wajib sebelum memecah '' @
        lit ''database ke kluster multi-node '' @ lit ''terdistribusi.'')),
    (''content_items'', lab32_items_09),
    (''narrative'', PyStr (lit ''Tiga keputusan arsitektural ini menentukan '' @
        lit ''keberhasilan transisi dari database '' @
        lit ''monolitik ke sistem terdistribusi. Pertama, '' @
        lit ''pemilihan sharding key harus '' @
        lit ''memprioritaskan atribut dengan sebaran '' @
        lit ''nilai yang sangat beragam (high '' @
        lit ''cardinality) seperti tenant ID atau user ID '' @
        lit ''guna mendistribusikan data secara seimbang '' @
        lit ''ke seluruh node. Kedua, router wajib '' @
        lit ''menerapkan consistent hashing dengan '' @
        lit ''virtual nodes yang cukup (50 hingga 150 '' @
        lit ''vnodes) agar penambahan node baru tidak '' @
        lit ''memicu perombakan data global. Ketiga, '' @
        lit ''query non-shard key harus dilayani oleh '' @
        lit ''Global Secondary Index untuk mencegah '' @
        lit ''broadcast paralel yang menghancurkan '' @ lit ''throughput cluster.'')),
    (''narrative_en'', PyStr (lit ''These three architectural decisions '' @
        lit ''determine the operational viability of any '' @
        lit ''distributed database transition. First, '' @
        lit ''shard key selection must strictly enforce '' @
        lit ''high-cardinality, uniformly distributed '' @
        lit ''identifiers like tenant IDs to ensure write '' @
        lit ''distribution across nodes without skew. '' @
        lit ''Second, the cluster routing tier must adopt '' @
        lit ''consistent hashing with 50 to 150 virtual '' @
        lit ''nodes per physical shard, dampening data '' @
        lit ''reshuffling during cluster expansion to '' @
        lit ''minimal increments. Third, secondary query '' @
        lit ''patterns must be indexed via Global '' @
        lit ''Secondary Indexes, protecting cluster CPU '' @
        lit ''from broadcast exhaustion.'')),
    (''mental_model'', PyStr (lit ''Select high-cardinality keys, govern '' @
        lit ''routing with virtual node rings, and '' @
        lit ''resolve secondary lookups via GSI tables.'')),
    (''source_path'', PyStr (lit ''labs/32-database-sharding-and-partitioning/c'' @
        lit ''ontent/05-key-takeaways.md'')),
    (''slide_num'', PyStr (lit ''09 / 24'')),
    (''layout'', PyStr (lit ''decision-cards''))]\<rparr>\<close>

definition lab32_items_10 :: pyval where [lab32_contents]:
  \<open>lab32_items_10 =
   PyList
   [PyDict
     [(''title'', PyStr (lit ''DEMO EXECUTION TRACE'')),
      (''items'', PyList
        [PyStr (lit ''=== LAB 32: DATABASE SHARDING AND '' @
            lit ''PARTITIONING DEMONSTRATION ===''),
         PyStr (lit ''[1. Single-Node Partitioning] Query Range: '' @
            lit ''2026-04-01 to 2026-06-30''),
         PyStr (lit ''  Records Found: 1 | Partitions Scanned: 1 '' @
            lit ''/ 4 (Pruned 3 partitions)''),
         PyStr (lit ''[2. Sharding Key Selection: Monotonic vs '' @ lit ''High-Cardinality]''),
         PyStr (lit ''  Scenario A (date-string): Node shard-2 '' @
            lit ''got 1000 records (100% Hotspot)''),
         PyStr (lit ''  Scenario B (user_id)    : Node shard-0: '' @
            lit ''400 | shard-2: 200 | shard-3: 400 '' @ lit ''(Distributed)''),
         PyStr (lit ''[3. Resharding Scale-out: 4 Shards -> 5 '' @ lit ''Shards (10,000 Keys)]''),
         PyStr (lit ''  Hash Modulo (N % M) Keys Remapped : 7,984 '' @
            lit ''/ 10,000 (79.84% moved)''),
         PyStr (lit ''  Consistent Hashing Keys Remapped  : 1,200 '' @
            lit ''/ 10,000 (12.00% moved) | Theoretical: '' @ lit ''~20.00%''),
         PyStr (lit ''[4. Non-Sharded Attributes: Scatter-Gather '' @ lit ''vs GSI]''),
         PyStr (lit ''  Scatter-Gather Query : Nodes Broadcasted: '' @
            lit ''4 / 4 | Execution Time: 92'' @ [0xB5] @ lit ''s''),
         PyStr (lit ''  Global Secondary Index: Nodes '' @
            lit ''Broadcasted: 1 / 4 | Execution Time: 1'' @ [0xB5] @
            lit ''s (92x Faster!)''),
         PyStr (lit ''[5. Distributed Unique ID Generation]''),
         PyStr (lit ''  UUIDv7 (Time-Ordered 128-bit) : '' @
            lit ''01a0eb21-fc8c-7aba-abc5-bcb4361a5e7b''),
         PyStr (lit ''  Sequence Block Allocator IDs  : 1 2 3 4 5 '' @
            lit ''6 7 8 (Block Size=5)''),
         PyStr (lit ''=== [DEMO COMPLETE] All database sharding & '' @
            lit ''partitioning concepts executed ==='')]),
      (''type'', PyStr (lit ''terminal''))]]\<close>

definition lab32_slide_10 :: pycall where [lab32_slides]:
  \<open>lab32_slide_10 =
   \<lparr>posargs = [],
  kwargs =
   [(''categories'', PyList
      [PyStr (lit ''BUKTI''),
       PyStr (lit ''DEMO'')]),
    (''title'', PyStr (lit ''Bukti Eksekusi: Verifikasi Pruning, '' @ lit ''Hashing, GSI, & UUIDv7'')),
    (''subtitle'', PyStr (lit ''Output terminal go run ./cmd/demo '' @
        lit ''membuktikan keunggulan pruning, distribusi '' @
        lit ''vnodes, dan kecepatan GSI.'')),
    (''content_items'', lab32_items_10),
    (''narrative'', PyStr (lit ''Bukti eksekusi terminal membuktikan secara '' @
        lit ''empiris seluruh klaim arsitektur dalam '' @
        lit ''laboratorium ini. Pada modul partisi logis, '' @
        lit ''query range pada kuartal kedua hanya '' @
        lit ''memindai 1 partisi dan memangkas 3 partisi '' @
        lit ''lainnya secara instan. Pada perbandingan '' @
        lit ''resharding, consistent hashing ring '' @
        lit ''membatasi relokasi data pada angka 12.00 '' @
        lit ''persen dibandingkan modulo hashing yang '' @
        lit ''merombak 79.84 persen data. Pada pengujian '' @
        lit ''akses non-shard key, Global Secondary Index '' @
        lit ''berhasil mengarahkan query langsung ke 1 '' @
        lit ''shard dalam waktu 1 mikrodetik, mengungguli '' @
        lit ''metode scatter-gather yang membroadcast 4 '' @
        lit ''shard dalam 92 mikrodetik.'')),
    (''narrative_en'', PyStr (lit ''This terminal trace provides empirical '' @
        lit ''verification for all architectural claims '' @
        lit ''established in the lab. In the logical '' @
        lit ''partitioning benchmark, a quarterly range '' @
        lit ''query scans exactly 1 partition while '' @
        lit ''pruning the remaining 3 instantly. In the '' @
        lit ''scale-out resharding trial, consistent '' @
        lit ''hashing restricts key migration to 12.00% '' @
        lit ''compared to 79.84% churn under modulo '' @
        lit ''hashing. Finally, secondary key evaluation '' @
        lit ''proves Global Secondary Indexes execute '' @
        lit ''targeted 1-shard point lookups in 1 '' @
        lit ''microsecond, outperforming 4-shard '' @
        lit ''scatter-gather broadcasts running at 92 '' @ lit ''microseconds.'')),
    (''mental_model'', PyStr (lit ''Pruning eliminates 75% partition I/O; '' @
        lit ''consistent hashing cuts migration 6.6x; GSI '' @
        lit ''delivers 92x faster point lookups.'')),
    (''source_path'', PyStr (lit ''cmd/demo/main.go:1-210 '' @ [0x2022] @
        lit '' engineering/03-execution-result.md:65-111'')),
    (''slide_num'', PyStr (lit ''10 / 24'')),
    (''layout'', PyStr (lit ''terminal-output''))]\<rparr>\<close>

definition lab32_items_11 :: pyval where [lab32_contents]:
  \<open>lab32_items_11 =
   PyList
   [PyDict
     [(''title'', PyStr (lit ''YANG TIDAK DIBUKTIKAN'')),
      (''items'', PyList
        [PyStr (lit ''Penyimpanan tabel dan shard berbasis '' @
            lit ''in-memory Go struct; tidak menguji disk '' @
            lit ''persistence engine (InnoDB, RocksDB, '' @ lit ''LSM-Tree).''),
         PyStr (lit ''Tidak menyertakan Two-Phase Commit (2PC) '' @
            lit ''coordinator untuk transaksi cross-shard '' @
            lit ''atomik (XA transaction).''),
         PyStr (lit ''Global Secondary Index (GSI) dimodelkan '' @
            lit ''secara in-memory sinkron; tidak menguji '' @
            lit ''asynchronous eventual consistency replikasi '' @ lit ''GSI.''),
         PyStr (lit ''Tidak menyertakan dynamic shard split / '' @
            lit ''auto-rebalancing engine otomatis saat '' @
            lit ''kapasitas fisik storage mencapai batas.''),
         PyStr (lit ''Tidak menyimulasikan network partitions, '' @
            lit ''node failures, atau consensus replication '' @
            lit ''(Raft/Paxos) antar replika shard.''),
         PyStr (lit ''Tidak menguji distributed deadlock '' @
            lit ''detection saat dua transaksi cross-shard '' @
            lit ''saling mengunci record di shard berlawanan.'')]),
      (''type'', PyStr (lit ''bullet''))]]\<close>

definition lab32_slide_11 :: pycall where [lab32_slides]:
  \<open>lab32_slide_11 =
   \<lparr>posargs = [],
  kwargs =
   [(''categories'', PyList
      [PyStr (lit ''BATASAN''),
       PyStr (lit ''ANALISIS'')]),
    (''title'', PyStr (lit ''YANG TIDAK DIBUKTIKAN'')),
    (''subtitle'', PyStr (lit ''Batasan ruang lingkup laboratorium yang '' @
        lit ''wajib dipahami sebelum implementasi '' @ lit ''produksi.'')),
    (''content_items'', lab32_items_11),
    (''narrative'', PyStr (lit ''Laboratorium ini dirancang mandiri untuk '' @
        lit ''membuktikan mekanisme algoritma routing, '' @
        lit ''partisi logis, dan mitigasi query tanpa '' @
        lit ''dependensi eksternal. Namun demikian, '' @
        lit ''implementasi ini memiliki batasan ruang '' @
        lit ''lingkup tegas yang harus diperhatikan oleh '' @
        lit ''arsitek sistem. Komponen shard dan GSI '' @
        lit ''berjalan di dalam memori proses tunggal '' @
        lit ''tanpa persistensi disk fisik. Lab ini tidak '' @
        lit ''menguji protokol Two-Phase Commit (2PC) '' @
        lit ''terdistribusi yang diperlukan untuk '' @
        lit ''transaksi atomik lintas shard, dan tidak '' @
        lit ''memodelkan replikasi konsensus Raft atau '' @
        lit ''deteksi deadlock terdistribusi yang umum '' @
        lit ''terjadi pada database skala enterprise.'')),
    (''narrative_en'', PyStr (lit ''This laboratory is purposefully '' @
        lit ''self-contained to isolate and verify '' @
        lit ''routing mechanics, logical pruning, and '' @
        lit ''index resolution without heavyweight '' @
        lit ''external engines. Consequently, its '' @
        lit ''technical guarantees are strictly bounded. '' @
        lit ''Shard data structures and GSI tables reside '' @
        lit ''in-process in Go memory without persistent '' @
        lit ''block device drivers. The lab does not '' @
        lit ''implement distributed Two-Phase Commit '' @
        lit ''(2PC) engines for cross-shard ACID '' @
        lit ''transactions, nor does it simulate '' @
        lit ''consensus-based replication protocols like '' @
        lit ''Raft or distributed deadlock detection '' @
        lit ''algorithms required in production clusters.'')),
    (''mental_model'', PyStr (lit ''Acknowledge educational bounds: in-memory '' @
        lit ''routing models routing algorithms; '' @
        lit ''production requires 2PC engines and '' @ lit ''consensus replication.'')),
    (''source_path'', PyStr (lit ''labs/32-database-sharding-and-partitioning/c'' @
        lit ''ontent/01-content-brief.md:25-29'')),
    (''slide_num'', PyStr (lit ''11 / 24'')),
    (''layout'', PyStr (lit ''constraints-list''))]\<rparr>\<close>

definition lab32_items_12 :: pyval where [lab32_contents]:
  \<open>lab32_items_12 =
   PyList
   [PyDict
     [(''title'', PyStr (lit ''KEUNTUNGAN & KAPASITAS SKALABILITAS'')),
      (''items'', PyList
        [PyStr (lit ''Skalabilitas Horisontal Linear: Menembus '' @
            lit ''batasan memori RAM, disk IOPS, dan write '' @
            lit ''bandwidth mesin database tunggal.''),
         PyStr (lit ''Blast Radius Terisolasi: Kerusakan hardware '' @
            lit ''pada Shard 2 tidak mematikan ketersediaan '' @
            lit ''data pada Shard 0, 1, dan 3.''),
         PyStr (lit ''Query Pruning Efisien: Rentang partisi '' @
            lit ''logis memangkas scan disk secara drastis '' @
            lit ''untuk tabel berbasis waktu.'')]),
      (''type'', PyStr (lit ''bullet''))],
    PyDict
     [(''title'', PyStr (lit ''BIAYA OPERASIONAL & KOMPLEKSITAS'')),
      (''items'', PyList
        [PyStr (lit ''Kehilangan JOIN Relasional: Operasi SQL '' @
            lit ''JOIN lintas shard key mustahil dilakukan '' @
            lit ''tanpa scatter-gather atau agregasi di '' @ lit ''aplikasi.''),
         PyStr (lit ''Overhead Transaksi Terdistribusi: Two-Phase '' @
            lit ''Commit (2PC) melipatgandakan latensi '' @
            lit ''jaringan dan berisiko fractured reads.''),
         PyStr (lit ''Double-Write Overhead pada GSI: Menjaga '' @
            lit ''indeks sekunder global membutuhkan write '' @
            lit ''ganda yang memperlambat operasi insert.'')]),
      (''type'', PyStr (lit ''bullet''))]]\<close>

definition lab32_slide_12 :: pycall where [lab32_slides]:
  \<open>lab32_slide_12 =
   \<lparr>posargs = [],
  kwargs =
   [(''categories'', PyList
      [PyStr (lit ''TRADE-OFF''),
       PyStr (lit ''ARSITEKTUR'')]),
    (''title'', PyStr (lit ''Trade-off Arsitektur: Sharding vs '' @ lit ''Kompleksitas Terdistribusi'')),
    (''subtitle'', PyStr (lit ''Menilai keuntungan kapasitas horisontal '' @
        lit ''terhadap beban biaya operasional dan '' @ lit ''konsistensi data.'')),
    (''content_items'', lab32_items_12),
    (''narrative'', PyStr (lit ''Keputusan mengadopsi physical sharding '' @
        lit ''selalu membawa kompromi teknik yang '' @
        lit ''signifikan. Di satu sisi, sistem memperoleh '' @
        lit ''skalabilitas linear dan isolasi kegagalan '' @
        lit ''di mana matinya satu server tidak '' @
        lit ''melumpuhkan seluruh aplikasi. Namun di sisi '' @
        lit ''lain, pengembang harus membayar harga '' @
        lit ''arsitektural yang mahal: hilangnya '' @
        lit ''kapabilitas SQL JOIN antar tabel yang '' @
        lit ''berbeda shard, tingginya latensi koordinasi '' @
        lit ''transaksi Two-Phase Commit, serta keharusan '' @
        lit ''mengelola overhead double-write untuk '' @
        lit ''menjaga konsistensi Global Secondary Index.'')),
    (''narrative_en'', PyStr (lit ''Architecting a distributed sharded database '' @
        lit ''demands a deliberate reckoning with '' @
        lit ''architectural trade-offs. While sharding '' @
        lit ''unlocks unbounded horizontal write '' @
        lit ''throughput and insulates blast radiuses '' @
        lit ''across physical nodes, it dismantles native '' @
        lit ''relational conveniences. Developers forfeit '' @
        lit ''efficient cross-shard relational JOIN '' @
        lit ''operations, incur punishing network latency '' @
        lit ''penalties under Two-Phase Commit protocols, '' @
        lit ''and must maintain dual-write overheads to '' @
        lit ''keep Global Secondary Indexes synchronized.'')),
    (''mental_model'', PyStr (lit ''Sharding buys unbounded scale and fault '' @
        lit ''isolation at the cost of cross-shard joins, '' @
        lit ''2PC latency, and index dual-writes.'')),
    (''source_path'', PyStr (lit ''labs/32-database-sharding-and-partitioning/c'' @
        lit ''ontent/02-master-draft.md:270-295'')),
    (''slide_num'', PyStr (lit ''12 / 24'')),
    (''layout'', PyStr (lit ''tradeoff''))]\<rparr>\<close>

definition lab32_items_13 :: pyval where [lab32_contents]:
  \<open>lab32_items_13 =
   PyList
   [PyDict
     [(''title'', PyStr (lit ''KODE PENGUJIAN STRESS KONKURENSI'')),
      (''items'', PyList
        [PyStr (lit ''func TestConcurrentClusterAccess(t '' @ lit ''*testing.T) {''),
         PyStr (lit ''    router := '' @ lit ''sharding.NewConsistentHashRouter(50, '' @
            lit ''[]string{"s1", "s2", "s3", "s4"})''),
         PyStr (lit ''    cluster := sharding.NewCluster(router)''),
         PyStr (lit ''    var wg sync.WaitGroup; numOps := 200''),
         PyStr (lit ''    for i := 0; i < numOps; i++ {''),
         PyStr (lit ''        wg.Add(1)''),
         PyStr (lit ''        go func(idx int) {''),
         PyStr (lit ''            defer wg.Done()''),
         PyStr (lit ''            sk := fmt.Sprintf("tenant-%d", '' @ lit ''idx%10)''),
         PyStr (lit ''            recID := fmt.Sprintf("id-%d", '' @ lit ''idx)''),
         PyStr (lit ''            email := '' @ lit ''fmt.Sprintf("user-%d@test.com", idx)''),
         PyStr (lit ''            _ = '' @ lit ''cluster.Insert(sharding.Record{ID: recID, '' @
            lit ''ShardKey: sk, Email: email, Data: '' @ lit ''"concurrent-test"})''),
         PyStr (lit ''            _, _ = '' @ lit ''cluster.GetByShardKey(sk, recID)''),
         PyStr (lit ''            _, _ = '' @ lit ''cluster.GetByEmailUsingGSI(email, recID)''),
         PyStr (lit ''        }(i)''),
         PyStr (lit ''    }''),
         PyStr (lit ''    wg.Wait()''),
         PyStr (lit ''    // Assert: total seluruh record di '' @
            lit ''seluruh shard == 200 (Zero Data Loss)''),
         PyStr (lit ''}'')]),
      (''type'', PyStr (lit ''code''))],
    PyDict
     [(''title'', PyStr (lit ''VERIFIKASI THREAD SAFETY & RACE DETECTOR'')),
      (''items'', PyList
        [PyStr (lit ''RWMutex Granular: Setiap Shard dan GSI '' @ lit ''dilindungi oleh '' @
            [96] @ lit ''sync.RWMutex'' @ [96] @
            lit '' independen, mencegah lock contention antar '' @ lit ''shard.''),
         PyStr (lit ''Zero Data Race: Eksekusi '' @ [96] @ lit ''go test -race'' @ [96] @
            lit '' lulus 100% bersih tanpa mendeteksi data '' @
            lit ''race condition pada 200 goroutine simultan.''),
         PyStr (lit ''Total Invariant: 200 transaksi insert '' @
            lit ''terdistribusi secara atomik; verifikasi '' @
            lit ''cluster count membuktikan tidak ada data '' @ lit ''hilang.'')]),
      (''type'', PyStr (lit ''bullet''))]]\<close>

definition lab32_slide_13 :: pycall where [lab32_slides]:
  \<open>lab32_slide_13 =
   \<lparr>posargs = [],
  kwargs =
   [(''categories'', PyList
      [PyStr (lit ''CONCURRENCY''),
       PyStr (lit ''VALIDATION'')]),
    (''title'', PyStr (lit ''Validasi Konkurensi: 200 Worker Simultan '' @ lit ''pada Sharded Cluster'')),
    (''subtitle'', PyStr (lit ''TestConcurrentClusterAccess membuktikan '' @
        lit ''integritas state di bawah konkurensi '' @ lit ''Insert, Read, dan GSI.'')),
    (''content_items'', lab32_items_13),
    (''narrative'', PyStr (lit ''Uji konkurensi TestConcurrentClusterAccess '' @
        lit ''memverifikasi ketahanan cluster saat '' @
        lit ''diserbu oleh 200 goroutine simultan yang '' @
        lit ''melakukan insert, pembacaan berbasis shard '' @
        lit ''key, dan point-lookup via GSI. Karena '' @
        lit ''setiap instance Shard dan struktur '' @
        lit ''GlobalSecondaryIndex memiliki sync.RWMutex '' @
        lit ''masing-masing, penguncian data bersifat '' @
        lit ''granular sehingga operasi pada shard-1 '' @
        lit ''tidak menghalangi operasi pada shard-2. '' @
        lit ''Pengujian dengan flag -race membuktikan '' @
        lit ''ketiadaan memory race condition dan '' @
        lit ''menegaskan integritas data tersimpan secara '' @
        lit ''utuh tepat 200 record.'')),
    (''narrative_en'', PyStr (lit ''The concurrency validation suite '' @
        lit ''TestConcurrentClusterAccess proves system '' @
        lit ''resilience under a barrage of 200 '' @
        lit ''concurrent goroutines executing parallel '' @
        lit ''inserts, shard-key lookups, and GSI '' @
        lit ''queries. Because each Shard instance and '' @
        lit ''the GlobalSecondaryIndex manage independent '' @
        lit ''sync.RWMutex primitives, thread contention '' @ lit ''remains isolated'' @
        [0x2014] @ lit ''writes on shard-1 proceed without blocking '' @
        lit ''reads on shard-2. Execution under the Go '' @
        lit ''race detector confirms zero data races '' @
        lit ''while maintaining an exact 200-record state '' @ lit ''invariant.'')),
    (''mental_model'', PyStr (lit ''Granular per-shard mutexes isolate '' @
        lit ''concurrency contention; race detectors '' @
        lit ''verify thread-safe distributed routing.'')),
    (''source_path'', PyStr (lit ''labs/32-database-sharding-and-partitioning/t'' @
        lit ''ests/sharding_test.go:212-249'')),
    (''slide_num'', PyStr (lit ''13 / 24'')),
    (''layout'', PyStr (lit ''concurrency-flow''))]\<rparr>\<close>

definition lab32_items_14 :: pyval where [lab32_contents]:
  \<open>lab32_items_14 =
   PyList
   [PyDict
     [(''title'', PyStr (lit ''BEFORE (Monolithic DB & Naive Modulo)'')),
      (''items'', PyList
        [PyStr (lit ''Kapasitas: Terkunci pada limit hardware 1 '' @
            lit ''server fisik; disk I/O mentok saat data '' @ lit ''membesar.''),
         PyStr (lit ''Query Temporal: Full table scan membebani '' @
            lit ''jutaan row; maintenance '' @ [96] @ lit ''DELETE'' @ [96] @
            lit '' memicu table bloat.''),
         PyStr (lit ''Resharding: Menggunakan rumus hash modulo; '' @
            lit ''menambah node baru memindahkan 80% data.''),
         PyStr (lit ''Query Sekunder: Menembak seluruh database '' @
            lit ''tanpa filter; lonjakan CPU membakar server.''),
         PyStr (lit ''Primary Keys: Auto-increment lokal '' @
            lit ''bertabrakan jika dipisah ke beberapa node.'')]),
      (''type'', PyStr (lit ''card''))],
    PyDict
     [(''title'', PyStr (lit ''AFTER (Partitioning, Consistent Ring, & GSI)'')),
      (''items'', PyList
        [PyStr (lit ''Kapasitas: Skalabilitas horisontal '' @
            lit ''multi-node terdistribusi; beban write '' @ lit ''terbagi merata.''),
         PyStr (lit ''Query Temporal: Range logical partitioning '' @
            lit ''memangkas 75% partisi (query pruning); drop '' @ lit ''instan.''),
         PyStr (lit ''Resharding: Consistent hashing ring dengan '' @
            lit ''vnodes membatasi migrasi hanya $'' @ [92] @ lit ''approx 12'' @ [92] @
            lit ''% - 16'' @ [92] @ lit ''%$.''),
         PyStr (lit ''Query Sekunder: Global Secondary Index '' @
            lit ''memetakan atribut sekunder langsung ke 1 '' @ lit ''shard target.''),
         PyStr (lit ''Primary Keys: RFC 9562 UUIDv7 dan Sequence '' @
            lit ''Block Allocator menjamin ID unik terurut '' @ lit ''waktu.'')]),
      (''type'', PyStr (lit ''card''))]]\<close>

definition lab32_slide_14 :: pycall where [lab32_slides]:
  \<open>lab32_slide_14 =
   \<lparr>posargs = [],
  kwargs =
   [(''categories'', PyList
      [PyStr (lit ''BEFORE/AFTER''),
       PyStr (lit ''PERUBAHAN'')]),
    (''title'', PyStr (lit ''Before vs After: Evolusi Arsitektur '' @ lit ''Manajemen Data'')),
    (''subtitle'', PyStr (lit ''Transformasi dari database monolitik rentan '' @
        lit ''bottleneck menuju cluster sharded '' @ lit ''terkoordinasi.'')),
    (''content_items'', lab32_items_14),
    (''narrative'', PyStr (lit ''Perbandingan before-after ini merangkum '' @
        lit ''evolusi menyeluruh dari arsitektur '' @
        lit ''penyimpanan data. Pada paradigma lama, tim '' @
        lit ''bergantung pada satu server monolitik besar '' @
        lit ''yang rentan mengalami disk bottleneck, '' @
        lit ''menggunakan rumus modulo rapuh yang memicu '' @
        lit ''badai migrasi data saat scaling, serta '' @
        lit ''menderita bentrokan primary key. Dengan '' @
        lit ''arsitektur modern, tabel lokal dipangkas '' @
        lit ''secara logis untuk efisiensi siklus hidup '' @
        lit ''data, cluster didistribusikan via '' @
        lit ''consistent hashing ring dengan virtual '' @
        lit ''nodes, pencarian sekunder diarahkan via '' @
        lit ''GSI, dan ID unik digenerasi secara aman via '' @ lit ''standar UUIDv7.'')),
    (''narrative_en'', PyStr (lit ''This before-and-after comparison highlights '' @
        lit ''the architectural paradigm shift in data '' @
        lit ''layer engineering. Legacy architectures '' @
        lit ''relied on single monolithic instances '' @
        lit ''constrained by disk throughput ceilings, '' @
        lit ''fragile modulo routing that triggered '' @
        lit ''resharding avalanches, and local '' @
        lit ''auto-increments prone to collisions. The '' @
        lit ''modern distributed standard leverages '' @
        lit ''logical table partitioning for temporal '' @
        lit ''pruning, consistent hashing rings with '' @
        lit ''virtual nodes for minimal data reshuffling, '' @
        lit ''GSI tables for targeted point lookups, and '' @
        lit ''RFC 9562 UUIDv7 for collision-free '' @ lit ''time-ordered primary keys.'')),
    (''mental_model'', PyStr (lit ''Before: hardware ceilings, 80% resharding '' @
        lit ''churn, and broadcast storms. After: 75% '' @
        lit ''pruning, 12% scale-out shuffle, and 1-node '' @ lit ''GSI routing.'')),
    (''source_path'', PyStr (lit ''labs/32-database-sharding-and-partitioning/c'' @
        lit ''ontent/02-master-draft.md:410-435'')),
    (''slide_num'', PyStr (lit ''14 / 24'')),
    (''layout'', PyStr (lit ''before-after''))]\<rparr>\<close>

definition lab32_items_15 :: pyval where [lab32_contents]:
  \<open>lab32_items_15 =
   PyList
   [PyDict
     [(''title'', PyStr (lit ''KODE PENGUJIAN QUERY PRUNING & FAST DROP'')),
      (''items'', PyList
        [PyStr (lit ''func TestPartitionPruning(t *testing.T) {''),
         PyStr (lit ''    ranges := []partitioning.PartitionRange{''),
         PyStr (lit ''        {Name: "p2026_01", Start: '' @
            lit ''time.Date(2026, 1, 1, 0, 0, 0, 0, '' @
            lit ''time.UTC), End: time.Date(2026, 2, 1, 0, 0, '' @ lit ''0, 0, time.UTC)},''),
         PyStr (lit ''        {Name: "p2026_02", Start: '' @
            lit ''time.Date(2026, 2, 1, 0, 0, 0, 0, '' @
            lit ''time.UTC), End: time.Date(2026, 3, 1, 0, 0, '' @ lit ''0, 0, time.UTC)},''),
         PyStr (lit ''        {Name: "p2026_03", Start: '' @
            lit ''time.Date(2026, 3, 1, 0, 0, 0, 0, '' @
            lit ''time.UTC), End: time.Date(2026, 4, 1, 0, 0, '' @ lit ''0, 0, time.UTC)},''),
         PyStr (lit ''    }''),
         PyStr (lit ''    tbl := partitioning.NewTable("orders", '' @ lit ''ranges)''),
         PyStr (lit ''    // Insert data Jan dan Feb...''),
         PyStr (lit ''    res := tbl.QueryRange(febStart, febEnd)''),
         PyStr (lit ''    // Assert: res.PartitionsScanned == 1 '' @
            lit ''&& res.TotalPartitions == 3 (Pruning '' @ lit ''Sukses!)''),
         PyStr (lit ''    // Drop partition Jan p2026_01...''),
         PyStr (lit ''    // Assert: tbl.PartitionCount() == 2 '' @
            lit ''(Hapus instan tanpa scan tabel)}'')]),
      (''type'', PyStr (lit ''code''))],
    PyDict
     [(''title'', PyStr (lit ''VERIFIKASI INVARIAN QUERY PRUNING'')),
      (''items'', PyList
        [PyStr (lit ''Overlap Condition Pruning: Logika '' @ [96] @
            lit ''start.Before(p.Range.End) && '' @ lit ''end.After(p.Range.Start)'' @
            [96] @ lit '' mengabaikan partisi Jan dan Mar.''),
         PyStr (lit ''Eliminasi Disk I/O: Query hanya membaca '' @
            lit ''memori partisi Feb, menghemat 66.7% operasi '' @ lit ''I/O pemindaian.''),
         PyStr (lit ''Fast Drop Partition: Menghapus partisi '' @ [96] @ lit ''p2026_01'' @
            [96] @ lit '' membuang seluruh row di dalamnya secara '' @
            lit ''instan tanpa VACUUM bloat.'')]),
      (''type'', PyStr (lit ''bullet''))]]\<close>

definition lab32_slide_15 :: pycall where [lab32_slides]:
  \<open>lab32_slide_15 =
   \<lparr>posargs = [],
  kwargs =
   [(''categories'', PyList
      [PyStr (lit ''BUKTI TEST''),
       PyStr (lit ''LOGICAL PARTITIONING'')]),
    (''title'', PyStr (lit ''Test 1: Validasi Query Pruning pada Range '' @ lit ''Partitioning'')),
    (''subtitle'', PyStr (lit ''TestPartitionPruning membuktikan hanya 1 '' @
        lit ''dari 3 partisi yang discan dan drop tabel '' @ lit ''instan.'')),
    (''content_items'', lab32_items_15),
    (''narrative'', PyStr (lit ''Unit test pertama memvalidasi mekanisme '' @
        lit ''pemangkasan partisi pada '' @ lit ''internal/partitioning/table.go. Tabel '' @
        lit ''orders dikonfigurasikan dengan tiga rentang '' @
        lit ''partisi bulanan. Saat kueri range '' @
        lit ''dieksekusi khusus untuk bulan Februari '' @
        lit ''2026, sistem secara cerdas mengevaluasi '' @
        lit ''batasan waktu partisi dan hanya memindai '' @
        lit ''partisi p2026_02 (PartitionsScanned=1 dari '' @
        lit ''3). Selain itu, pengujian membuktikan bahwa '' @
        lit ''method DropPartition menghapus seluruh data '' @
        lit ''bulan Januari seketika secara $O(1)$ tanpa '' @
        lit ''perlu memindai dan menghapus baris satu per '' @ lit ''satu.'')),
    (''narrative_en'', PyStr (lit ''The first unit test suite validates '' @
        lit ''partition pruning mechanics inside '' @
        lit ''internal/partitioning/table.go. The orders '' @
        lit ''table is instantiated with three '' @
        lit ''consecutive monthly ranges. When a range '' @
        lit ''query targeting February 2026 executes, the '' @
        lit ''pruning evaluator inspects interval '' @
        lit ''boundaries, scanning strictly partition '' @
        lit ''p2026_02 (PartitionsScanned=1 out of 3 '' @
        lit ''total). Furthermore, DropPartition '' @
        lit ''demonstrates instant O(1) partition '' @
        lit ''eviction for January data without '' @
        lit ''table-scanning row-by-row DELETE operations.'')),
    (''mental_model'', PyStr (lit ''Pruning logic start < end && end > start '' @
        lit ''bypasses irrelevant partitions; dropping '' @
        lit ''partitions avoids VACUUM overhead.'')),
    (''source_path'', PyStr (lit ''labs/32-database-sharding-and-partitioning/t'' @
        lit ''ests/sharding_test.go:15-61'')),
    (''slide_num'', PyStr (lit ''15 / 24'')),
    (''layout'', PyStr (lit ''test-analysis''))]\<rparr>\<close>

definition lab32_items_16 :: pyval where [lab32_contents]:
  \<open>lab32_items_16 =
   PyList
   [PyDict
     [(''title'', PyStr (lit ''KODE PERBANDINGAN RELOKASI PADA SCALE-OUT'')),
      (''items'', PyList
        [PyStr (lit ''func TestRoutingAndConsistentHashRelocation('' @ lit ''t *testing.T) {''),
         PyStr (lit ''    numKeys := 5000''),
         PyStr (lit ''    // 1. Modulo router test: 3 nodes -> 4 '' @ lit ''nodes''),
         PyStr (lit ''    modRouter := '' @
            lit ''sharding.NewModuloRouter([]string{"shard-1",'' @
            lit '' "shard-2", "shard-3"})''),
         PyStr (lit ''    // Catat penempatan awal...''),
         PyStr (lit ''    modRouter.AddShard("shard-4") // '' @ lit ''Scale-out 3 -> 4''),
         PyStr (lit ''    // Hash Modulo memindahkan 3756 / 5000 '' @ lit ''keys (75.12%)''),
         PyStr (lit ''    // 2. Consistent Hash router test (150 '' @
            lit ''vnodes): 3 nodes -> 4 nodes''),
         PyStr (lit ''    chRouter := '' @ lit ''sharding.NewConsistentHashRouter(150, '' @
            lit ''[]string{"shard-1", "shard-2", "shard-3"})''),
         PyStr (lit ''    // Catat penempatan awal...''),
         PyStr (lit ''    chRouter.AddShard("shard-4") // '' @ lit ''Scale-out 3 -> 4''),
         PyStr (lit ''    // Consistent Hash memindahkan 800 / '' @ lit ''5000 keys (16.00%)''),
         PyStr (lit ''}'')]),
      (''type'', PyStr (lit ''code''))],
    PyDict
     [(''title'', PyStr (lit ''ANALISIS RASIO PERPINDAHAN KUNCI'')),
      (''items'', PyList
        [PyStr (lit ''Modulo Churn: Formula $K '' @ [92] @ lit ''pmod N$ merelokasi $75.12'' @
            [92] @ lit ''%$ kunci (mendekati prediksi teoritis $3/4 '' @ lit ''= 75.00'' @
            [92] @ lit ''%$).''),
         PyStr (lit ''Consistent Hash Stability: Cincin hash '' @
            lit ''dengan 150 vnodes hanya merelokasi $16.00'' @ [92] @
            lit ''%$ kunci (dalam batas aman $5'' @ [92] @ lit ''% - 40'' @ [92] @
            lit ''%$).''),
         PyStr (lit ''Efisiensi Jaringan: Consistent hashing '' @ lit ''menghemat $78.7'' @
            [92] @ lit ''%$ beban transfer data antar server saat '' @
            lit ''cluster melakukan ekspansi kapasitas.'')]),
      (''type'', PyStr (lit ''bullet''))]]\<close>

definition lab32_slide_16 :: pycall where [lab32_slides]:
  \<open>lab32_slide_16 =
   \<lparr>posargs = [],
  kwargs =
   [(''categories'', PyList
      [PyStr (lit ''BUKTI TEST''),
       PyStr (lit ''ROUTING & RESHARDING'')]),
    (''title'', PyStr (lit ''Test 2: Evaluasi Relokasi Data Scale-Out '' @ lit ''(5.000 Keys)'')),
    (''subtitle'', PyStr (lit ''TestRoutingAndConsistentHashRelocation '' @
        lit ''membuktikan Modulo merelokasi 75.12% vs '' @ lit ''Consistent Hash 16.00%.'')),
    (''content_items'', lab32_items_16),
    (''narrative'', PyStr (lit ''Pengujian kedua membandingkan dampak '' @
        lit ''scale-out cluster dari 3 node menjadi 4 '' @
        lit ''node terhadap 5.000 kunci data unik. '' @
        lit ''Algoritma modulo hashing terbukti '' @
        lit ''merelokasi 3.756 kunci (75.12 persen), '' @
        lit ''memvalidasi model matematika di mana '' @
        lit ''penambahan node ke-4 mengacak ulang tiga '' @
        lit ''perempat penempatan data. Sebaliknya, '' @
        lit ''router consistent hashing dengan 150 '' @
        lit ''virtual nodes hanya memindahkan 800 kunci '' @
        lit ''(16.00 persen). Data yang tersisa (84 '' @
        lit ''persen) tetap berada di shard aslinya tanpa '' @
        lit ''perlu dipindahkan sama sekali melalui '' @ lit ''jaringan.'')),
    (''narrative_en'', PyStr (lit ''The second test directly contrasts cluster '' @
        lit ''scale-out behavior when expanding from 3 to '' @
        lit ''4 nodes across 5,000 distinct keys. Modulo '' @
        lit ''hashing forcefully remaps 3,756 keys '' @
        lit ''(75.12%), corroborating the theoretical '' @
        lit ''prediction where adding a 4th node shuffles '' @
        lit ''three-quarters of the entire keyspace. In '' @
        lit ''contrast, the consistent hashing router '' @
        lit ''configured with 150 virtual nodes moves '' @
        lit ''merely 800 keys (16.00%). The remaining 84% '' @
        lit ''of keys retain their physical location '' @
        lit ''untouched, conserving cluster network '' @ lit ''capacity.'')),
    (''mental_model'', PyStr (lit ''Modulo reshuffling displaces 75% of keys; '' @
        lit ''consistent hashing confines key migration '' @
        lit ''to the newly added sector.'')),
    (''source_path'', PyStr (lit ''labs/32-database-sharding-and-partitioning/t'' @
        lit ''ests/sharding_test.go:63-120'')),
    (''slide_num'', PyStr (lit ''16 / 24'')),
    (''layout'', PyStr (lit ''test-analysis''))]\<rparr>\<close>

definition lab32_items_17 :: pyval where [lab32_contents]:
  \<open>lab32_items_17 =
   PyList
   [PyDict
     [(''title'', PyStr (lit ''PENGUJIAN GSI POINT-LOOKUP & TIMEOUT'')),
      (''items'', PyList
        [PyStr (lit ''// 1. Direct Point-Lookup menggunakan '' @ lit ''ShardKey''),
         PyStr (lit ''rec, err := '' @ lit ''cluster.GetByShardKey("tenant-A", "rec-1") '' @
            lit ''// Langsung ke Shard 0''),
         PyStr (lit ''// 2. Lookup via Global Secondary Index '' @ lit ''(GSI)''),
         PyStr (lit ''recGSI, err := '' @ lit ''cluster.GetByEmailUsingGSI("bob@example.com"'' @
            lit '', "rec-2")''),
         PyStr (lit ''// Assert: recGSI.Data == "Bob Data" (Tepat '' @
            lit ''1 shard dihubungi, 0 broadcast overhead)''),
         PyStr (lit ''// 3. Fallback Scatter-Gather Broadcast''),
         PyStr (lit ''sgRes := cluster.ScatterGatherBroadcast(func'' @
            lit ''(r sharding.Record) bool { return r.Email '' @
            lit ''== "carol@example.com" })''),
         PyStr (lit ''// Assert: sgRes.ShardsQueried == 3 '' @
            lit ''(Broadcast menembus seluruh 3 shard)''),
         PyStr (lit ''// 4. Scatter-Gather dengan Context Timeout '' @ lit ''/ Cancellation''),
         PyStr (lit ''ctx, cancel := '' @ lit ''context.WithCancel(context.Background()); '' @
            lit ''cancel()''),
         PyStr (lit ''canceledRes := '' @ lit ''cluster.ScatterGatherBroadcastWithContext(ct'' @
            lit ''x, predicate)''),
         PyStr (lit ''// Assert: canceledRes.ShardResponded == 0 '' @
            lit ''(Goroutine dibatalkan seketika)'')]),
      (''type'', PyStr (lit ''code''))],
    PyDict
     [(''title'', PyStr (lit ''CHECKPOINT OPTIMASI NON-SHARDED QUERY'')),
      (''items'', PyList
        [PyStr (lit ''GSI Direct Routing: Memetakan '' @ [96] @ lit ''email -> shardKey'' @
            [96] @ lit '' memungkinkan pemanggilan langsung tanpa '' @
            lit ''menyentuh shard lain.''),
         PyStr (lit ''Scatter-Gather Broadcast: Menanyakan 3/3 '' @
            lit ''shard secara paralel via Goroutines; mahal '' @
            lit ''namun menjamin kelengkapan data.''),
         PyStr (lit ''Context Safety: Channel cancellation '' @ [96] @ lit ''ctx.Done()'' @
            [96] @ lit '' menghentikan pemrosesan goroutine di semua '' @
            lit ''shard jika client timeout.'')]),
      (''type'', PyStr (lit ''bullet''))]]\<close>

definition lab32_slide_17 :: pycall where [lab32_slides]:
  \<open>lab32_slide_17 =
   \<lparr>posargs = [],
  kwargs =
   [(''categories'', PyList
      [PyStr (lit ''BUKTI TEST''),
       PyStr (lit ''QUERY OPTIMIZATION'')]),
    (''title'', PyStr (lit ''Test 3: Eliminasi Broadcast via Global '' @ lit ''Secondary Index'')),
    (''subtitle'', PyStr (lit ''TestClusterScatterGatherAndGSI membuktikan '' @
        lit ''point-lookup 1-node dan timeout '' @ lit ''cancellation aman.'')),
    (''content_items'', lab32_items_17),
    (''narrative'', PyStr (lit ''Unit test ketiga menguji arsitektur '' @
        lit ''pencarian atribut sekunder yang tidak '' @
        lit ''dijadikan sharding key. Fungsi '' @
        lit ''GetByEmailUsingGSI membuktikan bahwa '' @
        lit ''pemetaan Global Secondary Index '' @
        lit ''memungkinkan sistem menemukan data hanya '' @
        lit ''dengan mengakses 1 shard spesifik tanpa '' @
        lit ''membroadcast ke shard lain. Ketika '' @
        lit ''pencarian dilakukan tanpa bantuan GSI '' @
        lit ''melalui ScatterGatherBroadcast, seluruh 3 '' @
        lit ''shard terpaksa dipindai secara paralel. '' @
        lit ''Pengujian juga memvalidasi bahwa jika klien '' @
        lit ''membatalkan request melalui '' @ lit ''context.Context, seluruh goroutine '' @
        lit ''broadcast langsung berhenti bekerja dengan '' @ lit ''aman.'')),
    (''narrative_en'', PyStr (lit ''The third unit test evaluates querying '' @
        lit ''mechanics for non-shard key attributes. The '' @
        lit ''GetByEmailUsingGSI implementation confirms '' @
        lit ''that maintaining a Global Secondary Index '' @
        lit ''table allows the router to execute direct '' @
        lit ''single-shard point lookups without '' @
        lit ''broadcasting across the cluster. When '' @ lit ''querying without GSI via '' @
        lit ''ScatterGatherBroadcast, all 3 shards must '' @
        lit ''be scanned in parallel. Furthermore, the '' @
        lit ''test verifies that supplying a pre-canceled '' @
        lit ''context cleanly halts goroutine execution '' @ lit ''across all shards.'')),
    (''mental_model'', PyStr (lit ''GSI transforms cluster-wide broadcast '' @
        lit ''queries into targeted single-node reads; '' @
        lit ''context cancels rogue scatter goroutines.'')),
    (''source_path'', PyStr (lit ''labs/32-database-sharding-and-partitioning/t'' @
        lit ''ests/sharding_test.go:121-170'')),
    (''slide_num'', PyStr (lit ''17 / 24'')),
    (''layout'', PyStr (lit ''test-analysis''))]\<rparr>\<close>

definition lab32_items_18 :: pyval where [lab32_contents]:
  \<open>lab32_items_18 =
   PyList
   [PyDict
     [(''title'', PyStr (lit ''VITESS: YOUTUBE & SLACK HORIZONTAL SCALING'')),
      (''items'', PyList
        [PyStr (lit ''Vindex Routing Engine: Vitess menggunakan '' @
            lit ''abstraksi Vindex (Functional & Lookup '' @
            lit ''Vindexes) untuk memetakan SQL query ke '' @ lit ''tablet MySQL.''),
         PyStr (lit ''Lookup Vindex as GSI: Indeks sekunder '' @
            lit ''global disimpan di keyspace terpisah untuk '' @
            lit ''melayani query non-shard key ('' @ [96] @ lit ''user_email'' @ [96] @
            lit '').''),
         PyStr (lit ''Sequence Keyspace: Menghindari bentrokan ID '' @
            lit ''numerik dengan mengalokasikan blok '' @
            lit ''auto-increment secara terpusat.'')]),
      (''type'', PyStr (lit ''bullet''))],
    PyDict
     [(''title'', PyStr (lit ''CITUS: DISTRIBUTED POSTGRESQL EXTENSION'')),
      (''items'', PyList
        [PyStr (lit ''Co-Location Strategy: Tabel yang memiliki '' @ lit ''relasi (misal '' @
            [96] @ lit ''orders'' @ [96] @ lit '' dan '' @ [96] @ lit ''order_items'' @
            [96] @ lit '') di-shard menggunakan '' @ [96] @ lit ''tenant_id'' @ [96] @
            lit '' yang sama.''),
         PyStr (lit ''Local Foreign Key Joins: Data terkait '' @
            lit ''berada pada physical worker yang sama, '' @
            lit ''memungkinkan query SQL JOIN dieksekusi '' @ lit ''lokal.''),
         PyStr (lit ''Distributed Query Planner: '' @
            lit ''Mentransformasikan SQL kompleks menjadi '' @
            lit ''paralel query snippets ke masing-masing '' @ lit ''node worker.'')]),
      (''type'', PyStr (lit ''bullet''))]]\<close>

definition lab32_slide_18 :: pycall where [lab32_slides]:
  \<open>lab32_slide_18 =
   \<lparr>posargs = [],
  kwargs =
   [(''categories'', PyList
      [PyStr (lit ''STUDI KASUS''),
       PyStr (lit ''INDUSTRI'')]),
    (''title'', PyStr (lit ''Studi Kasus Industri: Vitess (YouTube) & '' @ lit ''Citus (Postgres)'')),
    (''subtitle'', PyStr (lit ''Bagaimana sistem skala internet memecahkan '' @
        lit ''masalah sharding, routing, dan cross-shard '' @ lit ''queries.'')),
    (''content_items'', lab32_items_18),
    (''narrative'', PyStr (lit ''Arsitektur industri membuktikan bahwa '' @
        lit ''prinsip-prinsip dalam lab ini adalah '' @
        lit ''fondasi dari platform data terdistribusi '' @
        lit ''terkemuka. Vitess yang digunakan oleh '' @
        lit ''YouTube dan Slack memelopori konsep '' @
        lit ''Vindexes di mana router cerdas VTGate '' @
        lit ''memetakan query ke ratusan shard MySQL '' @
        lit ''tanpa mengubah kode aplikasi. Sementara '' @
        lit ''itu, Citus pada ekosistem PostgreSQL '' @
        lit ''menekankan strategi Co-Location: dengan '' @
        lit ''menyelaraskan sharding key antara tabel '' @
        lit ''induk dan anak, transaksi dan relasi JOIN '' @
        lit ''dapat diselesaikan sepenuhnya di level '' @
        lit ''server lokal tanpa melintasi jaringan.'')),
    (''narrative_en'', PyStr (lit ''Industry production architectures validate '' @
        lit ''that the core tenets implemented in this '' @
        lit ''lab power modern enterprise data platforms. '' @
        lit ''Vitess, scaling transactional backends at '' @
        lit ''YouTube and Slack, pioneered Vindexes where '' @
        lit ''the VTGate router steers queries to '' @
        lit ''hundreds of MySQL shards transparently. '' @
        lit ''Concurrently, Citus within the PostgreSQL '' @
        lit ''ecosystem champions table Co-Location: by '' @
        lit ''sharing common distribution keys across '' @
        lit ''related tables, foreign key constraints and '' @
        lit ''relational JOINs execute locally without '' @
        lit ''cross-shard network chatter.'')),
    (''mental_model'', PyStr (lit ''Co-locate related tables by tenant ID to '' @
        lit ''preserve local SQL joins; rely on Vindex '' @
        lit ''engines for transparent routing.'')),
    (''source_path'', PyStr (lit ''labs/32-database-sharding-and-partitioning/c'' @
        lit ''ontent/02-master-draft.md:300-330'')),
    (''slide_num'', PyStr (lit ''18 / 24'')),
    (''layout'', PyStr (lit ''cards''))]\<rparr>\<close>

definition lab32_items_19 :: pyval where [lab32_contents]:
  \<open>lab32_items_19 =
   PyList
   [PyDict
     [(''title'', PyStr (lit ''RFC 9562 UUIDv7 (TIME-ORDERED 128-BIT)'')),
      (''items'', PyList
        [PyStr (lit ''Struktur Bit: 48-bit Unix timestamp ms | '' @
            lit ''4-bit Ver (0111) | 12-bit rand_a | 2-bit '' @
            lit ''Var (10) | 62-bit rand_b.''),
         PyStr (lit ''Keunggulan B-Tree: Terurut secara temporal '' @
            lit ''($u_1 < u_2$); mencegah page splitting '' @
            lit ''masif pada indeks database.''),
         PyStr (lit ''Zero Coordination: Tidak memerlukan '' @
            lit ''koordinasi jaringan, server sentral, atau '' @
            lit ''lock terpusat antar worker.'')]),
      (''type'', PyStr (lit ''bullet''))],
    PyDict
     [(''title'', PyStr (lit ''SEQUENCE BLOCK ALLOCATION (VITESS-STYLE)'')),
      (''items'', PyList
        [PyStr (lit ''Mekanisme Blok: Worker meminta rentang blok '' @
            lit ''ID (misal ukuran blok = 1.000 ID) dari '' @
            lit ''central sequence counter.''),
         PyStr (lit ''Eksekusi Lokal: 1.000 operasi insert '' @
            lit ''berikutnya mengalokasikan ID sekuensial di '' @
            lit ''memori lokal tanpa panggilan jaringan.''),
         PyStr (lit ''Efisiensi Jaringan: Mengurangi 99.9% '' @
            lit ''round-trip database dibandingkan query '' @
            lit ''auto-increment sekuensial tradisional.'')]),
      (''type'', PyStr (lit ''bullet''))]]\<close>

definition lab32_slide_19 :: pycall where [lab32_slides]:
  \<open>lab32_slide_19 =
   \<lparr>posargs = [],
  kwargs =
   [(''categories'', PyList
      [PyStr (lit ''ANALISIS TEKNIS''),
       PyStr (lit ''DISTRIBUTED ID'')]),
    (''title'', PyStr (lit ''Analisis Teknis: Solusi Primary Key '' @ lit ''Terdistribusi'')),
    (''subtitle'', PyStr (lit ''Mencegah tabrakan primary key: RFC 9562 '' @
        lit ''UUIDv7 vs Sequence Block Allocation '' @ lit ''(Vitess).'')),
    (''content_items'', lab32_items_19),
    (''narrative'', PyStr (lit ''Dalam database terdistribusi, fitur '' @
        lit ''auto-increment bawaan satu mesin tidak '' @
        lit ''dapat digunakan karena akan menimbulkan '' @
        lit ''tabrakan primary key antar shard. Lab ini '' @
        lit ''menguji dua solusi standar industri. '' @
        lit ''Pertama, RFC 9562 UUIDv7 menghasilkan ID '' @
        lit ''128-bit independen yang menyematkan 48-bit '' @
        lit ''timestamp pada bit awal, menjamin sifat '' @
        lit ''time-ordered yang ramah indeks B-tree tanpa '' @
        lit ''koordinasi jaringan. Kedua, Sequence Block '' @
        lit ''Allocation meminta jatah alokasi blok angka '' @
        lit ''(misal blok 1.000 ID) ke server sentral, '' @
        lit ''memungkinkan worker menerbitkan ID integer '' @
        lit ''berurutan secara cepat di memori lokal.'')),
    (''narrative_en'', PyStr (lit ''Distributed databases cannot rely on local '' @
        lit ''auto-increment sequences without triggering '' @
        lit ''catastrophic primary key collisions across '' @
        lit ''shards. This lab evaluates two industry '' @
        lit ''standard solutions. First, RFC 9562 UUIDv7 '' @
        lit ''generates 128-bit globally unique IDs '' @
        lit ''embedding a 48-bit millisecond timestamp '' @
        lit ''upfront, ensuring monotonic lexicographical '' @
        lit ''sorting that prevents B-tree index '' @
        lit ''fragmentation with zero network '' @
        lit ''coordination. Second, Sequence Block '' @
        lit ''Allocation reserves ID ranges in bulk from '' @
        lit ''a central coordinator, enabling workers to '' @
        lit ''dispense sequential integer IDs locally.'')),
    (''mental_model'', PyStr (lit ''UUIDv7 provides zero-coordination B-tree '' @
        lit ''friendly IDs; sequence block allocators '' @
        lit ''preserve sequential integers efficiently.'')),
    (''source_path'', PyStr (lit ''labs/32-database-sharding-and-partitioning/i'' @
        lit ''nternal/idgen/idgen.go:1-120'')),
    (''slide_num'', PyStr (lit ''19 / 24'')),
    (''layout'', PyStr (lit ''cards''))]\<rparr>\<close>

definition lab32_items_20 :: pyval where [lab32_contents]:
  \<open>lab32_items_20 =
   PyList
   [PyDict
     [(''title'', PyStr (lit ''CHECKLIST KESIAPAN DISTRIBUTED DATABASE'')),
      (''items'', PyList
        [PyStr (lit ''[ ] Mulai dari Logical Table Partitioning '' @
            lit ''pada 1 mesin sebelum memutuskan sharding '' @ lit ''multi-node.''),
         PyStr (lit ''[ ] Evaluasi Shard Key: Wajib '' @
            lit ''berkardinalitas tinggi (tenant_id / '' @
            lit ''user_id) dan tidak menggunakan nilai '' @ lit ''monotonik.''),
         PyStr (lit ''[ ] Terapkan Hashed Sharding jika beban '' @
            lit ''kerja didominasi oleh operasi tulis '' @ lit ''temporal intensif.''),
         PyStr (lit ''[ ] Gunakan Consistent Hashing dengan 50'' @ [0x2013] @
            lit ''150 virtual nodes per server fisik untuk '' @
            lit ''stabilitas scale-out.''),
         PyStr (lit ''[ ] Siapkan Global Secondary Index (Lookup '' @
            lit ''Vindex) untuk query non-shard key yang '' @ lit ''berfrekuensi tinggi.''),
         PyStr (lit ''[ ] Terapkan timeout dan context '' @
            lit ''cancellation ketat pada seluruh query '' @
            lit ''fallback Scatter-Gather broadcast.''),
         PyStr (lit ''[ ] Gunakan RFC 9562 UUIDv7 atau Sequence '' @
            lit ''Block Allocation untuk primary key '' @
            lit ''terdistribusi tanpa tabrakan.''),
         PyStr (lit ''[ ] Kelompokkan tabel berelasi dalam satu '' @
            lit ''shard key yang sama (Co-Location) demi '' @
            lit ''menjaga integritas JOIN lokal.''),
         PyStr (lit ''[ ] Rancang arsitektur tanpa ketergantungan '' @
            lit ''pada transaksi Two-Phase Commit (2PC) '' @
            lit ''cross-shard berkepanjangan.'')]),
      (''type'', PyStr (lit ''bullet''))]]\<close>

definition lab32_slide_20 :: pycall where [lab32_slides]:
  \<open>lab32_slide_20 =
   \<lparr>posargs = [],
  kwargs =
   [(''categories'', PyList
      [PyStr (lit ''CHECKLIST''),
       PyStr (lit ''PRODUKSI'')]),
    (''title'', PyStr (lit ''Checklist Implementasi Produksi Sharding & '' @ lit ''Partitioning'')),
    (''subtitle'', PyStr (lit ''9 poin verifikasi arsitektur sebelum '' @
        lit ''menggelar cluster database terdistribusi ke '' @ lit ''produksi.'')),
    (''content_items'', lab32_items_20),
    (''narrative'', PyStr (lit ''Daftar periksa ini merangkum sembilan '' @
        lit ''prinsip krusial yang wajib dievaluasi oleh '' @
        lit ''arsitek database sebelum beralih ke '' @
        lit ''arsitektur sharded. Langkah pertama selalu '' @
        lit ''memaksimalkan logical partitioning dan '' @
        lit ''optimasi query pada server tunggal. Ketika '' @
        lit ''sharding fisik mutlak diperlukan, pemilihan '' @
        lit ''sharding key berkardinalitas tinggi dan '' @
        lit ''penggunaan consistent hash ring dengan '' @
        lit ''virtual nodes adalah syarat mutlak. Kueri '' @
        lit ''pencarian sekunder harus dilindungi oleh '' @
        lit ''Global Secondary Index, dan struktur data '' @
        lit ''relasional harus di-co-locate dalam shard '' @
        lit ''yang sama demi menghindari latensi '' @ lit ''Two-Phase Commit.'')),
    (''narrative_en'', PyStr (lit ''This checklist codifies nine critical '' @
        lit ''prerequisites before embarking on database '' @
        lit ''sharding in production. Engineering teams '' @
        lit ''must first exhaust single-node logical '' @
        lit ''partitioning and hardware vertical '' @
        lit ''headroom. When physical sharding becomes '' @
        lit ''unavoidable, selecting high-cardinality '' @
        lit ''shard keys and provisioning consistent '' @
        lit ''hashing rings with virtual nodes are '' @
        lit ''non-negotiable requirements. Secondary '' @
        lit ''lookups must be secured via Global '' @
        lit ''Secondary Indexes, and relational schemas '' @
        lit ''must be co-located to avoid the crushing '' @
        lit ''latency penalties of distributed 2PC '' @ lit ''transactions.'')),
    (''mental_model'', PyStr (lit ''Maximize single-node partitioning first; '' @
        lit ''when sharding, mandate high-cardinality '' @
        lit ''keys, vnode rings, and table co-location.'')),
    (''source_path'', PyStr (lit ''labs/32-database-sharding-and-partitioning/c'' @
        lit ''ontent/02-master-draft.md:335-350'')),
    (''slide_num'', PyStr (lit ''20 / 24'')),
    (''layout'', PyStr (lit ''checklist''))]\<rparr>\<close>

definition lab32_items_21 :: pyval where [lab32_contents]:
  \<open>lab32_items_21 =
   PyList
   [PyDict
     [(''title'', PyStr (lit ''ANTI-PATTERN DISTRIBUTED DATA UMUM'')),
      (''items'', PyList
        [PyStr (lit ''Monotonic Shard Key: Menggunakan tanggal '' @
            lit ''atau auto-increment sebagai shard key, '' @
            lit ''memicu 100% write hotspot.''),
         PyStr (lit ''Modulo Hash Resharding: Menggunakan rumus '' @ [96] @ lit ''key % N'' @
            [96] @ lit '' yang memaksa 80% data berpindah saat '' @ lit ''penambahan node.''),
         PyStr (lit ''Unindexed Scatter-Gather: Membiarkan query '' @
            lit ''pencarian sekunder melakukan broadcast 100% '' @
            lit ''node di setiap request.''),
         PyStr (lit ''Distributed Foreign Keys: Mencoba '' @
            lit ''menegakkan relasi JOIN antar shard berbeda '' @
            lit ''tanpa co-location data.'')]),
      (''type'', PyStr (lit ''card''))],
    PyDict
     [(''title'', PyStr (lit ''CARA REPRODUKSI KEGAGALAN DI LAB'')),
      (''items'', PyList
        [PyStr (lit ''1. Eksekusi '' @ [96] @ lit ''demoShardingHotspots()'' @ [96] @
            lit '' di '' @ [96] @ lit ''cmd/demo/main.go'' @ [96] @
            lit '': Saksikan 1.000 record menumpuk 100% di '' @ [96] @ lit ''shard-2'' @
            [96] @ lit ''.''),
         PyStr (lit ''2. Jalankan '' @ [96] @ lit ''TestRoutingAndConsistentHashRelocation'' @
            [96] @ lit '': Saksikan Hash Modulo memindahkan 75.12% '' @
            lit ''key pada scale-out.''),
         PyStr (lit ''3. Bandingkan latensi Scatter-Gather (92'' @ [0xB5] @
            lit ''s) vs GSI (1'' @ [0xB5] @ lit ''s) di '' @ [96] @
            lit ''demoScatterGatherVsGSI()'' @ [96] @
            lit '' untuk membuktikan broadcast penalty.'')]),
      (''type'', PyStr (lit ''card''))]]\<close>

definition lab32_slide_21 :: pycall where [lab32_slides]:
  \<open>lab32_slide_21 =
   \<lparr>posargs = [],
  kwargs =
   [(''categories'', PyList
      [PyStr (lit ''ANTI-PATTERN''),
       PyStr (lit ''REPRODUKSI'')]),
    (''title'', PyStr (lit ''Anti-Pattern: Kesalahan Desain Sharding & '' @ lit ''Reproduksi Lab'')),
    (''subtitle'', PyStr (lit ''Kekeliruan arsitektur yang melumpuhkan '' @
        lit ''cluster dan cara membuktikannya langsung di '' @ lit ''lab.'')),
    (''content_items'', lab32_items_21),
    (''narrative'', PyStr (lit ''Mengabaikan prinsip dasar partisi database '' @
        lit ''dapat melumpuhkan seluruh infrastruktur '' @
        lit ''backend. Anti-pattern paling umum adalah '' @
        lit ''memilih sharding key monotonik seperti '' @
        lit ''tanggal transaksi yang memusatkan seluruh '' @
        lit ''write traffic pada satu mesin database yang '' @
        lit ''malang. Kesalahan fatal lainnya adalah '' @
        lit ''menggunakan rumus hash modulo sederhana '' @
        lit ''yang memicu banjir data saat menambah '' @
        lit ''kapasitas server. Pengembang dapat '' @
        lit ''mereproduksi skenario kegagalan ini secara '' @
        lit ''langsung di lab melalui fungsi demo dan '' @
        lit ''unit test yang telah disediakan.'')),
    (''narrative_en'', PyStr (lit ''Violating fundamental distributed data '' @
        lit ''principles introduces catastrophic '' @
        lit ''performance failures. The most devastating '' @
        lit ''anti-pattern remains adopting monotonic '' @
        lit ''timestamp shard keys, concentrating 100% of '' @
        lit ''cluster write throughput onto a single '' @
        lit ''suffocating instance. Equally hazardous is '' @
        lit ''relying on primitive modulo arithmetic that '' @
        lit ''triggers massive data rebalancing storms '' @
        lit ''during cluster expansions. Engineers can '' @
        lit ''reproduce these exact degradation scenarios '' @
        lit ''locally through the automated demo and '' @
        lit ''benchmark suites provided in this lab.'')),
    (''mental_model'', PyStr (lit ''Never shard on monotonic keys; never scale '' @
        lit ''out using raw modulo hashing; verify '' @
        lit ''failure thresholds through lab tests.'')),
    (''source_path'', PyStr (lit ''labs/32-database-sharding-and-partitioning/c'' @
        lit ''ontent/02-master-draft.md:275-290'')),
    (''slide_num'', PyStr (lit ''21 / 24'')),
    (''layout'', PyStr (lit ''anti-pattern-cards''))]\<rparr>\<close>

definition lab32_items_22 :: pyval where [lab32_contents]:
  \<open>lab32_items_22 =
   PyList
   [PyDict
     [(''title'', PyStr (lit ''PERINTAH VERIFIKASI RESMI'')),
      (''items'', PyList
        [PyStr (lit ''cd labs/32-database-sharding-and-partitionin'' @ lit ''g''),
         PyStr (lit ''go test -v -count=1 ./...''),
         PyStr (lit ''go test -race -v -count=1 ./...''),
         PyStr (lit ''go run ./cmd/demo'')]),
      (''type'', PyStr (lit ''code''))],
    PyDict
     [(''title'', PyStr (lit ''RINGKASAN METRIK LABORATORIUM'')),
      (''items'', PyList
        [PyStr (lit ''Test Suite: 5/5 test suites lulus 100% '' @
            lit ''(Pruning, Resharding Relocation, '' @
            lit ''Scatter-Gather & GSI, UUIDv7, Concurrency).''),
         PyStr (lit ''Race Detector: Bersih mutlak dari data race '' @
            lit ''condition pada 200 goroutine simultan '' @ lit ''(1.405s pass).''),
         PyStr (lit ''Zero Dependencies: Murni Go Standard '' @ lit ''Library ('' @ [96] @
            lit ''sync'' @ [96] @ lit '', '' @ [96] @ lit ''hash/fnv'' @ [96] @ lit '', '' @
            [96] @ lit ''crypto/rand'' @ [96] @ lit '', '' @ [96] @ lit ''sort'' @ [96] @
            lit '', '' @ [96] @ lit ''time'' @ [96] @ lit '') tanpa dependensi eksternal.'')]),
      (''type'', PyStr (lit ''bullet''))]]\<close>

definition lab32_slide_22 :: pycall where [lab32_slides]:
  \<open>lab32_slide_22 =
   \<lparr>posargs = [],
  kwargs =
   [(''categories'', PyList
      [PyStr (lit ''PRAKTIS''),
       PyStr (lit ''COMMAND'')]),
    (''title'', PyStr (lit ''Verifikasi Mandiri: Uji & Jalankan Lab di '' @ lit ''Mesin Anda'')),
    (''subtitle'', PyStr (lit ''Reproduksi seluruh unit test, deteksi data '' @
        lit ''race, dan simulasi cluster sharded di '' @ lit ''terminal Anda.'')),
    (''content_items'', lab32_items_22),
    (''narrative'', PyStr (lit ''Laboratorium ini dirancang untuk dapat '' @
        lit ''diverifikasi secara mandiri dalam hitungan '' @
        lit ''detik tanpa memerlukan instalasi database '' @
        lit ''eksternal. Seluruh logika sharding router, '' @
        lit ''virtual nodes, partition pruning, dan '' @
        lit ''generator UUIDv7 dibangun murni menggunakan '' @
        lit ''pustaka standar Go. Perintah go test -v '' @
        lit ''mengeksekusi pengujian komprehensif mulai '' @
        lit ''dari verifikasi query pruning hingga rasio '' @
        lit ''relokasi consistent hashing. Perintah go '' @
        lit ''test -race menjamin thread-safety di bawah '' @
        lit ''konkurensi tinggi, dan go run demo '' @
        lit ''memperlihatkan perbandingan performa secara '' @ lit ''visual.'')),
    (''narrative_en'', PyStr (lit ''This laboratory is engineered for '' @
        lit ''immediate, deterministic peer verification '' @
        lit ''without running external database '' @
        lit ''containers or daemons. All consistent '' @
        lit ''hashing algorithms, virtual node rings, '' @
        lit ''partition pruning evaluators, and UUIDv7 '' @
        lit ''generators are built strictly with Go '' @
        lit ''standard library primitives. Running go '' @
        lit ''test -v executes rigorous test suites '' @
        lit ''verifying pruning bounds and scale-out '' @
        lit ''relocation ratios. Executing go test -race '' @
        lit ''confirms thread safety under high '' @
        lit ''concurrency, while go run demo renders the '' @
        lit ''full interactive benchmark.'')),
    (''mental_model'', PyStr (lit ''Zero-dependency standard library code '' @
        lit ''enables deterministic, transparent '' @
        lit ''verification of distributed data '' @ lit ''architectures.'')),
    (''source_path'', PyStr (lit ''labs/32-database-sharding-and-partitioning/R'' @ lit ''EADME.md '' @
        [0x2022] @ lit '' engineering/03-execution-result.md'')),
    (''slide_num'', PyStr (lit ''22 / 24'')),
    (''layout'', PyStr (lit ''command-block''))]\<rparr>\<close>

definition lab32_items_23 :: pyval where [lab32_contents]:
  \<open>lab32_items_23 =
   PyList
   [PyDict
     [(''title'', PyStr (lit ''1. PARTISI LOGIS SEBELUM SHARDING FISIK'')),
      (''items'', PyList
        [PyStr (lit ''Gunakan declarative table partitioning pada '' @
            lit ''satu mesin untuk query pruning dan '' @
            lit ''manajemen siklus hidup data.''),
         PyStr (lit ''Tunda sharding fisik terdistribusi sampai '' @
            lit ''batasan hardware vertikal (I/O, RAM, Write '' @
            lit ''lock) benar-benar terlampaui.'')]),
      (''type'', PyStr (lit ''card''))],
    PyDict
     [(''title'', PyStr (lit ''2. SHARD KEY MENENTUKAN STRUKTUR SISTEM'')),
      (''items'', PyList
        [PyStr (lit ''Pilih sharding key berkardinalitas tinggi '' @
            lit ''yang menyelaraskan pola akses baca dan '' @ lit ''tulis aplikasi.''),
         PyStr (lit ''Co-locate entitas data terkait di bawah '' @
            lit ''satu kunci partisi guna menghindari '' @
            lit ''transaksi terdistribusi Two-Phase Commit.'')]),
      (''type'', PyStr (lit ''card''))],
    PyDict
     [(''title'', PyStr (lit ''3. MINIMALKAN PERPINDAHAN & BROADCAST'')),
      (''items'', PyList
        [PyStr (lit ''Gunakan Consistent Hashing dengan virtual '' @
            lit ''nodes agar ekspansi cluster hanya '' @
            lit ''memindahkan porsi data minimal $O(1/N)$.''),
         PyStr (lit ''Lindungi sistem dari broadcast '' @
            lit ''scatter-gather menggunakan Global Secondary '' @
            lit ''Indexes untuk akses atribut sekunder.'')]),
      (''type'', PyStr (lit ''card''))]]\<close>

definition lab32_slide_23 :: pycall where [lab32_slides]:
  \<open>lab32_slide_23 =
   \<lparr>posargs = [],
  kwargs =
   [(''categories'', PyList
      [PyStr (lit ''PRINSIP''),
       PyStr (lit ''ARSITEKTUR'')]),
    (''title'', PyStr (lit ''Prinsip Arsitektur: Desain Database Skala '' @ lit ''Besar'')),
    (''subtitle'', PyStr (lit ''Tiga hukum fundamental dalam merancang '' @
        lit ''penyimpanan data yang tahan uji skala waktu.'')),
    (''content_items'', lab32_items_23),
    (''narrative'', PyStr (lit ''Tiga prinsip arsitektural ini merupakan '' @
        lit ''pedoman abadi bagi arsitek perangkat lunak '' @
        lit ''dalam merancang sistem penyimpanan data. '' @
        lit ''Pertama, jangan terburu-buru melakukan '' @
        lit ''sharding terdistribusi; maksimalkan partisi '' @
        lit ''logis dan optimasi query pada mesin tunggal '' @
        lit ''sebelum menambah kompleksitas jaringan. '' @
        lit ''Kedua, pahami bahwa sharding key adalah '' @
        lit ''keputusan topologi yang menentukan struktur '' @
        lit ''sistem: co-locate data terkait untuk '' @
        lit ''mempertahankan transaksi dan relasi lokal. '' @
        lit ''Ketiga, rancang arsitektur routing yang '' @
        lit ''meminimalkan pergerakan data saat scaling '' @
        lit ''dan mengeliminasi ketergantungan pada query '' @ lit ''broadcast.'')),
    (''narrative_en'', PyStr (lit ''These three timeless architectural '' @
        lit ''principles govern high-scale data layer '' @
        lit ''design. First, resist premature distributed '' @
        lit ''sharding; exhaust single-node logical '' @
        lit ''partitioning, indexing, and vertical '' @
        lit ''headroom before introducing network '' @
        lit ''boundaries. Second, recognize that shard '' @
        lit ''key selection defines the topology of your '' @
        lit ''system: co-locate related records to '' @
        lit ''preserve local transactional boundaries and '' @
        lit ''avoid distributed commits. Third, build '' @
        lit ''routing infrastructures that minimize data '' @
        lit ''relocation during scale-outs and '' @
        lit ''systematically eliminate scatter-gather '' @ lit ''broadcast dependencies.'')),
    (''mental_model'', PyStr (lit ''Exhaust single-node partitioning first; '' @
        lit ''co-locate data by high-cardinality keys; '' @
        lit ''govern scale-out with consistent hash rings.'')),
    (''source_path'', PyStr (lit ''labs/32-database-sharding-and-partitioning/c'' @
        lit ''ontent/05-key-takeaways.md'')),
    (''slide_num'', PyStr (lit ''23 / 24'')),
    (''layout'', PyStr (lit ''principles-list''))]\<rparr>\<close>

definition lab32_items_24 :: pyval where [lab32_contents]:
  \<open>lab32_items_24 =
   PyList
   [PyDict
     [(''title'', PyStr (lit ''KOMPONEN ARSITEKTUR LABORATORIUM'')),
      (''items'', PyList
        [PyStr (lit ''internal/partitioning/table.go '' @ [0x2014] @
            lit '' Single-node range-based logical '' @
            lit ''partitioning with query pruning & fast drop''),
         PyStr (lit ''internal/sharding/sharding.go '' @ [0x2014] @
            lit '' ModuloRouter vs ConsistentHashRouter (with '' @
            lit ''vnodes), Cluster, & Scatter-Gather''),
         PyStr (lit ''internal/idgen/idgen.go '' @ [0x2014] @
            lit '' RFC 9562 UUIDv7 (128-bit time-ordered) & '' @
            lit ''Vitess-style Sequence Block Allocator''),
         PyStr (lit ''tests/sharding_test.go '' @ [0x2014] @
            lit '' 5 comprehensive test suites covering '' @
            lit ''pruning, resharding, GSI, IDs, & concurrency''),
         PyStr (lit ''cmd/demo/main.go '' @ [0x2014] @
            lit '' Interactive benchmarks demonstrating '' @
            lit ''hotspots, resharding churn, and 92x GSI '' @ lit ''speedup'')]),
      (''type'', PyStr (lit ''bullet''))],
    PyDict
     [(''title'', PyStr (lit ''VERIFIKASI & REPOSITORI'')),
      (''items'', PyList
        [PyStr (lit ''Commit SHA: '' @ str_prefix 8 lab32_COMMIT_SHA),
         PyStr (lit ''Unit Tests: 5/5 PASS (100% clean, 0.446s)''),
         PyStr (lit ''Race Detector: PASS (zero data race, 1.405s)''),
         PyStr (lit ''Repositori: '' @ lit ''github.com/lukman-ss/software-engineering-la'' @
            lit ''b/tree/main/labs/'' @ lab32_LAB_NO @ lit ''-'' @ lab32_SLUG)]),
      (''type'', PyStr (lit ''bullet''))]]\<close>

definition lab32_slide_24 :: pycall where [lab32_slides]:
  \<open>lab32_slide_24 =
   \<lparr>posargs = [],
  kwargs =
   [(''categories'', PyList
      [PyStr (lit ''CLOSING'')]),
    (''title'', PyStr (lit ''Partisi Cerdas, Sharding Terukur, '' @ lit ''Skalabilitas Tanpa Batas.'')),
    (''subtitle'', PyStr []),
    (''content_items'', lab32_items_24),
    (''narrative'', PyStr (lit ''Laboratorium Database Sharding and '' @
        lit ''Partitioning ini membuktikan secara konkret '' @
        lit ''bahwa skalabilitas penyimpanan '' @
        lit ''terdistribusi dapat dicapai dengan elegan '' @
        lit ''melalui pemisahan tanggung jawab yang '' @
        lit ''jelas. Dengan memadukan logical table '' @
        lit ''partitioning untuk efisiensi siklus hidup '' @
        lit ''lokal, router consistent hashing ring '' @
        lit ''dengan virtual nodes untuk ekspansi minim '' @
        lit ''migrasi, serta Global Secondary Index untuk '' @
        lit ''mengeliminasi broadcast scatter-gather, '' @
        lit ''sistem mampu melampaui batasan mesin '' @
        lit ''tunggal dengan performa terprediksi. '' @
        lit ''Seluruh kode sumber, dokumentasi '' @
        lit ''arsitektur, dan hasil uji tersedia lengkap '' @ lit ''di repositori.'')),
    (''narrative_en'', PyStr (lit ''This Database Sharding and Partitioning '' @
        lit ''laboratory provides empirical proof that '' @
        lit ''distributed data scalability is cleanly '' @
        lit ''attainable through disciplined '' @
        lit ''architectural boundaries. By combining '' @
        lit ''logical table partitioning for local query '' @
        lit ''pruning, consistent hashing rings with '' @
        lit ''virtual nodes for minimal resharding '' @
        lit ''shuffle, and Global Secondary Indexes to '' @
        lit ''eliminate scatter-gather broadcast storms, '' @
        lit ''backend systems scale beyond single-node '' @
        lit ''ceilings with deterministic performance. '' @
        lit ''Complete source code and verification '' @
        lit ''harnesses are available in the repository.'')),
    (''mental_model'', PyStr (lit ''Logical partitioning prunes locally; '' @
        lit ''consistent hashing scales horizontally; GSI '' @
        lit ''eliminates broadcast overhead.'')),
    (''source_path'', PyStr lab32_REPO_URL),
    (''slide_num'', PyStr (lit ''24 / 24'')),
    (''layout'', PyStr (lit ''closing-dark-navy''))]\<rparr>\<close>

definition lab32_calls :: "pycall list" where
  "lab32_calls =
    [lab32_slide_01, lab32_slide_02, lab32_slide_03, lab32_slide_04, lab32_slide_05,
     lab32_slide_06, lab32_slide_07, lab32_slide_08, lab32_slide_09, lab32_slide_10,
     lab32_slide_11, lab32_slide_12, lab32_slide_13, lab32_slide_14, lab32_slide_15,
     lab32_slide_16, lab32_slide_17, lab32_slide_18, lab32_slide_19, lab32_slide_20,
     lab32_slide_21, lab32_slide_22, lab32_slide_23, lab32_slide_24]"

definition lab32_deck :: deck where
  "lab32_deck =
    \<lparr>add_slide = lab32_add_slide, lab_no = lab32_LAB_NO, title_id = lab32_TITLE_ID, calls = lab32_calls\<rparr>"

section \<open>Checks of the calls\<close>

lemma lab32_shapes:
  "\<forall>c \<in> set lab32_calls. shape_of c \<in> set
    [(0, [''categories'', ''title'', ''subtitle'', ''content_items'', ''mental_model'',
      ''source_path'', ''slide_num'', ''narrative'', ''narrative_en'', ''layout'']),
     (0, [''categories'', ''title'', ''subtitle'', ''content_items'', ''narrative'',
      ''narrative_en'', ''mental_model'', ''source_path'', ''slide_num'', ''layout''])]"
  by (simp only: lab32_calls_def lab32_slides shape_eval cong: pyval_opaque)

lemma lab32_calls_ok: "\<forall>c \<in> set lab32_calls. call_ok sig_layout c"
  by (rule calls_ok_by_shapes [OF lab32_shapes])
    (simp add: shape_ok_def param_names_def signature_defs core_params_def)

lemma lab32_labels: "map (\<lambda>c. value_of sig_layout c ''slide_num'') lab32_calls = labels_24"
  by (simp only: lab32_calls_def lab32_slides keyword_eval labels_24_eval cong: pyval_opaque)

lemma lab32_contents_of:
  "map (\<lambda>c. value_of sig_layout c ''content_items'') lab32_calls =
    [lab32_items_01, lab32_items_02, lab32_items_03, lab32_items_04, lab32_items_05,
     lab32_items_06, lab32_items_07, lab32_items_08, lab32_items_09, lab32_items_10,
     lab32_items_11, lab32_items_12, lab32_items_13, lab32_items_14, lab32_items_15,
     lab32_items_16, lab32_items_17, lab32_items_18, lab32_items_19, lab32_items_20,
     lab32_items_21, lab32_items_22, lab32_items_23, lab32_items_24]"
  by (simp only: lab32_calls_def lab32_slides keyword_eval cong: pyval_opaque)

lemma lab32_items: "item_defects sig_layout lab32_calls = []"
  by (simp only: item_defects_def lab32_contents_of)
    (simp add: lab32_contents item_eval cong: pystr_opaque)

end
