(* ===== verification/Deck33.thy ===== *)
theory Deck33
  imports DeckContract
begin

text \<open>
  The publication definition of lab 33, \<^verbatim>\<open>labs/33-read-replicas-and-replication-lag/result/content_def.py\<close>:
  its module constants, every \<open>add_slide\<close> call in order (\<open>lab33_slide_01\<close> is the first),
  and the module as a whole (\<open>lab33_deck\<close>). Long strings are split into pieces that are
  concatenated; a character outside ASCII is its code point.
\<close>

named_theorems lab33_slides \<open>the add_slide calls of lab 33\<close>
named_theorems lab33_contents \<open>their content_items arguments\<close>

definition lab33_OUTPUT_DIR :: pystr where
  \<open>lab33_OUTPUT_DIR = lit ''labs/33-read-replicas-and-replication-lag/re'' @ lit ''sult''\<close>

definition lab33_CHROME_BIN :: pystr where
  \<open>lab33_CHROME_BIN = lit ''/Applications/Google '' @ lit ''Chrome.app/Contents/MacOS/Google Chrome''\<close>

definition lab33_REPO_URL :: pystr where
  \<open>lab33_REPO_URL = lit ''https://github.com/lukman-ss/software-engine'' @
    lit ''ering-lab/tree/main/labs/33-read-replicas-an'' @ lit ''d-replication-lag''\<close>

definition lab33_COMMIT_SHA :: pystr where
  \<open>lab33_COMMIT_SHA = lit ''b41fffb''\<close>

definition lab33_LAB_NO :: pystr where
  \<open>lab33_LAB_NO = lit ''33''\<close>

definition lab33_SLUG :: pystr where
  \<open>lab33_SLUG = lit ''read-replicas-and-replication-lag''\<close>

definition lab33_TITLE_ID :: pystr where
  \<open>lab33_TITLE_ID = lit ''Read Replica dan Replication Lag''\<close>

definition lab33_SUBTITLE_ID :: pystr where
  \<open>lab33_SUBTITLE_ID = lit ''Menjaga Read-Your-Own-Writes Tanpa '' @ lit ''Mengorbankan Skalabilitas Baca''\<close>

definition lab33_TITLE_EN :: pystr where
  \<open>lab33_TITLE_EN = lit ''Read Replicas and Replication Lag''\<close>

definition lab33_SUBTITLE_EN :: pystr where
  \<open>lab33_SUBTITLE_EN = lit ''Guaranteeing Read-Your-Own-Writes Without '' @
    lit ''Sacrificing Read Scalability''\<close>

definition lab33_AUTHOR :: pystr where
  \<open>lab33_AUTHOR = lit ''Lukman / lukman-ss''\<close>

definition lab33_COVER_IMAGE_PATH :: pystr where
  \<open>lab33_COVER_IMAGE_PATH = lit ''labs/33-read-replicas-and-replication-lag/re'' @
    lit ''sult/image-cover/cover_art.jpg''\<close>

definition lab33_DARK_NAVY :: pystr where
  \<open>lab33_DARK_NAVY = lit ''0b1b2d''\<close>

definition lab33_TEAL :: pystr where
  \<open>lab33_TEAL = lit ''087f76''\<close>

definition lab33_CREAM :: pystr where
  \<open>lab33_CREAM = lit ''f4f1e8''\<close>

definition lab33_WHITE :: pystr where
  \<open>lab33_WHITE = lit ''ffffff''\<close>

definition lab33_SLATE :: pystr where
  \<open>lab33_SLATE = lit ''52606b''\<close>

definition lab33_ORANGE :: pystr where
  \<open>lab33_ORANGE = lit ''d97706''\<close>

definition lab33_add_slide :: "pycall \<Rightarrow> pyval list \<Rightarrow> (pyexc, pyval list) res" where
  "lab33_add_slide = add_slide_layout"

definition lab33_items_01 :: pyval where [lab33_contents]:
  \<open>lab33_items_01 =
   PyList
   [PyDict
     [(''type'', PyStr (lit ''cover'')),
      (''title'', PyStr []),
      (''items'', PyList
        [PyStr (lit ''Diagram cluster primary-replica dengan '' @ lit ''panah WAL streaming''),
         PyStr (lit ''Ilustrasi replication lag dan jalur routing '' @
            lit ''read (naive vs sticky vs token vs sync)''),
         PyStr (lit ''Penulis: '' @ lab33_AUTHOR)])]]\<close>

definition lab33_slide_01 :: pycall where [lab33_slides]:
  \<open>lab33_slide_01 =
   \<lparr>posargs = [],
  kwargs =
   [(''categories'', PyList
      [PyStr (lit ''COVER'')]),
    (''title'', PyStr lab33_TITLE_ID),
    (''subtitle'', PyStr lab33_SUBTITLE_ID),
    (''content_items'', lab33_items_01),
    (''mental_model'', PyStr (lit ''Replication lag is the distance between '' @
        lit ''primary LSN and replica applied-LSN; every '' @
        lit ''read strategy is a closing mechanism for '' @ lit ''that gap.'')),
    (''source_path'', PyStr lab33_REPO_URL),
    (''slide_num'', PyStr (lit ''01 / 24'')),
    (''narrative'', PyStr (lit ''Laboratorium ini membahas masalah nyata '' @
        lit ''yang dihadapi setiap backend engineer yang '' @
        lit ''menggunakan read replica untuk scaling '' @
        lit ''database: stale read. Ketika write baru '' @
        lit ''commit ke primary, replica menerima aliran '' @
        lit ''WAL secara asinkron dengan delay tertentu. '' @
        lit ''Jika aplikasi langsung mengarahkan read '' @
        lit ''user ke replica tanpa mekanisme penutupan '' @
        lit ''jarak tersebut, user akan melihat data lama '' @
        lit ''bahkan menerima not-found untuk key yang '' @
        lit ''baru saja ditulis. Lab ini '' @
        lit ''mengimplementasikan empat strategi mitigasi '' @ [0x2014] @
        lit '' time-based sticky routing, causal token '' @
        lit ''dengan LSN wait, lag-aware dynamic '' @
        lit ''filtering, dan synchronous remote_apply '' @ [0x2014] @
        lit '' dalam simulasi cluster in-memory Go yang '' @ lit ''utuh.'')),
    (''narrative_en'', PyStr (lit ''This laboratory explores the real-world '' @
        lit ''problem encountered by every backend '' @
        lit ''engineer using read replicas for database '' @
        lit ''scaling: stale reads. When a new write '' @
        lit ''commits to the primary, replicas receive '' @
        lit ''the WAL stream asynchronously with some '' @
        lit ''delay. If the application immediately '' @
        lit ''directs user reads to replicas without a '' @
        lit ''closing mechanism, users see stale data or '' @
        lit ''even receive not-found errors for recently '' @
        lit ''written keys. This lab implements four '' @ lit ''mitigation strategies '' @
        [0x2014] @ lit '' time-based sticky routing, causal token '' @
        lit ''with LSN wait, lag-aware dynamic filtering, '' @
        lit ''and synchronous remote_apply '' @ [0x2014] @
        lit '' within a complete in-memory Go cluster '' @ lit ''simulation.'')),
    (''layout'', PyStr (lit ''cover''))]\<rparr>\<close>

definition lab33_items_02 :: pyval where [lab33_contents]:
  \<open>lab33_items_02 =
   PyList
   [PyDict
     [(''title'', PyStr (lit ''WRITE COMMITTED'')),
      (''items'', PyList
        [PyStr (lit ''User mengubah field '' @ [39] @ lit ''tier'' @ [39] @
            lit '' premium di endpoint PUT /profile.''),
         PyStr (lit ''Request dialihkan ke primary, LSN increment '' @ lit ''menjadi 47.''),
         PyStr (lit ''Write berhasil dengan status 200, response '' @
            lit ''body berisi payload baru.'')]),
      (''type'', PyStr (lit ''card''))],
    PyDict
     [(''title'', PyStr (lit ''REPLICA LAGGING'')),
      (''items'', PyList
        [PyStr (lit ''WAL entry dengan LSN 47 mengalir ke '' @
            lit ''replica-1 namun belum di-apply.''),
         PyStr (lit ''Replica-1 masih menunjukkan appliedLSN = '' @
            lit ''44, data lama belum tersingkir.''),
         PyStr (lit ''Worker goroutine replica menunggu durasi '' @
            lit ''lagDuration sebelum flush.'')]),
      (''type'', PyStr (lit ''card''))],
    PyDict
     [(''title'', PyStr (lit ''STALE READ TERJADI'')),
      (''items'', PyList
        [PyStr (lit ''Load balancer mengalihkan read dashboard ke '' @
            lit ''replica-1 secara round-robin.''),
         PyStr (lit ''Query SELECT profile WHERE id=user mendapat '' @
            lit ''ErrNotFound atau data usang.''),
         PyStr (lit ''User merasa sistem rusak; actual cause '' @
            lit ''adalah replication lag yang tak tertutup.'')]),
      (''type'', PyStr (lit ''card''))]]\<close>

definition lab33_slide_02 :: pycall where [lab33_slides]:
  \<open>lab33_slide_02 =
   \<lparr>posargs = [],
  kwargs =
   [(''categories'', PyList
      [PyStr (lit ''MOTIVASI''),
       PyStr (lit ''STALE READ RISK'')]),
    (''title'', PyStr (lit ''Masalah Nyata: Ilusi Freshness di Balik '' @ lit ''Read Replica'')),
    (''subtitle'', PyStr (lit ''User menulis profil baru, tapi dashboard '' @
        lit ''menampilkan data lama atau kosong.'')),
    (''content_items'', lab33_items_02),
    (''narrative'', PyStr (lit ''Skenario ini terjadi secara default di '' @
        lit ''hampir semua database production yang '' @
        lit ''menggunakan primary-replica topology. '' @
        lit ''PostgreSQL streaming replication, MySQL '' @
        lit ''async replication, AWS RDS read replicas, '' @
        lit ''dan Azure Database for PostgreSQL semuanya '' @
        lit ''menjalankan replikasi asinkron secara '' @
        lit ''default tanpa konfigurasi khusus. Ketika '' @
        lit ''client application melakukan pattern '' @
        lit ''write-then-read pada session yang sama, ia '' @
        lit ''tidak memiliki awareness bahwa data yang '' @
        lit ''baru ditulis belum tersedia di replica '' @
        lit ''target. Akibatnya, user mengalami anomali '' @
        lit ''UX yang sulit dilacak karena log '' @
        lit ''menunjukkan write sukses, tapi query '' @
        lit ''berikutnya gagal membaca data yang sama.'')),
    (''narrative_en'', PyStr (lit ''This scenario occurs by default across '' @
        lit ''nearly all production databases using '' @
        lit ''primary-replica topology. PostgreSQL '' @
        lit ''streaming replication, MySQL async '' @
        lit ''replication, AWS RDS read replicas, and '' @
        lit ''Azure Database for PostgreSQL all run '' @
        lit ''asynchronous replication by default without '' @
        lit ''explicit configuration. When the client '' @
        lit ''application performs a write-then-read '' @
        lit ''pattern on the same session, it has no '' @
        lit ''awareness that the written data is '' @
        lit ''unavailable at the target replica. The '' @
        lit ''result is a hard-to-debug UX anomaly '' @
        lit ''because logs show successful writes but '' @
        lit ''subsequent queries fail to read the same '' @ lit ''data.'')),
    (''mental_model'', PyStr (lit ''Stale reads are not bugs; they are the '' @
        lit ''expected behavior of eventually consistent '' @ lit ''replica systems.'')),
    (''source_path'', PyStr (lit ''labs/33-read-replicas-and-replication-lag/co'' @
        lit ''ntent/01-content-brief.md'')),
    (''slide_num'', PyStr (lit ''02 / 24'')),
    (''layout'', PyStr (lit ''cards''))]\<rparr>\<close>

definition lab33_items_03 :: pyval where [lab33_contents]:
  \<open>lab33_items_03 =
   PyList
   [PyDict
     [(''title'', PyStr (lit ''KODE ROUTING NAIF'')),
      (''items'', PyList
        [PyStr (lit ''func (r *Router) ReadNaive(key string) '' @
            lit ''(string, string, uint64, error) {''),
         PyStr (lit ''    replicas := r.cluster.Replicas()''),
         PyStr (lit ''    if len(replicas) == 0 {''),
         PyStr (lit ''        return '' @ lit ''r.cluster.Primary().Read(key)  // Fallback '' @
            lit ''aman''),
         PyStr (lit ''    }''),
         PyStr (lit ''    idx := r.rrIndex.Add(1) % '' @ lit ''uint64(len(replicas))''),
         PyStr (lit ''    target := replicas[idx]''),
         PyStr (lit ''    return target.Read(key)  // Tanpa cek '' @ lit ''appliedLSN!''),
         PyStr (lit ''}'')]),
      (''type'', PyStr (lit ''code''))],
    PyDict
     [(''title'', PyStr (lit ''KEGAGALAN FUNDAMENTAL'')),
      (''items'', PyList
        [PyStr (lit ''Tidak ada validasi AppliedLSN vs currentLSN '' @
            lit ''sebelum melayani read.''),
         PyStr (lit ''Round-robin indifferent terhadap freshness '' @
            lit ''state setiap replica.''),
         PyStr (lit ''Stale read probability berbanding lurus '' @
            lit ''dengan throughput write dan lag duration.''),
         PyStr (lit ''Write-after-read pada session yang sama '' @
            lit ''paling rentan terhadap anomali ini.'')]),
      (''type'', PyStr (lit ''bullet''))]]\<close>

definition lab33_slide_03 :: pycall where [lab33_slides]:
  \<open>lab33_slide_03 =
   \<lparr>posargs = [],
  kwargs =
   [(''categories'', PyList
      [PyStr (lit ''ANALISIS''),
       PyStr (lit ''PENDEKATAN NAIF'')]),
    (''title'', PyStr (lit ''Mengapa Read Naif ke Replica Selalu '' @ lit ''Berisiko?'')),
    (''subtitle'', PyStr (lit ''Round-robin tanpa awareness LSN membuka '' @
        lit ''celah read basi di setiap write window.'')),
    (''content_items'', lab33_items_03),
    (''narrative'', PyStr (lit ''Implementasi ReadNaive menunjukkan '' @
        lit ''pendekatan paling sederhana dalam read '' @
        lit ''splitting: arahkan setiap request ke '' @
        lit ''replica berikutnya secara berputar. Namun '' @
        lit ''pendekatan ini mengabaikan fakta '' @
        lit ''fundamental bahwa setiap replica memiliki '' @
        lit ''appliedLSN yang mungkin jauh di belakang '' @
        lit ''currentLSN primary. Dalam kondisi '' @
        lit ''write-heavy workload dengan replication lag '' @
        lit ''200 milidetik, probabilitas mendapatkan '' @
        lit ''stale read bisa mendekati 100% untuk key '' @
        lit ''yang baru ditulis. Bug ini termasuk subtle '' @
        lit ''karena tidak menghasilkan panic atau crash '' @ [0x2014] @
        lit '' hanya mengembalikan data salah yang terasa '' @
        lit ''aneh bagi pengguna akhir.'')),
    (''narrative_en'', PyStr (lit ''The ReadNaive implementation represents the '' @
        lit ''simplest approach to read splitting: '' @
        lit ''round-robining each request across replicas '' @
        lit ''in turn. However, this approach ignores the '' @
        lit ''fundamental fact that every replica may '' @
        lit ''have an appliedLSN significantly behind the '' @
        lit ''primary currentLSN. Under heavy write '' @
        lit ''workloads with a 200-millisecond '' @
        lit ''replication lag, the probability of serving '' @
        lit ''a stale read can approach 100 percent for '' @
        lit ''recently written keys. This bug is '' @
        lit ''particularly subtle because it never panics '' @ lit ''or crashes '' @
        [0x2014] @ lit '' it silently returns incorrect data that '' @
        lit ''perplexes end users.'')),
    (''mental_model'', PyStr (lit ''Naive load-balancing optimizes for '' @
        lit ''throughput; it abandons consistency '' @ lit ''entirely.'')),
    (''source_path'', PyStr (lit ''internal/router/router.go:67-78'')),
    (''slide_num'', PyStr (lit ''03 / 24'')),
    (''layout'', PyStr (lit ''code-bullet''))]\<rparr>\<close>

definition lab33_items_04 :: pyval where [lab33_contents]:
  \<open>lab33_items_04 =
   PyList
   [PyDict
     [(''title'', PyStr (lit ''STRUKTUR DATA WAL'')),
      (''items'', PyList
        [PyStr (lit ''type WALEntry struct {''),
         PyStr (lit ''    LSN       uint64    // monotonik naik '' @ lit ''dari primary''),
         PyStr (lit ''    Key       string''),
         PyStr (lit ''    Value     string''),
         PyStr (lit ''    Timestamp time.Time''),
         PyStr (lit ''}'')]),
      (''type'', PyStr (lit ''code''))],
    PyDict
     [(''title'', PyStr (lit ''DUO KEADAAN SETIAP NODE'')),
      (''items'', PyList
        [PyStr (lit ''Primary: mengasign LSN atomic saat commit '' @
            lit ''write; sumber kebenaran tunggal.''),
         PyStr (lit ''Replica: menyimpan map data KV + appliedLSN '' @
            lit ''+ goroutine worker consumption WAL.''),
         PyStr (lit ''Gap: delta(PrimaryLSN, ReplicaAppliedLSN) = '' @
            lit ''ukuran replikasi lag saat ini.''),
         PyStr (lit ''Kunci: setiap read strategy harus '' @
            lit ''meminimalkan atau menutup gap ini untuk '' @ lit ''sesi yang relevan.'')]),
      (''type'', PyStr (lit ''bullet''))]]\<close>

definition lab33_slide_04 :: pycall where [lab33_slides]:
  \<open>lab33_slide_04 =
   \<lparr>posargs = [],
  kwargs =
   [(''categories'', PyList
      [PyStr (lit ''MENTAL MODEL''),
       PyStr (lit ''SCHEMA'')]),
    (''title'', PyStr (lit ''Mental Model: LSN sebagai Jangkar '' @ lit ''Konsistensi'')),
    (''subtitle'', PyStr (lit ''Log Sequence Number membangun urutan kausal '' @
        lit ''yang memungkinkan routing deterministic.'')),
    (''content_items'', lab33_items_04),
    (''narrative'', PyStr (lit ''Model mental ini memisahkan dua lapisan '' @
        lit ''abstraction: lapisan konsistensi (LSN '' @
        lit ''sequence) dan lapisan ketersediaan (data '' @
        lit ''distribution). Primary bertindak sebagai '' @
        lit ''single writer yang memberi nomor urut '' @
        lit ''absolut pada setiap transaksi. Setiap '' @
        lit ''replica secara independen consume dan apply '' @
        lit ''entry WAL dengan latensi tertentu. Router '' @
        lit ''membaca appliedLSN setiap replica untuk '' @
        lit ''membuat keputusan routing yang informed. '' @
        lit ''Tanpa LSN, kita tidak bisa membedakan '' @
        lit ''replica yang fresh versus lagging secara '' @ lit ''terukur '' @ [0x2014] @
        lit '' routing menjadi guesswork belaka.'')),
    (''narrative_en'', PyStr (lit ''This mental model separates two layers of '' @
        lit ''abstraction: the consistency layer through '' @
        lit ''LSN sequences and the availability layer '' @
        lit ''through data distribution. The primary acts '' @
        lit ''as a single writer assigning absolute '' @
        lit ''monotonic ordering to every transaction. '' @
        lit ''Each replica independently consumes and '' @
        lit ''applies WAL entries with some latency. The '' @
        lit ''router inspects every replica'' @ [39] @
        lit ''s appliedLSN to make informed routing '' @
        lit ''decisions. Without LSN tracking, '' @
        lit ''distinguishing fresh from lagging replicas '' @
        lit ''becomes impossible, reducing routing to '' @ lit ''uninformed guesswork.'')),
    (''mental_model'', PyStr (lit ''LSN is the universal causal anchor; '' @
        lit ''replication lag is simply distance from '' @ lit ''that anchor.'')),
    (''source_path'', PyStr (lit ''internal/cluster/cluster.go:18-23 '' @ [0x2022] @
        lit '' internal/router/router.go:34-37'')),
    (''slide_num'', PyStr (lit ''04 / 24'')),
    (''layout'', PyStr (lit ''schema-card''))]\<rparr>\<close>

definition lab33_items_05 :: pyval where [lab33_contents]:
  \<open>lab33_items_05 =
   PyList
   [PyDict
     [(''title'', PyStr (lit ''SEKUENSI PIPELINE DISTRIBUSI'')),
      (''items'', PyList
        [PyStr (lit ''1. Client.Write(session, key, value) '' @ [0x2192] @
            lit '' Primary commit, LSN increment atomic, WAL '' @
            lit ''entry broadcast ke replica channel''),
         PyStr (lit ''2. Replica worker sleep(lagDuration) '' @ [0x2192] @
            lit '' entry apply ke local data map, appliedLSN '' @
            lit ''= entry.LSN, cond.Broadcast wake WaitForLSN''),
         PyStr (lit ''3a. ReadNaive: round-robin pilih replica '' @ [0x2192] @
            lit '' jika appliedLSN < lastWriteLSN '' @ [0x2192] @
            lit '' stale read atau ErrNotFound''),
         PyStr (lit ''3b. ReadWithStickySession: cek '' @
            lit ''time.Since(lastWriteTime) < T_sticky '' @ [0x2192] @
            lit '' redirect ke primary; setelah TTL expired '' @ [0x2192] @
            lit '' ReadLagAware''),
         PyStr (lit ''3c. ReadWithToken: iterasi replica untuk '' @
            lit ''appliedLSN >= minLSN; blocking WaitForLSN + '' @
            lit ''timeout context '' @ [0x2192] @ lit '' fallback primary''),
         PyStr (lit ''3d. ReadLagAware: hitung diff = primaryLSN '' @
            lit ''- appliedLSN; filter eligible diff <= '' @
            lit ''MaxLSNDiff; fallback primary jika kosong'')]),
      (''type'', PyStr (lit ''diagram''))]]\<close>

definition lab33_slide_05 :: pycall where [lab33_slides]:
  \<open>lab33_slide_05 =
   \<lparr>posargs = [],
  kwargs =
   [(''categories'', PyList
      [PyStr (lit ''ARSITEKTUR''),
       PyStr (lit ''PIPELINE'')]),
    (''title'', PyStr (lit ''Pipeline Write-Read dengan Replication Lag'')),
    (''subtitle'', PyStr (lit ''Dari client write sampai routing decision: '' @
        lit ''empat jalur strategi mitigasi.'')),
    (''content_items'', lab33_items_05),
    (''narrative'', PyStr (lit ''Pipeline ini menggambarkan perjalanan '' @
        lit ''lengkap sebuah request dari penulisan '' @
        lit ''hingga pembacaan dengan empat varian '' @
        lit ''routing strategy. Jalur pertama menelusuri '' @
        lit ''write path di mana primary mengincrement '' @
        lit ''currentLSN secara atomik lalu broadcasting '' @
        lit ''WAL entry ke channel setiap replica. Jalur '' @
        lit ''kedua mensimulasikan replication lag '' @
        lit ''melalui goroutine worker yang tidur sesuai '' @
        lit ''duration sebelum apply. Empat jalur ketiga '' @
        lit ''menunjukkan bagaimana router memilih target '' @
        lit ''read: naive round-robin tanpa proteksi, '' @
        lit ''sticky session berbasis waktu, token-based '' @
        lit ''LSN wait dengan blocking, atau lag-aware '' @
        lit ''dynamic filtering dengan threshold.'')),
    (''narrative_en'', PyStr (lit ''This pipeline illustrates the complete '' @
        lit ''request journey from write commit through '' @
        lit ''read with four distinct routing variants. '' @
        lit ''The first path traces the write flow where '' @
        lit ''the primary atomically increments '' @
        lit ''currentLSN then broadcasts WAL entries to '' @
        lit ''every replica channel. The second path '' @
        lit ''simulates replication lag through worker '' @
        lit ''goroutines sleeping for the configured '' @
        lit ''duration before applying entries. The four '' @
        lit ''sub-paths show how the router selects read '' @
        lit ''targets: naive round-robin without '' @
        lit ''protection, time-based sticky sessions, '' @
        lit ''token-driven LSN waiting with blocking, or '' @
        lit ''lag-aware dynamic filtering with threshold '' @ lit ''predicates.'')),
    (''mental_model'', PyStr (lit ''Writes flow forward in LSN order; reads '' @
        lit ''must synchronize with that order or fall '' @ lit ''back to the source.'')),
    (''source_path'', PyStr (lit ''cmd/demo/main.go:15-64 '' @ [0x2022] @
        lit '' internal/cluster/cluster.go:148-178'')),
    (''slide_num'', PyStr (lit ''05 / 24'')),
    (''layout'', PyStr (lit ''pipeline-diagram''))]\<rparr>\<close>

definition lab33_items_06 :: pyval where [lab33_contents]:
  \<open>lab33_items_06 =
   PyList
   [PyDict
     [(''title'', PyStr (lit ''READ WITH STICKY SESSION'')),
      (''items'', PyList
        [PyStr (lit ''func (r *Router) '' @ lit ''ReadWithStickySession(sessionID, key '' @
            lit ''string) (string, string, uint64, error) {''),
         PyStr (lit ''    if stateVal, ok := '' @ lit ''r.sessions.Load(sessionID); ok {''),
         PyStr (lit ''        state := stateVal.(SessionState)''),
         PyStr (lit ''        if time.Since(state.LastWriteTime) '' @
            lit ''< r.config.StickyDuration {''),
         PyStr (lit ''            val, lsn, err := '' @ lit ''r.cluster.Primary().Read(key)''),
         PyStr (lit ''            return val, '' @ lit ''r.cluster.Primary().ID(), lsn, err''),
         PyStr (lit ''        }''),
         PyStr (lit ''    }''),
         PyStr (lit ''    return r.ReadLagAware(key)''),
         PyStr (lit ''}'')]),
      (''type'', PyStr (lit ''code''))]]\<close>

definition lab33_slide_06 :: pycall where [lab33_slides]:
  \<open>lab33_slide_06 =
   \<lparr>posargs = [],
  kwargs =
   [(''categories'', PyList
      [PyStr (lit ''IMPLEMENTASI''),
       PyStr (lit ''CODE'')]),
    (''title'', PyStr (lit ''Implementasi Sticky Session Router'')),
    (''subtitle'', PyStr (lit ''Cek lastWriteTime per session untuk '' @
        lit ''mengalihkan read ke primary selama jendela '' @ lit ''sticky.'')),
    (''content_items'', lab33_items_06),
    (''narrative'', PyStr (lit ''Potongan kode ini merupakan implementasi '' @
        lit ''time-based sticky routing yang paling '' @
        lit ''sederhana namun efektif. Method '' @
        lit ''pertama-tama memeriksa apakah session ID '' @
        lit ''memiliki state yang terekam di sync.Map. '' @
        lit ''Jika state ditemukan dan waktu sejak '' @
        lit ''lastWrite masih dalam batas StickyDuration, '' @
        lit ''router secara deterministik mengarahkan '' @ lit ''read ke primary '' @
        [0x2014] @ lit '' bukan replica manapun. Ini memastikan '' @
        lit ''read-your-own-writes dalam jendela sticky '' @
        lit ''tanpa biaya LSN check. Setelah jendela '' @
        lit ''habis, flow jatuh ke ReadLagAware yang '' @
        lit ''menggunakan threshold filtering.'')),
    (''narrative_en'', PyStr (lit ''This code snippet implements the simplest '' @
        lit ''yet most effective form of time-based '' @
        lit ''sticky routing. The method first checks '' @
        lit ''whether the session ID has a recorded state '' @
        lit ''in the sync.Map. If the state exists and '' @
        lit ''the elapsed time since last write remains '' @
        lit ''within the StickyDuration bound, the router '' @
        lit ''deterministically directs reads to the '' @
        lit ''primary instead of any replica. This '' @
        lit ''guarantees read-your-own-writes within the '' @
        lit ''sticky window without any LSN overhead. '' @
        lit ''After the window expires, the flow degrades '' @
        lit ''gracefully into lag-aware threshold '' @ lit ''filtering.'')),
    (''mental_model'', PyStr (lit ''Sticky windows trade read throughput for '' @
        lit ''guaranteed freshness within a bounded '' @ lit ''temporal envelope.'')),
    (''source_path'', PyStr (lit ''internal/router/router.go:80-90'')),
    (''slide_num'', PyStr (lit ''06 / 24'')),
    (''layout'', PyStr (lit ''code-dominant''))]\<rparr>\<close>

definition lab33_items_07 :: pyval where [lab33_contents]:
  \<open>lab33_items_07 =
   PyList
   [PyDict
     [(''title'', PyStr (lit ''TERMINAL FAILURE LOG'')),
      (''items'', PyList
        [PyStr (lit ''[Write Primary] Wrote key '' @ [39] @ lit ''user:profile:123'' @ [39] @
            lit '', Primary LSN: 1''),
         PyStr (lit ''[Naive Read] Node: replica-2, Applied LSN: '' @ lit ''0, Val: '' @
            [39, 39] @ lit '', Err: key not found''),
         PyStr [],
         PyStr (lit ''Analisis:''),
         PyStr (lit ''Primary commit LSN 1 tetapi replica-2 '' @
            lit ''appliedLSN masih 0 karena lag 200ms belum '' @ lit ''berlalu.''),
         PyStr (lit ''ReadNaive memilih replica-2 via round-robin '' @
            lit ''tanpa pengecekan LSN.''),
         PyStr (lit ''Key tidak ditemukan karena belum di-apply '' @
            lit ''di replica; user menerima ErrNotFound '' @ lit ''senyap.'')]),
      (''type'', PyStr (lit ''terminal''))],
    PyDict
     [(''title'', PyStr (lit ''Dampak UX'')),
      (''items'', PyList
        [PyStr (lit ''User melihat halaman kosong atau 404 '' @
            lit ''setelah upload data baru.''),
         PyStr (lit ''Trust erosion: user yakin input berhasil '' @
            lit ''tetapi output tidak mencerminkan input.''),
         PyStr (lit ''Debug cost tinggi karena write log sukses '' @
            lit ''dan read log juga '' @ [39] @ lit ''berhasil'' @ [39] @
            lit '' (bukan error sistem).'')]),
      (''type'', PyStr (lit ''bullet''))]]\<close>

definition lab33_slide_07 :: pycall where [lab33_slides]:
  \<open>lab33_slide_07 =
   \<lparr>posargs = [],
  kwargs =
   [(''categories'', PyList
      [PyStr (lit ''FAILURE PATH''),
       PyStr (lit ''BUKTI'')]),
    (''title'', PyStr (lit ''Failure Path: Stale Read Anomali di Demo CLI'')),
    (''subtitle'', PyStr (lit ''Output terminal membuktikan read ke '' @
        lit ''replica-2 gagal meski write baru sukses di '' @ lit ''primary.'')),
    (''content_items'', lab33_items_07),
    (''narrative'', PyStr (lit ''Failure path ini diambil langsung dari demo '' @
        lit ''CLI ketika ReadNaive dipanggil tepat '' @
        lit ''setelah write. Primary LSN meningkat ke 1, '' @
        lit ''namun replica-2 masih berada di appliedLSN '' @
        lit ''0 karena worker goroutine belum '' @
        lit ''menyelesaikan sleep 200 milidetik. Load '' @
        lit ''balancer round-robin memilih replica-2 '' @
        lit ''untuk read berikutnya, menyebabkan key not '' @
        lit ''found karena data belum tersedia. Error ini '' @
        lit ''berbeda dengan koneksi mati atau timeout '' @ [0x2014] @
        lit '' aplikasi merespons 200 dengan body kosong, '' @
        lit ''membuat debugging menjadi nightmare bagi '' @
        lit ''engineer yang tidak memahami replication '' @ lit ''topology.'')),
    (''narrative_en'', PyStr (lit ''This failure path is extracted directly '' @
        lit ''from the demo CLI when ReadNaive is invoked '' @
        lit ''immediately after a write. The primary LSN '' @
        lit ''increments to 1, but replica-2 remains at '' @
        lit ''appliedLSN 0 because the worker goroutine '' @
        lit ''has not yet completed its 200-millisecond '' @
        lit ''sleep. The round-robin load balancer '' @
        lit ''selects replica-2 for the subsequent read, '' @
        lit ''causing a key-not-found error since the '' @
        lit ''data is unavailable. This error differs '' @
        lit ''from connection failures or timeouts '' @ [0x2014] @
        lit '' the application responds with 200 and an '' @
        lit ''empty body, creating a debugging nightmare '' @
        lit ''for engineers unfamiliar with replication '' @ lit ''topology.'')),
    (''mental_model'', PyStr (lit ''Silent correctness failures hurt more than '' @
        lit ''loud crashes; they erode trust without '' @ lit ''trace.'')),
    (''source_path'', PyStr (lit ''cmd/demo/main.go:23-32 '' @ [0x2022] @
        lit '' engineering/03-execution-result.md:53-58'')),
    (''slide_num'', PyStr (lit ''07 / 24'')),
    (''layout'', PyStr (lit ''failure-path''))]\<rparr>\<close>

definition lab33_items_08 :: pyval where [lab33_contents]:
  \<open>lab33_items_08 =
   PyList
   [PyDict
     [(''title'', PyStr (lit ''TABEL PERBANDINGAN STRATEGI'')),
      (''items'', PyList
        [PyStr (lit ''Strategi | Jaminan | Overhead | Fallback | '' @ lit ''Cocok Untuk''),
         PyStr (lit ''ReadNaive | None | Zero | Primary jika '' @
            lit ''replica kosong | Development, debugging''),
         PyStr (lit ''Sticky Session | Session-level fresh | Time '' @
            lit ''check O(1), session map | Lag-aware '' @
            lit ''filtering | Session-bound writes''),
         PyStr (lit ''Causal Token | Causal ordering | LSN check '' @
            lit ''+ blocking wait | Context timeout + primary '' @
            lit ''| Critical data reads''),
         PyStr (lit ''Lag-Aware | Threshold-bound | Delta LSN '' @
            lit ''calculation + filter | Primary jika '' @
            lit ''eligible kosong | Bulk reads, analytics'')]),
      (''type'', PyStr (lit ''table''))]]\<close>

definition lab33_slide_08 :: pycall where [lab33_slides]:
  \<open>lab33_slide_08 =
   \<lparr>posargs = [],
  kwargs =
   [(''categories'', PyList
      [PyStr (lit ''PERBANDINGAN''),
       PyStr (lit ''MEKANISME'')]),
    (''title'', PyStr (lit ''Mekanisme vs Gejala: Evaluasi Strategi Read '' @ lit ''Routing'')),
    (''subtitle'', PyStr (lit ''Membandingkan empat pendekatan dalam hal '' @
        lit ''jaminan, overhead, dan fallback behavior.'')),
    (''content_items'', lab33_items_08),
    (''narrative'', PyStr (lit ''Tabel ini mengklasifikasikan empat strategi '' @
        lit ''routing berdasarkan empat dimensi evaluasi. '' @
        lit ''ReadNaive menghilangkan overhead komunikasi '' @
        lit ''tetapi mengorbankan konsistensi sepenuhnya. '' @
        lit ''Sticky session menawarkan jaminan '' @
        lit ''session-level freshness dengan overhead '' @
        lit ''minimal berupa time comparison dan session '' @
        lit ''map lookup. Causal token memberikan jaminan '' @
        lit ''kausal terukur tetapi memperkenalkan '' @
        lit ''blocking wait yang dapat meningkatkan p99 '' @
        lit ''latency. Lag-aware filtering menyeimbangkan '' @
        lit ''throughput dan freshness melalui threshold '' @
        lit ''predicate, degraded gracefully ke primary '' @
        lit ''ketika tidak ada replica yang memenuhi '' @ lit ''syarat.'')),
    (''narrative_en'', PyStr (lit ''This table classifies the four routing '' @
        lit ''strategies across four evaluation '' @
        lit ''dimensions. ReadNaive eliminates '' @
        lit ''communication overhead but sacrifices '' @
        lit ''consistency entirely. Sticky session offers '' @
        lit ''session-level freshness guarantees with '' @
        lit ''minimal overhead consisting of a time '' @
        lit ''comparison and session map lookup. Causal '' @
        lit ''tokens provide measurable causal ordering '' @
        lit ''guarantees but introduce blocking waits '' @
        lit ''that can elevate p99 latency. Lag-aware '' @
        lit ''filtering balances throughput and freshness '' @
        lit ''through threshold predicates, degrading '' @
        lit ''gracefully to primary when no eligible '' @ lit ''replica exists.'')),
    (''mental_model'', PyStr (lit ''Every routing strategy sits on a spectrum '' @
        lit ''between consistency, latency, and '' @ lit ''operational complexity.'')),
    (''source_path'', PyStr (lit ''content/02-master-draft.md:62-70'')),
    (''slide_num'', PyStr (lit ''08 / 24'')),
    (''layout'', PyStr (lit ''comparison-table''))]\<rparr>\<close>

definition lab33_items_09 :: pyval where [lab33_contents]:
  \<open>lab33_items_09 =
   PyList
   [PyDict
     [(''title'', PyStr (lit ''1. TENTUKAN CONSISTENCY REQUIREMENT'')),
      (''items'', PyList
        [PyStr (lit ''Apakah session ini memerlukan '' @
            lit ''read-your-own-writes (CRUD critical)?''),
         PyStr (lit ''Jika ya '' @ [0x2192] @ lit '' sticky session atau causal token wajib '' @
            lit ''digunakan.''),
         PyStr (lit ''Jika tidak '' @ [0x2192] @
            lit '' lag-aware filtering cukup untuk bulk '' @ lit ''analytics reads.'')]),
      (''type'', PyStr (lit ''card''))],
    PyDict
     [(''title'', PyStr (lit ''2. KALIBRASI PARAMETER WAKTU'')),
      (''items'', PyList
        [PyStr (lit ''T_sticky harus '' @ [0x2265] @
            lit '' p99 replication lag aktual di production.''),
         PyStr (lit ''Default industri 5 detik bersifat '' @
            lit ''heuristik; perlu tuning berbasis monitoring.''),
         PyStr (lit ''WaitTimeout pada causal token harus '' @ [0x2265] @
            lit '' worst-case catch-up duration + buffer.'')]),
      (''type'', PyStr (lit ''card''))],
    PyDict
     [(''title'', PyStr (lit ''3. PILIH FENCING LAYER YANG TEPAT'')),
      (''items'', PyList
        [PyStr (lit ''Gunakan mode synchronous remote_apply jika '' @
            lit ''freshness mutlak dibutuhkan.''),
         PyStr (lit ''Accept async replication + '' @
            lit ''application-level fencing untuk throughput '' @ lit ''maksimal.''),
         PyStr (lit ''Jangan mencampuradukkan semi-sync '' @
            lit ''(durability) dengan synchronous '' @ lit ''(visibility).'')]),
      (''type'', PyStr (lit ''card''))]]\<close>

definition lab33_slide_09 :: pycall where [lab33_slides]:
  \<open>lab33_slide_09 =
   \<lparr>posargs = [],
  kwargs =
   [(''categories'', PyList
      [PyStr (lit ''DESIGN DECISION''),
       PyStr (lit ''ARSITEKTUR'')]),
    (''title'', PyStr (lit ''3 Keputusan Desain Kritis Replication '' @ lit ''Strategy'')),
    (''subtitle'', PyStr (lit ''Urutan keputusan arsitektur untuk '' @
        lit ''menyeimbangkan consistency dan throughput.'')),
    (''content_items'', lab33_items_09),
    (''narrative'', PyStr (lit ''Tiga keputusan desain ini membentuk '' @
        lit ''kerangka kerja strategis sebelum memilih '' @
        lit ''implementasi teknis. Keputusan pertama '' @
        lit ''menentukan level consistency requirement '' @
        lit ''yang membedakan use case mana yang '' @
        lit ''memerlukan protection ketat versus mana '' @
        lit ''yang bisa menerima eventual consistency. '' @
        lit ''Keputusan kedua menyangkut kalibrasi '' @
        lit ''parameter waktu berdasarkan observasi '' @
        lit ''empiris production latency distribution '' @ [0x2014] @
        lit '' bukan asumsi teoretis. Keputusan ketiga '' @
        lit ''memilih lapisan proteksi yang sesuai dengan '' @
        lit ''SLA bisnis, antara synchronous replication '' @
        lit ''berbiaya tinggi atau application-level '' @
        lit ''fencing dengan graceful degradation.'')),
    (''narrative_en'', PyStr (lit ''These three design decisions form a '' @
        lit ''strategic framework before selecting any '' @
        lit ''technical implementation. The first '' @
        lit ''decision determines the consistency '' @
        lit ''requirement level that distinguishes which '' @
        lit ''use cases need strict protection versus '' @
        lit ''those accepting eventual consistency. The '' @
        lit ''second decision involves calibrating time '' @
        lit ''parameters based on empirical production '' @
        lit ''latency observations rather than '' @
        lit ''theoretical assumptions. The third decision '' @
        lit ''selects the appropriate protection layer '' @
        lit ''aligned with business SLAs between '' @
        lit ''high-cost synchronous replication or '' @
        lit ''application-level fencing with graceful '' @ lit ''degradation.'')),
    (''mental_model'', PyStr (lit ''Design decisions cascade from requirements '' @
        lit ''to parameters to implementation; never skip '' @ lit ''upstream thinking.'')),
    (''source_path'', PyStr (lit ''labs/33-read-replicas-and-replication-lag/co'' @
        lit ''ntent/05-key-takeaways.md'')),
    (''slide_num'', PyStr (lit ''09 / 24'')),
    (''layout'', PyStr (lit ''decision-cards''))]\<rparr>\<close>

definition lab33_items_10 :: pyval where [lab33_contents]:
  \<open>lab33_items_10 =
   PyList
   [PyDict
     [(''title'', PyStr (lit ''DEMO EXECUTION TRACE'')),
      (''items'', PyList
        [PyStr (lit ''=== Lab 33: Read Replicas and Replication '' @ lit ''Lag Demo ===''),
         PyStr [],
         PyStr (lit ''--- 1. Async Replication Lag Anomaly ---''),
         PyStr (lit ''[Write Primary] Wrote key '' @ [39] @ lit ''user:profile:123'' @ [39] @
            lit '', Primary LSN: 1''),
         PyStr (lit ''[Naive Read] Node: replica-2, Applied LSN: '' @ lit ''0, Val: '' @
            [39, 39] @ lit '', Err: key not found''),
         PyStr [],
         PyStr (lit ''--- 2. Sticky Session Routing ---''),
         PyStr (lit ''[Sticky Read (within 500ms)] Node: primary, '' @ lit ''LSN: 1, Val: '' @
            [39] @ lit ''{...}'' @ [39] @ lit '', Err: nil''),
         PyStr (lit ''[Sticky Read (after TTL)] Node: replica-1, '' @ lit ''LSN: 1, Val: '' @
            [39] @ lit ''{...}'' @ [39] @ lit '', Err: nil''),
         PyStr [],
         PyStr (lit ''--- 3. Causal Token / LSN Wait ---''),
         PyStr (lit ''[Token Read (MinLSN=2)] Node: replica-1, '' @ lit ''LSN: 2, Val: '' @
            [39] @ lit ''{...}'' @ [39] @ lit '', Err: nil''),
         PyStr [],
         PyStr (lit ''--- 4. Synchronous Replication ---''),
         PyStr (lit ''[Sync Write] LSN: 1, Write Duration: '' @ lit ''104.055166ms''),
         PyStr (lit ''[Sync Naive Read] Node: replica-2, LSN: 1, '' @ lit ''Val: '' @ [39] @
            lit ''{...}'' @ [39] @ lit '', Err: nil'')]),
      (''type'', PyStr (lit ''terminal''))]]\<close>

definition lab33_slide_10 :: pycall where [lab33_slides]:
  \<open>lab33_slide_10 =
   \<lparr>posargs = [],
  kwargs =
   [(''categories'', PyList
      [PyStr (lit ''BUKTI''),
       PyStr (lit ''DEMO'')]),
    (''title'', PyStr (lit ''Bukti Eksekusi: Siklus Lengkap Replication '' @ lit ''& Mitigasi'')),
    (''subtitle'', PyStr (lit ''Output demo CLI mengkonfirmasi empat '' @
        lit ''skenario berjalan sesuai spesifikasi.'')),
    (''content_items'', lab33_items_10),
    (''narrative'', PyStr (lit ''Output terminal ini menyajikan empat bukti '' @
        lit ''eksekusi yang masing-masing mengonfirmasi '' @
        lit ''perilaku strategi routing. Bagian pertama '' @
        lit ''membuktikan anomali stale read terjadi '' @
        lit ''ketika ReadNaive dipanggil pasca-write. '' @
        lit ''Bagian kedua menunjukkan sticky session '' @
        lit ''berhasil mengarahkan read ke primary dalam '' @
        lit ''jendela 500ms, kemudian beralih ke replica '' @
        lit ''setelah TTL expire. Bagian ketiga '' @
        lit ''memverifikasi causal token menunggu '' @
        lit ''catch-up sekitar 200ms sebelum melayani '' @
        lit ''read dari replica yang sudah sesuai LSN. '' @
        lit ''Bagian keempat memperlihatkan synchronous '' @
        lit ''replication membutuhkan tambahan ~104ms '' @
        lit ''pada write latency untuk menjamin freshness '' @ lit ''instan.'')),
    (''narrative_en'', PyStr (lit ''This terminal output presents four '' @
        lit ''execution proofs each confirming the '' @
        lit ''behavior of different routing strategies. '' @
        lit ''The first section demonstrates the stale '' @
        lit ''read anomaly when ReadNaive is called '' @
        lit ''immediately post-write. The second section '' @
        lit ''shows sticky session successfully directing '' @
        lit ''reads to the primary within the '' @
        lit ''500-millisecond window then falling back to '' @
        lit ''a replica after TTL expiration. The third '' @
        lit ''section verifies causal tokens wait '' @
        lit ''approximately 200 milliseconds for catch-up '' @
        lit ''before serving reads from matching '' @
        lit ''replicas. The fourth section reveals '' @
        lit ''synchronous replication requiring '' @
        lit ''approximately 104 additional milliseconds '' @
        lit ''on write latency to guarantee instant '' @ lit ''freshness.'')),
    (''mental_model'', PyStr (lit ''Terminal traces convert abstract '' @
        lit ''consistency guarantees into observable '' @ lit ''execution evidence.'')),
    (''source_path'', PyStr (lit ''cmd/demo/main.go:1-65 '' @ [0x2022] @
        lit '' engineering/03-execution-result.md:48-73'')),
    (''slide_num'', PyStr (lit ''10 / 24'')),
    (''layout'', PyStr (lit ''terminal-output''))]\<rparr>\<close>

definition lab33_items_11 :: pyval where [lab33_contents]:
  \<open>lab33_items_11 =
   PyList
   [PyDict
     [(''title'', PyStr (lit ''YANG TIDAK DIBUKTIKAN'')),
      (''items'', PyList
        [PyStr (lit ''Cluster in-memory tanpa persistence layer; '' @
            lit ''tidak membuktikan recovery pasca-crash.''),
         PyStr (lit ''Tidak ada topologi cascading replica '' @
            lit ''(replica-of-replica) atau multi-region '' @ lit ''replication.''),
         PyStr (lit ''Sticky 500ms dan lag 200ms bersifat '' @
            lit ''ilustratif lab; bukan rekomendasi tuning '' @ lit ''produksi.''),
         PyStr (lit ''Router state disimpan di sync.Map '' @
            lit ''single-process; tidak membuktikan stateless '' @
            lit ''horizontal scaling.''),
         PyStr (lit ''Tidak mencakup network partition antar '' @
            lit ''primary dan replica, only simulated timing '' @ lit ''lag.''),
         PyStr (lit ''p99 lag multi-region dan cross-datacenter '' @
            lit ''topology tidak diuji di dalam lab.''),
         PyStr (lit ''Tidak mengimplementasikan change data '' @
            lit ''capture (CDC) atau binlog-based '' @ lit ''synchronization.'')]),
      (''type'', PyStr (lit ''bullet''))]]\<close>

definition lab33_slide_11 :: pycall where [lab33_slides]:
  \<open>lab33_slide_11 =
   \<lparr>posargs = [],
  kwargs =
   [(''categories'', PyList
      [PyStr (lit ''BATASAN''),
       PyStr (lit ''ANALISIS'')]),
    (''title'', PyStr (lit ''YANG TIDAK DIBUKTIKAN'')),
    (''subtitle'', PyStr (lit ''Batasan ruang lingkup laboratorium yang '' @
        lit ''wajib dipahami sebelum implementasi '' @ lit ''produksi.'')),
    (''content_items'', lab33_items_11),
    (''narrative'', PyStr (lit ''Klaim teknis laboratorium ini dibatasi oleh '' @
        lit ''parameter lingkungan pengujian yang '' @
        lit ''disederhanakan. Cluster yang digunakan '' @
        lit ''berjalan in-memory tanpa persistence disk, '' @
        lit ''sehingga tidak bisa membuktikan perilaku '' @
        lit ''recovery setelah node crash. State router '' @
        lit ''disimpan dalam sync.Map lokal '' @
        lit ''single-process, berbeda dengan arsitektur '' @
        lit ''stateless production yang memerlukan Redis '' @
        lit ''atau shared session store. Simulasi '' @
        lit ''replication lag menggunakan timer sleep 200 '' @
        lit ''milidetik, bukan network latency riil yang '' @
        lit ''bervariasi. Konstanta timing seperti sticky '' @
        lit ''500ms dipilih untuk deterministik demo, '' @
        lit ''bukan sebagai guideline tuning produksi.'')),
    (''narrative_en'', PyStr (lit ''The technical claims established in this '' @
        lit ''lab are explicitly bounded by simplified '' @
        lit ''test-environment parameters. The in-memory '' @
        lit ''cluster lacks any persistence layer, so it '' @
        lit ''cannot demonstrate post-crash recovery '' @
        lit ''behavior. Router state resides in a local '' @
        lit ''single-process sync.Map, differing from '' @
        lit ''stateless production architectures that '' @
        lit ''require Redis or shared session stores. '' @
        lit ''Replication lag simulation uses '' @
        lit ''deterministic timer sleeps rather than '' @
        lit ''variable real network latency. Timing '' @
        lit ''constants such as 500-millisecond '' @
        lit ''stickiness were chosen for demonstrable '' @
        lit ''predictability, not as production tuning '' @ lit ''guidelines.'')),
    (''mental_model'', PyStr (lit ''Lab proofs establish behavioral '' @
        lit ''correctness, not production-scale '' @ lit ''resilience or observability.'')),
    (''source_path'', PyStr (lit ''labs/33-read-replicas-and-replication-lag/co'' @
        lit ''ntent/01-content-brief.md '' @ [0x2022] @ lit '' research-audit/06-gaps.md'')),
    (''slide_num'', PyStr (lit ''11 / 24'')),
    (''layout'', PyStr (lit ''constraints-list''))]\<rparr>\<close>

definition lab33_items_12 :: pyval where [lab33_contents]:
  \<open>lab33_items_12 =
   PyList
   [PyDict
     [(''title'', PyStr (lit ''MANFAAT & KEUNGGULAN'')),
      (''items'', PyList
        [PyStr (lit ''Read-Your-Own-Writes Guaranteed: User '' @
            lit ''selalu melihat hasil tulisannya sendiri '' @ lit ''segera.''),
         PyStr (lit ''Scalable Reads: Replica menanggung sebagian '' @
            lit ''besar beban read after sticky window '' @ lit ''expired.''),
         PyStr (lit ''Graceful Degradation: Fallback ke primary '' @
            lit ''terjadi secara eksplisit, bukan silent '' @ lit ''failure.''),
         PyStr (lit ''Observability: LSN metrics dapat di-monitor '' @
            lit ''untuk mendeteksi anomaly replication '' @ lit ''topology.'')]),
      (''type'', PyStr (lit ''bullet''))],
    PyDict
     [(''title'', PyStr (lit ''KONSEKUENSI & BIAYA'')),
      (''items'', PyList
        [PyStr (lit ''Sticky Window Overhead: Primary menerima '' @
            lit ''traffic read ekstra selama T_sticky per '' @ lit ''session.''),
         PyStr (lit ''Blocking Latency: Causal token wait '' @
            lit ''menambah p99 read latency saat replica '' @ lit ''belum catch-up.''),
         PyStr (lit ''Complexity Cost: Router membutuhkan session '' @
            lit ''state management dan LSN inspection logic.''),
         PyStr (lit ''Fallback Concentration: Semua degraded '' @
            lit ''reads terakumulasi di primary '' @ [0x2192] @
            lit '' potential bottleneck.'')]),
      (''type'', PyStr (lit ''bullet''))]]\<close>

definition lab33_slide_12 :: pycall where [lab33_slides]:
  \<open>lab33_slide_12 =
   \<lparr>posargs = [],
  kwargs =
   [(''categories'', PyList
      [PyStr (lit ''TRADE-OFF''),
       PyStr (lit ''ARSITEKTUR'')]),
    (''title'', PyStr (lit ''Trade-off Arsitektur: Freshness vs '' @ lit ''Throughput'')),
    (''subtitle'', PyStr (lit ''Menilai biaya operasional penambahan '' @
        lit ''routing intelligence dibandingkan benefit '' @ lit ''konsistensi.'')),
    (''content_items'', lab33_items_12),
    (''narrative'', PyStr (lit ''Penerapan strategi replication lag '' @
        lit ''mitigation menuntut kompromi arsitektural '' @
        lit ''antara freshness guarantee dan read '' @
        lit ''throughput. Sticky session menambahkan '' @
        lit ''overhead berupa concentrated primary reads '' @
        lit ''selama jendela waktu, tetapi eliminasi '' @
        lit ''stale read sepenuhnya untuk session-bound '' @
        lit ''operations. Causal token menawarkan presisi '' @
        lit ''deterministik namun memperkenalkan blocking '' @
        lit ''wait yang menggeser p99 latency read path. '' @
        lit ''Lag-aware filtering menyeimbangkan keduanya '' @
        lit ''dengan filtering threshold yang dapat '' @
        lit ''dikonfigurasi, degraded gracefully ke '' @
        lit ''primary ketika semua replica terlambat. '' @
        lit ''Synchronous replication menghilangkan lag '' @
        lit ''sama sekali dengan harga write latency '' @
        lit ''ekstra yang proporsional dengan jumlah '' @ lit ''replica.'')),
    (''narrative_en'', PyStr (lit ''Implementing replication lag mitigation '' @
        lit ''strategies demands architectural trade-offs '' @
        lit ''between freshness guarantees and read '' @
        lit ''throughput. Sticky sessions introduce '' @
        lit ''overhead through concentrated primary reads '' @
        lit ''during the time window but completely '' @
        lit ''eliminate stale reads for session-bound '' @
        lit ''operations. Causal tokens offer '' @
        lit ''deterministic precision while introducing '' @
        lit ''blocking waits that shift p99 read latency. '' @
        lit ''Lag-aware filtering balances both '' @
        lit ''approaches through configurable threshold '' @
        lit ''predicates, degrading gracefully to primary '' @
        lit ''when all replicas lag excessively. '' @
        lit ''Synchronous replication eliminates lag '' @
        lit ''entirely at the cost of proportionally '' @
        lit ''increased write latency across all replicas.'')),
    (''mental_model'', PyStr (lit ''Consistency is purchased with either '' @
        lit ''latency, complexity, or primary throughput '' @ lit ''sacrifice.'')),
    (''source_path'', PyStr (lit ''labs/33-read-replicas-and-replication-lag/co'' @
        lit ''ntent/02-master-draft.md'')),
    (''slide_num'', PyStr (lit ''12 / 24'')),
    (''layout'', PyStr (lit ''tradeoff''))]\<rparr>\<close>

definition lab33_items_13 :: pyval where [lab33_contents]:
  \<open>lab33_items_13 =
   PyList
   [PyDict
     [(''title'', PyStr (lit ''KODE TEST KONKURENSI'')),
      (''items'', PyList
        [PyStr (lit ''func TestConcurrentAccess_RaceFree(t '' @ lit ''*testing.T) {''),
         PyStr (lit ''    c := cluster.NewCluster(3, '' @ lit ''10*time.Millisecond, '' @
            lit ''cluster.AsyncReplication)''),
         PyStr (lit ''    defer c.Close()''),
         PyStr (lit ''    r := router.NewRouter(c, '' @ lit ''router.DefaultConfig())''),
         PyStr [],
         PyStr (lit ''    var wg sync.WaitGroup''),
         PyStr (lit ''    for i := 0; i < 15; i++ {''),
         PyStr (lit ''        wg.Add(1)''),
         PyStr (lit ''        go func(id int) {''),
         PyStr (lit ''            defer wg.Done()''),
         PyStr (lit ''            sid := fmt.Sprintf('' @ [39] @ lit ''s%d'' @ [39] @
            lit '', id)''),
         PyStr (lit ''            _, _ = r.Write(sid, fmt.Sprintf('' @ [39] @ lit ''k%d'' @
            [39] @ lit '', id), fmt.Sprintf('' @ [39] @ lit ''v%d'' @ [39] @ lit '', id))''),
         PyStr (lit ''            for j := 0; j < 20; j++ {''),
         PyStr (lit ''                _, _, _, _ = '' @
            lit ''r.ReadWithStickySession(sid, fmt.Sprintf('' @ [39] @ lit ''k%d'' @ [39] @
            lit '', id))''),
         PyStr (lit ''            }''),
         PyStr (lit ''        }(i)''),
         PyStr (lit ''    }''),
         PyStr (lit ''    wg.Wait()''),
         PyStr (lit ''}'')]),
      (''type'', PyStr (lit ''code''))],
    PyDict
     [(''title'', PyStr (lit ''HASIL VERIFIKASI'')),
      (''items'', PyList
        [PyStr (lit ''Race Detector: PASS (go test -race ./... '' @
            lit ''tanpa flag data race).''),
         PyStr (lit ''Session Isolation: 15 session unik tidak '' @
            lit ''saling mengganggu state sync.Map.''),
         PyStr (lit ''Write-Read Consistency: Setiap session '' @
            lit ''melihat data yang ditulis sendiri setelah '' @ lit ''sticky window.''),
         PyStr (lit ''Cluster Stability: 3 replica workers tetap '' @
            lit ''stabil tanpa goroutine leak atau deadlock.'')]),
      (''type'', PyStr (lit ''bullet''))]]\<close>

definition lab33_slide_13 :: pycall where [lab33_slides]:
  \<open>lab33_slide_13 =
   \<lparr>posargs = [],
  kwargs =
   [(''categories'', PyList
      [PyStr (lit ''CONCURRENCY''),
       PyStr (lit ''VALIDATION'')]),
    (''title'', PyStr (lit ''Validasi Konkurensi: 15 Goroutine '' @ [0xD7] @ lit '' 20 Operasi Race-Free'')),
    (''subtitle'', PyStr (lit ''TestConcurrentAccess_RaceFree membuktikan '' @
        lit ''thread-safety Router dan Cluster di bawah '' @ lit ''beban.'')),
    (''content_items'', lab33_items_13),
    (''narrative'', PyStr (lit ''Uji konkurensi ini membuktikan ketahanan '' @
        lit ''implementasi saat 15 goroutine bersamaan '' @
        lit ''mengeksekusi pattern write-then-read pada '' @
        lit ''20 iterasi per session. Setiap goroutine '' @
        lit ''menggunakan session ID unik yang menjaga '' @
        lit ''isolation state di Router sync.Map. Cluster '' @
        lit ''dengan tiga replica worker memproses WAL '' @
        lit ''entries secara paralel dengan gap 10 '' @
        lit ''milidetik. Di bawah go race detector, tidak '' @
        lit ''ada data race terdeteksi di seluruh memory '' @
        lit ''accesses Router methods maupun Cluster '' @
        lit ''nodes. Test ini mengonfirmasi bahwa '' @
        lit ''concurrent access ke shared state tetap '' @
        lit ''linearizable berkat mutex proteksi di '' @ lit ''setiap node.'')),
    (''narrative_en'', PyStr (lit ''This concurrency test validates '' @
        lit ''implementation robustness when fifteen '' @
        lit ''goroutines simultaneously execute '' @
        lit ''write-then-read patterns across twenty '' @
        lit ''iterations per session. Each goroutine '' @
        lit ''employs a unique session ID maintaining '' @
        lit ''isolation state within the Router sync.Map. '' @
        lit ''The cluster with three replica workers '' @
        lit ''processes WAL entries in parallel with '' @
        lit ''ten-millisecond gaps. Under the Go race '' @
        lit ''detector, no data races are detected across '' @
        lit ''all Router method or Cluster node memory '' @
        lit ''accesses. This confirms concurrent access '' @
        lit ''to shared state remains linearizable '' @
        lit ''through mutex protections at every node.'')),
    (''mental_model'', PyStr (lit ''Thread-safe shared state requires explicit '' @
        lit ''mutex boundaries; race detector catches '' @ lit ''what humans miss.'')),
    (''source_path'', PyStr (lit ''tests/replication_test.go:173-210'')),
    (''slide_num'', PyStr (lit ''13 / 24'')),
    (''layout'', PyStr (lit ''concurrency-flow''))]\<rparr>\<close>

definition lab33_items_14 :: pyval where [lab33_contents]:
  \<open>lab33_items_14 =
   PyList
   [PyDict
     [(''title'', PyStr (lit ''BEFORE (Naive Round-Robin)'')),
      (''items'', PyList
        [PyStr (lit ''Routing: Pilih replica secara acak tanpa '' @ lit ''awareness LSN state.''),
         PyStr (lit ''Failure Mode: Stale read atau ErrNotFound '' @
            lit ''terjadi setiap write-then-read window.''),
         PyStr (lit ''Observability: Tidak ada metric untuk '' @
            lit ''mendeteksi replication lag anomaly.''),
         PyStr (lit ''Dampak: User experience degradasi senyap '' @
            lit ''tanpa error reporting yang meaningful.'')]),
      (''type'', PyStr (lit ''card''))],
    PyDict
     [(''title'', PyStr (lit ''AFTER (Four-Layer Mitigation)'')),
      (''items'', PyList
        [PyStr (lit ''Routing: Sticky session untuk session-bound '' @
            lit ''writes, token wait untuk causal reads.''),
         PyStr (lit ''Failure Mode: Fallback eksplisit ke primary '' @
            lit ''dengan logging node ID dan LSN delta.''),
         PyStr (lit ''Observability: appliedLSN per replica dapat '' @
            lit ''dipromonitor untuk alerting threshold '' @ lit ''breach.''),
         PyStr (lit ''Dampak: Read-your-own-writes terjamin 100% '' @
            lit ''dengan graceful degradation ketika replica '' @ lit ''lagging.'')]),
      (''type'', PyStr (lit ''card''))]]\<close>

definition lab33_slide_14 :: pycall where [lab33_slides]:
  \<open>lab33_slide_14 =
   \<lparr>posargs = [],
  kwargs =
   [(''categories'', PyList
      [PyStr (lit ''BEFORE/AFTER''),
       PyStr (lit ''PERUBAHAN'')]),
    (''title'', PyStr (lit ''Before vs After: Evolusi Read Routing '' @ lit ''Strategy'')),
    (''subtitle'', PyStr (lit ''Transformasi dari read naif berisiko stale '' @
        lit ''hingga arsitektur four-layer mitigation.'')),
    (''content_items'', lab33_items_14),
    (''narrative'', PyStr (lit ''Perbandingan before-after ini menunjukkan '' @
        lit ''evolusi arsitektur read routing dari '' @
        lit ''pendekatan naif yang rentan stale read '' @
        lit ''menuju sistem four-layer mitigation dengan '' @
        lit ''fallback bertingkat. Sebelum penerapan '' @
        lit ''strategi, setiap write-then-read cycle '' @
        lit ''berisiko tinggi menghasilkan data usang '' @
        lit ''karena tidak ada mekanisme penutupan '' @
        lit ''replication gap. Setelah implementasi, '' @
        lit ''sistem memiliki tiga lapis proteksi: sticky '' @
        lit ''session untuk session-bound operations, '' @
        lit ''causal token untuk critical reads, dan '' @
        lit ''lag-aware filtering untuk bulk analytics. '' @
        lit ''Setiap lapis memiliki fallback eksplisit ke '' @
        lit ''primary dengan logging yang dapat '' @ lit ''diobservasi.'')),
    (''narrative_en'', PyStr (lit ''This before-and-after comparison highlights '' @
        lit ''the architectural evolution from fragile '' @
        lit ''naive routing prone to stale reads toward a '' @
        lit ''four-layer mitigation system with tiered '' @
        lit ''fallbacks. Prior to strategy '' @
        lit ''implementation, every write-then-read cycle '' @
        lit ''carried high risk of serving stale data due '' @
        lit ''to absent gap-closing mechanisms. After '' @
        lit ''deployment, the system features three '' @
        lit ''protection layers: sticky sessions for '' @
        lit ''session-bound operations, causal tokens for '' @
        lit ''critical reads, and lag-aware filtering for '' @
        lit ''bulk analytics. Each layer maintains '' @
        lit ''explicit fallback logging to the primary '' @
        lit ''with observable node identifiers and LSN '' @ lit ''deltas.'')),
    (''mental_model'', PyStr (lit ''Before: blind distribution amplifies '' @
        lit ''inconsistency. After: informed routing '' @
        lit ''turns lag into a measurable variable.'')),
    (''source_path'', PyStr (lit ''labs/33-read-replicas-and-replication-lag/co'' @
        lit ''ntent/02-master-draft.md'')),
    (''slide_num'', PyStr (lit ''14 / 24'')),
    (''layout'', PyStr (lit ''before-after''))]\<rparr>\<close>

definition lab33_items_15 :: pyval where [lab33_contents]:
  \<open>lab33_items_15 =
   PyList
   [PyDict
     [(''title'', PyStr (lit ''TEST KONTRAK STALE READ'')),
      (''items'', PyList
        [PyStr (lit ''func TestNaiveReplicationLag_StaleRead(t '' @ lit ''*testing.T) {''),
         PyStr (lit ''    c := cluster.NewCluster(2, '' @ lit ''200*time.Millisecond, '' @
            lit ''cluster.AsyncReplication)''),
         PyStr (lit ''    defer c.Close()''),
         PyStr (lit ''    r := router.NewRouter(c, '' @ lit ''router.DefaultConfig())''),
         PyStr [],
         PyStr (lit ''    _, err := r.Write("s1", "key:A", '' @ lit ''"value-A")''),
         PyStr (lit ''    if err != nil { t.Fatalf("Write failed: '' @ lit ''%v", err) }''),
         PyStr [],
         PyStr (lit ''    // Immediately read without any '' @ lit ''mitigation''),
         PyStr (lit ''    val, nodeID, lsn, err := '' @ lit ''r.ReadNaive("key:A")''),
         PyStr (lit ''    if err == nil {''),
         PyStr (lit ''        t.Fatalf("Expected stale read '' @
            lit ''error, got val=%s node=%s lsn=%d", val, '' @ lit ''nodeID, lsn)''),
         PyStr (lit ''    }''),
         PyStr (lit ''    // After waiting for lag to expire, '' @ lit ''read should succeed''),
         PyStr (lit ''    time.Sleep(250 * time.Millisecond)''),
         PyStr (lit ''    val, nodeID, lsn, err = '' @ lit ''r.ReadNaive("key:A")''),
         PyStr (lit ''    if err != nil { t.Fatalf("Post-lag read '' @
            lit ''failed: %v", err) }''),
         PyStr (lit ''}'')]),
      (''type'', PyStr (lit ''code''))],
    PyDict
     [(''title'', PyStr (lit ''VERIFIKASI INVARIAN'')),
      (''items'', PyList
        [PyStr (lit ''Immediate Read: ReadNaive pasca-write '' @
            lit ''langsung menghasilkan ErrNotFound (stale '' @ lit ''read).''),
         PyStr (lit ''Post-Lag Read: Setelah sleep 250ms (> lag '' @
            lit ''200ms), read berhasil dengan nilai fresh.''),
         PyStr (lit ''Node Affinity: Setelah catch-up, read dapat '' @
            lit ''berhasil dari replica manapun.''),
         PyStr (lit ''Timing Proof: Perbedaan hasil sebelum dan '' @
            lit ''sesudah lag membuktikan anomali temporal.'')]),
      (''type'', PyStr (lit ''bullet''))]]\<close>

definition lab33_slide_15 :: pycall where [lab33_slides]:
  \<open>lab33_slide_15 =
   \<lparr>posargs = [],
  kwargs =
   [(''categories'', PyList
      [PyStr (lit ''BUKTI TEST''),
       PyStr (lit ''STALE READ'')]),
    (''title'', PyStr (lit ''Test 1: Stale Read Terjadi Tanpa Proteksi'')),
    (''subtitle'', PyStr (lit ''TestNaiveReplicationLag_StaleRead '' @
        lit ''membuktikan anomaly read-then-write window.'')),
    (''content_items'', lab33_items_15),
    (''narrative'', PyStr (lit ''Unit test pertama membuktikan keberadaan '' @
        lit ''stale read anomaly secara eksplisit. '' @
        lit ''Setelah write ke primary dengan key '' @ [39] @ lit ''key:A'' @ [39] @
        lit '', panggilan ReadNaive seketika menghasilkan '' @
        lit ''error ErrNotFound karena replica belum '' @
        lit ''menerapkan WAL entry. Setelah menunggu 250 '' @
        lit ''milidetik yang melampaui batas lag 200 '' @
        lit ''milidetik, read yang sama berhasil '' @
        lit ''mengembalikan value yang benar. Test ini '' @
        lit ''mengonfirmasi bahwa anomali bersifat '' @ lit ''temporal '' @ [0x2014] @
        lit '' bukan permanen '' @ [0x2014] @
        lit '' dan dapat dicegah dengan menambahkan '' @
        lit ''lapisan routing intelligence di antara '' @
        lit ''write commit dan read dispatch.'')),
    (''narrative_en'', PyStr (lit ''The first unit test explicitly proves the '' @
        lit ''existence of stale read anomalies. '' @
        lit ''Immediately after writing to the primary '' @ lit ''with key '' @ [39] @
        lit ''key:A'' @ [39] @ lit '', the ReadNaive call produces an '' @
        lit ''ErrNotFound error because replicas have not '' @
        lit ''yet applied the WAL entry. After waiting '' @
        lit ''250 milliseconds to exceed the '' @
        lit ''200-millisecond lag threshold, the same '' @
        lit ''read succeeds returning the correct value. '' @
        lit ''This test confirms the anomaly is purely '' @ lit ''temporal '' @ [0x2014] @
        lit '' not permanent '' @ [0x2014] @
        lit '' and can be prevented by adding a routing '' @
        lit ''intelligence layer between write commit and '' @ lit ''read dispatch.'')),
    (''mental_model'', PyStr (lit ''Stale reads are deterministic consequences '' @
        lit ''of timing gaps, not random network failures.'')),
    (''source_path'', PyStr (lit ''tests/replication_test.go:1-45'')),
    (''slide_num'', PyStr (lit ''15 / 24'')),
    (''layout'', PyStr (lit ''test-analysis''))]\<rparr>\<close>

definition lab33_items_16 :: pyval where [lab33_contents]:
  \<open>lab33_items_16 =
   PyList
   [PyDict
     [(''title'', PyStr (lit ''TEST KONTRAK STICKY ROUTING'')),
      (''items'', PyList
        [PyStr (lit ''func TestStickySessionRouting(t *testing.T) '' @ lit ''{''),
         PyStr (lit ''    c := cluster.NewCluster(2, '' @ lit ''200*time.Millisecond, '' @
            lit ''cluster.AsyncReplication)''),
         PyStr (lit ''    defer c.Close()''),
         PyStr (lit ''    cfg := router.DefaultConfig()''),
         PyStr (lit ''    cfg.StickyDuration = 500 * '' @ lit ''time.Millisecond''),
         PyStr (lit ''    r := router.NewRouter(c, cfg)''),
         PyStr [],
         PyStr (lit ''    _, err := r.Write("s1", "key:B", '' @ lit ''"value-B")''),
         PyStr (lit ''    if err != nil { t.Fatalf("Write failed: '' @ lit ''%v", err) }''),
         PyStr [],
         PyStr (lit ''    // Read within sticky window '' @ [0x2014] @ lit '' must hit primary''),
         PyStr (lit ''    val, nodeID, _, err := '' @
            lit ''r.ReadWithStickySession("s1", "key:B")''),
         PyStr (lit ''    if err != nil || val != "value-B" || '' @
            lit ''!strings.HasSuffix(nodeID, "primary") {''),
         PyStr (lit ''        t.Fatalf("Sticky read failed or hit '' @
            lit ''wrong node: val=%s node=%s err=%v", val, '' @ lit ''nodeID, err)''),
         PyStr (lit ''    }''),
         PyStr [],
         PyStr (lit ''    time.Sleep(600 * time.Millisecond) // '' @
            lit ''Expire sticky window''),
         PyStr (lit ''    val, nodeID, _, err = '' @
            lit ''r.ReadWithStickySession("s1", "key:B")''),
         PyStr (lit ''    if err != nil || nodeID == "primary" {''),
         PyStr (lit ''        t.Fatalf("Post-sticky read should '' @
            lit ''route to replica, got node=%s", nodeID)''),
         PyStr (lit ''    }''),
         PyStr (lit ''}'')]),
      (''type'', PyStr (lit ''code''))],
    PyDict
     [(''title'', PyStr (lit ''ATURAN STRICT TIMING'')),
      (''items'', PyList
        [PyStr (lit ''Pre-Expiration: Read dalam 500ms pertama '' @
            lit ''selalu diarahkan ke primary, bukan replica.''),
         PyStr (lit ''Post-Expiration: Setelah 600ms, routing '' @
            lit ''berubah ke ReadLagAware (replica eligible).''),
         PyStr (lit ''Value Integrity: Payload '' @ [39] @ lit ''value-B'' @ [39] @
            lit '' konsisten tersedia di primary dan replica '' @ lit ''catch-up.''),
         PyStr (lit ''Session Isolation: Session ID lain tidak '' @
            lit ''terpengaruh oleh sticky state session s1.'')]),
      (''type'', PyStr (lit ''bullet''))]]\<close>

definition lab33_slide_16 :: pycall where [lab33_slides]:
  \<open>lab33_slide_16 =
   \<lparr>posargs = [],
  kwargs =
   [(''categories'', PyList
      [PyStr (lit ''BUKTI TEST''),
       PyStr (lit ''STICKY ROUTING'')]),
    (''title'', PyStr (lit ''Test 2: Sticky Session Menjamin '' @ lit ''Read-Your-Own-Writes'')),
    (''subtitle'', PyStr (lit ''TestStickySessionRouting membuktikan '' @
        lit ''primary redirect dalam jendela T_sticky.'')),
    (''content_items'', lab33_items_16),
    (''narrative'', PyStr (lit ''Unit test kedua mengonfirmasi bahwa sticky '' @
        lit ''session routing berhasil mencegah stale '' @
        lit ''read dalam jendela waktu yang ditentukan. '' @
        lit ''Read yang dipanggil dalam 500 milidetik '' @
        lit ''pasca-write secara konsisten diarahkan ke '' @
        lit ''primary node, menjamin data fresh tersedia. '' @
        lit ''Setelah jendela expire dengan sleep 600 '' @
        lit ''milidetik, routing otomatis bergeser ke '' @
        lit ''ReadLagAware yang menyeleksi replica '' @
        lit ''berdasarkan threshold eligibility. Test ini '' @
        lit ''membuktikan bahwa pendekatan time-based '' @
        lit ''sederhana namun efektif untuk session-bound '' @
        lit ''read patterns tanpa memerlukan LSN tracking '' @ lit ''di setiap request.'')),
    (''narrative_en'', PyStr (lit ''The second unit test confirms that sticky '' @
        lit ''session routing successfully prevents stale '' @
        lit ''reads within the specified time window. '' @
        lit ''Reads invoked within 500 milliseconds '' @
        lit ''post-write consistently route to the '' @
        lit ''primary node, guaranteeing fresh data '' @
        lit ''availability. After the window expires with '' @
        lit ''a 600-millisecond sleep, routing '' @
        lit ''automatically shifts to ReadLagAware which '' @
        lit ''selects replicas based on threshold '' @
        lit ''eligibility. This test proves the '' @
        lit ''time-based approach is both simple and '' @
        lit ''effective for session-bound read patterns '' @
        lit ''without requiring per-request LSN tracking.'')),
    (''mental_model'', PyStr (lit ''Time-bounded primary redirection trades '' @
        lit ''read throughput for guaranteed session '' @ lit ''consistency.'')),
    (''source_path'', PyStr (lit ''tests/replication_test.go:47-98'')),
    (''slide_num'', PyStr (lit ''16 / 24'')),
    (''layout'', PyStr (lit ''test-analysis''))]\<rparr>\<close>

definition lab33_items_17 :: pyval where [lab33_contents]:
  \<open>lab33_items_17 =
   PyList
   [PyDict
     [(''title'', PyStr (lit ''TEST KONTRAK CAUSAL TOKEN'')),
      (''items'', PyList
        [PyStr (lit ''func TestReadWithToken_LSN(t *testing.T) {''),
         PyStr (lit ''    c := cluster.NewCluster(1, '' @ lit ''200*time.Millisecond, '' @
            lit ''cluster.AsyncReplication)''),
         PyStr (lit ''    defer c.Close()''),
         PyStr (lit ''    r := router.NewRouter(c, '' @ lit ''router.DefaultConfig())''),
         PyStr [],
         PyStr (lit ''    lsn, err := r.Write("s1", "key:C", '' @ lit ''"value-C")''),
         PyStr (lit ''    if err != nil { t.Fatalf("Write failed: '' @ lit ''%v", err) }''),
         PyStr [],
         PyStr (lit ''    start := time.Now()''),
         PyStr (lit ''    val, nodeID, readLSN, err := '' @
            lit ''r.ReadWithToken(context.Background(), lsn, '' @ lit ''"key:C")''),
         PyStr (lit ''    elapsed := time.Since(start)''),
         PyStr [],
         PyStr (lit ''    if err != nil { t.Fatalf("ReadWithToken '' @
            lit ''failed: %v", err) }''),
         PyStr (lit ''    if val != "value-C" { '' @
            lit ''t.Fatalf("Expected value-C, got %s", val) }''),
         PyStr (lit ''    if readLSN < lsn { t.Fatalf("Expected '' @
            lit ''LSN >= %d, got %d", lsn, readLSN) }''),
         PyStr (lit ''    if elapsed < 150*time.Millisecond {''),
         PyStr (lit ''        t.Fatalf("Expected token read to '' @
            lit ''wait ~200ms, finished in %v on node %s", '' @ lit ''elapsed, nodeID)''),
         PyStr (lit ''    }''),
         PyStr (lit ''}'')]),
      (''type'', PyStr (lit ''code''))],
    PyDict
     [(''title'', PyStr (lit ''INVARIAN BLOCKING WAIT'')),
      (''items'', PyList
        [PyStr (lit ''Deterministic Wait: ReadWithToken blocking '' @
            lit ''hingga replica appliedLSN >= minLSN '' @ lit ''terbukti.''),
         PyStr (lit ''Elapsed Timing: Test asserting elapsed >= '' @
            lit ''150ms mengkonfirmasi blocking behavior '' @ lit ''aktif.''),
         PyStr (lit ''LSN Guarantee: readLSN >= minLSN menjamin '' @
            lit ''causal ordering terpenuhi sebelum serve '' @ lit ''response.''),
         PyStr (lit ''Fallback Safety: Jika timeout, method '' @
            lit ''fallback ke primary dengan suffix '' @ [39] @ lit ''(fallback)'' @ [39] @
            lit '' di nodeID.'')]),
      (''type'', PyStr (lit ''bullet''))]]\<close>

definition lab33_slide_17 :: pycall where [lab33_slides]:
  \<open>lab33_slide_17 =
   \<lparr>posargs = [],
  kwargs =
   [(''categories'', PyList
      [PyStr (lit ''BUKTI TEST''),
       PyStr (lit ''CAUSAL TOKEN'')]),
    (''title'', PyStr (lit ''Test 3: Causal Token Tunggu Catch-Up '' @ lit ''Sebelum Serve Read'')),
    (''subtitle'', PyStr (lit ''TestReadWithToken_LSN membuktikan blocking '' @
        lit ''wait dengan LSN deterministik.'')),
    (''content_items'', lab33_items_17),
    (''narrative'', PyStr (lit ''Unit test ketiga menguji implementasi '' @
        lit ''causal token routing yang melibatkan '' @
        lit ''blocking wait mechanism. Setelah write '' @
        lit ''dengan LSN tertentu, ReadWithToken iterasi '' @
        lit ''replica untuk menemukan yang sudah mencapai '' @
        lit ''threshold LSN. Ketika tidak ada replica '' @
        lit ''yang match, method memanggil WaitForLSN '' @
        lit ''pada replica pertama dengan context '' @
        lit ''timeout. Test ini memvalidasi bahwa read '' @
        lit ''blocked selama sekitar 200 milidetik '' @
        lit ''menunggu replica catch-up, kemudian '' @
        lit ''melayani response dengan nilai fresh dan '' @
        lit ''LSN yang sesuai. Blocking behavior ini '' @
        lit ''merupakan bedanya dengan sticky session '' @
        lit ''yang hanya mengandalkan waktu tanpa '' @ lit ''memeriksa LSN aktual.'')),
    (''narrative_en'', PyStr (lit ''The third unit test examines the causal '' @
        lit ''token routing implementation involving a '' @
        lit ''blocking wait mechanism. After writing with '' @
        lit ''a specific LSN, ReadWithToken iterates '' @
        lit ''replicas to find one already at or above '' @
        lit ''the threshold. When no replica matches, the '' @
        lit ''method calls WaitForLSN on the first '' @
        lit ''replica with a context timeout. This test '' @
        lit ''validates that the read blocks for '' @
        lit ''approximately 200 milliseconds waiting for '' @
        lit ''replica catch-up before serving a fresh '' @
        lit ''response with the correct LSN. This '' @
        lit ''blocking behavior distinguishes causal '' @
        lit ''tokens from sticky sessions, which rely '' @
        lit ''solely on time without checking actual LSN '' @ lit ''values.'')),
    (''mental_model'', PyStr (lit ''Causal tokens convert temporal uncertainty '' @
        lit ''into deterministic ordering guarantees.'')),
    (''source_path'', PyStr (lit ''tests/replication_test.go:100-121'')),
    (''slide_num'', PyStr (lit ''17 / 24'')),
    (''layout'', PyStr (lit ''test-analysis''))]\<rparr>\<close>

definition lab33_items_18 :: pyval where [lab33_contents]:
  \<open>lab33_items_18 =
   PyList
   [PyDict
     [(''title'', PyStr (lit ''AWS RDS / AURORA READ REPLICAS'')),
      (''items'', PyList
        [PyStr (lit ''Default: Asynchronous replication dengan '' @
            lit ''lag bervariasi tergantung region dan '' @ lit ''instance size.''),
         PyStr (lit ''Read-Your-Own-Writes: AWS DocumentDB '' @ lit ''menyediakan '' @ [39] @
            lit ''session consistency'' @ [39] @ lit '' via sticky routing otomatis.''),
         PyStr (lit ''Monitoring: CloudWatch metric '' @ [39] @ lit ''ReplicaLag'' @ [39] @
            lit '' exposing seconds behind primary secara '' @ lit ''real-time.''),
         PyStr (lit ''Failover: Automated promotion namun read '' @
            lit ''splitter perlu rekonfigurasi sticky session '' @ lit ''state.'')]),
      (''type'', PyStr (lit ''bullet''))],
    PyDict
     [(''title'', PyStr (lit ''POSTGRESQL STREAMING REPLICATION'')),
      (''items'', PyList
        [PyStr (lit ''Async Default: wal_level = replica, '' @
            lit ''synchronous_commit = off, remote_apply '' @ lit ''belum diaktifkan.''),
         PyStr (lit ''Synchronous Commit: Setting '' @
            lit ''synchronous_commit = remote_apply menjamin '' @
            lit ''write visibility di semua replica.''),
         PyStr (lit ''pg_stat_replication: System view exposing '' @
            lit ''replay_lsn vs write_lsn untuk monitoring '' @ lit ''lag.''),
         PyStr (lit ''Application Level: Driver seperti PgBouncer '' @
            lit ''atau connection pooler bisa implement '' @ lit ''sticky routing.'')]),
      (''type'', PyStr (lit ''bullet''))]]\<close>

definition lab33_slide_18 :: pycall where [lab33_slides]:
  \<open>lab33_slide_18 =
   \<lparr>posargs = [],
  kwargs =
   [(''categories'', PyList
      [PyStr (lit ''STUDI KASUS''),
       PyStr (lit ''INDUSTRI'')]),
    (''title'', PyStr (lit ''Studi Kasus Industri: Replication Lag di '' @ lit ''Database Production'')),
    (''subtitle'', PyStr (lit ''Bagaimana ekosistem database kelas dunia '' @
        lit ''menangani stale read problem secara praktis.'')),
    (''content_items'', lab33_items_18),
    (''narrative'', PyStr (lit ''Studi kasus industri menunjukkan bahwa '' @
        lit ''masalah replication lag bukan teoretis '' @
        lit ''melainkan operasional sehari-hari di '' @
        lit ''infrastruktur cloud modern. AWS RDS '' @
        lit ''menyediakan metric ReplicaLag melalui '' @
        lit ''CloudWatch yang memungkinkan tim SRE '' @
        lit ''mendeteksi anomali sebelum user complaint '' @
        lit ''muncul. PostgreSQL streaming replication '' @
        lit ''memberikan kontrol granular melalui '' @
        lit ''synchronous_commit parameter yang '' @
        lit ''membedakan antara durability guarantee dan '' @
        lit ''visibility guarantee. Aplikasi enterprise '' @
        lit ''besar seperti Twitter dan Netflix '' @
        lit ''mengimplementasikan custom session-affinity '' @
        lit ''routing di layer client library untuk '' @
        lit ''menutup gap readability tanpa menunggu '' @
        lit ''perbaikan di database engine.'')),
    (''narrative_en'', PyStr (lit ''Industry case studies demonstrate that '' @
        lit ''replication lag is not merely theoretical '' @
        lit ''but an everyday operational challenge in '' @
        lit ''modern cloud infrastructure. AWS RDS '' @
        lit ''provides the ReplicaLag metric through '' @
        lit ''CloudWatch enabling SRE teams to detect '' @
        lit ''anomalies before user complaints surface. '' @
        lit ''PostgreSQL streaming replication offers '' @
        lit ''granular control through the '' @
        lit ''synchronous_commit parameter distinguishing '' @
        lit ''between durability guarantees and '' @
        lit ''visibility guarantees. Large enterprise '' @
        lit ''applications like Twitter and Netflix '' @
        lit ''implement custom session-affinity routing '' @
        lit ''within client libraries to close '' @
        lit ''readability gaps without waiting for '' @ lit ''database engine fixes.'')),
    (''mental_model'', PyStr (lit ''Production systems treat replication lag as '' @
        lit ''an operational variable, not an inflexible '' @ lit ''constraint.'')),
    (''source_path'', PyStr (lit ''research/05-report.md '' @ [0x2022] @ lit '' research/03-evidence.md'')),
    (''slide_num'', PyStr (lit ''18 / 24'')),
    (''layout'', PyStr (lit ''cards''))]\<rparr>\<close>

definition lab33_items_19 :: pyval where [lab33_contents]:
  \<open>lab33_items_19 =
   PyList
   [PyDict
     [(''title'', PyStr (lit ''IMPLEMENTASI WAITER'')),
      (''items'', PyList
        [PyStr (lit ''func (n *Node) WaitForLSN(ctx '' @
            lit ''context.Context, targetLSN uint64) error {''),
         PyStr (lit ''    ch := make(chan struct{})''),
         PyStr (lit ''    stop := make(chan struct{})''),
         PyStr (lit ''    go func() {''),
         PyStr (lit ''        n.mu.Lock()''),
         PyStr (lit ''        defer n.mu.Unlock()''),
         PyStr (lit ''        for n.appliedLSN < targetLSN {''),
         PyStr (lit ''            select {''),
         PyStr (lit ''            case <-stop:''),
         PyStr (lit ''                return''),
         PyStr (lit ''            default:''),
         PyStr (lit ''            }''),
         PyStr (lit ''            n.cond.Wait()  // Release lock, '' @
            lit ''block until Broadcast''),
         PyStr (lit ''        }''),
         PyStr (lit ''        close(ch)''),
         PyStr (lit ''    }()''),
         PyStr (lit ''    select {''),
         PyStr (lit ''    case <-ctx.Done():''),
         PyStr (lit ''        close(stop); n.cond.Broadcast(); '' @ lit ''return ctx.Err()''),
         PyStr (lit ''    case <-ch:''),
         PyStr (lit ''        return nil''),
         PyStr (lit ''    }''),
         PyStr (lit ''}'')]),
      (''type'', PyStr (lit ''code''))],
    PyDict
     [(''title'', PyStr (lit ''MEKANISME PENGUNCIAN'')),
      (''items'', PyList
        [PyStr (lit ''cond.Wait() melepas mutex sementara '' @
            lit ''goroutine block, menghindari busy-wait CPU '' @ lit ''spinning.''),
         PyStr (lit ''Worker goroutine memanggil cond.Broadcast() '' @
            lit ''setelah apply entry, waking semua waiter.''),
         PyStr (lit ''Context deadline memicu close(stop) + '' @
            lit ''Broadcast() untuk emergency wakeup dan '' @ lit ''cleanup.'')]),
      (''type'', PyStr (lit ''bullet''))]]\<close>

definition lab33_slide_19 :: pycall where [lab33_slides]:
  \<open>lab33_slide_19 =
   \<lparr>posargs = [],
  kwargs =
   [(''categories'', PyList
      [PyStr (lit ''ANALISIS TEKNIS''),
       PyStr (lit ''RUNTIME'')]),
    (''title'', PyStr (lit ''Bagaimana WaitForLSN Membedakan Blocking '' @ lit ''dan Timeout?'')),
    (''subtitle'', PyStr (lit ''Konkurensi pattern menggunakan sync.Cond + '' @
        lit ''context cancellation untuk polling efisien.'')),
    (''content_items'', lab33_items_19),
    (''narrative'', PyStr (lit ''Implementasi WaitForLSN menunjukkan pola '' @
        lit ''konkurensi Go yang elegan untuk menunggu '' @
        lit ''kondisi berbasis channel dan condvar. '' @
        lit ''Goroutine waiter mengakuisisi mutex node, '' @
        lit ''loop until appliedLSN memenuhi target, dan '' @
        lit ''memanggil cond.Wait() yang secara atomik '' @
        lit ''melepaskan mutex sambil memblokir '' @
        lit ''goroutine. Worker goroutine setelah apply '' @
        lit ''WAL entry memanggil cond.Broadcast() untuk '' @
        lit ''membangunkan semua waiter yang sedang '' @
        lit ''blocked. Context cancellation memberikan '' @
        lit ''jalur escape yang aman dengan menutup stop '' @
        lit ''channel dan memicu broadcast ulang agar '' @
        lit ''waiter tidak stuck selamanya.'')),
    (''narrative_en'', PyStr (lit ''The WaitForLSN implementation demonstrates '' @
        lit ''an elegant Go concurrency pattern for '' @
        lit ''condition-based waiting combining channels '' @
        lit ''and condvars. The waiter goroutine acquires '' @
        lit ''the node mutex, loops until appliedLSN '' @
        lit ''satisfies the target, and calls cond.Wait() '' @
        lit ''which atomically releases the mutex while '' @
        lit ''blocking the goroutine. The worker '' @
        lit ''goroutine invokes cond.Broadcast() after '' @
        lit ''applying WAL entries to wake all blocked '' @
        lit ''waiters. Context cancellation provides a '' @
        lit ''safe escape hatch by closing the stop '' @
        lit ''channel and triggering a re-broadcast '' @
        lit ''ensuring waiters never remain permanently '' @ lit ''stuck.'')),
    (''mental_model'', PyStr (lit ''Condition variables replace polling loops; '' @
        lit ''context cancellation ensures graceful '' @ lit ''deadline enforcement.'')),
    (''source_path'', PyStr (lit ''internal/cluster/cluster.go:79-107'')),
    (''slide_num'', PyStr (lit ''19 / 24'')),
    (''layout'', PyStr (lit ''code-bullet''))]\<rparr>\<close>

definition lab33_items_20 :: pyval where [lab33_contents]:
  \<open>lab33_items_20 =
   PyList
   [PyDict
     [(''title'', PyStr (lit ''CHECKLIST ARSITEKTUR REPLIKASI'')),
      (''items'', PyList
        [PyStr (lit ''[ ] Tentukan consistency requirement: '' @
            lit ''session-bound vs casual reads untuk memilih '' @ lit ''strategi.''),
         PyStr (lit ''[ ] Kalibrasi T_sticky '' @ [0x2265] @
            lit '' p99 replication lag aktual di production '' @
            lit ''environment (bukan asumsi).''),
         PyStr (lit ''[ ] Konfigurasi MaxLSNDiff berdasarkan '' @
            lit ''observasi delta LSN normal vs anomaly '' @ lit ''threshold.''),
         PyStr (lit ''[ ] Set WaitTimeout causal token '' @ [0x2265] @
            lit '' worst-case catch-up duration + 20% buffer.''),
         PyStr (lit ''[ ] Deploy monitoring metrics: replica lag '' @
            lit ''histogram, stale read rate, primary '' @ lit ''fallback frequency.''),
         PyStr (lit ''[ ] Implement circuit breaker untuk primary '' @
            lit ''fallback ketika semua replica exceed '' @ lit ''threshold.''),
         PyStr (lit ''[ ] Distribusikan router session state ke '' @
            lit ''shared store (Redis/memcached) untuk '' @ lit ''horizontal scaling.''),
         PyStr (lit ''[ ] Validasi bahwa sticky session map tidak '' @
            lit ''memory-leak pada session idle jangka '' @ lit ''panjang.''),
         PyStr (lit ''[ ] Uji synchronous replication mode hanya '' @
            lit ''untuk write-critical paths, bukan seluruh '' @ lit ''traffic.''),
         PyStr (lit ''[ ] Prepare runbook deteksi anomaly: cara '' @
            lit ''membedakan network partition dari '' @ lit ''replication lag spike.'')]),
      (''type'', PyStr (lit ''bullet''))]]\<close>

definition lab33_slide_20 :: pycall where [lab33_slides]:
  \<open>lab33_slide_20 =
   \<lparr>posargs = [],
  kwargs =
   [(''categories'', PyList
      [PyStr (lit ''CHECKLIST''),
       PyStr (lit ''PRODUKSI'')]),
    (''title'', PyStr (lit ''Checklist Implementasi Read Replica Strategy'')),
    (''subtitle'', PyStr (lit ''10 poin verifikasi wajib sebelum merutekan '' @
        lit ''traffic ke environment production.'')),
    (''content_items'', lab33_items_20),
    (''narrative'', PyStr (lit ''Daftar periksa ini merangkum sepuluh '' @
        lit ''prinsip krusial yang wajib dipenuhi sebelum '' @
        lit ''deploying read replica strategy ke '' @
        lit ''production. Parameter timing seperti sticky '' @
        lit ''duration dan wait timeout tidak boleh '' @
        lit ''di-set berdasarkan feeling, melainkan harus '' @
        lit ''dikalibrasi dari data historis replication '' @
        lit ''lag percentile. Monitoring dan alerting '' @
        lit ''menjadi mata telinga operator untuk '' @
        lit ''mendeteksi degradation sebelum user '' @
        lit ''complain. State management router perlu '' @
        lit ''diverifikasi tidak menyebabkan memory leak '' @
        lit ''pada session lifecycle yang panjang. '' @
        lit ''Terakhir, dibedakan antara synchronous '' @
        lit ''replication untuk critical path versus '' @
        lit ''asynchronous dengan application-level '' @
        lit ''fencing untuk read-heavy workload.'')),
    (''narrative_en'', PyStr (lit ''This checklist codifies ten critical '' @
        lit ''principles required before deploying read '' @
        lit ''replica strategies to production. Timing '' @
        lit ''parameters such as sticky duration and wait '' @
        lit ''timeout must never be guessed but '' @
        lit ''calibrated against historical replication '' @
        lit ''lag percentile data. Monitoring and '' @
        lit ''alerting become the operator sensory system '' @
        lit ''for detecting degradation before user '' @
        lit ''complaints surface. Router state management '' @
        lit ''must be verified for absence of memory '' @
        lit ''leaks across long-lived session lifecycles. '' @
        lit ''Finally, distinguish synchronous '' @
        lit ''replication for critical paths versus '' @
        lit ''asynchronous with application-level fencing '' @
        lit ''for read-heavy workloads.'')),
    (''mental_model'', PyStr (lit ''Calibrate timing empirically, monitor '' @
        lit ''continuously, and distinguish path '' @ lit ''criticality explicitly.'')),
    (''source_path'', PyStr (lit ''labs/33-read-replicas-and-replication-lag/co'' @
        lit ''ntent/05-key-takeaways.md'')),
    (''slide_num'', PyStr (lit ''20 / 24'')),
    (''layout'', PyStr (lit ''checklist''))]\<rparr>\<close>

definition lab33_items_21 :: pyval where [lab33_contents]:
  \<open>lab33_items_21 =
   PyList
   [PyDict
     [(''title'', PyStr (lit ''ANTI-PATTERN UMUM'')),
      (''items'', PyList
        [PyStr (lit ''Mencampuradukkan semi-sync dengan '' @
            lit ''synchronous: MySQL semi-sync menjamin relay '' @
            lit ''log receipt, bukan apply visibility.''),
         PyStr (lit ''Sticky Duration Terlalu Pendek: T_sticky < '' @
            lit ''p99 lag menyebabkan session masih mengalami '' @
            lit ''stale read selepas jendela.''),
         PyStr (lit ''Tidak Ada Fallback Primary: ReadLagAware '' @
            lit ''tanpa fallback utama menyebabkan total read '' @
            lit ''unavailability saat semua replica lagging.''),
         PyStr (lit ''Ignore LSN pada Cached Reads: Read dari '' @
            lit ''application cache tanpa invalidasi '' @
            lit ''berdasarkan LSN menghasilkan dirty reads '' @ lit ''persisten.''),
         PyStr (lit ''Hardcode Waiting Durasi: Menggunakan '' @
            lit ''time.Sleep statis alih-alih context timeout '' @
            lit ''menyebabkan goroutine leak dan deadlock.'')]),
      (''type'', PyStr (lit ''card''))],
    PyDict
     [(''title'', PyStr (lit ''CARA REPRODUKSI GAGAL DI LAB'')),
      (''items'', PyList
        [PyStr (lit ''1. Ubah router.go ReadLagAware: hapus '' @ lit ''fallback primary '' @
            [0x2192] @ lit '' test TestReplicaLagThreshold_Fallback akan '' @ lit ''fail.''),
         PyStr (lit ''2. Set MaxLSNDiff = 0 '' @ [0x2192] @
            lit '' semua replica terfilter, read selalu '' @
            lit ''fallback primary; throughput read drop '' @ lit ''drastis.''),
         PyStr (lit ''3. Hapus WaitForLSN context timeout '' @ [0x2192] @
            lit '' TestReadWithToken_LSN hanging indefinitely '' @
            lit ''pada replica yang crash.'')]),
      (''type'', PyStr (lit ''card''))]]\<close>

definition lab33_slide_21 :: pycall where [lab33_slides]:
  \<open>lab33_slide_21 =
   \<lparr>posargs = [],
  kwargs =
   [(''categories'', PyList
      [PyStr (lit ''ANTI-PATTERN''),
       PyStr (lit ''REPRODUKSI'')]),
    (''title'', PyStr (lit ''Anti-Pattern: Kesalahan Desain yang Harus '' @ lit ''Dihindari'')),
    (''subtitle'', PyStr (lit ''Kekeliruan arsitektur yang melumpuhkan '' @
        lit ''jaminan keselamatan replication topology.'')),
    (''content_items'', lab33_items_21),
    (''narrative'', PyStr (lit ''Mengabaikan prinsip desain replication '' @
        lit ''topology dapat berakibat fatal bagi '' @
        lit ''availability dan consistency system. '' @
        lit ''Anti-pattern yang paling sering terjadi '' @
        lit ''adalah underestimate durasi sticky window '' @
        lit ''dibanding actual replication lag, '' @
        lit ''menghasilkan false sense of security bagi '' @
        lit ''engineer. Tidak menyertakan fallback '' @
        lit ''primary pada lag-aware routing berarti read '' @
        lit ''operations akan total unavailable ketika '' @
        lit ''semua replica mengalami lag spike simultan. '' @
        lit ''Hardcoding sleep duration alih-alih '' @
        lit ''menggunakan context timeout juga '' @
        lit ''menyebabkan goroutine leakage yang dapat '' @
        lit ''mematikan seluruh cluster worker.'')),
    (''narrative_en'', PyStr (lit ''Violating replication topology design '' @
        lit ''principles compromises both system '' @
        lit ''availability and data consistency. The most '' @
        lit ''common anti-pattern is underestimating '' @
        lit ''sticky window duration relative to actual '' @
        lit ''replication lag, inducing a false sense of '' @
        lit ''security for engineering teams. Omitting '' @
        lit ''primary fallbacks in lag-aware routing '' @
        lit ''guarantees total read unavailability '' @
        lit ''whenever all replicas suffer simultaneous '' @
        lit ''lag spikes. Furthermore, hardcoding sleep '' @
        lit ''durations rather than respecting context '' @
        lit ''timeouts invites severe goroutine leakage '' @
        lit ''that can paralyze cluster workers.'')),
    (''mental_model'', PyStr (lit ''Naive fallbacks and uncalibrated timers '' @
        lit ''turn transient replication lag into '' @ lit ''catastrophic outages.'')),
    (''source_path'', PyStr (lit ''labs/33-read-replicas-and-replication-lag/co'' @
        lit ''ntent/05-key-takeaways.md'')),
    (''slide_num'', PyStr (lit ''21 / 24'')),
    (''layout'', PyStr (lit ''anti-pattern-cards''))]\<rparr>\<close>

definition lab33_items_22 :: pyval where [lab33_contents]:
  \<open>lab33_items_22 =
   PyList
   [PyDict
     [(''title'', PyStr (lit ''PERINTAH VERIFIKASI RESMI'')),
      (''items'', PyList
        [PyStr (lit ''cd labs/33-read-replicas-and-replication-lag''),
         PyStr (lit ''go test -v ./...''),
         PyStr (lit ''go test -race ./...''),
         PyStr (lit ''go run ./cmd/demo'')]),
      (''type'', PyStr (lit ''code''))],
    PyDict
     [(''title'', PyStr (lit ''RINGKASAN METRIK LAB'')),
      (''items'', PyList
        [PyStr (lit ''Test Suite: 7 test cases lulus 100% tanpa '' @
            lit ''kegagalan (2.13s total runtime).''),
         PyStr (lit ''Race Detector: Bersih dari thread '' @
            lit ''contention dan data races (3.98s pass).''),
         PyStr (lit ''Dependencies: Murni Go Standard Library '' @
            lit ''(sync, time, context, atomic) tanpa '' @ lit ''dependensi pihak ketiga.'')]),
      (''type'', PyStr (lit ''bullet''))]]\<close>

definition lab33_slide_22 :: pycall where [lab33_slides]:
  \<open>lab33_slide_22 =
   \<lparr>posargs = [],
  kwargs =
   [(''categories'', PyList
      [PyStr (lit ''PRAKTIS''),
       PyStr (lit ''COMMAND'')]),
    (''title'', PyStr (lit ''Verifikasi Mandiri: Uji & Jalankan Lab'')),
    (''subtitle'', PyStr (lit ''Reproduksi seluruh bukti teknis, benchmark '' @
        lit ''race detector, dan demo interaktif di '' @ lit ''terminal Anda.'')),
    (''content_items'', lab33_items_22),
    (''narrative'', PyStr (lit ''Lab ini dirancang agar dapat diverifikasi '' @
        lit ''secara mandiri dalam hitungan detik di '' @
        lit ''mesin lokal. Seluruh implementasi dibangun '' @
        lit ''murni menggunakan standard library Go tanpa '' @
        lit ''memerlukan server eksternal seperti '' @
        lit ''PostgreSQL atau MySQL. Perintah go test -v '' @
        lit ''mengeksekusi tujuh pengujian komprehensif '' @
        lit ''mulai dari anomali stale read hingga '' @
        lit ''konkurensi race-free. Perintah go test '' @
        lit ''-race memvalidasi keamanan thread di bawah '' @
        lit ''beban 15 goroutine intensif, dan go run '' @
        lit ''./cmd/demo menampilkan demonstrasi terminal '' @
        lit ''interaktif keempat skenario routing.'')),
    (''narrative_en'', PyStr (lit ''This laboratory is engineered for '' @
        lit ''immediate, frictionless local verification '' @
        lit ''within seconds. The entire codebase is '' @
        lit ''implemented with the Go standard library, '' @
        lit ''eliminating external dependencies like '' @
        lit ''PostgreSQL or MySQL instances. Running go '' @
        lit ''test -v executes seven exhaustive test '' @
        lit ''scenarios validating stale read anomalies '' @
        lit ''and race-free concurrency. Executing go '' @
        lit ''test -race proves thread safety under '' @
        lit ''fifteen concurrent goroutines, while go run '' @
        lit ''./cmd/demo delivers an interactive terminal '' @
        lit ''demonstration of all four routing scenarios.'')),
    (''mental_model'', PyStr (lit ''Zero-dependency standard library code '' @
        lit ''enables instant, deterministic peer '' @ lit ''verification.'')),
    (''source_path'', PyStr (lit ''README.md:19-34 '' @ [0x2022] @ lit '' engineering/03-execution-result.md'')),
    (''slide_num'', PyStr (lit ''22 / 24'')),
    (''layout'', PyStr (lit ''command-block''))]\<rparr>\<close>

definition lab33_items_23 :: pyval where [lab33_contents]:
  \<open>lab33_items_23 =
   PyList
   [PyDict
     [(''title'', PyStr (lit ''1. ASINKRONITAS ADALAH KENYATAAN DEFAULT'')),
      (''items'', PyList
        [PyStr (lit ''Replication lag bukan anomali yang harus '' @
            lit ''dihilangkan, melainkan realitas yang harus '' @ lit ''dikelola.''),
         PyStr (lit ''Asumsikan setiap read ke replica berpotensi '' @
            lit ''stale kecuali dibuktikan sebaliknya oleh '' @ lit ''router.'')]),
      (''type'', PyStr (lit ''card''))],
    PyDict
     [(''title'', PyStr (lit ''2. CLOSING MECHANISM ADALAH HAK KLIEN'')),
      (''items'', PyList
        [PyStr (lit ''Aplikasi bertanggung jawab memilih '' @
            lit ''mekanisme penutupan jarak (sticky, token, '' @ lit ''threshold).''),
         PyStr (lit ''Database engine menyediakan primitives '' @
            lit ''(LSN, WAL), tetapi router aplikasi '' @ lit ''menentukan kebijakan.'')]),
      (''type'', PyStr (lit ''card''))],
    PyDict
     [(''title'', PyStr (lit ''3. DEGRADASI EKSPLISIT MENGALAHKAN CRASH '' @ lit ''SENYAP'')),
      (''items'', PyList
        [PyStr (lit ''Fallback ke primary dengan logging '' @
            lit ''terstruktur jauh lebih baik daripada '' @ lit ''menyajikan data basi.''),
         PyStr (lit ''Transparansi status node dan LSN watermark '' @
            lit ''menjaga integritas sistem jangka panjang.'')]),
      (''type'', PyStr (lit ''card''))]]\<close>

definition lab33_slide_23 :: pycall where [lab33_slides]:
  \<open>lab33_slide_23 =
   \<lparr>posargs = [],
  kwargs =
   [(''categories'', PyList
      [PyStr (lit ''PRINSIP''),
       PyStr (lit ''ARSITEKTUR'')]),
    (''title'', PyStr (lit ''Prinsip Arsitektur: Desain untuk '' @ lit ''Asinkronitas'')),
    (''subtitle'', PyStr (lit ''Pelajaran abadi dalam merancang sistem '' @
        lit ''terdistribusi yang tahan terhadap '' @ lit ''replication lag.'')),
    (''content_items'', lab33_items_23),
    (''narrative'', PyStr (lit ''Tiga prinsip arsitektur ini berlaku '' @
        lit ''universal di luar implementasi lab Go ini. '' @
        lit ''Pertama, sadari bahwa asinkronitas adalah '' @
        lit ''default industri dan upaya menghilangkannya '' @
        lit ''secara total akan mengorbankan skalabilitas '' @
        lit ''tulis. Kedua, tempatkan tanggung jawab '' @
        lit ''penutupan replication gap di lapisan '' @
        lit ''aplikasi karena hanya aplikasilah yang '' @
        lit ''memahami konteks konsistensi setiap use '' @
        lit ''case. Ketiga, prioritaskan degradasi '' @
        lit ''eksplisit ke primary dengan observabilitas '' @
        lit ''lengkap dibandingkan membiarkan user '' @
        lit ''menerima data stale secara senyap.'')),
    (''narrative_en'', PyStr (lit ''These three architectural principles '' @
        lit ''transcend this specific Go implementation. '' @
        lit ''First, recognize that asynchronous '' @
        lit ''replication is the industry default, and '' @
        lit ''attempting to eradicate it entirely '' @
        lit ''sacrifices write scalability. Second, place '' @
        lit ''the responsibility for closing replication '' @
        lit ''gaps at the application layer because only '' @
        lit ''the application understands the consistency '' @
        lit ''context of each use case. Third, prioritize '' @
        lit ''explicit degradation to the primary with '' @
        lit ''rich observability over allowing users to '' @
        lit ''silently ingest stale data.'')),
    (''mental_model'', PyStr (lit ''Asynchrony is reality; smart routing '' @
        lit ''bridges the gap between scalability and '' @ lit ''user trust.'')),
    (''source_path'', PyStr (lit ''labs/33-read-replicas-and-replication-lag/co'' @
        lit ''ntent/05-key-takeaways.md'')),
    (''slide_num'', PyStr (lit ''23 / 24'')),
    (''layout'', PyStr (lit ''principles-list''))]\<rparr>\<close>

definition lab33_items_24 :: pyval where [lab33_contents]:
  \<open>lab33_items_24 =
   PyList
   [PyDict
     [(''title'', PyStr (lit ''KOMPONEN ARSITEKTUR LAB'')),
      (''items'', PyList
        [PyStr (lit ''internal/cluster/cluster.go '' @ [0x2014] @
            lit '' Primary-replica simulation, WAL streaming, '' @
            lit ''LSN tracking, & sync/async paths''),
         PyStr (lit ''internal/router/router.go '' @ [0x2014] @
            lit '' Four-strategy read splitter with '' @
            lit ''session-affinity & dynamic lag filtering''),
         PyStr (lit ''tests/replication_test.go '' @ [0x2014] @
            lit '' 7 comprehensive test suites (stale reads, '' @
            lit ''sticky routing, token wait, race-free)''),
         PyStr (lit ''cmd/demo/main.go '' @ [0x2014] @
            lit '' Complete interactive lifecycle '' @
            lit ''demonstration of 4 routing scenarios'')]),
      (''type'', PyStr (lit ''bullet''))],
    PyDict
     [(''title'', PyStr (lit ''VERIFIKASI & REPOSITORI'')),
      (''items'', PyList
        [PyStr (lit ''Commit SHA: '' @ str_prefix 8 lab33_COMMIT_SHA),
         PyStr (lit ''Unit Tests: 7/7 PASS (100% clean, 2.13s)''),
         PyStr (lit ''Race Detector: PASS (zero data race, 3.98s)''),
         PyStr (lit ''Repositori: '' @ lit ''github.com/lukman-ss/software-engineering-la'' @
            lit ''b/tree/main/labs/'' @ lab33_LAB_NO @ lit ''-'' @ lab33_SLUG)]),
      (''type'', PyStr (lit ''bullet''))]]\<close>

definition lab33_slide_24 :: pycall where [lab33_slides]:
  \<open>lab33_slide_24 =
   \<lparr>posargs = [],
  kwargs =
   [(''categories'', PyList
      [PyStr (lit ''CLOSING'')]),
    (''title'', PyStr (lit ''Skalabilitas Baca Terjaga, Konsistensi '' @ lit ''Terjamin.'')),
    (''subtitle'', PyStr []),
    (''content_items'', lab33_items_24),
    (''narrative'', PyStr (lit ''Laboratorium Read Replicas and Replication '' @
        lit ''Lag ini membuktikan secara konkret bahwa '' @
        lit ''dilema klasik antara skalabilitas baca dan '' @
        lit ''konsistensi data dapat dijembatani secara '' @
        lit ''elegan. Melalui kombinasi sticky session '' @
        lit ''routing, causal LSN tokens, dan lag-aware '' @
        lit ''threshold filtering, sistem mampu '' @
        lit ''memaksimalkan offloading query ke replica '' @
        lit ''tanpa mengorbankan garansi '' @
        lit ''read-your-own-writes bagi pengguna. Seluruh '' @
        lit ''kode sumber, dokumentasi arsitektur, dan '' @
        lit ''instruksi verifikasi tersedia lengkap di '' @ lit ''repositori.'')),
    (''narrative_en'', PyStr (lit ''This Read Replicas and Replication Lag '' @
        lit ''laboratory definitively demonstrates that '' @
        lit ''the classic dilemma between read '' @
        lit ''scalability and data consistency can be '' @
        lit ''elegantly reconciled. Through a combination '' @
        lit ''of sticky session routing, causal LSN '' @
        lit ''tokens, and lag-aware threshold filtering, '' @
        lit ''the architecture maximizes read offloading '' @
        lit ''to replicas without compromising '' @
        lit ''read-your-own-writes guarantees for users. '' @
        lit ''Complete source code, design '' @
        lit ''specifications, and verification harnesses '' @
        lit ''are available in the repository.'')),
    (''mental_model'', PyStr (lit ''Replication scales reads; application '' @
        lit ''routing safeguards consistency.'')),
    (''source_path'', PyStr lab33_REPO_URL),
    (''slide_num'', PyStr (lit ''24 / 24'')),
    (''layout'', PyStr (lit ''closing-dark-navy''))]\<rparr>\<close>

definition lab33_calls :: "pycall list" where
  "lab33_calls =
    [lab33_slide_01, lab33_slide_02, lab33_slide_03, lab33_slide_04, lab33_slide_05,
     lab33_slide_06, lab33_slide_07, lab33_slide_08, lab33_slide_09, lab33_slide_10,
     lab33_slide_11, lab33_slide_12, lab33_slide_13, lab33_slide_14, lab33_slide_15,
     lab33_slide_16, lab33_slide_17, lab33_slide_18, lab33_slide_19, lab33_slide_20,
     lab33_slide_21, lab33_slide_22, lab33_slide_23, lab33_slide_24]"

definition lab33_deck :: deck where
  "lab33_deck =
    \<lparr>add_slide = lab33_add_slide, lab_no = lab33_LAB_NO, title_id = lab33_TITLE_ID, calls = lab33_calls\<rparr>"

section \<open>Checks of the calls\<close>

lemma lab33_shapes:
  "\<forall>c \<in> set lab33_calls. shape_of c \<in> set
    [(0, [''categories'', ''title'', ''subtitle'', ''content_items'', ''mental_model'',
      ''source_path'', ''slide_num'', ''narrative'', ''narrative_en'', ''layout'']),
     (0, [''categories'', ''title'', ''subtitle'', ''content_items'', ''narrative'',
      ''narrative_en'', ''mental_model'', ''source_path'', ''slide_num'', ''layout''])]"
  by (simp only: lab33_calls_def lab33_slides shape_eval cong: pyval_opaque)

lemma lab33_calls_ok: "\<forall>c \<in> set lab33_calls. call_ok sig_layout c"
  by (rule calls_ok_by_shapes [OF lab33_shapes])
    (simp add: shape_ok_def param_names_def signature_defs core_params_def)

lemma lab33_labels: "map (\<lambda>c. value_of sig_layout c ''slide_num'') lab33_calls = labels_24"
  by (simp only: lab33_calls_def lab33_slides keyword_eval labels_24_eval cong: pyval_opaque)

lemma lab33_contents_of:
  "map (\<lambda>c. value_of sig_layout c ''content_items'') lab33_calls =
    [lab33_items_01, lab33_items_02, lab33_items_03, lab33_items_04, lab33_items_05,
     lab33_items_06, lab33_items_07, lab33_items_08, lab33_items_09, lab33_items_10,
     lab33_items_11, lab33_items_12, lab33_items_13, lab33_items_14, lab33_items_15,
     lab33_items_16, lab33_items_17, lab33_items_18, lab33_items_19, lab33_items_20,
     lab33_items_21, lab33_items_22, lab33_items_23, lab33_items_24]"
  by (simp only: lab33_calls_def lab33_slides keyword_eval cong: pyval_opaque)

lemma lab33_items: "item_defects sig_layout lab33_calls = []"
  by (simp only: item_defects_def lab33_contents_of)
    (simp add: lab33_contents item_eval cong: pystr_opaque)

end
