(* ===== verification/Deck34.thy ===== *)
theory Deck34
  imports DeckContract
begin

text \<open>
  The publication definition of lab 34, \<^verbatim>\<open>labs/34-chaos-engineering/result/content_def.py\<close>:
  its module constants, every \<open>add_slide\<close> call in order (\<open>lab34_slide_01\<close> is the first),
  and the module as a whole (\<open>lab34_deck\<close>). Long strings are split into pieces that are
  concatenated; a character outside ASCII is its code point.
\<close>

named_theorems lab34_slides \<open>the add_slide calls of lab 34\<close>
named_theorems lab34_contents \<open>their content_items arguments\<close>

definition lab34_OUTPUT_DIR :: pystr where
  \<open>lab34_OUTPUT_DIR = lit ''labs/34-chaos-engineering/result''\<close>

definition lab34_CHROME_BIN :: pystr where
  \<open>lab34_CHROME_BIN = lit ''/Applications/Google '' @ lit ''Chrome.app/Contents/MacOS/Google Chrome''\<close>

definition lab34_REPO_URL :: pystr where
  \<open>lab34_REPO_URL = lit ''https://github.com/lukman-ss/software-engine'' @
    lit ''ering-lab/tree/main/labs/34-chaos-engineerin'' @ lit ''g''\<close>

definition lab34_COMMIT_SHA :: pystr where
  \<open>lab34_COMMIT_SHA = lit ''200fe73bb5e43da154526620201573c7af03cf8e''\<close>

definition lab34_LAB_NO :: pystr where
  \<open>lab34_LAB_NO = lit ''34''\<close>

definition lab34_SLUG :: pystr where
  \<open>lab34_SLUG = lit ''chaos-engineering''\<close>

definition lab34_TITLE_ID :: pystr where
  \<open>lab34_TITLE_ID = lit ''Chaos Engineering & Fault Injection''\<close>

definition lab34_SUBTITLE_ID :: pystr where
  \<open>lab34_SUBTITLE_ID = lit ''Memverifikasi Ketahanan Layanan '' @
    lit ''Terdistribusi Menggunakan Steady-State, '' @
    lit ''Circuit Breaker, dan Auto-Abort''\<close>

definition lab34_TITLE_EN :: pystr where
  \<open>lab34_TITLE_EN = lit ''Chaos Engineering & Fault Injection''\<close>

definition lab34_SUBTITLE_EN :: pystr where
  \<open>lab34_SUBTITLE_EN = lit ''Verifying Distributed System Resilience via '' @
    lit ''Steady-State Metrics, Circuit Breakers, and '' @ lit ''Auto-Abort''\<close>

definition lab34_AUTHOR :: pystr where
  \<open>lab34_AUTHOR = lit ''Lukman / lukman-ss''\<close>

definition lab34_COVER_IMAGE_PATH :: pystr where
  \<open>lab34_COVER_IMAGE_PATH = lit ''labs/34-chaos-engineering/result/image-cover'' @ lit ''/cover_art.jpg''\<close>

definition lab34_DARK_NAVY :: pystr where
  \<open>lab34_DARK_NAVY = lit ''0b1b2d''\<close>

definition lab34_TEAL :: pystr where
  \<open>lab34_TEAL = lit ''087f76''\<close>

definition lab34_CREAM :: pystr where
  \<open>lab34_CREAM = lit ''f4f1e8''\<close>

definition lab34_WHITE :: pystr where
  \<open>lab34_WHITE = lit ''ffffff''\<close>

definition lab34_SLATE :: pystr where
  \<open>lab34_SLATE = lit ''52606b''\<close>

definition lab34_ORANGE :: pystr where
  \<open>lab34_ORANGE = lit ''d97706''\<close>

definition lab34_add_slide :: "pycall \<Rightarrow> pyval list \<Rightarrow> (pyexc, pyval list) res" where
  "lab34_add_slide = add_slide_layout"

definition lab34_items_01 :: pyval where [lab34_contents]:
  \<open>lab34_items_01 =
   PyList
   [PyDict
     [(''type'', PyStr (lit ''cover'')),
      (''title'', PyStr []),
      (''items'', PyList
        [PyStr (lit ''Controlled fault injection: Latency & '' @ lit ''forced error pipeline''),
         PyStr (lit ''Resilience verification: Circuit Breaker '' @
            lit ''state transitions, fallback protection, and '' @
            lit ''auto-abort monitor''),
         PyStr (lit ''Penulis: '' @ lab34_AUTHOR)])]]\<close>

definition lab34_slide_01 :: pycall where [lab34_slides]:
  \<open>lab34_slide_01 =
   \<lparr>posargs = [],
  kwargs =
   [(''categories'', PyList
      [PyStr (lit ''COVER'')]),
    (''title'', PyStr lab34_TITLE_ID),
    (''subtitle'', PyStr lab34_SUBTITLE_ID),
    (''content_items'', lab34_items_01),
    (''mental_model'', PyStr (lit ''Resilience is not an assumption; it is an '' @
        lit ''empirical property proven under controlled '' @ lit ''turbulence.'')),
    (''source_path'', PyStr lab34_REPO_URL),
    (''slide_num'', PyStr (lit ''01 / 24'')),
    (''narrative'', PyStr (lit ''Dalam arsitektur microservices modern, '' @
        lit ''dependensi eksternal seperti payment '' @
        lit ''gateway dan downstream API pasti akan '' @
        lit ''mengalami gangguan latensi atau kegagalan '' @
        lit ''fatal. Tanpa pengujian proaktif, asumsi '' @
        lit ''ketahanan sistem hanyalah ilusi teoretis '' @
        lit ''yang runtuh saat insiden production '' @ lit ''terjadi. Laboratorium ini '' @
        lit ''mengimplementasikan framework Chaos '' @
        lit ''Engineering murni dalam Go untuk '' @
        lit ''membuktikan secara empiris bagaimana '' @
        lit ''kombinasi steady-state monitor, Circuit '' @
        lit ''Breaker, fallback, dan auto-abort blast '' @
        lit ''radius mengisolasi kegagalan tanpa merusak '' @ lit ''metrik pengguna.'')),
    (''narrative_en'', PyStr (lit ''In modern distributed architectures, '' @
        lit ''downstream dependencies such as payment '' @
        lit ''gateways inevitably experience latency '' @
        lit ''spikes and service outages. Without '' @
        lit ''proactive failure testing, architectural '' @
        lit ''resilience remains an untested theoretical '' @
        lit ''hypothesis until production incidents '' @
        lit ''strike. This laboratory implements a pure '' @
        lit ''Go Chaos Engineering framework proving '' @
        lit ''empirically how steady-state monitoring, '' @
        lit ''Circuit Breakers, graceful fallbacks, and '' @
        lit ''automated blast-radius containment isolate '' @
        lit ''faults without degrading end-user '' @ lit ''availability.'')),
    (''layout'', PyStr (lit ''cover''))]\<rparr>\<close>

definition lab34_items_02 :: pyval where [lab34_contents]:
  \<open>lab34_items_02 =
   PyList
   [PyDict
     [(''title'', PyStr (lit ''UNTESTED HYPOTHESIS'')),
      (''items'', PyList
        [PyStr (lit ''Arsitek mengasumsikan timeout dan failover '' @
            lit ''bekerja tanpa pernah mengujinya secara '' @ lit ''sengaja.''),
         PyStr (lit ''Integrasi downstream dianggap selalu '' @
            lit ''beroperasi pada SLA latensi sub-100 '' @ lit ''milidetik normal.''),
         PyStr (lit ''Ketahanan hanya berupa diagram arsitektur '' @
            lit ''pasif di atas kertas tanpa bukti empiris.'')]),
      (''type'', PyStr (lit ''card''))],
    PyDict
     [(''title'', PyStr (lit ''CASCADING THREAD STARVATION'')),
      (''items'', PyList
        [PyStr (lit ''Layanan downstream melambat atau gagal '' @
            lit ''merespons, menahan thread koneksi klien '' @ lit ''pemanggil.''),
         PyStr (lit ''Pool koneksi HTTP/gRPC dan worker thread '' @
            lit ''hulu cepat habis (resource exhaustion).''),
         PyStr (lit ''Satu dependensi non-kritis yang macet '' @
            lit ''melumpuhkan seluruh layanan upstream secara '' @ lit ''berantai.'')]),
      (''type'', PyStr (lit ''card''))],
    PyDict
     [(''title'', PyStr (lit ''RUNAWAY EXPERIMENT RISK'')),
      (''items'', PyList
        [PyStr (lit ''Pengujian chaos yang dilakukan secara '' @
            lit ''serampangan berpotensi merusak seluruh '' @ lit ''basis pengguna.''),
         PyStr (lit ''Tidak adanya tombol pembatalan darurat '' @
            lit ''otomatis saat error rate melonjak tajam.''),
         PyStr (lit ''Blast radius tidak terkendali mengubah '' @
            lit ''pengujian keandalan menjadi pemadaman '' @ lit ''sistem total.'')]),
      (''type'', PyStr (lit ''card''))]]\<close>

definition lab34_slide_02 :: pycall where [lab34_slides]:
  \<open>lab34_slide_02 =
   \<lparr>posargs = [],
  kwargs =
   [(''categories'', PyList
      [PyStr (lit ''MOTIVASI''),
       PyStr (lit ''SYSTEM COLLAPSE'')]),
    (''title'', PyStr (lit ''Masalah Nyata: Ilusi Ketahanan Pasif'')),
    (''subtitle'', PyStr (lit ''Downstream failure yang tidak ditangani '' @
        lit ''memicu cascading failure dan resource '' @ lit ''exhaustion.'')),
    (''content_items'', lab34_items_02),
    (''narrative'', PyStr (lit ''Kelemahan paling umum dalam sistem '' @
        lit ''terdistribusi adalah ilusi bahwa '' @
        lit ''konfigurasi timeout atau failover pasif '' @
        lit ''otomatis menjamin ketersediaan. Saat '' @
        lit ''layanan pihak ketiga seperti gateway '' @
        lit ''pembayaran mengalami freeze jaringan atau '' @
        lit ''lonjakan latensi, request pemanggil '' @
        lit ''menumpuk dan menahan thread sistem hulu. '' @
        lit ''Dalam hitungan detik, seluruh worker pool '' @
        lit ''habis dan memicu cascading failure ke '' @
        lit ''seluruh ekosistem backend. Selain itu, '' @
        lit ''menyuntikkan kegagalan tanpa mekanisme '' @
        lit ''batas dampak (blast radius) justru '' @
        lit ''membahayakan ketersediaan sistem.'')),
    (''narrative_en'', PyStr (lit ''The most critical flaw in distributed '' @
        lit ''systems is the illusion that passive '' @
        lit ''timeout configurations guarantee high '' @
        lit ''availability. When a third-party dependency '' @
        lit ''suffers a network freeze or latency surge, '' @
        lit ''inbound requests stall and hold upstream '' @
        lit ''worker threads hostage. Within seconds, '' @
        lit ''socket pools and execution threads are '' @
        lit ''exhausted, triggering catastrophic '' @
        lit ''cascading failures across the entire '' @
        lit ''cluster. Furthermore, executing chaos '' @
        lit ''experiments without strict blast-radius '' @
        lit ''containment risks transforming test '' @
        lit ''routines into full-blown customer outages.'')),
    (''mental_model'', PyStr (lit ''Passive resilience is untested faith; '' @
        lit ''unmitigated downstream latency starves '' @ lit ''upstream execution pools.'')),
    (''source_path'', PyStr (lit ''labs/34-chaos-engineering/content/01-content'' @ lit ''-brief.md:9-14'')),
    (''slide_num'', PyStr (lit ''02 / 24'')),
    (''layout'', PyStr (lit ''cards''))]\<rparr>\<close>

definition lab34_items_03 :: pyval where [lab34_contents]:
  \<open>lab34_items_03 =
   PyList
   [PyDict
     [(''title'', PyStr (lit ''KODE PEMANGGILAN NAIF'')),
      (''items'', PyList
        [PyStr (lit ''func (c *Client) CallPaymentNaive(ctx '' @
            lit ''context.Context) error {''),
         PyStr (lit ''    // Tidak ada Circuit Breaker atau '' @ lit ''Fallback''),
         PyStr (lit ''    resp, err := '' @ lit ''http.Post("https://pay-gateway/charge", ...)''),
         PyStr (lit ''    if err != nil {''),
         PyStr (lit ''        // Error diteruskan mentah ke hulu; '' @ lit ''user melihat 500''),
         PyStr (lit ''        return err''),
         PyStr (lit ''    }''),
         PyStr (lit ''    return process(resp)''),
         PyStr (lit ''}'')]),
      (''type'', PyStr (lit ''code''))],
    PyDict
     [(''title'', PyStr (lit ''KEGAGALAN FUNDAMENTAL'')),
      (''items'', PyList
        [PyStr (lit ''Blind Re-execution: Klien terus '' @
            lit ''membombardir downstream yang sekarat, '' @ lit ''memperparah downtime.''),
         PyStr (lit ''Mock Deception: Unit test statis menguji '' @
            lit ''mock sukses; tidak pernah menguji latensi '' @
            lit ''dan partial failure.''),
         PyStr (lit ''Absence of Degradation: Tidak ada rute '' @
            lit ''alternatif (fallback queue) saat jalur '' @ lit ''utama terputus.''),
         PyStr (lit ''Metrik Terisolasi: Tim memantau CPU/RAM '' @
            lit ''internal alih-alih metrik kepuasan pengguna '' @ lit ''(error rate).'')]),
      (''type'', PyStr (lit ''bullet''))]]\<close>

definition lab34_slide_03 :: pycall where [lab34_slides]:
  \<open>lab34_slide_03 =
   \<lparr>posargs = [],
  kwargs =
   [(''categories'', PyList
      [PyStr (lit ''ANALISIS''),
       PyStr (lit ''PENDEKATAN NAIF'')]),
    (''title'', PyStr (lit ''Mengapa Penanganan Error Konvensional Gagal?'')),
    (''subtitle'', PyStr (lit ''Pola try-catch sederhana dan mock unit test '' @
        lit ''statis buta terhadap dinamika kegagalan '' @ lit ''terdistribusi.'')),
    (''content_items'', lab34_items_03),
    (''narrative'', PyStr (lit ''Pendekatan naif mengandalkan penanganan '' @
        lit ''error lokal konvensional yang langsung '' @
        lit ''meneruskan kegagalan downstream ke pengguna '' @
        lit ''akhir. Saat gateway eksternal down, setiap '' @
        lit ''request masuk tetap mencoba membuka koneksi '' @
        lit ''HTTP baru, membombardir server yang sedang '' @
        lit ''sekarat dan mempercepat kehabisan socket '' @
        lit ''pemanggil. Unit test tradisional '' @
        lit ''memperparah ilusi ini karena hanya '' @
        lit ''memverifikasi mock objek dengan waktu '' @
        lit ''respons instan. Tanpa pengujian kegagalan '' @
        lit ''dinamis dan jalur degradasi anggun '' @
        lit ''(fallback), pengguna langsung dihadapkan '' @ lit ''pada layar error 500.'')),
    (''narrative_en'', PyStr (lit ''The naive approach relies on conventional '' @
        lit ''error handling that blindly propagates '' @
        lit ''downstream failures directly to end users. '' @
        lit ''When an external gateway falters, every '' @
        lit ''incoming client request continues '' @
        lit ''attempting new HTTP handshakes, battering '' @
        lit ''the failing dependency and exhausting '' @
        lit ''caller sockets. Traditional unit tests '' @
        lit ''exacerbate this false confidence by '' @
        lit ''asserting against instant in-memory mocks. '' @
        lit ''Without dynamic turbulence testing and '' @
        lit ''graceful degradation pathways, any remote '' @
        lit ''outage directly yields HTTP 500 errors to '' @ lit ''customers.'')),
    (''mental_model'', PyStr (lit ''Direct passthrough error handling couples '' @
        lit ''your availability directly to your weakest '' @ lit ''external dependency.'')),
    (''source_path'', PyStr (lit ''labs/34-chaos-engineering/content/02-master-'' @ lit ''draft.md:3-8'')),
    (''slide_num'', PyStr (lit ''03 / 24'')),
    (''layout'', PyStr (lit ''code-bullet''))]\<rparr>\<close>

definition lab34_items_04 :: pyval where [lab34_contents]:
  \<open>lab34_items_04 =
   PyList
   [PyDict
     [(''title'', PyStr (lit ''STRUKTUR METRIK STEADY-STATE'')),
      (''items'', PyList
        [PyStr (lit ''type SteadyStateMetrics struct {''),
         PyStr (lit ''    TotalRequests   uint64 // Total beban '' @ lit ''request masuk''),
         PyStr (lit ''    FailedRequests  uint64 // Jumlah '' @ lit ''kegagalan di sisi klien''),
         PyStr (lit ''    SuccessRequests uint64 // Total '' @
            lit ''transaksi yang berhasil/degraded''),
         PyStr (lit ''}''),
         PyStr [],
         PyStr (lit ''// Evaluasi kesehatan sistem berdasarkan '' @
            lit ''output batas pengguna''),
         PyStr (lit ''func (m *Monitor) IsHealthy() bool {''),
         PyStr (lit ''    if atomic.LoadUint64(&m.totalRequests) '' @
            lit ''< 5 { return true }''),
         PyStr (lit ''    return m.ErrorRate() <= m.maxErrorRate '' @
            lit ''// Ambang batas lab: 25%''),
         PyStr (lit ''}'')]),
      (''type'', PyStr (lit ''code''))],
    PyDict
     [(''title'', PyStr (lit ''4 PILAR KETAHANAN TERUKUR'')),
      (''items'', PyList
        [PyStr (lit ''1. Steady-State Metric: Ukur metrik output '' @
            lit ''pengguna (error rate), bukan kesehatan '' @ lit ''internal node.''),
         PyStr (lit ''2. Empirical Hypothesis: Hipotesiskan bahwa '' @
            lit ''error rate tetap di bawah batas aman meski '' @ lit ''fault aktif.''),
         PyStr (lit ''3. Controlled Injection: Sisipkan fault '' @
            lit ''deterministik (latensi & error) pada titik '' @ lit ''batas integrasi.''),
         PyStr (lit ''4. Automated Abort: Hentikan injeksi '' @
            lit ''seketika saat metrik melanggar threshold '' @
            lit ''untuk melindungi sistem.'')]),
      (''type'', PyStr (lit ''bullet''))]]\<close>

definition lab34_slide_04 :: pycall where [lab34_slides]:
  \<open>lab34_slide_04 =
   \<lparr>posargs = [],
  kwargs =
   [(''categories'', PyList
      [PyStr (lit ''MENTAL MODEL''),
       PyStr (lit ''METRIKA'')]),
    (''title'', PyStr (lit ''Mental Model: Eksperimen Ilmiah & Steady '' @ lit ''State'')),
    (''subtitle'', PyStr (lit ''Chaos engineering bukan merusak sistem, '' @
        lit ''melainkan memverifikasi hipotesis '' @ lit ''stabilitas output.'')),
    (''content_items'', lab34_items_04),
    (''narrative'', PyStr (lit ''Mental model Chaos Engineering dibangun di '' @
        lit ''atas metode ilmiah yang terstruktur. Sistem '' @
        lit ''didefinisikan pertama kali melalui '' @
        lit ''steady-state metric, yaitu indikator '' @
        lit ''kesehatan output sistem dari sudut pandang '' @
        lit ''konsumen akhir (seperti error rate atau '' @
        lit ''transaksi sukses), bukan metrik internal '' @
        lit ''seperti penggunaan memori. Hipotesis '' @ lit ''empiris dirumuskan: '' @
        [39] @ lit ''Meskipun downstream disuntikkan gangguan, '' @
        lit ''sistem mampu menjaga error rate di bawah '' @
        lit ''ambang batas toleransi.'' @ [39] @
        lit '' Jika hipotesis gagal dan batas dilanggar, '' @
        lit ''monitor otomatis membatalkan eksperimen.'')),
    (''narrative_en'', PyStr (lit ''The core mental model of Chaos Engineering '' @
        lit ''is anchored in rigorous scientific '' @
        lit ''experimentation. A system is defined '' @
        lit ''primarily through steady-state output '' @ lit ''metrics'' @ [0x2014] @
        lit ''observing client-facing error rates and '' @
        lit ''transaction completions rather than '' @
        lit ''internal infrastructure telemetry like CPU '' @
        lit ''usage. An empirical hypothesis is '' @ lit ''constructed: '' @ [39] @
        lit ''Even when downstream faults are injected, '' @
        lit ''the architecture maintains error rates '' @
        lit ''below defined safety margins.'' @ [39] @
        lit '' If this hypothesis fails and boundaries '' @
        lit ''breach, monitoring triggers an immediate '' @ lit ''automated abort.'')),
    (''mental_model'', PyStr (lit ''Define steady state on user output; '' @
        lit ''formulate an empirical hypothesis; '' @ lit ''auto-abort on boundary breach.'')),
    (''source_path'', PyStr (lit ''internal/monitor/monitor.go:10-48 '' @ [0x2022] @
        lit '' labs/34-chaos-engineering/content/01-conten'' @ lit ''t-brief.md:12-14'')),
    (''slide_num'', PyStr (lit ''04 / 24'')),
    (''layout'', PyStr (lit ''schema-card''))]\<rparr>\<close>

definition lab34_items_05 :: pyval where [lab34_contents]:
  \<open>lab34_items_05 =
   PyList
   [PyDict
     [(''title'', PyStr (lit ''SEKUENSI PIPELINE EKSPERIMEN CHAOS'')),
      (''items'', PyList
        [PyStr (lit ''1. Client Request masuk ke antarmuka '' @ lit ''Resilient Client.''),
         PyStr (lit ''2. CircuitBreaker memeriksa status '' @
            lit ''internal: CLOSED, OPEN, atau HALF-OPEN.''),
         PyStr (lit ''3. Jika state CLOSED: Request dieksekusi '' @
            lit ''menuju Downstream Service.''),
         PyStr (lit ''4. Downstream melewati Fault Injector '' @
            lit ''(mengevaluasi injeksi latency dan forced '' @ lit ''error).''),
         PyStr (lit ''5. Jika Downstream Error: Circuit Breaker '' @
            lit ''menambah failure counter.''),
         PyStr (lit ''6. Jika Failure >= Threshold: Circuit '' @
            lit ''Breaker trip ke OPEN dan langsung memicu '' @ lit ''Fallback.''),
         PyStr (lit ''7. Graceful Fallback mengembalikan respons '' @
            lit ''alternatif dan mencatat SUKSES pada Monitor.''),
         PyStr (lit ''8. Monitor Ticker secara periodik memeriksa '' @
            lit ''IsHealthy() (ErrorRate <= MaxThreshold).''),
         PyStr (lit ''9. Jika unmitigated error menembus '' @
            lit ''threshold: Experiment runner memicu '' @
            lit ''terminate(ABORTED) & Clear().'')]),
      (''type'', PyStr (lit ''diagram''))]]\<close>

definition lab34_slide_05 :: pycall where [lab34_slides]:
  \<open>lab34_slide_05 =
   \<lparr>posargs = [],
  kwargs =
   [(''categories'', PyList
      [PyStr (lit ''ARSITEKTUR''),
       PyStr (lit ''PIPELINE'')]),
    (''title'', PyStr (lit ''Pipeline Arsitektur: Client Berketahanan & '' @ lit ''Auto-Abort'')),
    (''subtitle'', PyStr (lit ''Alur request'' @ [0x7AEF, 0x5230, 0x7AEF] @ lit '': Client Request '' @
        [0x2192] @ lit '' Circuit Breaker '' @ [0x2192] @ lit '' Fault Injector '' @
        [0x2192] @ lit '' Steady-State Monitor.'')),
    (''content_items'', lab34_items_05),
    (''narrative'', PyStr (lit ''Diagram pipeline ini menunjukkan interaksi '' @
        lit ''dinamis antara pemanggil, pelindung '' @
        lit ''sirkuit, dan instrumen eksperimen. Ketika '' @
        lit ''request masuk, Circuit Breaker menentukan '' @
        lit ''apakah panggilan aman diteruskan. Jalur '' @
        lit ''pemanggilan melewati Fault Injector yang '' @
        lit ''dapat menyisipkan jeda waktu atau '' @
        lit ''memaksakan error secara terprogram. Jika '' @
        lit ''terjadi kegagalan berturut-turut, Circuit '' @
        lit ''Breaker beralih ke state OPEN dan '' @
        lit ''mengalihkan trafik ke fungsi fallback. Pada '' @
        lit ''saat yang sama, steady-state monitor '' @
        lit ''mengevaluasi rasio error; jika terjadi '' @
        lit ''lonjakan tidak termitigasi, runner '' @
        lit ''membatalkan eksperimen seketika.'')),
    (''narrative_en'', PyStr (lit ''This pipeline diagram captures the dynamic '' @
        lit ''interplay between the caller, protective '' @
        lit ''circuit breakers, and chaos orchestration '' @
        lit ''components. Inbound requests pass through '' @
        lit ''the Circuit Breaker to assess execution '' @
        lit ''safety. The invocation route crosses a '' @
        lit ''Fault Injector programmed to simulate '' @
        lit ''network latency or hard errors. If '' @
        lit ''consecutive failures exceed threshold, the '' @
        lit ''breaker trips to OPEN and delegates '' @
        lit ''execution to the graceful fallback routine. '' @
        lit ''Concurrently, the monitor polices error '' @
        lit ''rates, triggering an instant abort if '' @
        lit ''unmitigated faults compromise system '' @ lit ''stability.'')),
    (''mental_model'', PyStr (lit ''Circuit breakers protect upstream '' @
        lit ''resources; steady-state monitors guard the '' @
        lit ''safety of the chaos experiment.'')),
    (''source_path'', PyStr (lit ''labs/34-chaos-engineering/content/04-diagram'' @ lit ''s.md:38-73'')),
    (''slide_num'', PyStr (lit ''05 / 24'')),
    (''layout'', PyStr (lit ''pipeline-diagram''))]\<rparr>\<close>

definition lab34_items_06 :: pyval where [lab34_contents]:
  \<open>lab34_items_06 =
   PyList
   [PyDict
     [(''title'', PyStr (lit ''CIRCUIT BREAKER EXECUTE & FALLBACK ENGINE'')),
      (''items'', PyList
        [PyStr (lit ''func (cb *CircuitBreaker) Execute(fn func() '' @
            lit ''error, fallback func() error) error {''),
         PyStr (lit ''    cb.mu.Lock()''),
         PyStr (lit ''    cb.checkStateLocked() // Cooldown '' @
            lit ''elapsed? Transisi OPEN -> HALF-OPEN''),
         PyStr (lit ''    if cb.state == StateOpen {''),
         PyStr (lit ''        cb.mu.Unlock()''),
         PyStr (lit ''        if fallback != nil { return '' @ lit ''fallback() }''),
         PyStr (lit ''        return ErrCircuitOpen''),
         PyStr (lit ''    }''),
         PyStr (lit ''    cb.mu.Unlock()''),
         PyStr (lit ''    err := fn()''),
         PyStr (lit ''    cb.mu.Lock()''),
         PyStr (lit ''    defer cb.mu.Unlock()''),
         PyStr (lit ''    if err != nil {''),
         PyStr (lit ''        cb.failures++''),
         PyStr (lit ''        if cb.failures >= cb.threshold || '' @
            lit ''cb.state == StateHalfOpen {''),
         PyStr (lit ''            cb.state = StateOpen''),
         PyStr (lit ''            cb.lastStateChg = time.Now()''),
         PyStr (lit ''        }''),
         PyStr (lit ''        if fallback != nil { return '' @ lit ''fallback() }''),
         PyStr (lit ''        return err''),
         PyStr (lit ''    }''),
         PyStr (lit ''    // Eksekusi sukses memulihkan state '' @
            lit ''dari HALF-OPEN ke CLOSED''),
         PyStr (lit ''    if cb.state == StateHalfOpen || '' @
            lit ''cb.state == StateClosed { cb.state = '' @
            lit ''StateClosed; cb.failures = 0 }''),
         PyStr (lit ''    return nil''),
         PyStr (lit ''}'')]),
      (''type'', PyStr (lit ''code''))]]\<close>

definition lab34_slide_06 :: pycall where [lab34_slides]:
  \<open>lab34_slide_06 =
   \<lparr>posargs = [],
  kwargs =
   [(''categories'', PyList
      [PyStr (lit ''IMPLEMENTASI''),
       PyStr (lit ''CODE'')]),
    (''title'', PyStr (lit ''State Machine Circuit Breaker dengan '' @ lit ''Fallback'')),
    (''subtitle'', PyStr (lit ''Eksekusi aman, deteksi threshold, transisi '' @
        lit ''cooldown, dan delegasi fallback di '' @ lit ''circuitbreaker.go.'')),
    (''content_items'', lab34_items_06),
    (''narrative'', PyStr (lit ''Implementasi Circuit Breaker ini adalah '' @
        lit ''inti proteksi terhadap kegagalan '' @
        lit ''downstream. Sebelum mengeksekusi fungsi '' @ lit ''utama '' @ [96] @
        lit ''fn'' @ [96] @ lit '', method memeriksa apakah waktu jeda '' @ [96] @
        lit ''cooldown'' @ [96] @ lit '' telah terlewati untuk mencoba transisi ke '' @
        [96] @ lit ''StateHalfOpen'' @ [96] @
        lit ''. Jika sirkuit dalam keadaan terbuka ('' @ [96] @ lit ''StateOpen'' @ [96] @
        lit ''), panggilan eksternal langsung dilewati '' @
        lit ''(fast-fail) dan dialihkan ke fungsi '' @ [96] @ lit ''fallback'' @ [96] @
        lit ''. Jika fungsi utama menghasilkan error, '' @
        lit ''counter kegagalan dinaikkan hingga memicu '' @
        lit ''pemutusan sirkuit. Sebaliknya, eksekusi '' @
        lit ''sukses pada mode probation mereset sirkuit '' @ lit ''kembali ke '' @ [96] @
        lit ''StateClosed'' @ [96] @ lit ''.'')),
    (''narrative_en'', PyStr (lit ''This Circuit Breaker implementation serves '' @
        lit ''as the primary barrier against downstream '' @
        lit ''service degradation. Prior to executing the '' @ lit ''primary function '' @
        [96] @ lit ''fn'' @ [96] @ lit '', it evaluates whether the cooldown window '' @
        lit ''has elapsed to allow speculative probes '' @ lit ''under '' @ [96] @
        lit ''StateHalfOpen'' @ [96] @ lit ''. If the breaker is OPEN, downstream '' @
        lit ''execution is bypassed immediately '' @
        lit ''(fast-fail) and delegated directly to the '' @
        lit ''fallback closure. If the primary call '' @
        lit ''fails, the failure counter increments '' @
        lit ''toward the trip threshold. Conversely, a '' @
        lit ''successful attempt restores the breaker to '' @ [96] @ lit ''StateClosed'' @
        [96] @ lit ''.'')),
    (''mental_model'', PyStr (lit ''Fast-fail saves upstream threads; graceful '' @
        lit ''fallback preserves downstream business '' @ lit ''continuity.'')),
    (''source_path'', PyStr (lit ''internal/circuitbreaker/circuitbreaker.go:15'' @ lit ''5-195'')),
    (''slide_num'', PyStr (lit ''06 / 24'')),
    (''layout'', PyStr (lit ''code-dominant''))]\<rparr>\<close>

definition lab34_items_07 :: pyval where [lab34_contents]:
  \<open>lab34_items_07 =
   PyList
   [PyDict
     [(''title'', PyStr (lit ''TERMINAL TRACE: AUTO-ABORT PADA VIOLATION'')),
      (''items'', PyList
        [PyStr (lit ''[3] Running Second Chaos Experiment: '' @
            lit ''Unmitigated Downstream Fault (Triggers '' @ lit ''Auto-Abort)...''),
         PyStr (lit ''Raw Call #1 Failed: chaos: injected fault '' @ lit ''failure''),
         PyStr (lit ''Raw Call #2 Failed: chaos: injected fault '' @ lit ''failure''),
         PyStr (lit ''Experiment State: ABORTED''),
         PyStr (lit ''Abort Reason: Steady state breached: error '' @
            lit ''rate 33.33% exceeded threshold''),
         PyStr (lit ''Fault Injector Active: false (Neutralized '' @ lit ''on Abort)''),
         PyStr [],
         PyStr (lit ''[4] Traffic After Experiment Ends / '' @ lit ''Recovery...''),
         PyStr (lit ''Req #16 -> Payment Success (Primary) | CB '' @ lit ''State: CLOSED'')]),
      (''type'', PyStr (lit ''terminal''))],
    PyDict
     [(''title'', PyStr (lit ''ANALISIS KEGAGALAN TERKENDALI'')),
      (''items'', PyList
        [PyStr (lit ''Panggilan raw service tanpa perlindungan '' @
            lit ''Circuit Breaker/Fallback langsung mencatat '' @ lit ''kegagalan.''),
         PyStr (lit ''Setelah 2 kali kegagalan berturut-turut, '' @
            lit ''error rate kumulatif melonjak mencapai '' @ lit ''33.33%.''),
         PyStr (lit ''Threshold keamanan lab (20%) terlampaui; '' @
            lit ''background ticker mendeteksi pelanggaran '' @ lit ''steady-state.''),
         PyStr (lit ''Runner memicu abort darurat dan memanggil '' @
            lit ''injector.Clear() secara sinkron untuk '' @ lit ''memulihkan sistem.'')]),
      (''type'', PyStr (lit ''bullet''))]]\<close>

definition lab34_slide_07 :: pycall where [lab34_slides]:
  \<open>lab34_slide_07 =
   \<lparr>posargs = [],
  kwargs =
   [(''categories'', PyList
      [PyStr (lit ''FAILURE PATH''),
       PyStr (lit ''BLAST RADIUS'')]),
    (''title'', PyStr (lit ''Failure Path: Pemadaman Akibat Unmitigated '' @ lit ''Fault'')),
    (''subtitle'', PyStr (lit ''Ketika fault downstream tidak dimitigasi '' @
        lit ''fallback, steady-state monitor memicu '' @ lit ''auto-abort seketika.'')),
    (''content_items'', lab34_items_07),
    (''narrative'', PyStr (lit ''Failure path ini merekam perilaku sistem '' @
        lit ''ketika gangguan disuntikkan tanpa '' @
        lit ''perlindungan Circuit Breaker dan Fallback. '' @
        lit ''Tanpa mitigasi, dua request downstream '' @ lit ''langsung gagal akibat '' @
        [96] @ lit ''ErrInjectedFault'' @ [96] @
        lit '', mendorong rasio error kumulatif melonjak '' @
        lit ''ke 33.33%, melampaui ambang batas toleransi '' @
        lit ''20%. Background monitor yang berjalan via '' @
        lit ''ticker mendeteksi pelanggaran steady-state '' @
        lit ''ini dalam hitungan milidetik. Eksperimen '' @
        lit ''dihentikan dengan status ABORTED, dan '' @
        lit ''fungsi injector dinetralkan seketika, '' @
        lit ''membuktikan penahanan blast radius bekerja '' @ lit ''sempurna.'')),
    (''narrative_en'', PyStr (lit ''This failure trace documents system '' @
        lit ''behavior when turbulence is injected '' @
        lit ''without the buffer of Circuit Breakers or '' @
        lit ''Fallbacks. Lacking mitigation, two '' @
        lit ''unshielded calls fail instantly from '' @ [96] @ lit ''ErrInjectedFault'' @
        [96] @ lit '', driving cumulative error rates to 33.33% '' @
        lit ''and breaching the 20% safety threshold. The '' @
        lit ''asynchronous background monitor detects '' @
        lit ''this steady-state breach within '' @
        lit ''milliseconds. The experiment runner '' @
        lit ''immediately aborts the run and '' @ lit ''synchronously invokes '' @ [96] @
        lit ''injector.Clear()'' @ [96] @ lit '', proving that blast-radius containment '' @
        lit ''shields system availability.'')),
    (''mental_model'', PyStr (lit ''Unmitigated faults trigger automated '' @
        lit ''aborts, neutralizing injectors before blast '' @ lit ''radius escapes.'')),
    (''source_path'', PyStr (lit ''cmd/demo/main.go:90-125 '' @ [0x2022] @
        lit '' engineering/03-execution-result.md:75-81'')),
    (''slide_num'', PyStr (lit ''07 / 24'')),
    (''layout'', PyStr (lit ''failure-path''))]\<rparr>\<close>

definition lab34_items_08 :: pyval where [lab34_contents]:
  \<open>lab34_items_08 =
   PyList
   [PyDict
     [(''title'', PyStr (lit ''TABEL PERBANDINGAN MEKANISME RESILIENSI'')),
      (''items'', PyList
        [PyStr (lit ''Pendekatan | Mekanisme Proteksi | Gejala '' @
            lit ''Saat Downstream Down | Garansi Ketersediaan''),
         PyStr (lit ''Panggilan Naif | Direct HTTP call tanpa '' @
            lit ''timeout | Resource exhaustion, thread '' @
            lit ''hanging | Buruk (0% ketersediaan)''),
         PyStr (lit ''Timeout Saja | Batas durasi '' @
            lit ''context.WithTimeout | Thread tertahan '' @
            lit ''hingga batas waktu | Sedang (kegagalan '' @ lit ''tetap lolos)''),
         PyStr (lit ''Circuit Breaker | Fast-fail setelah failure '' @
            lit ''threshold | Eksekusi diputus, error cepat | '' @
            lit ''Baik (upstream terlindungi)''),
         PyStr (lit ''CB + Fallback | Fast-fail dialihkan ke rute '' @
            lit ''alternatif | Pengguna menerima hasil '' @
            lit ''terdegradasi | Unggul (error rate 0.00%)''),
         PyStr (lit ''Auto-Abort Monitor | Pemantauan '' @
            lit ''steady-state berkelanjutan | Eksperimen '' @
            lit ''dibatalkan saat bahaya | Mutlak (blast '' @ lit ''radius aman)'')]),
      (''type'', PyStr (lit ''table''))]]\<close>

definition lab34_slide_08 :: pycall where [lab34_slides]:
  \<open>lab34_slide_08 =
   \<lparr>posargs = [],
  kwargs =
   [(''categories'', PyList
      [PyStr (lit ''PERBANDINGAN''),
       PyStr (lit ''MEKANISME'')]),
    (''title'', PyStr (lit ''Mekanisme Ketahanan vs Gejala Kegagalan'')),
    (''subtitle'', PyStr (lit ''Membandingkan efektivitas proteksi '' @
        lit ''arsitektur dalam meredam anomali sistem '' @ lit ''terdistribusi.'')),
    (''content_items'', lab34_items_08),
    (''narrative'', PyStr (lit ''Tabel ini mengevaluasi berbagai lapisan '' @
        lit ''perlindungan sistem dalam menghadapi '' @
        lit ''gangguan downstream. Panggilan naif adalah '' @
        lit ''yang paling rentan karena dapat menahan '' @
        lit ''thread eksekusi hingga memicu pemadaman '' @
        lit ''total. Penambahan timeout mencegah '' @
        lit ''kebocoran thread tak terbatas namun tetap '' @
        lit ''meneruskan error mentah ke pengguna. '' @
        lit ''Circuit Breaker memberikan perlindungan '' @
        lit ''proaktif dengan memutus panggilan ke '' @
        lit ''dependensi bermasalah. Ketika dipadukan '' @
        lit ''dengan Fallback dan Auto-Abort, sistem '' @
        lit ''mencapai ketahanan paripurna: pengguna '' @
        lit ''tetap dilayani dan eksperimen tidak '' @ lit ''membahayakan sistem.'')),
    (''narrative_en'', PyStr (lit ''This comparison matrix evaluates layered '' @
        lit ''architectural defenses against downstream '' @
        lit ''degradation. Naive client invocations '' @
        lit ''represent the highest risk, risking '' @
        lit ''unbounded thread exhaustion and total '' @
        lit ''cluster failure. Timeouts bound thread '' @
        lit ''exposure but continue forwarding raw '' @
        lit ''failures upstream. Circuit Breakers isolate '' @
        lit ''troubled dependencies by failing fast. When '' @
        lit ''paired with graceful fallback routines and '' @
        lit ''automated abort monitors, the topology '' @
        lit ''achieves optimal resilience: end users '' @
        lit ''experience uninterrupted service while '' @
        lit ''chaos experiments remain strictly bounded.'')),
    (''mental_model'', PyStr (lit ''Timeouts protect threads; circuit breakers '' @
        lit ''protect downstream dependencies; fallbacks '' @ lit ''protect users.'')),
    (''source_path'', PyStr (lit ''labs/34-chaos-engineering/content/02-master-'' @ lit ''draft.md:16-26'')),
    (''slide_num'', PyStr (lit ''08 / 24'')),
    (''layout'', PyStr (lit ''comparison-table''))]\<rparr>\<close>

definition lab34_items_09 :: pyval where [lab34_contents]:
  \<open>lab34_items_09 =
   PyList
   [PyDict
     [(''title'', PyStr (lit ''1. STEADY-STATE AT THE BOUNDARY'')),
      (''items'', PyList
        [PyStr (lit ''Pilih metrik output yang dirasakan langsung '' @
            lit ''oleh pengguna akhir (error rate, '' @ lit ''transaction throughput).''),
         PyStr (lit ''Hindari menjadikan metrik internal (CPU, '' @
            lit ''memory, garbage collection time) sebagai '' @ lit ''steady state utama.''),
         PyStr (lit ''Terapkan syarat minimum sampel (contoh: '' @
            lit ''minimal 5 request) sebelum mengevaluasi '' @ lit ''pelanggaran batas.'')]),
      (''type'', PyStr (lit ''card''))],
    PyDict
     [(''title'', PyStr (lit ''2. TWO-PHASE CIRCUIT TRANSITIONS'')),
      (''items'', PyList
        [PyStr (lit ''Konfigurasikan failure threshold terukur '' @
            lit ''untuk memutus sirkuit ke OPEN sebelum '' @ lit ''thread pool jenuh.''),
         PyStr (lit ''Wajib sediakan durasi cooldown sebelum '' @
            lit ''probation (HALF-OPEN) guna menguji '' @ lit ''kesembuhan dependensi.''),
         PyStr (lit ''Gunakan fungsi fallback terpisah untuk '' @
            lit ''menelan error dan menjaga degradasi layanan '' @ lit ''tetap anggun.'')]),
      (''type'', PyStr (lit ''card''))],
    PyDict
     [(''title'', PyStr (lit ''3. SYNCHRONOUS INJECTOR NEUTRALIZATION'')),
      (''items'', PyList
        [PyStr (lit ''Experiment runner wajib mengikat ticker '' @
            lit ''pemantau dengan mekanisme pembatalan '' @ lit ''konteks.''),
         PyStr (lit ''Panggil injector.Clear() secara sinkron di '' @
            lit ''dalam fungsi terminate() pada status '' @ lit ''ABORTED atau COMPLETED.''),
         PyStr (lit ''Pastikan pembersihan fault tidak terblokir '' @
            lit ''oleh goroutine lain untuk mencegah '' @ lit ''kebocoran gangguan.'')]),
      (''type'', PyStr (lit ''card''))]]\<close>

definition lab34_slide_09 :: pycall where [lab34_slides]:
  \<open>lab34_slide_09 =
   \<lparr>posargs = [],
  kwargs =
   [(''categories'', PyList
      [PyStr (lit ''DESIGN DECISION''),
       PyStr (lit ''ARSITEKTUR'')]),
    (''title'', PyStr (lit ''3 Keputusan Desain Kritis Chaos Engineering'')),
    (''subtitle'', PyStr (lit ''Urutan keputusan teknis untuk membangun '' @
        lit ''framework eksperimen kegagalan yang aman '' @ lit ''dan deterministik.'')),
    (''content_items'', lab34_items_09),
    (''narrative'', PyStr (lit ''Membangun sistem pengujian chaos yang andal '' @
        lit ''menuntut tiga keputusan arsitektural '' @
        lit ''penting. Pertama, metrik steady-state wajib '' @
        lit ''didefinisikan pada batas pengalaman '' @
        lit ''pengguna akhir, bukan pada telemetri '' @
        lit ''internal server, dengan batas sampel '' @
        lit ''minimum agar tidak memicu alarm palsu. '' @
        lit ''Kedua, Circuit Breaker harus '' @
        lit ''mengimplementasikan transisi dua fase yang '' @
        lit ''jelas (termasuk fase probasi Half-Open) '' @
        lit ''serta mendukung fungsi fallback. Ketiga, '' @
        lit ''penetralan alat injeksi harus dieksekusi '' @
        lit ''secara sinkron dan instan saat terjadi '' @ lit ''pembatalan darurat.'')),
    (''narrative_en'', PyStr (lit ''Engineering a reliable chaos testing '' @
        lit ''harness demands three foundational '' @
        lit ''architectural decisions. First, '' @
        lit ''steady-state metrics must be measured at '' @
        lit ''the consumer boundary rather than through '' @
        lit ''internal node telemetry, backed by minimum '' @
        lit ''sample thresholds to prevent spurious '' @
        lit ''alerts. Second, the Circuit Breaker must '' @
        lit ''follow a disciplined three-state machine '' @
        lit ''featuring an intermediate Half-Open probe '' @
        lit ''and first-class fallback integration. '' @
        lit ''Third, injector neutralization must occur '' @
        lit ''synchronously during emergency abort '' @
        lit ''routines to eliminate fault leakage.'')),
    (''mental_model'', PyStr (lit ''Measure user outcomes, decouple failing '' @
        lit ''paths via breakers, and guarantee '' @ lit ''synchronous fault teardown.'')),
    (''source_path'', PyStr (lit ''labs/34-chaos-engineering/content/05-key-tak'' @ lit ''eaways.md:1-10'')),
    (''slide_num'', PyStr (lit ''09 / 24'')),
    (''layout'', PyStr (lit ''decision-cards''))]\<rparr>\<close>

definition lab34_items_10 :: pyval where [lab34_contents]:
  \<open>lab34_items_10 =
   PyList
   [PyDict
     [(''title'', PyStr (lit ''HASIL EKSEKUSI DEMO LENGKAP'')),
      (''items'', PyList
        [PyStr (lit ''=== Chaos Engineering & Fault Injection '' @ lit ''Demo ===''),
         PyStr (lit ''[1] Baseline Steady-State Traffic (Normal '' @ lit ''Operation)...''),
         PyStr (lit ''Req #1 -> Payment Success (Primary) | CB '' @ lit ''State: CLOSED''),
         PyStr (lit ''Req #5 -> Payment Success (Primary) | CB '' @ lit ''State: CLOSED''),
         PyStr (lit ''[2] Running Chaos Experiment: Injecting '' @
            lit ''Downstream Failures with Resilient Client...''),
         PyStr (lit ''Req #6 -> Payment Queued (Fallback) | CB '' @ lit ''State: CLOSED''),
         PyStr (lit ''Req #8 -> Payment Queued (Fallback) | CB '' @ lit ''State: OPEN''),
         PyStr (lit ''Req #15 -> Payment Queued (Fallback) | CB '' @ lit ''State: OPEN''),
         PyStr (lit ''Experiment State: COMPLETED''),
         PyStr (lit ''Steady-State Metrics with Fallback: '' @
            lit ''Total=15, Success=15, Failed=0, '' @ lit ''ErrorRate=0.00%''),
         PyStr (lit ''[3] Running Second Chaos Experiment: '' @
            lit ''Unmitigated Downstream Fault (Triggers '' @ lit ''Auto-Abort)...''),
         PyStr (lit ''Raw Call #1 Failed: chaos: injected fault '' @ lit ''failure''),
         PyStr (lit ''Experiment State: ABORTED''),
         PyStr (lit ''Abort Reason: Steady state breached: error '' @
            lit ''rate 33.33% exceeded threshold''),
         PyStr (lit ''Fault Injector Active: false (Neutralized '' @ lit ''on Abort)''),
         PyStr (lit ''[4] Traffic After Experiment Ends / '' @ lit ''Recovery...''),
         PyStr (lit ''Req #16 -> Payment Success (Primary) | CB '' @ lit ''State: CLOSED''),
         PyStr (lit ''=== Demo Complete ==='')]),
      (''type'', PyStr (lit ''terminal''))]]\<close>

definition lab34_slide_10 :: pycall where [lab34_slides]:
  \<open>lab34_slide_10 =
   \<lparr>posargs = [],
  kwargs =
   [(''categories'', PyList
      [PyStr (lit ''BUKTI''),
       PyStr (lit ''DEMO'')]),
    (''title'', PyStr (lit ''Bukti Eksekusi: Siklus Lengkap Eksperimen '' @ lit ''Chaos'')),
    (''subtitle'', PyStr (lit ''Output terminal dari go run ./cmd/demo '' @
        lit ''memperlihatkan baseline, fallback, '' @ lit ''auto-abort, dan recovery.'')),
    (''content_items'', lab34_items_10),
    (''narrative'', PyStr (lit ''Bukti eksekusi terminal ini mengonfirmasi '' @
        lit ''keempat fase eksperimen berjalan sesuai '' @
        lit ''rancangan. Fase 1 membuktikan baseline '' @
        lit ''operasi normal berjalan sukses pada state '' @
        lit ''CLOSED. Pada Fase 2, injeksi fault '' @
        lit ''downstream ditahan sempurna oleh Resilient '' @
        lit ''Client; setelah 3 kegagalan awal, Circuit '' @
        lit ''Breaker membuka (OPEN) dan mengalihkan 10 '' @ lit ''request ke fallback ('' @
        [39] @ lit ''Payment Queued'' @ [39] @
        lit ''), menjaga error rate pengguna tetap 0.00%. '' @
        lit ''Fase 3 membuktikan bahwa pemanggilan tanpa '' @
        lit ''mitigasi memicu auto-abort seketika saat '' @
        lit ''error rate mencapai 33.33%, diikuti oleh '' @
        lit ''pemulihan penuh pada Fase 4.'')),
    (''narrative_en'', PyStr (lit ''This terminal trace verifies that all four '' @
        lit ''experiment phases execute precisely as '' @
        lit ''designed. Phase 1 demonstrates normal '' @
        lit ''baseline execution operating stably in the '' @
        lit ''CLOSED state. In Phase 2, downstream '' @
        lit ''turbulence is absorbed seamlessly by the '' @
        lit ''Resilient Client; after three initial '' @
        lit ''downstream errors, the breaker trips to '' @
        lit ''OPEN, routing all requests to fallback ('' @ [39] @ lit ''Payment Queued'' @
        [39] @ lit '') and preserving a 0.00% user error rate. '' @
        lit ''Phase 3 proves that unmitigated traffic '' @
        lit ''triggers an immediate auto-abort when error '' @
        lit ''rates breach 33.33%, followed by pristine '' @ lit ''recovery in Phase 4.'')),
    (''mental_model'', PyStr (lit ''Empirical execution proves resilience: zero '' @
        lit ''user-facing errors with fallback, immediate '' @ lit ''abort without it.'')),
    (''source_path'', PyStr (lit ''cmd/demo/main.go:50-135 '' @ [0x2022] @
        lit '' engineering/03-execution-result.md:50-90'')),
    (''slide_num'', PyStr (lit ''10 / 24'')),
    (''layout'', PyStr (lit ''terminal-output''))]\<rparr>\<close>

definition lab34_items_11 :: pyval where [lab34_contents]:
  \<open>lab34_items_11 =
   PyList
   [PyDict
     [(''title'', PyStr (lit ''YANG TIDAK DIBUKTIKAN'')),
      (''items'', PyList
        [PyStr (lit ''Injeksi fault dilakukan in-memory Go murni; '' @
            lit ''tidak membuktikan simulasi network packet '' @
            lit ''loss atau kernel drop riil.''),
         PyStr (lit ''Steady-state monitor menggunakan akumulator '' @
            lit ''total kumulatif; bukan sliding time window '' @
            lit ''(misal 1 menit terakhir).''),
         PyStr (lit ''Ambang batas error rate (20%, 25%) dan '' @
            lit ''durasi cooldown (50ms, 200ms) adalah '' @
            lit ''parameter lab, bukan tuning produksi.''),
         PyStr (lit ''Eksperimen tidak menguji latensi persentil '' @
            lit ''p99 dinamis atau degradasi parsial berbasis '' @
            lit ''tracing terdistribusi.''),
         PyStr (lit ''Tidak mencakup canary request routing '' @
            lit ''bertahap (1% -> 5% -> 100%) atau automated '' @
            lit ''rollback berbasis eBPF/service mesh.''),
         PyStr (lit ''Field errorRate di injector.go tidak aktif; '' @
            lit ''pengujian murni menggunakan flag '' @ lit ''deterministik forceError.'')]),
      (''type'', PyStr (lit ''bullet''))]]\<close>

definition lab34_slide_11 :: pycall where [lab34_slides]:
  \<open>lab34_slide_11 =
   \<lparr>posargs = [],
  kwargs =
   [(''categories'', PyList
      [PyStr (lit ''BATASAN''),
       PyStr (lit ''ANALISIS'')]),
    (''title'', PyStr (lit ''YANG TIDAK DIBUKTIKAN'')),
    (''subtitle'', PyStr (lit ''Batasan ruang lingkup laboratorium yang '' @
        lit ''wajib dipahami sebelum implementasi '' @ lit ''produksi berskala besar.'')),
    (''content_items'', lab34_items_11),
    (''narrative'', PyStr (lit ''Meskipun laboratorium ini berhasil '' @
        lit ''membuktikan prinsip-prinsip fundamental '' @
        lit ''Chaos Engineering, terdapat batasan ketat '' @
        lit ''yang harus digarisbawahi. Injeksi kegagalan '' @
        lit ''disimulasikan secara in-memory menggunakan '' @
        lit ''channel dan error buatan, bukan manipulasi '' @
        lit ''soket jaringan tingkat rendah via iptables '' @
        lit ''atau Chaos Mesh. Metrik error rate dihitung '' @
        lit ''secara kumulatif sederhana tanpa sliding '' @
        lit ''window, sehingga histori lama mempengaruhi '' @
        lit ''rasio saat ini. Selain itu, nilai ambang '' @
        lit ''batas waktu dan error dirancang khusus '' @
        lit ''untuk kenyamanan eksekusi test dan bukan '' @
        lit ''merupakan rekomendasi default di sistem '' @ lit ''live.'')),
    (''narrative_en'', PyStr (lit ''While this lab successfully validates core '' @
        lit ''Chaos Engineering mechanics, its '' @
        lit ''architectural boundaries must be explicitly '' @
        lit ''noted. Fault injection operates purely '' @
        lit ''in-memory via timer channels and synthetic '' @
        lit ''Go errors, rather than low-level network '' @
        lit ''packet drop simulations via iptables or '' @
        lit ''Envoy proxies. The steady-state monitor '' @
        lit ''aggregates cumulative request counters '' @
        lit ''rather than computing a sliding time '' @
        lit ''window. Furthermore, test thresholds and '' @
        lit ''cooldown intervals were tailored for rapid '' @
        lit ''execution and should not be treated as '' @ lit ''production baselines.'')),
    (''mental_model'', PyStr (lit ''Acknowledge lab boundaries: in-memory '' @
        lit ''simulation proves logic; production '' @
        lit ''requires sliding windows and mesh routing.'')),
    (''source_path'', PyStr (lit ''labs/34-chaos-engineering/content/01-content'' @ lit ''-brief.md:40-46 '' @
        [0x2022] @ lit '' engineering-audit/06-verdict.md:40-42'')),
    (''slide_num'', PyStr (lit ''11 / 24'')),
    (''layout'', PyStr (lit ''constraints-list''))]\<rparr>\<close>

definition lab34_items_12 :: pyval where [lab34_contents]:
  \<open>lab34_items_12 =
   PyList
   [PyDict
     [(''title'', PyStr (lit ''KEUNTUNGAN RESILIENSI'')),
      (''items'', PyList
        [PyStr (lit ''Availability Terjaga: Pengguna tidak '' @
            lit ''menerima error mentah saat dependensi utama '' @ lit ''terganggu.''),
         PyStr (lit ''Blast Radius Terisolasi: Circuit Breaker '' @
            lit ''menghentikan pemborosan thread dan soket '' @
            lit ''jaringan secara instan.''),
         PyStr (lit ''Kepercayaan Empiris: Perilaku failover '' @
            lit ''terverifikasi secara berkala sebelum '' @ lit ''menjadi insiden darurat.'')]),
      (''type'', PyStr (lit ''bullet''))],
    PyDict
     [(''title'', PyStr (lit ''KONSEKUENSI & BIAYA SISTEM'')),
      (''items'', PyList
        [PyStr (lit ''Eventual Consistency Burden: Fallback '' @
            lit ''berbasis antrean (queue) menuntut '' @
            lit ''rekonsiliasi state asinkron lanjutan.''),
         PyStr (lit ''Stale Data Risk: Fallback berbasis cache '' @
            lit ''lokal berpotensi menyajikan data yang tidak '' @ lit ''mutakhir.''),
         PyStr (lit ''Blast Radius Overhead: Pemantauan '' @
            lit ''steady-state berkala memerlukan alokasi CPU '' @
            lit ''untuk polling metrik.''),
         PyStr (lit ''Fallback Complexity: Jalur fallback itu '' @
            lit ''sendiri harus diuji agar tidak menjadi '' @
            lit ''titik kegagalan kedua (secondary crash).'')]),
      (''type'', PyStr (lit ''bullet''))]]\<close>

definition lab34_slide_12 :: pycall where [lab34_slides]:
  \<open>lab34_slide_12 =
   \<lparr>posargs = [],
  kwargs =
   [(''categories'', PyList
      [PyStr (lit ''TRADE-OFF''),
       PyStr (lit ''ARSITEKTUR'')]),
    (''title'', PyStr (lit ''Trade-off Arsitektur: Fallback vs Beban '' @ lit ''Sistem'')),
    (''subtitle'', PyStr (lit ''Menimbang implikasi operasional dari '' @
        lit ''graceful degradation dan pengujian chaos '' @ lit ''otomatis.'')),
    (''content_items'', lab34_items_12),
    (''narrative'', PyStr (lit ''Penerapan arsitektur berketahanan menuntut '' @
        lit ''pertimbangan trade-off yang matang antara '' @
        lit ''ketersediaan antarmuka dan konsistensi '' @
        lit ''data. Graceful degradation melalui antrean '' @
        lit ''fallback memastikan transaksi pengguna '' @
        lit ''tetap diterima, namun memindahkan beban ke '' @
        lit ''sistem pemrosesan latar belakang yang harus '' @
        lit ''menangani rekonsiliasi data asinkron. Jika '' @
        lit ''fallback menggunakan data cache, pengguna '' @
        lit ''berisiko melihat data usang. Selain itu, '' @
        lit ''jalur fallback itu sendiri harus '' @
        lit ''diperlakukan sebagai kode produksi kritis '' @
        lit ''yang wajib diuji agar tidak memicu '' @ lit ''kegagalan sekunder.'')),
    (''narrative_en'', PyStr (lit ''Architecting resilient systems introduces '' @
        lit ''nuanced trade-offs between immediate '' @
        lit ''availability and eventual consistency. '' @
        lit ''Implementing graceful degradation via '' @
        lit ''queuing mechanisms preserves user '' @
        lit ''interactions, yet shifts operational burden '' @
        lit ''onto background reconciliation workers. '' @
        lit ''When fallback relies on local caches, '' @
        lit ''callers risk consuming stale reads. '' @
        lit ''Moreover, fallback handlers represent '' @
        lit ''critical production execution paths that '' @
        lit ''must be thoroughly validated to ensure they '' @
        lit ''do not become single points of secondary '' @ lit ''failure.'')),
    (''mental_model'', PyStr (lit ''Fallbacks preserve immediate availability '' @
        lit ''at the cost of eventual data reconciliation '' @ lit ''complexity.'')),
    (''source_path'', PyStr (lit ''labs/34-chaos-engineering/content/02-master-'' @ lit ''draft.md:19-21 '' @
        [0x2022] @ lit '' research/05-report.md'')),
    (''slide_num'', PyStr (lit ''12 / 24'')),
    (''layout'', PyStr (lit ''tradeoff''))]\<rparr>\<close>

definition lab34_items_13 :: pyval where [lab34_contents]:
  \<open>lab34_items_13 =
   PyList
   [PyDict
     [(''title'', PyStr (lit ''KODE TEST STRES KONKURENSI'')),
      (''items'', PyList
        [PyStr (lit ''func TestConcurrencyAndRace(t *testing.T) {''),
         PyStr (lit ''    inj := fault.NewInjector(); mon := '' @
            lit ''monitor.NewMonitor(0.50)''),
         PyStr (lit ''    cb := circuitbreaker.NewCircuitBreaker(5'' @
            lit '', 20*time.Millisecond)''),
         PyStr (lit ''    var wg sync.WaitGroup; workers := 20; '' @ lit ''iterations := 50''),
         PyStr (lit ''    for i := 0; i < workers; i++ {''),
         PyStr (lit ''        wg.Add(1)''),
         PyStr (lit ''        go func(id int) {''),
         PyStr (lit ''            defer wg.Done()''),
         PyStr (lit ''            for j := 0; j < iterations; j++ '' @ lit ''{''),
         PyStr (lit ''                if id%2 == 0 { '' @
            lit ''inj.SetFault(time.Microsecond, true) } else '' @ lit ''{ inj.Clear() }''),
         PyStr (lit ''                _ = cb.Execute(func() error '' @
            lit ''{ return inj.Execute(context.Background()) '' @ lit ''},''),
         PyStr (lit ''                               func() error '' @ lit ''{ return nil })''),
         PyStr (lit ''                mon.RecordSuccess(); _ = '' @ lit ''mon.IsHealthy()''),
         PyStr (lit ''            }''),
         PyStr (lit ''        }(i)''),
         PyStr (lit ''    }''),
         PyStr (lit ''    wg.Wait()''),
         PyStr (lit ''}'')]),
      (''type'', PyStr (lit ''code''))],
    PyDict
     [(''title'', PyStr (lit ''HASIL VERIFIKASI THREAD-SAFETY'')),
      (''items'', PyList
        [PyStr (lit ''Race Detector: PASS (1.481 detik pengujian '' @
            lit ''bersih tanpa data race).''),
         PyStr (lit ''Primitive Mutex: RWMutex pada Injector dan '' @
            lit ''Mutex pada Circuit Breaker mengisolasi '' @ lit ''state mutasi.''),
         PyStr (lit ''Atomic Counting: Monitor menggunakan '' @
            lit ''sync/atomic uint64 untuk pembaruan metrik '' @
            lit ''tanpa contention lock.'')]),
      (''type'', PyStr (lit ''bullet''))]]\<close>

definition lab34_slide_13 :: pycall where [lab34_slides]:
  \<open>lab34_slide_13 =
   \<lparr>posargs = [],
  kwargs =
   [(''categories'', PyList
      [PyStr (lit ''CONCURRENCY''),
       PyStr (lit ''RACE CONDITIONS'')]),
    (''title'', PyStr (lit ''Validasi Konkurensi: 20 Worker di Bawah '' @ lit ''Beban Chaos'')),
    (''subtitle'', PyStr (lit ''TestConcurrencyAndRace membuktikan '' @
        lit ''sinkronisasi thread-safe bebas race '' @
        lit ''condition dengan go test -race.'')),
    (''content_items'', lab34_items_13),
    (''narrative'', PyStr (lit ''Uji konkurensi intensif dijalankan untuk '' @
        lit ''membuktikan ketahanan komponen di bawah '' @
        lit ''kondisi perebutan thread yang ekstrem. '' @
        lit ''Sebanyak 20 goroutine secara paralel '' @
        lit ''melakukan 50 iterasi operasi mutasi fault ('' @ [96] @ lit ''SetFault'' @
        [96] @ lit '' dan '' @ [96] @ lit ''Clear'' @ [96] @
        lit ''), eksekusi Circuit Breaker, dan pencatatan '' @
        lit ''metrik steady-state. Penggunaan '' @ [96] @ lit ''sync/atomic'' @ [96] @
        lit '' pada struct Monitor dan '' @ [96] @ lit ''sync.Mutex'' @ [96] @
        lit '' pada Circuit Breaker menjamin konsistensi '' @
        lit ''data memori. Pengujian dengan flag '' @ [96] @ lit ''-race'' @ [96] @
        lit '' pada Go compiler membuktikan seluruh '' @
        lit ''sistem 100% bebas dari data race.'')),
    (''narrative_en'', PyStr (lit ''Rigorous concurrency stress testing '' @
        lit ''verifies component resilience under extreme '' @
        lit ''thread contention. Twenty concurrent '' @
        lit ''goroutines execute 50 iterations each, '' @
        lit ''simultaneously toggling faults via '' @ [96] @ lit ''SetFault'' @ [96] @
        lit '' and '' @ [96] @ lit ''Clear'' @ [96] @
        lit '', dispatching requests through the Circuit '' @
        lit ''Breaker, and recording steady-state '' @ lit ''metrics. Combining '' @ [96] @
        lit ''sync/atomic'' @ [96] @ lit '' primitives inside Monitor with exclusive '' @
        lit ''mutex locks inside CircuitBreaker '' @
        lit ''eliminates shared memory corruption. '' @ lit ''Running Go'' @ [39] @
        lit ''s race detector flags zero race conditions '' @
        lit ''across 1,000 concurrent cycles.'')),
    (''mental_model'', PyStr (lit ''Atomic metric updates paired with explicit '' @
        lit ''mutex state barriers guarantee zero race '' @ lit ''conditions.'')),
    (''source_path'', PyStr (lit ''tests/chaos_test.go:156-189 '' @ [0x2022] @
        lit '' engineering/03-execution-result.md:35-42'')),
    (''slide_num'', PyStr (lit ''13 / 24'')),
    (''layout'', PyStr (lit ''concurrency-flow''))]\<rparr>\<close>

definition lab34_items_14 :: pyval where [lab34_contents]:
  \<open>lab34_items_14 =
   PyList
   [PyDict
     [(''title'', PyStr (lit ''BEFORE (Arsitektur Pasif)'')),
      (''items'', PyList
        [PyStr (lit ''Pola Integrasi: Panggilan langsung tanpa '' @
            lit ''Circuit Breaker atau pembatasan kegagalan.''),
         PyStr (lit ''Reaksi Downstream: Thread pemanggil membeku '' @
            lit ''saat downstream mengalami lonjakan latensi.''),
         PyStr (lit ''Dampak Kegagalan: Resource exhaustion, '' @
            lit ''lonjakan HTTP 500 mentah pada sisi pengguna.''),
         PyStr (lit ''Validasi Ketahanan: Mengandalkan asumsi '' @
            lit ''teoritis dan mock unit test statis yang '' @ lit ''dangkal.'')]),
      (''type'', PyStr (lit ''card''))],
    PyDict
     [(''title'', PyStr (lit ''AFTER (Chaos-Engineered Architecture)'')),
      (''items'', PyList
        [PyStr (lit ''Pola Integrasi: Dibungkus Circuit Breaker '' @
            lit ''dengan rute fallback graceful degradation.''),
         PyStr (lit ''Reaksi Downstream: Fast-fail otomatis '' @
            lit ''memutus sirkuit dan menyajikan respons '' @
            lit ''alternatif terdegradasi.''),
         PyStr (lit ''Dampak Kegagalan: Error rate pengguna '' @
            lit ''bertahan di 0.00% meski downstream '' @ lit ''mengalami outage.''),
         PyStr (lit ''Validasi Ketahanan: Dibuktikan empiris via '' @
            lit ''injeksi fault terkontrol dan monitor '' @ lit ''auto-abort.'')]),
      (''type'', PyStr (lit ''card''))]]\<close>

definition lab34_slide_14 :: pycall where [lab34_slides]:
  \<open>lab34_slide_14 =
   \<lparr>posargs = [],
  kwargs =
   [(''categories'', PyList
      [PyStr (lit ''BEFORE/AFTER''),
       PyStr (lit ''ARSITEKTUR'')]),
    (''title'', PyStr (lit ''Before vs After: Evolusi Ketahanan Sistem'')),
    (''subtitle'', PyStr (lit ''Transformasi dari ketergantungan downstream '' @
        lit ''yang rapuh menuju arsitektur berketahanan '' @ lit ''teruji.'')),
    (''content_items'', lab34_items_14),
    (''narrative'', PyStr (lit ''Perbandingan before-after ini '' @
        lit ''mengilustrasikan pergeseran paradigma dari '' @
        lit ''asumsi ketahanan pasif menuju ketahanan '' @
        lit ''aktif yang terbukti empiris. Sebelum '' @
        lit ''perbaikan, sistem sangat rentan terhadap '' @
        lit ''gangguan eksternal karena ketiadaan isolasi '' @
        lit ''kegagalan langsung melumpuhkan thread '' @
        lit ''pemanggil dan memunculkan error 500 ke '' @
        lit ''pengguna. Setelah menerapkan pola Chaos '' @
        lit ''Engineering dengan Circuit Breaker dan '' @
        lit ''Fallback, kegagalan dependensi diisolasi '' @
        lit ''secara instan. Hasilnya, metrik '' @
        lit ''ketersediaan pengguna tetap sempurna bahkan '' @
        lit ''di tengah disrupsi downstream total.'')),
    (''narrative_en'', PyStr (lit ''This before-and-after comparison highlights '' @
        lit ''the architectural paradigm shift from '' @
        lit ''passive resilience assumptions to '' @
        lit ''empirical, self-healing topologies. Prior '' @
        lit ''to adopting these patterns, systems '' @
        lit ''remained fragile; unshielded downstream '' @
        lit ''outages exhausted caller threads and '' @
        lit ''propagated raw 500 errors to customers. '' @
        lit ''Adopting chaos-engineered defenses with '' @
        lit ''Circuit Breakers and Fallbacks isolates '' @
        lit ''failure domains instantly. As a result, '' @
        lit ''consumer availability metrics remain stable '' @
        lit ''at 100% even during total remote dependency '' @ lit ''outages.'')),
    (''mental_model'', PyStr (lit ''Before: fragile direct coupling. After: '' @
        lit ''decoupled execution with circuit protection '' @
        lit ''and graceful fallbacks.'')),
    (''source_path'', PyStr (lit ''labs/34-chaos-engineering/content/02-master-'' @ lit ''draft.md:3-26'')),
    (''slide_num'', PyStr (lit ''14 / 24'')),
    (''layout'', PyStr (lit ''before-after''))]\<rparr>\<close>

definition lab34_items_15 :: pyval where [lab34_contents]:
  \<open>lab34_items_15 =
   PyList
   [PyDict
     [(''title'', PyStr (lit ''KODE TEST INJEKTOR GANGGUAN'')),
      (''items'', PyList
        [PyStr (lit ''func TestFaultInjector(t *testing.T) {''),
         PyStr (lit ''    fi := fault.NewInjector(); ctx := '' @ lit ''context.Background()''),
         PyStr (lit ''    // Verifikasi awal: default disabled''),
         PyStr (lit ''    if err := fi.Execute(ctx); err != nil { '' @ lit ''t.Fatalf("...") }''),
         PyStr (lit ''    // Injeksi latensi 10ms dan '' @ lit ''forceError=true''),
         PyStr (lit ''    fi.SetFault(10*time.Millisecond, true)''),
         PyStr (lit ''    start := time.Now(); err := '' @
            lit ''fi.Execute(ctx); elapsed := '' @ lit ''time.Since(start)''),
         PyStr (lit ''    if !errors.Is(err, '' @
            lit ''fault.ErrInjectedFault) || elapsed < '' @ lit ''10*time.Millisecond {''),
         PyStr (lit ''        t.Fatalf("injeksi gagal memenuhi '' @
            lit ''syarat latensi atau error")''),
         PyStr (lit ''    }''),
         PyStr (lit ''    // Netralisasi gangguan''),
         PyStr (lit ''    fi.Clear()''),
         PyStr (lit ''    if fi.IsEnabled() || fi.Execute(ctx) != '' @
            lit ''nil { t.Fatalf("...") }''),
         PyStr (lit ''}'')]),
      (''type'', PyStr (lit ''code''))],
    PyDict
     [(''title'', PyStr (lit ''POIN VERIFIKASI INVARIAN'')),
      (''items'', PyList
        [PyStr (lit ''Presisi Waktu: Latensi terukur elapsed >= '' @
            lit ''10 milidetik sesuai durasi yang disuntikkan.''),
         PyStr (lit ''Error Determinism: Mengembalikan sentry '' @
            lit ''error ErrInjectedFault saat forceError '' @ lit ''diaktifkan.''),
         PyStr (lit ''Clean Teardown: Pemanggilan Clear() '' @
            lit ''mengembalikan state isEnabled ke false dan '' @ lit ''error kembali nil.'')]),
      (''type'', PyStr (lit ''bullet''))]]\<close>

definition lab34_slide_15 :: pycall where [lab34_slides]:
  \<open>lab34_slide_15 =
   \<lparr>posargs = [],
  kwargs =
   [(''categories'', PyList
      [PyStr (lit ''BUKTI TEST''),
       PyStr (lit ''FAULT INJECTOR'')]),
    (''title'', PyStr (lit ''Test 1: Presisi Injeksi Latensi & Forced '' @ lit ''Error'')),
    (''subtitle'', PyStr (lit ''TestFaultInjector memverifikasi eksekusi '' @
        lit ''latensi, propagasi error, dan netralisasi '' @ lit ''bersih via Clear().'')),
    (''content_items'', lab34_items_15),
    (''narrative'', PyStr (lit ''Unit test pertama memverifikasi ketepatan '' @
        lit ''primitif Fault Injector dalam menyisipkan '' @
        lit ''gangguan terprogram. Saat berada pada state '' @
        lit ''non-aktif, injektor tidak memberikan '' @
        lit ''overhead dan mengembalikan nilai nil. '' @
        lit ''Ketika dikonfigurasi dengan latensi 10 '' @
        lit ''milidetik dan forced error, fungsi '' @ [96] @ lit ''Execute'' @ [96] @
        lit '' menahan thread pemanggil secara akurat '' @
        lit ''selama minimal 10 milidetik sebelum '' @ lit ''mengembalikan '' @ [96] @
        lit ''ErrInjectedFault'' @ [96] @ lit ''. Begitu method '' @ [96] @
        lit ''Clear()'' @ [96] @ lit '' dipanggil, seluruh konfigurasi gangguan '' @
        lit ''terhapus secara atomik dan pemanggilan '' @
        lit ''berikutnya kembali bersih seketika.'')),
    (''narrative_en'', PyStr (lit ''The first unit test verifies the surgical '' @
        lit ''precision of the Fault Injector primitive '' @
        lit ''when introducing simulated turbulence. In '' @
        lit ''its default disabled state, the injector '' @
        lit ''incurs zero operational overhead and '' @
        lit ''returns nil. When programmed with 10ms '' @
        lit ''latency and forced error flags, '' @ [96] @ lit ''Execute'' @ [96] @
        lit '' holds execution for at least 10ms before '' @ lit ''emitting '' @ [96] @
        lit ''ErrInjectedFault'' @ [96] @ lit ''. Calling '' @ [96] @ lit ''Clear()'' @
        [96] @ lit '' atomically wipes the fault configuration, '' @
        lit ''ensuring subsequent executions pass cleanly '' @
        lit ''without residual effects.'')),
    (''mental_model'', PyStr (lit ''Fault injection primitives must be '' @
        lit ''deterministic, timed precisely, and '' @
        lit ''neutralized instantly on demand.'')),
    (''source_path'', PyStr (lit ''tests/chaos_test.go:16-50'')),
    (''slide_num'', PyStr (lit ''15 / 24'')),
    (''layout'', PyStr (lit ''test-analysis''))]\<rparr>\<close>

definition lab34_items_16 :: pyval where [lab34_contents]:
  \<open>lab34_items_16 =
   PyList
   [PyDict
     [(''title'', PyStr (lit ''VERIFIKASI TRANSISI TIGA STATE'')),
      (''items'', PyList
        [PyStr (lit ''// Threshold = 2 failures, Cooldown = 50ms''),
         PyStr (lit ''cb := circuitbreaker.NewCircuitBreaker(2, '' @
            lit ''50*time.Millisecond)''),
         PyStr (lit ''_ = cb.Execute(failFn, nil) // Failure #1 '' @ lit ''-> Masih CLOSED''),
         PyStr (lit ''_ = cb.Execute(failFn, nil) // Failure #2 '' @ lit ''-> Trip ke OPEN!''),
         PyStr [],
         PyStr (lit ''// Pemanggilan instan menghasilkan '' @
            lit ''fast-fail ErrCircuitOpen tanpa memanggil fn''),
         PyStr (lit ''err := cb.Execute(okFn, nil)''),
         PyStr (lit ''// Assert: errors.Is(err, '' @ lit ''circuitbreaker.ErrCircuitOpen)''),
         PyStr [],
         PyStr (lit ''time.Sleep(60 * time.Millisecond) // Lewati '' @ lit ''cooldown 50ms''),
         PyStr (lit ''// State otomatis bergeser ke HALF-OPEN '' @ lit ''untuk uji coba''),
         PyStr (lit ''err = cb.Execute(okFn, nil) // Eksekusi '' @ lit ''probasi SUKSES''),
         PyStr (lit ''// Assert: cb.State() kembali ke CLOSED dan '' @
            lit ''failure counter direset ke 0'')]),
      (''type'', PyStr (lit ''code''))],
    PyDict
     [(''title'', PyStr (lit ''GARANSI PERILAKU SIRKUIT'')),
      (''items'', PyList
        [PyStr (lit ''Threshold Boundary: Sirkuit tetap tertutup '' @
            lit ''pada kegagalan pertama, dan baru terbuka '' @
            lit ''tepat di kegagalan kedua.''),
         PyStr (lit ''Fast Failure: State OPEN mengembalikan '' @
            lit ''ErrCircuitOpen tanpa menyentuh layanan '' @ lit ''downstream.''),
         PyStr (lit ''Self-Healing: Eksekusi sukses pada fase '' @
            lit ''HALF-OPEN secara otomatis mereset sistem ke '' @ lit ''CLOSED.'')]),
      (''type'', PyStr (lit ''bullet''))]]\<close>

definition lab34_slide_16 :: pycall where [lab34_slides]:
  \<open>lab34_slide_16 =
   \<lparr>posargs = [],
  kwargs =
   [(''categories'', PyList
      [PyStr (lit ''BUKTI TEST''),
       PyStr (lit ''CIRCUIT BREAKER'')]),
    (''title'', PyStr (lit ''Test 2: Transisi State Closed '' @ [0x2192] @ lit '' Open '' @ [0x2192] @
        lit '' Half-Open'')),
    (''subtitle'', PyStr (lit ''TestCircuitBreakerStateTransitions '' @
        lit ''memvalidasi threshold kegagalan, fast-fail, '' @ lit ''dan pemulihan.'')),
    (''content_items'', lab34_items_16),
    (''narrative'', PyStr (lit ''Unit test kedua membuktikan kepatuhan '' @
        lit ''transisi state machine pada modul Circuit '' @
        lit ''Breaker. Sirkuit dikonfigurasi dengan '' @
        lit ''ambang batas 2 kegagalan dan cooldown 50 '' @
        lit ''milidetik. Kegagalan pertama mempertahankan '' @
        lit ''status CLOSED. Kegagalan kedua langsung '' @
        lit ''memicu transisi sirkuit ke OPEN. Pada '' @
        lit ''status OPEN, pemanggilan fungsi langsung '' @
        lit ''diputus (fast-fail) dengan error '' @ [96] @ lit ''ErrCircuitOpen'' @ [96] @
        lit ''. Setelah jeda 60 milidetik melewati masa '' @
        lit ''cooldown, sirkuit masuk ke mode HALF-OPEN; '' @
        lit ''pemanggilan sukses pada masa percobaan ini '' @
        lit ''langsung mereset sirkuit ke CLOSED.'')),
    (''narrative_en'', PyStr (lit ''The second unit test validates the state '' @
        lit ''machine invariants of the Circuit Breaker '' @
        lit ''module. Configured with a failure threshold '' @
        lit ''of 2 and a 50ms cooldown window, the '' @
        lit ''initial error preserves the CLOSED state. '' @
        lit ''The second consecutive error instantly '' @
        lit ''trips the breaker to OPEN. Under OPEN, '' @
        lit ''execution calls fast-fail immediately with '' @ [96] @
        lit ''ErrCircuitOpen'' @ [96] @ lit ''. After waiting 60ms to exceed cooldown, '' @
        lit ''the breaker transitions to HALF-OPEN; a '' @
        lit ''subsequent successful invocation cleanly '' @
        lit ''resets the state to CLOSED.'')),
    (''mental_model'', PyStr (lit ''Trip on threshold breach, bypass downstream '' @
        lit ''during open, and heal automatically on '' @ lit ''probation success.'')),
    (''source_path'', PyStr (lit ''tests/chaos_test.go:52-90'')),
    (''slide_num'', PyStr (lit ''16 / 24'')),
    (''layout'', PyStr (lit ''test-analysis''))]\<rparr>\<close>

definition lab34_items_17 :: pyval where [lab34_contents]:
  \<open>lab34_items_17 =
   PyList
   [PyDict
     [(''title'', PyStr (lit ''UJI KONTRAK FALLBACK'')),
      (''items'', PyList
        [PyStr (lit ''func TestCircuitBreakerGracefulDegradation(t'' @ lit '' *testing.T) {''),
         PyStr (lit ''    cb := circuitbreaker.NewCircuitBreaker(1'' @
            lit '', 50*time.Millisecond)''),
         PyStr (lit ''    failFn := func() error { return '' @
            lit ''errors.New("upstream failed") }''),
         PyStr [],
         PyStr (lit ''    fallbackInvoked := false''),
         PyStr (lit ''    fallback := func() error {''),
         PyStr (lit ''        fallbackInvoked = true''),
         PyStr (lit ''        return nil // Menelan error dan '' @
            lit ''menyajikan degraded response''),
         PyStr (lit ''    }''),
         PyStr [],
         PyStr (lit ''    err := cb.Execute(failFn, fallback)''),
         PyStr (lit ''    // Assert: err == nil (error ditelan)''),
         PyStr (lit ''    // Assert: fallbackInvoked == true}'')]),
      (''type'', PyStr (lit ''code''))],
    PyDict
     [(''title'', PyStr (lit ''ANALISIS MEKANISME FALLBACK'')),
      (''items'', PyList
        [PyStr (lit ''Error Masking: Error kegagalan remote '' @
            lit ''ditelan oleh fallback handler, mencegah '' @ lit ''status 500.''),
         PyStr (lit ''Alternative Payload: Klien menerima respons '' @
            lit ''terdegradasi yang valid (contoh: antrean '' @
            lit ''pembayaran asinkron).''),
         PyStr (lit ''Upstream Shield: Konsumen API tidak '' @
            lit ''mengalami interupsi transaksi meskipun '' @
            lit ''dependensi downstream padam.'')]),
      (''type'', PyStr (lit ''bullet''))]]\<close>

definition lab34_slide_17 :: pycall where [lab34_slides]:
  \<open>lab34_slide_17 =
   \<lparr>posargs = [],
  kwargs =
   [(''categories'', PyList
      [PyStr (lit ''BUKTI TEST''),
       PyStr (lit ''FALLBACK DEGRADATION'')]),
    (''title'', PyStr (lit ''Test 3: Graceful Degradation Menelan Error '' @ lit ''Primary'')),
    (''subtitle'', PyStr (lit ''TestCircuitBreakerGracefulDegradation '' @
        lit ''memverifikasi proteksi pengalaman pengguna '' @ lit ''via fallback.'')),
    (''content_items'', lab34_items_17),
    (''narrative'', PyStr (lit ''Unit test ketiga menguji efektivitas fungsi '' @
        lit ''fallback dalam menerapkan pola graceful '' @
        lit ''degradation. Ketika fungsi utama '' @ [96] @ lit ''failFn'' @ [96] @
        lit '' mengembalikan error, Circuit Breaker '' @
        lit ''mengeksekusi penanganan alternatif '' @ [96] @ lit ''fallback'' @ [96] @
        lit '' yang telah disediakan. Handler fallback '' @
        lit ''berhasil menelan error remote dan '' @
        lit ''mengembalikan nilai nil ke klien pemanggil. '' @
        lit ''Mekanisme ini menjamin bahwa kegagalan '' @
        lit ''downstream tidak pernah bocor menjadi error '' @
        lit ''mentah di sisi pengguna, melainkan '' @
        lit ''dialihkan menjadi respons terdegradasi yang '' @ lit ''sah dan terkontrol.'')),
    (''narrative_en'', PyStr (lit ''The third unit test exercises graceful '' @
        lit ''degradation via fallback handlers. When the '' @ lit ''primary function '' @
        [96] @ lit ''failFn'' @ [96] @ lit '' returns an error, the Circuit Breaker '' @
        lit ''executes the alternative '' @ [96] @ lit ''fallback'' @ [96] @
        lit '' closure. The fallback handler successfully '' @
        lit ''intercepts the remote failure and returns '' @
        lit ''nil to the caller. This pattern ensures '' @
        lit ''that downstream service outages never '' @
        lit ''bubble up as raw customer errors, '' @
        lit ''substituting transparent failures with '' @
        lit ''structured, controlled degradation '' @ lit ''responses.'')),
    (''mental_model'', PyStr (lit ''Fallback functions absorb raw dependency '' @
        lit ''failures, returning gracefully degraded '' @ lit ''responses to users.'')),
    (''source_path'', PyStr (lit ''tests/chaos_test.go:92-109'')),
    (''slide_num'', PyStr (lit ''17 / 24'')),
    (''layout'', PyStr (lit ''test-analysis''))]\<rparr>\<close>

definition lab34_items_18 :: pyval where [lab34_contents]:
  \<open>lab34_items_18 =
   PyList
   [PyDict
     [(''title'', PyStr (lit ''SIMULASI AUTO-ABORT PADA STEADY-STATE BREACH'')),
      (''items'', PyList
        [PyStr (lit ''inj := fault.NewInjector(); mon := '' @
            lit ''monitor.NewMonitor(0.20) // Batas 20%''),
         PyStr (lit ''// Baseline 4 request sukses''),
         PyStr (lit ''for i := 0; i < 4; i++ { '' @ lit ''mon.RecordSuccess() }''),
         PyStr (lit ''exp := experiment.NewExperiment(cfg, inj, '' @ lit ''mon)''),
         PyStr (lit ''go func() { errCh <- exp.Run(ctx) }()''),
         PyStr [],
         PyStr (lit ''// Suntikkan kegagalan langsung ke monitor '' @
            lit ''(error rate = 2/6 = 33.3%)''),
         PyStr (lit ''mon.RecordFailure(); mon.RecordFailure()''),
         PyStr [],
         PyStr (lit ''// Assert: err != nil ("Steady state '' @
            lit ''breached: error rate 33.33%...")''),
         PyStr (lit ''// Assert: exp.State() == '' @ lit ''experiment.StateAborted''),
         PyStr (lit ''// Assert: inj.IsEnabled() == false '' @ lit ''(dinutralkan seketika!)'')]),
      (''type'', PyStr (lit ''code''))],
    PyDict
     [(''title'', PyStr (lit ''FAKTA KONTROL BLAST RADIUS'')),
      (''items'', PyList
        [PyStr (lit ''Proactive Termination: Background ticker '' @
            lit ''mendeteksi pelanggaran dalam interval 10 '' @ lit ''milidetik.''),
         PyStr (lit ''State Transition: Eksperimen beralih ke '' @
            lit ''StateAborted dengan pesan alasan yang jelas '' @ lit ''dan terstruktur.''),
         PyStr (lit ''Synchronous Teardown: Injektor '' @
            lit ''dinonaktifkan seketika, mencegah dampak '' @
            lit ''meluas ke request berikutnya.'')]),
      (''type'', PyStr (lit ''bullet''))]]\<close>

definition lab34_slide_18 :: pycall where [lab34_slides]:
  \<open>lab34_slide_18 =
   \<lparr>posargs = [],
  kwargs =
   [(''categories'', PyList
      [PyStr (lit ''BUKTI TEST''),
       PyStr (lit ''BLAST RADIUS AUTO-ABORT'')]),
    (''title'', PyStr (lit ''Test 4: Auto-Abort & Netralisasi Saat '' @ lit ''Pelanggaran Metrik'')),
    (''subtitle'', PyStr (lit ''TestExperimentAutoAbortOnSteadyStateViolatio'' @
        lit ''n membuktikan penahanan dampak eksperimen '' @ lit ''secara otomatis.'')),
    (''content_items'', lab34_items_18),
    (''narrative'', PyStr (lit ''Unit test keempat membuktikan penahanan '' @
        lit ''blast radius yang menjadi syarat mutlak '' @
        lit ''dalam Chaos Engineering profesional. '' @
        lit ''Eksperimen dikonfigurasi dengan batas '' @
        lit ''toleransi error rate 20%. Ketika dua '' @
        lit ''kegagalan disuntikkan sehingga rasio error '' @
        lit ''melonjak menjadi 33.33%, background ticker '' @
        lit ''pemantau mendeteksi pelanggaran tersebut '' @
        lit ''dan langsung membatalkan eksperimen dengan '' @
        lit ''status StateAborted. Yang terpenting, '' @ lit ''method '' @ [96] @
        lit ''inj.IsEnabled()'' @ [96] @ lit '' terbukti bernilai false, mengonfirmasi '' @
        lit ''bahwa seluruh gangguan dinetralkan seketika '' @
        lit ''tanpa kebocoran efek samping.'')),
    (''narrative_en'', PyStr (lit ''The fourth test verifies blast-radius '' @
        lit ''containment, a mandatory prerequisite for '' @
        lit ''production-grade Chaos Engineering. '' @
        lit ''Configured with a 20% error rate tolerance, '' @
        lit ''the experiment is subjected to failures '' @
        lit ''pushing the error ratio to 33.33%. The '' @
        lit ''background polling ticker catches the '' @
        lit ''boundary breach and immediately aborts the '' @
        lit ''run under StateAborted. Crucially, '' @ lit ''asserting '' @ [96] @
        lit ''inj.IsEnabled() == false'' @ [96] @
        lit '' confirms that all fault injection '' @
        lit ''primitives are synchronously dismantled '' @
        lit ''without leaking into subsequent requests.'')),
    (''mental_model'', PyStr (lit ''Automated abort mechanisms act as emergency '' @
        lit ''circuit breakers for the chaos experiment '' @ lit ''itself.'')),
    (''source_path'', PyStr (lit ''tests/chaos_test.go:111-154'')),
    (''slide_num'', PyStr (lit ''18 / 24'')),
    (''layout'', PyStr (lit ''test-analysis''))]\<rparr>\<close>

definition lab34_items_19 :: pyval where [lab34_contents]:
  \<open>lab34_items_19 =
   PyList
   [PyDict
     [(''title'', PyStr (lit ''EVOLUSI CHAOS DI INDUSTRI'')),
      (''items'', PyList
        [PyStr (lit ''Netflix Chaos Monkey & FIT: Menyuntikkan '' @
            lit ''kegagalan langsung pada tingkat RPC '' @
            lit ''protokol dengan kontrol context.''),
         PyStr (lit ''AWS Fault Injection Simulator (FIS): '' @
            lit ''Framework terkelola untuk pengujian '' @
            lit ''disrupsi instance dan partisi jaringan.''),
         PyStr (lit ''Google Disaster Recovery Testing (DiRT): '' @
            lit ''Latihan berskala besar untuk memvalidasi '' @
            lit ''kesiapan failover multi-region.'')]),
      (''type'', PyStr (lit ''bullet''))],
    PyDict
     [(''title'', PyStr (lit ''PRINSIP EMAS BLAST RADIUS'')),
      (''items'', PyList
        [PyStr (lit ''Start in Staging / Canary: Mulai dari '' @
            lit ''lingkungan pengujian atau fraksi trafik '' @
            lit ''terkecil (1% pengguna).''),
         PyStr (lit ''Automated Kill Switch: Jangan pernah '' @
            lit ''menjalankan eksperimen chaos tanpa pemantau '' @
            lit ''metrik real-time dan auto-abort.''),
         PyStr (lit ''Business Metric Alignment: Evaluasi '' @
            lit ''steady-state berdasarkan throughput '' @
            lit ''checkout dan checkout conversion.'')]),
      (''type'', PyStr (lit ''bullet''))]]\<close>

definition lab34_slide_19 :: pycall where [lab34_slides]:
  \<open>lab34_slide_19 =
   \<lparr>posargs = [],
  kwargs =
   [(''categories'', PyList
      [PyStr (lit ''STUDI KASUS''),
       PyStr (lit ''BEST PRACTICES'')]),
    (''title'', PyStr (lit ''Penerapan Industri: Dari Simian Army ke '' @ lit ''Production'')),
    (''subtitle'', PyStr (lit ''Bagaimana raksasa teknologi mengelola blast '' @
        lit ''radius dan mengotomatiskan pembuktian '' @ lit ''ketahanan.'')),
    (''content_items'', lab34_items_19),
    (''narrative'', PyStr (lit ''Dalam industri software terdistribusi, '' @
        lit ''Chaos Engineering telah berevolusi dari '' @
        lit ''sekadar skrip pemati server acak menjadi '' @
        lit ''disiplin rekayasa yang sangat presisi. '' @
        lit ''Netflix memelopori pendekatan ini dengan '' @
        lit ''Failure Injection Testing (FIT) yang '' @
        lit ''menyisipkan gangguan pada level RPC '' @
        lit ''menggunakan konteks request spesifik. AWS '' @
        lit ''dan Google mengintegrasikan pengujian '' @
        lit ''kegagalan terkelola dengan batas blast '' @
        lit ''radius yang ketat. Kunci sukses '' @
        lit ''implementasi industri adalah mengikat '' @
        lit ''hipotesis eksperimen langsung ke metrik '' @
        lit ''bisnis utama dan selalu menyertakan tombol '' @
        lit ''pembatalan darurat otomatis.'')),
    (''narrative_en'', PyStr (lit ''Across modern enterprise systems, Chaos '' @
        lit ''Engineering has evolved from random '' @
        lit ''instance termination into a highly '' @
        lit ''disciplined scientific practice. Netflix '' @
        lit ''pioneered fine-grained failure injection '' @
        lit ''via FIT, injecting latency at the RPC layer '' @
        lit ''using synthetic request tracing headers. '' @
        lit ''AWS and Google mandate automated '' @
        lit ''blast-radius containment for cross-region '' @
        lit ''recovery exercises. The universal golden '' @
        lit ''rule across industry leaders is anchoring '' @
        lit ''steady-state hypotheses directly to core '' @
        lit ''business metrics backed by automated kill '' @ lit ''switches.'')),
    (''mental_model'', PyStr (lit ''Industrial chaos engineering mandates '' @
        lit ''strict canary blast radius and automated '' @ lit ''kill switches.'')),
    (''source_path'', PyStr (lit ''labs/34-chaos-engineering/content/01-content'' @ lit ''-brief.md:44-46 '' @
        [0x2022] @ lit '' research/02-sources.md'')),
    (''slide_num'', PyStr (lit ''19 / 24'')),
    (''layout'', PyStr (lit ''cards''))]\<rparr>\<close>

definition lab34_items_20 :: pyval where [lab34_contents]:
  \<open>lab34_items_20 =
   PyList
   [PyDict
     [(''title'', PyStr (lit ''CHECKLIST KESIAPAN EKSPERIMEN'')),
      (''items'', PyList
        [PyStr (lit ''[ ] Tentukan steady-state metric berbasis '' @
            lit ''output pengguna (error rate, p99 latency) '' @ lit ''dengan batas jelas.''),
         PyStr (lit ''[ ] Tetapkan ukuran sampel minimum sebelum '' @
            lit ''evaluasi breach agar terhindar dari alarm '' @ lit ''palsu startup.''),
         PyStr (lit ''[ ] Bungkus semua pemanggilan remote dengan '' @
            lit ''Circuit Breaker yang memiliki parameter '' @
            lit ''threshold dan cooldown.''),
         PyStr (lit ''[ ] Sediakan rute fallback graceful '' @
            lit ''degradation (antrean asinkron atau cache '' @ lit ''lokal) yang teruji.''),
         PyStr (lit ''[ ] Pasang background monitor yang '' @
            lit ''mengevaluasi steady-state metric secara '' @
            lit ''periodik via interval ticker.''),
         PyStr (lit ''[ ] Hubungkan monitor dengan mekanisme '' @
            lit ''auto-abort dan pembersihan injector sinkron '' @
            lit ''(injector.Clear()).''),
         PyStr (lit ''[ ] Batasi durasi maksimum eksperimen '' @
            lit ''(timeout window) untuk mencegah eksekusi '' @ lit ''tak terhingga.''),
         PyStr (lit ''[ ] Uji seluruh komponen di bawah race '' @
            lit ''detector Go (go test -race ./...) untuk '' @
            lit ''menjamin thread-safety.'')]),
      (''type'', PyStr (lit ''bullet''))]]\<close>

definition lab34_slide_20 :: pycall where [lab34_slides]:
  \<open>lab34_slide_20 =
   \<lparr>posargs = [],
  kwargs =
   [(''categories'', PyList
      [PyStr (lit ''CHECKLIST''),
       PyStr (lit ''PRODUKSI'')]),
    (''title'', PyStr (lit ''Checklist Implementasi Chaos Engineering'')),
    (''subtitle'', PyStr (lit ''8 langkah verifikasi wajib sebelum '' @
        lit ''menggelar pengujian kegagalan terkontrol ke '' @ lit ''sistem produksi.'')),
    (''content_items'', lab34_items_20),
    (''narrative'', PyStr (lit ''Daftar periksa ini merangkum delapan '' @
        lit ''langkah penting yang wajib dipenuhi sebelum '' @
        lit ''menggelar eksperimen chaos ke lingkungan '' @
        lit ''produksi. Eksperimen tidak boleh dimulai '' @
        lit ''tanpa definisi metrik steady-state yang '' @
        lit ''terikat pada pengalaman pengguna serta '' @
        lit ''batas toleransi yang terukur. Pemanggilan '' @
        lit ''dependensi eksternal harus diproteksi oleh '' @
        lit ''Circuit Breaker dan rute fallback '' @
        lit ''alternatif. Terakhir, mekanisme pembatalan '' @
        lit ''otomatis (auto-abort) dan netralisasi '' @
        lit ''injektor harus diverifikasi secara ketat '' @
        lit ''agar tidak ada gangguan yang tertinggal di '' @ lit ''sistem.'')),
    (''narrative_en'', PyStr (lit ''This checklist codifies eight mandatory '' @
        lit ''architectural requirements before '' @
        lit ''scheduling chaos experiments in production. '' @
        lit ''No experiment may begin without defining '' @
        lit ''user-facing steady-state metrics paired '' @
        lit ''with concrete threshold boundaries. '' @
        lit ''External dependencies must be guarded '' @
        lit ''behind Circuit Breakers backed by verified '' @
        lit ''fallback degradation routes. Finally, '' @
        lit ''automated abort triggers and synchronous '' @
        lit ''injector teardown routines must be '' @
        lit ''validated under concurrency race detectors '' @
        lit ''to guarantee zero residual turbulence.'')),
    (''mental_model'', PyStr (lit ''Define metrics, protect with breakers, '' @
        lit ''enforce fallbacks, and guarantee automated '' @ lit ''abort teardown.'')),
    (''source_path'', PyStr (lit ''labs/34-chaos-engineering/content/02-master-'' @ lit ''draft.md:90-96'')),
    (''slide_num'', PyStr (lit ''20 / 24'')),
    (''layout'', PyStr (lit ''checklist''))]\<rparr>\<close>

definition lab34_items_21 :: pyval where [lab34_contents]:
  \<open>lab34_items_21 =
   PyList
   [PyDict
     [(''title'', PyStr (lit ''ANTI-PATTERN UMUM'')),
      (''items'', PyList
        [PyStr (lit ''Chaos Tanpa Auto-Abort: Menyuntikkan '' @
            lit ''kegagalan tanpa pemantauan kontinu dan '' @
            lit ''tanpa tombol darurat pemutus.''),
         PyStr (lit ''Memantau Metrik Internal Saja: Berfokus '' @
            lit ''pada utilisasi CPU/RAM alih-alih tingkat '' @
            lit ''kegagalan transaksi pengguna.''),
         PyStr (lit ''Circuit Breaker Tanpa Fallback: Sirkuit '' @
            lit ''terbuka memutus panggilan tetapi pengguna '' @
            lit ''tetap menerima error 500 mentah.''),
         PyStr (lit ''Untested Fallback Logic: Fallback handler '' @
            lit ''memicu panic atau deadlock baru saat '' @
            lit ''dieksekusi di bawah tekanan.'')]),
      (''type'', PyStr (lit ''card''))],
    PyDict
     [(''title'', PyStr (lit ''CARA REPRODUKSI GAGAL DI LAB'')),
      (''items'', PyList
        [PyStr (lit ''1. Ubah cmd/demo/main.go dengan menghapus '' @
            lit ''blok fallback pada pemanggilan '' @ lit ''clientRequest.''),
         PyStr (lit ''2. Jalankan go run ./cmd/demo: saat '' @
            lit ''downstream disuntikkan fault, error rate '' @
            lit ''langsung meledak ke 100%.''),
         PyStr (lit ''3. Matikan auto-abort di '' @
            lit ''internal/experiment/runner.go: eksperimen '' @
            lit ''terus menyiksa sistem tanpa henti!'')]),
      (''type'', PyStr (lit ''card''))]]\<close>

definition lab34_slide_21 :: pycall where [lab34_slides]:
  \<open>lab34_slide_21 =
   \<lparr>posargs = [],
  kwargs =
   [(''categories'', PyList
      [PyStr (lit ''ANTI-PATTERN''),
       PyStr (lit ''REPRODUKSI'')]),
    (''title'', PyStr (lit ''Anti-Pattern: Kesalahan Fatal dalam Chaos '' @ lit ''Testing'')),
    (''subtitle'', PyStr (lit ''Kekeliruan desain yang mengubah pengujian '' @
        lit ''ketahanan menjadi malapetaka production.'')),
    (''content_items'', lab34_items_21),
    (''narrative'', PyStr (lit ''Mengabaikan prinsip dasar Chaos Engineering '' @
        lit ''dapat berakibat fatal bagi reputasi dan '' @
        lit ''ketersediaan layanan perusahaan. '' @
        lit ''Anti-pattern paling berbahaya adalah '' @
        lit ''menjalankan injeksi gangguan tanpa monitor '' @
        lit ''steady-state yang dilengkapi auto-abort '' @
        lit ''otomatis, membiarkan eksperimen merusak '' @
        lit ''trafik pengguna secara tak terbatas. '' @
        lit ''Kesalahan umum lainnya adalah memasang '' @
        lit ''Circuit Breaker tanpa menyiapkan fungsi '' @
        lit ''fallback, sehingga pengguna tetap mengalami '' @
        lit ''kegagalan transaksi. Untuk membuktikannya '' @
        lit ''di lab, kita cukup mematikan fungsi '' @
        lit ''fallback dan melihat error rate pengguna '' @ lit ''melonjak drastis.'')),
    (''narrative_en'', PyStr (lit ''Violating chaos engineering principles '' @
        lit ''introduces grave operational risks. The '' @
        lit ''most dangerous anti-pattern is executing '' @
        lit ''failure injection without continuous '' @
        lit ''steady-state monitoring and automated abort '' @
        lit ''mechanisms, leaving experiments to ravage '' @
        lit ''user traffic indefinitely. Another common '' @
        lit ''flaw is implementing Circuit Breakers '' @
        lit ''without fallback handlers, resulting in '' @
        lit ''fast-fail errors that still crash client '' @
        lit ''workflows. Disabling fallbacks in the lab '' @
        lit ''immediately reproduces this vulnerability, '' @
        lit ''causing user error rates to spike instantly '' @ lit ''to 100%.'')),
    (''mental_model'', PyStr (lit ''Never inject faults without auto-abort; '' @
        lit ''never trip breakers without graceful '' @ lit ''fallbacks.'')),
    (''source_path'', PyStr (lit ''labs/34-chaos-engineering/content/02-master-'' @ lit ''draft.md:78-82'')),
    (''slide_num'', PyStr (lit ''21 / 24'')),
    (''layout'', PyStr (lit ''anti-pattern-cards''))]\<rparr>\<close>

definition lab34_items_22 :: pyval where [lab34_contents]:
  \<open>lab34_items_22 =
   PyList
   [PyDict
     [(''title'', PyStr (lit ''PERINTAH VERIFIKASI RESMI'')),
      (''items'', PyList
        [PyStr (lit ''cd labs/34-chaos-engineering''),
         PyStr (lit ''go test -v ./...''),
         PyStr (lit ''go test -race ./...''),
         PyStr (lit ''go run ./cmd/demo'')]),
      (''type'', PyStr (lit ''code''))],
    PyDict
     [(''title'', PyStr (lit ''RINGKASAN METRIK LAB'')),
      (''items'', PyList
        [PyStr (lit ''Test Suite: 5/5 test cases lulus 100% '' @
            lit ''(FaultInjector, CircuitBreaker, '' @
            lit ''Degradation, AutoAbort, Race).''),
         PyStr (lit ''Race Detector: Bersih dari data race di '' @
            lit ''bawah 20 concurrent goroutines (1.481 detik '' @ lit ''pengujian).''),
         PyStr (lit ''Pustaka Mandiri: Murni Go Standard Library '' @
            lit ''(sync, sync/atomic, time, context, errors) '' @ lit ''tanpa third-party.'')]),
      (''type'', PyStr (lit ''bullet''))]]\<close>

definition lab34_slide_22 :: pycall where [lab34_slides]:
  \<open>lab34_slide_22 =
   \<lparr>posargs = [],
  kwargs =
   [(''categories'', PyList
      [PyStr (lit ''PRAKTIS''),
       PyStr (lit ''COMMAND'')]),
    (''title'', PyStr (lit ''Verifikasi Mandiri: Uji & Jalankan Lab'')),
    (''subtitle'', PyStr (lit ''Reproduksi seluruh bukti teknis, benchmark '' @
        lit ''race detector, dan demo interaktif di '' @ lit ''terminal Anda.'')),
    (''content_items'', lab34_items_22),
    (''narrative'', PyStr (lit ''Laboratorium ini dirancang untuk dapat '' @
        lit ''diverifikasi secara mandiri dalam hitungan '' @
        lit ''detik di mesin lokal mana pun. Seluruh kode '' @
        lit ''dibangun murni menggunakan standard library '' @
        lit ''Go tanpa memerlukan instalasi database '' @
        lit ''eksternal, container Docker, atau framework '' @
        lit ''pengujian pihak ketiga. Perintah '' @ [96] @ lit ''go test -v'' @ [96] @
        lit '' menjalankan lima rangkaian pengujian '' @
        lit ''komprehensif mulai dari injeksi primitif '' @
        lit ''hingga auto-abort. Perintah '' @ [96] @ lit ''go test -race'' @ [96] @
        lit '' memvalidasi thread-safety konkurensi, dan '' @ [96] @
        lit ''go run ./cmd/demo'' @ [96] @ lit '' menyajikan simulasi interaktif dari '' @
        lit ''seluruh siklus ketahanan.'')),
    (''narrative_en'', PyStr (lit ''This laboratory is engineered for '' @
        lit ''immediate, deterministic local verification '' @
        lit ''on any workstation. The entire codebase is '' @
        lit ''implemented with the Go standard library, '' @
        lit ''completely free of external database '' @
        lit ''daemons, Docker dependencies, or '' @
        lit ''third-party test runners. Running '' @ [96] @ lit ''go test -v'' @ [96] @
        lit '' executes five comprehensive suites '' @
        lit ''validating injection primitives, state '' @
        lit ''transitions, fallbacks, and auto-abort '' @ lit ''triggers. Running '' @
        [96] @ lit ''go test -race'' @ [96] @ lit '' guarantees thread-safety under '' @
        lit ''concurrency, while '' @ [96] @ lit ''go run ./cmd/demo'' @ [96] @
        lit '' delivers an interactive terminal '' @ lit ''simulation.'')),
    (''mental_model'', PyStr (lit ''Zero-dependency standard library code '' @
        lit ''enables immediate, deterministic local '' @ lit ''resilience verification.'')),
    (''source_path'', PyStr (lit ''labs/34-chaos-engineering/README.md:30-45 '' @ [0x2022] @
        lit '' engineering/03-execution-result.md'')),
    (''slide_num'', PyStr (lit ''22 / 24'')),
    (''layout'', PyStr (lit ''command-block''))]\<rparr>\<close>

definition lab34_items_23 :: pyval where [lab34_contents]:
  \<open>lab34_items_23 =
   PyList
   [PyDict
     [(''title'', PyStr (lit ''1. FAILURE IS INEVITABLE; COLLAPSE IS A '' @ lit ''CHOICE'')),
      (''items'', PyList
        [PyStr (lit ''Layanan downstream pasti akan mengalami '' @
            lit ''degradasi performa atau pemadaman total.''),
         PyStr (lit ''Arsitektur yang baik tidak berharap sistem '' @
            lit ''kebal, melainkan merancang isolasi agar '' @
            lit ''kegagalan tidak merembet.'')]),
      (''type'', PyStr (lit ''card''))],
    PyDict
     [(''title'', PyStr (lit ''2. USER STEADY STATE IS THE ONLY TRUTH'')),
      (''items'', PyList
        [PyStr (lit ''Kesehatan internal komponen (CPU, thread '' @
            lit ''pool, memori) tidak berarti apa-apa jika '' @
            lit ''transaksi pengguna gagal.''),
         PyStr (lit ''Jadikan metrik output batas konsumen '' @
            lit ''sebagai kompas utama dalam mengevaluasi '' @ lit ''keandalan sistem.'')]),
      (''type'', PyStr (lit ''card''))],
    PyDict
     [(''title'', PyStr (lit ''3. BLAST RADIUS IS SACROSANCT'')),
      (''items'', PyList
        [PyStr (lit ''Pengujian ketahanan tidak boleh menjadi '' @
            lit ''sumber insiden baru bagi pengguna produksi.''),
         PyStr (lit ''Otomatisasi pembatalan eksperimen '' @
            lit ''(auto-abort) dan degradasi anggun '' @
            lit ''(fallback) adalah pengaman mutlak.'')]),
      (''type'', PyStr (lit ''card''))]]\<close>

definition lab34_slide_23 :: pycall where [lab34_slides]:
  \<open>lab34_slide_23 =
   \<lparr>posargs = [],
  kwargs =
   [(''categories'', PyList
      [PyStr (lit ''PRINSIP''),
       PyStr (lit ''ARSITEKTUR'')]),
    (''title'', PyStr (lit ''Prinsip Arsitektur: Desain untuk Turbulensi'')),
    (''subtitle'', PyStr (lit ''Pelajaran abadi dalam merancang sistem '' @
        lit ''terdistribusi yang tangguh terhadap '' @ lit ''kegagalan parsial.'')),
    (''content_items'', lab34_items_23),
    (''narrative'', PyStr (lit ''Tiga prinsip arsitektur ini berlaku '' @
        lit ''universal di seluruh perancangan sistem '' @
        lit ''terdistribusi modern. Pertama, kegagalan '' @
        lit ''komponen eksternal adalah kepastian hukum '' @
        lit ''alam dalam sistem terdistribusi; yang '' @
        lit ''membedakan sistem rapuh dari sistem tangguh '' @
        lit ''adalah kemampuannya mengisolasi kegagalan '' @
        lit ''agar tidak menjadi pemadaman total. Kedua, '' @
        lit ''selalu jadikan metrik output pengguna '' @
        lit ''sebagai tolok ukur utama ketersediaan '' @
        lit ''sistem. Ketiga, kesucian batasan dampak '' @
        lit ''(blast radius) harus selalu dijaga melalui '' @
        lit ''otomasi pemantauan dan tombol pembatalan '' @ lit ''darurat.'')),
    (''narrative_en'', PyStr (lit ''These three architectural principles '' @
        lit ''transcend this specific Go implementation '' @
        lit ''and apply universally to modern software '' @
        lit ''engineering. First, remote dependency '' @
        lit ''degradation is an absolute mathematical '' @
        lit ''certainty; resilient architectures isolate '' @
        lit ''failures rather than pretending they will '' @
        lit ''never occur. Second, customer-facing '' @
        lit ''steady-state metrics represent the ultimate '' @
        lit ''ground truth of system health. Third, the '' @
        lit ''sanctity of blast-radius containment must '' @
        lit ''be fiercely preserved through automated '' @
        lit ''kill switches and graceful fallbacks.'')),
    (''mental_model'', PyStr (lit ''Embrace failure through isolation, measure '' @
        lit ''availability at the user boundary, and '' @
        lit ''strictly bound blast radius.'')),
    (''source_path'', PyStr (lit ''labs/34-chaos-engineering/content/05-key-tak'' @ lit ''eaways.md'')),
    (''slide_num'', PyStr (lit ''23 / 24'')),
    (''layout'', PyStr (lit ''principles-list''))]\<rparr>\<close>

definition lab34_items_24 :: pyval where [lab34_contents]:
  \<open>lab34_items_24 =
   PyList
   [PyDict
     [(''title'', PyStr (lit ''KOMPONEN ARSITEKTUR LAB'')),
      (''items'', PyList
        [PyStr (lit ''internal/fault/injector.go '' @ [0x2014] @
            lit '' Thread-safe latency and forced error fault '' @
            lit ''injection primitive''),
         PyStr (lit ''internal/circuitbreaker/circuitbreaker.go '' @ [0x2014] @
            lit '' Closed, Open, Half-Open state machine with '' @ lit ''fallback''),
         PyStr (lit ''internal/monitor/monitor.go '' @ [0x2014] @
            lit '' Atomic steady-state metrics tracker & '' @ lit ''breach evaluator''),
         PyStr (lit ''internal/experiment/runner.go '' @ [0x2014] @
            lit '' Experiment lifecycle coordinator with '' @
            lit ''auto-abort & synchronous clear''),
         PyStr (lit ''tests/chaos_test.go '' @ [0x2014] @
            lit '' 5 exhaustive suites covering injection, '' @
            lit ''states, degradation, abort, and race''),
         PyStr (lit ''cmd/demo/main.go '' @ [0x2014] @
            lit '' Complete interactive lifecycle simulation '' @
            lit ''with payment gateway example'')]),
      (''type'', PyStr (lit ''bullet''))],
    PyDict
     [(''title'', PyStr (lit ''VERIFIKASI & REPOSITORI'')),
      (''items'', PyList
        [PyStr (lit ''Commit SHA: '' @ str_prefix 8 lab34_COMMIT_SHA),
         PyStr (lit ''Unit Tests: 5/5 PASS (100% clean across all '' @ lit ''packages)''),
         PyStr (lit ''Race Detector: PASS (zero data race '' @ lit ''detected)''),
         PyStr (lit ''Repositori: '' @ lit ''github.com/lukman-ss/software-engineering-la'' @
            lit ''b/tree/main/labs/'' @ lab34_LAB_NO @ lit ''-'' @ lab34_SLUG)]),
      (''type'', PyStr (lit ''bullet''))]]\<close>

definition lab34_slide_24 :: pycall where [lab34_slides]:
  \<open>lab34_slide_24 =
   \<lparr>posargs = [],
  kwargs =
   [(''categories'', PyList
      [PyStr (lit ''CLOSING'')]),
    (''title'', PyStr (lit ''Ketahanan Terdistribusi Terbukti, Blast '' @ lit ''Radius Terkendali.'')),
    (''subtitle'', PyStr []),
    (''content_items'', lab34_items_24),
    (''narrative'', PyStr (lit ''Laboratorium Chaos Engineering & Fault '' @
        lit ''Injection ini membuktikan secara konkret '' @
        lit ''bahwa ketahanan sistem terdistribusi '' @
        lit ''bukanlah teori abstrak, melainkan properti '' @
        lit ''empiris yang dapat dibuktikan dan diukur. '' @
        lit ''Melalui kombinasi injeksi kegagalan '' @
        lit ''terkontrol, Circuit Breaker adaptif, rute '' @
        lit ''fallback graceful degradation, dan '' @
        lit ''steady-state monitor yang dilengkapi '' @
        lit ''auto-abort blast radius, arsitektur '' @
        lit ''microservices terbukti kebal terhadap '' @
        lit ''disrupsi downstream. Seluruh kode sumber, '' @
        lit ''dokumentasi audit, dan prosedur pengujian '' @
        lit ''tersedia lengkap di repositori.'')),
    (''narrative_en'', PyStr (lit ''This Chaos Engineering & Fault Injection '' @
        lit ''laboratory provides definitive proof that '' @
        lit ''distributed resilience is not an abstract '' @
        lit ''theoretical ideal, but an empirically '' @
        lit ''verifiable discipline. Harmonizing '' @
        lit ''controlled fault injection primitives, '' @
        lit ''adaptive Circuit Breakers, graceful '' @
        lit ''fallback degradation, and steady-state '' @
        lit ''monitors backed by automated blast-radius '' @
        lit ''containment ensures systems survive '' @
        lit ''external disruptions unscathed. Complete '' @
        lit ''source code, architectural audit trails, '' @
        lit ''and verification scripts are available in '' @ lit ''the repository.'')),
    (''mental_model'', PyStr (lit ''Steady state defines stability; circuit '' @
        lit ''breakers isolate faults; auto-abort '' @
        lit ''guarantees safe experimentation.'')),
    (''source_path'', PyStr lab34_REPO_URL),
    (''slide_num'', PyStr (lit ''24 / 24'')),
    (''layout'', PyStr (lit ''closing-dark-navy''))]\<rparr>\<close>

definition lab34_calls :: "pycall list" where
  "lab34_calls =
    [lab34_slide_01, lab34_slide_02, lab34_slide_03, lab34_slide_04, lab34_slide_05,
     lab34_slide_06, lab34_slide_07, lab34_slide_08, lab34_slide_09, lab34_slide_10,
     lab34_slide_11, lab34_slide_12, lab34_slide_13, lab34_slide_14, lab34_slide_15,
     lab34_slide_16, lab34_slide_17, lab34_slide_18, lab34_slide_19, lab34_slide_20,
     lab34_slide_21, lab34_slide_22, lab34_slide_23, lab34_slide_24]"

definition lab34_deck :: deck where
  "lab34_deck =
    \<lparr>add_slide = lab34_add_slide, lab_no = lab34_LAB_NO, title_id = lab34_TITLE_ID, calls = lab34_calls\<rparr>"

section \<open>Checks of the calls\<close>

lemma lab34_shapes:
  "\<forall>c \<in> set lab34_calls. shape_of c \<in> set
    [(0, [''categories'', ''title'', ''subtitle'', ''content_items'', ''mental_model'',
      ''source_path'', ''slide_num'', ''narrative'', ''narrative_en'', ''layout'']),
     (0, [''categories'', ''title'', ''subtitle'', ''content_items'', ''narrative'',
      ''narrative_en'', ''mental_model'', ''source_path'', ''slide_num'', ''layout''])]"
  by (simp only: lab34_calls_def lab34_slides shape_eval cong: pyval_opaque)

lemma lab34_calls_ok: "\<forall>c \<in> set lab34_calls. call_ok sig_layout c"
  by (rule calls_ok_by_shapes [OF lab34_shapes])
    (simp add: shape_ok_def param_names_def signature_defs core_params_def)

lemma lab34_labels: "map (\<lambda>c. value_of sig_layout c ''slide_num'') lab34_calls = labels_24"
  by (simp only: lab34_calls_def lab34_slides keyword_eval labels_24_eval cong: pyval_opaque)

lemma lab34_contents_of:
  "map (\<lambda>c. value_of sig_layout c ''content_items'') lab34_calls =
    [lab34_items_01, lab34_items_02, lab34_items_03, lab34_items_04, lab34_items_05,
     lab34_items_06, lab34_items_07, lab34_items_08, lab34_items_09, lab34_items_10,
     lab34_items_11, lab34_items_12, lab34_items_13, lab34_items_14, lab34_items_15,
     lab34_items_16, lab34_items_17, lab34_items_18, lab34_items_19, lab34_items_20,
     lab34_items_21, lab34_items_22, lab34_items_23, lab34_items_24]"
  by (simp only: lab34_calls_def lab34_slides keyword_eval cong: pyval_opaque)

lemma lab34_items: "item_defects sig_layout lab34_calls = []"
  by (simp only: item_defects_def lab34_contents_of)
    (simp add: lab34_contents item_eval cong: pystr_opaque)

end
