(* ===== verification/Deck35.thy ===== *)
theory Deck35
  imports DeckContract
begin

text \<open>
  The publication definition of lab 35, \<^verbatim>\<open>labs/35-websocket-and-sse/result/content_def.py\<close>:
  its module constants, every \<open>add_slide\<close> call in order (\<open>lab35_slide_01\<close> is the first),
  and the module as a whole (\<open>lab35_deck\<close>). Long strings are split into pieces that are
  concatenated; a character outside ASCII is its code point.
\<close>

named_theorems lab35_slides \<open>the add_slide calls of lab 35\<close>
named_theorems lab35_contents \<open>their content_items arguments\<close>

definition lab35_OUTPUT_DIR :: pystr where
  \<open>lab35_OUTPUT_DIR = lit ''labs/35-websocket-and-sse/result''\<close>

definition lab35_CHROME_BIN :: pystr where
  \<open>lab35_CHROME_BIN = lit ''/Applications/Google '' @ lit ''Chrome.app/Contents/MacOS/Google Chrome''\<close>

definition lab35_REPO_URL :: pystr where
  \<open>lab35_REPO_URL = lit ''https://github.com/lukman-ss/software-engine'' @
    lit ''ering-lab/tree/main/labs/35-websocket-and-ss'' @ lit ''e''\<close>

definition lab35_COMMIT_SHA :: pystr where
  \<open>lab35_COMMIT_SHA = lit ''b48fe6c30d0b3635f36b8549c5621bbf5ce7c5f8''\<close>

definition lab35_LAB_NO :: pystr where
  \<open>lab35_LAB_NO = lit ''35''\<close>

definition lab35_SLUG :: pystr where
  \<open>lab35_SLUG = lit ''websocket-and-sse''\<close>

definition lab35_TITLE_ID :: pystr where
  \<open>lab35_TITLE_ID = lit ''WebSocket vs Server-Sent Events''\<close>

definition lab35_SUBTITLE_ID :: pystr where
  \<open>lab35_SUBTITLE_ID = lit ''Memilih Protokol Real-Time Berdasarkan '' @
    lit ''Directionality dan Kompleksitas''\<close>

definition lab35_TITLE_EN :: pystr where
  \<open>lab35_TITLE_EN = lit ''WebSocket vs Server-Sent Events''\<close>

definition lab35_SUBTITLE_EN :: pystr where
  \<open>lab35_SUBTITLE_EN = lit ''Selecting Real-Time Protocols via '' @ lit ''Directionality and Complexity''\<close>

definition lab35_AUTHOR :: pystr where
  \<open>lab35_AUTHOR = lit ''Lukman / lukman-ss''\<close>

definition lab35_TOPIC_TAGS :: pystr where
  \<open>lab35_TOPIC_TAGS = lit ''WebSocket '' @ [0x2022] @ lit '' Server-Sent Events '' @ [0x2022] @
    lit '' RFC 6455 '' @ [0x2022] @ lit '' WHATWG SSE '' @ [0x2022] @ lit '' Go 1.22''\<close>

definition lab35_DEVTO_DESC :: pystr where
  \<open>lab35_DEVTO_DESC = lit ''Explore WebSocket vs SSE in Go: RFC 6455 '' @
    lit ''full-duplex binary framing vs WHATWG '' @
    lit ''text/event-stream push with Last-Event-ID '' @ lit ''resumption.''\<close>

definition lab35_DEVTO_TAGS :: pystr where
  \<open>lab35_DEVTO_TAGS = lit ''go, webdev, performance, architecture''\<close>

definition lab35_DEVTO_INTRO :: pystr where
  \<open>lab35_DEVTO_INTRO = lit ''Selecting between WebSocket and Server-Sent '' @
    lit ''Events dictates connection complexity, '' @
    lit ''proxy resilience, and operational overhead. '' @
    lit ''Lab 35 implements both protocols from '' @
    lit ''scratch in pure Go to expose their '' @ lit ''architectural trade-offs.''\<close>

definition lab35_MEDIUM_DESC :: pystr where
  \<open>lab35_MEDIUM_DESC = lit ''Panduan arsitektur komparatif WebSocket '' @
    lit ''(RFC 6455) vs Server-Sent Events (WHATWG '' @
    lit ''SSE) menggunakan Go murni tanpa library '' @ lit ''eksternal.''\<close>

definition lab35_DARK_NAVY :: pystr where
  \<open>lab35_DARK_NAVY = lit ''0b1b2d''\<close>

definition lab35_TEAL :: pystr where
  \<open>lab35_TEAL = lit ''087f76''\<close>

definition lab35_CREAM :: pystr where
  \<open>lab35_CREAM = lit ''f4f1e8''\<close>

definition lab35_WHITE :: pystr where
  \<open>lab35_WHITE = lit ''ffffff''\<close>

definition lab35_SLATE :: pystr where
  \<open>lab35_SLATE = lit ''52606b''\<close>

definition lab35_ORANGE :: pystr where
  \<open>lab35_ORANGE = lit ''d97706''\<close>

definition lab35_add_slide :: "pycall \<Rightarrow> pyval list \<Rightarrow> (pyexc, pyval list) res" where
  "lab35_add_slide = add_slide_fallback"

definition lab35_items_01 :: pyval where [lab35_contents]:
  \<open>lab35_items_01 =
   PyList
   [PyDict
     [(''type'', PyStr (lit ''cover'')),
      (''title'', PyStr []),
      (''items'', PyList
        [PyStr (lit ''Retro CRT monitor dengan scanlines dan '' @ lit ''kurva phosphor''),
         PyStr (lit ''Framing RFC 6455 vs text/event-stream HTTP '' @ lit ''streaming''),
         PyStr (lit ''Penulis: '' @ lab35_AUTHOR)])]]\<close>

definition lab35_slide_01 :: pycall where [lab35_slides]:
  \<open>lab35_slide_01 =
   \<lparr>posargs = [],
  kwargs =
   [(''categories'', PyList
      [PyStr (lit ''COVER'')]),
    (''title'', PyStr lab35_TITLE_ID),
    (''subtitle'', PyStr lab35_SUBTITLE_ID),
    (''content_items'', lab35_items_01),
    (''mental_model'', PyStr (lit ''Directionality dictates the protocol: '' @
        lit ''server-push belongs to SSE, bidirectional '' @ lit ''belongs to WebSocket.'')),
    (''source_path'', PyStr (lit ''labs/35-websocket-and-sse/README.md'')),
    (''slide_num'', PyStr (lit ''01 / 24'')),
    (''narrative'', PyStr []),
    (''title_en'', PyStr lab35_TITLE_EN),
    (''narrative_en'', PyStr (lit ''Real-time protocols must be chosen based on '' @
        lit ''communication directionality rather than '' @ lit ''trend.''))]\<rparr>\<close>

definition lab35_items_02 :: pyval where [lab35_contents]:
  \<open>lab35_items_02 =
   PyList
   [PyDict
     [(''title'', PyStr (lit ''GEJALA UMUM'')),
      (''items'', PyList
        [PyStr (lit ''Fitur notifikasi dan live dashboard sering '' @
            lit ''otomatis dipasangi WebSocket''),
         PyStr (lit ''WebSocket memaksakan upgrade TCP, heartbeat '' @
            lit ''kustom, dan reconnection manual''),
         PyStr (lit ''Proxy reverse dan load balancer memerlukan '' @
            lit ''sticky routing yang rumit'')]),
      (''type'', PyStr (lit ''bullet''))],
    PyDict
     [(''title'', PyStr (lit ''BIAYA OPERASIONAL'')),
      (''items'', PyList
        [PyStr (lit ''Stateful connection membebani memori saat '' @
            lit ''client hanya membaca data pasif''),
         PyStr (lit ''Kegagalan reconnection storm melumpuhkan '' @ lit ''gateway saat restart''),
         PyStr (lit ''Debugging framing biner lebih sulit '' @
            lit ''dibanding stream teks standar'')]),
      (''type'', PyStr (lit ''bullet''))],
    PyDict
     [(''title'', PyStr (lit ''PERTANYAAN UTAMA'')),
      (''items'', PyList
        [PyStr (lit ''Kapan arsitektur benar-benar memerlukan '' @
            lit ''pipa dua arah (bidirectional)?''),
         PyStr (lit ''Bagaimana memanfaatkan streaming HTTP '' @
            lit ''standar tanpa overhead WebSocket?'')]),
      (''type'', PyStr (lit ''bullet''))]]\<close>

definition lab35_slide_02 :: pycall where [lab35_slides]:
  \<open>lab35_slide_02 =
   \<lparr>posargs = [],
  kwargs =
   [(''categories'', PyList
      [PyStr (lit ''MOTIVASI''),
       PyStr (lit ''LATAR BELAKANG'')]),
    (''title'', PyStr (lit ''Dilema Protokol Real-Time Modern'')),
    (''subtitle'', PyStr (lit ''Kesalahan pemilihan protokol memicu beban '' @
        lit ''operasional dan kompleksitas stateful'')),
    (''content_items'', lab35_items_02),
    (''mental_model'', PyStr (lit ''Do not pay bidirectional connection tax for '' @
        lit ''unidirectional server push.'')),
    (''source_path'', PyStr (lit ''labs/35-websocket-and-sse/README.md'')),
    (''slide_num'', PyStr (lit ''02 / 24'')),
    (''narrative'', PyStr (lit ''Banyak tim rekayasa perangkat lunak '' @
        lit ''menganggap WebSocket sebagai standar de '' @
        lit ''facto untuk semua kebutuhan real-time. '' @
        lit ''Padahal, memasang WebSocket untuk use case '' @
        lit ''satu arah seperti notifikasi atau live '' @
        lit ''dashboard memperkenalkan overhead '' @
        lit ''operasional yang tidak perlu. SSE '' @
        lit ''menyediakan mekanisme server push berbasis '' @
        lit ''HTTP murni yang jauh lebih ramah proxy dan '' @ lit ''hemat resource.'')),
    (''title_en'', PyStr (lit ''The Modern Real-Time Protocol Dilemma'')),
    (''narrative_en'', PyStr (lit ''Engineering teams often treat WebSocket as '' @
        lit ''the default choice for all real-time '' @
        lit ''requirements. Adopting WebSocket for '' @
        lit ''strictly unidirectional use cases '' @
        lit ''introduces unnecessary operational '' @
        lit ''overhead. Server-Sent Events offers '' @
        lit ''standard HTTP push that is lightweight and '' @ lit ''proxy-friendly.''))]\<rparr>\<close>

definition lab35_items_03 :: pyval where [lab35_contents]:
  \<open>lab35_items_03 =
   PyList
   [PyDict
     [(''title'', PyStr (lit ''SERVER-PUSH ONLY'')),
      (''items'', PyList
        [PyStr (lit ''Arah komunikasi: Server -> Client secara '' @ lit ''sepihak''),
         PyStr (lit ''Contoh: Notifikasi sistem, live stock '' @
            lit ''ticker, streaming token LLM''),
         PyStr (lit ''Solusi tepat: Server-Sent Events (SSE) '' @ lit ''berbasis HTTP standar'')]),
      (''type'', PyStr (lit ''bullet''))],
    PyDict
     [(''title'', PyStr (lit ''FULL-DUPLEX BIDIRECTIONAL'')),
      (''items'', PyList
        [PyStr (lit ''Arah komunikasi: Server <-> Client secara '' @
            lit ''independen dan simultan''),
         PyStr (lit ''Contoh: Chat interaktif, collaborative '' @
            lit ''canvas, multiplayer game''),
         PyStr (lit ''Solusi tepat: WebSocket (RFC 6455) atas '' @ lit ''koneksi raw TCP'')]),
      (''type'', PyStr (lit ''bullet''))],
    PyDict
     [(''title'', PyStr (lit ''PEDOMAN ARSITEKTUR'')),
      (''items'', PyList
        [PyStr (lit ''Jika client tidak pernah mengirim pesan di '' @
            lit ''channel yang sama: pilih SSE''),
         PyStr (lit ''Jika client harus push data dengan latensi '' @
            lit ''sub-milidetik: pilih WebSocket'')]),
      (''type'', PyStr (lit ''bullet''))]]\<close>

definition lab35_slide_03 :: pycall where [lab35_slides]:
  \<open>lab35_slide_03 =
   \<lparr>posargs = [],
  kwargs =
   [(''categories'', PyList
      [PyStr (lit ''MENTAL MODEL''),
       PyStr (lit ''ATURAN KEPUTUSAN'')]),
    (''title'', PyStr (lit ''Mental Model: Directionality Rule'')),
    (''subtitle'', PyStr (lit ''Arah aliran pesan menentukan protokol, '' @
        lit ''bukan sekadar latensi atau tren'')),
    (''content_items'', lab35_items_03),
    (''mental_model'', PyStr (lit ''Directionality dictates the protocol: '' @
        lit ''server-push belongs to SSE, bidirectional '' @ lit ''belongs to WebSocket.'')),
    (''source_path'', PyStr (lit ''labs/35-websocket-and-sse/content/01-content'' @ lit ''-brief.md'')),
    (''slide_num'', PyStr (lit ''03 / 24'')),
    (''narrative'', PyStr (lit ''Keputusan arsitektural dapat disederhanakan '' @
        lit ''melalui satu pertanyaan fundamental: apakah '' @
        lit ''client perlu mengirim pesan ke server '' @
        lit ''secara independen pada saluran yang sama? '' @
        lit ''Jika komunikasi hanya satu arah dari server '' @
        lit ''ke client, SSE memberikan solusi paling '' @
        lit ''bersih. WebSocket hanya diwajibkan ketika '' @
        lit ''komunikasi dua arah berlatensi rendah '' @ lit ''mutlak diperlukan.'')),
    (''title_en'', PyStr (lit ''Core Mental Model: Directionality Rule'')),
    (''narrative_en'', PyStr (lit ''Architectural selection reduces to one '' @
        lit ''question: does the client send messages '' @
        lit ''upstream independently over the same '' @
        lit ''channel? If communication flows strictly '' @
        lit ''server-to-client, SSE is optimal. WebSocket '' @
        lit ''is reserved for genuine full-duplex '' @ lit ''requirements.''))]\<rparr>\<close>

definition lab35_items_04 :: pyval where [lab35_contents]:
  \<open>lab35_items_04 =
   PyList
   [PyDict
     [(''title'', PyStr (lit ''ENDPOINT DISPATCH'')),
      (''items'', PyList
        [PyStr (lit ''GET /sse      -> SSE Hub (Handler streaming '' @
            lit ''text/event-stream)''),
         PyStr (lit ''GET /ws       -> WebSocket Upgrader (RFC '' @ lit ''6455 Hijack + loop)''),
         PyStr (lit ''POST /publish -> Trigger broadcast event ke '' @
            lit ''seluruh client SSE aktif'')]),
      (''type'', PyStr (lit ''bullet''))],
    PyDict
     [(''title'', PyStr (lit ''ZERO DEPENDENCIES'')),
      (''items'', PyList
        [PyStr (lit ''Implementasi 100% Go Standard Library '' @
            lit ''(net/http, sync, crypto)''),
         PyStr (lit ''Tanpa gorilla/websocket atau pustaka '' @ lit ''eksternal pihak ketiga''),
         PyStr (lit ''Membuktikan mekanisme low-level framing dan '' @
            lit ''HTTP connection hijacking'')]),
      (''type'', PyStr (lit ''bullet''))],
    PyDict
     [(''title'', PyStr (lit ''ISOLASI KOMPONEN'')),
      (''items'', PyList
        [PyStr (lit ''internal/sse: Hub broadcast dengan buffer '' @
            lit ''history dan Last-Event-ID''),
         PyStr (lit ''internal/ws: RFC 6455 parser, unmasking '' @
            lit ''XOR, frame text & binary'')]),
      (''type'', PyStr (lit ''bullet''))]]\<close>

definition lab35_slide_04 :: pycall where [lab35_slides]:
  \<open>lab35_slide_04 =
   \<lparr>posargs = [],
  kwargs =
   [(''categories'', PyList
      [PyStr (lit ''ARSITEKTUR''),
       PyStr (lit ''TOPOLOGI'')]),
    (''title'', PyStr (lit ''Topologi Arsitektur Lab 35'')),
    (''subtitle'', PyStr (lit ''Unified HTTP Router di Go menghosting /sse, '' @
        lit ''/ws, dan /publish secara murni'')),
    (''content_items'', lab35_items_04),
    (''mental_model'', PyStr (lit ''Unified standard library architecture '' @
        lit ''demonstrates both protocols side by side '' @
        lit ''without third-party bias.'')),
    (''source_path'', PyStr (lit ''labs/35-websocket-and-sse/internal/server/se'' @ lit ''rver.go'')),
    (''slide_num'', PyStr (lit ''04 / 24'')),
    (''narrative'', PyStr (lit ''Lab 35 mendemonstrasikan kedua protokol di '' @
        lit ''bawah satu HTTP ServeMux di '' @
        lit ''internal/server/server.go. Pendekatan zero '' @
        lit ''external dependencies membongkar bagaimana '' @
        lit ''Go standard library mampu menangani '' @
        lit ''streaming HTTP (SSE) melalui http.Flusher '' @
        lit ''sekaligus protokol non-HTTP (WebSocket) '' @
        lit ''melalui interface http.Hijacker.'')),
    (''title_en'', PyStr (lit ''Lab 35 Comparative Architecture'')),
    (''narrative_en'', PyStr (lit ''Lab 35 hosts both protocols under a single '' @
        lit ''Go HTTP ServeMux. The zero-dependency '' @
        lit ''implementation reveals how standard library '' @
        lit ''interfaces handle persistent HTTP streaming '' @
        lit ''via http.Flusher and raw protocol '' @ lit ''transitions via http.Hijacker.''))]\<rparr>\<close>

definition lab35_items_05 :: pyval where [lab35_contents]:
  \<open>lab35_items_05 =
   PyList
   [PyDict
     [(''title'', PyStr (lit ''HEADER STANDAR HTTP'')),
      (''items'', PyList
        [PyStr (lit ''Content-Type: text/event-stream (wajib '' @
            lit ''untuk browser EventSource)''),
         PyStr (lit ''Cache-Control: no-cache (mencegah caching '' @ lit ''di perantara)''),
         PyStr (lit ''Connection: keep-alive (menjaga socket TCP '' @ lit ''tetap terbuka)''),
         PyStr (lit ''X-Accel-Buffering: no (menonaktifkan '' @
            lit ''buffering di Nginx proxy)'')]),
      (''type'', PyStr (lit ''bullet''))],
    PyDict
     [(''title'', PyStr (lit ''STRUKTUR FRAME EVENT'')),
      (''items'', PyList
        [PyStr (lit ''id: <nomor>        -> Identifier unik untuk '' @ lit ''resumption''),
         PyStr (lit ''event: <nama>      -> Tipe custom event '' @ lit ''untuk event listener''),
         PyStr (lit ''retry: <milidetik> -> Durasi tunggu '' @ lit ''reconnect client browser''),
         PyStr (lit ''data: <konten>     -> Payload teks (dapat '' @
            lit ''multi-line dengan data: prefix)'')]),
      (''type'', PyStr (lit ''bullet''))],
    PyDict
     [(''title'', PyStr (lit ''DELIMITER BLOK'')),
      (''items'', PyList
        [PyStr (lit ''Setiap baris diakhiri '' @ [92] @ lit ''n tunggal''),
         PyStr (lit ''Akhir dari satu blok event ditandai dengan '' @ [92] @ lit ''n'' @ [92] @
            lit ''n ganda'')]),
      (''type'', PyStr (lit ''bullet''))]]\<close>

definition lab35_slide_05 :: pycall where [lab35_slides]:
  \<open>lab35_slide_05 =
   \<lparr>posargs = [],
  kwargs =
   [(''categories'', PyList
      [PyStr (lit ''SPESIFIKASI''),
       PyStr (lit ''WHATWG SSE'')]),
    (''title'', PyStr (lit ''Anatomi Server-Sent Events (SSE)'')),
    (''subtitle'', PyStr (lit ''Streaming teks persisten berbasis HTTP '' @
        lit ''dengan MIME type text/event-stream'')),
    (''content_items'', lab35_items_05),
    (''mental_model'', PyStr (lit ''SSE is plain HTTP with structured text '' @
        lit ''frames delimited by double newlines.'')),
    (''source_path'', PyStr (lit ''labs/35-websocket-and-sse/internal/sse/sse.g'' @ lit ''o:19'')),
    (''slide_num'', PyStr (lit ''05 / 24'')),
    (''narrative'', PyStr (lit ''Spesifikasi WHATWG mendefinisikan SSE '' @
        lit ''sebagai respons HTTP berdurasi panjang '' @
        lit ''dengan format text/event-stream. Setiap '' @
        lit ''event terdiri dari field id, event, retry, '' @
        lit ''dan data yang diakhiri oleh double newline. '' @
        lit ''Karena berbasis HTTP murni, SSE langsung '' @
        lit ''kompatibel dengan infrastruktur web yang '' @
        lit ''ada seperti TLS termination dan monitoring.'')),
    (''title_en'', PyStr (lit ''Anatomy of Server-Sent Events (SSE)'')),
    (''narrative_en'', PyStr (lit ''The WHATWG specification defines SSE as a '' @
        lit ''long-lived HTTP response using '' @
        lit ''text/event-stream. Each event comprises id, '' @
        lit ''event, retry, and data fields terminated by '' @
        lit ''double newlines. Operating over pure HTTP '' @
        lit ''ensures immediate compatibility with web '' @ lit ''infrastructure.''))]\<rparr>\<close>

definition lab35_items_06 :: pyval where [lab35_contents]:
  \<open>lab35_items_06 =
   PyList
   [PyDict
     [(''title'', PyStr (lit ''KODE SSE FORMAT'')),
      (''items'', PyList
        [PyStr (lit ''func (e Event) Format() []byte {''),
         PyStr (lit ''    var sb strings.Builder''),
         PyStr (lit ''    if e.ID > 0 { fmt.Fprintf(&sb, "id: %d'' @ [92] @ lit ''n", e.ID) }''),
         PyStr (lit ''    if e.Event != "" { fmt.Fprintf(&sb, '' @ lit ''"event: %s'' @ [92] @
            lit ''n", e.Event) }''),
         PyStr (lit ''    if e.Retry > 0 { fmt.Fprintf(&sb, '' @ lit ''"retry: %d'' @ [92] @
            lit ''n", e.Retry) }''),
         PyStr (lit ''    lines := strings.Split(e.Data, "'' @ [92] @ lit ''n")''),
         PyStr (lit ''    for _, l := range lines {''),
         PyStr (lit ''        fmt.Fprintf(&sb, "data: %s'' @ [92] @ lit ''n", l)''),
         PyStr (lit ''    }''),
         PyStr (lit ''    sb.WriteString("'' @ [92] @ lit ''n")''),
         PyStr (lit ''    return []byte(sb.String())''),
         PyStr (lit ''}'')]),
      (''type'', PyStr (lit ''code''))],
    PyDict
     [(''title'', PyStr (lit ''ATURAN MULTI-LINE'')),
      (''items'', PyList
        [PyStr (lit ''Payload data yang memiliki newline harus '' @
            lit ''dipecah menjadi beberapa baris data:''),
         PyStr (lit ''Browser EventSource akan menggabungkan '' @
            lit ''kembali baris-baris tersebut dengan newline''),
         PyStr (lit ''Trailing newline kedua menutup frame dan '' @
            lit ''memicu event dispatch di client'')]),
      (''type'', PyStr (lit ''bullet''))]]\<close>

definition lab35_slide_06 :: pycall where [lab35_slides]:
  \<open>lab35_slide_06 =
   \<lparr>posargs = [],
  kwargs =
   [(''categories'', PyList
      [PyStr (lit ''BUKTI KODE''),
       PyStr (lit ''SSE FORMATTING'')]),
    (''title'', PyStr (lit ''Format Event SSE: Multi-Line Framing'')),
    (''subtitle'', PyStr (lit ''Implementasi method Event.Format() '' @
        lit ''memastikan kepatuhan spesifikasi WHATWG'')),
    (''content_items'', lab35_items_06),
    (''mental_model'', PyStr (lit ''Split multi-line data payloads across '' @
        lit ''multiple data prefixes before terminating '' @ lit ''with double newline.'')),
    (''source_path'', PyStr (lit ''labs/35-websocket-and-sse/internal/sse/sse.g'' @ lit ''o:19-36'')),
    (''slide_num'', PyStr (lit ''06 / 24'')),
    (''narrative'', PyStr (lit ''Method Format() pada struct Event mematuhi '' @
        lit ''aturan WHATWG secara ketat. Jika payload '' @
        lit ''mengandung baris baru, setiap baris harus '' @ lit ''diawali prefiks '' @
        [39] @ lit ''data: '' @ [39] @
        lit ''. Kegagalan memecah baris baru akan merusak '' @
        lit ''parsing client EventSource di browser. '' @
        lit ''Karakter double newline di akhir menjadi '' @
        lit ''sinyal bahwa frame event telah lengkap.'')),
    (''title_en'', PyStr (lit ''SSE Event Formatting in Go'')),
    (''narrative_en'', PyStr (lit ''The Format() method enforces WHATWG rules. '' @
        lit ''When payloads contain newlines, each line '' @ lit ''must carry a '' @ [39] @
        lit ''data: '' @ [39] @ lit '' prefix. Client parsers assemble these '' @
        lit ''lines sequentially. The final double '' @
        lit ''newline marks the completion of the event '' @ lit ''frame.''))]\<rparr>\<close>

definition lab35_items_07 :: pyval where [lab35_contents]:
  \<open>lab35_items_07 =
   PyList
   [PyDict
     [(''title'', PyStr (lit ''MEKANISME RESUMPTION'')),
      (''items'', PyList
        [PyStr (lit ''Client terputus -> browser otomatis '' @
            lit ''reconnect mengirim header Last-Event-ID''),
         PyStr (lit ''Hub membaca Last-Event-ID dan memfilter '' @
            lit ''history: evt.ID > lastID''),
         PyStr (lit ''Event yang terlewat dikirimkan seketika '' @
            lit ''sebelum mendengarkan stream live'')]),
      (''type'', PyStr (lit ''bullet''))],
    PyDict
     [(''title'', PyStr (lit ''KODE SUBSCRIBE & REPLAY'')),
      (''items'', PyList
        [PyStr (lit ''func (h *Hub) Subscribe(lastID int) (chan '' @
            lit ''Event, []Event, func()) {''),
         PyStr (lit ''    h.mu.Lock(); defer h.mu.Unlock()''),
         PyStr (lit ''    var replay []Event''),
         PyStr (lit ''    for _, evt := range h.history {''),
         PyStr (lit ''        if evt.ID > lastID { replay = '' @ lit ''append(replay, evt) }''),
         PyStr (lit ''    }''),
         PyStr (lit ''    ch := make(chan Event, 64)''),
         PyStr (lit ''    h.clients[ch] = struct{}{}''),
         PyStr (lit ''    return ch, replay, func() { ... }''),
         PyStr (lit ''}'')]),
      (''type'', PyStr (lit ''code''))],
    PyDict
     [(''title'', PyStr (lit ''JAMINAN KONSISTENSI'')),
      (''items'', PyList
        [PyStr (lit ''Client tidak kehilangan update penting '' @
            lit ''akibat network flap sementara''),
         PyStr (lit ''Proses terjadi transparan tanpa perlu '' @
            lit ''logika retry kustom di aplikasi'')]),
      (''type'', PyStr (lit ''bullet''))]]\<close>

definition lab35_slide_07 :: pycall where [lab35_slides]:
  \<open>lab35_slide_07 =
   \<lparr>posargs = [],
  kwargs =
   [(''categories'', PyList
      [PyStr (lit ''LOGIKA SISTEM''),
       PyStr (lit ''RECOVERY'')]),
    (''title'', PyStr (lit ''SSE Hub: Resumption via Last-Event-ID'')),
    (''subtitle'', PyStr (lit ''State management memutar ulang event '' @
        lit ''tertinggal saat client melakukan reconnect'')),
    (''content_items'', lab35_items_07),
    (''mental_model'', PyStr (lit ''Last-Event-ID is a built-in recovery '' @
        lit ''offset: replay what was missed, then stream '' @ lit ''live.'')),
    (''source_path'', PyStr (lit ''labs/35-websocket-and-sse/internal/sse/sse.g'' @ lit ''o:74-96'')),
    (''slide_num'', PyStr (lit ''07 / 24'')),
    (''narrative'', PyStr (lit ''Fitur paling unggul dari SSE adalah '' @
        lit ''kemampuan auto-reconnect bawaan yang '' @
        lit ''dipadukan dengan header Last-Event-ID. '' @
        lit ''Ketika koneksi putus, browser secara '' @
        lit ''otomatis mengirimkan ID terakhir yang '' @
        lit ''diterimanya. Hub di backend menyaring '' @
        lit ''riwayat in-memory dan langsung memutar '' @
        lit ''ulang event yang terlewat sebelum '' @
        lit ''menyambungkan client ke antrean live.'')),
    (''title_en'', PyStr (lit ''SSE Hub: Resumption via Last-Event-ID'')),
    (''narrative_en'', PyStr (lit ''SSE'' @ [39] @ lit ''s defining advantage is native browser '' @
        lit ''reconnection coupled with the Last-Event-ID '' @
        lit ''header. Upon disconnection, the browser '' @
        lit ''retransmits its latest ID. The hub replays '' @
        lit ''missed events from buffer memory before '' @ lit ''piping real-time events.''))]\<rparr>\<close>

definition lab35_items_08 :: pyval where [lab35_contents]:
  \<open>lab35_items_08 =
   PyList
   [PyDict
     [(''title'', PyStr (lit ''KODE SERVEHTTP SSE'')),
      (''items'', PyList
        [PyStr (lit ''flusher, ok := w.(http.Flusher)''),
         PyStr (lit ''for {''),
         PyStr (lit ''    select {''),
         PyStr (lit ''    case <-ctx.Done(): return''),
         PyStr (lit ''    case evt, ok := <-ch:''),
         PyStr (lit ''        if !ok { return }''),
         PyStr (lit ''        w.Write(evt.Format())''),
         PyStr (lit ''        flusher.Flush()''),
         PyStr (lit ''    case <-ticker.C:''),
         PyStr (lit ''        w.Write([]byte(": keep-alive'' @ [92] @ lit ''n'' @ [92] @
            lit ''n"))''),
         PyStr (lit ''        flusher.Flush()''),
         PyStr (lit ''    }''),
         PyStr (lit ''}'')]),
      (''type'', PyStr (lit ''code''))],
    PyDict
     [(''title'', PyStr (lit ''PERAN FLUSHER'')),
      (''items'', PyList
        [PyStr (lit ''http.Flusher mendorong buffer HTTP kernel '' @
            lit ''seketika tanpa menunggu penuh''),
         PyStr (lit ''Mencegah penumpukan paket di TCP socket '' @ lit ''buffer'')]),
      (''type'', PyStr (lit ''bullet''))],
    PyDict
     [(''title'', PyStr (lit ''KOMENTAR KEEP-ALIVE'')),
      (''items'', PyList
        [PyStr (lit ''Prefix titik dua ('' @ [39] @ lit '':'' @ [39] @
            lit '') diabaikan oleh parser EventSource browser''),
         PyStr (lit ''Mengirim data setiap 15 detik untuk menjaga '' @
            lit ''state NAT/Firewall proxy tetap open'')]),
      (''type'', PyStr (lit ''bullet''))]]\<close>

definition lab35_slide_08 :: pycall where [lab35_slides]:
  \<open>lab35_slide_08 =
   \<lparr>posargs = [],
  kwargs =
   [(''categories'', PyList
      [PyStr (lit ''BUKTI KODE''),
       PyStr (lit ''CONCURRENCY'')]),
    (''title'', PyStr (lit ''Loop Streaming HTTP & Heartbeat'')),
    (''subtitle'', PyStr (lit ''Flush berkala dan komentar keep-alive '' @
        lit ''mencegah timeout reverse proxy'')),
    (''content_items'', lab35_items_08),
    (''mental_model'', PyStr (lit ''Flushing pushes frames instantly; comment '' @
        lit ''frames defeat proxy idle timeouts.'')),
    (''source_path'', PyStr (lit ''labs/35-websocket-and-sse/internal/sse/sse.g'' @ lit ''o:98-151'')),
    (''slide_num'', PyStr (lit ''08 / 24'')),
    (''narrative'', PyStr (lit ''Koneksi SSE memerlukan http.Flusher agar '' @
        lit ''frame teks terkirim ke client seketika '' @
        lit ''tanpa tertahan di buffer Go runtime. Loop '' @
        lit ''select memantau tiga hal: sinyal pemutusan '' @
        lit ''dari context request, event baru dari '' @
        lit ''broadcast channel, dan ticker 15 detik yang '' @ lit ''mengirim komentar '' @
        [39] @ lit '': keep-alive'' @ [39] @
        lit '' untuk mencegah proxy memutus koneksi '' @ lit ''akibat idle timeout.'')),
    (''title_en'', PyStr (lit ''HTTP Streaming Loop & Keep-Alive'')),
    (''narrative_en'', PyStr (lit ''SSE streaming requires http.Flusher to push '' @
        lit ''frames through Go runtime buffers '' @
        lit ''immediately. The select loop handles client '' @
        lit ''termination contexts, live channel '' @
        lit ''broadcasts, and a 15-second ticker sending '' @ [39] @ lit '': keep-alive'' @
        [39] @ lit '' comments to prevent intermediate proxy '' @ lit ''timeouts.''))]\<rparr>\<close>

definition lab35_items_09 :: pyval where [lab35_contents]:
  \<open>lab35_items_09 =
   PyList
   [PyDict
     [(''title'', PyStr (lit ''HANDSHAKE HTTP/1.1'')),
      (''items'', PyList
        [PyStr (lit ''Request: GET /ws dengan Upgrade: websocket '' @
            lit ''& Connection: Upgrade''),
         PyStr (lit ''Sec-WebSocket-Key: Nilai random 16-byte '' @ lit ''yang di-encode base64''),
         PyStr (lit ''Respons: HTTP/1.1 101 Switching Protocols''),
         PyStr (lit ''Sec-WebSocket-Accept: base64(SHA-1(Key + '' @ lit ''WS_GUID))'')]),
      (''type'', PyStr (lit ''bullet''))],
    PyDict
     [(''title'', PyStr (lit ''KONEKSI NON-HTTP'')),
      (''items'', PyList
        [PyStr (lit ''Setelah status 101, socket dilepas dari '' @
            lit ''HTTP engine (Hijacked)''),
         PyStr (lit ''Komunikasi beralih ke framing biner raw TCP '' @ lit ''berarah ganda''),
         PyStr (lit ''Server dan client dapat mengirim frame '' @
            lit ''kapan saja secara simultan'')]),
      (''type'', PyStr (lit ''bullet''))],
    PyDict
     [(''title'', PyStr (lit ''TIPE PAYLOAD'')),
      (''items'', PyList
        [PyStr (lit ''Mendukung teks UTF-8 murni (Opcode 0x1)''),
         PyStr (lit ''Mendukung raw binary byte array (Opcode 0x2)''),
         PyStr (lit ''Control frames: Close (0x8), Ping (0x9), '' @ lit ''Pong (0xA)'')]),
      (''type'', PyStr (lit ''bullet''))]]\<close>

definition lab35_slide_09 :: pycall where [lab35_slides]:
  \<open>lab35_slide_09 =
   \<lparr>posargs = [],
  kwargs =
   [(''categories'', PyList
      [PyStr (lit ''SPESIFIKASI''),
       PyStr (lit ''RFC 6455'')]),
    (''title'', PyStr (lit ''Anatomi Protokol WebSocket (RFC 6455)'')),
    (''subtitle'', PyStr (lit ''Protokol non-HTTP full-duplex melalui '' @
        lit ''upgrade TCP connection tunggal'')),
    (''content_items'', lab35_items_09),
    (''mental_model'', PyStr (lit ''WebSocket begins as HTTP handshake then '' @
        lit ''metamorphoses into raw TCP binary framing.'')),
    (''source_path'', PyStr (lit ''labs/35-websocket-and-sse/internal/ws/ws.go:'' @ lit ''31-76'')),
    (''slide_num'', PyStr (lit ''09 / 24'')),
    (''narrative'', PyStr (lit ''WebSocket dirancang oleh IETF RFC 6455 '' @
        lit ''untuk menghadirkan kanal dua arah '' @
        lit ''berlatensi rendah. Koneksi diawali dengan '' @
        lit ''request HTTP biasa yang meminta Upgrade. '' @
        lit ''Server merespons dengan 101 Switching '' @ lit ''Protocols dan menghitung '' @
        lit ''Sec-WebSocket-Accept menggunakan GUID '' @
        lit ''standar. Setelah itu, socket sepenuhnya '' @
        lit ''beralih ke parsing frame biner.'')),
    (''title_en'', PyStr (lit ''Anatomy of WebSocket Protocol (RFC 6455)'')),
    (''narrative_en'', PyStr (lit ''WebSocket was standardized by IETF RFC 6455 '' @
        lit ''to provide low-latency full-duplex '' @
        lit ''communication over single TCP connections. '' @
        lit ''Following an HTTP 101 Switching Protocols '' @
        lit ''handshake, the underlying socket shifts '' @
        lit ''entirely to raw binary framing.''))]\<rparr>\<close>

definition lab35_items_10 :: pyval where [lab35_contents]:
  \<open>lab35_items_10 =
   PyList
   [PyDict
     [(''title'', PyStr (lit ''KODE UPGRADE GO'')),
      (''items'', PyList
        [PyStr (lit ''h := sha1.New()''),
         PyStr (lit ''h.Write([]byte(key + '' @ lit ''"258EAFA5-E914-47DA-95CA-C5AB0DC85B11"))''),
         PyStr (lit ''accept := base64.StdEncoding.EncodeToString('' @ lit ''h.Sum(nil))''),
         PyStr [],
         PyStr (lit ''hj, ok := w.(http.Hijacker)''),
         PyStr (lit ''netConn, bufrw, err := hj.Hijack()''),
         PyStr (lit ''resp := "HTTP/1.1 101 Switching Protocols'' @ [92] @ lit ''r'' @ [92] @
            lit ''n" +''),
         PyStr (lit ''    "Upgrade: websocket'' @ [92] @ lit ''r'' @ [92] @
            lit ''nConnection: Upgrade'' @ [92] @ lit ''r'' @ [92] @ lit ''n" +''),
         PyStr (lit ''    "Sec-WebSocket-Accept: " + accept + "'' @ [92] @ lit ''r'' @ [92] @
            lit ''n'' @ [92] @ lit ''r'' @ [92] @ lit ''n"''),
         PyStr (lit ''bufrw.WriteString(resp); bufrw.Flush()'')]),
      (''type'', PyStr (lit ''code''))],
    PyDict
     [(''title'', PyStr (lit ''IMPLIKASI HIJACK'')),
      (''items'', PyList
        [PyStr (lit ''net/http tidak lagi mengelola timeout atau '' @ lit ''penutupan socket''),
         PyStr (lit ''Aplikasi bertanggung jawab penuh atas '' @
            lit ''buffer I/O dan life cycle koneksi'')]),
      (''type'', PyStr (lit ''bullet''))]]\<close>

definition lab35_slide_10 :: pycall where [lab35_slides]:
  \<open>lab35_slide_10 =
   \<lparr>posargs = [],
  kwargs =
   [(''categories'', PyList
      [PyStr (lit ''BUKTI KODE''),
       PyStr (lit ''HIJACKING'')]),
    (''title'', PyStr (lit ''Handshake Upgrade & Connection Hijacking'')),
    (''subtitle'', PyStr (lit ''Mengambil alih raw socket TCP dari HTTP '' @
        lit ''Server menggunakan http.Hijacker'')),
    (''content_items'', lab35_items_10),
    (''mental_model'', PyStr (lit ''Hijacking frees the raw TCP socket from '' @
        lit ''net/http lifecycle constraints.'')),
    (''source_path'', PyStr (lit ''labs/35-websocket-and-sse/internal/ws/ws.go:'' @ lit ''43-76'')),
    (''slide_num'', PyStr (lit ''10 / 24'')),
    (''narrative'', PyStr (lit ''Fungsi Upgrade() mendemonstrasikan '' @
        lit ''kalkulasi kriptografis Sec-WebSocket-Accept '' @
        lit ''sesuai RFC 6455. Dengan memanggil '' @
        lit ''w.(http.Hijacker).Hijack(), Go melepaskan '' @
        lit ''kendali socket TCP dari net/http runtime. '' @
        lit ''Server menulis respons 101 Switching '' @
        lit ''Protocols secara langsung ke buffer TCP dan '' @
        lit ''membungkus socket ke dalam struct Conn '' @ lit ''kustom.'')),
    (''title_en'', PyStr (lit ''WebSocket Upgrade & Connection Hijacking'')),
    (''narrative_en'', PyStr (lit ''The Upgrade() function computes the '' @
        lit ''Sec-WebSocket-Accept challenge. By invoking '' @
        lit ''http.Hijacker, Go transfers socket '' @
        lit ''ownership from net/http. The server writes '' @
        lit ''101 Switching Protocols headers directly to '' @
        lit ''TCP buffers and wraps the connection into a '' @ lit ''custom struct.''))]\<rparr>\<close>

definition lab35_items_11 :: pyval where [lab35_contents]:
  \<open>lab35_items_11 =
   PyList
   [PyDict
     [(''title'', PyStr (lit ''LAYOUT FRAME RFC 6455'')),
      (''items'', PyList
        [PyStr (lit ''Byte 0: FIN (1 bit) + RSV (3 bits) + Opcode '' @ lit ''(4 bits)''),
         PyStr (lit ''Byte 1: MASK (1 bit) + Payload Length (7 '' @ lit ''bits)''),
         PyStr (lit ''Extended Length (opsional): 2 bytes (jika '' @
            lit ''len=126) atau 8 bytes (jika len=127)''),
         PyStr (lit ''Masking Key: 4 bytes (wajib ada untuk frame '' @
            lit ''dari client ke server)''),
         PyStr (lit ''Payload Data: N bytes (dimasking dengan XOR '' @ lit ''jika MASK=1)'')]),
      (''type'', PyStr (lit ''diagram''))],
    PyDict
     [(''title'', PyStr (lit ''ENCODING PANJANG PAYLOAD'')),
      (''items'', PyList
        [PyStr (lit ''<= 125 bytes     -> Cukup 7 bit pada Byte 1''),
         PyStr (lit ''126 - 65,535     -> 7 bit bernilai 126 + 2 '' @
            lit ''byte uint16 BigEndian''),
         PyStr (lit ''> 65,535 bytes   -> 7 bit bernilai 127 + 8 '' @
            lit ''byte uint64 BigEndian'')]),
      (''type'', PyStr (lit ''bullet''))],
    PyDict
     [(''title'', PyStr (lit ''ATURAN MASKING'')),
      (''items'', PyList
        [PyStr (lit ''Client -> Server: Wajib dimasking (mencegah '' @
            lit ''cache poisoning perantara)''),
         PyStr (lit ''Server -> Client: Dilarang dimasking (RFC '' @ lit ''6455 Section 5.1)'')]),
      (''type'', PyStr (lit ''bullet''))]]\<close>

definition lab35_slide_11 :: pycall where [lab35_slides]:
  \<open>lab35_slide_11 =
   \<lparr>posargs = [],
  kwargs =
   [(''categories'', PyList
      [PyStr (lit ''SPESIFIKASI''),
       PyStr (lit ''WIRE FRAMING'')]),
    (''title'', PyStr (lit ''Struktur Frame Biner RFC 6455'')),
    (''subtitle'', PyStr (lit ''Encoding header hemat byte dengan mask '' @
        lit ''flag, opcode, dan multi-tier length'')),
    (''content_items'', lab35_items_11),
    (''mental_model'', PyStr (lit ''Bit-level efficiency: 2-byte minimum header '' @
        lit ''accommodates small frames to gigabytes.'')),
    (''source_path'', PyStr (lit ''labs/35-websocket-and-sse/internal/ws/ws.go:'' @ lit ''84-174'')),
    (''slide_num'', PyStr (lit ''11 / 24'')),
    (''narrative'', PyStr (lit ''Struktur frame RFC 6455 dirancang sangat '' @
        lit ''efisien. Header terkecil hanya membutuhkan '' @
        lit ''2 byte. Panjang payload dikodekan secara '' @
        lit ''adaptif: 7 bit untuk pesan kecil, 16 bit '' @
        lit ''untuk ukuran menengah, dan 64 bit untuk '' @
        lit ''data raksasa. Mekanisme masking wajib '' @
        lit ''diterapkan oleh client untuk mencegah '' @
        lit ''eksploitasi cache poisoning pada proxy '' @ lit ''perantara.'')),
    (''title_en'', PyStr (lit ''RFC 6455 Binary Frame Structure'')),
    (''narrative_en'', PyStr (lit ''RFC 6455 framing minimizes wire overhead '' @
        lit ''with a 2-byte base header. Payload lengths '' @
        lit ''encode dynamically across 7-bit, 16-bit, '' @
        lit ''and 64-bit boundaries. Client-to-server '' @
        lit ''masking protects intermediaries against '' @
        lit ''cache poisoning vulnerabilities.''))]\<rparr>\<close>

definition lab35_items_12 :: pyval where [lab35_contents]:
  \<open>lab35_items_12 =
   PyList
   [PyDict
     [(''title'', PyStr (lit ''KODE READFRAME'')),
      (''items'', PyList
        [PyStr (lit ''var head [2]byte''),
         PyStr (lit ''io.ReadFull(c.rw, head[:])''),
         PyStr (lit ''opcode = head[0] & 0x0F''),
         PyStr (lit ''masked := (head[1] & 0x80) != 0''),
         PyStr (lit ''length := uint64(head[1] & 0x7F)''),
         PyStr (lit ''// ... handle extended length ...''),
         PyStr (lit ''if masked {''),
         PyStr (lit ''    io.ReadFull(c.rw, mask[:])''),
         PyStr (lit ''    io.ReadFull(c.rw, data)''),
         PyStr (lit ''    for i := range data {''),
         PyStr (lit ''        data[i] ^= mask[i%4] // Bitwise XOR '' @ lit ''unmasking''),
         PyStr (lit ''    }''),
         PyStr (lit ''}'')]),
      (''type'', PyStr (lit ''code''))],
    PyDict
     [(''title'', PyStr (lit ''SIFAT SIMETRIS XOR'')),
      (''items'', PyList
        [PyStr (lit ''Operasi (A ^ B) ^ B = A''),
         PyStr (lit ''Proses unmasking di server identik dengan '' @
            lit ''proses masking di client''),
         PyStr (lit ''Biaya CPU rendah namun membutuhkan iterasi '' @ lit ''byte-by-byte'')]),
      (''type'', PyStr (lit ''bullet''))]]\<close>

definition lab35_slide_12 :: pycall where [lab35_slides]:
  \<open>lab35_slide_12 =
   \<lparr>posargs = [],
  kwargs =
   [(''categories'', PyList
      [PyStr (lit ''BUKTI KODE''),
       PyStr (lit ''PARSING WIRE'')]),
    (''title'', PyStr (lit ''Parsing Frame & Operasi XOR Masking'')),
    (''subtitle'', PyStr (lit ''Membaca byte header dan memulihkan payload '' @
        lit ''asli client secara bitwise'')),
    (''content_items'', lab35_items_12),
    (''mental_model'', PyStr (lit ''XOR unmasking restores wire bytes in-place: '' @
        lit ''data[i] ^= mask[i % 4].'')),
    (''source_path'', PyStr (lit ''labs/35-websocket-and-sse/internal/ws/ws.go:'' @ lit ''84-127'')),
    (''slide_num'', PyStr (lit ''12 / 24'')),
    (''narrative'', PyStr (lit ''Method ReadFrame() mengekstrak header biner '' @
        lit ''dari stream TCP. Jika bit MASK aktif, '' @
        lit ''server membaca 4 byte masking key. Setiap '' @
        lit ''byte payload kemudian di-XOR dengan mask[i '' @
        lit ''% 4] untuk membuka enkripsi transport. '' @
        lit ''Sifat simetris XOR memungkinkan decoding '' @
        lit ''langsung di memori secara cepat tanpa '' @ lit ''alokasi buffer sekunder.'')),
    (''title_en'', PyStr (lit ''Frame Parsing & XOR Unmasking'')),
    (''narrative_en'', PyStr (lit ''The ReadFrame() method decodes wire bytes '' @
        lit ''from the stream. When the mask bit is set, '' @
        lit ''the server reads the 4-byte key and '' @
        lit ''performs in-place XOR restoration. This '' @
        lit ''guarantees protocol fidelity with minimal '' @ lit ''memory allocation.''))]\<rparr>\<close>

definition lab35_items_13 :: pyval where [lab35_contents]:
  \<open>lab35_items_13 =
   PyList
   [PyDict
     [(''title'', PyStr (lit ''KODE WRITEFRAME'')),
      (''items'', PyList
        [PyStr (lit ''func (c *Conn) WriteFrame(opcode byte, '' @
            lit ''payload []byte, mask bool) error {''),
         PyStr (lit ''    c.mu.Lock(); defer c.mu.Unlock()''),
         PyStr (lit ''    var buf []byte''),
         PyStr (lit ''    b0 := byte(0x80) | (opcode & 0x0F) // '' @ lit ''FIN=1''),
         PyStr (lit ''    buf = append(buf, b0)''),
         PyStr (lit ''    // ... encode length (7, 16, or 64 bit) '' @ lit ''...''),
         PyStr (lit ''    if mask {''),
         PyStr (lit ''        // append maskKey and maskedPayload''),
         PyStr (lit ''    } else {''),
         PyStr (lit ''        buf = append(buf, payload...)''),
         PyStr (lit ''    }''),
         PyStr (lit ''    _, err := c.rw.Write(buf)''),
         PyStr (lit ''    return err''),
         PyStr (lit ''}'')]),
      (''type'', PyStr (lit ''code''))],
    PyDict
     [(''title'', PyStr (lit ''THREAD-SAFETY SOCKET'')),
      (''items'', PyList
        [PyStr (lit ''Mutex memastikan frame tidak terfragmentasi '' @
            lit ''saat ditulis bersamaan''),
         PyStr (lit ''Bit FIN=1 menandai frame lengkap (tidak '' @
            lit ''terpecah dalam continuation)'')]),
      (''type'', PyStr (lit ''bullet''))]]\<close>

definition lab35_slide_13 :: pycall where [lab35_slides]:
  \<open>lab35_slide_13 =
   \<lparr>posargs = [],
  kwargs =
   [(''categories'', PyList
      [PyStr (lit ''BUKTI KODE''),
       PyStr (lit ''SERIALISASI'')]),
    (''title'', PyStr (lit ''WriteFrame: Konstruksi Frame Outbound'')),
    (''subtitle'', PyStr (lit ''Serialisasi data text dan biner dengan '' @
        lit ''pengaturan bit FIN dan masking'')),
    (''content_items'', lab35_items_13),
    (''mental_model'', PyStr (lit ''Mutex synchronization guarantees atomic '' @
        lit ''frame delivery over raw TCP sockets.'')),
    (''source_path'', PyStr (lit ''labs/35-websocket-and-sse/internal/ws/ws.go:'' @ lit ''129-174'')),
    (''slide_num'', PyStr (lit ''13 / 24'')),
    (''narrative'', PyStr (lit ''Method WriteFrame() menyusun paket biner '' @
        lit ''untuk dikirim ke socket. Mutex c.mu '' @
        lit ''menjamin bahwa penulisan frame bersifat '' @
        lit ''atomic sehingga dua goroutine tidak '' @
        lit ''mencampur aduk byte frame di TCP stream. '' @
        lit ''Bit FIN diset ke 1 untuk menandakan pesan '' @
        lit ''mandiri tanpa fragmentasi lanjutan.'')),
    (''title_en'', PyStr (lit ''WriteFrame: Outbound Frame Construction'')),
    (''narrative_en'', PyStr (lit ''The WriteFrame() method serializes outbound '' @
        lit ''binary frames. Mutex synchronization '' @
        lit ''guarantees that frame writes remain atomic '' @
        lit ''across concurrent goroutines, avoiding '' @
        lit ''frame byte interleaving on TCP streams.''))]\<rparr>\<close>

definition lab35_items_14 :: pyval where [lab35_contents]:
  \<open>lab35_items_14 =
   PyList
   [PyDict
     [(''title'', PyStr (lit ''KODE HANDLER LOOP /WS'')),
      (''items'', PyList
        [PyStr (lit ''switch op {''),
         PyStr (lit ''case ws.OpClose:''),
         PyStr (lit ''    conn.WriteFrame(ws.OpClose, nil, '' @ lit ''false); return''),
         PyStr (lit ''case ws.OpPing:''),
         PyStr (lit ''    conn.WriteFrame(ws.OpPong, data, false)''),
         PyStr (lit ''case ws.OpText:''),
         PyStr (lit ''    conn.WriteFrame(ws.OpText, '' @
            lit ''append([]byte("echo: "), data...), false)''),
         PyStr (lit ''case ws.OpBinary:''),
         PyStr (lit ''    rev := make([]byte, len(data))''),
         PyStr (lit ''    for i := range data { rev[i] = '' @ lit ''data[len(data)-1-i] }''),
         PyStr (lit ''    conn.WriteFrame(ws.OpBinary, rev, false)''),
         PyStr (lit ''}'')]),
      (''type'', PyStr (lit ''code''))],
    PyDict
     [(''title'', PyStr (lit ''PEMBUKTIAN BINER'')),
      (''items'', PyList
        [PyStr (lit ''Client mengirim 0xDEADBEEF -> Server '' @
            lit ''membalikkan menjadi 0xEFBEADDE''),
         PyStr (lit ''Membuktikan integritas byte murni tanpa '' @
            lit ''distorsi encoding karakter'')]),
      (''type'', PyStr (lit ''bullet''))]]\<close>

definition lab35_slide_14 :: pycall where [lab35_slides]:
  \<open>lab35_slide_14 =
   \<lparr>posargs = [],
  kwargs =
   [(''categories'', PyList
      [PyStr (lit ''LOGIKA SISTEM''),
       PyStr (lit ''VERIFIKASI INTEGRITAS'')]),
    (''title'', PyStr (lit ''Server Loop: Echo Teks & Reversal Biner'')),
    (''subtitle'', PyStr (lit ''Menangani OpClose, OpPing, OpText, dan '' @ lit ''OpBinary pada endpoint /ws'')),
    (''content_items'', lab35_items_14),
    (''mental_model'', PyStr (lit ''Byte reversal conclusively verifies true '' @
        lit ''binary transport fidelity.'')),
    (''source_path'', PyStr (lit ''labs/35-websocket-and-sse/internal/server/se'' @ lit ''rver.go:34-56'')),
    (''slide_num'', PyStr (lit ''14 / 24'')),
    (''narrative'', PyStr (lit ''Loop pemrosesan WebSocket di server '' @
        lit ''menangani berbagai tipe frame kontrol dan '' @
        lit ''data. Untuk teks, server menambahkan '' @ lit ''prefiks '' @ [39] @
        lit ''echo: '' @ [39] @ lit ''. Untuk biner, payload dibalik urutan '' @
        lit ''byte-nya sebelum dikirim kembali. Reversal '' @
        lit ''ini memberikan bukti deterministik bahwa '' @
        lit ''protokol mampu mentransfer biner murni '' @ lit ''tanpa kompromi.'')),
    (''title_en'', PyStr (lit ''Server Loop: Text Echo & Binary Reversal'')),
    (''narrative_en'', PyStr (lit ''The WebSocket event loop routes incoming '' @
        lit ''frames by opcode. Text frames receive an '' @
        lit ''echo prefix, while binary payloads undergo '' @
        lit ''byte-order reversal. This reversal proves '' @
        lit ''transparent raw binary transfer without '' @ lit ''encoding loss.''))]\<rparr>\<close>

definition lab35_items_15 :: pyval where [lab35_contents]:
  \<open>lab35_items_15 =
   PyList
   [PyDict
     [(''title'', PyStr (lit ''OUTPUT DEMO SSE'')),
      (''items'', PyList
        [PyStr (lit ''> 1. SSE: Unidirectional Server Push with '' @ lit ''Last-Event-ID''),
         PyStr (lit ''Client connected with Last-Event-ID: 1. '' @
            lit ''Received resumed events:''),
         PyStr (lit ''  [SSE Stream] id: 2''),
         PyStr (lit ''  [SSE Stream] event: news''),
         PyStr (lit ''  [SSE Stream] retry: 2000''),
         PyStr (lit ''  [SSE Stream] data: Update: Faster routing '' @ lit ''in net/http'')]),
      (''type'', PyStr (lit ''code''))],
    PyDict
     [(''title'', PyStr (lit ''OUTPUT DEMO WEBSOCKET'')),
      (''items'', PyList
        [PyStr (lit ''> 2. WebSocket: Full-Duplex Text and Binary '' @ lit ''Protocol''),
         PyStr (lit ''Client sending WS text frame: "Hello RFC '' @ lit ''6455"''),
         PyStr (lit ''Server responded with Opcode 0x1 (Text): '' @
            lit ''"echo: Hello RFC 6455"''),
         PyStr (lit ''Client sending WS binary frame: DEADBEEF''),
         PyStr (lit ''Server responded with Opcode 0x2 (Binary): '' @ lit ''EFBEADDE''),
         PyStr (lit ''Binary frame payload verified successfully.'')]),
      (''type'', PyStr (lit ''code''))]]\<close>

definition lab35_slide_15 :: pycall where [lab35_slides]:
  \<open>lab35_slide_15 =
   \<lparr>posargs = [],
  kwargs =
   [(''categories'', PyList
      [PyStr (lit ''HASIL PENGUJIAN''),
       PyStr (lit ''DEMO RUN'')]),
    (''title'', PyStr (lit ''Eksekusi Demo: Bukti Terminal Langsung'')),
    (''subtitle'', PyStr (lit ''Output deterministik dari cmd/demo '' @
        lit ''memvalidasi resumption dan duplexing'')),
    (''content_items'', lab35_items_15),
    (''mental_model'', PyStr (lit ''Deterministic verification: SSE resumes '' @
        lit ''exactly from offset; WebSocket mirrors '' @ lit ''bytes exactly.'')),
    (''source_path'', PyStr (lit ''labs/35-websocket-and-sse/cmd/demo/main.go'')),
    (''slide_num'', PyStr (lit ''15 / 24'')),
    (''narrative'', PyStr (lit ''Eksekusi cmd/demo membuktikan klaim teknis '' @
        lit ''secara nyata. Pada bagian SSE, pengiriman '' @
        lit ''Last-Event-ID: 1 berhasil mengabaikan event '' @
        lit ''1 dan memutar ulang event 2. Pada bagian '' @
        lit ''WebSocket, frame teks di-echo dengan benar '' @
        lit ''dan frame biner DEADBEEF berhasil dibalik '' @
        lit ''menjadi EFBEADDE tanpa kecacatan data.'')),
    (''title_en'', PyStr (lit ''Demo Execution & Verification Results'')),
    (''narrative_en'', PyStr (lit ''Running cmd/demo validates theoretical '' @
        lit ''claims. SSE resumption honors '' @
        lit ''Last-Event-ID: 1 by skipping initial events '' @
        lit ''and replaying the subsequent update. '' @
        lit ''WebSocket mirrors text and reverses binary '' @
        lit ''DEADBEEF into EFBEADDE flawlessly.''))]\<rparr>\<close>

definition lab35_items_16 :: pyval where [lab35_contents]:
  \<open>lab35_items_16 =
   PyList
   [PyDict
     [(''title'', PyStr (lit ''HASIL EKSEKUSI TEST'')),
      (''items'', PyList
        [PyStr (lit ''=== RUN   TestSSE_Formatting            -> '' @ lit ''PASS (0.00s)''),
         PyStr (lit ''=== RUN   TestSSE_LastEventID_Resumption -> '' @ lit ''PASS (0.00s)''),
         PyStr (lit ''=== RUN   TestWebSocket_TextAndBinary    -> '' @ lit ''PASS (0.00s)''),
         PyStr (lit ''=== RUN   TestSSE_Concurrency           -> '' @ lit ''PASS (0.05s)''),
         PyStr (lit ''PASS: go test -race ./... (1.559s - Race '' @ lit ''Clean)'')]),
      (''type'', PyStr (lit ''code''))],
    PyDict
     [(''title'', PyStr (lit ''SKENARIO CONCURRENCY'')),
      (''items'', PyList
        [PyStr (lit ''10 client subscriber terhubung secara '' @ lit ''paralel ke SSE Hub''),
         PyStr (lit ''5 event broadcast dipicu secara simultan di '' @
            lit ''goroutine terpisah''),
         PyStr (lit ''Mutex dan unbuffered select mencegah '' @
            lit ''deadlock maupun blocking antar client'')]),
      (''type'', PyStr (lit ''bullet''))],
    PyDict
     [(''title'', PyStr (lit ''DETERMINISTIK FORMATTING'')),
      (''items'', PyList
        [PyStr (lit ''Test memvalidasi ordering field id, event, '' @
            lit ''retry, data, dan delimiter ganda'')]),
      (''type'', PyStr (lit ''bullet''))]]\<close>

definition lab35_slide_16 :: pycall where [lab35_slides]:
  \<open>lab35_slide_16 =
   \<lparr>posargs = [],
  kwargs =
   [(''categories'', PyList
      [PyStr (lit ''VERIFIKASI TEST''),
       PyStr (lit ''SUITE TEST'')]),
    (''title'', PyStr (lit ''Hasil Pengujian Test Suite & Concurrency'')),
    (''subtitle'', PyStr (lit ''4 test case diverifikasi lolos dengan Race '' @
        lit ''Detector aktif (Go 1.22)'')),
    (''content_items'', lab35_items_16),
    (''mental_model'', PyStr (lit ''Race-clean test pass proves thread-safe '' @
        lit ''synchronization across concurrent streams.'')),
    (''source_path'', PyStr (lit ''labs/35-websocket-and-sse/tests/protocol_tes'' @ lit ''t.go'')),
    (''slide_num'', PyStr (lit ''16 / 24'')),
    (''narrative'', PyStr (lit ''Seluruh rangkaian pengujian di '' @
        lit ''tests/protocol_test.go lulus dengan Go Race '' @
        lit ''Detector aktif. Test concurrency '' @
        lit ''membuktikan bahwa non-blocking broadcast '' @
        lit ''channel pada Hub mampu melayani 10 client '' @
        lit ''paralel saat menerima 5 event acak tanpa '' @
        lit ''terjadi data race atau goroutine starvation.'')),
    (''title_en'', PyStr (lit ''Test Suite Verification & Concurrency'')),
    (''narrative_en'', PyStr (lit ''All test suites pass under the Go race '' @
        lit ''detector. The concurrency test confirms '' @
        lit ''that the SSE Hub non-blocking select '' @
        lit ''pattern safely serves 10 parallel '' @
        lit ''subscribers across 5 concurrent broadcasts '' @
        lit ''without data races or lockups.''))]\<rparr>\<close>

definition lab35_items_17 :: pyval where [lab35_contents]:
  \<open>lab35_items_17 =
   PyList
   [PyDict
     [(''title'', PyStr (lit ''TABEL PERBANDINGAN'')),
      (''items'', PyList
        [PyStr (lit ''Dimensi           | WebSocket (RFC 6455)    '' @
            lit ''  | Server-Sent Events (SSE)''),
         PyStr (lit ''Arah Komunikasi   | Full-Duplex (2 Arah)    '' @
            lit ''  | Unidirectional (Server->Client)''),
         PyStr (lit ''Transport / Pipa  | Raw TCP (setelah '' @
            lit ''Upgrade) | Standard HTTP Streaming''),
         PyStr (lit ''Tipe Payload      | UTF-8 Teks & Raw Biner  '' @
            lit ''  | UTF-8 Teks Murni Saja''),
         PyStr (lit ''Auto-Reconnect    | Manual / Custom Client  '' @
            lit ''  | Bawaan Browser EventSource''),
         PyStr (lit ''Resumption State  | Tidak ada di spec level '' @
            lit ''  | Bawaan via Last-Event-ID''),
         PyStr (lit ''Proxy / LB Compat | Butuh Sticky / WS '' @
            lit ''Bypass  | Standar HTTP (No buffering)''),
         PyStr (lit ''HTTP/2 Multiplex  | Butuh RFC 8441 CONNECT  '' @
            lit ''  | Native HTTP/2 Multiplexing'')]),
      (''type'', PyStr (lit ''table''))],
    PyDict
     [(''title'', PyStr (lit ''RINGKASAN TRADE-OFF'')),
      (''items'', PyList
        [PyStr (lit ''WebSocket unggul dalam fleksibilitas '' @
            lit ''payload dan interaktivitas upstream''),
         PyStr (lit ''SSE unggul mutlak dalam kesederhanaan '' @
            lit ''operasional dan keandalan jaringan'')]),
      (''type'', PyStr (lit ''bullet''))]]\<close>

definition lab35_slide_17 :: pycall where [lab35_slides]:
  \<open>lab35_slide_17 =
   \<lparr>posargs = [],
  kwargs =
   [(''categories'', PyList
      [PyStr (lit ''TABEL EVALUASI''),
       PyStr (lit ''PERBANDINGAN'')]),
    (''title'', PyStr (lit ''Matriks Evaluasi: WebSocket vs SSE'')),
    (''subtitle'', PyStr (lit ''Perbandingan mendalam 8 dimensi arsitektur '' @ lit ''dan operasional'')),
    (''content_items'', lab35_items_17),
    (''mental_model'', PyStr (lit ''WebSocket optimizes for protocol '' @
        lit ''capability; SSE optimizes for operational '' @ lit ''simplicity.'')),
    (''source_path'', PyStr (lit ''labs/35-websocket-and-sse/content/02-master-'' @ lit ''draft.md'')),
    (''slide_num'', PyStr (lit ''17 / 24'')),
    (''narrative'', PyStr (lit ''Matriks perbandingan memperjelas trade-off '' @
        lit ''arsitektural. WebSocket menawarkan '' @
        lit ''kemampuan full-duplex dan dukungan biner '' @
        lit ''dengan kompensasi hilangnya auto-reconnect '' @
        lit ''bawaan dan meningkatnya kerumitan proxy. '' @
        lit ''SSE memberikan ketahanan jaringan otomatis '' @
        lit ''dan dukungan native HTTP/2 stream '' @ lit ''multiplexing.'')),
    (''title_en'', PyStr (lit ''Evaluation Matrix: WebSocket vs SSE'')),
    (''narrative_en'', PyStr (lit ''The evaluation matrix highlights the '' @
        lit ''architectural trade-offs. WebSocket offers '' @
        lit ''full-duplex streaming and binary payloads '' @
        lit ''at the cost of operational proxy '' @
        lit ''complexity. SSE delivers native network '' @
        lit ''resilience and automatic HTTP/2 '' @ lit ''multiplexing.''))]\<rparr>\<close>

definition lab35_items_18 :: pyval where [lab35_contents]:
  \<open>lab35_items_18 =
   PyList
   [PyDict
     [(''title'', PyStr (lit ''ISU PROXY PADA WEBSOCKET'')),
      (''items'', PyList
        [PyStr (lit ''Load balancer modern (seperti AWS ALB) '' @
            lit ''butuh sticky sessions jika node memegang '' @ lit ''state in-memory''),
         PyStr (lit ''Beberapa firewall perusahaan memblokir '' @
            lit ''request non-HTTP setelah Upgrade''),
         PyStr (lit ''Idle timeout TCP memutus socket jika tidak '' @
            lit ''ada traffic Ping/Pong aktif'')]),
      (''type'', PyStr (lit ''bullet''))],
    PyDict
     [(''title'', PyStr (lit ''ISU PROXY PADA SSE'')),
      (''items'', PyList
        [PyStr (lit ''Buffering di perantara: Nginx menahan chunk '' @
            lit ''response jika proxy_buffering aktif''),
         PyStr (lit ''Solusi: Tambahkan header X-Accel-Buffering: '' @
            lit ''no pada respons server''),
         PyStr (lit ''Batas koneksi HTTP/1.1 browser (maks 6 '' @
            lit ''koneksi per domain) sebelum HTTP/2'')]),
      (''type'', PyStr (lit ''bullet''))],
    PyDict
     [(''title'', PyStr (lit ''REKOMENDASI PRODUKSI'')),
      (''items'', PyList
        [PyStr (lit ''Deploy SSE di atas HTTP/2 untuk '' @
            lit ''menghilangkan batas koneksi domain''),
         PyStr (lit ''Terapkan distributed message broker (Redis '' @
            lit ''Pub/Sub) untuk scaling multi-node'')]),
      (''type'', PyStr (lit ''bullet''))]]\<close>

definition lab35_slide_18 :: pycall where [lab35_slides]:
  \<open>lab35_slide_18 =
   \<lparr>posargs = [],
  kwargs =
   [(''categories'', PyList
      [PyStr (lit ''INFRASTRUKTUR''),
       PyStr (lit ''NETWORKING'')]),
    (''title'', PyStr (lit ''Tantangan Proxy, Firewall & Gateway'')),
    (''subtitle'', PyStr (lit ''Bagaimana middleware jaringan memperlakukan '' @ lit ''koneksi persisten'')),
    (''content_items'', lab35_items_18),
    (''mental_model'', PyStr (lit ''Reverse proxies buffer HTTP unless '' @
        lit ''instructed otherwise; firewalls distrust '' @ lit ''protocol upgrades.'')),
    (''source_path'', PyStr (lit ''labs/35-websocket-and-sse/content/02-master-'' @ lit ''draft.md'')),
    (''slide_num'', PyStr (lit ''18 / 24'')),
    (''narrative'', PyStr (lit ''Koneksi jangka panjang rentan terhadap '' @
        lit ''timeout dan pemotongan oleh proxy '' @
        lit ''perantara. WebSocket kerap terhambat oleh '' @
        lit ''firewall korporat yang mencurigai protokol '' @
        lit ''non-HTTP. SSE menghadapi risiko proxy '' @
        lit ''buffering di Nginx, yang dapat diselesaikan '' @
        lit ''dengan menyetel X-Accel-Buffering: no atau '' @
        lit ''menonaktifkan proxy_buffering.'')),
    (''title_en'', PyStr (lit ''Proxy, Firewall & Gateway Interoperability'')),
    (''narrative_en'', PyStr (lit ''Long-lived connections are vulnerable to '' @
        lit ''gateway buffering and idle terminations. '' @
        lit ''WebSocket often encounters strict '' @
        lit ''enterprise firewalls suspicious of protocol '' @
        lit ''switching. SSE requires disabling proxy '' @
        lit ''buffering via X-Accel-Buffering: no headers.''))]\<rparr>\<close>

definition lab35_items_19 :: pyval where [lab35_contents]:
  \<open>lab35_items_19 =
   PyList
   [PyDict
     [(''title'', PyStr (lit ''SSE NATIVE DI HTTP/2'')),
      (''items'', PyList
        [PyStr (lit ''SSE berjalan di atas stream HTTP/2 standar '' @ lit ''tanpa ekstensi''),
         PyStr (lit ''Multiplexing memungkinkan puluhan stream '' @
            lit ''SSE berbagi 1 koneksi TCP fisik''),
         PyStr (lit ''Mengeliminasi batas browser 6 koneksi per '' @
            lit ''origin pada HTTP/1.1'')]),
      (''type'', PyStr (lit ''bullet''))],
    PyDict
     [(''title'', PyStr (lit ''WEBSOCKET DI HTTP/2 (RFC 8441)'')),
      (''items'', PyList
        [PyStr (lit ''HTTP/2 melarang header Connection: Upgrade '' @ lit ''(RFC 9113)''),
         PyStr (lit ''WebSocket di HTTP/2 memerlukan Extended '' @
            lit ''CONNECT method (:protocol=websocket)''),
         PyStr (lit ''Dukungan server dan proxy gateway masih '' @
            lit ''belum universal di industri'')]),
      (''type'', PyStr (lit ''bullet''))],
    PyDict
     [(''title'', PyStr (lit ''KEUNGGULAN OPERASIONAL'')),
      (''items'', PyList
        [PyStr (lit ''SSE secara natural mendapatkan kompresi '' @
            lit ''header HPACK dan flow control HTTP/2'')]),
      (''type'', PyStr (lit ''bullet''))]]\<close>

definition lab35_slide_19 :: pycall where [lab35_slides]:
  \<open>lab35_slide_19 =
   \<lparr>posargs = [],
  kwargs =
   [(''categories'', PyList
      [PyStr (lit ''STANDAR PROTOKOL''),
       PyStr (lit ''HTTP/2'')]),
    (''title'', PyStr (lit ''Dampak HTTP/2 & Multiplexing Aliran'')),
    (''subtitle'', PyStr (lit ''Mengapa evolusi HTTP memperkuat posisi '' @ lit ''Server-Sent Events'')),
    (''content_items'', lab35_items_19),
    (''mental_model'', PyStr (lit ''HTTP/2 natively supercharges SSE while '' @
        lit ''demanding complex extensions for WebSocket.'')),
    (''source_path'', PyStr (lit ''labs/35-websocket-and-sse/research/05-report'' @ lit ''.md'')),
    (''slide_num'', PyStr (lit ''19 / 24'')),
    (''narrative'', PyStr (lit ''Revolusi HTTP/2 secara dramatis '' @
        lit ''meningkatkan daya tarik SSE. Melalui stream '' @
        lit ''multiplexing, puluhan saluran SSE dapat '' @
        lit ''berbagi satu koneksi TCP tanpa batasan 6 '' @
        lit ''koneksi per domain. Sebaliknya, WebSocket '' @
        lit ''memerlukan implementasi RFC 8441 yang rumit '' @
        lit ''karena HTTP/2 melarang mekanisme connection '' @ lit ''upgrade tradisional.'')),
    (''title_en'', PyStr (lit ''Impact of HTTP/2 & Stream Multiplexing'')),
    (''narrative_en'', PyStr (lit ''HTTP/2 amplifies SSE'' @ [39] @
        lit ''s viability by multiplexing many event '' @
        lit ''streams across a single TCP connection. '' @
        lit ''Conversely, WebSocket over HTTP/2 mandates '' @
        lit ''RFC 8441 Extended CONNECT mechanics because '' @
        lit ''traditional connection upgrades are '' @ lit ''prohibited.''))]\<rparr>\<close>

definition lab35_items_20 :: pyval where [lab35_contents]:
  \<open>lab35_items_20 =
   PyList
   [PyDict
     [(''title'', PyStr (lit ''STREAMING TOKEN LLM (OPENAI / ANTHROPIC)'')),
      (''items'', PyList
        [PyStr (lit ''Karakteristik: Server menghasilkan token '' @
            lit ''kata demi kata secara real-time''),
         PyStr (lit ''Arah: 100% Server -> Client setelah prompt '' @ lit ''awal dikirim''),
         PyStr (lit ''Pilihan arsitektur: Server-Sent Events '' @
            lit ''(SSE) adalah standar industri universal'')]),
      (''type'', PyStr (lit ''bullet''))],
    PyDict
     [(''title'', PyStr (lit ''KOLABORASI DOKUMEN & CHAT (FIGMA / SLACK)'')),
      (''items'', PyList
        [PyStr (lit ''Karakteristik: Kursor user bergerak cepat, '' @
            lit ''pesan teks dikirim dua arah''),
         PyStr (lit ''Arah: Bidirectional interaktif dengan '' @ lit ''latensi minimal''),
         PyStr (lit ''Pilihan arsitektur: WebSocket dengan '' @ lit ''enkripsi frame biner'')]),
      (''type'', PyStr (lit ''bullet''))],
    PyDict
     [(''title'', PyStr (lit ''PEMBELAJARAN ARSITEKTURAL'')),
      (''items'', PyList
        [PyStr (lit ''Penggunaan SSE pada API LLM membuktikan '' @
            lit ''ketahanan dan kesederhanaan protokol'')]),
      (''type'', PyStr (lit ''bullet''))]]\<close>

definition lab35_slide_20 :: pycall where [lab35_slides]:
  \<open>lab35_slide_20 =
   \<lparr>posargs = [],
  kwargs =
   [(''categories'', PyList
      [PyStr (lit ''STUDI KASUS''),
       PyStr (lit ''INDUSTRI'')]),
    (''title'', PyStr (lit ''Studi Kasus Nyata: Notifikasi & AI Tokens'')),
    (''subtitle'', PyStr (lit ''Membedah pilihan arsitektur OpenAI, Claude, '' @
        lit ''dan Sistem Notifikasi Skala Besar'')),
    (''content_items'', lab35_items_20),
    (''mental_model'', PyStr (lit ''Match real-world traffic patterns: LLM '' @
        lit ''tokens stream via SSE; multi-user editing '' @ lit ''flows via WebSocket.'')),
    (''source_path'', PyStr (lit ''labs/35-websocket-and-sse/content/02-master-'' @ lit ''draft.md'')),
    (''slide_num'', PyStr (lit ''20 / 24'')),
    (''narrative'', PyStr (lit ''Tren modern membuktikan penerapan aturan '' @
        lit ''directionality. Layanan AI generative '' @
        lit ''seperti OpenAI ChatGPT memilih SSE untuk '' @
        lit ''men-stream token kata demi kata ke browser '' @
        lit ''karena request prompt sudah selesai di '' @
        lit ''awal. Sebaliknya, aplikasi seperti Figma '' @
        lit ''atau multiplayer gaming mengandalkan '' @
        lit ''WebSocket karena user terus-menerus '' @ lit ''mengirimkan data interaktif.'')),
    (''title_en'', PyStr (lit ''Case Study: Notifications & LLM Streaming'')),
    (''narrative_en'', PyStr (lit ''Production adoption reflects directionality '' @
        lit ''rules. Generative AI providers stream '' @
        lit ''tokens via SSE because traffic is strictly '' @
        lit ''server-to-client following the initial '' @
        lit ''prompt. Real-time collaborative tools like '' @
        lit ''Figma depend on WebSocket for low-latency '' @
        lit ''bidirectional interaction.''))]\<rparr>\<close>

definition lab35_items_21 :: pyval where [lab35_contents]:
  \<open>lab35_items_21 =
   PyList
   [PyDict
     [(''title'', PyStr (lit ''BATAS 1: WEBSOCKET FRAMING'')),
      (''items'', PyList
        [PyStr (lit ''Masking key client menggunakan nilai '' @
            lit ''konstan (bukan crypto-random)''),
         PyStr (lit ''Belum mendukung fragmented continuation '' @
            lit ''frames (OpContinuation 0x0)''),
         PyStr (lit ''Payload > 65,535 bytes memiliki parser '' @
            lit ''BigEndian namun belum diuji ekstensif'')]),
      (''type'', PyStr (lit ''bullet''))],
    PyDict
     [(''title'', PyStr (lit ''BATAS 2: SSE HUB BUFFER'')),
      (''items'', PyList
        [PyStr (lit ''History event disimpan dalam slice '' @
            lit ''in-memory tak terbatas (unbounded buffer)''),
         PyStr (lit ''Produksi memerlukan ring buffer dengan '' @
            lit ''batas retensi atau Redis Streams'')]),
      (''type'', PyStr (lit ''bullet''))],
    PyDict
     [(''title'', PyStr (lit ''BATAS 3: SCALE & DISTRIBUTED STATE'')),
      (''items'', PyList
        [PyStr (lit ''Uji coba berjalan pada single node HTTP '' @
            lit ''server tanpa distributed message bus'')]),
      (''type'', PyStr (lit ''bullet''))]]\<close>

definition lab35_slide_21 :: pycall where [lab35_slides]:
  \<open>lab35_slide_21 =
   \<lparr>posargs = [],
  kwargs =
   [(''categories'', PyList
      [PyStr (lit ''BATAS LAB''),
       PyStr (lit ''DISCLAIMER'')]),
    (''title'', PyStr (lit ''Batasan Model & Implementasi Lab 35'')),
    (''subtitle'', PyStr (lit ''Penyederhanaan pedagogis untuk menonjolkan '' @
        lit ''prinsip mekanika protokol'')),
    (''content_items'', lab35_items_21),
    (''mental_model'', PyStr (lit ''A lab isolates protocol mechanics; '' @
        lit ''production demands ring buffers, random '' @ lit ''masks, and brokers.'')),
    (''source_path'', PyStr (lit ''labs/35-websocket-and-sse/README.md'')),
    (''slide_num'', PyStr (lit ''21 / 24'')),
    (''narrative'', PyStr (lit ''Lab ini dirancang sebagai sarana edukasi '' @
        lit ''teknis murni. Masking key diset statis '' @
        lit ''untuk memudahkan debugging inspeksi byte, '' @
        lit ''dan history SSE disimpan dalam memori tanpa '' @
        lit ''penggusuran. Dalam lingkungan produksi '' @
        lit ''riil, implementasi memerlukan ring buffer '' @
        lit ''berkapasitas tetap, masking acak '' @
        lit ''kriptografis, dan distributed broker.'')),
    (''title_en'', PyStr (lit ''Lab 35 Model Boundaries & Constraints'')),
    (''narrative_en'', PyStr (lit ''This lab focuses on educational clarity. '' @
        lit ''Static masking keys simplify byte-level '' @
        lit ''inspection, and the SSE hub retains history '' @
        lit ''without buffer eviction. Production '' @
        lit ''deployments require bounded ring buffers, '' @
        lit ''cryptographically random masks, and message '' @ lit ''brokers.''))]\<rparr>\<close>

definition lab35_items_22 :: pyval where [lab35_contents]:
  \<open>lab35_items_22 =
   PyList
   [PyDict
     [(''title'', PyStr (lit ''EVALUASI KEBUTUHAN'')),
      (''items'', PyList
        [PyStr (lit ''[ ] Apakah client perlu mengirim pesan '' @
            lit ''upstream di socket yang sama? (Ya->WS, '' @ lit ''Tidak->SSE)''),
         PyStr (lit ''[ ] Apakah data mengandung payload biner '' @
            lit ''murni (audio/protobuf)? (Ya->WS)''),
         PyStr (lit ''[ ] Apakah sistem berjalan di balik '' @
            lit ''corporate proxy / strict firewall? (Pilih '' @ lit ''SSE)''),
         PyStr (lit ''[ ] Apakah pemulihan event otomatis '' @
            lit ''(reconnect) diperlukan secara gratis? '' @ lit ''(Pilih SSE)'')]),
      (''type'', PyStr (lit ''bullet''))],
    PyDict
     [(''title'', PyStr (lit ''VERIFIKASI PRODUKSI'')),
      (''items'', PyList
        [PyStr (lit ''[ ] Pastikan Nginx menonaktifkan '' @
            lit ''proxy_buffering untuk SSE endpoint''),
         PyStr (lit ''[ ] Pasang heartbeat / ping-pong berkala '' @
            lit ''untuk mencegah idle connection drops''),
         PyStr (lit ''[ ] Atur limit OS file descriptor (ulimit '' @
            lit ''-n) untuk menangani ribuan koneksi''),
         PyStr (lit ''[ ] Siapkan Redis Pub/Sub untuk replikasi '' @
            lit ''broadcast lintas cluster node'')]),
      (''type'', PyStr (lit ''bullet''))]]\<close>

definition lab35_slide_22 :: pycall where [lab35_slides]:
  \<open>lab35_slide_22 =
   \<lparr>posargs = [],
  kwargs =
   [(''categories'', PyList
      [PyStr (lit ''PANDUAN''),
       PyStr (lit ''CHECKLIST KEPUTUSAN'')]),
    (''title'', PyStr (lit ''Checklist Keputusan Arsitektur Real-Time'')),
    (''subtitle'', PyStr (lit ''8 langkah verifikasi sebelum menentukan '' @
        lit ''protokol transport aplikasi'')),
    (''content_items'', lab35_items_22),
    (''mental_model'', PyStr (lit ''Verify directionality, payload type, and '' @
        lit ''proxy topology before committing to a '' @ lit ''protocol.'')),
    (''source_path'', PyStr (lit ''labs/35-websocket-and-sse/content/02-master-'' @ lit ''draft.md'')),
    (''slide_num'', PyStr (lit ''22 / 24'')),
    (''narrative'', PyStr (lit ''Gunakan checklist ini dalam tahap '' @
        lit ''perancangan sistem real-time. Jika '' @
        lit ''komunikasi upstream dapat dipenuhi melalui '' @
        lit ''HTTP POST standar dan client hanya '' @
        lit ''mendengarkan event, SSE adalah pilihan '' @
        lit ''terbaik. Pastikan konfigurasi reverse proxy '' @
        lit ''telah disesuaikan dan kapasitas file '' @
        lit ''descriptor sistem operasi memadai.'')),
    (''title_en'', PyStr (lit ''Protocol Decision Checklist'')),
    (''narrative_en'', PyStr (lit ''Utilize this checklist during architectural '' @
        lit ''design phases. If upstream requests can be '' @
        lit ''satisfied via standard HTTP POST while '' @
        lit ''clients listen passively, SSE is the '' @
        lit ''superior path. Verify reverse proxy '' @
        lit ''settings and OS file descriptor limits.''))]\<rparr>\<close>

definition lab35_items_23 :: pyval where [lab35_contents]:
  \<open>lab35_items_23 =
   PyList
   [PyDict
     [(''title'', PyStr (lit ''1. DIRECTIONALITY IS KING'')),
      (''items'', PyList
        [PyStr (lit ''Jangan bayar overhead koneksi dua arah jika '' @
            lit ''trafik hanya mengalir satu arah''),
         PyStr (lit ''SSE adalah peluru perak untuk live '' @
            lit ''notifications, feed, dan token streaming'')]),
      (''type'', PyStr (lit ''bullet''))],
    PyDict
     [(''title'', PyStr (lit ''2. LEVERAGE PLATFORM PRIMITIVES'')),
      (''items'', PyList
        [PyStr (lit ''Manfaatkan EventSource dan Last-Event-ID '' @
            lit ''bawaan browser untuk auto-healing''),
         PyStr (lit ''Gunakan HTTP/2 multiplexing untuk menghemat '' @
            lit ''handshake TCP koneksi'')]),
      (''type'', PyStr (lit ''bullet''))],
    PyDict
     [(''title'', PyStr (lit ''3. PROTOCOL RESPECTS BOUNDARIES'')),
      (''items'', PyList
        [PyStr (lit ''WebSocket adalah pilihan mutlak ketika '' @
            lit ''interaktivitas biner dua arah dibutuhkan''),
         PyStr (lit ''Keduanya saling melengkapi, bukan saling '' @ lit ''meniadakan'')]),
      (''type'', PyStr (lit ''bullet''))]]\<close>

definition lab35_slide_23 :: pycall where [lab35_slides]:
  \<open>lab35_slide_23 =
   \<lparr>posargs = [],
  kwargs =
   [(''categories'', PyList
      [PyStr (lit ''PRINSIP INTI''),
       PyStr (lit ''KESIMPULAN TEKNIS'')]),
    (''title'', PyStr (lit ''Tiga Prinsip Inti Komunikasi Real-Time'')),
    (''subtitle'', PyStr (lit ''Ringkasan aksioma untuk membangun sistem '' @ lit ''streaming yang efisien'')),
    (''content_items'', lab35_items_23),
    (''mental_model'', PyStr (lit ''Right protocol for the right direction: '' @
        lit ''simplicity scales better than unnecessary '' @ lit ''duplexing.'')),
    (''source_path'', PyStr (lit ''labs/35-websocket-and-sse/content/05-key-tak'' @ lit ''eaways.md'')),
    (''slide_num'', PyStr (lit ''23 / 24'')),
    (''narrative'', PyStr (lit ''Sistem real-time yang elegan memilih '' @
        lit ''protokol berdasarkan karakteristik data '' @
        lit ''transport. Hindari godaan over-engineering '' @
        lit ''dengan memasang WebSocket di setiap use '' @
        lit ''case. Dengan memilih SSE untuk pola satu '' @
        lit ''arah dan WebSocket untuk pola interaktif '' @
        lit ''dua arah, sistem tetap efisien, mudah '' @
        lit ''di-scale, dan tahan banting.'')),
    (''title_en'', PyStr (lit ''Three Core Real-Time Principles'')),
    (''narrative_en'', PyStr (lit ''Resilient systems choose transport '' @
        lit ''protocols matching traffic patterns. Avoid '' @
        lit ''over-engineering by deploying WebSocket '' @
        lit ''indiscriminately. Reserving SSE for '' @
        lit ''unidirectional streams and WebSocket for '' @
        lit ''true full-duplex interactions yields '' @ lit ''scalable architectures.''))]\<rparr>\<close>

definition lab35_items_24 :: pyval where [lab35_contents]:
  \<open>lab35_items_24 =
   PyList
   [PyDict
     [(''title'', PyStr (lit ''KEY RESULTS'')),
      (''items'', PyList
        [PyStr (lit ''internal/sse '' @ [0x2022] @ lit '' internal/ws''),
         PyStr (lit ''internal/server '' @ [0x2022] @ lit '' cmd/demo''),
         PyStr (lit ''tests/protocol_test.go '' @ [0x2022] @ lit '' README.md'')]),
      (''type'', PyStr (lit ''bullet''))],
    PyDict
     [(''title'', PyStr (lit ''VERIFIKASI & STATUS'')),
      (''items'', PyList
        [PyStr (lit ''Sumber: commit '' @ str_prefix 8 lab35_COMMIT_SHA),
         PyStr (lit ''Semua test PASS dengan Go 1.22 Race '' @ lit ''Detector aktif''),
         PyStr (lit ''Implementasi murni zero external '' @ lit ''dependencies'')]),
      (''type'', PyStr (lit ''bullet''))]]\<close>

definition lab35_slide_24 :: pycall where [lab35_slides]:
  \<open>lab35_slide_24 =
   \<lparr>posargs = [],
  kwargs =
   [(''categories'', PyList
      [PyStr (lit ''RINGKASAN''),
       PyStr (lit ''REPOSITORI'')]),
    (''title'', PyStr (lit ''Eksperimen kecil, eliminasi latensi '' @ lit ''tersembunyi.'')),
    (''subtitle'', PyStr (lit ''Commit: '' @ str_prefix 8 lab35_COMMIT_SHA @
        lit '' | 4/4 Tests PASS (Go 1.22 Race Clean) | '' @ lab35_AUTHOR)),
    (''content_items'', lab35_items_24),
    (''mental_model'', PyStr (lit ''Directionality dictates the protocol: '' @
        lit ''server-push belongs to SSE, bidirectional '' @ lit ''belongs to WebSocket.'')),
    (''source_path'', PyStr (lit ''labs/35-websocket-and-sse/README.md'')),
    (''slide_num'', PyStr (lit ''24 / 24'')),
    (''narrative'', PyStr (lit ''Penelitian dan pengujian Lab 35 membuktikan '' @
        lit ''bahwa pemahaman mendalam atas protokol '' @
        lit ''transport menghemat biaya komputasi dan '' @ lit ''kompleksitas arsitektur.'')),
    (''title_en'', PyStr (lit ''Small experiment, zero hidden latency.'')),
    (''narrative_en'', PyStr (lit ''Lab 35 demonstrates that deep protocol '' @
        lit ''comprehension eliminates architectural '' @
        lit ''complexity and operational overhead.''))]\<rparr>\<close>

definition lab35_calls :: "pycall list" where
  "lab35_calls =
    [lab35_slide_01, lab35_slide_02, lab35_slide_03, lab35_slide_04, lab35_slide_05,
     lab35_slide_06, lab35_slide_07, lab35_slide_08, lab35_slide_09, lab35_slide_10,
     lab35_slide_11, lab35_slide_12, lab35_slide_13, lab35_slide_14, lab35_slide_15,
     lab35_slide_16, lab35_slide_17, lab35_slide_18, lab35_slide_19, lab35_slide_20,
     lab35_slide_21, lab35_slide_22, lab35_slide_23, lab35_slide_24]"

definition lab35_deck :: deck where
  "lab35_deck =
    \<lparr>add_slide = lab35_add_slide, lab_no = lab35_LAB_NO, title_id = lab35_TITLE_ID, calls = lab35_calls\<rparr>"

section \<open>Checks of the calls\<close>

lemma lab35_shapes:
  "\<forall>c \<in> set lab35_calls. shape_of c \<in> set
    [(0, [''categories'', ''title'', ''subtitle'', ''content_items'', ''mental_model'',
      ''source_path'', ''slide_num'', ''narrative'', ''title_en'', ''narrative_en''])]"
  by (simp only: lab35_calls_def lab35_slides shape_eval cong: pyval_opaque)

lemma lab35_calls_ok: "\<forall>c \<in> set lab35_calls. call_ok sig_fallback c"
  by (rule calls_ok_by_shapes [OF lab35_shapes])
    (simp add: shape_ok_def param_names_def signature_defs core_params_def)

lemma lab35_labels: "map (\<lambda>c. value_of sig_fallback c ''slide_num'') lab35_calls = labels_24"
  by (simp only: lab35_calls_def lab35_slides keyword_eval labels_24_eval cong: pyval_opaque)

lemma lab35_contents_of:
  "map (\<lambda>c. value_of sig_fallback c ''content_items'') lab35_calls =
    [lab35_items_01, lab35_items_02, lab35_items_03, lab35_items_04, lab35_items_05,
     lab35_items_06, lab35_items_07, lab35_items_08, lab35_items_09, lab35_items_10,
     lab35_items_11, lab35_items_12, lab35_items_13, lab35_items_14, lab35_items_15,
     lab35_items_16, lab35_items_17, lab35_items_18, lab35_items_19, lab35_items_20,
     lab35_items_21, lab35_items_22, lab35_items_23, lab35_items_24]"
  by (simp only: lab35_calls_def lab35_slides keyword_eval cong: pyval_opaque)

lemma lab35_items: "item_defects sig_fallback lab35_calls = []"
  by (simp only: item_defects_def lab35_contents_of)
    (simp add: lab35_contents item_eval cong: pystr_opaque)

end
