(* ===== verification/Deck36.thy ===== *)
theory Deck36
  imports DeckContract
begin

text \<open>
  The publication definition of lab 36, \<^verbatim>\<open>labs/36-cors-and-csrf/result/content_def.py\<close>:
  its module constants, every \<open>add_slide\<close> call in order (\<open>lab36_slide_01\<close> is the first),
  and the module as a whole (\<open>lab36_deck\<close>). Long strings are split into pieces that are
  concatenated; a character outside ASCII is its code point.
\<close>

named_theorems lab36_slides \<open>the add_slide calls of lab 36\<close>
named_theorems lab36_contents \<open>their content_items arguments\<close>

definition lab36_OUTPUT_DIR :: pystr where
  \<open>lab36_OUTPUT_DIR = lit ''labs/36-cors-and-csrf/result''\<close>

definition lab36_CHROME_BIN :: pystr where
  \<open>lab36_CHROME_BIN = lit ''/Applications/Google '' @ lit ''Chrome.app/Contents/MacOS/Google Chrome''\<close>

definition lab36_REPO_URL :: pystr where
  \<open>lab36_REPO_URL = lit ''https://github.com/lukman-ss/software-engine'' @
    lit ''ering-lab/tree/main/labs/36-cors-and-csrf''\<close>

definition lab36_COMMIT_SHA :: pystr where
  \<open>lab36_COMMIT_SHA = lit ''7ced81edaaa9ca043063d77e19a19b9438264382''\<close>

definition lab36_LAB_NO :: pystr where
  \<open>lab36_LAB_NO = lit ''36''\<close>

definition lab36_SLUG :: pystr where
  \<open>lab36_SLUG = lit ''cors-and-csrf''\<close>

definition lab36_TITLE_ID :: pystr where
  \<open>lab36_TITLE_ID = lit ''CORS & CSRF: Mengamankan Backend''\<close>

definition lab36_SUBTITLE_ID :: pystr where
  \<open>lab36_SUBTITLE_ID = lit ''Membedah Realitas CORS dan Pertahanan CSRF '' @ lit ''Multi-Layer di Sisi Server''\<close>

definition lab36_TITLE_EN :: pystr where
  \<open>lab36_TITLE_EN = lit ''CORS & CSRF: Securing Backend from '' @ lit ''Cross-Origin Attacks''\<close>

definition lab36_SUBTITLE_EN :: pystr where
  \<open>lab36_SUBTITLE_EN = lit ''Demystifying CORS and Implementing '' @
    lit ''Server-Side Multi-Layer Anti-CSRF Defense''\<close>

definition lab36_AUTHOR :: pystr where
  \<open>lab36_AUTHOR = lit ''Lukman / lukman-ss''\<close>

definition lab36_TOPIC_TAGS :: pystr where
  \<open>lab36_TOPIC_TAGS = lit ''CORS '' @ [0x2022] @ lit '' CSRF '' @ [0x2022] @ lit '' Web Security '' @
    [0x2022] @ lit '' HMAC-SHA256 '' @ [0x2022] @ lit '' Fetch Metadata '' @ [0x2022] @
    lit '' Go 1.22''\<close>

definition lab36_DEVTO_DESC :: pystr where
  \<open>lab36_DEVTO_DESC = lit ''Demystify CORS vs CSRF in Go: prove why '' @
    lit ''CORS is not a backend firewall, and '' @
    lit ''implement multi-layer anti-CSRF defense '' @
    lit ''using signed tokens and Sec-Fetch-Site.''\<close>

definition lab36_DEVTO_TAGS :: pystr where
  \<open>lab36_DEVTO_TAGS = lit ''go, security, webdev, architecture''\<close>

definition lab36_DEVTO_INTRO :: pystr where
  \<open>lab36_DEVTO_INTRO = lit ''Assuming CORS protects your backend from '' @
    lit ''malicious write mutations is one of the '' @
    lit ''most widespread security misconceptions. '' @
    lit ''Lab 36 builds a spec-compliant CORS '' @
    lit ''middleware and an HMAC-SHA256 signed CSRF '' @
    lit ''protection engine in pure Go to expose why '' @
    lit ''CORS fails against CSRF and how '' @
    lit ''defense-in-depth mitigates cross-origin '' @ lit ''exploits.''\<close>

definition lab36_MEDIUM_DESC :: pystr where
  \<open>lab36_MEDIUM_DESC = lit ''Panduan teknis mendalam arsitektur keamanan '' @
    lit ''web: mengapa CORS bukan pelindung mutasi '' @
    lit ''backend, dan implementasi pertahanan '' @ lit ''anti-CSRF multi-layer di Go.''\<close>

definition lab36_DARK_NAVY :: pystr where
  \<open>lab36_DARK_NAVY = lit ''0b1b2d''\<close>

definition lab36_TEAL :: pystr where
  \<open>lab36_TEAL = lit ''087f76''\<close>

definition lab36_CREAM :: pystr where
  \<open>lab36_CREAM = lit ''f4f1e8''\<close>

definition lab36_WHITE :: pystr where
  \<open>lab36_WHITE = lit ''ffffff''\<close>

definition lab36_SLATE :: pystr where
  \<open>lab36_SLATE = lit ''52606b''\<close>

definition lab36_ORANGE :: pystr where
  \<open>lab36_ORANGE = lit ''d97706''\<close>

definition lab36_add_slide :: "pycall \<Rightarrow> pyval list \<Rightarrow> (pyexc, pyval list) res" where
  "lab36_add_slide = add_slide_fallback"

definition lab36_items_01 :: pyval where [lab36_contents]:
  \<open>lab36_items_01 =
   PyList
   [PyDict
     [(''type'', PyStr (lit ''cover'')),
      (''title'', PyStr []),
      (''items'', PyList
        [PyStr (lit ''Retro CRT monitor dengan scanlines dan '' @ lit ''kurva phosphor''),
         PyStr (lit ''Simulasi SOP, CORS Preflight, dan '' @ lit ''Eksploitasi Form CSRF''),
         PyStr (lit ''Penulis: '' @ lab36_AUTHOR)])]]\<close>

definition lab36_slide_01 :: pycall where [lab36_slides]:
  \<open>lab36_slide_01 =
   \<lparr>posargs = [],
  kwargs =
   [(''categories'', PyList
      [PyStr (lit ''COVER'')]),
    (''title'', PyStr lab36_TITLE_ID),
    (''subtitle'', PyStr lab36_SUBTITLE_ID),
    (''content_items'', lab36_items_01),
    (''mental_model'', PyStr (lit ''SOP restricts cross-origin read; CSRF '' @
        lit ''exploits cross-origin write. CORS relaxes '' @
        lit ''read, it never defends write.'')),
    (''source_path'', PyStr (lit ''labs/36-cors-and-csrf/README.md'')),
    (''slide_num'', PyStr (lit ''01 / 24'')),
    (''narrative'', PyStr []),
    (''title_en'', PyStr lab36_TITLE_EN),
    (''narrative_en'', PyStr (lit ''CORS does not stop cross-origin write '' @
        lit ''requests; true protection requires '' @ lit ''server-side token validation.''))]\<rparr>\<close>

definition lab36_items_02 :: pyval where [lab36_contents]:
  \<open>lab36_items_02 =
   PyList
   [PyDict
     [(''title'', PyStr (lit ''ASUMSI KELIRU'')),
      (''items'', PyList
        [PyStr (lit ''Menganggap CORS adalah tembok api backend '' @
            lit ''penolak request asing''),
         PyStr (lit ''Meyakini penolakan header CORS otomatis '' @
            lit ''menggagalkan serangan CSRF''),
         PyStr (lit ''Merasa aman hanya karena origin penyerang '' @
            lit ''tidak ada di whitelist CORS'')]),
      (''type'', PyStr (lit ''bullet''))],
    PyDict
     [(''title'', PyStr (lit ''FAKTA LAPANGAN'')),
      (''items'', PyList
        [PyStr (lit ''Browser tetap mengeksekusi simple request '' @
            lit ''POST langsung ke backend''),
         PyStr (lit ''Database memproses mutasi saldo sebelum '' @
            lit ''browser mengevaluasi header respons''),
         PyStr (lit ''Penolakan CORS hanya memblokir pembacaan '' @
            lit ''respons oleh JavaScript attacker'')]),
      (''type'', PyStr (lit ''bullet''))],
    PyDict
     [(''title'', PyStr (lit ''DAMPAK KERENTANAN'')),
      (''items'', PyList
        [PyStr (lit ''Transaksi finansial ilegal dieksekusi tanpa '' @
            lit ''otorisasi sadar dari korban''),
         PyStr (lit ''Perubahan email dan password akun terjadi '' @
            lit ''tanpa hambatan jaringan'')]),
      (''type'', PyStr (lit ''bullet''))]]\<close>

definition lab36_slide_02 :: pycall where [lab36_slides]:
  \<open>lab36_slide_02 =
   \<lparr>posargs = [],
  kwargs =
   [(''categories'', PyList
      [PyStr (lit ''MOTIVASI''),
       PyStr (lit ''LATAR BELAKANG'')]),
    (''title'', PyStr (lit ''Miskonsepsi Fatal: CORS Bukan Firewall'')),
    (''subtitle'', PyStr (lit ''Banyak tim backend mengira CORS melindungi '' @
        lit ''endpoint dari mutasi berbahaya'')),
    (''content_items'', lab36_items_02),
    (''mental_model'', PyStr (lit ''CORS governs read permissions in '' @
        lit ''JavaScript, not execution permissions on '' @ lit ''backend servers.'')),
    (''source_path'', PyStr (lit ''labs/36-cors-and-csrf/content/01-content-bri'' @ lit ''ef.md'')),
    (''slide_num'', PyStr (lit ''02 / 24'')),
    (''narrative'', PyStr (lit ''Miskonsepsi bahwa CORS bertindak sebagai '' @
        lit ''firewall backend masih sangat umum '' @
        lit ''ditemukan. Padahal, CORS dirancang oleh '' @
        lit ''browser murni untuk mengontrol izin '' @
        lit ''pembacaan respons oleh JavaScript, bukan '' @
        lit ''membatasi server dalam memproses request. '' @
        lit ''Tanpa pertahanan CSRF di backend, penyerang '' @
        lit ''dapat memicu mutasi state di database hanya '' @
        lit ''melalui tag form HTML biasa.'')),
    (''title_en'', PyStr (lit ''Fatal Misconception: CORS Is Not a Firewall'')),
    (''narrative_en'', PyStr (lit ''A common fallacy assumes CORS acts as a '' @
        lit ''backend firewall. In reality, CORS only '' @
        lit ''governs whether client JavaScript may '' @
        lit ''inspect response bodies. Backend state '' @
        lit ''mutation completes before browser CORS '' @ lit ''checks occur.''))]\<rparr>\<close>

definition lab36_items_03 :: pyval where [lab36_contents]:
  \<open>lab36_items_03 =
   PyList
   [PyDict
     [(''title'', PyStr (lit ''SAME-ORIGIN POLICY (SOP)'')),
      (''items'', PyList
        [PyStr (lit ''Membatasi JavaScript membaca data respons '' @ lit ''dari origin berbeda''),
         PyStr (lit ''Secara historis mengizinkan pengiriman '' @
            lit ''request write (misal form submit)'')]),
      (''type'', PyStr (lit ''bullet''))],
    PyDict
     [(''title'', PyStr (lit ''CORS (RELAXATION MECHANISM)'')),
      (''items'', PyList
        [PyStr (lit ''Mekanisme negosiasi header HTTP untuk '' @
            lit ''merelaksasi pembatasan SOP''),
         PyStr (lit ''Mengizinkan frontend membaca data respons '' @
            lit ''dari API domain lain''),
         PyStr (lit ''Bukan mekanisme keamanan sisi server!'')]),
      (''type'', PyStr (lit ''bullet''))],
    PyDict
     [(''title'', PyStr (lit ''CSRF (WRITE EXPLOITATION)'')),
      (''items'', PyList
        [PyStr (lit ''Mengeksploitasi perilaku browser yang '' @
            lit ''otomatis melampirkan cookie sesi''),
         PyStr (lit ''Penyerang memicu mutasi write tanpa perlu '' @
            lit ''membaca data respons'')]),
      (''type'', PyStr (lit ''bullet''))]]\<close>

definition lab36_slide_03 :: pycall where [lab36_slides]:
  \<open>lab36_slide_03 =
   \<lparr>posargs = [],
  kwargs =
   [(''categories'', PyList
      [PyStr (lit ''MENTAL MODEL''),
       PyStr (lit ''BATAS KEAMANAN'')]),
    (''title'', PyStr (lit ''Mental Model: SOP vs CORS vs CSRF'')),
    (''subtitle'', PyStr (lit ''Memisahkan pembatasan read, relaksasi '' @
        lit ''browser, dan eksploitasi write'')),
    (''content_items'', lab36_items_03),
    (''mental_model'', PyStr (lit ''SOP restricts reading; CORS relaxes '' @
        lit ''reading; CSRF exploits writing. Defend the '' @ lit ''write at the server.'')),
    (''source_path'', PyStr (lit ''labs/36-cors-and-csrf/content/02-master-draf'' @ lit ''t.md'')),
    (''slide_num'', PyStr (lit ''03 / 24'')),
    (''narrative'', PyStr (lit ''Arsitektur keamanan web berdiri di atas '' @
        lit ''tiga pilar ini. SOP melarang pembacaan '' @
        lit ''respons lintas origin. CORS hadir sebagai '' @
        lit ''mekanisme izin agar JavaScript dapat '' @
        lit ''membaca data respons tersebut. Sementara '' @
        lit ''itu, CSRF mengeksploitasi izin pengiriman '' @
        lit ''data form yang secara historis diizinkan '' @
        lit ''oleh SOP dengan memanfaatkan cookie sesi '' @ lit ''yang terlampir otomatis.'')),
    (''title_en'', PyStr (lit ''Core Mental Model: SOP vs CORS vs CSRF'')),
    (''narrative_en'', PyStr (lit ''Web security rests on three pillars: SOP '' @
        lit ''blocks cross-origin reads; CORS selectively '' @
        lit ''relaxes read restrictions; CSRF exploits '' @
        lit ''unrestricted cross-origin writes via '' @ lit ''ambient credentials.''))]\<rparr>\<close>

definition lab36_items_04 :: pyval where [lab36_contents]:
  \<open>lab36_items_04 =
   PyList
   [PyDict
     [(''title'', PyStr (lit ''ENDPOINT DISPATCH'')),
      (''items'', PyList
        [PyStr (lit ''GET  /api/balance             -> Cek saldo '' @
            lit ''akun via cookie sesi''),
         PyStr (lit ''GET  /api/csrf-token          -> Endpoint '' @
            lit ''penerbit token HMAC terikat sesi''),
         PyStr (lit ''POST /api/transfer/vulnerable -> Transfer '' @
            lit ''rentan (hanya dibungkus CORS)''),
         PyStr (lit ''POST /api/transfer/protected  -> Transfer '' @
            lit ''aman (CORS + CSRF Token)''),
         PyStr (lit ''POST /api/transfer/fetch-metadata -> '' @
            lit ''Transfer aman via Sec-Fetch-Site''),
         PyStr (lit ''POST /api/transfer/custom-header  -> '' @
            lit ''Transfer aman via X-Requested-With'')]),
      (''type'', PyStr (lit ''bullet''))],
    PyDict
     [(''title'', PyStr (lit ''ZERO DEPENDENCIES'')),
      (''items'', PyList
        [PyStr (lit ''Murni Go Standard Library (net/http, '' @
            lit ''crypto/hmac, crypto/subtle, sync)''),
         PyStr (lit ''Membuktikan mekanisme otentikasi sesi dan '' @
            lit ''penolakan payload secara presisi'')]),
      (''type'', PyStr (lit ''bullet''))],
    PyDict
     [(''title'', PyStr (lit ''KOMPONEN MODULAR'')),
      (''items'', PyList
        [PyStr (lit ''internal/cors: Evaluasi origin, header '' @
            lit ''preflight OPTIONS, allow-credentials''),
         PyStr (lit ''internal/csrf: HMAC token generator, token '' @
            lit ''validator, metadata middleware'')]),
      (''type'', PyStr (lit ''bullet''))]]\<close>

definition lab36_slide_04 :: pycall where [lab36_slides]:
  \<open>lab36_slide_04 =
   \<lparr>posargs = [],
  kwargs =
   [(''categories'', PyList
      [PyStr (lit ''ARSITEKTUR''),
       PyStr (lit ''TOPOLOGI LAB'')]),
    (''title'', PyStr (lit ''Topologi Arsitektur Simulasi Bank'')),
    (''subtitle'', PyStr (lit ''Membandingkan endpoint rentan vs endpoint '' @
        lit ''terproteksi dalam ekosistem Go'')),
    (''content_items'', lab36_items_04),
    (''mental_model'', PyStr (lit ''Modular middleware isolates transport '' @
        lit ''negotiation from state-changing business '' @ lit ''handlers.'')),
    (''source_path'', PyStr (lit ''labs/36-cors-and-csrf/internal/bank/app.go'')),
    (''slide_num'', PyStr (lit ''04 / 24'')),
    (''narrative'', PyStr (lit ''Lab 36 mengimplementasikan bank service '' @
        lit ''lengkap di internal/bank/app.go. Terdapat '' @
        lit ''endpoint transfer yang sengaja dibiarkan '' @
        lit ''rentan hanya dengan middleware CORS, serta '' @
        lit ''varian endpoint terlindungi yang dibungkus '' @
        lit ''oleh Anti-CSRF Token, Fetch Metadata, dan '' @
        lit ''Custom Header middleware untuk '' @
        lit ''membandingkan perilaku eksekusinya secara '' @ lit ''langsung.'')),
    (''title_en'', PyStr (lit ''Lab 36 Banking Architecture Topology'')),
    (''narrative_en'', PyStr (lit ''Lab 36 hosts a banking service comparing '' @
        lit ''vulnerable and protected endpoints. The '' @
        lit ''vulnerable endpoint relies solely on CORS, '' @
        lit ''whereas protected endpoints compose HMAC '' @
        lit ''token verification, Fetch Metadata, and '' @ lit ''Custom Header middleware.''))]\<rparr>\<close>

definition lab36_items_05 :: pyval where [lab36_contents]:
  \<open>lab36_items_05 =
   PyList
   [PyDict
     [(''title'', PyStr (lit ''SIMPLE REQUEST (NO PREFLIGHT)'')),
      (''items'', PyList
        [PyStr (lit ''Method: GET, HEAD, atau POST''),
         PyStr (lit ''Content-Type: '' @ lit ''application/x-www-form-urlencoded, '' @
            lit ''multipart, text/plain''),
         PyStr (lit ''Tanpa custom headers; browser LANGSUNG '' @
            lit ''mengirim request ke backend''),
         PyStr (lit ''Target utama serangan formulir HTML CSRF '' @ lit ''klasik'')]),
      (''type'', PyStr (lit ''bullet''))],
    PyDict
     [(''title'', PyStr (lit ''PREFLIGHT REQUEST (OPTIONS)'')),
      (''items'', PyList
        [PyStr (lit ''Method: PUT, DELETE, PATCH atau '' @
            lit ''Content-Type: application/json''),
         PyStr (lit ''Memakai custom header seperti X-CSRF-Token '' @ lit ''atau Authorization''),
         PyStr (lit ''Browser mengirim OPTIONS terlebih dahulu '' @
            lit ''untuk meminta izin CORS''),
         PyStr (lit ''Jika preflight gagal, actual request TIDAK '' @
            lit ''AKAN PERNAH dikirim'')]),
      (''type'', PyStr (lit ''bullet''))],
    PyDict
     [(''title'', PyStr (lit ''IMPLIKASI KEAMANAN'')),
      (''items'', PyList
        [PyStr (lit ''Penyerang CSRF memanfaatkan celah simple '' @
            lit ''request agar server langsung mengeksekusi'')]),
      (''type'', PyStr (lit ''bullet''))]]\<close>

definition lab36_slide_05 :: pycall where [lab36_slides]:
  \<open>lab36_slide_05 =
   \<lparr>posargs = [],
  kwargs =
   [(''categories'', PyList
      [PyStr (lit ''SPESIFIKASI''),
       PyStr (lit ''WHATWG FETCH'')]),
    (''title'', PyStr (lit ''Simple Request vs Preflight OPTIONS'')),
    (''subtitle'', PyStr (lit ''Kapan browser meminta izin sebelum mengirim '' @
        lit ''dan kapan langsung mengeksekusi'')),
    (''content_items'', lab36_items_05),
    (''mental_model'', PyStr (lit ''Simple requests fire immediately without '' @
        lit ''asking; preflight requests ask permission '' @ lit ''first.'')),
    (''source_path'', PyStr (lit ''labs/36-cors-and-csrf/internal/cors/middlewa'' @ lit ''re.go:44-92'')),
    (''slide_num'', PyStr (lit ''05 / 24'')),
    (''narrative'', PyStr (lit ''Standar WHATWG Fetch membedakan request '' @
        lit ''menjadi simple request dan non-simple '' @
        lit ''request. Simple request menggunakan method '' @
        lit ''standar dan encoding form tanpa custom '' @
        lit ''header, sehingga dikirimkan langsung oleh '' @
        lit ''browser tanpa konfirmasi awal. Sebaliknya, '' @
        lit ''non-simple request memicu preflight '' @
        lit ''OPTIONS. Penyerang CSRF memanfaatkan sifat '' @
        lit ''simple request untuk mengeksekusi mutasi '' @ lit ''server seketika.'')),
    (''title_en'', PyStr (lit ''Simple Request vs Preflight OPTIONS'')),
    (''narrative_en'', PyStr (lit ''The WHATWG Fetch standard bifurcates '' @
        lit ''traffic into simple and preflighted '' @
        lit ''requests. Simple requests fire immediately '' @
        lit ''without permission checks, making them the '' @
        lit ''primary vehicle for CSRF exploits. '' @
        lit ''Non-simple requests mandate OPTIONS '' @
        lit ''preflight before sending actual payloads.''))]\<rparr>\<close>

definition lab36_items_06 :: pyval where [lab36_contents]:
  \<open>lab36_items_06 =
   PyList
   [PyDict
     [(''title'', PyStr (lit ''LANGKAH EKSPLOITASI'')),
      (''items'', PyList
        [PyStr (lit ''1. Korban login ke bank target dan memegang '' @
            lit ''cookie sesi aktif di browser''),
         PyStr (lit ''2. Korban terpancing membuka tab situs '' @
            lit ''penyerang (evil-attacker.com)''),
         PyStr (lit ''3. Halaman jahat menjalankan form submit '' @
            lit ''tersembunyi via script JavaScript''),
         PyStr (lit ''4. Browser otomatis menyertakan cookie sesi '' @
            lit ''korban ke request POST bank''),
         PyStr (lit ''5. Server backend memvalidasi cookie sesi '' @
            lit ''dan mengeksekusi transfer dana'')]),
      (''type'', PyStr (lit ''diagram''))],
    PyDict
     [(''title'', PyStr (lit ''KENAPA CORS GAGAL MENCEGAH?'')),
      (''items'', PyList
        [PyStr (lit ''Server mengeksekusi mutasi data sebelum '' @
            lit ''mengirimkan HTTP response''),
         PyStr (lit ''Browser memblokir pembacaan respons oleh '' @
            lit ''penyerang karena origin mismatch''),
         PyStr (lit ''Penyerang tidak butuh membaca respons; '' @
            lit ''saldo korban sudah terlanjur lenyap'')]),
      (''type'', PyStr (lit ''bullet''))],
    PyDict
     [(''title'', PyStr (lit ''KERUGIAN'')),
      (''items'', PyList
        [PyStr (lit ''Pemindahan aset finansial atau pembajakan '' @
            lit ''email akun korban secara diam-diam'')]),
      (''type'', PyStr (lit ''bullet''))]]\<close>

definition lab36_slide_06 :: pycall where [lab36_slides]:
  \<open>lab36_slide_06 =
   \<lparr>posargs = [],
  kwargs =
   [(''categories'', PyList
      [PyStr (lit ''ANALISIS SERANGAN''),
       PyStr (lit ''ANATOMI CSRF'')]),
    (''title'', PyStr (lit ''Anatomi Serangan Cross-Site Request Forgery'')),
    (''subtitle'', PyStr (lit ''Bagaimana situs penyerang mengeksploitasi '' @
        lit ''cookie korban yang tersimpan di browser'')),
    (''content_items'', lab36_items_06),
    (''mental_model'', PyStr (lit ''CSRF is blind execution: the attacker does '' @
        lit ''not need to read the reply to steal the '' @ lit ''prize.'')),
    (''source_path'', PyStr (lit ''labs/36-cors-and-csrf/content/02-master-draf'' @ lit ''t.md'')),
    (''slide_num'', PyStr (lit ''06 / 24'')),
    (''narrative'', PyStr (lit ''Serangan CSRF mengeksploitasi kepercayaan '' @
        lit ''server terhadap browser korban. Ketika form '' @
        lit ''submit otomatis dipicu dari situs '' @
        lit ''penyerang, browser melampirkan cookie sesi '' @
        lit ''milik korban. Server bank memproses '' @
        lit ''transfer tersebut hingga tuntas. Walaupun '' @
        lit ''browser kemudian menolak memberikan isi '' @
        lit ''response kepada penyerang karena aturan '' @
        lit ''CORS, mutasi saldo sudah selesai dicatat di '' @ lit ''database.'')),
    (''title_en'', PyStr (lit ''Anatomy of Cross-Site Request Forgery'')),
    (''narrative_en'', PyStr (lit ''CSRF exploits the server'' @ [39] @ lit ''s ambient trust in the user'' @
        [39] @ lit ''s browser session. When a hidden form '' @
        lit ''submits cross-site, the browser attaches '' @
        lit ''authenticated session cookies '' @
        lit ''automatically. The backend executes the '' @
        lit ''transfer before CORS can block response '' @ lit ''reading.''))]\<rparr>\<close>

definition lab36_items_07 :: pyval where [lab36_contents]:
  \<open>lab36_items_07 =
   PyList
   [PyDict
     [(''title'', PyStr (lit ''KODE TEST INTEGRASI'')),
      (''items'', PyList
        [PyStr (lit ''req := httptest.NewRequest(POST, '' @
            lit ''"/api/transfer/vulnerable", body)''),
         PyStr (lit ''req.Header.Set("Origin", '' @ lit ''"https://evil-attacker.com")''),
         PyStr (lit ''req.AddCookie(&http.Cookie{Name: '' @ lit ''"session_id", Value: '' @
            lit ''"session-victim-secret"})''),
         PyStr [],
         PyStr (lit ''app.ServeHTTP(rec, req)''),
         PyStr (lit ''// Response: 200 OK!''),
         PyStr (lit ''// ACAO Header: Kosong (ditolak untuk '' @ lit ''evil-attacker.com)''),
         PyStr (lit ''// Saldo Korban: Turun dari $1000 menjadi '' @ lit ''$700!'')]),
      (''type'', PyStr (lit ''code''))],
    PyDict
     [(''title'', PyStr (lit ''FAKTA TERVERIFIKASI'')),
      (''items'', PyList
        [PyStr (lit ''Status HTTP: 200 OK (handler bisnis '' @
            lit ''transfer tetap tereksekusi)''),
         PyStr (lit ''Header Access-Control-Allow-Origin: Omitted '' @
            lit ''(tidak diberikan ke attacker)''),
         PyStr (lit ''Saldo akun korban: Berkurang $300 ke '' @ lit ''rekening penyerang'')]),
      (''type'', PyStr (lit ''bullet''))]]\<close>

definition lab36_slide_07 :: pycall where [lab36_slides]:
  \<open>lab36_slide_07 =
   \<lparr>posargs = [],
  kwargs =
   [(''categories'', PyList
      [PyStr (lit ''BUKTI KODE''),
       PyStr (lit ''INTEGRATION TEST'')]),
    (''title'', PyStr (lit ''Bukti Empiris: CORS Tidak Mencegah Eksekusi'')),
    (''subtitle'', PyStr (lit ''Test membuktikan saldo korban berkurang '' @
        lit ''meskipun origin penyerang ditolak CORS'')),
    (''content_items'', lab36_items_07),
    (''mental_model'', PyStr (lit ''Backend execution occurs before header '' @
        lit ''evaluation. No CORS header does not mean no '' @ lit ''mutation.'')),
    (''source_path'', PyStr (lit ''labs/36-cors-and-csrf/tests/integration_test'' @ lit ''.go:54-87'')),
    (''slide_num'', PyStr (lit ''07 / 24'')),
    (''narrative'', PyStr (lit ''Pengujian TestIntegration_CORS_Does_Not_Prev'' @
        lit ''ent_CSRF_Execution membuktikan realitas ini '' @
        lit ''secara definitif. Request POST dari origin '' @
        lit ''evil-attacker.com berhasil memicu '' @
        lit ''pemotongan saldo korban sebesar $300 dan '' @
        lit ''menambah saldo penyerang. Meskipun '' @
        lit ''middleware CORS tidak menyertakan header '' @
        lit ''Access-Control-Allow-Origin, mutasi '' @ lit ''transaksi telah tuntas.'')),
    (''title_en'', PyStr (lit ''Empirical Proof: CORS Allows Backend '' @ lit ''Execution'')),
    (''narrative_en'', PyStr (lit ''Integration tests confirm that cross-origin '' @
        lit ''simple POST requests mutate backend state '' @
        lit ''regardless of CORS configuration. The '' @
        lit ''vulnerable transfer endpoint returns 200 OK '' @
        lit ''and deducts $300 from the victim despite '' @
        lit ''omitting Access-Control-Allow-Origin '' @ lit ''headers.''))]\<rparr>\<close>

definition lab36_items_08 :: pyval where [lab36_contents]:
  \<open>lab36_items_08 =
   PyList
   [PyDict
     [(''title'', PyStr (lit ''KODE MIDDLEWARE CORS'')),
      (''items'', PyList
        [PyStr (lit ''if !m.isOriginAllowed(origin) {''),
         PyStr (lit ''    if r.Method == http.MethodOptions {''),
         PyStr (lit ''        w.WriteHeader(http.StatusForbidden);'' @ lit '' return''),
         PyStr (lit ''    }''),
         PyStr (lit ''    next.ServeHTTP(w, r) // Non-preflight '' @ lit ''tetap diteruskan!''),
         PyStr (lit ''    return''),
         PyStr (lit ''}''),
         PyStr (lit ''if m.config.AllowCredentials {''),
         PyStr (lit ''    w.Header().Set("Access-Control-Allow-Ori'' @ lit ''gin", origin)''),
         PyStr (lit ''    w.Header().Set("Access-Control-Allow-Cre'' @
            lit ''dentials", "true")''),
         PyStr (lit ''}'')]),
      (''type'', PyStr (lit ''code''))],
    PyDict
     [(''title'', PyStr (lit ''ATURAN SPESIFIKASI'')),
      (''items'', PyList
        [PyStr (lit ''Jika AllowCredentials: true, wildcard '' @ [39] @ lit ''*'' @ [39] @
            lit '' dilarang keras oleh browser''),
         PyStr (lit ''Origin yang tidak ada di whitelist ditolak '' @
            lit ''403 HANYA pada preflight OPTIONS''),
         PyStr (lit ''Header Vary: Origin wajib disetel untuk '' @
            lit ''mencegah cache poisoning di CDN'')]),
      (''type'', PyStr (lit ''bullet''))]]\<close>

definition lab36_slide_08 :: pycall where [lab36_slides]:
  \<open>lab36_slide_08 =
   \<lparr>posargs = [],
  kwargs =
   [(''categories'', PyList
      [PyStr (lit ''BUKTI KODE''),
       PyStr (lit ''CORS SPEC'')]),
    (''title'', PyStr (lit ''Implementasi Middleware CORS Standar W3C'')),
    (''subtitle'', PyStr (lit ''Menangani evaluasi origin, preflight '' @
        lit ''OPTIONS, dan aturan kredensial'')),
    (''content_items'', lab36_items_08),
    (''mental_model'', PyStr (lit ''Standard CORS middleware allows '' @
        lit ''unwhitelisted simple requests through to '' @ lit ''the next handler.'')),
    (''source_path'', PyStr (lit ''labs/36-cors-and-csrf/internal/cors/middlewa'' @ lit ''re.go:44-78'')),
    (''slide_num'', PyStr (lit ''08 / 24'')),
    (''narrative'', PyStr (lit ''Di dalam internal/cors/middleware.go, '' @
        lit ''kepatuhan terhadap spesifikasi W3C Fetch '' @
        lit ''terlihat jelas. Ketika origin tidak '' @
        lit ''terdaftar, request preflight OPTIONS '' @
        lit ''langsung ditolak dengan HTTP 403. Namun, '' @
        lit ''untuk request non-preflight (seperti simple '' @
        lit ''POST), middleware harus meneruskan request '' @
        lit ''ke handler berikutnya tanpa menyertakan '' @ lit ''header ACAO.'')),
    (''title_en'', PyStr (lit ''W3C Spec-Compliant CORS Middleware'')),
    (''narrative_en'', PyStr (lit ''The CORS middleware adheres strictly to W3C '' @
        lit ''Fetch rules. Disallowed origins receiving '' @
        lit ''preflight OPTIONS are rejected with 403 '' @
        lit ''Forbidden. However, non-preflight simple '' @
        lit ''requests pass through to subsequent '' @
        lit ''handlers without CORS headers.''))]\<rparr>\<close>

definition lab36_items_09 :: pyval where [lab36_contents]:
  \<open>lab36_items_09 =
   PyList
   [PyDict
     [(''title'', PyStr (lit ''LARANGAN SPESIFIKASI FETCH'')),
      (''items'', PyList
        [PyStr (lit ''Kombinasi ACAO: * dan ACAC: true dianggap '' @
            lit ''ILEGAL oleh browser modern''),
         PyStr (lit ''Browser akan menolak memberikan respons ke '' @ lit ''JavaScript client''),
         PyStr (lit ''Mencegah kebocoran data terotentikasi '' @
            lit ''secara tidak sengaja ke seluruh web'')]),
      (''type'', PyStr (lit ''bullet''))],
    PyDict
     [(''title'', PyStr (lit ''IMPLEMENTASI VALIDASI GO'')),
      (''items'', PyList
        [PyStr (lit ''TestCORS_Credentials_With_Wildcard_Disallowe'' @
            lit ''dInSpec memvalidasi aturan ini''),
         PyStr (lit ''Jika AllowCredentials aktif, server wajib '' @
            lit ''merefleksikan origin spesifik pemanggil''),
         PyStr (lit ''Server tidak boleh memancarkan '' @ [39] @ lit ''*'' @ [39] @
            lit '' jika request menyertakan cookie otentikasi'')]),
      (''type'', PyStr (lit ''bullet''))],
    PyDict
     [(''title'', PyStr (lit ''KESALAHAN UMUM'')),
      (''items'', PyList
        [PyStr (lit ''Merefleksikan Origin request secara membabi '' @
            lit ''buta tanpa whitelist sama berbahayanya '' @ lit ''dengan wildcard'')]),
      (''type'', PyStr (lit ''bullet''))]]\<close>

definition lab36_slide_09 :: pycall where [lab36_slides]:
  \<open>lab36_slide_09 =
   \<lparr>posargs = [],
  kwargs =
   [(''categories'', PyList
      [PyStr (lit ''KEAMANAN''),
       PyStr (lit ''CORS CAVEAT'')]),
    (''title'', PyStr (lit ''Aturan Kredensial & Wildcard Origin'')),
    (''subtitle'', PyStr (lit ''Larangan spesifikasi: mengapa wildcard '' @ [39] @ lit ''*'' @ [39] @
        lit '' ditolak saat membawa kredensial'')),
    (''content_items'', lab36_items_09),
    (''mental_model'', PyStr (lit ''Never pair wildcard origins with ambient '' @
        lit ''credentials; explicit whitelisting is '' @ lit ''non-negotiable.'')),
    (''source_path'', PyStr (lit ''labs/36-cors-and-csrf/internal/cors/middlewa'' @ lit ''re_test.go:42-63'')),
    (''slide_num'', PyStr (lit ''09 / 24'')),
    (''narrative'', PyStr (lit ''Spesifikasi web secara eksplisit melarang '' @
        lit ''penggunaan Access-Control-Allow-Origin: * '' @
        lit ''jika Access-Control-Allow-Credentials '' @
        lit ''bernilai true. Jika server melanggar aturan '' @
        lit ''ini, browser otomatis menolak respons. '' @
        lit ''Backend wajib merefleksikan origin secara '' @
        lit ''selektif hanya jika origin tersebut telah '' @
        lit ''terverifikasi dalam whitelist aman.'')),
    (''title_en'', PyStr (lit ''Credential Rules & Wildcard Origins'')),
    (''narrative_en'', PyStr (lit ''Web standards forbid pairing '' @
        lit ''Access-Control-Allow-Origin: * with '' @
        lit ''Access-Control-Allow-Credentials: true. If '' @
        lit ''credentials are included, the server must '' @
        lit ''explicitly whitelist and echo the validated '' @
        lit ''origin, accompanied by a Vary: Origin '' @ lit ''header.''))]\<rparr>\<close>

definition lab36_items_10 :: pyval where [lab36_contents]:
  \<open>lab36_items_10 =
   PyList
   [PyDict
     [(''title'', PyStr (lit ''LAPISAN 1: SIGNED CSRF TOKEN'')),
      (''items'', PyList
        [PyStr (lit ''HMAC-SHA256 Token terikat Session ID, TTL, '' @
            lit ''dan nonce (Double-Submit)'')]),
      (''type'', PyStr (lit ''bullet''))],
    PyDict
     [(''title'', PyStr (lit ''LAPISAN 2: FETCH METADATA'')),
      (''items'', PyList
        [PyStr (lit ''Evaluasi header Sec-Fetch-Site (tolak jika '' @
            lit ''cross-site pada method mutasi)'')]),
      (''type'', PyStr (lit ''bullet''))],
    PyDict
     [(''title'', PyStr (lit ''LAPISAN 3: CUSTOM API HEADER'')),
      (''items'', PyList
        [PyStr (lit ''Wajibkan header kustom X-Requested-With '' @
            lit ''(kebal dari submit form HTML)'')]),
      (''type'', PyStr (lit ''bullet''))],
    PyDict
     [(''title'', PyStr (lit ''LAPISAN 4: SAMESITE COOKIE'')),
      (''items'', PyList
        [PyStr (lit ''Konfigurasi cookie SameSite=Lax atau '' @
            lit ''SameSite=Strict pada layer auth'')]),
      (''type'', PyStr (lit ''bullet''))]]\<close>

definition lab36_slide_10 :: pycall where [lab36_slides]:
  \<open>lab36_slide_10 =
   \<lparr>posargs = [],
  kwargs =
   [(''categories'', PyList
      [PyStr (lit ''ARSITEKTUR''),
       PyStr (lit ''DEFENSE IN DEPTH'')]),
    (''title'', PyStr (lit ''Arsitektur Pertahanan CSRF Multi-Layer'')),
    (''subtitle'', PyStr (lit ''Menggabungkan 4 lapisan pertahanan untuk '' @
        lit ''menjamin keamanan mutasi state'')),
    (''content_items'', lab36_items_10),
    (''mental_model'', PyStr (lit ''Defense-in-depth: combine cryptographic '' @
        lit ''tokens, browser metadata, and cookie '' @ lit ''boundaries.'')),
    (''source_path'', PyStr (lit ''labs/36-cors-and-csrf/content/02-master-draf'' @ lit ''t.md'')),
    (''slide_num'', PyStr (lit ''10 / 24'')),
    (''narrative'', PyStr (lit ''Pertahanan CSRF yang tangguh tidak boleh '' @
        lit ''bergantung pada satu mekanisme tunggal. '' @
        lit ''Pendekatan defense-in-depth menggabungkan '' @
        lit ''Signed Double-Submit Token berbasis HMAC, '' @
        lit ''verifikasi Fetch Metadata dari browser, '' @
        lit ''penegakan header custom untuk API AJAX, '' @
        lit ''serta konfigurasi cookie SameSite yang '' @ lit ''ketat pada sisi klien.'')),
    (''title_en'', PyStr (lit ''Multi-Layer Anti-CSRF Defense Architecture'')),
    (''narrative_en'', PyStr (lit ''Robust anti-CSRF defense avoids single '' @
        lit ''points of failure. The defense-in-depth '' @
        lit ''model composes HMAC-signed double-submit '' @
        lit ''tokens, Fetch Metadata verification, API '' @
        lit ''custom header enforcement, and strict '' @ lit ''SameSite cookie policies.''))]\<rparr>\<close>

definition lab36_items_11 :: pyval where [lab36_contents]:
  \<open>lab36_items_11 =
   PyList
   [PyDict
     [(''title'', PyStr (lit ''STRUKTUR PAYLOAD TOKEN'')),
      (''items'', PyList
        [PyStr (lit ''Payload: sessionID : timestamp : nonce''),
         PyStr (lit ''Signature: HMAC_SHA256(secret_key, payload)''),
         PyStr (lit ''Token Wire: base64(payload : '' @ lit ''base64(signature))'')]),
      (''type'', PyStr (lit ''diagram''))],
    PyDict
     [(''title'', PyStr (lit ''KEUNGGULAN POLA INI'')),
      (''items'', PyList
        [PyStr (lit ''Stateless: Server tidak perlu menyimpan '' @
            lit ''token di Redis atau database''),
         PyStr (lit ''Cryptographically Bound: Terikat pada ID '' @ lit ''sesi pengguna aktif''),
         PyStr (lit ''Anti-Replay & Expiring: Dilengkapi batas '' @
            lit ''waktu kedaluwarsa (TTL)'')]),
      (''type'', PyStr (lit ''bullet''))],
    PyDict
     [(''title'', PyStr (lit ''KEBAL SUBDOMAIN TAKEOVER'')),
      (''items'', PyList
        [PyStr (lit ''Naive Double-Submit cookie dapat disuntik '' @
            lit ''attacker; HMAC signature menggagalkannya'')]),
      (''type'', PyStr (lit ''bullet''))]]\<close>

definition lab36_slide_11 :: pycall where [lab36_slides]:
  \<open>lab36_slide_11 =
   \<lparr>posargs = [],
  kwargs =
   [(''categories'', PyList
      [PyStr (lit ''KRIPTOGRAFI''),
       PyStr (lit ''TOKEN PATTERN'')]),
    (''title'', PyStr (lit ''Signed Double-Submit Token (HMAC-SHA256)'')),
    (''subtitle'', PyStr (lit ''Membuat token stateless tanpa beban memori '' @
        lit ''session store di server'')),
    (''content_items'', lab36_items_11),
    (''mental_model'', PyStr (lit ''HMAC-signed double-submit tokens provide '' @
        lit ''stateless security immune to cookie '' @ lit ''injection.'')),
    (''source_path'', PyStr (lit ''labs/36-cors-and-csrf/internal/csrf/token.go'' @ lit '':43-59'')),
    (''slide_num'', PyStr (lit ''11 / 24'')),
    (''narrative'', PyStr (lit ''Pola Signed Double-Submit Token '' @
        lit ''menggabungkan efisiensi stateless dengan '' @
        lit ''integritas kriptografis. Payload token '' @
        lit ''berisi Session ID, timestamp pembuatan, dan '' @
        lit ''random nonce 16-byte yang ditandatangani '' @
        lit ''dengan HMAC-SHA256. Penyerang yang '' @
        lit ''menguasai subdomain tidak dapat memalsukan '' @
        lit ''token karena tidak memiliki secret key '' @ lit ''server.'')),
    (''title_en'', PyStr (lit ''Signed Double-Submit CSRF Token (HMAC)'')),
    (''narrative_en'', PyStr (lit ''The Signed Double-Submit pattern delivers '' @
        lit ''stateless CSRF defense without server '' @
        lit ''memory overhead. Tokens combine Session ID, '' @
        lit ''timestamp, and random nonce signed via '' @
        lit ''HMAC-SHA256, protecting against cookie '' @
        lit ''injection and subdomain compromise.''))]\<rparr>\<close>

definition lab36_items_12 :: pyval where [lab36_contents]:
  \<open>lab36_items_12 =
   PyList
   [PyDict
     [(''title'', PyStr (lit ''KODE VALIDASI TOKEN'')),
      (''items'', PyList
        [PyStr (lit ''parts := strings.Split(string(decoded), ":")''),
         PyStr (lit ''sessionID, tsStr, nonceStr, sigB64 := '' @
            lit ''parts[0], parts[1], parts[2], parts[3]''),
         PyStr (lit ''if sessionID != expectedSessionID { return '' @ lit ''ErrInvalidToken }''),
         PyStr [],
         PyStr (lit ''ts, err := strconv.ParseInt(tsStr, 10, 64)''),
         PyStr (lit ''if err != nil || time.Since(time.Unix(ts, '' @ lit ''0)) > tm.ttl {''),
         PyStr (lit ''    return ErrExpiredToken''),
         PyStr (lit ''}''),
         PyStr (lit ''expectedSig := hmac.New(sha256.New, '' @ lit ''tm.secret).Sum(payload)''),
         PyStr (lit ''if subtle.ConstantTimeCompare(actualSig, '' @ lit ''expectedSig) != 1 {''),
         PyStr (lit ''    return ErrInvalidToken''),
         PyStr (lit ''}'')]),
      (''type'', PyStr (lit ''code''))],
    PyDict
     [(''title'', PyStr (lit ''ANTI-TIMING ATTACK'')),
      (''items'', PyList
        [PyStr (lit ''subtle.ConstantTimeCompare mengeliminasi '' @
            lit ''kebocoran informasi via waktu eksekusi CPU'')]),
      (''type'', PyStr (lit ''bullet''))]]\<close>

definition lab36_slide_12 :: pycall where [lab36_slides]:
  \<open>lab36_slide_12 =
   \<lparr>posargs = [],
  kwargs =
   [(''categories'', PyList
      [PyStr (lit ''BUKTI KODE''),
       PyStr (lit ''HMAC VALIDATOR'')]),
    (''title'', PyStr (lit ''Implementasi Generate & Validate Token'')),
    (''subtitle'', PyStr (lit ''Validasi tanda tangan, Session ID, masa '' @
        lit ''aktif, dan constant-time compare'')),
    (''content_items'', lab36_items_12),
    (''mental_model'', PyStr (lit ''Constant-time verification prevents '' @
        lit ''side-channel timing attacks on '' @ lit ''cryptographic signatures.'')),
    (''source_path'', PyStr (lit ''labs/36-cors-and-csrf/internal/csrf/token.go'' @ lit '':62-110'')),
    (''slide_num'', PyStr (lit ''12 / 24'')),
    (''narrative'', PyStr (lit ''Method ValidateToken() di '' @
        lit ''internal/csrf/token.go menjalankan validasi '' @
        lit ''berlapis. Token diurai menjadi empat '' @
        lit ''komponen. Validator memeriksa kecocokan '' @
        lit ''Session ID, memastikan timestamp belum '' @
        lit ''kedaluwarsa, dan menghitung ulang HMAC '' @
        lit ''signature. subtle.ConstantTimeCompare '' @
        lit ''digunakan untuk mencegah penyerang '' @
        lit ''membongkar signature via timing attack.'')),
    (''title_en'', PyStr (lit ''Token Generation & Validation in Go'')),
    (''narrative_en'', PyStr (lit ''The ValidateToken method validates session '' @
        lit ''binding, timestamp expiration, and '' @
        lit ''cryptographic authenticity. Leveraging '' @
        lit ''crypto/subtle.ConstantTimeCompare '' @
        lit ''eliminates timing side-channel leakage '' @
        lit ''during signature verification.''))]\<rparr>\<close>

definition lab36_items_13 :: pyval where [lab36_contents]:
  \<open>lab36_items_13 =
   PyList
   [PyDict
     [(''title'', PyStr (lit ''KODE CSRF HANDLER'')),
      (''items'', PyList
        [PyStr (lit ''if r.Method == GET || r.Method == HEAD || '' @
            lit ''r.Method == OPTIONS {''),
         PyStr (lit ''    next.ServeHTTP(w, r); return''),
         PyStr (lit ''}''),
         PyStr (lit ''cookie, err := r.Cookie(m.cookieName)''),
         PyStr (lit ''if err != nil || cookie.Value == "" {''),
         PyStr (lit ''    http.Error(w, "Unauthorized: missing '' @
            lit ''cookie", 401); return''),
         PyStr (lit ''}''),
         PyStr (lit ''token := r.Header.Get("X-CSRF-Token")''),
         PyStr (lit ''if token == "" { token = '' @ lit ''r.PostFormValue("csrf_token") }''),
         PyStr [],
         PyStr (lit ''if err := m.tokenManager.ValidateToken(token'' @
            lit '', cookie.Value); err != nil {''),
         PyStr (lit ''    http.Error(w, "Forbidden: CSRF '' @
            lit ''validation failed", 403); return''),
         PyStr (lit ''}'')]),
      (''type'', PyStr (lit ''code''))],
    PyDict
     [(''title'', PyStr (lit ''FLEXIBILITAS TRANSPORT'')),
      (''items'', PyList
        [PyStr (lit ''Mendukung AJAX SPA via header X-CSRF-Token''),
         PyStr (lit ''Mendukung form HTML tradisional via field '' @ lit ''csrf_token'')]),
      (''type'', PyStr (lit ''bullet''))]]\<close>

definition lab36_slide_13 :: pycall where [lab36_slides]:
  \<open>lab36_slide_13 =
   \<lparr>posargs = [],
  kwargs =
   [(''categories'', PyList
      [PyStr (lit ''BUKTI KODE''),
       PyStr (lit ''MIDDLEWARE CSRF'')]),
    (''title'', PyStr (lit ''Middleware Proteksi CSRF di HTTP Handler'')),
    (''subtitle'', PyStr (lit ''Mengabaikan method aman dan memvalidasi '' @
        lit ''token dari header maupun form body'')),
    (''content_items'', lab36_items_13),
    (''mental_model'', PyStr (lit ''Safeguard state mutation: exempt safe '' @
        lit ''methods, extract token from header/form, '' @ lit ''verify against session.'')),
    (''source_path'', PyStr (lit ''labs/36-cors-and-csrf/internal/csrf/middlewa'' @ lit ''re.go:24-53'')),
    (''slide_num'', PyStr (lit ''13 / 24'')),
    (''narrative'', PyStr (lit ''Middleware CSRF bertindak sebagai gerbang '' @
        lit ''pengaman mutasi data. Request dengan method '' @
        lit ''aman (GET, HEAD, OPTIONS) langsung '' @
        lit ''dilewatkan. Untuk method mutasi (POST, PUT, '' @
        lit ''DELETE), middleware mengekstrak cookie sesi '' @
        lit ''dan mengambil token CSRF dari header atau '' @
        lit ''form field. Jika token tidak cocok atau '' @
        lit ''kedaluwarsa, server menolak dengan HTTP 403 '' @ lit ''Forbidden.'')),
    (''title_en'', PyStr (lit ''Anti-CSRF Middleware in HTTP Handler'')),
    (''narrative_en'', PyStr (lit ''The anti-CSRF middleware wraps sensitive '' @
        lit ''HTTP routes. It passes safe idempotent '' @
        lit ''methods transparently while interrogating '' @
        lit ''state-mutating requests. It extracts tokens '' @
        lit ''from either custom headers or form payloads '' @
        lit ''and rejects mismatches with 403 Forbidden.''))]\<rparr>\<close>

definition lab36_items_14 :: pyval where [lab36_contents]:
  \<open>lab36_items_14 =
   PyList
   [PyDict
     [(''title'', PyStr (lit ''NILAI SEC-FETCH-SITE'')),
      (''items'', PyList
        [PyStr (lit ''same-origin : Request diinisiasi dari '' @
            lit ''origin yang sama persis (Aman)''),
         PyStr (lit ''same-site   : Request diinisiasi dari '' @
            lit ''subdomain dalam registable domain sama''),
         PyStr (lit ''cross-site  : Request diinisiasi dari situs '' @
            lit ''luar sepenuhnya (Waspada!)''),
         PyStr (lit ''none        : Navigasi langsung oleh user '' @
            lit ''(misal ketik URL di address bar)'')]),
      (''type'', PyStr (lit ''bullet''))],
    PyDict
     [(''title'', PyStr (lit ''KODE MIDDLEWARE FETCH METADATA'')),
      (''items'', PyList
        [PyStr (lit ''fetchSite := r.Header.Get("Sec-Fetch-Site")''),
         PyStr (lit ''if fetchSite == "cross-site" {''),
         PyStr (lit ''    if r.Method != GET && r.Method != HEAD '' @
            lit ''&& r.Method != OPTIONS {''),
         PyStr (lit ''        http.Error(w, "Forbidden: '' @ lit ''Cross-site rejected", 403)''),
         PyStr (lit ''        return''),
         PyStr (lit ''    }''),
         PyStr (lit ''}'')]),
      (''type'', PyStr (lit ''code''))],
    PyDict
     [(''title'', PyStr (lit ''KEUNGGULAN UTAMA'')),
      (''items'', PyList
        [PyStr (lit ''Header disetel langsung oleh kernel '' @
            lit ''browser; tidak dapat diubah oleh JavaScript '' @ lit ''frontend'')]),
      (''type'', PyStr (lit ''bullet''))]]\<close>

definition lab36_slide_14 :: pycall where [lab36_slides]:
  \<open>lab36_slide_14 =
   \<lparr>posargs = [],
  kwargs =
   [(''categories'', PyList
      [PyStr (lit ''BROWSER MODERN''),
       PyStr (lit ''FETCH METADATA'')]),
    (''title'', PyStr (lit ''Fetch Metadata: Memanfaatkan Sec-Fetch-Site'')),
    (''subtitle'', PyStr (lit ''Header antipemalsuan browser untuk '' @
        lit ''mengidentifikasi asal usul inisiasi request'')),
    (''content_items'', lab36_items_14),
    (''mental_model'', PyStr (lit ''Browser-controlled metadata tells the '' @
        lit ''unvarnished truth about request origin.'')),
    (''source_path'', PyStr (lit ''labs/36-cors-and-csrf/internal/csrf/middlewa'' @ lit ''re.go:55-70'')),
    (''slide_num'', PyStr (lit ''14 / 24'')),
    (''narrative'', PyStr (lit ''Fetch Metadata merupakan standar W3C modern '' @
        lit ''di mana browser melampirkan header '' @
        lit ''Sec-Fetch-Site pada setiap request keluar. '' @
        lit ''Header ini bernilai cross-site jika dipicu '' @
        lit ''dari domain luar. Karena header ini '' @
        lit ''dikelola langsung oleh mesin browser dan '' @
        lit ''dilindungi dari manipulasi JavaScript, '' @
        lit ''backend dapat menolak request mutasi '' @
        lit ''cross-site tanpa perlu token sama sekali.'')),
    (''title_en'', PyStr (lit ''Fetch Metadata: Leveraging Sec-Fetch-Site'')),
    (''narrative_en'', PyStr (lit ''Fetch Metadata provides browser-asserted '' @
        lit ''contextual headers that JavaScript cannot '' @
        lit ''tamper with. A Sec-Fetch-Site value of '' @
        lit ''cross-site on state-changing methods allows '' @
        lit ''backend middleware to drop malicious '' @ lit ''requests instantly.''))]\<rparr>\<close>

definition lab36_items_15 :: pyval where [lab36_contents]:
  \<open>lab36_items_15 =
   PyList
   [PyDict
     [(''title'', PyStr (lit ''MEKANIKA TEKNIS'')),
      (''items'', PyList
        [PyStr (lit ''Formulir HTML standar (<form>) TIDAK BISA '' @
            lit ''menyetel custom HTTP headers''),
         PyStr (lit ''Hanya JavaScript terprogram (fetch / axios) '' @
            lit ''yang dapat menambahkan custom header''),
         PyStr (lit ''Menambahkan custom header otomatis memaksa '' @
            lit ''browser mengirim preflight OPTIONS'')]),
      (''type'', PyStr (lit ''bullet''))],
    PyDict
     [(''title'', PyStr (lit ''KODE MIDDLEWARE CUSTOM HEADER'')),
      (''items'', PyList
        [PyStr (lit ''func RequireCustomHeaderMiddleware(headerKey'' @
            lit '', expectedValue string) {''),
         PyStr (lit ''    val := r.Header.Get(headerKey)''),
         PyStr (lit ''    if val == "" || !strings.EqualFold(val, '' @ lit ''expectedValue) {''),
         PyStr (lit ''        http.Error(w, "Forbidden: Missing '' @
            lit ''custom header", 403); return''),
         PyStr (lit ''    }''),
         PyStr (lit ''}'')]),
      (''type'', PyStr (lit ''code''))],
    PyDict
     [(''title'', PyStr (lit ''BATASAN STRATEGI'')),
      (''items'', PyList
        [PyStr (lit ''Sangat efektif untuk REST API murni, namun '' @
            lit ''tidak dapat dipakai pada aplikasi berbasis '' @
            lit ''server-side rendered form'')]),
      (''type'', PyStr (lit ''bullet''))]]\<close>

definition lab36_slide_15 :: pycall where [lab36_slides]:
  \<open>lab36_slide_15 =
   \<lparr>posargs = [],
  kwargs =
   [(''categories'', PyList
      [PyStr (lit ''DEFENSE TRICK''),
       PyStr (lit ''CUSTOM HEADER'')]),
    (''title'', PyStr (lit ''Custom Header Enforcement untuk API'')),
    (''subtitle'', PyStr (lit ''Memanfaatkan keterbatasan form HTML standar '' @
        lit ''untuk mematikan eksploitasi CSRF'')),
    (''content_items'', lab36_items_15),
    (''mental_model'', PyStr (lit ''HTML forms cannot emit custom headers. '' @
        lit ''Require a custom header, defeat form CSRF '' @ lit ''by definition.'')),
    (''source_path'', PyStr (lit ''labs/36-cors-and-csrf/internal/csrf/middlewa'' @ lit ''re.go:72-86'')),
    (''slide_num'', PyStr (lit ''15 / 24'')),
    (''narrative'', PyStr (lit ''Salah satu pertahanan paling sederhana '' @
        lit ''namun ampuh untuk API backend adalah '' @
        lit ''mewajibkan header kustom seperti '' @
        lit ''X-Requested-With: XMLHttpRequest. Karena '' @
        lit ''tag form HTML standar di browser tidak '' @
        lit ''memiliki kemampuan menambahkan custom '' @
        lit ''header HTTP, seluruh upaya eksploitasi form '' @
        lit ''CSRF klasik langsung gagal sebelum mencapai '' @ lit ''handler bisnis.'')),
    (''title_en'', PyStr (lit ''API Custom Header Enforcement'')),
    (''narrative_en'', PyStr (lit ''Requiring custom headers like '' @
        lit ''X-Requested-With completely neutralizes '' @
        lit ''classic HTML form CSRF. Standard HTML form '' @
        lit ''tags cannot attach custom HTTP headers, '' @
        lit ''immediately breaking exploit attempts '' @ lit ''against API endpoints.''))]\<rparr>\<close>

definition lab36_items_16 :: pyval where [lab36_contents]:
  \<open>lab36_items_16 =
   PyList
   [PyDict
     [(''title'', PyStr (lit ''SAMESITE=STRICT'')),
      (''items'', PyList
        [PyStr (lit ''Cookie tidak pernah dikirim pada request '' @
            lit ''lintas situs dalam kondisi apapun''),
         PyStr (lit ''Bahkan saat user mengklik link dari email '' @
            lit ''atau search engine, cookie ditahan''),
         PyStr (lit ''Sangat aman, namun mengorbankan kenyamanan '' @
            lit ''login navigasi eksternal'')]),
      (''type'', PyStr (lit ''bullet''))],
    PyDict
     [(''title'', PyStr (lit ''SAMESITE=LAX (DEFAULT BROWSER MODERN)'')),
      (''items'', PyList
        [PyStr (lit ''Cookie ditahan pada cross-site POST '' @
            lit ''(memblokir serangan form CSRF)''),
         PyStr (lit ''Cookie tetap dikirim pada top-level GET '' @
            lit ''navigation (misal klik link)''),
         PyStr (lit ''Wajib: Endpoint GET harus idempotent dan '' @
            lit ''tidak boleh memutasi state!'')]),
      (''type'', PyStr (lit ''bullet''))],
    PyDict
     [(''title'', PyStr (lit ''SAMESITE=NONE'')),
      (''items'', PyList
        [PyStr (lit ''Cookie selalu dikirim lintas situs; wajib '' @
            lit ''menyertakan flag Secure (HTTPS)'')]),
      (''type'', PyStr (lit ''bullet''))]]\<close>

definition lab36_slide_16 :: pycall where [lab36_slides]:
  \<open>lab36_slide_16 =
   \<lparr>posargs = [],
  kwargs =
   [(''categories'', PyList
      [PyStr (lit ''COOKIE SECURITY''),
       PyStr (lit ''SAMESITE ATTRIBUTE'')]),
    (''title'', PyStr (lit ''Peran Atribut Cookie SameSite: Lax vs Strict'')),
    (''subtitle'', PyStr (lit ''Membendung pengiriman kredensial otomatis '' @
        lit ''pada batas navigasi browser'')),
    (''content_items'', lab36_items_16),
    (''mental_model'', PyStr (lit ''SameSite=Lax blocks cross-origin POST '' @
        lit ''cookies; keep GET endpoints strictly '' @ lit ''read-only.'')),
    (''source_path'', PyStr (lit ''labs/36-cors-and-csrf/content/02-master-draf'' @ lit ''t.md'')),
    (''slide_num'', PyStr (lit ''16 / 24'')),
    (''narrative'', PyStr (lit ''Atribut SameSite pada cookie menentukan '' @
        lit ''kapan browser diizinkan melampirkan cookie '' @
        lit ''sesi. SameSite=Lax yang menjadi default '' @
        lit ''browser modern menahan cookie pada request '' @
        lit ''POST lintas situs. Namun, karena cookie '' @
        lit ''tetap dikirim pada navigasi top-level GET, '' @
        lit ''sistem tidak boleh melakukan mutasi saldo '' @
        lit ''atau perubahan data melalui method GET.'')),
    (''title_en'', PyStr (lit ''Cookie SameSite Attributes: Lax vs Strict'')),
    (''narrative_en'', PyStr (lit ''SameSite cookie attributes govern ambient '' @
        lit ''credential transmission. SameSite=Lax '' @
        lit ''withholds cookies on cross-origin POST '' @
        lit ''requests while transmitting them on '' @
        lit ''top-level GET links. Consequently, GET '' @
        lit ''endpoints must remain strictly read-only '' @ lit ''and idempotent.''))]\<rparr>\<close>

definition lab36_items_17 :: pyval where [lab36_contents]:
  \<open>lab36_items_17 =
   PyList
   [PyDict
     [(''title'', PyStr (lit ''OUTPUT RUN CMD/DEMO'')),
      (''items'', PyList
        [PyStr (lit ''[1] Initial State: Victim: $1000 | '' @ lit ''Attacker: $50''),
         PyStr (lit ''[2] DEMO: Attack on Vulnerable Endpoint '' @
            lit ''(Origin: https://evil.com)''),
         PyStr (lit ''    HTTP Response Code: 200 | CORS Header: '' @ lit ''""''),
         PyStr (lit ''    [RESULT] Transfer EXECUTED! Victim: '' @ lit ''$600 | Attacker: $450''),
         PyStr (lit ''[3] DEMO: Attack on Protected Endpoint (No '' @ lit ''CSRF Token)''),
         PyStr (lit ''    HTTP Response Code: 403''),
         PyStr (lit ''    [RESULT] Transfer BLOCKED! Victim: $600 '' @ lit ''| Attacker: $450''),
         PyStr (lit ''[4] DEMO: Legitimate Flow with Valid CSRF '' @ lit ''Token''),
         PyStr (lit ''    Obtained Signed Token: '' @ lit ''c2Vzc2lvbi12aWN0aW0tc2Vjc...''),
         PyStr (lit ''    [RESULT] Transfer Succeeded! Victim: '' @
            lit ''$500 | Attacker: $550'')]),
      (''type'', PyStr (lit ''code''))]]\<close>

definition lab36_slide_17 :: pycall where [lab36_slides]:
  \<open>lab36_slide_17 =
   \<lparr>posargs = [],
  kwargs =
   [(''categories'', PyList
      [PyStr (lit ''HASIL PENGUJIAN''),
       PyStr (lit ''DEMO RUN'')]),
    (''title'', PyStr (lit ''Eksekusi Demo: Bukti Terminal Langsung'')),
    (''subtitle'', PyStr (lit ''Simulasi nyata serangan dan pertahanan pada '' @ lit ''cmd/demo/main.go'')),
    (''content_items'', lab36_items_17),
    (''mental_model'', PyStr (lit ''Terminal output confirms: vulnerable '' @
        lit ''endpoints fall to simple POST; protected '' @ lit ''endpoints hold firm.'')),
    (''source_path'', PyStr (lit ''labs/36-cors-and-csrf/cmd/demo/main.go'')),
    (''slide_num'', PyStr (lit ''17 / 24'')),
    (''narrative'', PyStr (lit ''Program demo di cmd/demo/main.go '' @
        lit ''memperlihatkan realitas serangan secara '' @
        lit ''nyata. Pada endpoint rentan, serangan '' @
        lit ''transfer $400 dari evil.com sukses '' @
        lit ''dieksekusi menghasilkan saldo korban $600. '' @
        lit ''Namun, ketika serangan diarahkan ke '' @
        lit ''endpoint terlindungi tanpa token CSRF, '' @
        lit ''server mengembalikan status 403 Forbidden '' @
        lit ''dan saldo korban tetap aman.'')),
    (''title_en'', PyStr (lit ''Demo Execution: Direct Terminal Evidence'')),
    (''narrative_en'', PyStr (lit ''The demonstration in cmd/demo/main.go '' @
        lit ''provides conclusive terminal evidence. A '' @
        lit ''cross-origin exploit against the vulnerable '' @
        lit ''route executes successfully, while the '' @
        lit ''protected route rejects unauthenticated '' @
        lit ''mutations with HTTP 403 Forbidden.''))]\<rparr>\<close>

definition lab36_items_18 :: pyval where [lab36_contents]:
  \<open>lab36_items_18 =
   PyList
   [PyDict
     [(''title'', PyStr (lit ''HASIL EKSEKUSI PENGUJIAN'')),
      (''items'', PyList
        [PyStr (lit ''PASS: TestBankTransfer_VulnerableEndpoint   '' @ lit ''    (0.00s)''),
         PyStr (lit ''PASS: TestCORS_Preflight_Success            '' @ lit ''   (0.00s)''),
         PyStr (lit ''PASS: TestCORS_Credentials_With_Wildcard    '' @ lit ''   (0.00s)''),
         PyStr (lit ''PASS: TestTokenManager_GenerateAndValidate  '' @ lit ''   (0.00s)''),
         PyStr (lit ''PASS: TestTokenManager_ExpiredToken         '' @ lit ''   (0.02s)''),
         PyStr (lit ''PASS: TestIntegration_CORS_Does_Not_Prevent '' @ lit ''   (0.00s)''),
         PyStr (lit ''PASS: TestIntegration_CSRF_Token_Prevents   '' @ lit ''   (0.00s)''),
         PyStr (lit ''PASS: TestIntegration_SecFetchSite_Protectio'' @ lit ''n  (0.00s)''),
         PyStr (lit ''PASS: TestIntegration_Concurrency_RaceCondit'' @ lit ''ion (0.00s)''),
         PyStr (lit ''PASS: go test -race ./... (Race-Clean '' @ lit ''Verified)'')]),
      (''type'', PyStr (lit ''code''))],
    PyDict
     [(''title'', PyStr (lit ''UJI KONKURENSI'')),
      (''items'', PyList
        [PyStr (lit ''20 worker simultan melakukan pembuatan dan '' @
            lit ''validasi token tanpa tabrakan memori'')]),
      (''type'', PyStr (lit ''bullet''))]]\<close>

definition lab36_slide_18 :: pycall where [lab36_slides]:
  \<open>lab36_slide_18 =
   \<lparr>posargs = [],
  kwargs =
   [(''categories'', PyList
      [PyStr (lit ''VERIFIKASI TEST''),
       PyStr (lit ''TEST SUITE'')]),
    (''title'', PyStr (lit ''Verifikasi Test Suite & Bebas Race Condition'')),
    (''subtitle'', PyStr (lit ''13 test case diverifikasi 100% lulus dengan '' @
        lit ''Go Race Detector aktif'')),
    (''content_items'', lab36_items_18),
    (''mental_model'', PyStr (lit ''Deterministic test assertions prove '' @
        lit ''security invariants and concurrency safety.'')),
    (''source_path'', PyStr (lit ''labs/36-cors-and-csrf/tests/integration_test'' @ lit ''.go'')),
    (''slide_num'', PyStr (lit ''18 / 24'')),
    (''narrative'', PyStr (lit ''Seluruh 13 pengujian unit dan integrasi '' @
        lit ''lulus dengan Go Race Detector aktif. '' @
        lit ''Pengujian mencakup verifikasi penolakan '' @
        lit ''origin CORS, validasi tanda tangan HMAC, '' @
        lit ''penolakan token kedaluwarsa, blokade '' @
        lit ''cross-site Sec-Fetch-Site, pencegahan token '' @
        lit ''reuse lintas sesi, hingga stabilitas '' @
        lit ''konkurensi di bawah beban paralel.'')),
    (''title_en'', PyStr (lit ''Test Suite Verification & Race Safety'')),
    (''narrative_en'', PyStr (lit ''All 13 unit and integration test cases pass '' @
        lit ''cleanly under the Go race detector. Tests '' @
        lit ''validate origin whitelisting, cryptographic '' @
        lit ''signatures, expiration timeouts, '' @
        lit ''Sec-Fetch-Site drops, cross-session reuse '' @
        lit ''barriers, and thread concurrency.''))]\<rparr>\<close>

definition lab36_items_19 :: pyval where [lab36_contents]:
  \<open>lab36_items_19 =
   PyList
   [PyDict
     [(''title'', PyStr (lit ''TABEL PERBANDINGAN MEKANISME'')),
      (''items'', PyList
        [PyStr (lit ''Mekanisme Keamanan | Target Proteksi | '' @
            lit ''Lokasi Penegakan | Tangkal Form CSRF? | '' @
            lit ''Ketergantungan Browser''),
         PyStr (lit ''CORS Middleware    | Relaksasi Read  | '' @
            lit ''Browser & API    | TIDAK              | '' @ lit ''Penuh (Fetch Spec)''),
         PyStr (lit ''Signed CSRF Token  | Mutasi Write    | '' @
            lit ''Backend Server   | YA                 | Nol '' @
            lit ''(Bekerja di semua)''),
         PyStr (lit ''Fetch Metadata     | Mutasi Write    | '' @
            lit ''Gateway / App    | YA                 | '' @ lit ''Butuh browser modern''),
         PyStr (lit ''Custom Header API  | Mutasi Write    | '' @
            lit ''Gateway / App    | YA                 | Nol '' @ lit ''(API Client)''),
         PyStr (lit ''Cookie SameSite    | Ambient Cookie  | '' @
            lit ''Browser Engine   | YA (Lax/Strict)    | '' @ lit ''Butuh browser modern'')]),
      (''type'', PyStr (lit ''table''))],
    PyDict
     [(''title'', PyStr (lit ''KESIMPULAN EVALUASI'')),
      (''items'', PyList
        [PyStr (lit ''Hanya Signed CSRF Token yang memberikan '' @
            lit ''pertahanan 100% mandiri di sisi backend''),
         PyStr (lit ''Lapisan lain memperkuat pertahanan di layer '' @
            lit ''browser dan network gateway'')]),
      (''type'', PyStr (lit ''bullet''))]]\<close>

definition lab36_slide_19 :: pycall where [lab36_slides]:
  \<open>lab36_slide_19 =
   \<lparr>posargs = [],
  kwargs =
   [(''categories'', PyList
      [PyStr (lit ''TABEL EVALUASI''),
       PyStr (lit ''PERBANDINGAN'')]),
    (''title'', PyStr (lit ''Matriks Evaluasi: Mekanisme Pertahanan'')),
    (''subtitle'', PyStr (lit ''Perbandingan komparatif 5 pendekatan '' @ lit ''keamanan web lintas origin'')),
    (''content_items'', lab36_items_19),
    (''mental_model'', PyStr (lit ''Only cryptographic tokens provide absolute '' @
        lit ''backend independence; other layers '' @ lit ''reinforce the perimeter.'')),
    (''source_path'', PyStr (lit ''labs/36-cors-and-csrf/content/02-master-draf'' @ lit ''t.md'')),
    (''slide_num'', PyStr (lit ''19 / 24'')),
    (''narrative'', PyStr (lit ''Tabel komparasi memperjelas posisi '' @
        lit ''masing-masing mekanisme. CORS sama sekali '' @
        lit ''tidak menangkal form CSRF karena fokusnya '' @
        lit ''adalah relaksasi pembacaan respons. Signed '' @
        lit ''CSRF Token adalah satu-satunya mekanisme '' @
        lit ''yang 100% independen dari peramban karena '' @
        lit ''divalidasi langsung oleh logika '' @ lit ''kriptografis backend.'')),
    (''title_en'', PyStr (lit ''Comparative Matrix: 5 Security Dimensions'')),
    (''narrative_en'', PyStr (lit ''The comparative matrix clarifies defense '' @
        lit ''boundaries. CORS is ineffective against '' @
        lit ''form CSRF as it targets read access. Signed '' @
        lit ''CSRF tokens remain the sole mechanism '' @
        lit ''providing 100% server-side autonomy '' @
        lit ''independent of browser capabilities.''))]\<rparr>\<close>

definition lab36_items_20 :: pyval where [lab36_contents]:
  \<open>lab36_items_20 =
   PyList
   [PyDict
     [(''title'', PyStr (lit ''ALUR BYPASS VIA XSS'')),
      (''items'', PyList
        [PyStr (lit ''1. Penyerang menemukan celah Stored / '' @
            lit ''Reflected XSS pada domain target''),
         PyStr (lit ''2. Script jahat penyerang dieksekusi di '' @
            lit ''dalam context origin yang sah''),
         PyStr (lit ''3. Karena berada di origin yang sama, SOP '' @
            lit ''mengizinkan script membaca DOM''),
         PyStr (lit ''4. Script melakukan fetch ke '' @
            lit ''/api/csrf-token dan membaca token sah''),
         PyStr (lit ''5. Script mengeksekusi POST transfer '' @
            lit ''lengkap dengan token dan cookie korban'')]),
      (''type'', PyStr (lit ''diagram''))],
    PyDict
     [(''title'', PyStr (lit ''IMPLIKASI KEAMANAN'')),
      (''items'', PyList
        [PyStr (lit ''XSS adalah kerentanan tingkat origin yang '' @
            lit ''mengalahkan seluruh pertahanan CSRF''),
         PyStr (lit ''Pertahanan CSRF wajib didampingi Content '' @
            lit ''Security Policy (CSP) dan sanitasi input'')]),
      (''type'', PyStr (lit ''bullet''))]]\<close>

definition lab36_slide_20 :: pycall where [lab36_slides]:
  \<open>lab36_slide_20 =
   \<lparr>posargs = [],
  kwargs =
   [(''categories'', PyList
      [PyStr (lit ''ANALISIS ANCAMAN''),
       PyStr (lit ''XSS INTERACTION'')]),
    (''title'', PyStr (lit ''Ancaman Tersembunyi: XSS Melumpuhkan CSRF'')),
    (''subtitle'', PyStr (lit ''Mengapa pertahanan CSRF terbaik sekalipun '' @
        lit ''runtuh jika origin memiliki celah XSS'')),
    (''content_items'', lab36_items_20),
    (''mental_model'', PyStr (lit ''XSS invalidates all anti-CSRF defenses by '' @
        lit ''executing within the trusted origin context.'')),
    (''source_path'', PyStr (lit ''labs/36-cors-and-csrf/content/01-content-bri'' @ lit ''ef.md'')),
    (''slide_num'', PyStr (lit ''20 / 24'')),
    (''narrative'', PyStr (lit ''Penting untuk diingat bahwa seluruh '' @
        lit ''pertahanan anti-CSRF (baik token, SameSite, '' @
        lit ''maupun Fetch Metadata) runtuh jika aplikasi '' @
        lit ''memiliki kerentanan Cross-Site Scripting '' @
        lit ''(XSS). Jika penyerang dapat menyuntikkan '' @
        lit ''script ke origin target, script tersebut '' @
        lit ''memiliki hak istimewa SOP untuk membaca '' @
        lit ''token CSRF secara sah dan mengeksekusi '' @
        lit ''transaksi atas nama korban.'')),
    (''title_en'', PyStr (lit ''Hidden Threat: XSS Defeats Anti-CSRF'')),
    (''narrative_en'', PyStr (lit ''All anti-CSRF mechanisms collapse if an '' @
        lit ''application contains Cross-Site Scripting '' @
        lit ''vulnerabilities. An injected script '' @
        lit ''executes within the trusted origin context, '' @
        lit ''allowing it to read CSRF tokens legally '' @
        lit ''under SOP and authorize malicious '' @ lit ''transactions.''))]\<rparr>\<close>

definition lab36_items_21 :: pyval where [lab36_contents]:
  \<open>lab36_items_21 =
   PyList
   [PyDict
     [(''title'', PyStr (lit ''BATAS 1: SECRET KEY IN-MEMORY'')),
      (''items'', PyList
        [PyStr (lit ''Kunci rahasia HMAC menggunakan byte slice '' @
            lit ''statis dalam kode demo''),
         PyStr (lit ''Produksi wajib menggunakan AWS Secrets '' @
            lit ''Manager, Vault, dan key rotation'')]),
      (''type'', PyStr (lit ''bullet''))],
    PyDict
     [(''title'', PyStr (lit ''BATAS 2: DELIMITER STRING PARSER'')),
      (''items'', PyList
        [PyStr (lit ''Token memisahkan field menggunakan karakter '' @ lit ''titik dua ('' @
            [39] @ lit '':'' @ [39] @ lit '')''),
         PyStr (lit ''Jika sessionID sistem memuat karakter '' @ [39] @ lit '':'' @ [39] @
            lit '', parsing token akan terganggu''),
         PyStr (lit ''Produksi memerlukan format terstruktur '' @
            lit ''seperti JSON, Protobuf, atau hex encoding'')]),
      (''type'', PyStr (lit ''bullet''))],
    PyDict
     [(''title'', PyStr (lit ''BATAS 3: LINGKUP BROWSER'')),
      (''items'', PyList
        [PyStr (lit ''SOP, CORS, dan CSRF murni berada pada '' @
            lit ''lingkup runtime peramban web''),
         PyStr (lit ''HTTP client non-browser (cURL, script '' @
            lit ''backend) tidak terikat aturan ini'')]),
      (''type'', PyStr (lit ''bullet''))]]\<close>

definition lab36_slide_21 :: pycall where [lab36_slides]:
  \<open>lab36_slide_21 =
   \<lparr>posargs = [],
  kwargs =
   [(''categories'', PyList
      [PyStr (lit ''BATAS LAB''),
       PyStr (lit ''DISCLAIMER'')]),
    (''title'', PyStr (lit ''Batasan Model & Implementasi Lab 36'')),
    (''subtitle'', PyStr (lit ''Penyederhanaan pedagogis untuk menonjolkan '' @
        lit ''prinsip mekanika protokol'')),
    (''content_items'', lab36_items_21),
    (''mental_model'', PyStr (lit ''A lab isolates cryptographic mechanics; '' @
        lit ''production demands secret management and '' @ lit ''structured payloads.'')),
    (''source_path'', PyStr (lit ''labs/36-cors-and-csrf/README.md'')),
    (''slide_num'', PyStr (lit ''21 / 24'')),
    (''narrative'', PyStr (lit ''Lab ini menyederhanakan beberapa aspek '' @
        lit ''infrastruktur untuk menjaga fokus edukasi. '' @
        lit ''Kunci rahasia HMAC di-hardcode dalam '' @
        lit ''memori, dan token diurai menggunakan string '' @
        lit ''delimiter sederhana. Dalam sistem produksi '' @
        lit ''riil, kunci HMAC wajib dikelola melalui key '' @
        lit ''management service dan token sebaiknya '' @
        lit ''menggunakan format terstruktur seperti JSON '' @
        lit ''Web Signature (JWS) atau Protobuf.'')),
    (''title_en'', PyStr (lit ''Lab 36 Model Boundaries & Constraints'')),
    (''narrative_en'', PyStr (lit ''This lab simplifies production '' @
        lit ''infrastructure for clarity. HMAC secret '' @
        lit ''keys reside in memory and tokens parse via '' @
        lit ''colon delimiters. Production deployments '' @
        lit ''demand managed key vaults, automatic '' @
        lit ''rotation, and structured token payloads.''))]\<rparr>\<close>

definition lab36_items_22 :: pyval where [lab36_contents]:
  \<open>lab36_items_22 =
   PyList
   [PyDict
     [(''title'', PyStr (lit ''VERIFIKASI CORS & HTTP'')),
      (''items'', PyList
        [PyStr (lit ''[ ] Method GET, HEAD, OPTIONS dipastikan '' @
            lit ''bebas dari mutasi data database''),
         PyStr (lit ''[ ] CORS whitelist hanya mencantumkan '' @
            lit ''domain tepercaya (tanpa refleksi liar)''),
         PyStr (lit ''[ ] AllowCredentials: true TIDAK PERNAH '' @
            lit ''dipadukan dengan origin '' @ [39] @ lit ''*'' @ [39])]),
      (''type'', PyStr (lit ''bullet''))],
    PyDict
     [(''title'', PyStr (lit ''VERIFIKASI ANTI-CSRF'')),
      (''items'', PyList
        [PyStr (lit ''[ ] Seluruh rute mutasi state '' @
            lit ''(POST/PUT/DELETE) dilindungi Anti-CSRF Token''),
         PyStr (lit ''[ ] Token CSRF ditandatangani HMAC-SHA256, '' @
            lit ''terikat Session ID, dan memiliki TTL''),
         PyStr (lit ''[ ] Validasi signature menggunakan '' @ lit ''subtle.ConstantTimeCompare''),
         PyStr (lit ''[ ] Cookie otentikasi dipasangi flag '' @
            lit ''HttpOnly, Secure, dan SameSite=Lax''),
         PyStr (lit ''[ ] API gateway memverifikasi header '' @
            lit ''Sec-Fetch-Site dan Custom Header''),
         PyStr (lit ''[ ] Aplikasi terlindungi dari celah XSS via '' @
            lit ''Content Security Policy (CSP)'')]),
      (''type'', PyStr (lit ''bullet''))]]\<close>

definition lab36_slide_22 :: pycall where [lab36_slides]:
  \<open>lab36_slide_22 =
   \<lparr>posargs = [],
  kwargs =
   [(''categories'', PyList
      [PyStr (lit ''PANDUAN''),
       PyStr (lit ''CHECKLIST KEAMANAN'')]),
    (''title'', PyStr (lit ''Checklist Audit Keamanan CORS & CSRF'')),
    (''subtitle'', PyStr (lit ''9 langkah verifikasi wajib sebelum merilis '' @
        lit ''backend ke lingkungan produksi'')),
    (''content_items'', lab36_items_22),
    (''mental_model'', PyStr (lit ''Verify read-only GETs, strict origin '' @
        lit ''whitelists, signed tokens, and CSP before '' @ lit ''shipping.'')),
    (''source_path'', PyStr (lit ''labs/36-cors-and-csrf/content/02-master-draf'' @ lit ''t.md'')),
    (''slide_num'', PyStr (lit ''22 / 24'')),
    (''narrative'', PyStr (lit ''Gunakan checklist ini saat melakukan '' @
        lit ''security audit pada sistem web Anda. '' @
        lit ''Pastikan endpoint GET bebas dari efek '' @
        lit ''samping mutasi data, jangan pernah '' @
        lit ''menggabungkan wildcard CORS dengan '' @
        lit ''kredensial, wajibkan validasi token HMAC '' @
        lit ''yang terikat ke sesi pada setiap mutasi '' @
        lit ''POST, dan perkuat perimeter dengan header '' @
        lit ''Sec-Fetch-Site serta cookie SameSite.'')),
    (''title_en'', PyStr (lit ''Security Audit Checklist: CORS & CSRF'')),
    (''narrative_en'', PyStr (lit ''Apply this checklist during backend '' @
        lit ''security audits. Guarantee that GET routes '' @
        lit ''remain strictly read-only, prohibit '' @
        lit ''wildcard origins with credentials, mandate '' @
        lit ''session-bound HMAC tokens for mutations, '' @
        lit ''and configure SameSite cookies.''))]\<rparr>\<close>

definition lab36_items_23 :: pyval where [lab36_contents]:
  \<open>lab36_items_23 =
   PyList
   [PyDict
     [(''title'', PyStr (lit ''1. NEVER TRUST CLIENT BOUNDARIES FOR SERVER '' @ lit ''INTEGRITY'')),
      (''items'', PyList
        [PyStr (lit ''CORS adalah aturan kepatuhan browser, bukan '' @
            lit ''pelindung integritas database''),
         PyStr (lit ''Validasi otorisasi dan mutasi data wajib '' @
            lit ''ditegakkan sepenuhnya di sisi server'')]),
      (''type'', PyStr (lit ''bullet''))],
    PyDict
     [(''title'', PyStr (lit ''2. BIND TOKENS CRYPTOGRAPHICALLY TO SESSIONS'')),
      (''items'', PyList
        [PyStr (lit ''Anti-CSRF Token harus terikat secara '' @
            lit ''kriptografis ke identitas sesi aktif''),
         PyStr (lit ''Mencegah eksploitasi cross-session token '' @
            lit ''reuse dan pemalsuan token'')]),
      (''type'', PyStr (lit ''bullet''))],
    PyDict
     [(''title'', PyStr (lit ''3. DEFENSE IN DEPTH WINS'')),
      (''items'', PyList
        [PyStr (lit ''Kombinasikan Signed Token + SameSite Cookie '' @ lit ''+ Fetch Metadata''),
         PyStr (lit ''Kekuatan sistem berlapis menjamin keamanan '' @
            lit ''saat salah satu mekanisme gagal'')]),
      (''type'', PyStr (lit ''bullet''))]]\<close>

definition lab36_slide_23 :: pycall where [lab36_slides]:
  \<open>lab36_slide_23 =
   \<lparr>posargs = [],
  kwargs =
   [(''categories'', PyList
      [PyStr (lit ''PRINSIP INTI''),
       PyStr (lit ''KESIMPULAN'')]),
    (''title'', PyStr (lit ''Tiga Prinsip Inti Keamanan Cross-Origin'')),
    (''subtitle'', PyStr (lit ''Aksioma fundamental untuk melindungi '' @
        lit ''backend dari eksploitasi browser'')),
    (''content_items'', lab36_items_23),
    (''mental_model'', PyStr (lit ''CORS governs browser reads; cryptographic '' @
        lit ''server tokens defend backend writes. Build '' @
        lit ''multi-layered security.'')),
    (''source_path'', PyStr (lit ''labs/36-cors-and-csrf/content/05-key-takeawa'' @ lit ''ys.md'')),
    (''slide_num'', PyStr (lit ''23 / 24'')),
    (''narrative'', PyStr (lit ''Menjaga keamanan backend menuntut pemahaman '' @
        lit ''arsitektural yang jelas. Jangan pernah '' @
        lit ''mempercayai CORS untuk menjaga integritas '' @
        lit ''database. Selalu ikat token CSRF ke ID sesi '' @
        lit ''pengguna secara kriptografis, dan terapkan '' @
        lit ''arsitektur pertahanan berlapis untuk '' @
        lit ''menangkal berbagai vektor serangan lintas '' @ lit ''origin secara efektif.'')),
    (''title_en'', PyStr (lit ''Three Core Cross-Origin Security Principles'')),
    (''narrative_en'', PyStr (lit ''Securing backend systems demands conceptual '' @
        lit ''clarity. Never rely on CORS to protect '' @
        lit ''database integrity. Cryptographically bind '' @
        lit ''anti-CSRF tokens to active sessions, and '' @
        lit ''compose multi-layer defenses to neutralize '' @
        lit ''cross-origin attack vectors.''))]\<rparr>\<close>

definition lab36_items_24 :: pyval where [lab36_contents]:
  \<open>lab36_items_24 =
   PyList
   [PyDict
     [(''title'', PyStr (lit ''KEY RESULTS'')),
      (''items'', PyList
        [PyStr (lit ''internal/cors '' @ [0x2022] @ lit '' internal/csrf''),
         PyStr (lit ''internal/bank '' @ [0x2022] @ lit '' cmd/demo''),
         PyStr (lit ''tests/integration_test.go '' @ [0x2022] @ lit '' README.md'')]),
      (''type'', PyStr (lit ''bullet''))],
    PyDict
     [(''title'', PyStr (lit ''VERIFIKASI & STATUS'')),
      (''items'', PyList
        [PyStr (lit ''Sumber: commit '' @ str_prefix 8 lab36_COMMIT_SHA),
         PyStr (lit ''Semua test PASS dengan Go 1.22 Race '' @ lit ''Detector aktif''),
         PyStr (lit ''Terbukti: CORS tidak mencegah mutasi data '' @ lit ''sisi server'')]),
      (''type'', PyStr (lit ''bullet''))]]\<close>

definition lab36_slide_24 :: pycall where [lab36_slides]:
  \<open>lab36_slide_24 =
   \<lparr>posargs = [],
  kwargs =
   [(''categories'', PyList
      [PyStr (lit ''RINGKASAN''),
       PyStr (lit ''REPOSITORI'')]),
    (''title'', PyStr (lit ''Eksperimen kecil, interpretasi yang teliti.'')),
    (''subtitle'', PyStr (lit ''Commit: '' @ str_prefix 8 lab36_COMMIT_SHA @
        lit '' | 13/13 Tests PASS (Go 1.22 Race Clean) | '' @ lab36_AUTHOR)),
    (''content_items'', lab36_items_24),
    (''mental_model'', PyStr (lit ''SOP restricts cross-origin read; CSRF '' @
        lit ''exploits cross-origin write. CORS relaxes '' @
        lit ''read, it never defends write.'')),
    (''source_path'', PyStr (lit ''labs/36-cors-and-csrf/README.md'')),
    (''slide_num'', PyStr (lit ''24 / 24'')),
    (''narrative'', PyStr (lit ''Penelitian dan pengujian Lab 36 membuktikan '' @
        lit ''bahwa pemahaman tepat atas batas-batas '' @
        lit ''protokol browser melindungi backend dari '' @
        lit ''eksploitasi mutasi berbahaya.'')),
    (''title_en'', PyStr (lit ''Small experiment, careful interpretation.'')),
    (''narrative_en'', PyStr (lit ''Lab 36 demonstrates that precise '' @
        lit ''understanding of browser security '' @
        lit ''boundaries protects backend databases from '' @
        lit ''unauthorized write mutations.''))]\<rparr>\<close>

definition lab36_calls :: "pycall list" where
  "lab36_calls =
    [lab36_slide_01, lab36_slide_02, lab36_slide_03, lab36_slide_04, lab36_slide_05,
     lab36_slide_06, lab36_slide_07, lab36_slide_08, lab36_slide_09, lab36_slide_10,
     lab36_slide_11, lab36_slide_12, lab36_slide_13, lab36_slide_14, lab36_slide_15,
     lab36_slide_16, lab36_slide_17, lab36_slide_18, lab36_slide_19, lab36_slide_20,
     lab36_slide_21, lab36_slide_22, lab36_slide_23, lab36_slide_24]"

definition lab36_deck :: deck where
  "lab36_deck =
    \<lparr>add_slide = lab36_add_slide, lab_no = lab36_LAB_NO, title_id = lab36_TITLE_ID, calls = lab36_calls\<rparr>"

section \<open>Checks of the calls\<close>

lemma lab36_shapes:
  "\<forall>c \<in> set lab36_calls. shape_of c \<in> set
    [(0, [''categories'', ''title'', ''subtitle'', ''content_items'', ''mental_model'',
      ''source_path'', ''slide_num'', ''narrative'', ''title_en'', ''narrative_en''])]"
  by (simp only: lab36_calls_def lab36_slides shape_eval cong: pyval_opaque)

lemma lab36_calls_ok: "\<forall>c \<in> set lab36_calls. call_ok sig_fallback c"
  by (rule calls_ok_by_shapes [OF lab36_shapes])
    (simp add: shape_ok_def param_names_def signature_defs core_params_def)

lemma lab36_labels: "map (\<lambda>c. value_of sig_fallback c ''slide_num'') lab36_calls = labels_24"
  by (simp only: lab36_calls_def lab36_slides keyword_eval labels_24_eval cong: pyval_opaque)

lemma lab36_contents_of:
  "map (\<lambda>c. value_of sig_fallback c ''content_items'') lab36_calls =
    [lab36_items_01, lab36_items_02, lab36_items_03, lab36_items_04, lab36_items_05,
     lab36_items_06, lab36_items_07, lab36_items_08, lab36_items_09, lab36_items_10,
     lab36_items_11, lab36_items_12, lab36_items_13, lab36_items_14, lab36_items_15,
     lab36_items_16, lab36_items_17, lab36_items_18, lab36_items_19, lab36_items_20,
     lab36_items_21, lab36_items_22, lab36_items_23, lab36_items_24]"
  by (simp only: lab36_calls_def lab36_slides keyword_eval cong: pyval_opaque)

lemma lab36_items: "item_defects sig_fallback lab36_calls = []"
  by (simp only: item_defects_def lab36_contents_of)
    (simp add: lab36_contents item_eval cong: pystr_opaque)

end
