(* ===== verification/Deck37.thy ===== *)
theory Deck37
  imports DeckContract
begin

text \<open>
  The publication definition of lab 37, \<^verbatim>\<open>labs/37-cache-invalidation-strategies/result/content_def.py\<close>:
  its module constants, every \<open>add_slide\<close> call in order (\<open>lab37_slide_01\<close> is the first),
  and the module as a whole (\<open>lab37_deck\<close>). Long strings are split into pieces that are
  concatenated; a character outside ASCII is its code point.
\<close>

named_theorems lab37_slides \<open>the add_slide calls of lab 37\<close>
named_theorems lab37_contents \<open>their content_items arguments\<close>

definition lab37_OUTPUT_DIR :: pystr where
  \<open>lab37_OUTPUT_DIR = lit ''labs/37-cache-invalidation-strategies/result''\<close>

definition lab37_CHROME_BIN :: pystr where
  \<open>lab37_CHROME_BIN = lit ''/Applications/Google '' @ lit ''Chrome.app/Contents/MacOS/Google Chrome''\<close>

definition lab37_REPO_URL :: pystr where
  \<open>lab37_REPO_URL = lit ''https://github.com/lukman-ss/software-engine'' @
    lit ''ering-lab/tree/main/labs/37-cache-invalidati'' @ lit ''on-strategies''\<close>

definition lab37_COMMIT_SHA :: pystr where
  \<open>lab37_COMMIT_SHA = lit ''eac3d80ae5344055dc773e5e798bf50f3675a2cc''\<close>

definition lab37_LAB_NO :: pystr where
  \<open>lab37_LAB_NO = lit ''37''\<close>

definition lab37_SLUG :: pystr where
  \<open>lab37_SLUG = lit ''cache-invalidation-strategies''\<close>

definition lab37_TITLE_ID :: pystr where
  \<open>lab37_TITLE_ID = lit ''Strategi Invalidation Cache''\<close>

definition lab37_SUBTITLE_ID :: pystr where
  \<open>lab37_SUBTITLE_ID = lit ''Pola Write, Mitigasi Stampede, dan Jitter '' @ lit ''TTL dalam Go''\<close>

definition lab37_TITLE_EN :: pystr where
  \<open>lab37_TITLE_EN = lit ''Cache Invalidation Strategies''\<close>

definition lab37_SUBTITLE_EN :: pystr where
  \<open>lab37_SUBTITLE_EN = lit ''Write Patterns, Stampede Mitigations, and '' @ lit ''TTL Jitter in Go''\<close>

definition lab37_AUTHOR :: pystr where
  \<open>lab37_AUTHOR = lit ''Lukman / lukman-ss''\<close>

definition lab37_TOPIC_TAGS :: pystr where
  \<open>lab37_TOPIC_TAGS = lit ''Cache Invalidation '' @ [0x2022] @ lit '' Stampede '' @ [0x2022] @
    lit '' Singleflight '' @ [0x2022] @ lit '' XFetch '' @ [0x2022] @ lit '' SWR '' @
    [0x2022] @ lit '' Go''\<close>

definition lab37_add_slide :: "pycall \<Rightarrow> pyval list \<Rightarrow> (pyexc, pyval list) res" where
  "lab37_add_slide = add_slide_plain"

definition lab37_items_01 :: pyval where [lab37_contents]:
  \<open>lab37_items_01 =
   PyList
   [PyDict
     [(''type'', PyStr (lit ''cover'')),
      (''title'', PyStr []),
      (''items'', PyList
        [PyStr (lit ''Retro CRT monitor beige dengan scanlines''),
         PyStr (lit ''ASCII art terminal yang menampilkan cache '' @ lit ''miss/hit ratio''),
         PyStr (lit ''Ditulis oleh: '' @ lab37_AUTHOR),
         PyStr (lit ''Go 1.22 '' @ [0x2022] @ lit '' golang.org/x/sync/singleflight'')])]]\<close>

definition lab37_slide_01 :: pycall where [lab37_slides]:
  \<open>lab37_slide_01 =
   \<lparr>posargs = [],
  kwargs =
   [(''categories'', PyList
      [PyStr (lit ''COVER'')]),
    (''title'', PyStr lab37_TITLE_ID),
    (''subtitle'', PyStr lab37_SUBTITLE_ID),
    (''content_items'', lab37_items_01),
    (''mental_model'', PyStr []),
    (''source_path'', PyStr []),
    (''slide_num'', PyStr (lit ''01 / 24''))]\<rparr>\<close>

definition lab37_items_02 :: pyval where [lab37_contents]:
  \<open>lab37_items_02 =
   PyList
   [PyDict
     [(''title'', PyStr (lit ''KUTIPAN KLASIK'')),
      (''items'', PyList
        [PyStr (lit ''Phil Karlton: "There are only two hard '' @
            lit ''things in Computer Science:''),
         PyStr (lit ''cache invalidation and naming things." (dan '' @
            lit ''off-by-one errors).''),
         PyStr (lit ''Problem: cache menyimpan data lama; DB '' @
            lit ''terupdate; reader melihat stale data.'')]),
      (''type'', PyStr (lit ''bullet''))],
    PyDict
     [(''title'', PyStr (lit ''MOTIVASI'')),
      (''items'', PyList
        [PyStr (lit ''Cache mempercepat read dengan menyimpan '' @
            lit ''hasil query DB di memori.''),
         PyStr (lit ''Tanpa invalidasi tepat: inkonsistensi, '' @
            lit ''cache stampede, dan outage.''),
         PyStr (lit ''Trade-off: freshness vs throughput pada '' @ lit ''write policies.'')]),
      (''type'', PyStr (lit ''bullet''))],
    PyDict
     [(''title'', PyStr (lit ''BATASAN LAB'')),
      (''items'', PyList
        [PyStr (lit ''Lab 37 fokus pada 3 write policies + 4 '' @
            lit ''mitigasi stampede (SF, XFetch, SWR, Jitter).''),
         PyStr (lit ''Implementasi in-memory Go, tanpa '' @ lit ''Redis/PostgreSQL eksternal.''),
         PyStr (lit ''Verifikasi via unit test & demo CLI '' @ lit ''(race-clean).'')]),
      (''type'', PyStr (lit ''bullet''))]]\<close>

definition lab37_slide_02 :: pycall where [lab37_slides]:
  \<open>lab37_slide_02 =
   \<lparr>posargs = [],
  kwargs =
   [(''categories'', PyList
      [PyStr (lit ''MOTIVASI''),
       PyStr (lit ''BUKTI LAB'')]),
    (''title'', PyStr (lit ''Dilema Terbesar Sistem Terdistribusi'')),
    (''subtitle'', PyStr (lit ''Cache invalidation adalah salah satu dari '' @
        lit ''tiga masalah sulit dalam ilmu komputer.'')),
    (''content_items'', lab37_items_02),
    (''narrative'', PyStr (lit ''Cache invalidation adalah salah satu dilema '' @
        lit ''terbesar dalam arsitektur sistem '' @
        lit ''terdistribusi skala modern. Cache dirancang '' @
        lit ''sebagai lapisan memori kerja yang sangat '' @
        lit ''cepat di depan database, bertujuan agar '' @
        lit ''ribuan query per detik dapat dilayani tanpa '' @
        lit ''membebani storage persisten. Namun, ketika '' @
        lit ''record di database mengalami perubahan, '' @
        lit ''cache harus segera diperbarui atau dihapus. '' @
        lit ''Tanpa mekanisme invalidasi yang disiplin, '' @
        lit ''cache akan terus menyimpan data basi, '' @
        lit ''memicu inkonsistensi data di level '' @
        lit ''aplikasi, serta dapat merusak integritas '' @
        lit ''transaksi bisnis secara meluas.'')),
    (''narrative_en'', PyStr (lit ''Cache invalidation remains one of the '' @
        lit ''hardest challenges in distributed systems. '' @
        lit ''While caching shields persistent databases '' @
        lit ''from excessive traffic, maintaining '' @
        lit ''freshness during underlying database '' @
        lit ''updates is critical. Without disciplined '' @
        lit ''invalidation policies, stale reads and data '' @
        lit ''corruption will degrade application '' @ lit ''reliability and consistency.'')),
    (''mental_model'', PyStr (lit ''Cache invalidation is the hardest problem '' @
        lit ''because consistency is eventual, never '' @ lit ''instant.'')),
    (''source_path'', PyStr (lit ''labs/37-cache-invalidation-strategies/conten'' @ lit ''t/02-master-draft.md'')),
    (''slide_num'', PyStr (lit ''02 / 24''))]\<rparr>\<close>

definition lab37_items_03 :: pyval where [lab37_contents]:
  \<open>lab37_items_03 =
   PyList
   [PyDict
     [(''title'', PyStr (lit ''WRITE PATTERNS'')),
      (''items'', PyList
        [PyStr (lit ''Pola | Write Flow | Read Flow | '' @ lit ''Karakteristik''),
         PyStr (lit ''Cache-Aside | DB write '' @ [0x2192] @
            lit '' cache Delete | Cache miss '' @ [0x2192] @ lit '' DB query '' @ [0x2192] @
            lit '' Set | Lazy, default pragmatic''),
         PyStr (lit ''Write-Through | DB write '' @ [0x2192] @
            lit '' cache Set (sync) | Cache hit | Strong '' @ lit ''read-after-write''),
         PyStr (lit ''Write-Behind | Cache Set '' @ [0x2192] @
            lit '' async queue flush | Cache hit | High write '' @
            lit ''throughput, durability risk'')]),
      (''type'', PyStr (lit ''table''))],
    PyDict
     [(''title'', PyStr (lit ''STAMPEDE MITIGATIONS'')),
      (''items'', PyList
        [PyStr (lit ''Mitigasi | Teknik | Scope | Formula / '' @ lit ''Mekanisme''),
         PyStr (lit ''Singleflight | Request coalescing | '' @ lit ''Intra-process Go | '' @
            lit ''singleflight.Group.Do(key, fn)''),
         PyStr (lit ''XFetch | Probabilistic early refresh | '' @ lit ''Per-request | -'' @
            [0x394, 0xB7, 0x3B2, 0xB7] @ lit ''ln(U) > TTL_remaining''),
         PyStr (lit ''SWR | Stale serve + async revalidate | '' @
            lit ''Per-key | ExpiresAt + staleDelta window''),
         PyStr (lit ''TTL Jitter | Random TTL offset | Cross-key '' @
            lit ''| TTLWithJitter(base, maxJitter)'')]),
      (''type'', PyStr (lit ''table''))]]\<close>

definition lab37_slide_03 :: pycall where [lab37_slides]:
  \<open>lab37_slide_03 =
   \<lparr>posargs = [],
  kwargs =
   [(''categories'', PyList
      [PyStr (lit ''ARSITEKTUR''),
       PyStr (lit ''TAXONOMY'')]),
    (''title'', PyStr (lit ''Taksonomi Lab 37'')),
    (''subtitle'', PyStr (lit ''Tiga pola write + empat mitigasi stampede '' @
        lit ''dalam satu arsitektur Go.'')),
    (''content_items'', lab37_items_03),
    (''narrative'', PyStr (lit ''Lab 37 mengklasifikasikan strategi '' @
        lit ''pengelolaan cache ke dalam dua dimensi '' @
        lit ''arsitektural utama: write patterns dan '' @
        lit ''stampede mitigations. Tiga pola penulisan'' @ [0x2014] @
        lit ''Cache-Aside, Write-Through, dan Write-Behind'' @ [0x2014] @
        lit ''menentukan keseimbangan antara latensi '' @
        lit ''baca-tulis serta jaminan konsistensi data. '' @
        lit ''Di sisi lain, empat mitigasi stampede'' @ [0x2014] @
        lit ''Singleflight, XFetch, '' @ lit ''Stale-While-Revalidate, dan TTL Jitter'' @
        [0x2014] @ lit ''bekerja sama untuk mencegah kehancuran '' @
        lit ''database saat kunci panas kedaluwarsa '' @
        lit ''secara mendadak di bawah lonjakan '' @
        lit ''konkurensi. Seluruh komponen dimodelkan '' @
        lit ''secara murni dalam Go standar tanpa '' @ lit ''dependensi luar.'')),
    (''narrative_en'', PyStr (lit ''Lab 37 categorizes cache engineering into '' @
        lit ''write policies and stampede mitigations. '' @
        lit ''Three write strategies dictate latency and '' @
        lit ''consistency trade-offs, while four stampede '' @
        lit ''mitigations protect databases from '' @
        lit ''thundering herds during hot key expiration. '' @
        lit ''All patterns are implemented natively in Go '' @
        lit ''without external infrastructure.'')),
    (''mental_model'', PyStr (lit ''Map cache strategies into write policies vs '' @
        lit ''stampede mitigations matrix.'')),
    (''source_path'', PyStr (lit ''labs/37-cache-invalidation-strategies/conten'' @ lit ''t/02-master-draft.md'')),
    (''slide_num'', PyStr (lit ''03 / 24''))]\<rparr>\<close>

definition lab37_items_04 :: pyval where [lab37_contents]:
  \<open>lab37_items_04 =
   PyList
   [PyDict
     [(''title'', PyStr (lit ''GET FLOW (MISS)'')),
      (''items'', PyList
        [PyStr (lit ''1. cache.Get(key) '' @ [0x2192] @ lit '' ErrCacheMiss (cache kosong)''),
         PyStr (lit ''2. db.Query(ctx, key) '' @ [0x2192] @
            lit '' fetch value dengan latency '' @ [0x394] @ lit '' = time.Since(start)''),
         PyStr (lit ''3. cache.Set(key, val, ttl, delta) '' @ [0x2192] @
            lit '' populasi cache dengan TTL''),
         PyStr (lit ''4. Return value ke reader'')]),
      (''type'', PyStr (lit ''bullet''))],
    PyDict
     [(''title'', PyStr (lit ''UPDATE FLOW (INVALIDATE)'')),
      (''items'', PyList
        [PyStr (lit ''1. db.Write(ctx, key, newVal) '' @ [0x2192] @
            lit '' commit ke store persisten''),
         PyStr (lit ''2. cache.Delete(key) '' @ [0x2192] @ lit '' invalidate secara eksplisit''),
         PyStr (lit ''3. Reader berikutnya: miss '' @ [0x2192] @ lit '' fetch DB '' @ [0x2192] @
            lit '' cache.Set'')]),
      (''type'', PyStr (lit ''bullet''))],
    PyDict
     [(''title'', PyStr (lit ''ALUR KODE'')),
      (''items'', PyList
        [PyStr (lit ''func (s *CacheAsideService) Update(ctx, '' @ lit ''key, val) error {''),
         PyStr (lit ''    s.db.Write(ctx, key, val) // 1. DB dulu''),
         PyStr (lit ''    s.cache.Delete(key)      // 2. baru '' @ lit ''invalidate''),
         PyStr (lit ''    return nil''),
         PyStr (lit ''}'')]),
      (''type'', PyStr (lit ''code''))]]\<close>

definition lab37_slide_04 :: pycall where [lab37_slides]:
  \<open>lab37_slide_04 =
   \<lparr>posargs = [],
  kwargs =
   [(''categories'', PyList
      [PyStr (lit ''WRITE POLICY''),
       PyStr (lit ''CACHE-ASIDE'')]),
    (''title'', PyStr (lit ''Cache-Aside (Lazy Loading) - Mekanisme & '' @ lit ''Flow'')),
    (''subtitle'', PyStr (lit ''Mekanisme Get: cache miss '' @ [0x2192] @ lit '' DB query '' @ [0x2192] @
        lit '' cache Set. Mekanisme Put: DB write '' @ [0x2192] @ lit '' Invalidate cache.'')),
    (''content_items'', lab37_items_04),
    (''narrative'', PyStr (lit ''Pola Cache-Aside atau lazy loading '' @
        lit ''merupakan pendekatan paling populer pada '' @
        lit ''sistem dengan beban baca tinggi. Pada alur '' @
        lit ''pembacaan, aplikasi memeriksa cache '' @
        lit ''terlebih dahulu; jika terjadi cache miss, '' @
        lit ''aplikasi mengambil data langsung dari '' @
        lit ''database lalu menyimpannya ke cache dengan '' @
        lit ''TTL tertentu. Saat data diperbarui, '' @
        lit ''aplikasi wajib menulis perubahan ke '' @
        lit ''database terlebih dahulu sebelum menghapus '' @
        lit ''kunci dari cache. Pola ini memastikan hanya '' @
        lit ''data yang benar-benar dibaca yang menempati '' @ lit ''ruang memori cache.'')),
    (''narrative_en'', PyStr (lit ''Cache-Aside operates lazily: reads populate '' @
        lit ''the cache upon a miss, and updates commit '' @
        lit ''to the database before invalidating the '' @
        lit ''cached key. This lazy population saves '' @
        lit ''memory by caching only requested records, '' @
        lit ''while making write-then-invalidate ordering '' @
        lit ''essential for correctness.'')),
    (''mental_model'', PyStr (lit ''Cache-aside: lazy populate on miss, '' @
        lit ''write-through-then-invalidate on update.'')),
    (''source_path'', PyStr (lit ''labs/37-cache-invalidation-strategies/intern'' @
        lit ''al/cache/patterns.go:22-47'')),
    (''slide_num'', PyStr (lit ''04 / 24''))]\<rparr>\<close>

definition lab37_items_05 :: pyval where [lab37_contents]:
  \<open>lab37_items_05 =
   PyList
   [PyDict
     [(''title'', PyStr (lit ''STALE READ WINDOW'')),
      (''items'', PyList
        [PyStr (lit ''Setelah cache miss '' @ [0x2192] @
            lit '' DB query dimulai (bisa memakan waktu '' @ [0x394] @ lit '').''),
         PyStr (lit ''Sepanjang proses tersebut, cache masih '' @ lit ''kosong.''),
         PyStr (lit ''Reader lain yang tiba di window ini juga '' @ lit ''melakukan miss '' @
            [0x2192] @ lit '' multiple DB queries.'')]),
      (''type'', PyStr (lit ''bullet''))],
    PyDict
     [(''title'', PyStr (lit ''CONCURRENT WRITE-READ RACE'')),
      (''items'', PyList
        [PyStr (lit ''T1: reader mulai DB query untuk key K''),
         PyStr (lit ''T2: writer melakukan db.Write(K, newVal) + '' @ lit ''cache.Delete(K)''),
         PyStr (lit ''T1: menyelesaikan query '' @ [0x2192] @
            lit '' cache.Set(K, OLD_VALUE) '' @ [0x2192] @
            lit '' menimpa nilai yang benar!''),
         PyStr (lit ''Reader lanjutan: cache hit pada OLD_VALUE '' @
            lit ''yang sudah lama seharusnya invalid.'')]),
      (''type'', PyStr (lit ''bullet''))],
    PyDict
     [(''title'', PyStr (lit ''CONTOH SEKWENSIAL'')),
      (''items'', PyList
        [PyStr (lit ''Goroutine A: cache.Get(K) miss '' @ [0x2192] @ lit '' mulai db.Query()''),
         PyStr (lit ''Goroutine B: Update(K, newVal) '' @ [0x2192] @
            lit '' db.Write() + cache.Delete()''),
         PyStr (lit ''Goroutine A: selesai db.Query() '' @ [0x2192] @
            lit '' cache.Set(K, OLD_VALUE)''),
         PyStr (lit ''Goroutine C: cache.Get(K) '' @ [0x2192] @ lit '' hit OLD_VALUE (stale)'')]),
      (''type'', PyStr (lit ''bullet''))]]\<close>

definition lab37_slide_05 :: pycall where [lab37_slides]:
  \<open>lab37_slide_05 =
   \<lparr>posargs = [],
  kwargs =
   [(''categories'', PyList
      [PyStr (lit ''ANTI-PATTERN''),
       PyStr (lit ''RACE CONDITION'')]),
    (''title'', PyStr (lit ''Cache-Aside - Anomali & Race Condition'')),
    (''subtitle'', PyStr (lit ''Stale read window dan concurrent write-read '' @ lit ''sequence.'')),
    (''content_items'', lab37_items_05),
    (''narrative'', PyStr (lit ''Meskipun fleksibel, pola Cache-Aside '' @
        lit ''memiliki celah race condition antara thread '' @
        lit ''pembaca dan thread penulis yang berjalan '' @
        lit ''bersamaan. Jika reader mengalami cache miss '' @
        lit ''lalu memulai query database yang lambat, '' @
        lit ''sementara writer secara bersamaan menulis '' @
        lit ''data baru ke database dan menghapus cache, '' @
        lit ''reader yang terlambat dapat menuliskan '' @
        lit ''kembali data usang ke dalam cache. '' @
        lit ''Akibatnya, nilai usang tersebut akan '' @
        lit ''bertahan di cache hingga masa TTL berakhir, '' @
        lit ''menghasilkan anomali data inkonsisten yang '' @ lit ''berbahaya.'')),
    (''narrative_en'', PyStr (lit ''Cache-Aside exhibits a subtle race window '' @
        lit ''under concurrent access. If a reader '' @
        lit ''suffers a cache miss while a writer commits '' @
        lit ''an update, a slow-completing reader can '' @
        lit ''overwrite fresh invalidation with stale '' @
        lit ''data, keeping invalid records in cache '' @ lit ''until TTL expiration.'')),
    (''mental_model'', PyStr (lit ''Naive cache-aside lets late miss-writes '' @
        lit ''clobber validated cache entries.'')),
    (''source_path'', PyStr (lit ''labs/37-cache-invalidation-strategies/conten'' @ lit ''t/02-master-draft.md'')),
    (''slide_num'', PyStr (lit ''05 / 24''))]\<rparr>\<close>

definition lab37_items_06 :: pyval where [lab37_contents]:
  \<open>lab37_items_06 =
   PyList
   [PyDict
     [(''title'', PyStr (lit ''WRITE FLOW'')),
      (''items'', PyList
        [PyStr (lit ''1. db.Write(ctx, key, val) '' @ [0x2192] @
            lit '' commit ke store persisten (blocking)''),
         PyStr (lit ''2. delta = time.Since(start)''),
         PyStr (lit ''3. cache.Set(key, val, ttl, delta) '' @ [0x2192] @
            lit '' update cache secara sinkron''),
         PyStr (lit ''4. Reader berikutnya: cache.Get(key) '' @ [0x2192] @
            lit '' hit nilai terbaru (tidak perlu DB query)'')]),
      (''type'', PyStr (lit ''bullet''))],
    PyDict
     [(''title'', PyStr (lit ''KODE IMPLEMENTASI'')),
      (''items'', PyList
        [PyStr (lit ''func (s *WriteThroughService) Update(ctx, '' @ lit ''key, val) error {''),
         PyStr (lit ''    start := time.Now()''),
         PyStr (lit ''    if err := s.db.Write(ctx, key, val); '' @ lit ''err != nil {''),
         PyStr (lit ''        return fmt.Errorf("db write failed: '' @ lit ''%w", err)''),
         PyStr (lit ''    }''),
         PyStr (lit ''    delta := time.Since(start)''),
         PyStr (lit ''    s.cache.Set(key, val, s.ttl, delta)''),
         PyStr (lit ''    return nil''),
         PyStr (lit ''}'')]),
      (''type'', PyStr (lit ''code''))],
    PyDict
     [(''title'', PyStr (lit ''KONTRAK KUAT'')),
      (''items'', PyList
        [PyStr (lit ''Read-after-write consistency terjamin untuk '' @
            lit ''proses berikutnya.''),
         PyStr (lit ''Tidak ada stale read window pada update '' @ lit ''path.''),
         PyStr (lit ''Cache selalu berisi nilai terbaru yang '' @ lit ''pernah ditulis.'')]),
      (''type'', PyStr (lit ''bullet''))]]\<close>

definition lab37_slide_06 :: pycall where [lab37_slides]:
  \<open>lab37_slide_06 =
   \<lparr>posargs = [],
  kwargs =
   [(''categories'', PyList
      [PyStr (lit ''WRITE POLICY''),
       PyStr (lit ''WRITE-THROUGH'')]),
    (''title'', PyStr (lit ''Write-Through - Konsistensi Sinkron'')),
    (''subtitle'', PyStr (lit ''Setiap Update: DB write '' @ [0x2192] @
        lit '' sync cache Set. Read berikutnya: cache '' @ lit ''hit, nilai terbaru.'')),
    (''content_items'', lab37_items_06),
    (''narrative'', PyStr (lit ''Pola Write-Through menawarkan jaminan '' @
        lit ''read-after-write consistency yang sangat '' @
        lit ''kuat dengan memperlakukan cache sebagai '' @
        lit ''penyimpanan utama yang sinkron. Setiap '' @
        lit ''operasi pembaruan menulis data ke database '' @
        lit ''persisten dan segera memperbarui kunci '' @
        lit ''cache terkait dalam satu alur eksekusi '' @
        lit ''aplikasi secara berurutan. Hasilnya, setiap '' @
        lit ''request pembacaan berikutnya dijamin '' @
        lit ''langsung memperoleh data terbaru dari cache '' @
        lit ''tanpa perlu query database tambahan. Pola '' @
        lit ''ini mengeliminasi celah data basi yang '' @
        lit ''sering terjadi pada Cache-Aside.'')),
    (''narrative_en'', PyStr (lit ''Write-Through enforces strong '' @ lit ''read-after-write consistency by '' @
        lit ''synchronizing database commits directly '' @
        lit ''with cache updates. Subsequent readers '' @
        lit ''immediately hit the cache and receive the '' @
        lit ''freshest data without querying the '' @
        lit ''database, eliminating the stale window '' @ lit ''inherent in lazy caching.'')),
    (''mental_model'', PyStr (lit ''Write-through guarantees read-after-write '' @
        lit ''via synchronous DB+cache update.'')),
    (''source_path'', PyStr (lit ''labs/37-cache-invalidation-strategies/intern'' @
        lit ''al/cache/patterns.go:78-89'')),
    (''slide_num'', PyStr (lit ''06 / 24''))]\<rparr>\<close>

definition lab37_items_07 :: pyval where [lab37_contents]:
  \<open>lab37_items_07 =
   PyList
   [PyDict
     [(''title'', PyStr (lit ''BIAYA LATENSI'')),
      (''items'', PyList
        [PyStr (lit ''Write latency = DB_write_time + '' @
            lit ''Cache_set_time (dua operasi blocking '' @ lit ''berurutan)''),
         PyStr (lit ''Jika DB latency naik, write latency ikut '' @ lit ''naik secara linier.''),
         PyStr (lit ''Tidak cocok untuk write-heavy workload '' @
            lit ''dengan throughput tinggi.'')]),
      (''type'', PyStr (lit ''bullet''))],
    PyDict
     [(''title'', PyStr (lit ''PARTIAL FAILURE SCENARIO'')),
      (''items'', PyList
        [PyStr (lit ''1. db.Write berhasil commit ke database''),
         PyStr (lit ''2. cache.Set gagal (mis. memory pressure, '' @ lit ''node eviction)''),
         PyStr (lit ''3. State: DB terupdate, cache kosong/stale''),
         PyStr (lit ''4. Reader berikutnya: miss '' @ [0x2192] @
            lit '' fetch DB lama yang sudah benar (recover '' @ lit ''otomatis via TTL)'')]),
      (''type'', PyStr (lit ''bullet''))],
    PyDict
     [(''title'', PyStr (lit ''TABEL RISIKO'')),
      (''items'', PyList
        [PyStr (lit ''Failure Point | Deteksi | Recovery | Impact''),
         PyStr (lit ''DB write fail | Error return | Retry caller '' @ lit ''| Write lost''),
         PyStr (lit ''Cache set fail | Silent (swallowed) | TTL '' @
            lit ''safety net | Temporary miss''),
         PyStr (lit ''Both succeed | - | - | 0 impact, consistent'')]),
      (''type'', PyStr (lit ''table''))]]\<close>

definition lab37_slide_07 :: pycall where [lab37_slides]:
  \<open>lab37_slide_07 =
   \<lparr>posargs = [],
  kwargs =
   [(''categories'', PyList
      [PyStr (lit ''FAILURE''),
       PyStr (lit ''PERFORMA'')]),
    (''title'', PyStr (lit ''Write-Through - Biaya Latensi & Partial '' @ lit ''Failure'')),
    (''subtitle'', PyStr (lit ''Database write penalty dan risiko kegagalan '' @
        lit ''sebagian (partial failure).'')),
    (''content_items'', lab37_items_07),
    (''narrative'', PyStr (lit ''Kelemahan mendasar Write-Through terletak '' @
        lit ''pada penalti latensi tulis dan risiko '' @
        lit ''kegagalan parsial di lingkungan '' @
        lit ''terdistribusi. Latensi setiap operasi '' @
        lit ''update membengkak karena harus menunggu dua '' @
        lit ''operasi I/O sinkron secara berturut-turut: '' @
        lit ''penulisan database dan pembaruan cache. '' @
        lit ''Selain itu, jika database commit berhasil '' @
        lit ''namun penulisan cache gagal akibat kendala '' @
        lit ''memori, status cache menjadi inkonsisten. '' @
        lit ''Dalam skenario ini, TTL bertindak sebagai '' @
        lit ''jaring pengaman agar data tidak terkunci '' @
        lit ''dalam status usang selamanya.'')),
    (''narrative_en'', PyStr (lit ''Write-Through incurs a latency penalty by '' @
        lit ''executing two consecutive synchronous '' @
        lit ''writes for every update. Furthermore, '' @ lit ''partial failures'' @
        [0x2014] @ lit ''such as a committed database write followed '' @
        lit ''by a failed cache set'' @ [0x2014] @
        lit ''demand TTL safety nets to prevent prolonged '' @
        lit ''cache inconsistency across application '' @ lit ''instances.'')),
    (''mental_model'', PyStr (lit ''Write-through doubles sync write cost; '' @
        lit ''cache-set failures degrade gracefully via '' @ lit ''TTL.'')),
    (''source_path'', PyStr (lit ''labs/37-cache-invalidation-strategies/conten'' @ lit ''t/02-master-draft.md'')),
    (''slide_num'', PyStr (lit ''07 / 24''))]\<rparr>\<close>

definition lab37_items_08 :: pyval where [lab37_contents]:
  \<open>lab37_items_08 =
   PyList
   [PyDict
     [(''title'', PyStr (lit ''WRITE FLOW'')),
      (''items'', PyList
        [PyStr (lit ''1. cache.Set(key, val, ttl, delta) '' @ [0x2192] @
            lit '' update cache secara langsung (synchronous)''),
         PyStr (lit ''2. select { case writeQueue <- req: | '' @ lit ''default: } '' @
            [0x2192] @ lit '' enqueue ASYNC''),
         PyStr (lit ''3. flushWorker goroutine: writeQueue <- '' @ lit ''range '' @ [0x2192] @
            lit '' db.Write() di background''),
         PyStr (lit ''4. Reader berikutnya: cache.Get() '' @ [0x2192] @
            lit '' hit nilai terbaru (zero DB round-trip)'')]),
      (''type'', PyStr (lit ''bullet''))],
    PyDict
     [(''title'', PyStr (lit ''KODE IMPLEMENTASI'')),
      (''items'', PyList
        [PyStr (lit ''func (s *WriteBehindService) Update(key, '' @ lit ''val string) {''),
         PyStr (lit ''    s.cache.Set(key, val, s.ttl, '' @ lit ''1*time.Millisecond)''),
         PyStr (lit ''    select {''),
         PyStr (lit ''    case s.writeQueue <- WriteRequest{Key: '' @ lit ''key, Value: val}:''),
         PyStr (lit ''    default: // queue full '' @ [0x2014] @ lit '' drop (demo limitation)''),
         PyStr (lit ''    }''),
         PyStr (lit ''}'')]),
      (''type'', PyStr (lit ''code''))],
    PyDict
     [(''title'', PyStr (lit ''THROUGHPUT GAIN'')),
      (''items'', PyList
        [PyStr (lit ''Write latency '' @ [0x2248] @
            lit '' cache.Set time (milidetik), bukan DB '' @ lit ''round-trip.''),
         PyStr (lit ''flushWorker bisa memproses batch flush '' @
            lit ''untuk efisiensi lebih lanjut.''),
         PyStr (lit ''Reader selalu mendapatkan nilai terbaru '' @
            lit ''dari cache, bukan dari DB.'')]),
      (''type'', PyStr (lit ''bullet''))]]\<close>

definition lab37_slide_08 :: pycall where [lab37_slides]:
  \<open>lab37_slide_08 =
   \<lparr>posargs = [],
  kwargs =
   [(''categories'', PyList
      [PyStr (lit ''WRITE POLICY''),
       PyStr (lit ''WRITE-BEHIND'')]),
    (''title'', PyStr (lit ''Write-Behind (Write-Back) - Throughput '' @ lit ''Ekstrem'')),
    (''subtitle'', PyStr (lit ''Cache Set langsung, enqueue async queue, '' @
        lit ''flushWorker background ke DB.'')),
    (''content_items'', lab37_items_08),
    (''narrative'', PyStr (lit ''Write-Behind atau Write-Back '' @
        lit ''memprioritaskan throughput penulisan '' @
        lit ''ekstrem dengan memutus ketergantungan '' @
        lit ''langsung terhadap latensi database '' @
        lit ''persisten. Saat pembaruan terjadi, aplikasi '' @
        lit ''langsung memperbarui cache di memori dan '' @
        lit ''memasukkan tugas penulisan ke dalam antrean '' @
        lit ''asinkron, lalu segera merespons pemanggil. '' @
        lit ''Goroutine background secara berkala '' @
        lit ''menguras antrean dan mengeksekusi penulisan '' @
        lit ''ke database di latar belakang. Dengan '' @
        lit ''mekanisme ini, latensi tulis ditekan hingga '' @
        lit ''mendekati nol milidetik, sangat cocok untuk '' @ lit ''beban tulis masif.'')),
    (''narrative_en'', PyStr (lit ''Write-Behind maximizes write throughput by '' @
        lit ''updating memory cache immediately and '' @
        lit ''delegating database persistence to an '' @
        lit ''asynchronous queue drained by background '' @
        lit ''workers. Write operations return instantly '' @
        lit ''with near-zero latency, making it ideal for '' @
        lit ''high-velocity telemetry and write-heavy '' @ lit ''workloads.'')),
    (''mental_model'', PyStr (lit ''Write-behind decouples write latency by '' @
        lit ''buffering to async queue; cache stays fresh.'')),
    (''source_path'', PyStr (lit ''labs/37-cache-invalidation-strategies/intern'' @
        lit ''al/cache/patterns.go:91-161'')),
    (''slide_num'', PyStr (lit ''08 / 24''))]\<rparr>\<close>

definition lab37_items_09 :: pyval where [lab37_contents]:
  \<open>lab37_items_09 =
   PyList
   [PyDict
     [(''title'', PyStr (lit ''CRASH SCENARIO'')),
      (''items'', PyList
        [PyStr (lit ''Process mengalami crash (panic, OOM, kill) '' @
            lit ''sebelum flushWorker mengeksekusi writeQueue.''),
         PyStr (lit ''Item dalam queue yang belum di-flush = data '' @ lit ''loss.''),
         PyStr (lit ''Cache (in-memory) juga hilang '' @ [0x2192] @
            lit '' key tidak dapat dipulihkan.'')]),
      (''type'', PyStr (lit ''bullet''))],
    PyDict
     [(''title'', PyStr (lit ''QUEUE OVERFLOW'')),
      (''items'', PyList
        [PyStr (lit ''select-default: bila queue penuh, write '' @
            lit ''request di-drop secara silent.''),
         PyStr (lit ''Tidak ada sinyal kirim ke caller bahwa '' @ lit ''write gagal.''),
         PyStr (lit ''Pada demo: 10 writes dengan buffer size 2 '' @ [0x2192] @
            lit '' hanya 3 yang diproses.''),
         PyStr (lit ''Sisa 7 write hilang tanpa jejak.'')]),
      (''type'', PyStr (lit ''bullet''))],
    PyDict
     [(''title'', PyStr (lit ''MITIGASI PRODUKSI'')),
      (''items'', PyList
        [PyStr (lit ''Persistent queue (Kafka, WAL, file log) '' @ lit ''sebelum flush ke DB.''),
         PyStr (lit ''Acknowledge semantics: caller tunggu hingga '' @
            lit ''flushWorker meng-ack.''),
         PyStr (lit ''Overflow handling: retry, backpressure, '' @
            lit ''atau dead-letter queue.'')]),
      (''type'', PyStr (lit ''bullet''))]]\<close>

definition lab37_slide_09 :: pycall where [lab37_slides]:
  \<open>lab37_slide_09 =
   \<lparr>posargs = [],
  kwargs =
   [(''categories'', PyList
      [PyStr (lit ''FAILURE''),
       PyStr (lit ''DATA LOSS'')]),
    (''title'', PyStr (lit ''Write-Behind - Risiko Durabilitas & Data '' @ lit ''Loss'')),
    (''subtitle'', PyStr (lit ''Queue crash, queue overflow, dan data loss '' @
        lit ''saat process termination.'')),
    (''content_items'', lab37_items_09),
    (''narrative'', PyStr (lit ''Kecepatan luar biasa Write-Behind harus '' @
        lit ''dibayar dengan kompromi serius pada aspek '' @
        lit ''durabilitas data. Jika proses aplikasi '' @
        lit ''mengalami crash, panic, atau kehabisan '' @
        lit ''memori sebelum worker latar belakang sempat '' @
        lit ''mengosongkan antrean, seluruh data '' @
        lit ''pembaruan yang masih tertahan di antrean '' @
        lit ''akan hilang permanen. Selain itu, jika '' @
        lit ''antrean penuh di bawah beban tinggi, '' @
        lit ''implementasi yang menggunakan '' @
        lit ''select-default akan membuang request '' @
        lit ''penulisan secara diam-diam. Sistem produksi '' @
        lit ''wajib menggunakan antrean persisten seperti '' @ lit ''Kafka atau WAL.'')),
    (''narrative_en'', PyStr (lit ''Write-Behind trades durability for raw '' @
        lit ''execution speed. Unflushed queue items are '' @
        lit ''permanently lost if the process crashes '' @
        lit ''unexpectedly. In high-concurrency bursts, '' @
        lit ''overflowing queues can silently discard '' @
        lit ''writes unless backed by persistent message '' @
        lit ''brokers like Kafka or Write-Ahead Logs.'')),
    (''mental_model'', PyStr (lit ''Write-behind trades write durability for '' @
        lit ''latency; use persistent queues in '' @ lit ''production.'')),
    (''source_path'', PyStr (lit ''labs/37-cache-invalidation-strategies/conten'' @ lit ''t/02-master-draft.md'')),
    (''slide_num'', PyStr (lit ''09 / 24''))]\<rparr>\<close>

definition lab37_items_10 :: pyval where [lab37_contents]:
  \<open>lab37_items_10 =
   PyList
   [PyDict
     [(''title'', PyStr (lit ''MEKANISME STAMPEDE'')),
      (''items'', PyList
        [PyStr (lit ''1. Hot key K kadaluarsa (TTL habis serentak)''),
         PyStr (lit ''2. N concurrent goroutine melakukan '' @ lit ''cache.Get(K) '' @
            [0x2192] @ lit '' semua miss''),
         PyStr (lit ''3. Setiap goroutine menjalankan db.Query(K) '' @ lit ''secara paralel''),
         PyStr (lit ''4. DB menerima N query identik '' @ [0x2192] @
            lit '' CPU & connection pool terbebani''),
         PyStr (lit ''5. Latency naik berhampa '' @ [0x2192] @
            lit '' hit rate jatuh, beban makin buruk '' @ lit ''(cascading failure)'')]),
      (''type'', PyStr (lit ''bullet''))],
    PyDict
     [(''title'', PyStr (lit ''UKURAN BEBAN'')),
      (''items'', PyList
        [PyStr (lit ''Workload | Concurrency N | DB Query Count '' @ lit ''(Naive)''),
         PyStr (lit ''Local dev | 3 | 3''),
         PyStr (lit ''Staging | 50 | 50''),
         PyStr (lit ''Production hot key | 10,000 | 10,000 (DB '' @ lit ''overload)'')]),
      (''type'', PyStr (lit ''table''))],
    PyDict
     [(''title'', PyStr (lit ''DEMO VERIFIKASI'')),
      (''items'', PyList
        [PyStr (lit ''20 concurrent goroutines '' @ [0x2192] @ lit '' cache miss semua''),
         PyStr (lit ''NaiveStampedeService: 20 DB queries ('' @ [0x3BB, 0xB7] @
            lit ''T amplification)''),
         PyStr (lit ''SingleFlightService: 1 DB query (coalescing)'')]),
      (''type'', PyStr (lit ''bullet''))]]\<close>

definition lab37_slide_10 :: pycall where [lab37_slides]:
  \<open>lab37_slide_10 =
   \<lparr>posargs = [],
  kwargs =
   [(''categories'', PyList
      [PyStr (lit ''STAMPEDE''),
       PyStr (lit ''FAILURE MODE'')]),
    (''title'', PyStr (lit ''Thundering Herd / Cache Stampede'')),
    (''subtitle'', PyStr (lit ''N concurrent requests pada hot key expiry '' @ [0x2192] @
        lit '' N DB queries '' @ [0x2192] @ lit '' DB overload.'')),
    (''content_items'', lab37_items_10),
    (''narrative'', PyStr (lit ''Cache stampede atau thundering herd terjadi '' @
        lit ''ketika kunci cache populer yang sering '' @
        lit ''diakses kedaluwarsa secara mendadak. '' @
        lit ''Puluhan hingga ribuan goroutine pembaca '' @
        lit ''yang datang bersamaan akan mendapati cache '' @
        lit ''miss, lalu serentak mengeksekusi query '' @
        lit ''database yang identik. Fenomena ini '' @
        lit ''melipatgandakan beban database sebesar '' @
        lit ''perkalian laju kedatangan request dan '' @
        lit ''durasi query. Akibatnya, connection pool '' @
        lit ''terkuras habis, waktu tunggu melonjak '' @
        lit ''tajam, dan sistem dapat mengalami kegagalan '' @
        lit ''berantai hingga ketersediaan layanan runtuh '' @ lit ''sepenuhnya.'')),
    (''narrative_en'', PyStr (lit ''A cache stampede occurs when a high-traffic '' @
        lit ''hot key expires suddenly. Hundreds of '' @
        lit ''concurrent requests experience simultaneous '' @
        lit ''cache misses and flood the database with '' @
        lit ''identical expensive queries, exhausting '' @
        lit ''connection pools and causing systemic '' @
        lit ''congestion collapse across the '' @ lit ''infrastructure.'')),
    (''mental_model'', PyStr (lit ''Stampede amplifies concurrent misses into '' @
        lit ''redundant DB query storms.'')),
    (''source_path'', PyStr (lit ''labs/37-cache-invalidation-strategies/conten'' @ lit ''t/02-master-draft.md'')),
    (''slide_num'', PyStr (lit ''10 / 24''))]\<rparr>\<close>

definition lab37_items_11 :: pyval where [lab37_contents]:
  \<open>lab37_items_11 =
   PyList
   [PyDict
     [(''title'', PyStr (lit ''PRINSIP'')),
      (''items'', PyList
        [PyStr (lit ''singleflight.Group.Do(key, fn) menjamin fn '' @
            lit ''dieksekusi tepat 1x per key.''),
         PyStr (lit ''Goroutine pendatang yang request key yang '' @
            lit ''sama akan menunggu hasil dari goroutine '' @ lit ''pertama.''),
         PyStr (lit ''Semua waiter menerima return value yang '' @
            lit ''sama (deduplication barrier).'')]),
      (''type'', PyStr (lit ''bullet''))],
    PyDict
     [(''title'', PyStr (lit ''IMPORT'')),
      (''items'', PyList
        [PyStr (lit ''import "golang.org/x/sync/singleflight"''),
         PyStr [],
         PyStr (lit ''type SingleFlightService struct {''),
         PyStr (lit ''    cache  *MemoryCache''),
         PyStr (lit ''    db     *MockDB''),
         PyStr (lit ''    ttl    time.Duration''),
         PyStr (lit ''    flight singleflight.Group''),
         PyStr (lit ''}'')]),
      (''type'', PyStr (lit ''code''))],
    PyDict
     [(''title'', PyStr (lit ''DEMO VERIFIKASI'')),
      (''items'', PyList
        [PyStr (lit ''20 concurrent goroutines '' @ [0x2192] @ lit '' cache.Get miss semua''),
         PyStr (lit ''flight.Do(key, fn) '' @ [0x2192] @ lit '' fn dieksekusi 1x '' @ [0x2192] @
            lit '' db.Query 1x''),
         PyStr (lit ''20 goroutines menerima hasil yang sama: '' @ lit ''db.QueryCount() == 1'')]),
      (''type'', PyStr (lit ''bullet''))]]\<close>

definition lab37_slide_11 :: pycall where [lab37_slides]:
  \<open>lab37_slide_11 =
   \<lparr>posargs = [],
  kwargs =
   [(''categories'', PyList
      [PyStr (lit ''STAMPEDE''),
       PyStr (lit ''SINGLEFLIGHT'')]),
    (''title'', PyStr (lit ''Singleflight - Request Coalescing'')),
    (''subtitle'', PyStr (lit ''golang.org/x/sync/singleflight, N requests '' @
        lit ''ditumpuk menjadi 1 DB call.'')),
    (''content_items'', lab37_items_11),
    (''narrative'', PyStr (lit ''Mitigasi pertama terhadap cache stampede '' @
        lit ''adalah request coalescing menggunakan paket '' @
        lit ''resmi Go golang.org/x/sync/singleflight. '' @
        lit ''Pola ini memastikan bahwa untuk kunci yang '' @
        lit ''sama, fungsi pengambilan data ke database '' @
        lit ''hanya dijalankan tepat satu kali oleh satu '' @
        lit ''goroutine pemenang. Goroutine-goroutine '' @
        lit ''lain yang datang bersamaan akan ditahan '' @
        lit ''pada barrier internal dan menunggu '' @
        lit ''selesainya eksekusi goroutine pertama. '' @
        lit ''Setelah selesai, seluruh pemanggil menerima '' @
        lit ''salinan hasil yang identik, memangkas '' @
        lit ''puluhan query database menjadi satu '' @ lit ''panggilan tunggal.'')),
    (''narrative_en'', PyStr (lit ''Singleflight provides intra-process request '' @
        lit ''coalescing via Go official sync library. '' @
        lit ''When multiple goroutines request an expired '' @
        lit ''hot key, Singleflight executes the '' @
        lit ''underlying database fetch exactly once '' @
        lit ''while suspending other callers until the '' @
        lit ''shared result is broadcast to all waiters.'')),
    (''mental_model'', PyStr (lit ''Singleflight dedupes concurrent calls: N '' @
        lit ''requests collapse to 1 DB query.'')),
    (''source_path'', PyStr (lit ''labs/37-cache-invalidation-strategies/intern'' @
        lit ''al/cache/stampede.go:45-84'')),
    (''slide_num'', PyStr (lit ''11 / 24''))]\<rparr>\<close>

definition lab37_items_12 :: pyval where [lab37_contents]:
  \<open>lab37_items_12 =
   PyList
   [PyDict
     [(''title'', PyStr (lit ''IMPLEMENTASI FULL'')),
      (''items'', PyList
        [PyStr (lit ''func (s *SingleFlightService) Get(ctx, key) '' @ lit ''(string, error) {''),
         PyStr (lit ''    item, err := s.cache.Get(key) // outer '' @ lit ''cache check''),
         PyStr (lit ''    if err == nil { return item.Value, nil }''),
         PyStr (lit ''    res, err, _ := s.flight.Do(key, func() '' @
            lit ''(interface{}, error) {''),
         PyStr (lit ''        // Double-check cache inside flight '' @ lit ''execution''),
         PyStr (lit ''        item, err := s.cache.Get(key)''),
         PyStr (lit ''        if err == nil { return item.Value, '' @ lit ''nil }''),
         PyStr (lit ''        start := time.Now()''),
         PyStr (lit ''        val, err := s.db.Query(ctx, key)''),
         PyStr (lit ''        if err != nil { return "", err }''),
         PyStr (lit ''        delta := time.Since(start)''),
         PyStr (lit ''        s.cache.Set(key, val, s.ttl, delta)''),
         PyStr (lit ''        return val, nil''),
         PyStr (lit ''    })''),
         PyStr (lit ''    if err != nil { return "", err }''),
         PyStr (lit ''    return res.(string), nil''),
         PyStr (lit ''}'')]),
      (''type'', PyStr (lit ''code''))],
    PyDict
     [(''title'', PyStr (lit ''MEKANIKA INTERNAL'')),
      (''items'', PyList
        [PyStr (lit ''1. singleflight.Group memelihara '' @ lit ''map[key]callEntry''),
         PyStr (lit ''2. Goroutine pertama: membuat entry, '' @
            lit ''mengeksekusi fn, menyimpan hasil''),
         PyStr (lit ''3. Goroutine follow: mendaftar sebagai '' @
            lit ''waiter pada channel yang sama''),
         PyStr (lit ''4. Setelah fn selesai: semua waiter '' @
            lit ''dibangunkan, menerima hasil yang sama''),
         PyStr (lit ''Result channel: shared = true'')]),
      (''type'', PyStr (lit ''bullet''))]]\<close>

definition lab37_slide_12 :: pycall where [lab37_slides]:
  \<open>lab37_slide_12 =
   \<lparr>posargs = [],
  kwargs =
   [(''categories'', PyList
      [PyStr (lit ''SINGLEFLIGHT''),
       PyStr (lit ''KODE'')]),
    (''title'', PyStr (lit ''Singleflight - Kode & Mekanika Do()'')),
    (''subtitle'', PyStr (lit ''Double-check cache hit di dalam closure, '' @
        lit ''deduplication barrier, shared result.'')),
    (''content_items'', lab37_items_12),
    (''narrative'', PyStr (lit ''Implementasi SingleFlightService menerapkan '' @
        lit ''teknik double-check locking di dalam '' @
        lit ''closure fungsi Do untuk efisiensi maksimal. '' @
        lit ''Sebelum memulai query database yang mahal, '' @
        lit ''goroutine memeriksa kembali isi cache untuk '' @
        lit ''mengantisipasi kemungkinan kunci tersebut '' @
        lit ''telah berhasil diisi oleh eksekusi paralel '' @
        lit ''lain. Singleflight mengelola tabel pemetaan '' @
        lit ''pemanggilan aktif secara internal dan '' @
        lit ''membagikan return value melalui channel '' @
        lit ''bersama. Namun, perlindungan ini terbatas '' @
        lit ''pada level satu proses; sistem multi-pod '' @
        lit ''tetap membutuhkan distributed lock seperti '' @ lit ''Redis SETNX.'')),
    (''narrative_en'', PyStr (lit ''Inside the Singleflight closure, a '' @
        lit ''double-check pattern inspects the cache '' @
        lit ''once more before triggering the database '' @
        lit ''fetch, ensuring optimal efficiency. While '' @
        lit ''Singleflight eliminates intra-process '' @
        lit ''stampedes, multi-node deployments still '' @
        lit ''require distributed coordination such as '' @ lit ''Redis distributed locks.'')),
    (''mental_model'', PyStr (lit ''In-flight closure double-checks cache to '' @
        lit ''avoid redundant re-fetch on coalescing.'')),
    (''source_path'', PyStr (lit ''labs/37-cache-invalidation-strategies/intern'' @
        lit ''al/cache/stampede.go:56-84'')),
    (''slide_num'', PyStr (lit ''12 / 24''))]\<rparr>\<close>

definition lab37_items_13 :: pyval where [lab37_contents]:
  \<open>lab37_items_13 =
   PyList
   [PyDict
     [(''title'', PyStr (lit ''FORMULA XFETCH'')),
      (''items'', PyList
        [PyStr (lit ''offset = -'' @ [0x394] @ lit '' '' @ [0xB7] @ lit '' '' @ [0x3B2] @
            lit '' '' @ [0xB7] @ lit '' ln(U)''),
         PyStr (lit ''Recompute sebelum TTL resmi ketika:''),
         PyStr (lit ''  -'' @ [0x394] @ lit '' '' @ [0xB7] @ lit '' '' @ [0x3B2] @ lit '' '' @
            [0xB7] @ lit '' ln(U) > TTL_remaining''),
         PyStr [],
         PyStr (lit ''Parameters:''),
         PyStr (lit ''- '' @ [0x394] @ lit '' = time.Since(start) pada DB query terakhir '' @
            lit ''(compute cost)''),
         PyStr (lit ''- '' @ [0x3B2] @ lit '' = tuning parameter (default = 1.0, >1 = '' @
            lit ''lebih agresif, <1 = lebih konservatif)''),
         PyStr (lit ''- U ~ Uniform(0,1), random draw per request'')]),
      (''type'', PyStr (lit ''bullet''))],
    PyDict
     [(''title'', PyStr (lit ''KODE ShouldRecompute'')),
      (''items'', PyList
        [PyStr (lit ''func ShouldRecompute(delta time.Duration, '' @ lit ''beta float64,''),
         PyStr (lit ''    ttlRemaining time.Duration, u float64) '' @ lit ''bool {''),
         PyStr (lit ''    if u <= 0 || u >= 1 { return false }''),
         PyStr (lit ''    deltaSec := delta.Seconds()''),
         PyStr (lit ''    ttlRemainingSec := '' @ lit ''ttlRemaining.Seconds()''),
         PyStr (lit ''    expiryCompute := -deltaSec * beta * '' @ lit ''math.Log(u)''),
         PyStr (lit ''    return expiryCompute > ttlRemainingSec''),
         PyStr (lit ''}'')]),
      (''type'', PyStr (lit ''code''))],
    PyDict
     [(''title'', PyStr (lit ''DISTRIBUSI'')),
      (''items'', PyList
        [PyStr (lit ''Traffic tinggi ('' @ [0x394] @ lit '' besar) '' @ [0x2192] @
            lit '' ekspresi -ln(U) cenderung trigger refresh '' @ lit ''lebih awal''),
         PyStr (lit ''Traffic jarang '' @ [0x2192] @
            lit '' sering melewati kondisi, gunakan cache '' @ lit ''sampai TTL resmi''),
         PyStr (lit ''Menggeser puncak rebuild dari saturasi satu '' @
            lit ''titik ke distribusi exponential'')]),
      (''type'', PyStr (lit ''bullet''))]]\<close>

definition lab37_slide_13 :: pycall where [lab37_slides]:
  \<open>lab37_slide_13 =
   \<lparr>posargs = [],
  kwargs =
   [(''categories'', PyList
      [PyStr (lit ''X-FETCH''),
       PyStr (lit ''PROBABILISTIC'')]),
    (''title'', PyStr (lit ''XFetch - Probabilistic Early Expiration'')),
    (''subtitle'', PyStr (lit ''Formula: -'' @ [0x394] @ lit '' '' @ [0xB7] @ lit '' '' @ [0x3B2] @
        lit '' '' @ [0xB7] @ lit '' ln(U) > TTL_remaining, compute cost '' @ [0x394] @
        lit '' terukur per request.'')),
    (''content_items'', lab37_items_13),
    (''narrative'', PyStr (lit ''XFetch adalah algoritma mitigasi stampede '' @
        lit ''probabilistik berbasis riset akademis '' @
        lit ''Vattani et al. Setiap kali request membaca '' @
        lit ''cache, algoritma menghitung ambang batas '' @
        lit ''kedaluwarsa dini berdasarkan biaya '' @
        lit ''komputasi query database terakhir, '' @
        lit ''parameter tuning beta, dan bilangan acak '' @
        lit ''seragam. Jika nilai komputasi probabilistik '' @
        lit ''melebihi sisa TTL, request tersebut akan '' @
        lit ''berinisiatif merefresh cache secara '' @
        lit ''proaktif sebelum waktu kedaluwarsa resmi '' @
        lit ''tiba. Pola ini menyebarkan beban pembaruan '' @
        lit ''cache ke sepanjang kurva eksponensial.'')),
    (''narrative_en'', PyStr (lit ''XFetch employs probabilistic early '' @
        lit ''expiration derived from academic research '' @
        lit ''by Vattani et al. By evaluating background '' @
        lit ''fetch duration and uniform random draws '' @
        lit ''against remaining TTL, high-traffic keys '' @
        lit ''trigger proactive refreshes before official '' @
        lit ''expiration, smoothing out concurrent '' @ lit ''rebuild spikes.'')),
    (''mental_model'', PyStr (lit ''XFetch probabilistically shifts cache '' @
        lit ''rebuild from peak expiry to exponential '' @ lit ''spread.'')),
    (''source_path'', PyStr (lit ''labs/37-cache-invalidation-strategies/intern'' @
        lit ''al/cache/stampede.go:125-136'')),
    (''slide_num'', PyStr (lit ''13 / 24''))]\<rparr>\<close>

definition lab37_items_14 :: pyval where [lab37_contents]:
  \<open>lab37_items_14 =
   PyList
   [PyDict
     [(''title'', PyStr (lit ''FORMULA BENAR'')),
      (''items'', PyList
        [PyStr (lit ''expiryCompute = -deltaSec '' @ [0xD7] @ lit '' beta '' @ [0xD7] @
            lit '' Log(u)''),
         PyStr (lit ''karena U '' @ [0x2208] @ lit '' (0,1) '' @ [0x2192] @
            lit '' ln(U) < 0 '' @ [0x2192] @ lit '' -ln(U) > 0''),
         PyStr (lit ''Sehingga LHS selalu POSITIF, bisa lebih '' @
            lit ''besar dari TTL_remaining.'')]),
      (''type'', PyStr (lit ''bullet''))],
    PyDict
     [(''title'', PyStr (lit ''BUG FORMULA PEDAGOGIS'')),
      (''items'', PyList
        [PyStr (lit '' expiryCompute = deltaSec '' @ [0xD7] @ lit '' beta '' @ [0xD7] @
            lit '' Log(u)  (tanpa minus!)''),
         PyStr (lit '' ln(U) '' @ [0x2208] @ lit '' (-'' @ [0x221E] @ lit '', 0) untuk U '' @
            [0x2208] @ lit '' (0,1), jadi LHS selalu NEGATIF''),
         PyStr (lit '' RHS = ttlRemainingSec > 0 (selalu positif)''),
         PyStr (lit '' Hasil: NEGATIF > POSITIF = selalu FALSE''),
         PyStr (lit '' Efek: early refresh TIDAK PERNAH trigger '' @
            lit ''(stampede tetap terjadi).'')]),
      (''type'', PyStr (lit ''bullet''))],
    PyDict
     [(''title'', PyStr (lit ''VERIFIKASI TEST'')),
      (''items'', PyList
        [PyStr (lit ''Test 1: u=0.5 '' @ [0x2192] @ lit '' -ln(0.5)=0.6931, '' @ [0x394, 0xD7] @
            lit ''0.6931=69.31ms < 200ms '' @ [0x2192] @ lit '' False''),
         PyStr (lit ''Test 2: u=0.3 '' @ [0x2192] @ lit '' -ln(0.3)=1.2039, '' @ [0x394, 0xD7] @
            lit ''1.2039=120.39ms > 50ms '' @ [0x2192] @ lit '' True''),
         PyStr (lit ''Test 3: tanpa minus sign '' @ [0x2192] @
            lit '' hasil selalu False (bug teguh)'')]),
      (''type'', PyStr (lit ''bullet''))]]\<close>

definition lab37_slide_14 :: pycall where [lab37_slides]:
  \<open>lab37_slide_14 =
   \<lparr>posargs = [],
  kwargs =
   [(''categories'', PyList
      [PyStr (lit ''MATH''),
       PyStr (lit ''BUG'')]),
    (''title'', PyStr (lit ''XFetch - Tanda Negatif Matematika'')),
    (''subtitle'', PyStr (lit ''Koreksi -ln(U) > 0 vs ln(U) < 0 bug, beta '' @
        lit ''parameter menggerakkan distribusi.'')),
    (''content_items'', lab37_items_14),
    (''narrative'', PyStr (lit ''Penerapan matematis formula XFetch menuntut '' @
        lit ''pemahaman mendalam terhadap tanda minus '' @
        lit ''logaritma natural. Karena variabel U berada '' @
        lit ''pada rentang nol hingga satu, nilai '' @
        lit ''logaritma natural ln(U) selalu menghasilkan '' @
        lit ''bilangan negatif. Penambahan tanda minus di '' @
        lit ''depan rumus membuat hasil kalkulasi '' @
        lit ''bernilai positif, sehingga memungkinkan '' @
        lit ''perbandingan yang valid terhadap sisa TTL. '' @
        lit ''Kesalahan umum dalam mengabaikan tanda '' @
        lit ''minus akan menghasilkan nilai negatif '' @
        lit ''permanen, menyebabkan kondisi penyegaran '' @
        lit ''awal tidak pernah terpenuhi dan stampede '' @ lit ''tetap terjadi.'')),
    (''narrative_en'', PyStr (lit ''Mathematical precision in XFetch requires '' @
        lit ''retaining the negative sign in front of the '' @
        lit ''natural logarithm. Because ln(U) is '' @
        lit ''strictly negative for random values between '' @
        lit ''0 and 1, omitting the minus sign forces the '' @
        lit ''expression negative, silently disabling '' @
        lit ''proactive early recomputation.'')),
    (''mental_model'', PyStr (lit ''-ln(U) maps uniform draws into positive '' @
        lit ''offsets; missing minus sign silently '' @ lit ''disables early refresh.'')),
    (''source_path'', PyStr (lit ''labs/37-cache-invalidation-strategies/tests/'' @ lit ''cache_test.go:161-184'')),
    (''slide_num'', PyStr (lit ''14 / 24''))]\<rparr>\<close>

definition lab37_items_15 :: pyval where [lab37_contents]:
  \<open>lab37_items_15 =
   PyList
   [PyDict
     [(''title'', PyStr (lit ''WINDOW STATE MACHINE'')),
      (''items'', PyList
        [PyStr (lit ''State | Kondisi | Action | Return''),
         PyStr (lit ''Fresh | now < ExpiresAt | Return cached | '' @ lit ''Cached value''),
         PyStr (lit ''Stale-1 | ExpiresAt '' @ [0x2264] @
            lit '' now < staleUntil | Trigger async '' @ lit ''revalidate | Stale value''),
         PyStr (lit ''Stale-2 | now '' @ [0x2265] @
            lit '' staleUntil (past grace) | Synchronous '' @
            lit ''fetch | New DB value (blocking)''),
         PyStr (lit ''Miss | Key not in cache | Synchronous fetch '' @ lit ''| New DB value'')]),
      (''type'', PyStr (lit ''table''))],
    PyDict
     [(''title'', PyStr (lit ''ALUR KODE GET'')),
      (''items'', PyList
        [PyStr (lit ''item, ok := s.cache.GetRaw(key)''),
         PyStr (lit ''now := time.Now()''),
         PyStr (lit ''if ok {''),
         PyStr (lit ''    if now.Before(item.ExpiresAt) { return '' @
            lit ''item.Value, nil }       // Fresh''),
         PyStr (lit ''    staleUntil := '' @ lit ''item.ExpiresAt.Add(s.staleDelta)''),
         PyStr (lit ''    if now.Before(staleUntil) {''),
         PyStr (lit ''        s.triggerRevalidate(key)            '' @
            lit ''                       // Stale-1''),
         PyStr (lit ''        return item.Value, nil''),
         PyStr (lit ''    }''),
         PyStr (lit ''}''),
         PyStr (lit ''// Hard miss / Stale-2 '' @ [0x2192] @ lit '' synchronous fetch''),
         PyStr (lit ''val, err := s.db.Query(ctx, key)''),
         PyStr (lit ''s.cache.Set(key, val, ttl, delta)''),
         PyStr (lit ''return val, nil'')]),
      (''type'', PyStr (lit ''code''))]]\<close>

definition lab37_slide_15 :: pycall where [lab37_slides]:
  \<open>lab37_slide_15 =
   \<lparr>posargs = [],
  kwargs =
   [(''categories'', PyList
      [PyStr (lit ''SWR''),
       PyStr (lit ''STALE-WHILE-REVALIDATE'')]),
    (''title'', PyStr (lit ''Stale-While-Revalidate (SWR) - Toleransi '' @ lit ''Data Basi'')),
    (''subtitle'', PyStr (lit ''Fresh vs Stale window vs Hard miss, RFC '' @
        lit ''5861 Cache-Control extension.'')),
    (''content_items'', lab37_items_15),
    (''narrative'', PyStr (lit ''Stale-While-Revalidate yang diadaptasi dari '' @
        lit ''RFC 5861 menawarkan solusi performa tinggi '' @
        lit ''dengan memperluas toleransi terhadap data '' @
        lit ''kedaluwarsa. Sistem membagi siklus hidup '' @
        lit ''cache menjadi tiga jendela: fresh di mana '' @
        lit ''data disajikan langsung, stale window di '' @
        lit ''mana data usang segera disajikan ke klien '' @
        lit ''sementara revalidasi dipicu di latar '' @
        lit ''belakang, serta hard miss di mana query '' @
        lit ''database harus dieksekusi secara sinkron. '' @
        lit ''Pendekatan ini menjaga latensi pembacaan '' @
        lit ''tetap berada di level sub-milidetik.'')),
    (''narrative_en'', PyStr (lit ''Stale-While-Revalidate, inspired by RFC '' @
        lit ''5861, balances latency and freshness across '' @
        lit ''three lifecycle phases. Within the stale '' @
        lit ''grace window, clients receive immediate '' @
        lit ''cached responses while background '' @
        lit ''revalidation fetches updated records '' @
        lit ''asynchronously, guaranteeing low end-user '' @ lit ''latency.'')),
    (''mental_model'', PyStr (lit ''SWR extends cache lifetime into a grace '' @
        lit ''window while async-revalidating in '' @ lit ''background.'')),
    (''source_path'', PyStr (lit ''labs/37-cache-invalidation-strategies/intern'' @
        lit ''al/cache/stampede.go:197-224'')),
    (''slide_num'', PyStr (lit ''15 / 24''))]\<rparr>\<close>

definition lab37_items_16 :: pyval where [lab37_contents]:
  \<open>lab37_items_16 =
   PyList
   [PyDict
     [(''title'', PyStr (lit ''REVALIDASI ASYNC'')),
      (''items'', PyList
        [PyStr (lit ''triggerRevalidate(key): spawn single '' @ lit ''goroutine per key''),
         PyStr (lit ''go func() { db.Query '' @ [0x2192] @ lit '' cache.Set }''),
         PyStr (lit ''Reader tidak blocking; langsung menerima '' @ lit ''stale value.''),
         PyStr (lit ''Revalidasi berlangsung di background, tidak '' @ lit ''menunggu selesai.'')]),
      (''type'', PyStr (lit ''bullet''))],
    PyDict
     [(''title'', PyStr (lit ''DEDUPLIKASI (revalidating map)'')),
      (''items'', PyList
        [PyStr (lit ''s.mu.Lock(); if s.revalidating[key] { '' @ lit ''s.mu.Unlock(); return }''),
         PyStr (lit ''s.revalidating[key] = true; s.mu.Unlock()''),
         PyStr (lit ''// goroutine: defer delete(s.revalidating, '' @ lit ''key)''),
         PyStr (lit ''Hanya 1 goroutine yang melakukan revalidasi '' @ lit ''per key.'')]),
      (''type'', PyStr (lit ''bullet''))],
    PyDict
     [(''title'', PyStr (lit ''KODE TRIGGER'')),
      (''items'', PyList
        [PyStr (lit ''func (s *SWRService) triggerRevalidate(key '' @ lit ''string) {''),
         PyStr (lit ''    s.mu.Lock()''),
         PyStr (lit ''    if s.revalidating[key] { s.mu.Unlock(); '' @ lit ''return }''),
         PyStr (lit ''    s.revalidating[key] = true''),
         PyStr (lit ''    s.mu.Unlock()''),
         PyStr (lit ''    s.revalCount.Add(1)''),
         PyStr (lit ''    go func() { // async fetch & set''),
         PyStr (lit ''        defer func() {''),
         PyStr (lit ''            s.mu.Lock()''),
         PyStr (lit ''            delete(s.revalidating, key)''),
         PyStr (lit ''            s.mu.Unlock()''),
         PyStr (lit ''        }()''),
         PyStr (lit ''        ...db.Query '' @ [0x2192] @ lit '' s.cache.Set...''),
         PyStr (lit ''    }()''),
         PyStr (lit ''}'')]),
      (''type'', PyStr (lit ''code''))]]\<close>

definition lab37_slide_16 :: pycall where [lab37_slides]:
  \<open>lab37_slide_16 =
   \<lparr>posargs = [],
  kwargs =
   [(''categories'', PyList
      [PyStr (lit ''SWR''),
       PyStr (lit ''CONCURRENCY'')]),
    (''title'', PyStr (lit ''SWR - Async Revalidation & Deduplikasi'')),
    (''subtitle'', PyStr (lit ''Serving stale immediately, background '' @
        lit ''goroutine update, revalidating map guard.'')),
    (''content_items'', lab37_items_16),
    (''narrative'', PyStr (lit ''Keberhasilan SWR sangat bergantung pada '' @
        lit ''mekanisme deduplikasi revalidasi latar '' @
        lit ''belakang agar tidak memicu badai permintaan '' @
        lit ''baru ke database. Tanpa pembatas, ratusan '' @
        lit ''request pada data basi akan masing-masing '' @
        lit ''meluncurkan goroutine revalidasi baru. '' @
        lit ''SWRService mengatasi ancaman ini dengan '' @
        lit ''memelihara tabel penanda revalidasi '' @
        lit ''berbasis mutex; hanya satu goroutine yang '' @
        lit ''diizinkan memperbarui database untuk kunci '' @
        lit ''yang sama pada satu waktu. Jika revalidasi '' @
        lit ''gagal, klien tetap aman menerima nilai '' @ lit ''usang sebagai fallback.'')),
    (''narrative_en'', PyStr (lit ''SWR requires robust deduplication to '' @
        lit ''prevent background revalidation storms. '' @
        lit ''Using a mutex-protected tracking map, '' @
        lit ''SWRService guarantees that only a single '' @
        lit ''background goroutine refreshes the database '' @
        lit ''per key at any given time, gracefully '' @
        lit ''falling back to stale data upon upstream '' @ lit ''errors.'')),
    (''mental_model'', PyStr (lit ''Serve stale immediately, dedupe background '' @
        lit ''revalidation to one goroutine per key.'')),
    (''source_path'', PyStr (lit ''labs/37-cache-invalidation-strategies/intern'' @
        lit ''al/cache/stampede.go:226-254'')),
    (''slide_num'', PyStr (lit ''16 / 24''))]\<rparr>\<close>

definition lab37_items_17 :: pyval where [lab37_contents]:
  \<open>lab37_items_17 =
   PyList
   [PyDict
     [(''title'', PyStr (lit ''FORMULA JITTER'')),
      (''items'', PyList
        [PyStr (lit ''TTL_effective = base + random(0, maxJitter)''),
         PyStr (lit ''Implementasi: '' @ lit ''time.Duration(rand.Int63n(int64(maxJitter)))''),
         PyStr (lit ''Hasil berada di range [base, base + '' @ lit ''maxJitter)''),
         PyStr (lit ''Tiap key kadaluarsa pada waktu yang berbeda.'')]),
      (''type'', PyStr (lit ''bullet''))],
    PyDict
     [(''title'', PyStr (lit ''KODE IMPLEMENTASI'')),
      (''items'', PyList
        [PyStr (lit ''func TTLWithJitter(base, maxJitter '' @
            lit ''time.Duration) time.Duration {''),
         PyStr (lit ''    if maxJitter <= 0 { return base }''),
         PyStr (lit ''    jitter := '' @ lit ''time.Duration(rand.Int63n(int64(maxJitter)))''),
         PyStr (lit ''    return base + jitter''),
         PyStr (lit ''}'')]),
      (''type'', PyStr (lit ''code''))],
    PyDict
     [(''title'', PyStr (lit ''MANFAAT DESINKRONISASI'')),
      (''items'', PyList
        [PyStr (lit ''Cross-key: 1000 key dengan base=10s, '' @ lit ''jitter=[0,5s) '' @
            [0x2192] @ lit '' expire selama 10-15s''),
         PyStr (lit ''Tidak ada lonjakan simultan expiry pada t = '' @
            lit ''10s semua sekaligus''),
         PyStr (lit ''Mengurangi probabilitas banyak key miss '' @ lit ''secara bersamaan''),
         PyStr (lit ''Bukan solusi untuk single hot key stampede '' @ lit ''(lihat slide 10)'')]),
      (''type'', PyStr (lit ''bullet''))]]\<close>

definition lab37_slide_17 :: pycall where [lab37_slides]:
  \<open>lab37_slide_17 =
   \<lparr>posargs = [],
  kwargs =
   [(''categories'', PyList
      [PyStr (lit ''JITTER''),
       PyStr (lit ''DESINKRONISASI'')]),
    (''title'', PyStr (lit ''TTL Jitter - Anti-Sinkronisasi Expiry'')),
    (''subtitle'', PyStr (lit ''Base TTL + random offset [0, maxJitter), '' @ lit ''desynchronization.'')),
    (''content_items'', lab37_items_17),
    (''narrative'', PyStr (lit ''TTL Jitter adalah teknik pertahanan '' @
        lit ''sederhana namun ampuh untuk mencegah '' @
        lit ''sinkronisasi waktu kedaluwarsa lintas kunci '' @
        lit ''cache. Ketika ribuan kunci diisi secara '' @
        lit ''bersamaan saat startup sistem atau deploy '' @
        lit ''aplikasi, penggunaan TTL statis akan '' @
        lit ''menyebabkan seluruh kunci tersebut '' @
        lit ''kedaluwarsa pada detik yang sama persis. '' @
        lit ''Dengan menambahkan offset acak pada rentang '' @
        lit ''nol hingga batas maksimum jitter, masa '' @
        lit ''kedaluwarsa tersebar merata, mengeliminasi '' @
        lit ''lonjakan serentak pada database di masa '' @ lit ''mendatang.'')),
    (''narrative_en'', PyStr (lit ''TTL Jitter adds a random time offset to '' @
        lit ''base TTL values, preventing cross-key '' @
        lit ''expiration synchronization. By '' @
        lit ''desynchronizing bulk-primed keys across a '' @
        lit ''bounded time window, Jitter eliminates '' @
        lit ''simultaneous mass expirations that often '' @
        lit ''overwhelm backend storage following '' @ lit ''application deployments.'')),
    (''mental_model'', PyStr (lit ''Jitter desynchronizes cross-key expiries, '' @
        lit ''spreading cache misses over time.'')),
    (''source_path'', PyStr (lit ''labs/37-cache-invalidation-strategies/intern'' @
        lit ''al/cache/store.go:78-86'')),
    (''slide_num'', PyStr (lit ''17 / 24''))]\<rparr>\<close>

definition lab37_items_18 :: pyval where [lab37_contents]:
  \<open>lab37_items_18 =
   PyList
   [PyDict
     [(''title'', PyStr (lit ''TEST CASE OVERVIEW'')),
      (''items'', PyList
        [PyStr (lit ''Test | Pattern | Assertion | Expected DB '' @ lit ''Queries''),
         PyStr (lit ''Cache-Aside Read | Cache-Aside | Miss '' @ [0x2192] @ lit '' 1 query | 1''),
         PyStr (lit ''Cache-Aside Hit | Cache-Aside | Hit '' @ [0x2192] @
            lit '' 0 query | 1 (stays)''),
         PyStr (lit ''Cache-Aside Update | Cache-Aside | '' @ lit ''Write+Delete '' @ [0x2192] @
            lit '' next miss | 2''),
         PyStr (lit ''Write-Through Write | Write-Through | '' @
            lit ''Update sync set cache | 1 (no extra query)''),
         PyStr (lit ''Write-Behind Flush | Write-Behind | Async '' @
            lit ''flush after sleep | 1 write async'')]),
      (''type'', PyStr (lit ''table''))],
    PyDict
     [(''title'', PyStr (lit ''DEMO OUTPUT'')),
      (''items'', PyList
        [PyStr (lit ''[Cache-Aside]''),
         PyStr (lit ''  1st GET (cache miss)  -> DB queries: 1, '' @ lit ''val: Laptop''),
         PyStr (lit ''  2nd GET (cache hit)   -> DB queries: 1, '' @ lit ''val: Laptop''),
         PyStr (lit ''  After update & GET    -> DB queries: 2, '' @ lit ''val: Laptop Pro''),
         PyStr [],
         PyStr (lit ''[Write-Through]''),
         PyStr (lit ''  1st GET (cache miss)  -> DB queries: 1''),
         PyStr (lit ''  After update & GET    -> DB queries: 1, '' @ lit ''val: Phone Pro''),
         PyStr [],
         PyStr (lit ''[Write-Behind]''),
         PyStr (lit ''  After Update, GET from cache -> DB '' @ lit ''writes: 0, val: Tablet''),
         PyStr (lit ''  After 50ms flush delay       -> DB '' @ lit ''writes: 1'')]),
      (''type'', PyStr (lit ''code''))]]\<close>

definition lab37_slide_18 :: pycall where [lab37_slides]:
  \<open>lab37_slide_18 =
   \<lparr>posargs = [],
  kwargs =
   [(''categories'', PyList
      [PyStr (lit ''TESTING''),
       PyStr (lit ''VERIFIKASI'')]),
    (''title'', PyStr (lit ''Pengujian: Cache-Aside vs Write-Through vs '' @ lit ''Write-Behind'')),
    (''subtitle'', PyStr (lit ''TestCachePatterns, test output & query '' @ lit ''counters.'')),
    (''content_items'', lab37_items_18),
    (''narrative'', PyStr (lit ''Pengujian TestCachePatterns memvalidasi '' @
        lit ''perilaku ketiga write pattern menggunakan '' @
        lit ''MockDB dengan counter query atomik yang '' @
        lit ''presisi. Pada Cache-Aside, query database '' @
        lit ''hanya bertambah pada cache miss pertama dan '' @
        lit ''tetap stabil pada hit kedua, lalu bertambah '' @
        lit ''lagi setelah operasi update menghapus '' @
        lit ''cache. Pada Write-Through, pembacaan '' @
        lit ''pasca-update langsung mendapati cache hit '' @
        lit ''tanpa query database. Pada Write-Behind, '' @
        lit ''update cache terjadi seketika, dan '' @
        lit ''penulisan database terbukti dieksekusi '' @
        lit ''secara asinkron beberapa milidetik kemudian.'')),
    (''narrative_en'', PyStr (lit ''Unit testing via TestCachePatterns verifies '' @
        lit ''all three write policies deterministically '' @
        lit ''using MockDB query counters. Invalidation '' @
        lit ''cycles, synchronous write-through hits, and '' @
        lit ''asynchronous write-behind flushes are '' @
        lit ''validated against exact query count '' @
        lit ''assertions, confirming predictable IO '' @ lit ''behavior.'')),
    (''mental_model'', PyStr (lit ''MockDB query counters make write-policy '' @
        lit ''behavior deterministic and testable.'')),
    (''source_path'', PyStr (lit ''labs/37-cache-invalidation-strategies/tests/'' @ lit ''cache_test.go:13-104'')),
    (''slide_num'', PyStr (lit ''18 / 24''))]\<rparr>\<close>

definition lab37_items_19 :: pyval where [lab37_contents]:
  \<open>lab37_items_19 =
   PyList
   [PyDict
     [(''title'', PyStr (lit ''NAIVE STAMPEDE (TEST)'')),
      (''items'', PyList
        [PyStr (lit ''concurrency := 20''),
         PyStr (lit ''svc := NewNaiveStampedeService(mem, db, '' @ lit ''1*time.Minute)''),
         PyStr (lit ''20 goroutines '' @ [0x2192] @ lit '' svc.Get(ctx, '' @ [39] @
            lit ''hot-key'' @ [39] @ lit '') secara paralel''),
         PyStr (lit ''wg.Wait()''),
         PyStr (lit ''ASSERT: db.QueryCount() > 1  (stampede '' @ lit ''terjadi!)''),
         PyStr (lit ''RESULT: 20 concurrent '' @ [0x2192] @ lit '' 20 DB queries'')]),
      (''type'', PyStr (lit ''bullet''))],
    PyDict
     [(''title'', PyStr (lit ''SINGLEFLIGHT (TEST)'')),
      (''items'', PyList
        [PyStr (lit ''concurrency := 20''),
         PyStr (lit ''svc := NewSingleFlightService(mem, db, '' @ lit ''1*time.Minute)''),
         PyStr (lit ''20 goroutines '' @ [0x2192] @ lit '' svc.Get(ctx, '' @ [39] @
            lit ''hot-key'' @ [39] @ lit '') secara paralel''),
         PyStr (lit ''wg.Wait()''),
         PyStr (lit ''ASSERT: db.QueryCount() == 1  (coalescing)''),
         PyStr (lit ''RESULT: 20 concurrent '' @ [0x2192] @
            lit '' 1 DB query, 20 correct results'')]),
      (''type'', PyStr (lit ''bullet''))],
    PyDict
     [(''title'', PyStr (lit ''DEMO OUTPUT'')),
      (''items'', PyList
        [PyStr (lit ''[Naive] 20 concurrent goroutines -> 20 DB '' @ lit ''queries (stampede!)''),
         PyStr (lit ''[SF]    20 concurrent goroutines -> 1 DB '' @
            lit ''queries (singleflight), 20 correct results'')]),
      (''type'', PyStr (lit ''code''))]]\<close>

definition lab37_slide_19 :: pycall where [lab37_slides]:
  \<open>lab37_slide_19 =
   \<lparr>posargs = [],
  kwargs =
   [(''categories'', PyList
      [PyStr (lit ''TESTING''),
       PyStr (lit ''STAMPEDE MITIGATION'')]),
    (''title'', PyStr (lit ''Pengujian: Naive Stampede vs Singleflight'')),
    (''subtitle'', PyStr (lit ''20 DB queries vs 1 DB query under 20 '' @ lit ''concurrent goroutines.'')),
    (''content_items'', lab37_items_19),
    (''narrative'', PyStr (lit ''Pengujian mitigasi stampede membuktikan '' @
        lit ''efektivitas Singleflight secara empiris di '' @
        lit ''bawah beban konkurensi tinggi. Ketika dua '' @
        lit ''puluh goroutine diluncurkan secara simultan '' @
        lit ''untuk mengakses kunci panas yang belum ada '' @
        lit ''di cache, implementasi Naive menghasilkan '' @
        lit ''dua puluh query database paralel'' @ [0x2014] @
        lit ''memperlihatkan stampede nyata. Sebaliknya, '' @
        lit ''SingleFlightService berhasil menggabungkan '' @
        lit ''seluruh dua puluh panggilan tersebut '' @
        lit ''menjadi tepat satu query database tunggal, '' @
        lit ''dan seluruh goroutine menerima nilai yang '' @
        lit ''benar tanpa terjadi data race.'')),
    (''narrative_en'', PyStr (lit ''Concurrency tests empirically contrast '' @
        lit ''Naive Stampede against Singleflight. Under '' @
        lit ''twenty concurrent goroutines requesting a '' @
        lit ''cold hot-key, the naive service triggers '' @
        lit ''twenty redundant database queries, whereas '' @
        lit ''Singleflight successfully collapses all '' @
        lit ''twenty requests into exactly one database '' @ lit ''invocation.'')),
    (''mental_model'', PyStr (lit ''Singleflight collapses concurrent misses: '' @ lit ''20 requests '' @
        [0x2192] @ lit '' 1 DB query.'')),
    (''source_path'', PyStr (lit ''labs/37-cache-invalidation-strategies/tests/'' @ lit ''cache_test.go:106-159'')),
    (''slide_num'', PyStr (lit ''19 / 24''))]\<rparr>\<close>

definition lab37_items_20 :: pyval where [lab37_contents]:
  \<open>lab37_items_20 =
   PyList
   [PyDict
     [(''title'', PyStr (lit ''SETUP TEST'')),
      (''items'', PyList
        [PyStr (lit ''delta = 100ms, beta = 1.0, ttl = 1s''),
         PyStr (lit ''Initial: cache.Get miss '' @ [0x2192] @ lit '' db.Query '' @ [0x2192] @
            lit '' cache.Set, db.QueryCount = 1''),
         PyStr (lit ''Two deterministic randFunc injected via '' @ lit ''SetRandFunc()'')]),
      (''type'', PyStr (lit ''bullet''))],
    PyDict
     [(''title'', PyStr (lit ''HIGH U (0.5) '' @ [0x2192] @ lit '' NO EARLY REFRESH'')),
      (''items'', PyList
        [PyStr (lit ''remaining = 200ms, u = 0.5''),
         PyStr (lit ''-ln(0.5) = 0.6931''),
         PyStr (lit ''expiryCompute = 100ms '' @ [0xD7] @ lit '' 0.6931 = 69.31ms < 200ms''),
         PyStr (lit ''ShouldRecompute = FALSE '' @ [0x2192] @ lit '' serve from cache''),
         PyStr (lit ''RESULT: db.QueryCount stays 1 (cache hit)'')]),
      (''type'', PyStr (lit ''bullet''))],
    PyDict
     [(''title'', PyStr (lit ''LOW U (0.3) '' @ [0x2192] @ lit '' TRIGGER EARLY REFRESH'')),
      (''items'', PyList
        [PyStr (lit ''remaining = 50ms, u = 0.3''),
         PyStr (lit ''-ln(0.3) = 1.2039''),
         PyStr (lit ''expiryCompute = 100ms '' @ [0xD7] @ lit '' 1.2039 = 120.39ms > 50ms''),
         PyStr (lit ''ShouldRecompute = TRUE '' @ [0x2192] @ lit '' recompute from DB''),
         PyStr (lit ''RESULT: db.QueryCount grows to 2 (proactive '' @ lit ''refresh)'')]),
      (''type'', PyStr (lit ''bullet''))],
    PyDict
     [(''title'', PyStr (lit ''DEMO OUTPUT'')),
      (''items'', PyList
        [PyStr (lit ''Initial GET       -> DB queries: 1, val: '' @ lit ''initial-val''),
         PyStr (lit ''Low rand draw     -> DB queries: 2, val: '' @
            lit ''refreshed-val (early proactive refresh)''),
         PyStr (lit ''High rand draw    -> DB queries: 1, val: '' @
            lit ''fresh-data (served from cache, no early '' @ lit ''refresh)'')]),
      (''type'', PyStr (lit ''code''))]]\<close>

definition lab37_slide_20 :: pycall where [lab37_slides]:
  \<open>lab37_slide_20 =
   \<lparr>posargs = [],
  kwargs =
   [(''categories'', PyList
      [PyStr (lit ''TESTING''),
       PyStr (lit ''X-FETCH'')]),
    (''title'', PyStr (lit ''Pengujian: XFetch Deterministic Simulation'')),
    (''subtitle'', PyStr (lit ''Low rand draw triggers refresh, high rand '' @ lit ''draw serves cache.'')),
    (''content_items'', lab37_items_20),
    (''narrative'', PyStr (lit ''Pengujian logika XFetch dirancang secara '' @
        lit ''deterministik melalui injeksi fungsi '' @
        lit ''pengacak randFunc tiruan untuk menguji '' @
        lit ''kedua percabangan algoritma. Ketika '' @
        lit ''generator acak menghasilkan nilai tinggi '' @
        lit ''mendekati satu, formula matematis '' @
        lit ''memutuskan tidak perlu recompute, sehingga '' @
        lit ''data disajikan langsung dari cache. '' @
        lit ''Sebaliknya, saat diinjeksi nilai acak yang '' @
        lit ''sangat kecil, rumus menghasilkan nilai '' @
        lit ''komputasi yang melampaui sisa TTL, memicu '' @
        lit ''eksekusi query pembaruan dini ke database '' @
        lit ''secara terbukti dan terukur.'')),
    (''narrative_en'', PyStr (lit ''Deterministic XFetch testing leverages '' @
        lit ''injected random generators to validate '' @
        lit ''decision paths reliably. High uniform draws '' @
        lit ''preserve cache hits, while simulated low '' @
        lit ''draws reliably satisfy the probabilistic '' @
        lit ''formula, triggering early proactive '' @
        lit ''recomputations before hard TTL expiration.'')),
    (''mental_model'', PyStr (lit ''Deterministic randFunc injection tests both '' @
        lit ''XFetch refresh and cache-hit branches.'')),
    (''source_path'', PyStr (lit ''labs/37-cache-invalidation-strategies/tests/'' @ lit ''cache_test.go:161-305'')),
    (''slide_num'', PyStr (lit ''20 / 24''))]\<rparr>\<close>

definition lab37_items_21 :: pyval where [lab37_contents]:
  \<open>lab37_items_21 =
   PyList
   [PyDict
     [(''title'', PyStr (lit ''TEST SCENARIO'')),
      (''items'', PyList
        [PyStr (lit ''TTL=20ms, staleDelta=300ms''),
         PyStr (lit ''1. Initial Get '' @ [0x2192] @ lit '' cache.Set, return '' @ [39] @
            lit ''initial-data'' @ [39]),
         PyStr (lit ''2. time.Sleep(30ms) '' @ [0x2192] @
            lit '' TTL expired, masuk stale window''),
         PyStr (lit ''3. db.SetData('' @ [39] @ lit ''key'' @ [39] @ lit '', '' @ [39] @
            lit ''updated-data'' @ [39] @ lit '')''),
         PyStr (lit ''4. Concurrent Get (10 goroutines) '' @ [0x2192] @ lit '' semua dapat '' @
            [39] @ lit ''initial-data'' @ [39] @ lit '' (stale)''),
         PyStr (lit ''5. triggerRevalidate dispatch 1 goroutine '' @ lit ''(deduplicated!)''),
         PyStr (lit ''6. time.Sleep(50ms) '' @ [0x2192] @ lit '' async revalidasi selesai''),
         PyStr (lit ''7. Next Get '' @ [0x2192] @ lit '' return '' @ [39] @
            lit ''updated-data'' @ [39] @ lit '' (fresh)'')]),
      (''type'', PyStr (lit ''bullet''))],
    PyDict
     [(''title'', PyStr (lit ''RACE DETECTION'')),
      (''items'', PyList
        [PyStr (lit ''go test -race ./... '' @ [0x2192] @
            lit '' PASS (1.553s, 0 races detected)''),
         PyStr (lit ''revalidateCount atomic: hanya 1 revalidasi '' @
            lit ''untuk 10 concurrent stale requests''),
         PyStr (lit ''revalidating map + mutex: benar-benar '' @ lit ''mencegah storm'')]),
      (''type'', PyStr (lit ''bullet''))],
    PyDict
     [(''title'', PyStr (lit ''DEMO OUTPUT'')),
      (''items'', PyList
        [PyStr (lit ''Initial GET       -> val: v1''),
         PyStr (lit ''GET (stale)       -> val: v1  (stale served '' @ lit ''immediately)''),
         PyStr (lit ''GET (fresh)       -> val: v2  (async '' @ lit ''revalidation complete)'')]),
      (''type'', PyStr (lit ''code''))]]\<close>

definition lab37_slide_21 :: pycall where [lab37_slides]:
  \<open>lab37_slide_21 =
   \<lparr>posargs = [],
  kwargs =
   [(''categories'', PyList
      [PyStr (lit ''TESTING''),
       PyStr (lit ''SWR'')]),
    (''title'', PyStr (lit ''Pengujian: SWR & Race Detection'')),
    (''subtitle'', PyStr (lit ''Immediate stale serve, async reload '' @
        lit ''verified, go test -race clean.'')),
    (''content_items'', lab37_items_21),
    (''narrative'', PyStr (lit ''Pengujian Stale-While-Revalidate '' @
        lit ''memverifikasi bahwa data usang langsung '' @
        lit ''dikembalikan kepada pemanggil tanpa jeda '' @
        lit ''latensi begitu TTL kedaluwarsa namun masih '' @
        lit ''dalam rentang toleransi stale. Sepuluh '' @
        lit ''goroutine konkuren yang membaca kunci basi '' @
        lit ''secara simultan terbukti hanya memicu tepat '' @
        lit ''satu proses revalidasi latar belakang '' @
        lit ''berkat mekanisme deduplikasi. Pengujian '' @
        lit ''race detector Go dengan flag -race lulus '' @
        lit ''sempurna tanpa kebocoran data, membuktikan '' @
        lit ''keandalan thread-safety implementasi SWR di '' @ lit ''lingkungan produksi.'')),
    (''narrative_en'', PyStr (lit ''SWR test suites confirm immediate delivery '' @
        lit ''of stale data alongside single-goroutine '' @
        lit ''background revalidation. Under ten '' @
        lit ''concurrent readers, deduplication prevents '' @
        lit ''revalidation storms, while Go race detector '' @
        lit ''passes cleanly, validating strict '' @
        lit ''thread-safety across concurrent cache '' @ lit ''accesses.'')),
    (''mental_model'', PyStr (lit ''SWR serves stale immediately while async '' @
        lit ''revalidation dedupes concurrent callers.'')),
    (''source_path'', PyStr (lit ''labs/37-cache-invalidation-strategies/tests/'' @ lit ''cache_test.go:186-221'')),
    (''slide_num'', PyStr (lit ''21 / 24''))]\<rparr>\<close>

definition lab37_items_22 :: pyval where [lab37_contents]:
  \<open>lab37_items_22 =
   PyList
   [PyDict
     [(''title'', PyStr (lit ''MATRIKS KOMPARASI LENGKAP'')),
      (''items'', PyList
        [PyStr (lit ''Strategi | Latensi Tulis | Latensi Baca | '' @
            lit ''Konsistensi | Risiko Utama''),
         PyStr (lit ''Cache-Aside | Sync DB Write | Cache hit (0 '' @
            lit ''RTT) | Eventual read-after-write | Stampede '' @ lit ''pada miss massal''),
         PyStr (lit ''Write-Through | DB+Cache (2 sync ops) | '' @
            lit ''Cache hit (0 RTT) | Strong read-after-write '' @
            lit ''| Latency penulisan tinggi''),
         PyStr (lit ''Write-Behind | Cache Set + async queue | '' @
            lit ''Cache hit (0 RTT) | Eventual consistency | '' @
            lit ''Data loss pada crash/overflow''),
         PyStr (lit ''Singleflight | Sama | Cache hit setelah 1st '' @
            lit ''miss | Eventual | Tidak proteksi '' @ lit ''cross-process''),
         PyStr (lit ''XFetch | Sama | Cache hit/proactive refresh '' @
            lit ''| Eventual | Sign error bug (formulasi '' @ lit ''salah)''),
         PyStr (lit ''SWR | Sama | Stale serve (0 blocking) | '' @
            lit ''Eventual | Staleness window, revalidation '' @ lit ''storm''),
         PyStr (lit ''TTL Jitter | Sama | Cache hit (tersebar '' @
            lit ''waktu) | Eventual | Tidak proteksi single '' @ lit ''hot key'')]),
      (''type'', PyStr (lit ''table''))],
    PyDict
     [(''title'', PyStr (lit ''SPESIFIKASI'')),
      (''items'', PyList
        [PyStr (lit ''Kolom tambahan | Cache-Aside | '' @ lit ''Write-Through | Write-Behind''),
         PyStr (lit ''Memory overhead | Lazy, hanya data yang '' @
            lit ''dibaca | Semua key yang ditulis | Semua key '' @ lit ''yang ditulis''),
         PyStr (lit ''Write throughput | Medium | Low | High '' @ lit ''(async)''),
         PyStr (lit ''Read-after-write guarantee | No | Yes | No '' @ lit ''(eventual)''),
         PyStr (lit ''Durability | DB committed | DB committed | '' @
            lit ''Risk of loss before flush'')]),
      (''type'', PyStr (lit ''table''))]]\<close>

definition lab37_slide_22 :: pycall where [lab37_slides]:
  \<open>lab37_slide_22 =
   \<lparr>posargs = [],
  kwargs =
   [(''categories'', PyList
      [PyStr (lit ''KOMPARASI''),
       PyStr (lit ''MATRIKS'')]),
    (''title'', PyStr (lit ''Matriks Komparasi 7 Strategi'')),
    (''subtitle'', PyStr (lit ''Tabel lengkap: Pola, Latensi Tulis, Latensi '' @
        lit ''Baca, Konsistensi, Risiko.'')),
    (''content_items'', lab37_items_22),
    (''narrative'', PyStr (lit ''Matriks komparasi tujuh strategi menyajikan '' @
        lit ''panduan evaluasi menyeluruh berdasarkan '' @
        lit ''profil latensi tulis, latensi baca, tingkat '' @
        lit ''konsistensi, dan risiko arsitektural utama. '' @
        lit ''Tidak ada satu strategi tunggal yang '' @
        lit ''sempurna untuk semua skenario; setiap '' @
        lit ''pilihan merupakan kompromi teknik yang '' @
        lit ''sadar. Cache-Aside unggul pada efisiensi '' @
        lit ''memori, Write-Through memberikan '' @
        lit ''konsistensi tertinggi dengan mengorbankan '' @
        lit ''kecepatan tulis, sementara Write-Behind '' @
        lit ''menawarkan performa penulisan maksimum '' @
        lit ''namun menuntut mitigasi khusus terhadap '' @
        lit ''risiko hilangnya data saat kegagalan sistem.'')),
    (''narrative_en'', PyStr (lit ''The comprehensive comparison matrix '' @
        lit ''evaluates all seven strategies across write '' @
        lit ''latency, read latency, consistency '' @
        lit ''guarantees, and operational failure risks. '' @
        lit ''Engineering teams must weigh strong '' @
        lit ''read-after-write consistency against write '' @
        lit ''latency and durability risks to identify '' @
        lit ''optimal caching architectures.'')),
    (''mental_model'', PyStr (lit ''No single strategy dominates; trade write '' @
        lit ''latency, read latency, consistency, risk.'')),
    (''source_path'', PyStr (lit ''labs/37-cache-invalidation-strategies/conten'' @ lit ''t/02-master-draft.md'')),
    (''slide_num'', PyStr (lit ''22 / 24''))]\<rparr>\<close>

definition lab37_items_23 :: pyval where [lab37_contents]:
  \<open>lab37_items_23 =
   PyList
   [PyDict
     [(''title'', PyStr (lit ''DECISION TREE'')),
      (''items'', PyList
        [PyStr (lit ''Read-heavy + cold writes?''),
         PyStr (lit ''  '' @ [0x2192] @ lit '' Cache-Aside (default) + TTL Jitter''),
         PyStr [],
         PyStr (lit ''Hot key + stampede observed?''),
         PyStr (lit ''  '' @ [0x2192] @ lit '' Singleflight (single proc) OR Redis lock '' @
            lit ''(multi-proc)''),
         PyStr (lit ''  '' @ [0x2192] @ lit '' XFetch (probabilistic proactive refresh)''),
         PyStr [],
         PyStr (lit ''Tolerir staleness untuk latency ultra '' @ lit ''rendah?''),
         PyStr (lit ''  '' @ [0x2192] @ lit '' SWR (serve stale, async revalidate)''),
         PyStr [],
         PyStr (lit ''Write-heavy + throughput kritis?''),
         PyStr (lit ''  '' @ [0x2192] @ lit '' Write-Behind + persistent queue (Kafka/WAL)''),
         PyStr (lit ''  '' @ [0x2192] @ lit '' Hindari jika durability kritis (financial)''),
         PyStr [],
         PyStr (lit ''Read-after-write consistency diperlukan?''),
         PyStr (lit ''  '' @ [0x2192] @ lit '' Write-Through (accept write latency)'')]),
      (''type'', PyStr (lit ''bullet''))],
    PyDict
     [(''title'', PyStr (lit ''REKOMENDASI LAPANGAN'')),
      (''items'', PyList
        [PyStr (lit ''Cache-Aside + TTL Jitter adalah default '' @
            lit ''pragmatis untuk read-heavy API.''),
         PyStr (lit ''Singleflight wajib dipasang pada hot key Go '' @
            lit ''service (intra-proc).''),
         PyStr (lit ''XFetch beta=1.0+ untuk sistem dengan '' @
            lit ''compute cost variabel (DB query lambat).''),
         PyStr (lit ''SWR ideal untuk API yang tahan terhadap '' @ lit ''data 30-60s lama.''),
         PyStr (lit ''Write-Behind hanya untuk non-critical '' @
            lit ''writes (telemetry, analytics).''),
         PyStr (lit ''Gunakan Write-Through untuk '' @ lit ''financial/audit-sensitive data.'')]),
      (''type'', PyStr (lit ''bullet''))],
    PyDict
     [(''title'', PyStr (lit ''PRODUCTION UPGRADE PATH'')),
      (''items'', PyList
        [PyStr (lit ''In-memory lab '' @ [0x2192] @ lit '' Redis/Memcached distributed cache''),
         PyStr (lit ''MockDB queryCount '' @ [0x2192] @ lit '' Prometheus counter/histogram''),
         PyStr (lit ''singleflight intra-proc '' @ [0x2192] @
            lit '' Redis SET NX PX distributed lock''),
         PyStr (lit ''select-default queue '' @ [0x2192] @ lit '' Kafka persistent queue + ack'')]),
      (''type'', PyStr (lit ''bullet''))]]\<close>

definition lab37_slide_23 :: pycall where [lab37_slides]:
  \<open>lab37_slide_23 =
   \<lparr>posargs = [],
  kwargs =
   [(''categories'', PyList
      [PyStr (lit ''ADOPSI''),
       PyStr (lit ''REKOMENDASI'')]),
    (''title'', PyStr (lit ''Panduan Adopsi & Rekomendasi Lapangan'')),
    (''subtitle'', PyStr (lit ''Decision tree, kapan pakai Cache-Aside, '' @ lit ''Write-Behind, SF, SWR.'')),
    (''content_items'', lab37_items_23),
    (''narrative'', PyStr (lit ''Panduan adopsi menetapkan pohon keputusan '' @
        lit ''praktis untuk mengimplementasikan strategi '' @
        lit ''cache di lingkungan produksi. Untuk '' @
        lit ''sebagian besar API read-heavy, Cache-Aside '' @
        lit ''yang dipadukan dengan TTL Jitter adalah '' @
        lit ''pilihan default terbaik. Ketika beban lalu '' @
        lit ''lintas tinggi memicu stampede pada kunci '' @
        lit ''panas, pasang Singleflight untuk layanan '' @
        lit ''monolitik atau kunci terdistribusi untuk '' @
        lit ''arsitektur multi-pod. Terapkan SWR jika '' @
        lit ''sistem menoleransi data usang demi latensi '' @
        lit ''sub-milidetik, dan gunakan Write-Behind '' @
        lit ''hanya jika kehilangan data non-kritis dapat '' @ lit ''diterima.'')),
    (''narrative_en'', PyStr (lit ''Adoption guidelines provide a decision tree '' @
        lit ''mapping workload characteristics to caching '' @
        lit ''strategies. Cache-Aside with Jitter serves '' @
        lit ''as the pragmatic baseline, Singleflight '' @
        lit ''guards hot keys, SWR satisfies ultra-low '' @
        lit ''latency requirements, and Write-Behind '' @
        lit ''suits non-critical high-throughput '' @ lit ''ingestion pipelines.'')),
    (''mental_model'', PyStr (lit ''Choose invalidation strategy by matching '' @
        lit ''workload profile to tolerance for staleness '' @ lit ''and durability.'')),
    (''source_path'', PyStr (lit ''labs/37-cache-invalidation-strategies/conten'' @ lit ''t/02-master-draft.md'')),
    (''slide_num'', PyStr (lit ''23 / 24''))]\<rparr>\<close>

definition lab37_items_24 :: pyval where [lab37_contents]:
  \<open>lab37_items_24 =
   PyList
   [PyDict
     [(''title'', PyStr (lit ''MODUL LAB'')),
      (''items'', PyList
        [PyStr (lit ''internal/cache/store.go '' @ [0x2022] @ lit '' internal/cache/repo.go''),
         PyStr (lit ''internal/cache/patterns.go '' @ [0x2022] @ lit '' stampede.go''),
         PyStr (lit ''tests/cache_test.go '' @ [0x2022] @ lit '' cmd/demo/main.go '' @
            [0x2022] @ lit '' README.md'')])],
    PyDict
     [(''title'', PyStr (lit ''VERIFIKASI & STATUS'')),
      (''items'', PyList
        [PyStr (lit ''Sumber: commit '' @ str_prefix 8 lab37_COMMIT_SHA),
         PyStr (lit ''Test passing dan diverifikasi (Race-Clean '' @ lit ''Go 1.22).''),
         PyStr (lit ''Invarian terbukti: 20 goroutine naive '' @ [0x2192] @
            lit '' 20 DB queries; dengan SingleFlight '' @ [0x2192] @ lit '' 1 DB query.'')]),
      (''type'', PyStr (lit ''bullet''))],
    PyDict
     [(''title'', PyStr (lit ''TAKEAWAYS'')),
      (''items'', PyList
        [PyStr (lit ''Cache-aside adalah default pragmatis; '' @ lit ''urutan write'' @
            [0x2192] @ lit ''invalidate kritis.''),
         PyStr (lit ''Write-through memberi read-after-write '' @
            lit ''sinkron; write-behind mengorbankan '' @ lit ''durability.''),
         PyStr (lit ''Singleflight + XFetch + SWR + Jitter '' @
            lit ''membentukkan defense-in-depth terhadap '' @ lit ''stampede.'')]),
      (''type'', PyStr (lit ''bullet''))]]\<close>

definition lab37_slide_24 :: pycall where [lab37_slides]:
  \<open>lab37_slide_24 =
   \<lparr>posargs = [],
  kwargs =
   [(''categories'', PyList
      [PyStr (lit ''CLOSING'')]),
    (''title'', PyStr (lit ''Cache invalidation: di mana performance '' @ lit ''bertemu kebenaran data.'')),
    (''subtitle'', PyStr []),
    (''content_items'', lab37_items_24),
    (''mental_model'', PyStr (lit ''No cache is perfect'' @ [0x2014] @
        lit ''combine lazy, coalesced, and probabilistic '' @
        lit ''refresh for resilience.'')),
    (''source_path'', PyStr lab37_REPO_URL),
    (''slide_num'', PyStr (lit ''24 / 24''))]\<rparr>\<close>

definition lab37_calls :: "pycall list" where
  "lab37_calls =
    [lab37_slide_01, lab37_slide_02, lab37_slide_03, lab37_slide_04, lab37_slide_05,
     lab37_slide_06, lab37_slide_07, lab37_slide_08, lab37_slide_09, lab37_slide_10,
     lab37_slide_11, lab37_slide_12, lab37_slide_13, lab37_slide_14, lab37_slide_15,
     lab37_slide_16, lab37_slide_17, lab37_slide_18, lab37_slide_19, lab37_slide_20,
     lab37_slide_21, lab37_slide_22, lab37_slide_23, lab37_slide_24]"

definition lab37_deck :: deck where
  "lab37_deck =
    \<lparr>add_slide = lab37_add_slide, lab_no = lab37_LAB_NO, title_id = lab37_TITLE_ID, calls = lab37_calls\<rparr>"

section \<open>Checks of the calls\<close>

lemma lab37_shapes:
  "\<forall>c \<in> set lab37_calls. shape_of c \<in> set
    [(0, [''categories'', ''title'', ''subtitle'', ''content_items'', ''mental_model'',
      ''source_path'', ''slide_num'']),
     (0, [''categories'', ''title'', ''subtitle'', ''content_items'', ''narrative'',
      ''narrative_en'', ''mental_model'', ''source_path'', ''slide_num''])]"
  by (simp only: lab37_calls_def lab37_slides shape_eval cong: pyval_opaque)

lemma lab37_calls_ok: "\<forall>c \<in> set lab37_calls. call_ok sig_plain c"
  by (rule calls_ok_by_shapes [OF lab37_shapes])
    (simp add: shape_ok_def param_names_def signature_defs core_params_def)

lemma lab37_labels: "map (\<lambda>c. value_of sig_plain c ''slide_num'') lab37_calls = labels_24"
  by (simp only: lab37_calls_def lab37_slides keyword_eval labels_24_eval cong: pyval_opaque)

lemma lab37_contents_of:
  "map (\<lambda>c. value_of sig_plain c ''content_items'') lab37_calls =
    [lab37_items_01, lab37_items_02, lab37_items_03, lab37_items_04, lab37_items_05,
     lab37_items_06, lab37_items_07, lab37_items_08, lab37_items_09, lab37_items_10,
     lab37_items_11, lab37_items_12, lab37_items_13, lab37_items_14, lab37_items_15,
     lab37_items_16, lab37_items_17, lab37_items_18, lab37_items_19, lab37_items_20,
     lab37_items_21, lab37_items_22, lab37_items_23, lab37_items_24]"
  by (simp only: lab37_calls_def lab37_slides keyword_eval cong: pyval_opaque)

lemma lab37_items: "item_defects sig_plain lab37_calls = [(24, 1)]"
  by (simp only: item_defects_def lab37_contents_of)
    (simp add: lab37_contents item_eval cong: pystr_opaque)

end
