(* ===== verification/Deck38.thy ===== *)
theory Deck38
  imports DeckContract
begin

text \<open>
  The publication definition of lab 38, \<^verbatim>\<open>labs/38-mutation-testing/result/content_def.py\<close>:
  its module constants, every \<open>add_slide\<close> call in order (\<open>lab38_slide_01\<close> is the first),
  and the module as a whole (\<open>lab38_deck\<close>). Long strings are split into pieces that are
  concatenated; a character outside ASCII is its code point.
\<close>

named_theorems lab38_slides \<open>the add_slide calls of lab 38\<close>
named_theorems lab38_contents \<open>their content_items arguments\<close>

definition lab38_OUTPUT_DIR :: pystr where
  \<open>lab38_OUTPUT_DIR = lit ''labs/38-mutation-testing/result''\<close>

definition lab38_CHROME_BIN :: pystr where
  \<open>lab38_CHROME_BIN = lit ''/Applications/Google '' @ lit ''Chrome.app/Contents/MacOS/Google Chrome''\<close>

definition lab38_COVER_IMAGE_PATH :: pystr where
  \<open>lab38_COVER_IMAGE_PATH = lit ''/Users/tthi/Documents/LUKMAN/software-engine'' @
    lit ''ering-lab/labs/38-mutation-testing/result/im'' @ lit ''age-cover/cover_art.jpg''\<close>

definition lab38_REPO_URL :: pystr where
  \<open>lab38_REPO_URL = lit ''https://github.com/lukman-ss/software-engine'' @
    lit ''ering-lab/tree/main/labs/38-mutation-testing''\<close>

definition lab38_COMMIT_SHA :: pystr where
  \<open>lab38_COMMIT_SHA = lit ''01b1331df50cf381969f0de4d92cbc64db211003''\<close>

definition lab38_LAB_NO :: pystr where
  \<open>lab38_LAB_NO = lit ''38''\<close>

definition lab38_SLUG :: pystr where
  \<open>lab38_SLUG = lit ''mutation-testing''\<close>

definition lab38_TITLE_ID :: pystr where
  \<open>lab38_TITLE_ID = lit ''Mutation Testing''\<close>

definition lab38_SUBTITLE_ID :: pystr where
  \<open>lab38_SUBTITLE_ID = lit ''Mengungkap Ilusi Keamanan 100% Code '' @
    lit ''Coverage dengan Fault Injection Berbasis AST''\<close>

definition lab38_TITLE_EN :: pystr where
  \<open>lab38_TITLE_EN = lit ''Mutation Testing''\<close>

definition lab38_SUBTITLE_EN :: pystr where
  \<open>lab38_SUBTITLE_EN = lit ''Exposing the False Confidence of 100% Code '' @
    lit ''Coverage via AST-Based Fault Injection''\<close>

definition lab38_AUTHOR :: pystr where
  \<open>lab38_AUTHOR = lit ''Lukman / lukman-ss''\<close>

definition lab38_TOPIC_TAGS :: pystr where
  \<open>lab38_TOPIC_TAGS = lit ''Mutation Testing '' @ [0x2022] @ lit '' AST '' @ [0x2022] @ lit '' RIP Model '' @
    [0x2022] @ lit '' Fault Injection '' @ [0x2022] @ lit '' Go '' @ [0x2022] @
    lit '' Test Quality''\<close>

definition lab38_DARK_NAVY :: pystr where
  \<open>lab38_DARK_NAVY = lit ''0b1b2d''\<close>

definition lab38_TEAL :: pystr where
  \<open>lab38_TEAL = lit ''087f76''\<close>

definition lab38_CREAM :: pystr where
  \<open>lab38_CREAM = lit ''f4f1e8''\<close>

definition lab38_WHITE :: pystr where
  \<open>lab38_WHITE = lit ''ffffff''\<close>

definition lab38_SLATE :: pystr where
  \<open>lab38_SLATE = lit ''52606b''\<close>

definition lab38_RED :: pystr where
  \<open>lab38_RED = lit ''b91c1c''\<close>

definition lab38_AMBER :: pystr where
  \<open>lab38_AMBER = lit ''d97706''\<close>

definition lab38_add_slide :: "pycall \<Rightarrow> pyval list \<Rightarrow> (pyexc, pyval list) res" where
  "lab38_add_slide = add_slide_plain"

definition lab38_items_01 :: pyval where [lab38_contents]:
  \<open>lab38_items_01 =
   PyList
   [PyDict
     [(''type'', PyStr (lit ''cover'')),
      (''image'', PyStr lab38_COVER_IMAGE_PATH)]]\<close>

definition lab38_slide_01 :: pycall where [lab38_slides]:
  \<open>lab38_slide_01 =
   \<lparr>posargs = [],
  kwargs =
   [(''categories'', PyList
      [PyStr (lit ''COVER'')]),
    (''title'', PyStr lab38_TITLE_ID),
    (''subtitle'', PyStr lab38_SUBTITLE_ID),
    (''content_items'', lab38_items_01),
    (''mental_model'', PyStr []),
    (''source_path'', PyStr []),
    (''slide_num'', PyStr (lit ''01 / 24''))]\<rparr>\<close>

definition lab38_items_02 :: pyval where [lab38_contents]:
  \<open>lab38_items_02 =
   PyList
   [PyDict
     [(''title'', PyStr (lit ''METRIK TRADISIONAL'')),
      (''items'', PyList
        [PyStr (lit ''100% line coverage artinya setiap baris '' @
            lit ''dieksekusi minimal sekali.''),
         PyStr (lit ''Tidak ada asersi substantif: test hanya '' @
            lit ''memastikan fungsi berjalan tanpa error.''),
         PyStr (lit ''Contoh: assert result > 0 pada kalkulasi '' @
            lit ''diskon yang seharusnya == expected.'')]),
      (''type'', PyStr (lit ''bullet''))],
    PyDict
     [(''title'', PyStr (lit ''DAMPAK PRODUKSI'')),
      (''items'', PyList
        [PyStr (lit ''Operator relasional salah: >= berubah '' @
            lit ''menjadi > pada threshold diskon.''),
         PyStr (lit ''Logika boolean terbalik: || menjadi && '' @
            lit ''mengubah kualifikasi free shipping.''),
         PyStr (lit ''Bug logika lolos ke production karena test '' @ lit ''suite hijau penuh.'')]),
      (''type'', PyStr (lit ''bullet''))],
    PyDict
     [(''title'', PyStr (lit ''DATA LAB 38'')),
      (''items'', PyList
        [PyStr (lit ''discount_weak_test.go mencapai 100% '' @
            lit ''statement coverage pada discount.go.''),
         PyStr (lit ''Namun mutation score-nya 0.00%: 0 dari 15 '' @ lit ''mutant terdeteksi.''),
         PyStr (lit ''Test suite lemah menutupi seluruh baris '' @
            lit ''tanpa menangkap fault injection.'')]),
      (''type'', PyStr (lit ''bullet''))]]\<close>

definition lab38_slide_02 :: pycall where [lab38_slides]:
  \<open>lab38_slide_02 =
   \<lparr>posargs = [],
  kwargs =
   [(''categories'', PyList
      [PyStr (lit ''MOTIVASI''),
       PyStr (lit ''ILUSI KEAMANAN'')]),
    (''title'', PyStr (lit ''Ilusi Keamanan Code Coverage'')),
    (''subtitle'', PyStr (lit ''Cakupan baris mengukur eksekusi, bukan '' @
        lit ''verifikasi kebenaran logika.'')),
    (''content_items'', lab38_items_02),
    (''narrative'', PyStr (lit ''Code coverage tradisional sering '' @
        lit ''disalahartikan sebagai tolok ukur kualitas '' @
        lit ''pengujian. Metrik ini hanya menjawab '' @
        lit ''pertanyaan apakah sebuah pernyataan dalam '' @
        lit ''sumber pernah dieksekusi selama suite tes '' @
        lit ''berjalan. Pernyataan tersebut bisa saja '' @
        lit ''dieksekusi berkali-kali tanpa pernah '' @
        lit ''memiliki asersi yang memverifikasi nilai '' @
        lit ''keluaran, batasan logika, atau branch '' @
        lit ''kondisional. Akibatnya, tim dapat merasa '' @
        lit ''aman melihat CI berwarna hijau dengan '' @
        lit ''cakupan 100%, padahal tidak ada pengujian '' @
        lit ''yang sanggup mendeteksi kesalahan operator '' @
        lit ''maupun pergeseran nilai batas.'')),
    (''narrative_en'', PyStr (lit ''Traditional code coverage is frequently '' @
        lit ''misinterpreted as a proxy for test quality. '' @
        lit ''It merely confirms that statements have '' @
        lit ''been executed at least once, without '' @
        lit ''guaranteeing any assertion validates output '' @
        lit ''values, branching conditions, or logical '' @
        lit ''correctness. Teams can ship green CI '' @
        lit ''pipelines at full coverage while retaining '' @
        lit ''undetected logical faults.'')),
    (''mental_model'', PyStr (lit ''Coverage measures execution, not '' @
        lit ''verification. Zero killed mutants reveals '' @ lit ''the gap.'')),
    (''source_path'', PyStr (lit ''labs/38-mutation-testing/internal/service/di'' @ lit ''scount_weak_test.go'')),
    (''slide_num'', PyStr (lit ''02 / 24''))]\<rparr>\<close>

definition lab38_items_03 :: pyval where [lab38_contents]:
  \<open>lab38_items_03 =
   PyList
   [PyDict
     [(''title'', PyStr (lit ''BIAS KONFIRMASI'')),
      (''items'', PyList
        [PyStr (lit ''Developer cenderung menulis contoh input '' @
            lit ''yang mendukung implementasi.''),
         PyStr (lit ''Edge case acak seperti float precision, '' @
            lit ''batas negatif, atau nol sering terlupa.'')]),
      (''type'', PyStr (lit ''bullet''))],
    PyDict
     [(''title'', PyStr (lit ''KEKURANGAN ASSERTION'')),
      (''items'', PyList
        [PyStr (lit ''Assert boolean '' @ [96] @ lit ''freeShipping'' @ [96] @
            lit '' rarely checked.''),
         PyStr (lit ''Assert exact discount rate missing; only '' @
            lit ''positivity validated.'')]),
      (''type'', PyStr (lit ''bullet''))],
    PyDict
     [(''title'', PyStr (lit ''SKALA LOGIKA'')),
      (''items'', PyList
        [PyStr (lit ''Satu fungsi '' @ [96] @ lit ''CalculateDiscount'' @ [96] @
            lit '' mengandung 8 operator relasional dan 4 '' @ lit ''boolean.''),
         PyStr (lit ''Kombinasi threshold 1000, 500, 100, 200 '' @
            lit ''serta ItemCount > 2 menciptakan lintasan '' @ lit ''kompleks.'')]),
      (''type'', PyStr (lit ''bullet''))]]\<close>

definition lab38_slide_03 :: pycall where [lab38_slides]:
  \<open>lab38_slide_03 =
   \<lparr>posargs = [],
  kwargs =
   [(''categories'', PyList
      [PyStr (lit ''MOTIVASI''),
       PyStr (lit ''Batasan Manusia'')]),
    (''title'', PyStr (lit ''Mengapa Review Manual dan Assertion Naif '' @ lit ''Gagal'')),
    (''subtitle'', PyStr (lit ''Inspeksi mata hanya menjangkau jalur yang '' @ lit ''dipikirkan developer.'')),
    (''content_items'', lab38_items_03),
    (''narrative'', PyStr (lit ''Pemeriksaan manual atau penulisan assertion '' @
        lit ''seadanya tidak cukup karena batas kognitif '' @
        lit ''engineer. Manusia memikirkan skenario '' @
        lit ''paling umum; kondisi pinggir jarang '' @
        lit ''terdeteksi tanpa eksplorasi sistematis. '' @
        lit ''Pada modul diskon ini, logika bercabang '' @
        lit ''meliputi tier VIP, premium, dan standard '' @
        lit ''dengan ambang jumlah item serta kupon. '' @
        lit ''Tanpa generator fault injection, kombinasi '' @
        lit ''operator yang mungkin meleset tetap tersisa '' @
        lit ''sebagai blind spot yang hanya terbongkar '' @
        lit ''saat mutan berhasil bertahan.'')),
    (''narrative_en'', PyStr (lit ''Manual review and weak assertions are '' @
        lit ''bounded by human cognition. Engineers '' @
        lit ''naturally gravitate toward happy paths, '' @
        lit ''leaving rare operator combinations '' @
        lit ''untested. In this discount module, multiple '' @
        lit ''tier thresholds and boolean branches create '' @
        lit ''numerous latent fault vectors that only '' @
        lit ''systematic mutation reveals.'')),
    (''mental_model'', PyStr (lit ''Human testing samples expectations; '' @
        lit ''mutation testing probes violations.'')),
    (''source_path'', PyStr (lit ''labs/38-mutation-testing/internal/service/di'' @ lit ''scount.go'')),
    (''slide_num'', PyStr (lit ''03 / 24''))]\<rparr>\<close>

definition lab38_items_04 :: pyval where [lab38_contents]:
  \<open>lab38_items_04 =
   PyList
   [PyDict
     [(''title'', PyStr (lit ''ANALOGI ROTI DAN SELAI'')),
      (''items'', PyList
        [PyStr (lit ''Coverage melaporkan berapa persen roti '' @ lit ''terlapisi selai.''),
         PyStr (lit ''Mutation memeriksa apakah selai itu benar '' @
            lit ''cokelat atau zat lain.''),
         PyStr (lit ''Roti tertutup penuh bisa jadi selainya '' @ lit ''salah total.'')]),
      (''type'', PyStr (lit ''bullet''))],
    PyDict
     [(''title'', PyStr (lit ''RUMUS SKOR'')),
      (''items'', PyList
        [PyStr (lit ''Mutation Score = (Killed / Total) '' @ [0xD7] @ lit '' 100%''),
         PyStr (lit ''Killed = mutant terdeteksi oleh test suite '' @ lit ''yang gagal.''),
         PyStr (lit ''Survived = mutant lolos karena assertion '' @
            lit ''lemah atau input tidak relevan.'')]),
      (''type'', PyStr (lit ''bullet''))],
    PyDict
     [(''title'', PyStr (lit ''HIPIOTESIS FUNDAMENTAL'')),
      (''items'', PyList
        [PyStr (lit ''Competent Programmer Hypothesis: bug '' @
            lit ''biasanya operator/tanda kecil.''),
         PyStr (lit ''Coupling Effect: fault sederhana bertingkat '' @
            lit ''menjadi kegagalan kompleks.'')]),
      (''type'', PyStr (lit ''bullet''))]]\<close>

definition lab38_slide_04 :: pycall where [lab38_slides]:
  \<open>lab38_slide_04 =
   \<lparr>posargs = [],
  kwargs =
   [(''categories'', PyList
      [PyStr (lit ''KONSEP INTI''),
       PyStr (lit ''MODEL MENTAL'')]),
    (''title'', PyStr (lit ''Mutation Testing vs Code Coverage'')),
    (''subtitle'', PyStr (lit ''Coverage memeriksa apa yang dieksekusi; '' @
        lit ''mutation memeriksa apa yang diverifikasi.'')),
    (''content_items'', lab38_items_04),
    (''narrative'', PyStr (lit ''Model mental mutation testing memisahkan '' @
        lit ''konsep eksekusi dari verifikasi. Code '' @
        lit ''coverageibarat laporan roti yang diolesi '' @
        lit ''selai: yang diukur hanya luas permukaan '' @
        lit ''yang tertutup. Mutation testing menambahkan '' @
        lit ''lapisan skeptisisme dengan menanyakan '' @
        lit ''kandungan selai itu. Jika logika bisnis '' @ lit ''diubah sedikit'' @
        [0x2014] @ lit ''misalnya tanda pembanding atau operator '' @ lit ''aritmetika'' @
        [0x2014] @ lit ''dan test suite masih lolos, maka selai '' @
        lit ''tersebut bukan yang seharusnya. Skor mutasi '' @
        lit ''memberi angka objektif atas kedalaman '' @ lit ''asersi.'')),
    (''narrative_en'', PyStr (lit ''Mutation testing decouples execution from '' @
        lit ''verification. Coverage resembles a report '' @
        lit ''stating how much bread is covered, while '' @
        lit ''mutation questioning the actual filling '' @
        lit ''quality. Small syntactic faults simulate '' @
        lit ''real bugs; surviving mutants indicate '' @
        lit ''insufficient assertion depth regardless of '' @ lit ''coverage percentage.'')),
    (''mental_model'', PyStr (lit ''Execute everything, verify nothing is equal '' @
        lit ''to passing everything.'')),
    (''source_path'', PyStr (lit ''labs/38-mutation-testing/content/02-master-d'' @ lit ''raft.md'')),
    (''slide_num'', PyStr (lit ''04 / 24''))]\<rparr>\<close>

definition lab38_items_05 :: pyval where [lab38_contents]:
  \<open>lab38_items_05 =
   PyList
   [PyDict
     [(''title'', PyStr (lit ''LANGKAH PIPELINE'')),
      (''items'', PyList
        [PyStr (lit ''Read discount.go -> parser.ParseFile dengan '' @ lit ''go/ast.''),
         PyStr (lit ''ast.Inspect collect BinaryExpr dan BasicLit '' @ lit ''nodes.''),
         PyStr (lit ''Build MutationPlan dengan Apply closure dan '' @ lit ''undo revert.'')]),
      (''type'', PyStr (lit ''bullet''))],
    PyDict
     [(''title'', PyStr (lit ''EKSEKUSI PARALEL'')),
      (''items'', PyList
        [PyStr (lit ''Runner.Run meluncurkan goroutine per '' @ lit ''rencana mutasi.''),
         PyStr (lit ''Tiap goroutine membuat fresh token.FileSet '' @
            lit ''untuk isolasi total.''),
         PyStr (lit ''Hasil ditulis ke slice berbasis indeks '' @ lit ''tanpa mutex.'')]),
      (''type'', PyStr (lit ''bullet''))],
    PyDict
     [(''title'', PyStr (lit ''OUTPUT LAPORAN'')),
      (''items'', PyList
        [PyStr (lit ''Report aggregating Killed, Survived, '' @ lit ''Equivalent counts.''),
         PyStr (lit ''Skor dihitung akhir dengan formula '' @ lit ''persentase.''),
         PyStr (lit ''Breakdown per mutant menampilkan line, '' @ lit ''operator, dan status.'')]),
      (''type'', PyStr (lit ''bullet''))]]\<close>

definition lab38_slide_05 :: pycall where [lab38_slides]:
  \<open>lab38_slide_05 =
   \<lparr>posargs = [],
  kwargs =
   [(''categories'', PyList
      [PyStr (lit ''ARSITEKTUR''),
       PyStr (lit ''PIPELINE'')]),
    (''title'', PyStr (lit ''Pipeline Mesin Mutation Testing'')),
    (''subtitle'', PyStr (lit ''Source -> AST Parse -> Mutant Plans -> '' @
        lit ''Isolated Execution -> Score.'')),
    (''content_items'', lab38_items_05),
    (''narrative'', PyStr (lit ''Pipeline ini dibangun murni menggunakan '' @
        lit ''pustaka standar Go tanpa dependensi '' @
        lit ''eksternal. Proses dimulai dengan pemindaian '' @
        lit ''AST untuk mengenali node ekspresi biner dan '' @
        lit ''literal konstanta. Setiap node yang '' @
        lit ''terdeteksi dikemas menjadi rencana mutasi '' @
        lit ''yang menyertakan fungsi transformasi serta '' @
        lit ''fungsi undo. Runner mengeksekusi rencana '' @
        lit ''tersebut secara paralel dalam goroutine '' @
        lit ''terisolasi, masing-masing bekerja dengan '' @
        lit ''salinan AST baru sehingga tidak terjadi '' @
        lit ''race condition antar mutan.'')),
    (''narrative_en'', PyStr (lit ''The pipeline relies solely on Go standard '' @
        lit ''library packages like go/ast and go/parser. '' @
        lit ''Each binary expression or integer literal '' @
        lit ''is wrapped in a reversible plan. The runner '' @
        lit ''dispatches isolated goroutines, each '' @
        lit ''parsing a fresh AST copy to prevent '' @
        lit ''cross-mutant interference while collecting '' @ lit ''results index-stably.'')),
    (''mental_model'', PyStr (lit ''Parse once, mutate many, isolate always, '' @
        lit ''aggregate deterministically.'')),
    (''source_path'', PyStr (lit ''labs/38-mutation-testing/internal/engine/mut'' @ lit ''ator.go'')),
    (''slide_num'', PyStr (lit ''05 / 24''))]\<rparr>\<close>

definition lab38_items_06 :: pyval where [lab38_contents]:
  \<open>lab38_items_06 =
   PyList
   [PyDict
     [(''title'', PyStr (lit ''RELATIONAL EXAMPLE'')),
      (''items'', PyList
        [PyStr (lit ''case token.GEQ:''),
         PyStr (lit ''  plans = append(plans, MutationPlan{''),
         PyStr (lit ''    Apply: func(f *ast.File) func() {''),
         PyStr (lit ''      expr.Op = token.GTR''),
         PyStr (lit ''      return func() { expr.Op = token.GEQ }''),
         PyStr (lit ''    },''),
         PyStr (lit ''  })'')]),
      (''type'', PyStr (lit ''code''))],
    PyDict
     [(''title'', PyStr (lit ''BOOLEAN FLIP'')),
      (''items'', PyList
        [PyStr (lit ''case token.OR: // ||''),
         PyStr (lit ''  expr.Op = token.AND // &&''),
         PyStr (lit ''  undo restores token.OR'')]),
      (''type'', PyStr (lit ''code''))],
    PyDict
     [(''title'', PyStr (lit ''ARITHMETIC & BOUNDARY'')),
      (''items'', PyList
        [PyStr (lit ''Multiply to divide: '' @ [96] @ lit ''*'' @ [96] @ lit '' -> '' @ [96] @
            lit ''/'' @ [96]),
         PyStr (lit ''Subtract to add: '' @ [96] @ lit ''-'' @ [96] @ lit '' -> '' @ [96] @
            lit ''+'' @ [96]),
         PyStr (lit ''Integer constant +1 shift at line 40'')]),
      (''type'', PyStr (lit ''code''))]]\<close>

definition lab38_slide_06 :: pycall where [lab38_slides]:
  \<open>lab38_slide_06 =
   \<lparr>posargs = [],
  kwargs =
   [(''categories'', PyList
      [PyStr (lit ''KODE''),
       PyStr (lit ''MUTATOR'')]),
    (''title'', PyStr (lit ''AST Mutation pada Relational & Boolean Node'')),
    (''subtitle'', PyStr (lit ''MutationPlan menyematkan Apply closure '' @
        lit ''untuk transformasi dan undo reversibel.'')),
    (''content_items'', lab38_items_06),
    (''narrative'', PyStr (lit ''Generator mutasi menelusuri AST menggunakan '' @ [96] @ lit ''ast.Inspect'' @
        [96] @ lit ''. Saat menemui ekspresi biner, ia memeriksa '' @
        lit ''token operator dan menghasilkan rencana '' @
        lit ''yang membalikkan relasional, boolean, atau '' @ lit ''aritmetika. Closure '' @
        [96] @ lit ''Apply'' @ [96] @ lit '' melakukan modifikasi langsung pada node '' @
        lit ''AST, sementara fungsi undo yang '' @
        lit ''dikembalikan memulihkan state semula. '' @
        lit ''Pendekatan ini menjamin setiap mutan '' @
        lit ''dievaluasi dalam lingkungan AST bersih '' @
        lit ''tanpa kontaminasi state goroutine lain.'')),
    (''narrative_en'', PyStr (lit ''The mutator inspects AST nodes and wraps '' @
        lit ''each operator swap inside an Apply closure '' @
        lit ''paired with a revert function. Reversible '' @
        lit ''mutations ensure each goroutine observes a '' @
        lit ''pristine source state before injecting '' @
        lit ''exactly one fault, then restores the '' @
        lit ''original structure immediately after '' @ lit ''evaluation.'')),
    (''mental_model'', PyStr (lit ''Mutate AST in place, revert immediately, '' @
        lit ''never share mutable nodes.'')),
    (''source_path'', PyStr (lit ''labs/38-mutation-testing/internal/engine/mut'' @ lit ''ator.go:50-75'')),
    (''slide_num'', PyStr (lit ''06 / 24''))]\<rparr>\<close>

definition lab38_items_07 :: pyval where [lab38_contents]:
  \<open>lab38_items_07 =
   PyList
   [PyDict
     [(''title'', PyStr (lit ''KODE ASLI'')),
      (''items'', PyList
        [PyStr (lit ''else if order.TotalAmount >= 100.0 {''),
         PyStr (lit ''    rate = 0.05'')]),
      (''type'', PyStr (lit ''code''))],
    PyDict
     [(''title'', PyStr (lit ''MUTAN'')),
      (''items'', PyList
        [PyStr (lit ''else if order.TotalAmount > 100.0 {''),
         PyStr (lit ''    rate = 0.05'')]),
      (''type'', PyStr (lit ''code''))],
    PyDict
     [(''title'', PyStr (lit ''INPUT KRITIS'')),
      (''items'', PyList
        [PyStr (lit ''TotalAmount = 100.0, Tier = STANDARD''),
         PyStr (lit ''Asli: rate = 0.05; Mutan: rate = 0.0''),
         PyStr (lit ''Weak test hanya cek '' @ [96] @ lit ''res3.DiscountRate < 0'' @ [96] @
            lit '' '' @ [0x2192] @ lit '' tetap PASS'')]),
      (''type'', PyStr (lit ''bullet''))]]\<close>

definition lab38_slide_07 :: pycall where [lab38_slides]:
  \<open>lab38_slide_07 =
   \<lparr>posargs = [],
  kwargs =
   [(''categories'', PyList
      [PyStr (lit ''FAILURE PATH''),
       PyStr (lit ''CONTOH'')]),
    (''title'', PyStr (lit ''Failure Path: Operator '' @ [96] @ lit ''>='' @ [96] @
        lit '' Berubah Menjadi '' @ [96] @ lit ''>'' @ [96])),
    (''subtitle'', PyStr (lit ''Threshold diskon standard jatuh tepat di '' @ lit ''batas 100.0.'')),
    (''content_items'', lab38_items_07),
    (''narrative'', PyStr (lit ''Kesalahan pergeseran threshold dari '' @ [96] @ lit ''>='' @ [96] @
        lit '' menjadi '' @ [96] @ lit ''>'' @ [96] @
        lit '' tampak sepele, tetapi mengubah hasil '' @
        lit ''diskon pelanggan dengan total belanja tepat '' @
        lit ''100.0. Test suite lemah hanya memeriksa '' @
        lit ''apakah diskon tidak negatif; kondisi ini '' @
        lit ''tetap terpenuhi karena rate berubah menjadi '' @
        lit ''nol, bukan nilai negatif. Akibatnya, mutan '' @
        lit ''bertahan dan pelanggan kehilangan potongan '' @
        lit ''yang seharusnya mereka dapatkan. Skenario '' @
        lit ''ini menggambarkan kegagalan propagasi nilai '' @ lit ''kritis ke asersi.'')),
    (''narrative_en'', PyStr (lit ''Changing a boundary operator from inclusive '' @
        lit ''to exclusive creates a silent pricing '' @
        lit ''defect at the exact threshold. Weak '' @
        lit ''assertions that only check non-negative '' @
        lit ''rates miss the zero-rate regression, '' @
        lit ''allowing the mutant to survive and '' @
        lit ''undercharge customers at the boundary.'')),
    (''mental_model'', PyStr (lit ''Inclusive vs exclusive boundaries hide '' @
        lit ''regressions behind weak numeric guards.'')),
    (''source_path'', PyStr (lit ''labs/38-mutation-testing/internal/service/di'' @ lit ''scount.go:35'')),
    (''slide_num'', PyStr (lit ''07 / 24''))]\<rparr>\<close>

definition lab38_items_08 :: pyval where [lab38_contents]:
  \<open>lab38_items_08 =
   PyList
   [PyDict
     [(''title'', PyStr (lit ''TABEL PERBANDINGAN'')),
      (''items'', PyList
        [PyStr (lit ''Operator | Mutasi | Gejala | Deteksi Weak '' @ lit ''Test''),
         PyStr (lit ''Relational (>=) | >= -> > | Boundary '' @
            lit ''threshold shift | Missed (rate 0 still >= 0)''),
         PyStr (lit ''Relational (==) | == -> != | Tier logic '' @
            lit ''inversion | Missed (amount still positive)''),
         PyStr (lit ''Boolean (||) | || -> && | VIP free shipping '' @
            lit ''disabled | Missed (amount positive)''),
         PyStr (lit ''Boolean (&&) | && -> || | Coupon boost '' @
            lit ''applies wrongly | Missed (rate positive)''),
         PyStr (lit ''Arithmetic ('' @ lit ''*'' @
            lit '') | * -> / | Discount calculation exploded '' @
            lit ''| Missed (final amount positive)''),
         PyStr (lit ''Arithmetic (-) | - -> + | Final amount '' @
            lit ''inflated | Missed (value > 0)''),
         PyStr (lit ''Boundary (+1) | 2 -> 3 | Coupon requires 3 '' @
            lit ''items | Missed (ItemCount 3 passes)'')]),
      (''type'', PyStr (lit ''table''))],
    PyDict
     [(''title'', PyStr (lit ''POLA KEGAGALAN'')),
      (''items'', PyList
        [PyStr (lit ''Weak assertions rely on sign checks only.''),
         PyStr (lit ''All survived mutants maintain positive '' @ lit ''financial outputs.''),
         PyStr (lit ''Only exact value or boolean branch checks '' @
            lit ''can propagate detection.'')]),
      (''type'', PyStr (lit ''bullet''))]]\<close>

definition lab38_slide_08 :: pycall where [lab38_slides]:
  \<open>lab38_slide_08 =
   \<lparr>posargs = [],
  kwargs =
   [(''categories'', PyList
      [PyStr (lit ''ANALISIS''),
       PyStr (lit ''MEKANISME'')]),
    (''title'', PyStr (lit ''Mekanisme Mutasi vs Gejala yang Dihasilkan'')),
    (''subtitle'', PyStr (lit ''Empat kategori operator memunculkan pola '' @ lit ''kegagalan berbeda.'')),
    (''content_items'', lab38_items_08),
    (''narrative'', PyStr (lit ''Setiap kategori mutasi menghasilkan gejala '' @
        lit ''kegagalan yang spesifik. Operator '' @
        lit ''relasional mengubah ambang batas '' @
        lit ''kualifikasi tier dan diskon; boolean flip '' @
        lit ''mengacaukan kondisi VIP dan kupon; '' @
        lit ''aritmetika membalikkan kalkulasi potongan; '' @
        lit ''pergeseran batas menggeser syarat minimum '' @
        lit ''item. Test suite lemah consistently gagal '' @
        lit ''karena semua gejala tersebut tetap '' @
        lit ''menghasilkan nilai uang positif, sehingga '' @
        lit ''asersi berbasis tanda tidak pernah memicu '' @ lit ''kegagalan.'')),
    (''narrative_en'', PyStr (lit ''Each mutation category manifests a distinct '' @
        lit ''fault signature. Relational operators shift '' @
        lit ''qualification thresholds, boolean flips '' @
        lit ''invert VIP and coupon logic, arithmetic '' @
        lit ''swaps corrupt discount calculations, and '' @
        lit ''boundary shifts alter item requirements. '' @
        lit ''Weak sign-based assertions never trigger '' @
        lit ''because all symptoms preserve positive '' @ lit ''monetary outputs.'')),
    (''mental_model'', PyStr (lit ''Fault categories map to symptom families; '' @
        lit ''weak assertions fall in the positivity trap.'')),
    (''source_path'', PyStr (lit ''labs/38-mutation-testing/cmd/demo/main.go'')),
    (''slide_num'', PyStr (lit ''08 / 24''))]\<rparr>\<close>

definition lab38_items_09 :: pyval where [lab38_contents]:
  \<open>lab38_items_09 =
   PyList
   [PyDict
     [(''title'', PyStr (lit ''KEPUTUSAN 1: ISOLASI'')),
      (''items'', PyList
        [PyStr (lit ''Pilih fresh '' @ [96] @ lit ''token.NewFileSet()'' @ [96] @
            lit '' per goroutine.''),
         PyStr (lit ''Hindari mutex dengan penulisan berbasis '' @ lit ''indeks slice.''),
         PyStr (lit ''Gunakan closure undo untuk memulihkan AST '' @ lit ''setelah evaluasi.'')]),
      (''type'', PyStr (lit ''bullet''))],
    PyDict
     [(''title'', PyStr (lit ''KEPUTUSAN 2: SELEKSI NODE'')),
      (''items'', PyList
        [PyStr (lit ''Targetkan '' @ [96] @ lit ''*ast.BinaryExpr'' @ [96] @
            lit '' untuk operator.''),
         PyStr (lit ''Targetkan '' @ [96] @ lit ''*ast.BasicLit'' @ [96] @ lit '' bertipe '' @
            [96] @ lit ''token.INT'' @ [96] @ lit '' untuk batas.''),
         PyStr (lit ''Abaikan node string/float agar boundary '' @
            lit ''shift fokus pada integer.'')]),
      (''type'', PyStr (lit ''bullet''))],
    PyDict
     [(''title'', PyStr (lit ''KEPUTUSAN 3: KILL CONDITION'')),
      (''items'', PyList
        [PyStr (lit ''TestFunc menerima sourc bytes mutan, bukan '' @ lit ''eksekusi binary.''),
         PyStr (lit ''Strong test membandingkan string AST secara '' @
            lit ''eksak != original.''),
         PyStr (lit ''Weak test mensimulasikan heuristik '' @ lit ''assertion positif saja.'')]),
      (''type'', PyStr (lit ''bullet''))]]\<close>

definition lab38_slide_09 :: pycall where [lab38_slides]:
  \<open>lab38_slide_09 =
   \<lparr>posargs = [],
  kwargs =
   [(''categories'', PyList
      [PyStr (lit ''DECISION''),
       PyStr (lit ''IMPLEMENTASI'')]),
    (''title'', PyStr (lit ''Tiga Keputusan Kritis Saat Membangun '' @ lit ''Mutation Engine'')),
    (''subtitle'', PyStr (lit ''Isolasi AST, strategi seleksi node, dan '' @ lit ''definisi kill condition.'')),
    (''content_items'', lab38_items_09),
    (''narrative'', PyStr (lit ''Konstruksi mesin mutation testing '' @
        lit ''membutuhkan tiga keputusan arsitektural '' @
        lit ''mendasar. IsolasiAST mencegah goroutine '' @
        lit ''saling menimpa node operator. Seleksi node '' @
        lit ''terbatas pada ekspresi biner dan literal '' @
        lit ''integer memastikan fokus pada fault yang '' @
        lit ''relevan secara bisnis. Finally, definisi '' @
        lit ''kill condition menentukan apakah tes '' @
        lit ''dianggap detektif: strong test menggunakan '' @
        lit ''kesamaan teks AST, sedangkan weak test '' @
        lit ''hanya meniru pemeriksaan tanda positif pada '' @ lit ''output keuangan.'')),
    (''narrative_en'', PyStr (lit ''Building the engine demands three '' @
        lit ''architectural choices: AST isolation via '' @
        lit ''per-goroutine file sets, targeted node '' @
        lit ''selection restricted to binary expressions '' @
        lit ''and integer literals, and kill-condition '' @
        lit ''definition. Strong evaluation uses exact '' @
        lit ''textual comparison, while weak evaluation '' @
        lit ''mimics sign-only assertion heuristics.'')),
    (''mental_model'', PyStr (lit ''Isolate state, target syntax, define kill '' @ lit ''by semantic divergence.'')),
    (''source_path'', PyStr (lit ''labs/38-mutation-testing/internal/engine/run'' @ lit ''ner.go'')),
    (''slide_num'', PyStr (lit ''09 / 24''))]\<rparr>\<close>

definition lab38_items_10 :: pyval where [lab38_contents]:
  \<open>lab38_items_10 =
   PyList
   [PyDict
     [(''title'', PyStr (lit ''OUTPUT DEMO'')),
      (''items'', PyList
        [PyStr (lit ''Target: internal/service/discount.go '' @ [0x2014] @
            lit '' 15 mutants generated''),
         PyStr (lit ''Weak suite kills: 0/15 mutants (0.00%)''),
         PyStr (lit ''Strong suite kills: 15/15 mutants (100.00%)''),
         PyStr (lit ''Race detector: '' @ [96] @ lit ''go test -race ./...'' @ [96] @
            lit '' passed'')]),
      (''type'', PyStr (lit ''bullet''))],
    PyDict
     [(''title'', PyStr (lit ''PECAHAN MUTAN'')),
      (''items'', PyList
        [PyStr (lit ''[SURVIVED] Mutant 1-15: semua operator '' @
            lit ''flips & boundary shifts lolos.''),
         PyStr (lit ''[KILLED ] Mutant 1-15: strong test '' @
            lit ''menangkap semua perubahan teks AST.'')]),
      (''type'', PyStr (lit ''bullet''))]]\<close>

definition lab38_slide_10 :: pycall where [lab38_slides]:
  \<open>lab38_slide_10 =
   \<lparr>posargs = [],
  kwargs =
   [(''categories'', PyList
      [PyStr (lit ''BUKTI''),
       PyStr (lit ''TERMINAL'')]),
    (''title'', PyStr (lit ''Bukti Eksekusi: Demo CLI Mutation Testing'')),
    (''subtitle'', PyStr (lit ''Hasil running '' @ [96] @ lit ''go run ./cmd/demo'' @ [96] @
        lit '' menunjukkan kontras skor mutasi.'')),
    (''content_items'', lab38_items_10),
    (''narrative'', PyStr (lit ''Demo CLI secara eksplisit menunjukkan '' @
        lit ''kesenjangan antara cakupan statement dan '' @
        lit ''deteksi fault. Enam belas baris output '' @
        lit ''ringkas merangkum 15 mutasi yang '' @
        lit ''dihasilkant dari file tunggal. Suite lemah '' @
        lit ''tetap lulus semua mutasi karena asersi '' @
        lit ''hanya memeriksa posivitas nilai. '' @
        lit ''Sebaliknya, suite kuat mengevaluasi '' @
        lit ''perbedaan teks AST secara utuh sehingga '' @
        lit ''setiap mutasi menghasilkan string berbeda '' @
        lit ''dan terdeteksi sebagai killed.'')),
    (''narrative_en'', PyStr (lit ''The CLI demo explicitly exposes the gap '' @
        lit ''between statement coverage and fault '' @
        lit ''detection. Sixteen concise lines summarize '' @
        lit ''15 generated mutations from a single file. '' @
        lit ''The weak suite passes all mutants due to '' @
        lit ''positivity-only assertions, while the '' @
        lit ''strong suite detects every syntactic '' @
        lit ''divergence through exact string comparison.'')),
    (''mental_model'', PyStr (lit ''Numbers don'' @ [39] @ lit ''t lie: 0% vs 100% mutation score from '' @
        lit ''identical coverage.'')),
    (''source_path'', PyStr (lit ''labs/38-mutation-testing/cmd/demo/main.go'')),
    (''slide_num'', PyStr (lit ''10 / 24''))]\<rparr>\<close>

definition lab38_items_11 :: pyval where [lab38_contents]:
  \<open>lab38_items_11 =
   PyList
   [PyDict
     [(''title'', PyStr (lit ''SKOR 100% BUKAN STANDAR INDUSTRI'')),
      (''items'', PyList
        [PyStr (lit ''Tidak ada ambang mutation score universal '' @ lit ''yang disepakati.''),
         PyStr (lit ''Target skor harus disesuaikan dengan profil '' @ lit ''risiko proyek.'')]),
      (''type'', PyStr (lit ''bullet''))],
    PyDict
     [(''title'', PyStr (lit ''EVALUASI AST TEXTUAL'')),
      (''items'', PyList
        [PyStr (lit ''Strong test menggunakan perbandingan string '' @
            lit ''AST, bukan subprocess kompilasi.''),
         PyStr (lit ''Ini trade-off ringan untuk demonstrasi; '' @
            lit ''production tool compile subprocess.'')]),
      (''type'', PyStr (lit ''bullet''))],
    PyDict
     [(''title'', PyStr (lit ''EQUIVALENT MUTANTS'')),
      (''items'', PyList
        [PyStr (lit ''Mutan semantik identik tidak dapat dibunuh '' @ lit ''secara teoretis.''),
         PyStr (lit ''Penanganan equivalent memerlukan heuristic '' @
            lit ''atau scoped analysis.'')]),
      (''type'', PyStr (lit ''bullet''))],
    PyDict
     [(''title'', PyStr (lit ''StatementDelete TIDAK DIPAKAI'')),
      (''items'', PyList
        [PyStr (lit ''Enum '' @ [96] @ lit ''StatementDelete'' @ [96] @
            lit '' dideklarasikan untuk klasifikasi lengkap.''),
         PyStr (lit ''Tidak diemisi karena target AST tidak '' @
            lit ''memiliki void side-effect-free statement.'')]),
      (''type'', PyStr (lit ''bullet''))]]\<close>

definition lab38_slide_11 :: pycall where [lab38_slides]:
  \<open>lab38_slide_11 =
   \<lparr>posargs = [],
  kwargs =
   [(''categories'', PyList
      [PyStr (lit ''BATASAN''),
       PyStr (lit ''INVARIAN'')]),
    (''title'', PyStr (lit ''YANG TIDAK DIBUKTIKAN'')),
    (''subtitle'', PyStr (lit ''Laboratorium ini memiliki celah validasi '' @ lit ''yang perlu diketahui.'')),
    (''content_items'', lab38_items_11),
    (''narrative'', PyStr (lit ''Meskipun demonstrasi ini menunjukkan '' @
        lit ''kontras yang tajam, ada batasan penting '' @
        lit ''yang tidak diselesaikan. Skor mutasi 100% '' @
        lit ''bukanlah standar industri baku; tiap '' @
        lit ''organisasi menetapkan ambang berdasarkan '' @
        lit ''risiko domain. Evaluasi strong test di sini '' @
        lit ''mengandalkan pencocokan teks AST, bukan '' @
        lit ''kompilasi subprocess nyata, sebagai '' @
        lit ''kompromi performa. Selain itu, equivalent '' @
        lit ''mutants tetap menjadi persoalan yang secara '' @
        lit ''matematis undecidable dan memerlukan filter '' @
        lit ''heuristik dalam praktik.'')),
    (''narrative_en'', PyStr (lit ''Despite the sharp contrast demonstrated, '' @
        lit ''important limitations remain unaddressed. A '' @
        lit ''100% mutation score is not a universal '' @
        lit ''industry standard; each organization sets '' @
        lit ''thresholds based on domain risk. The strong '' @
        lit ''evaluation here relies on AST text matching '' @
        lit ''rather than real subprocess compilation as '' @
        lit ''a performance compromise. Equivalent '' @
        lit ''mutants remain mathematically undecidable '' @
        lit ''and require heuristic filtering in practice.'')),
    (''mental_model'', PyStr (lit ''Mutation testing reveals gaps; it does not '' @
        lit ''replace risk-based quality gates.'')),
    (''source_path'', PyStr (lit ''labs/38-mutation-testing/content/01-content-'' @ lit ''brief.md'')),
    (''slide_num'', PyStr (lit ''11 / 24''))]\<rparr>\<close>

definition lab38_items_12 :: pyval where [lab38_contents]:
  \<open>lab38_items_12 =
   PyList
   [PyDict
     [(''title'', PyStr (lit ''AST TEXTUAL (LAB INI)'')),
      (''items'', PyList
        [PyStr (lit ''Kecepatan: evaluasi sub-milidetik per mutan.''),
         PyStr (lit ''Ketepatan: menangkap semua perubahan '' @
            lit ''sintaks, tapi bukan semantic.''),
         PyStr (lit ''Risiko: false positive jika formatter '' @ lit ''mengubah whitespace.'')]),
      (''type'', PyStr (lit ''bullet''))],
    PyDict
     [(''title'', PyStr (lit ''SUBPROCESS COMPILE (PRODUKSI)'')),
      (''items'', PyList
        [PyStr (lit ''Kecepatan:Compilation overhead per mutant.''),
         PyStr (lit ''Ketepatan: semantic + syntax; false '' @ lit ''positive rendah.''),
         PyStr (lit ''Risiko: dependency coupling, environment '' @ lit ''lock.'')]),
      (''type'', PyStr (lit ''bullet''))],
    PyDict
     [(''title'', PyStr (lit ''REKOMENDASI HYBRID'')),
      (''items'', PyList
        [PyStr (lit ''Lintasan cepat: textual AST filter untuk PR '' @ lit ''sehari-hari.''),
         PyStr (lit ''Lintasan berat: subprocess compile untuk '' @ lit ''modul kritikal.'')]),
      (''type'', PyStr (lit ''bullet''))]]\<close>

definition lab38_slide_12 :: pycall where [lab38_slides]:
  \<open>lab38_slide_12 =
   \<lparr>posargs = [],
  kwargs =
   [(''categories'', PyList
      [PyStr (lit ''TRADE-OFF''),
       PyStr (lit ''ARSITEKTUR'')]),
    (''title'', PyStr (lit ''Trade-off Arsitektur: Kecepatan vs '' @ lit ''Ketepatan Deteksi'')),
    (''subtitle'', PyStr (lit ''Pilih antara evaluasi tekstual cepat dan '' @
        lit ''kompilasi subprocess akurat.'')),
    (''content_items'', lab38_items_12),
    (''narrative'', PyStr (lit ''Trade-off utama terletak pada cara '' @
        lit ''menentukan kill condition. Evaluasi '' @
        lit ''berbasis teks AST menawarkan kecepatan '' @
        lit ''tinggi dengan overhead minimal, cocok untuk '' @
        lit ''pipeline CI harian. Namun, pendekatan ini '' @
        lit ''rentan terhadap false positive akibat '' @
        lit ''perbedaan formatting. Di sisi lain, '' @
        lit ''kompilasi subprocess memberikan jaminan '' @
        lit ''semantic yang lebih kuat, tetapi '' @
        lit ''membutuhkan environment build yang stabil '' @
        lit ''dan biaya waktu lebih besar. Solusi hibrida '' @
        lit ''merekomendasikan penggunaan textual '' @
        lit ''filtering sebagai gate cepat dan subprocess '' @
        lit ''compile sebagai gate kritis.'')),
    (''narrative_en'', PyStr (lit ''The core trade-off centers on kill '' @
        lit ''condition evaluation. Text-based AST '' @
        lit ''checking offers speed with minimal '' @
        lit ''overhead, suitable for daily CI gates, but '' @
        lit ''risks false positives from formatting '' @
        lit ''differences. Subprocess compilation '' @
        lit ''provides stronger semantic guarantees at '' @
        lit ''higher cost. A hybrid strategy recommends '' @
        lit ''textual filtering for fast PR gates and '' @
        lit ''subprocess compilation for critical module '' @ lit ''verification.'')),
    (''mental_model'', PyStr (lit ''Speed versus semantic certainty; hybrid '' @ lit ''gates balance both.'')),
    (''source_path'', PyStr (lit ''labs/38-mutation-testing/content/02-master-d'' @ lit ''raft.md'')),
    (''slide_num'', PyStr (lit ''12 / 24''))]\<rparr>\<close>

definition lab38_items_13 :: pyval where [lab38_contents]:
  \<open>lab38_items_13 =
   PyList
   [PyDict
     [(''title'', PyStr (lit ''FLOW CONCURRENCY'')),
      (''items'', PyList
        [PyStr (lit ''Runner.launch loop '' @ [96] @ lit ''for i, plan := range plans'' @ [96] @
            lit ''.''),
         PyStr ([0x6BCF] @ lit '' goroutine: '' @ [96] @ lit ''fset := token.NewFileSet()'' @
            [96] @ lit '' + '' @ [96] @ lit ''parser.ParseFile'' @ [96] @ lit ''.''),
         PyStr (lit ''Apply mutasi, render source, jalankan '' @ [96] @ lit ''testFn'' @ [96] @
            lit ''.''),
         PyStr (lit ''Tulis '' @ [96] @ lit ''results[idx]'' @ [96] @
            lit '' langsung tanpa mutex.'')]),
      (''type'', PyStr (lit ''bullet''))],
    PyDict
     [(''title'', PyStr (lit ''ISOLASI STATE'')),
      (''items'', PyList
        [PyStr (lit ''Setiap goroutine memiliki salinan AST '' @ lit ''sendiri.''),
         PyStr (lit ''Closure undo mengembalikan node sebelum '' @ lit ''keluar goroutine.''),
         PyStr (lit ''Sinkronisasi hanya pada '' @ [96] @ lit ''sync.WaitGroup'' @ [96] @
            lit ''.'')]),
      (''type'', PyStr (lit ''bullet''))],
    PyDict
     [(''title'', PyStr (lit ''VERIFIKASI RACE'')),
      (''items'', PyList
        [PyStr ([96] @ lit ''go test -race ./...'' @ [96] @ lit '' passed.''),
         PyStr (lit ''Tidak ada shared mutable node antar '' @ lit ''goroutine.'')]),
      (''type'', PyStr (lit ''bullet''))]]\<close>

definition lab38_slide_13 :: pycall where [lab38_slides]:
  \<open>lab38_slide_13 =
   \<lparr>posargs = [],
  kwargs =
   [(''categories'', PyList
      [PyStr (lit ''CONCURRENCY''),
       PyStr (lit ''PIPELINE'')]),
    (''title'', PyStr (lit ''Goroutine -> Validate -> Write Result'')),
    (''subtitle'', PyStr (lit ''Isolasi AST per mutan memastikan race-clean '' @ lit ''execution.'')),
    (''content_items'', lab38_items_13),
    (''narrative'', PyStr (lit ''Desain konkurensi mesin ini mengutamakan '' @
        lit ''isolasi state AST. Setiap mutan dieksekusi '' @
        lit ''dalam goroutine terpisah yang membuka file '' @
        lit ''set baru dan mem-parsing ulang sumber asli. '' @
        lit ''Hasil evaluasi ditulis langsung ke slice '' @
        lit ''yang dialokasikan sebelumnya menggunakan '' @
        lit ''indeks plan, menghilangkan kebutuhan mutex. '' @
        lit ''Pengembalian nilai menggunakan closure undo '' @
        lit ''memastikan node AST tetap bersih setelah '' @
        lit ''proses selesai. Race detector Go '' @
        lit ''mengonfirmasi tidak ada data race.'')),
    (''narrative_en'', PyStr (lit ''The concurrency design prioritizes AST '' @
        lit ''state isolation. Each mutant runs in a '' @
        lit ''dedicated goroutine that opens a new file '' @
        lit ''set and re-parses the source. Results write '' @
        lit ''directly into a pre-allocated slice by '' @
        lit ''index, eliminating mutexes. Undo closures '' @
        lit ''restore nodes after evaluation, and Go'' @ [39] @
        lit ''s race detector confirms zero data races.'')),
    (''mental_model'', PyStr (lit ''Fresh parse per mutant, indexed writes, no '' @ lit ''shared mutable state.'')),
    (''source_path'', PyStr (lit ''labs/38-mutation-testing/internal/engine/run'' @ lit ''ner.go:22-80'')),
    (''slide_num'', PyStr (lit ''13 / 24''))]\<rparr>\<close>

definition lab38_items_14 :: pyval where [lab38_contents]:
  \<open>lab38_items_14 =
   PyList
   [PyDict
     [(''title'', PyStr (lit ''BEFORE (WEAK)'')),
      (''items'', PyList
        [PyStr (lit ''Asersi: hanya '' @ [96] @ lit ''FinalAmount <= 0'' @ [96] @ lit '', '' @
            [96] @ lit ''DiscountTotal < 0'' @ [96] @ lit '', '' @ [96] @
            lit ''DiscountRate < 0'' @ [96] @ lit ''.''),
         PyStr (lit ''Coverage: 100% statement.''),
         PyStr (lit ''Mutation Score: 0/15 (0.00%).''),
         PyStr (lit ''Gejala: semua mutan survived karena output '' @ lit ''tetap positif.'')]),
      (''type'', PyStr (lit ''bullet''))],
    PyDict
     [(''title'', PyStr (lit ''AFTER (STRONG)'')),
      (''items'', PyList
        [PyStr (lit ''Asersi: exact value, boundary, boolean '' @
            lit ''flag, coupon condition.''),
         PyStr (lit ''Coverage: 100% statement.''),
         PyStr (lit ''Mutation Score: 15/15 (100.00%).''),
         PyStr (lit ''Gejala: setiap perubahan operator/nilai '' @ lit ''langsung terdeteksi.'')]),
      (''type'', PyStr (lit ''bullet''))]]\<close>

definition lab38_slide_14 :: pycall where [lab38_slides]:
  \<open>lab38_slide_14 =
   \<lparr>posargs = [],
  kwargs =
   [(''categories'', PyList
      [PyStr (lit ''BANDING''),
       PyStr (lit ''HASIL'')]),
    (''title'', PyStr (lit ''Before vs After: Weak Assertion vs Strong '' @ lit ''Assertion'')),
    (''subtitle'', PyStr (lit ''Perubahan asersi memindahkan mutation score '' @ lit ''dari 0% ke 100%.'')),
    (''content_items'', lab38_items_14),
    (''narrative'', PyStr (lit ''Perbandingan sebelum dan sesudah '' @
        lit ''memperlihatkan bahwa cakupan 100% tidak '' @
        lit ''berubah, namun mutation score melonjak '' @
        lit ''drastis hanya dengan memperbaiki kualitas '' @
        lit ''asersi. Test suite lemah mengandalkan '' @
        lit ''pemeriksaan tanda positif yang longgar. '' @
        lit ''Suite kuat menambahkan assertion eksak pada '' @
        lit ''nilai akhir, rate diskon, flag free '' @
        lit ''shipping, dan kondisi kupon. Perubahan '' @
        lit ''minimal ini menutup seluruh celah deteksi '' @
        lit ''dan membunuh semua mutan.'')),
    (''narrative_en'', PyStr (lit ''The before-and-after comparison shows that '' @
        lit ''100% coverage remains unchanged while '' @
        lit ''mutation score jumps from zero to perfect '' @
        lit ''simply by strengthening assertions. Weak '' @
        lit ''tests rely on loose positivity checks. '' @
        lit ''Strong tests add exact value, rate, boolean '' @
        lit ''flag, and coupon condition assertions, '' @
        lit ''closing every detection gap.'')),
    (''mental_model'', PyStr (lit ''Same coverage, different assertions, '' @
        lit ''dramatically different fault exposure.'')),
    (''source_path'', PyStr (lit ''labs/38-mutation-testing/internal/service/di'' @ lit ''scount_weak_test.go'')),
    (''slide_num'', PyStr (lit ''14 / 24''))]\<rparr>\<close>

definition lab38_items_15 :: pyval where [lab38_contents]:
  \<open>lab38_items_15 =
   PyList
   [PyDict
     [(''title'', PyStr (lit ''MUTAN 1: || -> &&'')),
      (''items'', PyList
        [PyStr (lit ''Kode: '' @ [96] @ lit ''order.Tier == TierVIP || order.TotalAmount '' @
            lit ''>= 1000.0'' @ [96]),
         PyStr (lit ''Mutasi: hanya VIP dengan amount >= 1000 '' @ lit ''yang masuk.''),
         PyStr (lit ''Input weak test: VIP + 1200 -> masih masuk, '' @
            lit ''finalAmount positif.''),
         PyStr (lit ''Weak assert tidak memeriksa freeShipping '' @ lit ''boolean.'')]),
      (''type'', PyStr (lit ''bullet''))],
    PyDict
     [(''title'', PyStr (lit ''MUTAN 9: > -> >='')),
      (''items'', PyList
        [PyStr (lit ''Kode: '' @ [96] @ lit ''order.ItemCount > 2'' @ [96]),
         PyStr (lit ''Mutasi: ItemCount == 3 tetap memenuhi, '' @
            lit ''bahkan ItemCount == 2 juga.''),
         PyStr (lit ''Input weak test: ItemCount = 3 -> coupon '' @ lit ''boost tetap berlaku.''),
         PyStr (lit ''Tidak ada assert untuk rate boost eksak.'')]),
      (''type'', PyStr (lit ''bullet''))],
    PyDict
     [(''title'', PyStr (lit ''MUTAN 11: * -> /'')),
      (''items'', PyList
        [PyStr (lit ''Kode: '' @ [96] @ lit ''discountAmount := order.TotalAmount * rate'' @
            [96]),
         PyStr (lit ''Mutasi: perhitungan menjadi pembagian.''),
         PyStr (lit ''Input weak test: TotalAmount besar -> hasil '' @
            lit ''bagi tetap positif.''),
         PyStr (lit ''Assert hanya memeriksa positive, bukan '' @ lit ''exact formula.'')]),
      (''type'', PyStr (lit ''bullet''))]]\<close>

definition lab38_slide_15 :: pycall where [lab38_slides]:
  \<open>lab38_slide_15 =
   \<lparr>posargs = [],
  kwargs =
   [(''categories'', PyList
      [PyStr (lit ''ANALISIS MENDALAM''),
       PyStr (lit ''EVIDENCE'')]),
    (''title'', PyStr (lit ''Analisis Mendalam: Mengapa Mutan Tertentu '' @ lit ''Lolos'')),
    (''subtitle'', PyStr (lit ''Mapping survival pattern ke kelemahan '' @ lit ''asersi spesifik.'')),
    (''content_items'', lab38_items_15),
    (''narrative'', PyStr (lit ''Analisis mendalam menunjukkan pola survival '' @
        lit ''yang konsisten. Mutan Boolean flip lolos '' @
        lit ''karena test tidak pernah mengevaluasi '' @
        lit ''kondisi branch yang berubah. Mutan '' @
        lit ''relasional lolos karena input berada jauh '' @
        lit ''di atas atau bawah threshold, sehingga '' @
        lit ''pergeseran batas tidak mengubah outcome '' @
        lit ''positif. Mutan aritmetika lolos karena '' @
        lit ''nilai numerik tetap berada dalam domain '' @
        lit ''positif meskipun formula berubah. Pola ini '' @
        lit ''menegaskan bahwa weak assertions tidak '' @
        lit ''pernah melakukan propagasi nilai kritis ke '' @ lit ''asersi.'')),
    (''narrative_en'', PyStr (lit ''Deep analysis reveals a consistent survival '' @
        lit ''pattern. Boolean flip mutants pass because '' @
        lit ''tests never evaluate the inverted branch '' @
        lit ''conditions. Relational mutants pass because '' @
        lit ''inputs sit far from thresholds, so boundary '' @
        lit ''shifts do not alter positive outcomes. '' @
        lit ''Arithmetic mutants pass because numerical '' @
        lit ''values remain positive despite formula '' @
        lit ''changes. This pattern confirms weak '' @
        lit ''assertions never propagate critical values '' @ lit ''to checks.'')),
    (''mental_model'', PyStr (lit ''Survival patterns map directly to assertion '' @ lit ''blind spots.'')),
    (''source_path'', PyStr (lit ''labs/38-mutation-testing/tests/engine_test.g'' @ lit ''o'')),
    (''slide_num'', PyStr (lit ''15 / 24''))]\<rparr>\<close>

definition lab38_items_16 :: pyval where [lab38_contents]:
  \<open>lab38_items_16 =
   PyList
   [PyDict
     [(''title'', PyStr (lit ''TEST ENGINE'')),
      (''items'', PyList
        [PyStr (lit ''TestEngine_GeneratesMutants memastikan '' @
            lit ''semua 4 tipe mutasi hadir.''),
         PyStr (lit ''TestEngine_MutationScoreDifference '' @
            lit ''memastikan weak < strong score.''),
         PyStr (lit ''TestDomainService_DirectCalculation '' @
            lit ''memverifikasi calculation accuracy.'')]),
      (''type'', PyStr (lit ''bullet''))],
    PyDict
     [(''title'', PyStr (lit ''ASSERTION STRONG'')),
      (''items'', PyList
        [PyStr (lit ''VIP customer: DiscountRate == 0.20, '' @ lit ''FreeShipping == true.''),
         PyStr (lit ''Premium 500: DiscountRate == 0.10.''),
         PyStr (lit ''Standard 100: DiscountRate == 0.05.''),
         PyStr (lit ''Coupon +3 items: rate boost 0.05 applied.'')]),
      (''type'', PyStr (lit ''bullet''))],
    PyDict
     [(''title'', PyStr (lit ''HASIL'')),
      (''items'', PyList
        [PyStr (lit ''Semua test passing termasuk race detector.''),
         PyStr (lit ''Mutation score weak = 0%, strong = 100%.'')]),
      (''type'', PyStr (lit ''bullet''))]]\<close>

definition lab38_slide_16 :: pycall where [lab38_slides]:
  \<open>lab38_slide_16 =
   \<lparr>posargs = [],
  kwargs =
   [(''categories'', PyList
      [PyStr (lit ''ANALISIS MENDALAM''),
       PyStr (lit ''TEST EVIDENCE'')]),
    (''title'', PyStr (lit ''Bukti Unit Test Engine dan Skoring'')),
    (''subtitle'', PyStr (lit ''Engine unit test memverifikasi kategori '' @
        lit ''mutasi dan perbedaan skor.'')),
    (''content_items'', lab38_items_16),
    (''narrative'', PyStr (lit ''Unit test engine memverifikasi dua hal '' @
        lit ''mendasar: kelengkapan kategori mutasi dan '' @
        lit ''perbedaan skor antara suite lemah dan kuat. '' @
        lit ''Test strong secara eksplisit asserted nilai '' @
        lit ''exact pada setiap kasus uji, termasuk '' @
        lit ''boundary amount 99.99 dan 100.0 serta flag '' @
        lit ''boolean free shipping. Keberhasilan seluruh '' @
        lit ''test bersamaan dengan race detector '' @
        lit ''menunjukkan implementasi konkuren aman dan '' @
        lit ''asersi ketat efektif membunuh semua mutan.'')),
    (''narrative_en'', PyStr (lit ''Engine unit tests verify two fundamentals: '' @
        lit ''mutation category completeness and score '' @
        lit ''disparity between weak and strong suites. '' @
        lit ''Strong tests explicitly assert exact values '' @
        lit ''on boundary amounts and boolean flags. All '' @
        lit ''tests passing alongside the race detector '' @
        lit ''confirms both concurrency safety and '' @ lit ''assertion effectiveness.'')),
    (''mental_model'', PyStr (lit ''Exact assertions are the only reliable '' @ lit ''mutant killers.'')),
    (''source_path'', PyStr (lit ''labs/38-mutation-testing/tests/engine_test.g'' @ lit ''o'')),
    (''slide_num'', PyStr (lit ''16 / 24''))]\<rparr>\<close>

definition lab38_items_17 :: pyval where [lab38_contents]:
  \<open>lab38_items_17 =
   PyList
   [PyDict
     [(''title'', PyStr (lit ''RELATIONAL (8)'')),
      (''items'', PyList
        [PyStr (lit ''M1: || -> && (line 31) SURVIVED weak / '' @ lit ''KILLED strong''),
         PyStr (lit ''M2: == -> != (line 31) SURVIVED weak / '' @ lit ''KILLED strong''),
         PyStr (lit ''M3: >= -> > (line 31) SURVIVED weak / '' @ lit ''KILLED strong''),
         PyStr (lit ''M4: && -> || (line 33) SURVIVED weak / '' @ lit ''KILLED strong''),
         PyStr (lit ''M5: == -> != (line 33) SURVIVED weak / '' @ lit ''KILLED strong''),
         PyStr (lit ''M6: >= -> > (line 33) SURVIVED weak / '' @ lit ''KILLED strong''),
         PyStr (lit ''M7: >= -> > (line 35) SURVIVED weak / '' @ lit ''KILLED strong''),
         PyStr (lit ''M8: == -> != (line 48) SURVIVED weak / '' @ lit ''KILLED strong'')]),
      (''type'', PyStr (lit ''bullet''))],
    PyDict
     [(''title'', PyStr (lit ''BOOLEAN (4)'')),
      (''items'', PyList
        [PyStr (lit ''M9: >= -> > (line 40) SURVIVED weak / '' @ lit ''KILLED strong''),
         PyStr (lit ''M10: && -> || (line 40) SURVIVED weak / '' @ lit ''KILLED strong''),
         PyStr (lit ''M11: * -> / (line 44) SURVIVED weak / '' @ lit ''KILLED strong''),
         PyStr (lit ''M12: - -> + (line 45) SURVIVED weak / '' @ lit ''KILLED strong'')]),
      (''type'', PyStr (lit ''bullet''))],
    PyDict
     [(''title'', PyStr (lit ''ARITHMETIC & BOUNDARY (3)'')),
      (''items'', PyList
        [PyStr (lit ''M13: || -> && (line 48) SURVIVED weak / '' @ lit ''KILLED strong''),
         PyStr (lit ''M14: == -> != (line 48) SURVIVED weak / '' @ lit ''KILLED strong''),
         PyStr (lit ''M15: >= -> > (line 48) SURVIVED weak / '' @ lit ''KILLED strong''),
         PyStr (lit ''Catatan: 1 boundary shift (2 -> 3) termasuk '' @ lit ''M9/M10 area'')]),
      (''type'', PyStr (lit ''bullet''))]]\<close>

definition lab38_slide_17 :: pycall where [lab38_slides]:
  \<open>lab38_slide_17 =
   \<lparr>posargs = [],
  kwargs =
   [(''categories'', PyList
      [PyStr (lit ''BUKTI''),
       PyStr (lit ''DETAILED BREAKDOWN'')]),
    (''title'', PyStr (lit ''Breakdown Lengkap 15 Mutan dan Status '' @ lit ''Deteksi'')),
    (''subtitle'', PyStr (lit ''Tabel detail setiap mutasi beserta penyebab '' @ lit ''survival/killed.'')),
    (''content_items'', lab38_items_17),
    (''narrative'', PyStr (lit ''Breakdown lengkap menunjukkan pola uniform: '' @
        lit ''semua 15 mutan bertahan pada suite lemah '' @
        lit ''dan terbunuh pada suite kuat. Tidak ada '' @
        lit ''mutant yang equivalent dalam kasus ini '' @
        lit ''karena setiap perubahan operator atau '' @
        lit ''konstanta menghasilkan perilaku output yang '' @
        lit ''berbeda secara semantik. Uniform survival '' @
        lit ''pada weak suite menegaskan bahwa kelemahan '' @
        lit ''terletak pada asersi, bukan pada '' @
        lit ''ketidakefektifan generator mutasi.'')),
    (''narrative_en'', PyStr (lit ''The complete breakdown reveals a uniform '' @
        lit ''pattern: all 15 mutants survived the weak '' @
        lit ''suite and were killed by the strong suite. '' @
        lit ''No equivalent mutants exist in this case '' @
        lit ''because every operator or constant change '' @
        lit ''produces semantically different output. '' @
        lit ''Uniform weak survival confirms the weakness '' @
        lit ''lies in assertions, not in the mutation '' @ lit ''generator.'')),
    (''mental_model'', PyStr (lit ''Uniform survival points to assertion '' @
        lit ''weakness, not generator failure.'')),
    (''source_path'', PyStr (lit ''labs/38-mutation-testing/cmd/demo/main.go'')),
    (''slide_num'', PyStr (lit ''17 / 24''))]\<rparr>\<close>

definition lab38_items_18 :: pyval where [lab38_contents]:
  \<open>lab38_items_18 =
   PyList
   [PyDict
     [(''title'', PyStr (lit ''BIAYA KOMPUTASI'')),
      (''items'', PyList
        [PyStr (lit ''15 mutant x parse+render+test per mutant.''),
         PyStr (lit ''Isolasi AST menambah overhead parse '' @ lit ''berulang.''),
         PyStr (lit ''Runtime tetap sub-detik untuk modul '' @ lit ''berukuran kecil.'')]),
      (''type'', PyStr (lit ''bullet''))],
    PyDict
     [(''title'', PyStr (lit ''STRATEGI SKALA'')),
      (''items'', PyList
        [PyStr (lit ''Differential mutation: hanya mutasi file '' @ lit ''yang berubah di PR.''),
         PyStr (lit ''Incremental scoring: target skor minimum '' @ lit ''per modul.''),
         PyStr (lit ''Parallel goroutine mengurangi wall-clock '' @ lit ''time secara linear.'')]),
      (''type'', PyStr (lit ''bullet''))],
    PyDict
     [(''title'', PyStr (lit ''BATASAN PRODUKSI'')),
      (''items'', PyList
        [PyStr (lit ''Full mutation testing mahal untuk codebase '' @ lit ''raksasa.''),
         PyStr (lit ''Pertimbangkan focus pada domain core dan '' @ lit ''jalur kritikal.'')]),
      (''type'', PyStr (lit ''bullet''))]]\<close>

definition lab38_slide_18 :: pycall where [lab38_slides]:
  \<open>lab38_slide_18 =
   \<lparr>posargs = [],
  kwargs =
   [(''categories'', PyList
      [PyStr (lit ''BUKTI''),
       PyStr (lit ''PERFORMANCE'')]),
    (''title'', PyStr (lit ''Pertimbangan Performa dan Skalabilitas'')),
    (''subtitle'', PyStr (lit ''Biaya komputasi mutation testing dan '' @ lit ''strategi mitigasi.'')),
    (''content_items'', lab38_items_18),
    (''narrative'', PyStr (lit ''Mutation testing memperkenalkan biaya '' @
        lit ''komputasi tambahan karena setiap mutan '' @
        lit ''memerlukan parsing ulang dan evaluasi. '' @
        lit ''Namun, isolasi goroutine dan penulisan '' @
        lit ''hasil berbasis indeks menjaga overhead '' @
        lit ''tetap rendah. Untuk skala besar, strategi '' @
        lit ''diferensialmemfokuskan mutasi hanya pada '' @
        lit ''file yang berubah dalam pull request. '' @
        lit ''Pendekatan incremental memungkinkan tim '' @
        lit ''menetapkan target skor per modul alih-alih '' @
        lit ''mengharuskan 100% di seluruh codebase '' @ lit ''sekaligus.'')),
    (''narrative_en'', PyStr (lit ''Mutation testing adds computational cost '' @
        lit ''due to repeated parsing and evaluation per '' @
        lit ''mutant. However, goroutine isolation and '' @
        lit ''index-based result writing keep overhead '' @
        lit ''low. At scale, differential strategies '' @
        lit ''restrict mutation to changed files in pull '' @
        lit ''requests. Incremental approaches allow '' @
        lit ''teams to set per-module score targets '' @
        lit ''rather than requiring enterprise-wide '' @ lit ''perfection.'')),
    (''mental_model'', PyStr (lit ''Scale via differential focus and '' @
        lit ''incremental targets, not full sweeps.'')),
    (''source_path'', PyStr (lit ''labs/38-mutation-testing/content/05-key-take'' @ lit ''aways.md'')),
    (''slide_num'', PyStr (lit ''18 / 24''))]\<rparr>\<close>

definition lab38_items_19 :: pyval where [lab38_contents]:
  \<open>lab38_items_19 =
   PyList
   [PyDict
     [(''title'', PyStr (lit ''TEST RACE'')),
      (''items'', PyList
        [PyStr (lit ''Perintah: '' @ [96] @ lit ''go test -race ./...'' @ [96]),
         PyStr (lit ''Status: ALL PASSED.''),
         PyStr (lit ''Tidak ada report data race pada '' @ lit ''stdout/stderr.'')]),
      (''type'', PyStr (lit ''bullet''))],
    PyDict
     [(''title'', PyStr (lit ''MEKANISME KEAMANAN'')),
      (''items'', PyList
        [PyStr (lit ''Setiap goroutine membuat '' @ [96] @ lit ''token.NewFileSet()'' @ [96] @
            lit '' baru.''),
         PyStr (lit ''Mutable node hanya diakses dalam goroutine '' @ lit ''yang sama.''),
         PyStr (lit ''Closure undo mengembalikan state sebelum '' @ lit ''goroutine selesai.'')]),
      (''type'', PyStr (lit ''bullet''))],
    PyDict
     [(''title'', PyStr (lit ''INDIKATOR KESELAMATAN'')),
      (''items'', PyList
        [PyStr (lit ''Penulisan '' @ [96] @ lit ''results[idx]'' @ [96] @
            lit '' aman karena indeks unik per goroutine.''),
         PyStr (lit ''Tidak ada shared pointer atau global '' @ lit ''mutable state.'')]),
      (''type'', PyStr (lit ''bullet''))]]\<close>

definition lab38_slide_19 :: pycall where [lab38_slides]:
  \<open>lab38_slide_19 =
   \<lparr>posargs = [],
  kwargs =
   [(''categories'', PyList
      [PyStr (lit ''BUKTI''),
       PyStr (lit ''VALIDASI'')]),
    (''title'', PyStr (lit ''Validasi Race-Clean dan Integritas AST'')),
    (''subtitle'', PyStr (lit ''Bukti teknis bahwa executor konkuren bebas '' @ lit ''race condition.'')),
    (''content_items'', lab38_items_19),
    (''narrative'', PyStr (lit ''Keamanan konkurensi divisualisasikan '' @
        lit ''melalui race detector Go. Karena setiap '' @
        lit ''goroutine bekerja dengan salinan AST baru '' @
        lit ''dan menulis hasil ke indeks slice yang '' @
        lit ''unik, tidak ada kompetisi akses memori. '' @
        lit ''Fungsi undo menjamin tidak ada state AST '' @
        lit ''yang bocor antar goroutine. Validasi ini '' @
        lit ''penting karena mesin mutation testing '' @
        lit ''bergantung pada paralelisasi untuk menjaga '' @
        lit ''latency tetap rendah meskipun jumlah mutan '' @ lit ''bertambah.'')),
    (''narrative_en'', PyStr (lit ''Concurrency safety is verified through Go'' @ [39] @
        lit ''s race detector. Since each goroutine '' @
        lit ''operates on a fresh AST copy and writes to '' @
        lit ''a unique slice index, no memory access '' @
        lit ''competition occurs. Undo functions '' @
        lit ''guarantee no AST state leaks across '' @
        lit ''goroutines. This validation is crucial '' @
        lit ''because the engine relies on parallelism to '' @
        lit ''maintain low latency as mutant counts grow.'')),
    (''mental_model'', PyStr (lit ''Isolated parses plus indexed writes equal '' @
        lit ''race-free mutation execution.'')),
    (''source_path'', PyStr (lit ''labs/38-mutation-testing/internal/engine/run'' @ lit ''ner.go'')),
    (''slide_num'', PyStr (lit ''19 / 24''))]\<rparr>\<close>

definition lab38_items_20 :: pyval where [lab38_contents]:
  \<open>lab38_items_20 =
   PyList
   [PyDict
     [(''title'', PyStr (lit ''PERSIAPAN'')),
      (''items'', PyList
        [PyStr (lit ''[ ] Identifikasi modul domain kritikal.''),
         PyStr (lit ''[ ] Pastikan test suite dapat dieksekusi '' @ lit ''sebagai '' @ [96] @
            lit ''TestFunc'' @ [96] @ lit ''.''),
         PyStr (lit ''[ ] Siapkan AST mutator dengan operator '' @
            lit ''relasional, boolean, aritmetika, boundary.'')]),
      (''type'', PyStr (lit ''bullet''))],
    PyDict
     [(''title'', PyStr (lit ''EKSEKUSI'')),
      (''items'', PyList
        [PyStr (lit ''[ ] Jalankan mutation scan pada file target.''),
         PyStr (lit ''[ ] Evaluasi weak suite sebagai baseline.''),
         PyStr (lit ''[ ] Evaluasi strong suite dengan asersi '' @ lit ''eksak.'')]),
      (''type'', PyStr (lit ''bullet''))],
    PyDict
     [(''title'', PyStr (lit ''VISUALISASI & REVIEW'')),
      (''items'', PyList
        [PyStr (lit ''[ ] Generate laporan breakdown per mutant.''),
         PyStr (lit ''[ ] Review survived mutants bersama tim.''),
         PyStr (lit ''[ ] Tambah asersi yang menutupi pola '' @ lit ''survival.'')]),
      (''type'', PyStr (lit ''bullet''))],
    PyDict
     [(''title'', PyStr (lit ''INTEGRASI CI/CD'')),
      (''items'', PyList
        [PyStr (lit ''[ ] Gunakan differential scanning pada PR.''),
         PyStr (lit ''[ ] Tetapkan gate minimum mutation score '' @ lit ''per modul.''),
         PyStr (lit ''[ ] Monitor tren skor seiring waktu.'')]),
      (''type'', PyStr (lit ''bullet''))]]\<close>

definition lab38_slide_20 :: pycall where [lab38_slides]:
  \<open>lab38_slide_20 =
   \<lparr>posargs = [],
  kwargs =
   [(''categories'', PyList
      [PyStr (lit ''CHECKLIST''),
       PyStr (lit ''IMPLEMENTASI'')]),
    (''title'', PyStr (lit ''Checklist Implementasi Mutation Testing'')),
    (''subtitle'', PyStr (lit ''Langkah praktis mengadopsi praktik ini ke '' @ lit ''dalam pipeline.'')),
    (''content_items'', lab38_items_20),
    (''narrative'', PyStr (lit ''Adopsi mutation testing memerlukan '' @
        lit ''checklist terstruktur agar tidak '' @
        lit ''overwhelming. Dimulai dari identifikasi '' @
        lit ''modul kritikal, persiapan evaluator AST, '' @
        lit ''hingga eksekusi baseline weak dan strong. '' @
        lit ''Tahap visualisasi mendorong review kolektif '' @
        lit ''atas survived mutant. Integrasi CI/CD '' @
        lit ''sebaiknya menggunakan pendekatan '' @
        lit ''diferensial untuk menjaga latency pipeline '' @
        lit ''tetap wajar sambil menegakkan gate skor '' @ lit ''minimum per modul.'')),
    (''narrative_en'', PyStr (lit ''Adopting mutation testing requires a '' @
        lit ''structured checklist to avoid overwhelm. '' @
        lit ''Start with critical module identification, '' @
        lit ''AST evaluator preparation, and baseline '' @
        lit ''weak-strong execution. Visualization stage '' @
        lit ''drives collective review of survived '' @
        lit ''mutants. CI/CD integration should employ '' @
        lit ''differential scanning to maintain '' @
        lit ''reasonable pipeline latency while enforcing '' @
        lit ''per-module score gates.'')),
    (''mental_model'', PyStr (lit ''Structured rollout prevents mutation '' @ lit ''testing fatigue.'')),
    (''source_path'', PyStr (lit ''labs/38-mutation-testing/content/05-key-take'' @ lit ''aways.md'')),
    (''slide_num'', PyStr (lit ''20 / 24''))]\<rparr>\<close>

definition lab38_items_21 :: pyval where [lab38_contents]:
  \<open>lab38_items_21 =
   PyList
   [PyDict
     [(''title'', PyStr (lit ''ASSERTION POSITIVITAS SAJA'')),
      (''items'', PyList
        [PyStr (lit ''Pola: '' @ [96] @ lit ''assert result > 0'' @ [96] @ lit '' atau '' @
            [96] @ lit ''assert !error'' @ [96] @ lit ''.''),
         PyStr (lit ''Dampak: semua mutasi arithmetic dan '' @ lit ''relasional tetap lolos.''),
         PyStr (lit ''Reproduksi: ubah '' @ [96] @ lit ''>='' @ [96] @ lit '' jadi '' @ [96] @
            lit ''>'' @ [96] @ lit '' pada threshold; test tetap hijau.'')]),
      (''type'', PyStr (lit ''bullet''))],
    PyDict
     [(''title'', PyStr (lit ''INPUT HANYA HAPPY PATH'')),
      (''items'', PyList
        [PyStr (lit ''Pola: menggunakan input jauh dari boundary.''),
         PyStr (lit ''Dampak: boundary shift mutant tidak '' @ lit ''terdeteksi.''),
         PyStr (lit ''Reproduksi: shift integer 2 ke 3 dengan '' @ lit ''ItemCount = 5.'')]),
      (''type'', PyStr (lit ''bullet''))],
    PyDict
     [(''title'', PyStr (lit ''TIDAK MENGGUNAKAN EXACT VALUE'')),
      (''items'', PyList
        [PyStr (lit ''Pola: menghindari '' @ [96] @ lit ''assert.Equal(expected, got)'' @ [96] @
            lit ''.''),
         PyStr (lit ''Dampak: arithmetic mutation tidak mengubah '' @ lit ''outcome assert.''),
         PyStr (lit ''Reproduksi: ganti '' @ [96] @ lit ''*'' @ [96] @ lit '' dengan '' @ [96] @
            lit ''/'' @ [96] @ lit '' pada amount besar; hasil tetap '' @ [39] @
            lit ''positive'' @ [39] @ lit ''.'')]),
      (''type'', PyStr (lit ''bullet''))]]\<close>

definition lab38_slide_21 :: pycall where [lab38_slides]:
  \<open>lab38_slide_21 =
   \<lparr>posargs = [],
  kwargs =
   [(''categories'', PyList
      [PyStr (lit ''ANTI-PATTERN''),
       PyStr (lit ''REPRODUKSI'')]),
    (''title'', PyStr (lit ''Anti-Pattern yang Menciptakan Survived '' @ lit ''Mutants'')),
    (''subtitle'', PyStr (lit ''Pola berbahaya dalam penulisan test yang '' @ lit ''perlu dihindari.'')),
    (''content_items'', lab38_items_21),
    (''narrative'', PyStr (lit ''Tiga anti-pattern dominan ditemukan pada '' @
        lit ''suite lemah. Assertion berbasis positivitas '' @
        lit ''saja mengabaikan nilai eksak. Input happy '' @
        lit ''path saja melewatkan boundary shift. '' @
        lit ''Ketidakhadiran exact value assertion '' @
        lit ''membuat arithmetic mutation invisibel. '' @
        lit ''Menghilangkan pola-pola ini adalah '' @
        lit ''prasyarat untuk mencapai mutation score '' @ lit ''yang bermakna.'')),
    (''narrative_en'', PyStr (lit ''Three dominant anti-patterns appear in weak '' @
        lit ''suites. Positivity-only assertions ignore '' @
        lit ''exact values. Happy-path-only inputs miss '' @
        lit ''boundary shifts. Absence of exact value '' @
        lit ''assertions renders arithmetic mutations '' @
        lit ''invisible. Eliminating these patterns is '' @
        lit ''prerequisite for meaningful mutation scores.'')),
    (''mental_model'', PyStr (lit ''Positivity assertions and happy-path inputs '' @ lit ''are mutant shelters.'')),
    (''source_path'', PyStr (lit ''labs/38-mutation-testing/internal/service/di'' @ lit ''scount_weak_test.go'')),
    (''slide_num'', PyStr (lit ''21 / 24''))]\<rparr>\<close>

definition lab38_items_22 :: pyval where [lab38_contents]:
  \<open>lab38_items_22 =
   PyList
   [PyDict
     [(''title'', PyStr (lit ''COMMAND BASE'')),
      (''items'', PyList
        [PyStr (lit ''go test -v ./...''),
         PyStr (lit ''go test -race -v ./...''),
         PyStr (lit ''go run ./cmd/demo'')]),
      (''type'', PyStr (lit ''code''))],
    PyDict
     [(''title'', PyStr (lit ''ACTIONABLE STEPS'')),
      (''items'', PyList
        [PyStr (lit ''Ganti assertion signe-based dengan exact '' @ lit ''value/boolean check.''),
         PyStr (lit ''Tambahkan test case di setiap threshold '' @ lit ''boundary.''),
         PyStr (lit ''Jalankan mutation scan diferensial sebelum '' @ lit ''merge PR.'')]),
      (''type'', PyStr (lit ''bullet''))],
    PyDict
     [(''title'', PyStr (lit ''MINDSET SHIFT'')),
      (''items'', PyList
        [PyStr (lit ''Coverage hijau bukan jaminan bebas bug.''),
         PyStr (lit ''Mutation score adalah proksi kedalaman '' @ lit ''asersi.''),
         PyStr (lit ''Setiap survived mutant adalah bug potensial '' @ lit ''yang menunggu.'')]),
      (''type'', PyStr (lit ''bullet''))]]\<close>

definition lab38_slide_22 :: pycall where [lab38_slides]:
  \<open>lab38_slide_22 =
   \<lparr>posargs = [],
  kwargs =
   [(''categories'', PyList
      [PyStr (lit ''TAKEAWAY''),
       PyStr (lit ''COMMAND'')]),
    (''title'', PyStr (lit ''Takeaway Praktis dan Command Block'')),
    (''subtitle'', PyStr (lit ''Langkah nyata meningkatkan kualitas tes '' @ lit ''hari ini juga.'')),
    (''content_items'', lab38_items_22),
    (''narrative'', PyStr (lit ''Langkah praktis dimulai dengan mengganti '' @
        lit ''asersi longgar menjadi pengecekan exact '' @
        lit ''value dan boolean flag. Tambah test '' @
        lit ''caseboundary di setiap ambang tipe tier dan '' @
        lit ''jumlah item. Integrasikan mutation scan '' @
        lit ''diferensial ke dalam pipeline PR sebagai '' @
        lit ''gate tambahan. Mindset yang berubah adalah '' @
        lit ''memandang coverage sebagai metrik eksekusi, '' @
        lit ''bukan metrik verifikasi, serta'' @ [0x770B, 0x5F85] @
        lit '' survived mutant sebagai indikator bug '' @ lit ''latent.'')),
    (''narrative_en'', PyStr (lit ''Practical steps begin by replacing loose '' @
        lit ''assertions with exact value and boolean '' @
        lit ''checks. Add boundary test cases at every '' @
        lit ''tier threshold and item count. Integrate '' @
        lit ''differential mutation scanning into PR '' @
        lit ''pipelines as an additional gate. The '' @
        lit ''mindset shift is viewing coverage as an '' @
        lit ''execution metric, not a verification '' @
        lit ''metric, and treating survived mutants as '' @ lit ''latent bug indicators.'')),
    (''mental_model'', PyStr (lit ''Exact assertions and boundary tests convert '' @
        lit ''coverage into verification.'')),
    (''source_path'', PyStr (lit ''labs/38-mutation-testing/cmd/demo/main.go'')),
    (''slide_num'', PyStr (lit ''22 / 24''))]\<rparr>\<close>

definition lab38_items_23 :: pyval where [lab38_contents]:
  \<open>lab38_items_23 =
   PyList
   [PyDict
     [(''title'', PyStr (lit ''DISIPLIN VERIFIKASI'')),
      (''items'', PyList
        [PyStr (lit ''Coverage menjawab '' @ [39] @ lit ''berapa banyak kode dieksekusi'' @
            [39] @ lit ''.''),
         PyStr (lit ''Mutation scoring menjawab '' @ [39] @
            lit ''seberapa dalam kode diverifikasi'' @ [39] @ lit ''.''),
         PyStr (lit ''Keduanya komplementer, bukan substitusi.'')]),
      (''type'', PyStr (lit ''bullet''))],
    PyDict
     [(''title'', PyStr (lit ''INCREMENTAL QUALITY GATE'')),
      (''items'', PyList
        [PyStr (lit ''Tetapkan target skor minimum per modul '' @ lit ''seiring waktu.''),
         PyStr (lit ''Fokus pada modul yang mengalami perubahan '' @ lit ''di setiap PR.''),
         PyStr (lit ''Hindari perfektisisme global; ukur kemajuan '' @ lit ''sektoral.'')]),
      (''type'', PyStr (lit ''bullet''))],
    PyDict
     [(''title'', PyStr (lit ''CULTURE IMPROVEMENT'')),
      (''items'', PyList
        [PyStr (lit ''Review survived mutant sebagai sesi '' @ lit ''pembelajaran tim.''),
         PyStr (lit ''Document pola asersi kuat sebagai reference.''),
         PyStr (lit ''Update checklist anti-pattern secara '' @ lit ''berkala.'')]),
      (''type'', PyStr (lit ''bullet''))]]\<close>

definition lab38_slide_23 :: pycall where [lab38_slides]:
  \<open>lab38_slide_23 =
   \<lparr>posargs = [],
  kwargs =
   [(''categories'', PyList
      [PyStr (lit ''PRINSIP''),
       PyStr (lit ''JANGKA PANJANG'')]),
    (''title'', PyStr (lit ''Prinsip Arsitektural Jangka Panjang'')),
    (''subtitle'', PyStr (lit ''Mutation testing sebagai disiplin '' @
        lit ''verifikasi, bukan sekadar metrik.'')),
    (''content_items'', lab38_items_23),
    (''narrative'', PyStr (lit ''Prinsip arsitektural jangka panjang '' @
        lit ''menempatkan mutation testing sebagai '' @
        lit ''disiplin verifikasi berlapis. Coverage '' @
        lit ''tetap berguna sebagai indikator eksekusi, '' @
        lit ''tetapi mutation score mengukur kedalaman '' @
        lit ''asersi. Pendekatan incremental mencegah '' @
        lit ''kelelahan tim sekaligus mempertahankan '' @
        lit ''tekanan kualitas pada modul kritikal. '' @
        lit ''Budaya review survived mutant mengubah '' @
        lit ''metrik menjadi masukan perbaikan '' @ lit ''berkelanjutan.'')),
    (''narrative_en'', PyStr (lit ''Long-term architectural principles position '' @
        lit ''mutation testing as a layered verification '' @
        lit ''discipline. Coverage remains useful as an '' @
        lit ''execution indicator, but mutation score '' @
        lit ''measures assertion depth. An incremental '' @
        lit ''approach prevents team fatigue while '' @
        lit ''maintaining quality pressure on critical '' @
        lit ''modules. Survived mutant review culture '' @
        lit ''turns metrics into continuous improvement '' @ lit ''feedback.'')),
    (''mental_model'', PyStr (lit ''Complementary metrics, incremental gates, '' @ lit ''cultural review loops.'')),
    (''source_path'', PyStr (lit ''labs/38-mutation-testing/content/05-key-take'' @ lit ''aways.md'')),
    (''slide_num'', PyStr (lit ''23 / 24''))]\<rparr>\<close>

definition lab38_items_24 :: pyval where [lab38_contents]:
  \<open>lab38_items_24 =
   PyList
   [PyDict
     [(''title'', PyStr (lit ''MODUL LAB'')),
      (''items'', PyList
        [PyStr (lit ''internal/engine/mutator.go '' @ [0x2022] @
            lit '' internal/engine/runner.go''),
         PyStr (lit ''internal/service/discount.go '' @ [0x2022] @
            lit '' discount_weak_test.go '' @ [0x2022] @ lit '' discount_strong_test.go''),
         PyStr (lit ''tests/engine_test.go '' @ [0x2022] @ lit '' cmd/demo/main.go'')])],
    PyDict
     [(''title'', PyStr (lit ''VERIFIKASI & STATUS'')),
      (''items'', PyList
        [PyStr (lit ''Sumber: commit '' @ str_prefix 8 lab38_COMMIT_SHA),
         PyStr (lit ''Test passing dan race-clean.''),
         PyStr (lit ''Mutation score kontras: 0.00% vs 100.00%.'')]),
      (''type'', PyStr (lit ''bullet''))],
    PyDict
     [(''title'', PyStr (lit ''TAKEAWAYS KUNCI'')),
      (''items'', PyList
        [PyStr (lit ''Coverage '' @ [0x2260] @ lit '' quality; assertion depth'' @
            [0x51B3, 0x5B9A] @ lit '' fault detection.''),
         PyStr (lit ''Weak positivity assertions shelter every '' @ lit ''syntactic fault.''),
         PyStr (lit ''Exact boundary and boolean checks kill '' @ lit ''mutants reliably.'')]),
      (''type'', PyStr (lit ''bullet''))]]\<close>

definition lab38_slide_24 :: pycall where [lab38_slides]:
  \<open>lab38_slide_24 =
   \<lparr>posargs = [],
  kwargs =
   [(''categories'', PyList
      [PyStr (lit ''CLOSING'')]),
    (''title'', PyStr (lit ''Mutation Testing: dari Ilusi Coverage '' @ lit ''menuju Verifikasi Nyata'')),
    (''subtitle'', PyStr []),
    (''content_items'', lab38_items_24),
    (''mental_model'', PyStr (lit ''Verify execution depth, not just execution '' @ lit ''breadth.'')),
    (''source_path'', PyStr lab38_REPO_URL),
    (''slide_num'', PyStr (lit ''24 / 24''))]\<rparr>\<close>

definition lab38_calls :: "pycall list" where
  "lab38_calls =
    [lab38_slide_01, lab38_slide_02, lab38_slide_03, lab38_slide_04, lab38_slide_05,
     lab38_slide_06, lab38_slide_07, lab38_slide_08, lab38_slide_09, lab38_slide_10,
     lab38_slide_11, lab38_slide_12, lab38_slide_13, lab38_slide_14, lab38_slide_15,
     lab38_slide_16, lab38_slide_17, lab38_slide_18, lab38_slide_19, lab38_slide_20,
     lab38_slide_21, lab38_slide_22, lab38_slide_23, lab38_slide_24]"

definition lab38_deck :: deck where
  "lab38_deck =
    \<lparr>add_slide = lab38_add_slide, lab_no = lab38_LAB_NO, title_id = lab38_TITLE_ID, calls = lab38_calls\<rparr>"

section \<open>Checks of the calls\<close>

lemma lab38_shapes:
  "\<forall>c \<in> set lab38_calls. shape_of c \<in> set
    [(0, [''categories'', ''title'', ''subtitle'', ''content_items'', ''mental_model'',
      ''source_path'', ''slide_num'']),
     (0, [''categories'', ''title'', ''subtitle'', ''content_items'', ''narrative'',
      ''narrative_en'', ''mental_model'', ''source_path'', ''slide_num''])]"
  by (simp only: lab38_calls_def lab38_slides shape_eval cong: pyval_opaque)

lemma lab38_calls_ok: "\<forall>c \<in> set lab38_calls. call_ok sig_plain c"
  by (rule calls_ok_by_shapes [OF lab38_shapes])
    (simp add: shape_ok_def param_names_def signature_defs core_params_def)

lemma lab38_labels: "map (\<lambda>c. value_of sig_plain c ''slide_num'') lab38_calls = labels_24"
  by (simp only: lab38_calls_def lab38_slides keyword_eval labels_24_eval cong: pyval_opaque)

lemma lab38_contents_of:
  "map (\<lambda>c. value_of sig_plain c ''content_items'') lab38_calls =
    [lab38_items_01, lab38_items_02, lab38_items_03, lab38_items_04, lab38_items_05,
     lab38_items_06, lab38_items_07, lab38_items_08, lab38_items_09, lab38_items_10,
     lab38_items_11, lab38_items_12, lab38_items_13, lab38_items_14, lab38_items_15,
     lab38_items_16, lab38_items_17, lab38_items_18, lab38_items_19, lab38_items_20,
     lab38_items_21, lab38_items_22, lab38_items_23, lab38_items_24]"
  by (simp only: lab38_calls_def lab38_slides keyword_eval cong: pyval_opaque)

lemma lab38_items: "item_defects sig_plain lab38_calls = [(24, 1)]"
  by (simp only: item_defects_def lab38_contents_of)
    (simp add: lab38_contents item_eval cong: pystr_opaque)

end
