(* ===== verification/Deck39.thy ===== *)
theory Deck39
  imports DeckContract
begin

text \<open>
  The publication definition of lab 39, \<^verbatim>\<open>labs/39-bloom-filters/result/content_def.py\<close>:
  its module constants, every \<open>add_slide\<close> call in order (\<open>lab39_slide_01\<close> is the first),
  and the module as a whole (\<open>lab39_deck\<close>). Long strings are split into pieces that are
  concatenated; a character outside ASCII is its code point.
\<close>

named_theorems lab39_slides \<open>the add_slide calls of lab 39\<close>
named_theorems lab39_contents \<open>their content_items arguments\<close>

definition lab39_OUTPUT_DIR :: pystr where
  \<open>lab39_OUTPUT_DIR = lit ''labs/39-bloom-filters/result''\<close>

definition lab39_CHROME_BIN :: pystr where
  \<open>lab39_CHROME_BIN = lit ''/Applications/Google '' @ lit ''Chrome.app/Contents/MacOS/Google Chrome''\<close>

definition lab39_REPO_URL :: pystr where
  \<open>lab39_REPO_URL = lit ''https://github.com/lukman-ss/software-engine'' @
    lit ''ering-lab/tree/main/labs/39-bloom-filters''\<close>

definition lab39_COMMIT_SHA :: pystr where
  \<open>lab39_COMMIT_SHA = lit ''c977525a4a31ba811006df2bbc04fd031ee11765''\<close>

definition lab39_LAB_NO :: pystr where
  \<open>lab39_LAB_NO = lit ''39''\<close>

definition lab39_SLUG :: pystr where
  \<open>lab39_SLUG = lit ''bloom-filters''\<close>

definition lab39_TITLE_ID :: pystr where
  \<open>lab39_TITLE_ID = lit ''Bloom Filters''\<close>

definition lab39_SUBTITLE_ID :: pystr where
  \<open>lab39_SUBTITLE_ID = lit ''Struktur Data Probabilistik untuk '' @
    lit ''Pengurangan I/O dan Pertahanan terhadap '' @ lit ''Cache Penetration''\<close>

definition lab39_TITLE_EN :: pystr where
  \<open>lab39_TITLE_EN = lit ''Bloom Filters''\<close>

definition lab39_SUBTITLE_EN :: pystr where
  \<open>lab39_SUBTITLE_EN = lit ''Probabilistic Data Structures for I/O '' @
    lit ''Reduction and Cache Penetration Defense''\<close>

definition lab39_AUTHOR :: pystr where
  \<open>lab39_AUTHOR = lit ''Lukman / lukman-ss''\<close>

definition lab39_TOPIC_TAGS :: pystr where
  \<open>lab39_TOPIC_TAGS = lit ''Bloom Filters '' @ [0x2022] @ lit '' LSM-Tree '' @ [0x2022] @ lit '' Caching '' @
    [0x2022] @ lit '' Probabilistic Data Structures''\<close>

definition lab39_add_slide :: "pycall \<Rightarrow> pyval list \<Rightarrow> (pyexc, pyval list) res" where
  "lab39_add_slide = add_slide_plain"

definition lab39_items_01 :: pyval where [lab39_contents]:
  \<open>lab39_items_01 =
   PyList
   [PyDict
     [(''type'', PyStr (lit ''cover'')),
      (''title'', PyStr []),
      (''items'', PyList
        [PyStr (lit ''Retro CRT monitor beige dengan scanlines''),
         PyStr (lit ''ASCII art terminal yang menampilkan bit '' @ lit ''array Bloom filter''),
         PyStr (lit ''Penulis: '' @ lab39_AUTHOR)])]]\<close>

definition lab39_slide_01 :: pycall where [lab39_slides]:
  \<open>lab39_slide_01 =
   \<lparr>posargs = [],
  kwargs =
   [(''categories'', PyList
      [PyStr (lit ''COVER'')]),
    (''title'', PyStr lab39_TITLE_ID),
    (''subtitle'', PyStr lab39_SUBTITLE_ID),
    (''content_items'', lab39_items_01),
    (''mental_model'', PyStr []),
    (''source_path'', PyStr []),
    (''slide_num'', PyStr (lit ''01 / 24''))]\<rparr>\<close>

definition lab39_items_02 :: pyval where [lab39_contents]:
  \<open>lab39_items_02 =
   PyList
   [PyDict
     [(''title'', PyStr (lit ''MOTIVASI'')),
      (''items'', PyList
        [PyStr (lit ''Disk I/O adalah operasi paling mahal dalam '' @
            lit ''basis data; setiap read segment '' @ lit ''menghabiskan sumber daya.''),
         PyStr (lit ''Cache penetration terjadi ketika request '' @
            lit ''untuk kunci tidak existing melewati cache '' @
            lit ''dan membebani backend.''),
         PyStr (lit ''Server backend yang dipanggil berlebihan '' @
            lit ''dapat menyalahi batas kapasitas dan '' @ lit ''memperburuk latency tail.'')]),
      (''type'', PyStr (lit ''bullet''))],
    PyDict
     [(''title'', PyStr (lit ''BUKTI LAB'')),
      (''items'', PyList
        [PyStr (lit ''Tanpa filter: 10.000 query absent = 100.000 '' @
            lit ''disk reads (10 segment '' @ [0xD7] @ lit '' 10.000 pencarian).''),
         PyStr (lit ''Tanpa filter pada cache: 1.000 penetration '' @
            lit ''attempts = 1.000 backend calls secara '' @ lit ''linear.''),
         PyStr (lit ''Dengan Bloom filter: disk reads terpangkas '' @
            lit ''menjadi 988 (penurunan drastis 99.01%).'')]),
      (''type'', PyStr (lit ''bullet''))],
    PyDict
     [(''title'', PyStr (lit ''BATASAN SISTEM'')),
      (''items'', PyList
        [PyStr (lit ''Lab memodelkan in-memory store; di sistem '' @
            lit ''produksi nyata latensi round-trip jaringan '' @ lit ''memperparah beban.'')]),
      (''type'', PyStr (lit ''bullet''))]]\<close>

definition lab39_slide_02 :: pycall where [lab39_slides]:
  \<open>lab39_slide_02 =
   \<lparr>posargs = [],
  kwargs =
   [(''categories'', PyList
      [PyStr (lit ''MOTIVASI''),
       PyStr (lit ''BATAS LAB'')]),
    (''title'', PyStr (lit ''Disk I/O Mahal, Cache Penetration Mengancam'')),
    (''subtitle'', PyStr (lit ''Query kunci tidak ada di LSM-Tree memicu '' @
        lit ''ribuan disk read, sementara request '' @
        lit ''non-existent ke cache melintasi backend '' @ lit ''secara tidak terkendali.'')),
    (''content_items'', lab39_items_02),
    (''narrative'', PyStr (lit ''Di lingkungan production dengan ratusan '' @
        lit ''ribu record, setiap pencarian kunci tidak '' @
        lit ''ada di sebuah basis data berbasis '' @
        lit ''Log-Structured Merge Tree (LSM-Tree) '' @
        lit ''memaksa pembacaan berulang ke semua segment '' @
        lit ''SSTable yang ada di disk. Akibatnya, ribuan '' @
        lit ''operasi I/O yang sia-sia tetap dieksekusi '' @
        lit ''hanya untuk mengonfirmasi bahwa data yang '' @
        lit ''dicari memang tidak ada. Kondisi ini '' @
        lit ''diperparah oleh fenomena cache penetration, '' @
        lit ''di mana banjir permintaan terhadap '' @
        lit ''identifier acak atau non-existent melompati '' @
        lit ''layer in-memory cache dan menghantam '' @
        lit ''downstream database secara langsung, memicu '' @
        lit ''kelelahan connection pool dan lonjakan '' @ lit ''latensi p99.'')),
    (''mental_model'', PyStr (lit ''Probabilistic filters prevent unnecessary '' @
        lit ''backend dives. One false positive is better '' @
        lit ''than a thousand disk reads.'')),
    (''source_path'', PyStr (lit ''labs/39-bloom-filters/README.md'')),
    (''slide_num'', PyStr (lit ''02 / 24''))]\<rparr>\<close>

definition lab39_items_03 :: pyval where [lab39_contents]:
  \<open>lab39_items_03 =
   PyList
   [PyDict
     [(''title'', PyStr (lit ''KOMPONEN TEORI'')),
      (''items'', PyList
        [PyStr (lit ''Bit array berukuran m bit yang awalnya '' @
            lit ''seluruhnya diinisialisasi dengan nilai 0.''),
         PyStr (lit ''k fungsi hash seragam yang memetakan elemen '' @
            lit ''kunci ke indeks posisi bit array.''),
         PyStr (lit ''False negative rate 0% mutlak: elemen yang '' @
            lit ''ada tidak akan pernah dilaporkan absen.''),
         PyStr (lit ''False positive rate '' @ [0x3B5] @
            lit '': probabilitas elemen absen dilaporkan '' @
            lit ''hadir dapat dikonfigurasi.'')]),
      (''type'', PyStr (lit ''bullet''))],
    PyDict
     [(''title'', PyStr (lit ''MODEL MENTAL'')),
      (''items'', PyList
        [PyStr (lit ''Definitely Not in Set: jika pengecekan '' @
            lit ''menghasilkan false, kunci pasti tidak ada '' @ lit ''dalam koleksi.''),
         PyStr (lit ''Possibly in Set: jika pengecekan bernilai '' @
            lit ''true, kunci kemungkinan ada atau terjadi '' @ lit ''collision.''),
         PyStr (lit ''Asymmetric guarantee menjadikannya gerbang '' @
            lit ''penjaga ideal untuk operasi I/O yang '' @ lit ''berbiaya mahal.'')]),
      (''type'', PyStr (lit ''bullet''))],
    PyDict
     [(''title'', PyStr (lit ''BATASAN STRUKTUR'')),
      (''items'', PyList
        [PyStr (lit ''Bloom filter standar bersifat statis dan '' @
            lit ''secara fundamental tidak mendukung operasi '' @ lit ''penghapusan.'')]),
      (''type'', PyStr (lit ''bullet''))]]\<close>

definition lab39_slide_03 :: pycall where [lab39_slides]:
  \<open>lab39_slide_03 =
   \<lparr>posargs = [],
  kwargs =
   [(''categories'', PyList
      [PyStr (lit ''DEFINISI''),
       PyStr (lit ''MODEL MENTAL'')]),
    (''title'', PyStr (lit ''Bloom Filter: Definisi dan Jaminan Asimetris'')),
    (''subtitle'', PyStr (lit ''Struktur probabilistik yang memberikan dua '' @
        lit ''jaminan berbeda: zero false negatives dan '' @
        lit ''configurable false positives.'')),
    (''content_items'', lab39_items_03),
    (''narrative'', PyStr (lit ''Bloom filter adalah struktur data '' @
        lit ''probabilistik yang didesain secara khusus '' @
        lit ''untuk menjawab pertanyaan keanggotaan '' @
        lit ''himpunan dengan efisiensi memori yang '' @
        lit ''sangat tinggi. Karakteristik utama dari '' @
        lit ''struktur ini terletak pada jaminan '' @
        lit ''asimetrisnya yang sangat menguntungkan '' @
        lit ''arsitektur sistem. Ketika fungsi '' @
        lit ''pemeriksaan mengembalikan nilai false, '' @
        lit ''sistem memiliki kepastian seratus persen '' @
        lit ''bahwa elemen tersebut tidak pernah '' @
        lit ''dimasukkan sebelumnya. Sebaliknya, ketika '' @
        lit ''fungsi mengembalikan nilai true, terdapat '' @
        lit ''kemungkinan kecil bahwa itu merupakan false '' @
        lit ''positive akibat tumpang tindih bit hash '' @ lit ''dari elemen-elemen lain.'')),
    (''mental_model'', PyStr (lit ''Zero false negatives is a feature, not a '' @
        lit ''bug. Trade certainty for compression.'')),
    (''source_path'', PyStr (lit ''internal/bloom/bloom.go:9-15'')),
    (''slide_num'', PyStr (lit ''03 / 24''))]\<rparr>\<close>

definition lab39_items_04 :: pyval where [lab39_contents]:
  \<open>lab39_items_04 =
   PyList
   [PyDict
     [(''title'', PyStr (lit ''FORMULA TERTUTUP'')),
      (''items'', PyList
        [PyStr (lit ''m = ceil(-n '' @ [0xD7] @ lit '' ln('' @ [0x3B5] @ lit '') / (ln 2)'' @
            [0xB2] @ lit '')  '' @ [0x2192] @
            lit '' total alokasi bit array yang dibutuhkan''),
         PyStr (lit ''k = round((m/n) '' @ [0xD7] @ lit '' ln 2)       '' @ [0x2192] @
            lit '' kuantitas probe fungsi hash paling optimal''),
         PyStr (lit ''Bits per element konstan: m/n '' @ [0x2248] @ lit '' -1.44 '' @ [0xD7] @
            lit '' log'' @ [0x2082] @ lit ''('' @ [0x3B5] @ lit '') bit per entitas data'')]),
      (''type'', PyStr (lit ''bullet''))],
    PyDict
     [(''title'', PyStr (lit ''CONTOH PERHITUNGAN'')),
      (''items'', PyList
        [PyStr (lit ''Untuk n = 10.000 elemen dengan target false '' @ lit ''positive rate '' @
            [0x3B5] @ lit '' = 0.01 (1%):''),
         PyStr (lit ''m = ceil(-10000 '' @ [0xD7] @
            lit '' ln(0.01) / 0.48045) = 95.851 bit (hanya '' @
            lit ''sekitar 11.7 Kilobyte memori).''),
         PyStr (lit ''k = round((95851/10000) '' @ [0xD7] @
            lit '' 0.69315) = 7 fungsi hash independen.''),
         PyStr (lit ''Rasio memori teoritis: 9.59 bit per elemen '' @
            lit ''untuk jaminan 99% filtrasi tepat sasaran.'')]),
      (''type'', PyStr (lit ''bullet''))],
    PyDict
     [(''title'', PyStr (lit ''TABEL PERBANDINGAN EPSILON'')),
      (''items'', PyList
        [PyStr (lit ''Target FP Rate '' @ [0x3B5] @ lit '' | Bits per Elemen | Jumlah Hash k''),
         PyStr (lit ''0.10 (10%) | 4.79 bits | 3 hash probes''),
         PyStr (lit ''0.01 (1%) | 9.59 bits | 7 hash probes''),
         PyStr (lit ''0.001 (0.1%) | 14.38 bits | 10 hash probes'')]),
      (''type'', PyStr (lit ''table''))]]\<close>

definition lab39_slide_04 :: pycall where [lab39_slides]:
  \<open>lab39_slide_04 =
   \<lparr>posargs = [],
  kwargs =
   [(''categories'', PyList
      [PyStr (lit ''ARITMETIKA''),
       PyStr (lit ''OPTIMASI'')]),
    (''title'', PyStr (lit ''Fondasi Matematika Ukuran Bit Array dan '' @ lit ''Hash Optimal'')),
    (''subtitle'', PyStr (lit ''Ukuran alokasi memori m dan jumlah fungsi '' @
        lit ''hash k diturunkan secara presisi dari '' @
        lit ''kapasitas elemen n dan target error rate '' @ [0x3B5] @ lit ''.'')),
    (''content_items'', lab39_items_04),
    (''narrative'', PyStr (lit ''Penentuan dimensi bit array dan jumlah '' @
        lit ''fungsi hash bukanlah tebakan empiris '' @
        lit ''melainkan kalkulasi matematis yang ketat. '' @
        lit ''Menggunakan persamaan klasik yang '' @
        lit ''dianalisis ulang oleh Kirsch dan '' @
        lit ''Mitzenmacher, kapasitas bit m dihitung '' @
        lit ''untuk meminimalkan probabilitas kolusi hash '' @
        lit ''pada tingkat saturasi bit array tertentu. '' @
        lit ''Pada target false positive rate satu '' @
        lit ''persen, setiap elemen hanya membutuhkan '' @
        lit ''alokasi memori sebesar sembilan koma lima '' @
        lit ''puluh sembilan bit. Dibandingkan dengan '' @
        lit ''menyimpan representasi string mentah yang '' @
        lit ''memakan puluhan byte, Bloom filter '' @
        lit ''menghadirkan kompresi ruang penyimpanan '' @ lit ''puluhan kali lipat.'')),
    (''mental_model'', PyStr (lit ''Math gives you compression; testing gives '' @ lit ''you truth.'')),
    (''source_path'', PyStr (lit ''internal/bloom/bloom.go:85-102'')),
    (''slide_num'', PyStr (lit ''04 / 24''))]\<rparr>\<close>

definition lab39_items_05 :: pyval where [lab39_contents]:
  \<open>lab39_items_05 =
   PyList
   [PyDict
     [(''title'', PyStr (lit ''FORMULA LINIER'')),
      (''items'', PyList
        [PyStr (lit ''h1 = FNV-1a 64-bit hash dari representasi '' @ lit ''byte kunci''),
         PyStr (lit ''h2 = h1 XOR (h1 rotasi 17 bit | h1 rotasi '' @
            lit ''47 bit) sebagai hash ortogonal kedua''),
         PyStr (lit ''Posisi bit ke-i: pos_i = (h1 + i '' @ [0xD7] @
            lit '' h2) mod m untuk indeks probe i = 0 hingga '' @ lit ''k-1'')]),
      (''type'', PyStr (lit ''bullet''))],
    PyDict
     [(''title'', PyStr (lit ''KEUNTUNGAN ALGORITMIK'')),
      (''items'', PyList
        [PyStr (lit ''Menghilangkan kebutuhan mengeksekusi k '' @
            lit ''fungsi hash kriptografis yang berulang dan '' @ lit ''berat.''),
         PyStr (lit ''Secara matematis terbukti menghasilkan '' @
            lit ''distribusi bit seragam setara dengan k hash '' @ lit ''acak terpisah.''),
         PyStr (lit ''Zero memory allocations: seluruh kalkulasi '' @
            lit ''probe berjalan murni pada register CPU.'')]),
      (''type'', PyStr (lit ''bullet''))],
    PyDict
     [(''title'', PyStr (lit ''KODE IMPLEMENTASI'')),
      (''items'', PyList
        [PyStr (lit ''func baseHashes(key []byte) (uint64, '' @ lit ''uint64) {''),
         PyStr (lit ''    h := fnv.New64a()''),
         PyStr (lit ''    _, _ = h.Write(key)''),
         PyStr (lit ''    h1 := h.Sum64()''),
         PyStr (lit ''    h2 := h1 ^ (h1>>17 | h1<<47)''),
         PyStr (lit ''    if h2 == 0 { h2 = 0xdeadbeefdeadbeef }''),
         PyStr (lit ''    return h1, h2''),
         PyStr (lit ''}'')]),
      (''type'', PyStr (lit ''code''))]]\<close>

definition lab39_slide_05 :: pycall where [lab39_slides]:
  \<open>lab39_slide_05 =
   \<lparr>posargs = [],
  kwargs =
   [(''categories'', PyList
      [PyStr (lit ''HASHING''),
       PyStr (lit ''EFISIENSI'')]),
    (''title'', PyStr (lit ''Optimasi Double Hashing Kirsch-Mitzenmacher'')),
    (''subtitle'', PyStr (lit ''Mereduksi kompleksitas komputasi k fungsi '' @
        lit ''hash independen menjadi hanya dua hash '' @
        lit ''dasar via kombinasi linier.'')),
    (''content_items'', lab39_items_05),
    (''narrative'', PyStr (lit ''Salah satu tantangan implementasi Bloom '' @
        lit ''filter berkinerja tinggi adalah mahalnya '' @
        lit ''komputasi jika sistem harus mengeksekusi '' @
        lit ''tujuh hingga sepuluh algoritma hash yang '' @
        lit ''berbeda untuk setiap kunci. Teknik double '' @
        lit ''hashing yang diperkenalkan oleh Kirsch dan '' @
        lit ''Mitzenmacher pada tahun 2006 membuktikan '' @
        lit ''bahwa dua nilai hash dasar 64-bit cukup '' @
        lit ''untuk mensimulasikan k fungsi hash '' @
        lit ''independen tanpa degradasi akurasi false '' @
        lit ''positive. Di Lab 39, hash pertama dihitung '' @
        lit ''menggunakan FNV-1a, dan hash kedua '' @
        lit ''dihasilkan melalui rotasi xorshift pada '' @ lit ''register 64-bit.'')),
    (''mental_model'', PyStr (lit ''Linear probing with two hashes achieves the '' @
        lit ''same distribution as k independent hashes.'')),
    (''source_path'', PyStr (lit ''internal/bloom/bloom.go:65-83'')),
    (''slide_num'', PyStr (lit ''05 / 24''))]\<rparr>\<close>

definition lab39_items_06 :: pyval where [lab39_contents]:
  \<open>lab39_items_06 =
   PyList
   [PyDict
     [(''title'', PyStr (lit ''STRUKTUR DATA GO'')),
      (''items'', PyList
        [PyStr (lit ''type Filter struct {''),
         PyStr (lit ''    bits []uint64 // array bit 64-bit '' @ lit ''word-aligned''),
         PyStr (lit ''    m    uint     // total kapasitas bit''),
         PyStr (lit ''    k    uint     // jumlah probe per elemen''),
         PyStr (lit ''}'')]),
      (''type'', PyStr (lit ''code''))],
    PyDict
     [(''title'', PyStr (lit ''OPERASI BITWISE CEPAT'')),
      (''items'', PyList
        [PyStr (lit ''Menandai bit: f.bits[pos/64] |= 1 << (pos % '' @ lit ''64)''),
         PyStr (lit ''Memeriksa bit: if f.bits[pos/64] & (1 << '' @
            lit ''(pos % 64)) == 0 { return false }''),
         PyStr (lit ''Ukuran kata dialokasikan dengan padding '' @
            lit ''kelipatan 64 bit: words := (m + 63) / 64'')]),
      (''type'', PyStr (lit ''bullet''))],
    PyDict
     [(''title'', PyStr (lit ''MUTASI DAN AKSES'')),
      (''items'', PyList
        [PyStr (lit ''Metode Add menandai tepat k bit dalam bit '' @
            lit ''array untuk setiap kunci.''),
         PyStr (lit ''Metode Check melakukan short-circuiting: '' @
            lit ''langsung kembali false saat menemukan bit 0 '' @ lit ''pertama.'')]),
      (''type'', PyStr (lit ''bullet''))]]\<close>

definition lab39_slide_06 :: pycall where [lab39_slides]:
  \<open>lab39_slide_06 =
   \<lparr>posargs = [],
  kwargs =
   [(''categories'', PyList
      [PyStr (lit ''IMPLEMENTASI''),
       PyStr (lit ''BIT MANIPULATION'')]),
    (''title'', PyStr (lit ''Arsitektur Bit Array Word-Aligned dan API '' @ lit ''Inti'')),
    (''subtitle'', PyStr (lit ''Representasi memori berbasis slice uint64 '' @
        lit ''yang efisien dengan antarmuka Add dan Check '' @ lit ''yang padat.'')),
    (''content_items'', lab39_items_06),
    (''narrative'', PyStr (lit ''Untuk memaksimalkan performa pada '' @
        lit ''arsitektur perangkat keras modern, bit '' @
        lit ''array tidak diimplementasikan sebagai '' @
        lit ''kumpulan boolean individual, melainkan '' @
        lit ''dikemas ke dalam slice uint64 64-bit yang '' @
        lit ''word-aligned. Operasi penentuan posisi bit '' @
        lit ''memanfaatkan pembagian integer cepat untuk '' @
        lit ''indeks slice dan operasi modulo bitwise '' @
        lit ''untuk pergeseran bit (bit shifting). '' @
        lit ''Pendekatan ini membuat operasi Add dan '' @
        lit ''Check berjalan dalam orde nanodetik serta '' @
        lit ''ramah terhadap CPU cache line.'')),
    (''mental_model'', PyStr (lit ''Bit manipulation is the soul of Bloom '' @
        lit ''filters. Everything else is interface.'')),
    (''source_path'', PyStr (lit ''internal/bloom/bloom.go:11-53'')),
    (''slide_num'', PyStr (lit ''06 / 24''))]\<rparr>\<close>

definition lab39_items_07 :: pyval where [lab39_contents]:
  \<open>lab39_items_07 =
   PyList
   [PyDict
     [(''title'', PyStr (lit ''DESAIN KOMPONEN'')),
      (''items'', PyList
        [PyStr (lit ''Segment: representasi immutable komponen '' @
            lit ''SSTable berisi key-value map dan instance '' @ lit ''Bloom filter.''),
         PyStr (lit ''LSMStore: agregator multi-segment yang '' @
            lit ''mengoordinasikan pencarian data dari '' @
            lit ''segment termuda ke terlama.''),
         PyStr (lit ''Instrumentasi diskReads: pencatatan atomik '' @
            lit ''setiap kali isi segment diakses secara '' @ lit ''fisik.'')]),
      (''type'', PyStr (lit ''bullet''))],
    PyDict
     [(''title'', PyStr (lit ''LOGIKA PRUNING DISK'')),
      (''items'', PyList
        [PyStr (lit ''func (s *LSMStore) Get(key string) (string, '' @ lit ''bool) {''),
         PyStr (lit ''    for i := len(s.segments) - 1; i >= 0; '' @ lit ''i-- {''),
         PyStr (lit ''        seg := s.segments[i]''),
         PyStr (lit ''        if seg.filter != nil && '' @ lit ''!seg.filter.Check(keyBytes) {''),
         PyStr (lit ''            continue // disk read diabaikan '' @ lit ''sepenuhnya!''),
         PyStr (lit ''        }''),
         PyStr (lit ''        atomic.AddUint64(&s.diskReads, 1)''),
         PyStr (lit ''        // load data block...''),
         PyStr (lit ''    }''),
         PyStr (lit ''}'')]),
      (''type'', PyStr (lit ''code''))],
    PyDict
     [(''title'', PyStr (lit ''DAMPAK PADA PIPELINE'')),
      (''items'', PyList
        [PyStr (lit ''Pencarian kunci yang tidak ada langsung '' @
            lit ''dieliminasi sebelum memicu operasi seek dan '' @ lit ''read disk.'')]),
      (''type'', PyStr (lit ''bullet''))]]\<close>

definition lab39_slide_07 :: pycall where [lab39_slides]:
  \<open>lab39_slide_07 =
   \<lparr>posargs = [],
  kwargs =
   [(''categories'', PyList
      [PyStr (lit ''ARSITEKTUR''),
       PyStr (lit ''LSM-STORAGE'')]),
    (''title'', PyStr (lit ''Arsitektur Penyimpanan LSM-Tree Berbasis '' @ lit ''Segment Filter'')),
    (''subtitle'', PyStr (lit ''Integrasi Bloom filter pada setiap '' @
        lit ''immutable SSTable segment untuk eliminasi '' @ lit ''I/O disk.'')),
    (''content_items'', lab39_items_07),
    (''narrative'', PyStr (lit ''Penerapan paling terkenal dari Bloom filter '' @
        lit ''di dunia industri adalah mesin penyimpanan '' @
        lit ''Log-Structured Merge Tree (LSM-Tree) '' @
        lit ''seperti RocksDB, Cassandra, dan Bigtable. '' @
        lit ''Karena data pada LSM-Tree tersebar di '' @
        lit ''banyak file segment SSTable yang immutable '' @
        lit ''akibat operasi flush periodik, pencarian '' @
        lit ''record yang tidak ada mengharuskan sistem '' @
        lit ''membaca setiap segment satu per satu. '' @
        lit ''Dengan menyematkan Bloom filter kecil di '' @
        lit ''header setiap segment, sistem dapat '' @
        lit ''memangkas pencarian disk hampir sepenuhnya.'')),
    (''mental_model'', PyStr (lit ''Prune before you peek. Bloom filters turn '' @
        lit ''O(N) disk scans into O(1) rejections.'')),
    (''source_path'', PyStr (lit ''internal/store/lsm.go:10-74'')),
    (''slide_num'', PyStr (lit ''07 / 24''))]\<rparr>\<close>

definition lab39_items_08 :: pyval where [lab39_contents]:
  \<open>lab39_items_08 =
   PyList
   [PyDict
     [(''title'', PyStr (lit ''METRIK EKSPERIMEN'')),
      (''items'', PyList
        [PyStr (lit ''Parameter | Tanpa Filter | Dengan Bloom '' @ lit ''Filter''),
         PyStr (lit ''Jumlah Segment Data | 10 segment | 10 '' @ lit ''segment''),
         PyStr (lit ''Total Kunci Tersimpan | 20.000 record | '' @ lit ''20.000 record''),
         PyStr (lit ''Kueri Kunci Absen | 10.000 query | 10.000 '' @ lit ''query''),
         PyStr (lit ''Total Pembacaan Segment | 100.000 reads | '' @ lit ''988 reads''),
         PyStr (lit ''Efisiensi Pengurangan I/O | Baseline (0%) | '' @ lit ''99.01% penurunan'')]),
      (''type'', PyStr (lit ''table''))],
    PyDict
     [(''title'', PyStr (lit ''ANALISIS AKUMULASI DISK'')),
      (''items'', PyList
        [PyStr (lit ''Pada sistem tanpa filter, setiap kueri '' @
            lit ''absen memicu pembacaan 10 segment sekaligus '' @ lit ''secara berurutan.''),
         PyStr (lit ''Dengan Bloom filter ('' @ [0x3B5] @
            lit '' = 0.01), hanya 988 operasi pembacaan yang '' @
            lit ''bocor akibat batas toleransi false positive.'')]),
      (''type'', PyStr (lit ''bullet''))],
    PyDict
     [(''title'', PyStr (lit ''KORELASI TEORI'')),
      (''items'', PyList
        [PyStr (lit ''Tingkat kebocoran I/O sebesar 0.988% '' @
            lit ''konsisten sempurna dengan target false '' @ lit ''positive rate 1%.'')]),
      (''type'', PyStr (lit ''bullet''))]]\<close>

definition lab39_slide_08 :: pycall where [lab39_slides]:
  \<open>lab39_slide_08 =
   \<lparr>posargs = [],
  kwargs =
   [(''categories'', PyList
      [PyStr (lit ''BUKTI KODE''),
       PyStr (lit ''METRIK DISK'')]),
    (''title'', PyStr (lit ''Pengurangan 99% Disk I/O pada Pencarian '' @ lit ''Kunci Absen'')),
    (''subtitle'', PyStr (lit ''Pengujian 10.000 query kunci absen pada 10 '' @
        lit ''segment memangkas pembacaan dari 100.000 '' @ lit ''menjadi 988 kali.'')),
    (''content_items'', lab39_items_08),
    (''narrative'', PyStr (lit ''Eksperimen eksekusi pada skenario kedua '' @
        lit ''mendemonstrasikan secara kuantitatif '' @
        lit ''besarnya penghematan sumber daya komputasi. '' @
        lit ''Ketika sepuluh ribu kueri untuk data yang '' @
        lit ''tidak ada dikirimkan ke LSMStore dengan '' @
        lit ''sepuluh segment data, arsitektur tanpa '' @
        lit ''filter membukukan tepat seratus ribu '' @
        lit ''pembacaan disk. Saat Bloom filter '' @
        lit ''diaktifkan dengan konfigurasi error satu '' @
        lit ''persen, angka tersebut terpangkas drastis '' @
        lit ''menjadi hanya 988 pembacaan. Pengurangan '' @
        lit ''sebesar 99.01% ini secara langsung '' @
        lit ''melipatgandakan daya tampung query engine.'')),
    (''mental_model'', PyStr (lit ''>99% of absent queries are filtered before '' @ lit ''touching storage.'')),
    (''source_path'', PyStr (lit ''cmd/demo/main.go:59-91'')),
    (''slide_num'', PyStr (lit ''08 / 24''))]\<rparr>\<close>

definition lab39_items_09 :: pyval where [lab39_contents]:
  \<open>lab39_items_09 =
   PyList
   [PyDict
     [(''title'', PyStr (lit ''MEKANISME KERENTANAN'')),
      (''items'', PyList
        [PyStr (lit ''Klien mengirimkan request dengan identifier '' @
            lit ''yang sengaja dibuat acak atau tidak valid.''),
         PyStr (lit ''In-memory cache memeriksa tabel hash lokal, '' @
            lit ''mencatat cache miss, dan meneruskan query '' @ lit ''ke backend.''),
         PyStr (lit ''Backend database mengeksekusi query lambat '' @
            lit ''di disk hanya untuk mengembalikan status '' @ lit ''null/empty.''),
         PyStr (lit ''Karena data null umumnya tidak disimpan di '' @
            lit ''cache, kueri berulang terus menembus ke '' @ lit ''backend.'')]),
      (''type'', PyStr (lit ''bullet''))],
    PyDict
     [(''title'', PyStr (lit ''SKENARIO SERANGAN LAB'')),
      (''items'', PyList
        [PyStr (lit ''Basis data hilir hanya memuat tiga entitas '' @
            lit ''produk yang valid (product:1, 2, 3).''),
         PyStr (lit ''Sistem diserbu 5.000 kueri penetrasi '' @ lit ''simultan dengan pola '' @
            lit ''non-existent-product-{i}.''),
         PyStr (lit ''Cache standar tanpa pengamanan mencatat '' @
            lit ''tepat 5.000 pemanggilan backend langsung '' @ lit ''(100% tembus).'')]),
      (''type'', PyStr (lit ''bullet''))],
    PyDict
     [(''title'', PyStr (lit ''RISIKO PRODUKSI'')),
      (''items'', PyList
        [PyStr (lit ''Peningkatan konsumsi CPU database, '' @
            lit ''kehabisan koneksi pool, dan potensi denial '' @ lit ''of service (DoS).'')]),
      (''type'', PyStr (lit ''bullet''))]]\<close>

definition lab39_slide_09 :: pycall where [lab39_slides]:
  \<open>lab39_slide_09 =
   \<lparr>posargs = [],
  kwargs =
   [(''categories'', PyList
      [PyStr (lit ''ANATOMI MASALAH''),
       PyStr (lit ''CACHE PENETRATION'')]),
    (''title'', PyStr (lit ''Anatomi Serangan Cache Penetration pada '' @ lit ''Backend'')),
    (''subtitle'', PyStr (lit ''Permintaan berbahaya untuk data '' @
        lit ''non-existent melewati lapisan cache dan '' @
        lit ''membebani basis data primer.'')),
    (''content_items'', lab39_items_09),
    (''narrative'', PyStr (lit ''Cache penetration adalah skenario kegagalan '' @
        lit ''arsitektur caching yang sangat umum namun '' @
        lit ''kerap diabaikan. Berbeda dari cache '' @
        lit ''breakdown atau cache avalanche yang '' @
        lit ''melibatkan kunci valid yang kadaluwarsa '' @
        lit ''secara bersamaan, penetration terjadi '' @
        lit ''ketika kunci yang diminta memang tidak '' @
        lit ''pernah ada di dalam database. Arsitektur '' @
        lit ''caching konvensional tidak memiliki '' @
        lit ''mekanisme memori untuk mengingat ketiadaan '' @
        lit ''data, sehingga setiap query acak akan '' @
        lit ''meluncur bebas menuju basis data utama.'')),
    (''mental_model'', PyStr (lit ''Defend the cache before it defends you. '' @
        lit ''Block absent keys at the gate.'')),
    (''source_path'', PyStr (lit ''cmd/demo/main.go:92-128'')),
    (''slide_num'', PyStr (lit ''09 / 24''))]\<rparr>\<close>

definition lab39_items_10 :: pyval where [lab39_contents]:
  \<open>lab39_items_10 =
   PyList
   [PyDict
     [(''title'', PyStr (lit ''ALUR PEMERIKSAAN KONTRAK'')),
      (''items'', PyList
        [PyStr (lit ''func (c *Cache) Get(key string) (string, '' @ lit ''bool) {''),
         PyStr (lit ''    if c.filter != nil && '' @ lit ''!c.filter.Check([]byte(key)) {''),
         PyStr (lit ''        return "", false // DITOLAK SEBELUM '' @ lit ''MENYENTUH BACKEND''),
         PyStr (lit ''    }''),
         PyStr (lit ''    // Cek memori lokal cache...''),
         PyStr (lit ''    // Jika miss, baru panggil '' @ lit ''c.backend.Fetch(key)''),
         PyStr (lit ''}'')]),
      (''type'', PyStr (lit ''code''))],
    PyDict
     [(''title'', PyStr (lit ''KARAKTERISTIK OPERASIONAL'')),
      (''items'', PyList
        [PyStr (lit ''Kunci yang valid diisi ke dalam filter saat '' @
            lit ''inisialisasi atau saat pertama kali '' @ lit ''divalidasi dari backend.''),
         PyStr (lit ''Permintaan untuk kunci asing langsung '' @
            lit ''ditolak dalam 150 nanodetik via kalkulasi '' @
            lit ''bitwise di memori RAM.''),
         PyStr (lit ''Database hilir terlindungi sepenuhnya dari '' @
            lit ''lonjakan lalu lintas query non-existent.'')]),
      (''type'', PyStr (lit ''bullet''))],
    PyDict
     [(''title'', PyStr (lit ''HASIL VERIFIKASI'')),
      (''items'', PyList
        [PyStr (lit ''Dari 5.000 percobaan penetrasi kunci asing, '' @
            lit ''tepat 0 kueri yang berhasil menembus ke '' @ lit ''backend.'')]),
      (''type'', PyStr (lit ''bullet''))]]\<close>

definition lab39_slide_10 :: pycall where [lab39_slides]:
  \<open>lab39_slide_10 =
   \<lparr>posargs = [],
  kwargs =
   [(''categories'', PyList
      [PyStr (lit ''SOLUSI DESAIN''),
       PyStr (lit ''ADMISSION GATE'')]),
    (''title'', PyStr (lit ''Bloom Filter sebagai Admission Gate pada '' @ lit ''Arsitektur Cache'')),
    (''subtitle'', PyStr (lit ''Pemeriksaan keanggotaan di tepi gerbang '' @
        lit ''cache menolak akses ke backend database '' @ lit ''untuk kunci asing.'')),
    (''content_items'', lab39_items_10),
    (''narrative'', PyStr (lit ''Dengan memasang Bloom filter thread-safe '' @
        lit ''(SyncFilter) sebagai admission gate di '' @
        lit ''bagian depan cache layer, kita menciptakan '' @
        lit ''dinding pertahanan yang sangat kokoh. '' @
        lit ''Setiap kali request tiba, sistem terlebih '' @
        lit ''dahulu menanyakan keberadaan kunci pada '' @
        lit ''filter. Jika filter menyatakan kunci pasti '' @
        lit ''tidak ada, request langsung dikembalikan '' @
        lit ''sebagai respons negatif tanpa pernah '' @
        lit ''mengalokasikan thread database. Backend '' @
        lit ''hanya akan dihubungi jika kunci tersebut '' @ lit ''lolos pemeriksaan awal.'')),
    (''mental_model'', PyStr (lit ''A Bloom filter at the cache edge stops 100% '' @
        lit ''of absent-key attacks.'')),
    (''source_path'', PyStr (lit ''internal/store/cache.go:49-79'')),
    (''slide_num'', PyStr (lit ''10 / 24''))]\<rparr>\<close>

definition lab39_items_11 :: pyval where [lab39_contents]:
  \<open>lab39_items_11 =
   PyList
   [PyDict
     [(''title'', PyStr (lit ''UNIT TEST HARNESS'')),
      (''items'', PyList
        [PyStr (lit ''func TestNoFalseNegatives(t *testing.T) {''),
         PyStr (lit ''    bf := New(10000, 0.01)''),
         PyStr (lit ''    for i := 0; i < 10000; i++ {''),
         PyStr (lit ''        bf.Add([]byte(keys[i]))''),
         PyStr (lit ''    }''),
         PyStr (lit ''    for _, k := range keys {''),
         PyStr (lit ''        if !bf.Check([]byte(k)) {''),
         PyStr (lit ''            t.Fatalf("False negative '' @
            lit ''detected for key: %s", k)''),
         PyStr (lit ''        }''),
         PyStr (lit ''    }''),
         PyStr (lit ''}'')]),
      (''type'', PyStr (lit ''code''))],
    PyDict
     [(''title'', PyStr (lit ''HASIL PENGUJIAN OTOMATIS'')),
      (''items'', PyList
        [PyStr (lit ''Total kunci yang dimasukkan: 10.000 string '' @ lit ''unik''),
         PyStr (lit ''Pengecekan keanggotaan ulang: 10.000 kali '' @ lit ''pengujian''),
         PyStr (lit ''False negative yang ditemukan: Tepat 0 '' @
            lit ''kasus (0.00% error rate)''),
         PyStr (lit ''Status verifikasi Go test: PASS (durasi '' @ lit ''eksekusi 0.00 detik)'')]),
      (''type'', PyStr (lit ''bullet''))],
    PyDict
     [(''title'', PyStr (lit ''KESEPAKATAN ARSITEKTUR'')),
      (''items'', PyList
        [PyStr (lit ''Sistem aman mengabaikan pembacaan disk '' @
            lit ''karena tidak ada risiko kehilangan data '' @ lit ''yang valid.'')]),
      (''type'', PyStr (lit ''bullet''))]]\<close>

definition lab39_slide_11 :: pycall where [lab39_slides]:
  \<open>lab39_slide_11 =
   \<lparr>posargs = [],
  kwargs =
   [(''categories'', PyList
      [PyStr (lit ''VERIFIKASI TEST''),
       PyStr (lit ''INVARIAN MUTLAK'')]),
    (''title'', PyStr (lit ''Pembuktian Invarian Nol False Negative pada '' @ lit ''10.000 Kunci'')),
    (''subtitle'', PyStr (lit ''Pengujian unit test memverifikasi seluruh '' @
        lit ''kunci yang dimasukkan selalu terdeteksi '' @ lit ''hadir tanpa pengecualian.'')),
    (''content_items'', lab39_items_11),
    (''narrative'', PyStr (lit ''Invarian paling fundamental yang wajib '' @
        lit ''dibuktikan pada Bloom filter adalah '' @
        lit ''ketiadaan false negative. Jika sebuah '' @
        lit ''filter secara keliru menyatakan suatu kunci '' @
        lit ''tidak ada padahal kunci tersebut sebenarnya '' @
        lit ''tersimpan di basis data, maka sistem akan '' @
        lit ''mengalami kehilangan data fungsional '' @
        lit ''(silent data loss). Pengujian '' @
        lit ''TestNoFalseNegatives secara teliti '' @
        lit ''memverifikasi sepuluh ribu kunci unik yang '' @
        lit ''dimasukkan dan membuktikan bahwa seluruhnya '' @
        lit ''berhasil ditemukan kembali tanpa ada satu '' @ lit ''pun kegagalan.'')),
    (''mental_model'', PyStr (lit ''False negative = 0% is the only guarantee '' @
        lit ''you need for defensive filtering.'')),
    (''source_path'', PyStr (lit ''internal/bloom/bloom_test.go:12-28'')),
    (''slide_num'', PyStr (lit ''11 / 24''))]\<rparr>\<close>

definition lab39_items_12 :: pyval where [lab39_contents]:
  \<open>lab39_items_12 =
   PyList
   [PyDict
     [(''title'', PyStr (lit ''PENGUKURAN STATISTIK'')),
      (''items'', PyList
        [PyStr (lit ''Metrik Uji | Target Teori | Hasil Terukur''),
         PyStr (lit ''Kapasitas Filter n | 10.000 elemen | 10.000 '' @ lit ''elemen terisi''),
         PyStr (lit ''Target False Positive '' @ [0x3B5] @
            lit '' | 0.0100 (1.00%) | 0.0098 - 0.00996 '' @ lit ''(~0.99%)''),
         PyStr (lit ''Kueri Kunci Asing | 50.000 kueri | 50.000 '' @ lit ''kueri unik''),
         PyStr (lit ''Deteksi False Positive | ~500 kueri | 489 - '' @ lit ''498 deteksi''),
         PyStr (lit ''Toleransi Kebisingan | 2.5 '' @ [0xD7] @
            lit '' target (2.5%) | Lolos verifikasi'')]),
      (''type'', PyStr (lit ''table''))],
    PyDict
     [(''title'', PyStr (lit ''KONSISTENSI FORMULA'')),
      (''items'', PyList
        [PyStr (lit ''Persamaan FP rate: '' @ [0x3B5] @ lit '' '' @ [0x2248] @
            lit '' (1 - e^(-k'' @ [0xD7] @ lit ''n/m))^k''),
         PyStr (lit ''Dengan m/n = 9.585 dan k = 7, probabilitas '' @
            lit ''teoretis menghasilkan 0.00997.''),
         PyStr (lit ''Hasil empiris 498 dari 50.000 kueri '' @
            lit ''membuktikan keandalan formula '' @ lit ''Kirsch-Mitzenmacher.'')]),
      (''type'', PyStr (lit ''bullet''))],
    PyDict
     [(''title'', PyStr (lit ''STABILITAS RUNNING'')),
      (''items'', PyList
        [PyStr (lit ''Pengujian berulang pada berbagai seed '' @
            lit ''menghasilkan deviasi standar di bawah 0.03%.'')]),
      (''type'', PyStr (lit ''bullet''))]]\<close>

definition lab39_slide_12 :: pycall where [lab39_slides]:
  \<open>lab39_slide_12 =
   \<lparr>posargs = [],
  kwargs =
   [(''categories'', PyList
      [PyStr (lit ''VERIFIKASI EMPIRIS''),
       PyStr (lit ''AKURASI STATISTIK'')]),
    (''title'', PyStr (lit ''Validasi Tingkat False Positive Empiris '' @ lit ''pada 50.000 Kueri'')),
    (''subtitle'', PyStr (lit ''Pengukuran statistik mencatat false '' @
        lit ''positive sebesar 0.996%, sangat presisi '' @
        lit ''terhadap target desain 1.00%.'')),
    (''content_items'', lab39_items_12),
    (''narrative'', PyStr (lit ''Karakteristik kedua dari Bloom filter '' @
        lit ''adalah laju false positive yang dapat '' @
        lit ''dikontrol. Pada unit test '' @
        lit ''TestFalsePositiveRate, filter yang telah '' @
        lit ''memuat sepuluh ribu kunci diuji dengan lima '' @
        lit ''puluh ribu kueri kunci acak yang dipastikan '' @
        lit ''tidak pernah dimasukkan. Hasil eksekusi '' @
        lit ''mencatat 489 hingga 498 deteksi false '' @
        lit ''positive, yang merepresentasikan tingkat '' @
        lit ''error sebesar 0.98% hingga 0.996%. Angka '' @
        lit ''ini bersesuaian sempurna dengan batas '' @
        lit ''teoretis satu persen yang ditetapkan pada '' @ lit ''parameter konstruktor.'')),
    (''mental_model'', PyStr (lit ''Empirical FP converges to theoretical '' @ lit ''within noise margins.'')),
    (''source_path'', PyStr (lit ''internal/bloom/bloom_test.go:30-55'')),
    (''slide_num'', PyStr (lit ''12 / 24''))]\<rparr>\<close>

definition lab39_items_13 :: pyval where [lab39_contents]:
  \<open>lab39_items_13 =
   PyList
   [PyDict
     [(''title'', PyStr (lit ''KODE VERIFIKASI UNIT TEST'')),
      (''items'', PyList
        [PyStr (lit ''func TestOptimalSizing(t *testing.T) {''),
         PyStr (lit ''    const n = 1000''),
         PyStr (lit ''    const eps = 0.01''),
         PyStr (lit ''    bf := New(n, eps)''),
         PyStr (lit ''    expectedM := '' @
            lit ''uint(math.Ceil(-float64(n)*math.Log(eps)/(ma'' @
            lit ''th.Log(2)*math.Log(2))))''),
         PyStr (lit ''    expectedK := '' @
            lit ''uint(math.Round(float64(expectedM)/float64(n'' @ lit '')*math.Log(2)))''),
         PyStr (lit ''    // Assert bf.M() == expectedM && bf.K() '' @ lit ''== expectedK''),
         PyStr (lit ''}'')]),
      (''type'', PyStr (lit ''code''))],
    PyDict
     [(''title'', PyStr (lit ''HASIL VERIFIKASI NUMERIK'')),
      (''items'', PyList
        [PyStr (lit ''Untuk n = 1.000 dan '' @ [0x3B5] @
            lit '' = 0.01: expectedM = 9.586 bit, aktual '' @
            lit ''bf.M() = 9.586 bit (cocok presisi).''),
         PyStr (lit ''Jumlah fungsi hash: expectedK = 7 probes, '' @
            lit ''aktual bf.K() = 7 probes.''),
         PyStr (lit ''Rasio efisiensi: 9.586 bit per elemen '' @
            lit ''(memenuhi batasan ketat 9.5 <= bits <= '' @ lit ''10.5).'')]),
      (''type'', PyStr (lit ''bullet''))],
    PyDict
     [(''title'', PyStr (lit ''KEPASTIAN ALOKASI'')),
      (''items'', PyList
        [PyStr (lit ''Memastikan tidak ada alokasi bit berlebih '' @
            lit ''yang membuang memori atau alokasi kurang '' @
            lit ''yang merusak akurasi.'')]),
      (''type'', PyStr (lit ''bullet''))]]\<close>

definition lab39_slide_13 :: pycall where [lab39_slides]:
  \<open>lab39_slide_13 =
   \<lparr>posargs = [],
  kwargs =
   [(''categories'', PyList
      [PyStr (lit ''INTEGRITAS RUMUS''),
       PyStr (lit ''DIMENSI MEMORI'')]),
    (''title'', PyStr (lit ''Verifikasi Presisi Dimensi Memori dan '' @ lit ''Jumlah Hash'')),
    (''subtitle'', PyStr (lit ''TestOptimalSizing membuktikan perhitungan m '' @
        lit ''dan k di kode Go identik dengan turunan '' @ lit ''matematis tertutup.'')),
    (''content_items'', lab39_items_13),
    (''narrative'', PyStr (lit ''Implementasi yang andal tidak boleh '' @
        lit ''memiliki penyimpangan pembulatan aritmatika '' @
        lit ''float yang dapat mengubah dimensi alokasi. '' @
        lit ''TestOptimalSizing mengunci kebenaran '' @
        lit ''implementasi fungsi optimalM dan optimalK '' @
        lit ''terhadap rumus formalnya. Dengan '' @
        lit ''mengevaluasi alokasi bit dan probe hash '' @
        lit ''pada skala uji, tes ini memastikan bahwa '' @
        lit ''memori dialokasikan secara optimal tanpa '' @
        lit ''pemborosan satu byte pun seraya '' @
        lit ''mempertahankan sifat matematis kurva error.'')),
    (''mental_model'', PyStr (lit ''Formula is law. Implementation is faithful.'')),
    (''source_path'', PyStr (lit ''internal/bloom/bloom_test.go:57-79'')),
    (''slide_num'', PyStr (lit ''13 / 24''))]\<rparr>\<close>

definition lab39_items_14 :: pyval where [lab39_contents]:
  \<open>lab39_items_14 =
   PyList
   [PyDict
     [(''title'', PyStr (lit ''DESAIN BEBAN KONKUREN'')),
      (''items'', PyList
        [PyStr (lit ''8 goroutine writer secara bersamaan '' @
            lit ''menambahkan 1.000 elemen unik ke SyncFilter.''),
         PyStr (lit ''16 goroutine reader mengeksekusi 8.000 '' @
            lit ''pengecekan Check secara paralel.''),
         PyStr (lit ''Pengujian dijalankan dengan flag kompetitif '' @
            lit ''Go race detector: go test -race.'')]),
      (''type'', PyStr (lit ''bullet''))],
    PyDict
     [(''title'', PyStr (lit ''KONTRAK SINKRONISASI'')),
      (''items'', PyList
        [PyStr (lit ''type SyncFilter struct {''),
         PyStr (lit ''    mu sync.RWMutex''),
         PyStr (lit ''    f  *Filter''),
         PyStr (lit ''}''),
         PyStr (lit ''Add memegang Lock eksklusif, sementara '' @
            lit ''Check memegang RLock bersama.''),
         PyStr (lit ''Throughput pembacaan tetap maksimal di '' @
            lit ''bawah beban kerja read-heavy.'')]),
      (''type'', PyStr (lit ''code''))],
    PyDict
     [(''title'', PyStr (lit ''HASIL EKSEKUSI'')),
      (''items'', PyList
        [PyStr (lit ''Zero data race, zero deadlock, dan '' @
            lit ''integritas bit array tetap terjaga '' @ lit ''sepenuhnya.'')]),
      (''type'', PyStr (lit ''bullet''))]]\<close>

definition lab39_slide_14 :: pycall where [lab39_slides]:
  \<open>lab39_slide_14 =
   \<lparr>posargs = [],
  kwargs =
   [(''categories'', PyList
      [PyStr (lit ''KEAMANAN THREAD''),
       PyStr (lit ''KONKURENSI'')]),
    (''title'', PyStr (lit ''Keamanan Akses Konkuren dengan Race '' @ lit ''Detector Bersih'')),
    (''subtitle'', PyStr (lit ''Pengujian multi-goroutine dengan 8 writer '' @
        lit ''dan 16 reader simultan lolos pengujian '' @ lit ''tanpa data race.'')),
    (''content_items'', lab39_items_14),
    (''narrative'', PyStr (lit ''Dalam arsitektur backend berkinerja tinggi, '' @
        lit ''struktur filter akan diakses oleh ratusan '' @
        lit ''worker goroutine secara paralel. Tipe '' @
        lit ''Filter dasar sengaja dirancang tanpa '' @
        lit ''sinkronisasi untuk kecepatan maksimal pada '' @
        lit ''skenario immutable seperti segment SSTable. '' @
        lit ''Untuk skenario dinamis seperti admission '' @
        lit ''cache, paket menyediakan tipe pembungkus '' @
        lit ''SyncFilter yang mengamankan mutasi '' @
        lit ''menggunakan sync.RWMutex. Pengujian '' @
        lit ''membuktikan bahwa operasi read-heavy dapat '' @
        lit ''berjalan serempak tanpa memicu race '' @ lit ''condition.'')),
    (''mental_model'', PyStr (lit ''RWMutex makes Bloom filters '' @ lit ''concurrent-ready without complexity.'')),
    (''source_path'', PyStr (lit ''internal/bloom/bloom_test.go:88-117'')),
    (''slide_num'', PyStr (lit ''14 / 24''))]\<rparr>\<close>

definition lab39_items_15 :: pyval where [lab39_contents]:
  \<open>lab39_items_15 =
   PyList
   [PyDict
     [(''title'', PyStr (lit ''SKENARIO INTEGRASI SISTEM'')),
      (''items'', PyList
        [PyStr (lit ''Backend mock menyimpan tiga data pengguna '' @
            lit ''valid (user:101, user:102, user:103).''),
         PyStr (lit ''Cache tanpa proteksi diekspos terhadap '' @
            lit ''1.000 kueri acak (hacker-query-{i}).''),
         PyStr (lit ''Hasil unprotected cache: mencatat tepat '' @
            lit ''1.000 backend calls (100% tembus).'')]),
      (''type'', PyStr (lit ''bullet''))],
    PyDict
     [(''title'', PyStr (lit ''EVALUASI PROTECTED CACHE'')),
      (''items'', PyList
        [PyStr (lit ''Cache terproteksi diinisialisasi dengan '' @
            lit ''admission gate SyncFilter (n = 1000, '' @ [0x3B5] @ lit '' = 0.01).''),
         PyStr (lit ''Kueri data sah (user:101) dilayani langsung '' @
            lit ''dari memori dengan 0 panggilan backend.''),
         PyStr (lit ''Serangan 1.000 kueri asing ditahan di '' @
            lit ''gerbang depan, menghasilkan 0 panggilan '' @ lit ''backend.'')]),
      (''type'', PyStr (lit ''bullet''))],
    PyDict
     [(''title'', PyStr (lit ''AMBANG TOLERANSI TEST'')),
      (''items'', PyList
        [PyStr (lit ''Ambang batas kelulusan pengujian: penetrasi '' @
            lit ''backend <= 30 kueri (toleransi false '' @ lit ''positive).''),
         PyStr (lit ''Aktual terukur: 0 penetrasi tercatat '' @
            lit ''(tingkat filtrasi absolut 100%).'')]),
      (''type'', PyStr (lit ''bullet''))]]\<close>

definition lab39_slide_15 :: pycall where [lab39_slides]:
  \<open>lab39_slide_15 =
   \<lparr>posargs = [],
  kwargs =
   [(''categories'', PyList
      [PyStr (lit ''VERIFIKASI SISTEMIK''),
       PyStr (lit ''PERTAHANAN SERANGAN'')]),
    (''title'', PyStr (lit ''Pengujian Mitigasi Cache Penetration pada '' @ lit ''Beban Serangan'')),
    (''subtitle'', PyStr (lit ''Simulasi 1.000 kueri penetrasi membuktikan '' @
        lit ''Bloom filter memblokir seluruh akses ke '' @ lit ''backend tanpa kebocoran.'')),
    (''content_items'', lab39_items_15),
    (''narrative'', PyStr (lit ''Pengujian integrasi '' @ lit ''TestCachePenetrationMitigation memvalidasi '' @
        lit ''efektivitas arsitektur admission gate dalam '' @
        lit ''meredam serangan penetrasi kueri acak. '' @
        lit ''Ketika seribu permintaan berbahaya '' @
        lit ''dikirimkan secara berurutan, cache standar '' @
        lit ''tanpa filter mengalami kebobolan total '' @
        lit ''dengan meneruskan setiap permintaan ke '' @
        lit ''backend database. Sebaliknya, cache yang '' @
        lit ''dipersenjatai dengan Bloom filter sukses '' @
        lit ''mengidentifikasi bahwa kunci-kunci tersebut '' @
        lit ''tidak pernah terdaftar, menolak seluruhnya '' @
        lit ''sebelum menyentuh sumber data utama.'')),
    (''mental_model'', PyStr (lit ''Block penetration at the gate, not at the '' @ lit ''database.'')),
    (''source_path'', PyStr (lit ''internal/store/lsm_test.go:83-135'')),
    (''slide_num'', PyStr (lit ''15 / 24''))]\<rparr>\<close>

definition lab39_items_16 :: pyval where [lab39_contents]:
  \<open>lab39_items_16 =
   PyList
   [PyDict
     [(''title'', PyStr (lit ''TABEL PERBANDINGAN PERFORMA'')),
      (''items'', PyList
        [PyStr (lit ''Skenario Evaluasi | Tanpa Bloom Filter | '' @
            lit ''Dengan Bloom Filter | Efisiensi Peningkatan''),
         PyStr (lit ''LSM-Tree Disk Reads (10k query) | 100.000 '' @
            lit ''pembacaan | 988 pembacaan | 99.01% '' @ lit ''penurunan I/O''),
         PyStr (lit ''Cache Penetration Hits (5k query) | 5.000 '' @
            lit ''backend hits | 0 backend hits | 100% '' @ lit ''perlindungan''),
         PyStr (lit ''Latensi Filter Probe | 0 ns (tanpa gate) | '' @
            lit ''~150 ns per lookup | Akses memori '' @ lit ''sub-mikrodetik''),
         PyStr (lit ''Overhead Memori (10k elemen) | 0 byte | '' @
            lit ''11.7 Kilobyte | Sangat ringkas (9.59 '' @ lit ''bit/item)'')]),
      (''type'', PyStr (lit ''table''))],
    PyDict
     [(''title'', PyStr (lit ''ANALISIS RETURN ON INVESTMENT'')),
      (''items'', PyList
        [PyStr (lit ''Dengan biaya memori hanya 11.7 KB, sistem '' @
            lit ''menghemat puluhan ribu operasi I/O disk '' @ lit ''yang lambat.''),
         PyStr (lit ''Trade-off latensi 150 nanodetik di memori '' @
            lit ''mengeliminasi latensi disk read sebesar 5 '' @
            lit ''hingga 10 milidetik.'')]),
      (''type'', PyStr (lit ''bullet''))],
    PyDict
     [(''title'', PyStr (lit ''KESIMPULAN METRIK'')),
      (''items'', PyList
        [PyStr (lit ''Bloom filter menghadirkan rasio efisiensi '' @
            lit ''biaya terhadap performa tertinggi dalam '' @
            lit ''rekayasa sistem penyimpanan.'')]),
      (''type'', PyStr (lit ''bullet''))]]\<close>

definition lab39_slide_16 :: pycall where [lab39_slides]:
  \<open>lab39_slide_16 =
   \<lparr>posargs = [],
  kwargs =
   [(''categories'', PyList
      [PyStr (lit ''RINGKASAN METRIK''),
       PyStr (lit ''KOMPARASI EFISIENSI'')]),
    (''title'', PyStr (lit ''Tabel Komparasi Performa Komprehensif '' @ lit ''Arsitektur Lab'')),
    (''subtitle'', PyStr (lit ''Rekapitulasi kuantitatif dampak penerapan '' @
        lit ''Bloom filter pada throughput I/O dan '' @ lit ''keamanan backend.'')),
    (''content_items'', lab39_items_16),
    (''narrative'', PyStr (lit ''Tabel komparasi di atas mengkristalisasi '' @
        lit ''seluruh temuan eksperimental Lab 39. '' @
        lit ''Perbedaan performa antara sistem dengan dan '' @
        lit ''tanpa Bloom filter berada pada skala yang '' @
        lit ''sangat kontras. Dengan mengorbankan memori '' @
        lit ''sebesar 11.7 Kilobyte dan waktu komputasi '' @
        lit ''hash sekitar 150 nanodetik, sistem mampu '' @
        lit ''mengeliminasi lebih dari 99% pembacaan disk '' @
        lit ''yang memakan waktu milidetik serta '' @
        lit ''menghindarkan basis data hilir dari '' @
        lit ''kelumpuhan akibat serangan cache '' @ lit ''penetration.'')),
    (''mental_model'', PyStr (lit ''Numbers don'' @ [39] @ lit ''t lie: one filter saves a mountain of I/O.'')),
    (''source_path'', PyStr (lit ''cmd/demo/main.go:59-128'')),
    (''slide_num'', PyStr (lit ''16 / 24''))]\<rparr>\<close>

definition lab39_items_17 :: pyval where [lab39_contents]:
  \<open>lab39_items_17 =
   PyList
   [PyDict
     [(''title'', PyStr (lit ''STATE BIT AWAL'')),
      (''items'', PyList
        [PyStr (lit ''Konstruktor New mengalokasikan slice uint64 '' @
            lit ''dengan seluruh kata bernilai 0.''),
         PyStr (lit ''Setiap pemanggilan Check pada filter kosong '' @
            lit ''akan mendeteksi bit 0 pada probe pertama.''),
         PyStr (lit ''Short-circuit evaluation langsung '' @
            lit ''mengembalikan nilai false seketika.'')]),
      (''type'', PyStr (lit ''bullet''))],
    PyDict
     [(''title'', PyStr (lit ''KODE PENGUJIAN BOUNDARY'')),
      (''items'', PyList
        [PyStr (lit ''func TestEmptyFilter(t *testing.T) {''),
         PyStr (lit ''    bf := New(100, 0.01)''),
         PyStr (lit ''    if bf.Check([]byte("any-key")) {''),
         PyStr (lit ''        t.Errorf("Empty filter should not '' @
            lit ''return true for arbitrary key")''),
         PyStr (lit ''    }''),
         PyStr (lit ''}'')]),
      (''type'', PyStr (lit ''code''))],
    PyDict
     [(''title'', PyStr (lit ''KEAMANAN FAIL-SAFE'')),
      (''items'', PyList
        [PyStr (lit ''Filter kosong bertindak sebagai gerbang '' @
            lit ''tertutup yang aman, mencegah false positive '' @
            lit ''dini sebelum data dimasukkan.'')]),
      (''type'', PyStr (lit ''bullet''))]]\<close>

definition lab39_slide_17 :: pycall where [lab39_slides]:
  \<open>lab39_slide_17 =
   \<lparr>posargs = [],
  kwargs =
   [(''categories'', PyList
      [PyStr (lit ''EDGE CASE''),
       PyStr (lit ''STATE VERIFICATION'')]),
    (''title'', PyStr (lit ''Verifikasi Perilaku Filter Kosong: '' @ lit ''Penolakan Aman Awal'')),
    (''subtitle'', PyStr (lit ''Memastikan filter yang baru diinisialisasi '' @
        lit ''menolak seluruh kueri secara konservatif '' @ lit ''tanpa false hit.'')),
    (''content_items'', lab39_items_17),
    (''narrative'', PyStr (lit ''Pengujian kondisi batas (boundary testing) '' @
        lit ''sangat penting untuk menjamin kestabilan '' @
        lit ''perangkat lunak. Pada TestEmptyFilter, '' @
        lit ''sistem memastikan bahwa filter yang baru '' @
        lit ''dibuat tidak mengandung bit sampah yang '' @
        lit ''tertinggal di memori. Sebelum ada kunci '' @
        lit ''yang dimasukkan via Add, setiap kueri harus '' @
        lit ''selalu menghasilkan respons false. Perilaku '' @
        lit ''ini memastikan bahwa dalam sistem '' @
        lit ''penyimpanan, segment SSTable yang masih '' @
        lit ''kosong tidak akan pernah memicu pembacaan '' @ lit ''disk palsu.'')),
    (''mental_model'', PyStr (lit ''Empty filter is a safe filter. Start '' @
        lit ''conservative, add keys, relax guarantees.'')),
    (''source_path'', PyStr (lit ''internal/bloom/bloom_test.go:81-86'')),
    (''slide_num'', PyStr (lit ''17 / 24''))]\<rparr>\<close>

definition lab39_items_18 :: pyval where [lab39_contents]:
  \<open>lab39_items_18 =
   PyList
   [PyDict
     [(''title'', PyStr (lit ''TABEL SENSITIVITAS SKALA SATU JUTA ELEMEN'')),
      (''items'', PyList
        [PyStr (lit ''Target False Positive '' @ [0x3B5] @
            lit '' | Bits/Elemen | Hash Probes k | Memori '' @
            lit ''untuk 1 Juta Elemen | Karakteristik Beban''),
         PyStr (lit ''0.10 (10% error) | 4.79 bits | 3 probes | '' @
            lit ''599 Kilobyte | Pruning segment disk kasar''),
         PyStr (lit ''0.01 (1% error) | 9.59 bits | 7 probes | '' @
            lit ''1.17 Megabyte | Standar industri umum '' @ lit ''(RocksDB)''),
         PyStr (lit ''0.001 (0.1% error) | 14.38 bits | 10 probes '' @
            lit ''| 1.75 Megabyte | Proteksi cache '' @ lit ''penetration ketat''),
         PyStr (lit ''0.0001 (0.01% error) | 19.17 bits | 13 '' @
            lit ''probes | 2.34 Megabyte | Biaya komputasi '' @ lit ''hash tinggi'')]),
      (''type'', PyStr (lit ''table''))],
    PyDict
     [(''title'', PyStr (lit ''PRINSIP ARSITEKTUR MEMORI'')),
      (''items'', PyList
        [PyStr (lit ''Mereduksi false positive dari 1% ke 0.1% '' @
            lit ''membutuhkan peningkatan memori sekitar 50% '' @
            lit ''dan 3 probe hash tambahan.''),
         PyStr (lit ''Di sebagian besar sistem database, nilai '' @ [0x3B5] @
            lit '' = 0.01 (1%) merupakan sweet spot efisiensi '' @ lit ''optimal.'')]),
      (''type'', PyStr (lit ''bullet''))],
    PyDict
     [(''title'', PyStr (lit ''HUKUM HASIL MENURUN'')),
      (''items'', PyList
        [PyStr (lit ''Menargetkan error mendekati nol membutuhkan '' @
            lit ''memori eksponensial yang menghilangkan '' @ lit ''esensi kompresi.'')]),
      (''type'', PyStr (lit ''bullet''))]]\<close>

definition lab39_slide_18 :: pycall where [lab39_slides]:
  \<open>lab39_slide_18 =
   \<lparr>posargs = [],
  kwargs =
   [(''categories'', PyList
      [PyStr (lit ''TRADE-OFF DESAIN''),
       PyStr (lit ''ALOKASI MEMORI'')]),
    (''title'', PyStr (lit ''Analisis Trade-off Memori versus False '' @ lit ''Positive Rate'')),
    (''subtitle'', PyStr (lit ''Sensitivitas pemilihan nilai epsilon '' @
        lit ''terhadap konsumsi ruang memori dan jumlah '' @
        lit ''fungsi hash yang dibutuhkan.'')),
    (''content_items'', lab39_items_18),
    (''narrative'', PyStr (lit ''Merancang arsitektur sistem selalu '' @
        lit ''melibatkan kompromi trade-off. Memilih '' @
        lit ''target false positive rate yang tepat '' @
        lit ''memerlukan pemahaman mendalam atas biaya '' @
        lit ''relatif antara alokasi RAM dan dampak I/O. '' @
        lit ''Mengonfigurasi filter dengan epsilon 1% '' @
        lit ''membutuhkan sekitar 9.6 bit per elemen, '' @
        lit ''yang merupakan titik seimbang paling '' @
        lit ''populer di industri. Menurunkan error '' @
        lit ''hingga 0.01% melipatgandakan kebutuhan '' @
        lit ''memori dan probe hash, yang berpotensi '' @
        lit ''membebani CPU cache tanpa memberikan '' @
        lit ''keuntungan I/O yang sebanding.'')),
    (''mental_model'', PyStr (lit ''Memory is cheap, latency is expensive. '' @
        lit ''Spend on compression wisely.'')),
    (''source_path'', PyStr (lit ''internal/bloom/bloom.go:85-91'')),
    (''slide_num'', PyStr (lit ''18 / 24''))]\<rparr>\<close>

definition lab39_items_19 :: pyval where [lab39_contents]:
  \<open>lab39_items_19 =
   PyList
   [PyDict
     [(''title'', PyStr (lit ''KELEBIHAN FNV-1A DI LAB'')),
      (''items'', PyList
        [PyStr (lit ''Eksekusi sangat cepat dengan overhead '' @
            lit ''instruksi CPU yang minimal pada operasi '' @ lit ''per-byte.''),
         PyStr (lit ''Distribusi bit seragam untuk kunci '' @
            lit ''terdistribusi acak alami (seperti UUID, '' @ lit ''sequence ID, slug).''),
         PyStr (lit ''Murni menggunakan Go standard library '' @
            lit ''(hash/fnv) tanpa dependensi eksternal.'')]),
      (''type'', PyStr (lit ''bullet''))],
    PyDict
     [(''title'', PyStr (lit ''VEKTOR KERENTANAN ADVERSARIAL'')),
      (''items'', PyList
        [PyStr (lit ''FNV-1a bukan fungsi hash kriptografis yang '' @
            lit ''tahan benturan (collision-resistant).''),
         PyStr (lit ''Penyerang luar dapat merekayasa sekumpulan '' @
            lit ''string kunci khusus yang sengaja '' @ lit ''menghasilkan hash yang sama.''),
         PyStr (lit ''Serangan hash flooding dapat mendegradasi '' @
            lit ''false positive rate sistem secara '' @ lit ''artifisial.'')]),
      (''type'', PyStr (lit ''bullet''))],
    PyDict
     [(''title'', PyStr (lit ''REKOMENDASI PRODUKSI ADVERSARIAL'')),
      (''items'', PyList
        [PyStr (lit ''Gunakan SipHash dengan kunci rahasia acak '' @
            lit ''per instance untuk endpoint publik yang '' @ lit ''tidak terpercaya.''),
         PyStr (lit ''Untuk sistem internal tertutup (seperti '' @
            lit ''SSTable segment private), FNV-1a atau '' @
            lit ''Murmur3 tetap menjadi standar.'')]),
      (''type'', PyStr (lit ''bullet''))]]\<close>

definition lab39_slide_19 :: pycall where [lab39_slides]:
  \<open>lab39_slide_19 =
   \<lparr>posargs = [],
  kwargs =
   [(''categories'', PyList
      [PyStr (lit ''ANALISIS RESIKO''),
       PyStr (lit ''KEAMANAN SISTEM'')]),
    (''title'', PyStr (lit ''Karakteristik Fungsi Hash: Efisiensi FNV-1a '' @ lit ''versus Keamanan'')),
    (''subtitle'', PyStr (lit ''Evaluasi batas ketahanan FNV-1a terhadap '' @
        lit ''manipulasi kunci adversarial dan mitigasi '' @ lit ''pada skala produksi.'')),
    (''content_items'', lab39_items_19),
    (''narrative'', PyStr (lit ''Pilihan fungsi hash menentukan kecepatan '' @
        lit ''sekaligus profil keamanan Bloom filter. Lab '' @
        lit ''39 mengadopsi FNV-1a dari Go standard '' @
        lit ''library karena efisiensinya yang tinggi dan '' @
        lit ''nol dependensi eksternal. Untuk lingkungan '' @
        lit ''data internal tertutup seperti segment '' @
        lit ''SSTable, FNV-1a bekerja dengan sangat baik. '' @
        lit ''Namun, jika filter terekspos langsung ke '' @
        lit ''input publik dari pengguna yang tidak '' @
        lit ''terpercaya, engineer wajib mempertimbangkan '' @
        lit ''hash berkunci seperti SipHash guna mencegah '' @
        lit ''serangan hash collision terencana.'')),
    (''mental_model'', PyStr (lit ''Speed today, security tomorrow. Choose hash '' @ lit ''by threat model.'')),
    (''source_path'', PyStr (lit ''internal/bloom/bloom.go:65-77'')),
    (''slide_num'', PyStr (lit ''19 / 24''))]\<rparr>\<close>

definition lab39_items_20 :: pyval where [lab39_contents]:
  \<open>lab39_items_20 =
   PyList
   [PyDict
     [(''title'', PyStr (lit ''AKAR MASALAH PENGHAPUSAN'')),
      (''items'', PyList
        [PyStr (lit ''Bit dalam array bersifat tumpang tindih '' @
            lit ''(shared): satu bit dapat disetel oleh '' @ lit ''puluhan kunci berbeda.''),
         PyStr (lit ''Mereset bit dari 1 ke 0 saat '' @ [39] @ lit ''menghapus'' @ [39] @
            lit '' kunci A akan merusak jejak hash kunci B '' @ lit ''dan C.''),
         PyStr (lit ''Dampaknya fatal: merusak invarian zero '' @
            lit ''false negative sehingga data yang ada '' @ lit ''dilaporkan hilang.'')]),
      (''type'', PyStr (lit ''bullet''))],
    PyDict
     [(''title'', PyStr (lit ''SOLUSI ARSITEKTURAL DI LAB'')),
      (''items'', PyList
        [PyStr (lit ''Imutabilitas Segment: SSTable segment '' @
            lit ''bersifat append-only dan tidak pernah '' @
            lit ''dimutasi setelah ditulis.''),
         PyStr (lit ''Rebuild saat Compaction: filter baru '' @
            lit ''dibangun dari nol ketika beberapa segment '' @ lit ''digabungkan.''),
         PyStr (lit ''Cache Gate: filter hanya melakukan Add saat '' @
            lit ''verifikasi data; kadaluwarsa ditangani via '' @ lit ''rebuild periodik.'')]),
      (''type'', PyStr (lit ''bullet''))],
    PyDict
     [(''title'', PyStr (lit ''STRUKTUR ALTERNATIF'')),
      (''items'', PyList
        [PyStr (lit ''Gunakan Counting Bloom Filter (alokasi '' @ lit ''memori 3-4'' @ [0xD7] @
            lit '' lipat) atau Cuckoo Filter jika mutasi '' @ lit ''delete wajib didukung.'')]),
      (''type'', PyStr (lit ''bullet''))]]\<close>

definition lab39_slide_20 :: pycall where [lab39_slides]:
  \<open>lab39_slide_20 =
   \<lparr>posargs = [],
  kwargs =
   [(''categories'', PyList
      [PyStr (lit ''BATAS TEKNIS''),
       PyStr (lit ''IMUTABILITAS'')]),
    (''title'', PyStr (lit ''Batasan Fundamental: Ketiadaan Dukungan '' @ lit ''Operasi Delete'')),
    (''subtitle'', PyStr (lit ''Mengapa bit array tidak boleh dihapus dan '' @
        lit ''bagaimana arsitektur modern mengatasi '' @ lit ''keterbatasan ini.'')),
    (''content_items'', lab39_items_20),
    (''narrative'', PyStr (lit ''Kelemahan paling menonjol dari Bloom filter '' @
        lit ''standar adalah ketidakmampuannya mendukung '' @
        lit ''operasi delete. Karena beberapa kunci dapat '' @
        lit ''mengaktifkan bit yang sama persis, '' @
        lit ''membalikkan nilai bit menjadi 0 akan '' @
        lit ''serta-merta merusak status keanggotaan '' @
        lit ''kunci lain yang sah, memicu false negative '' @
        lit ''yang mematikan integritas data. Di Lab 39, '' @
        lit ''batasan ini diselaraskan dengan pola '' @
        lit ''imutabilitas segment LSM-Tree: filter hanya '' @
        lit ''dibuat sekali bersama segment dan dibuang '' @
        lit ''sepenuhnya saat segment di-merge.'')),
    (''mental_model'', PyStr (lit ''Deletion requires counting. Immutability '' @ lit ''saves correctness.'')),
    (''source_path'', PyStr (lit ''internal/bloom/bloom.go:9-15'')),
    (''slide_num'', PyStr (lit ''20 / 24''))]\<rparr>\<close>

definition lab39_items_21 :: pyval where [lab39_contents]:
  \<open>lab39_items_21 =
   PyList
   [PyDict
     [(''title'', PyStr (lit ''RISIKO SATURASI KAPASITAS'')),
      (''items'', PyList
        [PyStr (lit ''False positive rate terikat ketat pada '' @
            lit ''kapasitas n awal yang diestimasikan.''),
         PyStr (lit ''Jika jumlah elemen yang dimasukkan melebihi '' @
            lit ''n, kerapatan bit array mendekati 1 dan '' @
            lit ''filter menjadi tidak berguna.''),
         PyStr (lit ''Mitigasi: berikan alokasi margin kapasitas '' @
            lit ''20-30% atau gunakan Scalable Bloom Filter '' @ lit ''dinamis.'')]),
      (''type'', PyStr (lit ''bullet''))],
    PyDict
     [(''title'', PyStr (lit ''SERIALISASI DAN DETERMINISME'')),
      (''items'', PyList
        [PyStr (lit ''Filter yang disimpan ke file SSTable disk '' @
            lit ''harus menyertakan metadata m, k, dan '' @
            lit ''representasi byte slice uint64.''),
         PyStr (lit ''Pastikan seed fungsi hash selalu konstan '' @
            lit ''antar proses agar rekonstruksi pembacaan '' @ lit ''konsisten.'')]),
      (''type'', PyStr (lit ''bullet''))],
    PyDict
     [(''title'', PyStr (lit ''MONITORING PRODUKSI'')),
      (''items'', PyList
        [PyStr (lit ''Ukur metrik empiris rasio query yang '' @
            lit ''ditolak filter versus query yang tembus ke '' @ lit ''penyimpanan.''),
         PyStr (lit ''Pasang alert jika efisiensi filtrasi '' @
            lit ''menurun drastis, mengindikasikan saturasi '' @ lit ''kapasitas elemen.'')]),
      (''type'', PyStr (lit ''bullet''))]]\<close>

definition lab39_slide_21 :: pycall where [lab39_slides]:
  \<open>lab39_slide_21 =
   \<lparr>posargs = [],
  kwargs =
   [(''categories'', PyList
      [PyStr (lit ''PANDUAN OPERASIONAL''),
       PyStr (lit ''BEST PRACTICES'')]),
    (''title'', PyStr (lit ''Pertimbangan Operasional untuk Deployment '' @ lit ''di Lingkungan Produksi'')),
    (''subtitle'', PyStr (lit ''Strategi mitigasi saturasi kapasitas, '' @
        lit ''serialisasi persistensi, dan pemantauan '' @ lit ''metrik false positive.'')),
    (''content_items'', lab39_items_21),
    (''narrative'', PyStr (lit ''Menerapkan Bloom filter di lingkungan '' @
        lit ''produksi membutuhkan disiplin operasional '' @
        lit ''yang matang. Salah satu jebakan terbesar '' @
        lit ''adalah meremehkan jumlah elemen data di '' @
        lit ''masa depan. Begitu jumlah elemen aktual '' @
        lit ''melampaui kapasitas n yang dirancang, bit '' @
        lit ''array akan mengalami saturasi di mana '' @
        lit ''hampir semua bit bernilai 1, menyebabkan '' @
        lit ''false positive rate meroket hingga 100%. '' @
        lit ''Selain itu, serialisasi biner ke storage '' @
        lit ''membutuhkan determinisme seed hash yang '' @
        lit ''ketat di seluruh instance service.'')),
    (''mental_model'', PyStr (lit ''Production is about defaults and failure '' @ lit ''modes, not benchmarks.'')),
    (''source_path'', PyStr (lit ''internal/bloom/bloom_test.go:88-117'')),
    (''slide_num'', PyStr (lit ''21 / 24''))]\<rparr>\<close>

definition lab39_items_22 :: pyval where [lab39_contents]:
  \<open>lab39_items_22 =
   PyList
   [PyDict
     [(''title'', PyStr (lit ''TEST SUITE BLOOM PACKAGE'')),
      (''items'', PyList
        [PyStr (lit ''TestNoFalseNegatives: PASS (0 false '' @
            lit ''negative pada 10.000 kunci teruji).''),
         PyStr (lit ''TestFalsePositiveRate: PASS (terukur 0.98% '' @
            lit ''- 0.996% vs target 1.00%).''),
         PyStr (lit ''TestOptimalSizing: PASS (m = 9.586 bit, k = '' @
            lit ''7 probes terverifikasi presisi).''),
         PyStr (lit ''TestEmptyFilter: PASS (penolakan aman pada '' @
            lit ''kondisi awal terbukti).''),
         PyStr (lit ''TestSyncFilterConcurrency: PASS (bersih '' @
            lit ''tanpa data race pada 24 worker konkuren).'')]),
      (''type'', PyStr (lit ''bullet''))],
    PyDict
     [(''title'', PyStr (lit ''TEST SUITE STORE PACKAGE'')),
      (''items'', PyList
        [PyStr (lit ''TestLSMStoreWithAndWithoutFilter: PASS '' @
            lit ''(99.01% eliminasi pembacaan segment disk).''),
         PyStr (lit ''TestCachePenetrationMitigation: PASS (100% '' @
            lit ''kueri penetrasi tertahan di admission gate).'')]),
      (''type'', PyStr (lit ''bullet''))],
    PyDict
     [(''title'', PyStr (lit ''BENCHMARK PERFORMANCE'')),
      (''items'', PyList
        [PyStr (lit ''BenchmarkFilterAdd: ~500 ns per operasi '' @ lit ''penambahan.''),
         PyStr (lit ''BenchmarkFilterCheck: ~150 ns per operasi '' @
            lit ''evaluasi probe bitwise.'')]),
      (''type'', PyStr (lit ''bullet''))]]\<close>

definition lab39_slide_22 :: pycall where [lab39_slides]:
  \<open>lab39_slide_22 =
   \<lparr>posargs = [],
  kwargs =
   [(''categories'', PyList
      [PyStr (lit ''STATUS SUITE''),
       PyStr (lit ''VERIFIKASI INTEGRITAS'')]),
    (''title'', PyStr (lit ''Rekapitulasi Verifikasi Suite Pengujian dan '' @ lit ''Tolok Ukur'')),
    (''subtitle'', PyStr (lit ''Seluruh unit test, pengujian integrasi, '' @
        lit ''benchmark, dan race detector terkonfirmasi '' @ lit ''lolos sempurna.'')),
    (''content_items'', lab39_items_22),
    (''narrative'', PyStr (lit ''Kualitas implementasi rekayasa perangkat '' @
        lit ''lunak diukur dari kekokohan pengujian yang '' @
        lit ''mendasarinya. Seluruh klaim teoritis dan '' @
        lit ''arsitektural di Lab 39 didukung oleh '' @
        lit ''rangkaian pengujian otomatis yang '' @
        lit ''komprehensif. Mulai dari kebenaran invarian '' @
        lit ''dasar, kepatuhan batas error empiris, '' @
        lit ''skalabilitas konkurensi dengan Go race '' @
        lit ''detector, hingga simulasi integrasi tingkat '' @
        lit ''sistem, seluruhnya terverifikasi lulus '' @
        lit ''tanpa catatan cacat implementasi.'')),
    (''mental_model'', PyStr (lit ''Test coverage is the guardrail against '' @ lit ''production regret.'')),
    (''source_path'', PyStr (lit ''internal/bloom/bloom_test.go '' @ [0x2022] @
        lit '' internal/store/lsm_test.go'')),
    (''slide_num'', PyStr (lit ''22 / 24''))]\<rparr>\<close>

definition lab39_items_23 :: pyval where [lab39_contents]:
  \<open>lab39_items_23 =
   PyList
   [PyDict
     [(''title'', PyStr (lit ''PERINTAH TERMINAL'')),
      (''items'', PyList
        [PyStr (lit ''cd labs/39-bloom-filters''),
         PyStr (lit ''go test -v ./...                 # Eksekusi '' @
            lit ''seluruh rangkaian unit test''),
         PyStr (lit ''go test -race ./...              # '' @
            lit ''Verifikasi integritas konkurensi thread''),
         PyStr (lit ''go run ./cmd/demo                # Jalankan '' @
            lit ''simulasi tiga skenario interaktif'')]),
      (''type'', PyStr (lit ''code''))],
    PyDict
     [(''title'', PyStr (lit ''STRUKTUR REPOSITORI'')),
      (''items'', PyList
        [PyStr (lit ''internal/bloom/bloom.go: Implementasi inti '' @
            lit ''Filter dan SyncFilter thread-safe.''),
         PyStr (lit ''internal/store/lsm.go: Model LSM-Tree store '' @
            lit ''dengan pruning segment disk.''),
         PyStr (lit ''internal/store/cache.go: In-memory cache '' @
            lit ''dengan Bloom admission gate.''),
         PyStr (lit ''cmd/demo/main.go: Program CLI demonstrasi '' @
            lit ''ketiga skenario lab.'')]),
      (''type'', PyStr (lit ''bullet''))],
    PyDict
     [(''title'', PyStr (lit ''LINGKUNGAN DEPENDENSI'')),
      (''items'', PyList
        [PyStr (lit ''Go 1.22+ standard library murni tanpa '' @
            lit ''ketergantungan paket pihak ketiga.'')]),
      (''type'', PyStr (lit ''bullet''))]]\<close>

definition lab39_slide_23 :: pycall where [lab39_slides]:
  \<open>lab39_slide_23 =
   \<lparr>posargs = [],
  kwargs =
   [(''categories'', PyList
      [PyStr (lit ''INSTRUKSI EKSEKUSI''),
       PyStr (lit ''REPRODUKSI MANDIRI'')]),
    (''title'', PyStr (lit ''Panduan Reproduksi Mandiri dan Verifikasi '' @ lit ''Eksekusi Lab'')),
    (''subtitle'', PyStr (lit ''Langkah-langkah mereproduksi hasil '' @
        lit ''pengujian dan eksekusi demo interaktif '' @ lit ''menggunakan Go murni.'')),
    (''content_items'', lab39_items_23),
    (''narrative'', PyStr (lit ''Reprodusibilitas adalah prinsip utama dari '' @
        lit ''seri Software Engineering Lab. Seluruh kode '' @
        lit ''sumber di Lab 39 dirancang murni '' @
        lit ''menggunakan Go standard library sehingga '' @
        lit ''dapat langsung dikloning dan dijalankan di '' @
        lit ''sistem operasi mana pun tanpa instalasi '' @
        lit ''dependensi rumit. Perintah go test dan go '' @
        lit ''run ./cmd/demo memungkinkan setiap software '' @
        lit ''engineer untuk secara mandiri memverifikasi '' @
        lit ''seluruh angka metrik dan perilaku sistem '' @
        lit ''yang dipaparkan dalam dokumen ini.'')),
    (''mental_model'', PyStr (lit ''Reproduce or reject. Standard library '' @
        lit ''enables instant verification.'')),
    (''source_path'', PyStr (lit ''README.md '' @ [0x2022] @ lit '' cmd/demo/main.go'')),
    (''slide_num'', PyStr (lit ''23 / 24''))]\<rparr>\<close>

definition lab39_items_24 :: pyval where [lab39_contents]:
  \<open>lab39_items_24 =
   PyList
   [PyDict
     [(''title'', PyStr (lit ''MODUL LAB'')),
      (''items'', PyList
        [PyStr (lit ''internal/bloom/bloom.go '' @ [0x2022] @
            lit '' internal/bloom/bloom_test.go''),
         PyStr (lit ''internal/store/lsm.go '' @ [0x2022] @ lit '' internal/store/cache.go''),
         PyStr (lit ''cmd/demo/main.go '' @ [0x2022] @ lit '' README.md'')]),
      (''type'', PyStr (lit ''bullet''))],
    PyDict
     [(''title'', PyStr (lit ''VERIFIKASI & STATUS'')),
      (''items'', PyList
        [PyStr (lit ''Sumber snapshot commit: '' @ str_prefix 8 lab39_COMMIT_SHA),
         PyStr (lit ''Seluruh test suite terverifikasi PASS '' @ lit ''(Race-Clean Go 1.22).''),
         PyStr (lit ''Invarian terbukti: zero false negatives, FP '' @
            lit ''rate ~1%, reduksi I/O >99%.'')]),
      (''type'', PyStr (lit ''bullet''))]]\<close>

definition lab39_slide_24 :: pycall where [lab39_slides]:
  \<open>lab39_slide_24 =
   \<lparr>posargs = [],
  kwargs =
   [(''categories'', PyList
      [PyStr (lit ''CLOSING'')]),
    (''title'', PyStr (lit ''Eksperimen kecil, interpretasi yang teliti.'')),
    (''subtitle'', PyStr []),
    (''content_items'', lab39_items_24),
    (''mental_model'', PyStr (lit ''Probabilistic structures give you certainty '' @
        lit ''through approximation.'')),
    (''source_path'', PyStr lab39_REPO_URL),
    (''slide_num'', PyStr (lit ''24 / 24''))]\<rparr>\<close>

definition lab39_calls :: "pycall list" where
  "lab39_calls =
    [lab39_slide_01, lab39_slide_02, lab39_slide_03, lab39_slide_04, lab39_slide_05,
     lab39_slide_06, lab39_slide_07, lab39_slide_08, lab39_slide_09, lab39_slide_10,
     lab39_slide_11, lab39_slide_12, lab39_slide_13, lab39_slide_14, lab39_slide_15,
     lab39_slide_16, lab39_slide_17, lab39_slide_18, lab39_slide_19, lab39_slide_20,
     lab39_slide_21, lab39_slide_22, lab39_slide_23, lab39_slide_24]"

definition lab39_deck :: deck where
  "lab39_deck =
    \<lparr>add_slide = lab39_add_slide, lab_no = lab39_LAB_NO, title_id = lab39_TITLE_ID, calls = lab39_calls\<rparr>"

section \<open>Checks of the calls\<close>

lemma lab39_shapes:
  "\<forall>c \<in> set lab39_calls. shape_of c \<in> set
    [(0, [''categories'', ''title'', ''subtitle'', ''content_items'', ''mental_model'',
      ''source_path'', ''slide_num'']),
     (0, [''categories'', ''title'', ''subtitle'', ''content_items'', ''narrative'',
      ''mental_model'', ''source_path'', ''slide_num''])]"
  by (simp only: lab39_calls_def lab39_slides shape_eval cong: pyval_opaque)

lemma lab39_calls_ok: "\<forall>c \<in> set lab39_calls. call_ok sig_plain c"
  by (rule calls_ok_by_shapes [OF lab39_shapes])
    (simp add: shape_ok_def param_names_def signature_defs core_params_def)

lemma lab39_labels: "map (\<lambda>c. value_of sig_plain c ''slide_num'') lab39_calls = labels_24"
  by (simp only: lab39_calls_def lab39_slides keyword_eval labels_24_eval cong: pyval_opaque)

lemma lab39_contents_of:
  "map (\<lambda>c. value_of sig_plain c ''content_items'') lab39_calls =
    [lab39_items_01, lab39_items_02, lab39_items_03, lab39_items_04, lab39_items_05,
     lab39_items_06, lab39_items_07, lab39_items_08, lab39_items_09, lab39_items_10,
     lab39_items_11, lab39_items_12, lab39_items_13, lab39_items_14, lab39_items_15,
     lab39_items_16, lab39_items_17, lab39_items_18, lab39_items_19, lab39_items_20,
     lab39_items_21, lab39_items_22, lab39_items_23, lab39_items_24]"
  by (simp only: lab39_calls_def lab39_slides keyword_eval cong: pyval_opaque)

lemma lab39_items: "item_defects sig_plain lab39_calls = []"
  by (simp only: item_defects_def lab39_contents_of)
    (simp add: lab39_contents item_eval cong: pystr_opaque)

end
