(* ===== verification/Deck40.thy ===== *)
theory Deck40
  imports DeckContract
begin

text \<open>
  The publication definition of lab 40, \<^verbatim>\<open>labs/40-property-based-testing/result/content_def.py\<close>:
  its module constants, every \<open>add_slide\<close> call in order (\<open>lab40_slide_01\<close> is the first),
  and the module as a whole (\<open>lab40_deck\<close>). Long strings are split into pieces that are
  concatenated; a character outside ASCII is its code point.
\<close>

named_theorems lab40_slides \<open>the add_slide calls of lab 40\<close>
named_theorems lab40_contents \<open>their content_items arguments\<close>

definition lab40_OUTPUT_DIR :: pystr where
  \<open>lab40_OUTPUT_DIR = lit ''labs/40-property-based-testing/result''\<close>

definition lab40_CHROME_BIN :: pystr where
  \<open>lab40_CHROME_BIN = lit ''/Applications/Google '' @ lit ''Chrome.app/Contents/MacOS/Google Chrome''\<close>

definition lab40_REPO_URL :: pystr where
  \<open>lab40_REPO_URL = lit ''https://github.com/lukman-ss/software-engine'' @
    lit ''ering-lab/tree/main/labs/40-property-based-t'' @ lit ''esting''\<close>

definition lab40_COMMIT_SHA :: pystr where
  \<open>lab40_COMMIT_SHA = lit ''7d244968e91a2222291a27f346512976a26017e2''\<close>

definition lab40_LAB_NO :: pystr where
  \<open>lab40_LAB_NO = lit ''40''\<close>

definition lab40_SLUG :: pystr where
  \<open>lab40_SLUG = lit ''property-based-testing''\<close>

definition lab40_TITLE_ID :: pystr where
  \<open>lab40_TITLE_ID = lit ''Property-Based Testing''\<close>

definition lab40_SUBTITLE_ID :: pystr where
  \<open>lab40_SUBTITLE_ID = lit ''Menemukan Edge-Case Tersembunyi via '' @ lit ''Universal Invariant & Shrinking''\<close>

definition lab40_TITLE_EN :: pystr where
  \<open>lab40_TITLE_EN = lit ''Property-Based Testing''\<close>

definition lab40_SUBTITLE_EN :: pystr where
  \<open>lab40_SUBTITLE_EN = lit ''Finding Hidden Edge Cases via Universal '' @ lit ''Invariants and Shrinking''\<close>

definition lab40_AUTHOR :: pystr where
  \<open>lab40_AUTHOR = lit ''Lukman / lukman-ss''\<close>

definition lab40_TOPIC_TAGS :: pystr where
  \<open>lab40_TOPIC_TAGS = lit ''Property-Based Testing '' @ [0x2022] @ lit '' Universal Invariants '' @ [0x2022] @
    lit '' Shrinking '' @ [0x2022] @ lit '' Go''\<close>

definition lab40_DARK_NAVY :: pystr where
  \<open>lab40_DARK_NAVY = lit ''0b1b2d''\<close>

definition lab40_TEAL :: pystr where
  \<open>lab40_TEAL = lit ''087f76''\<close>

definition lab40_CREAM :: pystr where
  \<open>lab40_CREAM = lit ''f4f1e8''\<close>

definition lab40_WHITE :: pystr where
  \<open>lab40_WHITE = lit ''ffffff''\<close>

definition lab40_SLATE :: pystr where
  \<open>lab40_SLATE = lit ''52606b''\<close>

definition lab40_ORANGE :: pystr where
  \<open>lab40_ORANGE = lit ''d97706''\<close>

definition lab40_add_slide :: "pycall \<Rightarrow> pyval list \<Rightarrow> (pyexc, pyval list) res" where
  "lab40_add_slide = add_slide_en"

definition lab40_items_01 :: pyval where [lab40_contents]:
  \<open>lab40_items_01 =
   PyList
   [PyDict
     [(''type'', PyStr (lit ''cover'')),
      (''title'', PyStr []),
      (''items'', PyList
        [PyStr (lit ''Retro CRT monitor beige dengan scanlines''),
         PyStr (lit ''Terminal menampilkan invariant verification '' @
            lit ''and counterexample shrinking''),
         PyStr (lit ''Penulis: '' @ lab40_AUTHOR)])]]\<close>

definition lab40_slide_01 :: pycall where [lab40_slides]:
  \<open>lab40_slide_01 =
   \<lparr>posargs = [],
  kwargs =
   [(''categories'', PyList
      [PyStr (lit ''COVER'')]),
    (''title'', PyStr lab40_TITLE_ID),
    (''subtitle'', PyStr lab40_SUBTITLE_ID),
    (''content_items'', lab40_items_01),
    (''mental_model'', PyStr []),
    (''source_path'', PyStr []),
    (''slide_num'', PyStr (lit ''01 / 24''))]\<rparr>\<close>

definition lab40_items_02 :: pyval where [lab40_contents]:
  \<open>lab40_items_02 =
   PyList
   [PyDict
     [(''title'', PyStr (lit ''BIAS PENGEMBANG'')),
      (''items'', PyList
        [PyStr (lit ''Unit test konvensional menguji nilai yang '' @
            lit ''dipikirkan developer (happy path).''),
         PyStr (lit ''Contoh hand-picked mengabaikan kombinasi '' @
            lit ''liar, angka negatif, dan float precision.''),
         PyStr (lit ''Test suite hijau 100% code coverage tetap '' @
            lit ''menyisakan blindspot fatal di produksi.'')]),
      (''type'', PyStr (lit ''bullet''))],
    PyDict
     [(''title'', PyStr (lit ''BUKTI LAB'')),
      (''items'', PyList
        [PyStr (lit ''Format naif float lolos 5/5 contoh statis '' @
            lit ''($1.00, $5.25, $99.99, $10.50, $0.01).''),
         PyStr (lit ''Saat diuji invariant properti dengan input '' @
            lit ''acak, 1.000/1.000 input gagal roundtrip.'')]),
      (''type'', PyStr (lit ''bullet''))],
    PyDict
     [(''title'', PyStr (lit ''PARADIGMA PBT'')),
      (''items'', PyList
        [PyStr (lit ''Uji kebenaran universal (invariants) '' @
            lit ''terhadap ratusan input acak tanpa asumsi '' @ lit ''sempit.'')]),
      (''type'', PyStr (lit ''bullet''))]]\<close>

definition lab40_slide_02 :: pycall where [lab40_slides]:
  \<open>lab40_slide_02 =
   \<lparr>posargs = [],
  kwargs =
   [(''categories'', PyList
      [PyStr (lit ''MOTIVASI''),
       PyStr (lit ''BATAS MODEL'')]),
    (''title'', PyStr (lit ''Ilusi Keamanan Example-Based Testing'')),
    (''title_en'', PyStr (lit ''The False Confidence of Example-Based '' @ lit ''Testing'')),
    (''subtitle'', PyStr (lit ''Contoh statis buatan manusia membatasi '' @
        lit ''cakupan uji pada jalur yang diharapkan.'')),
    (''content_items'', lab40_items_02),
    (''narrative'', PyStr (lit ''Unit test berbasis contoh (example-based '' @
        lit ''testing) bekerja dengan menegaskan bahwa '' @
        lit ''f(x) == y untuk segelintir sampel statis. '' @
        lit ''Masalah mendasarnya adalah bias konfirmasi: '' @
        lit ''engineer cenderung hanya menguji kombinasi '' @
        lit ''nilai yang telah mereka antisipasi dalam '' @
        lit ''implementasi. Pada dataset kecil atau input '' @
        lit ''tipikal, kode tampak sempurna dan seluruh '' @
        lit ''baris assertions berstatus PASS. Namun '' @
        lit ''ketika berhadapan dengan data acak tak '' @
        lit ''terduga di lingkungan produksi, asumsi '' @
        lit ''tersembunyi runtuh seketika dan memicu '' @
        lit ''kegagalan sistemik yang fatal.'')),
    (''narrative_en'', PyStr (lit ''Conventional example-based unit tests check '' @
        lit ''whether f(x) == y for a few hand-picked '' @
        lit ''samples. The core vulnerability is '' @
        lit ''developer confirmation bias: engineers only '' @
        lit ''test scenarios they already anticipated. '' @
        lit ''While test suites show 100% green coverage, '' @
        lit ''edge-case assumptions break immediately '' @
        lit ''when exposed to real-world, uncurated input '' @ lit ''distributions.'')),
    (''mental_model'', PyStr (lit ''Example-based tests check developer '' @
        lit ''assumptions; property-based tests explore '' @ lit ''domain boundaries.'')),
    (''source_path'', PyStr (lit ''labs/40-property-based-testing/README.md'')),
    (''slide_num'', PyStr (lit ''02 / 24''))]\<rparr>\<close>

definition lab40_items_03 :: pyval where [lab40_contents]:
  \<open>lab40_items_03 =
   PyList
   [PyDict
     [(''title'', PyStr (lit ''PILAR SIKLUS PBT'')),
      (''items'', PyList
        [PyStr (lit ''Tahap | Tanggung Jawab | Output Sistem''),
         PyStr (lit ''1. Generator | Buat ratusan sampel input '' @
            lit ''acak terdistribusi | Slices, numbers, '' @ lit ''structs''),
         PyStr (lit ''2. Invariant | Evaluasi properti universal '' @
            lit ''f(x) | Validasi true / false''),
         PyStr (lit ''3. Shrinker | Pangkas kegagalan ke bentuk '' @
            lit ''terkecil | Minimal counterexample (e.g. '' @ lit ''[-1])'')]),
      (''type'', PyStr (lit ''table''))]]\<close>

definition lab40_slide_03 :: pycall where [lab40_slides]:
  \<open>lab40_slide_03 =
   \<lparr>posargs = [],
  kwargs =
   [(''categories'', PyList
      [PyStr (lit ''ARSITEKTUR''),
       PyStr (lit ''LIFECYCLE'')]),
    (''title'', PyStr (lit ''Tiga Pilar Siklus Property-Based Testing'')),
    (''title_en'', PyStr (lit ''Three Pillars of Property-Based Testing'')),
    (''subtitle'', PyStr (lit ''Generasi domain, evaluasi invariant '' @
        lit ''universal, dan reduksi counterexample.'')),
    (''content_items'', lab40_items_03),
    (''narrative'', PyStr (lit ''Siklus kerja Property-Based Testing membagi '' @
        lit ''tugas antara komputasi mesin dan '' @
        lit ''perancangan manusia secara elegan. Manusia '' @
        lit ''bertanggung jawab mendefinisikan batasan '' @
        lit ''domain serta relasi invariant matematika '' @
        lit ''yang wajib selalu bernilai benar. Mesin PBT '' @
        lit ''kemudian bertindak sebagai musuh '' @
        lit ''(adversary) yang mengeksekusi ratusan '' @
        lit ''kombinasi data acak melalui generator, '' @
        lit ''memverifikasi invariant pada setiap '' @
        lit ''iterasi, dan segera mengisolasi kegagalan '' @
        lit ''ke bentuk data paling sederhana menggunakan '' @
        lit ''algoritma shrinking deterministik.'')),
    (''narrative_en'', PyStr (lit ''Property-based testing splits '' @
        lit ''responsibilities cleanly between human and '' @
        lit ''machine. Engineers define domain '' @
        lit ''constraints and mathematical invariants '' @
        lit ''that must unconditionally hold. The PBT '' @
        lit ''engine acts as an automated adversary, '' @
        lit ''generating random candidates, checking '' @
        lit ''invariants, and shrinking failures to their '' @ lit ''simplest form.'')),
    (''mental_model'', PyStr (lit ''Generate broadly, assert universally, and '' @
        lit ''shrink failures ruthlessly to their core.'')),
    (''source_path'', PyStr (lit ''labs/40-property-based-testing/content/02-ma'' @ lit ''ster-draft.md'')),
    (''slide_num'', PyStr (lit ''03 / 24''))]\<rparr>\<close>

definition lab40_items_04 :: pyval where [lab40_contents]:
  \<open>lab40_items_04 =
   PyList
   [PyDict
     [(''title'', PyStr (lit ''POLA INVARIANT'')),
      (''items'', PyList
        [PyStr (lit ''Pola Invariant | Formula Formal | Contoh '' @ lit ''Kasus Nyata''),
         PyStr (lit ''Roundtrip | Decode(Encode(x)) == x | '' @
            lit ''Serialisasi JSON, mata uang, kompresi''),
         PyStr (lit ''Idempotence | f(f(x)) == f(x) | Normalisasi '' @
            lit ''teks, merge interval, cleanup''),
         PyStr (lit ''Oracle Equiv | f_robust(x) == f_naive(x) | '' @
            lit ''Verifikasi algoritma teroptimasi vs '' @ lit ''referensi''),
         PyStr (lit ''Easy-to-Verify | HardToSolve(x) -> '' @
            lit ''EasyVerify(res) | Validasi shortest path, '' @ lit ''partisi graf'')]),
      (''type'', PyStr (lit ''table''))]]\<close>

definition lab40_slide_04 :: pycall where [lab40_slides]:
  \<open>lab40_slide_04 =
   \<lparr>posargs = [],
  kwargs =
   [(''categories'', PyList
      [PyStr (lit ''TAKSONOMI''),
       PyStr (lit ''INVARIANTS'')]),
    (''title'', PyStr (lit ''Empat Pola Invariant Kanonikal'')),
    (''title_en'', PyStr (lit ''Four Canonical Invariant Patterns'')),
    (''subtitle'', PyStr (lit ''Pola relasional universal untuk membuktikan '' @
        lit ''kebenaran sistem tanpa oracle eksternal.'')),
    (''content_items'', lab40_items_04),
    (''narrative'', PyStr (lit ''Kunci keberhasilan PBT terletak pada '' @
        lit ''pemilihan pola invariant yang tepat tanpa '' @
        lit ''menulis ulang logika implementasi di dalam '' @
        lit ''assertion test. Pola Roundtrip menjamin '' @
        lit ''integritas transformasi bolak-balik tanpa '' @
        lit ''data corruption. Pola Idempotence '' @
        lit ''memastikan stabilitas state di mana '' @
        lit ''pemanggilan berulang tidak mengubah hasil. '' @
        lit ''Pola Test Oracle membandingkan algoritma '' @
        lit ''berperforma tinggi terhadap implementasi '' @
        lit ''referensi sederhana. Pola Easy-to-Verify '' @
        lit ''memeriksa keabsahan properti solusi akhir '' @
        lit ''dengan biaya komputasi murah.'')),
    (''narrative_en'', PyStr (lit ''The core of PBT lies in choosing relational '' @
        lit ''invariants rather than duplicating '' @
        lit ''implementation logic in test assertions. '' @
        lit ''Roundtrips ensure lossless data '' @
        lit ''transformations, idempotence guarantees '' @
        lit ''state stability, test oracles verify '' @
        lit ''complex optimizations against naive '' @
        lit ''references, and easy-to-verify checks '' @
        lit ''validate structural correctness at low '' @ lit ''computational cost.'')),
    (''mental_model'', PyStr (lit ''Invariant patterns are executable '' @
        lit ''mathematical specifications for software '' @ lit ''behavior.'')),
    (''source_path'', PyStr (lit ''labs/40-property-based-testing/content/02-ma'' @ lit ''ster-draft.md'')),
    (''slide_num'', PyStr (lit ''04 / 24''))]\<rparr>\<close>

definition lab40_items_05 :: pyval where [lab40_contents]:
  \<open>lab40_items_05 =
   PyList
   [PyDict
     [(''title'', PyStr (lit ''NAIVE FLOAT IMPLEMENTATION'')),
      (''items'', PyList
        [PyStr (lit ''type NaiveCurrency struct{}''),
         PyStr [],
         PyStr (lit ''func (n NaiveCurrency) Format(dollars '' @ lit ''float64) string {''),
         PyStr (lit ''    return fmt.Sprintf("$%.2f", dollars)''),
         PyStr (lit ''}''),
         PyStr [],
         PyStr (lit ''func (n NaiveCurrency) Parse(s string) '' @ lit ''(float64, error) {''),
         PyStr (lit ''    s = strings.TrimPrefix(s, "$")''),
         PyStr (lit ''    return strconv.ParseFloat(s, 64)''),
         PyStr (lit ''}'')]),
      (''type'', PyStr (lit ''code''))]]\<close>

definition lab40_slide_05 :: pycall where [lab40_slides]:
  \<open>lab40_slide_05 =
   \<lparr>posargs = [],
  kwargs =
   [(''categories'', PyList
      [PyStr (lit ''ANTI-PATTERN''),
       PyStr (lit ''CURRENCY'')]),
    (''title'', PyStr (lit ''Kegagalan Presisi Float pada Mata Uang'')),
    (''title_en'', PyStr (lit ''Floating-Point Precision Loss in Currency'')),
    (''subtitle'', PyStr (lit ''Representasi pecahan biner IEEE 754 merusak '' @
        lit ''presisi desimal secara laten.'')),
    (''content_items'', lab40_items_05),
    (''narrative'', PyStr (lit ''Menyimpan nilai moneter dalam tipe '' @
        lit ''floating-point float64 adalah anti-pattern '' @
        lit ''klasik dalam rekayasa perangkat lunak. '' @
        lit ''Pemformatan dengan sintaks pembulatan '' @
        lit ''desimal string memotong digit pecahan '' @
        lit ''sub-cent tanpa kendali. Lebih buruk lagi, '' @
        lit ''konversi string kembali ke float64 tunduk '' @
        lit ''pada aproksimasi biner IEEE 754. Pada '' @
        lit ''pengujian konvensional dengan nilai bulat '' @
        lit ''rapi, bug ini tidak pernah muncul, '' @
        lit ''menciptakan ilusi bahwa modul akuntansi '' @
        lit ''bekerja normal padahal pembulatan sen terus '' @ lit ''bocor.'')),
    (''narrative_en'', PyStr (lit ''Storing currency as float64 is a notorious '' @
        lit ''software engineering anti-pattern. Format '' @
        lit ''strings truncate sub-cent precision, while '' @
        lit ''string-to-float conversions suffer from '' @
        lit ''IEEE 754 binary approximation limits. '' @
        lit ''Hand-picked unit test values hide this '' @
        lit ''defect entirely, allowing financial '' @
        lit ''rounding leaks into production.'')),
    (''mental_model'', PyStr (lit ''Floating point binary approximations '' @
        lit ''inevitably corrupt fractional decimal '' @ lit ''values.'')),
    (''source_path'', PyStr (lit ''internal/currency/currency.go:9-21'')),
    (''slide_num'', PyStr (lit ''05 / 24''))]\<rparr>\<close>

definition lab40_items_06 :: pyval where [lab40_contents]:
  \<open>lab40_items_06 =
   PyList
   [PyDict
     [(''title'', PyStr (lit ''PROPERTY TEST CHECK'')),
      (''items'', PyList
        [PyStr (lit ''func TestPropertyNaiveCurrencyFails(t '' @ lit ''*testing.T) {''),
         PyStr (lit ''    naive := NaiveCurrency{}''),
         PyStr (lit ''    prop := func(val NaiveFloat) bool {''),
         PyStr (lit ''        dollars := float64(val)''),
         PyStr (lit ''        formatted := naive.Format(dollars)''),
         PyStr (lit ''        parsed, err := '' @ lit ''naive.Parse(formatted)''),
         PyStr (lit ''        if err != nil { return false }''),
         PyStr (lit ''        return parsed == dollars // Gagal '' @ lit ''pada sub-cent!''),
         PyStr (lit ''    }''),
         PyStr (lit ''    err := quick.Check(prop, '' @ lit ''&quick.Config{MaxCount: 100})''),
         PyStr (lit ''    // quick.Check mengembalikan error '' @ lit ''counterexample''),
         PyStr (lit ''}'')]),
      (''type'', PyStr (lit ''code''))]]\<close>

definition lab40_slide_06 :: pycall where [lab40_slides]:
  \<open>lab40_slide_06 =
   \<lparr>posargs = [],
  kwargs =
   [(''categories'', PyList
      [PyStr (lit ''BUKTI KODE''),
       PyStr (lit ''QUICK CHECK'')]),
    (''title'', PyStr (lit ''PBT Mendeteksi Kebocoran Float 100%'')),
    (''title_en'', PyStr (lit ''PBT Catches Float Leaks with 100% Failure '' @ lit ''Rate'')),
    (''subtitle'', PyStr (lit ''Pemeriksaan Roundtrip Parse(Format(x)) == x '' @
        lit ''menggagalkan seluruh sampel acak.'')),
    (''content_items'', lab40_items_06),
    (''narrative'', PyStr (lit ''Ketika properti roundtrip diuji menggunakan '' @
        lit ''paket standar Go testing/quick, kelemahan '' @
        lit ''implementasi float64 langsung terekspos '' @
        lit ''tanpa ampun. Dari 1.000 iterasi angka acak, '' @
        lit ''seluruh 1.000 input mengalami kegagalan '' @
        lit ''roundtrip karena nilai desimal asli '' @
        lit ''terpotong oleh format dua angka di belakang '' @
        lit ''koma. PBT membuktikan secara empiris bahwa '' @
        lit ''fungsi Parse(Format(x)) bukanlah fungsi '' @
        lit ''identitas bagi domain float64, mematahkan '' @
        lit ''asumsi keamanan yang sebelumnya diberikan '' @ lit ''oleh unit test statis.'')),
    (''narrative_en'', PyStr (lit ''When the roundtrip property is tested '' @ lit ''against Go'' @ [39] @
        lit ''s testing/quick package, the float64 '' @
        lit ''implementation fails unconditionally. '' @
        lit ''Across 1,000 randomized iterations, all '' @
        lit ''1,000 inputs violate the identity invariant '' @
        lit ''Parse(Format(x)) == x due to sub-cent '' @
        lit ''truncation, proving that example tests '' @ lit ''produced false confidence.'')),
    (''mental_model'', PyStr (lit ''A roundtrip property check exposes latent '' @
        lit ''serialization and truncation flaws '' @ lit ''immediately.'')),
    (''source_path'', PyStr (lit ''internal/currency/currency_test.go:37-61'')),
    (''slide_num'', PyStr (lit ''06 / 24''))]\<rparr>\<close>

definition lab40_items_07 :: pyval where [lab40_contents]:
  \<open>lab40_items_07 =
   PyList
   [PyDict
     [(''title'', PyStr (lit ''INTEGER CENTS STRUCT'')),
      (''items'', PyList
        [PyStr (lit ''type RobustAmount struct {''),
         PyStr (lit ''    Cents int64''),
         PyStr (lit ''}''),
         PyStr [],
         PyStr (lit ''func (r RobustAmount) Format() string {''),
         PyStr (lit ''    absCents := r.Cents; sign := ""''),
         PyStr (lit ''    if absCents < 0 { sign = "-"; absCents '' @ lit ''= -absCents }''),
         PyStr (lit ''    dollars := absCents / 100; cents := '' @ lit ''absCents % 100''),
         PyStr (lit ''    return fmt.Sprintf("%s$%d.%02d", sign, '' @ lit ''dollars, cents)''),
         PyStr (lit ''}'')]),
      (''type'', PyStr (lit ''code''))]]\<close>

definition lab40_slide_07 :: pycall where [lab40_slides]:
  \<open>lab40_slide_07 =
   \<lparr>posargs = [],
  kwargs =
   [(''categories'', PyList
      [PyStr (lit ''SOLUSI''),
       PyStr (lit ''REPRESENTASI'')]),
    (''title'', PyStr (lit ''Desain Robust: Integer Cents Representation'')),
    (''title_en'', PyStr (lit ''Robust Representation: Exact Integer Cents'')),
    (''subtitle'', PyStr (lit ''Menghilangkan ambiguitas desimal dengan '' @
        lit ''menyimpan nilai moneter sebagai int64.'')),
    (''content_items'', lab40_items_07),
    (''narrative'', PyStr (lit ''Solusi rekayasa yang terbukti secara '' @
        lit ''industri untuk domain mata uang adalah '' @
        lit ''merepresentasikan nominal terkecil sebagai '' @
        lit ''bilangan bulat utuh (integer cents bertipe '' @
        lit ''int64). Format visual desimal hanyalah '' @
        lit ''proyeksi tampilan pada lapisan presentasi '' @
        lit ''string, sedangkan operasi aritmatika '' @
        lit ''internal dan penyimpanan data tetap berada '' @
        lit ''di ranah bilangan diskrit. Pendekatan ini '' @
        lit ''secara definitif menutup peluang terjadinya '' @
        lit ''distorsi presisi IEEE 754 dan menjamin '' @ lit ''determinisme mutlak.'')),
    (''narrative_en'', PyStr (lit ''The industry-proven solution for monetary '' @
        lit ''values is storing the smallest fractional '' @
        lit ''unit as an integer (int64 cents). Decimal '' @
        lit ''string formatting becomes a '' @
        lit ''presentation-layer projection, while '' @
        lit ''arithmetic remains purely discrete, '' @
        lit ''eliminating floating-point imprecision '' @ lit ''permanently.'')),
    (''mental_model'', PyStr (lit ''Represent fractional quantities in discrete '' @
        lit ''atomic units to eliminate rounding '' @ lit ''artifacts.'')),
    (''source_path'', PyStr (lit ''internal/currency/currency.go:23-42'')),
    (''slide_num'', PyStr (lit ''07 / 24''))]\<rparr>\<close>

definition lab40_items_08 :: pyval where [lab40_contents]:
  \<open>lab40_items_08 =
   PyList
   [PyDict
     [(''title'', PyStr (lit ''BIASED GENERATOR LOGIC'')),
      (''items'', PyList
        [PyStr (lit ''func (RobustAmount) Generate(r *rand.Rand, '' @
            lit ''size int) reflect.Value {''),
         PyStr (lit ''    switch r.Intn(5) {''),
         PyStr (lit ''    case 0: cents = 0                       '' @
            lit ''  // Boundary zero''),
         PyStr (lit ''    case 1: cents = int64(r.Intn(200) - '' @
            lit ''100)  // Near-zero negatives''),
         PyStr (lit ''    case 2: cents = int64(r.Intn(1000000))  '' @
            lit ''  // Normal positive''),
         PyStr (lit ''    case 3: cents = -int64(r.Intn(1000000)) '' @
            lit ''  // Normal negative''),
         PyStr (lit ''    default: cents = r.Int63n(1e12) - 5e11  '' @
            lit ''  // Multi-billion bounds''),
         PyStr (lit ''    }''),
         PyStr (lit ''    return reflect.ValueOf(RobustAmount{Cent'' @ lit ''s: cents})''),
         PyStr (lit ''}'')]),
      (''type'', PyStr (lit ''code''))]]\<close>

definition lab40_slide_08 :: pycall where [lab40_slides]:
  \<open>lab40_slide_08 =
   \<lparr>posargs = [],
  kwargs =
   [(''categories'', PyList
      [PyStr (lit ''PBT PATTERN''),
       PyStr (lit ''GENERATOR'')]),
    (''title'', PyStr (lit ''Custom Generator & Boundary Value Bias'')),
    (''title_en'', PyStr (lit ''Custom Generator with Boundary Value Bias'')),
    (''subtitle'', PyStr (lit ''Mengarahkan distribusi acak ke titik-titik '' @
        lit ''rawan: batas nol, negatif, dan ekstrem.'')),
    (''content_items'', lab40_items_08),
    (''narrative'', PyStr (lit ''Generator acak yang murni seragam (uniform '' @
        lit ''distribution) sering kali melewatkan '' @
        lit ''titik-titik krusial tempat bersarangnya bug '' @
        lit ''batas logika. Implementasi generator '' @
        lit ''RobustAmount pada Lab 40 sengaja '' @
        lit ''menyuntikkan bias probabilitas ke arah '' @
        lit ''nilai rawan: batas nol, transisi bilangan '' @
        lit ''negatif kecil di sekitar nol (-100 hingga '' @
        lit ''+99 sen), serta nilai nominal raksasa '' @
        lit ''multi-miliar sen. Generator yang cerdas '' @
        lit ''secara agresif membombardir tepi spektrum '' @
        lit ''domain untuk menguji ketahanan boundary '' @ lit ''handling.'')),
    (''narrative_en'', PyStr (lit ''Uniform random generators often miss '' @
        lit ''critical edge cases where boundary bugs '' @
        lit ''reside. The RobustAmount custom generator '' @
        lit ''injects deliberate probability biases '' @
        lit ''toward zero, near-zero negative '' @
        lit ''transitions, and multi-billion cent bounds, '' @
        lit ''actively probing boundary handling '' @ lit ''resilience.'')),
    (''mental_model'', PyStr (lit ''Biased generators force tests toward '' @
        lit ''dangerous boundary conditions instead of '' @ lit ''safe averages.'')),
    (''source_path'', PyStr (lit ''internal/currency/currency_test.go:63-81'')),
    (''slide_num'', PyStr (lit ''08 / 24''))]\<rparr>\<close>

definition lab40_items_09 :: pyval where [lab40_contents]:
  \<open>lab40_items_09 =
   PyList
   [PyDict
     [(''title'', PyStr (lit ''HASIL VERIFIKASI ROUNDTRIP'')),
      (''items'', PyList
        [PyStr (lit ''Metrik Uji | Naive Float64 | Robust Integer '' @ lit ''Cents''),
         PyStr (lit ''Total Iterasi Acak | 1.000 iterasi | 1.000 '' @ lit ''iterasi''),
         PyStr (lit ''Tingkat Kelulusan | 0% (1.000 gagal) | 100% '' @ lit ''(1.000 lolos)''),
         PyStr (lit ''Cakupan Domain | Terbatas hand-picked | '' @
            lit ''Nol, negatif, triliun sen''),
         PyStr (lit ''Invarian Terbukti | Gagal total | '' @ lit ''Parse(Format(x)) == x VALID'')]),
      (''type'', PyStr (lit ''table''))]]\<close>

definition lab40_slide_09 :: pycall where [lab40_slides]:
  \<open>lab40_slide_09 =
   \<lparr>posargs = [],
  kwargs =
   [(''categories'', PyList
      [PyStr (lit ''VERIFIKASI''),
       PyStr (lit ''ROUNDTRIP'')]),
    (''title'', PyStr (lit ''1.000 Iterasi Lolos Roundtrip Integer Cents'')),
    (''title_en'', PyStr (lit ''1,000 Iterations Pass Integer Roundtrip'')),
    (''subtitle'', PyStr (lit ''Membuktikan secara deterministik bahwa '' @
        lit ''ParseRobust(Format(x)) == x.'')),
    (''content_items'', lab40_items_09),
    (''narrative'', PyStr (lit ''Dengan beralih ke integer cents dan parser '' @
        lit ''yang presisi, pengujian properti '' @
        lit ''TestPropertyRobustAmountRoundtrip berhasil '' @
        lit ''mengeksekusi 1.000 iterasi berturut-turut '' @
        lit ''tanpa satu pun pelanggaran invariant. '' @
        lit ''Terlepas dari apakah input berupa angka '' @
        lit ''negatif dengan tanda minus, nilai nol '' @
        lit ''bersih, atau nominal transaksi skala '' @
        lit ''enterprise, relasi Parse(Format(x)) == x '' @
        lit ''selalu terpenuhi. Ini membuktikan bahwa '' @
        lit ''arsitektur data baru telah memenuhi kontrak '' @
        lit ''integritas serialisasi secara matematis.'')),
    (''narrative_en'', PyStr (lit ''By adopting integer cents and exact string '' @
        lit ''parsing, TestPropertyRobustAmountRoundtrip '' @
        lit ''executes 1,000 randomized iterations '' @
        lit ''without a single invariant violation. '' @
        lit ''Across negative amounts, zero, and '' @
        lit ''enterprise-scale values, Parse(Format(x)) '' @
        lit ''== x holds true unconditionally.'')),
    (''mental_model'', PyStr (lit ''A verified roundtrip invariant proves '' @
        lit ''mathematical isomorphism between data and '' @ lit ''representation.'')),
    (''source_path'', PyStr (lit ''internal/currency/currency_test.go:83-102'')),
    (''slide_num'', PyStr (lit ''09 / 24''))]\<rparr>\<close>

definition lab40_items_10 :: pyval where [lab40_contents]:
  \<open>lab40_items_10 =
   PyList
   [PyDict
     [(''title'', PyStr (lit ''NAIVE MERGE CODE'')),
      (''items'', PyList
        [PyStr (lit ''func NaiveMerge(intervals []Interval) '' @ lit ''[]Interval {''),
         PyStr (lit ''    if len(intervals) == 0 { return nil }''),
         PyStr (lit ''    out := []Interval{intervals[0]}''),
         PyStr (lit ''    for _, iv := range intervals[1:] {''),
         PyStr (lit ''        last := &out[len(out)-1]''),
         PyStr (lit ''        if iv.Start <= last.End {''),
         PyStr (lit ''            if iv.End > last.End { last.End '' @ lit ''= iv.End }''),
         PyStr (lit ''        } else { out = append(out, iv) }''),
         PyStr (lit ''    }''),
         PyStr (lit ''    return out // BUG: Mengasumsikan input '' @ lit ''terurut!''),
         PyStr (lit ''}'')]),
      (''type'', PyStr (lit ''code''))]]\<close>

definition lab40_slide_10 :: pycall where [lab40_slides]:
  \<open>lab40_slide_10 =
   \<lparr>posargs = [],
  kwargs =
   [(''categories'', PyList
      [PyStr (lit ''STUDI KASUS''),
       PyStr (lit ''INTERVAL'')]),
    (''title'', PyStr (lit ''Kasus Interval Merge & Asumsi Tersembunyi'')),
    (''title_en'', PyStr (lit ''Interval Merging & Hidden Preconditions'')),
    (''subtitle'', PyStr (lit ''Asumsi implisit bahwa urutan input selalu '' @
        lit ''terurut memicu kecacatan algoritma.'')),
    (''content_items'', lab40_items_10),
    (''narrative'', PyStr (lit ''Kelemahan algoritma sering kali berakar '' @
        lit ''pada prakondisi implisit yang tidak '' @
        lit ''dinyatakan secara tegas dalam kontrak kode. '' @
        lit ''Fungsi NaiveMerge dirancang untuk '' @
        lit ''menggabungkan interval waktu yang saling '' @
        lit ''tumpang tindih. Namun, loop perulangan '' @
        lit ''langsung membandingkan elemen berjalan '' @
        lit ''terhadap elemen terakhir dari slice output, '' @
        lit ''mengasumsikan input sudah terurut '' @
        lit ''berdasarkan titik awal (Start). Ketika '' @
        lit ''dipanggil dengan contoh terurut, fungsi '' @
        lit ''bekerja mulus; namun begitu urutan berubah, '' @ lit ''output menjadi rusak.'')),
    (''narrative_en'', PyStr (lit ''Algorithmic bugs frequently stem from '' @
        lit ''unstated implicit preconditions. NaiveMerge '' @
        lit ''merges overlapping intervals by checking '' @
        lit ''incoming elements against the last emitted '' @
        lit ''interval, implicitly assuming presorted '' @
        lit ''inputs. Hand-picked sorted examples '' @
        lit ''succeed, but arbitrary ordering produces '' @ lit ''silent corruption.'')),
    (''mental_model'', PyStr (lit ''Unenforced implicit preconditions are bugs '' @
        lit ''waiting for real-world input to trigger '' @ lit ''them.'')),
    (''source_path'', PyStr (lit ''internal/interval/interval.go:10-28'')),
    (''slide_num'', PyStr (lit ''10 / 24''))]\<rparr>\<close>

definition lab40_items_11 :: pyval where [lab40_contents]:
  \<open>lab40_items_11 =
   PyList
   [PyDict
     [(''title'', PyStr (lit ''ORACLE INVARIANT CHECK'')),
      (''items'', PyList
        [PyStr (lit ''func TestPropertyNaiveMergeFails(t '' @ lit ''*testing.T) {''),
         PyStr (lit ''    prop := func(ivs IntervalSlice) bool {''),
         PyStr (lit ''        naive := NaiveMerge([]Interval(ivs))''),
         PyStr (lit ''        robust := '' @ lit ''RobustMerge([]Interval(ivs))''),
         PyStr (lit ''        return intervalsEqual(naive, robust)''),
         PyStr (lit ''    }''),
         PyStr (lit ''    err := quick.Check(prop, '' @ lit ''&quick.Config{MaxCount: 100})''),
         PyStr (lit ''    // 85 dari 100 input acak menghasilkan '' @ lit ''ketidaksesuaian!''),
         PyStr (lit ''}'')]),
      (''type'', PyStr (lit ''code''))]]\<close>

definition lab40_slide_11 :: pycall where [lab40_slides]:
  \<open>lab40_slide_11 =
   \<lparr>posargs = [],
  kwargs =
   [(''categories'', PyList
      [PyStr (lit ''ORACLE''),
       PyStr (lit ''EQUIVALENCE'')]),
    (''title'', PyStr (lit ''Test Oracle: Membongkar 85% Discrepancy'')),
    (''title_en'', PyStr (lit ''Test Oracle Uncovers 85% Discrepancy'')),
    (''subtitle'', PyStr (lit ''Membandingkan implementasi naif terhadap '' @
        lit ''implementasi robust secara komparatif.'')),
    (''content_items'', lab40_items_11),
    (''narrative'', PyStr (lit ''Teknik Test Oracle memanfaatkan dua '' @
        lit ''implementasi berbeda untuk input yang sama: '' @
        lit ''f_naive(x) versus f_robust(x). RobustMerge '' @
        lit ''secara eksplisit melakukan pengurutan '' @
        lit ''sort.Slice sebelum proses penggabungan '' @
        lit ''dilakukan. Ketika dievaluasi dengan '' @
        lit ''generator irisan acak, pengujian membongkar '' @
        lit ''bahwa 85 dari 100 input menghasilkan '' @
        lit ''inkonsistensi keluaran antara NaiveMerge '' @
        lit ''dan RobustMerge. Generator acak secara '' @
        lit ''instan mengekspos betapa rapuhnya kode naif '' @
        lit ''di hadapan array yang tidak terurut.'')),
    (''narrative_en'', PyStr (lit ''The Test Oracle pattern compares two '' @
        lit ''distinct implementations against identical '' @
        lit ''inputs: f_naive(x) versus f_robust(x). '' @
        lit ''RobustMerge enforces pre-sorting via '' @
        lit ''sort.Slice. Under property evaluation, 85 '' @
        lit ''out of 100 randomized slices expose '' @
        lit ''discrepancies, demonstrating the fragility '' @ lit ''of unsorted inputs.'')),
    (''mental_model'', PyStr (lit ''A reference implementation acts as an '' @
        lit ''oracle to evaluate alternative algorithms '' @ lit ''at scale.'')),
    (''source_path'', PyStr (lit ''internal/interval/interval_test.go:43-59'')),
    (''slide_num'', PyStr (lit ''11 / 24''))]\<rparr>\<close>

definition lab40_items_12 :: pyval where [lab40_contents]:
  \<open>lab40_items_12 =
   PyList
   [PyDict
     [(''title'', PyStr (lit ''IDEMPOTENCE EQUATION'')),
      (''items'', PyList
        [PyStr (lit ''Formula Teoretis: f(f(x)) == f(x)''),
         PyStr [],
         PyStr (lit ''func TestPropertyRobustMergeIdempotence(t '' @ lit ''*testing.T) {''),
         PyStr (lit ''    prop := func(ivs IntervalSlice) bool {''),
         PyStr (lit ''        once := RobustMerge([]Interval(ivs))''),
         PyStr (lit ''        twice := RobustMerge(once)''),
         PyStr (lit ''        return intervalsEqual(once, twice)''),
         PyStr (lit ''    }''),
         PyStr (lit ''    quick.Check(prop, '' @ lit ''&quick.Config{MaxCount: 1000})''),
         PyStr (lit ''}'')]),
      (''type'', PyStr (lit ''code''))]]\<close>

definition lab40_slide_12 :: pycall where [lab40_slides]:
  \<open>lab40_slide_12 =
   \<lparr>posargs = [],
  kwargs =
   [(''categories'', PyList
      [PyStr (lit ''IDEMPOTENCE''),
       PyStr (lit ''STABILITAS'')]),
    (''title'', PyStr (lit ''Invariant Idempotence pada Penggabungan Data'')),
    (''title_en'', PyStr (lit ''Idempotence Invariant on Data Merging'')),
    (''subtitle'', PyStr (lit ''Menjalankan operasi berulang pada hasil '' @
        lit ''penggabungan tidak boleh mengubah state.'')),
    (''content_items'', lab40_items_12),
    (''narrative'', PyStr (lit ''Idempotensi adalah sifat matematika '' @
        lit ''fundamental dalam arsitektur komputasi: '' @
        lit ''f(f(x)) == f(x). Dalam konteks pemrosesan '' @
        lit ''data, menjalankan fungsi penggabungan pada '' @
        lit ''kumpulan interval yang sudah digabungkan '' @
        lit ''wajib menghasilkan output yang sama persis '' @
        lit ''tanpa mutasi tambahan. Pengujian '' @
        lit ''TestPropertyRobustMergeIdempotence '' @
        lit ''memvalidasi 1.000 iterasi irisan acak, '' @
        lit ''membuktikan bahwa operasi RobustMerge '' @
        lit ''bersifat stabil dan aman dari efek samping '' @ lit ''mutasi berulang.'')),
    (''narrative_en'', PyStr (lit ''Idempotence is a foundational invariant: '' @
        lit ''f(f(x)) == f(x). In data processing, '' @
        lit ''re-applying a merge operation to an already '' @
        lit ''merged slice must yield an identical result '' @
        lit ''without side effects. Running 1,000 '' @
        lit ''iterations confirms that RobustMerge is '' @
        lit ''mathematically stable across all '' @ lit ''permutations.'')),
    (''mental_model'', PyStr (lit ''Idempotence guarantees operational '' @
        lit ''convergence: repetition causes zero state '' @ lit ''drift.'')),
    (''source_path'', PyStr (lit ''internal/interval/interval_test.go:61-77'')),
    (''slide_num'', PyStr (lit ''12 / 24''))]\<rparr>\<close>

definition lab40_items_13 :: pyval where [lab40_contents]:
  \<open>lab40_items_13 =
   PyList
   [PyDict
     [(''title'', PyStr (lit ''STRUKTURAL ASSERTION'')),
      (''items'', PyList
        [PyStr (lit ''func TestPropertyRobustMergeNonOverlapping(t'' @ lit '' *testing.T) {''),
         PyStr (lit ''    prop := func(ivs IntervalSlice) bool {''),
         PyStr (lit ''        merged := '' @ lit ''RobustMerge([]Interval(ivs))''),
         PyStr (lit ''        for i := 0; i < len(merged)-1; i++ {''),
         PyStr (lit ''            if merged[i].End >= '' @ lit ''merged[i+1].Start {''),
         PyStr (lit ''                return false // Ada tumpang '' @ lit ''tindih!''),
         PyStr (lit ''            }''),
         PyStr (lit ''        }''),
         PyStr (lit ''        return true''),
         PyStr (lit ''    }''),
         PyStr (lit ''    quick.Check(prop, '' @ lit ''&quick.Config{MaxCount: 1000})''),
         PyStr (lit ''}'')]),
      (''type'', PyStr (lit ''code''))]]\<close>

definition lab40_slide_13 :: pycall where [lab40_slides]:
  \<open>lab40_slide_13 =
   \<lparr>posargs = [],
  kwargs =
   [(''categories'', PyList
      [PyStr (lit ''STRUKTUR''),
       PyStr (lit ''INVARIANTS'')]),
    (''title'', PyStr (lit ''Invariant Struktural: Non-Overlapping Slices'')),
    (''title_en'', PyStr (lit ''Structural Invariant: Non-Overlapping Slices'')),
    (''subtitle'', PyStr (lit ''Setiap pasangan interval berurutan dijamin '' @
        lit ''tidak saling bertumpukan.'')),
    (''content_items'', lab40_items_13),
    (''narrative'', PyStr (lit ''Selain relasi f(f(x)), kebenaran algoritma '' @
        lit ''penggabungan interval harus memenuhi '' @
        lit ''invariant struktural domain: untuk setiap '' @
        lit ''indeks i dan i+1 pada irisan keluaran, '' @
        lit ''titik akhir interval pertama harus lebih '' @
        lit ''kecil dari titik awal interval berikutnya '' @
        lit ''(out[i].End < out[i+1].Start). Pengujian '' @
        lit ''1.000 iterasi acak memastikan bahwa tidak '' @
        lit ''ada irisan ganda atau fragmen bertumpuk '' @
        lit ''yang lolos, menjamin partisi interval bebas '' @ lit ''anomali.'')),
    (''narrative_en'', PyStr (lit ''Beyond relational invariants, merge '' @
        lit ''algorithms must fulfill structural domain '' @
        lit ''properties: for all consecutive intervals '' @
        lit ''in the output, out[i].End < out[i+1].Start. '' @
        lit ''Across 1,000 iterations, the test proves '' @
        lit ''that no overlapping fragments escape the '' @ lit ''merging logic.'')),
    (''mental_model'', PyStr (lit ''Structural invariants verify '' @
        lit ''domain-specific physical constraints on '' @ lit ''output shapes.'')),
    (''source_path'', PyStr (lit ''internal/interval/interval_test.go:79-99'')),
    (''slide_num'', PyStr (lit ''13 / 24''))]\<rparr>\<close>

definition lab40_items_14 :: pyval where [lab40_contents]:
  \<open>lab40_items_14 =
   PyList
   [PyDict
     [(''title'', PyStr (lit ''SAMPLE INITIAL FAILING INPUT'')),
      (''items'', PyList
        [PyStr (lit ''Array Awal (10 elemen acak bernilai besar & '' @ lit ''campur aduk):''),
         PyStr (lit ''[137, 18, 100, -27, 95, 107, 126, 78, -7, '' @ lit ''79]''),
         PyStr [],
         PyStr (lit ''Pertanyaan Developer saat Melihat Log:''),
         PyStr ([0x2022] @ lit '' Apakah bug dipicu oleh angka 137? Atau '' @
            lit ''ukuran array bernilai 10?''),
         PyStr ([0x2022] @ lit '' Apakah urutan elemen saling mempengaruhi?''),
         PyStr ([0x2022] @ lit '' Elemen mana yang menjadi pemicu minimal '' @
            lit ''pelanggaran invariant?'')]),
      (''type'', PyStr (lit ''bullet''))]]\<close>

definition lab40_slide_14 :: pycall where [lab40_slides]:
  \<open>lab40_slide_14 =
   \<lparr>posargs = [],
  kwargs =
   [(''categories'', PyList
      [PyStr (lit ''SHRINKING''),
       PyStr (lit ''DIAGNOSTIK'')]),
    (''title'', PyStr (lit ''Anatomi Masalah: Kompleksitas Counterexample'')),
    (''title_en'', PyStr (lit ''Problem Anatomy: Counterexample Noise'')),
    (''subtitle'', PyStr (lit ''Kegagalan awal dari generator acak '' @
        lit ''mengandung derau data masif yang '' @ lit ''mengaburkan akar masalah.'')),
    (''content_items'', lab40_items_14),
    (''narrative'', PyStr (lit ''Ketika mesin PBT mendeteksi pelanggaran '' @
        lit ''invariant pada input acak berukuran besar, '' @
        lit ''output mentahnya sering kali berupa '' @
        lit ''struktur data raksasa yang membingungkan '' @
        lit ''engineer. Pada contoh demo, input yang '' @
        lit ''memicu kegagalan predicate adalah array 10 '' @
        lit ''elemen acak yang bercampur antara ratusan '' @
        lit ''angka positif dan dua bilangan negatif (-27 '' @
        lit ''dan -7). Tanpa mekanisme reduksi, developer '' @
        lit ''akan menghabiskan waktu berjam-jam memilah '' @
        lit ''data mana yang sesungguhnya menjadi biang '' @ lit ''kerok kegagalan sistem.'')),
    (''narrative_en'', PyStr (lit ''When a PBT engine catches an invariant '' @
        lit ''violation on randomized inputs, the raw '' @
        lit ''failure payload is often large and noisy. '' @
        lit ''In our demo, an arbitrary 10-element slice '' @
        lit ''contains mixed positive values and two '' @
        lit ''negatives. Without automated reduction, '' @
        lit ''developers waste hours isolating the exact '' @ lit ''trigger.'')),
    (''mental_model'', PyStr (lit ''Raw random failures contain heavy noise; '' @
        lit ''automated shrinking isolates the minimal '' @ lit ''signal.'')),
    (''source_path'', PyStr (lit ''labs/40-property-based-testing/content/02-ma'' @ lit ''ster-draft.md'')),
    (''slide_num'', PyStr (lit ''14 / 24''))]\<rparr>\<close>

definition lab40_items_15 :: pyval where [lab40_contents]:
  \<open>lab40_items_15 =
   PyList
   [PyDict
     [(''title'', PyStr (lit ''TIGA STRATEGI REDUKSI'')),
      (''items'', PyList
        [PyStr (lit ''Fase Algoritma | Aksi Reduksi | Target '' @ lit ''Optimasi''),
         PyStr (lit ''1. Binary Sectioning | Potong separuh kiri '' @
            lit ''/ kanan array | Pangkas ukuran O(log N)''),
         PyStr (lit ''2. Element Removal | Hapus elemen '' @
            lit ''individual satu per satu | Eliminasi noise '' @ lit ''non-kritis''),
         PyStr (lit ''3. Value Reduction | Bagi dua nilai elemen '' @
            lit ''menuju 0 | Minimalisasi magnitudo nilai'')]),
      (''type'', PyStr (lit ''table''))]]\<close>

definition lab40_slide_15 :: pycall where [lab40_slides]:
  \<open>lab40_slide_15 =
   \<lparr>posargs = [],
  kwargs =
   [(''categories'', PyList
      [PyStr (lit ''ALGORITMA''),
       PyStr (lit ''SHRINKER'')]),
    (''title'', PyStr (lit ''Konsep dan Algoritma Shrinking'')),
    (''title_en'', PyStr (lit ''Counterexample Shrinking Algorithm'')),
    (''subtitle'', PyStr (lit ''Reduksi deterministik dari kegagalan '' @
        lit ''kompleks menuju kasus reproduksi terkecil.'')),
    (''content_items'', lab40_items_15),
    (''narrative'', PyStr (lit ''Algoritma counterexample shrinking '' @
        lit ''dirancang untuk mentransformasikan input '' @
        lit ''kegagalan mentah menjadi *minimal '' @
        lit ''reproducible counterexample*. Algoritma '' @
        lit ''bekerja secara deterministik dalam tiga '' @
        lit ''fase bertingkat: pertama, melakukan '' @
        lit ''pemotongan biner (halving) terhadap panjang '' @
        lit ''array; kedua, mencoba menghapus elemen satu '' @
        lit ''per satu; dan ketiga, memperkecil magnitudo '' @
        lit ''nilai individual mendekati nol. Setiap '' @
        lit ''langkah yang tetap mempertahankan status '' @
        lit ''gagal (FAIL) diadopsi sebagai basis input '' @ lit ''baru.'')),
    (''narrative_en'', PyStr (lit ''Counterexample shrinking deterministically '' @
        lit ''transforms complex failing inputs into '' @
        lit ''minimal reproducible test cases. It '' @
        lit ''operates in three sequential phases: binary '' @
        lit ''list halving, individual element removal, '' @
        lit ''and numerical reduction toward zero, '' @
        lit ''retaining failing states at each stage.'')),
    (''mental_model'', PyStr (lit ''Shrinking is binary search applied to bug '' @
        lit ''reproducers: drop halves, drop items, drop '' @ lit ''magnitude.'')),
    (''source_path'', PyStr (lit ''internal/shrinker/shrinker.go:24-60'')),
    (''slide_num'', PyStr (lit ''15 / 24''))]\<rparr>\<close>

definition lab40_items_16 :: pyval where [lab40_contents]:
  \<open>lab40_items_16 =
   PyList
   [PyDict
     [(''title'', PyStr (lit ''CHUNK REMOVAL STRATEGY'')),
      (''items'', PyList
        [PyStr (lit ''if len(current) > 1 {''),
         PyStr (lit ''    mid := len(current) / 2''),
         PyStr (lit ''    left := current[:mid]''),
         PyStr (lit ''    if !predicate(left) {''),
         PyStr (lit ''        current = append([]int(nil), '' @ lit ''left...)''),
         PyStr (lit ''        changed = true; continue''),
         PyStr (lit ''    }''),
         PyStr (lit ''    right := current[mid:]''),
         PyStr (lit ''    if !predicate(right) {''),
         PyStr (lit ''        current = append([]int(nil), '' @ lit ''right...)''),
         PyStr (lit ''        changed = true; continue''),
         PyStr (lit ''    }''),
         PyStr (lit ''}'')]),
      (''type'', PyStr (lit ''code''))]]\<close>

definition lab40_slide_16 :: pycall where [lab40_slides]:
  \<open>lab40_slide_16 =
   \<lparr>posargs = [],
  kwargs =
   [(''categories'', PyList
      [PyStr (lit ''SHRINKER''),
       PyStr (lit ''CODE'')]),
    (''title'', PyStr (lit ''Binary Sectioning: Memangkas Panjang Array'')),
    (''title_en'', PyStr (lit ''Binary Sectioning: Halving Array Length'')),
    (''subtitle'', PyStr (lit ''Menguji apakah separuh bagian data masih '' @
        lit ''mempertahankan kegagalan invarian.'')),
    (''content_items'', lab40_items_16),
    (''narrative'', PyStr (lit ''Fase pertama dari shrinking adalah binary '' @
        lit ''chunking. Algoritma membagi slice menjadi '' @
        lit ''dua bagian (kiri dan kanan), lalu '' @
        lit ''mengevaluasi predicate pada masing-masing '' @
        lit ''belahan. Jika belahan kiri masih memicu '' @
        lit ''kegagalan, separuh bagian kanan langsung '' @
        lit ''dibuang secara permanen. Dalam demo, array '' @
        lit ''10 elemen terpotong menjadi 5 elemen [137, '' @
        lit ''18, 100, -27, 95] pada langkah 1, lalu '' @
        lit ''terpotong lagi menjadi 3 elemen [100, -27, '' @
        lit ''95] pada langkah 3, mempercepat pencarian '' @ lit ''secara eksponensial.'')),
    (''narrative_en'', PyStr (lit ''The first phase of shrinking is binary list '' @
        lit ''sectioning. The slice is halved and each '' @
        lit ''section evaluated against the predicate. If '' @
        lit ''the left half still fails, the entire right '' @
        lit ''half is discarded immediately, reducing '' @
        lit ''input size from 10 elements to 5, then to 3 '' @ lit ''within a few steps.'')),
    (''mental_model'', PyStr (lit ''Halving input payloads quickly eliminates '' @
        lit ''large clusters of irrelevant test data.'')),
    (''source_path'', PyStr (lit ''internal/shrinker/shrinker.go:61-95'')),
    (''slide_num'', PyStr (lit ''16 / 24''))]\<rparr>\<close>

definition lab40_items_17 :: pyval where [lab40_contents]:
  \<open>lab40_items_17 =
   PyList
   [PyDict
     [(''title'', PyStr (lit ''VALUE REDUCTION LOOP'')),
      (''items'', PyList
        [PyStr (lit ''// Coba set elemen menjadi 0 atau bagi dua '' @ lit ''nilainya''),
         PyStr (lit ''candidates := []int{0, current[i] / 2}''),
         PyStr (lit ''for _, cand := range candidates {''),
         PyStr (lit ''    testSlice := append([]int(nil), '' @ lit ''current...)''),
         PyStr (lit ''    testSlice[i] = cand''),
         PyStr (lit ''    if !predicate(testSlice) {''),
         PyStr (lit ''        current = testSlice''),
         PyStr (lit ''        changed = true; break''),
         PyStr (lit ''    }''),
         PyStr (lit ''}'')]),
      (''type'', PyStr (lit ''code''))]]\<close>

definition lab40_slide_17 :: pycall where [lab40_slides]:
  \<open>lab40_slide_17 =
   \<lparr>posargs = [],
  kwargs =
   [(''categories'', PyList
      [PyStr (lit ''SHRINKER''),
       PyStr (lit ''VALUE REDUCTION'')]),
    (''title'', PyStr (lit ''Reduksi Elemen & Magnitudo Menuju Nol'')),
    (''title_en'', PyStr (lit ''Element Removal and Value Reduction'')),
    (''subtitle'', PyStr (lit ''Menghapus elemen per satuan dan memperkecil '' @
        lit ''nilai numerik hingga batas minimal.'')),
    (''content_items'', lab40_items_17),
    (''narrative'', PyStr (lit ''Setelah panjang array dipangkas hingga '' @
        lit ''tersisa 1 elemen tunggal berisi [-27], '' @
        lit ''algoritma melanjutkan ke strategi ketiga: '' @
        lit ''reduksi nilai numerik. Nilai -27 secara '' @
        lit ''bertahap dibagi dua mendekati nol: -27 -> '' @
        lit ''-13 -> -6 -> -3 -> -1. Setiap langkah '' @
        lit ''diverifikasi apakah invarian masih '' @
        lit ''dilanggar. Ketika mencapai -1, langkah '' @
        lit ''berikutnya yaitu 0 menghasilkan PASS '' @
        lit ''(karena 0 bukan negatif). Algoritma '' @
        lit ''berhenti dan menetapkan [-1] sebagai nilai '' @ lit ''batas minimal mutlak.'')),
    (''narrative_en'', PyStr (lit ''Once array length is reduced to a '' @
        lit ''single-element slice [-27], the shrinker '' @
        lit ''applies numerical reduction toward zero: '' @
        lit ''-27 -> -13 -> -6 -> -3 -> -1. When '' @
        lit ''candidate 0 passes the non-negative check, '' @
        lit ''the shrinker terminates, locking in [-1] as '' @
        lit ''the exact minimal boundary counterexample.'')),
    (''mental_model'', PyStr (lit ''Gradual numerical reduction isolates the '' @
        lit ''exact mathematical threshold of failure.'')),
    (''source_path'', PyStr (lit ''internal/shrinker/shrinker.go:119-151'')),
    (''slide_num'', PyStr (lit ''17 / 24''))]\<rparr>\<close>

definition lab40_items_18 :: pyval where [lab40_contents]:
  \<open>lab40_items_18 =
   PyList
   [PyDict
     [(''title'', PyStr (lit ''JEJAK LANGKAH SHRINKING NYATA'')),
      (''items'', PyList
        [PyStr (lit ''Input Awal (10 elemen): [137 18 100 -27 95 '' @ lit ''107 126 78 -7 79]''),
         PyStr (lit ''Step  1: remove-right-half         [5 elem] '' @
            lit ''[137 18 100 -27 95] -> FAIL''),
         PyStr (lit ''Step  3: remove-left-half          [3 elem] '' @
            lit ''[100 -27 95]        -> FAIL''),
         PyStr (lit ''Step  5: remove-left-half          [2 elem] '' @
            lit ''[-27 95]            -> FAIL''),
         PyStr (lit ''Step  6: remove-right-half         [1 elem] '' @
            lit ''[-27]               -> FAIL''),
         PyStr (lit ''Step  9: reduce-val to -13         [1 elem] '' @
            lit ''[-13]               -> FAIL''),
         PyStr (lit ''Step 12: reduce-val to -6          [1 elem] '' @
            lit ''[-6]                -> FAIL''),
         PyStr (lit ''Step 15: reduce-val to -3          [1 elem] '' @
            lit ''[-3]                -> FAIL''),
         PyStr (lit ''Step 18: reduce-val to -1          [1 elem] '' @
            lit ''[-1]                -> FAIL''),
         PyStr (lit ''Hasil Akhir (Minimal Counterexample): [-1] '' @
            lit ''(Tepat 21 langkah evaluasi!)'')]),
      (''type'', PyStr (lit ''code''))]]\<close>

definition lab40_slide_18 :: pycall where [lab40_slides]:
  \<open>lab40_slide_18 =
   \<lparr>posargs = [],
  kwargs =
   [(''categories'', PyList
      [PyStr (lit ''DEMO''),
       PyStr (lit ''TRACE'')]),
    (''title'', PyStr (lit ''Jejak 21 Langkah Menuju Minimal'')),
    (''title_en'', PyStr (lit ''21-Step Shrinking Trace to Minimal Bug'')),
    (''subtitle'', PyStr (lit ''Bukti log eksekusi nyata dari FindAndShrink '' @
        lit ''pada internal/shrinker.'')),
    (''content_items'', lab40_items_18),
    (''narrative'', PyStr (lit ''Log terminal dari eksekusi demo '' @
        lit ''memperlihatkan transparansi penuh dari '' @
        lit ''proses reduksi data. Dari input awal acak '' @
        lit ''sebanyak 10 elemen yang berantakan, mesin '' @
        lit ''hanya membutuhkan 21 evaluasi predikat '' @
        lit ''untuk mengeliminasi 9 elemen yang tidak '' @
        lit ''relevan serta memperkecil nilai -27 menjadi '' @
        lit ''-1. Hasil akhir [-1] memberikan kejelasan '' @
        lit ''diagnostik instan bagi developer: masalah '' @
        lit ''bukan pada panjang array atau interaksi '' @
        lit ''elemen, melainkan keberadaan bilangan '' @ lit ''negatif sekecil apa pun.'')),
    (''narrative_en'', PyStr (lit ''The demo terminal trace illustrates '' @
        lit ''complete diagnostic clarity. From a chaotic '' @
        lit ''10-element array, the engine executes 21 '' @
        lit ''predicate evaluations to eliminate 9 '' @
        lit ''irrelevant elements and reduce -27 to -1. '' @
        lit ''The resulting [-1] reveals the root cause '' @
        lit ''instantly: any negative value violates the '' @ lit ''invariant.'')),
    (''mental_model'', PyStr (lit ''Shrinking eliminates debugging guesswork by '' @
        lit ''delivering the minimal reproducible unit.'')),
    (''source_path'', PyStr (lit ''cmd/demo/main.go:160-210'')),
    (''slide_num'', PyStr (lit ''18 / 24''))]\<rparr>\<close>

definition lab40_items_19 :: pyval where [lab40_contents]:
  \<open>lab40_items_19 =
   PyList
   [PyDict
     [(''title'', PyStr (lit ''QUICK CHECK CONFIGURATION'')),
      (''items'', PyList
        [PyStr (lit ''cfg := &quick.Config{''),
         PyStr (lit ''    MaxCount: 1000, // Jumlah iterasi acak '' @ lit ''yang dieksekusi''),
         PyStr (lit ''    Rand:     '' @ lit ''rand.New(rand.NewSource(seed)), // '' @
            lit ''Determinisme''),
         PyStr (lit ''}''),
         PyStr [],
         PyStr (lit ''err := quick.Check(func(a RobustAmount) '' @ lit ''bool {''),
         PyStr (lit ''    return ParseRobust(a.Format()) == a''),
         PyStr (lit ''}, cfg)''),
         PyStr (lit ''if err != nil {''),
         PyStr (lit ''    t.Fatalf("property violation: %v", err)''),
         PyStr (lit ''}'')]),
      (''type'', PyStr (lit ''code''))]]\<close>

definition lab40_slide_19 :: pycall where [lab40_slides]:
  \<open>lab40_slide_19 =
   \<lparr>posargs = [],
  kwargs =
   [(''categories'', PyList
      [PyStr (lit ''GO STDLIB''),
       PyStr (lit ''TOOLING'')]),
    (''title'', PyStr (lit ''Integrasi Go Standard Library testing/quick'')),
    (''title_en'', PyStr (lit ''Go Standard Library: testing/quick'')),
    (''subtitle'', PyStr (lit ''Membangun PBT murni tanpa dependensi '' @ lit ''eksternal pihak ketiga.'')),
    (''content_items'', lab40_items_19),
    (''narrative'', PyStr (lit ''Salah satu keunggulan ekosistem Go adalah '' @
        lit ''ketersediaan paket bawaan testing/quick di '' @
        lit ''dalam standard library tanpa memerlukan '' @
        lit ''dependensi pihak ketiga. Paket ini '' @
        lit ''menyediakan fungsi quick.Check yang '' @
        lit ''mengeksekusi properti hingga ribuan kali '' @
        lit ''dengan konfigurasi MaxCount dan seed '' @
        lit ''kustom. Generator bawaan secara otomatis '' @
        lit ''merefleksikan tipe data dasar, sementara '' @
        lit ''interface quick.Generator memungkinkan '' @
        lit ''engineer menyuntikkan generator buatan '' @
        lit ''sendiri untuk tipe data kompleks.'')),
    (''narrative_en'', PyStr (lit ''Go provides built-in property testing via '' @
        lit ''testing/quick in the standard library, '' @
        lit ''requiring zero third-party dependencies. '' @
        lit ''quick.Check evaluates properties across '' @
        lit ''thousands of iterations with configurable '' @
        lit ''counts and seeds. Custom types implement '' @
        lit ''quick.Generator to supply domain-specific '' @ lit ''generation logic.'')),
    (''mental_model'', PyStr (lit ''Zero-dependency property testing is already '' @
        lit ''built into the Go standard library.'')),
    (''source_path'', PyStr (lit ''internal/currency/currency_test.go:85-102'')),
    (''slide_num'', PyStr (lit ''19 / 24''))]\<rparr>\<close>

definition lab40_items_20 :: pyval where [lab40_contents]:
  \<open>lab40_items_20 =
   PyList
   [PyDict
     [(''title'', PyStr (lit ''STRATEGI SEED & ITERASI'')),
      (''items'', PyList
        [PyStr (lit ''Lingkungan | Konfigurasi Seed | Iterasi | '' @ lit ''Tujuan''),
         PyStr (lit ''Local PR Check | Fixed Seed (deterministik) '' @
            lit ''| 100 - 500 | Cepat & lolos tanpa flakiness''),
         PyStr (lit ''Nightly CI | Dynamic Time Seed | 10.000 - '' @
            lit ''50.000 | Eksplorasi bug liar & boundary''),
         PyStr (lit ''Bug Reproduction | Injeksi Failing Seed | 1 '' @
            lit ''run minimal | Reproduksi 100% konsisten'')]),
      (''type'', PyStr (lit ''table''))]]\<close>

definition lab40_slide_20 :: pycall where [lab40_slides]:
  \<open>lab40_slide_20 =
   \<lparr>posargs = [],
  kwargs =
   [(''categories'', PyList
      [PyStr (lit ''CI/CD''),
       PyStr (lit ''DETERMINISME'')]),
    (''title'', PyStr (lit ''Determinisme, Seeding, & CI/CD Pipeline'')),
    (''title_en'', PyStr (lit ''Determinism, Seeding, and CI/CD Pipelines'')),
    (''subtitle'', PyStr (lit ''Mengelola trade-off antara keacakan '' @
        lit ''eksploratif dan reproduktibilitas pengujian.'')),
    (''content_items'', lab40_items_20),
    (''narrative'', PyStr (lit ''Kritik yang kerap diarahkan pada PBT adalah '' @
        lit ''risiko munculnya flaky tests jika seed acak '' @
        lit ''berubah di setiap run CI. Solusi '' @ lit ''profesional adalah menerapkan '' @
        lit ''dual-strategy: pada local testing dan PR '' @
        lit ''verification, gunakan seed tetap dengan 100'' @ [0x2013] @
        lit ''500 iterasi agar eksekusi berlangsung '' @
        lit ''sub-detik dan stabil. Pada nightly build '' @
        lit ''atau background fuzzer, aktifkan seed '' @
        lit ''dinamis berbasis timestamp dengan 50.000 '' @
        lit ''iterasi. Setiap kali kegagalan ditemukan, '' @
        lit ''log seed wajib dicatat agar developer dapat '' @
        lit ''mereproduksinya secara instan.'')),
    (''narrative_en'', PyStr (lit ''A common critique of PBT is test flakiness '' @
        lit ''from changing random seeds. Professional '' @
        lit ''teams adopt a dual strategy: fixed seeds '' @
        lit ''with 100-500 iterations for sub-second PR '' @
        lit ''checks, and dynamic timestamp seeds with '' @
        lit ''50,000 iterations in nightly CI. Logging '' @
        lit ''the failure seed ensures 100% reproducible '' @ lit ''debugging locally.'')),
    (''mental_model'', PyStr (lit ''Exploratory randomness belongs in nightly '' @
        lit ''CI; deterministic seeds belong in pull '' @ lit ''requests.'')),
    (''source_path'', PyStr (lit ''labs/40-property-based-testing/content/02-ma'' @ lit ''ster-draft.md'')),
    (''slide_num'', PyStr (lit ''20 / 24''))]\<rparr>\<close>

definition lab40_items_21 :: pyval where [lab40_contents]:
  \<open>lab40_items_21 =
   PyList
   [PyDict
     [(''title'', PyStr (lit ''TABEL PERBANDINGAN KOMPREHENSIF'')),
      (''items'', PyList
        [PyStr (lit ''Dimensi Evaluasi | Example-Based Testing | '' @
            lit ''Property-Based Testing''),
         PyStr (lit ''Cakupan Input | Titik diskrit statis '' @
            lit ''(hand-picked) | Spektrum kontinu acak '' @ lit ''terdistribusi''),
         PyStr (lit ''Bias Pengujian | Tinggi (mengikuti intuisi '' @
            lit ''engineer) | Rendah (adversarial fuzzing)''),
         PyStr (lit ''Bug Boundary | Kerap terlewat (sub-cent, '' @
            lit ''negative) | Terdeteksi via biased generator''),
         PyStr (lit ''Isolasi Bug | Manual via trace & debugger | '' @
            lit ''Otomatis via counterexample shrinking''),
         PyStr (lit ''Tingkat Keyakinan | False confidence (jalur '' @
            lit ''aman) | Calibrated confidence (invarian '' @ lit ''kokoh)'')]),
      (''type'', PyStr (lit ''table''))]]\<close>

definition lab40_slide_21 :: pycall where [lab40_slides]:
  \<open>lab40_slide_21 =
   \<lparr>posargs = [],
  kwargs =
   [(''categories'', PyList
      [PyStr (lit ''KOMPARASI''),
       PyStr (lit ''MATRIKS'')]),
    (''title'', PyStr (lit ''Matriks Komparasi Example vs PBT'')),
    (''title_en'', PyStr (lit ''Comparison Matrix: Example vs Property-Based'')),
    (''subtitle'', PyStr (lit ''Perbedaan mendasar dalam cakupan, bias '' @
        lit ''pengujian, dan kemampuan isolasi bug.'')),
    (''content_items'', lab40_items_21),
    (''narrative'', PyStr (lit ''Perbandingan matriks memperlihatkan '' @
        lit ''pergeseran paradigma kualitas pengujian. '' @
        lit ''Unit test konvensional sangat baik untuk '' @
        lit ''memvalidasi kontrak fungsional spesifik dan '' @
        lit ''regresi skenario bisnis tertentu. Namun, '' @
        lit ''untuk sistem yang menangani kalkulasi '' @
        lit ''finansial, protokol serialisasi, atau '' @
        lit ''manipulasi struktur data kompleks, PBT '' @
        lit ''memberikan jaminan kebenaran yang jauh '' @
        lit ''lebih kokoh melalui eksplorasi batas domain '' @
        lit ''secara otomatis dan reduksi kegagalan yang '' @ lit ''deterministik.'')),
    (''narrative_en'', PyStr (lit ''The comparison matrix underscores a '' @
        lit ''paradigm shift in test quality. While '' @
        lit ''example tests excel at regression '' @
        lit ''validation for explicit business user '' @
        lit ''flows, PBT delivers mathematical confidence '' @
        lit ''for financial calculations, serialization '' @
        lit ''protocols, and complex data structures '' @
        lit ''through automated exploration.'')),
    (''mental_model'', PyStr (lit ''Use example tests for concrete user flows; '' @
        lit ''use property tests for structural '' @ lit ''correctness.'')),
    (''source_path'', PyStr (lit ''cmd/demo/main.go:215-245'')),
    (''slide_num'', PyStr (lit ''21 / 24''))]\<rparr>\<close>

definition lab40_items_22 :: pyval where [lab40_contents]:
  \<open>lab40_items_22 =
   PyList
   [PyDict
     [(''title'', PyStr (lit ''YANG HARUS DIHINDARI'')),
      (''items'', PyList
        [PyStr (lit ''1. Menulis ulang implementasi di dalam '' @
            lit ''assertion test (duplikasi logika kode).''),
         PyStr (lit ''2. Generator terlalu sempit sehingga '' @
            lit ''mengabaikan batas domain ekstrem.''),
         PyStr (lit ''3. Menguji tanpa shrinker sehingga '' @
            lit ''menyulitkan proses debugging hasil gagal.'')]),
      (''type'', PyStr (lit ''bullet''))],
    PyDict
     [(''title'', PyStr (lit ''POLA YANG DIREKOMENDASIKAN'')),
      (''items'', PyList
        [PyStr (lit ''1. Fokus pada sifat relasional: roundtrip, '' @
            lit ''idempotence, oracle, dan simetri.''),
         PyStr (lit ''2. Suntikkan boundary bias: selalu sertakan '' @
            lit ''0, -1, MaxInt, dan slice kosong.''),
         PyStr (lit ''3. Simpan seed yang gagal ke dalam unit '' @
            lit ''test regresi berbasis contoh permanen.'')]),
      (''type'', PyStr (lit ''bullet''))]]\<close>

definition lab40_slide_22 :: pycall where [lab40_slides]:
  \<open>lab40_slide_22 =
   \<lparr>posargs = [],
  kwargs =
   [(''categories'', PyList
      [PyStr (lit ''BEST PRACTICE''),
       PyStr (lit ''GUIDELINES'')]),
    (''title'', PyStr (lit ''Praktik Terbaik & Anti-Pattern PBT'')),
    (''title_en'', PyStr (lit ''Best Practices and Anti-Patterns in PBT'')),
    (''subtitle'', PyStr (lit ''Panduan menghindari jebakan umum dalam '' @
        lit ''mendesain invariant dan generator.'')),
    (''content_items'', lab40_items_22),
    (''narrative'', PyStr (lit ''Kesalahan paling sering terjadi saat '' @
        lit ''mengadopsi PBT adalah kecenderungan '' @
        lit ''developer menduplikasi logika fungsi yang '' @
        lit ''diuji ke dalam assertion test. Praktik ini '' @
        lit ''salah karena jika implementasi memiliki bug '' @
        lit ''logika, assertion duplikat akan ikut '' @
        lit ''menyetujuinya. Fokuslah murni pada sifat '' @
        lit ''relasional independen. Selain itu, pastikan '' @
        lit ''generator selalu mencakup nilai-nilai '' @
        lit ''ekstrem (nol, batas maksimum integer, '' @
        lit ''irisan kosong), dan simpan counterexample '' @
        lit ''yang ditemukan sebagai unit test regresi '' @ lit ''permanen.'')),
    (''narrative_en'', PyStr (lit ''The most common PBT anti-pattern is '' @
        lit ''re-implementing system logic inside test '' @
        lit ''assertions, leading to shared blind spots. '' @
        lit ''Focus strictly on relational invariants. '' @
        lit ''Always bias generators toward boundary '' @
        lit ''conditions (zeros, empty slices, integer '' @
        lit ''limits), and save discovered '' @
        lit ''counterexamples as permanent regression '' @ lit ''tests.'')),
    (''mental_model'', PyStr (lit ''Assert properties of the relationship, '' @
        lit ''never re-implement the algorithm in the '' @ lit ''test.'')),
    (''source_path'', PyStr (lit ''labs/40-property-based-testing/content/02-ma'' @ lit ''ster-draft.md'')),
    (''slide_num'', PyStr (lit ''22 / 24''))]\<rparr>\<close>

definition lab40_items_23 :: pyval where [lab40_contents]:
  \<open>lab40_items_23 =
   PyList
   [PyDict
     [(''title'', PyStr (lit ''LANGKAH EKSEKUSI CLI'')),
      (''items'', PyList
        [PyStr (lit ''# 1. Masuk ke direktori lab''),
         PyStr (lit ''cd labs/40-property-based-testing''),
         PyStr [],
         PyStr (lit ''# 2. Jalankan seluruh property & unit test''),
         PyStr (lit ''go test -v ./...''),
         PyStr [],
         PyStr (lit ''# 3. Verifikasi ketiadaan race condition''),
         PyStr (lit ''go test -race ./...''),
         PyStr [],
         PyStr (lit ''# 4. Eksekusi CLI interactive demo''),
         PyStr (lit ''go run ./cmd/demo'')]),
      (''type'', PyStr (lit ''code''))]]\<close>

definition lab40_slide_23 :: pycall where [lab40_slides]:
  \<open>lab40_slide_23 =
   \<lparr>posargs = [],
  kwargs =
   [(''categories'', PyList
      [PyStr (lit ''PANDUAN''),
       PyStr (lit ''REPRODUKSI'')]),
    (''title'', PyStr (lit ''Panduan Reproduksi Mandiri & Verifikasi'')),
    (''title_en'', PyStr (lit ''Hands-On Reproduction and Verification Guide'')),
    (''subtitle'', PyStr (lit ''Seluruh kode Go standar siap dijalankan dan '' @
        lit ''diuji langsung pada terminal Anda.'')),
    (''content_items'', lab40_items_23),
    (''narrative'', PyStr (lit ''Seluruh implementasi pada Lab 40 dibangun '' @
        lit ''di atas Go 1.22 standar tanpa dependensi '' @
        lit ''luar, menjamin reproduksibilitas penuh di '' @
        lit ''lingkungan macOS, Linux, maupun Windows. '' @
        lit ''Perintah go test -v ./... mengeksekusi '' @
        lit ''suite unit test, uji properti '' @
        lit ''testing/quick, serta algoritma shrinking. '' @
        lit ''Perintah go run ./cmd/demo menampilkan '' @
        lit ''perbandingan interaktif antara kegagalan '' @
        lit ''float, perbandingan oracle interval, dan '' @
        lit ''jejak reduksi 21 langkah secara real-time.'')),
    (''narrative_en'', PyStr (lit ''Lab 40 runs on standard Go 1.22 without '' @
        lit ''third-party dependencies, guaranteeing '' @
        lit ''portability across macOS, Linux, and '' @
        lit ''Windows. Running go test -v ./... executes '' @
        lit ''all unit tests, quick properties, and '' @
        lit ''shrinking verification. Running go run '' @
        lit ''./cmd/demo displays real-time CLI '' @
        lit ''comparisons and shrinking traces.'')),
    (''mental_model'', PyStr (lit ''Standard library tests provide '' @
        lit ''reproducible, zero-dependency validation '' @ lit ''for engineering teams.'')),
    (''source_path'', PyStr (lit ''labs/40-property-based-testing/README.md '' @ [0x2022] @ lit '' go.mod'')),
    (''slide_num'', PyStr (lit ''23 / 24''))]\<rparr>\<close>

definition lab40_items_24 :: pyval where [lab40_contents]:
  \<open>lab40_items_24 =
   PyList
   [PyDict
     [(''title'', PyStr (lit ''MODUL LAB'')),
      (''items'', PyList
        [PyStr (lit ''internal/currency '' @ [0x2022] @ lit '' internal/interval '' @ [0x2022] @
            lit '' internal/shrinker''),
         PyStr (lit ''cmd/demo/main.go '' @ [0x2022] @ lit '' README.md '' @ [0x2022] @
            lit '' go.mod''),
         PyStr (lit ''Zero third-party dependencies (pure Go 1.22 '' @ lit ''stdlib)'')]),
      (''type'', PyStr (lit ''bullet''))],
    PyDict
     [(''title'', PyStr (lit ''VERIFIKASI & STATUS'')),
      (''items'', PyList
        [PyStr (lit ''Sumber: commit '' @ str_prefix 8 lab40_COMMIT_SHA),
         PyStr (lit ''Test passing & Race-Clean: 7/7 unit & '' @ lit ''property tests PASS''),
         PyStr (lit ''Invarian terbukti: Roundtrip Currency, '' @
            lit ''Idempotence Interval, dan 21-Step Shrinking'')]),
      (''type'', PyStr (lit ''bullet''))]]\<close>

definition lab40_slide_24 :: pycall where [lab40_slides]:
  \<open>lab40_slide_24 =
   \<lparr>posargs = [],
  kwargs =
   [(''categories'', PyList
      [PyStr (lit ''CLOSING'')]),
    (''title'', PyStr (lit ''Eksperimen kecil, invariant universal '' @ lit ''terbukti.'')),
    (''title_en'', PyStr (lit ''Small experiment, universal invariants '' @ lit ''proven.'')),
    (''subtitle'', PyStr []),
    (''content_items'', lab40_items_24),
    (''mental_model'', PyStr (lit ''Stop guessing edge cases with static '' @
        lit ''examples. Let invariants and shrinking find '' @ lit ''them for you.'')),
    (''source_path'', PyStr lab40_REPO_URL),
    (''slide_num'', PyStr (lit ''24 / 24''))]\<rparr>\<close>

definition lab40_calls :: "pycall list" where
  "lab40_calls =
    [lab40_slide_01, lab40_slide_02, lab40_slide_03, lab40_slide_04, lab40_slide_05,
     lab40_slide_06, lab40_slide_07, lab40_slide_08, lab40_slide_09, lab40_slide_10,
     lab40_slide_11, lab40_slide_12, lab40_slide_13, lab40_slide_14, lab40_slide_15,
     lab40_slide_16, lab40_slide_17, lab40_slide_18, lab40_slide_19, lab40_slide_20,
     lab40_slide_21, lab40_slide_22, lab40_slide_23, lab40_slide_24]"

definition lab40_deck :: deck where
  "lab40_deck =
    \<lparr>add_slide = lab40_add_slide, lab_no = lab40_LAB_NO, title_id = lab40_TITLE_ID, calls = lab40_calls\<rparr>"

section \<open>Checks of the calls\<close>

lemma lab40_shapes:
  "\<forall>c \<in> set lab40_calls. shape_of c \<in> set
    [(0, [''categories'', ''title'', ''subtitle'', ''content_items'', ''mental_model'',
      ''source_path'', ''slide_num'']),
     (0, [''categories'', ''title'', ''title_en'', ''subtitle'', ''content_items'',
      ''narrative'', ''narrative_en'', ''mental_model'', ''source_path'', ''slide_num'']),
     (0, [''categories'', ''title'', ''title_en'', ''subtitle'', ''content_items'',
      ''mental_model'', ''source_path'', ''slide_num''])]"
  by (simp only: lab40_calls_def lab40_slides shape_eval cong: pyval_opaque)

lemma lab40_calls_ok: "\<forall>c \<in> set lab40_calls. call_ok sig_en c"
  by (rule calls_ok_by_shapes [OF lab40_shapes])
    (simp add: shape_ok_def param_names_def signature_defs core_params_def)

lemma lab40_labels: "map (\<lambda>c. value_of sig_en c ''slide_num'') lab40_calls = labels_24"
  by (simp only: lab40_calls_def lab40_slides keyword_eval labels_24_eval cong: pyval_opaque)

lemma lab40_contents_of:
  "map (\<lambda>c. value_of sig_en c ''content_items'') lab40_calls =
    [lab40_items_01, lab40_items_02, lab40_items_03, lab40_items_04, lab40_items_05,
     lab40_items_06, lab40_items_07, lab40_items_08, lab40_items_09, lab40_items_10,
     lab40_items_11, lab40_items_12, lab40_items_13, lab40_items_14, lab40_items_15,
     lab40_items_16, lab40_items_17, lab40_items_18, lab40_items_19, lab40_items_20,
     lab40_items_21, lab40_items_22, lab40_items_23, lab40_items_24]"
  by (simp only: lab40_calls_def lab40_slides keyword_eval cong: pyval_opaque)

lemma lab40_items: "item_defects sig_en lab40_calls = []"
  by (simp only: item_defects_def lab40_contents_of)
    (simp add: lab40_contents item_eval cong: pystr_opaque)

end
