(* ===== verification/Publications.thy ===== *)
theory Publications
  imports Deck16 Deck17 Deck18 Deck19 Deck20 Deck21 Deck22 Deck23 Deck24 Deck25 Deck26 Deck27
    Deck28 Deck29 Deck30 Deck31 Deck32 Deck33 Deck34 Deck35 Deck36 Deck37 Deck38 Deck39
    Deck40
begin

text \<open>
  The publication modules together. \<open>modelled_decks\<close> lists the translated modules; the section
  per module derives its load and its contract from the checks of its calls in the deck
  theory, through the interpretation of \<open>slide_module\<close> for its shape.
\<close>

section \<open>Module by module\<close>

lemma lab16_add: "SlideDef.add_slide lab16_deck = add_slide_layout" "calls lab16_deck = lab16_calls"
  by (simp_all add: lab16_deck_def lab16_add_slide_def)

lemma lab16_load: "load lab16_deck = Inr (map layout.slide_of lab16_calls)"
  using layout.deck_by_calls [of lab16_deck] lab16_calls_ok by (simp add: lab16_add)

lemma lab16_in_order: "loads_in_order lab16_deck"
  by (rule layout.deck_loads_in_order) (simp_all add: lab16_add lab16_calls_ok lab16_labels)

lemma lab16_defects: "deck_defects lab16_deck = Inr []"
  by (rule layout.deck_defects_by_calls) (simp_all add: lab16_add lab16_calls_ok lab16_items)

lemma lab17_add: "SlideDef.add_slide lab17_deck = add_slide_layout" "calls lab17_deck = lab17_calls"
  by (simp_all add: lab17_deck_def lab17_add_slide_def)

lemma lab17_load: "load lab17_deck = Inr (map layout.slide_of lab17_calls)"
  using layout.deck_by_calls [of lab17_deck] lab17_calls_ok by (simp add: lab17_add)

lemma lab17_in_order: "loads_in_order lab17_deck"
  by (rule layout.deck_loads_in_order) (simp_all add: lab17_add lab17_calls_ok lab17_labels)

lemma lab17_defects: "deck_defects lab17_deck = Inr []"
  by (rule layout.deck_defects_by_calls) (simp_all add: lab17_add lab17_calls_ok lab17_items)

lemma lab18_add: "SlideDef.add_slide lab18_deck = add_slide_layout" "calls lab18_deck = lab18_calls"
  by (simp_all add: lab18_deck_def lab18_add_slide_def)

lemma lab18_load: "load lab18_deck = Inr (map layout.slide_of lab18_calls)"
  using layout.deck_by_calls [of lab18_deck] lab18_calls_ok by (simp add: lab18_add)

lemma lab18_in_order: "loads_in_order lab18_deck"
  by (rule layout.deck_loads_in_order) (simp_all add: lab18_add lab18_calls_ok lab18_labels)

lemma lab18_defects: "deck_defects lab18_deck = Inr []"
  by (rule layout.deck_defects_by_calls) (simp_all add: lab18_add lab18_calls_ok lab18_items)

lemma lab19_add: "SlideDef.add_slide lab19_deck = add_slide_layout" "calls lab19_deck = lab19_calls"
  by (simp_all add: lab19_deck_def lab19_add_slide_def)

lemma lab19_load: "load lab19_deck = Inr (map layout.slide_of lab19_calls)"
  using layout.deck_by_calls [of lab19_deck] lab19_calls_ok by (simp add: lab19_add)

lemma lab19_in_order: "loads_in_order lab19_deck"
  by (rule layout.deck_loads_in_order) (simp_all add: lab19_add lab19_calls_ok lab19_labels)

lemma lab19_defects: "deck_defects lab19_deck = Inr []"
  by (rule layout.deck_defects_by_calls) (simp_all add: lab19_add lab19_calls_ok lab19_items)

lemma lab20_add: "SlideDef.add_slide lab20_deck = add_slide_layout" "calls lab20_deck = lab20_calls"
  by (simp_all add: lab20_deck_def lab20_add_slide_def)

lemma lab20_load: "load lab20_deck = Inr (map layout.slide_of lab20_calls)"
  using layout.deck_by_calls [of lab20_deck] lab20_calls_ok by (simp add: lab20_add)

lemma lab20_in_order: "loads_in_order lab20_deck"
  by (rule layout.deck_loads_in_order) (simp_all add: lab20_add lab20_calls_ok lab20_labels)

lemma lab20_defects: "deck_defects lab20_deck = Inr []"
  by (rule layout.deck_defects_by_calls) (simp_all add: lab20_add lab20_calls_ok lab20_items)

lemma lab21_add: "SlideDef.add_slide lab21_deck = add_slide_layout" "calls lab21_deck = lab21_calls"
  by (simp_all add: lab21_deck_def lab21_add_slide_def)

lemma lab21_load: "load lab21_deck = Inr (map layout.slide_of lab21_calls)"
  using layout.deck_by_calls [of lab21_deck] lab21_calls_ok by (simp add: lab21_add)

lemma lab21_in_order: "loads_in_order lab21_deck"
  by (rule layout.deck_loads_in_order) (simp_all add: lab21_add lab21_calls_ok lab21_labels)

lemma lab21_defects: "deck_defects lab21_deck = Inr []"
  by (rule layout.deck_defects_by_calls) (simp_all add: lab21_add lab21_calls_ok lab21_items)

lemma lab22_add: "SlideDef.add_slide lab22_deck = add_slide_layout" "calls lab22_deck = lab22_calls"
  by (simp_all add: lab22_deck_def lab22_add_slide_def)

lemma lab22_load: "load lab22_deck = Inr (map layout.slide_of lab22_calls)"
  using layout.deck_by_calls [of lab22_deck] lab22_calls_ok by (simp add: lab22_add)

lemma lab22_in_order: "loads_in_order lab22_deck"
  by (rule layout.deck_loads_in_order) (simp_all add: lab22_add lab22_calls_ok lab22_labels)

lemma lab22_defects: "deck_defects lab22_deck = Inr []"
  by (rule layout.deck_defects_by_calls) (simp_all add: lab22_add lab22_calls_ok lab22_items)

lemma lab23_add: "SlideDef.add_slide lab23_deck = add_slide_layout_en" "calls lab23_deck = lab23_calls"
  by (simp_all add: lab23_deck_def lab23_add_slide_def)

lemma lab23_load: "load lab23_deck = Inr (map layout_en.slide_of lab23_calls)"
  using layout_en.deck_by_calls [of lab23_deck] lab23_calls_ok by (simp add: lab23_add)

lemma lab23_in_order: "loads_in_order lab23_deck"
  by (rule layout_en.deck_loads_in_order) (simp_all add: lab23_add lab23_calls_ok lab23_labels)

lemma lab23_defects: "deck_defects lab23_deck = Inr []"
  by (rule layout_en.deck_defects_by_calls) (simp_all add: lab23_add lab23_calls_ok lab23_items)

lemma lab24_add: "SlideDef.add_slide lab24_deck = add_slide_en" "calls lab24_deck = lab24_calls"
  by (simp_all add: lab24_deck_def lab24_add_slide_def)

lemma lab24_load: "load lab24_deck = Inr (map en.slide_of lab24_calls)"
  using en.deck_by_calls [of lab24_deck] lab24_calls_ok by (simp add: lab24_add)

lemma lab24_in_order: "loads_in_order lab24_deck"
  by (rule en.deck_loads_in_order) (simp_all add: lab24_add lab24_calls_ok lab24_labels)

lemma lab24_defects: "deck_defects lab24_deck = Inr []"
  by (rule en.deck_defects_by_calls) (simp_all add: lab24_add lab24_calls_ok lab24_items)

lemma lab25_add: "SlideDef.add_slide lab25_deck = add_slide_layout" "calls lab25_deck = lab25_calls"
  by (simp_all add: lab25_deck_def lab25_add_slide_def)

lemma lab25_load: "load lab25_deck = Inr (map layout.slide_of lab25_calls)"
  using layout.deck_by_calls [of lab25_deck] lab25_calls_ok by (simp add: lab25_add)

lemma lab25_in_order: "loads_in_order lab25_deck"
  by (rule layout.deck_loads_in_order) (simp_all add: lab25_add lab25_calls_ok lab25_labels)

lemma lab25_defects: "deck_defects lab25_deck = Inr []"
  by (rule layout.deck_defects_by_calls) (simp_all add: lab25_add lab25_calls_ok lab25_items)

lemma lab26_add: "SlideDef.add_slide lab26_deck = add_slide_layout" "calls lab26_deck = lab26_calls"
  by (simp_all add: lab26_deck_def lab26_add_slide_def)

lemma lab26_load: "load lab26_deck = Inr (map layout.slide_of lab26_calls)"
  using layout.deck_by_calls [of lab26_deck] lab26_calls_ok by (simp add: lab26_add)

lemma lab26_in_order: "loads_in_order lab26_deck"
  by (rule layout.deck_loads_in_order) (simp_all add: lab26_add lab26_calls_ok lab26_labels)

lemma lab26_defects: "deck_defects lab26_deck = Inr [(5, 1), (7, 1), (8, 1), (11, 1), (13, 1), (14, 1), (15, 1), (18, 1), (19, 1), (20, 1), (21, 1)]"
  by (rule layout.deck_defects_by_calls) (simp_all add: lab26_add lab26_calls_ok lab26_items)

lemma lab27_add: "SlideDef.add_slide lab27_deck = add_slide_layout" "calls lab27_deck = lab27_calls"
  by (simp_all add: lab27_deck_def lab27_add_slide_def)

lemma lab27_load: "load lab27_deck = Inr (map layout.slide_of lab27_calls)"
  using layout.deck_by_calls [of lab27_deck] lab27_calls_ok by (simp add: lab27_add)

lemma lab27_in_order: "loads_in_order lab27_deck"
  by (rule layout.deck_loads_in_order) (simp_all add: lab27_add lab27_calls_ok lab27_labels)

lemma lab27_defects: "deck_defects lab27_deck = Inr []"
  by (rule layout.deck_defects_by_calls) (simp_all add: lab27_add lab27_calls_ok lab27_items)

lemma lab28_add: "SlideDef.add_slide lab28_deck = add_slide_layout" "calls lab28_deck = lab28_calls"
  by (simp_all add: lab28_deck_def lab28_add_slide_def)

lemma lab28_load: "load lab28_deck = Inr (map layout.slide_of lab28_calls)"
  using layout.deck_by_calls [of lab28_deck] lab28_calls_ok by (simp add: lab28_add)

lemma lab28_in_order: "loads_in_order lab28_deck"
  by (rule layout.deck_loads_in_order) (simp_all add: lab28_add lab28_calls_ok lab28_labels)

lemma lab28_defects: "deck_defects lab28_deck = Inr []"
  by (rule layout.deck_defects_by_calls) (simp_all add: lab28_add lab28_calls_ok lab28_items)

lemma lab29_add: "SlideDef.add_slide lab29_deck = add_slide_layout_en" "calls lab29_deck = lab29_calls"
  by (simp_all add: lab29_deck_def lab29_add_slide_def)

lemma lab29_load: "load lab29_deck = Inr (map layout_en.slide_of lab29_calls)"
  using layout_en.deck_by_calls [of lab29_deck] lab29_calls_ok by (simp add: lab29_add)

lemma lab29_in_order: "loads_in_order lab29_deck"
  by (rule layout_en.deck_loads_in_order) (simp_all add: lab29_add lab29_calls_ok lab29_labels)

lemma lab29_defects: "deck_defects lab29_deck = Inr []"
  by (rule layout_en.deck_defects_by_calls) (simp_all add: lab29_add lab29_calls_ok lab29_items)

lemma lab30_add: "SlideDef.add_slide lab30_deck = add_slide_layout" "calls lab30_deck = lab30_calls"
  by (simp_all add: lab30_deck_def lab30_add_slide_def)

lemma lab30_load: "load lab30_deck = Inr (map layout.slide_of lab30_calls)"
  using layout.deck_by_calls [of lab30_deck] lab30_calls_ok by (simp add: lab30_add)

lemma lab30_in_order: "loads_in_order lab30_deck"
  by (rule layout.deck_loads_in_order) (simp_all add: lab30_add lab30_calls_ok lab30_labels)

lemma lab30_defects: "deck_defects lab30_deck = Inr []"
  by (rule layout.deck_defects_by_calls) (simp_all add: lab30_add lab30_calls_ok lab30_items)

lemma lab31_add: "SlideDef.add_slide lab31_deck = add_slide_layout" "calls lab31_deck = lab31_calls"
  by (simp_all add: lab31_deck_def lab31_add_slide_def)

lemma lab31_load: "load lab31_deck = Inr (map layout.slide_of lab31_calls)"
  using layout.deck_by_calls [of lab31_deck] lab31_calls_ok by (simp add: lab31_add)

lemma lab31_in_order: "loads_in_order lab31_deck"
  by (rule layout.deck_loads_in_order) (simp_all add: lab31_add lab31_calls_ok lab31_labels)

lemma lab31_defects: "deck_defects lab31_deck = Inr []"
  by (rule layout.deck_defects_by_calls) (simp_all add: lab31_add lab31_calls_ok lab31_items)

lemma lab32_add: "SlideDef.add_slide lab32_deck = add_slide_layout" "calls lab32_deck = lab32_calls"
  by (simp_all add: lab32_deck_def lab32_add_slide_def)

lemma lab32_load: "load lab32_deck = Inr (map layout.slide_of lab32_calls)"
  using layout.deck_by_calls [of lab32_deck] lab32_calls_ok by (simp add: lab32_add)

lemma lab32_in_order: "loads_in_order lab32_deck"
  by (rule layout.deck_loads_in_order) (simp_all add: lab32_add lab32_calls_ok lab32_labels)

lemma lab32_defects: "deck_defects lab32_deck = Inr []"
  by (rule layout.deck_defects_by_calls) (simp_all add: lab32_add lab32_calls_ok lab32_items)

lemma lab33_add: "SlideDef.add_slide lab33_deck = add_slide_layout" "calls lab33_deck = lab33_calls"
  by (simp_all add: lab33_deck_def lab33_add_slide_def)

lemma lab33_load: "load lab33_deck = Inr (map layout.slide_of lab33_calls)"
  using layout.deck_by_calls [of lab33_deck] lab33_calls_ok by (simp add: lab33_add)

lemma lab33_in_order: "loads_in_order lab33_deck"
  by (rule layout.deck_loads_in_order) (simp_all add: lab33_add lab33_calls_ok lab33_labels)

lemma lab33_defects: "deck_defects lab33_deck = Inr []"
  by (rule layout.deck_defects_by_calls) (simp_all add: lab33_add lab33_calls_ok lab33_items)

lemma lab34_add: "SlideDef.add_slide lab34_deck = add_slide_layout" "calls lab34_deck = lab34_calls"
  by (simp_all add: lab34_deck_def lab34_add_slide_def)

lemma lab34_load: "load lab34_deck = Inr (map layout.slide_of lab34_calls)"
  using layout.deck_by_calls [of lab34_deck] lab34_calls_ok by (simp add: lab34_add)

lemma lab34_in_order: "loads_in_order lab34_deck"
  by (rule layout.deck_loads_in_order) (simp_all add: lab34_add lab34_calls_ok lab34_labels)

lemma lab34_defects: "deck_defects lab34_deck = Inr []"
  by (rule layout.deck_defects_by_calls) (simp_all add: lab34_add lab34_calls_ok lab34_items)

lemma lab35_add: "SlideDef.add_slide lab35_deck = add_slide_fallback" "calls lab35_deck = lab35_calls"
  by (simp_all add: lab35_deck_def lab35_add_slide_def)

lemma lab35_load: "load lab35_deck = Inr (map fallback.slide_of lab35_calls)"
  using fallback.deck_by_calls [of lab35_deck] lab35_calls_ok by (simp add: lab35_add)

lemma lab35_in_order: "loads_in_order lab35_deck"
  by (rule fallback.deck_loads_in_order) (simp_all add: lab35_add lab35_calls_ok lab35_labels)

lemma lab35_defects: "deck_defects lab35_deck = Inr []"
  by (rule fallback.deck_defects_by_calls) (simp_all add: lab35_add lab35_calls_ok lab35_items)

lemma lab36_add: "SlideDef.add_slide lab36_deck = add_slide_fallback" "calls lab36_deck = lab36_calls"
  by (simp_all add: lab36_deck_def lab36_add_slide_def)

lemma lab36_load: "load lab36_deck = Inr (map fallback.slide_of lab36_calls)"
  using fallback.deck_by_calls [of lab36_deck] lab36_calls_ok by (simp add: lab36_add)

lemma lab36_in_order: "loads_in_order lab36_deck"
  by (rule fallback.deck_loads_in_order) (simp_all add: lab36_add lab36_calls_ok lab36_labels)

lemma lab36_defects: "deck_defects lab36_deck = Inr []"
  by (rule fallback.deck_defects_by_calls) (simp_all add: lab36_add lab36_calls_ok lab36_items)

lemma lab37_add: "SlideDef.add_slide lab37_deck = add_slide_plain" "calls lab37_deck = lab37_calls"
  by (simp_all add: lab37_deck_def lab37_add_slide_def)

lemma lab37_load: "load lab37_deck = Inr (map plain.slide_of lab37_calls)"
  using plain.deck_by_calls [of lab37_deck] lab37_calls_ok by (simp add: lab37_add)

lemma lab37_in_order: "loads_in_order lab37_deck"
  by (rule plain.deck_loads_in_order) (simp_all add: lab37_add lab37_calls_ok lab37_labels)

lemma lab37_defects: "deck_defects lab37_deck = Inr [(24, 1)]"
  by (rule plain.deck_defects_by_calls) (simp_all add: lab37_add lab37_calls_ok lab37_items)

lemma lab38_add: "SlideDef.add_slide lab38_deck = add_slide_plain" "calls lab38_deck = lab38_calls"
  by (simp_all add: lab38_deck_def lab38_add_slide_def)

lemma lab38_load: "load lab38_deck = Inr (map plain.slide_of lab38_calls)"
  using plain.deck_by_calls [of lab38_deck] lab38_calls_ok by (simp add: lab38_add)

lemma lab38_in_order: "loads_in_order lab38_deck"
  by (rule plain.deck_loads_in_order) (simp_all add: lab38_add lab38_calls_ok lab38_labels)

lemma lab38_defects: "deck_defects lab38_deck = Inr [(24, 1)]"
  by (rule plain.deck_defects_by_calls) (simp_all add: lab38_add lab38_calls_ok lab38_items)

lemma lab39_add: "SlideDef.add_slide lab39_deck = add_slide_plain" "calls lab39_deck = lab39_calls"
  by (simp_all add: lab39_deck_def lab39_add_slide_def)

lemma lab39_load: "load lab39_deck = Inr (map plain.slide_of lab39_calls)"
  using plain.deck_by_calls [of lab39_deck] lab39_calls_ok by (simp add: lab39_add)

lemma lab39_in_order: "loads_in_order lab39_deck"
  by (rule plain.deck_loads_in_order) (simp_all add: lab39_add lab39_calls_ok lab39_labels)

lemma lab39_defects: "deck_defects lab39_deck = Inr []"
  by (rule plain.deck_defects_by_calls) (simp_all add: lab39_add lab39_calls_ok lab39_items)

lemma lab40_add: "SlideDef.add_slide lab40_deck = add_slide_en" "calls lab40_deck = lab40_calls"
  by (simp_all add: lab40_deck_def lab40_add_slide_def)

lemma lab40_load: "load lab40_deck = Inr (map en.slide_of lab40_calls)"
  using en.deck_by_calls [of lab40_deck] lab40_calls_ok by (simp add: lab40_add)

lemma lab40_in_order: "loads_in_order lab40_deck"
  by (rule en.deck_loads_in_order) (simp_all add: lab40_add lab40_calls_ok lab40_labels)

lemma lab40_defects: "deck_defects lab40_deck = Inr []"
  by (rule en.deck_defects_by_calls) (simp_all add: lab40_add lab40_calls_ok lab40_items)

section \<open>All of them\<close>

definition modelled_decks :: "deck list" where
  "modelled_decks =
     [lab16_deck, lab17_deck, lab18_deck, lab19_deck, lab20_deck, lab21_deck, lab22_deck,
      lab23_deck, lab24_deck, lab25_deck, lab26_deck, lab27_deck, lab28_deck, lab29_deck,
      lab30_deck, lab31_deck, lab32_deck, lab33_deck, lab34_deck, lab35_deck, lab36_deck,
      lab37_deck, lab38_deck, lab39_deck, lab40_deck]"

lemmas all_in_order =
  lab16_in_order lab17_in_order lab18_in_order lab19_in_order lab20_in_order lab21_in_order
  lab22_in_order lab23_in_order lab24_in_order lab25_in_order lab26_in_order lab27_in_order
  lab28_in_order lab29_in_order lab30_in_order lab31_in_order lab32_in_order lab33_in_order
  lab34_in_order lab35_in_order lab36_in_order lab37_in_order lab38_in_order lab39_in_order
  lab40_in_order

lemmas all_defects =
  lab16_defects lab17_defects lab18_defects lab19_defects lab20_defects lab21_defects
  lab22_defects lab23_defects lab24_defects lab25_defects lab26_defects lab27_defects
  lab28_defects lab29_defects lab30_defects lab31_defects lab32_defects lab33_defects
  lab34_defects lab35_defects lab36_defects lab37_defects lab38_defects lab39_defects
  lab40_defects

end
