(* ===== verification/PyJson.thy ===== *)
theory PyJson
  imports PyCore
begin

text \<open>
  \<open>json.dump(..., ensure_ascii=False, indent=2)\<close> on strings, lists and dictionaries, as lab 22's
  \<open>__main__\<close> block uses it, and the facts that its output can be read in one way only.
\<close>

section \<open>The encoder\<close>

definition hex_digit :: "nat \<Rightarrow> nat" where
  "hex_digit d = (if d < 10 then 48 + d else 87 + d)"

text \<open>
  Escapes without \<open>ensure_ascii\<close>: the quote, the backslash, the five named control characters,
  and \<open>\u00xx\<close> for the others below 32; everything else is written as it is.
\<close>

definition json_escape :: "nat \<Rightarrow> pystr" where
  "json_escape c =
     (if c = 34 then [92, 34]
      else if c = 92 then [92, 92]
      else if c = 10 then [92, 110]
      else if c = 13 then [92, 114]
      else if c = 9 then [92, 116]
      else if c = 12 then [92, 102]
      else if c = 8 then [92, 98]
      else if c < 32 then [92, 117, 48, 48, hex_digit (c div 16), hex_digit (c mod 16)]
      else [c])"

definition json_str :: "pystr \<Rightarrow> pystr" where
  "json_str s = 34 # concat (map json_escape s) @ [34]"

definition json_newline :: "nat \<Rightarrow> pystr" where
  "json_newline level = 10 # replicate (2 * level) 32"

fun json_dumps :: "nat \<Rightarrow> pyval \<Rightarrow> pystr" where
  "json_dumps l (PyStr s) = json_str s"
| "json_dumps l (PyList []) = [91, 93]"
| "json_dumps l (PyList (x # xs)) =
     91 # json_newline (Suc l) @ json_dumps (Suc l) x @
       concat (map (\<lambda>y. 44 # json_newline (Suc l) @ json_dumps (Suc l) y) xs) @
       json_newline l @ [93]"
| "json_dumps l (PyDict []) = [123, 125]"
| "json_dumps l (PyDict ((k, v) # kvs)) =
     123 # json_newline (Suc l) @ json_str (lit k) @ [58, 32] @ json_dumps (Suc l) v @
       concat (map (\<lambda>kv. 44 # json_newline (Suc l) @ json_str (lit (fst kv)) @ [58, 32] @
                json_dumps (Suc l) (snd kv)) kvs) @
       json_newline l @ [125]"

section \<open>Reading strings back\<close>

lemma json_escape_not_quote: "json_escape c = x # xs \<Longrightarrow> x \<noteq> 34"
  by (auto simp: json_escape_def split: if_splits)

lemma json_escape_nonempty: "json_escape c \<noteq> []"
  by (simp add: json_escape_def)

text \<open>
  A reader of one escaped character, and the rest of the text; that it undoes \<open>json_escape\<close>
  is what makes an encoded string readable in one way only.
\<close>

definition hex_value :: "nat \<Rightarrow> nat" where
  "hex_value d = (if d < 58 then d - 48 else d - 87)"

lemma hex_value_digit: "hex_value (hex_digit d) = d"
  by (simp add: hex_value_def hex_digit_def)

definition json_read_escape :: "nat \<Rightarrow> pystr \<Rightarrow> nat \<times> pystr" where
  "json_read_escape e r =
     (if e = 110 then (10, r)
      else if e = 114 then (13, r)
      else if e = 116 then (9, r)
      else if e = 102 then (12, r)
      else if e = 98 then (8, r)
      else if e = 117 then (16 * hex_value (r ! 2) + hex_value (r ! 3), drop 4 r)
      else (e, r))"

definition json_read_char :: "pystr \<Rightarrow> nat \<times> pystr" where
  "json_read_char s = (if hd s = 92 then json_read_escape (s ! 1) (drop 2 s) else (hd s, tl s))"

lemma json_read_control:
  "json_read_char (92 # 117 # 48 # 48 # hex_digit a # hex_digit b # r) = (16 * a + b, r)"
  by (simp add: json_read_char_def json_read_escape_def hex_value_digit)

lemma json_escape_other: "32 \<le> c \<Longrightarrow> c \<noteq> 34 \<Longrightarrow> c \<noteq> 92 \<Longrightarrow> json_escape c = [c]"
  by (simp add: json_escape_def)

lemma json_escape_control:
  "c < 32 \<Longrightarrow> c \<notin> {8, 9, 10, 12, 13} \<Longrightarrow>
   json_escape c = [92, 117, 48, 48, hex_digit (c div 16), hex_digit (c mod 16)]"
  by (simp add: json_escape_def)

lemma json_read_char_escape: "json_read_char (json_escape c @ r) = (c, r)"
proof -
  consider "c \<in> {34, 92, 8, 9, 10, 12, 13}" | "32 \<le> c" "c \<noteq> 34" "c \<noteq> 92"
    | "c < 32" "c \<notin> {8, 9, 10, 12, 13}"
    by force
  then show ?thesis
  proof cases
    case 1
    then have "c = 34 \<or> c = 92 \<or> c = 8 \<or> c = 9 \<or> c = 10 \<or> c = 12 \<or> c = 13" by simp
    then show ?thesis
      by (elim disjE) (simp_all add: json_escape_def json_read_char_def json_read_escape_def)
  next
    case 2
    then have "json_escape c = [c]" by (rule json_escape_other)
    with 2 show ?thesis by (simp add: json_read_char_def)
  next
    case 3
    then have "json_escape c = [92, 117, 48, 48, hex_digit (c div 16), hex_digit (c mod 16)]"
      by (rule json_escape_control)
    then show ?thesis by (simp add: json_read_control)
  qed
qed

lemma json_escape_unique:
  assumes "json_escape c @ r = json_escape d @ s"
  shows "c = d \<and> r = s"
  using arg_cong [OF assms, of json_read_char] by (simp add: json_read_char_escape)

lemma json_chars_unique:
  "concat (map json_escape s) @ 34 # r = concat (map json_escape t) @ 34 # q \<Longrightarrow> s = t \<and> r = q"
proof (induction s arbitrary: t)
  case Nil
  show ?case
  proof (cases t)
    case (Cons d t')
    with Nil json_escape_not_quote [of d] json_escape_nonempty [of d] show ?thesis
      by (cases "json_escape d") auto
  qed (use Nil in simp)
next
  case (Cons c s)
  show ?case
  proof (cases t)
    case Nil
    with Cons.prems json_escape_not_quote [of c] json_escape_nonempty [of c] show ?thesis
      by (cases "json_escape c") auto
  next
    case t: (Cons d t')
    with Cons.prems have "json_escape c @ (concat (map json_escape s) @ 34 # r) =
        json_escape d @ (concat (map json_escape t') @ 34 # q)" by simp
    from json_escape_unique [OF this] Cons.IH [of t'] t show ?thesis by simp
  qed
qed

lemma json_str_unique: "json_str s @ r = json_str t @ q \<Longrightarrow> s = t \<and> r = q"
  using json_chars_unique [of s r t q] by (simp add: json_str_def)

section \<open>Reading values back\<close>

lemma json_newline_unique: "json_newline l @ r = json_newline l @ s \<longleftrightarrow> r = s"
  by simp

lemma json_newline_comma: "json_newline l @ r \<noteq> 44 # s"
  by (simp add: json_newline_def)

text \<open>
  A sequence of entries, each introduced by a comma, is read back entry by entry: the text
  after it starts with a line break, never with a comma.
\<close>

lemma entries_unique:
  assumes each: "\<And>x r y s. x \<in> set xs \<Longrightarrow> enc x @ r = enc y @ s \<Longrightarrow> x = y \<and> r = s"
    and eq: "concat (map (\<lambda>x. 44 # json_newline k @ enc x) xs) @ json_newline l @ r =
             concat (map (\<lambda>x. 44 # json_newline k @ enc x) ys) @ json_newline l @ s"
  shows "xs = ys \<and> r = s"
  using assms
proof (induction xs arbitrary: ys)
  case Nil
  then show ?case by (cases ys) (simp_all add: json_newline_def)
next
  case (Cons x xs)
  show ?case
  proof (cases ys)
    case Nil
    with Cons.prems(2) show ?thesis by (simp add: json_newline_def)
  next
    case ys: (Cons y ys')
    with Cons.prems(2) have "enc x @ (concat (map (\<lambda>x. 44 # json_newline k @ enc x) xs) @
          json_newline l @ r) =
        enc y @ (concat (map (\<lambda>x. 44 # json_newline k @ enc x) ys') @ json_newline l @ s)"
      by simp
    from Cons.prems(1) [OF list.set_intros(1) this] have xy: "x = y"
      and tails: "concat (map (\<lambda>x. 44 # json_newline k @ enc x) xs) @ json_newline l @ r =
           concat (map (\<lambda>x. 44 # json_newline k @ enc x) ys') @ json_newline l @ s"
      by simp_all
    have "xs = ys' \<and> r = s"
      by (rule Cons.IH [OF _ tails]) (rule Cons.prems(1), simp_all)
    with xy ys show ?thesis by simp
  qed
qed

definition json_entry :: "nat \<Rightarrow> string \<times> pyval \<Rightarrow> pystr" where
  "json_entry l kv = json_str (lit (fst kv)) @ [58, 32] @ json_dumps l (snd kv)"

lemma json_list_form:
  "json_dumps l (PyList (x # xs)) =
     91 # tl (concat (map (\<lambda>y. 44 # json_newline (Suc l) @ json_dumps (Suc l) y) (x # xs))) @
       json_newline l @ [93]"
  by simp

lemma json_dict_form:
  "json_dumps l (PyDict (kv # kvs)) =
     123 # tl (concat (map (\<lambda>y. 44 # json_newline (Suc l) @ json_entry (Suc l) y) (kv # kvs))) @
       json_newline l @ [125]"
  by (cases kv) (simp add: json_entry_def cong del: lit_opaque)

fun json_head :: "pyval \<Rightarrow> nat" where
  "json_head (PyStr s) = 34"
| "json_head (PyList xs) = 91"
| "json_head (PyDict kvs) = 123"

lemma json_dumps_head: "\<exists>t. json_dumps l v = json_head v # t"
proof (cases v)
  case (PyList xs)
  then show ?thesis by (cases xs) simp_all
next
  case (PyDict kvs)
  then show ?thesis by (cases kvs) auto
qed (simp add: json_str_def)

lemma json_dumps_same_head: "json_dumps l v @ r = json_dumps l w @ s \<Longrightarrow> json_head v = json_head w"
  by (metis append_Cons json_dumps_head list.inject)

lemma json_list_unique:
  assumes each: "\<And>x r y s. x \<in> set xs \<Longrightarrow>
      json_dumps (Suc l) x @ r = json_dumps (Suc l) y @ s \<Longrightarrow> x = y \<and> r = s"
    and eq: "json_dumps l (PyList xs) @ r = json_dumps l (PyList ys) @ s"
  shows "xs = ys \<and> r = s"
proof (cases "xs = [] \<or> ys = []")
  case True
  with eq show ?thesis by (cases xs; cases ys) (auto simp: json_newline_def)
next
  case False
  then obtain x xs' y ys' where xy: "xs = x # xs'" "ys = y # ys'" by (meson neq_Nil_conv)
  let ?c = "\<lambda>zs. concat (map (\<lambda>z. 44 # json_newline (Suc l) @ json_dumps (Suc l) z) zs)"
  from eq xy have "?c xs @ json_newline l @ (93 # r) = ?c ys @ json_newline l @ (93 # s)"
    by simp
  from entries_unique [OF each this] show ?thesis by simp
qed

lemma json_dict_unique:
  assumes each: "\<And>x r y s. x \<in> snd ` set kvs \<Longrightarrow>
      json_dumps (Suc l) x @ r = json_dumps (Suc l) y @ s \<Longrightarrow> x = y \<and> r = s"
    and eq: "json_dumps l (PyDict kvs) @ r = json_dumps l (PyDict kws) @ s"
  shows "kvs = kws \<and> r = s"
proof (cases "kvs = [] \<or> kws = []")
  case True
  with eq show ?thesis by (cases kvs; cases kws) (auto simp: json_newline_def)
next
  case False
  then obtain a kvs' b kws' where ab: "kvs = a # kvs'" "kws = b # kws'" by (meson neq_Nil_conv)
  have entry: "x = y \<and> r = s"
    if x: "x \<in> set kvs" and e: "json_entry (Suc l) x @ r = json_entry (Suc l) y @ s" for x r y s
  proof -
    from e have "json_str (lit (fst x)) @ 58 # 32 # json_dumps (Suc l) (snd x) @ r =
        json_str (lit (fst y)) @ 58 # 32 # json_dumps (Suc l) (snd y) @ s"
      by (simp add: json_entry_def)
    from json_str_unique [OF this] have "fst x = fst y"
      and "json_dumps (Suc l) (snd x) @ r = json_dumps (Suc l) (snd y) @ s"
      by (simp_all add: inj_lit)
    with each [of "snd x" r "snd y" s] x show ?thesis by (simp add: prod_eq_iff)
  qed
  let ?c = "\<lambda>zs. concat (map (\<lambda>z. 44 # json_newline (Suc l) @ json_entry (Suc l) z) zs)"
  from eq ab have "?c kvs @ json_newline l @ (125 # r) = ?c kws @ json_newline l @ (125 # s)"
    by (cases a; cases b) (simp add: json_entry_def cong del: lit_opaque)
  from entries_unique [OF entry this] show ?thesis by simp
qed

lemma json_dumps_unique: "json_dumps l v @ r = json_dumps l w @ s \<Longrightarrow> v = w \<and> r = s"
proof (induction v arbitrary: l w r s)
  case (PyStr x)
  from json_dumps_same_head [OF PyStr] obtain y where "w = PyStr y" by (cases w) auto
  with PyStr json_str_unique [of x r y s] show ?case by simp
next
  case (PyList xs)
  from json_dumps_same_head [OF PyList.prems] obtain ys where w: "w = PyList ys" by (cases w) auto
  have "xs = ys \<and> r = s"
    by (rule json_list_unique [where l = l]) (use PyList w in blast)+
  with w show ?case by simp
next
  case (PyDict kvs)
  from json_dumps_same_head [OF PyDict.prems] obtain kws where w: "w = PyDict kws"
    by (cases w) auto
  have each: "x = y \<and> r = s" if x: "x \<in> snd ` set kvs"
    and eq: "json_dumps (Suc l) x @ r = json_dumps (Suc l) y @ s" for x r y s
  proof -
    from x obtain kv where kv: "kv \<in> set kvs" "x = snd kv" by blast
    show ?thesis by (rule PyDict.IH [OF kv(1) _ eq]) (simp add: kv(2) snds.simps)
  qed
  have "kvs = kws \<and> r = s"
    by (rule json_dict_unique [where l = l]) (use each PyDict.prems w in blast)+
  with w show ?case by simp
qed

section \<open>What the output may contain\<close>

text \<open>The only control character in the output is the line break between entries.\<close>

lemma json_escape_printable: "d \<in> set (json_escape c) \<Longrightarrow> 32 \<le> d"
  by (auto simp: json_escape_def hex_digit_def split: if_splits)

lemma json_str_printable: "d \<in> set (json_str s) \<Longrightarrow> 32 \<le> d"
  using json_escape_printable by (auto simp: json_str_def)

lemma json_dumps_controls: "d \<in> set (json_dumps l v) \<Longrightarrow> d = 10 \<or> 32 \<le> d"
proof (induction l v rule: json_dumps.induct)
  case (1 l s)
  then show ?case using json_str_printable by auto
qed (auto simp: json_newline_def dest: json_str_printable split: if_splits)

end
