(* ===== verification/PyText.thy ===== *)
theory PyText
  imports PyCore
begin

text \<open>
  The text handling of \<open>generate_and_verify.py\<close>: UTF-8, line endings, \<open>str.split()\<close>,
  \<open>str.find\<close>, \<open>str.count\<close>, slicing, and the regular expressions it uses, each as the function
  that the leftmost match of the \<open>re\<close> module computes.
\<close>

type_synonym bytes = "nat list"

section \<open>UTF-8\<close>

definition scalar :: "nat \<Rightarrow> bool" where
  "scalar c \<longleftrightarrow> c < 0xD800 \<or> (0xE000 \<le> c \<and> c < 0x110000)"

definition utf8_char :: "nat \<Rightarrow> bytes" where
  "utf8_char c =
     (if c < 0x80 then [c]
      else if c < 0x800 then [0xC0 + c div 64, 0x80 + c mod 64]
      else if c < 0x10000 then [0xE0 + c div 4096, 0x80 + c div 64 mod 64, 0x80 + c mod 64]
      else [0xF0 + c div 262144, 0x80 + c div 4096 mod 64, 0x80 + c div 64 mod 64, 0x80 + c mod 64])"

text \<open>\<open>s.encode("utf-8")\<close>: a surrogate raises.\<close>

definition utf8_encode :: "pystr \<Rightarrow> (pyexc, bytes) res" where
  "utf8_encode s =
     (if list_all scalar s then Inr (concat (map utf8_char s))
      else Inl (ValueError ''surrogates not allowed''))"

definition continuation :: "nat \<Rightarrow> bool" where
  "continuation b \<longleftrightarrow> 0x80 \<le> b \<and> b < 0xC0"

definition decode_error :: pyexc where
  "decode_error = ValueError ''invalid utf-8''"

text \<open>\<open>b.decode("utf-8")\<close>: overlong forms, surrogates and stray bytes raise.\<close>

fun utf8_decode :: "bytes \<Rightarrow> (pyexc, pystr) res" where
  "utf8_decode [] = Inr []"
| "utf8_decode (b # r) =
     (if b < 0x80 then res_bind (utf8_decode r) (\<lambda>s. Inr (b # s))
      else if 0xC0 \<le> b \<and> b < 0xE0 then
        (case r of
           b1 # r1 \<Rightarrow>
             (let c = 64 * (b - 0xC0) + (b1 - 0x80) in
              if continuation b1 \<and> 0x80 \<le> c
              then res_bind (utf8_decode r1) (\<lambda>s. Inr (c # s)) else Inl decode_error)
         | _ \<Rightarrow> Inl decode_error)
      else if 0xE0 \<le> b \<and> b < 0xF0 then
        (case r of
           b1 # b2 # r2 \<Rightarrow>
             (let c = 4096 * (b - 0xE0) + 64 * (b1 - 0x80) + (b2 - 0x80) in
              if continuation b1 \<and> continuation b2 \<and> 0x800 \<le> c \<and> scalar c
              then res_bind (utf8_decode r2) (\<lambda>s. Inr (c # s)) else Inl decode_error)
         | _ \<Rightarrow> Inl decode_error)
      else if 0xF0 \<le> b \<and> b < 0xF8 then
        (case r of
           b1 # b2 # b3 # r3 \<Rightarrow>
             (let c = 262144 * (b - 0xF0) + 4096 * (b1 - 0x80) + 64 * (b2 - 0x80) + (b3 - 0x80) in
              if continuation b1 \<and> continuation b2 \<and> continuation b3 \<and> 0x10000 \<le> c \<and> scalar c
              then res_bind (utf8_decode r3) (\<lambda>s. Inr (c # s)) else Inl decode_error)
         | _ \<Rightarrow> Inl decode_error)
      else Inl decode_error)"

declare utf8_decode.simps(2) [simp del]

lemma utf8_split3: "4096 * (c div 4096) + 64 * (c div 64 mod 64) + c mod 64 = (c::nat)"
proof -
  have "c div 64 = 64 * (c div 4096) + c div 64 mod 64"
    using mult_div_mod_eq [of 64 "c div 64"] by (simp add: div_mult2_eq [symmetric])
  moreover have "c = 64 * (c div 64) + c mod 64" by simp
  ultimately show ?thesis by linarith
qed

lemma utf8_split4:
  "262144 * (c div 262144) + 4096 * (c div 4096 mod 64) + 64 * (c div 64 mod 64) + c mod 64 = (c::nat)"
proof -
  have "c div 4096 = 64 * (c div 262144) + c div 4096 mod 64"
    using mult_div_mod_eq [of 64 "c div 4096"] by (simp add: div_mult2_eq [symmetric])
  then show ?thesis using utf8_split3 [of c] by linarith
qed

lemma utf8_decode_char:
  assumes "scalar c"
  shows "utf8_decode (utf8_char c @ r) = res_bind (utf8_decode r) (\<lambda>s. Inr (c # s))"
proof -
  consider "c < 0x80" | "0x80 \<le> c" "c < 0x800" | "0x800 \<le> c" "c < 0x10000" | "0x10000 \<le> c"
    by linarith
  then show ?thesis
  proof cases
    case 1
    then show ?thesis by (simp add: utf8_char_def utf8_decode.simps(2))
  next
    case 2
    then have "c div 64 < 32" by simp
    with 2 show ?thesis
      by (simp add: utf8_char_def utf8_decode.simps(2) continuation_def Let_def)
  next
    case 3
    then have "c div 4096 < 16" by simp
    with 3 assms show ?thesis
      using utf8_split3 [of c]
      by (simp add: utf8_char_def utf8_decode.simps(2) continuation_def Let_def)
  next
    case 4
    with assms have "c div 262144 < 5" by (simp add: scalar_def)
    with 4 assms show ?thesis
      using utf8_split4 [of c]
      by (simp add: utf8_char_def utf8_decode.simps(2) continuation_def Let_def)
  qed
qed

lemma utf8_round_trip: "utf8_encode s = Inr b \<Longrightarrow> utf8_decode b = Inr s"
proof (induction s arbitrary: b)
  case Nil
  then show ?case by (simp add: utf8_encode_def)
next
  case (Cons c s)
  then have c: "scalar c" and s: "utf8_encode s = Inr (concat (map utf8_char s))"
    and b: "b = utf8_char c @ concat (map utf8_char s)"
    by (auto simp: utf8_encode_def split: if_splits)
  from Cons.IH [OF s] show ?case by (simp add: b utf8_decode_char [OF c])
qed

section \<open>Lines and words\<close>

text \<open>\<open>read_text\<close> opens the file with universal newlines; \<open>write_text\<close> writes \<open>\n\<close> as it is.\<close>

fun universal_newlines :: "pystr \<Rightarrow> pystr" where
  "universal_newlines [] = []"
| "universal_newlines (c # s) =
     (if c = 13 then (if s \<noteq> [] \<and> hd s = 10 then universal_newlines s else 10 # universal_newlines s)
      else c # universal_newlines s)"

lemma universal_newlines_id: "13 \<notin> set s \<Longrightarrow> universal_newlines s = s"
  by (induction s rule: universal_newlines.induct) auto

text \<open>\<open>str.isspace\<close>, which \<open>split()\<close> without an argument splits at.\<close>

definition is_space :: "nat \<Rightarrow> bool" where
  "is_space c \<longleftrightarrow>
     (9 \<le> c \<and> c \<le> 13) \<or> (28 \<le> c \<and> c \<le> 32) \<or> c = 0x85 \<or> c = 0xA0 \<or> c = 0x1680 \<or>
     (0x2000 \<le> c \<and> c \<le> 0x200A) \<or> c = 0x2028 \<or> c = 0x2029 \<or> c = 0x202F \<or> c = 0x205F \<or> c = 0x3000"

function split_words :: "pystr \<Rightarrow> pystr list" where
  "split_words s =
     (let t = dropWhile is_space s in
      if t = [] then []
      else takeWhile (\<lambda>c. \<not> is_space c) t # split_words (dropWhile (\<lambda>c. \<not> is_space c) t))"
  by pat_completeness auto

lemma split_words_decreases:
  assumes "dropWhile is_space s \<noteq> []"
  shows "length (dropWhile (\<lambda>c. \<not> is_space c) (dropWhile is_space s)) < length s"
proof -
  obtain c t where ct: "dropWhile is_space s = c # t" using assms by (cases "dropWhile is_space s") auto
  then have "\<not> is_space c" using hd_dropWhile [OF assms] by simp
  then have "length (dropWhile (\<lambda>c. \<not> is_space c) (c # t)) \<le> length t"
    by (simp add: length_dropWhile_le)
  also have "length t < length s"
    using length_dropWhile_le [of is_space s] ct by simp
  finally show ?thesis using ct by simp
qed

termination split_words
  by (relation "measure length") (simp_all add: split_words_decreases)

declare split_words.simps [simp del]

lemma split_words_Nil: "split_words [] = []"
  by (subst split_words.simps) simp

lemma split_words_eq:
  "dropWhile is_space s = t \<Longrightarrow> t \<noteq> [] \<Longrightarrow>
   split_words s = takeWhile (\<lambda>c. \<not> is_space c) t # split_words (dropWhile (\<lambda>c. \<not> is_space c) t)"
  by (subst split_words.simps) (simp only: Let_def if_False)

lemma split_words_blank: "dropWhile is_space s = [] \<Longrightarrow> split_words s = []"
  by (subst split_words.simps) (simp only: Let_def if_True simp_thms)

lemma split_words_space: "is_space c \<Longrightarrow> split_words (c # s) = split_words s"
  by (subst split_words.simps, subst (2) split_words.simps) simp

lemma split_words_words:
  "w \<in> set (split_words s) \<Longrightarrow> w \<noteq> [] \<and> list_all (\<lambda>c. \<not> is_space c) w"
proof (induction s rule: split_words.induct)
  case (1 s)
  let ?t = "dropWhile is_space s"
  show ?case
  proof (cases "?t = []")
    case True
    with "1.prems" show ?thesis by (simp only: split_words_blank) simp
  next
    case False
    then have "\<not> is_space (hd ?t)" by (rule hd_dropWhile)
    with False have "takeWhile (\<lambda>c. \<not> is_space c) ?t \<noteq> []" by (cases ?t) simp_all
    moreover have "list_all (\<lambda>c. \<not> is_space c) (takeWhile (\<lambda>c. \<not> is_space c) ?t)"
      by (auto simp: list_all_iff dest: set_takeWhileD)
    ultimately show ?thesis
      using "1.prems" "1.IH" [OF refl False] unfolding split_words_eq [OF refl False] by auto
  qed
qed

lemma split_words_chars: "concat (split_words s) = filter (\<lambda>c. \<not> is_space c) s"
proof (induction s rule: split_words.induct)
  case (1 s)
  let ?t = "dropWhile is_space s"
  have s: "filter (\<lambda>c. \<not> is_space c) s = filter (\<lambda>c. \<not> is_space c) ?t"
    by (induction s) auto
  have t: "filter (\<lambda>c. \<not> is_space c) t =
      takeWhile (\<lambda>c. \<not> is_space c) t @ filter (\<lambda>c. \<not> is_space c) (dropWhile (\<lambda>c. \<not> is_space c) t)"
    for t by (induction t) auto
  show ?case
  proof (cases "?t = []")
    case True
    with s show ?thesis by (simp only: split_words_blank) simp
  next
    case False
    from "1.IH" [OF refl False] s t [of ?t] show ?thesis
      unfolding split_words_eq [OF refl False] by simp
  qed
qed

lemma split_words_word:
  assumes "w \<noteq> []" and "list_all (\<lambda>c. \<not> is_space c) w" and "r = [] \<or> is_space (hd r)"
  shows "split_words (w @ r) = w # split_words r"
proof -
  have d: "dropWhile is_space (w @ r) = w @ r" using assms(1,2) by (cases w) simp_all
  have tk: "takeWhile (\<lambda>c. \<not> is_space c) (w @ r) = w"
    and dr: "dropWhile (\<lambda>c. \<not> is_space c) (w @ r) = r"
    using assms(2,3) by (cases r; auto simp: list_all_iff takeWhile_append2 dropWhile_append2)+
  show ?thesis using assms(1) by (subst split_words.simps) (simp add: d tk dr)
qed

definition join_words :: "pystr list \<Rightarrow> pystr" where
  "join_words ws = concat (map (\<lambda>w. w @ [32]) ws)"

lemma split_words_join:
  "list_all (\<lambda>w. w \<noteq> [] \<and> list_all (\<lambda>c. \<not> is_space c) w) ws \<Longrightarrow> split_words (join_words ws) = ws"
proof (induction ws)
  case Nil
  then show ?case by (simp add: join_words_def split_words_Nil)
next
  case (Cons w ws)
  then have "split_words (w @ 32 # join_words ws) = w # split_words (32 # join_words ws)"
    by (intro split_words_word) (simp_all add: is_space_def)
  moreover have "split_words (32 # join_words ws) = split_words (join_words ws)"
    by (rule split_words_space) (simp add: is_space_def)
  ultimately show ?case using Cons by (simp add: join_words_def)
qed

text \<open>\<open>sep.join(ws)\<close>.\<close>

fun py_join :: "pystr \<Rightarrow> pystr list \<Rightarrow> pystr" where
  "py_join sep [] = []"
| "py_join sep [w] = w"
| "py_join sep (w # v # ws) = w @ sep @ py_join sep (v # ws)"

section \<open>Properties\<close>

text \<open>
  UTF-8: what the encoder accepts, the decoder gives back, and nothing else encodes to the
  same bytes.
\<close>

lemma utf8_encode_decode:
  assumes "utf8_encode s = Inr b"
  shows "utf8_decode b = Inr s \<and> (utf8_encode t = Inr b \<longleftrightarrow> t = s)"
  using assms utf8_round_trip [of s b] utf8_round_trip [of t b] by auto

text \<open>
  \<open>split()\<close> returns the words of a text: none is empty or has white space in it, together
  they are the text without its white space, and words written one after the other with blanks
  between them are read back.
\<close>

lemma split_words_correct:
  "list_all (\<lambda>w. w \<noteq> [] \<and> list_all (\<lambda>c. \<not> is_space c) w) (split_words s) \<and>
   concat (split_words s) = filter (\<lambda>c. \<not> is_space c) s \<and>
   split_words (join_words (split_words s)) = split_words s"
proof -
  have w: "list_all (\<lambda>w. w \<noteq> [] \<and> list_all (\<lambda>c. \<not> is_space c) w) (split_words s)"
    using split_words_words unfolding list_all_iff by blast
  show ?thesis using w split_words_chars split_words_join [OF w] by blast
qed

end
