(* ===== verification/PyFiles.thy ===== *)
theory PyFiles
  imports PyText
begin

text \<open>
  The part of the file system the publication scripts see: relative paths as lists of names,
  folders and files, and the \<open>pathlib\<close> operations the scripts call. An operation that raises
  ends the script, so an \<open>Inl\<close> carries no file system.
\<close>

type_synonym path = "pystr list"

datatype node = Folder | File bytes

type_synonym fsys = "path \<rightharpoonup> node"

text \<open>The working directory is a folder, and whatever exists is in a folder.\<close>

definition wf_fs :: "fsys \<Rightarrow> bool" where
  "wf_fs fs \<longleftrightarrow>
     fs [] = Some Folder \<and> (\<forall>p. fs p \<noteq> None \<and> p \<noteq> [] \<longrightarrow> fs (butlast p) = Some Folder)"

definition exists_path :: "fsys \<Rightarrow> path \<Rightarrow> bool" where
  "exists_path fs p \<longleftrightarrow> fs p \<noteq> None"

definition read_bytes :: "fsys \<Rightarrow> path \<Rightarrow> (pyexc, bytes) res" where
  "read_bytes fs p =
     (case fs p of
        Some (File b) \<Rightarrow> Inr b
      | Some Folder \<Rightarrow> Inl IsADirectoryError
      | None \<Rightarrow> Inl FileNotFoundError)"

definition read_text :: "fsys \<Rightarrow> path \<Rightarrow> (pyexc, pystr) res" where
  "read_text fs p =
     res_bind (read_bytes fs p) (\<lambda>b.
     res_bind (utf8_decode b) (\<lambda>s. Inr (universal_newlines s)))"

text \<open>\<open>p.mkdir(parents=True, exist_ok=True)\<close>, from the working directory down.\<close>

fun make_dirs :: "path \<Rightarrow> pystr list \<Rightarrow> fsys \<Rightarrow> (pyexc, fsys) res" where
  "make_dirs base [] fs = Inr fs"
| "make_dirs base (c # cs) fs =
     (case fs (base @ [c]) of
        None \<Rightarrow> make_dirs (base @ [c]) cs (fs(base @ [c] \<mapsto> Folder))
      | Some Folder \<Rightarrow> make_dirs (base @ [c]) cs fs
      | Some (File _) \<Rightarrow> Inl (if cs = [] then FileExistsError else NotADirectoryError))"

definition mkdir_parents :: "path \<Rightarrow> fsys \<Rightarrow> (pyexc, fsys) res" where
  "mkdir_parents p fs = make_dirs [] p fs"

text \<open>Opening for writing creates the file or empties it; its folder must exist.\<close>

definition write_bytes :: "path \<Rightarrow> bytes \<Rightarrow> fsys \<Rightarrow> (pyexc, fsys) res" where
  "write_bytes p b fs =
     (if fs p = Some Folder then Inl IsADirectoryError
      else if fs (butlast p) = Some Folder then Inr (fs(p \<mapsto> File b))
      else if list_ex (\<lambda>n. case fs (take n p) of Some (File _) \<Rightarrow> True | _ \<Rightarrow> False) [0..<length p]
      then Inl NotADirectoryError else Inl FileNotFoundError)"

definition write_text :: "path \<Rightarrow> pystr \<Rightarrow> fsys \<Rightarrow> (pyexc, fsys) res" where
  "write_text p s fs =
     res_bind (write_bytes p [] fs) (\<lambda>fs1.
     res_bind (utf8_encode s) (\<lambda>b. Inr (fs1(p \<mapsto> File b))))"

section \<open>What writing and making folders change\<close>

lemma make_dirs_frame:
  "make_dirs base cs fs = Inr fs' \<Longrightarrow> fs q \<noteq> None \<Longrightarrow> fs' q = fs q"
  by (induction base cs fs arbitrary: fs' rule: make_dirs.induct)
    (auto split: option.splits node.splits if_splits)

lemma make_dirs_new:
  "make_dirs base cs fs = Inr fs' \<Longrightarrow> fs q = None \<Longrightarrow> fs' q = None \<or> fs' q = Some Folder"
proof (induction base cs fs arbitrary: fs' rule: make_dirs.induct)
  case (2 base c cs fs)
  show ?case
  proof (cases "fs (base @ [c])")
    case None
    with 2(3) have m: "make_dirs (base @ [c]) cs (fs(base @ [c] \<mapsto> Folder)) = Inr fs'" by simp
    show ?thesis
    proof (cases "q = base @ [c]")
      case True
      with make_dirs_frame [OF m, of q] show ?thesis by simp
    next
      case False
      with 2(1) [OF None m] 2(4) show ?thesis by simp
    qed
  next
    case (Some n)
    with 2(2,3,4) show ?thesis by (cases n) auto
  qed
qed simp

lemma make_dirs_changes:
  "make_dirs base cs fs = Inr fs' \<Longrightarrow> fs' q \<noteq> fs q \<Longrightarrow> \<exists>n \<le> length cs. q = base @ take n cs"
proof (induction base cs fs arbitrary: fs' rule: make_dirs.induct)
  case (2 base c cs fs)
  have step: "(\<exists>n \<le> length cs. q = (base @ [c]) @ take n cs) \<Longrightarrow> ?case"
    by (metis Suc_le_mono append.assoc append_Cons append_Nil length_Cons take_Suc_Cons)
  show ?case
  proof (cases "fs (base @ [c])")
    case None
    with 2(3) have m: "make_dirs (base @ [c]) cs (fs(base @ [c] \<mapsto> Folder)) = Inr fs'" by simp
    show ?thesis
    proof (cases "q = base @ [c]")
      case True
      then show ?thesis by (intro exI [of _ 1]) simp
    next
      case False
      with 2(4) have "fs' q \<noteq> (fs(base @ [c] \<mapsto> Folder)) q" by simp
      from 2(1) [OF None m this] step show ?thesis by blast
    qed
  next
    case (Some n)
    with 2(2-4) step show ?thesis by (cases n) auto
  qed
qed simp

lemma make_dirs_target:
  "make_dirs base cs fs = Inr fs' \<Longrightarrow> fs base = Some Folder \<Longrightarrow> fs' (base @ cs) = Some Folder"
proof (induction base cs fs arbitrary: fs' rule: make_dirs.induct)
  case (2 base c cs fs)
  show ?case
  proof (cases "fs (base @ [c])")
    case None
    with 2(3) have "make_dirs (base @ [c]) cs (fs(base @ [c] \<mapsto> Folder)) = Inr fs'" by simp
    from 2(1) [OF None this] show ?thesis by simp
  next
    case (Some n)
    with 2(2,3) show ?thesis by (cases n) auto
  qed
qed simp

lemma make_dirs_wf:
  "make_dirs base cs fs = Inr fs' \<Longrightarrow> wf_fs fs \<Longrightarrow> fs base = Some Folder \<Longrightarrow> wf_fs fs'"
proof (induction base cs fs arbitrary: fs' rule: make_dirs.induct)
  case (2 base c cs fs)
  show ?case
  proof (cases "fs (base @ [c])")
    case None
    with 2(3) have m: "make_dirs (base @ [c]) cs (fs(base @ [c] \<mapsto> Folder)) = Inr fs'" by simp
    have "wf_fs (fs(base @ [c] \<mapsto> Folder))"
      using 2(4,5) None by (auto simp: wf_fs_def)
    from 2(1) [OF None m this] show ?thesis by simp
  next
    case (Some n)
    with 2(2-5) show ?thesis by (cases n) auto
  qed
qed simp

text \<open>Making folders fails only where a file stands in the way.\<close>

lemma make_dirs_Inl:
  "make_dirs base cs fs = Inl e \<Longrightarrow>
   \<exists>n b. 0 < n \<and> n \<le> length cs \<and> fs (base @ take n cs) = Some (File b)"
proof (induction base cs fs rule: make_dirs.induct)
  case (2 base c cs fs)
  show ?case
  proof (cases "fs (base @ [c])")
    case None
    with 2(3) have "make_dirs (base @ [c]) cs (fs(base @ [c] \<mapsto> Folder)) = Inl e" by simp
    from 2(1) [OF None this] obtain n b where "0 < n" "n \<le> length cs"
      "(fs(base @ [c] \<mapsto> Folder)) ((base @ [c]) @ take n cs) = Some (File b)" by blast
    then show ?thesis by (intro exI [of _ "Suc n"] exI [of _ b]) (auto split: if_splits)
  next
    case (Some nd)
    show ?thesis
    proof (cases nd)
      case Folder
      from 2(3) Some Folder have "make_dirs (base @ [c]) cs fs = Inl e" by simp
      from 2(2) [OF Some Folder this] obtain n b where "0 < n" "n \<le> length cs"
        "fs ((base @ [c]) @ take n cs) = Some (File b)" by blast
      then show ?thesis by (intro exI [of _ "Suc n"] exI [of _ b]) auto
    next
      case (File b)
      with Some show ?thesis by (intro exI [of _ 1] exI [of _ b]) auto
    qed
  qed
qed simp

lemma write_text_Inr_iff:
  "write_text p s fs = Inr fs' \<longleftrightarrow>
     fs p \<noteq> Some Folder \<and> fs (butlast p) = Some Folder \<and>
     list_all scalar s \<and> fs' = fs(p \<mapsto> File (concat (map utf8_char s)))"
  by (auto simp: write_text_def write_bytes_def utf8_encode_def res_bind_Inr_iff split: if_splits)

lemma write_text_frame: "write_text p s fs = Inr fs' \<Longrightarrow> q \<noteq> p \<Longrightarrow> fs' q = fs q"
  by (auto simp: write_text_Inr_iff)

lemma write_text_wf: "write_text p s fs = Inr fs' \<Longrightarrow> wf_fs fs \<Longrightarrow> p \<noteq> [] \<Longrightarrow> wf_fs fs'"
  by (auto simp: write_text_Inr_iff wf_fs_def)

lemma write_text_read_text:
  assumes "write_text p s fs = Inr fs'" and "13 \<notin> set s"
  shows "read_text fs' p = Inr s"
proof -
  from assms(1) have b: "fs' p = Some (File (concat (map utf8_char s)))"
    and sc: "list_all scalar s" by (auto simp: write_text_Inr_iff)
  from sc have "utf8_encode s = Inr (concat (map utf8_char s))" by (simp add: utf8_encode_def)
  then have "utf8_decode (concat (map utf8_char s)) = Inr s" by (rule utf8_round_trip)
  with b assms(2) show ?thesis
    by (simp add: read_text_def read_bytes_def universal_newlines_id)
qed

lemma read_text_cong: "fs p = fs' p \<Longrightarrow> read_text fs p = read_text fs' p"
  by (simp add: read_text_def read_bytes_def)

end
