(* ===== verification/PubMains.thy ===== *)
theory PubMains
  imports Publications PyJson PyFiles
begin

text \<open>
  The \<open>__main__\<close> blocks of the publication modules: the listings of nine labs, the one-line
  reports of fourteen, and lab 22's dump of its constants and slides to \<open>content_def.json\<close>.
  Lab 28 has no such block.
\<close>

section \<open>Reports\<close>

definition lab16_main :: "(pyexc, pystr list) res" where
  "lab16_main = main_listing lab16_deck"

definition lab17_main :: "(pyexc, pystr list) res" where
  "lab17_main = main_listing lab17_deck"

definition lab18_main :: "(pyexc, pystr list) res" where
  "lab18_main = main_listing lab18_deck"

definition lab19_main :: "(pyexc, pystr list) res" where
  "lab19_main = main_listing lab19_deck"

definition lab20_main :: "(pyexc, pystr list) res" where
  "lab20_main = main_listing lab20_deck"

definition lab21_main :: "(pyexc, pystr list) res" where
  "lab21_main = main_count lab21_deck"

definition lab23_main :: "(pyexc, pystr list) res" where
  "lab23_main = main_listing lab23_deck"

definition lab24_main :: "(pyexc, pystr list) res" where
  "lab24_main = main_count lab24_deck"

definition lab25_main :: "(pyexc, pystr list) res" where
  "lab25_main = main_listing lab25_deck"

definition lab26_main :: "(pyexc, pystr list) res" where
  "lab26_main = main_listing lab26_deck"

definition lab27_main :: "(pyexc, pystr list) res" where
  "lab27_main = main_listing lab27_deck"

definition lab29_main :: "(pyexc, pystr list) res" where
  "lab29_main = main_count lab29_deck"

definition lab30_main :: "(pyexc, pystr list) res" where
  "lab30_main = main_count lab30_deck"

definition lab31_main :: "(pyexc, pystr list) res" where
  "lab31_main = main_count lab31_deck"

definition lab32_main :: "(pyexc, pystr list) res" where
  "lab32_main = main_count lab32_deck"

definition lab33_main :: "(pyexc, pystr list) res" where
  "lab33_main = main_count lab33_deck"

definition lab34_main :: "(pyexc, pystr list) res" where
  "lab34_main = main_count lab34_deck"

definition lab35_main :: "(pyexc, pystr list) res" where
  "lab35_main = main_defined lab35_deck"

definition lab36_main :: "(pyexc, pystr list) res" where
  "lab36_main = main_defined lab36_deck"

definition lab37_main :: "(pyexc, pystr list) res" where
  "lab37_main = main_count lab37_deck"

definition lab38_main :: "(pyexc, pystr list) res" where
  "lab38_main = main_count lab38_deck"

definition lab39_main :: "(pyexc, pystr list) res" where
  "lab39_main = main_count lab39_deck"

definition lab40_main :: "(pyexc, pystr list) res" where
  "lab40_main = main_count lab40_deck"

section \<open>Lab 22's JSON dump\<close>

text \<open>\<open>os.path.join(a, b)\<close> for a relative \<open>b\<close>.\<close>

definition path_join :: "pystr \<Rightarrow> pystr \<Rightarrow> pystr" where
  "path_join a b = (if a = [] \<or> last a = 47 then a @ b else a @ 47 # b)"

text \<open>The names on a relative path without empty or dot components.\<close>

fun path_names :: "pystr \<Rightarrow> path" where
  "path_names [] = [[]]"
| "path_names (c # s) =
     (if c = 47 then [] # path_names s
      else (case path_names s of n # ns \<Rightarrow> (c # n) # ns | [] \<Rightarrow> [[c]]))"

definition lab22_out_path :: pystr where
  "lab22_out_path = path_join lab22_OUTPUT_DIR (lit ''content_def.json'')"

definition lab22_payload :: "pyval list \<Rightarrow> pyval" where
  "lab22_payload SLIDES =
     PyDict
      [(''TITLE_ID'', PyStr lab22_TITLE_ID),
       (''SUBTITLE_ID'', PyStr lab22_SUBTITLE_ID),
       (''TITLE_EN'', PyStr lab22_TITLE_EN),
       (''SUBTITLE_EN'', PyStr lab22_SUBTITLE_EN),
       (''AUTHOR'', PyStr lab22_AUTHOR),
       (''LAB_NO'', PyStr lab22_LAB_NO),
       (''SLUG'', PyStr lab22_SLUG),
       (''REPO_URL'', PyStr lab22_REPO_URL),
       (''COMMIT_SHA'', PyStr lab22_COMMIT_SHA),
       (''COVER_IMAGE_PATH'', PyStr lab22_COVER_IMAGE_PATH),
       (''SLIDES'', PyList SLIDES)]"

definition lab22_main :: "fsys \<Rightarrow> (pyexc, fsys \<times> pystr list) res" where
  "lab22_main fs =
     res_bind (load lab22_deck) (\<lambda>SLIDES.
     res_bind (write_text (path_names lab22_out_path) (json_dumps 0 (lab22_payload SLIDES)) fs) (\<lambda>fs'.
       Inr (fs',
         [lit ''Generated '' @ str_of_nat (length SLIDES) @ lit '' slides for lab '' @ lab22_LAB_NO,
          lit ''Output dir: '' @ lab22_OUTPUT_DIR,
          lit ''Saved JSON to '' @ lab22_out_path])))"

section \<open>Listings succeed\<close>

text \<open>A listing formats three fields of each slide; it raises unless all of them are strings.\<close>

definition listed :: "pyval \<Rightarrow> bool" where
  "listed s \<longleftrightarrow>
     list_all (\<lambda>k. case py_subscript s k of Inr (PyStr _) \<Rightarrow> True | _ \<Rightarrow> False)
       [''slide_num'', ''layout'', ''title'']"

lemma field_str: "(case py_subscript s k of Inr (PyStr _) \<Rightarrow> True | _ \<Rightarrow> False) \<longleftrightarrow> (\<exists>t. field s k = Inr t)"
  by (auto simp: field_def split: sum.splits pyval.splits)

lemma slide_line_listed: "(\<exists>l. slide_line s = Inr l) \<longleftrightarrow> listed s"
  unfolding listed_def field_str by (auto simp: slide_line_def res_bind_Inr_iff)

lemma map_res_all: "(\<exists>ys. map_res f xs = Inr ys) \<longleftrightarrow> list_all (\<lambda>x. \<exists>y. f x = Inr y) xs"
  by (induction xs) (auto split: sum.splits)

lemma main_listing_runs:
  "load d = Inr SLIDES \<Longrightarrow> (\<exists>ls. main_listing d = Inr ls) \<longleftrightarrow> list_all listed SLIDES"
  using map_res_all [of slide_line SLIDES]
  by (auto simp: main_listing_def res_bind_Inr_iff slide_line_listed)

lemma main_listing_length:
  "load d = Inr SLIDES \<Longrightarrow> main_listing d = Inr ls \<Longrightarrow> length ls = Suc (length SLIDES)"
  by (auto simp: main_listing_def res_bind_Inr_iff dest: map_res_Inr_length)

text \<open>The fields of a loaded slide are the call's arguments.\<close>

lemma layout_fields:
  "py_subscript (layout.slide_of c) ''slide_num'' = Inr (value_of sig_layout c ''slide_num'')"
  "py_subscript (layout.slide_of c) ''title'' = Inr (value_of sig_layout c ''title'')"
  "py_subscript (layout.slide_of c) ''layout'' = Inr (value_of sig_layout c ''layout'')"
  by (simp_all add: layout.slide_field copied_keys_def)
    (rule layout.param_field; simp add: body_layout_def shape_simps)

lemma layout_en_fields:
  "py_subscript (layout_en.slide_of c) ''slide_num'' = Inr (value_of sig_layout_en c ''slide_num'')"
  "py_subscript (layout_en.slide_of c) ''title'' = Inr (value_of sig_layout_en c ''title'')"
  "py_subscript (layout_en.slide_of c) ''layout'' = Inr (value_of sig_layout_en c ''layout'')"
  by (simp_all add: layout_en.slide_field copied_keys_def)
    (rule layout_en.param_field; simp add: body_layout_en_def shape_simps)

definition str_args :: "signature \<Rightarrow> pycall \<Rightarrow> bool" where
  "str_args sig c \<longleftrightarrow>
     list_all (\<lambda>k. is_str (value_of sig c k)) [''slide_num'', ''layout'', ''title'']"

lemma is_str_case: "(case v of PyStr _ \<Rightarrow> True | _ \<Rightarrow> False) = is_str v"
  by (cases v) simp_all

lemma layout_listed: "listed (layout.slide_of c) \<longleftrightarrow> str_args sig_layout c"
  by (simp add: listed_def str_args_def layout_fields is_str_case)

lemma layout_en_listed: "listed (layout_en.slide_of c) \<longleftrightarrow> str_args sig_layout_en c"
  by (simp add: listed_def str_args_def layout_en_fields is_str_case)

lemma lab16_strs: "list_all (str_args sig_layout) lab16_calls"
  by (simp only: lab16_calls_def lab16_slides str_args_def list.pred_inject keyword_eval is_str.simps simp_thms cong: pyval_opaque)

lemma lab17_strs: "list_all (str_args sig_layout) lab17_calls"
  by (simp only: lab17_calls_def lab17_slides str_args_def list.pred_inject keyword_eval is_str.simps simp_thms cong: pyval_opaque)

lemma lab18_strs: "list_all (str_args sig_layout) lab18_calls"
  by (simp only: lab18_calls_def lab18_slides str_args_def list.pred_inject keyword_eval is_str.simps simp_thms cong: pyval_opaque)

lemma lab19_strs: "list_all (str_args sig_layout) lab19_calls"
  by (simp only: lab19_calls_def lab19_slides str_args_def list.pred_inject keyword_eval is_str.simps simp_thms cong: pyval_opaque)

lemma lab20_strs: "list_all (str_args sig_layout) lab20_calls"
  by (simp add: lab20_calls_def lab20_slides str_args_def call_eval cong: pyval_opaque)

lemma lab23_strs: "list_all (str_args sig_layout_en) lab23_calls"
  by (simp only: lab23_calls_def lab23_slides str_args_def list.pred_inject keyword_eval is_str.simps simp_thms cong: pyval_opaque)

lemma lab25_strs: "list_all (str_args sig_layout) lab25_calls"
  by (simp only: lab25_calls_def lab25_slides str_args_def list.pred_inject keyword_eval is_str.simps simp_thms cong: pyval_opaque)

lemma lab26_strs: "list_all (str_args sig_layout) lab26_calls"
  by (simp only: lab26_calls_def lab26_slides str_args_def list.pred_inject keyword_eval is_str.simps simp_thms cong: pyval_opaque)

lemma lab27_strs: "list_all (str_args sig_layout) lab27_calls"
  by (simp only: lab27_calls_def lab27_slides str_args_def list.pred_inject keyword_eval is_str.simps simp_thms cong: pyval_opaque)

lemma deck_length: "loads_in_order d \<Longrightarrow> load d = Inr SLIDES \<Longrightarrow> length SLIDES = 24"
  using loads_in_order_24 by fastforce

lemma listing_of_deck:
  assumes "load d = Inr (map f cs)" and "loads_in_order d" and "list_all (\<lambda>c. listed (f c)) cs"
  shows "\<exists>ls. main_listing d = Inr ls \<and> length ls = 25"
proof -
  have "list_all listed (map f cs)" using assms(3) by (simp add: list_all_iff)
  then obtain ls where "main_listing d = Inr ls" using main_listing_runs [OF assms(1)] by blast
  moreover from main_listing_length [OF assms(1) this] deck_length [OF assms(2,1)]
  have "length ls = 25" by simp
  ultimately show ?thesis by blast
qed

lemma lab16_listing: "\<exists>ls. lab16_main = Inr ls \<and> length ls = 25"
  unfolding lab16_main_def
  by (rule listing_of_deck [OF lab16_load lab16_in_order]) (simp add: layout_listed lab16_strs)

lemma lab17_listing: "\<exists>ls. lab17_main = Inr ls \<and> length ls = 25"
  unfolding lab17_main_def
  by (rule listing_of_deck [OF lab17_load lab17_in_order]) (simp add: layout_listed lab17_strs)

lemma lab18_listing: "\<exists>ls. lab18_main = Inr ls \<and> length ls = 25"
  unfolding lab18_main_def
  by (rule listing_of_deck [OF lab18_load lab18_in_order]) (simp add: layout_listed lab18_strs)

lemma lab19_listing: "\<exists>ls. lab19_main = Inr ls \<and> length ls = 25"
  unfolding lab19_main_def
  by (rule listing_of_deck [OF lab19_load lab19_in_order]) (simp add: layout_listed lab19_strs)

lemma lab20_listing: "\<exists>ls. lab20_main = Inr ls \<and> length ls = 25"
  unfolding lab20_main_def
  by (rule listing_of_deck [OF lab20_load lab20_in_order]) (simp add: layout_listed lab20_strs)

lemma lab23_listing: "\<exists>ls. lab23_main = Inr ls \<and> length ls = 25"
  unfolding lab23_main_def
  by (rule listing_of_deck [OF lab23_load lab23_in_order]) (simp add: layout_en_listed lab23_strs)

lemma lab25_listing: "\<exists>ls. lab25_main = Inr ls \<and> length ls = 25"
  unfolding lab25_main_def
  by (rule listing_of_deck [OF lab25_load lab25_in_order]) (simp add: layout_listed lab25_strs)

lemma lab26_listing: "\<exists>ls. lab26_main = Inr ls \<and> length ls = 25"
  unfolding lab26_main_def
  by (rule listing_of_deck [OF lab26_load lab26_in_order]) (simp add: layout_listed lab26_strs)

lemma lab27_listing: "\<exists>ls. lab27_main = Inr ls \<and> length ls = 25"
  unfolding lab27_main_def
  by (rule listing_of_deck [OF lab27_load lab27_in_order]) (simp add: layout_listed lab27_strs)

lemmas all_listings =
  lab16_listing lab17_listing lab18_listing lab19_listing lab20_listing lab23_listing
  lab25_listing lab26_listing lab27_listing

text \<open>The one-line reports state the number of slides.\<close>

lemma main_count_line:
  "loads_in_order d \<Longrightarrow> main_count d = Inr [lit ''Loaded 24 slides for Lab '' @ lab_no d @ lit '': '' @ title_id d]"
  by (drule loads_in_order_24) (auto simp: main_count_def loaded_line_def str_of_nat_def digits10.simps lit_simps)

lemma main_defined_line:
  "loads_in_order d \<Longrightarrow> main_defined d = Inr [lit ''Loaded content_def for Lab '' @ lab_no d @ lit '': 24 slides defined.'']"
  by (drule loads_in_order_24) (auto simp: main_defined_def str_of_nat_def digits10.simps lit_simps)

lemmas all_reports =
  lab21_main_def lab24_main_def lab29_main_def lab30_main_def lab31_main_def lab32_main_def
  lab33_main_def lab34_main_def lab37_main_def lab38_main_def lab39_main_def lab40_main_def
  lab35_main_def lab36_main_def

section \<open>The JSON can be encoded\<close>

fun encodable :: "pyval \<Rightarrow> bool" where
  "encodable (PyStr s) = list_all scalar s"
| "encodable (PyList xs) = list_all encodable xs"
| "encodable (PyDict kvs) = list_all (\<lambda>kv. encodable (snd kv)) kvs"

lemma scalar_lit: "list_all scalar (lit s)"
proof -
  have "list_all scalar (lit s)" if "list_all scalar (map of_char s)" using that by (simp add: lit_def)
  moreover have "scalar (of_char c)" for c
  proof -
    have "(of_char c :: nat) = of_char c mod 256"
      using of_char_of [of "of_char c :: nat"] by simp
    then have "(of_char c :: nat) < 256"
      using mod_less_divisor [of 256 "of_char c :: nat"] by linarith
    then show ?thesis unfolding scalar_def by linarith
  qed
  ultimately show ?thesis by (simp add: list_all_iff)
qed

lemma scalar_ascii: "c < 256 \<Longrightarrow> scalar c"
  by (simp add: scalar_def)

lemma scalar_escape: "scalar c \<Longrightarrow> list_all scalar (json_escape c)"
  by (cases "c < 32 \<and> c \<notin> {8, 9, 10, 12, 13}")
    (auto simp: json_escape_control scalar_ascii hex_digit_def, auto simp: json_escape_def scalar_ascii)

lemma scalar_json_str: "list_all scalar s \<Longrightarrow> list_all scalar (json_str s)"
  using scalar_escape by (auto simp: json_str_def list_all_iff scalar_ascii)

lemma scalar_newline: "list_all scalar (json_newline l)"
  by (simp add: json_newline_def list_all_iff scalar_ascii)

lemma scalar_json: "encodable v \<Longrightarrow> list_all scalar (json_dumps l v)"
proof (induction l v rule: json_dumps.induct)
  case (3 l x xs)
  then have "y \<in> set xs \<Longrightarrow> list_all scalar (json_dumps (Suc l) y)" for y
    by (simp add: list_all_iff)
  with 3 show ?case by (auto simp: list_all_iff scalar_ascii scalar_newline [unfolded list_all_iff])
next
  case (5 l k v kvs)
  then have "kv \<in> set kvs \<Longrightarrow> list_all scalar (json_dumps (Suc l) (snd kv))" for kv
    by (simp add: list_all_iff)
  moreover have "list_all scalar (json_str (lit k))" for k by (rule scalar_json_str [OF scalar_lit])
  ultimately show ?case
    using 5 by (auto simp: list_all_iff scalar_ascii scalar_newline [unfolded list_all_iff])
qed (simp_all add: scalar_json_str scalar_ascii)

definition encodable_call :: "pycall \<Rightarrow> bool" where
  "encodable_call c \<longleftrightarrow> list_all encodable (posargs c) \<and> list_all (\<lambda>kv. encodable (snd kv)) (kwargs c)"

lemma encodable_value_of:
  assumes "encodable_call c" and "call_ok sig c" and "list_all (\<lambda>kv. encodable (snd kv)) (defaults sig)"
    and "p \<in> set (param_names sig)"
  shows "encodable (value_of sig c p)"
proof (cases "map_of (supplied sig c) p")
  case None
  with assms(2,4) have "p \<in> fst ` set (defaults sig)"
    by (auto simp: call_ok_def param_names_def map_of_eq_None_iff)
  then obtain d where "map_of (defaults sig) p = Some d"
    by (metis map_of_eq_None_iff option.exhaust)
  moreover from this assms(3) have "encodable d" by (force simp: list_all_iff dest: map_of_SomeD)
  ultimately show ?thesis using None by (simp add: value_of_def)
next
  case (Some v)
  then have "(p, v) \<in> set (supplied sig c)" by (rule map_of_SomeD)
  with assms(1) have "encodable v"
    by (auto simp: supplied_def encodable_call_def list_all_iff dest: set_zip_rightD)
  with Some show ?thesis by (simp add: value_of_def)
qed

lemma encodable_layout:
  assumes "encodable_call c" and "call_ok sig_layout c"
  shows "encodable (layout.slide_of c)"
proof -
  have d: "list_all (\<lambda>kv. encodable (snd kv)) (defaults sig_layout)" by (simp add: sig_layout_def)
  have v: "encodable (value_of sig_layout c p)" if "p \<in> set (param_names sig_layout)" for p
    by (rule encodable_value_of [OF assms d that])
  have m: "p \<in> set (param_names sig_layout)"
    if "p \<in> set (core_params @ [''source_path'', ''slide_num'', ''narrative'', ''narrative_en'', ''layout''])"
    for p using that by (simp add: shape_simps)
  have "arg (map (\<lambda>p. (p, value_of sig_layout c p)) (param_names sig_layout)) p =
      value_of sig_layout c p" if "p \<in> set (param_names sig_layout)" for p
    using that by (simp add: arg_def map_of_keys)
  with v m show ?thesis by (simp add: layout.slide_of_def body_layout_def core_params_def)
qed

lemma lab22_encodable: "list_all encodable_call lab22_calls"
  by (simp add: lab22_calls_def lab22_slides lab22_contents encodable_call_def scalar_lit
      lab22_AUTHOR_def lab22_COMMIT_SHA_def lab22_REPO_URL_def lab22_TITLE_ID_def
      lab22_SUBTITLE_ID_def lab22_COVER_IMAGE_PATH_def lab22_LAB_NO_def lab22_SLUG_def str_prefix_def)
    (simp add: scalar_def)

section \<open>The JSON file\<close>

lemma json_no_return: "13 \<notin> set (json_dumps l v)"
  using json_dumps_controls by fastforce

lemma json_file_unique:
  assumes "write_text p (json_dumps 0 v) fs = Inr fs'" and "read_text fs' p = Inr (json_dumps 0 w)"
  shows "w = v"
proof -
  have "read_text fs' p = Inr (json_dumps 0 v)"
    by (rule write_text_read_text [OF assms(1) json_no_return])
  with assms(2) have "json_dumps 0 w @ [] = json_dumps 0 v @ []" by simp
  then show ?thesis by (rule json_dumps_unique [THEN conjunct1])
qed

lemma lab22_saved:
  assumes "lab22_main fs = Inr (fs', out)"
  shows "read_text fs' (path_names lab22_out_path) =
      Inr (json_dumps 0 (lab22_payload (map layout.slide_of lab22_calls)))"
    and "read_text fs' (path_names lab22_out_path) = Inr (json_dumps 0 w) \<Longrightarrow>
      w = lab22_payload (map layout.slide_of lab22_calls)"
    and "q \<noteq> path_names lab22_out_path \<Longrightarrow> fs' q = fs q"
proof -
  let ?v = "lab22_payload (map layout.slide_of lab22_calls)"
  from assms have w: "write_text (path_names lab22_out_path) (json_dumps 0 ?v) fs = Inr fs'"
    by (auto simp: lab22_main_def lab22_load res_bind_Inr_iff)
  show "read_text fs' (path_names lab22_out_path) = Inr (json_dumps 0 ?v)"
    by (rule write_text_read_text [OF w json_no_return])
  show "read_text fs' (path_names lab22_out_path) = Inr (json_dumps 0 w) \<Longrightarrow> w = ?v"
    by (rule json_file_unique [OF w])
  show "q \<noteq> path_names lab22_out_path \<Longrightarrow> fs' q = fs q"
    by (rule write_text_frame [OF w])
qed

lemma lab22_runs:
  assumes "fs (path_names lab22_out_path) \<noteq> Some Folder"
    and "fs (butlast (path_names lab22_out_path)) = Some Folder"
  shows "\<exists>fs' out. lab22_main fs = Inr (fs', out)"
proof -
  have "list_all encodable (map layout.slide_of lab22_calls)"
    using encodable_layout lab22_encodable lab22_calls_ok by (auto simp: list_all_iff)
  then have "encodable (lab22_payload (map layout.slide_of lab22_calls))"
    by (simp add: lab22_payload_def scalar_lit lab22_TITLE_ID_def lab22_SUBTITLE_ID_def
        lab22_TITLE_EN_def lab22_SUBTITLE_EN_def lab22_AUTHOR_def lab22_LAB_NO_def lab22_SLUG_def
        lab22_REPO_URL_def lab22_COMMIT_SHA_def lab22_COVER_IMAGE_PATH_def)
  then have "list_all scalar (json_dumps 0 (lab22_payload (map layout.slide_of lab22_calls)))"
    by (rule scalar_json)
  with assms obtain fs' where "write_text (path_names lab22_out_path)
      (json_dumps 0 (lab22_payload (map layout.slide_of lab22_calls))) fs = Inr fs'"
    using write_text_Inr_iff by blast
  then show ?thesis by (simp add: lab22_main_def lab22_load)
qed

end
