(* ===== verification/Publish37.thy ===== *)
theory Publish37
  imports PyFiles
begin

text \<open>
  The generators of \<^verbatim>\<open>labs/37-cache-invalidation-strategies/generate_and_verify.py\<close>: the
  publication metadata, the caption and the deliverables page, as the texts they write and the
  files they write them to. A text of the source is split into pieces that are concatenated.
\<close>

section \<open>Paths\<close>

definition RESULT_DIR :: path where
  "RESULT_DIR = [lit ''labs'', lit ''37-cache-invalidation-strategies'', lit ''result'']"

section \<open>Medium metadata\<close>

definition md_title :: pystr where
  \<open>md_title = lit ''Strategi Invalidation Cache''\<close>

definition md_subtitle :: pystr where
  \<open>md_subtitle = lit ''Pola Write, Mitigasi Stampede, dan Jitter '' @ lit ''TTL dalam Go''\<close>

definition md_seo_title :: pystr where
  \<open>md_seo_title = lit ''Strategi Invalidation Cache: Pola Write, '' @ lit ''Stampede, Jitter''\<close>

definition md_seo_desc :: pystr where
  \<open>md_seo_desc = lit ''Pelajari cache invalidation strategies '' @
    lit ''(Cache-Aside, Write-Through, Write-Behind, '' @
    lit ''Singleflight, XFetch, SWR, TTL Jitter) '' @ lit ''dalam Go.''\<close>

definition md_slug :: pystr where
  \<open>md_slug = lit ''cache-invalidation-strategies''\<close>

definition md_alt_text :: pystr where
  \<open>md_alt_text = lit ''Cover image for Lab 37 Cache Invalidation '' @ lit ''Strategies''\<close>

definition md_social_title :: pystr where
  \<open>md_social_title = lit ''Strategi Invalidation Cache: Pola Write, '' @ lit ''Stampede, Jitter''\<close>

definition md_social_desc :: pystr where
  \<open>md_social_desc = lit ''Pola write patterns, stampede mitigations, '' @
    lit ''dan TTL jitter dalam Go. Lihat contoh '' @ lit ''konkret, test, dan tradeoff.''\<close>

definition md_tags :: "pystr list" where
  \<open>md_tags = [lit ''cache'', lit ''golang'', lit ''performance'', lit ''stampede'', lit ''systemdesign'']\<close>

definition metadata_content :: pystr where
  \<open>metadata_content =
    lit ''# Metadata Publikasi Medium '' @ [0x2014] @ lit '' Lab 37'' @ [10, 10] @
    lit ''## Identitas Artikel'' @ [10] @ lit ''- **Title**: '' @ md_title @ [10] @
    lit ''  *(Panjang: '' @ str_of_nat (length md_title) @ lit '' karakter)*'' @ [10] @
    lit ''- **Subtitle**: '' @ md_subtitle @ [10] @ lit ''  *(Panjang: '' @
    str_of_nat (length md_subtitle) @ lit '' karakter)*'' @ [10] @
    lit ''- **Proposed Slug**: '' @ [96] @ md_slug @ [96, 10] @ lit ''  *(Panjang: '' @
    str_of_nat (length md_slug) @ lit '' karakter)*'' @ [10, 10] @
    lit ''## Konfigurasi SEO'' @ [10] @ lit ''- **SEO Title**: '' @ md_seo_title @ [10] @
    lit ''  *(Panjang: '' @ str_of_nat (length md_seo_title) @ lit '' karakter '' @
    [0x2014] @ lit '' batas maksimal 60 karakter)*'' @ [10] @
    lit ''- **SEO Description**: '' @ md_seo_desc @ [10] @ lit ''  *(Panjang: '' @
    str_of_nat (length md_seo_desc) @ lit '' karakter '' @ [0x2014] @
    lit '' target rekomendasi 140'' @ [0x2013] @ lit ''156 karakter)*'' @ [10, 10] @
    lit ''## Media & Visual'' @ [10] @ lit ''- **Cover Image**: '' @ [96] @
    lit ''image-cover/lab-37-cache-invalidation-strate'' @ lit ''gies-cover-id.png'' @
    [96, 10] @ lit ''- **Alt Text Cover**: '' @ md_alt_text @ [10] @ lit ''  *(Panjang: '' @
    str_of_nat (length md_alt_text) @ lit '' karakter)*'' @ [10, 10] @
    lit ''## Konfigurasi Sosial Media'' @ [10] @ lit ''- **Social Title**: '' @
    md_social_title @ [10] @ lit ''  *(Panjang: '' @ str_of_nat (length md_social_title) @
    lit '' karakter)*'' @ [10] @ lit ''- **Social Description**: '' @ md_social_desc @
    [10] @ lit ''  *(Panjang: '' @ str_of_nat (length md_social_desc) @
    lit '' karakter)*'' @ [10, 10] @ lit ''## Klasifikasi Topik (Tepat 5 Tags)'' @ [10] @
    lit ''1. '' @ [96] @ md_tags ! 0 @ [96, 10] @ lit ''2. '' @ [96] @ md_tags ! 1 @
    [96, 10] @ lit ''3. '' @ [96] @ md_tags ! 2 @ [96, 10] @ lit ''4. '' @ [96] @
    md_tags ! 3 @ [96, 10] @ lit ''5. '' @ [96] @ md_tags ! 4 @ [96, 10, 10] @
    lit ''## Verifikasi Karakter & Field'' @ [10] @ lit ''- Title: '' @
    str_of_nat (length md_title) @ lit '' karakter'' @ [10] @ lit ''- Subtitle: '' @
    str_of_nat (length md_subtitle) @ lit '' karakter'' @ [10] @ lit ''- SEO Title: '' @
    str_of_nat (length md_seo_title) @ lit '' karakter (valid <= 60)'' @ [10] @
    lit ''- SEO Description: '' @ str_of_nat (length md_seo_desc) @
    lit '' karakter (target 140-156)'' @ [10] @ lit ''- Proposed Slug: '' @
    str_of_nat (length md_slug) @ lit '' karakter'' @ [10] @ lit ''- Alt Text Cover: '' @
    str_of_nat (length md_alt_text) @ lit '' karakter'' @ [10] @ lit ''- Social Title: '' @
    str_of_nat (length md_social_title) @ lit '' karakter'' @ [10] @
    lit ''- Social Description: '' @ str_of_nat (length md_social_desc) @
    lit '' karakter'' @ [10] @ lit ''- Jumlah Tag: Tepat '' @ str_of_nat (length md_tags) @
    lit '' tags (valid)'' @ [10]\<close>

definition metadata_path :: path where
  \<open>metadata_path = RESULT_DIR @ [lit ''medium'', lit ''lab-37-cache-invalidation-strategies-metadat'' @ lit ''a.md'']\<close>

definition generate_medium_metadata :: "fsys \<Rightarrow> (pyexc, fsys \<times> path) res" where
  "generate_medium_metadata fs =
     res_bind (mkdir_parents (butlast metadata_path) fs) (\<lambda>fs1.
     res_bind (write_text metadata_path metadata_content fs1) (\<lambda>fs2.
       Inr (fs2, metadata_path)))"

section \<open>LinkedIn caption\<close>

definition caption :: pystr where
  \<open>caption =
    lit ''Lab 37 kali ini membahas strategi cache '' @
    lit ''invalidation dalam sistem terdistribusi, '' @
    lit ''dengan fokus pada pola write, mitigasi '' @
    lit ''stampede, dan teknik TTL jitter dalam '' @ lit ''implementasi Go.'' @ [10, 10] @
    lit ''Cache invalidation adalah salah satu dilema '' @
    lit ''terbesar dalam arsitektur sistem '' @
    lit ''terdistribusi skala tinggi. Tanpa mekanisme '' @
    lit ''yang disiplin dan terukur, sistem akan '' @
    lit ''menghadapi tiga masalah konkret yang fatal:'' @ [10, 0x2022] @
    lit '' Cache stampede: Ribuan request konkuren '' @
    lit ''membanjiri database secara serentak saat '' @
    lit ''kunci populer kedaluwarsa mendadak'' @ [10, 0x2022] @
    lit '' Stale data: Goroutine pembaca menerima '' @
    lit ''data usang karena inkonsistensi jeda waktu '' @
    lit ''antara penulisan database dan pembaruan '' @ lit ''cache'' @ [10, 0x2022] @
    lit '' Risiko kehilangan data: Pilihan throughput '' @
    lit ''ekstrem pada Write-Behind mengorbankan '' @
    lit ''durabilitas saat antrean memory overflow '' @ lit ''atau proses crash'' @
    [10, 10] @ lit ''Eksperimen Go standard library pada lab ini '' @
    lit ''membuktikan implementasi native:'' @ [10, 0x2022] @
    lit '' Cache-Aside meminimalkan penggunaan memori '' @
    lit ''namun rentan terhadap race condition '' @ lit ''pembacaan usang'' @ [10, 0x2022] @
    lit '' Write-Through menjamin konsistensi '' @
    lit ''read-after-write sinkron dengan kompromi '' @ lit ''kenaikan latensi penulisan'' @
    [10, 0x2022] @ lit '' Write-Behind mengalirkan mutasi asinkron '' @
    lit ''ke worker latar belakang dengan throughput '' @ lit ''tinggi'' @ [10, 0x2022] @
    lit '' Singleflight memadatkan 20 request '' @
    lit ''konkuren menjadi tepat 1 query database '' @ lit ''tunggal'' @ [10, 0x2022] @
    lit '' XFetch menggeser titik rebuild proaktif '' @
    lit ''secara probabilistik sebelum batas waktu '' @ lit ''kedaluwarsa'' @ [10, 0x2022] @
    lit '' Stale-While-Revalidate menyajikan data '' @
    lit ''usang seketika sambil merevalidasi kunci di '' @ lit ''latar belakang'' @
    [10, 0x2022] @ lit '' TTL Jitter mengacak rentang waktu '' @
    lit ''kedaluwarsa untuk mengeliminasi lonjakan '' @ lit ''serentak'' @ [10, 10] @
    lit ''Mental model: Cache invalidation is the '' @
    lit ''hardest problem because consistency is '' @ lit ''eventual, never instant.'' @
    [10, 10] @ lit ''Batasan implementasi utama: Seluruh '' @
    lit ''simulasi menggunakan memory cache dan '' @
    lit ''MockDB Go murni tanpa Redis atau PostgreSQL '' @ lit ''persisten eksternal.'' @
    [10, 10] @ lit ''Pelajari kode lengkap dan pengujian di:'' @ [10] @
    lit ''https://github.com/lukman-ss/software-engine'' @
    lit ''ering-lab/tree/main/labs/37-cache-invalidati'' @ lit ''on-strategies'' @
    [10, 10] @ lit ''#softwareengineering #golang #systemdesign '' @
    lit ''#distributed #performance #caching''\<close>

definition caption_path :: path where
  \<open>caption_path = RESULT_DIR @ [lit ''linkedin'', lit ''lab-37-cache-invalidation-strategies-caption'' @ lit ''.md'']\<close>

definition generate_linkedin_caption :: "fsys \<Rightarrow> (pyexc, fsys \<times> path \<times> pystr) res" where
  "generate_linkedin_caption fs =
     res_bind (mkdir_parents (butlast caption_path) fs) (\<lambda>fs1.
     res_bind (write_text caption_path caption fs1) (\<lambda>fs2.
       Inr (fs2, caption_path, caption)))"

section \<open>Deliverables page\<close>

definition deliverables_head :: pystr where
  \<open>deliverables_head =
    lit ''# Deliverables Rekapitulasi: Lab 37 '' @ [0x2014] @
    lit '' Cache Invalidation Strategies'' @ [10, 10] @
    lit ''Paket deliverable publikasi lengkap untuk '' @
    lit ''**Software Engineering Lab 37: Cache '' @ lit ''Invalidation Strategies '' @
    [0x2014] @ lit '' Pola Write, Mitigasi Stampede, dan Jitter '' @
    lit ''TTL dalam Go** oleh **Lukman / lukman-ss**.'' @ [10, 10] @ lit ''---'' @
    [10, 10] @ lit ''## Tabel Unduhan & Berkas Publikasi'' @ [10, 10] @
    lit ''| No | Tipe Deliverable | File Output | '' @
    lit ''Status / Ukuran | Deskripsi |'' @ [10] @
    lit ''| :---: | :--- | :--- | :--- | :--- |'' @ [10] @
    lit ''| **0** | **Python Definition** | ['' @ [96] @ lit ''result/content_def.py'' @
    [96] @ lit ''](content_def.py) | 59.4 KB (848 baris) | '' @
    lit ''Definisi 24 slide, konstanta warna, '' @
    lit ''metadata, dan mental model (DILARANG '' @ lit ''DIHAPUS) |'' @ [10] @
    lit ''| **1** | **Dev.to Article** | ['' @ [96] @
    lit ''result/dev.to/lab-37-cache-invalidation-stra'' @ lit ''tegies-devto.md'' @ [96] @
    lit ''](dev.to/lab-37-cache-invalidation-strategie'' @
    lit ''s-devto.md) | ~15.4 KB (2.115 kata) | '' @
    lit ''Artikel teknis Bahasa Inggris lengkap '' @
    lit ''dengan frontmatter dan 22 subbagian |'' @ [10] @
    lit ''| **2** | **Medium Article** | ['' @ [96] @
    lit ''result/medium/lab-37-cache-invalidation-stra'' @ lit ''tegies-medium.html'' @
    [96] @ lit ''](medium/lab-37-cache-invalidation-strategie'' @
    lit ''s-medium.html) | ~23.4 KB (2.543 kata) | '' @
    lit ''Standalone HTML Bahasa Indonesia dengan 22 '' @
    lit ''section dan styling Georgia/Code |'' @ [10] @
    lit ''| **3** | **Medium Metadata** | ['' @ [96] @
    lit ''result/medium/lab-37-cache-invalidation-stra'' @ lit ''tegies-metadata.md'' @
    [96] @ lit ''](medium/lab-37-cache-invalidation-strategie'' @
    lit ''s-metadata.md) | Markdown | Metadata SEO, '' @
    lit ''slug, social title, dan 5 tags Medium |'' @ [10] @
    lit ''| **4** | **Cover Image (ID)**| ['' @ [96] @
    lit ''result/image-cover/lab-37-cache-invalidation'' @
    lit ''-strategies-cover-id.png'' @ [96] @
    lit ''](image-cover/lab-37-cache-invalidation-stra'' @
    lit ''tegies-cover-id.png) | 751 KB (1920x1080) | '' @
    lit ''Cover monitor CRT retro pixel-art dengan '' @
    lit ''subtitle Bahasa Indonesia |'' @ [10] @ lit ''| **5** | **Cover Image (EN)**| ['' @
    [96] @ lit ''result/image-cover/lab-37-cache-invalidation'' @
    lit ''-strategies-cover-en.png'' @ [96] @
    lit ''](image-cover/lab-37-cache-invalidation-stra'' @
    lit ''tegies-cover-en.png) | 754 KB (1920x1080) | '' @
    lit ''Cover monitor CRT retro pixel-art dengan '' @ lit ''subtitle Bahasa Inggris |'' @
    [10] @ lit ''| **6** | **LinkedIn PDF** | ['' @ [96] @
    lit ''result/linkedin/lab-37-cache-invalidation-st'' @ lit ''rategies-linkedin.pdf'' @
    [96] @ lit ''](linkedin/lab-37-cache-invalidation-strateg'' @
    lit ''ies-linkedin.pdf) | 1.171 KB (24 slide) | '' @
    lit ''Carousel dokumen PDF 16:9 24 halaman (Cover '' @
    lit ''Dark Navy, 22 Editorial Cream, Closing Dark '' @ lit ''Navy) |'' @ [10] @
    lit ''| **7** | **LinkedIn PPTX** | ['' @ [96] @
    lit ''result/linkedin/lab-37-cache-invalidation-st'' @ lit ''rategies-carousel.pptx'' @
    [96] @ lit ''](linkedin/lab-37-cache-invalidation-strateg'' @
    lit ''ies-carousel.pptx) | 119 KB (24 slide) | '' @
    lit ''File presentasi PowerPoint 24 slide dengan '' @
    lit ''layout 16:9 dan Speaker Notes |'' @ [10] @
    lit ''| **8** | **LinkedIn Caption**| ['' @ [96] @
    lit ''result/linkedin/lab-37-cache-invalidation-st'' @ lit ''rategies-caption.md'' @
    [96] @ lit ''](linkedin/lab-37-cache-invalidation-strateg'' @
    lit ''ies-caption.md) | 240 kata | Teks caption '' @
    lit ''LinkedIn tanpa bold markdown siap salin |'' @ [10, 10] @ lit ''---'' @ [10, 10] @
    lit ''## Verifikasi Kualitas & Catatan Teknis'' @ [10, 10] @
    lit ''1. **Commit Snapshot**: '' @ [96] @ lit ''eac3d80a'' @ [96, 10] @
    lit ''2. **Status Pengujian**:'' @ [10] @ lit ''   - '' @ [96] @
    lit ''go test -v ./...'' @ [96] @ lit '' -> 16 passing tests (race-clean verified)'' @
    [10] @ lit ''   - '' @ [96] @ lit ''go test -race ./...'' @ [96] @
    lit '' -> PASS (Race-Clean Verified Go 1.22, 0 '' @ lit ''data races)'' @ [10] @
    lit ''   - '' @ [96] @ lit ''go run ./cmd/demo'' @ [96] @
    lit '' -> Simulasi seluruh pola (Cache-Aside, '' @
    lit ''Write-Through, Write-Behind, Singleflight, '' @
    lit ''XFetch, SWR, TTL Jitter) berjalan sukses'' @ [10] @
    lit ''3. **Batas Implementasi Utama**:'' @ [10] @
    lit ''   - Seluruh modul menggunakan simulasi '' @
    lit ''in-memory cache dan MockDB Go murni, bukan '' @
    lit ''cluster Redis atau database PostgreSQL '' @ lit ''nyata.'' @ [10] @
    lit ''   - Buffer antrean Write-Behind '' @
    lit ''menggunakan channel Go in-memory; crash '' @
    lit ''pada proses menyebabkan data yang belum '' @
    lit ''di-flush hilang (sistem produksi memerlukan '' @ lit ''durable WAL / Kafka).'' @
    [10] @ lit ''   - Singleflight beroperasi pada level '' @
    lit ''single process/node; sistem multi-pod '' @
    lit ''membutuhkan distributed locking (misal '' @ lit ''Redis Redlock / SETNX).'' @
    [10, 10] @ lit ''---'' @ [10, 10] @ lit ''## Salinan Teks Caption LinkedIn'' @
    [10, 10, 96, 96, 96] @ lit ''text'' @ [10]\<close>

definition deliverables_content :: "pystr \<Rightarrow> pystr" where
  \<open>deliverables_content caption_text =
    deliverables_head @ caption_text @ [10, 96, 96, 96, 10]\<close>

definition deliverables_path :: path where
  \<open>deliverables_path = RESULT_DIR @ [lit ''DELIVERABLES.md'']\<close>

definition generate_deliverables_md :: "pystr \<Rightarrow> fsys \<Rightarrow> (pyexc, fsys \<times> path) res" where
  "generate_deliverables_md caption_text fs =
     res_bind (write_text deliverables_path (deliverables_content caption_text) fs) (\<lambda>fs1.
       Inr (fs1, deliverables_path))"

section \<open>The texts\<close>

text \<open>The values a publishing form checks, computed.\<close>

lemmas md_defs = md_title_def md_subtitle_def md_seo_title_def md_seo_desc_def md_slug_def
  md_alt_text_def md_social_title_def md_social_desc_def md_tags_def

lemma md_lengths:
  "length md_title = 27" "length md_subtitle = 54" "length md_seo_title = 57"
  "length md_seo_desc = 130" "length md_slug = 29" "length md_alt_text = 52"
  "length md_social_title = 57" "length md_social_desc = 109" "length md_tags = 5"
  by (simp_all add: md_defs length_lit)

text \<open>
  Counting words in one pass over the pieces: whether a word is open, and how many have begun.
\<close>

fun scan_words :: "bool \<times> nat \<Rightarrow> pystr \<Rightarrow> bool \<times> nat" where
  "scan_words st [] = st"
| "scan_words (inside, n) (c # s) =
     (if is_space c then scan_words (False, n) s
      else scan_words (True, if inside then n else Suc n) s)"

lemma scan_words_append: "scan_words st (s @ t) = scan_words (scan_words st s) t"
  by (induction st s rule: scan_words.induct) auto

lemma scan_words_inside:
  "list_all (\<lambda>c. \<not> is_space c) w \<Longrightarrow> scan_words (True, n) w = (True, n)"
  by (induction w) auto

lemma scan_words_split: "snd (scan_words (False, n) s) = n + length (split_words s)"
proof (induction s arbitrary: n rule: split_words.induct)
  case (1 s)
  let ?t = "dropWhile is_space s"
  let ?w = "takeWhile (\<lambda>c. \<not> is_space c) ?t" and ?r = "dropWhile (\<lambda>c. \<not> is_space c) ?t"
  have blank: "scan_words (False, n) s = scan_words (False, n) ?t" by (induction s) auto
  show ?case
  proof (cases "?t = []")
    case True
    then show ?thesis unfolding blank split_words_blank [OF True] by (simp only: True) simp
  next
    case False
    then obtain c w where w: "?w = c # w" and c: "\<not> is_space c"
      using hd_dropWhile [of is_space s] by (cases ?t) auto
    have "list_all (\<lambda>c. \<not> is_space c) ?w" by (auto simp: list_all_iff dest: set_takeWhileD)
    then have "scan_words (False, n) ?w = (True, Suc n)" unfolding w by (simp add: scan_words_inside)
    then have "snd (scan_words (False, n) ?t) = snd (scan_words (True, Suc n) ?r)"
      using scan_words_append [of "(False, n)" ?w ?r] by simp
    also have "\<dots> = snd (scan_words (False, Suc n) ?r)"
    proof (cases ?r)
      case (Cons d r)
      then have "is_space d" using hd_dropWhile [of "\<lambda>c. \<not> is_space c" ?t] by auto
      then show ?thesis unfolding Cons by simp
    next
      case Nil
      then show ?thesis by (simp only: scan_words.simps snd_conv)
    qed
    finally show ?thesis
      using "1.IH" [OF refl False, of "Suc n"] blank unfolding split_words_eq [OF refl False] by simp
  qed
qed

definition blank_char :: "char \<Rightarrow> bool" where
  "blank_char c \<longleftrightarrow> is_space (of_char c)"

lemma blank_char_Char:
  "blank_char (Char b0 b1 b2 b3 b4 b5 b6 b7) \<longleftrightarrow>
     \<not> b6 \<and>
     (if b7 then \<not> b4 \<and> \<not> b3 \<and> \<not> b1 \<and> (if b5 then \<not> b2 \<and> \<not> b0 else b2 \<and> b0)
      else if b5 then \<not> b4 \<and> \<not> b3 \<and> \<not> b2 \<and> \<not> b1 \<and> \<not> b0
      else b3 \<and> (if b4 then b2 else \<not> (b2 \<and> b1) \<and> (b2 \<or> b1 \<or> b0)))"
  by (cases b0; cases b1; cases b2; cases b3; cases b4; cases b5; cases b6; cases b7)
    (simp_all add: is_space_def blank_char_def)

lemma scan_words_lit:
  "scan_words st (lit []) = st"
  "scan_words (i, n) (lit (c # cs)) =
     (if blank_char c then scan_words (False, n) (lit cs)
      else scan_words (True, if i then n else n + 1) (lit cs))"
  by (simp_all add: lit_simps blank_char_def)

lemma is_space_codes: "\<not> is_space 0x2022" "is_space 10" "\<not> is_space 126"
  by (simp_all add: is_space_def)

lemma caption_word_count: "length (split_words caption) = 240"
proof -
  have "scan_words (False, 0) caption = (True, 240)"
    unfolding caption_def
    by (simp only: scan_words_append)
      (simp add: scan_words_lit blank_char_Char is_space_codes)
  then show ?thesis using scan_words_split [of 0 caption] by simp
qed

text \<open>
  A text that goes through a file and comes back as it was: encodable, and without a carriage
  return for universal newlines to translate.
\<close>

definition clean :: "pystr \<Rightarrow> bool" where
  "clean s \<longleftrightarrow> list_all (\<lambda>c. scalar c \<and> c \<noteq> 13) s"

lemma clean_append: "clean (s @ t) \<longleftrightarrow> clean s \<and> clean t"
  by (simp add: clean_def)

lemma clean_parts: "clean s \<Longrightarrow> list_all scalar s" "clean s \<Longrightarrow> 13 \<notin> set s"
  by (auto simp: clean_def list_all_iff)

lemma clean_lit:
  "clean (lit [])"
  "clean (lit (c # cs)) \<longleftrightarrow> c \<noteq> CHR 0x0D \<and> clean (lit cs)"
proof -
  have "(of_char c :: nat) = of_char c mod 256"
    using of_char_of [of "of_char c :: nat"] by simp
  then have "(of_char c :: nat) < 256" using mod_less_divisor [of 256 "of_char c :: nat"] by linarith
  then have "scalar (of_char c)" unfolding scalar_def by linarith
  moreover have "(of_char c :: nat) = 13 \<longleftrightarrow> c = CHR 0x0D"
    using of_char_eq_iff [of c "CHR 0x0D", where ?'a = nat] by simp
  ultimately show "clean (lit (c # cs)) \<longleftrightarrow> c \<noteq> CHR 0x0D \<and> clean (lit cs)"
    by (simp add: clean_def lit_simps)
qed (simp add: clean_def)

lemma clean_code: "clean [] = True" "clean (c # s) = (scalar c \<and> c \<noteq> 13 \<and> clean s)"
  by (simp_all add: clean_def)

lemma clean_str_of_nat: "clean (str_of_nat n)"
  using str_of_nat_digits [of n] by (fastforce simp: clean_def list_all_iff scalar_def)

lemma clean_caption: "clean caption"
  unfolding caption_def by (simp only: clean_append) (simp add: clean_lit clean_code scalar_def)

lemma clean_deliverables: "clean (deliverables_content s) \<longleftrightarrow> clean s"
  unfolding deliverables_content_def deliverables_head_def
  by (simp only: clean_append) (simp add: clean_lit clean_code scalar_def)

lemma clean_metadata: "clean metadata_content"
proof -
  have "clean md_title" "clean md_subtitle" "clean md_seo_title" "clean md_seo_desc" "clean md_slug"
    "clean md_alt_text" "clean md_social_title" "clean md_social_desc"
    unfolding md_defs clean_append by (simp_all add: clean_lit clean_code)
  moreover have "clean (md_tags ! 0)" "clean (md_tags ! 1)" "clean (md_tags ! 2)"
    "clean (md_tags ! 3)" "clean (md_tags ! 4)"
    unfolding md_tags_def by (simp_all add: clean_lit clean_code)
  ultimately show ?thesis
    unfolding metadata_content_def
    by (simp only: clean_append clean_str_of_nat simp_thms)
      (simp add: clean_lit clean_code scalar_def)
qed

section \<open>The three files\<close>

text \<open>
  \<open>main()\<close> up to the gates: the three texts in the order they are written, with the lines
  printed for them; a path is printed with slashes.
\<close>

definition show_path :: "path \<Rightarrow> pystr" where
  "show_path p = py_join (lit ''/'') p"

definition generate_all :: "fsys \<Rightarrow> (pyexc, fsys \<times> pystr list) res" where
  "generate_all fs =
     res_bind (generate_medium_metadata fs) (\<lambda>(fs1, p1).
     res_bind (generate_linkedin_caption fs1) (\<lambda>(fs2, p2, cap).
     res_bind (generate_deliverables_md cap fs2) (\<lambda>(fs3, p3).
       Inr (fs3,
         [lit ''Generating deliverables for Lab 37...'',
          lit ''Generated Medium Metadata: '' @ show_path p1,
          lit ''Generated LinkedIn Caption: '' @ show_path p2,
          lit ''Generated DELIVERABLES.md: '' @ show_path p3]))))"

lemmas path_defs = metadata_path_def caption_path_def deliverables_path_def RESULT_DIR_def

lemma paths_distinct:
  "metadata_path \<noteq> caption_path" "metadata_path \<noteq> deliverables_path"
  "caption_path \<noteq> deliverables_path" "metadata_path \<noteq> []" "caption_path \<noteq> []"
  "deliverables_path \<noteq> []"
  by (simp_all add: path_defs inj_lit)

definition output_paths :: "path list" where
  "output_paths = [metadata_path, caption_path, deliverables_path]"

lemma generate_all_Inr:
  assumes "generate_all fs = Inr (fs', out)"
  obtains fs1 fs2 fs3 fs4 where
    "mkdir_parents (butlast metadata_path) fs = Inr fs1"
    "write_text metadata_path metadata_content fs1 = Inr fs2"
    "mkdir_parents (butlast caption_path) fs2 = Inr fs3"
    "write_text caption_path caption fs3 = Inr fs4"
    "write_text deliverables_path (deliverables_content caption) fs4 = Inr fs'"
  using assms
  by (auto simp: generate_all_def generate_medium_metadata_def generate_linkedin_caption_def
      generate_deliverables_md_def res_bind_Inr_iff)

lemma generated_files:
  assumes "generate_all fs = Inr (fs', out)"
  shows "read_text fs' metadata_path = Inr metadata_content"
    and "read_text fs' caption_path = Inr caption"
    and "read_text fs' deliverables_path = Inr (deliverables_content caption)"
proof -
  obtain fs1 fs2 fs3 fs4 where
      w1: "write_text metadata_path metadata_content fs1 = Inr fs2"
    and m2: "mkdir_parents (butlast caption_path) fs2 = Inr fs3"
    and w2: "write_text caption_path caption fs3 = Inr fs4"
    and w3: "write_text deliverables_path (deliverables_content caption) fs4 = Inr fs'"
    using assms by (rule generate_all_Inr) blast
  from w3 clean_parts(2) clean_deliverables clean_caption
  show "read_text fs' deliverables_path = Inr (deliverables_content caption)"
    by (blast intro: write_text_read_text)
  have "read_text fs4 caption_path = Inr caption"
    by (rule write_text_read_text [OF w2 clean_parts(2) [OF clean_caption]])
  moreover have "fs' caption_path = fs4 caption_path"
    using w3 paths_distinct by (blast intro: write_text_frame)
  ultimately show "read_text fs' caption_path = Inr caption" using read_text_cong by metis
  have "read_text fs2 metadata_path = Inr metadata_content"
    by (rule write_text_read_text [OF w1 clean_parts(2) [OF clean_metadata]])
  moreover have "fs3 metadata_path = fs2 metadata_path"
    using m2 w1 make_dirs_frame [of "[]" _ fs2 fs3 metadata_path]
    by (simp add: mkdir_parents_def write_text_Inr_iff)
  moreover have "fs' metadata_path = fs3 metadata_path"
    using w2 w3 paths_distinct write_text_frame by metis
  ultimately show "read_text fs' metadata_path = Inr metadata_content"
    using read_text_cong by metis
qed

lemma generated_frame:
  assumes "generate_all fs = Inr (fs', out)" and "q \<notin> set output_paths"
  shows "fs' q = fs q \<or> (fs q = None \<and> fs' q = Some Folder)"
proof -
  obtain fs1 fs2 fs3 fs4 where
      m1: "mkdir_parents (butlast metadata_path) fs = Inr fs1"
    and w1: "write_text metadata_path metadata_content fs1 = Inr fs2"
    and m2: "mkdir_parents (butlast caption_path) fs2 = Inr fs3"
    and w2: "write_text caption_path caption fs3 = Inr fs4"
    and w3: "write_text deliverables_path (deliverables_content caption) fs4 = Inr fs'"
    using assms(1) by (rule generate_all_Inr) blast
  have "fs' q = fs3 q" "fs2 q = fs1 q"
    using w1 w2 w3 assms(2) by (auto simp: output_paths_def write_text_Inr_iff)
  with m1 m2 show ?thesis
    unfolding mkdir_parents_def by (metis make_dirs_frame make_dirs_new)
qed

lemma generated_wf: "generate_all fs = Inr (fs', out) \<Longrightarrow> wf_fs fs \<Longrightarrow> wf_fs fs'"
  by (erule generate_all_Inr)
    (metis make_dirs_wf mkdir_parents_def paths_distinct(4-6) wf_fs_def write_text_wf)

section \<open>Properties\<close>

text \<open>
  C36. A run of the generators leaves three files that read back as the texts generated; every
  other path is as it was, or is a folder that was not there before; and the file system stays
  well-formed.
\<close>

theorem generators_write_their_texts:
  assumes "generate_all fs = Inr (fs', out)" and "wf_fs fs"
  shows "read_text fs' metadata_path = Inr metadata_content \<and>
    read_text fs' caption_path = Inr caption \<and>
    read_text fs' deliverables_path = Inr (deliverables_content caption) \<and>
    (q \<notin> set output_paths \<longrightarrow> fs' q = fs q \<or> fs q = None \<and> fs' q = Some Folder) \<and> wf_fs fs'"
  using generated_files [OF assms(1)] generated_frame [OF assms(1)] generated_wf [OF assms] by blast

theorem generators_write_their_texts_witness:
  "\<exists>fs' out. generate_all [[] \<mapsto> Folder] = Inr (fs', out) \<and> read_text fs' caption_path = Inr caption"
proof -
  have wf: "wf_fs [[] \<mapsto> Folder]" by (simp add: wf_fs_def)
  have "list_all scalar metadata_content" "list_all scalar caption"
    "list_all scalar (deliverables_content caption)"
    using clean_parts(1) clean_metadata clean_caption clean_deliverables by blast+
  then obtain fs' out where "generate_all [[] \<mapsto> Folder] = Inr (fs', out)"
    by (simp add: generate_all_def generate_medium_metadata_def generate_linkedin_caption_def
        generate_deliverables_md_def mkdir_parents_def path_defs inj_lit write_text_def
        write_bytes_def utf8_encode_def lit_append [symmetric])
  with generators_write_their_texts [OF this wf] show ?thesis by blast
qed

text \<open>
  The figures the generated pages state: the SEO title keeps to the limit of 60 characters
  that the metadata page names, there are five tags, the caption has the 240 words that the
  deliverables page names, and the page repeats the caption; but the SEO description has 130
  characters, below the 140 to 156 that the page names as its target.
\<close>

lemma publication_figures:
  "length md_seo_title \<le> 60 \<and> length md_tags = 5 \<and> length (split_words caption) = 240 \<and>
   (\<exists>before after. deliverables_content caption = before @ caption @ after) \<and>
   length md_seo_desc = 130 \<and> 130 < (140::nat)"
  using md_lengths caption_word_count by (auto simp: deliverables_content_def)

end
