(* ===== verification/PyMatch.thy ===== *)
theory PyMatch
  imports PyText
begin

text \<open>
  Searching and matching in \<open>generate_and_verify.py\<close>: \<open>find\<close>, \<open>count\<close>, slices, and one function
  per regular expression. In every expression used, the repeated class and the literal after it
  have no character in common, so a greedy repetition never has to give characters back and the
  match at a position is unique; the functions below compute it, and scan on after it.
\<close>

section \<open>Substrings\<close>

definition starts_with :: "nat list \<Rightarrow> nat list \<Rightarrow> bool" where
  "starts_with p s \<longleftrightarrow> take (length p) s = p"

fun find_sub :: "nat list \<Rightarrow> nat list \<Rightarrow> nat option" where
  "find_sub p [] = (if p = [] then Some 0 else None)"
| "find_sub p (c # s) = (if starts_with p (c # s) then Some 0 else map_option Suc (find_sub p s))"

text \<open>\<open>s.find(p)\<close> is -1 when there is no occurrence, and \<open>s[:-1]\<close> drops the last character.\<close>

definition py_find :: "nat list \<Rightarrow> nat list \<Rightarrow> int" where
  "py_find p s = (case find_sub p s of None \<Rightarrow> - 1 | Some i \<Rightarrow> int i)"

definition slice_to :: "int \<Rightarrow> nat list \<Rightarrow> nat list" where
  "slice_to i s = (if 0 \<le> i then take (nat i) s else take (length s - nat (- i)) s)"

definition contains :: "nat list \<Rightarrow> nat list \<Rightarrow> bool" where
  "contains p s \<longleftrightarrow> find_sub p s \<noteq> None"

text \<open>\<open>s.count(p)\<close> for a non-empty \<open>p\<close>: occurrences that do not overlap, from the left.\<close>

function count_sub :: "nat list \<Rightarrow> nat list \<Rightarrow> nat" where
  "count_sub p [] = 0"
| "count_sub p (c # s) =
     (if p \<noteq> [] \<and> starts_with p (c # s) then Suc (count_sub p (drop (length p) (c # s)))
      else count_sub p s)"
  by pat_completeness auto
termination by (relation "measure (length \<circ> snd)") (auto simp: length_greater_0_conv)

lemma starts_with_iff: "starts_with p s \<longleftrightarrow> (\<exists>r. s = p @ r)"
  unfolding starts_with_def by (metis append_eq_conv_conj append_take_drop_id)

lemma find_sub_Some: "find_sub p s = Some i \<Longrightarrow> \<exists>a b. s = a @ p @ b \<and> length a = i"
proof (induction s arbitrary: i)
  case Nil
  then show ?case by (simp split: if_splits)
next
  case (Cons c s)
  show ?case
  proof (cases "starts_with p (c # s)")
    case True
    with Cons.prems show ?thesis by (auto simp: starts_with_iff)
  next
    case False
    with Cons.prems obtain j where j: "find_sub p s = Some j" "i = Suc j" by auto
    from Cons.IH [OF j(1)] obtain a b where "s = a @ p @ b" "length a = j" by blast
    with j(2) have "c # s = (c # a) @ p @ b \<and> length (c # a) = i" by simp
    then show ?thesis by blast
  qed
qed

lemma find_sub_first:
  "find_sub p s = Some i \<Longrightarrow> s = a @ p @ b \<Longrightarrow> i \<le> length a"
proof (induction s arbitrary: i a)
  case Nil
  then show ?case by (simp split: if_splits)
next
  case (Cons c s)
  show ?case
  proof (cases "starts_with p (c # s)")
    case True
    with Cons.prems(1) show ?thesis by simp
  next
    case False
    with Cons.prems(1) obtain j where j: "find_sub p s = Some j" "i = Suc j" by auto
    from False Cons.prems(2) have "a \<noteq> []" by (auto simp: starts_with_iff)
    with Cons.prems(2) obtain a' where a: "a = c # a'" "s = a' @ p @ b" by (cases a) auto
    from Cons.IH [OF j(1) a(2)] j(2) a(1) show ?thesis by simp
  qed
qed

lemma find_sub_None: "find_sub p s = None \<longleftrightarrow> (\<nexists>a b. s = a @ p @ b)"
proof (induction s)
  case Nil
  then show ?case by simp
next
  case (Cons c s)
  have "(\<exists>a b. c # s = a @ p @ b) \<longleftrightarrow> starts_with p (c # s) \<or> (\<exists>a b. s = a @ p @ b)"
    by (auto simp: starts_with_iff Cons_eq_append_conv)
  with Cons.IH show ?case by simp
qed

lemma contains_iff: "contains p s \<longleftrightarrow> (\<exists>a b. s = a @ p @ b)"
  using find_sub_None [of p s] by (auto simp: contains_def)

lemma slice_to_find: "find_sub p s = Some i \<Longrightarrow> slice_to (py_find p s) s = take i s"
  by (simp add: slice_to_def py_find_def)

lemma slice_to_find_none: "find_sub p s = None \<Longrightarrow> slice_to (py_find p s) s = butlast s"
  by (simp add: slice_to_def py_find_def butlast_conv_take)

section \<open>Tags\<close>

text \<open>\<open>re.sub(r"<[^>]+>", " ", s)\<close>.\<close>

function strip_tags :: "pystr \<Rightarrow> pystr" where
  "strip_tags [] = []"
| "strip_tags (c # s) =
     (if c = 60 \<and> s \<noteq> [] \<and> hd s \<noteq> 62 \<and> 62 \<in> set s
      then 32 # strip_tags (tl (dropWhile (\<lambda>d. d \<noteq> 62) s))
      else c # strip_tags s)"
  by pat_completeness auto
termination
  by (relation "measure length")
    (auto intro!: le_imp_less_Suc le_trans [OF diff_le_self length_dropWhile_le])

text \<open>A tag at the start of \<open>s\<close>, and a tag somewhere in it.\<close>

definition tag_here :: "pystr \<Rightarrow> bool" where
  "tag_here s \<longleftrightarrow> (\<exists>b r. s = 60 # b @ 62 # r \<and> b \<noteq> [] \<and> 62 \<notin> set b)"

definition has_tag :: "pystr \<Rightarrow> bool" where
  "has_tag s \<longleftrightarrow> (\<exists>a t. s = a @ t \<and> tag_here t)"

lemma tag_here_iff: "tag_here (c # s) \<longleftrightarrow> c = 60 \<and> s \<noteq> [] \<and> hd s \<noteq> 62 \<and> 62 \<in> set s"
proof
  assume "c = 60 \<and> s \<noteq> [] \<and> hd s \<noteq> 62 \<and> 62 \<in> set s"
  moreover then obtain b r where s: "s = b @ 62 # r" "62 \<notin> set b"
    using split_list_first by fastforce
  ultimately have "b \<noteq> []" and "c = 60" by auto
  with s show "tag_here (c # s)" unfolding tag_here_def by blast
qed (auto simp: tag_here_def hd_append neq_Nil_conv)

lemma has_tag_Cons: "has_tag (c # s) \<longleftrightarrow> tag_here (c # s) \<or> has_tag s"
  unfolding has_tag_def by (metis append_Cons append_Nil list.exhaust list.inject)

lemma has_tag_Nil: "\<not> has_tag []"
  by (simp add: has_tag_def tag_here_def)

lemma strip_tags_no_gt: "62 \<in> set (strip_tags s) \<Longrightarrow> 62 \<in> set s"
proof (induction s rule: strip_tags.induct)
  case (2 c s)
  then show ?case
    by (auto split: if_splits dest: list.set_sel(2) [rotated] set_dropWhileD)
qed simp

lemma strip_tags_hd:
  "s \<noteq> [] \<Longrightarrow> hd (strip_tags s) = 62 \<longleftrightarrow> hd s = 62"
  by (cases s) auto

lemma strip_tags_Nil_iff: "strip_tags s = [] \<longleftrightarrow> s = []"
  by (cases s) auto

lemma strip_tags_no_tag: "\<not> has_tag (strip_tags s)"
proof (induction s rule: strip_tags.induct)
  case 1
  then show ?case by (simp add: has_tag_Nil)
next
  case (2 c s)
  show ?case
  proof (cases "c = 60 \<and> s \<noteq> [] \<and> hd s \<noteq> 62 \<and> 62 \<in> set s")
    case True
    with 2(1) show ?thesis by (simp add: has_tag_Cons tag_here_iff)
  next
    case False
    have "\<not> tag_here (c # strip_tags s)"
    proof
      assume "tag_here (c # strip_tags s)"
      then have c: "c = 60" and ne: "strip_tags s \<noteq> []" and hd: "hd (strip_tags s) \<noteq> 62"
        and gt: "62 \<in> set (strip_tags s)" by (simp_all add: tag_here_iff)
      from ne have s: "s \<noteq> []" using strip_tags_Nil_iff by blast
      from hd strip_tags_hd [OF s] have "hd s \<noteq> 62" by blast
      with c s gt strip_tags_no_gt False show False by blast
    qed
    moreover from False 2(2) have "\<not> has_tag (strip_tags s)" by blast
    ultimately show ?thesis by (simp only: strip_tags.simps False if_False has_tag_Cons simp_thms)
  qed
qed

lemma strip_tags_id: "\<not> has_tag s \<Longrightarrow> strip_tags s = s"
  by (induction s) (simp_all add: has_tag_Cons tag_here_iff)

section \<open>Headings\<close>

text \<open>
  The shortest run of characters other than a line break up to \<open></h2>\<close>, and what follows it:
  the group \<open>(.*?)\<close> and the rest of \<open>re.findall(r"<h2[^>]*>(.*?)</h2>", s)\<close> at an opening tag.
\<close>

definition h2_open :: pystr where
  "h2_open = lit ''<h2''"

definition h2_close :: pystr where
  "h2_close = lit ''</h2>''"

fun until_close :: "pystr \<Rightarrow> (pystr \<times> pystr) option" where
  "until_close [] = None"
| "until_close (c # s) =
     (if starts_with h2_close (c # s) then Some ([], drop 5 (c # s))
      else if c = 10 then None
      else map_option (\<lambda>(g, r). (c # g, r)) (until_close s))"

lemma until_close_split: "until_close s = Some (g, r) \<Longrightarrow> s = g @ h2_close @ r"
proof (induction s arbitrary: g)
  case (Cons c s)
  then show ?case
    by (auto simp: starts_with_iff h2_close_def lit_simps split: if_splits)
qed simp

lemma until_close_length: "until_close s = Some (g, r) \<Longrightarrow> length r < length s"
  by (drule until_close_split) (simp add: h2_close_def length_lit)

definition h2_match :: "pystr \<Rightarrow> (pystr \<times> pystr) option" where
  "h2_match s =
     (let r = dropWhile (\<lambda>d. d \<noteq> 62) (drop 3 s) in
      if starts_with h2_open s \<and> r \<noteq> [] then until_close (tl r) else None)"

lemma h2_match_length: "h2_match s = Some (g, r) \<Longrightarrow> length r < length s"
proof -
  assume m: "h2_match s = Some (g, r)"
  let ?t = "dropWhile (\<lambda>d. d \<noteq> 62) (drop 3 s)"
  from m have "until_close (tl ?t) = Some (g, r)" by (simp add: h2_match_def Let_def split: if_splits)
  then have "length r < length (tl ?t)" by (rule until_close_length)
  also have "\<dots> \<le> length ?t" by simp
  also have "\<dots> \<le> length (drop 3 s)" by (rule length_dropWhile_le)
  also have "\<dots> \<le> length s" by simp
  finally show ?thesis .
qed

function h2_groups :: "pystr \<Rightarrow> pystr list" where
  "h2_groups [] = []"
| "h2_groups (c # s) =
     (case h2_match (c # s) of Some (g, r) \<Rightarrow> g # h2_groups r | None \<Rightarrow> h2_groups s)"
  by pat_completeness auto
termination by (relation "measure length") (auto dest: h2_match_length)

section \<open>Front matter\<close>

text \<open>\<open>re.match(r"^---\n(.*?)\n---", s, re.DOTALL)\<close>, its group 1.\<close>

definition front_matter :: "pystr \<Rightarrow> pystr option" where
  "front_matter s =
     (if starts_with [45, 45, 45, 10] s
      then map_option (\<lambda>i. take i (drop 4 s)) (find_sub [10, 45, 45, 45] (drop 4 s))
      else None)"

lemma front_matter_Some:
  assumes "front_matter s = Some g"
  shows "\<exists>r. s = [45, 45, 45, 10] @ g @ [10, 45, 45, 45] @ r"
proof -
  from assms obtain i where st: "starts_with [45, 45, 45, 10] s"
    and f: "find_sub [10, 45, 45, 45] (drop 4 s) = Some i" and g: "g = take i (drop 4 s)"
    by (auto simp: front_matter_def split: if_splits)
  from st obtain t where t: "s = [45, 45, 45, 10] @ t" by (auto simp: starts_with_iff)
  then have d: "drop 4 s = t" by simp
  from find_sub_Some [OF f] d g t show ?thesis by auto
qed

section \<open>Pages and parts\<close>

text \<open>
  \<open>re.findall(rb"/Type\s*/Page\b", b)\<close>: white space of the bytes class, and a word boundary,
  which excludes \<open>/Pages\<close>.
\<close>

definition byte_space :: "nat \<Rightarrow> bool" where
  "byte_space b \<longleftrightarrow> (9 \<le> b \<and> b \<le> 13) \<or> b = 32"

definition word_byte :: "nat \<Rightarrow> bool" where
  "word_byte b \<longleftrightarrow>
     (48 \<le> b \<and> b \<le> 57) \<or> (65 \<le> b \<and> b \<le> 90) \<or> (97 \<le> b \<and> b \<le> 122) \<or> b = 95"

definition page_match :: "bytes \<Rightarrow> bytes option" where
  "page_match s =
     (let t = dropWhile byte_space (drop 5 s); r = drop 5 t in
      if starts_with (lit ''/Type'') s \<and> starts_with (lit ''/Page'') t \<and> (r = [] \<or> \<not> word_byte (hd r))
      then Some r else None)"

lemma page_match_length: "page_match (c # s) = Some r \<Longrightarrow> length r < length (c # s)"
proof -
  assume "page_match (c # s) = Some r"
  then have "r = drop 5 (dropWhile byte_space (drop 5 (c # s)))"
    by (simp add: page_match_def Let_def split: if_splits)
  then have "length r \<le> length (dropWhile byte_space (drop 5 (c # s)))" by simp
  also have "\<dots> \<le> length (drop 5 (c # s))" by (rule length_dropWhile_le)
  also have "\<dots> < length (c # s)" by simp
  finally show ?thesis .
qed

function count_pages :: "bytes \<Rightarrow> nat" where
  "count_pages [] = 0"
| "count_pages (c # s) =
     (case page_match (c # s) of Some r \<Rightarrow> Suc (count_pages r) | None \<Rightarrow> count_pages s)"
  by pat_completeness auto
termination by (relation "measure length") (auto dest: page_match_length)

text \<open>\<open>re.match(r"ppt/slides/slide[0-9]+\.xml", name)\<close> matches at the start only.\<close>

definition is_digit :: "nat \<Rightarrow> bool" where
  "is_digit c \<longleftrightarrow> 48 \<le> c \<and> c \<le> 57"

definition slide_prefix :: pystr where
  "slide_prefix = lit ''ppt/slides/slide''"

definition is_slide_part :: "pystr \<Rightarrow> bool" where
  "is_slide_part name \<longleftrightarrow>
     (let t = drop 16 name in
      starts_with slide_prefix name \<and> t \<noteq> [] \<and> is_digit (hd t) \<and>
      starts_with (lit ''.xml'') (dropWhile is_digit t))"

definition slide_part :: "nat \<Rightarrow> pystr" where
  "slide_part i = slide_prefix @ str_of_nat i @ lit ''.xml''"

lemma slide_part_is_slide_part: "is_slide_part (slide_part i)"
proof -
  have d: "dropWhile is_digit (str_of_nat i @ lit ''.xml'') = lit ''.xml''"
    using str_of_nat_digits [of i]
    by (simp add: dropWhile_append lit_simps is_digit_def)
  have n: "str_of_nat i \<noteq> []" by (rule str_of_nat_nonempty)
  then have h: "is_digit (hd (str_of_nat i))"
    using str_of_nat_digits [of i] hd_in_set by (simp add: is_digit_def)
  have dr: "drop 16 (slide_part i) = str_of_nat i @ lit ''.xml''"
    by (simp add: slide_part_def slide_prefix_def length_lit)
  have st: "starts_with slide_prefix (slide_part i)"
    unfolding starts_with_iff slide_part_def by blast
  show ?thesis unfolding is_slide_part_def Let_def dr d
    using n h st by (simp add: hd_append starts_with_def)
qed

lemma slide_part_inject: "slide_part i = slide_part j \<longleftrightarrow> i = j"
  by (simp add: slide_part_def str_of_nat_inject)

section \<open>Colours\<close>

text \<open>
  The first group of \<open>re.findall(r'srgbClr val="([0-9a-fA-F]+)"', s)\<close>, if there is a match.
\<close>

definition is_hex :: "nat \<Rightarrow> bool" where
  "is_hex c \<longleftrightarrow> is_digit c \<or> (65 \<le> c \<and> c \<le> 70) \<or> (97 \<le> c \<and> c \<le> 102)"

definition color_prefix :: pystr where
  "color_prefix = lit ''srgbClr val='' @ [34]"

fun first_color :: "pystr \<Rightarrow> pystr option" where
  "first_color [] = None"
| "first_color (c # s) =
     (let t = drop 13 (c # s); r = dropWhile is_hex t in
      if starts_with color_prefix (c # s) \<and> takeWhile is_hex t \<noteq> [] \<and> r \<noteq> [] \<and> hd r = 34
      then Some (takeWhile is_hex t) else first_color s)"

definition ascii_lower :: "pystr \<Rightarrow> pystr" where
  "ascii_lower s = map (\<lambda>c. if 65 \<le> c \<and> c \<le> 90 then c + 32 else c) s"

lemma first_color_hex: "first_color s = Some c \<Longrightarrow> c \<noteq> [] \<and> list_all is_hex c"
  by (induction s) (auto simp: Let_def list_all_iff dest: set_takeWhileD split: if_splits)

text \<open>
  Removing the tags of an article leaves no tag behind, also where angle brackets are nested
  or unbalanced, and a text without tags is left as it is.
\<close>

lemma strip_tags_complete:
  "\<not> has_tag (strip_tags s) \<and> strip_tags (strip_tags s) = strip_tags s"
  by (simp_all add: strip_tags_no_tag strip_tags_id)

end
