(* ===== verification/QualityGates.thy ===== *)
theory QualityGates
  imports Publish37 PyMatch
begin

text \<open>
  \<open>run_quality_gates()\<close> and \<open>main()\<close> of
  \<^verbatim>\<open>labs/37-cache-invalidation-strategies/generate_and_verify.py\<close>: one definition per numbered
  gate of the function, its summary and its verdict. A gate is a name, a status and a detail.
  What the operating system and the ZIP container supply is a \<open>platform\<close>: the entries of an
  archive in order (\<open>None\<close> when it is not one) and the size reported for a folder.
\<close>

record platform =
  unzip :: "bytes \<Rightarrow> (pystr \<times> bytes) list option"
  folder_size :: nat

type_synonym gate = "pystr \<times> bool \<times> pystr"

definition st_size :: "platform \<Rightarrow> node \<Rightarrow> nat" where
  "st_size pl n = (case n of File b \<Rightarrow> length b | Folder \<Rightarrow> folder_size pl)"

definition missing :: pystr where
  "missing = lit ''Missing''"

definition bytes_detail :: "nat \<Rightarrow> pystr" where
  "bytes_detail n = str_of_nat n @ lit '' bytes''"

section \<open>Gate 1: the definition\<close>

definition gate_content_def :: "platform \<Rightarrow> fsys \<Rightarrow> gate list" where
  "gate_content_def pl fs =
     (case fs (RESULT_DIR @ [lit ''content_def.py'']) of
        Some n \<Rightarrow> [(lit ''content_def.py exists'', True, bytes_detail (st_size pl n))]
      | None \<Rightarrow> [(lit ''content_def.py exists'', False, missing)])"

section \<open>Gate 2: the Medium article\<close>

definition medium_path :: path where
  "medium_path = RESULT_DIR @
     [lit ''medium'', lit ''lab-37-cache-invalidation-strategies-medium.html'']"

definition html_words :: "pystr \<Rightarrow> nat" where
  "html_words html = length (split_words (strip_tags html))"

definition html_sections :: "pystr \<Rightarrow> nat" where
  "html_sections html = length (h2_groups html)"

definition gates_medium :: "fsys \<Rightarrow> (pyexc, gate list) res" where
  "gates_medium fs =
     (if exists_path fs medium_path then
        res_bind (read_text fs medium_path) (\<lambda>html.
          Inr [(lit ''Medium HTML words (>= 2000)'', html_words html \<ge> 2000,
                str_of_nat (html_words html) @ lit '' words''),
               (lit ''Medium HTML sections (>= 9)'', html_sections html \<ge> 9,
                str_of_nat (html_sections html) @ lit '' sections'')])
      else Inr [(lit ''Medium HTML exists'', False, missing)])"

section \<open>Gate 3: the dev.to article\<close>

definition devto_path :: path where
  "devto_path = RESULT_DIR @ [lit ''dev.to'', lit ''lab-37-cache-invalidation-strategies-devto.md'']"

definition has_fm :: "pystr \<Rightarrow> bool" where
  "has_fm md =
     (case front_matter md of
        None \<Rightarrow> False
      | Some g \<Rightarrow> contains (lit ''title:'') g \<and> contains (lit ''tags:'') g)"

definition gates_devto :: "fsys \<Rightarrow> (pyexc, gate list) res" where
  "gates_devto fs =
     (if exists_path fs devto_path then
        res_bind (read_text fs devto_path) (\<lambda>md.
          Inr [(lit ''Dev.to MD frontmatter'', has_fm md,
                if has_fm md then lit ''Full YAML frontmatter present'' else lit ''Missing/invalid''),
               (lit ''Dev.to MD words (>= 1500)'', length (split_words md) \<ge> 1500,
                str_of_nat (length (split_words md)) @ lit '' words'')])
      else Inr [(lit ''Dev.to MD exists'', False, missing)])"

section \<open>Gate 4: the covers\<close>

definition cover_path :: "pystr \<Rightarrow> path" where
  "cover_path lang = RESULT_DIR @
     [lit ''image-cover'', lit ''lab-37-cache-invalidation-strategies-cover-'' @ lang @ lit ''.png'']"

definition gate_cover :: "platform \<Rightarrow> fsys \<Rightarrow> path \<times> pystr \<Rightarrow> gate list" where
  "gate_cover pl fs = (\<lambda>(p, label).
     (case fs p of
        Some n \<Rightarrow>
          [(lit ''Cover PNG ('' @ label @ lit '') > 50KB'', st_size pl n > 50 * 1024,
            bytes_detail (st_size pl n))]
      | None \<Rightarrow> [(lit ''Cover PNG ('' @ label @ lit '') exists'', False, missing)]))"

definition gates_covers :: "platform \<Rightarrow> fsys \<Rightarrow> gate list" where
  "gates_covers pl fs =
     concat (map (gate_cover pl fs)
       [(cover_path (lit ''id''), lit ''ID''), (cover_path (lit ''en''), lit ''EN'')])"

section \<open>Gate 5: the PDF\<close>

definition pdf_path :: path where
  "pdf_path = RESULT_DIR @
     [lit ''linkedin'', lit ''lab-37-cache-invalidation-strategies-linkedin.pdf'']"

definition gates_pdf :: "platform \<Rightarrow> fsys \<Rightarrow> (pyexc, gate list) res" where
  "gates_pdf pl fs =
     (case fs pdf_path of
        Some n \<Rightarrow>
          res_bind (read_bytes fs pdf_path) (\<lambda>pdf_bytes.
            Inr [(lit ''LinkedIn PDF > 200KB'', st_size pl n > 200 * 1024,
                  bytes_detail (st_size pl n)),
                 (lit ''LinkedIn PDF 24 pages'', count_pages pdf_bytes = 24,
                  str_of_nat (count_pages pdf_bytes) @ lit '' pages'')])
      | None \<Rightarrow> Inr [(lit ''LinkedIn PDF exists'', False, missing)])"

section \<open>Gate 6: the presentation\<close>

definition pptx_path :: path where
  "pptx_path = RESULT_DIR @
     [lit ''linkedin'', lit ''lab-37-cache-invalidation-strategies-carousel.pptx'']"

text \<open>
  \<open>z.read(name).decode("utf-8")\<close>: of several entries with the same name the last is read, and
  a name without an entry raises \<open>KeyError\<close>.
\<close>

definition zip_read :: "(pystr \<times> bytes) list \<Rightarrow> pystr \<Rightarrow> (pyexc, pystr) res" where
  "zip_read entries name =
     (case map_of (rev entries) name of
        None \<Rightarrow> Inl (KeyError ''There is no item named in the archive'')
      | Some b \<Rightarrow> utf8_decode b)"

definition first_sp :: "pystr \<Rightarrow> pystr" where
  "first_sp xml = slice_to (py_find (lit ''</p:sp>'') xml) xml"

definition shape_count :: "pystr \<Rightarrow> nat" where
  "shape_count xml = count_sub (lit ''<p:sp>'') xml"

definition slide1_gate :: "pystr \<Rightarrow> gate" where
  "slide1_gate xml =
     (let bg = first_color (first_sp xml);
          bg_ok = (case bg of Some c \<Rightarrow> ascii_lower c = lit ''0b1b2d'' | None \<Rightarrow> False)
      in (lit ''Slide 1: bg #0b1b2d with visual elements'', bg_ok \<and> shape_count xml \<ge> 3,
          lit ''bg=#'' @ (case bg of Some c \<Rightarrow> c | None \<Rightarrow> lit ''none'') @
          lit '', shapes='' @ str_of_nat (shape_count xml)))"

definition bg_value :: "pystr \<Rightarrow> pystr" where
  "bg_value xml = (case first_color (first_sp xml) of Some c \<Rightarrow> ascii_lower c | None \<Rightarrow> [])"

definition editorial_ok :: "pystr \<Rightarrow> bool" where
  "editorial_ok xml \<longleftrightarrow> \<not> (bg_value xml \<noteq> lit ''f4f1e8'' \<or> shape_count xml < 4)"

definition slide_failure :: "nat \<Rightarrow> pystr \<Rightarrow> pystr" where
  "slide_failure i xml =
     lit ''Slide '' @ str_of_nat i @ lit '' failed (bg=#'' @ bg_value xml @ lit '', shapes='' @
     str_of_nat (shape_count xml) @ lit '')''"

text \<open>The loop over slides 2 to 23: the flag and the details so far.\<close>

definition editorial_step ::
  "(pystr \<times> bytes) list \<Rightarrow> nat \<Rightarrow> bool \<times> pystr list \<Rightarrow> (pyexc, bool \<times> pystr list) res" where
  "editorial_step entries i = (\<lambda>(ok, details).
     res_bind (zip_read entries (slide_part i)) (\<lambda>xml.
       if editorial_ok xml then Inr (ok, details)
       else Inr (False, details @ [slide_failure i xml])))"

definition editorial_gate :: "(pystr \<times> bytes) list \<Rightarrow> (pyexc, gate) res" where
  "editorial_gate entries =
     res_bind (fold_res (editorial_step entries) [2..<24] (True, [])) (\<lambda>(ok, details).
       Inr (lit ''Slide 2-23: bg #f4f1e8 with >= 3 content items'', ok,
            if ok then lit ''All 22 editorial slides verified'' else py_join (lit ''; '') details))"

definition slide_names :: "(pystr \<times> bytes) list \<Rightarrow> pystr list" where
  "slide_names entries = filter is_slide_part (map fst entries)"

definition gates_pptx :: "platform \<Rightarrow> fsys \<Rightarrow> (pyexc, gate list) res" where
  "gates_pptx pl fs =
     (case fs pptx_path of
        None \<Rightarrow> Inr [(lit ''LinkedIn PPTX exists'', False, missing)]
      | Some n \<Rightarrow>
          res_bind (read_bytes fs pptx_path) (\<lambda>b.
          case unzip pl b of
            None \<Rightarrow> Inl BadZipFile
          | Some entries \<Rightarrow>
              res_bind (zip_read entries (slide_part 1)) (\<lambda>s1_xml.
              res_bind (editorial_gate entries) (\<lambda>g.
                Inr [(lit ''LinkedIn PPTX > 100KB'', st_size pl n > 100 * 1024,
                      bytes_detail (st_size pl n)),
                     (lit ''PPTX 24 slides'', length (slide_names entries) = 24,
                      str_of_nat (length (slide_names entries)) @ lit '' slides''),
                     slide1_gate s1_xml, g]))))"

section \<open>The summary and the verdict\<close>

definition collect_gates :: "platform \<Rightarrow> fsys \<Rightarrow> (pyexc, gate list) res" where
  "collect_gates pl fs =
     res_bind (gates_medium fs) (\<lambda>g2.
     res_bind (gates_devto fs) (\<lambda>g3.
     res_bind (gates_pdf pl fs) (\<lambda>g5.
     res_bind (gates_pptx pl fs) (\<lambda>g6.
       Inr (gate_content_def pl fs @ g2 @ g3 @ gates_covers pl fs @ g5 @ g6)))))"

definition rule_line :: pystr where
  "rule_line = replicate 70 61"

definition gate_line :: "gate \<Rightarrow> pystr" where
  "gate_line = (\<lambda>(name, status, detail).
     lit ''['' @ (if status then lit ''PASS'' else lit ''FAIL'') @ lit ''] '' @
     (if status then [0x2713] else [0x2717]) @ lit '' '' @ name @ lit '': '' @ detail)"

text \<open>The summary loop: the lines printed and the flag \<open>all_pass\<close>.\<close>

fun summarise :: "gate list \<Rightarrow> bool \<Rightarrow> pystr list \<times> bool" where
  "summarise [] all_pass = ([], all_pass)"
| "summarise (g # gs) all_pass =
     (let (ls, ok) = summarise gs (if fst (snd g) then all_pass else False)
      in (gate_line g # ls, ok))"

definition verdict_line :: "bool \<Rightarrow> pystr" where
  "verdict_line all_pass =
     lit ''VERDICT: '' @
     (if all_pass then lit ''ALL QUALITY GATES PASSED'' else lit ''QUALITY GATES FAILED'')"

definition run_quality_gates :: "platform \<Rightarrow> fsys \<Rightarrow> (pyexc, pystr list \<times> bool) res" where
  "run_quality_gates pl fs =
     res_bind (collect_gates pl fs) (\<lambda>gates.
       let (ls, all_pass) = summarise gates True in
       Inr ([10 # rule_line, lit ''QUALITY GATES VERIFICATION SUMMARY'', rule_line] @ ls @
            [rule_line, verdict_line all_pass, rule_line], all_pass))"

text \<open>\<open>main()\<close>: the file system it leaves, what it prints, and the exit status.\<close>

definition main37 :: "platform \<Rightarrow> fsys \<Rightarrow> (pyexc, fsys \<times> pystr list \<times> nat) res" where
  "main37 pl fs =
     res_bind (generate_all fs) (\<lambda>(fs', out).
     res_bind (run_quality_gates pl fs') (\<lambda>(summary, passed).
       Inr (fs', out @ summary, if passed then 0 else 1)))"

section \<open>What the gates decide\<close>

definition passed :: "gate list \<Rightarrow> bool" where
  "passed gs = list_all (\<lambda>g. fst (snd g)) gs"

lemma summarise_result: "summarise gs a = (map gate_line gs, a \<and> passed gs)"
  by (induction gs arbitrary: a) (auto simp: passed_def)

lemma passed_append: "passed (xs @ ys) \<longleftrightarrow> passed xs \<and> passed ys"
  by (simp add: passed_def)

lemma run_quality_gates_Inr:
  "run_quality_gates pl fs = Inr (ls, ok) \<longleftrightarrow>
     (\<exists>gs. collect_gates pl fs = Inr gs \<and> ok = passed gs \<and>
       ls = [10 # rule_line, lit ''QUALITY GATES VERIFICATION SUMMARY'', rule_line] @
         map gate_line gs @ [rule_line, verdict_line (passed gs), rule_line])"
  by (auto simp: run_quality_gates_def res_bind_Inr_iff summarise_result Let_def)

lemma run_quality_gates_Inl:
  "run_quality_gates pl fs = Inl e \<longleftrightarrow> collect_gates pl fs = Inl e"
  by (auto simp: run_quality_gates_def res_bind_Inl_iff summarise_result Let_def)

text \<open>
  What publication readiness means, without gates: every artefact is there and has the
  properties the numbered comments of the function name.
\<close>

definition medium_ready :: "fsys \<Rightarrow> bool" where
  "medium_ready fs \<longleftrightarrow>
     (\<exists>html. read_text fs medium_path = Inr html \<and> html_words html \<ge> 2000 \<and> html_sections html \<ge> 9)"

definition devto_ready :: "fsys \<Rightarrow> bool" where
  "devto_ready fs \<longleftrightarrow>
     (\<exists>md. read_text fs devto_path = Inr md \<and> has_fm md \<and> length (split_words md) \<ge> 1500)"

definition cover_ready :: "platform \<Rightarrow> fsys \<Rightarrow> pystr \<Rightarrow> bool" where
  "cover_ready pl fs lang \<longleftrightarrow>
     (\<exists>n. fs (cover_path lang) = Some n \<and> st_size pl n > 50 * 1024)"

definition pdf_ready :: "fsys \<Rightarrow> bool" where
  "pdf_ready fs \<longleftrightarrow>
     (\<exists>b. fs pdf_path = Some (File b) \<and> length b > 200 * 1024 \<and> count_pages b = 24)"

definition dark_cover :: "pystr \<Rightarrow> bool" where
  "dark_cover xml \<longleftrightarrow>
     (\<exists>c. first_color (first_sp xml) = Some c \<and> ascii_lower c = lit ''0b1b2d'') \<and>
     shape_count xml \<ge> 3"

definition pptx_ready :: "platform \<Rightarrow> fsys \<Rightarrow> bool" where
  "pptx_ready pl fs \<longleftrightarrow>
     (\<exists>b entries. fs pptx_path = Some (File b) \<and> unzip pl b = Some entries \<and>
       length b > 100 * 1024 \<and> length (slide_names entries) = 24 \<and>
       (\<exists>xml. zip_read entries (slide_part 1) = Inr xml \<and> dark_cover xml) \<and>
       (\<forall>i \<in> {2..<24}. \<exists>xml. zip_read entries (slide_part i) = Inr xml \<and> editorial_ok xml))"

definition publication_ready :: "platform \<Rightarrow> fsys \<Rightarrow> bool" where
  "publication_ready pl fs \<longleftrightarrow>
     exists_path fs (RESULT_DIR @ [lit ''content_def.py'']) \<and> medium_ready fs \<and> devto_ready fs \<and>
     cover_ready pl fs (lit ''id'') \<and> cover_ready pl fs (lit ''en'') \<and> pdf_ready fs \<and>
     pptx_ready pl fs"

lemma read_text_exists: "read_text fs p = Inr s \<Longrightarrow> exists_path fs p"
  by (auto simp: read_text_def read_bytes_def exists_path_def split: option.splits)

lemma content_def_passes:
  "passed (gate_content_def pl fs) \<longleftrightarrow> exists_path fs (RESULT_DIR @ [lit ''content_def.py''])"
  by (simp add: gate_content_def_def passed_def exists_path_def split: option.splits)

lemma medium_passes: "(\<exists>gs. gates_medium fs = Inr gs \<and> passed gs) \<longleftrightarrow> medium_ready fs"
  using read_text_exists
  by (auto simp: gates_medium_def medium_ready_def passed_def res_bind_Inr_iff)

lemma devto_passes: "(\<exists>gs. gates_devto fs = Inr gs \<and> passed gs) \<longleftrightarrow> devto_ready fs"
  using read_text_exists
  by (auto simp: gates_devto_def devto_ready_def passed_def res_bind_Inr_iff)

lemma cover_passes:
  "passed (gate_cover pl fs (cover_path lang, label)) \<longleftrightarrow> cover_ready pl fs lang"
  by (auto simp: gate_cover_def cover_ready_def passed_def split: option.splits)

lemma covers_pass:
  "passed (gates_covers pl fs) \<longleftrightarrow> cover_ready pl fs (lit ''id'') \<and> cover_ready pl fs (lit ''en'')"
  by (simp add: gates_covers_def passed_append cover_passes)

lemma pdf_passes: "(\<exists>gs. gates_pdf pl fs = Inr gs \<and> passed gs) \<longleftrightarrow> pdf_ready fs"
  by (auto simp: gates_pdf_def pdf_ready_def passed_def res_bind_Inr_iff read_bytes_def st_size_def
      split: option.splits node.splits)

lemma editorial_step_Inr:
  "editorial_step entries i (ok, ds) = Inr r \<longleftrightarrow>
     (\<exists>xml. zip_read entries (slide_part i) = Inr xml \<and>
       r = (if editorial_ok xml then (ok, ds) else (False, ds @ [slide_failure i xml])))"
  by (auto simp: editorial_step_def res_bind_Inr_iff)

lemma editorial_loop:
  "fold_res (editorial_step entries) is (ok, ds) = Inr (ok', ds') \<Longrightarrow>
     (\<forall>i \<in> set is. \<exists>xml. zip_read entries (slide_part i) = Inr xml) \<and>
     (ok' \<longleftrightarrow> ok \<and> (\<forall>i \<in> set is. \<exists>xml. zip_read entries (slide_part i) = Inr xml \<and> editorial_ok xml))"
proof (induction "is" arbitrary: ok ds)
  case (Cons i "is")
  from Cons.prems obtain ok1 ds1 where e: "editorial_step entries i (ok, ds) = Inr (ok1, ds1)"
    and r: "fold_res (editorial_step entries) is (ok1, ds1) = Inr (ok', ds')"
    by (auto split: sum.splits)
  from e obtain xml where x: "zip_read entries (slide_part i) = Inr xml"
    and s: "(ok1, ds1) = (if editorial_ok xml then (ok, ds) else (False, ds @ [slide_failure i xml]))"
    unfolding editorial_step_Inr by blast
  from Cons.IH [OF r] s x show ?case by (auto split: if_splits)
qed simp

lemma editorial_loop_runs:
  "(\<forall>i \<in> set is. \<exists>xml. zip_read entries (slide_part i) = Inr xml) \<Longrightarrow>
   \<exists>r. fold_res (editorial_step entries) is st = Inr r"
proof (induction "is" arbitrary: st)
  case (Cons i "is")
  then obtain xml where "zip_read entries (slide_part i) = Inr xml" by auto
  then obtain st' where "editorial_step entries i st = Inr st'"
    by (cases st) (auto simp: editorial_step_Inr)
  with Cons.IH [of st'] Cons.prems show ?case by simp
qed simp

lemma editorial_gate_runs:
  "(\<exists>g. editorial_gate entries = Inr g) \<longleftrightarrow>
     (\<forall>i \<in> {2..<24}. \<exists>xml. zip_read entries (slide_part i) = Inr xml)"
proof -
  have "(\<exists>g. editorial_gate entries = Inr g) \<longleftrightarrow>
      (\<exists>r. fold_res (editorial_step entries) [2..<24] (True, []) = Inr r)"
    by (auto simp: editorial_gate_def res_bind_Inr_iff split: prod.splits)
  also have "\<dots> \<longleftrightarrow> (\<forall>i \<in> set [2..<24]. \<exists>xml. zip_read entries (slide_part i) = Inr xml)"
    using editorial_loop [of entries "[2..<24]" True "[]"] editorial_loop_runs [of "[2..<24]" entries]
    by (metis surj_pair)
  finally show ?thesis by (simp only: set_upt)
qed

lemma editorial_gate_status:
  assumes "editorial_gate entries = Inr g"
  shows "fst (snd g) \<longleftrightarrow>
    (\<forall>i \<in> {2..<24}. \<exists>xml. zip_read entries (slide_part i) = Inr xml \<and> editorial_ok xml)"
proof -
  from assms obtain ok ds where r: "fold_res (editorial_step entries) [2..<24] (True, []) = Inr (ok, ds)"
    and g: "fst (snd g) = ok"
    by (auto simp: editorial_gate_def res_bind_Inr_iff split: prod.splits)
  from editorial_loop [OF r] g show ?thesis by (simp only: set_upt simp_thms)
qed

lemma slide1_gate_status: "fst (snd (slide1_gate xml)) \<longleftrightarrow> dark_cover xml"
  by (auto simp: slide1_gate_def dark_cover_def Let_def split: option.splits)

lemma gates_pptx_Inr:
  "gates_pptx pl fs = Inr gs \<longleftrightarrow>
     (fs pptx_path = None \<and> gs = [(lit ''LinkedIn PPTX exists'', False, missing)]) \<or>
     (\<exists>b entries xml g. fs pptx_path = Some (File b) \<and> unzip pl b = Some entries \<and>
       zip_read entries (slide_part 1) = Inr xml \<and> editorial_gate entries = Inr g \<and>
       gs = [(lit ''LinkedIn PPTX > 100KB'', length b > 100 * 1024, bytes_detail (length b)),
             (lit ''PPTX 24 slides'', length (slide_names entries) = 24,
              str_of_nat (length (slide_names entries)) @ lit '' slides''),
             slide1_gate xml, g])"
  by (auto simp: gates_pptx_def res_bind_Inr_iff read_bytes_def st_size_def
      split: option.splits node.splits)

lemma pptx_passes: "(\<exists>gs. gates_pptx pl fs = Inr gs \<and> passed gs) \<longleftrightarrow> pptx_ready pl fs"
proof
  assume "\<exists>gs. gates_pptx pl fs = Inr gs \<and> passed gs"
  then obtain b entries xml g where
      r: "fs pptx_path = Some (File b)" "unzip pl b = Some entries" "length b > 100 * 1024"
        "length (slide_names entries) = 24" "zip_read entries (slide_part 1) = Inr xml" "dark_cover xml"
    and g: "editorial_gate entries = Inr g" "fst (snd g)"
    unfolding gates_pptx_Inr by (auto simp: passed_def slide1_gate_status)
  from r g editorial_gate_status [OF g(1)] show "pptx_ready pl fs" unfolding pptx_ready_def by blast
next
  assume "pptx_ready pl fs"
  then obtain b entries xml where
      r: "fs pptx_path = Some (File b)" "unzip pl b = Some entries" "length b > 100 * 1024"
        "length (slide_names entries) = 24" "zip_read entries (slide_part 1) = Inr xml" "dark_cover xml"
    and e: "\<forall>i \<in> {2..<24}. \<exists>xml. zip_read entries (slide_part i) = Inr xml \<and> editorial_ok xml"
    unfolding pptx_ready_def by blast
  from e editorial_gate_runs obtain g where g: "editorial_gate entries = Inr g" by blast
  with e editorial_gate_status have s: "fst (snd g)" by blast
  let ?gs = "[(lit ''LinkedIn PPTX > 100KB'', length b > 100 * 1024, bytes_detail (length b)),
    (lit ''PPTX 24 slides'', length (slide_names entries) = 24,
      str_of_nat (length (slide_names entries)) @ lit '' slides''), slide1_gate xml, g]"
  from r g have "gates_pptx pl fs = Inr ?gs" unfolding gates_pptx_Inr by blast
  moreover from r s have "passed ?gs" by (simp add: passed_def slide1_gate_status)
  ultimately show "\<exists>gs. gates_pptx pl fs = Inr gs \<and> passed gs" by blast
qed

lemma gates_pass: "(\<exists>gs. collect_gates pl fs = Inr gs \<and> passed gs) \<longleftrightarrow> publication_ready pl fs"
  unfolding publication_ready_def medium_passes [symmetric] devto_passes [symmetric]
    pdf_passes [of pl, symmetric] pptx_passes [symmetric]
  using content_def_passes [of pl fs] covers_pass [of pl fs]
  by (auto simp: collect_gates_def res_bind_Inr_iff passed_append)

text \<open>A presentation without one of its first 23 slides stops the run with an exception.\<close>

lemma zip_read_missing:
  "name \<notin> fst ` set entries \<Longrightarrow> \<exists>e. zip_read entries name = Inl e"
proof -
  assume "name \<notin> fst ` set entries"
  then have "map_of (rev entries) name = None" by (simp add: map_of_eq_None_iff)
  then show ?thesis by (simp add: zip_read_def)
qed

lemma missing_slide_raises:
  assumes "fs pptx_path = Some (File b)" and "unzip pl b = Some entries"
    and "i \<in> {1..<24}" and "slide_part i \<notin> fst ` set entries"
  shows "\<exists>e. run_quality_gates pl fs = Inl e"
proof -
  have no: "\<nexists>xml. zip_read entries (slide_part i) = Inr xml"
    using zip_read_missing [OF assms(4)] by fastforce
  have "gates_pptx pl fs \<noteq> Inr gs" for gs
  proof
    assume "gates_pptx pl fs = Inr gs"
    with assms(1,2) obtain xml g where "zip_read entries (slide_part 1) = Inr xml"
      and "editorial_gate entries = Inr g" unfolding gates_pptx_Inr by auto
    then have all: "\<forall>i \<in> {2..<24}. \<exists>xml. zip_read entries (slide_part i) = Inr xml"
      and one: "\<exists>xml. zip_read entries (slide_part 1) = Inr xml"
      using editorial_gate_runs by blast+
    from assms(3) have "i = 1 \<or> i \<in> {2..<24}" by auto
    with all one no show False by metis
  qed
  then obtain e where "gates_pptx pl fs = Inl e" by (cases "gates_pptx pl fs") auto
  then have "collect_gates pl fs \<noteq> Inr gs" for gs by (auto simp: collect_gates_def res_bind_Inr_iff)
  then obtain e where "collect_gates pl fs = Inl e" by (cases "collect_gates pl fs") auto
  then show ?thesis using run_quality_gates_Inl by blast
qed

section \<open>The whole script\<close>

text \<open>The gates look at no file and no folder that the generators touch.\<close>

definition gate_paths :: "path list" where
  "gate_paths =
     [RESULT_DIR @ [lit ''content_def.py''], medium_path, devto_path, cover_path (lit ''id''),
      cover_path (lit ''en''), pdf_path, pptx_path]"

lemma publication_ready_cong:
  assumes "\<And>p. p \<in> set gate_paths \<Longrightarrow> fs p = fs' p"
  shows "publication_ready pl fs = publication_ready pl fs'"
proof -
  have eq: "fs (RESULT_DIR @ [lit ''content_def.py'']) = fs' (RESULT_DIR @ [lit ''content_def.py''])"
    "fs medium_path = fs' medium_path" "fs devto_path = fs' devto_path"
    "fs (cover_path (lit ''id'')) = fs' (cover_path (lit ''id''))"
    "fs (cover_path (lit ''en'')) = fs' (cover_path (lit ''en''))"
    "fs pdf_path = fs' pdf_path" "fs pptx_path = fs' pptx_path"
    by (rule assms, simp add: gate_paths_def)+
  show ?thesis
    unfolding publication_ready_def exists_path_def medium_ready_def devto_ready_def
      cover_ready_def pdf_ready_def pptx_ready_def eq
      read_text_cong [of fs medium_path fs', OF eq(2)] read_text_cong [of fs devto_path fs', OF eq(3)]
    by (rule refl)
qed

lemma gate_paths_untouched:
  assumes "generate_all fs = Inr (fs', out)" and "p \<in> set gate_paths"
  shows "fs p = fs' p"
proof -
  obtain fs1 fs2 fs3 fs4 where
      m1: "make_dirs [] (butlast metadata_path) fs = Inr fs1"
    and w1: "write_text metadata_path metadata_content fs1 = Inr fs2"
    and m2: "make_dirs [] (butlast caption_path) fs2 = Inr fs3"
    and w2: "write_text caption_path caption fs3 = Inr fs4"
    and w3: "write_text deliverables_path (deliverables_content caption) fs4 = Inr fs'"
    using generate_all_Inr [OF assms(1)] unfolding mkdir_parents_def by metis
  have ne: "p \<noteq> metadata_path" "p \<noteq> caption_path" "p \<noteq> deliverables_path"
    and pre: "\<forall>n \<le> length (butlast metadata_path). p \<noteq> take n (butlast metadata_path)"
      "\<forall>n \<le> length (butlast caption_path). p \<noteq> take n (butlast caption_path)"
    using assms(2)
    by (auto simp: gate_paths_def path_defs medium_path_def devto_path_def cover_path_def pdf_path_def
        pptx_path_def inj_lit lit_append [symmetric] take_Cons split: nat.splits)
  have "fs' p = fs3 p" "fs2 p = fs1 p" using w1 w2 w3 ne by (auto simp: write_text_Inr_iff)
  moreover have "fs1 p = fs p" using make_dirs_changes [OF m1, of p] pre(1) unfolding append_Nil by blast
  moreover have "fs3 p = fs2 p" using make_dirs_changes [OF m2, of p] pre(2) unfolding append_Nil by blast
  ultimately show ?thesis by simp
qed

lemma ready_untouched:
  "generate_all fs = Inr (fs', out) \<Longrightarrow> publication_ready pl fs' = publication_ready pl fs"
  by (rule sym, rule publication_ready_cong) (rule gate_paths_untouched)

lemma main37_exit_0:
  "(\<exists>fs' out. main37 pl fs = Inr (fs', out, 0)) \<longleftrightarrow>
     (\<exists>fs' out. generate_all fs = Inr (fs', out)) \<and> publication_ready pl fs"
proof -
  have "(\<exists>fs' out. main37 pl fs = Inr (fs', out, 0)) \<longleftrightarrow>
      (\<exists>fs' out ls. generate_all fs = Inr (fs', out) \<and> run_quality_gates pl fs' = Inr (ls, True))"
    by (auto simp: main37_def res_bind_Inr_iff split: if_splits prod.splits) blast
  also have "\<dots> \<longleftrightarrow> (\<exists>fs' out. generate_all fs = Inr (fs', out) \<and> publication_ready pl fs')"
    by (auto simp: run_quality_gates_Inr gates_pass [symmetric])
  finally show ?thesis using ready_untouched by blast
qed

section \<open>Properties\<close>


text \<open>
  \<open>main()\<close> exits with status 0 exactly when its generators can write their files and the
  artefacts were ready before it ran: the files it generates do not influence its verdict.
\<close>

lemma exit_status_0:
  "(\<exists>fs' out. main37 pl fs = Inr (fs', out, 0)) \<longleftrightarrow>
     (\<exists>fs' out. generate_all fs = Inr (fs', out)) \<and> publication_ready pl fs"
  by (rule main37_exit_0)

text \<open>
  C39. A presentation in which one of the slides 1 to 23 is missing is never reported as a failed
  gate: the run stops with an exception and prints no verdict.
\<close>

theorem missing_slide_no_verdict:
  assumes "fs pptx_path = Some (File b)" and "unzip pl b = Some entries"
    and "1 \<le> i" and "i < 24" and "slide_part i \<notin> fst ` set entries"
  shows "\<exists>e. run_quality_gates pl fs = Inl e"
  using assms by (intro missing_slide_raises) simp_all

theorem missing_slide_no_verdict_witness:
  "\<exists>e. run_quality_gates \<lparr>unzip = \<lambda>_. Some [], folder_size = 0\<rparr> [pptx_path \<mapsto> File []] = Inl e"
  by (rule missing_slide_no_verdict [where b = "[]" and entries = "[]" and i = 1]) simp_all

end
