(* ===== verification/Outbox.thy ===== *)
theory Outbox
  imports Systems
begin

text \<open>
  Lab 21, \<^verbatim>\<open>labs/21-outbox-pattern/internal/outbox\<close>: the database with its transactions
  (\<open>db.go\<close>), the order service (\<open>service.go\<close>), the broker, the relay and the consumer, and the
  system in which they run side by side. Amounts (\<open>float64\<close>) are a type parameter, and
  \<open>json.Marshal\<close> of an order is the parameter \<open>marshal\<close>, which may fail.
\<close>

section \<open>The database\<close>

datatype OrderStatus = OrderCreated | OrderCancelled

record 'm Order =
  OrderID :: string
  CustomerID :: string
  Amount :: 'm
  OrderState :: OrderStatus

datatype MessageStatus = MsgPending | MsgProcessed

record OutboxMessage =
  MsgID :: string
  EventType :: string
  Payload :: string
  MsgStatus :: MessageStatus
  CreatedAt :: int

record 'm DB =
  orders :: "string \<rightharpoonup> 'm Order"
  outbox :: "string \<rightharpoonup> OutboxMessage"

definition NewDB :: "'m DB" where
  "NewDB = \<lparr>orders = Map.empty, outbox = Map.empty\<rparr>"

text \<open>\<open>GetPendingOutbox\<close> returns the pending messages in some order: any list that enumerates them.\<close>

definition GetPendingOutbox :: "'m DB \<Rightarrow> OutboxMessage list \<Rightarrow> bool" where
  "GetPendingOutbox db ms \<longleftrightarrow>
     (\<exists>ids. distinct ids \<and> set ids = {i. \<exists>m. outbox db i = Some m \<and> MsgStatus m = MsgPending} \<and>
        ms = map (\<lambda>i. the (outbox db i)) ids)"

definition MarkOutboxProcessed :: "string \<Rightarrow> 'm DB \<Rightarrow> 'm DB \<times> bool" where
  "MarkOutboxProcessed i db =
     (case outbox db i of
        None \<Rightarrow> (db, False)
      | Some m \<Rightarrow> (db\<lparr>outbox := (outbox db)(i \<mapsto> m\<lparr>MsgStatus := MsgProcessed\<rparr>)\<rparr>, True))"

definition PurgeProcessedOutbox :: "'m DB \<Rightarrow> 'm DB" where
  "PurgeProcessedOutbox db =
     db\<lparr>outbox := (\<lambda>i. case outbox db i of
                         None \<Rightarrow> None
                       | Some m \<Rightarrow> if MsgStatus m = MsgProcessed then None else Some m)\<rparr>"

record 'm Tx =
  stagedOrders :: "string \<rightharpoonup> 'm Order"
  stagedOutbox :: "string \<rightharpoonup> OutboxMessage"
  closed :: bool

datatype create_error = ErrTxClosed | MarshalFailed | BrokerUnavailable

definition BeginTx :: "'m Tx" where
  "BeginTx = \<lparr>stagedOrders = Map.empty, stagedOutbox = Map.empty, closed = False\<rparr>"

definition SaveOrder :: "'m Order \<Rightarrow> 'm Tx \<Rightarrow> (create_error, 'm Tx) res" where
  "SaveOrder order tx =
     (if closed tx then Inl ErrTxClosed
      else Inr (tx\<lparr>stagedOrders := (stagedOrders tx)(OrderID order \<mapsto> order)\<rparr>))"

definition SaveOutbox :: "OutboxMessage \<Rightarrow> 'm Tx \<Rightarrow> (create_error, 'm Tx) res" where
  "SaveOutbox msg tx =
     (if closed tx then Inl ErrTxClosed
      else Inr (tx\<lparr>stagedOutbox := (stagedOutbox tx)(MsgID msg \<mapsto> msg)\<rparr>))"

definition Commit :: "'m Tx \<Rightarrow> 'm DB \<Rightarrow> (create_error, 'm Tx \<times> 'm DB) res" where
  "Commit tx db =
     (if closed tx then Inl ErrTxClosed
      else Inr (tx\<lparr>closed := True\<rparr>,
                db\<lparr>orders := orders db ++ stagedOrders tx, outbox := outbox db ++ stagedOutbox tx\<rparr>))"

definition Rollback :: "'m Tx \<Rightarrow> (create_error, 'm Tx) res" where
  "Rollback tx = (if closed tx then Inl ErrTxClosed else Inr (tx\<lparr>closed := True\<rparr>))"

section \<open>Broker, consumer and the order service\<close>

record MockBroker =
  published :: "OutboxMessage list"
  failNext :: bool

definition Publish :: "OutboxMessage \<Rightarrow> MockBroker \<Rightarrow> MockBroker \<times> bool" where
  "Publish msg b =
     (if failNext b then (b\<lparr>failNext := False\<rparr>, False)
      else (b\<lparr>published := published b @ [msg]\<rparr>, True))"

record Consumer =
  processedIDs :: "string set"
  received :: "OutboxMessage list"

definition Handle :: "OutboxMessage \<Rightarrow> Consumer \<Rightarrow> Consumer \<times> bool" where
  "Handle msg c =
     (if MsgID msg \<in> processedIDs c then (c, False)
      else (c\<lparr>processedIDs := insert (MsgID msg) (processedIDs c), received := received c @ [msg]\<rparr>, True))"

definition event_id :: "string \<Rightarrow> string" where
  "event_id orderID = ''evt-'' @ orderID"

lemma event_id_inject [simp]: "event_id i = event_id j \<longleftrightarrow> i = j"
  by (simp add: event_id_def)

text \<open>\<open>CreateOrderWithOutbox\<close>: the database afterwards, and the error if there is one.\<close>

definition CreateOrderWithOutbox ::
  "('m Order \<Rightarrow> string option) \<Rightarrow> int \<Rightarrow> string \<Rightarrow> string \<Rightarrow> 'm \<Rightarrow> 'm DB \<Rightarrow> 'm DB \<times> create_error option" where
  "CreateOrderWithOutbox marshal now orderID customerID amount db =
     (let order = \<lparr>OrderID = orderID, CustomerID = customerID, Amount = amount, OrderState = OrderCreated\<rparr>
      in case marshal order of
           None \<Rightarrow> (db, Some MarshalFailed)
         | Some payload \<Rightarrow>
             (let msg = \<lparr>MsgID = event_id orderID, EventType = ''OrderCreated'', Payload = payload,
                         MsgStatus = MsgPending, CreatedAt = now\<rparr>
              in case res_bind (SaveOrder order BeginTx) (SaveOutbox msg) of
                   Inl e \<Rightarrow> (db, Some e)
                 | Inr tx \<Rightarrow>
                     (case Commit tx db of Inl e \<Rightarrow> (db, Some e) | Inr (_, db') \<Rightarrow> (db', None))))"

text \<open>\<open>CreateOrderDualWriteNaive\<close>, with the text it formats as a parameter.\<close>

definition CreateOrderDualWriteNaive ::
  "(string \<Rightarrow> 'm \<Rightarrow> string) \<Rightarrow> int \<Rightarrow> string \<Rightarrow> string \<Rightarrow> 'm \<Rightarrow> 'm DB \<Rightarrow> MockBroker \<Rightarrow>
   'm DB \<times> MockBroker \<times> create_error option" where
  "CreateOrderDualWriteNaive text now orderID customerID amount db b =
     (let order = \<lparr>OrderID = orderID, CustomerID = customerID, Amount = amount, OrderState = OrderCreated\<rparr>
      in case SaveOrder order BeginTx of
           Inl e \<Rightarrow> (db, b, Some e)
         | Inr tx \<Rightarrow>
             (case Commit tx db of
                Inl e \<Rightarrow> (db, b, Some e)
              | Inr (_, db') \<Rightarrow>
                  (case Publish \<lparr>MsgID = event_id orderID, EventType = ''OrderCreated'',
                                 Payload = text orderID amount, MsgStatus = MsgPending, CreatedAt = now\<rparr> b of
                     (b', ok) \<Rightarrow> (db', b', if ok then None else Some BrokerUnavailable))))"

text \<open>
  \<open>PollAndDispatch\<close> after it has the pending messages, run without interruption: the messages
  published and marked, and how many.
\<close>

fun dispatch_all :: "OutboxMessage list \<Rightarrow> 'm DB \<Rightarrow> MockBroker \<Rightarrow> 'm DB \<times> MockBroker \<times> nat" where
  "dispatch_all [] db b = (db, b, 0)"
| "dispatch_all (m # ms) db b =
     (case Publish m b of
        (b', False) \<Rightarrow> dispatch_all ms db b'
      | (b', True) \<Rightarrow>
          (case MarkOutboxProcessed (MsgID m) db of
             (db', marked) \<Rightarrow>
               (case dispatch_all ms db' b' of
                  (db'', b'', n) \<Rightarrow> (db'', b'', if marked then Suc n else n))))"

lemma Create_cases:
  "(case marshal \<lparr>OrderID = oid, CustomerID = cid, Amount = am, OrderState = OrderCreated\<rparr> of
      None \<Rightarrow> CreateOrderWithOutbox marshal now oid cid am db = (db, Some MarshalFailed)
    | Some payload \<Rightarrow> CreateOrderWithOutbox marshal now oid cid am db =
       (db\<lparr>orders := (orders db)(oid \<mapsto> \<lparr>OrderID = oid, CustomerID = cid, Amount = am, OrderState = OrderCreated\<rparr>),
           outbox := (outbox db)(event_id oid \<mapsto>
             \<lparr>MsgID = event_id oid, EventType = ''OrderCreated'', Payload = payload, MsgStatus = MsgPending,
              CreatedAt = now\<rparr>)\<rparr>, None))"
  by (auto simp: CreateOrderWithOutbox_def SaveOrder_def SaveOutbox_def BeginTx_def Commit_def Let_def
      split: option.split)

section \<open>The system\<close>

text \<open>
  Any number of relays: each has the messages of its poll that are left, and the message it has
  published and not yet marked. A relay may stop at any point and poll again later. The broker
  hands any published message to the consumer, also repeatedly. \<open>reuse\<close> tells whether an order
  identifier may be used again.
\<close>

record 'm outbox_world =
  db :: "'m DB"
  broker :: MockBroker
  relays :: "nat \<Rightarrow> OutboxMessage list \<times> string option"
  consumer :: Consumer

definition outbox_init :: "'m outbox_world \<Rightarrow> bool" where
  "outbox_init w \<longleftrightarrow> db w = NewDB \<and> published (broker w) = [] \<and> (\<forall>i. relays w i = ([], None)) \<and>
     consumer w = \<lparr>processedIDs = {}, received = []\<rparr>"

inductive outbox_step ::
  "('m Order \<Rightarrow> string option) \<Rightarrow> bool \<Rightarrow> 'm outbox_world \<Rightarrow> 'm outbox_world \<Rightarrow> bool"
  for marshal :: "'m Order \<Rightarrow> string option" and reuse :: bool where
  creates: "reuse \<or> orders (db w) oid = None \<Longrightarrow>
    CreateOrderWithOutbox marshal now oid cid am (db w) = (d, e) \<Longrightarrow>
    outbox_step marshal reuse w (w\<lparr>db := d\<rparr>)"
| polls: "relays w i = ([], None) \<Longrightarrow> GetPendingOutbox (db w) ms \<Longrightarrow>
    outbox_step marshal reuse w (w\<lparr>relays := (relays w)(i := (ms, None))\<rparr>)"
| publishes: "relays w i = (m # ms, None) \<Longrightarrow> Publish m (broker w) = (b, ok) \<Longrightarrow>
    outbox_step marshal reuse w
      (w\<lparr>broker := b, relays := (relays w)(i := (ms, if ok then Some (MsgID m) else None))\<rparr>)"
| marks: "relays w i = (ms, Some k) \<Longrightarrow> MarkOutboxProcessed k (db w) = (d, ok) \<Longrightarrow>
    outbox_step marshal reuse w (w\<lparr>db := d, relays := (relays w)(i := (ms, None))\<rparr>)"
| stops: "outbox_step marshal reuse w (w\<lparr>relays := (relays w)(i := ([], None))\<rparr>)"
| purges: "outbox_step marshal reuse w (w\<lparr>db := PurgeProcessedOutbox (db w)\<rparr>)"
| outage: "outbox_step marshal reuse w (w\<lparr>broker := (broker w)\<lparr>failNext := f\<rparr>\<rparr>)"
| delivers: "m \<in> set (published (broker w)) \<Longrightarrow> Handle m (consumer w) = (c, ok) \<Longrightarrow>
    outbox_step marshal reuse w (w\<lparr>consumer := c\<rparr>)"

inductive_cases outbox_step_elim: "outbox_step marshal reuse w w'"

text \<open>The event of an order that is stored, and what the parts of the system know of events.\<close>

definition event_of :: "('m Order \<Rightarrow> string option) \<Rightarrow> 'm DB \<Rightarrow> OutboxMessage \<Rightarrow> bool" where
  "event_of marshal d m \<longleftrightarrow>
     (\<exists>oid order. MsgID m = event_id oid \<and> orders d oid = Some order \<and> marshal order = Some (Payload m))"

definition announced :: "MockBroker \<Rightarrow> string \<Rightarrow> bool" where
  "announced b k \<longleftrightarrow> k \<in> MsgID ` set (published b)"

definition outbox_ok :: "('m Order \<Rightarrow> string option) \<Rightarrow> 'm DB \<Rightarrow> MockBroker \<Rightarrow> bool" where
  "outbox_ok marshal d b \<longleftrightarrow>
     (\<forall>k m. outbox d k = Some m \<longrightarrow>
        MsgID m = k \<and> event_of marshal d m \<and> (MsgStatus m = MsgProcessed \<longrightarrow> announced b k)) \<and>
     (\<forall>m \<in> set (published b). event_of marshal d m) \<and>
     (\<forall>oid. orders d oid \<noteq> None \<longrightarrow> outbox d (event_id oid) \<noteq> None \<or> announced b (event_id oid))"

definition relay_ok :: "('m Order \<Rightarrow> string option) \<Rightarrow> 'm DB \<Rightarrow> MockBroker \<Rightarrow> OutboxMessage list \<times> string option \<Rightarrow> bool" where
  "relay_ok marshal d b r \<longleftrightarrow>
     (\<forall>m \<in> set (fst r). event_of marshal d m) \<and> (\<forall>k. snd r = Some k \<longrightarrow> announced b k)"

definition consumer_ok :: "MockBroker \<Rightarrow> Consumer \<Rightarrow> bool" where
  "consumer_ok b c \<longleftrightarrow> set (received c) \<subseteq> set (published b) \<and>
     processedIDs c = MsgID ` set (received c) \<and> distinct (map MsgID (received c))"

definition outbox_inv :: "('m Order \<Rightarrow> string option) \<Rightarrow> 'm outbox_world \<Rightarrow> bool" where
  "outbox_inv marshal w \<longleftrightarrow> outbox_ok marshal (db w) (broker w) \<and>
     (\<forall>i. relay_ok marshal (db w) (broker w) (relays w i)) \<and> consumer_ok (broker w) (consumer w)"

lemma event_of_create:
  assumes "event_of marshal d m" and "orders d oid = None"
  shows "event_of marshal (d\<lparr>orders := (orders d)(oid \<mapsto> ord), outbox := ob\<rparr>) m"
  using assms by (fastforce simp: event_of_def)

lemma event_of_outbox [simp]: "event_of marshal (d\<lparr>outbox := ob\<rparr>) m = event_of marshal d m"
  by (simp add: event_of_def)

lemma announced_published [simp]: "announced (b\<lparr>published := published b @ [m]\<rparr>) k \<longleftrightarrow> announced b k \<or> k = MsgID m"
  by (auto simp: announced_def)

lemma announced_failNext [simp]: "announced (b\<lparr>failNext := f\<rparr>) k = announced b k"
  by (simp add: announced_def)

lemma create_ok:
  assumes "outbox_ok marshal d b" and "orders d oid = None"
    and "CreateOrderWithOutbox marshal now oid cid am d = (d', e)"
  shows "outbox_ok marshal d' b \<and> (\<forall>m. event_of marshal d m \<longrightarrow> event_of marshal d' m)"
proof (cases "marshal \<lparr>OrderID = oid, CustomerID = cid, Amount = am, OrderState = OrderCreated\<rparr>")
  case None
  with Create_cases [where marshal = marshal and oid = oid and cid = cid and am = am and now = now and db = d] assms show ?thesis by simp
next
  case (Some payload)
  let ?o = "\<lparr>OrderID = oid, CustomerID = cid, Amount = am, OrderState = OrderCreated\<rparr>"
  let ?m = "\<lparr>MsgID = event_id oid, EventType = ''OrderCreated'', Payload = payload, MsgStatus = MsgPending, CreatedAt = now\<rparr>"
  from Some Create_cases [where marshal = marshal and oid = oid and cid = cid and am = am and now = now and db = d] assms(3)
  have d': "d' = d\<lparr>orders := (orders d)(oid \<mapsto> ?o), outbox := (outbox d)(event_id oid \<mapsto> ?m)\<rparr>" by simp
  have keep: "event_of marshal d' m" if "event_of marshal d m" for m
    unfolding d' by (rule event_of_create [OF that assms(2)])
  have "event_of marshal d' ?m" using Some unfolding d' by (auto simp: event_of_def)
  then have "outbox_ok marshal d' b"
    using assms(1) keep unfolding outbox_ok_def by (auto simp: d' split: if_splits)
  with keep show ?thesis by blast
qed


lemma mark_ok:
  assumes "outbox_ok marshal d b" and "announced b k" and "MarkOutboxProcessed k d = (d', ok)"
  shows "outbox_ok marshal d' b \<and> orders d' = orders d"
proof (cases "outbox d k")
  case None
  with assms show ?thesis by (simp add: MarkOutboxProcessed_def)
next
  case (Some m)
  with assms(3) have d': "d' = d\<lparr>outbox := (outbox d)(k \<mapsto> m\<lparr>MsgStatus := MsgProcessed\<rparr>)\<rparr>"
    by (simp add: MarkOutboxProcessed_def)
  from assms(1) Some have "MsgID m = k" "event_of marshal d m" by (auto simp: outbox_ok_def)
  then have "event_of marshal d (m\<lparr>MsgStatus := MsgProcessed\<rparr>)" by (simp add: event_of_def)
  with \<open>MsgID m = k\<close> assms(1,2) show ?thesis unfolding outbox_ok_def by (auto simp: d' split: if_splits)
qed

lemma purge_ok: "outbox_ok marshal d b \<Longrightarrow> outbox_ok marshal (PurgeProcessedOutbox d) b"
  by (fastforce simp: outbox_ok_def PurgeProcessedOutbox_def split: option.splits if_splits)

lemma publish_ok:
  assumes "outbox_ok marshal d b" and "event_of marshal d m" and "Publish m b = (b', ok)"
  shows "outbox_ok marshal d b' \<and> set (published b) \<subseteq> set (published b') \<and> (ok \<longrightarrow> announced b' (MsgID m))"
  using assms by (auto simp: Publish_def outbox_ok_def announced_def split: if_splits)

lemma relay_ok_mono:
  "relay_ok marshal d b r \<Longrightarrow> (\<And>m. event_of marshal d m \<Longrightarrow> event_of marshal d' m) \<Longrightarrow>
    set (published b) \<subseteq> set (published b') \<Longrightarrow> relay_ok marshal d' b' r"
  unfolding relay_ok_def announced_def by (metis image_mono subsetD)

lemma handle_ok:
  "consumer_ok b c \<Longrightarrow> m \<in> set (published b) \<Longrightarrow> Handle m c = (c', ok) \<Longrightarrow>
    consumer_ok b c' \<and> MsgID m \<in> processedIDs c' \<and> processedIDs c \<subseteq> processedIDs c'"
  by (auto simp: consumer_ok_def Handle_def split: if_splits)

lemma pending_events: "outbox_ok marshal d b \<Longrightarrow> GetPendingOutbox d ms \<Longrightarrow> m \<in> set ms \<Longrightarrow> event_of marshal d m"
  by (auto simp: outbox_ok_def GetPendingOutbox_def)

lemma pending_ids:
  assumes "outbox_ok marshal d b" and "GetPendingOutbox d ms"
  shows "MsgID ` set ms = {k. \<exists>m. outbox d k = Some m \<and> MsgStatus m = MsgPending}"
proof -
  from assms(2) obtain ids where ids: "set ids = {k. \<exists>m. outbox d k = Some m \<and> MsgStatus m = MsgPending}"
    "ms = map (\<lambda>k. the (outbox d k)) ids" by (auto simp: GetPendingOutbox_def)
  have "MsgID (the (outbox d k)) = k" if "k \<in> set ids" for k
    using that ids(1) assms(1) by (auto simp: outbox_ok_def)
  then have "MsgID ` set ms = set ids" by (simp add: ids(2) image_image)
  with ids(1) show ?thesis by simp
qed

lemma outbox_init_inv: "outbox_init w \<Longrightarrow> outbox_inv marshal w"
  by (simp add: outbox_init_def outbox_inv_def outbox_ok_def relay_ok_def consumer_ok_def NewDB_def)

lemma outbox_step_inv:
  assumes inv: "outbox_inv marshal w" and "outbox_step marshal False w w'"
  shows "outbox_inv marshal w'"
proof -
  from inv have o: "outbox_ok marshal (db w) (broker w)" and c: "consumer_ok (broker w) (consumer w)"
    and r: "relay_ok marshal (db w) (broker w) (relays w i)" for i
    by (auto simp: outbox_inv_def)
  from assms(2) show ?thesis
  proof cases
    case (creates oid now cid am d e)
    with create_ok [OF o, of oid now cid am d e]
    have "outbox_ok marshal d (broker w)" "\<And>m. event_of marshal (db w) m \<Longrightarrow> event_of marshal d m" by auto
    with r c relay_ok_mono show ?thesis unfolding creates(1) outbox_inv_def
      by (metis (no_types, lifting) order_refl outbox_world.select_convs outbox_world.surjective outbox_world.update_convs(1))
  next
    case (polls i ms)
    then show ?thesis using o c r pending_events [OF o polls(3)] by (auto simp: outbox_inv_def relay_ok_def)
  next
    case (publishes i m ms b ok)
    have m: "event_of marshal (db w) m" using r [of i] publishes(2) by (simp add: relay_ok_def)
    from publish_ok [OF o m publishes(3)]
    have b: "outbox_ok marshal (db w) b" "set (published (broker w)) \<subseteq> set (published b)"
      "ok \<longrightarrow> announced b (MsgID m)" by auto
    have "relay_ok marshal (db w) b (relays w j)" for j by (rule relay_ok_mono [OF r _ b(2)])
    moreover have "relay_ok marshal (db w) b (ms, if ok then Some (MsgID m) else None)"
      using r [of i] publishes(2) b by (auto simp: relay_ok_def)
    moreover have "consumer_ok b (consumer w)" using c b(2) by (auto simp: consumer_ok_def)
    ultimately show ?thesis using b(1) by (cases ok) (simp_all add: publishes(1) outbox_inv_def)
  next
    case (marks i ms k d ok)
    have k: "announced (broker w) k" using r [of i] marks(2) by (simp add: relay_ok_def)
    from mark_ok [OF o k marks(3)] have d: "outbox_ok marshal d (broker w)" "orders d = orders (db w)" by auto
    then have "relay_ok marshal d (broker w) (relays w j)" for j
      by (intro relay_ok_mono [OF r]) (simp_all add: event_of_def)
    moreover from this [of i] have "relay_ok marshal d (broker w) (ms, None)"
      unfolding marks(2) by (simp add: relay_ok_def)
    ultimately show ?thesis using d(1) c by (simp add: marks(1) outbox_inv_def)
  next
    case (stops i)
    then show ?thesis using o c r by (simp add: outbox_inv_def relay_ok_def)
  next
    case purges
    have "event_of marshal (PurgeProcessedOutbox (db w)) m = event_of marshal (db w) m" for m
      by (simp add: PurgeProcessedOutbox_def)
    then have "relay_ok marshal (PurgeProcessedOutbox (db w)) (broker w) (relays w j)" for j
      by (intro relay_ok_mono [OF r]) simp_all
    then show ?thesis using purge_ok [OF o] c by (simp add: purges outbox_inv_def)
  next
    case (outage f)
    then show ?thesis using o c r by (simp add: outbox_inv_def outbox_ok_def relay_ok_def consumer_ok_def)
  next
    case (delivers m c' ok)
    then show ?thesis using o r handle_ok [OF c delivers(2,3)] by (simp add: outbox_inv_def)
  qed
qed

interpretation delivery: guarded_system outbox_init "outbox_step marshal False" "outbox_inv marshal" for marshal
  by unfold_locales (rule outbox_init_inv, assumption, rule outbox_step_inv)


text \<open>The naive double write leaves an order whose event the broker never got.\<close>

lemma naive_dual_write:
  "failNext b \<Longrightarrow> \<exists>d. CreateOrderDualWriteNaive text now oid cid am d0 b =
      (d, b\<lparr>failNext := False\<rparr>, Some BrokerUnavailable) \<and> orders d oid \<noteq> None \<and> outbox d = outbox d0"
  by (simp add: CreateOrderDualWriteNaive_def SaveOrder_def BeginTx_def Commit_def Publish_def)

section \<open>A whole poll\<close>

lemma dispatch_all_result:
  assumes "\<not> failNext b" and "\<forall>m \<in> set ms. outbox d (MsgID m) \<noteq> None"
  shows "dispatch_all ms d b =
    (d\<lparr>outbox := (\<lambda>k. if k \<in> MsgID ` set ms then map_option (\<lambda>m. m\<lparr>MsgStatus := MsgProcessed\<rparr>) (outbox d k)
                  else outbox d k)\<rparr>,
     b\<lparr>published := published b @ ms\<rparr>, length ms)"
  using assms
proof (induction ms arbitrary: d b)
  case Nil
  then show ?case by simp
next
  case (Cons m ms)
  from Cons.prems(2) obtain x where x: "outbox d (MsgID m) = Some x" by auto
  let ?d = "d\<lparr>outbox := (outbox d)(MsgID m \<mapsto> x\<lparr>MsgStatus := MsgProcessed\<rparr>)\<rparr>"
  let ?b = "b\<lparr>published := published b @ [m]\<rparr>"
  have "\<forall>m' \<in> set ms. outbox ?d (MsgID m') \<noteq> None" "\<not> failNext ?b" using Cons.prems by auto
  from Cons.IH [OF this(2,1)] x Cons.prems(1) show ?case
    by (auto simp: Publish_def MarkOutboxProcessed_def fun_eq_iff)
qed

definition deliver_all :: "OutboxMessage list \<Rightarrow> Consumer \<Rightarrow> Consumer" where
  "deliver_all ms c = fold (\<lambda>m c. fst (Handle m c)) ms c"

lemma deliver_all_ok:
  assumes "consumer_ok b c" and "set ms \<subseteq> set (published b)"
  shows "consumer_ok b (deliver_all ms c) \<and> MsgID ` set ms \<union> processedIDs c \<subseteq> processedIDs (deliver_all ms c)"
  using assms unfolding deliver_all_def
proof (induction ms arbitrary: c)
  case (Cons m ms)
  obtain c' ok where h: "Handle m c = (c', ok)" by (cases "Handle m c") simp
  from handle_ok [OF Cons.prems(1) _ h] Cons.prems(2)
  have "consumer_ok b c'" "MsgID m \<in> processedIDs c'" "processedIDs c \<subseteq> processedIDs c'" by auto
  with Cons.IH [of c'] Cons.prems(2) show ?case by (auto simp: h)
qed simp

section \<open>Properties\<close>

lemma reachable_parts:
  assumes "reachable outbox_init (outbox_step marshal False) w"
  shows "outbox_ok marshal (db w) (broker w)" and "consumer_ok (broker w) (consumer w)"
  using delivery.reachable_inv [OF assms] by (simp_all add: outbox_inv_def)

lemma stored_order_event:
  assumes o: "outbox_ok marshal d b" and "orders d oid = Some order"
  shows "(\<exists>m. outbox d (event_id oid) = Some m \<and> MsgStatus m = MsgPending \<and> marshal order = Some (Payload m)) \<or>
    announced b (event_id oid)"
proof (cases "outbox d (event_id oid)")
  case None
  with assms show ?thesis by (auto simp: outbox_ok_def)
next
  case (Some m)
  with o have m: "MsgID m = event_id oid" "event_of marshal d m"
    "MsgStatus m = MsgProcessed \<longrightarrow> announced b (event_id oid)" by (auto simp: outbox_ok_def)
  then have "marshal order = Some (Payload m)" using assms(2) by (auto simp: event_of_def)
  with Some m(3) show ?thesis by (cases "MsgStatus m") auto
qed

lemma announced_event:
  assumes "\<forall>m \<in> set (published b). event_of marshal d m" and "announced b (event_id oid)" and "orders d oid = Some order"
  shows "\<exists>m \<in> set (published b). MsgID m = event_id oid \<and> marshal order = Some (Payload m)"
proof -
  from assms(2) obtain m where m: "m \<in> set (published b)" "MsgID m = event_id oid" by (auto simp: announced_def)
  with assms(1,3) have "marshal order = Some (Payload m)" by (fastforce simp: event_of_def)
  with m show ?thesis by blast
qed

text \<open>A poll that runs through publishes what was pending and leaves nothing pending.\<close>

lemma poll_effect:
  assumes o: "outbox_ok marshal d0 b0" and p: "GetPendingOutbox d0 ms" and "\<not> failNext b0"
    and e: "dispatch_all ms d0 b0 = (d, b, n)"
  shows "published b = published b0 @ ms" and "n = length ms" and "orders d = orders d0"
    and "GetPendingOutbox d []" and "\<forall>m \<in> set (published b). event_of marshal d m"
proof -
  note pend = pending_ids [OF o p]
  have "outbox d0 (MsgID m) \<noteq> None" if "m \<in> set ms" for m
  proof -
    from that have "MsgID m \<in> MsgID ` set ms" by simp
    then show ?thesis unfolding pend by auto
  qed
  then have "\<forall>m \<in> set ms. outbox d0 (MsgID m) \<noteq> None" by blast
  note r = dispatch_all_result [OF assms(3) this]
  show b: "published b = published b0 @ ms" "n = length ms" and d: "orders d = orders d0"
    using e unfolding r by auto
  have "outbox d = (\<lambda>k. if k \<in> MsgID ` set ms then map_option (\<lambda>m. m\<lparr>MsgStatus := MsgProcessed\<rparr>) (outbox d0 k)
       else outbox d0 k)"
    using e unfolding r by auto
  then show "GetPendingOutbox d []"
    unfolding GetPendingOutbox_def pend by (auto split: if_splits)
  have "event_of marshal d0 m" if "m \<in> set (published b)" for m
    using that b(1) o pending_events [OF o p] by (auto simp: outbox_ok_def)
  then show "\<forall>m \<in> set (published b). event_of marshal d m" using d by (simp add: event_of_def)
qed

text \<open>What was announced the consumer receives once, when the broker hands over all it has.\<close>

lemma delivered_once:
  assumes c0: "consumer_ok b c0" and "announced b i"
  shows "\<exists>m \<in> set (published b). m \<in> set (received (deliver_all (published b) c0)) \<and> MsgID m = i"
    and "\<exists>!m. m \<in> set (received (deliver_all (published b) c0)) \<and> MsgID m = i"
proof -
  let ?c = "deliver_all (published b) c0"
  from deliver_all_ok [OF c0 order_refl]
  have c: "consumer_ok b ?c" "MsgID ` set (published b) \<subseteq> processedIDs ?c" by auto
  with assms(2) obtain m where m: "m \<in> set (received ?c)" "MsgID m = i"
    by (auto simp: consumer_ok_def announced_def)
  then show "\<exists>m \<in> set (published b). m \<in> set (received ?c) \<and> MsgID m = i"
    using c(1) by (auto simp: consumer_ok_def)
  show "\<exists>!m. m \<in> set (received ?c) \<and> MsgID m = i"
    by (rule ex1I [of _ m]) (use c(1) m in \<open>auto simp: consumer_ok_def distinct_map inj_on_def\<close>)
qed

text \<open>A shop with one order, whose event is pending.\<close>

definition first_order :: "nat Order" where
  "first_order = \<lparr>OrderID = ''1'', CustomerID = ''c'', Amount = 5, OrderState = OrderCreated\<rparr>"

definition first_event :: OutboxMessage where
  "first_event = \<lparr>MsgID = event_id ''1'', EventType = ''OrderCreated'', Payload = ''c'', MsgStatus = MsgPending,
     CreatedAt = 0\<rparr>"

definition one_order :: "nat outbox_world" where
  "one_order = \<lparr>db = \<lparr>orders = [''1'' \<mapsto> first_order], outbox = [event_id ''1'' \<mapsto> first_event]\<rparr>,
     broker = \<lparr>published = [], failNext = False\<rparr>, relays = (\<lambda>_. ([], None)),
     consumer = \<lparr>processedIDs = {}, received = []\<rparr>\<rparr>"

lemma one_order_reachable:
  "reachable outbox_init (outbox_step (\<lambda>ord. Some (CustomerID ord)) reuse) one_order"
proof -
  let ?w = "one_order\<lparr>db := NewDB\<rparr>"
  have "reachable outbox_init (outbox_step (\<lambda>ord. Some (CustomerID ord)) reuse) ?w"
    by (rule reachable.start) (simp add: outbox_init_def one_order_def)
  moreover have "outbox_step (\<lambda>ord. Some (CustomerID ord)) reuse ?w one_order"
    using outbox_step.creates [of reuse ?w "''1''" "\<lambda>ord. Some (CustomerID ord)" 0 "''c''" 5 "db one_order" None]
    by (simp add: one_order_def NewDB_def first_order_def first_event_def CreateOrderWithOutbox_def SaveOrder_def
        SaveOutbox_def BeginTx_def Commit_def)
  ultimately show ?thesis by (rule reachable.move)
qed

lemma one_order_pending: "GetPendingOutbox (db one_order) [first_event]"
  unfolding GetPendingOutbox_def
  by (rule exI [of _ "[event_id ''1'']"]) (auto simp: one_order_def first_event_def)





text \<open>
  An order identifier that is used again loses an event: the second order replaces the first
  one and its event, a relay that polled before marks the new event as processed after it has
  published the old one, and the new order's event is never published.
\<close>

lemma reused_order_id_loses_event:
  "\<exists>w :: nat outbox_world. \<exists>order. reachable outbox_init (outbox_step (\<lambda>ord. Some (CustomerID ord)) True) w \<and>
     orders (db w) ''1'' = Some order \<and> CustomerID order = ''d'' \<and>
     GetPendingOutbox (db w) [] \<and> list_all (\<lambda>m. Payload m = ''c'') (published (broker w))"
proof -
  let ?step = "outbox_step (\<lambda>ord :: nat Order. Some (CustomerID ord)) True"
  let ?o = "first_order\<lparr>CustomerID := ''d''\<rparr>" and ?m = "first_event\<lparr>Payload := ''d''\<rparr>"
  let ?d = "\<lparr>orders = [''1'' \<mapsto> ?o], outbox = [event_id ''1'' \<mapsto> ?m]\<rparr>"
  let ?w1 = "one_order\<lparr>relays := (relays one_order)(0 := ([first_event], None))\<rparr>"
  let ?w2 = "?w1\<lparr>db := ?d\<rparr>"
  let ?b = "\<lparr>published = [first_event], failNext = False\<rparr>"
  let ?w3 = "?w2\<lparr>broker := ?b, relays := (relays ?w2)(0 := ([], Some (MsgID first_event)))\<rparr>"
  let ?d4 = "?d\<lparr>outbox := [event_id ''1'' \<mapsto> ?m\<lparr>MsgStatus := MsgProcessed\<rparr>]\<rparr>"
  let ?w4 = "?w3\<lparr>db := ?d4, relays := (relays ?w3)(0 := ([], None))\<rparr>"
  have "?step one_order ?w1"
    using outbox_step.polls [OF _ one_order_pending, of 0] by (simp add: one_order_def)
  moreover have "?step ?w1 ?w2"
    using outbox_step.creates [of True ?w1 "''1''" "\<lambda>ord. Some (CustomerID ord)" 0 "''d''" 5 ?d None]
    by (simp add: one_order_def first_order_def first_event_def CreateOrderWithOutbox_def SaveOrder_def
        SaveOutbox_def BeginTx_def Commit_def)
  moreover have "?step ?w2 ?w3"
    using outbox_step.publishes [of ?w2 0 first_event "[]" ?b True] by (simp add: one_order_def Publish_def)
  moreover have "?step ?w3 ?w4"
    using outbox_step.marks [of ?w3 0 "[]" "MsgID first_event" ?d4 True]
    by (simp add: one_order_def MarkOutboxProcessed_def first_event_def)
  ultimately have "reachable outbox_init ?step ?w4"
    using one_order_reachable by (meson reachable.move)
  moreover have "GetPendingOutbox (db ?w4) []" by (auto simp: GetPendingOutbox_def)
  ultimately show ?thesis by (intro exI [of _ ?w4] exI [of _ ?o]) (simp add: first_event_def)
qed

end
