(* ===== verification/Inventory.thy ===== *)
theory Inventory
  imports Systems GoInt
begin

text \<open>
  Lab 23, \<^verbatim>\<open>labs/23-optimistic-vs-pessimistic-locking/internal/inventory\<close>: the four ways of
  taking goods out of stock (\<open>store.go\<close>), the retrying caller (\<open>service.go\<close>), and any number of
  them side by side. A deduction that reads in one critical section and writes in another is
  two steps; what it read is kept in between.
\<close>

section \<open>The store\<close>

record Product =
  ProductID :: int
  ProductName :: string
  Stock :: int
  Version :: int

record Store =
  products :: "int \<rightharpoonup> Product"
  NaivelyDrawn :: int
  Pessimistically :: int
  Optimistically :: int
  OptimisticFails :: int
  Atomically :: int

datatype deduct_error = ErrNotFound | ErrInsufficientStock | ErrOptimisticLock | ErrInvalidQuantity

definition NewStore :: Store where
  "NewStore = \<lparr>products = Map.empty, NaivelyDrawn = 0, Pessimistically = 0, Optimistically = 0,
     OptimisticFails = 0, Atomically = 0\<rparr>"

definition Seed :: "int \<Rightarrow> string \<Rightarrow> int \<Rightarrow> Store \<Rightarrow> Store" where
  "Seed i name n s =
     s\<lparr>products := (products s)(i \<mapsto> \<lparr>ProductID = i, ProductName = name, Stock = n, Version = 1\<rparr>)\<rparr>"

text \<open>The read phase of the naive and of the optimistic deduction, with the checks before and after.\<close>

definition read_phase :: "int \<Rightarrow> int \<Rightarrow> Store \<Rightarrow> (deduct_error, Product) res" where
  "read_phase i qty s =
     (if qty \<le> 0 then Inl ErrInvalidQuantity
      else (case products s i of
              None \<Rightarrow> Inl ErrNotFound
            | Some p \<Rightarrow> if Stock p < qty then Inl ErrInsufficientStock else Inr p))"

text \<open>The naive write; a product that is missing here is a nil pointer, and the call panics (\<open>None\<close>).\<close>

definition naive_write :: "int \<Rightarrow> int \<Rightarrow> Product \<Rightarrow> Store \<Rightarrow> Store option" where
  "naive_write i qty p s =
     (case products s i of
        None \<Rightarrow> None
      | Some cur \<Rightarrow>
          Some (s\<lparr>products := (products s)(i \<mapsto> cur\<lparr>Stock := sub64 (Stock p) qty\<rparr>),
                  NaivelyDrawn := add64 (NaivelyDrawn s) qty\<rparr>))"

definition optimistic_write :: "int \<Rightarrow> int \<Rightarrow> Product \<Rightarrow> Store \<Rightarrow> Store \<times> deduct_error option" where
  "optimistic_write i qty p s =
     (case products s i of
        None \<Rightarrow> (s, Some ErrNotFound)
      | Some cur \<Rightarrow>
          (if Version cur \<noteq> Version p
           then (s\<lparr>OptimisticFails := add64 (OptimisticFails s) 1\<rparr>, Some ErrOptimisticLock)
           else (s\<lparr>products := (products s)(i \<mapsto> cur\<lparr>Stock := sub64 (Stock cur) qty,
                                                Version := add64 (Version cur) 1\<rparr>),
                   Optimistically := add64 (Optimistically s) qty\<rparr>, None)))"

text \<open>\<open>PessimisticDeduct\<close> with the row lock held, and \<open>AtomicDeduct\<close>: one critical section each.\<close>

definition pessimistic_body :: "int \<Rightarrow> int \<Rightarrow> Store \<Rightarrow> Store \<times> deduct_error option" where
  "pessimistic_body i qty s =
     (case products s i of
        None \<Rightarrow> (s, Some ErrNotFound)
      | Some p \<Rightarrow>
          (if Stock p < qty then (s, Some ErrInsufficientStock)
           else (s\<lparr>products := (products s)(i \<mapsto> p\<lparr>Stock := sub64 (Stock p) qty\<rparr>),
                   Pessimistically := add64 (Pessimistically s) qty\<rparr>, None)))"

definition AtomicDeduct :: "int \<Rightarrow> int \<Rightarrow> Store \<Rightarrow> Store \<times> deduct_error option" where
  "AtomicDeduct i qty s =
     (if qty \<le> 0 then (s, Some ErrInvalidQuantity)
      else (case products s i of
              None \<Rightarrow> (s, Some ErrNotFound)
            | Some cur \<Rightarrow>
                (if Stock cur < qty then (s, Some ErrInsufficientStock)
                 else (s\<lparr>products := (products s)(i \<mapsto> cur\<lparr>Stock := sub64 (Stock cur) qty\<rparr>),
                         Atomically := add64 (Atomically s) qty\<rparr>, None))))"

text \<open>
  \<open>DeductOptimisticWithRetry\<close>: \<open>results k\<close> is what the \<open>k\<close>-th attempt returns. The last argument
  of the loop counts the attempts that its condition still allows.
\<close>

fun retry_loop :: "(nat \<Rightarrow> deduct_error option) \<Rightarrow> int \<Rightarrow> nat \<Rightarrow> nat \<Rightarrow> deduct_error option" where
  "retry_loop results maxRetries attempt 0 = Some ErrOptimisticLock"
| "retry_loop results maxRetries attempt (Suc left) =
     (case results attempt of
        None \<Rightarrow> None
      | Some e \<Rightarrow>
          (if e \<noteq> ErrOptimisticLock then Some e
           else if int attempt = maxRetries then Some ErrOptimisticLock
           else retry_loop results maxRetries (Suc attempt) left))"

definition DeductOptimisticWithRetry :: "(nat \<Rightarrow> deduct_error option) \<Rightarrow> int \<Rightarrow> deduct_error option" where
  "DeductOptimisticWithRetry results maxRetries = retry_loop results maxRetries 0 (nat (maxRetries + 1))"

section \<open>Side by side\<close>

datatype deduction = Naive | Pessimistic | Optimistic | Atomic

text \<open>
  The store, the deductions between their read and their write, the rows that are locked with
  the quantity their holder wants, and two ghosts: what was sold of each product, and how many
  optimistic writes went through. \<open>ways\<close> are the methods in use.
\<close>

record market =
  store :: Store
  reading :: "(deduction \<times> int \<times> int \<times> Product) list"
  locked :: "int \<rightharpoonup> int"
  sold :: "int \<Rightarrow> int"
  commits :: nat

definition market_init :: "(int \<rightharpoonup> int) \<Rightarrow> market \<Rightarrow> bool" where
  "market_init stock0 w \<longleftrightarrow> reading w = [] \<and> locked w = Map.empty \<and> sold w = (\<lambda>_. 0) \<and> commits w = 0 \<and>
     (\<forall>i. stock0 i = map_option Stock (products (store w) i)) \<and>
     (\<forall>i p. products (store w) i = Some p \<longrightarrow> 0 \<le> Stock p \<and> Stock p \<le> max64 \<and> Version p = 1)"

definition sale :: "int \<Rightarrow> int \<Rightarrow> deduct_error option \<Rightarrow> (int \<Rightarrow> int) \<Rightarrow> int \<Rightarrow> int" where
  "sale i qty e f = (if e = None then f(i := f i + qty) else f)"

inductive market_step :: "deduction set \<Rightarrow> market \<Rightarrow> market \<Rightarrow> bool" for ways :: "deduction set" where
  reads: "m \<in> ways \<Longrightarrow> m = Naive \<or> m = Optimistic \<Longrightarrow> read_phase i qty (store w) = Inr p \<Longrightarrow>
    market_step ways w (w\<lparr>reading := (m, i, qty, p) # reading w\<rparr>)"
| writes_naively: "reading w = xs @ (Naive, i, qty, p) # ys \<Longrightarrow> naive_write i qty p (store w) = Some s \<Longrightarrow>
    market_step ways w (w\<lparr>store := s, reading := xs @ ys, sold := sale i qty None (sold w)\<rparr>)"
| writes_optimistically: "reading w = xs @ (Optimistic, i, qty, p) # ys \<Longrightarrow>
    optimistic_write i qty p (store w) = (s, e) \<Longrightarrow>
    market_step ways w (w\<lparr>store := s, reading := xs @ ys, sold := sale i qty e (sold w),
      commits := if e = None then Suc (commits w) else commits w\<rparr>)"
| locks: "Pessimistic \<in> ways \<Longrightarrow> 0 < qty \<Longrightarrow> locked w i = None \<Longrightarrow>
    market_step ways w (w\<lparr>locked := (locked w)(i \<mapsto> qty)\<rparr>)"
| deducts: "locked w i = Some qty \<Longrightarrow> pessimistic_body i qty (store w) = (s, e) \<Longrightarrow>
    market_step ways w (w\<lparr>store := s, locked := (locked w)(i := None), sold := sale i qty e (sold w)\<rparr>)"
| deducts_atomically: "Atomic \<in> ways \<Longrightarrow> AtomicDeduct i qty (store w) = (s, e) \<Longrightarrow>
    market_step ways w (w\<lparr>store := s, sold := sale i qty e (sold w)\<rparr>)"

text \<open>The naive way guards nothing, and the version guards optimistic writes against each other only.\<close>

definition guarded :: "deduction set \<Rightarrow> bool" where
  "guarded ways \<longleftrightarrow> Naive \<notin> ways \<and> (Optimistic \<in> ways \<longrightarrow> ways = {Optimistic})"

definition stock_ok :: "(int \<rightharpoonup> int) \<Rightarrow> market \<Rightarrow> bool" where
  "stock_ok stock0 w \<longleftrightarrow>
     (\<forall>i. case products (store w) i of
        None \<Rightarrow> stock0 i = None
      | Some p \<Rightarrow> stock0 i = Some (Stock p + sold w i) \<and> 0 \<le> Stock p \<and> Stock p \<le> max64)"

definition read_ok :: "deduction set \<Rightarrow> (int \<rightharpoonup> Product) \<Rightarrow> deduction \<times> int \<times> int \<times> Product \<Rightarrow> bool" where
  "read_ok ways rows = (\<lambda>(m, i, qty, p).
     m \<in> ways \<and> m = Optimistic \<and> 0 < qty \<and> qty \<le> Stock p \<and>
     (\<forall>c. rows i = Some c \<longrightarrow> Version p \<le> Version c \<and> (Version p = Version c \<longrightarrow> Stock p = Stock c)))"

definition reading_ok :: "deduction set \<Rightarrow> market \<Rightarrow> bool" where
  "reading_ok ways w \<longleftrightarrow> (\<forall>x \<in> set (reading w). read_ok ways (products (store w)) x)"

definition versions_ok :: "market \<Rightarrow> bool" where
  "versions_ok w \<longleftrightarrow> (\<forall>i p. products (store w) i = Some p \<longrightarrow> 1 \<le> Version p \<and> Version p \<le> 1 + int (commits w))"

definition market_inv :: "(int \<rightharpoonup> int) \<Rightarrow> deduction set \<Rightarrow> market \<Rightarrow> bool" where
  "market_inv stock0 ways w \<longleftrightarrow> (commits w < 2 ^ 63 - 1 \<longrightarrow>
     stock_ok stock0 w \<and> reading_ok ways w \<and> versions_ok w \<and>
     (\<forall>i qty. locked w i = Some qty \<longrightarrow> 0 < qty \<and> Pessimistic \<in> ways))"

lemma market_init_inv: "market_init stock0 w \<Longrightarrow> market_inv stock0 ways w"
  by (auto simp: market_init_def market_inv_def stock_ok_def reading_ok_def versions_ok_def split: option.split)

text \<open>A deduction that takes what is there keeps the books.\<close>

lemma sub64_stock: "0 \<le> qty \<Longrightarrow> qty \<le> n \<Longrightarrow> n \<le> max64 \<Longrightarrow> sub64 n qty = n - qty"
  by (rule sub64_id) (simp add: in64_def min64_def)

text \<open>What the three parts of the invariant look at.\<close>

lemma market_same:
  assumes "products (store w') = products (store w)"
  shows "sold w' = sold w \<Longrightarrow> stock_ok stock0 w' = stock_ok stock0 w"
    and "reading w' = reading w \<Longrightarrow> reading_ok ways w' = reading_ok ways w"
    and "commits w' = commits w \<Longrightarrow> versions_ok w' = versions_ok w"
  using assms unfolding stock_ok_def reading_ok_def versions_ok_def
  by (simp_all cong: option.case_cong)

lemma stock_ok_row:
  "stock_ok stock0 w \<Longrightarrow> products (store w) i = Some p \<Longrightarrow>
     stock0 i = Some (Stock p + sold w i) \<and> 0 \<le> Stock p \<and> Stock p \<le> max64"
  unfolding stock_ok_def by (drule spec [of _ i]) simp

lemma stock_ok_deduct:
  assumes ok: "stock_ok stock0 w" and c: "products (store w) i = Some c" and q: "0 < qty" "qty \<le> Stock c"
    and w': "products (store w') = (products (store w))(i \<mapsto> c')" and c': "Stock c' = sub64 (Stock c) qty"
    and sold: "sold w' = sale i qty None (sold w)"
  shows "stock_ok stock0 w'"
  unfolding stock_ok_def
proof
  fix j
  note row = stock_ok_row [OF ok c]
  have "sub64 (Stock c) qty = Stock c - qty" using q row by (intro sub64_stock) simp_all
  then show "case products (store w') j of None \<Rightarrow> stock0 j = None
      | Some p \<Rightarrow> stock0 j = Some (Stock p + sold w' j) \<and> 0 \<le> Stock p \<and> Stock p \<le> max64"
    using row q ok [unfolded stock_ok_def, THEN spec, of j]
    by (cases "j = i"; cases "products (store w) j") (simp_all add: w' c' sold sale_def)
qed

lemma market_step_inv:
  assumes g: "guarded ways" and inv: "market_inv stock0 ways w" and s: "market_step ways w w'"
  shows "market_inv stock0 ways w'"
  unfolding market_inv_def
proof
  assume few: "commits w' < 2 ^ 63 - 1"
  have "commits w \<le> commits w'" using s by cases simp_all
  with few inv have ok: "stock_ok stock0 w" and r: "reading_ok ways w" and v: "versions_ok w"
    and l: "locked w i = Some qty \<longrightarrow> 0 < qty \<and> Pessimistic \<in> ways" for i qty
    by (auto simp: market_inv_def)
  have alone: "reading w = []" if "m \<in> ways" "m \<noteq> Optimistic" for m
  proof (cases "reading w")
    case (Cons x xs)
    with r have "Optimistic \<in> ways" by (cases x) (simp add: reading_ok_def read_ok_def)
    with g that show ?thesis by (auto simp: guarded_def)
  qed simp
  from s show "stock_ok stock0 w' \<and> reading_ok ways w' \<and> versions_ok w' \<and>
    (\<forall>i qty. locked w' i = Some qty \<longrightarrow> 0 < qty \<and> Pessimistic \<in> ways)"
  proof cases
    case (reads m i qty p)
    then have "m = Optimistic" "0 < qty" "products (store w) i = Some p" "qty \<le> Stock p"
      using g by (auto simp: guarded_def read_phase_def split: if_splits option.splits)
    then have "reading_ok ways w'"
      using r reads(2) by (simp add: reads(1) reading_ok_def read_ok_def)
    moreover have "stock_ok stock0 w'" "versions_ok w'"
      using ok v market_same(1) [of w' w stock0] market_same(3) [of w' w] by (simp_all add: reads(1))
    ultimately show ?thesis using l by (simp add: reads(1))
  next
    case (writes_naively xs i qty p ys s)
    then have False using r by (simp add: reading_ok_def read_ok_def)
    then show ?thesis ..
  next
    case (writes_optimistically xs i qty p ys s e)
    have p: "read_ok ways (products (store w)) (Optimistic, i, qty, p)"
      and rest: "reading_ok ways (w\<lparr>reading := xs @ ys\<rparr>)"
      using r writes_optimistically(2) by (simp_all add: reading_ok_def)
    from p have q: "0 < qty" "qty \<le> Stock p" and o: "Optimistic \<in> ways" by (simp_all add: read_ok_def)
    show ?thesis
    proof (cases "\<exists>c. products (store w) i = Some c \<and> Version c = Version p")
      case False
      then have e: "e \<noteq> None" "products s = products (store w)"
        using writes_optimistically(3) by (auto simp: optimistic_write_def split: option.splits if_splits)
      have "products (store w') = products (store w)" "sold w' = sold w" "commits w' = commits w"
        "reading w' = xs @ ys"
        using e by (auto simp: writes_optimistically(1) sale_def)
      then have "stock_ok stock0 w'" "reading_ok ways w'" "versions_ok w'"
        using ok rest v market_same(1,3) [of w' w] market_same(2) [of w' "w\<lparr>reading := xs @ ys\<rparr>"]
        by simp_all
      then show ?thesis using l by (simp add: writes_optimistically(1))
    next
      case True
      then obtain c where c: "products (store w) i = Some c" "Version c = Version p" by blast
      let ?c = "c\<lparr>Stock := sub64 (Stock c) qty, Version := add64 (Version c) 1\<rparr>"
      have e: "e = None" "products s = (products (store w))(i \<mapsto> ?c)"
        using writes_optimistically(3) c by (auto simp: optimistic_write_def)
      have "Stock p = Stock c" using p c by (simp add: read_ok_def)
      then have "stock_ok stock0 w'"
        using stock_ok_deduct [OF ok c(1) q(1), of w' ?c] q(2) e by (simp add: writes_optimistically(1) sale_def)
      moreover have ver: "add64 (Version c) 1 = Version c + 1" "1 \<le> Version c" "Version c \<le> 1 + int (commits w)"
      proof -
        show "1 \<le> Version c" "Version c \<le> 1 + int (commits w)" using v c(1) by (auto simp: versions_ok_def)
        then show "add64 (Version c) 1 = Version c + 1"
          using few e(1) by (intro add64_id) (simp add: writes_optimistically(1) in64_def min64_def max64_def)
      qed
      moreover have "reading_ok ways w'"
        unfolding reading_ok_def
      proof
        fix x assume "x \<in> set (reading w')"
        then have "read_ok ways (products (store w)) x"
          using rest by (auto simp: writes_optimistically(1) reading_ok_def)
        then show "read_ok ways (products (store w')) x"
          using c(1) ver by (cases x) (fastforce simp: writes_optimistically(1) e read_ok_def)
      qed
      moreover have "versions_ok w'"
        using v ver by (fastforce simp: writes_optimistically(1) e versions_ok_def)
      ultimately show ?thesis using l by (simp add: writes_optimistically(1))
    qed
  next
    case (locks qty i)
    have "stock_ok stock0 w'" "reading_ok ways w'" "versions_ok w'"
      using ok r v market_same [of w' w] by (simp_all add: locks(1))
    then show ?thesis using l locks(2,3) by (simp add: locks(1))
  next
    case (deducts i qty s e)
    have q: "0 < qty" "Pessimistic \<in> ways" using l [of i qty] deducts(2) by auto
    show ?thesis
    proof (cases e)
      case None
      then obtain c where c: "products (store w) i = Some c" "qty \<le> Stock c"
        "products s = (products (store w))(i \<mapsto> c\<lparr>Stock := sub64 (Stock c) qty\<rparr>)"
        using deducts(3) by (auto simp: pessimistic_body_def split: option.splits if_splits)
      have "stock_ok stock0 w'"
        using stock_ok_deduct [OF ok c(1) q(1) c(2), of w'] c(3) None by (simp add: deducts(1))
      then show ?thesis using alone [OF q(2)] v l c
        by (auto simp: deducts(1) reading_ok_def versions_ok_def)
    next
      case (Some x)
      then have "s = store w" using deducts(3) by (auto simp: pessimistic_body_def split: option.splits if_splits)
      with Some ok r v have "stock_ok stock0 w'" "reading_ok ways w'" "versions_ok w'"
        using market_same [of w' w] by (simp_all add: deducts(1) sale_def)
      then show ?thesis using l by (simp add: deducts(1))
    qed
  next
    case (deducts_atomically i qty s e)
    show ?thesis
    proof (cases e)
      case None
      then obtain c where c: "products (store w) i = Some c" "qty \<le> Stock c" "0 < qty"
        "products s = (products (store w))(i \<mapsto> c\<lparr>Stock := sub64 (Stock c) qty\<rparr>)"
        using deducts_atomically(3) by (auto simp: AtomicDeduct_def split: option.splits if_splits)
      have "stock_ok stock0 w'"
        using stock_ok_deduct [OF ok c(1,3,2), of w'] c(4) None by (simp add: deducts_atomically(1))
      then show ?thesis using alone [OF deducts_atomically(2)] v l c
        by (auto simp: deducts_atomically(1) reading_ok_def versions_ok_def)
    next
      case (Some x)
      then have "s = store w" using deducts_atomically(3) by (auto simp: AtomicDeduct_def split: option.splits if_splits)
      with Some ok r v have "stock_ok stock0 w'" "reading_ok ways w'" "versions_ok w'"
        using market_same [of w' w] by (simp_all add: deducts_atomically(1) sale_def)
      then show ?thesis using l by (simp add: deducts_atomically(1))
    qed
  qed
qed

text \<open>The laws of the library's systems, for the ways that guard what they write.\<close>

interpretation deductions: guarded_system "market_init stock0"
  "\<lambda>w w'. guarded ways \<and> market_step ways w w'" "market_inv stock0 ways" for stock0 ways
  by unfold_locales (blast intro: market_init_inv market_step_inv)+

lemma guarded_reachable:
  assumes "guarded ways" and "reachable (market_init stock0) (market_step ways) w"
  shows "market_inv stock0 ways w"
proof -
  have "reachable (market_init stock0) (\<lambda>w w'. guarded ways \<and> market_step ways w w') w"
    using assms(1,2) by simp
  then show ?thesis by (rule deductions.reachable_inv)
qed

section \<open>Retries\<close>

lemma retry_loop_first:
  "int attempt + int left = maxRetries + 1 \<Longrightarrow>
     retry_loop results maxRetries attempt left =
       (case find (\<lambda>k. results k \<noteq> Some ErrOptimisticLock) [attempt..<attempt + left] of
          Some k \<Rightarrow> results k | None \<Rightarrow> Some ErrOptimisticLock)"
proof (induction left arbitrary: attempt)
  case (Suc left)
  have range: "[attempt..<Suc (attempt + left)] = attempt # [Suc attempt..<Suc (attempt + left)]"
    by (simp add: upt_conv_Cons del: upt_Suc)
  show ?case
  proof (cases "results attempt = Some ErrOptimisticLock \<and> int attempt \<noteq> maxRetries")
    case True
    then show ?thesis using Suc.IH [of "Suc attempt"] Suc.prems by (simp add: range del: upt_Suc)
  next
    case False
    then have "results attempt = Some ErrOptimisticLock \<Longrightarrow> left = 0" using Suc.prems by simp
    then show ?thesis using False by (auto simp: range simp del: upt_Suc split: option.split)
  qed
qed simp

text \<open>The retrying caller returns what the first attempt returns that is not a conflict, if any.\<close>

lemma retry_first:
  "DeductOptimisticWithRetry results maxRetries =
     (case find (\<lambda>k. results k \<noteq> Some ErrOptimisticLock) [0..<nat (maxRetries + 1)] of
        Some k \<Rightarrow> results k | None \<Rightarrow> Some ErrOptimisticLock)"
  unfolding DeductOptimisticWithRetry_def
  by (cases "0 \<le> maxRetries") (simp_all add: retry_loop_first)

section \<open>Properties\<close>

text \<open>C27. Deductions that are all optimistic, or all under a lock (\<open>PessimisticDeduct\<close>,
  \<open>AtomicDeduct\<close>), never sell more than there is: at every moment of every interleaving the
  stock of a product is not negative, and with what was sold it is what was seeded.
  \<open>commits\<close> bounds the version counter, which wraps around after \<open>2 ^ 63\<close> optimistic writes.\<close>
theorem guarded_deductions_conserve:
  assumes "guarded ways" and "reachable (market_init stock0) (market_step ways) w"
    and "commits w < 2 ^ 63 - 1" and "products (store w) i = Some p"
  shows "stock0 i = Some (Stock p + sold w i) \<and> 0 \<le> Stock p"
proof -
  have "stock_ok stock0 w" using guarded_reachable [OF assms(1,2)] assms(3) by (simp add: market_inv_def)
  then show ?thesis using stock_ok_row assms(4) by blast
qed

text \<open>One product, two readers of the same version, and a write of the first of them.\<close>

definition one_product :: "int \<Rightarrow> market" where
  "one_product n = \<lparr>store = Seed 1 ''bolt'' n NewStore, reading = [], locked = Map.empty,
     sold = \<lambda>_. 0, commits = 0\<rparr>"

definition bolt :: Product where
  "bolt = \<lparr>ProductID = 1, ProductName = ''bolt'', Stock = 1, Version = 1\<rparr>"

lemma one_product_starts: "0 \<le> n \<Longrightarrow> n \<le> max64 \<Longrightarrow> market_init [1 \<mapsto> n] (one_product n)"
  by (auto simp: market_init_def one_product_def Seed_def NewStore_def)

definition both_read :: "deduction \<Rightarrow> market" where
  "both_read m = (one_product 1)\<lparr>reading := [(m, 1, 1, bolt), (m, 1, 1, bolt)]\<rparr>"

lemma both_read_reachable:
  assumes "m \<in> ways" and "m = Naive \<or> m = Optimistic"
  shows "reachable (market_init [1 \<mapsto> 1]) (market_step ways) (both_read m)"
proof -
  let ?w = "(one_product 1)\<lparr>reading := [(m, 1, 1, bolt)]\<rparr>"
  have p: "read_phase 1 1 (store (one_product 1)) = Inr bolt"
    by (simp add: read_phase_def one_product_def Seed_def NewStore_def bolt_def)
  have "reachable (market_init [1 \<mapsto> 1]) (market_step ways) (one_product 1)"
    by (rule reachable.start) (simp add: one_product_starts max64_def)
  moreover have "market_step ways (one_product 1) ?w"
    using market_step.reads [OF assms p] by (simp add: one_product_def)
  moreover have "market_step ways ?w (both_read m)"
    using market_step.reads [OF assms, of 1 1 ?w bolt] p by (simp add: both_read_def)
  ultimately show ?thesis by (blast intro: reachable.move)
qed

lemma small64: "sub64 1 1 = 0" "sub64 0 1 = - 1" "add64 1 1 = 2" "add64 0 1 = 1"
  by code_simp+

lemmas one_bolt = both_read_def one_product_def Seed_def NewStore_def bolt_def sale_def small64

definition one_sold :: market where
  "one_sold = \<lparr>store = (Seed 1 ''bolt'' 1 NewStore)\<lparr>
       products := [1 \<mapsto> bolt\<lparr>Stock := 0, Version := 2\<rparr>], Optimistically := 1\<rparr>,
     reading = [(Optimistic, 1, 1, bolt)], locked = Map.empty, sold = (\<lambda>_. 0)(1 := 1), commits = 1\<rparr>"

lemma one_sold_reachable: "reachable (market_init [1 \<mapsto> 1]) (market_step {Optimistic}) one_sold"
proof -
  have "market_step {Optimistic} (both_read Optimistic) one_sold"
    using market_step.writes_optimistically [of "both_read Optimistic" "[]" 1 1 bolt "[(Optimistic, 1, 1, bolt)]"
        "store one_sold" None "{Optimistic}"]
    by (simp add: one_bolt one_sold_def optimistic_write_def)
  then show ?thesis by (blast intro: reachable.move both_read_reachable)
qed

lemma guarded_deductions_conserve_witness:
  "Some (1::int) = Some (Stock (bolt\<lparr>Stock := 0, Version := 2\<rparr>) + sold one_sold 1)"
  using guarded_deductions_conserve [of "{Optimistic}" "[1 \<mapsto> 1]" one_sold 1 "bolt\<lparr>Stock := 0, Version := 2\<rparr>"]
    one_sold_reachable
  by (simp add: guarded_def one_sold_def)

lemma stale_write:
  assumes "reachable (market_init [1 \<mapsto> 1]) (market_step ways) w" and "products (store w) 1 = Some c"
    and "reading w = (Optimistic, 1, 1, bolt) # ys" and "Version c = 1" and "Stock c = 0"
  shows "\<exists>w p. reachable (market_init [1 \<mapsto> 1]) (market_step ways) w \<and>
    products (store w) 1 = Some p \<and> Stock p = - 1"
proof -
  obtain s e where o: "optimistic_write 1 1 bolt (store w) = (s, e)" by force
  have "market_step ways w (w\<lparr>store := s, reading := ys, sold := sale 1 1 e (sold w),
      commits := if e = None then Suc (commits w) else commits w\<rparr>)"
    using market_step.writes_optimistically [of w "[]", OF _ o] assms(3) by simp
  moreover have "products s 1 = Some (c\<lparr>Stock := - 1, Version := 2\<rparr>)"
    using o assms(2,4,5) by (auto simp: optimistic_write_def bolt_def small64)
  ultimately show ?thesis using assms(1) by (intro exI conjI) (rule reachable.move, auto)
qed

lemma atomic_oversells:
  "\<exists>w p. reachable (market_init [1 \<mapsto> 1]) (market_step {Optimistic, Atomic}) w \<and>
     products (store w) 1 = Some p \<and> Stock p = - 1"
proof -
  let ?w = "both_read Optimistic"
  obtain s e where a: "AtomicDeduct 1 1 (store ?w) = (s, e)" by force
  have "market_step {Optimistic, Atomic} ?w (?w\<lparr>store := s, sold := sale 1 1 e (sold ?w)\<rparr>)"
    by (rule market_step.deducts_atomically) (use a in simp_all)
  then have "reachable (market_init [1 \<mapsto> 1]) (market_step {Optimistic, Atomic})
      (?w\<lparr>store := s, sold := sale 1 1 e (sold ?w)\<rparr>)"
    by (blast intro: reachable.move both_read_reachable)
  moreover have "products (store (?w\<lparr>store := s, sold := sale 1 1 e (sold ?w)\<rparr>)) 1 = Some (bolt\<lparr>Stock := 0\<rparr>)"
    using a by (auto simp: AtomicDeduct_def one_bolt)
  ultimately show ?thesis
    by (rule stale_write [where ys = "[(Optimistic, 1, 1, bolt)]"]) (simp_all add: both_read_def bolt_def)
qed

lemma pessimistic_oversells:
  "\<exists>w p. reachable (market_init [1 \<mapsto> 1]) (market_step {Optimistic, Pessimistic}) w \<and>
     products (store w) 1 = Some p \<and> Stock p = - 1"
proof -
  let ?w = "(both_read Optimistic)\<lparr>locked := [1 \<mapsto> 1]\<rparr>"
  obtain s e where a: "pessimistic_body 1 1 (store ?w) = (s, e)" by force
  have "market_step {Optimistic, Pessimistic} (both_read Optimistic) ?w"
    using market_step.locks [of "{Optimistic, Pessimistic}" 1 "both_read Optimistic" 1]
    by (simp add: both_read_def one_product_def)
  moreover have "market_step {Optimistic, Pessimistic} ?w
      (?w\<lparr>store := s, locked := (locked ?w)(1 := None), sold := sale 1 1 e (sold ?w)\<rparr>)"
    by (rule market_step.deducts) (use a in simp_all)
  ultimately have "reachable (market_init [1 \<mapsto> 1]) (market_step {Optimistic, Pessimistic})
      (?w\<lparr>store := s, locked := (locked ?w)(1 := None), sold := sale 1 1 e (sold ?w)\<rparr>)"
    by (blast intro: reachable.move both_read_reachable)
  moreover have "products (store (?w\<lparr>store := s, locked := (locked ?w)(1 := None), sold := sale 1 1 e (sold ?w)\<rparr>)) 1 =
      Some (bolt\<lparr>Stock := 0\<rparr>)"
    using a by (auto simp: pessimistic_body_def one_bolt)
  ultimately show ?thesis
    by (rule stale_write [where ys = "[(Optimistic, 1, 1, bolt)]"]) (simp_all add: both_read_def bolt_def)
qed

lemma naive_oversells:
  "\<exists>w p. reachable (market_init [1 \<mapsto> 1]) (market_step {Naive}) w \<and>
     products (store w) 1 = Some p \<and> Stock p = 0 \<and> sold w 1 = 2"
proof -
  let ?drawn = "\<lambda>n. \<lparr>products = [1 \<mapsto> bolt\<lparr>Stock := 0\<rparr>], NaivelyDrawn = n, Pessimistically = 0,
     Optimistically = 0, OptimisticFails = 0, Atomically = 0\<rparr>"
  let ?w = "\<lambda>rs n. \<lparr>store = ?drawn n, reading = rs, locked = Map.empty, sold = (\<lambda>_. 0)(1 := n), commits = 0\<rparr>"
  have "market_step {Naive} (both_read Naive) (?w [(Naive, 1, 1, bolt)] 1)"
    using market_step.writes_naively [of "both_read Naive" "[]" 1 1 bolt "[(Naive, 1, 1, bolt)]" "?drawn 1" "{Naive}"]
    by (simp add: naive_write_def one_bolt)
  moreover have "market_step {Naive} (?w [(Naive, 1, 1, bolt)] 1) (?w [] 2)"
    using market_step.writes_naively [of "?w [(Naive, 1, 1, bolt)] 1" "[]" 1 1 bolt "[]" "?drawn 2" "{Naive}"]
    by (simp add: naive_write_def one_bolt)
  ultimately have "reachable (market_init [1 \<mapsto> 1]) (market_step {Naive}) (?w [] 2)"
    by (blast intro: reachable.move both_read_reachable)
  then show ?thesis by (rule_tac exI) (auto simp: bolt_def)
qed

text \<open>
  The version column guards optimistic writes against each other only: with the
  other ways beside them, and with the naive way alone, one bolt can be sold twice.
  \<open>PessimisticDeduct\<close> and \<open>AtomicDeduct\<close> leave the version as it was, so an optimistic write that
  read the row before them goes through and takes the stock below zero.\<close>
lemma unguarded_deductions_oversell:
  "(\<exists>w p. reachable (market_init [1 \<mapsto> 1]) (market_step {Optimistic, Atomic}) w \<and>
      products (store w) 1 = Some p \<and> Stock p = - 1) \<and>
   (\<exists>w p. reachable (market_init [1 \<mapsto> 1]) (market_step {Optimistic, Pessimistic}) w \<and>
      products (store w) 1 = Some p \<and> Stock p = - 1) \<and>
   (\<exists>w p. reachable (market_init [1 \<mapsto> 1]) (market_step {Naive}) w \<and>
      products (store w) 1 = Some p \<and> Stock p = 0 \<and> sold w 1 = 2)"
  by (blast intro: atomic_oversells pessimistic_oversells naive_oversells)

end
