(* ===== verification/Replicas.thy ===== *)
theory Replicas
  imports Systems
begin

text \<open>
  Lab 33, \<^verbatim>\<open>labs/33-read-replicas-and-replication-lag/internal\<close>: a primary, its replicas and the
  write-ahead log between them (\<open>cluster/cluster.go\<close>), and the reads of the router that carry a
  token (\<open>router/router.go\<close>). Every critical section and every channel operation is a step; any
  number of writers, of readers and one worker per replica run side by side.
\<close>

section \<open>Nodes\<close>

text \<open>An entry's time stamp is never read and left out; sequence numbers are \<open>uint64\<close>.\<close>

record WALEntry =
  LSN :: nat
  Key :: string
  Value :: string

text \<open>\<open>taken\<close> is the entry the replica's worker has received and is waiting to apply.\<close>

record DataNode =
  data :: "string \<rightharpoonup> string"
  appliedLSN :: nat
  walChannel :: "WALEntry list"
  taken :: "WALEntry option"

definition newNode :: DataNode where
  "newNode = \<lparr>data = Map.empty, appliedLSN = 0, walChannel = [], taken = None\<rparr>"

definition apply_entry :: "WALEntry \<Rightarrow> DataNode \<Rightarrow> DataNode" where
  "apply_entry e n = n\<lparr>data := (data n)(Key e \<mapsto> Value e), appliedLSN := LSN e\<rparr>"

text \<open>A send that does not wait: when the channel is full, the entry is dropped.\<close>

definition send :: "WALEntry \<Rightarrow> DataNode \<Rightarrow> DataNode \<times> bool" where
  "send e n = (if length (walChannel n) < 1024 then (n\<lparr>walChannel := walChannel n @ [e]\<rparr>, True) else (n, False))"

definition next_lsn :: "nat \<Rightarrow> nat" where
  "next_lsn n = (n + 1) mod 2 ^ 64"

definition pending :: "DataNode \<Rightarrow> WALEntry list" where
  "pending n = (case taken n of None \<Rightarrow> [] | Some e \<Rightarrow> [e]) @ walChannel n"

section \<open>The cluster\<close>

datatype ReplicationMode = AsyncReplication | SyncReplication

record ReplicaCluster =
  primary :: DataNode
  replicas :: "DataNode list"
  currentLSN :: nat
  replMode :: ReplicationMode
  closed :: bool

definition NewReplicaCluster :: "nat \<Rightarrow> ReplicationMode \<Rightarrow> ReplicaCluster" where
  "NewReplicaCluster n mode =
     \<lparr>primary = newNode, replicas = replicate n newNode, currentLSN = 0, replMode = mode, closed = False\<rparr>"

text \<open>
  A call of \<open>Write\<close> has its number (\<open>Allocated\<close>), then has written the primary and the first
  \<open>n\<close> replicas (\<open>Spreading n\<close>). A call of \<open>ReadWithToken\<close> looks at the replicas in turn, waits
  for the first one, or has decided where to read (\<open>None\<close>: the primary).
\<close>

datatype write_phase = Allocated | Spreading nat

datatype token_phase = Scanning nat | Waiting | Reading "nat option"

text \<open>
  The ghosts: every entry in the order of the numbers, the numbers \<open>Write\<close> has returned, the
  answers given to readers (token, key, value, sequence number), and which of three hazards have
  occurred: writes that overlap, an entry that is dropped, a switch to synchronous mode while
  entries are on their way.
\<close>

datatype hazard = Overlap | Dropped | PendingSwitch

record replication = ReplicaCluster +
  writers :: "(WALEntry \<times> write_phase) list"
  readers :: "(nat \<times> string \<times> token_phase) list"
  log :: "WALEntry list"
  acked :: "nat set"
  answers :: "(nat \<times> string \<times> string option \<times> nat) list"
  hazards :: "hazard set"

definition replication_init :: "replication \<Rightarrow> bool" where
  "replication_init w \<longleftrightarrow>
     (\<exists>n mode. w = ReplicaCluster.extend (NewReplicaCluster n mode)
        \<lparr>writers = [], readers = [], log = [], acked = {}, answers = [], hazards = {}\<rparr>)"

definition noting :: "bool \<Rightarrow> hazard \<Rightarrow> hazard set \<Rightarrow> hazard set" where
  "noting b h H = (if b then insert h H else H)"

definition target :: "replication \<Rightarrow> nat option \<Rightarrow> DataNode" where
  "target w t = (case t of None \<Rightarrow> primary w | Some i \<Rightarrow> replicas w ! i)"

inductive write_step :: "replication \<Rightarrow> replication \<Rightarrow> bool" where
  begins: "\<not> closed w \<Longrightarrow> e = \<lparr>LSN = next_lsn (currentLSN w), Key = k, Value = v\<rparr> \<Longrightarrow>
    write_step w (w\<lparr>currentLSN := LSN e, writers := writers w @ [(e, Allocated)], log := log w @ [e],
      hazards := noting (writers w \<noteq> []) Overlap (hazards w)\<rparr>)"
| writes_primary: "writers w = xs @ (e, Allocated) # ys \<Longrightarrow>
    write_step w (w\<lparr>primary := apply_entry e (primary w), writers := xs @ (e, Spreading 0) # ys\<rparr>)"
| writes_replica: "writers w = xs @ (e, Spreading i) # ys \<Longrightarrow> i < length (replicas w) \<Longrightarrow>
    replMode w = SyncReplication \<Longrightarrow>
    write_step w (w\<lparr>replicas := (replicas w)[i := apply_entry e (replicas w ! i)],
      writers := xs @ (e, Spreading (Suc i)) # ys\<rparr>)"
| sends: "writers w = xs @ (e, Spreading i) # ys \<Longrightarrow> i < length (replicas w) \<Longrightarrow>
    replMode w = AsyncReplication \<Longrightarrow> send e (replicas w ! i) = (n, sent) \<Longrightarrow>
    write_step w (w\<lparr>replicas := (replicas w)[i := n], writers := xs @ (e, Spreading (Suc i)) # ys,
      hazards := noting (\<not> sent) Dropped (hazards w)\<rparr>)"
| returns: "writers w = xs @ (e, Spreading (length (replicas w))) # ys \<Longrightarrow>
    write_step w (w\<lparr>writers := xs @ ys, acked := insert (LSN e) (acked w)\<rparr>)"
| switches: "writers w = [] \<Longrightarrow>
    write_step w (w\<lparr>replMode := mode,
      hazards := noting (mode = SyncReplication \<and> (\<exists>n \<in> set (replicas w). pending n \<noteq> [])) PendingSwitch
        (hazards w)\<rparr>)"
| closes: "writers w = [] \<Longrightarrow> write_step w (w\<lparr>closed := True\<rparr>)"

inductive worker_step :: "replication \<Rightarrow> replication \<Rightarrow> bool" where
  takes: "i < length (replicas w) \<Longrightarrow> taken (replicas w ! i) = None \<Longrightarrow> walChannel (replicas w ! i) = e # es \<Longrightarrow>
    worker_step w (w\<lparr>replicas := (replicas w)[i := (replicas w ! i)\<lparr>walChannel := es, taken := Some e\<rparr>]\<rparr>)"
| applies: "i < length (replicas w) \<Longrightarrow> taken (replicas w ! i) = Some e \<Longrightarrow>
    worker_step w (w\<lparr>replicas := (replicas w)[i := (apply_entry e (replicas w ! i))\<lparr>taken := None\<rparr>]\<rparr>)"

text \<open>The tokens are numbers that \<open>Write\<close> has returned, or 0 for a reader that wrote nothing.\<close>

inductive read_step :: "replication \<Rightarrow> replication \<Rightarrow> bool" where
  asks: "m \<in> insert 0 (acked w) \<Longrightarrow> read_step w (w\<lparr>readers := (m, k, Scanning 0) # readers w\<rparr>)"
| scans: "readers w = xs @ (m, k, Scanning i) # ys \<Longrightarrow> i < length (replicas w) \<Longrightarrow>
    read_step w (w\<lparr>readers := xs @ (m, k, if m \<le> appliedLSN (replicas w ! i) then Reading (Some i)
      else Scanning (Suc i)) # ys\<rparr>)"
| scanned: "readers w = xs @ (m, k, Scanning (length (replicas w))) # ys \<Longrightarrow>
    read_step w (w\<lparr>readers := xs @ (m, k, if replicas w = [] then Reading None else Waiting) # ys\<rparr>)"
| waited: "readers w = xs @ (m, k, Waiting) # ys \<Longrightarrow> replicas w \<noteq> [] \<Longrightarrow> m \<le> appliedLSN (replicas w ! 0) \<Longrightarrow>
    read_step w (w\<lparr>readers := xs @ (m, k, Reading (Some 0)) # ys\<rparr>)"
| gives_up: "readers w = xs @ (m, k, Waiting) # ys \<Longrightarrow>
    read_step w (w\<lparr>readers := xs @ (m, k, Reading None) # ys\<rparr>)"
| reads: "readers w = xs @ (m, k, Reading t) # ys \<Longrightarrow>
    read_step w (w\<lparr>readers := xs @ ys,
      answers := (m, k, data (target w t) k, appliedLSN (target w t)) # answers w\<rparr>)"

definition replicate_step :: "replication \<Rightarrow> replication \<Rightarrow> bool" where
  "replicate_step w w' \<longleftrightarrow> write_step w w' \<or> worker_step w w' \<or> read_step w w'"

section \<open>Without hazards\<close>

definition replay :: "WALEntry list \<Rightarrow> string \<rightharpoonup> string" where
  "replay es = foldl (\<lambda>m e. m(Key e \<mapsto> Value e)) Map.empty es"

lemma replay_snoc [simp]: "replay (es @ [e]) = (replay es)(Key e \<mapsto> Value e)"
  and replay_Nil [simp]: "replay [] = Map.empty"
  by (simp_all add: replay_def)

lemma replay_take_Suc: "n < length es \<Longrightarrow> replay (take (Suc n) es) = (replay (take n es))(Key (es ! n) \<mapsto> Value (es ! n))"
  by (simp add: take_Suc_conv_app_nth)

text \<open>A node that has applied a prefix of the log, with the rest up to \<open>n\<close> on its way.\<close>

definition follows :: "WALEntry list \<Rightarrow> nat \<Rightarrow> DataNode \<Rightarrow> bool" where
  "follows es n r \<longleftrightarrow> appliedLSN r \<le> n \<and> n \<le> length es \<and> data r = replay (take (appliedLSN r) es) \<and>
     pending r = drop (appliedLSN r) (take n es)"

definition numbered :: "WALEntry list \<Rightarrow> bool" where
  "numbered es \<longleftrightarrow> (\<forall>j < length es. LSN (es ! j) = Suc j)"

lemma numbered_snoc: "numbered es \<Longrightarrow> LSN e = Suc (length es) \<Longrightarrow> numbered (es @ [e])"
  by (simp add: numbered_def nth_append less_Suc_eq)

lemma follows_snoc: "follows es n r \<Longrightarrow> follows (es @ [e]) n r"
  by (simp add: follows_def)

lemma follows_apply:
  assumes "follows es n r" and "n < length es" and "pending r = []" and "numbered es"
  shows "follows es (Suc n) (apply_entry (es ! n) r)"
proof -
  from assms(1,3) have "appliedLSN r = n" by (auto simp: follows_def)
  with assms show ?thesis
    by (simp add: follows_def apply_entry_def numbered_def replay_take_Suc pending_def)
qed

lemma follows_send:
  assumes "follows es n r" and "n < length es" and "send (es ! n) r = (r', True)"
  shows "follows es (Suc n) r'"
  using assms
  by (auto simp: follows_def send_def pending_def take_Suc_conv_app_nth split: if_splits)

lemma follows_take:
  assumes "follows es n r" and "taken r = None" and "walChannel r = e # xs"
  shows "follows es n (r\<lparr>walChannel := xs, taken := Some e\<rparr>)"
  using assms by (simp add: follows_def pending_def)

lemma follows_taken:
  assumes "follows es n r" and "taken r = Some e" and "numbered es"
  shows "appliedLSN r < n" and "e = es ! appliedLSN r" and "LSN e = Suc (appliedLSN r)"
    and "follows es n ((apply_entry e r)\<lparr>taken := None\<rparr>)"
proof -
  from assms(1,2) have e: "e # walChannel r = drop (appliedLSN r) (take n es)" "n \<le> length es"
    by (simp_all add: follows_def pending_def)
  then show a: "appliedLSN r < n"
    by (metis drop_eq_Nil length_take list.distinct(1) min_absorb2 not_le)
  from e a have "drop (appliedLSN r) (take n es) = es ! appliedLSN r # drop (Suc (appliedLSN r)) (take n es)"
    by (simp add: Cons_nth_drop_Suc [symmetric])
  with e show e': "e = es ! appliedLSN r" by simp
  with a e assms(3) show l: "LSN e = Suc (appliedLSN r)" by (simp add: numbered_def)
  from e a e' l assms(1) show "follows es n ((apply_entry e r)\<lparr>taken := None\<rparr>)"
    by (simp add: follows_def apply_entry_def pending_def replay_take_Suc)
      (metis Cons_nth_drop_Suc length_take list.inject min_absorb2)
qed

text \<open>How far the writes have come at the primary and at replica \<open>i\<close>: one write is under way at most.\<close>

fun primary_reached :: "nat \<Rightarrow> (WALEntry \<times> write_phase) list \<Rightarrow> nat" where
  "primary_reached n ((e, Allocated) # _) = n - 1"
| "primary_reached n _ = n"

fun reached :: "nat \<Rightarrow> (WALEntry \<times> write_phase) list \<Rightarrow> nat \<Rightarrow> nat" where
  "reached n [] i = n"
| "reached n ((e, Allocated) # _) i = n - 1"
| "reached n ((e, Spreading k) # _) i = (if i < k then n else n - 1)"

definition nodes_ok :: "replication \<Rightarrow> bool" where
  "nodes_ok w \<longleftrightarrow> numbered (log w) \<and> currentLSN w = length (log w) \<and>
     (writers w = [] \<or> (\<exists>ph. log w \<noteq> [] \<and> writers w = [(last (log w), ph)])) \<and>
     follows (log w) (primary_reached (length (log w)) (writers w)) (primary w) \<and> pending (primary w) = [] \<and>
     (\<forall>i < length (replicas w). follows (log w) (reached (length (log w)) (writers w) i) (replicas w ! i) \<and>
        (replMode w = SyncReplication \<longrightarrow> pending (replicas w ! i) = []))"

definition calm :: "replication \<Rightarrow> bool" where
  "calm w \<longleftrightarrow> hazards w = {} \<and> length (log w) < 2 ^ 64"

lemma init_nodes_ok: "replication_init w \<Longrightarrow> nodes_ok w"
  by (auto simp: replication_init_def nodes_ok_def NewReplicaCluster_def ReplicaCluster.defs newNode_def numbered_def
      follows_def pending_def)

lemma noting_empty [simp]: "noting b h H = {} \<longleftrightarrow> \<not> b \<and> H = {}"
  by (simp add: noting_def)

lemma only_writer:
  "nodes_ok w \<Longrightarrow> writers w = xs @ (e, ph) # ys \<Longrightarrow> xs = [] \<and> ys = [] \<and> log w \<noteq> [] \<and> e = last (log w)"
  by (auto simp: nodes_ok_def append_eq_Cons_conv)

lemma replica_follows:
  "nodes_ok w \<Longrightarrow> i < length (replicas w) \<Longrightarrow>
     follows (log w) (reached (length (log w)) (writers w) i) (replicas w ! i) \<and>
     (replMode w = SyncReplication \<longrightarrow> pending (replicas w ! i) = [])"
  by (simp add: nodes_ok_def)

lemma write_nodes_ok:
  assumes ok: "nodes_ok w" and s: "write_step w w'" and calm: "calm w'"
  shows "nodes_ok w'"
  using s
proof cases
  case (begins e k v)
  with calm have "LSN e = Suc (length (log w))" "writers w = []"
    using ok by (simp_all add: calm_def nodes_ok_def next_lsn_def)
  then show ?thesis using ok begins
    by (simp add: nodes_ok_def numbered_snoc follows_snoc)
next
  case (writes_primary xs e ys)
  note u = only_writer [OF ok writes_primary(2)]
  let ?n = "length (log w) - 1"
  have "e = log w ! ?n" "?n < length (log w)" "Suc ?n = length (log w)" using u by (simp_all add: last_conv_nth)
  moreover have "follows (log w) ?n (primary w)" "pending (primary w) = []" "numbered (log w)"
    using ok u writes_primary(2) by (simp_all add: nodes_ok_def)
  ultimately have "follows (log w) (length (log w)) (apply_entry e (primary w))" using follows_apply by metis
  then show ?thesis using ok u writes_primary
    by (simp add: nodes_ok_def pending_def apply_entry_def)
next
  case (writes_replica xs e i ys)
  note u = only_writer [OF ok writes_replica(2)]
  let ?n = "length (log w) - 1"
  have "e = log w ! ?n" "?n < length (log w)" "Suc ?n = length (log w)" using u by (simp_all add: last_conv_nth)
  moreover have "follows (log w) ?n (replicas w ! i)" "pending (replicas w ! i) = []" "numbered (log w)"
    using ok u replica_follows [OF ok writes_replica(3)] writes_replica(2,4) by (simp_all add: nodes_ok_def)
  ultimately have "follows (log w) (length (log w)) (apply_entry e (replicas w ! i))" using follows_apply by metis
  then show ?thesis using ok u writes_replica
    by (auto simp: nodes_ok_def nth_list_update less_Suc_eq pending_def
        apply_entry_def)
next
  case (sends xs e i ys n sent)
  note u = only_writer [OF ok sends(2)]
  let ?n = "length (log w) - 1"
  have "e = log w ! ?n" "?n < length (log w)" "Suc ?n = length (log w)" using u by (simp_all add: last_conv_nth)
  moreover have "follows (log w) ?n (replicas w ! i)" "sent"
    using u replica_follows [OF ok sends(3)] sends calm by (simp_all add: calm_def)
  ultimately have "follows (log w) (length (log w)) n" using follows_send sends(5) by metis
  then show ?thesis using ok u sends
    by (auto simp: nodes_ok_def nth_list_update less_Suc_eq)
next
  case (returns xs e ys)
  note u = only_writer [OF ok returns(2)]
  show ?thesis using ok u returns by (simp add: nodes_ok_def)
next
  case (switches mode)
  then show ?thesis using ok calm
    by (auto simp: nodes_ok_def calm_def)
next
  case closes
  then show ?thesis using ok by (simp add: nodes_ok_def)
qed

lemma worker_nodes_ok:
  assumes ok: "nodes_ok w" and s: "worker_step w w'"
  shows "nodes_ok w'"
  using s
proof cases
  case (takes i e es)
  with ok have "follows (log w) (reached (length (log w)) (writers w) i) (replicas w ! i)" "replMode w \<noteq> SyncReplication"
    by (auto simp: nodes_ok_def pending_def)
  with takes ok show ?thesis
    by (auto simp: nodes_ok_def nth_list_update intro: follows_take)
next
  case (applies i e)
  with ok have "follows (log w) (reached (length (log w)) (writers w) i) (replicas w ! i)" "replMode w \<noteq> SyncReplication" "numbered (log w)"
    by (auto simp: nodes_ok_def pending_def)
  with applies ok show ?thesis
    by (auto simp: nodes_ok_def nth_list_update intro: follows_taken(4))
qed

lemma read_same:
  "read_step w w' \<Longrightarrow> log w' = log w \<and> writers w' = writers w \<and> currentLSN w' = currentLSN w \<and>
     replMode w' = replMode w \<and> primary w' = primary w \<and> replicas w' = replicas w \<and>
     acked w' = acked w \<and> hazards w' = hazards w"
  by (erule read_step.cases) simp_all

lemma read_nodes_ok: "nodes_ok w \<Longrightarrow> read_step w w' \<Longrightarrow> nodes_ok w'"
  using read_same [of w w'] by (simp add: nodes_ok_def)

text \<open>What writers and workers do: the log grows, and no node goes back.\<close>

definition grows :: "replication \<Rightarrow> replication \<Rightarrow> bool" where
  "grows w w' \<longleftrightarrow> (\<exists>es. log w' = log w @ es) \<and> appliedLSN (primary w) \<le> appliedLSN (primary w') \<and>
     length (replicas w') = length (replicas w) \<and>
     (\<forall>i < length (replicas w). appliedLSN (replicas w ! i) \<le> appliedLSN (replicas w' ! i)) \<and>
     readers w' = readers w \<and> answers w' = answers w"

lemma applied_bound: "nodes_ok w \<Longrightarrow> appliedLSN (primary w) \<le> length (log w)"
  by (auto simp: nodes_ok_def follows_def)

lemma last_number: "nodes_ok w \<Longrightarrow> writers w = [(last (log w), ph)] \<Longrightarrow> log w \<noteq> [] \<Longrightarrow>
    LSN (last (log w)) = length (log w)"
  by (simp add: nodes_ok_def numbered_def last_conv_nth)

lemma replica_bound: "nodes_ok w \<Longrightarrow> i < length (replicas w) \<Longrightarrow> appliedLSN (replicas w ! i) \<le> length (log w)"
  using replica_follows [of w i] by (simp add: follows_def)

lemma write_grows:
  assumes ok: "nodes_ok w" and s: "write_step w w'" and calm: "calm w'"
  shows "grows w w'"
  using s
proof cases
  case (writes_primary xs e ys)
  note u = only_writer [OF ok writes_primary(2)]
  then have "LSN e = length (log w)" using last_number [OF ok] writes_primary(2) by simp
  then show ?thesis using applied_bound [OF ok] by (simp add: writes_primary(1) grows_def apply_entry_def)
next
  case (writes_replica xs e i ys)
  note u = only_writer [OF ok writes_replica(2)]
  then have "LSN e = length (log w)" using last_number [OF ok] writes_replica(2) by simp
  then show ?thesis using replica_bound [OF ok writes_replica(3)] writes_replica(3)
    by (auto simp: writes_replica(1) grows_def apply_entry_def nth_list_update)
next
  case (sends xs e i ys n sent)
  then show ?thesis by (auto simp: grows_def send_def nth_list_update split: if_splits)
qed (auto simp: grows_def)

lemma worker_grows:
  assumes ok: "nodes_ok w" and s: "worker_step w w'"
  shows "grows w w'"
  using s
proof cases
  case (applies i e)
  with replica_follows [OF ok applies(2)] have "LSN e = Suc (appliedLSN (replicas w ! i))"
    using ok follows_taken(3) by (auto simp: nodes_ok_def)
  then show ?thesis using applies(2) by (auto simp: applies(1) grows_def apply_entry_def nth_list_update)
qed (auto simp: grows_def nth_list_update)

text \<open>Readers: a token is never beyond the primary, and a chosen node has what the token asks for.\<close>

definition phase_ok :: "replication \<Rightarrow> nat \<Rightarrow> token_phase \<Rightarrow> bool" where
  "phase_ok w m ph \<longleftrightarrow> m \<le> appliedLSN (primary w) \<and>
     (\<forall>i. ph = Reading (Some i) \<longrightarrow> i < length (replicas w) \<and> m \<le> appliedLSN (replicas w ! i))"

definition answer_ok :: "WALEntry list \<Rightarrow> nat \<times> string \<times> string option \<times> nat \<Rightarrow> bool" where
  "answer_ok es = (\<lambda>(m, k, v, l). m \<le> l \<and> l \<le> length es \<and> v = replay (take l es) k)"

definition readers_ok :: "replication \<Rightarrow> bool" where
  "readers_ok w \<longleftrightarrow> (\<forall>m \<in> acked w. m \<le> appliedLSN (primary w)) \<and>
     (\<forall>(m, k, ph) \<in> set (readers w). phase_ok w m ph) \<and> (\<forall>x \<in> set (answers w). answer_ok (log w) x)"

lemma grows_readers_ok:
  assumes "grows w w'" and "readers_ok w" and "\<forall>m \<in> acked w'. m \<in> acked w \<or> m \<le> appliedLSN (primary w')"
  shows "readers_ok w'"
  using assms by (fastforce simp: grows_def readers_ok_def phase_ok_def answer_ok_def)

lemma write_acked:
  assumes ok: "nodes_ok w" and s: "write_step w w'"
  shows "\<forall>m \<in> acked w'. m \<in> acked w \<or> m \<le> appliedLSN (primary w')"
  using s
proof cases
  case (returns xs e ys)
  note u = only_writer [OF ok returns(2)]
  then have "LSN e = length (log w)" using last_number [OF ok] returns(2) by simp
  moreover have "appliedLSN (primary w) = length (log w)"
    using ok u returns(2) by (auto simp: nodes_ok_def follows_def)
  ultimately show ?thesis by (simp add: returns(1))
qed auto

lemma worker_acked: "worker_step w w' \<Longrightarrow> acked w' = acked w"
  by (erule worker_step.cases) simp_all

lemma read_readers_ok:
  assumes ok: "nodes_ok w" and r: "readers_ok w" and s: "read_step w w'"
  shows "readers_ok w'"
  using s
proof cases
  case (reads xs m k t ys)
  with r have m: "phase_ok w m (Reading t)" by (auto simp: readers_ok_def)
  have "answer_ok (log w) (m, k, data (target w t) k, appliedLSN (target w t))"
  proof (cases t)
    case None
    with ok m show ?thesis by (auto simp: nodes_ok_def follows_def answer_ok_def target_def phase_ok_def)
  next
    case (Some i)
    with m have "i < length (replicas w)" "m \<le> appliedLSN (replicas w ! i)" by (auto simp: phase_ok_def)
    with replica_follows [OF ok this(1)] Some show ?thesis
      by (simp add: follows_def answer_ok_def target_def)
  qed
  with r reads show ?thesis by (auto simp: readers_ok_def phase_ok_def)
next
  case (asks m k)
  with r have "m \<le> appliedLSN (primary w)" by (auto simp: readers_ok_def)
  with r asks show ?thesis by (auto simp: readers_ok_def phase_ok_def)
qed (use r in \<open>auto simp: readers_ok_def phase_ok_def\<close>)

definition replication_inv :: "replication \<Rightarrow> bool" where
  "replication_inv w \<longleftrightarrow> (calm w \<longrightarrow> nodes_ok w \<and> readers_ok w)"

lemma init_replication_inv: "replication_init w \<Longrightarrow> replication_inv w"
  using init_nodes_ok [of w] by (auto simp: replication_inv_def readers_ok_def replication_init_def
      ReplicaCluster.defs)

lemma calm_back:
  assumes "replicate_step w w'" and "calm w'"
  shows "calm w"
proof -
  have "hazards w = {} \<and> length (log w) \<le> length (log w')"
    using assms unfolding replicate_step_def calm_def
    by (elim disjE write_step.cases worker_step.cases read_step.cases) (auto simp: noting_def split: if_splits)
  with assms(2) show ?thesis by (simp add: calm_def)
qed

lemma replication_step_inv:
  assumes inv: "replication_inv w" and s: "replicate_step w w'"
  shows "replication_inv w'"
  unfolding replication_inv_def
proof
  assume c: "calm w'"
  with inv calm_back [OF s] have ok: "nodes_ok w" and r: "readers_ok w" by (auto simp: replication_inv_def)
  from s show "nodes_ok w' \<and> readers_ok w'"
    unfolding replicate_step_def
  proof (elim disjE)
    assume s': "write_step w w'"
    have "readers_ok w'" by (rule grows_readers_ok [OF write_grows [OF ok s' c] r write_acked [OF ok s']])
    with write_nodes_ok [OF ok s' c] show ?thesis by blast
  next
    assume s': "worker_step w w'"
    have "readers_ok w'"
      by (rule grows_readers_ok [OF worker_grows [OF ok s'] r]) (simp add: worker_acked [OF s'])
    with worker_nodes_ok [OF ok s'] show ?thesis by blast
  next
    assume "read_step w w'"
    then show ?thesis using ok r read_nodes_ok read_readers_ok by blast
  qed
qed

interpretation replication: guarded_system replication_init replicate_step replication_inv
  by unfold_locales (rule init_replication_inv, assumption, rule replication_step_inv)

lemma calm_parts:
  assumes "reachable replication_init replicate_step w" and "calm w"
  shows "nodes_ok w" and "readers_ok w"
  using replication.reachable_inv [OF assms(1)] assms(2) by (simp_all add: replication_inv_def)

section \<open>Workers come to rest\<close>

definition backlog :: "DataNode \<Rightarrow> nat" where
  "backlog n = 2 * length (walChannel n) + (if taken n = None then 0 else 1)"

definition work_left :: "replication \<Rightarrow> nat" where
  "work_left w = sum_list (map backlog (replicas w))"

lemma work_left_update:
  assumes "i < length (replicas w)" and "replicas w' = (replicas w)[i := n]" and "backlog n < backlog (replicas w ! i)"
  shows "work_left w' < work_left w"
proof -
  let ?xs = "take i (replicas w)" and ?ys = "drop (Suc i) (replicas w)"
  have "replicas w = ?xs @ replicas w ! i # ?ys" "replicas w' = ?xs @ n # ?ys"
    using assms(1,2) by (simp_all add: id_take_nth_drop [symmetric] upd_conv_take_nth_drop)
  then have "work_left w = sum_list (map backlog (?xs @ replicas w ! i # ?ys))"
    "work_left w' = sum_list (map backlog (?xs @ n # ?ys))"
    unfolding work_left_def by metis+
  with assms(3) show ?thesis by simp
qed

lemma worker_decreases: "worker_step w w' \<Longrightarrow> work_left w' < work_left w"
proof (erule worker_step.cases, goal_cases)
  case (1 i w e es)
  show ?case by (rule work_left_update [of i]) (use 1 in simp, use 1 in simp, use 1 in \<open>simp add: backlog_def\<close>)
next
  case (2 i w e)
  show ?case
    by (rule work_left_update [of i]) (use 2 in simp, use 2 in simp, use 2 in \<open>simp add: backlog_def apply_entry_def\<close>)
qed

lemma at_rest_pending:
  assumes "\<forall>w'. \<not> worker_step w w'" and "i < length (replicas w)"
  shows "pending (replicas w ! i) = []"
  using assms worker_step.takes [of i w] worker_step.applies [of i w]
  by (cases "taken (replicas w ! i)"; cases "walChannel (replicas w ! i)") (auto simp: pending_def)

definition caught_up :: "replication \<Rightarrow> bool" where
  "caught_up w \<longleftrightarrow> (\<forall>i < length (replicas w). pending (replicas w ! i) = [])"

interpretation catching_up: resting_system worker_step nodes_ok work_left caught_up
  by unfold_locales
    (erule (1) worker_nodes_ok, erule worker_decreases, simp add: caught_up_def at_rest_pending)

lemma worker_keeps:
  "run worker_step w w' \<Longrightarrow> primary w' = primary w \<and> currentLSN w' = currentLSN w \<and> writers w' = writers w"
  by (induction rule: run.induct) (auto elim: worker_step.cases)

lemma idle_nodes:
  assumes ok: "nodes_ok w" and "writers w = []"
  shows "data (primary w) = replay (log w)" and "appliedLSN (primary w) = length (log w)"
    and "i < length (replicas w) \<Longrightarrow> pending (replicas w ! i) = [] \<Longrightarrow>
      data (replicas w ! i) = replay (log w) \<and> appliedLSN (replicas w ! i) = length (log w)"
proof -
  show "data (primary w) = replay (log w)" "appliedLSN (primary w) = length (log w)"
    using ok assms(2) by (auto simp: nodes_ok_def follows_def)
  assume "i < length (replicas w)" "pending (replicas w ! i) = []"
  with replica_follows [OF ok this(1)] assms(2)
  show "data (replicas w ! i) = replay (log w) \<and> appliedLSN (replicas w ! i) = length (log w)"
    by (auto simp: follows_def)
qed

section \<open>Reads that look at the lag\<close>

text \<open>
  \<open>ReadLagAware\<close> when nothing happens between its critical sections: \<open>turn\<close> is the number that
  the round-robin counter returns.
\<close>

definition lag_eligible :: "nat \<Rightarrow> replication \<Rightarrow> nat list" where
  "lag_eligible maxDiff w =
     filter (\<lambda>i. appliedLSN (replicas w ! i) \<le> currentLSN w \<and> currentLSN w - appliedLSN (replicas w ! i) \<le> maxDiff)
       [0..<length (replicas w)]"

definition ReadLagAware :: "nat \<Rightarrow> nat \<Rightarrow> string \<Rightarrow> replication \<Rightarrow> string option \<times> nat" where
  "ReadLagAware maxDiff turn k w =
     (let eligible = lag_eligible maxDiff w;
          n = target w (if eligible = [] then None else Some (eligible ! (turn mod length eligible)))
      in (data n k, appliedLSN n))"

text \<open>The answer is at most \<open>MaxLSNDiff\<close> writes old, or one, when a write is just under way.\<close>

lemma lag_aware_staleness:
  assumes ok: "nodes_ok w" and r: "ReadLagAware maxDiff turn k w = (v, l)"
  shows "v = replay (take l (log w)) k \<and> l \<le> length (log w) \<and> length (log w) \<le> l + max 1 maxDiff"
proof (cases "lag_eligible maxDiff w = []")
  case True
  have "follows (log w) (primary_reached (length (log w)) (writers w)) (primary w)" "pending (primary w) = []"
    using ok by (simp_all add: nodes_ok_def)
  moreover have "length (log w) \<le> primary_reached (length (log w)) (writers w) + 1"
    by (cases "(length (log w), writers w)" rule: primary_reached.cases) simp_all
  ultimately show ?thesis using r True
    by (auto simp: ReadLagAware_def target_def follows_def Let_def)
next
  case False
  let ?i = "lag_eligible maxDiff w ! (turn mod length (lag_eligible maxDiff w))"
  from False have "?i \<in> set (lag_eligible maxDiff w)" by simp
  then have i: "?i < length (replicas w)" "currentLSN w - appliedLSN (replicas w ! ?i) \<le> maxDiff"
    by (simp_all add: lag_eligible_def)
  from replica_follows [OF ok i(1)] have "follows (log w) (reached (length (log w)) (writers w) ?i) (replicas w ! ?i)" ..
  with i r False ok show ?thesis
    by (auto simp: ReadLagAware_def target_def follows_def Let_def nodes_ok_def)
qed

section \<open>A primary with one replica\<close>

definition pair_state where
  "pair_state p r n mode ws es ak H =
     \<lparr>primary = p, replicas = [r], currentLSN = n, replMode = mode, closed = False, writers = ws, readers = [],
      log = es, acked = ak, answers = [], hazards = H\<rparr>"

definition pair_rests :: "DataNode \<Rightarrow> DataNode \<Rightarrow> nat \<Rightarrow> ReplicationMode \<Rightarrow> hazard set \<Rightarrow> bool" where
  "pair_rests p r n mode H \<longleftrightarrow>
     (\<exists>es ak. reachable replication_init replicate_step (pair_state p r n mode [] es ak H))"

lemma pair_first: "reachable replication_init replicate_step (pair_state newNode newNode 0 mode [] [] {} {})"
proof (rule reachable.start)
  show "replication_init (pair_state newNode newNode 0 mode [] [] {} {})"
    unfolding replication_init_def
    by (rule exI [of _ 1], rule exI [of _ mode])
      (simp add: pair_state_def NewReplicaCluster_def ReplicaCluster.defs)
qed

lemma pair_start: "pair_rests newNode newNode 0 mode {}"
  unfolding pair_rests_def by (blast intro: pair_first)

lemma pair_begin:
  "replicate_step (pair_state p r n mode ws es ak H)
     (pair_state p r (next_lsn n) mode (ws @ [(\<lparr>LSN = next_lsn n, Key = k, Value = v\<rparr>, Allocated)])
        (es @ [\<lparr>LSN = next_lsn n, Key = k, Value = v\<rparr>]) ak (noting (ws \<noteq> []) Overlap H))"
  using write_step.begins [of "pair_state p r n mode ws es ak H" _ k v]
  by (simp add: replicate_step_def pair_state_def)

lemma pair_primary:
  "replicate_step (pair_state p r n mode (xs @ (e, Allocated) # ys) es ak H)
     (pair_state (apply_entry e p) r n mode (xs @ (e, Spreading 0) # ys) es ak H)"
  using write_step.writes_primary [of "pair_state p r n mode (xs @ (e, Allocated) # ys) es ak H"]
  by (simp add: replicate_step_def pair_state_def)

lemma pair_send:
  "send e r = (r', sent) \<Longrightarrow>
   replicate_step (pair_state p r n AsyncReplication (xs @ (e, Spreading 0) # ys) es ak H)
     (pair_state p r' n AsyncReplication (xs @ (e, Spreading 1) # ys) es ak (noting (\<not> sent) Dropped H))"
  using write_step.sends [of "pair_state p r n AsyncReplication (xs @ (e, Spreading 0) # ys) es ak H" _ _ 0]
  by (simp add: replicate_step_def pair_state_def)

lemma pair_write:
  "replicate_step (pair_state p r n SyncReplication (xs @ (e, Spreading 0) # ys) es ak H)
     (pair_state p (apply_entry e r) n SyncReplication (xs @ (e, Spreading 1) # ys) es ak H)"
  using write_step.writes_replica [of "pair_state p r n SyncReplication (xs @ (e, Spreading 0) # ys) es ak H" _ _ 0]
  by (simp add: replicate_step_def pair_state_def)

lemma pair_return:
  "replicate_step (pair_state p r n mode (xs @ (e, Spreading 1) # ys) es ak H)
     (pair_state p r n mode (xs @ ys) es (insert (LSN e) ak) H)"
  using write_step.returns [of "pair_state p r n mode (xs @ (e, Spreading 1) # ys) es ak H" xs e ys]
  by (simp add: replicate_step_def pair_state_def)

lemma pair_switch:
  "replicate_step (pair_state p r n mode [] es ak H)
     (pair_state p r n mode' [] es ak (noting (mode' = SyncReplication \<and> pending r \<noteq> []) PendingSwitch H))"
  using write_step.switches [of "pair_state p r n mode [] es ak H" mode']
  by (simp add: replicate_step_def pair_state_def)

lemma pair_work_reaches:
  assumes "taken r = None" and "walChannel r = e # xs"
    and w: "reachable replication_init replicate_step (pair_state p r n mode [] es ak H)"
  shows "reachable replication_init replicate_step
    (pair_state p (apply_entry e (r\<lparr>walChannel := xs\<rparr>)) n mode [] es ak H)"
proof -
  have "worker_step (pair_state p r n mode [] es ak H)
      (pair_state p (r\<lparr>walChannel := xs, taken := Some e\<rparr>) n mode [] es ak H)"
    using worker_step.takes [of 0 "pair_state p r n mode [] es ak H" e xs] assms(1,2) by (simp add: pair_state_def)
  moreover have "worker_step (pair_state p (r\<lparr>walChannel := xs, taken := Some e\<rparr>) n mode [] es ak H)
      (pair_state p (apply_entry e (r\<lparr>walChannel := xs\<rparr>)) n mode [] es ak H)"
    using worker_step.applies [of 0 "pair_state p (r\<lparr>walChannel := xs, taken := Some e\<rparr>) n mode [] es ak H" e]
      assms(1) by (cases r) (simp add: pair_state_def apply_entry_def)
  ultimately show ?thesis using w unfolding replicate_step_def by (blast intro: reachable.move)
qed

lemma pair_works:
  "taken r = None \<Longrightarrow> walChannel r = e # xs \<Longrightarrow> pair_rests p r n mode H \<Longrightarrow>
     pair_rests p (apply_entry e (r\<lparr>walChannel := xs\<rparr>)) n mode H"
  unfolding pair_rests_def by (blast intro: pair_work_reaches)

text \<open>A whole write, when nothing else is under way.\<close>

lemma pair_write_reaches:
  assumes w: "reachable replication_init replicate_step (pair_state p r n mode [] es ak H)"
    and "e = \<lparr>LSN = next_lsn n, Key = k, Value = v\<rparr>"
    and "case mode of SyncReplication \<Rightarrow> r' = apply_entry e r \<and> sent | AsyncReplication \<Rightarrow> send e r = (r', sent)"
  shows "reachable replication_init replicate_step
    (pair_state (apply_entry e p) r' (next_lsn n) mode [] (es @ [e]) (insert (LSN e) ak) (noting (\<not> sent) Dropped H))"
proof -
  let ?s = "\<lambda>p r ph ak H. pair_state p r (next_lsn n) mode [(e, ph)] (es @ [e]) ak H"
  have "replicate_step (pair_state p r n mode [] es ak H) (?s p r Allocated ak H)"
    using pair_begin [of p r n mode "[]" es ak H k v] assms(2) by (simp add: noting_def)
  moreover have "replicate_step (?s p r Allocated ak H) (?s (apply_entry e p) r (Spreading 0) ak H)"
    using pair_primary [of _ _ _ _ "[]" e "[]"] by simp
  moreover have "replicate_step (?s (apply_entry e p) r (Spreading 0) ak H)
      (?s (apply_entry e p) r' (Spreading 1) ak (noting (\<not> sent) Dropped H))"
    using pair_send [of e r r' sent _ _ "[]" "[]"] pair_write [of _ r _ "[]" e "[]"] assms(3)
    by (cases mode) (simp_all add: noting_def)
  moreover have "replicate_step (?s (apply_entry e p) r' (Spreading 1) ak (noting (\<not> sent) Dropped H))
      (pair_state (apply_entry e p) r' (next_lsn n) mode [] (es @ [e]) (insert (LSN e) ak) (noting (\<not> sent) Dropped H))"
    using pair_return [of _ _ _ _ "[]" e "[]"] by simp
  ultimately show ?thesis using w by (meson reachable.move)
qed

lemma pair_writes:
  assumes "pair_rests p r n mode H" and "e = \<lparr>LSN = next_lsn n, Key = k, Value = v\<rparr>"
    and "case mode of SyncReplication \<Rightarrow> r' = apply_entry e r \<and> sent | AsyncReplication \<Rightarrow> send e r = (r', sent)"
  shows "pair_rests (apply_entry e p) r' (next_lsn n) mode (noting (\<not> sent) Dropped H)"
  using assms(1) pair_write_reaches [OF _ assms(2,3)] unfolding pair_rests_def by blast

section \<open>What goes wrong with a hazard\<close>

definition diverged :: "hazard set \<Rightarrow> bool" where
  "diverged H \<longleftrightarrow>
     (\<exists>w r. reachable replication_init replicate_step w \<and> hazards w = H \<and> writers w = [] \<and> replicas w = [r] \<and>
        pending r = [] \<and> appliedLSN r = currentLSN w \<and> data r \<noteq> data (primary w))"

lemma pair_diverged:
  "pair_rests p r n mode H \<Longrightarrow> pending r = [] \<Longrightarrow> appliedLSN r = n \<Longrightarrow> data r \<noteq> data p \<Longrightarrow> diverged H"
  unfolding pair_rests_def diverged_def by (elim exE) (rule exI, rule exI, rule conjI, assumption, simp add: pair_state_def)

definition entry :: "nat \<Rightarrow> string \<Rightarrow> string \<Rightarrow> WALEntry" where
  "entry n k v = \<lparr>LSN = n, Key = k, Value = v\<rparr>"

lemma next_small: "n < 2000 \<Longrightarrow> next_lsn n = Suc n"
  by (simp add: next_lsn_def)

text \<open>Two writes of one key overlap: the second one reaches the primary first.\<close>

lemma overlapping_writes:
  "pair_rests (apply_entry (entry 1 ''a'' ''x'') (apply_entry (entry 2 ''a'' ''y'') newNode))
     (newNode\<lparr>walChannel := [entry 1 ''a'' ''x'', entry 2 ''a'' ''y'']\<rparr>) 2 AsyncReplication {Overlap}"
proof -
  let ?x = "entry 1 ''a'' ''x''" and ?y = "entry 2 ''a'' ''y''"
  let ?step = "replicate_step"
  let ?p = "apply_entry ?x (apply_entry ?y newNode)"
  let ?r1 = "newNode\<lparr>walChannel := [?x]\<rparr>" and ?r2 = "newNode\<lparr>walChannel := [?x, ?y]\<rparr>"
  obtain es ak where w: "reachable replication_init ?step (pair_state newNode newNode 0 AsyncReplication [] es ak {})"
    using pair_start [of AsyncReplication] by (auto simp: pair_rests_def)
  have n: "next_lsn 0 = 1" "next_lsn (Suc 0) = 2" by (simp_all add: next_lsn_def)
  let ?t = "\<lambda>p r ws ak. pair_state p r 2 AsyncReplication ws (es @ [?x, ?y]) ak {Overlap}"
  have "?step (pair_state newNode newNode 0 AsyncReplication [] es ak {})
      (pair_state newNode newNode 1 AsyncReplication [(?x, Allocated)] (es @ [?x]) ak {})"
    using pair_begin [of newNode newNode 0 AsyncReplication "[]" es ak "{}" "''a''" "''x''"]
    by (simp add: n noting_def entry_def)
  moreover have "?step (pair_state newNode newNode 1 AsyncReplication [(?x, Allocated)] (es @ [?x]) ak {})
      (?t newNode newNode [(?x, Allocated), (?y, Allocated)] ak)"
    using pair_begin [of newNode newNode 1 AsyncReplication "[(?x, Allocated)]" "es @ [?x]" ak "{}" "''a''" "''y''"]
    by (simp add: n noting_def entry_def)
  moreover have "?step (?t newNode newNode [(?x, Allocated), (?y, Allocated)] ak)
      (?t (apply_entry ?y newNode) newNode [(?x, Allocated), (?y, Spreading 0)] ak)"
    using pair_primary [of _ _ _ _ "[(?x, Allocated)]" ?y "[]"] by simp
  moreover have "?step (?t (apply_entry ?y newNode) newNode [(?x, Allocated), (?y, Spreading 0)] ak)
      (?t ?p newNode [(?x, Spreading 0), (?y, Spreading 0)] ak)"
    using pair_primary [of _ _ _ _ "[]" ?x "[(?y, Spreading 0)]"] by simp
  moreover have "?step (?t ?p newNode [(?x, Spreading 0), (?y, Spreading 0)] ak)
      (?t ?p ?r1 [(?x, Spreading 1), (?y, Spreading 0)] ak)"
    using pair_send [of ?x newNode ?r1 True _ _ "[]" "[(?y, Spreading 0)]"]
    by (simp add: send_def newNode_def noting_def)
  moreover have "?step (?t ?p ?r1 [(?x, Spreading 1), (?y, Spreading 0)] ak)
      (?t ?p ?r2 [(?x, Spreading 1), (?y, Spreading 1)] ak)"
    using pair_send [of ?y ?r1 ?r2 True _ _ "[(?x, Spreading 1)]" "[]"]
    by (simp add: send_def newNode_def noting_def)
  moreover have "?step (?t ?p ?r2 [(?x, Spreading 1), (?y, Spreading 1)] ak)
      (?t ?p ?r2 [(?y, Spreading 1)] (insert (LSN ?x) ak))"
    using pair_return [of _ _ _ _ "[]" ?x "[(?y, Spreading 1)]"] by simp
  moreover have "?step (?t ?p ?r2 [(?y, Spreading 1)] (insert (LSN ?x) ak))
      (?t ?p ?r2 [] (insert (LSN ?y) (insert (LSN ?x) ak)))"
    using pair_return [of _ _ _ _ "[]" ?y "[]"] by simp
  ultimately show ?thesis using w unfolding pair_rests_def by (meson reachable.move)
qed

lemma overlap_diverges: "diverged {Overlap}"
proof -
  let ?x = "entry 1 ''a'' ''x''" and ?y = "entry 2 ''a'' ''y''"
  from pair_works [OF _ _ pair_works [OF _ _ overlapping_writes]]
  have "pair_rests (apply_entry ?x (apply_entry ?y newNode))
      (apply_entry ?y ((apply_entry ?x (newNode\<lparr>walChannel := [?y]\<rparr>))\<lparr>walChannel := []\<rparr>)) 2
      AsyncReplication {Overlap}"
    by (simp add: newNode_def apply_entry_def)
  then show ?thesis
    by (rule pair_diverged)
      (simp_all add: pending_def newNode_def apply_entry_def entry_def fun_eq_iff exI [of _ "''a''"])
qed

text \<open>A switch to synchronous mode overtakes an entry that is on its way.\<close>

lemma pair_switches:
  assumes "pair_rests p r n mode H"
  shows "pair_rests p r n mode' (noting (mode' = SyncReplication \<and> pending r \<noteq> []) PendingSwitch H)"
  using assms pair_switch unfolding pair_rests_def by (blast intro: reachable.move)

lemma pair_async:
  assumes "pair_rests p r n AsyncReplication H" and "length (walChannel r) < 1024" and "n < 2000"
  shows "pair_rests (apply_entry (entry (Suc n) k v) p) (r\<lparr>walChannel := walChannel r @ [entry (Suc n) k v]\<rparr>) (Suc n)
    AsyncReplication H"
  using pair_writes [OF assms(1) refl, of k v _ True] assms(2,3)
  by (simp add: send_def next_small noting_def entry_def)

lemma pair_dropped:
  assumes "pair_rests p r n AsyncReplication H" and "1024 \<le> length (walChannel r)" and "n < 2000"
  shows "pair_rests (apply_entry (entry (Suc n) k v) p) r (Suc n) AsyncReplication (insert Dropped H)"
  using pair_writes [OF assms(1) refl, of k v r False] assms(2,3)
  by (simp add: send_def next_small noting_def entry_def)

lemma pair_sync:
  assumes "pair_rests p r n SyncReplication H" and "n < 2000"
  shows "pair_rests (apply_entry (entry (Suc n) k v) p) (apply_entry (entry (Suc n) k v) r) (Suc n) SyncReplication H"
  using pair_writes [OF assms(1) refl, of k v _ True] assms(2)
  by (simp add: next_small noting_def entry_def)

lemma switch_diverges: "diverged {PendingSwitch}"
proof -
  let ?x = "entry 1 ''a'' ''x''" and ?y = "entry 2 ''a'' ''y''" and ?z = "entry 3 ''b'' ''z''"
  let ?r = "newNode\<lparr>walChannel := [?x]\<rparr>"
  have "pair_rests (apply_entry ?x newNode) ?r 1 AsyncReplication {}"
    using pair_async [OF pair_start, of "''a''" "''x''"] by (simp add: newNode_def)
  from pair_switches [OF this, of SyncReplication]
  have "pair_rests (apply_entry ?x newNode) ?r 1 SyncReplication {PendingSwitch}"
    by (simp add: noting_def pending_def newNode_def)
  from pair_sync [OF this, of "''a''" "''y''"]
  have "pair_rests (apply_entry ?y (apply_entry ?x newNode)) (apply_entry ?y ?r) 2 SyncReplication {PendingSwitch}"
    by (simp add: numeral_2_eq_2)
  from pair_works [OF _ _ this, of ?x "[]"]
  have "pair_rests (apply_entry ?y (apply_entry ?x newNode)) (apply_entry ?x (apply_entry ?y newNode)) 2
      SyncReplication {PendingSwitch}"
    by (simp add: newNode_def apply_entry_def)
  from pair_sync [OF this, of "''b''" "''z''"]
  have "pair_rests (apply_entry ?z (apply_entry ?y (apply_entry ?x newNode)))
      (apply_entry ?z (apply_entry ?x (apply_entry ?y newNode))) 3 SyncReplication {PendingSwitch}"
    by (simp add: numeral_3_eq_3 numeral_2_eq_2)
  then show ?thesis
    by (rule pair_diverged)
      (simp_all add: pending_def newNode_def apply_entry_def entry_def fun_eq_iff exI [of _ "''a''"])
qed

text \<open>A worker that is 1024 entries behind, and a write that finds the channel full.\<close>

lemma channel_fills:
  "n \<le> 1024 \<Longrightarrow> \<exists>p es. pair_rests p (newNode\<lparr>walChannel := es\<rparr>) n AsyncReplication {} \<and> length es = n \<and>
     (\<forall>e \<in> set es. Key e = ''b'')"
proof (induction n)
  case 0
  have "newNode\<lparr>walChannel := []\<rparr> = newNode" by (simp add: newNode_def)
  with pair_start show ?case by (intro exI [of _ newNode] exI [of _ "[]"]) simp
next
  case (Suc n)
  then obtain p es where "pair_rests p (newNode\<lparr>walChannel := es\<rparr>) n AsyncReplication {}" "length es = n"
    "\<forall>e \<in> set es. Key e = ''b''" by auto
  with pair_async [OF this(1), of "''b''" "''z''"] Suc.prems show ?case
    by (intro exI [of _ "apply_entry (entry (Suc n) ''b'' ''z'') p"] exI [of _ "es @ [entry (Suc n) ''b'' ''z'']"])
      (simp add: entry_def)
qed

lemma channel_empties:
  "pair_rests p r n mode H \<Longrightarrow> taken r = None \<Longrightarrow> \<forall>e \<in> set (walChannel r). Key e = ''b'' \<Longrightarrow>
   \<exists>r'. pair_rests p r' n mode H \<and> taken r' = None \<and> walChannel r' = [] \<and> data r' ''a'' = data r ''a''"
proof (induction "walChannel r" arbitrary: r)
  case (Cons e es)
  let ?r = "apply_entry e (r\<lparr>walChannel := es\<rparr>)"
  from Cons.hyps(2) have "walChannel r = e # es" by simp
  from pair_works [OF Cons.prems(2) this Cons.prems(1)] have "pair_rests p ?r n mode H" .
  from Cons.hyps(1) [OF _ this] Cons.prems(2,3) Cons.hyps(2) [symmetric] show ?case
    by (simp add: apply_entry_def)
qed auto

lemma drop_diverges: "diverged {Dropped}"
proof -
  let ?x = "entry 1025 ''a'' ''x''" and ?z = "entry 1026 ''b'' ''z''"
  from channel_fills [of 1024] obtain p es where
    p: "pair_rests p (newNode\<lparr>walChannel := es\<rparr>) 1024 AsyncReplication {}" "length es = 1024"
    "\<forall>e \<in> set es. Key e = ''b''" by auto
  from pair_dropped [OF p(1), of "''a''" "''x''"] p(2)
  have "pair_rests (apply_entry ?x p) (newNode\<lparr>walChannel := es\<rparr>) 1025 AsyncReplication {Dropped}" by simp
  from channel_empties [OF this] p(3) obtain r where
    r: "pair_rests (apply_entry ?x p) r 1025 AsyncReplication {Dropped}" "taken r = None" "walChannel r = []"
    "data r ''a'' = None" by (auto simp: newNode_def)
  from pair_async [OF r(1), of "''b''" "''z''"] r(3)
  have "pair_rests (apply_entry ?z (apply_entry ?x p)) (r\<lparr>walChannel := [?z]\<rparr>) 1026 AsyncReplication {Dropped}"
    by simp
  from pair_works [OF _ _ this, of ?z "[]"] r(2)
  have "pair_rests (apply_entry ?z (apply_entry ?x p)) (apply_entry ?z (r\<lparr>walChannel := []\<rparr>)) 1026 AsyncReplication {Dropped}"
    by simp
  then show ?thesis
    by (rule pair_diverged)
      (use r in \<open>simp_all add: pending_def apply_entry_def entry_def fun_eq_iff exI [of _ "''a''"]\<close>)
qed

section \<open>Properties\<close>

text \<open>
  C6. A reader sees its own writes: as long as writes do not overlap, no entry is dropped and
  no switch to synchronous mode overtakes an entry, every answer to a read with a token comes
  from a state of the data that includes the token's write, on whichever node it was read and
  whatever the workers did in between: the value is the one the log gives at the sequence
  number returned.
\<close>

theorem token_reads_see_writes:
  assumes "reachable replication_init replicate_step w" and "hazards w = {}" and "length (log w) < 2 ^ 64"
    and "(m, k, v, l) \<in> set (answers w)"
  shows "m \<le> l \<and> l \<le> length (log w) \<and> v = replay (take l (log w)) k"
  using calm_parts(2) [OF assms(1)] assms(2-4) by (auto simp: readers_ok_def answer_ok_def calm_def)

text \<open>One write, and a reader with its token at the replica.\<close>

definition read_back :: replication where
  "read_back = (pair_state (apply_entry (entry 1 ''a'' ''x'') newNode) (apply_entry (entry 1 ''a'' ''x'') newNode) 1
     SyncReplication [] [entry 1 ''a'' ''x''] {1} {})\<lparr>answers := [(1, ''a'', Some ''x'', 1)]\<rparr>"

lemma read_back_reachable: "reachable replication_init replicate_step read_back"
proof -
  let ?x = "entry 1 ''a'' ''x''"
  let ?w = "pair_state (apply_entry ?x newNode) (apply_entry ?x newNode) 1 SyncReplication [] [?x] {1} {}"
  let ?r = "\<lambda>ph. ?w\<lparr>readers := [(1, ''a'', ph)]\<rparr>"
  have w: "reachable replication_init replicate_step ?w"
    using pair_write_reaches [OF pair_first [of SyncReplication] refl, of "''a''" "''x''" _ True]
    by (simp add: next_lsn_def entry_def noting_def)
  have "read_step ?w (?r (Scanning 0))"
    using read_step.asks [of 1 ?w "''a''"] by (simp add: pair_state_def)
  moreover have "read_step (?r (Scanning 0)) (?r (Reading (Some 0)))"
    using read_step.scans [of "?r (Scanning 0)" "[]" 1 "''a''" 0 "[]"]
    by (simp add: pair_state_def apply_entry_def entry_def)
  moreover have "read_step (?r (Reading (Some 0))) read_back"
    using read_step.reads [of "?r (Reading (Some 0))" "[]" 1 "''a''" "Some 0" "[]"]
    by (simp add: read_back_def pair_state_def apply_entry_def entry_def target_def)
  ultimately show ?thesis using w unfolding replicate_step_def by (blast intro: reachable.move)
qed

theorem token_reads_see_writes_witness:
  "(1::nat) \<le> 1 \<and> Some ''x'' = replay (take 1 (log read_back)) ''a''"
  using token_reads_see_writes [OF read_back_reachable, of 1 "''a''" "Some ''x''" 1]
  by (simp add: read_back_def pair_state_def)



text \<open>
  Each of the three hazards alone is enough to break this: there are executions in which
  nothing is under way any more, the only replica reports the newest sequence number, and its
  data differs from the primary's, with no step left that would repair it.
\<close>

lemma replication_hazards:
  "\<exists>w r. reachable replication_init replicate_step w \<and> hazards w = {h} \<and> writers w = [] \<and> replicas w = [r] \<and>
     pending r = [] \<and> appliedLSN r = currentLSN w \<and> data r \<noteq> data (primary w)"
  using overlap_diverges switch_diverges drop_diverges unfolding diverged_def by (cases h) blast+

end
