(* ===== verification/Identifiers.thy ===== *)
theory Identifiers
  imports Systems GoInt "HOL-Library.Char_ord" "HOL-Library.List_Lexorder"
begin

text \<open>
  Lab 32, \<^verbatim>\<open>labs/32-database-sharding-and-partitioning/internal/idgen/idgen.go\<close>: time-ordered
  identifiers (UUID version 7) and the block allocator for sequence numbers. The clock and the
  random bytes are arguments. Texts are ASCII.
\<close>

section \<open>Time-ordered identifiers\<close>

type_synonym byte = "8 word"

unbundle bit_operations_syntax

definition time_bytes :: "64 word \<Rightarrow> byte list" where
  "time_bytes ms = map (\<lambda>n. ucast (drop_bit n ms)) [40, 32, 24, 16, 8, 0]"

definition uuid_bytes :: "64 word \<Rightarrow> byte list \<Rightarrow> byte list" where
  "uuid_bytes ms rand =
     (let uuid = time_bytes ms @ rand;
          uuid = uuid[6 := (uuid ! 6 AND 0x0F) OR 0x70]
      in uuid[8 := (uuid ! 8 AND 0x3F) OR 0x80])"

definition hex_char :: "nat \<Rightarrow> char" where
  "hex_char n = char_of (if n < 10 then 48 + n else 87 + n)"

definition hex_byte :: "byte \<Rightarrow> string" where
  "hex_byte b = [hex_char (unat b div 16), hex_char (unat b mod 16)]"

definition hex_bytes :: "byte list \<Rightarrow> string" where
  "hex_bytes bs = concat (map hex_byte bs)"

definition slice :: "nat \<Rightarrow> nat \<Rightarrow> 'a list \<Rightarrow> 'a list" where
  "slice i j xs = take (j - i) (drop i xs)"

text \<open>\<open>rand\<close> is what the random source gave for the last ten bytes, or its error.\<close>

definition NewUUIDv7 :: "64 word \<Rightarrow> (string, byte list) res \<Rightarrow> (string, string) res" where
  "NewUUIDv7 ms rand =
     (case rand of
        Inl err \<Rightarrow> Inl err
      | Inr rs \<Rightarrow>
          (let uuid = uuid_bytes ms rs in
           Inr (hex_bytes (slice 0 4 uuid) @ ''-'' @ hex_bytes (slice 4 6 uuid) @ ''-'' @ hex_bytes (slice 6 8 uuid) @
                ''-'' @ hex_bytes (slice 8 10 uuid) @ ''-'' @ hex_bytes (slice 10 16 uuid))))"

text \<open>\<open>fmt.Sscanf(s, "%02x", &val)\<close> on two characters: white space is skipped, a line break is an
  error, and after one hexadecimal digit the rest is not looked at unless it is one, too.\<close>

definition hex_val :: "char \<Rightarrow> nat option" where
  "hex_val c =
     (let n = of_char c :: nat in
      if 48 \<le> n \<and> n \<le> 57 then Some (n - 48)
      else if 97 \<le> n \<and> n \<le> 102 then Some (n - 87)
      else if 65 \<le> n \<and> n \<le> 70 then Some (n - 55) else None)"

fun skip_blanks :: "string \<Rightarrow> string option" where
  "skip_blanks [] = Some []"
| "skip_blanks (c # cs) =
     (if c = CHR 0x0A then None
      else if c \<in> {CHR 0x09, CHR 0x0B, CHR 0x0C, CHR 0x0D, CHR '' ''} then skip_blanks cs
      else Some (c # cs))"

definition scan_byte :: "string \<Rightarrow> byte option" where
  "scan_byte s =
     (case skip_blanks s of
        None \<Rightarrow> None
      | Some [] \<Rightarrow> None
      | Some (c # cs) \<Rightarrow>
          (case hex_val c of
             None \<Rightarrow> None
           | Some h \<Rightarrow>
               (case cs of
                  [] \<Rightarrow> Some (of_nat h)
                | d # _ \<Rightarrow> (case hex_val d of None \<Rightarrow> Some (of_nat h) | Some l \<Rightarrow> Some (of_nat (16 * h + l))))))"

datatype uuid_error = InvalidLength | InvalidDigit

fun scan_time :: "string \<Rightarrow> nat list \<Rightarrow> 64 word \<Rightarrow> (uuid_error, 64 word) res" where
  "scan_time clean [] ms = Inr ms"
| "scan_time clean (i # is) ms =
     (case scan_byte (slice i (i + 2) clean) of
        None \<Rightarrow> Inl InvalidDigit
      | Some val \<Rightarrow> scan_time clean is (push_bit 8 ms OR ucast val))"

definition ExtractTimeFromUUIDv7 :: "string \<Rightarrow> (uuid_error, 64 word) res" where
  "ExtractTimeFromUUIDv7 u =
     (let clean = filter (\<lambda>c. c \<noteq> CHR ''-'') u in
      if length clean \<noteq> 32 then Inl InvalidLength else scan_time clean [0, 2, 4, 6, 8, 10] 0)"

text \<open>One byte is written as two characters, neither blank nor dash, and read back.\<close>

lemma hex_val_char: "n < 16 \<Longrightarrow> hex_val (hex_char n) = Some n"
  by (simp add: hex_val_def hex_char_def Let_def)

lemma hex_char_plain:
  assumes "n < 16"
  shows "hex_char n \<noteq> CHR ''-''" and "skip_blanks (hex_char n # cs) = Some (hex_char n # cs)"
proof -
  have "of_char (hex_char n) = (if n < 10 then 48 + n else 87 + n)" using assms by (simp add: hex_char_def)
  then have "of_char (hex_char n) \<ge> (48::nat)" by simp
  then have "hex_char n \<noteq> c" if "of_char c < (48::nat)" for c using that by force
  then show "hex_char n \<noteq> CHR ''-''" "skip_blanks (hex_char n # cs) = Some (hex_char n # cs)" by simp_all
qed

lemma byte_range: "unat (b :: byte) < 256"
proof -
  have "unat b < 2 ^ LENGTH(8)" by (rule unsigned_less)
  then show ?thesis by simp
qed

lemma byte_halves: "unat (b :: byte) div 16 < 16"
  using byte_range [of b] by simp

lemma scan_hex_byte [simp]: "scan_byte (hex_byte b) = Some b"
  by (simp add: scan_byte_def hex_byte_def hex_char_plain hex_val_char byte_halves del: skip_blanks.simps)

lemma length_hex_byte [simp]: "length (hex_byte b) = 2"
  by (simp add: hex_byte_def)

lemma length_hex_bytes [simp]: "length (hex_bytes bs) = 2 * length bs"
  by (induction bs) (simp_all add: hex_bytes_def)

lemma hex_bytes_no_dash: "filter (\<lambda>c. c \<noteq> CHR ''-'') (hex_bytes bs) = hex_bytes bs"
  by (induction bs) (simp_all add: hex_bytes_def hex_byte_def hex_char_plain byte_halves)

lemma hex_bytes_simps: "hex_bytes [] = []" "hex_bytes (b # bs) = hex_byte b @ hex_bytes bs"
  by (simp_all add: hex_bytes_def)

lemma hex_bytes_append: "hex_bytes (xs @ ys) = hex_bytes xs @ hex_bytes ys"
  by (simp add: hex_bytes_def)

lemma uuid_bytes_length: "length rand = 10 \<Longrightarrow> length (uuid_bytes ms rand) = 16"
  by (simp add: uuid_bytes_def time_bytes_def Let_def)

lemma slices_16:
  assumes "length xs = 16"
  shows "slice 0 4 xs @ slice 4 6 xs @ slice 6 8 xs @ slice 8 10 xs @ slice 10 16 xs = xs"
proof -
  have cut: "slice i j xs @ drop j xs = drop i xs" if "i \<le> j" for i j
    using that append_take_drop_id [of "j - i" "drop i xs"] by (simp add: slice_def)
  have "slice 10 16 xs = drop 10 xs" using assms by (simp add: slice_def)
  then show ?thesis using cut [of 0 4] cut [of 4 6] cut [of 6 8] cut [of 8 10] by simp
qed

text \<open>The number that the leading bytes spell, as the reader assembles it.\<close>

definition join_bytes :: "byte list \<Rightarrow> 64 word" where
  "join_bytes bs = foldl (\<lambda>ms b. push_bit 8 ms OR ucast b) 0 bs"

lemma join_step:
  "push_bit 8 (take_bit k (drop_bit (n + 8) ms)) OR ucast (ucast (drop_bit n ms) :: byte) =
     take_bit (k + 8) (drop_bit n (ms :: 64 word))"
proof (rule bit_word_eqI)
  fix i assume "i < LENGTH(64)"
  then show "bit (push_bit 8 (take_bit k (drop_bit (n + 8) ms)) OR ucast (ucast (drop_bit n ms) :: byte)) i =
      bit (take_bit (k + 8) (drop_bit n ms)) i"
    by (cases "i < 8") (auto simp: bit_simps dest: bit_imp_le_length)
qed

lemma join_time_bytes: "join_bytes (time_bytes ms) = take_bit 48 ms"
  using join_step [of 0 40 ms] join_step [of 8 32 ms] join_step [of 16 24 ms] join_step [of 24 16 ms]
    join_step [of 32 8 ms] join_step [of 40 0 ms]
  by (simp add: join_bytes_def time_bytes_def)

lemma slice_hex_bytes: "slice (2 * i) (2 * i + 2) (hex_bytes bs) = (if i < length bs then hex_byte (bs ! i) else [])"
proof (induction bs arbitrary: i)
  case (Cons b bs)
  then show ?case
    by (cases i) (simp_all add: slice_def hex_bytes_def hex_byte_def)
qed (simp add: slice_def hex_bytes_def)

lemma scan_time_hex:
  "\<forall>i \<in> set is. i < length bs \<Longrightarrow>
     scan_time (hex_bytes bs) (map (\<lambda>i. 2 * i) is) ms = Inr (foldl (\<lambda>ms i. push_bit 8 ms OR ucast (bs ! i)) ms is)"
  by (induction "is" arbitrary: ms) (simp_all add: slice_hex_bytes [simplified])

lemma uuid_text:
  assumes "NewUUIDv7 ms (Inr rand) = Inr u" and "length rand = 10"
  shows "filter (\<lambda>c. c \<noteq> CHR ''-'') u = hex_bytes (uuid_bytes ms rand)"
proof -
  let ?b = "uuid_bytes ms rand"
  have "filter (\<lambda>c. c \<noteq> CHR ''-'') u =
      hex_bytes (slice 0 4 ?b @ slice 4 6 ?b @ slice 6 8 ?b @ slice 8 10 ?b @ slice 10 16 ?b)"
    using assms(1) by (auto simp: NewUUIDv7_def Let_def hex_bytes_no_dash hex_bytes_append)
  then show ?thesis using slices_16 [OF uuid_bytes_length [OF assms(2)]] by metis
qed

lemma uuid_time_bytes: "length rand = 10 \<Longrightarrow> take 6 (uuid_bytes ms rand) = time_bytes ms"
  by (simp add: uuid_bytes_def Let_def time_bytes_def)

text \<open>Bytes in lexicographic order spell numbers in order, and print in order.\<close>

definition byte_val :: "byte list \<Rightarrow> nat" where
  "byte_val bs = foldl (\<lambda>v b. v * 256 + unat b) 0 bs"

lemma byte_val_append: "foldl (\<lambda>v b. v * 256 + unat (b :: byte)) v bs = v * 256 ^ length bs + byte_val bs"
  unfolding byte_val_def
proof (induction bs arbitrary: v)
  case (Cons b bs)
  show ?case using Cons [of "v * 256 + unat b"] Cons [of "unat b"] by (simp add: algebra_simps)
qed simp

lemma byte_val_Cons: "byte_val (b # bs) = unat b * 256 ^ length bs + byte_val bs"
  using byte_val_append [of "unat b" bs] by (simp add: byte_val_def)

lemma byte_val_range: "byte_val bs < 256 ^ length bs"
proof (induction bs)
  case (Cons b bs)
  have "byte_val (b # bs) < unat b * 256 ^ length bs + 256 ^ length bs" using Cons by (simp add: byte_val_Cons)
  also have "\<dots> = (unat b + 1) * 256 ^ length bs" by simp
  also have "\<dots> \<le> 256 * 256 ^ length bs" by (rule mult_right_mono) (use byte_range [of b] in simp_all)
  finally show ?case by simp
qed (simp add: byte_val_def)

lemma join_byte:
  fixes ms :: "64 word" and b :: byte
  assumes "unat ms < 2 ^ 56"
  shows "unat (push_bit 8 ms OR ucast b) = unat ms * 256 + unat b"
proof -
  have "push_bit 8 ms OR ucast b = push_bit 8 ms + ucast b"
    by (rule disjunctive_add [symmetric]) (auto simp: bit_simps dest: bit_imp_le_length)
  moreover have "push_bit 8 ms = ms * 256" by (simp add: push_bit_eq_mult)
  moreover have "unat (ms * 256) = unat ms * 256" using assms by (subst unat_mult_lem [THEN iffD1]) simp_all
  moreover have "unat (ucast b :: 64 word) = unat b" 
    using byte_range [of b] by (simp add: unsigned_ucast_eq take_bit_nat_eq_self)
  ultimately show ?thesis using assms byte_range [of b]
    by (simp add: unat_add_lem [THEN iffD1])
qed

lemma unat_join_bytes: "length bs \<le> 8 \<Longrightarrow> unat (join_bytes bs) = byte_val bs"
proof (induction bs rule: rev_induct)
  case (snoc b bs)
  then have "byte_val bs < 256 ^ length bs" "(256::nat) ^ length bs \<le> 256 ^ 7" "unat (join_bytes bs) = byte_val bs"
    using power_increasing [of "length bs" 7 "256 :: nat"] by (simp_all add: byte_val_range)
  then have "unat (join_bytes bs) < 2 ^ 56" by simp
  from join_byte [OF this, of b] snoc show ?case by (simp add: join_bytes_def byte_val_def)
qed (simp add: join_bytes_def byte_val_def)

lemma byte_val_less: "length xs = length ys \<Longrightarrow> xs < ys \<Longrightarrow> byte_val xs < byte_val ys"
proof (induction xs ys rule: list_induct2)
  case (Cons x xs y ys)
  show ?case
  proof (cases "x = y")
    case True
    with Cons show ?thesis by (simp add: byte_val_Cons)
  next
    case False
    with Cons.prems have "unat x + 1 \<le> unat y" by (simp add: word_less_nat_alt)
    have "byte_val (x # xs) < (unat x + 1) * 256 ^ length ys"
      using Cons.hyps byte_val_range [of xs] by (simp add: byte_val_Cons)
    also have "\<dots> \<le> unat y * 256 ^ length ys" by (rule mult_right_mono) (use \<open>unat x + 1 \<le> unat y\<close> in simp_all)
    finally show ?thesis by (simp add: byte_val_Cons)
  qed
qed simp

lemma time_bytes_less:
  assumes "unat ms < unat ms'" and "unat ms' < 2 ^ 48"
  shows "time_bytes ms < time_bytes ms'"
proof -
  have val: "byte_val (time_bytes m) = unat m" if "unat m < 2 ^ 48" for m
  proof -
    have "unat (take_bit 48 m) = unat m" using that by (simp add: unsigned_take_bit_eq take_bit_nat_eq_self)
    then show ?thesis using unat_join_bytes [of "time_bytes m"] join_time_bytes [of m] by (simp add: time_bytes_def)
  qed
  from assms val [of ms] val [of ms'] have "byte_val (time_bytes ms) < byte_val (time_bytes ms')" by simp
  then show ?thesis
    using byte_val_less [of "time_bytes ms'" "time_bytes ms"]
    by (cases "time_bytes ms" "time_bytes ms'" rule: linorder_cases) (auto simp: time_bytes_def)
qed

lemma hex_char_less: "m < n \<Longrightarrow> n < 16 \<Longrightarrow> hex_char m < hex_char n"
  by (simp add: hex_char_def less_char_def)

lemma less_append: "length xs = length ys \<Longrightarrow> xs < ys \<Longrightarrow> xs @ us < ys @ (vs :: 'a :: linorder list)"
  by (induction xs ys rule: list_induct2) auto

lemma append_less: "xs @ us < xs @ vs \<longleftrightarrow> us < (vs :: 'a :: linorder list)"
  by (induction xs) auto

lemma hex_byte_less: "x < y \<Longrightarrow> hex_byte x < hex_byte y"
proof -
  assume "x < y"
  then have less: "unat x < unat y" by (simp add: word_less_nat_alt)
  show "hex_byte x < hex_byte y"
  proof (cases "unat x div 16 = unat y div 16")
    case True
    with less have "unat x mod 16 < unat y mod 16"
      by (metis add_less_cancel_left div_mult_mod_eq)
    with True show ?thesis by (simp add: hex_byte_def hex_char_less)
  next
    case False
    with less have "unat x div 16 < unat y div 16" by (simp add: div_le_mono le_neq_implies_less)
    then show ?thesis using byte_halves [of y] by (simp add: hex_byte_def hex_char_less)
  qed
qed

lemma hex_bytes_less: "length xs = length ys \<Longrightarrow> xs < ys \<Longrightarrow> hex_bytes xs < hex_bytes ys"
proof (induction xs ys rule: list_induct2)
  case (Cons x xs y ys)
  then show ?case
    by (cases "x = y") (auto simp: hex_bytes_def append_less hex_byte_less intro!: less_append [of "hex_byte x"])
qed simp

lemma less_cut:
  "xs < (ys :: 'a :: linorder list) \<Longrightarrow> length xs = length ys \<Longrightarrow>
     take k xs < take k ys \<or> take k xs = take k ys \<and> drop k xs < drop k ys"
proof (induction k arbitrary: xs ys)
  case (Suc k)
  then show ?case by (cases xs; cases ys) auto
qed simp

lemma uuid_parts:
  assumes "length rand = 10"
  shows "slice 0 4 (uuid_bytes ms rand) = take 4 (time_bytes ms)"
    and "slice 4 6 (uuid_bytes ms rand) = drop 4 (time_bytes ms)"
    and "slice 6 8 (uuid_bytes ms rand) = [(rand ! 0 AND 0x0F) OR 0x70, rand ! 1]"
    and "slice 8 10 (uuid_bytes ms rand) = [(rand ! 2 AND 0x3F) OR 0x80, rand ! 3]"
  using assms
  by (auto simp: uuid_bytes_def Let_def time_bytes_def slice_def numeral_eq_Suc length_Suc_conv)

lemma hex_chars: "hex_char 7 = CHR ''7''" "hex_char 8 = CHR ''8''" "hex_char 9 = CHR ''9''"
    "hex_char 10 = CHR ''a''" "hex_char 11 = CHR ''b''"
  by code_simp+

lemma version_nibble: "unat ((b AND 0x0F) OR 0x70 :: byte) div 16 = 7"
proof -
  have "drop_bit 4 ((b AND 0x0F) OR 0x70) = (7 :: byte)"
    by (rule bit_word_eqI) (auto simp: bit_simps numeral_eq_Suc less_Suc_eq)
  then show ?thesis using unat_div [of "(b AND 0x0F) OR 0x70" "16 :: byte"] by (simp add: drop_bit_eq_div)
qed

lemma variant_bits: "unat ((b AND 0x3F) OR 0x80 :: byte) div 64 = 2"
proof -
  have "drop_bit 6 ((b AND 0x3F) OR 0x80) = (2 :: byte)"
    by (rule bit_word_eqI) (auto simp: bit_simps numeral_eq_Suc less_Suc_eq)
  then show ?thesis using unat_div [of "(b AND 0x3F) OR 0x80" "64 :: byte"] by (simp add: drop_bit_eq_div)
qed

lemma NewUUIDv7_text:
  assumes "length rand = 10"
  shows "\<exists>tl. NewUUIDv7 ms (Inr rand) =
     Inr (hex_bytes (take 4 (time_bytes ms)) @ ''-'' @ hex_bytes (drop 4 (time_bytes ms)) @ ''-'' @
          hex_bytes [(rand ! 0 AND 0x0F) OR 0x70, rand ! 1] @ ''-'' @
          hex_bytes [(rand ! 2 AND 0x3F) OR 0x80, rand ! 3] @ ''-'' @ hex_bytes tl) \<and> length tl = 6"
proof -
  have "length (slice 10 16 (uuid_bytes ms rand)) = 6"
    using uuid_bytes_length [OF assms] by (simp add: slice_def)
  then show ?thesis by (auto simp: NewUUIDv7_def Let_def uuid_parts [OF assms])
qed

section \<open>Numbers from blocks\<close>

record SequenceBlockAllocator =
  blockSize :: int
  current :: int
  max_id :: int

definition NewSequenceBlockAllocator :: "int \<Rightarrow> SequenceBlockAllocator" where
  "NewSequenceBlockAllocator n = \<lparr>blockSize = n, current = 0, max_id = 0\<rparr>"

text \<open>\<open>fetcher\<close> acts on a state of its own, here the cursor of the central sequence.\<close>

definition NextID ::
  "(int \<Rightarrow> 's \<Rightarrow> ('e, int) res \<times> 's) \<Rightarrow> SequenceBlockAllocator \<Rightarrow> 's \<Rightarrow> ('e, int) res \<times> SequenceBlockAllocator \<times> 's" where
  "NextID fetcher a s =
     (let take_next = (\<lambda>a s. (Inr (current a), a\<lparr>current := add64 (current a) 1\<rparr>, s)) in
      if max_id a \<le> current a
      then (case fetcher (blockSize a) s of
              (Inl e, s') \<Rightarrow> (Inl e, a, s')
            | (Inr base, s') \<Rightarrow> take_next (a\<lparr>current := base, max_id := add64 base (blockSize a)\<rparr>) s')
      else take_next a s)"

definition AllocateBlock :: "int \<Rightarrow> int \<Rightarrow> (string, int) res \<times> int" where
  "AllocateBlock n cursor = (Inr (add64 cursor 1), add64 cursor n)"

text \<open>
  Any number of allocators that share the central sequence. The ghosts: the numbers that were
  given out, latest first, and how many the central sequence has handed over in blocks.
\<close>

record numbering =
  allocators :: "nat \<Rightarrow> SequenceBlockAllocator"
  cursor :: int
  given :: "int list"
  handed :: int

definition numbering_init :: "numbering \<Rightarrow> bool" where
  "numbering_init w \<longleftrightarrow> cursor w = 0 \<and> given w = [] \<and> handed w = 0 \<and>
     (\<forall>i. \<exists>n > 0. allocators w i = NewSequenceBlockAllocator n)"

inductive numbering_step :: "numbering \<Rightarrow> numbering \<Rightarrow> bool" where
  numbers: "NextID AllocateBlock (allocators w i) (cursor w) = (Inr n, a, c) \<Longrightarrow>
    numbering_step w (w\<lparr>allocators := (allocators w)(i := a), cursor := c, given := n # given w,
      handed := handed w + (if max_id (allocators w i) \<le> current (allocators w i) then blockSize (allocators w i) else 0)\<rparr>)"

definition block :: "SequenceBlockAllocator \<Rightarrow> int set" where
  "block a = {current a..<max_id a}"

definition blocks_ok :: "numbering \<Rightarrow> bool" where
  "blocks_ok w \<longleftrightarrow> cursor w = handed w \<and> 0 \<le> handed w \<and>
     (\<forall>i. 0 < blockSize (allocators w i) \<and> block (allocators w i) \<subseteq> {1..handed w} \<and>
        (\<forall>j. i \<noteq> j \<longrightarrow> block (allocators w i) \<inter> block (allocators w j) = {}) \<and>
        block (allocators w i) \<inter> set (given w) = {}) \<and>
     set (given w) \<subseteq> {1..handed w} \<and> distinct (given w)"

definition numbering_inv :: "numbering \<Rightarrow> bool" where
  "numbering_inv w \<longleftrightarrow> (\<forall>i. 0 < blockSize (allocators w i)) \<and> (handed w < 2 ^ 63 - 1 \<longrightarrow> blocks_ok w)"

lemma numbering_init_inv: "numbering_init w \<Longrightarrow> numbering_inv w"
proof -
  assume init: "numbering_init w"
  then have "0 < blockSize (allocators w i)" "block (allocators w i) = {}" for i
    by (auto simp: numbering_init_def NewSequenceBlockAllocator_def block_def dest: spec [of _ i])
  with init show ?thesis by (simp add: numbering_inv_def blocks_ok_def numbering_init_def)
qed

text \<open>A block that is disjoint from the others, and the numbers that are taken from it.\<close>

lemma take_from_block:
  assumes ok: "blocks_ok w" and cur: "n = current a"
    and a: "n < max_id a" "0 < blockSize a" "block a \<subseteq> {1..h}" "h < 2 ^ 63 - 1" "handed w \<le> h"
    and new: "\<forall>j. i \<noteq> j \<longrightarrow> block a \<inter> block (allocators w j) = {}" "block a \<inter> set (given w) = {}"
    and w': "allocators w' = (allocators w)(i := a\<lparr>current := add64 n 1\<rparr>)" "cursor w' = h" "handed w' = h"
      "given w' = n # given w"
  shows "blocks_ok w'"
proof -
  have n: "n \<in> block a" using a(1) cur by (simp add: block_def)
  with a have "add64 n 1 = n + 1" by (intro add64_id) (auto simp: in64_def min64_def max64_def)
  then have b: "block (allocators w' i) = block a - {n}" using cur w'(1) by (auto simp: block_def)
  have other: "allocators w' j = allocators w j" if "j \<noteq> i" for j using w'(1) that by simp
  have size: "0 < blockSize (allocators w' j)" for j
    using ok a(2) w'(1) by (auto simp: blocks_ok_def)
  have range: "block (allocators w' j) \<subseteq> {1..h}" for j
  proof (cases "j = i")
    case False
    with ok have "block (allocators w' j) \<subseteq> {1..handed w}" by (simp add: other blocks_ok_def)
    then show ?thesis using a(5) by auto
  qed (use b a(3) in auto)
  have unused: "block (allocators w' j) \<inter> set (n # given w) = {}" for j
  proof (cases "j = i")
    case False
    then have "block a \<inter> block (allocators w' j) = {}" "block (allocators w' j) \<inter> set (given w) = {}"
      using new(1) ok by (simp_all add: other blocks_ok_def)
    with n show ?thesis by auto
  qed (use b new(2) in auto)
  have apart: "block (allocators w' j) \<inter> block (allocators w' k) = {}" if "j \<noteq> k" for j k
  proof -
    have i: "block (allocators w' i) \<inter> block (allocators w' l) = {}" if "l \<noteq> i" for l
      using new(1) that b by (auto simp: other)
    show ?thesis
    proof (cases "j = i \<or> k = i")
      case True
      then show ?thesis using i [of j] i [of k] that by (auto simp: Int_commute)
    next
      case False
      with ok that show ?thesis by (simp add: other blocks_ok_def)
    qed
  qed
  have "set (n # given w) \<subseteq> {1..h}" using ok n a(3,5) by (auto simp: blocks_ok_def)
  moreover have "distinct (n # given w)" using ok n new(2) by (auto simp: blocks_ok_def)
  moreover have "0 \<le> h" using ok a(5) by (simp add: blocks_ok_def)
  ultimately show ?thesis unfolding blocks_ok_def w'(2-4) using size range unused apart by blast
qed

lemma numbering_step_inv:
  assumes inv: "numbering_inv w" and s: "numbering_step w w'"
  shows "numbering_inv w'"
  using s
proof cases
  case (numbers i n a c)
  let ?a = "allocators w i"
  from inv have size: "0 < blockSize (allocators w j)" for j by (simp add: numbering_inv_def)
  show ?thesis
  proof (cases "max_id ?a \<le> current ?a")
    case False
    with numbers(2) have a: "a = ?a\<lparr>current := add64 n 1\<rparr>" "n = current ?a" "c = cursor w"
      by (auto simp: NextID_def)
    have "blocks_ok w'" if "handed w < 2 ^ 63 - 1"
    proof -
      from inv that have ok: "blocks_ok w" by (simp add: numbering_inv_def)
      show ?thesis
      proof (rule take_from_block [OF ok a(2), of "handed w" i])
        show "n < max_id ?a" using False a(2) by simp
        show "allocators w' = (allocators w)(i := ?a\<lparr>current := add64 n 1\<rparr>)" "cursor w' = handed w"
          "handed w' = handed w" "given w' = n # given w"
          using ok False a by (simp_all add: numbers(1) blocks_ok_def)
      qed (use ok that in \<open>simp_all add: blocks_ok_def\<close>)
    qed
    then show ?thesis using size False a by (simp add: numbers(1) numbering_inv_def)
  next
    case True
    let ?h = "handed w + blockSize ?a"
    from True numbers(2) have a: "a = ?a\<lparr>max_id := add64 n (blockSize ?a), current := add64 n 1\<rparr>"
      "n = add64 (cursor w) 1" "c = add64 (cursor w) (blockSize ?a)"
      by (auto simp: NextID_def AllocateBlock_def)
    have "blocks_ok w'" if h: "?h < 2 ^ 63 - 1"
    proof -
      from h size [of i] have "handed w < 2 ^ 63 - 1" by linarith
      with inv have ok: "blocks_ok w" by (simp add: numbering_inv_def)
      then have c: "cursor w = handed w" "0 \<le> handed w" by (simp_all add: blocks_ok_def)
      with h size [of i] have n: "n = handed w + 1" "add64 n (blockSize ?a) = ?h + 1" "c = ?h"
        using a by (auto simp: add64_id in64_def min64_def max64_def)
      let ?b = "?a\<lparr>max_id := ?h + 1, current := n\<rparr>"
      have b: "block ?b = {handed w + 1..?h}" using n by (auto simp: block_def)
      have "block (allocators w j) \<subseteq> {1..handed w}" "set (given w) \<subseteq> {1..handed w}" for j
        using ok by (simp_all add: blocks_ok_def)
      then have "\<forall>j. i \<noteq> j \<longrightarrow> block ?b \<inter> block (allocators w j) = {}" "block ?b \<inter> set (given w) = {}"
        unfolding b by force+
      moreover have "a = ?b\<lparr>current := add64 n 1\<rparr>" using a(1) n(2) by simp
      ultimately show ?thesis
        by (intro take_from_block [OF ok, of n ?b ?h i w'])
          (use n(1,3) size [of i] h c(2) b True in \<open>simp_all add: numbers(1)\<close>)
    qed
    then show ?thesis using size True a by (simp add: numbers(1) numbering_inv_def)
  qed
qed

interpretation numbering: guarded_system numbering_init numbering_step numbering_inv
  by unfold_locales (rule numbering_init_inv, assumption, rule numbering_step_inv)

text \<open>With an empty block the same number is given out twice.\<close>

lemma empty_blocks_repeat:
  "NextID AllocateBlock (NewSequenceBlockAllocator 0) 0 = (Inr 1, a, c) \<Longrightarrow>
     fst (NextID AllocateBlock a c) = (Inr 1 :: (string, int) res)"
  by (auto simp: NextID_def AllocateBlock_def NewSequenceBlockAllocator_def add64_id in64_def min64_def max64_def)

section \<open>Properties\<close>

text \<open>
  An identifier carries its time: it has 36 characters with version 7 and the variant the
  standard asks for, and reading it back gives the milliseconds, modulo $2^{48}$.
\<close>

lemma uuid_time_round_trip:
  assumes "length rand = 10" and "NewUUIDv7 ms (Inr rand) = Inr u"
  shows "ExtractTimeFromUUIDv7 u = Inr (take_bit 48 ms) \<and> length u = 36 \<and> u ! 14 = CHR ''7'' \<and>
    u ! 19 \<in> set ''89ab''"
proof -
  let ?b = "uuid_bytes ms rand"
  note clean = uuid_text [OF assms(2,1)] and len = uuid_bytes_length [OF assms(1), of ms]
  have "foldl (\<lambda>ms i. push_bit 8 ms OR ucast (?b ! i)) 0 [0, 1, 2, 3, 4, 5] = join_bytes (take 6 ?b)"
    using len by (auto simp: join_bytes_def numeral_eq_Suc length_Suc_conv)
  then have "ExtractTimeFromUUIDv7 u = Inr (take_bit 48 ms)"
    using scan_time_hex [of "[0, 1, 2, 3, 4, 5]" ?b 0] len
    by (simp add: ExtractTimeFromUUIDv7_def Let_def clean uuid_time_bytes [OF assms(1)] join_time_bytes)
  moreover obtain tl where u: "u = hex_bytes (take 4 (time_bytes ms)) @ ''-'' @ hex_bytes (drop 4 (time_bytes ms)) @ ''-'' @
      hex_bytes [(rand ! 0 AND 0x0F) OR 0x70, rand ! 1] @ ''-'' @
      hex_bytes [(rand ! 2 AND 0x3F) OR 0x80, rand ! 3] @ ''-'' @ hex_bytes tl" "length tl = 6"
    using NewUUIDv7_text [OF assms(1), of ms] assms(2) by auto
  have "length (time_bytes ms) = 6" by (simp add: time_bytes_def)
  then have "length u = 36" "u ! 14 = hex_char 7"
    "u ! 19 = hex_char (unat ((rand ! 2 AND 0x3F) OR 0x80) div 16)"
    using u by (simp_all add: nth_append hex_bytes_simps hex_byte_def version_nibble)
  moreover have "unat ((rand ! 2 AND 0x3F) OR 0x80) div 16 \<in> {8, 9, 10, 11}"
    using variant_bits [of "rand ! 2"] by auto
  ultimately show ?thesis by (auto simp: hex_chars)
qed

text \<open>
  C30. Identifiers sort by time: of two identifiers made in different milliseconds before
  $2^{48}$, the earlier one is the smaller text, whatever the random bytes.
\<close>

theorem uuid_time_ordered:
  assumes "unat ms < unat ms'" and "unat ms' < 2 ^ 48" and "length rand = 10" and "length rand' = 10"
    and "NewUUIDv7 ms (Inr rand) = Inr u" and "NewUUIDv7 ms' (Inr rand') = Inr u'"
  shows "u < u'"
proof -
  let ?t = "time_bytes ms" and ?t' = "time_bytes ms'"
  have len: "length ?t = 6" "length ?t' = 6" by (simp_all add: time_bytes_def)
  obtain r where u: "u = hex_bytes (take 4 ?t) @ ''-'' @ hex_bytes (drop 4 ?t) @ r"
    using NewUUIDv7_text [OF assms(3), of ms] assms(5) by auto
  obtain r' where u': "u' = hex_bytes (take 4 ?t') @ ''-'' @ hex_bytes (drop 4 ?t') @ r'"
    using NewUUIDv7_text [OF assms(4), of ms'] assms(6) by auto
  from less_cut [OF time_bytes_less [OF assms(1,2)], of 4] len consider
    "take 4 ?t < take 4 ?t'" | "take 4 ?t = take 4 ?t'" "drop 4 ?t < drop 4 ?t'" by auto
  then show ?thesis
  proof cases
    case 1
    then have "hex_bytes (take 4 ?t) < hex_bytes (take 4 ?t')" by (intro hex_bytes_less) (simp_all add: len)
    then show ?thesis unfolding u u' by (intro less_append) (simp_all add: len)
  next
    case 2
    then have "hex_bytes (drop 4 ?t) < hex_bytes (drop 4 ?t')" by (intro hex_bytes_less) (simp_all add: len)
    then have "hex_bytes (drop 4 ?t) @ r < hex_bytes (drop 4 ?t') @ r'" by (intro less_append) (simp_all add: len)
    then show ?thesis unfolding u u' using 2(1) by (simp add: append_less)
  qed
qed


text \<open>Two allocators with blocks of two and of one.\<close>

definition two_allocators :: "int \<Rightarrow> numbering" where
  "two_allocators n = \<lparr>allocators = (\<lambda>_. NewSequenceBlockAllocator 1)(0 := NewSequenceBlockAllocator n),
     cursor = 0, given = [], handed = 0\<rparr>"

lemma one_given_reachable:
  "\<exists>w. reachable numbering_init numbering_step w \<and> given w = [1] \<and> handed w = 2"
proof -
  let ?w = "two_allocators 2"
  obtain r a c where n: "NextID AllocateBlock (allocators ?w 0) (cursor ?w) = (r, a, c)"
    by (metis prod_cases3)
  then have "r = Inr 1"
    by (auto simp: NextID_def AllocateBlock_def two_allocators_def NewSequenceBlockAllocator_def add64_id in64_def
        min64_def max64_def)
  note step = numbering_step.numbers [OF n [unfolded this]]
  have "reachable numbering_init numbering_step ?w"
    by (rule reachable.start) (auto simp: numbering_init_def two_allocators_def intro: exI [of _ 1] exI [of _ 2])
  from reachable.move [OF this step] show ?thesis
    by (intro exI conjI) (assumption, simp_all add: two_allocators_def NewSequenceBlockAllocator_def)
qed


theorem uuid_time_ordered_witness:
  "''00000000-0001-7000-8000-000000000000'' < ''00000000-0002-7000-8000-000000000000''"
  by (rule uuid_time_ordered [of 1 2 "replicate 10 0" "replicate 10 0"]) (simp, simp, code_simp+)

end
