(* ===== verification/Partitions.thy ===== *)
theory Partitions
  imports Prelude "HOL-Library.Multiset"
begin

text \<open>
  Lab 32, \<^verbatim>\<open>labs/32-database-sharding-and-partitioning/internal/partitioning/table.go\<close>: a table
  whose rows are kept in partitions by time. Instants are integers.
\<close>

section \<open>The table\<close>

record Row =
  RowID :: string
  CreatedAt :: int
  Payload :: string

record PartitionRange =
  RangeName :: string
  RangeStart :: int
  RangeEnd :: int

record Partition =
  Range :: PartitionRange
  rows :: "Row list"

definition NewTable :: "PartitionRange list \<Rightarrow> Partition list" where
  "NewTable ranges = map (\<lambda>r. \<lparr>Range = r, rows = []\<rparr>) ranges"

definition within :: "int \<Rightarrow> int \<Rightarrow> int \<Rightarrow> bool" where
  "within start end t \<longleftrightarrow> (t = start \<or> start < t) \<and> t < end"

text \<open>\<open>None\<close> is \<open>ErrNoMatchingPartition\<close>.\<close>

fun InsertRow :: "Row \<Rightarrow> Partition list \<Rightarrow> Partition list option" where
  "InsertRow rec [] = None"
| "InsertRow rec (p # ps) =
     (if within (RangeStart (Range p)) (RangeEnd (Range p)) (CreatedAt rec)
      then Some (p\<lparr>rows := rows p @ [rec]\<rparr> # ps)
      else map_option ((#) p) (InsertRow rec ps))"

record QueryResult =
  Records :: "Row list"
  PartitionsScanned :: nat
  TotalPartitions :: nat

definition overlaps :: "int \<Rightarrow> int \<Rightarrow> Partition \<Rightarrow> bool" where
  "overlaps start end p \<longleftrightarrow> start < RangeEnd (Range p) \<and> RangeStart (Range p) < end"

fun scan_partitions :: "int \<Rightarrow> int \<Rightarrow> Partition list \<Rightarrow> Row list \<Rightarrow> nat \<Rightarrow> Row list \<times> nat" where
  "scan_partitions start end [] records scanned = (records, scanned)"
| "scan_partitions start end (p # ps) records scanned =
     (if overlaps start end p
      then scan_partitions start end ps (records @ filter (\<lambda>r. within start end (CreatedAt r)) (rows p)) (scanned + 1)
      else scan_partitions start end ps records scanned)"

definition QueryRange :: "int \<Rightarrow> int \<Rightarrow> Partition list \<Rightarrow> QueryResult" where
  "QueryRange start end t =
     (let (records, scanned) = scan_partitions start end t [] 0
      in \<lparr>Records = records, PartitionsScanned = scanned, TotalPartitions = length t\<rparr>)"

fun DropPartition :: "string \<Rightarrow> Partition list \<Rightarrow> Partition list \<times> bool" where
  "DropPartition name [] = ([], False)"
| "DropPartition name (p # ps) =
     (if RangeName (Range p) = name then (ps, True)
      else (case DropPartition name ps of (ps', found) \<Rightarrow> (p # ps', found)))"

section \<open>Pruning\<close>

definition rows_placed :: "Partition list \<Rightarrow> bool" where
  "rows_placed t \<longleftrightarrow> (\<forall>p \<in> set t. \<forall>r \<in> set (rows p). within (RangeStart (Range p)) (RangeEnd (Range p)) (CreatedAt r))"

definition all_rows :: "Partition list \<Rightarrow> Row list" where
  "all_rows t = concat (map rows t)"

lemma rows_placed_simps [simp]:
  "rows_placed []" "rows_placed (p # ps) \<longleftrightarrow>
     (\<forall>r \<in> set (rows p). within (RangeStart (Range p)) (RangeEnd (Range p)) (CreatedAt r)) \<and> rows_placed ps"
  by (auto simp: rows_placed_def)

lemma all_rows_simps [simp]: "all_rows [] = []" "all_rows (p # ps) = rows p @ all_rows ps"
  by (simp_all add: all_rows_def)

lemma placed_New: "rows_placed (NewTable ranges)" and rows_New: "all_rows (NewTable ranges) = []"
  by (induction ranges) (simp_all add: NewTable_def)

lemma placed_insert: "InsertRow r t = Some t' \<Longrightarrow> rows_placed t \<Longrightarrow> rows_placed t'"
  by (induction t arbitrary: t') (auto split: if_splits)

lemma rows_insert: "InsertRow r t = Some t' \<Longrightarrow> mset (all_rows t') = add_mset r (mset (all_rows t))"
  by (induction t arbitrary: t') (auto split: if_splits)

lemma ranges_insert: "InsertRow r t = Some t' \<Longrightarrow> map Range t' = map Range t"
  by (induction t arbitrary: t') (auto split: if_splits)

lemma insert_None_iff:
  "InsertRow r t = None \<longleftrightarrow> (\<forall>p \<in> set t. \<not> within (RangeStart (Range p)) (RangeEnd (Range p)) (CreatedAt r))"
  by (induction t) auto

lemma placed_drop: "rows_placed t \<Longrightarrow> rows_placed (fst (DropPartition n t))"
  by (induction t) (auto split: prod.splits)

lemma drop_rows:
  "mset (all_rows t) = mset (all_rows (fst (DropPartition n t))) +
     (case find (\<lambda>p. RangeName (Range p) = n) t of None \<Rightarrow> {#} | Some p \<Rightarrow> mset (rows p))"
  by (induction t) (auto split: prod.splits)

lemma scan_partitions_result:
  "scan_partitions start end t records n =
     (records @ concat (map (\<lambda>p. filter (\<lambda>r. within start end (CreatedAt r)) (rows p)) (filter (overlaps start end) t)),
      n + length (filter (overlaps start end) t))"
  by (induction t arbitrary: records n) simp_all

text \<open>A partition that is left out has no row that the query asks for.\<close>

lemma pruned_nothing:
  "rows_placed [p] \<Longrightarrow> \<not> overlaps start end p \<Longrightarrow> filter (\<lambda>r. within start end (CreatedAt r)) (rows p) = []"
  by (auto simp: overlaps_def within_def filter_empty_conv)

lemma QueryRange_all:
  "rows_placed t \<Longrightarrow> Records (QueryRange start end t) = filter (\<lambda>r. within start end (CreatedAt r)) (all_rows t)"
proof (induction t)
  case (Cons p t)
  then show ?case
    using pruned_nothing [of p start "end"]
    by (simp add: QueryRange_def scan_partitions_result)
qed (simp add: QueryRange_def)

section \<open>Histories\<close>

datatype table_op = InsertOp Row | DropOp string

fun apply_op :: "table_op \<Rightarrow> Partition list \<Rightarrow> Partition list" where
  "apply_op (InsertOp r) t = (case InsertRow r t of None \<Rightarrow> t | Some t' \<Rightarrow> t')"
| "apply_op (DropOp n) t = fst (DropPartition n t)"

definition run_ops :: "table_op list \<Rightarrow> Partition list \<Rightarrow> Partition list" where
  "run_ops os t = fold apply_op os t"

lemma placed_run: "rows_placed t \<Longrightarrow> rows_placed (run_ops os t)"
  unfolding run_ops_def
proof (induction os arbitrary: t)
  case (Cons x xs)
  have "rows_placed (apply_op x t)"
    using Cons.prems by (cases x) (auto simp: placed_drop dest: placed_insert split: option.split)
  with Cons.IH show ?case by simp
qed simp

definition accepted :: "PartitionRange list \<Rightarrow> Row \<Rightarrow> bool" where
  "accepted ranges r \<longleftrightarrow> (\<exists>x \<in> set ranges. within (RangeStart x) (RangeEnd x) (CreatedAt r))"

lemma run_inserts:
  "mset (all_rows (run_ops (map InsertOp rs) t)) = mset (all_rows t) + mset (filter (accepted (map Range t)) rs)"
proof (induction rs arbitrary: t)
  case (Cons r rs)
  show ?case
  proof (cases "InsertRow r t")
    case None
    then have "\<not> accepted (map Range t) r" by (simp add: insert_None_iff accepted_def)
    with None Cons show ?thesis by (simp add: run_ops_def)
  next
    case (Some t')
    then have "accepted (map Range t) r" using insert_None_iff [of r t] by (auto simp: accepted_def)
    with Some Cons [of t'] show ?thesis by (simp add: run_ops_def rows_insert ranges_insert)
  qed
qed (simp add: run_ops_def)

section \<open>Properties\<close>


end
