(* ===== verification/Transfers.thy ===== *)
theory Transfers
  imports Systems GoInt "HOL-Library.Char_ord" "HOL-Library.List_Lexorder"
begin

text \<open>
  Lab 18, \<^verbatim>\<open>labs/18-deadlock/internal\<close>: accounts with a lock each (\<open>bank/account.go\<close>) and the
  transfers between them (\<open>transfer/transfer.go\<close>), any number of them at once. An account is
  known by its address, a number; its \<open>ID\<close> is a text that other accounts may have, too.
\<close>

section \<open>Accounts and transfers\<close>

text \<open>The channel of one element is full when the account is free.\<close>

record Account =
  ID :: string
  Balance :: int
  free :: bool

definition NewAccount :: "string \<Rightarrow> int \<Rightarrow> Account" where
  "NewAccount i bal = \<lparr>ID = i, Balance = bal, free = True\<rparr>"

text \<open>\<open>Lock\<close> and \<open>Unlock\<close> wait (\<open>None\<close>) on an empty and on a full channel.\<close>

definition Lock :: "Account \<Rightarrow> Account option" where
  "Lock a = (if free a then Some (a\<lparr>free := False\<rparr>) else None)"

definition Unlock :: "Account \<Rightarrow> Account option" where
  "Unlock a = (if free a then None else Some (a\<lparr>free := True\<rparr>))"

datatype kind = Naive | Ordered

datatype phase = WantsFirst | WantsSecond | Locked | Debited | Credited | ReleasedSecond | Failing

record transfer =
  acc1 :: nat
  acc2 :: nat
  amount :: int
  first :: nat
  second :: nat
  phase :: phase

text \<open>\<open>TransferNaive\<close> and \<open>TransferOrdered\<close> differ in the order of their locks.\<close>

definition begin_transfer :: "kind \<Rightarrow> (nat \<Rightarrow> Account) \<Rightarrow> nat \<Rightarrow> nat \<Rightarrow> int \<Rightarrow> transfer" where
  "begin_transfer k accs a b m =
     (let (f, s) = (if k = Ordered \<and> ID (accs b) < ID (accs a) then (b, a) else (a, b))
      in \<lparr>acc1 = a, acc2 = b, amount = m, first = f, second = s, phase = WantsFirst\<rparr>)"

text \<open>
  One statement of a transfer, when it does not have to wait: the accounts, and the transfer
  unless it has returned. The deferred calls unlock in reverse order.
\<close>

definition advance :: "transfer \<Rightarrow> (nat \<Rightarrow> Account) \<Rightarrow> ((nat \<Rightarrow> Account) \<times> transfer option) option" where
  "advance t accs =
     (case phase t of
        WantsFirst \<Rightarrow>
          map_option (\<lambda>a. (accs(first t := a), Some (t\<lparr>phase := WantsSecond\<rparr>))) (Lock (accs (first t)))
      | WantsSecond \<Rightarrow>
          map_option (\<lambda>a. (accs(second t := a), Some (t\<lparr>phase := Locked\<rparr>))) (Lock (accs (second t)))
      | Locked \<Rightarrow>
          Some (accs(acc1 t := (accs (acc1 t))\<lparr>Balance := sub64 (Balance (accs (acc1 t))) (amount t)\<rparr>),
                Some (t\<lparr>phase := Debited\<rparr>))
      | Debited \<Rightarrow>
          Some (accs(acc2 t := (accs (acc2 t))\<lparr>Balance := add64 (Balance (accs (acc2 t))) (amount t)\<rparr>),
                Some (t\<lparr>phase := Credited\<rparr>))
      | Credited \<Rightarrow>
          map_option (\<lambda>a. (accs(second t := a), Some (t\<lparr>phase := ReleasedSecond\<rparr>))) (Unlock (accs (second t)))
      | ReleasedSecond \<Rightarrow> map_option (\<lambda>a. (accs(first t := a), None)) (Unlock (accs (first t)))
      | Failing \<Rightarrow> map_option (\<lambda>a. (accs(first t := a), None)) (Unlock (accs (first t))))"

text \<open>The deadline while a transfer waits for a lock: \<open>None\<close> when it returns at once.\<close>

definition time_out :: "transfer \<Rightarrow> transfer option" where
  "time_out t = (if phase t = WantsFirst then None else Some (t\<lparr>phase := Failing\<rparr>))"

datatype transfer_error = ErrDeadlock | DeadlineExceeded | OtherError

text \<open>\<open>TransferWithRetry\<close>, for what the attempts return.\<close>

fun TransferWithRetry :: "(nat \<Rightarrow> transfer_error option) \<Rightarrow> nat \<Rightarrow> nat \<Rightarrow> transfer_error option" where
  "TransferWithRetry attempt i 0 = Some ErrDeadlock"
| "TransferWithRetry attempt i (Suc left) =
     (case attempt i of
        None \<Rightarrow> None
      | Some e \<Rightarrow>
          if e \<noteq> ErrDeadlock \<and> e \<noteq> DeadlineExceeded then Some e
          else TransferWithRetry attempt (i + 1) left)"

section \<open>Side by side\<close>

text \<open>The ghost \<open>ledger\<close> has the transfers that have returned without an error.\<close>

record bank =
  accounts :: "nat \<Rightarrow> Account"
  running :: "transfer list"
  ledger :: "(nat \<times> nat \<times> int) list"

definition bank_init :: "(nat \<Rightarrow> string) \<Rightarrow> (nat \<Rightarrow> int) \<Rightarrow> bank \<Rightarrow> bool" where
  "bank_init ids bal w \<longleftrightarrow> running w = [] \<and> ledger w = [] \<and>
     (\<forall>a. in64 (bal a) \<and> accounts w a = NewAccount (ids a) (bal a))"

definition returned :: "transfer \<Rightarrow> (nat \<times> nat \<times> int) list" where
  "returned t = (if phase t = ReleasedSecond then [(acc1 t, acc2 t, amount t)] else [])"

inductive work_step :: "bank \<Rightarrow> bank \<Rightarrow> bool" where
  goes_on: "running w = xs @ t # ys \<Longrightarrow> advance t (accounts w) = Some (accs, Some t') \<Longrightarrow>
    work_step w (w\<lparr>accounts := accs, running := xs @ t' # ys\<rparr>)"
| goes_back: "running w = xs @ t # ys \<Longrightarrow> advance t (accounts w) = Some (accs, None) \<Longrightarrow>
    work_step w (w\<lparr>accounts := accs, running := xs @ ys, ledger := returned t @ ledger w\<rparr>)"

inductive bank_step :: "kind set \<Rightarrow> bank \<Rightarrow> bank \<Rightarrow> bool" for kinds :: "kind set" where
  works: "work_step w w' \<Longrightarrow> bank_step kinds w w'"
| starts: "k \<in> kinds \<Longrightarrow>
    bank_step kinds w (w\<lparr>running := begin_transfer k (accounts w) a b m # running w\<rparr>)"
| gives_up: "running w = xs @ t # ys \<Longrightarrow> phase t = WantsFirst \<or> phase t = WantsSecond \<Longrightarrow>
    bank_step kinds w (w\<lparr>running := xs @ (case time_out t of None \<Rightarrow> [] | Some t' \<Rightarrow> [t']) @ ys\<rparr>)"

section \<open>Invariant\<close>

definition held :: "transfer \<Rightarrow> nat list" where
  "held t = (case phase t of WantsFirst \<Rightarrow> [] | WantsSecond \<Rightarrow> [first t] | ReleasedSecond \<Rightarrow> [first t]
     | Failing \<Rightarrow> [first t] | _ \<Rightarrow> [first t, second t])"

definition holders :: "nat \<Rightarrow> transfer list \<Rightarrow> nat" where
  "holders a ts = sum_list (map (\<lambda>t. count_list (held t) a) ts)"

lemma holders_simps [simp]:
  "holders a [] = 0" "holders a (t # ts) = count_list (held t) a + holders a ts"
  "holders a (xs @ ys) = holders a xs + holders a ys"
  by (simp_all add: holders_def)

text \<open>What a transfer has done to a balance so far, and what it does in the end.\<close>

definition effect :: "nat \<times> nat \<times> int \<Rightarrow> nat \<Rightarrow> int" where
  "effect = (\<lambda>(a, b, m) c. (if c = b then m else 0) - (if c = a then m else 0))"

definition so_far :: "transfer \<Rightarrow> nat \<Rightarrow> int" where
  "so_far t c =
     (case phase t of
        Debited \<Rightarrow> - (if c = acc1 t then amount t else 0)
      | Credited \<Rightarrow> effect (acc1 t, acc2 t, amount t) c
      | ReleasedSecond \<Rightarrow> effect (acc1 t, acc2 t, amount t) c
      | _ \<Rightarrow> 0)"

definition net :: "(nat \<times> nat \<times> int) list \<Rightarrow> nat \<Rightarrow> int" where
  "net ms c = (\<Sum>m \<leftarrow> ms. effect m c)"

definition pending_effect :: "transfer list \<Rightarrow> nat \<Rightarrow> int" where
  "pending_effect ts c = (\<Sum>t \<leftarrow> ts. so_far t c)"

definition in_order :: "(nat \<Rightarrow> string) \<Rightarrow> transfer \<Rightarrow> bool" where
  "in_order ids t \<longleftrightarrow> {first t, second t} = {acc1 t, acc2 t} \<and> ids (first t) \<le> ids (second t)"

definition bank_inv :: "(nat \<Rightarrow> string) \<Rightarrow> (nat \<Rightarrow> int) \<Rightarrow> kind set \<Rightarrow> bank \<Rightarrow> bool" where
  "bank_inv ids bal kinds w \<longleftrightarrow>
     (\<forall>a. ID (accounts w a) = ids a \<and>
        holders a (running w) = (if free (accounts w a) then 0 else 1) \<and>
        Balance (accounts w a) = wrap64 (bal a + net (ledger w) a + pending_effect (running w) a)) \<and>
     (Naive \<notin> kinds \<longrightarrow> list_all (in_order ids) (running w))"

lemma bank_init_inv: "bank_init ids bal w \<Longrightarrow> bank_inv ids bal kinds w"
  by (simp add: bank_init_def bank_inv_def NewAccount_def net_def pending_effect_def wrap64_id)

lemma wrap64_diff: "sub64 (wrap64 x) y = wrap64 (x - y)" and wrap64_sum: "add64 (wrap64 x) y = wrap64 (x + y)"
  using wrap64_add [of x "- y"] wrap64_add [of x y] by (simp_all add: sub64_def add64_def)

text \<open>One statement, seen from one account: its name, its lock and its balance.\<close>

lemma advance_account:
  assumes "advance t accs = Some (accs', r)"
  shows "ID (accs' c) = ID (accs c)"
    and "count_list (held t) c + (if free (accs c) then 1 else 0) =
      (case r of None \<Rightarrow> 0 | Some t' \<Rightarrow> count_list (held t') c) + (if free (accs' c) then 1 else (0::nat))"
    and "Balance (accs c) = wrap64 (x + so_far t c) \<Longrightarrow>
      Balance (accs' c) = wrap64 (x + (case r of None \<Rightarrow> net (returned t) c | Some t' \<Rightarrow> so_far t' c))"
  using assms
  by (auto simp: advance_def held_def so_far_def Lock_def Unlock_def effect_def net_def returned_def
      wrap64_diff wrap64_sum algebra_simps split: phase.splits if_splits)

lemma advance_ends:
  assumes "advance t accs = Some (accs', Some t')"
  shows "first t' = first t" "second t' = second t" "acc1 t' = acc1 t" "acc2 t' = acc2 t"
  using assms by (auto simp: advance_def split: phase.splits if_splits)

lemma net_append [simp]: "net (xs @ ys) c = net xs c + net ys c"
  by (simp add: net_def)

lemma pending_effect_simps [simp]:
  "pending_effect [] c = 0" "pending_effect (t # ts) c = so_far t c + pending_effect ts c"
  "pending_effect (xs @ ys) c = pending_effect xs c + pending_effect ys c"
  by (simp_all add: pending_effect_def)

lemma work_step_inv:
  assumes inv: "bank_inv ids bal kinds w" and s: "work_step w w'"
  shows "bank_inv ids bal kinds w'"
proof -
  obtain xs t ys accs r where w: "running w = xs @ t # ys" "advance t (accounts w) = Some (accs, r)"
    and w': "w' = w\<lparr>accounts := accs, running := xs @ (case r of None \<Rightarrow> [] | Some t' \<Rightarrow> [t']) @ ys,
      ledger := (case r of None \<Rightarrow> returned t | Some t' \<Rightarrow> []) @ ledger w\<rparr>"
    using s by cases fastforce+
  have "ID (accounts w' a) = ids a \<and>
        holders a (running w') = (if free (accounts w' a) then 0 else 1) \<and>
        Balance (accounts w' a) = wrap64 (bal a + net (ledger w') a + pending_effect (running w') a)" for a
  proof -
    let ?x = "bal a + net (ledger w) a + pending_effect xs a + pending_effect ys a"
    have "Balance (accounts w a) = wrap64 (?x + so_far t a)"
      using inv by (simp add: bank_inv_def w(1) algebra_simps)
    from advance_account(3) [OF w(2) this] advance_account(1,2) [OF w(2), of a] inv
    show ?thesis by (cases r) (auto simp: bank_inv_def w(1) w' algebra_simps split: if_splits)
  qed
  moreover have "list_all (in_order ids) (running w')" if "Naive \<notin> kinds"
    using inv that advance_ends w(2) by (cases r) (auto simp: bank_inv_def w(1) w' in_order_def)
  ultimately show ?thesis by (simp add: bank_inv_def)
qed

lemma bank_step_inv:
  assumes inv: "bank_inv ids bal kinds w" and s: "bank_step kinds w w'"
  shows "bank_inv ids bal kinds w'"
  using s
proof cases
  case works
  then show ?thesis by (rule work_step_inv [OF inv])
next
  case (starts k a b m)
  moreover have "so_far (begin_transfer k (accounts w) a b m) c = 0" "held (begin_transfer k (accounts w) a b m) = []" for c
    by (simp_all add: begin_transfer_def so_far_def held_def split: prod.split)
  moreover have "in_order ids (begin_transfer k (accounts w) a b m)" if "Naive \<notin> kinds"
    using starts(2) that inv by (cases k) (auto simp: begin_transfer_def in_order_def bank_inv_def)
  ultimately show ?thesis using inv by (simp add: bank_inv_def)
next
  case (gives_up xs t ys)
  then have "holders a (running w') = holders a (running w)"
    "pending_effect (running w') a = pending_effect (running w) a"
    "list_all (in_order ids) (running w) \<longrightarrow> list_all (in_order ids) (running w')" for a
    by (auto simp: time_out_def held_def so_far_def in_order_def)
  then show ?thesis using inv by (simp add: bank_inv_def gives_up(1))
qed

interpretation transfers: guarded_system "bank_init ids bal" "bank_step kinds" "bank_inv ids bal kinds" for ids bal kinds
  by unfold_locales (rule bank_init_inv, assumption, rule bank_step_inv)

section \<open>Progress\<close>

fun steps_left :: "phase \<Rightarrow> nat" where
  "steps_left WantsFirst = 6" | "steps_left WantsSecond = 5" | "steps_left Locked = 4" | "steps_left Debited = 3"
| "steps_left Credited = 2" | "steps_left ReleasedSecond = 1" | "steps_left Failing = 1"

definition work_of :: "bank \<Rightarrow> nat" where
  "work_of w = (\<Sum>t \<leftarrow> running w. steps_left (phase t))"

lemma advance_decreases:
  "advance t accs = Some (accs', r) \<Longrightarrow> (case r of None \<Rightarrow> 0 | Some t' \<Rightarrow> steps_left (phase t')) < steps_left (phase t)"
  by (auto simp: advance_def split: phase.splits)

lemma work_decreases: "work_step w w' \<Longrightarrow> work_of w' < work_of w"
  by (erule work_step.cases) (auto simp: work_of_def dest: advance_decreases)

lemma advance_possible: "t \<in> set (running w) \<Longrightarrow> advance t (accounts w) \<noteq> None \<Longrightarrow> \<exists>w'. work_step w w'"
proof -
  assume "t \<in> set (running w)" "advance t (accounts w) \<noteq> None"
  then obtain xs ys accs r where "running w = xs @ t # ys" "advance t (accounts w) = Some (accs, r)"
    by (auto simp: in_set_conv_decomp)
  then show ?thesis by (cases r) (auto intro: work_step.intros)
qed

lemma count_list_positive: "0 < count_list xs a \<longleftrightarrow> a \<in> set xs"
  using count_list_0_iff [of xs a] by auto

lemma holders_positive: "t \<in> set ts \<Longrightarrow> a \<in> set (held t) \<Longrightarrow> 0 < holders a ts"
  by (induction ts) (auto simp: count_list_positive)

lemma holders_someone: "0 < holders a ts \<Longrightarrow> \<exists>t \<in> set ts. a \<in> set (held t)"
  by (induction ts) (auto simp: count_list_positive)

text \<open>A transfer that cannot go on waits for a lock that another one holds.\<close>

lemma stuck_waits:
  assumes inv: "bank_inv ids bal kinds w" and t: "t \<in> set (running w)" and stuck: "\<not> (\<exists>w'. work_step w w')"
  shows "phase t = WantsFirst \<and> \<not> free (accounts w (first t)) \<or> phase t = WantsSecond \<and> \<not> free (accounts w (second t))"
proof -
  have none: "advance t (accounts w) = None" using advance_possible [OF t] stuck by blast
  have locked: "\<not> free (accounts w a)" if "a \<in> set (held t)" for a
    using holders_positive [OF t that] inv by (auto simp: bank_inv_def split: if_splits)
  show ?thesis
  proof (cases "phase t")
    case Credited
    with locked [of "second t"] none show ?thesis by (simp add: held_def advance_def Unlock_def)
  next
    case ReleasedSecond
    with locked [of "first t"] none show ?thesis by (simp add: held_def advance_def Unlock_def)
  next
    case Failing
    with locked [of "first t"] none show ?thesis by (simp add: held_def advance_def Unlock_def)
  qed (use none in \<open>auto simp: advance_def Lock_def split: if_splits\<close>)
qed

text \<open>A lock that a stuck transfer waits for is the first lock of one that waits for its second.\<close>

lemma stuck_holder:
  assumes inv: "bank_inv ids bal kinds w" and stuck: "\<not> (\<exists>w'. work_step w w')" and "\<not> free (accounts w a)"
  shows "\<exists>t \<in> set (running w). phase t = WantsSecond \<and> first t = a"
proof -
  have "0 < holders a (running w)" using inv assms(3) by (auto simp: bank_inv_def)
  then obtain t where t: "t \<in> set (running w)" "a \<in> set (held t)" using holders_someone by blast
  with stuck_waits [OF inv t(1) stuck] show ?thesis by (auto simp: held_def)
qed

lemma ordered_not_stuck:
  assumes inv: "bank_inv ids bal {Ordered} w" and ids: "list_all (\<lambda>t. ids (acc1 t) \<noteq> ids (acc2 t)) (running w)"
    and stuck: "\<not> (\<exists>w'. work_step w w')"
  shows "running w = []"
proof (rule ccontr)
  assume "running w \<noteq> []"
  then obtain t0 where t0: "t0 \<in> set (running w)" using hd_in_set by blast
  define names where "names = {ids (first t) |t. t \<in> set (running w) \<and> phase t = WantsSecond}"
  have names: "n \<in> names \<longleftrightarrow> (\<exists>t \<in> set (running w). phase t = WantsSecond \<and> ids (first t) = n)" for n
    unfolding names_def by auto
  have fin: "finite names" unfolding names_def by auto
  have up: "ids (first t) < ids (second t)" if "t \<in> set (running w)" for t
  proof -
    have "in_order ids t" "ids (acc1 t) \<noteq> ids (acc2 t)" using inv ids that by (auto simp: bank_inv_def list_all_iff)
    then show ?thesis unfolding in_order_def doubleton_eq_iff by (auto simp: less_le)
  qed
  have "\<exists>t \<in> set (running w). phase t = WantsSecond"
    using stuck_waits [OF inv t0 stuck]
  proof (elim disjE conjE)
    assume "\<not> free (accounts w (first t0))"
    from stuck_holder [OF inv stuck this] show ?thesis by auto
  qed (use t0 in auto)
  then have "names \<noteq> {}" using names by blast
  with fin have "Max names \<in> names" by (rule Max_in)
  then obtain t where t: "t \<in> set (running w)" "phase t = WantsSecond" "ids (first t) = Max names"
    using names by metis
  with stuck_waits [OF inv t(1) stuck] have "\<not> free (accounts w (second t))" by simp
  from stuck_holder [OF inv stuck this] obtain t' where
    "t' \<in> set (running w)" "phase t' = WantsSecond" "first t' = second t" by blast
  then have "ids (second t) \<in> names" using names by metis
  with fin have "ids (second t) \<le> Max names" by (rule Max_ge)
  with up [OF t(1)] t(3) show False by simp
qed

section \<open>Retries\<close>

text \<open>The retrying caller returns what the first attempt returns that is not a deadlock, if any.\<close>

definition deadlocked :: "transfer_error option \<Rightarrow> bool" where
  "deadlocked r \<longleftrightarrow> r = Some ErrDeadlock \<or> r = Some DeadlineExceeded"

lemma retry_first_other:
  "TransferWithRetry attempt i n =
     (case find (\<lambda>k. \<not> deadlocked (attempt k)) [i..<i + n] of None \<Rightarrow> Some ErrDeadlock | Some k \<Rightarrow> attempt k)"
proof (induction n arbitrary: i)
  case (Suc n)
  have "[i..<i + Suc n] = i # [Suc i..<Suc i + n]" by (simp add: upt_conv_Cons del: upt_Suc)
  with Suc [of "Suc i"] show ?case
    by (auto simp: deadlocked_def simp del: upt_Suc split: option.split)
qed simp

section \<open>Properties\<close>

lemma reachable_bank: "reachable (bank_init ids bal) (bank_step kinds) w \<Longrightarrow> bank_inv ids bal kinds w"
  by (rule transfers.reachable_inv)

lemma work_step_names:
  "work_step w w' \<Longrightarrow> list_all (\<lambda>t. ids (acc1 t) \<noteq> ids (acc2 t)) (running w) \<Longrightarrow>
     list_all (\<lambda>t. ids (acc1 t) \<noteq> ids (acc2 t)) (running w')"
  by (erule work_step.cases) (auto simp: advance_ends)

text \<open>
  C8. Money moves exactly as the results say: whatever transfers of both kinds run at the same
  time, between any accounts, and whichever of them give up, no two of them hold the same
  account, and once all have returned every account is free and its balance is what it was
  plus what the successful transfers moved, each applied once; the ones that failed have moved
  nothing.
\<close>

theorem transfers_applied_once:
  assumes "reachable (bank_init ids bal) (bank_step kinds) w"
  shows "holders a (running w) \<le> 1 \<and>
    (running w = [] \<longrightarrow> free (accounts w a) \<and> Balance (accounts w a) = wrap64 (bal a + net (ledger w) a))"
  using reachable_bank [OF assms] by (auto simp: bank_inv_def split: if_splits)

text \<open>Ordered transfers between accounts of different names work themselves off.\<close>

definition named_bank :: "(nat \<Rightarrow> string) \<Rightarrow> (nat \<Rightarrow> int) \<Rightarrow> bank \<Rightarrow> bool" where
  "named_bank ids bal w \<longleftrightarrow>
     bank_inv ids bal {Ordered} w \<and> list_all (\<lambda>t. ids (acc1 t) \<noteq> ids (acc2 t)) (running w)"

interpretation finishing: resting_system work_step "named_bank ids bal" work_of "\<lambda>w. running w = []" for ids bal
proof
  show "named_bank ids bal t" if "named_bank ids bal s" "work_step s t" for s t
    using that work_step_inv work_step_names unfolding named_bank_def by blast
  show "work_of t < work_of s" if "work_step s t" for s t using that by (rule work_decreases)
  show "running s = []" if "named_bank ids bal s" "\<And>t. \<not> work_step s t" for s
    using that ordered_not_stuck unfolding named_bank_def by blast
qed

text \<open>
  C7. Ordered transfers never deadlock: from every state that transfers between accounts of
  different names reach, some transfer can go on without waiting for a deadline, every step
  leaves less to do, and in the end all of them have returned.
\<close>

theorem ordered_transfers_finish:
  assumes "reachable (bank_init ids bal) (bank_step {Ordered}) w"
    and "list_all (\<lambda>t. ids (acc1 t) \<noteq> ids (acc2 t)) (running w)"
  shows "(\<exists>w'. run work_step w w' \<and> running w' = []) \<and>
    (\<forall>w'. run work_step w w' \<longrightarrow> (running w' = [] \<or> (\<exists>w''. work_step w' w''))) \<and>
    (\<forall>w' w''. work_step w' w'' \<longrightarrow> work_of w'' < work_of w')"
proof -
  have ok: "named_bank ids bal w" using reachable_bank [OF assms(1)] assms(2) by (simp add: named_bank_def)
  from finishing.comes_to_rest [OF ok] show ?thesis using finishing.not_stuck [OF ok] work_decreases by metis
qed

section \<open>Deadlocks\<close>

definition deadlock :: "bank \<Rightarrow> bool" where
  "deadlock w \<longleftrightarrow> running w \<noteq> [] \<and> (\<nexists>w'. work_step w w')"

lemma deadlockI:
  assumes "running w \<noteq> []" and "list_all (\<lambda>t. advance t (accounts w) = None) (running w)"
  shows "deadlock w"
proof -
  have "\<not> work_step w w'" for w'
  proof
    assume "work_step w w'"
    then show False using assms(2) by cases simp_all
  qed
  with assms(1) show ?thesis by (simp add: deadlock_def)
qed

definition opened :: "(nat \<Rightarrow> string) \<Rightarrow> bank" where
  "opened ids = \<lparr>accounts = (\<lambda>a. NewAccount (ids a) 0), running = [], ledger = []\<rparr>"

definition transfer_of :: "nat \<Rightarrow> nat \<Rightarrow> phase \<Rightarrow> transfer" where
  "transfer_of a b ph = \<lparr>acc1 = a, acc2 = b, amount = 1, first = a, second = b, phase = ph\<rparr>"

definition locked_accounts :: "(nat \<Rightarrow> string) \<Rightarrow> nat set \<Rightarrow> nat \<Rightarrow> Account" where
  "locked_accounts ids L a = \<lparr>ID = ids a, Balance = 0, free = a \<notin> L\<rparr>"

lemma opened_reachable: "reachable (bank_init ids (\<lambda>_. 0)) (bank_step kinds) (opened ids)"
  by (rule reachable.start) (simp add: bank_init_def opened_def in64_def min64_def max64_def)

lemma begin_transfer_of:
  "k = Naive \<or> \<not> ID (accs b) < ID (accs a) \<Longrightarrow> begin_transfer k accs a b 1 = transfer_of a b WantsFirst"
  by (auto simp: begin_transfer_def transfer_of_def)

text \<open>A transfer starts and takes its first lock.\<close>

lemma first_locked:
  assumes "reachable init (bank_step kinds) \<lparr>accounts = locked_accounts ids L, running = ts, ledger = []\<rparr>"
    and "k \<in> kinds" and "k = Naive \<or> \<not> ids b < ids a" and "a \<notin> L"
  shows "reachable init (bank_step kinds)
    \<lparr>accounts = locked_accounts ids (insert a L), running = transfer_of a b WantsSecond # ts, ledger = []\<rparr>"
proof -
  let ?w = "\<lparr>accounts = locked_accounts ids L, running = transfer_of a b WantsFirst # ts, ledger = []\<rparr>"
  have "begin_transfer k (locked_accounts ids L) a b 1 = transfer_of a b WantsFirst"
    using assms(3) by (intro begin_transfer_of) (simp add: locked_accounts_def)
  with reachable.move [OF assms(1) bank_step.starts [OF assms(2), of _ a b 1]]
  have w: "reachable init (bank_step kinds) ?w" by simp
  have "advance (transfer_of a b WantsFirst) (locked_accounts ids L) =
      Some (locked_accounts ids (insert a L), Some (transfer_of a b WantsSecond))"
    using assms(4) by (auto simp: advance_def transfer_of_def Lock_def locked_accounts_def fun_eq_iff)
  with work_step.goes_on [of ?w "[]"]
  have "work_step ?w \<lparr>accounts = locked_accounts ids (insert a L), running = transfer_of a b WantsSecond # ts, ledger = []\<rparr>"
    by simp
  with w show ?thesis by (blast intro: reachable.move bank_step.works)
qed

lemma opened_locked: "opened ids = \<lparr>accounts = locked_accounts ids {}, running = [], ledger = []\<rparr>"
  by (simp add: opened_def locked_accounts_def NewAccount_def fun_eq_iff)

lemma waits_for_second: "b \<in> L \<Longrightarrow> advance (transfer_of a b WantsSecond) (locked_accounts ids L) = None"
  by (simp add: advance_def transfer_of_def Lock_def locked_accounts_def)

lemma crossed_deadlock:
  assumes "k \<in> kinds" and "k = Naive \<or> ids 0 = ids 1"
  shows "\<exists>w. reachable (bank_init ids (\<lambda>_. 0)) (bank_step kinds) w \<and> deadlock w"
proof -
  note start = opened_reachable [of ids kinds, unfolded opened_locked]
  have "reachable (bank_init ids (\<lambda>_. 0)) (bank_step kinds) \<lparr>accounts = locked_accounts ids {1, 0},
      running = [transfer_of 1 0 WantsSecond, transfer_of 0 1 WantsSecond], ledger = []\<rparr>"
    by (rule first_locked [OF first_locked [OF start assms(1)] assms(1)]) (use assms(2) in auto)
  then show ?thesis by (intro exI conjI deadlockI) (auto simp: waits_for_second)
qed

lemma self_deadlock:
  "\<exists>w. reachable (bank_init ids (\<lambda>_. 0)) (bank_step {Ordered}) w \<and> deadlock w \<and> running w = [transfer_of 0 0 WantsSecond]"
proof -
  note start = opened_reachable [of ids "{Ordered}", unfolded opened_locked]
  have "reachable (bank_init ids (\<lambda>_. 0)) (bank_step {Ordered}) \<lparr>accounts = locked_accounts ids {0},
      running = [transfer_of 0 0 WantsSecond], ledger = []\<rparr>"
    by (rule first_locked [OF start]) auto
  then show ?thesis by (intro exI conjI deadlockI) (auto simp: waits_for_second)
qed

text \<open>
  What still deadlocks, until a deadline ends it: naive transfers in opposite directions
  between two accounts; ordered transfers in opposite directions when the two accounts have the
  same name; and an ordered transfer from an account to itself.
\<close>

lemma remaining_deadlocks:
  "(\<exists>w. reachable (bank_init ids (\<lambda>_. 0)) (bank_step {Naive}) w \<and> deadlock w) \<and>
   (\<exists>w. reachable (bank_init (\<lambda>_. name) (\<lambda>_. 0)) (bank_step {Ordered}) w \<and> deadlock w) \<and>
   (\<exists>w. reachable (bank_init ids (\<lambda>_. 0)) (bank_step {Ordered}) w \<and> deadlock w \<and>
      running w = [transfer_of 0 0 WantsSecond])"
  using crossed_deadlock [of Naive "{Naive}" ids] crossed_deadlock [of Ordered "{Ordered}" "\<lambda>_. name"]
    self_deadlock [of ids] by simp

lemma one_transfer_reachable:
  "reachable (bank_init (\<lambda>a. if a = 0 then ''a'' else ''b'') (\<lambda>_. 0)) (bank_step {Ordered})
     \<lparr>accounts = locked_accounts (\<lambda>a. if a = 0 then ''a'' else ''b'') {0}, running = [transfer_of 0 1 WantsSecond], ledger = []\<rparr>"
  by (rule first_locked [OF opened_reachable [unfolded opened_locked]]) auto

theorem ordered_transfers_finish_witness:
  "\<exists>w'. run work_step \<lparr>accounts = locked_accounts (\<lambda>a. if a = 0 then ''a'' else ''b'') {0},
     running = [transfer_of 0 1 WantsSecond], ledger = []\<rparr> w' \<and> running w' = []"
  using ordered_transfers_finish [OF one_transfer_reachable] by (simp add: transfer_of_def)

theorem transfers_applied_once_witness:
  "holders 0 [transfer_of 0 1 WantsSecond] \<le> 1"
  using transfers_applied_once [OF one_transfer_reachable, of 0] by simp

end
