(* ===== verification/CachePatterns.thy ===== *)
theory CachePatterns
  imports Systems
begin

text \<open>
  Lab 37, \<^verbatim>\<open>labs/37-cache-invalidation-strategies/internal/cache\<close>: the cache and the database
  (\<open>store.go\<close>, \<open>repo.go\<close>), cache-aside, write-through and write-behind (\<open>patterns.go\<close>), and
  stale-while-revalidate (\<open>stampede.go\<close>), with any number of callers at once. Instants and
  durations are integers; an item without an expiry has the zero time, here \<open>None\<close>.
\<close>

section \<open>Cache and database\<close>

record Item =
  Value :: string
  CreatedAt :: int
  TTL :: int
  ExpiresAt :: "int option"
  ReadDelta :: int

type_synonym MemoryCache = "string \<rightharpoonup> Item"

definition cache_read :: "int \<Rightarrow> string \<Rightarrow> MemoryCache \<Rightarrow> Item option" where
  "cache_read now key c =
     (case c key of
        None \<Rightarrow> None
      | Some item \<Rightarrow>
          (case ExpiresAt item of
             None \<Rightarrow> Some item
           | Some t \<Rightarrow> if t < now then None else Some item))"

definition cache_set :: "int \<Rightarrow> string \<Rightarrow> string \<Rightarrow> int \<Rightarrow> int \<Rightarrow> MemoryCache \<Rightarrow> MemoryCache" where
  "cache_set now key val ttl delta c =
     c(key \<mapsto> \<lparr>Value = val, CreatedAt = now, TTL = ttl, ExpiresAt = (if 0 < ttl then Some (now + ttl) else None),
               ReadDelta = delta\<rparr>)"

definition cache_delete :: "string \<Rightarrow> MemoryCache \<Rightarrow> MemoryCache" where
  "cache_delete key c = c(key := None)"

lemma cache_read_Some: "cache_read now k c = Some item \<Longrightarrow> c k = Some item"
  by (auto simp: cache_read_def split: option.splits if_splits)

section \<open>Cache-aside and write-through\<close>

datatype pattern = CacheAside | WriteThrough

text \<open>
  Calls in progress: a \<open>Get\<close> that has missed (with the instant it began to read the database),
  one that has the value and is about to store it (with the time the read took), an \<open>Update\<close>
  before its database write and one after it, likewise. A context that is cancelled ends a call
  that waits for the database.
\<close>

datatype call = Querying string int | Filling string string int | Writing string string int | Publishing string string int

text \<open>The ghost \<open>raced\<close>: a database write overtook a caller that is about to store an older value.\<close>

record cache_world =
  db :: "string \<rightharpoonup> string"
  cache :: MemoryCache
  clock :: int
  calls :: "call list"
  raced :: bool

definition cache_init :: "cache_world \<Rightarrow> bool" where
  "cache_init w \<longleftrightarrow> cache w = Map.empty \<and> calls w = [] \<and> \<not> raced w"

definition overtakes :: "pattern \<Rightarrow> string \<Rightarrow> call list \<Rightarrow> bool" where
  "overtakes p k cs \<longleftrightarrow>
     list_ex (\<lambda>c. case c of Filling k' _ _ \<Rightarrow> k' = k | Publishing k' _ _ \<Rightarrow> p = WriteThrough \<and> k' = k | _ \<Rightarrow> False) cs"

definition publish :: "pattern \<Rightarrow> int \<Rightarrow> int \<Rightarrow> string \<Rightarrow> string \<Rightarrow> int \<Rightarrow> MemoryCache \<Rightarrow> MemoryCache" where
  "publish p ttl now k v delta c =
     (case p of CacheAside \<Rightarrow> cache_delete k c | WriteThrough \<Rightarrow> cache_set now k v ttl delta c)"

inductive cache_step :: "pattern \<Rightarrow> int \<Rightarrow> cache_world \<Rightarrow> cache_world \<Rightarrow> bool" for p :: pattern and ttl :: int where
  misses: "cache_read (clock w) k (cache w) = None \<Longrightarrow>
    cache_step p ttl w (w\<lparr>calls := Querying k (clock w) # calls w\<rparr>)"
| finds: "calls w = xs @ Querying k start # ys \<Longrightarrow> db w k = Some v \<Longrightarrow>
    cache_step p ttl w (w\<lparr>calls := xs @ Filling k v (clock w - start) # ys\<rparr>)"
| finds_nothing: "calls w = xs @ Querying k start # ys \<Longrightarrow> db w k = None \<Longrightarrow>
    cache_step p ttl w (w\<lparr>calls := xs @ ys\<rparr>)"
| fills: "calls w = xs @ Filling k v delta # ys \<Longrightarrow>
    cache_step p ttl w (w\<lparr>cache := cache_set (clock w) k v ttl delta (cache w), calls := xs @ ys\<rparr>)"
| updates: "cache_step p ttl w (w\<lparr>calls := Writing k v (clock w) # calls w\<rparr>)"
| writes: "calls w = xs @ Writing k v start # ys \<Longrightarrow>
    cache_step p ttl w (w\<lparr>db := (db w)(k \<mapsto> v), calls := xs @ Publishing k v (clock w - start) # ys,
      raced := raced w \<or> overtakes p k (calls w)\<rparr>)"
| publishes: "calls w = xs @ Publishing k v delta # ys \<Longrightarrow>
    cache_step p ttl w (w\<lparr>cache := publish p ttl (clock w) k v delta (cache w), calls := xs @ ys\<rparr>)"
| cancelled: "calls w = xs @ c # ys \<Longrightarrow> (\<exists>k v start. c = Querying k start \<or> c = Writing k v start) \<Longrightarrow>
    cache_step p ttl w (w\<lparr>calls := xs @ ys\<rparr>)"
| ticks: "clock w \<le> t \<Longrightarrow> cache_step p ttl w (w\<lparr>clock := t\<rparr>)"

definition publishing :: "string \<Rightarrow> call list \<Rightarrow> bool" where
  "publishing k cs \<longleftrightarrow> list_ex (\<lambda>c. case c of Publishing k' _ _ \<Rightarrow> k' = k | _ \<Rightarrow> False) cs"

definition call_current :: "pattern \<Rightarrow> (string \<rightharpoonup> string) \<Rightarrow> call \<Rightarrow> bool" where
  "call_current p d c =
     (case c of
        Filling k v _ \<Rightarrow> d k = Some v
      | Publishing k v _ \<Rightarrow> p = WriteThrough \<longrightarrow> d k = Some v
      | _ \<Rightarrow> True)"

definition cache_agrees :: "cache_world \<Rightarrow> bool" where
  "cache_agrees w \<longleftrightarrow> (\<forall>k item. cache w k = Some item \<and> \<not> publishing k (calls w) \<longrightarrow> db w k = Some (Value item))"

definition cache_inv :: "pattern \<Rightarrow> cache_world \<Rightarrow> bool" where
  "cache_inv p w \<longleftrightarrow> (\<not> raced w \<longrightarrow> list_all (call_current p (db w)) (calls w) \<and> cache_agrees w)"

lemma publishing_simps [simp]:
  "publishing k [] = False"
  "publishing k (c # cs) \<longleftrightarrow> (case c of Publishing k' _ _ \<Rightarrow> k' = k | _ \<Rightarrow> False) \<or> publishing k cs"
  "publishing k (xs @ ys) \<longleftrightarrow> publishing k xs \<or> publishing k ys"
  by (simp_all add: publishing_def)

lemma call_current_simps [simp]:
  "call_current p d (Querying k s)" "call_current p d (Filling k v s) \<longleftrightarrow> d k = Some v" "call_current p d (Writing k v s)"
  "call_current p d (Publishing k v s) \<longleftrightarrow> (p = WriteThrough \<longrightarrow> d k = Some v)"
  by (simp_all add: call_current_def)

text \<open>A write that overtakes nobody leaves the other calls as they are.\<close>

lemma calls_after_write:
  "\<not> overtakes p k cs \<Longrightarrow> list_all (call_current p d) cs \<Longrightarrow> list_all (call_current p (d(k \<mapsto> v))) cs"
  by (induction cs) (auto simp: overtakes_def call_current_def split: call.splits)

lemma cache_step_inv:
  assumes inv: "cache_inv p w" and s: "cache_step p ttl w w'"
  shows "cache_inv p w'"
  unfolding cache_inv_def
proof
  assume r: "\<not> raced w'"
  moreover have "raced w \<Longrightarrow> raced w'" using s by cases simp_all
  ultimately have ok: "list_all (call_current p (db w)) (calls w)" and c: "cache_agrees w" using inv by (auto simp: cache_inv_def)
  from s show "list_all (call_current p (db w')) (calls w') \<and> cache_agrees w'"
  proof cases
    case (writes xs k v start ys)
    with r have "\<not> overtakes p k (calls w)" by simp
    from calls_after_write [OF this ok] writes show ?thesis
      using c by (auto simp: cache_agrees_def)
  next
    case (fills xs k v delta ys)
    with ok c show ?thesis by (auto simp: cache_agrees_def cache_set_def)
  next
    case (publishes xs k v delta ys)
    with ok c show ?thesis
      by (cases p) (auto simp: cache_agrees_def publish_def cache_set_def cache_delete_def)
  next
    case (cancelled xs c' ys)
    with ok c show ?thesis by (auto simp: cache_agrees_def)
  qed (use ok c in \<open>auto simp: cache_agrees_def\<close>)
qed

lemma cache_init_inv: "cache_init w \<Longrightarrow> cache_inv p w"
  by (simp add: cache_init_def cache_inv_def cache_agrees_def)

interpretation coherence: guarded_system cache_init "cache_step p ttl" "cache_inv p" for p ttl
  by unfold_locales (rule cache_init_inv, assumption, rule cache_step_inv)


text \<open>
  C20. Cache-aside and write-through are coherent, for any number of callers, as long as no
  database write overtakes a caller that holds an older value of the key: outside the window
  between an update's database write and its cache operation, a hit returns the value of the
  database.
\<close>

theorem cache_coherent:
  "reachable cache_init (cache_step p ttl) w \<Longrightarrow> \<not> raced w \<Longrightarrow> \<not> publishing k (calls w) \<Longrightarrow>
   cache_read now k (cache w) = Some item \<Longrightarrow> db w k = Some (Value item)"
  using coherence.reachable_inv [of p ttl w] by (auto simp: cache_inv_def cache_agrees_def dest: cache_read_Some)

text \<open>One caller at a time: a read that misses, and an update while other calls wait.\<close>

lemma read_run:
  assumes "cache_read (clock w) k (cache w) = None" and "db w k = Some v" and "calls w = []"
  shows "run (cache_step p ttl) w (w\<lparr>cache := cache_set (clock w) k v ttl 0 (cache w)\<rparr>)"
proof -
  let ?w1 = "w\<lparr>calls := Querying k (clock w) # calls w\<rparr>"
  let ?w2 = "w\<lparr>calls := [] @ Filling k v (clock w - clock w) # []\<rparr>"
  have 1: "cache_step p ttl w ?w1" using assms(1) by (rule misses)
  have 2: "cache_step p ttl ?w1 ?w2" using finds [of ?w1 "[]" k "clock w" "[]" v p ttl] assms by simp
  have "cache_step p ttl ?w2 (w\<lparr>cache := cache_set (clock w) k v ttl 0 (cache w)\<rparr>)"
    using fills [of ?w2 "[]" k v "clock w - clock w" "[]" p ttl] assms by (cases w) simp
  with 1 2 show ?thesis by (meson run.intros)
qed

lemma update_run:
  "run (cache_step p ttl) w (w\<lparr>db := (db w)(k \<mapsto> v), cache := publish p ttl (clock w) k v 0 (cache w),
     raced := raced w \<or> overtakes p k (calls w)\<rparr>)"
proof -
  let ?w1 = "w\<lparr>calls := [] @ Writing k v (clock w) # calls w\<rparr>"
  let ?w2 = "w\<lparr>db := (db w)(k \<mapsto> v), calls := [] @ Publishing k v (clock w - clock w) # calls w,
     raced := raced w \<or> overtakes p k (calls w)\<rparr>"
  have 1: "cache_step p ttl w ?w1" using updates [of p ttl w k v] by simp
  have 2: "cache_step p ttl ?w1 ?w2"
    using writes [of ?w1 "[]" k v "clock w" "calls w" p ttl] by (simp add: overtakes_def)
  have "cache_step p ttl ?w2 (w\<lparr>db := (db w)(k \<mapsto> v), cache := publish p ttl (clock w) k v 0 (cache w),
     raced := raced w \<or> overtakes p k (calls w)\<rparr>)"
    using publishes [of ?w2 "[]" k v "clock w - clock w" "calls w" p ttl] by (cases w) simp
  with 1 2 show ?thesis by (meson run.intros)
qed

definition filled_world :: "string \<Rightarrow> string \<Rightarrow> cache_world" where
  "filled_world k v = \<lparr>db = [k \<mapsto> v], cache = Map.empty, clock = 0, calls = [], raced = False\<rparr>"

lemma filled_world_init: "reachable cache_init s (filled_world k v)"
  by (rule reachable.start) (simp add: cache_init_def filled_world_def)

lemma cache_coherent_witness:
  "db (filled_world ''k'' ''a''\<lparr>cache := cache_set 0 ''k'' ''a'' 60 0 Map.empty\<rparr>) ''k'' =
   Some (Value \<lparr>Value = ''a'', CreatedAt = 0, TTL = 60, ExpiresAt = Some 60, ReadDelta = 0\<rparr>)"
proof (rule cache_coherent [where p = CacheAside and ttl = 60 and now = 30])
  show "reachable cache_init (cache_step CacheAside 60)
     (filled_world ''k'' ''a''\<lparr>cache := cache_set 0 ''k'' ''a'' 60 0 Map.empty\<rparr>)"
    using reachable_run [OF filled_world_init read_run [of "filled_world ''k'' ''a''" "''k''" "''a''" CacheAside 60]]
    by (simp add: filled_world_def cache_read_def)
qed (simp_all add: filled_world_def cache_set_def cache_read_def)

text \<open>
  The window that the coherence result excludes is real, for both patterns: a reader that
  missed, then lost the race against an update, stores the old value last. When all calls are
  over, every hit returns the old value until the entry expires, and for ever without a time to
  live.
\<close>

lemma stale_after_race:
  "\<exists>w. reachable cache_init (cache_step p ttl) w \<and> calls w = [] \<and> db w k = Some new \<and>
     (\<forall>now. map_option Value (cache_read now k (cache w)) = (if 0 < ttl \<and> ttl < now then None else Some old))"
proof -
  let ?w0 = "filled_world k old"
  let ?w1 = "?w0\<lparr>calls := [Querying k 0]\<rparr>"
  let ?w2 = "?w0\<lparr>calls := [Filling k old 0]\<rparr>"
  let ?w3 = "?w2\<lparr>db := (db ?w2)(k \<mapsto> new), cache := publish p ttl (clock ?w2) k new 0 (cache ?w2),
     raced := raced ?w2 \<or> overtakes p k (calls ?w2)\<rparr>"
  let ?w4 = "?w3\<lparr>cache := cache_set (clock ?w3) k old ttl 0 (cache ?w3), calls := []\<rparr>"
  have "cache_step p ttl ?w0 ?w1"
    using misses [of ?w0 k p ttl] by (simp add: filled_world_def cache_read_def)
  then have "reachable cache_init (cache_step p ttl) ?w1" by (rule reachable.move [OF filled_world_init])
  moreover have "cache_step p ttl ?w1 ?w2"
    using finds [of ?w1 "[]" k 0 "[]" old p ttl] by (simp add: filled_world_def)
  ultimately have "reachable cache_init (cache_step p ttl) ?w2" by (rule reachable.move)
  then have "reachable cache_init (cache_step p ttl) ?w3" by (rule reachable_run) (rule update_run)
  moreover have "cache_step p ttl ?w3 ?w4"
    using fills [of ?w3 "[]" k old 0 "[]" p ttl] by simp
  ultimately have "reachable cache_init (cache_step p ttl) ?w4" by (rule reachable.move)
  then show ?thesis
    by (rule_tac x = ?w4 in exI) (auto simp: filled_world_def cache_read_def cache_set_def)
qed

end
