(* ===== verification/WriteBehind.thy ===== *)
theory WriteBehind
  imports CachePatterns
begin

text \<open>
  Lab 37, the write-behind service of \<^verbatim>\<open>internal/cache/patterns.go\<close>: an update goes to the cache
  and to a queue of bounded capacity, and one worker writes the queue to the database. The worker
  and the callers run at once; \<open>Close\<close> lets the worker drain the queue and end.
\<close>

section \<open>The service\<close>

type_synonym WriteRequest = "string \<times> string"

text \<open>
  The worker waits in its \<open>select\<close>, or is about to write a request it has received; after
  \<open>quit\<close> it drains the queue in the same way, until the queue is empty.
\<close>

datatype flush_worker = Selecting | Flushing WriteRequest | Draining | DrainFlushing WriteRequest | Ended

text \<open>
  \<open>updating\<close> holds the updates between their two halves, \<open>loading\<close> the reads that missed. The
  ghosts: the requests the queue took, in order, and those it turned away.
\<close>

record behind =
  store :: "string \<rightharpoonup> string"
  items :: MemoryCache
  now :: int
  writeQueue :: "WriteRequest list"
  worker :: flush_worker
  quit :: bool
  updating :: "WriteRequest list"
  loading :: "call list"
  accepted :: "WriteRequest list"
  dropped :: "WriteRequest list"

definition NewWriteBehindService :: "(string \<rightharpoonup> string) \<Rightarrow> behind" where
  "NewWriteBehindService d =
     \<lparr>store = d, items = Map.empty, now = 0, writeQueue = [], worker = Selecting, quit = False, updating = [],
      loading = [], accepted = [], dropped = []\<rparr>"

definition behind_init :: "(string \<rightharpoonup> string) \<Rightarrow> behind \<Rightarrow> bool" where
  "behind_init d w \<longleftrightarrow> w = NewWriteBehindService d"

definition db_write :: "WriteRequest \<Rightarrow> (string \<rightharpoonup> string) \<Rightarrow> string \<rightharpoonup> string" where
  "db_write req d = d(fst req \<mapsto> snd req)"

inductive flush_step :: "behind \<Rightarrow> behind \<Rightarrow> bool" where
  receives: "worker w = Selecting \<Longrightarrow> writeQueue w = req # q \<Longrightarrow>
    flush_step w (w\<lparr>writeQueue := q, worker := Flushing req\<rparr>)"
| flushes: "worker w = Flushing req \<Longrightarrow> flush_step w (w\<lparr>store := db_write req (store w), worker := Selecting\<rparr>)"
| quits: "worker w = Selecting \<Longrightarrow> quit w \<Longrightarrow> flush_step w (w\<lparr>worker := Draining\<rparr>)"
| drains: "worker w = Draining \<Longrightarrow> writeQueue w = req # q \<Longrightarrow>
    flush_step w (w\<lparr>writeQueue := q, worker := DrainFlushing req\<rparr>)"
| drain_flushes: "worker w = DrainFlushing req \<Longrightarrow>
    flush_step w (w\<lparr>store := db_write req (store w), worker := Draining\<rparr>)"
| ends: "worker w = Draining \<Longrightarrow> writeQueue w = [] \<Longrightarrow> flush_step w (w\<lparr>worker := Ended\<rparr>)"

text \<open>
  The callers. A queue without capacity takes a request only when the worker waits for one, and
  passes it on at once; a send finds no room when the queue is full. The time the cache notes for
  an update is a fixed millisecond. A second \<open>Close\<close> panics and is left out.
\<close>

inductive caller_step :: "int \<Rightarrow> nat \<Rightarrow> behind \<Rightarrow> behind \<Rightarrow> bool" for ttl :: int and capacity :: nat where
  sets: "caller_step ttl capacity w (w\<lparr>items := cache_set (now w) k v ttl 1000000 (items w),
    updating := (k, v) # updating w\<rparr>)"
| enqueues: "updating w = xs @ req # ys \<Longrightarrow> length (writeQueue w) < capacity \<Longrightarrow>
    caller_step ttl capacity w (w\<lparr>updating := xs @ ys, writeQueue := writeQueue w @ [req],
      accepted := accepted w @ [req]\<rparr>)"
| hands_over: "updating w = xs @ req # ys \<Longrightarrow> capacity = 0 \<Longrightarrow> worker w = Selecting \<Longrightarrow>
    caller_step ttl capacity w (w\<lparr>updating := xs @ ys, worker := Flushing req, accepted := accepted w @ [req]\<rparr>)"
| drops: "updating w = xs @ req # ys \<Longrightarrow> capacity \<le> length (writeQueue w) \<Longrightarrow>
    caller_step ttl capacity w (w\<lparr>updating := xs @ ys, dropped := dropped w @ [req]\<rparr>)"
| reads: "cache_read (now w) k (items w) = None \<Longrightarrow>
    caller_step ttl capacity w (w\<lparr>loading := Querying k (now w) # loading w\<rparr>)"
| loads: "loading w = xs @ Querying k start # ys \<Longrightarrow> store w k = Some v \<Longrightarrow>
    caller_step ttl capacity w (w\<lparr>loading := xs @ Filling k v (now w - start) # ys\<rparr>)"
| fails: "loading w = xs @ Querying k start # ys \<Longrightarrow> caller_step ttl capacity w (w\<lparr>loading := xs @ ys\<rparr>)"
| stores: "loading w = xs @ Filling k v delta # ys \<Longrightarrow>
    caller_step ttl capacity w (w\<lparr>items := cache_set (now w) k v ttl delta (items w), loading := xs @ ys\<rparr>)"
| closes: "\<not> quit w \<Longrightarrow> caller_step ttl capacity w (w\<lparr>quit := True\<rparr>)"
| passes: "now w \<le> t \<Longrightarrow> caller_step ttl capacity w (w\<lparr>now := t\<rparr>)"

definition behind_step :: "int \<Rightarrow> nat \<Rightarrow> behind \<Rightarrow> behind \<Rightarrow> bool" where
  "behind_step ttl capacity w w' \<longleftrightarrow> flush_step w w' \<or> caller_step ttl capacity w w'"

section \<open>The database follows the queue\<close>

definition replay_requests :: "WriteRequest list \<Rightarrow> (string \<rightharpoonup> string) \<Rightarrow> string \<rightharpoonup> string" where
  "replay_requests reqs d = fold db_write reqs d"

definition received :: "flush_worker \<Rightarrow> WriteRequest list" where
  "received p = (case p of Flushing req \<Rightarrow> [req] | DrainFlushing req \<Rightarrow> [req] | _ \<Rightarrow> [])"

lemma received_simps [simp]:
  "received Selecting = []" "received (Flushing req) = [req]" "received Draining = []"
  "received (DrainFlushing req) = [req]" "received Ended = []"
  by (simp_all add: received_def)

text \<open>What the worker has written, what it has received and what is queued make up what was accepted.\<close>

definition behind_inv :: "(string \<rightharpoonup> string) \<Rightarrow> nat \<Rightarrow> behind \<Rightarrow> bool" where
  "behind_inv d capacity w \<longleftrightarrow> length (writeQueue w) \<le> capacity \<and>
     (\<exists>written. accepted w = written @ received (worker w) @ writeQueue w \<and> store w = replay_requests written d)"

lemma behind_invI:
  "length (writeQueue w) \<le> capacity \<Longrightarrow> accepted w = written @ received (worker w) @ writeQueue w \<Longrightarrow>
   store w = replay_requests written d \<Longrightarrow> behind_inv d capacity w"
  by (auto simp: behind_inv_def)

lemma replay_requests_snoc [simp]: "replay_requests (reqs @ [req]) d = db_write req (replay_requests reqs d)"
  by (simp add: replay_requests_def)

lemma flush_step_inv:
  assumes "behind_inv d capacity w" and "flush_step w w'"
  shows "behind_inv d capacity w'"
proof -
  from assms(1) obtain written where i: "length (writeQueue w) \<le> capacity"
      "accepted w = written @ received (worker w) @ writeQueue w" "store w = replay_requests written d"
    by (auto simp: behind_inv_def)
  from assms(2) show ?thesis
  proof cases
    case (flushes req)
    with i show ?thesis by (intro behind_invI [of _ _ "written @ [req]"]) simp_all
  next
    case (drain_flushes req)
    with i show ?thesis by (intro behind_invI [of _ _ "written @ [req]"]) simp_all
  qed (use i in \<open>auto intro!: behind_invI [of _ _ written]\<close>)
qed

lemma caller_step_inv:
  assumes "behind_inv d capacity w" and "caller_step ttl capacity w w'"
  shows "behind_inv d capacity w'"
proof -
  from assms(1) obtain written where i: "length (writeQueue w) \<le> capacity"
      "accepted w = written @ received (worker w) @ writeQueue w" "store w = replay_requests written d"
    by (auto simp: behind_inv_def)
  from assms(2) show ?thesis
    by cases (use i in \<open>auto intro!: behind_invI [of _ _ written]\<close>)
qed


lemma behind_step_inv: "behind_inv d capacity w \<Longrightarrow> behind_step ttl capacity w w' \<Longrightarrow> behind_inv d capacity w'"
  unfolding behind_step_def by (blast intro: flush_step_inv caller_step_inv)

lemma behind_init_inv: "behind_init d w \<Longrightarrow> behind_inv d capacity w"
  by (auto simp: behind_init_def NewWriteBehindService_def replay_requests_def intro!: behind_invI [of _ _ "[]"])

interpretation behind: guarded_system "behind_init d" "behind_step ttl capacity" "behind_inv d capacity" for d ttl capacity
  by unfold_locales (rule behind_init_inv, assumption, rule behind_step_inv)

section \<open>Closing the service\<close>

fun worker_weight :: "flush_worker \<Rightarrow> nat" where
  "worker_weight Ended = 0"
| "worker_weight Draining = 1"
| "worker_weight Selecting = 2"
| "worker_weight (DrainFlushing _) = 3"
| "worker_weight (Flushing _) = 4"

definition flush_work :: "behind \<Rightarrow> nat" where
  "flush_work w = 3 * length (writeQueue w) + worker_weight (worker w)"

lemma flush_step_work: "flush_step w w' \<Longrightarrow> flush_work w' < flush_work w"
  by (cases rule: flush_step.cases) (auto simp: flush_work_def)

text \<open>What the worker leaves alone, and what it has done once it has ended.\<close>

definition ends_empty :: "behind \<Rightarrow> behind \<Rightarrow> bool" where
  "ends_empty w w' \<longleftrightarrow> accepted w' = accepted w \<and> items w' = items w \<and> updating w' = updating w \<and> quit w' = quit w \<and>
     loading w' = loading w \<and> dropped w' = dropped w \<and> (worker w' = Ended \<longrightarrow> writeQueue w' = [])"

lemma flush_run_ends_empty:
  assumes "run flush_step w w'" and "worker w \<noteq> Ended"
  shows "ends_empty w w'"
  by (rule run_invariant [OF assms(1)])
    (use assms(2) in \<open>auto simp: ends_empty_def elim!: flush_step.cases\<close>)

lemma flush_run_inv: "run flush_step w w' \<Longrightarrow> behind_inv d capacity w \<Longrightarrow> behind_inv d capacity w'"
  by (erule run_invariant) (auto intro: flush_step_inv)

lemma worker_can_move:
  assumes stuck: "\<And>u. \<not> flush_step w u" and q: "quit w"
  shows "worker w = Ended"
proof (cases "worker w")
  case Selecting
  show ?thesis by (rule notE [OF stuck quits [OF Selecting q]])
next
  case (Flushing req)
  show ?thesis by (rule notE [OF stuck flushes [OF Flushing]])
next
  case Draining
  show ?thesis
  proof (cases "writeQueue w")
    case Nil
    show ?thesis by (rule notE [OF stuck ends [OF Draining Nil]])
  next
    case (Cons req q)
    show ?thesis by (rule notE [OF stuck drains [OF Draining Cons]])
  qed
next
  case (DrainFlushing req)
  show ?thesis by (rule notE [OF stuck drain_flushes [OF DrainFlushing]])
qed

text \<open>From the call of \<open>Close\<close> on, the worker works the queue off.\<close>

definition closing :: "(string \<rightharpoonup> string) \<Rightarrow> nat \<Rightarrow> behind \<Rightarrow> bool" where
  "closing d capacity w \<longleftrightarrow> behind_inv d capacity w \<and> quit w \<and> (worker w = Ended \<longrightarrow> writeQueue w = [])"

interpretation flushing: resting_system flush_step "closing d capacity" flush_work
  "\<lambda>w. worker w = Ended \<and> writeQueue w = []" for d capacity
proof
  show "closing d capacity t" if "closing d capacity s" "flush_step s t" for s t
    using that flush_step_inv [of d capacity s t] unfolding closing_def
    by (auto elim!: flush_step.cases)
  show "flush_work t < flush_work s" if "flush_step s t" for s t using that by (rule flush_step_work)
  show "worker s = Ended \<and> writeQueue s = []" if "closing d capacity s" "\<And>t. \<not> flush_step s t" for s
    using worker_can_move [OF that(2)] that(1) by (simp add: closing_def)
qed

lemma flushed:
  "closing d capacity w \<Longrightarrow> worker w = Ended \<Longrightarrow> store w = replay_requests (accepted w) d"
  by (auto simp: closing_def behind_inv_def)

text \<open>
  C19. Closing loses nothing that the queue took: from any moment before the worker has ended at
  which \<open>Close\<close> has been called, the worker alone comes to an end, and however it is scheduled
  it ends with an empty queue and with every accepted request written, in the order in which they
  were accepted.
\<close>

theorem write_behind_flushes:
  assumes "reachable (behind_init d) (behind_step ttl capacity) w" and "quit w" and "worker w \<noteq> Ended"
  shows "(\<exists>w'. run flush_step w w' \<and> worker w' = Ended) \<and>
    (\<forall>w'. run flush_step w w' \<and> (\<nexists>u. flush_step w' u) \<longrightarrow>
       worker w' = Ended \<and> writeQueue w' = [] \<and> store w' = replay_requests (accepted w) d)"
proof (intro conjI allI impI)
  have ok: "closing d capacity w" using behind.reachable_inv [OF assms(1)] assms(2,3) by (simp add: closing_def)
  show "\<exists>w'. run flush_step w w' \<and> worker w' = Ended" by (rule flushing.comes_to_rest [OF ok]) blast
  fix w' assume r: "run flush_step w w' \<and> (\<nexists>u. flush_step w' u)"
  then have "worker w' = Ended \<and> writeQueue w' = []" using flushing.rest_settled [OF ok, of w'] by blast
  moreover have "closing d capacity w'" using r by (intro flushing.run_inv [OF ok]) blast
  moreover have "accepted w' = accepted w"
    using flush_run_ends_empty [of w w'] r assms(3) by (simp add: ends_empty_def)
  ultimately show "worker w' = Ended" "writeQueue w' = []" "store w' = replay_requests (accepted w) d"
    using flushed [of d capacity w'] by simp_all
qed

section \<open>Losses\<close>

text \<open>A full queue, after as many updates of \<open>k\<close> to \<open>v\<close> as it takes.\<close>

definition queued :: "int \<Rightarrow> string \<Rightarrow> string \<Rightarrow> nat \<Rightarrow> behind" where
  "queued ttl k v n = (NewWriteBehindService Map.empty)
     \<lparr>items := (if n = 0 then Map.empty else cache_set 0 k v ttl 1000000 Map.empty),
      writeQueue := replicate n (k, v), accepted := replicate n (k, v)\<rparr>"

lemma queued_simps [simp]:
  "now (queued ttl k v n) = 0" "writeQueue (queued ttl k v n) = replicate n (k, v)" "updating (queued ttl k v n) = []"
  "worker (queued ttl k v n) = Selecting" "loading (queued ttl k v n) = []" "quit (queued ttl k v n) = False"
  "accepted (queued ttl k v n) = replicate n (k, v)" "store (queued ttl k v n) = Map.empty"
  by (simp_all add: queued_def NewWriteBehindService_def)

lemma queued_reachable: "n \<le> capacity \<Longrightarrow> reachable (behind_init Map.empty) (behind_step ttl capacity) (queued ttl k v n)"
proof (induction n)
  case 0
  show ?case by (rule reachable.start) (simp add: behind_init_def queued_def NewWriteBehindService_def)
next
  case (Suc n)
  let ?w = "queued ttl k v n"
  let ?w1 = "?w\<lparr>items := cache_set (now ?w) k v ttl 1000000 (items ?w), updating := (k, v) # updating ?w\<rparr>"
  from Suc have "reachable (behind_init Map.empty) (behind_step ttl capacity) ?w" by simp
  moreover have "behind_step ttl capacity ?w ?w1" unfolding behind_step_def by (blast intro: sets)
  moreover have "behind_step ttl capacity ?w1 (queued ttl k v (Suc n))"
    using enqueues [of ?w1 "[]" "(k, v)" "[]" capacity ttl] Suc.prems
    by (auto simp: behind_step_def queued_def NewWriteBehindService_def cache_set_def replicate_append_same)
  ultimately show ?case by (blast intro: reachable.move)
qed

lemma write_behind_flushes_witness:
  "\<exists>w'. run flush_step (queued 60 ''k'' ''v'' 2\<lparr>quit := True\<rparr>) w' \<and> worker w' = Ended"
proof -
  have "caller_step 60 2 (queued 60 ''k'' ''v'' 2) (queued 60 ''k'' ''v'' 2\<lparr>quit := True\<rparr>)"
    by (rule closes) simp
  then have "reachable (behind_init Map.empty) (behind_step 60 2) (queued 60 ''k'' ''v'' 2\<lparr>quit := True\<rparr>)"
    by (intro reachable.move [OF queued_reachable [of 2 2 60 "''k''" "''v''"]]) (simp_all add: behind_step_def)
  from write_behind_flushes [OF this] show ?thesis by simp
qed

lemma flush_run_behind: "run flush_step w w' \<Longrightarrow> run (behind_step ttl capacity) w w'"
  by (induction rule: run.induct) (auto intro: run.intros simp: behind_step_def)

lemma replay_same: "replay_requests (replicate n (k, v)) d k \<in> {d k, Some v}"
proof (cases n)
  case (Suc m)
  then have "replicate n (k, v) = replicate m (k, v) @ [(k, v)]" by (simp add: replicate_append_same)
  then show ?thesis by (simp add: db_write_def)
qed (simp add: replay_requests_def)

lemma full_queue_drops:
  "\<exists>w. reachable (behind_init Map.empty) (behind_step ttl capacity) w \<and> worker w = Ended \<and> updating w = [] \<and> loading w = [] \<and>
     (\<forall>t. map_option Value (cache_read t k (items w)) = (if 0 < ttl \<and> ttl < t then None else Some new)) \<and>
     store w k \<in> {None, Some old}"
proof -
  let ?w0 = "queued ttl k old capacity"
  let ?w1 = "?w0\<lparr>items := cache_set (now ?w0) k new ttl 1000000 (items ?w0), updating := (k, new) # updating ?w0\<rparr>"
  let ?w2 = "?w1\<lparr>updating := [] @ [], dropped := dropped ?w1 @ [(k, new)]\<rparr>"
  let ?w3 = "?w2\<lparr>quit := True\<rparr>"
  have "reachable (behind_init Map.empty) (behind_step ttl capacity) ?w0" by (rule queued_reachable) simp
  moreover have "behind_step ttl capacity ?w0 ?w1" unfolding behind_step_def by (blast intro: sets)
  moreover have "behind_step ttl capacity ?w1 ?w2"
    using drops [of ?w1 "[]" "(k, new)" "[]" capacity ttl] by (simp add: behind_step_def)
  moreover have "behind_step ttl capacity ?w2 ?w3" using closes [of ?w2 ttl capacity] by (simp add: behind_step_def)
  ultimately have r: "reachable (behind_init Map.empty) (behind_step ttl capacity) ?w3" by (meson reachable.move)
  from run_to_rest [of flush_step flush_work ?w3, OF flush_step_work]
  obtain w where w: "run flush_step ?w3 w" "\<And>u. \<not> flush_step w u" by metis
  have e: "ends_empty ?w3 w" by (rule flush_run_ends_empty [OF w(1)]) simp
  moreover from e have "worker w = Ended" by (intro worker_can_move w(2)) (simp add: ends_empty_def)
  moreover have "behind_inv Map.empty capacity w" by (rule flush_run_inv [OF w(1) behind.reachable_inv [OF r]])
  ultimately have "worker w = Ended" "store w = replay_requests (replicate capacity (k, old)) Map.empty"
      "items w = items ?w3" "updating w = []" "loading w = []"
    by (auto simp: ends_empty_def behind_inv_def)
  moreover have "reachable (behind_init Map.empty) (behind_step ttl capacity) w"
    by (rule reachable_run [OF r flush_run_behind [OF w(1)]])
  ultimately show ?thesis
    using replay_same [of capacity k old Map.empty]
    by (intro exI [of _ w]) (auto simp: cache_read_def cache_set_def)
qed

text \<open>After the worker has ended nothing reaches the database.\<close>

lemma ended_stays:
  assumes "run (behind_step ttl capacity) w w'" and "worker w = Ended"
  shows "worker w' = Ended \<and> store w' = store w"
  by (rule run_invariant [OF assms(1)])
    (use assms(2) in \<open>auto simp: behind_step_def elim!: flush_step.cases caller_step.cases\<close>)

lemma update_after_close:
  "\<exists>w. reachable (behind_init Map.empty) (behind_step ttl (Suc capacity)) w \<and> updating w = [] \<and> dropped w = [] \<and>
     accepted w = [(k, v)] \<and> \<not> (\<exists>w'. run (behind_step ttl (Suc capacity)) w w' \<and> store w' k \<noteq> None)"
proof -
  let ?w0 = "NewWriteBehindService Map.empty"
  let ?w1 = "?w0\<lparr>quit := True\<rparr>"
  let ?w2 = "?w1\<lparr>worker := Draining\<rparr>"
  let ?w3 = "?w1\<lparr>worker := Ended\<rparr>"
  let ?w4 = "?w3\<lparr>items := cache_set (now ?w3) k v ttl 1000000 (items ?w3), updating := (k, v) # updating ?w3\<rparr>"
  let ?w5 = "?w4\<lparr>updating := [] @ [], writeQueue := writeQueue ?w4 @ [(k, v)], accepted := accepted ?w4 @ [(k, v)]\<rparr>"
  note s = behind_step_def NewWriteBehindService_def
  have "behind_step ttl (Suc capacity) ?w0 ?w1" using closes [of ?w0 ttl "Suc capacity"] by (simp add: s)
  moreover have "behind_step ttl (Suc capacity) ?w1 ?w2" using quits [of ?w1] by (simp add: s)
  moreover have "behind_step ttl (Suc capacity) ?w2 ?w3" using ends [of ?w2] by (simp add: s)
  moreover have "behind_step ttl (Suc capacity) ?w3 ?w4" unfolding behind_step_def by (blast intro: sets)
  moreover have "behind_step ttl (Suc capacity) ?w4 ?w5"
    using enqueues [of ?w4 "[]" "(k, v)" "[]" "Suc capacity" ttl] by (simp add: s)
  moreover have "reachable (behind_init Map.empty) (behind_step ttl (Suc capacity)) ?w0"
    by (rule reachable.start) (simp add: behind_init_def)
  ultimately have "reachable (behind_init Map.empty) (behind_step ttl (Suc capacity)) ?w5" by (meson reachable.move)
  then show ?thesis
    using ended_stays [of ttl "Suc capacity" ?w5] by (intro exI [of _ ?w5]) (auto simp: NewWriteBehindService_def)
qed

text \<open>
  What the service loses. With any capacity, a burst of updates can end, after an orderly
  \<open>Close\<close>, with the newest value in the cache only: the queue was full, and the update, which
  returns nothing, said nothing. And with any room in the queue, an update after \<open>Close\<close> is
  accepted, and no later step of anybody writes it.
\<close>

lemma write_behind_loses:
  "(\<exists>w. reachable (behind_init Map.empty) (behind_step ttl capacity) w \<and> worker w = Ended \<and> updating w = [] \<and> loading w = [] \<and>
     (\<forall>t. map_option Value (cache_read t k (items w)) = (if 0 < ttl \<and> ttl < t then None else Some new)) \<and>
     store w k \<in> {None, Some old}) \<and>
   (\<exists>w. reachable (behind_init Map.empty) (behind_step ttl (Suc capacity)) w \<and> updating w = [] \<and> dropped w = [] \<and>
     accepted w = [(k, v)] \<and> \<not> (\<exists>w'. run (behind_step ttl (Suc capacity)) w w' \<and> store w' k \<noteq> None))"
  using full_queue_drops update_after_close by (rule conjI)

end
