(* ===== verification/Revalidation.thy ===== *)
theory Revalidation
  imports CachePatterns
begin

text \<open>
  Lab 37, stale-while-revalidate in \<^verbatim>\<open>internal/cache/stampede.go\<close>: an entry that has expired is
  served for a grace period while one goroutine per key fetches the value anew.
\<close>

section \<open>The service\<close>

text \<open>What \<open>Get\<close> does with the raw entry: serve it, serve it and revalidate, or fetch.\<close>

datatype swr_answer = Fresh string | Stale string | Fetch

definition swr_get :: "int \<Rightarrow> int \<Rightarrow> string \<Rightarrow> MemoryCache \<Rightarrow> swr_answer" where
  "swr_get now staleDelta key c =
     (case c key of
        None \<Rightarrow> Fetch
      | Some item \<Rightarrow>
          (case ExpiresAt item of
             None \<Rightarrow> Fresh (Value item)
           | Some t \<Rightarrow>
               if now < t then Fresh (Value item)
               else if now < t + staleDelta then Stale (Value item)
               else Fetch))"

text \<open>
  A revalidation is started, reads the database, has the value, or is about to take its key out
  of \<open>revalidating\<close>.
\<close>

datatype revalidation = Started string | Asking string int | Keeping string string int | Leaving string

fun key_of :: "revalidation \<Rightarrow> string" where
  "key_of (Started k) = k"
| "key_of (Asking k _) = k"
| "key_of (Keeping k _ _) = k"
| "key_of (Leaving k) = k"

record swr_world =
  records :: "string \<rightharpoonup> string"
  entries :: MemoryCache
  instant :: int
  fetches :: "call list"
  revalidating :: "string set"
  background :: "revalidation list"
  revalCount :: nat

definition swr_init :: "swr_world \<Rightarrow> bool" where
  "swr_init w \<longleftrightarrow> entries w = Map.empty \<and> fetches w = [] \<and> revalidating w = {} \<and> background w = [] \<and> revalCount w = 0"

text \<open>A second revalidation of a key is not started while the first one runs.\<close>

definition triggerRevalidate :: "string \<Rightarrow> swr_world \<Rightarrow> swr_world" where
  "triggerRevalidate k w =
     (if k \<in> revalidating w then w
      else w\<lparr>revalidating := insert k (revalidating w), revalCount := revalCount w + 1, background := Started k # background w\<rparr>)"

inductive swr_step :: "int \<Rightarrow> int \<Rightarrow> swr_world \<Rightarrow> swr_world \<Rightarrow> bool" for ttl :: int and staleDelta :: int where
  serves_stale: "swr_get (instant w) staleDelta k (entries w) = Stale v \<Longrightarrow>
    swr_step ttl staleDelta w (triggerRevalidate k w)"
| fetches_now: "swr_get (instant w) staleDelta k (entries w) = Fetch \<Longrightarrow>
    swr_step ttl staleDelta w (w\<lparr>fetches := Querying k (instant w) # fetches w\<rparr>)"
| fetched: "fetches w = xs @ Querying k start # ys \<Longrightarrow> records w k = Some v \<Longrightarrow>
    swr_step ttl staleDelta w (w\<lparr>fetches := xs @ Filling k v (instant w - start) # ys\<rparr>)"
| fetch_fails: "fetches w = xs @ Querying k start # ys \<Longrightarrow> swr_step ttl staleDelta w (w\<lparr>fetches := xs @ ys\<rparr>)"
| caches: "fetches w = xs @ Filling k v delta # ys \<Longrightarrow>
    swr_step ttl staleDelta w (w\<lparr>entries := cache_set (instant w) k v ttl delta (entries w), fetches := xs @ ys\<rparr>)"
| asks: "background w = xs @ Started k # ys \<Longrightarrow>
    swr_step ttl staleDelta w (w\<lparr>background := xs @ Asking k (instant w) # ys\<rparr>)"
| answered: "background w = xs @ Asking k start # ys \<Longrightarrow> records w k = Some v \<Longrightarrow>
    swr_step ttl staleDelta w (w\<lparr>background := xs @ Keeping k v (instant w - start) # ys\<rparr>)"
| unanswered: "background w = xs @ Asking k start # ys \<Longrightarrow>
    swr_step ttl staleDelta w (w\<lparr>background := xs @ Leaving k # ys\<rparr>)"
| keeps: "background w = xs @ Keeping k v delta # ys \<Longrightarrow>
    swr_step ttl staleDelta w (w\<lparr>entries := cache_set (instant w) k v ttl delta (entries w), background := xs @ Leaving k # ys\<rparr>)"
| leaves: "background w = xs @ Leaving k # ys \<Longrightarrow>
    swr_step ttl staleDelta w (w\<lparr>background := xs @ ys, revalidating := revalidating w - {k}\<rparr>)"
| record_changes: "swr_step ttl staleDelta w (w\<lparr>records := (records w)(k \<mapsto> v)\<rparr>)"
| time_passes: "instant w \<le> t \<Longrightarrow> swr_step ttl staleDelta w (w\<lparr>instant := t\<rparr>)"

section \<open>One revalidation per key, and bounded age\<close>

definition entry_ok :: "int \<Rightarrow> int \<Rightarrow> Item \<Rightarrow> bool" where
  "entry_ok ttl t item \<longleftrightarrow> CreatedAt item \<le> t \<and> ExpiresAt item = (if 0 < ttl then Some (CreatedAt item + ttl) else None)"

definition swr_inv :: "int \<Rightarrow> swr_world \<Rightarrow> bool" where
  "swr_inv ttl w \<longleftrightarrow> distinct (map key_of (background w)) \<and> revalidating w = key_of ` set (background w) \<and>
     (\<forall>item \<in> ran (entries w). entry_ok ttl (instant w) item)"

lemma ran_cache_set: "ran (cache_set now k v ttl delta c) \<subseteq> insert (the (cache_set now k v ttl delta c k)) (ran c)"
  by (auto simp: cache_set_def ran_def)

lemma entry_ok_set: "\<forall>item \<in> ran c. entry_ok ttl t item \<Longrightarrow> \<forall>item \<in> ran (cache_set t k v ttl delta c). entry_ok ttl t item"
  using ran_cache_set [of t k v ttl delta c] by (auto simp: entry_ok_def cache_set_def)

lemma swr_step_inv:
  assumes inv: "swr_inv ttl w" and s: "swr_step ttl staleDelta w w'"
  shows "swr_inv ttl w'"
  using s
proof cases
  case (serves_stale k v)
  with inv show ?thesis by (auto simp: swr_inv_def triggerRevalidate_def)
next
  case (time_passes t)
  with inv show ?thesis by (force simp: swr_inv_def entry_ok_def)
qed (use inv in \<open>auto simp: swr_inv_def intro: entry_ok_set [rule_format]\<close>)

lemma swr_init_inv: "swr_init w \<Longrightarrow> swr_inv ttl w"
  by (simp add: swr_init_def swr_inv_def)

interpretation revalidating: guarded_system swr_init "swr_step ttl staleDelta" "swr_inv ttl" for ttl staleDelta
  by unfold_locales (rule swr_init_inv, assumption, rule swr_step_inv)

text \<open>
  Any number of stale hits starts one revalidation per key at a time: the goroutines under
  way work on different keys, and a key is marked exactly as long as one of them works on it, so
  that no key stays blocked. And what \<open>Get\<close> serves from the cache was stored less than
  the time to live and the grace period ago, if entries expire at all.
\<close>

lemma one_revalidation_per_key:
  assumes "reachable swr_init (swr_step ttl staleDelta) w" and "0 < ttl"
  shows "distinct (map key_of (background w)) \<and> revalidating w = key_of ` set (background w) \<and>
    (swr_get (instant w) staleDelta k (entries w) = Fetch \<or>
     (\<exists>item. entries w k = Some item \<and> CreatedAt item \<le> instant w \<and>
        instant w < CreatedAt item + ttl + max 0 staleDelta \<and>
        swr_get (instant w) staleDelta k (entries w) \<in> {Fresh (Value item), Stale (Value item)}))"
proof -
  from assms(1) have inv: "swr_inv ttl w" by (rule revalidating.reachable_inv)
  then show ?thesis
    using assms(2) by (auto simp: swr_inv_def swr_get_def entry_ok_def ran_def split: option.splits)
qed

text \<open>An entry that has expired ten seconds ago is served, and revalidated once.\<close>

definition stale_world :: swr_world where
  "stale_world = \<lparr>records = [''k'' \<mapsto> ''v''], entries = cache_set 0 ''k'' ''v'' 60 0 Map.empty, instant = 70, fetches = [],
     revalidating = {''k''}, background = [Started ''k''], revalCount = 1\<rparr>"

lemma stale_world_reachable: "reachable swr_init (swr_step 60 30) stale_world"
proof -
  let ?w0 = "\<lparr>records = [''k'' \<mapsto> ''v''], entries = Map.empty, instant = 0, fetches = [], revalidating = {}, background = [],
     revalCount = 0\<rparr>"
  let ?w1 = "?w0\<lparr>fetches := [Querying ''k'' 0]\<rparr>"
  let ?w2 = "?w0\<lparr>fetches := [Filling ''k'' ''v'' 0]\<rparr>"
  let ?w3 = "?w0\<lparr>entries := cache_set 0 ''k'' ''v'' 60 0 Map.empty\<rparr>"
  have "reachable swr_init (swr_step 60 30) ?w0" by (rule reachable.start) (simp add: swr_init_def)
  moreover have "swr_step 60 30 ?w0 ?w1" using fetches_now [of ?w0 30 "''k''" 60] by (simp add: swr_get_def)
  moreover have "swr_step 60 30 ?w1 ?w2" using fetched [of ?w1 "[]" "''k''" 0 "[]" "''v''" 60 30] by simp
  moreover have "swr_step 60 30 ?w2 ?w3" using caches [of ?w2 "[]" "''k''" "''v''" 0 "[]" 60 30] by simp
  moreover have "swr_step 60 30 ?w3 (?w3\<lparr>instant := 70\<rparr>)" by (rule time_passes) simp
  moreover have "swr_step 60 30 (?w3\<lparr>instant := 70\<rparr>) stale_world"
    using serves_stale [of "?w3\<lparr>instant := 70\<rparr>" 30 "''k''" "''v''" 60]
    by (simp add: swr_get_def cache_set_def triggerRevalidate_def stale_world_def)
  ultimately show ?thesis by (meson reachable.move)
qed

end
