(* ===== verification/Base64.thy ===== *)
theory Base64
  imports GoText
begin

text \<open>
  \<open>base64.RawURLEncoding\<close>: the alphabet of URLs, without padding. The decoder skips line breaks
  and does not look at the bits that are left over.
\<close>

section \<open>The alphabet\<close>

definition b64_char :: "nat \<Rightarrow> nat" where
  "b64_char n =
     (if n < 26 then 65 + n
      else if n < 52 then 71 + n
      else if n < 62 then 48 + (n - 52)
      else if n = 62 then 45 else 95)"

definition b64_val :: "nat \<Rightarrow> nat option" where
  "b64_val c =
     (if 65 \<le> c \<and> c \<le> 90 then Some (c - 65)
      else if 97 \<le> c \<and> c \<le> 122 then Some (c - 71)
      else if 48 \<le> c \<and> c \<le> 57 then Some (52 + (c - 48))
      else if c = 45 then Some 62
      else if c = 95 then Some 63 else None)"

lemma b64_val_char [simp]: "n < 64 \<Longrightarrow> b64_val (b64_char n) = Some n"
  by (simp add: b64_val_def b64_char_def) arith

lemma b64_char_plain: "b64_char n \<noteq> 10" "b64_char n \<noteq> 13" "b64_char n \<noteq> 58"
  by (simp_all add: b64_char_def) arith+

section \<open>Encoding and decoding\<close>

fun to_sextets :: "bytes \<Rightarrow> nat list" where
  "to_sextets (a # b # c # s) =
     a div 4 # ((a mod 4) * 16 + b div 16) # ((b mod 16) * 4 + c div 64) # c mod 64 # to_sextets s"
| "to_sextets [a, b] = [a div 4, (a mod 4) * 16 + b div 16, (b mod 16) * 4]"
| "to_sextets [a] = [a div 4, (a mod 4) * 16]"
| "to_sextets [] = []"

text \<open>One character that is left over is an error.\<close>

fun of_sextets :: "nat list \<Rightarrow> bytes option" where
  "of_sextets (w # x # y # z # s) =
     map_option (\<lambda>r. (w * 4 + x div 16) # ((x mod 16) * 16 + y div 4) # ((y mod 4) * 64 + z) # r) (of_sextets s)"
| "of_sextets [w, x, y] = Some [w * 4 + x div 16, (x mod 16) * 16 + y div 4]"
| "of_sextets [w, x] = Some [w * 4 + x div 16]"
| "of_sextets [w] = None"
| "of_sextets [] = Some []"

fun b64_vals :: "bytes \<Rightarrow> nat list option" where
  "b64_vals [] = Some []"
| "b64_vals (c # cs) =
     (case b64_val c of
        None \<Rightarrow> None
      | Some n \<Rightarrow> (case b64_vals cs of None \<Rightarrow> None | Some ns \<Rightarrow> Some (n # ns)))"

definition EncodeToString :: "bytes \<Rightarrow> bytes" where
  "EncodeToString s = map b64_char (to_sextets s)"

definition DecodeString :: "bytes \<Rightarrow> bytes option" where
  "DecodeString s =
     (case b64_vals (filter (\<lambda>c. c \<noteq> 10 \<and> c \<noteq> 13) s) of
        None \<Rightarrow> None
      | Some ns \<Rightarrow> of_sextets ns)"

section \<open>The round trip\<close>

definition is_bytes :: "bytes \<Rightarrow> bool" where
  "is_bytes s \<longleftrightarrow> (\<forall>c \<in> set s. c < 256)"

lemma is_bytes_simps [simp]:
  "is_bytes []" "is_bytes (c # s) \<longleftrightarrow> c < 256 \<and> is_bytes s" "is_bytes (s @ t) \<longleftrightarrow> is_bytes s \<and> is_bytes t"
  by (auto simp: is_bytes_def)


lemma first_byte: "b < 256 \<Longrightarrow> (a div 4) * 4 + ((a mod 4) * 16 + b div 16) div 16 = (a :: nat)"
proof -
  assume "b < 256"
  then have "b div 16 < 16" by auto
  then have "((a mod 4) * 16 + b div 16) div 16 = a mod 4" by simp
  then show ?thesis by simp
qed

lemma second_byte:
  "b < 256 \<Longrightarrow> c < 256 \<Longrightarrow>
     ((a mod 4) * 16 + b div 16) mod 16 * 16 + ((b mod 16) * 4 + c div 64) div 4 = (b :: nat)"
proof -
  assume "b < 256" "c < 256"
  then have "b div 16 < 16" "c div 64 < 4" by auto
  then have "((a mod 4) * 16 + b div 16) mod 16 = b div 16" "((b mod 16) * 4 + c div 64) div 4 = b mod 16"
    by (simp_all add: mod_mult_self3)
  then show ?thesis by simp
qed

lemma third_byte: "c < 256 \<Longrightarrow> ((b mod 16) * 4 + c div 64) mod 4 * 64 + c mod 64 = (c :: nat)"
proof -
  assume "c < 256"
  then have "c div 64 < 4" by auto
  then have "((b mod 16) * 4 + c div 64) mod 4 = c div 64" by (simp add: mod_mult_self3)
  then show ?thesis by simp
qed

lemma of_to_sextets: "is_bytes s \<Longrightarrow> of_sextets (to_sextets s) = Some s"
proof (induction s rule: to_sextets.induct)
  case (1 a b c s)
  then show ?case
    by (simp only: to_sextets.simps of_sextets.simps option.map is_bytes_simps first_byte second_byte third_byte)
next
  case (2 a b)
  then show ?case
    using second_byte [of b 0 a]
    by (simp only: to_sextets.simps of_sextets.simps is_bytes_simps first_byte) simp
next
  case (3 a)
  then show ?case using first_byte [of 0 a] by simp
qed simp

lemma to_sextets_range: "is_bytes s \<Longrightarrow> \<forall>n \<in> set (to_sextets s). n < 64"
proof (induction s rule: to_sextets.induct)
  case (1 a b c s)
  have "a mod 4 < 4" "b mod 16 < 16" "c mod 64 < 64" by simp_all
  moreover from 1 have "a div 4 < 64" "b div 16 < 16" "c div 64 < 4" by auto
  ultimately have "(a mod 4) * 16 + b div 16 < 64" "(b mod 16) * 4 + c div 64 < 64" by linarith+
  with 1 \<open>a div 4 < 64\<close> show ?case by simp
next
  case (2 a b)
  have "a mod 4 < 4" "b mod 16 < 16" by simp_all
  moreover from 2 have "a div 4 < 64" "b div 16 < 16" by auto
  ultimately have "(a mod 4) * 16 + b div 16 < 64" "(b mod 16) * 4 < 64" by linarith+
  with \<open>a div 4 < 64\<close> show ?case by simp
next
  case (3 a)
  have "a mod 4 < 4" by simp
  moreover from 3 have "a div 4 < 64" by auto
  ultimately show ?case by simp
qed simp

lemma b64_vals_chars: "\<forall>n \<in> set ns. n < 64 \<Longrightarrow> b64_vals (map b64_char ns) = Some ns"
  by (induction ns) auto

lemma encoded_plain: "10 \<notin> set (EncodeToString s)" "13 \<notin> set (EncodeToString s)" "58 \<notin> set (EncodeToString s)"
  by (auto simp: EncodeToString_def b64_char_plain [symmetric])

lemma b64_char_byte: "n < 64 \<Longrightarrow> b64_char n < 256"
  by (simp add: b64_char_def) arith

lemma encoded_bytes: "is_bytes s \<Longrightarrow> is_bytes (EncodeToString s)"
  using to_sextets_range [of s] b64_char_byte by (auto simp: EncodeToString_def is_bytes_def)

lemma filter_id: "\<forall>c \<in> set s. P c \<Longrightarrow> filter P s = s"
  by (induction s) auto

lemma decode_encode: "is_bytes s \<Longrightarrow> DecodeString (EncodeToString s) = Some s"
proof -
  assume s: "is_bytes s"
  have "filter (\<lambda>c. c \<noteq> 10 \<and> c \<noteq> 13) (EncodeToString s) = EncodeToString s"
    using encoded_plain [of s] by (intro filter_id) auto
  with s show ?thesis
    using b64_vals_chars [OF to_sextets_range [OF s]] by (simp add: DecodeString_def EncodeToString_def of_to_sextets)
qed

lemma encode_nonempty: "s \<noteq> [] \<Longrightarrow> EncodeToString s \<noteq> []"
  by (cases s rule: to_sextets.cases) (auto simp: EncodeToString_def)

lemma to_sextets_length: "length (to_sextets s) = 4 * (length s div 3) + (if length s mod 3 = 0 then 0 else length s mod 3 + 1)"
  by (induction s rule: to_sextets.induct) (simp_all add: div_add_self1)

end
