(* ===== verification/Sha256.thy ===== *)
theory Sha256
  imports GoText
begin

unbundle bit_operations_syntax

text \<open>
  \<open>crypto/sha256\<close> and \<open>crypto/hmac\<close> on lists of bytes: FIPS 180-4 over 32-bit words, and RFC 2104.
\<close>

type_synonym word32 = "32 word"

text \<open>The first 32 bits of the fractions of the cube roots of 64 primes, and of the square roots of eight.\<close>

definition sha_k :: "word32 list" where
  "sha_k = [
     1116352408, 1899447441, 3049323471, 3921009573, 961987163, 1508970993, 2453635748, 2870763221,
     3624381080, 310598401, 607225278, 1426881987, 1925078388, 2162078206, 2614888103, 3248222580,
     3835390401, 4022224774, 264347078, 604807628, 770255983, 1249150122, 1555081692, 1996064986,
     2554220882, 2821834349, 2952996808, 3210313671, 3336571891, 3584528711, 113926993, 338241895,
     666307205, 773529912, 1294757372, 1396182291, 1695183700, 1986661051, 2177026350, 2456956037,
     2730485921, 2820302411, 3259730800, 3345764771, 3516065817, 3600352804, 4094571909, 275423344,
     430227734, 506948616, 659060556, 883997877, 958139571, 1322822218, 1537002063, 1747873779,
     1955562222, 2024104815, 2227730452, 2361852424, 2428436474, 2756734187, 3204031479, 3329325298]"

definition sha_init :: "word32 list" where
  "sha_init = [
     1779033703, 3144134277, 1013904242, 2773480762, 1359893119, 2600822924, 528734635, 1541459225]"

text \<open>The message, a byte 128, zeros, and the length in bits: a multiple of 64 bytes.\<close>

definition big_endian :: "nat \<Rightarrow> nat \<Rightarrow> bytes" where
  "big_endian len n = map (\<lambda>i. n div 256 ^ i mod 256) (rev [0..<len])"

definition sha_pad :: "bytes \<Rightarrow> bytes" where
  "sha_pad s = s @ [128] @ replicate ((119 - length s mod 64) mod 64) 0 @ big_endian 8 (8 * length s)"

fun words32 :: "bytes \<Rightarrow> word32 list" where
  "words32 (a # b # c # d # s) = of_nat (((a * 256 + b) * 256 + c) * 256 + d) # words32 s"
| "words32 _ = []"

definition sha_extend :: "word32 list \<Rightarrow> word32 list" where
  "sha_extend ws =
     (let n = length ws; x = ws ! (n - 15); y = ws ! (n - 2);
          s0 = (word_rotr 7 x XOR word_rotr 18 x) XOR drop_bit 3 x;
          s1 = (word_rotr 17 y XOR word_rotr 19 y) XOR drop_bit 10 y
      in ws @ [ws ! (n - 16) + s0 + ws ! (n - 7) + s1])"

definition sha_round :: "word32 \<times> word32 \<Rightarrow> word32 list \<Rightarrow> word32 list" where
  "sha_round = (\<lambda>(k, w) hs.
     case hs of
       [a, b, c, d, e, f, g, h] \<Rightarrow>
         (let t1 = h + ((word_rotr 6 e XOR word_rotr 11 e) XOR word_rotr 25 e) + ((e AND f) XOR (NOT e AND g)) + k + w;
              t2 = ((word_rotr 2 a XOR word_rotr 13 a) XOR word_rotr 22 a) +
                (((a AND b) XOR (a AND c)) XOR (b AND c))
          in [t1 + t2, a, b, c, d + t1, e, f, g])
     | _ \<Rightarrow> hs)"

definition sha_block :: "word32 list \<Rightarrow> word32 list \<Rightarrow> word32 list" where
  "sha_block hs ws = map2 (+) hs (fold sha_round (zip sha_k ((sha_extend ^^ 48) ws)) hs)"

fun sha_blocks :: "nat \<Rightarrow> word32 list \<Rightarrow> word32 list \<Rightarrow> word32 list" where
  "sha_blocks 0 ws hs = hs"
| "sha_blocks (Suc n) ws hs = sha_blocks n (drop 16 ws) (sha_block hs (take 16 ws))"

definition sha256 :: "bytes \<Rightarrow> bytes" where
  "sha256 s =
     (let ws = words32 (sha_pad s)
      in concat (map (\<lambda>w. big_endian 4 (unat w)) (sha_blocks (length ws div 16) ws sha_init)))"

definition hmac_sha256 :: "bytes \<Rightarrow> bytes \<Rightarrow> bytes" where
  "hmac_sha256 secret payload =
     (let k = (if 64 < length secret then sha256 secret else secret);
          block = k @ replicate (64 - length k) 0
      in sha256 (map (\<lambda>b. b XOR 0x5c) block @ sha256 (map (\<lambda>b. b XOR 0x36) block @ payload)))"

lemma big_endian_bytes: "\<forall>c \<in> set (big_endian n x). c < 256"
  by (auto simp: big_endian_def)

lemma sha256_bytes: "\<forall>c \<in> set (sha256 s). c < 256"
  using big_endian_bytes by (auto simp: sha256_def Let_def)

lemma hmac_bytes: "\<forall>c \<in> set (hmac_sha256 k s). c < 256"
  by (simp add: hmac_sha256_def Let_def sha256_bytes)

lemma length_big_endian: "length (big_endian k n) = k"
  by (simp add: big_endian_def)

lemma big_endian_length: "length (concat (map (\<lambda>w. big_endian 4 (unat w)) ws)) = 4 * length ws"
  by (induction ws) (simp_all add: length_big_endian)

lemma sha_block_length: "length hs = 8 \<Longrightarrow> length (sha_block hs ws) = 8"
proof -
  have "length (sha_round x hs) = length hs" for x hs
    by (auto simp: sha_round_def Let_def split: list.splits prod.splits)
  then have "length (fold sha_round xs hs) = length hs" for xs hs
    by (induction xs arbitrary: hs) simp_all
  then show "length hs = 8 \<Longrightarrow> length (sha_block hs ws) = 8" by (simp add: sha_block_def)
qed

lemma sha256_length: "length (sha256 s) = 32"
proof -
  have "length hs = 8 \<Longrightarrow> length (sha_blocks n ws hs) = 8" for n ws hs
    by (induction n ws hs rule: sha_blocks.induct) (auto simp: sha_block_length)
  then show ?thesis by (simp add: sha256_def Let_def big_endian_length sha_init_def)
qed

lemma hmac_length: "length (hmac_sha256 k s) = 32"
  by (simp add: hmac_sha256_def Let_def sha256_length)

end
