(* ===== verification/Csrf.thy ===== *)
theory Csrf
  imports Base64 Sha256
begin

text \<open>
  Lab 36, \<^verbatim>\<open>labs/36-cors-and-csrf/internal/csrf/token.go\<close>: tokens that are signed for a session and
  expire. Instants are nanoseconds since 1970.
\<close>

section \<open>Tokens\<close>

record TokenManager =
  secret :: bytes
  ttl :: int

text \<open>\<open>random\<close> is what the random source gives; without it the program panics (\<open>None\<close>).\<close>

definition NewTokenManager :: "bytes \<Rightarrow> int \<Rightarrow> bytes option \<Rightarrow> TokenManager option" where
  "NewTokenManager s t random =
     (let ttl' = (if t \<le> 0 then 3600 * 10 ^ 9 else t)
      in if s = [] then map_option (\<lambda>r. \<lparr>secret = r, ttl = ttl'\<rparr>) random
         else Some \<lparr>secret = s, ttl = ttl'\<rparr>)"

definition token_payload :: "bytes \<Rightarrow> bytes \<Rightarrow> bytes \<Rightarrow> bytes" where
  "token_payload sessionID ts nonceStr = sessionID @ 58 # ts @ 58 # nonceStr"

definition GenerateToken :: "TokenManager \<Rightarrow> int \<Rightarrow> bytes option \<Rightarrow> bytes \<Rightarrow> bytes option" where
  "GenerateToken tm now random sessionID =
     map_option (\<lambda>nonce.
       let nonceStr = EncodeToString nonce;
           ts = fmt_d (now div 10 ^ 9);
           payload = token_payload sessionID ts nonceStr;
           signature = hmac_sha256 (secret tm) payload
       in EncodeToString (payload @ 58 # EncodeToString signature)) random"

text \<open>
  \<open>time.Since(time.Unix(ts, 0))\<close>: seconds count from the year 1 and wrap around, and a duration
  that does not fit is cut off.
\<close>

definition Since :: "int \<Rightarrow> int \<Rightarrow> int" where
  "Since now ts = max min64 (min max64 (now - (wrap64 (ts + 62135596800) - 62135596800) * 10 ^ 9))"

datatype token_error = ErrInvalidToken | ErrExpiredToken | ErrTokenMissing

definition ValidateToken :: "TokenManager \<Rightarrow> int \<Rightarrow> bytes \<Rightarrow> bytes \<Rightarrow> token_error option" where
  "ValidateToken tm now tokenStr expectedSessionID =
     (if tokenStr = [] then Some ErrTokenMissing
      else (case DecodeString tokenStr of
        None \<Rightarrow> Some ErrInvalidToken
      | Some decoded \<Rightarrow>
          (case split_at 58 decoded of
             [sessionID, tsStr, nonceStr, sigB64] \<Rightarrow>
               if sessionID \<noteq> expectedSessionID then Some ErrInvalidToken
               else (case ParseInt tsStr of
                 Inl _ \<Rightarrow> Some ErrInvalidToken
               | Inr ts \<Rightarrow>
                   if ttl tm < Since now ts then Some ErrExpiredToken
                   else (let expectedSig = hmac_sha256 (secret tm) (token_payload sessionID tsStr nonceStr)
                     in case DecodeString sigB64 of
                          None \<Rightarrow> Some ErrInvalidToken
                        | Some actualSig \<Rightarrow> if actualSig \<noteq> expectedSig then Some ErrInvalidToken else None))
           | _ \<Rightarrow> Some ErrInvalidToken)))"

section \<open>What a token says\<close>

text \<open>A text and the parts it falls into.\<close>

lemma split_at_parts: "p \<in> set (split_at d s) \<Longrightarrow> d \<notin> set p"
  by (induction s arbitrary: p) (auto split: list.splits if_splits)

fun join_at :: "nat \<Rightarrow> bytes list \<Rightarrow> bytes" where
  "join_at d [] = []"
| "join_at d [p] = p"
| "join_at d (p # ps) = p @ d # join_at d ps"

lemma join_split: "join_at d (split_at d s) = s"
proof (induction s)
  case (Cons c s)
  obtain p ps where "split_at d s = p # ps" using split_at_nonempty by (meson neq_Nil_conv)
  with Cons show ?case by (cases ps) auto
qed simp

lemma split_at_append:
  "split_at d (s @ d # t) = split_at d s @ split_at d t"
  by (induction s) (auto split: list.splits simp: split_at_nonempty)

lemma split_four:
  "split_at d s = [p, q, r, t] \<longleftrightarrow>
     s = p @ d # q @ d # r @ d # t \<and> d \<notin> set p \<and> d \<notin> set q \<and> d \<notin> set r \<and> d \<notin> set t"
proof
  assume "split_at d s = [p, q, r, t]"
  then show "s = p @ d # q @ d # r @ d # t \<and> d \<notin> set p \<and> d \<notin> set q \<and> d \<notin> set r \<and> d \<notin> set t"
    using join_split [of d s] split_at_parts [of _ d s] by auto
qed (simp add: split_at_first split_at_none)

text \<open>The signature that a token presents, on a payload.\<close>

definition presents :: "TokenManager \<Rightarrow> bytes \<Rightarrow> bytes \<Rightarrow> bool" where
  "presents tm tok payload \<longleftrightarrow>
     (\<exists>sg. DecodeString tok = Some (payload @ 58 # sg) \<and> 58 \<notin> set sg \<and>
        DecodeString sg = Some (hmac_sha256 (secret tm) payload))"

lemma ValidateToken_iff:
  "ValidateToken tm now tok sid = None \<longleftrightarrow> tok \<noteq> [] \<and>
     (\<exists>ts nonce n. presents tm tok (token_payload sid ts nonce) \<and> 58 \<notin> set sid \<and> 58 \<notin> set ts \<and> 58 \<notin> set nonce \<and>
        ParseInt ts = Inr n \<and> Since now n \<le> ttl tm)" (is "?l \<longleftrightarrow> ?r")
proof
  assume ?l
  then obtain decoded ts nonce sg n where "tok \<noteq> []" and d: "DecodeString tok = Some decoded"
      "split_at 58 decoded = [sid, ts, nonce, sg]" "ParseInt ts = Inr n" "Since now n \<le> ttl tm"
      "DecodeString sg = Some (hmac_sha256 (secret tm) (token_payload sid ts nonce))"
    by (auto simp: ValidateToken_def Let_def split: if_splits option.splits list.splits sum.splits)
  then show ?r by (auto simp: split_four presents_def token_payload_def)
next
  assume ?r
  then obtain ts nonce sg n where "tok \<noteq> []" "DecodeString tok = Some (token_payload sid ts nonce @ 58 # sg)"
      "58 \<notin> set sid" "58 \<notin> set ts" "58 \<notin> set nonce" "58 \<notin> set sg" "ParseInt ts = Inr n" "Since now n \<le> ttl tm"
      "DecodeString sg = Some (hmac_sha256 (secret tm) (token_payload sid ts nonce))"
    by (auto simp: presents_def)
  moreover from this have "split_at 58 (token_payload sid ts nonce @ 58 # sg) = [sid, ts, nonce, sg]"
    by (simp add: split_four token_payload_def)
  ultimately show ?l by (simp add: ValidateToken_def)
qed

text \<open>A generated token, whatever it is checked against.\<close>

lemma fmt_d_bytes: "is_bytes (fmt_d n)" and fmt_d_no_colon: "58 \<notin> set (fmt_d n)"
  using fmt_d_chars [of _ n] by (fastforce simp: is_bytes_def)+

lemma GenerateToken_decodes:
  assumes "is_bytes sid" and "is_bytes nonce" and "GenerateToken tm now (Some nonce) sid = Some tok"
  shows "tok \<noteq> [] \<and> DecodeString tok =
    Some (sid @ 58 # fmt_d (now div 10 ^ 9) @ 58 # EncodeToString nonce @ 58 #
      EncodeToString (hmac_sha256 (secret tm) (token_payload sid (fmt_d (now div 10 ^ 9)) (EncodeToString nonce))))"
proof -
  let ?p = "token_payload sid (fmt_d (now div 10 ^ 9)) (EncodeToString nonce)"
  have h: "is_bytes (hmac_sha256 (secret tm) ?p)" by (simp add: is_bytes_def hmac_bytes)
  have "is_bytes (?p @ 58 # EncodeToString (hmac_sha256 (secret tm) ?p))"
    using assms(1,2) h by (simp add: token_payload_def fmt_d_bytes encoded_bytes)
  from decode_encode [OF this] encode_nonempty [of "?p @ 58 # EncodeToString (hmac_sha256 (secret tm) ?p)"] assms(3)
  show ?thesis by (auto simp: GenerateToken_def Let_def token_payload_def)
qed

lemma ValidateToken_generated:
  assumes "is_bytes sid" and "58 \<notin> set sid" and "is_bytes nonce" and "in64 (now div 10 ^ 9)"
    and "GenerateToken tm now (Some nonce) sid = Some tok"
  shows "ValidateToken tm t tok sid' =
    (if sid' \<noteq> sid then Some ErrInvalidToken
     else if ttl tm < Since t (now div 10 ^ 9) then Some ErrExpiredToken else None)"
proof -
  let ?h = "hmac_sha256 (secret tm) (token_payload sid (fmt_d (now div 10 ^ 9)) (EncodeToString nonce))"
  have "split_at 58 (sid @ 58 # fmt_d (now div 10 ^ 9) @ 58 # EncodeToString nonce @ 58 # EncodeToString ?h) =
      [sid, fmt_d (now div 10 ^ 9), EncodeToString nonce, EncodeToString ?h]"
    using assms(2) by (simp add: split_four fmt_d_no_colon encoded_plain)
  moreover have "DecodeString (EncodeToString ?h) = Some ?h"
    by (rule decode_encode) (simp add: is_bytes_def hmac_bytes)
  ultimately show ?thesis
    using GenerateToken_decodes [OF assms(1,3,5)] ParseInt_fmt_d [OF assms(4)] by (auto simp: ValidateToken_def Let_def)
qed

section \<open>Properties\<close>

text \<open>A session whose name has a colon never gets past the middleware.\<close>

lemma colon_sessions_rejected: "58 \<in> set sid \<Longrightarrow> ValidateToken tm now tok sid \<noteq> None"
  by (auto simp: ValidateToken_iff)


text \<open>A token for the session of the lab.\<close>

definition victim_session :: bytes where
  "victim_session = map of_char ''session-victim-secret''"

definition demo_manager :: TokenManager where
  "demo_manager = \<lparr>secret = [1, 2, 3], ttl = 3600 * 10 ^ 9\<rparr>"

definition demo_token :: bytes where
  "demo_token = the (GenerateToken demo_manager 0 (Some (replicate 16 0)) victim_session)"

lemma victim_bytes: "is_bytes victim_session" "58 \<notin> set victim_session" "is_bytes (replicate 16 0)"
  by (simp_all add: victim_session_def is_bytes_def)

lemma demo_token_made: "GenerateToken demo_manager 0 (Some (replicate 16 0)) victim_session = Some demo_token"
  by (simp add: demo_token_def GenerateToken_def)

lemma demo_ttl: "ttl demo_manager = 3600000000000"
  by (simp add: demo_manager_def)

lemma demo_token_valid: "ValidateToken demo_manager 0 demo_token victim_session = None"
  using ValidateToken_generated [OF victim_bytes _ demo_token_made, of 0 victim_session]
  by (simp add: demo_ttl in64_def min64_def max64_def Since_def wrap64_def)


end
