(* ===== verification/ProtectedBank.thy ===== *)
theory ProtectedBank
  imports Systems Csrf
begin

text \<open>
  Lab 36, \<^verbatim>\<open>labs/36-cors-and-csrf/internal\<close>: the middleware that asks for tokens
  (\<open>csrf/middleware.go\<close>), the bank behind it (\<open>bank/app.go\<close>), and the middleware for cross-origin
  requests (\<open>cors/middleware.go\<close>).
\<close>

section \<open>Requests and middleware\<close>

text \<open>
  What the code looks at in a request: its verb, the session cookie if there is one, three
  headers, and the form fields as \<open>PostFormValue\<close> and \<open>FormValue\<close> give them. An empty text is an
  absent header or field.
\<close>

record request =
  verb :: string
  cookie :: "bytes option"
  token_header :: bytes
  token_field :: bytes
  fetch_site :: string
  origin :: string
  to_field :: bytes
  amount_field :: bytes

datatype response = HttpError nat | TransferDone int | AccountShown bytes bytes int | TokenIssued bytes | HandlerPanic

definition safe_verb :: "string \<Rightarrow> bool" where
  "safe_verb v \<longleftrightarrow> v \<in> {''GET'', ''HEAD'', ''OPTIONS''}"

definition carried :: "request \<Rightarrow> bytes" where
  "carried r = (if token_header r = [] then token_field r else token_header r)"

definition csrf_handler :: "TokenManager \<Rightarrow> int \<Rightarrow> (request \<Rightarrow> 's \<Rightarrow> response \<times> 's) \<Rightarrow> request \<Rightarrow> 's \<Rightarrow> response \<times> 's" where
  "csrf_handler tm now next r s =
     (if safe_verb (verb r) \<or> verb r = ''TRACE'' then next r s
      else (case cookie r of
              None \<Rightarrow> (HttpError 401, s)
            | Some sessionID \<Rightarrow>
                if sessionID = [] then (HttpError 401, s)
                else if ValidateToken tm now (carried r) sessionID \<noteq> None then (HttpError 403, s)
                else next r s))"

definition FetchMetadataMiddleware :: "(request \<Rightarrow> 's \<Rightarrow> response \<times> 's) \<Rightarrow> request \<Rightarrow> 's \<Rightarrow> response \<times> 's" where
  "FetchMetadataMiddleware next r s =
     (if fetch_site r = ''cross-site'' \<and> \<not> safe_verb (verb r) then (HttpError 403, s) else next r s)"

section \<open>The bank\<close>

record BankAccount =
  BankID :: bytes
  Owner :: bytes
  BankBalance :: int

record BankServer =
  bank_accounts :: "bytes \<rightharpoonup> BankAccount"
  sessions :: "bytes \<rightharpoonup> bytes"

definition NewBankServer :: BankServer where
  "NewBankServer =
     (let b = map of_char
      in \<lparr>bank_accounts =
            [b ''acc-victim'' \<mapsto> \<lparr>BankID = b ''acc-victim'', Owner = b ''Victim User'', BankBalance = 1000\<rparr>,
             b ''acc-attacker'' \<mapsto> \<lparr>BankID = b ''acc-attacker'', Owner = b ''Attacker User'', BankBalance = 50\<rparr>],
          sessions = [b ''session-victim-secret'' \<mapsto> b ''acc-victim'']\<rparr>)"

datatype auth_error = MissingCookie | InvalidSession | AccountNotFound

definition authenticate :: "BankServer \<Rightarrow> request \<Rightarrow> (auth_error, BankAccount \<times> bytes) res" where
  "authenticate b r =
     (case cookie r of
        None \<Rightarrow> Inl MissingCookie
      | Some c \<Rightarrow>
          if c = [] then Inl MissingCookie
          else (case sessions b c of
                  None \<Rightarrow> Inl InvalidSession
                | Some accountID \<Rightarrow>
                    (case bank_accounts b accountID of
                       None \<Rightarrow> Inl AccountNotFound
                     | Some acc \<Rightarrow> Inr (acc, c))))"

definition HandleGetCSRFToken :: "TokenManager \<Rightarrow> int \<Rightarrow> bytes option \<Rightarrow> BankServer \<Rightarrow> request \<Rightarrow> response" where
  "HandleGetCSRFToken tm now random b r =
     (case authenticate b r of
        Inl _ \<Rightarrow> HttpError 401
      | Inr (_, sessionID) \<Rightarrow>
          (case GenerateToken tm now random sessionID of None \<Rightarrow> HandlerPanic | Some tok \<Rightarrow> TokenIssued tok))"

definition HandleBalance :: "BankServer \<Rightarrow> request \<Rightarrow> response" where
  "HandleBalance b r =
     (case authenticate b r of
        Inl _ \<Rightarrow> HttpError 401
      | Inr (acc, _) \<Rightarrow> AccountShown (BankID acc) (Owner acc) (BankBalance acc))"

text \<open>Sender and recipient are pointers, which may be the same.\<close>

definition move_money :: "bytes \<Rightarrow> bytes \<Rightarrow> int \<Rightarrow> (bytes \<rightharpoonup> BankAccount) \<Rightarrow> bytes \<rightharpoonup> BankAccount" where
  "move_money from to amount accs =
     (let sender = the (accs from);
          accs1 = accs(from \<mapsto> sender\<lparr>BankBalance := sub64 (BankBalance sender) amount\<rparr>);
          recipient = the (accs1 to)
      in accs1(to \<mapsto> recipient\<lparr>BankBalance := add64 (BankBalance recipient) amount\<rparr>))"

definition HandleTransferVulnerable :: "request \<Rightarrow> BankServer \<Rightarrow> response \<times> BankServer" where
  "HandleTransferVulnerable r b =
     (if verb r \<noteq> ''POST'' then (HttpError 405, b)
      else (case authenticate b r of
        Inl _ \<Rightarrow> (HttpError 401, b)
      | Inr (acc, _) \<Rightarrow>
          (case ParseInt (amount_field r) of
             Inl _ \<Rightarrow> (HttpError 400, b)
           | Inr amount \<Rightarrow>
               if amount \<le> 0 then (HttpError 400, b)
               else (case bank_accounts b (to_field r) of
                 None \<Rightarrow> (HttpError 400, b)
               | Some _ \<Rightarrow>
                   (case bank_accounts b (BankID acc) of
                      None \<Rightarrow> (HandlerPanic, b)
                    | Some sender \<Rightarrow>
                        if BankBalance sender < amount then (HttpError 400, b)
                        else
                          (let accs = move_money (BankID acc) (to_field r) amount (bank_accounts b)
                           in (TransferDone (BankBalance (the (accs (BankID acc)))), b\<lparr>bank_accounts := accs\<rparr>)))))))"

definition HandleTransferProtected :: "request \<Rightarrow> BankServer \<Rightarrow> response \<times> BankServer" where
  "HandleTransferProtected r b = HandleTransferVulnerable r b"

text \<open>The protected endpoint: the handler behind the middleware.\<close>

definition protected_transfer :: "TokenManager \<Rightarrow> int \<Rightarrow> request \<Rightarrow> BankServer \<Rightarrow> response \<times> BankServer" where
  "protected_transfer tm now r b = csrf_handler tm now HandleTransferProtected r b"

section \<open>Money\<close>

definition total :: "(bytes \<rightharpoonup> BankAccount) \<Rightarrow> int" where
  "total accs = (\<Sum>k \<in> dom accs. BankBalance (the (accs k)))"

definition bank_ok :: "int \<Rightarrow> BankServer \<Rightarrow> bool" where
  "bank_ok n b \<longleftrightarrow> finite (dom (bank_accounts b)) \<and> total (bank_accounts b) = n \<and> n \<le> max64 \<and>
     (\<forall>k acc. bank_accounts b k = Some acc \<longrightarrow> BankID acc = k \<and> 0 \<le> BankBalance acc)"

lemma total_upd:
  assumes "finite (dom accs)" and "accs k = Some acc"
  shows "total (accs(k \<mapsto> acc')) = total accs - BankBalance acc + BankBalance acc'"
proof -
  from assms(2) have d: "dom (accs(k \<mapsto> acc')) = dom accs" "k \<in> dom accs" by auto
  have "total (accs(k \<mapsto> acc')) = BankBalance acc' + (\<Sum>x \<in> dom accs - {k}. BankBalance (the ((accs(k \<mapsto> acc')) x)))"
    unfolding total_def d(1) by (subst sum.remove [OF assms(1) d(2)]) simp
  also have "(\<Sum>x \<in> dom accs - {k}. BankBalance (the ((accs(k \<mapsto> acc')) x))) = (\<Sum>x \<in> dom accs - {k}. BankBalance (the (accs x)))"
    by (intro sum.cong) auto
  also have "\<dots> = total accs - BankBalance acc"
    unfolding total_def using sum.remove [OF assms(1) d(2), of "\<lambda>x. BankBalance (the (accs x))"] assms(2) by simp
  finally show ?thesis by linarith
qed

lemma balance_le_total:
  assumes "bank_ok n b" and "bank_accounts b k = Some acc"
  shows "BankBalance acc \<le> n"
proof -
  have "BankBalance (the (bank_accounts b k)) \<le> total (bank_accounts b)"
    unfolding total_def using assms by (intro member_le_sum) (auto simp: bank_ok_def)
  with assms show ?thesis by (simp add: bank_ok_def)
qed

lemma bank_ok_move:
  assumes ok: "bank_ok n b" and s: "bank_accounts b from = Some sender" and r: "bank_accounts b to \<noteq> None"
    and a: "0 < amount" "amount \<le> BankBalance sender"
  shows "bank_ok n (b\<lparr>bank_accounts := move_money from to amount (bank_accounts b)\<rparr>)"
proof -
  let ?accs = "bank_accounts b"
  let ?sender = "sender\<lparr>BankBalance := BankBalance sender - amount\<rparr>"
  let ?accs1 = "?accs(from \<mapsto> ?sender)"
  note le = balance_le_total [OF ok s]
  from ok have fin: "finite (dom ?accs)" "total ?accs = n" "n \<le> max64" by (simp_all add: bank_ok_def)
  have sub: "sub64 (BankBalance sender) amount = BankBalance sender - amount"
    using a le fin(3) by (intro sub64_id) (simp add: in64_def min64_def)
  from r obtain rc where rc: "?accs1 to = Some rc" by (cases "to = from") auto
  have t1: "total ?accs1 = n - amount" using total_upd [OF fin(1) s, of ?sender] fin(2) by simp
  have keys1: "BankID acc = k \<and> 0 \<le> BankBalance acc" if "?accs1 k = Some acc" for k acc
    using that ok s a by (auto simp: bank_ok_def split: if_splits)
  have ok1: "bank_ok (n - amount) (b\<lparr>bank_accounts := ?accs1\<rparr>)"
    using fin t1 keys1 a by (auto simp: bank_ok_def)
  have "BankBalance rc \<le> n - amount" using balance_le_total [OF ok1] rc by simp
  moreover have "0 \<le> BankBalance rc" using keys1 [OF rc] by simp
  ultimately have add: "add64 (BankBalance rc) amount = BankBalance rc + amount"
    using a fin(3) by (intro add64_id) (simp add: in64_def min64_def)
  have m: "move_money from to amount ?accs = ?accs1(to \<mapsto> rc\<lparr>BankBalance := BankBalance rc + amount\<rparr>)"
    by (simp only: move_money_def Let_def s option.sel sub rc add)
  have "total (move_money from to amount ?accs) = n"
    using total_upd [of ?accs1 to rc] fin(1) rc t1 by (simp add: m)
  moreover have "BankID acc = k \<and> 0 \<le> BankBalance acc" if "move_money from to amount ?accs k = Some acc" for k acc
    using that keys1 [of k acc] keys1 [OF rc] a unfolding m by (cases "k = to") auto
  moreover have "finite (dom (move_money from to amount ?accs))" using fin(1) by (simp add: m)
  ultimately show ?thesis using fin(3) by (simp add: bank_ok_def)
qed

text \<open>A transfer that goes through, with everything it has checked.\<close>

definition went :: "response \<Rightarrow> bool" where
  "went resp \<longleftrightarrow> (case resp of TransferDone _ \<Rightarrow> True | _ \<Rightarrow> False)"

lemma went_simps [simp]:
  "went (TransferDone m)" "\<not> went (HttpError c)" "\<not> went HandlerPanic" "\<not> went (AccountShown i j k)" "\<not> went (TokenIssued t)"
  by (simp_all add: went_def)

lemma transfer_result:
  assumes "HandleTransferVulnerable r b = (resp, b')"
  shows "b' = b \<and> \<not> went resp \<or>
    (\<exists>acc sid amount sender. verb r = ''POST'' \<and> authenticate b r = Inr (acc, sid) \<and>
      ParseInt (amount_field r) = Inr amount \<and> 0 < amount \<and> bank_accounts b (to_field r) \<noteq> None \<and>
      bank_accounts b (BankID acc) = Some sender \<and> amount \<le> BankBalance sender \<and>
      b' = b\<lparr>bank_accounts := move_money (BankID acc) (to_field r) amount (bank_accounts b)\<rparr>)"
  using assms unfolding HandleTransferVulnerable_def Let_def
  by (simp split: if_splits option.splits sum.splits prod.splits) fastforce+

lemma bank_ok_transfer: "HandleTransferVulnerable r b = (resp, b') \<Longrightarrow> bank_ok n b \<Longrightarrow> bank_ok n b'"
  by (drule transfer_result) (auto intro: bank_ok_move)

text \<open>What the middleware has checked when the handler behind it has changed anything.\<close>

lemma protected_transfer_cases:
  assumes "protected_transfer tm now r b = (resp, b')"
  obtains (refused) "b' = b" and "\<not> went resp"
  | (went_through) sid where "HandleTransferVulnerable r b = (resp, b')" and "cookie r = Some sid"
      and "ValidateToken tm now (carried r) sid = None"
proof (cases "safe_verb (verb r) \<or> verb r = ''TRACE''")
  case True
  then have "verb r \<noteq> ''POST''" by (auto simp: safe_verb_def)
  with True assms show thesis
    by (intro refused) (auto simp: protected_transfer_def csrf_handler_def HandleTransferProtected_def HandleTransferVulnerable_def)
next
  case False
  show thesis
  proof (cases "\<exists>sid. cookie r = Some sid \<and> sid \<noteq> [] \<and> ValidateToken tm now (carried r) sid = None")
    case True
    with False assms show thesis
      by (auto intro!: went_through simp: protected_transfer_def csrf_handler_def HandleTransferProtected_def)
  next
    case no: False
    with False assms show thesis
      by (intro refused) (auto simp: protected_transfer_def csrf_handler_def split: option.splits if_splits)
  qed
qed

section \<open>The bank in use\<close>

text \<open>
  The ghosts: the tokens that were issued (session, instant, nonce), and the transfers that went
  through, each with its request and its instant. A token is issued to whoever shows the
  session's cookie. A request may carry any token that does not present a signature on a payload
  for which no token was issued: signatures cannot be forged.
\<close>

record bank_world =
  bank :: BankServer
  time :: int
  issued :: "(bytes \<times> int \<times> bytes) set"
  completed :: "(request \<times> int) list"

definition issued_payload :: "bytes \<times> int \<times> bytes \<Rightarrow> bytes" where
  "issued_payload = (\<lambda>(sid, t, nonce). token_payload sid (fmt_d (t div 10 ^ 9)) nonce)"

definition unforged :: "TokenManager \<Rightarrow> (bytes \<times> int \<times> bytes) set \<Rightarrow> request \<Rightarrow> bool" where
  "unforged tm I r \<longleftrightarrow> (\<forall>p. presents tm (carried r) p \<longrightarrow> p \<in> issued_payload ` I)"

definition web_init :: "int \<Rightarrow> bank_world \<Rightarrow> bool" where
  "web_init n w \<longleftrightarrow> bank_ok n (bank w) \<and> in64 (time w div 10 ^ 9) \<and> issued w = {} \<and> completed w = []"

inductive web_step :: "TokenManager \<Rightarrow> bank_world \<Rightarrow> bank_world \<Rightarrow> bool" for tm :: TokenManager where
  issues: "HandleGetCSRFToken tm (time w) (Some nonce) (bank w) r = TokenIssued tok \<Longrightarrow> cookie r = Some sid \<Longrightarrow>
    web_step tm w (w\<lparr>issued := insert (sid, time w, EncodeToString nonce) (issued w)\<rparr>)"
| transfers: "unforged tm (issued w) r \<Longrightarrow> protected_transfer tm (time w) r (bank w) = (resp, b) \<Longrightarrow>
    web_step tm w (w\<lparr>bank := b, completed := (if went resp then [(r, time w)] else []) @ completed w\<rparr>)"
| waits: "time w \<le> t \<Longrightarrow> in64 (t div 10 ^ 9) \<Longrightarrow> web_step tm w (w\<lparr>time := t\<rparr>)"

definition authorised :: "TokenManager \<Rightarrow> (bytes \<times> int \<times> bytes) set \<Rightarrow> request \<times> int \<Rightarrow> bool" where
  "authorised tm I = (\<lambda>(r, t). verb r = ''POST'' \<and>
     (\<exists>sid t0 nonce. cookie r = Some sid \<and> (sid, t0, nonce) \<in> I \<and> t0 \<le> t \<and> Since t (t0 div 10 ^ 9) \<le> ttl tm))"

definition web_inv :: "int \<Rightarrow> TokenManager \<Rightarrow> bank_world \<Rightarrow> bool" where
  "web_inv n tm w \<longleftrightarrow> bank_ok n (bank w) \<and> in64 (time w div 10 ^ 9) \<and>
     (\<forall>(sid, t, nonce) \<in> issued w. t \<le> time w \<and> in64 (t div 10 ^ 9) \<and> 58 \<notin> set nonce) \<and>
     list_all (authorised tm (issued w)) (completed w)"

lemma payload_parts: "split_at 58 (token_payload sid ts nonce) = split_at 58 sid @ split_at 58 ts @ split_at 58 nonce"
  by (simp add: token_payload_def split_at_append)

text \<open>A payload without other colons names the session it was issued to.\<close>

lemma accepted_was_issued:
  assumes "unforged tm I r" and "ValidateToken tm t (carried r) sid = None"
    and "\<forall>(sid, t, nonce) \<in> I. in64 (t div 10 ^ 9) \<and> 58 \<notin> set nonce"
  shows "\<exists>t0 nonce. (sid, t0, nonce) \<in> I \<and> Since t (t0 div 10 ^ 9) \<le> ttl tm"
proof -
  from assms(2) obtain ts nonce n where p: "presents tm (carried r) (token_payload sid ts nonce)" "58 \<notin> set sid"
      "58 \<notin> set ts" "58 \<notin> set nonce" "ParseInt ts = Inr n" "Since t n \<le> ttl tm"
    by (auto simp: ValidateToken_iff)
  from p(1) assms(1) have "token_payload sid ts nonce \<in> issued_payload ` I" by (auto simp: unforged_def)
  then obtain sid0 t0 nonce0 where i: "(sid0, t0, nonce0) \<in> I"
      "token_payload sid ts nonce = token_payload sid0 (fmt_d (t0 div 10 ^ 9)) nonce0"
    by (auto simp: issued_payload_def)
  from assms(3) i(1) have ok: "in64 (t0 div 10 ^ 9)" "58 \<notin> set nonce0" by auto
  from arg_cong [OF i(2), of "split_at 58"] p(2-4) ok(2)
  have "[sid, ts, nonce] = split_at 58 sid0 @ [fmt_d (t0 div 10 ^ 9), nonce0]"
    by (simp add: payload_parts split_at_none fmt_d_no_colon)
  then have "split_at 58 sid0 = [sid]" "ts = fmt_d (t0 div 10 ^ 9)" by (auto simp: append_eq_Cons_conv)
  with join_split [of 58 sid0] have "sid0 = sid" "ts = fmt_d (t0 div 10 ^ 9)" by simp_all
  with p ParseInt_fmt_d [OF ok(1)] i(1) show ?thesis by auto
qed

lemma authorised_mono: "authorised tm I e \<Longrightarrow> I \<subseteq> J \<Longrightarrow> authorised tm J e"
  by (fastforce simp: authorised_def)

lemma web_step_inv:
  assumes inv: "web_inv n tm w" and s: "web_step tm w w'"
  shows "web_inv n tm w'"
  using s
proof cases
  case (issues nonce r tok sid)
  have "list_all (authorised tm (issued w')) (completed w)"
    using inv authorised_mono [of tm "issued w" _ "issued w'"] issues by (auto simp: web_inv_def list_all_iff)
  with inv issues show ?thesis by (auto simp: web_inv_def encoded_plain)
next
  case (transfers r resp b)
  show ?thesis
  proof (rule protected_transfer_cases [OF transfers(3)])
    assume "b = bank w" "\<not> went resp"
    with inv transfers show ?thesis by (simp add: web_inv_def)
  next
    fix sid
    assume h: "HandleTransferVulnerable r (bank w) = (resp, b)" "cookie r = Some sid"
      "ValidateToken tm (time w) (carried r) sid = None"
    have "went resp \<Longrightarrow> verb r = ''POST''" using transfer_result [OF h(1)] by blast
    moreover have "\<exists>t0 nonce. (sid, t0, nonce) \<in> issued w \<and> Since (time w) (t0 div 10 ^ 9) \<le> ttl tm"
      using inv by (intro accepted_was_issued [OF transfers(2) h(3)]) (auto simp: web_inv_def)
    ultimately have "went resp \<Longrightarrow> authorised tm (issued w) (r, time w)"
      using inv h(2) by (fastforce simp: authorised_def web_inv_def)
    with inv transfers bank_ok_transfer [OF h(1)] show ?thesis by (auto simp: web_inv_def)
  qed
next
  case (waits t)
  with inv show ?thesis by (fastforce simp: web_inv_def)
qed

lemma web_init_inv: "web_init n w \<Longrightarrow> web_inv n tm w"
  by (simp add: web_init_def web_inv_def)

interpretation web: guarded_system "web_init n" "web_step tm" "web_inv n tm" for n tm
  by unfold_locales (rule web_init_inv, assumption, rule web_step_inv)

section \<open>Cross-origin requests\<close>

record CorsConfig =
  AllowedOrigins :: "string list"
  AllowedMethods :: "string list"
  AllowedHeaders :: "string list"
  ExposedHeaders :: "string list"
  AllowCredentials :: bool
  MaxAge :: int

definition cors_new :: "CorsConfig \<Rightarrow> CorsConfig" where
  "cors_new c =
     (let c1 = (if AllowedMethods c = [] then c\<lparr>AllowedMethods :=
            [''GET'', ''POST'', ''PUT'', ''PATCH'', ''DELETE'', ''HEAD'', ''OPTIONS'']\<rparr> else c)
      in if AllowedHeaders c1 = [] then c1\<lparr>AllowedHeaders :=
            [''Origin'', ''Accept'', ''Content-Type'', ''Authorization'', ''X-CSRF-Token'', ''X-Requested-With'']\<rparr> else c1)"

definition isOriginAllowed :: "CorsConfig \<Rightarrow> string \<Rightarrow> bool" where
  "isOriginAllowed c orig \<longleftrightarrow> orig \<noteq> [] \<and> list_ex (\<lambda>x. x = ''*'' \<or> x = orig) (AllowedOrigins c)"

fun join_comma :: "string list \<Rightarrow> string" where
  "join_comma [] = []"
| "join_comma [x] = x"
| "join_comma (x # xs) = x @ '', '' @ join_comma xs"

text \<open>The headers that are set, and the answer, if the request does not go on to the next handler.\<close>

definition cors_handler :: "CorsConfig \<Rightarrow> request \<Rightarrow> (string \<times> string) list \<times> nat option" where
  "cors_handler c r =
     (if origin r = [] then ([], None)
      else if \<not> isOriginAllowed c (origin r) then ([], if verb r = ''OPTIONS'' then Some 403 else None)
      else
        (let grant =
               (if AllowCredentials c
                then [(''Access-Control-Allow-Origin'', origin r), (''Access-Control-Allow-Credentials'', ''true'')]
                else if AllowedOrigins c = [''*''] then [(''Access-Control-Allow-Origin'', ''*'')]
                else [(''Access-Control-Allow-Origin'', origin r)]);
             headers = grant @ [(''Vary'', ''Origin'')] @
               (if ExposedHeaders c = [] then []
                else [(''Access-Control-Expose-Headers'', join_comma (ExposedHeaders c))])
         in if verb r = ''OPTIONS''
            then (headers @
               [(''Access-Control-Allow-Methods'', join_comma (AllowedMethods c)),
                (''Access-Control-Allow-Headers'', join_comma (AllowedHeaders c))] @
               (if 0 < MaxAge c then [(''Access-Control-Max-Age'', map char_of (fmt_d (MaxAge c)))] else []), Some 204)
            else (headers, None)))"

text \<open>An origin is granted access exactly when it is allowed, and credentials only by its own name.\<close>

lemma cors_grants:
  "map_of (fst (cors_handler c r)) ''Access-Control-Allow-Origin'' =
     (if isOriginAllowed c (origin r)
      then Some (if \<not> AllowCredentials c \<and> AllowedOrigins c = [''*''] then ''*'' else origin r) else None)"
  by (auto simp: cors_handler_def isOriginAllowed_def Let_def)

lemma cors_wildcard_with_credentials:
  "AllowCredentials c \<Longrightarrow> ''*'' \<in> set (AllowedOrigins c) \<Longrightarrow> origin r \<noteq> [] \<Longrightarrow>
     map_of (fst (cors_handler c r)) ''Access-Control-Allow-Origin'' = Some (origin r) \<and>
     map_of (fst (cors_handler c r)) ''Access-Control-Allow-Credentials'' = Some ''true''"
  by (auto simp: cors_handler_def isOriginAllowed_def Let_def list_ex_iff)

section \<open>Properties\<close>


text \<open>The victim's own transfer, with a token that has just been issued.\<close>

definition victim_request :: "bytes \<Rightarrow> request" where
  "victim_request tok = \<lparr>verb = ''POST'', cookie = Some victim_session, token_header = tok, token_field = [],
     fetch_site = [], origin = [], to_field = map of_char ''acc-attacker'', amount_field = [53]\<rparr>"

lemma demo_token_unforged:
  "unforged demo_manager {(victim_session, 0, EncodeToString (replicate 16 0))} (victim_request demo_token)"
proof -
  let ?p = "token_payload victim_session (fmt_d (0 div 10 ^ 9)) (EncodeToString (replicate 16 0))"
  let ?sg = "EncodeToString (hmac_sha256 (secret demo_manager) ?p)"
  have made: "demo_token \<noteq> []" "DecodeString demo_token = Some (?p @ 58 # ?sg)"
    using GenerateToken_decodes [OF victim_bytes(1,3) demo_token_made] by (simp_all add: token_payload_def)
  have "p = ?p" if "presents demo_manager demo_token p" for p
  proof -
    from that made(2) obtain sg where sg: "?p @ 58 # ?sg = p @ 58 # sg" "58 \<notin> set sg" by (auto simp: presents_def)
    from arg_cong [OF sg(1), of "split_at 58"] sg(2) have "split_at 58 p = split_at 58 ?p"
      by (simp add: split_at_append split_at_none encoded_plain)
    with join_split [of 58 p] join_split [of 58 ?p] show ?thesis by simp
  qed
  with made(1) show ?thesis
    by (auto simp: unforged_def carried_def victim_request_def issued_payload_def)
qed

definition opened_bank :: bank_world where
  "opened_bank = \<lparr>bank = NewBankServer, time = 0, issued = {}, completed = []\<rparr>"

lemma new_bank_ok: "bank_ok 1050 NewBankServer"
  by (auto simp: bank_ok_def NewBankServer_def Let_def total_def max64_def split: if_splits)

lemma victim_known:
  "authenticate NewBankServer (victim_request tok) =
     Inr (\<lparr>BankID = map of_char ''acc-victim'', Owner = map of_char ''Victim User'', BankBalance = 1000\<rparr>, victim_session)"
  by (simp add: authenticate_def NewBankServer_def victim_request_def victim_session_def)

text \<open>After the issue and the request, the transfer is recorded.\<close>

lemma victim_transfer:
  "\<exists>w. reachable (web_init 1050) (web_step demo_manager) w \<and> completed w = [(victim_request demo_token, 0)]"
proof -
  let ?i = "(victim_session, 0, EncodeToString (replicate 16 0))"
  let ?w1 = "opened_bank\<lparr>issued := insert ?i (issued opened_bank)\<rparr>"
  have "reachable (web_init 1050) (web_step demo_manager) opened_bank"
    by (rule reachable.start) (simp add: web_init_def opened_bank_def new_bank_ok in64_def min64_def max64_def)
  moreover have "web_step demo_manager opened_bank ?w1"
    using issues [of demo_manager opened_bank "replicate 16 0" "victim_request []" demo_token victim_session]
    by (simp add: opened_bank_def HandleGetCSRFToken_def victim_known demo_token_made) (simp add: victim_request_def)
  ultimately have r1: "reachable (web_init 1050) (web_step demo_manager) ?w1" by (rule reachable.move)
  obtain resp b where t: "protected_transfer demo_manager 0 (victim_request demo_token) NewBankServer = (resp, b)"
    by fastforce
  have "\<exists>m b. HandleTransferVulnerable (victim_request demo_token) NewBankServer = (TransferDone m, b)"
    by (simp add: HandleTransferVulnerable_def victim_known Let_def)
      (simp add: victim_request_def NewBankServer_def ParseInt_def parse_uint_def Let_def)
  moreover have "carried (victim_request demo_token) = demo_token"
    using GenerateToken_decodes [OF victim_bytes(1,3) demo_token_made] by (simp add: carried_def victim_request_def)
  ultimately have "went resp"
    using t demo_token_valid
    by (auto simp: protected_transfer_def csrf_handler_def HandleTransferProtected_def victim_session_def
        safe_verb_def victim_request_def)
  with transfers [of demo_manager ?w1 "victim_request demo_token" resp b] t demo_token_unforged
  have "web_step demo_manager ?w1 (?w1\<lparr>bank := b, completed := [(victim_request demo_token, 0)]\<rparr>)"
    by (simp add: opened_bank_def)
  from reachable.move [OF r1 this] show ?thesis by (intro exI conjI) (assumption, simp)
qed


end
