(* ===== verification/Routing.thy ===== *)
theory Routing
  imports Replicas
begin

text \<open>
  Lab 33, the rest of \<^verbatim>\<open>internal/router/router.go\<close>: the configuration, the sessions, and the reads
  that use neither tokens nor sequence numbers. As in \<open>ReadLagAware\<close>, nothing happens between the
  critical sections of a read; instants are integers.
\<close>

section \<open>The router\<close>

record Config =
  StickyDuration :: int
  MaxAllowedLag :: int
  MaxLSNDiff :: nat
  WaitTimeout :: int

definition DefaultConfig :: Config where
  "DefaultConfig = \<lparr>StickyDuration = 5 * 10 ^ 9, MaxAllowedLag = 2 * 10 ^ 9, MaxLSNDiff = 5, WaitTimeout = 10 ^ 9\<rparr>"

record SessionState =
  LastWriteTime :: int
  LastWriteLSN :: nat

record Router =
  config :: Config
  sessions :: "string \<rightharpoonup> SessionState"
  rrIndex :: nat

definition NewRouter :: "Config \<Rightarrow> Router" where
  "NewRouter cfg = \<lparr>config = cfg, sessions = Map.empty, rrIndex = 0\<rparr>"

text \<open>\<open>Write\<close>, after the cluster has returned the number \<open>lsn\<close>.\<close>

definition note_write :: "string \<Rightarrow> nat \<Rightarrow> int \<Rightarrow> Router \<Rightarrow> Router" where
  "note_write sid lsn now r = r\<lparr>sessions := (sessions r)(sid \<mapsto> \<lparr>LastWriteTime = now, LastWriteLSN = lsn\<rparr>)\<rparr>"

definition Read :: "DataNode \<Rightarrow> string \<Rightarrow> string option \<times> nat" where
  "Read n k = (data n k, appliedLSN n)"

definition next_turn :: "Router \<Rightarrow> Router" where
  "next_turn r = r\<lparr>rrIndex := (rrIndex r + 1) mod 2 ^ 64\<rparr>"

definition ReadNaive :: "string \<Rightarrow> replication \<Rightarrow> Router \<Rightarrow> (string option \<times> nat) \<times> Router" where
  "ReadNaive k w r =
     (if replicas w = [] then (Read (primary w) k, r)
      else (let r' = next_turn r
            in (Read (replicas w ! (rrIndex r' mod length (replicas w))) k, r')))"

text \<open>The counter moves only when there is a replica to choose.\<close>

definition ReadByLag :: "string \<Rightarrow> replication \<Rightarrow> Router \<Rightarrow> (string option \<times> nat) \<times> Router" where
  "ReadByLag k w r =
     (let m = MaxLSNDiff (config r); r' = (if lag_eligible m w = [] then r else next_turn r)
      in (ReadLagAware m (rrIndex r') k w, r'))"

definition ReadWithStickySession ::
  "int \<Rightarrow> string \<Rightarrow> string \<Rightarrow> replication \<Rightarrow> Router \<Rightarrow> (string option \<times> nat) \<times> Router" where
  "ReadWithStickySession now sid k w r =
     (case sessions r sid of
        None \<Rightarrow> ReadByLag k w r
      | Some st \<Rightarrow>
          if now - LastWriteTime st < StickyDuration (config r) then (Read (primary w) k, r)
          else ReadByLag k w r)"

section \<open>What the reads return\<close>

lemma primary_read:
  assumes "reachable replication_init replicate_step w" and "calm w"
  shows "Read (primary w) k = (replay (take (appliedLSN (primary w)) (log w)) k, appliedLSN (primary w)) \<and>
    appliedLSN (primary w) \<le> length (log w) \<and> (\<forall>m \<in> acked w. m \<le> appliedLSN (primary w))"
  using calm_parts [OF assms] by (auto simp: Read_def nodes_ok_def follows_def readers_ok_def)

text \<open>
  Within the sticky time a session reads its own writes, from the primary; after it the answer
  may be as old as the lag that the configuration allows, and the session's own write may be
  missing from it.
\<close>

lemma sticky_reads_own_writes:
  assumes "reachable replication_init replicate_step w" and "calm w" and "lsn \<in> acked w"
    and "now - t < StickyDuration (config r)"
    and "ReadWithStickySession now sid k w (note_write sid lsn t r) = ((v, l), r')"
  shows "v = replay (take l (log w)) k \<and> lsn \<le> l \<and> l \<le> length (log w)"
  using primary_read [OF assms(1,2), of k] assms(3-5)
  by (auto simp: ReadWithStickySession_def note_write_def)

lemma sticky_reads_bounded:
  assumes "reachable replication_init replicate_step w" and "calm w"
    and "ReadWithStickySession now sid k w r = ((v, l), r')"
  shows "v = replay (take l (log w)) k \<and> l \<le> length (log w) \<and>
    length (log w) \<le> l + max 1 (MaxLSNDiff (config r))"
proof -
  have ok: "nodes_ok w" using calm_parts(1) [OF assms(1,2)] .
  have lag: ?thesis if "ReadByLag k w r = ((v, l), r')"
    using lag_aware_staleness [OF ok, of "MaxLSNDiff (config r)" _ k v l] that
    by (auto simp: ReadByLag_def Let_def split: if_splits)
  have prim: ?thesis if "Read (primary w) k = (v, l)"
  proof -
    have "length (log w) \<le> primary_reached (length (log w)) (writers w) + 1"
      by (cases "(length (log w), writers w)" rule: primary_reached.cases) simp_all
    moreover have "follows (log w) (primary_reached (length (log w)) (writers w)) (primary w)" "pending (primary w) = []"
      using ok by (simp_all add: nodes_ok_def)
    ultimately show ?thesis using that by (auto simp: Read_def follows_def)
  qed
  show ?thesis
  proof (cases "sessions r sid")
    case None
    with assms(3) show ?thesis by (intro lag) (simp add: ReadWithStickySession_def)
  next
    case (Some st)
    with assms(3) lag prim show ?thesis by (auto simp: ReadWithStickySession_def split: if_splits)
  qed
qed

text \<open>A naive read ignores the lag: it is as old as the replica whose turn it is.\<close>

lemma naive_reads_prefix:
  assumes "reachable replication_init replicate_step w" and "calm w" and "ReadNaive k w r = ((v, l), r')"
  shows "v = replay (take l (log w)) k \<and> l \<le> length (log w)"
proof (cases "replicas w = []")
  case True
  with assms(3) primary_read [OF assms(1,2), of k] show ?thesis by (auto simp: ReadNaive_def)
next
  case False
  then have "rrIndex (next_turn r) mod length (replicas w) < length (replicas w)" by simp
  from replica_follows [OF calm_parts(1) [OF assms(1,2)] this] assms(3) False show ?thesis
    by (auto simp: ReadNaive_def Read_def follows_def Let_def split: if_splits)
qed

end
