(* ===== verification/EventHub.thy ===== *)
theory EventHub
  imports Systems GoText
begin

text \<open>
  Lab 35, \<^verbatim>\<open>labs/35-websocket-and-sse/internal/sse/sse.go\<close>: the hub of server-sent events, its
  subscribers, and the loop that writes to a connection.
\<close>

section \<open>Events and the hub\<close>

record Event =
  ID :: int
  EventType :: bytes
  Data :: bytes
  Retry :: int

definition fmt_line :: "string \<Rightarrow> bytes \<Rightarrow> bytes" where
  "fmt_line field val = map of_char field @ 58 # 32 # val @ [10]"

definition Format_event :: "Event \<Rightarrow> bytes" where
  "Format_event e =
     (if 0 < ID e then fmt_line ''id'' (fmt_d (ID e)) else []) @
     (if EventType e \<noteq> [] then fmt_line ''event'' (EventType e) else []) @
     (if 0 < Retry e then fmt_line ''retry'' (fmt_d (Retry e)) else []) @
     concat (map (fmt_line ''data'') (split_at 10 (Data e))) @ [10]"

text \<open>
  A connection: the identifier it asked to continue after, the replay it has not written yet, its
  channel, and the ghosts: how many events there were when it joined, the events written, and
  whether one found the channel full.
\<close>

record connection =
  after :: int
  joined :: nat
  replaying :: "Event list"
  channel :: "Event list"
  written :: "Event list"
  overflowed :: bool

record Hub =
  history :: "Event list"
  clients :: "nat \<rightharpoonup> connection"
  nextID :: int

definition NewHub :: Hub where
  "NewHub = \<lparr>history = [], clients = Map.empty, nextID = 1\<rparr>"

definition offer :: "Event \<Rightarrow> connection \<Rightarrow> connection" where
  "offer evt c = (if length (channel c) < 64 then c\<lparr>channel := channel c @ [evt]\<rparr> else c\<lparr>overflowed := True\<rparr>)"

definition Broadcast :: "bytes \<Rightarrow> bytes \<Rightarrow> Hub \<Rightarrow> Event \<times> Hub" where
  "Broadcast eventType dat h =
     (let evt = \<lparr>ID = nextID h, EventType = eventType, Data = dat, Retry = 2000\<rparr>
      in (evt, h\<lparr>nextID := add64 (nextID h) 1, history := history h @ [evt],
                 clients := (\<lambda>c. map_option (offer evt) (clients h c))\<rparr>))"

definition replay_after :: "int \<Rightarrow> Hub \<Rightarrow> Event list" where
  "replay_after lastID h = filter (\<lambda>evt. lastID < ID evt) (history h)"

definition Subscribe :: "nat \<Rightarrow> int \<Rightarrow> Hub \<Rightarrow> Hub" where
  "Subscribe ch lastID h = h\<lparr>clients := (clients h)(ch \<mapsto>
     \<lparr>after = lastID, joined = length (history h), replaying = replay_after lastID h, channel = [], written = [], overflowed = False\<rparr>)\<rparr>"

definition unsubscribe :: "nat \<Rightarrow> Hub \<Rightarrow> Hub" where
  "unsubscribe ch h = h\<lparr>clients := (clients h)(ch := None)\<rparr>"

text \<open>The header \<open>Last-Event-ID\<close>: what is no number counts as 0.\<close>

definition last_event_id :: "bytes \<Rightarrow> int" where
  "last_event_id s = (if s = [] then 0 else (case ParseInt s of Inl _ \<Rightarrow> 0 | Inr n \<Rightarrow> n))"

text \<open>The loop of \<open>ServeHTTP\<close> writes the replay first, then what the channel gives.\<close>

definition write_next :: "connection \<Rightarrow> connection option" where
  "write_next c =
     (case replaying c of
        evt # rest \<Rightarrow> Some (c\<lparr>replaying := rest, written := written c @ [evt]\<rparr>)
      | [] \<Rightarrow>
          (case channel c of
             [] \<Rightarrow> None
           | evt # rest \<Rightarrow> Some (c\<lparr>channel := rest, written := written c @ [evt]\<rparr>)))"

inductive hub_step :: "Hub \<Rightarrow> Hub \<Rightarrow> bool" where
  broadcasts: "hub_step h (snd (Broadcast t d h))"
| connects: "clients h ch = None \<Longrightarrow> hub_step h (Subscribe ch (last_event_id header) h)"
| serves: "clients h ch = Some c \<Longrightarrow> write_next c = Some c' \<Longrightarrow> hub_step h (h\<lparr>clients := (clients h)(ch \<mapsto> c')\<rparr>)"
| disconnects: "clients h ch \<noteq> None \<Longrightarrow> hub_step h (unsubscribe ch h)"

section \<open>No event is skipped or repeated\<close>

definition numbered_from_1 :: "Event list \<Rightarrow> bool" where
  "numbered_from_1 es \<longleftrightarrow> (\<forall>i < length es. ID (es ! i) = int i + 1)"

text \<open>The events of a connection: the ones it asked for when it joined, and all since.\<close>

definition expected :: "Event list \<Rightarrow> connection \<Rightarrow> Event list" where
  "expected es c = filter (\<lambda>evt. after c < ID evt) (take (joined c) es) @ drop (joined c) es"

definition connection_ok :: "Event list \<Rightarrow> connection \<Rightarrow> bool" where
  "connection_ok es c \<longleftrightarrow> joined c \<le> length es \<and> length (channel c) \<le> 64 \<and>
     (\<not> overflowed c \<longrightarrow> written c @ replaying c @ channel c = expected es c)"

definition hub_ok :: "Hub \<Rightarrow> bool" where
  "hub_ok h \<longleftrightarrow> numbered_from_1 (history h) \<and> nextID h = int (length (history h)) + 1 \<and>
     (\<forall>ch c. clients h ch = Some c \<longrightarrow> connection_ok (history h) c)"

definition hub_inv :: "Hub \<Rightarrow> bool" where
  "hub_inv h \<longleftrightarrow> (length (history h) < 2 ^ 63 - 1 \<longrightarrow> hub_ok h)"

lemma connection_ok_offer:
  "connection_ok es c \<Longrightarrow> connection_ok (es @ [evt]) (offer evt c)"
  by (auto simp: connection_ok_def offer_def expected_def)

lemma connection_ok_write:
  "connection_ok es c \<Longrightarrow> write_next c = Some c' \<Longrightarrow> connection_ok es c'"
  by (auto simp: connection_ok_def write_next_def expected_def split: list.splits)

lemma event_numbers_snoc: "numbered_from_1 es \<Longrightarrow> ID evt = int (length es) + 1 \<Longrightarrow> numbered_from_1 (es @ [evt])"
  by (auto simp: numbered_from_1_def nth_append less_Suc_eq)

lemma hub_ok_broadcast:
  assumes "hub_ok h" and "length (history h) < 2 ^ 63 - 2"
  shows "hub_ok (snd (Broadcast t d h))"
proof -
  have "add64 (nextID h) 1 = nextID h + 1"
    using assms by (intro add64_id) (auto simp: hub_ok_def in64_def min64_def max64_def)
  with assms(1) show ?thesis
    by (auto simp: hub_ok_def Broadcast_def Let_def event_numbers_snoc connection_ok_offer)
qed

lemma hub_step_inv:
  assumes inv: "hub_inv h" and s: "hub_step h h'"
  shows "hub_inv h'"
  unfolding hub_inv_def
proof
  assume l: "length (history h') < 2 ^ 63 - 1"
  from s show "hub_ok h'"
  proof cases
    case (broadcasts t d)
    with l have "length (history h) < 2 ^ 63 - 2" by (simp add: Broadcast_def Let_def)
    with inv broadcasts hub_ok_broadcast show ?thesis by (simp add: hub_inv_def)
  next
    case (connects ch header)
    with l inv show ?thesis by (auto simp: hub_inv_def hub_ok_def Subscribe_def connection_ok_def expected_def replay_after_def)
  next
    case (serves ch c c')
    with l inv have "connection_ok (history h) c" "hub_ok h" by (auto simp: hub_inv_def hub_ok_def)
    with serves connection_ok_write [OF this(1) serves(3)] show ?thesis by (auto simp: hub_ok_def)
  next
    case (disconnects ch)
    with l inv show ?thesis by (auto simp: hub_inv_def hub_ok_def unsubscribe_def)
  qed
qed

definition hub_init :: "Hub \<Rightarrow> bool" where
  "hub_init h \<longleftrightarrow> h = NewHub"

lemma hub_init_inv: "hub_init h \<Longrightarrow> hub_inv h"
  by (simp add: hub_init_def hub_inv_def hub_ok_def NewHub_def numbered_from_1_def)

interpretation hub: guarded_system hub_init hub_step hub_inv
  by unfold_locales (rule hub_init_inv, assumption, rule hub_step_inv)

text \<open>A connection that continues after an event that exists misses nothing in between.\<close>

lemma expected_all:
  assumes "numbered_from_1 es" and "after c \<le> int (joined c)" and "joined c \<le> length es"
  shows "expected es c = filter (\<lambda>evt. after c < ID evt) es"
proof -
  have "filter (\<lambda>evt. after c < ID evt) (drop (joined c) es) = drop (joined c) es"
    using assms by (intro filter_True) (auto simp: in_set_conv_nth numbered_from_1_def)
  then show ?thesis
    by (metis append_take_drop_id expected_def filter_append)
qed


section \<open>A connection that falls behind\<close>

definition numbered_event :: "bytes \<Rightarrow> bytes \<Rightarrow> nat \<Rightarrow> Event" where
  "numbered_event t d i = \<lparr>ID = int i + 1, EventType = t, Data = d, Retry = 2000\<rparr>"

definition first_events :: "bytes \<Rightarrow> bytes \<Rightarrow> nat \<Rightarrow> Event list" where
  "first_events t d n = map (numbered_event t d) [0..<n]"

lemma first_events_simps [simp]:
  "length (first_events t d n) = n" "first_events t d 0 = []"
  "first_events t d (Suc n) = first_events t d n @ [numbered_event t d n]"
  by (simp_all add: first_events_def)

definition busy_hub :: "bytes \<Rightarrow> bytes \<Rightarrow> nat \<Rightarrow> Hub" where
  "busy_hub t d n = \<lparr>history = first_events t d n,
     clients = [0 \<mapsto> \<lparr>after = 0, joined = 0, replaying = [], channel = first_events t d (min n 64),
       written = [], overflowed = 64 < n\<rparr>], nextID = int n + 1\<rparr>"

lemma next_number: "n < 1000 \<Longrightarrow> add64 (int n + 1) 1 = int n + 2"
  by (simp add: add64_id in64_def min64_def max64_def)

lemma busy_hub_step: "n < 1000 \<Longrightarrow> snd (Broadcast t d (busy_hub t d n)) = busy_hub t d (Suc n)"
  using next_number [of n]
  by (cases "n < 64")
    (auto simp: busy_hub_def Broadcast_def Let_def offer_def numbered_event_def min.absorb1 min.absorb2 fun_eq_iff)

lemma busy_hub_reachable: "n \<le> 1000 \<Longrightarrow> reachable hub_init hub_step (busy_hub t d n)"
proof (induction n)
  case 0
  have "hub_step NewHub (busy_hub t d 0)"
    using connects [of NewHub 0 "[]"] by (simp add: NewHub_def Subscribe_def busy_hub_def last_event_id_def replay_after_def)
  moreover have "reachable hub_init hub_step NewHub" by (rule reachable.start) (simp add: hub_init_def)
  ultimately show ?case by (blast intro: reachable.move)
next
  case (Suc n)
  with busy_hub_step [of n t d] broadcasts [of "busy_hub t d n" t d] show ?case by (auto intro: reachable.move)
qed

text \<open>The loop writes everything that is in the channel.\<close>

lemma drains:
  assumes "reachable hub_init hub_step h" and "clients h ch = Some c" and "replaying c = []"
  shows "reachable hub_init hub_step
    (h\<lparr>clients := (clients h)(ch \<mapsto> c\<lparr>channel := [], written := written c @ channel c\<rparr>)\<rparr>)"
  using assms
proof (induction "channel c" arbitrary: h c)
  case Nil
  then have "c\<lparr>channel := [], written := written c @ channel c\<rparr> = c" by (cases c) simp
  with Nil show ?case by (cases h) (simp add: fun_upd_idem)
next
  case (Cons evt rest)
  let ?c = "c\<lparr>channel := rest, written := written c @ [evt]\<rparr>"
  have "write_next c = Some ?c" using Cons by (simp add: write_next_def flip: Cons.hyps(2))
  from reachable.move [OF Cons.prems(1) serves [OF Cons.prems(2) this]]
  have "reachable hub_init hub_step (h\<lparr>clients := (clients h)(ch \<mapsto> ?c)\<rparr>)" .
  from Cons.hyps(1) [OF _ this, of ?c] Cons.prems(3) Cons.hyps(2) [symmetric] show ?case by simp
qed

text \<open>
  What the condition leaves out: the hub drops an event for a connection that has not read 64
  others yet, and the next event that gets through moves the client past it, so that no later
  reconnection brings it back.
\<close>

lemma slow_subscriber_loses:
  assumes "64 < n" and "n < 1000"
  shows "\<exists>h c. reachable hub_init hub_step h \<and> clients h 0 = Some c \<and> after c = 0 \<and> replaying c = [] \<and> channel c = [] \<and>
     length (history h) = Suc n \<and> length (written c) = 65 \<and> replay_after (ID (last (written c))) h = []"
proof -
  let ?h = "busy_hub [] [] n"
  let ?f = "first_events [] []"
  let ?c = "\<lparr>after = 0, joined = 0, replaying = [], channel = ?f 64, written = [], overflowed = True\<rparr>"
  let ?c1 = "?c\<lparr>channel := [], written := ?f 64\<rparr>"
  let ?h1 = "?h\<lparr>clients := [0 \<mapsto> ?c1]\<rparr>"
  let ?e = "numbered_event [] [] n"
  let ?c2 = "?c1\<lparr>channel := [?e]\<rparr>"
  let ?h2 = "\<lparr>history = ?f (Suc n), clients = [0 \<mapsto> ?c2], nextID = int n + 2\<rparr>"
  let ?c3 = "?c1\<lparr>written := ?f 64 @ [?e]\<rparr>"
  have c: "clients ?h = [0 \<mapsto> ?c]" using assms(1) by (simp add: busy_hub_def min.absorb2)
  have "reachable hub_init hub_step ?h" by (rule busy_hub_reachable) (use assms in simp)
  from drains [OF this, of 0 ?c] have r1: "reachable hub_init hub_step ?h1" by (simp add: c)
  have eq: "snd (Broadcast [] [] ?h1) = ?h2"
    using next_number [OF assms(2)]
    by (auto simp: Broadcast_def Let_def busy_hub_def numbered_event_def offer_def fun_eq_iff)
  have "hub_step ?h1 ?h2" using broadcasts [of ?h1 "[]" "[]"] unfolding eq .
  with r1 have "reachable hub_init hub_step ?h2" by (rule reachable.move)
  from drains [OF this, of 0 ?c2] have r: "reachable hub_init hub_step (?h2\<lparr>clients := [0 \<mapsto> ?c3]\<rparr>)" by simp
  have "replay_after (ID ?e) ?h2 = []"
    by (auto simp: replay_after_def numbered_event_def filter_empty_conv first_events_def)
  then show ?thesis
    by (intro exI [of _ "?h2\<lparr>clients := [0 \<mapsto> ?c3]\<rparr>"] exI [of _ ?c3] conjI) (rule r, simp_all add: replay_after_def)
qed


end
