(* ===== verification/JobQueue.thy ===== *)
theory JobQueue
  imports Systems "HOL-Library.Multiset"
begin

text \<open>
  Lab 25, \<^verbatim>\<open>labs/25-rate-limiting-and-backpressure/internal/backpressure/queue.go\<close>: a queue of
  bounded capacity in front of a pool of workers. A job is known by a number; what it returns is
  ignored by the code.
\<close>

section \<open>The queue and its workers\<close>

datatype pool_worker = Idle | Busy nat | Gone

text \<open>The ghosts: the jobs that \<open>TrySubmit\<close> accepted, rejected, and the ones that have been run.\<close>

record BoundedQueue =
  queue :: "nat list"
  workers :: "pool_worker list"
  stopped :: bool
  accepted :: "nat list"
  rejected :: "nat list"
  processed :: "nat list"

definition NewBoundedQueue :: "nat \<Rightarrow> BoundedQueue" where
  "NewBoundedQueue n = \<lparr>queue = [], workers = replicate n Idle, stopped = False, accepted = [], rejected = [], processed = []\<rparr>"

text \<open>
  A worker takes a job, runs it, and ends once the queue is stopped; it may end although there are
  jobs left, because its \<open>select\<close> prefers neither.
\<close>

inductive pool_step :: "BoundedQueue \<Rightarrow> BoundedQueue \<Rightarrow> bool" where
  takes: "workers w = xs @ Idle # ys \<Longrightarrow> queue w = job # q \<Longrightarrow>
    pool_step w (w\<lparr>workers := xs @ Busy job # ys, queue := q\<rparr>)"
| finishes: "workers w = xs @ Busy job # ys \<Longrightarrow>
    pool_step w (w\<lparr>workers := xs @ Idle # ys, processed := processed w @ [job]\<rparr>)"
| ends: "workers w = xs @ Idle # ys \<Longrightarrow> stopped w \<Longrightarrow> pool_step w (w\<lparr>workers := xs @ Gone # ys\<rparr>)"

text \<open>
  \<open>TrySubmit\<close> never waits: without capacity a job is accepted only by a worker that waits for
  one. On a stopped queue it only returns an error.
\<close>

inductive submit_step :: "nat \<Rightarrow> BoundedQueue \<Rightarrow> BoundedQueue \<Rightarrow> bool" for capacity :: nat where
  accepts: "\<not> stopped w \<Longrightarrow> length (queue w) < capacity \<Longrightarrow>
    submit_step capacity w (w\<lparr>queue := queue w @ [job], accepted := accepted w @ [job]\<rparr>)"
| hands_over: "\<not> stopped w \<Longrightarrow> capacity = 0 \<Longrightarrow> workers w = xs @ Idle # ys \<Longrightarrow>
    submit_step capacity w (w\<lparr>workers := xs @ Busy job # ys, accepted := accepted w @ [job]\<rparr>)"
| rejects: "\<not> stopped w \<Longrightarrow> capacity \<le> length (queue w) \<Longrightarrow>
    submit_step capacity w (w\<lparr>rejected := rejected w @ [job]\<rparr>)"
| stops: "submit_step capacity w (w\<lparr>stopped := True\<rparr>)"

definition queue_step :: "nat \<Rightarrow> BoundedQueue \<Rightarrow> BoundedQueue \<Rightarrow> bool" where
  "queue_step capacity w w' \<longleftrightarrow> pool_step w w' \<or> submit_step capacity w w'"

definition queue_init :: "nat \<Rightarrow> BoundedQueue \<Rightarrow> bool" where
  "queue_init n w \<longleftrightarrow> w = NewBoundedQueue n"

section \<open>Every accepted job is somewhere\<close>

definition busy :: "pool_worker list \<Rightarrow> nat list" where
  "busy ps = concat (map (\<lambda>p. case p of Busy job \<Rightarrow> [job] | _ \<Rightarrow> []) ps)"

lemma busy_simps [simp]:
  "busy [] = []" "busy (Idle # ps) = busy ps" "busy (Gone # ps) = busy ps" "busy (Busy job # ps) = job # busy ps"
  "busy (ps @ qs) = busy ps @ busy qs" "busy (replicate n Idle) = []"
  by (induction n) (simp_all add: busy_def)

definition queue_inv :: "nat \<Rightarrow> nat \<Rightarrow> BoundedQueue \<Rightarrow> bool" where
  "queue_inv n capacity w \<longleftrightarrow> length (queue w) \<le> capacity \<and> length (workers w) = n \<and>
     mset (accepted w) = mset (processed w) + mset (busy (workers w)) + mset (queue w) \<and>
     (\<not> stopped w \<longrightarrow> Gone \<notin> set (workers w))"

lemma pool_step_inv: "queue_inv n capacity w \<Longrightarrow> pool_step w w' \<Longrightarrow> queue_inv n capacity w'"
  by (erule pool_step.cases) (auto simp: queue_inv_def)

lemma submit_step_inv: "queue_inv n capacity w \<Longrightarrow> submit_step capacity w w' \<Longrightarrow> queue_inv n capacity w'"
  by (erule submit_step.cases) (auto simp: queue_inv_def)

lemma queue_init_inv: "queue_init n w \<Longrightarrow> queue_inv n capacity w"
  by (auto simp: queue_init_def NewBoundedQueue_def queue_inv_def)

interpretation jobs: guarded_system "queue_init n" "queue_step capacity" "queue_inv n capacity" for n capacity
  by unfold_locales
    (erule queue_init_inv, auto simp: queue_step_def intro: pool_step_inv submit_step_inv)

section \<open>The workers at work\<close>

definition worker_load :: "pool_worker \<Rightarrow> nat" where
  "worker_load p = (case p of Busy _ \<Rightarrow> 2 | Idle \<Rightarrow> 1 | Gone \<Rightarrow> 0)"

definition pool_work :: "BoundedQueue \<Rightarrow> nat" where
  "pool_work w = 2 * length (queue w) + sum_list (map worker_load (workers w))"

lemma pool_step_work: "pool_step w w' \<Longrightarrow> pool_work w' < pool_work w"
  by (erule pool_step.cases) (auto simp: pool_work_def worker_load_def)

text \<open>A pool that is open and has a worker.\<close>

definition open_pool :: "nat \<Rightarrow> nat \<Rightarrow> BoundedQueue \<Rightarrow> bool" where
  "open_pool n capacity w \<longleftrightarrow> queue_inv n capacity w \<and> \<not> stopped w \<and> 0 < n"

lemma all_idle:
  assumes "\<And>u. \<not> pool_step w u" and "\<not> stopped w" and "Gone \<notin> set (workers w)"
  shows "set (workers w) \<subseteq> {Idle}"
proof
  fix p assume p: "p \<in> set (workers w)"
  then obtain xs ys where "workers w = xs @ p # ys" by (meson split_list)
  with assms(1) finishes [of w xs _ ys] p assms(3) show "p \<in> {Idle}" by (cases p) auto
qed

interpretation working: resting_system pool_step "open_pool n capacity" pool_work
  "\<lambda>w. queue w = [] \<and> mset (processed w) = mset (accepted w)" for n capacity
proof
  show "open_pool n capacity t" if "open_pool n capacity s" "pool_step s t" for s t
  proof -
    from that(2) have "stopped t = stopped s" by cases simp_all
    with that show ?thesis using pool_step_inv by (auto simp: open_pool_def)
  qed
  show "pool_work t < pool_work s" if "pool_step s t" for s t using that by (rule pool_step_work)
  show "queue s = [] \<and> mset (processed s) = mset (accepted s)"
    if ok: "open_pool n capacity s" and stuck: "\<And>t. \<not> pool_step s t" for s
  proof -
    from ok have inv: "queue_inv n capacity s" "\<not> stopped s" "0 < n" by (simp_all add: open_pool_def)
    from inv have idle: "set (workers s) \<subseteq> {Idle}" by (intro all_idle stuck) (auto simp: queue_inv_def)
    then have "busy (workers s) = []" by (induction "workers s") (auto simp: busy_def)
    moreover from inv(1,3) idle obtain ps where "workers s = [] @ Idle # ps"
      by (cases "workers s") (auto simp: queue_inv_def)
    with stuck takes [of s "[]" ps] have "queue s = []" by (cases "queue s") auto
    ultimately show ?thesis using inv(1) by (simp add: queue_inv_def)
  qed
qed

text \<open>
  Before \<open>Stop\<close> nothing that was accepted is lost: the workers alone come to rest, and then every
  accepted job has been run, exactly once.
\<close>

lemma accepted_jobs_run:
  assumes "reachable (queue_init n) (queue_step capacity) w" and "\<not> stopped w" and "0 < n"
  shows "(\<exists>w'. run pool_step w w' \<and> (\<nexists>u. pool_step w' u)) \<and>
    (\<forall>w'. run pool_step w w' \<and> (\<nexists>u. pool_step w' u) \<longrightarrow> mset (processed w') = mset (accepted w'))"
proof -
  have ok: "open_pool n capacity w" using jobs.reachable_inv [OF assms(1)] assms(2,3) by (simp add: open_pool_def)
  then show ?thesis using working.comes_to_rest [OF ok] working.rest_settled [OF ok] by metis
qed

text \<open>\<open>Stop\<close> does not drain: an accepted job may be left in the queue with every worker gone.\<close>

lemma stop_drops_jobs:
  "\<exists>w. reachable (queue_init 1) (queue_step (Suc capacity)) w \<and> stopped w \<and> accepted w = [job] \<and> processed w = [] \<and>
     (\<nexists>u. pool_step w u)"
proof -
  let ?w0 = "NewBoundedQueue 1"
  let ?w1 = "?w0\<lparr>queue := [job], accepted := [job]\<rparr>"
  let ?w2 = "?w1\<lparr>stopped := True\<rparr>"
  let ?w3 = "?w2\<lparr>workers := [Gone]\<rparr>"
  have "queue_step (Suc capacity) ?w0 ?w1"
    using accepts [of ?w0 "Suc capacity" job] by (simp add: queue_step_def NewBoundedQueue_def)
  moreover have "queue_step (Suc capacity) ?w1 ?w2" using stops [of "Suc capacity" ?w1] by (simp add: queue_step_def)
  moreover have "queue_step (Suc capacity) ?w2 ?w3"
    using ends [of ?w2 "[]" "[]"] by (simp add: queue_step_def NewBoundedQueue_def)
  moreover have "reachable (queue_init 1) (queue_step (Suc capacity)) ?w0" by (rule reachable.start) (simp add: queue_init_def)
  ultimately have "reachable (queue_init 1) (queue_step (Suc capacity)) ?w3" by (meson reachable.move)
  moreover have "\<nexists>u. pool_step ?w3 u"
    by (auto simp: NewBoundedQueue_def append_eq_Cons_conv Cons_eq_append_conv elim!: pool_step.cases)
  ultimately show ?thesis by (intro exI [of _ ?w3]) (simp add: NewBoundedQueue_def)
qed

end
