(* ===== verification/ServiceBreaker.thy ===== *)
theory ServiceBreaker
  imports Systems GoInt
begin

text \<open>
  Lab 28, \<^verbatim>\<open>labs/28-timeouts-and-deadlines/internal\<close>: the breaker of \<open>circuit/circuit.go\<close>, with any
  number of calls in flight, and the store of \<open>idempotency/idempotency.go\<close>. Instants and durations
  are integers; a difference of instants that no \<open>time.Duration\<close> holds is not modelled.
\<close>

section \<open>The breaker\<close>

datatype breaker_state = StateClosed | StateOpen | StateHalfOpen

record BreakerConfig =
  FailureLimit :: int
  SuccessLimit :: int
  Cooldown :: int

record ServiceBreaker =
  cfg :: BreakerConfig
  state :: breaker_state
  failures :: int
  successes :: int
  lastStateChg :: int

definition with_defaults :: "BreakerConfig \<Rightarrow> BreakerConfig" where
  "with_defaults c =
     \<lparr>FailureLimit = (if FailureLimit c \<le> 0 then 3 else FailureLimit c),
      SuccessLimit = (if SuccessLimit c \<le> 0 then 2 else SuccessLimit c),
      Cooldown = (if Cooldown c \<le> 0 then 100000000 else Cooldown c)\<rparr>"

definition NewServiceBreaker :: "BreakerConfig \<Rightarrow> int \<Rightarrow> ServiceBreaker" where
  "NewServiceBreaker c now =
     \<lparr>cfg = with_defaults c, state = StateClosed, failures = 0, successes = 0, lastStateChg = now\<rparr>"

definition enter :: "breaker_state \<Rightarrow> int \<Rightarrow> ServiceBreaker \<Rightarrow> ServiceBreaker" where
  "enter st now b = b\<lparr>state := st, failures := 0, successes := 0, lastStateChg := now\<rparr>"

definition checkCooldown :: "int \<Rightarrow> ServiceBreaker \<Rightarrow> ServiceBreaker" where
  "checkCooldown now b =
     (if state b = StateOpen \<and> Cooldown (cfg b) \<le> now - lastStateChg b then enter StateHalfOpen now b else b)"

text \<open>Whether the call may go on, and the breaker after it.\<close>

definition Allow :: "int \<Rightarrow> ServiceBreaker \<Rightarrow> bool \<times> ServiceBreaker" where
  "Allow now b = (let b' = checkCooldown now b in (state b' \<noteq> StateOpen, b'))"

definition RecordSuccess :: "int \<Rightarrow> ServiceBreaker \<Rightarrow> ServiceBreaker" where
  "RecordSuccess now b =
     (case state b of
        StateHalfOpen \<Rightarrow>
          (let b' = b\<lparr>successes := add64 (successes b) 1\<rparr>
           in if SuccessLimit (cfg b') \<le> successes b' then enter StateClosed now b' else b')
      | StateClosed \<Rightarrow> b\<lparr>failures := 0\<rparr>
      | StateOpen \<Rightarrow> b)"

definition RecordFailure :: "int \<Rightarrow> ServiceBreaker \<Rightarrow> ServiceBreaker" where
  "RecordFailure now b =
     (case state b of
        StateHalfOpen \<Rightarrow> enter StateOpen now b
      | StateClosed \<Rightarrow>
          (let b' = b\<lparr>failures := add64 (failures b) 1\<rparr>
           in if FailureLimit (cfg b') \<le> failures b' then enter StateOpen now b' else b')
      | StateOpen \<Rightarrow> b)"

text \<open>\<open>Execute\<close> alone, for a function that returns with or without an error at the instant \<open>done\<close>.\<close>

definition ExecuteCall :: "int \<Rightarrow> int \<Rightarrow> bool \<Rightarrow> ServiceBreaker \<Rightarrow> bool \<times> ServiceBreaker" where
  "ExecuteCall now done ok b =
     (case Allow now b of
        (False, b') \<Rightarrow> (False, b')
      | (True, b') \<Rightarrow> (True, if ok then RecordSuccess done b' else RecordFailure done b'))"

text \<open>Side by side: \<open>flying\<close> counts the calls that were admitted and have not reported yet.\<close>

record breaker_world =
  brk :: ServiceBreaker
  instant :: int
  flying :: nat

definition service_init :: "BreakerConfig \<Rightarrow> breaker_world \<Rightarrow> bool" where
  "service_init c w \<longleftrightarrow> brk w = NewServiceBreaker c (instant w) \<and> flying w = 0 \<and>
     FailureLimit c \<le> max64 \<and> SuccessLimit c \<le> max64"

inductive service_step :: "breaker_world \<Rightarrow> breaker_world \<Rightarrow> bool" where
  admits: "Allow (instant w) (brk w) = (True, b) \<Longrightarrow> service_step w (w\<lparr>brk := b, flying := flying w + 1\<rparr>)"
| refuses: "Allow (instant w) (brk w) = (False, b) \<Longrightarrow> service_step w (w\<lparr>brk := b\<rparr>)"
| succeeds: "0 < flying w \<Longrightarrow>
    service_step w (w\<lparr>brk := RecordSuccess (instant w) (brk w), flying := flying w - 1\<rparr>)"
| fails: "0 < flying w \<Longrightarrow>
    service_step w (w\<lparr>brk := RecordFailure (instant w) (brk w), flying := flying w - 1\<rparr>)"
| looks: "service_step w (w\<lparr>brk := checkCooldown (instant w) (brk w)\<rparr>)"
| elapses: "instant w \<le> t \<Longrightarrow> service_step w (w\<lparr>instant := t\<rparr>)"

section \<open>Invariant\<close>

definition breaker_ok :: "BreakerConfig \<Rightarrow> ServiceBreaker \<Rightarrow> bool" where
  "breaker_ok c b \<longleftrightarrow> cfg b = c \<and>
     (case state b of
        StateClosed \<Rightarrow> 0 \<le> failures b \<and> failures b < FailureLimit c \<and> successes b = 0
      | StateHalfOpen \<Rightarrow> failures b = 0 \<and> 0 \<le> successes b \<and> successes b < SuccessLimit c
      | StateOpen \<Rightarrow> failures b = 0 \<and> successes b = 0)"

definition limits_ok :: "BreakerConfig \<Rightarrow> bool" where
  "limits_ok c \<longleftrightarrow> 0 < FailureLimit c \<and> FailureLimit c \<le> max64 \<and> 0 < SuccessLimit c \<and> SuccessLimit c \<le> max64 \<and> 0 < Cooldown c"

definition service_inv :: "BreakerConfig \<Rightarrow> breaker_world \<Rightarrow> bool" where
  "service_inv c w \<longleftrightarrow> limits_ok c \<and> breaker_ok c (brk w) \<and> lastStateChg (brk w) \<le> instant w"

lemma enter_ok: "limits_ok c \<Longrightarrow> cfg b = c \<Longrightarrow> breaker_ok c (enter st now b)"
  by (cases st) (auto simp: breaker_ok_def enter_def limits_ok_def)

lemma checkCooldown_ok:
  "limits_ok c \<Longrightarrow> breaker_ok c b \<Longrightarrow> lastStateChg b \<le> now \<Longrightarrow>
     breaker_ok c (checkCooldown now b) \<and> lastStateChg (checkCooldown now b) \<le> now"
  by (auto simp: checkCooldown_def enter_ok) (auto simp: enter_def breaker_ok_def limits_ok_def)

lemma count_up: "0 \<le> x \<Longrightarrow> x < m \<Longrightarrow> m \<le> max64 \<Longrightarrow> add64 x 1 = x + 1"
  by (intro add64_id) (auto simp: in64_def min64_def)

lemma RecordSuccess_ok:
  "limits_ok c \<Longrightarrow> breaker_ok c b \<Longrightarrow> lastStateChg b \<le> now \<Longrightarrow>
     breaker_ok c (RecordSuccess now b) \<and> lastStateChg (RecordSuccess now b) \<le> now"
  by (cases "state b")
    (auto simp: RecordSuccess_def breaker_ok_def enter_def limits_ok_def Let_def count_up [of _ "SuccessLimit c"])

lemma RecordFailure_ok:
  "limits_ok c \<Longrightarrow> breaker_ok c b \<Longrightarrow> lastStateChg b \<le> now \<Longrightarrow>
     breaker_ok c (RecordFailure now b) \<and> lastStateChg (RecordFailure now b) \<le> now"
  by (cases "state b")
    (auto simp: RecordFailure_def breaker_ok_def enter_def limits_ok_def Let_def count_up [of _ "FailureLimit c"])

lemma service_step_inv: "service_inv c w \<Longrightarrow> service_step w w' \<Longrightarrow> service_inv c w'"
  by (erule service_step.cases)
    (auto simp: service_inv_def Allow_def Let_def checkCooldown_ok RecordSuccess_ok RecordFailure_ok)

lemma service_init_inv: "service_init c w \<Longrightarrow> service_inv (with_defaults c) w"
  by (auto simp: service_init_def service_inv_def limits_ok_def breaker_ok_def NewServiceBreaker_def with_defaults_def
      max64_def)

interpretation service: guarded_system "service_init c" service_step "service_inv (with_defaults c)" for c
  by unfold_locales (rule service_init_inv, assumption, rule service_step_inv)

text \<open>
  While the cooldown lasts, every call is refused and nothing changes the breaker, whatever the
  calls that were admitted before report.
\<close>

lemma cooling_frozen:
  assumes "run service_step w w'" and "state (brk w) = StateOpen"
    and "instant w' - lastStateChg (brk w) < Cooldown (cfg (brk w))"
  shows "brk w' = brk w \<and> flying w' \<le> flying w \<and> fst (Allow (instant w') (brk w')) = False"
  using assms
proof (induction rule: run.induct)
  case (run_refl w)
  then show ?case by (simp add: Allow_def checkCooldown_def)
next
  case (run_step w u v)
  have t: "instant u \<le> instant v" using run_step.hyps(2) by cases simp_all
  with run_step have u: "brk u = brk w" "flying u \<le> flying w" by auto
  from run_step.hyps(2) have "brk v = brk w \<and> flying v \<le> flying w"
    by cases
      (use u t run_step.prems in \<open>auto simp: Allow_def checkCooldown_def Let_def RecordSuccess_def RecordFailure_def\<close>)
  with run_step.prems show ?case by (simp add: Allow_def checkCooldown_def)
qed

text \<open>
  What the breaker does not do: it counts the report of any admitted call as if it belonged to
  the present state. A call that was admitted before the breaker opened closes it again with its
  success, or opens it again with its failure, and in the half-open state every call is admitted.
\<close>

lemma late_reports_count:
  "state b = StateHalfOpen \<Longrightarrow> state (RecordFailure now b) = StateOpen \<and>
     (SuccessLimit (cfg b) = 1 \<longrightarrow> successes b = 0 \<longrightarrow> state (RecordSuccess now b) = StateClosed) \<and>
     Allow now b = (True, b)"
  by (simp add: RecordFailure_def RecordSuccess_def Allow_def checkCooldown_def enter_def Let_def count_up [of 0 1] max64_def)

section \<open>The idempotency store\<close>

record StoredResponse =
  Response :: string
  StoredAt :: int

record IdempotencyStore =
  responses :: "string \<rightharpoonup> StoredResponse"
  store_ttl :: int

definition NewIdempotencyStore :: "int \<Rightarrow> IdempotencyStore" where
  "NewIdempotencyStore t = \<lparr>responses = Map.empty, store_ttl = (if t \<le> 0 then 60000000000 else t)\<rparr>"

definition idem_get :: "int \<Rightarrow> string \<Rightarrow> IdempotencyStore \<Rightarrow> string option \<times> IdempotencyStore" where
  "idem_get now k s =
     (case responses s k of
        None \<Rightarrow> (None, s)
      | Some r \<Rightarrow>
          if store_ttl s < now - StoredAt r then (None, s\<lparr>responses := (responses s)(k := None)\<rparr>)
          else (Some (Response r), s))"

definition idem_set :: "int \<Rightarrow> string \<Rightarrow> string \<Rightarrow> IdempotencyStore \<Rightarrow> IdempotencyStore" where
  "idem_set now k v s = s\<lparr>responses := (responses s)(k \<mapsto> \<lparr>Response = v, StoredAt = now\<rparr>)\<rparr>"

text \<open>A response is found again for its time to live, and other keys are left alone.\<close>

lemma idem_get_set:
  "fst (idem_get t k (idem_set now k v s)) = (if t - now \<le> store_ttl s then Some v else None)"
  "k' \<noteq> k \<Longrightarrow> fst (idem_get t k' (idem_set now k v s)) = fst (idem_get t k' s)"
  by (simp_all add: idem_get_def idem_set_def split: option.splits)

text \<open>A lookup changes no later answer, as long as time does not run backwards.\<close>

lemma idem_get_again: "now \<le> t \<Longrightarrow> fst (idem_get t k (snd (idem_get now k' s))) = fst (idem_get t k s)"
  by (auto simp: idem_get_def split: option.splits)

end
