(* ===== verification/WsFrames.thy ===== *)
theory WsFrames
  imports Base64 Sha256
begin

text \<open>
  Lab 35, \<open>internal/ws/ws.go\<close> and the loop of \<open>/ws\<close> in \<open>internal/server/server.go\<close>: the
  frames of a WebSocket connection, read from and written to a stream of bytes that ends at the
  end of the list. \<open>lim\<close> is the length of the longest slice that \<open>make\<close> gives; asked for more
  it panics. The locale \<open>framing\<close> is what a reader promises about what a writer sends.
\<close>

section \<open>Framings\<close>

fun read_many :: "('s \<Rightarrow> ('e, 'm \<times> 's) res) \<Rightarrow> nat \<Rightarrow> 's \<Rightarrow> ('e, 'm list \<times> 's) res" where
  "read_many dec 0 s = Inr ([], s)"
| "read_many dec (Suc n) s =
     res_bind (dec s) (\<lambda>(x, s1). res_bind (read_many dec n s1) (\<lambda>(xs, s2). Inr (x # xs, s2)))"

locale framing =
  fixes enc :: "'m \<Rightarrow> 'a list" and dec :: "'a list \<Rightarrow> ('e, 'm \<times> 'a list) res" and ok :: "'m \<Rightarrow> bool"
  assumes dec_enc: "ok x \<Longrightarrow> dec (enc x @ r) = Inr (x, r)"
    and dec_more: "dec s = Inr (x, r) \<Longrightarrow> dec (s @ t) = Inr (x, r @ t)"
begin

lemma unambiguous: "ok x \<Longrightarrow> ok y \<Longrightarrow> enc x @ r = enc y @ q \<Longrightarrow> x = y \<and> r = q"
  by (metis dec_enc sum.inject(2) prod.inject)

lemma read_many_enc: "\<forall>x \<in> set xs. ok x \<Longrightarrow> read_many dec (length xs) (concat (map enc xs) @ r) = Inr (xs, r)"
  by (induction xs) (auto simp: dec_enc)

text \<open>A reader that gets the start of what was written does not take it for a message.\<close>

lemma no_short_message:
  assumes "ok x" and "k < length (enc x)"
  shows "dec (take k (enc x)) \<noteq> Inr (y, r)"
proof
  assume "dec (take k (enc x)) = Inr (y, r)"
  from dec_more [OF this, of "drop k (enc x)"] dec_enc [OF assms(1), of "[]"]
  have "r @ drop k (enc x) = []" by simp
  with assms(2) show False by simp
qed

end

section \<open>Reading and writing a frame\<close>

datatype frame_error = EOF | UnexpectedEOF | MakeSlicePanic

definition ReadFull :: "nat \<Rightarrow> bytes \<Rightarrow> (frame_error, bytes \<times> bytes) res" where
  "ReadFull n s =
     (if n \<le> length s then Inr (take n s, drop n s)
      else Inl (if s = [] then EOF else UnexpectedEOF))"

definition be_value :: "bytes \<Rightarrow> nat" where
  "be_value = foldl (\<lambda>n b. n * 256 + b) 0"

definition xor_mask :: "bytes \<Rightarrow> bytes \<Rightarrow> bytes" where
  "xor_mask key p = map (\<lambda>i. p ! i XOR key ! (i mod 4)) [0..<length p]"

definition read_length :: "nat \<Rightarrow> bytes \<Rightarrow> (frame_error, nat \<times> bytes) res" where
  "read_length l s =
     (if l = 126 then res_bind (ReadFull 2 s) (\<lambda>(ext, r). Inr (be_value ext, r))
      else if l = 127 then res_bind (ReadFull 8 s) (\<lambda>(ext, r). Inr (be_value ext, r))
      else Inr (l, s))"

definition read_key :: "bool \<Rightarrow> bytes \<Rightarrow> (frame_error, bytes \<times> bytes) res" where
  "read_key masked s = (if masked then ReadFull 4 s else Inr ([0, 0, 0, 0], s))"

definition read_payload :: "nat \<Rightarrow> nat \<Rightarrow> bytes \<Rightarrow> (frame_error, bytes \<times> bytes) res" where
  "read_payload lim len s = (if lim < len then Inl MakeSlicePanic else ReadFull len s)"

definition ReadFrame :: "nat \<Rightarrow> bytes \<Rightarrow> (frame_error, (nat \<times> bytes) \<times> bytes) res" where
  "ReadFrame lim s =
     res_bind (ReadFull 2 s) (\<lambda>(head, s1).
       let opcode = head ! 0 AND 15; masked = (head ! 1 AND 128 \<noteq> 0)
       in res_bind (read_length (head ! 1 AND 127) s1) (\<lambda>(len, s2).
            res_bind (read_key masked s2) (\<lambda>(key, s3).
              res_bind (read_payload lim len s3) (\<lambda>(data, r).
                Inr ((opcode, if masked then xor_mask key data else data), r)))))"

definition maskKey :: bytes where
  "maskKey = [0x12, 0x34, 0x56, 0x78]"

definition WriteFrame :: "nat \<Rightarrow> bytes \<Rightarrow> bool \<Rightarrow> bytes" where
  "WriteFrame opcode p masked =
     (let n = length p; maskBit = (if masked then 128 else 0)
      in [128 OR (opcode AND 15)] @
         (if n \<le> 125 then [maskBit OR n]
          else if n \<le> 65535 then [maskBit OR 126] @ big_endian 2 n
          else [maskBit OR 127] @ big_endian 8 n) @
         (if masked then maskKey @ xor_mask maskKey p else p))"

section \<open>The bits of a head\<close>

lemma and_15: "n AND 15 = n mod (16 :: nat)"
  using take_bit_eq_mask [of 4 n] by (simp add: take_bit_eq_mod mask_eq_exp_minus_1)

lemma and_127: "n AND 127 = n mod (128 :: nat)"
  using take_bit_eq_mask [of 7 n] by (simp add: take_bit_eq_mod mask_eq_exp_minus_1)

lemma high_or: "n < 128 \<Longrightarrow> 128 OR n = 128 + (n :: nat)"
proof -
  assume "n < 128"
  then have "\<not> bit n 7" by (simp add: bit_iff_odd)
  then have "128 AND n = 0" using and_exp_eq_0_iff_not_bit [of n 7] by (simp add: and.commute)
  then show ?thesis by (simp add: disjunctive_add_eq_or)
qed

lemma and_128: "n AND 128 = 0 \<longleftrightarrow> even (n div 128 :: nat)"
  using and_exp_eq_0_iff_not_bit [of n 7] by (simp add: bit_iff_odd)

lemma head_bits:
  fixes l :: nat and m :: bool
  assumes "l < 128"
  defines "h \<equiv> (if m then 128 else 0) OR l"
  shows "h AND 127 = l" and "h AND 128 \<noteq> 0 \<longleftrightarrow> m"
  using assms by (auto simp: h_def high_or and_127 and_128 div_add_self1)

lemma opcode_bits: "(128 OR (op AND 15)) AND 15 = op AND (15 :: nat)"
proof -
  have "op AND 15 < 16" by (simp add: and_15)
  then show ?thesis by (simp add: high_or) (simp add: and_15 mod_add_eq [symmetric])
qed

lemma be_value_big_endian: "n < 256 ^ k \<Longrightarrow> be_value (big_endian k n) = n"
proof -
  have "foldl (\<lambda>n b. n * 256 + b) a (big_endian k n) = a * 256 ^ k + n mod 256 ^ k" for a
  proof (induction k arbitrary: a)
    case (Suc k)
    have "big_endian (Suc k) n = n div 256 ^ k mod 256 # big_endian k n" by (simp add: big_endian_def)
    with Suc show ?case
      by (simp add: algebra_simps mod_mult2_eq [of n "256 ^ k" 256, simplified mult.commute])
  qed (simp add: big_endian_def)
  then show "n < 256 ^ k \<Longrightarrow> be_value (big_endian k n) = n" by (simp add: be_value_def)
qed

lemma length_xor_mask [simp]: "length (xor_mask key p) = length p"
  by (simp add: xor_mask_def)

lemma xor_mask_twice: "xor_mask key (xor_mask key p) = p"
  by (rule nth_equalityI) (simp_all add: xor_mask_def xor.assoc)

lemma ReadFull_append: "length a = n \<Longrightarrow> ReadFull n (a @ r) = Inr (a, r)"
  by (auto simp: ReadFull_def)

lemma ReadFull_more: "ReadFull n s = Inr (a, r) \<Longrightarrow> ReadFull n (s @ t) = Inr (a, r @ t)"
  by (auto simp: ReadFull_def split: if_splits)

section \<open>Frames are a framing\<close>

lemma read_length_small: "l < 126 \<Longrightarrow> read_length l s = Inr (l, s)"
  by (simp add: read_length_def)

lemma read_length_16: "n \<le> 65535 \<Longrightarrow> read_length 126 (big_endian 2 n @ r) = Inr (n, r)"
  by (simp add: read_length_def ReadFull_append length_big_endian be_value_big_endian)

lemma read_length_64: "n < 2 ^ 64 \<Longrightarrow> read_length 127 (big_endian 8 n @ r) = Inr (n, r)"
  by (simp add: read_length_def ReadFull_append length_big_endian be_value_big_endian)

lemma read_length_more: "read_length l s = Inr (n, r) \<Longrightarrow> read_length l (s @ t) = Inr (n, r @ t)"
  by (auto simp: read_length_def res_bind_Inr_iff dest: ReadFull_more [of _ _ _ _ t] split: if_splits)

lemma ReadFrame_head:
  assumes "l < 128"
  shows "ReadFrame lim ([128 OR (op AND 15), (if m then 128 else 0) OR l] @ s) =
     res_bind (read_length l s) (\<lambda>(len, s2).
       res_bind (read_key m s2) (\<lambda>(key, s3).
         res_bind (read_payload lim len s3) (\<lambda>(data, r).
           Inr ((op AND 15, if m then xor_mask key data else data), r))))"
proof -
  let ?h = "[128 OR (op AND 15), (if m then 128 else 0) OR l]"
  have "ReadFull 2 (?h @ s) = Inr (?h, s)" by (rule ReadFull_append) simp
  moreover have "?h ! 0 AND 15 = op AND 15" "?h ! 1 AND 127 = l" "(?h ! 1 AND 128 \<noteq> 0) = m"
    using head_bits [OF assms, of m] opcode_bits [of op] by (simp_all del: if_split)
  ultimately show ?thesis by (simp only: ReadFrame_def res_bind_simps split Let_def)
qed

lemma length_maskKey: "length maskKey = 4"
  by (simp add: maskKey_def)

lemma read_body:
  assumes "length p \<le> lim"
  shows "res_bind (read_key m ((if m then maskKey @ xor_mask maskKey p else p) @ r)) (\<lambda>(key, s3).
         res_bind (read_payload lim (length p) s3) (\<lambda>(data, r).
           Inr ((x, if m then xor_mask key data else data), r))) = Inr ((x, p), r)"
  using assms
  by (cases m) (simp_all add: read_key_def read_payload_def ReadFull_append length_maskKey xor_mask_twice not_less)

lemma read_key_more: "read_key m s = Inr (a, r) \<Longrightarrow> read_key m (s @ t) = Inr (a, r @ t)"
  by (auto simp: read_key_def dest: ReadFull_more split: if_splits)

lemma read_payload_more: "read_payload lim n s = Inr (a, r) \<Longrightarrow> read_payload lim n (s @ t) = Inr (a, r @ t)"
  by (auto simp: read_payload_def dest: ReadFull_more split: if_splits)

lemma WriteFrame_heads:
  assumes "length p < 2 ^ 64"
  obtains l ext where "l < 128"
    and "\<And>r. WriteFrame op p m @ r =
        [128 OR (op AND 15), (if m then 128 else 0) OR l] @ ext @ (if m then maskKey @ xor_mask maskKey p else p) @ r"
    and "\<And>s. read_length l (ext @ s) = Inr (length p, s)"
proof -
  consider "length p \<le> 125" | "125 < length p" "length p \<le> 65535" | "65535 < length p" by linarith
  then show thesis
  proof cases
    case 1
    then show ?thesis by (intro that [of "length p" "[]"]) (simp_all add: WriteFrame_def read_length_small)
  next
    case 2
    then show ?thesis
      by (intro that [of 126 "big_endian 2 (length p)"]) (simp_all add: WriteFrame_def read_length_16)
  next
    case 3
    with assms show ?thesis
      by (intro that [of 127 "big_endian 8 (length p)"]) (simp_all add: WriteFrame_def read_length_64)
  qed
qed

lemma read_written:
  assumes "length p \<le> lim" and "length p < 2 ^ 64"
  shows "ReadFrame lim (WriteFrame op p m @ r) = Inr ((op AND 15, p), r)"
proof -
  from assms(2) obtain l ext where h: "l < 128"
      "\<And>r. WriteFrame op p m @ r =
        [128 OR (op AND 15), (if m then 128 else 0) OR l] @ ext @ (if m then maskKey @ xor_mask maskKey p else p) @ r"
      "\<And>s. read_length l (ext @ s) = Inr (length p, s)"
    by (rule WriteFrame_heads [of p op m]) blast
  show ?thesis
    unfolding h(2) ReadFrame_head [OF h(1)] h(3) res_bind_simps split read_body [OF assms(1)] ..
qed

lemma ReadFrame_Inr:
  assumes "ReadFrame lim s = Inr (x, r)"
  obtains h s1 n s2 key s3 data where "ReadFull 2 s = Inr (h, s1)"
    and "read_length (h ! 1 AND 127) s1 = Inr (n, s2)"
    and "read_key (h ! 1 AND 128 \<noteq> 0) s2 = Inr (key, s3)"
    and "read_payload lim n s3 = Inr (data, r)"
    and "x = (h ! 0 AND 15, if h ! 1 AND 128 \<noteq> 0 then xor_mask key data else data)"
  using assms unfolding ReadFrame_def Let_def res_bind_Inr_iff split_def
  by (metis (no_types, lifting) Inr_inject prod.collapse prod.inject)

lemma ReadFrame_more:
  assumes "ReadFrame lim s = Inr (x, r)"
  shows "ReadFrame lim (s @ t) = Inr (x, r @ t)"
  using assms
proof (rule ReadFrame_Inr)
  fix h s1 n s2 key s3 data
  assume a: "ReadFull 2 s = Inr (h, s1)" "read_length (h ! 1 AND 127) s1 = Inr (n, s2)"
    "read_key (h ! 1 AND 128 \<noteq> 0) s2 = Inr (key, s3)" "read_payload lim n s3 = Inr (data, r)"
    "x = (h ! 0 AND 15, if h ! 1 AND 128 \<noteq> 0 then xor_mask key data else data)"
  show ?thesis
    unfolding ReadFrame_def Let_def a(5)
    by (simp only: ReadFull_more [OF a(1)] read_length_more [OF a(2)] read_key_more [OF a(3)]
      read_payload_more [OF a(4)] res_bind_simps split)
qed

text \<open>A message is an opcode and a payload; the client masks its frames, the server does not.\<close>

definition frame :: "bool \<Rightarrow> nat \<times> bytes \<Rightarrow> bytes" where
  "frame masked = (\<lambda>(op, p). WriteFrame op p masked)"

definition sendable :: "nat \<Rightarrow> nat \<times> bytes \<Rightarrow> bool" where
  "sendable lim = (\<lambda>(op, p). op < 16 \<and> length p \<le> lim \<and> length p < 2 ^ 64)"

lemma read_frame: "sendable lim x \<Longrightarrow> ReadFrame lim (frame m x @ r) = Inr (x, r)"
  by (auto simp: sendable_def frame_def read_written and_15)

interpretation client_frames: framing "frame True" "ReadFrame lim" "sendable lim" for lim
  by unfold_locales (rule read_frame ReadFrame_more, assumption)+

interpretation server_frames: framing "frame False" "ReadFrame lim" "sendable lim" for lim
  by unfold_locales (rule read_frame ReadFrame_more, assumption)+

lemma reading_panics:
  "ReadFull n s \<noteq> Inl MakeSlicePanic" "read_length l s \<noteq> Inl MakeSlicePanic" "read_key m s \<noteq> Inl MakeSlicePanic"
  "read_payload lim n s = Inl MakeSlicePanic \<longleftrightarrow> lim < n"
  by (auto simp: ReadFull_def read_length_def read_key_def read_payload_def res_bind_Inl_iff)

lemma ReadFrame_panic:
  "ReadFrame lim s = Inl MakeSlicePanic \<longleftrightarrow> (\<exists>h s1 n s2 key s3. ReadFull 2 s = Inr (h, s1) \<and>
     read_length (h ! 1 AND 127) s1 = Inr (n, s2) \<and> read_key (h ! 1 AND 128 \<noteq> 0) s2 = Inr (key, s3) \<and> lim < n)"
  by (simp add: ReadFrame_def Let_def res_bind_Inl_iff split_def reading_panics)

lemma ReadFrame_panic_more:
  "ReadFrame lim s = Inl MakeSlicePanic \<Longrightarrow> ReadFrame lim (s @ t) = Inl MakeSlicePanic"
  unfolding ReadFrame_panic
  by (elim exE conjE, intro exI conjI) (erule ReadFull_more read_length_more read_key_more | assumption)+

text \<open>A frame that breaks off, wherever the stream ends, is reported as the end of the stream: the
reader does not return part of it as a message and does not panic.\<close>

lemma broken_frame_refused:
  assumes "length p \<le> lim" and "length p < 2 ^ 64" and "k < length (WriteFrame op p m)"
  shows "ReadFrame lim (take k (WriteFrame op p m)) \<in> {Inl EOF, Inl UnexpectedEOF}"
proof -
  let ?w = "WriteFrame op p m"
  have whole: "ReadFrame lim (take k ?w @ drop k ?w) = Inr ((op AND 15, p), [])"
    using read_written [OF assms(1,2), of op m "[]"] by simp
  show ?thesis
  proof (cases "ReadFrame lim (take k ?w)")
    case (Inl e)
    with ReadFrame_panic_more [of lim "take k ?w" "drop k ?w"] whole show ?thesis by (cases e) auto
  next
    case (Inr b)
    with ReadFrame_more [of lim "take k ?w" "fst b" "snd b" "drop k ?w"] whole assms(3) show ?thesis by simp
  qed
qed

lemma ReadFrame_shorter: "ReadFrame lim s = Inr (x, r) \<Longrightarrow> length r < length s"
  by (erule ReadFrame_Inr)
    (auto simp: read_length_def read_key_def read_payload_def ReadFull_def res_bind_Inr_iff split: if_splits)

section \<open>The loop of the server\<close>

definition OpText :: nat where "OpText = 1"
definition OpBinary :: nat where "OpBinary = 2"
definition OpClose :: nat where "OpClose = 8"
definition OpPing :: nat where "OpPing = 9"
definition OpPong :: nat where "OpPong = 10"

definition reversed :: "bytes \<Rightarrow> bytes" where
  "reversed p = map (\<lambda>i. p ! (length p - 1 - i)) [0..<length p]"

definition answer :: "nat \<times> bytes \<Rightarrow> (nat \<times> bytes) list" where
  "answer = (\<lambda>(op, p).
     if op = OpPing then [(OpPong, p)]
     else if op = OpText then [(OpText, map of_char ''echo: '' @ p)]
     else if op = OpBinary then [(OpBinary, reversed p)]
     else [])"

datatype ending = PeerClosed | Lost frame_error

text \<open>What the handler writes, and why it ends; the writes themselves go through.\<close>

function serve :: "nat \<Rightarrow> bytes \<Rightarrow> bytes \<times> ending" where
  "serve lim s =
     (case ReadFrame lim s of
        Inl e \<Rightarrow> ([], Lost e)
      | Inr (x, r) \<Rightarrow>
          if fst x = OpClose then (frame False (OpClose, []), PeerClosed)
          else (let (out, e) = serve lim r in (concat (map (frame False) (answer x)) @ out, e)))"
  by pat_completeness auto

termination
  by (relation "measure (length \<circ> snd)") (auto simp: ReadFrame_shorter)

declare serve.simps [simp del]

lemma reversed_rev: "reversed p = rev p"
  by (rule nth_equalityI) (simp_all add: reversed_def rev_nth)

lemma serve_frame:
  assumes "sendable lim x"
  shows "serve lim (frame m x @ r) =
     (if fst x = OpClose then (frame False (OpClose, []), PeerClosed)
      else (concat (map (frame False) (answer x)) @ fst (serve lim r), snd (serve lim r)))"
  by (subst serve.simps) (simp add: read_frame [OF assms] split_def Let_def)

lemma serve_frames:
  assumes "\<forall>x \<in> set xs. sendable lim x \<and> fst x \<noteq> OpClose"
  shows "serve lim (concat (map (frame m) xs) @ r) =
     (concat (map (frame False) (concat (map answer xs))) @ fst (serve lim r), snd (serve lim r))"
  using assms by (induction xs) (simp_all add: serve_frame)

lemma answer_sendable: "sendable lim (op, p) \<Longrightarrow> length p + 6 \<le> lim \<Longrightarrow> lim < 2 ^ 64 \<Longrightarrow> y \<in> set (answer (op, p)) \<Longrightarrow> sendable lim y"
  by (auto simp: answer_def sendable_def reversed_rev OpText_def OpBinary_def OpPong_def split: if_splits)



text \<open>Any length that the head of a frame claims is allocated before a byte of the payload is there.\<close>

lemma length_not_limited:
  assumes "lim < 2 ^ 64 - 1"
  shows "ReadFrame lim ([130, 127, 255, 255, 255, 255, 255, 255, 255, 255]) = Inl MakeSlicePanic"
proof -
  have "be_value [255, 255, 255, 255, 255, 255, 255, 255] = 2 ^ 64 - 1" by (simp add: be_value_def)
  with assms show ?thesis
    by (simp add: ReadFrame_def ReadFull_def read_length_def read_key_def read_payload_def Let_def and_127 and_128)
qed

text \<open>
  The bit that says whether a frame ends its message is not read: a part of a fragmented message
  is a message, and the parts after the first have no answer.
\<close>

lemma and_15_high: "b < 128 \<Longrightarrow> (128 OR b) AND 15 = b AND (15 :: nat)"
  by (simp add: high_or and_15) (simp add: mod_add_eq [symmetric])

lemma fin_not_read: "b < 128 \<Longrightarrow> ReadFrame lim ((128 OR b) # s) = ReadFrame lim (b # s)"
  by (cases s) (simp_all add: ReadFrame_def ReadFull_def and_15_high)

lemma continuation_not_answered: "answer (0, p) = []"
  by (simp add: answer_def OpPing_def OpText_def OpBinary_def)

end
