(* ===== verification/WsHandshake.thy ===== *)
theory WsHandshake
  imports WsFrames
begin

unbundle bit_operations_syntax

text \<open>
  Lab 35, \<open>internal/ws/ws.go\<close>: how a WebSocket connection is opened. \<open>Upgrade\<close> is the server's
  side, with \<open>crypto/sha1\<close> (FIPS 180-4) and the padded base 64 of \<open>base64.StdEncoding\<close>, \<open>Dial\<close>
  the client's. A stream comes to \<open>Dial\<close> in the pieces that \<open>Read\<close> returns.
\<close>

section \<open>The accept key\<close>

definition sha1_init :: "word32 list" where
  "sha1_init = [1732584193, 4023233417, 2562383102, 271733878, 3285377520]"

definition sha1_extend :: "word32 list \<Rightarrow> word32 list" where
  "sha1_extend ws =
     (let n = length ws
      in ws @ [word_rotl 1 (ws ! (n - 3) XOR ws ! (n - 8) XOR ws ! (n - 14) XOR ws ! (n - 16))])"

definition sha1_mix :: "nat \<Rightarrow> word32 \<Rightarrow> word32 \<Rightarrow> word32 \<Rightarrow> word32" where
  "sha1_mix t b c d =
     (if t < 20 then ((b AND c) OR (NOT b AND d)) + 1518500249
      else if t < 40 then (b XOR c XOR d) + 1859775393
      else if t < 60 then ((b AND c) OR (b AND d) OR (c AND d)) + 2400959708
      else (b XOR c XOR d) + 3395469782)"

definition sha1_round :: "nat \<times> word32 \<Rightarrow> word32 list \<Rightarrow> word32 list" where
  "sha1_round = (\<lambda>(t, w) hs.
     case hs of
       [a, b, c, d, e] \<Rightarrow> [word_rotl 5 a + sha1_mix t b c d + e + w, a, word_rotl 30 b, c, d]
     | _ \<Rightarrow> hs)"

definition sha1_block :: "word32 list \<Rightarrow> word32 list \<Rightarrow> word32 list" where
  "sha1_block hs ws = map2 (+) hs (fold sha1_round (List.enumerate 0 ((sha1_extend ^^ 64) ws)) hs)"

fun sha1_blocks :: "nat \<Rightarrow> word32 list \<Rightarrow> word32 list \<Rightarrow> word32 list" where
  "sha1_blocks 0 ws hs = hs"
| "sha1_blocks (Suc n) ws hs = sha1_blocks n (drop 16 ws) (sha1_block hs (take 16 ws))"

definition sha1 :: "bytes \<Rightarrow> bytes" where
  "sha1 s =
     (let ws = words32 (sha_pad s)
      in concat (map (\<lambda>w. big_endian 4 (unat w)) (sha1_blocks (length ws div 16) ws sha1_init)))"

definition std_char :: "nat \<Rightarrow> nat" where
  "std_char n = (if n = 62 then 43 else if n = 63 then 47 else b64_char n)"

definition StdEncode :: "bytes \<Rightarrow> bytes" where
  "StdEncode s = map std_char (to_sextets s) @ replicate ((3 - length s mod 3) mod 3) 61"

definition wsGUID :: bytes where
  "wsGUID = map of_char ''258EAFA5-E914-47DA-95CA-C5AB0DC85B11''"

definition accept_key :: "bytes \<Rightarrow> bytes" where
  "accept_key key = StdEncode (sha1 (key @ wsGUID))"

section \<open>The two sides\<close>

text \<open>What \<open>w.(http.Hijacker)\<close> and \<open>Hijack\<close> give, and whether the response can be flushed.\<close>

datatype hijacker = NoHijacker | HijackFails | Hijacks bool

datatype upgrade_result =
  HttpRefusal nat bytes
| HijackError
| FlushError
| Upgraded bytes

definition crlf :: bytes where
  "crlf = [13, 10]"

definition switching :: "bytes \<Rightarrow> bytes" where
  "switching accept =
     map of_char ''HTTP/1.1 101 Switching Protocols'' @ crlf @
     map of_char ''Upgrade: websocket'' @ crlf @
     map of_char ''Connection: Upgrade'' @ crlf @
     map of_char ''Sec-WebSocket-Accept: '' @ accept @ crlf @ crlf"

definition Upgrade :: "bytes \<Rightarrow> bytes \<Rightarrow> hijacker \<Rightarrow> upgrade_result" where
  "Upgrade upgrade key h =
     (if upgrade \<noteq> map of_char ''websocket'' then HttpRefusal 400 (map of_char ''Expected websocket upgrade'')
      else if key = [] then HttpRefusal 400 (map of_char ''Missing Sec-WebSocket-Key'')
      else (case h of
          NoHijacker \<Rightarrow> HttpRefusal 500 (map of_char ''Hijacking unsupported'')
        | HijackFails \<Rightarrow> HijackError
        | Hijacks flushed \<Rightarrow> if flushed then Upgraded (switching (accept_key key)) else FlushError))"

text \<open>
  The headers of the request \<open>Dial\<close> writes. The answer is what the first \<open>Read\<close> returns: at most
  1024 bytes, the rest of the buffer is zero.
\<close>

definition dial_headers :: "(bytes \<times> bytes) list" where
  "dial_headers =
     [(map of_char ''Host'', map of_char ''localhost''), (map of_char ''Upgrade'', map of_char ''websocket''),
      (map of_char ''Connection'', map of_char ''Upgrade''),
      (map of_char ''Sec-WebSocket-Key'', map of_char ''dGhlIHNhbXBsZSBub25jZQ==''),
      (map of_char ''Sec-WebSocket-Version'', map of_char ''13'')]"

definition dial_request :: bytes where
  "dial_request =
     map of_char ''GET /ws HTTP/1.1'' @ crlf @
     concat (map (\<lambda>(k, v). k @ map of_char '': '' @ v @ crlf) dial_headers) @ crlf"

definition Dial :: "bytes \<Rightarrow> bytes \<Rightarrow> (bytes, bytes) res" where
  "Dial chunk later =
     (if take 12 (chunk @ replicate (1024 - length chunk) 0) \<noteq> map of_char ''HTTP/1.1 101''
      then Inl (map of_char ''failed handshake: '' @ chunk)
      else Inr later)"

lemma sha1_block_length: "length hs = 5 \<Longrightarrow> length (sha1_block hs ws) = 5"
proof -
  have "length (sha1_round x hs) = length hs" for x hs
    by (cases x) (auto simp: sha1_round_def split: list.splits)
  then have "length (fold sha1_round xs hs) = length hs" for xs hs
    by (induction xs arbitrary: hs) auto
  then show "length hs = 5 \<Longrightarrow> length (sha1_block hs ws) = 5" by (simp add: sha1_block_def)
qed

lemma sha1_length: "length (sha1 s) = 20"
proof -
  have "length hs = 5 \<Longrightarrow> length (sha1_blocks n ws hs) = 5" for n ws hs
    by (induction n ws hs rule: sha1_blocks.induct) (auto simp: sha1_block_length)
  then show ?thesis by (simp add: sha1_def Let_def big_endian_length sha1_init_def)
qed

text \<open>An accept key is 28 characters, whatever the key.\<close>

lemma accept_key_length: "length (accept_key key) = 28"
  by (simp add: accept_key_def StdEncode_def to_sextets_length sha1_length)

lemma accept_key_plain: "13 \<notin> set (accept_key key)" "10 \<notin> set (accept_key key)"
  by (auto simp: accept_key_def StdEncode_def std_char_def b64_char_plain [symmetric] split: if_splits)

lemma switching_length: "length (switching (accept_key key)) = 129"
  by (simp add: switching_def crlf_def accept_key_length)

lemma dial_switching: "Dial (switching a @ xs) later = Inr later"
  by (simp add: Dial_def switching_def)

text \<open>
  A client that dials and reads the whole response, and no more, in its first \<open>Read\<close> has a
  connection, and the session above on it.
\<close>

lemma handshake:
  assumes "map_of dial_headers (map of_char ''Upgrade'') = Some u"
    and "map_of dial_headers (map of_char ''Sec-WebSocket-Key'') = Some k"
  shows "\<exists>resp. Upgrade u k (Hijacks True) = Upgraded resp \<and> length resp = 129 \<and> Dial resp later = Inr later"
  using assms dial_switching [of "accept_key k" "[]" later]
  by (auto simp: dial_headers_def Upgrade_def switching_length)

text \<open>
  What comes in the same \<open>Read\<close> after the response is lost, and of a response that comes in two
  parts the second is read as frames.
\<close>

lemma dial_loses_frames: "Dial (switching a @ frame False x) [] = Inr [] \<and> ReadFrame lim [] = Inl EOF"
  by (simp add: dial_switching ReadFrame_def ReadFull_def)

lemma dial_keeps_half:
  "Dial (take 15 (switching a)) (drop 15 (switching a)) = Inr (drop 15 (switching a)) \<and>
   drop 15 (switching a) \<noteq> []"
  by (simp add: Dial_def switching_def)

end
