(* ===== verification/AdrLinter.thy ===== *)
theory AdrLinter
  imports GoText "HOL-Library.AList" "HOL-Library.Multiset"
begin

text \<open>
  Lab 17, \<open>internal/adr/models.go\<close> and \<open>linter.go\<close>: the records of architecture decisions and
  \<open>Validate\<close>. Go's map of the records is an association list; the last part of \<open>Validate\<close> runs a
  goroutine per record, and \<open>order\<close> is the order in which they append what they found.
\<close>

record AdrRecord =
  ID :: int
  Title :: bytes
  Status :: bytes
  SupersededBy :: int
  Supersedes :: int
  Content :: bytes

definition StatusSuperseded :: bytes where
  "StatusSuperseded = map of_char ''Superseded''"

definition IsValid :: "bytes \<Rightarrow> bool" where
  "IsValid s \<longleftrightarrow> s \<in> {map of_char ''Proposed'', map of_char ''Accepted'', StatusSuperseded,
     map of_char ''Deprecated'', map of_char ''Rejected''}"

datatype lint_error =
  DuplicateID int
| NonMonotonic int int
| Cycle int
| SelfSupersession int
| MissingReference int
| SupersededByUnknown int int
| NotDeclared int int
| SupersedesUnknown int int
| NotMarked int int

type_synonym record_map = "(int \<times> AdrRecord) list"

section \<open>The checks one after the other\<close>

definition index_record :: "AdrRecord \<Rightarrow> record_map \<times> lint_error list \<Rightarrow> record_map \<times> lint_error list" where
  "index_record r = (\<lambda>(m, errs).
     (AList.update (ID r) r m, if map_of m (ID r) \<noteq> None then errs @ [DuplicateID (ID r)] else errs))"

definition index_records :: "AdrRecord list \<Rightarrow> record_map \<times> lint_error list" where
  "index_records rs = fold index_record rs ([], [])"

fun check_numbering :: "int \<Rightarrow> int list \<Rightarrow> lint_error list" where
  "check_numbering k [] = []"
| "check_numbering k (x # xs) = (if x \<noteq> k then [NonMonotonic k x] else check_numbering (k + 1) xs)"

text \<open>The record that replaces \<open>id\<close>, as the search for cycles sees it.\<close>

definition next_id :: "record_map \<Rightarrow> int \<Rightarrow> int option" where
  "next_id m i =
     (case map_of m i of
        None \<Rightarrow> None
      | Some r \<Rightarrow> if SupersededBy r \<noteq> 0 \<and> SupersededBy r \<noteq> ID r then Some (SupersededBy r) else None)"

lemma next_id_range: "next_id m i = Some n \<Longrightarrow> n \<in> (SupersededBy \<circ> snd) ` set m"
  by (force simp: next_id_def dest: map_of_SomeD split: option.splits if_splits)

text \<open>The states are 0 for unvisited, 1 for visiting and 2 for visited.\<close>

function detectCycle :: "record_map \<Rightarrow> int \<Rightarrow> (int \<Rightarrow> nat) \<times> lint_error list \<Rightarrow> (int \<Rightarrow> nat) \<times> lint_error list" where
  "detectCycle m i (st, errs) =
     (let st1 = st(i := 1);
          (st2, errs2) =
            (case next_id m i of
               None \<Rightarrow> (st1, errs)
             | Some n \<Rightarrow>
                 if st1 n = 1 then (st1, errs @ [Cycle n])
                 else if st1 n = 0 then detectCycle m n (st1, errs)
                 else (st1, errs))
      in (st2(i := 2), errs2))"
  by pat_completeness auto

termination
proof (relation "measure (\<lambda>(m, i, st, errs). card {k \<in> (SupersededBy \<circ> snd) ` set m. st k = 0 \<and> k \<noteq> i})")
  fix m i st errs st1 n
  assume st1: "st1 = st(i := (1 :: nat))" and n: "next_id m i = Some n" and un: "st1 n \<noteq> 1" "st1 n = 0"
  let ?U = "(SupersededBy \<circ> snd) ` set m"
  from st1 un have "n \<noteq> i" "st n = 0" by (auto split: if_splits)
  with next_id_range [OF n] st1 have "{k \<in> ?U. st1 k = 0 \<and> k \<noteq> n} \<subset> {k \<in> ?U. st k = 0 \<and> k \<noteq> i}" by auto
  then show "((m, n, st1, errs), m, i, st, errs)
      \<in> measure (\<lambda>(m, i, st, errs). card {k \<in> (SupersededBy \<circ> snd) ` set m. st k = 0 \<and> k \<noteq> i})"
    by (simp add: psubset_card_mono)
qed simp

declare detectCycle.simps [simp del]

definition search_from :: "record_map \<Rightarrow> AdrRecord \<Rightarrow> (int \<Rightarrow> nat) \<times> lint_error list \<Rightarrow> (int \<Rightarrow> nat) \<times> lint_error list" where
  "search_from m r = (\<lambda>(st, errs). if st (ID r) = 0 then detectCycle m (ID r) (st, errs) else (st, errs))"

definition find_cycles :: "record_map \<Rightarrow> AdrRecord list \<Rightarrow> (int \<Rightarrow> nat) \<times> lint_error list" where
  "find_cycles m rs = fold (search_from m) rs (\<lambda>_. 0, [])"

definition superseded_errors :: "record_map \<Rightarrow> AdrRecord \<Rightarrow> lint_error list" where
  "superseded_errors m r =
     (if Status r = StatusSuperseded then
        (if SupersededBy r = ID r then [SelfSupersession (ID r)]
         else if SupersededBy r = 0 then [MissingReference (ID r)]
         else (case map_of m (SupersededBy r) of
             None \<Rightarrow> [SupersededByUnknown (ID r) (SupersededBy r)]
           | Some new \<Rightarrow> if Supersedes new \<noteq> ID r then [NotDeclared (ID r) (SupersededBy r)] else []))
      else [])"

definition supersedes_errors :: "record_map \<Rightarrow> AdrRecord \<Rightarrow> lint_error list" where
  "supersedes_errors m r =
     (if Supersedes r \<noteq> 0 then
        (if Supersedes r = ID r then [SelfSupersession (ID r)]
         else (case map_of m (Supersedes r) of
             None \<Rightarrow> [SupersedesUnknown (ID r) (Supersedes r)]
           | Some old \<Rightarrow>
               if Status old \<noteq> StatusSuperseded \<or> SupersededBy old \<noteq> ID r then [NotMarked (ID r) (Supersedes r)] else []))
      else [])"

definition link_errors :: "record_map \<Rightarrow> AdrRecord \<Rightarrow> lint_error list" where
  "link_errors m r = superseded_errors m r @ supersedes_errors m r"

definition Validate :: "AdrRecord list \<Rightarrow> AdrRecord list \<Rightarrow> lint_error list" where
  "Validate order rs =
     (let (m, duplicates) = index_records rs
      in duplicates @ check_numbering 1 (sort (map fst m)) @ snd (find_cycles m rs) @ concat (map (link_errors m) order))"

section \<open>The map and the numbers\<close>

definition keyed :: "record_map \<Rightarrow> bool" where
  "keyed m \<longleftrightarrow> distinct (map fst m) \<and> (\<forall>(k, r) \<in> set m. ID r = k)"

lemma index_records_snoc: "index_records (rs @ [r]) = index_record r (index_records rs)"
  by (simp add: index_records_def)

lemma index_records_inv:
  "index_records rs = (m, errs) \<Longrightarrow>
     distinct (map fst m) \<and> map_of m = map_of (rev (map (\<lambda>r. (ID r, r)) rs)) \<and>
     (errs = [] \<longleftrightarrow> distinct (map ID rs))"
proof (induction rs arbitrary: m errs rule: rev_induct)
  case Nil
  then show ?case by (simp add: index_records_def)
next
  case (snoc r rs)
  obtain m1 e1 where 1: "index_records rs = (m1, e1)" by (cases "index_records rs")
  have "dom (map_of m1) = ID ` set rs" using snoc.IH [OF 1] by (force simp: dom_map_of_conv_image_fst)
  then have "map_of m1 (ID r) = None \<longleftrightarrow> ID r \<notin> ID ` set rs" by (auto simp: domIff [symmetric])
  with snoc.IH [OF 1] snoc.prems 1 show ?case
    by (auto simp: index_records_snoc index_record_def distinct_update AList.update_conv')
qed

lemma numbering_ok: "check_numbering k xs = [] \<longleftrightarrow> xs = map (\<lambda>i. k + int i) [0..<length xs]"
proof (induction xs arbitrary: k)
  case (Cons x xs)
  have "map (\<lambda>i. k + int i) [0..<Suc (length xs)] = k # map (\<lambda>i. k + 1 + int i) [0..<length xs]"
    by (simp del: upt_Suc add: map_upt_Suc algebra_simps)
  with Cons show ?case by auto
qed simp

lemma numbering_sorted:
  assumes "distinct xs"
  shows "check_numbering 1 (sort xs) = [] \<longleftrightarrow> set xs = {1..int (length xs)}"
proof -
  let ?ks = "map (\<lambda>i. 1 + int i) [0..<length xs]"
  have ks: "sorted ?ks" "distinct ?ks"
    by (auto simp: sorted_iff_nth_mono distinct_map inj_on_def)
  have set_ks: "set ?ks = {1..int (length xs)}"
  proof (rule set_eqI)
    fix k
    show "k \<in> set ?ks \<longleftrightarrow> k \<in> {1..int (length xs)}"
    proof
      assume "k \<in> {1..int (length xs)}"
      then have "k = 1 + int (nat (k - 1))" "nat (k - 1) < length xs" by auto
      then show "k \<in> set ?ks" by (auto simp: image_iff intro!: bexI [of _ "nat (k - 1)"])
    qed auto
  qed
  have "check_numbering 1 (sort xs) = [] \<longleftrightarrow> sort xs = ?ks" by (simp add: numbering_ok)
  also have "\<dots> \<longleftrightarrow> set xs = set ?ks"
  proof
    assume "set xs = set ?ks"
    with assms ks show "sort xs = ?ks"
      by (intro sorted_distinct_set_unique) (simp_all del: set_map)
  qed (metis set_sort)
  finally show ?thesis by (simp only: set_ks)
qed

section \<open>The search finds the cycles\<close>

definition replaced_by :: "record_map \<Rightarrow> (int \<times> int) set" where
  "replaced_by m = {(i, n). next_id m i = Some n}"

definition searched :: "record_map \<Rightarrow> (int \<Rightarrow> nat) \<Rightarrow> bool" where
  "searched m st \<longleftrightarrow> (\<forall>i. st i = 2 \<longrightarrow> (i, i) \<notin> (replaced_by m)\<^sup>+ \<and> (\<forall>n. next_id m i = Some n \<longrightarrow> st n = 2))"

lemma replaced_by_unique: "(i, n) \<in> replaced_by m \<Longrightarrow> (i, k) \<in> replaced_by m \<Longrightarrow> n = k"
  by (simp add: replaced_by_def)

lemma searched_closed:
  assumes "(i, k) \<in> (replaced_by m)\<^sup>+" and "searched m st" and "st i = 2"
  shows "st k = 2"
  using assms by (induction rule: trancl_induct) (auto simp: searched_def replaced_by_def)

text \<open>One call of the search, by what it finds: no unvisited record, a record on the way here, or a new one.\<close>

lemma detectCycle_induct [consumes 1, case_names stop cycle new]:
  assumes "detectCycle m i (st, errs) = (st', errs')"
    and "\<And>i st errs. (\<And>n. next_id m i = Some n \<Longrightarrow> n \<noteq> i \<and> st n \<noteq> 0 \<and> st n \<noteq> 1) \<Longrightarrow> P i st errs (st(i := 2)) errs"
    and "\<And>i st errs n. next_id m i = Some n \<Longrightarrow> (st(i := 1)) n = 1 \<Longrightarrow> P i st errs (st(i := 2)) (errs @ [Cycle n])"
    and "\<And>i st errs n st2 errs2. next_id m i = Some n \<Longrightarrow> n \<noteq> i \<Longrightarrow> st n = 0 \<Longrightarrow>
           detectCycle m n (st(i := 1), errs) = (st2, errs2) \<Longrightarrow> P n (st(i := 1)) errs st2 errs2 \<Longrightarrow> P i st errs (st2(i := 2)) errs2"
  shows "P i st errs st' errs'"
  using assms
proof (induction m i "(st, errs)" arbitrary: st errs st' errs' rule: detectCycle.induct)
  case (1 m i st errs)
  note stop = 1(3) and cycle = 1(4) and new = 1(5)
  show ?case
  proof (cases "next_id m i")
    case None
    with 1(2) stop [of i st errs] show ?thesis by (simp add: detectCycle.simps)
  next
    case (Some n)
    consider "(st(i := 1)) n = 1" | "(st(i := 1)) n = 0" | "(st(i := 1)) n \<noteq> 0" "(st(i := 1)) n \<noteq> 1" by blast
    then show ?thesis
    proof cases
      case c: 1
      with 1(2) Some cycle [of i n st errs] show ?thesis by (auto simp: detectCycle.simps [of m i])
    next
      case c: 2
      then have n: "n \<noteq> i" "st n = 0" by (auto split: if_splits)
      obtain st2 e2 where rec: "detectCycle m n (st(i := 1), errs) = (st2, e2)" by fastforce
      from 1(2) Some c rec have eqs: "st' = st2(i := 2)" "errs' = e2" by (simp_all add: detectCycle.simps [of m i])
      from c have "P n (st(i := 1)) errs st2 e2"
        by (intro 1(1) [OF refl Some _ _ rec]) (use stop cycle new in \<open>simp_all\<close>)
      with new [OF Some n rec] show ?thesis by (simp add: eqs)
    next
      case c: 3
      with 1(2) Some stop [of i st errs] show ?thesis
        by (auto simp: detectCycle.simps [of m i] split: if_splits)
    qed
  qed
qed

lemma detectCycle_states:
  assumes "detectCycle m i (st, errs) = (st', errs')"
  shows "st' i = 2 \<and> (\<forall>k. k \<noteq> i \<longrightarrow> (if st k = 0 then st' k = 0 \<or> st' k = 2 else st' k = st k))"
  using assms by (induction rule: detectCycle_induct) (auto split: if_splits)

lemma next_id_other: "keyed m \<Longrightarrow> next_id m i = Some n \<Longrightarrow> n \<noteq> i"
  by (force simp: keyed_def next_id_def dest: map_of_SomeD split: option.splits if_splits)

lemma detectCycle_sound:
  assumes "detectCycle m i (st, errs) = (st', errs')" and "keyed m"
    and "\<And>g. st g = 1 \<Longrightarrow> (g, i) \<in> (replaced_by m)\<^sup>+"
  shows "\<exists>e. errs' = errs @ e \<and> (\<forall>x \<in> set e. \<exists>n. x = Cycle n \<and> (n, n) \<in> (replaced_by m)\<^sup>+)"
  using assms
proof (induction rule: detectCycle_induct)
  case (cycle i st errs n)
  then have "n \<noteq> i" by (simp add: next_id_other)
  with cycle have "(n, i) \<in> (replaced_by m)\<^sup>+" by auto
  moreover from cycle have "(i, n) \<in> replaced_by m" by (simp add: replaced_by_def)
  ultimately have "(n, n) \<in> (replaced_by m)\<^sup>+" by (rule trancl_into_trancl)
  then show ?case by simp
next
  case (new i st errs n st2 errs2)
  have "(i, n) \<in> replaced_by m" using new by (simp add: replaced_by_def)
  with new have "(st(i := 1)) g = 1 \<Longrightarrow> (g, n) \<in> (replaced_by m)\<^sup>+" for g
    by (auto split: if_splits intro: trancl_into_trancl)
  with new show ?case by blast
qed simp

lemma searched_add:
  assumes "searched m st" and "st i \<noteq> 2" and "\<And>n. next_id m i = Some n \<Longrightarrow> n \<noteq> i \<and> st n = 2"
  shows "searched m (st(i := 2))"
proof -
  have "(i, i) \<notin> (replaced_by m)\<^sup>+"
  proof
    assume "(i, i) \<in> (replaced_by m)\<^sup>+"
    then obtain n where "next_id m i = Some n" and "(n, i) \<in> (replaced_by m)\<^sup>*"
      by (auto simp: replaced_by_def dest: tranclD)
    with assms(3) [of n] searched_closed [of n i m st] assms(1,2) show False by (auto simp: rtrancl_eq_or_trancl)
  qed
  with assms show ?thesis by (auto simp: searched_def)
qed

lemma detectCycle_complete:
  assumes "detectCycle m i (st, errs) = (st', errs')" and "searched m st" and "st i \<noteq> 2"
    and "\<And>k. st k \<le> 2" and "errs' = errs"
  shows "searched m st'"
  using assms
proof (induction rule: detectCycle_induct)
  case (stop i st errs)
  show ?case
  proof (rule searched_add)
    fix n
    assume "next_id m i = Some n"
    with stop.hyps [of n] stop.prems(3) [of n] show "n \<noteq> i \<and> st n = 2" by linarith
  qed (use stop in auto)
next
  case (new i st errs n st2 errs2)
  have "searched m (st(i := 1))" using new.prems(1,2) by (auto simp: searched_def)
  moreover have "(st(i := 1)) n \<noteq> 2" "\<And>k. (st(i := 1)) k \<le> 2" using new.hyps(2,3) new.prems(3) by auto
  ultimately have "searched m st2" using new.prems(4) by (rule new.IH)
  moreover have "st2 i = 1" and "st2 n = 2"
    using detectCycle_states [OF new.hyps(4)] new.hyps(2) by (auto split: if_splits)
  ultimately show ?case using new.hyps(1,2) by (intro searched_add) auto
qed simp

definition real_cycles :: "record_map \<Rightarrow> lint_error list \<Rightarrow> bool" where
  "real_cycles m e \<longleftrightarrow> (\<forall>x \<in> set e. \<exists>n. x = Cycle n \<and> (n, n) \<in> (replaced_by m)\<^sup>+)"

definition between_calls :: "(int \<Rightarrow> nat) \<Rightarrow> bool" where
  "between_calls st \<longleftrightarrow> (\<forall>k. st k = 0 \<or> st k = 2)"

lemma search_from_step:
  assumes "search_from m r (st, errs) = (st', errs')" and "keyed m" and "between_calls st"
  shows "between_calls st'" and "st' (ID r) = 2" and "st k = 2 \<Longrightarrow> st' k = 2"
    and "\<exists>e. errs' = errs @ e \<and> real_cycles m e \<and> (e = [] \<and> searched m st \<longrightarrow> searched m st')"
proof -
  have "between_calls st' \<and> st' (ID r) = 2 \<and> (st k = 2 \<longrightarrow> st' k = 2) \<and>
    (\<exists>e. errs' = errs @ e \<and> real_cycles m e \<and> (e = [] \<and> searched m st \<longrightarrow> searched m st'))"
  proof (cases "st (ID r) = 0")
    case True
    with assms(1) have d: "detectCycle m (ID r) (st, errs) = (st', errs')" by (simp add: search_from_def)
    have no_grey: "st g \<noteq> 1" "st g \<le> 2" for g
      using assms(3) [unfolded between_calls_def, rule_format, of g] by auto
    obtain e where e: "errs' = errs @ e" "real_cycles m e"
      using detectCycle_sound [OF d assms(2)] no_grey(1) by (auto simp: real_cycles_def)
    have "searched m st'" if "e = []" "searched m st"
      using detectCycle_complete [OF d that(2)] no_grey(2) True that(1) e(1) by simp
    with e detectCycle_states [OF d] assms(3) True show ?thesis
      unfolding between_calls_def by (metis (no_types, lifting))
  next
    case False
    with assms(3) have "st (ID r) = 2" by (metis between_calls_def)
    with assms(1,3) show ?thesis by (auto simp: search_from_def real_cycles_def)
  qed
  then show "between_calls st'" and "st' (ID r) = 2" and "st k = 2 \<Longrightarrow> st' k = 2"
    and "\<exists>e. errs' = errs @ e \<and> real_cycles m e \<and> (e = [] \<and> searched m st \<longrightarrow> searched m st')"
    by blast+
qed

lemma search_fold:
  assumes "fold (search_from m) rs (st, errs) = (st', errs')" and "keyed m" and "between_calls st"
  shows "(\<forall>k. st k = 2 \<longrightarrow> st' k = 2) \<and> (\<forall>r \<in> set rs. st' (ID r) = 2) \<and>
    (\<exists>e. errs' = errs @ e \<and> real_cycles m e \<and> (e = [] \<and> searched m st \<longrightarrow> searched m st'))"
  using assms
proof (induction rs arbitrary: st errs)
  case Nil
  then show ?case by (simp add: real_cycles_def)
next
  case (Cons r rs)
  obtain st1 e1 where 1: "search_from m r (st, errs) = (st1, e1)" by fastforce
  note step = search_from_step [OF 1 Cons.prems(2,3)]
  from Cons.prems(1) 1 have "fold (search_from m) rs (st1, e1) = (st', errs')" by simp
  note IH = Cons.IH [OF this Cons.prems(2) step(1)]
  from step(4) obtain e where e: "e1 = errs @ e" "real_cycles m e" "e = [] \<and> searched m st \<longrightarrow> searched m st1" by blast
  from IH obtain f where f: "errs' = e1 @ f" "real_cycles m f" "f = [] \<and> searched m st1 \<longrightarrow> searched m st'" by blast
  have "errs' = errs @ (e @ f)" "real_cycles m (e @ f)" "e @ f = [] \<and> searched m st \<longrightarrow> searched m st'"
    using e f by (auto simp: real_cycles_def)
  with IH step(2,3) show ?case by (metis set_ConsD)
qed

lemma find_cycles_iff:
  assumes "keyed m" and "fst ` set m = ID ` set rs"
  shows "snd (find_cycles m rs) = [] \<longleftrightarrow> acyclic (replaced_by m)"
proof -
  obtain st e where f: "fold (search_from m) rs (\<lambda>_. 0, []) = (st, e)" by fastforce
  note found = search_fold [OF f assms(1)]
  have e: "real_cycles m e" "e = [] \<longrightarrow> searched m st" "\<forall>r \<in> set rs. st (ID r) = 2"
    using found by (auto simp: between_calls_def searched_def)
  show ?thesis
  proof
    assume "snd (find_cycles m rs) = []"
    with f e(2) have "searched m st" by (simp add: find_cycles_def)
    moreover have "st i = 2" if "(i, n) \<in> replaced_by m" for i n
    proof -
      from that have "i \<in> fst ` set m"
        by (auto simp: replaced_by_def next_id_def dest!: map_of_SomeD split: option.splits intro: image_eqI [rotated])
      with assms(2) e(3) show ?thesis by auto
    qed
    ultimately show "acyclic (replaced_by m)"
      unfolding acyclic_def searched_def by (meson tranclD)
  next
    assume "acyclic (replaced_by m)"
    with e(1) f show "snd (find_cycles m rs) = []"
      by (cases e) (auto simp: find_cycles_def real_cycles_def acyclic_def)
  qed
qed

section \<open>What a collection without errors is\<close>

text \<open>The links of a record whose number is not 0 and not its own, as the records state them.\<close>

definition supersession :: "AdrRecord list \<Rightarrow> (int \<times> int) set" where
  "supersession rs = {(ID r, SupersededBy r) |r. r \<in> set rs \<and> SupersededBy r \<noteq> 0 \<and> SupersededBy r \<noteq> ID r}"

definition replaced_well :: "AdrRecord list \<Rightarrow> AdrRecord \<Rightarrow> bool" where
  "replaced_well rs r \<longleftrightarrow> (Status r = StatusSuperseded \<longrightarrow>
     (\<exists>new \<in> set rs. ID new = SupersededBy r \<and> ID new \<noteq> ID r \<and> Supersedes new = ID r))"

definition replaces_well :: "AdrRecord list \<Rightarrow> AdrRecord \<Rightarrow> bool" where
  "replaces_well rs r \<longleftrightarrow> (Supersedes r \<noteq> 0 \<longrightarrow>
     (\<exists>old \<in> set rs. ID old = Supersedes r \<and> ID old \<noteq> ID r \<and> Status old = StatusSuperseded \<and> SupersededBy old = ID r))"

definition well_kept :: "AdrRecord list \<Rightarrow> bool" where
  "well_kept rs \<longleftrightarrow> distinct (map ID rs) \<and> ID ` set rs = {1..int (length rs)} \<and>
     (\<forall>r \<in> set rs. replaced_well rs r \<and> replaces_well rs r) \<and> acyclic (supersession rs)"

definition indexes :: "record_map \<Rightarrow> AdrRecord list \<Rightarrow> bool" where
  "indexes m rs \<longleftrightarrow> (\<forall>i r. map_of m i = Some r \<longleftrightarrow> r \<in> set rs \<and> ID r = i)"

lemma indexes_bex: "indexes m rs \<Longrightarrow> (\<exists>x \<in> set rs. ID x = i \<and> P x) \<longleftrightarrow> (\<exists>x. map_of m i = Some x \<and> P x)"
  unfolding indexes_def by blast

lemma indexes_ID: "indexes m rs \<Longrightarrow> map_of m i = Some r \<Longrightarrow> ID r = i \<and> i \<in> ID ` set rs"
  unfolding indexes_def by (metis image_eqI)

lemma index_distinct:
  assumes "distinct (map ID rs)" and "index_records rs = (m, errs)"
  shows "indexes m rs" and "keyed m" and "fst ` set m = ID ` set rs" and "length m = length rs"
proof -
  note inv = index_records_inv [OF assms(2)]
  have "distinct (map fst (rev (map (\<lambda>r. (ID r, r)) rs)))" using assms(1) by (simp add: rev_map [symmetric] comp_def)
  then have look: "map_of m i = Some r \<longleftrightarrow> r \<in> set rs \<and> ID r = i" for i r
    using inv by (auto simp: map_of_eq_Some_iff)
  then show "indexes m rs" by (simp add: indexes_def)
  have "ID r = k" if "(k, r) \<in> set m" for k r
    using map_of_is_SomeI [OF _ that] inv look by blast
  with inv show "keyed m" by (auto simp: keyed_def)
  have "fst ` set m = dom (map_of m)" by (simp add: dom_map_of_conv_image_fst)
  also have "\<dots> = ID ` set rs" unfolding dom_def by (auto simp: look)
  finally show dom: "fst ` set m = ID ` set rs" .
  show "length m = length rs"
    using dom inv assms(1) distinct_card [of "map fst m"] distinct_card [of "map ID rs"] by simp
qed

lemma superseded_errors_iff:
  assumes "indexes m rs" and "0 \<notin> ID ` set rs"
  shows "superseded_errors m r = [] \<longleftrightarrow> replaced_well rs r"
  unfolding replaced_well_def indexes_bex [OF assms(1)]
  using indexes_ID [OF assms(1)] assms(2)
  by (cases "map_of m (SupersededBy r)") (auto simp: superseded_errors_def)

lemma supersedes_errors_iff:
  assumes "indexes m rs"
  shows "supersedes_errors m r = [] \<longleftrightarrow> replaces_well rs r"
  unfolding replaces_well_def indexes_bex [OF assms]
  using indexes_ID [OF assms] by (cases "map_of m (Supersedes r)") (auto simp: supersedes_errors_def)

lemma replaced_by_supersession:
  assumes "indexes m rs"
  shows "replaced_by m = supersession rs"
proof (rule set_eqI)
  fix x
  have "x \<in> supersession rs \<longleftrightarrow> (\<exists>r \<in> set rs. ID r = fst x \<and>
    snd x = SupersededBy r \<and> SupersededBy r \<noteq> 0 \<and> SupersededBy r \<noteq> ID r)"
    unfolding supersession_def by (cases x) auto
  also have "\<dots> \<longleftrightarrow> x \<in> replaced_by m"
    unfolding indexes_bex [OF assms] replaced_by_def next_id_def
    by (cases x) (auto split: option.splits)
  finally show "x \<in> replaced_by m \<longleftrightarrow> x \<in> supersession rs" ..
qed


definition demo_records :: "AdrRecord list" where
  "demo_records =
     [\<lparr>ID = 1, Title = [], Status = StatusSuperseded, SupersededBy = 2, Supersedes = 0, Content = []\<rparr>,
      \<lparr>ID = 2, Title = [], Status = map of_char ''Accepted'', SupersededBy = 0, Supersedes = 1, Content = []\<rparr>]"


text \<open>It does accept the records of the demonstration.\<close>

lemma demo_records_accepted: "Validate (rev demo_records) demo_records = []"
  by (simp add: Validate_def index_records_def index_record_def demo_records_def find_cycles_def search_from_def
      detectCycle.simps next_id_def link_errors_def superseded_errors_def supersedes_errors_def StatusSuperseded_def)

text \<open>
  The link of a record that does not have the status \<open>Superseded\<close> is not looked up: an accepted
  record may name a replacement that there is not.
\<close>

lemma accepted_link_unchecked:
  assumes "s \<noteq> StatusSuperseded"
    and "r = \<lparr>ID = 1, Title = t, Status = s, SupersededBy = 99, Supersedes = 0, Content = c\<rparr>"
  shows "Validate [r] [r] = []"
  using assms(1)
  by (simp add: assms(2) Validate_def index_records_def index_record_def find_cycles_def search_from_def
      detectCycle.simps next_id_def link_errors_def superseded_errors_def supersedes_errors_def)

end
