(* ===== verification/Chaos.thy ===== *)
theory Chaos
  imports Systems GoText
begin

text \<open>
  Lab 34, \<open>internal\<close>: the fault injector (\<open>fault/injector.go\<close>), the monitor of the steady state
  (\<open>monitor/monitor.go\<close>), the experiment that joins them (\<open>experiment/runner.go\<close>) and the breaker
  of the client (\<open>circuitbreaker/circuitbreaker.go\<close>). Times are nanoseconds. The comparison of the
  error rate with the threshold is one of \<open>float64\<close> and an argument, \<open>rate_ok failed total\<close>.
\<close>

section \<open>The injector\<close>

record Injector =
  enabled :: bool
  latency :: int
  forceError :: bool

definition NewInjector :: Injector where
  "NewInjector = \<lparr>enabled = False, latency = 0, forceError = False\<rparr>"

definition SetFault :: "int \<Rightarrow> bool \<Rightarrow> Injector \<Rightarrow> Injector" where
  "SetFault d e i = i\<lparr>enabled := True, latency := d, forceError := e\<rparr>"

definition ClearFault :: "Injector \<Rightarrow> Injector" where
  "ClearFault i = i\<lparr>enabled := False, latency := 0, forceError := False\<rparr>"

datatype call_error = InjectedFault | ContextDone

text \<open>
  \<open>Execute\<close> copies the fault under the lock and then follows the copy; \<open>waits\<close> says whether the
  latency passes before the context is done.
\<close>

definition ExecuteCopy :: "Injector \<Rightarrow> bool \<Rightarrow> call_error option" where
  "ExecuteCopy i waits =
     (if \<not> enabled i then None
      else if 0 < latency i \<and> \<not> waits then Some ContextDone
      else if forceError i then Some InjectedFault
      else None)"

section \<open>The monitor\<close>

text \<open>
  \<open>RecordFailure\<close> adds to two counters, one after the other, and \<open>Metrics\<close> loads them one after the
  other. \<open>halfway\<close> counts the failures whose second addition is to come, \<open>loaded\<close> holds what the
  readers have loaded of the total, \<open>reported\<close> the pairs they got.
\<close>

record Monitor =
  totalRequests :: nat
  failedRequests :: nat
  halfway :: nat
  loaded :: "nat list"
  reported :: "(nat \<times> nat) list"

definition NewMonitor :: Monitor where
  "NewMonitor = \<lparr>totalRequests = 0, failedRequests = 0, halfway = 0, loaded = [], reported = []\<rparr>"

inductive monitor_step :: "Monitor \<Rightarrow> Monitor \<Rightarrow> bool" where
  success: "monitor_step m (m\<lparr>totalRequests := totalRequests m + 1\<rparr>)"
| failure_total: "monitor_step m (m\<lparr>totalRequests := totalRequests m + 1, halfway := halfway m + 1\<rparr>)"
| failure_failed: "0 < halfway m \<Longrightarrow>
    monitor_step m (m\<lparr>failedRequests := failedRequests m + 1, halfway := halfway m - 1\<rparr>)"
| load_total: "monitor_step m (m\<lparr>loaded := totalRequests m # loaded m\<rparr>)"
| load_failed: "t \<in> set (loaded m) \<Longrightarrow>
    monitor_step m (m\<lparr>loaded := remove1 t (loaded m), reported := (t, failedRequests m) # reported m\<rparr>)"

text \<open>\<open>SuccessRequests\<close> of a pair: a difference of \<open>uint64\<close>.\<close>

definition SuccessRequests :: "nat \<times> nat \<Rightarrow> int" where
  "SuccessRequests = (\<lambda>(total, failed). (int total - int failed) mod 2 ^ 64)"

definition IsHealthy :: "(nat \<Rightarrow> nat \<Rightarrow> bool) \<Rightarrow> nat \<Rightarrow> nat \<Rightarrow> nat \<Rightarrow> bool" where
  "IsHealthy rate_ok sample tot failed \<longleftrightarrow> sample < 5 \<or> (if tot = 0 then rate_ok 0 1 else rate_ok failed tot)"

definition counts :: "Monitor \<Rightarrow> bool" where
  "counts m \<longleftrightarrow> failedRequests m + halfway m \<le> totalRequests m \<and>
     (\<forall>t \<in> set (loaded m). t \<le> totalRequests m) \<and>
     (\<forall>(t, f) \<in> set (reported m). t \<le> totalRequests m \<and> f \<le> failedRequests m)"

lemma counts_init: "m = NewMonitor \<Longrightarrow> counts m"
  by (simp add: counts_def NewMonitor_def)

lemma counts_step: "monitor_step m n \<Longrightarrow> counts m \<Longrightarrow> counts n"
  by (induction rule: monitor_step.induct) (auto simp: counts_def dest: notin_set_remove1)

interpretation counting: guarded_system "\<lambda>m. m = NewMonitor" monitor_step counts
  by unfold_locales (blast intro: counts_init counts_step)+

text \<open>The counters themselves are never wrong.\<close>

lemma failed_within_total:
  "reachable (\<lambda>m. m = NewMonitor) monitor_step m \<Longrightarrow> failedRequests m \<le> totalRequests m"
  using counting.reachable_inv [of m] by (simp add: counts_def)

text \<open>
  A report may be: a reader that loads the total first and the failures after a whole
  \<open>RecordFailure\<close> has none of one request and one failure, and $2^{64} - 1$ successes.
\<close>

lemma metrics_wrap:
  "\<exists>m. reachable (\<lambda>m. m = NewMonitor) monitor_step m \<and> (0, 1) \<in> set (reported m) \<and>
     SuccessRequests (0, 1) = 2 ^ 64 - 1"
proof (intro exI conjI)
  let ?r = "reachable (\<lambda>m. m = NewMonitor) monitor_step"
  have "?r NewMonitor" by (rule reachable.start) simp
  from reachable.move [OF this monitor_step.load_total]
  have "?r \<lparr>totalRequests = 0, failedRequests = 0, halfway = 0, loaded = [0], reported = []\<rparr>"
    by (simp add: NewMonitor_def)
  from reachable.move [OF this monitor_step.failure_total]
  have "?r \<lparr>totalRequests = 1, failedRequests = 0, halfway = 1, loaded = [0], reported = []\<rparr>" by simp
  from reachable.move [OF this monitor_step.failure_failed]
  have "?r \<lparr>totalRequests = 1, failedRequests = 1, halfway = 0, loaded = [0], reported = []\<rparr>" by simp
  from reachable.move [OF this monitor_step.load_failed [of 0]]
  show "?r \<lparr>totalRequests = 1, failedRequests = 1, halfway = 0, loaded = [], reported = [(0, 1)]\<rparr>" by simp
qed (simp_all add: SuccessRequests_def)

section \<open>The experiment\<close>

datatype ExperimentState = StatePending | StateRunning | StateAborted | StateCompleted

record ExperimentConfig =
  Latency :: int
  ForceError :: bool

text \<open>
  What the loop of \<open>Run\<close> selects; a tick carries what the monitor loads for it. \<open>Reason\<close> is a
  breach of the steady state, whose text has the rate.
\<close>

datatype run_event = CtxDone | Timeout | Tick nat nat nat

datatype abort_reason = NoReason | ContextCanceled | SteadyStateBreached

fun run_select :: "(nat \<Rightarrow> nat \<Rightarrow> bool) \<Rightarrow> run_event \<Rightarrow> (ExperimentState \<times> abort_reason) option" where
  "run_select ok CtxDone = Some (StateAborted, ContextCanceled)"
| "run_select ok Timeout = Some (StateCompleted, NoReason)"
| "run_select ok (Tick n t f) = (if \<not> IsHealthy ok n t f then Some (StateAborted, SteadyStateBreached) else None)"

text \<open>How far \<open>Run\<close> is: \<open>terminate\<close> clears the injector and then sets the state.\<close>

datatype run_phase = NotRun | Marked | Looping | Clearing ExperimentState abort_reason | Returned

text \<open>A call of the service that is under way: the fault it has copied, and whether it began after the end.\<close>

record service_call =
  copied :: Injector
  late :: bool

record Experiment =
  config :: ExperimentConfig
  injector :: Injector
  state :: ExperimentState
  abortReason :: abort_reason
  phase :: run_phase
  calls :: "service_call list"

definition NewExperiment :: "ExperimentConfig \<Rightarrow> Experiment" where
  "NewExperiment cfg =
     \<lparr>config = cfg, injector = NewInjector, state = StatePending, abortReason = NoReason, phase = NotRun, calls = []\<rparr>"

definition ended :: "Experiment \<Rightarrow> bool" where
  "ended e \<longleftrightarrow> state e = StateAborted \<or> state e = StateCompleted"

inductive chaos_step :: "(nat \<Rightarrow> nat \<Rightarrow> bool) \<Rightarrow> Experiment \<Rightarrow> Experiment \<Rightarrow> bool"
  for ok :: "nat \<Rightarrow> nat \<Rightarrow> bool" where
  mark: "phase e = NotRun \<Longrightarrow> chaos_step ok e (e\<lparr>state := StateRunning, phase := Marked\<rparr>)"
| inject: "phase e = Marked \<Longrightarrow>
    chaos_step ok e (e\<lparr>injector := SetFault (Latency (config e)) (ForceError (config e)) (injector e), phase := Looping\<rparr>)"
| clear_fault: "phase e = Looping \<Longrightarrow> run_select ok ev = Some (s, why) \<Longrightarrow>
    chaos_step ok e (e\<lparr>injector := ClearFault (injector e), phase := Clearing s why\<rparr>)"
| finish: "phase e = Clearing s why \<Longrightarrow>
    chaos_step ok e (e\<lparr>state := s, abortReason := why, phase := Returned\<rparr>)"
| begin_call: "chaos_step ok e (e\<lparr>calls := \<lparr>copied = injector e, late = ended e\<rparr> # calls e\<rparr>)"
| end_call: "c \<in> set (calls e) \<Longrightarrow> chaos_step ok e (e\<lparr>calls := remove1 c (calls e)\<rparr>)"

text \<open>The fault is there while \<open>Run\<close> loops, and at no other time; no late call has copied it.\<close>

definition contained :: "(nat \<Rightarrow> nat \<Rightarrow> bool) \<Rightarrow> Experiment \<Rightarrow> bool" where
  "contained ok e \<longleftrightarrow> (enabled (injector e) \<longleftrightarrow> phase e = Looping) \<and>
     (\<forall>c \<in> set (calls e). late c \<longrightarrow> \<not> enabled (copied c)) \<and>
     (case phase e of
        NotRun \<Rightarrow> state e = StatePending
      | Marked \<Rightarrow> state e = StateRunning
      | Looping \<Rightarrow> state e = StateRunning
      | Clearing s why \<Rightarrow> state e = StateRunning \<and> (\<exists>ev. run_select ok ev = Some (s, why))
      | Returned \<Rightarrow> \<exists>ev. run_select ok ev = Some (state e, abortReason e))"

lemma run_select_ends: "run_select ok ev = Some (s, why) \<Longrightarrow> s = StateAborted \<or> s = StateCompleted"
  by (cases ev) (auto split: if_splits)

lemma contained_ended: "contained ok e \<Longrightarrow> ended e \<longleftrightarrow> phase e = Returned"
  by (cases "phase e") (auto simp: contained_def ended_def dest: run_select_ends)

lemma contained_init: "e = NewExperiment cfg \<Longrightarrow> contained ok e"
  by (simp add: contained_def NewExperiment_def NewInjector_def)

lemma contained_step:
  assumes "chaos_step ok e d" and "contained ok e"
  shows "contained ok d"
  using assms
proof cases
  case begin_call
  have "late c \<longrightarrow> \<not> enabled (copied c)" if "c = \<lparr>copied = injector e, late = ended e\<rparr>" for c
    using that contained_ended [OF assms(2)] assms(2) by (auto simp: contained_def)
  with begin_call assms(2) show ?thesis by (auto simp: contained_def cong: run_phase.case_cong)
next
  case (end_call c)
  with assms(2) show ?thesis
    by (auto simp: contained_def dest: notin_set_remove1 cong: run_phase.case_cong)
qed (auto simp: contained_def SetFault_def ClearFault_def)

interpretation chaos: guarded_system "\<lambda>e. e = NewExperiment cfg" "chaos_step ok" "contained ok" for cfg ok
  by unfold_locales (blast intro: contained_init contained_step)+

lemma run_select_reason:
  "run_select ok ev = Some (s, SteadyStateBreached) \<Longrightarrow> \<exists>n t f. ev = Tick n t f \<and> \<not> IsHealthy ok n t f"
  by (cases ev) (auto split: if_splits)


definition error_fault :: ExperimentConfig where
  "error_fault = \<lparr>Latency = 0, ForceError = True\<rparr>"

lemma experiment_over:
  "\<exists>e. reachable (\<lambda>e. e = NewExperiment error_fault) (chaos_step ok) e \<and> ended e \<and> calls e \<noteq> []"
proof -
  let ?r = "reachable (\<lambda>e. e = NewExperiment error_fault) (chaos_step ok)"
  have "?r (NewExperiment error_fault)" by (rule reachable.start) simp
  from reachable.move [OF this chaos_step.mark] obtain e1 where "?r e1" "phase e1 = Marked"
    by (auto simp: NewExperiment_def)
  from reachable.move [OF this(1) chaos_step.inject] this(2) obtain e2 where "?r e2" "phase e2 = Looping" by auto
  from reachable.move [OF this(1) chaos_step.clear_fault [of _ _ Timeout]] this(2)
  obtain e3 where "?r e3" "phase e3 = Clearing StateCompleted NoReason" by auto
  from reachable.move [OF this(1) chaos_step.finish] this(2) obtain e4 where "?r e4" "ended e4"
    by (auto simp: ended_def)
  from reachable.move [OF this(1) chaos_step.begin_call] this(2) show ?thesis by (auto simp: ended_def)
qed


text \<open>A call that copied the fault before the end may return its error after it.\<close>

lemma early_call_fails: "0 \<le> d \<Longrightarrow> ExecuteCopy (SetFault d True i) True = Some InjectedFault"
  by (simp add: ExecuteCopy_def SetFault_def)

section \<open>The breaker of the client\<close>

datatype cb_state = CbClosed | CbOpen | CbHalfOpen

record ClientBreaker =
  cbState :: cb_state
  failures :: nat
  threshold :: int
  cooldown :: int
  lastStateChg :: int

definition NewCircuitBreaker :: "int \<Rightarrow> int \<Rightarrow> int \<Rightarrow> ClientBreaker" where
  "NewCircuitBreaker n d now = \<lparr>cbState = CbClosed, failures = 0, threshold = n, cooldown = d, lastStateChg = now\<rparr>"

definition checkStateLocked :: "int \<Rightarrow> ClientBreaker \<Rightarrow> ClientBreaker" where
  "checkStateLocked now b =
     (if cbState b = CbOpen \<and> cooldown b < now - lastStateChg b then b\<lparr>cbState := CbHalfOpen, lastStateChg := now\<rparr> else b)"

text \<open>
  \<open>Execute\<close> has the lock before the call and after it. \<open>before_call\<close> says whether \<open>fn\<close> is called;
  the result is the fallback's when there is one.
\<close>

definition before_call :: "int \<Rightarrow> ClientBreaker \<Rightarrow> ClientBreaker \<times> bool" where
  "before_call now b = (let c = checkStateLocked now b in (c, cbState c \<noteq> CbOpen))"

definition after_call :: "bool \<Rightarrow> int \<Rightarrow> ClientBreaker \<Rightarrow> ClientBreaker" where
  "after_call err now b =
     (if err then
        (let c = b\<lparr>failures := failures b + 1\<rparr>
         in if threshold c \<le> int (failures c) \<or> cbState c = CbHalfOpen
            then c\<lparr>cbState := CbOpen, lastStateChg := now\<rparr> else c)
      else if cbState b = CbHalfOpen then b\<lparr>cbState := CbClosed, failures := 0, lastStateChg := now\<rparr>
      else if cbState b = CbClosed then b\<lparr>failures := 0\<rparr>
      else b)"

datatype 'e call_outcome = CircuitOpen | FnError 'e | Fallback | Succeeded

definition Execute_result :: "bool \<Rightarrow> bool \<Rightarrow> 'e option \<Rightarrow> 'e call_outcome" where
  "Execute_result called fallback err =
     (if \<not> called then (if fallback then Fallback else CircuitOpen)
      else (case err of None \<Rightarrow> Succeeded | Some e \<Rightarrow> if fallback then Fallback else FnError e))"

text \<open>Any number of calls, each before, in or after its \<open>fn\<close>, while the time goes on.\<close>

record breaker_use =
  breaker :: ClientBreaker
  clock :: int
  inside :: nat

inductive client_breaker_step :: "breaker_use \<Rightarrow> breaker_use \<Rightarrow> bool" where
  wait: "clock u \<le> t \<Longrightarrow> client_breaker_step u (u\<lparr>clock := t\<rparr>)"
| look: "client_breaker_step u (u\<lparr>breaker := checkStateLocked (clock u) (breaker u)\<rparr>)"
| call: "before_call (clock u) (breaker u) = (b, called) \<Longrightarrow>
    client_breaker_step u (u\<lparr>breaker := b, inside := (if called then inside u + 1 else inside u)\<rparr>)"
| return: "0 < inside u \<Longrightarrow>
    client_breaker_step u (u\<lparr>breaker := after_call err (clock u) (breaker u), inside := inside u - 1\<rparr>)"

definition client_breaker_ok :: "breaker_use \<Rightarrow> bool" where
  "client_breaker_ok u \<longleftrightarrow> lastStateChg (breaker u) \<le> clock u \<and>
     (cbState (breaker u) = CbClosed \<longrightarrow> failures (breaker u) = 0 \<or> int (failures (breaker u)) < threshold (breaker u))"

lemma client_breaker_ok_init: "u = \<lparr>breaker = NewCircuitBreaker n d now, clock = now, inside = 0\<rparr> \<Longrightarrow> client_breaker_ok u"
  by (simp add: client_breaker_ok_def NewCircuitBreaker_def)

lemma client_breaker_ok_step: "client_breaker_step u v \<Longrightarrow> client_breaker_ok u \<Longrightarrow> client_breaker_ok v"
  by (induction rule: client_breaker_step.induct)
    (auto simp: client_breaker_ok_def before_call_def after_call_def checkStateLocked_def Let_def split: if_splits)

interpretation client_breaker: guarded_system
  "\<lambda>u. u = \<lparr>breaker = NewCircuitBreaker n d now, clock = now, inside = 0\<rparr>" client_breaker_step client_breaker_ok for n d now
  by unfold_locales (blast intro: client_breaker_ok_init client_breaker_ok_step)+

lemma closed_below_threshold:
  assumes "reachable (\<lambda>u. u = \<lparr>breaker = NewCircuitBreaker n d now, clock = now, inside = 0\<rparr>) client_breaker_step u"
    and "cbState (breaker u) = CbClosed" and "0 < failures (breaker u)"
  shows "int (failures (breaker u)) < threshold (breaker u)"
  using client_breaker.reachable_inv [OF assms(1)] assms(2,3) by (simp add: client_breaker_ok_def)

text \<open>An open breaker calls nothing until its cooldown is over; then the first call goes through.\<close>

lemma open_rejects:
  assumes "cbState b = CbOpen"
  shows "snd (before_call now b) \<longleftrightarrow> cooldown b < now - lastStateChg b"
  using assms by (simp add: before_call_def checkStateLocked_def Let_def)

text \<open>A half-open breaker has no limit: every call goes through until one of them returns.\<close>

lemma half_open_admits_all:
  assumes "cbState b = CbHalfOpen"
  shows "before_call now b = (b, True)"
  using assms by (simp add: before_call_def checkStateLocked_def Let_def)

end
