(* ===== verification/Choreography.thy ===== *)
theory Choreography
  imports Saga
begin

text \<open>
  Lab 29, \<open>internal/saga/choreography.go\<close>: the bus of events, and the choreography of the checkout
  that \<^verbatim>\<open>tests/saga_test.go\<close> builds on it. A handler gets the bus's \<open>Publish\<close> and may call it; a
  publication that has not come back after \<open>n\<close> nested ones is \<open>None\<close>. Handlers subscribe before
  the first event and not from within one.
\<close>

section \<open>The bus\<close>

datatype EventType =
  OrderCreated
| OrderWasCancelled
| PaymentCompleted
| PaymentFailed
| InventoryReserved
| InventoryFailed

record 'p SagaEvent =
  Type :: EventType
  SagaID :: string
  Payload :: 'p

type_synonym ('p, 's) publisher = "'p SagaEvent \<Rightarrow> 's \<Rightarrow> 's option"

type_synonym ('p, 's) handler = "('p, 's) publisher \<Rightarrow> ('p, 's) publisher"

type_synonym ('p, 's) EventBus = "EventType \<Rightarrow> ('p, 's) handler list"

definition NewEventBus :: "('p, 's) EventBus" where
  "NewEventBus = (\<lambda>_. [])"

definition SubscribeBus :: "EventType \<Rightarrow> ('p, 's) handler \<Rightarrow> ('p, 's) EventBus \<Rightarrow> ('p, 's) EventBus" where
  "SubscribeBus t h b = b(t := b t @ [h])"

fun run_handlers :: "('s \<Rightarrow> 's option) list \<Rightarrow> 's \<Rightarrow> 's option" where
  "run_handlers [] s = Some s"
| "run_handlers (h # hs) s = Option.bind (h s) (run_handlers hs)"

fun PublishBus :: "nat \<Rightarrow> ('p, 's) EventBus \<Rightarrow> ('p, 's) publisher" where
  "PublishBus 0 b e s = None"
| "PublishBus (Suc n) b e s = run_handlers (map (\<lambda>h. h (PublishBus n b) e) (b (Type e))) s"

text \<open>An event that nobody has subscribed to changes nothing.\<close>

lemma Publish_silent: "b (Type e) = [] \<Longrightarrow> PublishBus (Suc n) b e s = Some s"
  by simp

text \<open>
  Handlers that only publish what \<open>PublishBus\<close> gives them: where it returns, it returns the same with
  more room.
\<close>

definition extends :: "('p, 's) publisher \<Rightarrow> ('p, 's) publisher \<Rightarrow> bool" where
  "extends p q \<longleftrightarrow> (\<forall>e s t. p e s = Some t \<longrightarrow> q e s = Some t)"

definition steady :: "('p, 's) handler \<Rightarrow> bool" where
  "steady h \<longleftrightarrow> (\<forall>p q. extends p q \<longrightarrow> extends (h p) (h q))"

lemma run_handlers_extends:
  assumes "\<forall>h \<in> set hs. steady h" and "extends p q" and "run_handlers (map (\<lambda>h. h p e) hs) s = Some t"
  shows "run_handlers (map (\<lambda>h. h q e) hs) s = Some t"
  using assms
proof (induction hs arbitrary: s)
  case (Cons h hs)
  then obtain u where u: "h p e s = Some u" "run_handlers (map (\<lambda>h. h p e) hs) u = Some t"
    by (auto simp: bind_eq_Some_conv)
  with Cons.prems(1,2) have "h q e s = Some u" by (auto simp: steady_def extends_def)
  with Cons u(2) show ?case by simp
qed simp

lemma Publish_more:
  assumes "\<And>t. \<forall>h \<in> set (b t). steady h" and "m \<le> n"
  shows "extends (PublishBus m b) (PublishBus n b)"
  using assms(2)
proof (induction m arbitrary: n)
  case 0
  show ?case by (simp add: extends_def)
next
  case (Suc m)
  then obtain k where k: "n = Suc k" "m \<le> k" by (cases n) auto
  have "extends (PublishBus m b) (PublishBus k b)" using Suc.IH k(2) .
  then show ?case
    unfolding extends_def k(1) using run_handlers_extends [OF assms(1)] by (simp add: extends_def)
qed

section \<open>The checkout as a choreography\<close>

definition tell :: "('p, 's) publisher \<Rightarrow> EventType \<Rightarrow> 'p SagaEvent \<Rightarrow> 's \<Rightarrow> 's option" where
  "tell pub t e s = pub \<lparr>Type = t, SagaID = SagaID e, Payload = Payload e\<rparr> s"

definition on_order :: "'m \<Rightarrow> bool \<Rightarrow> ('p, 'm shop) handler" where
  "on_order amount shouldFail pub e s =
     (case ProcessPayment (SagaID e) amount shouldFail s of
        (s1, Some _) \<Rightarrow> tell pub PaymentFailed e s1
      | (s1, None) \<Rightarrow> tell pub PaymentCompleted e s1)"

definition on_payment :: "string \<Rightarrow> int \<Rightarrow> ('p, 'm shop) handler" where
  "on_payment item qty pub e s =
     (case Reserve item qty s of
        (s1, Some _) \<Rightarrow> tell pub InventoryFailed e s1
      | (s1, None) \<Rightarrow> tell pub InventoryReserved e s1)"

definition on_reserved :: "('p, 'm shop) handler" where
  "on_reserved pub e s = Some (fst (ApproveOrder (SagaID e) s))"

definition on_payment_failed :: "('p, 'm shop) handler" where
  "on_payment_failed pub e s = Some (fst (CancelOrder (SagaID e) s))"

definition on_inventory_failed :: "('p, 'm shop) handler" where
  "on_inventory_failed pub e s = Some (fst (CancelOrder (SagaID e) (fst (RefundPayment (SagaID e) s))))"

definition shop_bus :: "'m \<Rightarrow> bool \<Rightarrow> string \<Rightarrow> int \<Rightarrow> ('p, 'm shop) EventBus" where
  "shop_bus amount shouldFail item qty =
     SubscribeBus InventoryFailed on_inventory_failed
       (SubscribeBus PaymentFailed on_payment_failed
         (SubscribeBus InventoryReserved on_reserved
           (SubscribeBus PaymentCompleted (on_payment item qty)
             (SubscribeBus OrderCreated (on_order amount shouldFail) NewEventBus))))"

text \<open>The tests drop the error of \<open>CreateOrder\<close> and publish in any case.\<close>

definition choreograph :: "nat \<Rightarrow> ('p, 'm shop) EventBus \<Rightarrow> string \<Rightarrow> 'p \<Rightarrow> 'm shop \<Rightarrow> 'm shop option" where
  "choreograph n b oid p s =
     PublishBus n b \<lparr>Type = OrderCreated, SagaID = oid, Payload = p\<rparr> (fst (CreateOrder oid s))"

lemma shop_bus_handlers:
  "shop_bus a f item qty OrderCreated = [on_order a f]"
  "shop_bus a f item qty OrderWasCancelled = []"
  "shop_bus a f item qty PaymentCompleted = [on_payment item qty]"
  "shop_bus a f item qty InventoryReserved = [on_reserved]"
  "shop_bus a f item qty PaymentFailed = [on_payment_failed]"
  "shop_bus a f item qty InventoryFailed = [on_inventory_failed]"
  by (simp_all add: shop_bus_def SubscribeBus_def NewEventBus_def)

lemma steady_handlers: "\<forall>h \<in> set (shop_bus a f item qty t). steady h"
  by (cases t) (auto simp: shop_bus_handlers steady_def extends_def on_order_def on_payment_def on_reserved_def
      on_payment_failed_def on_inventory_failed_def tell_def split: prod.splits option.splits)

text \<open>The orchestrator without a cancelled context, and the choreography with room for three nested events.\<close>

definition orchestrate :: "'m \<Rightarrow> bool \<Rightarrow> string \<Rightarrow> int \<Rightarrow> string \<Rightarrow> 'm shop \<Rightarrow> 'm shop" where
  "orchestrate amount shouldFail item qty oid s =
     fst (Execute_saga (\<lambda>_. False) \<lparr>steps = checkout oid amount shouldFail item qty, logs = []\<rparr> s)"

lemma choreograph_3:
  assumes "\<not> locks s oid"
  shows "choreograph 3 (shop_bus amount shouldFail item qty) oid p s =
     Some (orchestrate amount shouldFail item qty oid s)"
  using assms
  by (auto simp: numeral_3_eq_3 choreograph_def orchestrate_def Execute_saga_def checkout_def shop_bus_handlers
      on_order_def on_payment_def on_reserved_def on_payment_failed_def on_inventory_failed_def tell_def
      CreateOrder_def ProcessPayment_def Reserve_def ApproveOrder_def CancelOrder_def RefundPayment_def compensate_def)


definition empty_shop :: "nat shop" where
  "empty_shop = \<lparr>orders = Map.empty, locks = (\<lambda>_. False), payments = Map.empty, processedID = (\<lambda>_. False),
     stock = (\<lambda>_. 0), reserved = (\<lambda>_. 0)\<rparr>"


text \<open>An order that is locked: the orchestrator stops, the tests' choreography takes the payment.\<close>

lemma locked_order_is_charged:
  assumes "locks s oid" and "\<not> processedID s oid" and "orders s oid = Some OrderPending" and "qty \<le> stock s item"
  shows "orchestrate a False item qty oid s = s"
    and "\<exists>t. choreograph 3 (shop_bus a False item qty) oid p s = Some t \<and> payments t oid = Some a"
  using assms
  by (auto simp: numeral_3_eq_3 choreograph_def orchestrate_def Execute_saga_def checkout_def shop_bus_handlers
      on_order_def on_payment_def on_reserved_def tell_def
      CreateOrder_def ProcessPayment_def Reserve_def ApproveOrder_def compensate_def)

end
