(* ===== verification/Migration.thy ===== *)
theory Migration
  imports Systems GoText
begin

text \<open>
  Lab 13, \<open>internal/compat\<close>: the store with the phone column and the phone table (\<open>store.go\<close>), the
  flags (\<open>flags.go\<close>), the backfill (\<open>backfill.go\<close>) and the service (\<open>service.go\<close>). A call of the
  store runs under its lock and is one step; the service, any number of callers at once, and the
  backfill are sequences of such steps. Times of creation and the counters that nothing depends on
  are left out.
\<close>

section \<open>The store\<close>

record PhoneEntry =
  EntryID :: nat
  UserID :: nat
  Number :: bytes
  IsPrimary :: bool

record StoredUser =
  UserName :: bytes
  Phone :: "bytes option"

text \<open>The map of the users is an association list; its keys are their IDs.\<close>

record MemoryStore =
  users :: "(nat \<times> StoredUser) list"
  userPhones :: "nat \<Rightarrow> PhoneEntry list"
  phoneSeq :: nat
  userSeq :: nat
  legacyDropped :: bool

definition NewMemoryStore :: MemoryStore where
  "NewMemoryStore = \<lparr>users = [], userPhones = (\<lambda>_. []), phoneSeq = 0, userSeq = 0, legacyDropped = False\<rparr>"

datatype store_error = UserNotFound | LegacyDropped | MissingRequired

definition add_user :: "StoredUser \<Rightarrow> MemoryStore \<Rightarrow> MemoryStore" where
  "add_user u s = s\<lparr>userSeq := userSeq s + 1, users := (userSeq s + 1, u) # users s\<rparr>"

definition add_entry :: "nat \<Rightarrow> bytes \<Rightarrow> bool \<Rightarrow> MemoryStore \<Rightarrow> MemoryStore" where
  "add_entry i n prim s =
     s\<lparr>phoneSeq := phoneSeq s + 1,
       userPhones := (userPhones s)(i := userPhones s i @
         [\<lparr>EntryID = phoneSeq s + 1, UserID = i, Number = n, IsPrimary = prim\<rparr>])\<rparr>"

definition CreateLegacy :: "bytes \<Rightarrow> bytes \<Rightarrow> MemoryStore \<Rightarrow> (store_error, nat) res \<times> MemoryStore" where
  "CreateLegacy name phone s =
     (if legacyDropped s then (Inl LegacyDropped, s)
      else (Inr (userSeq s + 1), add_user \<lparr>UserName = name, Phone = Some phone\<rparr> s))"

definition CreateDual :: "bytes \<Rightarrow> bytes \<Rightarrow> MemoryStore \<Rightarrow> (store_error, nat) res \<times> MemoryStore" where
  "CreateDual name phone s =
     (Inr (userSeq s + 1),
      add_entry (userSeq s + 1) phone True
        (add_user \<lparr>UserName = name, Phone = (if \<not> legacyDropped s then Some phone else None)\<rparr> s))"

definition CreateModern :: "bytes \<Rightarrow> bytes list \<Rightarrow> MemoryStore \<Rightarrow> (store_error, nat) res \<times> MemoryStore" where
  "CreateModern name phones s =
     (case phones of
        [] \<Rightarrow> (Inl MissingRequired, s)
      | p # ps \<Rightarrow>
          (Inr (userSeq s + 1),
           fold (\<lambda>q. add_entry (userSeq s + 1) q False) ps
             (add_entry (userSeq s + 1) p True (add_user \<lparr>UserName = name, Phone = None\<rparr> s))))"

definition GetStoredUser :: "nat \<Rightarrow> MemoryStore \<Rightarrow> (store_error, StoredUser) res" where
  "GetStoredUser i s = (case map_of (users s) i of None \<Rightarrow> Inl UserNotFound | Some u \<Rightarrow> Inr u)"

definition GetPhones :: "nat \<Rightarrow> MemoryStore \<Rightarrow> (store_error, PhoneEntry list) res" where
  "GetPhones i s = (case map_of (users s) i of None \<Rightarrow> Inl UserNotFound | Some _ \<Rightarrow> Inr (userPhones s i))"

definition SavePhoneEntry :: "nat \<Rightarrow> bytes \<Rightarrow> bool \<Rightarrow> MemoryStore \<Rightarrow> (store_error, PhoneEntry) res \<times> MemoryStore" where
  "SavePhoneEntry i n prim s =
     (if map_of (users s) i = None then (Inl UserNotFound, s)
      else (case List.find (\<lambda>e. Number e = n) (userPhones s i) of
          Some e \<Rightarrow> (Inr e, s)
        | None \<Rightarrow>
            (let s' = add_entry i n prim s in (Inr (last (userPhones s' i)), s'))))"

definition GetUserIDs :: "nat \<Rightarrow> nat \<Rightarrow> MemoryStore \<Rightarrow> nat list" where
  "GetUserIDs after limit s = take limit (sort (filter (\<lambda>i. after < i) (map fst (users s))))"

definition ApplyContractDropLegacyColumn :: "MemoryStore \<Rightarrow> MemoryStore" where
  "ApplyContractDropLegacyColumn s =
     s\<lparr>legacyDropped := True, users := map (\<lambda>(i, u). (i, u\<lparr>Phone := None\<rparr>)) (users s)\<rparr>"

section \<open>Reading a user\<close>

datatype ReadMode = ReadLegacyOnly | ReadFallback | ReadNewOnly

datatype WriteMode = WriteLegacyOnly | WriteDual | WriteNewOnly

definition primary_number :: "PhoneEntry list \<Rightarrow> bytes" where
  "primary_number es =
     (case List.find IsPrimary es of Some e \<Rightarrow> Number e | None \<Rightarrow> (case es of [] \<Rightarrow> [] | e # _ \<Rightarrow> Number e))"

text \<open>
  The phone of the response, from the user and the phones the service has read, and whether a
  fallback read saves it in the new table.
\<close>

definition phone_val :: "ReadMode \<Rightarrow> StoredUser \<Rightarrow> PhoneEntry list \<Rightarrow> bytes" where
  "phone_val m u es =
     (case m of
        ReadLegacyOnly \<Rightarrow> (case Phone u of Some p \<Rightarrow> p | None \<Rightarrow> [])
      | ReadFallback \<Rightarrow>
          if es \<noteq> [] then primary_number es else (case Phone u of Some p \<Rightarrow> p | None \<Rightarrow> [])
      | ReadNewOnly \<Rightarrow> if es \<noteq> [] then primary_number es else [])"

definition lazy_save :: "ReadMode \<Rightarrow> StoredUser \<Rightarrow> PhoneEntry list \<Rightarrow> bytes option" where
  "lazy_save m u es = (if m = ReadFallback \<and> es = [] then Phone u else None)"

section \<open>The calls of the service without interference\<close>

record FeatureFlags =
  writeMode :: WriteMode
  readMode :: ReadMode
  contractApplied :: bool

definition NewFeatureFlags :: FeatureFlags where
  "NewFeatureFlags = \<lparr>writeMode = WriteLegacyOnly, readMode = ReadLegacyOnly, contractApplied = False\<rparr>"

record UserResponse =
  ResponseID :: nat
  ResponseName :: bytes
  ResponsePhone :: bytes
  Phones :: "PhoneEntry list"

definition ServiceGetUser :: "FeatureFlags \<Rightarrow> nat \<Rightarrow> MemoryStore \<Rightarrow> (store_error, UserResponse) res \<times> MemoryStore" where
  "ServiceGetUser f i s =
     (case GetStoredUser i s of
        Inl e \<Rightarrow> (Inl e, s)
      | Inr u \<Rightarrow>
          (let es = (case GetPhones i s of Inl _ \<Rightarrow> [] | Inr es \<Rightarrow> es);
               r = \<lparr>ResponseID = i, ResponseName = UserName u, ResponsePhone = phone_val (readMode f) u es, Phones = es\<rparr>
           in (Inr r, case lazy_save (readMode f) u es of None \<Rightarrow> s | Some p \<Rightarrow> snd (SavePhoneEntry i p True s))))"

definition ServiceCreateUser ::
  "FeatureFlags \<Rightarrow> bytes \<Rightarrow> bytes \<Rightarrow> bytes list \<Rightarrow> MemoryStore \<Rightarrow> (store_error, UserResponse) res \<times> MemoryStore" where
  "ServiceCreateUser f name phone extra s =
     (case writeMode f of
        WriteLegacyOnly \<Rightarrow>
          (case CreateLegacy name phone s of
             (Inl e, s1) \<Rightarrow> (Inl e, s1)
           | (Inr i, s1) \<Rightarrow> (Inr \<lparr>ResponseID = i, ResponseName = name, ResponsePhone = phone, Phones = []\<rparr>, s1))
      | WriteDual \<Rightarrow>
          (case CreateDual name phone s of
             (Inl e, s1) \<Rightarrow> (Inl e, s1)
           | (Inr i, s1) \<Rightarrow> ServiceGetUser f i (fold (\<lambda>n s. snd (SavePhoneEntry i n False s)) extra s1))
      | WriteNewOnly \<Rightarrow>
          (case CreateModern name (phone # extra) s of
             (Inl e, s1) \<Rightarrow> (Inl e, s1)
           | (Inr i, s1) \<Rightarrow> ServiceGetUser f i s1))"

definition drifts :: "StoredUser \<Rightarrow> PhoneEntry list \<Rightarrow> bool" where
  "drifts u es \<longleftrightarrow>
     (case Phone u of
        None \<Rightarrow> False
      | Some p \<Rightarrow> es = [] \<or> (case List.find IsPrimary es of Some e \<Rightarrow> Number e | None \<Rightarrow> []) \<noteq> p)"

definition ReconcileData :: "FeatureFlags \<Rightarrow> MemoryStore \<Rightarrow> nat" where
  "ReconcileData f s =
     (if contractApplied f then 0
      else length (filter (\<lambda>i. case map_of (users s) i of None \<Rightarrow> False | Some u \<Rightarrow> drifts u (userPhones s i))
        (GetUserIDs 0 (length (users s) + 10) s)))"

text \<open>The guard of \<open>ApplyContract\<close> looks at the reads of old clients, not at the data.\<close>

definition ApplyContract :: "bool \<Rightarrow> nat \<Rightarrow> FeatureFlags \<Rightarrow> MemoryStore \<Rightarrow> (nat, FeatureFlags) res \<times> MemoryStore" where
  "ApplyContract force legacyReadHits f s =
     (if \<not> force \<and> 0 < legacyReadHits then (Inl legacyReadHits, s)
      else (Inr (f\<lparr>writeMode := WriteNewOnly, readMode := ReadNewOnly, contractApplied := True\<rparr>),
            ApplyContractDropLegacyColumn s))"

section \<open>The migration, step by step\<close>

text \<open>
  A batch of the backfill: the users it has fetched and not yet looked at, the last of them, and
  whether they are fewer than a batch. In between it has read the user at hand, and then found
  that there are no phones.
\<close>

datatype batch =
  Idle
| Fetched "nat list" nat bool
| Looked nat bytes "nat list" nat bool
| Saving nat bytes "nat list" nat bool

text \<open>
  \<open>readers\<close> have read a user and not yet the phones, \<open>savers\<close> have a fallback read to save, \<open>extras\<close>
  are further phones to save. Ghosts: \<open>given\<close> is the phone a user was created with, \<open>late\<close> that a user
  was created in the old way after the backfill had fetched its last batch, \<open>early\<close> that the
  column was dropped before the backfill was complete.
\<close>

record migration =
  db :: MemoryStore
  LastProcessedID :: nat
  IsComplete :: bool
  batch :: batch
  readers :: "(nat \<times> StoredUser) list"
  savers :: "(nat \<times> bytes) list"
  extras :: "(nat \<times> bytes) list"
  given :: "nat \<Rightarrow> bytes"
  late :: bool
  early :: bool

definition migration_start :: migration where
  "migration_start =
     \<lparr>db = NewMemoryStore, LastProcessedID = 0, IsComplete = False, batch = Idle, readers = [], savers = [],
      extras = [], given = (\<lambda>_. []), late = False, early = False\<rparr>"

definition last_fetched :: "migration \<Rightarrow> bool" where
  "last_fetched w \<longleftrightarrow> IsComplete w \<or>
     (case batch w of Idle \<Rightarrow> False | Fetched _ _ final \<Rightarrow> final | Looked _ _ _ _ final \<Rightarrow> final | Saving _ _ _ _ final \<Rightarrow> final)"

abbreviation new_id :: "migration \<Rightarrow> nat" where
  "new_id w \<equiv> userSeq (db w) + 1"

text \<open>The backfill by itself.\<close>

inductive backfill_step :: "nat \<Rightarrow> migration \<Rightarrow> migration \<Rightarrow> bool" for bs :: nat where
  fetch: "batch w = Idle \<Longrightarrow> \<not> IsComplete w \<Longrightarrow> GetUserIDs (LastProcessedID w) bs (db w) = i # js \<Longrightarrow>
    backfill_step bs w (w\<lparr>batch := Fetched (i # js) (last (i # js)) (length (i # js) < bs)\<rparr>)"
| fetch_none: "batch w = Idle \<Longrightarrow> \<not> IsComplete w \<Longrightarrow> GetUserIDs (LastProcessedID w) bs (db w) = [] \<Longrightarrow>
    backfill_step bs w (w\<lparr>IsComplete := True\<rparr>)"
| pass: "batch w = Fetched (i # js) hi final \<Longrightarrow> GetStoredUser i (db w) = Inr u \<Longrightarrow> Phone u \<in> {None, Some []} \<Longrightarrow>
    backfill_step bs w (w\<lparr>batch := Fetched js hi final, LastProcessedID := i\<rparr>)"
| look: "batch w = Fetched (i # js) hi final \<Longrightarrow> GetStoredUser i (db w) = Inr u \<Longrightarrow> Phone u = Some p \<Longrightarrow> p \<noteq> [] \<Longrightarrow>
    backfill_step bs w (w\<lparr>batch := Looked i p js hi final\<rparr>)"
| has_phones: "batch w = Looked i p js hi final \<Longrightarrow> GetPhones i (db w) = Inr es \<Longrightarrow> es \<noteq> [] \<Longrightarrow>
    backfill_step bs w (w\<lparr>batch := Fetched js hi final, LastProcessedID := i\<rparr>)"
| no_phones: "batch w = Looked i p js hi final \<Longrightarrow> GetPhones i (db w) = Inr [] \<Longrightarrow>
    backfill_step bs w (w\<lparr>batch := Saving i p js hi final\<rparr>)"
| save: "batch w = Saving i p js hi final \<Longrightarrow>
    backfill_step bs w (w\<lparr>db := snd (SavePhoneEntry i p True (db w)), batch := Fetched js hi final, LastProcessedID := i\<rparr>)"
| batch_done: "batch w = Fetched [] hi final \<Longrightarrow>
    backfill_step bs w (w\<lparr>batch := Idle, IsComplete := final\<rparr>)"

text \<open>Everything at once; the context of a batch may be done before each user.\<close>

inductive migration_step :: "nat \<Rightarrow> migration \<Rightarrow> migration \<Rightarrow> bool" for bs :: nat where
  backfill: "backfill_step bs w v \<Longrightarrow> migration_step bs w v"
| create_legacy: "CreateLegacy name phone (db w) = (Inr i, s) \<Longrightarrow>
    migration_step bs w (w\<lparr>db := s, given := (given w)(i := phone), late := late w \<or> last_fetched w\<rparr>)"
| create_dual: "CreateDual name phone (db w) = (Inr i, s) \<Longrightarrow>
    migration_step bs w (w\<lparr>db := s, given := (given w)(i := phone), extras := map (Pair i) ns @ extras w\<rparr>)"
| create_modern: "CreateModern name (phone # ns) (db w) = (Inr i, s) \<Longrightarrow>
    migration_step bs w (w\<lparr>db := s, given := (given w)(i := phone)\<rparr>)"
| save_extra: "(i, n) \<in> set (extras w) \<Longrightarrow>
    migration_step bs w (w\<lparr>db := snd (SavePhoneEntry i n False (db w)), extras := remove1 (i, n) (extras w)\<rparr>)"
| read_user: "GetStoredUser i (db w) = Inr u \<Longrightarrow> migration_step bs w (w\<lparr>readers := (i, u) # readers w\<rparr>)"
| read_phones: "(i, u) \<in> set (readers w) \<Longrightarrow> GetPhones i (db w) = Inr es \<Longrightarrow>
    migration_step bs w (w\<lparr>readers := remove1 (i, u) (readers w),
      savers := (case lazy_save m u es of None \<Rightarrow> savers w | Some p \<Rightarrow> (i, p) # savers w)\<rparr>)"
| save_lazily: "(i, p) \<in> set (savers w) \<Longrightarrow>
    migration_step bs w (w\<lparr>db := snd (SavePhoneEntry i p True (db w)), savers := remove1 (i, p) (savers w)\<rparr>)"
| cancel: "batch w = Fetched (i # js) hi final \<Longrightarrow> migration_step bs w (w\<lparr>batch := Idle\<rparr>)"
| drop_column:
    "migration_step bs w (w\<lparr>db := ApplyContractDropLegacyColumn (db w), early := early w \<or> \<not> IsComplete w\<rparr>)"

section \<open>Nothing is lost\<close>

text \<open>The phones of a user begin with the primary one, the one given at creation.\<close>

definition head_ok :: "bytes \<Rightarrow> PhoneEntry list \<Rightarrow> bool" where
  "head_ok p es \<longleftrightarrow> es = [] \<or> (Number (hd es) = p \<and> IsPrimary (hd es))"

definition phones_ok :: "(nat \<Rightarrow> bytes) \<Rightarrow> MemoryStore \<Rightarrow> bool" where
  "phones_ok g s \<longleftrightarrow>
     (\<forall>i. head_ok (g i) (userPhones s i) \<and> (map_of (users s) i = None \<longrightarrow> userPhones s i = []))"

definition memory_ok :: "(nat \<Rightarrow> bytes) \<Rightarrow> MemoryStore \<Rightarrow> bool" where
  "memory_ok g s \<longleftrightarrow> phones_ok g s \<and> distinct (map fst (users s)) \<and>
     (\<forall>(i, u) \<in> set (users s). 0 < i \<and> i \<le> userSeq s \<and> (\<forall>p. Phone u = Some p \<longrightarrow> p = g i))"

definition batch_ok :: "nat \<Rightarrow> nat list \<Rightarrow> nat \<Rightarrow> bool" where
  "batch_ok l js hi \<longleftrightarrow> sorted_wrt (<) (l # js) \<and> last (l # js) = hi"

definition progress_ok :: "migration \<Rightarrow> bool" where
  "progress_ok w \<longleftrightarrow>
     (case batch w of
        Idle \<Rightarrow> LastProcessedID w \<le> userSeq (db w)
      | Fetched js hi _ \<Rightarrow> batch_ok (LastProcessedID w) js hi \<and> hi \<le> userSeq (db w) \<and> \<not> IsComplete w
      | Looked i p js hi _ \<Rightarrow> batch_ok (LastProcessedID w) (i # js) hi \<and> hi \<le> userSeq (db w) \<and> \<not> IsComplete w \<and> p = given w i
      | Saving i p js hi _ \<Rightarrow> batch_ok (LastProcessedID w) (i # js) hi \<and> hi \<le> userSeq (db w) \<and> \<not> IsComplete w \<and> p = given w i)"

text \<open>The users the backfill still comes to.\<close>

definition waiting :: "migration \<Rightarrow> nat \<Rightarrow> bool" where
  "waiting w i \<longleftrightarrow> \<not> IsComplete w \<and>
     (case batch w of
        Idle \<Rightarrow> LastProcessedID w < i
      | Fetched js hi final \<Rightarrow> i \<in> set js \<or> (\<not> final \<and> hi < i)
      | Looked j _ js hi final \<Rightarrow> j = i \<or> i \<in> set js \<or> (\<not> final \<and> hi < i)
      | Saving j _ js hi final \<Rightarrow> j = i \<or> i \<in> set js \<or> (\<not> final \<and> hi < i))"

definition kept :: "migration \<Rightarrow> bool" where
  "kept w \<longleftrightarrow> (\<forall>(i, u) \<in> set (users (db w)). given w i = [] \<or> userPhones (db w) i \<noteq> [] \<or>
     (Phone u = Some (given w i) \<and> waiting w i))"

definition callers_ok :: "migration \<Rightarrow> bool" where
  "callers_ok w \<longleftrightarrow>
     (\<forall>(i, u) \<in> set (readers w). (\<exists>v. map_of (users (db w)) i = Some v \<and> (Phone v = None \<or> Phone v = Phone u)) \<and>
        (\<forall>p. Phone u = Some p \<longrightarrow> p = given w i)) \<and>
     (\<forall>(i, p) \<in> set (savers w). map_of (users (db w)) i \<noteq> None \<and> p = given w i) \<and>
     (\<forall>(i, n) \<in> set (extras w). userPhones (db w) i \<noteq> [])"

definition migration_ok :: "migration \<Rightarrow> bool" where
  "migration_ok w \<longleftrightarrow> memory_ok (given w) (db w) \<and> progress_ok w \<and> callers_ok w \<and> (late w \<or> early w \<or> kept w)"

section \<open>What the operations of the store keep\<close>

lemma SavePhoneEntry_cases:
  "snd (SavePhoneEntry i n prim s) =
     (if map_of (users s) i = None \<or> (\<exists>e \<in> set (userPhones s i). Number e = n) then s else add_entry i n prim s)"
  by (auto simp: SavePhoneEntry_def Let_def find_None_iff find_Some_iff split: option.splits)

lemma add_entry_frame:
  "users (add_entry i n prim s) = users s" "userSeq (add_entry i n prim s) = userSeq s"
  "userPhones (add_entry i n prim s) j =
     (if j = i then userPhones s i @ [\<lparr>EntryID = phoneSeq s + 1, UserID = i, Number = n, IsPrimary = prim\<rparr>] else userPhones s j)"
  by (simp_all add: add_entry_def)

lemma SavePhoneEntry_frame:
  "users (snd (SavePhoneEntry i n prim s)) = users s" "userSeq (snd (SavePhoneEntry i n prim s)) = userSeq s"
  by (simp_all add: SavePhoneEntry_cases add_entry_frame)

lemma SavePhoneEntry_nonempty:
  "userPhones s j \<noteq> [] \<Longrightarrow> userPhones (snd (SavePhoneEntry i n prim s)) j \<noteq> []"
  "map_of (users s) i \<noteq> None \<Longrightarrow> userPhones (snd (SavePhoneEntry i n prim s)) i \<noteq> []"
  by (auto simp: SavePhoneEntry_cases add_entry_frame)

lemma head_ok_snoc: "head_ok p es \<Longrightarrow> es \<noteq> [] \<or> Number e = p \<and> IsPrimary e \<Longrightarrow> head_ok p (es @ [e])"
  by (cases es) (simp_all add: head_ok_def)

lemma add_entry_ok:
  assumes "memory_ok g s" and "map_of (users s) i \<noteq> None" and "prim \<and> n = g i \<or> userPhones s i \<noteq> []"
  shows "memory_ok g (add_entry i n prim s)"
  using assms head_ok_snoc [of "g i" "userPhones s i"]
  by (fastforce simp: memory_ok_def phones_ok_def add_entry_frame)

lemma SavePhoneEntry_ok:
  "memory_ok g s \<Longrightarrow> prim \<and> n = g i \<or> userPhones s i \<noteq> [] \<Longrightarrow> memory_ok g (snd (SavePhoneEntry i n prim s))"
  by (simp add: SavePhoneEntry_cases add_entry_ok)

lemma memory_ok_user: "memory_ok g s \<Longrightarrow> map_of (users s) i = Some u \<Longrightarrow> 0 < i \<and> i \<le> userSeq s \<and> (\<forall>p. Phone u = Some p \<longrightarrow> p = g i)"
  unfolding memory_ok_def by (drule map_of_SomeD) fast

lemma memory_ok_fresh:
  assumes "memory_ok g s"
  shows "map_of (users s) (userSeq s + 1) = None" and "userPhones s (userSeq s + 1) = []"
proof -
  show n: "map_of (users s) (userSeq s + 1) = None"
    using memory_ok_user [OF assms, of "userSeq s + 1"] by (cases "map_of (users s) (userSeq s + 1)") auto
  then show "userPhones s (userSeq s + 1) = []" using assms unfolding memory_ok_def phones_ok_def by blast
qed

lemma add_user_frame:
  "users (add_user u s) = (userSeq s + 1, u) # users s" "userSeq (add_user u s) = userSeq s + 1"
  "userPhones (add_user u s) = userPhones s"
  by (simp_all add: add_user_def)

lemma add_user_ok:
  assumes "memory_ok g s" and "Phone u \<in> {None, Some p}"
  shows "memory_ok (g(userSeq s + 1 := p)) (add_user u s)"
proof -
  note fresh = memory_ok_fresh [OF assms(1)]
  have "phones_ok (g(userSeq s + 1 := p)) (add_user u s)"
    using assms(1) fresh unfolding memory_ok_def phones_ok_def add_user_frame
    by (auto simp: head_ok_def)
  moreover have "userSeq s + 1 \<notin> fst ` set (users s)" using fresh(1) by (simp add: map_of_eq_None_iff)
  ultimately show ?thesis
    using assms unfolding memory_ok_def add_user_frame by fastforce
qed

lemma map_of_dropped:
  "map_of (users (ApplyContractDropLegacyColumn s)) i = map_option (\<lambda>u. u\<lparr>Phone := None\<rparr>) (map_of (users s) i)"
  by (simp add: ApplyContractDropLegacyColumn_def map_of_map)

lemma dropped_frame:
  "userPhones (ApplyContractDropLegacyColumn s) = userPhones s" "userSeq (ApplyContractDropLegacyColumn s) = userSeq s"
  by (simp_all add: ApplyContractDropLegacyColumn_def)

lemma drop_ok: "memory_ok g s \<Longrightarrow> memory_ok g (ApplyContractDropLegacyColumn s)"
  unfolding memory_ok_def phones_ok_def map_of_dropped
  by (auto simp: ApplyContractDropLegacyColumn_def split_def comp_def)

text \<open>What the three ways to create a user have in common.\<close>

definition created :: "(nat \<Rightarrow> bytes) \<Rightarrow> MemoryStore \<Rightarrow> nat \<Rightarrow> bytes \<Rightarrow> StoredUser \<Rightarrow> MemoryStore \<Rightarrow> bool" where
  "created g s i p u t \<longleftrightarrow> i = userSeq s + 1 \<and> memory_ok (g(i := p)) t \<and> userSeq t = i \<and> users t = (i, u) # users s \<and>
     (\<forall>j. j \<noteq> i \<longrightarrow> userPhones t j = userPhones s j)"

lemma CreateLegacy_created:
  assumes "memory_ok g s" and "CreateLegacy name phone s = (Inr i, t)"
  shows "created g s i phone \<lparr>UserName = name, Phone = Some phone\<rparr> t"
  using assms add_user_ok [OF assms(1), of "\<lparr>UserName = name, Phone = Some phone\<rparr>" phone]
  by (auto simp: CreateLegacy_def created_def add_user_frame split: if_splits)

lemma CreateDual_created:
  assumes "memory_ok g s" and "CreateDual name phone s = (Inr i, t)"
  obtains u where "created g s i phone u t" and "userPhones t i \<noteq> []"
proof -
  let ?u = "\<lparr>UserName = name, Phone = (if \<not> legacyDropped s then Some phone else None)\<rparr>"
  have "memory_ok (g(userSeq s + 1 := phone)) (add_user ?u s)" by (rule add_user_ok [OF assms(1)]) simp
  then have "memory_ok (g(userSeq s + 1 := phone)) (add_entry (userSeq s + 1) phone True (add_user ?u s))"
    by (rule add_entry_ok) (simp_all add: add_user_frame)
  with assms(2) have "created g s i phone ?u t" "userPhones t i \<noteq> []"
    by (auto simp: CreateDual_def created_def add_user_frame add_entry_frame)
  with that show thesis .
qed

lemma add_entries:
  assumes "memory_ok g s" and "map_of (users s) i \<noteq> None" and "userPhones s i \<noteq> []"
  shows "memory_ok g (fold (\<lambda>q. add_entry i q False) qs s) \<and> users (fold (\<lambda>q. add_entry i q False) qs s) = users s \<and>
    userSeq (fold (\<lambda>q. add_entry i q False) qs s) = userSeq s \<and> userPhones (fold (\<lambda>q. add_entry i q False) qs s) i \<noteq> [] \<and>
    (\<forall>j. j \<noteq> i \<longrightarrow> userPhones (fold (\<lambda>q. add_entry i q False) qs s) j = userPhones s j)"
  using assms
proof (induction qs arbitrary: s)
  case (Cons q qs)
  with add_entry_ok [OF Cons.prems(1,2)] Cons.IH [of "add_entry i q False s"] show ?case
    by (simp add: add_entry_frame)
qed simp

lemma CreateModern_created:
  assumes "memory_ok g s" and "CreateModern name (phone # ns) s = (Inr i, t)"
  obtains u where "created g s i phone u t" and "userPhones t i \<noteq> []"
proof -
  let ?u = "\<lparr>UserName = name, Phone = None\<rparr>" and ?n = "userSeq s + 1"
  let ?g = "g(?n := phone)" and ?s = "add_entry ?n phone True (add_user ?u s)"
  have "memory_ok ?g (add_user ?u s)" by (rule add_user_ok [OF assms(1)]) simp
  then have "memory_ok ?g ?s" by (rule add_entry_ok) (simp_all add: add_user_frame)
  from add_entries [OF this, of ?n ns] assms(2) have "created g s i phone ?u t" "userPhones t i \<noteq> []"
    by (auto simp: CreateModern_def created_def add_user_frame add_entry_frame)
  with that show thesis .
qed

section \<open>What the steps keep\<close>

text \<open>The users fetched for a batch are the next ones; the others come after them.\<close>

lemma sorted_take_rest:
  fixes xs :: "nat list"
  assumes "sorted_wrt (<) xs" and "x \<in> set xs" and "x \<notin> set (take n xs)" and "take n xs \<noteq> []"
  shows "length (take n xs) = n \<and> last (take n xs) < x"
proof -
  from assms(2,3) have x: "x \<in> set (drop n xs)" by (metis UnE append_take_drop_id set_append)
  then have "n < length xs" by (cases "length xs \<le> n") auto
  moreover have "sorted_wrt (<) (take n xs @ drop n xs)" using assms(1) by simp
  then have "\<forall>a \<in> set (take n xs). \<forall>b \<in> set (drop n xs). a < b"
    unfolding sorted_wrt_append by blast
  ultimately show ?thesis using x assms(4) last_in_set [OF assms(4)] by simp
qed

lemma GetUserIDs_next:
  assumes "memory_ok g s" and "GetUserIDs l n s = ids" and "ids \<noteq> []"
  shows "batch_ok l ids (last ids)" and "last ids \<le> userSeq s"
    and "(i, u) \<in> set (users s) \<Longrightarrow> l < i \<Longrightarrow> i \<notin> set ids \<Longrightarrow> \<not> length ids < n \<and> last ids < i"
proof -
  let ?all = "sort (filter (\<lambda>i. l < i) (map fst (users s)))"
  have "distinct ?all" using assms(1) by (simp add: memory_ok_def)
  then have all: "sorted_wrt (<) ?all" by (simp add: strict_sorted_iff)
  have ids: "ids = take n ?all" using assms(2) by (simp add: GetUserIDs_def)
  then have sub: "set ids \<subseteq> {i. l < i \<and> i \<in> fst ` set (users s)}" by (auto dest!: in_set_takeD)
  have "sorted_wrt (<) ids" unfolding ids using all by (rule sorted_wrt_take)
  with sub assms(3) show "batch_ok l ids (last ids)" by (auto simp: batch_ok_def)
  have "last ids \<in> fst ` set (users s)" using sub last_in_set [OF assms(3)] by blast
  then show "last ids \<le> userSeq s" using assms(1) by (auto simp: memory_ok_def)
  show "\<not> length ids < n \<and> last ids < i" if "(i, u) \<in> set (users s)" "l < i" "i \<notin> set ids"
    using sorted_take_rest [OF all, of i n] that assms(3) unfolding ids by force
qed

lemma GetUserIDs_none:
  assumes "GetUserIDs l n s = []" and "0 < n" and "(i, u) \<in> set (users s)"
  shows "i \<le> l"
proof -
  from assms(1,2) have "filter (\<lambda>i. l < i) (map fst (users s)) = []"
    by (metis GetUserIDs_def length_0_conv length_sort list.size(3) not_gr_zero take_eq_Nil)
  with assms(3) show ?thesis by (force simp: filter_empty_conv)
qed

lemma batch_ok_next: "batch_ok l (i # js) hi \<Longrightarrow> batch_ok i js hi \<and> l < i \<and> (\<forall>j \<in> set js. i < j) \<and> i \<le> hi"
  by (cases js rule: rev_cases) (auto simp: batch_ok_def)

lemma batch_ok_range: "batch_ok l js hi \<Longrightarrow> l \<le> hi \<and> (\<forall>j \<in> set js. l < j \<and> j \<le> hi)"
  by (cases js rule: rev_cases) (auto simp: batch_ok_def sorted_wrt_append less_imp_le)

lemma created_waiting:
  assumes "progress_ok w" and "\<not> last_fetched w"
  shows "waiting (w\<lparr>db := t, given := g, extras := xs, late := l\<rparr>) (userSeq (db w) + 1)"
  using assms by (cases "batch w") (auto simp: progress_ok_def last_fetched_def waiting_def)

lemma created_progress:
  assumes "progress_ok w" and "userSeq t = userSeq (db w) + 1"
  shows "progress_ok (w\<lparr>db := t, given := (given w)(userSeq (db w) + 1 := p), extras := xs, late := l\<rparr>)"
  using assms by (cases "batch w") (auto simp: progress_ok_def dest: batch_ok_range)

lemma created_ok:
  assumes ok: "migration_ok w" and new: "created (given w) (db w) i p u t"
    and ns: "ns \<noteq> [] \<longrightarrow> userPhones t i \<noteq> []" and late: "late w \<longrightarrow> l"
    and found: "l \<or> userPhones t i \<noteq> [] \<or> (Phone u = Some p \<and> \<not> last_fetched w)"
  shows "migration_ok (w\<lparr>db := t, given := (given w)(i := p), extras := map (Pair i) ns @ extras w, late := l\<rparr>)"
    (is "migration_ok ?v")
proof -
  from new have i: "i = userSeq (db w) + 1" and t: "memory_ok ((given w)(i := p)) t" "userSeq t = i"
      "users t = (i, u) # users (db w)" "\<And>j. j \<noteq> i \<Longrightarrow> userPhones t j = userPhones (db w) j"
    by (auto simp: created_def)
  have store: "memory_ok (given w) (db w)" using ok by (simp add: migration_ok_def)
  note fresh = memory_ok_fresh [OF store, folded i]
  have prog: "progress_ok ?v" using ok created_progress [of w t] t(2) i by (simp add: migration_ok_def)
  have "callers_ok ?v"
  proof -
    have "callers_ok w" using ok by (simp add: migration_ok_def)
    with fresh t(3,4) ns show ?thesis
      unfolding callers_ok_def by (auto; fastforce)
  qed
  moreover have "late ?v \<or> early ?v \<or> kept ?v"
  proof (cases "l \<or> early w")
    case False
    with ok late have "kept w" by (auto simp: migration_ok_def)
    moreover have "waiting w j \<Longrightarrow> waiting ?v j" for j by (cases "batch w") (simp_all add: waiting_def)
    moreover have "waiting ?v i" if "\<not> last_fetched w"
      using created_waiting [OF _ that] ok i by (simp add: migration_ok_def)
    moreover have "j \<noteq> i" if "(j, v) \<in> set (users (db w))" for j v
      using that fresh(1) by (force simp: map_of_eq_None_iff)
    ultimately show ?thesis using found False t(3,4) by (fastforce simp: kept_def)
  qed auto
  ultimately show ?thesis using t(1) prog by (simp add: migration_ok_def)
qed

text \<open>Saving a phone entry that is the given one, or one more.\<close>

lemma save_ok:
  assumes ok: "migration_ok w" and n: "prim \<and> n = given w i \<or> userPhones (db w) i \<noteq> []"
  defines "t \<equiv> snd (SavePhoneEntry i n prim (db w))"
  shows "migration_ok (w\<lparr>db := t\<rparr>)"
proof -
  have "memory_ok (given w) t" using ok n SavePhoneEntry_ok by (auto simp: migration_ok_def t_def)
  moreover have "progress_ok (w\<lparr>db := t\<rparr>)"
    using ok by (simp add: migration_ok_def progress_ok_def t_def SavePhoneEntry_frame cong: batch.case_cong)
  moreover have "callers_ok (w\<lparr>db := t\<rparr>)"
    using ok SavePhoneEntry_nonempty(1) by (fastforce simp: migration_ok_def callers_ok_def t_def SavePhoneEntry_frame)
  moreover have "waiting (w\<lparr>db := t\<rparr>) j = waiting w j" for j
    by (cases "batch w") (simp_all add: waiting_def)
  then have "kept w \<Longrightarrow> kept (w\<lparr>db := t\<rparr>)"
    using SavePhoneEntry_nonempty(1) by (fastforce simp: kept_def t_def SavePhoneEntry_frame)
  ultimately show ?thesis using ok by (auto simp: migration_ok_def)
qed

text \<open>A step of the backfill leaves everything but its progress alone, a caller only what callers hold.\<close>

definition same_data :: "migration \<Rightarrow> migration \<Rightarrow> bool" where
  "same_data v w \<longleftrightarrow> db v = db w \<and> given v = given w \<and> late v = late w \<and> early v = early w"

lemma backfill_frame_ok:
  assumes "migration_ok w" and "same_data v w" and "readers v = readers w" "savers v = savers w" "extras v = extras w"
    and "progress_ok v"
    and "\<And>i u. (i, u) \<in> set (users (db w)) \<Longrightarrow> given w i \<noteq> [] \<Longrightarrow> userPhones (db w) i = [] \<Longrightarrow> Phone u = Some (given w i) \<Longrightarrow>
           waiting w i \<Longrightarrow> waiting v i"
  shows "migration_ok v"
proof -
  have "callers_ok v" using assms(1-5) by (simp add: migration_ok_def callers_ok_def same_data_def)
  moreover have "kept w \<Longrightarrow> kept v" using assms(2,7) by (fastforce simp: kept_def same_data_def)
  ultimately show ?thesis using assms(1,2,6) by (auto simp: migration_ok_def same_data_def)
qed

lemma caller_step_ok:
  assumes "migration_ok w" and "same_data v w" and "batch v = batch w" "LastProcessedID v = LastProcessedID w"
    "IsComplete v = IsComplete w" and "callers_ok v"
  shows "migration_ok v"
proof -
  have "waiting v = waiting w" using assms(3-5) by (intro ext, cases "batch w") (simp_all add: waiting_def)
  then have "kept w \<Longrightarrow> kept v" using assms(2) by (simp add: kept_def same_data_def)
  moreover have "progress_ok w \<Longrightarrow> progress_ok v"
    using assms(2-5) by (cases "batch w") (simp_all add: progress_ok_def same_data_def)
  ultimately show ?thesis using assms(1,2,6) by (auto simp: migration_ok_def same_data_def)
qed

lemma callers_fewer:
  assumes "migration_ok w" and "set rs \<subseteq> set (readers w)" and "set ss \<subseteq> set (savers w)" and "set es \<subseteq> set (extras w)"
  shows "migration_ok (w\<lparr>readers := rs, savers := ss, extras := es\<rparr>)"
proof (rule caller_step_ok [OF assms(1)])
  have "callers_ok w" using assms(1) by (simp add: migration_ok_def)
  with assms(2-4) show "callers_ok (w\<lparr>readers := rs, savers := ss, extras := es\<rparr>)"
    unfolding callers_ok_def by (simp add: subset_iff) blast
qed (simp_all add: same_data_def)

lemma drop_column_ok:
  assumes "migration_ok w"
  shows "migration_ok (w\<lparr>db := ApplyContractDropLegacyColumn (db w), early := early w \<or> \<not> IsComplete w\<rparr>)"
    (is "migration_ok ?v")
proof -
  have "memory_ok (given w) (ApplyContractDropLegacyColumn (db w))"
    using assms drop_ok by (simp add: migration_ok_def)
  moreover have "progress_ok ?v"
    using assms by (cases "batch w") (simp_all add: migration_ok_def progress_ok_def ApplyContractDropLegacyColumn_def)
  moreover have "callers_ok ?v"
    using assms unfolding migration_ok_def callers_ok_def by (auto simp: map_of_dropped dropped_frame; fastforce)
  moreover have "kept ?v" if "kept w" "IsComplete w"
    using that by (fastforce simp: kept_def waiting_def ApplyContractDropLegacyColumn_def)
  ultimately show ?thesis using assms by (auto simp: migration_ok_def)
qed

lemma backfill_keeps_ok:
  assumes "backfill_step bs w v" and "0 < bs" and ok: "migration_ok w"
  shows "migration_ok v"
  using assms(1)
proof cases
  case (fetch i js)
  have "memory_ok (given w) (db w)" using ok by (simp add: migration_ok_def)
  note fetched = GetUserIDs_next [OF this fetch(4), simplified]
  show ?thesis
  proof (rule backfill_frame_ok [OF ok])
    show "progress_ok v" using fetched(1,2) fetch(1,3) by (simp add: progress_ok_def)
  next
    fix k u
    assume "(k, u) \<in> set (users (db w))" "waiting w k"
    then show "waiting v k" using fetched(3) [of k u] fetch(1-3) by (auto simp: waiting_def)
  qed (simp_all add: fetch(1) same_data_def)
next
  case fetch_none
  have "i \<le> LastProcessedID w" if "(i, u) \<in> set (users (db w))" for i u
    using GetUserIDs_none [OF fetch_none(4) \<open>0 < bs\<close> that] .
  with fetch_none ok show ?thesis
    by (intro backfill_frame_ok [OF ok])
      (fastforce simp: same_data_def progress_ok_def waiting_def migration_ok_def)+
next
  case (pass i js hi final u)
  have b: "batch_ok (LastProcessedID w) (i # js) hi" "hi \<le> userSeq (db w)" "\<not> IsComplete w"
    and d: "distinct (map fst (users (db w)))"
    using ok pass(2) by (auto simp: migration_ok_def progress_ok_def memory_ok_def)
  have "x = u" if "(i, x) \<in> set (users (db w))" for x
    using pass(3) that d by (simp add: GetStoredUser_def split: option.splits)
  with pass batch_ok_next [OF b(1)] b(2,3) show ?thesis
    by (intro backfill_frame_ok [OF ok]) (auto simp: same_data_def progress_ok_def waiting_def)
next
  case (look i js hi final u p)
  have b: "batch_ok (LastProcessedID w) (i # js) hi" "hi \<le> userSeq (db w)" "\<not> IsComplete w"
    and s: "memory_ok (given w) (db w)"
    using ok look(2) by (auto simp: migration_ok_def progress_ok_def)
  have "p = given w i"
    using memory_ok_user [OF s, of i u] look(3,4) by (simp add: GetStoredUser_def split: option.splits)
  with look b show ?thesis
    by (intro backfill_frame_ok [OF ok]) (auto simp: same_data_def progress_ok_def waiting_def)
next
  case (has_phones i p js hi final es)
  have b: "batch_ok (LastProcessedID w) (i # js) hi" "hi \<le> userSeq (db w)" "\<not> IsComplete w"
    using ok has_phones(2) by (auto simp: migration_ok_def progress_ok_def)
  have "userPhones (db w) i \<noteq> []" using has_phones(3,4) by (simp add: GetPhones_def split: option.splits)
  with has_phones batch_ok_next [OF b(1)] b(2,3) show ?thesis
    by (intro backfill_frame_ok [OF ok]) (auto simp: same_data_def progress_ok_def waiting_def)
next
  case (no_phones i p js hi final)
  with ok show ?thesis
    by (intro backfill_frame_ok [OF ok]) (auto simp: same_data_def progress_ok_def waiting_def migration_ok_def)
next
  case (save i p js hi final)
  have b: "batch_ok (LastProcessedID w) (i # js) hi" "hi \<le> userSeq (db w)" "\<not> IsComplete w" "p = given w i"
    using ok save(2) by (auto simp: migration_ok_def progress_ok_def)
  let ?u = "w\<lparr>db := snd (SavePhoneEntry i p True (db w))\<rparr>"
  have u: "migration_ok ?u" using b(4) by (intro save_ok [OF ok]) simp
  have saved: "userPhones (db ?u) i \<noteq> []" if "(i, x) \<in> set (users (db ?u))" for x
    using SavePhoneEntry_nonempty(2) [of "db w" i p True] that
    by (auto simp: SavePhoneEntry_frame dest!: weak_map_of_SomeI)
  show ?thesis
  proof (rule backfill_frame_ok [OF u])
    show "progress_ok v"
      using save(1) batch_ok_next [OF b(1)] b(2,3) by (simp add: progress_ok_def SavePhoneEntry_frame)
  next
    fix k x
    assume "(k, x) \<in> set (users (db ?u))" "userPhones (db ?u) k = []" "waiting ?u k"
    moreover from this saved have "k \<noteq> i" by blast
    ultimately show "waiting v k" using save by (simp add: waiting_def)
  qed (simp_all add: save(1) same_data_def)
next
  case (batch_done hi final)
  have b: "batch_ok (LastProcessedID w) [] hi" "hi \<le> userSeq (db w)" "\<not> IsComplete w"
    using ok batch_done(2) by (auto simp: migration_ok_def progress_ok_def)
  with batch_done show ?thesis
    by (intro backfill_frame_ok [OF ok]) (auto simp: same_data_def progress_ok_def waiting_def batch_ok_def)
qed

lemma migration_step_ok:
  assumes "migration_step bs w v" and "0 < bs" and ok: "migration_ok w"
  shows "migration_ok v"
  using assms(1)
proof cases
  case backfill
  then show ?thesis using backfill_keeps_ok assms(2) ok by blast
next
  case (create_legacy name phone i s)
  have "memory_ok (given w) (db w)" using ok by (simp add: migration_ok_def)
  from CreateLegacy_created [OF this create_legacy(2)]
  have "migration_ok (w\<lparr>db := s, given := (given w)(i := phone), extras := map (Pair i) [] @ extras w,
      late := late w \<or> last_fetched w\<rparr>)"
    by (rule created_ok [OF ok]) simp_all
  then show ?thesis by (simp add: create_legacy(1))
next
  case (create_dual name phone i s ns)
  have "memory_ok (given w) (db w)" using ok by (simp add: migration_ok_def)
  from this create_dual(2) obtain u where "created (given w) (db w) i phone u s" "userPhones s i \<noteq> []"
    by (rule CreateDual_created)
  from created_ok [OF ok this(1), of ns "late w"] this(2) show ?thesis by (simp add: create_dual(1))
next
  case (create_modern name phone ns i s)
  have "memory_ok (given w) (db w)" using ok by (simp add: migration_ok_def)
  from this create_modern(2) obtain u where "created (given w) (db w) i phone u s" "userPhones s i \<noteq> []"
    by (rule CreateModern_created)
  from created_ok [OF ok this(1), of "[]" "late w"] this(2) show ?thesis by (simp add: create_modern(1))
next
  case (save_extra i n)
  have "userPhones (db w) i \<noteq> []" using ok save_extra(2) by (fastforce simp: migration_ok_def callers_ok_def)
  then have "migration_ok (w\<lparr>db := snd (SavePhoneEntry i n False (db w))\<rparr>)" by (intro save_ok [OF ok]) simp
  from callers_fewer [OF this, of "readers w" "savers w" "remove1 (i, n) (extras w)"] show ?thesis
    by (simp add: save_extra(1) set_remove1_subset)
next
  case (save_lazily i p)
  have "p = given w i" using ok save_lazily(2) by (fastforce simp: migration_ok_def callers_ok_def)
  then have "migration_ok (w\<lparr>db := snd (SavePhoneEntry i p True (db w))\<rparr>)" by (intro save_ok [OF ok]) simp
  from callers_fewer [OF this, of "readers w" "remove1 (i, p) (savers w)" "extras w"] show ?thesis
    by (simp add: save_lazily(1) set_remove1_subset)
next
  case drop_column
  then show ?thesis using drop_column_ok [OF ok] by simp
next
  case (read_user i u)
  have u: "map_of (users (db w)) i = Some u" using read_user(2) by (simp add: GetStoredUser_def split: option.splits)
  have "callers_ok v"
    using ok u memory_ok_user [of "given w" "db w" i u] unfolding migration_ok_def callers_ok_def read_user(1) by auto
  then show ?thesis by (rule caller_step_ok [OF ok, rotated -1]) (simp_all add: read_user(1) same_data_def)
next
  case (read_phones i u es m)
  have c: "callers_ok w" using ok by (simp add: migration_ok_def)
  have "callers_ok (w\<lparr>savers := (case lazy_save m u es of None \<Rightarrow> savers w | Some p \<Rightarrow> (i, p) # savers w)\<rparr>)"
  proof -
    from c read_phones(2) obtain x where x: "map_of (users (db w)) i = Some x" "\<And>p. Phone u = Some p \<Longrightarrow> p = given w i"
      unfolding callers_ok_def by blast
    then have "p = given w i" if "lazy_save m u es = Some p" for p
      using that by (auto simp: lazy_save_def split: if_splits)
    with c x(1) show ?thesis by (cases "lazy_save m u es") (simp_all add: callers_ok_def)
  qed
  then have "migration_ok (w\<lparr>savers := (case lazy_save m u es of None \<Rightarrow> savers w | Some p \<Rightarrow> (i, p) # savers w)\<rparr>)"
    by (rule caller_step_ok [OF ok, rotated -1]) (simp_all add: same_data_def)
  from callers_fewer [OF this, of "remove1 (i, u) (readers w)"
      "case lazy_save m u es of None \<Rightarrow> savers w | Some p \<Rightarrow> (i, p) # savers w" "extras w"] show ?thesis
    by (simp add: read_phones(1) set_remove1_subset)
next
  case (cancel i js hi final)
  have b: "batch_ok (LastProcessedID w) (i # js) hi" "hi \<le> userSeq (db w)"
    using ok cancel(2) by (auto simp: migration_ok_def progress_ok_def)
  from cancel batch_ok_range [OF b(1)] b(2) show ?thesis
    by (intro backfill_frame_ok [OF ok]) (auto simp: same_data_def progress_ok_def waiting_def)
qed

text \<open>\<open>NewBackfillWorker\<close> takes 100 for a size that is not positive.\<close>

definition batch_size :: "int \<Rightarrow> nat" where
  "batch_size n = (if n \<le> 0 then 100 else nat n)"

lemma batch_size_pos: "0 < batch_size n"
  by (simp add: batch_size_def)

lemma migration_start_ok: "w = migration_start \<Longrightarrow> migration_ok w"
  by (simp add: migration_start_def migration_ok_def memory_ok_def phones_ok_def head_ok_def NewMemoryStore_def
      progress_ok_def callers_ok_def kept_def)

interpretation migrating: guarded_system "\<lambda>w. w = migration_start" "migration_step (batch_size n)" migration_ok for n
  by unfold_locales (blast intro: migration_start_ok migration_step_ok [OF _ batch_size_pos])+

lemma head_ok_primary: "head_ok p es \<Longrightarrow> es \<noteq> [] \<Longrightarrow> primary_number es = p"
  by (cases es) (simp_all add: head_ok_def primary_number_def)

text \<open>What a caller that has read the user, now or earlier, makes of the phones it reads.\<close>

lemma reads_given:
  assumes ok: "migration_ok w" and "\<not> late w" and "\<not> early w"
    and v: "map_of (users (db w)) i = Some v" and u: "Phone v = None \<or> Phone v = Phone u"
    and p: "\<And>p. Phone u = Some p \<Longrightarrow> p = given w i"
  shows "phone_val ReadFallback u (userPhones (db w) i) = given w i"
    and "IsComplete w \<Longrightarrow> phone_val ReadNewOnly u (userPhones (db w) i) = given w i"
proof -
  have h: "head_ok (given w i) (userPhones (db w) i)" using ok by (auto simp: migration_ok_def memory_ok_def phones_ok_def)
  have k: "given w i = [] \<or> userPhones (db w) i \<noteq> [] \<or> (Phone v = Some (given w i) \<and> waiting w i)"
    using ok assms(2,3) map_of_SomeD [OF v] by (auto simp: migration_ok_def kept_def)
  show "phone_val ReadFallback u (userPhones (db w) i) = given w i"
    using head_ok_primary [OF h] k u p by (cases "Phone u") (auto simp: phone_val_def)
  show "phone_val ReadNewOnly u (userPhones (db w) i) = given w i" if "IsComplete w"
    using head_ok_primary [OF h] k that by (auto simp: phone_val_def waiting_def)
qed

text \<open>C12. Whatever callers create and read while the backfill runs, in batches of any size and with
cancelled contexts, as long as nobody creates a user in the old way after the backfill has fetched its
last batch and the column is not dropped before the backfill is complete: a fallback read always
returns the phone the user was created with, and from the end of the backfill on so does a read of the
new table alone, before and after the column is dropped.\<close>

theorem migration_loses_nothing:
  assumes "reachable (\<lambda>w. w = migration_start) (migration_step (batch_size n)) w"
    and "\<not> late w" and "\<not> early w" and "(i, u) \<in> set (readers w) \<union> set (users (db w))"
  shows "phone_val ReadFallback u (userPhones (db w) i) = given w i \<and>
    (IsComplete w \<longrightarrow> phone_val ReadNewOnly u (userPhones (db w) i) = given w i)"
proof -
  have ok: "migration_ok w" by (rule migrating.reachable_inv [OF assms(1)])
  then have d: "distinct (map fst (users (db w)))" by (simp add: migration_ok_def memory_ok_def)
  obtain v where v: "map_of (users (db w)) i = Some v" "Phone v = None \<or> Phone v = Phone u"
      "\<And>p. Phone u = Some p \<Longrightarrow> p = given w i"
    using ok assms(4) map_of_is_SomeI [OF d] unfolding migration_ok_def callers_ok_def memory_ok_def by fast
  with reads_given [OF ok assms(2,3) v(1), of u] show ?thesis by blast
qed

theorem migration_loses_nothing_witness:
  "\<exists>(w :: migration) u. legacyDropped (db w) \<and> IsComplete w \<and> (1, u) \<in> set (users (db w)) \<and>
     phone_val ReadFallback u (userPhones (db w) 1) = [49] \<and> phone_val ReadNewOnly u (userPhones (db w) 1) = [49]"
proof -
  let ?r = "reachable (\<lambda>w. w = migration_start) (migration_step (batch_size 50))"
  have "?r migration_start" by (rule reachable.start) simp
  from reachable.move [OF this migration_step.backfill [OF backfill_step.fetch_none]]
  have "?r (migration_start\<lparr>IsComplete := True\<rparr>)"
    by (simp add: migration_start_def NewMemoryStore_def GetUserIDs_def)
  from reachable.move [OF this migration_step.create_dual [of "[]" "[49]" _ 1 _ _ "[]"]]
  obtain w1 where "?r w1" "IsComplete w1" "\<not> late w1" "\<not> early w1" "given w1 1 = [49]"
      "users (db w1) = [(1, \<lparr>UserName = [], Phone = Some [49]\<rparr>)]"
    by (auto simp: migration_start_def NewMemoryStore_def CreateDual_def add_user_def add_entry_def)
  with reachable.move [OF this(1) migration_step.drop_column]
  obtain w where w: "?r w" "IsComplete w" "\<not> late w" "\<not> early w" "given w 1 = [49]" "legacyDropped (db w)"
      "(1, \<lparr>UserName = [], Phone = None\<rparr>) \<in> set (users (db w))"
    by (auto simp: ApplyContractDropLegacyColumn_def)
  have "phone_val ReadFallback \<lparr>UserName = [], Phone = None\<rparr> (userPhones (db w) 1) = [49] \<and>
      phone_val ReadNewOnly \<lparr>UserName = [], Phone = None\<rparr> (userPhones (db w) 1) = [49]"
    using migration_loses_nothing [OF w(1,3,4), of 1 "\<lparr>UserName = [], Phone = None\<rparr>"] w(2,5,7) by simp
  with w(2,6,7) show ?thesis by blast
qed

section \<open>The backfill comes to its end\<close>

definition user_ids :: "migration \<Rightarrow> nat set" where
  "user_ids w = fst ` set (users (db w))"

definition batch_known :: "migration \<Rightarrow> bool" where
  "batch_known w \<longleftrightarrow>
     (case batch w of
        Idle \<Rightarrow> True
      | Fetched js _ _ \<Rightarrow> set js \<subseteq> user_ids w
      | Looked i _ js _ _ \<Rightarrow> set (i # js) \<subseteq> user_ids w
      | Saving i _ js _ _ \<Rightarrow> set (i # js) \<subseteq> user_ids w)"

definition to_do :: "migration \<Rightarrow> nat" where
  "to_do w =
     (if IsComplete w then 0
      else 6 * card {i \<in> user_ids w. LastProcessedID w < i} +
        (case batch w of Idle \<Rightarrow> 3 | Fetched js _ _ \<Rightarrow> if js = [] then 4 else 2 | Looked _ _ _ _ _ \<Rightarrow> 1 | Saving _ _ _ _ _ \<Rightarrow> 0))"

definition sound_step :: "nat \<Rightarrow> migration \<Rightarrow> migration \<Rightarrow> bool" where
  "sound_step bs w v \<longleftrightarrow> migration_ok w \<and> batch_known w \<and> backfill_step bs w v"

lemma backfill_users: "backfill_step bs w v \<Longrightarrow> user_ids v = user_ids w \<and> given v = given w \<and> late v = late w \<and> early v = early w"
  by (induction rule: backfill_step.induct) (simp_all add: user_ids_def SavePhoneEntry_frame)

lemma backfill_known: "backfill_step bs w v \<Longrightarrow> batch_known w \<Longrightarrow> batch_known v"
proof (induction rule: backfill_step.induct)
  case (fetch w i js)
  then have "set (i # js) \<subseteq> set (sort (filter (\<lambda>i. LastProcessedID w < i) (map fst (users (db w)))))"
    unfolding GetUserIDs_def by (metis set_take_subset)
  then show ?case by (auto simp: batch_known_def user_ids_def)
qed (simp_all add: batch_known_def user_ids_def SavePhoneEntry_frame)

lemma processed_less:
  assumes "batch_ok (LastProcessedID w) (i # js) hi" and "i \<in> user_ids w"
  shows "card {k \<in> user_ids w. i < k} < card {k \<in> user_ids w. LastProcessedID w < k}"
proof (rule psubset_card_mono)
  show "finite {k \<in> user_ids w. LastProcessedID w < k}" by (simp add: user_ids_def)
  from batch_ok_next [OF assms(1)] assms(2)
  show "{k \<in> user_ids w. i < k} \<subset> {k \<in> user_ids w. LastProcessedID w < k}" by auto
qed

lemma to_do_less:
  assumes "sound_step bs w v"
  shows "to_do v < to_do w"
proof -
  have b: "backfill_step bs w v" and p: "progress_ok w" and k: "batch_known w"
    using assms by (auto simp: sound_step_def migration_ok_def)
  from b show ?thesis
  proof cases
    case (pass i js hi final u)
    with p k processed_less [of w i js hi] show ?thesis
      by (auto simp: to_do_def progress_ok_def batch_known_def user_ids_def)
  next
    case (has_phones i p js hi final es)
    with p k processed_less [of w i js hi] show ?thesis
      by (auto simp: to_do_def progress_ok_def batch_known_def user_ids_def)
  next
    case (save i p js hi final)
    with p k processed_less [of w i js hi] show ?thesis
      by (auto simp: to_do_def progress_ok_def batch_known_def user_ids_def SavePhoneEntry_frame)
  qed (use p in \<open>auto simp: to_do_def progress_ok_def user_ids_def\<close>)
qed

lemma backfill_goes_on:
  assumes "batch_known w" and "\<not> IsComplete w"
  shows "\<exists>v. backfill_step bs w v"
proof (cases "batch w")
  case Idle
  with assms(2) show ?thesis
    by (cases "GetUserIDs (LastProcessedID w) bs (db w)") (blast intro: backfill_step.fetch_none backfill_step.fetch)+
next
  case (Fetched js hi final)
  show ?thesis
  proof (cases js)
    case Nil
    with Fetched show ?thesis by (blast intro: backfill_step.batch_done)
  next
    case (Cons i is')
    with Fetched assms(1) have "i \<in> fst ` set (users (db w))" by (auto simp: batch_known_def user_ids_def)
    then obtain u where u: "GetStoredUser i (db w) = Inr u"
      by (force simp: GetStoredUser_def dest!: weak_map_of_SomeI)
    with Fetched Cons show ?thesis
      by (cases "Phone u"; cases "the (Phone u) = []") (force intro: backfill_step.pass backfill_step.look)+
  qed
next
  case (Looked i p js hi final)
  with assms(1) have "i \<in> fst ` set (users (db w))" by (auto simp: batch_known_def user_ids_def)
  then obtain es where "GetPhones i (db w) = Inr es" by (force simp: GetPhones_def dest!: weak_map_of_SomeI)
  with Looked show ?thesis by (cases es) (blast intro: backfill_step.has_phones backfill_step.no_phones)+
next
  case (Saving i p js hi final)
  then show ?thesis by (blast intro: backfill_step.save)
qed

interpretation backfilling: resting_system "sound_step (batch_size n)" "\<lambda>w. migration_ok w \<and> batch_known w" to_do IsComplete for n
proof
  show "migration_ok v \<and> batch_known v" if "migration_ok w \<and> batch_known w" "sound_step (batch_size n) w v" for w v
    using that backfill_keeps_ok [OF _ batch_size_pos] backfill_known unfolding sound_step_def by blast
  show "to_do v < to_do w" if "sound_step (batch_size n) w v" for w v
    using that by (rule to_do_less)
  show "IsComplete w" if "migration_ok w \<and> batch_known w" "\<And>v. \<not> sound_step (batch_size n) w v" for w
    using that backfill_goes_on unfolding sound_step_def by blast
qed

lemma sound_run: "run (sound_step bs) w v \<Longrightarrow> run (backfill_step bs) w v \<and> given v = given w \<and> late v = late w \<and> early v = early w"
  by (induction rule: run.induct) (auto simp: sound_step_def dest: backfill_users intro: run.intros)

text \<open>Left alone between two batches, it completes, and then every phone is in the new table.\<close>

lemma backfill_completes:
  assumes "reachable (\<lambda>w. w = migration_start) (migration_step (batch_size n)) w" and "batch w = Idle"
    and "\<not> late w" and "\<not> early w"
  shows "\<exists>v. run (backfill_step (batch_size n)) w v \<and> IsComplete v \<and>
    (\<forall>(i, u) \<in> set (users (db v)). phone_val ReadNewOnly u (userPhones (db v) i) = given w i)"
proof -
  have "migration_ok w \<and> batch_known w"
    using migrating.reachable_inv [OF assms(1)] assms(2) by (simp add: batch_known_def)
  then obtain v where v: "run (sound_step (batch_size n)) w v" "migration_ok v" "IsComplete v"
    by (rule backfilling.comes_to_rest) blast
  from sound_run [OF v(1)] assms(3,4) have same: "run (backfill_step (batch_size n)) w v" "\<not> late v" "\<not> early v" "given v = given w"
    by auto
  have d: "distinct (map fst (users (db v)))" using v(2) by (simp add: migration_ok_def memory_ok_def)
  have "phone_val ReadNewOnly u (userPhones (db v) i) = given w i" if "(i, u) \<in> set (users (db v))" for i u
    using reads_given(2) [OF v(2) same(2,3) map_of_is_SomeI [OF d that], of u]
      memory_ok_user [of "given v" "db v" i u] map_of_is_SomeI [OF d that] v(2,3) same(4)
    by (auto simp: migration_ok_def)
  with same(1) v(3) show ?thesis by blast
qed

section \<open>What loses a phone\<close>

text \<open>
  \<open>ApplyContract\<close> does not ask for the backfill: without it, and without a force, the phone of a
  user that was created in the old way is gone.
\<close>

lemma contract_without_backfill:
  assumes "ServiceCreateUser NewFeatureFlags name phone [] NewMemoryStore = (r, s)"
  shows "\<exists>f t. ApplyContract False 0 NewFeatureFlags s = (Inr f, t) \<and>
    ServiceGetUser f 1 t = (Inr \<lparr>ResponseID = 1, ResponseName = name, ResponsePhone = [], Phones = []\<rparr>, t)"
  using assms
  by (auto simp: ServiceCreateUser_def NewFeatureFlags_def CreateLegacy_def NewMemoryStore_def add_user_def
      ApplyContract_def ApplyContractDropLegacyColumn_def ServiceGetUser_def GetStoredUser_def GetPhones_def
      phone_val_def lazy_save_def)

text \<open>And so is, with a complete backfill, the phone of a user created in the old way after it.\<close>

lemma late_user_lost:
  "\<exists>w u. reachable (\<lambda>w. w = migration_start) (migration_step (batch_size n)) w \<and> IsComplete w \<and> \<not> early w \<and>
     (1, u) \<in> set (users (db w)) \<and> given w 1 = p \<and> (\<forall>m. phone_val m u (userPhones (db w) 1) = [])"
proof -
  let ?r = "reachable (\<lambda>w. w = migration_start) (migration_step (batch_size n))"
  have "?r migration_start" by (rule reachable.start) simp
  from reachable.move [OF this migration_step.backfill [OF backfill_step.fetch_none]]
  have "?r (migration_start\<lparr>IsComplete := True\<rparr>)"
    by (simp add: migration_start_def NewMemoryStore_def GetUserIDs_def)
  from reachable.move [OF this migration_step.create_legacy [of "[]" p _ 1]]
  obtain w where "?r w" "IsComplete w" "\<not> early w" "given w 1 = p" "users (db w) = [(1, \<lparr>UserName = [], Phone = Some p\<rparr>)]"
      "userPhones (db w) 1 = []"
    by (auto simp: migration_start_def NewMemoryStore_def CreateLegacy_def add_user_def)
  with reachable.move [OF this(1) migration_step.drop_column]
  show ?thesis
    by (intro exI [of _ "w\<lparr>db := ApplyContractDropLegacyColumn (db w), early := early w \<or> \<not> IsComplete w\<rparr>"]
        exI [of _ "\<lparr>UserName = [], Phone = None\<rparr>"])
      (auto simp: ApplyContractDropLegacyColumn_def phone_val_def split: ReadMode.splits)
qed

text \<open>
  The audit before the contract counts a user with an empty phone as drift, and the backfill passes
  it by: such a user keeps the count above zero for good.
\<close>

lemma drift_after_backfill:
  assumes "migration_ok w" and "\<not> late w" and "\<not> early w" and "IsComplete w" and "(i, u) \<in> set (users (db w))"
  shows "drifts u (userPhones (db w) i) \<longleftrightarrow> Phone u = Some [] \<and> userPhones (db w) i = []"
proof -
  have s: "memory_ok (given w) (db w)" and k: "kept w" using assms(1-3) by (auto simp: migration_ok_def)
  then have h: "head_ok (given w i) (userPhones (db w) i)" and p: "\<And>p. Phone u = Some p \<Longrightarrow> p = given w i"
    using assms(5) by (auto simp: memory_ok_def phones_ok_def)
  have "userPhones (db w) i = [] \<Longrightarrow> given w i = []"
    using k assms(4,5) by (fastforce simp: kept_def waiting_def)
  with h p show ?thesis
    by (cases "userPhones (db w) i") (auto simp: drifts_def head_ok_def split: option.splits)
qed

lemma empty_phone_drifts:
  "ReconcileData NewFeatureFlags (snd (CreateLegacy name [] NewMemoryStore)) = 1"
  by (simp add: ReconcileData_def NewFeatureFlags_def CreateLegacy_def NewMemoryStore_def add_user_def GetUserIDs_def drifts_def)

end
