(* ===== verification/Constraints.thy ===== *)
theory Constraints
  imports Systems GoText
begin

text \<open>
  Lab 27, \<open>internal\<close>: the table store that checks constraints (\<open>engine/engine.go\<close>), its errors
  (\<open>dberr/errors.go\<close>) and the stores on top of it (\<open>store/store.go\<close>). A call of the engine runs
  under its lock and is one step. Of an error the model has the code, the constraint and the
  table; of an order, what the constraints are about.
\<close>

section \<open>Errors\<close>

datatype SQLState =
  RestrictViolation | NotNullViolation | ForeignKeyViolation | UniqueViolation | CheckViolation
| ExclusionViolation | SerializationFail

definition sql_code :: "SQLState \<Rightarrow> string" where
  "sql_code s =
     (case s of
        RestrictViolation \<Rightarrow> ''23001'' | NotNullViolation \<Rightarrow> ''23502'' | ForeignKeyViolation \<Rightarrow> ''23503''
      | UniqueViolation \<Rightarrow> ''23505'' | CheckViolation \<Rightarrow> ''23514'' | ExclusionViolation \<Rightarrow> ''23P01''
      | SerializationFail \<Rightarrow> ''40001'')"

record ConstraintError =
  Code :: SQLState
  ConstraintName :: string
  TableName :: string

datatype db_error = Constraint ConstraintError | UserNotThere int | NoDeletionTime

definition violation :: "SQLState \<Rightarrow> string \<Rightarrow> string \<Rightarrow> db_error" where
  "violation c tab name = Constraint \<lparr>Code = c, ConstraintName = name, TableName = tab\<rparr>"

definition IsConstraintViolation :: "db_error \<Rightarrow> SQLState \<Rightarrow> bool" where
  "IsConstraintViolation e c = (case e of Constraint x \<Rightarrow> Code x = c | _ \<Rightarrow> False)"

datatype domain_error =
  Conflict string
| InvalidInput string
| ValidationFailed string
| ReferenceError string
| IntegrityViolation
| NotMapped db_error

definition MapToDomainError :: "db_error \<Rightarrow> domain_error" where
  "MapToDomainError e =
     (case e of
        Constraint x \<Rightarrow>
          (case Code x of
             UniqueViolation \<Rightarrow> Conflict (ConstraintName x)
           | NotNullViolation \<Rightarrow> InvalidInput (ConstraintName x)
           | CheckViolation \<Rightarrow> ValidationFailed (ConstraintName x)
           | ForeignKeyViolation \<Rightarrow> ReferenceError (ConstraintName x)
           | _ \<Rightarrow> IntegrityViolation)
      | _ \<Rightarrow> NotMapped e)"

section \<open>The engine\<close>

record UserRow =
  RowID :: int
  Email :: bytes
  Username :: bytes
  Age :: int
  RowStatus :: bytes
  DeletedAt :: "int option"

record OrderRow =
  OrderID :: int
  OrderUser :: int
  TotalCents :: int

record Engine =
  userSeq :: int
  orderSeq :: int
  users :: "int \<rightharpoonup> UserRow"
  orders :: "int \<rightharpoonup> OrderRow"
  emailIndex :: "bytes \<rightharpoonup> int"
  activeEmails :: "bytes \<rightharpoonup> int"

definition NewEngine :: Engine where
  "NewEngine = \<lparr>userSeq = 0, orderSeq = 0, users = Map.empty, orders = Map.empty, emailIndex = Map.empty,
     activeEmails = Map.empty\<rparr>"

text \<open>A row that comes without a key gets the next number of the sequence.\<close>

definition assign_id :: "UserRow \<Rightarrow> Engine \<Rightarrow> UserRow \<times> Engine" where
  "assign_id u e =
     (if RowID u = 0 then (u\<lparr>RowID := userSeq e + 1\<rparr>, e\<lparr>userSeq := userSeq e + 1\<rparr>) else (u, e))"

definition InsertUserUnsafe :: "UserRow \<Rightarrow> Engine \<Rightarrow> UserRow \<times> Engine" where
  "InsertUserUnsafe u e = (let (v, d) = assign_id u e in (v, d\<lparr>users := (users d)(RowID v \<mapsto> v)\<rparr>))"

definition field_error :: "UserRow \<Rightarrow> db_error option" where
  "field_error u =
     (if Email u = [] then Some (violation NotNullViolation ''users'' ''users_email_not_null'')
      else if Username u = [] then Some (violation NotNullViolation ''users'' ''users_username_not_null'')
      else if Age u < 18 then Some (violation CheckViolation ''users'' ''users_age_check'')
      else if RowStatus u \<notin> {map of_char ''active'', map of_char ''suspended'', map of_char ''pending''}
        then Some (violation CheckViolation ''users'' ''users_status_check'')
      else None)"

definition unique_error :: "bool \<Rightarrow> UserRow \<Rightarrow> Engine \<Rightarrow> db_error option" where
  "unique_error partial u e =
     (if partial then
        (if DeletedAt u = None \<and> activeEmails e (Email u) \<noteq> None
         then Some (violation UniqueViolation ''users'' ''users_active_email_idx'') else None)
      else if emailIndex e (Email u) \<noteq> None then Some (violation UniqueViolation ''users'' ''users_email_key'')
      else None)"

definition InsertUser :: "bool \<Rightarrow> UserRow \<Rightarrow> Engine \<Rightarrow> (db_error, UserRow) res \<times> Engine" where
  "InsertUser partial u e =
     (case field_error u of
        Some err \<Rightarrow> (Inl err, e)
      | None \<Rightarrow>
          (case unique_error partial u e of
             Some err \<Rightarrow> (Inl err, e)
           | None \<Rightarrow>
               (let (v, d) = assign_id u e; d1 = d\<lparr>users := (users d)(RowID v \<mapsto> v)\<rparr>
                in (Inr v,
                    if \<not> partial then d1\<lparr>emailIndex := (emailIndex d1)(Email v \<mapsto> RowID v)\<rparr>
                    else if DeletedAt v = None then d1\<lparr>activeEmails := (activeEmails d1)(Email v \<mapsto> RowID v)\<rparr>
                    else d1))))"

definition SoftDeleteUser :: "int \<Rightarrow> int option \<Rightarrow> Engine \<Rightarrow> db_error option \<times> Engine" where
  "SoftDeleteUser i deletedAt e =
     (case users e i of
        None \<Rightarrow> (Some (UserNotThere i), e)
      | Some u \<Rightarrow>
          if deletedAt = None then (Some NoDeletionTime, e)
          else (None, e\<lparr>activeEmails := (activeEmails e)(Email u := None),
                        users := (users e)(i \<mapsto> u\<lparr>DeletedAt := deletedAt\<rparr>)\<rparr>))"

definition InsertOrder :: "OrderRow \<Rightarrow> Engine \<Rightarrow> (db_error, OrderRow) res \<times> Engine" where
  "InsertOrder r e =
     (if OrderUser r = 0 then (Inl (violation NotNullViolation ''orders'' ''orders_user_id_not_null''), e)
      else if TotalCents r \<le> 0 then (Inl (violation CheckViolation ''orders'' ''orders_total_cents_check''), e)
      else if users e (OrderUser r) = None then (Inl (violation ForeignKeyViolation ''orders'' ''fk_orders_user''), e)
      else (let (q, d) = (if OrderID r = 0 then (r\<lparr>OrderID := orderSeq e + 1\<rparr>, e\<lparr>orderSeq := orderSeq e + 1\<rparr>) else (r, e))
            in (Inr q, d\<lparr>orders := (orders d)(OrderID q \<mapsto> q)\<rparr>)))"

definition RegisterUser :: "UserRow \<Rightarrow> Engine \<Rightarrow> (domain_error, UserRow) res \<times> Engine" where
  "RegisterUser u e = (case InsertUser False u e of (Inl err, d) \<Rightarrow> (Inl (MapToDomainError err), d) | (Inr v, d) \<Rightarrow> (Inr v, d))"

definition RegisterUserPartial :: "UserRow \<Rightarrow> Engine \<Rightarrow> (domain_error, UserRow) res \<times> Engine" where
  "RegisterUserPartial u e = (case InsertUser True u e of (Inl err, d) \<Rightarrow> (Inl (MapToDomainError err), d) | (Inr v, d) \<Rightarrow> (Inr v, d))"

definition SafeCreateOrder :: "OrderRow \<Rightarrow> Engine \<Rightarrow> (domain_error, OrderRow) res \<times> Engine" where
  "SafeCreateOrder r e = (case InsertOrder r e of (Inl err, d) \<Rightarrow> (Inl (MapToDomainError err), d) | (Inr v, d) \<Rightarrow> (Inr v, d))"

section \<open>Any calls, one after the other\<close>

text \<open>
  All inserts use the same index. Ghosts: \<open>overwritten\<close>, an insert has met a row with its key;
  \<open>deleted_again\<close>, a row was deleted that was deleted before.
\<close>

record table =
  engine :: Engine
  overwritten :: bool
  deleted_again :: bool

inductive table_step :: "bool \<Rightarrow> table \<Rightarrow> table \<Rightarrow> bool" for partial :: bool where
  insert_user: "InsertUser partial u (engine t) = (Inr v, e) \<Longrightarrow>
    table_step partial t (t\<lparr>engine := e, overwritten := overwritten t \<or> users (engine t) (RowID v) \<noteq> None\<rparr>)"
| soft_delete: "users (engine t) i = Some u \<Longrightarrow> SoftDeleteUser i d (engine t) = (None, e) \<Longrightarrow>
    table_step partial t (t\<lparr>engine := e, deleted_again := deleted_again t \<or> DeletedAt u \<noteq> None\<rparr>)"
| insert_order: "InsertOrder r (engine t) = (Inr q, e) \<Longrightarrow> table_step partial t (t\<lparr>engine := e\<rparr>)"

definition visible :: "bool \<Rightarrow> UserRow \<Rightarrow> bool" where
  "visible partial u \<longleftrightarrow> \<not> partial \<or> DeletedAt u = None"

definition index_of :: "bool \<Rightarrow> Engine \<Rightarrow> bytes \<rightharpoonup> int" where
  "index_of partial e = (if partial then activeEmails e else emailIndex e)"

definition index_ok :: "bool \<Rightarrow> Engine \<Rightarrow> bool" where
  "index_ok partial e \<longleftrightarrow>
     (\<forall>m i. index_of partial e m = Some i \<longleftrightarrow> (\<exists>u. users e i = Some u \<and> Email u = m \<and> visible partial u))"

definition rows_ok :: "Engine \<Rightarrow> bool" where
  "rows_ok e \<longleftrightarrow> (\<forall>i u. users e i = Some u \<longrightarrow> RowID u = i \<and> field_error u = None) \<and>
     (\<forall>i r. orders e i = Some r \<longrightarrow> 0 < TotalCents r \<and> users e (OrderUser r) \<noteq> None)"

definition table_ok :: "bool \<Rightarrow> table \<Rightarrow> bool" where
  "table_ok partial t \<longleftrightarrow> rows_ok (engine t) \<and> (overwritten t \<or> deleted_again t \<or> index_ok partial (engine t))"

section \<open>The constraints hold\<close>

lemma field_error_frame: "field_error (u\<lparr>RowID := i\<rparr>) = field_error u" "field_error (u\<lparr>DeletedAt := d\<rparr>) = field_error u"
  by (simp_all add: field_error_def)

lemma unique_error_frame: "unique_error partial (u\<lparr>RowID := i\<rparr>) e = unique_error partial u e"
  by (simp add: unique_error_def)

lemma InsertUser_Inr:
  assumes "InsertUser partial u e = (Inr v, d)"
  shows "field_error v = None" and "unique_error partial v e = None" and "users d = (users e)(RowID v \<mapsto> v)"
    and "orders d = orders e"
    and "index_of partial d = (if visible partial v then (index_of partial e)(Email v \<mapsto> RowID v) else index_of partial e)"
proof -
  from assms have f: "field_error u = None" "unique_error partial u e = None"
    by (auto simp: InsertUser_def split: option.splits)
  with assms have v: "v = fst (assign_id u e)" by (auto simp: InsertUser_def Let_def split: prod.splits)
  then show "field_error v = None" "unique_error partial v e = None"
    using f by (simp_all add: assign_id_def field_error_frame unique_error_frame)
  show "users d = (users e)(RowID v \<mapsto> v)" "orders d = orders e"
    "index_of partial d = (if visible partial v then (index_of partial e)(Email v \<mapsto> RowID v) else index_of partial e)"
    using assms f unfolding v
    by (auto simp: InsertUser_def assign_id_def Let_def index_of_def visible_def split: if_splits)
qed

lemma insert_rows:
  assumes "InsertUser partial u e = (Inr v, d)" and "rows_ok e"
  shows "rows_ok d"
  using assms(2) InsertUser_Inr [OF assms(1)] by (auto simp: rows_ok_def)

lemma insert_index:
  assumes "InsertUser partial u e = (Inr v, d)" and "index_ok partial e" and "users e (RowID v) = None"
  shows "index_ok partial d"
proof -
  note ins = InsertUser_Inr [OF assms(1)]
  have free: "index_of partial e (Email v) = None" if "visible partial v"
    using ins(2) that by (auto simp: unique_error_def index_of_def visible_def split: if_splits)
  show ?thesis
    unfolding index_ok_def
  proof (intro allI)
    fix m i
    have e: "index_of partial e m = Some i \<longleftrightarrow> (\<exists>u. users e i = Some u \<and> Email u = m \<and> visible partial u)"
      using assms(2) by (simp add: index_ok_def)
    show "index_of partial d m = Some i \<longleftrightarrow> (\<exists>u. users d i = Some u \<and> Email u = m \<and> visible partial u)"
      using e free assms(3) unfolding ins(3,5) by (cases "i = RowID v"; cases "m = Email v") auto
  qed
qed

lemma SoftDeleteUser_None:
  assumes "SoftDeleteUser i d e = (None, e')" and "users e i = Some u"
  shows "d \<noteq> None" and "e' = e\<lparr>activeEmails := (activeEmails e)(Email u := None), users := (users e)(i \<mapsto> u\<lparr>DeletedAt := d\<rparr>)\<rparr>"
  using assms by (auto simp: SoftDeleteUser_def split: if_splits)

lemma delete_rows:
  assumes "SoftDeleteUser i d e = (None, e')" and "users e i = Some u" and "rows_ok e"
  shows "rows_ok e'"
  unfolding SoftDeleteUser_None(2) [OF assms(1,2)]
  using assms(2,3) by (auto simp: rows_ok_def field_error_frame)

lemma delete_index:
  assumes "SoftDeleteUser i d e = (None, e')" and "users e i = Some u" and "DeletedAt u = None" and "index_ok partial e"
  shows "index_ok partial e'"
proof -
  note del = SoftDeleteUser_None [OF assms(1,2)]
  show ?thesis
    unfolding index_ok_def
  proof (intro allI)
    fix m j
    have e: "index_of partial e m = Some j \<longleftrightarrow> (\<exists>u. users e j = Some u \<and> Email u = m \<and> visible partial u)" for m j
      using assms(4) by (simp add: index_ok_def)
    show "index_of partial e' m = Some j \<longleftrightarrow> (\<exists>u. users e' j = Some u \<and> Email u = m \<and> visible partial u)"
      using e [of m j] e [of m i] assms(2,3) del(1) unfolding del(2)
      by (cases "j = i"; cases "m = Email u") (auto simp: index_of_def visible_def)
  qed
qed

lemma order_rows:
  assumes "InsertOrder r e = (Inr q, d)" and "rows_ok e"
  shows "rows_ok d" and "users d = users e" and "index_of partial d = index_of partial e"
  using assms by (auto simp: InsertOrder_def rows_ok_def index_of_def Let_def split: if_splits)

lemma table_step_ok:
  assumes "table_step partial t t'" and "table_ok partial t"
  shows "table_ok partial t'"
  using assms
proof cases
  case (insert_user u v e)
  with insert_rows [OF insert_user(2)] insert_index [OF insert_user(2)] assms(2) show ?thesis
    by (auto simp: table_ok_def)
next
  case (soft_delete i u d e)
  with delete_rows [OF soft_delete(3,2)] delete_index [OF soft_delete(3,2)] assms(2) show ?thesis
    by (auto simp: table_ok_def)
next
  case (insert_order r q e)
  with order_rows [OF insert_order(2)] assms(2) show ?thesis by (auto simp: table_ok_def index_ok_def)
qed

definition empty_table :: table where
  "empty_table = \<lparr>engine = NewEngine, overwritten = False, deleted_again = False\<rparr>"

lemma empty_table_ok: "t = empty_table \<Longrightarrow> table_ok partial t"
  by (simp add: empty_table_def table_ok_def rows_ok_def index_ok_def NewEngine_def index_of_def)

interpretation table: guarded_system "\<lambda>t. t = empty_table" "table_step partial" "table_ok partial" for partial
  by unfold_locales (blast intro: empty_table_ok table_step_ok)+

definition taken :: "bool \<Rightarrow> UserRow \<Rightarrow> Engine \<Rightarrow> bool" where
  "taken partial u e \<longleftrightarrow> visible partial u \<and> (\<exists>i v. users e i = Some v \<and> Email v = Email u \<and> visible partial v)"

lemma unique_error_iff: "index_ok partial e \<Longrightarrow> unique_error partial u e \<noteq> None \<longleftrightarrow> taken partial u e"
proof -
  assume "index_ok partial e"
  then have "index_of partial e (Email u) \<noteq> None \<longleftrightarrow> (\<exists>i v. users e i = Some v \<and> Email v = Email u \<and> visible partial v)"
    unfolding index_ok_def by (metis not_None_eq)
  then show ?thesis by (auto simp: unique_error_def taken_def index_of_def visible_def split: if_splits)
qed


definition alice :: UserRow where
  "alice = \<lparr>RowID = 0, Email = [97], Username = [97], Age = 30, RowStatus = map of_char ''active'', DeletedAt = None\<rparr>"

lemma insert_alice:
  assumes "activeEmails e [97] = None"
  shows "InsertUser True alice e = (Inr (alice\<lparr>RowID := userSeq e + 1\<rparr>),
    e\<lparr>userSeq := userSeq e + 1, users := (users e)(userSeq e + 1 \<mapsto> alice\<lparr>RowID := userSeq e + 1\<rparr>),
      activeEmails := (activeEmails e)([97] \<mapsto> userSeq e + 1)\<rparr>)"
  using assms by (simp add: InsertUser_def field_error_def unique_error_def assign_id_def alice_def)

definition alice_table :: table where
  "alice_table = empty_table\<lparr>engine := NewEngine\<lparr>userSeq := 1, users := [1 \<mapsto> alice\<lparr>RowID := 1\<rparr>], activeEmails := [[97] \<mapsto> 1]\<rparr>\<rparr>"

lemma alice_reachable: "reachable (\<lambda>t. t = empty_table) (table_step True) alice_table"
proof -
  have "InsertUser True alice (engine empty_table) = (Inr (alice\<lparr>RowID := 1\<rparr>), engine alice_table)"
    by (subst insert_alice) (simp_all add: empty_table_def alice_table_def NewEngine_def)
  from table_step.insert_user [OF this] have "table_step True empty_table alice_table"
    by (simp add: empty_table_def alice_table_def NewEngine_def)
  moreover have "reachable (\<lambda>t. t = empty_table) (table_step True) empty_table" by (rule reachable.start) simp
  ultimately show ?thesis by (rule reachable.move [rotated])
qed

lemma reachable_insert_alice:
  assumes "reachable (\<lambda>t. t = empty_table) (table_step True) t" and "activeEmails (engine t) [97] = None"
    and "users (engine t) (userSeq (engine t) + 1) = None" and "\<not> overwritten t"
  shows "\<exists>t'. reachable (\<lambda>t. t = empty_table) (table_step True) t' \<and> \<not> overwritten t' \<and>
    userSeq (engine t') = userSeq (engine t) + 1 \<and>
    users (engine t') = (users (engine t))(userSeq (engine t) + 1 \<mapsto> alice\<lparr>RowID := userSeq (engine t) + 1\<rparr>) \<and>
    activeEmails (engine t') = (activeEmails (engine t))([97] \<mapsto> userSeq (engine t) + 1)"
proof -
  let ?n = "userSeq (engine t) + 1"
  let ?e = "(engine t)\<lparr>userSeq := ?n, users := (users (engine t))(?n \<mapsto> alice\<lparr>RowID := ?n\<rparr>),
      activeEmails := (activeEmails (engine t))([97] \<mapsto> ?n)\<rparr>"
  define t' where "t' = t\<lparr>engine := ?e, overwritten := overwritten t \<or> users (engine t) (RowID (alice\<lparr>RowID := ?n\<rparr>)) \<noteq> None\<rparr>"
  have "table_step True t t'"
    unfolding t'_def by (rule table_step.insert_user) (rule insert_alice [OF assms(2)])
  then have "reachable (\<lambda>t. t = empty_table) (table_step True) t'" by (rule reachable.move [OF assms(1)])
  moreover have "\<not> overwritten t'" "engine t' = ?e" by (simp_all add: t'_def assms(3,4))
  ultimately show ?thesis by (intro exI [of _ t'] conjI) simp_all
qed

lemma reachable_delete:
  assumes "reachable (\<lambda>t. t = empty_table) (table_step True) t" and "users (engine t) i = Some u" and "\<not> overwritten t"
  shows "\<exists>t'. reachable (\<lambda>t. t = empty_table) (table_step True) t' \<and> \<not> overwritten t' \<and>
    userSeq (engine t') = userSeq (engine t) \<and>
    users (engine t') = (users (engine t))(i \<mapsto> u\<lparr>DeletedAt := Some 0\<rparr>) \<and>
    activeEmails (engine t') = (activeEmails (engine t))(Email u := None)"
proof -
  let ?e = "(engine t)\<lparr>activeEmails := (activeEmails (engine t))(Email u := None),
      users := (users (engine t))(i \<mapsto> u\<lparr>DeletedAt := Some 0\<rparr>)\<rparr>"
  define t' where "t' = t\<lparr>engine := ?e, deleted_again := deleted_again t \<or> DeletedAt u \<noteq> None\<rparr>"
  have "SoftDeleteUser i (Some 0) (engine t) = (None, ?e)" using assms(2) by (simp add: SoftDeleteUser_def)
  from table_step.soft_delete [OF assms(2) this] have "table_step True t t'" unfolding t'_def .
  then have "reachable (\<lambda>t. t = empty_table) (table_step True) t'" by (rule reachable.move [OF assms(1)])
  moreover have "\<not> overwritten t'" "engine t' = ?e" by (simp_all add: t'_def assms(3))
  ultimately show ?thesis by (intro exI [of _ t'] conjI) simp_all
qed


section \<open>What breaks them\<close>

text \<open>
  Deleting a row a second time frees the e-mail of whoever has it now: two active users have it.
\<close>

lemma second_deletion_breaks:
  "\<exists>t u v. reachable (\<lambda>t. t = empty_table) (table_step True) t \<and> \<not> overwritten t \<and>
     users (engine t) 2 = Some u \<and> users (engine t) 3 = Some v \<and> Email u = Email v \<and> DeletedAt u = None \<and> DeletedAt v = None"
proof -
  let ?r = "reachable (\<lambda>t. t = empty_table) (table_step True)"
  let ?row = "\<lambda>n. alice\<lparr>RowID := n\<rparr>"
  have a: "DeletedAt alice = None" "Email alice = [97]" by (simp_all add: alice_def)
  have t1: "userSeq (engine alice_table) = 1" "users (engine alice_table) = [1 \<mapsto> ?row 1]" "\<not> overwritten alice_table"
    by (simp_all add: alice_table_def empty_table_def)
  obtain t2 where 2: "?r t2" "\<not> overwritten t2" "userSeq (engine t2) = 1" "activeEmails (engine t2) [97] = None"
      "users (engine t2) = [1 \<mapsto> (?row 1)\<lparr>DeletedAt := Some 0\<rparr>]"
    using reachable_delete [OF alice_reachable, of 1 "?row 1"] t1 by (auto simp: a)
  obtain t3 where 3: "?r t3" "\<not> overwritten t3" "userSeq (engine t3) = 2" "users (engine t3) 2 = Some (?row 2)"
      "users (engine t3) 1 = Some ((?row 1)\<lparr>DeletedAt := Some 0\<rparr>)" "users (engine t3) 3 = None"
    using reachable_insert_alice [OF 2(1,4)] 2(2-) by auto
  obtain t4 where 4: "?r t4" "\<not> overwritten t4" "userSeq (engine t4) = 2" "activeEmails (engine t4) [97] = None"
      "users (engine t4) 2 = Some (?row 2)" "users (engine t4) 3 = None"
    using reachable_delete [OF 3(1,5,2)] 3(3-) by (auto simp: a)
  obtain t5 where "?r t5" "\<not> overwritten t5" "users (engine t5) 2 = Some (?row 2)" "users (engine t5) 3 = Some (?row 3)"
    using reachable_insert_alice [OF 4(1,4)] 4(2-) by auto
  moreover have "Email (?row 2) = Email (?row 3)" "DeletedAt (?row 2) = None" "DeletedAt (?row 3) = None" by (simp_all add: a)
  ultimately show ?thesis by blast
qed

text \<open>The primary key is not checked: a row with a key of its own replaces the one that has it.\<close>

lemma key_not_checked:
  assumes "RowID u \<noteq> 0" and "field_error u = None" and "DeletedAt u = None" and "activeEmails e (Email u) = None"
  shows "\<exists>d. InsertUser True u e = (Inr u, d) \<and> users d (RowID u) = Some u"
  using assms by (simp add: InsertUser_def unique_error_def assign_id_def)

section \<open>The store without constraints\<close>

text \<open>\<open>UnsafeStore\<close> looks at the rows 1 to \<open>count\<close>, and inserts later.\<close>

definition duplicate_found :: "UserRow \<Rightarrow> nat \<Rightarrow> Engine \<Rightarrow> bool" where
  "duplicate_found u cnt e \<longleftrightarrow>
     list_ex (\<lambda>i. case users e (int i) of None \<Rightarrow> False | Some v \<Rightarrow> Email v = Email u) [1..<cnt + 1]"

definition unsafe_insert :: "bool \<Rightarrow> UserRow \<Rightarrow> Engine \<Rightarrow> UserRow option \<times> Engine" where
  "unsafe_insert dup u e = (if dup then (None, e) else (let (v, d) = InsertUserUnsafe u e in (Some v, d)))"

text \<open>Two callers that both look first both insert.\<close>

lemma unsafe_race:
  "let dup1 = duplicate_found alice 0 NewEngine; dup2 = duplicate_found alice 0 NewEngine;
       (r1, e1) = unsafe_insert dup1 alice NewEngine; (r2, e2) = unsafe_insert dup2 alice e1
   in r1 = Some (alice\<lparr>RowID := 1\<rparr>) \<and> r2 = Some (alice\<lparr>RowID := 2\<rparr>) \<and>
      users e2 1 = r1 \<and> users e2 2 = r2"
  by (simp add: duplicate_found_def unsafe_insert_def InsertUserUnsafe_def assign_id_def NewEngine_def alice_def)

lemma mapped_codes:
  "MapToDomainError (violation UniqueViolation tab name) = Conflict name"
  "IsConstraintViolation (violation c tab name) d \<longleftrightarrow> c = d"
  by (simp_all add: MapToDomainError_def violation_def IsConstraintViolation_def)

end
