(* ===== verification/ContractDiff.thy ===== *)
theory ContractDiff
  imports GoText
begin

text \<open>
  Lab 26, \<open>internal/contract/verifier.go\<close>: the comparison of an expected body with an actual one,
  and \<open>Verify\<close>, which asks a provider for each interaction of a contract. A decoded body is a JSON
  value with its numbers as texts; an object is its list of fields in the order the loop visits
  them. What the provider answers is an argument, and so is whether a header is as expected
  (\<open>strings.EqualFold\<close> folds Unicode).
\<close>

section \<open>Differences\<close>

datatype json =
  JNull
| JBool bool
| JNumber bytes
| JString bytes
| JArray "json list"
| JObject "(bytes \<times> json) list"

datatype diff =
  ExpectedObject bytes
| MissingField bytes
| TypeMismatch bytes
| ValueMismatch bytes

text \<open>Two slices behind interfaces cannot be compared: \<open>!=\<close> panics.\<close>

datatype go_panic = ComparingUncomparable

definition child_path :: "bytes \<Rightarrow> bytes \<Rightarrow> bytes" where
  "child_path path key = (if path \<noteq> [] then path @ 46 # key else key)"

definition same_type :: "json \<Rightarrow> json \<Rightarrow> bool" where
  "same_type e a \<longleftrightarrow>
     (case (e, a) of
        (JNull, JNull) \<Rightarrow> True | (JBool _, JBool _) \<Rightarrow> True | (JNumber _, JNumber _) \<Rightarrow> True
      | (JString _, JString _) \<Rightarrow> True | (JArray _, JArray _) \<Rightarrow> True | (JObject _, JObject _) \<Rightarrow> True
      | _ \<Rightarrow> False)"

definition diff_primitive :: "bytes \<Rightarrow> json \<Rightarrow> json \<Rightarrow> (go_panic, diff list) res" where
  "diff_primitive path e a =
     (case (e, a) of
        (JNumber m, JNumber n) \<Rightarrow> Inr (if m \<noteq> n then [ValueMismatch path] else [])
      | _ \<Rightarrow>
          if \<not> same_type e a then Inr [TypeMismatch path]
          else (case e of
              JArray _ \<Rightarrow> Inl ComparingUncomparable
            | _ \<Rightarrow> Inr (if e \<noteq> a then [ValueMismatch path] else [])))"

fun diffValues :: "bytes \<Rightarrow> json \<Rightarrow> json \<Rightarrow> (go_panic, diff list) res"
  and diffFields :: "bytes \<Rightarrow> (bytes \<times> json) list \<Rightarrow> (bytes \<times> json) list \<Rightarrow> (go_panic, diff list) res" where
  "diffValues path JNull a = Inr []"
| "diffValues path (JObject fs) a =
     (case a of JObject gs \<Rightarrow> diffFields path fs gs | _ \<Rightarrow> Inr [ExpectedObject path])"
| "diffValues path (JBool b) a = diff_primitive path (JBool b) a"
| "diffValues path (JNumber n) a = diff_primitive path (JNumber n) a"
| "diffValues path (JString s) a = diff_primitive path (JString s) a"
| "diffValues path (JArray xs) a = diff_primitive path (JArray xs) a"
| "diffFields path [] gs = Inr []"
| "diffFields path ((k, v) # fs) gs =
     (case map_of gs k of
        None \<Rightarrow> res_bind (diffFields path fs gs) (\<lambda>ds. Inr (MissingField (child_path path k) # ds))
      | Some w \<Rightarrow>
          res_bind (diffValues (child_path path k) v w) (\<lambda>ds.
            res_bind (diffFields path fs gs) (\<lambda>es. Inr (ds @ es))))"

section \<open>What it accepts\<close>

text \<open>An actual value has what is expected: \<open>null\<close> expects nothing, an object at least its fields.\<close>

fun has_expected :: "json \<Rightarrow> json \<Rightarrow> bool" where
  "has_expected JNull a = True"
| "has_expected (JObject fs) a =
     (case a of
        JObject gs \<Rightarrow> list_all (\<lambda>(k, v). case map_of gs k of None \<Rightarrow> False | Some w \<Rightarrow> has_expected v w) fs
      | _ \<Rightarrow> False)"
| "has_expected (JArray xs) a = False"
| "has_expected e a \<longleftrightarrow> e = a"

text \<open>Somewhere an array is expected and an array is there.\<close>

fun arrays_meet :: "json \<Rightarrow> json \<Rightarrow> bool" where
  "arrays_meet (JArray xs) a \<longleftrightarrow> (case a of JArray _ \<Rightarrow> True | _ \<Rightarrow> False)"
| "arrays_meet (JObject fs) a =
     (case a of
        JObject gs \<Rightarrow> list_ex (\<lambda>(k, v). case map_of gs k of None \<Rightarrow> False | Some w \<Rightarrow> arrays_meet v w) fs
      | _ \<Rightarrow> False)"
| "arrays_meet e a = False"

lemma only_panic: "(x :: go_panic) = ComparingUncomparable"
  by (cases x) simp

lemma diff_values_fields:
  "(diffValues p e a = Inl ComparingUncomparable \<longleftrightarrow> arrays_meet e a) \<and>
   (diffValues p e a = Inr [] \<longleftrightarrow> has_expected e a)"
  "(diffFields p fs gs = Inl ComparingUncomparable \<longleftrightarrow> arrays_meet (JObject fs) (JObject gs)) \<and>
   (diffFields p fs gs = Inr [] \<longleftrightarrow> has_expected (JObject fs) (JObject gs))"
proof (induction p e a and p fs gs rule: diffValues_diffFields.induct)
  case (8 path k v fs gs)
  show ?case
  proof (cases "map_of gs k")
    case None
    with 8 show ?thesis by (auto simp: res_bind_Inl_iff res_bind_Inr_iff)
  next
    case (Some w)
    show ?thesis
    proof (cases "diffValues (child_path path k) v w")
      case (Inl x)
      with 8(2) [OF Some] Some only_panic [of x] show ?thesis by auto
    next
      case (Inr ds)
      with 8 Some show ?thesis by (cases "diffFields path fs gs") (auto simp: only_panic)
    qed
  qed
qed (auto simp: diff_primitive_def same_type_def split: json.splits)

text \<open>The comparison panics exactly when an array is expected where an array is; otherwise it finds
no difference exactly when the actual body has everything that is expected of it.\<close>

lemma contract_comparison:
  "(\<exists>x. diffValues path e a = Inl x) = arrays_meet e a \<and> (diffValues path e a = Inr []) = has_expected e a"
  using diff_values_fields(1) [of path e a] only_panic by metis

section \<open>Verifying a contract\<close>

record Interaction =
  Description :: bytes
  ExpectedStatus :: int
  ExpectedBody :: "(bytes \<times> json) list"

datatype body = ReadFails | NotAnObject | Fields "(bytes \<times> json) list"

text \<open>The answer to an interaction: its status, the expected headers it does not have, its body.\<close>

datatype provider_reply = NoRequest | NoResponse | Response int "bytes list" body

datatype verify_error =
  BuildFailed | RequestFailed | StatusMismatch int int | HeaderMismatch bytes | BodyUnreadable | InvalidJSON
| Differs diff

definition verify_one :: "Interaction \<Rightarrow> provider_reply \<Rightarrow> (go_panic, verify_error list) res" where
  "verify_one i r =
     (case r of
        NoRequest \<Rightarrow> Inr [BuildFailed]
      | NoResponse \<Rightarrow> Inr [RequestFailed]
      | Response st hs b \<Rightarrow>
          (let errs = (if st \<noteq> ExpectedStatus i then [StatusMismatch (ExpectedStatus i) st] else []) @ map HeaderMismatch hs
           in case b of
                ReadFails \<Rightarrow> Inr (errs @ [BodyUnreadable])
              | NotAnObject \<Rightarrow> Inr (errs @ [InvalidJSON])
              | Fields gs \<Rightarrow>
                  res_bind (diffValues [] (JObject (ExpectedBody i)) (JObject gs)) (\<lambda>ds. Inr (errs @ map Differs ds))))"

record VerificationResult =
  Passed :: bool
  Errors :: "(bytes \<times> verify_error) list"

fun Verify :: "(Interaction \<times> provider_reply) list \<Rightarrow> VerificationResult \<Rightarrow> (go_panic, VerificationResult) res" where
  "Verify [] v = Inr v"
| "Verify ((i, r) # irs) v =
     res_bind (verify_one i r) (\<lambda>es.
       Verify irs (if es \<noteq> [] then v\<lparr>Passed := False, Errors := Errors v @ map (Pair (Description i)) es\<rparr> else v))"

definition fulfilled :: "Interaction \<Rightarrow> provider_reply \<Rightarrow> bool" where
  "fulfilled i r \<longleftrightarrow> (\<exists>gs. r = Response (ExpectedStatus i) [] (Fields gs) \<and> has_expected (JObject (ExpectedBody i)) (JObject gs))"

lemma no_diffs_iff: "diffValues p e a = Inr ds \<Longrightarrow> ds = [] \<longleftrightarrow> has_expected e a"
  using diff_values_fields(1) [of p e a] by auto

lemma verify_one_fulfilled: "verify_one i r = Inr es \<Longrightarrow> es = [] \<longleftrightarrow> fulfilled i r"
  by (cases r)
    (auto simp: verify_one_def fulfilled_def Let_def res_bind_Inr_iff
      simp del: diffValues.simps has_expected.simps dest!: no_diffs_iff split: body.splits if_splits)

lemma verify_result:
  "Verify irs v = Inr w \<Longrightarrow> Passed v = (Errors v = []) \<Longrightarrow>
     Passed w = (Errors w = []) \<and> (Passed w \<longleftrightarrow> Passed v \<and> (\<forall>(i, r) \<in> set irs. fulfilled i r))"
proof (induction irs v rule: Verify.induct)
  case (2 i r irs v)
  then obtain es where es: "verify_one i r = Inr es" by (cases "verify_one i r") auto
  show ?case
  proof (cases "es = []")
    case True
    with 2(1) [of "[]"] 2(2,3) es verify_one_fulfilled [OF es] show ?thesis by auto
  next
    case False
    with 2(1) [of es] 2(2) es verify_one_fulfilled [OF es] show ?thesis by auto
  qed
qed simp

text \<open>A verification that does not panic passes exactly when every interaction is fulfilled.\<close>

lemma contract_verified:
  assumes "Verify irs \<lparr>Passed = True, Errors = []\<rparr> = Inr w"
  shows "Passed w \<longleftrightarrow> (\<forall>(i, r) \<in> set irs. fulfilled i r)" and "Passed w \<longleftrightarrow> Errors w = []"
  using verify_result [OF assms] by auto

text \<open>A contract with a list in an expected body cannot be verified: the comparison panics.\<close>

lemma lists_panic:
  "diffValues [] (JObject [(k, JArray [])]) (JObject [(k, JArray [])]) = Inl ComparingUncomparable"
  by (simp add: diff_primitive_def same_type_def)

end
