(* ===== verification/OAuth.thy ===== *)
theory OAuth
  imports Systems Base64 Sha256
begin

text \<open>
  Lab 31, \<^verbatim>\<open>labs/31-oauth2-and-oidc/pkg\<close>: proof keys for code exchange (\<open>pkce/pkce.go\<close>), ID tokens
  (\<open>oidc/oidc.go\<close>, the signing side) and the authorization server (\<open>server/server.go\<close>). Instants
  are nanoseconds since 1970; \<open>now i\<close> is what a call reads from the clock at its i-th reading, an
  option is what the random source gives. \<open>marshal\<close> is \<open>json.Marshal\<close> of the claims, which does not
  fail. Nobody writes to the \<open>AuthCode\<close> that \<open>Authorize\<close> returns.
\<close>

section \<open>Proof keys\<close>

datatype pkce_error = InvalidVerifierLength | InvalidMethod | ChallengeMismatch | VerifierNotRandom

definition S256 :: bytes where "S256 = map of_char ''S256''"
definition plain_challenge :: bytes where "plain_challenge = map of_char ''plain''"

definition ComputeChallenge :: "bytes \<Rightarrow> bytes \<Rightarrow> (pkce_error, bytes) res" where
  "ComputeChallenge verifier m =
     (if length verifier < 43 \<or> 128 < length verifier then Inl InvalidVerifierLength
      else if m = S256 then Inr (EncodeToString (sha256 verifier))
      else if m = plain_challenge then Inr verifier
      else Inl InvalidMethod)"

definition VerifyChallenge :: "bytes \<Rightarrow> bytes \<Rightarrow> bytes \<Rightarrow> pkce_error option" where
  "VerifyChallenge verifier challenge m =
     (case ComputeChallenge verifier m of
        Inl e \<Rightarrow> Some e
      | Inr expected \<Rightarrow> if expected \<noteq> challenge then Some ChallengeMismatch else None)"

record PKCEPair =
  CodeVerifier :: bytes
  PairChallenge :: bytes
  PairMethod :: bytes

definition GeneratePKCEPair :: "bytes \<Rightarrow> bytes option \<Rightarrow> (pkce_error, PKCEPair) res" where
  "GeneratePKCEPair m random =
     (if m \<noteq> S256 \<and> m \<noteq> plain_challenge then Inl InvalidMethod
      else (case random of
          None \<Rightarrow> Inl VerifierNotRandom
        | Some buf \<Rightarrow>
            (let verifier = EncodeToString buf
             in res_bind (ComputeChallenge verifier m)
                  (\<lambda>c. Inr \<lparr>CodeVerifier = verifier, PairChallenge = c, PairMethod = m\<rparr>))))"

section \<open>Scopes\<close>

text \<open>\<open>w\<close> is the word that has begun.\<close>

fun split_from :: "bytes \<Rightarrow> bytes \<Rightarrow> bytes list" where
  "split_from w [] = (if w \<noteq> [] then [w] else [])"
| "split_from w (c # s) =
     (if c = 32 \<or> c = 9 then (if w \<noteq> [] then w # split_from [] s else split_from [] s)
      else split_from (w @ [c]) s)"

definition splitSpaces :: "bytes \<Rightarrow> bytes list" where
  "splitSpaces = split_from []"

definition containsScope :: "bytes \<Rightarrow> bytes \<Rightarrow> bool" where
  "containsScope granted required \<longleftrightarrow> list_all (\<lambda>r. r \<in> set (splitSpaces granted)) (splitSpaces required)"

definition containsOpenID :: "bytes \<Rightarrow> bool" where
  "containsOpenID scope \<longleftrightarrow> map of_char ''openid'' \<in> set (splitSpaces scope)"

section \<open>Signing an ID token\<close>

record IDTokenClaims =
  ClaimIssuer :: bytes
  ClaimSubject :: bytes
  Audience :: bytes
  Expiration :: int
  IssuedAt :: int
  AuthTime :: int
  ClaimNonce :: bytes
  AuthorizedParty :: bytes

definition jwt_header :: bytes where
  \<open>jwt_header = map of_char ''{"alg":"HS256","typ":"JWT"}''\<close>

definition SignIDToken :: "(IDTokenClaims \<Rightarrow> bytes) \<Rightarrow> IDTokenClaims \<Rightarrow> bytes \<Rightarrow> bytes" where
  "SignIDToken marshal claims key =
     (let unsigned = EncodeToString jwt_header @ 46 # EncodeToString (marshal claims)
      in unsigned @ 46 # EncodeToString (hmac_sha256 key unsigned))"

section \<open>The server\<close>

record AuthCode =
  Code :: bytes
  ClientID :: bytes
  RedirectURI :: bytes
  Scope :: bytes
  Subject :: bytes
  CodeChallenge :: bytes
  CodeChallengeMethod :: bytes
  Nonce :: bytes
  ExpiresAt :: int
  Used :: bool

record RefreshTokenMeta =
  FamilyID :: bytes
  RtSubject :: bytes
  RtClientID :: bytes
  RtScope :: bytes
  Revoked :: bool
  RtExpiresAt :: int

record AccessTokenMeta =
  AtSubject :: bytes
  AtScope :: bytes
  AtExpiresAt :: int

record TokenResponse =
  AccessToken :: bytes
  TokenType :: bytes
  ExpiresIn :: int
  RefreshToken :: bytes
  IDToken :: bytes
  RespScope :: bytes

record AuthorizationServer =
  Issuer :: bytes
  SigningKey :: bytes
  Clients :: "bytes \<rightharpoonup> bytes"
  authCodes :: "bytes \<rightharpoonup> AuthCode"
  tokens :: "bytes \<rightharpoonup> AccessTokenMeta"
  refreshMeta :: "bytes \<rightharpoonup> RefreshTokenMeta"
  revokedFams :: "bytes \<Rightarrow> bool"

datatype oauth_error =
  UnauthorizedClient
| ChallengeMandatory
| BadChallengeMethod
| NoRandomBytes
| InvalidGrant
| CodeAlreadyUsed
| InvalidPKCE pkce_error
| TokenReplayDetected
| RefreshTokenNotFound
| InvalidAccessToken
| InsufficientScope

definition NewAuthorizationServer :: "bytes \<Rightarrow> bytes \<Rightarrow> AuthorizationServer" where
  "NewAuthorizationServer issuer key =
     \<lparr>Issuer = issuer, SigningKey = key, Clients = Map.empty, authCodes = Map.empty, tokens = Map.empty,
      refreshMeta = Map.empty, revokedFams = (\<lambda>_. False)\<rparr>"

definition RegisterClient :: "bytes \<Rightarrow> bytes \<Rightarrow> AuthorizationServer \<Rightarrow> AuthorizationServer" where
  "RegisterClient clientID redirectURI s = s\<lparr>Clients := (Clients s)(clientID \<mapsto> redirectURI)\<rparr>"

definition hex_text :: "bytes \<Rightarrow> bytes" where
  "hex_text = concat \<circ> map (\<lambda>b. map (\<lambda>d. if d < 10 then 48 + d else 87 + d) [b div 16, b mod 16])"

definition access_text :: "bytes \<Rightarrow> bytes" where "access_text r = map of_char ''at_'' @ hex_text r"
definition refresh_text :: "bytes \<Rightarrow> bytes" where "refresh_text r = map of_char ''rt_'' @ hex_text r"
definition family_text :: "bytes \<Rightarrow> bytes" where "family_text r = map of_char ''fam_'' @ hex_text r"

definition seconds :: "int \<Rightarrow> int" where "seconds n = n * 10 ^ 9"

definition Authorize ::
  "bytes \<Rightarrow> bytes \<Rightarrow> bytes \<Rightarrow> bytes \<Rightarrow> bytes \<Rightarrow> bytes \<Rightarrow> bytes \<Rightarrow> bytes option \<Rightarrow> int \<Rightarrow> AuthorizationServer \<Rightarrow>
     (oauth_error, AuthCode) res \<times> AuthorizationServer" where
  "Authorize clientID redirectURI scope subject challenge m nonce random now s =
     (if Clients s clientID \<noteq> Some redirectURI then (Inl UnauthorizedClient, s)
      else if challenge = [] then (Inl ChallengeMandatory, s)
      else if m \<noteq> S256 \<and> m \<noteq> plain_challenge then (Inl BadChallengeMethod, s)
      else (case random of
          None \<Rightarrow> (Inl NoRandomBytes, s)
        | Some codeBytes \<Rightarrow>
            (let ac = \<lparr>Code = hex_text codeBytes, ClientID = clientID, RedirectURI = redirectURI, Scope = scope,
               Subject = subject, CodeChallenge = challenge, CodeChallengeMethod = m, Nonce = nonce,
               ExpiresAt = now + seconds 300, Used = False\<rparr>
             in (Inr ac, s\<lparr>authCodes := (authCodes s)(Code ac \<mapsto> ac)\<rparr>))))"

text \<open>The random bytes of the access token, the family and the refresh token, drawn in this order.\<close>

type_synonym draws = "bytes option \<times> bytes option \<times> bytes option"

definition id_claims :: "AuthorizationServer \<Rightarrow> AuthCode \<Rightarrow> int \<Rightarrow> IDTokenClaims" where
  "id_claims s ac t =
     \<lparr>ClaimIssuer = Issuer s, ClaimSubject = Subject ac, Audience = ClientID ac,
      Expiration = (t + seconds 3600) div 10 ^ 9, IssuedAt = t div 10 ^ 9, AuthTime = t div 10 ^ 9,
      ClaimNonce = Nonce ac, AuthorizedParty = []\<rparr>"

definition new_refresh :: "AuthCode \<Rightarrow> bytes \<Rightarrow> int \<Rightarrow> RefreshTokenMeta" where
  "new_refresh ac f t =
     \<lparr>FamilyID = family_text f, RtSubject = Subject ac, RtClientID = ClientID ac, RtScope = Scope ac,
      Revoked = False, RtExpiresAt = t + seconds (30 * 24 * 3600)\<rparr>"

definition issue_tokens ::
  "(IDTokenClaims \<Rightarrow> bytes) \<Rightarrow> AuthCode \<Rightarrow> draws \<Rightarrow> (nat \<Rightarrow> int) \<Rightarrow> AuthorizationServer \<Rightarrow>
     (oauth_error, TokenResponse) res \<times> AuthorizationServer" where
  "issue_tokens marshal ac = (\<lambda>(ra, rf, rr) now s.
     case ra of
       None \<Rightarrow> (Inl NoRandomBytes, s)
     | Some a \<Rightarrow>
         (let s1 = s\<lparr>tokens := (tokens s)(access_text a \<mapsto>
                \<lparr>AtSubject = Subject ac, AtScope = Scope ac, AtExpiresAt = now 1 + seconds 3600\<rparr>)\<rparr>
          in case (rf, rr) of
               (Some f, Some r) \<Rightarrow>
                 (Inr \<lparr>AccessToken = access_text a, TokenType = map of_char ''Bearer'', ExpiresIn = 3600,
                       RefreshToken = refresh_text r,
                       IDToken = (if containsOpenID (Scope ac)
                         then SignIDToken marshal (id_claims s ac (now 3)) (SigningKey s) else []),
                       RespScope = Scope ac\<rparr>,
                  s1\<lparr>refreshMeta := (refreshMeta s1)(refresh_text r \<mapsto>
                    new_refresh ac f (now 2))\<rparr>)
             | _ \<Rightarrow> (Inl NoRandomBytes, s1)))"

definition ExchangeCode ::
  "(IDTokenClaims \<Rightarrow> bytes) \<Rightarrow> bytes \<Rightarrow> bytes \<Rightarrow> bytes \<Rightarrow> bytes \<Rightarrow> draws \<Rightarrow> (nat \<Rightarrow> int) \<Rightarrow> AuthorizationServer \<Rightarrow>
     (oauth_error, TokenResponse) res \<times> AuthorizationServer" where
  "ExchangeCode marshal code clientID redirectURI verifier random now s =
     (case authCodes s code of
        None \<Rightarrow> (Inl InvalidGrant, s)
      | Some ac \<Rightarrow>
          if ExpiresAt ac < now 0 then (Inl InvalidGrant, s)
          else if Used ac then (Inl CodeAlreadyUsed, s)
          else if ClientID ac \<noteq> clientID \<or> RedirectURI ac \<noteq> redirectURI then (Inl UnauthorizedClient, s)
          else (case VerifyChallenge verifier (CodeChallenge ac) (CodeChallengeMethod ac) of
              Some e \<Rightarrow> (Inl (InvalidPKCE e), s)
            | None \<Rightarrow>
                issue_tokens marshal ac random now
                  (s\<lparr>authCodes := (authCodes s)(code \<mapsto> ac\<lparr>Used := True\<rparr>)\<rparr>)))"

text \<open>Here the refresh token is drawn before the access token.\<close>

definition RefreshGrant ::
  "bytes \<Rightarrow> bytes \<Rightarrow> bytes option \<Rightarrow> bytes option \<Rightarrow> (nat \<Rightarrow> int) \<Rightarrow> AuthorizationServer \<Rightarrow>
     (oauth_error, TokenResponse) res \<times> AuthorizationServer" where
  "RefreshGrant tok clientID rr ra now s =
     (case refreshMeta s tok of
        None \<Rightarrow> (Inl RefreshTokenNotFound, s)
      | Some m \<Rightarrow>
          if revokedFams s (FamilyID m) then (Inl TokenReplayDetected, s)
          else if Revoked m then (Inl TokenReplayDetected, s\<lparr>revokedFams := (revokedFams s)(FamilyID m := True)\<rparr>)
          else if RtClientID m \<noteq> clientID then (Inl UnauthorizedClient, s)
          else if RtExpiresAt m < now 0 then (Inl InvalidGrant, s)
          else
            (let s1 = s\<lparr>refreshMeta := (refreshMeta s)(tok \<mapsto> m\<lparr>Revoked := True\<rparr>)\<rparr>
             in case rr of
                  None \<Rightarrow> (Inl NoRandomBytes, s1)
                | Some r \<Rightarrow>
                    (let s2 = s1\<lparr>refreshMeta := (refreshMeta s1)(refresh_text r \<mapsto>
                           m\<lparr>Revoked := False, RtExpiresAt := now 1 + seconds (30 * 24 * 3600)\<rparr>)\<rparr>
                     in case ra of
                          None \<Rightarrow> (Inl NoRandomBytes, s2)
                        | Some a \<Rightarrow>
                            (Inr \<lparr>AccessToken = access_text a, TokenType = map of_char ''Bearer'', ExpiresIn = 3600,
                                  RefreshToken = refresh_text r, IDToken = [], RespScope = RtScope m\<rparr>,
                             s2\<lparr>tokens := (tokens s2)(access_text a \<mapsto>
                               \<lparr>AtSubject = RtSubject m, AtScope = RtScope m, AtExpiresAt = now 2 + seconds 3600\<rparr>)\<rparr>))))"

definition ValidateAccessToken :: "bytes \<Rightarrow> bytes \<Rightarrow> int \<Rightarrow> AuthorizationServer \<Rightarrow> (oauth_error, bytes) res" where
  "ValidateAccessToken tok required now s =
     (case tokens s tok of
        None \<Rightarrow> Inl InvalidAccessToken
      | Some m \<Rightarrow>
          if AtExpiresAt m < now then Inl InvalidAccessToken
          else if required \<noteq> [] \<and> \<not> containsScope (AtScope m) required then Inl InsufficientScope
          else Inr (AtSubject m))"

section \<open>Any calls of any clients\<close>

text \<open>
  Ghosts: \<open>authorized\<close> are the codes as they were handed out, \<open>redeemed\<close> the exchanges that
  succeeded (code, client, redirection, verifier), \<open>collided\<close> that a random text was one the server
  knew already.
\<close>

record oauth =
  srv :: AuthorizationServer
  authorized :: "AuthCode list"
  redeemed :: "(bytes \<times> bytes \<times> bytes \<times> bytes) list"
  collided :: bool

definition family_taken :: "AuthorizationServer \<Rightarrow> bytes \<Rightarrow> bool" where
  "family_taken s f \<longleftrightarrow> f \<in> FamilyID ` ran (refreshMeta s) \<or> revokedFams s f"

inductive oauth_step :: "(IDTokenClaims \<Rightarrow> bytes) \<Rightarrow> oauth \<Rightarrow> oauth \<Rightarrow> bool" for marshal :: "IDTokenClaims \<Rightarrow> bytes" where
  register: "oauth_step marshal w (w\<lparr>srv := RegisterClient clientID uri (srv w)\<rparr>)"
| authorize: "Authorize clientID uri scope subject challenge m nonce random t (srv w) = (Inr ac, s) \<Longrightarrow>
    oauth_step marshal w (w\<lparr>srv := s, authorized := ac # authorized w,
      collided := collided w \<or> authCodes (srv w) (Code ac) \<noteq> None\<rparr>)"
| exchange: "ExchangeCode marshal code clientID uri verifier (ra, Some f, Some b) now (srv w) = (Inr resp, s) \<Longrightarrow>
    oauth_step marshal w (w\<lparr>srv := s, redeemed := (code, clientID, uri, verifier) # redeemed w,
      collided := collided w \<or> refreshMeta (srv w) (refresh_text b) \<noteq> None \<or> family_taken (srv w) (family_text f)\<rparr>)"
| exchange_fails: "ExchangeCode marshal code clientID uri verifier random now (srv w) = (Inl e, s) \<Longrightarrow>
    oauth_step marshal w (w\<lparr>srv := s\<rparr>)"
| refresh: "RefreshGrant tok clientID rr ra now (srv w) = (r, s) \<Longrightarrow>
    oauth_step marshal w (w\<lparr>srv := s,
      collided := collided w \<or> (\<exists>b. rr = Some b \<and> refreshMeta (srv w) (refresh_text b) \<noteq> None)\<rparr>)"

definition oauth_start :: "bytes \<Rightarrow> bytes \<Rightarrow> oauth" where
  "oauth_start issuer key =
     \<lparr>srv = NewAuthorizationServer issuer key, authorized = [], redeemed = [], collided = False\<rparr>"

text \<open>What the calls change.\<close>

lemma Authorize_Inr:
  "Authorize clientID uri scope subject challenge m nonce random t s = (Inr ac, s') \<longleftrightarrow>
     Clients s clientID = Some uri \<and> challenge \<noteq> [] \<and> m \<in> {S256, plain_challenge} \<and>
     (\<exists>b. random = Some b \<and> ac = \<lparr>Code = hex_text b, ClientID = clientID, RedirectURI = uri, Scope = scope,
        Subject = subject, CodeChallenge = challenge, CodeChallengeMethod = m, Nonce = nonce,
        ExpiresAt = t + seconds 300, Used = False\<rparr>) \<and>
     s' = s\<lparr>authCodes := (authCodes s)(Code ac \<mapsto> ac)\<rparr>"
  by (auto simp: Authorize_def Let_def split: option.splits)

lemma issue_tokens_result:
  assumes "issue_tokens marshal ac (ra, rf, rr) now s = (r, s')"
  shows "authCodes s' = authCodes s" and "revokedFams s' = revokedFams s"
    and "tokens s' x = Some a \<Longrightarrow> tokens s x = Some a \<or> AtSubject a = Subject ac \<and> AtScope a = Scope ac"
    and "(refreshMeta s' = refreshMeta s \<and> (\<exists>e. r = Inl e)) \<or>
      (\<exists>f b. rf = Some f \<and> rr = Some b \<and> (\<exists>x. r = Inr x) \<and>
        refreshMeta s' = (refreshMeta s)(refresh_text b \<mapsto> new_refresh ac f (now 2)))"
  using assms by (auto simp: issue_tokens_def Let_def map_upd_Some_unfold split: option.splits if_splits)

lemma ExchangeCode_result:
  assumes "ExchangeCode marshal code clientID uri verifier random now s = (r, s')"
  shows "(s' = s \<and> (\<exists>e. r = Inl e)) \<or>
    (\<exists>ac. authCodes s code = Some ac \<and> \<not> Used ac \<and> ClientID ac = clientID \<and> RedirectURI ac = uri \<and>
      VerifyChallenge verifier (CodeChallenge ac) (CodeChallengeMethod ac) = None \<and>
      issue_tokens marshal ac random now (s\<lparr>authCodes := (authCodes s)(code \<mapsto> ac\<lparr>Used := True\<rparr>)\<rparr>) = (r, s'))"
  using assms by (auto simp: ExchangeCode_def split: option.splits if_splits)

lemma RefreshGrant_result:
  assumes "RefreshGrant tok clientID rr ra now s = (r, s')"
  obtains (same) "s' = s"
    | (revoke) m where "refreshMeta s tok = Some m" and "s' = s\<lparr>revokedFams := (revokedFams s)(FamilyID m := True)\<rparr>"
    | (rotate) m mf where "refreshMeta s tok = Some m" and "\<not> Revoked m" and "\<not> revokedFams s (FamilyID m)"
        and "authCodes s' = authCodes s" and "revokedFams s' = revokedFams s"
        and "\<And>x a. tokens s' x = Some a \<Longrightarrow> tokens s x = Some a \<or> AtSubject a = RtSubject m \<and> AtScope a = RtScope m"
        and "mf = (refreshMeta s)(tok \<mapsto> m\<lparr>Revoked := True\<rparr>)"
        and "refreshMeta s' = mf \<or>
          (\<exists>b e. rr = Some b \<and> refreshMeta s' = mf(refresh_text b \<mapsto> m\<lparr>Revoked := False, RtExpiresAt := e\<rparr>))"
proof (cases "refreshMeta s tok")
  case None
  with assms same show thesis by (simp add: RefreshGrant_def)
next
  case (Some m)
  show thesis
  proof (cases "revokedFams s (FamilyID m) \<or> Revoked m \<or> RtClientID m \<noteq> clientID \<or> RtExpiresAt m < now 0")
    case True
    with assms Some same revoke [OF Some] show thesis by (simp add: RefreshGrant_def split: if_splits)
  next
    case False
    let ?m = "(refreshMeta s)(tok \<mapsto> m\<lparr>Revoked := True\<rparr>)"
    show thesis
    proof (rule rotate [OF Some, where mf = ?m])
      show "tokens s x = Some a \<or> AtSubject a = RtSubject m \<and> AtScope a = RtScope m" if "tokens s' x = Some a" for x a
        using that assms Some False
        by (auto simp: RefreshGrant_def Let_def map_upd_Some_unfold split: option.splits if_splits)
      show "refreshMeta s' = ?m \<or>
          (\<exists>b e. rr = Some b \<and> refreshMeta s' = ?m(refresh_text b \<mapsto> m\<lparr>Revoked := False, RtExpiresAt := e\<rparr>))"
        using assms Some False by (auto simp: RefreshGrant_def Let_def split: option.splits)
    qed (use assms Some False in \<open>auto simp: RefreshGrant_def Let_def split: option.splits\<close>)
  qed
qed

section \<open>Codes\<close>

definition redeems :: "AuthCode \<Rightarrow> bytes \<times> bytes \<times> bytes \<times> bytes \<Rightarrow> bool" where
  "redeems ac = (\<lambda>(c, clientID, uri, verifier). Code ac = c \<and> ClientID ac = clientID \<and> RedirectURI ac = uri \<and>
     VerifyChallenge verifier (CodeChallenge ac) (CodeChallengeMethod ac) = None)"

definition codes_known :: "(bytes \<rightharpoonup> AuthCode) \<Rightarrow> AuthCode list \<Rightarrow> bool" where
  "codes_known A l \<longleftrightarrow> (\<forall>c ac. A c = Some ac \<longrightarrow> Code ac = c \<and> ac\<lparr>Used := False\<rparr> \<in> set l) \<and>
     (\<forall>ac \<in> set l. A (Code ac) \<noteq> None)"

definition once :: "(bytes \<rightharpoonup> AuthCode) \<Rightarrow> AuthCode list \<Rightarrow> (bytes \<times> bytes \<times> bytes \<times> bytes) list \<Rightarrow> bool" where
  "once A l xs \<longleftrightarrow> distinct (map Code l) \<and> distinct (map fst xs) \<and> (\<forall>x \<in> set xs. \<exists>ac. A (fst x) = Some ac \<and> Used ac)"

definition codes_ok :: "oauth \<Rightarrow> bool" where
  "codes_ok w \<longleftrightarrow> codes_known (authCodes (srv w)) (authorized w) \<and>
     (\<forall>x \<in> set (redeemed w). \<exists>ac \<in> set (authorized w). redeems ac x) \<and>
     (collided w \<or> once (authCodes (srv w)) (authorized w) (redeemed w))"

lemma codes_known_authorize:
  "codes_known A l \<Longrightarrow> \<not> Used ac \<Longrightarrow> codes_known (A(Code ac \<mapsto> ac)) (ac # l)"
  by (auto simp: codes_known_def map_upd_Some_unfold)

lemma codes_known_use:
  "codes_known A l \<Longrightarrow> A c = Some ac \<Longrightarrow> codes_known (A(c \<mapsto> ac\<lparr>Used := True\<rparr>)) l"
  by (auto simp: codes_known_def map_upd_Some_unfold)

lemma once_authorize:
  assumes "codes_known A l" and "once A l xs" and "A (Code ac) = None"
  shows "once (A(Code ac \<mapsto> ac)) (ac # l) xs"
proof -
  have "Code ac \<notin> Code ` set l" using assms(1,3) by (auto simp: codes_known_def)
  moreover have "Code ac \<notin> fst ` set xs" using assms(2,3) by (auto simp: once_def)
  ultimately show ?thesis using assms(2) by (fastforce simp: once_def image_iff)
qed

lemma once_use: "once A l xs \<Longrightarrow> A c = Some ac \<Longrightarrow> once (A(c \<mapsto> ac\<lparr>Used := True\<rparr>)) l xs"
  by (auto simp: once_def)

lemma once_redeem:
  assumes "once A l xs" and "A c = Some ac" and "\<not> Used ac"
  shows "once (A(c \<mapsto> ac\<lparr>Used := True\<rparr>)) l ((c, y) # xs)"
proof -
  have "c \<notin> fst ` set xs" using assms by (auto simp: once_def)
  with assms(1) show ?thesis by (auto simp: once_def)
qed

lemma codes_ok_step: "oauth_step marshal w v \<Longrightarrow> codes_ok w \<Longrightarrow> codes_ok v"
proof (induction rule: oauth_step.induct)
  case (register w clientID uri)
  then show ?case by (simp add: codes_ok_def RegisterClient_def)
next
  case (authorize clientID uri scope subject challenge m nonce random t w ac s)
  then have "authCodes s = (authCodes (srv w))(Code ac \<mapsto> ac)" "\<not> Used ac" by (auto simp: Authorize_Inr)
  with authorize.prems once_authorize [of "authCodes (srv w)" "authorized w" "redeemed w" ac] show ?case
    by (auto simp: codes_ok_def codes_known_authorize)
next
  case (exchange code clientID uri verifier ra f b now w resp s)
  from ExchangeCode_result [OF exchange.hyps] obtain ac where ac: "authCodes (srv w) code = Some ac" "\<not> Used ac"
      "ClientID ac = clientID" "RedirectURI ac = uri" "VerifyChallenge verifier (CodeChallenge ac) (CodeChallengeMethod ac) = None"
      "authCodes s = (authCodes (srv w))(code \<mapsto> ac\<lparr>Used := True\<rparr>)"
    using issue_tokens_result(1) by fastforce
  have "ac\<lparr>Used := False\<rparr> \<in> set (authorized w)" "redeems (ac\<lparr>Used := False\<rparr>) (code, clientID, uri, verifier)"
    using exchange.prems ac by (auto simp: codes_ok_def codes_known_def redeems_def)
  with exchange.prems ac show ?case by (auto simp: codes_ok_def codes_known_use once_redeem)
next
  case (exchange_fails code clientID uri verifier random now w e s)
  obtain ra rf rr where random: "random = (ra, rf, rr)" by (cases random)
  have "s = srv w \<or> (\<exists>ac. authCodes (srv w) code = Some ac \<and> authCodes s = (authCodes (srv w))(code \<mapsto> ac\<lparr>Used := True\<rparr>))"
    using ExchangeCode_result [OF exchange_fails.hyps [unfolded random]] issue_tokens_result(1) by fastforce
  with exchange_fails.prems show ?case by (auto simp: codes_ok_def codes_known_use once_use)
next
  case (refresh tok clientID rr ra now w r s)
  then have "authCodes s = authCodes (srv w)" by (auto elim: RefreshGrant_result)
  with refresh.prems show ?case by (auto simp: codes_ok_def)
qed

section \<open>Tokens\<close>

definition granted :: "AuthCode list \<Rightarrow> bytes \<Rightarrow> bytes \<Rightarrow> bool" where
  "granted l subject scope \<longleftrightarrow> (\<exists>ac \<in> set l. Subject ac = subject \<and> Scope ac = scope)"

definition access_ok :: "AuthCode list \<Rightarrow> (bytes \<rightharpoonup> AccessTokenMeta) \<Rightarrow> bool" where
  "access_ok l f \<longleftrightarrow> (\<forall>t m. f t = Some m \<longrightarrow> granted l (AtSubject m) (AtScope m))"

definition refresh_ok :: "AuthCode list \<Rightarrow> (bytes \<rightharpoonup> RefreshTokenMeta) \<Rightarrow> bool" where
  "refresh_ok l f \<longleftrightarrow> (\<forall>t m. f t = Some m \<longrightarrow> granted l (RtSubject m) (RtScope m))"

definition tokens_ok :: "oauth \<Rightarrow> bool" where
  "tokens_ok w \<longleftrightarrow> access_ok (authorized w) (tokens (srv w)) \<and> refresh_ok (authorized w) (refreshMeta (srv w))"

lemma granted_code:
  assumes "codes_ok w" and "authCodes (srv w) c = Some ac"
  shows "granted (authorized w) (Subject ac) (Scope ac)"
proof -
  have "ac\<lparr>Used := False\<rparr> \<in> set (authorized w)" using assms by (auto simp: codes_ok_def codes_known_def)
  then show ?thesis unfolding granted_def by (rule bexI [rotated]) simp
qed

lemma access_ok_more:
  assumes "access_ok l f" and "granted l sub sc"
    and "\<And>x a. g x = Some a \<Longrightarrow> f x = Some a \<or> AtSubject a = sub \<and> AtScope a = sc"
  shows "access_ok l g"
  using assms unfolding access_ok_def by metis

lemma refresh_ok_upd:
  "refresh_ok l f \<Longrightarrow> granted l (RtSubject m) (RtScope m) \<Longrightarrow> refresh_ok l (f(t \<mapsto> m))"
  by (auto simp: refresh_ok_def)

lemma exchange_tokens:
  assumes "ExchangeCode marshal code clientID uri verifier random now (srv w) = (r, s)" and "codes_ok w" and "tokens_ok w"
  shows "access_ok (authorized w) (tokens s) \<and> refresh_ok (authorized w) (refreshMeta s)"
proof -
  obtain ra rf rr where random: "random = (ra, rf, rr)" by (cases random)
  from ExchangeCode_result [OF assms(1) [unfolded random]] show ?thesis
  proof (elim disjE exE conjE)
    fix ac
    let ?s = "srv w\<lparr>authCodes := (authCodes (srv w))(code \<mapsto> ac\<lparr>Used := True\<rparr>)\<rparr>"
    assume "authCodes (srv w) code = Some ac"
    note g = granted_code [OF assms(2) this]
    assume iss: "issue_tokens marshal ac (ra, rf, rr) now ?s = (r, s)"
    have "access_ok (authorized w) (tokens s)"
      by (rule access_ok_more [OF _ g, of "tokens (srv w)"])
        (use assms(3) issue_tokens_result(3) [OF iss] in \<open>auto simp: tokens_ok_def\<close>)
    moreover have "refreshMeta s = refreshMeta (srv w) \<or>
        (\<exists>b f. refreshMeta s = (refreshMeta (srv w))(refresh_text b \<mapsto> new_refresh ac f (now 2)))"
      using issue_tokens_result(4) [OF iss] by auto
    then have "refresh_ok (authorized w) (refreshMeta s)"
      using assms(3) refresh_ok_upd [of "authorized w" "refreshMeta (srv w)" "new_refresh ac _ _"] g
      by (elim disjE exE) (simp_all only: tokens_ok_def, simp add: new_refresh_def refresh_ok_upd)
    ultimately show ?thesis ..
  qed (use assms(3) in \<open>simp add: tokens_ok_def\<close>)
qed

lemma tokens_ok_step: "oauth_step marshal w v \<Longrightarrow> codes_ok w \<Longrightarrow> tokens_ok w \<Longrightarrow> tokens_ok v"
proof (induction rule: oauth_step.induct)
  case (register w clientID uri)
  then show ?case by (simp add: tokens_ok_def RegisterClient_def)
next
  case (authorize clientID uri scope subject challenge m nonce random t w ac s)
  then show ?case by (auto simp: tokens_ok_def access_ok_def refresh_ok_def Authorize_Inr granted_def)
next
  case (exchange code clientID uri verifier ra f b now w resp s)
  from exchange_tokens [OF this] show ?case by (simp add: tokens_ok_def)
next
  case (exchange_fails code clientID uri verifier random now w e s)
  from exchange_tokens [OF this] show ?case by (simp add: tokens_ok_def)
next
  case (refresh tok clientID rr ra now w r s)
  note ok = refresh.prems(2) [unfolded tokens_ok_def]
  from refresh.hyps show ?case
  proof (cases rule: RefreshGrant_result)
    case (rotate m mf)
    have g: "granted (authorized w) (RtSubject m) (RtScope m)" using ok rotate(1) by (simp add: refresh_ok_def)
    have "access_ok (authorized w) (tokens s)"
      by (rule access_ok_more [OF conjunct1 [OF ok] g]) (rule rotate(6))
    moreover have "refresh_ok (authorized w) mf"
      unfolding rotate(7) by (rule refresh_ok_upd) (use ok g in simp_all)
    then have "refresh_ok (authorized w) (refreshMeta s)"
      using rotate(8) by (elim disjE exE conjE) (simp only:, simp only:, rule refresh_ok_upd, simp_all add: g)
    ultimately show ?thesis by (simp add: tokens_ok_def)
  qed (use ok in \<open>auto simp: tokens_ok_def\<close>)
qed

section \<open>Families of refresh tokens\<close>

definition same_login :: "RefreshTokenMeta \<Rightarrow> RefreshTokenMeta \<Rightarrow> bool" where
  "same_login m n \<longleftrightarrow> RtSubject m = RtSubject n \<and> RtClientID m = RtClientID n \<and> RtScope m = RtScope n"

definition families_ok :: "(bytes \<rightharpoonup> RefreshTokenMeta) \<Rightarrow> bool" where
  "families_ok f \<longleftrightarrow>
     (\<forall>t m u n. f t = Some m \<and> f u = Some n \<and> FamilyID m = FamilyID n \<longrightarrow>
        same_login m n \<and> (\<not> Revoked m \<and> \<not> Revoked n \<longrightarrow> t = u))"

lemma same_login_simps [simp]:
  "same_login m m" "same_login (m\<lparr>Revoked := b\<rparr>) n = same_login m n" "same_login m (n\<lparr>Revoked := b\<rparr>) = same_login m n"
  "same_login m (n\<lparr>RtExpiresAt := e\<rparr>) = same_login m n"
  by (simp_all add: same_login_def)

lemma same_login_sym: "same_login m n \<Longrightarrow> same_login n m"
  by (simp add: same_login_def)

text \<open>A token fits in when it belongs to the login of its family and all others of it are used.\<close>

lemma families_ok_add:
  assumes "families_ok f"
    and fits: "\<And>u n. f u = Some n \<Longrightarrow> FamilyID n = FamilyID k \<Longrightarrow> same_login n k \<and> (Revoked n \<or> Revoked k)"
  shows "families_ok (f(x \<mapsto> k))"
  unfolding families_ok_def
proof (intro allI impI)
  fix t m u n
  assume a: "(f(x \<mapsto> k)) t = Some m \<and> (f(x \<mapsto> k)) u = Some n \<and> FamilyID m = FamilyID n"
  consider "t = x" "u = x" | "t = x" "u \<noteq> x" | "t \<noteq> x" "u = x" | "t \<noteq> x" "u \<noteq> x" by blast
  then show "same_login m n \<and> (\<not> Revoked m \<and> \<not> Revoked n \<longrightarrow> t = u)"
  proof cases
    case 2
    with a fits [of u n] same_login_sym [of n m] show ?thesis by auto
  next
    case 3
    with a fits [of t m] show ?thesis by auto
  next
    case 4
    with a have "f t = Some m" "f u = Some n" "FamilyID m = FamilyID n" by simp_all
    with assms(1) show ?thesis unfolding families_ok_def by blast
  qed (use a in auto)
qed

lemma families_ok_new: "families_ok f \<Longrightarrow> FamilyID m \<notin> FamilyID ` ran f \<Longrightarrow> families_ok (f(t \<mapsto> m))"
  by (rule families_ok_add) (blast, metis image_eqI ranI)

lemma families_ok_use: "families_ok f \<Longrightarrow> f t = Some m \<Longrightarrow> families_ok (f(t \<mapsto> m\<lparr>Revoked := True\<rparr>))"
  by (rule families_ok_add) (simp_all add: families_ok_def)

lemma families_ok_rotate:
  assumes "families_ok f" and "f t = Some m" and "\<not> Revoked m"
  shows "families_ok (f(t \<mapsto> m\<lparr>Revoked := True\<rparr>, u \<mapsto> m\<lparr>Revoked := False, RtExpiresAt := e\<rparr>))"
proof (rule families_ok_add [OF families_ok_use [OF assms(1,2)]])
  fix x n
  assume n: "(f(t \<mapsto> m\<lparr>Revoked := True\<rparr>)) x = Some n" "FamilyID n = FamilyID (m\<lparr>Revoked := False, RtExpiresAt := e\<rparr>)"
  show "same_login n (m\<lparr>Revoked := False, RtExpiresAt := e\<rparr>) \<and>
      (Revoked n \<or> Revoked (m\<lparr>Revoked := False, RtExpiresAt := e\<rparr>))"
  proof (cases "x = t")
    case False
    with n have "f x = Some n" "FamilyID n = FamilyID m" by simp_all
    with assms(1) have "same_login n m \<and> (\<not> Revoked n \<and> \<not> Revoked m \<longrightarrow> x = t)"
      using assms(2) unfolding families_ok_def by blast
    with False assms(3) show ?thesis by simp
  qed (use n in auto)
qed

lemma families_ok_step:
  "oauth_step marshal w v \<Longrightarrow> collided w \<or> families_ok (refreshMeta (srv w)) \<Longrightarrow>
     collided v \<or> families_ok (refreshMeta (srv v))"
proof (induction rule: oauth_step.induct)
  case (register w clientID uri)
  then show ?case by (simp add: RegisterClient_def)
next
  case (authorize clientID uri scope subject challenge m nonce random t w ac s)
  then show ?case by (auto simp: Authorize_Inr)
next
  case (exchange code clientID uri verifier ra f b now w resp s)
  from ExchangeCode_result [OF exchange.hyps] obtain ac where
      "refreshMeta s = (refreshMeta (srv w))(refresh_text b \<mapsto> new_refresh ac f (now 2))"
    using issue_tokens_result(4) by fastforce
  moreover have "FamilyID (new_refresh ac f (now 2)) = family_text f" by (simp add: new_refresh_def)
  ultimately have "families_ok (refreshMeta s)"
    if "families_ok (refreshMeta (srv w))" "\<not> family_taken (srv w) (family_text f)"
    using families_ok_new [of "refreshMeta (srv w)" "new_refresh ac f (now 2)" "refresh_text b"] that
    unfolding family_taken_def by metis
  with exchange.prems show ?case by auto
next
  case (exchange_fails code clientID uri verifier random now w e s)
  obtain ra rf rr where random: "random = (ra, rf, rr)" by (cases random)
  have "refreshMeta s = refreshMeta (srv w)"
    using ExchangeCode_result [OF exchange_fails.hyps [unfolded random]] issue_tokens_result(4) by fastforce
  with exchange_fails.prems show ?case by simp
next
  case (refresh tok clientID rr ra now w r s)
  from refresh.hyps show ?case
  proof (cases rule: RefreshGrant_result)
    case (rotate m mf)
    have "families_ok (refreshMeta s)"
      if "families_ok (refreshMeta (srv w))"
      using rotate(8) families_ok_use [OF that rotate(1)] families_ok_rotate [OF that rotate(1,2)]
      unfolding rotate(7) by metis
    with refresh.prems show ?thesis by auto
  qed (use refresh.prems in auto)
qed

definition oauth_ok :: "oauth \<Rightarrow> bool" where
  "oauth_ok w \<longleftrightarrow> codes_ok w \<and> tokens_ok w \<and> (collided w \<or> families_ok (refreshMeta (srv w)))"

interpretation logins: guarded_system "\<lambda>w. w = oauth_start issuer key" "oauth_step marshal" oauth_ok
  for issuer key marshal
proof unfold_locales
  show "w = oauth_start issuer key \<Longrightarrow> oauth_ok w" for w
    by (simp add: oauth_ok_def oauth_start_def codes_ok_def codes_known_def once_def tokens_ok_def access_ok_def refresh_ok_def families_ok_def
        NewAuthorizationServer_def)
  show "oauth_ok w \<Longrightarrow> oauth_step marshal w v \<Longrightarrow> oauth_ok v" for w v
    using codes_ok_step tokens_ok_step families_ok_step unfolding oauth_ok_def by blast
qed

text \<open>A revoked family and a used token stay what they are.\<close>

lemma Authorize_frame:
  "Authorize clientID uri scope subject challenge m nonce random t s = (r, s') \<Longrightarrow>
     refreshMeta s' = refreshMeta s \<and> revokedFams s' = revokedFams s"
  by (auto simp: Authorize_def Let_def split: if_splits option.splits)

lemma ExchangeCode_frame:
  assumes "ExchangeCode marshal code clientID uri verifier random now s = (r, s')"
  shows "revokedFams s' = revokedFams s \<and> (refreshMeta s' = refreshMeta s \<or>
    (\<exists>ra f b m. random = (ra, Some f, Some b) \<and> (\<exists>x. r = Inr x) \<and> refreshMeta s' = (refreshMeta s)(refresh_text b \<mapsto> m)))"
proof -
  obtain ra rf rr where random: "random = (ra, rf, rr)" by (cases random)
  from ExchangeCode_result [OF assms [unfolded random]] show ?thesis
  proof (elim disjE exE conjE)
    fix ac
    assume iss: "issue_tokens marshal ac (ra, rf, rr) now (s\<lparr>authCodes := (authCodes s)(code \<mapsto> ac\<lparr>Used := True\<rparr>)\<rparr>) = (r, s')"
    show ?thesis using issue_tokens_result(2) [OF iss] issue_tokens_result(4) [OF iss] random by auto
  qed simp
qed

definition used_token :: "bytes \<Rightarrow> bytes \<Rightarrow> (bytes \<rightharpoonup> RefreshTokenMeta) \<Rightarrow> bool" where
  "used_token t fam f \<longleftrightarrow> (\<exists>m. f t = Some m \<and> Revoked m \<and> FamilyID m = fam)"

lemma used_token_new: "used_token t fam f \<Longrightarrow> f x = None \<Longrightarrow> used_token t fam (f(x \<mapsto> m))"
  by (auto simp: used_token_def)

lemma used_token_use: "used_token t fam f \<Longrightarrow> f x = Some m \<Longrightarrow> used_token t fam (f(x \<mapsto> m\<lparr>Revoked := True\<rparr>))"
  by (auto simp: used_token_def)

lemma used_token_step:
  "oauth_step marshal w v \<Longrightarrow> collided w \<or> used_token t fam (refreshMeta (srv w)) \<Longrightarrow>
     collided v \<or> used_token t fam (refreshMeta (srv v))"
proof (induction rule: oauth_step.induct)
  case (register w clientID uri)
  then show ?case by (simp add: RegisterClient_def)
next
  case (authorize clientID uri scope subject challenge m nonce random x w ac s)
  then show ?case using Authorize_frame [OF authorize.hyps] by auto
next
  case (exchange code clientID uri verifier ra f b now w resp s)
  from ExchangeCode_frame [OF exchange.hyps] obtain m where
      "refreshMeta s = refreshMeta (srv w) \<or> refreshMeta s = (refreshMeta (srv w))(refresh_text b \<mapsto> m)" by auto
  then have "used_token t fam (refreshMeta s)"
    if "used_token t fam (refreshMeta (srv w))" "refreshMeta (srv w) (refresh_text b) = None"
    using that used_token_new by metis
  with exchange.prems show ?case by auto
next
  case (exchange_fails code clientID uri verifier random now w e s)
  then show ?case using ExchangeCode_frame [OF exchange_fails.hyps] by auto
next
  case (refresh tok clientID rr ra now w r s)
  from refresh.hyps show ?case
  proof (cases rule: RefreshGrant_result)
    case (rotate m mf)
    have "used_token t fam (refreshMeta s)"
      if u: "used_token t fam (refreshMeta (srv w))" and "\<nexists>b. rr = Some b \<and> refreshMeta (srv w) (refresh_text b) \<noteq> None"
    proof -
      have mf: "used_token t fam mf" unfolding rotate(7) by (rule used_token_use [OF u rotate(1)])
      from rotate(8) show ?thesis
      proof (elim disjE exE conjE)
        fix b e
        assume b: "rr = Some b" "refreshMeta s = mf(refresh_text b \<mapsto> m\<lparr>Revoked := False, RtExpiresAt := e\<rparr>)"
        with that rotate(1,7) have "mf (refresh_text b) = None" by auto
        with mf b(2) used_token_new show ?thesis by metis
      qed (simp only: mf)
    qed
    with refresh.prems show ?thesis
      by (cases "\<exists>b y. rr = Some b \<and> refreshMeta (srv w) (refresh_text b) = Some y") auto
  qed (use refresh.prems in auto)
qed

lemma revoked_step: "oauth_step marshal w v \<Longrightarrow> revokedFams (srv w) f \<Longrightarrow> revokedFams (srv v) f"
proof (induction rule: oauth_step.induct)
  case (refresh tok clientID rr ra now w r s)
  from refresh.hyps show ?case
    by (cases rule: RefreshGrant_result) (use refresh.prems in auto)
qed (auto simp: RegisterClient_def dest: Authorize_frame ExchangeCode_frame)

lemma collided_step: "oauth_step marshal w v \<Longrightarrow> collided w \<Longrightarrow> collided v"
  by (induction rule: oauth_step.induct) auto

lemma replay_revokes:
  "refreshMeta s t = Some m \<Longrightarrow> Revoked m \<Longrightarrow>
     \<exists>s'. RefreshGrant t cl rr ra now s = (Inl TokenReplayDetected, s') \<and> revokedFams s' (FamilyID m)"
  by (auto simp: RefreshGrant_def)

lemma revoked_refused:
  "refreshMeta s t = Some m \<Longrightarrow> revokedFams s (FamilyID m) \<Longrightarrow> RefreshGrant t cl rr ra now s = (Inl TokenReplayDetected, s)"
  by (simp add: RefreshGrant_def)

text \<open>A token that has been exchanged for a new one is used.\<close>

lemma refresh_uses:
  assumes "RefreshGrant t cl (Some b) ra now s = (Inr resp, s')" and "refresh_text b \<noteq> t"
  shows "\<exists>m. refreshMeta s' t = Some m \<and> Revoked m \<and> refreshMeta s' (RefreshToken resp) \<noteq> None"
  using assms by (auto simp: RefreshGrant_def Let_def split: option.splits if_splits)

section \<open>A login\<close>

definition demo_verifier :: bytes where "demo_verifier = replicate 43 97"

lemma demo_challenge: "VerifyChallenge demo_verifier demo_verifier plain_challenge = None"
  by (simp add: VerifyChallenge_def ComputeChallenge_def demo_verifier_def plain_challenge_def S256_def)

lemma demo_login:
  "\<exists>w m. reachable (\<lambda>w. w = oauth_start [] []) (oauth_step marshal) w \<and> \<not> collided w \<and> redeemed w \<noteq> [] \<and>
     refreshMeta (srv w) (refresh_text [1]) = Some m \<and> Revoked m"
proof -
  let ?r = "reachable (\<lambda>w. w = oauth_start [] []) (oauth_step marshal)"
  have "?r (oauth_start [] [])" by (rule reachable.start) simp
  from reachable.move [OF this oauth_step.register [of _ _ "[99]" "[117]"]]
  obtain w1 where 1: "?r w1" "Clients (srv w1) = [[99] \<mapsto> [117]]" "authCodes (srv w1) = Map.empty"
      "refreshMeta (srv w1) = Map.empty" "revokedFams (srv w1) = (\<lambda>_. False)" "\<not> collided w1" "redeemed w1 = []"
    by (auto simp: oauth_start_def RegisterClient_def NewAuthorizationServer_def)
  obtain ac s where a: "Authorize [99] [117] [] [] demo_verifier plain_challenge [] (Some [1]) 0 (srv w1) = (Inr ac, s)"
    using 1(2) by (auto simp: Authorize_def Let_def demo_verifier_def S256_def plain_challenge_def)
  from reachable.move [OF 1(1) oauth_step.authorize [OF a]] a 1(3-7)
  obtain w2 where 2: "?r w2" "authCodes (srv w2) (hex_text [1]) = Some ac" "refreshMeta (srv w2) = Map.empty"
      "revokedFams (srv w2) = (\<lambda>_. False)" "\<not> collided w2" "redeemed w2 = []"
    and ac: "ClientID ac = [99]" "RedirectURI ac = [117]" "CodeChallenge ac = demo_verifier"
      "CodeChallengeMethod ac = plain_challenge" "ExpiresAt ac = seconds 300" "\<not> Used ac" "Scope ac = []" "Subject ac = []"
    by (auto simp: Authorize_Inr)
  let ?e = "ExchangeCode marshal (hex_text [1]) [99] [117] demo_verifier (Some [1], Some [1], Some [1]) (\<lambda>_. 0) (srv w2)"
  have "fst ?e \<in> range Inr \<and> refreshMeta (snd ?e) = [refresh_text [1] \<mapsto> new_refresh ac [1] 0] \<and>
      revokedFams (snd ?e) = (\<lambda>_. False)"
    using 2(2-4) ac demo_challenge by (simp add: ExchangeCode_def issue_tokens_def Let_def seconds_def)
  then obtain resp s where e: "?e = (Inr resp, s)" "refreshMeta s = [refresh_text [1] \<mapsto> new_refresh ac [1] 0]"
      "revokedFams s = (\<lambda>_. False)" by (cases ?e) auto
  from reachable.move [OF 2(1) oauth_step.exchange [OF e(1)]] e(2,3) 2(3-5)
  obtain w3 where 3: "?r w3" "refreshMeta (srv w3) = [refresh_text [1] \<mapsto> new_refresh ac [1] 0]"
      "revokedFams (srv w3) = (\<lambda>_. False)" "\<not> collided w3" "redeemed w3 \<noteq> []"
    by (auto simp: family_taken_def)
  obtain x s where f: "RefreshGrant (refresh_text [1]) [99] (Some [2]) (Some [2]) (\<lambda>_. 0) (srv w3) = (x, s)" by fastforce
  have new: "refresh_text [2] \<noteq> refresh_text [1]" by (simp add: refresh_text_def hex_text_def)
  from f 3(2,3) ac new obtain m where "refreshMeta s (refresh_text [1]) = Some m" "Revoked m"
    by (auto simp: RefreshGrant_def new_refresh_def seconds_def)
  with reachable.move [OF 3(1) oauth_step.refresh [OF f]] 3(2,4,5) new show ?thesis by fastforce
qed

section \<open>Properties\<close>

text \<open>
  C11. Whatever clients and attackers call in whatever order: each successful exchange is for a code
  that was handed out for the same client and redirection, and its verifier meets the challenge
  of that code; no code is exchanged twice; and each access token is for the subject and the
  scope of some authorization. The second part assumes that no random text came up twice.
\<close>

theorem codes_redeemed_once:
  assumes "reachable (\<lambda>w. w = oauth_start issuer key) (oauth_step marshal) w"
  shows "(\<forall>x \<in> set (redeemed w). \<exists>ac \<in> set (authorized w). redeems ac x) \<and>
    (collided w \<or> distinct (map fst (redeemed w)) \<and> distinct (map Code (authorized w))) \<and>
    (\<forall>t m. tokens (srv w) t = Some m \<longrightarrow>
       (\<exists>ac \<in> set (authorized w). Subject ac = AtSubject m \<and> Scope ac = AtScope m))"
  using logins.reachable_inv [OF assms]
  by (auto simp: oauth_ok_def codes_ok_def once_def tokens_ok_def access_ok_def granted_def)

theorem codes_redeemed_once_witness:
  "\<exists>w :: oauth. redeemed w \<noteq> [] \<and> (\<forall>x \<in> set (redeemed w). \<exists>ac \<in> set (authorized w). redeems ac x) \<and> distinct (map fst (redeemed w))"
proof -
  obtain w where "reachable (\<lambda>w. w = oauth_start [] []) (oauth_step (\<lambda>_. [])) w" "\<not> collided w" "redeemed w \<noteq> []"
    using demo_login by blast
  with codes_redeemed_once [OF this(1)] show ?thesis by (intro exI [of _ w]) simp
qed



end
