(* ===== verification/OidcLogin.thy ===== *)
theory OidcLogin
  imports OAuth
begin

text \<open>
  Lab 31, \<open>pkg/oidc/oidc.go\<close>, the checking side, and \<open>pkg/client/client.go\<close>: the client that logs a
  user in. \<open>unmarshal\<close> is \<open>json.Unmarshal\<close> of claims; what the code relies on is that it reads back
  what \<open>json.Marshal\<close> wrote. Seconds since 1970 stay far below $2^{63}$.
\<close>

section \<open>Checking an ID token\<close>

datatype id_error =
  MalformedJWT | SignatureInvalid | IssuerMismatch | AudienceMismatch | IdTokenExpired | NonceMismatch | IssuedInFuture

definition check_claims :: "bytes \<Rightarrow> bytes \<Rightarrow> bytes \<Rightarrow> int \<Rightarrow> IDTokenClaims \<Rightarrow> (id_error, IDTokenClaims) res" where
  "check_claims issuer audience nonce now claims =
     (let unixNow = now div 10 ^ 9
      in if ClaimIssuer claims \<noteq> issuer then Inl IssuerMismatch
         else if Audience claims \<noteq> audience then Inl AudienceMismatch
         else if Expiration claims \<le> unixNow then Inl IdTokenExpired
         else if unixNow + 300 < IssuedAt claims then Inl IssuedInFuture
         else if nonce \<noteq> [] \<and> ClaimNonce claims \<noteq> nonce then Inl NonceMismatch
         else Inr claims)"

definition ParseAndVerifyIDToken ::
  "(bytes \<Rightarrow> IDTokenClaims option) \<Rightarrow> bytes \<Rightarrow> bytes \<Rightarrow> bytes \<Rightarrow> bytes \<Rightarrow> bytes \<Rightarrow> int \<Rightarrow> (id_error, IDTokenClaims) res" where
  "ParseAndVerifyIDToken unmarshal rawJWT key issuer audience nonce now =
     (case split_at 46 rawJWT of
        [header, payload, sigB64] \<Rightarrow>
          (case DecodeString sigB64 of
             None \<Rightarrow> Inl MalformedJWT
           | Some sig \<Rightarrow>
               if sig \<noteq> hmac_sha256 key (header @ 46 # payload) then Inl SignatureInvalid
               else (case DecodeString payload of
                   None \<Rightarrow> Inl MalformedJWT
                 | Some claimsBytes \<Rightarrow>
                     (case unmarshal claimsBytes of
                        None \<Rightarrow> Inl MalformedJWT
                      | Some claims \<Rightarrow> check_claims issuer audience nonce now claims)))
      | _ \<Rightarrow> Inl MalformedJWT)"

section \<open>The client\<close>

record OAuthClient =
  CID :: bytes
  CURI :: bytes
  ClientKey :: bytes
  Verifier :: bytes
  StateText :: bytes
  ClientNonce :: bytes
  ClientAccess :: bytes
  ClientRefresh :: bytes
  IDClaims :: "IDTokenClaims option"

datatype client_error = PairError pkce_error | ClientNotRandom | ServerError oauth_error | IDTokenInvalid id_error

definition NewClient :: "bytes \<Rightarrow> bytes \<Rightarrow> bytes \<Rightarrow> OAuthClient" where
  "NewClient clientID redirectURI key =
     \<lparr>CID = clientID, CURI = redirectURI, ClientKey = key, Verifier = [], StateText = [], ClientNonce = [],
      ClientAccess = [], ClientRefresh = [], IDClaims = None\<rparr>"

definition BuildAuthorizationRequest :: "draws \<Rightarrow> OAuthClient \<Rightarrow> (client_error, bytes) res \<times> OAuthClient" where
  "BuildAuthorizationRequest = (\<lambda>(rv, rs, rn) c.
     case GeneratePKCEPair S256 rv of
       Inl e \<Rightarrow> (Inl (PairError e), c)
     | Inr pair \<Rightarrow>
         (let c1 = c\<lparr>Verifier := CodeVerifier pair\<rparr>
          in case rs of
               None \<Rightarrow> (Inl ClientNotRandom, c1)
             | Some stateBytes \<Rightarrow>
                 (let c2 = c1\<lparr>StateText := hex_text stateBytes\<rparr>
                  in case rn of
                       None \<Rightarrow> (Inl ClientNotRandom, c2)
                     | Some nonceBytes \<Rightarrow> (Inr (PairChallenge pair), c2\<lparr>ClientNonce := hex_text nonceBytes\<rparr>))))"

definition ClientExchange ::
  "(IDTokenClaims \<Rightarrow> bytes) \<Rightarrow> (bytes \<Rightarrow> IDTokenClaims option) \<Rightarrow> bytes \<Rightarrow> draws \<Rightarrow> (nat \<Rightarrow> int) \<Rightarrow>
     OAuthClient \<Rightarrow> AuthorizationServer \<Rightarrow> (client_error, TokenResponse) res \<times> OAuthClient \<times> AuthorizationServer" where
  "ClientExchange marshal unmarshal code random now c s =
     (case ExchangeCode marshal code (CID c) (CURI c) (Verifier c) random now s of
        (Inl e, s1) \<Rightarrow> (Inl (ServerError e), c, s1)
      | (Inr resp, s1) \<Rightarrow>
          (let c1 = c\<lparr>ClientAccess := AccessToken resp, ClientRefresh := RefreshToken resp\<rparr>
           in if IDToken resp \<noteq> [] then
                (case ParseAndVerifyIDToken unmarshal (IDToken resp) (ClientKey c) (Issuer s1) (CID c) (ClientNonce c) (now 4) of
                   Inl e \<Rightarrow> (Inl (IDTokenInvalid e), c1, s1)
                 | Inr claims \<Rightarrow> (Inr resp, c1\<lparr>IDClaims := Some claims\<rparr>, s1))
              else (Inr resp, c1, s1)))"

definition RefreshTokens ::
  "bytes option \<Rightarrow> bytes option \<Rightarrow> (nat \<Rightarrow> int) \<Rightarrow> OAuthClient \<Rightarrow> AuthorizationServer \<Rightarrow>
     (client_error, TokenResponse) res \<times> OAuthClient \<times> AuthorizationServer" where
  "RefreshTokens rr ra now c s =
     (case RefreshGrant (ClientRefresh c) (CID c) rr ra now s of
        (Inl e, s1) \<Rightarrow> (Inl (ServerError e), c, s1)
      | (Inr resp, s1) \<Rightarrow> (Inr resp, c\<lparr>ClientAccess := AccessToken resp, ClientRefresh := RefreshToken resp\<rparr>, s1))"

section \<open>What signing and challenges give\<close>

lemma encoded_no_dot: "46 \<notin> set (EncodeToString s)"
  by (auto simp: EncodeToString_def b64_char_def split: if_splits)

lemma split_token: "split_at 46 (SignIDToken marshal claims key) =
    [EncodeToString jwt_header, EncodeToString (marshal claims),
     EncodeToString (hmac_sha256 key (EncodeToString jwt_header @ 46 # EncodeToString (marshal claims)))]"
  by (simp add: SignIDToken_def Let_def split_at_first split_at_none encoded_no_dot)

lemma Parse_Sign:
  assumes "is_bytes (marshal claims)" and "unmarshal (marshal claims) = Some claims"
  shows "ParseAndVerifyIDToken unmarshal (SignIDToken marshal claims key) k issuer audience nonce now =
    (if hmac_sha256 key (EncodeToString jwt_header @ 46 # EncodeToString (marshal claims)) \<noteq>
        hmac_sha256 k (EncodeToString jwt_header @ 46 # EncodeToString (marshal claims)) then Inl SignatureInvalid
     else check_claims issuer audience nonce now claims)"
proof -
  have "DecodeString (EncodeToString (hmac_sha256 key x)) = Some (hmac_sha256 key x)" for x
    by (rule decode_encode) (simp add: is_bytes_def hmac_bytes)
  then show ?thesis by (simp add: ParseAndVerifyIDToken_def split_token decode_encode assms)
qed

lemma generated_pair:
  assumes "length buf = 32"
  shows "GeneratePKCEPair S256 (Some buf) =
    Inr \<lparr>CodeVerifier = EncodeToString buf, PairChallenge = EncodeToString (sha256 (EncodeToString buf)), PairMethod = S256\<rparr>"
  using assms
  by (simp add: GeneratePKCEPair_def ComputeChallenge_def EncodeToString_def to_sextets_length Let_def)

lemma pair_verifies:
  "length buf = 32 \<Longrightarrow> VerifyChallenge (EncodeToString buf) (EncodeToString (sha256 (EncodeToString buf))) S256 = None"
  by (simp add: VerifyChallenge_def ComputeChallenge_def EncodeToString_def to_sextets_length)

lemma challenge_nonempty: "EncodeToString (sha256 x) \<noteq> []"
proof -
  have "sha256 x \<noteq> []" using sha256_length [of x] by auto
  then show ?thesis by (rule encode_nonempty)
qed

lemma request_built:
  "length rv = 32 \<Longrightarrow> BuildAuthorizationRequest (Some rv, Some rs, Some rn) c =
     (Inr (EncodeToString (sha256 (EncodeToString rv))),
      c\<lparr>Verifier := EncodeToString rv, StateText := hex_text rs, ClientNonce := hex_text rn\<rparr>)"
  by (simp add: BuildAuthorizationRequest_def generated_pair Let_def)

text \<open>The exchange of a code that is fresh and meets its challenge.\<close>

lemma exchange_succeeds:
  assumes "authCodes s code = Some ac" and "now 0 \<le> ExpiresAt ac" and "\<not> Used ac"
    and "VerifyChallenge v (CodeChallenge ac) (CodeChallengeMethod ac) = None"
  obtains resp s' where "ExchangeCode marshal code (ClientID ac) (RedirectURI ac) v (Some a, Some f, Some b) now s = (Inr resp, s')"
    and "AccessToken resp = access_text a" and "RefreshToken resp = refresh_text b"
    and "IDToken resp = (if containsOpenID (Scope ac) then SignIDToken marshal (id_claims s ac (now 3)) (SigningKey s) else [])"
    and "tokens s' (access_text a) = Some \<lparr>AtSubject = Subject ac, AtScope = Scope ac, AtExpiresAt = now 1 + seconds 3600\<rparr>"
    and "refreshMeta s' (refresh_text b) = Some (new_refresh ac f (now 2))"
    and "authCodes s' code = Some (ac\<lparr>Used := True\<rparr>)"
    and "revokedFams s' = revokedFams s" and "Issuer s' = Issuer s"
proof -
  let ?e = "ExchangeCode marshal code (ClientID ac) (RedirectURI ac) v (Some a, Some f, Some b) now s"
  obtain r s' where e: "?e = (r, s')" by fastforce
  from assms obtain resp where "r = Inr resp"
    using e by (auto simp: ExchangeCode_def issue_tokens_def Let_def)
  with e assms show thesis
    by (intro that [of resp s']) (auto simp: ExchangeCode_def issue_tokens_def Let_def id_claims_def)
qed

lemma refresh_succeeds:
  assumes "refreshMeta s t = Some m" and "\<not> Revoked m" and "\<not> revokedFams s (FamilyID m)" and "now 0 \<le> RtExpiresAt m"
  shows "\<exists>resp s'. RefreshGrant t (RtClientID m) (Some b) (Some a) now s = (Inr resp, s')"
  using assms by (simp add: RefreshGrant_def Let_def)

lemma claims_accepted:
  assumes "t0 \<le> t" and "t \<le> t0 + seconds 3599"
  shows "check_claims (Issuer s) (ClientID ac) (Nonce ac) t (id_claims s ac t0) = Inr (id_claims s ac t0)"
proof -
  have "t div 10 ^ 9 \<le> (t0 + 3599 * 10 ^ 9) div 10 ^ 9" using assms(2) by (intro zdiv_mono1) (simp_all add: seconds_def)
  moreover have "(t0 + k * 10 ^ 9) div 10 ^ 9 = t0 div 10 ^ 9 + k" for k :: int by simp
  moreover have "t0 div 10 ^ 9 \<le> t div 10 ^ 9" using assms(1) by (intro zdiv_mono1) simp_all
  ultimately show ?thesis by (simp add: check_claims_def id_claims_def seconds_def Let_def)
qed

section \<open>A login from end to end\<close>

text \<open>What the ID token of a login at the instant \<open>t\<close> is to say.\<close>

definition login_claims :: "AuthorizationServer \<Rightarrow> OAuthClient \<Rightarrow> bytes \<Rightarrow> bytes \<Rightarrow> int \<Rightarrow> IDTokenClaims" where
  "login_claims s c subject nonce t =
     \<lparr>ClaimIssuer = Issuer s, ClaimSubject = subject, Audience = CID c,
      Expiration = (t + seconds 3600) div 10 ^ 9, IssuedAt = t div 10 ^ 9, AuthTime = t div 10 ^ 9,
      ClaimNonce = nonce, AuthorizedParty = []\<rparr>"

text \<open>
  C14. A registered client that asks for a login, gets a code for the user and exchanges it in time
  ends up with an access token that is good for the user and the granted scope for an hour, a
  refresh token that can be exchanged for thirty days, and, when the scope asks for it, claims
  about this user and with its own nonce. The code is of no use any more.
\<close>

theorem login_succeeds:
  fixes s :: AuthorizationServer and c :: OAuthClient
  assumes claims: "claims = login_claims s c subject (hex_text rn) (now 3)"
    and "Clients s (CID c) = Some (CURI c)" and "ClientKey c = SigningKey s" and "length rv = 32"
    and "is_bytes (marshal claims)" and "unmarshal (marshal claims) = Some claims"
    and "now 0 \<le> t + seconds 300" and "now 3 \<le> now 4" and "now 4 \<le> now 3 + seconds 3599"
    and "\<not> revokedFams s (family_text f)"
  shows "\<exists>challenge c1 ac s1 resp c2 s2.
    BuildAuthorizationRequest (Some rv, Some rs, Some rn) c = (Inr challenge, c1) \<and>
    Authorize (CID c) (CURI c) scope subject challenge S256 (ClientNonce c1) (Some rc) t s = (Inr ac, s1) \<and>
    ClientExchange marshal unmarshal (Code ac) (Some a, Some f, Some b) now c1 s1 = (Inr resp, c2, s2) \<and>
    (u \<le> now 1 + seconds 3600 \<and> containsScope scope required \<longrightarrow>
       ValidateAccessToken (ClientAccess c2) required u s2 = Inr subject) \<and>
    (now' 0 \<le> now 2 + seconds (30 * 24 * 3600) \<longrightarrow>
       fst (RefreshTokens (Some b') (Some a') now' c2 s2) \<in> range Inr) \<and>
    IDClaims c2 = (if containsOpenID scope then Some claims else IDClaims c) \<and>
    (ExchangeCode marshal (Code ac) client uri v random now' s2 =
       (Inl (if t + seconds 300 < now' 0 then InvalidGrant else CodeAlreadyUsed), s2))"
proof -
  let ?v = "EncodeToString rv" let ?ch = "EncodeToString (sha256 (EncodeToString rv))"
  let ?c1 = "c\<lparr>Verifier := ?v, StateText := hex_text rs, ClientNonce := hex_text rn\<rparr>"
  let ?ac = "\<lparr>Code = hex_text rc, ClientID = CID c, RedirectURI = CURI c, Scope = scope, Subject = subject,
     CodeChallenge = ?ch, CodeChallengeMethod = S256, Nonce = hex_text rn, ExpiresAt = t + seconds 300, Used = False\<rparr>"
  let ?s1 = "s\<lparr>authCodes := (authCodes s)(hex_text rc \<mapsto> ?ac)\<rparr>"
  have built: "BuildAuthorizationRequest (Some rv, Some rs, Some rn) c = (Inr ?ch, ?c1)" by (rule request_built [OF assms(4)])
  have authorized: "Authorize (CID c) (CURI c) scope subject ?ch S256 (ClientNonce ?c1) (Some rc) t s = (Inr ?ac, ?s1)"
    using assms(2) by (simp add: Authorize_Inr challenge_nonempty)
  obtain resp s2 where e: "ExchangeCode marshal (Code ?ac) (CID c) (CURI c) ?v (Some a, Some f, Some b) now ?s1 = (Inr resp, s2)"
    and resp: "AccessToken resp = access_text a" "RefreshToken resp = refresh_text b"
      "IDToken resp = (if containsOpenID scope then SignIDToken marshal claims (SigningKey s) else [])"
    and s2: "tokens s2 (access_text a) = Some \<lparr>AtSubject = subject, AtScope = scope, AtExpiresAt = now 1 + seconds 3600\<rparr>"
      "refreshMeta s2 (refresh_text b) = Some (new_refresh ?ac f (now 2))" "authCodes s2 (Code ?ac) = Some (?ac\<lparr>Used := True\<rparr>)"
      "revokedFams s2 = revokedFams s" "Issuer s2 = Issuer s"
    by (rule exchange_succeeds [where s = ?s1 and code = "hex_text rc" and ac = ?ac and now = now and v = ?v
          and marshal = marshal and a = a and f = f and b = b])
      (use assms(7) pair_verifies [OF assms(4)] in \<open>simp_all add: id_claims_def claims login_claims_def\<close>)
  have "check_claims (Issuer s) (CID c) (hex_text rn) (now 4) claims = Inr claims"
    using claims_accepted [OF assms(8,9), of s ?ac] by (simp add: id_claims_def claims login_claims_def)
  then have parsed: "ParseAndVerifyIDToken unmarshal (SignIDToken marshal claims (SigningKey s)) (ClientKey c) (Issuer s) (CID c)
      (hex_text rn) (now 4) = Inr claims"
    using assms(3) Parse_Sign [of marshal claims unmarshal, OF assms(5,6)] by simp
  have signed: "SignIDToken marshal claims (SigningKey s) \<noteq> []" by (simp add: SignIDToken_def Let_def)
  obtain c2 where x: "ClientExchange marshal unmarshal (Code ?ac) (Some a, Some f, Some b) now ?c1 ?s1 = (Inr resp, c2, s2)"
    and c2: "ClientAccess c2 = access_text a" "ClientRefresh c2 = refresh_text b" "CID c2 = CID c"
      "IDClaims c2 = (if containsOpenID scope then Some claims else IDClaims c)"
    using e parsed signed resp s2(5) by (cases "containsOpenID scope") (auto simp: ClientExchange_def Let_def)
  have "ValidateAccessToken (ClientAccess c2) required u s2 = Inr subject"
    if "u \<le> now 1 + seconds 3600 \<and> containsScope scope required"
    using that s2(1) c2 by (simp add: ValidateAccessToken_def)
  moreover have "fst (RefreshTokens (Some b') (Some a') now' c2 s2) \<in> range Inr"
    if "now' 0 \<le> now 2 + seconds (30 * 24 * 3600)"
    using refresh_succeeds [OF s2(2), of now' b' a'] that s2(4) assms(10) c2
    by (auto simp: RefreshTokens_def new_refresh_def)
  moreover have "ExchangeCode marshal (Code ?ac) client uri v random now' s2 =
       (Inl (if t + seconds 300 < now' 0 then InvalidGrant else CodeAlreadyUsed), s2)"
    using s2(3) by (simp add: ExchangeCode_def)
  ultimately show ?thesis using built authorized x c2(4) by blast
qed

definition demo_server :: AuthorizationServer where
  "demo_server = RegisterClient [99] [117] (NewAuthorizationServer [105] [107])"

definition demo_client :: OAuthClient where "demo_client = NewClient [99] [117] [107]"

definition demo_claims :: IDTokenClaims where
  "demo_claims = login_claims demo_server demo_client [115] (hex_text [3]) 0"

theorem login_succeeds_witness:
  "\<exists>challenge c1 ac s1 resp c2 s2.
    BuildAuthorizationRequest (Some (replicate 32 7), Some [2], Some [3]) demo_client = (Inr challenge, c1) \<and>
    Authorize [99] [117] (map of_char ''openid'') [115] challenge S256 (ClientNonce c1) (Some [4]) 0 demo_server = (Inr ac, s1) \<and>
    ClientExchange (\<lambda>_. [123, 125]) (\<lambda>_. Some demo_claims) (Code ac) (Some [5], Some [6], Some [7]) (\<lambda>_. 0) c1 s1 =
      (Inr resp, c2, s2) \<and>
    ValidateAccessToken (ClientAccess c2) [] 0 s2 = Inr [115] \<and> IDClaims c2 = Some demo_claims"
proof -
  have openid: "containsOpenID (map of_char ''openid'')" "containsScope (map of_char ''openid'') []"
    by (simp_all add: containsOpenID_def containsScope_def splitSpaces_def)
  have client: "CID demo_client = [99]" "CURI demo_client = [117]" "ClientKey demo_client = SigningKey demo_server"
      "Clients demo_server (CID demo_client) = Some (CURI demo_client)" "\<not> revokedFams demo_server (family_text [6])"
    by (simp_all add: demo_client_def demo_server_def NewClient_def RegisterClient_def NewAuthorizationServer_def)
  have "length (replicate 32 (7 :: nat)) = 32" "is_bytes [123, 125]" "(0 :: int) \<le> 0 + seconds 300"
      "(0 :: int) \<le> 0 + seconds 3599" "(0 :: int) \<le> 0 + seconds 3600"
    by (simp_all add: seconds_def)
  from login_succeeds [where s = demo_server and c = demo_client and claims = demo_claims and subject = "[115]" and rn = "[3]"
        and now = "\<lambda>_. 0" and rv = "replicate 32 7" and marshal = "\<lambda>_. [123, 125]" and unmarshal = "\<lambda>_. Some demo_claims"
        and t = 0 and f = "[6]" and rs = "[2]" and scope = "map of_char ''openid''" and rc = "[4]" and a = "[5]" and b = "[7]"
        and u = 0 and required = "[]" and now' = "\<lambda>_. 0" and a' = "[]" and b' = "[]" and client = "[]" and uri = "[]" and v = "[]"
        and random = "(None, None, None)", OF demo_claims_def client(4,3) this(1,2) refl this(3) order.refl this(4) client(5)]
  show ?thesis
    unfolding client(1,2) using openid \<open>0 \<le> 0 + seconds 3600\<close> by (elim exE conjE) (intro exI conjI, assumption+, blast, simp only: if_True)
qed

section \<open>What is left out\<close>

text \<open>Revoking a family leaves the access tokens of its login as good as they were.\<close>

lemma revocation_spares_access:
  assumes "refreshMeta s t = Some m" and "Revoked m"
  shows "ValidateAccessToken x required u (snd (RefreshGrant t cl rr ra now s)) = ValidateAccessToken x required u s"
  using assms by (simp add: RefreshGrant_def ValidateAccessToken_def)

text \<open>
  A refresh that fails for want of random bytes has used its token up: the client's next attempt
  is taken for a replay.
\<close>

lemma failed_refresh_is_replay:
  assumes "RefreshGrant t cl None ra now s = (Inl NoRandomBytes, s')"
  shows "fst (RefreshGrant t cl rr ra' now' s') = Inl TokenReplayDetected"
  using assms by (auto simp: RefreshGrant_def Let_def split: option.splits if_splits)

text \<open>The client keeps the tokens of an answer whose ID token it refuses.\<close>

lemma tokens_kept:
  assumes "ClientExchange marshal unmarshal code random now c s = (Inl (IDTokenInvalid e), c', s')"
  shows "\<exists>resp. fst (ExchangeCode marshal code (CID c) (CURI c) (Verifier c) random now s) = Inr resp \<and>
    ClientAccess c' = AccessToken resp \<and> ClientRefresh c' = RefreshToken resp"
  using assms by (auto simp: ClientExchange_def Let_def split: sum.splits prod.splits if_splits)

text \<open>A required scope of blanks requires nothing.\<close>

lemma blank_scope: "set required \<subseteq> {32, 9} \<Longrightarrow> containsScope scope required"
proof -
  assume "set required \<subseteq> {32, 9}"
  then have "split_from [] required = []" by (induction required) auto
  then show ?thesis by (simp add: containsScope_def splitSpaces_def)
qed

end
