(* ===== verification/SlidingWindow.thy ===== *)
theory SlidingWindow
  imports Prelude "HOL-Library.Multiset"
begin

text \<open>
  Lab 24, \<open>internal/metrics/tracker.go\<close>: counts of good and bad events over a window that slides.
  Instants are nanoseconds since Go's zero time. Whether an event is good is decided before. A
  multiset of events is the specification.
\<close>

section \<open>The tracker\<close>

record Bucket =
  StartTime :: int
  TotalCount :: nat
  GoodCount :: nat
  BadCount :: nat

record WindowTracker =
  windowSize :: int
  bucketSize :: int
  buckets :: "Bucket list"

definition NewWindowTracker :: "int \<Rightarrow> int \<Rightarrow> WindowTracker" where
  "NewWindowTracker window bucket =
     \<lparr>windowSize = window, bucketSize = (if bucket \<le> 0 then 10 ^ 9 else bucket), buckets = []\<rparr>"

definition Truncate :: "int \<Rightarrow> int \<Rightarrow> int" where
  "Truncate t d = (if d \<le> 0 then t else t - t mod d)"

definition evictStale :: "int \<Rightarrow> WindowTracker \<Rightarrow> WindowTracker" where
  "evictStale now w = w\<lparr>buckets := dropWhile (\<lambda>b. StartTime b < now - windowSize w) (buckets w)\<rparr>"

definition bump :: "bool \<Rightarrow> Bucket \<Rightarrow> Bucket" where
  "bump good b =
     (let c = b\<lparr>TotalCount := TotalCount b + 1\<rparr>
      in if good then c\<lparr>GoodCount := GoodCount b + 1\<rparr> else c\<lparr>BadCount := BadCount b + 1\<rparr>)"

definition new_bucket :: "int \<Rightarrow> bool \<Rightarrow> Bucket" where
  "new_bucket start good =
     \<lparr>StartTime = start, TotalCount = 1, GoodCount = (if good then 1 else 0), BadCount = (if good then 0 else 1)\<rparr>"

text \<open>The loop over earlier buckets; past the last one the new bucket is appended.\<close>

fun record_earlier :: "int \<Rightarrow> bool \<Rightarrow> Bucket list \<Rightarrow> Bucket list" where
  "record_earlier start good [] = [new_bucket start good]"
| "record_earlier start good (b # bs) =
     (if StartTime b = start then bump good b # bs
      else if start < StartTime b then new_bucket start good # b # bs
      else b # record_earlier start good bs)"

definition RecordEvent :: "int \<Rightarrow> bool \<Rightarrow> WindowTracker \<Rightarrow> WindowTracker" where
  "RecordEvent timestamp good w =
     (let v = evictStale timestamp w; start = Truncate timestamp (bucketSize v); bs = buckets v
      in if bs \<noteq> [] \<and> StartTime (last bs) = start then v\<lparr>buckets := butlast bs @ [bump good (last bs)]\<rparr>
         else if bs \<noteq> [] \<and> start < StartTime (last bs) then v\<lparr>buckets := record_earlier start good bs\<rparr>
         else v\<lparr>buckets := bs @ [new_bucket start good]\<rparr>)"

definition WindowSummary :: "int \<Rightarrow> WindowTracker \<Rightarrow> (nat \<times> nat \<times> nat) \<times> WindowTracker" where
  "WindowSummary now w =
     (let v = evictStale now w
      in (fold (\<lambda>b (t, g, d). (t + TotalCount b, g + GoodCount b, d + BadCount b)) (buckets v) (0, 0, 0), v))"

section \<open>What the buckets stand for\<close>

type_synonym event = "int \<times> bool"

definition bucket_events :: "Bucket \<Rightarrow> event multiset" where
  "bucket_events b = replicate_mset (GoodCount b) (StartTime b, True) + replicate_mset (BadCount b) (StartTime b, False)"

definition contents :: "Bucket list \<Rightarrow> event multiset" where
  "contents bs = sum_list (map bucket_events bs)"

definition window_ok :: "Bucket list \<Rightarrow> bool" where
  "window_ok bs \<longleftrightarrow> sorted_wrt (<) (map StartTime bs) \<and> (\<forall>b \<in> set bs. TotalCount b = GoodCount b + BadCount b)"

text \<open>The specification: forget what is too old, then count.\<close>

definition keep :: "int \<Rightarrow> event multiset \<Rightarrow> event multiset" where
  "keep cutoff = filter_mset (\<lambda>(s, _). cutoff \<le> s)"

lemma contents_simps [simp]:
  "contents [] = {#}" "contents (b # bs) = bucket_events b + contents bs" "contents (bs @ cs) = contents bs + contents cs"
  by (simp_all add: contents_def)

lemma events_bump: "bucket_events (bump good b) = add_mset (StartTime b, good) (bucket_events b)"
  by (simp add: bucket_events_def bump_def Let_def)

lemma events_new: "bucket_events (new_bucket s good) = {#(s, good)#}"
  by (simp add: bucket_events_def new_bucket_def)

lemma events_start: "x \<in># bucket_events b \<Longrightarrow> fst x = StartTime b"
  by (auto simp: bucket_events_def split: if_splits)

lemma contents_start: "x \<in># contents bs \<Longrightarrow> fst x \<in> StartTime ` set bs"
  by (induction bs) (auto dest: events_start)

lemma bump_simps [simp]: "StartTime (bump good b) = StartTime b" "StartTime (new_bucket s good) = s"
  by (simp_all add: bump_def new_bucket_def Let_def)

lemma bump_counts: "TotalCount b = GoodCount b + BadCount b \<Longrightarrow> TotalCount (bump good b) = GoodCount (bump good b) + BadCount (bump good b)"
  by (simp add: bump_def Let_def)

lemma new_counts: "TotalCount (new_bucket s good) = GoodCount (new_bucket s good) + BadCount (new_bucket s good)"
  by (simp add: new_bucket_def)

lemma window_ok_Cons: "window_ok (b # bs) \<longleftrightarrow>
    window_ok bs \<and> TotalCount b = GoodCount b + BadCount b \<and> (\<forall>c \<in> set bs. StartTime b < StartTime c)"
  by (auto simp: window_ok_def)

lemma keep_all: "(\<And>x. x \<in># M \<Longrightarrow> c \<le> fst x) \<Longrightarrow> keep c M = M"
  unfolding keep_def by (rule filter_mset_eq_conv [THEN iffD2]) (auto split: prod.splits)

lemma keep_none: "(\<And>x. x \<in># M \<Longrightarrow> fst x < c) \<Longrightarrow> keep c M = {#}"
proof -
  assume old: "\<And>x. x \<in># M \<Longrightarrow> fst x < c"
  have "keep c M = filter_mset (\<lambda>_. False) M"
    unfolding keep_def by (intro filter_mset_cong refl) (use old in \<open>force split: prod.splits\<close>)
  then show "keep c M = {#}" by simp
qed

lemma evict_contents:
  "window_ok bs \<Longrightarrow> contents (dropWhile (\<lambda>b. StartTime b < c) bs) = keep c (contents bs) \<and>
     window_ok (dropWhile (\<lambda>b. StartTime b < c) bs)"
proof (induction bs)
  case (Cons b bs)
  show ?case
  proof (cases "StartTime b < c")
    case True
    with Cons keep_none [of "bucket_events b" c] events_start [of _ b] show ?thesis
      by (simp add: window_ok_Cons keep_def)
  next
    case False
    have "keep c (contents (b # bs)) = contents (b # bs)"
      using Cons.prems False contents_start [of _ "b # bs"] by (intro keep_all) (force simp: window_ok_Cons)
    with False Cons.prems show ?thesis by simp
  qed
qed (simp add: keep_def)

lemma earlier_contents:
  "window_ok bs \<Longrightarrow> contents (record_earlier s good bs) = add_mset (s, good) (contents bs) \<and>
     window_ok (record_earlier s good bs) \<and> StartTime ` set (record_earlier s good bs) = insert s (StartTime ` set bs)"
proof (induction bs)
  case Nil
  then show ?case by (simp add: events_new window_ok_def new_counts)
next
  case (Cons b bs)
  consider "StartTime b = s" | "s < StartTime b" | "StartTime b < s" by linarith
  then show ?case
  proof cases
    case 3
    have "StartTime b < StartTime c" if "c \<in> set (record_earlier s good bs)" for c
    proof -
      have "StartTime c \<in> insert s (StartTime ` set bs)" using that Cons by (auto simp: window_ok_Cons)
      with 3 Cons.prems show ?thesis by (auto simp: window_ok_Cons)
    qed
    with 3 Cons show ?thesis by (auto simp: window_ok_Cons)
  qed (use Cons.prems in \<open>auto simp: window_ok_Cons events_bump events_new bump_counts new_counts\<close>)
qed

text \<open>The newest bucket is looked at first; the loop alone would do the same.\<close>

lemma record_last: "window_ok bs \<Longrightarrow> bs \<noteq> [] \<Longrightarrow> StartTime (last bs) = s \<Longrightarrow>
    butlast bs @ [bump good (last bs)] = record_earlier s good bs"
proof (induction bs)
  case (Cons b bs)
  show ?case
  proof (cases "bs = []")
    case False
    with Cons.prems have "StartTime b < s" by (auto simp: window_ok_Cons)
    with Cons False show ?thesis by (auto simp: window_ok_Cons)
  qed (use Cons.prems in simp)
qed simp

lemma record_newest: "window_ok bs \<Longrightarrow> bs = [] \<or> StartTime (last bs) < s \<Longrightarrow> bs @ [new_bucket s good] = record_earlier s good bs"
proof (induction bs)
  case (Cons b bs)
  then have "bs = [] \<or> StartTime (last bs) < s" "StartTime b < s"
    by (auto simp: window_ok_Cons split: if_splits) (metis last_in_set order.strict_trans)
  with Cons show ?case by (auto simp: window_ok_Cons)
qed simp

lemma RecordEvent_eq:
  assumes "window_ok (buckets w)"
  shows "RecordEvent t good w =
    w\<lparr>buckets := record_earlier (Truncate t (bucketSize w)) good
       (dropWhile (\<lambda>b. StartTime b < t - windowSize w) (buckets w))\<rparr>"
proof -
  define bs where "bs = dropWhile (\<lambda>b. StartTime b < t - windowSize w) (buckets w)"
  let ?s = "Truncate t (bucketSize w)"
  have ok: "window_ok bs" using evict_contents [OF assms] by (simp add: bs_def)
  have e: "evictStale t w = w\<lparr>buckets := bs\<rparr>" by (simp add: evictStale_def bs_def)
  consider "bs \<noteq> []" "StartTime (last bs) = ?s" | "bs \<noteq> []" "?s < StartTime (last bs)"
    | "bs = [] \<or> StartTime (last bs) < ?s" by (metis linorder_cases)
  then have "RecordEvent t good w = w\<lparr>buckets := record_earlier ?s good bs\<rparr>"
  proof cases
    case 1
    with record_last [OF ok 1] show ?thesis by (simp add: RecordEvent_def Let_def e)
  next
    case 3
    with record_newest [OF ok 3] show ?thesis by (auto simp: RecordEvent_def Let_def e)
  qed (auto simp: RecordEvent_def Let_def e)
  then show ?thesis by (simp add: bs_def)
qed

section \<open>Properties\<close>

datatype window_op = RecordAt int bool | SummaryAt int

fun run_op :: "window_op \<Rightarrow> WindowTracker \<Rightarrow> WindowTracker" where
  "run_op (RecordAt t good) w = RecordEvent t good w"
| "run_op (SummaryAt now) w = snd (WindowSummary now w)"

text \<open>The specification of an operation, for a window and a bucket size.\<close>

fun spec_op :: "int \<Rightarrow> int \<Rightarrow> window_op \<Rightarrow> event multiset \<Rightarrow> event multiset" where
  "spec_op window bucket (RecordAt t good) M = add_mset (Truncate t bucket, good) (keep (t - window) M)"
| "spec_op window bucket (SummaryAt now) M = keep (now - window) M"

lemma run_op_spec:
  assumes "window_ok (buckets w)"
  shows "contents (buckets (run_op x w)) = spec_op (windowSize w) (bucketSize w) x (contents (buckets w)) \<and>
    window_ok (buckets (run_op x w)) \<and> windowSize (run_op x w) = windowSize w \<and> bucketSize (run_op x w) = bucketSize w"
proof (cases x)
  case (RecordAt t good)
  with evict_contents [OF assms] earlier_contents RecordEvent_eq [OF assms] show ?thesis by simp
next
  case (SummaryAt now)
  with evict_contents [OF assms] show ?thesis by (simp add: WindowSummary_def evictStale_def Let_def)
qed

lemma run_ops_spec:
  "window_ok (buckets w) \<Longrightarrow>
     contents (buckets (fold run_op xs w)) = fold (spec_op (windowSize w) (bucketSize w)) xs (contents (buckets w)) \<and>
     window_ok (buckets (fold run_op xs w)) \<and> windowSize (fold run_op xs w) = windowSize w"
proof (induction xs arbitrary: w)
  case (Cons x xs)
  with run_op_spec [OF Cons.prems, of x] show ?case by simp
qed simp

lemma filter_replicate: "filter_mset P (replicate_mset n x) = (if P x then replicate_mset n x else {#})"
  by (induction n) auto

lemma summary_sum:
  "\<forall>b \<in> set bs. TotalCount b = GoodCount b + BadCount b \<Longrightarrow>
     fold (\<lambda>b (t, g, d). (t + TotalCount b, g + GoodCount b, d + BadCount b)) bs (t, g, d) =
       (t + size (contents bs), g + size (filter_mset snd (contents bs)), d + size (filter_mset (Not \<circ> snd) (contents bs)))"
  by (induction bs arbitrary: t g d) (auto simp: bucket_events_def filter_replicate)

text \<open>
  C21. Whatever is recorded and asked for, in and out of order: the summary counts exactly the events
  that the specification keeps, where recording at an instant and asking at an instant each
  forget the events whose bucket begins more than a window earlier.
\<close>

theorem sliding_window_counts:
  "let start = NewWindowTracker window bucket;
       M = keep (now - window) (fold (spec_op window (bucketSize start)) xs {#})
   in fst (WindowSummary now (fold run_op xs start)) =
        (size M, size (filter_mset snd M), size (filter_mset (Not \<circ> snd) M))"
proof -
  define start where "start = NewWindowTracker window bucket"
  have start: "buckets start = []" "windowSize start = window" by (simp_all add: start_def NewWindowTracker_def)
  let ?w = "fold run_op xs start"
  have "contents (buckets ?w) = fold (spec_op window (bucketSize start)) xs {#}"
    and ok: "window_ok (buckets ?w)" and "windowSize ?w = window"
    using run_ops_spec [of start xs] start by (simp_all add: window_ok_def)
  with evict_contents [OF ok, of "now - window"] show ?thesis
    by (simp add: WindowSummary_def evictStale_def Let_def summary_sum window_ok_def start_def [symmetric])
qed

text \<open>When time goes forward, these are the events whose bucket begins inside the window.\<close>

fun op_time :: "window_op \<Rightarrow> int" where
  "op_time (RecordAt t good) = t"
| "op_time (SummaryAt now) = now"

lemma keep_keep: "c \<le> d \<Longrightarrow> keep d (keep c M) = keep d M"
  unfolding keep_def by (rule multiset_eqI) (auto simp: count_filter_mset split: prod.splits)

lemma keep_add: "keep c (add_mset x M) = (if c \<le> fst x then add_mset x (keep c M) else keep c M)"
  by (simp add: keep_def split: prod.splits)

lemma forward_counts:
  assumes "sorted_wrt (\<le>) (map op_time xs)" and "\<forall>x \<in> set xs. op_time x \<le> now"
  shows "keep (now - window) (fold (spec_op window bucket) xs M) =
    keep (now - window) (M + mset (concat (map (\<lambda>x. case x of RecordAt t good \<Rightarrow> [(Truncate t bucket, good)] | _ \<Rightarrow> []) xs)))"
  using assms
proof (induction xs arbitrary: M)
  case (Cons x xs)
  then have "op_time x - window \<le> now - window" by simp
  from keep_keep [OF this, of M] Cons show ?case
    by (cases x) (simp_all add: keep_add keep_def)
qed simp

text \<open>An event that claims to be from the future empties the window, and later ones start from nothing.\<close>

lemma future_event_forgets:
  assumes "\<forall>e \<in># M. fst e < t - window"
  shows "spec_op window bucket (RecordAt t good) M = {#(Truncate t bucket, good)#}"
  using assms by (simp add: keep_none)

end
