(* ===== verification/NPlusOne.thy ===== *)
theory NPlusOne
  imports Prelude
begin

text \<open>
  Lab 22, \<open>internal/blog\<close>: the store that counts its queries (\<open>store.go\<close>, \<open>models.go\<close>) and the two
  ways to read authors with their posts (\<open>repository.go\<close>). A query runs under the lock of the
  store; both readers are run by themselves. A \<open>nil\<close> slice is the empty list.
\<close>

section \<open>The store\<close>

record Author =
  AuthorKey :: int
  AuthorName :: string

record Post =
  PostKey :: int
  AuthorID :: int
  PostTitle :: string

record BlogStore =
  authors :: "Author list"
  posts :: "Post list"
  queryCount :: nat

definition GetAllAuthors :: "BlogStore \<Rightarrow> Author list \<times> BlogStore" where
  "GetAllAuthors s = (authors s, s\<lparr>queryCount := queryCount s + 1\<rparr>)"

definition GetPostsByAuthorID :: "int \<Rightarrow> BlogStore \<Rightarrow> Post list \<times> BlogStore" where
  "GetPostsByAuthorID i s = (filter (\<lambda>p. AuthorID p = i) (posts s), s\<lparr>queryCount := queryCount s + 1\<rparr>)"

definition GetPostsByAuthorIDs :: "int list \<Rightarrow> BlogStore \<Rightarrow> Post list \<times> BlogStore" where
  "GetPostsByAuthorIDs is s =
     (let idMap = fold (\<lambda>i m. m(i := True)) is (\<lambda>_. False)
      in (filter (\<lambda>p. idMap (AuthorID p)) (posts s), s\<lparr>queryCount := queryCount s + 1\<rparr>))"

section \<open>The repository\<close>

type_synonym author_with_posts = "Author \<times> Post list"

fun posts_of_each :: "Author list \<Rightarrow> BlogStore \<Rightarrow> author_with_posts list \<times> BlogStore" where
  "posts_of_each [] s = ([], s)"
| "posts_of_each (a # as') s =
     (let (ps, s1) = GetPostsByAuthorID (AuthorKey a) s; (rest, s2) = posts_of_each as' s1 in ((a, ps) # rest, s2))"

definition GetAuthorsWithPostsNPlusOne :: "BlogStore \<Rightarrow> author_with_posts list \<times> BlogStore" where
  "GetAuthorsWithPostsNPlusOne s =
     (let (as', s1) = GetAllAuthors s in if length as' = 0 then ([], s1) else posts_of_each as' s1)"

definition by_author :: "Post list \<Rightarrow> int \<Rightarrow> Post list" where
  "by_author ps = fold (\<lambda>p m. m(AuthorID p := m (AuthorID p) @ [p])) ps (\<lambda>_. [])"

definition GetAuthorsWithPostsEager :: "BlogStore \<Rightarrow> author_with_posts list \<times> BlogStore" where
  "GetAuthorsWithPostsEager s =
     (let (as', s1) = GetAllAuthors s
      in if length as' = 0 then ([], s1)
         else (let (ps, s2) = GetPostsByAuthorIDs (map AuthorKey as') s1; postsByAuthor = by_author ps
               in (map (\<lambda>a. (a, postsByAuthor (AuthorKey a))) as', s2)))"

section \<open>Both read the same\<close>

lemma posts_of_each_eq:
  "posts_of_each as' s =
     (map (\<lambda>a. (a, filter (\<lambda>p. AuthorID p = AuthorKey a) (posts s))) as', s\<lparr>queryCount := queryCount s + length as'\<rparr>)"
  by (induction as' arbitrary: s) (simp_all add: GetPostsByAuthorID_def Let_def split_def)

lemma by_author_eq: "by_author ps i = filter (\<lambda>p. AuthorID p = i) ps"
proof -
  have "fold (\<lambda>p m. m(AuthorID p := m (AuthorID p) @ [p])) ps f i = f i @ filter (\<lambda>p. AuthorID p = i) ps" for f
    by (induction ps arbitrary: f) auto
  then show ?thesis by (simp add: by_author_def)
qed

lemma id_map_eq: "fold (\<lambda>i m. m(i := True)) is f j \<longleftrightarrow> j \<in> set is \<or> f j"
  by (induction "is" arbitrary: f) auto

lemma eager_filter:
  "a \<in> set as' \<Longrightarrow> filter (\<lambda>p. AuthorID p \<in> AuthorKey ` set as' \<and> AuthorID p = AuthorKey a) ps =
     filter (\<lambda>p. AuthorID p = AuthorKey a) ps"
  by (induction ps) auto

text \<open>
  Eager loading returns what the loop of queries returns, author by author and post by post,
  whatever the store holds, repeated keys and authors without posts included; it takes two
  queries where the loop takes one more than there are authors, and neither changes anything else.
\<close>

lemma eager_equals_n_plus_one:
  "fst (GetAuthorsWithPostsEager s) = fst (GetAuthorsWithPostsNPlusOne s) \<and>
   snd (GetAuthorsWithPostsNPlusOne s) = s\<lparr>queryCount := queryCount s + 1 + length (authors s)\<rparr> \<and>
   snd (GetAuthorsWithPostsEager s) = s\<lparr>queryCount := queryCount s + (if authors s = [] then 1 else 2)\<rparr>"
  by (simp add: GetAuthorsWithPostsNPlusOne_def GetAuthorsWithPostsEager_def GetAllAuthors_def Let_def split_def
      GetPostsByAuthorIDs_def posts_of_each_eq by_author_eq id_map_eq eager_filter cong: map_cong)

end
