(* ===== verification/DrainWorker.thy ===== *)
theory DrainWorker
  imports Systems "HOL-Library.Multiset"
begin

text \<open>
  Lab 20, \<open>internal/worker/worker.go\<close>: workers that take jobs from a channel, and \<open>Stop\<close>, which closes
  the channel, waits for them, and cancels what is left when that takes too long. Every operation
  on the channel, the context or the list of completed jobs is one step. A second \<open>Stop\<close> closes a
  closed channel and panics; it is not a step.
\<close>

section \<open>The steps\<close>

text \<open>
  \<open>sending\<close> is the call of \<open>Enqueue\<close> that holds its mutex and waits for room; \<open>idle\<close> workers wait for
  a job, \<open>taken\<close> are jobs whose worker has yet to look at the context, \<open>exited\<close> counts the workers that
  have returned. Ghosts: \<open>accepted\<close> and \<open>abandoned\<close> jobs.
\<close>

record 'j drain =
  jobChan :: "'j list"
  closed :: bool
  sending :: "'j option"
  cancelled :: bool
  idle :: nat
  taken :: "'j list"
  running :: "'j list"
  completed :: "'j list"
  exited :: nat
  accepted :: "'j list"
  abandoned :: "'j list"

definition NewWorker :: "'j drain" where
  "NewWorker = \<lparr>jobChan = [], closed = False, sending = None, cancelled = False, idle = 0, taken = [], running = [],
     completed = [], exited = 0, accepted = [], abandoned = []\<rparr>"

text \<open>The workers as long as the context is not cancelled.\<close>

inductive job_step :: "'j drain \<Rightarrow> 'j drain \<Rightarrow> bool" where
  take_job: "0 < idle w \<Longrightarrow> jobChan w = j # q \<Longrightarrow>
    job_step w (w\<lparr>idle := idle w - 1, jobChan := q, taken := j # taken w\<rparr>)"
| no_more: "0 < idle w \<Longrightarrow> jobChan w = [] \<Longrightarrow> closed w \<Longrightarrow>
    job_step w (w\<lparr>idle := idle w - 1, exited := exited w + 1\<rparr>)"
| start_job: "j \<in> set (taken w) \<Longrightarrow> \<not> cancelled w \<Longrightarrow>
    job_step w (w\<lparr>taken := remove1 j (taken w), running := j # running w\<rparr>)"
| finish_job: "j \<in> set (running w) \<Longrightarrow>
    job_step w (w\<lparr>running := remove1 j (running w), completed := completed w @ [j], idle := idle w + 1\<rparr>)"

inductive drain_step :: "nat \<Rightarrow> 'j drain \<Rightarrow> 'j drain \<Rightarrow> bool" for bufferSize :: nat where
  work: "job_step w v \<Longrightarrow> drain_step bufferSize w v"
| start_worker: "drain_step bufferSize w (w\<lparr>idle := idle w + 1\<rparr>)"
| enqueue: "sending w = None \<Longrightarrow> \<not> closed w \<Longrightarrow> drain_step bufferSize w (w\<lparr>sending := Some j\<rparr>)"
| send: "sending w = Some j \<Longrightarrow> length (jobChan w) < bufferSize \<Longrightarrow>
    drain_step bufferSize w (w\<lparr>sending := None, jobChan := jobChan w @ [j], accepted := accepted w @ [j]\<rparr>)"
| hand_over: "sending w = Some j \<Longrightarrow> jobChan w = [] \<Longrightarrow> 0 < idle w \<Longrightarrow>
    drain_step bufferSize w (w\<lparr>sending := None, idle := idle w - 1, taken := j # taken w, accepted := accepted w @ [j]\<rparr>)"
| stop: "sending w = None \<Longrightarrow> \<not> closed w \<Longrightarrow> drain_step bufferSize w (w\<lparr>closed := True\<rparr>)"
| timeout: "closed w \<Longrightarrow> drain_step bufferSize w (w\<lparr>cancelled := True\<rparr>)"
| told: "0 < idle w \<Longrightarrow> cancelled w \<Longrightarrow>
    drain_step bufferSize w (w\<lparr>idle := idle w - 1, exited := exited w + 1\<rparr>)"
| drop_job: "j \<in> set (taken w) \<Longrightarrow> cancelled w \<Longrightarrow>
    drain_step bufferSize w (w\<lparr>taken := remove1 j (taken w), abandoned := j # abandoned w, exited := exited w + 1\<rparr>)"
| abort_job: "j \<in> set (running w) \<Longrightarrow> cancelled w \<Longrightarrow>
    drain_step bufferSize w (w\<lparr>running := remove1 j (running w), abandoned := j # abandoned w, exited := exited w + 1\<rparr>)"

section \<open>Where the jobs are\<close>

definition drain_ok :: "'j drain \<Rightarrow> bool" where
  "drain_ok w \<longleftrightarrow>
     mset (accepted w) = mset (jobChan w) + mset (taken w) + mset (running w) + mset (completed w) + mset (abandoned w) \<and>
     (closed w \<longrightarrow> sending w = None) \<and> (cancelled w \<longrightarrow> closed w) \<and>
     (\<not> cancelled w \<longrightarrow> abandoned w = [] \<and> (0 < exited w \<longrightarrow> closed w \<and> jobChan w = []))"

lemma work_ok: "job_step w v \<Longrightarrow> drain_ok w \<Longrightarrow> drain_ok v"
  by (induction rule: job_step.induct) (auto simp: drain_ok_def)

lemma drain_ok_step: "drain_step n w v \<Longrightarrow> drain_ok w \<Longrightarrow> drain_ok v"
  by (induction rule: drain_step.induct) (auto simp: work_ok, auto simp: drain_ok_def)

interpretation draining: guarded_system "\<lambda>w. w = NewWorker" "drain_step n" drain_ok for n
  by unfold_locales (auto simp: drain_ok_step, simp add: drain_ok_def NewWorker_def)

text \<open>After \<open>Stop\<close> and without a timeout, with a worker there: the workers finish every job.\<close>

definition stopping :: "'j drain \<Rightarrow> bool" where
  "stopping w \<longleftrightarrow> drain_ok w \<and> closed w \<and> \<not> cancelled w \<and>
     0 < idle w + length (taken w) + length (running w) + exited w"

definition jobs_left :: "'j drain \<Rightarrow> nat" where
  "jobs_left w = 4 * length (jobChan w) + 3 * length (taken w) + 2 * length (running w) + idle w"

definition all_done :: "'j drain \<Rightarrow> bool" where
  "all_done w \<longleftrightarrow> idle w = 0 \<and> taken w = [] \<and> running w = [] \<and> mset (completed w) = mset (accepted w)"

lemma work_stopping: "job_step w v \<Longrightarrow> stopping w \<Longrightarrow> stopping v"
proof (unfold stopping_def, intro conjI; elim conjE)
  assume s: "job_step w v" "0 < idle w + length (taken w) + length (running w) + exited w"
  then show "0 < idle v + length (taken v) + length (running v) + exited v"
    by (induction rule: job_step.induct) auto
qed (auto simp: work_ok elim: job_step.cases)

lemma remove1_Suc: "j \<in> set xs \<Longrightarrow> Suc (length (remove1 j xs)) = length xs"
  using length_pos_if_in_set [of j xs] by (simp add: length_remove1)

lemma work_uses: "job_step w v \<Longrightarrow> jobs_left v < jobs_left w"
  by (induction rule: job_step.induct) (auto simp: jobs_left_def dest!: remove1_Suc)

lemma work_settles:
  assumes "stopping w" and stuck: "\<And>v. \<not> job_step w v"
  shows "all_done w"
proof -
  have "taken w = []" "running w = []"
    using stuck job_step.start_job [of _ w] job_step.finish_job [of _ w] assms(1)
    by (auto simp: stopping_def) (metis list.set_sel(1))+
  moreover have "idle w = 0"
    using stuck job_step.take_job [of w] job_step.no_more [of w] assms(1)
    by (cases "jobChan w") (auto simp: stopping_def)
  ultimately show ?thesis using assms(1) by (auto simp: stopping_def drain_ok_def all_done_def)
qed

interpretation stopped: resting_system job_step stopping jobs_left all_done
  by unfold_locales (auto intro: work_stopping work_uses work_settles)

lemma graceful_stop:
  assumes "reachable (\<lambda>w. w = NewWorker) (drain_step n) w" and "closed w" and "\<not> cancelled w"
    and "0 < idle w + length (taken w) + length (running w) + exited w"
  shows "\<exists>v. run job_step w v \<and> all_done v \<and> accepted v = accepted w"
proof -
  have "stopping w" using draining.reachable_inv [OF assms(1)] assms(2-4) by (simp add: stopping_def)
  from stopped.comes_to_rest [OF this] obtain v where "run job_step w v" "all_done v" by blast
  moreover from this(1) have "accepted v = accepted w"
    by (rule run_invariant [of job_step w v "\<lambda>x. accepted x = accepted w"]) (auto elim: job_step.cases)
  ultimately show ?thesis by blast
qed

text \<open>Until the timeout no accepted job is lost, and one that is lost later was accepted.\<close>

lemma jobs_accounted:
  assumes "reachable (\<lambda>w. w = NewWorker) (drain_step n) w"
  shows "set (completed w) \<union> set (abandoned w) \<subseteq> set (accepted w) \<and> (\<not> cancelled w \<longrightarrow> abandoned w = [])"
proof -
  have ok: "drain_ok w" by (rule draining.reachable_inv [OF assms])
  then have "set (accepted w) = set_mset (mset (jobChan w) + mset (taken w) + mset (running w) + mset (completed w) + mset (abandoned w))"
    by (metis drain_ok_def set_mset_mset)
  with ok show ?thesis by (auto simp: drain_ok_def)
qed

text \<open>
  With no worker and a full channel, \<open>Enqueue\<close> keeps the mutex that \<open>Stop\<close> needs: nothing but the
  start of a worker can go on.
\<close>

lemma stop_blocked:
  assumes "sending w = Some j" and "bufferSize \<le> length (jobChan w)" and "idle w = 0" and "taken w = []" and "running w = []"
    and "\<not> closed w" and "\<not> cancelled w" and "drain_step bufferSize w v"
  shows "v = w\<lparr>idle := 1\<rparr>"
  using assms(8,1-7) by (induction rule: drain_step.induct) (auto elim: job_step.cases)

end
