(* ===== verification/Spec2Isabelle.thy ===== *)
theory Spec2Isabelle
  imports CircuitBreaker LeaderElection Saga BloomFilter Sharding Shrinker Intervals Amounts PubMains QualityGates Outbox Inventory Replicas Identifiers Partitions Transfers WriteBehind Revalidation ProtectedBank Routing EventHub JobQueue ServiceBreaker WsHandshake AdrLinter Chaos Choreography Migration Constraints ContractDiff OidcLogin SlidingWindow NPlusOne DrainWorker
begin

text \<open>
  \<^bold>\<open>A verification development for the software engineering lab.\<close>

  The repository is a series of labs. Each has a demonstration in Go under
  \<^verbatim>\<open>labs/<nn>-<topic>/internal\<close> and, for labs 16 to 40, a publication in Python under
  \<^verbatim>\<open>labs/<nn>-<topic>/result\<close>; lab 37 also has a generator with quality gates. This
  development models the Python programs completely and the core of twenty-four Go labs.

  \<^bold>\<open>The Python side.\<close>
  \<^item> \<open>PyCore\<close>: values, exceptions, calls with positional and keyword arguments, truth testing,
    subscripts. \<open>call_binding\<close> characterises the calls that Python accepts.
  \<^item> \<open>SlideDef\<close>: the five forms of \<open>add_slide\<close> in the files \<^verbatim>\<open>content_def.py\<close>. The locale
    \<open>slide_module\<close> states what a form promises and is interpreted for each of them.
    \<open>DeckContract\<close> says what a module promises to its readers and decides it from the calls.
  \<^item> \<open>Deck16\<close> to \<open>Deck40\<close>: one theory per file \<^verbatim>\<open>content_def.py\<close>, with each constant and each
    call of the file as a definition (\<open>lab16_slide_01\<close> is the first), and the module as their sequence.
    \<open>Publications\<close> collects the 25 modules.
  \<^item> \<open>PubMains\<close> and \<open>PyJson\<close>: the \<open>__main__\<close> blocks; lab 22 writes JSON.
  \<^item> \<open>PyText\<close>, \<open>PyMatch\<close>, \<open>PyFiles\<close>: UTF-8, words, searching, the patterns of the gates as
    functions, and the file system as a map from paths. An operation that raises is \<open>Inl\<close>.
  \<^item> \<open>Publish37\<close> and \<open>QualityGates\<close>: \<^verbatim>\<open>labs/37-cache-invalidation-strategies/generate_and_verify.py\<close>,
    its generators, gates and \<open>main\<close>. \<open>verdict_iff_ready\<close> refines the gates to a predicate on the
    artefacts; \<open>exit_status_0\<close> and \<open>missing_slide_no_verdict\<close> are the error behaviour.

  \<^bold>\<open>The Go side.\<close> Go's \<open>int64\<close> is an integer with its wrap-around written out (\<open>GoInt\<close>), \<open>uint64\<close>
  is a 64-bit word or a natural number modulo $2^{64}$, a text whose bytes matter is a list of
  them (\<open>GoText\<close>). A critical section, or a channel operation, is one step. A component is a
  state record, its operations and an inductive step relation, and its executions are all
  interleavings (\<open>Systems\<close>). The locale \<open>guarded_system\<close> turns an invariant into facts about
  reachable states and runs; each component interprets it. Its extension \<open>resting_system\<close> is for
  parts that work something off, and gives the results on liveness.
  \<^item> \<open>Migration\<close> (lab 13): the phone column that becomes a table: store, service and backfill, all
    interleaved. Ghosts record the two orders of events in which a phone can be lost.
  \<^item> \<open>CircuitBreaker\<close> (lab 14): \<^verbatim>\<open>circuit_breaker.go\<close> with any number of callers.
  \<^item> \<open>AdrLinter\<close> (lab 17): \<open>Validate\<close>, against a predicate on the records.
  \<^item> \<open>Transfers\<close> (lab 18): accounts with a lock each, naive and ordered transfers statement by
    statement, deadlines. Ordered transfers never deadlock, and each is applied once; what still
    deadlocks is \<open>remaining_deadlocks\<close>.
  \<^item> \<open>DrainWorker\<close> (lab 20): workers, and \<open>Stop\<close>, which lets them finish.
  \<^item> \<open>Outbox\<close> (lab 21): database, transactions, order service, broker, relays, consumer. No event is
    lost, and each is accepted once.
  \<^item> \<open>NPlusOne\<close> (lab 22): the two readers of authors and posts.
  \<^item> \<open>Inventory\<close> (lab 23): the four ways to deduct stock, side by side, and the retrying caller.
  \<^item> \<open>SlidingWindow\<close> (lab 24): the counts of events in a window, which refine a multiset of events.
  \<^item> \<open>JobQueue\<close> (lab 25): the bounded queue, its workers, and \<open>Stop\<close>.
  \<^item> \<open>ContractDiff\<close> (lab 26): the comparison of an expected with an actual body, and \<open>Verify\<close>.
  \<^item> \<open>Constraints\<close> (lab 27): the engine that checks constraints, its errors, the stores on it.
  \<^item> \<open>ServiceBreaker\<close> (lab 28): the breaker with calls in flight, and the store of responses.
  \<^item> \<open>Saga\<close> (lab 29): the orchestrator, the three services, the checkout. The locale
    \<open>reversible_steps\<close> says when a saga undoes what it did. \<open>Choreography\<close>: the bus of events, and
    the checkout as a choreography, which does what the orchestrator does.
  \<^item> \<open>LeaderElection\<close> (lab 30): lease coordinator, fenced storage, candidates.
  \<^item> \<open>OAuth\<close> (lab 31): proof keys and the authorization server, with any number of clients and
    attackers; ghosts record the codes handed out and redeemed. \<open>OidcLogin\<close>: ID tokens, the client,
    and a login from end to end.
  \<^item> \<open>Sharding\<close> (lab 32): both routers, as interpretations of the locale \<open>router\<close>, the cluster,
    and the query that asks every shard. \<open>Partitions\<close>: the table whose queries skip partitions.
    \<open>Identifiers\<close>: time-ordered identifiers, and numbers that allocators draw in blocks.
  \<^item> \<open>Replicas\<close> (lab 33): primary, replicas, log channels, reads with a token. Ghosts record
    the log and three hazards; without them reads see writes and replicas converge, and each
    hazard alone breaks it. \<open>Routing\<close>: the router's sessions, naive and sticky reads.
  \<^item> \<open>Chaos\<close> (lab 34): fault injector, monitor and one experiment around the calls of a service,
    and the breaker of the client.
  \<^item> \<open>EventHub\<close> (lab 35): server-sent events, their replay to clients that reconnect, and what a
    slow client loses. \<open>WsFrames\<close>: WebSocket frames, whose writer and reader interpret the locale
    \<open>framing\<close> for each direction, and the server's loop. \<open>WsHandshake\<close>: opening a connection.
  \<^item> \<open>Csrf\<close> (lab 36), over \<open>Base64\<close> and \<open>Sha256\<close>: signed tokens. \<open>ProtectedBank\<close>: the middleware
    that asks for them, the bank behind it, and requests for other origins. That signatures
    cannot be forged is the predicate \<open>unforged\<close> on requests.
  \<^item> \<open>CachePatterns\<close> (lab 37): the cache, cache-aside and write-through with any number of callers;
    the ghost \<open>raced\<close> marks the race that leaves stale entries. \<open>WriteBehind\<close>: the queue, its
    worker, and closing. \<open>Revalidation\<close>: stale-while-revalidate.
  \<^item> \<open>BloomFilter\<close> and \<open>Fnv\<close> (lab 39): the filter over words, as an interpretation of
    \<open>membership_filter\<close>, the segment store and the cache built on it.
  \<^item> \<open>Shrinker\<close>, \<open>Intervals\<close>, \<open>Amounts\<close> (lab 40): the shrinking loop, the merges, the amounts.

  \<^bold>\<open>Bounds and parameters.\<close> Loops of the sources are structural recursions or have a termination
  proof, except the retry loop of lab 23 and the shrinking search of lab 40, whose bounds are the
  code's own (\<open>maxRetries\<close>, the tries). Counters wrap around in the model; theorems on them
  assume that they have not: fewer than $2^{64}$ generations (lab 14) or writes (lab 33), fewer
  than $2^{63}$ grants (lab 30), optimistic commits (lab 23), numbers in blocks (lab 32) or events
  (lab 35). The identifiers of labs 13 and 27 and the counts of labs 24 and 34 are unbounded in the model, which
  is the code as long as they stay below $2^{63}$. Theorems on merges assume proper intervals. What lab 31 promises
  rests on random texts that do not come up twice; the ghost \<open>collided\<close> records when one has. Code that is not in the repository, and
  values it supplies, are parameters: the archive reader and folder sizes of the gates, the size
  formulas of the Bloom filter (they use \<open>float64\<close>), \<open>json.Marshal\<close> of an order, the fetcher of
  an allocator, random numbers, clocks, the comparison of an error rate with its threshold
  (lab 34), the longest slice that \<open>make\<close> gives (lab 35), the order in which goroutines report
  (lab 17), a provider's answers (lab 26), \<open>json.Marshal\<close> and \<open>json.Unmarshal\<close> of claims (lab 31), and the functions that callers hand over. Publications
  of events nest to a depth that is given; three is enough for the checkout, and a larger depth
  changes no result (\<open>Publish_more\<close>).

  \<^bold>\<open>Not modelled.\<close> The encoding of standard output; the order that \<open>sort.Slice\<close> gives equal
  elements; pauses and jitter; \<open>float64\<close> amounts and rates, and with them the rate limiters of
  lab 25, the error budgets and alerts of lab 24 and early expiration in lab 37; the false-positive rate of
  the filter; the middleware of lab 36 that compares with \<open>strings.EqualFold\<close>; the singleflight
  service of lab 37, which rests on another module; the parser of lab 17, which consists of regular
  expressions over Unicode text; the oldest labs, 01 to 12 and 93 to 99; failing writes to a WebSocket; the texts of constraint errors.
  The parts of labs that consist of calls to \<open>net/http\<close>, \<open>database/sql\<close> and goroutine
  plumbing, and the services over PostgreSQL, are left out: their logic is in code that is not
  in the repository.
\<close>

section \<open>The publication modules together\<close>



text \<open>
  The scripts of nine labs print their listing to the end: one line with the number
  of slides and one line for each of the 24; those of fourteen others print their one line,
  which states 24 slides.
\<close>

lemma listings_complete:
  "list_all (\<lambda>m. \<exists>ls. m = Inr ls \<and> length ls = 25)
     [lab16_main, lab17_main, lab18_main, lab19_main, lab20_main, lab23_main, lab25_main,
      lab26_main, lab27_main] \<and>
   list_all (\<lambda>(m, d). m = Inr [lit ''Loaded 24 slides for Lab '' @ lab_no d @ lit '': '' @ title_id d])
     [(lab21_main, lab21_deck), (lab24_main, lab24_deck), (lab29_main, lab29_deck),
      (lab30_main, lab30_deck), (lab31_main, lab31_deck), (lab32_main, lab32_deck),
      (lab33_main, lab33_deck), (lab34_main, lab34_deck), (lab37_main, lab37_deck),
      (lab38_main, lab38_deck), (lab39_main, lab39_deck), (lab40_main, lab40_deck)] \<and>
   list_all (\<lambda>(m, d). m = Inr [lit ''Loaded content_def for Lab '' @ lab_no d @ lit '': 24 slides defined.''])
     [(lab35_main, lab35_deck), (lab36_main, lab36_deck)]"
  by (simp add: all_listings all_reports main_count_line main_defined_line all_in_order)

text \<open>
  The JSON text of a value determines the value, whatever follows it: strings, lists and
  dictionaries written by \<open>json.dump\<close> with two blanks of indentation can be read in one way only.
\<close>

lemma json_unambiguous:
  assumes "json_dumps l v @ r = json_dumps l w @ s"
  shows "v = w \<and> r = s"
  by (rule json_dumps_unique [OF assms])

text \<open>
  Lab 22's script ends normally whenever its output folder exists and no folder stands at
  its output file; then \<open>content_def.json\<close> reads back as the JSON of its constants and its 24
  slides, that text is the JSON of nothing else, and no other file has changed.
\<close>

lemma lab22_json_saved:
  assumes "fs (butlast (path_names lab22_out_path)) = Some Folder"
    and "fs (path_names lab22_out_path) \<noteq> Some Folder"
  shows "\<exists>fs' out SLIDES. lab22_main fs = Inr (fs', out) \<and>
    load lab22_deck = Inr SLIDES \<and> length SLIDES = 24 \<and>
    read_text fs' (path_names lab22_out_path) = Inr (json_dumps 0 (lab22_payload SLIDES)) \<and>
    (read_text fs' (path_names lab22_out_path) = Inr (json_dumps 0 w) \<longrightarrow> w = lab22_payload SLIDES) \<and>
    (q \<noteq> path_names lab22_out_path \<longrightarrow> fs' q = fs q)"
proof -
  obtain fs' out where run: "lab22_main fs = Inr (fs', out)" using lab22_runs [OF assms(2,1)] by blast
  then show ?thesis
    using lab22_saved [OF run] lab22_load deck_length [OF lab22_in_order lab22_load] by blast
qed

end
